(* ===== verification/Prelude.thy ===== *)
theory Prelude
  imports Main "HOL-Library.Word"
begin

text \<open>
  Shared vocabulary of the development: the faults a C program can run into, the result type
  every modelled operation returns, bounds-checked access to a block of memory, the allocator,
  and the strings of the C library. The collections \<open>c_mem\<close> and \<open>c_res\<close>
  hold the facts about memory access and the inversions the component theories hand to the simplifier.
\<close>

named_theorems c_mem \<open>facts about bounds-checked memory access\<close>
named_theorems c_res \<open>inversion of sequenced results\<close>

subsection \<open>Faults and results\<close>

text \<open>
  A fault ends the modelled execution: the source's behaviour is undefined there (or an
  assertion aborts the process, or a loop makes no progress for ever). Error codes that the C
  functions return are ordinary values, not faults.
\<close>

datatype fault =
    OutOfBounds      \<comment> \<open>access outside a block of memory\<close>
  | NullDeref        \<comment> \<open>access through a null pointer\<close>
  | Overlap          \<comment> \<open>\<open>memcpy\<close> on overlapping regions\<close>
  | Uninit           \<comment> \<open>use of a variable that was never written\<close>
  | Unrepresentable  \<comment> \<open>a conversion whose value does not fit the target type\<close>
  | AssertFail       \<comment> \<open>\<open>LOCI_ASSERT\<close> calls \<open>abort\<close>\<close>
  | UseAfterFree     \<comment> \<open>access to an object that has been freed\<close>
  | Unreachable      \<comment> \<open>control reaches \<open>__builtin_unreachable\<close>\<close>
  | Diverges         \<comment> \<open>a loop iteration that leaves the state as it was\<close>

type_synonym 'a res = "fault + 'a"

definition bnd :: "'a res \<Rightarrow> ('a \<Rightarrow> 'b res) \<Rightarrow> 'b res" where
  "bnd m f = (case m of Inl e \<Rightarrow> Inl e | Inr x \<Rightarrow> f x)"

definition c_assert :: "bool \<Rightarrow> 'a res \<Rightarrow> 'a res" where
  "c_assert p m = (if p then m else Inl AssertFail)"

lemma bnd_simps [simp]: "bnd (Inl e) f = Inl e" "bnd (Inr x) f = f x"
  by (simp_all add: bnd_def)

lemma bnd_return [simp]: "bnd m Inr = m"
  by (cases m) simp_all

lemma bnd_cong [fundef_cong]:
  "m = m' \<Longrightarrow> (\<And>x. m' = Inr x \<Longrightarrow> f x = f' x) \<Longrightarrow> bnd m f = bnd m' f'"
  by (auto simp: bnd_def split: sum.splits)

lemma bnd_Inr [c_res]: "bnd m f = Inr y \<longleftrightarrow> (\<exists>x. m = Inr x \<and> f x = Inr y)"
  by (cases m) auto

lemma bnd_Inl [c_res]: "bnd m f = Inl e \<longleftrightarrow> m = Inl e \<or> (\<exists>x. m = Inr x \<and> f x = Inl e)"
  by (cases m) auto

lemma bnd_assoc: "bnd (bnd m f) g = bnd m (\<lambda>x. bnd (f x) g)"
  by (cases m) auto

lemma c_assert_simps [simp]: "c_assert True m = m" "c_assert False m = Inl AssertFail"
  by (simp_all add: c_assert_def)

lemma c_assert_Inr [c_res]: "c_assert p m = Inr x \<longleftrightarrow> p \<and> m = Inr x"
  by (simp add: c_assert_def)

lemma c_assert_Inl [c_res]:
  "c_assert p m = Inl e \<longleftrightarrow> (\<not> p \<and> e = AssertFail) \<or> (p \<and> m = Inl e)"
  by (auto simp: c_assert_def)

subsection \<open>Blocks of memory\<close>

text \<open>
  A block is the list of its elements, a pointer into it an \<open>int\<close> offset (C code steps
  pointers below the start of a block, so negative offsets occur). Reads and writes outside
  the block are faults.
\<close>

type_synonym byte = "8 word"

definition rd :: "'a list \<Rightarrow> int \<Rightarrow> 'a res" where
  "rd b p = (if 0 \<le> p \<and> p < int (length b) then Inr (b ! nat p) else Inl OutOfBounds)"

definition wr :: "'a list \<Rightarrow> int \<Rightarrow> 'a \<Rightarrow> 'a list res" where
  "wr b p x = (if 0 \<le> p \<and> p < int (length b) then Inr (b[nat p := x]) else Inl OutOfBounds)"

definition rd_block :: "'a list \<Rightarrow> int \<Rightarrow> nat \<Rightarrow> 'a list res" where
  "rd_block b p n =
     (if 0 \<le> p \<and> p + int n \<le> int (length b) then Inr (take n (drop (nat p) b))
      else Inl OutOfBounds)"

definition wr_block :: "'a list \<Rightarrow> int \<Rightarrow> 'a list \<Rightarrow> 'a list res" where
  "wr_block b p xs =
     (if 0 \<le> p \<and> p + int (length xs) \<le> int (length b)
      then Inr (take (nat p) b @ xs @ drop (nat p + length xs) b)
      else Inl OutOfBounds)"

lemma rd_Inr [c_res]: "rd b p = Inr x \<longleftrightarrow> 0 \<le> p \<and> p < int (length b) \<and> x = b ! nat p"
  by (auto simp: rd_def)

lemma rd_of_nat [c_mem]: "i < length b \<Longrightarrow> rd b (int i) = Inr (b ! i)"
  by (simp add: rd_def)

lemma rd_at [c_mem]: "p = int (length pre) \<Longrightarrow> rd (pre @ x # post) p = Inr x"
  by (simp add: rd_def)

lemma wr_at [c_mem]: "p = int (length pre) \<Longrightarrow> wr (pre @ x # post) p y = Inr (pre @ y # post)"
  by (simp add: wr_def list_update_append)

lemma rd_neg [c_mem]: "p < 0 \<Longrightarrow> rd b p = Inl OutOfBounds"
  by (simp add: rd_def)

lemma wr_Inr [c_res]:
  "wr b p x = Inr b' \<longleftrightarrow> 0 \<le> p \<and> p < int (length b) \<and> b' = b[nat p := x]"
  by (auto simp: wr_def)

lemma wr_of_nat [c_mem]: "i < length b \<Longrightarrow> wr b (int i) x = Inr (b[i := x])"
  by (simp add: wr_def)

lemma wr_length: "wr b p x = Inr b' \<Longrightarrow> length b' = length b"
  by (auto simp: wr_Inr)

lemma rd_block_Inr [c_res]:
  "rd_block b p n = Inr xs \<longleftrightarrow>
     0 \<le> p \<and> p + int n \<le> int (length b) \<and> xs = take n (drop (nat p) b)"
  by (auto simp: rd_block_def)

lemma rd_block_length: "rd_block b p n = Inr xs \<Longrightarrow> length xs = n"
  by (auto simp: rd_block_Inr)

lemma wr_block_Inr [c_res]:
  "wr_block b p xs = Inr b' \<longleftrightarrow>
     0 \<le> p \<and> p + int (length xs) \<le> int (length b) \<and>
     b' = take (nat p) b @ xs @ drop (nat p + length xs) b"
  by (auto simp: wr_block_def)

lemma wr_block_length: "wr_block b p xs = Inr b' \<Longrightarrow> length b' = length b"
  by (auto simp: wr_block_Inr)

lemma rd_block_wr_block_same:
  "wr_block b p xs = Inr b' \<Longrightarrow> rd_block b' p (length xs) = Inr xs"
  by (auto simp: wr_block_Inr rd_block_def)

lemma take_drop_splice:
  assumes "p + length xs \<le> length b" and "q + n \<le> p \<or> p + length xs \<le> q"
  shows "take n (drop q (take p b @ xs @ drop (p + length xs) b)) = take n (drop q b)"
proof -
  let ?c = "take p b @ xs @ drop (p + length xs) b"
  have nth: "?c ! i = b ! i" if "i < p \<or> p + length xs \<le> i" "i < length b" for i
    using that assms(1) by (auto simp: nth_append)
  have len: "length ?c = length b"
    using assms(1) by simp
  show ?thesis
  proof (rule nth_equalityI)
    show "length (take n (drop q ?c)) = length (take n (drop q b))"
      by (simp only: length_take length_drop len)
  next
    fix i
    assume "i < length (take n (drop q ?c))"
    then have "i < min (length b - q) n"
      by (simp only: length_take length_drop len)
    then have i: "i < n" "q + i < length b"
      by linarith+
    then have "?c ! (q + i) = b ! (q + i)"
      using assms(2) by (intro nth) auto
    moreover have "q \<le> length ?c" "q \<le> length b"
      using i len by simp_all
    ultimately show "take n (drop q ?c) ! i = take n (drop q b) ! i"
      using i by (simp only: nth_take nth_drop)
  qed
qed

lemma rd_block_wr_block_other:
  assumes "wr_block b p xs = Inr b'"
    and "q + int n \<le> p \<or> p + int (length xs) \<le> q"
  shows "rd_block b' q n = rd_block b q n"
proof (cases "0 \<le> q")
  case True
  have b': "b' = take (nat p) b @ xs @ drop (nat p + length xs) b"
    and p: "0 \<le> p" "p + int (length xs) \<le> int (length b)"
    using assms(1) by (auto simp: wr_block_Inr)
  have "take n (drop (nat q) b') = take n (drop (nat q) b)"
    unfolding b' using assms(2) p True by (intro take_drop_splice) auto
  then show ?thesis
    using wr_block_length [OF assms(1)] by (simp add: rd_block_def)
next
  case False
  then show ?thesis by (simp add: rd_block_def)
qed

subsection \<open>The allocator\<close>

text \<open>
  The outcome of one allocation request: whether it is granted and what the new memory
  happens to hold. Every operation that allocates takes the outcomes as arguments, so a
  theorem about it covers failing allocations and arbitrary initial contents.
\<close>

record 'a heap_reply =
  granted :: bool
  junk :: "nat \<Rightarrow> 'a"

definition malloc :: "'a heap_reply \<Rightarrow> nat \<Rightarrow> 'a list option" where
  "malloc h n = (if granted h then Some (map (junk h) [0..<n]) else None)"

definition realloc :: "'a heap_reply \<Rightarrow> 'a list \<Rightarrow> nat \<Rightarrow> 'a list option" where
  "realloc h b n =
     (if granted h then Some (take n b @ map (junk h) [length b..<n]) else None)"

lemma malloc_length [c_mem]: "malloc h n = Some b \<Longrightarrow> length b = n"
  by (auto simp: malloc_def split: if_splits)

lemma realloc_length [c_mem]: "realloc h b n = Some b' \<Longrightarrow> length b' = n"
  by (auto simp: realloc_def split: if_splits)

lemma realloc_take [c_mem]:
  "realloc h b n = Some b' \<Longrightarrow> k \<le> length b \<Longrightarrow> k \<le> n \<Longrightarrow> take k b' = take k b"
  by (auto simp: realloc_def min_def split: if_splits)

subsection \<open>Strings of the C library\<close>

abbreviation NUL :: char where
  "NUL \<equiv> CHR 0x00"

text \<open>
  \<open>c_string b p\<close> is the string a \<open>char *\<close> at offset \<open>p\<close> denotes: the characters up
  to the first NUL, which must lie inside the block.
\<close>

definition c_string :: "char list \<Rightarrow> int \<Rightarrow> string res" where
  "c_string b p =
     (if 0 \<le> p \<and> p < int (length b) \<and> NUL \<in> set (drop (nat p) b)
      then Inr (takeWhile (\<lambda>c. c \<noteq> NUL) (drop (nat p) b))
      else Inl OutOfBounds)"

lemma takeWhile_append_stop: "(\<forall>x\<in>set s. P x) \<Longrightarrow> \<not> P y \<Longrightarrow> takeWhile P (s @ y # t) = s"
  by (induction s) auto

lemma c_string_at:
  assumes "b = pre @ s @ NUL # post" and "p = int (length pre)" and "NUL \<notin> set s"
  shows "c_string b p = Inr s"
  using assms by (auto simp: c_string_def intro!: takeWhile_append_stop)

lemma c_string_no_NUL: "c_string b p = Inr s \<Longrightarrow> NUL \<notin> set s"
  by (auto simp: c_string_def split: if_splits dest: set_takeWhileD)

lemma c_string_split:
  assumes "c_string b p = Inr s"
  obtains pre post where "b = pre @ s @ NUL # post" "p = int (length pre)"
proof -
  let ?t = "drop (nat p) b"
  have p: "0 \<le> p" "p < int (length b)" "NUL \<in> set ?t" and s: "s = takeWhile (\<lambda>c. c \<noteq> NUL) ?t"
    using assms by (auto simp: c_string_def split: if_splits)
  obtain x post where d: "dropWhile (\<lambda>c. c \<noteq> NUL) ?t = x # post"
    using p(3) by (cases "dropWhile (\<lambda>c. c \<noteq> NUL) ?t") auto
  then have "x = NUL"
    using hd_dropWhile [of "\<lambda>c. c \<noteq> NUL" ?t] by simp
  then have "?t = s @ NUL # post"
    using d s by (metis takeWhile_dropWhile_id)
  then have "b = take (nat p) b @ s @ NUL # post"
    by (metis append_take_drop_id)
  then show thesis
    using that [of "take (nat p) b" post] p by simp
qed

definition is_digit :: "char \<Rightarrow> bool" where
  "is_digit c \<longleftrightarrow> c \<in> set ''0123456789''"

definition digit_val :: "char \<Rightarrow> int" where
  "digit_val c = of_char c - 48"

fun digits_val :: "int \<Rightarrow> string \<Rightarrow> int" where
  "digits_val acc [] = acc"
| "digits_val acc (c # cs) =
     (if is_digit c then digits_val (10 * acc + digit_val c) cs else acc)"

text \<open>
  \<open>atoi\<close>: leading white space, an optional sign, digits. A value outside the range of
  \<open>int\<close> is undefined behaviour (ISO C 7.22.1).
\<close>

definition is_space :: "char \<Rightarrow> bool" where
  "is_space c \<longleftrightarrow> c \<in> {CHR '' '', CHR 0x09, CHR 0x0A, CHR 0x0B, CHR 0x0C, CHR 0x0D}"

definition in_int_range :: "int \<Rightarrow> bool" where
  "in_int_range v \<longleftrightarrow> - (2 ^ 31) \<le> v \<and> v < 2 ^ 31"

definition atoi :: "string \<Rightarrow> int res" where
  "atoi s =
     (let t = dropWhile is_space s;
          v = (case t of
                 [] \<Rightarrow> 0
               | c # cs \<Rightarrow> if c = CHR ''-'' then - digits_val 0 cs
                          else if c = CHR ''+'' then digits_val 0 cs
                          else digits_val 0 t)
      in if in_int_range v then Inr v else Inl Unrepresentable)"

text \<open>\<open>strncmp(a, b, n) == 0\<close> and \<open>strchr(s, c) != NULL\<close> on strings without NUL.\<close>

definition strn_eq :: "string \<Rightarrow> string \<Rightarrow> nat \<Rightarrow> bool" where
  "strn_eq a b n \<longleftrightarrow> take n a = take n b"

definition str_has :: "string \<Rightarrow> char \<Rightarrow> bool" where
  "str_has s c \<longleftrightarrow> c \<in> set s"

end
