(* ===== verification/Args.thy ===== *)
theory Args
  imports Prelude
begin

text \<open>
  The argument parser of \<^verbatim>\<open>mproxy/src/args.c\<close>: it cuts a writable string such as
  \<open>p=10&r=3\<close> into name/value nodes in place. Names and string values are pointers into the
  buffer, so the parser returns the mutated buffer together with the nodes, and
  \<open>args_find\<close> reads the names out of the final buffer.
\<close>

subsection \<open>Classifying a value\<close>

fun is_int_loop :: "string \<Rightarrow> bool" where
  "is_int_loop [] = True"
| "is_int_loop (c # cs) = (if \<not> is_digit c then False else is_int_loop cs)"

definition is_int :: "string \<Rightarrow> bool" where
  "is_int v = (if v = [] then False else is_int_loop v)"

fun is_float_loop :: "int \<Rightarrow> string \<Rightarrow> int" where
  "is_float_loop dot_count [] = (if dot_count > 1 then -1 else dot_count)"
| "is_float_loop dot_count (c # cs) =
     (if c = CHR ''.'' then is_float_loop (dot_count + 1) cs
      else if \<not> is_digit c then -1 else is_float_loop dot_count cs)"

definition is_float :: "string \<Rightarrow> int" where
  "is_float v = (if v = [] then -1 else is_float_loop 0 v)"

text \<open>
  \<open>atof\<close> on a string of digits with one dot, stored into a \<open>float\<close>: the exact decimal
  \<open>n / d\<close> is rounded to 53 significant bits (\<open>double\<close>), then to 24 (\<open>float\<close>), to the
  nearest and ties to even. The value is kept as a fraction. (Values below the normal range
  keep more bits here than in the machine; only their integer part, zero, is ever used.)
\<close>

definition rnd_div :: "int \<Rightarrow> int \<Rightarrow> int" where
  "rnd_div n d =
     (let q = n div d; r = n mod d
      in if 2 * r < d \<or> (2 * r = d \<and> even q) then q else q + 1)"

function ilog2 :: "int \<Rightarrow> nat" where
  "ilog2 n = (if n < 2 then 0 else Suc (ilog2 (n div 2)))"
  by pat_completeness auto
termination
  by (relation "measure nat") auto

declare ilog2.simps [simp del]

definition round_sig :: "nat \<Rightarrow> int \<times> int \<Rightarrow> int \<times> int" where
  "round_sig p = (\<lambda>(n, d).
     if n = 0 then (0, 1)
     else if d \<le> n then
       (let e = ilog2 (n div d) in
        if p \<le> Suc e then (rnd_div n (d * 2 ^ (Suc e - p)) * 2 ^ (Suc e - p), 1)
        else (rnd_div (n * 2 ^ (p - Suc e)) d, 2 ^ (p - Suc e)))
     else
       (let q = (d - 1) div n + 1; k = (if q \<le> 1 then 0 else Suc (ilog2 (q - 1)))
        in (rnd_div (n * 2 ^ (p - 1 + k)) d, 2 ^ (p - 1 + k))))"

definition decimal :: "string \<Rightarrow> int \<times> int" where
  "decimal s =
     (digits_val 0 (filter is_digit s), 10 ^ length (tl (dropWhile (\<lambda>c. c \<noteq> CHR ''.'') s)))"

definition atof_float :: "string \<Rightarrow> (int \<times> int) res" where
  "atof_float s =
     (let (n, d) = round_sig 24 (round_sig 53 (decimal s))
      in if n < d * 2 ^ 128 then Inr (n, d) else Inl Unrepresentable)"

subsection \<open>Nodes\<close>

datatype arg_value =
    NoVal            \<comment> \<open>\<open>ARG_VALUE_TYPE_NOVAL\<close>\<close>
  | IntVal int       \<comment> \<open>\<open>ARG_VALUE_TYPE_INT\<close>\<close>
  | FloatVal int int \<comment> \<open>\<open>ARG_VALUE_TYPE_FLOAT\<close>, numerator and denominator\<close>
  | StrVal int       \<comment> \<open>\<open>ARG_VALUE_TYPE_STR\<close>, a pointer into the buffer\<close>

record arg_node =
  name_ptr :: int
  arg_val :: arg_value

definition classify_value :: "string \<Rightarrow> int \<Rightarrow> arg_value res" where
  "classify_value s p =
     (let type = is_float s in
      if type = 1 then bnd (atof_float s) (\<lambda>(n, d). Inr (FloatVal n d))
      else if type = 0 then bnd (atoi s) (\<lambda>i. Inr (IntVal i))
      else Inr (StrVal p))"

definition args_value :: "char list \<Rightarrow> int option \<Rightarrow> arg_value res" where
  "args_value b eq_pos =
     (case eq_pos of
        None \<Rightarrow> Inr NoVal
      | Some p \<Rightarrow> bnd (c_string b p) (\<lambda>s. classify_value s p))"

subsection \<open>Scanning\<close>

definition is_blank :: "char \<Rightarrow> bool" where
  "is_blank c \<longleftrightarrow> c = CHR '' '' \<or> c = CHR 0x09"

function skip_back :: "char list \<Rightarrow> int \<Rightarrow> int res" where
  "skip_back b p = bnd (rd b p) (\<lambda>c. if is_blank c then skip_back b (p - 1) else Inr p)"
  by pat_completeness auto
termination
  by (relation "measure (\<lambda>(b, p). nat (p + 1))") (auto simp: c_res)

function skip_blank :: "char list \<Rightarrow> int \<Rightarrow> int res" where
  "skip_blank b p = bnd (rd b p) (\<lambda>c. if is_blank c then skip_blank b (p + 1) else Inr p)"
  by pat_completeness auto
termination
  by (relation "measure (\<lambda>(b, p). nat (int (length b) - p))") (auto simp: c_res)

declare skip_back.simps [simp del] skip_blank.simps [simp del]

text \<open>Move back over blanks from \<open>b_pos\<close> and cut the string behind the first other character.\<close>

definition args_trim :: "char list \<Rightarrow> int \<Rightarrow> char list res" where
  "args_trim b b_pos = bnd (skip_back b b_pos) (\<lambda>q. wr b (q + 1) NUL)"

lemma skip_back_le: "skip_back b p = Inr q \<Longrightarrow> q \<le> p"
proof (induction b p rule: skip_back.induct)
  case (1 b p)
  from "1.prems" obtain c where "rd b p = Inr c"
    "if is_blank c then skip_back b (p - 1) = Inr q else q = p"
    by (subst (asm) skip_back.simps) (auto simp: bnd_Inr split: if_splits)
  with "1.IH" show ?case by (cases "is_blank c") auto
qed

lemma skip_blank_ge: "skip_blank b p = Inr q \<Longrightarrow> p \<le> q \<and> q < int (length b)"
proof (induction b p rule: skip_blank.induct)
  case (1 b p)
  from "1.prems" obtain c where "rd b p = Inr c"
    "if is_blank c then skip_blank b (p + 1) = Inr q else q = p"
    by (subst (asm) skip_blank.simps) (auto simp: bnd_Inr split: if_splits)
  with "1.IH" show ?case by (cases "is_blank c") (auto simp: c_res)
qed

lemma args_trim_length: "args_trim b e = Inr b' \<Longrightarrow> length b' = length b"
  by (auto simp: args_trim_def c_res)

lemma args_trim_keeps_NUL:
  "args_trim b e = Inr b' \<Longrightarrow> rd b p = Inr NUL \<Longrightarrow> rd b' p = Inr NUL"
  by (auto simp: args_trim_def c_res nth_list_update)

lemma skip_blank_stay: "rd b p = Inr c \<Longrightarrow> \<not> is_blank c \<Longrightarrow> skip_blank b p = Inr p"
  by (subst skip_blank.simps) simp

lemma skip_back_stay: "rd b p = Inr c \<Longrightarrow> \<not> is_blank c \<Longrightarrow> skip_back b p = Inr p"
  by (subst skip_back.simps) simp

subsection \<open>The parser\<close>

text \<open>
  One iteration of the \<open>while (1)\<close> loop per call. \<open>m k\<close> says whether the allocation of
  the \<open>k\<close>-th node succeeds; \<open>acc\<close> is the linked list built so far.
\<close>

function args_loop :: "(nat \<Rightarrow> bool) \<Rightarrow> char \<Rightarrow> char list \<Rightarrow> int \<Rightarrow> int \<Rightarrow> int option \<Rightarrow>
    arg_node list \<Rightarrow> (char list \<times> arg_node list) res" where
  "args_loop m delim b str name_pos eq_pos acc =
     bnd (rd b str) (\<lambda>c.
       if c = delim \<or> c = NUL then
         bnd (args_trim b (str - 1)) (\<lambda>b'.
         if \<not> m (length acc) then Inr (b', acc)
         else bnd (args_value b' eq_pos) (\<lambda>v.
              bnd (skip_blank b' (if c = delim then str + 1 else str)) (\<lambda>str'.
              bnd (rd b' str') (\<lambda>c'.
              if c' = NUL then Inr (b', acc @ [\<lparr>name_ptr = name_pos, arg_val = v\<rparr>])
              else args_loop m delim b' str' str' None
                     (acc @ [\<lparr>name_ptr = name_pos, arg_val = v\<rparr>])))))
       else if c = CHR ''='' then
         bnd (args_trim b (str - 1)) (\<lambda>b'.
         bnd (skip_blank b' (str + 1)) (\<lambda>str'.
         args_loop m delim b' (str' + 1) name_pos (Some str') acc))
       else args_loop m delim b (str + 1) name_pos eq_pos acc)"
  by pat_completeness auto
termination
proof (relation "measure (\<lambda>(m, delim, b, str, _). nat (int (length b) - str))", goal_cases)
  case (2 m delim b str name_pos eq_pos acc c b' v str' c')
  have len: "length b' = length b"
    using 2 by (simp add: args_trim_length)
  have "str < str'"
  proof (cases "c = delim")
    case True
    then show ?thesis
      using 2 skip_blank_ge by fastforce
  next
    case False
    then have "rd b str = Inr NUL"
      using 2 by simp
    then have nul: "rd b' str = Inr NUL"
      using 2 args_trim_keeps_NUL by blast
    then have "skip_blank b' str = Inr str"
      by (rule skip_blank_stay) (simp add: is_blank_def)
    then have "str' = str"
      using 2 False by simp
    then show ?thesis
      using 2 nul by simp
  qed
  moreover have "str < int (length b)"
    using 2 by (simp add: c_res)
  ultimately show ?case
    using len by simp
next
  case (3 m delim b str name_pos eq_pos acc c b' str')
  have "length b' = length b" "str + 1 \<le> str'" "str < int (length b)"
    using 3 skip_blank_ge by (auto simp: args_trim_length c_res)
  then show ?case by simp
qed (auto simp: c_res)

declare args_loop.simps [simp del]

definition args_parse ::
  "(nat \<Rightarrow> bool) \<Rightarrow> char list \<Rightarrow> int \<Rightarrow> char \<Rightarrow> (char list \<times> arg_node list) res" where
  "args_parse m b str delim = args_loop m delim b str str None []"

fun args_find :: "char list \<Rightarrow> arg_node list \<Rightarrow> string \<Rightarrow> arg_node option res" where
  "args_find b [] nm = Inr None"
| "args_find b (n # ns) nm =
     bnd (c_string b (name_ptr n)) (\<lambda>s. if s = nm then Inr (Some n) else args_find b ns nm)"

subsection \<open>Classification\<close>

lemma is_int_loop_all: "is_int_loop s \<longleftrightarrow> (\<forall>c\<in>set s. is_digit c)"
  by (induction s) auto

lemma is_float_loop_val:
  "is_float_loop d s =
     (if (\<forall>c\<in>set s. is_digit c \<or> c = CHR ''.'') \<and> d + int (count_list s (CHR ''.'')) \<le> 1
      then d + int (count_list s (CHR ''.'')) else -1)"
proof (induction s arbitrary: d)
  case Nil
  then show ?case by simp
next
  case (Cons c s)
  have "\<not> is_digit (CHR ''.'')"
    by (simp add: is_digit_def)
  then show ?case
    by (cases "c = CHR ''.''"; cases "is_digit c") (auto simp: Cons.IH)
qed

subsection \<open>Parsing what was printed\<close>

text \<open>
  The printer the parser is compared with: names and values joined by \<open>=\<close> and the
  delimiter. A text is plain when it has none of the characters the grammar reserves.
\<close>

fun print_args :: "char \<Rightarrow> (string \<times> string) list \<Rightarrow> string" where
  "print_args delim [] = []"
| "print_args delim [(k, v)] = k @ ''='' @ v"
| "print_args delim ((k, v) # ps) = k @ ''='' @ v @ [delim] @ print_args delim ps"

definition plain :: "char \<Rightarrow> string \<Rightarrow> bool" where
  "plain delim s \<longleftrightarrow> s \<noteq> [] \<and>
     (\<forall>c\<in>set s. c \<noteq> delim \<and> c \<noteq> NUL \<and> c \<noteq> CHR ''='' \<and> \<not> is_blank c)"

definition good_delim :: "char \<Rightarrow> bool" where
  "good_delim d \<longleftrightarrow> d \<noteq> NUL \<and> d \<noteq> CHR ''='' \<and> \<not> is_blank d"

text \<open>A decimal number that fits an \<open>int\<close>, and what kind of value a text is.\<close>

definition number :: "string \<Rightarrow> int \<Rightarrow> bool" where
  "number s n \<longleftrightarrow> s \<noteq> [] \<and> (\<forall>c\<in>set s. is_digit c) \<and> digits_val 0 s = n \<and> in_int_range n"

lemma digits_val_nonneg: "0 \<le> acc \<Longrightarrow> 0 \<le> digits_val acc s"
proof (induction s arbitrary: acc)
  case (Cons c s)
  have "is_digit c \<Longrightarrow> 0 \<le> digit_val c"
    by (auto simp: is_digit_def digit_val_def)
  then show ?case
    using Cons by simp
qed simp

lemma number_nonneg: "number s n \<Longrightarrow> 0 \<le> n"
  using digits_val_nonneg by (auto simp: number_def)

lemma digit_facts:
  "is_digit c \<Longrightarrow> c \<noteq> CHR ''.'' \<and> c \<noteq> CHR ''-'' \<and> c \<noteq> CHR ''+'' \<and> \<not> is_space c"
  by (auto simp: is_digit_def is_space_def)

lemma atoi_number: "number s n \<Longrightarrow> atoi s = Inr n"
  by (cases s) (auto simp: number_def atoi_def Let_def digit_facts)

definition value_of :: "string \<Rightarrow> int \<Rightarrow> arg_value \<Rightarrow> bool" where
  "value_of v p a =
     (let digits = \<forall>c\<in>set v. is_digit c \<or> c = CHR ''.''; dots = count_list v (CHR ''.'')
      in case a of
           NoVal \<Rightarrow> False
         | IntVal i \<Rightarrow> number v i
         | FloatVal n d \<Rightarrow> digits \<and> dots = 1 \<and> (n, d) = round_sig 24 (round_sig 53 (decimal v))
         | StrVal q \<Rightarrow> q = p \<and> (digits \<longrightarrow> 1 < dots))"

lemma is_float_cases:
  assumes "v \<noteq> []"
  shows "is_float v = (if (\<forall>c\<in>set v. is_digit c \<or> c = CHR ''.'') \<and> count_list v (CHR ''.'') \<le> 1
    then int (count_list v (CHR ''.'')) else -1)"
  using assms by (simp add: is_float_def is_float_loop_val)

lemma classify_value_of:
  assumes "classify_value v p = Inr a" and "v \<noteq> []"
  shows "value_of v p a"
proof -
  let ?all = "\<forall>c\<in>set v. is_digit c \<or> c = CHR ''.''" and ?n = "count_list v (CHR ''.'')"
  consider (int) "?all" "?n = 0" | (float) "?all" "?n = 1" | (str) "?all \<longrightarrow> 1 < ?n"
    by fastforce
  then show ?thesis
  proof cases
    case int
    then have d: "\<forall>c\<in>set v. is_digit c"
      by (auto simp: count_list_0_iff)
    then have "atoi v = (if in_int_range (digits_val 0 v) then Inr (digits_val 0 v) else Inl Unrepresentable)"
      using assms(2) by (cases v) (auto simp: atoi_def Let_def digit_facts)
    then show ?thesis
      using assms int d is_float_cases [OF assms(2)]
      by (auto simp: classify_value_def value_of_def number_def bnd_Inr split: if_splits)
  next
    case float
    then show ?thesis
      using assms is_float_cases [OF assms(2)]
      by (auto simp: classify_value_def value_of_def atof_float_def Let_def bnd_Inr split: if_splits prod.splits)
  next
    case str
    then have "is_float v = -1"
      using is_float_cases [OF assms(2)] by auto
    then show ?thesis
      using assms(1) str by (auto simp: classify_value_def value_of_def)
  qed
qed

lemma value_of_number:
  assumes "value_of s p a" and "number s n"
  shows "a = IntVal n"
proof -
  have "count_list s (CHR ''.'') = 0"
    using assms(2) digit_facts by (auto simp: number_def count_list_0_iff)
  then show ?thesis
    using assms by (cases a) (auto simp: value_of_def Let_def number_def)
qed

text \<open>The node's name and value, read in buffer \<open>b\<close>, are \<open>k\<close> and the value of \<open>v\<close>.\<close>

definition node_denotes :: "char list \<Rightarrow> arg_node \<Rightarrow> string \<times> string \<Rightarrow> bool" where
  "node_denotes b n = (\<lambda>(k, v). c_string b (name_ptr n) = Inr k \<and>
     (\<exists>p. c_string b p = Inr v \<and> value_of v p (arg_val n)))"

definition classifiable :: "string \<Rightarrow> bool" where
  "classifiable v \<longleftrightarrow> classify_value v 0 \<noteq> Inl Unrepresentable"

lemma classifiable_Inr:
  assumes "classifiable v"
  obtains a where "classify_value v p = Inr a"
proof -
  have "classify_value v 0 = Inl Unrepresentable" if "\<nexists>a. classify_value v p = Inr a"
    using that
    by (auto simp: classify_value_def Let_def atof_float_def atoi_def split: if_splits prod.splits)
  with assms that show thesis
    by (auto simp: classifiable_def)
qed

lemma args_loop_scan:
  assumes "\<forall>c\<in>set s. c \<noteq> delim \<and> c \<noteq> NUL \<and> c \<noteq> CHR ''=''" and "p = int (length pre)"
  shows "args_loop m delim (pre @ s @ rest) p nm eq acc =
         args_loop m delim (pre @ s @ rest) (p + int (length s)) nm eq acc"
  using assms
proof (induction s arbitrary: pre p)
  case Nil
  then show ?case by simp
next
  case (Cons c cs)
  have "args_loop m delim (pre @ (c # cs) @ rest) p nm eq acc =
        args_loop m delim ((pre @ [c]) @ cs @ rest) (p + 1) nm eq acc"
    using Cons.prems by (subst args_loop.simps) (simp add: rd_at)
  also have "\<dots> = args_loop m delim ((pre @ [c]) @ cs @ rest) (p + 1 + int (length cs)) nm eq acc"
    using Cons.prems by (intro Cons.IH) simp_all
  finally show ?case
    by (simp add: algebra_simps)
qed

lemma args_trim_at:
  assumes "\<not> is_blank (last s)" and "s \<noteq> []" and "p = int (length (pre @ s))"
  shows "args_trim (pre @ s @ c # rest) (p - 1) = Inr (pre @ s @ NUL # rest)"
proof -
  obtain t x where s: "s = t @ [x]"
    using assms(2) by (metis rev_exhaust)
  have "skip_back (pre @ s @ c # rest) (p - 1) = Inr (p - 1)"
    using assms s rd_at [of "p - 1" "pre @ t" x "c # rest"] by (intro skip_back_stay) simp_all
  moreover have "wr (pre @ s @ c # rest) p NUL = Inr (pre @ s @ NUL # rest)"
    using wr_at [of p "pre @ s" c rest NUL] assms(3) by simp
  ultimately show ?thesis
    by (simp add: args_trim_def)
qed

text \<open>One pair: from the start of its name to the character that ends its value.\<close>

lemma args_loop_pair:
  assumes k: "plain delim k" and v: "plain delim v" and d: "good_delim delim"
    and p: "p = int (length pre)"
  shows "args_loop m delim (pre @ k @ ''='' @ v @ rest) p nm None acc =
         args_loop m delim (pre @ k @ [NUL] @ v @ rest) (p + int (length k) + 1 + int (length v))
           nm (Some (p + int (length k) + 1)) acc"
proof -
  let ?q = "p + int (length k)"
  let ?b = "pre @ k @ [NUL] @ v @ rest"
  obtain y ys where v': "v = y # ys" "\<not> is_blank y"
    using v by (cases v) (auto simp: plain_def)
  have "last k \<in> set k" "k \<noteq> []"
    using k by (auto simp: plain_def)
  then have nb: "\<not> is_blank (last k)"
    using k by (simp add: plain_def)
  have "args_loop m delim (pre @ k @ ''='' @ v @ rest) p nm None acc =
        args_loop m delim (pre @ k @ ''='' @ v @ rest) ?q nm None acc"
    using args_loop_scan [of k delim p pre m "''='' @ v @ rest"] k p by (simp add: plain_def)
  also have "\<dots> = args_loop m delim ?b (?q + 2) nm (Some (?q + 1)) acc"
  proof -
    have "rd (pre @ k @ ''='' @ v @ rest) ?q = Inr (CHR ''='')"
      using rd_at [of ?q "pre @ k"] p by simp
    moreover have "args_trim (pre @ k @ ''='' @ v @ rest) (?q - 1) = Inr ?b"
      using args_trim_at [OF nb \<open>k \<noteq> []\<close>, of ?q pre] p by simp
    moreover have "skip_blank ?b (?q + 1) = Inr (?q + 1)"
      using rd_at [of "?q + 1" "pre @ k @ [NUL]" y "ys @ rest"] p v'
      by (intro skip_blank_stay) simp_all
    moreover have "CHR ''='' \<noteq> delim"
      using d by (auto simp: good_delim_def)
    ultimately show ?thesis
      by (subst args_loop.simps) (simp add: add.assoc)
  qed
  also have "\<dots> = args_loop m delim ?b (?q + 2 + int (length ys)) nm (Some (?q + 1)) acc"
    using args_loop_scan [of ys delim "?q + 2" "pre @ k @ [NUL, y]" m rest] v v' p
    by (simp add: plain_def)
  finally show ?thesis
    using v' by (simp add: add.assoc)
qed

lemma node_denotes_intro:
  assumes "b = pre @ k @ [NUL] @ v @ NUL # post" and "NUL \<notin> set k" and "NUL \<notin> set v"
    and "p = int (length pre)" and "classify_value v (p + int (length k) + 1) = Inr a" and "v \<noteq> []"
  shows "node_denotes b \<lparr>name_ptr = p, arg_val = a\<rparr> (k, v)"
proof -
  have "c_string b p = Inr k"
    using assms by (intro c_string_at [of b pre k "v @ NUL # post"]) simp_all
  moreover have "c_string b (p + int (length k) + 1) = Inr v"
    using assms by (intro c_string_at [of b "pre @ k @ [NUL]" v post]) simp_all
  ultimately show ?thesis
    using classify_value_of [OF assms(5,6)] by (auto simp: node_denotes_def)
qed

lemma print_args_start:
  assumes "ps \<noteq> []" and "\<forall>(k, v)\<in>set ps. plain delim k"
  obtains y ys where "print_args delim ps = y # ys" "\<not> is_blank y" "y \<noteq> NUL"
proof -
  obtain k v ps' where ps: "ps = (k, v) # ps'"
    using assms(1) by (cases ps) auto
  then obtain y ys where "k = y # ys" "\<not> is_blank y" "y \<noteq> NUL"
    using assms(2) by (cases k) (auto simp: plain_def)
  then show thesis
    using that ps by (cases ps') auto
qed

lemma args_loop_print:
  assumes "good_delim delim" and "\<And>k. m k" and "ps \<noteq> []"
    and "\<forall>(k, v)\<in>set ps. plain delim k \<and> plain delim v \<and> classifiable v"
  shows "\<exists>tl ns. args_loop m delim (pre @ print_args delim ps @ NUL # post) (int (length pre))
             (int (length pre)) None acc = Inr (pre @ tl @ NUL # post, acc @ ns) \<and>
           length tl = length (print_args delim ps) \<and>
           list_all2 (node_denotes (pre @ tl @ NUL # post)) ns ps"
  using assms(3,4)
proof (induction ps arbitrary: pre acc)
  case Nil
  then show ?case by simp
next
  case (Cons kv ps)
  obtain k v where kv: "kv = (k, v)"
    by (cases kv)
  let ?p = "int (length pre)" and ?e = "int (length pre) + int (length k) + 1 + int (length v)"
  have pl: "plain delim k" "plain delim v" "classifiable v"
    and rest: "\<forall>(k, v)\<in>set ps. plain delim k \<and> plain delim v \<and> classifiable v"
    using Cons.prems kv by auto
  have nn: "NUL \<notin> set k" "NUL \<notin> set v" "v \<noteq> []" "\<not> is_blank (last v)"
    using pl by (auto simp: plain_def)
  obtain a where a: "classify_value v (?p + int (length k) + 1) = Inr a"
    using classifiable_Inr [OF pl(3)] by blast
  let ?n = "\<lparr>name_ptr = ?p, arg_val = a\<rparr>"
  have trim: "args_trim (pre @ k @ [NUL] @ v @ c # r) (?e - 1) = Inr (pre @ k @ [NUL] @ v @ NUL # r)"
    for c r
    using args_trim_at [OF nn(4,3), of ?e "pre @ k @ [NUL]" c r] by simp
  have val: "args_value (pre @ k @ [NUL] @ v @ NUL # r) (Some (?p + int (length k) + 1)) = Inr a"
    for r
    using c_string_at [of _ "pre @ k @ [NUL]" v r "?p + int (length k) + 1"] nn a
    by (simp add: args_value_def)
  note go = args_loop_pair [OF pl(1,2) assms(1) refl, of m]
  show ?case
  proof (cases ps)
    case Nil
    have "args_loop m delim (pre @ k @ [NUL] @ v @ NUL # post) ?e ?p (Some (?p + int (length k) + 1)) acc
        = Inr (pre @ k @ [NUL] @ v @ NUL # post, acc @ [?n])"
    proof -
      have nul: "rd (pre @ k @ [NUL] @ v @ NUL # post) ?e = Inr NUL"
        using rd_at [of ?e "pre @ k @ [NUL] @ v" NUL post] by simp
      then have "skip_blank (pre @ k @ [NUL] @ v @ NUL # post) ?e = Inr ?e"
        by (rule skip_blank_stay) (simp add: is_blank_def)
      then show ?thesis
        using nul trim val assms(1,2)
        by (subst args_loop.simps) (auto simp: good_delim_def)
    qed
    moreover have "node_denotes (pre @ k @ [NUL] @ v @ NUL # post) ?n (k, v)"
      using nn a by (intro node_denotes_intro) simp_all
    ultimately show ?thesis
      using go [of pre "NUL # post" ?p acc] Nil kv
      by (intro exI [of _ "k @ [NUL] @ v"] exI [of _ "[?n]"]) simp
  next
    case (Cons kv' ps')
    then obtain y ys where y: "print_args delim ps = y # ys" "\<not> is_blank y" "y \<noteq> NUL"
      using print_args_start rest by (metis (no_types, lifting) case_prodD case_prodI2 list.discI)
    let ?pre' = "pre @ k @ [NUL] @ v @ [NUL]"
    let ?b = "?pre' @ print_args delim ps @ NUL # post"
    obtain tl ns where IH: "args_loop m delim ?b (int (length ?pre')) (int (length ?pre')) None
          (acc @ [?n]) = Inr (?pre' @ tl @ NUL # post, (acc @ [?n]) @ ns)"
      and tl: "length tl = length (print_args delim ps)"
      and den: "list_all2 (node_denotes (?pre' @ tl @ NUL # post)) ns ps"
      using Cons.IH rest Cons by blast
    have "args_loop m delim (pre @ k @ [NUL] @ v @ [delim] @ print_args delim ps @ NUL # post) ?e ?p
            (Some (?p + int (length k) + 1)) acc
        = args_loop m delim ?b (int (length ?pre')) (int (length ?pre')) None (acc @ [?n])"
    proof -
      have d: "rd (pre @ k @ [NUL] @ v @ [delim] @ print_args delim ps @ NUL # post) ?e = Inr delim"
        using rd_at [of ?e "pre @ k @ [NUL] @ v" delim] by simp
      have y': "rd ?b (?e + 1) = Inr y"
        using rd_at [of "?e + 1" ?pre' y] y by simp
      then have "skip_blank ?b (?e + 1) = Inr (?e + 1)"
        by (rule skip_blank_stay) (rule y(2))
      then show ?thesis
        using d y' y trim [of delim "print_args delim ps @ NUL # post"]
          val [of "print_args delim ps @ NUL # post"] assms(2)
        by (subst args_loop.simps) (simp add: algebra_simps)
    qed
    moreover have "node_denotes (?pre' @ tl @ NUL # post) ?n (k, v)"
      using nn a by (intro node_denotes_intro [of _ pre k v "tl @ NUL # post"]) simp_all
    ultimately show ?thesis
      using go [of pre "[delim] @ print_args delim ps @ NUL # post" ?p acc] Cons kv IH tl den
      by (intro exI [of _ "k @ [NUL] @ v @ [NUL] @ tl"] exI [of _ "?n # ns"]) simp
  qed
qed

lemma args_find_denotes:
  assumes "list_all2 (node_denotes b) ns ps" and "map_of ps k = Some v"
  obtains n where "args_find b ns k = Inr (Some n)" "node_denotes b n (k, v)"
proof -
  have "\<exists>n. args_find b ns k = Inr (Some n) \<and> node_denotes b n (k, v)"
    using assms
  proof (induction rule: list_all2_induct)
    case (Cons n ns p ps)
    then show ?case
      by (cases p) (auto simp: node_denotes_def split: if_splits)
  qed simp
  then show thesis
    using that by blast
qed

lemma plain_no_NUL: "plain delim s \<Longrightarrow> NUL \<notin> set s"
  by (auto simp: plain_def)

lemma print_args_no_NUL:
  assumes "good_delim delim" and "\<forall>(k, v)\<in>set ps. plain delim k \<and> plain delim v \<and> classifiable v"
  shows "NUL \<notin> set (print_args delim ps)"
  using assms
proof (induction delim ps rule: print_args.induct)
  case (3 delim k v p ps)
  then show ?case
    by (cases p) (auto simp: good_delim_def dest: plain_no_NUL)
qed (auto dest: plain_no_NUL)

lemma args_parse_field:
  assumes "c_string b p = Inr (print_args delim ps)" and "good_delim delim" and "\<And>k. m k"
    and "ps \<noteq> []" and "\<forall>(k, v)\<in>set ps. plain delim k \<and> plain delim v \<and> classifiable v"
  obtains b' ns where "args_parse m b p delim = Inr (b', ns)" "list_all2 (node_denotes b') ns ps"
    "length b' = length b"
proof -
  obtain pre post where b: "b = pre @ print_args delim ps @ NUL # post" "p = int (length pre)"
    by (rule c_string_split [OF assms(1)])
  from args_loop_print [where m = m and acc = "[]" and pre = pre and post = post, OF assms(2-5)]
  show thesis
    using that b by (auto simp: args_parse_def)
qed

subsection \<open>Properties\<close>

text \<open>C22: Parsing printed arguments gives one node per name/value pair, in order, whose name reads
  back as the name and whose value is the integer, the decimal fraction (rounded as the C conversions
  round) or the text itself, by its form; a look-up by name finds the first pair with that name.\<close>

theorem args_parse_print:
  assumes "good_delim delim" and "\<forall>k. m k" and "ps \<noteq> []"
    and "\<forall>(k, v)\<in>set ps. plain delim k \<and> plain delim v \<and> classifiable v"
  shows "\<exists>b ns. args_parse m (print_args delim ps @ NUL # post) 0 delim = Inr (b, ns) \<and>
           list_all2 (node_denotes b) ns ps \<and>
           (\<forall>k. case map_of ps k of
                  None \<Rightarrow> args_find b ns k = Inr None
                | Some v \<Rightarrow> \<exists>n. args_find b ns k = Inr (Some n) \<and> node_denotes b n (k, v))"
proof -
  have NUL: "c_string (print_args delim ps @ NUL # post) 0 = Inr (print_args delim ps)"
    using print_args_no_NUL [OF assms(1,4)] by (intro c_string_at [of _ "[]"]) simp_all
  obtain b ns where "args_parse m (print_args delim ps @ NUL # post) 0 delim = Inr (b, ns)"
    and den: "list_all2 (node_denotes b) ns ps"
    using args_parse_field [where m = m, OF NUL assms(1) _ assms(3,4)] assms(2) by metis
  moreover have "args_find b ns k = Inr None" if "map_of ps k = None" for k
    using den that
    by (induction rule: list_all2_induct) (auto simp: node_denotes_def split: if_splits)
  ultimately show ?thesis
    using args_find_denotes [OF den] by (fastforce split: option.splits)
qed

lemma args_parse_print_witness:
  "\<exists>b ns n. args_parse (\<lambda>_. True) (''p=10&r=3'' @ [NUL]) 0 (CHR ''&'') = Inr (b, ns) \<and>
     args_find b ns ''r'' = Inr (Some n) \<and> arg_val n = IntVal 3"
proof -
  have ok: "\<forall>(k, v)\<in>set [(''p'', ''10''), (''r'', ''3'')].
      plain (CHR ''&'') k \<and> plain (CHR ''&'') v \<and> classifiable v"
    and d: "good_delim (CHR ''&'')"
    by code_simp+
  have "arg_val n = IntVal 3" if "node_denotes b n (''r'', ''3'')" for b n
    using that value_of_number [of "''3''" _ "arg_val n" 3]
    by (auto simp: node_denotes_def number_def is_digit_def digit_val_def in_int_range_def)
  moreover obtain b ns where p: "args_parse (\<lambda>_. True)
      (print_args (CHR ''&'') [(''p'', ''10''), (''r'', ''3'')] @ [NUL]) 0 (CHR ''&'') = Inr (b, ns)"
    and find: "\<forall>k. case map_of [(''p'', ''10''), (''r'', ''3'')] k of
        None \<Rightarrow> args_find b ns k = Inr None
      | Some v \<Rightarrow> \<exists>n. args_find b ns k = Inr (Some n) \<and> node_denotes b n (k, v)"
    using args_parse_print [OF d _ _ ok, of "\<lambda>_. True" "[]"] by blast
  moreover obtain n where "args_find b ns ''r'' = Inr (Some n)" "node_denotes b n (''r'', ''3'')"
    using find [THEN spec, of "''r''"] by auto
  ultimately show ?thesis
    by auto
qed

text \<open>C40: An argument with an empty value at the end of the string, such as \<open>p=\<close>, makes the parser
  read behind the terminating NUL: with no byte left in the block the read is out of bounds.\<close>

theorem args_parse_empty_value:
  assumes "good_delim delim" and "plain delim k"
  shows "args_parse m (k @ ''='' @ [NUL]) 0 delim = Inl OutOfBounds"
proof -
  let ?q = "int (length k)"
  have nb: "k \<noteq> []" "\<not> is_blank (last k)"
    using assms(2) by (auto simp: plain_def)
  have "args_loop m delim (k @ ''='' @ [NUL]) 0 0 None [] =
      args_loop m delim (k @ ''='' @ [NUL]) ?q 0 None []"
    using args_loop_scan [of k delim 0 "[]" m "''='' @ [NUL]"] assms(2) by (simp add: plain_def)
  also have "\<dots> = args_loop m delim (k @ [NUL] @ [NUL]) (?q + 2) 0 (Some (?q + 1)) []"
  proof -
    have "args_trim (k @ ''='' @ [NUL]) (?q - 1) = Inr (k @ [NUL] @ [NUL])"
      using args_trim_at [OF nb(2,1), of ?q "[]"] by simp
    moreover have "skip_blank (k @ [NUL] @ [NUL]) (?q + 1) = Inr (?q + 1)"
      using rd_at [of "?q + 1" "k @ [NUL]" NUL "[]"]
      by (intro skip_blank_stay [where c = NUL]) (simp_all add: is_blank_def)
    moreover have "rd (k @ ''='' @ [NUL]) ?q = Inr (CHR ''='')" "CHR ''='' \<noteq> delim"
      using rd_at [of ?q k] assms(1) by (auto simp: good_delim_def)
    ultimately show ?thesis
      by (subst args_loop.simps) (simp add: add.assoc)
  qed
  also have "\<dots> = Inl OutOfBounds"
    by (subst args_loop.simps) (simp add: rd_def)
  finally show ?thesis
    by (simp add: args_parse_def)
qed

lemma args_parse_empty_value_witness:
  "args_parse (\<lambda>_. True) (''p'' @ ''='' @ [NUL]) 0 (CHR ''&'') = Inl OutOfBounds"
  by (rule args_parse_empty_value) (simp_all add: good_delim_def plain_def is_blank_def)

end
