(* ===== verification/Aliases.thy ===== *)
theory Aliases
  imports Args
begin

text \<open>
  The constants of \<^verbatim>\<open>mproxy/src/attack.h\<close>, the message-name tables of
  \<^verbatim>\<open>attack.c\<close> and the functions that turn the textual columns of a rule into
  numbers. The tables are the arrays the C compiler builds: a null pointer is \<open>None\<close>, and
  two string literals with no comma between them are one element, which is what the source has
  after \<open>MultipartRes\<close> in the tables of versions 1.3 and 1.4.
\<close>

abbreviation (input) "OFP_MSG_TYPE_ERR \<equiv> (-2 :: int)"
abbreviation (input) "OFP_MSG_TYPE_ALL \<equiv> (-1 :: int)"
abbreviation (input) "OFP_MSG_TYPE_MAX \<equiv> (34 :: int)"
abbreviation (input) "OFP_VER_ALL \<equiv> (0 :: int)"
abbreviation (input) "OFP_VER_MAX \<equiv> (5 :: int)"
abbreviation (input) "OFP_VER_ERR \<equiv> (-1 :: int)"
abbreviation (input) "ACTION_ID_ERR \<equiv> (-1 :: int)"
abbreviation (input) "ACTION_ID_DROP \<equiv> (0 :: int)"
abbreviation (input) "ACTION_ID_DELAY \<equiv> (1 :: int)"
abbreviation (input) "ACTION_ID_DUP \<equiv> (2 :: int)"
abbreviation (input) "ACTION_ID_LIE \<equiv> (3 :: int)"

subsection \<open>Message names\<close>

definition OFP_V1_0_MSG_ALIAS :: "string option list" where
  "OFP_V1_0_MSG_ALIAS =
    [Some ''Hello'', Some ''Error'', Some ''EchoReq'', Some ''EchoRes'', Some ''Vendor'',
     Some ''FeatureReq'', Some ''FeatureRes'', Some ''GetConfigReq'', Some ''GetConfigRes'',
     Some ''SetConfig'', Some ''PacketIn'', Some ''FlowRemoved'', Some ''PortStatus'',
     Some ''PacketOut'', Some ''FlowMod'', Some ''PortMod'', Some ''StatsReq'',
     Some ''StatsRes'', Some ''BarrierReq'', Some ''BarrierRes'', Some ''QueueGetConfigReq'',
     Some ''QueueGetConfigRes'']"

definition OFP_V1_1_MSG_ALIAS :: "string option list" where
  "OFP_V1_1_MSG_ALIAS =
    [Some ''Hello'', Some ''Error'', Some ''EchoReq'', Some ''EchoRes'', Some ''Experimenter'',
     Some ''FeatureReq'', Some ''FeatureRes'', Some ''GetConfigReq'', Some ''GetConfigRes'',
     Some ''SetConfig'', Some ''PacketIn'', Some ''FlowRemoved'', Some ''PortStatus'',
     Some ''PacketOut'', Some ''FlowMod'', Some ''GroupMod'', Some ''PortMod'',
     Some ''TableMod'', Some ''StatsReq'', Some ''StatsRes'', Some ''BarrierReq'',
     Some ''BarrierRes'', Some ''QueueGetConfigReq'', Some ''QueueGetConfigRes'']"

definition OFP_V1_2_MSG_ALIAS :: "string option list" where
  "OFP_V1_2_MSG_ALIAS =
    [Some ''Hello'', Some ''Error'', Some ''EchoReq'', Some ''EchoRes'', Some ''Experimenter'',
     Some ''FeatureReq'', Some ''FeatureRes'', Some ''GetConfigReq'', Some ''GetConfigRes'',
     Some ''SetConfig'', Some ''PacketIn'', Some ''FlowRemoved'', Some ''PortStatus'',
     Some ''PacketOut'', Some ''FlowMod'', Some ''GroupMod'', Some ''PortMod'',
     Some ''TableMod'', Some ''StatsReq'', Some ''StatsRes'', Some ''BarrierReq'',
     Some ''BarrierRes'', Some ''QueueGetConfigReq'', Some ''QueueGetConfigRes'',
     Some ''RoleReq'', Some ''RoleRes'']"

definition OFP_V1_3_MSG_ALIAS :: "string option list" where
  "OFP_V1_3_MSG_ALIAS =
    [Some ''Hello'', Some ''Error'', Some ''EchoReq'', Some ''EchoRes'', Some ''Experimenter'',
     Some ''FeatureReq'', Some ''FeatureRes'', Some ''GetConfigReq'', Some ''GetConfigRes'',
     Some ''SetConfig'', Some ''PacketIn'', Some ''FlowRemoved'', Some ''PortStatus'',
     Some ''PacketOut'', Some ''FlowMod'', Some ''GroupMod'', Some ''PortMod'',
     Some ''TableMod'', Some ''MultipartReq'', Some ''MultipartResBarrierReq'',
     Some ''BarrierRes'', Some ''QueueGetConfigReq'', Some ''QueueGetConfigRes'',
     Some ''RoleReq'', Some ''RoleRes'', Some ''GetAsyncReq'', Some ''GetAsyncRes'',
     Some ''SetAsync'', Some ''MeterMod'']"

definition OFP_V1_4_MSG_ALIAS :: "string option list" where
  "OFP_V1_4_MSG_ALIAS =
    [Some ''Hello'', Some ''Error'', Some ''EchoReq'', Some ''EchoRes'', Some ''Experimenter'',
     Some ''FeatureReq'', Some ''FeatureRes'', Some ''GetConfigReq'', Some ''GetConfigRes'',
     Some ''SetConfig'', Some ''PacketIn'', Some ''FlowRemoved'', Some ''PortStatus'',
     Some ''PacketOut'', Some ''FlowMod'', Some ''GroupMod'', Some ''PortMod'',
     Some ''TableMod'', Some ''MultipartReq'', Some ''MultipartResBarrierReq'',
     Some ''BarrierRes'', None, None, Some ''RoleReq'', Some ''RoleRes'', Some ''GetAsyncReq'',
     Some ''GetAsyncRes'', Some ''SetAsync'', Some ''MeterMod'', Some ''RoleStatus'',
     Some ''TableStatus'', Some ''RequestForward'', Some ''BundleControl'',
     Some ''BundleAddMessage'']"

definition OFP_COMMON_MSG_ALIAS :: "string option list" where
  "OFP_COMMON_MSG_ALIAS =
    [Some ''Hello'', Some ''Error'', Some ''EchoReq'', Some ''EchoRes'', None,
     Some ''FeatureReq'', Some ''FeatureRes'', Some ''GetConfigReq'', Some ''GetConfigRes'',
     Some ''SetConfig'', Some ''PacketIn'', Some ''FlowRemoved'', Some ''PortStatus'',
     Some ''PacketOut'', Some ''FlowMod'', None, None, None, None, None, None, None, None,
     None, Some ''RoleReq'', Some ''RoleRes'', Some ''GetAsyncReq'', Some ''GetAsyncRes'',
     Some ''SetAsync'', Some ''MeterMod'', Some ''RoleStatus'', Some ''TableStatus'',
     Some ''RequestForward'', Some ''BundleControl'', Some ''BundleAddMessage'']"

definition OFP_MSG_ALIAS_LEN :: "int list" where
  "OFP_MSG_ALIAS_LEN = [35, 22, 24, 26, 30, 35]"

definition OFP_MSG_ALIASES :: "string option list list" where
  "OFP_MSG_ALIASES =
     [OFP_COMMON_MSG_ALIAS, OFP_V1_0_MSG_ALIAS, OFP_V1_1_MSG_ALIAS, OFP_V1_2_MSG_ALIAS,
      OFP_V1_3_MSG_ALIAS, OFP_V1_4_MSG_ALIAS]"

definition alias_at :: "int \<Rightarrow> int \<Rightarrow> string option res" where
  "alias_at ver i = bnd (rd OFP_MSG_ALIASES ver) (\<lambda>t. rd t i)"

subsection \<open>Normalising the columns of a rule\<close>

definition normalize_ofp_ver_str :: "string \<Rightarrow> int res" where
  "normalize_ofp_ver_str v =
     (if str_has v (CHR ''.'') \<and> strn_eq v ''1.0'' 3 then Inr 1
      else if str_has v (CHR ''.'') \<and> strn_eq v ''1.1'' 3 then Inr 2
      else if str_has v (CHR ''.'') \<and> strn_eq v ''1.2'' 3 then Inr 3
      else if str_has v (CHR ''.'') \<and> strn_eq v ''1.3'' 3 then Inr 4
      else if str_has v (CHR ''.'') \<and> strn_eq v ''1.4'' 3 then Inr 5
      else if take 1 v = ''*'' then Inr OFP_VER_ALL
      else bnd (atoi v) (\<lambda>ret.
           if ret < OFP_VER_ALL \<or> ret > OFP_VER_MAX then Inr OFP_VER_ERR else Inr ret))"

text \<open>\<open>for (i = 0; i < len; ++i)\<close> with \<open>n\<close> iterations to go.\<close>

fun alias_loop :: "int \<Rightarrow> string \<Rightarrow> int \<Rightarrow> nat \<Rightarrow> int res" where
  "alias_loop ver s i 0 = Inr OFP_MSG_TYPE_ERR"
| "alias_loop ver s i (Suc n) =
     bnd (alias_at ver i) (\<lambda>alias.
       if alias = Some s then Inr i else alias_loop ver s (i + 1) n)"

definition normalize_ofp_msg_type :: "int \<Rightarrow> string \<Rightarrow> int res" where
  "normalize_ofp_msg_type ver s =
     bnd (rd OFP_MSG_ALIAS_LEN ver) (\<lambda>len.
       if take 1 s = ''*'' then Inr OFP_MSG_TYPE_ALL
       else if is_int s then
         bnd (atoi s) (\<lambda>ret.
           if ret > len \<or> ret < 0 then Inr OFP_MSG_TYPE_ERR
           else bnd (alias_at ver ret) (\<lambda>alias.
                if alias = None then Inr OFP_MSG_TYPE_ERR else Inr ret))
       else alias_loop ver s 0 (nat len))"

definition normalize_action_type :: "string \<Rightarrow> int res" where
  "normalize_action_type s =
     (if is_int s then
        bnd (atoi s) (\<lambda>ret.
          if ret < ACTION_ID_DROP \<or> ret > ACTION_ID_LIE then Inr ACTION_ID_ERR else Inr ret)
      else if s = ''DROP'' then Inr ACTION_ID_DROP
      else if s = ''DELAY'' then Inr ACTION_ID_DELAY
      else if s = ''DUP'' then Inr ACTION_ID_DUP
      else if s = ''LIE'' then Inr ACTION_ID_LIE
      else Inr ACTION_ID_ERR)"

subsection \<open>How the name search ends\<close>

definition alias_table :: "int \<Rightarrow> string option list" where
  "alias_table ver = (if 0 \<le> ver \<and> ver \<le> OFP_VER_MAX then OFP_MSG_ALIASES ! nat ver else [])"

lemma alias_at_table: "0 \<le> ver \<Longrightarrow> ver \<le> OFP_VER_MAX \<Longrightarrow> alias_at ver i = rd (alias_table ver) i"
  by (simp add: alias_at_def alias_table_def rd_def OFP_MSG_ALIASES_def)

lemma alias_loop_hit:
  assumes "0 \<le> ver" "ver \<le> OFP_VER_MAX" and "i \<le> j" "j < i + n" "j < length (alias_table ver)"
    and "alias_table ver ! j = Some s" and "\<And>k. i \<le> k \<Longrightarrow> k < j \<Longrightarrow> alias_table ver ! k \<noteq> Some s"
  shows "alias_loop ver s (int i) n = Inr (int j)"
  using assms(3,4,7)
proof (induction n arbitrary: i)
  case (Suc n)
  have rd: "alias_at ver (int i) = Inr (alias_table ver ! i)"
    using assms(1,2,5) Suc.prems(1) by (simp add: alias_at_table rd_of_nat)
  show ?case
  proof (cases "i = j")
    case True
    then show ?thesis
      using rd assms(6) by simp
  next
    case False
    then have "alias_loop ver s (int (Suc i)) n = Inr (int j)"
      using Suc.prems by (intro Suc.IH) simp_all
    then show ?thesis
      using rd False Suc.prems by (simp add: add.commute)
  qed
qed simp

lemma alias_loop_miss:
  assumes "0 \<le> ver" "ver \<le> OFP_VER_MAX" and "i + n \<le> length (alias_table ver)"
    and "\<And>k. i \<le> k \<Longrightarrow> k < i + n \<Longrightarrow> alias_table ver ! k \<noteq> Some s"
  shows "alias_loop ver s (int i) n = Inr OFP_MSG_TYPE_ERR"
  using assms(3,4)
proof (induction n arbitrary: i)
  case (Suc n)
  have "alias_loop ver s (int (Suc i)) n = Inr OFP_MSG_TYPE_ERR"
    using Suc.prems by (intro Suc.IH) simp_all
  then show ?case
    using assms(1,2) Suc.prems by (simp add: alias_at_table rd_of_nat add.commute)
qed simp

lemma alias_loop_off_end:
  assumes "0 \<le> ver" "ver \<le> OFP_VER_MAX" and "i \<le> length (alias_table ver)"
    and "length (alias_table ver) < i + n"
    and "\<And>k. i \<le> k \<Longrightarrow> k < length (alias_table ver) \<Longrightarrow> alias_table ver ! k \<noteq> Some s"
  shows "alias_loop ver s (int i) n = Inl OutOfBounds"
  using assms(3,4,5)
proof (induction n arbitrary: i)
  case (Suc n)
  show ?case
  proof (cases "i < length (alias_table ver)")
    case True
    then have "alias_loop ver s (int (Suc i)) n = Inl OutOfBounds"
      using Suc.prems by (intro Suc.IH) simp_all
    then show ?thesis
      using assms(1,2) Suc.prems True by (simp add: alias_at_table rd_of_nat add.commute)
  next
    case False
    then show ?thesis
      using assms(1,2) by (simp add: alias_at_table rd_def)
  qed
qed simp

lemma alias_loop_result:
  assumes "alias_loop ver s i n = Inr r" and "0 \<le> ver" "ver \<le> OFP_VER_MAX" and "0 \<le> i"
  shows "r = OFP_MSG_TYPE_ERR \<or>
    (i \<le> r \<and> r < int (length (alias_table ver)) \<and> alias_table ver ! nat r = Some s)"
  using assms(1,4)
proof (induction n arbitrary: i)
  case (Suc n)
  then show ?case
    using assms(2,3) by (force simp: bnd_Inr alias_at_table rd_Inr split: if_splits dest!: Suc.IH)
qed simp

text \<open>The number of elements each table really has, next to the length the source states.\<close>

lemma alias_table_lengths:
  "map (\<lambda>v. length (alias_table v)) [0, 1, 2, 3, 4, 5] = [35, 22, 24, 26, 29, 34]"
  by code_simp

lemma alias_table_length_le: "length (alias_table ver) \<le> 35"
proof (cases "0 \<le> ver \<and> ver \<le> OFP_VER_MAX")
  case True
  then have "ver \<in> {0, 1, 2, 3, 4, 5}" by auto
  then show ?thesis
    using alias_table_lengths by auto
qed (auto simp: alias_table_def)

lemma normalize_ofp_ver_str_range: "normalize_ofp_ver_str v = Inr r \<Longrightarrow> -1 \<le> r \<and> r \<le> OFP_VER_MAX"
  by (auto simp: normalize_ofp_ver_str_def bnd_Inr split: if_splits)

lemma normalize_ofp_msg_type_range:
  assumes "normalize_ofp_msg_type ver s = Inr r" and "0 \<le> ver" "ver \<le> OFP_VER_MAX"
  shows "r \<in> {OFP_MSG_TYPE_ERR, OFP_MSG_TYPE_ALL} \<or>
    (0 \<le> r \<and> r < int (length (alias_table ver)) \<and> alias_table ver ! nat r \<noteq> None)"
proof -
  obtain len where len: "rd OFP_MSG_ALIAS_LEN ver = Inr len"
    using assms(1) by (auto simp: normalize_ofp_msg_type_def bnd_Inr)
  show ?thesis
  proof (cases "take 1 s = ''*'' \<or> is_int s")
    case True
    then show ?thesis
      using assms len
      by (auto simp: normalize_ofp_msg_type_def bnd_Inr alias_at_table rd_Inr split: if_splits)
  next
    case False
    then have "alias_loop ver s 0 (nat len) = Inr r"
      using assms(1) len by (simp add: normalize_ofp_msg_type_def)
    then show ?thesis
      using alias_loop_result assms(2,3) by fastforce
  qed
qed

subsection \<open>Properties\<close>

text \<open>The position of a name in a table, the first one when it occurs twice.\<close>

fun index_of :: "'a list \<Rightarrow> 'a \<Rightarrow> nat option" where
  "index_of [] x = None"
| "index_of (y # ys) x = (if y = x then Some 0 else map_option Suc (index_of ys x))"

lemma index_of_Some:
  "index_of xs x = Some i \<Longrightarrow> i < length xs \<and> xs ! i = x \<and> (\<forall>k<i. xs ! k \<noteq> x)"
proof (induction xs arbitrary: i)
  case (Cons y ys)
  then show ?case
    by (cases i) (auto split: if_splits simp: less_Suc_eq_0_disj)
qed simp

lemma index_of_None: "index_of xs x = None \<longleftrightarrow> x \<notin> set xs"
  by (induction xs) auto

lemma alias_lens:
  assumes "0 \<le> ver" "ver \<le> OFP_VER_MAX"
  shows "\<exists>len. rd OFP_MSG_ALIAS_LEN ver = Inr len \<and> int (length (alias_table ver)) \<le> len \<and> len \<le> 35 \<and>
     (len = int (length (alias_table ver)) \<longleftrightarrow> ver \<le> 3)"
proof -
  have "ver \<in> {0, 1, 2, 3, 4, 5}"
    using assms by auto
  then show ?thesis
    using alias_table_lengths by (auto simp: OFP_MSG_ALIAS_LEN_def rd_def)
qed

text \<open>C35: A message name is turned into its position in the version's table. A name the table does
  not have is rejected for the wildcard version and OpenFlow 1.0 to 1.2; for 1.3 and 1.4 the search
  runs off the end of the array, because a missing comma makes it one element shorter than the
  length the code uses.\<close>

theorem normalize_ofp_msg_type_name:
  assumes "0 \<le> ver" and "ver \<le> OFP_VER_MAX" and "take 1 s \<noteq> ''*''" and "\<not> is_int s"
  shows "normalize_ofp_msg_type ver s =
    (case index_of (alias_table ver) (Some s) of
       Some i \<Rightarrow> Inr (int i)
     | None \<Rightarrow> if ver \<le> 3 then Inr OFP_MSG_TYPE_ERR else Inl OutOfBounds)"
proof -
  obtain len where len: "rd OFP_MSG_ALIAS_LEN ver = Inr len" "int (length (alias_table ver)) \<le> len"
    "len = int (length (alias_table ver)) \<longleftrightarrow> ver \<le> 3"
    using alias_lens [OF assms(1,2)] by blast
  have n: "normalize_ofp_msg_type ver s = alias_loop ver s (int 0) (nat len)"
    using assms(3,4) len(1) by (simp add: normalize_ofp_msg_type_def)
  show ?thesis
  proof (cases "index_of (alias_table ver) (Some s)")
    case (Some i)
    then show ?thesis
      using index_of_Some [OF Some] len(2) n
      by (subst n, subst alias_loop_hit [of ver 0 i]) (auto simp: assms(1,2))
  next
    case None
    then have "\<And>k. k < length (alias_table ver) \<Longrightarrow> alias_table ver ! k \<noteq> Some s"
      by (metis index_of_None nth_mem)
    then show ?thesis
      using None n len alias_loop_miss [OF assms(1,2), of 0 "nat len" s]
        alias_loop_off_end [OF assms(1,2), of 0 "nat len" s]
      by (cases "ver \<le> 3") auto
  qed
qed

lemma normalize_ofp_msg_type_name_witness:
  "normalize_ofp_msg_type 1 ''PacketIn'' = Inr 10 \<and> normalize_ofp_msg_type 4 ''BarrierReq'' = Inl OutOfBounds"
  using normalize_ofp_msg_type_name [of 1 "''PacketIn''"] normalize_ofp_msg_type_name [of 4 "''BarrierReq''"]
  by (simp add: is_int_def is_digit_def alias_table_def OFP_MSG_ALIASES_def OFP_V1_0_MSG_ALIAS_def
      OFP_V1_3_MSG_ALIAS_def)

text \<open>C36: A message number is accepted exactly when the version's table names it, and rejected
  beyond the stated length of the table; a number between the real and the stated length, the
  latter included, reads past the end of the array.\<close>

theorem normalize_ofp_msg_type_number:
  assumes "0 \<le> ver" and "ver \<le> OFP_VER_MAX" and "number s n"
  shows "\<exists>len. rd OFP_MSG_ALIAS_LEN ver = Inr len \<and>
    normalize_ofp_msg_type ver s =
      (if n > len then Inr OFP_MSG_TYPE_ERR
       else if n \<ge> int (length (alias_table ver)) then Inl OutOfBounds
       else if alias_table ver ! nat n = None then Inr OFP_MSG_TYPE_ERR else Inr n)"
proof -
  obtain len where len: "rd OFP_MSG_ALIAS_LEN ver = Inr len"
    using alias_lens [OF assms(1,2)] by blast
  have s: "take 1 s \<noteq> ''*''" "is_int s"
    using assms(3) by (cases s; auto simp: number_def is_int_def is_int_loop_all is_digit_def)+
  show ?thesis
    using s len number_nonneg [OF assms(3)] atoi_number [OF assms(3)]
    by (auto simp: normalize_ofp_msg_type_def alias_at_table [OF assms(1,2)] rd_def)
qed

lemma normalize_ofp_msg_type_number_witness:
  "normalize_ofp_msg_type 1 ''22'' = Inl OutOfBounds"
  using normalize_ofp_msg_type_number [of 1 "''22''" 22]
  by (simp add: number_def is_digit_def digit_val_def in_int_range_def OFP_MSG_ALIAS_LEN_def rd_def
      alias_table_def OFP_MSG_ALIASES_def OFP_V1_0_MSG_ALIAS_def)

end
