(* ===== verification/Csv.thy ===== *)
theory Csv
  imports Prelude
begin

text \<open>
  The CSV splitter of \<^verbatim>\<open>mproxy/src/csv.c\<close>. It works in place on a writable block:
  separators and closing quotes are overwritten with NUL and the fields are returned as
  pointers into the block.
\<close>

definition is_whitespace :: "char \<Rightarrow> bool" where
  "is_whitespace c \<longleftrightarrow> c = CHR 0x09 \<or> c = CHR '' ''"

subsection \<open>Finding the end of a field\<close>

text \<open>Overwrite the white space before a comma, moving backwards.\<close>

function csv_trim_back :: "char list \<Rightarrow> int \<Rightarrow> char list res" where
  "csv_trim_back b back =
     bnd (rd b back) (\<lambda>c.
       if is_whitespace c then bnd (wr b back NUL) (\<lambda>b'. csv_trim_back b' (back - 1))
       else Inr b)"
  by pat_completeness auto
termination
  by (relation "measure (\<lambda>(b, p). nat (p + 1))") (auto simp: c_res)

declare csv_trim_back.simps [simp del]

fun csv_find_next_comma ::
  "char list \<Rightarrow> int \<Rightarrow> nat \<Rightarrow> char \<Rightarrow> (char list \<times> int option) res" where
  "csv_find_next_comma b data 0 quote = Inr (b, None)"
| "csv_find_next_comma b data (Suc maxlen) quote =
     bnd (rd b data) (\<lambda>c.
       if quote = NUL \<and> c = CHR '','' then
         bnd (wr b data NUL) (\<lambda>b'.
         bnd (csv_trim_back b' (data - 1)) (\<lambda>b''. Inr (b'', Some data)))
       else if quote \<noteq> NUL \<and> c = quote then
         bnd (rd b (data - 1)) (\<lambda>e.
           if e \<noteq> CHR 0x5C then
             bnd (wr b data NUL) (\<lambda>b'. csv_find_next_comma b' (data + 1) maxlen NUL)
           else csv_find_next_comma b (data + 1) maxlen quote)
       else csv_find_next_comma b (data + 1) maxlen quote)"

lemma csv_trim_back_length: "csv_trim_back b p = Inr b' \<Longrightarrow> length b' = length b"
proof (induction b p arbitrary: b' rule: csv_trim_back.induct)
  case (1 b p)
  from "1.prems" obtain c where "rd b p = Inr c"
    "if is_whitespace c then \<exists>b1. wr b p NUL = Inr b1 \<and> csv_trim_back b1 (p - 1) = Inr b' else b' = b"
    by (subst (asm) csv_trim_back.simps) (auto simp: bnd_Inr split: if_splits)
  with "1.IH" show ?case
    by (cases "is_whitespace c") (auto simp: wr_length)
qed

lemma csv_find_cases:
  assumes "csv_find_next_comma b data (Suc n) q = Inr (b', r)"
  obtains (comma) b1 where "q = NUL" "wr b data NUL = Inr b1"
      "csv_trim_back b1 (data - 1) = Inr b'" "r = Some data"
  | (unquote) b1 where "wr b data NUL = Inr b1"
      "csv_find_next_comma b1 (data + 1) n NUL = Inr (b', r)"
  | (skip) "csv_find_next_comma b (data + 1) n q = Inr (b', r)"
  using assms by (auto simp: bnd_Inr split: if_splits)

lemma csv_find_bounds:
  "csv_find_next_comma b data n q = Inr (b', Some p) \<Longrightarrow> data \<le> p \<and> p < data + int n"
proof (induction n arbitrary: b data q)
  case (Suc n)
  from Suc.prems show ?case
    by (cases rule: csv_find_cases) (auto dest: Suc.IH)
qed simp

lemma csv_find_length:
  "csv_find_next_comma b data n q = Inr (b', r) \<Longrightarrow> length b' = length b"
proof (induction n arbitrary: b data q)
  case (Suc n)
  from Suc.prems show ?case
    by (cases rule: csv_find_cases) (auto simp: csv_trim_back_length wr_length dest: Suc.IH)
qed simp

subsection \<open>The splitter\<close>

text \<open>
  \<open>while (is_whitespace(*data) && len > 0) ++data, --len;\<close> reads the character before it
  looks at the length.
\<close>

fun csv_skip :: "char list \<Rightarrow> int \<Rightarrow> nat \<Rightarrow> (int \<times> nat) res" where
  "csv_skip b data 0 = bnd (rd b data) (\<lambda>c. Inr (data, 0))"
| "csv_skip b data (Suc len) =
     bnd (rd b data) (\<lambda>c. if is_whitespace c then csv_skip b (data + 1) len
                          else Inr (data, Suc len))"

lemma csv_skip_le: "csv_skip b data len = Inr (d, l) \<Longrightarrow> l \<le> len"
  by (induction b data len rule: csv_skip.induct) (auto simp: bnd_Inr split: if_splits)

text \<open>
  One field per call of \<open>csv_loop\<close>. \<open>m k\<close> is the outcome of the \<open>k\<close>-th allocation; a
  failed \<open>realloc\<close> leaves a null array that the next store goes through.
\<close>

function csv_loop :: "(nat \<Rightarrow> bool) \<Rightarrow> nat \<Rightarrow> char list \<Rightarrow> int \<Rightarrow> nat \<Rightarrow> int list \<Rightarrow> nat \<Rightarrow>
    (char list \<times> int list) res" where
  "csv_loop m k b data len used cap =
     (if len = 0 then Inr (b, used)
      else bnd (csv_skip b data len) (\<lambda>(data, len').
        if len' = 0 then bnd (wr b data NUL) (\<lambda>b'. Inr (b', used))
        else bnd (rd b data) (\<lambda>c.
          let quote = (if c = CHR 0x22 \<or> c = CHR 0x27 then c else NUL);
              data = (if c = CHR 0x22 \<or> c = CHR 0x27 then data + 1 else data);
              grow = (length used = cap)
          in if grow \<and> \<not> m k then Inl NullDeref
             else bnd (csv_find_next_comma b data len' quote) (\<lambda>(b', next_delim).
               case next_delim of
                 None \<Rightarrow> Inr (b', used @ [data])
               | Some p \<Rightarrow> csv_loop m (if grow then Suc k else k) b' (p + 1)
                             (nat (int len' - (p - data + 1))) (used @ [data])
                             (if grow then cap * 2 else cap)))))"
  by pat_completeness auto
termination
proof (relation "measure (\<lambda>(m, k, b, data, len, _). len)", goal_cases)
  case (2 m k b data len used cap x d len' c quote d' grow y b' nd p)
  have "len' \<le> len" "len' \<noteq> 0" "d' \<le> p"
    using 2 csv_skip_le csv_find_bounds by blast+
  then show ?case by simp
qed simp

declare csv_loop.simps [simp del]

definition csv_parse ::
  "(nat \<Rightarrow> bool) \<Rightarrow> char list \<Rightarrow> int \<Rightarrow> nat \<Rightarrow> (char list \<times> int list) option res" where
  "csv_parse m b data len =
     (if \<not> m 0 then Inr None
      else bnd (csv_loop m 1 b data len [] 5) (\<lambda>r. Inr (Some r)))"

subsection \<open>Unescaping\<close>

function csv_unescape :: "char list \<Rightarrow> int \<Rightarrow> char list res" where
  "csv_unescape b data =
     bnd (rd b data) (\<lambda>c.
       if c = NUL then Inr b
       else if c = CHR 0x5C then
         bnd (rd b (data + 1)) (\<lambda>d.
         bnd (wr b data d) (\<lambda>b'. csv_unescape b' (data + 2)))
       else csv_unescape b (data + 1))"
  by pat_completeness auto
termination
  by (relation "measure (\<lambda>(b, p). nat (int (length b) - p))") (auto simp: c_res)

declare csv_unescape.simps [simp del]

subsection \<open>Splitting what was printed\<close>

text \<open>
  A row is printed from cells: white space, a text, white space. Texts hold no comma, no NUL,
  do not start with a quote and neither start nor end with white space.
\<close>

type_synonym cell = "string \<times> string \<times> string"

definition blanks :: "string \<Rightarrow> bool" where
  "blanks w \<longleftrightarrow> (\<forall>c\<in>set w. is_whitespace c)"

definition clean :: "string \<Rightarrow> bool" where
  "clean t \<longleftrightarrow> (\<forall>c\<in>set t. c \<noteq> CHR '','' \<and> c \<noteq> NUL) \<and>
     (t \<noteq> [] \<longrightarrow> hd t \<notin> {CHR 0x22, CHR 0x27} \<and> \<not> is_whitespace (hd t) \<and> \<not> is_whitespace (last t))"

fun cell_ok :: "cell \<Rightarrow> bool" where
  "cell_ok (w1, t, w2) \<longleftrightarrow> blanks w1 \<and> clean t \<and> blanks w2 \<and> (t = [] \<longrightarrow> w2 = [])"

fun cell_text :: "cell \<Rightarrow> string" where
  "cell_text (w1, t, w2) = t"

text \<open>White space behind the last text of a row is not removed, so it counts as unclean.\<close>

fun print_cells :: "cell list \<Rightarrow> string" where
  "print_cells [] = []"
| "print_cells [(w1, t, w2)] = w1 @ t @ w2"
| "print_cells ((w1, t, w2) # cs) = w1 @ t @ w2 @ '','' @ print_cells cs"

fun row_ok :: "cell list \<Rightarrow> bool" where
  "row_ok [] \<longleftrightarrow> False"
| "row_ok [(w1, t, w2)] \<longleftrightarrow> cell_ok (w1, t, w2) \<and> w2 = []"
| "row_ok (c # cs) \<longleftrightarrow> cell_ok c \<and> row_ok cs"

lemma csv_trim_back_blanks:
  assumes "blanks w" and "\<not> is_whitespace x"
  shows "csv_trim_back (pre @ [x] @ w @ rest) (int (length pre) + int (length w)) =
         Inr (pre @ [x] @ replicate (length w) NUL @ rest)"
  using assms(1)
proof (induction w arbitrary: rest rule: rev_induct)
  case Nil
  then show ?case
    using assms(2) by (subst csv_trim_back.simps) (simp add: rd_at)
next
  case (snoc c w)
  let ?p = "int (length pre) + int (length (w @ [c]))"
  have c: "is_whitespace c" and w: "blanks w"
    using snoc.prems by (auto simp: blanks_def)
  have "rd (pre @ [x] @ (w @ [c]) @ rest) ?p = Inr c"
    using rd_at [of ?p "pre @ [x] @ w" c rest] by simp
  moreover have "wr (pre @ [x] @ (w @ [c]) @ rest) ?p NUL = Inr (pre @ [x] @ w @ NUL # rest)"
    using wr_at [of ?p "pre @ [x] @ w" c rest NUL] by simp
  moreover have "?p - 1 = int (length pre) + int (length w)"
    by simp
  ultimately show ?case
    using c snoc.IH [OF w, of "NUL # rest"]
    by (subst csv_trim_back.simps) (simp add: replicate_append_same)
qed

lemma csv_find_scan:
  assumes "\<forall>c\<in>set t. c \<noteq> CHR '',''"
  shows "csv_find_next_comma (pre @ t @ rest) (int (length pre)) (length t + n) NUL =
         csv_find_next_comma (pre @ t @ rest) (int (length pre) + int (length t)) n NUL"
  using assms
proof (induction t arbitrary: pre)
  case Nil
  then show ?case by simp
next
  case (Cons c t)
  then have "csv_find_next_comma (pre @ (c # t) @ rest) (int (length pre)) (length (c # t) + n) NUL =
      csv_find_next_comma ((pre @ [c]) @ t @ rest) (int (length (pre @ [c]))) (length t + n) NUL"
    by (simp add: rd_at add.commute)
  then show ?case
    using Cons.IH [of "pre @ [c]"] Cons.prems by (simp add: algebra_simps)
qed

lemma csv_find_comma:
  assumes "\<forall>c\<in>set t. c \<noteq> CHR '',''" and "p = int (length pre) + int (length t)"
  shows "csv_find_next_comma (pre @ t @ CHR '','' # rest) (int (length pre)) (length t + Suc n) NUL =
         bnd (csv_trim_back (pre @ t @ NUL # rest) (p - 1)) (\<lambda>b. Inr (b, Some p))"
proof -
  have "rd (pre @ t @ CHR '','' # rest) p = Inr (CHR '','')"
    using rd_at [of p "pre @ t"] assms(2) by simp
  moreover have "wr (pre @ t @ CHR '','' # rest) p NUL = Inr (pre @ t @ NUL # rest)"
    using wr_at [of p "pre @ t"] assms(2) by simp
  ultimately show ?thesis
    by (subst csv_find_scan [OF assms(1)]) (simp add: assms(2) [symmetric])
qed

lemma csv_skip_blanks:
  assumes "blanks w" and "\<not> is_whitespace x"
  shows "csv_skip (pre @ w @ x # rest) (int (length pre)) (length w + Suc n) =
         Inr (int (length pre) + int (length w), Suc n)"
  using assms(1)
proof (induction w arbitrary: pre)
  case Nil
  then show ?case using assms(2) by (simp add: rd_at)
next
  case (Cons c w)
  then show ?case
    using Cons.IH [of "pre @ [c]"] by (simp add: rd_at blanks_def algebra_simps)
qed

lemma cell_ok_no_comma:
  assumes "cell_ok (w1, t, w2)"
  shows "\<forall>c\<in>set (t @ w2). c \<noteq> CHR '',''"
proof -
  have "\<forall>c\<in>set t. c \<noteq> CHR '',''"
    using assms by (simp add: clean_def)
  moreover have "\<forall>c\<in>set w2. is_whitespace c"
    using assms by (simp add: blanks_def)
  then have "\<forall>c\<in>set w2. c \<noteq> CHR '',''"
    by (auto simp: is_whitespace_def)
  ultimately show ?thesis by auto
qed

lemma cell_ok_no_NUL: "cell_ok (w1, t, w2) \<Longrightarrow> NUL \<notin> set t"
  unfolding cell_ok.simps clean_def by blast

text \<open>The cell at the front of the remaining text, followed by a comma.\<close>

lemma csv_find_cell:
  assumes c: "cell_ok (w1, t, w2)" and pre: "t \<noteq> [] \<or> (pre \<noteq> [] \<and> \<not> is_whitespace (last pre))"
  shows "\<exists>w1'. length w1' = length w1 \<and>
    csv_find_next_comma (pre @ w1 @ t @ w2 @ CHR '','' # rest) (int (length pre + length w1))
      (length (t @ w2) + Suc n) NUL =
    Inr (pre @ w1' @ t @ replicate (length w2) NUL @ NUL # rest,
         Some (int (length pre + length w1) + int (length (t @ w2))))"
proof -
  let ?d = "int (length pre + length w1)"
  have noc: "\<forall>c\<in>set (t @ w2). c \<noteq> CHR '',''"
    using cell_ok_no_comma [OF c] .
  have find: "csv_find_next_comma (pre @ w1 @ t @ w2 @ CHR '','' # rest) ?d
      (length (t @ w2) + Suc n) NUL =
    bnd (csv_trim_back (pre @ w1 @ t @ w2 @ NUL # rest) (?d + int (length (t @ w2)) - 1))
      (\<lambda>b. Inr (b, Some (?d + int (length (t @ w2)))))"
    using csv_find_comma [OF noc refl, of "pre @ w1" rest n] by simp
  show ?thesis
  proof (cases "t = []")
    case False
    then obtain u x where t: "t = u @ [x]"
      by (metis rev_exhaust)
    have "csv_trim_back (pre @ w1 @ t @ w2 @ NUL # rest) (?d + int (length (t @ w2)) - 1) =
          Inr (pre @ w1 @ t @ replicate (length w2) NUL @ NUL # rest)"
      using csv_trim_back_blanks [of w2 x "pre @ w1 @ u" "NUL # rest"] c t
      by (simp add: clean_def algebra_simps)
    then show ?thesis
      using find by auto
  next
    case True
    then have w2: "w2 = []"
      using c by simp
    obtain u x where p: "pre = u @ [x]" "\<not> is_whitespace x"
      using pre True by (metis last_snoc rev_exhaust)
    have "csv_trim_back (pre @ w1 @ t @ w2 @ NUL # rest) (?d + int (length (t @ w2)) - 1) =
          Inr (pre @ replicate (length w1) NUL @ t @ replicate (length w2) NUL @ NUL # rest)"
      using csv_trim_back_blanks [of w1 x u "NUL # rest"] c p True w2
      by (simp add: algebra_simps)
    then show ?thesis
      using find by (intro exI [of _ "replicate (length w1) NUL"]) simp
  qed
qed

lemma blank_facts [simp]: "\<not> is_whitespace NUL" "\<not> is_whitespace (CHR '','')"
  by (simp_all add: is_whitespace_def)

lemma csv_loop_step:
  assumes "csv_skip b data len = Inr (d, l)" and "l \<noteq> 0" and "rd b d = Inr y"
    and "y \<noteq> CHR 0x22" and "y \<noteq> CHR 0x27" and "\<And>k. m k"
    and "csv_find_next_comma b d l NUL = Inr (b', r)"
  shows "csv_loop m k b data len used cap =
    (case r of None \<Rightarrow> Inr (b', used @ [d])
     | Some p \<Rightarrow> csv_loop m (if length used = cap then Suc k else k) b' (p + 1)
                  (nat (int l - (p - d + 1))) (used @ [d])
                  (if length used = cap then cap * 2 else cap))"
proof -
  have "len \<noteq> 0"
    using assms(1,2) csv_skip_le by fastforce
  then show ?thesis
    using assms by (subst csv_loop.simps) (simp add: Let_def)
qed

lemma field_head:
  assumes "cell_ok (w1, t, w2)" and "x = NUL \<or> x = CHR '','' "
  obtains y ys where "t @ w2 @ [x] = y # ys" "\<not> is_whitespace y" "y \<noteq> CHR 0x22" "y \<noteq> CHR 0x27"
proof (cases t)
  case Nil
  with assms show thesis
    by (intro that [of x "[]"]) auto
next
  case (Cons y ys)
  with assms(1) show thesis
    by (intro that [of y "ys @ w2 @ [x]"]) (auto simp: clean_def)
qed

lemma csv_loop_print:
  assumes "\<And>k. m k" and "row_ok cs"
    and "fst (snd (hd cs)) \<noteq> [] \<or> (pre \<noteq> [] \<and> \<not> is_whitespace (last pre))"
  shows "\<exists>tl ps. csv_loop m k (pre @ print_cells cs @ NUL # post) (int (length pre))
             (length (print_cells cs) + 1) used cap = Inr (pre @ tl @ NUL # post, used @ ps) \<and>
           length tl = length (print_cells cs) \<and>
           list_all2 (\<lambda>p c. c_string (pre @ tl @ NUL # post) p = Inr (cell_text c)) ps cs"
  using assms(2,3)
proof (induction cs arbitrary: pre k used cap)
  case Nil
  then show ?case by simp
next
  case (Cons c cs)
  obtain w1 t w2 where c: "c = (w1, t, w2)"
    by (cases c)
  have ok: "cell_ok (w1, t, w2)"
    using Cons.prems(1) c by (cases cs) auto
  have pre: "t \<noteq> [] \<or> (pre \<noteq> [] \<and> \<not> is_whitespace (last pre))"
    using Cons.prems(2) c by simp
  let ?d = "int (length pre) + int (length w1)"
  show ?case
  proof (cases cs)
    case Nil
    then have w2: "w2 = []"
      using Cons.prems(1) c by simp
    obtain y ys where y: "t @ w2 @ [NUL] = y # ys" "\<not> is_whitespace y"
        "y \<noteq> CHR 0x22" "y \<noteq> CHR 0x27"
      using field_head [OF ok] by blast
    let ?b = "pre @ w1 @ t @ NUL # post"
    have b: "?b = pre @ w1 @ y # ys @ post"
      using y(1) w2 by (metis append.assoc append_Cons append_Nil)
    have "csv_skip ?b (int (length pre)) (length w1 + Suc (length t)) = Inr (?d, Suc (length t))"
      unfolding b using ok y by (intro csv_skip_blanks) simp_all
    moreover have "rd ?b ?d = Inr y"
      unfolding b using rd_at [of ?d "pre @ w1" y] by simp
    moreover have "csv_find_next_comma ?b ?d (length t + Suc 0) NUL = Inr (?b, None)"
    proof -
      have "\<forall>c\<in>set (t @ [NUL]). c \<noteq> CHR '',''"
        using ok by (simp add: clean_def)
      from csv_find_scan [OF this, of "pre @ w1" post 0] show ?thesis
        by simp
    qed
    ultimately have "csv_loop m k ?b (int (length pre)) (length w1 + Suc (length t)) used cap =
        Inr (?b, used @ [?d])"
      using csv_loop_step [where m = m and r = None] y(3,4) assms(1) by fastforce
    moreover have "c_string ?b ?d = Inr t"
      by (intro c_string_at [of _ "pre @ w1" t post] cell_ok_no_NUL [OF ok]) simp_all
    ultimately show ?thesis
      using c Nil w2 by (intro exI [of _ "w1 @ t"] exI [of _ "[?d]"]) simp
  next
    case (Cons c' cs')
    let ?rest = "print_cells cs @ NUL # post"
    let ?n = "length (print_cells cs)"
    obtain y ys where y: "t @ w2 @ '','' = y # ys" "\<not> is_whitespace y"
        "y \<noteq> CHR 0x22" "y \<noteq> CHR 0x27"
      using field_head [OF ok] by blast
    let ?b = "pre @ w1 @ t @ w2 @ CHR '','' # ?rest"
    have b: "?b = pre @ w1 @ y # ys @ ?rest"
      using y(1) by (metis append.assoc append_Cons append_Nil)
    let ?l = "length (t @ w2) + Suc (Suc ?n)"
    have skip: "csv_skip ?b (int (length pre)) (length w1 + ?l) = Inr (?d, ?l)"
      unfolding b using csv_skip_blanks [of w1 y pre "ys @ ?rest" "length (t @ w2) + Suc ?n"] ok y
      by simp
    have first: "rd ?b ?d = Inr y"
      unfolding b using rd_at [of ?d "pre @ w1" y] by simp
    obtain w1' where w1': "length w1' = length w1"
      and find: "csv_find_next_comma ?b ?d ?l NUL =
        Inr (pre @ w1' @ t @ replicate (length w2) NUL @ NUL # ?rest,
             Some (?d + int (length (t @ w2))))"
      using csv_find_cell [OF ok pre, of ?rest "Suc ?n"] by auto
    let ?pre' = "pre @ w1' @ t @ replicate (length w2) NUL @ [NUL]"
    have p': "int (length ?pre') = ?d + int (length (t @ w2)) + 1"
      using w1' by simp
    have rest_ok: "row_ok cs"
      using Cons.prems(1) Cons by simp
    obtain k' cap' tl ps where
      step: "csv_loop m k ?b (int (length pre)) (length w1 + ?l) used cap =
        csv_loop m k' (?pre' @ print_cells cs @ NUL # post) (int (length ?pre')) (?n + 1)
          (used @ [?d]) cap'"
      and IH: "csv_loop m k' (?pre' @ print_cells cs @ NUL # post) (int (length ?pre')) (?n + 1)
          (used @ [?d]) cap' = Inr (?pre' @ tl @ NUL # post, (used @ [?d]) @ ps)"
        "length tl = ?n"
        "list_all2 (\<lambda>p c. c_string (?pre' @ tl @ NUL # post) p = Inr (cell_text c)) ps cs"
    proof -
      let ?k = "if length used = cap then Suc k else k"
      let ?cap = "if length used = cap then cap * 2 else cap"
      have "csv_loop m k ?b (int (length pre)) (length w1 + ?l) used cap =
        csv_loop m ?k (?pre' @ print_cells cs @ NUL # post) (int (length ?pre')) (?n + 1)
          (used @ [?d]) ?cap"
      proof -
        have len: "nat (int ?l - (?d + int (length (t @ w2)) - ?d + 1)) = ?n + 1"
          by simp
        have "?l \<noteq> 0"
          by simp
        from csv_loop_step [where m = m, OF skip this first y(3,4) assms(1) find]
        show ?thesis
          unfolding p' len option.case by simp
      qed
      moreover obtain tl ps where "csv_loop m ?k (?pre' @ print_cells cs @ NUL # post)
          (int (length ?pre')) (?n + 1) (used @ [?d]) ?cap =
            Inr (?pre' @ tl @ NUL # post, (used @ [?d]) @ ps)"
        "length tl = ?n"
        "list_all2 (\<lambda>p c. c_string (?pre' @ tl @ NUL # post) p = Inr (cell_text c)) ps cs"
        using Cons.IH [OF rest_ok, of ?pre' ?k "used @ [?d]" ?cap] by auto
      ultimately show thesis
        using that by blast
    qed
    have "c_string (?pre' @ tl @ NUL # post) ?d = Inr t"
    proof (cases w2)
      case Nil
      then show ?thesis
        using w1' by (intro c_string_at [of _ "pre @ w1'" t] cell_ok_no_NUL [OF ok]) simp_all
    next
      case (Cons _ _)
      then show ?thesis
        using w1' by (intro c_string_at [of _ "pre @ w1'" t] cell_ok_no_NUL [OF ok]) simp_all
    qed
    then show ?thesis
      using step IH c Cons w1'
      by (intro exI [of _ "w1' @ t @ replicate (length w2) NUL @ [NUL] @ tl"]
                exI [of _ "?d # ps"]) (simp add: algebra_simps)
  qed
qed

subsection \<open>What unescaping does\<close>

text \<open>
  The string \<open>csv_unescape\<close> leaves behind: the character after a backslash is copied over the
  backslash, and kept as well. A lone backslash at the end has nothing to be replaced by.
\<close>

fun unescaped :: "string \<Rightarrow> string option" where
  "unescaped [] = Some []"
| "unescaped (c # cs) =
     (if c = CHR 0x5C then
        (case cs of [] \<Rightarrow> None | d # ds \<Rightarrow> map_option (\<lambda>r. d # d # r) (unescaped ds))
      else map_option (Cons c) (unescaped cs))"

lemma csv_unescape_eval:
  assumes "unescaped s = Some t" and "NUL \<notin> set s"
  shows "csv_unescape (pre @ s @ NUL # post) (int (length pre)) = Inr (pre @ t @ NUL # post)"
  using assms
proof (induction s arbitrary: pre t rule: unescaped.induct)
  case 1
  then show ?case
    by (subst csv_unescape.simps) (simp add: rd_at)
next
  case (2 c cs)
  show ?case
  proof (cases "c = CHR 0x5C")
    case False
    then obtain r where r: "unescaped cs = Some r" "t = c # r"
      using "2.prems" by auto
    then have "csv_unescape ((pre @ [c]) @ cs @ NUL # post) (int (length (pre @ [c]))) =
        Inr ((pre @ [c]) @ r @ NUL # post)"
      using "2.IH"(2) [OF False r(1), of "pre @ [c]"] "2.prems"(2) by simp
    then show ?thesis
      using False r "2.prems"(2)
      by (subst csv_unescape.simps) (auto simp: rd_at add.commute)
  next
    case True
    then obtain d ds r where r: "cs = d # ds" "unescaped ds = Some r" "t = d # d # r"
      using "2.prems"(1) by (auto split: list.splits)
    let ?b = "pre @ c # d # ds @ NUL # post"
    have "csv_unescape ((pre @ [d, d]) @ ds @ NUL # post) (int (length (pre @ [d, d]))) =
        Inr ((pre @ [d, d]) @ r @ NUL # post)"
      using "2.IH"(1) [OF True r(1,2), of "pre @ [d, d]"] "2.prems"(2) r(1) by simp
    moreover have "rd ?b (int (length pre) + 1) = Inr d"
      using rd_at [of "int (length pre) + 1" "pre @ [c]" d] by simp
    moreover have "rd ?b (int (length pre)) = Inr c" "wr ?b (int (length pre)) d =
        Inr (pre @ d # d # ds @ NUL # post)"
      by (simp_all add: rd_at wr_at)
    ultimately show ?thesis
      using True r by (subst csv_unescape.simps) (simp add: add.commute)
  qed
qed

lemma unescaped_length: "unescaped s = Some t \<Longrightarrow> length t = length s"
  by (induction s arbitrary: t rule: unescaped.induct) (auto split: if_splits list.splits)

subsection \<open>Properties\<close>

text \<open>C21: Splitting a printed row gives back its cells: with a block that ends in NUL and enough
  memory, \<open>csv_parse\<close> returns one field per cell and every field reads as the cell's text
  without the white space around it. (The first cell must not be empty: the splitter would look
  for white space before the block.)\<close>

theorem csv_parse_print:
  assumes "row_ok cs" and "cell_text (hd cs) \<noteq> []" and "\<forall>k. m k"
  shows "\<exists>b flds. csv_parse m (print_cells cs @ NUL # post) 0 (length (print_cells cs) + 1) =
           Inr (Some (b, flds)) \<and> length b = length (print_cells cs @ NUL # post) \<and>
           map (c_string b) flds = map (\<lambda>c. Inr (cell_text c)) cs"
proof -
  have "fst (snd (hd cs)) \<noteq> []"
    using assms(2) by (cases "hd cs") auto
  then obtain tl ps where "csv_loop m 1 (print_cells cs @ NUL # post) 0 (length (print_cells cs) + 1) [] 5
      = Inr (tl @ NUL # post, ps)" and len: "length tl = length (print_cells cs)"
    and den: "list_all2 (\<lambda>p c. c_string (tl @ NUL # post) p = Inr (cell_text c)) ps cs"
    using csv_loop_print [where m = m and pre = "[]" and post = post and k = 1 and used = "[]" and cap = 5,
        OF _ assms(1)] assms(3) by auto
  moreover have "map (c_string (tl @ NUL # post)) ps = map (\<lambda>c. Inr (cell_text c)) cs"
    using den by (induction rule: list_all2_induct) auto
  ultimately show ?thesis
    using assms(3) by (simp add: csv_parse_def)
qed

lemma csv_parse_print_witness:
  "\<exists>b flds. csv_parse (\<lambda>_. True) ('' a ,b'' @ [NUL]) 0 6 = Inr (Some (b, flds)) \<and>
     map (c_string b) flds = [Inr ''a'', Inr ''b'']"
proof -
  have "row_ok [('' '', ''a'', '' ''), ([], ''b'', [])]"
    by code_simp
  from csv_parse_print [OF this, of "\<lambda>_. True" "[]"] show ?thesis
    by (auto simp: eval_nat_numeral)
qed

text \<open>\<open>csv_unescape\<close> keeps the length of a string: it replaces every backslash by the
  character behind it and leaves that character in place as well.\<close>

theorem csv_unescape_doubles:
  assumes "unescaped s = Some t" and "NUL \<notin> set s"
  shows "csv_unescape (pre @ s @ NUL # post) (int (length pre)) = Inr (pre @ t @ NUL # post) \<and>
         length t = length s"
  using csv_unescape_eval [OF assms] unescaped_length [OF assms(1)] by simp

lemma csv_unescape_doubles_witness:
  "csv_unescape [CHR 0x5C, CHR ''n'', CHR ''x'', NUL] 0 = Inr [CHR ''n'', CHR ''n'', CHR ''x'', NUL]"
  using csv_unescape_doubles [of "[CHR 0x5C, CHR ''n'', CHR ''x'']" "''nnx''" "[]" "[]"] by simp

end
