(* ===== verification/Stream.thy ===== *)
theory Stream
  imports Prelude
begin

text \<open>
  The byte stream of \<^verbatim>\<open>mproxy/src/stream.c\<close>: a block of memory, its capacity
  and the number of bytes in use. The element type is a parameter: the flow handler uses
  streams of bytes, the rule reader streams of characters (the code casts between the two).
  \<open>contents\<close> is the abstract value of a stream, the list of its bytes in use.
\<close>

record 'a stream =
  sdata :: "'a list"
  scap :: nat
  slen :: nat

definition DEFAULT_STREAM_LEN :: nat where
  "DEFAULT_STREAM_LEN = 512"

text \<open>
  ISO C leaves \<open>memcpy\<close> on overlapping regions undefined; some C libraries implement it
  as \<open>memmove\<close>. Both are covered.
\<close>

datatype memcpy_mode = IsoC | AsMemmove

subsection \<open>Operations\<close>

definition stream_new :: "bool \<Rightarrow> 'a heap_reply \<Rightarrow> nat \<Rightarrow> 'a stream option" where
  "stream_new got_struct h sz =
     (if \<not> got_struct then None
      else case malloc h sz of
             None \<Rightarrow> None
           | Some d \<Rightarrow> Some \<lparr>sdata = d, scap = sz, slen = 0\<rparr>)"

definition stream_expand :: "'a heap_reply \<Rightarrow> 'a stream \<Rightarrow> nat \<Rightarrow> int \<times> 'a stream" where
  "stream_expand h s sz =
     (case realloc h (sdata s) (scap s + sz) of
        None \<Rightarrow> (1, s)
      | Some d \<Rightarrow> (0, s\<lparr>scap := scap s + sz, sdata := d\<rparr>))"

definition stream_append ::
  "'a heap_reply \<Rightarrow> 'a stream \<Rightarrow> 'a list \<Rightarrow> nat \<Rightarrow> (int \<times> 'a stream) res" where
  "stream_append h s src n =
     (let (rc, s') = (if slen s + n > scap s then stream_expand h s n else (0, s))
      in if rc \<noteq> 0 then Inr (1, s')
         else bnd (rd_block src 0 n) (\<lambda>xs.
              bnd (wr_block (sdata s') (int (slen s')) xs) (\<lambda>d.
              Inr (0, s'\<lparr>sdata := d, slen := slen s' + n\<rparr>))))"

text \<open>
  \<open>memcpy(s->data, s->data + size, s->len - size)\<close>: the difference is a \<open>size_t\<close>, so
  it wraps to a huge count when \<open>size > len\<close>; the regions overlap when the bytes kept are
  more than the bytes dropped.
\<close>

definition stream_left_shift :: "memcpy_mode \<Rightarrow> 'a stream \<Rightarrow> nat \<Rightarrow> 'a stream res" where
  "stream_left_shift mc s sz =
     (if slen s < sz then Inl OutOfBounds
      else if mc = IsoC \<and> sz < slen s - sz then Inl Overlap
      else bnd (rd_block (sdata s) (int sz) (slen s - sz)) (\<lambda>xs.
           bnd (wr_block (sdata s) 0 xs) (\<lambda>d.
           Inr (s\<lparr>sdata := d, slen := slen s - sz\<rparr>))))"

subsection \<open>Invariant and abstract value\<close>

definition stream_wf :: "'a stream \<Rightarrow> bool" where
  "stream_wf s \<longleftrightarrow> length (sdata s) = scap s \<and> slen s \<le> scap s"

definition contents :: "'a stream \<Rightarrow> 'a list" where
  "contents s = take (slen s) (sdata s)"

lemma length_contents [simp]: "stream_wf s \<Longrightarrow> length (contents s) = slen s"
  by (simp add: contents_def stream_wf_def)

lemma stream_new_wf: "stream_new g h n = Some s \<Longrightarrow> stream_wf s \<and> contents s = [] \<and> scap s = n"
  by (auto simp: stream_new_def stream_wf_def contents_def c_mem
           split: if_splits option.splits)

lemma stream_expand_wf:
  assumes "stream_wf s" and "stream_expand h s n = (rc, s')"
  shows "stream_wf s'" and "contents s' = contents s"
    and "rc = 0 \<longleftrightarrow> granted h" and "rc = 0 \<Longrightarrow> scap s' = scap s + n" and "slen s' = slen s"
proof -
  show "rc = 0 \<longleftrightarrow> granted h" "rc = 0 \<Longrightarrow> scap s' = scap s + n" "slen s' = slen s"
    using assms(2) by (auto simp: stream_expand_def realloc_def split: if_splits)
  show "stream_wf s'"
    using assms by (auto simp: stream_expand_def stream_wf_def c_mem split: option.splits)
  show "contents s' = contents s"
    using assms
    by (auto simp: stream_expand_def stream_wf_def contents_def c_mem split: option.splits)
qed

lemma contents_append_block:
  assumes "stream_wf s" and "slen s + length xs \<le> scap s"
  shows "wr_block (sdata s) (int (slen s)) xs =
           Inr (take (slen s) (sdata s) @ xs @ drop (slen s + length xs) (sdata s))"
  using assms by (simp add: wr_block_def stream_wf_def)

lemma stream_append_cases:
  assumes wf: "stream_wf s" and n: "n \<le> length src"
  obtains (full) "slen s + n > scap s" "\<not> granted h" "stream_append h s src n = Inr (1, s)"
  | (ok) s' where "stream_append h s src n = Inr (0, s')" "stream_wf s'"
      "contents s' = contents s @ take n src"
proof (cases "slen s + n > scap s \<and> \<not> granted h")
  case True
  then have "stream_expand h s n = (1, s)"
    by (simp add: stream_expand_def realloc_def)
  with True show thesis
    by (intro full) (simp_all add: stream_append_def)
next
  case False
  define r where "r = (if slen s + n > scap s then stream_expand h s n else (0, s))"
  obtain rc t where rt: "r = (rc, t)"
    by (cases r)
  have "rc = 0 \<and> stream_wf t \<and> contents t = contents s \<and> slen t = slen s \<and> slen t + n \<le> scap t"
  proof (cases "slen s + n > scap s")
    case True
    with False have e: "stream_expand h s n = (rc, t)" and g: "granted h"
      using rt by (simp_all add: r_def)
    show ?thesis
      using stream_expand_wf [OF wf e] g wf by (simp add: stream_wf_def)
  next
    case False
    then show ?thesis
      using rt wf by (simp add: r_def)
  qed
  then have t: "rc = 0" "stream_wf t" "contents t = contents s" "slen t = slen s"
    "slen t + n \<le> scap t"
    by simp_all
  define s' where "s' = t\<lparr>sdata := take (slen t) (sdata t) @ take n src @
      drop (slen t + n) (sdata t), slen := slen t + n\<rparr>"
  have rd: "rd_block src 0 n = Inr (take n src)"
    using n by (simp add: rd_block_def)
  have wr: "wr_block (sdata t) (int (slen t)) (take n src) = Inr (sdata s')"
    using contents_append_block [OF t(2), of "take n src"] t(5) n
    by (simp add: s'_def min_absorb2)
  have "stream_append h s src n = Inr (0, s')"
    unfolding stream_append_def r_def [symmetric] rt using t(1)
    by (simp add: rd wr) (simp add: s'_def)
  moreover have "stream_wf s'" and "contents s' = contents s @ take n src"
    using t n wf by (auto simp: s'_def stream_wf_def contents_def min_absorb2)
  ultimately show thesis by (rule ok)
qed

lemma stream_left_shift_ok:
  assumes wf: "stream_wf s" and n: "n \<le> slen s" and ov: "mc = AsMemmove \<or> slen s \<le> 2 * n"
  obtains s' where "stream_left_shift mc s n = Inr s'" "stream_wf s'"
    "contents s' = drop n (contents s)" "scap s' = scap s"
proof -
  define xs where "xs = take (slen s - n) (drop n (sdata s))"
  have len: "length xs = slen s - n"
    using wf n by (auto simp: xs_def stream_wf_def)
  have rd: "rd_block (sdata s) (int n) (slen s - n) = Inr xs"
    using wf n by (simp add: rd_block_def xs_def stream_wf_def)
  define d where "d = xs @ drop (slen s - n) (sdata s)"
  have wr: "wr_block (sdata s) 0 xs = Inr d"
    using wf n len by (simp add: wr_block_def d_def stream_wf_def)
  define s' where "s' = s\<lparr>sdata := d, slen := slen s - n\<rparr>"
  have "\<not> (mc = IsoC \<and> n < slen s - n)"
    using ov n by auto
  then have "stream_left_shift mc s n = Inr s'"
    using n rd wr by (simp add: stream_left_shift_def s'_def del: memcpy_mode.split)
  moreover have "stream_wf s'"
    using wf n len by (auto simp: s'_def d_def stream_wf_def)
  moreover have "contents s' = drop n (contents s)"
    using len by (simp add: s'_def d_def contents_def xs_def drop_take)
  ultimately show thesis
    using that [of s'] by (simp add: s'_def)
qed

lemma stream_left_shift_overlap:
  assumes "n \<le> slen s" and "2 * n < slen s"
  shows "stream_left_shift IsoC s n = Inl Overlap"
  using assms by (auto simp: stream_left_shift_def)

subsection \<open>Streams as sinks\<close>

text \<open>
  What the writers of a stream rely on: a well-formed sink that gets its memory accepts the
  bytes and appends them to its value. The client lemma, proved once here, is about a whole
  sequence of writes, each with its own allocator reply.
\<close>

locale sink =
  fixes wf :: "'s \<Rightarrow> bool"
    and val :: "'s \<Rightarrow> 'a list"
    and put :: "'a heap_reply \<Rightarrow> 's \<Rightarrow> 'a list \<Rightarrow> (int \<times> 's) res"
  assumes put_ok: "wf s \<Longrightarrow> granted h \<Longrightarrow>
            \<exists>s'. put h s xs = Inr (0, s') \<and> wf s' \<and> val s' = val s @ xs"
    and put_total: "wf s \<Longrightarrow> \<exists>rc s'. put h s xs = Inr (rc, s') \<and> wf s'"
begin

primrec put_all :: "(nat \<Rightarrow> 'a heap_reply) \<Rightarrow> nat \<Rightarrow> 's \<Rightarrow> 'a list list \<Rightarrow> 's res" where
  "put_all h k s [] = Inr s"
| "put_all h k s (xs # xss) =
     bnd (put (h k) s xs) (\<lambda>(rc, s'). put_all h (Suc k) s' xss)"

lemma put_all_ok:
  assumes "wf s" and "\<And>k. granted (h k)"
  shows "\<exists>s'. put_all h k s xss = Inr s' \<and> wf s' \<and> val s' = val s @ concat xss"
  using assms(1)
proof (induction xss arbitrary: s k)
  case Nil
  then show ?case by simp
next
  case (Cons xs xss)
  obtain t where t: "put (h k) s xs = Inr (0, t)" "wf t" "val t = val s @ xs"
    using put_ok [OF Cons.prems assms(2)] by blast
  then show ?case
    using Cons.IH [OF t(2), of "Suc k"] by simp
qed

lemma put_all_total: "wf s \<Longrightarrow> \<exists>s'. put_all h k s xss = Inr s' \<and> wf s'"
proof (induction xss arbitrary: s k)
  case Nil
  then show ?case by simp
next
  case (Cons xs xss)
  obtain rc t where t: "put (h k) s xs = Inr (rc, t)" "wf t"
    using put_total [OF Cons.prems] by blast
  then show ?case
    using Cons.IH [OF t(2), of "Suc k"] by simp
qed

end

interpretation stream_sink: sink stream_wf contents "\<lambda>h s xs. stream_append h s xs (length xs)"
proof unfold_locales
  fix s :: "'a stream" and h :: "'a heap_reply" and xs
  assume wf: "stream_wf s"
  show "\<exists>rc s'. stream_append h s xs (length xs) = Inr (rc, s') \<and> stream_wf s'"
    by (rule stream_append_cases [OF wf order_refl, where h = h]) (auto simp: wf)
  show "\<exists>s'. stream_append h s xs (length xs) = Inr (0, s') \<and> stream_wf s' \<and>
          contents s' = contents s @ xs" if "granted h"
    by (rule stream_append_cases [OF wf order_refl, where h = h]) (auto simp: that)
qed

subsection \<open>Properties\<close>

text \<open>Appending to a stream that gets its memory adds the bytes behind those already there and
  keeps the stream well formed; when the memory is refused the stream is left as it was and 1 is
  returned. A source of at least \<open>n\<close> bytes is never read beyond them.\<close>

theorem stream_append_contents:
  assumes "stream_wf s" and "n \<le> length src"
  shows "(slen s + n > scap s \<and> \<not> granted h \<and> stream_append h s src n = Inr (1, s)) \<or>
    (\<exists>s'. stream_append h s src n = Inr (0, s') \<and> stream_wf s' \<and> contents s' = contents s @ take n src)"
  by (rule stream_append_cases [OF assms, where h = h]) blast+

lemma stream_append_contents_witness:
  "\<exists>s'. stream_append \<lparr>granted = True, junk = (\<lambda>_. 0)\<rparr> \<lparr>sdata = [1, 2 :: nat], scap = 2, slen = 1\<rparr>
      [5, 6, 7] 3 = Inr (0, s') \<and> contents s' = [1, 5, 6, 7]"
  using stream_append_contents [of "\<lparr>sdata = [1, 2 :: nat], scap = 2, slen = 1\<rparr>" 3 "[5, 6, 7]"
      "\<lparr>granted = True, junk = (\<lambda>_. 0)\<rparr>"]
  by (auto simp: stream_wf_def contents_def)

text \<open>C32: Dropping the first \<open>n\<close> bytes of a stream leaves the others, in order. The copy is between
  overlapping regions exactly when more bytes are kept than dropped, which ISO C forbids; a copy
  that works like \<open>memmove\<close> gives the right result there too.\<close>

theorem stream_left_shift_contents:
  assumes "stream_wf s" and "n \<le> slen s"
  shows "if mc = IsoC \<and> 2 * n < slen s then stream_left_shift mc s n = Inl Overlap
    else \<exists>s'. stream_left_shift mc s n = Inr s' \<and> stream_wf s' \<and> contents s' = drop n (contents s)"
proof (cases "mc = IsoC \<and> 2 * n < slen s")
  case True
  then show ?thesis
    using stream_left_shift_overlap [OF assms(2)] by simp
next
  case False
  then have "mc = AsMemmove \<or> slen s \<le> 2 * n"
    by (cases mc) auto
  then show ?thesis
    using stream_left_shift_ok [OF assms] False by metis
qed

lemma stream_left_shift_contents_witness:
  "\<exists>s'. stream_left_shift IsoC \<lparr>sdata = [1, 2, 3, 4 :: nat], scap = 4, slen = 3\<rparr> 2 = Inr s' \<and>
     contents s' = [3]"
  using stream_left_shift_contents [of "\<lparr>sdata = [1, 2, 3, 4 :: nat], scap = 4, slen = 3\<rparr>" 2 IsoC]
  by (auto simp: stream_wf_def contents_def)

end
