(* ===== verification/Rules.thy ===== *)
theory Rules
  imports Aliases Csv Stream
begin

text \<open>
  The attack tables of \<^verbatim>\<open>mproxy/src/attack.c\<close> and the code that fills them: one rule
  (\<open>attacker_add_rule\<close>) and a whole profile (\<open>attacker_read_rows\<close>). A table has a row per
  OpenFlow version and a column per message type; the drop table holds a percentage in a
  \<open>char\<close> (signed, 8 bits), the duplication table a count in a \<open>counter_t\<close> (unsigned, 8 bits).
\<close>

subsection \<open>Tables\<close>

type_synonym 'v table = "'v list list"

record rule_tables =
  drop_tab :: "byte table"
  dup_tab :: "byte table"

definition init_tables :: rule_tables where
  "init_tables =
     \<lparr>drop_tab = replicate 5 (replicate 35 0), dup_tab = replicate 5 (replicate 35 0)\<rparr>"

definition tab_get :: "'v table \<Rightarrow> int \<Rightarrow> int \<Rightarrow> 'v res" where
  "tab_get t i j = bnd (rd t i) (\<lambda>row. rd row j)"

definition tab_set :: "'v table \<Rightarrow> int \<Rightarrow> int \<Rightarrow> 'v \<Rightarrow> 'v table res" where
  "tab_set t i j x = bnd (rd t i) (\<lambda>row. bnd (wr row j x) (\<lambda>row'. wr t i row'))"

text \<open>The two \<open>for\<close> loops of a rule, over message types and over versions.\<close>

fun fill_types :: "'v table \<Rightarrow> int \<Rightarrow> int \<Rightarrow> nat \<Rightarrow> 'v \<Rightarrow> 'v table res" where
  "fill_types t i j 0 x = Inr t"
| "fill_types t i j (Suc n) x =
     bnd (tab_set t i j x) (\<lambda>t'. fill_types t' i (j + 1) n x)"

fun fill_versions :: "'v table \<Rightarrow> int \<Rightarrow> nat \<Rightarrow> int \<Rightarrow> 'v \<Rightarrow> 'v table res" where
  "fill_versions t i 0 msg_type x = Inr t"
| "fill_versions t i (Suc n) msg_type x =
     bnd (if msg_type = OFP_MSG_TYPE_ALL then fill_types t i 0 35 x else tab_set t i msg_type x)
         (\<lambda>t'. fill_versions t' (i + 1) n msg_type x)"

definition store_rule :: "'v table \<Rightarrow> int \<Rightarrow> int \<Rightarrow> 'v \<Rightarrow> 'v table res" where
  "store_rule t ofp_ver msg_type x =
     (if ofp_ver = OFP_VER_ALL then fill_versions t 0 5 msg_type x
      else if msg_type = OFP_MSG_TYPE_ALL then fill_types t (ofp_ver - 1) 0 35 x
      else tab_set t (ofp_ver - 1) msg_type x)"

subsection \<open>One rule\<close>

text \<open>
  The probability of a DROP rule. An integer argument is stored into a \<open>char\<close>, which keeps its
  low 8 bits; a \<open>float\<close> argument is truncated, which is undefined when the integer part does
  not fit. The clamping to 0..100 happens on the \<open>char\<close>.
\<close>

definition drop_prob :: "arg_node option \<Rightarrow> byte res" where
  "drop_prob targ =
     (case targ of
        None \<Rightarrow> Inr 100
      | Some n \<Rightarrow>
          (case arg_val n of
             IntVal i \<Rightarrow> Inr (word_of_int i)
           | FloatVal a d \<Rightarrow> if a div d < 128 then Inr (word_of_int (a div d))
                             else Inl Unrepresentable
           | _ \<Rightarrow> Inr 100))"

definition clamp_prob :: "byte \<Rightarrow> byte" where
  "clamp_prob prob = (if sint prob < 0 then 0 else if sint prob > 100 then 100 else prob)"

definition drop_rule_prob :: "(nat \<Rightarrow> bool) \<Rightarrow> char list \<Rightarrow> int \<Rightarrow> (byte \<times> char list) res" where
  "drop_rule_prob ma b p =
     bnd (args_parse ma b p (CHR 0x26)) (\<lambda>(b', args).
       if args = [] then Inr (100, b')
       else bnd (args_find b' args ''p'') (\<lambda>targ.
            bnd (drop_prob targ) (\<lambda>prob. Inr (clamp_prob prob, b'))))"

definition dup_count_of :: "arg_node option \<Rightarrow> byte" where
  "dup_count_of targ =
     (case targ of
        None \<Rightarrow> 1
      | Some n \<Rightarrow> (case arg_val n of IntVal i \<Rightarrow> word_of_int i | _ \<Rightarrow> 1))"

definition dup_rule_count :: "(nat \<Rightarrow> bool) \<Rightarrow> char list \<Rightarrow> int \<Rightarrow> (byte \<times> char list) res" where
  "dup_rule_count ma b p =
     bnd (args_parse ma b p (CHR 0x26)) (\<lambda>(b', args).
       bnd (if args = [] then Inr 1
            else bnd (args_find b' args ''r'') (\<lambda>targ. Inr (dup_count_of targ)))
           (\<lambda>dup_count. Inr (dup_count - 1, b')))"

text \<open>
  The whole function: the return code, the tables and the row's block, which the parsers
  overwrite. \<open>mc\<close> and \<open>ma\<close> are the outcomes of the allocations of the CSV and argument
  parsers; \<open>csv_parse\<close> returning null leaves \<open>num_fields\<close> unset.
\<close>

definition attacker_add_rule ::
  "(nat \<Rightarrow> bool) \<Rightarrow> (nat \<Rightarrow> bool) \<Rightarrow> rule_tables \<Rightarrow> char list \<Rightarrow> nat \<Rightarrow>
     (int \<times> rule_tables \<times> char list) res" where
  "attacker_add_rule mc ma T data len =
     bnd (csv_parse mc data 0 len) (\<lambda>r. case r of None \<Rightarrow> Inl Uninit | Some (b, flds) \<Rightarrow>
     if length flds \<noteq> 8 then Inr (1, T, b)
     else bnd (bnd (c_string b (flds ! 3)) normalize_ofp_ver_str) (\<lambda>ofp_ver.
     if ofp_ver = OFP_VER_ERR then Inr (1, T, b)
     else bnd (bnd (c_string b (flds ! 4)) (normalize_ofp_msg_type ofp_ver)) (\<lambda>msg_type.
     if msg_type = OFP_MSG_TYPE_ERR then Inr (1, T, b)
     else bnd (bnd (c_string b (flds ! 6)) normalize_action_type) (\<lambda>action_type.
     if action_type = ACTION_ID_ERR then Inr (1, T, b)
     else if action_type = ACTION_ID_DROP then
       bnd (drop_rule_prob ma b (flds ! 7)) (\<lambda>(prob, b').
       bnd (store_rule (drop_tab T) ofp_ver msg_type prob) (\<lambda>t. Inr (0, T\<lparr>drop_tab := t\<rparr>, b')))
     else if action_type = ACTION_ID_DUP then
       bnd (dup_rule_count ma b (flds ! 7)) (\<lambda>(dup_count, b').
       if dup_count < 1 then Inr (1, T, b')
       else bnd (store_rule (dup_tab T) ofp_ver msg_type dup_count) (\<lambda>t.
            Inr (0, T\<lparr>dup_tab := t\<rparr>, b')))
     else Inr (0, T, b)))))"

subsection \<open>A whole profile\<close>

text \<open>
  The inner loop of \<open>attacker_read_rows\<close>: characters up to a line end or the end of the file
  are appended one by one (a failed append loses the character: its result is not looked at).
  Returns the stream, the number of appends so far, the rest of the file and whether the end
  was hit. \<open>h k\<close> is the allocator's reply to the \<open>k\<close>-th append.
\<close>

definition is_newline :: "char \<Rightarrow> bool" where
  "is_newline c \<longleftrightarrow> c = CHR 0x0A \<or> c = CHR 0x0D"

fun read_row :: "(nat \<Rightarrow> char heap_reply) \<Rightarrow> nat \<Rightarrow> char stream \<Rightarrow> char list \<Rightarrow>
    (char stream \<times> nat \<times> char list \<times> bool) res" where
  "read_row h k s [] = Inr (s, k, [], True)"
| "read_row h k s (c # cs) =
     (if is_newline c then Inr (s, k, cs, False)
      else bnd (stream_append (h k) s [c] 1) (\<lambda>(rc, s'). read_row h (Suc k) s' cs))"

lemma read_row_shorter: "read_row h k s cs = Inr (s', k', rest, False) \<Longrightarrow> length rest < length cs"
  by (induction h k s cs rule: read_row.induct) (force simp: bnd_Inr split: if_splits prod.splits)+

text \<open>
  The outer loop. \<open>mc n\<close> and \<open>ma n\<close> are the parsers' allocation outcomes for line \<open>n\<close>. The first
  line is a heading; empty lines and lines starting with \<open>#\<close> are skipped.
\<close>

definition rows_line :: "(nat \<Rightarrow> bool) \<Rightarrow> (nat \<Rightarrow> bool) \<Rightarrow> nat \<Rightarrow> char stream \<Rightarrow> rule_tables \<Rightarrow>
    (rule_tables \<times> char stream) res" where
  "rows_line mc ma line_no s T =
     (if line_no > 1 \<and> slen s > 1 then
        bnd (rd (sdata s) 0) (\<lambda>c.
          if c \<noteq> CHR 0x23 then
            bnd (attacker_add_rule mc ma T (sdata s) (slen s))
                (\<lambda>(rc, T', b). Inr (T', s\<lparr>sdata := b\<rparr>))
          else Inr (T, s))
      else Inr (T, s))"

function read_rows_loop ::
  "(nat \<Rightarrow> char heap_reply) \<Rightarrow> (nat \<Rightarrow> nat \<Rightarrow> bool) \<Rightarrow> (nat \<Rightarrow> nat \<Rightarrow> bool) \<Rightarrow> nat \<Rightarrow> char stream \<Rightarrow>
     nat \<Rightarrow> rule_tables \<Rightarrow> char list \<Rightarrow> rule_tables res" where
  "read_rows_loop h mc ma k s line_no T cs =
     bnd (read_row h k s cs) (\<lambda>(s, k, rest, eof).
     bnd (stream_append (h k) s [NUL] 1) (\<lambda>(rc, s).
     bnd (rows_line (mc line_no) (ma line_no) line_no s T) (\<lambda>(T, s).
     if eof then Inr T
     else read_rows_loop h mc ma (Suc k) (s\<lparr>slen := 0\<rparr>) (Suc line_no) T rest)))"
  by pat_completeness auto
termination
  by (relation "measure (\<lambda>(h, mc, ma, k, s, line_no, T, cs). length cs)")
     (auto dest: read_row_shorter)

declare read_rows_loop.simps [simp del]

definition attacker_read_rows ::
  "bool \<Rightarrow> char heap_reply \<Rightarrow> (nat \<Rightarrow> char heap_reply) \<Rightarrow> (nat \<Rightarrow> nat \<Rightarrow> bool) \<Rightarrow>
     (nat \<Rightarrow> nat \<Rightarrow> bool) \<Rightarrow> rule_tables \<Rightarrow> char list option \<Rightarrow> rule_tables res" where
  "attacker_read_rows got h0 h mc ma T file =
     (case file of
        None \<Rightarrow> Inr T
      | Some cs \<Rightarrow>
          (case stream_new got h0 DEFAULT_STREAM_LEN of
             None \<Rightarrow> Inr T
           | Some s \<Rightarrow> read_rows_loop h mc ma 0 s 1 T cs))"

subsection \<open>Tables as grids\<close>

text \<open>
  What the rule code relies on in a table: within the grid a write succeeds and changes that
  cell only. The client lemma is about writing one value to a list of cells.
\<close>

locale grid =
  fixes wf :: "'t \<Rightarrow> bool"
    and get :: "'t \<Rightarrow> int \<Rightarrow> int \<Rightarrow> 'v res"
    and put :: "'t \<Rightarrow> int \<Rightarrow> int \<Rightarrow> 'v \<Rightarrow> 't res"
    and cells :: "(int \<times> int) set"
  assumes put_ok: "wf t \<Longrightarrow> (i, j) \<in> cells \<Longrightarrow>
      \<exists>t'. put t i j x = Inr t' \<and> wf t' \<and>
           (\<forall>a b. get t' a b = (if (a, b) = (i, j) then Inr x else get t a b))"
    and get_ok: "wf t \<Longrightarrow> (i, j) \<in> cells \<Longrightarrow> \<exists>x. get t i j = Inr x"
begin

primrec put_cells :: "'t \<Rightarrow> (int \<times> int) list \<Rightarrow> 'v \<Rightarrow> 't res" where
  "put_cells t [] x = Inr t"
| "put_cells t (c # cs) x = bnd (put t (fst c) (snd c) x) (\<lambda>t'. put_cells t' cs x)"

lemma put_cells_append: "put_cells t (cs @ ds) x = bnd (put_cells t cs x) (\<lambda>t'. put_cells t' ds x)"
  by (induction cs arbitrary: t) (simp_all add: bnd_assoc)

lemma put_cells_ok:
  assumes "wf t" and "set cs \<subseteq> cells"
  shows "\<exists>t'. put_cells t cs x = Inr t' \<and> wf t' \<and>
           (\<forall>a b. get t' a b = (if (a, b) \<in> set cs then Inr x else get t a b))"
  using assms
proof (induction cs arbitrary: t)
  case Nil
  then show ?case by simp
next
  case (Cons c cs)
  obtain i j where c: "c = (i, j)"
    by (cases c)
  obtain u where u: "put t i j x = Inr u" "wf u"
    "\<And>a b. get u a b = (if (a, b) = (i, j) then Inr x else get t a b)"
    using put_ok [OF Cons.prems(1), of i j x] Cons.prems(2) c by auto
  obtain t' where "put_cells u cs x = Inr t'" "wf t'"
    "\<And>a b. get t' a b = (if (a, b) \<in> set cs then Inr x else get u a b)"
    using Cons.IH [OF u(2)] Cons.prems(2) by auto
  then show ?case
    using u c by (intro exI [of _ t']) auto
qed

end

definition table_shape :: "'v table \<Rightarrow> bool" where
  "table_shape t \<longleftrightarrow> length t = 5 \<and> (\<forall>row\<in>set t. length row = 35)"

definition grid_cells :: "(int \<times> int) set" where
  "grid_cells = {(i, j). 0 \<le> i \<and> i < 5 \<and> 0 \<le> j \<and> j < 35}"

lemma table_row:
  assumes "table_shape t" and "(i, j) \<in> grid_cells"
  shows "nat i < length t" "nat j < 35" "length (t ! nat i) = 35" "0 \<le> i" "0 \<le> j" "i < 5" "j < 35"
proof -
  show i: "nat i < length t" "nat j < 35" "0 \<le> i" "0 \<le> j" "i < 5" "j < 35"
    using assms by (auto simp: table_shape_def grid_cells_def)
  then show "length (t ! nat i) = 35"
    using assms(1) nth_mem [OF i(1)] by (simp add: table_shape_def)
qed

lemma tab_get_eq:
  "table_shape t \<Longrightarrow> (i, j) \<in> grid_cells \<Longrightarrow> tab_get t i j = Inr (t ! nat i ! nat j)"
  using table_row [of t i j] by (simp add: tab_get_def table_shape_def rd_def)

lemma tab_set_eq:
  assumes "table_shape t" and "(i, j) \<in> grid_cells"
  shows "tab_set t i j x = Inr (t[nat i := (t ! nat i)[nat j := x]])"
  using table_row [OF assms] assms(1) by (simp add: tab_set_def table_shape_def rd_def wr_def)

lemma tab_get_set:
  assumes "table_shape t" and "(i, j) \<in> grid_cells"
  shows "tab_get (t[nat i := (t ! nat i)[nat j := x]]) a b =
         (if (a, b) = (i, j) then Inr x else tab_get t a b)"
  using table_row [OF assms]
  by (cases "a = i"; cases "b = j") (auto simp: tab_get_def rd_def nth_list_update nat_eq_iff)

interpretation tabs: grid table_shape tab_get tab_set grid_cells
proof unfold_locales
  fix t :: "'v table" and i j x
  assume t: "table_shape t" "(i, j) \<in> grid_cells"
  show "\<exists>x. tab_get t i j = Inr x"
    using tab_get_eq [OF t] by blast
  have "table_shape (t[nat i := (t ! nat i)[nat j := x]])"
    using t by (auto simp: table_shape_def grid_cells_def dest!: set_update_subset_insert [THEN subsetD])
  then show "\<exists>t'. tab_set t i j x = Inr t' \<and> table_shape t' \<and>
      (\<forall>a b. tab_get t' a b = (if (a, b) = (i, j) then Inr x else tab_get t a b))"
    using tab_set_eq [OF t] tab_get_set [OF t] by blast
qed

definition cells_of :: "int \<Rightarrow> int \<Rightarrow> (int \<times> int) list" where
  "cells_of ofp_ver msg_type =
     [(i, j). i \<leftarrow> (if ofp_ver = OFP_VER_ALL then [0, 1, 2, 3, 4] else [ofp_ver - 1]),
              j \<leftarrow> (if msg_type = OFP_MSG_TYPE_ALL then map int [0..<35] else [msg_type])]"

lemma fill_types_cells:
  "fill_types t i j n x = tabs.put_cells t (map (\<lambda>k. (i, j + int k)) [0..<n]) x"
proof (induction n arbitrary: t j)
  case (Suc n)
  have "map (\<lambda>k. (i, j + int k)) [0..<Suc n] = (i, j) # map (\<lambda>k. (i, j + 1 + int k)) [0..<n]"
    by (simp add: upt_conv_Cons map_Suc_upt [symmetric] del: upt_Suc)
  then show ?case
    by (simp add: Suc.IH del: upt_Suc)
qed simp

lemma store_rule_cells: "store_rule t ofp_ver msg_type x = tabs.put_cells t (cells_of ofp_ver msg_type) x"
proof -
  define types where
    "types = (if msg_type = OFP_MSG_TYPE_ALL then map int [0..<35] else [msg_type])"
  have row: "(if msg_type = OFP_MSG_TYPE_ALL then fill_types u i 0 35 x else tab_set u i msg_type x) =
      tabs.put_cells u (map (Pair i) types) x" for u i
    by (simp add: types_def fill_types_cells comp_def bnd_def split: sum.split del: upt_conv_Cons_Cons)
  show ?thesis
    by (simp add: store_rule_def cells_of_def row types_def [symmetric] tabs.put_cells_append
        eval_nat_numeral bnd_assoc)
qed

definition covers :: "int \<Rightarrow> int \<Rightarrow> int \<Rightarrow> int \<Rightarrow> bool" where
  "covers ofp_ver msg_type i j \<longleftrightarrow>
     (ofp_ver = OFP_VER_ALL \<or> i = ofp_ver - 1) \<and> (msg_type = OFP_MSG_TYPE_ALL \<or> j = msg_type)"

lemma cells_of_covers:
  assumes "0 \<le> ofp_ver" "ofp_ver \<le> OFP_VER_MAX" and "OFP_MSG_TYPE_ALL \<le> msg_type" "msg_type \<le> OFP_MSG_TYPE_MAX"
  shows "set (cells_of ofp_ver msg_type) = {(i, j) \<in> grid_cells. covers ofp_ver msg_type i j}"
proof -
  have vs: "set [0, 1, 2, 3, 4 :: int] = {0..<5}"
    by auto
  have ts: "set (map int [0..<35]) = {0..<35}"
    by (simp only: set_map set_upt image_int_atLeastLessThan) simp
  have "set (cells_of ofp_ver msg_type) =
    (if ofp_ver = OFP_VER_ALL then {0..<5} else {ofp_ver - 1}) \<times>
    (if msg_type = OFP_MSG_TYPE_ALL then {0..<35} else {msg_type})"
    unfolding cells_of_def using vs ts by (auto simp del: upt_conv_Cons_Cons)
  also have "\<dots> = {(i, j) \<in> grid_cells. covers ofp_ver msg_type i j}"
    using assms by (auto simp: grid_cells_def covers_def split: if_splits)
  finally show ?thesis .
qed

lemma store_rule_ok:
  assumes "table_shape t" and "0 \<le> ofp_ver" "ofp_ver \<le> OFP_VER_MAX"
    and "OFP_MSG_TYPE_ALL \<le> msg_type" "msg_type \<le> OFP_MSG_TYPE_MAX"
  obtains t' where "store_rule t ofp_ver msg_type x = Inr t'" "table_shape t'"
    "\<And>i j. (i, j) \<in> grid_cells \<Longrightarrow>
       tab_get t' i j = (if covers ofp_ver msg_type i j then Inr x else tab_get t i j)"
proof -
  have cells: "set (cells_of ofp_ver msg_type) = {(i, j) \<in> grid_cells. covers ofp_ver msg_type i j}"
    by (rule cells_of_covers [OF assms(2-5)])
  then obtain t' where "store_rule t ofp_ver msg_type x = Inr t'" "table_shape t'"
    "\<And>i j. tab_get t' i j = (if (i, j) \<in> set (cells_of ofp_ver msg_type) then Inr x else tab_get t i j)"
    unfolding store_rule_cells
    using tabs.put_cells_ok [OF assms(1), of "cells_of ofp_ver msg_type" x] by auto
  then show thesis
    using that cells by simp
qed

subsection \<open>The invariant of the tables\<close>

definition table_le :: "nat \<Rightarrow> byte table \<Rightarrow> bool" where
  "table_le n t \<longleftrightarrow> (\<forall>(i, j)\<in>grid_cells. \<exists>v. tab_get t i j = Inr v \<and> unat v \<le> n)"

definition tables_wf :: "rule_tables \<Rightarrow> bool" where
  "tables_wf T \<longleftrightarrow> table_shape (drop_tab T) \<and> table_shape (dup_tab T) \<and> table_le 100 (drop_tab T)"

lemma table_le_get: "table_le n t \<Longrightarrow> (i, j) \<in> grid_cells \<Longrightarrow> tab_get t i j = Inr v \<Longrightarrow> unat v \<le> n"
  by (fastforce simp: table_le_def)

lemma clamp_prob_le: "unat (clamp_prob p) \<le> 100"
proof -
  have "unat p \<le> 100" if "0 \<le> sint p" "sint p \<le> 100"
  proof -
    have "uint p = sint p"
      using that sint_lt [of p] by (simp add: uint_sint take_bit_int_eq_self)
    then show ?thesis
      using that(2) by (simp add: unat_eq_nat_uint)
  qed
  then show ?thesis
    by (auto simp: clamp_prob_def not_less)
qed

lemma clamp_prob_id: "0 \<le> i \<Longrightarrow> i \<le> 100 \<Longrightarrow> clamp_prob (word_of_int i) = word_of_int i"
  by (simp add: clamp_prob_def sint_sbintrunc' signed_take_bit_int_eq_self)

lemma store_rule_wf:
  assumes "store_rule t v m x = Inr t'" and "table_shape t" and "0 \<le> v" "v \<le> OFP_VER_MAX"
    and "OFP_MSG_TYPE_ALL \<le> m" "m \<le> OFP_MSG_TYPE_MAX"
  shows "table_shape t'" and "table_le n t \<Longrightarrow> unat x \<le> n \<Longrightarrow> table_le n t'"
proof -
  obtain u where u: "store_rule t v m x = Inr u" "table_shape u"
    "\<And>i j. (i, j) \<in> grid_cells \<Longrightarrow> tab_get u i j = (if covers v m i j then Inr x else tab_get t i j)"
    by (rule store_rule_ok [OF assms(2-6), of x]) blast
  then have t': "t' = u"
    using assms(1) by simp
  then show "table_shape t'"
    using u(2) by simp
  show "table_le n t'" if "table_le n t" "unat x \<le> n"
    using that u(3) by (fastforce simp: table_le_def t')
qed

text \<open>
  What a rule that ends without a fault has done: rejected and changed nothing, accepted and
  changed nothing (DELAY, LIE), or stored one value in one table.
\<close>

lemma attacker_add_rule_cases:
  assumes "attacker_add_rule mc ma T data len = Inr (rc, T', b')"
  obtains (rejected) "rc = 1" "T' = T"
  | (unimplemented) "rc = 0" "T' = T"
  | (drop) v m p t where "rc = 0" "store_rule (drop_tab T) v m p = Inr t" "T' = T\<lparr>drop_tab := t\<rparr>"
      "unat p \<le> 100" "0 \<le> v" "v \<le> OFP_VER_MAX" "OFP_MSG_TYPE_ALL \<le> m" "m \<le> OFP_MSG_TYPE_MAX"
  | (dup) v m c t where "rc = 0" "store_rule (dup_tab T) v m c = Inr t" "T' = T\<lparr>dup_tab := t\<rparr>"
      "0 < unat c" "0 \<le> v" "v \<le> OFP_VER_MAX" "OFP_MSG_TYPE_ALL \<le> m" "m \<le> OFP_MSG_TYPE_MAX"
proof (cases "rc = 1 \<and> T' = T \<or> rc = 0 \<and> T' = T")
  case True
  then show thesis
    using rejected unimplemented by blast
next
  case False
  obtain b flds where c: "csv_parse mc data 0 len = Inr (Some (b, flds))" and n: "length flds = 8"
    using assms False by (auto simp: attacker_add_rule_def bnd_Inr split: option.splits if_splits)
  obtain v where v: "bnd (c_string b (flds ! 3)) normalize_ofp_ver_str = Inr v" "v \<noteq> OFP_VER_ERR"
    using assms False c n
    by (cases "bnd (c_string b (flds ! 3)) normalize_ofp_ver_str")
       (auto simp: attacker_add_rule_def split: if_splits)
  obtain m where m: "bnd (c_string b (flds ! 4)) (normalize_ofp_msg_type v) = Inr m"
      "m \<noteq> OFP_MSG_TYPE_ERR"
    using assms False c n v
    by (cases "bnd (c_string b (flds ! 4)) (normalize_ofp_msg_type v)")
       (auto simp: attacker_add_rule_def split: if_splits)
  obtain a where act: "bnd (c_string b (flds ! 6)) normalize_action_type = Inr a"
    using assms False c n v m
    by (cases "bnd (c_string b (flds ! 6)) normalize_action_type")
       (auto simp: attacker_add_rule_def split: if_splits)
  have a: "a = ACTION_ID_DROP \<and> (\<exists>p t. bnd (drop_rule_prob ma b (flds ! 7)) (\<lambda>r. Inr (fst r)) = Inr p \<and>
              store_rule (drop_tab T) v m p = Inr t \<and> rc = 0 \<and> T' = T\<lparr>drop_tab := t\<rparr>) \<or>
            a = ACTION_ID_DUP \<and> (\<exists>d t. \<not> d < 1 \<and> store_rule (dup_tab T) v m d = Inr t \<and> rc = 0 \<and>
              T' = T\<lparr>dup_tab := t\<rparr>)"
  proof -
    have "if a = ACTION_ID_DROP then
        bnd (drop_rule_prob ma b (flds ! 7)) (\<lambda>(prob, b').
          bnd (store_rule (drop_tab T) v m prob) (\<lambda>t. Inr (0, T\<lparr>drop_tab := t\<rparr>, b'))) = Inr (rc, T', b')
      else a = ACTION_ID_DUP \<and>
        bnd (dup_rule_count ma b (flds ! 7)) (\<lambda>(dup_count, b').
          if dup_count < 1 then Inr (1, T, b')
          else bnd (store_rule (dup_tab T) v m dup_count) (\<lambda>t. Inr (0, T\<lparr>dup_tab := t\<rparr>, b')))
        = Inr (rc, T', b')"
      using assms False c n v m act by (simp add: attacker_add_rule_def split: if_splits)
    then show ?thesis
      using False by (cases "a = ACTION_ID_DROP") (fastforce simp: bnd_Inr split: if_splits prod.splits)+
  qed
  have vr: "0 \<le> v" "v \<le> OFP_VER_MAX"
    using v normalize_ofp_ver_str_range by (fastforce simp: bnd_Inr)+
  have mr: "OFP_MSG_TYPE_ALL \<le> m" "m \<le> OFP_MSG_TYPE_MAX"
  proof -
    obtain s where "normalize_ofp_msg_type v s = Inr m"
      using m(1) by (auto simp: bnd_Inr)
    then have "m = OFP_MSG_TYPE_ALL \<or> 0 \<le> m \<and> m < int (length (alias_table v))"
      using normalize_ofp_msg_type_range vr m(2) by blast
    then show "OFP_MSG_TYPE_ALL \<le> m" "m \<le> OFP_MSG_TYPE_MAX"
      using alias_table_length_le [of v] by auto
  qed
  have le: "unat p \<le> 100" if "bnd (drop_rule_prob ma b (flds ! 7)) (\<lambda>r. Inr (fst r)) = Inr p" for p
    using that by (auto simp: drop_rule_prob_def bnd_Inr clamp_prob_le split: if_splits prod.splits)
  have pos: "0 < unat d" if "\<not> d < (1 :: byte)" for d
    using that by (simp add: unat_gt_0)
  show thesis
    using a drop [OF _ _ _ _ vr mr] dup [OF _ _ _ _ vr mr] le pos by blast
qed

lemma attacker_add_rule_wf:
  assumes "attacker_add_rule mc ma T data len = Inr (rc, T', b')" and "tables_wf T"
  shows "tables_wf T'"
  using assms(1)
proof (cases rule: attacker_add_rule_cases)
  case (drop v m p t)
  then show ?thesis
    using store_rule_wf [of "drop_tab T"] assms(2) by (simp add: tables_wf_def)
next
  case (dup v m c t)
  then show ?thesis
    using store_rule_wf(1) [of "dup_tab T"] assms(2) by (simp add: tables_wf_def)
qed (use assms(2) in simp_all)

lemma rows_line_wf: "rows_line mc ma n s T = Inr (T', s') \<Longrightarrow> tables_wf T \<Longrightarrow> tables_wf T'"
  by (auto simp: rows_line_def bnd_Inr dest: attacker_add_rule_wf split: if_splits)

lemma read_rows_loop_wf:
  "read_rows_loop h mc ma k s line_no T cs = Inr T' \<Longrightarrow> tables_wf T \<Longrightarrow> tables_wf T'"
proof (induction h mc ma k s line_no T cs rule: read_rows_loop.induct)
  case (1 h mc ma k s line_no T cs)
  note [simp] = read_rows_loop.simps [of h mc ma k s line_no T cs]
  obtain s1 k1 rest eof where 1: "read_row h k s cs = Inr (s1, k1, rest, eof)"
    using "1.prems"(1) by (cases "read_row h k s cs") auto
  obtain rc s2 where 2: "stream_append (h k1) s1 [NUL] 1 = Inr (rc, s2)"
    using "1.prems"(1) 1 by (cases "stream_append (h k1) s1 [NUL] 1") auto
  obtain T2 s3 where 3: "rows_line (mc line_no) (ma line_no) line_no s2 T = Inr (T2, s3)"
    using "1.prems"(1) 1 2 by (cases "rows_line (mc line_no) (ma line_no) line_no s2 T") auto
  have wf: "tables_wf T2"
    using rows_line_wf [OF 3 "1.prems"(2)] .
  show ?case
  proof (cases eof)
    case True
    then show ?thesis
      using "1.prems"(1) 1 2 3 wf by simp
  next
    case False
    then show ?thesis
      using "1.IH" [OF 1 refl refl refl 2 refl 3 refl] "1.prems"(1) 1 2 3 wf by simp
  qed
qed

lemma init_tables_wf: "tables_wf init_tables"
  by (auto simp: tables_wf_def init_tables_def table_shape_def table_le_def grid_cells_def
      tab_get_def rd_def)

subsection \<open>What a row stores\<close>

text \<open>
  A row of eight cells, the last one with the action's arguments: what the code reads in it. \<open>v\<close>, \<open>m\<close>
  and \<open>a\<close> are what its normalisers make of the version, the message type and the action.
\<close>

definition row_reads :: "cell list \<Rightarrow> int \<Rightarrow> int \<Rightarrow> int \<Rightarrow> (string \<times> string) list \<Rightarrow> bool" where
  "row_reads cs v m a ps \<longleftrightarrow> row_ok cs \<and> length cs = 8 \<and> cell_text (hd cs) \<noteq> [] \<and>
     normalize_ofp_ver_str (cell_text (cs ! 3)) = Inr v \<and> v \<noteq> OFP_VER_ERR \<and>
     normalize_ofp_msg_type v (cell_text (cs ! 4)) = Inr m \<and> m \<noteq> OFP_MSG_TYPE_ERR \<and>
     normalize_action_type (cell_text (cs ! 6)) = Inr a \<and> cell_text (cs ! 7) = print_args (CHR 0x26) ps \<and> ps \<noteq> [] \<and>
     (\<forall>(k, x)\<in>set ps. plain (CHR 0x26) k \<and> plain (CHR 0x26) x \<and> classifiable x)"

lemma csv_parse_row:
  assumes "row_ok cs" and "cell_text (hd cs) \<noteq> []" and "\<And>k. mc k"
  obtains b flds where
    "csv_parse mc (print_cells cs @ NUL # post) 0 (length (print_cells cs) + 1) = Inr (Some (b, flds))"
    "list_all2 (\<lambda>p c. c_string b p = Inr (cell_text c)) flds cs"
    "length b = length (print_cells cs @ NUL # post)"
proof -
  have "fst (snd (hd cs)) \<noteq> []"
    using assms(2) by (cases "hd cs") auto
  then obtain tl ps where "csv_loop mc 1 (print_cells cs @ NUL # post) 0 (length (print_cells cs) + 1) [] 5
      = Inr (tl @ NUL # post, ps)" "length tl = length (print_cells cs)"
    "list_all2 (\<lambda>p c. c_string (tl @ NUL # post) p = Inr (cell_text c)) ps cs"
    using csv_loop_print [where m = mc and pre = "[]" and post = post and k = 1 and used = "[]" and cap = 5,
        OF assms(3,1)] by auto
  then show thesis
    using that assms(3) by (simp add: csv_parse_def)
qed

lemma row_reads_ranges:
  assumes "row_reads cs v m a ps"
  shows "0 \<le> v" "v \<le> OFP_VER_MAX" "OFP_MSG_TYPE_ALL \<le> m" "m \<le> OFP_MSG_TYPE_MAX"
proof -
  show v: "0 \<le> v" "v \<le> OFP_VER_MAX"
    using assms normalize_ofp_ver_str_range by (fastforce simp: row_reads_def)+
  have "m = OFP_MSG_TYPE_ALL \<or> 0 \<le> m \<and> m < int (length (alias_table v))"
    using assms normalize_ofp_msg_type_range v by (fastforce simp: row_reads_def)
  then show "OFP_MSG_TYPE_ALL \<le> m" "m \<le> OFP_MSG_TYPE_MAX"
    using alias_table_length_le [of v] by auto
qed

lemma good_amp [simp]: "good_delim (CHR 0x26)"
  by (simp add: good_delim_def is_blank_def)

text \<open>The row up to its action: the columns are read and the arguments parsed.\<close>

lemma row_reads_parsed:
  assumes "row_reads cs v m a ps" and "\<And>k. mc k" and "\<And>k. ma k"
  obtains b flds b' ns where
    "csv_parse mc (print_cells cs @ NUL # post) 0 (length (print_cells cs) + 1) = Inr (Some (b, flds))"
    "length flds = 8" "bnd (c_string b (flds ! 3)) normalize_ofp_ver_str = Inr v"
    "bnd (c_string b (flds ! 4)) (normalize_ofp_msg_type v) = Inr m"
    "bnd (c_string b (flds ! 6)) normalize_action_type = Inr a"
    "args_parse ma b (flds ! 7) (CHR 0x26) = Inr (b', ns)" "list_all2 (node_denotes b') ns ps" "ns \<noteq> []"
    "length b' = length (print_cells cs @ NUL # post)"
proof -
  have row: "row_ok cs" "cell_text (hd cs) \<noteq> []" "length cs = 8" "ps \<noteq> []"
    "\<forall>(k, x)\<in>set ps. plain (CHR 0x26) k \<and> plain (CHR 0x26) x \<and> classifiable x"
    and last: "cell_text (cs ! 7) = print_args (CHR 0x26) ps"
    using assms(1) by (simp_all add: row_reads_def)
  obtain b flds where p:
    "csv_parse mc (print_cells cs @ NUL # post) 0 (length (print_cells cs) + 1) = Inr (Some (b, flds))"
    "list_all2 (\<lambda>p c. c_string b p = Inr (cell_text c)) flds cs"
    "length b = length (print_cells cs @ NUL # post)"
    by (rule csv_parse_row [OF row(1,2) assms(2)])
  then have len: "length flds = 8" and at: "\<And>i. i < 8 \<Longrightarrow> c_string b (flds ! i) = Inr (cell_text (cs ! i))"
    using row(3) by (simp_all add: list_all2_conv_all_nth)
  have "c_string b (flds ! 7) = Inr (print_args (CHR 0x26) ps)"
    using at [of 7] last by simp
  then obtain b' ns where a: "args_parse ma b (flds ! 7) (CHR 0x26) = Inr (b', ns)"
      "list_all2 (node_denotes b') ns ps" "length b' = length b"
    by (rule args_parse_field [where m = ma, OF _ good_amp assms(3) row(4,5)])
  have "ns \<noteq> []"
    using a(2) row(4) by auto
  then show thesis
    using that [OF p(1) len _ _ _ a(1,2)] p(3) a(3) at [of 3] at [of 4] at [of 6] assms(1) by (simp add: row_reads_def)
qed

text \<open>The value a \<open>char\<close> keeps of an integer probability, and what is left after clamping.\<close>

definition stored_prob :: "int \<Rightarrow> int" where
  "stored_prob n = (if n mod 256 < 128 then min (n mod 256) 100 else 0)"

lemma clamp_prob_stored: "clamp_prob (word_of_int n) = word_of_int (stored_prob n)"
proof -
  let ?w = "word_of_int n :: byte"
  have u: "uint ?w = n mod 256"
    by (simp add: uint_word_of_int)
  have s: "sint ?w = (if n mod 256 < 128 then n mod 256 else n mod 256 - 256)"
  proof -
    have "sint ?w = (n + 128) mod 256 - 128"
      by (simp add: sint_sbintrunc' signed_take_bit_eq_take_bit_shift take_bit_eq_mod)
    also have "(n + 128) mod 256 = (if n mod 256 < 128 then n mod 256 + 128 else n mod 256 - 128)"
    proof (cases "n mod 256 < 128")
      case True
      then have "(n mod 256 + 128) mod 256 = n mod 256 + 128"
        by (intro mod_pos_pos_trivial) simp_all
      then show ?thesis
        using True by (simp add: mod_add_left_eq)
    next
      case False
      have "(n mod 256 - 128) mod 256 = n mod 256 - 128"
        using False pos_mod_bound [of 256 n] by (intro mod_pos_pos_trivial) simp_all
      moreover have "(n + 128) mod 256 = (n mod 256 - 128) mod 256"
        using mod_add_self2 [of "n - 128" 256] by (simp add: mod_diff_left_eq add.commute)
      ultimately show ?thesis
        using False by simp
    qed
    finally show ?thesis
      by simp
  qed
  have w: "word_of_int (n mod 256) = ?w"
    using u by (metis word_of_int_uint)
  have r: "0 \<le> n mod 256" "n mod 256 < 256"
    by simp_all
  show ?thesis
  proof (cases "n mod 256 < 128")
    case True
    then show ?thesis
      using s w r by (simp add: clamp_prob_def stored_prob_def min_def)
  next
    case False
    then show ?thesis
      using s w r by (simp add: clamp_prob_def stored_prob_def)
  qed
qed

lemma args_find_absent:
  "list_all2 (node_denotes b) ns ps \<Longrightarrow> map_of ps k = None \<Longrightarrow> args_find b ns k = Inr None"
proof (induction rule: list_all2_induct)
  case (Cons n ns p ps)
  then show ?case
    by (cases p) (auto simp: node_denotes_def split: if_splits)
qed simp

lemma drop_rule_prob_default:
  assumes "args_parse ma b p (CHR 0x26) = Inr (b', ns)" and "list_all2 (node_denotes b') ns ps" "ns \<noteq> []"
    and "map_of ps ''p'' = None"
  shows "drop_rule_prob ma b p = Inr (word_of_int (stored_prob 100), b')"
proof -
  have "clamp_prob 100 = word_of_int (stored_prob 100)"
    using clamp_prob_stored [of 100] by simp
  then show ?thesis
    using assms(1,3) args_find_absent [OF assms(2,4)] by (simp add: drop_rule_prob_def drop_prob_def)
qed

lemma drop_rule_prob_number:
  assumes "args_parse ma b p (CHR 0x26) = Inr (b', ns)" and "list_all2 (node_denotes b') ns ps" "ns \<noteq> []"
    and "map_of ps ''p'' = Some s" and "number s n"
  shows "drop_rule_prob ma b p = Inr (word_of_int (stored_prob n), b')"
proof -
  obtain nd where "args_find b' ns ''p'' = Inr (Some nd)" and d: "node_denotes b' nd (''p'', s)"
    by (rule args_find_denotes [OF assms(2,4)])
  moreover have "arg_val nd = IntVal n"
    using d value_of_number [OF _ assms(5)] by (auto simp: node_denotes_def)
  ultimately show ?thesis
    using assms(1,3) by (simp add: drop_rule_prob_def drop_prob_def clamp_prob_stored)
qed

lemma dup_rule_count_number:
  assumes "args_parse ma b p (CHR 0x26) = Inr (b', ns)" and "list_all2 (node_denotes b') ns ps" "ns \<noteq> []"
    and "map_of ps ''r'' = Some s" and "number s n"
  shows "dup_rule_count ma b p = Inr (word_of_int (n - 1), b')"
proof -
  obtain nd where "args_find b' ns ''r'' = Inr (Some nd)" and d: "node_denotes b' nd (''r'', s)"
    by (rule args_find_denotes [OF assms(2,4)])
  moreover have "arg_val nd = IntVal n"
    using d value_of_number [OF _ assms(5)] by (auto simp: node_denotes_def)
  ultimately show ?thesis
    using assms(1,3) by (simp add: dup_rule_count_def dup_count_of_def)
qed

subsection \<open>Profiles\<close>

text \<open>
  The abstract value of the tables: the drop percentage and the extra deliveries of every
  version and message type. \<open>stored_policy\<close> is what the code makes of a rule it has read: it changes the cells
  the rule covers and no others, keeps 8 bits of the numbers, and refuses a DUP rule whose count is one more than a multiple
  of 256. What a rule is documented to do is the subject of theory \<open>RuleDoc\<close>.
\<close>

datatype prule = DropRule int int int | DupRule int int int

type_synonym policy = "int \<times> int \<Rightarrow> int \<times> int"

definition cell_val :: "byte res \<Rightarrow> int" where
  "cell_val r = (case r of Inl _ \<Rightarrow> 0 | Inr w \<Rightarrow> uint w)"

definition policy_of :: "rule_tables \<Rightarrow> policy" where
  "policy_of T = (\<lambda>(i, j). (cell_val (tab_get (drop_tab T) i j), cell_val (tab_get (dup_tab T) i j)))"

fun stored_policy :: "prule \<Rightarrow> policy \<Rightarrow> policy" where
  "stored_policy (DropRule v m n) f =
     (\<lambda>c. if c \<in> grid_cells \<and> covers v m (fst c) (snd c) then (stored_prob n, snd (f c)) else f c)"
| "stored_policy (DupRule v m n) f =
     (\<lambda>c. if c \<in> grid_cells \<and> covers v m (fst c) (snd c) \<and> n mod 256 \<noteq> 1
          then (fst (f c), (n - 1) mod 256) else f c)"

fun row_read_as :: "cell list \<Rightarrow> (string \<times> string) list \<Rightarrow> prule \<Rightarrow> bool" where
  "row_read_as cs ps (DropRule v m n) \<longleftrightarrow> row_reads cs v m ACTION_ID_DROP ps \<and>
     (case map_of ps ''p'' of None \<Rightarrow> n = 100 | Some s \<Rightarrow> number s n)"
| "row_read_as cs ps (DupRule v m n) \<longleftrightarrow> row_reads cs v m ACTION_ID_DUP ps \<and>
     (case map_of ps ''r'' of None \<Rightarrow> False | Some s \<Rightarrow> number s n)"

lemma table_shape_off_grid:
  assumes "table_shape t" and "(i, j) \<notin> grid_cells"
  shows "tab_get t i j = Inl OutOfBounds"
proof (cases "0 \<le> i \<and> i < 5")
  case True
  then have "length (t ! nat i) = 35"
    using assms(1) by (auto simp: table_shape_def)
  then show ?thesis
    using assms True by (auto simp: tab_get_def rd_def table_shape_def grid_cells_def)
next
  case False
  then show ?thesis
    using assms(1) by (auto simp: tab_get_def rd_def table_shape_def)
qed

lemma store_rule_everywhere:
  assumes "table_shape t" and "0 \<le> v" "v \<le> OFP_VER_MAX" and "OFP_MSG_TYPE_ALL \<le> m" "m \<le> OFP_MSG_TYPE_MAX"
  obtains t' where "store_rule t v m x = Inr t'" "table_shape t'"
    "\<And>i j. tab_get t' i j = (if (i, j) \<in> grid_cells \<and> covers v m i j then Inr x else tab_get t i j)"
proof -
  obtain t' where t': "store_rule t v m x = Inr t'" "table_shape t'"
    "\<And>i j. (i, j) \<in> grid_cells \<Longrightarrow> tab_get t' i j = (if covers v m i j then Inr x else tab_get t i j)"
    by (rule store_rule_ok [OF assms]) blast
  have "tab_get t' i j = tab_get t i j" if "(i, j) \<notin> grid_cells" for i j
    using that table_shape_off_grid assms(1) t'(2) by metis
  then show thesis
    by (intro that [OF t'(1,2)]) (metis t'(3))
qed

lemma stored_prob_range: "0 \<le> stored_prob n" "stored_prob n \<le> 100"
  by (simp_all add: stored_prob_def)

lemma uint_stored_prob: "uint (word_of_int (stored_prob n) :: byte) = stored_prob n"
  using stored_prob_range [of n] by (simp add: uint_word_of_int)

text \<open>One rule: the code returns with the tables it was read as.\<close>

lemma attacker_add_rule_read:
  assumes "row_read_as cs ps r" and "\<And>k. mc k" and "\<And>k. ma k" and "tables_wf T"
  obtains rc T' b where
    "attacker_add_rule mc ma T (print_cells cs @ NUL # post) (length (print_cells cs) + 1) = Inr (rc, T', b)"
    "tables_wf T'" "policy_of T' = stored_policy r (policy_of T)"
    "length b = length (print_cells cs @ NUL # post)"
proof (cases r)
  case (DropRule v m n)
  then have row: "row_reads cs v m ACTION_ID_DROP ps"
    and n: "case map_of ps ''p'' of None \<Rightarrow> n = 100 | Some s \<Rightarrow> number s n"
    using assms(1) by simp_all
  obtain b flds b' ns where p:
    "csv_parse mc (print_cells cs @ NUL # post) 0 (length (print_cells cs) + 1) = Inr (Some (b, flds))"
    "length flds = 8" "bnd (c_string b (flds ! 3)) normalize_ofp_ver_str = Inr v"
    "bnd (c_string b (flds ! 4)) (normalize_ofp_msg_type v) = Inr m"
    "bnd (c_string b (flds ! 6)) normalize_action_type = Inr ACTION_ID_DROP"
    and a: "args_parse ma b (flds ! 7) (CHR 0x26) = Inr (b', ns)" "list_all2 (node_denotes b') ns ps" "ns \<noteq> []"
    and len: "length b' = length (print_cells cs @ NUL # post)"
    by (rule row_reads_parsed [OF row assms(2,3)])
  have prob: "drop_rule_prob ma b (flds ! 7) = Inr (word_of_int (stored_prob n), b')"
    using n drop_rule_prob_default [OF a] drop_rule_prob_number [OF a] by (cases "map_of ps ''p''") simp_all
  have shape: "table_shape (drop_tab T)"
    using assms(4) by (simp add: tables_wf_def)
  obtain t where t: "store_rule (drop_tab T) v m (word_of_int (stored_prob n)) = Inr t" "table_shape t"
    "\<And>i j. tab_get t i j = (if (i, j) \<in> grid_cells \<and> covers v m i j
        then Inr (word_of_int (stored_prob n)) else tab_get (drop_tab T) i j)"
    by (rule store_rule_everywhere [OF shape row_reads_ranges [OF row],
        where x = "word_of_int (stored_prob n)"]) blast
  have run: "attacker_add_rule mc ma T (print_cells cs @ NUL # post) (length (print_cells cs) + 1) =
      Inr (0, T\<lparr>drop_tab := t\<rparr>, b')"
    using p prob t(1) row by (simp add: attacker_add_rule_def row_reads_def)
  moreover have "policy_of (T\<lparr>drop_tab := t\<rparr>) = stored_policy r (policy_of T)"
    by (auto simp: policy_of_def DropRule t(3) cell_val_def uint_stored_prob fun_eq_iff)
  ultimately show thesis
    using that attacker_add_rule_wf [OF run assms(4)] len by blast
next
  case (DupRule v m n)
  then obtain s where row: "row_reads cs v m ACTION_ID_DUP ps" and s: "map_of ps ''r'' = Some s" "number s n"
    using assms(1) by (auto split: option.splits)
  obtain b flds b' ns where p:
    "csv_parse mc (print_cells cs @ NUL # post) 0 (length (print_cells cs) + 1) = Inr (Some (b, flds))"
    "length flds = 8" "bnd (c_string b (flds ! 3)) normalize_ofp_ver_str = Inr v"
    "bnd (c_string b (flds ! 4)) (normalize_ofp_msg_type v) = Inr m"
    "bnd (c_string b (flds ! 6)) normalize_action_type = Inr ACTION_ID_DUP"
    and a: "args_parse ma b (flds ! 7) (CHR 0x26) = Inr (b', ns)" "list_all2 (node_denotes b') ns ps" "ns \<noteq> []"
    and len: "length b' = length (print_cells cs @ NUL # post)"
    by (rule row_reads_parsed [OF row assms(2,3)])
  note cnt = dup_rule_count_number [OF a s]
  have u: "uint (word_of_int (n - 1) :: byte) = (n - 1) mod 256"
    unfolding uint_word_of_int by simp
  have small: "(word_of_int (n - 1) :: byte) < 1 \<longleftrightarrow> n mod 256 = 1"
  proof -
    have "(word_of_int (n - 1) :: byte) < 1 \<longleftrightarrow> (n - 1) mod 256 = 0"
      unfolding word_less_def u uint_1 using pos_mod_sign [of 256 "n - 1"] by auto
    then show ?thesis
      using mod_eq_dvd_iff [of n 256 1] by (simp add: dvd_eq_mod_eq_0)
  qed
  show thesis
  proof (cases "n mod 256 = 1")
    case True
    have "attacker_add_rule mc ma T (print_cells cs @ NUL # post) (length (print_cells cs) + 1) =
        Inr (1, T, b')"
      using p cnt row small True by (simp add: attacker_add_rule_def row_reads_def)
    moreover have "policy_of T = stored_policy r (policy_of T)"
      using True by (simp add: DupRule fun_eq_iff)
    ultimately show thesis
      using that assms(4) len by blast
  next
    case False
    have shape: "table_shape (dup_tab T)"
      using assms(4) by (simp add: tables_wf_def)
    obtain t where t: "store_rule (dup_tab T) v m (word_of_int (n - 1)) = Inr t" "table_shape t"
      "\<And>i j. tab_get t i j = (if (i, j) \<in> grid_cells \<and> covers v m i j
          then Inr (word_of_int (n - 1)) else tab_get (dup_tab T) i j)"
      by (rule store_rule_everywhere [OF shape row_reads_ranges [OF row],
          where x = "word_of_int (n - 1)"]) blast
    have run: "attacker_add_rule mc ma T (print_cells cs @ NUL # post) (length (print_cells cs) + 1) =
        Inr (0, T\<lparr>dup_tab := t\<rparr>, b')"
      using p cnt t(1) row small False by (simp add: attacker_add_rule_def row_reads_def)
    moreover have "policy_of (T\<lparr>dup_tab := t\<rparr>) = stored_policy r (policy_of T)"
      using False by (auto simp: policy_of_def DupRule t(3) cell_val_def u [simplified] fun_eq_iff)
    ultimately show thesis
      using that attacker_add_rule_wf [OF run assms(4)] len by blast
  qed
qed

end
