(* ===== verification/RuleDoc.thy ===== *)
theory RuleDoc
  imports Rules
begin

text \<open>
  What a rule of a profile means by the documentation, \<^verbatim>\<open>mproxy/doc/attack_list.md\<close> and the comments of
  \<^verbatim>\<open>attack.h\<close>, without a look at the code: the names of versions and message types, the default of a DROP
  rule, the number of deliveries of a DUP rule. The code honours this for most rules, \<open>rule_honoured\<close>; the theory
  shows that it does, and what it makes of the others.
\<close>

subsection \<open>Names\<close>

text \<open>
  The message types of OpenFlow 1.0 to 1.4 under the aliases of the profile format, in the order of their
  numbers. (1.4 gave up the types 22 and 23.)
\<close>

definition first_types :: "string \<Rightarrow> string option list" where
  "first_types experimenter =
    [Some ''Hello'', Some ''Error'', Some ''EchoReq'', Some ''EchoRes'', Some experimenter,
     Some ''FeatureReq'', Some ''FeatureRes'', Some ''GetConfigReq'', Some ''GetConfigRes'', Some ''SetConfig'',
     Some ''PacketIn'', Some ''FlowRemoved'', Some ''PortStatus'', Some ''PacketOut'', Some ''FlowMod'']"

definition message_types :: "string option list list" where
  "message_types =
    [first_types ''Vendor'' @
       [Some ''PortMod'', Some ''StatsReq'', Some ''StatsRes'', Some ''BarrierReq'', Some ''BarrierRes'',
        Some ''QueueGetConfigReq'', Some ''QueueGetConfigRes''],
     first_types ''Experimenter'' @
       [Some ''GroupMod'', Some ''PortMod'', Some ''TableMod'', Some ''StatsReq'', Some ''StatsRes'', Some ''BarrierReq'',
        Some ''BarrierRes'', Some ''QueueGetConfigReq'', Some ''QueueGetConfigRes''],
     first_types ''Experimenter'' @
       [Some ''GroupMod'', Some ''PortMod'', Some ''TableMod'', Some ''StatsReq'', Some ''StatsRes'', Some ''BarrierReq'',
        Some ''BarrierRes'', Some ''QueueGetConfigReq'', Some ''QueueGetConfigRes'', Some ''RoleReq'', Some ''RoleRes''],
     first_types ''Experimenter'' @
       [Some ''GroupMod'', Some ''PortMod'', Some ''TableMod'', Some ''MultipartReq'', Some ''MultipartRes'', Some ''BarrierReq'',
        Some ''BarrierRes'', Some ''QueueGetConfigReq'', Some ''QueueGetConfigRes'', Some ''RoleReq'', Some ''RoleRes'',
        Some ''GetAsyncReq'', Some ''GetAsyncRes'', Some ''SetAsync'', Some ''MeterMod''],
     first_types ''Experimenter'' @
       [Some ''GroupMod'', Some ''PortMod'', Some ''TableMod'', Some ''MultipartReq'', Some ''MultipartRes'', Some ''BarrierReq'',
        Some ''BarrierRes'', None, None, Some ''RoleReq'', Some ''RoleRes'',
        Some ''GetAsyncReq'', Some ''GetAsyncRes'', Some ''SetAsync'', Some ''MeterMod'',
        Some ''RoleStatus'', Some ''TableStatus'', Some ''RequestForward'', Some ''BundleControl'', Some ''BundleAddMessage'']]"

definition alias_of :: "int \<Rightarrow> int \<Rightarrow> string option" where
  "alias_of v m =
     (if 1 \<le> v \<and> v \<le> 5 \<and> 0 \<le> m \<and> nat m < length (message_types ! nat (v - 1))
      then message_types ! nat (v - 1) ! nat m else None)"

text \<open>For all versions, 0, only the types that have the same alias in each.\<close>

definition rule_alias :: "int \<Rightarrow> int \<Rightarrow> string option" where
  "rule_alias v m =
     (if v \<noteq> 0 then alias_of v m
      else if list_all (\<lambda>u. alias_of u m = alias_of 1 m) [2, 3, 4, 5] then alias_of 1 m else None)"

definition names_version :: "string \<Rightarrow> int \<Rightarrow> bool" where
  "names_version s v \<longleftrightarrow>
     (s, v) \<in> set [(''*'', 0), (''1.0'', 1), (''1.1'', 2), (''1.2'', 3), (''1.3'', 4), (''1.4'', 5)] \<or>
     number s v \<and> 1 \<le> v \<and> v \<le> 5"

text \<open>A type by its alias or its number; -1 for all types.\<close>

definition names_type :: "int \<Rightarrow> string \<Rightarrow> int \<Rightarrow> bool" where
  "names_type v s m \<longleftrightarrow> s = ''*'' \<and> m = -1 \<or>
     (case rule_alias v m of None \<Rightarrow> False | Some a \<Rightarrow> s = a \<or> number s m)"

definition names_action :: "string \<Rightarrow> int \<Rightarrow> string \<Rightarrow> bool" where
  "names_action alias n s \<longleftrightarrow> s = alias \<or> number s n"

subsection \<open>Rules\<close>

text \<open>
  A row that gives a rule: its version, its type, its action by alias or number, its arguments. Of the eight columns, the
  length and the field have no effect on the two actions; the rule is for all controllers and all switches.
\<close>

definition doc_row :: "cell list \<Rightarrow> int \<Rightarrow> int \<Rightarrow> string \<Rightarrow> int \<Rightarrow> (string \<times> string) list \<Rightarrow> bool" where
  "doc_row cs v m alias n ps \<longleftrightarrow> row_ok cs \<and> length cs = 8 \<and> cell_text (hd cs) \<noteq> [] \<and>
     cell_text (cs ! 1) \<in> {''*'', ''-1''} \<and> cell_text (cs ! 2) \<in> {''*'', ''-1''} \<and>
     names_version (cell_text (cs ! 3)) v \<and> names_type v (cell_text (cs ! 4)) m \<and>
     names_action alias n (cell_text (cs ! 6)) \<and> cell_text (cs ! 7) = print_args (CHR 0x26) ps \<and> ps \<noteq> [] \<and>
     (\<forall>(k, x)\<in>set ps. plain (CHR 0x26) k \<and> plain (CHR 0x26) x \<and> classifiable x)"

fun row_denotes :: "cell list \<Rightarrow> (string \<times> string) list \<Rightarrow> prule \<Rightarrow> bool" where
  "row_denotes cs ps (DropRule v m p) \<longleftrightarrow> doc_row cs v m ''DROP'' 0 ps \<and>
     (case map_of ps ''p'' of None \<Rightarrow> p = 100 | Some s \<Rightarrow> number s p \<and> p \<le> 100)"
| "row_denotes cs ps (DupRule v m r) \<longleftrightarrow> doc_row cs v m ''DUP'' 2 ps \<and>
     (case map_of ps ''r'' of None \<Rightarrow> False | Some s \<Rightarrow> number s r)"

text \<open>
  The effect on the policy: a message is dropped with the percentage given, or delivered \<open>r\<close> times, which is \<open>r - 1\<close> more than
  once; a DUP rule with \<open>r\<close> below 2 is ignored.
\<close>

fun apply_rule :: "prule \<Rightarrow> policy \<Rightarrow> policy" where
  "apply_rule (DropRule v m p) f =
     (\<lambda>c. if c \<in> grid_cells \<and> covers v m (fst c) (snd c) then (p, snd (f c)) else f c)"
| "apply_rule (DupRule v m r) f =
     (\<lambda>c. if c \<in> grid_cells \<and> covers v m (fst c) (snd c) \<and> 2 \<le> r then (fst (f c), r - 1) else f c)"

subsection \<open>Rules the code honours\<close>

text \<open>
  The tables of aliases of 1.3 and 1.4 lack a comma behind \<open>MultipartRes\<close>, type 19. From there on a name
  stands for the type before, or for none; a number is looked up there too. A count is kept in 8 bits after 1 has been
  taken off, so 0 becomes 255.
\<close>

definition type_honoured :: "int \<Rightarrow> string \<Rightarrow> int \<Rightarrow> bool" where
  "type_honoured v s m \<longleftrightarrow> v \<le> 3 \<or> m \<le> 18 \<or> number s m \<and> (v = 4 \<and> m \<le> 28 \<or> v = 5 \<and> m \<noteq> 21 \<and> m \<le> 33)"

fun rule_honoured :: "cell list \<Rightarrow> prule \<Rightarrow> bool" where
  "rule_honoured cs (DropRule v m p) \<longleftrightarrow> type_honoured v (cell_text (cs ! 4)) m"
| "rule_honoured cs (DupRule v m r) \<longleftrightarrow> type_honoured v (cell_text (cs ! 4)) m \<and> 1 \<le> r \<and> r \<le> 256"

lemma number_is_int:
  assumes n: "number s n"
  shows "is_int s \<and> take 1 s \<noteq> ''*'' \<and> \<not> str_has s (CHR ''.'')"
proof -
  have "\<not> is_digit (CHR ''*'')" "\<not> is_digit (CHR ''.'')"
    by code_simp+
  then show ?thesis
    using n by (cases s) (auto simp: number_def is_int_def is_int_loop_all str_has_def)
qed

lemma version_read:
  assumes v: "names_version s v"
  shows "normalize_ofp_ver_str s = Inr v \<and> 0 \<le> v \<and> v \<le> 5"
proof -
  have "\<forall>(t, u)\<in>set [(''*'', 0), (''1.0'', 1), (''1.1'', 2), (''1.2'', 3), (''1.3'', 4), (''1.4'', 5)].
      normalize_ofp_ver_str t = Inr u \<and> 0 \<le> u \<and> u \<le> 5"
    by code_simp
  then have named: "normalize_ofp_ver_str s = Inr v \<and> 0 \<le> v \<and> v \<le> 5"
    if "(s, v) \<in> set [(''*'', 0), (''1.0'', 1), (''1.1'', 2), (''1.2'', 3), (''1.3'', 4), (''1.4'', 5)]"
    using that by blast
  show ?thesis
  proof (cases "number s v \<and> 1 \<le> v \<and> v \<le> 5")
    case True
    then show ?thesis
      using number_is_int [of s v] atoi_number [of s v] by (simp add: normalize_ofp_ver_str_def)
  qed (use v named in \<open>simp only: names_version_def simp_thms\<close>)
qed

text \<open>The code's tables next to the documented ones: the types before the missing comma have their places.\<close>

lemma tables_read:
  "map (index_of (alias_table 1)) (message_types ! 0) = map Some [0..<22]"
  "map (index_of (alias_table 2)) (message_types ! 1) = map Some [0..<24]"
  "map (index_of (alias_table 3)) (message_types ! 2) = map Some [0..<26]"
  "map (index_of (alias_table 4)) (take 19 (message_types ! 3)) = map Some [0..<19]"
  "map (index_of (alias_table 5)) (take 19 (message_types ! 4)) = map Some [0..<19]"
  by code_simp+

lemma common_places:
  "list_all (\<lambda>i. case rule_alias 0 (int i) of None \<Rightarrow> True | Some a \<Rightarrow> index_of (alias_table 0) (Some a) = Some i) [0..<22]"
  by code_simp

lemma aliases_named: "list_all (list_all (\<lambda>x. case x of None \<Rightarrow> True | Some a \<Rightarrow> \<not> is_int a \<and> take 1 a \<noteq> ''*'')) message_types"
  by code_simp

lemma later_types:
  "list_all (\<lambda>m. alias_table 4 ! m \<noteq> None) [0..<29]"
  "list_all (\<lambda>m. alias_table 5 ! m \<noteq> None \<or> m = 21 \<or> m = 22) [0..<34]"
  by code_simp+

lemma alias_of_Some:
  assumes "alias_of v m = Some a"
  shows "1 \<le> v" "v \<le> 5" "0 \<le> m" "nat m < length (message_types ! nat (v - 1))" "message_types ! nat (v - 1) ! nat m = Some a"
  using assms by (simp_all add: alias_of_def split: if_splits)

lemma message_types_lengths:
  "length message_types = 5" "length (message_types ! 0) = 22" "length (message_types ! 1) = 24" "length (message_types ! 2) = 26"
  "length (message_types ! 3) = 30" "length (message_types ! 4) = 35"
  by code_simp+

lemma table_place:
  assumes "map (index_of t) xs = map Some [0..<n]" and "i < n" and "xs ! i = Some a"
  shows "index_of t (Some a) = Some i"
proof -
  have "length xs = n"
    using arg_cong [OF assms(1), of length] by simp
  then have "index_of t (xs ! i) = map Some [0..<n] ! i"
    using assms(1,2) nth_map [of i xs "index_of t"] by simp
  then show ?thesis
    using assms(2,3) by simp
qed

lemma alias_index:
  assumes "alias_of v m = Some a" and "v \<le> 3 \<or> m \<le> 18"
  shows "index_of (alias_table v) (Some a) = Some (nat m)"
proof -
  note A = alias_of_Some [OF assms(1)]
  note L = message_types_lengths
  have "v = 1 \<or> v = 2 \<or> v = 3 \<or> v = 4 \<or> v = 5"
    using A(1,2) by auto
  then show ?thesis
  proof (elim disjE)
    assume "v = 1"
    then show ?thesis
      using table_place [OF tables_read(1)] A(4,5) L by simp
  next
    assume "v = 2"
    then show ?thesis
      using table_place [OF tables_read(2)] A(4,5) L by simp
  next
    assume "v = 3"
    then show ?thesis
      using table_place [OF tables_read(3)] A(4,5) L by simp
  next
    assume "v = 4"
    then show ?thesis
      using table_place [OF tables_read(4), of "nat m" a] A(3,5) assms(2) by (simp add: nat_less_iff)
  next
    assume "v = 5"
    then show ?thesis
      using table_place [OF tables_read(5), of "nat m" a] A(3,5) assms(2) by (simp add: nat_less_iff)
  qed
qed

lemma rule_alias_Some:
  assumes "rule_alias v m = Some a"
  shows "0 \<le> v" "v \<le> 5" "0 \<le> m" "m < 35" "\<exists>u. alias_of u m = Some a \<and> (v \<noteq> 0 \<longrightarrow> u = v)"
proof -
  show ex: "\<exists>u. alias_of u m = Some a \<and> (v \<noteq> 0 \<longrightarrow> u = v)"
    using assms by (auto simp: rule_alias_def split: if_splits)
  then obtain u where u: "alias_of u m = Some a" "v \<noteq> 0 \<longrightarrow> u = v"
    by blast
  note A = alias_of_Some [OF u(1)]
  show "0 \<le> v" "v \<le> 5" "0 \<le> m"
    using A(1-3) u(2) by auto
  have "u = 1 \<or> u = 2 \<or> u = 3 \<or> u = 4 \<or> u = 5"
    using A(1,2) by auto
  then have "length (message_types ! nat (u - 1)) \<le> 35"
    using message_types_lengths by (elim disjE) simp_all
  then show "m < 35"
    using A(3,4) by linarith
qed

text \<open>A documented alias before the missing comma has its number in the code's table.\<close>

lemma rule_alias_index:
  assumes "rule_alias v m = Some a" and "v \<le> 3 \<or> m \<le> 18"
  shows "index_of (alias_table v) (Some a) = Some (nat m)"
proof (cases "v = 0")
  case True
  have "alias_of 1 m = Some a"
    using assms(1) True by (simp add: rule_alias_def split: if_splits)
  then have m: "nat m < 22" "int (nat m) = m"
    using alias_of_Some message_types_lengths(2) by (fastforce, simp add: alias_of_Some(3))
  have "nat m \<in> set [0..<22]"
    using m(1) by simp
  then have "case rule_alias 0 (int (nat m)) of None \<Rightarrow> True | Some a \<Rightarrow> index_of (alias_table 0) (Some a) = Some (nat m)"
    using common_places unfolding list_all_iff by blast
  then show ?thesis
    using assms(1) True m(2) by simp
next
  case False
  then show ?thesis
    using assms alias_index by (simp add: rule_alias_def)
qed

lemma rule_alias_word:
  assumes "rule_alias v m = Some a"
  shows "\<not> is_int a \<and> take 1 a \<noteq> ''*''"
proof -
  obtain u where u: "alias_of u m = Some a"
    using rule_alias_Some(5) [OF assms] by blast
  note A = alias_of_Some [OF u]
  have "message_types ! nat (u - 1) \<in> set message_types"
    using A(1,2) message_types_lengths(1) by (intro nth_mem) simp
  moreover have "Some a \<in> set (message_types ! nat (u - 1))"
    using A(4,5) nth_mem by metis
  ultimately show ?thesis
    using aliases_named by (fastforce simp: list_all_iff)
qed

text \<open>A number whose place in the code's table is taken is accepted.\<close>

lemma number_read:
  assumes "number s m" and "0 \<le> v" "v \<le> OFP_VER_MAX" and "nat m < length (alias_table v)" "alias_table v ! nat m \<noteq> None"
  shows "normalize_ofp_msg_type v s = Inr m"
proof -
  obtain len where len: "rd OFP_MSG_ALIAS_LEN v = Inr len" "int (length (alias_table v)) \<le> len"
    using alias_lens [OF assms(2,3)] by blast
  have m: "0 \<le> m" "m \<le> len"
    using number_nonneg [OF assms(1)] assms(4) len(2) by simp_all
  have "alias_at v m = Inr (alias_table v ! nat m)"
    using alias_at_table [OF assms(2,3), of m] m(1) assms(4) by (simp add: rd_def)
  then show ?thesis
    using len(1) m number_is_int [OF assms(1)] atoi_number [OF assms(1)] assms(5) by (simp add: normalize_ofp_msg_type_def)
qed

lemma name_read:
  assumes "0 \<le> v" "v \<le> OFP_VER_MAX" and "index_of (alias_table v) (Some a) = Some i" and "\<not> is_int a" "take 1 a \<noteq> ''*''"
  shows "normalize_ofp_msg_type v a = Inr (int i)"
proof -
  obtain len where len: "rd OFP_MSG_ALIAS_LEN v = Inr len" "int (length (alias_table v)) \<le> len"
    using alias_lens [OF assms(1,2)] by blast
  note I = index_of_Some [OF assms(3)]
  have "alias_loop v a (int 0) (nat len) = Inr (int i)"
    by (rule alias_loop_hit [OF assms(1,2)]) (use I len(2) in auto)
  then show ?thesis
    using assms(4,5) len(1) by (simp add: normalize_ofp_msg_type_def)
qed

lemma later_number:
  assumes "rule_alias v m = Some a" and "v = 4 \<and> m \<le> 28 \<or> v = 5 \<and> m \<noteq> 21 \<and> m \<le> 33"
  shows "nat m < length (alias_table v) \<and> alias_table v ! nat m \<noteq> None"
proof -
  have m: "0 \<le> m"
    by (rule rule_alias_Some(3) [OF assms(1)])
  have L: "length (alias_table 4) = 29" "length (alias_table 5) = 34"
    using alias_table_lengths by simp_all
  show ?thesis
    using assms(2)
  proof (elim disjE conjE)
    assume v: "v = 4" "m \<le> 28"
    then have "nat m \<in> set [0..<29]"
      using m by (simp add: nat_less_iff)
    then show ?thesis
      using v L(1) later_types(1) unfolding list_all_iff by simp
  next
    assume v: "v = 5" "m \<noteq> 21" "m \<le> 33"
    have "rule_alias 5 22 = None"
      by code_simp
    then have "m \<noteq> 22"
      using assms(1) v(1) by auto
    then have "nat m \<in> set [0..<34]" "nat m \<noteq> 21" "nat m \<noteq> 22"
      using m v by (simp_all add: nat_less_iff nat_eq_iff)
    then show ?thesis
      using v(1) L(2) later_types(2) unfolding list_all_iff by auto
  qed
qed

lemma type_read:
  assumes "names_type v s m" and "type_honoured v s m" and "0 \<le> v" "v \<le> OFP_VER_MAX"
  shows "normalize_ofp_msg_type v s = Inr m \<and> m \<noteq> OFP_MSG_TYPE_ERR"
proof (cases "s = ''*'' \<and> m = -1")
  case True
  then show ?thesis
    using alias_lens [OF assms(3,4)] by (auto simp: normalize_ofp_msg_type_def)
next
  case False
  then obtain a where a: "rule_alias v m = Some a" "s = a \<or> number s m"
    using assms(1) by (auto simp: names_type_def split: option.splits)
  have m: "0 \<le> m"
    by (rule rule_alias_Some(3) [OF a(1)])
  have "normalize_ofp_msg_type v s = Inr m"
  proof (cases "v \<le> 3 \<or> m \<le> 18")
    case True
    note I = rule_alias_index [OF a(1) True]
    show ?thesis
      using a(2) name_read [OF assms(3,4) I] rule_alias_word [OF a(1)] number_read [OF _ assms(3,4), of s m] index_of_Some [OF I] m
      by (elim disjE) simp_all
  next
    case False
    then show ?thesis
      using assms(2) later_number [OF a(1)] number_read [OF _ assms(3,4), of s m] by (auto simp: type_honoured_def)
  qed
  then show ?thesis
    using m by simp
qed

subsection \<open>The code honours the documentation\<close>

lemma action_read:
  "names_action ''DROP'' ACTION_ID_DROP s \<Longrightarrow> normalize_action_type s = Inr ACTION_ID_DROP"
  "names_action ''DUP'' ACTION_ID_DUP s \<Longrightarrow> normalize_action_type s = Inr ACTION_ID_DUP"
proof -
  have w: "normalize_action_type ''DROP'' = Inr ACTION_ID_DROP" "normalize_action_type ''DUP'' = Inr ACTION_ID_DUP"
    by code_simp+
  have n: "normalize_action_type s = Inr n" if "number s n" "n = ACTION_ID_DROP \<or> n = ACTION_ID_DUP" for n
    using that number_is_int [OF that(1)] atoi_number [OF that(1)] by (auto simp: normalize_action_type_def)
  show "names_action ''DROP'' ACTION_ID_DROP s \<Longrightarrow> normalize_action_type s = Inr ACTION_ID_DROP"
    and "names_action ''DUP'' ACTION_ID_DUP s \<Longrightarrow> normalize_action_type s = Inr ACTION_ID_DUP"
    using w n by (auto simp: names_action_def)
qed

lemma doc_row_read:
  assumes "doc_row cs v m alias n ps" and "type_honoured v (cell_text (cs ! 4)) m"
    and "\<And>s. names_action alias n s \<Longrightarrow> normalize_action_type s = Inr n"
  shows "row_reads cs v m n ps"
proof -
  have "normalize_ofp_ver_str (cell_text (cs ! 3)) = Inr v \<and> 0 \<le> v \<and> v \<le> 5"
    using assms(1) by (intro version_read) (simp add: doc_row_def)
  moreover from this have "normalize_ofp_msg_type v (cell_text (cs ! 4)) = Inr m \<and> m \<noteq> OFP_MSG_TYPE_ERR"
    using assms(1) by (intro type_read [OF _ assms(2)]) (simp_all add: doc_row_def)
  ultimately show ?thesis
    using assms(1,3) by (simp add: row_reads_def doc_row_def)
qed

lemma row_denotes_read:
  assumes "row_denotes cs ps r" and "rule_honoured cs r"
  shows "row_read_as cs ps r"
proof (cases r)
  case (DropRule v m p)
  then show ?thesis
    using assms doc_row_read [OF _ _ action_read(1)] by (auto split: option.splits)
next
  case (DupRule v m n)
  then show ?thesis
    using assms doc_row_read [OF _ _ action_read(2)] by auto
qed

lemma stored_policy_documented:
  assumes "row_denotes cs ps r" and "rule_honoured cs r"
  shows "stored_policy r f = apply_rule r f"
proof (cases r)
  case (DropRule v m p)
  then have "0 \<le> p" "p \<le> 100"
    using assms(1) number_nonneg by (auto split: option.splits)
  then have "stored_prob p = p"
    by (simp add: stored_prob_def)
  then show ?thesis
    using DropRule by (simp add: fun_eq_iff)
next
  case (DupRule v m n)
  then have n: "1 \<le> n" "n \<le> 256"
    using assms(2) by simp_all
  have "(n - 1) mod 256 = n - 1"
    using n by (intro mod_pos_pos_trivial) simp_all
  moreover have "n mod 256 \<noteq> 1 \<longleftrightarrow> 2 \<le> n"
  proof (cases "n = 256")
    case False
    then have "n mod 256 = n"
      using n by (intro mod_pos_pos_trivial) simp_all
    then show ?thesis
      using n by auto
  qed simp
  ultimately have "n mod 256 \<noteq> 1 \<longleftrightarrow> 2 \<le> n" "(n - 1) mod 256 = n - 1"
    by simp_all
  then show ?thesis
    using DupRule by (simp add: fun_eq_iff)
qed

text \<open>One rule: a row that the documentation gives a meaning the code honours is read with that effect.\<close>

lemma attacker_add_rule_documented:
  assumes "row_denotes cs ps r" and "rule_honoured cs r" and "\<And>k. mc k" and "\<And>k. ma k" and "tables_wf T"
  obtains rc T' b where
    "attacker_add_rule mc ma T (print_cells cs @ NUL # post) (length (print_cells cs) + 1) = Inr (rc, T', b)"
    "tables_wf T'" "policy_of T' = apply_rule r (policy_of T)"
    "length b = length (print_cells cs @ NUL # post)"
  by (rule attacker_add_rule_read [OF row_denotes_read [OF assms(1,2)] assms(3-5), where post = post])
    (rule that, assumption+, simp_all add: stored_policy_documented [OF assms(1,2)])

subsection \<open>Rules the code does not honour\<close>

text \<open>From the missing comma on, an alias of 1.3 or 1.4 leads off the table or to the type before its own.\<close>

lemma tables_shifted:
  "map (index_of (alias_table 4)) (drop 19 (message_types ! 3)) = [None, None] @ map Some [20..<29]"
  "map (index_of (alias_table 5)) (filter (\<lambda>a. a \<noteq> None) (drop 19 (message_types ! 4))) = [None, None, Some 20] @ map Some [23..<34]"
  by code_simp+

end
