(* ===== verification/Profile.thy ===== *)
theory Profile
  imports RuleDoc
begin

text \<open>
  Reading a whole profile file (\<open>attacker_read_rows\<close> in \<^verbatim>\<open>mproxy/src/attack.c\<close>): the
  file is compared with the list of rules it was written from, and the tables with the policy
  those rules are documented to make (theory \<open>RuleDoc\<close>), applied in order.
\<close>

subsection \<open>Profiles as text\<close>

datatype profile_line =
    Blank
  | Comment string
  | RuleLine "cell list" "(string \<times> string) list" prule

fun line_text :: "profile_line \<Rightarrow> string" where
  "line_text Blank = []"
| "line_text (Comment s) = CHR 0x23 # s"
| "line_text (RuleLine cs ps r) = print_cells cs"

fun line_rules :: "profile_line \<Rightarrow> prule list" where
  "line_rules (RuleLine cs ps r) = [r]"
| "line_rules _ = []"

definition one_line :: "string \<Rightarrow> bool" where
  "one_line s \<longleftrightarrow> (\<forall>c\<in>set s. \<not> is_newline c)"

fun line_ok :: "profile_line \<Rightarrow> bool" where
  "line_ok (RuleLine cs ps r) \<longleftrightarrow>
     row_denotes cs ps r \<and> rule_honoured cs r \<and> one_line (print_cells cs) \<and> hd (print_cells cs) \<noteq> CHR 0x23"
| "line_ok l \<longleftrightarrow> one_line (line_text l)"

fun file_text :: "string list \<Rightarrow> string" where
  "file_text [] = []"
| "file_text [l] = l"
| "file_text (l # ls) = l @ CHR 0x0A # file_text ls"

subsection \<open>Reading a line\<close>

lemma read_row_put_all:
  assumes "one_line l"
  shows "read_row h k s (l @ rest) =
    bnd (stream_sink.put_all h k s (map (\<lambda>c. [c]) l)) (\<lambda>s'. read_row h (k + length l) s' rest)"
  using assms
proof (induction l arbitrary: k s)
  case (Cons c l)
  have "one_line l" and "\<not> is_newline c"
    using Cons.prems by (simp_all add: one_line_def)
  then show ?case
    by (cases "stream_append (h k) s [c] 1") (auto simp: Cons.IH)
qed simp

lemma read_row_line:
  assumes "one_line l" and "stream_wf s" and "contents s = []" and "\<And>k. granted (h k)"
  obtains s' where "stream_wf s'" "contents s' = l"
    "read_row h k s l = Inr (s', k + length l, [], True)"
    "\<And>rest. read_row h k s (l @ CHR 0x0A # rest) = Inr (s', k + length l, rest, False)"
proof -
  obtain s' where s': "stream_sink.put_all h k s (map (\<lambda>c. [c]) l) = Inr s'" "stream_wf s'"
      "contents s' = contents s @ concat (map (\<lambda>c. [c]) l)"
    using stream_sink.put_all_ok [where h = h, OF assms(2,4)] by blast
  have "read_row h k s (l @ []) = Inr (s', k + length l, [], True)"
    and "\<And>rest. read_row h k s (l @ CHR 0x0A # rest) = Inr (s', k + length l, rest, False)"
    by (simp_all only: read_row_put_all [OF assms(1)] s'(1)) (simp_all add: is_newline_def)
  then show thesis
    using that s'(2,3) assms(3) by simp
qed

lemma contents_split:
  assumes "stream_wf s" and "contents s = xs"
  obtains post where "sdata s = xs @ post" "slen s = length xs" "scap s = length xs + length post"
proof -
  have "sdata s = xs @ drop (slen s) (sdata s)"
    using assms(2) by (metis append_take_drop_id contents_def)
  moreover have "slen s = length xs"
    using assms by auto
  ultimately show thesis
    using that assms(1) by (metis length_append stream_wf_def)
qed

text \<open>What a line does to the tables, whatever the stream holds behind it.\<close>

definition line_does :: "(nat \<Rightarrow> nat \<Rightarrow> bool) \<Rightarrow> (nat \<Rightarrow> nat \<Rightarrow> bool) \<Rightarrow> nat \<Rightarrow> string \<Rightarrow> prule list \<Rightarrow> bool" where
  "line_does mc ma n tx rs \<longleftrightarrow>
     (\<forall>s T. stream_wf s \<longrightarrow> contents s = tx @ [NUL] \<longrightarrow> tables_wf T \<longrightarrow>
        (\<exists>T' s'. rows_line (mc n) (ma n) n s T = Inr (T', s') \<and> stream_wf s' \<and> tables_wf T' \<and>
           policy_of T' = fold apply_rule rs (policy_of T)))"

lemma line_does_nothing:
  assumes "n \<le> 1 \<or> tx = [] \<or> hd tx = CHR 0x23"
  shows "line_does mc ma n tx []"
  unfolding line_does_def
proof (intro allI impI)
  fix s :: "char stream" and T
  assume s: "stream_wf s" "contents s = tx @ [NUL]" and T: "tables_wf T"
  obtain post where "sdata s = (tx @ [NUL]) @ post" "slen s = length (tx @ [NUL])"
    by (rule contents_split [OF s])
  then have "rows_line (mc n) (ma n) n s T = Inr (T, s)"
    using assms by (cases tx) (auto simp: rows_line_def rd_def)
  then show "\<exists>T' s'. rows_line (mc n) (ma n) n s T = Inr (T', s') \<and> stream_wf s' \<and> tables_wf T' \<and>
      policy_of T' = fold apply_rule [] (policy_of T)"
    using s T by auto
qed

lemma print_cells_hd:
  assumes "row_denotes cs ps r"
  shows "print_cells cs \<noteq> []"
proof -
  obtain c cs' where cs: "cs = c # cs'" "cs' \<noteq> []"
  proof -
    have "length cs = 8"
      using assms by (cases r) (auto simp: doc_row_def)
    then show thesis
      using that by (cases cs) force+
  qed
  then show ?thesis
    by (cases c; cases cs') auto
qed

lemma line_does_rule:
  assumes "row_denotes cs ps r" and "rule_honoured cs r" and "hd (print_cells cs) \<noteq> CHR 0x23" and "1 < n"
    and "\<And>k. mc n k" and "\<And>k. ma n k"
  shows "line_does mc ma n (print_cells cs) [r]"
  unfolding line_does_def
proof (intro allI impI)
  fix s :: "char stream" and T
  assume s: "stream_wf s" "contents s = print_cells cs @ [NUL]" and T: "tables_wf T"
  obtain post where p: "sdata s = print_cells cs @ NUL # post" "slen s = length (print_cells cs) + 1"
      "scap s = length (print_cells cs @ NUL # post)"
    by (rule contents_split [OF s]) auto
  obtain rc T' b where run: "attacker_add_rule (mc n) (ma n) T (sdata s) (slen s) = Inr (rc, T', b)"
      "tables_wf T'" "policy_of T' = apply_rule r (policy_of T)" "length b = length (sdata s)"
    using attacker_add_rule_documented [where mc = "mc n" and ma = "ma n" and post = post,
        OF assms(1,2,5,6) T] p(1,2) by metis
  obtain c cs' where "print_cells cs = c # cs'"
    using print_cells_hd [OF assms(1)] by (cases "print_cells cs") auto
  then have "rows_line (mc n) (ma n) n s T = Inr (T', s\<lparr>sdata := b\<rparr>)"
    using assms(3,4) p run(1) by (simp add: rows_line_def rd_def)
  moreover have "stream_wf (s\<lparr>sdata := b\<rparr>)"
    using s(1) run(4) by (simp add: stream_wf_def)
  ultimately show "\<exists>T' s'. rows_line (mc n) (ma n) n s T = Inr (T', s') \<and> stream_wf s' \<and> tables_wf T' \<and>
      policy_of T' = fold apply_rule [r] (policy_of T)"
    using run(2,3) by auto
qed

lemma line_does_line:
  assumes "line_ok l" and "1 < n" and "\<And>n k. mc n k" and "\<And>n k. ma n k"
  shows "line_does mc ma n (line_text l) (line_rules l)"
proof (cases l)
  case (RuleLine cs ps r)
  then show ?thesis
    using line_does_rule [of cs ps r n mc ma] assms by simp
qed (simp_all add: line_does_nothing)

subsection \<open>Reading a file\<close>

lemma read_rows_loop_lines:
  assumes "\<And>k. granted (h k)" and "\<And>i. i < length ls \<Longrightarrow> one_line (fst (ls ! i))"
    and "\<And>i. i < length ls \<Longrightarrow> line_does mc ma (n + i) (fst (ls ! i)) (snd (ls ! i))"
    and "stream_wf s" and "contents s = []" and "tables_wf T" and "ls \<noteq> []"
  shows "\<exists>T'. read_rows_loop h mc ma k s n T (file_text (map fst ls)) = Inr T' \<and> tables_wf T' \<and>
           policy_of T' = fold apply_rule (concat (map snd ls)) (policy_of T)"
  using assms(2-)
proof (induction ls arbitrary: k s n T)
  case (Cons l ls)
  obtain tx rs where l: "l = (tx, rs)"
    by (cases l)
  have one: "one_line tx" and does: "line_does mc ma n tx rs"
    using Cons.prems(1,2) [of 0] l by simp_all
  obtain s1 where s1: "stream_wf s1" "contents s1 = tx"
    "read_row h k s tx = Inr (s1, k + length tx, [], True)"
    "\<And>rest. read_row h k s (tx @ CHR 0x0A # rest) = Inr (s1, k + length tx, rest, False)"
    by (rule read_row_line [where h = h and k = k, OF one Cons.prems(3,4) assms(1)]) blast
  obtain s2 where s2: "stream_append (h (k + length tx)) s1 [NUL] 1 = Inr (0, s2)" "stream_wf s2"
    "contents s2 = tx @ [NUL]"
    using stream_sink.put_ok [OF s1(1) assms(1), of "k + length tx" "[NUL]"] s1(2) by auto
  obtain T2 s3 where s3: "rows_line (mc n) (ma n) n s2 T = Inr (T2, s3)" "stream_wf s3" "tables_wf T2"
    "policy_of T2 = fold apply_rule rs (policy_of T)"
    using does s2(2,3) Cons.prems(5) unfolding line_does_def by blast
  show ?case
  proof (cases ls)
    case Nil
    then show ?thesis
      using l s1 s2 s3 by (subst read_rows_loop.simps) simp
  next
    case (Cons l' ls')
    have wf: "stream_wf (s3\<lparr>slen := 0\<rparr>)" "contents (s3\<lparr>slen := 0\<rparr>) = []"
      using s3(2) by (simp_all add: stream_wf_def contents_def)
    have "one_line (fst (ls ! i))" "line_does mc ma (Suc n + i) (fst (ls ! i)) (snd (ls ! i))"
      if "i < length ls" for i
      using Cons.prems(1,2) [of "Suc i"] that by simp_all
    then obtain T' where "read_rows_loop h mc ma (Suc (k + length tx)) (s3\<lparr>slen := 0\<rparr>) (Suc n) T2
        (file_text (map fst ls)) = Inr T'" "tables_wf T'"
        "policy_of T' = fold apply_rule (concat (map snd ls)) (policy_of T2)"
      using Cons.IH [OF _ _ wf s3(3)] Cons by blast
    moreover have "file_text (map fst (l # ls)) = tx @ CHR 0x0A # file_text (map fst ls)"
      using Cons l by simp
    ultimately show ?thesis
      using l s1(4) s2(1) s3(1,4) by (subst read_rows_loop.simps) simp
  qed
qed simp

lemma read_profile:
  assumes "\<forall>l\<in>set ls. line_ok l" and "one_line heading" and "tables_wf T"
    and "granted h0" and "\<forall>k. granted (h k)" and "\<forall>n k. mc n k" and "\<forall>n k. ma n k"
  shows "\<exists>T'. attacker_read_rows True h0 h mc ma T (Some (file_text (heading # map line_text ls))) =
           Inr T' \<and> tables_wf T' \<and>
           policy_of T' = fold apply_rule (concat (map line_rules ls)) (policy_of T)"
proof -
  obtain s where s: "stream_new True h0 DEFAULT_STREAM_LEN = Some s"
    using assms(4) by (simp add: stream_new_def malloc_def)
  let ?ls = "(heading, []) # map (\<lambda>l. (line_text l, line_rules l)) ls"
  have "one_line (line_text l)" if "line_ok l" for l
    using that by (cases l) auto
  then have one: "one_line (fst (?ls ! i))" if "i < length ?ls" for i
    using that assms(1,2) by (cases i) auto
  have does: "line_does mc ma (1 + i) (fst (?ls ! i)) (snd (?ls ! i))" if "i < length ?ls" for i
  proof (cases i)
    case 0
    then show ?thesis by (simp add: line_does_nothing)
  next
    case (Suc j)
    then show ?thesis
      using that assms(1,6,7) by (auto intro!: line_does_line)
  qed
  have maps: "map fst ?ls = heading # map line_text ls" "concat (map snd ?ls) = concat (map line_rules ls)"
    by (simp_all add: comp_def)
  have "\<exists>T'. read_rows_loop h mc ma 0 s 1 T (file_text (map fst ?ls)) = Inr T' \<and> tables_wf T' \<and>
      policy_of T' = fold apply_rule (concat (map snd ?ls)) (policy_of T)"
    using stream_new_wf [OF s] assms(3,5) by (intro read_rows_loop_lines one does) simp_all
  then show ?thesis
    unfolding maps by (simp add: attacker_read_rows_def s)
qed

subsection \<open>Properties\<close>

text \<open>C5: Reading a profile that was written from a list of rules (a heading, then printed rule
  rows, comments and blank lines) ends without a fault and leaves the tables at the policy those
  rules are documented to make, applied from the first to the last: a DROP rule sets the percentage (100 when none is given),
  a DUP rule of \<open>r\<close> deliveries sets \<open>r - 1\<close> further ones and is ignored for \<open>r = 1\<close>, for the versions and
  types the row names. Two kinds of rules the code does not honour are not covered: DUP rules with \<open>r = 0\<close> or \<open>r\<close> above
  256, and rules for 1.3 or 1.4 whose type the tables of aliases misplace, by name from \<open>MultipartRes\<close> on, by number 29
  of 1.3 and 21 and 34 of 1.4. Nor are rows for one controller or switch only, which the code applies to all.\<close>

theorem attacker_read_rows_profile:
  assumes "\<forall>l\<in>set ls. line_ok l" and "one_line heading" and "tables_wf T"
    and "granted h0" and "\<forall>k. granted (h k)" and "\<forall>n k. mc n k" and "\<forall>n k. ma n k"
  shows "\<exists>T'. attacker_read_rows True h0 h mc ma T (Some (file_text (heading # map line_text ls))) =
           Inr T' \<and> tables_wf T' \<and>
           policy_of T' = fold apply_rule (concat (map line_rules ls)) (policy_of T)"
  by (rule read_profile [OF assms])

definition sample_cells :: "cell list" where
  "sample_cells = map (\<lambda>t. ([], t, []))
     [''1'', ''*'', ''*'', ''1.0'', ''PacketIn'', ''*'', ''DROP'', ''p=30'']"

definition sample_reply :: "char heap_reply" where
  "sample_reply = \<lparr>granted = True, junk = (\<lambda>_. NUL)\<rparr>"

lemma sample_line_ok: "line_ok (RuleLine sample_cells [(''p'', ''30'')] (DropRule 1 10 30))"
  by code_simp

definition sample_dup3_cells :: "cell list" where
  "sample_dup3_cells = map (\<lambda>t. ([], t, [])) [''1'', ''-1'', ''-1'', ''4'', ''FlowMod'', [], ''DUP'', ''r=3'']"

lemma sample_dup3_line_ok: "line_ok (RuleLine sample_dup3_cells [(''r'', ''3'')] (DupRule 4 14 3))"
  by code_simp

lemma attacker_read_rows_profile_witness:
  "\<exists>T'. attacker_read_rows True sample_reply (\<lambda>_. sample_reply) (\<lambda>_ _. True) (\<lambda>_ _. True) init_tables
     (Some (file_text [''id'', ''# 1'', print_cells sample_cells, [], print_cells sample_dup3_cells])) = Inr T' \<and>
     policy_of T' (0, 10) = (30, 0) \<and> policy_of T' (3, 14) = (0, 2)"
proof -
  have "policy_of init_tables (0, 10) = (0, 0)" "policy_of init_tables (3, 14) = (0, 0)"
    by (simp_all add: policy_of_def init_tables_def tab_get_def rd_def cell_val_def)
  moreover have "covers 1 10 0 10" "(0, 10) \<in> grid_cells" "\<not> covers 4 14 0 10" "covers 4 14 3 14" "(3, 14) \<in> grid_cells" "\<not> covers 1 10 3 14"
    by (simp_all add: covers_def grid_cells_def)
  moreover have "\<exists>T'. attacker_read_rows True sample_reply (\<lambda>_. sample_reply) (\<lambda>_ _. True)
      (\<lambda>_ _. True) init_tables (Some (file_text [''id'', ''# 1'', print_cells sample_cells, [], print_cells sample_dup3_cells])) = Inr T' \<and>
      tables_wf T' \<and> policy_of T' = apply_rule (DupRule 4 14 3) (apply_rule (DropRule 1 10 30) (policy_of init_tables))"
  proof -
    let ?ls = "[Comment '' 1'', RuleLine sample_cells [(''p'', ''30'')] (DropRule 1 10 30), Blank,
        RuleLine sample_dup3_cells [(''r'', ''3'')] (DupRule 4 14 3)]"
    have ok: "\<forall>l\<in>set ?ls. line_ok l"
      by (simp add: sample_line_ok sample_dup3_line_ok one_line_def is_newline_def del: line_ok.simps(1))
    have hd: "one_line ''id''" and g: "granted sample_reply" "\<forall>k. granted ((\<lambda>_. sample_reply) k)"
      by (simp_all add: one_line_def is_newline_def sample_reply_def)
    have "map line_text ?ls = [''# 1'', print_cells sample_cells, [], print_cells sample_dup3_cells]"
      "fold apply_rule (concat (map line_rules ?ls)) f = apply_rule (DupRule 4 14 3) (apply_rule (DropRule 1 10 30) f)" for f
      by simp_all
    then show ?thesis
      using attacker_read_rows_profile [OF ok hd init_tables_wf g, of "\<lambda>_ _. True" "\<lambda>_ _. True"]
      by (simp only: simp_thms)
  qed
  ultimately show ?thesis
    by auto
qed

text \<open>Any run of the reader that ends without a fault leaves both tables at their full size and every
  drop percentage between 0 and 100.\<close>

lemma attacker_read_rows_wf:
  "attacker_read_rows got h0 h mc ma T file = Inr T' \<Longrightarrow> tables_wf T \<Longrightarrow> tables_wf T'"
  using read_rows_loop_wf by (auto simp: attacker_read_rows_def split: option.splits)




end
