(* ===== verification/WireBuf.thy ===== *)
theory WireBuf
  imports Prelude
begin

unbundle bit_operations_syntax

text \<open>
  The wire buffers of the OpenFlow library: the raw accessors of
  \<^verbatim>\<open>inc/loci/of_buffer.h\<close>, the byte-order macros of \<^verbatim>\<open>loci_base.h\<close>, the checked
  accessors and the constructors of \<^verbatim>\<open>of_wire_buf.h\<close>, and
  \<open>of_wire_buffer_replace_data\<close> of \<^verbatim>\<open>of_wire_buf.c\<close>.
\<close>

subsection \<open>Bytes and words\<close>

fun le_word :: "byte list \<Rightarrow> 'a::len word" where
  "le_word [] = 0"
| "le_word (x # xs) = ucast x OR push_bit 8 (le_word xs)"

fun le_bytes :: "nat \<Rightarrow> 'a::len word \<Rightarrow> byte list" where
  "le_bytes 0 w = []"
| "le_bytes (Suc n) w = ucast w # le_bytes n (drop_bit 8 w)"

definition be_word :: "byte list \<Rightarrow> 'a::len word" where
  "be_word xs = le_word (rev xs)"

definition be_bytes :: "nat \<Rightarrow> 'a::len word \<Rightarrow> byte list" where
  "be_bytes n w = rev (le_bytes n w)"

lemma le_bytes_length [simp]: "length (le_bytes n w) = n"
  by (induction n arbitrary: w) simp_all

lemma be_bytes_length [simp]: "length (be_bytes n w) = n"
  by (simp add: be_bytes_def)

lemma le_word_bytes: "le_word (le_bytes n w) = take_bit (8 * n) (w :: 'a::len word)"
proof (induction n arbitrary: w)
  case (Suc n)
  have "ucast (ucast w :: byte) OR push_bit 8 (take_bit (8 * n) (drop_bit 8 w)) = take_bit (8 * Suc n) w"
  proof (rule bit_eqI)
    fix i
    assume i: "possible_bit TYPE('a word) i"
    show "bit (ucast (ucast w :: byte) OR push_bit 8 (take_bit (8 * n) (drop_bit 8 w))) i =
        bit (take_bit (8 * Suc n) w) i"
      using i by (cases "i < 8") (auto simp: bit_simps)
  qed
  then show ?case
    by (simp add: Suc.IH)
qed simp

lemma be_word_bytes: "LENGTH('a) \<le> 8 * n \<Longrightarrow> be_word (be_bytes n w) = (w :: 'a::len word)"
  by (simp add: be_word_def be_bytes_def le_word_bytes take_bit_word_eq_self)

lemma le_bytes_word:
  "8 * length xs \<le> LENGTH('a) \<Longrightarrow> le_bytes (length xs) (le_word xs :: 'a::len word) = xs"
proof (induction xs)
  case (Cons x xs)
  let ?w = "le_word xs :: 'a word"
  have "ucast (ucast x OR push_bit 8 ?w) = x"
    using Cons.prems by (intro bit_eqI) (auto simp: bit_simps)
  moreover have "drop_bit 8 (ucast x OR push_bit 8 ?w) = take_bit (LENGTH('a) - 8) ?w"
    using Cons.prems by (intro bit_eqI) (auto simp: bit_simps dest: bit_imp_le_length)
  moreover have "take_bit (LENGTH('a) - 8) ?w = ?w"
  proof -
    have "i < 8 * length xs" if "bit ?w i" for i
      using that
    proof (induction xs arbitrary: i)
      case (Cons y ys)
      then show ?case
        by (fastforce simp: bit_simps dest: bit_imp_le_length)
    qed simp
    then show ?thesis
      using Cons.prems by (intro bit_eqI) (fastforce simp: bit_simps)
  qed
  ultimately show ?case
    using Cons by simp
qed simp

lemma be_bytes_word:
  "8 * n \<le> LENGTH('a) \<Longrightarrow> length xs = n \<Longrightarrow> be_bytes n (be_word xs :: 'a::len word) = xs"
  using le_bytes_word [of "rev xs", where 'a = 'a] by (simp add: be_bytes_def be_word_def)

subsection \<open>Raw accessors\<close>

definition buf_u8_get :: "byte list \<Rightarrow> int \<Rightarrow> byte res" where
  "buf_u8_get b p = rd b p"

definition buf_u16_get :: "byte list \<Rightarrow> int \<Rightarrow> 16 word res" where
  "buf_u16_get b p = bnd (rd_block b p 2) (\<lambda>xs. Inr (be_word xs))"

definition buf_u32_get :: "byte list \<Rightarrow> int \<Rightarrow> 32 word res" where
  "buf_u32_get b p = bnd (rd_block b p 4) (\<lambda>xs. Inr (be_word xs))"

definition buf_u64_get :: "byte list \<Rightarrow> int \<Rightarrow> 64 word res" where
  "buf_u64_get b p = bnd (rd_block b p 8) (\<lambda>xs. Inr (be_word xs))"

definition buf_octets_get :: "byte list \<Rightarrow> int \<Rightarrow> nat \<Rightarrow> byte list res" where
  "buf_octets_get b p bytes = rd_block b p bytes"

definition buf_u8_set :: "byte list \<Rightarrow> int \<Rightarrow> byte \<Rightarrow> byte list res" where
  "buf_u8_set b p v = wr b p v"

definition buf_u16_set :: "byte list \<Rightarrow> int \<Rightarrow> 16 word \<Rightarrow> byte list res" where
  "buf_u16_set b p v = wr_block b p (be_bytes 2 v)"

definition buf_u32_set :: "byte list \<Rightarrow> int \<Rightarrow> 32 word \<Rightarrow> byte list res" where
  "buf_u32_set b p v = wr_block b p (be_bytes 4 v)"

definition buf_u64_set :: "byte list \<Rightarrow> int \<Rightarrow> 64 word \<Rightarrow> byte list res" where
  "buf_u64_set b p v = wr_block b p (be_bytes 8 v)"

definition buf_octets_set :: "byte list \<Rightarrow> int \<Rightarrow> byte list \<Rightarrow> byte list res" where
  "buf_octets_set b p xs = wr_block b p xs"

text \<open>
  The same accessors as the machine runs them: a \<open>memcpy\<close> into a variable in the machine's
  byte order, then the macro that swaps the bytes on a little-endian machine.
\<close>

datatype endian = LittleEndian | BigEndian

definition native :: "endian \<Rightarrow> byte list \<Rightarrow> 'a::len word" where
  "native e xs = le_word (if e = LittleEndian then xs else rev xs)"

definition native_bytes :: "endian \<Rightarrow> nat \<Rightarrow> 'a::len word \<Rightarrow> byte list" where
  "native_bytes e n w = (if e = LittleEndian then le_bytes n w else rev (le_bytes n w))"

definition U16_NTOH :: "endian \<Rightarrow> 16 word \<Rightarrow> 16 word" where
  "U16_NTOH e v = (if e = BigEndian then v else drop_bit 8 v OR push_bit 8 (v AND 0xff))"

definition U32_NTOH :: "endian \<Rightarrow> 32 word \<Rightarrow> 32 word" where
  "U32_NTOH e v =
     (if e = BigEndian then v
      else drop_bit 24 (v AND 0xff000000) OR drop_bit 8 (v AND 0x00ff0000) OR
           push_bit 8 (v AND 0x0000ff00) OR push_bit 24 (v AND 0x000000ff))"

definition U64_NTOH :: "endian \<Rightarrow> 64 word \<Rightarrow> 64 word" where
  "U64_NTOH e v =
     (if e = BigEndian then v
      else drop_bit 56 (v AND 0xff00000000000000) OR drop_bit 40 (v AND 0x00ff000000000000) OR
           drop_bit 24 (v AND 0x0000ff0000000000) OR drop_bit 8 (v AND 0x000000ff00000000) OR
           push_bit 8 (v AND 0x00000000ff000000) OR push_bit 24 (v AND 0x0000000000ff0000) OR
           push_bit 40 (v AND 0x000000000000ff00) OR push_bit 56 (v AND 0x00000000000000ff))"

definition machine_u16_get :: "endian \<Rightarrow> byte list \<Rightarrow> int \<Rightarrow> 16 word res" where
  "machine_u16_get e b p = bnd (rd_block b p 2) (\<lambda>xs. Inr (U16_NTOH e (native e xs)))"

definition machine_u32_get :: "endian \<Rightarrow> byte list \<Rightarrow> int \<Rightarrow> 32 word res" where
  "machine_u32_get e b p = bnd (rd_block b p 4) (\<lambda>xs. Inr (U32_NTOH e (native e xs)))"

definition machine_u64_get :: "endian \<Rightarrow> byte list \<Rightarrow> int \<Rightarrow> 64 word res" where
  "machine_u64_get e b p = bnd (rd_block b p 8) (\<lambda>xs. Inr (U64_NTOH e (native e xs)))"

definition machine_u16_set :: "endian \<Rightarrow> byte list \<Rightarrow> int \<Rightarrow> 16 word \<Rightarrow> byte list res" where
  "machine_u16_set e b p v = wr_block b p (native_bytes e 2 (U16_NTOH e v))"

definition machine_u32_set :: "endian \<Rightarrow> byte list \<Rightarrow> int \<Rightarrow> 32 word \<Rightarrow> byte list res" where
  "machine_u32_set e b p v = wr_block b p (native_bytes e 4 (U32_NTOH e v))"

definition machine_u64_set :: "endian \<Rightarrow> byte list \<Rightarrow> int \<Rightarrow> 64 word \<Rightarrow> byte list res" where
  "machine_u64_set e b p v = wr_block b p (native_bytes e 8 (U64_NTOH e v))"

text \<open>The masks of the macros as shifted bytes, so that their bits can be read off.\<close>

lemma byte_masks32:
  "(0xff000000 :: 32 word) = push_bit 24 (mask 8)" "(0x00ff0000 :: 32 word) = push_bit 16 (mask 8)"
  "(0x0000ff00 :: 32 word) = push_bit 8 (mask 8)" "(0x000000ff :: 32 word) = mask 8"
  by (simp_all add: mask_eq_exp_minus_1)

lemma byte_masks64:
  "(0xff00000000000000 :: 64 word) = push_bit 56 (mask 8)" "(0x00ff000000000000 :: 64 word) = push_bit 48 (mask 8)"
  "(0x0000ff0000000000 :: 64 word) = push_bit 40 (mask 8)" "(0x000000ff00000000 :: 64 word) = push_bit 32 (mask 8)"
  "(0x00000000ff000000 :: 64 word) = push_bit 24 (mask 8)" "(0x0000000000ff0000 :: 64 word) = push_bit 16 (mask 8)"
  "(0x000000000000ff00 :: 64 word) = push_bit 8 (mask 8)" "(0x00000000000000ff :: 64 word) = mask 8"
  by (simp_all add: mask_eq_exp_minus_1)

lemma byte_mask16: "(0xff :: 16 word) = mask 8"
  by (simp add: mask_eq_exp_minus_1)


lemma length_2: "length xs = 2 \<Longrightarrow> \<exists>a b. xs = [a, b]"
  and length_4: "length xs = 4 \<Longrightarrow> \<exists>a b c d. xs = [a, b, c, d]"
  and length_8: "length xs = 8 \<Longrightarrow> \<exists>a b c d e f g h. xs = [a, b, c, d, e, f, g, h]"
  by (auto simp: eval_nat_numeral length_Suc_conv)

definition byte_at :: "nat \<Rightarrow> 'a::len word \<Rightarrow> byte" where
  "byte_at k v = ucast (drop_bit k v)"

lemma masked_down:
  "m \<le> k \<Longrightarrow> k < LENGTH('a) \<Longrightarrow> drop_bit m (v AND push_bit k (mask 8)) = (push_bit (k - m) (ucast (byte_at k v)) :: 'a::len word)"
  by (intro bit_eqI) (auto simp: byte_at_def bit_simps ac_simps dest: bit_imp_le_length)

lemma masked_up: "push_bit m (v AND push_bit k (mask 8)) = (push_bit (m + k) (ucast (byte_at k v)) :: 'a::len word)"
  by (intro bit_eqI) (auto simp: byte_at_def bit_simps dest: bit_imp_le_length)

lemma masked_low: "v AND mask 8 = (ucast (byte_at 0 v) :: 'a::len word)"
  by (intro bit_eqI) (auto simp: byte_at_def bit_simps dest: bit_imp_le_length)


lemma bytes_of_word16:
  assumes "w = (le_word [a, b] :: 16 word)"
  shows "byte_at 0 w = a" "byte_at 8 w = b"
  using le_bytes_word [of "[a, b]", where 'a = 16]
  by (simp_all add: assms byte_at_def eval_nat_numeral del: le_word.simps)

lemma bytes_of_word32:
  assumes "w = (le_word [a, b, c, d] :: 32 word)"
  shows "byte_at 0 w = a" "byte_at 8 w = b" "byte_at 16 w = c" "byte_at 24 w = d"
  using le_bytes_word [of "[a, b, c, d]", where 'a = 32]
  by (simp_all add: assms byte_at_def eval_nat_numeral del: le_word.simps)

lemma bytes_of_word64:
  assumes "w = (le_word [a, b, c, d, e, f, g, h] :: 64 word)"
  shows "byte_at 0 w = a" "byte_at 8 w = b" "byte_at 16 w = c" "byte_at 24 w = d"
    "byte_at 32 w = e" "byte_at 40 w = f" "byte_at 48 w = g" "byte_at 56 w = h"
  using le_bytes_word [of "[a, b, c, d, e, f, g, h]", where 'a = 64]
  by (simp_all add: assms byte_at_def eval_nat_numeral del: le_word.simps)

lemma U16_swap: "U16_NTOH e (le_word [a, b]) = (if e = BigEndian then le_word [a, b] else le_word [b, a])"
proof -
  define w where "w = (le_word [a, b] :: 16 word)"
  have "drop_bit 8 w = (ucast (byte_at 8 w) :: 16 word)"
    by (intro bit_eqI) (auto simp: byte_at_def bit_simps dest: bit_imp_le_length)
  then have L: "U16_NTOH LittleEndian w = ucast b OR push_bit 8 (ucast a)"
    by (simp add: U16_NTOH_def byte_mask16 masked_low bytes_of_word16 [OF w_def] del: push_bit_and)
  then show ?thesis
    by (cases e) (simp_all add: w_def [symmetric] L del: le_word.simps, simp_all add: U16_NTOH_def)
qed

lemma U32_swap:
  "U32_NTOH e (le_word [a, b, c, d]) =
     (if e = BigEndian then le_word [a, b, c, d] else le_word [d, c, b, a])"
proof -
  define w where "w = (le_word [a, b, c, d] :: 32 word)"
  have L: "U32_NTOH LittleEndian w = ucast d OR push_bit 8 (ucast c) OR
      push_bit 16 (ucast b) OR push_bit 24 (ucast a)"
    by (simp add: U32_NTOH_def byte_masks32 masked_up masked_low masked_down bytes_of_word32 [OF w_def]
        del: push_bit_and drop_bit_and)
  then show ?thesis
    by (cases e) (simp_all add: w_def [symmetric] L del: le_word.simps,
        simp_all add: U32_NTOH_def push_bit_or)
qed

lemma U64_swap:
  "U64_NTOH e (le_word [a, b, c, d, i, f, g, h]) =
     (if e = BigEndian then le_word [a, b, c, d, i, f, g, h] else le_word [h, g, f, i, d, c, b, a])"
proof -
  define w where "w = (le_word [a, b, c, d, i, f, g, h] :: 64 word)"
  have L: "U64_NTOH LittleEndian w = ucast h OR push_bit 8 (ucast g) OR push_bit 16 (ucast f) OR
      push_bit 24 (ucast i) OR push_bit 32 (ucast d) OR push_bit 40 (ucast c) OR push_bit 48 (ucast b) OR
      push_bit 56 (ucast a)"
    by (simp add: U64_NTOH_def byte_masks64 masked_up masked_low masked_down bytes_of_word64 [OF w_def]
        del: push_bit_and drop_bit_and)
  then show ?thesis
    by (cases e) (simp_all add: w_def [symmetric] L del: le_word.simps,
        simp_all add: U64_NTOH_def push_bit_or)
qed


lemma machine_u16_get: "machine_u16_get e b p = buf_u16_get b p"
proof (cases "rd_block b p 2")
  case (Inr xs)
  then obtain x y where "xs = [x, y]"
    using length_2 rd_block_length by blast
  then show ?thesis
    using Inr by (cases e) (simp_all add: machine_u16_get_def buf_u16_get_def native_def be_word_def
        U16_swap del: le_word.simps)
qed (simp add: machine_u16_get_def buf_u16_get_def)

lemma machine_u32_get: "machine_u32_get e b p = buf_u32_get b p"
proof (cases "rd_block b p 4")
  case (Inr xs)
  then obtain x1 x2 x3 x4 where "xs = [x1, x2, x3, x4]"
    using length_4 rd_block_length by blast
  then show ?thesis
    using Inr by (cases e) (simp_all add: machine_u32_get_def buf_u32_get_def native_def be_word_def
        U32_swap del: le_word.simps)
qed (simp add: machine_u32_get_def buf_u32_get_def)

lemma machine_u64_get: "machine_u64_get e b p = buf_u64_get b p"
proof (cases "rd_block b p 8")
  case (Inr xs)
  then obtain x1 x2 x3 x4 x5 x6 x7 x8 where "xs = [x1, x2, x3, x4, x5, x6, x7, x8]"
    using length_8 rd_block_length by blast
  then show ?thesis
    using Inr by (cases e) (simp_all add: machine_u64_get_def buf_u64_get_def native_def be_word_def
        U64_swap del: le_word.simps)
qed (simp add: machine_u64_get_def buf_u64_get_def)

text \<open>Swapping the bytes of a value and storing it in native order is storing it big-endian.\<close>

lemma native_swapped:
  assumes swap: "\<And>xs. length xs = n \<Longrightarrow> f (le_word xs :: 'a word) = (le_word (rev xs) :: 'a::len word)"
    and n: "LENGTH('a) = 8 * n"
  shows "le_bytes n (f v) = be_bytes n v"
proof -
  have v: "v = le_word (le_bytes n v)"
    unfolding le_word_bytes using n by (intro take_bit_word_eq_self [symmetric]) simp
  have "f v = le_word (rev (le_bytes n v))"
    using swap [of "le_bytes n v"] v by simp
  then show ?thesis
    using le_bytes_word [of "rev (le_bytes n v)", where 'a = 'a] n by (simp add: be_bytes_def)
qed

lemma machine_u16_set: "machine_u16_set e b p v = buf_u16_set b p v"
proof (cases e)
  case LittleEndian
  then have "le_bytes 2 (U16_NTOH e v) = be_bytes 2 v"
    using U16_swap length_2 by (intro native_swapped) (fastforce simp del: le_word.simps)+
  then show ?thesis
    using LittleEndian by (simp add: machine_u16_set_def buf_u16_set_def native_bytes_def)
qed (simp add: machine_u16_set_def buf_u16_set_def native_bytes_def U16_NTOH_def be_bytes_def)

lemma machine_u32_set: "machine_u32_set e b p v = buf_u32_set b p v"
proof (cases e)
  case LittleEndian
  then have "le_bytes 4 (U32_NTOH e v) = be_bytes 4 v"
    using U32_swap length_4 by (intro native_swapped) (fastforce simp del: le_word.simps)+
  then show ?thesis
    using LittleEndian by (simp add: machine_u32_set_def buf_u32_set_def native_bytes_def)
qed (simp add: machine_u32_set_def buf_u32_set_def native_bytes_def U32_NTOH_def be_bytes_def)

lemma machine_u64_set: "machine_u64_set e b p v = buf_u64_set b p v"
proof (cases e)
  case LittleEndian
  then have "le_bytes 8 (U64_NTOH e v) = be_bytes 8 v"
    using U64_swap length_8 by (intro native_swapped) (fastforce simp del: le_word.simps)+
  then show ?thesis
    using LittleEndian by (simp add: machine_u64_set_def buf_u64_set_def native_bytes_def)
qed (simp add: machine_u64_set_def buf_u64_set_def native_bytes_def U64_NTOH_def be_bytes_def)

subsection \<open>Scalar codecs\<close>

text \<open>
  What the users of the accessors rely on: a pair of a reader and a writer of \<open>sz\<close> bytes that
  stays inside the block, touches its own bytes only, and reads back what was written.
\<close>

locale scalar =
  fixes get :: "byte list \<Rightarrow> int \<Rightarrow> 'v res"
    and put :: "byte list \<Rightarrow> int \<Rightarrow> 'v \<Rightarrow> byte list res"
    and sz :: nat
  assumes sz_pos: "0 < sz"
    and get_in: "0 \<le> p \<Longrightarrow> p + int sz \<le> int (length b) \<Longrightarrow> \<exists>v. get b p = Inr v"
    and put_in: "0 \<le> p \<Longrightarrow> p + int sz \<le> int (length b) \<Longrightarrow> \<exists>b'. put b p v = Inr b'"
    and get_put: "put b p v = Inr b' \<Longrightarrow> get b' p = Inr v"
    and put_length: "put b p v = Inr b' \<Longrightarrow> length b' = length b"
    and put_frame: "put b p v = Inr b' \<Longrightarrow> q + int n \<le> p \<or> p + int sz \<le> q \<Longrightarrow>
      rd_block b' q n = rd_block b q n"
    and get_local: "rd_block b p sz = rd_block b' p sz \<Longrightarrow> get b p = get b' p"
begin

lemma get_put_other:
  "put b p v = Inr b' \<Longrightarrow> q + int sz \<le> p \<or> p + int sz \<le> q \<Longrightarrow> get b' q = get b q"
  using put_frame [of b p v b' q sz] get_local [of b' q b] by simp

end

lemma rd_as_block: "rd b p = bnd (rd_block b p 1) (\<lambda>xs. Inr (hd xs))"
  by (auto simp: rd_def rd_block_def hd_drop_conv_nth)

interpretation u8: scalar buf_u8_get buf_u8_set 1
proof unfold_locales
  fix b b' :: "byte list" and p q v and n :: nat
  show "buf_u8_set b p v = Inr b' \<Longrightarrow> q + int n \<le> p \<or> p + int 1 \<le> q \<Longrightarrow>
      rd_block b' q n = rd_block b q n"
  proof -
    assume a: "buf_u8_set b p v = Inr b'" "q + int n \<le> p \<or> p + int 1 \<le> q"
    then have "wr_block b p [v] = Inr b'"
      by (auto simp: buf_u8_set_def wr_Inr wr_block_def upd_conv_take_nth_drop)
    then show ?thesis
      using rd_block_wr_block_other [of b p "[v]" b' q n] a(2) by simp
  qed
  show "rd_block b p 1 = rd_block b' p 1 \<Longrightarrow> buf_u8_get b p = buf_u8_get b' p"
    by (simp add: buf_u8_get_def rd_as_block)
qed (auto simp: buf_u8_get_def buf_u8_set_def rd_def wr_def split: if_splits)

text \<open>The wider accessors go through a block read or write of their bytes.\<close>

lemma block_scalar:
  assumes "0 < n" and "\<And>b p. g b p = bnd (rd_block b p n) (\<lambda>xs. Inr (dec xs))"
    and "\<And>b p v. s b p v = wr_block b p (enc v)"
    and "\<And>v. length (enc v) = n" and "\<And>v. dec (enc v) = v"
  shows "scalar g s n"
proof unfold_locales
  fix b b' :: "byte list" and p q v and m :: nat
  show "0 \<le> p \<Longrightarrow> p + int n \<le> int (length b) \<Longrightarrow> \<exists>v. g b p = Inr v"
    by (simp add: assms(2) rd_block_def)
  show "0 \<le> p \<Longrightarrow> p + int n \<le> int (length b) \<Longrightarrow> \<exists>b'. s b p v = Inr b'"
    by (simp add: assms(3,4) wr_block_def)
  show "s b p v = Inr b' \<Longrightarrow> g b' p = Inr v"
    using rd_block_wr_block_same [of b p "enc v" b'] by (simp add: assms)
  show "s b p v = Inr b' \<Longrightarrow> length b' = length b"
    by (simp add: assms(3) wr_block_length)
  show "s b p v = Inr b' \<Longrightarrow> q + int m \<le> p \<or> p + int n \<le> q \<Longrightarrow> rd_block b' q m = rd_block b q m"
    using rd_block_wr_block_other [of b p "enc v" b' q m] by (simp add: assms)
  show "rd_block b p n = rd_block b' p n \<Longrightarrow> g b p = g b' p"
    by (simp add: assms(2))
qed (rule assms(1))

interpretation u16: scalar buf_u16_get buf_u16_set 2
  by (rule block_scalar [of _ _ be_word _ "be_bytes 2"])
     (simp_all add: buf_u16_get_def buf_u16_set_def be_word_bytes)

interpretation u32: scalar buf_u32_get buf_u32_set 4
  by (rule block_scalar [of _ _ be_word _ "be_bytes 4"])
     (simp_all add: buf_u32_get_def buf_u32_set_def be_word_bytes)

interpretation u64: scalar buf_u64_get buf_u64_set 8
  by (rule block_scalar [of _ _ be_word _ "be_bytes 8"])
     (simp_all add: buf_u64_get_def buf_u64_set_def be_word_bytes)

subsection \<open>Wire buffers\<close>

text \<open>
  A wire buffer: the memory block behind \<open>buf\<close> (\<open>None\<close> for a null pointer), the bytes it counts
  as allocated and the bytes in use. The pointer to the deallocation function is left out.
\<close>

record wire_buffer =
  wbuf_buf :: "byte list option"
  alloc_bytes :: int
  current_bytes :: int

definition of_wire_buffer_new :: "bool \<Rightarrow> byte heap_reply \<Rightarrow> nat \<Rightarrow> wire_buffer option" where
  "of_wire_buffer_new got h a_bytes =
     (if \<not> got then None
      else case malloc h a_bytes of
             None \<Rightarrow> None
           | Some b \<Rightarrow> Some \<lparr>wbuf_buf = Some b, alloc_bytes = int a_bytes, current_bytes = 0\<rparr>)"

definition of_wire_buffer_new_bind :: "bool \<Rightarrow> byte list option \<Rightarrow> int \<Rightarrow> wire_buffer option" where
  "of_wire_buffer_new_bind got b bytes =
     (if got then Some \<lparr>wbuf_buf = b, alloc_bytes = bytes, current_bytes = bytes\<rparr> else None)"

definition of_wire_buffer_steal :: "wire_buffer \<Rightarrow> byte list option" where
  "of_wire_buffer_steal w = wbuf_buf w"

definition of_wire_buffer_grow :: "wire_buffer option \<Rightarrow> int \<Rightarrow> wire_buffer res" where
  "of_wire_buffer_grow wb bytes =
     (case wb of
        None \<Rightarrow> Inl AssertFail
      | Some w \<Rightarrow>
          c_assert (alloc_bytes w \<ge> bytes)
            (if bytes > current_bytes w then
               (case wbuf_buf w of
                  None \<Rightarrow> Inl NullDeref
                | Some b \<Rightarrow>
                    bnd (wr_block b (current_bytes w) (replicate (nat (bytes - current_bytes w)) 0))
                        (\<lambda>b'. Inr (w\<lparr>wbuf_buf := Some b', current_bytes := bytes\<rparr>)))
             else Inr w))"

text \<open>\<open>OF_WIRE_BUFFER_ACCESS_CHECK\<close>, then the access to the block.\<close>

definition access_check :: "wire_buffer option \<Rightarrow> int \<Rightarrow> (wire_buffer \<Rightarrow> byte list \<Rightarrow> 'a res) \<Rightarrow> 'a res" where
  "access_check wb extent k =
     (case wb of
        None \<Rightarrow> Inl AssertFail
      | Some w \<Rightarrow>
          (case wbuf_buf w of
             None \<Rightarrow> Inl AssertFail
           | Some b \<Rightarrow> c_assert (extent > 0 \<and> current_bytes w \<ge> extent) (k w b)))"

definition checked_get :: "(byte list \<Rightarrow> int \<Rightarrow> 'v res) \<Rightarrow> int \<Rightarrow> wire_buffer option \<Rightarrow> int \<Rightarrow> 'v res" where
  "checked_get g n wb offset = access_check wb (offset + n) (\<lambda>w b. g b offset)"

definition checked_set ::
  "(byte list \<Rightarrow> int \<Rightarrow> 'v \<Rightarrow> byte list res) \<Rightarrow> int \<Rightarrow> wire_buffer option \<Rightarrow> int \<Rightarrow> 'v \<Rightarrow> wire_buffer res" where
  "checked_set s n wb offset v =
     access_check wb (offset + n) (\<lambda>w b. bnd (s b offset v) (\<lambda>b'. Inr (w\<lparr>wbuf_buf := Some b'\<rparr>)))"

definition of_wire_buffer_u8_get :: "wire_buffer option \<Rightarrow> int \<Rightarrow> byte res" where
  "of_wire_buffer_u8_get = checked_get buf_u8_get 1"

definition of_wire_buffer_u8_set :: "wire_buffer option \<Rightarrow> int \<Rightarrow> byte \<Rightarrow> wire_buffer res" where
  "of_wire_buffer_u8_set = checked_set buf_u8_set 1"

definition of_wire_buffer_u16_get :: "wire_buffer option \<Rightarrow> int \<Rightarrow> 16 word res" where
  "of_wire_buffer_u16_get = checked_get buf_u16_get 2"

definition of_wire_buffer_u16_set :: "wire_buffer option \<Rightarrow> int \<Rightarrow> 16 word \<Rightarrow> wire_buffer res" where
  "of_wire_buffer_u16_set = checked_set buf_u16_set 2"

definition of_wire_buffer_u32_get :: "wire_buffer option \<Rightarrow> int \<Rightarrow> 32 word res" where
  "of_wire_buffer_u32_get = checked_get buf_u32_get 4"

definition of_wire_buffer_u32_set :: "wire_buffer option \<Rightarrow> int \<Rightarrow> 32 word \<Rightarrow> wire_buffer res" where
  "of_wire_buffer_u32_set = checked_set buf_u32_set 4"

definition of_wire_buffer_u64_get :: "wire_buffer option \<Rightarrow> int \<Rightarrow> 64 word res" where
  "of_wire_buffer_u64_get = checked_get buf_u64_get 8"

definition of_wire_buffer_u64_set :: "wire_buffer option \<Rightarrow> int \<Rightarrow> 64 word \<Rightarrow> wire_buffer res" where
  "of_wire_buffer_u64_set = checked_set buf_u64_set 8"

subsection \<open>Fields whose width depends on the OpenFlow version\<close>

definition of_wire_buffer_port_no_get :: "int \<Rightarrow> wire_buffer option \<Rightarrow> int \<Rightarrow> 32 word res" where
  "of_wire_buffer_port_no_get version wb offset =
     (if version = 1 then bnd (of_wire_buffer_u16_get wb offset) (\<lambda>v16. Inr (ucast v16))
      else of_wire_buffer_u32_get wb offset)"

definition of_wire_buffer_port_no_set :: "int \<Rightarrow> wire_buffer option \<Rightarrow> int \<Rightarrow> 32 word \<Rightarrow> wire_buffer res" where
  "of_wire_buffer_port_no_set version wb offset v =
     (if version = 1 then of_wire_buffer_u16_set wb offset (ucast v)
      else of_wire_buffer_u32_set wb offset v)"

definition of_wire_buffer_fm_cmd_get :: "int \<Rightarrow> wire_buffer option \<Rightarrow> int \<Rightarrow> 16 word res" where
  "of_wire_buffer_fm_cmd_get version wb offset =
     (if version = 1 then of_wire_buffer_u16_get wb offset
      else bnd (of_wire_buffer_u8_get wb offset) (\<lambda>v8. Inr (ucast v8)))"

definition of_wire_buffer_fm_cmd_set :: "int \<Rightarrow> wire_buffer option \<Rightarrow> int \<Rightarrow> 16 word \<Rightarrow> wire_buffer res" where
  "of_wire_buffer_fm_cmd_set version wb offset v =
     (if version = 1 then of_wire_buffer_u16_set wb offset v
      else of_wire_buffer_u8_set wb offset (ucast v))"

definition of_wire_buffer_wc_bmap_get :: "int \<Rightarrow> wire_buffer option \<Rightarrow> int \<Rightarrow> 64 word res" where
  "of_wire_buffer_wc_bmap_get version wb offset =
     (if version = 1 \<or> version = 2 then bnd (of_wire_buffer_u32_get wb offset) (\<lambda>v32. Inr (ucast v32))
      else of_wire_buffer_u64_get wb offset)"

definition of_wire_buffer_wc_bmap_set :: "int \<Rightarrow> wire_buffer option \<Rightarrow> int \<Rightarrow> 64 word \<Rightarrow> wire_buffer res" where
  "of_wire_buffer_wc_bmap_set version wb offset v =
     (if version = 1 \<or> version = 2 then of_wire_buffer_u32_set wb offset (ucast v)
      else of_wire_buffer_u64_set wb offset v)"

subsection \<open>Octets and larger fields\<close>

definition of_wire_buffer_octets_data_get :: "wire_buffer option \<Rightarrow> int \<Rightarrow> nat \<Rightarrow> byte list res" where
  "of_wire_buffer_octets_data_get wb offset bytes =
     access_check wb (offset + int bytes) (\<lambda>w b. buf_octets_get b offset bytes)"

definition of_wire_buffer_octets_data_set ::
  "wire_buffer option \<Rightarrow> int \<Rightarrow> byte list \<Rightarrow> int \<Rightarrow> wire_buffer res" where
  "of_wire_buffer_octets_data_set wb offset xs cur_len =
     c_assert (cur_len = 0 \<or> cur_len = int (length xs))
       (access_check wb (offset + int (length xs)) (\<lambda>w b.
          bnd (buf_octets_set b offset xs) (\<lambda>b'. Inr (w\<lparr>wbuf_buf := Some b'\<rparr>))))"

definition wbuf_octets_set :: "wire_buffer option \<Rightarrow> int \<Rightarrow> byte list \<Rightarrow> wire_buffer res" where
  "wbuf_octets_set wb offset xs = of_wire_buffer_octets_data_set wb offset xs (int (length xs))"

definition wbuf_octets_get :: "wire_buffer option \<Rightarrow> int \<Rightarrow> nat \<Rightarrow> byte list res" where
  "wbuf_octets_get wb offset bytes = of_wire_buffer_octets_data_get wb offset bytes"

fun u64s_get :: "byte list \<Rightarrow> int \<Rightarrow> nat \<Rightarrow> 64 word list res" where
  "u64s_get b p 0 = Inr []"
| "u64s_get b p (Suc n) = bnd (buf_u64_get b p) (\<lambda>v. bnd (u64s_get b (p + 8) n) (\<lambda>vs. Inr (v # vs)))"

fun u64s_set :: "byte list \<Rightarrow> int \<Rightarrow> 64 word list \<Rightarrow> byte list res" where
  "u64s_set b p [] = Inr b"
| "u64s_set b p (v # vs) = bnd (buf_u64_set b p v) (\<lambda>b'. u64s_set b' (p + 8) vs)"

definition of_wire_buffer_bitmap_512_get :: "wire_buffer option \<Rightarrow> int \<Rightarrow> 64 word list res" where
  "of_wire_buffer_bitmap_512_get wb offset = access_check wb (offset + 64) (\<lambda>w b. u64s_get b offset 8)"

definition of_wire_buffer_bitmap_512_set ::
  "wire_buffer option \<Rightarrow> int \<Rightarrow> 64 word list \<Rightarrow> wire_buffer res" where
  "of_wire_buffer_bitmap_512_set wb offset words =
     access_check wb (offset + 64) (\<lambda>w b.
       bnd (u64s_set b offset (take 8 words)) (\<lambda>b'. Inr (w\<lparr>wbuf_buf := Some b'\<rparr>)))"

subsection \<open>Moving data\<close>

definition memmove :: "byte list \<Rightarrow> int \<Rightarrow> int \<Rightarrow> int \<Rightarrow> byte list res" where
  "memmove b dst src n =
     (if n < 0 then Inl OutOfBounds else bnd (rd_block b src (nat n)) (\<lambda>xs. wr_block b dst xs))"

definition of_wire_buffer_move_end :: "wire_buffer \<Rightarrow> int \<Rightarrow> int \<Rightarrow> wire_buffer res" where
  "of_wire_buffer_move_end w start_offset new_offset =
     (let bytes = (if new_offset > start_offset then new_offset - start_offset
                   else start_offset - new_offset);
          new_length = (if new_offset > start_offset then alloc_bytes w + bytes
                        else alloc_bytes w - bytes);
          move = (\<lambda>b. bnd (memmove b new_offset start_offset bytes) (\<lambda>b'.
                   Inr (w\<lparr>wbuf_buf := Some b', alloc_bytes := new_length\<rparr>)))
      in if new_offset > start_offset then access_check (Some w) new_length (\<lambda>w b. move b)
         else case wbuf_buf w of None \<Rightarrow> Inl NullDeref | Some b \<Rightarrow> move b)"

definition of_wire_buffer_replace_data ::
  "wire_buffer option \<Rightarrow> int \<Rightarrow> int \<Rightarrow> byte list \<Rightarrow> wire_buffer res" where
  "of_wire_buffer_replace_data wb offset old_len new =
     (case wb of
        None \<Rightarrow> Inl AssertFail
      | Some w \<Rightarrow>
          let cur_bytes = current_bytes w; new_len = int (length new)
          in c_assert (old_len + offset \<le> cur_bytes)
            (case wbuf_buf w of
               None \<Rightarrow> Inl NullDeref
             | Some b \<Rightarrow>
                 bnd (if old_len + offset < cur_bytes \<and> old_len \<noteq> new_len
                      then memmove b (offset + new_len) (offset + old_len) (cur_bytes - (offset + old_len))
                      else Inr b) (\<lambda>b.
                 bnd (wr_block b offset new) (\<lambda>b.
                 Inr (w\<lparr>wbuf_buf := Some b, current_bytes := cur_bytes + (new_len - old_len)\<rparr>)))))"

definition OF_MATCH_BYTES :: "int \<Rightarrow> int" where
  "OF_MATCH_BYTES len = (len + 7) AND 0xfff8"

definition of_match_bytes :: "wire_buffer option \<Rightarrow> int \<Rightarrow> int res" where
  "of_match_bytes wb offset =
     bnd (of_wire_buffer_u16_get wb (offset + 2)) (\<lambda>len. Inr (OF_MATCH_BYTES (uint len)))"

subsection \<open>Invariant and laws\<close>

definition wbuf_wf :: "wire_buffer \<Rightarrow> bool" where
  "wbuf_wf w \<longleftrightarrow> (case wbuf_buf w of
     None \<Rightarrow> False
   | Some b \<Rightarrow> 0 \<le> current_bytes w \<and> current_bytes w \<le> alloc_bytes w \<and> alloc_bytes w \<le> int (length b))"

text \<open>The bytes in use.\<close>

definition wbuf_data :: "wire_buffer \<Rightarrow> byte list" where
  "wbuf_data w = (case wbuf_buf w of None \<Rightarrow> [] | Some b \<Rightarrow> take (nat (current_bytes w)) b)"

lemma wbuf_wfE:
  assumes "wbuf_wf w"
  obtains b where "wbuf_buf w = Some b" "0 \<le> current_bytes w" "current_bytes w \<le> alloc_bytes w"
    "alloc_bytes w \<le> int (length b)"
  using assms by (auto simp: wbuf_wf_def split: option.splits)

context scalar
begin

lemma checked_get_ok:
  assumes "wbuf_wf w" and "0 \<le> off" and "off + int sz \<le> current_bytes w"
  shows "\<exists>v. checked_get get (int sz) (Some w) off = Inr v"
  using assms get_in sz_pos
  by (force elim!: wbuf_wfE simp: checked_get_def access_check_def)

lemma checked_get_past:
  "current_bytes w < off + int sz \<Longrightarrow> checked_get get (int sz) (Some w) off = Inl AssertFail"
  by (simp add: checked_get_def access_check_def split: option.split)

lemma checked_set_past:
  "current_bytes w < off + int sz \<Longrightarrow> checked_set put (int sz) (Some w) off v = Inl AssertFail"
  by (simp add: checked_set_def access_check_def split: option.split)

lemma checked_set_ok:
  assumes "wbuf_wf w" and "0 \<le> off" and "off + int sz \<le> current_bytes w"
  obtains w' where "checked_set put (int sz) (Some w) off v = Inr w'" "wbuf_wf w'"
    "current_bytes w' = current_bytes w" "alloc_bytes w' = alloc_bytes w"
    "checked_get get (int sz) (Some w') off = Inr v"
    "\<And>q. q + int sz \<le> off \<or> off + int sz \<le> q \<Longrightarrow>
       checked_get get (int sz) (Some w') q = checked_get get (int sz) (Some w) q"
proof -
  obtain b where b: "wbuf_buf w = Some b" "0 \<le> current_bytes w" "current_bytes w \<le> alloc_bytes w"
    "alloc_bytes w \<le> int (length b)"
    by (rule wbuf_wfE [OF assms(1)])
  obtain b' where p: "put b off v = Inr b'"
    using put_in [of off b v] assms(2,3) b by auto
  let ?w = "w\<lparr>wbuf_buf := Some b'\<rparr>"
  have "checked_set put (int sz) (Some w) off v = Inr ?w"
    using p b assms(2,3) sz_pos by (simp add: checked_set_def access_check_def)
  moreover have "wbuf_wf ?w"
    using b put_length [OF p] by (simp add: wbuf_wf_def)
  moreover have "checked_get get (int sz) (Some ?w) off = Inr v"
    using get_put [OF p] assms(2,3) sz_pos by (simp add: checked_get_def access_check_def)
  moreover have "checked_get get (int sz) (Some ?w) q = checked_get get (int sz) (Some w) q"
    if "q + int sz \<le> off \<or> off + int sz \<le> q" for q
    using get_put_other [OF p that] b by (simp add: checked_get_def access_check_def)
  ultimately show thesis
    using that by simp
qed

end

lemma wbuf_data_length: "wbuf_wf w \<Longrightarrow> int (length (wbuf_data w)) = current_bytes w"
  by (auto elim!: wbuf_wfE simp: wbuf_data_def)

lemma grow_ok:
  assumes "wbuf_wf w" and "bytes \<le> alloc_bytes w"
  obtains w' where "of_wire_buffer_grow (Some w) bytes = Inr w'" "wbuf_wf w'"
    "wbuf_data w' = wbuf_data w @ replicate (nat (bytes - current_bytes w)) 0"
proof -
  obtain b where b: "wbuf_buf w = Some b" "0 \<le> current_bytes w" "current_bytes w \<le> alloc_bytes w"
    "alloc_bytes w \<le> int (length b)"
    by (rule wbuf_wfE [OF assms(1)])
  show thesis
  proof (cases "bytes > current_bytes w")
    case True
    define b' where "b' = take (nat (current_bytes w)) b @ replicate (nat (bytes - current_bytes w)) 0 @
        drop (nat (current_bytes w) + nat (bytes - current_bytes w)) b"
    have "of_wire_buffer_grow (Some w) bytes = Inr (w\<lparr>wbuf_buf := Some b', current_bytes := bytes\<rparr>)"
      using True assms(2) b by (simp add: of_wire_buffer_grow_def wr_block_def b'_def)
    moreover have "wbuf_wf (w\<lparr>wbuf_buf := Some b', current_bytes := bytes\<rparr>)"
      using True assms(2) b by (simp add: wbuf_wf_def b'_def)
    moreover have "wbuf_data (w\<lparr>wbuf_buf := Some b', current_bytes := bytes\<rparr>) =
        wbuf_data w @ replicate (nat (bytes - current_bytes w)) 0"
      using True assms(2) b by (simp add: wbuf_data_def b'_def nat_diff_distrib)
    ultimately show thesis
      using that by blast
  next
    case False
    then show thesis
      using that [of w] assms by (simp add: of_wire_buffer_grow_def)
  qed
qed

text \<open>Replacing bytes of the data in use: the data behind them moves to its new place.\<close>

lemma replace_data_ok:
  assumes "wbuf_wf w" and "0 \<le> off" "0 \<le> old" "off + old \<le> current_bytes w"
    and "wbuf_buf w = Some b" and "current_bytes w + int (length new) - old \<le> int (length b)"
  obtains w' where "of_wire_buffer_replace_data (Some w) off old new = Inr w'"
    "wbuf_data w' = take (nat off) (wbuf_data w) @ new @ drop (nat (off + old)) (wbuf_data w)"
    "current_bytes w' = current_bytes w + int (length new) - old"
proof -
  define cur o1 o2 n where "cur = nat (current_bytes w)" and "o1 = nat off" and "o2 = nat old"
    and "n = length new"
  have i: "current_bytes w = int cur" "off = int o1" "old = int o2" "int (length new) = int n"
    using assms by (auto simp: cur_def o1_def o2_def n_def elim: wbuf_wfE)
  have len: "cur \<le> length b" "o1 + o2 \<le> cur" "cur + n - o2 \<le> length b"
    using assms by (auto simp: i elim!: wbuf_wfE)
  define tl where "tl = drop (o1 + o2) (take cur b)"
  have tl: "length tl = cur - (o1 + o2)"
    using len by (simp add: tl_def)
  obtain b1 where b1: "(if old + off < current_bytes w \<and> old \<noteq> int (length new)
      then memmove b (off + int (length new)) (off + old) (current_bytes w - (off + old))
      else Inr b) = Inr b1" and b1t: "take o1 b1 = take o1 b" "length b1 = length b"
      "take (cur - (o1 + o2)) (drop (o1 + n) b1) = tl"
  proof (cases "old + off < current_bytes w \<and> old \<noteq> int (length new)")
    case True
    have xs: "rd_block b (off + old) (cur - (o1 + o2)) = Inr tl"
      using len by (simp add: i rd_block_def tl_def drop_take nat_add_distrib)
    have p: "nat (current_bytes w - (off + old)) = cur - (o1 + o2)" "\<not> current_bytes w - (off + old) < 0"
      using len by (auto simp: i)
    let ?b1 = "take (o1 + n) b @ tl @ drop (o1 + n + length tl) b"
    have "wr_block b (off + int (length new)) tl = Inr ?b1"
      using len tl True by (auto simp: i wr_block_def nat_add_distrib)
    then have "memmove b (off + int (length new)) (off + old) (current_bytes w - (off + old)) = Inr ?b1"
      using xs p by (simp add: memmove_def)
    moreover have "take o1 ?b1 = take o1 b" "length ?b1 = length b"
      "take (cur - (o1 + o2)) (drop (o1 + n) ?b1) = tl"
      using len tl True by (auto simp: i)
    ultimately show thesis
      using that True by simp
  next
    case False
    then have "cur = o1 + o2 \<or> o2 = n"
      using len by (auto simp: i)
    then have "take (cur - (o1 + o2)) (drop (o1 + n) b) = tl"
      by (auto simp: tl_def drop_take)
    then show thesis
      by (intro that [of b]) (simp_all only: False if_False)
  qed
  define b2 where "b2 = take o1 b1 @ new @ drop (o1 + n) b1"
  have wr: "wr_block b1 off new = Inr b2"
  proof -
    have "o1 + n \<le> length b1"
      using len b1t(2) by linarith
    then show ?thesis
      by (simp add: i(2) wr_block_def b2_def n_def)
  qed
  define w' where "w' = w\<lparr>wbuf_buf := Some b2, current_bytes := current_bytes w + (int (length new) - old)\<rparr>"
  have "of_wire_buffer_replace_data (Some w) off old new = Inr w'"
    using assms(4,5) b1 wr by (simp add: of_wire_buffer_replace_data_def w'_def Let_def)
  moreover have "wbuf_data w' = take (nat off) (wbuf_data w) @ new @ drop (nat (off + old)) (wbuf_data w)"
  proof -
    have c: "nat (current_bytes w') = o1 + n + (cur - (o1 + o2))"
      using len by (simp add: w'_def i)
    have "wbuf_data w' = take (o1 + n + (cur - (o1 + o2))) b2"
      using c by (simp add: wbuf_data_def w'_def)
    also have "\<dots> = take o1 b1 @ new @ tl"
      using len b1t by (simp add: b2_def n_def [symmetric] add.commute [of o2])
    finally show ?thesis
      using len b1t(1) assms(5) by (simp add: wbuf_data_def i tl_def nat_add_distrib)
  qed
  moreover have "current_bytes w' = current_bytes w + int (length new) - old"
    by (simp add: w'_def)
  ultimately show thesis
    by (rule that)
qed

subsection \<open>Properties\<close>

text \<open>On a little-endian and on a big-endian machine alike, the raw accessors read and write
  their field in network byte order: the swapping macros undo the machine's order.\<close>

theorem machine_accessors_big_endian:
  "machine_u16_get e b p = bnd (rd_block b p 2) (\<lambda>xs. Inr (be_word xs)) \<and>
   machine_u32_get e b p = bnd (rd_block b p 4) (\<lambda>xs. Inr (be_word xs)) \<and>
   machine_u64_get e b p = bnd (rd_block b p 8) (\<lambda>xs. Inr (be_word xs)) \<and>
   machine_u16_set e b p v = wr_block b p (be_bytes 2 v) \<and>
   machine_u32_set e b p v' = wr_block b p (be_bytes 4 v') \<and>
   machine_u64_set e b p v'' = wr_block b p (be_bytes 8 v'')"
  by (simp add: machine_u16_get machine_u32_get machine_u64_get machine_u16_set machine_u32_set
      machine_u64_set buf_u16_get_def buf_u32_get_def buf_u64_get_def buf_u16_set_def buf_u32_set_def
      buf_u64_set_def)

text \<open>A field inside the bytes in use of a well-formed wire buffer can be written; it then reads
  back as written, every 32-bit field that does not overlap it reads as before, and the extent in
  use stays. A field that reaches behind them fails the assertion and writes nothing.\<close>

theorem wire_u32_set_get:
  assumes "wbuf_wf w" and "0 \<le> off"
  shows "if off + 4 \<le> current_bytes w
    then \<exists>w'. of_wire_buffer_u32_set (Some w) off v = Inr w' \<and> wbuf_wf w' \<and>
      current_bytes w' = current_bytes w \<and> of_wire_buffer_u32_get (Some w') off = Inr v \<and>
      (\<forall>q. q + 4 \<le> off \<or> off + 4 \<le> q \<longrightarrow>
         of_wire_buffer_u32_get (Some w') q = of_wire_buffer_u32_get (Some w) q)
    else of_wire_buffer_u32_set (Some w) off v = Inl AssertFail \<and>
      of_wire_buffer_u32_get (Some w) off = Inl AssertFail"
proof (cases "off + 4 \<le> current_bytes w")
  case True
  then have "off + int 4 \<le> current_bytes w"
    by simp
  from u32.checked_set_ok [OF assms this, of v] show ?thesis
    using True by (simp add: of_wire_buffer_u32_set_def of_wire_buffer_u32_get_def) metis
next
  case False
  then show ?thesis
    using u32.checked_set_past [of w off v] u32.checked_get_past [of w off]
    by (simp add: of_wire_buffer_u32_set_def of_wire_buffer_u32_get_def)
qed

lemma wire_u32_set_get_witness:
  "\<exists>w'. of_wire_buffer_u32_set (Some \<lparr>wbuf_buf = Some [0, 0, 0, 0, 0, 0, 0, 0], alloc_bytes = 8,
     current_bytes = 8\<rparr>) 4 0xdeadbeef = Inr w' \<and> of_wire_buffer_u32_get (Some w') 4 = Inr 0xdeadbeef"
  using wire_u32_set_get [of "\<lparr>wbuf_buf = Some [0, 0, 0, 0, 0, 0, 0, 0], alloc_bytes = 8, current_bytes = 8\<rparr>"
      4 "0xdeadbeef"]
  by (auto simp: wbuf_wf_def)

text \<open>Replacing \<open>old\<close> bytes of the data in use by a new block, in a buffer whose memory is large
  enough, gives the data with the new block spliced in: what is before stays, what is behind moves.\<close>

theorem replace_data_splices:
  assumes "wbuf_wf w" and "0 \<le> off" "0 \<le> old" "off + old \<le> current_bytes w"
    and "wbuf_buf w = Some b" and "current_bytes w + int (length new) - old \<le> int (length b)"
  shows "\<exists>w'. of_wire_buffer_replace_data (Some w) off old new = Inr w' \<and>
    wbuf_data w' = take (nat off) (wbuf_data w) @ new @ drop (nat (off + old)) (wbuf_data w) \<and>
    current_bytes w' = current_bytes w + int (length new) - old"
  by (rule replace_data_ok [OF assms]) blast

lemma replace_data_splices_witness:
  "\<exists>w'. of_wire_buffer_replace_data (Some \<lparr>wbuf_buf = Some [1, 2, 3, 4, 0], alloc_bytes = 5,
     current_bytes = 4\<rparr>) 1 1 [8, 9] = Inr w' \<and> wbuf_data w' = [1, 8, 9, 3, 4]"
  using replace_data_splices [of "\<lparr>wbuf_buf = Some [1, 2, 3, 4, 0], alloc_bytes = 5, current_bytes = 4\<rparr>"
      1 1 "[1, 2, 3, 4, 0]" "[8, 9]"]
  by (auto simp: wbuf_wf_def wbuf_data_def)

end
