(* ===== verification/Message.thy ===== *)
theory Message
  imports WireBuf
begin

text \<open>
  The accessors of \<^verbatim>\<open>inc/loci/of_message.h\<close>: they read the common fields of a raw
  message, a pointer to its first byte, without any range check. The message is its block; reads
  outside it are faults.
\<close>

definition of_message_version_get :: "byte list \<Rightarrow> byte res" where
  "of_message_version_get msg = rd msg 0"

definition of_message_type_get :: "byte list \<Rightarrow> byte res" where
  "of_message_type_get msg = rd msg 1"

definition of_message_length_get :: "byte list \<Rightarrow> 16 word res" where
  "of_message_length_get msg = buf_u16_get msg 2"

definition of_message_length_set :: "byte list \<Rightarrow> 16 word \<Rightarrow> byte list res" where
  "of_message_length_set msg len = buf_u16_set msg 2 len"

definition of_message_xid_get :: "byte list \<Rightarrow> 32 word res" where
  "of_message_xid_get msg = buf_u32_get msg 4"

definition of_message_stats_type_get :: "byte list \<Rightarrow> 16 word res" where
  "of_message_stats_type_get msg = buf_u16_get msg 8"

definition of_message_error_type_get :: "byte list \<Rightarrow> 16 word res" where
  "of_message_error_type_get msg = buf_u16_get msg 8"

definition of_message_experimenter_id_get :: "byte list \<Rightarrow> 32 word res" where
  "of_message_experimenter_id_get msg = buf_u32_get msg 8"

definition of_message_experimenter_subtype_get :: "byte list \<Rightarrow> 32 word res" where
  "of_message_experimenter_subtype_get msg = buf_u32_get msg 12"

definition of_message_flow_mod_command_get :: "byte list \<Rightarrow> int \<Rightarrow> byte res" where
  "of_message_flow_mod_command_get msg version =
     (if version = 1 then bnd (buf_u16_get msg 56) (\<lambda>v. Inr (ucast v)) else buf_u8_get msg 25)"

definition of_message_stats_experimenter_id_get :: "byte list \<Rightarrow> 32 word res" where
  "of_message_stats_experimenter_id_get msg = buf_u32_get msg 16"

definition of_message_stats_experimenter_subtype_get :: "byte list \<Rightarrow> 32 word res" where
  "of_message_stats_experimenter_subtype_get msg = buf_u32_get msg 20"

definition of_message_group_mod_command_get :: "byte list \<Rightarrow> 16 word res" where
  "of_message_group_mod_command_get msg = buf_u16_get msg 8"

text \<open>A message of at least the header's eight bytes answers the header accessors.\<close>

lemma header_reads:
  assumes "8 \<le> length msg"
  shows "of_message_version_get msg = Inr (msg ! 0)" "of_message_type_get msg = Inr (msg ! 1)"
    "\<exists>l. of_message_length_get msg = Inr l" "\<exists>x. of_message_xid_get msg = Inr x"
  using assms u16.get_in [of 2 msg] u32.get_in [of 4 msg] rd_of_nat [of 0 msg] rd_of_nat [of 1 msg]
  unfolding of_message_version_get_def of_message_type_get_def of_message_length_get_def
    of_message_xid_get_def
  by (simp_all del: length_greater_0_conv)

text \<open>Setting the length changes the two bytes of the length field and no other header field.\<close>

lemma length_set_get:
  assumes "of_message_length_set msg len = Inr msg'"
  shows "of_message_length_get msg' = Inr len" "of_message_version_get msg' = of_message_version_get msg"
    "of_message_type_get msg' = of_message_type_get msg" "of_message_xid_get msg' = of_message_xid_get msg"
    "length msg' = length msg"
proof -
  note s = assms [unfolded of_message_length_set_def]
  show "of_message_length_get msg' = Inr len"
    using u16.get_put [OF s] by (simp add: of_message_length_get_def)
  show "length msg' = length msg"
    by (rule u16.put_length [OF s])
  have frame: "rd_block msg' q n = rd_block msg q n" if "q + int n \<le> 2 \<or> 2 + int 2 \<le> q" for q n
    by (rule u16.put_frame [OF s that])
  show "of_message_version_get msg' = of_message_version_get msg"
    using frame [of 0 1] by (simp add: of_message_version_get_def rd_as_block)
  show "of_message_type_get msg' = of_message_type_get msg"
    using frame [of 1 1] by (simp add: of_message_type_get_def rd_as_block)
  show "of_message_xid_get msg' = of_message_xid_get msg"
    using frame [of 4 4] by (simp add: of_message_xid_get_def buf_u32_get_def)
qed

end
