(* ===== verification/Validate.thy ===== *)
theory Validate
  imports Message
begin

text \<open>
  The statements the message validators of \<^verbatim>\<open>src/loci_validator.c\<close> are built from. A
  validator takes the message block, a pointer into it and the number of bytes it may look at;
  it returns -1 (\<open>None\<close>) or 0 together with the value it stores through \<open>out_len\<close>
  (\<open>Some n\<close>), the length of the object it has accepted. Each combinator below is one statement
  of the C functions, followed by the rest of the function.
\<close>

type_synonym verdict = "int option res"
type_synonym validator = "byte list \<Rightarrow> int \<Rightarrow> int \<Rightarrow> verdict"

text \<open>\<open>*out_len = len; return 0;\<close>\<close>

definition v_done :: validator where
  "v_done data p len = Inr (Some len)"

text \<open>\<open>if (len < n) return -1;\<close>\<close>

definition v_min :: "int \<Rightarrow> validator \<Rightarrow> validator" where
  "v_min n k data p len = (if len < n then Inr None else k data p len)"

text \<open>\<open>len = n;\<close>\<close>

definition v_set_len :: "int \<Rightarrow> validator \<Rightarrow> validator" where
  "v_set_len n k data p len = k data p n"

text \<open>\<open>buf_u16_get(data + off, &wire_len); if (wire_len > len || wire_len < n) return -1;\<close>\<close>

definition v_wire_len :: "int \<Rightarrow> int \<Rightarrow> validator \<Rightarrow> validator" where
  "v_wire_len off n k data p len =
     bnd (buf_u16_get data (p + off)) (\<lambda>wire_len.
       if uint wire_len > len \<or> uint wire_len < n then Inr None else k data p len)"

text \<open>The same, with \<open>len = wire_len;\<close> behind it.\<close>

definition v_wire_len_set :: "int \<Rightarrow> int \<Rightarrow> validator \<Rightarrow> validator" where
  "v_wire_len_set off n k data p len =
     bnd (buf_u16_get data (p + off)) (\<lambda>wire_len.
       if uint wire_len > len \<or> uint wire_len < n then Inr None else k data p (uint wire_len))"

text \<open>
  \<open>switch (wire_type)\<close> on a field of 1, 2 or 4 bytes: a case returns what its validator returns,
  an unlisted value falls through to the rest.
\<close>

definition v_case :: "(int \<times> validator) list \<Rightarrow> int \<Rightarrow> validator \<Rightarrow> validator" where
  "v_case cases t k = (case map_of cases t of None \<Rightarrow> k | Some v \<Rightarrow> v)"

definition v_switch8 :: "int \<Rightarrow> (int \<times> validator) list \<Rightarrow> validator \<Rightarrow> validator" where
  "v_switch8 off cases k data p len =
     bnd (buf_u8_get data (p + off)) (\<lambda>wire_type. v_case cases (uint wire_type) k data p len)"

definition v_switch16 :: "int \<Rightarrow> (int \<times> validator) list \<Rightarrow> validator \<Rightarrow> validator" where
  "v_switch16 off cases k data p len =
     bnd (buf_u16_get data (p + off)) (\<lambda>wire_type. v_case cases (uint wire_type) k data p len)"

definition v_switch32 :: "int \<Rightarrow> (int \<times> validator) list \<Rightarrow> validator \<Rightarrow> validator" where
  "v_switch32 off cases k data p len =
     bnd (buf_u32_get data (p + off)) (\<lambda>wire_type. v_case cases (uint wire_type) k data p len)"

text \<open>
  The list validators: \<open>while (len > 0)\<close> one element after the other. An element that
  reports no length would leave the loop where it is.
\<close>

function v_list :: "validator \<Rightarrow> byte list \<Rightarrow> int \<Rightarrow> int \<Rightarrow> bool res" where
  "v_list elem data p len =
     (if len > 0 then
        bnd (elem data p len) (\<lambda>r. case r of
            None \<Rightarrow> Inr False
          | Some cur_len \<Rightarrow>
              if cur_len \<le> 0 then Inl Diverges else v_list elem data (p + cur_len) (len - cur_len))
      else Inr True)"
  by pat_completeness auto
termination
  by (relation "measure (\<lambda>(elem, data, p, len). nat len)") auto

declare v_list.simps [simp del]

text \<open>\<open>if (loci_validate_of_list_...(data + off, len - off, out_len) < 0) return -1;\<close>\<close>

definition v_list_rest :: "int \<Rightarrow> (byte list \<Rightarrow> int \<Rightarrow> int \<Rightarrow> bool res) \<Rightarrow> validator \<Rightarrow> validator" where
  "v_list_rest off lst k data p len =
     bnd (lst data (p + off) (len - off)) (\<lambda>ok. if ok then k data p len else Inr None)"

text \<open>
  A list whose length is in a field of its own: \<open>buf_u16_get(data + foff, &wire_len_x);
  if (off + wire_len_x > len) return -1;\<close> then the list of that many bytes at \<open>off\<close>.
\<close>

definition v_list_len16 ::
  "int \<Rightarrow> int \<Rightarrow> (byte list \<Rightarrow> int \<Rightarrow> int \<Rightarrow> bool res) \<Rightarrow> validator \<Rightarrow> validator" where
  "v_list_len16 foff off lst k data p len =
     bnd (buf_u16_get data (p + foff)) (\<lambda>wire_len.
       if off + uint wire_len > len then Inr None
       else bnd (lst data (p + off) (uint wire_len)) (\<lambda>ok. if ok then k data p len else Inr None))"

subsection \<open>The contract of a validator\<close>

text \<open>
  A validator that is told the truth about the block (\<open>len\<close> bytes from \<open>p\<close> on are there)
  reads inside those bytes only, always returns, and accepts an object of at least one and at
  most \<open>len\<close> bytes (\<open>v_in\<close>). Its verdict depends on those bytes only, not on where they lie or what
  is around them (\<open>v_loc\<close>). \<open>k_in l\<close> and \<open>k_loc l\<close> are the same for a rest of a function that runs
  when \<open>len\<close> is known to be at least \<open>l\<close>, \<open>l_in\<close> and \<open>l_loc\<close> for a list validator.
\<close>

definition bounded :: "validator \<Rightarrow> byte list \<Rightarrow> int \<Rightarrow> int \<Rightarrow> bool" where
  "bounded v data p len \<longleftrightarrow>
     (case v data p len of
        Inl _ \<Rightarrow> False
      | Inr None \<Rightarrow> True
      | Inr (Some n) \<Rightarrow> 0 < n \<and> n \<le> len)"

definition k_in :: "int \<Rightarrow> validator \<Rightarrow> bool" where
  "k_in l v \<longleftrightarrow> (\<forall>data p len. l \<le> len \<longrightarrow> 0 \<le> p \<longrightarrow> p + len \<le> int (length data) \<longrightarrow> bounded v data p len)"

definition v_in :: "validator \<Rightarrow> bool" where
  "v_in v \<longleftrightarrow> (\<forall>data p len. 0 \<le> p \<longrightarrow> p + len \<le> int (length data) \<longrightarrow> bounded v data p len)"

definition l_in :: "(byte list \<Rightarrow> int \<Rightarrow> int \<Rightarrow> bool res) \<Rightarrow> bool" where
  "l_in lst \<longleftrightarrow> (\<forall>data p len. 0 \<le> p \<longrightarrow> p + len \<le> int (length data) \<longrightarrow> (\<exists>r. lst data p len = Inr r))"

lemma v_in_imp_k_in: "v_in v \<Longrightarrow> k_in l v"
  by (simp add: v_in_def k_in_def)

lemma k_in_done: "0 < l \<Longrightarrow> k_in l v_done"
  by (simp add: k_in_def bounded_def v_done_def)

lemma v_in_min: "k_in n k \<Longrightarrow> v_in (v_min n k)"
  by (simp add: v_in_def k_in_def bounded_def v_min_def)

lemma k_in_set_len:
  assumes "k_in n k" and "n \<le> l"
  shows "k_in l (v_set_len n k)"
  unfolding k_in_def
proof (intro allI impI)
  fix data :: "byte list" and p len
  assume h: "l \<le> len" "0 \<le> p" "p + len \<le> int (length data)"
  then have "bounded k data p n"
    using assms by (auto simp: k_in_def)
  then show "bounded (v_set_len n k) data p len"
    using assms(2) h(1) by (auto simp: bounded_def v_set_len_def split: sum.splits option.splits)
qed

lemma u16_there:
  assumes "0 \<le> off" and "off + 2 \<le> len" and "0 \<le> p" and "p + len \<le> int (length data)"
  obtains w where "buf_u16_get data (p + off) = Inr w" "0 \<le> uint w"
  using u16.get_in [of "p + off" data] assms by auto

lemma k_in_wire_len:
  assumes "k_in l k" and "0 \<le> off" and "off + 2 \<le> l"
  shows "k_in l (v_wire_len off n k)"
  unfolding k_in_def
proof (intro allI impI)
  fix data :: "byte list" and p len
  assume h: "l \<le> len" "0 \<le> p" "p + len \<le> int (length data)"
  obtain w where "buf_u16_get data (p + off) = Inr w"
    by (rule u16_there [of off len p data]) (use assms h in auto)
  then show "bounded (v_wire_len off n k) data p len"
    using assms(1) h by (auto simp: bounded_def v_wire_len_def k_in_def)
qed

lemma k_in_wire_len_set:
  assumes "k_in n k" and "0 \<le> off" and "off + 2 \<le> l"
  shows "k_in l (v_wire_len_set off n k)"
  unfolding k_in_def
proof (intro allI impI)
  fix data :: "byte list" and p len
  assume h: "l \<le> len" "0 \<le> p" "p + len \<le> int (length data)"
  obtain w where w: "buf_u16_get data (p + off) = Inr w"
    by (rule u16_there [of off len p data]) (use assms h in auto)
  show "bounded (v_wire_len_set off n k) data p len"
  proof (cases "uint w > len \<or> uint w < n")
    case True
    then show ?thesis
      using w by (simp add: bounded_def v_wire_len_set_def)
  next
    case False
    then have "bounded k data p (uint w)"
      using assms(1) h by (auto simp: k_in_def)
    then show ?thesis
      using w False by (auto simp: bounded_def v_wire_len_set_def split: sum.splits option.splits)
  qed
qed

lemma k_in_case:
  assumes "\<And>t v. (t, v) \<in> set cases \<Longrightarrow> k_in l v" and "k_in l k"
  shows "k_in l (v_case cases t k)"
  using assms by (auto simp: v_case_def split: option.split dest: map_of_SomeD)

lemma k_in_switch8:
  assumes "\<forall>(t, v)\<in>set cases. k_in l v" and "k_in l k" and "0 \<le> off" and "off + 1 \<le> l"
  shows "k_in l (v_switch8 off cases k)"
  unfolding k_in_def
proof (intro allI impI)
  fix data :: "byte list" and p len
  assume h: "l \<le> len" "0 \<le> p" "p + len \<le> int (length data)"
  obtain w where w: "buf_u8_get data (p + off) = Inr w"
    using u8.get_in [of "p + off" data] assms h by auto
  have "k_in l (v_case cases (uint w) k)"
    using assms(1,2) by (intro k_in_case) auto
  then show "bounded (v_switch8 off cases k) data p len"
    using w h by (simp add: k_in_def bounded_def v_switch8_def)
qed

lemma k_in_switch16:
  assumes "\<forall>(t, v)\<in>set cases. k_in l v" and "k_in l k" and "0 \<le> off" and "off + 2 \<le> l"
  shows "k_in l (v_switch16 off cases k)"
  unfolding k_in_def
proof (intro allI impI)
  fix data :: "byte list" and p len
  assume h: "l \<le> len" "0 \<le> p" "p + len \<le> int (length data)"
  obtain w where w: "buf_u16_get data (p + off) = Inr w"
    using u16.get_in [of "p + off" data] assms h by auto
  have "k_in l (v_case cases (uint w) k)"
    using assms(1,2) by (intro k_in_case) auto
  then show "bounded (v_switch16 off cases k) data p len"
    using w h by (simp add: k_in_def bounded_def v_switch16_def)
qed

lemma k_in_switch32:
  assumes "\<forall>(t, v)\<in>set cases. k_in l v" and "k_in l k" and "0 \<le> off" and "off + 4 \<le> l"
  shows "k_in l (v_switch32 off cases k)"
  unfolding k_in_def
proof (intro allI impI)
  fix data :: "byte list" and p len
  assume h: "l \<le> len" "0 \<le> p" "p + len \<le> int (length data)"
  obtain w where w: "buf_u32_get data (p + off) = Inr w"
    using u32.get_in [of "p + off" data] assms h by auto
  have "k_in l (v_case cases (uint w) k)"
    using assms(1,2) by (intro k_in_case) auto
  then show "bounded (v_switch32 off cases k) data p len"
    using w h by (simp add: k_in_def bounded_def v_switch32_def)
qed

lemma l_inD: "l_in lst \<Longrightarrow> 0 \<le> p \<Longrightarrow> p + len \<le> int (length data) \<Longrightarrow> \<exists>r. lst data p len = Inr r"
  by (simp add: l_in_def)

lemma k_in_list_rest:
  assumes "l_in lst" and "k_in l k" and "0 \<le> off"
  shows "k_in l (v_list_rest off lst k)"
  unfolding k_in_def
proof (intro allI impI)
  fix data :: "byte list" and p len
  assume h: "l \<le> len" "0 \<le> p" "p + len \<le> int (length data)"
  obtain r where "lst data (p + off) (len - off) = Inr r"
    using l_inD [OF assms(1), of "p + off" "len - off" data] assms(3) h by auto
  then show "bounded (v_list_rest off lst k) data p len"
    using assms(2) h by (auto simp: k_in_def bounded_def v_list_rest_def)
qed

lemma k_in_list_len16:
  assumes "l_in lst" and "k_in l k" and "0 \<le> foff" and "foff + 2 \<le> l" and "0 \<le> off"
  shows "k_in l (v_list_len16 foff off lst k)"
  unfolding k_in_def
proof (intro allI impI)
  fix data :: "byte list" and p len
  assume h: "l \<le> len" "0 \<le> p" "p + len \<le> int (length data)"
  obtain w where w: "buf_u16_get data (p + foff) = Inr w"
    by (rule u16_there [of foff len p data]) (use assms h in auto)
  show "bounded (v_list_len16 foff off lst k) data p len"
  proof (cases "off + uint w > len")
    case True
    then show ?thesis
      using w by (simp add: bounded_def v_list_len16_def)
  next
    case False
    then obtain r where "lst data (p + off) (uint w) = Inr r"
      using l_inD [OF assms(1), of "p + off" "uint w" data] assms(5) h by auto
    then show ?thesis
      using w False assms(2) h by (auto simp: k_in_def bounded_def v_list_len16_def)
  qed
qed


subsection \<open>The verdict depends on the bytes alone\<close>

definition same_bytes :: "int \<Rightarrow> byte list \<Rightarrow> int \<Rightarrow> byte list \<Rightarrow> int \<Rightarrow> bool" where
  "same_bytes len data p data' p' \<longleftrightarrow>
     0 \<le> p \<and> p + len \<le> int (length data) \<and> 0 \<le> p' \<and> p' + len \<le> int (length data') \<and>
     take (nat len) (drop (nat p) data) = take (nat len) (drop (nat p') data')"

definition k_loc :: "int \<Rightarrow> validator \<Rightarrow> bool" where
  "k_loc l v \<longleftrightarrow> (\<forall>len data p data' p'. l \<le> len \<longrightarrow> same_bytes len data p data' p' \<longrightarrow>
     v data p len = v data' p' len)"

definition v_loc :: "validator \<Rightarrow> bool" where
  "v_loc v \<longleftrightarrow> (\<forall>len data p data' p'. same_bytes len data p data' p' \<longrightarrow> v data p len = v data' p' len)"

definition l_loc :: "(byte list \<Rightarrow> int \<Rightarrow> int \<Rightarrow> bool res) \<Rightarrow> bool" where
  "l_loc lst \<longleftrightarrow> (\<forall>len data p data' p'. same_bytes len data p data' p' \<longrightarrow> lst data p len = lst data' p' len)"

lemma same_bytes_sub:
  assumes "same_bytes len data p data' p'" and "0 \<le> off" and "off + n \<le> len"
  shows "same_bytes n data (p + off) data' (p' + off)"
proof (cases "0 \<le> n")
  case True
  have sub: "take (nat n) (drop (nat (q + off)) d) = take (nat n) (drop (nat off) (take (nat len) (drop (nat q) d)))"
    if "0 \<le> q" for q and d :: "byte list"
  proof -
    have "nat (q + off) = nat q + nat off" "nat n \<le> nat len - nat off"
      using assms(2,3) True that by (simp_all add: nat_add_distrib nat_diff_distrib [symmetric])
    then show ?thesis
      by (simp add: drop_take min_absorb1 add.commute)
  qed
  then show ?thesis
    using assms by (simp add: same_bytes_def)
qed (use assms in \<open>simp add: same_bytes_def\<close>)

lemma same_bytes_block:
  assumes "same_bytes len data p data' p'" and "0 \<le> off" and "off + int n \<le> len"
  shows "rd_block data (p + off) n = rd_block data' (p' + off) n"
  using same_bytes_sub [OF assms] by (simp add: same_bytes_def rd_block_def)

lemma same_bytes_get:
  assumes "same_bytes len data p data' p'" and "0 \<le> off"
  shows "off + 1 \<le> len \<Longrightarrow> buf_u8_get data (p + off) = buf_u8_get data' (p' + off)"
    and "off + 2 \<le> len \<Longrightarrow> buf_u16_get data (p + off) = buf_u16_get data' (p' + off)"
    and "off + 4 \<le> len \<Longrightarrow> buf_u32_get data (p + off) = buf_u32_get data' (p' + off)"
  using same_bytes_block [OF assms, of 1] same_bytes_block [OF assms, of 2] same_bytes_block [OF assms, of 4]
  by (simp_all add: buf_u8_get_def buf_u16_get_def buf_u32_get_def rd_as_block)

lemma k_loc_done: "k_loc l v_done"
  by (simp add: k_loc_def v_done_def)

lemma v_loc_min: "k_loc n k \<Longrightarrow> v_loc (v_min n k)"
  by (simp add: v_loc_def k_loc_def v_min_def)

lemma k_loc_set_len: "k_loc n k \<Longrightarrow> n \<le> l \<Longrightarrow> k_loc l (v_set_len n k)"
  using same_bytes_sub [of _ _ _ _ _ 0 n] by (fastforce simp: k_loc_def v_set_len_def)

lemma k_loc_wire_len: "k_loc l k \<Longrightarrow> 0 \<le> off \<Longrightarrow> off + 2 \<le> l \<Longrightarrow> k_loc l (v_wire_len off n k)"
  using same_bytes_get(2) [of _ _ _ _ _ off] by (auto simp: k_loc_def v_wire_len_def intro!: bnd_cong)

lemma k_loc_wire_len_set:
  assumes "k_loc n k" and "0 \<le> off" and "off + 2 \<le> l"
  shows "k_loc l (v_wire_len_set off n k)"
  unfolding k_loc_def
proof (intro allI impI)
  fix len and data :: "byte list" and p and data' :: "byte list" and p'
  assume h: "l \<le> len" "same_bytes len data p data' p'"
  have "k data p m = k data' p' m" if "n \<le> m" "m \<le> len" for m
    using assms(1) same_bytes_sub [OF h(2), of 0 m] that by (simp add: k_loc_def)
  then show "v_wire_len_set off n k data p len = v_wire_len_set off n k data' p' len"
    using same_bytes_get(2) [OF h(2) assms(2)] assms(3) h(1)
    by (auto simp: v_wire_len_set_def intro!: bnd_cong)
qed

lemma k_loc_case:
  assumes "\<And>t v. (t, v) \<in> set cases \<Longrightarrow> k_loc l v" and "k_loc l k"
  shows "k_loc l (v_case cases t k)"
  using assms by (auto simp: v_case_def split: option.split dest: map_of_SomeD)

lemma k_loc_switch:
  assumes "\<forall>(t, v)\<in>set cases. k_loc l v" and "k_loc l k" and "0 \<le> off"
  shows "off + 1 \<le> l \<Longrightarrow> k_loc l (v_switch8 off cases k)"
    and "off + 2 \<le> l \<Longrightarrow> k_loc l (v_switch16 off cases k)"
    and "off + 4 \<le> l \<Longrightarrow> k_loc l (v_switch32 off cases k)"
proof -
  have cs: "v_case cases t k data p len = v_case cases t k data' p' len"
    if "l \<le> len" "same_bytes len data p data' p'" for t len data p data' p'
    using k_loc_case [of cases l k t] assms(1,2) that by (fastforce simp: k_loc_def)
  note get = same_bytes_get [OF _ assms(3)]
  show "k_loc l (v_switch8 off cases k)" if "off + 1 \<le> l"
    using that get(1) cs by (auto simp: k_loc_def v_switch8_def intro!: bnd_cong)
  show "k_loc l (v_switch16 off cases k)" if "off + 2 \<le> l"
    using that get(2) cs by (auto simp: k_loc_def v_switch16_def intro!: bnd_cong)
  show "k_loc l (v_switch32 off cases k)" if "off + 4 \<le> l"
    using that get(3) cs by (auto simp: k_loc_def v_switch32_def intro!: bnd_cong)
qed

lemma l_locD: "l_loc lst \<Longrightarrow> same_bytes len data p data' p' \<Longrightarrow> lst data p len = lst data' p' len"
  by (simp add: l_loc_def)

lemma k_loc_list_rest:
  assumes "l_loc lst" and "k_loc l k" and "0 \<le> off"
  shows "k_loc l (v_list_rest off lst k)"
  using assms(2) l_locD [OF assms(1) same_bytes_sub [OF _ assms(3)]]
  by (auto simp: k_loc_def v_list_rest_def intro!: bnd_cong)

lemma k_loc_list_len16:
  assumes "l_loc lst" and "k_loc l k" and "0 \<le> foff" and "foff + 2 \<le> l" and "0 \<le> off"
  shows "k_loc l (v_list_len16 foff off lst k)"
  using assms(2,4) l_locD [OF assms(1) same_bytes_sub [OF _ assms(5)]] same_bytes_get(2) [OF _ assms(3)]
  by (auto simp: k_loc_def v_list_len16_def intro!: bnd_cong)

subsection \<open>The whole contract\<close>

definition k_ok :: "int \<Rightarrow> validator \<Rightarrow> bool" where
  "k_ok l v \<longleftrightarrow> k_in l v \<and> k_loc l v"

definition v_ok :: "validator \<Rightarrow> bool" where
  "v_ok v \<longleftrightarrow> v_in v \<and> v_loc v"

definition l_ok :: "(byte list \<Rightarrow> int \<Rightarrow> int \<Rightarrow> bool res) \<Rightarrow> bool" where
  "l_ok lst \<longleftrightarrow> l_in lst \<and> l_loc lst"

named_theorems v_intro \<open>a combinator keeps the contract\<close>
named_theorems v_proved \<open>the validators shown to keep the contract\<close>
named_theorems x_proved \<open>the validators shown to accept exactly the length in the object\<close>

lemma v_ok_bounded: "v_ok v \<Longrightarrow> 0 \<le> p \<Longrightarrow> p + len \<le> int (length data) \<Longrightarrow> bounded v data p len"
  by (simp add: v_ok_def v_in_def)

lemma v_ok_imp_k_ok: "v_ok v \<Longrightarrow> k_ok l v"
  by (simp add: v_ok_def k_ok_def v_in_imp_k_in v_loc_def k_loc_def)

lemma k_ok_done [v_intro]: "0 < l \<Longrightarrow> k_ok l v_done"
  by (simp add: k_ok_def k_in_done k_loc_done)

lemma v_ok_min [v_intro]: "k_ok n k \<Longrightarrow> v_ok (v_min n k)"
  by (simp add: k_ok_def v_ok_def v_in_min v_loc_min)

lemma k_ok_set_len [v_intro]: "k_ok n k \<Longrightarrow> n \<le> l \<Longrightarrow> k_ok l (v_set_len n k)"
  by (simp add: k_ok_def k_in_set_len k_loc_set_len)

lemma k_ok_wire_len [v_intro]: "k_ok l k \<Longrightarrow> 0 \<le> off \<Longrightarrow> off + 2 \<le> l \<Longrightarrow> k_ok l (v_wire_len off n k)"
  by (simp add: k_ok_def k_in_wire_len k_loc_wire_len)

lemma k_ok_wire_len_set [v_intro]:
  "k_ok n k \<Longrightarrow> 0 \<le> off \<Longrightarrow> off + 2 \<le> l \<Longrightarrow> k_ok l (v_wire_len_set off n k)"
  by (simp add: k_ok_def k_in_wire_len_set k_loc_wire_len_set)

lemma k_ok_switch [v_intro]:
  assumes "\<forall>(t, v)\<in>set cases. k_ok l v" and "k_ok l k" and "0 \<le> off"
  shows "off + 1 \<le> l \<Longrightarrow> k_ok l (v_switch8 off cases k)"
    and "off + 2 \<le> l \<Longrightarrow> k_ok l (v_switch16 off cases k)"
    and "off + 4 \<le> l \<Longrightarrow> k_ok l (v_switch32 off cases k)"
  using assms k_in_switch8 [of cases l k off] k_in_switch16 [of cases l k off] k_in_switch32 [of cases l k off]
    k_loc_switch [of cases l k off]
  by (auto simp: k_ok_def)

lemma k_ok_list_rest [v_intro]: "l_ok lst \<Longrightarrow> k_ok l k \<Longrightarrow> 0 \<le> off \<Longrightarrow> k_ok l (v_list_rest off lst k)"
  by (simp add: k_ok_def l_ok_def k_in_list_rest k_loc_list_rest)

lemma k_ok_list_len16 [v_intro]:
  "l_ok lst \<Longrightarrow> k_ok l k \<Longrightarrow> 0 \<le> foff \<Longrightarrow> foff + 2 \<le> l \<Longrightarrow> 0 \<le> off \<Longrightarrow> k_ok l (v_list_len16 foff off lst k)"
  by (simp add: k_ok_def l_ok_def k_in_list_len16 k_loc_list_len16)

subsection \<open>Lists of elements\<close>

text \<open>A list is made of elements when it can be cut into pieces the element validator accepts.\<close>

fun tiles :: "validator \<Rightarrow> byte list \<Rightarrow> int \<Rightarrow> int \<Rightarrow> int list \<Rightarrow> bool" where
  "tiles elem data p len [] \<longleftrightarrow> len = 0"
| "tiles elem data p len (n # ns) \<longleftrightarrow>
     0 < n \<and> n \<le> len \<and> elem data p len = Inr (Some n) \<and> tiles elem data (p + n) (len - n) ns"

locale list_element =
  fixes elem :: validator
  assumes elem_ok: "v_ok elem"
begin

lemma elem_cases:
  assumes "0 \<le> p" and "p + len \<le> int (length data)"
  obtains (rejected) "elem data p len = Inr None"
  | (accepted) n where "elem data p len = Inr (Some n)" "0 < n" "n \<le> len"
proof -
  have "bounded elem data p len"
    by (rule v_ok_bounded [OF elem_ok assms])
  then show thesis
    using rejected accepted unfolding bounded_def by (auto split: sum.splits option.splits)
qed

lemma list_step:
  assumes "0 < len" and "elem data p len = Inr (Some n)" and "0 < n"
  shows "v_list elem data p len = v_list elem data (p + n) (len - n)"
  using assms by (subst v_list.simps) simp

lemma list_returns:
  assumes "0 \<le> p" and "p + len \<le> int (length data)"
  shows "\<exists>r. v_list elem data p len = Inr r"
  using assms
proof (induction "nat len" arbitrary: p len rule: less_induct)
  case less
  show ?case
  proof (cases "0 < len")
    case True
    from less.prems show ?thesis
    proof (cases rule: elem_cases)
      case rejected
      then have "v_list elem data p len = Inr False"
        using True by (subst v_list.simps) simp
      then show ?thesis by blast
    next
      case (accepted n)
      then show ?thesis
        using less.hyps [of "len - n" "p + n"] less.prems True list_step by simp
    qed
  next
    case False
    then have "v_list elem data p len = Inr True"
      by (subst v_list.simps) simp
    then show ?thesis by blast
  qed
qed

lemma list_local: "same_bytes len data p data' p' \<Longrightarrow> v_list elem data p len = v_list elem data' p' len"
proof (induction "nat len" arbitrary: p p' len rule: less_induct)
  case less
  have same: "elem data p len = elem data' p' len"
    using elem_ok less.prems by (auto simp: v_ok_def v_loc_def)
  have "0 \<le> p" "p + len \<le> int (length data)"
    using less.prems by (simp_all add: same_bytes_def)
  then show ?case
  proof (cases rule: elem_cases)
    case rejected
    then show ?thesis
      using same by (subst (1 2) v_list.simps) simp
  next
    case (accepted n)
    then have "v_list elem data (p + n) (len - n) = v_list elem data' (p' + n) (len - n)"
      by (intro less.hyps same_bytes_sub [OF less.prems]) auto
    then show ?thesis
      using accepted same [symmetric] by (subst (1 2) v_list.simps) (simp add: accepted(1))
  qed
qed

lemma l_ok_list: "l_ok (v_list elem)"
  using list_returns list_local by (simp add: l_ok_def l_in_def l_loc_def)

lemma list_accepts:
  assumes "0 \<le> p" and "p + len \<le> int (length data)" and "0 \<le> len"
  shows "v_list elem data p len = Inr True \<longleftrightarrow> (\<exists>ns. tiles elem data p len ns)"
  using assms
proof (induction "nat len" arbitrary: p len rule: less_induct)
  case less
  show ?case
  proof (cases "len = 0")
    case True
    then show ?thesis
      by (subst v_list.simps) (auto intro: exI [of _ "[]"])
  next
    case False
    then have pos: "0 < len"
      using less.prems(3) by simp
    from less.prems(1,2) show ?thesis
    proof (cases rule: elem_cases)
      case rejected
      then have "\<not> tiles elem data p len ns" for ns
        using False by (cases ns) auto
      then show ?thesis
        using rejected pos by (subst v_list.simps) simp
    next
      case (accepted n)
      have "(\<exists>ns. tiles elem data p len ns) \<longleftrightarrow> (\<exists>ns. tiles elem data (p + n) (len - n) ns)"
      proof
        assume "\<exists>ns. tiles elem data p len ns"
        then obtain ns where ns: "tiles elem data p len ns" by blast
        then obtain m ms where "ns = m # ms"
          using False by (cases ns) auto
        then show "\<exists>ns. tiles elem data (p + n) (len - n) ns"
          using ns accepted(1) by auto
      next
        assume "\<exists>ns. tiles elem data (p + n) (len - n) ns"
        then obtain ns where "tiles elem data (p + n) (len - n) ns" by blast
        then have "tiles elem data p len (n # ns)"
          using accepted by simp
        then show "\<exists>ns. tiles elem data p len ns" by blast
      qed
      then show ?thesis
        using less.hyps [of "len - n" "p + n"] less.prems pos accepted list_step by simp
    qed
  qed
qed

end

subsection \<open>Objects that carry their length\<close>

text \<open>
  \<open>x_ok off v\<close>: an object \<open>v\<close> accepts is exactly as long as the 16-bit field at \<open>off\<close> says.
  \<open>kx_ok\<close> is the same for a rest of a function, once \<open>len\<close> is known to be the field's value.
\<close>

definition x_ok :: "int \<Rightarrow> validator \<Rightarrow> bool" where
  "x_ok off v \<longleftrightarrow> (\<forall>data p len n. v data p len = Inr (Some n) \<longrightarrow>
     (\<exists>w. buf_u16_get data (p + off) = Inr w \<and> n = uint w))"

definition kx_ok :: "int \<Rightarrow> validator \<Rightarrow> bool" where
  "kx_ok off k \<longleftrightarrow> (\<forall>data p len n w. buf_u16_get data (p + off) = Inr w \<longrightarrow> len = uint w \<longrightarrow>
     k data p len = Inr (Some n) \<longrightarrow> n = len)"

named_theorems x_intro \<open>a combinator accepts exact lengths\<close>

lemma x_ok_imp_kx_ok: "x_ok off v \<Longrightarrow> kx_ok off v"
  by (fastforce simp: x_ok_def kx_ok_def)

lemma x_ok_min [x_intro]: "x_ok off k \<Longrightarrow> x_ok off (v_min n k)"
  by (simp add: x_ok_def v_min_def split: if_splits)

lemma x_ok_wire_len_set [x_intro]: "kx_ok off k \<Longrightarrow> x_ok off (v_wire_len_set off n k)"
  by (fastforce simp: x_ok_def kx_ok_def v_wire_len_set_def bnd_Inr split: if_splits)

lemma x_ok_set_len [x_intro]: "kx_ok off k \<Longrightarrow> x_ok off (v_set_len n (v_wire_len off n k))"
  by (fastforce simp: x_ok_def kx_ok_def v_set_len_def v_wire_len_def bnd_Inr split: if_splits)

lemma kx_ok_done [x_intro]: "kx_ok off v_done"
  by (simp add: kx_ok_def v_done_def)

lemma kx_ok_case:
  assumes "\<forall>(t, v)\<in>set cases. kx_ok off v" and "kx_ok off k"
  shows "kx_ok off (v_case cases t k)"
  using assms by (auto simp: v_case_def split: option.split dest: map_of_SomeD)

lemma kx_ok_switch [x_intro]:
  assumes "\<forall>(t, v)\<in>set cases. kx_ok off v" and "kx_ok off k"
  shows "kx_ok off (v_switch8 foff cases k)" "kx_ok off (v_switch16 foff cases k)"
    "kx_ok off (v_switch32 foff cases k)"
  using kx_ok_case [OF assms]
  unfolding kx_ok_def v_switch8_def v_switch16_def v_switch32_def bnd_Inr by blast+

lemma kx_ok_list_rest [x_intro]: "kx_ok off k \<Longrightarrow> kx_ok off (v_list_rest loff lst k)"
  by (auto simp: kx_ok_def v_list_rest_def bnd_Inr split: if_splits)

lemma kx_ok_list_len16 [x_intro]: "kx_ok off k \<Longrightarrow> kx_ok off (v_list_len16 foff loff lst k)"
  by (auto simp: kx_ok_def v_list_len16_def bnd_Inr split: if_splits)

subsection \<open>Recursive validators\<close>

text \<open>
  In OpenFlow 1.3 and 1.4 a TLV may be a bucket of TLVs, so its validator calls itself through the
  list validator. \<open>v_rec step\<close> unfolds the body \<open>step\<close> once more than there are bytes; it is a
  fixed point of the body when every nesting costs four bytes, which is what the locale asks for.
\<close>

primrec v_iter :: "(validator \<Rightarrow> validator) \<Rightarrow> nat \<Rightarrow> validator" where
  "v_iter step 0 = (\<lambda>data p len. Inl Diverges)"
| "v_iter step (Suc n) = step (v_iter step n)"

definition v_rec :: "(validator \<Rightarrow> validator) \<Rightarrow> validator" where
  "v_rec step data p len = v_iter step (Suc (nat len)) data p len"

definition clip :: "int \<Rightarrow> validator \<Rightarrow> validator" where
  "clip m v data p len = (if 0 < len \<and> len \<le> m then v data p len else Inr None)"

definition agree :: "int \<Rightarrow> validator \<Rightarrow> validator \<Rightarrow> bool" where
  "agree m v v' \<longleftrightarrow> (\<forall>data p len. len \<le> m \<longrightarrow> v data p len = v' data p len)"

lemma v_ok_clip: "v_ok v \<Longrightarrow> v_ok (clip m v)"
  by (auto simp: v_ok_def v_in_def v_loc_def clip_def bounded_def)

named_theorems a_intro \<open>a combinator keeps agreement up to a length\<close>

lemma agree_refl [simp]: "agree m v v"
  by (simp add: agree_def)

lemma agree_min [a_intro]: "agree m k k' \<Longrightarrow> agree m (v_min n k) (v_min n k')"
  by (simp add: agree_def v_min_def)

lemma agree_wire_len_set [a_intro]: "agree m k k' \<Longrightarrow> agree m (v_wire_len_set off n k) (v_wire_len_set off n k')"
  by (auto simp: agree_def v_wire_len_set_def intro!: bnd_cong)

lemma agree_switch16 [a_intro]:
  assumes "list_all2 (\<lambda>c c'. fst c = fst c' \<and> agree m (snd c) (snd c')) cases cases'"
  shows "agree m (v_switch16 off cases k) (v_switch16 off cases' k)"
proof -
  have "agree m (v_case cases t k) (v_case cases' t k)" for t
    using assms by (induction rule: list_all2_induct) (auto simp: v_case_def)
  then show ?thesis
    by (auto simp: agree_def v_switch16_def intro!: bnd_cong)
qed

lemma v_list_clip: "len \<le> m \<Longrightarrow> v_list (clip m v) data p len = v_list v data p len"
proof (induction v data p len rule: v_list.induct)
  case (1 v data p len)
  show ?case
  proof (cases "0 < len")
    case True
    then have "clip m v data p len = v data p len"
      using "1.prems" by (simp add: clip_def)
    then show ?thesis
      using True "1.prems" "1.IH" [OF True]
      by (subst (1 2) v_list.simps) (auto intro!: bnd_cong split: option.split)
  qed (simp add: v_list.simps)
qed

lemma agree_list_rest [a_intro]:
  "m \<le> n + off \<Longrightarrow> agree m (v_list_rest off (v_list (clip n v)) k) (v_list_rest off (v_list v) k)"
  by (simp add: agree_def v_list_rest_def v_list_clip)

locale recursive_validator =
  fixes step :: "validator \<Rightarrow> validator"
  assumes step_ok: "v_ok e \<Longrightarrow> v_ok (step e)"
    and step_agree: "agree (m + 4) (step (clip m e)) (step e)"
begin

lemma step_clip: "len \<le> m + 4 \<Longrightarrow> step e data p len = step (clip m e) data p len"
  using step_agree [of m e] by (simp add: agree_def)

lemma iter_ok: "v_ok (clip (4 * int n) (v_iter step n))"
proof (induction n)
  case 0
  then show ?case by (auto simp: v_ok_def v_in_def v_loc_def clip_def bounded_def)
next
  case (Suc n)
  let ?v = "step (clip (4 * int n) (v_iter step n))"
  have "v_iter step (Suc n) data p len = ?v data p len" if "len \<le> 4 * int (Suc n)" for data p len
    using that step_clip [of len "4 * int n" "v_iter step n"] by simp
  then have "clip (4 * int (Suc n)) (v_iter step (Suc n)) = clip (4 * int (Suc n)) ?v"
    by (auto simp: clip_def fun_eq_iff)
  then show ?case
    using v_ok_clip [OF step_ok [OF Suc]] by simp
qed

lemma iter_stable: "m \<le> 4 * int n \<Longrightarrow> clip m (v_iter step n) = clip m (v_iter step (Suc n))"
proof (induction n arbitrary: m)
  case 0
  then show ?case by (auto simp: clip_def fun_eq_iff)
next
  case (Suc n)
  have IH: "clip (m - 4) (v_iter step n) = clip (m - 4) (v_iter step (Suc n))"
    using Suc.prems by (intro Suc.IH) simp
  have "step (v_iter step n) data p len = step (v_iter step (Suc n)) data p len" if "len \<le> m" for data p len
  proof -
    have "step (v_iter step n) data p len = step (clip (m - 4) (v_iter step n)) data p len"
      using that by (intro step_clip) simp
    also have "\<dots> = step (v_iter step (Suc n)) data p len"
      unfolding IH using that by (intro step_clip [symmetric]) simp
    finally show ?thesis .
  qed
  then show ?case
    by (auto simp: clip_def fun_eq_iff)
qed

lemma iter_stable_le: "n \<le> n' \<Longrightarrow> m \<le> 4 * int n \<Longrightarrow> clip m (v_iter step n) = clip m (v_iter step n')"
proof (induction n' rule: dec_induct)
  case (step k)
  then show ?case
    using iter_stable [of m k] by simp
qed simp

lemma clip_rec: "m \<le> 4 * int n \<Longrightarrow> clip m (v_iter step n) = clip m (v_rec step)"
proof (intro ext)
  fix data p len
  assume m: "m \<le> 4 * int n"
  show "clip m (v_iter step n) data p len = clip m (v_rec step) data p len"
  proof (cases "0 < len \<and> len \<le> m")
    case True
    let ?k = "Suc (nat len)"
    have "clip len (v_iter step n) = clip len (v_iter step (max n ?k))"
      using True m by (intro iter_stable_le) auto
    also have "\<dots> = clip len (v_iter step ?k)"
      using True by (intro iter_stable_le [symmetric]) auto
    finally have "clip len (v_iter step n) data p len = clip len (v_iter step ?k) data p len"
      by simp
    then show ?thesis
      using True by (simp add: clip_def v_rec_def del: v_iter.simps)
  qed (auto simp: clip_def)
qed

lemma rec_unfold: "v_rec step = step (v_rec step)"
proof (intro ext)
  fix data p len
  have "v_rec step data p len = step (v_iter step (nat len)) data p len"
    by (simp add: v_rec_def)
  also have "\<dots> = step (clip (len - 4) (v_iter step (nat len))) data p len"
    by (rule step_clip) simp
  also have "clip (len - 4) (v_iter step (nat len)) = clip (len - 4) (v_rec step)"
    by (rule clip_rec) simp
  also have "step (clip (len - 4) (v_rec step)) data p len = step (v_rec step) data p len"
    by (rule step_clip [symmetric]) simp
  finally show "v_rec step data p len = step (v_rec step) data p len" .
qed

lemma rec_ok: "v_ok (v_rec step)"
proof -
  have eq: "v_rec step data p len = step (clip (4 * int (nat len)) (v_iter step (nat len))) data p len" for data p len
    by (simp add: v_rec_def step_clip [symmetric])
  have ok: "v_ok (step (clip (4 * int n) (v_iter step n)))" for n
    by (rule step_ok [OF iter_ok])
  then have "bounded (v_rec step) data p len" if "0 \<le> p" "p + len \<le> int (length data)" for data p len
    using v_ok_bounded [OF ok [of "nat len"] that] by (simp only: bounded_def eq)
  moreover have "v_rec step data p len = v_rec step data' p' len" if "same_bytes len data p data' p'" for data p data' p' len
    using ok [of "nat len"] that unfolding eq v_ok_def v_loc_def by blast
  ultimately show ?thesis
    by (simp add: v_ok_def v_in_def v_loc_def)
qed

end

end
