(* ===== verification/Validator10.thy ===== *)
theory Validator10
  imports Validate
begin

text \<open>
  The message validators for OpenFlow 1.0 of \<^verbatim>\<open>src/loci_validator.c\<close>, one definition per C
  function, callees first. Behind each definition is its contract (\<open>_ok\<close>: inside the bounds,
  always returning, accepting a positive length) and, where the object carries its length, that
  exactly this length is accepted (\<open>_exact\<close>). The checks on \<open>of_match_t\<close> and
  \<open>of_bsn_vport_t\<close> members are marked TODO in the C code and missing there as well.
\<close>

definition loci_validate_of_bsn_interface_OF_VERSION_1_0 :: validator where
  "loci_validate_of_bsn_interface_OF_VERSION_1_0 =
     v_min 32 (v_set_len 32 v_done)"

lemma loci_validate_of_bsn_interface_OF_VERSION_1_0_ok [v_proved]: "v_ok loci_validate_of_bsn_interface_OF_VERSION_1_0"
  unfolding loci_validate_of_bsn_interface_OF_VERSION_1_0_def by (intro v_intro; simp add: v_proved v_ok_imp_k_ok)

definition loci_validate_of_list_bsn_interface_OF_VERSION_1_0 :: "byte list \<Rightarrow> int \<Rightarrow> int \<Rightarrow> bool res" where
  "loci_validate_of_list_bsn_interface_OF_VERSION_1_0 = v_list loci_validate_of_bsn_interface_OF_VERSION_1_0"

interpretation bsn_interface_1_0_list: list_element loci_validate_of_bsn_interface_OF_VERSION_1_0
  by unfold_locales (rule loci_validate_of_bsn_interface_OF_VERSION_1_0_ok)

lemma loci_validate_of_list_bsn_interface_OF_VERSION_1_0_ok [v_proved]: "l_ok loci_validate_of_list_bsn_interface_OF_VERSION_1_0"
  unfolding loci_validate_of_list_bsn_interface_OF_VERSION_1_0_def by (rule bsn_interface_1_0_list.l_ok_list)

definition loci_validate_of_port_desc_OF_VERSION_1_0 :: validator where
  "loci_validate_of_port_desc_OF_VERSION_1_0 =
     v_min 48 (v_set_len 48 v_done)"

lemma loci_validate_of_port_desc_OF_VERSION_1_0_ok [v_proved]: "v_ok loci_validate_of_port_desc_OF_VERSION_1_0"
  unfolding loci_validate_of_port_desc_OF_VERSION_1_0_def by (intro v_intro; simp add: v_proved v_ok_imp_k_ok)

definition loci_validate_of_list_port_desc_OF_VERSION_1_0 :: "byte list \<Rightarrow> int \<Rightarrow> int \<Rightarrow> bool res" where
  "loci_validate_of_list_port_desc_OF_VERSION_1_0 = v_list loci_validate_of_port_desc_OF_VERSION_1_0"

interpretation port_desc_1_0_list: list_element loci_validate_of_port_desc_OF_VERSION_1_0
  by unfold_locales (rule loci_validate_of_port_desc_OF_VERSION_1_0_ok)

lemma loci_validate_of_list_port_desc_OF_VERSION_1_0_ok [v_proved]: "l_ok loci_validate_of_list_port_desc_OF_VERSION_1_0"
  unfolding loci_validate_of_list_port_desc_OF_VERSION_1_0_def by (rule port_desc_1_0_list.l_ok_list)

definition loci_validate_of_action_bsn_checksum_OF_VERSION_1_0 :: validator where
  "loci_validate_of_action_bsn_checksum_OF_VERSION_1_0 =
     v_min 28 (v_set_len 28 (v_wire_len 2 28 v_done))"

lemma loci_validate_of_action_bsn_checksum_OF_VERSION_1_0_ok [v_proved]: "v_ok loci_validate_of_action_bsn_checksum_OF_VERSION_1_0"
  unfolding loci_validate_of_action_bsn_checksum_OF_VERSION_1_0_def by (intro v_intro; simp add: v_proved v_ok_imp_k_ok)

lemma loci_validate_of_action_bsn_checksum_OF_VERSION_1_0_exact [x_proved]: "x_ok 2 loci_validate_of_action_bsn_checksum_OF_VERSION_1_0"
  unfolding loci_validate_of_action_bsn_checksum_OF_VERSION_1_0_def by (intro x_intro; simp add: x_proved x_ok_imp_kx_ok)

definition loci_validate_of_action_bsn_mirror_OF_VERSION_1_0 :: validator where
  "loci_validate_of_action_bsn_mirror_OF_VERSION_1_0 =
     v_min 24 (v_set_len 24 (v_wire_len 2 24 v_done))"

lemma loci_validate_of_action_bsn_mirror_OF_VERSION_1_0_ok [v_proved]: "v_ok loci_validate_of_action_bsn_mirror_OF_VERSION_1_0"
  unfolding loci_validate_of_action_bsn_mirror_OF_VERSION_1_0_def by (intro v_intro; simp add: v_proved v_ok_imp_k_ok)

lemma loci_validate_of_action_bsn_mirror_OF_VERSION_1_0_exact [x_proved]: "x_ok 2 loci_validate_of_action_bsn_mirror_OF_VERSION_1_0"
  unfolding loci_validate_of_action_bsn_mirror_OF_VERSION_1_0_def by (intro x_intro; simp add: x_proved x_ok_imp_kx_ok)

definition loci_validate_of_action_bsn_set_tunnel_dst_OF_VERSION_1_0 :: validator where
  "loci_validate_of_action_bsn_set_tunnel_dst_OF_VERSION_1_0 =
     v_min 16 (v_set_len 16 (v_wire_len 2 16 v_done))"

lemma loci_validate_of_action_bsn_set_tunnel_dst_OF_VERSION_1_0_ok [v_proved]: "v_ok loci_validate_of_action_bsn_set_tunnel_dst_OF_VERSION_1_0"
  unfolding loci_validate_of_action_bsn_set_tunnel_dst_OF_VERSION_1_0_def by (intro v_intro; simp add: v_proved v_ok_imp_k_ok)

lemma loci_validate_of_action_bsn_set_tunnel_dst_OF_VERSION_1_0_exact [x_proved]: "x_ok 2 loci_validate_of_action_bsn_set_tunnel_dst_OF_VERSION_1_0"
  unfolding loci_validate_of_action_bsn_set_tunnel_dst_OF_VERSION_1_0_def by (intro x_intro; simp add: x_proved x_ok_imp_kx_ok)

definition loci_validate_of_action_bsn_OF_VERSION_1_0 :: validator where
  "loci_validate_of_action_bsn_OF_VERSION_1_0 =
     v_min 16 (v_wire_len_set 2 16
     (v_switch32 8
      [(4, loci_validate_of_action_bsn_checksum_OF_VERSION_1_0),
       (1, loci_validate_of_action_bsn_mirror_OF_VERSION_1_0),
       (2, loci_validate_of_action_bsn_set_tunnel_dst_OF_VERSION_1_0)]
     v_done))"

lemma loci_validate_of_action_bsn_OF_VERSION_1_0_ok [v_proved]: "v_ok loci_validate_of_action_bsn_OF_VERSION_1_0"
  unfolding loci_validate_of_action_bsn_OF_VERSION_1_0_def by (intro v_intro; simp add: v_proved v_ok_imp_k_ok)

lemma loci_validate_of_action_bsn_OF_VERSION_1_0_exact [x_proved]: "x_ok 2 loci_validate_of_action_bsn_OF_VERSION_1_0"
  unfolding loci_validate_of_action_bsn_OF_VERSION_1_0_def by (intro x_intro; simp add: x_proved x_ok_imp_kx_ok)

definition loci_validate_of_action_nicira_dec_ttl_OF_VERSION_1_0 :: validator where
  "loci_validate_of_action_nicira_dec_ttl_OF_VERSION_1_0 =
     v_min 16 (v_set_len 16 (v_wire_len 2 16 v_done))"

lemma loci_validate_of_action_nicira_dec_ttl_OF_VERSION_1_0_ok [v_proved]: "v_ok loci_validate_of_action_nicira_dec_ttl_OF_VERSION_1_0"
  unfolding loci_validate_of_action_nicira_dec_ttl_OF_VERSION_1_0_def by (intro v_intro; simp add: v_proved v_ok_imp_k_ok)

lemma loci_validate_of_action_nicira_dec_ttl_OF_VERSION_1_0_exact [x_proved]: "x_ok 2 loci_validate_of_action_nicira_dec_ttl_OF_VERSION_1_0"
  unfolding loci_validate_of_action_nicira_dec_ttl_OF_VERSION_1_0_def by (intro x_intro; simp add: x_proved x_ok_imp_kx_ok)

definition loci_validate_of_action_nicira_OF_VERSION_1_0 :: validator where
  "loci_validate_of_action_nicira_OF_VERSION_1_0 =
     v_min 16 (v_wire_len_set 2 16
     (v_switch16 8
      [(0x12, loci_validate_of_action_nicira_dec_ttl_OF_VERSION_1_0)]
     v_done))"

lemma loci_validate_of_action_nicira_OF_VERSION_1_0_ok [v_proved]: "v_ok loci_validate_of_action_nicira_OF_VERSION_1_0"
  unfolding loci_validate_of_action_nicira_OF_VERSION_1_0_def by (intro v_intro; simp add: v_proved v_ok_imp_k_ok)

lemma loci_validate_of_action_nicira_OF_VERSION_1_0_exact [x_proved]: "x_ok 2 loci_validate_of_action_nicira_OF_VERSION_1_0"
  unfolding loci_validate_of_action_nicira_OF_VERSION_1_0_def by (intro x_intro; simp add: x_proved x_ok_imp_kx_ok)

definition loci_validate_of_action_experimenter_OF_VERSION_1_0 :: validator where
  "loci_validate_of_action_experimenter_OF_VERSION_1_0 =
     v_min 8 (v_wire_len_set 2 8
     (v_switch32 4
      [(0x5c16c7, loci_validate_of_action_bsn_OF_VERSION_1_0),
       (0x2320, loci_validate_of_action_nicira_OF_VERSION_1_0)]
     v_done))"

lemma loci_validate_of_action_experimenter_OF_VERSION_1_0_ok [v_proved]: "v_ok loci_validate_of_action_experimenter_OF_VERSION_1_0"
  unfolding loci_validate_of_action_experimenter_OF_VERSION_1_0_def by (intro v_intro; simp add: v_proved v_ok_imp_k_ok)

lemma loci_validate_of_action_experimenter_OF_VERSION_1_0_exact [x_proved]: "x_ok 2 loci_validate_of_action_experimenter_OF_VERSION_1_0"
  unfolding loci_validate_of_action_experimenter_OF_VERSION_1_0_def by (intro x_intro; simp add: x_proved x_ok_imp_kx_ok)

definition loci_validate_of_action_enqueue_OF_VERSION_1_0 :: validator where
  "loci_validate_of_action_enqueue_OF_VERSION_1_0 =
     v_min 16 (v_set_len 16 (v_wire_len 2 16 v_done))"

lemma loci_validate_of_action_enqueue_OF_VERSION_1_0_ok [v_proved]: "v_ok loci_validate_of_action_enqueue_OF_VERSION_1_0"
  unfolding loci_validate_of_action_enqueue_OF_VERSION_1_0_def by (intro v_intro; simp add: v_proved v_ok_imp_k_ok)

lemma loci_validate_of_action_enqueue_OF_VERSION_1_0_exact [x_proved]: "x_ok 2 loci_validate_of_action_enqueue_OF_VERSION_1_0"
  unfolding loci_validate_of_action_enqueue_OF_VERSION_1_0_def by (intro x_intro; simp add: x_proved x_ok_imp_kx_ok)

definition loci_validate_of_action_output_OF_VERSION_1_0 :: validator where
  "loci_validate_of_action_output_OF_VERSION_1_0 =
     v_min 8 (v_set_len 8 (v_wire_len 2 8 v_done))"

lemma loci_validate_of_action_output_OF_VERSION_1_0_ok [v_proved]: "v_ok loci_validate_of_action_output_OF_VERSION_1_0"
  unfolding loci_validate_of_action_output_OF_VERSION_1_0_def by (intro v_intro; simp add: v_proved v_ok_imp_k_ok)

lemma loci_validate_of_action_output_OF_VERSION_1_0_exact [x_proved]: "x_ok 2 loci_validate_of_action_output_OF_VERSION_1_0"
  unfolding loci_validate_of_action_output_OF_VERSION_1_0_def by (intro x_intro; simp add: x_proved x_ok_imp_kx_ok)

definition loci_validate_of_action_set_dl_dst_OF_VERSION_1_0 :: validator where
  "loci_validate_of_action_set_dl_dst_OF_VERSION_1_0 =
     v_min 16 (v_set_len 16 (v_wire_len 2 16 v_done))"

lemma loci_validate_of_action_set_dl_dst_OF_VERSION_1_0_ok [v_proved]: "v_ok loci_validate_of_action_set_dl_dst_OF_VERSION_1_0"
  unfolding loci_validate_of_action_set_dl_dst_OF_VERSION_1_0_def by (intro v_intro; simp add: v_proved v_ok_imp_k_ok)

lemma loci_validate_of_action_set_dl_dst_OF_VERSION_1_0_exact [x_proved]: "x_ok 2 loci_validate_of_action_set_dl_dst_OF_VERSION_1_0"
  unfolding loci_validate_of_action_set_dl_dst_OF_VERSION_1_0_def by (intro x_intro; simp add: x_proved x_ok_imp_kx_ok)

definition loci_validate_of_action_set_dl_src_OF_VERSION_1_0 :: validator where
  "loci_validate_of_action_set_dl_src_OF_VERSION_1_0 =
     v_min 16 (v_set_len 16 (v_wire_len 2 16 v_done))"

lemma loci_validate_of_action_set_dl_src_OF_VERSION_1_0_ok [v_proved]: "v_ok loci_validate_of_action_set_dl_src_OF_VERSION_1_0"
  unfolding loci_validate_of_action_set_dl_src_OF_VERSION_1_0_def by (intro v_intro; simp add: v_proved v_ok_imp_k_ok)

lemma loci_validate_of_action_set_dl_src_OF_VERSION_1_0_exact [x_proved]: "x_ok 2 loci_validate_of_action_set_dl_src_OF_VERSION_1_0"
  unfolding loci_validate_of_action_set_dl_src_OF_VERSION_1_0_def by (intro x_intro; simp add: x_proved x_ok_imp_kx_ok)

definition loci_validate_of_action_set_nw_dst_OF_VERSION_1_0 :: validator where
  "loci_validate_of_action_set_nw_dst_OF_VERSION_1_0 =
     v_min 8 (v_set_len 8 (v_wire_len 2 8 v_done))"

lemma loci_validate_of_action_set_nw_dst_OF_VERSION_1_0_ok [v_proved]: "v_ok loci_validate_of_action_set_nw_dst_OF_VERSION_1_0"
  unfolding loci_validate_of_action_set_nw_dst_OF_VERSION_1_0_def by (intro v_intro; simp add: v_proved v_ok_imp_k_ok)

lemma loci_validate_of_action_set_nw_dst_OF_VERSION_1_0_exact [x_proved]: "x_ok 2 loci_validate_of_action_set_nw_dst_OF_VERSION_1_0"
  unfolding loci_validate_of_action_set_nw_dst_OF_VERSION_1_0_def by (intro x_intro; simp add: x_proved x_ok_imp_kx_ok)

definition loci_validate_of_action_set_nw_src_OF_VERSION_1_0 :: validator where
  "loci_validate_of_action_set_nw_src_OF_VERSION_1_0 =
     v_min 8 (v_set_len 8 (v_wire_len 2 8 v_done))"

lemma loci_validate_of_action_set_nw_src_OF_VERSION_1_0_ok [v_proved]: "v_ok loci_validate_of_action_set_nw_src_OF_VERSION_1_0"
  unfolding loci_validate_of_action_set_nw_src_OF_VERSION_1_0_def by (intro v_intro; simp add: v_proved v_ok_imp_k_ok)

lemma loci_validate_of_action_set_nw_src_OF_VERSION_1_0_exact [x_proved]: "x_ok 2 loci_validate_of_action_set_nw_src_OF_VERSION_1_0"
  unfolding loci_validate_of_action_set_nw_src_OF_VERSION_1_0_def by (intro x_intro; simp add: x_proved x_ok_imp_kx_ok)

definition loci_validate_of_action_set_nw_tos_OF_VERSION_1_0 :: validator where
  "loci_validate_of_action_set_nw_tos_OF_VERSION_1_0 =
     v_min 8 (v_set_len 8 (v_wire_len 2 8 v_done))"

lemma loci_validate_of_action_set_nw_tos_OF_VERSION_1_0_ok [v_proved]: "v_ok loci_validate_of_action_set_nw_tos_OF_VERSION_1_0"
  unfolding loci_validate_of_action_set_nw_tos_OF_VERSION_1_0_def by (intro v_intro; simp add: v_proved v_ok_imp_k_ok)

lemma loci_validate_of_action_set_nw_tos_OF_VERSION_1_0_exact [x_proved]: "x_ok 2 loci_validate_of_action_set_nw_tos_OF_VERSION_1_0"
  unfolding loci_validate_of_action_set_nw_tos_OF_VERSION_1_0_def by (intro x_intro; simp add: x_proved x_ok_imp_kx_ok)

definition loci_validate_of_action_set_tp_dst_OF_VERSION_1_0 :: validator where
  "loci_validate_of_action_set_tp_dst_OF_VERSION_1_0 =
     v_min 8 (v_set_len 8 (v_wire_len 2 8 v_done))"

lemma loci_validate_of_action_set_tp_dst_OF_VERSION_1_0_ok [v_proved]: "v_ok loci_validate_of_action_set_tp_dst_OF_VERSION_1_0"
  unfolding loci_validate_of_action_set_tp_dst_OF_VERSION_1_0_def by (intro v_intro; simp add: v_proved v_ok_imp_k_ok)

lemma loci_validate_of_action_set_tp_dst_OF_VERSION_1_0_exact [x_proved]: "x_ok 2 loci_validate_of_action_set_tp_dst_OF_VERSION_1_0"
  unfolding loci_validate_of_action_set_tp_dst_OF_VERSION_1_0_def by (intro x_intro; simp add: x_proved x_ok_imp_kx_ok)

definition loci_validate_of_action_set_tp_src_OF_VERSION_1_0 :: validator where
  "loci_validate_of_action_set_tp_src_OF_VERSION_1_0 =
     v_min 8 (v_set_len 8 (v_wire_len 2 8 v_done))"

lemma loci_validate_of_action_set_tp_src_OF_VERSION_1_0_ok [v_proved]: "v_ok loci_validate_of_action_set_tp_src_OF_VERSION_1_0"
  unfolding loci_validate_of_action_set_tp_src_OF_VERSION_1_0_def by (intro v_intro; simp add: v_proved v_ok_imp_k_ok)

lemma loci_validate_of_action_set_tp_src_OF_VERSION_1_0_exact [x_proved]: "x_ok 2 loci_validate_of_action_set_tp_src_OF_VERSION_1_0"
  unfolding loci_validate_of_action_set_tp_src_OF_VERSION_1_0_def by (intro x_intro; simp add: x_proved x_ok_imp_kx_ok)

definition loci_validate_of_action_set_vlan_pcp_OF_VERSION_1_0 :: validator where
  "loci_validate_of_action_set_vlan_pcp_OF_VERSION_1_0 =
     v_min 8 (v_set_len 8 (v_wire_len 2 8 v_done))"

lemma loci_validate_of_action_set_vlan_pcp_OF_VERSION_1_0_ok [v_proved]: "v_ok loci_validate_of_action_set_vlan_pcp_OF_VERSION_1_0"
  unfolding loci_validate_of_action_set_vlan_pcp_OF_VERSION_1_0_def by (intro v_intro; simp add: v_proved v_ok_imp_k_ok)

lemma loci_validate_of_action_set_vlan_pcp_OF_VERSION_1_0_exact [x_proved]: "x_ok 2 loci_validate_of_action_set_vlan_pcp_OF_VERSION_1_0"
  unfolding loci_validate_of_action_set_vlan_pcp_OF_VERSION_1_0_def by (intro x_intro; simp add: x_proved x_ok_imp_kx_ok)

definition loci_validate_of_action_set_vlan_vid_OF_VERSION_1_0 :: validator where
  "loci_validate_of_action_set_vlan_vid_OF_VERSION_1_0 =
     v_min 8 (v_set_len 8 (v_wire_len 2 8 v_done))"

lemma loci_validate_of_action_set_vlan_vid_OF_VERSION_1_0_ok [v_proved]: "v_ok loci_validate_of_action_set_vlan_vid_OF_VERSION_1_0"
  unfolding loci_validate_of_action_set_vlan_vid_OF_VERSION_1_0_def by (intro v_intro; simp add: v_proved v_ok_imp_k_ok)

lemma loci_validate_of_action_set_vlan_vid_OF_VERSION_1_0_exact [x_proved]: "x_ok 2 loci_validate_of_action_set_vlan_vid_OF_VERSION_1_0"
  unfolding loci_validate_of_action_set_vlan_vid_OF_VERSION_1_0_def by (intro x_intro; simp add: x_proved x_ok_imp_kx_ok)

definition loci_validate_of_action_strip_vlan_OF_VERSION_1_0 :: validator where
  "loci_validate_of_action_strip_vlan_OF_VERSION_1_0 =
     v_min 8 (v_set_len 8 (v_wire_len 2 8 v_done))"

lemma loci_validate_of_action_strip_vlan_OF_VERSION_1_0_ok [v_proved]: "v_ok loci_validate_of_action_strip_vlan_OF_VERSION_1_0"
  unfolding loci_validate_of_action_strip_vlan_OF_VERSION_1_0_def by (intro v_intro; simp add: v_proved v_ok_imp_k_ok)

lemma loci_validate_of_action_strip_vlan_OF_VERSION_1_0_exact [x_proved]: "x_ok 2 loci_validate_of_action_strip_vlan_OF_VERSION_1_0"
  unfolding loci_validate_of_action_strip_vlan_OF_VERSION_1_0_def by (intro x_intro; simp add: x_proved x_ok_imp_kx_ok)

definition loci_validate_of_action_OF_VERSION_1_0 :: validator where
  "loci_validate_of_action_OF_VERSION_1_0 =
     v_min 8 (v_wire_len_set 2 8
     (v_switch16 0
      [(0xffff, loci_validate_of_action_experimenter_OF_VERSION_1_0),
       (0xb, loci_validate_of_action_enqueue_OF_VERSION_1_0),
       (0, loci_validate_of_action_output_OF_VERSION_1_0),
       (5, loci_validate_of_action_set_dl_dst_OF_VERSION_1_0),
       (4, loci_validate_of_action_set_dl_src_OF_VERSION_1_0),
       (7, loci_validate_of_action_set_nw_dst_OF_VERSION_1_0),
       (6, loci_validate_of_action_set_nw_src_OF_VERSION_1_0),
       (8, loci_validate_of_action_set_nw_tos_OF_VERSION_1_0),
       (0xa, loci_validate_of_action_set_tp_dst_OF_VERSION_1_0),
       (9, loci_validate_of_action_set_tp_src_OF_VERSION_1_0),
       (2, loci_validate_of_action_set_vlan_pcp_OF_VERSION_1_0),
       (1, loci_validate_of_action_set_vlan_vid_OF_VERSION_1_0),
       (3, loci_validate_of_action_strip_vlan_OF_VERSION_1_0)]
     v_done))"

lemma loci_validate_of_action_OF_VERSION_1_0_ok [v_proved]: "v_ok loci_validate_of_action_OF_VERSION_1_0"
  unfolding loci_validate_of_action_OF_VERSION_1_0_def by (intro v_intro; simp add: v_proved v_ok_imp_k_ok)

lemma loci_validate_of_action_OF_VERSION_1_0_exact [x_proved]: "x_ok 2 loci_validate_of_action_OF_VERSION_1_0"
  unfolding loci_validate_of_action_OF_VERSION_1_0_def by (intro x_intro; simp add: x_proved x_ok_imp_kx_ok)

definition loci_validate_of_list_action_OF_VERSION_1_0 :: "byte list \<Rightarrow> int \<Rightarrow> int \<Rightarrow> bool res" where
  "loci_validate_of_list_action_OF_VERSION_1_0 = v_list loci_validate_of_action_OF_VERSION_1_0"

interpretation action_1_0_list: list_element loci_validate_of_action_OF_VERSION_1_0
  by unfold_locales (rule loci_validate_of_action_OF_VERSION_1_0_ok)

lemma loci_validate_of_list_action_OF_VERSION_1_0_ok [v_proved]: "l_ok loci_validate_of_list_action_OF_VERSION_1_0"
  unfolding loci_validate_of_list_action_OF_VERSION_1_0_def by (rule action_1_0_list.l_ok_list)

definition loci_validate_of_flow_stats_entry_OF_VERSION_1_0 :: validator where
  "loci_validate_of_flow_stats_entry_OF_VERSION_1_0 =
     v_min 88 (v_wire_len_set 0 88
     (v_list_rest 88 loci_validate_of_list_action_OF_VERSION_1_0 v_done))"

lemma loci_validate_of_flow_stats_entry_OF_VERSION_1_0_ok [v_proved]: "v_ok loci_validate_of_flow_stats_entry_OF_VERSION_1_0"
  unfolding loci_validate_of_flow_stats_entry_OF_VERSION_1_0_def by (intro v_intro; simp add: v_proved v_ok_imp_k_ok)

lemma loci_validate_of_flow_stats_entry_OF_VERSION_1_0_exact [x_proved]: "x_ok 0 loci_validate_of_flow_stats_entry_OF_VERSION_1_0"
  unfolding loci_validate_of_flow_stats_entry_OF_VERSION_1_0_def by (intro x_intro; simp add: x_proved x_ok_imp_kx_ok)

definition loci_validate_of_list_flow_stats_entry_OF_VERSION_1_0 :: "byte list \<Rightarrow> int \<Rightarrow> int \<Rightarrow> bool res" where
  "loci_validate_of_list_flow_stats_entry_OF_VERSION_1_0 = v_list loci_validate_of_flow_stats_entry_OF_VERSION_1_0"

interpretation flow_stats_entry_1_0_list: list_element loci_validate_of_flow_stats_entry_OF_VERSION_1_0
  by unfold_locales (rule loci_validate_of_flow_stats_entry_OF_VERSION_1_0_ok)

lemma loci_validate_of_list_flow_stats_entry_OF_VERSION_1_0_ok [v_proved]: "l_ok loci_validate_of_list_flow_stats_entry_OF_VERSION_1_0"
  unfolding loci_validate_of_list_flow_stats_entry_OF_VERSION_1_0_def by (rule flow_stats_entry_1_0_list.l_ok_list)

definition loci_validate_of_queue_prop_min_rate_OF_VERSION_1_0 :: validator where
  "loci_validate_of_queue_prop_min_rate_OF_VERSION_1_0 =
     v_min 16 (v_set_len 16 (v_wire_len 2 16 v_done))"

lemma loci_validate_of_queue_prop_min_rate_OF_VERSION_1_0_ok [v_proved]: "v_ok loci_validate_of_queue_prop_min_rate_OF_VERSION_1_0"
  unfolding loci_validate_of_queue_prop_min_rate_OF_VERSION_1_0_def by (intro v_intro; simp add: v_proved v_ok_imp_k_ok)

lemma loci_validate_of_queue_prop_min_rate_OF_VERSION_1_0_exact [x_proved]: "x_ok 2 loci_validate_of_queue_prop_min_rate_OF_VERSION_1_0"
  unfolding loci_validate_of_queue_prop_min_rate_OF_VERSION_1_0_def by (intro x_intro; simp add: x_proved x_ok_imp_kx_ok)

definition loci_validate_of_queue_prop_OF_VERSION_1_0 :: validator where
  "loci_validate_of_queue_prop_OF_VERSION_1_0 =
     v_min 8 (v_wire_len_set 2 8
     (v_switch16 0
      [(1, loci_validate_of_queue_prop_min_rate_OF_VERSION_1_0)]
     v_done))"

lemma loci_validate_of_queue_prop_OF_VERSION_1_0_ok [v_proved]: "v_ok loci_validate_of_queue_prop_OF_VERSION_1_0"
  unfolding loci_validate_of_queue_prop_OF_VERSION_1_0_def by (intro v_intro; simp add: v_proved v_ok_imp_k_ok)

lemma loci_validate_of_queue_prop_OF_VERSION_1_0_exact [x_proved]: "x_ok 2 loci_validate_of_queue_prop_OF_VERSION_1_0"
  unfolding loci_validate_of_queue_prop_OF_VERSION_1_0_def by (intro x_intro; simp add: x_proved x_ok_imp_kx_ok)

definition loci_validate_of_list_queue_prop_OF_VERSION_1_0 :: "byte list \<Rightarrow> int \<Rightarrow> int \<Rightarrow> bool res" where
  "loci_validate_of_list_queue_prop_OF_VERSION_1_0 = v_list loci_validate_of_queue_prop_OF_VERSION_1_0"

interpretation queue_prop_1_0_list: list_element loci_validate_of_queue_prop_OF_VERSION_1_0
  by unfold_locales (rule loci_validate_of_queue_prop_OF_VERSION_1_0_ok)

lemma loci_validate_of_list_queue_prop_OF_VERSION_1_0_ok [v_proved]: "l_ok loci_validate_of_list_queue_prop_OF_VERSION_1_0"
  unfolding loci_validate_of_list_queue_prop_OF_VERSION_1_0_def by (rule queue_prop_1_0_list.l_ok_list)

definition loci_validate_of_port_stats_entry_OF_VERSION_1_0 :: validator where
  "loci_validate_of_port_stats_entry_OF_VERSION_1_0 =
     v_min 104 (v_set_len 104 v_done)"

lemma loci_validate_of_port_stats_entry_OF_VERSION_1_0_ok [v_proved]: "v_ok loci_validate_of_port_stats_entry_OF_VERSION_1_0"
  unfolding loci_validate_of_port_stats_entry_OF_VERSION_1_0_def by (intro v_intro; simp add: v_proved v_ok_imp_k_ok)

definition loci_validate_of_list_port_stats_entry_OF_VERSION_1_0 :: "byte list \<Rightarrow> int \<Rightarrow> int \<Rightarrow> bool res" where
  "loci_validate_of_list_port_stats_entry_OF_VERSION_1_0 = v_list loci_validate_of_port_stats_entry_OF_VERSION_1_0"

interpretation port_stats_entry_1_0_list: list_element loci_validate_of_port_stats_entry_OF_VERSION_1_0
  by unfold_locales (rule loci_validate_of_port_stats_entry_OF_VERSION_1_0_ok)

lemma loci_validate_of_list_port_stats_entry_OF_VERSION_1_0_ok [v_proved]: "l_ok loci_validate_of_list_port_stats_entry_OF_VERSION_1_0"
  unfolding loci_validate_of_list_port_stats_entry_OF_VERSION_1_0_def by (rule port_stats_entry_1_0_list.l_ok_list)

definition loci_validate_of_packet_queue_OF_VERSION_1_0 :: validator where
  "loci_validate_of_packet_queue_OF_VERSION_1_0 =
     v_min 8 (v_wire_len_set 4 8
     (v_list_rest 8 loci_validate_of_list_queue_prop_OF_VERSION_1_0 v_done))"

lemma loci_validate_of_packet_queue_OF_VERSION_1_0_ok [v_proved]: "v_ok loci_validate_of_packet_queue_OF_VERSION_1_0"
  unfolding loci_validate_of_packet_queue_OF_VERSION_1_0_def by (intro v_intro; simp add: v_proved v_ok_imp_k_ok)

lemma loci_validate_of_packet_queue_OF_VERSION_1_0_exact [x_proved]: "x_ok 4 loci_validate_of_packet_queue_OF_VERSION_1_0"
  unfolding loci_validate_of_packet_queue_OF_VERSION_1_0_def by (intro x_intro; simp add: x_proved x_ok_imp_kx_ok)

definition loci_validate_of_list_packet_queue_OF_VERSION_1_0 :: "byte list \<Rightarrow> int \<Rightarrow> int \<Rightarrow> bool res" where
  "loci_validate_of_list_packet_queue_OF_VERSION_1_0 = v_list loci_validate_of_packet_queue_OF_VERSION_1_0"

interpretation packet_queue_1_0_list: list_element loci_validate_of_packet_queue_OF_VERSION_1_0
  by unfold_locales (rule loci_validate_of_packet_queue_OF_VERSION_1_0_ok)

lemma loci_validate_of_list_packet_queue_OF_VERSION_1_0_ok [v_proved]: "l_ok loci_validate_of_list_packet_queue_OF_VERSION_1_0"
  unfolding loci_validate_of_list_packet_queue_OF_VERSION_1_0_def by (rule packet_queue_1_0_list.l_ok_list)

definition loci_validate_of_queue_stats_entry_OF_VERSION_1_0 :: validator where
  "loci_validate_of_queue_stats_entry_OF_VERSION_1_0 =
     v_min 32 (v_set_len 32 v_done)"

lemma loci_validate_of_queue_stats_entry_OF_VERSION_1_0_ok [v_proved]: "v_ok loci_validate_of_queue_stats_entry_OF_VERSION_1_0"
  unfolding loci_validate_of_queue_stats_entry_OF_VERSION_1_0_def by (intro v_intro; simp add: v_proved v_ok_imp_k_ok)

definition loci_validate_of_list_queue_stats_entry_OF_VERSION_1_0 :: "byte list \<Rightarrow> int \<Rightarrow> int \<Rightarrow> bool res" where
  "loci_validate_of_list_queue_stats_entry_OF_VERSION_1_0 = v_list loci_validate_of_queue_stats_entry_OF_VERSION_1_0"

interpretation queue_stats_entry_1_0_list: list_element loci_validate_of_queue_stats_entry_OF_VERSION_1_0
  by unfold_locales (rule loci_validate_of_queue_stats_entry_OF_VERSION_1_0_ok)

lemma loci_validate_of_list_queue_stats_entry_OF_VERSION_1_0_ok [v_proved]: "l_ok loci_validate_of_list_queue_stats_entry_OF_VERSION_1_0"
  unfolding loci_validate_of_list_queue_stats_entry_OF_VERSION_1_0_def by (rule queue_stats_entry_1_0_list.l_ok_list)

definition loci_validate_of_table_stats_entry_OF_VERSION_1_0 :: validator where
  "loci_validate_of_table_stats_entry_OF_VERSION_1_0 =
     v_min 64 (v_set_len 64 v_done)"

lemma loci_validate_of_table_stats_entry_OF_VERSION_1_0_ok [v_proved]: "v_ok loci_validate_of_table_stats_entry_OF_VERSION_1_0"
  unfolding loci_validate_of_table_stats_entry_OF_VERSION_1_0_def by (intro v_intro; simp add: v_proved v_ok_imp_k_ok)

definition loci_validate_of_list_table_stats_entry_OF_VERSION_1_0 :: "byte list \<Rightarrow> int \<Rightarrow> int \<Rightarrow> bool res" where
  "loci_validate_of_list_table_stats_entry_OF_VERSION_1_0 = v_list loci_validate_of_table_stats_entry_OF_VERSION_1_0"

interpretation table_stats_entry_1_0_list: list_element loci_validate_of_table_stats_entry_OF_VERSION_1_0
  by unfold_locales (rule loci_validate_of_table_stats_entry_OF_VERSION_1_0_ok)

lemma loci_validate_of_list_table_stats_entry_OF_VERSION_1_0_ok [v_proved]: "l_ok loci_validate_of_list_table_stats_entry_OF_VERSION_1_0"
  unfolding loci_validate_of_list_table_stats_entry_OF_VERSION_1_0_def by (rule table_stats_entry_1_0_list.l_ok_list)

definition loci_validate_of_aggregate_stats_reply_OF_VERSION_1_0 :: validator where
  "loci_validate_of_aggregate_stats_reply_OF_VERSION_1_0 =
     v_min 36 (v_set_len 36 (v_wire_len 2 36 v_done))"

lemma loci_validate_of_aggregate_stats_reply_OF_VERSION_1_0_ok [v_proved]: "v_ok loci_validate_of_aggregate_stats_reply_OF_VERSION_1_0"
  unfolding loci_validate_of_aggregate_stats_reply_OF_VERSION_1_0_def by (intro v_intro; simp add: v_proved v_ok_imp_k_ok)

lemma loci_validate_of_aggregate_stats_reply_OF_VERSION_1_0_exact [x_proved]: "x_ok 2 loci_validate_of_aggregate_stats_reply_OF_VERSION_1_0"
  unfolding loci_validate_of_aggregate_stats_reply_OF_VERSION_1_0_def by (intro x_intro; simp add: x_proved x_ok_imp_kx_ok)

definition loci_validate_of_bsn_stats_reply_OF_VERSION_1_0 :: validator where
  "loci_validate_of_bsn_stats_reply_OF_VERSION_1_0 =
     v_min 24 (v_wire_len_set 2 24
     (v_switch32 20
      []
     v_done))"

lemma loci_validate_of_bsn_stats_reply_OF_VERSION_1_0_ok [v_proved]: "v_ok loci_validate_of_bsn_stats_reply_OF_VERSION_1_0"
  unfolding loci_validate_of_bsn_stats_reply_OF_VERSION_1_0_def by (intro v_intro; simp add: v_proved v_ok_imp_k_ok)

lemma loci_validate_of_bsn_stats_reply_OF_VERSION_1_0_exact [x_proved]: "x_ok 2 loci_validate_of_bsn_stats_reply_OF_VERSION_1_0"
  unfolding loci_validate_of_bsn_stats_reply_OF_VERSION_1_0_def by (intro x_intro; simp add: x_proved x_ok_imp_kx_ok)

definition loci_validate_of_experimenter_stats_reply_OF_VERSION_1_0 :: validator where
  "loci_validate_of_experimenter_stats_reply_OF_VERSION_1_0 =
     v_min 16 (v_wire_len_set 2 16
     (v_switch32 12
      [(0x5c16c7, loci_validate_of_bsn_stats_reply_OF_VERSION_1_0)]
     v_done))"

lemma loci_validate_of_experimenter_stats_reply_OF_VERSION_1_0_ok [v_proved]: "v_ok loci_validate_of_experimenter_stats_reply_OF_VERSION_1_0"
  unfolding loci_validate_of_experimenter_stats_reply_OF_VERSION_1_0_def by (intro v_intro; simp add: v_proved v_ok_imp_k_ok)

lemma loci_validate_of_experimenter_stats_reply_OF_VERSION_1_0_exact [x_proved]: "x_ok 2 loci_validate_of_experimenter_stats_reply_OF_VERSION_1_0"
  unfolding loci_validate_of_experimenter_stats_reply_OF_VERSION_1_0_def by (intro x_intro; simp add: x_proved x_ok_imp_kx_ok)

definition loci_validate_of_desc_stats_reply_OF_VERSION_1_0 :: validator where
  "loci_validate_of_desc_stats_reply_OF_VERSION_1_0 =
     v_min 1068 (v_set_len 1068 (v_wire_len 2 1068 v_done))"

lemma loci_validate_of_desc_stats_reply_OF_VERSION_1_0_ok [v_proved]: "v_ok loci_validate_of_desc_stats_reply_OF_VERSION_1_0"
  unfolding loci_validate_of_desc_stats_reply_OF_VERSION_1_0_def by (intro v_intro; simp add: v_proved v_ok_imp_k_ok)

lemma loci_validate_of_desc_stats_reply_OF_VERSION_1_0_exact [x_proved]: "x_ok 2 loci_validate_of_desc_stats_reply_OF_VERSION_1_0"
  unfolding loci_validate_of_desc_stats_reply_OF_VERSION_1_0_def by (intro x_intro; simp add: x_proved x_ok_imp_kx_ok)

definition loci_validate_of_flow_stats_reply_OF_VERSION_1_0 :: validator where
  "loci_validate_of_flow_stats_reply_OF_VERSION_1_0 =
     v_min 12 (v_wire_len_set 2 12
     (v_list_rest 12 loci_validate_of_list_flow_stats_entry_OF_VERSION_1_0 v_done))"

lemma loci_validate_of_flow_stats_reply_OF_VERSION_1_0_ok [v_proved]: "v_ok loci_validate_of_flow_stats_reply_OF_VERSION_1_0"
  unfolding loci_validate_of_flow_stats_reply_OF_VERSION_1_0_def by (intro v_intro; simp add: v_proved v_ok_imp_k_ok)

lemma loci_validate_of_flow_stats_reply_OF_VERSION_1_0_exact [x_proved]: "x_ok 2 loci_validate_of_flow_stats_reply_OF_VERSION_1_0"
  unfolding loci_validate_of_flow_stats_reply_OF_VERSION_1_0_def by (intro x_intro; simp add: x_proved x_ok_imp_kx_ok)

definition loci_validate_of_port_stats_reply_OF_VERSION_1_0 :: validator where
  "loci_validate_of_port_stats_reply_OF_VERSION_1_0 =
     v_min 12 (v_wire_len_set 2 12
     (v_list_rest 12 loci_validate_of_list_port_stats_entry_OF_VERSION_1_0 v_done))"

lemma loci_validate_of_port_stats_reply_OF_VERSION_1_0_ok [v_proved]: "v_ok loci_validate_of_port_stats_reply_OF_VERSION_1_0"
  unfolding loci_validate_of_port_stats_reply_OF_VERSION_1_0_def by (intro v_intro; simp add: v_proved v_ok_imp_k_ok)

lemma loci_validate_of_port_stats_reply_OF_VERSION_1_0_exact [x_proved]: "x_ok 2 loci_validate_of_port_stats_reply_OF_VERSION_1_0"
  unfolding loci_validate_of_port_stats_reply_OF_VERSION_1_0_def by (intro x_intro; simp add: x_proved x_ok_imp_kx_ok)

definition loci_validate_of_queue_stats_reply_OF_VERSION_1_0 :: validator where
  "loci_validate_of_queue_stats_reply_OF_VERSION_1_0 =
     v_min 12 (v_wire_len_set 2 12
     (v_list_rest 12 loci_validate_of_list_queue_stats_entry_OF_VERSION_1_0 v_done))"

lemma loci_validate_of_queue_stats_reply_OF_VERSION_1_0_ok [v_proved]: "v_ok loci_validate_of_queue_stats_reply_OF_VERSION_1_0"
  unfolding loci_validate_of_queue_stats_reply_OF_VERSION_1_0_def by (intro v_intro; simp add: v_proved v_ok_imp_k_ok)

lemma loci_validate_of_queue_stats_reply_OF_VERSION_1_0_exact [x_proved]: "x_ok 2 loci_validate_of_queue_stats_reply_OF_VERSION_1_0"
  unfolding loci_validate_of_queue_stats_reply_OF_VERSION_1_0_def by (intro x_intro; simp add: x_proved x_ok_imp_kx_ok)

definition loci_validate_of_table_stats_reply_OF_VERSION_1_0 :: validator where
  "loci_validate_of_table_stats_reply_OF_VERSION_1_0 =
     v_min 12 (v_wire_len_set 2 12
     (v_list_rest 12 loci_validate_of_list_table_stats_entry_OF_VERSION_1_0 v_done))"

lemma loci_validate_of_table_stats_reply_OF_VERSION_1_0_ok [v_proved]: "v_ok loci_validate_of_table_stats_reply_OF_VERSION_1_0"
  unfolding loci_validate_of_table_stats_reply_OF_VERSION_1_0_def by (intro v_intro; simp add: v_proved v_ok_imp_k_ok)

lemma loci_validate_of_table_stats_reply_OF_VERSION_1_0_exact [x_proved]: "x_ok 2 loci_validate_of_table_stats_reply_OF_VERSION_1_0"
  unfolding loci_validate_of_table_stats_reply_OF_VERSION_1_0_def by (intro x_intro; simp add: x_proved x_ok_imp_kx_ok)

definition loci_validate_of_stats_reply_OF_VERSION_1_0 :: validator where
  "loci_validate_of_stats_reply_OF_VERSION_1_0 =
     v_min 12 (v_wire_len_set 2 12
     (v_switch16 8
      [(2, loci_validate_of_aggregate_stats_reply_OF_VERSION_1_0),
       (0xffff, loci_validate_of_experimenter_stats_reply_OF_VERSION_1_0),
       (0, loci_validate_of_desc_stats_reply_OF_VERSION_1_0),
       (1, loci_validate_of_flow_stats_reply_OF_VERSION_1_0),
       (4, loci_validate_of_port_stats_reply_OF_VERSION_1_0),
       (5, loci_validate_of_queue_stats_reply_OF_VERSION_1_0),
       (3, loci_validate_of_table_stats_reply_OF_VERSION_1_0)]
     v_done))"

lemma loci_validate_of_stats_reply_OF_VERSION_1_0_ok [v_proved]: "v_ok loci_validate_of_stats_reply_OF_VERSION_1_0"
  unfolding loci_validate_of_stats_reply_OF_VERSION_1_0_def by (intro v_intro; simp add: v_proved v_ok_imp_k_ok)

lemma loci_validate_of_stats_reply_OF_VERSION_1_0_exact [x_proved]: "x_ok 2 loci_validate_of_stats_reply_OF_VERSION_1_0"
  unfolding loci_validate_of_stats_reply_OF_VERSION_1_0_def by (intro x_intro; simp add: x_proved x_ok_imp_kx_ok)

definition loci_validate_of_aggregate_stats_request_OF_VERSION_1_0 :: validator where
  "loci_validate_of_aggregate_stats_request_OF_VERSION_1_0 =
     v_min 56 (v_set_len 56 (v_wire_len 2 56 v_done))"

lemma loci_validate_of_aggregate_stats_request_OF_VERSION_1_0_ok [v_proved]: "v_ok loci_validate_of_aggregate_stats_request_OF_VERSION_1_0"
  unfolding loci_validate_of_aggregate_stats_request_OF_VERSION_1_0_def by (intro v_intro; simp add: v_proved v_ok_imp_k_ok)

lemma loci_validate_of_aggregate_stats_request_OF_VERSION_1_0_exact [x_proved]: "x_ok 2 loci_validate_of_aggregate_stats_request_OF_VERSION_1_0"
  unfolding loci_validate_of_aggregate_stats_request_OF_VERSION_1_0_def by (intro x_intro; simp add: x_proved x_ok_imp_kx_ok)

definition loci_validate_of_bsn_stats_request_OF_VERSION_1_0 :: validator where
  "loci_validate_of_bsn_stats_request_OF_VERSION_1_0 =
     v_min 24 (v_wire_len_set 2 24
     (v_switch32 20
      []
     v_done))"

lemma loci_validate_of_bsn_stats_request_OF_VERSION_1_0_ok [v_proved]: "v_ok loci_validate_of_bsn_stats_request_OF_VERSION_1_0"
  unfolding loci_validate_of_bsn_stats_request_OF_VERSION_1_0_def by (intro v_intro; simp add: v_proved v_ok_imp_k_ok)

lemma loci_validate_of_bsn_stats_request_OF_VERSION_1_0_exact [x_proved]: "x_ok 2 loci_validate_of_bsn_stats_request_OF_VERSION_1_0"
  unfolding loci_validate_of_bsn_stats_request_OF_VERSION_1_0_def by (intro x_intro; simp add: x_proved x_ok_imp_kx_ok)

definition loci_validate_of_experimenter_stats_request_OF_VERSION_1_0 :: validator where
  "loci_validate_of_experimenter_stats_request_OF_VERSION_1_0 =
     v_min 16 (v_wire_len_set 2 16
     (v_switch32 12
      [(0x5c16c7, loci_validate_of_bsn_stats_request_OF_VERSION_1_0)]
     v_done))"

lemma loci_validate_of_experimenter_stats_request_OF_VERSION_1_0_ok [v_proved]: "v_ok loci_validate_of_experimenter_stats_request_OF_VERSION_1_0"
  unfolding loci_validate_of_experimenter_stats_request_OF_VERSION_1_0_def by (intro v_intro; simp add: v_proved v_ok_imp_k_ok)

lemma loci_validate_of_experimenter_stats_request_OF_VERSION_1_0_exact [x_proved]: "x_ok 2 loci_validate_of_experimenter_stats_request_OF_VERSION_1_0"
  unfolding loci_validate_of_experimenter_stats_request_OF_VERSION_1_0_def by (intro x_intro; simp add: x_proved x_ok_imp_kx_ok)

definition loci_validate_of_desc_stats_request_OF_VERSION_1_0 :: validator where
  "loci_validate_of_desc_stats_request_OF_VERSION_1_0 =
     v_min 12 (v_set_len 12 (v_wire_len 2 12 v_done))"

lemma loci_validate_of_desc_stats_request_OF_VERSION_1_0_ok [v_proved]: "v_ok loci_validate_of_desc_stats_request_OF_VERSION_1_0"
  unfolding loci_validate_of_desc_stats_request_OF_VERSION_1_0_def by (intro v_intro; simp add: v_proved v_ok_imp_k_ok)

lemma loci_validate_of_desc_stats_request_OF_VERSION_1_0_exact [x_proved]: "x_ok 2 loci_validate_of_desc_stats_request_OF_VERSION_1_0"
  unfolding loci_validate_of_desc_stats_request_OF_VERSION_1_0_def by (intro x_intro; simp add: x_proved x_ok_imp_kx_ok)

definition loci_validate_of_flow_stats_request_OF_VERSION_1_0 :: validator where
  "loci_validate_of_flow_stats_request_OF_VERSION_1_0 =
     v_min 56 (v_set_len 56 (v_wire_len 2 56 v_done))"

lemma loci_validate_of_flow_stats_request_OF_VERSION_1_0_ok [v_proved]: "v_ok loci_validate_of_flow_stats_request_OF_VERSION_1_0"
  unfolding loci_validate_of_flow_stats_request_OF_VERSION_1_0_def by (intro v_intro; simp add: v_proved v_ok_imp_k_ok)

lemma loci_validate_of_flow_stats_request_OF_VERSION_1_0_exact [x_proved]: "x_ok 2 loci_validate_of_flow_stats_request_OF_VERSION_1_0"
  unfolding loci_validate_of_flow_stats_request_OF_VERSION_1_0_def by (intro x_intro; simp add: x_proved x_ok_imp_kx_ok)

definition loci_validate_of_port_stats_request_OF_VERSION_1_0 :: validator where
  "loci_validate_of_port_stats_request_OF_VERSION_1_0 =
     v_min 20 (v_set_len 20 (v_wire_len 2 20 v_done))"

lemma loci_validate_of_port_stats_request_OF_VERSION_1_0_ok [v_proved]: "v_ok loci_validate_of_port_stats_request_OF_VERSION_1_0"
  unfolding loci_validate_of_port_stats_request_OF_VERSION_1_0_def by (intro v_intro; simp add: v_proved v_ok_imp_k_ok)

lemma loci_validate_of_port_stats_request_OF_VERSION_1_0_exact [x_proved]: "x_ok 2 loci_validate_of_port_stats_request_OF_VERSION_1_0"
  unfolding loci_validate_of_port_stats_request_OF_VERSION_1_0_def by (intro x_intro; simp add: x_proved x_ok_imp_kx_ok)

definition loci_validate_of_queue_stats_request_OF_VERSION_1_0 :: validator where
  "loci_validate_of_queue_stats_request_OF_VERSION_1_0 =
     v_min 20 (v_set_len 20 (v_wire_len 2 20 v_done))"

lemma loci_validate_of_queue_stats_request_OF_VERSION_1_0_ok [v_proved]: "v_ok loci_validate_of_queue_stats_request_OF_VERSION_1_0"
  unfolding loci_validate_of_queue_stats_request_OF_VERSION_1_0_def by (intro v_intro; simp add: v_proved v_ok_imp_k_ok)

lemma loci_validate_of_queue_stats_request_OF_VERSION_1_0_exact [x_proved]: "x_ok 2 loci_validate_of_queue_stats_request_OF_VERSION_1_0"
  unfolding loci_validate_of_queue_stats_request_OF_VERSION_1_0_def by (intro x_intro; simp add: x_proved x_ok_imp_kx_ok)

definition loci_validate_of_table_stats_request_OF_VERSION_1_0 :: validator where
  "loci_validate_of_table_stats_request_OF_VERSION_1_0 =
     v_min 12 (v_set_len 12 (v_wire_len 2 12 v_done))"

lemma loci_validate_of_table_stats_request_OF_VERSION_1_0_ok [v_proved]: "v_ok loci_validate_of_table_stats_request_OF_VERSION_1_0"
  unfolding loci_validate_of_table_stats_request_OF_VERSION_1_0_def by (intro v_intro; simp add: v_proved v_ok_imp_k_ok)

lemma loci_validate_of_table_stats_request_OF_VERSION_1_0_exact [x_proved]: "x_ok 2 loci_validate_of_table_stats_request_OF_VERSION_1_0"
  unfolding loci_validate_of_table_stats_request_OF_VERSION_1_0_def by (intro x_intro; simp add: x_proved x_ok_imp_kx_ok)

definition loci_validate_of_stats_request_OF_VERSION_1_0 :: validator where
  "loci_validate_of_stats_request_OF_VERSION_1_0 =
     v_min 12 (v_wire_len_set 2 12
     (v_switch16 8
      [(2, loci_validate_of_aggregate_stats_request_OF_VERSION_1_0),
       (0xffff, loci_validate_of_experimenter_stats_request_OF_VERSION_1_0),
       (0, loci_validate_of_desc_stats_request_OF_VERSION_1_0),
       (1, loci_validate_of_flow_stats_request_OF_VERSION_1_0),
       (4, loci_validate_of_port_stats_request_OF_VERSION_1_0),
       (5, loci_validate_of_queue_stats_request_OF_VERSION_1_0),
       (3, loci_validate_of_table_stats_request_OF_VERSION_1_0)]
     v_done))"

lemma loci_validate_of_stats_request_OF_VERSION_1_0_ok [v_proved]: "v_ok loci_validate_of_stats_request_OF_VERSION_1_0"
  unfolding loci_validate_of_stats_request_OF_VERSION_1_0_def by (intro v_intro; simp add: v_proved v_ok_imp_k_ok)

lemma loci_validate_of_stats_request_OF_VERSION_1_0_exact [x_proved]: "x_ok 2 loci_validate_of_stats_request_OF_VERSION_1_0"
  unfolding loci_validate_of_stats_request_OF_VERSION_1_0_def by (intro x_intro; simp add: x_proved x_ok_imp_kx_ok)

definition loci_validate_of_bad_action_error_msg_OF_VERSION_1_0 :: validator where
  "loci_validate_of_bad_action_error_msg_OF_VERSION_1_0 =
     v_min 12 (v_wire_len_set 2 12 v_done)"

lemma loci_validate_of_bad_action_error_msg_OF_VERSION_1_0_ok [v_proved]: "v_ok loci_validate_of_bad_action_error_msg_OF_VERSION_1_0"
  unfolding loci_validate_of_bad_action_error_msg_OF_VERSION_1_0_def by (intro v_intro; simp add: v_proved v_ok_imp_k_ok)

lemma loci_validate_of_bad_action_error_msg_OF_VERSION_1_0_exact [x_proved]: "x_ok 2 loci_validate_of_bad_action_error_msg_OF_VERSION_1_0"
  unfolding loci_validate_of_bad_action_error_msg_OF_VERSION_1_0_def by (intro x_intro; simp add: x_proved x_ok_imp_kx_ok)

definition loci_validate_of_bad_request_error_msg_OF_VERSION_1_0 :: validator where
  "loci_validate_of_bad_request_error_msg_OF_VERSION_1_0 =
     v_min 12 (v_wire_len_set 2 12 v_done)"

lemma loci_validate_of_bad_request_error_msg_OF_VERSION_1_0_ok [v_proved]: "v_ok loci_validate_of_bad_request_error_msg_OF_VERSION_1_0"
  unfolding loci_validate_of_bad_request_error_msg_OF_VERSION_1_0_def by (intro v_intro; simp add: v_proved v_ok_imp_k_ok)

lemma loci_validate_of_bad_request_error_msg_OF_VERSION_1_0_exact [x_proved]: "x_ok 2 loci_validate_of_bad_request_error_msg_OF_VERSION_1_0"
  unfolding loci_validate_of_bad_request_error_msg_OF_VERSION_1_0_def by (intro x_intro; simp add: x_proved x_ok_imp_kx_ok)

definition loci_validate_of_flow_mod_failed_error_msg_OF_VERSION_1_0 :: validator where
  "loci_validate_of_flow_mod_failed_error_msg_OF_VERSION_1_0 =
     v_min 12 (v_wire_len_set 2 12 v_done)"

lemma loci_validate_of_flow_mod_failed_error_msg_OF_VERSION_1_0_ok [v_proved]: "v_ok loci_validate_of_flow_mod_failed_error_msg_OF_VERSION_1_0"
  unfolding loci_validate_of_flow_mod_failed_error_msg_OF_VERSION_1_0_def by (intro v_intro; simp add: v_proved v_ok_imp_k_ok)

lemma loci_validate_of_flow_mod_failed_error_msg_OF_VERSION_1_0_exact [x_proved]: "x_ok 2 loci_validate_of_flow_mod_failed_error_msg_OF_VERSION_1_0"
  unfolding loci_validate_of_flow_mod_failed_error_msg_OF_VERSION_1_0_def by (intro x_intro; simp add: x_proved x_ok_imp_kx_ok)

definition loci_validate_of_hello_failed_error_msg_OF_VERSION_1_0 :: validator where
  "loci_validate_of_hello_failed_error_msg_OF_VERSION_1_0 =
     v_min 12 (v_wire_len_set 2 12 v_done)"

lemma loci_validate_of_hello_failed_error_msg_OF_VERSION_1_0_ok [v_proved]: "v_ok loci_validate_of_hello_failed_error_msg_OF_VERSION_1_0"
  unfolding loci_validate_of_hello_failed_error_msg_OF_VERSION_1_0_def by (intro v_intro; simp add: v_proved v_ok_imp_k_ok)

lemma loci_validate_of_hello_failed_error_msg_OF_VERSION_1_0_exact [x_proved]: "x_ok 2 loci_validate_of_hello_failed_error_msg_OF_VERSION_1_0"
  unfolding loci_validate_of_hello_failed_error_msg_OF_VERSION_1_0_def by (intro x_intro; simp add: x_proved x_ok_imp_kx_ok)

definition loci_validate_of_port_mod_failed_error_msg_OF_VERSION_1_0 :: validator where
  "loci_validate_of_port_mod_failed_error_msg_OF_VERSION_1_0 =
     v_min 12 (v_wire_len_set 2 12 v_done)"

lemma loci_validate_of_port_mod_failed_error_msg_OF_VERSION_1_0_ok [v_proved]: "v_ok loci_validate_of_port_mod_failed_error_msg_OF_VERSION_1_0"
  unfolding loci_validate_of_port_mod_failed_error_msg_OF_VERSION_1_0_def by (intro v_intro; simp add: v_proved v_ok_imp_k_ok)

lemma loci_validate_of_port_mod_failed_error_msg_OF_VERSION_1_0_exact [x_proved]: "x_ok 2 loci_validate_of_port_mod_failed_error_msg_OF_VERSION_1_0"
  unfolding loci_validate_of_port_mod_failed_error_msg_OF_VERSION_1_0_def by (intro x_intro; simp add: x_proved x_ok_imp_kx_ok)

definition loci_validate_of_queue_op_failed_error_msg_OF_VERSION_1_0 :: validator where
  "loci_validate_of_queue_op_failed_error_msg_OF_VERSION_1_0 =
     v_min 12 (v_wire_len_set 2 12 v_done)"

lemma loci_validate_of_queue_op_failed_error_msg_OF_VERSION_1_0_ok [v_proved]: "v_ok loci_validate_of_queue_op_failed_error_msg_OF_VERSION_1_0"
  unfolding loci_validate_of_queue_op_failed_error_msg_OF_VERSION_1_0_def by (intro v_intro; simp add: v_proved v_ok_imp_k_ok)

lemma loci_validate_of_queue_op_failed_error_msg_OF_VERSION_1_0_exact [x_proved]: "x_ok 2 loci_validate_of_queue_op_failed_error_msg_OF_VERSION_1_0"
  unfolding loci_validate_of_queue_op_failed_error_msg_OF_VERSION_1_0_def by (intro x_intro; simp add: x_proved x_ok_imp_kx_ok)

definition loci_validate_of_error_msg_OF_VERSION_1_0 :: validator where
  "loci_validate_of_error_msg_OF_VERSION_1_0 =
     v_min 10 (v_wire_len_set 2 10
     (v_switch16 8
      [(2, loci_validate_of_bad_action_error_msg_OF_VERSION_1_0),
       (1, loci_validate_of_bad_request_error_msg_OF_VERSION_1_0),
       (3, loci_validate_of_flow_mod_failed_error_msg_OF_VERSION_1_0),
       (0, loci_validate_of_hello_failed_error_msg_OF_VERSION_1_0),
       (4, loci_validate_of_port_mod_failed_error_msg_OF_VERSION_1_0),
       (5, loci_validate_of_queue_op_failed_error_msg_OF_VERSION_1_0)]
     v_done))"

lemma loci_validate_of_error_msg_OF_VERSION_1_0_ok [v_proved]: "v_ok loci_validate_of_error_msg_OF_VERSION_1_0"
  unfolding loci_validate_of_error_msg_OF_VERSION_1_0_def by (intro v_intro; simp add: v_proved v_ok_imp_k_ok)

lemma loci_validate_of_error_msg_OF_VERSION_1_0_exact [x_proved]: "x_ok 2 loci_validate_of_error_msg_OF_VERSION_1_0"
  unfolding loci_validate_of_error_msg_OF_VERSION_1_0_def by (intro x_intro; simp add: x_proved x_ok_imp_kx_ok)

definition loci_validate_of_barrier_reply_OF_VERSION_1_0 :: validator where
  "loci_validate_of_barrier_reply_OF_VERSION_1_0 =
     v_min 8 (v_set_len 8 (v_wire_len 2 8 v_done))"

lemma loci_validate_of_barrier_reply_OF_VERSION_1_0_ok [v_proved]: "v_ok loci_validate_of_barrier_reply_OF_VERSION_1_0"
  unfolding loci_validate_of_barrier_reply_OF_VERSION_1_0_def by (intro v_intro; simp add: v_proved v_ok_imp_k_ok)

lemma loci_validate_of_barrier_reply_OF_VERSION_1_0_exact [x_proved]: "x_ok 2 loci_validate_of_barrier_reply_OF_VERSION_1_0"
  unfolding loci_validate_of_barrier_reply_OF_VERSION_1_0_def by (intro x_intro; simp add: x_proved x_ok_imp_kx_ok)

definition loci_validate_of_barrier_request_OF_VERSION_1_0 :: validator where
  "loci_validate_of_barrier_request_OF_VERSION_1_0 =
     v_min 8 (v_set_len 8 (v_wire_len 2 8 v_done))"

lemma loci_validate_of_barrier_request_OF_VERSION_1_0_ok [v_proved]: "v_ok loci_validate_of_barrier_request_OF_VERSION_1_0"
  unfolding loci_validate_of_barrier_request_OF_VERSION_1_0_def by (intro v_intro; simp add: v_proved v_ok_imp_k_ok)

lemma loci_validate_of_barrier_request_OF_VERSION_1_0_exact [x_proved]: "x_ok 2 loci_validate_of_barrier_request_OF_VERSION_1_0"
  unfolding loci_validate_of_barrier_request_OF_VERSION_1_0_def by (intro x_intro; simp add: x_proved x_ok_imp_kx_ok)

definition loci_validate_of_bsn_bw_clear_data_reply_OF_VERSION_1_0 :: validator where
  "loci_validate_of_bsn_bw_clear_data_reply_OF_VERSION_1_0 =
     v_min 20 (v_set_len 20 (v_wire_len 2 20 v_done))"

lemma loci_validate_of_bsn_bw_clear_data_reply_OF_VERSION_1_0_ok [v_proved]: "v_ok loci_validate_of_bsn_bw_clear_data_reply_OF_VERSION_1_0"
  unfolding loci_validate_of_bsn_bw_clear_data_reply_OF_VERSION_1_0_def by (intro v_intro; simp add: v_proved v_ok_imp_k_ok)

lemma loci_validate_of_bsn_bw_clear_data_reply_OF_VERSION_1_0_exact [x_proved]: "x_ok 2 loci_validate_of_bsn_bw_clear_data_reply_OF_VERSION_1_0"
  unfolding loci_validate_of_bsn_bw_clear_data_reply_OF_VERSION_1_0_def by (intro x_intro; simp add: x_proved x_ok_imp_kx_ok)

definition loci_validate_of_bsn_bw_clear_data_request_OF_VERSION_1_0 :: validator where
  "loci_validate_of_bsn_bw_clear_data_request_OF_VERSION_1_0 =
     v_min 16 (v_set_len 16 (v_wire_len 2 16 v_done))"

lemma loci_validate_of_bsn_bw_clear_data_request_OF_VERSION_1_0_ok [v_proved]: "v_ok loci_validate_of_bsn_bw_clear_data_request_OF_VERSION_1_0"
  unfolding loci_validate_of_bsn_bw_clear_data_request_OF_VERSION_1_0_def by (intro v_intro; simp add: v_proved v_ok_imp_k_ok)

lemma loci_validate_of_bsn_bw_clear_data_request_OF_VERSION_1_0_exact [x_proved]: "x_ok 2 loci_validate_of_bsn_bw_clear_data_request_OF_VERSION_1_0"
  unfolding loci_validate_of_bsn_bw_clear_data_request_OF_VERSION_1_0_def by (intro x_intro; simp add: x_proved x_ok_imp_kx_ok)

definition loci_validate_of_bsn_bw_enable_get_reply_OF_VERSION_1_0 :: validator where
  "loci_validate_of_bsn_bw_enable_get_reply_OF_VERSION_1_0 =
     v_min 20 (v_set_len 20 (v_wire_len 2 20 v_done))"

lemma loci_validate_of_bsn_bw_enable_get_reply_OF_VERSION_1_0_ok [v_proved]: "v_ok loci_validate_of_bsn_bw_enable_get_reply_OF_VERSION_1_0"
  unfolding loci_validate_of_bsn_bw_enable_get_reply_OF_VERSION_1_0_def by (intro v_intro; simp add: v_proved v_ok_imp_k_ok)

lemma loci_validate_of_bsn_bw_enable_get_reply_OF_VERSION_1_0_exact [x_proved]: "x_ok 2 loci_validate_of_bsn_bw_enable_get_reply_OF_VERSION_1_0"
  unfolding loci_validate_of_bsn_bw_enable_get_reply_OF_VERSION_1_0_def by (intro x_intro; simp add: x_proved x_ok_imp_kx_ok)

definition loci_validate_of_bsn_bw_enable_get_request_OF_VERSION_1_0 :: validator where
  "loci_validate_of_bsn_bw_enable_get_request_OF_VERSION_1_0 =
     v_min 16 (v_set_len 16 (v_wire_len 2 16 v_done))"

lemma loci_validate_of_bsn_bw_enable_get_request_OF_VERSION_1_0_ok [v_proved]: "v_ok loci_validate_of_bsn_bw_enable_get_request_OF_VERSION_1_0"
  unfolding loci_validate_of_bsn_bw_enable_get_request_OF_VERSION_1_0_def by (intro v_intro; simp add: v_proved v_ok_imp_k_ok)

lemma loci_validate_of_bsn_bw_enable_get_request_OF_VERSION_1_0_exact [x_proved]: "x_ok 2 loci_validate_of_bsn_bw_enable_get_request_OF_VERSION_1_0"
  unfolding loci_validate_of_bsn_bw_enable_get_request_OF_VERSION_1_0_def by (intro x_intro; simp add: x_proved x_ok_imp_kx_ok)

definition loci_validate_of_bsn_bw_enable_set_reply_OF_VERSION_1_0 :: validator where
  "loci_validate_of_bsn_bw_enable_set_reply_OF_VERSION_1_0 =
     v_min 24 (v_set_len 24 (v_wire_len 2 24 v_done))"

lemma loci_validate_of_bsn_bw_enable_set_reply_OF_VERSION_1_0_ok [v_proved]: "v_ok loci_validate_of_bsn_bw_enable_set_reply_OF_VERSION_1_0"
  unfolding loci_validate_of_bsn_bw_enable_set_reply_OF_VERSION_1_0_def by (intro v_intro; simp add: v_proved v_ok_imp_k_ok)

lemma loci_validate_of_bsn_bw_enable_set_reply_OF_VERSION_1_0_exact [x_proved]: "x_ok 2 loci_validate_of_bsn_bw_enable_set_reply_OF_VERSION_1_0"
  unfolding loci_validate_of_bsn_bw_enable_set_reply_OF_VERSION_1_0_def by (intro x_intro; simp add: x_proved x_ok_imp_kx_ok)

definition loci_validate_of_bsn_bw_enable_set_request_OF_VERSION_1_0 :: validator where
  "loci_validate_of_bsn_bw_enable_set_request_OF_VERSION_1_0 =
     v_min 20 (v_set_len 20 (v_wire_len 2 20 v_done))"

lemma loci_validate_of_bsn_bw_enable_set_request_OF_VERSION_1_0_ok [v_proved]: "v_ok loci_validate_of_bsn_bw_enable_set_request_OF_VERSION_1_0"
  unfolding loci_validate_of_bsn_bw_enable_set_request_OF_VERSION_1_0_def by (intro v_intro; simp add: v_proved v_ok_imp_k_ok)

lemma loci_validate_of_bsn_bw_enable_set_request_OF_VERSION_1_0_exact [x_proved]: "x_ok 2 loci_validate_of_bsn_bw_enable_set_request_OF_VERSION_1_0"
  unfolding loci_validate_of_bsn_bw_enable_set_request_OF_VERSION_1_0_def by (intro x_intro; simp add: x_proved x_ok_imp_kx_ok)

definition loci_validate_of_bsn_get_interfaces_reply_OF_VERSION_1_0 :: validator where
  "loci_validate_of_bsn_get_interfaces_reply_OF_VERSION_1_0 =
     v_min 16 (v_wire_len_set 2 16
     (v_list_rest 16 loci_validate_of_list_bsn_interface_OF_VERSION_1_0 v_done))"

lemma loci_validate_of_bsn_get_interfaces_reply_OF_VERSION_1_0_ok [v_proved]: "v_ok loci_validate_of_bsn_get_interfaces_reply_OF_VERSION_1_0"
  unfolding loci_validate_of_bsn_get_interfaces_reply_OF_VERSION_1_0_def by (intro v_intro; simp add: v_proved v_ok_imp_k_ok)

lemma loci_validate_of_bsn_get_interfaces_reply_OF_VERSION_1_0_exact [x_proved]: "x_ok 2 loci_validate_of_bsn_get_interfaces_reply_OF_VERSION_1_0"
  unfolding loci_validate_of_bsn_get_interfaces_reply_OF_VERSION_1_0_def by (intro x_intro; simp add: x_proved x_ok_imp_kx_ok)

definition loci_validate_of_bsn_get_interfaces_request_OF_VERSION_1_0 :: validator where
  "loci_validate_of_bsn_get_interfaces_request_OF_VERSION_1_0 =
     v_min 16 (v_set_len 16 (v_wire_len 2 16 v_done))"

lemma loci_validate_of_bsn_get_interfaces_request_OF_VERSION_1_0_ok [v_proved]: "v_ok loci_validate_of_bsn_get_interfaces_request_OF_VERSION_1_0"
  unfolding loci_validate_of_bsn_get_interfaces_request_OF_VERSION_1_0_def by (intro v_intro; simp add: v_proved v_ok_imp_k_ok)

lemma loci_validate_of_bsn_get_interfaces_request_OF_VERSION_1_0_exact [x_proved]: "x_ok 2 loci_validate_of_bsn_get_interfaces_request_OF_VERSION_1_0"
  unfolding loci_validate_of_bsn_get_interfaces_request_OF_VERSION_1_0_def by (intro x_intro; simp add: x_proved x_ok_imp_kx_ok)

definition loci_validate_of_bsn_get_ip_mask_reply_OF_VERSION_1_0 :: validator where
  "loci_validate_of_bsn_get_ip_mask_reply_OF_VERSION_1_0 =
     v_min 24 (v_set_len 24 (v_wire_len 2 24 v_done))"

lemma loci_validate_of_bsn_get_ip_mask_reply_OF_VERSION_1_0_ok [v_proved]: "v_ok loci_validate_of_bsn_get_ip_mask_reply_OF_VERSION_1_0"
  unfolding loci_validate_of_bsn_get_ip_mask_reply_OF_VERSION_1_0_def by (intro v_intro; simp add: v_proved v_ok_imp_k_ok)

lemma loci_validate_of_bsn_get_ip_mask_reply_OF_VERSION_1_0_exact [x_proved]: "x_ok 2 loci_validate_of_bsn_get_ip_mask_reply_OF_VERSION_1_0"
  unfolding loci_validate_of_bsn_get_ip_mask_reply_OF_VERSION_1_0_def by (intro x_intro; simp add: x_proved x_ok_imp_kx_ok)

definition loci_validate_of_bsn_get_ip_mask_request_OF_VERSION_1_0 :: validator where
  "loci_validate_of_bsn_get_ip_mask_request_OF_VERSION_1_0 =
     v_min 24 (v_set_len 24 (v_wire_len 2 24 v_done))"

lemma loci_validate_of_bsn_get_ip_mask_request_OF_VERSION_1_0_ok [v_proved]: "v_ok loci_validate_of_bsn_get_ip_mask_request_OF_VERSION_1_0"
  unfolding loci_validate_of_bsn_get_ip_mask_request_OF_VERSION_1_0_def by (intro v_intro; simp add: v_proved v_ok_imp_k_ok)

lemma loci_validate_of_bsn_get_ip_mask_request_OF_VERSION_1_0_exact [x_proved]: "x_ok 2 loci_validate_of_bsn_get_ip_mask_request_OF_VERSION_1_0"
  unfolding loci_validate_of_bsn_get_ip_mask_request_OF_VERSION_1_0_def by (intro x_intro; simp add: x_proved x_ok_imp_kx_ok)

definition loci_validate_of_bsn_get_l2_table_reply_OF_VERSION_1_0 :: validator where
  "loci_validate_of_bsn_get_l2_table_reply_OF_VERSION_1_0 =
     v_min 24 (v_set_len 24 (v_wire_len 2 24 v_done))"

lemma loci_validate_of_bsn_get_l2_table_reply_OF_VERSION_1_0_ok [v_proved]: "v_ok loci_validate_of_bsn_get_l2_table_reply_OF_VERSION_1_0"
  unfolding loci_validate_of_bsn_get_l2_table_reply_OF_VERSION_1_0_def by (intro v_intro; simp add: v_proved v_ok_imp_k_ok)

lemma loci_validate_of_bsn_get_l2_table_reply_OF_VERSION_1_0_exact [x_proved]: "x_ok 2 loci_validate_of_bsn_get_l2_table_reply_OF_VERSION_1_0"
  unfolding loci_validate_of_bsn_get_l2_table_reply_OF_VERSION_1_0_def by (intro x_intro; simp add: x_proved x_ok_imp_kx_ok)

definition loci_validate_of_bsn_get_l2_table_request_OF_VERSION_1_0 :: validator where
  "loci_validate_of_bsn_get_l2_table_request_OF_VERSION_1_0 =
     v_min 16 (v_set_len 16 (v_wire_len 2 16 v_done))"

lemma loci_validate_of_bsn_get_l2_table_request_OF_VERSION_1_0_ok [v_proved]: "v_ok loci_validate_of_bsn_get_l2_table_request_OF_VERSION_1_0"
  unfolding loci_validate_of_bsn_get_l2_table_request_OF_VERSION_1_0_def by (intro v_intro; simp add: v_proved v_ok_imp_k_ok)

lemma loci_validate_of_bsn_get_l2_table_request_OF_VERSION_1_0_exact [x_proved]: "x_ok 2 loci_validate_of_bsn_get_l2_table_request_OF_VERSION_1_0"
  unfolding loci_validate_of_bsn_get_l2_table_request_OF_VERSION_1_0_def by (intro x_intro; simp add: x_proved x_ok_imp_kx_ok)

definition loci_validate_of_bsn_get_mirroring_reply_OF_VERSION_1_0 :: validator where
  "loci_validate_of_bsn_get_mirroring_reply_OF_VERSION_1_0 =
     v_min 20 (v_set_len 20 (v_wire_len 2 20 v_done))"

lemma loci_validate_of_bsn_get_mirroring_reply_OF_VERSION_1_0_ok [v_proved]: "v_ok loci_validate_of_bsn_get_mirroring_reply_OF_VERSION_1_0"
  unfolding loci_validate_of_bsn_get_mirroring_reply_OF_VERSION_1_0_def by (intro v_intro; simp add: v_proved v_ok_imp_k_ok)

lemma loci_validate_of_bsn_get_mirroring_reply_OF_VERSION_1_0_exact [x_proved]: "x_ok 2 loci_validate_of_bsn_get_mirroring_reply_OF_VERSION_1_0"
  unfolding loci_validate_of_bsn_get_mirroring_reply_OF_VERSION_1_0_def by (intro x_intro; simp add: x_proved x_ok_imp_kx_ok)

definition loci_validate_of_bsn_get_mirroring_request_OF_VERSION_1_0 :: validator where
  "loci_validate_of_bsn_get_mirroring_request_OF_VERSION_1_0 =
     v_min 20 (v_set_len 20 (v_wire_len 2 20 v_done))"

lemma loci_validate_of_bsn_get_mirroring_request_OF_VERSION_1_0_ok [v_proved]: "v_ok loci_validate_of_bsn_get_mirroring_request_OF_VERSION_1_0"
  unfolding loci_validate_of_bsn_get_mirroring_request_OF_VERSION_1_0_def by (intro v_intro; simp add: v_proved v_ok_imp_k_ok)

lemma loci_validate_of_bsn_get_mirroring_request_OF_VERSION_1_0_exact [x_proved]: "x_ok 2 loci_validate_of_bsn_get_mirroring_request_OF_VERSION_1_0"
  unfolding loci_validate_of_bsn_get_mirroring_request_OF_VERSION_1_0_def by (intro x_intro; simp add: x_proved x_ok_imp_kx_ok)

definition loci_validate_of_bsn_hybrid_get_reply_OF_VERSION_1_0 :: validator where
  "loci_validate_of_bsn_hybrid_get_reply_OF_VERSION_1_0 =
     v_min 24 (v_set_len 24 (v_wire_len 2 24 v_done))"

lemma loci_validate_of_bsn_hybrid_get_reply_OF_VERSION_1_0_ok [v_proved]: "v_ok loci_validate_of_bsn_hybrid_get_reply_OF_VERSION_1_0"
  unfolding loci_validate_of_bsn_hybrid_get_reply_OF_VERSION_1_0_def by (intro v_intro; simp add: v_proved v_ok_imp_k_ok)

lemma loci_validate_of_bsn_hybrid_get_reply_OF_VERSION_1_0_exact [x_proved]: "x_ok 2 loci_validate_of_bsn_hybrid_get_reply_OF_VERSION_1_0"
  unfolding loci_validate_of_bsn_hybrid_get_reply_OF_VERSION_1_0_def by (intro x_intro; simp add: x_proved x_ok_imp_kx_ok)

definition loci_validate_of_bsn_hybrid_get_request_OF_VERSION_1_0 :: validator where
  "loci_validate_of_bsn_hybrid_get_request_OF_VERSION_1_0 =
     v_min 16 (v_set_len 16 (v_wire_len 2 16 v_done))"

lemma loci_validate_of_bsn_hybrid_get_request_OF_VERSION_1_0_ok [v_proved]: "v_ok loci_validate_of_bsn_hybrid_get_request_OF_VERSION_1_0"
  unfolding loci_validate_of_bsn_hybrid_get_request_OF_VERSION_1_0_def by (intro v_intro; simp add: v_proved v_ok_imp_k_ok)

lemma loci_validate_of_bsn_hybrid_get_request_OF_VERSION_1_0_exact [x_proved]: "x_ok 2 loci_validate_of_bsn_hybrid_get_request_OF_VERSION_1_0"
  unfolding loci_validate_of_bsn_hybrid_get_request_OF_VERSION_1_0_def by (intro x_intro; simp add: x_proved x_ok_imp_kx_ok)

definition loci_validate_of_bsn_pdu_rx_reply_OF_VERSION_1_0 :: validator where
  "loci_validate_of_bsn_pdu_rx_reply_OF_VERSION_1_0 =
     v_min 23 (v_set_len 23 (v_wire_len 2 23 v_done))"

lemma loci_validate_of_bsn_pdu_rx_reply_OF_VERSION_1_0_ok [v_proved]: "v_ok loci_validate_of_bsn_pdu_rx_reply_OF_VERSION_1_0"
  unfolding loci_validate_of_bsn_pdu_rx_reply_OF_VERSION_1_0_def by (intro v_intro; simp add: v_proved v_ok_imp_k_ok)

lemma loci_validate_of_bsn_pdu_rx_reply_OF_VERSION_1_0_exact [x_proved]: "x_ok 2 loci_validate_of_bsn_pdu_rx_reply_OF_VERSION_1_0"
  unfolding loci_validate_of_bsn_pdu_rx_reply_OF_VERSION_1_0_def by (intro x_intro; simp add: x_proved x_ok_imp_kx_ok)

definition loci_validate_of_bsn_pdu_rx_request_OF_VERSION_1_0 :: validator where
  "loci_validate_of_bsn_pdu_rx_request_OF_VERSION_1_0 =
     v_min 26 (v_wire_len_set 2 26 v_done)"

lemma loci_validate_of_bsn_pdu_rx_request_OF_VERSION_1_0_ok [v_proved]: "v_ok loci_validate_of_bsn_pdu_rx_request_OF_VERSION_1_0"
  unfolding loci_validate_of_bsn_pdu_rx_request_OF_VERSION_1_0_def by (intro v_intro; simp add: v_proved v_ok_imp_k_ok)

lemma loci_validate_of_bsn_pdu_rx_request_OF_VERSION_1_0_exact [x_proved]: "x_ok 2 loci_validate_of_bsn_pdu_rx_request_OF_VERSION_1_0"
  unfolding loci_validate_of_bsn_pdu_rx_request_OF_VERSION_1_0_def by (intro x_intro; simp add: x_proved x_ok_imp_kx_ok)

definition loci_validate_of_bsn_pdu_rx_timeout_OF_VERSION_1_0 :: validator where
  "loci_validate_of_bsn_pdu_rx_timeout_OF_VERSION_1_0 =
     v_min 19 (v_set_len 19 (v_wire_len 2 19 v_done))"

lemma loci_validate_of_bsn_pdu_rx_timeout_OF_VERSION_1_0_ok [v_proved]: "v_ok loci_validate_of_bsn_pdu_rx_timeout_OF_VERSION_1_0"
  unfolding loci_validate_of_bsn_pdu_rx_timeout_OF_VERSION_1_0_def by (intro v_intro; simp add: v_proved v_ok_imp_k_ok)

lemma loci_validate_of_bsn_pdu_rx_timeout_OF_VERSION_1_0_exact [x_proved]: "x_ok 2 loci_validate_of_bsn_pdu_rx_timeout_OF_VERSION_1_0"
  unfolding loci_validate_of_bsn_pdu_rx_timeout_OF_VERSION_1_0_def by (intro x_intro; simp add: x_proved x_ok_imp_kx_ok)

definition loci_validate_of_bsn_pdu_tx_reply_OF_VERSION_1_0 :: validator where
  "loci_validate_of_bsn_pdu_tx_reply_OF_VERSION_1_0 =
     v_min 23 (v_set_len 23 (v_wire_len 2 23 v_done))"

lemma loci_validate_of_bsn_pdu_tx_reply_OF_VERSION_1_0_ok [v_proved]: "v_ok loci_validate_of_bsn_pdu_tx_reply_OF_VERSION_1_0"
  unfolding loci_validate_of_bsn_pdu_tx_reply_OF_VERSION_1_0_def by (intro v_intro; simp add: v_proved v_ok_imp_k_ok)

lemma loci_validate_of_bsn_pdu_tx_reply_OF_VERSION_1_0_exact [x_proved]: "x_ok 2 loci_validate_of_bsn_pdu_tx_reply_OF_VERSION_1_0"
  unfolding loci_validate_of_bsn_pdu_tx_reply_OF_VERSION_1_0_def by (intro x_intro; simp add: x_proved x_ok_imp_kx_ok)

definition loci_validate_of_bsn_pdu_tx_request_OF_VERSION_1_0 :: validator where
  "loci_validate_of_bsn_pdu_tx_request_OF_VERSION_1_0 =
     v_min 26 (v_wire_len_set 2 26 v_done)"

lemma loci_validate_of_bsn_pdu_tx_request_OF_VERSION_1_0_ok [v_proved]: "v_ok loci_validate_of_bsn_pdu_tx_request_OF_VERSION_1_0"
  unfolding loci_validate_of_bsn_pdu_tx_request_OF_VERSION_1_0_def by (intro v_intro; simp add: v_proved v_ok_imp_k_ok)

lemma loci_validate_of_bsn_pdu_tx_request_OF_VERSION_1_0_exact [x_proved]: "x_ok 2 loci_validate_of_bsn_pdu_tx_request_OF_VERSION_1_0"
  unfolding loci_validate_of_bsn_pdu_tx_request_OF_VERSION_1_0_def by (intro x_intro; simp add: x_proved x_ok_imp_kx_ok)

definition loci_validate_of_bsn_set_ip_mask_OF_VERSION_1_0 :: validator where
  "loci_validate_of_bsn_set_ip_mask_OF_VERSION_1_0 =
     v_min 24 (v_set_len 24 (v_wire_len 2 24 v_done))"

lemma loci_validate_of_bsn_set_ip_mask_OF_VERSION_1_0_ok [v_proved]: "v_ok loci_validate_of_bsn_set_ip_mask_OF_VERSION_1_0"
  unfolding loci_validate_of_bsn_set_ip_mask_OF_VERSION_1_0_def by (intro v_intro; simp add: v_proved v_ok_imp_k_ok)

lemma loci_validate_of_bsn_set_ip_mask_OF_VERSION_1_0_exact [x_proved]: "x_ok 2 loci_validate_of_bsn_set_ip_mask_OF_VERSION_1_0"
  unfolding loci_validate_of_bsn_set_ip_mask_OF_VERSION_1_0_def by (intro x_intro; simp add: x_proved x_ok_imp_kx_ok)

definition loci_validate_of_bsn_set_l2_table_reply_OF_VERSION_1_0 :: validator where
  "loci_validate_of_bsn_set_l2_table_reply_OF_VERSION_1_0 =
     v_min 24 (v_set_len 24 (v_wire_len 2 24 v_done))"

lemma loci_validate_of_bsn_set_l2_table_reply_OF_VERSION_1_0_ok [v_proved]: "v_ok loci_validate_of_bsn_set_l2_table_reply_OF_VERSION_1_0"
  unfolding loci_validate_of_bsn_set_l2_table_reply_OF_VERSION_1_0_def by (intro v_intro; simp add: v_proved v_ok_imp_k_ok)

lemma loci_validate_of_bsn_set_l2_table_reply_OF_VERSION_1_0_exact [x_proved]: "x_ok 2 loci_validate_of_bsn_set_l2_table_reply_OF_VERSION_1_0"
  unfolding loci_validate_of_bsn_set_l2_table_reply_OF_VERSION_1_0_def by (intro x_intro; simp add: x_proved x_ok_imp_kx_ok)

definition loci_validate_of_bsn_set_l2_table_request_OF_VERSION_1_0 :: validator where
  "loci_validate_of_bsn_set_l2_table_request_OF_VERSION_1_0 =
     v_min 24 (v_set_len 24 (v_wire_len 2 24 v_done))"

lemma loci_validate_of_bsn_set_l2_table_request_OF_VERSION_1_0_ok [v_proved]: "v_ok loci_validate_of_bsn_set_l2_table_request_OF_VERSION_1_0"
  unfolding loci_validate_of_bsn_set_l2_table_request_OF_VERSION_1_0_def by (intro v_intro; simp add: v_proved v_ok_imp_k_ok)

lemma loci_validate_of_bsn_set_l2_table_request_OF_VERSION_1_0_exact [x_proved]: "x_ok 2 loci_validate_of_bsn_set_l2_table_request_OF_VERSION_1_0"
  unfolding loci_validate_of_bsn_set_l2_table_request_OF_VERSION_1_0_def by (intro x_intro; simp add: x_proved x_ok_imp_kx_ok)

definition loci_validate_of_bsn_set_mirroring_OF_VERSION_1_0 :: validator where
  "loci_validate_of_bsn_set_mirroring_OF_VERSION_1_0 =
     v_min 20 (v_set_len 20 (v_wire_len 2 20 v_done))"

lemma loci_validate_of_bsn_set_mirroring_OF_VERSION_1_0_ok [v_proved]: "v_ok loci_validate_of_bsn_set_mirroring_OF_VERSION_1_0"
  unfolding loci_validate_of_bsn_set_mirroring_OF_VERSION_1_0_def by (intro v_intro; simp add: v_proved v_ok_imp_k_ok)

lemma loci_validate_of_bsn_set_mirroring_OF_VERSION_1_0_exact [x_proved]: "x_ok 2 loci_validate_of_bsn_set_mirroring_OF_VERSION_1_0"
  unfolding loci_validate_of_bsn_set_mirroring_OF_VERSION_1_0_def by (intro x_intro; simp add: x_proved x_ok_imp_kx_ok)

definition loci_validate_of_bsn_set_pktin_suppression_reply_OF_VERSION_1_0 :: validator where
  "loci_validate_of_bsn_set_pktin_suppression_reply_OF_VERSION_1_0 =
     v_min 20 (v_set_len 20 (v_wire_len 2 20 v_done))"

lemma loci_validate_of_bsn_set_pktin_suppression_reply_OF_VERSION_1_0_ok [v_proved]: "v_ok loci_validate_of_bsn_set_pktin_suppression_reply_OF_VERSION_1_0"
  unfolding loci_validate_of_bsn_set_pktin_suppression_reply_OF_VERSION_1_0_def by (intro v_intro; simp add: v_proved v_ok_imp_k_ok)

lemma loci_validate_of_bsn_set_pktin_suppression_reply_OF_VERSION_1_0_exact [x_proved]: "x_ok 2 loci_validate_of_bsn_set_pktin_suppression_reply_OF_VERSION_1_0"
  unfolding loci_validate_of_bsn_set_pktin_suppression_reply_OF_VERSION_1_0_def by (intro x_intro; simp add: x_proved x_ok_imp_kx_ok)

definition loci_validate_of_bsn_set_pktin_suppression_request_OF_VERSION_1_0 :: validator where
  "loci_validate_of_bsn_set_pktin_suppression_request_OF_VERSION_1_0 =
     v_min 32 (v_set_len 32 (v_wire_len 2 32 v_done))"

lemma loci_validate_of_bsn_set_pktin_suppression_request_OF_VERSION_1_0_ok [v_proved]: "v_ok loci_validate_of_bsn_set_pktin_suppression_request_OF_VERSION_1_0"
  unfolding loci_validate_of_bsn_set_pktin_suppression_request_OF_VERSION_1_0_def by (intro v_intro; simp add: v_proved v_ok_imp_k_ok)

lemma loci_validate_of_bsn_set_pktin_suppression_request_OF_VERSION_1_0_exact [x_proved]: "x_ok 2 loci_validate_of_bsn_set_pktin_suppression_request_OF_VERSION_1_0"
  unfolding loci_validate_of_bsn_set_pktin_suppression_request_OF_VERSION_1_0_def by (intro x_intro; simp add: x_proved x_ok_imp_kx_ok)

definition loci_validate_of_bsn_shell_command_OF_VERSION_1_0 :: validator where
  "loci_validate_of_bsn_shell_command_OF_VERSION_1_0 =
     v_min 20 (v_wire_len_set 2 20 v_done)"

lemma loci_validate_of_bsn_shell_command_OF_VERSION_1_0_ok [v_proved]: "v_ok loci_validate_of_bsn_shell_command_OF_VERSION_1_0"
  unfolding loci_validate_of_bsn_shell_command_OF_VERSION_1_0_def by (intro v_intro; simp add: v_proved v_ok_imp_k_ok)

lemma loci_validate_of_bsn_shell_command_OF_VERSION_1_0_exact [x_proved]: "x_ok 2 loci_validate_of_bsn_shell_command_OF_VERSION_1_0"
  unfolding loci_validate_of_bsn_shell_command_OF_VERSION_1_0_def by (intro x_intro; simp add: x_proved x_ok_imp_kx_ok)

definition loci_validate_of_bsn_shell_output_OF_VERSION_1_0 :: validator where
  "loci_validate_of_bsn_shell_output_OF_VERSION_1_0 =
     v_min 16 (v_wire_len_set 2 16 v_done)"

lemma loci_validate_of_bsn_shell_output_OF_VERSION_1_0_ok [v_proved]: "v_ok loci_validate_of_bsn_shell_output_OF_VERSION_1_0"
  unfolding loci_validate_of_bsn_shell_output_OF_VERSION_1_0_def by (intro v_intro; simp add: v_proved v_ok_imp_k_ok)

lemma loci_validate_of_bsn_shell_output_OF_VERSION_1_0_exact [x_proved]: "x_ok 2 loci_validate_of_bsn_shell_output_OF_VERSION_1_0"
  unfolding loci_validate_of_bsn_shell_output_OF_VERSION_1_0_def by (intro x_intro; simp add: x_proved x_ok_imp_kx_ok)

definition loci_validate_of_bsn_shell_status_OF_VERSION_1_0 :: validator where
  "loci_validate_of_bsn_shell_status_OF_VERSION_1_0 =
     v_min 20 (v_set_len 20 (v_wire_len 2 20 v_done))"

lemma loci_validate_of_bsn_shell_status_OF_VERSION_1_0_ok [v_proved]: "v_ok loci_validate_of_bsn_shell_status_OF_VERSION_1_0"
  unfolding loci_validate_of_bsn_shell_status_OF_VERSION_1_0_def by (intro v_intro; simp add: v_proved v_ok_imp_k_ok)

lemma loci_validate_of_bsn_shell_status_OF_VERSION_1_0_exact [x_proved]: "x_ok 2 loci_validate_of_bsn_shell_status_OF_VERSION_1_0"
  unfolding loci_validate_of_bsn_shell_status_OF_VERSION_1_0_def by (intro x_intro; simp add: x_proved x_ok_imp_kx_ok)

definition loci_validate_of_bsn_virtual_port_create_reply_OF_VERSION_1_0 :: validator where
  "loci_validate_of_bsn_virtual_port_create_reply_OF_VERSION_1_0 =
     v_min 24 (v_set_len 24 (v_wire_len 2 24 v_done))"

lemma loci_validate_of_bsn_virtual_port_create_reply_OF_VERSION_1_0_ok [v_proved]: "v_ok loci_validate_of_bsn_virtual_port_create_reply_OF_VERSION_1_0"
  unfolding loci_validate_of_bsn_virtual_port_create_reply_OF_VERSION_1_0_def by (intro v_intro; simp add: v_proved v_ok_imp_k_ok)

lemma loci_validate_of_bsn_virtual_port_create_reply_OF_VERSION_1_0_exact [x_proved]: "x_ok 2 loci_validate_of_bsn_virtual_port_create_reply_OF_VERSION_1_0"
  unfolding loci_validate_of_bsn_virtual_port_create_reply_OF_VERSION_1_0_def by (intro x_intro; simp add: x_proved x_ok_imp_kx_ok)

definition loci_validate_of_bsn_virtual_port_create_request_OF_VERSION_1_0 :: validator where
  "loci_validate_of_bsn_virtual_port_create_request_OF_VERSION_1_0 =
     v_min 20 (v_wire_len_set 2 20 v_done)"

lemma loci_validate_of_bsn_virtual_port_create_request_OF_VERSION_1_0_ok [v_proved]: "v_ok loci_validate_of_bsn_virtual_port_create_request_OF_VERSION_1_0"
  unfolding loci_validate_of_bsn_virtual_port_create_request_OF_VERSION_1_0_def by (intro v_intro; simp add: v_proved v_ok_imp_k_ok)

lemma loci_validate_of_bsn_virtual_port_create_request_OF_VERSION_1_0_exact [x_proved]: "x_ok 2 loci_validate_of_bsn_virtual_port_create_request_OF_VERSION_1_0"
  unfolding loci_validate_of_bsn_virtual_port_create_request_OF_VERSION_1_0_def by (intro x_intro; simp add: x_proved x_ok_imp_kx_ok)

definition loci_validate_of_bsn_virtual_port_remove_reply_OF_VERSION_1_0 :: validator where
  "loci_validate_of_bsn_virtual_port_remove_reply_OF_VERSION_1_0 =
     v_min 20 (v_set_len 20 (v_wire_len 2 20 v_done))"

lemma loci_validate_of_bsn_virtual_port_remove_reply_OF_VERSION_1_0_ok [v_proved]: "v_ok loci_validate_of_bsn_virtual_port_remove_reply_OF_VERSION_1_0"
  unfolding loci_validate_of_bsn_virtual_port_remove_reply_OF_VERSION_1_0_def by (intro v_intro; simp add: v_proved v_ok_imp_k_ok)

lemma loci_validate_of_bsn_virtual_port_remove_reply_OF_VERSION_1_0_exact [x_proved]: "x_ok 2 loci_validate_of_bsn_virtual_port_remove_reply_OF_VERSION_1_0"
  unfolding loci_validate_of_bsn_virtual_port_remove_reply_OF_VERSION_1_0_def by (intro x_intro; simp add: x_proved x_ok_imp_kx_ok)

definition loci_validate_of_bsn_virtual_port_remove_request_OF_VERSION_1_0 :: validator where
  "loci_validate_of_bsn_virtual_port_remove_request_OF_VERSION_1_0 =
     v_min 20 (v_set_len 20 (v_wire_len 2 20 v_done))"

lemma loci_validate_of_bsn_virtual_port_remove_request_OF_VERSION_1_0_ok [v_proved]: "v_ok loci_validate_of_bsn_virtual_port_remove_request_OF_VERSION_1_0"
  unfolding loci_validate_of_bsn_virtual_port_remove_request_OF_VERSION_1_0_def by (intro v_intro; simp add: v_proved v_ok_imp_k_ok)

lemma loci_validate_of_bsn_virtual_port_remove_request_OF_VERSION_1_0_exact [x_proved]: "x_ok 2 loci_validate_of_bsn_virtual_port_remove_request_OF_VERSION_1_0"
  unfolding loci_validate_of_bsn_virtual_port_remove_request_OF_VERSION_1_0_def by (intro x_intro; simp add: x_proved x_ok_imp_kx_ok)

definition loci_validate_of_bsn_header_OF_VERSION_1_0 :: validator where
  "loci_validate_of_bsn_header_OF_VERSION_1_0 =
     v_min 16 (v_wire_len_set 2 16
     (v_switch32 12
      [(0x16, loci_validate_of_bsn_bw_clear_data_reply_OF_VERSION_1_0),
       (0x15, loci_validate_of_bsn_bw_clear_data_request_OF_VERSION_1_0),
       (0x14, loci_validate_of_bsn_bw_enable_get_reply_OF_VERSION_1_0),
       (0x13, loci_validate_of_bsn_bw_enable_get_request_OF_VERSION_1_0),
       (0x17, loci_validate_of_bsn_bw_enable_set_reply_OF_VERSION_1_0),
       (0x12, loci_validate_of_bsn_bw_enable_set_request_OF_VERSION_1_0),
       (0xa, loci_validate_of_bsn_get_interfaces_reply_OF_VERSION_1_0),
       (9, loci_validate_of_bsn_get_interfaces_request_OF_VERSION_1_0),
       (2, loci_validate_of_bsn_get_ip_mask_reply_OF_VERSION_1_0),
       (1, loci_validate_of_bsn_get_ip_mask_request_OF_VERSION_1_0),
       (0xe, loci_validate_of_bsn_get_l2_table_reply_OF_VERSION_1_0),
       (0xd, loci_validate_of_bsn_get_l2_table_request_OF_VERSION_1_0),
       (5, loci_validate_of_bsn_get_mirroring_reply_OF_VERSION_1_0),
       (4, loci_validate_of_bsn_get_mirroring_request_OF_VERSION_1_0),
       (0x1c, loci_validate_of_bsn_hybrid_get_reply_OF_VERSION_1_0),
       (0x1b, loci_validate_of_bsn_hybrid_get_request_OF_VERSION_1_0),
       (0x22, loci_validate_of_bsn_pdu_rx_reply_OF_VERSION_1_0),
       (0x21, loci_validate_of_bsn_pdu_rx_request_OF_VERSION_1_0),
       (0x23, loci_validate_of_bsn_pdu_rx_timeout_OF_VERSION_1_0),
       (0x20, loci_validate_of_bsn_pdu_tx_reply_OF_VERSION_1_0),
       (0x1f, loci_validate_of_bsn_pdu_tx_request_OF_VERSION_1_0),
       (0, loci_validate_of_bsn_set_ip_mask_OF_VERSION_1_0),
       (0x18, loci_validate_of_bsn_set_l2_table_reply_OF_VERSION_1_0),
       (0xc, loci_validate_of_bsn_set_l2_table_request_OF_VERSION_1_0),
       (3, loci_validate_of_bsn_set_mirroring_OF_VERSION_1_0),
       (0x19, loci_validate_of_bsn_set_pktin_suppression_reply_OF_VERSION_1_0),
       (0xb, loci_validate_of_bsn_set_pktin_suppression_request_OF_VERSION_1_0),
       (6, loci_validate_of_bsn_shell_command_OF_VERSION_1_0),
       (7, loci_validate_of_bsn_shell_output_OF_VERSION_1_0),
       (8, loci_validate_of_bsn_shell_status_OF_VERSION_1_0),
       (0x10, loci_validate_of_bsn_virtual_port_create_reply_OF_VERSION_1_0),
       (0xf, loci_validate_of_bsn_virtual_port_create_request_OF_VERSION_1_0),
       (0x1a, loci_validate_of_bsn_virtual_port_remove_reply_OF_VERSION_1_0),
       (0x11, loci_validate_of_bsn_virtual_port_remove_request_OF_VERSION_1_0)]
     v_done))"

lemma loci_validate_of_bsn_header_OF_VERSION_1_0_ok [v_proved]: "v_ok loci_validate_of_bsn_header_OF_VERSION_1_0"
  unfolding loci_validate_of_bsn_header_OF_VERSION_1_0_def by (intro v_intro; simp add: v_proved v_ok_imp_k_ok)

lemma loci_validate_of_bsn_header_OF_VERSION_1_0_exact [x_proved]: "x_ok 2 loci_validate_of_bsn_header_OF_VERSION_1_0"
  unfolding loci_validate_of_bsn_header_OF_VERSION_1_0_def by (intro x_intro; simp add: x_proved x_ok_imp_kx_ok)

definition loci_validate_of_nicira_controller_role_reply_OF_VERSION_1_0 :: validator where
  "loci_validate_of_nicira_controller_role_reply_OF_VERSION_1_0 =
     v_min 20 (v_set_len 20 (v_wire_len 2 20 v_done))"

lemma loci_validate_of_nicira_controller_role_reply_OF_VERSION_1_0_ok [v_proved]: "v_ok loci_validate_of_nicira_controller_role_reply_OF_VERSION_1_0"
  unfolding loci_validate_of_nicira_controller_role_reply_OF_VERSION_1_0_def by (intro v_intro; simp add: v_proved v_ok_imp_k_ok)

lemma loci_validate_of_nicira_controller_role_reply_OF_VERSION_1_0_exact [x_proved]: "x_ok 2 loci_validate_of_nicira_controller_role_reply_OF_VERSION_1_0"
  unfolding loci_validate_of_nicira_controller_role_reply_OF_VERSION_1_0_def by (intro x_intro; simp add: x_proved x_ok_imp_kx_ok)

definition loci_validate_of_nicira_controller_role_request_OF_VERSION_1_0 :: validator where
  "loci_validate_of_nicira_controller_role_request_OF_VERSION_1_0 =
     v_min 20 (v_set_len 20 (v_wire_len 2 20 v_done))"

lemma loci_validate_of_nicira_controller_role_request_OF_VERSION_1_0_ok [v_proved]: "v_ok loci_validate_of_nicira_controller_role_request_OF_VERSION_1_0"
  unfolding loci_validate_of_nicira_controller_role_request_OF_VERSION_1_0_def by (intro v_intro; simp add: v_proved v_ok_imp_k_ok)

lemma loci_validate_of_nicira_controller_role_request_OF_VERSION_1_0_exact [x_proved]: "x_ok 2 loci_validate_of_nicira_controller_role_request_OF_VERSION_1_0"
  unfolding loci_validate_of_nicira_controller_role_request_OF_VERSION_1_0_def by (intro x_intro; simp add: x_proved x_ok_imp_kx_ok)

definition loci_validate_of_nicira_header_OF_VERSION_1_0 :: validator where
  "loci_validate_of_nicira_header_OF_VERSION_1_0 =
     v_min 16 (v_wire_len_set 2 16
     (v_switch32 12
      [(0xb, loci_validate_of_nicira_controller_role_reply_OF_VERSION_1_0),
       (0xa, loci_validate_of_nicira_controller_role_request_OF_VERSION_1_0)]
     v_done))"

lemma loci_validate_of_nicira_header_OF_VERSION_1_0_ok [v_proved]: "v_ok loci_validate_of_nicira_header_OF_VERSION_1_0"
  unfolding loci_validate_of_nicira_header_OF_VERSION_1_0_def by (intro v_intro; simp add: v_proved v_ok_imp_k_ok)

lemma loci_validate_of_nicira_header_OF_VERSION_1_0_exact [x_proved]: "x_ok 2 loci_validate_of_nicira_header_OF_VERSION_1_0"
  unfolding loci_validate_of_nicira_header_OF_VERSION_1_0_def by (intro x_intro; simp add: x_proved x_ok_imp_kx_ok)

definition loci_validate_of_experimenter_OF_VERSION_1_0 :: validator where
  "loci_validate_of_experimenter_OF_VERSION_1_0 =
     v_min 12 (v_wire_len_set 2 12
     (v_switch32 8
      [(0x5c16c7, loci_validate_of_bsn_header_OF_VERSION_1_0),
       (0x2320, loci_validate_of_nicira_header_OF_VERSION_1_0)]
     v_done))"

lemma loci_validate_of_experimenter_OF_VERSION_1_0_ok [v_proved]: "v_ok loci_validate_of_experimenter_OF_VERSION_1_0"
  unfolding loci_validate_of_experimenter_OF_VERSION_1_0_def by (intro v_intro; simp add: v_proved v_ok_imp_k_ok)

lemma loci_validate_of_experimenter_OF_VERSION_1_0_exact [x_proved]: "x_ok 2 loci_validate_of_experimenter_OF_VERSION_1_0"
  unfolding loci_validate_of_experimenter_OF_VERSION_1_0_def by (intro x_intro; simp add: x_proved x_ok_imp_kx_ok)

definition loci_validate_of_echo_reply_OF_VERSION_1_0 :: validator where
  "loci_validate_of_echo_reply_OF_VERSION_1_0 =
     v_min 8 (v_wire_len_set 2 8 v_done)"

lemma loci_validate_of_echo_reply_OF_VERSION_1_0_ok [v_proved]: "v_ok loci_validate_of_echo_reply_OF_VERSION_1_0"
  unfolding loci_validate_of_echo_reply_OF_VERSION_1_0_def by (intro v_intro; simp add: v_proved v_ok_imp_k_ok)

lemma loci_validate_of_echo_reply_OF_VERSION_1_0_exact [x_proved]: "x_ok 2 loci_validate_of_echo_reply_OF_VERSION_1_0"
  unfolding loci_validate_of_echo_reply_OF_VERSION_1_0_def by (intro x_intro; simp add: x_proved x_ok_imp_kx_ok)

definition loci_validate_of_echo_request_OF_VERSION_1_0 :: validator where
  "loci_validate_of_echo_request_OF_VERSION_1_0 =
     v_min 8 (v_wire_len_set 2 8 v_done)"

lemma loci_validate_of_echo_request_OF_VERSION_1_0_ok [v_proved]: "v_ok loci_validate_of_echo_request_OF_VERSION_1_0"
  unfolding loci_validate_of_echo_request_OF_VERSION_1_0_def by (intro v_intro; simp add: v_proved v_ok_imp_k_ok)

lemma loci_validate_of_echo_request_OF_VERSION_1_0_exact [x_proved]: "x_ok 2 loci_validate_of_echo_request_OF_VERSION_1_0"
  unfolding loci_validate_of_echo_request_OF_VERSION_1_0_def by (intro x_intro; simp add: x_proved x_ok_imp_kx_ok)

definition loci_validate_of_features_reply_OF_VERSION_1_0 :: validator where
  "loci_validate_of_features_reply_OF_VERSION_1_0 =
     v_min 32 (v_wire_len_set 2 32
     (v_list_rest 32 loci_validate_of_list_port_desc_OF_VERSION_1_0 v_done))"

lemma loci_validate_of_features_reply_OF_VERSION_1_0_ok [v_proved]: "v_ok loci_validate_of_features_reply_OF_VERSION_1_0"
  unfolding loci_validate_of_features_reply_OF_VERSION_1_0_def by (intro v_intro; simp add: v_proved v_ok_imp_k_ok)

lemma loci_validate_of_features_reply_OF_VERSION_1_0_exact [x_proved]: "x_ok 2 loci_validate_of_features_reply_OF_VERSION_1_0"
  unfolding loci_validate_of_features_reply_OF_VERSION_1_0_def by (intro x_intro; simp add: x_proved x_ok_imp_kx_ok)

definition loci_validate_of_features_request_OF_VERSION_1_0 :: validator where
  "loci_validate_of_features_request_OF_VERSION_1_0 =
     v_min 8 (v_set_len 8 (v_wire_len 2 8 v_done))"

lemma loci_validate_of_features_request_OF_VERSION_1_0_ok [v_proved]: "v_ok loci_validate_of_features_request_OF_VERSION_1_0"
  unfolding loci_validate_of_features_request_OF_VERSION_1_0_def by (intro v_intro; simp add: v_proved v_ok_imp_k_ok)

lemma loci_validate_of_features_request_OF_VERSION_1_0_exact [x_proved]: "x_ok 2 loci_validate_of_features_request_OF_VERSION_1_0"
  unfolding loci_validate_of_features_request_OF_VERSION_1_0_def by (intro x_intro; simp add: x_proved x_ok_imp_kx_ok)

definition loci_validate_of_flow_add_OF_VERSION_1_0 :: validator where
  "loci_validate_of_flow_add_OF_VERSION_1_0 =
     v_min 72 (v_wire_len_set 2 72
     (v_list_rest 72 loci_validate_of_list_action_OF_VERSION_1_0 v_done))"

lemma loci_validate_of_flow_add_OF_VERSION_1_0_ok [v_proved]: "v_ok loci_validate_of_flow_add_OF_VERSION_1_0"
  unfolding loci_validate_of_flow_add_OF_VERSION_1_0_def by (intro v_intro; simp add: v_proved v_ok_imp_k_ok)

lemma loci_validate_of_flow_add_OF_VERSION_1_0_exact [x_proved]: "x_ok 2 loci_validate_of_flow_add_OF_VERSION_1_0"
  unfolding loci_validate_of_flow_add_OF_VERSION_1_0_def by (intro x_intro; simp add: x_proved x_ok_imp_kx_ok)

definition loci_validate_of_flow_delete_OF_VERSION_1_0 :: validator where
  "loci_validate_of_flow_delete_OF_VERSION_1_0 =
     v_min 72 (v_wire_len_set 2 72
     (v_list_rest 72 loci_validate_of_list_action_OF_VERSION_1_0 v_done))"

lemma loci_validate_of_flow_delete_OF_VERSION_1_0_ok [v_proved]: "v_ok loci_validate_of_flow_delete_OF_VERSION_1_0"
  unfolding loci_validate_of_flow_delete_OF_VERSION_1_0_def by (intro v_intro; simp add: v_proved v_ok_imp_k_ok)

lemma loci_validate_of_flow_delete_OF_VERSION_1_0_exact [x_proved]: "x_ok 2 loci_validate_of_flow_delete_OF_VERSION_1_0"
  unfolding loci_validate_of_flow_delete_OF_VERSION_1_0_def by (intro x_intro; simp add: x_proved x_ok_imp_kx_ok)

definition loci_validate_of_flow_delete_strict_OF_VERSION_1_0 :: validator where
  "loci_validate_of_flow_delete_strict_OF_VERSION_1_0 =
     v_min 72 (v_wire_len_set 2 72
     (v_list_rest 72 loci_validate_of_list_action_OF_VERSION_1_0 v_done))"

lemma loci_validate_of_flow_delete_strict_OF_VERSION_1_0_ok [v_proved]: "v_ok loci_validate_of_flow_delete_strict_OF_VERSION_1_0"
  unfolding loci_validate_of_flow_delete_strict_OF_VERSION_1_0_def by (intro v_intro; simp add: v_proved v_ok_imp_k_ok)

lemma loci_validate_of_flow_delete_strict_OF_VERSION_1_0_exact [x_proved]: "x_ok 2 loci_validate_of_flow_delete_strict_OF_VERSION_1_0"
  unfolding loci_validate_of_flow_delete_strict_OF_VERSION_1_0_def by (intro x_intro; simp add: x_proved x_ok_imp_kx_ok)

definition loci_validate_of_flow_modify_OF_VERSION_1_0 :: validator where
  "loci_validate_of_flow_modify_OF_VERSION_1_0 =
     v_min 72 (v_wire_len_set 2 72
     (v_list_rest 72 loci_validate_of_list_action_OF_VERSION_1_0 v_done))"

lemma loci_validate_of_flow_modify_OF_VERSION_1_0_ok [v_proved]: "v_ok loci_validate_of_flow_modify_OF_VERSION_1_0"
  unfolding loci_validate_of_flow_modify_OF_VERSION_1_0_def by (intro v_intro; simp add: v_proved v_ok_imp_k_ok)

lemma loci_validate_of_flow_modify_OF_VERSION_1_0_exact [x_proved]: "x_ok 2 loci_validate_of_flow_modify_OF_VERSION_1_0"
  unfolding loci_validate_of_flow_modify_OF_VERSION_1_0_def by (intro x_intro; simp add: x_proved x_ok_imp_kx_ok)

definition loci_validate_of_flow_modify_strict_OF_VERSION_1_0 :: validator where
  "loci_validate_of_flow_modify_strict_OF_VERSION_1_0 =
     v_min 72 (v_wire_len_set 2 72
     (v_list_rest 72 loci_validate_of_list_action_OF_VERSION_1_0 v_done))"

lemma loci_validate_of_flow_modify_strict_OF_VERSION_1_0_ok [v_proved]: "v_ok loci_validate_of_flow_modify_strict_OF_VERSION_1_0"
  unfolding loci_validate_of_flow_modify_strict_OF_VERSION_1_0_def by (intro v_intro; simp add: v_proved v_ok_imp_k_ok)

lemma loci_validate_of_flow_modify_strict_OF_VERSION_1_0_exact [x_proved]: "x_ok 2 loci_validate_of_flow_modify_strict_OF_VERSION_1_0"
  unfolding loci_validate_of_flow_modify_strict_OF_VERSION_1_0_def by (intro x_intro; simp add: x_proved x_ok_imp_kx_ok)

definition loci_validate_of_flow_mod_OF_VERSION_1_0 :: validator where
  "loci_validate_of_flow_mod_OF_VERSION_1_0 =
     v_min 72 (v_wire_len_set 2 72
     (v_switch16 56
      [(0, loci_validate_of_flow_add_OF_VERSION_1_0),
       (3, loci_validate_of_flow_delete_OF_VERSION_1_0),
       (4, loci_validate_of_flow_delete_strict_OF_VERSION_1_0),
       (1, loci_validate_of_flow_modify_OF_VERSION_1_0),
       (2, loci_validate_of_flow_modify_strict_OF_VERSION_1_0)]
     (v_list_rest 72 loci_validate_of_list_action_OF_VERSION_1_0 v_done)))"

lemma loci_validate_of_flow_mod_OF_VERSION_1_0_ok [v_proved]: "v_ok loci_validate_of_flow_mod_OF_VERSION_1_0"
  unfolding loci_validate_of_flow_mod_OF_VERSION_1_0_def by (intro v_intro; simp add: v_proved v_ok_imp_k_ok)

lemma loci_validate_of_flow_mod_OF_VERSION_1_0_exact [x_proved]: "x_ok 2 loci_validate_of_flow_mod_OF_VERSION_1_0"
  unfolding loci_validate_of_flow_mod_OF_VERSION_1_0_def by (intro x_intro; simp add: x_proved x_ok_imp_kx_ok)

definition loci_validate_of_flow_removed_OF_VERSION_1_0 :: validator where
  "loci_validate_of_flow_removed_OF_VERSION_1_0 =
     v_min 88 (v_set_len 88 (v_wire_len 2 88 v_done))"

lemma loci_validate_of_flow_removed_OF_VERSION_1_0_ok [v_proved]: "v_ok loci_validate_of_flow_removed_OF_VERSION_1_0"
  unfolding loci_validate_of_flow_removed_OF_VERSION_1_0_def by (intro v_intro; simp add: v_proved v_ok_imp_k_ok)

lemma loci_validate_of_flow_removed_OF_VERSION_1_0_exact [x_proved]: "x_ok 2 loci_validate_of_flow_removed_OF_VERSION_1_0"
  unfolding loci_validate_of_flow_removed_OF_VERSION_1_0_def by (intro x_intro; simp add: x_proved x_ok_imp_kx_ok)

definition loci_validate_of_get_config_reply_OF_VERSION_1_0 :: validator where
  "loci_validate_of_get_config_reply_OF_VERSION_1_0 =
     v_min 12 (v_set_len 12 (v_wire_len 2 12 v_done))"

lemma loci_validate_of_get_config_reply_OF_VERSION_1_0_ok [v_proved]: "v_ok loci_validate_of_get_config_reply_OF_VERSION_1_0"
  unfolding loci_validate_of_get_config_reply_OF_VERSION_1_0_def by (intro v_intro; simp add: v_proved v_ok_imp_k_ok)

lemma loci_validate_of_get_config_reply_OF_VERSION_1_0_exact [x_proved]: "x_ok 2 loci_validate_of_get_config_reply_OF_VERSION_1_0"
  unfolding loci_validate_of_get_config_reply_OF_VERSION_1_0_def by (intro x_intro; simp add: x_proved x_ok_imp_kx_ok)

definition loci_validate_of_get_config_request_OF_VERSION_1_0 :: validator where
  "loci_validate_of_get_config_request_OF_VERSION_1_0 =
     v_min 8 (v_set_len 8 (v_wire_len 2 8 v_done))"

lemma loci_validate_of_get_config_request_OF_VERSION_1_0_ok [v_proved]: "v_ok loci_validate_of_get_config_request_OF_VERSION_1_0"
  unfolding loci_validate_of_get_config_request_OF_VERSION_1_0_def by (intro v_intro; simp add: v_proved v_ok_imp_k_ok)

lemma loci_validate_of_get_config_request_OF_VERSION_1_0_exact [x_proved]: "x_ok 2 loci_validate_of_get_config_request_OF_VERSION_1_0"
  unfolding loci_validate_of_get_config_request_OF_VERSION_1_0_def by (intro x_intro; simp add: x_proved x_ok_imp_kx_ok)

definition loci_validate_of_hello_OF_VERSION_1_0 :: validator where
  "loci_validate_of_hello_OF_VERSION_1_0 =
     v_min 8 (v_set_len 8 (v_wire_len 2 8 v_done))"

lemma loci_validate_of_hello_OF_VERSION_1_0_ok [v_proved]: "v_ok loci_validate_of_hello_OF_VERSION_1_0"
  unfolding loci_validate_of_hello_OF_VERSION_1_0_def by (intro v_intro; simp add: v_proved v_ok_imp_k_ok)

lemma loci_validate_of_hello_OF_VERSION_1_0_exact [x_proved]: "x_ok 2 loci_validate_of_hello_OF_VERSION_1_0"
  unfolding loci_validate_of_hello_OF_VERSION_1_0_def by (intro x_intro; simp add: x_proved x_ok_imp_kx_ok)

definition loci_validate_of_packet_in_OF_VERSION_1_0 :: validator where
  "loci_validate_of_packet_in_OF_VERSION_1_0 =
     v_min 18 (v_wire_len_set 2 18 v_done)"

lemma loci_validate_of_packet_in_OF_VERSION_1_0_ok [v_proved]: "v_ok loci_validate_of_packet_in_OF_VERSION_1_0"
  unfolding loci_validate_of_packet_in_OF_VERSION_1_0_def by (intro v_intro; simp add: v_proved v_ok_imp_k_ok)

lemma loci_validate_of_packet_in_OF_VERSION_1_0_exact [x_proved]: "x_ok 2 loci_validate_of_packet_in_OF_VERSION_1_0"
  unfolding loci_validate_of_packet_in_OF_VERSION_1_0_def by (intro x_intro; simp add: x_proved x_ok_imp_kx_ok)

definition loci_validate_of_packet_out_OF_VERSION_1_0 :: validator where
  "loci_validate_of_packet_out_OF_VERSION_1_0 =
     v_min 16 (v_wire_len_set 2 16
     (v_list_len16 14 16 loci_validate_of_list_action_OF_VERSION_1_0 v_done))"

lemma loci_validate_of_packet_out_OF_VERSION_1_0_ok [v_proved]: "v_ok loci_validate_of_packet_out_OF_VERSION_1_0"
  unfolding loci_validate_of_packet_out_OF_VERSION_1_0_def by (intro v_intro; simp add: v_proved v_ok_imp_k_ok)

lemma loci_validate_of_packet_out_OF_VERSION_1_0_exact [x_proved]: "x_ok 2 loci_validate_of_packet_out_OF_VERSION_1_0"
  unfolding loci_validate_of_packet_out_OF_VERSION_1_0_def by (intro x_intro; simp add: x_proved x_ok_imp_kx_ok)

definition loci_validate_of_port_mod_OF_VERSION_1_0 :: validator where
  "loci_validate_of_port_mod_OF_VERSION_1_0 =
     v_min 32 (v_set_len 32 (v_wire_len 2 32 v_done))"

lemma loci_validate_of_port_mod_OF_VERSION_1_0_ok [v_proved]: "v_ok loci_validate_of_port_mod_OF_VERSION_1_0"
  unfolding loci_validate_of_port_mod_OF_VERSION_1_0_def by (intro v_intro; simp add: v_proved v_ok_imp_k_ok)

lemma loci_validate_of_port_mod_OF_VERSION_1_0_exact [x_proved]: "x_ok 2 loci_validate_of_port_mod_OF_VERSION_1_0"
  unfolding loci_validate_of_port_mod_OF_VERSION_1_0_def by (intro x_intro; simp add: x_proved x_ok_imp_kx_ok)

definition loci_validate_of_port_status_OF_VERSION_1_0 :: validator where
  "loci_validate_of_port_status_OF_VERSION_1_0 =
     v_min 64 (v_set_len 64 (v_wire_len 2 64 v_done))"

lemma loci_validate_of_port_status_OF_VERSION_1_0_ok [v_proved]: "v_ok loci_validate_of_port_status_OF_VERSION_1_0"
  unfolding loci_validate_of_port_status_OF_VERSION_1_0_def by (intro v_intro; simp add: v_proved v_ok_imp_k_ok)

lemma loci_validate_of_port_status_OF_VERSION_1_0_exact [x_proved]: "x_ok 2 loci_validate_of_port_status_OF_VERSION_1_0"
  unfolding loci_validate_of_port_status_OF_VERSION_1_0_def by (intro x_intro; simp add: x_proved x_ok_imp_kx_ok)

definition loci_validate_of_queue_get_config_reply_OF_VERSION_1_0 :: validator where
  "loci_validate_of_queue_get_config_reply_OF_VERSION_1_0 =
     v_min 16 (v_wire_len_set 2 16
     (v_list_rest 16 loci_validate_of_list_packet_queue_OF_VERSION_1_0 v_done))"

lemma loci_validate_of_queue_get_config_reply_OF_VERSION_1_0_ok [v_proved]: "v_ok loci_validate_of_queue_get_config_reply_OF_VERSION_1_0"
  unfolding loci_validate_of_queue_get_config_reply_OF_VERSION_1_0_def by (intro v_intro; simp add: v_proved v_ok_imp_k_ok)

lemma loci_validate_of_queue_get_config_reply_OF_VERSION_1_0_exact [x_proved]: "x_ok 2 loci_validate_of_queue_get_config_reply_OF_VERSION_1_0"
  unfolding loci_validate_of_queue_get_config_reply_OF_VERSION_1_0_def by (intro x_intro; simp add: x_proved x_ok_imp_kx_ok)

definition loci_validate_of_queue_get_config_request_OF_VERSION_1_0 :: validator where
  "loci_validate_of_queue_get_config_request_OF_VERSION_1_0 =
     v_min 12 (v_set_len 12 (v_wire_len 2 12 v_done))"

lemma loci_validate_of_queue_get_config_request_OF_VERSION_1_0_ok [v_proved]: "v_ok loci_validate_of_queue_get_config_request_OF_VERSION_1_0"
  unfolding loci_validate_of_queue_get_config_request_OF_VERSION_1_0_def by (intro v_intro; simp add: v_proved v_ok_imp_k_ok)

lemma loci_validate_of_queue_get_config_request_OF_VERSION_1_0_exact [x_proved]: "x_ok 2 loci_validate_of_queue_get_config_request_OF_VERSION_1_0"
  unfolding loci_validate_of_queue_get_config_request_OF_VERSION_1_0_def by (intro x_intro; simp add: x_proved x_ok_imp_kx_ok)

definition loci_validate_of_set_config_OF_VERSION_1_0 :: validator where
  "loci_validate_of_set_config_OF_VERSION_1_0 =
     v_min 12 (v_set_len 12 (v_wire_len 2 12 v_done))"

lemma loci_validate_of_set_config_OF_VERSION_1_0_ok [v_proved]: "v_ok loci_validate_of_set_config_OF_VERSION_1_0"
  unfolding loci_validate_of_set_config_OF_VERSION_1_0_def by (intro v_intro; simp add: v_proved v_ok_imp_k_ok)

lemma loci_validate_of_set_config_OF_VERSION_1_0_exact [x_proved]: "x_ok 2 loci_validate_of_set_config_OF_VERSION_1_0"
  unfolding loci_validate_of_set_config_OF_VERSION_1_0_def by (intro x_intro; simp add: x_proved x_ok_imp_kx_ok)

definition loci_validate_of_table_mod_OF_VERSION_1_0 :: validator where
  "loci_validate_of_table_mod_OF_VERSION_1_0 =
     v_min 16 (v_set_len 16 (v_wire_len 2 16 v_done))"

lemma loci_validate_of_table_mod_OF_VERSION_1_0_ok [v_proved]: "v_ok loci_validate_of_table_mod_OF_VERSION_1_0"
  unfolding loci_validate_of_table_mod_OF_VERSION_1_0_def by (intro v_intro; simp add: v_proved v_ok_imp_k_ok)

lemma loci_validate_of_table_mod_OF_VERSION_1_0_exact [x_proved]: "x_ok 2 loci_validate_of_table_mod_OF_VERSION_1_0"
  unfolding loci_validate_of_table_mod_OF_VERSION_1_0_def by (intro x_intro; simp add: x_proved x_ok_imp_kx_ok)

definition loci_validate_of_header_OF_VERSION_1_0 :: validator where
  "loci_validate_of_header_OF_VERSION_1_0 =
     v_min 8 (v_wire_len_set 2 8
     (v_switch8 1
      [(0x11, loci_validate_of_stats_reply_OF_VERSION_1_0),
       (0x10, loci_validate_of_stats_request_OF_VERSION_1_0),
       (1, loci_validate_of_error_msg_OF_VERSION_1_0),
       (0x13, loci_validate_of_barrier_reply_OF_VERSION_1_0),
       (0x12, loci_validate_of_barrier_request_OF_VERSION_1_0),
       (4, loci_validate_of_experimenter_OF_VERSION_1_0),
       (3, loci_validate_of_echo_reply_OF_VERSION_1_0),
       (2, loci_validate_of_echo_request_OF_VERSION_1_0),
       (6, loci_validate_of_features_reply_OF_VERSION_1_0),
       (5, loci_validate_of_features_request_OF_VERSION_1_0),
       (0xe, loci_validate_of_flow_mod_OF_VERSION_1_0),
       (0xb, loci_validate_of_flow_removed_OF_VERSION_1_0),
       (8, loci_validate_of_get_config_reply_OF_VERSION_1_0),
       (7, loci_validate_of_get_config_request_OF_VERSION_1_0),
       (0, loci_validate_of_hello_OF_VERSION_1_0),
       (0xa, loci_validate_of_packet_in_OF_VERSION_1_0),
       (0xd, loci_validate_of_packet_out_OF_VERSION_1_0),
       (0xf, loci_validate_of_port_mod_OF_VERSION_1_0),
       (0xc, loci_validate_of_port_status_OF_VERSION_1_0),
       (0x15, loci_validate_of_queue_get_config_reply_OF_VERSION_1_0),
       (0x14, loci_validate_of_queue_get_config_request_OF_VERSION_1_0),
       (9, loci_validate_of_set_config_OF_VERSION_1_0),
       (0x16, loci_validate_of_table_mod_OF_VERSION_1_0)]
     v_done))"

lemma loci_validate_of_header_OF_VERSION_1_0_ok [v_proved]: "v_ok loci_validate_of_header_OF_VERSION_1_0"
  unfolding loci_validate_of_header_OF_VERSION_1_0_def by (intro v_intro; simp add: v_proved v_ok_imp_k_ok)

lemma loci_validate_of_header_OF_VERSION_1_0_exact [x_proved]: "x_ok 2 loci_validate_of_header_OF_VERSION_1_0"
  unfolding loci_validate_of_header_OF_VERSION_1_0_def by (intro x_intro; simp add: x_proved x_ok_imp_kx_ok)

definition loci_validate_of_bsn_vport_l2gre_OF_VERSION_1_0 :: validator where
  "loci_validate_of_bsn_vport_l2gre_OF_VERSION_1_0 =
     v_min 60 (v_set_len 60 (v_wire_len 2 60 v_done))"

lemma loci_validate_of_bsn_vport_l2gre_OF_VERSION_1_0_ok [v_proved]: "v_ok loci_validate_of_bsn_vport_l2gre_OF_VERSION_1_0"
  unfolding loci_validate_of_bsn_vport_l2gre_OF_VERSION_1_0_def by (intro v_intro; simp add: v_proved v_ok_imp_k_ok)

lemma loci_validate_of_bsn_vport_l2gre_OF_VERSION_1_0_exact [x_proved]: "x_ok 2 loci_validate_of_bsn_vport_l2gre_OF_VERSION_1_0"
  unfolding loci_validate_of_bsn_vport_l2gre_OF_VERSION_1_0_def by (intro x_intro; simp add: x_proved x_ok_imp_kx_ok)

definition loci_validate_of_bsn_vport_q_in_q_OF_VERSION_1_0 :: validator where
  "loci_validate_of_bsn_vport_q_in_q_OF_VERSION_1_0 =
     v_min 32 (v_set_len 32 (v_wire_len 2 32 v_done))"

lemma loci_validate_of_bsn_vport_q_in_q_OF_VERSION_1_0_ok [v_proved]: "v_ok loci_validate_of_bsn_vport_q_in_q_OF_VERSION_1_0"
  unfolding loci_validate_of_bsn_vport_q_in_q_OF_VERSION_1_0_def by (intro v_intro; simp add: v_proved v_ok_imp_k_ok)

lemma loci_validate_of_bsn_vport_q_in_q_OF_VERSION_1_0_exact [x_proved]: "x_ok 2 loci_validate_of_bsn_vport_q_in_q_OF_VERSION_1_0"
  unfolding loci_validate_of_bsn_vport_q_in_q_OF_VERSION_1_0_def by (intro x_intro; simp add: x_proved x_ok_imp_kx_ok)

definition loci_validate_of_bsn_vport_OF_VERSION_1_0 :: validator where
  "loci_validate_of_bsn_vport_OF_VERSION_1_0 =
     v_min 4 (v_wire_len_set 2 4
     (v_switch16 0
      [(1, loci_validate_of_bsn_vport_l2gre_OF_VERSION_1_0),
       (0, loci_validate_of_bsn_vport_q_in_q_OF_VERSION_1_0)]
     v_done))"

lemma loci_validate_of_bsn_vport_OF_VERSION_1_0_ok [v_proved]: "v_ok loci_validate_of_bsn_vport_OF_VERSION_1_0"
  unfolding loci_validate_of_bsn_vport_OF_VERSION_1_0_def by (intro v_intro; simp add: v_proved v_ok_imp_k_ok)

lemma loci_validate_of_bsn_vport_OF_VERSION_1_0_exact [x_proved]: "x_ok 2 loci_validate_of_bsn_vport_OF_VERSION_1_0"
  unfolding loci_validate_of_bsn_vport_OF_VERSION_1_0_def by (intro x_intro; simp add: x_proved x_ok_imp_kx_ok)

definition loci_validate_of_match_v1_OF_VERSION_1_0 :: validator where
  "loci_validate_of_match_v1_OF_VERSION_1_0 =
     v_min 40 (v_set_len 40 v_done)"

lemma loci_validate_of_match_v1_OF_VERSION_1_0_ok [v_proved]: "v_ok loci_validate_of_match_v1_OF_VERSION_1_0"
  unfolding loci_validate_of_match_v1_OF_VERSION_1_0_def by (intro v_intro; simp add: v_proved v_ok_imp_k_ok)

end
