(* ===== verification/Validator11.thy ===== *)
theory Validator11
  imports Validate
begin

text \<open>
  The message validators for OpenFlow 1.1 of \<^verbatim>\<open>src/loci_validator.c\<close>, one definition per C
  function, callees first, each with its contract (\<open>_ok\<close>) and, where the object carries its
  length, exactness (\<open>_exact\<close>).
\<close>

definition loci_validate_of_bsn_interface_OF_VERSION_1_1 :: validator where
  "loci_validate_of_bsn_interface_OF_VERSION_1_1 =
     v_min 32 (v_set_len 32 v_done)"

lemma loci_validate_of_bsn_interface_OF_VERSION_1_1_ok [v_proved]: "v_ok loci_validate_of_bsn_interface_OF_VERSION_1_1"
  unfolding loci_validate_of_bsn_interface_OF_VERSION_1_1_def by (intro v_intro; simp add: v_proved v_ok_imp_k_ok)

definition loci_validate_of_list_bsn_interface_OF_VERSION_1_1 :: "byte list \<Rightarrow> int \<Rightarrow> int \<Rightarrow> bool res" where
  "loci_validate_of_list_bsn_interface_OF_VERSION_1_1 = v_list loci_validate_of_bsn_interface_OF_VERSION_1_1"

interpretation bsn_interface_1_1_list: list_element loci_validate_of_bsn_interface_OF_VERSION_1_1
  by unfold_locales (rule loci_validate_of_bsn_interface_OF_VERSION_1_1_ok)

lemma loci_validate_of_list_bsn_interface_OF_VERSION_1_1_ok [v_proved]: "l_ok loci_validate_of_list_bsn_interface_OF_VERSION_1_1"
  unfolding loci_validate_of_list_bsn_interface_OF_VERSION_1_1_def by (rule bsn_interface_1_1_list.l_ok_list)

definition loci_validate_of_action_bsn_checksum_OF_VERSION_1_1 :: validator where
  "loci_validate_of_action_bsn_checksum_OF_VERSION_1_1 =
     v_min 28 (v_set_len 28 (v_wire_len 2 28 v_done))"

lemma loci_validate_of_action_bsn_checksum_OF_VERSION_1_1_ok [v_proved]: "v_ok loci_validate_of_action_bsn_checksum_OF_VERSION_1_1"
  unfolding loci_validate_of_action_bsn_checksum_OF_VERSION_1_1_def by (intro v_intro; simp add: v_proved v_ok_imp_k_ok)

lemma loci_validate_of_action_bsn_checksum_OF_VERSION_1_1_exact [x_proved]: "x_ok 2 loci_validate_of_action_bsn_checksum_OF_VERSION_1_1"
  unfolding loci_validate_of_action_bsn_checksum_OF_VERSION_1_1_def by (intro x_intro; simp add: x_proved x_ok_imp_kx_ok)

definition loci_validate_of_action_bsn_mirror_OF_VERSION_1_1 :: validator where
  "loci_validate_of_action_bsn_mirror_OF_VERSION_1_1 =
     v_min 24 (v_set_len 24 (v_wire_len 2 24 v_done))"

lemma loci_validate_of_action_bsn_mirror_OF_VERSION_1_1_ok [v_proved]: "v_ok loci_validate_of_action_bsn_mirror_OF_VERSION_1_1"
  unfolding loci_validate_of_action_bsn_mirror_OF_VERSION_1_1_def by (intro v_intro; simp add: v_proved v_ok_imp_k_ok)

lemma loci_validate_of_action_bsn_mirror_OF_VERSION_1_1_exact [x_proved]: "x_ok 2 loci_validate_of_action_bsn_mirror_OF_VERSION_1_1"
  unfolding loci_validate_of_action_bsn_mirror_OF_VERSION_1_1_def by (intro x_intro; simp add: x_proved x_ok_imp_kx_ok)

definition loci_validate_of_action_bsn_set_tunnel_dst_OF_VERSION_1_1 :: validator where
  "loci_validate_of_action_bsn_set_tunnel_dst_OF_VERSION_1_1 =
     v_min 16 (v_set_len 16 (v_wire_len 2 16 v_done))"

lemma loci_validate_of_action_bsn_set_tunnel_dst_OF_VERSION_1_1_ok [v_proved]: "v_ok loci_validate_of_action_bsn_set_tunnel_dst_OF_VERSION_1_1"
  unfolding loci_validate_of_action_bsn_set_tunnel_dst_OF_VERSION_1_1_def by (intro v_intro; simp add: v_proved v_ok_imp_k_ok)

lemma loci_validate_of_action_bsn_set_tunnel_dst_OF_VERSION_1_1_exact [x_proved]: "x_ok 2 loci_validate_of_action_bsn_set_tunnel_dst_OF_VERSION_1_1"
  unfolding loci_validate_of_action_bsn_set_tunnel_dst_OF_VERSION_1_1_def by (intro x_intro; simp add: x_proved x_ok_imp_kx_ok)

definition loci_validate_of_action_bsn_OF_VERSION_1_1 :: validator where
  "loci_validate_of_action_bsn_OF_VERSION_1_1 =
     v_min 16 (v_wire_len_set 2 16
     (v_switch32 8
      [(4, loci_validate_of_action_bsn_checksum_OF_VERSION_1_1),
       (1, loci_validate_of_action_bsn_mirror_OF_VERSION_1_1),
       (2, loci_validate_of_action_bsn_set_tunnel_dst_OF_VERSION_1_1)]
     v_done))"

lemma loci_validate_of_action_bsn_OF_VERSION_1_1_ok [v_proved]: "v_ok loci_validate_of_action_bsn_OF_VERSION_1_1"
  unfolding loci_validate_of_action_bsn_OF_VERSION_1_1_def by (intro v_intro; simp add: v_proved v_ok_imp_k_ok)

lemma loci_validate_of_action_bsn_OF_VERSION_1_1_exact [x_proved]: "x_ok 2 loci_validate_of_action_bsn_OF_VERSION_1_1"
  unfolding loci_validate_of_action_bsn_OF_VERSION_1_1_def by (intro x_intro; simp add: x_proved x_ok_imp_kx_ok)

definition loci_validate_of_action_nicira_dec_ttl_OF_VERSION_1_1 :: validator where
  "loci_validate_of_action_nicira_dec_ttl_OF_VERSION_1_1 =
     v_min 16 (v_set_len 16 (v_wire_len 2 16 v_done))"

lemma loci_validate_of_action_nicira_dec_ttl_OF_VERSION_1_1_ok [v_proved]: "v_ok loci_validate_of_action_nicira_dec_ttl_OF_VERSION_1_1"
  unfolding loci_validate_of_action_nicira_dec_ttl_OF_VERSION_1_1_def by (intro v_intro; simp add: v_proved v_ok_imp_k_ok)

lemma loci_validate_of_action_nicira_dec_ttl_OF_VERSION_1_1_exact [x_proved]: "x_ok 2 loci_validate_of_action_nicira_dec_ttl_OF_VERSION_1_1"
  unfolding loci_validate_of_action_nicira_dec_ttl_OF_VERSION_1_1_def by (intro x_intro; simp add: x_proved x_ok_imp_kx_ok)

definition loci_validate_of_action_nicira_OF_VERSION_1_1 :: validator where
  "loci_validate_of_action_nicira_OF_VERSION_1_1 =
     v_min 16 (v_wire_len_set 2 16
     (v_switch16 8
      [(0x12, loci_validate_of_action_nicira_dec_ttl_OF_VERSION_1_1)]
     v_done))"

lemma loci_validate_of_action_nicira_OF_VERSION_1_1_ok [v_proved]: "v_ok loci_validate_of_action_nicira_OF_VERSION_1_1"
  unfolding loci_validate_of_action_nicira_OF_VERSION_1_1_def by (intro v_intro; simp add: v_proved v_ok_imp_k_ok)

lemma loci_validate_of_action_nicira_OF_VERSION_1_1_exact [x_proved]: "x_ok 2 loci_validate_of_action_nicira_OF_VERSION_1_1"
  unfolding loci_validate_of_action_nicira_OF_VERSION_1_1_def by (intro x_intro; simp add: x_proved x_ok_imp_kx_ok)

definition loci_validate_of_action_experimenter_OF_VERSION_1_1 :: validator where
  "loci_validate_of_action_experimenter_OF_VERSION_1_1 =
     v_min 8 (v_wire_len_set 2 8
     (v_switch32 4
      [(0x5c16c7, loci_validate_of_action_bsn_OF_VERSION_1_1),
       (0x2320, loci_validate_of_action_nicira_OF_VERSION_1_1)]
     v_done))"

lemma loci_validate_of_action_experimenter_OF_VERSION_1_1_ok [v_proved]: "v_ok loci_validate_of_action_experimenter_OF_VERSION_1_1"
  unfolding loci_validate_of_action_experimenter_OF_VERSION_1_1_def by (intro v_intro; simp add: v_proved v_ok_imp_k_ok)

lemma loci_validate_of_action_experimenter_OF_VERSION_1_1_exact [x_proved]: "x_ok 2 loci_validate_of_action_experimenter_OF_VERSION_1_1"
  unfolding loci_validate_of_action_experimenter_OF_VERSION_1_1_def by (intro x_intro; simp add: x_proved x_ok_imp_kx_ok)

definition loci_validate_of_action_copy_ttl_in_OF_VERSION_1_1 :: validator where
  "loci_validate_of_action_copy_ttl_in_OF_VERSION_1_1 =
     v_min 8 (v_set_len 8 (v_wire_len 2 8 v_done))"

lemma loci_validate_of_action_copy_ttl_in_OF_VERSION_1_1_ok [v_proved]: "v_ok loci_validate_of_action_copy_ttl_in_OF_VERSION_1_1"
  unfolding loci_validate_of_action_copy_ttl_in_OF_VERSION_1_1_def by (intro v_intro; simp add: v_proved v_ok_imp_k_ok)

lemma loci_validate_of_action_copy_ttl_in_OF_VERSION_1_1_exact [x_proved]: "x_ok 2 loci_validate_of_action_copy_ttl_in_OF_VERSION_1_1"
  unfolding loci_validate_of_action_copy_ttl_in_OF_VERSION_1_1_def by (intro x_intro; simp add: x_proved x_ok_imp_kx_ok)

definition loci_validate_of_action_copy_ttl_out_OF_VERSION_1_1 :: validator where
  "loci_validate_of_action_copy_ttl_out_OF_VERSION_1_1 =
     v_min 8 (v_set_len 8 (v_wire_len 2 8 v_done))"

lemma loci_validate_of_action_copy_ttl_out_OF_VERSION_1_1_ok [v_proved]: "v_ok loci_validate_of_action_copy_ttl_out_OF_VERSION_1_1"
  unfolding loci_validate_of_action_copy_ttl_out_OF_VERSION_1_1_def by (intro v_intro; simp add: v_proved v_ok_imp_k_ok)

lemma loci_validate_of_action_copy_ttl_out_OF_VERSION_1_1_exact [x_proved]: "x_ok 2 loci_validate_of_action_copy_ttl_out_OF_VERSION_1_1"
  unfolding loci_validate_of_action_copy_ttl_out_OF_VERSION_1_1_def by (intro x_intro; simp add: x_proved x_ok_imp_kx_ok)

definition loci_validate_of_action_dec_mpls_ttl_OF_VERSION_1_1 :: validator where
  "loci_validate_of_action_dec_mpls_ttl_OF_VERSION_1_1 =
     v_min 8 (v_set_len 8 (v_wire_len 2 8 v_done))"

lemma loci_validate_of_action_dec_mpls_ttl_OF_VERSION_1_1_ok [v_proved]: "v_ok loci_validate_of_action_dec_mpls_ttl_OF_VERSION_1_1"
  unfolding loci_validate_of_action_dec_mpls_ttl_OF_VERSION_1_1_def by (intro v_intro; simp add: v_proved v_ok_imp_k_ok)

lemma loci_validate_of_action_dec_mpls_ttl_OF_VERSION_1_1_exact [x_proved]: "x_ok 2 loci_validate_of_action_dec_mpls_ttl_OF_VERSION_1_1"
  unfolding loci_validate_of_action_dec_mpls_ttl_OF_VERSION_1_1_def by (intro x_intro; simp add: x_proved x_ok_imp_kx_ok)

definition loci_validate_of_action_dec_nw_ttl_OF_VERSION_1_1 :: validator where
  "loci_validate_of_action_dec_nw_ttl_OF_VERSION_1_1 =
     v_min 8 (v_set_len 8 (v_wire_len 2 8 v_done))"

lemma loci_validate_of_action_dec_nw_ttl_OF_VERSION_1_1_ok [v_proved]: "v_ok loci_validate_of_action_dec_nw_ttl_OF_VERSION_1_1"
  unfolding loci_validate_of_action_dec_nw_ttl_OF_VERSION_1_1_def by (intro v_intro; simp add: v_proved v_ok_imp_k_ok)

lemma loci_validate_of_action_dec_nw_ttl_OF_VERSION_1_1_exact [x_proved]: "x_ok 2 loci_validate_of_action_dec_nw_ttl_OF_VERSION_1_1"
  unfolding loci_validate_of_action_dec_nw_ttl_OF_VERSION_1_1_def by (intro x_intro; simp add: x_proved x_ok_imp_kx_ok)

definition loci_validate_of_action_group_OF_VERSION_1_1 :: validator where
  "loci_validate_of_action_group_OF_VERSION_1_1 =
     v_min 8 (v_set_len 8 (v_wire_len 2 8 v_done))"

lemma loci_validate_of_action_group_OF_VERSION_1_1_ok [v_proved]: "v_ok loci_validate_of_action_group_OF_VERSION_1_1"
  unfolding loci_validate_of_action_group_OF_VERSION_1_1_def by (intro v_intro; simp add: v_proved v_ok_imp_k_ok)

lemma loci_validate_of_action_group_OF_VERSION_1_1_exact [x_proved]: "x_ok 2 loci_validate_of_action_group_OF_VERSION_1_1"
  unfolding loci_validate_of_action_group_OF_VERSION_1_1_def by (intro x_intro; simp add: x_proved x_ok_imp_kx_ok)

definition loci_validate_of_action_output_OF_VERSION_1_1 :: validator where
  "loci_validate_of_action_output_OF_VERSION_1_1 =
     v_min 16 (v_set_len 16 (v_wire_len 2 16 v_done))"

lemma loci_validate_of_action_output_OF_VERSION_1_1_ok [v_proved]: "v_ok loci_validate_of_action_output_OF_VERSION_1_1"
  unfolding loci_validate_of_action_output_OF_VERSION_1_1_def by (intro v_intro; simp add: v_proved v_ok_imp_k_ok)

lemma loci_validate_of_action_output_OF_VERSION_1_1_exact [x_proved]: "x_ok 2 loci_validate_of_action_output_OF_VERSION_1_1"
  unfolding loci_validate_of_action_output_OF_VERSION_1_1_def by (intro x_intro; simp add: x_proved x_ok_imp_kx_ok)

definition loci_validate_of_action_pop_mpls_OF_VERSION_1_1 :: validator where
  "loci_validate_of_action_pop_mpls_OF_VERSION_1_1 =
     v_min 8 (v_set_len 8 (v_wire_len 2 8 v_done))"

lemma loci_validate_of_action_pop_mpls_OF_VERSION_1_1_ok [v_proved]: "v_ok loci_validate_of_action_pop_mpls_OF_VERSION_1_1"
  unfolding loci_validate_of_action_pop_mpls_OF_VERSION_1_1_def by (intro v_intro; simp add: v_proved v_ok_imp_k_ok)

lemma loci_validate_of_action_pop_mpls_OF_VERSION_1_1_exact [x_proved]: "x_ok 2 loci_validate_of_action_pop_mpls_OF_VERSION_1_1"
  unfolding loci_validate_of_action_pop_mpls_OF_VERSION_1_1_def by (intro x_intro; simp add: x_proved x_ok_imp_kx_ok)

definition loci_validate_of_action_pop_vlan_OF_VERSION_1_1 :: validator where
  "loci_validate_of_action_pop_vlan_OF_VERSION_1_1 =
     v_min 8 (v_set_len 8 (v_wire_len 2 8 v_done))"

lemma loci_validate_of_action_pop_vlan_OF_VERSION_1_1_ok [v_proved]: "v_ok loci_validate_of_action_pop_vlan_OF_VERSION_1_1"
  unfolding loci_validate_of_action_pop_vlan_OF_VERSION_1_1_def by (intro v_intro; simp add: v_proved v_ok_imp_k_ok)

lemma loci_validate_of_action_pop_vlan_OF_VERSION_1_1_exact [x_proved]: "x_ok 2 loci_validate_of_action_pop_vlan_OF_VERSION_1_1"
  unfolding loci_validate_of_action_pop_vlan_OF_VERSION_1_1_def by (intro x_intro; simp add: x_proved x_ok_imp_kx_ok)

definition loci_validate_of_action_push_mpls_OF_VERSION_1_1 :: validator where
  "loci_validate_of_action_push_mpls_OF_VERSION_1_1 =
     v_min 8 (v_set_len 8 (v_wire_len 2 8 v_done))"

lemma loci_validate_of_action_push_mpls_OF_VERSION_1_1_ok [v_proved]: "v_ok loci_validate_of_action_push_mpls_OF_VERSION_1_1"
  unfolding loci_validate_of_action_push_mpls_OF_VERSION_1_1_def by (intro v_intro; simp add: v_proved v_ok_imp_k_ok)

lemma loci_validate_of_action_push_mpls_OF_VERSION_1_1_exact [x_proved]: "x_ok 2 loci_validate_of_action_push_mpls_OF_VERSION_1_1"
  unfolding loci_validate_of_action_push_mpls_OF_VERSION_1_1_def by (intro x_intro; simp add: x_proved x_ok_imp_kx_ok)

definition loci_validate_of_action_push_vlan_OF_VERSION_1_1 :: validator where
  "loci_validate_of_action_push_vlan_OF_VERSION_1_1 =
     v_min 8 (v_set_len 8 (v_wire_len 2 8 v_done))"

lemma loci_validate_of_action_push_vlan_OF_VERSION_1_1_ok [v_proved]: "v_ok loci_validate_of_action_push_vlan_OF_VERSION_1_1"
  unfolding loci_validate_of_action_push_vlan_OF_VERSION_1_1_def by (intro v_intro; simp add: v_proved v_ok_imp_k_ok)

lemma loci_validate_of_action_push_vlan_OF_VERSION_1_1_exact [x_proved]: "x_ok 2 loci_validate_of_action_push_vlan_OF_VERSION_1_1"
  unfolding loci_validate_of_action_push_vlan_OF_VERSION_1_1_def by (intro x_intro; simp add: x_proved x_ok_imp_kx_ok)

definition loci_validate_of_action_set_dl_dst_OF_VERSION_1_1 :: validator where
  "loci_validate_of_action_set_dl_dst_OF_VERSION_1_1 =
     v_min 16 (v_set_len 16 (v_wire_len 2 16 v_done))"

lemma loci_validate_of_action_set_dl_dst_OF_VERSION_1_1_ok [v_proved]: "v_ok loci_validate_of_action_set_dl_dst_OF_VERSION_1_1"
  unfolding loci_validate_of_action_set_dl_dst_OF_VERSION_1_1_def by (intro v_intro; simp add: v_proved v_ok_imp_k_ok)

lemma loci_validate_of_action_set_dl_dst_OF_VERSION_1_1_exact [x_proved]: "x_ok 2 loci_validate_of_action_set_dl_dst_OF_VERSION_1_1"
  unfolding loci_validate_of_action_set_dl_dst_OF_VERSION_1_1_def by (intro x_intro; simp add: x_proved x_ok_imp_kx_ok)

definition loci_validate_of_action_set_dl_src_OF_VERSION_1_1 :: validator where
  "loci_validate_of_action_set_dl_src_OF_VERSION_1_1 =
     v_min 16 (v_set_len 16 (v_wire_len 2 16 v_done))"

lemma loci_validate_of_action_set_dl_src_OF_VERSION_1_1_ok [v_proved]: "v_ok loci_validate_of_action_set_dl_src_OF_VERSION_1_1"
  unfolding loci_validate_of_action_set_dl_src_OF_VERSION_1_1_def by (intro v_intro; simp add: v_proved v_ok_imp_k_ok)

lemma loci_validate_of_action_set_dl_src_OF_VERSION_1_1_exact [x_proved]: "x_ok 2 loci_validate_of_action_set_dl_src_OF_VERSION_1_1"
  unfolding loci_validate_of_action_set_dl_src_OF_VERSION_1_1_def by (intro x_intro; simp add: x_proved x_ok_imp_kx_ok)

definition loci_validate_of_action_set_mpls_label_OF_VERSION_1_1 :: validator where
  "loci_validate_of_action_set_mpls_label_OF_VERSION_1_1 =
     v_min 8 (v_set_len 8 (v_wire_len 2 8 v_done))"

lemma loci_validate_of_action_set_mpls_label_OF_VERSION_1_1_ok [v_proved]: "v_ok loci_validate_of_action_set_mpls_label_OF_VERSION_1_1"
  unfolding loci_validate_of_action_set_mpls_label_OF_VERSION_1_1_def by (intro v_intro; simp add: v_proved v_ok_imp_k_ok)

lemma loci_validate_of_action_set_mpls_label_OF_VERSION_1_1_exact [x_proved]: "x_ok 2 loci_validate_of_action_set_mpls_label_OF_VERSION_1_1"
  unfolding loci_validate_of_action_set_mpls_label_OF_VERSION_1_1_def by (intro x_intro; simp add: x_proved x_ok_imp_kx_ok)

definition loci_validate_of_action_set_mpls_tc_OF_VERSION_1_1 :: validator where
  "loci_validate_of_action_set_mpls_tc_OF_VERSION_1_1 =
     v_min 8 (v_set_len 8 (v_wire_len 2 8 v_done))"

lemma loci_validate_of_action_set_mpls_tc_OF_VERSION_1_1_ok [v_proved]: "v_ok loci_validate_of_action_set_mpls_tc_OF_VERSION_1_1"
  unfolding loci_validate_of_action_set_mpls_tc_OF_VERSION_1_1_def by (intro v_intro; simp add: v_proved v_ok_imp_k_ok)

lemma loci_validate_of_action_set_mpls_tc_OF_VERSION_1_1_exact [x_proved]: "x_ok 2 loci_validate_of_action_set_mpls_tc_OF_VERSION_1_1"
  unfolding loci_validate_of_action_set_mpls_tc_OF_VERSION_1_1_def by (intro x_intro; simp add: x_proved x_ok_imp_kx_ok)

definition loci_validate_of_action_set_mpls_ttl_OF_VERSION_1_1 :: validator where
  "loci_validate_of_action_set_mpls_ttl_OF_VERSION_1_1 =
     v_min 8 (v_set_len 8 (v_wire_len 2 8 v_done))"

lemma loci_validate_of_action_set_mpls_ttl_OF_VERSION_1_1_ok [v_proved]: "v_ok loci_validate_of_action_set_mpls_ttl_OF_VERSION_1_1"
  unfolding loci_validate_of_action_set_mpls_ttl_OF_VERSION_1_1_def by (intro v_intro; simp add: v_proved v_ok_imp_k_ok)

lemma loci_validate_of_action_set_mpls_ttl_OF_VERSION_1_1_exact [x_proved]: "x_ok 2 loci_validate_of_action_set_mpls_ttl_OF_VERSION_1_1"
  unfolding loci_validate_of_action_set_mpls_ttl_OF_VERSION_1_1_def by (intro x_intro; simp add: x_proved x_ok_imp_kx_ok)

definition loci_validate_of_action_set_nw_dst_OF_VERSION_1_1 :: validator where
  "loci_validate_of_action_set_nw_dst_OF_VERSION_1_1 =
     v_min 8 (v_set_len 8 (v_wire_len 2 8 v_done))"

lemma loci_validate_of_action_set_nw_dst_OF_VERSION_1_1_ok [v_proved]: "v_ok loci_validate_of_action_set_nw_dst_OF_VERSION_1_1"
  unfolding loci_validate_of_action_set_nw_dst_OF_VERSION_1_1_def by (intro v_intro; simp add: v_proved v_ok_imp_k_ok)

lemma loci_validate_of_action_set_nw_dst_OF_VERSION_1_1_exact [x_proved]: "x_ok 2 loci_validate_of_action_set_nw_dst_OF_VERSION_1_1"
  unfolding loci_validate_of_action_set_nw_dst_OF_VERSION_1_1_def by (intro x_intro; simp add: x_proved x_ok_imp_kx_ok)

definition loci_validate_of_action_set_nw_ecn_OF_VERSION_1_1 :: validator where
  "loci_validate_of_action_set_nw_ecn_OF_VERSION_1_1 =
     v_min 8 (v_set_len 8 (v_wire_len 2 8 v_done))"

lemma loci_validate_of_action_set_nw_ecn_OF_VERSION_1_1_ok [v_proved]: "v_ok loci_validate_of_action_set_nw_ecn_OF_VERSION_1_1"
  unfolding loci_validate_of_action_set_nw_ecn_OF_VERSION_1_1_def by (intro v_intro; simp add: v_proved v_ok_imp_k_ok)

lemma loci_validate_of_action_set_nw_ecn_OF_VERSION_1_1_exact [x_proved]: "x_ok 2 loci_validate_of_action_set_nw_ecn_OF_VERSION_1_1"
  unfolding loci_validate_of_action_set_nw_ecn_OF_VERSION_1_1_def by (intro x_intro; simp add: x_proved x_ok_imp_kx_ok)

definition loci_validate_of_action_set_nw_src_OF_VERSION_1_1 :: validator where
  "loci_validate_of_action_set_nw_src_OF_VERSION_1_1 =
     v_min 8 (v_set_len 8 (v_wire_len 2 8 v_done))"

lemma loci_validate_of_action_set_nw_src_OF_VERSION_1_1_ok [v_proved]: "v_ok loci_validate_of_action_set_nw_src_OF_VERSION_1_1"
  unfolding loci_validate_of_action_set_nw_src_OF_VERSION_1_1_def by (intro v_intro; simp add: v_proved v_ok_imp_k_ok)

lemma loci_validate_of_action_set_nw_src_OF_VERSION_1_1_exact [x_proved]: "x_ok 2 loci_validate_of_action_set_nw_src_OF_VERSION_1_1"
  unfolding loci_validate_of_action_set_nw_src_OF_VERSION_1_1_def by (intro x_intro; simp add: x_proved x_ok_imp_kx_ok)

definition loci_validate_of_action_set_nw_tos_OF_VERSION_1_1 :: validator where
  "loci_validate_of_action_set_nw_tos_OF_VERSION_1_1 =
     v_min 8 (v_set_len 8 (v_wire_len 2 8 v_done))"

lemma loci_validate_of_action_set_nw_tos_OF_VERSION_1_1_ok [v_proved]: "v_ok loci_validate_of_action_set_nw_tos_OF_VERSION_1_1"
  unfolding loci_validate_of_action_set_nw_tos_OF_VERSION_1_1_def by (intro v_intro; simp add: v_proved v_ok_imp_k_ok)

lemma loci_validate_of_action_set_nw_tos_OF_VERSION_1_1_exact [x_proved]: "x_ok 2 loci_validate_of_action_set_nw_tos_OF_VERSION_1_1"
  unfolding loci_validate_of_action_set_nw_tos_OF_VERSION_1_1_def by (intro x_intro; simp add: x_proved x_ok_imp_kx_ok)

definition loci_validate_of_action_set_nw_ttl_OF_VERSION_1_1 :: validator where
  "loci_validate_of_action_set_nw_ttl_OF_VERSION_1_1 =
     v_min 8 (v_set_len 8 (v_wire_len 2 8 v_done))"

lemma loci_validate_of_action_set_nw_ttl_OF_VERSION_1_1_ok [v_proved]: "v_ok loci_validate_of_action_set_nw_ttl_OF_VERSION_1_1"
  unfolding loci_validate_of_action_set_nw_ttl_OF_VERSION_1_1_def by (intro v_intro; simp add: v_proved v_ok_imp_k_ok)

lemma loci_validate_of_action_set_nw_ttl_OF_VERSION_1_1_exact [x_proved]: "x_ok 2 loci_validate_of_action_set_nw_ttl_OF_VERSION_1_1"
  unfolding loci_validate_of_action_set_nw_ttl_OF_VERSION_1_1_def by (intro x_intro; simp add: x_proved x_ok_imp_kx_ok)

definition loci_validate_of_action_set_queue_OF_VERSION_1_1 :: validator where
  "loci_validate_of_action_set_queue_OF_VERSION_1_1 =
     v_min 8 (v_set_len 8 (v_wire_len 2 8 v_done))"

lemma loci_validate_of_action_set_queue_OF_VERSION_1_1_ok [v_proved]: "v_ok loci_validate_of_action_set_queue_OF_VERSION_1_1"
  unfolding loci_validate_of_action_set_queue_OF_VERSION_1_1_def by (intro v_intro; simp add: v_proved v_ok_imp_k_ok)

lemma loci_validate_of_action_set_queue_OF_VERSION_1_1_exact [x_proved]: "x_ok 2 loci_validate_of_action_set_queue_OF_VERSION_1_1"
  unfolding loci_validate_of_action_set_queue_OF_VERSION_1_1_def by (intro x_intro; simp add: x_proved x_ok_imp_kx_ok)

definition loci_validate_of_action_set_tp_dst_OF_VERSION_1_1 :: validator where
  "loci_validate_of_action_set_tp_dst_OF_VERSION_1_1 =
     v_min 8 (v_set_len 8 (v_wire_len 2 8 v_done))"

lemma loci_validate_of_action_set_tp_dst_OF_VERSION_1_1_ok [v_proved]: "v_ok loci_validate_of_action_set_tp_dst_OF_VERSION_1_1"
  unfolding loci_validate_of_action_set_tp_dst_OF_VERSION_1_1_def by (intro v_intro; simp add: v_proved v_ok_imp_k_ok)

lemma loci_validate_of_action_set_tp_dst_OF_VERSION_1_1_exact [x_proved]: "x_ok 2 loci_validate_of_action_set_tp_dst_OF_VERSION_1_1"
  unfolding loci_validate_of_action_set_tp_dst_OF_VERSION_1_1_def by (intro x_intro; simp add: x_proved x_ok_imp_kx_ok)

definition loci_validate_of_action_set_tp_src_OF_VERSION_1_1 :: validator where
  "loci_validate_of_action_set_tp_src_OF_VERSION_1_1 =
     v_min 8 (v_set_len 8 (v_wire_len 2 8 v_done))"

lemma loci_validate_of_action_set_tp_src_OF_VERSION_1_1_ok [v_proved]: "v_ok loci_validate_of_action_set_tp_src_OF_VERSION_1_1"
  unfolding loci_validate_of_action_set_tp_src_OF_VERSION_1_1_def by (intro v_intro; simp add: v_proved v_ok_imp_k_ok)

lemma loci_validate_of_action_set_tp_src_OF_VERSION_1_1_exact [x_proved]: "x_ok 2 loci_validate_of_action_set_tp_src_OF_VERSION_1_1"
  unfolding loci_validate_of_action_set_tp_src_OF_VERSION_1_1_def by (intro x_intro; simp add: x_proved x_ok_imp_kx_ok)

definition loci_validate_of_action_set_vlan_pcp_OF_VERSION_1_1 :: validator where
  "loci_validate_of_action_set_vlan_pcp_OF_VERSION_1_1 =
     v_min 8 (v_set_len 8 (v_wire_len 2 8 v_done))"

lemma loci_validate_of_action_set_vlan_pcp_OF_VERSION_1_1_ok [v_proved]: "v_ok loci_validate_of_action_set_vlan_pcp_OF_VERSION_1_1"
  unfolding loci_validate_of_action_set_vlan_pcp_OF_VERSION_1_1_def by (intro v_intro; simp add: v_proved v_ok_imp_k_ok)

lemma loci_validate_of_action_set_vlan_pcp_OF_VERSION_1_1_exact [x_proved]: "x_ok 2 loci_validate_of_action_set_vlan_pcp_OF_VERSION_1_1"
  unfolding loci_validate_of_action_set_vlan_pcp_OF_VERSION_1_1_def by (intro x_intro; simp add: x_proved x_ok_imp_kx_ok)

definition loci_validate_of_action_set_vlan_vid_OF_VERSION_1_1 :: validator where
  "loci_validate_of_action_set_vlan_vid_OF_VERSION_1_1 =
     v_min 8 (v_set_len 8 (v_wire_len 2 8 v_done))"

lemma loci_validate_of_action_set_vlan_vid_OF_VERSION_1_1_ok [v_proved]: "v_ok loci_validate_of_action_set_vlan_vid_OF_VERSION_1_1"
  unfolding loci_validate_of_action_set_vlan_vid_OF_VERSION_1_1_def by (intro v_intro; simp add: v_proved v_ok_imp_k_ok)

lemma loci_validate_of_action_set_vlan_vid_OF_VERSION_1_1_exact [x_proved]: "x_ok 2 loci_validate_of_action_set_vlan_vid_OF_VERSION_1_1"
  unfolding loci_validate_of_action_set_vlan_vid_OF_VERSION_1_1_def by (intro x_intro; simp add: x_proved x_ok_imp_kx_ok)

definition loci_validate_of_action_OF_VERSION_1_1 :: validator where
  "loci_validate_of_action_OF_VERSION_1_1 =
     v_min 8 (v_wire_len_set 2 8
     (v_switch16 0
      [(0xffff, loci_validate_of_action_experimenter_OF_VERSION_1_1),
       (0xc, loci_validate_of_action_copy_ttl_in_OF_VERSION_1_1),
       (0xb, loci_validate_of_action_copy_ttl_out_OF_VERSION_1_1),
       (0x10, loci_validate_of_action_dec_mpls_ttl_OF_VERSION_1_1),
       (0x18, loci_validate_of_action_dec_nw_ttl_OF_VERSION_1_1),
       (0x16, loci_validate_of_action_group_OF_VERSION_1_1),
       (0, loci_validate_of_action_output_OF_VERSION_1_1),
       (0x14, loci_validate_of_action_pop_mpls_OF_VERSION_1_1),
       (0x12, loci_validate_of_action_pop_vlan_OF_VERSION_1_1),
       (0x13, loci_validate_of_action_push_mpls_OF_VERSION_1_1),
       (0x11, loci_validate_of_action_push_vlan_OF_VERSION_1_1),
       (4, loci_validate_of_action_set_dl_dst_OF_VERSION_1_1),
       (3, loci_validate_of_action_set_dl_src_OF_VERSION_1_1),
       (0xd, loci_validate_of_action_set_mpls_label_OF_VERSION_1_1),
       (0xe, loci_validate_of_action_set_mpls_tc_OF_VERSION_1_1),
       (0xf, loci_validate_of_action_set_mpls_ttl_OF_VERSION_1_1),
       (6, loci_validate_of_action_set_nw_dst_OF_VERSION_1_1),
       (8, loci_validate_of_action_set_nw_ecn_OF_VERSION_1_1),
       (5, loci_validate_of_action_set_nw_src_OF_VERSION_1_1),
       (7, loci_validate_of_action_set_nw_tos_OF_VERSION_1_1),
       (0x17, loci_validate_of_action_set_nw_ttl_OF_VERSION_1_1),
       (0x15, loci_validate_of_action_set_queue_OF_VERSION_1_1),
       (0xa, loci_validate_of_action_set_tp_dst_OF_VERSION_1_1),
       (9, loci_validate_of_action_set_tp_src_OF_VERSION_1_1),
       (2, loci_validate_of_action_set_vlan_pcp_OF_VERSION_1_1),
       (1, loci_validate_of_action_set_vlan_vid_OF_VERSION_1_1)]
     v_done))"

lemma loci_validate_of_action_OF_VERSION_1_1_ok [v_proved]: "v_ok loci_validate_of_action_OF_VERSION_1_1"
  unfolding loci_validate_of_action_OF_VERSION_1_1_def by (intro v_intro; simp add: v_proved v_ok_imp_k_ok)

lemma loci_validate_of_action_OF_VERSION_1_1_exact [x_proved]: "x_ok 2 loci_validate_of_action_OF_VERSION_1_1"
  unfolding loci_validate_of_action_OF_VERSION_1_1_def by (intro x_intro; simp add: x_proved x_ok_imp_kx_ok)

definition loci_validate_of_list_action_OF_VERSION_1_1 :: "byte list \<Rightarrow> int \<Rightarrow> int \<Rightarrow> bool res" where
  "loci_validate_of_list_action_OF_VERSION_1_1 = v_list loci_validate_of_action_OF_VERSION_1_1"

interpretation action_1_1_list: list_element loci_validate_of_action_OF_VERSION_1_1
  by unfold_locales (rule loci_validate_of_action_OF_VERSION_1_1_ok)

lemma loci_validate_of_list_action_OF_VERSION_1_1_ok [v_proved]: "l_ok loci_validate_of_list_action_OF_VERSION_1_1"
  unfolding loci_validate_of_list_action_OF_VERSION_1_1_def by (rule action_1_1_list.l_ok_list)

definition loci_validate_of_port_desc_OF_VERSION_1_1 :: validator where
  "loci_validate_of_port_desc_OF_VERSION_1_1 =
     v_min 64 (v_set_len 64 v_done)"

lemma loci_validate_of_port_desc_OF_VERSION_1_1_ok [v_proved]: "v_ok loci_validate_of_port_desc_OF_VERSION_1_1"
  unfolding loci_validate_of_port_desc_OF_VERSION_1_1_def by (intro v_intro; simp add: v_proved v_ok_imp_k_ok)

definition loci_validate_of_list_port_desc_OF_VERSION_1_1 :: "byte list \<Rightarrow> int \<Rightarrow> int \<Rightarrow> bool res" where
  "loci_validate_of_list_port_desc_OF_VERSION_1_1 = v_list loci_validate_of_port_desc_OF_VERSION_1_1"

interpretation port_desc_1_1_list: list_element loci_validate_of_port_desc_OF_VERSION_1_1
  by unfold_locales (rule loci_validate_of_port_desc_OF_VERSION_1_1_ok)

lemma loci_validate_of_list_port_desc_OF_VERSION_1_1_ok [v_proved]: "l_ok loci_validate_of_list_port_desc_OF_VERSION_1_1"
  unfolding loci_validate_of_list_port_desc_OF_VERSION_1_1_def by (rule port_desc_1_1_list.l_ok_list)

definition loci_validate_of_instruction_apply_actions_OF_VERSION_1_1 :: validator where
  "loci_validate_of_instruction_apply_actions_OF_VERSION_1_1 =
     v_min 8 (v_wire_len_set 2 8
     (v_list_rest 8 loci_validate_of_list_action_OF_VERSION_1_1 v_done))"

lemma loci_validate_of_instruction_apply_actions_OF_VERSION_1_1_ok [v_proved]: "v_ok loci_validate_of_instruction_apply_actions_OF_VERSION_1_1"
  unfolding loci_validate_of_instruction_apply_actions_OF_VERSION_1_1_def by (intro v_intro; simp add: v_proved v_ok_imp_k_ok)

lemma loci_validate_of_instruction_apply_actions_OF_VERSION_1_1_exact [x_proved]: "x_ok 2 loci_validate_of_instruction_apply_actions_OF_VERSION_1_1"
  unfolding loci_validate_of_instruction_apply_actions_OF_VERSION_1_1_def by (intro x_intro; simp add: x_proved x_ok_imp_kx_ok)

definition loci_validate_of_instruction_clear_actions_OF_VERSION_1_1 :: validator where
  "loci_validate_of_instruction_clear_actions_OF_VERSION_1_1 =
     v_min 8 (v_set_len 8 (v_wire_len 2 8 v_done))"

lemma loci_validate_of_instruction_clear_actions_OF_VERSION_1_1_ok [v_proved]: "v_ok loci_validate_of_instruction_clear_actions_OF_VERSION_1_1"
  unfolding loci_validate_of_instruction_clear_actions_OF_VERSION_1_1_def by (intro v_intro; simp add: v_proved v_ok_imp_k_ok)

lemma loci_validate_of_instruction_clear_actions_OF_VERSION_1_1_exact [x_proved]: "x_ok 2 loci_validate_of_instruction_clear_actions_OF_VERSION_1_1"
  unfolding loci_validate_of_instruction_clear_actions_OF_VERSION_1_1_def by (intro x_intro; simp add: x_proved x_ok_imp_kx_ok)

definition loci_validate_of_instruction_experimenter_OF_VERSION_1_1 :: validator where
  "loci_validate_of_instruction_experimenter_OF_VERSION_1_1 =
     v_min 8 (v_wire_len_set 2 8
     (v_switch32 4
      []
     v_done))"

lemma loci_validate_of_instruction_experimenter_OF_VERSION_1_1_ok [v_proved]: "v_ok loci_validate_of_instruction_experimenter_OF_VERSION_1_1"
  unfolding loci_validate_of_instruction_experimenter_OF_VERSION_1_1_def by (intro v_intro; simp add: v_proved v_ok_imp_k_ok)

lemma loci_validate_of_instruction_experimenter_OF_VERSION_1_1_exact [x_proved]: "x_ok 2 loci_validate_of_instruction_experimenter_OF_VERSION_1_1"
  unfolding loci_validate_of_instruction_experimenter_OF_VERSION_1_1_def by (intro x_intro; simp add: x_proved x_ok_imp_kx_ok)

definition loci_validate_of_instruction_goto_table_OF_VERSION_1_1 :: validator where
  "loci_validate_of_instruction_goto_table_OF_VERSION_1_1 =
     v_min 8 (v_set_len 8 (v_wire_len 2 8 v_done))"

lemma loci_validate_of_instruction_goto_table_OF_VERSION_1_1_ok [v_proved]: "v_ok loci_validate_of_instruction_goto_table_OF_VERSION_1_1"
  unfolding loci_validate_of_instruction_goto_table_OF_VERSION_1_1_def by (intro v_intro; simp add: v_proved v_ok_imp_k_ok)

lemma loci_validate_of_instruction_goto_table_OF_VERSION_1_1_exact [x_proved]: "x_ok 2 loci_validate_of_instruction_goto_table_OF_VERSION_1_1"
  unfolding loci_validate_of_instruction_goto_table_OF_VERSION_1_1_def by (intro x_intro; simp add: x_proved x_ok_imp_kx_ok)

definition loci_validate_of_instruction_write_actions_OF_VERSION_1_1 :: validator where
  "loci_validate_of_instruction_write_actions_OF_VERSION_1_1 =
     v_min 8 (v_wire_len_set 2 8
     (v_list_rest 8 loci_validate_of_list_action_OF_VERSION_1_1 v_done))"

lemma loci_validate_of_instruction_write_actions_OF_VERSION_1_1_ok [v_proved]: "v_ok loci_validate_of_instruction_write_actions_OF_VERSION_1_1"
  unfolding loci_validate_of_instruction_write_actions_OF_VERSION_1_1_def by (intro v_intro; simp add: v_proved v_ok_imp_k_ok)

lemma loci_validate_of_instruction_write_actions_OF_VERSION_1_1_exact [x_proved]: "x_ok 2 loci_validate_of_instruction_write_actions_OF_VERSION_1_1"
  unfolding loci_validate_of_instruction_write_actions_OF_VERSION_1_1_def by (intro x_intro; simp add: x_proved x_ok_imp_kx_ok)

definition loci_validate_of_instruction_write_metadata_OF_VERSION_1_1 :: validator where
  "loci_validate_of_instruction_write_metadata_OF_VERSION_1_1 =
     v_min 24 (v_set_len 24 (v_wire_len 2 24 v_done))"

lemma loci_validate_of_instruction_write_metadata_OF_VERSION_1_1_ok [v_proved]: "v_ok loci_validate_of_instruction_write_metadata_OF_VERSION_1_1"
  unfolding loci_validate_of_instruction_write_metadata_OF_VERSION_1_1_def by (intro v_intro; simp add: v_proved v_ok_imp_k_ok)

lemma loci_validate_of_instruction_write_metadata_OF_VERSION_1_1_exact [x_proved]: "x_ok 2 loci_validate_of_instruction_write_metadata_OF_VERSION_1_1"
  unfolding loci_validate_of_instruction_write_metadata_OF_VERSION_1_1_def by (intro x_intro; simp add: x_proved x_ok_imp_kx_ok)

definition loci_validate_of_instruction_OF_VERSION_1_1 :: validator where
  "loci_validate_of_instruction_OF_VERSION_1_1 =
     v_min 8 (v_wire_len_set 2 8
     (v_switch16 0
      [(4, loci_validate_of_instruction_apply_actions_OF_VERSION_1_1),
       (5, loci_validate_of_instruction_clear_actions_OF_VERSION_1_1),
       (0xffff, loci_validate_of_instruction_experimenter_OF_VERSION_1_1),
       (1, loci_validate_of_instruction_goto_table_OF_VERSION_1_1),
       (3, loci_validate_of_instruction_write_actions_OF_VERSION_1_1),
       (2, loci_validate_of_instruction_write_metadata_OF_VERSION_1_1)]
     v_done))"

lemma loci_validate_of_instruction_OF_VERSION_1_1_ok [v_proved]: "v_ok loci_validate_of_instruction_OF_VERSION_1_1"
  unfolding loci_validate_of_instruction_OF_VERSION_1_1_def by (intro v_intro; simp add: v_proved v_ok_imp_k_ok)

lemma loci_validate_of_instruction_OF_VERSION_1_1_exact [x_proved]: "x_ok 2 loci_validate_of_instruction_OF_VERSION_1_1"
  unfolding loci_validate_of_instruction_OF_VERSION_1_1_def by (intro x_intro; simp add: x_proved x_ok_imp_kx_ok)

definition loci_validate_of_list_instruction_OF_VERSION_1_1 :: "byte list \<Rightarrow> int \<Rightarrow> int \<Rightarrow> bool res" where
  "loci_validate_of_list_instruction_OF_VERSION_1_1 = v_list loci_validate_of_instruction_OF_VERSION_1_1"

interpretation instruction_1_1_list: list_element loci_validate_of_instruction_OF_VERSION_1_1
  by unfold_locales (rule loci_validate_of_instruction_OF_VERSION_1_1_ok)

lemma loci_validate_of_list_instruction_OF_VERSION_1_1_ok [v_proved]: "l_ok loci_validate_of_list_instruction_OF_VERSION_1_1"
  unfolding loci_validate_of_list_instruction_OF_VERSION_1_1_def by (rule instruction_1_1_list.l_ok_list)

definition loci_validate_of_flow_stats_entry_OF_VERSION_1_1 :: validator where
  "loci_validate_of_flow_stats_entry_OF_VERSION_1_1 =
     v_min 136 (v_wire_len_set 0 136
     (v_list_rest 136 loci_validate_of_list_instruction_OF_VERSION_1_1 v_done))"

lemma loci_validate_of_flow_stats_entry_OF_VERSION_1_1_ok [v_proved]: "v_ok loci_validate_of_flow_stats_entry_OF_VERSION_1_1"
  unfolding loci_validate_of_flow_stats_entry_OF_VERSION_1_1_def by (intro v_intro; simp add: v_proved v_ok_imp_k_ok)

lemma loci_validate_of_flow_stats_entry_OF_VERSION_1_1_exact [x_proved]: "x_ok 0 loci_validate_of_flow_stats_entry_OF_VERSION_1_1"
  unfolding loci_validate_of_flow_stats_entry_OF_VERSION_1_1_def by (intro x_intro; simp add: x_proved x_ok_imp_kx_ok)

definition loci_validate_of_list_flow_stats_entry_OF_VERSION_1_1 :: "byte list \<Rightarrow> int \<Rightarrow> int \<Rightarrow> bool res" where
  "loci_validate_of_list_flow_stats_entry_OF_VERSION_1_1 = v_list loci_validate_of_flow_stats_entry_OF_VERSION_1_1"

interpretation flow_stats_entry_1_1_list: list_element loci_validate_of_flow_stats_entry_OF_VERSION_1_1
  by unfold_locales (rule loci_validate_of_flow_stats_entry_OF_VERSION_1_1_ok)

lemma loci_validate_of_list_flow_stats_entry_OF_VERSION_1_1_ok [v_proved]: "l_ok loci_validate_of_list_flow_stats_entry_OF_VERSION_1_1"
  unfolding loci_validate_of_list_flow_stats_entry_OF_VERSION_1_1_def by (rule flow_stats_entry_1_1_list.l_ok_list)

definition loci_validate_of_bucket_OF_VERSION_1_1 :: validator where
  "loci_validate_of_bucket_OF_VERSION_1_1 =
     v_min 16 (v_wire_len_set 0 16
     (v_list_rest 16 loci_validate_of_list_action_OF_VERSION_1_1 v_done))"

lemma loci_validate_of_bucket_OF_VERSION_1_1_ok [v_proved]: "v_ok loci_validate_of_bucket_OF_VERSION_1_1"
  unfolding loci_validate_of_bucket_OF_VERSION_1_1_def by (intro v_intro; simp add: v_proved v_ok_imp_k_ok)

lemma loci_validate_of_bucket_OF_VERSION_1_1_exact [x_proved]: "x_ok 0 loci_validate_of_bucket_OF_VERSION_1_1"
  unfolding loci_validate_of_bucket_OF_VERSION_1_1_def by (intro x_intro; simp add: x_proved x_ok_imp_kx_ok)

definition loci_validate_of_list_bucket_OF_VERSION_1_1 :: "byte list \<Rightarrow> int \<Rightarrow> int \<Rightarrow> bool res" where
  "loci_validate_of_list_bucket_OF_VERSION_1_1 = v_list loci_validate_of_bucket_OF_VERSION_1_1"

interpretation bucket_1_1_list: list_element loci_validate_of_bucket_OF_VERSION_1_1
  by unfold_locales (rule loci_validate_of_bucket_OF_VERSION_1_1_ok)

lemma loci_validate_of_list_bucket_OF_VERSION_1_1_ok [v_proved]: "l_ok loci_validate_of_list_bucket_OF_VERSION_1_1"
  unfolding loci_validate_of_list_bucket_OF_VERSION_1_1_def by (rule bucket_1_1_list.l_ok_list)

definition loci_validate_of_group_desc_stats_entry_OF_VERSION_1_1 :: validator where
  "loci_validate_of_group_desc_stats_entry_OF_VERSION_1_1 =
     v_min 8 (v_wire_len_set 0 8
     (v_list_rest 8 loci_validate_of_list_bucket_OF_VERSION_1_1 v_done))"

lemma loci_validate_of_group_desc_stats_entry_OF_VERSION_1_1_ok [v_proved]: "v_ok loci_validate_of_group_desc_stats_entry_OF_VERSION_1_1"
  unfolding loci_validate_of_group_desc_stats_entry_OF_VERSION_1_1_def by (intro v_intro; simp add: v_proved v_ok_imp_k_ok)

lemma loci_validate_of_group_desc_stats_entry_OF_VERSION_1_1_exact [x_proved]: "x_ok 0 loci_validate_of_group_desc_stats_entry_OF_VERSION_1_1"
  unfolding loci_validate_of_group_desc_stats_entry_OF_VERSION_1_1_def by (intro x_intro; simp add: x_proved x_ok_imp_kx_ok)

definition loci_validate_of_list_group_desc_stats_entry_OF_VERSION_1_1 :: "byte list \<Rightarrow> int \<Rightarrow> int \<Rightarrow> bool res" where
  "loci_validate_of_list_group_desc_stats_entry_OF_VERSION_1_1 = v_list loci_validate_of_group_desc_stats_entry_OF_VERSION_1_1"

interpretation group_desc_stats_entry_1_1_list: list_element loci_validate_of_group_desc_stats_entry_OF_VERSION_1_1
  by unfold_locales (rule loci_validate_of_group_desc_stats_entry_OF_VERSION_1_1_ok)

lemma loci_validate_of_list_group_desc_stats_entry_OF_VERSION_1_1_ok [v_proved]: "l_ok loci_validate_of_list_group_desc_stats_entry_OF_VERSION_1_1"
  unfolding loci_validate_of_list_group_desc_stats_entry_OF_VERSION_1_1_def by (rule group_desc_stats_entry_1_1_list.l_ok_list)

definition loci_validate_of_bucket_counter_OF_VERSION_1_1 :: validator where
  "loci_validate_of_bucket_counter_OF_VERSION_1_1 =
     v_min 16 (v_set_len 16 v_done)"

lemma loci_validate_of_bucket_counter_OF_VERSION_1_1_ok [v_proved]: "v_ok loci_validate_of_bucket_counter_OF_VERSION_1_1"
  unfolding loci_validate_of_bucket_counter_OF_VERSION_1_1_def by (intro v_intro; simp add: v_proved v_ok_imp_k_ok)

definition loci_validate_of_list_bucket_counter_OF_VERSION_1_1 :: "byte list \<Rightarrow> int \<Rightarrow> int \<Rightarrow> bool res" where
  "loci_validate_of_list_bucket_counter_OF_VERSION_1_1 = v_list loci_validate_of_bucket_counter_OF_VERSION_1_1"

interpretation bucket_counter_1_1_list: list_element loci_validate_of_bucket_counter_OF_VERSION_1_1
  by unfold_locales (rule loci_validate_of_bucket_counter_OF_VERSION_1_1_ok)

lemma loci_validate_of_list_bucket_counter_OF_VERSION_1_1_ok [v_proved]: "l_ok loci_validate_of_list_bucket_counter_OF_VERSION_1_1"
  unfolding loci_validate_of_list_bucket_counter_OF_VERSION_1_1_def by (rule bucket_counter_1_1_list.l_ok_list)

definition loci_validate_of_group_stats_entry_OF_VERSION_1_1 :: validator where
  "loci_validate_of_group_stats_entry_OF_VERSION_1_1 =
     v_min 32 (v_wire_len_set 0 32
     (v_list_rest 32 loci_validate_of_list_bucket_counter_OF_VERSION_1_1 v_done))"

lemma loci_validate_of_group_stats_entry_OF_VERSION_1_1_ok [v_proved]: "v_ok loci_validate_of_group_stats_entry_OF_VERSION_1_1"
  unfolding loci_validate_of_group_stats_entry_OF_VERSION_1_1_def by (intro v_intro; simp add: v_proved v_ok_imp_k_ok)

lemma loci_validate_of_group_stats_entry_OF_VERSION_1_1_exact [x_proved]: "x_ok 0 loci_validate_of_group_stats_entry_OF_VERSION_1_1"
  unfolding loci_validate_of_group_stats_entry_OF_VERSION_1_1_def by (intro x_intro; simp add: x_proved x_ok_imp_kx_ok)

definition loci_validate_of_list_group_stats_entry_OF_VERSION_1_1 :: "byte list \<Rightarrow> int \<Rightarrow> int \<Rightarrow> bool res" where
  "loci_validate_of_list_group_stats_entry_OF_VERSION_1_1 = v_list loci_validate_of_group_stats_entry_OF_VERSION_1_1"

interpretation group_stats_entry_1_1_list: list_element loci_validate_of_group_stats_entry_OF_VERSION_1_1
  by unfold_locales (rule loci_validate_of_group_stats_entry_OF_VERSION_1_1_ok)

lemma loci_validate_of_list_group_stats_entry_OF_VERSION_1_1_ok [v_proved]: "l_ok loci_validate_of_list_group_stats_entry_OF_VERSION_1_1"
  unfolding loci_validate_of_list_group_stats_entry_OF_VERSION_1_1_def by (rule group_stats_entry_1_1_list.l_ok_list)

definition loci_validate_of_queue_prop_min_rate_OF_VERSION_1_1 :: validator where
  "loci_validate_of_queue_prop_min_rate_OF_VERSION_1_1 =
     v_min 16 (v_set_len 16 (v_wire_len 2 16 v_done))"

lemma loci_validate_of_queue_prop_min_rate_OF_VERSION_1_1_ok [v_proved]: "v_ok loci_validate_of_queue_prop_min_rate_OF_VERSION_1_1"
  unfolding loci_validate_of_queue_prop_min_rate_OF_VERSION_1_1_def by (intro v_intro; simp add: v_proved v_ok_imp_k_ok)

lemma loci_validate_of_queue_prop_min_rate_OF_VERSION_1_1_exact [x_proved]: "x_ok 2 loci_validate_of_queue_prop_min_rate_OF_VERSION_1_1"
  unfolding loci_validate_of_queue_prop_min_rate_OF_VERSION_1_1_def by (intro x_intro; simp add: x_proved x_ok_imp_kx_ok)

definition loci_validate_of_queue_prop_OF_VERSION_1_1 :: validator where
  "loci_validate_of_queue_prop_OF_VERSION_1_1 =
     v_min 8 (v_wire_len_set 2 8
     (v_switch16 0
      [(1, loci_validate_of_queue_prop_min_rate_OF_VERSION_1_1)]
     v_done))"

lemma loci_validate_of_queue_prop_OF_VERSION_1_1_ok [v_proved]: "v_ok loci_validate_of_queue_prop_OF_VERSION_1_1"
  unfolding loci_validate_of_queue_prop_OF_VERSION_1_1_def by (intro v_intro; simp add: v_proved v_ok_imp_k_ok)

lemma loci_validate_of_queue_prop_OF_VERSION_1_1_exact [x_proved]: "x_ok 2 loci_validate_of_queue_prop_OF_VERSION_1_1"
  unfolding loci_validate_of_queue_prop_OF_VERSION_1_1_def by (intro x_intro; simp add: x_proved x_ok_imp_kx_ok)

definition loci_validate_of_list_queue_prop_OF_VERSION_1_1 :: "byte list \<Rightarrow> int \<Rightarrow> int \<Rightarrow> bool res" where
  "loci_validate_of_list_queue_prop_OF_VERSION_1_1 = v_list loci_validate_of_queue_prop_OF_VERSION_1_1"

interpretation queue_prop_1_1_list: list_element loci_validate_of_queue_prop_OF_VERSION_1_1
  by unfold_locales (rule loci_validate_of_queue_prop_OF_VERSION_1_1_ok)

lemma loci_validate_of_list_queue_prop_OF_VERSION_1_1_ok [v_proved]: "l_ok loci_validate_of_list_queue_prop_OF_VERSION_1_1"
  unfolding loci_validate_of_list_queue_prop_OF_VERSION_1_1_def by (rule queue_prop_1_1_list.l_ok_list)

definition loci_validate_of_port_stats_entry_OF_VERSION_1_1 :: validator where
  "loci_validate_of_port_stats_entry_OF_VERSION_1_1 =
     v_min 104 (v_set_len 104 v_done)"

lemma loci_validate_of_port_stats_entry_OF_VERSION_1_1_ok [v_proved]: "v_ok loci_validate_of_port_stats_entry_OF_VERSION_1_1"
  unfolding loci_validate_of_port_stats_entry_OF_VERSION_1_1_def by (intro v_intro; simp add: v_proved v_ok_imp_k_ok)

definition loci_validate_of_list_port_stats_entry_OF_VERSION_1_1 :: "byte list \<Rightarrow> int \<Rightarrow> int \<Rightarrow> bool res" where
  "loci_validate_of_list_port_stats_entry_OF_VERSION_1_1 = v_list loci_validate_of_port_stats_entry_OF_VERSION_1_1"

interpretation port_stats_entry_1_1_list: list_element loci_validate_of_port_stats_entry_OF_VERSION_1_1
  by unfold_locales (rule loci_validate_of_port_stats_entry_OF_VERSION_1_1_ok)

lemma loci_validate_of_list_port_stats_entry_OF_VERSION_1_1_ok [v_proved]: "l_ok loci_validate_of_list_port_stats_entry_OF_VERSION_1_1"
  unfolding loci_validate_of_list_port_stats_entry_OF_VERSION_1_1_def by (rule port_stats_entry_1_1_list.l_ok_list)

definition loci_validate_of_packet_queue_OF_VERSION_1_1 :: validator where
  "loci_validate_of_packet_queue_OF_VERSION_1_1 =
     v_min 8 (v_wire_len_set 4 8
     (v_list_rest 8 loci_validate_of_list_queue_prop_OF_VERSION_1_1 v_done))"

lemma loci_validate_of_packet_queue_OF_VERSION_1_1_ok [v_proved]: "v_ok loci_validate_of_packet_queue_OF_VERSION_1_1"
  unfolding loci_validate_of_packet_queue_OF_VERSION_1_1_def by (intro v_intro; simp add: v_proved v_ok_imp_k_ok)

lemma loci_validate_of_packet_queue_OF_VERSION_1_1_exact [x_proved]: "x_ok 4 loci_validate_of_packet_queue_OF_VERSION_1_1"
  unfolding loci_validate_of_packet_queue_OF_VERSION_1_1_def by (intro x_intro; simp add: x_proved x_ok_imp_kx_ok)

definition loci_validate_of_list_packet_queue_OF_VERSION_1_1 :: "byte list \<Rightarrow> int \<Rightarrow> int \<Rightarrow> bool res" where
  "loci_validate_of_list_packet_queue_OF_VERSION_1_1 = v_list loci_validate_of_packet_queue_OF_VERSION_1_1"

interpretation packet_queue_1_1_list: list_element loci_validate_of_packet_queue_OF_VERSION_1_1
  by unfold_locales (rule loci_validate_of_packet_queue_OF_VERSION_1_1_ok)

lemma loci_validate_of_list_packet_queue_OF_VERSION_1_1_ok [v_proved]: "l_ok loci_validate_of_list_packet_queue_OF_VERSION_1_1"
  unfolding loci_validate_of_list_packet_queue_OF_VERSION_1_1_def by (rule packet_queue_1_1_list.l_ok_list)

definition loci_validate_of_queue_stats_entry_OF_VERSION_1_1 :: validator where
  "loci_validate_of_queue_stats_entry_OF_VERSION_1_1 =
     v_min 32 (v_set_len 32 v_done)"

lemma loci_validate_of_queue_stats_entry_OF_VERSION_1_1_ok [v_proved]: "v_ok loci_validate_of_queue_stats_entry_OF_VERSION_1_1"
  unfolding loci_validate_of_queue_stats_entry_OF_VERSION_1_1_def by (intro v_intro; simp add: v_proved v_ok_imp_k_ok)

definition loci_validate_of_list_queue_stats_entry_OF_VERSION_1_1 :: "byte list \<Rightarrow> int \<Rightarrow> int \<Rightarrow> bool res" where
  "loci_validate_of_list_queue_stats_entry_OF_VERSION_1_1 = v_list loci_validate_of_queue_stats_entry_OF_VERSION_1_1"

interpretation queue_stats_entry_1_1_list: list_element loci_validate_of_queue_stats_entry_OF_VERSION_1_1
  by unfold_locales (rule loci_validate_of_queue_stats_entry_OF_VERSION_1_1_ok)

lemma loci_validate_of_list_queue_stats_entry_OF_VERSION_1_1_ok [v_proved]: "l_ok loci_validate_of_list_queue_stats_entry_OF_VERSION_1_1"
  unfolding loci_validate_of_list_queue_stats_entry_OF_VERSION_1_1_def by (rule queue_stats_entry_1_1_list.l_ok_list)

definition loci_validate_of_table_stats_entry_OF_VERSION_1_1 :: validator where
  "loci_validate_of_table_stats_entry_OF_VERSION_1_1 =
     v_min 88 (v_set_len 88 v_done)"

lemma loci_validate_of_table_stats_entry_OF_VERSION_1_1_ok [v_proved]: "v_ok loci_validate_of_table_stats_entry_OF_VERSION_1_1"
  unfolding loci_validate_of_table_stats_entry_OF_VERSION_1_1_def by (intro v_intro; simp add: v_proved v_ok_imp_k_ok)

definition loci_validate_of_list_table_stats_entry_OF_VERSION_1_1 :: "byte list \<Rightarrow> int \<Rightarrow> int \<Rightarrow> bool res" where
  "loci_validate_of_list_table_stats_entry_OF_VERSION_1_1 = v_list loci_validate_of_table_stats_entry_OF_VERSION_1_1"

interpretation table_stats_entry_1_1_list: list_element loci_validate_of_table_stats_entry_OF_VERSION_1_1
  by unfold_locales (rule loci_validate_of_table_stats_entry_OF_VERSION_1_1_ok)

lemma loci_validate_of_list_table_stats_entry_OF_VERSION_1_1_ok [v_proved]: "l_ok loci_validate_of_list_table_stats_entry_OF_VERSION_1_1"
  unfolding loci_validate_of_list_table_stats_entry_OF_VERSION_1_1_def by (rule table_stats_entry_1_1_list.l_ok_list)

definition loci_validate_of_aggregate_stats_reply_OF_VERSION_1_1 :: validator where
  "loci_validate_of_aggregate_stats_reply_OF_VERSION_1_1 =
     v_min 40 (v_set_len 40 (v_wire_len 2 40 v_done))"

lemma loci_validate_of_aggregate_stats_reply_OF_VERSION_1_1_ok [v_proved]: "v_ok loci_validate_of_aggregate_stats_reply_OF_VERSION_1_1"
  unfolding loci_validate_of_aggregate_stats_reply_OF_VERSION_1_1_def by (intro v_intro; simp add: v_proved v_ok_imp_k_ok)

lemma loci_validate_of_aggregate_stats_reply_OF_VERSION_1_1_exact [x_proved]: "x_ok 2 loci_validate_of_aggregate_stats_reply_OF_VERSION_1_1"
  unfolding loci_validate_of_aggregate_stats_reply_OF_VERSION_1_1_def by (intro x_intro; simp add: x_proved x_ok_imp_kx_ok)

definition loci_validate_of_bsn_stats_reply_OF_VERSION_1_1 :: validator where
  "loci_validate_of_bsn_stats_reply_OF_VERSION_1_1 =
     v_min 24 (v_wire_len_set 2 24
     (v_switch32 20
      []
     v_done))"

lemma loci_validate_of_bsn_stats_reply_OF_VERSION_1_1_ok [v_proved]: "v_ok loci_validate_of_bsn_stats_reply_OF_VERSION_1_1"
  unfolding loci_validate_of_bsn_stats_reply_OF_VERSION_1_1_def by (intro v_intro; simp add: v_proved v_ok_imp_k_ok)

lemma loci_validate_of_bsn_stats_reply_OF_VERSION_1_1_exact [x_proved]: "x_ok 2 loci_validate_of_bsn_stats_reply_OF_VERSION_1_1"
  unfolding loci_validate_of_bsn_stats_reply_OF_VERSION_1_1_def by (intro x_intro; simp add: x_proved x_ok_imp_kx_ok)

definition loci_validate_of_experimenter_stats_reply_OF_VERSION_1_1 :: validator where
  "loci_validate_of_experimenter_stats_reply_OF_VERSION_1_1 =
     v_min 24 (v_wire_len_set 2 24
     (v_switch32 16
      [(0x5c16c7, loci_validate_of_bsn_stats_reply_OF_VERSION_1_1)]
     v_done))"

lemma loci_validate_of_experimenter_stats_reply_OF_VERSION_1_1_ok [v_proved]: "v_ok loci_validate_of_experimenter_stats_reply_OF_VERSION_1_1"
  unfolding loci_validate_of_experimenter_stats_reply_OF_VERSION_1_1_def by (intro v_intro; simp add: v_proved v_ok_imp_k_ok)

lemma loci_validate_of_experimenter_stats_reply_OF_VERSION_1_1_exact [x_proved]: "x_ok 2 loci_validate_of_experimenter_stats_reply_OF_VERSION_1_1"
  unfolding loci_validate_of_experimenter_stats_reply_OF_VERSION_1_1_def by (intro x_intro; simp add: x_proved x_ok_imp_kx_ok)

definition loci_validate_of_desc_stats_reply_OF_VERSION_1_1 :: validator where
  "loci_validate_of_desc_stats_reply_OF_VERSION_1_1 =
     v_min 1072 (v_set_len 1072 (v_wire_len 2 1072 v_done))"

lemma loci_validate_of_desc_stats_reply_OF_VERSION_1_1_ok [v_proved]: "v_ok loci_validate_of_desc_stats_reply_OF_VERSION_1_1"
  unfolding loci_validate_of_desc_stats_reply_OF_VERSION_1_1_def by (intro v_intro; simp add: v_proved v_ok_imp_k_ok)

lemma loci_validate_of_desc_stats_reply_OF_VERSION_1_1_exact [x_proved]: "x_ok 2 loci_validate_of_desc_stats_reply_OF_VERSION_1_1"
  unfolding loci_validate_of_desc_stats_reply_OF_VERSION_1_1_def by (intro x_intro; simp add: x_proved x_ok_imp_kx_ok)

definition loci_validate_of_flow_stats_reply_OF_VERSION_1_1 :: validator where
  "loci_validate_of_flow_stats_reply_OF_VERSION_1_1 =
     v_min 16 (v_wire_len_set 2 16
     (v_list_rest 16 loci_validate_of_list_flow_stats_entry_OF_VERSION_1_1 v_done))"

lemma loci_validate_of_flow_stats_reply_OF_VERSION_1_1_ok [v_proved]: "v_ok loci_validate_of_flow_stats_reply_OF_VERSION_1_1"
  unfolding loci_validate_of_flow_stats_reply_OF_VERSION_1_1_def by (intro v_intro; simp add: v_proved v_ok_imp_k_ok)

lemma loci_validate_of_flow_stats_reply_OF_VERSION_1_1_exact [x_proved]: "x_ok 2 loci_validate_of_flow_stats_reply_OF_VERSION_1_1"
  unfolding loci_validate_of_flow_stats_reply_OF_VERSION_1_1_def by (intro x_intro; simp add: x_proved x_ok_imp_kx_ok)

definition loci_validate_of_group_desc_stats_reply_OF_VERSION_1_1 :: validator where
  "loci_validate_of_group_desc_stats_reply_OF_VERSION_1_1 =
     v_min 16 (v_wire_len_set 2 16
     (v_list_rest 16 loci_validate_of_list_group_desc_stats_entry_OF_VERSION_1_1 v_done))"

lemma loci_validate_of_group_desc_stats_reply_OF_VERSION_1_1_ok [v_proved]: "v_ok loci_validate_of_group_desc_stats_reply_OF_VERSION_1_1"
  unfolding loci_validate_of_group_desc_stats_reply_OF_VERSION_1_1_def by (intro v_intro; simp add: v_proved v_ok_imp_k_ok)

lemma loci_validate_of_group_desc_stats_reply_OF_VERSION_1_1_exact [x_proved]: "x_ok 2 loci_validate_of_group_desc_stats_reply_OF_VERSION_1_1"
  unfolding loci_validate_of_group_desc_stats_reply_OF_VERSION_1_1_def by (intro x_intro; simp add: x_proved x_ok_imp_kx_ok)

definition loci_validate_of_group_stats_reply_OF_VERSION_1_1 :: validator where
  "loci_validate_of_group_stats_reply_OF_VERSION_1_1 =
     v_min 16 (v_wire_len_set 2 16
     (v_list_rest 16 loci_validate_of_list_group_stats_entry_OF_VERSION_1_1 v_done))"

lemma loci_validate_of_group_stats_reply_OF_VERSION_1_1_ok [v_proved]: "v_ok loci_validate_of_group_stats_reply_OF_VERSION_1_1"
  unfolding loci_validate_of_group_stats_reply_OF_VERSION_1_1_def by (intro v_intro; simp add: v_proved v_ok_imp_k_ok)

lemma loci_validate_of_group_stats_reply_OF_VERSION_1_1_exact [x_proved]: "x_ok 2 loci_validate_of_group_stats_reply_OF_VERSION_1_1"
  unfolding loci_validate_of_group_stats_reply_OF_VERSION_1_1_def by (intro x_intro; simp add: x_proved x_ok_imp_kx_ok)

definition loci_validate_of_port_stats_reply_OF_VERSION_1_1 :: validator where
  "loci_validate_of_port_stats_reply_OF_VERSION_1_1 =
     v_min 16 (v_wire_len_set 2 16
     (v_list_rest 16 loci_validate_of_list_port_stats_entry_OF_VERSION_1_1 v_done))"

lemma loci_validate_of_port_stats_reply_OF_VERSION_1_1_ok [v_proved]: "v_ok loci_validate_of_port_stats_reply_OF_VERSION_1_1"
  unfolding loci_validate_of_port_stats_reply_OF_VERSION_1_1_def by (intro v_intro; simp add: v_proved v_ok_imp_k_ok)

lemma loci_validate_of_port_stats_reply_OF_VERSION_1_1_exact [x_proved]: "x_ok 2 loci_validate_of_port_stats_reply_OF_VERSION_1_1"
  unfolding loci_validate_of_port_stats_reply_OF_VERSION_1_1_def by (intro x_intro; simp add: x_proved x_ok_imp_kx_ok)

definition loci_validate_of_queue_stats_reply_OF_VERSION_1_1 :: validator where
  "loci_validate_of_queue_stats_reply_OF_VERSION_1_1 =
     v_min 16 (v_wire_len_set 2 16
     (v_list_rest 16 loci_validate_of_list_queue_stats_entry_OF_VERSION_1_1 v_done))"

lemma loci_validate_of_queue_stats_reply_OF_VERSION_1_1_ok [v_proved]: "v_ok loci_validate_of_queue_stats_reply_OF_VERSION_1_1"
  unfolding loci_validate_of_queue_stats_reply_OF_VERSION_1_1_def by (intro v_intro; simp add: v_proved v_ok_imp_k_ok)

lemma loci_validate_of_queue_stats_reply_OF_VERSION_1_1_exact [x_proved]: "x_ok 2 loci_validate_of_queue_stats_reply_OF_VERSION_1_1"
  unfolding loci_validate_of_queue_stats_reply_OF_VERSION_1_1_def by (intro x_intro; simp add: x_proved x_ok_imp_kx_ok)

definition loci_validate_of_table_stats_reply_OF_VERSION_1_1 :: validator where
  "loci_validate_of_table_stats_reply_OF_VERSION_1_1 =
     v_min 16 (v_wire_len_set 2 16
     (v_list_rest 16 loci_validate_of_list_table_stats_entry_OF_VERSION_1_1 v_done))"

lemma loci_validate_of_table_stats_reply_OF_VERSION_1_1_ok [v_proved]: "v_ok loci_validate_of_table_stats_reply_OF_VERSION_1_1"
  unfolding loci_validate_of_table_stats_reply_OF_VERSION_1_1_def by (intro v_intro; simp add: v_proved v_ok_imp_k_ok)

lemma loci_validate_of_table_stats_reply_OF_VERSION_1_1_exact [x_proved]: "x_ok 2 loci_validate_of_table_stats_reply_OF_VERSION_1_1"
  unfolding loci_validate_of_table_stats_reply_OF_VERSION_1_1_def by (intro x_intro; simp add: x_proved x_ok_imp_kx_ok)

definition loci_validate_of_stats_reply_OF_VERSION_1_1 :: validator where
  "loci_validate_of_stats_reply_OF_VERSION_1_1 =
     v_min 16 (v_wire_len_set 2 16
     (v_switch16 8
      [(2, loci_validate_of_aggregate_stats_reply_OF_VERSION_1_1),
       (0xffff, loci_validate_of_experimenter_stats_reply_OF_VERSION_1_1),
       (0, loci_validate_of_desc_stats_reply_OF_VERSION_1_1),
       (1, loci_validate_of_flow_stats_reply_OF_VERSION_1_1),
       (7, loci_validate_of_group_desc_stats_reply_OF_VERSION_1_1),
       (6, loci_validate_of_group_stats_reply_OF_VERSION_1_1),
       (4, loci_validate_of_port_stats_reply_OF_VERSION_1_1),
       (5, loci_validate_of_queue_stats_reply_OF_VERSION_1_1),
       (3, loci_validate_of_table_stats_reply_OF_VERSION_1_1)]
     v_done))"

lemma loci_validate_of_stats_reply_OF_VERSION_1_1_ok [v_proved]: "v_ok loci_validate_of_stats_reply_OF_VERSION_1_1"
  unfolding loci_validate_of_stats_reply_OF_VERSION_1_1_def by (intro v_intro; simp add: v_proved v_ok_imp_k_ok)

lemma loci_validate_of_stats_reply_OF_VERSION_1_1_exact [x_proved]: "x_ok 2 loci_validate_of_stats_reply_OF_VERSION_1_1"
  unfolding loci_validate_of_stats_reply_OF_VERSION_1_1_def by (intro x_intro; simp add: x_proved x_ok_imp_kx_ok)

definition loci_validate_of_aggregate_stats_request_OF_VERSION_1_1 :: validator where
  "loci_validate_of_aggregate_stats_request_OF_VERSION_1_1 =
     v_min 136 (v_set_len 136 (v_wire_len 2 136 v_done))"

lemma loci_validate_of_aggregate_stats_request_OF_VERSION_1_1_ok [v_proved]: "v_ok loci_validate_of_aggregate_stats_request_OF_VERSION_1_1"
  unfolding loci_validate_of_aggregate_stats_request_OF_VERSION_1_1_def by (intro v_intro; simp add: v_proved v_ok_imp_k_ok)

lemma loci_validate_of_aggregate_stats_request_OF_VERSION_1_1_exact [x_proved]: "x_ok 2 loci_validate_of_aggregate_stats_request_OF_VERSION_1_1"
  unfolding loci_validate_of_aggregate_stats_request_OF_VERSION_1_1_def by (intro x_intro; simp add: x_proved x_ok_imp_kx_ok)

definition loci_validate_of_bsn_stats_request_OF_VERSION_1_1 :: validator where
  "loci_validate_of_bsn_stats_request_OF_VERSION_1_1 =
     v_min 24 (v_wire_len_set 2 24
     (v_switch32 20
      []
     v_done))"

lemma loci_validate_of_bsn_stats_request_OF_VERSION_1_1_ok [v_proved]: "v_ok loci_validate_of_bsn_stats_request_OF_VERSION_1_1"
  unfolding loci_validate_of_bsn_stats_request_OF_VERSION_1_1_def by (intro v_intro; simp add: v_proved v_ok_imp_k_ok)

lemma loci_validate_of_bsn_stats_request_OF_VERSION_1_1_exact [x_proved]: "x_ok 2 loci_validate_of_bsn_stats_request_OF_VERSION_1_1"
  unfolding loci_validate_of_bsn_stats_request_OF_VERSION_1_1_def by (intro x_intro; simp add: x_proved x_ok_imp_kx_ok)

definition loci_validate_of_experimenter_stats_request_OF_VERSION_1_1 :: validator where
  "loci_validate_of_experimenter_stats_request_OF_VERSION_1_1 =
     v_min 24 (v_wire_len_set 2 24
     (v_switch32 16
      [(0x5c16c7, loci_validate_of_bsn_stats_request_OF_VERSION_1_1)]
     v_done))"

lemma loci_validate_of_experimenter_stats_request_OF_VERSION_1_1_ok [v_proved]: "v_ok loci_validate_of_experimenter_stats_request_OF_VERSION_1_1"
  unfolding loci_validate_of_experimenter_stats_request_OF_VERSION_1_1_def by (intro v_intro; simp add: v_proved v_ok_imp_k_ok)

lemma loci_validate_of_experimenter_stats_request_OF_VERSION_1_1_exact [x_proved]: "x_ok 2 loci_validate_of_experimenter_stats_request_OF_VERSION_1_1"
  unfolding loci_validate_of_experimenter_stats_request_OF_VERSION_1_1_def by (intro x_intro; simp add: x_proved x_ok_imp_kx_ok)

definition loci_validate_of_desc_stats_request_OF_VERSION_1_1 :: validator where
  "loci_validate_of_desc_stats_request_OF_VERSION_1_1 =
     v_min 16 (v_set_len 16 (v_wire_len 2 16 v_done))"

lemma loci_validate_of_desc_stats_request_OF_VERSION_1_1_ok [v_proved]: "v_ok loci_validate_of_desc_stats_request_OF_VERSION_1_1"
  unfolding loci_validate_of_desc_stats_request_OF_VERSION_1_1_def by (intro v_intro; simp add: v_proved v_ok_imp_k_ok)

lemma loci_validate_of_desc_stats_request_OF_VERSION_1_1_exact [x_proved]: "x_ok 2 loci_validate_of_desc_stats_request_OF_VERSION_1_1"
  unfolding loci_validate_of_desc_stats_request_OF_VERSION_1_1_def by (intro x_intro; simp add: x_proved x_ok_imp_kx_ok)

definition loci_validate_of_flow_stats_request_OF_VERSION_1_1 :: validator where
  "loci_validate_of_flow_stats_request_OF_VERSION_1_1 =
     v_min 136 (v_set_len 136 (v_wire_len 2 136 v_done))"

lemma loci_validate_of_flow_stats_request_OF_VERSION_1_1_ok [v_proved]: "v_ok loci_validate_of_flow_stats_request_OF_VERSION_1_1"
  unfolding loci_validate_of_flow_stats_request_OF_VERSION_1_1_def by (intro v_intro; simp add: v_proved v_ok_imp_k_ok)

lemma loci_validate_of_flow_stats_request_OF_VERSION_1_1_exact [x_proved]: "x_ok 2 loci_validate_of_flow_stats_request_OF_VERSION_1_1"
  unfolding loci_validate_of_flow_stats_request_OF_VERSION_1_1_def by (intro x_intro; simp add: x_proved x_ok_imp_kx_ok)

definition loci_validate_of_group_desc_stats_request_OF_VERSION_1_1 :: validator where
  "loci_validate_of_group_desc_stats_request_OF_VERSION_1_1 =
     v_min 16 (v_set_len 16 (v_wire_len 2 16 v_done))"

lemma loci_validate_of_group_desc_stats_request_OF_VERSION_1_1_ok [v_proved]: "v_ok loci_validate_of_group_desc_stats_request_OF_VERSION_1_1"
  unfolding loci_validate_of_group_desc_stats_request_OF_VERSION_1_1_def by (intro v_intro; simp add: v_proved v_ok_imp_k_ok)

lemma loci_validate_of_group_desc_stats_request_OF_VERSION_1_1_exact [x_proved]: "x_ok 2 loci_validate_of_group_desc_stats_request_OF_VERSION_1_1"
  unfolding loci_validate_of_group_desc_stats_request_OF_VERSION_1_1_def by (intro x_intro; simp add: x_proved x_ok_imp_kx_ok)

definition loci_validate_of_group_stats_request_OF_VERSION_1_1 :: validator where
  "loci_validate_of_group_stats_request_OF_VERSION_1_1 =
     v_min 24 (v_set_len 24 (v_wire_len 2 24 v_done))"

lemma loci_validate_of_group_stats_request_OF_VERSION_1_1_ok [v_proved]: "v_ok loci_validate_of_group_stats_request_OF_VERSION_1_1"
  unfolding loci_validate_of_group_stats_request_OF_VERSION_1_1_def by (intro v_intro; simp add: v_proved v_ok_imp_k_ok)

lemma loci_validate_of_group_stats_request_OF_VERSION_1_1_exact [x_proved]: "x_ok 2 loci_validate_of_group_stats_request_OF_VERSION_1_1"
  unfolding loci_validate_of_group_stats_request_OF_VERSION_1_1_def by (intro x_intro; simp add: x_proved x_ok_imp_kx_ok)

definition loci_validate_of_port_stats_request_OF_VERSION_1_1 :: validator where
  "loci_validate_of_port_stats_request_OF_VERSION_1_1 =
     v_min 24 (v_set_len 24 (v_wire_len 2 24 v_done))"

lemma loci_validate_of_port_stats_request_OF_VERSION_1_1_ok [v_proved]: "v_ok loci_validate_of_port_stats_request_OF_VERSION_1_1"
  unfolding loci_validate_of_port_stats_request_OF_VERSION_1_1_def by (intro v_intro; simp add: v_proved v_ok_imp_k_ok)

lemma loci_validate_of_port_stats_request_OF_VERSION_1_1_exact [x_proved]: "x_ok 2 loci_validate_of_port_stats_request_OF_VERSION_1_1"
  unfolding loci_validate_of_port_stats_request_OF_VERSION_1_1_def by (intro x_intro; simp add: x_proved x_ok_imp_kx_ok)

definition loci_validate_of_queue_stats_request_OF_VERSION_1_1 :: validator where
  "loci_validate_of_queue_stats_request_OF_VERSION_1_1 =
     v_min 24 (v_set_len 24 (v_wire_len 2 24 v_done))"

lemma loci_validate_of_queue_stats_request_OF_VERSION_1_1_ok [v_proved]: "v_ok loci_validate_of_queue_stats_request_OF_VERSION_1_1"
  unfolding loci_validate_of_queue_stats_request_OF_VERSION_1_1_def by (intro v_intro; simp add: v_proved v_ok_imp_k_ok)

lemma loci_validate_of_queue_stats_request_OF_VERSION_1_1_exact [x_proved]: "x_ok 2 loci_validate_of_queue_stats_request_OF_VERSION_1_1"
  unfolding loci_validate_of_queue_stats_request_OF_VERSION_1_1_def by (intro x_intro; simp add: x_proved x_ok_imp_kx_ok)

definition loci_validate_of_table_stats_request_OF_VERSION_1_1 :: validator where
  "loci_validate_of_table_stats_request_OF_VERSION_1_1 =
     v_min 16 (v_set_len 16 (v_wire_len 2 16 v_done))"

lemma loci_validate_of_table_stats_request_OF_VERSION_1_1_ok [v_proved]: "v_ok loci_validate_of_table_stats_request_OF_VERSION_1_1"
  unfolding loci_validate_of_table_stats_request_OF_VERSION_1_1_def by (intro v_intro; simp add: v_proved v_ok_imp_k_ok)

lemma loci_validate_of_table_stats_request_OF_VERSION_1_1_exact [x_proved]: "x_ok 2 loci_validate_of_table_stats_request_OF_VERSION_1_1"
  unfolding loci_validate_of_table_stats_request_OF_VERSION_1_1_def by (intro x_intro; simp add: x_proved x_ok_imp_kx_ok)

definition loci_validate_of_stats_request_OF_VERSION_1_1 :: validator where
  "loci_validate_of_stats_request_OF_VERSION_1_1 =
     v_min 16 (v_wire_len_set 2 16
     (v_switch16 8
      [(2, loci_validate_of_aggregate_stats_request_OF_VERSION_1_1),
       (0xffff, loci_validate_of_experimenter_stats_request_OF_VERSION_1_1),
       (0, loci_validate_of_desc_stats_request_OF_VERSION_1_1),
       (1, loci_validate_of_flow_stats_request_OF_VERSION_1_1),
       (7, loci_validate_of_group_desc_stats_request_OF_VERSION_1_1),
       (6, loci_validate_of_group_stats_request_OF_VERSION_1_1),
       (4, loci_validate_of_port_stats_request_OF_VERSION_1_1),
       (5, loci_validate_of_queue_stats_request_OF_VERSION_1_1),
       (3, loci_validate_of_table_stats_request_OF_VERSION_1_1)]
     v_done))"

lemma loci_validate_of_stats_request_OF_VERSION_1_1_ok [v_proved]: "v_ok loci_validate_of_stats_request_OF_VERSION_1_1"
  unfolding loci_validate_of_stats_request_OF_VERSION_1_1_def by (intro v_intro; simp add: v_proved v_ok_imp_k_ok)

lemma loci_validate_of_stats_request_OF_VERSION_1_1_exact [x_proved]: "x_ok 2 loci_validate_of_stats_request_OF_VERSION_1_1"
  unfolding loci_validate_of_stats_request_OF_VERSION_1_1_def by (intro x_intro; simp add: x_proved x_ok_imp_kx_ok)

definition loci_validate_of_bad_action_error_msg_OF_VERSION_1_1 :: validator where
  "loci_validate_of_bad_action_error_msg_OF_VERSION_1_1 =
     v_min 12 (v_wire_len_set 2 12 v_done)"

lemma loci_validate_of_bad_action_error_msg_OF_VERSION_1_1_ok [v_proved]: "v_ok loci_validate_of_bad_action_error_msg_OF_VERSION_1_1"
  unfolding loci_validate_of_bad_action_error_msg_OF_VERSION_1_1_def by (intro v_intro; simp add: v_proved v_ok_imp_k_ok)

lemma loci_validate_of_bad_action_error_msg_OF_VERSION_1_1_exact [x_proved]: "x_ok 2 loci_validate_of_bad_action_error_msg_OF_VERSION_1_1"
  unfolding loci_validate_of_bad_action_error_msg_OF_VERSION_1_1_def by (intro x_intro; simp add: x_proved x_ok_imp_kx_ok)

definition loci_validate_of_bad_instruction_error_msg_OF_VERSION_1_1 :: validator where
  "loci_validate_of_bad_instruction_error_msg_OF_VERSION_1_1 =
     v_min 12 (v_wire_len_set 2 12 v_done)"

lemma loci_validate_of_bad_instruction_error_msg_OF_VERSION_1_1_ok [v_proved]: "v_ok loci_validate_of_bad_instruction_error_msg_OF_VERSION_1_1"
  unfolding loci_validate_of_bad_instruction_error_msg_OF_VERSION_1_1_def by (intro v_intro; simp add: v_proved v_ok_imp_k_ok)

lemma loci_validate_of_bad_instruction_error_msg_OF_VERSION_1_1_exact [x_proved]: "x_ok 2 loci_validate_of_bad_instruction_error_msg_OF_VERSION_1_1"
  unfolding loci_validate_of_bad_instruction_error_msg_OF_VERSION_1_1_def by (intro x_intro; simp add: x_proved x_ok_imp_kx_ok)

definition loci_validate_of_bad_match_error_msg_OF_VERSION_1_1 :: validator where
  "loci_validate_of_bad_match_error_msg_OF_VERSION_1_1 =
     v_min 12 (v_wire_len_set 2 12 v_done)"

lemma loci_validate_of_bad_match_error_msg_OF_VERSION_1_1_ok [v_proved]: "v_ok loci_validate_of_bad_match_error_msg_OF_VERSION_1_1"
  unfolding loci_validate_of_bad_match_error_msg_OF_VERSION_1_1_def by (intro v_intro; simp add: v_proved v_ok_imp_k_ok)

lemma loci_validate_of_bad_match_error_msg_OF_VERSION_1_1_exact [x_proved]: "x_ok 2 loci_validate_of_bad_match_error_msg_OF_VERSION_1_1"
  unfolding loci_validate_of_bad_match_error_msg_OF_VERSION_1_1_def by (intro x_intro; simp add: x_proved x_ok_imp_kx_ok)

definition loci_validate_of_bad_request_error_msg_OF_VERSION_1_1 :: validator where
  "loci_validate_of_bad_request_error_msg_OF_VERSION_1_1 =
     v_min 12 (v_wire_len_set 2 12 v_done)"

lemma loci_validate_of_bad_request_error_msg_OF_VERSION_1_1_ok [v_proved]: "v_ok loci_validate_of_bad_request_error_msg_OF_VERSION_1_1"
  unfolding loci_validate_of_bad_request_error_msg_OF_VERSION_1_1_def by (intro v_intro; simp add: v_proved v_ok_imp_k_ok)

lemma loci_validate_of_bad_request_error_msg_OF_VERSION_1_1_exact [x_proved]: "x_ok 2 loci_validate_of_bad_request_error_msg_OF_VERSION_1_1"
  unfolding loci_validate_of_bad_request_error_msg_OF_VERSION_1_1_def by (intro x_intro; simp add: x_proved x_ok_imp_kx_ok)

definition loci_validate_of_flow_mod_failed_error_msg_OF_VERSION_1_1 :: validator where
  "loci_validate_of_flow_mod_failed_error_msg_OF_VERSION_1_1 =
     v_min 12 (v_wire_len_set 2 12 v_done)"

lemma loci_validate_of_flow_mod_failed_error_msg_OF_VERSION_1_1_ok [v_proved]: "v_ok loci_validate_of_flow_mod_failed_error_msg_OF_VERSION_1_1"
  unfolding loci_validate_of_flow_mod_failed_error_msg_OF_VERSION_1_1_def by (intro v_intro; simp add: v_proved v_ok_imp_k_ok)

lemma loci_validate_of_flow_mod_failed_error_msg_OF_VERSION_1_1_exact [x_proved]: "x_ok 2 loci_validate_of_flow_mod_failed_error_msg_OF_VERSION_1_1"
  unfolding loci_validate_of_flow_mod_failed_error_msg_OF_VERSION_1_1_def by (intro x_intro; simp add: x_proved x_ok_imp_kx_ok)

definition loci_validate_of_group_mod_failed_error_msg_OF_VERSION_1_1 :: validator where
  "loci_validate_of_group_mod_failed_error_msg_OF_VERSION_1_1 =
     v_min 12 (v_wire_len_set 2 12 v_done)"

lemma loci_validate_of_group_mod_failed_error_msg_OF_VERSION_1_1_ok [v_proved]: "v_ok loci_validate_of_group_mod_failed_error_msg_OF_VERSION_1_1"
  unfolding loci_validate_of_group_mod_failed_error_msg_OF_VERSION_1_1_def by (intro v_intro; simp add: v_proved v_ok_imp_k_ok)

lemma loci_validate_of_group_mod_failed_error_msg_OF_VERSION_1_1_exact [x_proved]: "x_ok 2 loci_validate_of_group_mod_failed_error_msg_OF_VERSION_1_1"
  unfolding loci_validate_of_group_mod_failed_error_msg_OF_VERSION_1_1_def by (intro x_intro; simp add: x_proved x_ok_imp_kx_ok)

definition loci_validate_of_hello_failed_error_msg_OF_VERSION_1_1 :: validator where
  "loci_validate_of_hello_failed_error_msg_OF_VERSION_1_1 =
     v_min 12 (v_wire_len_set 2 12 v_done)"

lemma loci_validate_of_hello_failed_error_msg_OF_VERSION_1_1_ok [v_proved]: "v_ok loci_validate_of_hello_failed_error_msg_OF_VERSION_1_1"
  unfolding loci_validate_of_hello_failed_error_msg_OF_VERSION_1_1_def by (intro v_intro; simp add: v_proved v_ok_imp_k_ok)

lemma loci_validate_of_hello_failed_error_msg_OF_VERSION_1_1_exact [x_proved]: "x_ok 2 loci_validate_of_hello_failed_error_msg_OF_VERSION_1_1"
  unfolding loci_validate_of_hello_failed_error_msg_OF_VERSION_1_1_def by (intro x_intro; simp add: x_proved x_ok_imp_kx_ok)

definition loci_validate_of_port_mod_failed_error_msg_OF_VERSION_1_1 :: validator where
  "loci_validate_of_port_mod_failed_error_msg_OF_VERSION_1_1 =
     v_min 12 (v_wire_len_set 2 12 v_done)"

lemma loci_validate_of_port_mod_failed_error_msg_OF_VERSION_1_1_ok [v_proved]: "v_ok loci_validate_of_port_mod_failed_error_msg_OF_VERSION_1_1"
  unfolding loci_validate_of_port_mod_failed_error_msg_OF_VERSION_1_1_def by (intro v_intro; simp add: v_proved v_ok_imp_k_ok)

lemma loci_validate_of_port_mod_failed_error_msg_OF_VERSION_1_1_exact [x_proved]: "x_ok 2 loci_validate_of_port_mod_failed_error_msg_OF_VERSION_1_1"
  unfolding loci_validate_of_port_mod_failed_error_msg_OF_VERSION_1_1_def by (intro x_intro; simp add: x_proved x_ok_imp_kx_ok)

definition loci_validate_of_queue_op_failed_error_msg_OF_VERSION_1_1 :: validator where
  "loci_validate_of_queue_op_failed_error_msg_OF_VERSION_1_1 =
     v_min 12 (v_wire_len_set 2 12 v_done)"

lemma loci_validate_of_queue_op_failed_error_msg_OF_VERSION_1_1_ok [v_proved]: "v_ok loci_validate_of_queue_op_failed_error_msg_OF_VERSION_1_1"
  unfolding loci_validate_of_queue_op_failed_error_msg_OF_VERSION_1_1_def by (intro v_intro; simp add: v_proved v_ok_imp_k_ok)

lemma loci_validate_of_queue_op_failed_error_msg_OF_VERSION_1_1_exact [x_proved]: "x_ok 2 loci_validate_of_queue_op_failed_error_msg_OF_VERSION_1_1"
  unfolding loci_validate_of_queue_op_failed_error_msg_OF_VERSION_1_1_def by (intro x_intro; simp add: x_proved x_ok_imp_kx_ok)

definition loci_validate_of_switch_config_failed_error_msg_OF_VERSION_1_1 :: validator where
  "loci_validate_of_switch_config_failed_error_msg_OF_VERSION_1_1 =
     v_min 12 (v_wire_len_set 2 12 v_done)"

lemma loci_validate_of_switch_config_failed_error_msg_OF_VERSION_1_1_ok [v_proved]: "v_ok loci_validate_of_switch_config_failed_error_msg_OF_VERSION_1_1"
  unfolding loci_validate_of_switch_config_failed_error_msg_OF_VERSION_1_1_def by (intro v_intro; simp add: v_proved v_ok_imp_k_ok)

lemma loci_validate_of_switch_config_failed_error_msg_OF_VERSION_1_1_exact [x_proved]: "x_ok 2 loci_validate_of_switch_config_failed_error_msg_OF_VERSION_1_1"
  unfolding loci_validate_of_switch_config_failed_error_msg_OF_VERSION_1_1_def by (intro x_intro; simp add: x_proved x_ok_imp_kx_ok)

definition loci_validate_of_table_mod_failed_error_msg_OF_VERSION_1_1 :: validator where
  "loci_validate_of_table_mod_failed_error_msg_OF_VERSION_1_1 =
     v_min 12 (v_wire_len_set 2 12 v_done)"

lemma loci_validate_of_table_mod_failed_error_msg_OF_VERSION_1_1_ok [v_proved]: "v_ok loci_validate_of_table_mod_failed_error_msg_OF_VERSION_1_1"
  unfolding loci_validate_of_table_mod_failed_error_msg_OF_VERSION_1_1_def by (intro v_intro; simp add: v_proved v_ok_imp_k_ok)

lemma loci_validate_of_table_mod_failed_error_msg_OF_VERSION_1_1_exact [x_proved]: "x_ok 2 loci_validate_of_table_mod_failed_error_msg_OF_VERSION_1_1"
  unfolding loci_validate_of_table_mod_failed_error_msg_OF_VERSION_1_1_def by (intro x_intro; simp add: x_proved x_ok_imp_kx_ok)

definition loci_validate_of_error_msg_OF_VERSION_1_1 :: validator where
  "loci_validate_of_error_msg_OF_VERSION_1_1 =
     v_min 10 (v_wire_len_set 2 10
     (v_switch16 8
      [(2, loci_validate_of_bad_action_error_msg_OF_VERSION_1_1),
       (3, loci_validate_of_bad_instruction_error_msg_OF_VERSION_1_1),
       (4, loci_validate_of_bad_match_error_msg_OF_VERSION_1_1),
       (1, loci_validate_of_bad_request_error_msg_OF_VERSION_1_1),
       (5, loci_validate_of_flow_mod_failed_error_msg_OF_VERSION_1_1),
       (6, loci_validate_of_group_mod_failed_error_msg_OF_VERSION_1_1),
       (0, loci_validate_of_hello_failed_error_msg_OF_VERSION_1_1),
       (7, loci_validate_of_port_mod_failed_error_msg_OF_VERSION_1_1),
       (9, loci_validate_of_queue_op_failed_error_msg_OF_VERSION_1_1),
       (0xa, loci_validate_of_switch_config_failed_error_msg_OF_VERSION_1_1),
       (8, loci_validate_of_table_mod_failed_error_msg_OF_VERSION_1_1)]
     v_done))"

lemma loci_validate_of_error_msg_OF_VERSION_1_1_ok [v_proved]: "v_ok loci_validate_of_error_msg_OF_VERSION_1_1"
  unfolding loci_validate_of_error_msg_OF_VERSION_1_1_def by (intro v_intro; simp add: v_proved v_ok_imp_k_ok)

lemma loci_validate_of_error_msg_OF_VERSION_1_1_exact [x_proved]: "x_ok 2 loci_validate_of_error_msg_OF_VERSION_1_1"
  unfolding loci_validate_of_error_msg_OF_VERSION_1_1_def by (intro x_intro; simp add: x_proved x_ok_imp_kx_ok)

definition loci_validate_of_barrier_reply_OF_VERSION_1_1 :: validator where
  "loci_validate_of_barrier_reply_OF_VERSION_1_1 =
     v_min 8 (v_set_len 8 (v_wire_len 2 8 v_done))"

lemma loci_validate_of_barrier_reply_OF_VERSION_1_1_ok [v_proved]: "v_ok loci_validate_of_barrier_reply_OF_VERSION_1_1"
  unfolding loci_validate_of_barrier_reply_OF_VERSION_1_1_def by (intro v_intro; simp add: v_proved v_ok_imp_k_ok)

lemma loci_validate_of_barrier_reply_OF_VERSION_1_1_exact [x_proved]: "x_ok 2 loci_validate_of_barrier_reply_OF_VERSION_1_1"
  unfolding loci_validate_of_barrier_reply_OF_VERSION_1_1_def by (intro x_intro; simp add: x_proved x_ok_imp_kx_ok)

definition loci_validate_of_barrier_request_OF_VERSION_1_1 :: validator where
  "loci_validate_of_barrier_request_OF_VERSION_1_1 =
     v_min 8 (v_set_len 8 (v_wire_len 2 8 v_done))"

lemma loci_validate_of_barrier_request_OF_VERSION_1_1_ok [v_proved]: "v_ok loci_validate_of_barrier_request_OF_VERSION_1_1"
  unfolding loci_validate_of_barrier_request_OF_VERSION_1_1_def by (intro v_intro; simp add: v_proved v_ok_imp_k_ok)

lemma loci_validate_of_barrier_request_OF_VERSION_1_1_exact [x_proved]: "x_ok 2 loci_validate_of_barrier_request_OF_VERSION_1_1"
  unfolding loci_validate_of_barrier_request_OF_VERSION_1_1_def by (intro x_intro; simp add: x_proved x_ok_imp_kx_ok)

definition loci_validate_of_bsn_bw_clear_data_reply_OF_VERSION_1_1 :: validator where
  "loci_validate_of_bsn_bw_clear_data_reply_OF_VERSION_1_1 =
     v_min 20 (v_set_len 20 (v_wire_len 2 20 v_done))"

lemma loci_validate_of_bsn_bw_clear_data_reply_OF_VERSION_1_1_ok [v_proved]: "v_ok loci_validate_of_bsn_bw_clear_data_reply_OF_VERSION_1_1"
  unfolding loci_validate_of_bsn_bw_clear_data_reply_OF_VERSION_1_1_def by (intro v_intro; simp add: v_proved v_ok_imp_k_ok)

lemma loci_validate_of_bsn_bw_clear_data_reply_OF_VERSION_1_1_exact [x_proved]: "x_ok 2 loci_validate_of_bsn_bw_clear_data_reply_OF_VERSION_1_1"
  unfolding loci_validate_of_bsn_bw_clear_data_reply_OF_VERSION_1_1_def by (intro x_intro; simp add: x_proved x_ok_imp_kx_ok)

definition loci_validate_of_bsn_bw_clear_data_request_OF_VERSION_1_1 :: validator where
  "loci_validate_of_bsn_bw_clear_data_request_OF_VERSION_1_1 =
     v_min 16 (v_set_len 16 (v_wire_len 2 16 v_done))"

lemma loci_validate_of_bsn_bw_clear_data_request_OF_VERSION_1_1_ok [v_proved]: "v_ok loci_validate_of_bsn_bw_clear_data_request_OF_VERSION_1_1"
  unfolding loci_validate_of_bsn_bw_clear_data_request_OF_VERSION_1_1_def by (intro v_intro; simp add: v_proved v_ok_imp_k_ok)

lemma loci_validate_of_bsn_bw_clear_data_request_OF_VERSION_1_1_exact [x_proved]: "x_ok 2 loci_validate_of_bsn_bw_clear_data_request_OF_VERSION_1_1"
  unfolding loci_validate_of_bsn_bw_clear_data_request_OF_VERSION_1_1_def by (intro x_intro; simp add: x_proved x_ok_imp_kx_ok)

definition loci_validate_of_bsn_bw_enable_get_reply_OF_VERSION_1_1 :: validator where
  "loci_validate_of_bsn_bw_enable_get_reply_OF_VERSION_1_1 =
     v_min 20 (v_set_len 20 (v_wire_len 2 20 v_done))"

lemma loci_validate_of_bsn_bw_enable_get_reply_OF_VERSION_1_1_ok [v_proved]: "v_ok loci_validate_of_bsn_bw_enable_get_reply_OF_VERSION_1_1"
  unfolding loci_validate_of_bsn_bw_enable_get_reply_OF_VERSION_1_1_def by (intro v_intro; simp add: v_proved v_ok_imp_k_ok)

lemma loci_validate_of_bsn_bw_enable_get_reply_OF_VERSION_1_1_exact [x_proved]: "x_ok 2 loci_validate_of_bsn_bw_enable_get_reply_OF_VERSION_1_1"
  unfolding loci_validate_of_bsn_bw_enable_get_reply_OF_VERSION_1_1_def by (intro x_intro; simp add: x_proved x_ok_imp_kx_ok)

definition loci_validate_of_bsn_bw_enable_get_request_OF_VERSION_1_1 :: validator where
  "loci_validate_of_bsn_bw_enable_get_request_OF_VERSION_1_1 =
     v_min 16 (v_set_len 16 (v_wire_len 2 16 v_done))"

lemma loci_validate_of_bsn_bw_enable_get_request_OF_VERSION_1_1_ok [v_proved]: "v_ok loci_validate_of_bsn_bw_enable_get_request_OF_VERSION_1_1"
  unfolding loci_validate_of_bsn_bw_enable_get_request_OF_VERSION_1_1_def by (intro v_intro; simp add: v_proved v_ok_imp_k_ok)

lemma loci_validate_of_bsn_bw_enable_get_request_OF_VERSION_1_1_exact [x_proved]: "x_ok 2 loci_validate_of_bsn_bw_enable_get_request_OF_VERSION_1_1"
  unfolding loci_validate_of_bsn_bw_enable_get_request_OF_VERSION_1_1_def by (intro x_intro; simp add: x_proved x_ok_imp_kx_ok)

definition loci_validate_of_bsn_bw_enable_set_reply_OF_VERSION_1_1 :: validator where
  "loci_validate_of_bsn_bw_enable_set_reply_OF_VERSION_1_1 =
     v_min 24 (v_set_len 24 (v_wire_len 2 24 v_done))"

lemma loci_validate_of_bsn_bw_enable_set_reply_OF_VERSION_1_1_ok [v_proved]: "v_ok loci_validate_of_bsn_bw_enable_set_reply_OF_VERSION_1_1"
  unfolding loci_validate_of_bsn_bw_enable_set_reply_OF_VERSION_1_1_def by (intro v_intro; simp add: v_proved v_ok_imp_k_ok)

lemma loci_validate_of_bsn_bw_enable_set_reply_OF_VERSION_1_1_exact [x_proved]: "x_ok 2 loci_validate_of_bsn_bw_enable_set_reply_OF_VERSION_1_1"
  unfolding loci_validate_of_bsn_bw_enable_set_reply_OF_VERSION_1_1_def by (intro x_intro; simp add: x_proved x_ok_imp_kx_ok)

definition loci_validate_of_bsn_bw_enable_set_request_OF_VERSION_1_1 :: validator where
  "loci_validate_of_bsn_bw_enable_set_request_OF_VERSION_1_1 =
     v_min 20 (v_set_len 20 (v_wire_len 2 20 v_done))"

lemma loci_validate_of_bsn_bw_enable_set_request_OF_VERSION_1_1_ok [v_proved]: "v_ok loci_validate_of_bsn_bw_enable_set_request_OF_VERSION_1_1"
  unfolding loci_validate_of_bsn_bw_enable_set_request_OF_VERSION_1_1_def by (intro v_intro; simp add: v_proved v_ok_imp_k_ok)

lemma loci_validate_of_bsn_bw_enable_set_request_OF_VERSION_1_1_exact [x_proved]: "x_ok 2 loci_validate_of_bsn_bw_enable_set_request_OF_VERSION_1_1"
  unfolding loci_validate_of_bsn_bw_enable_set_request_OF_VERSION_1_1_def by (intro x_intro; simp add: x_proved x_ok_imp_kx_ok)

definition loci_validate_of_bsn_get_interfaces_reply_OF_VERSION_1_1 :: validator where
  "loci_validate_of_bsn_get_interfaces_reply_OF_VERSION_1_1 =
     v_min 16 (v_wire_len_set 2 16
     (v_list_rest 16 loci_validate_of_list_bsn_interface_OF_VERSION_1_1 v_done))"

lemma loci_validate_of_bsn_get_interfaces_reply_OF_VERSION_1_1_ok [v_proved]: "v_ok loci_validate_of_bsn_get_interfaces_reply_OF_VERSION_1_1"
  unfolding loci_validate_of_bsn_get_interfaces_reply_OF_VERSION_1_1_def by (intro v_intro; simp add: v_proved v_ok_imp_k_ok)

lemma loci_validate_of_bsn_get_interfaces_reply_OF_VERSION_1_1_exact [x_proved]: "x_ok 2 loci_validate_of_bsn_get_interfaces_reply_OF_VERSION_1_1"
  unfolding loci_validate_of_bsn_get_interfaces_reply_OF_VERSION_1_1_def by (intro x_intro; simp add: x_proved x_ok_imp_kx_ok)

definition loci_validate_of_bsn_get_interfaces_request_OF_VERSION_1_1 :: validator where
  "loci_validate_of_bsn_get_interfaces_request_OF_VERSION_1_1 =
     v_min 16 (v_set_len 16 (v_wire_len 2 16 v_done))"

lemma loci_validate_of_bsn_get_interfaces_request_OF_VERSION_1_1_ok [v_proved]: "v_ok loci_validate_of_bsn_get_interfaces_request_OF_VERSION_1_1"
  unfolding loci_validate_of_bsn_get_interfaces_request_OF_VERSION_1_1_def by (intro v_intro; simp add: v_proved v_ok_imp_k_ok)

lemma loci_validate_of_bsn_get_interfaces_request_OF_VERSION_1_1_exact [x_proved]: "x_ok 2 loci_validate_of_bsn_get_interfaces_request_OF_VERSION_1_1"
  unfolding loci_validate_of_bsn_get_interfaces_request_OF_VERSION_1_1_def by (intro x_intro; simp add: x_proved x_ok_imp_kx_ok)

definition loci_validate_of_bsn_get_mirroring_reply_OF_VERSION_1_1 :: validator where
  "loci_validate_of_bsn_get_mirroring_reply_OF_VERSION_1_1 =
     v_min 20 (v_set_len 20 (v_wire_len 2 20 v_done))"

lemma loci_validate_of_bsn_get_mirroring_reply_OF_VERSION_1_1_ok [v_proved]: "v_ok loci_validate_of_bsn_get_mirroring_reply_OF_VERSION_1_1"
  unfolding loci_validate_of_bsn_get_mirroring_reply_OF_VERSION_1_1_def by (intro v_intro; simp add: v_proved v_ok_imp_k_ok)

lemma loci_validate_of_bsn_get_mirroring_reply_OF_VERSION_1_1_exact [x_proved]: "x_ok 2 loci_validate_of_bsn_get_mirroring_reply_OF_VERSION_1_1"
  unfolding loci_validate_of_bsn_get_mirroring_reply_OF_VERSION_1_1_def by (intro x_intro; simp add: x_proved x_ok_imp_kx_ok)

definition loci_validate_of_bsn_get_mirroring_request_OF_VERSION_1_1 :: validator where
  "loci_validate_of_bsn_get_mirroring_request_OF_VERSION_1_1 =
     v_min 20 (v_set_len 20 (v_wire_len 2 20 v_done))"

lemma loci_validate_of_bsn_get_mirroring_request_OF_VERSION_1_1_ok [v_proved]: "v_ok loci_validate_of_bsn_get_mirroring_request_OF_VERSION_1_1"
  unfolding loci_validate_of_bsn_get_mirroring_request_OF_VERSION_1_1_def by (intro v_intro; simp add: v_proved v_ok_imp_k_ok)

lemma loci_validate_of_bsn_get_mirroring_request_OF_VERSION_1_1_exact [x_proved]: "x_ok 2 loci_validate_of_bsn_get_mirroring_request_OF_VERSION_1_1"
  unfolding loci_validate_of_bsn_get_mirroring_request_OF_VERSION_1_1_def by (intro x_intro; simp add: x_proved x_ok_imp_kx_ok)

definition loci_validate_of_bsn_pdu_rx_reply_OF_VERSION_1_1 :: validator where
  "loci_validate_of_bsn_pdu_rx_reply_OF_VERSION_1_1 =
     v_min 25 (v_set_len 25 (v_wire_len 2 25 v_done))"

lemma loci_validate_of_bsn_pdu_rx_reply_OF_VERSION_1_1_ok [v_proved]: "v_ok loci_validate_of_bsn_pdu_rx_reply_OF_VERSION_1_1"
  unfolding loci_validate_of_bsn_pdu_rx_reply_OF_VERSION_1_1_def by (intro v_intro; simp add: v_proved v_ok_imp_k_ok)

lemma loci_validate_of_bsn_pdu_rx_reply_OF_VERSION_1_1_exact [x_proved]: "x_ok 2 loci_validate_of_bsn_pdu_rx_reply_OF_VERSION_1_1"
  unfolding loci_validate_of_bsn_pdu_rx_reply_OF_VERSION_1_1_def by (intro x_intro; simp add: x_proved x_ok_imp_kx_ok)

definition loci_validate_of_bsn_pdu_rx_request_OF_VERSION_1_1 :: validator where
  "loci_validate_of_bsn_pdu_rx_request_OF_VERSION_1_1 =
     v_min 28 (v_wire_len_set 2 28 v_done)"

lemma loci_validate_of_bsn_pdu_rx_request_OF_VERSION_1_1_ok [v_proved]: "v_ok loci_validate_of_bsn_pdu_rx_request_OF_VERSION_1_1"
  unfolding loci_validate_of_bsn_pdu_rx_request_OF_VERSION_1_1_def by (intro v_intro; simp add: v_proved v_ok_imp_k_ok)

lemma loci_validate_of_bsn_pdu_rx_request_OF_VERSION_1_1_exact [x_proved]: "x_ok 2 loci_validate_of_bsn_pdu_rx_request_OF_VERSION_1_1"
  unfolding loci_validate_of_bsn_pdu_rx_request_OF_VERSION_1_1_def by (intro x_intro; simp add: x_proved x_ok_imp_kx_ok)

definition loci_validate_of_bsn_pdu_rx_timeout_OF_VERSION_1_1 :: validator where
  "loci_validate_of_bsn_pdu_rx_timeout_OF_VERSION_1_1 =
     v_min 21 (v_set_len 21 (v_wire_len 2 21 v_done))"

lemma loci_validate_of_bsn_pdu_rx_timeout_OF_VERSION_1_1_ok [v_proved]: "v_ok loci_validate_of_bsn_pdu_rx_timeout_OF_VERSION_1_1"
  unfolding loci_validate_of_bsn_pdu_rx_timeout_OF_VERSION_1_1_def by (intro v_intro; simp add: v_proved v_ok_imp_k_ok)

lemma loci_validate_of_bsn_pdu_rx_timeout_OF_VERSION_1_1_exact [x_proved]: "x_ok 2 loci_validate_of_bsn_pdu_rx_timeout_OF_VERSION_1_1"
  unfolding loci_validate_of_bsn_pdu_rx_timeout_OF_VERSION_1_1_def by (intro x_intro; simp add: x_proved x_ok_imp_kx_ok)

definition loci_validate_of_bsn_pdu_tx_reply_OF_VERSION_1_1 :: validator where
  "loci_validate_of_bsn_pdu_tx_reply_OF_VERSION_1_1 =
     v_min 25 (v_set_len 25 (v_wire_len 2 25 v_done))"

lemma loci_validate_of_bsn_pdu_tx_reply_OF_VERSION_1_1_ok [v_proved]: "v_ok loci_validate_of_bsn_pdu_tx_reply_OF_VERSION_1_1"
  unfolding loci_validate_of_bsn_pdu_tx_reply_OF_VERSION_1_1_def by (intro v_intro; simp add: v_proved v_ok_imp_k_ok)

lemma loci_validate_of_bsn_pdu_tx_reply_OF_VERSION_1_1_exact [x_proved]: "x_ok 2 loci_validate_of_bsn_pdu_tx_reply_OF_VERSION_1_1"
  unfolding loci_validate_of_bsn_pdu_tx_reply_OF_VERSION_1_1_def by (intro x_intro; simp add: x_proved x_ok_imp_kx_ok)

definition loci_validate_of_bsn_pdu_tx_request_OF_VERSION_1_1 :: validator where
  "loci_validate_of_bsn_pdu_tx_request_OF_VERSION_1_1 =
     v_min 28 (v_wire_len_set 2 28 v_done)"

lemma loci_validate_of_bsn_pdu_tx_request_OF_VERSION_1_1_ok [v_proved]: "v_ok loci_validate_of_bsn_pdu_tx_request_OF_VERSION_1_1"
  unfolding loci_validate_of_bsn_pdu_tx_request_OF_VERSION_1_1_def by (intro v_intro; simp add: v_proved v_ok_imp_k_ok)

lemma loci_validate_of_bsn_pdu_tx_request_OF_VERSION_1_1_exact [x_proved]: "x_ok 2 loci_validate_of_bsn_pdu_tx_request_OF_VERSION_1_1"
  unfolding loci_validate_of_bsn_pdu_tx_request_OF_VERSION_1_1_def by (intro x_intro; simp add: x_proved x_ok_imp_kx_ok)

definition loci_validate_of_bsn_set_mirroring_OF_VERSION_1_1 :: validator where
  "loci_validate_of_bsn_set_mirroring_OF_VERSION_1_1 =
     v_min 20 (v_set_len 20 (v_wire_len 2 20 v_done))"

lemma loci_validate_of_bsn_set_mirroring_OF_VERSION_1_1_ok [v_proved]: "v_ok loci_validate_of_bsn_set_mirroring_OF_VERSION_1_1"
  unfolding loci_validate_of_bsn_set_mirroring_OF_VERSION_1_1_def by (intro v_intro; simp add: v_proved v_ok_imp_k_ok)

lemma loci_validate_of_bsn_set_mirroring_OF_VERSION_1_1_exact [x_proved]: "x_ok 2 loci_validate_of_bsn_set_mirroring_OF_VERSION_1_1"
  unfolding loci_validate_of_bsn_set_mirroring_OF_VERSION_1_1_def by (intro x_intro; simp add: x_proved x_ok_imp_kx_ok)

definition loci_validate_of_bsn_set_pktin_suppression_reply_OF_VERSION_1_1 :: validator where
  "loci_validate_of_bsn_set_pktin_suppression_reply_OF_VERSION_1_1 =
     v_min 20 (v_set_len 20 (v_wire_len 2 20 v_done))"

lemma loci_validate_of_bsn_set_pktin_suppression_reply_OF_VERSION_1_1_ok [v_proved]: "v_ok loci_validate_of_bsn_set_pktin_suppression_reply_OF_VERSION_1_1"
  unfolding loci_validate_of_bsn_set_pktin_suppression_reply_OF_VERSION_1_1_def by (intro v_intro; simp add: v_proved v_ok_imp_k_ok)

lemma loci_validate_of_bsn_set_pktin_suppression_reply_OF_VERSION_1_1_exact [x_proved]: "x_ok 2 loci_validate_of_bsn_set_pktin_suppression_reply_OF_VERSION_1_1"
  unfolding loci_validate_of_bsn_set_pktin_suppression_reply_OF_VERSION_1_1_def by (intro x_intro; simp add: x_proved x_ok_imp_kx_ok)

definition loci_validate_of_bsn_set_pktin_suppression_request_OF_VERSION_1_1 :: validator where
  "loci_validate_of_bsn_set_pktin_suppression_request_OF_VERSION_1_1 =
     v_min 32 (v_set_len 32 (v_wire_len 2 32 v_done))"

lemma loci_validate_of_bsn_set_pktin_suppression_request_OF_VERSION_1_1_ok [v_proved]: "v_ok loci_validate_of_bsn_set_pktin_suppression_request_OF_VERSION_1_1"
  unfolding loci_validate_of_bsn_set_pktin_suppression_request_OF_VERSION_1_1_def by (intro v_intro; simp add: v_proved v_ok_imp_k_ok)

lemma loci_validate_of_bsn_set_pktin_suppression_request_OF_VERSION_1_1_exact [x_proved]: "x_ok 2 loci_validate_of_bsn_set_pktin_suppression_request_OF_VERSION_1_1"
  unfolding loci_validate_of_bsn_set_pktin_suppression_request_OF_VERSION_1_1_def by (intro x_intro; simp add: x_proved x_ok_imp_kx_ok)

definition loci_validate_of_bsn_virtual_port_create_reply_OF_VERSION_1_1 :: validator where
  "loci_validate_of_bsn_virtual_port_create_reply_OF_VERSION_1_1 =
     v_min 24 (v_set_len 24 (v_wire_len 2 24 v_done))"

lemma loci_validate_of_bsn_virtual_port_create_reply_OF_VERSION_1_1_ok [v_proved]: "v_ok loci_validate_of_bsn_virtual_port_create_reply_OF_VERSION_1_1"
  unfolding loci_validate_of_bsn_virtual_port_create_reply_OF_VERSION_1_1_def by (intro v_intro; simp add: v_proved v_ok_imp_k_ok)

lemma loci_validate_of_bsn_virtual_port_create_reply_OF_VERSION_1_1_exact [x_proved]: "x_ok 2 loci_validate_of_bsn_virtual_port_create_reply_OF_VERSION_1_1"
  unfolding loci_validate_of_bsn_virtual_port_create_reply_OF_VERSION_1_1_def by (intro x_intro; simp add: x_proved x_ok_imp_kx_ok)

definition loci_validate_of_bsn_virtual_port_create_request_OF_VERSION_1_1 :: validator where
  "loci_validate_of_bsn_virtual_port_create_request_OF_VERSION_1_1 =
     v_min 20 (v_wire_len_set 2 20 v_done)"

lemma loci_validate_of_bsn_virtual_port_create_request_OF_VERSION_1_1_ok [v_proved]: "v_ok loci_validate_of_bsn_virtual_port_create_request_OF_VERSION_1_1"
  unfolding loci_validate_of_bsn_virtual_port_create_request_OF_VERSION_1_1_def by (intro v_intro; simp add: v_proved v_ok_imp_k_ok)

lemma loci_validate_of_bsn_virtual_port_create_request_OF_VERSION_1_1_exact [x_proved]: "x_ok 2 loci_validate_of_bsn_virtual_port_create_request_OF_VERSION_1_1"
  unfolding loci_validate_of_bsn_virtual_port_create_request_OF_VERSION_1_1_def by (intro x_intro; simp add: x_proved x_ok_imp_kx_ok)

definition loci_validate_of_bsn_virtual_port_remove_reply_OF_VERSION_1_1 :: validator where
  "loci_validate_of_bsn_virtual_port_remove_reply_OF_VERSION_1_1 =
     v_min 20 (v_set_len 20 (v_wire_len 2 20 v_done))"

lemma loci_validate_of_bsn_virtual_port_remove_reply_OF_VERSION_1_1_ok [v_proved]: "v_ok loci_validate_of_bsn_virtual_port_remove_reply_OF_VERSION_1_1"
  unfolding loci_validate_of_bsn_virtual_port_remove_reply_OF_VERSION_1_1_def by (intro v_intro; simp add: v_proved v_ok_imp_k_ok)

lemma loci_validate_of_bsn_virtual_port_remove_reply_OF_VERSION_1_1_exact [x_proved]: "x_ok 2 loci_validate_of_bsn_virtual_port_remove_reply_OF_VERSION_1_1"
  unfolding loci_validate_of_bsn_virtual_port_remove_reply_OF_VERSION_1_1_def by (intro x_intro; simp add: x_proved x_ok_imp_kx_ok)

definition loci_validate_of_bsn_virtual_port_remove_request_OF_VERSION_1_1 :: validator where
  "loci_validate_of_bsn_virtual_port_remove_request_OF_VERSION_1_1 =
     v_min 20 (v_set_len 20 (v_wire_len 2 20 v_done))"

lemma loci_validate_of_bsn_virtual_port_remove_request_OF_VERSION_1_1_ok [v_proved]: "v_ok loci_validate_of_bsn_virtual_port_remove_request_OF_VERSION_1_1"
  unfolding loci_validate_of_bsn_virtual_port_remove_request_OF_VERSION_1_1_def by (intro v_intro; simp add: v_proved v_ok_imp_k_ok)

lemma loci_validate_of_bsn_virtual_port_remove_request_OF_VERSION_1_1_exact [x_proved]: "x_ok 2 loci_validate_of_bsn_virtual_port_remove_request_OF_VERSION_1_1"
  unfolding loci_validate_of_bsn_virtual_port_remove_request_OF_VERSION_1_1_def by (intro x_intro; simp add: x_proved x_ok_imp_kx_ok)

definition loci_validate_of_bsn_header_OF_VERSION_1_1 :: validator where
  "loci_validate_of_bsn_header_OF_VERSION_1_1 =
     v_min 16 (v_wire_len_set 2 16
     (v_switch32 12
      [(0x16, loci_validate_of_bsn_bw_clear_data_reply_OF_VERSION_1_1),
       (0x15, loci_validate_of_bsn_bw_clear_data_request_OF_VERSION_1_1),
       (0x14, loci_validate_of_bsn_bw_enable_get_reply_OF_VERSION_1_1),
       (0x13, loci_validate_of_bsn_bw_enable_get_request_OF_VERSION_1_1),
       (0x17, loci_validate_of_bsn_bw_enable_set_reply_OF_VERSION_1_1),
       (0x12, loci_validate_of_bsn_bw_enable_set_request_OF_VERSION_1_1),
       (0xa, loci_validate_of_bsn_get_interfaces_reply_OF_VERSION_1_1),
       (9, loci_validate_of_bsn_get_interfaces_request_OF_VERSION_1_1),
       (5, loci_validate_of_bsn_get_mirroring_reply_OF_VERSION_1_1),
       (4, loci_validate_of_bsn_get_mirroring_request_OF_VERSION_1_1),
       (0x22, loci_validate_of_bsn_pdu_rx_reply_OF_VERSION_1_1),
       (0x21, loci_validate_of_bsn_pdu_rx_request_OF_VERSION_1_1),
       (0x23, loci_validate_of_bsn_pdu_rx_timeout_OF_VERSION_1_1),
       (0x20, loci_validate_of_bsn_pdu_tx_reply_OF_VERSION_1_1),
       (0x1f, loci_validate_of_bsn_pdu_tx_request_OF_VERSION_1_1),
       (3, loci_validate_of_bsn_set_mirroring_OF_VERSION_1_1),
       (0x19, loci_validate_of_bsn_set_pktin_suppression_reply_OF_VERSION_1_1),
       (0xb, loci_validate_of_bsn_set_pktin_suppression_request_OF_VERSION_1_1),
       (0x10, loci_validate_of_bsn_virtual_port_create_reply_OF_VERSION_1_1),
       (0xf, loci_validate_of_bsn_virtual_port_create_request_OF_VERSION_1_1),
       (0x1a, loci_validate_of_bsn_virtual_port_remove_reply_OF_VERSION_1_1),
       (0x11, loci_validate_of_bsn_virtual_port_remove_request_OF_VERSION_1_1)]
     v_done))"

lemma loci_validate_of_bsn_header_OF_VERSION_1_1_ok [v_proved]: "v_ok loci_validate_of_bsn_header_OF_VERSION_1_1"
  unfolding loci_validate_of_bsn_header_OF_VERSION_1_1_def by (intro v_intro; simp add: v_proved v_ok_imp_k_ok)

lemma loci_validate_of_bsn_header_OF_VERSION_1_1_exact [x_proved]: "x_ok 2 loci_validate_of_bsn_header_OF_VERSION_1_1"
  unfolding loci_validate_of_bsn_header_OF_VERSION_1_1_def by (intro x_intro; simp add: x_proved x_ok_imp_kx_ok)

definition loci_validate_of_nicira_header_OF_VERSION_1_1 :: validator where
  "loci_validate_of_nicira_header_OF_VERSION_1_1 =
     v_min 16 (v_wire_len_set 2 16
     (v_switch32 12
      []
     v_done))"

lemma loci_validate_of_nicira_header_OF_VERSION_1_1_ok [v_proved]: "v_ok loci_validate_of_nicira_header_OF_VERSION_1_1"
  unfolding loci_validate_of_nicira_header_OF_VERSION_1_1_def by (intro v_intro; simp add: v_proved v_ok_imp_k_ok)

lemma loci_validate_of_nicira_header_OF_VERSION_1_1_exact [x_proved]: "x_ok 2 loci_validate_of_nicira_header_OF_VERSION_1_1"
  unfolding loci_validate_of_nicira_header_OF_VERSION_1_1_def by (intro x_intro; simp add: x_proved x_ok_imp_kx_ok)

definition loci_validate_of_experimenter_OF_VERSION_1_1 :: validator where
  "loci_validate_of_experimenter_OF_VERSION_1_1 =
     v_min 12 (v_wire_len_set 2 12
     (v_switch32 8
      [(0x5c16c7, loci_validate_of_bsn_header_OF_VERSION_1_1),
       (0x2320, loci_validate_of_nicira_header_OF_VERSION_1_1)]
     v_done))"

lemma loci_validate_of_experimenter_OF_VERSION_1_1_ok [v_proved]: "v_ok loci_validate_of_experimenter_OF_VERSION_1_1"
  unfolding loci_validate_of_experimenter_OF_VERSION_1_1_def by (intro v_intro; simp add: v_proved v_ok_imp_k_ok)

lemma loci_validate_of_experimenter_OF_VERSION_1_1_exact [x_proved]: "x_ok 2 loci_validate_of_experimenter_OF_VERSION_1_1"
  unfolding loci_validate_of_experimenter_OF_VERSION_1_1_def by (intro x_intro; simp add: x_proved x_ok_imp_kx_ok)

definition loci_validate_of_echo_reply_OF_VERSION_1_1 :: validator where
  "loci_validate_of_echo_reply_OF_VERSION_1_1 =
     v_min 8 (v_wire_len_set 2 8 v_done)"

lemma loci_validate_of_echo_reply_OF_VERSION_1_1_ok [v_proved]: "v_ok loci_validate_of_echo_reply_OF_VERSION_1_1"
  unfolding loci_validate_of_echo_reply_OF_VERSION_1_1_def by (intro v_intro; simp add: v_proved v_ok_imp_k_ok)

lemma loci_validate_of_echo_reply_OF_VERSION_1_1_exact [x_proved]: "x_ok 2 loci_validate_of_echo_reply_OF_VERSION_1_1"
  unfolding loci_validate_of_echo_reply_OF_VERSION_1_1_def by (intro x_intro; simp add: x_proved x_ok_imp_kx_ok)

definition loci_validate_of_echo_request_OF_VERSION_1_1 :: validator where
  "loci_validate_of_echo_request_OF_VERSION_1_1 =
     v_min 8 (v_wire_len_set 2 8 v_done)"

lemma loci_validate_of_echo_request_OF_VERSION_1_1_ok [v_proved]: "v_ok loci_validate_of_echo_request_OF_VERSION_1_1"
  unfolding loci_validate_of_echo_request_OF_VERSION_1_1_def by (intro v_intro; simp add: v_proved v_ok_imp_k_ok)

lemma loci_validate_of_echo_request_OF_VERSION_1_1_exact [x_proved]: "x_ok 2 loci_validate_of_echo_request_OF_VERSION_1_1"
  unfolding loci_validate_of_echo_request_OF_VERSION_1_1_def by (intro x_intro; simp add: x_proved x_ok_imp_kx_ok)

definition loci_validate_of_features_reply_OF_VERSION_1_1 :: validator where
  "loci_validate_of_features_reply_OF_VERSION_1_1 =
     v_min 32 (v_wire_len_set 2 32
     (v_list_rest 32 loci_validate_of_list_port_desc_OF_VERSION_1_1 v_done))"

lemma loci_validate_of_features_reply_OF_VERSION_1_1_ok [v_proved]: "v_ok loci_validate_of_features_reply_OF_VERSION_1_1"
  unfolding loci_validate_of_features_reply_OF_VERSION_1_1_def by (intro v_intro; simp add: v_proved v_ok_imp_k_ok)

lemma loci_validate_of_features_reply_OF_VERSION_1_1_exact [x_proved]: "x_ok 2 loci_validate_of_features_reply_OF_VERSION_1_1"
  unfolding loci_validate_of_features_reply_OF_VERSION_1_1_def by (intro x_intro; simp add: x_proved x_ok_imp_kx_ok)

definition loci_validate_of_features_request_OF_VERSION_1_1 :: validator where
  "loci_validate_of_features_request_OF_VERSION_1_1 =
     v_min 8 (v_set_len 8 (v_wire_len 2 8 v_done))"

lemma loci_validate_of_features_request_OF_VERSION_1_1_ok [v_proved]: "v_ok loci_validate_of_features_request_OF_VERSION_1_1"
  unfolding loci_validate_of_features_request_OF_VERSION_1_1_def by (intro v_intro; simp add: v_proved v_ok_imp_k_ok)

lemma loci_validate_of_features_request_OF_VERSION_1_1_exact [x_proved]: "x_ok 2 loci_validate_of_features_request_OF_VERSION_1_1"
  unfolding loci_validate_of_features_request_OF_VERSION_1_1_def by (intro x_intro; simp add: x_proved x_ok_imp_kx_ok)

definition loci_validate_of_flow_add_OF_VERSION_1_1 :: validator where
  "loci_validate_of_flow_add_OF_VERSION_1_1 =
     v_min 136 (v_wire_len_set 2 136
     (v_list_rest 136 loci_validate_of_list_instruction_OF_VERSION_1_1 v_done))"

lemma loci_validate_of_flow_add_OF_VERSION_1_1_ok [v_proved]: "v_ok loci_validate_of_flow_add_OF_VERSION_1_1"
  unfolding loci_validate_of_flow_add_OF_VERSION_1_1_def by (intro v_intro; simp add: v_proved v_ok_imp_k_ok)

lemma loci_validate_of_flow_add_OF_VERSION_1_1_exact [x_proved]: "x_ok 2 loci_validate_of_flow_add_OF_VERSION_1_1"
  unfolding loci_validate_of_flow_add_OF_VERSION_1_1_def by (intro x_intro; simp add: x_proved x_ok_imp_kx_ok)

definition loci_validate_of_flow_delete_OF_VERSION_1_1 :: validator where
  "loci_validate_of_flow_delete_OF_VERSION_1_1 =
     v_min 136 (v_wire_len_set 2 136
     (v_list_rest 136 loci_validate_of_list_instruction_OF_VERSION_1_1 v_done))"

lemma loci_validate_of_flow_delete_OF_VERSION_1_1_ok [v_proved]: "v_ok loci_validate_of_flow_delete_OF_VERSION_1_1"
  unfolding loci_validate_of_flow_delete_OF_VERSION_1_1_def by (intro v_intro; simp add: v_proved v_ok_imp_k_ok)

lemma loci_validate_of_flow_delete_OF_VERSION_1_1_exact [x_proved]: "x_ok 2 loci_validate_of_flow_delete_OF_VERSION_1_1"
  unfolding loci_validate_of_flow_delete_OF_VERSION_1_1_def by (intro x_intro; simp add: x_proved x_ok_imp_kx_ok)

definition loci_validate_of_flow_delete_strict_OF_VERSION_1_1 :: validator where
  "loci_validate_of_flow_delete_strict_OF_VERSION_1_1 =
     v_min 136 (v_wire_len_set 2 136
     (v_list_rest 136 loci_validate_of_list_instruction_OF_VERSION_1_1 v_done))"

lemma loci_validate_of_flow_delete_strict_OF_VERSION_1_1_ok [v_proved]: "v_ok loci_validate_of_flow_delete_strict_OF_VERSION_1_1"
  unfolding loci_validate_of_flow_delete_strict_OF_VERSION_1_1_def by (intro v_intro; simp add: v_proved v_ok_imp_k_ok)

lemma loci_validate_of_flow_delete_strict_OF_VERSION_1_1_exact [x_proved]: "x_ok 2 loci_validate_of_flow_delete_strict_OF_VERSION_1_1"
  unfolding loci_validate_of_flow_delete_strict_OF_VERSION_1_1_def by (intro x_intro; simp add: x_proved x_ok_imp_kx_ok)

definition loci_validate_of_flow_modify_OF_VERSION_1_1 :: validator where
  "loci_validate_of_flow_modify_OF_VERSION_1_1 =
     v_min 136 (v_wire_len_set 2 136
     (v_list_rest 136 loci_validate_of_list_instruction_OF_VERSION_1_1 v_done))"

lemma loci_validate_of_flow_modify_OF_VERSION_1_1_ok [v_proved]: "v_ok loci_validate_of_flow_modify_OF_VERSION_1_1"
  unfolding loci_validate_of_flow_modify_OF_VERSION_1_1_def by (intro v_intro; simp add: v_proved v_ok_imp_k_ok)

lemma loci_validate_of_flow_modify_OF_VERSION_1_1_exact [x_proved]: "x_ok 2 loci_validate_of_flow_modify_OF_VERSION_1_1"
  unfolding loci_validate_of_flow_modify_OF_VERSION_1_1_def by (intro x_intro; simp add: x_proved x_ok_imp_kx_ok)

definition loci_validate_of_flow_modify_strict_OF_VERSION_1_1 :: validator where
  "loci_validate_of_flow_modify_strict_OF_VERSION_1_1 =
     v_min 136 (v_wire_len_set 2 136
     (v_list_rest 136 loci_validate_of_list_instruction_OF_VERSION_1_1 v_done))"

lemma loci_validate_of_flow_modify_strict_OF_VERSION_1_1_ok [v_proved]: "v_ok loci_validate_of_flow_modify_strict_OF_VERSION_1_1"
  unfolding loci_validate_of_flow_modify_strict_OF_VERSION_1_1_def by (intro v_intro; simp add: v_proved v_ok_imp_k_ok)

lemma loci_validate_of_flow_modify_strict_OF_VERSION_1_1_exact [x_proved]: "x_ok 2 loci_validate_of_flow_modify_strict_OF_VERSION_1_1"
  unfolding loci_validate_of_flow_modify_strict_OF_VERSION_1_1_def by (intro x_intro; simp add: x_proved x_ok_imp_kx_ok)

definition loci_validate_of_flow_mod_OF_VERSION_1_1 :: validator where
  "loci_validate_of_flow_mod_OF_VERSION_1_1 =
     v_min 136 (v_wire_len_set 2 136
     (v_switch8 25
      [(0, loci_validate_of_flow_add_OF_VERSION_1_1),
       (3, loci_validate_of_flow_delete_OF_VERSION_1_1),
       (4, loci_validate_of_flow_delete_strict_OF_VERSION_1_1),
       (1, loci_validate_of_flow_modify_OF_VERSION_1_1),
       (2, loci_validate_of_flow_modify_strict_OF_VERSION_1_1)]
     (v_list_rest 136 loci_validate_of_list_instruction_OF_VERSION_1_1 v_done)))"

lemma loci_validate_of_flow_mod_OF_VERSION_1_1_ok [v_proved]: "v_ok loci_validate_of_flow_mod_OF_VERSION_1_1"
  unfolding loci_validate_of_flow_mod_OF_VERSION_1_1_def by (intro v_intro; simp add: v_proved v_ok_imp_k_ok)

lemma loci_validate_of_flow_mod_OF_VERSION_1_1_exact [x_proved]: "x_ok 2 loci_validate_of_flow_mod_OF_VERSION_1_1"
  unfolding loci_validate_of_flow_mod_OF_VERSION_1_1_def by (intro x_intro; simp add: x_proved x_ok_imp_kx_ok)

definition loci_validate_of_flow_removed_OF_VERSION_1_1 :: validator where
  "loci_validate_of_flow_removed_OF_VERSION_1_1 =
     v_min 136 (v_set_len 136 (v_wire_len 2 136 v_done))"

lemma loci_validate_of_flow_removed_OF_VERSION_1_1_ok [v_proved]: "v_ok loci_validate_of_flow_removed_OF_VERSION_1_1"
  unfolding loci_validate_of_flow_removed_OF_VERSION_1_1_def by (intro v_intro; simp add: v_proved v_ok_imp_k_ok)

lemma loci_validate_of_flow_removed_OF_VERSION_1_1_exact [x_proved]: "x_ok 2 loci_validate_of_flow_removed_OF_VERSION_1_1"
  unfolding loci_validate_of_flow_removed_OF_VERSION_1_1_def by (intro x_intro; simp add: x_proved x_ok_imp_kx_ok)

definition loci_validate_of_get_config_reply_OF_VERSION_1_1 :: validator where
  "loci_validate_of_get_config_reply_OF_VERSION_1_1 =
     v_min 12 (v_set_len 12 (v_wire_len 2 12 v_done))"

lemma loci_validate_of_get_config_reply_OF_VERSION_1_1_ok [v_proved]: "v_ok loci_validate_of_get_config_reply_OF_VERSION_1_1"
  unfolding loci_validate_of_get_config_reply_OF_VERSION_1_1_def by (intro v_intro; simp add: v_proved v_ok_imp_k_ok)

lemma loci_validate_of_get_config_reply_OF_VERSION_1_1_exact [x_proved]: "x_ok 2 loci_validate_of_get_config_reply_OF_VERSION_1_1"
  unfolding loci_validate_of_get_config_reply_OF_VERSION_1_1_def by (intro x_intro; simp add: x_proved x_ok_imp_kx_ok)

definition loci_validate_of_get_config_request_OF_VERSION_1_1 :: validator where
  "loci_validate_of_get_config_request_OF_VERSION_1_1 =
     v_min 8 (v_set_len 8 (v_wire_len 2 8 v_done))"

lemma loci_validate_of_get_config_request_OF_VERSION_1_1_ok [v_proved]: "v_ok loci_validate_of_get_config_request_OF_VERSION_1_1"
  unfolding loci_validate_of_get_config_request_OF_VERSION_1_1_def by (intro v_intro; simp add: v_proved v_ok_imp_k_ok)

lemma loci_validate_of_get_config_request_OF_VERSION_1_1_exact [x_proved]: "x_ok 2 loci_validate_of_get_config_request_OF_VERSION_1_1"
  unfolding loci_validate_of_get_config_request_OF_VERSION_1_1_def by (intro x_intro; simp add: x_proved x_ok_imp_kx_ok)

definition loci_validate_of_group_add_OF_VERSION_1_1 :: validator where
  "loci_validate_of_group_add_OF_VERSION_1_1 =
     v_min 16 (v_wire_len_set 2 16
     (v_list_rest 16 loci_validate_of_list_bucket_OF_VERSION_1_1 v_done))"

lemma loci_validate_of_group_add_OF_VERSION_1_1_ok [v_proved]: "v_ok loci_validate_of_group_add_OF_VERSION_1_1"
  unfolding loci_validate_of_group_add_OF_VERSION_1_1_def by (intro v_intro; simp add: v_proved v_ok_imp_k_ok)

lemma loci_validate_of_group_add_OF_VERSION_1_1_exact [x_proved]: "x_ok 2 loci_validate_of_group_add_OF_VERSION_1_1"
  unfolding loci_validate_of_group_add_OF_VERSION_1_1_def by (intro x_intro; simp add: x_proved x_ok_imp_kx_ok)

definition loci_validate_of_group_delete_OF_VERSION_1_1 :: validator where
  "loci_validate_of_group_delete_OF_VERSION_1_1 =
     v_min 16 (v_wire_len_set 2 16
     (v_list_rest 16 loci_validate_of_list_bucket_OF_VERSION_1_1 v_done))"

lemma loci_validate_of_group_delete_OF_VERSION_1_1_ok [v_proved]: "v_ok loci_validate_of_group_delete_OF_VERSION_1_1"
  unfolding loci_validate_of_group_delete_OF_VERSION_1_1_def by (intro v_intro; simp add: v_proved v_ok_imp_k_ok)

lemma loci_validate_of_group_delete_OF_VERSION_1_1_exact [x_proved]: "x_ok 2 loci_validate_of_group_delete_OF_VERSION_1_1"
  unfolding loci_validate_of_group_delete_OF_VERSION_1_1_def by (intro x_intro; simp add: x_proved x_ok_imp_kx_ok)

definition loci_validate_of_group_modify_OF_VERSION_1_1 :: validator where
  "loci_validate_of_group_modify_OF_VERSION_1_1 =
     v_min 16 (v_wire_len_set 2 16
     (v_list_rest 16 loci_validate_of_list_bucket_OF_VERSION_1_1 v_done))"

lemma loci_validate_of_group_modify_OF_VERSION_1_1_ok [v_proved]: "v_ok loci_validate_of_group_modify_OF_VERSION_1_1"
  unfolding loci_validate_of_group_modify_OF_VERSION_1_1_def by (intro v_intro; simp add: v_proved v_ok_imp_k_ok)

lemma loci_validate_of_group_modify_OF_VERSION_1_1_exact [x_proved]: "x_ok 2 loci_validate_of_group_modify_OF_VERSION_1_1"
  unfolding loci_validate_of_group_modify_OF_VERSION_1_1_def by (intro x_intro; simp add: x_proved x_ok_imp_kx_ok)

definition loci_validate_of_group_mod_OF_VERSION_1_1 :: validator where
  "loci_validate_of_group_mod_OF_VERSION_1_1 =
     v_min 16 (v_wire_len_set 2 16
     (v_switch16 8
      [(0, loci_validate_of_group_add_OF_VERSION_1_1),
       (2, loci_validate_of_group_delete_OF_VERSION_1_1),
       (1, loci_validate_of_group_modify_OF_VERSION_1_1)]
     (v_list_rest 16 loci_validate_of_list_bucket_OF_VERSION_1_1 v_done)))"

lemma loci_validate_of_group_mod_OF_VERSION_1_1_ok [v_proved]: "v_ok loci_validate_of_group_mod_OF_VERSION_1_1"
  unfolding loci_validate_of_group_mod_OF_VERSION_1_1_def by (intro v_intro; simp add: v_proved v_ok_imp_k_ok)

lemma loci_validate_of_group_mod_OF_VERSION_1_1_exact [x_proved]: "x_ok 2 loci_validate_of_group_mod_OF_VERSION_1_1"
  unfolding loci_validate_of_group_mod_OF_VERSION_1_1_def by (intro x_intro; simp add: x_proved x_ok_imp_kx_ok)

definition loci_validate_of_hello_OF_VERSION_1_1 :: validator where
  "loci_validate_of_hello_OF_VERSION_1_1 =
     v_min 8 (v_set_len 8 (v_wire_len 2 8 v_done))"

lemma loci_validate_of_hello_OF_VERSION_1_1_ok [v_proved]: "v_ok loci_validate_of_hello_OF_VERSION_1_1"
  unfolding loci_validate_of_hello_OF_VERSION_1_1_def by (intro v_intro; simp add: v_proved v_ok_imp_k_ok)

lemma loci_validate_of_hello_OF_VERSION_1_1_exact [x_proved]: "x_ok 2 loci_validate_of_hello_OF_VERSION_1_1"
  unfolding loci_validate_of_hello_OF_VERSION_1_1_def by (intro x_intro; simp add: x_proved x_ok_imp_kx_ok)

definition loci_validate_of_packet_in_OF_VERSION_1_1 :: validator where
  "loci_validate_of_packet_in_OF_VERSION_1_1 =
     v_min 24 (v_wire_len_set 2 24 v_done)"

lemma loci_validate_of_packet_in_OF_VERSION_1_1_ok [v_proved]: "v_ok loci_validate_of_packet_in_OF_VERSION_1_1"
  unfolding loci_validate_of_packet_in_OF_VERSION_1_1_def by (intro v_intro; simp add: v_proved v_ok_imp_k_ok)

lemma loci_validate_of_packet_in_OF_VERSION_1_1_exact [x_proved]: "x_ok 2 loci_validate_of_packet_in_OF_VERSION_1_1"
  unfolding loci_validate_of_packet_in_OF_VERSION_1_1_def by (intro x_intro; simp add: x_proved x_ok_imp_kx_ok)

definition loci_validate_of_packet_out_OF_VERSION_1_1 :: validator where
  "loci_validate_of_packet_out_OF_VERSION_1_1 =
     v_min 24 (v_wire_len_set 2 24
     (v_list_len16 16 24 loci_validate_of_list_action_OF_VERSION_1_1 v_done))"

lemma loci_validate_of_packet_out_OF_VERSION_1_1_ok [v_proved]: "v_ok loci_validate_of_packet_out_OF_VERSION_1_1"
  unfolding loci_validate_of_packet_out_OF_VERSION_1_1_def by (intro v_intro; simp add: v_proved v_ok_imp_k_ok)

lemma loci_validate_of_packet_out_OF_VERSION_1_1_exact [x_proved]: "x_ok 2 loci_validate_of_packet_out_OF_VERSION_1_1"
  unfolding loci_validate_of_packet_out_OF_VERSION_1_1_def by (intro x_intro; simp add: x_proved x_ok_imp_kx_ok)

definition loci_validate_of_port_mod_OF_VERSION_1_1 :: validator where
  "loci_validate_of_port_mod_OF_VERSION_1_1 =
     v_min 40 (v_set_len 40 (v_wire_len 2 40 v_done))"

lemma loci_validate_of_port_mod_OF_VERSION_1_1_ok [v_proved]: "v_ok loci_validate_of_port_mod_OF_VERSION_1_1"
  unfolding loci_validate_of_port_mod_OF_VERSION_1_1_def by (intro v_intro; simp add: v_proved v_ok_imp_k_ok)

lemma loci_validate_of_port_mod_OF_VERSION_1_1_exact [x_proved]: "x_ok 2 loci_validate_of_port_mod_OF_VERSION_1_1"
  unfolding loci_validate_of_port_mod_OF_VERSION_1_1_def by (intro x_intro; simp add: x_proved x_ok_imp_kx_ok)

definition loci_validate_of_port_status_OF_VERSION_1_1 :: validator where
  "loci_validate_of_port_status_OF_VERSION_1_1 =
     v_min 80 (v_set_len 80 (v_wire_len 2 80 v_done))"

lemma loci_validate_of_port_status_OF_VERSION_1_1_ok [v_proved]: "v_ok loci_validate_of_port_status_OF_VERSION_1_1"
  unfolding loci_validate_of_port_status_OF_VERSION_1_1_def by (intro v_intro; simp add: v_proved v_ok_imp_k_ok)

lemma loci_validate_of_port_status_OF_VERSION_1_1_exact [x_proved]: "x_ok 2 loci_validate_of_port_status_OF_VERSION_1_1"
  unfolding loci_validate_of_port_status_OF_VERSION_1_1_def by (intro x_intro; simp add: x_proved x_ok_imp_kx_ok)

definition loci_validate_of_queue_get_config_reply_OF_VERSION_1_1 :: validator where
  "loci_validate_of_queue_get_config_reply_OF_VERSION_1_1 =
     v_min 16 (v_wire_len_set 2 16
     (v_list_rest 16 loci_validate_of_list_packet_queue_OF_VERSION_1_1 v_done))"

lemma loci_validate_of_queue_get_config_reply_OF_VERSION_1_1_ok [v_proved]: "v_ok loci_validate_of_queue_get_config_reply_OF_VERSION_1_1"
  unfolding loci_validate_of_queue_get_config_reply_OF_VERSION_1_1_def by (intro v_intro; simp add: v_proved v_ok_imp_k_ok)

lemma loci_validate_of_queue_get_config_reply_OF_VERSION_1_1_exact [x_proved]: "x_ok 2 loci_validate_of_queue_get_config_reply_OF_VERSION_1_1"
  unfolding loci_validate_of_queue_get_config_reply_OF_VERSION_1_1_def by (intro x_intro; simp add: x_proved x_ok_imp_kx_ok)

definition loci_validate_of_queue_get_config_request_OF_VERSION_1_1 :: validator where
  "loci_validate_of_queue_get_config_request_OF_VERSION_1_1 =
     v_min 16 (v_set_len 16 (v_wire_len 2 16 v_done))"

lemma loci_validate_of_queue_get_config_request_OF_VERSION_1_1_ok [v_proved]: "v_ok loci_validate_of_queue_get_config_request_OF_VERSION_1_1"
  unfolding loci_validate_of_queue_get_config_request_OF_VERSION_1_1_def by (intro v_intro; simp add: v_proved v_ok_imp_k_ok)

lemma loci_validate_of_queue_get_config_request_OF_VERSION_1_1_exact [x_proved]: "x_ok 2 loci_validate_of_queue_get_config_request_OF_VERSION_1_1"
  unfolding loci_validate_of_queue_get_config_request_OF_VERSION_1_1_def by (intro x_intro; simp add: x_proved x_ok_imp_kx_ok)

definition loci_validate_of_set_config_OF_VERSION_1_1 :: validator where
  "loci_validate_of_set_config_OF_VERSION_1_1 =
     v_min 12 (v_set_len 12 (v_wire_len 2 12 v_done))"

lemma loci_validate_of_set_config_OF_VERSION_1_1_ok [v_proved]: "v_ok loci_validate_of_set_config_OF_VERSION_1_1"
  unfolding loci_validate_of_set_config_OF_VERSION_1_1_def by (intro v_intro; simp add: v_proved v_ok_imp_k_ok)

lemma loci_validate_of_set_config_OF_VERSION_1_1_exact [x_proved]: "x_ok 2 loci_validate_of_set_config_OF_VERSION_1_1"
  unfolding loci_validate_of_set_config_OF_VERSION_1_1_def by (intro x_intro; simp add: x_proved x_ok_imp_kx_ok)

definition loci_validate_of_table_mod_OF_VERSION_1_1 :: validator where
  "loci_validate_of_table_mod_OF_VERSION_1_1 =
     v_min 16 (v_set_len 16 (v_wire_len 2 16 v_done))"

lemma loci_validate_of_table_mod_OF_VERSION_1_1_ok [v_proved]: "v_ok loci_validate_of_table_mod_OF_VERSION_1_1"
  unfolding loci_validate_of_table_mod_OF_VERSION_1_1_def by (intro v_intro; simp add: v_proved v_ok_imp_k_ok)

lemma loci_validate_of_table_mod_OF_VERSION_1_1_exact [x_proved]: "x_ok 2 loci_validate_of_table_mod_OF_VERSION_1_1"
  unfolding loci_validate_of_table_mod_OF_VERSION_1_1_def by (intro x_intro; simp add: x_proved x_ok_imp_kx_ok)

definition loci_validate_of_header_OF_VERSION_1_1 :: validator where
  "loci_validate_of_header_OF_VERSION_1_1 =
     v_min 8 (v_wire_len_set 2 8
     (v_switch8 1
      [(0x13, loci_validate_of_stats_reply_OF_VERSION_1_1),
       (0x12, loci_validate_of_stats_request_OF_VERSION_1_1),
       (1, loci_validate_of_error_msg_OF_VERSION_1_1),
       (0x15, loci_validate_of_barrier_reply_OF_VERSION_1_1),
       (0x14, loci_validate_of_barrier_request_OF_VERSION_1_1),
       (4, loci_validate_of_experimenter_OF_VERSION_1_1),
       (3, loci_validate_of_echo_reply_OF_VERSION_1_1),
       (2, loci_validate_of_echo_request_OF_VERSION_1_1),
       (6, loci_validate_of_features_reply_OF_VERSION_1_1),
       (5, loci_validate_of_features_request_OF_VERSION_1_1),
       (0xe, loci_validate_of_flow_mod_OF_VERSION_1_1),
       (0xb, loci_validate_of_flow_removed_OF_VERSION_1_1),
       (8, loci_validate_of_get_config_reply_OF_VERSION_1_1),
       (7, loci_validate_of_get_config_request_OF_VERSION_1_1),
       (0xf, loci_validate_of_group_mod_OF_VERSION_1_1),
       (0, loci_validate_of_hello_OF_VERSION_1_1),
       (0xa, loci_validate_of_packet_in_OF_VERSION_1_1),
       (0xd, loci_validate_of_packet_out_OF_VERSION_1_1),
       (0x10, loci_validate_of_port_mod_OF_VERSION_1_1),
       (0xc, loci_validate_of_port_status_OF_VERSION_1_1),
       (0x17, loci_validate_of_queue_get_config_reply_OF_VERSION_1_1),
       (0x16, loci_validate_of_queue_get_config_request_OF_VERSION_1_1),
       (9, loci_validate_of_set_config_OF_VERSION_1_1),
       (0x11, loci_validate_of_table_mod_OF_VERSION_1_1)]
     v_done))"

lemma loci_validate_of_header_OF_VERSION_1_1_ok [v_proved]: "v_ok loci_validate_of_header_OF_VERSION_1_1"
  unfolding loci_validate_of_header_OF_VERSION_1_1_def by (intro v_intro; simp add: v_proved v_ok_imp_k_ok)

lemma loci_validate_of_header_OF_VERSION_1_1_exact [x_proved]: "x_ok 2 loci_validate_of_header_OF_VERSION_1_1"
  unfolding loci_validate_of_header_OF_VERSION_1_1_def by (intro x_intro; simp add: x_proved x_ok_imp_kx_ok)

definition loci_validate_of_bsn_vport_l2gre_OF_VERSION_1_1 :: validator where
  "loci_validate_of_bsn_vport_l2gre_OF_VERSION_1_1 =
     v_min 64 (v_set_len 64 (v_wire_len 2 64 v_done))"

lemma loci_validate_of_bsn_vport_l2gre_OF_VERSION_1_1_ok [v_proved]: "v_ok loci_validate_of_bsn_vport_l2gre_OF_VERSION_1_1"
  unfolding loci_validate_of_bsn_vport_l2gre_OF_VERSION_1_1_def by (intro v_intro; simp add: v_proved v_ok_imp_k_ok)

lemma loci_validate_of_bsn_vport_l2gre_OF_VERSION_1_1_exact [x_proved]: "x_ok 2 loci_validate_of_bsn_vport_l2gre_OF_VERSION_1_1"
  unfolding loci_validate_of_bsn_vport_l2gre_OF_VERSION_1_1_def by (intro x_intro; simp add: x_proved x_ok_imp_kx_ok)

definition loci_validate_of_bsn_vport_q_in_q_OF_VERSION_1_1 :: validator where
  "loci_validate_of_bsn_vport_q_in_q_OF_VERSION_1_1 =
     v_min 32 (v_set_len 32 (v_wire_len 2 32 v_done))"

lemma loci_validate_of_bsn_vport_q_in_q_OF_VERSION_1_1_ok [v_proved]: "v_ok loci_validate_of_bsn_vport_q_in_q_OF_VERSION_1_1"
  unfolding loci_validate_of_bsn_vport_q_in_q_OF_VERSION_1_1_def by (intro v_intro; simp add: v_proved v_ok_imp_k_ok)

lemma loci_validate_of_bsn_vport_q_in_q_OF_VERSION_1_1_exact [x_proved]: "x_ok 2 loci_validate_of_bsn_vport_q_in_q_OF_VERSION_1_1"
  unfolding loci_validate_of_bsn_vport_q_in_q_OF_VERSION_1_1_def by (intro x_intro; simp add: x_proved x_ok_imp_kx_ok)

definition loci_validate_of_bsn_vport_OF_VERSION_1_1 :: validator where
  "loci_validate_of_bsn_vport_OF_VERSION_1_1 =
     v_min 4 (v_wire_len_set 2 4
     (v_switch16 0
      [(1, loci_validate_of_bsn_vport_l2gre_OF_VERSION_1_1),
       (0, loci_validate_of_bsn_vport_q_in_q_OF_VERSION_1_1)]
     v_done))"

lemma loci_validate_of_bsn_vport_OF_VERSION_1_1_ok [v_proved]: "v_ok loci_validate_of_bsn_vport_OF_VERSION_1_1"
  unfolding loci_validate_of_bsn_vport_OF_VERSION_1_1_def by (intro v_intro; simp add: v_proved v_ok_imp_k_ok)

lemma loci_validate_of_bsn_vport_OF_VERSION_1_1_exact [x_proved]: "x_ok 2 loci_validate_of_bsn_vport_OF_VERSION_1_1"
  unfolding loci_validate_of_bsn_vport_OF_VERSION_1_1_def by (intro x_intro; simp add: x_proved x_ok_imp_kx_ok)

definition loci_validate_of_match_v2_OF_VERSION_1_1 :: validator where
  "loci_validate_of_match_v2_OF_VERSION_1_1 =
     v_min 88 (v_set_len 88 (v_wire_len 2 88 v_done))"

lemma loci_validate_of_match_v2_OF_VERSION_1_1_ok [v_proved]: "v_ok loci_validate_of_match_v2_OF_VERSION_1_1"
  unfolding loci_validate_of_match_v2_OF_VERSION_1_1_def by (intro v_intro; simp add: v_proved v_ok_imp_k_ok)

lemma loci_validate_of_match_v2_OF_VERSION_1_1_exact [x_proved]: "x_ok 2 loci_validate_of_match_v2_OF_VERSION_1_1"
  unfolding loci_validate_of_match_v2_OF_VERSION_1_1_def by (intro x_intro; simp add: x_proved x_ok_imp_kx_ok)

end
