(* ===== verification/Validator12.thy ===== *)
theory Validator12
  imports Validate
begin

text \<open>
  The message validators for OpenFlow 1.2 of \<^verbatim>\<open>src/loci_validator.c\<close>, one definition per C
  function, callees first, each with its contract (\<open>_ok\<close>) and, where the object carries its
  length, exactness (\<open>_exact\<close>).
\<close>

definition loci_validate_of_bsn_interface_OF_VERSION_1_2 :: validator where
  "loci_validate_of_bsn_interface_OF_VERSION_1_2 =
     v_min 32 (v_set_len 32 v_done)"

lemma loci_validate_of_bsn_interface_OF_VERSION_1_2_ok [v_proved]: "v_ok loci_validate_of_bsn_interface_OF_VERSION_1_2"
  unfolding loci_validate_of_bsn_interface_OF_VERSION_1_2_def by (intro v_intro; simp add: v_proved v_ok_imp_k_ok)

definition loci_validate_of_list_bsn_interface_OF_VERSION_1_2 :: "byte list \<Rightarrow> int \<Rightarrow> int \<Rightarrow> bool res" where
  "loci_validate_of_list_bsn_interface_OF_VERSION_1_2 = v_list loci_validate_of_bsn_interface_OF_VERSION_1_2"

interpretation bsn_interface_1_2_list: list_element loci_validate_of_bsn_interface_OF_VERSION_1_2
  by unfold_locales (rule loci_validate_of_bsn_interface_OF_VERSION_1_2_ok)

lemma loci_validate_of_list_bsn_interface_OF_VERSION_1_2_ok [v_proved]: "l_ok loci_validate_of_list_bsn_interface_OF_VERSION_1_2"
  unfolding loci_validate_of_list_bsn_interface_OF_VERSION_1_2_def by (rule bsn_interface_1_2_list.l_ok_list)

definition loci_validate_of_action_bsn_checksum_OF_VERSION_1_2 :: validator where
  "loci_validate_of_action_bsn_checksum_OF_VERSION_1_2 =
     v_min 28 (v_set_len 28 (v_wire_len 2 28 v_done))"

lemma loci_validate_of_action_bsn_checksum_OF_VERSION_1_2_ok [v_proved]: "v_ok loci_validate_of_action_bsn_checksum_OF_VERSION_1_2"
  unfolding loci_validate_of_action_bsn_checksum_OF_VERSION_1_2_def by (intro v_intro; simp add: v_proved v_ok_imp_k_ok)

lemma loci_validate_of_action_bsn_checksum_OF_VERSION_1_2_exact [x_proved]: "x_ok 2 loci_validate_of_action_bsn_checksum_OF_VERSION_1_2"
  unfolding loci_validate_of_action_bsn_checksum_OF_VERSION_1_2_def by (intro x_intro; simp add: x_proved x_ok_imp_kx_ok)

definition loci_validate_of_action_bsn_mirror_OF_VERSION_1_2 :: validator where
  "loci_validate_of_action_bsn_mirror_OF_VERSION_1_2 =
     v_min 24 (v_set_len 24 (v_wire_len 2 24 v_done))"

lemma loci_validate_of_action_bsn_mirror_OF_VERSION_1_2_ok [v_proved]: "v_ok loci_validate_of_action_bsn_mirror_OF_VERSION_1_2"
  unfolding loci_validate_of_action_bsn_mirror_OF_VERSION_1_2_def by (intro v_intro; simp add: v_proved v_ok_imp_k_ok)

lemma loci_validate_of_action_bsn_mirror_OF_VERSION_1_2_exact [x_proved]: "x_ok 2 loci_validate_of_action_bsn_mirror_OF_VERSION_1_2"
  unfolding loci_validate_of_action_bsn_mirror_OF_VERSION_1_2_def by (intro x_intro; simp add: x_proved x_ok_imp_kx_ok)

definition loci_validate_of_action_bsn_set_tunnel_dst_OF_VERSION_1_2 :: validator where
  "loci_validate_of_action_bsn_set_tunnel_dst_OF_VERSION_1_2 =
     v_min 16 (v_set_len 16 (v_wire_len 2 16 v_done))"

lemma loci_validate_of_action_bsn_set_tunnel_dst_OF_VERSION_1_2_ok [v_proved]: "v_ok loci_validate_of_action_bsn_set_tunnel_dst_OF_VERSION_1_2"
  unfolding loci_validate_of_action_bsn_set_tunnel_dst_OF_VERSION_1_2_def by (intro v_intro; simp add: v_proved v_ok_imp_k_ok)

lemma loci_validate_of_action_bsn_set_tunnel_dst_OF_VERSION_1_2_exact [x_proved]: "x_ok 2 loci_validate_of_action_bsn_set_tunnel_dst_OF_VERSION_1_2"
  unfolding loci_validate_of_action_bsn_set_tunnel_dst_OF_VERSION_1_2_def by (intro x_intro; simp add: x_proved x_ok_imp_kx_ok)

definition loci_validate_of_action_bsn_OF_VERSION_1_2 :: validator where
  "loci_validate_of_action_bsn_OF_VERSION_1_2 =
     v_min 16 (v_wire_len_set 2 16
     (v_switch32 8
      [(4, loci_validate_of_action_bsn_checksum_OF_VERSION_1_2),
       (1, loci_validate_of_action_bsn_mirror_OF_VERSION_1_2),
       (2, loci_validate_of_action_bsn_set_tunnel_dst_OF_VERSION_1_2)]
     v_done))"

lemma loci_validate_of_action_bsn_OF_VERSION_1_2_ok [v_proved]: "v_ok loci_validate_of_action_bsn_OF_VERSION_1_2"
  unfolding loci_validate_of_action_bsn_OF_VERSION_1_2_def by (intro v_intro; simp add: v_proved v_ok_imp_k_ok)

lemma loci_validate_of_action_bsn_OF_VERSION_1_2_exact [x_proved]: "x_ok 2 loci_validate_of_action_bsn_OF_VERSION_1_2"
  unfolding loci_validate_of_action_bsn_OF_VERSION_1_2_def by (intro x_intro; simp add: x_proved x_ok_imp_kx_ok)

definition loci_validate_of_action_nicira_dec_ttl_OF_VERSION_1_2 :: validator where
  "loci_validate_of_action_nicira_dec_ttl_OF_VERSION_1_2 =
     v_min 16 (v_set_len 16 (v_wire_len 2 16 v_done))"

lemma loci_validate_of_action_nicira_dec_ttl_OF_VERSION_1_2_ok [v_proved]: "v_ok loci_validate_of_action_nicira_dec_ttl_OF_VERSION_1_2"
  unfolding loci_validate_of_action_nicira_dec_ttl_OF_VERSION_1_2_def by (intro v_intro; simp add: v_proved v_ok_imp_k_ok)

lemma loci_validate_of_action_nicira_dec_ttl_OF_VERSION_1_2_exact [x_proved]: "x_ok 2 loci_validate_of_action_nicira_dec_ttl_OF_VERSION_1_2"
  unfolding loci_validate_of_action_nicira_dec_ttl_OF_VERSION_1_2_def by (intro x_intro; simp add: x_proved x_ok_imp_kx_ok)

definition loci_validate_of_action_nicira_OF_VERSION_1_2 :: validator where
  "loci_validate_of_action_nicira_OF_VERSION_1_2 =
     v_min 16 (v_wire_len_set 2 16
     (v_switch16 8
      [(0x12, loci_validate_of_action_nicira_dec_ttl_OF_VERSION_1_2)]
     v_done))"

lemma loci_validate_of_action_nicira_OF_VERSION_1_2_ok [v_proved]: "v_ok loci_validate_of_action_nicira_OF_VERSION_1_2"
  unfolding loci_validate_of_action_nicira_OF_VERSION_1_2_def by (intro v_intro; simp add: v_proved v_ok_imp_k_ok)

lemma loci_validate_of_action_nicira_OF_VERSION_1_2_exact [x_proved]: "x_ok 2 loci_validate_of_action_nicira_OF_VERSION_1_2"
  unfolding loci_validate_of_action_nicira_OF_VERSION_1_2_def by (intro x_intro; simp add: x_proved x_ok_imp_kx_ok)

definition loci_validate_of_action_experimenter_OF_VERSION_1_2 :: validator where
  "loci_validate_of_action_experimenter_OF_VERSION_1_2 =
     v_min 8 (v_wire_len_set 2 8
     (v_switch32 4
      [(0x5c16c7, loci_validate_of_action_bsn_OF_VERSION_1_2),
       (0x2320, loci_validate_of_action_nicira_OF_VERSION_1_2)]
     v_done))"

lemma loci_validate_of_action_experimenter_OF_VERSION_1_2_ok [v_proved]: "v_ok loci_validate_of_action_experimenter_OF_VERSION_1_2"
  unfolding loci_validate_of_action_experimenter_OF_VERSION_1_2_def by (intro v_intro; simp add: v_proved v_ok_imp_k_ok)

lemma loci_validate_of_action_experimenter_OF_VERSION_1_2_exact [x_proved]: "x_ok 2 loci_validate_of_action_experimenter_OF_VERSION_1_2"
  unfolding loci_validate_of_action_experimenter_OF_VERSION_1_2_def by (intro x_intro; simp add: x_proved x_ok_imp_kx_ok)

definition loci_validate_of_action_copy_ttl_in_OF_VERSION_1_2 :: validator where
  "loci_validate_of_action_copy_ttl_in_OF_VERSION_1_2 =
     v_min 8 (v_set_len 8 (v_wire_len 2 8 v_done))"

lemma loci_validate_of_action_copy_ttl_in_OF_VERSION_1_2_ok [v_proved]: "v_ok loci_validate_of_action_copy_ttl_in_OF_VERSION_1_2"
  unfolding loci_validate_of_action_copy_ttl_in_OF_VERSION_1_2_def by (intro v_intro; simp add: v_proved v_ok_imp_k_ok)

lemma loci_validate_of_action_copy_ttl_in_OF_VERSION_1_2_exact [x_proved]: "x_ok 2 loci_validate_of_action_copy_ttl_in_OF_VERSION_1_2"
  unfolding loci_validate_of_action_copy_ttl_in_OF_VERSION_1_2_def by (intro x_intro; simp add: x_proved x_ok_imp_kx_ok)

definition loci_validate_of_action_copy_ttl_out_OF_VERSION_1_2 :: validator where
  "loci_validate_of_action_copy_ttl_out_OF_VERSION_1_2 =
     v_min 8 (v_set_len 8 (v_wire_len 2 8 v_done))"

lemma loci_validate_of_action_copy_ttl_out_OF_VERSION_1_2_ok [v_proved]: "v_ok loci_validate_of_action_copy_ttl_out_OF_VERSION_1_2"
  unfolding loci_validate_of_action_copy_ttl_out_OF_VERSION_1_2_def by (intro v_intro; simp add: v_proved v_ok_imp_k_ok)

lemma loci_validate_of_action_copy_ttl_out_OF_VERSION_1_2_exact [x_proved]: "x_ok 2 loci_validate_of_action_copy_ttl_out_OF_VERSION_1_2"
  unfolding loci_validate_of_action_copy_ttl_out_OF_VERSION_1_2_def by (intro x_intro; simp add: x_proved x_ok_imp_kx_ok)

definition loci_validate_of_action_dec_mpls_ttl_OF_VERSION_1_2 :: validator where
  "loci_validate_of_action_dec_mpls_ttl_OF_VERSION_1_2 =
     v_min 8 (v_set_len 8 (v_wire_len 2 8 v_done))"

lemma loci_validate_of_action_dec_mpls_ttl_OF_VERSION_1_2_ok [v_proved]: "v_ok loci_validate_of_action_dec_mpls_ttl_OF_VERSION_1_2"
  unfolding loci_validate_of_action_dec_mpls_ttl_OF_VERSION_1_2_def by (intro v_intro; simp add: v_proved v_ok_imp_k_ok)

lemma loci_validate_of_action_dec_mpls_ttl_OF_VERSION_1_2_exact [x_proved]: "x_ok 2 loci_validate_of_action_dec_mpls_ttl_OF_VERSION_1_2"
  unfolding loci_validate_of_action_dec_mpls_ttl_OF_VERSION_1_2_def by (intro x_intro; simp add: x_proved x_ok_imp_kx_ok)

definition loci_validate_of_action_dec_nw_ttl_OF_VERSION_1_2 :: validator where
  "loci_validate_of_action_dec_nw_ttl_OF_VERSION_1_2 =
     v_min 8 (v_set_len 8 (v_wire_len 2 8 v_done))"

lemma loci_validate_of_action_dec_nw_ttl_OF_VERSION_1_2_ok [v_proved]: "v_ok loci_validate_of_action_dec_nw_ttl_OF_VERSION_1_2"
  unfolding loci_validate_of_action_dec_nw_ttl_OF_VERSION_1_2_def by (intro v_intro; simp add: v_proved v_ok_imp_k_ok)

lemma loci_validate_of_action_dec_nw_ttl_OF_VERSION_1_2_exact [x_proved]: "x_ok 2 loci_validate_of_action_dec_nw_ttl_OF_VERSION_1_2"
  unfolding loci_validate_of_action_dec_nw_ttl_OF_VERSION_1_2_def by (intro x_intro; simp add: x_proved x_ok_imp_kx_ok)

definition loci_validate_of_action_group_OF_VERSION_1_2 :: validator where
  "loci_validate_of_action_group_OF_VERSION_1_2 =
     v_min 8 (v_set_len 8 (v_wire_len 2 8 v_done))"

lemma loci_validate_of_action_group_OF_VERSION_1_2_ok [v_proved]: "v_ok loci_validate_of_action_group_OF_VERSION_1_2"
  unfolding loci_validate_of_action_group_OF_VERSION_1_2_def by (intro v_intro; simp add: v_proved v_ok_imp_k_ok)

lemma loci_validate_of_action_group_OF_VERSION_1_2_exact [x_proved]: "x_ok 2 loci_validate_of_action_group_OF_VERSION_1_2"
  unfolding loci_validate_of_action_group_OF_VERSION_1_2_def by (intro x_intro; simp add: x_proved x_ok_imp_kx_ok)

definition loci_validate_of_action_output_OF_VERSION_1_2 :: validator where
  "loci_validate_of_action_output_OF_VERSION_1_2 =
     v_min 16 (v_set_len 16 (v_wire_len 2 16 v_done))"

lemma loci_validate_of_action_output_OF_VERSION_1_2_ok [v_proved]: "v_ok loci_validate_of_action_output_OF_VERSION_1_2"
  unfolding loci_validate_of_action_output_OF_VERSION_1_2_def by (intro v_intro; simp add: v_proved v_ok_imp_k_ok)

lemma loci_validate_of_action_output_OF_VERSION_1_2_exact [x_proved]: "x_ok 2 loci_validate_of_action_output_OF_VERSION_1_2"
  unfolding loci_validate_of_action_output_OF_VERSION_1_2_def by (intro x_intro; simp add: x_proved x_ok_imp_kx_ok)

definition loci_validate_of_action_pop_mpls_OF_VERSION_1_2 :: validator where
  "loci_validate_of_action_pop_mpls_OF_VERSION_1_2 =
     v_min 8 (v_set_len 8 (v_wire_len 2 8 v_done))"

lemma loci_validate_of_action_pop_mpls_OF_VERSION_1_2_ok [v_proved]: "v_ok loci_validate_of_action_pop_mpls_OF_VERSION_1_2"
  unfolding loci_validate_of_action_pop_mpls_OF_VERSION_1_2_def by (intro v_intro; simp add: v_proved v_ok_imp_k_ok)

lemma loci_validate_of_action_pop_mpls_OF_VERSION_1_2_exact [x_proved]: "x_ok 2 loci_validate_of_action_pop_mpls_OF_VERSION_1_2"
  unfolding loci_validate_of_action_pop_mpls_OF_VERSION_1_2_def by (intro x_intro; simp add: x_proved x_ok_imp_kx_ok)

definition loci_validate_of_action_pop_vlan_OF_VERSION_1_2 :: validator where
  "loci_validate_of_action_pop_vlan_OF_VERSION_1_2 =
     v_min 8 (v_set_len 8 (v_wire_len 2 8 v_done))"

lemma loci_validate_of_action_pop_vlan_OF_VERSION_1_2_ok [v_proved]: "v_ok loci_validate_of_action_pop_vlan_OF_VERSION_1_2"
  unfolding loci_validate_of_action_pop_vlan_OF_VERSION_1_2_def by (intro v_intro; simp add: v_proved v_ok_imp_k_ok)

lemma loci_validate_of_action_pop_vlan_OF_VERSION_1_2_exact [x_proved]: "x_ok 2 loci_validate_of_action_pop_vlan_OF_VERSION_1_2"
  unfolding loci_validate_of_action_pop_vlan_OF_VERSION_1_2_def by (intro x_intro; simp add: x_proved x_ok_imp_kx_ok)

definition loci_validate_of_action_push_mpls_OF_VERSION_1_2 :: validator where
  "loci_validate_of_action_push_mpls_OF_VERSION_1_2 =
     v_min 8 (v_set_len 8 (v_wire_len 2 8 v_done))"

lemma loci_validate_of_action_push_mpls_OF_VERSION_1_2_ok [v_proved]: "v_ok loci_validate_of_action_push_mpls_OF_VERSION_1_2"
  unfolding loci_validate_of_action_push_mpls_OF_VERSION_1_2_def by (intro v_intro; simp add: v_proved v_ok_imp_k_ok)

lemma loci_validate_of_action_push_mpls_OF_VERSION_1_2_exact [x_proved]: "x_ok 2 loci_validate_of_action_push_mpls_OF_VERSION_1_2"
  unfolding loci_validate_of_action_push_mpls_OF_VERSION_1_2_def by (intro x_intro; simp add: x_proved x_ok_imp_kx_ok)

definition loci_validate_of_action_push_vlan_OF_VERSION_1_2 :: validator where
  "loci_validate_of_action_push_vlan_OF_VERSION_1_2 =
     v_min 8 (v_set_len 8 (v_wire_len 2 8 v_done))"

lemma loci_validate_of_action_push_vlan_OF_VERSION_1_2_ok [v_proved]: "v_ok loci_validate_of_action_push_vlan_OF_VERSION_1_2"
  unfolding loci_validate_of_action_push_vlan_OF_VERSION_1_2_def by (intro v_intro; simp add: v_proved v_ok_imp_k_ok)

lemma loci_validate_of_action_push_vlan_OF_VERSION_1_2_exact [x_proved]: "x_ok 2 loci_validate_of_action_push_vlan_OF_VERSION_1_2"
  unfolding loci_validate_of_action_push_vlan_OF_VERSION_1_2_def by (intro x_intro; simp add: x_proved x_ok_imp_kx_ok)

definition loci_validate_of_action_set_field_OF_VERSION_1_2 :: validator where
  "loci_validate_of_action_set_field_OF_VERSION_1_2 =
     v_min 8 (v_wire_len_set 2 8 v_done)"

lemma loci_validate_of_action_set_field_OF_VERSION_1_2_ok [v_proved]: "v_ok loci_validate_of_action_set_field_OF_VERSION_1_2"
  unfolding loci_validate_of_action_set_field_OF_VERSION_1_2_def by (intro v_intro; simp add: v_proved v_ok_imp_k_ok)

lemma loci_validate_of_action_set_field_OF_VERSION_1_2_exact [x_proved]: "x_ok 2 loci_validate_of_action_set_field_OF_VERSION_1_2"
  unfolding loci_validate_of_action_set_field_OF_VERSION_1_2_def by (intro x_intro; simp add: x_proved x_ok_imp_kx_ok)

definition loci_validate_of_action_set_mpls_ttl_OF_VERSION_1_2 :: validator where
  "loci_validate_of_action_set_mpls_ttl_OF_VERSION_1_2 =
     v_min 8 (v_set_len 8 (v_wire_len 2 8 v_done))"

lemma loci_validate_of_action_set_mpls_ttl_OF_VERSION_1_2_ok [v_proved]: "v_ok loci_validate_of_action_set_mpls_ttl_OF_VERSION_1_2"
  unfolding loci_validate_of_action_set_mpls_ttl_OF_VERSION_1_2_def by (intro v_intro; simp add: v_proved v_ok_imp_k_ok)

lemma loci_validate_of_action_set_mpls_ttl_OF_VERSION_1_2_exact [x_proved]: "x_ok 2 loci_validate_of_action_set_mpls_ttl_OF_VERSION_1_2"
  unfolding loci_validate_of_action_set_mpls_ttl_OF_VERSION_1_2_def by (intro x_intro; simp add: x_proved x_ok_imp_kx_ok)

definition loci_validate_of_action_set_nw_ttl_OF_VERSION_1_2 :: validator where
  "loci_validate_of_action_set_nw_ttl_OF_VERSION_1_2 =
     v_min 8 (v_set_len 8 (v_wire_len 2 8 v_done))"

lemma loci_validate_of_action_set_nw_ttl_OF_VERSION_1_2_ok [v_proved]: "v_ok loci_validate_of_action_set_nw_ttl_OF_VERSION_1_2"
  unfolding loci_validate_of_action_set_nw_ttl_OF_VERSION_1_2_def by (intro v_intro; simp add: v_proved v_ok_imp_k_ok)

lemma loci_validate_of_action_set_nw_ttl_OF_VERSION_1_2_exact [x_proved]: "x_ok 2 loci_validate_of_action_set_nw_ttl_OF_VERSION_1_2"
  unfolding loci_validate_of_action_set_nw_ttl_OF_VERSION_1_2_def by (intro x_intro; simp add: x_proved x_ok_imp_kx_ok)

definition loci_validate_of_action_set_queue_OF_VERSION_1_2 :: validator where
  "loci_validate_of_action_set_queue_OF_VERSION_1_2 =
     v_min 8 (v_set_len 8 (v_wire_len 2 8 v_done))"

lemma loci_validate_of_action_set_queue_OF_VERSION_1_2_ok [v_proved]: "v_ok loci_validate_of_action_set_queue_OF_VERSION_1_2"
  unfolding loci_validate_of_action_set_queue_OF_VERSION_1_2_def by (intro v_intro; simp add: v_proved v_ok_imp_k_ok)

lemma loci_validate_of_action_set_queue_OF_VERSION_1_2_exact [x_proved]: "x_ok 2 loci_validate_of_action_set_queue_OF_VERSION_1_2"
  unfolding loci_validate_of_action_set_queue_OF_VERSION_1_2_def by (intro x_intro; simp add: x_proved x_ok_imp_kx_ok)

definition loci_validate_of_action_OF_VERSION_1_2 :: validator where
  "loci_validate_of_action_OF_VERSION_1_2 =
     v_min 8 (v_wire_len_set 2 8
     (v_switch16 0
      [(0xffff, loci_validate_of_action_experimenter_OF_VERSION_1_2),
       (0xc, loci_validate_of_action_copy_ttl_in_OF_VERSION_1_2),
       (0xb, loci_validate_of_action_copy_ttl_out_OF_VERSION_1_2),
       (0x10, loci_validate_of_action_dec_mpls_ttl_OF_VERSION_1_2),
       (0x18, loci_validate_of_action_dec_nw_ttl_OF_VERSION_1_2),
       (0x16, loci_validate_of_action_group_OF_VERSION_1_2),
       (0, loci_validate_of_action_output_OF_VERSION_1_2),
       (0x14, loci_validate_of_action_pop_mpls_OF_VERSION_1_2),
       (0x12, loci_validate_of_action_pop_vlan_OF_VERSION_1_2),
       (0x13, loci_validate_of_action_push_mpls_OF_VERSION_1_2),
       (0x11, loci_validate_of_action_push_vlan_OF_VERSION_1_2),
       (0x19, loci_validate_of_action_set_field_OF_VERSION_1_2),
       (0xf, loci_validate_of_action_set_mpls_ttl_OF_VERSION_1_2),
       (0x17, loci_validate_of_action_set_nw_ttl_OF_VERSION_1_2),
       (0x15, loci_validate_of_action_set_queue_OF_VERSION_1_2)]
     v_done))"

lemma loci_validate_of_action_OF_VERSION_1_2_ok [v_proved]: "v_ok loci_validate_of_action_OF_VERSION_1_2"
  unfolding loci_validate_of_action_OF_VERSION_1_2_def by (intro v_intro; simp add: v_proved v_ok_imp_k_ok)

lemma loci_validate_of_action_OF_VERSION_1_2_exact [x_proved]: "x_ok 2 loci_validate_of_action_OF_VERSION_1_2"
  unfolding loci_validate_of_action_OF_VERSION_1_2_def by (intro x_intro; simp add: x_proved x_ok_imp_kx_ok)

definition loci_validate_of_list_action_OF_VERSION_1_2 :: "byte list \<Rightarrow> int \<Rightarrow> int \<Rightarrow> bool res" where
  "loci_validate_of_list_action_OF_VERSION_1_2 = v_list loci_validate_of_action_OF_VERSION_1_2"

interpretation action_1_2_list: list_element loci_validate_of_action_OF_VERSION_1_2
  by unfold_locales (rule loci_validate_of_action_OF_VERSION_1_2_ok)

lemma loci_validate_of_list_action_OF_VERSION_1_2_ok [v_proved]: "l_ok loci_validate_of_list_action_OF_VERSION_1_2"
  unfolding loci_validate_of_list_action_OF_VERSION_1_2_def by (rule action_1_2_list.l_ok_list)

definition loci_validate_of_port_desc_OF_VERSION_1_2 :: validator where
  "loci_validate_of_port_desc_OF_VERSION_1_2 =
     v_min 64 (v_set_len 64 v_done)"

lemma loci_validate_of_port_desc_OF_VERSION_1_2_ok [v_proved]: "v_ok loci_validate_of_port_desc_OF_VERSION_1_2"
  unfolding loci_validate_of_port_desc_OF_VERSION_1_2_def by (intro v_intro; simp add: v_proved v_ok_imp_k_ok)

definition loci_validate_of_list_port_desc_OF_VERSION_1_2 :: "byte list \<Rightarrow> int \<Rightarrow> int \<Rightarrow> bool res" where
  "loci_validate_of_list_port_desc_OF_VERSION_1_2 = v_list loci_validate_of_port_desc_OF_VERSION_1_2"

interpretation port_desc_1_2_list: list_element loci_validate_of_port_desc_OF_VERSION_1_2
  by unfold_locales (rule loci_validate_of_port_desc_OF_VERSION_1_2_ok)

lemma loci_validate_of_list_port_desc_OF_VERSION_1_2_ok [v_proved]: "l_ok loci_validate_of_list_port_desc_OF_VERSION_1_2"
  unfolding loci_validate_of_list_port_desc_OF_VERSION_1_2_def by (rule port_desc_1_2_list.l_ok_list)

definition loci_validate_of_instruction_apply_actions_OF_VERSION_1_2 :: validator where
  "loci_validate_of_instruction_apply_actions_OF_VERSION_1_2 =
     v_min 8 (v_wire_len_set 2 8
     (v_list_rest 8 loci_validate_of_list_action_OF_VERSION_1_2 v_done))"

lemma loci_validate_of_instruction_apply_actions_OF_VERSION_1_2_ok [v_proved]: "v_ok loci_validate_of_instruction_apply_actions_OF_VERSION_1_2"
  unfolding loci_validate_of_instruction_apply_actions_OF_VERSION_1_2_def by (intro v_intro; simp add: v_proved v_ok_imp_k_ok)

lemma loci_validate_of_instruction_apply_actions_OF_VERSION_1_2_exact [x_proved]: "x_ok 2 loci_validate_of_instruction_apply_actions_OF_VERSION_1_2"
  unfolding loci_validate_of_instruction_apply_actions_OF_VERSION_1_2_def by (intro x_intro; simp add: x_proved x_ok_imp_kx_ok)

definition loci_validate_of_instruction_clear_actions_OF_VERSION_1_2 :: validator where
  "loci_validate_of_instruction_clear_actions_OF_VERSION_1_2 =
     v_min 8 (v_set_len 8 (v_wire_len 2 8 v_done))"

lemma loci_validate_of_instruction_clear_actions_OF_VERSION_1_2_ok [v_proved]: "v_ok loci_validate_of_instruction_clear_actions_OF_VERSION_1_2"
  unfolding loci_validate_of_instruction_clear_actions_OF_VERSION_1_2_def by (intro v_intro; simp add: v_proved v_ok_imp_k_ok)

lemma loci_validate_of_instruction_clear_actions_OF_VERSION_1_2_exact [x_proved]: "x_ok 2 loci_validate_of_instruction_clear_actions_OF_VERSION_1_2"
  unfolding loci_validate_of_instruction_clear_actions_OF_VERSION_1_2_def by (intro x_intro; simp add: x_proved x_ok_imp_kx_ok)

definition loci_validate_of_instruction_experimenter_OF_VERSION_1_2 :: validator where
  "loci_validate_of_instruction_experimenter_OF_VERSION_1_2 =
     v_min 8 (v_wire_len_set 2 8
     (v_switch32 4
      []
     v_done))"

lemma loci_validate_of_instruction_experimenter_OF_VERSION_1_2_ok [v_proved]: "v_ok loci_validate_of_instruction_experimenter_OF_VERSION_1_2"
  unfolding loci_validate_of_instruction_experimenter_OF_VERSION_1_2_def by (intro v_intro; simp add: v_proved v_ok_imp_k_ok)

lemma loci_validate_of_instruction_experimenter_OF_VERSION_1_2_exact [x_proved]: "x_ok 2 loci_validate_of_instruction_experimenter_OF_VERSION_1_2"
  unfolding loci_validate_of_instruction_experimenter_OF_VERSION_1_2_def by (intro x_intro; simp add: x_proved x_ok_imp_kx_ok)

definition loci_validate_of_instruction_goto_table_OF_VERSION_1_2 :: validator where
  "loci_validate_of_instruction_goto_table_OF_VERSION_1_2 =
     v_min 8 (v_set_len 8 (v_wire_len 2 8 v_done))"

lemma loci_validate_of_instruction_goto_table_OF_VERSION_1_2_ok [v_proved]: "v_ok loci_validate_of_instruction_goto_table_OF_VERSION_1_2"
  unfolding loci_validate_of_instruction_goto_table_OF_VERSION_1_2_def by (intro v_intro; simp add: v_proved v_ok_imp_k_ok)

lemma loci_validate_of_instruction_goto_table_OF_VERSION_1_2_exact [x_proved]: "x_ok 2 loci_validate_of_instruction_goto_table_OF_VERSION_1_2"
  unfolding loci_validate_of_instruction_goto_table_OF_VERSION_1_2_def by (intro x_intro; simp add: x_proved x_ok_imp_kx_ok)

definition loci_validate_of_instruction_write_actions_OF_VERSION_1_2 :: validator where
  "loci_validate_of_instruction_write_actions_OF_VERSION_1_2 =
     v_min 8 (v_wire_len_set 2 8
     (v_list_rest 8 loci_validate_of_list_action_OF_VERSION_1_2 v_done))"

lemma loci_validate_of_instruction_write_actions_OF_VERSION_1_2_ok [v_proved]: "v_ok loci_validate_of_instruction_write_actions_OF_VERSION_1_2"
  unfolding loci_validate_of_instruction_write_actions_OF_VERSION_1_2_def by (intro v_intro; simp add: v_proved v_ok_imp_k_ok)

lemma loci_validate_of_instruction_write_actions_OF_VERSION_1_2_exact [x_proved]: "x_ok 2 loci_validate_of_instruction_write_actions_OF_VERSION_1_2"
  unfolding loci_validate_of_instruction_write_actions_OF_VERSION_1_2_def by (intro x_intro; simp add: x_proved x_ok_imp_kx_ok)

definition loci_validate_of_instruction_write_metadata_OF_VERSION_1_2 :: validator where
  "loci_validate_of_instruction_write_metadata_OF_VERSION_1_2 =
     v_min 24 (v_set_len 24 (v_wire_len 2 24 v_done))"

lemma loci_validate_of_instruction_write_metadata_OF_VERSION_1_2_ok [v_proved]: "v_ok loci_validate_of_instruction_write_metadata_OF_VERSION_1_2"
  unfolding loci_validate_of_instruction_write_metadata_OF_VERSION_1_2_def by (intro v_intro; simp add: v_proved v_ok_imp_k_ok)

lemma loci_validate_of_instruction_write_metadata_OF_VERSION_1_2_exact [x_proved]: "x_ok 2 loci_validate_of_instruction_write_metadata_OF_VERSION_1_2"
  unfolding loci_validate_of_instruction_write_metadata_OF_VERSION_1_2_def by (intro x_intro; simp add: x_proved x_ok_imp_kx_ok)

definition loci_validate_of_instruction_OF_VERSION_1_2 :: validator where
  "loci_validate_of_instruction_OF_VERSION_1_2 =
     v_min 8 (v_wire_len_set 2 8
     (v_switch16 0
      [(4, loci_validate_of_instruction_apply_actions_OF_VERSION_1_2),
       (5, loci_validate_of_instruction_clear_actions_OF_VERSION_1_2),
       (0xffff, loci_validate_of_instruction_experimenter_OF_VERSION_1_2),
       (1, loci_validate_of_instruction_goto_table_OF_VERSION_1_2),
       (3, loci_validate_of_instruction_write_actions_OF_VERSION_1_2),
       (2, loci_validate_of_instruction_write_metadata_OF_VERSION_1_2)]
     v_done))"

lemma loci_validate_of_instruction_OF_VERSION_1_2_ok [v_proved]: "v_ok loci_validate_of_instruction_OF_VERSION_1_2"
  unfolding loci_validate_of_instruction_OF_VERSION_1_2_def by (intro v_intro; simp add: v_proved v_ok_imp_k_ok)

lemma loci_validate_of_instruction_OF_VERSION_1_2_exact [x_proved]: "x_ok 2 loci_validate_of_instruction_OF_VERSION_1_2"
  unfolding loci_validate_of_instruction_OF_VERSION_1_2_def by (intro x_intro; simp add: x_proved x_ok_imp_kx_ok)

definition loci_validate_of_list_instruction_OF_VERSION_1_2 :: "byte list \<Rightarrow> int \<Rightarrow> int \<Rightarrow> bool res" where
  "loci_validate_of_list_instruction_OF_VERSION_1_2 = v_list loci_validate_of_instruction_OF_VERSION_1_2"

interpretation instruction_1_2_list: list_element loci_validate_of_instruction_OF_VERSION_1_2
  by unfold_locales (rule loci_validate_of_instruction_OF_VERSION_1_2_ok)

lemma loci_validate_of_list_instruction_OF_VERSION_1_2_ok [v_proved]: "l_ok loci_validate_of_list_instruction_OF_VERSION_1_2"
  unfolding loci_validate_of_list_instruction_OF_VERSION_1_2_def by (rule instruction_1_2_list.l_ok_list)

definition loci_validate_of_flow_stats_entry_OF_VERSION_1_2 :: validator where
  "loci_validate_of_flow_stats_entry_OF_VERSION_1_2 =
     v_min 56 (v_wire_len_set 0 56 v_done)"

lemma loci_validate_of_flow_stats_entry_OF_VERSION_1_2_ok [v_proved]: "v_ok loci_validate_of_flow_stats_entry_OF_VERSION_1_2"
  unfolding loci_validate_of_flow_stats_entry_OF_VERSION_1_2_def by (intro v_intro; simp add: v_proved v_ok_imp_k_ok)

lemma loci_validate_of_flow_stats_entry_OF_VERSION_1_2_exact [x_proved]: "x_ok 0 loci_validate_of_flow_stats_entry_OF_VERSION_1_2"
  unfolding loci_validate_of_flow_stats_entry_OF_VERSION_1_2_def by (intro x_intro; simp add: x_proved x_ok_imp_kx_ok)

definition loci_validate_of_list_flow_stats_entry_OF_VERSION_1_2 :: "byte list \<Rightarrow> int \<Rightarrow> int \<Rightarrow> bool res" where
  "loci_validate_of_list_flow_stats_entry_OF_VERSION_1_2 = v_list loci_validate_of_flow_stats_entry_OF_VERSION_1_2"

interpretation flow_stats_entry_1_2_list: list_element loci_validate_of_flow_stats_entry_OF_VERSION_1_2
  by unfold_locales (rule loci_validate_of_flow_stats_entry_OF_VERSION_1_2_ok)

lemma loci_validate_of_list_flow_stats_entry_OF_VERSION_1_2_ok [v_proved]: "l_ok loci_validate_of_list_flow_stats_entry_OF_VERSION_1_2"
  unfolding loci_validate_of_list_flow_stats_entry_OF_VERSION_1_2_def by (rule flow_stats_entry_1_2_list.l_ok_list)

definition loci_validate_of_bucket_OF_VERSION_1_2 :: validator where
  "loci_validate_of_bucket_OF_VERSION_1_2 =
     v_min 16 (v_wire_len_set 0 16
     (v_list_rest 16 loci_validate_of_list_action_OF_VERSION_1_2 v_done))"

lemma loci_validate_of_bucket_OF_VERSION_1_2_ok [v_proved]: "v_ok loci_validate_of_bucket_OF_VERSION_1_2"
  unfolding loci_validate_of_bucket_OF_VERSION_1_2_def by (intro v_intro; simp add: v_proved v_ok_imp_k_ok)

lemma loci_validate_of_bucket_OF_VERSION_1_2_exact [x_proved]: "x_ok 0 loci_validate_of_bucket_OF_VERSION_1_2"
  unfolding loci_validate_of_bucket_OF_VERSION_1_2_def by (intro x_intro; simp add: x_proved x_ok_imp_kx_ok)

definition loci_validate_of_list_bucket_OF_VERSION_1_2 :: "byte list \<Rightarrow> int \<Rightarrow> int \<Rightarrow> bool res" where
  "loci_validate_of_list_bucket_OF_VERSION_1_2 = v_list loci_validate_of_bucket_OF_VERSION_1_2"

interpretation bucket_1_2_list: list_element loci_validate_of_bucket_OF_VERSION_1_2
  by unfold_locales (rule loci_validate_of_bucket_OF_VERSION_1_2_ok)

lemma loci_validate_of_list_bucket_OF_VERSION_1_2_ok [v_proved]: "l_ok loci_validate_of_list_bucket_OF_VERSION_1_2"
  unfolding loci_validate_of_list_bucket_OF_VERSION_1_2_def by (rule bucket_1_2_list.l_ok_list)

definition loci_validate_of_group_desc_stats_entry_OF_VERSION_1_2 :: validator where
  "loci_validate_of_group_desc_stats_entry_OF_VERSION_1_2 =
     v_min 8 (v_wire_len_set 0 8
     (v_list_rest 8 loci_validate_of_list_bucket_OF_VERSION_1_2 v_done))"

lemma loci_validate_of_group_desc_stats_entry_OF_VERSION_1_2_ok [v_proved]: "v_ok loci_validate_of_group_desc_stats_entry_OF_VERSION_1_2"
  unfolding loci_validate_of_group_desc_stats_entry_OF_VERSION_1_2_def by (intro v_intro; simp add: v_proved v_ok_imp_k_ok)

lemma loci_validate_of_group_desc_stats_entry_OF_VERSION_1_2_exact [x_proved]: "x_ok 0 loci_validate_of_group_desc_stats_entry_OF_VERSION_1_2"
  unfolding loci_validate_of_group_desc_stats_entry_OF_VERSION_1_2_def by (intro x_intro; simp add: x_proved x_ok_imp_kx_ok)

definition loci_validate_of_list_group_desc_stats_entry_OF_VERSION_1_2 :: "byte list \<Rightarrow> int \<Rightarrow> int \<Rightarrow> bool res" where
  "loci_validate_of_list_group_desc_stats_entry_OF_VERSION_1_2 = v_list loci_validate_of_group_desc_stats_entry_OF_VERSION_1_2"

interpretation group_desc_stats_entry_1_2_list: list_element loci_validate_of_group_desc_stats_entry_OF_VERSION_1_2
  by unfold_locales (rule loci_validate_of_group_desc_stats_entry_OF_VERSION_1_2_ok)

lemma loci_validate_of_list_group_desc_stats_entry_OF_VERSION_1_2_ok [v_proved]: "l_ok loci_validate_of_list_group_desc_stats_entry_OF_VERSION_1_2"
  unfolding loci_validate_of_list_group_desc_stats_entry_OF_VERSION_1_2_def by (rule group_desc_stats_entry_1_2_list.l_ok_list)

definition loci_validate_of_bucket_counter_OF_VERSION_1_2 :: validator where
  "loci_validate_of_bucket_counter_OF_VERSION_1_2 =
     v_min 16 (v_set_len 16 v_done)"

lemma loci_validate_of_bucket_counter_OF_VERSION_1_2_ok [v_proved]: "v_ok loci_validate_of_bucket_counter_OF_VERSION_1_2"
  unfolding loci_validate_of_bucket_counter_OF_VERSION_1_2_def by (intro v_intro; simp add: v_proved v_ok_imp_k_ok)

definition loci_validate_of_list_bucket_counter_OF_VERSION_1_2 :: "byte list \<Rightarrow> int \<Rightarrow> int \<Rightarrow> bool res" where
  "loci_validate_of_list_bucket_counter_OF_VERSION_1_2 = v_list loci_validate_of_bucket_counter_OF_VERSION_1_2"

interpretation bucket_counter_1_2_list: list_element loci_validate_of_bucket_counter_OF_VERSION_1_2
  by unfold_locales (rule loci_validate_of_bucket_counter_OF_VERSION_1_2_ok)

lemma loci_validate_of_list_bucket_counter_OF_VERSION_1_2_ok [v_proved]: "l_ok loci_validate_of_list_bucket_counter_OF_VERSION_1_2"
  unfolding loci_validate_of_list_bucket_counter_OF_VERSION_1_2_def by (rule bucket_counter_1_2_list.l_ok_list)

definition loci_validate_of_group_stats_entry_OF_VERSION_1_2 :: validator where
  "loci_validate_of_group_stats_entry_OF_VERSION_1_2 =
     v_min 32 (v_wire_len_set 0 32
     (v_list_rest 32 loci_validate_of_list_bucket_counter_OF_VERSION_1_2 v_done))"

lemma loci_validate_of_group_stats_entry_OF_VERSION_1_2_ok [v_proved]: "v_ok loci_validate_of_group_stats_entry_OF_VERSION_1_2"
  unfolding loci_validate_of_group_stats_entry_OF_VERSION_1_2_def by (intro v_intro; simp add: v_proved v_ok_imp_k_ok)

lemma loci_validate_of_group_stats_entry_OF_VERSION_1_2_exact [x_proved]: "x_ok 0 loci_validate_of_group_stats_entry_OF_VERSION_1_2"
  unfolding loci_validate_of_group_stats_entry_OF_VERSION_1_2_def by (intro x_intro; simp add: x_proved x_ok_imp_kx_ok)

definition loci_validate_of_list_group_stats_entry_OF_VERSION_1_2 :: "byte list \<Rightarrow> int \<Rightarrow> int \<Rightarrow> bool res" where
  "loci_validate_of_list_group_stats_entry_OF_VERSION_1_2 = v_list loci_validate_of_group_stats_entry_OF_VERSION_1_2"

interpretation group_stats_entry_1_2_list: list_element loci_validate_of_group_stats_entry_OF_VERSION_1_2
  by unfold_locales (rule loci_validate_of_group_stats_entry_OF_VERSION_1_2_ok)

lemma loci_validate_of_list_group_stats_entry_OF_VERSION_1_2_ok [v_proved]: "l_ok loci_validate_of_list_group_stats_entry_OF_VERSION_1_2"
  unfolding loci_validate_of_list_group_stats_entry_OF_VERSION_1_2_def by (rule group_stats_entry_1_2_list.l_ok_list)

definition loci_validate_of_oxm_arp_op_OF_VERSION_1_2 :: validator where
  "loci_validate_of_oxm_arp_op_OF_VERSION_1_2 =
     v_min 6 (v_set_len 6 v_done)"

lemma loci_validate_of_oxm_arp_op_OF_VERSION_1_2_ok [v_proved]: "v_ok loci_validate_of_oxm_arp_op_OF_VERSION_1_2"
  unfolding loci_validate_of_oxm_arp_op_OF_VERSION_1_2_def by (intro v_intro; simp add: v_proved v_ok_imp_k_ok)

definition loci_validate_of_oxm_arp_op_masked_OF_VERSION_1_2 :: validator where
  "loci_validate_of_oxm_arp_op_masked_OF_VERSION_1_2 =
     v_min 8 (v_set_len 8 v_done)"

lemma loci_validate_of_oxm_arp_op_masked_OF_VERSION_1_2_ok [v_proved]: "v_ok loci_validate_of_oxm_arp_op_masked_OF_VERSION_1_2"
  unfolding loci_validate_of_oxm_arp_op_masked_OF_VERSION_1_2_def by (intro v_intro; simp add: v_proved v_ok_imp_k_ok)

definition loci_validate_of_oxm_arp_sha_OF_VERSION_1_2 :: validator where
  "loci_validate_of_oxm_arp_sha_OF_VERSION_1_2 =
     v_min 10 (v_set_len 10 v_done)"

lemma loci_validate_of_oxm_arp_sha_OF_VERSION_1_2_ok [v_proved]: "v_ok loci_validate_of_oxm_arp_sha_OF_VERSION_1_2"
  unfolding loci_validate_of_oxm_arp_sha_OF_VERSION_1_2_def by (intro v_intro; simp add: v_proved v_ok_imp_k_ok)

definition loci_validate_of_oxm_arp_sha_masked_OF_VERSION_1_2 :: validator where
  "loci_validate_of_oxm_arp_sha_masked_OF_VERSION_1_2 =
     v_min 16 (v_set_len 16 v_done)"

lemma loci_validate_of_oxm_arp_sha_masked_OF_VERSION_1_2_ok [v_proved]: "v_ok loci_validate_of_oxm_arp_sha_masked_OF_VERSION_1_2"
  unfolding loci_validate_of_oxm_arp_sha_masked_OF_VERSION_1_2_def by (intro v_intro; simp add: v_proved v_ok_imp_k_ok)

definition loci_validate_of_oxm_arp_spa_OF_VERSION_1_2 :: validator where
  "loci_validate_of_oxm_arp_spa_OF_VERSION_1_2 =
     v_min 8 (v_set_len 8 v_done)"

lemma loci_validate_of_oxm_arp_spa_OF_VERSION_1_2_ok [v_proved]: "v_ok loci_validate_of_oxm_arp_spa_OF_VERSION_1_2"
  unfolding loci_validate_of_oxm_arp_spa_OF_VERSION_1_2_def by (intro v_intro; simp add: v_proved v_ok_imp_k_ok)

definition loci_validate_of_oxm_arp_spa_masked_OF_VERSION_1_2 :: validator where
  "loci_validate_of_oxm_arp_spa_masked_OF_VERSION_1_2 =
     v_min 12 (v_set_len 12 v_done)"

lemma loci_validate_of_oxm_arp_spa_masked_OF_VERSION_1_2_ok [v_proved]: "v_ok loci_validate_of_oxm_arp_spa_masked_OF_VERSION_1_2"
  unfolding loci_validate_of_oxm_arp_spa_masked_OF_VERSION_1_2_def by (intro v_intro; simp add: v_proved v_ok_imp_k_ok)

definition loci_validate_of_oxm_arp_tha_OF_VERSION_1_2 :: validator where
  "loci_validate_of_oxm_arp_tha_OF_VERSION_1_2 =
     v_min 10 (v_set_len 10 v_done)"

lemma loci_validate_of_oxm_arp_tha_OF_VERSION_1_2_ok [v_proved]: "v_ok loci_validate_of_oxm_arp_tha_OF_VERSION_1_2"
  unfolding loci_validate_of_oxm_arp_tha_OF_VERSION_1_2_def by (intro v_intro; simp add: v_proved v_ok_imp_k_ok)

definition loci_validate_of_oxm_arp_tha_masked_OF_VERSION_1_2 :: validator where
  "loci_validate_of_oxm_arp_tha_masked_OF_VERSION_1_2 =
     v_min 16 (v_set_len 16 v_done)"

lemma loci_validate_of_oxm_arp_tha_masked_OF_VERSION_1_2_ok [v_proved]: "v_ok loci_validate_of_oxm_arp_tha_masked_OF_VERSION_1_2"
  unfolding loci_validate_of_oxm_arp_tha_masked_OF_VERSION_1_2_def by (intro v_intro; simp add: v_proved v_ok_imp_k_ok)

definition loci_validate_of_oxm_arp_tpa_OF_VERSION_1_2 :: validator where
  "loci_validate_of_oxm_arp_tpa_OF_VERSION_1_2 =
     v_min 8 (v_set_len 8 v_done)"

lemma loci_validate_of_oxm_arp_tpa_OF_VERSION_1_2_ok [v_proved]: "v_ok loci_validate_of_oxm_arp_tpa_OF_VERSION_1_2"
  unfolding loci_validate_of_oxm_arp_tpa_OF_VERSION_1_2_def by (intro v_intro; simp add: v_proved v_ok_imp_k_ok)

definition loci_validate_of_oxm_arp_tpa_masked_OF_VERSION_1_2 :: validator where
  "loci_validate_of_oxm_arp_tpa_masked_OF_VERSION_1_2 =
     v_min 12 (v_set_len 12 v_done)"

lemma loci_validate_of_oxm_arp_tpa_masked_OF_VERSION_1_2_ok [v_proved]: "v_ok loci_validate_of_oxm_arp_tpa_masked_OF_VERSION_1_2"
  unfolding loci_validate_of_oxm_arp_tpa_masked_OF_VERSION_1_2_def by (intro v_intro; simp add: v_proved v_ok_imp_k_ok)

definition loci_validate_of_oxm_bsn_egr_port_group_id_OF_VERSION_1_2 :: validator where
  "loci_validate_of_oxm_bsn_egr_port_group_id_OF_VERSION_1_2 =
     v_min 8 (v_set_len 8 v_done)"

lemma loci_validate_of_oxm_bsn_egr_port_group_id_OF_VERSION_1_2_ok [v_proved]: "v_ok loci_validate_of_oxm_bsn_egr_port_group_id_OF_VERSION_1_2"
  unfolding loci_validate_of_oxm_bsn_egr_port_group_id_OF_VERSION_1_2_def by (intro v_intro; simp add: v_proved v_ok_imp_k_ok)

definition loci_validate_of_oxm_bsn_egr_port_group_id_masked_OF_VERSION_1_2 :: validator where
  "loci_validate_of_oxm_bsn_egr_port_group_id_masked_OF_VERSION_1_2 =
     v_min 12 (v_set_len 12 v_done)"

lemma loci_validate_of_oxm_bsn_egr_port_group_id_masked_OF_VERSION_1_2_ok [v_proved]: "v_ok loci_validate_of_oxm_bsn_egr_port_group_id_masked_OF_VERSION_1_2"
  unfolding loci_validate_of_oxm_bsn_egr_port_group_id_masked_OF_VERSION_1_2_def by (intro v_intro; simp add: v_proved v_ok_imp_k_ok)

definition loci_validate_of_oxm_bsn_global_vrf_allowed_OF_VERSION_1_2 :: validator where
  "loci_validate_of_oxm_bsn_global_vrf_allowed_OF_VERSION_1_2 =
     v_min 5 (v_set_len 5 v_done)"

lemma loci_validate_of_oxm_bsn_global_vrf_allowed_OF_VERSION_1_2_ok [v_proved]: "v_ok loci_validate_of_oxm_bsn_global_vrf_allowed_OF_VERSION_1_2"
  unfolding loci_validate_of_oxm_bsn_global_vrf_allowed_OF_VERSION_1_2_def by (intro v_intro; simp add: v_proved v_ok_imp_k_ok)

definition loci_validate_of_oxm_bsn_global_vrf_allowed_masked_OF_VERSION_1_2 :: validator where
  "loci_validate_of_oxm_bsn_global_vrf_allowed_masked_OF_VERSION_1_2 =
     v_min 6 (v_set_len 6 v_done)"

lemma loci_validate_of_oxm_bsn_global_vrf_allowed_masked_OF_VERSION_1_2_ok [v_proved]: "v_ok loci_validate_of_oxm_bsn_global_vrf_allowed_masked_OF_VERSION_1_2"
  unfolding loci_validate_of_oxm_bsn_global_vrf_allowed_masked_OF_VERSION_1_2_def by (intro v_intro; simp add: v_proved v_ok_imp_k_ok)

definition loci_validate_of_oxm_bsn_in_ports_128_OF_VERSION_1_2 :: validator where
  "loci_validate_of_oxm_bsn_in_ports_128_OF_VERSION_1_2 =
     v_min 20 (v_set_len 20 v_done)"

lemma loci_validate_of_oxm_bsn_in_ports_128_OF_VERSION_1_2_ok [v_proved]: "v_ok loci_validate_of_oxm_bsn_in_ports_128_OF_VERSION_1_2"
  unfolding loci_validate_of_oxm_bsn_in_ports_128_OF_VERSION_1_2_def by (intro v_intro; simp add: v_proved v_ok_imp_k_ok)

definition loci_validate_of_oxm_bsn_in_ports_128_masked_OF_VERSION_1_2 :: validator where
  "loci_validate_of_oxm_bsn_in_ports_128_masked_OF_VERSION_1_2 =
     v_min 36 (v_set_len 36 v_done)"

lemma loci_validate_of_oxm_bsn_in_ports_128_masked_OF_VERSION_1_2_ok [v_proved]: "v_ok loci_validate_of_oxm_bsn_in_ports_128_masked_OF_VERSION_1_2"
  unfolding loci_validate_of_oxm_bsn_in_ports_128_masked_OF_VERSION_1_2_def by (intro v_intro; simp add: v_proved v_ok_imp_k_ok)

definition loci_validate_of_oxm_bsn_in_ports_512_OF_VERSION_1_2 :: validator where
  "loci_validate_of_oxm_bsn_in_ports_512_OF_VERSION_1_2 =
     v_min 68 (v_set_len 68 v_done)"

lemma loci_validate_of_oxm_bsn_in_ports_512_OF_VERSION_1_2_ok [v_proved]: "v_ok loci_validate_of_oxm_bsn_in_ports_512_OF_VERSION_1_2"
  unfolding loci_validate_of_oxm_bsn_in_ports_512_OF_VERSION_1_2_def by (intro v_intro; simp add: v_proved v_ok_imp_k_ok)

definition loci_validate_of_oxm_bsn_in_ports_512_masked_OF_VERSION_1_2 :: validator where
  "loci_validate_of_oxm_bsn_in_ports_512_masked_OF_VERSION_1_2 =
     v_min 132 (v_set_len 132 v_done)"

lemma loci_validate_of_oxm_bsn_in_ports_512_masked_OF_VERSION_1_2_ok [v_proved]: "v_ok loci_validate_of_oxm_bsn_in_ports_512_masked_OF_VERSION_1_2"
  unfolding loci_validate_of_oxm_bsn_in_ports_512_masked_OF_VERSION_1_2_def by (intro v_intro; simp add: v_proved v_ok_imp_k_ok)

definition loci_validate_of_oxm_bsn_ingress_port_group_id_OF_VERSION_1_2 :: validator where
  "loci_validate_of_oxm_bsn_ingress_port_group_id_OF_VERSION_1_2 =
     v_min 8 (v_set_len 8 v_done)"

lemma loci_validate_of_oxm_bsn_ingress_port_group_id_OF_VERSION_1_2_ok [v_proved]: "v_ok loci_validate_of_oxm_bsn_ingress_port_group_id_OF_VERSION_1_2"
  unfolding loci_validate_of_oxm_bsn_ingress_port_group_id_OF_VERSION_1_2_def by (intro v_intro; simp add: v_proved v_ok_imp_k_ok)

definition loci_validate_of_oxm_bsn_ingress_port_group_id_masked_OF_VERSION_1_2 :: validator where
  "loci_validate_of_oxm_bsn_ingress_port_group_id_masked_OF_VERSION_1_2 =
     v_min 12 (v_set_len 12 v_done)"

lemma loci_validate_of_oxm_bsn_ingress_port_group_id_masked_OF_VERSION_1_2_ok [v_proved]: "v_ok loci_validate_of_oxm_bsn_ingress_port_group_id_masked_OF_VERSION_1_2"
  unfolding loci_validate_of_oxm_bsn_ingress_port_group_id_masked_OF_VERSION_1_2_def by (intro v_intro; simp add: v_proved v_ok_imp_k_ok)

definition loci_validate_of_oxm_bsn_l2_cache_hit_OF_VERSION_1_2 :: validator where
  "loci_validate_of_oxm_bsn_l2_cache_hit_OF_VERSION_1_2 =
     v_min 5 (v_set_len 5 v_done)"

lemma loci_validate_of_oxm_bsn_l2_cache_hit_OF_VERSION_1_2_ok [v_proved]: "v_ok loci_validate_of_oxm_bsn_l2_cache_hit_OF_VERSION_1_2"
  unfolding loci_validate_of_oxm_bsn_l2_cache_hit_OF_VERSION_1_2_def by (intro v_intro; simp add: v_proved v_ok_imp_k_ok)

definition loci_validate_of_oxm_bsn_l2_cache_hit_masked_OF_VERSION_1_2 :: validator where
  "loci_validate_of_oxm_bsn_l2_cache_hit_masked_OF_VERSION_1_2 =
     v_min 6 (v_set_len 6 v_done)"

lemma loci_validate_of_oxm_bsn_l2_cache_hit_masked_OF_VERSION_1_2_ok [v_proved]: "v_ok loci_validate_of_oxm_bsn_l2_cache_hit_masked_OF_VERSION_1_2"
  unfolding loci_validate_of_oxm_bsn_l2_cache_hit_masked_OF_VERSION_1_2_def by (intro v_intro; simp add: v_proved v_ok_imp_k_ok)

definition loci_validate_of_oxm_bsn_l3_dst_class_id_OF_VERSION_1_2 :: validator where
  "loci_validate_of_oxm_bsn_l3_dst_class_id_OF_VERSION_1_2 =
     v_min 8 (v_set_len 8 v_done)"

lemma loci_validate_of_oxm_bsn_l3_dst_class_id_OF_VERSION_1_2_ok [v_proved]: "v_ok loci_validate_of_oxm_bsn_l3_dst_class_id_OF_VERSION_1_2"
  unfolding loci_validate_of_oxm_bsn_l3_dst_class_id_OF_VERSION_1_2_def by (intro v_intro; simp add: v_proved v_ok_imp_k_ok)

definition loci_validate_of_oxm_bsn_l3_dst_class_id_masked_OF_VERSION_1_2 :: validator where
  "loci_validate_of_oxm_bsn_l3_dst_class_id_masked_OF_VERSION_1_2 =
     v_min 12 (v_set_len 12 v_done)"

lemma loci_validate_of_oxm_bsn_l3_dst_class_id_masked_OF_VERSION_1_2_ok [v_proved]: "v_ok loci_validate_of_oxm_bsn_l3_dst_class_id_masked_OF_VERSION_1_2"
  unfolding loci_validate_of_oxm_bsn_l3_dst_class_id_masked_OF_VERSION_1_2_def by (intro v_intro; simp add: v_proved v_ok_imp_k_ok)

definition loci_validate_of_oxm_bsn_l3_interface_class_id_OF_VERSION_1_2 :: validator where
  "loci_validate_of_oxm_bsn_l3_interface_class_id_OF_VERSION_1_2 =
     v_min 8 (v_set_len 8 v_done)"

lemma loci_validate_of_oxm_bsn_l3_interface_class_id_OF_VERSION_1_2_ok [v_proved]: "v_ok loci_validate_of_oxm_bsn_l3_interface_class_id_OF_VERSION_1_2"
  unfolding loci_validate_of_oxm_bsn_l3_interface_class_id_OF_VERSION_1_2_def by (intro v_intro; simp add: v_proved v_ok_imp_k_ok)

definition loci_validate_of_oxm_bsn_l3_interface_class_id_masked_OF_VERSION_1_2 :: validator where
  "loci_validate_of_oxm_bsn_l3_interface_class_id_masked_OF_VERSION_1_2 =
     v_min 12 (v_set_len 12 v_done)"

lemma loci_validate_of_oxm_bsn_l3_interface_class_id_masked_OF_VERSION_1_2_ok [v_proved]: "v_ok loci_validate_of_oxm_bsn_l3_interface_class_id_masked_OF_VERSION_1_2"
  unfolding loci_validate_of_oxm_bsn_l3_interface_class_id_masked_OF_VERSION_1_2_def by (intro v_intro; simp add: v_proved v_ok_imp_k_ok)

definition loci_validate_of_oxm_bsn_l3_src_class_id_OF_VERSION_1_2 :: validator where
  "loci_validate_of_oxm_bsn_l3_src_class_id_OF_VERSION_1_2 =
     v_min 8 (v_set_len 8 v_done)"

lemma loci_validate_of_oxm_bsn_l3_src_class_id_OF_VERSION_1_2_ok [v_proved]: "v_ok loci_validate_of_oxm_bsn_l3_src_class_id_OF_VERSION_1_2"
  unfolding loci_validate_of_oxm_bsn_l3_src_class_id_OF_VERSION_1_2_def by (intro v_intro; simp add: v_proved v_ok_imp_k_ok)

definition loci_validate_of_oxm_bsn_l3_src_class_id_masked_OF_VERSION_1_2 :: validator where
  "loci_validate_of_oxm_bsn_l3_src_class_id_masked_OF_VERSION_1_2 =
     v_min 12 (v_set_len 12 v_done)"

lemma loci_validate_of_oxm_bsn_l3_src_class_id_masked_OF_VERSION_1_2_ok [v_proved]: "v_ok loci_validate_of_oxm_bsn_l3_src_class_id_masked_OF_VERSION_1_2"
  unfolding loci_validate_of_oxm_bsn_l3_src_class_id_masked_OF_VERSION_1_2_def by (intro v_intro; simp add: v_proved v_ok_imp_k_ok)

definition loci_validate_of_oxm_bsn_lag_id_OF_VERSION_1_2 :: validator where
  "loci_validate_of_oxm_bsn_lag_id_OF_VERSION_1_2 =
     v_min 8 (v_set_len 8 v_done)"

lemma loci_validate_of_oxm_bsn_lag_id_OF_VERSION_1_2_ok [v_proved]: "v_ok loci_validate_of_oxm_bsn_lag_id_OF_VERSION_1_2"
  unfolding loci_validate_of_oxm_bsn_lag_id_OF_VERSION_1_2_def by (intro v_intro; simp add: v_proved v_ok_imp_k_ok)

definition loci_validate_of_oxm_bsn_lag_id_masked_OF_VERSION_1_2 :: validator where
  "loci_validate_of_oxm_bsn_lag_id_masked_OF_VERSION_1_2 =
     v_min 12 (v_set_len 12 v_done)"

lemma loci_validate_of_oxm_bsn_lag_id_masked_OF_VERSION_1_2_ok [v_proved]: "v_ok loci_validate_of_oxm_bsn_lag_id_masked_OF_VERSION_1_2"
  unfolding loci_validate_of_oxm_bsn_lag_id_masked_OF_VERSION_1_2_def by (intro v_intro; simp add: v_proved v_ok_imp_k_ok)

definition loci_validate_of_oxm_bsn_tcp_flags_OF_VERSION_1_2 :: validator where
  "loci_validate_of_oxm_bsn_tcp_flags_OF_VERSION_1_2 =
     v_min 6 (v_set_len 6 v_done)"

lemma loci_validate_of_oxm_bsn_tcp_flags_OF_VERSION_1_2_ok [v_proved]: "v_ok loci_validate_of_oxm_bsn_tcp_flags_OF_VERSION_1_2"
  unfolding loci_validate_of_oxm_bsn_tcp_flags_OF_VERSION_1_2_def by (intro v_intro; simp add: v_proved v_ok_imp_k_ok)

definition loci_validate_of_oxm_bsn_tcp_flags_masked_OF_VERSION_1_2 :: validator where
  "loci_validate_of_oxm_bsn_tcp_flags_masked_OF_VERSION_1_2 =
     v_min 8 (v_set_len 8 v_done)"

lemma loci_validate_of_oxm_bsn_tcp_flags_masked_OF_VERSION_1_2_ok [v_proved]: "v_ok loci_validate_of_oxm_bsn_tcp_flags_masked_OF_VERSION_1_2"
  unfolding loci_validate_of_oxm_bsn_tcp_flags_masked_OF_VERSION_1_2_def by (intro v_intro; simp add: v_proved v_ok_imp_k_ok)

definition loci_validate_of_oxm_bsn_udf0_OF_VERSION_1_2 :: validator where
  "loci_validate_of_oxm_bsn_udf0_OF_VERSION_1_2 =
     v_min 8 (v_set_len 8 v_done)"

lemma loci_validate_of_oxm_bsn_udf0_OF_VERSION_1_2_ok [v_proved]: "v_ok loci_validate_of_oxm_bsn_udf0_OF_VERSION_1_2"
  unfolding loci_validate_of_oxm_bsn_udf0_OF_VERSION_1_2_def by (intro v_intro; simp add: v_proved v_ok_imp_k_ok)

definition loci_validate_of_oxm_bsn_udf0_masked_OF_VERSION_1_2 :: validator where
  "loci_validate_of_oxm_bsn_udf0_masked_OF_VERSION_1_2 =
     v_min 12 (v_set_len 12 v_done)"

lemma loci_validate_of_oxm_bsn_udf0_masked_OF_VERSION_1_2_ok [v_proved]: "v_ok loci_validate_of_oxm_bsn_udf0_masked_OF_VERSION_1_2"
  unfolding loci_validate_of_oxm_bsn_udf0_masked_OF_VERSION_1_2_def by (intro v_intro; simp add: v_proved v_ok_imp_k_ok)

definition loci_validate_of_oxm_bsn_udf1_OF_VERSION_1_2 :: validator where
  "loci_validate_of_oxm_bsn_udf1_OF_VERSION_1_2 =
     v_min 8 (v_set_len 8 v_done)"

lemma loci_validate_of_oxm_bsn_udf1_OF_VERSION_1_2_ok [v_proved]: "v_ok loci_validate_of_oxm_bsn_udf1_OF_VERSION_1_2"
  unfolding loci_validate_of_oxm_bsn_udf1_OF_VERSION_1_2_def by (intro v_intro; simp add: v_proved v_ok_imp_k_ok)

definition loci_validate_of_oxm_bsn_udf1_masked_OF_VERSION_1_2 :: validator where
  "loci_validate_of_oxm_bsn_udf1_masked_OF_VERSION_1_2 =
     v_min 12 (v_set_len 12 v_done)"

lemma loci_validate_of_oxm_bsn_udf1_masked_OF_VERSION_1_2_ok [v_proved]: "v_ok loci_validate_of_oxm_bsn_udf1_masked_OF_VERSION_1_2"
  unfolding loci_validate_of_oxm_bsn_udf1_masked_OF_VERSION_1_2_def by (intro v_intro; simp add: v_proved v_ok_imp_k_ok)

definition loci_validate_of_oxm_bsn_udf2_OF_VERSION_1_2 :: validator where
  "loci_validate_of_oxm_bsn_udf2_OF_VERSION_1_2 =
     v_min 8 (v_set_len 8 v_done)"

lemma loci_validate_of_oxm_bsn_udf2_OF_VERSION_1_2_ok [v_proved]: "v_ok loci_validate_of_oxm_bsn_udf2_OF_VERSION_1_2"
  unfolding loci_validate_of_oxm_bsn_udf2_OF_VERSION_1_2_def by (intro v_intro; simp add: v_proved v_ok_imp_k_ok)

definition loci_validate_of_oxm_bsn_udf2_masked_OF_VERSION_1_2 :: validator where
  "loci_validate_of_oxm_bsn_udf2_masked_OF_VERSION_1_2 =
     v_min 12 (v_set_len 12 v_done)"

lemma loci_validate_of_oxm_bsn_udf2_masked_OF_VERSION_1_2_ok [v_proved]: "v_ok loci_validate_of_oxm_bsn_udf2_masked_OF_VERSION_1_2"
  unfolding loci_validate_of_oxm_bsn_udf2_masked_OF_VERSION_1_2_def by (intro v_intro; simp add: v_proved v_ok_imp_k_ok)

definition loci_validate_of_oxm_bsn_udf3_OF_VERSION_1_2 :: validator where
  "loci_validate_of_oxm_bsn_udf3_OF_VERSION_1_2 =
     v_min 8 (v_set_len 8 v_done)"

lemma loci_validate_of_oxm_bsn_udf3_OF_VERSION_1_2_ok [v_proved]: "v_ok loci_validate_of_oxm_bsn_udf3_OF_VERSION_1_2"
  unfolding loci_validate_of_oxm_bsn_udf3_OF_VERSION_1_2_def by (intro v_intro; simp add: v_proved v_ok_imp_k_ok)

definition loci_validate_of_oxm_bsn_udf3_masked_OF_VERSION_1_2 :: validator where
  "loci_validate_of_oxm_bsn_udf3_masked_OF_VERSION_1_2 =
     v_min 12 (v_set_len 12 v_done)"

lemma loci_validate_of_oxm_bsn_udf3_masked_OF_VERSION_1_2_ok [v_proved]: "v_ok loci_validate_of_oxm_bsn_udf3_masked_OF_VERSION_1_2"
  unfolding loci_validate_of_oxm_bsn_udf3_masked_OF_VERSION_1_2_def by (intro v_intro; simp add: v_proved v_ok_imp_k_ok)

definition loci_validate_of_oxm_bsn_udf4_OF_VERSION_1_2 :: validator where
  "loci_validate_of_oxm_bsn_udf4_OF_VERSION_1_2 =
     v_min 8 (v_set_len 8 v_done)"

lemma loci_validate_of_oxm_bsn_udf4_OF_VERSION_1_2_ok [v_proved]: "v_ok loci_validate_of_oxm_bsn_udf4_OF_VERSION_1_2"
  unfolding loci_validate_of_oxm_bsn_udf4_OF_VERSION_1_2_def by (intro v_intro; simp add: v_proved v_ok_imp_k_ok)

definition loci_validate_of_oxm_bsn_udf4_masked_OF_VERSION_1_2 :: validator where
  "loci_validate_of_oxm_bsn_udf4_masked_OF_VERSION_1_2 =
     v_min 12 (v_set_len 12 v_done)"

lemma loci_validate_of_oxm_bsn_udf4_masked_OF_VERSION_1_2_ok [v_proved]: "v_ok loci_validate_of_oxm_bsn_udf4_masked_OF_VERSION_1_2"
  unfolding loci_validate_of_oxm_bsn_udf4_masked_OF_VERSION_1_2_def by (intro v_intro; simp add: v_proved v_ok_imp_k_ok)

definition loci_validate_of_oxm_bsn_udf5_OF_VERSION_1_2 :: validator where
  "loci_validate_of_oxm_bsn_udf5_OF_VERSION_1_2 =
     v_min 8 (v_set_len 8 v_done)"

lemma loci_validate_of_oxm_bsn_udf5_OF_VERSION_1_2_ok [v_proved]: "v_ok loci_validate_of_oxm_bsn_udf5_OF_VERSION_1_2"
  unfolding loci_validate_of_oxm_bsn_udf5_OF_VERSION_1_2_def by (intro v_intro; simp add: v_proved v_ok_imp_k_ok)

definition loci_validate_of_oxm_bsn_udf5_masked_OF_VERSION_1_2 :: validator where
  "loci_validate_of_oxm_bsn_udf5_masked_OF_VERSION_1_2 =
     v_min 12 (v_set_len 12 v_done)"

lemma loci_validate_of_oxm_bsn_udf5_masked_OF_VERSION_1_2_ok [v_proved]: "v_ok loci_validate_of_oxm_bsn_udf5_masked_OF_VERSION_1_2"
  unfolding loci_validate_of_oxm_bsn_udf5_masked_OF_VERSION_1_2_def by (intro v_intro; simp add: v_proved v_ok_imp_k_ok)

definition loci_validate_of_oxm_bsn_udf6_OF_VERSION_1_2 :: validator where
  "loci_validate_of_oxm_bsn_udf6_OF_VERSION_1_2 =
     v_min 8 (v_set_len 8 v_done)"

lemma loci_validate_of_oxm_bsn_udf6_OF_VERSION_1_2_ok [v_proved]: "v_ok loci_validate_of_oxm_bsn_udf6_OF_VERSION_1_2"
  unfolding loci_validate_of_oxm_bsn_udf6_OF_VERSION_1_2_def by (intro v_intro; simp add: v_proved v_ok_imp_k_ok)

definition loci_validate_of_oxm_bsn_udf6_masked_OF_VERSION_1_2 :: validator where
  "loci_validate_of_oxm_bsn_udf6_masked_OF_VERSION_1_2 =
     v_min 12 (v_set_len 12 v_done)"

lemma loci_validate_of_oxm_bsn_udf6_masked_OF_VERSION_1_2_ok [v_proved]: "v_ok loci_validate_of_oxm_bsn_udf6_masked_OF_VERSION_1_2"
  unfolding loci_validate_of_oxm_bsn_udf6_masked_OF_VERSION_1_2_def by (intro v_intro; simp add: v_proved v_ok_imp_k_ok)

definition loci_validate_of_oxm_bsn_udf7_OF_VERSION_1_2 :: validator where
  "loci_validate_of_oxm_bsn_udf7_OF_VERSION_1_2 =
     v_min 8 (v_set_len 8 v_done)"

lemma loci_validate_of_oxm_bsn_udf7_OF_VERSION_1_2_ok [v_proved]: "v_ok loci_validate_of_oxm_bsn_udf7_OF_VERSION_1_2"
  unfolding loci_validate_of_oxm_bsn_udf7_OF_VERSION_1_2_def by (intro v_intro; simp add: v_proved v_ok_imp_k_ok)

definition loci_validate_of_oxm_bsn_udf7_masked_OF_VERSION_1_2 :: validator where
  "loci_validate_of_oxm_bsn_udf7_masked_OF_VERSION_1_2 =
     v_min 12 (v_set_len 12 v_done)"

lemma loci_validate_of_oxm_bsn_udf7_masked_OF_VERSION_1_2_ok [v_proved]: "v_ok loci_validate_of_oxm_bsn_udf7_masked_OF_VERSION_1_2"
  unfolding loci_validate_of_oxm_bsn_udf7_masked_OF_VERSION_1_2_def by (intro v_intro; simp add: v_proved v_ok_imp_k_ok)

definition loci_validate_of_oxm_bsn_vlan_xlate_port_group_id_OF_VERSION_1_2 :: validator where
  "loci_validate_of_oxm_bsn_vlan_xlate_port_group_id_OF_VERSION_1_2 =
     v_min 8 (v_set_len 8 v_done)"

lemma loci_validate_of_oxm_bsn_vlan_xlate_port_group_id_OF_VERSION_1_2_ok [v_proved]: "v_ok loci_validate_of_oxm_bsn_vlan_xlate_port_group_id_OF_VERSION_1_2"
  unfolding loci_validate_of_oxm_bsn_vlan_xlate_port_group_id_OF_VERSION_1_2_def by (intro v_intro; simp add: v_proved v_ok_imp_k_ok)

definition loci_validate_of_oxm_bsn_vlan_xlate_port_group_id_masked_OF_VERSION_1_2 :: validator where
  "loci_validate_of_oxm_bsn_vlan_xlate_port_group_id_masked_OF_VERSION_1_2 =
     v_min 12 (v_set_len 12 v_done)"

lemma loci_validate_of_oxm_bsn_vlan_xlate_port_group_id_masked_OF_VERSION_1_2_ok [v_proved]: "v_ok loci_validate_of_oxm_bsn_vlan_xlate_port_group_id_masked_OF_VERSION_1_2"
  unfolding loci_validate_of_oxm_bsn_vlan_xlate_port_group_id_masked_OF_VERSION_1_2_def by (intro v_intro; simp add: v_proved v_ok_imp_k_ok)

definition loci_validate_of_oxm_bsn_vrf_OF_VERSION_1_2 :: validator where
  "loci_validate_of_oxm_bsn_vrf_OF_VERSION_1_2 =
     v_min 8 (v_set_len 8 v_done)"

lemma loci_validate_of_oxm_bsn_vrf_OF_VERSION_1_2_ok [v_proved]: "v_ok loci_validate_of_oxm_bsn_vrf_OF_VERSION_1_2"
  unfolding loci_validate_of_oxm_bsn_vrf_OF_VERSION_1_2_def by (intro v_intro; simp add: v_proved v_ok_imp_k_ok)

definition loci_validate_of_oxm_bsn_vrf_masked_OF_VERSION_1_2 :: validator where
  "loci_validate_of_oxm_bsn_vrf_masked_OF_VERSION_1_2 =
     v_min 12 (v_set_len 12 v_done)"

lemma loci_validate_of_oxm_bsn_vrf_masked_OF_VERSION_1_2_ok [v_proved]: "v_ok loci_validate_of_oxm_bsn_vrf_masked_OF_VERSION_1_2"
  unfolding loci_validate_of_oxm_bsn_vrf_masked_OF_VERSION_1_2_def by (intro v_intro; simp add: v_proved v_ok_imp_k_ok)

definition loci_validate_of_oxm_eth_dst_OF_VERSION_1_2 :: validator where
  "loci_validate_of_oxm_eth_dst_OF_VERSION_1_2 =
     v_min 10 (v_set_len 10 v_done)"

lemma loci_validate_of_oxm_eth_dst_OF_VERSION_1_2_ok [v_proved]: "v_ok loci_validate_of_oxm_eth_dst_OF_VERSION_1_2"
  unfolding loci_validate_of_oxm_eth_dst_OF_VERSION_1_2_def by (intro v_intro; simp add: v_proved v_ok_imp_k_ok)

definition loci_validate_of_oxm_eth_dst_masked_OF_VERSION_1_2 :: validator where
  "loci_validate_of_oxm_eth_dst_masked_OF_VERSION_1_2 =
     v_min 16 (v_set_len 16 v_done)"

lemma loci_validate_of_oxm_eth_dst_masked_OF_VERSION_1_2_ok [v_proved]: "v_ok loci_validate_of_oxm_eth_dst_masked_OF_VERSION_1_2"
  unfolding loci_validate_of_oxm_eth_dst_masked_OF_VERSION_1_2_def by (intro v_intro; simp add: v_proved v_ok_imp_k_ok)

definition loci_validate_of_oxm_eth_src_OF_VERSION_1_2 :: validator where
  "loci_validate_of_oxm_eth_src_OF_VERSION_1_2 =
     v_min 10 (v_set_len 10 v_done)"

lemma loci_validate_of_oxm_eth_src_OF_VERSION_1_2_ok [v_proved]: "v_ok loci_validate_of_oxm_eth_src_OF_VERSION_1_2"
  unfolding loci_validate_of_oxm_eth_src_OF_VERSION_1_2_def by (intro v_intro; simp add: v_proved v_ok_imp_k_ok)

definition loci_validate_of_oxm_eth_src_masked_OF_VERSION_1_2 :: validator where
  "loci_validate_of_oxm_eth_src_masked_OF_VERSION_1_2 =
     v_min 16 (v_set_len 16 v_done)"

lemma loci_validate_of_oxm_eth_src_masked_OF_VERSION_1_2_ok [v_proved]: "v_ok loci_validate_of_oxm_eth_src_masked_OF_VERSION_1_2"
  unfolding loci_validate_of_oxm_eth_src_masked_OF_VERSION_1_2_def by (intro v_intro; simp add: v_proved v_ok_imp_k_ok)

definition loci_validate_of_oxm_eth_type_OF_VERSION_1_2 :: validator where
  "loci_validate_of_oxm_eth_type_OF_VERSION_1_2 =
     v_min 6 (v_set_len 6 v_done)"

lemma loci_validate_of_oxm_eth_type_OF_VERSION_1_2_ok [v_proved]: "v_ok loci_validate_of_oxm_eth_type_OF_VERSION_1_2"
  unfolding loci_validate_of_oxm_eth_type_OF_VERSION_1_2_def by (intro v_intro; simp add: v_proved v_ok_imp_k_ok)

definition loci_validate_of_oxm_eth_type_masked_OF_VERSION_1_2 :: validator where
  "loci_validate_of_oxm_eth_type_masked_OF_VERSION_1_2 =
     v_min 8 (v_set_len 8 v_done)"

lemma loci_validate_of_oxm_eth_type_masked_OF_VERSION_1_2_ok [v_proved]: "v_ok loci_validate_of_oxm_eth_type_masked_OF_VERSION_1_2"
  unfolding loci_validate_of_oxm_eth_type_masked_OF_VERSION_1_2_def by (intro v_intro; simp add: v_proved v_ok_imp_k_ok)

definition loci_validate_of_oxm_icmpv4_code_OF_VERSION_1_2 :: validator where
  "loci_validate_of_oxm_icmpv4_code_OF_VERSION_1_2 =
     v_min 5 (v_set_len 5 v_done)"

lemma loci_validate_of_oxm_icmpv4_code_OF_VERSION_1_2_ok [v_proved]: "v_ok loci_validate_of_oxm_icmpv4_code_OF_VERSION_1_2"
  unfolding loci_validate_of_oxm_icmpv4_code_OF_VERSION_1_2_def by (intro v_intro; simp add: v_proved v_ok_imp_k_ok)

definition loci_validate_of_oxm_icmpv4_code_masked_OF_VERSION_1_2 :: validator where
  "loci_validate_of_oxm_icmpv4_code_masked_OF_VERSION_1_2 =
     v_min 6 (v_set_len 6 v_done)"

lemma loci_validate_of_oxm_icmpv4_code_masked_OF_VERSION_1_2_ok [v_proved]: "v_ok loci_validate_of_oxm_icmpv4_code_masked_OF_VERSION_1_2"
  unfolding loci_validate_of_oxm_icmpv4_code_masked_OF_VERSION_1_2_def by (intro v_intro; simp add: v_proved v_ok_imp_k_ok)

definition loci_validate_of_oxm_icmpv4_type_OF_VERSION_1_2 :: validator where
  "loci_validate_of_oxm_icmpv4_type_OF_VERSION_1_2 =
     v_min 5 (v_set_len 5 v_done)"

lemma loci_validate_of_oxm_icmpv4_type_OF_VERSION_1_2_ok [v_proved]: "v_ok loci_validate_of_oxm_icmpv4_type_OF_VERSION_1_2"
  unfolding loci_validate_of_oxm_icmpv4_type_OF_VERSION_1_2_def by (intro v_intro; simp add: v_proved v_ok_imp_k_ok)

definition loci_validate_of_oxm_icmpv4_type_masked_OF_VERSION_1_2 :: validator where
  "loci_validate_of_oxm_icmpv4_type_masked_OF_VERSION_1_2 =
     v_min 6 (v_set_len 6 v_done)"

lemma loci_validate_of_oxm_icmpv4_type_masked_OF_VERSION_1_2_ok [v_proved]: "v_ok loci_validate_of_oxm_icmpv4_type_masked_OF_VERSION_1_2"
  unfolding loci_validate_of_oxm_icmpv4_type_masked_OF_VERSION_1_2_def by (intro v_intro; simp add: v_proved v_ok_imp_k_ok)

definition loci_validate_of_oxm_icmpv6_code_OF_VERSION_1_2 :: validator where
  "loci_validate_of_oxm_icmpv6_code_OF_VERSION_1_2 =
     v_min 5 (v_set_len 5 v_done)"

lemma loci_validate_of_oxm_icmpv6_code_OF_VERSION_1_2_ok [v_proved]: "v_ok loci_validate_of_oxm_icmpv6_code_OF_VERSION_1_2"
  unfolding loci_validate_of_oxm_icmpv6_code_OF_VERSION_1_2_def by (intro v_intro; simp add: v_proved v_ok_imp_k_ok)

definition loci_validate_of_oxm_icmpv6_code_masked_OF_VERSION_1_2 :: validator where
  "loci_validate_of_oxm_icmpv6_code_masked_OF_VERSION_1_2 =
     v_min 6 (v_set_len 6 v_done)"

lemma loci_validate_of_oxm_icmpv6_code_masked_OF_VERSION_1_2_ok [v_proved]: "v_ok loci_validate_of_oxm_icmpv6_code_masked_OF_VERSION_1_2"
  unfolding loci_validate_of_oxm_icmpv6_code_masked_OF_VERSION_1_2_def by (intro v_intro; simp add: v_proved v_ok_imp_k_ok)

definition loci_validate_of_oxm_icmpv6_type_OF_VERSION_1_2 :: validator where
  "loci_validate_of_oxm_icmpv6_type_OF_VERSION_1_2 =
     v_min 5 (v_set_len 5 v_done)"

lemma loci_validate_of_oxm_icmpv6_type_OF_VERSION_1_2_ok [v_proved]: "v_ok loci_validate_of_oxm_icmpv6_type_OF_VERSION_1_2"
  unfolding loci_validate_of_oxm_icmpv6_type_OF_VERSION_1_2_def by (intro v_intro; simp add: v_proved v_ok_imp_k_ok)

definition loci_validate_of_oxm_icmpv6_type_masked_OF_VERSION_1_2 :: validator where
  "loci_validate_of_oxm_icmpv6_type_masked_OF_VERSION_1_2 =
     v_min 6 (v_set_len 6 v_done)"

lemma loci_validate_of_oxm_icmpv6_type_masked_OF_VERSION_1_2_ok [v_proved]: "v_ok loci_validate_of_oxm_icmpv6_type_masked_OF_VERSION_1_2"
  unfolding loci_validate_of_oxm_icmpv6_type_masked_OF_VERSION_1_2_def by (intro v_intro; simp add: v_proved v_ok_imp_k_ok)

definition loci_validate_of_oxm_in_phy_port_OF_VERSION_1_2 :: validator where
  "loci_validate_of_oxm_in_phy_port_OF_VERSION_1_2 =
     v_min 8 (v_set_len 8 v_done)"

lemma loci_validate_of_oxm_in_phy_port_OF_VERSION_1_2_ok [v_proved]: "v_ok loci_validate_of_oxm_in_phy_port_OF_VERSION_1_2"
  unfolding loci_validate_of_oxm_in_phy_port_OF_VERSION_1_2_def by (intro v_intro; simp add: v_proved v_ok_imp_k_ok)

definition loci_validate_of_oxm_in_phy_port_masked_OF_VERSION_1_2 :: validator where
  "loci_validate_of_oxm_in_phy_port_masked_OF_VERSION_1_2 =
     v_min 12 (v_set_len 12 v_done)"

lemma loci_validate_of_oxm_in_phy_port_masked_OF_VERSION_1_2_ok [v_proved]: "v_ok loci_validate_of_oxm_in_phy_port_masked_OF_VERSION_1_2"
  unfolding loci_validate_of_oxm_in_phy_port_masked_OF_VERSION_1_2_def by (intro v_intro; simp add: v_proved v_ok_imp_k_ok)

definition loci_validate_of_oxm_in_port_OF_VERSION_1_2 :: validator where
  "loci_validate_of_oxm_in_port_OF_VERSION_1_2 =
     v_min 8 (v_set_len 8 v_done)"

lemma loci_validate_of_oxm_in_port_OF_VERSION_1_2_ok [v_proved]: "v_ok loci_validate_of_oxm_in_port_OF_VERSION_1_2"
  unfolding loci_validate_of_oxm_in_port_OF_VERSION_1_2_def by (intro v_intro; simp add: v_proved v_ok_imp_k_ok)

definition loci_validate_of_oxm_in_port_masked_OF_VERSION_1_2 :: validator where
  "loci_validate_of_oxm_in_port_masked_OF_VERSION_1_2 =
     v_min 12 (v_set_len 12 v_done)"

lemma loci_validate_of_oxm_in_port_masked_OF_VERSION_1_2_ok [v_proved]: "v_ok loci_validate_of_oxm_in_port_masked_OF_VERSION_1_2"
  unfolding loci_validate_of_oxm_in_port_masked_OF_VERSION_1_2_def by (intro v_intro; simp add: v_proved v_ok_imp_k_ok)

definition loci_validate_of_oxm_ip_dscp_OF_VERSION_1_2 :: validator where
  "loci_validate_of_oxm_ip_dscp_OF_VERSION_1_2 =
     v_min 5 (v_set_len 5 v_done)"

lemma loci_validate_of_oxm_ip_dscp_OF_VERSION_1_2_ok [v_proved]: "v_ok loci_validate_of_oxm_ip_dscp_OF_VERSION_1_2"
  unfolding loci_validate_of_oxm_ip_dscp_OF_VERSION_1_2_def by (intro v_intro; simp add: v_proved v_ok_imp_k_ok)

definition loci_validate_of_oxm_ip_dscp_masked_OF_VERSION_1_2 :: validator where
  "loci_validate_of_oxm_ip_dscp_masked_OF_VERSION_1_2 =
     v_min 6 (v_set_len 6 v_done)"

lemma loci_validate_of_oxm_ip_dscp_masked_OF_VERSION_1_2_ok [v_proved]: "v_ok loci_validate_of_oxm_ip_dscp_masked_OF_VERSION_1_2"
  unfolding loci_validate_of_oxm_ip_dscp_masked_OF_VERSION_1_2_def by (intro v_intro; simp add: v_proved v_ok_imp_k_ok)

definition loci_validate_of_oxm_ip_ecn_OF_VERSION_1_2 :: validator where
  "loci_validate_of_oxm_ip_ecn_OF_VERSION_1_2 =
     v_min 5 (v_set_len 5 v_done)"

lemma loci_validate_of_oxm_ip_ecn_OF_VERSION_1_2_ok [v_proved]: "v_ok loci_validate_of_oxm_ip_ecn_OF_VERSION_1_2"
  unfolding loci_validate_of_oxm_ip_ecn_OF_VERSION_1_2_def by (intro v_intro; simp add: v_proved v_ok_imp_k_ok)

definition loci_validate_of_oxm_ip_ecn_masked_OF_VERSION_1_2 :: validator where
  "loci_validate_of_oxm_ip_ecn_masked_OF_VERSION_1_2 =
     v_min 6 (v_set_len 6 v_done)"

lemma loci_validate_of_oxm_ip_ecn_masked_OF_VERSION_1_2_ok [v_proved]: "v_ok loci_validate_of_oxm_ip_ecn_masked_OF_VERSION_1_2"
  unfolding loci_validate_of_oxm_ip_ecn_masked_OF_VERSION_1_2_def by (intro v_intro; simp add: v_proved v_ok_imp_k_ok)

definition loci_validate_of_oxm_ip_proto_OF_VERSION_1_2 :: validator where
  "loci_validate_of_oxm_ip_proto_OF_VERSION_1_2 =
     v_min 5 (v_set_len 5 v_done)"

lemma loci_validate_of_oxm_ip_proto_OF_VERSION_1_2_ok [v_proved]: "v_ok loci_validate_of_oxm_ip_proto_OF_VERSION_1_2"
  unfolding loci_validate_of_oxm_ip_proto_OF_VERSION_1_2_def by (intro v_intro; simp add: v_proved v_ok_imp_k_ok)

definition loci_validate_of_oxm_ip_proto_masked_OF_VERSION_1_2 :: validator where
  "loci_validate_of_oxm_ip_proto_masked_OF_VERSION_1_2 =
     v_min 6 (v_set_len 6 v_done)"

lemma loci_validate_of_oxm_ip_proto_masked_OF_VERSION_1_2_ok [v_proved]: "v_ok loci_validate_of_oxm_ip_proto_masked_OF_VERSION_1_2"
  unfolding loci_validate_of_oxm_ip_proto_masked_OF_VERSION_1_2_def by (intro v_intro; simp add: v_proved v_ok_imp_k_ok)

definition loci_validate_of_oxm_ipv4_dst_OF_VERSION_1_2 :: validator where
  "loci_validate_of_oxm_ipv4_dst_OF_VERSION_1_2 =
     v_min 8 (v_set_len 8 v_done)"

lemma loci_validate_of_oxm_ipv4_dst_OF_VERSION_1_2_ok [v_proved]: "v_ok loci_validate_of_oxm_ipv4_dst_OF_VERSION_1_2"
  unfolding loci_validate_of_oxm_ipv4_dst_OF_VERSION_1_2_def by (intro v_intro; simp add: v_proved v_ok_imp_k_ok)

definition loci_validate_of_oxm_ipv4_dst_masked_OF_VERSION_1_2 :: validator where
  "loci_validate_of_oxm_ipv4_dst_masked_OF_VERSION_1_2 =
     v_min 12 (v_set_len 12 v_done)"

lemma loci_validate_of_oxm_ipv4_dst_masked_OF_VERSION_1_2_ok [v_proved]: "v_ok loci_validate_of_oxm_ipv4_dst_masked_OF_VERSION_1_2"
  unfolding loci_validate_of_oxm_ipv4_dst_masked_OF_VERSION_1_2_def by (intro v_intro; simp add: v_proved v_ok_imp_k_ok)

definition loci_validate_of_oxm_ipv4_src_OF_VERSION_1_2 :: validator where
  "loci_validate_of_oxm_ipv4_src_OF_VERSION_1_2 =
     v_min 8 (v_set_len 8 v_done)"

lemma loci_validate_of_oxm_ipv4_src_OF_VERSION_1_2_ok [v_proved]: "v_ok loci_validate_of_oxm_ipv4_src_OF_VERSION_1_2"
  unfolding loci_validate_of_oxm_ipv4_src_OF_VERSION_1_2_def by (intro v_intro; simp add: v_proved v_ok_imp_k_ok)

definition loci_validate_of_oxm_ipv4_src_masked_OF_VERSION_1_2 :: validator where
  "loci_validate_of_oxm_ipv4_src_masked_OF_VERSION_1_2 =
     v_min 12 (v_set_len 12 v_done)"

lemma loci_validate_of_oxm_ipv4_src_masked_OF_VERSION_1_2_ok [v_proved]: "v_ok loci_validate_of_oxm_ipv4_src_masked_OF_VERSION_1_2"
  unfolding loci_validate_of_oxm_ipv4_src_masked_OF_VERSION_1_2_def by (intro v_intro; simp add: v_proved v_ok_imp_k_ok)

definition loci_validate_of_oxm_ipv6_dst_OF_VERSION_1_2 :: validator where
  "loci_validate_of_oxm_ipv6_dst_OF_VERSION_1_2 =
     v_min 20 (v_set_len 20 v_done)"

lemma loci_validate_of_oxm_ipv6_dst_OF_VERSION_1_2_ok [v_proved]: "v_ok loci_validate_of_oxm_ipv6_dst_OF_VERSION_1_2"
  unfolding loci_validate_of_oxm_ipv6_dst_OF_VERSION_1_2_def by (intro v_intro; simp add: v_proved v_ok_imp_k_ok)

definition loci_validate_of_oxm_ipv6_dst_masked_OF_VERSION_1_2 :: validator where
  "loci_validate_of_oxm_ipv6_dst_masked_OF_VERSION_1_2 =
     v_min 36 (v_set_len 36 v_done)"

lemma loci_validate_of_oxm_ipv6_dst_masked_OF_VERSION_1_2_ok [v_proved]: "v_ok loci_validate_of_oxm_ipv6_dst_masked_OF_VERSION_1_2"
  unfolding loci_validate_of_oxm_ipv6_dst_masked_OF_VERSION_1_2_def by (intro v_intro; simp add: v_proved v_ok_imp_k_ok)

definition loci_validate_of_oxm_ipv6_flabel_OF_VERSION_1_2 :: validator where
  "loci_validate_of_oxm_ipv6_flabel_OF_VERSION_1_2 =
     v_min 8 (v_set_len 8 v_done)"

lemma loci_validate_of_oxm_ipv6_flabel_OF_VERSION_1_2_ok [v_proved]: "v_ok loci_validate_of_oxm_ipv6_flabel_OF_VERSION_1_2"
  unfolding loci_validate_of_oxm_ipv6_flabel_OF_VERSION_1_2_def by (intro v_intro; simp add: v_proved v_ok_imp_k_ok)

definition loci_validate_of_oxm_ipv6_flabel_masked_OF_VERSION_1_2 :: validator where
  "loci_validate_of_oxm_ipv6_flabel_masked_OF_VERSION_1_2 =
     v_min 12 (v_set_len 12 v_done)"

lemma loci_validate_of_oxm_ipv6_flabel_masked_OF_VERSION_1_2_ok [v_proved]: "v_ok loci_validate_of_oxm_ipv6_flabel_masked_OF_VERSION_1_2"
  unfolding loci_validate_of_oxm_ipv6_flabel_masked_OF_VERSION_1_2_def by (intro v_intro; simp add: v_proved v_ok_imp_k_ok)

definition loci_validate_of_oxm_ipv6_nd_sll_OF_VERSION_1_2 :: validator where
  "loci_validate_of_oxm_ipv6_nd_sll_OF_VERSION_1_2 =
     v_min 10 (v_set_len 10 v_done)"

lemma loci_validate_of_oxm_ipv6_nd_sll_OF_VERSION_1_2_ok [v_proved]: "v_ok loci_validate_of_oxm_ipv6_nd_sll_OF_VERSION_1_2"
  unfolding loci_validate_of_oxm_ipv6_nd_sll_OF_VERSION_1_2_def by (intro v_intro; simp add: v_proved v_ok_imp_k_ok)

definition loci_validate_of_oxm_ipv6_nd_sll_masked_OF_VERSION_1_2 :: validator where
  "loci_validate_of_oxm_ipv6_nd_sll_masked_OF_VERSION_1_2 =
     v_min 16 (v_set_len 16 v_done)"

lemma loci_validate_of_oxm_ipv6_nd_sll_masked_OF_VERSION_1_2_ok [v_proved]: "v_ok loci_validate_of_oxm_ipv6_nd_sll_masked_OF_VERSION_1_2"
  unfolding loci_validate_of_oxm_ipv6_nd_sll_masked_OF_VERSION_1_2_def by (intro v_intro; simp add: v_proved v_ok_imp_k_ok)

definition loci_validate_of_oxm_ipv6_nd_target_OF_VERSION_1_2 :: validator where
  "loci_validate_of_oxm_ipv6_nd_target_OF_VERSION_1_2 =
     v_min 20 (v_set_len 20 v_done)"

lemma loci_validate_of_oxm_ipv6_nd_target_OF_VERSION_1_2_ok [v_proved]: "v_ok loci_validate_of_oxm_ipv6_nd_target_OF_VERSION_1_2"
  unfolding loci_validate_of_oxm_ipv6_nd_target_OF_VERSION_1_2_def by (intro v_intro; simp add: v_proved v_ok_imp_k_ok)

definition loci_validate_of_oxm_ipv6_nd_target_masked_OF_VERSION_1_2 :: validator where
  "loci_validate_of_oxm_ipv6_nd_target_masked_OF_VERSION_1_2 =
     v_min 36 (v_set_len 36 v_done)"

lemma loci_validate_of_oxm_ipv6_nd_target_masked_OF_VERSION_1_2_ok [v_proved]: "v_ok loci_validate_of_oxm_ipv6_nd_target_masked_OF_VERSION_1_2"
  unfolding loci_validate_of_oxm_ipv6_nd_target_masked_OF_VERSION_1_2_def by (intro v_intro; simp add: v_proved v_ok_imp_k_ok)

definition loci_validate_of_oxm_ipv6_nd_tll_OF_VERSION_1_2 :: validator where
  "loci_validate_of_oxm_ipv6_nd_tll_OF_VERSION_1_2 =
     v_min 10 (v_set_len 10 v_done)"

lemma loci_validate_of_oxm_ipv6_nd_tll_OF_VERSION_1_2_ok [v_proved]: "v_ok loci_validate_of_oxm_ipv6_nd_tll_OF_VERSION_1_2"
  unfolding loci_validate_of_oxm_ipv6_nd_tll_OF_VERSION_1_2_def by (intro v_intro; simp add: v_proved v_ok_imp_k_ok)

definition loci_validate_of_oxm_ipv6_nd_tll_masked_OF_VERSION_1_2 :: validator where
  "loci_validate_of_oxm_ipv6_nd_tll_masked_OF_VERSION_1_2 =
     v_min 16 (v_set_len 16 v_done)"

lemma loci_validate_of_oxm_ipv6_nd_tll_masked_OF_VERSION_1_2_ok [v_proved]: "v_ok loci_validate_of_oxm_ipv6_nd_tll_masked_OF_VERSION_1_2"
  unfolding loci_validate_of_oxm_ipv6_nd_tll_masked_OF_VERSION_1_2_def by (intro v_intro; simp add: v_proved v_ok_imp_k_ok)

definition loci_validate_of_oxm_ipv6_src_OF_VERSION_1_2 :: validator where
  "loci_validate_of_oxm_ipv6_src_OF_VERSION_1_2 =
     v_min 20 (v_set_len 20 v_done)"

lemma loci_validate_of_oxm_ipv6_src_OF_VERSION_1_2_ok [v_proved]: "v_ok loci_validate_of_oxm_ipv6_src_OF_VERSION_1_2"
  unfolding loci_validate_of_oxm_ipv6_src_OF_VERSION_1_2_def by (intro v_intro; simp add: v_proved v_ok_imp_k_ok)

definition loci_validate_of_oxm_ipv6_src_masked_OF_VERSION_1_2 :: validator where
  "loci_validate_of_oxm_ipv6_src_masked_OF_VERSION_1_2 =
     v_min 36 (v_set_len 36 v_done)"

lemma loci_validate_of_oxm_ipv6_src_masked_OF_VERSION_1_2_ok [v_proved]: "v_ok loci_validate_of_oxm_ipv6_src_masked_OF_VERSION_1_2"
  unfolding loci_validate_of_oxm_ipv6_src_masked_OF_VERSION_1_2_def by (intro v_intro; simp add: v_proved v_ok_imp_k_ok)

definition loci_validate_of_oxm_metadata_OF_VERSION_1_2 :: validator where
  "loci_validate_of_oxm_metadata_OF_VERSION_1_2 =
     v_min 12 (v_set_len 12 v_done)"

lemma loci_validate_of_oxm_metadata_OF_VERSION_1_2_ok [v_proved]: "v_ok loci_validate_of_oxm_metadata_OF_VERSION_1_2"
  unfolding loci_validate_of_oxm_metadata_OF_VERSION_1_2_def by (intro v_intro; simp add: v_proved v_ok_imp_k_ok)

definition loci_validate_of_oxm_metadata_masked_OF_VERSION_1_2 :: validator where
  "loci_validate_of_oxm_metadata_masked_OF_VERSION_1_2 =
     v_min 20 (v_set_len 20 v_done)"

lemma loci_validate_of_oxm_metadata_masked_OF_VERSION_1_2_ok [v_proved]: "v_ok loci_validate_of_oxm_metadata_masked_OF_VERSION_1_2"
  unfolding loci_validate_of_oxm_metadata_masked_OF_VERSION_1_2_def by (intro v_intro; simp add: v_proved v_ok_imp_k_ok)

definition loci_validate_of_oxm_mpls_label_OF_VERSION_1_2 :: validator where
  "loci_validate_of_oxm_mpls_label_OF_VERSION_1_2 =
     v_min 8 (v_set_len 8 v_done)"

lemma loci_validate_of_oxm_mpls_label_OF_VERSION_1_2_ok [v_proved]: "v_ok loci_validate_of_oxm_mpls_label_OF_VERSION_1_2"
  unfolding loci_validate_of_oxm_mpls_label_OF_VERSION_1_2_def by (intro v_intro; simp add: v_proved v_ok_imp_k_ok)

definition loci_validate_of_oxm_mpls_label_masked_OF_VERSION_1_2 :: validator where
  "loci_validate_of_oxm_mpls_label_masked_OF_VERSION_1_2 =
     v_min 12 (v_set_len 12 v_done)"

lemma loci_validate_of_oxm_mpls_label_masked_OF_VERSION_1_2_ok [v_proved]: "v_ok loci_validate_of_oxm_mpls_label_masked_OF_VERSION_1_2"
  unfolding loci_validate_of_oxm_mpls_label_masked_OF_VERSION_1_2_def by (intro v_intro; simp add: v_proved v_ok_imp_k_ok)

definition loci_validate_of_oxm_mpls_tc_OF_VERSION_1_2 :: validator where
  "loci_validate_of_oxm_mpls_tc_OF_VERSION_1_2 =
     v_min 5 (v_set_len 5 v_done)"

lemma loci_validate_of_oxm_mpls_tc_OF_VERSION_1_2_ok [v_proved]: "v_ok loci_validate_of_oxm_mpls_tc_OF_VERSION_1_2"
  unfolding loci_validate_of_oxm_mpls_tc_OF_VERSION_1_2_def by (intro v_intro; simp add: v_proved v_ok_imp_k_ok)

definition loci_validate_of_oxm_mpls_tc_masked_OF_VERSION_1_2 :: validator where
  "loci_validate_of_oxm_mpls_tc_masked_OF_VERSION_1_2 =
     v_min 6 (v_set_len 6 v_done)"

lemma loci_validate_of_oxm_mpls_tc_masked_OF_VERSION_1_2_ok [v_proved]: "v_ok loci_validate_of_oxm_mpls_tc_masked_OF_VERSION_1_2"
  unfolding loci_validate_of_oxm_mpls_tc_masked_OF_VERSION_1_2_def by (intro v_intro; simp add: v_proved v_ok_imp_k_ok)

definition loci_validate_of_oxm_sctp_dst_OF_VERSION_1_2 :: validator where
  "loci_validate_of_oxm_sctp_dst_OF_VERSION_1_2 =
     v_min 6 (v_set_len 6 v_done)"

lemma loci_validate_of_oxm_sctp_dst_OF_VERSION_1_2_ok [v_proved]: "v_ok loci_validate_of_oxm_sctp_dst_OF_VERSION_1_2"
  unfolding loci_validate_of_oxm_sctp_dst_OF_VERSION_1_2_def by (intro v_intro; simp add: v_proved v_ok_imp_k_ok)

definition loci_validate_of_oxm_sctp_dst_masked_OF_VERSION_1_2 :: validator where
  "loci_validate_of_oxm_sctp_dst_masked_OF_VERSION_1_2 =
     v_min 8 (v_set_len 8 v_done)"

lemma loci_validate_of_oxm_sctp_dst_masked_OF_VERSION_1_2_ok [v_proved]: "v_ok loci_validate_of_oxm_sctp_dst_masked_OF_VERSION_1_2"
  unfolding loci_validate_of_oxm_sctp_dst_masked_OF_VERSION_1_2_def by (intro v_intro; simp add: v_proved v_ok_imp_k_ok)

definition loci_validate_of_oxm_sctp_src_OF_VERSION_1_2 :: validator where
  "loci_validate_of_oxm_sctp_src_OF_VERSION_1_2 =
     v_min 6 (v_set_len 6 v_done)"

lemma loci_validate_of_oxm_sctp_src_OF_VERSION_1_2_ok [v_proved]: "v_ok loci_validate_of_oxm_sctp_src_OF_VERSION_1_2"
  unfolding loci_validate_of_oxm_sctp_src_OF_VERSION_1_2_def by (intro v_intro; simp add: v_proved v_ok_imp_k_ok)

definition loci_validate_of_oxm_sctp_src_masked_OF_VERSION_1_2 :: validator where
  "loci_validate_of_oxm_sctp_src_masked_OF_VERSION_1_2 =
     v_min 8 (v_set_len 8 v_done)"

lemma loci_validate_of_oxm_sctp_src_masked_OF_VERSION_1_2_ok [v_proved]: "v_ok loci_validate_of_oxm_sctp_src_masked_OF_VERSION_1_2"
  unfolding loci_validate_of_oxm_sctp_src_masked_OF_VERSION_1_2_def by (intro v_intro; simp add: v_proved v_ok_imp_k_ok)

definition loci_validate_of_oxm_tcp_dst_OF_VERSION_1_2 :: validator where
  "loci_validate_of_oxm_tcp_dst_OF_VERSION_1_2 =
     v_min 6 (v_set_len 6 v_done)"

lemma loci_validate_of_oxm_tcp_dst_OF_VERSION_1_2_ok [v_proved]: "v_ok loci_validate_of_oxm_tcp_dst_OF_VERSION_1_2"
  unfolding loci_validate_of_oxm_tcp_dst_OF_VERSION_1_2_def by (intro v_intro; simp add: v_proved v_ok_imp_k_ok)

definition loci_validate_of_oxm_tcp_dst_masked_OF_VERSION_1_2 :: validator where
  "loci_validate_of_oxm_tcp_dst_masked_OF_VERSION_1_2 =
     v_min 8 (v_set_len 8 v_done)"

lemma loci_validate_of_oxm_tcp_dst_masked_OF_VERSION_1_2_ok [v_proved]: "v_ok loci_validate_of_oxm_tcp_dst_masked_OF_VERSION_1_2"
  unfolding loci_validate_of_oxm_tcp_dst_masked_OF_VERSION_1_2_def by (intro v_intro; simp add: v_proved v_ok_imp_k_ok)

definition loci_validate_of_oxm_tcp_src_OF_VERSION_1_2 :: validator where
  "loci_validate_of_oxm_tcp_src_OF_VERSION_1_2 =
     v_min 6 (v_set_len 6 v_done)"

lemma loci_validate_of_oxm_tcp_src_OF_VERSION_1_2_ok [v_proved]: "v_ok loci_validate_of_oxm_tcp_src_OF_VERSION_1_2"
  unfolding loci_validate_of_oxm_tcp_src_OF_VERSION_1_2_def by (intro v_intro; simp add: v_proved v_ok_imp_k_ok)

definition loci_validate_of_oxm_tcp_src_masked_OF_VERSION_1_2 :: validator where
  "loci_validate_of_oxm_tcp_src_masked_OF_VERSION_1_2 =
     v_min 8 (v_set_len 8 v_done)"

lemma loci_validate_of_oxm_tcp_src_masked_OF_VERSION_1_2_ok [v_proved]: "v_ok loci_validate_of_oxm_tcp_src_masked_OF_VERSION_1_2"
  unfolding loci_validate_of_oxm_tcp_src_masked_OF_VERSION_1_2_def by (intro v_intro; simp add: v_proved v_ok_imp_k_ok)

definition loci_validate_of_oxm_tunnel_ipv4_dst_OF_VERSION_1_2 :: validator where
  "loci_validate_of_oxm_tunnel_ipv4_dst_OF_VERSION_1_2 =
     v_min 8 (v_set_len 8 v_done)"

lemma loci_validate_of_oxm_tunnel_ipv4_dst_OF_VERSION_1_2_ok [v_proved]: "v_ok loci_validate_of_oxm_tunnel_ipv4_dst_OF_VERSION_1_2"
  unfolding loci_validate_of_oxm_tunnel_ipv4_dst_OF_VERSION_1_2_def by (intro v_intro; simp add: v_proved v_ok_imp_k_ok)

definition loci_validate_of_oxm_tunnel_ipv4_dst_masked_OF_VERSION_1_2 :: validator where
  "loci_validate_of_oxm_tunnel_ipv4_dst_masked_OF_VERSION_1_2 =
     v_min 12 (v_set_len 12 v_done)"

lemma loci_validate_of_oxm_tunnel_ipv4_dst_masked_OF_VERSION_1_2_ok [v_proved]: "v_ok loci_validate_of_oxm_tunnel_ipv4_dst_masked_OF_VERSION_1_2"
  unfolding loci_validate_of_oxm_tunnel_ipv4_dst_masked_OF_VERSION_1_2_def by (intro v_intro; simp add: v_proved v_ok_imp_k_ok)

definition loci_validate_of_oxm_tunnel_ipv4_src_OF_VERSION_1_2 :: validator where
  "loci_validate_of_oxm_tunnel_ipv4_src_OF_VERSION_1_2 =
     v_min 8 (v_set_len 8 v_done)"

lemma loci_validate_of_oxm_tunnel_ipv4_src_OF_VERSION_1_2_ok [v_proved]: "v_ok loci_validate_of_oxm_tunnel_ipv4_src_OF_VERSION_1_2"
  unfolding loci_validate_of_oxm_tunnel_ipv4_src_OF_VERSION_1_2_def by (intro v_intro; simp add: v_proved v_ok_imp_k_ok)

definition loci_validate_of_oxm_tunnel_ipv4_src_masked_OF_VERSION_1_2 :: validator where
  "loci_validate_of_oxm_tunnel_ipv4_src_masked_OF_VERSION_1_2 =
     v_min 12 (v_set_len 12 v_done)"

lemma loci_validate_of_oxm_tunnel_ipv4_src_masked_OF_VERSION_1_2_ok [v_proved]: "v_ok loci_validate_of_oxm_tunnel_ipv4_src_masked_OF_VERSION_1_2"
  unfolding loci_validate_of_oxm_tunnel_ipv4_src_masked_OF_VERSION_1_2_def by (intro v_intro; simp add: v_proved v_ok_imp_k_ok)

definition loci_validate_of_oxm_udp_dst_OF_VERSION_1_2 :: validator where
  "loci_validate_of_oxm_udp_dst_OF_VERSION_1_2 =
     v_min 6 (v_set_len 6 v_done)"

lemma loci_validate_of_oxm_udp_dst_OF_VERSION_1_2_ok [v_proved]: "v_ok loci_validate_of_oxm_udp_dst_OF_VERSION_1_2"
  unfolding loci_validate_of_oxm_udp_dst_OF_VERSION_1_2_def by (intro v_intro; simp add: v_proved v_ok_imp_k_ok)

definition loci_validate_of_oxm_udp_dst_masked_OF_VERSION_1_2 :: validator where
  "loci_validate_of_oxm_udp_dst_masked_OF_VERSION_1_2 =
     v_min 8 (v_set_len 8 v_done)"

lemma loci_validate_of_oxm_udp_dst_masked_OF_VERSION_1_2_ok [v_proved]: "v_ok loci_validate_of_oxm_udp_dst_masked_OF_VERSION_1_2"
  unfolding loci_validate_of_oxm_udp_dst_masked_OF_VERSION_1_2_def by (intro v_intro; simp add: v_proved v_ok_imp_k_ok)

definition loci_validate_of_oxm_udp_src_OF_VERSION_1_2 :: validator where
  "loci_validate_of_oxm_udp_src_OF_VERSION_1_2 =
     v_min 6 (v_set_len 6 v_done)"

lemma loci_validate_of_oxm_udp_src_OF_VERSION_1_2_ok [v_proved]: "v_ok loci_validate_of_oxm_udp_src_OF_VERSION_1_2"
  unfolding loci_validate_of_oxm_udp_src_OF_VERSION_1_2_def by (intro v_intro; simp add: v_proved v_ok_imp_k_ok)

definition loci_validate_of_oxm_udp_src_masked_OF_VERSION_1_2 :: validator where
  "loci_validate_of_oxm_udp_src_masked_OF_VERSION_1_2 =
     v_min 8 (v_set_len 8 v_done)"

lemma loci_validate_of_oxm_udp_src_masked_OF_VERSION_1_2_ok [v_proved]: "v_ok loci_validate_of_oxm_udp_src_masked_OF_VERSION_1_2"
  unfolding loci_validate_of_oxm_udp_src_masked_OF_VERSION_1_2_def by (intro v_intro; simp add: v_proved v_ok_imp_k_ok)

definition loci_validate_of_oxm_vlan_pcp_OF_VERSION_1_2 :: validator where
  "loci_validate_of_oxm_vlan_pcp_OF_VERSION_1_2 =
     v_min 5 (v_set_len 5 v_done)"

lemma loci_validate_of_oxm_vlan_pcp_OF_VERSION_1_2_ok [v_proved]: "v_ok loci_validate_of_oxm_vlan_pcp_OF_VERSION_1_2"
  unfolding loci_validate_of_oxm_vlan_pcp_OF_VERSION_1_2_def by (intro v_intro; simp add: v_proved v_ok_imp_k_ok)

definition loci_validate_of_oxm_vlan_pcp_masked_OF_VERSION_1_2 :: validator where
  "loci_validate_of_oxm_vlan_pcp_masked_OF_VERSION_1_2 =
     v_min 6 (v_set_len 6 v_done)"

lemma loci_validate_of_oxm_vlan_pcp_masked_OF_VERSION_1_2_ok [v_proved]: "v_ok loci_validate_of_oxm_vlan_pcp_masked_OF_VERSION_1_2"
  unfolding loci_validate_of_oxm_vlan_pcp_masked_OF_VERSION_1_2_def by (intro v_intro; simp add: v_proved v_ok_imp_k_ok)

definition loci_validate_of_oxm_vlan_vid_OF_VERSION_1_2 :: validator where
  "loci_validate_of_oxm_vlan_vid_OF_VERSION_1_2 =
     v_min 6 (v_set_len 6 v_done)"

lemma loci_validate_of_oxm_vlan_vid_OF_VERSION_1_2_ok [v_proved]: "v_ok loci_validate_of_oxm_vlan_vid_OF_VERSION_1_2"
  unfolding loci_validate_of_oxm_vlan_vid_OF_VERSION_1_2_def by (intro v_intro; simp add: v_proved v_ok_imp_k_ok)

definition loci_validate_of_oxm_vlan_vid_masked_OF_VERSION_1_2 :: validator where
  "loci_validate_of_oxm_vlan_vid_masked_OF_VERSION_1_2 =
     v_min 8 (v_set_len 8 v_done)"

lemma loci_validate_of_oxm_vlan_vid_masked_OF_VERSION_1_2_ok [v_proved]: "v_ok loci_validate_of_oxm_vlan_vid_masked_OF_VERSION_1_2"
  unfolding loci_validate_of_oxm_vlan_vid_masked_OF_VERSION_1_2_def by (intro v_intro; simp add: v_proved v_ok_imp_k_ok)

definition loci_validate_of_oxm_OF_VERSION_1_2 :: validator where
  "loci_validate_of_oxm_OF_VERSION_1_2 =
     v_min 4 (v_switch32 0
      [(0x80002a02, loci_validate_of_oxm_arp_op_OF_VERSION_1_2),
       (0x80002b04, loci_validate_of_oxm_arp_op_masked_OF_VERSION_1_2),
       (0x80003006, loci_validate_of_oxm_arp_sha_OF_VERSION_1_2),
       (0x8000310c, loci_validate_of_oxm_arp_sha_masked_OF_VERSION_1_2),
       (0x80002c04, loci_validate_of_oxm_arp_spa_OF_VERSION_1_2),
       (0x80002d08, loci_validate_of_oxm_arp_spa_masked_OF_VERSION_1_2),
       (0x80003206, loci_validate_of_oxm_arp_tha_OF_VERSION_1_2),
       (0x8000330c, loci_validate_of_oxm_arp_tha_masked_OF_VERSION_1_2),
       (0x80002e04, loci_validate_of_oxm_arp_tpa_OF_VERSION_1_2),
       (0x80002f08, loci_validate_of_oxm_arp_tpa_masked_OF_VERSION_1_2),
       (0x30e04, loci_validate_of_oxm_bsn_egr_port_group_id_OF_VERSION_1_2),
       (0x30f08, loci_validate_of_oxm_bsn_egr_port_group_id_masked_OF_VERSION_1_2),
       (0x30601, loci_validate_of_oxm_bsn_global_vrf_allowed_OF_VERSION_1_2),
       (0x30702, loci_validate_of_oxm_bsn_global_vrf_allowed_masked_OF_VERSION_1_2),
       (0x30010, loci_validate_of_oxm_bsn_in_ports_128_OF_VERSION_1_2),
       (0x30120, loci_validate_of_oxm_bsn_in_ports_128_masked_OF_VERSION_1_2),
       (0x32640, loci_validate_of_oxm_bsn_in_ports_512_OF_VERSION_1_2),
       (0x32780, loci_validate_of_oxm_bsn_in_ports_512_masked_OF_VERSION_1_2),
       (0x32804, loci_validate_of_oxm_bsn_ingress_port_group_id_OF_VERSION_1_2),
       (0x32908, loci_validate_of_oxm_bsn_ingress_port_group_id_masked_OF_VERSION_1_2),
       (0x32401, loci_validate_of_oxm_bsn_l2_cache_hit_OF_VERSION_1_2),
       (0x32502, loci_validate_of_oxm_bsn_l2_cache_hit_masked_OF_VERSION_1_2),
       (0x30c04, loci_validate_of_oxm_bsn_l3_dst_class_id_OF_VERSION_1_2),
       (0x30d08, loci_validate_of_oxm_bsn_l3_dst_class_id_masked_OF_VERSION_1_2),
       (0x30804, loci_validate_of_oxm_bsn_l3_interface_class_id_OF_VERSION_1_2),
       (0x30908, loci_validate_of_oxm_bsn_l3_interface_class_id_masked_OF_VERSION_1_2),
       (0x30a04, loci_validate_of_oxm_bsn_l3_src_class_id_OF_VERSION_1_2),
       (0x30b08, loci_validate_of_oxm_bsn_l3_src_class_id_masked_OF_VERSION_1_2),
       (0x30204, loci_validate_of_oxm_bsn_lag_id_OF_VERSION_1_2),
       (0x30308, loci_validate_of_oxm_bsn_lag_id_masked_OF_VERSION_1_2),
       (0x32002, loci_validate_of_oxm_bsn_tcp_flags_OF_VERSION_1_2),
       (0x32104, loci_validate_of_oxm_bsn_tcp_flags_masked_OF_VERSION_1_2),
       (0x31004, loci_validate_of_oxm_bsn_udf0_OF_VERSION_1_2),
       (0x31108, loci_validate_of_oxm_bsn_udf0_masked_OF_VERSION_1_2),
       (0x31204, loci_validate_of_oxm_bsn_udf1_OF_VERSION_1_2),
       (0x31308, loci_validate_of_oxm_bsn_udf1_masked_OF_VERSION_1_2),
       (0x31404, loci_validate_of_oxm_bsn_udf2_OF_VERSION_1_2),
       (0x31508, loci_validate_of_oxm_bsn_udf2_masked_OF_VERSION_1_2),
       (0x31604, loci_validate_of_oxm_bsn_udf3_OF_VERSION_1_2),
       (0x31708, loci_validate_of_oxm_bsn_udf3_masked_OF_VERSION_1_2),
       (0x31804, loci_validate_of_oxm_bsn_udf4_OF_VERSION_1_2),
       (0x31908, loci_validate_of_oxm_bsn_udf4_masked_OF_VERSION_1_2),
       (0x31a04, loci_validate_of_oxm_bsn_udf5_OF_VERSION_1_2),
       (0x31b08, loci_validate_of_oxm_bsn_udf5_masked_OF_VERSION_1_2),
       (0x31c04, loci_validate_of_oxm_bsn_udf6_OF_VERSION_1_2),
       (0x31d08, loci_validate_of_oxm_bsn_udf6_masked_OF_VERSION_1_2),
       (0x31e04, loci_validate_of_oxm_bsn_udf7_OF_VERSION_1_2),
       (0x31f08, loci_validate_of_oxm_bsn_udf7_masked_OF_VERSION_1_2),
       (0x32204, loci_validate_of_oxm_bsn_vlan_xlate_port_group_id_OF_VERSION_1_2),
       (0x32308, loci_validate_of_oxm_bsn_vlan_xlate_port_group_id_masked_OF_VERSION_1_2),
       (0x30404, loci_validate_of_oxm_bsn_vrf_OF_VERSION_1_2),
       (0x30508, loci_validate_of_oxm_bsn_vrf_masked_OF_VERSION_1_2),
       (0x80000606, loci_validate_of_oxm_eth_dst_OF_VERSION_1_2),
       (0x8000070c, loci_validate_of_oxm_eth_dst_masked_OF_VERSION_1_2),
       (0x80000806, loci_validate_of_oxm_eth_src_OF_VERSION_1_2),
       (0x8000090c, loci_validate_of_oxm_eth_src_masked_OF_VERSION_1_2),
       (0x80000a02, loci_validate_of_oxm_eth_type_OF_VERSION_1_2),
       (0x80000b04, loci_validate_of_oxm_eth_type_masked_OF_VERSION_1_2),
       (0x80002801, loci_validate_of_oxm_icmpv4_code_OF_VERSION_1_2),
       (0x80002902, loci_validate_of_oxm_icmpv4_code_masked_OF_VERSION_1_2),
       (0x80002601, loci_validate_of_oxm_icmpv4_type_OF_VERSION_1_2),
       (0x80002702, loci_validate_of_oxm_icmpv4_type_masked_OF_VERSION_1_2),
       (0x80003c01, loci_validate_of_oxm_icmpv6_code_OF_VERSION_1_2),
       (0x80003d02, loci_validate_of_oxm_icmpv6_code_masked_OF_VERSION_1_2),
       (0x80003a01, loci_validate_of_oxm_icmpv6_type_OF_VERSION_1_2),
       (0x80003b02, loci_validate_of_oxm_icmpv6_type_masked_OF_VERSION_1_2),
       (0x80000204, loci_validate_of_oxm_in_phy_port_OF_VERSION_1_2),
       (0x80000308, loci_validate_of_oxm_in_phy_port_masked_OF_VERSION_1_2),
       (0x80000004, loci_validate_of_oxm_in_port_OF_VERSION_1_2),
       (0x80000108, loci_validate_of_oxm_in_port_masked_OF_VERSION_1_2),
       (0x80001001, loci_validate_of_oxm_ip_dscp_OF_VERSION_1_2),
       (0x80001102, loci_validate_of_oxm_ip_dscp_masked_OF_VERSION_1_2),
       (0x80001201, loci_validate_of_oxm_ip_ecn_OF_VERSION_1_2),
       (0x80001302, loci_validate_of_oxm_ip_ecn_masked_OF_VERSION_1_2),
       (0x80001401, loci_validate_of_oxm_ip_proto_OF_VERSION_1_2),
       (0x80001502, loci_validate_of_oxm_ip_proto_masked_OF_VERSION_1_2),
       (0x80001804, loci_validate_of_oxm_ipv4_dst_OF_VERSION_1_2),
       (0x80001908, loci_validate_of_oxm_ipv4_dst_masked_OF_VERSION_1_2),
       (0x80001604, loci_validate_of_oxm_ipv4_src_OF_VERSION_1_2),
       (0x80001708, loci_validate_of_oxm_ipv4_src_masked_OF_VERSION_1_2),
       (0x80003610, loci_validate_of_oxm_ipv6_dst_OF_VERSION_1_2),
       (0x80003720, loci_validate_of_oxm_ipv6_dst_masked_OF_VERSION_1_2),
       (0x80003804, loci_validate_of_oxm_ipv6_flabel_OF_VERSION_1_2),
       (0x80003908, loci_validate_of_oxm_ipv6_flabel_masked_OF_VERSION_1_2),
       (0x80004006, loci_validate_of_oxm_ipv6_nd_sll_OF_VERSION_1_2),
       (0x8000410c, loci_validate_of_oxm_ipv6_nd_sll_masked_OF_VERSION_1_2),
       (0x80003e10, loci_validate_of_oxm_ipv6_nd_target_OF_VERSION_1_2),
       (0x80003f20, loci_validate_of_oxm_ipv6_nd_target_masked_OF_VERSION_1_2),
       (0x80004206, loci_validate_of_oxm_ipv6_nd_tll_OF_VERSION_1_2),
       (0x8000430c, loci_validate_of_oxm_ipv6_nd_tll_masked_OF_VERSION_1_2),
       (0x80003410, loci_validate_of_oxm_ipv6_src_OF_VERSION_1_2),
       (0x80003520, loci_validate_of_oxm_ipv6_src_masked_OF_VERSION_1_2),
       (0x80000408, loci_validate_of_oxm_metadata_OF_VERSION_1_2),
       (0x80000510, loci_validate_of_oxm_metadata_masked_OF_VERSION_1_2),
       (0x80004404, loci_validate_of_oxm_mpls_label_OF_VERSION_1_2),
       (0x80004508, loci_validate_of_oxm_mpls_label_masked_OF_VERSION_1_2),
       (0x80004601, loci_validate_of_oxm_mpls_tc_OF_VERSION_1_2),
       (0x80004702, loci_validate_of_oxm_mpls_tc_masked_OF_VERSION_1_2),
       (0x80002402, loci_validate_of_oxm_sctp_dst_OF_VERSION_1_2),
       (0x80002504, loci_validate_of_oxm_sctp_dst_masked_OF_VERSION_1_2),
       (0x80002202, loci_validate_of_oxm_sctp_src_OF_VERSION_1_2),
       (0x80002304, loci_validate_of_oxm_sctp_src_masked_OF_VERSION_1_2),
       (0x80001c02, loci_validate_of_oxm_tcp_dst_OF_VERSION_1_2),
       (0x80001d04, loci_validate_of_oxm_tcp_dst_masked_OF_VERSION_1_2),
       (0x80001a02, loci_validate_of_oxm_tcp_src_OF_VERSION_1_2),
       (0x80001b04, loci_validate_of_oxm_tcp_src_masked_OF_VERSION_1_2),
       (0x14004, loci_validate_of_oxm_tunnel_ipv4_dst_OF_VERSION_1_2),
       (0x14108, loci_validate_of_oxm_tunnel_ipv4_dst_masked_OF_VERSION_1_2),
       (0x13e04, loci_validate_of_oxm_tunnel_ipv4_src_OF_VERSION_1_2),
       (0x13f08, loci_validate_of_oxm_tunnel_ipv4_src_masked_OF_VERSION_1_2),
       (0x80002002, loci_validate_of_oxm_udp_dst_OF_VERSION_1_2),
       (0x80002104, loci_validate_of_oxm_udp_dst_masked_OF_VERSION_1_2),
       (0x80001e02, loci_validate_of_oxm_udp_src_OF_VERSION_1_2),
       (0x80001f04, loci_validate_of_oxm_udp_src_masked_OF_VERSION_1_2),
       (0x80000e01, loci_validate_of_oxm_vlan_pcp_OF_VERSION_1_2),
       (0x80000f02, loci_validate_of_oxm_vlan_pcp_masked_OF_VERSION_1_2),
       (0x80000c02, loci_validate_of_oxm_vlan_vid_OF_VERSION_1_2),
       (0x80000d04, loci_validate_of_oxm_vlan_vid_masked_OF_VERSION_1_2)]
     v_done)"

lemma loci_validate_of_oxm_OF_VERSION_1_2_ok [v_proved]: "v_ok loci_validate_of_oxm_OF_VERSION_1_2"
  unfolding loci_validate_of_oxm_OF_VERSION_1_2_def by (intro v_intro; simp add: v_proved v_ok_imp_k_ok)

definition loci_validate_of_list_oxm_OF_VERSION_1_2 :: "byte list \<Rightarrow> int \<Rightarrow> int \<Rightarrow> bool res" where
  "loci_validate_of_list_oxm_OF_VERSION_1_2 = v_list loci_validate_of_oxm_OF_VERSION_1_2"

interpretation oxm_1_2_list: list_element loci_validate_of_oxm_OF_VERSION_1_2
  by unfold_locales (rule loci_validate_of_oxm_OF_VERSION_1_2_ok)

lemma loci_validate_of_list_oxm_OF_VERSION_1_2_ok [v_proved]: "l_ok loci_validate_of_list_oxm_OF_VERSION_1_2"
  unfolding loci_validate_of_list_oxm_OF_VERSION_1_2_def by (rule oxm_1_2_list.l_ok_list)

definition loci_validate_of_queue_prop_experimenter_OF_VERSION_1_2 :: validator where
  "loci_validate_of_queue_prop_experimenter_OF_VERSION_1_2 =
     v_min 16 (v_wire_len_set 2 16
     (v_switch32 8
      []
     v_done))"

lemma loci_validate_of_queue_prop_experimenter_OF_VERSION_1_2_ok [v_proved]: "v_ok loci_validate_of_queue_prop_experimenter_OF_VERSION_1_2"
  unfolding loci_validate_of_queue_prop_experimenter_OF_VERSION_1_2_def by (intro v_intro; simp add: v_proved v_ok_imp_k_ok)

lemma loci_validate_of_queue_prop_experimenter_OF_VERSION_1_2_exact [x_proved]: "x_ok 2 loci_validate_of_queue_prop_experimenter_OF_VERSION_1_2"
  unfolding loci_validate_of_queue_prop_experimenter_OF_VERSION_1_2_def by (intro x_intro; simp add: x_proved x_ok_imp_kx_ok)

definition loci_validate_of_queue_prop_max_rate_OF_VERSION_1_2 :: validator where
  "loci_validate_of_queue_prop_max_rate_OF_VERSION_1_2 =
     v_min 16 (v_set_len 16 (v_wire_len 2 16 v_done))"

lemma loci_validate_of_queue_prop_max_rate_OF_VERSION_1_2_ok [v_proved]: "v_ok loci_validate_of_queue_prop_max_rate_OF_VERSION_1_2"
  unfolding loci_validate_of_queue_prop_max_rate_OF_VERSION_1_2_def by (intro v_intro; simp add: v_proved v_ok_imp_k_ok)

lemma loci_validate_of_queue_prop_max_rate_OF_VERSION_1_2_exact [x_proved]: "x_ok 2 loci_validate_of_queue_prop_max_rate_OF_VERSION_1_2"
  unfolding loci_validate_of_queue_prop_max_rate_OF_VERSION_1_2_def by (intro x_intro; simp add: x_proved x_ok_imp_kx_ok)

definition loci_validate_of_queue_prop_min_rate_OF_VERSION_1_2 :: validator where
  "loci_validate_of_queue_prop_min_rate_OF_VERSION_1_2 =
     v_min 16 (v_set_len 16 (v_wire_len 2 16 v_done))"

lemma loci_validate_of_queue_prop_min_rate_OF_VERSION_1_2_ok [v_proved]: "v_ok loci_validate_of_queue_prop_min_rate_OF_VERSION_1_2"
  unfolding loci_validate_of_queue_prop_min_rate_OF_VERSION_1_2_def by (intro v_intro; simp add: v_proved v_ok_imp_k_ok)

lemma loci_validate_of_queue_prop_min_rate_OF_VERSION_1_2_exact [x_proved]: "x_ok 2 loci_validate_of_queue_prop_min_rate_OF_VERSION_1_2"
  unfolding loci_validate_of_queue_prop_min_rate_OF_VERSION_1_2_def by (intro x_intro; simp add: x_proved x_ok_imp_kx_ok)

definition loci_validate_of_queue_prop_OF_VERSION_1_2 :: validator where
  "loci_validate_of_queue_prop_OF_VERSION_1_2 =
     v_min 8 (v_wire_len_set 2 8
     (v_switch16 0
      [(0xffff, loci_validate_of_queue_prop_experimenter_OF_VERSION_1_2),
       (2, loci_validate_of_queue_prop_max_rate_OF_VERSION_1_2),
       (1, loci_validate_of_queue_prop_min_rate_OF_VERSION_1_2)]
     v_done))"

lemma loci_validate_of_queue_prop_OF_VERSION_1_2_ok [v_proved]: "v_ok loci_validate_of_queue_prop_OF_VERSION_1_2"
  unfolding loci_validate_of_queue_prop_OF_VERSION_1_2_def by (intro v_intro; simp add: v_proved v_ok_imp_k_ok)

lemma loci_validate_of_queue_prop_OF_VERSION_1_2_exact [x_proved]: "x_ok 2 loci_validate_of_queue_prop_OF_VERSION_1_2"
  unfolding loci_validate_of_queue_prop_OF_VERSION_1_2_def by (intro x_intro; simp add: x_proved x_ok_imp_kx_ok)

definition loci_validate_of_list_queue_prop_OF_VERSION_1_2 :: "byte list \<Rightarrow> int \<Rightarrow> int \<Rightarrow> bool res" where
  "loci_validate_of_list_queue_prop_OF_VERSION_1_2 = v_list loci_validate_of_queue_prop_OF_VERSION_1_2"

interpretation queue_prop_1_2_list: list_element loci_validate_of_queue_prop_OF_VERSION_1_2
  by unfold_locales (rule loci_validate_of_queue_prop_OF_VERSION_1_2_ok)

lemma loci_validate_of_list_queue_prop_OF_VERSION_1_2_ok [v_proved]: "l_ok loci_validate_of_list_queue_prop_OF_VERSION_1_2"
  unfolding loci_validate_of_list_queue_prop_OF_VERSION_1_2_def by (rule queue_prop_1_2_list.l_ok_list)

definition loci_validate_of_port_stats_entry_OF_VERSION_1_2 :: validator where
  "loci_validate_of_port_stats_entry_OF_VERSION_1_2 =
     v_min 104 (v_set_len 104 v_done)"

lemma loci_validate_of_port_stats_entry_OF_VERSION_1_2_ok [v_proved]: "v_ok loci_validate_of_port_stats_entry_OF_VERSION_1_2"
  unfolding loci_validate_of_port_stats_entry_OF_VERSION_1_2_def by (intro v_intro; simp add: v_proved v_ok_imp_k_ok)

definition loci_validate_of_list_port_stats_entry_OF_VERSION_1_2 :: "byte list \<Rightarrow> int \<Rightarrow> int \<Rightarrow> bool res" where
  "loci_validate_of_list_port_stats_entry_OF_VERSION_1_2 = v_list loci_validate_of_port_stats_entry_OF_VERSION_1_2"

interpretation port_stats_entry_1_2_list: list_element loci_validate_of_port_stats_entry_OF_VERSION_1_2
  by unfold_locales (rule loci_validate_of_port_stats_entry_OF_VERSION_1_2_ok)

lemma loci_validate_of_list_port_stats_entry_OF_VERSION_1_2_ok [v_proved]: "l_ok loci_validate_of_list_port_stats_entry_OF_VERSION_1_2"
  unfolding loci_validate_of_list_port_stats_entry_OF_VERSION_1_2_def by (rule port_stats_entry_1_2_list.l_ok_list)

definition loci_validate_of_packet_queue_OF_VERSION_1_2 :: validator where
  "loci_validate_of_packet_queue_OF_VERSION_1_2 =
     v_min 16 (v_wire_len_set 8 16
     (v_list_rest 16 loci_validate_of_list_queue_prop_OF_VERSION_1_2 v_done))"

lemma loci_validate_of_packet_queue_OF_VERSION_1_2_ok [v_proved]: "v_ok loci_validate_of_packet_queue_OF_VERSION_1_2"
  unfolding loci_validate_of_packet_queue_OF_VERSION_1_2_def by (intro v_intro; simp add: v_proved v_ok_imp_k_ok)

lemma loci_validate_of_packet_queue_OF_VERSION_1_2_exact [x_proved]: "x_ok 8 loci_validate_of_packet_queue_OF_VERSION_1_2"
  unfolding loci_validate_of_packet_queue_OF_VERSION_1_2_def by (intro x_intro; simp add: x_proved x_ok_imp_kx_ok)

definition loci_validate_of_list_packet_queue_OF_VERSION_1_2 :: "byte list \<Rightarrow> int \<Rightarrow> int \<Rightarrow> bool res" where
  "loci_validate_of_list_packet_queue_OF_VERSION_1_2 = v_list loci_validate_of_packet_queue_OF_VERSION_1_2"

interpretation packet_queue_1_2_list: list_element loci_validate_of_packet_queue_OF_VERSION_1_2
  by unfold_locales (rule loci_validate_of_packet_queue_OF_VERSION_1_2_ok)

lemma loci_validate_of_list_packet_queue_OF_VERSION_1_2_ok [v_proved]: "l_ok loci_validate_of_list_packet_queue_OF_VERSION_1_2"
  unfolding loci_validate_of_list_packet_queue_OF_VERSION_1_2_def by (rule packet_queue_1_2_list.l_ok_list)

definition loci_validate_of_queue_stats_entry_OF_VERSION_1_2 :: validator where
  "loci_validate_of_queue_stats_entry_OF_VERSION_1_2 =
     v_min 32 (v_set_len 32 v_done)"

lemma loci_validate_of_queue_stats_entry_OF_VERSION_1_2_ok [v_proved]: "v_ok loci_validate_of_queue_stats_entry_OF_VERSION_1_2"
  unfolding loci_validate_of_queue_stats_entry_OF_VERSION_1_2_def by (intro v_intro; simp add: v_proved v_ok_imp_k_ok)

definition loci_validate_of_list_queue_stats_entry_OF_VERSION_1_2 :: "byte list \<Rightarrow> int \<Rightarrow> int \<Rightarrow> bool res" where
  "loci_validate_of_list_queue_stats_entry_OF_VERSION_1_2 = v_list loci_validate_of_queue_stats_entry_OF_VERSION_1_2"

interpretation queue_stats_entry_1_2_list: list_element loci_validate_of_queue_stats_entry_OF_VERSION_1_2
  by unfold_locales (rule loci_validate_of_queue_stats_entry_OF_VERSION_1_2_ok)

lemma loci_validate_of_list_queue_stats_entry_OF_VERSION_1_2_ok [v_proved]: "l_ok loci_validate_of_list_queue_stats_entry_OF_VERSION_1_2"
  unfolding loci_validate_of_list_queue_stats_entry_OF_VERSION_1_2_def by (rule queue_stats_entry_1_2_list.l_ok_list)

definition loci_validate_of_table_stats_entry_OF_VERSION_1_2 :: validator where
  "loci_validate_of_table_stats_entry_OF_VERSION_1_2 =
     v_min 128 (v_set_len 128 v_done)"

lemma loci_validate_of_table_stats_entry_OF_VERSION_1_2_ok [v_proved]: "v_ok loci_validate_of_table_stats_entry_OF_VERSION_1_2"
  unfolding loci_validate_of_table_stats_entry_OF_VERSION_1_2_def by (intro v_intro; simp add: v_proved v_ok_imp_k_ok)

definition loci_validate_of_list_table_stats_entry_OF_VERSION_1_2 :: "byte list \<Rightarrow> int \<Rightarrow> int \<Rightarrow> bool res" where
  "loci_validate_of_list_table_stats_entry_OF_VERSION_1_2 = v_list loci_validate_of_table_stats_entry_OF_VERSION_1_2"

interpretation table_stats_entry_1_2_list: list_element loci_validate_of_table_stats_entry_OF_VERSION_1_2
  by unfold_locales (rule loci_validate_of_table_stats_entry_OF_VERSION_1_2_ok)

lemma loci_validate_of_list_table_stats_entry_OF_VERSION_1_2_ok [v_proved]: "l_ok loci_validate_of_list_table_stats_entry_OF_VERSION_1_2"
  unfolding loci_validate_of_list_table_stats_entry_OF_VERSION_1_2_def by (rule table_stats_entry_1_2_list.l_ok_list)

definition loci_validate_of_aggregate_stats_reply_OF_VERSION_1_2 :: validator where
  "loci_validate_of_aggregate_stats_reply_OF_VERSION_1_2 =
     v_min 40 (v_set_len 40 (v_wire_len 2 40 v_done))"

lemma loci_validate_of_aggregate_stats_reply_OF_VERSION_1_2_ok [v_proved]: "v_ok loci_validate_of_aggregate_stats_reply_OF_VERSION_1_2"
  unfolding loci_validate_of_aggregate_stats_reply_OF_VERSION_1_2_def by (intro v_intro; simp add: v_proved v_ok_imp_k_ok)

lemma loci_validate_of_aggregate_stats_reply_OF_VERSION_1_2_exact [x_proved]: "x_ok 2 loci_validate_of_aggregate_stats_reply_OF_VERSION_1_2"
  unfolding loci_validate_of_aggregate_stats_reply_OF_VERSION_1_2_def by (intro x_intro; simp add: x_proved x_ok_imp_kx_ok)

definition loci_validate_of_bsn_stats_reply_OF_VERSION_1_2 :: validator where
  "loci_validate_of_bsn_stats_reply_OF_VERSION_1_2 =
     v_min 24 (v_wire_len_set 2 24
     (v_switch32 20
      []
     v_done))"

lemma loci_validate_of_bsn_stats_reply_OF_VERSION_1_2_ok [v_proved]: "v_ok loci_validate_of_bsn_stats_reply_OF_VERSION_1_2"
  unfolding loci_validate_of_bsn_stats_reply_OF_VERSION_1_2_def by (intro v_intro; simp add: v_proved v_ok_imp_k_ok)

lemma loci_validate_of_bsn_stats_reply_OF_VERSION_1_2_exact [x_proved]: "x_ok 2 loci_validate_of_bsn_stats_reply_OF_VERSION_1_2"
  unfolding loci_validate_of_bsn_stats_reply_OF_VERSION_1_2_def by (intro x_intro; simp add: x_proved x_ok_imp_kx_ok)

definition loci_validate_of_experimenter_stats_reply_OF_VERSION_1_2 :: validator where
  "loci_validate_of_experimenter_stats_reply_OF_VERSION_1_2 =
     v_min 24 (v_wire_len_set 2 24
     (v_switch32 16
      [(0x5c16c7, loci_validate_of_bsn_stats_reply_OF_VERSION_1_2)]
     v_done))"

lemma loci_validate_of_experimenter_stats_reply_OF_VERSION_1_2_ok [v_proved]: "v_ok loci_validate_of_experimenter_stats_reply_OF_VERSION_1_2"
  unfolding loci_validate_of_experimenter_stats_reply_OF_VERSION_1_2_def by (intro v_intro; simp add: v_proved v_ok_imp_k_ok)

lemma loci_validate_of_experimenter_stats_reply_OF_VERSION_1_2_exact [x_proved]: "x_ok 2 loci_validate_of_experimenter_stats_reply_OF_VERSION_1_2"
  unfolding loci_validate_of_experimenter_stats_reply_OF_VERSION_1_2_def by (intro x_intro; simp add: x_proved x_ok_imp_kx_ok)

definition loci_validate_of_desc_stats_reply_OF_VERSION_1_2 :: validator where
  "loci_validate_of_desc_stats_reply_OF_VERSION_1_2 =
     v_min 1072 (v_set_len 1072 (v_wire_len 2 1072 v_done))"

lemma loci_validate_of_desc_stats_reply_OF_VERSION_1_2_ok [v_proved]: "v_ok loci_validate_of_desc_stats_reply_OF_VERSION_1_2"
  unfolding loci_validate_of_desc_stats_reply_OF_VERSION_1_2_def by (intro v_intro; simp add: v_proved v_ok_imp_k_ok)

lemma loci_validate_of_desc_stats_reply_OF_VERSION_1_2_exact [x_proved]: "x_ok 2 loci_validate_of_desc_stats_reply_OF_VERSION_1_2"
  unfolding loci_validate_of_desc_stats_reply_OF_VERSION_1_2_def by (intro x_intro; simp add: x_proved x_ok_imp_kx_ok)

definition loci_validate_of_flow_stats_reply_OF_VERSION_1_2 :: validator where
  "loci_validate_of_flow_stats_reply_OF_VERSION_1_2 =
     v_min 16 (v_wire_len_set 2 16
     (v_list_rest 16 loci_validate_of_list_flow_stats_entry_OF_VERSION_1_2 v_done))"

lemma loci_validate_of_flow_stats_reply_OF_VERSION_1_2_ok [v_proved]: "v_ok loci_validate_of_flow_stats_reply_OF_VERSION_1_2"
  unfolding loci_validate_of_flow_stats_reply_OF_VERSION_1_2_def by (intro v_intro; simp add: v_proved v_ok_imp_k_ok)

lemma loci_validate_of_flow_stats_reply_OF_VERSION_1_2_exact [x_proved]: "x_ok 2 loci_validate_of_flow_stats_reply_OF_VERSION_1_2"
  unfolding loci_validate_of_flow_stats_reply_OF_VERSION_1_2_def by (intro x_intro; simp add: x_proved x_ok_imp_kx_ok)

definition loci_validate_of_group_desc_stats_reply_OF_VERSION_1_2 :: validator where
  "loci_validate_of_group_desc_stats_reply_OF_VERSION_1_2 =
     v_min 16 (v_wire_len_set 2 16
     (v_list_rest 16 loci_validate_of_list_group_desc_stats_entry_OF_VERSION_1_2 v_done))"

lemma loci_validate_of_group_desc_stats_reply_OF_VERSION_1_2_ok [v_proved]: "v_ok loci_validate_of_group_desc_stats_reply_OF_VERSION_1_2"
  unfolding loci_validate_of_group_desc_stats_reply_OF_VERSION_1_2_def by (intro v_intro; simp add: v_proved v_ok_imp_k_ok)

lemma loci_validate_of_group_desc_stats_reply_OF_VERSION_1_2_exact [x_proved]: "x_ok 2 loci_validate_of_group_desc_stats_reply_OF_VERSION_1_2"
  unfolding loci_validate_of_group_desc_stats_reply_OF_VERSION_1_2_def by (intro x_intro; simp add: x_proved x_ok_imp_kx_ok)

definition loci_validate_of_group_features_stats_reply_OF_VERSION_1_2 :: validator where
  "loci_validate_of_group_features_stats_reply_OF_VERSION_1_2 =
     v_min 56 (v_set_len 56 (v_wire_len 2 56 v_done))"

lemma loci_validate_of_group_features_stats_reply_OF_VERSION_1_2_ok [v_proved]: "v_ok loci_validate_of_group_features_stats_reply_OF_VERSION_1_2"
  unfolding loci_validate_of_group_features_stats_reply_OF_VERSION_1_2_def by (intro v_intro; simp add: v_proved v_ok_imp_k_ok)

lemma loci_validate_of_group_features_stats_reply_OF_VERSION_1_2_exact [x_proved]: "x_ok 2 loci_validate_of_group_features_stats_reply_OF_VERSION_1_2"
  unfolding loci_validate_of_group_features_stats_reply_OF_VERSION_1_2_def by (intro x_intro; simp add: x_proved x_ok_imp_kx_ok)

definition loci_validate_of_group_stats_reply_OF_VERSION_1_2 :: validator where
  "loci_validate_of_group_stats_reply_OF_VERSION_1_2 =
     v_min 16 (v_wire_len_set 2 16
     (v_list_rest 16 loci_validate_of_list_group_stats_entry_OF_VERSION_1_2 v_done))"

lemma loci_validate_of_group_stats_reply_OF_VERSION_1_2_ok [v_proved]: "v_ok loci_validate_of_group_stats_reply_OF_VERSION_1_2"
  unfolding loci_validate_of_group_stats_reply_OF_VERSION_1_2_def by (intro v_intro; simp add: v_proved v_ok_imp_k_ok)

lemma loci_validate_of_group_stats_reply_OF_VERSION_1_2_exact [x_proved]: "x_ok 2 loci_validate_of_group_stats_reply_OF_VERSION_1_2"
  unfolding loci_validate_of_group_stats_reply_OF_VERSION_1_2_def by (intro x_intro; simp add: x_proved x_ok_imp_kx_ok)

definition loci_validate_of_port_stats_reply_OF_VERSION_1_2 :: validator where
  "loci_validate_of_port_stats_reply_OF_VERSION_1_2 =
     v_min 16 (v_wire_len_set 2 16
     (v_list_rest 16 loci_validate_of_list_port_stats_entry_OF_VERSION_1_2 v_done))"

lemma loci_validate_of_port_stats_reply_OF_VERSION_1_2_ok [v_proved]: "v_ok loci_validate_of_port_stats_reply_OF_VERSION_1_2"
  unfolding loci_validate_of_port_stats_reply_OF_VERSION_1_2_def by (intro v_intro; simp add: v_proved v_ok_imp_k_ok)

lemma loci_validate_of_port_stats_reply_OF_VERSION_1_2_exact [x_proved]: "x_ok 2 loci_validate_of_port_stats_reply_OF_VERSION_1_2"
  unfolding loci_validate_of_port_stats_reply_OF_VERSION_1_2_def by (intro x_intro; simp add: x_proved x_ok_imp_kx_ok)

definition loci_validate_of_queue_stats_reply_OF_VERSION_1_2 :: validator where
  "loci_validate_of_queue_stats_reply_OF_VERSION_1_2 =
     v_min 16 (v_wire_len_set 2 16
     (v_list_rest 16 loci_validate_of_list_queue_stats_entry_OF_VERSION_1_2 v_done))"

lemma loci_validate_of_queue_stats_reply_OF_VERSION_1_2_ok [v_proved]: "v_ok loci_validate_of_queue_stats_reply_OF_VERSION_1_2"
  unfolding loci_validate_of_queue_stats_reply_OF_VERSION_1_2_def by (intro v_intro; simp add: v_proved v_ok_imp_k_ok)

lemma loci_validate_of_queue_stats_reply_OF_VERSION_1_2_exact [x_proved]: "x_ok 2 loci_validate_of_queue_stats_reply_OF_VERSION_1_2"
  unfolding loci_validate_of_queue_stats_reply_OF_VERSION_1_2_def by (intro x_intro; simp add: x_proved x_ok_imp_kx_ok)

definition loci_validate_of_table_stats_reply_OF_VERSION_1_2 :: validator where
  "loci_validate_of_table_stats_reply_OF_VERSION_1_2 =
     v_min 16 (v_wire_len_set 2 16
     (v_list_rest 16 loci_validate_of_list_table_stats_entry_OF_VERSION_1_2 v_done))"

lemma loci_validate_of_table_stats_reply_OF_VERSION_1_2_ok [v_proved]: "v_ok loci_validate_of_table_stats_reply_OF_VERSION_1_2"
  unfolding loci_validate_of_table_stats_reply_OF_VERSION_1_2_def by (intro v_intro; simp add: v_proved v_ok_imp_k_ok)

lemma loci_validate_of_table_stats_reply_OF_VERSION_1_2_exact [x_proved]: "x_ok 2 loci_validate_of_table_stats_reply_OF_VERSION_1_2"
  unfolding loci_validate_of_table_stats_reply_OF_VERSION_1_2_def by (intro x_intro; simp add: x_proved x_ok_imp_kx_ok)

definition loci_validate_of_stats_reply_OF_VERSION_1_2 :: validator where
  "loci_validate_of_stats_reply_OF_VERSION_1_2 =
     v_min 16 (v_wire_len_set 2 16
     (v_switch16 8
      [(2, loci_validate_of_aggregate_stats_reply_OF_VERSION_1_2),
       (0xffff, loci_validate_of_experimenter_stats_reply_OF_VERSION_1_2),
       (0, loci_validate_of_desc_stats_reply_OF_VERSION_1_2),
       (1, loci_validate_of_flow_stats_reply_OF_VERSION_1_2),
       (7, loci_validate_of_group_desc_stats_reply_OF_VERSION_1_2),
       (8, loci_validate_of_group_features_stats_reply_OF_VERSION_1_2),
       (6, loci_validate_of_group_stats_reply_OF_VERSION_1_2),
       (4, loci_validate_of_port_stats_reply_OF_VERSION_1_2),
       (5, loci_validate_of_queue_stats_reply_OF_VERSION_1_2),
       (3, loci_validate_of_table_stats_reply_OF_VERSION_1_2)]
     v_done))"

lemma loci_validate_of_stats_reply_OF_VERSION_1_2_ok [v_proved]: "v_ok loci_validate_of_stats_reply_OF_VERSION_1_2"
  unfolding loci_validate_of_stats_reply_OF_VERSION_1_2_def by (intro v_intro; simp add: v_proved v_ok_imp_k_ok)

lemma loci_validate_of_stats_reply_OF_VERSION_1_2_exact [x_proved]: "x_ok 2 loci_validate_of_stats_reply_OF_VERSION_1_2"
  unfolding loci_validate_of_stats_reply_OF_VERSION_1_2_def by (intro x_intro; simp add: x_proved x_ok_imp_kx_ok)

definition loci_validate_of_aggregate_stats_request_OF_VERSION_1_2 :: validator where
  "loci_validate_of_aggregate_stats_request_OF_VERSION_1_2 =
     v_min 56 (v_wire_len_set 2 56 v_done)"

lemma loci_validate_of_aggregate_stats_request_OF_VERSION_1_2_ok [v_proved]: "v_ok loci_validate_of_aggregate_stats_request_OF_VERSION_1_2"
  unfolding loci_validate_of_aggregate_stats_request_OF_VERSION_1_2_def by (intro v_intro; simp add: v_proved v_ok_imp_k_ok)

lemma loci_validate_of_aggregate_stats_request_OF_VERSION_1_2_exact [x_proved]: "x_ok 2 loci_validate_of_aggregate_stats_request_OF_VERSION_1_2"
  unfolding loci_validate_of_aggregate_stats_request_OF_VERSION_1_2_def by (intro x_intro; simp add: x_proved x_ok_imp_kx_ok)

definition loci_validate_of_bsn_stats_request_OF_VERSION_1_2 :: validator where
  "loci_validate_of_bsn_stats_request_OF_VERSION_1_2 =
     v_min 24 (v_wire_len_set 2 24
     (v_switch32 20
      []
     v_done))"

lemma loci_validate_of_bsn_stats_request_OF_VERSION_1_2_ok [v_proved]: "v_ok loci_validate_of_bsn_stats_request_OF_VERSION_1_2"
  unfolding loci_validate_of_bsn_stats_request_OF_VERSION_1_2_def by (intro v_intro; simp add: v_proved v_ok_imp_k_ok)

lemma loci_validate_of_bsn_stats_request_OF_VERSION_1_2_exact [x_proved]: "x_ok 2 loci_validate_of_bsn_stats_request_OF_VERSION_1_2"
  unfolding loci_validate_of_bsn_stats_request_OF_VERSION_1_2_def by (intro x_intro; simp add: x_proved x_ok_imp_kx_ok)

definition loci_validate_of_experimenter_stats_request_OF_VERSION_1_2 :: validator where
  "loci_validate_of_experimenter_stats_request_OF_VERSION_1_2 =
     v_min 24 (v_wire_len_set 2 24
     (v_switch32 16
      [(0x5c16c7, loci_validate_of_bsn_stats_request_OF_VERSION_1_2)]
     v_done))"

lemma loci_validate_of_experimenter_stats_request_OF_VERSION_1_2_ok [v_proved]: "v_ok loci_validate_of_experimenter_stats_request_OF_VERSION_1_2"
  unfolding loci_validate_of_experimenter_stats_request_OF_VERSION_1_2_def by (intro v_intro; simp add: v_proved v_ok_imp_k_ok)

lemma loci_validate_of_experimenter_stats_request_OF_VERSION_1_2_exact [x_proved]: "x_ok 2 loci_validate_of_experimenter_stats_request_OF_VERSION_1_2"
  unfolding loci_validate_of_experimenter_stats_request_OF_VERSION_1_2_def by (intro x_intro; simp add: x_proved x_ok_imp_kx_ok)

definition loci_validate_of_desc_stats_request_OF_VERSION_1_2 :: validator where
  "loci_validate_of_desc_stats_request_OF_VERSION_1_2 =
     v_min 16 (v_set_len 16 (v_wire_len 2 16 v_done))"

lemma loci_validate_of_desc_stats_request_OF_VERSION_1_2_ok [v_proved]: "v_ok loci_validate_of_desc_stats_request_OF_VERSION_1_2"
  unfolding loci_validate_of_desc_stats_request_OF_VERSION_1_2_def by (intro v_intro; simp add: v_proved v_ok_imp_k_ok)

lemma loci_validate_of_desc_stats_request_OF_VERSION_1_2_exact [x_proved]: "x_ok 2 loci_validate_of_desc_stats_request_OF_VERSION_1_2"
  unfolding loci_validate_of_desc_stats_request_OF_VERSION_1_2_def by (intro x_intro; simp add: x_proved x_ok_imp_kx_ok)

definition loci_validate_of_flow_stats_request_OF_VERSION_1_2 :: validator where
  "loci_validate_of_flow_stats_request_OF_VERSION_1_2 =
     v_min 56 (v_wire_len_set 2 56 v_done)"

lemma loci_validate_of_flow_stats_request_OF_VERSION_1_2_ok [v_proved]: "v_ok loci_validate_of_flow_stats_request_OF_VERSION_1_2"
  unfolding loci_validate_of_flow_stats_request_OF_VERSION_1_2_def by (intro v_intro; simp add: v_proved v_ok_imp_k_ok)

lemma loci_validate_of_flow_stats_request_OF_VERSION_1_2_exact [x_proved]: "x_ok 2 loci_validate_of_flow_stats_request_OF_VERSION_1_2"
  unfolding loci_validate_of_flow_stats_request_OF_VERSION_1_2_def by (intro x_intro; simp add: x_proved x_ok_imp_kx_ok)

definition loci_validate_of_group_desc_stats_request_OF_VERSION_1_2 :: validator where
  "loci_validate_of_group_desc_stats_request_OF_VERSION_1_2 =
     v_min 16 (v_set_len 16 (v_wire_len 2 16 v_done))"

lemma loci_validate_of_group_desc_stats_request_OF_VERSION_1_2_ok [v_proved]: "v_ok loci_validate_of_group_desc_stats_request_OF_VERSION_1_2"
  unfolding loci_validate_of_group_desc_stats_request_OF_VERSION_1_2_def by (intro v_intro; simp add: v_proved v_ok_imp_k_ok)

lemma loci_validate_of_group_desc_stats_request_OF_VERSION_1_2_exact [x_proved]: "x_ok 2 loci_validate_of_group_desc_stats_request_OF_VERSION_1_2"
  unfolding loci_validate_of_group_desc_stats_request_OF_VERSION_1_2_def by (intro x_intro; simp add: x_proved x_ok_imp_kx_ok)

definition loci_validate_of_group_features_stats_request_OF_VERSION_1_2 :: validator where
  "loci_validate_of_group_features_stats_request_OF_VERSION_1_2 =
     v_min 16 (v_set_len 16 (v_wire_len 2 16 v_done))"

lemma loci_validate_of_group_features_stats_request_OF_VERSION_1_2_ok [v_proved]: "v_ok loci_validate_of_group_features_stats_request_OF_VERSION_1_2"
  unfolding loci_validate_of_group_features_stats_request_OF_VERSION_1_2_def by (intro v_intro; simp add: v_proved v_ok_imp_k_ok)

lemma loci_validate_of_group_features_stats_request_OF_VERSION_1_2_exact [x_proved]: "x_ok 2 loci_validate_of_group_features_stats_request_OF_VERSION_1_2"
  unfolding loci_validate_of_group_features_stats_request_OF_VERSION_1_2_def by (intro x_intro; simp add: x_proved x_ok_imp_kx_ok)

definition loci_validate_of_group_stats_request_OF_VERSION_1_2 :: validator where
  "loci_validate_of_group_stats_request_OF_VERSION_1_2 =
     v_min 24 (v_set_len 24 (v_wire_len 2 24 v_done))"

lemma loci_validate_of_group_stats_request_OF_VERSION_1_2_ok [v_proved]: "v_ok loci_validate_of_group_stats_request_OF_VERSION_1_2"
  unfolding loci_validate_of_group_stats_request_OF_VERSION_1_2_def by (intro v_intro; simp add: v_proved v_ok_imp_k_ok)

lemma loci_validate_of_group_stats_request_OF_VERSION_1_2_exact [x_proved]: "x_ok 2 loci_validate_of_group_stats_request_OF_VERSION_1_2"
  unfolding loci_validate_of_group_stats_request_OF_VERSION_1_2_def by (intro x_intro; simp add: x_proved x_ok_imp_kx_ok)

definition loci_validate_of_port_stats_request_OF_VERSION_1_2 :: validator where
  "loci_validate_of_port_stats_request_OF_VERSION_1_2 =
     v_min 24 (v_set_len 24 (v_wire_len 2 24 v_done))"

lemma loci_validate_of_port_stats_request_OF_VERSION_1_2_ok [v_proved]: "v_ok loci_validate_of_port_stats_request_OF_VERSION_1_2"
  unfolding loci_validate_of_port_stats_request_OF_VERSION_1_2_def by (intro v_intro; simp add: v_proved v_ok_imp_k_ok)

lemma loci_validate_of_port_stats_request_OF_VERSION_1_2_exact [x_proved]: "x_ok 2 loci_validate_of_port_stats_request_OF_VERSION_1_2"
  unfolding loci_validate_of_port_stats_request_OF_VERSION_1_2_def by (intro x_intro; simp add: x_proved x_ok_imp_kx_ok)

definition loci_validate_of_queue_stats_request_OF_VERSION_1_2 :: validator where
  "loci_validate_of_queue_stats_request_OF_VERSION_1_2 =
     v_min 24 (v_set_len 24 (v_wire_len 2 24 v_done))"

lemma loci_validate_of_queue_stats_request_OF_VERSION_1_2_ok [v_proved]: "v_ok loci_validate_of_queue_stats_request_OF_VERSION_1_2"
  unfolding loci_validate_of_queue_stats_request_OF_VERSION_1_2_def by (intro v_intro; simp add: v_proved v_ok_imp_k_ok)

lemma loci_validate_of_queue_stats_request_OF_VERSION_1_2_exact [x_proved]: "x_ok 2 loci_validate_of_queue_stats_request_OF_VERSION_1_2"
  unfolding loci_validate_of_queue_stats_request_OF_VERSION_1_2_def by (intro x_intro; simp add: x_proved x_ok_imp_kx_ok)

definition loci_validate_of_table_stats_request_OF_VERSION_1_2 :: validator where
  "loci_validate_of_table_stats_request_OF_VERSION_1_2 =
     v_min 16 (v_set_len 16 (v_wire_len 2 16 v_done))"

lemma loci_validate_of_table_stats_request_OF_VERSION_1_2_ok [v_proved]: "v_ok loci_validate_of_table_stats_request_OF_VERSION_1_2"
  unfolding loci_validate_of_table_stats_request_OF_VERSION_1_2_def by (intro v_intro; simp add: v_proved v_ok_imp_k_ok)

lemma loci_validate_of_table_stats_request_OF_VERSION_1_2_exact [x_proved]: "x_ok 2 loci_validate_of_table_stats_request_OF_VERSION_1_2"
  unfolding loci_validate_of_table_stats_request_OF_VERSION_1_2_def by (intro x_intro; simp add: x_proved x_ok_imp_kx_ok)

definition loci_validate_of_stats_request_OF_VERSION_1_2 :: validator where
  "loci_validate_of_stats_request_OF_VERSION_1_2 =
     v_min 16 (v_wire_len_set 2 16
     (v_switch16 8
      [(2, loci_validate_of_aggregate_stats_request_OF_VERSION_1_2),
       (0xffff, loci_validate_of_experimenter_stats_request_OF_VERSION_1_2),
       (0, loci_validate_of_desc_stats_request_OF_VERSION_1_2),
       (1, loci_validate_of_flow_stats_request_OF_VERSION_1_2),
       (7, loci_validate_of_group_desc_stats_request_OF_VERSION_1_2),
       (8, loci_validate_of_group_features_stats_request_OF_VERSION_1_2),
       (6, loci_validate_of_group_stats_request_OF_VERSION_1_2),
       (4, loci_validate_of_port_stats_request_OF_VERSION_1_2),
       (5, loci_validate_of_queue_stats_request_OF_VERSION_1_2),
       (3, loci_validate_of_table_stats_request_OF_VERSION_1_2)]
     v_done))"

lemma loci_validate_of_stats_request_OF_VERSION_1_2_ok [v_proved]: "v_ok loci_validate_of_stats_request_OF_VERSION_1_2"
  unfolding loci_validate_of_stats_request_OF_VERSION_1_2_def by (intro v_intro; simp add: v_proved v_ok_imp_k_ok)

lemma loci_validate_of_stats_request_OF_VERSION_1_2_exact [x_proved]: "x_ok 2 loci_validate_of_stats_request_OF_VERSION_1_2"
  unfolding loci_validate_of_stats_request_OF_VERSION_1_2_def by (intro x_intro; simp add: x_proved x_ok_imp_kx_ok)

definition loci_validate_of_bad_action_error_msg_OF_VERSION_1_2 :: validator where
  "loci_validate_of_bad_action_error_msg_OF_VERSION_1_2 =
     v_min 12 (v_wire_len_set 2 12 v_done)"

lemma loci_validate_of_bad_action_error_msg_OF_VERSION_1_2_ok [v_proved]: "v_ok loci_validate_of_bad_action_error_msg_OF_VERSION_1_2"
  unfolding loci_validate_of_bad_action_error_msg_OF_VERSION_1_2_def by (intro v_intro; simp add: v_proved v_ok_imp_k_ok)

lemma loci_validate_of_bad_action_error_msg_OF_VERSION_1_2_exact [x_proved]: "x_ok 2 loci_validate_of_bad_action_error_msg_OF_VERSION_1_2"
  unfolding loci_validate_of_bad_action_error_msg_OF_VERSION_1_2_def by (intro x_intro; simp add: x_proved x_ok_imp_kx_ok)

definition loci_validate_of_bad_instruction_error_msg_OF_VERSION_1_2 :: validator where
  "loci_validate_of_bad_instruction_error_msg_OF_VERSION_1_2 =
     v_min 12 (v_wire_len_set 2 12 v_done)"

lemma loci_validate_of_bad_instruction_error_msg_OF_VERSION_1_2_ok [v_proved]: "v_ok loci_validate_of_bad_instruction_error_msg_OF_VERSION_1_2"
  unfolding loci_validate_of_bad_instruction_error_msg_OF_VERSION_1_2_def by (intro v_intro; simp add: v_proved v_ok_imp_k_ok)

lemma loci_validate_of_bad_instruction_error_msg_OF_VERSION_1_2_exact [x_proved]: "x_ok 2 loci_validate_of_bad_instruction_error_msg_OF_VERSION_1_2"
  unfolding loci_validate_of_bad_instruction_error_msg_OF_VERSION_1_2_def by (intro x_intro; simp add: x_proved x_ok_imp_kx_ok)

definition loci_validate_of_bad_match_error_msg_OF_VERSION_1_2 :: validator where
  "loci_validate_of_bad_match_error_msg_OF_VERSION_1_2 =
     v_min 12 (v_wire_len_set 2 12 v_done)"

lemma loci_validate_of_bad_match_error_msg_OF_VERSION_1_2_ok [v_proved]: "v_ok loci_validate_of_bad_match_error_msg_OF_VERSION_1_2"
  unfolding loci_validate_of_bad_match_error_msg_OF_VERSION_1_2_def by (intro v_intro; simp add: v_proved v_ok_imp_k_ok)

lemma loci_validate_of_bad_match_error_msg_OF_VERSION_1_2_exact [x_proved]: "x_ok 2 loci_validate_of_bad_match_error_msg_OF_VERSION_1_2"
  unfolding loci_validate_of_bad_match_error_msg_OF_VERSION_1_2_def by (intro x_intro; simp add: x_proved x_ok_imp_kx_ok)

definition loci_validate_of_bad_request_error_msg_OF_VERSION_1_2 :: validator where
  "loci_validate_of_bad_request_error_msg_OF_VERSION_1_2 =
     v_min 12 (v_wire_len_set 2 12 v_done)"

lemma loci_validate_of_bad_request_error_msg_OF_VERSION_1_2_ok [v_proved]: "v_ok loci_validate_of_bad_request_error_msg_OF_VERSION_1_2"
  unfolding loci_validate_of_bad_request_error_msg_OF_VERSION_1_2_def by (intro v_intro; simp add: v_proved v_ok_imp_k_ok)

lemma loci_validate_of_bad_request_error_msg_OF_VERSION_1_2_exact [x_proved]: "x_ok 2 loci_validate_of_bad_request_error_msg_OF_VERSION_1_2"
  unfolding loci_validate_of_bad_request_error_msg_OF_VERSION_1_2_def by (intro x_intro; simp add: x_proved x_ok_imp_kx_ok)

definition loci_validate_of_experimenter_error_msg_OF_VERSION_1_2 :: validator where
  "loci_validate_of_experimenter_error_msg_OF_VERSION_1_2 =
     v_min 16 (v_wire_len_set 2 16 v_done)"

lemma loci_validate_of_experimenter_error_msg_OF_VERSION_1_2_ok [v_proved]: "v_ok loci_validate_of_experimenter_error_msg_OF_VERSION_1_2"
  unfolding loci_validate_of_experimenter_error_msg_OF_VERSION_1_2_def by (intro v_intro; simp add: v_proved v_ok_imp_k_ok)

lemma loci_validate_of_experimenter_error_msg_OF_VERSION_1_2_exact [x_proved]: "x_ok 2 loci_validate_of_experimenter_error_msg_OF_VERSION_1_2"
  unfolding loci_validate_of_experimenter_error_msg_OF_VERSION_1_2_def by (intro x_intro; simp add: x_proved x_ok_imp_kx_ok)

definition loci_validate_of_flow_mod_failed_error_msg_OF_VERSION_1_2 :: validator where
  "loci_validate_of_flow_mod_failed_error_msg_OF_VERSION_1_2 =
     v_min 12 (v_wire_len_set 2 12 v_done)"

lemma loci_validate_of_flow_mod_failed_error_msg_OF_VERSION_1_2_ok [v_proved]: "v_ok loci_validate_of_flow_mod_failed_error_msg_OF_VERSION_1_2"
  unfolding loci_validate_of_flow_mod_failed_error_msg_OF_VERSION_1_2_def by (intro v_intro; simp add: v_proved v_ok_imp_k_ok)

lemma loci_validate_of_flow_mod_failed_error_msg_OF_VERSION_1_2_exact [x_proved]: "x_ok 2 loci_validate_of_flow_mod_failed_error_msg_OF_VERSION_1_2"
  unfolding loci_validate_of_flow_mod_failed_error_msg_OF_VERSION_1_2_def by (intro x_intro; simp add: x_proved x_ok_imp_kx_ok)

definition loci_validate_of_group_mod_failed_error_msg_OF_VERSION_1_2 :: validator where
  "loci_validate_of_group_mod_failed_error_msg_OF_VERSION_1_2 =
     v_min 12 (v_wire_len_set 2 12 v_done)"

lemma loci_validate_of_group_mod_failed_error_msg_OF_VERSION_1_2_ok [v_proved]: "v_ok loci_validate_of_group_mod_failed_error_msg_OF_VERSION_1_2"
  unfolding loci_validate_of_group_mod_failed_error_msg_OF_VERSION_1_2_def by (intro v_intro; simp add: v_proved v_ok_imp_k_ok)

lemma loci_validate_of_group_mod_failed_error_msg_OF_VERSION_1_2_exact [x_proved]: "x_ok 2 loci_validate_of_group_mod_failed_error_msg_OF_VERSION_1_2"
  unfolding loci_validate_of_group_mod_failed_error_msg_OF_VERSION_1_2_def by (intro x_intro; simp add: x_proved x_ok_imp_kx_ok)

definition loci_validate_of_hello_failed_error_msg_OF_VERSION_1_2 :: validator where
  "loci_validate_of_hello_failed_error_msg_OF_VERSION_1_2 =
     v_min 12 (v_wire_len_set 2 12 v_done)"

lemma loci_validate_of_hello_failed_error_msg_OF_VERSION_1_2_ok [v_proved]: "v_ok loci_validate_of_hello_failed_error_msg_OF_VERSION_1_2"
  unfolding loci_validate_of_hello_failed_error_msg_OF_VERSION_1_2_def by (intro v_intro; simp add: v_proved v_ok_imp_k_ok)

lemma loci_validate_of_hello_failed_error_msg_OF_VERSION_1_2_exact [x_proved]: "x_ok 2 loci_validate_of_hello_failed_error_msg_OF_VERSION_1_2"
  unfolding loci_validate_of_hello_failed_error_msg_OF_VERSION_1_2_def by (intro x_intro; simp add: x_proved x_ok_imp_kx_ok)

definition loci_validate_of_port_mod_failed_error_msg_OF_VERSION_1_2 :: validator where
  "loci_validate_of_port_mod_failed_error_msg_OF_VERSION_1_2 =
     v_min 12 (v_wire_len_set 2 12 v_done)"

lemma loci_validate_of_port_mod_failed_error_msg_OF_VERSION_1_2_ok [v_proved]: "v_ok loci_validate_of_port_mod_failed_error_msg_OF_VERSION_1_2"
  unfolding loci_validate_of_port_mod_failed_error_msg_OF_VERSION_1_2_def by (intro v_intro; simp add: v_proved v_ok_imp_k_ok)

lemma loci_validate_of_port_mod_failed_error_msg_OF_VERSION_1_2_exact [x_proved]: "x_ok 2 loci_validate_of_port_mod_failed_error_msg_OF_VERSION_1_2"
  unfolding loci_validate_of_port_mod_failed_error_msg_OF_VERSION_1_2_def by (intro x_intro; simp add: x_proved x_ok_imp_kx_ok)

definition loci_validate_of_queue_op_failed_error_msg_OF_VERSION_1_2 :: validator where
  "loci_validate_of_queue_op_failed_error_msg_OF_VERSION_1_2 =
     v_min 12 (v_wire_len_set 2 12 v_done)"

lemma loci_validate_of_queue_op_failed_error_msg_OF_VERSION_1_2_ok [v_proved]: "v_ok loci_validate_of_queue_op_failed_error_msg_OF_VERSION_1_2"
  unfolding loci_validate_of_queue_op_failed_error_msg_OF_VERSION_1_2_def by (intro v_intro; simp add: v_proved v_ok_imp_k_ok)

lemma loci_validate_of_queue_op_failed_error_msg_OF_VERSION_1_2_exact [x_proved]: "x_ok 2 loci_validate_of_queue_op_failed_error_msg_OF_VERSION_1_2"
  unfolding loci_validate_of_queue_op_failed_error_msg_OF_VERSION_1_2_def by (intro x_intro; simp add: x_proved x_ok_imp_kx_ok)

definition loci_validate_of_role_request_failed_error_msg_OF_VERSION_1_2 :: validator where
  "loci_validate_of_role_request_failed_error_msg_OF_VERSION_1_2 =
     v_min 12 (v_wire_len_set 2 12 v_done)"

lemma loci_validate_of_role_request_failed_error_msg_OF_VERSION_1_2_ok [v_proved]: "v_ok loci_validate_of_role_request_failed_error_msg_OF_VERSION_1_2"
  unfolding loci_validate_of_role_request_failed_error_msg_OF_VERSION_1_2_def by (intro v_intro; simp add: v_proved v_ok_imp_k_ok)

lemma loci_validate_of_role_request_failed_error_msg_OF_VERSION_1_2_exact [x_proved]: "x_ok 2 loci_validate_of_role_request_failed_error_msg_OF_VERSION_1_2"
  unfolding loci_validate_of_role_request_failed_error_msg_OF_VERSION_1_2_def by (intro x_intro; simp add: x_proved x_ok_imp_kx_ok)

definition loci_validate_of_switch_config_failed_error_msg_OF_VERSION_1_2 :: validator where
  "loci_validate_of_switch_config_failed_error_msg_OF_VERSION_1_2 =
     v_min 12 (v_wire_len_set 2 12 v_done)"

lemma loci_validate_of_switch_config_failed_error_msg_OF_VERSION_1_2_ok [v_proved]: "v_ok loci_validate_of_switch_config_failed_error_msg_OF_VERSION_1_2"
  unfolding loci_validate_of_switch_config_failed_error_msg_OF_VERSION_1_2_def by (intro v_intro; simp add: v_proved v_ok_imp_k_ok)

lemma loci_validate_of_switch_config_failed_error_msg_OF_VERSION_1_2_exact [x_proved]: "x_ok 2 loci_validate_of_switch_config_failed_error_msg_OF_VERSION_1_2"
  unfolding loci_validate_of_switch_config_failed_error_msg_OF_VERSION_1_2_def by (intro x_intro; simp add: x_proved x_ok_imp_kx_ok)

definition loci_validate_of_table_mod_failed_error_msg_OF_VERSION_1_2 :: validator where
  "loci_validate_of_table_mod_failed_error_msg_OF_VERSION_1_2 =
     v_min 12 (v_wire_len_set 2 12 v_done)"

lemma loci_validate_of_table_mod_failed_error_msg_OF_VERSION_1_2_ok [v_proved]: "v_ok loci_validate_of_table_mod_failed_error_msg_OF_VERSION_1_2"
  unfolding loci_validate_of_table_mod_failed_error_msg_OF_VERSION_1_2_def by (intro v_intro; simp add: v_proved v_ok_imp_k_ok)

lemma loci_validate_of_table_mod_failed_error_msg_OF_VERSION_1_2_exact [x_proved]: "x_ok 2 loci_validate_of_table_mod_failed_error_msg_OF_VERSION_1_2"
  unfolding loci_validate_of_table_mod_failed_error_msg_OF_VERSION_1_2_def by (intro x_intro; simp add: x_proved x_ok_imp_kx_ok)

definition loci_validate_of_error_msg_OF_VERSION_1_2 :: validator where
  "loci_validate_of_error_msg_OF_VERSION_1_2 =
     v_min 10 (v_wire_len_set 2 10
     (v_switch16 8
      [(2, loci_validate_of_bad_action_error_msg_OF_VERSION_1_2),
       (3, loci_validate_of_bad_instruction_error_msg_OF_VERSION_1_2),
       (4, loci_validate_of_bad_match_error_msg_OF_VERSION_1_2),
       (1, loci_validate_of_bad_request_error_msg_OF_VERSION_1_2),
       (0xffff, loci_validate_of_experimenter_error_msg_OF_VERSION_1_2),
       (5, loci_validate_of_flow_mod_failed_error_msg_OF_VERSION_1_2),
       (6, loci_validate_of_group_mod_failed_error_msg_OF_VERSION_1_2),
       (0, loci_validate_of_hello_failed_error_msg_OF_VERSION_1_2),
       (7, loci_validate_of_port_mod_failed_error_msg_OF_VERSION_1_2),
       (9, loci_validate_of_queue_op_failed_error_msg_OF_VERSION_1_2),
       (0xb, loci_validate_of_role_request_failed_error_msg_OF_VERSION_1_2),
       (0xa, loci_validate_of_switch_config_failed_error_msg_OF_VERSION_1_2),
       (8, loci_validate_of_table_mod_failed_error_msg_OF_VERSION_1_2)]
     v_done))"

lemma loci_validate_of_error_msg_OF_VERSION_1_2_ok [v_proved]: "v_ok loci_validate_of_error_msg_OF_VERSION_1_2"
  unfolding loci_validate_of_error_msg_OF_VERSION_1_2_def by (intro v_intro; simp add: v_proved v_ok_imp_k_ok)

lemma loci_validate_of_error_msg_OF_VERSION_1_2_exact [x_proved]: "x_ok 2 loci_validate_of_error_msg_OF_VERSION_1_2"
  unfolding loci_validate_of_error_msg_OF_VERSION_1_2_def by (intro x_intro; simp add: x_proved x_ok_imp_kx_ok)

definition loci_validate_of_barrier_reply_OF_VERSION_1_2 :: validator where
  "loci_validate_of_barrier_reply_OF_VERSION_1_2 =
     v_min 8 (v_set_len 8 (v_wire_len 2 8 v_done))"

lemma loci_validate_of_barrier_reply_OF_VERSION_1_2_ok [v_proved]: "v_ok loci_validate_of_barrier_reply_OF_VERSION_1_2"
  unfolding loci_validate_of_barrier_reply_OF_VERSION_1_2_def by (intro v_intro; simp add: v_proved v_ok_imp_k_ok)

lemma loci_validate_of_barrier_reply_OF_VERSION_1_2_exact [x_proved]: "x_ok 2 loci_validate_of_barrier_reply_OF_VERSION_1_2"
  unfolding loci_validate_of_barrier_reply_OF_VERSION_1_2_def by (intro x_intro; simp add: x_proved x_ok_imp_kx_ok)

definition loci_validate_of_barrier_request_OF_VERSION_1_2 :: validator where
  "loci_validate_of_barrier_request_OF_VERSION_1_2 =
     v_min 8 (v_set_len 8 (v_wire_len 2 8 v_done))"

lemma loci_validate_of_barrier_request_OF_VERSION_1_2_ok [v_proved]: "v_ok loci_validate_of_barrier_request_OF_VERSION_1_2"
  unfolding loci_validate_of_barrier_request_OF_VERSION_1_2_def by (intro v_intro; simp add: v_proved v_ok_imp_k_ok)

lemma loci_validate_of_barrier_request_OF_VERSION_1_2_exact [x_proved]: "x_ok 2 loci_validate_of_barrier_request_OF_VERSION_1_2"
  unfolding loci_validate_of_barrier_request_OF_VERSION_1_2_def by (intro x_intro; simp add: x_proved x_ok_imp_kx_ok)

definition loci_validate_of_bsn_bw_clear_data_reply_OF_VERSION_1_2 :: validator where
  "loci_validate_of_bsn_bw_clear_data_reply_OF_VERSION_1_2 =
     v_min 20 (v_set_len 20 (v_wire_len 2 20 v_done))"

lemma loci_validate_of_bsn_bw_clear_data_reply_OF_VERSION_1_2_ok [v_proved]: "v_ok loci_validate_of_bsn_bw_clear_data_reply_OF_VERSION_1_2"
  unfolding loci_validate_of_bsn_bw_clear_data_reply_OF_VERSION_1_2_def by (intro v_intro; simp add: v_proved v_ok_imp_k_ok)

lemma loci_validate_of_bsn_bw_clear_data_reply_OF_VERSION_1_2_exact [x_proved]: "x_ok 2 loci_validate_of_bsn_bw_clear_data_reply_OF_VERSION_1_2"
  unfolding loci_validate_of_bsn_bw_clear_data_reply_OF_VERSION_1_2_def by (intro x_intro; simp add: x_proved x_ok_imp_kx_ok)

definition loci_validate_of_bsn_bw_clear_data_request_OF_VERSION_1_2 :: validator where
  "loci_validate_of_bsn_bw_clear_data_request_OF_VERSION_1_2 =
     v_min 16 (v_set_len 16 (v_wire_len 2 16 v_done))"

lemma loci_validate_of_bsn_bw_clear_data_request_OF_VERSION_1_2_ok [v_proved]: "v_ok loci_validate_of_bsn_bw_clear_data_request_OF_VERSION_1_2"
  unfolding loci_validate_of_bsn_bw_clear_data_request_OF_VERSION_1_2_def by (intro v_intro; simp add: v_proved v_ok_imp_k_ok)

lemma loci_validate_of_bsn_bw_clear_data_request_OF_VERSION_1_2_exact [x_proved]: "x_ok 2 loci_validate_of_bsn_bw_clear_data_request_OF_VERSION_1_2"
  unfolding loci_validate_of_bsn_bw_clear_data_request_OF_VERSION_1_2_def by (intro x_intro; simp add: x_proved x_ok_imp_kx_ok)

definition loci_validate_of_bsn_bw_enable_get_reply_OF_VERSION_1_2 :: validator where
  "loci_validate_of_bsn_bw_enable_get_reply_OF_VERSION_1_2 =
     v_min 20 (v_set_len 20 (v_wire_len 2 20 v_done))"

lemma loci_validate_of_bsn_bw_enable_get_reply_OF_VERSION_1_2_ok [v_proved]: "v_ok loci_validate_of_bsn_bw_enable_get_reply_OF_VERSION_1_2"
  unfolding loci_validate_of_bsn_bw_enable_get_reply_OF_VERSION_1_2_def by (intro v_intro; simp add: v_proved v_ok_imp_k_ok)

lemma loci_validate_of_bsn_bw_enable_get_reply_OF_VERSION_1_2_exact [x_proved]: "x_ok 2 loci_validate_of_bsn_bw_enable_get_reply_OF_VERSION_1_2"
  unfolding loci_validate_of_bsn_bw_enable_get_reply_OF_VERSION_1_2_def by (intro x_intro; simp add: x_proved x_ok_imp_kx_ok)

definition loci_validate_of_bsn_bw_enable_get_request_OF_VERSION_1_2 :: validator where
  "loci_validate_of_bsn_bw_enable_get_request_OF_VERSION_1_2 =
     v_min 16 (v_set_len 16 (v_wire_len 2 16 v_done))"

lemma loci_validate_of_bsn_bw_enable_get_request_OF_VERSION_1_2_ok [v_proved]: "v_ok loci_validate_of_bsn_bw_enable_get_request_OF_VERSION_1_2"
  unfolding loci_validate_of_bsn_bw_enable_get_request_OF_VERSION_1_2_def by (intro v_intro; simp add: v_proved v_ok_imp_k_ok)

lemma loci_validate_of_bsn_bw_enable_get_request_OF_VERSION_1_2_exact [x_proved]: "x_ok 2 loci_validate_of_bsn_bw_enable_get_request_OF_VERSION_1_2"
  unfolding loci_validate_of_bsn_bw_enable_get_request_OF_VERSION_1_2_def by (intro x_intro; simp add: x_proved x_ok_imp_kx_ok)

definition loci_validate_of_bsn_bw_enable_set_reply_OF_VERSION_1_2 :: validator where
  "loci_validate_of_bsn_bw_enable_set_reply_OF_VERSION_1_2 =
     v_min 24 (v_set_len 24 (v_wire_len 2 24 v_done))"

lemma loci_validate_of_bsn_bw_enable_set_reply_OF_VERSION_1_2_ok [v_proved]: "v_ok loci_validate_of_bsn_bw_enable_set_reply_OF_VERSION_1_2"
  unfolding loci_validate_of_bsn_bw_enable_set_reply_OF_VERSION_1_2_def by (intro v_intro; simp add: v_proved v_ok_imp_k_ok)

lemma loci_validate_of_bsn_bw_enable_set_reply_OF_VERSION_1_2_exact [x_proved]: "x_ok 2 loci_validate_of_bsn_bw_enable_set_reply_OF_VERSION_1_2"
  unfolding loci_validate_of_bsn_bw_enable_set_reply_OF_VERSION_1_2_def by (intro x_intro; simp add: x_proved x_ok_imp_kx_ok)

definition loci_validate_of_bsn_bw_enable_set_request_OF_VERSION_1_2 :: validator where
  "loci_validate_of_bsn_bw_enable_set_request_OF_VERSION_1_2 =
     v_min 20 (v_set_len 20 (v_wire_len 2 20 v_done))"

lemma loci_validate_of_bsn_bw_enable_set_request_OF_VERSION_1_2_ok [v_proved]: "v_ok loci_validate_of_bsn_bw_enable_set_request_OF_VERSION_1_2"
  unfolding loci_validate_of_bsn_bw_enable_set_request_OF_VERSION_1_2_def by (intro v_intro; simp add: v_proved v_ok_imp_k_ok)

lemma loci_validate_of_bsn_bw_enable_set_request_OF_VERSION_1_2_exact [x_proved]: "x_ok 2 loci_validate_of_bsn_bw_enable_set_request_OF_VERSION_1_2"
  unfolding loci_validate_of_bsn_bw_enable_set_request_OF_VERSION_1_2_def by (intro x_intro; simp add: x_proved x_ok_imp_kx_ok)

definition loci_validate_of_bsn_get_interfaces_reply_OF_VERSION_1_2 :: validator where
  "loci_validate_of_bsn_get_interfaces_reply_OF_VERSION_1_2 =
     v_min 16 (v_wire_len_set 2 16
     (v_list_rest 16 loci_validate_of_list_bsn_interface_OF_VERSION_1_2 v_done))"

lemma loci_validate_of_bsn_get_interfaces_reply_OF_VERSION_1_2_ok [v_proved]: "v_ok loci_validate_of_bsn_get_interfaces_reply_OF_VERSION_1_2"
  unfolding loci_validate_of_bsn_get_interfaces_reply_OF_VERSION_1_2_def by (intro v_intro; simp add: v_proved v_ok_imp_k_ok)

lemma loci_validate_of_bsn_get_interfaces_reply_OF_VERSION_1_2_exact [x_proved]: "x_ok 2 loci_validate_of_bsn_get_interfaces_reply_OF_VERSION_1_2"
  unfolding loci_validate_of_bsn_get_interfaces_reply_OF_VERSION_1_2_def by (intro x_intro; simp add: x_proved x_ok_imp_kx_ok)

definition loci_validate_of_bsn_get_interfaces_request_OF_VERSION_1_2 :: validator where
  "loci_validate_of_bsn_get_interfaces_request_OF_VERSION_1_2 =
     v_min 16 (v_set_len 16 (v_wire_len 2 16 v_done))"

lemma loci_validate_of_bsn_get_interfaces_request_OF_VERSION_1_2_ok [v_proved]: "v_ok loci_validate_of_bsn_get_interfaces_request_OF_VERSION_1_2"
  unfolding loci_validate_of_bsn_get_interfaces_request_OF_VERSION_1_2_def by (intro v_intro; simp add: v_proved v_ok_imp_k_ok)

lemma loci_validate_of_bsn_get_interfaces_request_OF_VERSION_1_2_exact [x_proved]: "x_ok 2 loci_validate_of_bsn_get_interfaces_request_OF_VERSION_1_2"
  unfolding loci_validate_of_bsn_get_interfaces_request_OF_VERSION_1_2_def by (intro x_intro; simp add: x_proved x_ok_imp_kx_ok)

definition loci_validate_of_bsn_get_mirroring_reply_OF_VERSION_1_2 :: validator where
  "loci_validate_of_bsn_get_mirroring_reply_OF_VERSION_1_2 =
     v_min 20 (v_set_len 20 (v_wire_len 2 20 v_done))"

lemma loci_validate_of_bsn_get_mirroring_reply_OF_VERSION_1_2_ok [v_proved]: "v_ok loci_validate_of_bsn_get_mirroring_reply_OF_VERSION_1_2"
  unfolding loci_validate_of_bsn_get_mirroring_reply_OF_VERSION_1_2_def by (intro v_intro; simp add: v_proved v_ok_imp_k_ok)

lemma loci_validate_of_bsn_get_mirroring_reply_OF_VERSION_1_2_exact [x_proved]: "x_ok 2 loci_validate_of_bsn_get_mirroring_reply_OF_VERSION_1_2"
  unfolding loci_validate_of_bsn_get_mirroring_reply_OF_VERSION_1_2_def by (intro x_intro; simp add: x_proved x_ok_imp_kx_ok)

definition loci_validate_of_bsn_get_mirroring_request_OF_VERSION_1_2 :: validator where
  "loci_validate_of_bsn_get_mirroring_request_OF_VERSION_1_2 =
     v_min 20 (v_set_len 20 (v_wire_len 2 20 v_done))"

lemma loci_validate_of_bsn_get_mirroring_request_OF_VERSION_1_2_ok [v_proved]: "v_ok loci_validate_of_bsn_get_mirroring_request_OF_VERSION_1_2"
  unfolding loci_validate_of_bsn_get_mirroring_request_OF_VERSION_1_2_def by (intro v_intro; simp add: v_proved v_ok_imp_k_ok)

lemma loci_validate_of_bsn_get_mirroring_request_OF_VERSION_1_2_exact [x_proved]: "x_ok 2 loci_validate_of_bsn_get_mirroring_request_OF_VERSION_1_2"
  unfolding loci_validate_of_bsn_get_mirroring_request_OF_VERSION_1_2_def by (intro x_intro; simp add: x_proved x_ok_imp_kx_ok)

definition loci_validate_of_bsn_pdu_rx_reply_OF_VERSION_1_2 :: validator where
  "loci_validate_of_bsn_pdu_rx_reply_OF_VERSION_1_2 =
     v_min 25 (v_set_len 25 (v_wire_len 2 25 v_done))"

lemma loci_validate_of_bsn_pdu_rx_reply_OF_VERSION_1_2_ok [v_proved]: "v_ok loci_validate_of_bsn_pdu_rx_reply_OF_VERSION_1_2"
  unfolding loci_validate_of_bsn_pdu_rx_reply_OF_VERSION_1_2_def by (intro v_intro; simp add: v_proved v_ok_imp_k_ok)

lemma loci_validate_of_bsn_pdu_rx_reply_OF_VERSION_1_2_exact [x_proved]: "x_ok 2 loci_validate_of_bsn_pdu_rx_reply_OF_VERSION_1_2"
  unfolding loci_validate_of_bsn_pdu_rx_reply_OF_VERSION_1_2_def by (intro x_intro; simp add: x_proved x_ok_imp_kx_ok)

definition loci_validate_of_bsn_pdu_rx_request_OF_VERSION_1_2 :: validator where
  "loci_validate_of_bsn_pdu_rx_request_OF_VERSION_1_2 =
     v_min 28 (v_wire_len_set 2 28 v_done)"

lemma loci_validate_of_bsn_pdu_rx_request_OF_VERSION_1_2_ok [v_proved]: "v_ok loci_validate_of_bsn_pdu_rx_request_OF_VERSION_1_2"
  unfolding loci_validate_of_bsn_pdu_rx_request_OF_VERSION_1_2_def by (intro v_intro; simp add: v_proved v_ok_imp_k_ok)

lemma loci_validate_of_bsn_pdu_rx_request_OF_VERSION_1_2_exact [x_proved]: "x_ok 2 loci_validate_of_bsn_pdu_rx_request_OF_VERSION_1_2"
  unfolding loci_validate_of_bsn_pdu_rx_request_OF_VERSION_1_2_def by (intro x_intro; simp add: x_proved x_ok_imp_kx_ok)

definition loci_validate_of_bsn_pdu_rx_timeout_OF_VERSION_1_2 :: validator where
  "loci_validate_of_bsn_pdu_rx_timeout_OF_VERSION_1_2 =
     v_min 21 (v_set_len 21 (v_wire_len 2 21 v_done))"

lemma loci_validate_of_bsn_pdu_rx_timeout_OF_VERSION_1_2_ok [v_proved]: "v_ok loci_validate_of_bsn_pdu_rx_timeout_OF_VERSION_1_2"
  unfolding loci_validate_of_bsn_pdu_rx_timeout_OF_VERSION_1_2_def by (intro v_intro; simp add: v_proved v_ok_imp_k_ok)

lemma loci_validate_of_bsn_pdu_rx_timeout_OF_VERSION_1_2_exact [x_proved]: "x_ok 2 loci_validate_of_bsn_pdu_rx_timeout_OF_VERSION_1_2"
  unfolding loci_validate_of_bsn_pdu_rx_timeout_OF_VERSION_1_2_def by (intro x_intro; simp add: x_proved x_ok_imp_kx_ok)

definition loci_validate_of_bsn_pdu_tx_reply_OF_VERSION_1_2 :: validator where
  "loci_validate_of_bsn_pdu_tx_reply_OF_VERSION_1_2 =
     v_min 25 (v_set_len 25 (v_wire_len 2 25 v_done))"

lemma loci_validate_of_bsn_pdu_tx_reply_OF_VERSION_1_2_ok [v_proved]: "v_ok loci_validate_of_bsn_pdu_tx_reply_OF_VERSION_1_2"
  unfolding loci_validate_of_bsn_pdu_tx_reply_OF_VERSION_1_2_def by (intro v_intro; simp add: v_proved v_ok_imp_k_ok)

lemma loci_validate_of_bsn_pdu_tx_reply_OF_VERSION_1_2_exact [x_proved]: "x_ok 2 loci_validate_of_bsn_pdu_tx_reply_OF_VERSION_1_2"
  unfolding loci_validate_of_bsn_pdu_tx_reply_OF_VERSION_1_2_def by (intro x_intro; simp add: x_proved x_ok_imp_kx_ok)

definition loci_validate_of_bsn_pdu_tx_request_OF_VERSION_1_2 :: validator where
  "loci_validate_of_bsn_pdu_tx_request_OF_VERSION_1_2 =
     v_min 28 (v_wire_len_set 2 28 v_done)"

lemma loci_validate_of_bsn_pdu_tx_request_OF_VERSION_1_2_ok [v_proved]: "v_ok loci_validate_of_bsn_pdu_tx_request_OF_VERSION_1_2"
  unfolding loci_validate_of_bsn_pdu_tx_request_OF_VERSION_1_2_def by (intro v_intro; simp add: v_proved v_ok_imp_k_ok)

lemma loci_validate_of_bsn_pdu_tx_request_OF_VERSION_1_2_exact [x_proved]: "x_ok 2 loci_validate_of_bsn_pdu_tx_request_OF_VERSION_1_2"
  unfolding loci_validate_of_bsn_pdu_tx_request_OF_VERSION_1_2_def by (intro x_intro; simp add: x_proved x_ok_imp_kx_ok)

definition loci_validate_of_bsn_set_mirroring_OF_VERSION_1_2 :: validator where
  "loci_validate_of_bsn_set_mirroring_OF_VERSION_1_2 =
     v_min 20 (v_set_len 20 (v_wire_len 2 20 v_done))"

lemma loci_validate_of_bsn_set_mirroring_OF_VERSION_1_2_ok [v_proved]: "v_ok loci_validate_of_bsn_set_mirroring_OF_VERSION_1_2"
  unfolding loci_validate_of_bsn_set_mirroring_OF_VERSION_1_2_def by (intro v_intro; simp add: v_proved v_ok_imp_k_ok)

lemma loci_validate_of_bsn_set_mirroring_OF_VERSION_1_2_exact [x_proved]: "x_ok 2 loci_validate_of_bsn_set_mirroring_OF_VERSION_1_2"
  unfolding loci_validate_of_bsn_set_mirroring_OF_VERSION_1_2_def by (intro x_intro; simp add: x_proved x_ok_imp_kx_ok)

definition loci_validate_of_bsn_set_pktin_suppression_reply_OF_VERSION_1_2 :: validator where
  "loci_validate_of_bsn_set_pktin_suppression_reply_OF_VERSION_1_2 =
     v_min 20 (v_set_len 20 (v_wire_len 2 20 v_done))"

lemma loci_validate_of_bsn_set_pktin_suppression_reply_OF_VERSION_1_2_ok [v_proved]: "v_ok loci_validate_of_bsn_set_pktin_suppression_reply_OF_VERSION_1_2"
  unfolding loci_validate_of_bsn_set_pktin_suppression_reply_OF_VERSION_1_2_def by (intro v_intro; simp add: v_proved v_ok_imp_k_ok)

lemma loci_validate_of_bsn_set_pktin_suppression_reply_OF_VERSION_1_2_exact [x_proved]: "x_ok 2 loci_validate_of_bsn_set_pktin_suppression_reply_OF_VERSION_1_2"
  unfolding loci_validate_of_bsn_set_pktin_suppression_reply_OF_VERSION_1_2_def by (intro x_intro; simp add: x_proved x_ok_imp_kx_ok)

definition loci_validate_of_bsn_set_pktin_suppression_request_OF_VERSION_1_2 :: validator where
  "loci_validate_of_bsn_set_pktin_suppression_request_OF_VERSION_1_2 =
     v_min 32 (v_set_len 32 (v_wire_len 2 32 v_done))"

lemma loci_validate_of_bsn_set_pktin_suppression_request_OF_VERSION_1_2_ok [v_proved]: "v_ok loci_validate_of_bsn_set_pktin_suppression_request_OF_VERSION_1_2"
  unfolding loci_validate_of_bsn_set_pktin_suppression_request_OF_VERSION_1_2_def by (intro v_intro; simp add: v_proved v_ok_imp_k_ok)

lemma loci_validate_of_bsn_set_pktin_suppression_request_OF_VERSION_1_2_exact [x_proved]: "x_ok 2 loci_validate_of_bsn_set_pktin_suppression_request_OF_VERSION_1_2"
  unfolding loci_validate_of_bsn_set_pktin_suppression_request_OF_VERSION_1_2_def by (intro x_intro; simp add: x_proved x_ok_imp_kx_ok)

definition loci_validate_of_bsn_virtual_port_create_reply_OF_VERSION_1_2 :: validator where
  "loci_validate_of_bsn_virtual_port_create_reply_OF_VERSION_1_2 =
     v_min 24 (v_set_len 24 (v_wire_len 2 24 v_done))"

lemma loci_validate_of_bsn_virtual_port_create_reply_OF_VERSION_1_2_ok [v_proved]: "v_ok loci_validate_of_bsn_virtual_port_create_reply_OF_VERSION_1_2"
  unfolding loci_validate_of_bsn_virtual_port_create_reply_OF_VERSION_1_2_def by (intro v_intro; simp add: v_proved v_ok_imp_k_ok)

lemma loci_validate_of_bsn_virtual_port_create_reply_OF_VERSION_1_2_exact [x_proved]: "x_ok 2 loci_validate_of_bsn_virtual_port_create_reply_OF_VERSION_1_2"
  unfolding loci_validate_of_bsn_virtual_port_create_reply_OF_VERSION_1_2_def by (intro x_intro; simp add: x_proved x_ok_imp_kx_ok)

definition loci_validate_of_bsn_virtual_port_create_request_OF_VERSION_1_2 :: validator where
  "loci_validate_of_bsn_virtual_port_create_request_OF_VERSION_1_2 =
     v_min 20 (v_wire_len_set 2 20 v_done)"

lemma loci_validate_of_bsn_virtual_port_create_request_OF_VERSION_1_2_ok [v_proved]: "v_ok loci_validate_of_bsn_virtual_port_create_request_OF_VERSION_1_2"
  unfolding loci_validate_of_bsn_virtual_port_create_request_OF_VERSION_1_2_def by (intro v_intro; simp add: v_proved v_ok_imp_k_ok)

lemma loci_validate_of_bsn_virtual_port_create_request_OF_VERSION_1_2_exact [x_proved]: "x_ok 2 loci_validate_of_bsn_virtual_port_create_request_OF_VERSION_1_2"
  unfolding loci_validate_of_bsn_virtual_port_create_request_OF_VERSION_1_2_def by (intro x_intro; simp add: x_proved x_ok_imp_kx_ok)

definition loci_validate_of_bsn_virtual_port_remove_reply_OF_VERSION_1_2 :: validator where
  "loci_validate_of_bsn_virtual_port_remove_reply_OF_VERSION_1_2 =
     v_min 20 (v_set_len 20 (v_wire_len 2 20 v_done))"

lemma loci_validate_of_bsn_virtual_port_remove_reply_OF_VERSION_1_2_ok [v_proved]: "v_ok loci_validate_of_bsn_virtual_port_remove_reply_OF_VERSION_1_2"
  unfolding loci_validate_of_bsn_virtual_port_remove_reply_OF_VERSION_1_2_def by (intro v_intro; simp add: v_proved v_ok_imp_k_ok)

lemma loci_validate_of_bsn_virtual_port_remove_reply_OF_VERSION_1_2_exact [x_proved]: "x_ok 2 loci_validate_of_bsn_virtual_port_remove_reply_OF_VERSION_1_2"
  unfolding loci_validate_of_bsn_virtual_port_remove_reply_OF_VERSION_1_2_def by (intro x_intro; simp add: x_proved x_ok_imp_kx_ok)

definition loci_validate_of_bsn_virtual_port_remove_request_OF_VERSION_1_2 :: validator where
  "loci_validate_of_bsn_virtual_port_remove_request_OF_VERSION_1_2 =
     v_min 20 (v_set_len 20 (v_wire_len 2 20 v_done))"

lemma loci_validate_of_bsn_virtual_port_remove_request_OF_VERSION_1_2_ok [v_proved]: "v_ok loci_validate_of_bsn_virtual_port_remove_request_OF_VERSION_1_2"
  unfolding loci_validate_of_bsn_virtual_port_remove_request_OF_VERSION_1_2_def by (intro v_intro; simp add: v_proved v_ok_imp_k_ok)

lemma loci_validate_of_bsn_virtual_port_remove_request_OF_VERSION_1_2_exact [x_proved]: "x_ok 2 loci_validate_of_bsn_virtual_port_remove_request_OF_VERSION_1_2"
  unfolding loci_validate_of_bsn_virtual_port_remove_request_OF_VERSION_1_2_def by (intro x_intro; simp add: x_proved x_ok_imp_kx_ok)

definition loci_validate_of_bsn_header_OF_VERSION_1_2 :: validator where
  "loci_validate_of_bsn_header_OF_VERSION_1_2 =
     v_min 16 (v_wire_len_set 2 16
     (v_switch32 12
      [(0x16, loci_validate_of_bsn_bw_clear_data_reply_OF_VERSION_1_2),
       (0x15, loci_validate_of_bsn_bw_clear_data_request_OF_VERSION_1_2),
       (0x14, loci_validate_of_bsn_bw_enable_get_reply_OF_VERSION_1_2),
       (0x13, loci_validate_of_bsn_bw_enable_get_request_OF_VERSION_1_2),
       (0x17, loci_validate_of_bsn_bw_enable_set_reply_OF_VERSION_1_2),
       (0x12, loci_validate_of_bsn_bw_enable_set_request_OF_VERSION_1_2),
       (0xa, loci_validate_of_bsn_get_interfaces_reply_OF_VERSION_1_2),
       (9, loci_validate_of_bsn_get_interfaces_request_OF_VERSION_1_2),
       (5, loci_validate_of_bsn_get_mirroring_reply_OF_VERSION_1_2),
       (4, loci_validate_of_bsn_get_mirroring_request_OF_VERSION_1_2),
       (0x22, loci_validate_of_bsn_pdu_rx_reply_OF_VERSION_1_2),
       (0x21, loci_validate_of_bsn_pdu_rx_request_OF_VERSION_1_2),
       (0x23, loci_validate_of_bsn_pdu_rx_timeout_OF_VERSION_1_2),
       (0x20, loci_validate_of_bsn_pdu_tx_reply_OF_VERSION_1_2),
       (0x1f, loci_validate_of_bsn_pdu_tx_request_OF_VERSION_1_2),
       (3, loci_validate_of_bsn_set_mirroring_OF_VERSION_1_2),
       (0x19, loci_validate_of_bsn_set_pktin_suppression_reply_OF_VERSION_1_2),
       (0xb, loci_validate_of_bsn_set_pktin_suppression_request_OF_VERSION_1_2),
       (0x10, loci_validate_of_bsn_virtual_port_create_reply_OF_VERSION_1_2),
       (0xf, loci_validate_of_bsn_virtual_port_create_request_OF_VERSION_1_2),
       (0x1a, loci_validate_of_bsn_virtual_port_remove_reply_OF_VERSION_1_2),
       (0x11, loci_validate_of_bsn_virtual_port_remove_request_OF_VERSION_1_2)]
     v_done))"

lemma loci_validate_of_bsn_header_OF_VERSION_1_2_ok [v_proved]: "v_ok loci_validate_of_bsn_header_OF_VERSION_1_2"
  unfolding loci_validate_of_bsn_header_OF_VERSION_1_2_def by (intro v_intro; simp add: v_proved v_ok_imp_k_ok)

lemma loci_validate_of_bsn_header_OF_VERSION_1_2_exact [x_proved]: "x_ok 2 loci_validate_of_bsn_header_OF_VERSION_1_2"
  unfolding loci_validate_of_bsn_header_OF_VERSION_1_2_def by (intro x_intro; simp add: x_proved x_ok_imp_kx_ok)

definition loci_validate_of_nicira_header_OF_VERSION_1_2 :: validator where
  "loci_validate_of_nicira_header_OF_VERSION_1_2 =
     v_min 16 (v_wire_len_set 2 16
     (v_switch32 12
      []
     v_done))"

lemma loci_validate_of_nicira_header_OF_VERSION_1_2_ok [v_proved]: "v_ok loci_validate_of_nicira_header_OF_VERSION_1_2"
  unfolding loci_validate_of_nicira_header_OF_VERSION_1_2_def by (intro v_intro; simp add: v_proved v_ok_imp_k_ok)

lemma loci_validate_of_nicira_header_OF_VERSION_1_2_exact [x_proved]: "x_ok 2 loci_validate_of_nicira_header_OF_VERSION_1_2"
  unfolding loci_validate_of_nicira_header_OF_VERSION_1_2_def by (intro x_intro; simp add: x_proved x_ok_imp_kx_ok)

definition loci_validate_of_experimenter_OF_VERSION_1_2 :: validator where
  "loci_validate_of_experimenter_OF_VERSION_1_2 =
     v_min 16 (v_wire_len_set 2 16
     (v_switch32 8
      [(0x5c16c7, loci_validate_of_bsn_header_OF_VERSION_1_2),
       (0x2320, loci_validate_of_nicira_header_OF_VERSION_1_2)]
     v_done))"

lemma loci_validate_of_experimenter_OF_VERSION_1_2_ok [v_proved]: "v_ok loci_validate_of_experimenter_OF_VERSION_1_2"
  unfolding loci_validate_of_experimenter_OF_VERSION_1_2_def by (intro v_intro; simp add: v_proved v_ok_imp_k_ok)

lemma loci_validate_of_experimenter_OF_VERSION_1_2_exact [x_proved]: "x_ok 2 loci_validate_of_experimenter_OF_VERSION_1_2"
  unfolding loci_validate_of_experimenter_OF_VERSION_1_2_def by (intro x_intro; simp add: x_proved x_ok_imp_kx_ok)

definition loci_validate_of_echo_reply_OF_VERSION_1_2 :: validator where
  "loci_validate_of_echo_reply_OF_VERSION_1_2 =
     v_min 8 (v_wire_len_set 2 8 v_done)"

lemma loci_validate_of_echo_reply_OF_VERSION_1_2_ok [v_proved]: "v_ok loci_validate_of_echo_reply_OF_VERSION_1_2"
  unfolding loci_validate_of_echo_reply_OF_VERSION_1_2_def by (intro v_intro; simp add: v_proved v_ok_imp_k_ok)

lemma loci_validate_of_echo_reply_OF_VERSION_1_2_exact [x_proved]: "x_ok 2 loci_validate_of_echo_reply_OF_VERSION_1_2"
  unfolding loci_validate_of_echo_reply_OF_VERSION_1_2_def by (intro x_intro; simp add: x_proved x_ok_imp_kx_ok)

definition loci_validate_of_echo_request_OF_VERSION_1_2 :: validator where
  "loci_validate_of_echo_request_OF_VERSION_1_2 =
     v_min 8 (v_wire_len_set 2 8 v_done)"

lemma loci_validate_of_echo_request_OF_VERSION_1_2_ok [v_proved]: "v_ok loci_validate_of_echo_request_OF_VERSION_1_2"
  unfolding loci_validate_of_echo_request_OF_VERSION_1_2_def by (intro v_intro; simp add: v_proved v_ok_imp_k_ok)

lemma loci_validate_of_echo_request_OF_VERSION_1_2_exact [x_proved]: "x_ok 2 loci_validate_of_echo_request_OF_VERSION_1_2"
  unfolding loci_validate_of_echo_request_OF_VERSION_1_2_def by (intro x_intro; simp add: x_proved x_ok_imp_kx_ok)

definition loci_validate_of_features_reply_OF_VERSION_1_2 :: validator where
  "loci_validate_of_features_reply_OF_VERSION_1_2 =
     v_min 32 (v_wire_len_set 2 32
     (v_list_rest 32 loci_validate_of_list_port_desc_OF_VERSION_1_2 v_done))"

lemma loci_validate_of_features_reply_OF_VERSION_1_2_ok [v_proved]: "v_ok loci_validate_of_features_reply_OF_VERSION_1_2"
  unfolding loci_validate_of_features_reply_OF_VERSION_1_2_def by (intro v_intro; simp add: v_proved v_ok_imp_k_ok)

lemma loci_validate_of_features_reply_OF_VERSION_1_2_exact [x_proved]: "x_ok 2 loci_validate_of_features_reply_OF_VERSION_1_2"
  unfolding loci_validate_of_features_reply_OF_VERSION_1_2_def by (intro x_intro; simp add: x_proved x_ok_imp_kx_ok)

definition loci_validate_of_features_request_OF_VERSION_1_2 :: validator where
  "loci_validate_of_features_request_OF_VERSION_1_2 =
     v_min 8 (v_set_len 8 (v_wire_len 2 8 v_done))"

lemma loci_validate_of_features_request_OF_VERSION_1_2_ok [v_proved]: "v_ok loci_validate_of_features_request_OF_VERSION_1_2"
  unfolding loci_validate_of_features_request_OF_VERSION_1_2_def by (intro v_intro; simp add: v_proved v_ok_imp_k_ok)

lemma loci_validate_of_features_request_OF_VERSION_1_2_exact [x_proved]: "x_ok 2 loci_validate_of_features_request_OF_VERSION_1_2"
  unfolding loci_validate_of_features_request_OF_VERSION_1_2_def by (intro x_intro; simp add: x_proved x_ok_imp_kx_ok)

definition loci_validate_of_flow_add_OF_VERSION_1_2 :: validator where
  "loci_validate_of_flow_add_OF_VERSION_1_2 =
     v_min 56 (v_wire_len_set 2 56 v_done)"

lemma loci_validate_of_flow_add_OF_VERSION_1_2_ok [v_proved]: "v_ok loci_validate_of_flow_add_OF_VERSION_1_2"
  unfolding loci_validate_of_flow_add_OF_VERSION_1_2_def by (intro v_intro; simp add: v_proved v_ok_imp_k_ok)

lemma loci_validate_of_flow_add_OF_VERSION_1_2_exact [x_proved]: "x_ok 2 loci_validate_of_flow_add_OF_VERSION_1_2"
  unfolding loci_validate_of_flow_add_OF_VERSION_1_2_def by (intro x_intro; simp add: x_proved x_ok_imp_kx_ok)

definition loci_validate_of_flow_delete_OF_VERSION_1_2 :: validator where
  "loci_validate_of_flow_delete_OF_VERSION_1_2 =
     v_min 56 (v_wire_len_set 2 56 v_done)"

lemma loci_validate_of_flow_delete_OF_VERSION_1_2_ok [v_proved]: "v_ok loci_validate_of_flow_delete_OF_VERSION_1_2"
  unfolding loci_validate_of_flow_delete_OF_VERSION_1_2_def by (intro v_intro; simp add: v_proved v_ok_imp_k_ok)

lemma loci_validate_of_flow_delete_OF_VERSION_1_2_exact [x_proved]: "x_ok 2 loci_validate_of_flow_delete_OF_VERSION_1_2"
  unfolding loci_validate_of_flow_delete_OF_VERSION_1_2_def by (intro x_intro; simp add: x_proved x_ok_imp_kx_ok)

definition loci_validate_of_flow_delete_strict_OF_VERSION_1_2 :: validator where
  "loci_validate_of_flow_delete_strict_OF_VERSION_1_2 =
     v_min 56 (v_wire_len_set 2 56 v_done)"

lemma loci_validate_of_flow_delete_strict_OF_VERSION_1_2_ok [v_proved]: "v_ok loci_validate_of_flow_delete_strict_OF_VERSION_1_2"
  unfolding loci_validate_of_flow_delete_strict_OF_VERSION_1_2_def by (intro v_intro; simp add: v_proved v_ok_imp_k_ok)

lemma loci_validate_of_flow_delete_strict_OF_VERSION_1_2_exact [x_proved]: "x_ok 2 loci_validate_of_flow_delete_strict_OF_VERSION_1_2"
  unfolding loci_validate_of_flow_delete_strict_OF_VERSION_1_2_def by (intro x_intro; simp add: x_proved x_ok_imp_kx_ok)

definition loci_validate_of_flow_modify_OF_VERSION_1_2 :: validator where
  "loci_validate_of_flow_modify_OF_VERSION_1_2 =
     v_min 56 (v_wire_len_set 2 56 v_done)"

lemma loci_validate_of_flow_modify_OF_VERSION_1_2_ok [v_proved]: "v_ok loci_validate_of_flow_modify_OF_VERSION_1_2"
  unfolding loci_validate_of_flow_modify_OF_VERSION_1_2_def by (intro v_intro; simp add: v_proved v_ok_imp_k_ok)

lemma loci_validate_of_flow_modify_OF_VERSION_1_2_exact [x_proved]: "x_ok 2 loci_validate_of_flow_modify_OF_VERSION_1_2"
  unfolding loci_validate_of_flow_modify_OF_VERSION_1_2_def by (intro x_intro; simp add: x_proved x_ok_imp_kx_ok)

definition loci_validate_of_flow_modify_strict_OF_VERSION_1_2 :: validator where
  "loci_validate_of_flow_modify_strict_OF_VERSION_1_2 =
     v_min 56 (v_wire_len_set 2 56 v_done)"

lemma loci_validate_of_flow_modify_strict_OF_VERSION_1_2_ok [v_proved]: "v_ok loci_validate_of_flow_modify_strict_OF_VERSION_1_2"
  unfolding loci_validate_of_flow_modify_strict_OF_VERSION_1_2_def by (intro v_intro; simp add: v_proved v_ok_imp_k_ok)

lemma loci_validate_of_flow_modify_strict_OF_VERSION_1_2_exact [x_proved]: "x_ok 2 loci_validate_of_flow_modify_strict_OF_VERSION_1_2"
  unfolding loci_validate_of_flow_modify_strict_OF_VERSION_1_2_def by (intro x_intro; simp add: x_proved x_ok_imp_kx_ok)

definition loci_validate_of_flow_mod_OF_VERSION_1_2 :: validator where
  "loci_validate_of_flow_mod_OF_VERSION_1_2 =
     v_min 56 (v_wire_len_set 2 56
     (v_switch8 25
      [(0, loci_validate_of_flow_add_OF_VERSION_1_2),
       (3, loci_validate_of_flow_delete_OF_VERSION_1_2),
       (4, loci_validate_of_flow_delete_strict_OF_VERSION_1_2),
       (1, loci_validate_of_flow_modify_OF_VERSION_1_2),
       (2, loci_validate_of_flow_modify_strict_OF_VERSION_1_2)]
     v_done))"

lemma loci_validate_of_flow_mod_OF_VERSION_1_2_ok [v_proved]: "v_ok loci_validate_of_flow_mod_OF_VERSION_1_2"
  unfolding loci_validate_of_flow_mod_OF_VERSION_1_2_def by (intro v_intro; simp add: v_proved v_ok_imp_k_ok)

lemma loci_validate_of_flow_mod_OF_VERSION_1_2_exact [x_proved]: "x_ok 2 loci_validate_of_flow_mod_OF_VERSION_1_2"
  unfolding loci_validate_of_flow_mod_OF_VERSION_1_2_def by (intro x_intro; simp add: x_proved x_ok_imp_kx_ok)

definition loci_validate_of_flow_removed_OF_VERSION_1_2 :: validator where
  "loci_validate_of_flow_removed_OF_VERSION_1_2 =
     v_min 56 (v_wire_len_set 2 56 v_done)"

lemma loci_validate_of_flow_removed_OF_VERSION_1_2_ok [v_proved]: "v_ok loci_validate_of_flow_removed_OF_VERSION_1_2"
  unfolding loci_validate_of_flow_removed_OF_VERSION_1_2_def by (intro v_intro; simp add: v_proved v_ok_imp_k_ok)

lemma loci_validate_of_flow_removed_OF_VERSION_1_2_exact [x_proved]: "x_ok 2 loci_validate_of_flow_removed_OF_VERSION_1_2"
  unfolding loci_validate_of_flow_removed_OF_VERSION_1_2_def by (intro x_intro; simp add: x_proved x_ok_imp_kx_ok)

definition loci_validate_of_get_config_reply_OF_VERSION_1_2 :: validator where
  "loci_validate_of_get_config_reply_OF_VERSION_1_2 =
     v_min 12 (v_set_len 12 (v_wire_len 2 12 v_done))"

lemma loci_validate_of_get_config_reply_OF_VERSION_1_2_ok [v_proved]: "v_ok loci_validate_of_get_config_reply_OF_VERSION_1_2"
  unfolding loci_validate_of_get_config_reply_OF_VERSION_1_2_def by (intro v_intro; simp add: v_proved v_ok_imp_k_ok)

lemma loci_validate_of_get_config_reply_OF_VERSION_1_2_exact [x_proved]: "x_ok 2 loci_validate_of_get_config_reply_OF_VERSION_1_2"
  unfolding loci_validate_of_get_config_reply_OF_VERSION_1_2_def by (intro x_intro; simp add: x_proved x_ok_imp_kx_ok)

definition loci_validate_of_get_config_request_OF_VERSION_1_2 :: validator where
  "loci_validate_of_get_config_request_OF_VERSION_1_2 =
     v_min 8 (v_set_len 8 (v_wire_len 2 8 v_done))"

lemma loci_validate_of_get_config_request_OF_VERSION_1_2_ok [v_proved]: "v_ok loci_validate_of_get_config_request_OF_VERSION_1_2"
  unfolding loci_validate_of_get_config_request_OF_VERSION_1_2_def by (intro v_intro; simp add: v_proved v_ok_imp_k_ok)

lemma loci_validate_of_get_config_request_OF_VERSION_1_2_exact [x_proved]: "x_ok 2 loci_validate_of_get_config_request_OF_VERSION_1_2"
  unfolding loci_validate_of_get_config_request_OF_VERSION_1_2_def by (intro x_intro; simp add: x_proved x_ok_imp_kx_ok)

definition loci_validate_of_group_add_OF_VERSION_1_2 :: validator where
  "loci_validate_of_group_add_OF_VERSION_1_2 =
     v_min 16 (v_wire_len_set 2 16
     (v_list_rest 16 loci_validate_of_list_bucket_OF_VERSION_1_2 v_done))"

lemma loci_validate_of_group_add_OF_VERSION_1_2_ok [v_proved]: "v_ok loci_validate_of_group_add_OF_VERSION_1_2"
  unfolding loci_validate_of_group_add_OF_VERSION_1_2_def by (intro v_intro; simp add: v_proved v_ok_imp_k_ok)

lemma loci_validate_of_group_add_OF_VERSION_1_2_exact [x_proved]: "x_ok 2 loci_validate_of_group_add_OF_VERSION_1_2"
  unfolding loci_validate_of_group_add_OF_VERSION_1_2_def by (intro x_intro; simp add: x_proved x_ok_imp_kx_ok)

definition loci_validate_of_group_delete_OF_VERSION_1_2 :: validator where
  "loci_validate_of_group_delete_OF_VERSION_1_2 =
     v_min 16 (v_wire_len_set 2 16
     (v_list_rest 16 loci_validate_of_list_bucket_OF_VERSION_1_2 v_done))"

lemma loci_validate_of_group_delete_OF_VERSION_1_2_ok [v_proved]: "v_ok loci_validate_of_group_delete_OF_VERSION_1_2"
  unfolding loci_validate_of_group_delete_OF_VERSION_1_2_def by (intro v_intro; simp add: v_proved v_ok_imp_k_ok)

lemma loci_validate_of_group_delete_OF_VERSION_1_2_exact [x_proved]: "x_ok 2 loci_validate_of_group_delete_OF_VERSION_1_2"
  unfolding loci_validate_of_group_delete_OF_VERSION_1_2_def by (intro x_intro; simp add: x_proved x_ok_imp_kx_ok)

definition loci_validate_of_group_modify_OF_VERSION_1_2 :: validator where
  "loci_validate_of_group_modify_OF_VERSION_1_2 =
     v_min 16 (v_wire_len_set 2 16
     (v_list_rest 16 loci_validate_of_list_bucket_OF_VERSION_1_2 v_done))"

lemma loci_validate_of_group_modify_OF_VERSION_1_2_ok [v_proved]: "v_ok loci_validate_of_group_modify_OF_VERSION_1_2"
  unfolding loci_validate_of_group_modify_OF_VERSION_1_2_def by (intro v_intro; simp add: v_proved v_ok_imp_k_ok)

lemma loci_validate_of_group_modify_OF_VERSION_1_2_exact [x_proved]: "x_ok 2 loci_validate_of_group_modify_OF_VERSION_1_2"
  unfolding loci_validate_of_group_modify_OF_VERSION_1_2_def by (intro x_intro; simp add: x_proved x_ok_imp_kx_ok)

definition loci_validate_of_group_mod_OF_VERSION_1_2 :: validator where
  "loci_validate_of_group_mod_OF_VERSION_1_2 =
     v_min 16 (v_wire_len_set 2 16
     (v_switch16 8
      [(0, loci_validate_of_group_add_OF_VERSION_1_2),
       (2, loci_validate_of_group_delete_OF_VERSION_1_2),
       (1, loci_validate_of_group_modify_OF_VERSION_1_2)]
     (v_list_rest 16 loci_validate_of_list_bucket_OF_VERSION_1_2 v_done)))"

lemma loci_validate_of_group_mod_OF_VERSION_1_2_ok [v_proved]: "v_ok loci_validate_of_group_mod_OF_VERSION_1_2"
  unfolding loci_validate_of_group_mod_OF_VERSION_1_2_def by (intro v_intro; simp add: v_proved v_ok_imp_k_ok)

lemma loci_validate_of_group_mod_OF_VERSION_1_2_exact [x_proved]: "x_ok 2 loci_validate_of_group_mod_OF_VERSION_1_2"
  unfolding loci_validate_of_group_mod_OF_VERSION_1_2_def by (intro x_intro; simp add: x_proved x_ok_imp_kx_ok)

definition loci_validate_of_hello_OF_VERSION_1_2 :: validator where
  "loci_validate_of_hello_OF_VERSION_1_2 =
     v_min 8 (v_set_len 8 (v_wire_len 2 8 v_done))"

lemma loci_validate_of_hello_OF_VERSION_1_2_ok [v_proved]: "v_ok loci_validate_of_hello_OF_VERSION_1_2"
  unfolding loci_validate_of_hello_OF_VERSION_1_2_def by (intro v_intro; simp add: v_proved v_ok_imp_k_ok)

lemma loci_validate_of_hello_OF_VERSION_1_2_exact [x_proved]: "x_ok 2 loci_validate_of_hello_OF_VERSION_1_2"
  unfolding loci_validate_of_hello_OF_VERSION_1_2_def by (intro x_intro; simp add: x_proved x_ok_imp_kx_ok)

definition loci_validate_of_packet_in_OF_VERSION_1_2 :: validator where
  "loci_validate_of_packet_in_OF_VERSION_1_2 =
     v_min 26 (v_wire_len_set 2 26 v_done)"

lemma loci_validate_of_packet_in_OF_VERSION_1_2_ok [v_proved]: "v_ok loci_validate_of_packet_in_OF_VERSION_1_2"
  unfolding loci_validate_of_packet_in_OF_VERSION_1_2_def by (intro v_intro; simp add: v_proved v_ok_imp_k_ok)

lemma loci_validate_of_packet_in_OF_VERSION_1_2_exact [x_proved]: "x_ok 2 loci_validate_of_packet_in_OF_VERSION_1_2"
  unfolding loci_validate_of_packet_in_OF_VERSION_1_2_def by (intro x_intro; simp add: x_proved x_ok_imp_kx_ok)

definition loci_validate_of_packet_out_OF_VERSION_1_2 :: validator where
  "loci_validate_of_packet_out_OF_VERSION_1_2 =
     v_min 24 (v_wire_len_set 2 24
     (v_list_len16 16 24 loci_validate_of_list_action_OF_VERSION_1_2 v_done))"

lemma loci_validate_of_packet_out_OF_VERSION_1_2_ok [v_proved]: "v_ok loci_validate_of_packet_out_OF_VERSION_1_2"
  unfolding loci_validate_of_packet_out_OF_VERSION_1_2_def by (intro v_intro; simp add: v_proved v_ok_imp_k_ok)

lemma loci_validate_of_packet_out_OF_VERSION_1_2_exact [x_proved]: "x_ok 2 loci_validate_of_packet_out_OF_VERSION_1_2"
  unfolding loci_validate_of_packet_out_OF_VERSION_1_2_def by (intro x_intro; simp add: x_proved x_ok_imp_kx_ok)

definition loci_validate_of_port_mod_OF_VERSION_1_2 :: validator where
  "loci_validate_of_port_mod_OF_VERSION_1_2 =
     v_min 40 (v_set_len 40 (v_wire_len 2 40 v_done))"

lemma loci_validate_of_port_mod_OF_VERSION_1_2_ok [v_proved]: "v_ok loci_validate_of_port_mod_OF_VERSION_1_2"
  unfolding loci_validate_of_port_mod_OF_VERSION_1_2_def by (intro v_intro; simp add: v_proved v_ok_imp_k_ok)

lemma loci_validate_of_port_mod_OF_VERSION_1_2_exact [x_proved]: "x_ok 2 loci_validate_of_port_mod_OF_VERSION_1_2"
  unfolding loci_validate_of_port_mod_OF_VERSION_1_2_def by (intro x_intro; simp add: x_proved x_ok_imp_kx_ok)

definition loci_validate_of_port_status_OF_VERSION_1_2 :: validator where
  "loci_validate_of_port_status_OF_VERSION_1_2 =
     v_min 80 (v_set_len 80 (v_wire_len 2 80 v_done))"

lemma loci_validate_of_port_status_OF_VERSION_1_2_ok [v_proved]: "v_ok loci_validate_of_port_status_OF_VERSION_1_2"
  unfolding loci_validate_of_port_status_OF_VERSION_1_2_def by (intro v_intro; simp add: v_proved v_ok_imp_k_ok)

lemma loci_validate_of_port_status_OF_VERSION_1_2_exact [x_proved]: "x_ok 2 loci_validate_of_port_status_OF_VERSION_1_2"
  unfolding loci_validate_of_port_status_OF_VERSION_1_2_def by (intro x_intro; simp add: x_proved x_ok_imp_kx_ok)

definition loci_validate_of_queue_get_config_reply_OF_VERSION_1_2 :: validator where
  "loci_validate_of_queue_get_config_reply_OF_VERSION_1_2 =
     v_min 16 (v_wire_len_set 2 16
     (v_list_rest 16 loci_validate_of_list_packet_queue_OF_VERSION_1_2 v_done))"

lemma loci_validate_of_queue_get_config_reply_OF_VERSION_1_2_ok [v_proved]: "v_ok loci_validate_of_queue_get_config_reply_OF_VERSION_1_2"
  unfolding loci_validate_of_queue_get_config_reply_OF_VERSION_1_2_def by (intro v_intro; simp add: v_proved v_ok_imp_k_ok)

lemma loci_validate_of_queue_get_config_reply_OF_VERSION_1_2_exact [x_proved]: "x_ok 2 loci_validate_of_queue_get_config_reply_OF_VERSION_1_2"
  unfolding loci_validate_of_queue_get_config_reply_OF_VERSION_1_2_def by (intro x_intro; simp add: x_proved x_ok_imp_kx_ok)

definition loci_validate_of_queue_get_config_request_OF_VERSION_1_2 :: validator where
  "loci_validate_of_queue_get_config_request_OF_VERSION_1_2 =
     v_min 16 (v_set_len 16 (v_wire_len 2 16 v_done))"

lemma loci_validate_of_queue_get_config_request_OF_VERSION_1_2_ok [v_proved]: "v_ok loci_validate_of_queue_get_config_request_OF_VERSION_1_2"
  unfolding loci_validate_of_queue_get_config_request_OF_VERSION_1_2_def by (intro v_intro; simp add: v_proved v_ok_imp_k_ok)

lemma loci_validate_of_queue_get_config_request_OF_VERSION_1_2_exact [x_proved]: "x_ok 2 loci_validate_of_queue_get_config_request_OF_VERSION_1_2"
  unfolding loci_validate_of_queue_get_config_request_OF_VERSION_1_2_def by (intro x_intro; simp add: x_proved x_ok_imp_kx_ok)

definition loci_validate_of_role_reply_OF_VERSION_1_2 :: validator where
  "loci_validate_of_role_reply_OF_VERSION_1_2 =
     v_min 24 (v_set_len 24 (v_wire_len 2 24 v_done))"

lemma loci_validate_of_role_reply_OF_VERSION_1_2_ok [v_proved]: "v_ok loci_validate_of_role_reply_OF_VERSION_1_2"
  unfolding loci_validate_of_role_reply_OF_VERSION_1_2_def by (intro v_intro; simp add: v_proved v_ok_imp_k_ok)

lemma loci_validate_of_role_reply_OF_VERSION_1_2_exact [x_proved]: "x_ok 2 loci_validate_of_role_reply_OF_VERSION_1_2"
  unfolding loci_validate_of_role_reply_OF_VERSION_1_2_def by (intro x_intro; simp add: x_proved x_ok_imp_kx_ok)

definition loci_validate_of_role_request_OF_VERSION_1_2 :: validator where
  "loci_validate_of_role_request_OF_VERSION_1_2 =
     v_min 24 (v_set_len 24 (v_wire_len 2 24 v_done))"

lemma loci_validate_of_role_request_OF_VERSION_1_2_ok [v_proved]: "v_ok loci_validate_of_role_request_OF_VERSION_1_2"
  unfolding loci_validate_of_role_request_OF_VERSION_1_2_def by (intro v_intro; simp add: v_proved v_ok_imp_k_ok)

lemma loci_validate_of_role_request_OF_VERSION_1_2_exact [x_proved]: "x_ok 2 loci_validate_of_role_request_OF_VERSION_1_2"
  unfolding loci_validate_of_role_request_OF_VERSION_1_2_def by (intro x_intro; simp add: x_proved x_ok_imp_kx_ok)

definition loci_validate_of_set_config_OF_VERSION_1_2 :: validator where
  "loci_validate_of_set_config_OF_VERSION_1_2 =
     v_min 12 (v_set_len 12 (v_wire_len 2 12 v_done))"

lemma loci_validate_of_set_config_OF_VERSION_1_2_ok [v_proved]: "v_ok loci_validate_of_set_config_OF_VERSION_1_2"
  unfolding loci_validate_of_set_config_OF_VERSION_1_2_def by (intro v_intro; simp add: v_proved v_ok_imp_k_ok)

lemma loci_validate_of_set_config_OF_VERSION_1_2_exact [x_proved]: "x_ok 2 loci_validate_of_set_config_OF_VERSION_1_2"
  unfolding loci_validate_of_set_config_OF_VERSION_1_2_def by (intro x_intro; simp add: x_proved x_ok_imp_kx_ok)

definition loci_validate_of_table_mod_OF_VERSION_1_2 :: validator where
  "loci_validate_of_table_mod_OF_VERSION_1_2 =
     v_min 16 (v_set_len 16 (v_wire_len 2 16 v_done))"

lemma loci_validate_of_table_mod_OF_VERSION_1_2_ok [v_proved]: "v_ok loci_validate_of_table_mod_OF_VERSION_1_2"
  unfolding loci_validate_of_table_mod_OF_VERSION_1_2_def by (intro v_intro; simp add: v_proved v_ok_imp_k_ok)

lemma loci_validate_of_table_mod_OF_VERSION_1_2_exact [x_proved]: "x_ok 2 loci_validate_of_table_mod_OF_VERSION_1_2"
  unfolding loci_validate_of_table_mod_OF_VERSION_1_2_def by (intro x_intro; simp add: x_proved x_ok_imp_kx_ok)

definition loci_validate_of_header_OF_VERSION_1_2 :: validator where
  "loci_validate_of_header_OF_VERSION_1_2 =
     v_min 8 (v_wire_len_set 2 8
     (v_switch8 1
      [(0x13, loci_validate_of_stats_reply_OF_VERSION_1_2),
       (0x12, loci_validate_of_stats_request_OF_VERSION_1_2),
       (1, loci_validate_of_error_msg_OF_VERSION_1_2),
       (0x15, loci_validate_of_barrier_reply_OF_VERSION_1_2),
       (0x14, loci_validate_of_barrier_request_OF_VERSION_1_2),
       (4, loci_validate_of_experimenter_OF_VERSION_1_2),
       (3, loci_validate_of_echo_reply_OF_VERSION_1_2),
       (2, loci_validate_of_echo_request_OF_VERSION_1_2),
       (6, loci_validate_of_features_reply_OF_VERSION_1_2),
       (5, loci_validate_of_features_request_OF_VERSION_1_2),
       (0xe, loci_validate_of_flow_mod_OF_VERSION_1_2),
       (0xb, loci_validate_of_flow_removed_OF_VERSION_1_2),
       (8, loci_validate_of_get_config_reply_OF_VERSION_1_2),
       (7, loci_validate_of_get_config_request_OF_VERSION_1_2),
       (0xf, loci_validate_of_group_mod_OF_VERSION_1_2),
       (0, loci_validate_of_hello_OF_VERSION_1_2),
       (0xa, loci_validate_of_packet_in_OF_VERSION_1_2),
       (0xd, loci_validate_of_packet_out_OF_VERSION_1_2),
       (0x10, loci_validate_of_port_mod_OF_VERSION_1_2),
       (0xc, loci_validate_of_port_status_OF_VERSION_1_2),
       (0x17, loci_validate_of_queue_get_config_reply_OF_VERSION_1_2),
       (0x16, loci_validate_of_queue_get_config_request_OF_VERSION_1_2),
       (0x19, loci_validate_of_role_reply_OF_VERSION_1_2),
       (0x18, loci_validate_of_role_request_OF_VERSION_1_2),
       (9, loci_validate_of_set_config_OF_VERSION_1_2),
       (0x11, loci_validate_of_table_mod_OF_VERSION_1_2)]
     v_done))"

lemma loci_validate_of_header_OF_VERSION_1_2_ok [v_proved]: "v_ok loci_validate_of_header_OF_VERSION_1_2"
  unfolding loci_validate_of_header_OF_VERSION_1_2_def by (intro v_intro; simp add: v_proved v_ok_imp_k_ok)

lemma loci_validate_of_header_OF_VERSION_1_2_exact [x_proved]: "x_ok 2 loci_validate_of_header_OF_VERSION_1_2"
  unfolding loci_validate_of_header_OF_VERSION_1_2_def by (intro x_intro; simp add: x_proved x_ok_imp_kx_ok)

definition loci_validate_of_bsn_vport_l2gre_OF_VERSION_1_2 :: validator where
  "loci_validate_of_bsn_vport_l2gre_OF_VERSION_1_2 =
     v_min 64 (v_set_len 64 (v_wire_len 2 64 v_done))"

lemma loci_validate_of_bsn_vport_l2gre_OF_VERSION_1_2_ok [v_proved]: "v_ok loci_validate_of_bsn_vport_l2gre_OF_VERSION_1_2"
  unfolding loci_validate_of_bsn_vport_l2gre_OF_VERSION_1_2_def by (intro v_intro; simp add: v_proved v_ok_imp_k_ok)

lemma loci_validate_of_bsn_vport_l2gre_OF_VERSION_1_2_exact [x_proved]: "x_ok 2 loci_validate_of_bsn_vport_l2gre_OF_VERSION_1_2"
  unfolding loci_validate_of_bsn_vport_l2gre_OF_VERSION_1_2_def by (intro x_intro; simp add: x_proved x_ok_imp_kx_ok)

definition loci_validate_of_bsn_vport_q_in_q_OF_VERSION_1_2 :: validator where
  "loci_validate_of_bsn_vport_q_in_q_OF_VERSION_1_2 =
     v_min 32 (v_set_len 32 (v_wire_len 2 32 v_done))"

lemma loci_validate_of_bsn_vport_q_in_q_OF_VERSION_1_2_ok [v_proved]: "v_ok loci_validate_of_bsn_vport_q_in_q_OF_VERSION_1_2"
  unfolding loci_validate_of_bsn_vport_q_in_q_OF_VERSION_1_2_def by (intro v_intro; simp add: v_proved v_ok_imp_k_ok)

lemma loci_validate_of_bsn_vport_q_in_q_OF_VERSION_1_2_exact [x_proved]: "x_ok 2 loci_validate_of_bsn_vport_q_in_q_OF_VERSION_1_2"
  unfolding loci_validate_of_bsn_vport_q_in_q_OF_VERSION_1_2_def by (intro x_intro; simp add: x_proved x_ok_imp_kx_ok)

definition loci_validate_of_bsn_vport_OF_VERSION_1_2 :: validator where
  "loci_validate_of_bsn_vport_OF_VERSION_1_2 =
     v_min 4 (v_wire_len_set 2 4
     (v_switch16 0
      [(1, loci_validate_of_bsn_vport_l2gre_OF_VERSION_1_2),
       (0, loci_validate_of_bsn_vport_q_in_q_OF_VERSION_1_2)]
     v_done))"

lemma loci_validate_of_bsn_vport_OF_VERSION_1_2_ok [v_proved]: "v_ok loci_validate_of_bsn_vport_OF_VERSION_1_2"
  unfolding loci_validate_of_bsn_vport_OF_VERSION_1_2_def by (intro v_intro; simp add: v_proved v_ok_imp_k_ok)

lemma loci_validate_of_bsn_vport_OF_VERSION_1_2_exact [x_proved]: "x_ok 2 loci_validate_of_bsn_vport_OF_VERSION_1_2"
  unfolding loci_validate_of_bsn_vport_OF_VERSION_1_2_def by (intro x_intro; simp add: x_proved x_ok_imp_kx_ok)

definition loci_validate_of_match_v3_OF_VERSION_1_2 :: validator where
  "loci_validate_of_match_v3_OF_VERSION_1_2 =
     v_min 4 (v_wire_len_set 2 4
     (v_list_rest 4 loci_validate_of_list_oxm_OF_VERSION_1_2 v_done))"

lemma loci_validate_of_match_v3_OF_VERSION_1_2_ok [v_proved]: "v_ok loci_validate_of_match_v3_OF_VERSION_1_2"
  unfolding loci_validate_of_match_v3_OF_VERSION_1_2_def by (intro v_intro; simp add: v_proved v_ok_imp_k_ok)

lemma loci_validate_of_match_v3_OF_VERSION_1_2_exact [x_proved]: "x_ok 2 loci_validate_of_match_v3_OF_VERSION_1_2"
  unfolding loci_validate_of_match_v3_OF_VERSION_1_2_def by (intro x_intro; simp add: x_proved x_ok_imp_kx_ok)

end
