(* ===== verification/Validator13.thy ===== *)
theory Validator13
  imports Validate
begin

text \<open>
  The message validators for OpenFlow 1.3 of \<^verbatim>\<open>src/loci_validator.c\<close>, one definition per C
  function, callees first, each with its contract (\<open>_ok\<close>) and, where the object carries its
  length, exactness (\<open>_exact\<close>). The validators of BSN TLVs, of lists of them and of the buckets
  and references that hold such lists call each other; their bodies take the callee as an
  argument and \<open>v_rec\<close> ties the knot.
\<close>

definition loci_validate_of_bsn_tlv_actor_key_OF_VERSION_1_3 :: validator where
  "loci_validate_of_bsn_tlv_actor_key_OF_VERSION_1_3 =
     v_min 6 (v_set_len 6 (v_wire_len 2 6 v_done))"

lemma loci_validate_of_bsn_tlv_actor_key_OF_VERSION_1_3_ok [v_proved]: "v_ok loci_validate_of_bsn_tlv_actor_key_OF_VERSION_1_3"
  unfolding loci_validate_of_bsn_tlv_actor_key_OF_VERSION_1_3_def by (intro v_intro; simp add: v_proved v_ok_imp_k_ok)

lemma loci_validate_of_bsn_tlv_actor_key_OF_VERSION_1_3_exact [x_proved]: "x_ok 2 loci_validate_of_bsn_tlv_actor_key_OF_VERSION_1_3"
  unfolding loci_validate_of_bsn_tlv_actor_key_OF_VERSION_1_3_def by (intro x_intro; simp add: x_proved x_ok_imp_kx_ok)

definition loci_validate_of_bsn_tlv_actor_port_num_OF_VERSION_1_3 :: validator where
  "loci_validate_of_bsn_tlv_actor_port_num_OF_VERSION_1_3 =
     v_min 6 (v_set_len 6 (v_wire_len 2 6 v_done))"

lemma loci_validate_of_bsn_tlv_actor_port_num_OF_VERSION_1_3_ok [v_proved]: "v_ok loci_validate_of_bsn_tlv_actor_port_num_OF_VERSION_1_3"
  unfolding loci_validate_of_bsn_tlv_actor_port_num_OF_VERSION_1_3_def by (intro v_intro; simp add: v_proved v_ok_imp_k_ok)

lemma loci_validate_of_bsn_tlv_actor_port_num_OF_VERSION_1_3_exact [x_proved]: "x_ok 2 loci_validate_of_bsn_tlv_actor_port_num_OF_VERSION_1_3"
  unfolding loci_validate_of_bsn_tlv_actor_port_num_OF_VERSION_1_3_def by (intro x_intro; simp add: x_proved x_ok_imp_kx_ok)

definition loci_validate_of_bsn_tlv_actor_port_priority_OF_VERSION_1_3 :: validator where
  "loci_validate_of_bsn_tlv_actor_port_priority_OF_VERSION_1_3 =
     v_min 6 (v_set_len 6 (v_wire_len 2 6 v_done))"

lemma loci_validate_of_bsn_tlv_actor_port_priority_OF_VERSION_1_3_ok [v_proved]: "v_ok loci_validate_of_bsn_tlv_actor_port_priority_OF_VERSION_1_3"
  unfolding loci_validate_of_bsn_tlv_actor_port_priority_OF_VERSION_1_3_def by (intro v_intro; simp add: v_proved v_ok_imp_k_ok)

lemma loci_validate_of_bsn_tlv_actor_port_priority_OF_VERSION_1_3_exact [x_proved]: "x_ok 2 loci_validate_of_bsn_tlv_actor_port_priority_OF_VERSION_1_3"
  unfolding loci_validate_of_bsn_tlv_actor_port_priority_OF_VERSION_1_3_def by (intro x_intro; simp add: x_proved x_ok_imp_kx_ok)

definition loci_validate_of_bsn_tlv_actor_state_OF_VERSION_1_3 :: validator where
  "loci_validate_of_bsn_tlv_actor_state_OF_VERSION_1_3 =
     v_min 5 (v_set_len 5 (v_wire_len 2 5 v_done))"

lemma loci_validate_of_bsn_tlv_actor_state_OF_VERSION_1_3_ok [v_proved]: "v_ok loci_validate_of_bsn_tlv_actor_state_OF_VERSION_1_3"
  unfolding loci_validate_of_bsn_tlv_actor_state_OF_VERSION_1_3_def by (intro v_intro; simp add: v_proved v_ok_imp_k_ok)

lemma loci_validate_of_bsn_tlv_actor_state_OF_VERSION_1_3_exact [x_proved]: "x_ok 2 loci_validate_of_bsn_tlv_actor_state_OF_VERSION_1_3"
  unfolding loci_validate_of_bsn_tlv_actor_state_OF_VERSION_1_3_def by (intro x_intro; simp add: x_proved x_ok_imp_kx_ok)

definition loci_validate_of_bsn_tlv_actor_system_mac_OF_VERSION_1_3 :: validator where
  "loci_validate_of_bsn_tlv_actor_system_mac_OF_VERSION_1_3 =
     v_min 10 (v_set_len 10 (v_wire_len 2 10 v_done))"

lemma loci_validate_of_bsn_tlv_actor_system_mac_OF_VERSION_1_3_ok [v_proved]: "v_ok loci_validate_of_bsn_tlv_actor_system_mac_OF_VERSION_1_3"
  unfolding loci_validate_of_bsn_tlv_actor_system_mac_OF_VERSION_1_3_def by (intro v_intro; simp add: v_proved v_ok_imp_k_ok)

lemma loci_validate_of_bsn_tlv_actor_system_mac_OF_VERSION_1_3_exact [x_proved]: "x_ok 2 loci_validate_of_bsn_tlv_actor_system_mac_OF_VERSION_1_3"
  unfolding loci_validate_of_bsn_tlv_actor_system_mac_OF_VERSION_1_3_def by (intro x_intro; simp add: x_proved x_ok_imp_kx_ok)

definition loci_validate_of_bsn_tlv_actor_system_priority_OF_VERSION_1_3 :: validator where
  "loci_validate_of_bsn_tlv_actor_system_priority_OF_VERSION_1_3 =
     v_min 6 (v_set_len 6 (v_wire_len 2 6 v_done))"

lemma loci_validate_of_bsn_tlv_actor_system_priority_OF_VERSION_1_3_ok [v_proved]: "v_ok loci_validate_of_bsn_tlv_actor_system_priority_OF_VERSION_1_3"
  unfolding loci_validate_of_bsn_tlv_actor_system_priority_OF_VERSION_1_3_def by (intro v_intro; simp add: v_proved v_ok_imp_k_ok)

lemma loci_validate_of_bsn_tlv_actor_system_priority_OF_VERSION_1_3_exact [x_proved]: "x_ok 2 loci_validate_of_bsn_tlv_actor_system_priority_OF_VERSION_1_3"
  unfolding loci_validate_of_bsn_tlv_actor_system_priority_OF_VERSION_1_3_def by (intro x_intro; simp add: x_proved x_ok_imp_kx_ok)

definition loci_validate_of_bsn_tlv_broadcast_query_timeout_OF_VERSION_1_3 :: validator where
  "loci_validate_of_bsn_tlv_broadcast_query_timeout_OF_VERSION_1_3 =
     v_min 8 (v_set_len 8 (v_wire_len 2 8 v_done))"

lemma loci_validate_of_bsn_tlv_broadcast_query_timeout_OF_VERSION_1_3_ok [v_proved]: "v_ok loci_validate_of_bsn_tlv_broadcast_query_timeout_OF_VERSION_1_3"
  unfolding loci_validate_of_bsn_tlv_broadcast_query_timeout_OF_VERSION_1_3_def by (intro v_intro; simp add: v_proved v_ok_imp_k_ok)

lemma loci_validate_of_bsn_tlv_broadcast_query_timeout_OF_VERSION_1_3_exact [x_proved]: "x_ok 2 loci_validate_of_bsn_tlv_broadcast_query_timeout_OF_VERSION_1_3"
  unfolding loci_validate_of_bsn_tlv_broadcast_query_timeout_OF_VERSION_1_3_def by (intro x_intro; simp add: x_proved x_ok_imp_kx_ok)

definition loci_validate_of_bsn_tlv_circuit_id_OF_VERSION_1_3 :: validator where
  "loci_validate_of_bsn_tlv_circuit_id_OF_VERSION_1_3 =
     v_min 4 (v_wire_len_set 2 4 v_done)"

lemma loci_validate_of_bsn_tlv_circuit_id_OF_VERSION_1_3_ok [v_proved]: "v_ok loci_validate_of_bsn_tlv_circuit_id_OF_VERSION_1_3"
  unfolding loci_validate_of_bsn_tlv_circuit_id_OF_VERSION_1_3_def by (intro v_intro; simp add: v_proved v_ok_imp_k_ok)

lemma loci_validate_of_bsn_tlv_circuit_id_OF_VERSION_1_3_exact [x_proved]: "x_ok 2 loci_validate_of_bsn_tlv_circuit_id_OF_VERSION_1_3"
  unfolding loci_validate_of_bsn_tlv_circuit_id_OF_VERSION_1_3_def by (intro x_intro; simp add: x_proved x_ok_imp_kx_ok)

definition loci_validate_of_bsn_tlv_convergence_status_OF_VERSION_1_3 :: validator where
  "loci_validate_of_bsn_tlv_convergence_status_OF_VERSION_1_3 =
     v_min 5 (v_set_len 5 (v_wire_len 2 5 v_done))"

lemma loci_validate_of_bsn_tlv_convergence_status_OF_VERSION_1_3_ok [v_proved]: "v_ok loci_validate_of_bsn_tlv_convergence_status_OF_VERSION_1_3"
  unfolding loci_validate_of_bsn_tlv_convergence_status_OF_VERSION_1_3_def by (intro v_intro; simp add: v_proved v_ok_imp_k_ok)

lemma loci_validate_of_bsn_tlv_convergence_status_OF_VERSION_1_3_exact [x_proved]: "x_ok 2 loci_validate_of_bsn_tlv_convergence_status_OF_VERSION_1_3"
  unfolding loci_validate_of_bsn_tlv_convergence_status_OF_VERSION_1_3_def by (intro x_intro; simp add: x_proved x_ok_imp_kx_ok)

definition loci_validate_of_bsn_tlv_crc_enabled_OF_VERSION_1_3 :: validator where
  "loci_validate_of_bsn_tlv_crc_enabled_OF_VERSION_1_3 =
     v_min 5 (v_set_len 5 (v_wire_len 2 5 v_done))"

lemma loci_validate_of_bsn_tlv_crc_enabled_OF_VERSION_1_3_ok [v_proved]: "v_ok loci_validate_of_bsn_tlv_crc_enabled_OF_VERSION_1_3"
  unfolding loci_validate_of_bsn_tlv_crc_enabled_OF_VERSION_1_3_def by (intro v_intro; simp add: v_proved v_ok_imp_k_ok)

lemma loci_validate_of_bsn_tlv_crc_enabled_OF_VERSION_1_3_exact [x_proved]: "x_ok 2 loci_validate_of_bsn_tlv_crc_enabled_OF_VERSION_1_3"
  unfolding loci_validate_of_bsn_tlv_crc_enabled_OF_VERSION_1_3_def by (intro x_intro; simp add: x_proved x_ok_imp_kx_ok)

definition loci_validate_of_bsn_tlv_data_OF_VERSION_1_3 :: validator where
  "loci_validate_of_bsn_tlv_data_OF_VERSION_1_3 =
     v_min 4 (v_wire_len_set 2 4 v_done)"

lemma loci_validate_of_bsn_tlv_data_OF_VERSION_1_3_ok [v_proved]: "v_ok loci_validate_of_bsn_tlv_data_OF_VERSION_1_3"
  unfolding loci_validate_of_bsn_tlv_data_OF_VERSION_1_3_def by (intro v_intro; simp add: v_proved v_ok_imp_k_ok)

lemma loci_validate_of_bsn_tlv_data_OF_VERSION_1_3_exact [x_proved]: "x_ok 2 loci_validate_of_bsn_tlv_data_OF_VERSION_1_3"
  unfolding loci_validate_of_bsn_tlv_data_OF_VERSION_1_3_def by (intro x_intro; simp add: x_proved x_ok_imp_kx_ok)

definition loci_validate_of_bsn_tlv_eth_dst_OF_VERSION_1_3 :: validator where
  "loci_validate_of_bsn_tlv_eth_dst_OF_VERSION_1_3 =
     v_min 10 (v_set_len 10 (v_wire_len 2 10 v_done))"

lemma loci_validate_of_bsn_tlv_eth_dst_OF_VERSION_1_3_ok [v_proved]: "v_ok loci_validate_of_bsn_tlv_eth_dst_OF_VERSION_1_3"
  unfolding loci_validate_of_bsn_tlv_eth_dst_OF_VERSION_1_3_def by (intro v_intro; simp add: v_proved v_ok_imp_k_ok)

lemma loci_validate_of_bsn_tlv_eth_dst_OF_VERSION_1_3_exact [x_proved]: "x_ok 2 loci_validate_of_bsn_tlv_eth_dst_OF_VERSION_1_3"
  unfolding loci_validate_of_bsn_tlv_eth_dst_OF_VERSION_1_3_def by (intro x_intro; simp add: x_proved x_ok_imp_kx_ok)

definition loci_validate_of_bsn_tlv_eth_src_OF_VERSION_1_3 :: validator where
  "loci_validate_of_bsn_tlv_eth_src_OF_VERSION_1_3 =
     v_min 10 (v_set_len 10 (v_wire_len 2 10 v_done))"

lemma loci_validate_of_bsn_tlv_eth_src_OF_VERSION_1_3_ok [v_proved]: "v_ok loci_validate_of_bsn_tlv_eth_src_OF_VERSION_1_3"
  unfolding loci_validate_of_bsn_tlv_eth_src_OF_VERSION_1_3_def by (intro v_intro; simp add: v_proved v_ok_imp_k_ok)

lemma loci_validate_of_bsn_tlv_eth_src_OF_VERSION_1_3_exact [x_proved]: "x_ok 2 loci_validate_of_bsn_tlv_eth_src_OF_VERSION_1_3"
  unfolding loci_validate_of_bsn_tlv_eth_src_OF_VERSION_1_3_def by (intro x_intro; simp add: x_proved x_ok_imp_kx_ok)

definition loci_validate_of_bsn_tlv_external_gateway_ip_OF_VERSION_1_3 :: validator where
  "loci_validate_of_bsn_tlv_external_gateway_ip_OF_VERSION_1_3 =
     v_min 8 (v_set_len 8 (v_wire_len 2 8 v_done))"

lemma loci_validate_of_bsn_tlv_external_gateway_ip_OF_VERSION_1_3_ok [v_proved]: "v_ok loci_validate_of_bsn_tlv_external_gateway_ip_OF_VERSION_1_3"
  unfolding loci_validate_of_bsn_tlv_external_gateway_ip_OF_VERSION_1_3_def by (intro v_intro; simp add: v_proved v_ok_imp_k_ok)

lemma loci_validate_of_bsn_tlv_external_gateway_ip_OF_VERSION_1_3_exact [x_proved]: "x_ok 2 loci_validate_of_bsn_tlv_external_gateway_ip_OF_VERSION_1_3"
  unfolding loci_validate_of_bsn_tlv_external_gateway_ip_OF_VERSION_1_3_def by (intro x_intro; simp add: x_proved x_ok_imp_kx_ok)

definition loci_validate_of_bsn_tlv_external_gateway_mac_OF_VERSION_1_3 :: validator where
  "loci_validate_of_bsn_tlv_external_gateway_mac_OF_VERSION_1_3 =
     v_min 10 (v_set_len 10 (v_wire_len 2 10 v_done))"

lemma loci_validate_of_bsn_tlv_external_gateway_mac_OF_VERSION_1_3_ok [v_proved]: "v_ok loci_validate_of_bsn_tlv_external_gateway_mac_OF_VERSION_1_3"
  unfolding loci_validate_of_bsn_tlv_external_gateway_mac_OF_VERSION_1_3_def by (intro v_intro; simp add: v_proved v_ok_imp_k_ok)

lemma loci_validate_of_bsn_tlv_external_gateway_mac_OF_VERSION_1_3_exact [x_proved]: "x_ok 2 loci_validate_of_bsn_tlv_external_gateway_mac_OF_VERSION_1_3"
  unfolding loci_validate_of_bsn_tlv_external_gateway_mac_OF_VERSION_1_3_def by (intro x_intro; simp add: x_proved x_ok_imp_kx_ok)

definition loci_validate_of_bsn_tlv_external_ip_OF_VERSION_1_3 :: validator where
  "loci_validate_of_bsn_tlv_external_ip_OF_VERSION_1_3 =
     v_min 8 (v_set_len 8 (v_wire_len 2 8 v_done))"

lemma loci_validate_of_bsn_tlv_external_ip_OF_VERSION_1_3_ok [v_proved]: "v_ok loci_validate_of_bsn_tlv_external_ip_OF_VERSION_1_3"
  unfolding loci_validate_of_bsn_tlv_external_ip_OF_VERSION_1_3_def by (intro v_intro; simp add: v_proved v_ok_imp_k_ok)

lemma loci_validate_of_bsn_tlv_external_ip_OF_VERSION_1_3_exact [x_proved]: "x_ok 2 loci_validate_of_bsn_tlv_external_ip_OF_VERSION_1_3"
  unfolding loci_validate_of_bsn_tlv_external_ip_OF_VERSION_1_3_def by (intro x_intro; simp add: x_proved x_ok_imp_kx_ok)

definition loci_validate_of_bsn_tlv_external_mac_OF_VERSION_1_3 :: validator where
  "loci_validate_of_bsn_tlv_external_mac_OF_VERSION_1_3 =
     v_min 10 (v_set_len 10 (v_wire_len 2 10 v_done))"

lemma loci_validate_of_bsn_tlv_external_mac_OF_VERSION_1_3_ok [v_proved]: "v_ok loci_validate_of_bsn_tlv_external_mac_OF_VERSION_1_3"
  unfolding loci_validate_of_bsn_tlv_external_mac_OF_VERSION_1_3_def by (intro v_intro; simp add: v_proved v_ok_imp_k_ok)

lemma loci_validate_of_bsn_tlv_external_mac_OF_VERSION_1_3_exact [x_proved]: "x_ok 2 loci_validate_of_bsn_tlv_external_mac_OF_VERSION_1_3"
  unfolding loci_validate_of_bsn_tlv_external_mac_OF_VERSION_1_3_def by (intro x_intro; simp add: x_proved x_ok_imp_kx_ok)

definition loci_validate_of_bsn_tlv_external_netmask_OF_VERSION_1_3 :: validator where
  "loci_validate_of_bsn_tlv_external_netmask_OF_VERSION_1_3 =
     v_min 8 (v_set_len 8 (v_wire_len 2 8 v_done))"

lemma loci_validate_of_bsn_tlv_external_netmask_OF_VERSION_1_3_ok [v_proved]: "v_ok loci_validate_of_bsn_tlv_external_netmask_OF_VERSION_1_3"
  unfolding loci_validate_of_bsn_tlv_external_netmask_OF_VERSION_1_3_def by (intro v_intro; simp add: v_proved v_ok_imp_k_ok)

lemma loci_validate_of_bsn_tlv_external_netmask_OF_VERSION_1_3_exact [x_proved]: "x_ok 2 loci_validate_of_bsn_tlv_external_netmask_OF_VERSION_1_3"
  unfolding loci_validate_of_bsn_tlv_external_netmask_OF_VERSION_1_3_def by (intro x_intro; simp add: x_proved x_ok_imp_kx_ok)

definition loci_validate_of_bsn_tlv_header_size_OF_VERSION_1_3 :: validator where
  "loci_validate_of_bsn_tlv_header_size_OF_VERSION_1_3 =
     v_min 8 (v_set_len 8 (v_wire_len 2 8 v_done))"

lemma loci_validate_of_bsn_tlv_header_size_OF_VERSION_1_3_ok [v_proved]: "v_ok loci_validate_of_bsn_tlv_header_size_OF_VERSION_1_3"
  unfolding loci_validate_of_bsn_tlv_header_size_OF_VERSION_1_3_def by (intro v_intro; simp add: v_proved v_ok_imp_k_ok)

lemma loci_validate_of_bsn_tlv_header_size_OF_VERSION_1_3_exact [x_proved]: "x_ok 2 loci_validate_of_bsn_tlv_header_size_OF_VERSION_1_3"
  unfolding loci_validate_of_bsn_tlv_header_size_OF_VERSION_1_3_def by (intro x_intro; simp add: x_proved x_ok_imp_kx_ok)

definition loci_validate_of_bsn_tlv_icmp_code_OF_VERSION_1_3 :: validator where
  "loci_validate_of_bsn_tlv_icmp_code_OF_VERSION_1_3 =
     v_min 5 (v_set_len 5 (v_wire_len 2 5 v_done))"

lemma loci_validate_of_bsn_tlv_icmp_code_OF_VERSION_1_3_ok [v_proved]: "v_ok loci_validate_of_bsn_tlv_icmp_code_OF_VERSION_1_3"
  unfolding loci_validate_of_bsn_tlv_icmp_code_OF_VERSION_1_3_def by (intro v_intro; simp add: v_proved v_ok_imp_k_ok)

lemma loci_validate_of_bsn_tlv_icmp_code_OF_VERSION_1_3_exact [x_proved]: "x_ok 2 loci_validate_of_bsn_tlv_icmp_code_OF_VERSION_1_3"
  unfolding loci_validate_of_bsn_tlv_icmp_code_OF_VERSION_1_3_def by (intro x_intro; simp add: x_proved x_ok_imp_kx_ok)

definition loci_validate_of_bsn_tlv_icmp_id_OF_VERSION_1_3 :: validator where
  "loci_validate_of_bsn_tlv_icmp_id_OF_VERSION_1_3 =
     v_min 6 (v_set_len 6 (v_wire_len 2 6 v_done))"

lemma loci_validate_of_bsn_tlv_icmp_id_OF_VERSION_1_3_ok [v_proved]: "v_ok loci_validate_of_bsn_tlv_icmp_id_OF_VERSION_1_3"
  unfolding loci_validate_of_bsn_tlv_icmp_id_OF_VERSION_1_3_def by (intro v_intro; simp add: v_proved v_ok_imp_k_ok)

lemma loci_validate_of_bsn_tlv_icmp_id_OF_VERSION_1_3_exact [x_proved]: "x_ok 2 loci_validate_of_bsn_tlv_icmp_id_OF_VERSION_1_3"
  unfolding loci_validate_of_bsn_tlv_icmp_id_OF_VERSION_1_3_def by (intro x_intro; simp add: x_proved x_ok_imp_kx_ok)

definition loci_validate_of_bsn_tlv_icmp_type_OF_VERSION_1_3 :: validator where
  "loci_validate_of_bsn_tlv_icmp_type_OF_VERSION_1_3 =
     v_min 5 (v_set_len 5 (v_wire_len 2 5 v_done))"

lemma loci_validate_of_bsn_tlv_icmp_type_OF_VERSION_1_3_ok [v_proved]: "v_ok loci_validate_of_bsn_tlv_icmp_type_OF_VERSION_1_3"
  unfolding loci_validate_of_bsn_tlv_icmp_type_OF_VERSION_1_3_def by (intro v_intro; simp add: v_proved v_ok_imp_k_ok)

lemma loci_validate_of_bsn_tlv_icmp_type_OF_VERSION_1_3_exact [x_proved]: "x_ok 2 loci_validate_of_bsn_tlv_icmp_type_OF_VERSION_1_3"
  unfolding loci_validate_of_bsn_tlv_icmp_type_OF_VERSION_1_3_def by (intro x_intro; simp add: x_proved x_ok_imp_kx_ok)

definition loci_validate_of_bsn_tlv_idle_notification_OF_VERSION_1_3 :: validator where
  "loci_validate_of_bsn_tlv_idle_notification_OF_VERSION_1_3 =
     v_min 4 (v_set_len 4 (v_wire_len 2 4 v_done))"

lemma loci_validate_of_bsn_tlv_idle_notification_OF_VERSION_1_3_ok [v_proved]: "v_ok loci_validate_of_bsn_tlv_idle_notification_OF_VERSION_1_3"
  unfolding loci_validate_of_bsn_tlv_idle_notification_OF_VERSION_1_3_def by (intro v_intro; simp add: v_proved v_ok_imp_k_ok)

lemma loci_validate_of_bsn_tlv_idle_notification_OF_VERSION_1_3_exact [x_proved]: "x_ok 2 loci_validate_of_bsn_tlv_idle_notification_OF_VERSION_1_3"
  unfolding loci_validate_of_bsn_tlv_idle_notification_OF_VERSION_1_3_def by (intro x_intro; simp add: x_proved x_ok_imp_kx_ok)

definition loci_validate_of_bsn_tlv_idle_time_OF_VERSION_1_3 :: validator where
  "loci_validate_of_bsn_tlv_idle_time_OF_VERSION_1_3 =
     v_min 12 (v_set_len 12 (v_wire_len 2 12 v_done))"

lemma loci_validate_of_bsn_tlv_idle_time_OF_VERSION_1_3_ok [v_proved]: "v_ok loci_validate_of_bsn_tlv_idle_time_OF_VERSION_1_3"
  unfolding loci_validate_of_bsn_tlv_idle_time_OF_VERSION_1_3_def by (intro v_intro; simp add: v_proved v_ok_imp_k_ok)

lemma loci_validate_of_bsn_tlv_idle_time_OF_VERSION_1_3_exact [x_proved]: "x_ok 2 loci_validate_of_bsn_tlv_idle_time_OF_VERSION_1_3"
  unfolding loci_validate_of_bsn_tlv_idle_time_OF_VERSION_1_3_def by (intro x_intro; simp add: x_proved x_ok_imp_kx_ok)

definition loci_validate_of_bsn_tlv_idle_timeout_OF_VERSION_1_3 :: validator where
  "loci_validate_of_bsn_tlv_idle_timeout_OF_VERSION_1_3 =
     v_min 8 (v_set_len 8 (v_wire_len 2 8 v_done))"

lemma loci_validate_of_bsn_tlv_idle_timeout_OF_VERSION_1_3_ok [v_proved]: "v_ok loci_validate_of_bsn_tlv_idle_timeout_OF_VERSION_1_3"
  unfolding loci_validate_of_bsn_tlv_idle_timeout_OF_VERSION_1_3_def by (intro v_intro; simp add: v_proved v_ok_imp_k_ok)

lemma loci_validate_of_bsn_tlv_idle_timeout_OF_VERSION_1_3_exact [x_proved]: "x_ok 2 loci_validate_of_bsn_tlv_idle_timeout_OF_VERSION_1_3"
  unfolding loci_validate_of_bsn_tlv_idle_timeout_OF_VERSION_1_3_def by (intro x_intro; simp add: x_proved x_ok_imp_kx_ok)

definition loci_validate_of_bsn_tlv_internal_gateway_mac_OF_VERSION_1_3 :: validator where
  "loci_validate_of_bsn_tlv_internal_gateway_mac_OF_VERSION_1_3 =
     v_min 10 (v_set_len 10 (v_wire_len 2 10 v_done))"

lemma loci_validate_of_bsn_tlv_internal_gateway_mac_OF_VERSION_1_3_ok [v_proved]: "v_ok loci_validate_of_bsn_tlv_internal_gateway_mac_OF_VERSION_1_3"
  unfolding loci_validate_of_bsn_tlv_internal_gateway_mac_OF_VERSION_1_3_def by (intro v_intro; simp add: v_proved v_ok_imp_k_ok)

lemma loci_validate_of_bsn_tlv_internal_gateway_mac_OF_VERSION_1_3_exact [x_proved]: "x_ok 2 loci_validate_of_bsn_tlv_internal_gateway_mac_OF_VERSION_1_3"
  unfolding loci_validate_of_bsn_tlv_internal_gateway_mac_OF_VERSION_1_3_def by (intro x_intro; simp add: x_proved x_ok_imp_kx_ok)

definition loci_validate_of_bsn_tlv_internal_mac_OF_VERSION_1_3 :: validator where
  "loci_validate_of_bsn_tlv_internal_mac_OF_VERSION_1_3 =
     v_min 10 (v_set_len 10 (v_wire_len 2 10 v_done))"

lemma loci_validate_of_bsn_tlv_internal_mac_OF_VERSION_1_3_ok [v_proved]: "v_ok loci_validate_of_bsn_tlv_internal_mac_OF_VERSION_1_3"
  unfolding loci_validate_of_bsn_tlv_internal_mac_OF_VERSION_1_3_def by (intro v_intro; simp add: v_proved v_ok_imp_k_ok)

lemma loci_validate_of_bsn_tlv_internal_mac_OF_VERSION_1_3_exact [x_proved]: "x_ok 2 loci_validate_of_bsn_tlv_internal_mac_OF_VERSION_1_3"
  unfolding loci_validate_of_bsn_tlv_internal_mac_OF_VERSION_1_3_def by (intro x_intro; simp add: x_proved x_ok_imp_kx_ok)

definition loci_validate_of_bsn_tlv_interval_OF_VERSION_1_3 :: validator where
  "loci_validate_of_bsn_tlv_interval_OF_VERSION_1_3 =
     v_min 8 (v_set_len 8 (v_wire_len 2 8 v_done))"

lemma loci_validate_of_bsn_tlv_interval_OF_VERSION_1_3_ok [v_proved]: "v_ok loci_validate_of_bsn_tlv_interval_OF_VERSION_1_3"
  unfolding loci_validate_of_bsn_tlv_interval_OF_VERSION_1_3_def by (intro v_intro; simp add: v_proved v_ok_imp_k_ok)

lemma loci_validate_of_bsn_tlv_interval_OF_VERSION_1_3_exact [x_proved]: "x_ok 2 loci_validate_of_bsn_tlv_interval_OF_VERSION_1_3"
  unfolding loci_validate_of_bsn_tlv_interval_OF_VERSION_1_3_def by (intro x_intro; simp add: x_proved x_ok_imp_kx_ok)

definition loci_validate_of_bsn_tlv_ip_proto_OF_VERSION_1_3 :: validator where
  "loci_validate_of_bsn_tlv_ip_proto_OF_VERSION_1_3 =
     v_min 5 (v_set_len 5 (v_wire_len 2 5 v_done))"

lemma loci_validate_of_bsn_tlv_ip_proto_OF_VERSION_1_3_ok [v_proved]: "v_ok loci_validate_of_bsn_tlv_ip_proto_OF_VERSION_1_3"
  unfolding loci_validate_of_bsn_tlv_ip_proto_OF_VERSION_1_3_def by (intro v_intro; simp add: v_proved v_ok_imp_k_ok)

lemma loci_validate_of_bsn_tlv_ip_proto_OF_VERSION_1_3_exact [x_proved]: "x_ok 2 loci_validate_of_bsn_tlv_ip_proto_OF_VERSION_1_3"
  unfolding loci_validate_of_bsn_tlv_ip_proto_OF_VERSION_1_3_def by (intro x_intro; simp add: x_proved x_ok_imp_kx_ok)

definition loci_validate_of_bsn_tlv_ipv4_OF_VERSION_1_3 :: validator where
  "loci_validate_of_bsn_tlv_ipv4_OF_VERSION_1_3 =
     v_min 8 (v_set_len 8 (v_wire_len 2 8 v_done))"

lemma loci_validate_of_bsn_tlv_ipv4_OF_VERSION_1_3_ok [v_proved]: "v_ok loci_validate_of_bsn_tlv_ipv4_OF_VERSION_1_3"
  unfolding loci_validate_of_bsn_tlv_ipv4_OF_VERSION_1_3_def by (intro v_intro; simp add: v_proved v_ok_imp_k_ok)

lemma loci_validate_of_bsn_tlv_ipv4_OF_VERSION_1_3_exact [x_proved]: "x_ok 2 loci_validate_of_bsn_tlv_ipv4_OF_VERSION_1_3"
  unfolding loci_validate_of_bsn_tlv_ipv4_OF_VERSION_1_3_def by (intro x_intro; simp add: x_proved x_ok_imp_kx_ok)

definition loci_validate_of_bsn_tlv_ipv4_dst_OF_VERSION_1_3 :: validator where
  "loci_validate_of_bsn_tlv_ipv4_dst_OF_VERSION_1_3 =
     v_min 8 (v_set_len 8 (v_wire_len 2 8 v_done))"

lemma loci_validate_of_bsn_tlv_ipv4_dst_OF_VERSION_1_3_ok [v_proved]: "v_ok loci_validate_of_bsn_tlv_ipv4_dst_OF_VERSION_1_3"
  unfolding loci_validate_of_bsn_tlv_ipv4_dst_OF_VERSION_1_3_def by (intro v_intro; simp add: v_proved v_ok_imp_k_ok)

lemma loci_validate_of_bsn_tlv_ipv4_dst_OF_VERSION_1_3_exact [x_proved]: "x_ok 2 loci_validate_of_bsn_tlv_ipv4_dst_OF_VERSION_1_3"
  unfolding loci_validate_of_bsn_tlv_ipv4_dst_OF_VERSION_1_3_def by (intro x_intro; simp add: x_proved x_ok_imp_kx_ok)

definition loci_validate_of_bsn_tlv_ipv4_netmask_OF_VERSION_1_3 :: validator where
  "loci_validate_of_bsn_tlv_ipv4_netmask_OF_VERSION_1_3 =
     v_min 8 (v_set_len 8 (v_wire_len 2 8 v_done))"

lemma loci_validate_of_bsn_tlv_ipv4_netmask_OF_VERSION_1_3_ok [v_proved]: "v_ok loci_validate_of_bsn_tlv_ipv4_netmask_OF_VERSION_1_3"
  unfolding loci_validate_of_bsn_tlv_ipv4_netmask_OF_VERSION_1_3_def by (intro v_intro; simp add: v_proved v_ok_imp_k_ok)

lemma loci_validate_of_bsn_tlv_ipv4_netmask_OF_VERSION_1_3_exact [x_proved]: "x_ok 2 loci_validate_of_bsn_tlv_ipv4_netmask_OF_VERSION_1_3"
  unfolding loci_validate_of_bsn_tlv_ipv4_netmask_OF_VERSION_1_3_def by (intro x_intro; simp add: x_proved x_ok_imp_kx_ok)

definition loci_validate_of_bsn_tlv_ipv4_src_OF_VERSION_1_3 :: validator where
  "loci_validate_of_bsn_tlv_ipv4_src_OF_VERSION_1_3 =
     v_min 8 (v_set_len 8 (v_wire_len 2 8 v_done))"

lemma loci_validate_of_bsn_tlv_ipv4_src_OF_VERSION_1_3_ok [v_proved]: "v_ok loci_validate_of_bsn_tlv_ipv4_src_OF_VERSION_1_3"
  unfolding loci_validate_of_bsn_tlv_ipv4_src_OF_VERSION_1_3_def by (intro v_intro; simp add: v_proved v_ok_imp_k_ok)

lemma loci_validate_of_bsn_tlv_ipv4_src_OF_VERSION_1_3_exact [x_proved]: "x_ok 2 loci_validate_of_bsn_tlv_ipv4_src_OF_VERSION_1_3"
  unfolding loci_validate_of_bsn_tlv_ipv4_src_OF_VERSION_1_3_def by (intro x_intro; simp add: x_proved x_ok_imp_kx_ok)

definition loci_validate_of_bsn_tlv_mac_OF_VERSION_1_3 :: validator where
  "loci_validate_of_bsn_tlv_mac_OF_VERSION_1_3 =
     v_min 10 (v_set_len 10 (v_wire_len 2 10 v_done))"

lemma loci_validate_of_bsn_tlv_mac_OF_VERSION_1_3_ok [v_proved]: "v_ok loci_validate_of_bsn_tlv_mac_OF_VERSION_1_3"
  unfolding loci_validate_of_bsn_tlv_mac_OF_VERSION_1_3_def by (intro v_intro; simp add: v_proved v_ok_imp_k_ok)

lemma loci_validate_of_bsn_tlv_mac_OF_VERSION_1_3_exact [x_proved]: "x_ok 2 loci_validate_of_bsn_tlv_mac_OF_VERSION_1_3"
  unfolding loci_validate_of_bsn_tlv_mac_OF_VERSION_1_3_def by (intro x_intro; simp add: x_proved x_ok_imp_kx_ok)

definition loci_validate_of_bsn_tlv_mac_mask_OF_VERSION_1_3 :: validator where
  "loci_validate_of_bsn_tlv_mac_mask_OF_VERSION_1_3 =
     v_min 10 (v_set_len 10 (v_wire_len 2 10 v_done))"

lemma loci_validate_of_bsn_tlv_mac_mask_OF_VERSION_1_3_ok [v_proved]: "v_ok loci_validate_of_bsn_tlv_mac_mask_OF_VERSION_1_3"
  unfolding loci_validate_of_bsn_tlv_mac_mask_OF_VERSION_1_3_def by (intro v_intro; simp add: v_proved v_ok_imp_k_ok)

lemma loci_validate_of_bsn_tlv_mac_mask_OF_VERSION_1_3_exact [x_proved]: "x_ok 2 loci_validate_of_bsn_tlv_mac_mask_OF_VERSION_1_3"
  unfolding loci_validate_of_bsn_tlv_mac_mask_OF_VERSION_1_3_def by (intro x_intro; simp add: x_proved x_ok_imp_kx_ok)

definition loci_validate_of_bsn_tlv_miss_packets_OF_VERSION_1_3 :: validator where
  "loci_validate_of_bsn_tlv_miss_packets_OF_VERSION_1_3 =
     v_min 12 (v_set_len 12 (v_wire_len 2 12 v_done))"

lemma loci_validate_of_bsn_tlv_miss_packets_OF_VERSION_1_3_ok [v_proved]: "v_ok loci_validate_of_bsn_tlv_miss_packets_OF_VERSION_1_3"
  unfolding loci_validate_of_bsn_tlv_miss_packets_OF_VERSION_1_3_def by (intro v_intro; simp add: v_proved v_ok_imp_k_ok)

lemma loci_validate_of_bsn_tlv_miss_packets_OF_VERSION_1_3_exact [x_proved]: "x_ok 2 loci_validate_of_bsn_tlv_miss_packets_OF_VERSION_1_3"
  unfolding loci_validate_of_bsn_tlv_miss_packets_OF_VERSION_1_3_def by (intro x_intro; simp add: x_proved x_ok_imp_kx_ok)

definition loci_validate_of_bsn_tlv_mpls_control_word_OF_VERSION_1_3 :: validator where
  "loci_validate_of_bsn_tlv_mpls_control_word_OF_VERSION_1_3 =
     v_min 5 (v_set_len 5 (v_wire_len 2 5 v_done))"

lemma loci_validate_of_bsn_tlv_mpls_control_word_OF_VERSION_1_3_ok [v_proved]: "v_ok loci_validate_of_bsn_tlv_mpls_control_word_OF_VERSION_1_3"
  unfolding loci_validate_of_bsn_tlv_mpls_control_word_OF_VERSION_1_3_def by (intro v_intro; simp add: v_proved v_ok_imp_k_ok)

lemma loci_validate_of_bsn_tlv_mpls_control_word_OF_VERSION_1_3_exact [x_proved]: "x_ok 2 loci_validate_of_bsn_tlv_mpls_control_word_OF_VERSION_1_3"
  unfolding loci_validate_of_bsn_tlv_mpls_control_word_OF_VERSION_1_3_def by (intro x_intro; simp add: x_proved x_ok_imp_kx_ok)

definition loci_validate_of_bsn_tlv_mpls_label_OF_VERSION_1_3 :: validator where
  "loci_validate_of_bsn_tlv_mpls_label_OF_VERSION_1_3 =
     v_min 8 (v_set_len 8 (v_wire_len 2 8 v_done))"

lemma loci_validate_of_bsn_tlv_mpls_label_OF_VERSION_1_3_ok [v_proved]: "v_ok loci_validate_of_bsn_tlv_mpls_label_OF_VERSION_1_3"
  unfolding loci_validate_of_bsn_tlv_mpls_label_OF_VERSION_1_3_def by (intro v_intro; simp add: v_proved v_ok_imp_k_ok)

lemma loci_validate_of_bsn_tlv_mpls_label_OF_VERSION_1_3_exact [x_proved]: "x_ok 2 loci_validate_of_bsn_tlv_mpls_label_OF_VERSION_1_3"
  unfolding loci_validate_of_bsn_tlv_mpls_label_OF_VERSION_1_3_def by (intro x_intro; simp add: x_proved x_ok_imp_kx_ok)

definition loci_validate_of_bsn_tlv_mpls_sequenced_OF_VERSION_1_3 :: validator where
  "loci_validate_of_bsn_tlv_mpls_sequenced_OF_VERSION_1_3 =
     v_min 5 (v_set_len 5 (v_wire_len 2 5 v_done))"

lemma loci_validate_of_bsn_tlv_mpls_sequenced_OF_VERSION_1_3_ok [v_proved]: "v_ok loci_validate_of_bsn_tlv_mpls_sequenced_OF_VERSION_1_3"
  unfolding loci_validate_of_bsn_tlv_mpls_sequenced_OF_VERSION_1_3_def by (intro v_intro; simp add: v_proved v_ok_imp_k_ok)

lemma loci_validate_of_bsn_tlv_mpls_sequenced_OF_VERSION_1_3_exact [x_proved]: "x_ok 2 loci_validate_of_bsn_tlv_mpls_sequenced_OF_VERSION_1_3"
  unfolding loci_validate_of_bsn_tlv_mpls_sequenced_OF_VERSION_1_3_def by (intro x_intro; simp add: x_proved x_ok_imp_kx_ok)

definition loci_validate_of_bsn_tlv_name_OF_VERSION_1_3 :: validator where
  "loci_validate_of_bsn_tlv_name_OF_VERSION_1_3 =
     v_min 4 (v_wire_len_set 2 4 v_done)"

lemma loci_validate_of_bsn_tlv_name_OF_VERSION_1_3_ok [v_proved]: "v_ok loci_validate_of_bsn_tlv_name_OF_VERSION_1_3"
  unfolding loci_validate_of_bsn_tlv_name_OF_VERSION_1_3_def by (intro v_intro; simp add: v_proved v_ok_imp_k_ok)

lemma loci_validate_of_bsn_tlv_name_OF_VERSION_1_3_exact [x_proved]: "x_ok 2 loci_validate_of_bsn_tlv_name_OF_VERSION_1_3"
  unfolding loci_validate_of_bsn_tlv_name_OF_VERSION_1_3_def by (intro x_intro; simp add: x_proved x_ok_imp_kx_ok)

definition loci_validate_of_bsn_tlv_partner_key_OF_VERSION_1_3 :: validator where
  "loci_validate_of_bsn_tlv_partner_key_OF_VERSION_1_3 =
     v_min 6 (v_set_len 6 (v_wire_len 2 6 v_done))"

lemma loci_validate_of_bsn_tlv_partner_key_OF_VERSION_1_3_ok [v_proved]: "v_ok loci_validate_of_bsn_tlv_partner_key_OF_VERSION_1_3"
  unfolding loci_validate_of_bsn_tlv_partner_key_OF_VERSION_1_3_def by (intro v_intro; simp add: v_proved v_ok_imp_k_ok)

lemma loci_validate_of_bsn_tlv_partner_key_OF_VERSION_1_3_exact [x_proved]: "x_ok 2 loci_validate_of_bsn_tlv_partner_key_OF_VERSION_1_3"
  unfolding loci_validate_of_bsn_tlv_partner_key_OF_VERSION_1_3_def by (intro x_intro; simp add: x_proved x_ok_imp_kx_ok)

definition loci_validate_of_bsn_tlv_partner_port_num_OF_VERSION_1_3 :: validator where
  "loci_validate_of_bsn_tlv_partner_port_num_OF_VERSION_1_3 =
     v_min 6 (v_set_len 6 (v_wire_len 2 6 v_done))"

lemma loci_validate_of_bsn_tlv_partner_port_num_OF_VERSION_1_3_ok [v_proved]: "v_ok loci_validate_of_bsn_tlv_partner_port_num_OF_VERSION_1_3"
  unfolding loci_validate_of_bsn_tlv_partner_port_num_OF_VERSION_1_3_def by (intro v_intro; simp add: v_proved v_ok_imp_k_ok)

lemma loci_validate_of_bsn_tlv_partner_port_num_OF_VERSION_1_3_exact [x_proved]: "x_ok 2 loci_validate_of_bsn_tlv_partner_port_num_OF_VERSION_1_3"
  unfolding loci_validate_of_bsn_tlv_partner_port_num_OF_VERSION_1_3_def by (intro x_intro; simp add: x_proved x_ok_imp_kx_ok)

definition loci_validate_of_bsn_tlv_partner_port_priority_OF_VERSION_1_3 :: validator where
  "loci_validate_of_bsn_tlv_partner_port_priority_OF_VERSION_1_3 =
     v_min 6 (v_set_len 6 (v_wire_len 2 6 v_done))"

lemma loci_validate_of_bsn_tlv_partner_port_priority_OF_VERSION_1_3_ok [v_proved]: "v_ok loci_validate_of_bsn_tlv_partner_port_priority_OF_VERSION_1_3"
  unfolding loci_validate_of_bsn_tlv_partner_port_priority_OF_VERSION_1_3_def by (intro v_intro; simp add: v_proved v_ok_imp_k_ok)

lemma loci_validate_of_bsn_tlv_partner_port_priority_OF_VERSION_1_3_exact [x_proved]: "x_ok 2 loci_validate_of_bsn_tlv_partner_port_priority_OF_VERSION_1_3"
  unfolding loci_validate_of_bsn_tlv_partner_port_priority_OF_VERSION_1_3_def by (intro x_intro; simp add: x_proved x_ok_imp_kx_ok)

definition loci_validate_of_bsn_tlv_partner_state_OF_VERSION_1_3 :: validator where
  "loci_validate_of_bsn_tlv_partner_state_OF_VERSION_1_3 =
     v_min 5 (v_set_len 5 (v_wire_len 2 5 v_done))"

lemma loci_validate_of_bsn_tlv_partner_state_OF_VERSION_1_3_ok [v_proved]: "v_ok loci_validate_of_bsn_tlv_partner_state_OF_VERSION_1_3"
  unfolding loci_validate_of_bsn_tlv_partner_state_OF_VERSION_1_3_def by (intro v_intro; simp add: v_proved v_ok_imp_k_ok)

lemma loci_validate_of_bsn_tlv_partner_state_OF_VERSION_1_3_exact [x_proved]: "x_ok 2 loci_validate_of_bsn_tlv_partner_state_OF_VERSION_1_3"
  unfolding loci_validate_of_bsn_tlv_partner_state_OF_VERSION_1_3_def by (intro x_intro; simp add: x_proved x_ok_imp_kx_ok)

definition loci_validate_of_bsn_tlv_partner_system_mac_OF_VERSION_1_3 :: validator where
  "loci_validate_of_bsn_tlv_partner_system_mac_OF_VERSION_1_3 =
     v_min 10 (v_set_len 10 (v_wire_len 2 10 v_done))"

lemma loci_validate_of_bsn_tlv_partner_system_mac_OF_VERSION_1_3_ok [v_proved]: "v_ok loci_validate_of_bsn_tlv_partner_system_mac_OF_VERSION_1_3"
  unfolding loci_validate_of_bsn_tlv_partner_system_mac_OF_VERSION_1_3_def by (intro v_intro; simp add: v_proved v_ok_imp_k_ok)

lemma loci_validate_of_bsn_tlv_partner_system_mac_OF_VERSION_1_3_exact [x_proved]: "x_ok 2 loci_validate_of_bsn_tlv_partner_system_mac_OF_VERSION_1_3"
  unfolding loci_validate_of_bsn_tlv_partner_system_mac_OF_VERSION_1_3_def by (intro x_intro; simp add: x_proved x_ok_imp_kx_ok)

definition loci_validate_of_bsn_tlv_partner_system_priority_OF_VERSION_1_3 :: validator where
  "loci_validate_of_bsn_tlv_partner_system_priority_OF_VERSION_1_3 =
     v_min 6 (v_set_len 6 (v_wire_len 2 6 v_done))"

lemma loci_validate_of_bsn_tlv_partner_system_priority_OF_VERSION_1_3_ok [v_proved]: "v_ok loci_validate_of_bsn_tlv_partner_system_priority_OF_VERSION_1_3"
  unfolding loci_validate_of_bsn_tlv_partner_system_priority_OF_VERSION_1_3_def by (intro v_intro; simp add: v_proved v_ok_imp_k_ok)

lemma loci_validate_of_bsn_tlv_partner_system_priority_OF_VERSION_1_3_exact [x_proved]: "x_ok 2 loci_validate_of_bsn_tlv_partner_system_priority_OF_VERSION_1_3"
  unfolding loci_validate_of_bsn_tlv_partner_system_priority_OF_VERSION_1_3_def by (intro x_intro; simp add: x_proved x_ok_imp_kx_ok)

definition loci_validate_of_bsn_tlv_port_OF_VERSION_1_3 :: validator where
  "loci_validate_of_bsn_tlv_port_OF_VERSION_1_3 =
     v_min 8 (v_set_len 8 (v_wire_len 2 8 v_done))"

lemma loci_validate_of_bsn_tlv_port_OF_VERSION_1_3_ok [v_proved]: "v_ok loci_validate_of_bsn_tlv_port_OF_VERSION_1_3"
  unfolding loci_validate_of_bsn_tlv_port_OF_VERSION_1_3_def by (intro v_intro; simp add: v_proved v_ok_imp_k_ok)

lemma loci_validate_of_bsn_tlv_port_OF_VERSION_1_3_exact [x_proved]: "x_ok 2 loci_validate_of_bsn_tlv_port_OF_VERSION_1_3"
  unfolding loci_validate_of_bsn_tlv_port_OF_VERSION_1_3_def by (intro x_intro; simp add: x_proved x_ok_imp_kx_ok)

definition loci_validate_of_bsn_tlv_priority_OF_VERSION_1_3 :: validator where
  "loci_validate_of_bsn_tlv_priority_OF_VERSION_1_3 =
     v_min 8 (v_set_len 8 (v_wire_len 2 8 v_done))"

lemma loci_validate_of_bsn_tlv_priority_OF_VERSION_1_3_ok [v_proved]: "v_ok loci_validate_of_bsn_tlv_priority_OF_VERSION_1_3"
  unfolding loci_validate_of_bsn_tlv_priority_OF_VERSION_1_3_def by (intro v_intro; simp add: v_proved v_ok_imp_k_ok)

lemma loci_validate_of_bsn_tlv_priority_OF_VERSION_1_3_exact [x_proved]: "x_ok 2 loci_validate_of_bsn_tlv_priority_OF_VERSION_1_3"
  unfolding loci_validate_of_bsn_tlv_priority_OF_VERSION_1_3_def by (intro x_intro; simp add: x_proved x_ok_imp_kx_ok)

definition loci_validate_of_bsn_tlv_queue_id_OF_VERSION_1_3 :: validator where
  "loci_validate_of_bsn_tlv_queue_id_OF_VERSION_1_3 =
     v_min 8 (v_set_len 8 (v_wire_len 2 8 v_done))"

lemma loci_validate_of_bsn_tlv_queue_id_OF_VERSION_1_3_ok [v_proved]: "v_ok loci_validate_of_bsn_tlv_queue_id_OF_VERSION_1_3"
  unfolding loci_validate_of_bsn_tlv_queue_id_OF_VERSION_1_3_def by (intro v_intro; simp add: v_proved v_ok_imp_k_ok)

lemma loci_validate_of_bsn_tlv_queue_id_OF_VERSION_1_3_exact [x_proved]: "x_ok 2 loci_validate_of_bsn_tlv_queue_id_OF_VERSION_1_3"
  unfolding loci_validate_of_bsn_tlv_queue_id_OF_VERSION_1_3_def by (intro x_intro; simp add: x_proved x_ok_imp_kx_ok)

definition loci_validate_of_bsn_tlv_queue_weight_OF_VERSION_1_3 :: validator where
  "loci_validate_of_bsn_tlv_queue_weight_OF_VERSION_1_3 =
     v_min 8 (v_set_len 8 (v_wire_len 2 8 v_done))"

lemma loci_validate_of_bsn_tlv_queue_weight_OF_VERSION_1_3_ok [v_proved]: "v_ok loci_validate_of_bsn_tlv_queue_weight_OF_VERSION_1_3"
  unfolding loci_validate_of_bsn_tlv_queue_weight_OF_VERSION_1_3_def by (intro v_intro; simp add: v_proved v_ok_imp_k_ok)

lemma loci_validate_of_bsn_tlv_queue_weight_OF_VERSION_1_3_exact [x_proved]: "x_ok 2 loci_validate_of_bsn_tlv_queue_weight_OF_VERSION_1_3"
  unfolding loci_validate_of_bsn_tlv_queue_weight_OF_VERSION_1_3_def by (intro x_intro; simp add: x_proved x_ok_imp_kx_ok)

definition loci_validate_of_bsn_tlv_reply_packets_OF_VERSION_1_3 :: validator where
  "loci_validate_of_bsn_tlv_reply_packets_OF_VERSION_1_3 =
     v_min 12 (v_set_len 12 (v_wire_len 2 12 v_done))"

lemma loci_validate_of_bsn_tlv_reply_packets_OF_VERSION_1_3_ok [v_proved]: "v_ok loci_validate_of_bsn_tlv_reply_packets_OF_VERSION_1_3"
  unfolding loci_validate_of_bsn_tlv_reply_packets_OF_VERSION_1_3_def by (intro v_intro; simp add: v_proved v_ok_imp_k_ok)

lemma loci_validate_of_bsn_tlv_reply_packets_OF_VERSION_1_3_exact [x_proved]: "x_ok 2 loci_validate_of_bsn_tlv_reply_packets_OF_VERSION_1_3"
  unfolding loci_validate_of_bsn_tlv_reply_packets_OF_VERSION_1_3_def by (intro x_intro; simp add: x_proved x_ok_imp_kx_ok)

definition loci_validate_of_bsn_tlv_request_packets_OF_VERSION_1_3 :: validator where
  "loci_validate_of_bsn_tlv_request_packets_OF_VERSION_1_3 =
     v_min 12 (v_set_len 12 (v_wire_len 2 12 v_done))"

lemma loci_validate_of_bsn_tlv_request_packets_OF_VERSION_1_3_ok [v_proved]: "v_ok loci_validate_of_bsn_tlv_request_packets_OF_VERSION_1_3"
  unfolding loci_validate_of_bsn_tlv_request_packets_OF_VERSION_1_3_def by (intro v_intro; simp add: v_proved v_ok_imp_k_ok)

lemma loci_validate_of_bsn_tlv_request_packets_OF_VERSION_1_3_exact [x_proved]: "x_ok 2 loci_validate_of_bsn_tlv_request_packets_OF_VERSION_1_3"
  unfolding loci_validate_of_bsn_tlv_request_packets_OF_VERSION_1_3_def by (intro x_intro; simp add: x_proved x_ok_imp_kx_ok)

definition loci_validate_of_bsn_tlv_rx_bytes_OF_VERSION_1_3 :: validator where
  "loci_validate_of_bsn_tlv_rx_bytes_OF_VERSION_1_3 =
     v_min 12 (v_set_len 12 (v_wire_len 2 12 v_done))"

lemma loci_validate_of_bsn_tlv_rx_bytes_OF_VERSION_1_3_ok [v_proved]: "v_ok loci_validate_of_bsn_tlv_rx_bytes_OF_VERSION_1_3"
  unfolding loci_validate_of_bsn_tlv_rx_bytes_OF_VERSION_1_3_def by (intro v_intro; simp add: v_proved v_ok_imp_k_ok)

lemma loci_validate_of_bsn_tlv_rx_bytes_OF_VERSION_1_3_exact [x_proved]: "x_ok 2 loci_validate_of_bsn_tlv_rx_bytes_OF_VERSION_1_3"
  unfolding loci_validate_of_bsn_tlv_rx_bytes_OF_VERSION_1_3_def by (intro x_intro; simp add: x_proved x_ok_imp_kx_ok)

definition loci_validate_of_bsn_tlv_rx_packets_OF_VERSION_1_3 :: validator where
  "loci_validate_of_bsn_tlv_rx_packets_OF_VERSION_1_3 =
     v_min 12 (v_set_len 12 (v_wire_len 2 12 v_done))"

lemma loci_validate_of_bsn_tlv_rx_packets_OF_VERSION_1_3_ok [v_proved]: "v_ok loci_validate_of_bsn_tlv_rx_packets_OF_VERSION_1_3"
  unfolding loci_validate_of_bsn_tlv_rx_packets_OF_VERSION_1_3_def by (intro v_intro; simp add: v_proved v_ok_imp_k_ok)

lemma loci_validate_of_bsn_tlv_rx_packets_OF_VERSION_1_3_exact [x_proved]: "x_ok 2 loci_validate_of_bsn_tlv_rx_packets_OF_VERSION_1_3"
  unfolding loci_validate_of_bsn_tlv_rx_packets_OF_VERSION_1_3_def by (intro x_intro; simp add: x_proved x_ok_imp_kx_ok)

definition loci_validate_of_bsn_tlv_sampling_rate_OF_VERSION_1_3 :: validator where
  "loci_validate_of_bsn_tlv_sampling_rate_OF_VERSION_1_3 =
     v_min 8 (v_set_len 8 (v_wire_len 2 8 v_done))"

lemma loci_validate_of_bsn_tlv_sampling_rate_OF_VERSION_1_3_ok [v_proved]: "v_ok loci_validate_of_bsn_tlv_sampling_rate_OF_VERSION_1_3"
  unfolding loci_validate_of_bsn_tlv_sampling_rate_OF_VERSION_1_3_def by (intro v_intro; simp add: v_proved v_ok_imp_k_ok)

lemma loci_validate_of_bsn_tlv_sampling_rate_OF_VERSION_1_3_exact [x_proved]: "x_ok 2 loci_validate_of_bsn_tlv_sampling_rate_OF_VERSION_1_3"
  unfolding loci_validate_of_bsn_tlv_sampling_rate_OF_VERSION_1_3_def by (intro x_intro; simp add: x_proved x_ok_imp_kx_ok)

definition loci_validate_of_bsn_tlv_set_loopback_mode_OF_VERSION_1_3 :: validator where
  "loci_validate_of_bsn_tlv_set_loopback_mode_OF_VERSION_1_3 =
     v_min 4 (v_set_len 4 (v_wire_len 2 4 v_done))"

lemma loci_validate_of_bsn_tlv_set_loopback_mode_OF_VERSION_1_3_ok [v_proved]: "v_ok loci_validate_of_bsn_tlv_set_loopback_mode_OF_VERSION_1_3"
  unfolding loci_validate_of_bsn_tlv_set_loopback_mode_OF_VERSION_1_3_def by (intro v_intro; simp add: v_proved v_ok_imp_k_ok)

lemma loci_validate_of_bsn_tlv_set_loopback_mode_OF_VERSION_1_3_exact [x_proved]: "x_ok 2 loci_validate_of_bsn_tlv_set_loopback_mode_OF_VERSION_1_3"
  unfolding loci_validate_of_bsn_tlv_set_loopback_mode_OF_VERSION_1_3_def by (intro x_intro; simp add: x_proved x_ok_imp_kx_ok)

definition loci_validate_of_bsn_tlv_strip_mpls_l2_on_ingress_OF_VERSION_1_3 :: validator where
  "loci_validate_of_bsn_tlv_strip_mpls_l2_on_ingress_OF_VERSION_1_3 =
     v_min 4 (v_set_len 4 (v_wire_len 2 4 v_done))"

lemma loci_validate_of_bsn_tlv_strip_mpls_l2_on_ingress_OF_VERSION_1_3_ok [v_proved]: "v_ok loci_validate_of_bsn_tlv_strip_mpls_l2_on_ingress_OF_VERSION_1_3"
  unfolding loci_validate_of_bsn_tlv_strip_mpls_l2_on_ingress_OF_VERSION_1_3_def by (intro v_intro; simp add: v_proved v_ok_imp_k_ok)

lemma loci_validate_of_bsn_tlv_strip_mpls_l2_on_ingress_OF_VERSION_1_3_exact [x_proved]: "x_ok 2 loci_validate_of_bsn_tlv_strip_mpls_l2_on_ingress_OF_VERSION_1_3"
  unfolding loci_validate_of_bsn_tlv_strip_mpls_l2_on_ingress_OF_VERSION_1_3_def by (intro x_intro; simp add: x_proved x_ok_imp_kx_ok)

definition loci_validate_of_bsn_tlv_strip_mpls_l3_on_ingress_OF_VERSION_1_3 :: validator where
  "loci_validate_of_bsn_tlv_strip_mpls_l3_on_ingress_OF_VERSION_1_3 =
     v_min 4 (v_set_len 4 (v_wire_len 2 4 v_done))"

lemma loci_validate_of_bsn_tlv_strip_mpls_l3_on_ingress_OF_VERSION_1_3_ok [v_proved]: "v_ok loci_validate_of_bsn_tlv_strip_mpls_l3_on_ingress_OF_VERSION_1_3"
  unfolding loci_validate_of_bsn_tlv_strip_mpls_l3_on_ingress_OF_VERSION_1_3_def by (intro v_intro; simp add: v_proved v_ok_imp_k_ok)

lemma loci_validate_of_bsn_tlv_strip_mpls_l3_on_ingress_OF_VERSION_1_3_exact [x_proved]: "x_ok 2 loci_validate_of_bsn_tlv_strip_mpls_l3_on_ingress_OF_VERSION_1_3"
  unfolding loci_validate_of_bsn_tlv_strip_mpls_l3_on_ingress_OF_VERSION_1_3_def by (intro x_intro; simp add: x_proved x_ok_imp_kx_ok)

definition loci_validate_of_bsn_tlv_strip_vlan_on_egress_OF_VERSION_1_3 :: validator where
  "loci_validate_of_bsn_tlv_strip_vlan_on_egress_OF_VERSION_1_3 =
     v_min 4 (v_set_len 4 (v_wire_len 2 4 v_done))"

lemma loci_validate_of_bsn_tlv_strip_vlan_on_egress_OF_VERSION_1_3_ok [v_proved]: "v_ok loci_validate_of_bsn_tlv_strip_vlan_on_egress_OF_VERSION_1_3"
  unfolding loci_validate_of_bsn_tlv_strip_vlan_on_egress_OF_VERSION_1_3_def by (intro v_intro; simp add: v_proved v_ok_imp_k_ok)

lemma loci_validate_of_bsn_tlv_strip_vlan_on_egress_OF_VERSION_1_3_exact [x_proved]: "x_ok 2 loci_validate_of_bsn_tlv_strip_vlan_on_egress_OF_VERSION_1_3"
  unfolding loci_validate_of_bsn_tlv_strip_vlan_on_egress_OF_VERSION_1_3_def by (intro x_intro; simp add: x_proved x_ok_imp_kx_ok)

definition loci_validate_of_bsn_tlv_sub_agent_id_OF_VERSION_1_3 :: validator where
  "loci_validate_of_bsn_tlv_sub_agent_id_OF_VERSION_1_3 =
     v_min 8 (v_set_len 8 (v_wire_len 2 8 v_done))"

lemma loci_validate_of_bsn_tlv_sub_agent_id_OF_VERSION_1_3_ok [v_proved]: "v_ok loci_validate_of_bsn_tlv_sub_agent_id_OF_VERSION_1_3"
  unfolding loci_validate_of_bsn_tlv_sub_agent_id_OF_VERSION_1_3_def by (intro v_intro; simp add: v_proved v_ok_imp_k_ok)

lemma loci_validate_of_bsn_tlv_sub_agent_id_OF_VERSION_1_3_exact [x_proved]: "x_ok 2 loci_validate_of_bsn_tlv_sub_agent_id_OF_VERSION_1_3"
  unfolding loci_validate_of_bsn_tlv_sub_agent_id_OF_VERSION_1_3_def by (intro x_intro; simp add: x_proved x_ok_imp_kx_ok)

definition loci_validate_of_bsn_tlv_tcp_dst_OF_VERSION_1_3 :: validator where
  "loci_validate_of_bsn_tlv_tcp_dst_OF_VERSION_1_3 =
     v_min 6 (v_set_len 6 (v_wire_len 2 6 v_done))"

lemma loci_validate_of_bsn_tlv_tcp_dst_OF_VERSION_1_3_ok [v_proved]: "v_ok loci_validate_of_bsn_tlv_tcp_dst_OF_VERSION_1_3"
  unfolding loci_validate_of_bsn_tlv_tcp_dst_OF_VERSION_1_3_def by (intro v_intro; simp add: v_proved v_ok_imp_k_ok)

lemma loci_validate_of_bsn_tlv_tcp_dst_OF_VERSION_1_3_exact [x_proved]: "x_ok 2 loci_validate_of_bsn_tlv_tcp_dst_OF_VERSION_1_3"
  unfolding loci_validate_of_bsn_tlv_tcp_dst_OF_VERSION_1_3_def by (intro x_intro; simp add: x_proved x_ok_imp_kx_ok)

definition loci_validate_of_bsn_tlv_tcp_src_OF_VERSION_1_3 :: validator where
  "loci_validate_of_bsn_tlv_tcp_src_OF_VERSION_1_3 =
     v_min 6 (v_set_len 6 (v_wire_len 2 6 v_done))"

lemma loci_validate_of_bsn_tlv_tcp_src_OF_VERSION_1_3_ok [v_proved]: "v_ok loci_validate_of_bsn_tlv_tcp_src_OF_VERSION_1_3"
  unfolding loci_validate_of_bsn_tlv_tcp_src_OF_VERSION_1_3_def by (intro v_intro; simp add: v_proved v_ok_imp_k_ok)

lemma loci_validate_of_bsn_tlv_tcp_src_OF_VERSION_1_3_exact [x_proved]: "x_ok 2 loci_validate_of_bsn_tlv_tcp_src_OF_VERSION_1_3"
  unfolding loci_validate_of_bsn_tlv_tcp_src_OF_VERSION_1_3_def by (intro x_intro; simp add: x_proved x_ok_imp_kx_ok)

definition loci_validate_of_bsn_tlv_tx_bytes_OF_VERSION_1_3 :: validator where
  "loci_validate_of_bsn_tlv_tx_bytes_OF_VERSION_1_3 =
     v_min 12 (v_set_len 12 (v_wire_len 2 12 v_done))"

lemma loci_validate_of_bsn_tlv_tx_bytes_OF_VERSION_1_3_ok [v_proved]: "v_ok loci_validate_of_bsn_tlv_tx_bytes_OF_VERSION_1_3"
  unfolding loci_validate_of_bsn_tlv_tx_bytes_OF_VERSION_1_3_def by (intro v_intro; simp add: v_proved v_ok_imp_k_ok)

lemma loci_validate_of_bsn_tlv_tx_bytes_OF_VERSION_1_3_exact [x_proved]: "x_ok 2 loci_validate_of_bsn_tlv_tx_bytes_OF_VERSION_1_3"
  unfolding loci_validate_of_bsn_tlv_tx_bytes_OF_VERSION_1_3_def by (intro x_intro; simp add: x_proved x_ok_imp_kx_ok)

definition loci_validate_of_bsn_tlv_tx_packets_OF_VERSION_1_3 :: validator where
  "loci_validate_of_bsn_tlv_tx_packets_OF_VERSION_1_3 =
     v_min 12 (v_set_len 12 (v_wire_len 2 12 v_done))"

lemma loci_validate_of_bsn_tlv_tx_packets_OF_VERSION_1_3_ok [v_proved]: "v_ok loci_validate_of_bsn_tlv_tx_packets_OF_VERSION_1_3"
  unfolding loci_validate_of_bsn_tlv_tx_packets_OF_VERSION_1_3_def by (intro v_intro; simp add: v_proved v_ok_imp_k_ok)

lemma loci_validate_of_bsn_tlv_tx_packets_OF_VERSION_1_3_exact [x_proved]: "x_ok 2 loci_validate_of_bsn_tlv_tx_packets_OF_VERSION_1_3"
  unfolding loci_validate_of_bsn_tlv_tx_packets_OF_VERSION_1_3_def by (intro x_intro; simp add: x_proved x_ok_imp_kx_ok)

definition loci_validate_of_bsn_tlv_udf_anchor_OF_VERSION_1_3 :: validator where
  "loci_validate_of_bsn_tlv_udf_anchor_OF_VERSION_1_3 =
     v_min 6 (v_set_len 6 (v_wire_len 2 6 v_done))"

lemma loci_validate_of_bsn_tlv_udf_anchor_OF_VERSION_1_3_ok [v_proved]: "v_ok loci_validate_of_bsn_tlv_udf_anchor_OF_VERSION_1_3"
  unfolding loci_validate_of_bsn_tlv_udf_anchor_OF_VERSION_1_3_def by (intro v_intro; simp add: v_proved v_ok_imp_k_ok)

lemma loci_validate_of_bsn_tlv_udf_anchor_OF_VERSION_1_3_exact [x_proved]: "x_ok 2 loci_validate_of_bsn_tlv_udf_anchor_OF_VERSION_1_3"
  unfolding loci_validate_of_bsn_tlv_udf_anchor_OF_VERSION_1_3_def by (intro x_intro; simp add: x_proved x_ok_imp_kx_ok)

definition loci_validate_of_bsn_tlv_udf_id_OF_VERSION_1_3 :: validator where
  "loci_validate_of_bsn_tlv_udf_id_OF_VERSION_1_3 =
     v_min 6 (v_set_len 6 (v_wire_len 2 6 v_done))"

lemma loci_validate_of_bsn_tlv_udf_id_OF_VERSION_1_3_ok [v_proved]: "v_ok loci_validate_of_bsn_tlv_udf_id_OF_VERSION_1_3"
  unfolding loci_validate_of_bsn_tlv_udf_id_OF_VERSION_1_3_def by (intro v_intro; simp add: v_proved v_ok_imp_k_ok)

lemma loci_validate_of_bsn_tlv_udf_id_OF_VERSION_1_3_exact [x_proved]: "x_ok 2 loci_validate_of_bsn_tlv_udf_id_OF_VERSION_1_3"
  unfolding loci_validate_of_bsn_tlv_udf_id_OF_VERSION_1_3_def by (intro x_intro; simp add: x_proved x_ok_imp_kx_ok)

definition loci_validate_of_bsn_tlv_udf_length_OF_VERSION_1_3 :: validator where
  "loci_validate_of_bsn_tlv_udf_length_OF_VERSION_1_3 =
     v_min 6 (v_set_len 6 (v_wire_len 2 6 v_done))"

lemma loci_validate_of_bsn_tlv_udf_length_OF_VERSION_1_3_ok [v_proved]: "v_ok loci_validate_of_bsn_tlv_udf_length_OF_VERSION_1_3"
  unfolding loci_validate_of_bsn_tlv_udf_length_OF_VERSION_1_3_def by (intro v_intro; simp add: v_proved v_ok_imp_k_ok)

lemma loci_validate_of_bsn_tlv_udf_length_OF_VERSION_1_3_exact [x_proved]: "x_ok 2 loci_validate_of_bsn_tlv_udf_length_OF_VERSION_1_3"
  unfolding loci_validate_of_bsn_tlv_udf_length_OF_VERSION_1_3_def by (intro x_intro; simp add: x_proved x_ok_imp_kx_ok)

definition loci_validate_of_bsn_tlv_udf_offset_OF_VERSION_1_3 :: validator where
  "loci_validate_of_bsn_tlv_udf_offset_OF_VERSION_1_3 =
     v_min 6 (v_set_len 6 (v_wire_len 2 6 v_done))"

lemma loci_validate_of_bsn_tlv_udf_offset_OF_VERSION_1_3_ok [v_proved]: "v_ok loci_validate_of_bsn_tlv_udf_offset_OF_VERSION_1_3"
  unfolding loci_validate_of_bsn_tlv_udf_offset_OF_VERSION_1_3_def by (intro v_intro; simp add: v_proved v_ok_imp_k_ok)

lemma loci_validate_of_bsn_tlv_udf_offset_OF_VERSION_1_3_exact [x_proved]: "x_ok 2 loci_validate_of_bsn_tlv_udf_offset_OF_VERSION_1_3"
  unfolding loci_validate_of_bsn_tlv_udf_offset_OF_VERSION_1_3_def by (intro x_intro; simp add: x_proved x_ok_imp_kx_ok)

definition loci_validate_of_bsn_tlv_udp_dst_OF_VERSION_1_3 :: validator where
  "loci_validate_of_bsn_tlv_udp_dst_OF_VERSION_1_3 =
     v_min 6 (v_set_len 6 (v_wire_len 2 6 v_done))"

lemma loci_validate_of_bsn_tlv_udp_dst_OF_VERSION_1_3_ok [v_proved]: "v_ok loci_validate_of_bsn_tlv_udp_dst_OF_VERSION_1_3"
  unfolding loci_validate_of_bsn_tlv_udp_dst_OF_VERSION_1_3_def by (intro v_intro; simp add: v_proved v_ok_imp_k_ok)

lemma loci_validate_of_bsn_tlv_udp_dst_OF_VERSION_1_3_exact [x_proved]: "x_ok 2 loci_validate_of_bsn_tlv_udp_dst_OF_VERSION_1_3"
  unfolding loci_validate_of_bsn_tlv_udp_dst_OF_VERSION_1_3_def by (intro x_intro; simp add: x_proved x_ok_imp_kx_ok)

definition loci_validate_of_bsn_tlv_udp_src_OF_VERSION_1_3 :: validator where
  "loci_validate_of_bsn_tlv_udp_src_OF_VERSION_1_3 =
     v_min 6 (v_set_len 6 (v_wire_len 2 6 v_done))"

lemma loci_validate_of_bsn_tlv_udp_src_OF_VERSION_1_3_ok [v_proved]: "v_ok loci_validate_of_bsn_tlv_udp_src_OF_VERSION_1_3"
  unfolding loci_validate_of_bsn_tlv_udp_src_OF_VERSION_1_3_def by (intro v_intro; simp add: v_proved v_ok_imp_k_ok)

lemma loci_validate_of_bsn_tlv_udp_src_OF_VERSION_1_3_exact [x_proved]: "x_ok 2 loci_validate_of_bsn_tlv_udp_src_OF_VERSION_1_3"
  unfolding loci_validate_of_bsn_tlv_udp_src_OF_VERSION_1_3_def by (intro x_intro; simp add: x_proved x_ok_imp_kx_ok)

definition loci_validate_of_bsn_tlv_unicast_query_timeout_OF_VERSION_1_3 :: validator where
  "loci_validate_of_bsn_tlv_unicast_query_timeout_OF_VERSION_1_3 =
     v_min 8 (v_set_len 8 (v_wire_len 2 8 v_done))"

lemma loci_validate_of_bsn_tlv_unicast_query_timeout_OF_VERSION_1_3_ok [v_proved]: "v_ok loci_validate_of_bsn_tlv_unicast_query_timeout_OF_VERSION_1_3"
  unfolding loci_validate_of_bsn_tlv_unicast_query_timeout_OF_VERSION_1_3_def by (intro v_intro; simp add: v_proved v_ok_imp_k_ok)

lemma loci_validate_of_bsn_tlv_unicast_query_timeout_OF_VERSION_1_3_exact [x_proved]: "x_ok 2 loci_validate_of_bsn_tlv_unicast_query_timeout_OF_VERSION_1_3"
  unfolding loci_validate_of_bsn_tlv_unicast_query_timeout_OF_VERSION_1_3_def by (intro x_intro; simp add: x_proved x_ok_imp_kx_ok)

definition loci_validate_of_bsn_tlv_vlan_pcp_OF_VERSION_1_3 :: validator where
  "loci_validate_of_bsn_tlv_vlan_pcp_OF_VERSION_1_3 =
     v_min 5 (v_set_len 5 (v_wire_len 2 5 v_done))"

lemma loci_validate_of_bsn_tlv_vlan_pcp_OF_VERSION_1_3_ok [v_proved]: "v_ok loci_validate_of_bsn_tlv_vlan_pcp_OF_VERSION_1_3"
  unfolding loci_validate_of_bsn_tlv_vlan_pcp_OF_VERSION_1_3_def by (intro v_intro; simp add: v_proved v_ok_imp_k_ok)

lemma loci_validate_of_bsn_tlv_vlan_pcp_OF_VERSION_1_3_exact [x_proved]: "x_ok 2 loci_validate_of_bsn_tlv_vlan_pcp_OF_VERSION_1_3"
  unfolding loci_validate_of_bsn_tlv_vlan_pcp_OF_VERSION_1_3_def by (intro x_intro; simp add: x_proved x_ok_imp_kx_ok)

definition loci_validate_of_bsn_tlv_vlan_vid_OF_VERSION_1_3 :: validator where
  "loci_validate_of_bsn_tlv_vlan_vid_OF_VERSION_1_3 =
     v_min 6 (v_set_len 6 (v_wire_len 2 6 v_done))"

lemma loci_validate_of_bsn_tlv_vlan_vid_OF_VERSION_1_3_ok [v_proved]: "v_ok loci_validate_of_bsn_tlv_vlan_vid_OF_VERSION_1_3"
  unfolding loci_validate_of_bsn_tlv_vlan_vid_OF_VERSION_1_3_def by (intro v_intro; simp add: v_proved v_ok_imp_k_ok)

lemma loci_validate_of_bsn_tlv_vlan_vid_OF_VERSION_1_3_exact [x_proved]: "x_ok 2 loci_validate_of_bsn_tlv_vlan_vid_OF_VERSION_1_3"
  unfolding loci_validate_of_bsn_tlv_vlan_vid_OF_VERSION_1_3_def by (intro x_intro; simp add: x_proved x_ok_imp_kx_ok)

definition loci_validate_of_bsn_tlv_vrf_OF_VERSION_1_3 :: validator where
  "loci_validate_of_bsn_tlv_vrf_OF_VERSION_1_3 =
     v_min 8 (v_set_len 8 (v_wire_len 2 8 v_done))"

lemma loci_validate_of_bsn_tlv_vrf_OF_VERSION_1_3_ok [v_proved]: "v_ok loci_validate_of_bsn_tlv_vrf_OF_VERSION_1_3"
  unfolding loci_validate_of_bsn_tlv_vrf_OF_VERSION_1_3_def by (intro v_intro; simp add: v_proved v_ok_imp_k_ok)

lemma loci_validate_of_bsn_tlv_vrf_OF_VERSION_1_3_exact [x_proved]: "x_ok 2 loci_validate_of_bsn_tlv_vrf_OF_VERSION_1_3"
  unfolding loci_validate_of_bsn_tlv_vrf_OF_VERSION_1_3_def by (intro x_intro; simp add: x_proved x_ok_imp_kx_ok)

definition loci_validate_of_bsn_tlv_bucket_OF_VERSION_1_3_body :: "(byte list \<Rightarrow> int \<Rightarrow> int \<Rightarrow> bool res) \<Rightarrow> validator" where
  "loci_validate_of_bsn_tlv_bucket_OF_VERSION_1_3_body lst =
     v_min 4 (v_wire_len_set 2 4
     (v_list_rest 4 lst v_done))"

definition loci_validate_of_bsn_tlv_reference_OF_VERSION_1_3_body :: "(byte list \<Rightarrow> int \<Rightarrow> int \<Rightarrow> bool res) \<Rightarrow> validator" where
  "loci_validate_of_bsn_tlv_reference_OF_VERSION_1_3_body lst =
     v_min 6 (v_wire_len_set 2 6
     (v_list_rest 6 lst v_done))"

definition loci_validate_of_bsn_tlv_OF_VERSION_1_3_body :: "validator \<Rightarrow> validator" where
  "loci_validate_of_bsn_tlv_OF_VERSION_1_3_body tlv =
     v_min 4 (v_wire_len_set 2 4
     (v_switch16 0
      [(0x2c, loci_validate_of_bsn_tlv_actor_key_OF_VERSION_1_3),
       (0x2b, loci_validate_of_bsn_tlv_actor_port_num_OF_VERSION_1_3),
       (0x2a, loci_validate_of_bsn_tlv_actor_port_priority_OF_VERSION_1_3),
       (0x35, loci_validate_of_bsn_tlv_actor_state_OF_VERSION_1_3),
       (0x29, loci_validate_of_bsn_tlv_actor_system_mac_OF_VERSION_1_3),
       (0x28, loci_validate_of_bsn_tlv_actor_system_priority_OF_VERSION_1_3),
       (0xa, loci_validate_of_bsn_tlv_broadcast_query_timeout_OF_VERSION_1_3),
       (0x40, loci_validate_of_bsn_tlv_bucket_OF_VERSION_1_3_body (v_list tlv)),
       (0xe, loci_validate_of_bsn_tlv_circuit_id_OF_VERSION_1_3),
       (0x2d, loci_validate_of_bsn_tlv_convergence_status_OF_VERSION_1_3),
       (0x16, loci_validate_of_bsn_tlv_crc_enabled_OF_VERSION_1_3),
       (0x37, loci_validate_of_bsn_tlv_data_OF_VERSION_1_3),
       (0x21, loci_validate_of_bsn_tlv_eth_dst_OF_VERSION_1_3),
       (0x20, loci_validate_of_bsn_tlv_eth_src_OF_VERSION_1_3),
       (0x1a, loci_validate_of_bsn_tlv_external_gateway_ip_OF_VERSION_1_3),
       (0x1d, loci_validate_of_bsn_tlv_external_gateway_mac_OF_VERSION_1_3),
       (0x17, loci_validate_of_bsn_tlv_external_ip_OF_VERSION_1_3),
       (0x18, loci_validate_of_bsn_tlv_external_mac_OF_VERSION_1_3),
       (0x19, loci_validate_of_bsn_tlv_external_netmask_OF_VERSION_1_3),
       (0x1f, loci_validate_of_bsn_tlv_header_size_OF_VERSION_1_3),
       (0x45, loci_validate_of_bsn_tlv_icmp_code_OF_VERSION_1_3),
       (0x46, loci_validate_of_bsn_tlv_icmp_id_OF_VERSION_1_3),
       (0x44, loci_validate_of_bsn_tlv_icmp_type_OF_VERSION_1_3),
       (7, loci_validate_of_bsn_tlv_idle_notification_OF_VERSION_1_3),
       (5, loci_validate_of_bsn_tlv_idle_time_OF_VERSION_1_3),
       (8, loci_validate_of_bsn_tlv_idle_timeout_OF_VERSION_1_3),
       (0x1c, loci_validate_of_bsn_tlv_internal_gateway_mac_OF_VERSION_1_3),
       (0x1b, loci_validate_of_bsn_tlv_internal_mac_OF_VERSION_1_3),
       (0x3a, loci_validate_of_bsn_tlv_interval_OF_VERSION_1_3),
       (0x43, loci_validate_of_bsn_tlv_ip_proto_OF_VERSION_1_3),
       (4, loci_validate_of_bsn_tlv_ipv4_OF_VERSION_1_3),
       (0x23, loci_validate_of_bsn_tlv_ipv4_dst_OF_VERSION_1_3),
       (0x3c, loci_validate_of_bsn_tlv_ipv4_netmask_OF_VERSION_1_3),
       (0x22, loci_validate_of_bsn_tlv_ipv4_src_OF_VERSION_1_3),
       (1, loci_validate_of_bsn_tlv_mac_OF_VERSION_1_3),
       (0x38, loci_validate_of_bsn_tlv_mac_mask_OF_VERSION_1_3),
       (0xd, loci_validate_of_bsn_tlv_miss_packets_OF_VERSION_1_3),
       (0x3e, loci_validate_of_bsn_tlv_mpls_control_word_OF_VERSION_1_3),
       (0x3d, loci_validate_of_bsn_tlv_mpls_label_OF_VERSION_1_3),
       (0x3f, loci_validate_of_bsn_tlv_mpls_sequenced_OF_VERSION_1_3),
       (0x34, loci_validate_of_bsn_tlv_name_OF_VERSION_1_3),
       (0x33, loci_validate_of_bsn_tlv_partner_key_OF_VERSION_1_3),
       (0x32, loci_validate_of_bsn_tlv_partner_port_num_OF_VERSION_1_3),
       (0x31, loci_validate_of_bsn_tlv_partner_port_priority_OF_VERSION_1_3),
       (0x36, loci_validate_of_bsn_tlv_partner_state_OF_VERSION_1_3),
       (0x30, loci_validate_of_bsn_tlv_partner_system_mac_OF_VERSION_1_3),
       (0x2f, loci_validate_of_bsn_tlv_partner_system_priority_OF_VERSION_1_3),
       (0, loci_validate_of_bsn_tlv_port_OF_VERSION_1_3),
       (0x39, loci_validate_of_bsn_tlv_priority_OF_VERSION_1_3),
       (0x14, loci_validate_of_bsn_tlv_queue_id_OF_VERSION_1_3),
       (0x15, loci_validate_of_bsn_tlv_queue_weight_OF_VERSION_1_3),
       (0x3b, loci_validate_of_bsn_tlv_reference_OF_VERSION_1_3_body (v_list tlv)),
       (0xc, loci_validate_of_bsn_tlv_reply_packets_OF_VERSION_1_3),
       (0xb, loci_validate_of_bsn_tlv_request_packets_OF_VERSION_1_3),
       (0x47, loci_validate_of_bsn_tlv_rx_bytes_OF_VERSION_1_3),
       (2, loci_validate_of_bsn_tlv_rx_packets_OF_VERSION_1_3),
       (0x1e, loci_validate_of_bsn_tlv_sampling_rate_OF_VERSION_1_3),
       (0x4a, loci_validate_of_bsn_tlv_set_loopback_mode_OF_VERSION_1_3),
       (0x4b, loci_validate_of_bsn_tlv_strip_mpls_l2_on_ingress_OF_VERSION_1_3),
       (0x4c, loci_validate_of_bsn_tlv_strip_mpls_l3_on_ingress_OF_VERSION_1_3),
       (0x49, loci_validate_of_bsn_tlv_strip_vlan_on_egress_OF_VERSION_1_3),
       (0x26, loci_validate_of_bsn_tlv_sub_agent_id_OF_VERSION_1_3),
       (0x42, loci_validate_of_bsn_tlv_tcp_dst_OF_VERSION_1_3),
       (0x41, loci_validate_of_bsn_tlv_tcp_src_OF_VERSION_1_3),
       (0x27, loci_validate_of_bsn_tlv_tx_bytes_OF_VERSION_1_3),
       (3, loci_validate_of_bsn_tlv_tx_packets_OF_VERSION_1_3),
       (0x10, loci_validate_of_bsn_tlv_udf_anchor_OF_VERSION_1_3),
       (0xf, loci_validate_of_bsn_tlv_udf_id_OF_VERSION_1_3),
       (0x12, loci_validate_of_bsn_tlv_udf_length_OF_VERSION_1_3),
       (0x11, loci_validate_of_bsn_tlv_udf_offset_OF_VERSION_1_3),
       (0x25, loci_validate_of_bsn_tlv_udp_dst_OF_VERSION_1_3),
       (0x24, loci_validate_of_bsn_tlv_udp_src_OF_VERSION_1_3),
       (9, loci_validate_of_bsn_tlv_unicast_query_timeout_OF_VERSION_1_3),
       (0x48, loci_validate_of_bsn_tlv_vlan_pcp_OF_VERSION_1_3),
       (6, loci_validate_of_bsn_tlv_vlan_vid_OF_VERSION_1_3),
       (0x13, loci_validate_of_bsn_tlv_vrf_OF_VERSION_1_3)]
     v_done))"

lemma loci_validate_of_bsn_tlv_bucket_OF_VERSION_1_3_body_ok: "l_ok lst \<Longrightarrow> v_ok (loci_validate_of_bsn_tlv_bucket_OF_VERSION_1_3_body lst)"
  unfolding loci_validate_of_bsn_tlv_bucket_OF_VERSION_1_3_body_def by (intro v_intro; simp add: v_proved v_ok_imp_k_ok)

lemma loci_validate_of_bsn_tlv_reference_OF_VERSION_1_3_body_ok: "l_ok lst \<Longrightarrow> v_ok (loci_validate_of_bsn_tlv_reference_OF_VERSION_1_3_body lst)"
  unfolding loci_validate_of_bsn_tlv_reference_OF_VERSION_1_3_body_def by (intro v_intro; simp add: v_proved v_ok_imp_k_ok)

lemma loci_validate_of_bsn_tlv_bucket_OF_VERSION_1_3_body_exact: "x_ok 2 (loci_validate_of_bsn_tlv_bucket_OF_VERSION_1_3_body lst)"
  unfolding loci_validate_of_bsn_tlv_bucket_OF_VERSION_1_3_body_def by (intro x_intro; simp add: x_proved x_ok_imp_kx_ok)

lemma loci_validate_of_bsn_tlv_reference_OF_VERSION_1_3_body_exact: "x_ok 2 (loci_validate_of_bsn_tlv_reference_OF_VERSION_1_3_body lst)"
  unfolding loci_validate_of_bsn_tlv_reference_OF_VERSION_1_3_body_def by (intro x_intro; simp add: x_proved x_ok_imp_kx_ok)

lemma loci_validate_of_bsn_tlv_bucket_OF_VERSION_1_3_body_agree:
  "agree (m + 4) (loci_validate_of_bsn_tlv_bucket_OF_VERSION_1_3_body (v_list (clip m tlv))) (loci_validate_of_bsn_tlv_bucket_OF_VERSION_1_3_body (v_list tlv))"
  unfolding loci_validate_of_bsn_tlv_bucket_OF_VERSION_1_3_body_def by (intro a_intro; simp)

lemma loci_validate_of_bsn_tlv_reference_OF_VERSION_1_3_body_agree:
  "agree (m + 4) (loci_validate_of_bsn_tlv_reference_OF_VERSION_1_3_body (v_list (clip m tlv))) (loci_validate_of_bsn_tlv_reference_OF_VERSION_1_3_body (v_list tlv))"
  unfolding loci_validate_of_bsn_tlv_reference_OF_VERSION_1_3_body_def by (intro a_intro; simp)

lemma l_ok_of_element_1_3: "v_ok e \<Longrightarrow> l_ok (v_list e)"
  by (rule list_element.l_ok_list) unfold_locales

lemma loci_validate_of_bsn_tlv_OF_VERSION_1_3_body_ok: "v_ok e \<Longrightarrow> v_ok (loci_validate_of_bsn_tlv_OF_VERSION_1_3_body e)"
  unfolding loci_validate_of_bsn_tlv_OF_VERSION_1_3_body_def
  by (intro v_intro; simp add: v_proved v_ok_imp_k_ok loci_validate_of_bsn_tlv_bucket_OF_VERSION_1_3_body_ok loci_validate_of_bsn_tlv_reference_OF_VERSION_1_3_body_ok l_ok_of_element_1_3)

lemma loci_validate_of_bsn_tlv_OF_VERSION_1_3_body_agree: "agree (m + 4) (loci_validate_of_bsn_tlv_OF_VERSION_1_3_body (clip m e)) (loci_validate_of_bsn_tlv_OF_VERSION_1_3_body e)"
  unfolding loci_validate_of_bsn_tlv_OF_VERSION_1_3_body_def by (intro a_intro; simp add: loci_validate_of_bsn_tlv_bucket_OF_VERSION_1_3_body_agree loci_validate_of_bsn_tlv_reference_OF_VERSION_1_3_body_agree)

interpretation tlv_rec_1_3: recursive_validator loci_validate_of_bsn_tlv_OF_VERSION_1_3_body
  by unfold_locales (rule loci_validate_of_bsn_tlv_OF_VERSION_1_3_body_ok, assumption, rule loci_validate_of_bsn_tlv_OF_VERSION_1_3_body_agree)

definition loci_validate_of_bsn_tlv_OF_VERSION_1_3 :: validator where
  "loci_validate_of_bsn_tlv_OF_VERSION_1_3 = v_rec loci_validate_of_bsn_tlv_OF_VERSION_1_3_body"

lemma loci_validate_of_bsn_tlv_OF_VERSION_1_3_ok [v_proved]: "v_ok loci_validate_of_bsn_tlv_OF_VERSION_1_3"
  unfolding loci_validate_of_bsn_tlv_OF_VERSION_1_3_def by (rule tlv_rec_1_3.rec_ok)

definition loci_validate_of_list_bsn_tlv_OF_VERSION_1_3 :: "byte list \<Rightarrow> int \<Rightarrow> int \<Rightarrow> bool res" where
  "loci_validate_of_list_bsn_tlv_OF_VERSION_1_3 = v_list loci_validate_of_bsn_tlv_OF_VERSION_1_3"

interpretation bsn_tlv_1_3_list: list_element loci_validate_of_bsn_tlv_OF_VERSION_1_3
  by unfold_locales (rule loci_validate_of_bsn_tlv_OF_VERSION_1_3_ok)

lemma loci_validate_of_list_bsn_tlv_OF_VERSION_1_3_ok [v_proved]: "l_ok loci_validate_of_list_bsn_tlv_OF_VERSION_1_3"
  unfolding loci_validate_of_list_bsn_tlv_OF_VERSION_1_3_def by (rule bsn_tlv_1_3_list.l_ok_list)

definition loci_validate_of_bsn_tlv_bucket_OF_VERSION_1_3 :: validator where
  "loci_validate_of_bsn_tlv_bucket_OF_VERSION_1_3 = loci_validate_of_bsn_tlv_bucket_OF_VERSION_1_3_body loci_validate_of_list_bsn_tlv_OF_VERSION_1_3"

lemma loci_validate_of_bsn_tlv_bucket_OF_VERSION_1_3_ok [v_proved]: "v_ok loci_validate_of_bsn_tlv_bucket_OF_VERSION_1_3"
  unfolding loci_validate_of_bsn_tlv_bucket_OF_VERSION_1_3_def by (rule loci_validate_of_bsn_tlv_bucket_OF_VERSION_1_3_body_ok [OF loci_validate_of_list_bsn_tlv_OF_VERSION_1_3_ok])

lemma loci_validate_of_bsn_tlv_bucket_OF_VERSION_1_3_exact [x_proved]: "x_ok 2 loci_validate_of_bsn_tlv_bucket_OF_VERSION_1_3"
  unfolding loci_validate_of_bsn_tlv_bucket_OF_VERSION_1_3_def by (rule loci_validate_of_bsn_tlv_bucket_OF_VERSION_1_3_body_exact)

definition loci_validate_of_bsn_tlv_reference_OF_VERSION_1_3 :: validator where
  "loci_validate_of_bsn_tlv_reference_OF_VERSION_1_3 = loci_validate_of_bsn_tlv_reference_OF_VERSION_1_3_body loci_validate_of_list_bsn_tlv_OF_VERSION_1_3"

lemma loci_validate_of_bsn_tlv_reference_OF_VERSION_1_3_ok [v_proved]: "v_ok loci_validate_of_bsn_tlv_reference_OF_VERSION_1_3"
  unfolding loci_validate_of_bsn_tlv_reference_OF_VERSION_1_3_def by (rule loci_validate_of_bsn_tlv_reference_OF_VERSION_1_3_body_ok [OF loci_validate_of_list_bsn_tlv_OF_VERSION_1_3_ok])

lemma loci_validate_of_bsn_tlv_reference_OF_VERSION_1_3_exact [x_proved]: "x_ok 2 loci_validate_of_bsn_tlv_reference_OF_VERSION_1_3"
  unfolding loci_validate_of_bsn_tlv_reference_OF_VERSION_1_3_def by (rule loci_validate_of_bsn_tlv_reference_OF_VERSION_1_3_body_exact)

text \<open>The recursive validator satisfies the equation the C function states.\<close>

lemma loci_validate_of_bsn_tlv_OF_VERSION_1_3_eq:
  "loci_validate_of_bsn_tlv_OF_VERSION_1_3 =
     v_min 4 (v_wire_len_set 2 4
     (v_switch16 0
      [(0x2c, loci_validate_of_bsn_tlv_actor_key_OF_VERSION_1_3),
       (0x2b, loci_validate_of_bsn_tlv_actor_port_num_OF_VERSION_1_3),
       (0x2a, loci_validate_of_bsn_tlv_actor_port_priority_OF_VERSION_1_3),
       (0x35, loci_validate_of_bsn_tlv_actor_state_OF_VERSION_1_3),
       (0x29, loci_validate_of_bsn_tlv_actor_system_mac_OF_VERSION_1_3),
       (0x28, loci_validate_of_bsn_tlv_actor_system_priority_OF_VERSION_1_3),
       (0xa, loci_validate_of_bsn_tlv_broadcast_query_timeout_OF_VERSION_1_3),
       (0x40, loci_validate_of_bsn_tlv_bucket_OF_VERSION_1_3),
       (0xe, loci_validate_of_bsn_tlv_circuit_id_OF_VERSION_1_3),
       (0x2d, loci_validate_of_bsn_tlv_convergence_status_OF_VERSION_1_3),
       (0x16, loci_validate_of_bsn_tlv_crc_enabled_OF_VERSION_1_3),
       (0x37, loci_validate_of_bsn_tlv_data_OF_VERSION_1_3),
       (0x21, loci_validate_of_bsn_tlv_eth_dst_OF_VERSION_1_3),
       (0x20, loci_validate_of_bsn_tlv_eth_src_OF_VERSION_1_3),
       (0x1a, loci_validate_of_bsn_tlv_external_gateway_ip_OF_VERSION_1_3),
       (0x1d, loci_validate_of_bsn_tlv_external_gateway_mac_OF_VERSION_1_3),
       (0x17, loci_validate_of_bsn_tlv_external_ip_OF_VERSION_1_3),
       (0x18, loci_validate_of_bsn_tlv_external_mac_OF_VERSION_1_3),
       (0x19, loci_validate_of_bsn_tlv_external_netmask_OF_VERSION_1_3),
       (0x1f, loci_validate_of_bsn_tlv_header_size_OF_VERSION_1_3),
       (0x45, loci_validate_of_bsn_tlv_icmp_code_OF_VERSION_1_3),
       (0x46, loci_validate_of_bsn_tlv_icmp_id_OF_VERSION_1_3),
       (0x44, loci_validate_of_bsn_tlv_icmp_type_OF_VERSION_1_3),
       (7, loci_validate_of_bsn_tlv_idle_notification_OF_VERSION_1_3),
       (5, loci_validate_of_bsn_tlv_idle_time_OF_VERSION_1_3),
       (8, loci_validate_of_bsn_tlv_idle_timeout_OF_VERSION_1_3),
       (0x1c, loci_validate_of_bsn_tlv_internal_gateway_mac_OF_VERSION_1_3),
       (0x1b, loci_validate_of_bsn_tlv_internal_mac_OF_VERSION_1_3),
       (0x3a, loci_validate_of_bsn_tlv_interval_OF_VERSION_1_3),
       (0x43, loci_validate_of_bsn_tlv_ip_proto_OF_VERSION_1_3),
       (4, loci_validate_of_bsn_tlv_ipv4_OF_VERSION_1_3),
       (0x23, loci_validate_of_bsn_tlv_ipv4_dst_OF_VERSION_1_3),
       (0x3c, loci_validate_of_bsn_tlv_ipv4_netmask_OF_VERSION_1_3),
       (0x22, loci_validate_of_bsn_tlv_ipv4_src_OF_VERSION_1_3),
       (1, loci_validate_of_bsn_tlv_mac_OF_VERSION_1_3),
       (0x38, loci_validate_of_bsn_tlv_mac_mask_OF_VERSION_1_3),
       (0xd, loci_validate_of_bsn_tlv_miss_packets_OF_VERSION_1_3),
       (0x3e, loci_validate_of_bsn_tlv_mpls_control_word_OF_VERSION_1_3),
       (0x3d, loci_validate_of_bsn_tlv_mpls_label_OF_VERSION_1_3),
       (0x3f, loci_validate_of_bsn_tlv_mpls_sequenced_OF_VERSION_1_3),
       (0x34, loci_validate_of_bsn_tlv_name_OF_VERSION_1_3),
       (0x33, loci_validate_of_bsn_tlv_partner_key_OF_VERSION_1_3),
       (0x32, loci_validate_of_bsn_tlv_partner_port_num_OF_VERSION_1_3),
       (0x31, loci_validate_of_bsn_tlv_partner_port_priority_OF_VERSION_1_3),
       (0x36, loci_validate_of_bsn_tlv_partner_state_OF_VERSION_1_3),
       (0x30, loci_validate_of_bsn_tlv_partner_system_mac_OF_VERSION_1_3),
       (0x2f, loci_validate_of_bsn_tlv_partner_system_priority_OF_VERSION_1_3),
       (0, loci_validate_of_bsn_tlv_port_OF_VERSION_1_3),
       (0x39, loci_validate_of_bsn_tlv_priority_OF_VERSION_1_3),
       (0x14, loci_validate_of_bsn_tlv_queue_id_OF_VERSION_1_3),
       (0x15, loci_validate_of_bsn_tlv_queue_weight_OF_VERSION_1_3),
       (0x3b, loci_validate_of_bsn_tlv_reference_OF_VERSION_1_3),
       (0xc, loci_validate_of_bsn_tlv_reply_packets_OF_VERSION_1_3),
       (0xb, loci_validate_of_bsn_tlv_request_packets_OF_VERSION_1_3),
       (0x47, loci_validate_of_bsn_tlv_rx_bytes_OF_VERSION_1_3),
       (2, loci_validate_of_bsn_tlv_rx_packets_OF_VERSION_1_3),
       (0x1e, loci_validate_of_bsn_tlv_sampling_rate_OF_VERSION_1_3),
       (0x4a, loci_validate_of_bsn_tlv_set_loopback_mode_OF_VERSION_1_3),
       (0x4b, loci_validate_of_bsn_tlv_strip_mpls_l2_on_ingress_OF_VERSION_1_3),
       (0x4c, loci_validate_of_bsn_tlv_strip_mpls_l3_on_ingress_OF_VERSION_1_3),
       (0x49, loci_validate_of_bsn_tlv_strip_vlan_on_egress_OF_VERSION_1_3),
       (0x26, loci_validate_of_bsn_tlv_sub_agent_id_OF_VERSION_1_3),
       (0x42, loci_validate_of_bsn_tlv_tcp_dst_OF_VERSION_1_3),
       (0x41, loci_validate_of_bsn_tlv_tcp_src_OF_VERSION_1_3),
       (0x27, loci_validate_of_bsn_tlv_tx_bytes_OF_VERSION_1_3),
       (3, loci_validate_of_bsn_tlv_tx_packets_OF_VERSION_1_3),
       (0x10, loci_validate_of_bsn_tlv_udf_anchor_OF_VERSION_1_3),
       (0xf, loci_validate_of_bsn_tlv_udf_id_OF_VERSION_1_3),
       (0x12, loci_validate_of_bsn_tlv_udf_length_OF_VERSION_1_3),
       (0x11, loci_validate_of_bsn_tlv_udf_offset_OF_VERSION_1_3),
       (0x25, loci_validate_of_bsn_tlv_udp_dst_OF_VERSION_1_3),
       (0x24, loci_validate_of_bsn_tlv_udp_src_OF_VERSION_1_3),
       (9, loci_validate_of_bsn_tlv_unicast_query_timeout_OF_VERSION_1_3),
       (0x48, loci_validate_of_bsn_tlv_vlan_pcp_OF_VERSION_1_3),
       (6, loci_validate_of_bsn_tlv_vlan_vid_OF_VERSION_1_3),
       (0x13, loci_validate_of_bsn_tlv_vrf_OF_VERSION_1_3)]
     v_done))"
  using tlv_rec_1_3.rec_unfold unfolding loci_validate_of_bsn_tlv_OF_VERSION_1_3_def [symmetric]
  unfolding loci_validate_of_bsn_tlv_OF_VERSION_1_3_body_def loci_validate_of_bsn_tlv_bucket_OF_VERSION_1_3_def loci_validate_of_bsn_tlv_reference_OF_VERSION_1_3_def loci_validate_of_list_bsn_tlv_OF_VERSION_1_3_def .

lemma loci_validate_of_bsn_tlv_OF_VERSION_1_3_exact [x_proved]: "x_ok 2 loci_validate_of_bsn_tlv_OF_VERSION_1_3"
  by (subst loci_validate_of_bsn_tlv_OF_VERSION_1_3_eq) (intro x_intro; simp add: x_proved x_ok_imp_kx_ok)

definition loci_validate_of_bsn_controller_connection_OF_VERSION_1_3 :: validator where
  "loci_validate_of_bsn_controller_connection_OF_VERSION_1_3 =
     v_min 264 (v_set_len 264 v_done)"

lemma loci_validate_of_bsn_controller_connection_OF_VERSION_1_3_ok [v_proved]: "v_ok loci_validate_of_bsn_controller_connection_OF_VERSION_1_3"
  unfolding loci_validate_of_bsn_controller_connection_OF_VERSION_1_3_def by (intro v_intro; simp add: v_proved v_ok_imp_k_ok)

definition loci_validate_of_list_bsn_controller_connection_OF_VERSION_1_3 :: "byte list \<Rightarrow> int \<Rightarrow> int \<Rightarrow> bool res" where
  "loci_validate_of_list_bsn_controller_connection_OF_VERSION_1_3 = v_list loci_validate_of_bsn_controller_connection_OF_VERSION_1_3"

interpretation bsn_controller_connection_1_3_list: list_element loci_validate_of_bsn_controller_connection_OF_VERSION_1_3
  by unfold_locales (rule loci_validate_of_bsn_controller_connection_OF_VERSION_1_3_ok)

lemma loci_validate_of_list_bsn_controller_connection_OF_VERSION_1_3_ok [v_proved]: "l_ok loci_validate_of_list_bsn_controller_connection_OF_VERSION_1_3"
  unfolding loci_validate_of_list_bsn_controller_connection_OF_VERSION_1_3_def by (rule bsn_controller_connection_1_3_list.l_ok_list)

definition loci_validate_of_bsn_debug_counter_desc_stats_entry_OF_VERSION_1_3 :: validator where
  "loci_validate_of_bsn_debug_counter_desc_stats_entry_OF_VERSION_1_3 =
     v_min 328 (v_set_len 328 v_done)"

lemma loci_validate_of_bsn_debug_counter_desc_stats_entry_OF_VERSION_1_3_ok [v_proved]: "v_ok loci_validate_of_bsn_debug_counter_desc_stats_entry_OF_VERSION_1_3"
  unfolding loci_validate_of_bsn_debug_counter_desc_stats_entry_OF_VERSION_1_3_def by (intro v_intro; simp add: v_proved v_ok_imp_k_ok)

definition loci_validate_of_list_bsn_debug_counter_desc_stats_entry_OF_VERSION_1_3 :: "byte list \<Rightarrow> int \<Rightarrow> int \<Rightarrow> bool res" where
  "loci_validate_of_list_bsn_debug_counter_desc_stats_entry_OF_VERSION_1_3 = v_list loci_validate_of_bsn_debug_counter_desc_stats_entry_OF_VERSION_1_3"

interpretation bsn_debug_counter_desc_stats_entry_1_3_list: list_element loci_validate_of_bsn_debug_counter_desc_stats_entry_OF_VERSION_1_3
  by unfold_locales (rule loci_validate_of_bsn_debug_counter_desc_stats_entry_OF_VERSION_1_3_ok)

lemma loci_validate_of_list_bsn_debug_counter_desc_stats_entry_OF_VERSION_1_3_ok [v_proved]: "l_ok loci_validate_of_list_bsn_debug_counter_desc_stats_entry_OF_VERSION_1_3"
  unfolding loci_validate_of_list_bsn_debug_counter_desc_stats_entry_OF_VERSION_1_3_def by (rule bsn_debug_counter_desc_stats_entry_1_3_list.l_ok_list)

definition loci_validate_of_bsn_debug_counter_stats_entry_OF_VERSION_1_3 :: validator where
  "loci_validate_of_bsn_debug_counter_stats_entry_OF_VERSION_1_3 =
     v_min 16 (v_set_len 16 v_done)"

lemma loci_validate_of_bsn_debug_counter_stats_entry_OF_VERSION_1_3_ok [v_proved]: "v_ok loci_validate_of_bsn_debug_counter_stats_entry_OF_VERSION_1_3"
  unfolding loci_validate_of_bsn_debug_counter_stats_entry_OF_VERSION_1_3_def by (intro v_intro; simp add: v_proved v_ok_imp_k_ok)

definition loci_validate_of_list_bsn_debug_counter_stats_entry_OF_VERSION_1_3 :: "byte list \<Rightarrow> int \<Rightarrow> int \<Rightarrow> bool res" where
  "loci_validate_of_list_bsn_debug_counter_stats_entry_OF_VERSION_1_3 = v_list loci_validate_of_bsn_debug_counter_stats_entry_OF_VERSION_1_3"

interpretation bsn_debug_counter_stats_entry_1_3_list: list_element loci_validate_of_bsn_debug_counter_stats_entry_OF_VERSION_1_3
  by unfold_locales (rule loci_validate_of_bsn_debug_counter_stats_entry_OF_VERSION_1_3_ok)

lemma loci_validate_of_list_bsn_debug_counter_stats_entry_OF_VERSION_1_3_ok [v_proved]: "l_ok loci_validate_of_list_bsn_debug_counter_stats_entry_OF_VERSION_1_3"
  unfolding loci_validate_of_list_bsn_debug_counter_stats_entry_OF_VERSION_1_3_def by (rule bsn_debug_counter_stats_entry_1_3_list.l_ok_list)

definition loci_validate_of_bsn_flow_checksum_bucket_stats_entry_OF_VERSION_1_3 :: validator where
  "loci_validate_of_bsn_flow_checksum_bucket_stats_entry_OF_VERSION_1_3 =
     v_min 8 (v_set_len 8 v_done)"

lemma loci_validate_of_bsn_flow_checksum_bucket_stats_entry_OF_VERSION_1_3_ok [v_proved]: "v_ok loci_validate_of_bsn_flow_checksum_bucket_stats_entry_OF_VERSION_1_3"
  unfolding loci_validate_of_bsn_flow_checksum_bucket_stats_entry_OF_VERSION_1_3_def by (intro v_intro; simp add: v_proved v_ok_imp_k_ok)

definition loci_validate_of_list_bsn_flow_checksum_bucket_stats_entry_OF_VERSION_1_3 :: "byte list \<Rightarrow> int \<Rightarrow> int \<Rightarrow> bool res" where
  "loci_validate_of_list_bsn_flow_checksum_bucket_stats_entry_OF_VERSION_1_3 = v_list loci_validate_of_bsn_flow_checksum_bucket_stats_entry_OF_VERSION_1_3"

interpretation bsn_flow_checksum_bucket_stats_entry_1_3_list: list_element loci_validate_of_bsn_flow_checksum_bucket_stats_entry_OF_VERSION_1_3
  by unfold_locales (rule loci_validate_of_bsn_flow_checksum_bucket_stats_entry_OF_VERSION_1_3_ok)

lemma loci_validate_of_list_bsn_flow_checksum_bucket_stats_entry_OF_VERSION_1_3_ok [v_proved]: "l_ok loci_validate_of_list_bsn_flow_checksum_bucket_stats_entry_OF_VERSION_1_3"
  unfolding loci_validate_of_list_bsn_flow_checksum_bucket_stats_entry_OF_VERSION_1_3_def by (rule bsn_flow_checksum_bucket_stats_entry_1_3_list.l_ok_list)

definition loci_validate_of_bsn_generic_stats_entry_OF_VERSION_1_3 :: validator where
  "loci_validate_of_bsn_generic_stats_entry_OF_VERSION_1_3 =
     v_min 2 (v_wire_len_set 0 2
     (v_list_rest 2 loci_validate_of_list_bsn_tlv_OF_VERSION_1_3 v_done))"

lemma loci_validate_of_bsn_generic_stats_entry_OF_VERSION_1_3_ok [v_proved]: "v_ok loci_validate_of_bsn_generic_stats_entry_OF_VERSION_1_3"
  unfolding loci_validate_of_bsn_generic_stats_entry_OF_VERSION_1_3_def by (intro v_intro; simp add: v_proved v_ok_imp_k_ok)

lemma loci_validate_of_bsn_generic_stats_entry_OF_VERSION_1_3_exact [x_proved]: "x_ok 0 loci_validate_of_bsn_generic_stats_entry_OF_VERSION_1_3"
  unfolding loci_validate_of_bsn_generic_stats_entry_OF_VERSION_1_3_def by (intro x_intro; simp add: x_proved x_ok_imp_kx_ok)

definition loci_validate_of_list_bsn_generic_stats_entry_OF_VERSION_1_3 :: "byte list \<Rightarrow> int \<Rightarrow> int \<Rightarrow> bool res" where
  "loci_validate_of_list_bsn_generic_stats_entry_OF_VERSION_1_3 = v_list loci_validate_of_bsn_generic_stats_entry_OF_VERSION_1_3"

interpretation bsn_generic_stats_entry_1_3_list: list_element loci_validate_of_bsn_generic_stats_entry_OF_VERSION_1_3
  by unfold_locales (rule loci_validate_of_bsn_generic_stats_entry_OF_VERSION_1_3_ok)

lemma loci_validate_of_list_bsn_generic_stats_entry_OF_VERSION_1_3_ok [v_proved]: "l_ok loci_validate_of_list_bsn_generic_stats_entry_OF_VERSION_1_3"
  unfolding loci_validate_of_list_bsn_generic_stats_entry_OF_VERSION_1_3_def by (rule bsn_generic_stats_entry_1_3_list.l_ok_list)

definition loci_validate_of_bsn_gentable_bucket_stats_entry_OF_VERSION_1_3 :: validator where
  "loci_validate_of_bsn_gentable_bucket_stats_entry_OF_VERSION_1_3 =
     v_min 16 (v_set_len 16 v_done)"

lemma loci_validate_of_bsn_gentable_bucket_stats_entry_OF_VERSION_1_3_ok [v_proved]: "v_ok loci_validate_of_bsn_gentable_bucket_stats_entry_OF_VERSION_1_3"
  unfolding loci_validate_of_bsn_gentable_bucket_stats_entry_OF_VERSION_1_3_def by (intro v_intro; simp add: v_proved v_ok_imp_k_ok)

definition loci_validate_of_list_bsn_gentable_bucket_stats_entry_OF_VERSION_1_3 :: "byte list \<Rightarrow> int \<Rightarrow> int \<Rightarrow> bool res" where
  "loci_validate_of_list_bsn_gentable_bucket_stats_entry_OF_VERSION_1_3 = v_list loci_validate_of_bsn_gentable_bucket_stats_entry_OF_VERSION_1_3"

interpretation bsn_gentable_bucket_stats_entry_1_3_list: list_element loci_validate_of_bsn_gentable_bucket_stats_entry_OF_VERSION_1_3
  by unfold_locales (rule loci_validate_of_bsn_gentable_bucket_stats_entry_OF_VERSION_1_3_ok)

lemma loci_validate_of_list_bsn_gentable_bucket_stats_entry_OF_VERSION_1_3_ok [v_proved]: "l_ok loci_validate_of_list_bsn_gentable_bucket_stats_entry_OF_VERSION_1_3"
  unfolding loci_validate_of_list_bsn_gentable_bucket_stats_entry_OF_VERSION_1_3_def by (rule bsn_gentable_bucket_stats_entry_1_3_list.l_ok_list)

definition loci_validate_of_bsn_gentable_desc_stats_entry_OF_VERSION_1_3 :: validator where
  "loci_validate_of_bsn_gentable_desc_stats_entry_OF_VERSION_1_3 =
     v_min 48 (v_set_len 48 (v_wire_len 0 48 v_done))"

lemma loci_validate_of_bsn_gentable_desc_stats_entry_OF_VERSION_1_3_ok [v_proved]: "v_ok loci_validate_of_bsn_gentable_desc_stats_entry_OF_VERSION_1_3"
  unfolding loci_validate_of_bsn_gentable_desc_stats_entry_OF_VERSION_1_3_def by (intro v_intro; simp add: v_proved v_ok_imp_k_ok)

lemma loci_validate_of_bsn_gentable_desc_stats_entry_OF_VERSION_1_3_exact [x_proved]: "x_ok 0 loci_validate_of_bsn_gentable_desc_stats_entry_OF_VERSION_1_3"
  unfolding loci_validate_of_bsn_gentable_desc_stats_entry_OF_VERSION_1_3_def by (intro x_intro; simp add: x_proved x_ok_imp_kx_ok)

definition loci_validate_of_list_bsn_gentable_desc_stats_entry_OF_VERSION_1_3 :: "byte list \<Rightarrow> int \<Rightarrow> int \<Rightarrow> bool res" where
  "loci_validate_of_list_bsn_gentable_desc_stats_entry_OF_VERSION_1_3 = v_list loci_validate_of_bsn_gentable_desc_stats_entry_OF_VERSION_1_3"

interpretation bsn_gentable_desc_stats_entry_1_3_list: list_element loci_validate_of_bsn_gentable_desc_stats_entry_OF_VERSION_1_3
  by unfold_locales (rule loci_validate_of_bsn_gentable_desc_stats_entry_OF_VERSION_1_3_ok)

lemma loci_validate_of_list_bsn_gentable_desc_stats_entry_OF_VERSION_1_3_ok [v_proved]: "l_ok loci_validate_of_list_bsn_gentable_desc_stats_entry_OF_VERSION_1_3"
  unfolding loci_validate_of_list_bsn_gentable_desc_stats_entry_OF_VERSION_1_3_def by (rule bsn_gentable_desc_stats_entry_1_3_list.l_ok_list)

definition loci_validate_of_bsn_gentable_entry_desc_stats_entry_OF_VERSION_1_3 :: validator where
  "loci_validate_of_bsn_gentable_entry_desc_stats_entry_OF_VERSION_1_3 =
     v_min 20 (v_wire_len_set 0 20
     (v_list_len16 2 20 loci_validate_of_list_bsn_tlv_OF_VERSION_1_3 v_done))"

lemma loci_validate_of_bsn_gentable_entry_desc_stats_entry_OF_VERSION_1_3_ok [v_proved]: "v_ok loci_validate_of_bsn_gentable_entry_desc_stats_entry_OF_VERSION_1_3"
  unfolding loci_validate_of_bsn_gentable_entry_desc_stats_entry_OF_VERSION_1_3_def by (intro v_intro; simp add: v_proved v_ok_imp_k_ok)

lemma loci_validate_of_bsn_gentable_entry_desc_stats_entry_OF_VERSION_1_3_exact [x_proved]: "x_ok 0 loci_validate_of_bsn_gentable_entry_desc_stats_entry_OF_VERSION_1_3"
  unfolding loci_validate_of_bsn_gentable_entry_desc_stats_entry_OF_VERSION_1_3_def by (intro x_intro; simp add: x_proved x_ok_imp_kx_ok)

definition loci_validate_of_list_bsn_gentable_entry_desc_stats_entry_OF_VERSION_1_3 :: "byte list \<Rightarrow> int \<Rightarrow> int \<Rightarrow> bool res" where
  "loci_validate_of_list_bsn_gentable_entry_desc_stats_entry_OF_VERSION_1_3 = v_list loci_validate_of_bsn_gentable_entry_desc_stats_entry_OF_VERSION_1_3"

interpretation bsn_gentable_entry_desc_stats_entry_1_3_list: list_element loci_validate_of_bsn_gentable_entry_desc_stats_entry_OF_VERSION_1_3
  by unfold_locales (rule loci_validate_of_bsn_gentable_entry_desc_stats_entry_OF_VERSION_1_3_ok)

lemma loci_validate_of_list_bsn_gentable_entry_desc_stats_entry_OF_VERSION_1_3_ok [v_proved]: "l_ok loci_validate_of_list_bsn_gentable_entry_desc_stats_entry_OF_VERSION_1_3"
  unfolding loci_validate_of_list_bsn_gentable_entry_desc_stats_entry_OF_VERSION_1_3_def by (rule bsn_gentable_entry_desc_stats_entry_1_3_list.l_ok_list)

definition loci_validate_of_bsn_gentable_entry_stats_entry_OF_VERSION_1_3 :: validator where
  "loci_validate_of_bsn_gentable_entry_stats_entry_OF_VERSION_1_3 =
     v_min 4 (v_wire_len_set 0 4
     (v_list_len16 2 4 loci_validate_of_list_bsn_tlv_OF_VERSION_1_3 v_done))"

lemma loci_validate_of_bsn_gentable_entry_stats_entry_OF_VERSION_1_3_ok [v_proved]: "v_ok loci_validate_of_bsn_gentable_entry_stats_entry_OF_VERSION_1_3"
  unfolding loci_validate_of_bsn_gentable_entry_stats_entry_OF_VERSION_1_3_def by (intro v_intro; simp add: v_proved v_ok_imp_k_ok)

lemma loci_validate_of_bsn_gentable_entry_stats_entry_OF_VERSION_1_3_exact [x_proved]: "x_ok 0 loci_validate_of_bsn_gentable_entry_stats_entry_OF_VERSION_1_3"
  unfolding loci_validate_of_bsn_gentable_entry_stats_entry_OF_VERSION_1_3_def by (intro x_intro; simp add: x_proved x_ok_imp_kx_ok)

definition loci_validate_of_list_bsn_gentable_entry_stats_entry_OF_VERSION_1_3 :: "byte list \<Rightarrow> int \<Rightarrow> int \<Rightarrow> bool res" where
  "loci_validate_of_list_bsn_gentable_entry_stats_entry_OF_VERSION_1_3 = v_list loci_validate_of_bsn_gentable_entry_stats_entry_OF_VERSION_1_3"

interpretation bsn_gentable_entry_stats_entry_1_3_list: list_element loci_validate_of_bsn_gentable_entry_stats_entry_OF_VERSION_1_3
  by unfold_locales (rule loci_validate_of_bsn_gentable_entry_stats_entry_OF_VERSION_1_3_ok)

lemma loci_validate_of_list_bsn_gentable_entry_stats_entry_OF_VERSION_1_3_ok [v_proved]: "l_ok loci_validate_of_list_bsn_gentable_entry_stats_entry_OF_VERSION_1_3"
  unfolding loci_validate_of_list_bsn_gentable_entry_stats_entry_OF_VERSION_1_3_def by (rule bsn_gentable_entry_stats_entry_1_3_list.l_ok_list)

definition loci_validate_of_bsn_gentable_stats_entry_OF_VERSION_1_3 :: validator where
  "loci_validate_of_bsn_gentable_stats_entry_OF_VERSION_1_3 =
     v_min 24 (v_set_len 24 v_done)"

lemma loci_validate_of_bsn_gentable_stats_entry_OF_VERSION_1_3_ok [v_proved]: "v_ok loci_validate_of_bsn_gentable_stats_entry_OF_VERSION_1_3"
  unfolding loci_validate_of_bsn_gentable_stats_entry_OF_VERSION_1_3_def by (intro v_intro; simp add: v_proved v_ok_imp_k_ok)

definition loci_validate_of_list_bsn_gentable_stats_entry_OF_VERSION_1_3 :: "byte list \<Rightarrow> int \<Rightarrow> int \<Rightarrow> bool res" where
  "loci_validate_of_list_bsn_gentable_stats_entry_OF_VERSION_1_3 = v_list loci_validate_of_bsn_gentable_stats_entry_OF_VERSION_1_3"

interpretation bsn_gentable_stats_entry_1_3_list: list_element loci_validate_of_bsn_gentable_stats_entry_OF_VERSION_1_3
  by unfold_locales (rule loci_validate_of_bsn_gentable_stats_entry_OF_VERSION_1_3_ok)

lemma loci_validate_of_list_bsn_gentable_stats_entry_OF_VERSION_1_3_ok [v_proved]: "l_ok loci_validate_of_list_bsn_gentable_stats_entry_OF_VERSION_1_3"
  unfolding loci_validate_of_list_bsn_gentable_stats_entry_OF_VERSION_1_3_def by (rule bsn_gentable_stats_entry_1_3_list.l_ok_list)

definition loci_validate_of_bsn_interface_OF_VERSION_1_3 :: validator where
  "loci_validate_of_bsn_interface_OF_VERSION_1_3 =
     v_min 32 (v_set_len 32 v_done)"

lemma loci_validate_of_bsn_interface_OF_VERSION_1_3_ok [v_proved]: "v_ok loci_validate_of_bsn_interface_OF_VERSION_1_3"
  unfolding loci_validate_of_bsn_interface_OF_VERSION_1_3_def by (intro v_intro; simp add: v_proved v_ok_imp_k_ok)

definition loci_validate_of_list_bsn_interface_OF_VERSION_1_3 :: "byte list \<Rightarrow> int \<Rightarrow> int \<Rightarrow> bool res" where
  "loci_validate_of_list_bsn_interface_OF_VERSION_1_3 = v_list loci_validate_of_bsn_interface_OF_VERSION_1_3"

interpretation bsn_interface_1_3_list: list_element loci_validate_of_bsn_interface_OF_VERSION_1_3
  by unfold_locales (rule loci_validate_of_bsn_interface_OF_VERSION_1_3_ok)

lemma loci_validate_of_list_bsn_interface_OF_VERSION_1_3_ok [v_proved]: "l_ok loci_validate_of_list_bsn_interface_OF_VERSION_1_3"
  unfolding loci_validate_of_list_bsn_interface_OF_VERSION_1_3_def by (rule bsn_interface_1_3_list.l_ok_list)

definition loci_validate_of_bsn_lacp_stats_entry_OF_VERSION_1_3 :: validator where
  "loci_validate_of_bsn_lacp_stats_entry_OF_VERSION_1_3 =
     v_min 36 (v_set_len 36 v_done)"

lemma loci_validate_of_bsn_lacp_stats_entry_OF_VERSION_1_3_ok [v_proved]: "v_ok loci_validate_of_bsn_lacp_stats_entry_OF_VERSION_1_3"
  unfolding loci_validate_of_bsn_lacp_stats_entry_OF_VERSION_1_3_def by (intro v_intro; simp add: v_proved v_ok_imp_k_ok)

definition loci_validate_of_list_bsn_lacp_stats_entry_OF_VERSION_1_3 :: "byte list \<Rightarrow> int \<Rightarrow> int \<Rightarrow> bool res" where
  "loci_validate_of_list_bsn_lacp_stats_entry_OF_VERSION_1_3 = v_list loci_validate_of_bsn_lacp_stats_entry_OF_VERSION_1_3"

interpretation bsn_lacp_stats_entry_1_3_list: list_element loci_validate_of_bsn_lacp_stats_entry_OF_VERSION_1_3
  by unfold_locales (rule loci_validate_of_bsn_lacp_stats_entry_OF_VERSION_1_3_ok)

lemma loci_validate_of_list_bsn_lacp_stats_entry_OF_VERSION_1_3_ok [v_proved]: "l_ok loci_validate_of_list_bsn_lacp_stats_entry_OF_VERSION_1_3"
  unfolding loci_validate_of_list_bsn_lacp_stats_entry_OF_VERSION_1_3_def by (rule bsn_lacp_stats_entry_1_3_list.l_ok_list)

definition loci_validate_of_uint64_OF_VERSION_1_3 :: validator where
  "loci_validate_of_uint64_OF_VERSION_1_3 =
     v_min 8 (v_set_len 8 v_done)"

lemma loci_validate_of_uint64_OF_VERSION_1_3_ok [v_proved]: "v_ok loci_validate_of_uint64_OF_VERSION_1_3"
  unfolding loci_validate_of_uint64_OF_VERSION_1_3_def by (intro v_intro; simp add: v_proved v_ok_imp_k_ok)

definition loci_validate_of_list_uint64_OF_VERSION_1_3 :: "byte list \<Rightarrow> int \<Rightarrow> int \<Rightarrow> bool res" where
  "loci_validate_of_list_uint64_OF_VERSION_1_3 = v_list loci_validate_of_uint64_OF_VERSION_1_3"

interpretation uint64_1_3_list: list_element loci_validate_of_uint64_OF_VERSION_1_3
  by unfold_locales (rule loci_validate_of_uint64_OF_VERSION_1_3_ok)

lemma loci_validate_of_list_uint64_OF_VERSION_1_3_ok [v_proved]: "l_ok loci_validate_of_list_uint64_OF_VERSION_1_3"
  unfolding loci_validate_of_list_uint64_OF_VERSION_1_3_def by (rule uint64_1_3_list.l_ok_list)

definition loci_validate_of_bsn_port_counter_stats_entry_OF_VERSION_1_3 :: validator where
  "loci_validate_of_bsn_port_counter_stats_entry_OF_VERSION_1_3 =
     v_min 8 (v_wire_len_set 0 8
     (v_list_rest 8 loci_validate_of_list_uint64_OF_VERSION_1_3 v_done))"

lemma loci_validate_of_bsn_port_counter_stats_entry_OF_VERSION_1_3_ok [v_proved]: "v_ok loci_validate_of_bsn_port_counter_stats_entry_OF_VERSION_1_3"
  unfolding loci_validate_of_bsn_port_counter_stats_entry_OF_VERSION_1_3_def by (intro v_intro; simp add: v_proved v_ok_imp_k_ok)

lemma loci_validate_of_bsn_port_counter_stats_entry_OF_VERSION_1_3_exact [x_proved]: "x_ok 0 loci_validate_of_bsn_port_counter_stats_entry_OF_VERSION_1_3"
  unfolding loci_validate_of_bsn_port_counter_stats_entry_OF_VERSION_1_3_def by (intro x_intro; simp add: x_proved x_ok_imp_kx_ok)

definition loci_validate_of_list_bsn_port_counter_stats_entry_OF_VERSION_1_3 :: "byte list \<Rightarrow> int \<Rightarrow> int \<Rightarrow> bool res" where
  "loci_validate_of_list_bsn_port_counter_stats_entry_OF_VERSION_1_3 = v_list loci_validate_of_bsn_port_counter_stats_entry_OF_VERSION_1_3"

interpretation bsn_port_counter_stats_entry_1_3_list: list_element loci_validate_of_bsn_port_counter_stats_entry_OF_VERSION_1_3
  by unfold_locales (rule loci_validate_of_bsn_port_counter_stats_entry_OF_VERSION_1_3_ok)

lemma loci_validate_of_list_bsn_port_counter_stats_entry_OF_VERSION_1_3_ok [v_proved]: "l_ok loci_validate_of_list_bsn_port_counter_stats_entry_OF_VERSION_1_3"
  unfolding loci_validate_of_list_bsn_port_counter_stats_entry_OF_VERSION_1_3_def by (rule bsn_port_counter_stats_entry_1_3_list.l_ok_list)

definition loci_validate_of_bsn_switch_pipeline_stats_entry_OF_VERSION_1_3 :: validator where
  "loci_validate_of_bsn_switch_pipeline_stats_entry_OF_VERSION_1_3 =
     v_min 256 (v_set_len 256 v_done)"

lemma loci_validate_of_bsn_switch_pipeline_stats_entry_OF_VERSION_1_3_ok [v_proved]: "v_ok loci_validate_of_bsn_switch_pipeline_stats_entry_OF_VERSION_1_3"
  unfolding loci_validate_of_bsn_switch_pipeline_stats_entry_OF_VERSION_1_3_def by (intro v_intro; simp add: v_proved v_ok_imp_k_ok)

definition loci_validate_of_list_bsn_switch_pipeline_stats_entry_OF_VERSION_1_3 :: "byte list \<Rightarrow> int \<Rightarrow> int \<Rightarrow> bool res" where
  "loci_validate_of_list_bsn_switch_pipeline_stats_entry_OF_VERSION_1_3 = v_list loci_validate_of_bsn_switch_pipeline_stats_entry_OF_VERSION_1_3"

interpretation bsn_switch_pipeline_stats_entry_1_3_list: list_element loci_validate_of_bsn_switch_pipeline_stats_entry_OF_VERSION_1_3
  by unfold_locales (rule loci_validate_of_bsn_switch_pipeline_stats_entry_OF_VERSION_1_3_ok)

lemma loci_validate_of_list_bsn_switch_pipeline_stats_entry_OF_VERSION_1_3_ok [v_proved]: "l_ok loci_validate_of_list_bsn_switch_pipeline_stats_entry_OF_VERSION_1_3"
  unfolding loci_validate_of_list_bsn_switch_pipeline_stats_entry_OF_VERSION_1_3_def by (rule bsn_switch_pipeline_stats_entry_1_3_list.l_ok_list)

definition loci_validate_of_bsn_table_checksum_stats_entry_OF_VERSION_1_3 :: validator where
  "loci_validate_of_bsn_table_checksum_stats_entry_OF_VERSION_1_3 =
     v_min 9 (v_set_len 9 v_done)"

lemma loci_validate_of_bsn_table_checksum_stats_entry_OF_VERSION_1_3_ok [v_proved]: "v_ok loci_validate_of_bsn_table_checksum_stats_entry_OF_VERSION_1_3"
  unfolding loci_validate_of_bsn_table_checksum_stats_entry_OF_VERSION_1_3_def by (intro v_intro; simp add: v_proved v_ok_imp_k_ok)

definition loci_validate_of_list_bsn_table_checksum_stats_entry_OF_VERSION_1_3 :: "byte list \<Rightarrow> int \<Rightarrow> int \<Rightarrow> bool res" where
  "loci_validate_of_list_bsn_table_checksum_stats_entry_OF_VERSION_1_3 = v_list loci_validate_of_bsn_table_checksum_stats_entry_OF_VERSION_1_3"

interpretation bsn_table_checksum_stats_entry_1_3_list: list_element loci_validate_of_bsn_table_checksum_stats_entry_OF_VERSION_1_3
  by unfold_locales (rule loci_validate_of_bsn_table_checksum_stats_entry_OF_VERSION_1_3_ok)

lemma loci_validate_of_list_bsn_table_checksum_stats_entry_OF_VERSION_1_3_ok [v_proved]: "l_ok loci_validate_of_list_bsn_table_checksum_stats_entry_OF_VERSION_1_3"
  unfolding loci_validate_of_list_bsn_table_checksum_stats_entry_OF_VERSION_1_3_def by (rule bsn_table_checksum_stats_entry_1_3_list.l_ok_list)

definition loci_validate_of_bsn_vlan_counter_stats_entry_OF_VERSION_1_3 :: validator where
  "loci_validate_of_bsn_vlan_counter_stats_entry_OF_VERSION_1_3 =
     v_min 8 (v_wire_len_set 0 8
     (v_list_rest 8 loci_validate_of_list_uint64_OF_VERSION_1_3 v_done))"

lemma loci_validate_of_bsn_vlan_counter_stats_entry_OF_VERSION_1_3_ok [v_proved]: "v_ok loci_validate_of_bsn_vlan_counter_stats_entry_OF_VERSION_1_3"
  unfolding loci_validate_of_bsn_vlan_counter_stats_entry_OF_VERSION_1_3_def by (intro v_intro; simp add: v_proved v_ok_imp_k_ok)

lemma loci_validate_of_bsn_vlan_counter_stats_entry_OF_VERSION_1_3_exact [x_proved]: "x_ok 0 loci_validate_of_bsn_vlan_counter_stats_entry_OF_VERSION_1_3"
  unfolding loci_validate_of_bsn_vlan_counter_stats_entry_OF_VERSION_1_3_def by (intro x_intro; simp add: x_proved x_ok_imp_kx_ok)

definition loci_validate_of_list_bsn_vlan_counter_stats_entry_OF_VERSION_1_3 :: "byte list \<Rightarrow> int \<Rightarrow> int \<Rightarrow> bool res" where
  "loci_validate_of_list_bsn_vlan_counter_stats_entry_OF_VERSION_1_3 = v_list loci_validate_of_bsn_vlan_counter_stats_entry_OF_VERSION_1_3"

interpretation bsn_vlan_counter_stats_entry_1_3_list: list_element loci_validate_of_bsn_vlan_counter_stats_entry_OF_VERSION_1_3
  by unfold_locales (rule loci_validate_of_bsn_vlan_counter_stats_entry_OF_VERSION_1_3_ok)

lemma loci_validate_of_list_bsn_vlan_counter_stats_entry_OF_VERSION_1_3_ok [v_proved]: "l_ok loci_validate_of_list_bsn_vlan_counter_stats_entry_OF_VERSION_1_3"
  unfolding loci_validate_of_list_bsn_vlan_counter_stats_entry_OF_VERSION_1_3_def by (rule bsn_vlan_counter_stats_entry_1_3_list.l_ok_list)

definition loci_validate_of_bsn_vrf_counter_stats_entry_OF_VERSION_1_3 :: validator where
  "loci_validate_of_bsn_vrf_counter_stats_entry_OF_VERSION_1_3 =
     v_min 8 (v_wire_len_set 0 8
     (v_list_rest 8 loci_validate_of_list_uint64_OF_VERSION_1_3 v_done))"

lemma loci_validate_of_bsn_vrf_counter_stats_entry_OF_VERSION_1_3_ok [v_proved]: "v_ok loci_validate_of_bsn_vrf_counter_stats_entry_OF_VERSION_1_3"
  unfolding loci_validate_of_bsn_vrf_counter_stats_entry_OF_VERSION_1_3_def by (intro v_intro; simp add: v_proved v_ok_imp_k_ok)

lemma loci_validate_of_bsn_vrf_counter_stats_entry_OF_VERSION_1_3_exact [x_proved]: "x_ok 0 loci_validate_of_bsn_vrf_counter_stats_entry_OF_VERSION_1_3"
  unfolding loci_validate_of_bsn_vrf_counter_stats_entry_OF_VERSION_1_3_def by (intro x_intro; simp add: x_proved x_ok_imp_kx_ok)

definition loci_validate_of_list_bsn_vrf_counter_stats_entry_OF_VERSION_1_3 :: "byte list \<Rightarrow> int \<Rightarrow> int \<Rightarrow> bool res" where
  "loci_validate_of_list_bsn_vrf_counter_stats_entry_OF_VERSION_1_3 = v_list loci_validate_of_bsn_vrf_counter_stats_entry_OF_VERSION_1_3"

interpretation bsn_vrf_counter_stats_entry_1_3_list: list_element loci_validate_of_bsn_vrf_counter_stats_entry_OF_VERSION_1_3
  by unfold_locales (rule loci_validate_of_bsn_vrf_counter_stats_entry_OF_VERSION_1_3_ok)

lemma loci_validate_of_list_bsn_vrf_counter_stats_entry_OF_VERSION_1_3_ok [v_proved]: "l_ok loci_validate_of_list_bsn_vrf_counter_stats_entry_OF_VERSION_1_3"
  unfolding loci_validate_of_list_bsn_vrf_counter_stats_entry_OF_VERSION_1_3_def by (rule bsn_vrf_counter_stats_entry_1_3_list.l_ok_list)

definition loci_validate_of_action_bsn_checksum_OF_VERSION_1_3 :: validator where
  "loci_validate_of_action_bsn_checksum_OF_VERSION_1_3 =
     v_min 28 (v_set_len 28 (v_wire_len 2 28 v_done))"

lemma loci_validate_of_action_bsn_checksum_OF_VERSION_1_3_ok [v_proved]: "v_ok loci_validate_of_action_bsn_checksum_OF_VERSION_1_3"
  unfolding loci_validate_of_action_bsn_checksum_OF_VERSION_1_3_def by (intro v_intro; simp add: v_proved v_ok_imp_k_ok)

lemma loci_validate_of_action_bsn_checksum_OF_VERSION_1_3_exact [x_proved]: "x_ok 2 loci_validate_of_action_bsn_checksum_OF_VERSION_1_3"
  unfolding loci_validate_of_action_bsn_checksum_OF_VERSION_1_3_def by (intro x_intro; simp add: x_proved x_ok_imp_kx_ok)

definition loci_validate_of_action_bsn_gentable_OF_VERSION_1_3 :: validator where
  "loci_validate_of_action_bsn_gentable_OF_VERSION_1_3 =
     v_min 16 (v_wire_len_set 2 16
     (v_list_rest 16 loci_validate_of_list_bsn_tlv_OF_VERSION_1_3 v_done))"

lemma loci_validate_of_action_bsn_gentable_OF_VERSION_1_3_ok [v_proved]: "v_ok loci_validate_of_action_bsn_gentable_OF_VERSION_1_3"
  unfolding loci_validate_of_action_bsn_gentable_OF_VERSION_1_3_def by (intro v_intro; simp add: v_proved v_ok_imp_k_ok)

lemma loci_validate_of_action_bsn_gentable_OF_VERSION_1_3_exact [x_proved]: "x_ok 2 loci_validate_of_action_bsn_gentable_OF_VERSION_1_3"
  unfolding loci_validate_of_action_bsn_gentable_OF_VERSION_1_3_def by (intro x_intro; simp add: x_proved x_ok_imp_kx_ok)

definition loci_validate_of_action_bsn_mirror_OF_VERSION_1_3 :: validator where
  "loci_validate_of_action_bsn_mirror_OF_VERSION_1_3 =
     v_min 24 (v_set_len 24 (v_wire_len 2 24 v_done))"

lemma loci_validate_of_action_bsn_mirror_OF_VERSION_1_3_ok [v_proved]: "v_ok loci_validate_of_action_bsn_mirror_OF_VERSION_1_3"
  unfolding loci_validate_of_action_bsn_mirror_OF_VERSION_1_3_def by (intro v_intro; simp add: v_proved v_ok_imp_k_ok)

lemma loci_validate_of_action_bsn_mirror_OF_VERSION_1_3_exact [x_proved]: "x_ok 2 loci_validate_of_action_bsn_mirror_OF_VERSION_1_3"
  unfolding loci_validate_of_action_bsn_mirror_OF_VERSION_1_3_def by (intro x_intro; simp add: x_proved x_ok_imp_kx_ok)

definition loci_validate_of_action_bsn_set_tunnel_dst_OF_VERSION_1_3 :: validator where
  "loci_validate_of_action_bsn_set_tunnel_dst_OF_VERSION_1_3 =
     v_min 16 (v_set_len 16 (v_wire_len 2 16 v_done))"

lemma loci_validate_of_action_bsn_set_tunnel_dst_OF_VERSION_1_3_ok [v_proved]: "v_ok loci_validate_of_action_bsn_set_tunnel_dst_OF_VERSION_1_3"
  unfolding loci_validate_of_action_bsn_set_tunnel_dst_OF_VERSION_1_3_def by (intro v_intro; simp add: v_proved v_ok_imp_k_ok)

lemma loci_validate_of_action_bsn_set_tunnel_dst_OF_VERSION_1_3_exact [x_proved]: "x_ok 2 loci_validate_of_action_bsn_set_tunnel_dst_OF_VERSION_1_3"
  unfolding loci_validate_of_action_bsn_set_tunnel_dst_OF_VERSION_1_3_def by (intro x_intro; simp add: x_proved x_ok_imp_kx_ok)

definition loci_validate_of_action_bsn_OF_VERSION_1_3 :: validator where
  "loci_validate_of_action_bsn_OF_VERSION_1_3 =
     v_min 16 (v_wire_len_set 2 16
     (v_switch32 8
      [(4, loci_validate_of_action_bsn_checksum_OF_VERSION_1_3),
       (5, loci_validate_of_action_bsn_gentable_OF_VERSION_1_3),
       (1, loci_validate_of_action_bsn_mirror_OF_VERSION_1_3),
       (2, loci_validate_of_action_bsn_set_tunnel_dst_OF_VERSION_1_3)]
     v_done))"

lemma loci_validate_of_action_bsn_OF_VERSION_1_3_ok [v_proved]: "v_ok loci_validate_of_action_bsn_OF_VERSION_1_3"
  unfolding loci_validate_of_action_bsn_OF_VERSION_1_3_def by (intro v_intro; simp add: v_proved v_ok_imp_k_ok)

lemma loci_validate_of_action_bsn_OF_VERSION_1_3_exact [x_proved]: "x_ok 2 loci_validate_of_action_bsn_OF_VERSION_1_3"
  unfolding loci_validate_of_action_bsn_OF_VERSION_1_3_def by (intro x_intro; simp add: x_proved x_ok_imp_kx_ok)

definition loci_validate_of_action_nicira_dec_ttl_OF_VERSION_1_3 :: validator where
  "loci_validate_of_action_nicira_dec_ttl_OF_VERSION_1_3 =
     v_min 16 (v_set_len 16 (v_wire_len 2 16 v_done))"

lemma loci_validate_of_action_nicira_dec_ttl_OF_VERSION_1_3_ok [v_proved]: "v_ok loci_validate_of_action_nicira_dec_ttl_OF_VERSION_1_3"
  unfolding loci_validate_of_action_nicira_dec_ttl_OF_VERSION_1_3_def by (intro v_intro; simp add: v_proved v_ok_imp_k_ok)

lemma loci_validate_of_action_nicira_dec_ttl_OF_VERSION_1_3_exact [x_proved]: "x_ok 2 loci_validate_of_action_nicira_dec_ttl_OF_VERSION_1_3"
  unfolding loci_validate_of_action_nicira_dec_ttl_OF_VERSION_1_3_def by (intro x_intro; simp add: x_proved x_ok_imp_kx_ok)

definition loci_validate_of_action_nicira_OF_VERSION_1_3 :: validator where
  "loci_validate_of_action_nicira_OF_VERSION_1_3 =
     v_min 16 (v_wire_len_set 2 16
     (v_switch16 8
      [(0x12, loci_validate_of_action_nicira_dec_ttl_OF_VERSION_1_3)]
     v_done))"

lemma loci_validate_of_action_nicira_OF_VERSION_1_3_ok [v_proved]: "v_ok loci_validate_of_action_nicira_OF_VERSION_1_3"
  unfolding loci_validate_of_action_nicira_OF_VERSION_1_3_def by (intro v_intro; simp add: v_proved v_ok_imp_k_ok)

lemma loci_validate_of_action_nicira_OF_VERSION_1_3_exact [x_proved]: "x_ok 2 loci_validate_of_action_nicira_OF_VERSION_1_3"
  unfolding loci_validate_of_action_nicira_OF_VERSION_1_3_def by (intro x_intro; simp add: x_proved x_ok_imp_kx_ok)

definition loci_validate_of_action_experimenter_OF_VERSION_1_3 :: validator where
  "loci_validate_of_action_experimenter_OF_VERSION_1_3 =
     v_min 8 (v_wire_len_set 2 8
     (v_switch32 4
      [(0x5c16c7, loci_validate_of_action_bsn_OF_VERSION_1_3),
       (0x2320, loci_validate_of_action_nicira_OF_VERSION_1_3)]
     v_done))"

lemma loci_validate_of_action_experimenter_OF_VERSION_1_3_ok [v_proved]: "v_ok loci_validate_of_action_experimenter_OF_VERSION_1_3"
  unfolding loci_validate_of_action_experimenter_OF_VERSION_1_3_def by (intro v_intro; simp add: v_proved v_ok_imp_k_ok)

lemma loci_validate_of_action_experimenter_OF_VERSION_1_3_exact [x_proved]: "x_ok 2 loci_validate_of_action_experimenter_OF_VERSION_1_3"
  unfolding loci_validate_of_action_experimenter_OF_VERSION_1_3_def by (intro x_intro; simp add: x_proved x_ok_imp_kx_ok)

definition loci_validate_of_action_copy_ttl_in_OF_VERSION_1_3 :: validator where
  "loci_validate_of_action_copy_ttl_in_OF_VERSION_1_3 =
     v_min 8 (v_set_len 8 (v_wire_len 2 8 v_done))"

lemma loci_validate_of_action_copy_ttl_in_OF_VERSION_1_3_ok [v_proved]: "v_ok loci_validate_of_action_copy_ttl_in_OF_VERSION_1_3"
  unfolding loci_validate_of_action_copy_ttl_in_OF_VERSION_1_3_def by (intro v_intro; simp add: v_proved v_ok_imp_k_ok)

lemma loci_validate_of_action_copy_ttl_in_OF_VERSION_1_3_exact [x_proved]: "x_ok 2 loci_validate_of_action_copy_ttl_in_OF_VERSION_1_3"
  unfolding loci_validate_of_action_copy_ttl_in_OF_VERSION_1_3_def by (intro x_intro; simp add: x_proved x_ok_imp_kx_ok)

definition loci_validate_of_action_copy_ttl_out_OF_VERSION_1_3 :: validator where
  "loci_validate_of_action_copy_ttl_out_OF_VERSION_1_3 =
     v_min 8 (v_set_len 8 (v_wire_len 2 8 v_done))"

lemma loci_validate_of_action_copy_ttl_out_OF_VERSION_1_3_ok [v_proved]: "v_ok loci_validate_of_action_copy_ttl_out_OF_VERSION_1_3"
  unfolding loci_validate_of_action_copy_ttl_out_OF_VERSION_1_3_def by (intro v_intro; simp add: v_proved v_ok_imp_k_ok)

lemma loci_validate_of_action_copy_ttl_out_OF_VERSION_1_3_exact [x_proved]: "x_ok 2 loci_validate_of_action_copy_ttl_out_OF_VERSION_1_3"
  unfolding loci_validate_of_action_copy_ttl_out_OF_VERSION_1_3_def by (intro x_intro; simp add: x_proved x_ok_imp_kx_ok)

definition loci_validate_of_action_dec_mpls_ttl_OF_VERSION_1_3 :: validator where
  "loci_validate_of_action_dec_mpls_ttl_OF_VERSION_1_3 =
     v_min 8 (v_set_len 8 (v_wire_len 2 8 v_done))"

lemma loci_validate_of_action_dec_mpls_ttl_OF_VERSION_1_3_ok [v_proved]: "v_ok loci_validate_of_action_dec_mpls_ttl_OF_VERSION_1_3"
  unfolding loci_validate_of_action_dec_mpls_ttl_OF_VERSION_1_3_def by (intro v_intro; simp add: v_proved v_ok_imp_k_ok)

lemma loci_validate_of_action_dec_mpls_ttl_OF_VERSION_1_3_exact [x_proved]: "x_ok 2 loci_validate_of_action_dec_mpls_ttl_OF_VERSION_1_3"
  unfolding loci_validate_of_action_dec_mpls_ttl_OF_VERSION_1_3_def by (intro x_intro; simp add: x_proved x_ok_imp_kx_ok)

definition loci_validate_of_action_dec_nw_ttl_OF_VERSION_1_3 :: validator where
  "loci_validate_of_action_dec_nw_ttl_OF_VERSION_1_3 =
     v_min 8 (v_set_len 8 (v_wire_len 2 8 v_done))"

lemma loci_validate_of_action_dec_nw_ttl_OF_VERSION_1_3_ok [v_proved]: "v_ok loci_validate_of_action_dec_nw_ttl_OF_VERSION_1_3"
  unfolding loci_validate_of_action_dec_nw_ttl_OF_VERSION_1_3_def by (intro v_intro; simp add: v_proved v_ok_imp_k_ok)

lemma loci_validate_of_action_dec_nw_ttl_OF_VERSION_1_3_exact [x_proved]: "x_ok 2 loci_validate_of_action_dec_nw_ttl_OF_VERSION_1_3"
  unfolding loci_validate_of_action_dec_nw_ttl_OF_VERSION_1_3_def by (intro x_intro; simp add: x_proved x_ok_imp_kx_ok)

definition loci_validate_of_action_group_OF_VERSION_1_3 :: validator where
  "loci_validate_of_action_group_OF_VERSION_1_3 =
     v_min 8 (v_set_len 8 (v_wire_len 2 8 v_done))"

lemma loci_validate_of_action_group_OF_VERSION_1_3_ok [v_proved]: "v_ok loci_validate_of_action_group_OF_VERSION_1_3"
  unfolding loci_validate_of_action_group_OF_VERSION_1_3_def by (intro v_intro; simp add: v_proved v_ok_imp_k_ok)

lemma loci_validate_of_action_group_OF_VERSION_1_3_exact [x_proved]: "x_ok 2 loci_validate_of_action_group_OF_VERSION_1_3"
  unfolding loci_validate_of_action_group_OF_VERSION_1_3_def by (intro x_intro; simp add: x_proved x_ok_imp_kx_ok)

definition loci_validate_of_action_output_OF_VERSION_1_3 :: validator where
  "loci_validate_of_action_output_OF_VERSION_1_3 =
     v_min 16 (v_set_len 16 (v_wire_len 2 16 v_done))"

lemma loci_validate_of_action_output_OF_VERSION_1_3_ok [v_proved]: "v_ok loci_validate_of_action_output_OF_VERSION_1_3"
  unfolding loci_validate_of_action_output_OF_VERSION_1_3_def by (intro v_intro; simp add: v_proved v_ok_imp_k_ok)

lemma loci_validate_of_action_output_OF_VERSION_1_3_exact [x_proved]: "x_ok 2 loci_validate_of_action_output_OF_VERSION_1_3"
  unfolding loci_validate_of_action_output_OF_VERSION_1_3_def by (intro x_intro; simp add: x_proved x_ok_imp_kx_ok)

definition loci_validate_of_action_pop_mpls_OF_VERSION_1_3 :: validator where
  "loci_validate_of_action_pop_mpls_OF_VERSION_1_3 =
     v_min 8 (v_set_len 8 (v_wire_len 2 8 v_done))"

lemma loci_validate_of_action_pop_mpls_OF_VERSION_1_3_ok [v_proved]: "v_ok loci_validate_of_action_pop_mpls_OF_VERSION_1_3"
  unfolding loci_validate_of_action_pop_mpls_OF_VERSION_1_3_def by (intro v_intro; simp add: v_proved v_ok_imp_k_ok)

lemma loci_validate_of_action_pop_mpls_OF_VERSION_1_3_exact [x_proved]: "x_ok 2 loci_validate_of_action_pop_mpls_OF_VERSION_1_3"
  unfolding loci_validate_of_action_pop_mpls_OF_VERSION_1_3_def by (intro x_intro; simp add: x_proved x_ok_imp_kx_ok)

definition loci_validate_of_action_pop_pbb_OF_VERSION_1_3 :: validator where
  "loci_validate_of_action_pop_pbb_OF_VERSION_1_3 =
     v_min 8 (v_set_len 8 (v_wire_len 2 8 v_done))"

lemma loci_validate_of_action_pop_pbb_OF_VERSION_1_3_ok [v_proved]: "v_ok loci_validate_of_action_pop_pbb_OF_VERSION_1_3"
  unfolding loci_validate_of_action_pop_pbb_OF_VERSION_1_3_def by (intro v_intro; simp add: v_proved v_ok_imp_k_ok)

lemma loci_validate_of_action_pop_pbb_OF_VERSION_1_3_exact [x_proved]: "x_ok 2 loci_validate_of_action_pop_pbb_OF_VERSION_1_3"
  unfolding loci_validate_of_action_pop_pbb_OF_VERSION_1_3_def by (intro x_intro; simp add: x_proved x_ok_imp_kx_ok)

definition loci_validate_of_action_pop_vlan_OF_VERSION_1_3 :: validator where
  "loci_validate_of_action_pop_vlan_OF_VERSION_1_3 =
     v_min 8 (v_set_len 8 (v_wire_len 2 8 v_done))"

lemma loci_validate_of_action_pop_vlan_OF_VERSION_1_3_ok [v_proved]: "v_ok loci_validate_of_action_pop_vlan_OF_VERSION_1_3"
  unfolding loci_validate_of_action_pop_vlan_OF_VERSION_1_3_def by (intro v_intro; simp add: v_proved v_ok_imp_k_ok)

lemma loci_validate_of_action_pop_vlan_OF_VERSION_1_3_exact [x_proved]: "x_ok 2 loci_validate_of_action_pop_vlan_OF_VERSION_1_3"
  unfolding loci_validate_of_action_pop_vlan_OF_VERSION_1_3_def by (intro x_intro; simp add: x_proved x_ok_imp_kx_ok)

definition loci_validate_of_action_push_mpls_OF_VERSION_1_3 :: validator where
  "loci_validate_of_action_push_mpls_OF_VERSION_1_3 =
     v_min 8 (v_set_len 8 (v_wire_len 2 8 v_done))"

lemma loci_validate_of_action_push_mpls_OF_VERSION_1_3_ok [v_proved]: "v_ok loci_validate_of_action_push_mpls_OF_VERSION_1_3"
  unfolding loci_validate_of_action_push_mpls_OF_VERSION_1_3_def by (intro v_intro; simp add: v_proved v_ok_imp_k_ok)

lemma loci_validate_of_action_push_mpls_OF_VERSION_1_3_exact [x_proved]: "x_ok 2 loci_validate_of_action_push_mpls_OF_VERSION_1_3"
  unfolding loci_validate_of_action_push_mpls_OF_VERSION_1_3_def by (intro x_intro; simp add: x_proved x_ok_imp_kx_ok)

definition loci_validate_of_action_push_pbb_OF_VERSION_1_3 :: validator where
  "loci_validate_of_action_push_pbb_OF_VERSION_1_3 =
     v_min 8 (v_set_len 8 (v_wire_len 2 8 v_done))"

lemma loci_validate_of_action_push_pbb_OF_VERSION_1_3_ok [v_proved]: "v_ok loci_validate_of_action_push_pbb_OF_VERSION_1_3"
  unfolding loci_validate_of_action_push_pbb_OF_VERSION_1_3_def by (intro v_intro; simp add: v_proved v_ok_imp_k_ok)

lemma loci_validate_of_action_push_pbb_OF_VERSION_1_3_exact [x_proved]: "x_ok 2 loci_validate_of_action_push_pbb_OF_VERSION_1_3"
  unfolding loci_validate_of_action_push_pbb_OF_VERSION_1_3_def by (intro x_intro; simp add: x_proved x_ok_imp_kx_ok)

definition loci_validate_of_action_push_vlan_OF_VERSION_1_3 :: validator where
  "loci_validate_of_action_push_vlan_OF_VERSION_1_3 =
     v_min 8 (v_set_len 8 (v_wire_len 2 8 v_done))"

lemma loci_validate_of_action_push_vlan_OF_VERSION_1_3_ok [v_proved]: "v_ok loci_validate_of_action_push_vlan_OF_VERSION_1_3"
  unfolding loci_validate_of_action_push_vlan_OF_VERSION_1_3_def by (intro v_intro; simp add: v_proved v_ok_imp_k_ok)

lemma loci_validate_of_action_push_vlan_OF_VERSION_1_3_exact [x_proved]: "x_ok 2 loci_validate_of_action_push_vlan_OF_VERSION_1_3"
  unfolding loci_validate_of_action_push_vlan_OF_VERSION_1_3_def by (intro x_intro; simp add: x_proved x_ok_imp_kx_ok)

definition loci_validate_of_action_set_field_OF_VERSION_1_3 :: validator where
  "loci_validate_of_action_set_field_OF_VERSION_1_3 =
     v_min 8 (v_wire_len_set 2 8 v_done)"

lemma loci_validate_of_action_set_field_OF_VERSION_1_3_ok [v_proved]: "v_ok loci_validate_of_action_set_field_OF_VERSION_1_3"
  unfolding loci_validate_of_action_set_field_OF_VERSION_1_3_def by (intro v_intro; simp add: v_proved v_ok_imp_k_ok)

lemma loci_validate_of_action_set_field_OF_VERSION_1_3_exact [x_proved]: "x_ok 2 loci_validate_of_action_set_field_OF_VERSION_1_3"
  unfolding loci_validate_of_action_set_field_OF_VERSION_1_3_def by (intro x_intro; simp add: x_proved x_ok_imp_kx_ok)

definition loci_validate_of_action_set_mpls_ttl_OF_VERSION_1_3 :: validator where
  "loci_validate_of_action_set_mpls_ttl_OF_VERSION_1_3 =
     v_min 8 (v_set_len 8 (v_wire_len 2 8 v_done))"

lemma loci_validate_of_action_set_mpls_ttl_OF_VERSION_1_3_ok [v_proved]: "v_ok loci_validate_of_action_set_mpls_ttl_OF_VERSION_1_3"
  unfolding loci_validate_of_action_set_mpls_ttl_OF_VERSION_1_3_def by (intro v_intro; simp add: v_proved v_ok_imp_k_ok)

lemma loci_validate_of_action_set_mpls_ttl_OF_VERSION_1_3_exact [x_proved]: "x_ok 2 loci_validate_of_action_set_mpls_ttl_OF_VERSION_1_3"
  unfolding loci_validate_of_action_set_mpls_ttl_OF_VERSION_1_3_def by (intro x_intro; simp add: x_proved x_ok_imp_kx_ok)

definition loci_validate_of_action_set_nw_ttl_OF_VERSION_1_3 :: validator where
  "loci_validate_of_action_set_nw_ttl_OF_VERSION_1_3 =
     v_min 8 (v_set_len 8 (v_wire_len 2 8 v_done))"

lemma loci_validate_of_action_set_nw_ttl_OF_VERSION_1_3_ok [v_proved]: "v_ok loci_validate_of_action_set_nw_ttl_OF_VERSION_1_3"
  unfolding loci_validate_of_action_set_nw_ttl_OF_VERSION_1_3_def by (intro v_intro; simp add: v_proved v_ok_imp_k_ok)

lemma loci_validate_of_action_set_nw_ttl_OF_VERSION_1_3_exact [x_proved]: "x_ok 2 loci_validate_of_action_set_nw_ttl_OF_VERSION_1_3"
  unfolding loci_validate_of_action_set_nw_ttl_OF_VERSION_1_3_def by (intro x_intro; simp add: x_proved x_ok_imp_kx_ok)

definition loci_validate_of_action_set_queue_OF_VERSION_1_3 :: validator where
  "loci_validate_of_action_set_queue_OF_VERSION_1_3 =
     v_min 8 (v_set_len 8 (v_wire_len 2 8 v_done))"

lemma loci_validate_of_action_set_queue_OF_VERSION_1_3_ok [v_proved]: "v_ok loci_validate_of_action_set_queue_OF_VERSION_1_3"
  unfolding loci_validate_of_action_set_queue_OF_VERSION_1_3_def by (intro v_intro; simp add: v_proved v_ok_imp_k_ok)

lemma loci_validate_of_action_set_queue_OF_VERSION_1_3_exact [x_proved]: "x_ok 2 loci_validate_of_action_set_queue_OF_VERSION_1_3"
  unfolding loci_validate_of_action_set_queue_OF_VERSION_1_3_def by (intro x_intro; simp add: x_proved x_ok_imp_kx_ok)

definition loci_validate_of_action_OF_VERSION_1_3 :: validator where
  "loci_validate_of_action_OF_VERSION_1_3 =
     v_min 8 (v_wire_len_set 2 8
     (v_switch16 0
      [(0xffff, loci_validate_of_action_experimenter_OF_VERSION_1_3),
       (0xc, loci_validate_of_action_copy_ttl_in_OF_VERSION_1_3),
       (0xb, loci_validate_of_action_copy_ttl_out_OF_VERSION_1_3),
       (0x10, loci_validate_of_action_dec_mpls_ttl_OF_VERSION_1_3),
       (0x18, loci_validate_of_action_dec_nw_ttl_OF_VERSION_1_3),
       (0x16, loci_validate_of_action_group_OF_VERSION_1_3),
       (0, loci_validate_of_action_output_OF_VERSION_1_3),
       (0x14, loci_validate_of_action_pop_mpls_OF_VERSION_1_3),
       (0x1b, loci_validate_of_action_pop_pbb_OF_VERSION_1_3),
       (0x12, loci_validate_of_action_pop_vlan_OF_VERSION_1_3),
       (0x13, loci_validate_of_action_push_mpls_OF_VERSION_1_3),
       (0x1a, loci_validate_of_action_push_pbb_OF_VERSION_1_3),
       (0x11, loci_validate_of_action_push_vlan_OF_VERSION_1_3),
       (0x19, loci_validate_of_action_set_field_OF_VERSION_1_3),
       (0xf, loci_validate_of_action_set_mpls_ttl_OF_VERSION_1_3),
       (0x17, loci_validate_of_action_set_nw_ttl_OF_VERSION_1_3),
       (0x15, loci_validate_of_action_set_queue_OF_VERSION_1_3)]
     v_done))"

lemma loci_validate_of_action_OF_VERSION_1_3_ok [v_proved]: "v_ok loci_validate_of_action_OF_VERSION_1_3"
  unfolding loci_validate_of_action_OF_VERSION_1_3_def by (intro v_intro; simp add: v_proved v_ok_imp_k_ok)

lemma loci_validate_of_action_OF_VERSION_1_3_exact [x_proved]: "x_ok 2 loci_validate_of_action_OF_VERSION_1_3"
  unfolding loci_validate_of_action_OF_VERSION_1_3_def by (intro x_intro; simp add: x_proved x_ok_imp_kx_ok)

definition loci_validate_of_list_action_OF_VERSION_1_3 :: "byte list \<Rightarrow> int \<Rightarrow> int \<Rightarrow> bool res" where
  "loci_validate_of_list_action_OF_VERSION_1_3 = v_list loci_validate_of_action_OF_VERSION_1_3"

interpretation action_1_3_list: list_element loci_validate_of_action_OF_VERSION_1_3
  by unfold_locales (rule loci_validate_of_action_OF_VERSION_1_3_ok)

lemma loci_validate_of_list_action_OF_VERSION_1_3_ok [v_proved]: "l_ok loci_validate_of_list_action_OF_VERSION_1_3"
  unfolding loci_validate_of_list_action_OF_VERSION_1_3_def by (rule action_1_3_list.l_ok_list)

definition loci_validate_of_instruction_apply_actions_OF_VERSION_1_3 :: validator where
  "loci_validate_of_instruction_apply_actions_OF_VERSION_1_3 =
     v_min 8 (v_wire_len_set 2 8
     (v_list_rest 8 loci_validate_of_list_action_OF_VERSION_1_3 v_done))"

lemma loci_validate_of_instruction_apply_actions_OF_VERSION_1_3_ok [v_proved]: "v_ok loci_validate_of_instruction_apply_actions_OF_VERSION_1_3"
  unfolding loci_validate_of_instruction_apply_actions_OF_VERSION_1_3_def by (intro v_intro; simp add: v_proved v_ok_imp_k_ok)

lemma loci_validate_of_instruction_apply_actions_OF_VERSION_1_3_exact [x_proved]: "x_ok 2 loci_validate_of_instruction_apply_actions_OF_VERSION_1_3"
  unfolding loci_validate_of_instruction_apply_actions_OF_VERSION_1_3_def by (intro x_intro; simp add: x_proved x_ok_imp_kx_ok)

definition loci_validate_of_instruction_bsn_arp_offload_OF_VERSION_1_3 :: validator where
  "loci_validate_of_instruction_bsn_arp_offload_OF_VERSION_1_3 =
     v_min 16 (v_set_len 16 (v_wire_len 2 16 v_done))"

lemma loci_validate_of_instruction_bsn_arp_offload_OF_VERSION_1_3_ok [v_proved]: "v_ok loci_validate_of_instruction_bsn_arp_offload_OF_VERSION_1_3"
  unfolding loci_validate_of_instruction_bsn_arp_offload_OF_VERSION_1_3_def by (intro v_intro; simp add: v_proved v_ok_imp_k_ok)

lemma loci_validate_of_instruction_bsn_arp_offload_OF_VERSION_1_3_exact [x_proved]: "x_ok 2 loci_validate_of_instruction_bsn_arp_offload_OF_VERSION_1_3"
  unfolding loci_validate_of_instruction_bsn_arp_offload_OF_VERSION_1_3_def by (intro x_intro; simp add: x_proved x_ok_imp_kx_ok)

definition loci_validate_of_instruction_bsn_auto_negotiation_OF_VERSION_1_3 :: validator where
  "loci_validate_of_instruction_bsn_auto_negotiation_OF_VERSION_1_3 =
     v_min 16 (v_set_len 16 (v_wire_len 2 16 v_done))"

lemma loci_validate_of_instruction_bsn_auto_negotiation_OF_VERSION_1_3_ok [v_proved]: "v_ok loci_validate_of_instruction_bsn_auto_negotiation_OF_VERSION_1_3"
  unfolding loci_validate_of_instruction_bsn_auto_negotiation_OF_VERSION_1_3_def by (intro v_intro; simp add: v_proved v_ok_imp_k_ok)

lemma loci_validate_of_instruction_bsn_auto_negotiation_OF_VERSION_1_3_exact [x_proved]: "x_ok 2 loci_validate_of_instruction_bsn_auto_negotiation_OF_VERSION_1_3"
  unfolding loci_validate_of_instruction_bsn_auto_negotiation_OF_VERSION_1_3_def by (intro x_intro; simp add: x_proved x_ok_imp_kx_ok)

definition loci_validate_of_instruction_bsn_deny_OF_VERSION_1_3 :: validator where
  "loci_validate_of_instruction_bsn_deny_OF_VERSION_1_3 =
     v_min 16 (v_set_len 16 (v_wire_len 2 16 v_done))"

lemma loci_validate_of_instruction_bsn_deny_OF_VERSION_1_3_ok [v_proved]: "v_ok loci_validate_of_instruction_bsn_deny_OF_VERSION_1_3"
  unfolding loci_validate_of_instruction_bsn_deny_OF_VERSION_1_3_def by (intro v_intro; simp add: v_proved v_ok_imp_k_ok)

lemma loci_validate_of_instruction_bsn_deny_OF_VERSION_1_3_exact [x_proved]: "x_ok 2 loci_validate_of_instruction_bsn_deny_OF_VERSION_1_3"
  unfolding loci_validate_of_instruction_bsn_deny_OF_VERSION_1_3_def by (intro x_intro; simp add: x_proved x_ok_imp_kx_ok)

definition loci_validate_of_instruction_bsn_dhcp_offload_OF_VERSION_1_3 :: validator where
  "loci_validate_of_instruction_bsn_dhcp_offload_OF_VERSION_1_3 =
     v_min 16 (v_set_len 16 (v_wire_len 2 16 v_done))"

lemma loci_validate_of_instruction_bsn_dhcp_offload_OF_VERSION_1_3_ok [v_proved]: "v_ok loci_validate_of_instruction_bsn_dhcp_offload_OF_VERSION_1_3"
  unfolding loci_validate_of_instruction_bsn_dhcp_offload_OF_VERSION_1_3_def by (intro v_intro; simp add: v_proved v_ok_imp_k_ok)

lemma loci_validate_of_instruction_bsn_dhcp_offload_OF_VERSION_1_3_exact [x_proved]: "x_ok 2 loci_validate_of_instruction_bsn_dhcp_offload_OF_VERSION_1_3"
  unfolding loci_validate_of_instruction_bsn_dhcp_offload_OF_VERSION_1_3_def by (intro x_intro; simp add: x_proved x_ok_imp_kx_ok)

definition loci_validate_of_instruction_bsn_disable_l3_OF_VERSION_1_3 :: validator where
  "loci_validate_of_instruction_bsn_disable_l3_OF_VERSION_1_3 =
     v_min 16 (v_set_len 16 (v_wire_len 2 16 v_done))"

lemma loci_validate_of_instruction_bsn_disable_l3_OF_VERSION_1_3_ok [v_proved]: "v_ok loci_validate_of_instruction_bsn_disable_l3_OF_VERSION_1_3"
  unfolding loci_validate_of_instruction_bsn_disable_l3_OF_VERSION_1_3_def by (intro v_intro; simp add: v_proved v_ok_imp_k_ok)

lemma loci_validate_of_instruction_bsn_disable_l3_OF_VERSION_1_3_exact [x_proved]: "x_ok 2 loci_validate_of_instruction_bsn_disable_l3_OF_VERSION_1_3"
  unfolding loci_validate_of_instruction_bsn_disable_l3_OF_VERSION_1_3_def by (intro x_intro; simp add: x_proved x_ok_imp_kx_ok)

definition loci_validate_of_instruction_bsn_disable_split_horizon_check_OF_VERSION_1_3 :: validator where
  "loci_validate_of_instruction_bsn_disable_split_horizon_check_OF_VERSION_1_3 =
     v_min 16 (v_set_len 16 (v_wire_len 2 16 v_done))"

lemma loci_validate_of_instruction_bsn_disable_split_horizon_check_OF_VERSION_1_3_ok [v_proved]: "v_ok loci_validate_of_instruction_bsn_disable_split_horizon_check_OF_VERSION_1_3"
  unfolding loci_validate_of_instruction_bsn_disable_split_horizon_check_OF_VERSION_1_3_def by (intro v_intro; simp add: v_proved v_ok_imp_k_ok)

lemma loci_validate_of_instruction_bsn_disable_split_horizon_check_OF_VERSION_1_3_exact [x_proved]: "x_ok 2 loci_validate_of_instruction_bsn_disable_split_horizon_check_OF_VERSION_1_3"
  unfolding loci_validate_of_instruction_bsn_disable_split_horizon_check_OF_VERSION_1_3_def by (intro x_intro; simp add: x_proved x_ok_imp_kx_ok)

definition loci_validate_of_instruction_bsn_disable_src_mac_check_OF_VERSION_1_3 :: validator where
  "loci_validate_of_instruction_bsn_disable_src_mac_check_OF_VERSION_1_3 =
     v_min 16 (v_set_len 16 (v_wire_len 2 16 v_done))"

lemma loci_validate_of_instruction_bsn_disable_src_mac_check_OF_VERSION_1_3_ok [v_proved]: "v_ok loci_validate_of_instruction_bsn_disable_src_mac_check_OF_VERSION_1_3"
  unfolding loci_validate_of_instruction_bsn_disable_src_mac_check_OF_VERSION_1_3_def by (intro v_intro; simp add: v_proved v_ok_imp_k_ok)

lemma loci_validate_of_instruction_bsn_disable_src_mac_check_OF_VERSION_1_3_exact [x_proved]: "x_ok 2 loci_validate_of_instruction_bsn_disable_src_mac_check_OF_VERSION_1_3"
  unfolding loci_validate_of_instruction_bsn_disable_src_mac_check_OF_VERSION_1_3_def by (intro x_intro; simp add: x_proved x_ok_imp_kx_ok)

definition loci_validate_of_instruction_bsn_disable_vlan_counters_OF_VERSION_1_3 :: validator where
  "loci_validate_of_instruction_bsn_disable_vlan_counters_OF_VERSION_1_3 =
     v_min 16 (v_set_len 16 (v_wire_len 2 16 v_done))"

lemma loci_validate_of_instruction_bsn_disable_vlan_counters_OF_VERSION_1_3_ok [v_proved]: "v_ok loci_validate_of_instruction_bsn_disable_vlan_counters_OF_VERSION_1_3"
  unfolding loci_validate_of_instruction_bsn_disable_vlan_counters_OF_VERSION_1_3_def by (intro v_intro; simp add: v_proved v_ok_imp_k_ok)

lemma loci_validate_of_instruction_bsn_disable_vlan_counters_OF_VERSION_1_3_exact [x_proved]: "x_ok 2 loci_validate_of_instruction_bsn_disable_vlan_counters_OF_VERSION_1_3"
  unfolding loci_validate_of_instruction_bsn_disable_vlan_counters_OF_VERSION_1_3_def by (intro x_intro; simp add: x_proved x_ok_imp_kx_ok)

definition loci_validate_of_instruction_bsn_internal_priority_OF_VERSION_1_3 :: validator where
  "loci_validate_of_instruction_bsn_internal_priority_OF_VERSION_1_3 =
     v_min 16 (v_set_len 16 (v_wire_len 2 16 v_done))"

lemma loci_validate_of_instruction_bsn_internal_priority_OF_VERSION_1_3_ok [v_proved]: "v_ok loci_validate_of_instruction_bsn_internal_priority_OF_VERSION_1_3"
  unfolding loci_validate_of_instruction_bsn_internal_priority_OF_VERSION_1_3_def by (intro v_intro; simp add: v_proved v_ok_imp_k_ok)

lemma loci_validate_of_instruction_bsn_internal_priority_OF_VERSION_1_3_exact [x_proved]: "x_ok 2 loci_validate_of_instruction_bsn_internal_priority_OF_VERSION_1_3"
  unfolding loci_validate_of_instruction_bsn_internal_priority_OF_VERSION_1_3_def by (intro x_intro; simp add: x_proved x_ok_imp_kx_ok)

definition loci_validate_of_instruction_bsn_packet_of_death_OF_VERSION_1_3 :: validator where
  "loci_validate_of_instruction_bsn_packet_of_death_OF_VERSION_1_3 =
     v_min 16 (v_set_len 16 (v_wire_len 2 16 v_done))"

lemma loci_validate_of_instruction_bsn_packet_of_death_OF_VERSION_1_3_ok [v_proved]: "v_ok loci_validate_of_instruction_bsn_packet_of_death_OF_VERSION_1_3"
  unfolding loci_validate_of_instruction_bsn_packet_of_death_OF_VERSION_1_3_def by (intro v_intro; simp add: v_proved v_ok_imp_k_ok)

lemma loci_validate_of_instruction_bsn_packet_of_death_OF_VERSION_1_3_exact [x_proved]: "x_ok 2 loci_validate_of_instruction_bsn_packet_of_death_OF_VERSION_1_3"
  unfolding loci_validate_of_instruction_bsn_packet_of_death_OF_VERSION_1_3_def by (intro x_intro; simp add: x_proved x_ok_imp_kx_ok)

definition loci_validate_of_instruction_bsn_permit_OF_VERSION_1_3 :: validator where
  "loci_validate_of_instruction_bsn_permit_OF_VERSION_1_3 =
     v_min 16 (v_set_len 16 (v_wire_len 2 16 v_done))"

lemma loci_validate_of_instruction_bsn_permit_OF_VERSION_1_3_ok [v_proved]: "v_ok loci_validate_of_instruction_bsn_permit_OF_VERSION_1_3"
  unfolding loci_validate_of_instruction_bsn_permit_OF_VERSION_1_3_def by (intro v_intro; simp add: v_proved v_ok_imp_k_ok)

lemma loci_validate_of_instruction_bsn_permit_OF_VERSION_1_3_exact [x_proved]: "x_ok 2 loci_validate_of_instruction_bsn_permit_OF_VERSION_1_3"
  unfolding loci_validate_of_instruction_bsn_permit_OF_VERSION_1_3_def by (intro x_intro; simp add: x_proved x_ok_imp_kx_ok)

definition loci_validate_of_instruction_bsn_prioritize_pdus_OF_VERSION_1_3 :: validator where
  "loci_validate_of_instruction_bsn_prioritize_pdus_OF_VERSION_1_3 =
     v_min 16 (v_set_len 16 (v_wire_len 2 16 v_done))"

lemma loci_validate_of_instruction_bsn_prioritize_pdus_OF_VERSION_1_3_ok [v_proved]: "v_ok loci_validate_of_instruction_bsn_prioritize_pdus_OF_VERSION_1_3"
  unfolding loci_validate_of_instruction_bsn_prioritize_pdus_OF_VERSION_1_3_def by (intro v_intro; simp add: v_proved v_ok_imp_k_ok)

lemma loci_validate_of_instruction_bsn_prioritize_pdus_OF_VERSION_1_3_exact [x_proved]: "x_ok 2 loci_validate_of_instruction_bsn_prioritize_pdus_OF_VERSION_1_3"
  unfolding loci_validate_of_instruction_bsn_prioritize_pdus_OF_VERSION_1_3_def by (intro x_intro; simp add: x_proved x_ok_imp_kx_ok)

definition loci_validate_of_instruction_bsn_require_vlan_xlate_OF_VERSION_1_3 :: validator where
  "loci_validate_of_instruction_bsn_require_vlan_xlate_OF_VERSION_1_3 =
     v_min 16 (v_set_len 16 (v_wire_len 2 16 v_done))"

lemma loci_validate_of_instruction_bsn_require_vlan_xlate_OF_VERSION_1_3_ok [v_proved]: "v_ok loci_validate_of_instruction_bsn_require_vlan_xlate_OF_VERSION_1_3"
  unfolding loci_validate_of_instruction_bsn_require_vlan_xlate_OF_VERSION_1_3_def by (intro v_intro; simp add: v_proved v_ok_imp_k_ok)

lemma loci_validate_of_instruction_bsn_require_vlan_xlate_OF_VERSION_1_3_exact [x_proved]: "x_ok 2 loci_validate_of_instruction_bsn_require_vlan_xlate_OF_VERSION_1_3"
  unfolding loci_validate_of_instruction_bsn_require_vlan_xlate_OF_VERSION_1_3_def by (intro x_intro; simp add: x_proved x_ok_imp_kx_ok)

definition loci_validate_of_instruction_bsn_span_destination_OF_VERSION_1_3 :: validator where
  "loci_validate_of_instruction_bsn_span_destination_OF_VERSION_1_3 =
     v_min 16 (v_set_len 16 (v_wire_len 2 16 v_done))"

lemma loci_validate_of_instruction_bsn_span_destination_OF_VERSION_1_3_ok [v_proved]: "v_ok loci_validate_of_instruction_bsn_span_destination_OF_VERSION_1_3"
  unfolding loci_validate_of_instruction_bsn_span_destination_OF_VERSION_1_3_def by (intro v_intro; simp add: v_proved v_ok_imp_k_ok)

lemma loci_validate_of_instruction_bsn_span_destination_OF_VERSION_1_3_exact [x_proved]: "x_ok 2 loci_validate_of_instruction_bsn_span_destination_OF_VERSION_1_3"
  unfolding loci_validate_of_instruction_bsn_span_destination_OF_VERSION_1_3_def by (intro x_intro; simp add: x_proved x_ok_imp_kx_ok)

definition loci_validate_of_instruction_bsn_OF_VERSION_1_3 :: validator where
  "loci_validate_of_instruction_bsn_OF_VERSION_1_3 =
     v_min 16 (v_wire_len_set 2 16
     (v_switch32 8
      [(1, loci_validate_of_instruction_bsn_arp_offload_OF_VERSION_1_3),
       (0xb, loci_validate_of_instruction_bsn_auto_negotiation_OF_VERSION_1_3),
       (5, loci_validate_of_instruction_bsn_deny_OF_VERSION_1_3),
       (2, loci_validate_of_instruction_bsn_dhcp_offload_OF_VERSION_1_3),
       (0xd, loci_validate_of_instruction_bsn_disable_l3_OF_VERSION_1_3),
       (3, loci_validate_of_instruction_bsn_disable_split_horizon_check_OF_VERSION_1_3),
       (0, loci_validate_of_instruction_bsn_disable_src_mac_check_OF_VERSION_1_3),
       (9, loci_validate_of_instruction_bsn_disable_vlan_counters_OF_VERSION_1_3),
       (0xc, loci_validate_of_instruction_bsn_internal_priority_OF_VERSION_1_3),
       (6, loci_validate_of_instruction_bsn_packet_of_death_OF_VERSION_1_3),
       (4, loci_validate_of_instruction_bsn_permit_OF_VERSION_1_3),
       (7, loci_validate_of_instruction_bsn_prioritize_pdus_OF_VERSION_1_3),
       (8, loci_validate_of_instruction_bsn_require_vlan_xlate_OF_VERSION_1_3),
       (0xa, loci_validate_of_instruction_bsn_span_destination_OF_VERSION_1_3)]
     v_done))"

lemma loci_validate_of_instruction_bsn_OF_VERSION_1_3_ok [v_proved]: "v_ok loci_validate_of_instruction_bsn_OF_VERSION_1_3"
  unfolding loci_validate_of_instruction_bsn_OF_VERSION_1_3_def by (intro v_intro; simp add: v_proved v_ok_imp_k_ok)

lemma loci_validate_of_instruction_bsn_OF_VERSION_1_3_exact [x_proved]: "x_ok 2 loci_validate_of_instruction_bsn_OF_VERSION_1_3"
  unfolding loci_validate_of_instruction_bsn_OF_VERSION_1_3_def by (intro x_intro; simp add: x_proved x_ok_imp_kx_ok)

definition loci_validate_of_instruction_experimenter_OF_VERSION_1_3 :: validator where
  "loci_validate_of_instruction_experimenter_OF_VERSION_1_3 =
     v_min 8 (v_wire_len_set 2 8
     (v_switch32 4
      [(0x5c16c7, loci_validate_of_instruction_bsn_OF_VERSION_1_3)]
     v_done))"

lemma loci_validate_of_instruction_experimenter_OF_VERSION_1_3_ok [v_proved]: "v_ok loci_validate_of_instruction_experimenter_OF_VERSION_1_3"
  unfolding loci_validate_of_instruction_experimenter_OF_VERSION_1_3_def by (intro v_intro; simp add: v_proved v_ok_imp_k_ok)

lemma loci_validate_of_instruction_experimenter_OF_VERSION_1_3_exact [x_proved]: "x_ok 2 loci_validate_of_instruction_experimenter_OF_VERSION_1_3"
  unfolding loci_validate_of_instruction_experimenter_OF_VERSION_1_3_def by (intro x_intro; simp add: x_proved x_ok_imp_kx_ok)

definition loci_validate_of_instruction_clear_actions_OF_VERSION_1_3 :: validator where
  "loci_validate_of_instruction_clear_actions_OF_VERSION_1_3 =
     v_min 8 (v_set_len 8 (v_wire_len 2 8 v_done))"

lemma loci_validate_of_instruction_clear_actions_OF_VERSION_1_3_ok [v_proved]: "v_ok loci_validate_of_instruction_clear_actions_OF_VERSION_1_3"
  unfolding loci_validate_of_instruction_clear_actions_OF_VERSION_1_3_def by (intro v_intro; simp add: v_proved v_ok_imp_k_ok)

lemma loci_validate_of_instruction_clear_actions_OF_VERSION_1_3_exact [x_proved]: "x_ok 2 loci_validate_of_instruction_clear_actions_OF_VERSION_1_3"
  unfolding loci_validate_of_instruction_clear_actions_OF_VERSION_1_3_def by (intro x_intro; simp add: x_proved x_ok_imp_kx_ok)

definition loci_validate_of_instruction_goto_table_OF_VERSION_1_3 :: validator where
  "loci_validate_of_instruction_goto_table_OF_VERSION_1_3 =
     v_min 8 (v_set_len 8 (v_wire_len 2 8 v_done))"

lemma loci_validate_of_instruction_goto_table_OF_VERSION_1_3_ok [v_proved]: "v_ok loci_validate_of_instruction_goto_table_OF_VERSION_1_3"
  unfolding loci_validate_of_instruction_goto_table_OF_VERSION_1_3_def by (intro v_intro; simp add: v_proved v_ok_imp_k_ok)

lemma loci_validate_of_instruction_goto_table_OF_VERSION_1_3_exact [x_proved]: "x_ok 2 loci_validate_of_instruction_goto_table_OF_VERSION_1_3"
  unfolding loci_validate_of_instruction_goto_table_OF_VERSION_1_3_def by (intro x_intro; simp add: x_proved x_ok_imp_kx_ok)

definition loci_validate_of_instruction_meter_OF_VERSION_1_3 :: validator where
  "loci_validate_of_instruction_meter_OF_VERSION_1_3 =
     v_min 8 (v_set_len 8 (v_wire_len 2 8 v_done))"

lemma loci_validate_of_instruction_meter_OF_VERSION_1_3_ok [v_proved]: "v_ok loci_validate_of_instruction_meter_OF_VERSION_1_3"
  unfolding loci_validate_of_instruction_meter_OF_VERSION_1_3_def by (intro v_intro; simp add: v_proved v_ok_imp_k_ok)

lemma loci_validate_of_instruction_meter_OF_VERSION_1_3_exact [x_proved]: "x_ok 2 loci_validate_of_instruction_meter_OF_VERSION_1_3"
  unfolding loci_validate_of_instruction_meter_OF_VERSION_1_3_def by (intro x_intro; simp add: x_proved x_ok_imp_kx_ok)

definition loci_validate_of_instruction_write_actions_OF_VERSION_1_3 :: validator where
  "loci_validate_of_instruction_write_actions_OF_VERSION_1_3 =
     v_min 8 (v_wire_len_set 2 8
     (v_list_rest 8 loci_validate_of_list_action_OF_VERSION_1_3 v_done))"

lemma loci_validate_of_instruction_write_actions_OF_VERSION_1_3_ok [v_proved]: "v_ok loci_validate_of_instruction_write_actions_OF_VERSION_1_3"
  unfolding loci_validate_of_instruction_write_actions_OF_VERSION_1_3_def by (intro v_intro; simp add: v_proved v_ok_imp_k_ok)

lemma loci_validate_of_instruction_write_actions_OF_VERSION_1_3_exact [x_proved]: "x_ok 2 loci_validate_of_instruction_write_actions_OF_VERSION_1_3"
  unfolding loci_validate_of_instruction_write_actions_OF_VERSION_1_3_def by (intro x_intro; simp add: x_proved x_ok_imp_kx_ok)

definition loci_validate_of_instruction_write_metadata_OF_VERSION_1_3 :: validator where
  "loci_validate_of_instruction_write_metadata_OF_VERSION_1_3 =
     v_min 24 (v_set_len 24 (v_wire_len 2 24 v_done))"

lemma loci_validate_of_instruction_write_metadata_OF_VERSION_1_3_ok [v_proved]: "v_ok loci_validate_of_instruction_write_metadata_OF_VERSION_1_3"
  unfolding loci_validate_of_instruction_write_metadata_OF_VERSION_1_3_def by (intro v_intro; simp add: v_proved v_ok_imp_k_ok)

lemma loci_validate_of_instruction_write_metadata_OF_VERSION_1_3_exact [x_proved]: "x_ok 2 loci_validate_of_instruction_write_metadata_OF_VERSION_1_3"
  unfolding loci_validate_of_instruction_write_metadata_OF_VERSION_1_3_def by (intro x_intro; simp add: x_proved x_ok_imp_kx_ok)

definition loci_validate_of_instruction_OF_VERSION_1_3 :: validator where
  "loci_validate_of_instruction_OF_VERSION_1_3 =
     v_min 4 (v_wire_len_set 2 4
     (v_switch16 0
      [(4, loci_validate_of_instruction_apply_actions_OF_VERSION_1_3),
       (0xffff, loci_validate_of_instruction_experimenter_OF_VERSION_1_3),
       (5, loci_validate_of_instruction_clear_actions_OF_VERSION_1_3),
       (1, loci_validate_of_instruction_goto_table_OF_VERSION_1_3),
       (6, loci_validate_of_instruction_meter_OF_VERSION_1_3),
       (3, loci_validate_of_instruction_write_actions_OF_VERSION_1_3),
       (2, loci_validate_of_instruction_write_metadata_OF_VERSION_1_3)]
     v_done))"

lemma loci_validate_of_instruction_OF_VERSION_1_3_ok [v_proved]: "v_ok loci_validate_of_instruction_OF_VERSION_1_3"
  unfolding loci_validate_of_instruction_OF_VERSION_1_3_def by (intro v_intro; simp add: v_proved v_ok_imp_k_ok)

lemma loci_validate_of_instruction_OF_VERSION_1_3_exact [x_proved]: "x_ok 2 loci_validate_of_instruction_OF_VERSION_1_3"
  unfolding loci_validate_of_instruction_OF_VERSION_1_3_def by (intro x_intro; simp add: x_proved x_ok_imp_kx_ok)

definition loci_validate_of_list_instruction_OF_VERSION_1_3 :: "byte list \<Rightarrow> int \<Rightarrow> int \<Rightarrow> bool res" where
  "loci_validate_of_list_instruction_OF_VERSION_1_3 = v_list loci_validate_of_instruction_OF_VERSION_1_3"

interpretation instruction_1_3_list: list_element loci_validate_of_instruction_OF_VERSION_1_3
  by unfold_locales (rule loci_validate_of_instruction_OF_VERSION_1_3_ok)

lemma loci_validate_of_list_instruction_OF_VERSION_1_3_ok [v_proved]: "l_ok loci_validate_of_list_instruction_OF_VERSION_1_3"
  unfolding loci_validate_of_list_instruction_OF_VERSION_1_3_def by (rule instruction_1_3_list.l_ok_list)

definition loci_validate_of_flow_stats_entry_OF_VERSION_1_3 :: validator where
  "loci_validate_of_flow_stats_entry_OF_VERSION_1_3 =
     v_min 56 (v_wire_len_set 0 56 v_done)"

lemma loci_validate_of_flow_stats_entry_OF_VERSION_1_3_ok [v_proved]: "v_ok loci_validate_of_flow_stats_entry_OF_VERSION_1_3"
  unfolding loci_validate_of_flow_stats_entry_OF_VERSION_1_3_def by (intro v_intro; simp add: v_proved v_ok_imp_k_ok)

lemma loci_validate_of_flow_stats_entry_OF_VERSION_1_3_exact [x_proved]: "x_ok 0 loci_validate_of_flow_stats_entry_OF_VERSION_1_3"
  unfolding loci_validate_of_flow_stats_entry_OF_VERSION_1_3_def by (intro x_intro; simp add: x_proved x_ok_imp_kx_ok)

definition loci_validate_of_list_flow_stats_entry_OF_VERSION_1_3 :: "byte list \<Rightarrow> int \<Rightarrow> int \<Rightarrow> bool res" where
  "loci_validate_of_list_flow_stats_entry_OF_VERSION_1_3 = v_list loci_validate_of_flow_stats_entry_OF_VERSION_1_3"

interpretation flow_stats_entry_1_3_list: list_element loci_validate_of_flow_stats_entry_OF_VERSION_1_3
  by unfold_locales (rule loci_validate_of_flow_stats_entry_OF_VERSION_1_3_ok)

lemma loci_validate_of_list_flow_stats_entry_OF_VERSION_1_3_ok [v_proved]: "l_ok loci_validate_of_list_flow_stats_entry_OF_VERSION_1_3"
  unfolding loci_validate_of_list_flow_stats_entry_OF_VERSION_1_3_def by (rule flow_stats_entry_1_3_list.l_ok_list)

definition loci_validate_of_bucket_OF_VERSION_1_3 :: validator where
  "loci_validate_of_bucket_OF_VERSION_1_3 =
     v_min 16 (v_wire_len_set 0 16
     (v_list_rest 16 loci_validate_of_list_action_OF_VERSION_1_3 v_done))"

lemma loci_validate_of_bucket_OF_VERSION_1_3_ok [v_proved]: "v_ok loci_validate_of_bucket_OF_VERSION_1_3"
  unfolding loci_validate_of_bucket_OF_VERSION_1_3_def by (intro v_intro; simp add: v_proved v_ok_imp_k_ok)

lemma loci_validate_of_bucket_OF_VERSION_1_3_exact [x_proved]: "x_ok 0 loci_validate_of_bucket_OF_VERSION_1_3"
  unfolding loci_validate_of_bucket_OF_VERSION_1_3_def by (intro x_intro; simp add: x_proved x_ok_imp_kx_ok)

definition loci_validate_of_list_bucket_OF_VERSION_1_3 :: "byte list \<Rightarrow> int \<Rightarrow> int \<Rightarrow> bool res" where
  "loci_validate_of_list_bucket_OF_VERSION_1_3 = v_list loci_validate_of_bucket_OF_VERSION_1_3"

interpretation bucket_1_3_list: list_element loci_validate_of_bucket_OF_VERSION_1_3
  by unfold_locales (rule loci_validate_of_bucket_OF_VERSION_1_3_ok)

lemma loci_validate_of_list_bucket_OF_VERSION_1_3_ok [v_proved]: "l_ok loci_validate_of_list_bucket_OF_VERSION_1_3"
  unfolding loci_validate_of_list_bucket_OF_VERSION_1_3_def by (rule bucket_1_3_list.l_ok_list)

definition loci_validate_of_group_desc_stats_entry_OF_VERSION_1_3 :: validator where
  "loci_validate_of_group_desc_stats_entry_OF_VERSION_1_3 =
     v_min 8 (v_wire_len_set 0 8
     (v_list_rest 8 loci_validate_of_list_bucket_OF_VERSION_1_3 v_done))"

lemma loci_validate_of_group_desc_stats_entry_OF_VERSION_1_3_ok [v_proved]: "v_ok loci_validate_of_group_desc_stats_entry_OF_VERSION_1_3"
  unfolding loci_validate_of_group_desc_stats_entry_OF_VERSION_1_3_def by (intro v_intro; simp add: v_proved v_ok_imp_k_ok)

lemma loci_validate_of_group_desc_stats_entry_OF_VERSION_1_3_exact [x_proved]: "x_ok 0 loci_validate_of_group_desc_stats_entry_OF_VERSION_1_3"
  unfolding loci_validate_of_group_desc_stats_entry_OF_VERSION_1_3_def by (intro x_intro; simp add: x_proved x_ok_imp_kx_ok)

definition loci_validate_of_list_group_desc_stats_entry_OF_VERSION_1_3 :: "byte list \<Rightarrow> int \<Rightarrow> int \<Rightarrow> bool res" where
  "loci_validate_of_list_group_desc_stats_entry_OF_VERSION_1_3 = v_list loci_validate_of_group_desc_stats_entry_OF_VERSION_1_3"

interpretation group_desc_stats_entry_1_3_list: list_element loci_validate_of_group_desc_stats_entry_OF_VERSION_1_3
  by unfold_locales (rule loci_validate_of_group_desc_stats_entry_OF_VERSION_1_3_ok)

lemma loci_validate_of_list_group_desc_stats_entry_OF_VERSION_1_3_ok [v_proved]: "l_ok loci_validate_of_list_group_desc_stats_entry_OF_VERSION_1_3"
  unfolding loci_validate_of_list_group_desc_stats_entry_OF_VERSION_1_3_def by (rule group_desc_stats_entry_1_3_list.l_ok_list)

definition loci_validate_of_bucket_counter_OF_VERSION_1_3 :: validator where
  "loci_validate_of_bucket_counter_OF_VERSION_1_3 =
     v_min 16 (v_set_len 16 v_done)"

lemma loci_validate_of_bucket_counter_OF_VERSION_1_3_ok [v_proved]: "v_ok loci_validate_of_bucket_counter_OF_VERSION_1_3"
  unfolding loci_validate_of_bucket_counter_OF_VERSION_1_3_def by (intro v_intro; simp add: v_proved v_ok_imp_k_ok)

definition loci_validate_of_list_bucket_counter_OF_VERSION_1_3 :: "byte list \<Rightarrow> int \<Rightarrow> int \<Rightarrow> bool res" where
  "loci_validate_of_list_bucket_counter_OF_VERSION_1_3 = v_list loci_validate_of_bucket_counter_OF_VERSION_1_3"

interpretation bucket_counter_1_3_list: list_element loci_validate_of_bucket_counter_OF_VERSION_1_3
  by unfold_locales (rule loci_validate_of_bucket_counter_OF_VERSION_1_3_ok)

lemma loci_validate_of_list_bucket_counter_OF_VERSION_1_3_ok [v_proved]: "l_ok loci_validate_of_list_bucket_counter_OF_VERSION_1_3"
  unfolding loci_validate_of_list_bucket_counter_OF_VERSION_1_3_def by (rule bucket_counter_1_3_list.l_ok_list)

definition loci_validate_of_group_stats_entry_OF_VERSION_1_3 :: validator where
  "loci_validate_of_group_stats_entry_OF_VERSION_1_3 =
     v_min 40 (v_wire_len_set 0 40
     (v_list_rest 40 loci_validate_of_list_bucket_counter_OF_VERSION_1_3 v_done))"

lemma loci_validate_of_group_stats_entry_OF_VERSION_1_3_ok [v_proved]: "v_ok loci_validate_of_group_stats_entry_OF_VERSION_1_3"
  unfolding loci_validate_of_group_stats_entry_OF_VERSION_1_3_def by (intro v_intro; simp add: v_proved v_ok_imp_k_ok)

lemma loci_validate_of_group_stats_entry_OF_VERSION_1_3_exact [x_proved]: "x_ok 0 loci_validate_of_group_stats_entry_OF_VERSION_1_3"
  unfolding loci_validate_of_group_stats_entry_OF_VERSION_1_3_def by (intro x_intro; simp add: x_proved x_ok_imp_kx_ok)

definition loci_validate_of_list_group_stats_entry_OF_VERSION_1_3 :: "byte list \<Rightarrow> int \<Rightarrow> int \<Rightarrow> bool res" where
  "loci_validate_of_list_group_stats_entry_OF_VERSION_1_3 = v_list loci_validate_of_group_stats_entry_OF_VERSION_1_3"

interpretation group_stats_entry_1_3_list: list_element loci_validate_of_group_stats_entry_OF_VERSION_1_3
  by unfold_locales (rule loci_validate_of_group_stats_entry_OF_VERSION_1_3_ok)

lemma loci_validate_of_list_group_stats_entry_OF_VERSION_1_3_ok [v_proved]: "l_ok loci_validate_of_list_group_stats_entry_OF_VERSION_1_3"
  unfolding loci_validate_of_list_group_stats_entry_OF_VERSION_1_3_def by (rule group_stats_entry_1_3_list.l_ok_list)

definition loci_validate_of_uint32_OF_VERSION_1_3 :: validator where
  "loci_validate_of_uint32_OF_VERSION_1_3 =
     v_min 4 (v_set_len 4 v_done)"

lemma loci_validate_of_uint32_OF_VERSION_1_3_ok [v_proved]: "v_ok loci_validate_of_uint32_OF_VERSION_1_3"
  unfolding loci_validate_of_uint32_OF_VERSION_1_3_def by (intro v_intro; simp add: v_proved v_ok_imp_k_ok)

definition loci_validate_of_list_uint32_OF_VERSION_1_3 :: "byte list \<Rightarrow> int \<Rightarrow> int \<Rightarrow> bool res" where
  "loci_validate_of_list_uint32_OF_VERSION_1_3 = v_list loci_validate_of_uint32_OF_VERSION_1_3"

interpretation uint32_1_3_list: list_element loci_validate_of_uint32_OF_VERSION_1_3
  by unfold_locales (rule loci_validate_of_uint32_OF_VERSION_1_3_ok)

lemma loci_validate_of_list_uint32_OF_VERSION_1_3_ok [v_proved]: "l_ok loci_validate_of_list_uint32_OF_VERSION_1_3"
  unfolding loci_validate_of_list_uint32_OF_VERSION_1_3_def by (rule uint32_1_3_list.l_ok_list)

definition loci_validate_of_hello_elem_versionbitmap_OF_VERSION_1_3 :: validator where
  "loci_validate_of_hello_elem_versionbitmap_OF_VERSION_1_3 =
     v_min 4 (v_wire_len_set 2 4
     (v_list_rest 4 loci_validate_of_list_uint32_OF_VERSION_1_3 v_done))"

lemma loci_validate_of_hello_elem_versionbitmap_OF_VERSION_1_3_ok [v_proved]: "v_ok loci_validate_of_hello_elem_versionbitmap_OF_VERSION_1_3"
  unfolding loci_validate_of_hello_elem_versionbitmap_OF_VERSION_1_3_def by (intro v_intro; simp add: v_proved v_ok_imp_k_ok)

lemma loci_validate_of_hello_elem_versionbitmap_OF_VERSION_1_3_exact [x_proved]: "x_ok 2 loci_validate_of_hello_elem_versionbitmap_OF_VERSION_1_3"
  unfolding loci_validate_of_hello_elem_versionbitmap_OF_VERSION_1_3_def by (intro x_intro; simp add: x_proved x_ok_imp_kx_ok)

definition loci_validate_of_hello_elem_OF_VERSION_1_3 :: validator where
  "loci_validate_of_hello_elem_OF_VERSION_1_3 =
     v_min 4 (v_wire_len_set 2 4
     (v_switch16 0
      [(1, loci_validate_of_hello_elem_versionbitmap_OF_VERSION_1_3)]
     v_done))"

lemma loci_validate_of_hello_elem_OF_VERSION_1_3_ok [v_proved]: "v_ok loci_validate_of_hello_elem_OF_VERSION_1_3"
  unfolding loci_validate_of_hello_elem_OF_VERSION_1_3_def by (intro v_intro; simp add: v_proved v_ok_imp_k_ok)

lemma loci_validate_of_hello_elem_OF_VERSION_1_3_exact [x_proved]: "x_ok 2 loci_validate_of_hello_elem_OF_VERSION_1_3"
  unfolding loci_validate_of_hello_elem_OF_VERSION_1_3_def by (intro x_intro; simp add: x_proved x_ok_imp_kx_ok)

definition loci_validate_of_list_hello_elem_OF_VERSION_1_3 :: "byte list \<Rightarrow> int \<Rightarrow> int \<Rightarrow> bool res" where
  "loci_validate_of_list_hello_elem_OF_VERSION_1_3 = v_list loci_validate_of_hello_elem_OF_VERSION_1_3"

interpretation hello_elem_1_3_list: list_element loci_validate_of_hello_elem_OF_VERSION_1_3
  by unfold_locales (rule loci_validate_of_hello_elem_OF_VERSION_1_3_ok)

lemma loci_validate_of_list_hello_elem_OF_VERSION_1_3_ok [v_proved]: "l_ok loci_validate_of_list_hello_elem_OF_VERSION_1_3"
  unfolding loci_validate_of_list_hello_elem_OF_VERSION_1_3_def by (rule hello_elem_1_3_list.l_ok_list)

definition loci_validate_of_oxm_arp_op_OF_VERSION_1_3 :: validator where
  "loci_validate_of_oxm_arp_op_OF_VERSION_1_3 =
     v_min 6 (v_set_len 6 v_done)"

lemma loci_validate_of_oxm_arp_op_OF_VERSION_1_3_ok [v_proved]: "v_ok loci_validate_of_oxm_arp_op_OF_VERSION_1_3"
  unfolding loci_validate_of_oxm_arp_op_OF_VERSION_1_3_def by (intro v_intro; simp add: v_proved v_ok_imp_k_ok)

definition loci_validate_of_oxm_arp_op_masked_OF_VERSION_1_3 :: validator where
  "loci_validate_of_oxm_arp_op_masked_OF_VERSION_1_3 =
     v_min 8 (v_set_len 8 v_done)"

lemma loci_validate_of_oxm_arp_op_masked_OF_VERSION_1_3_ok [v_proved]: "v_ok loci_validate_of_oxm_arp_op_masked_OF_VERSION_1_3"
  unfolding loci_validate_of_oxm_arp_op_masked_OF_VERSION_1_3_def by (intro v_intro; simp add: v_proved v_ok_imp_k_ok)

definition loci_validate_of_oxm_arp_sha_OF_VERSION_1_3 :: validator where
  "loci_validate_of_oxm_arp_sha_OF_VERSION_1_3 =
     v_min 10 (v_set_len 10 v_done)"

lemma loci_validate_of_oxm_arp_sha_OF_VERSION_1_3_ok [v_proved]: "v_ok loci_validate_of_oxm_arp_sha_OF_VERSION_1_3"
  unfolding loci_validate_of_oxm_arp_sha_OF_VERSION_1_3_def by (intro v_intro; simp add: v_proved v_ok_imp_k_ok)

definition loci_validate_of_oxm_arp_sha_masked_OF_VERSION_1_3 :: validator where
  "loci_validate_of_oxm_arp_sha_masked_OF_VERSION_1_3 =
     v_min 16 (v_set_len 16 v_done)"

lemma loci_validate_of_oxm_arp_sha_masked_OF_VERSION_1_3_ok [v_proved]: "v_ok loci_validate_of_oxm_arp_sha_masked_OF_VERSION_1_3"
  unfolding loci_validate_of_oxm_arp_sha_masked_OF_VERSION_1_3_def by (intro v_intro; simp add: v_proved v_ok_imp_k_ok)

definition loci_validate_of_oxm_arp_spa_OF_VERSION_1_3 :: validator where
  "loci_validate_of_oxm_arp_spa_OF_VERSION_1_3 =
     v_min 8 (v_set_len 8 v_done)"

lemma loci_validate_of_oxm_arp_spa_OF_VERSION_1_3_ok [v_proved]: "v_ok loci_validate_of_oxm_arp_spa_OF_VERSION_1_3"
  unfolding loci_validate_of_oxm_arp_spa_OF_VERSION_1_3_def by (intro v_intro; simp add: v_proved v_ok_imp_k_ok)

definition loci_validate_of_oxm_arp_spa_masked_OF_VERSION_1_3 :: validator where
  "loci_validate_of_oxm_arp_spa_masked_OF_VERSION_1_3 =
     v_min 12 (v_set_len 12 v_done)"

lemma loci_validate_of_oxm_arp_spa_masked_OF_VERSION_1_3_ok [v_proved]: "v_ok loci_validate_of_oxm_arp_spa_masked_OF_VERSION_1_3"
  unfolding loci_validate_of_oxm_arp_spa_masked_OF_VERSION_1_3_def by (intro v_intro; simp add: v_proved v_ok_imp_k_ok)

definition loci_validate_of_oxm_arp_tha_OF_VERSION_1_3 :: validator where
  "loci_validate_of_oxm_arp_tha_OF_VERSION_1_3 =
     v_min 10 (v_set_len 10 v_done)"

lemma loci_validate_of_oxm_arp_tha_OF_VERSION_1_3_ok [v_proved]: "v_ok loci_validate_of_oxm_arp_tha_OF_VERSION_1_3"
  unfolding loci_validate_of_oxm_arp_tha_OF_VERSION_1_3_def by (intro v_intro; simp add: v_proved v_ok_imp_k_ok)

definition loci_validate_of_oxm_arp_tha_masked_OF_VERSION_1_3 :: validator where
  "loci_validate_of_oxm_arp_tha_masked_OF_VERSION_1_3 =
     v_min 16 (v_set_len 16 v_done)"

lemma loci_validate_of_oxm_arp_tha_masked_OF_VERSION_1_3_ok [v_proved]: "v_ok loci_validate_of_oxm_arp_tha_masked_OF_VERSION_1_3"
  unfolding loci_validate_of_oxm_arp_tha_masked_OF_VERSION_1_3_def by (intro v_intro; simp add: v_proved v_ok_imp_k_ok)

definition loci_validate_of_oxm_arp_tpa_OF_VERSION_1_3 :: validator where
  "loci_validate_of_oxm_arp_tpa_OF_VERSION_1_3 =
     v_min 8 (v_set_len 8 v_done)"

lemma loci_validate_of_oxm_arp_tpa_OF_VERSION_1_3_ok [v_proved]: "v_ok loci_validate_of_oxm_arp_tpa_OF_VERSION_1_3"
  unfolding loci_validate_of_oxm_arp_tpa_OF_VERSION_1_3_def by (intro v_intro; simp add: v_proved v_ok_imp_k_ok)

definition loci_validate_of_oxm_arp_tpa_masked_OF_VERSION_1_3 :: validator where
  "loci_validate_of_oxm_arp_tpa_masked_OF_VERSION_1_3 =
     v_min 12 (v_set_len 12 v_done)"

lemma loci_validate_of_oxm_arp_tpa_masked_OF_VERSION_1_3_ok [v_proved]: "v_ok loci_validate_of_oxm_arp_tpa_masked_OF_VERSION_1_3"
  unfolding loci_validate_of_oxm_arp_tpa_masked_OF_VERSION_1_3_def by (intro v_intro; simp add: v_proved v_ok_imp_k_ok)

definition loci_validate_of_oxm_bsn_egr_port_group_id_OF_VERSION_1_3 :: validator where
  "loci_validate_of_oxm_bsn_egr_port_group_id_OF_VERSION_1_3 =
     v_min 8 (v_set_len 8 v_done)"

lemma loci_validate_of_oxm_bsn_egr_port_group_id_OF_VERSION_1_3_ok [v_proved]: "v_ok loci_validate_of_oxm_bsn_egr_port_group_id_OF_VERSION_1_3"
  unfolding loci_validate_of_oxm_bsn_egr_port_group_id_OF_VERSION_1_3_def by (intro v_intro; simp add: v_proved v_ok_imp_k_ok)

definition loci_validate_of_oxm_bsn_egr_port_group_id_masked_OF_VERSION_1_3 :: validator where
  "loci_validate_of_oxm_bsn_egr_port_group_id_masked_OF_VERSION_1_3 =
     v_min 12 (v_set_len 12 v_done)"

lemma loci_validate_of_oxm_bsn_egr_port_group_id_masked_OF_VERSION_1_3_ok [v_proved]: "v_ok loci_validate_of_oxm_bsn_egr_port_group_id_masked_OF_VERSION_1_3"
  unfolding loci_validate_of_oxm_bsn_egr_port_group_id_masked_OF_VERSION_1_3_def by (intro v_intro; simp add: v_proved v_ok_imp_k_ok)

definition loci_validate_of_oxm_bsn_global_vrf_allowed_OF_VERSION_1_3 :: validator where
  "loci_validate_of_oxm_bsn_global_vrf_allowed_OF_VERSION_1_3 =
     v_min 5 (v_set_len 5 v_done)"

lemma loci_validate_of_oxm_bsn_global_vrf_allowed_OF_VERSION_1_3_ok [v_proved]: "v_ok loci_validate_of_oxm_bsn_global_vrf_allowed_OF_VERSION_1_3"
  unfolding loci_validate_of_oxm_bsn_global_vrf_allowed_OF_VERSION_1_3_def by (intro v_intro; simp add: v_proved v_ok_imp_k_ok)

definition loci_validate_of_oxm_bsn_global_vrf_allowed_masked_OF_VERSION_1_3 :: validator where
  "loci_validate_of_oxm_bsn_global_vrf_allowed_masked_OF_VERSION_1_3 =
     v_min 6 (v_set_len 6 v_done)"

lemma loci_validate_of_oxm_bsn_global_vrf_allowed_masked_OF_VERSION_1_3_ok [v_proved]: "v_ok loci_validate_of_oxm_bsn_global_vrf_allowed_masked_OF_VERSION_1_3"
  unfolding loci_validate_of_oxm_bsn_global_vrf_allowed_masked_OF_VERSION_1_3_def by (intro v_intro; simp add: v_proved v_ok_imp_k_ok)

definition loci_validate_of_oxm_bsn_in_ports_128_OF_VERSION_1_3 :: validator where
  "loci_validate_of_oxm_bsn_in_ports_128_OF_VERSION_1_3 =
     v_min 20 (v_set_len 20 v_done)"

lemma loci_validate_of_oxm_bsn_in_ports_128_OF_VERSION_1_3_ok [v_proved]: "v_ok loci_validate_of_oxm_bsn_in_ports_128_OF_VERSION_1_3"
  unfolding loci_validate_of_oxm_bsn_in_ports_128_OF_VERSION_1_3_def by (intro v_intro; simp add: v_proved v_ok_imp_k_ok)

definition loci_validate_of_oxm_bsn_in_ports_128_masked_OF_VERSION_1_3 :: validator where
  "loci_validate_of_oxm_bsn_in_ports_128_masked_OF_VERSION_1_3 =
     v_min 36 (v_set_len 36 v_done)"

lemma loci_validate_of_oxm_bsn_in_ports_128_masked_OF_VERSION_1_3_ok [v_proved]: "v_ok loci_validate_of_oxm_bsn_in_ports_128_masked_OF_VERSION_1_3"
  unfolding loci_validate_of_oxm_bsn_in_ports_128_masked_OF_VERSION_1_3_def by (intro v_intro; simp add: v_proved v_ok_imp_k_ok)

definition loci_validate_of_oxm_bsn_in_ports_512_OF_VERSION_1_3 :: validator where
  "loci_validate_of_oxm_bsn_in_ports_512_OF_VERSION_1_3 =
     v_min 68 (v_set_len 68 v_done)"

lemma loci_validate_of_oxm_bsn_in_ports_512_OF_VERSION_1_3_ok [v_proved]: "v_ok loci_validate_of_oxm_bsn_in_ports_512_OF_VERSION_1_3"
  unfolding loci_validate_of_oxm_bsn_in_ports_512_OF_VERSION_1_3_def by (intro v_intro; simp add: v_proved v_ok_imp_k_ok)

definition loci_validate_of_oxm_bsn_in_ports_512_masked_OF_VERSION_1_3 :: validator where
  "loci_validate_of_oxm_bsn_in_ports_512_masked_OF_VERSION_1_3 =
     v_min 132 (v_set_len 132 v_done)"

lemma loci_validate_of_oxm_bsn_in_ports_512_masked_OF_VERSION_1_3_ok [v_proved]: "v_ok loci_validate_of_oxm_bsn_in_ports_512_masked_OF_VERSION_1_3"
  unfolding loci_validate_of_oxm_bsn_in_ports_512_masked_OF_VERSION_1_3_def by (intro v_intro; simp add: v_proved v_ok_imp_k_ok)

definition loci_validate_of_oxm_bsn_ingress_port_group_id_OF_VERSION_1_3 :: validator where
  "loci_validate_of_oxm_bsn_ingress_port_group_id_OF_VERSION_1_3 =
     v_min 8 (v_set_len 8 v_done)"

lemma loci_validate_of_oxm_bsn_ingress_port_group_id_OF_VERSION_1_3_ok [v_proved]: "v_ok loci_validate_of_oxm_bsn_ingress_port_group_id_OF_VERSION_1_3"
  unfolding loci_validate_of_oxm_bsn_ingress_port_group_id_OF_VERSION_1_3_def by (intro v_intro; simp add: v_proved v_ok_imp_k_ok)

definition loci_validate_of_oxm_bsn_ingress_port_group_id_masked_OF_VERSION_1_3 :: validator where
  "loci_validate_of_oxm_bsn_ingress_port_group_id_masked_OF_VERSION_1_3 =
     v_min 12 (v_set_len 12 v_done)"

lemma loci_validate_of_oxm_bsn_ingress_port_group_id_masked_OF_VERSION_1_3_ok [v_proved]: "v_ok loci_validate_of_oxm_bsn_ingress_port_group_id_masked_OF_VERSION_1_3"
  unfolding loci_validate_of_oxm_bsn_ingress_port_group_id_masked_OF_VERSION_1_3_def by (intro v_intro; simp add: v_proved v_ok_imp_k_ok)

definition loci_validate_of_oxm_bsn_l2_cache_hit_OF_VERSION_1_3 :: validator where
  "loci_validate_of_oxm_bsn_l2_cache_hit_OF_VERSION_1_3 =
     v_min 5 (v_set_len 5 v_done)"

lemma loci_validate_of_oxm_bsn_l2_cache_hit_OF_VERSION_1_3_ok [v_proved]: "v_ok loci_validate_of_oxm_bsn_l2_cache_hit_OF_VERSION_1_3"
  unfolding loci_validate_of_oxm_bsn_l2_cache_hit_OF_VERSION_1_3_def by (intro v_intro; simp add: v_proved v_ok_imp_k_ok)

definition loci_validate_of_oxm_bsn_l2_cache_hit_masked_OF_VERSION_1_3 :: validator where
  "loci_validate_of_oxm_bsn_l2_cache_hit_masked_OF_VERSION_1_3 =
     v_min 6 (v_set_len 6 v_done)"

lemma loci_validate_of_oxm_bsn_l2_cache_hit_masked_OF_VERSION_1_3_ok [v_proved]: "v_ok loci_validate_of_oxm_bsn_l2_cache_hit_masked_OF_VERSION_1_3"
  unfolding loci_validate_of_oxm_bsn_l2_cache_hit_masked_OF_VERSION_1_3_def by (intro v_intro; simp add: v_proved v_ok_imp_k_ok)

definition loci_validate_of_oxm_bsn_l3_dst_class_id_OF_VERSION_1_3 :: validator where
  "loci_validate_of_oxm_bsn_l3_dst_class_id_OF_VERSION_1_3 =
     v_min 8 (v_set_len 8 v_done)"

lemma loci_validate_of_oxm_bsn_l3_dst_class_id_OF_VERSION_1_3_ok [v_proved]: "v_ok loci_validate_of_oxm_bsn_l3_dst_class_id_OF_VERSION_1_3"
  unfolding loci_validate_of_oxm_bsn_l3_dst_class_id_OF_VERSION_1_3_def by (intro v_intro; simp add: v_proved v_ok_imp_k_ok)

definition loci_validate_of_oxm_bsn_l3_dst_class_id_masked_OF_VERSION_1_3 :: validator where
  "loci_validate_of_oxm_bsn_l3_dst_class_id_masked_OF_VERSION_1_3 =
     v_min 12 (v_set_len 12 v_done)"

lemma loci_validate_of_oxm_bsn_l3_dst_class_id_masked_OF_VERSION_1_3_ok [v_proved]: "v_ok loci_validate_of_oxm_bsn_l3_dst_class_id_masked_OF_VERSION_1_3"
  unfolding loci_validate_of_oxm_bsn_l3_dst_class_id_masked_OF_VERSION_1_3_def by (intro v_intro; simp add: v_proved v_ok_imp_k_ok)

definition loci_validate_of_oxm_bsn_l3_interface_class_id_OF_VERSION_1_3 :: validator where
  "loci_validate_of_oxm_bsn_l3_interface_class_id_OF_VERSION_1_3 =
     v_min 8 (v_set_len 8 v_done)"

lemma loci_validate_of_oxm_bsn_l3_interface_class_id_OF_VERSION_1_3_ok [v_proved]: "v_ok loci_validate_of_oxm_bsn_l3_interface_class_id_OF_VERSION_1_3"
  unfolding loci_validate_of_oxm_bsn_l3_interface_class_id_OF_VERSION_1_3_def by (intro v_intro; simp add: v_proved v_ok_imp_k_ok)

definition loci_validate_of_oxm_bsn_l3_interface_class_id_masked_OF_VERSION_1_3 :: validator where
  "loci_validate_of_oxm_bsn_l3_interface_class_id_masked_OF_VERSION_1_3 =
     v_min 12 (v_set_len 12 v_done)"

lemma loci_validate_of_oxm_bsn_l3_interface_class_id_masked_OF_VERSION_1_3_ok [v_proved]: "v_ok loci_validate_of_oxm_bsn_l3_interface_class_id_masked_OF_VERSION_1_3"
  unfolding loci_validate_of_oxm_bsn_l3_interface_class_id_masked_OF_VERSION_1_3_def by (intro v_intro; simp add: v_proved v_ok_imp_k_ok)

definition loci_validate_of_oxm_bsn_l3_src_class_id_OF_VERSION_1_3 :: validator where
  "loci_validate_of_oxm_bsn_l3_src_class_id_OF_VERSION_1_3 =
     v_min 8 (v_set_len 8 v_done)"

lemma loci_validate_of_oxm_bsn_l3_src_class_id_OF_VERSION_1_3_ok [v_proved]: "v_ok loci_validate_of_oxm_bsn_l3_src_class_id_OF_VERSION_1_3"
  unfolding loci_validate_of_oxm_bsn_l3_src_class_id_OF_VERSION_1_3_def by (intro v_intro; simp add: v_proved v_ok_imp_k_ok)

definition loci_validate_of_oxm_bsn_l3_src_class_id_masked_OF_VERSION_1_3 :: validator where
  "loci_validate_of_oxm_bsn_l3_src_class_id_masked_OF_VERSION_1_3 =
     v_min 12 (v_set_len 12 v_done)"

lemma loci_validate_of_oxm_bsn_l3_src_class_id_masked_OF_VERSION_1_3_ok [v_proved]: "v_ok loci_validate_of_oxm_bsn_l3_src_class_id_masked_OF_VERSION_1_3"
  unfolding loci_validate_of_oxm_bsn_l3_src_class_id_masked_OF_VERSION_1_3_def by (intro v_intro; simp add: v_proved v_ok_imp_k_ok)

definition loci_validate_of_oxm_bsn_lag_id_OF_VERSION_1_3 :: validator where
  "loci_validate_of_oxm_bsn_lag_id_OF_VERSION_1_3 =
     v_min 8 (v_set_len 8 v_done)"

lemma loci_validate_of_oxm_bsn_lag_id_OF_VERSION_1_3_ok [v_proved]: "v_ok loci_validate_of_oxm_bsn_lag_id_OF_VERSION_1_3"
  unfolding loci_validate_of_oxm_bsn_lag_id_OF_VERSION_1_3_def by (intro v_intro; simp add: v_proved v_ok_imp_k_ok)

definition loci_validate_of_oxm_bsn_lag_id_masked_OF_VERSION_1_3 :: validator where
  "loci_validate_of_oxm_bsn_lag_id_masked_OF_VERSION_1_3 =
     v_min 12 (v_set_len 12 v_done)"

lemma loci_validate_of_oxm_bsn_lag_id_masked_OF_VERSION_1_3_ok [v_proved]: "v_ok loci_validate_of_oxm_bsn_lag_id_masked_OF_VERSION_1_3"
  unfolding loci_validate_of_oxm_bsn_lag_id_masked_OF_VERSION_1_3_def by (intro v_intro; simp add: v_proved v_ok_imp_k_ok)

definition loci_validate_of_oxm_bsn_tcp_flags_OF_VERSION_1_3 :: validator where
  "loci_validate_of_oxm_bsn_tcp_flags_OF_VERSION_1_3 =
     v_min 6 (v_set_len 6 v_done)"

lemma loci_validate_of_oxm_bsn_tcp_flags_OF_VERSION_1_3_ok [v_proved]: "v_ok loci_validate_of_oxm_bsn_tcp_flags_OF_VERSION_1_3"
  unfolding loci_validate_of_oxm_bsn_tcp_flags_OF_VERSION_1_3_def by (intro v_intro; simp add: v_proved v_ok_imp_k_ok)

definition loci_validate_of_oxm_bsn_tcp_flags_masked_OF_VERSION_1_3 :: validator where
  "loci_validate_of_oxm_bsn_tcp_flags_masked_OF_VERSION_1_3 =
     v_min 8 (v_set_len 8 v_done)"

lemma loci_validate_of_oxm_bsn_tcp_flags_masked_OF_VERSION_1_3_ok [v_proved]: "v_ok loci_validate_of_oxm_bsn_tcp_flags_masked_OF_VERSION_1_3"
  unfolding loci_validate_of_oxm_bsn_tcp_flags_masked_OF_VERSION_1_3_def by (intro v_intro; simp add: v_proved v_ok_imp_k_ok)

definition loci_validate_of_oxm_bsn_udf0_OF_VERSION_1_3 :: validator where
  "loci_validate_of_oxm_bsn_udf0_OF_VERSION_1_3 =
     v_min 8 (v_set_len 8 v_done)"

lemma loci_validate_of_oxm_bsn_udf0_OF_VERSION_1_3_ok [v_proved]: "v_ok loci_validate_of_oxm_bsn_udf0_OF_VERSION_1_3"
  unfolding loci_validate_of_oxm_bsn_udf0_OF_VERSION_1_3_def by (intro v_intro; simp add: v_proved v_ok_imp_k_ok)

definition loci_validate_of_oxm_bsn_udf0_masked_OF_VERSION_1_3 :: validator where
  "loci_validate_of_oxm_bsn_udf0_masked_OF_VERSION_1_3 =
     v_min 12 (v_set_len 12 v_done)"

lemma loci_validate_of_oxm_bsn_udf0_masked_OF_VERSION_1_3_ok [v_proved]: "v_ok loci_validate_of_oxm_bsn_udf0_masked_OF_VERSION_1_3"
  unfolding loci_validate_of_oxm_bsn_udf0_masked_OF_VERSION_1_3_def by (intro v_intro; simp add: v_proved v_ok_imp_k_ok)

definition loci_validate_of_oxm_bsn_udf1_OF_VERSION_1_3 :: validator where
  "loci_validate_of_oxm_bsn_udf1_OF_VERSION_1_3 =
     v_min 8 (v_set_len 8 v_done)"

lemma loci_validate_of_oxm_bsn_udf1_OF_VERSION_1_3_ok [v_proved]: "v_ok loci_validate_of_oxm_bsn_udf1_OF_VERSION_1_3"
  unfolding loci_validate_of_oxm_bsn_udf1_OF_VERSION_1_3_def by (intro v_intro; simp add: v_proved v_ok_imp_k_ok)

definition loci_validate_of_oxm_bsn_udf1_masked_OF_VERSION_1_3 :: validator where
  "loci_validate_of_oxm_bsn_udf1_masked_OF_VERSION_1_3 =
     v_min 12 (v_set_len 12 v_done)"

lemma loci_validate_of_oxm_bsn_udf1_masked_OF_VERSION_1_3_ok [v_proved]: "v_ok loci_validate_of_oxm_bsn_udf1_masked_OF_VERSION_1_3"
  unfolding loci_validate_of_oxm_bsn_udf1_masked_OF_VERSION_1_3_def by (intro v_intro; simp add: v_proved v_ok_imp_k_ok)

definition loci_validate_of_oxm_bsn_udf2_OF_VERSION_1_3 :: validator where
  "loci_validate_of_oxm_bsn_udf2_OF_VERSION_1_3 =
     v_min 8 (v_set_len 8 v_done)"

lemma loci_validate_of_oxm_bsn_udf2_OF_VERSION_1_3_ok [v_proved]: "v_ok loci_validate_of_oxm_bsn_udf2_OF_VERSION_1_3"
  unfolding loci_validate_of_oxm_bsn_udf2_OF_VERSION_1_3_def by (intro v_intro; simp add: v_proved v_ok_imp_k_ok)

definition loci_validate_of_oxm_bsn_udf2_masked_OF_VERSION_1_3 :: validator where
  "loci_validate_of_oxm_bsn_udf2_masked_OF_VERSION_1_3 =
     v_min 12 (v_set_len 12 v_done)"

lemma loci_validate_of_oxm_bsn_udf2_masked_OF_VERSION_1_3_ok [v_proved]: "v_ok loci_validate_of_oxm_bsn_udf2_masked_OF_VERSION_1_3"
  unfolding loci_validate_of_oxm_bsn_udf2_masked_OF_VERSION_1_3_def by (intro v_intro; simp add: v_proved v_ok_imp_k_ok)

definition loci_validate_of_oxm_bsn_udf3_OF_VERSION_1_3 :: validator where
  "loci_validate_of_oxm_bsn_udf3_OF_VERSION_1_3 =
     v_min 8 (v_set_len 8 v_done)"

lemma loci_validate_of_oxm_bsn_udf3_OF_VERSION_1_3_ok [v_proved]: "v_ok loci_validate_of_oxm_bsn_udf3_OF_VERSION_1_3"
  unfolding loci_validate_of_oxm_bsn_udf3_OF_VERSION_1_3_def by (intro v_intro; simp add: v_proved v_ok_imp_k_ok)

definition loci_validate_of_oxm_bsn_udf3_masked_OF_VERSION_1_3 :: validator where
  "loci_validate_of_oxm_bsn_udf3_masked_OF_VERSION_1_3 =
     v_min 12 (v_set_len 12 v_done)"

lemma loci_validate_of_oxm_bsn_udf3_masked_OF_VERSION_1_3_ok [v_proved]: "v_ok loci_validate_of_oxm_bsn_udf3_masked_OF_VERSION_1_3"
  unfolding loci_validate_of_oxm_bsn_udf3_masked_OF_VERSION_1_3_def by (intro v_intro; simp add: v_proved v_ok_imp_k_ok)

definition loci_validate_of_oxm_bsn_udf4_OF_VERSION_1_3 :: validator where
  "loci_validate_of_oxm_bsn_udf4_OF_VERSION_1_3 =
     v_min 8 (v_set_len 8 v_done)"

lemma loci_validate_of_oxm_bsn_udf4_OF_VERSION_1_3_ok [v_proved]: "v_ok loci_validate_of_oxm_bsn_udf4_OF_VERSION_1_3"
  unfolding loci_validate_of_oxm_bsn_udf4_OF_VERSION_1_3_def by (intro v_intro; simp add: v_proved v_ok_imp_k_ok)

definition loci_validate_of_oxm_bsn_udf4_masked_OF_VERSION_1_3 :: validator where
  "loci_validate_of_oxm_bsn_udf4_masked_OF_VERSION_1_3 =
     v_min 12 (v_set_len 12 v_done)"

lemma loci_validate_of_oxm_bsn_udf4_masked_OF_VERSION_1_3_ok [v_proved]: "v_ok loci_validate_of_oxm_bsn_udf4_masked_OF_VERSION_1_3"
  unfolding loci_validate_of_oxm_bsn_udf4_masked_OF_VERSION_1_3_def by (intro v_intro; simp add: v_proved v_ok_imp_k_ok)

definition loci_validate_of_oxm_bsn_udf5_OF_VERSION_1_3 :: validator where
  "loci_validate_of_oxm_bsn_udf5_OF_VERSION_1_3 =
     v_min 8 (v_set_len 8 v_done)"

lemma loci_validate_of_oxm_bsn_udf5_OF_VERSION_1_3_ok [v_proved]: "v_ok loci_validate_of_oxm_bsn_udf5_OF_VERSION_1_3"
  unfolding loci_validate_of_oxm_bsn_udf5_OF_VERSION_1_3_def by (intro v_intro; simp add: v_proved v_ok_imp_k_ok)

definition loci_validate_of_oxm_bsn_udf5_masked_OF_VERSION_1_3 :: validator where
  "loci_validate_of_oxm_bsn_udf5_masked_OF_VERSION_1_3 =
     v_min 12 (v_set_len 12 v_done)"

lemma loci_validate_of_oxm_bsn_udf5_masked_OF_VERSION_1_3_ok [v_proved]: "v_ok loci_validate_of_oxm_bsn_udf5_masked_OF_VERSION_1_3"
  unfolding loci_validate_of_oxm_bsn_udf5_masked_OF_VERSION_1_3_def by (intro v_intro; simp add: v_proved v_ok_imp_k_ok)

definition loci_validate_of_oxm_bsn_udf6_OF_VERSION_1_3 :: validator where
  "loci_validate_of_oxm_bsn_udf6_OF_VERSION_1_3 =
     v_min 8 (v_set_len 8 v_done)"

lemma loci_validate_of_oxm_bsn_udf6_OF_VERSION_1_3_ok [v_proved]: "v_ok loci_validate_of_oxm_bsn_udf6_OF_VERSION_1_3"
  unfolding loci_validate_of_oxm_bsn_udf6_OF_VERSION_1_3_def by (intro v_intro; simp add: v_proved v_ok_imp_k_ok)

definition loci_validate_of_oxm_bsn_udf6_masked_OF_VERSION_1_3 :: validator where
  "loci_validate_of_oxm_bsn_udf6_masked_OF_VERSION_1_3 =
     v_min 12 (v_set_len 12 v_done)"

lemma loci_validate_of_oxm_bsn_udf6_masked_OF_VERSION_1_3_ok [v_proved]: "v_ok loci_validate_of_oxm_bsn_udf6_masked_OF_VERSION_1_3"
  unfolding loci_validate_of_oxm_bsn_udf6_masked_OF_VERSION_1_3_def by (intro v_intro; simp add: v_proved v_ok_imp_k_ok)

definition loci_validate_of_oxm_bsn_udf7_OF_VERSION_1_3 :: validator where
  "loci_validate_of_oxm_bsn_udf7_OF_VERSION_1_3 =
     v_min 8 (v_set_len 8 v_done)"

lemma loci_validate_of_oxm_bsn_udf7_OF_VERSION_1_3_ok [v_proved]: "v_ok loci_validate_of_oxm_bsn_udf7_OF_VERSION_1_3"
  unfolding loci_validate_of_oxm_bsn_udf7_OF_VERSION_1_3_def by (intro v_intro; simp add: v_proved v_ok_imp_k_ok)

definition loci_validate_of_oxm_bsn_udf7_masked_OF_VERSION_1_3 :: validator where
  "loci_validate_of_oxm_bsn_udf7_masked_OF_VERSION_1_3 =
     v_min 12 (v_set_len 12 v_done)"

lemma loci_validate_of_oxm_bsn_udf7_masked_OF_VERSION_1_3_ok [v_proved]: "v_ok loci_validate_of_oxm_bsn_udf7_masked_OF_VERSION_1_3"
  unfolding loci_validate_of_oxm_bsn_udf7_masked_OF_VERSION_1_3_def by (intro v_intro; simp add: v_proved v_ok_imp_k_ok)

definition loci_validate_of_oxm_bsn_vlan_xlate_port_group_id_OF_VERSION_1_3 :: validator where
  "loci_validate_of_oxm_bsn_vlan_xlate_port_group_id_OF_VERSION_1_3 =
     v_min 8 (v_set_len 8 v_done)"

lemma loci_validate_of_oxm_bsn_vlan_xlate_port_group_id_OF_VERSION_1_3_ok [v_proved]: "v_ok loci_validate_of_oxm_bsn_vlan_xlate_port_group_id_OF_VERSION_1_3"
  unfolding loci_validate_of_oxm_bsn_vlan_xlate_port_group_id_OF_VERSION_1_3_def by (intro v_intro; simp add: v_proved v_ok_imp_k_ok)

definition loci_validate_of_oxm_bsn_vlan_xlate_port_group_id_masked_OF_VERSION_1_3 :: validator where
  "loci_validate_of_oxm_bsn_vlan_xlate_port_group_id_masked_OF_VERSION_1_3 =
     v_min 12 (v_set_len 12 v_done)"

lemma loci_validate_of_oxm_bsn_vlan_xlate_port_group_id_masked_OF_VERSION_1_3_ok [v_proved]: "v_ok loci_validate_of_oxm_bsn_vlan_xlate_port_group_id_masked_OF_VERSION_1_3"
  unfolding loci_validate_of_oxm_bsn_vlan_xlate_port_group_id_masked_OF_VERSION_1_3_def by (intro v_intro; simp add: v_proved v_ok_imp_k_ok)

definition loci_validate_of_oxm_bsn_vrf_OF_VERSION_1_3 :: validator where
  "loci_validate_of_oxm_bsn_vrf_OF_VERSION_1_3 =
     v_min 8 (v_set_len 8 v_done)"

lemma loci_validate_of_oxm_bsn_vrf_OF_VERSION_1_3_ok [v_proved]: "v_ok loci_validate_of_oxm_bsn_vrf_OF_VERSION_1_3"
  unfolding loci_validate_of_oxm_bsn_vrf_OF_VERSION_1_3_def by (intro v_intro; simp add: v_proved v_ok_imp_k_ok)

definition loci_validate_of_oxm_bsn_vrf_masked_OF_VERSION_1_3 :: validator where
  "loci_validate_of_oxm_bsn_vrf_masked_OF_VERSION_1_3 =
     v_min 12 (v_set_len 12 v_done)"

lemma loci_validate_of_oxm_bsn_vrf_masked_OF_VERSION_1_3_ok [v_proved]: "v_ok loci_validate_of_oxm_bsn_vrf_masked_OF_VERSION_1_3"
  unfolding loci_validate_of_oxm_bsn_vrf_masked_OF_VERSION_1_3_def by (intro v_intro; simp add: v_proved v_ok_imp_k_ok)

definition loci_validate_of_oxm_eth_dst_OF_VERSION_1_3 :: validator where
  "loci_validate_of_oxm_eth_dst_OF_VERSION_1_3 =
     v_min 10 (v_set_len 10 v_done)"

lemma loci_validate_of_oxm_eth_dst_OF_VERSION_1_3_ok [v_proved]: "v_ok loci_validate_of_oxm_eth_dst_OF_VERSION_1_3"
  unfolding loci_validate_of_oxm_eth_dst_OF_VERSION_1_3_def by (intro v_intro; simp add: v_proved v_ok_imp_k_ok)

definition loci_validate_of_oxm_eth_dst_masked_OF_VERSION_1_3 :: validator where
  "loci_validate_of_oxm_eth_dst_masked_OF_VERSION_1_3 =
     v_min 16 (v_set_len 16 v_done)"

lemma loci_validate_of_oxm_eth_dst_masked_OF_VERSION_1_3_ok [v_proved]: "v_ok loci_validate_of_oxm_eth_dst_masked_OF_VERSION_1_3"
  unfolding loci_validate_of_oxm_eth_dst_masked_OF_VERSION_1_3_def by (intro v_intro; simp add: v_proved v_ok_imp_k_ok)

definition loci_validate_of_oxm_eth_src_OF_VERSION_1_3 :: validator where
  "loci_validate_of_oxm_eth_src_OF_VERSION_1_3 =
     v_min 10 (v_set_len 10 v_done)"

lemma loci_validate_of_oxm_eth_src_OF_VERSION_1_3_ok [v_proved]: "v_ok loci_validate_of_oxm_eth_src_OF_VERSION_1_3"
  unfolding loci_validate_of_oxm_eth_src_OF_VERSION_1_3_def by (intro v_intro; simp add: v_proved v_ok_imp_k_ok)

definition loci_validate_of_oxm_eth_src_masked_OF_VERSION_1_3 :: validator where
  "loci_validate_of_oxm_eth_src_masked_OF_VERSION_1_3 =
     v_min 16 (v_set_len 16 v_done)"

lemma loci_validate_of_oxm_eth_src_masked_OF_VERSION_1_3_ok [v_proved]: "v_ok loci_validate_of_oxm_eth_src_masked_OF_VERSION_1_3"
  unfolding loci_validate_of_oxm_eth_src_masked_OF_VERSION_1_3_def by (intro v_intro; simp add: v_proved v_ok_imp_k_ok)

definition loci_validate_of_oxm_eth_type_OF_VERSION_1_3 :: validator where
  "loci_validate_of_oxm_eth_type_OF_VERSION_1_3 =
     v_min 6 (v_set_len 6 v_done)"

lemma loci_validate_of_oxm_eth_type_OF_VERSION_1_3_ok [v_proved]: "v_ok loci_validate_of_oxm_eth_type_OF_VERSION_1_3"
  unfolding loci_validate_of_oxm_eth_type_OF_VERSION_1_3_def by (intro v_intro; simp add: v_proved v_ok_imp_k_ok)

definition loci_validate_of_oxm_eth_type_masked_OF_VERSION_1_3 :: validator where
  "loci_validate_of_oxm_eth_type_masked_OF_VERSION_1_3 =
     v_min 8 (v_set_len 8 v_done)"

lemma loci_validate_of_oxm_eth_type_masked_OF_VERSION_1_3_ok [v_proved]: "v_ok loci_validate_of_oxm_eth_type_masked_OF_VERSION_1_3"
  unfolding loci_validate_of_oxm_eth_type_masked_OF_VERSION_1_3_def by (intro v_intro; simp add: v_proved v_ok_imp_k_ok)

definition loci_validate_of_oxm_icmpv4_code_OF_VERSION_1_3 :: validator where
  "loci_validate_of_oxm_icmpv4_code_OF_VERSION_1_3 =
     v_min 5 (v_set_len 5 v_done)"

lemma loci_validate_of_oxm_icmpv4_code_OF_VERSION_1_3_ok [v_proved]: "v_ok loci_validate_of_oxm_icmpv4_code_OF_VERSION_1_3"
  unfolding loci_validate_of_oxm_icmpv4_code_OF_VERSION_1_3_def by (intro v_intro; simp add: v_proved v_ok_imp_k_ok)

definition loci_validate_of_oxm_icmpv4_code_masked_OF_VERSION_1_3 :: validator where
  "loci_validate_of_oxm_icmpv4_code_masked_OF_VERSION_1_3 =
     v_min 6 (v_set_len 6 v_done)"

lemma loci_validate_of_oxm_icmpv4_code_masked_OF_VERSION_1_3_ok [v_proved]: "v_ok loci_validate_of_oxm_icmpv4_code_masked_OF_VERSION_1_3"
  unfolding loci_validate_of_oxm_icmpv4_code_masked_OF_VERSION_1_3_def by (intro v_intro; simp add: v_proved v_ok_imp_k_ok)

definition loci_validate_of_oxm_icmpv4_type_OF_VERSION_1_3 :: validator where
  "loci_validate_of_oxm_icmpv4_type_OF_VERSION_1_3 =
     v_min 5 (v_set_len 5 v_done)"

lemma loci_validate_of_oxm_icmpv4_type_OF_VERSION_1_3_ok [v_proved]: "v_ok loci_validate_of_oxm_icmpv4_type_OF_VERSION_1_3"
  unfolding loci_validate_of_oxm_icmpv4_type_OF_VERSION_1_3_def by (intro v_intro; simp add: v_proved v_ok_imp_k_ok)

definition loci_validate_of_oxm_icmpv4_type_masked_OF_VERSION_1_3 :: validator where
  "loci_validate_of_oxm_icmpv4_type_masked_OF_VERSION_1_3 =
     v_min 6 (v_set_len 6 v_done)"

lemma loci_validate_of_oxm_icmpv4_type_masked_OF_VERSION_1_3_ok [v_proved]: "v_ok loci_validate_of_oxm_icmpv4_type_masked_OF_VERSION_1_3"
  unfolding loci_validate_of_oxm_icmpv4_type_masked_OF_VERSION_1_3_def by (intro v_intro; simp add: v_proved v_ok_imp_k_ok)

definition loci_validate_of_oxm_icmpv6_code_OF_VERSION_1_3 :: validator where
  "loci_validate_of_oxm_icmpv6_code_OF_VERSION_1_3 =
     v_min 5 (v_set_len 5 v_done)"

lemma loci_validate_of_oxm_icmpv6_code_OF_VERSION_1_3_ok [v_proved]: "v_ok loci_validate_of_oxm_icmpv6_code_OF_VERSION_1_3"
  unfolding loci_validate_of_oxm_icmpv6_code_OF_VERSION_1_3_def by (intro v_intro; simp add: v_proved v_ok_imp_k_ok)

definition loci_validate_of_oxm_icmpv6_code_masked_OF_VERSION_1_3 :: validator where
  "loci_validate_of_oxm_icmpv6_code_masked_OF_VERSION_1_3 =
     v_min 6 (v_set_len 6 v_done)"

lemma loci_validate_of_oxm_icmpv6_code_masked_OF_VERSION_1_3_ok [v_proved]: "v_ok loci_validate_of_oxm_icmpv6_code_masked_OF_VERSION_1_3"
  unfolding loci_validate_of_oxm_icmpv6_code_masked_OF_VERSION_1_3_def by (intro v_intro; simp add: v_proved v_ok_imp_k_ok)

definition loci_validate_of_oxm_icmpv6_type_OF_VERSION_1_3 :: validator where
  "loci_validate_of_oxm_icmpv6_type_OF_VERSION_1_3 =
     v_min 5 (v_set_len 5 v_done)"

lemma loci_validate_of_oxm_icmpv6_type_OF_VERSION_1_3_ok [v_proved]: "v_ok loci_validate_of_oxm_icmpv6_type_OF_VERSION_1_3"
  unfolding loci_validate_of_oxm_icmpv6_type_OF_VERSION_1_3_def by (intro v_intro; simp add: v_proved v_ok_imp_k_ok)

definition loci_validate_of_oxm_icmpv6_type_masked_OF_VERSION_1_3 :: validator where
  "loci_validate_of_oxm_icmpv6_type_masked_OF_VERSION_1_3 =
     v_min 6 (v_set_len 6 v_done)"

lemma loci_validate_of_oxm_icmpv6_type_masked_OF_VERSION_1_3_ok [v_proved]: "v_ok loci_validate_of_oxm_icmpv6_type_masked_OF_VERSION_1_3"
  unfolding loci_validate_of_oxm_icmpv6_type_masked_OF_VERSION_1_3_def by (intro v_intro; simp add: v_proved v_ok_imp_k_ok)

definition loci_validate_of_oxm_in_phy_port_OF_VERSION_1_3 :: validator where
  "loci_validate_of_oxm_in_phy_port_OF_VERSION_1_3 =
     v_min 8 (v_set_len 8 v_done)"

lemma loci_validate_of_oxm_in_phy_port_OF_VERSION_1_3_ok [v_proved]: "v_ok loci_validate_of_oxm_in_phy_port_OF_VERSION_1_3"
  unfolding loci_validate_of_oxm_in_phy_port_OF_VERSION_1_3_def by (intro v_intro; simp add: v_proved v_ok_imp_k_ok)

definition loci_validate_of_oxm_in_phy_port_masked_OF_VERSION_1_3 :: validator where
  "loci_validate_of_oxm_in_phy_port_masked_OF_VERSION_1_3 =
     v_min 12 (v_set_len 12 v_done)"

lemma loci_validate_of_oxm_in_phy_port_masked_OF_VERSION_1_3_ok [v_proved]: "v_ok loci_validate_of_oxm_in_phy_port_masked_OF_VERSION_1_3"
  unfolding loci_validate_of_oxm_in_phy_port_masked_OF_VERSION_1_3_def by (intro v_intro; simp add: v_proved v_ok_imp_k_ok)

definition loci_validate_of_oxm_in_port_OF_VERSION_1_3 :: validator where
  "loci_validate_of_oxm_in_port_OF_VERSION_1_3 =
     v_min 8 (v_set_len 8 v_done)"

lemma loci_validate_of_oxm_in_port_OF_VERSION_1_3_ok [v_proved]: "v_ok loci_validate_of_oxm_in_port_OF_VERSION_1_3"
  unfolding loci_validate_of_oxm_in_port_OF_VERSION_1_3_def by (intro v_intro; simp add: v_proved v_ok_imp_k_ok)

definition loci_validate_of_oxm_in_port_masked_OF_VERSION_1_3 :: validator where
  "loci_validate_of_oxm_in_port_masked_OF_VERSION_1_3 =
     v_min 12 (v_set_len 12 v_done)"

lemma loci_validate_of_oxm_in_port_masked_OF_VERSION_1_3_ok [v_proved]: "v_ok loci_validate_of_oxm_in_port_masked_OF_VERSION_1_3"
  unfolding loci_validate_of_oxm_in_port_masked_OF_VERSION_1_3_def by (intro v_intro; simp add: v_proved v_ok_imp_k_ok)

definition loci_validate_of_oxm_ip_dscp_OF_VERSION_1_3 :: validator where
  "loci_validate_of_oxm_ip_dscp_OF_VERSION_1_3 =
     v_min 5 (v_set_len 5 v_done)"

lemma loci_validate_of_oxm_ip_dscp_OF_VERSION_1_3_ok [v_proved]: "v_ok loci_validate_of_oxm_ip_dscp_OF_VERSION_1_3"
  unfolding loci_validate_of_oxm_ip_dscp_OF_VERSION_1_3_def by (intro v_intro; simp add: v_proved v_ok_imp_k_ok)

definition loci_validate_of_oxm_ip_dscp_masked_OF_VERSION_1_3 :: validator where
  "loci_validate_of_oxm_ip_dscp_masked_OF_VERSION_1_3 =
     v_min 6 (v_set_len 6 v_done)"

lemma loci_validate_of_oxm_ip_dscp_masked_OF_VERSION_1_3_ok [v_proved]: "v_ok loci_validate_of_oxm_ip_dscp_masked_OF_VERSION_1_3"
  unfolding loci_validate_of_oxm_ip_dscp_masked_OF_VERSION_1_3_def by (intro v_intro; simp add: v_proved v_ok_imp_k_ok)

definition loci_validate_of_oxm_ip_ecn_OF_VERSION_1_3 :: validator where
  "loci_validate_of_oxm_ip_ecn_OF_VERSION_1_3 =
     v_min 5 (v_set_len 5 v_done)"

lemma loci_validate_of_oxm_ip_ecn_OF_VERSION_1_3_ok [v_proved]: "v_ok loci_validate_of_oxm_ip_ecn_OF_VERSION_1_3"
  unfolding loci_validate_of_oxm_ip_ecn_OF_VERSION_1_3_def by (intro v_intro; simp add: v_proved v_ok_imp_k_ok)

definition loci_validate_of_oxm_ip_ecn_masked_OF_VERSION_1_3 :: validator where
  "loci_validate_of_oxm_ip_ecn_masked_OF_VERSION_1_3 =
     v_min 6 (v_set_len 6 v_done)"

lemma loci_validate_of_oxm_ip_ecn_masked_OF_VERSION_1_3_ok [v_proved]: "v_ok loci_validate_of_oxm_ip_ecn_masked_OF_VERSION_1_3"
  unfolding loci_validate_of_oxm_ip_ecn_masked_OF_VERSION_1_3_def by (intro v_intro; simp add: v_proved v_ok_imp_k_ok)

definition loci_validate_of_oxm_ip_proto_OF_VERSION_1_3 :: validator where
  "loci_validate_of_oxm_ip_proto_OF_VERSION_1_3 =
     v_min 5 (v_set_len 5 v_done)"

lemma loci_validate_of_oxm_ip_proto_OF_VERSION_1_3_ok [v_proved]: "v_ok loci_validate_of_oxm_ip_proto_OF_VERSION_1_3"
  unfolding loci_validate_of_oxm_ip_proto_OF_VERSION_1_3_def by (intro v_intro; simp add: v_proved v_ok_imp_k_ok)

definition loci_validate_of_oxm_ip_proto_masked_OF_VERSION_1_3 :: validator where
  "loci_validate_of_oxm_ip_proto_masked_OF_VERSION_1_3 =
     v_min 6 (v_set_len 6 v_done)"

lemma loci_validate_of_oxm_ip_proto_masked_OF_VERSION_1_3_ok [v_proved]: "v_ok loci_validate_of_oxm_ip_proto_masked_OF_VERSION_1_3"
  unfolding loci_validate_of_oxm_ip_proto_masked_OF_VERSION_1_3_def by (intro v_intro; simp add: v_proved v_ok_imp_k_ok)

definition loci_validate_of_oxm_ipv4_dst_OF_VERSION_1_3 :: validator where
  "loci_validate_of_oxm_ipv4_dst_OF_VERSION_1_3 =
     v_min 8 (v_set_len 8 v_done)"

lemma loci_validate_of_oxm_ipv4_dst_OF_VERSION_1_3_ok [v_proved]: "v_ok loci_validate_of_oxm_ipv4_dst_OF_VERSION_1_3"
  unfolding loci_validate_of_oxm_ipv4_dst_OF_VERSION_1_3_def by (intro v_intro; simp add: v_proved v_ok_imp_k_ok)

definition loci_validate_of_oxm_ipv4_dst_masked_OF_VERSION_1_3 :: validator where
  "loci_validate_of_oxm_ipv4_dst_masked_OF_VERSION_1_3 =
     v_min 12 (v_set_len 12 v_done)"

lemma loci_validate_of_oxm_ipv4_dst_masked_OF_VERSION_1_3_ok [v_proved]: "v_ok loci_validate_of_oxm_ipv4_dst_masked_OF_VERSION_1_3"
  unfolding loci_validate_of_oxm_ipv4_dst_masked_OF_VERSION_1_3_def by (intro v_intro; simp add: v_proved v_ok_imp_k_ok)

definition loci_validate_of_oxm_ipv4_src_OF_VERSION_1_3 :: validator where
  "loci_validate_of_oxm_ipv4_src_OF_VERSION_1_3 =
     v_min 8 (v_set_len 8 v_done)"

lemma loci_validate_of_oxm_ipv4_src_OF_VERSION_1_3_ok [v_proved]: "v_ok loci_validate_of_oxm_ipv4_src_OF_VERSION_1_3"
  unfolding loci_validate_of_oxm_ipv4_src_OF_VERSION_1_3_def by (intro v_intro; simp add: v_proved v_ok_imp_k_ok)

definition loci_validate_of_oxm_ipv4_src_masked_OF_VERSION_1_3 :: validator where
  "loci_validate_of_oxm_ipv4_src_masked_OF_VERSION_1_3 =
     v_min 12 (v_set_len 12 v_done)"

lemma loci_validate_of_oxm_ipv4_src_masked_OF_VERSION_1_3_ok [v_proved]: "v_ok loci_validate_of_oxm_ipv4_src_masked_OF_VERSION_1_3"
  unfolding loci_validate_of_oxm_ipv4_src_masked_OF_VERSION_1_3_def by (intro v_intro; simp add: v_proved v_ok_imp_k_ok)

definition loci_validate_of_oxm_ipv6_dst_OF_VERSION_1_3 :: validator where
  "loci_validate_of_oxm_ipv6_dst_OF_VERSION_1_3 =
     v_min 20 (v_set_len 20 v_done)"

lemma loci_validate_of_oxm_ipv6_dst_OF_VERSION_1_3_ok [v_proved]: "v_ok loci_validate_of_oxm_ipv6_dst_OF_VERSION_1_3"
  unfolding loci_validate_of_oxm_ipv6_dst_OF_VERSION_1_3_def by (intro v_intro; simp add: v_proved v_ok_imp_k_ok)

definition loci_validate_of_oxm_ipv6_dst_masked_OF_VERSION_1_3 :: validator where
  "loci_validate_of_oxm_ipv6_dst_masked_OF_VERSION_1_3 =
     v_min 36 (v_set_len 36 v_done)"

lemma loci_validate_of_oxm_ipv6_dst_masked_OF_VERSION_1_3_ok [v_proved]: "v_ok loci_validate_of_oxm_ipv6_dst_masked_OF_VERSION_1_3"
  unfolding loci_validate_of_oxm_ipv6_dst_masked_OF_VERSION_1_3_def by (intro v_intro; simp add: v_proved v_ok_imp_k_ok)

definition loci_validate_of_oxm_ipv6_exthdr_OF_VERSION_1_3 :: validator where
  "loci_validate_of_oxm_ipv6_exthdr_OF_VERSION_1_3 =
     v_min 6 (v_set_len 6 v_done)"

lemma loci_validate_of_oxm_ipv6_exthdr_OF_VERSION_1_3_ok [v_proved]: "v_ok loci_validate_of_oxm_ipv6_exthdr_OF_VERSION_1_3"
  unfolding loci_validate_of_oxm_ipv6_exthdr_OF_VERSION_1_3_def by (intro v_intro; simp add: v_proved v_ok_imp_k_ok)

definition loci_validate_of_oxm_ipv6_exthdr_masked_OF_VERSION_1_3 :: validator where
  "loci_validate_of_oxm_ipv6_exthdr_masked_OF_VERSION_1_3 =
     v_min 8 (v_set_len 8 v_done)"

lemma loci_validate_of_oxm_ipv6_exthdr_masked_OF_VERSION_1_3_ok [v_proved]: "v_ok loci_validate_of_oxm_ipv6_exthdr_masked_OF_VERSION_1_3"
  unfolding loci_validate_of_oxm_ipv6_exthdr_masked_OF_VERSION_1_3_def by (intro v_intro; simp add: v_proved v_ok_imp_k_ok)

definition loci_validate_of_oxm_ipv6_flabel_OF_VERSION_1_3 :: validator where
  "loci_validate_of_oxm_ipv6_flabel_OF_VERSION_1_3 =
     v_min 8 (v_set_len 8 v_done)"

lemma loci_validate_of_oxm_ipv6_flabel_OF_VERSION_1_3_ok [v_proved]: "v_ok loci_validate_of_oxm_ipv6_flabel_OF_VERSION_1_3"
  unfolding loci_validate_of_oxm_ipv6_flabel_OF_VERSION_1_3_def by (intro v_intro; simp add: v_proved v_ok_imp_k_ok)

definition loci_validate_of_oxm_ipv6_flabel_masked_OF_VERSION_1_3 :: validator where
  "loci_validate_of_oxm_ipv6_flabel_masked_OF_VERSION_1_3 =
     v_min 12 (v_set_len 12 v_done)"

lemma loci_validate_of_oxm_ipv6_flabel_masked_OF_VERSION_1_3_ok [v_proved]: "v_ok loci_validate_of_oxm_ipv6_flabel_masked_OF_VERSION_1_3"
  unfolding loci_validate_of_oxm_ipv6_flabel_masked_OF_VERSION_1_3_def by (intro v_intro; simp add: v_proved v_ok_imp_k_ok)

definition loci_validate_of_oxm_ipv6_nd_sll_OF_VERSION_1_3 :: validator where
  "loci_validate_of_oxm_ipv6_nd_sll_OF_VERSION_1_3 =
     v_min 10 (v_set_len 10 v_done)"

lemma loci_validate_of_oxm_ipv6_nd_sll_OF_VERSION_1_3_ok [v_proved]: "v_ok loci_validate_of_oxm_ipv6_nd_sll_OF_VERSION_1_3"
  unfolding loci_validate_of_oxm_ipv6_nd_sll_OF_VERSION_1_3_def by (intro v_intro; simp add: v_proved v_ok_imp_k_ok)

definition loci_validate_of_oxm_ipv6_nd_sll_masked_OF_VERSION_1_3 :: validator where
  "loci_validate_of_oxm_ipv6_nd_sll_masked_OF_VERSION_1_3 =
     v_min 16 (v_set_len 16 v_done)"

lemma loci_validate_of_oxm_ipv6_nd_sll_masked_OF_VERSION_1_3_ok [v_proved]: "v_ok loci_validate_of_oxm_ipv6_nd_sll_masked_OF_VERSION_1_3"
  unfolding loci_validate_of_oxm_ipv6_nd_sll_masked_OF_VERSION_1_3_def by (intro v_intro; simp add: v_proved v_ok_imp_k_ok)

definition loci_validate_of_oxm_ipv6_nd_target_OF_VERSION_1_3 :: validator where
  "loci_validate_of_oxm_ipv6_nd_target_OF_VERSION_1_3 =
     v_min 20 (v_set_len 20 v_done)"

lemma loci_validate_of_oxm_ipv6_nd_target_OF_VERSION_1_3_ok [v_proved]: "v_ok loci_validate_of_oxm_ipv6_nd_target_OF_VERSION_1_3"
  unfolding loci_validate_of_oxm_ipv6_nd_target_OF_VERSION_1_3_def by (intro v_intro; simp add: v_proved v_ok_imp_k_ok)

definition loci_validate_of_oxm_ipv6_nd_target_masked_OF_VERSION_1_3 :: validator where
  "loci_validate_of_oxm_ipv6_nd_target_masked_OF_VERSION_1_3 =
     v_min 36 (v_set_len 36 v_done)"

lemma loci_validate_of_oxm_ipv6_nd_target_masked_OF_VERSION_1_3_ok [v_proved]: "v_ok loci_validate_of_oxm_ipv6_nd_target_masked_OF_VERSION_1_3"
  unfolding loci_validate_of_oxm_ipv6_nd_target_masked_OF_VERSION_1_3_def by (intro v_intro; simp add: v_proved v_ok_imp_k_ok)

definition loci_validate_of_oxm_ipv6_nd_tll_OF_VERSION_1_3 :: validator where
  "loci_validate_of_oxm_ipv6_nd_tll_OF_VERSION_1_3 =
     v_min 10 (v_set_len 10 v_done)"

lemma loci_validate_of_oxm_ipv6_nd_tll_OF_VERSION_1_3_ok [v_proved]: "v_ok loci_validate_of_oxm_ipv6_nd_tll_OF_VERSION_1_3"
  unfolding loci_validate_of_oxm_ipv6_nd_tll_OF_VERSION_1_3_def by (intro v_intro; simp add: v_proved v_ok_imp_k_ok)

definition loci_validate_of_oxm_ipv6_nd_tll_masked_OF_VERSION_1_3 :: validator where
  "loci_validate_of_oxm_ipv6_nd_tll_masked_OF_VERSION_1_3 =
     v_min 16 (v_set_len 16 v_done)"

lemma loci_validate_of_oxm_ipv6_nd_tll_masked_OF_VERSION_1_3_ok [v_proved]: "v_ok loci_validate_of_oxm_ipv6_nd_tll_masked_OF_VERSION_1_3"
  unfolding loci_validate_of_oxm_ipv6_nd_tll_masked_OF_VERSION_1_3_def by (intro v_intro; simp add: v_proved v_ok_imp_k_ok)

definition loci_validate_of_oxm_ipv6_src_OF_VERSION_1_3 :: validator where
  "loci_validate_of_oxm_ipv6_src_OF_VERSION_1_3 =
     v_min 20 (v_set_len 20 v_done)"

lemma loci_validate_of_oxm_ipv6_src_OF_VERSION_1_3_ok [v_proved]: "v_ok loci_validate_of_oxm_ipv6_src_OF_VERSION_1_3"
  unfolding loci_validate_of_oxm_ipv6_src_OF_VERSION_1_3_def by (intro v_intro; simp add: v_proved v_ok_imp_k_ok)

definition loci_validate_of_oxm_ipv6_src_masked_OF_VERSION_1_3 :: validator where
  "loci_validate_of_oxm_ipv6_src_masked_OF_VERSION_1_3 =
     v_min 36 (v_set_len 36 v_done)"

lemma loci_validate_of_oxm_ipv6_src_masked_OF_VERSION_1_3_ok [v_proved]: "v_ok loci_validate_of_oxm_ipv6_src_masked_OF_VERSION_1_3"
  unfolding loci_validate_of_oxm_ipv6_src_masked_OF_VERSION_1_3_def by (intro v_intro; simp add: v_proved v_ok_imp_k_ok)

definition loci_validate_of_oxm_metadata_OF_VERSION_1_3 :: validator where
  "loci_validate_of_oxm_metadata_OF_VERSION_1_3 =
     v_min 12 (v_set_len 12 v_done)"

lemma loci_validate_of_oxm_metadata_OF_VERSION_1_3_ok [v_proved]: "v_ok loci_validate_of_oxm_metadata_OF_VERSION_1_3"
  unfolding loci_validate_of_oxm_metadata_OF_VERSION_1_3_def by (intro v_intro; simp add: v_proved v_ok_imp_k_ok)

definition loci_validate_of_oxm_metadata_masked_OF_VERSION_1_3 :: validator where
  "loci_validate_of_oxm_metadata_masked_OF_VERSION_1_3 =
     v_min 20 (v_set_len 20 v_done)"

lemma loci_validate_of_oxm_metadata_masked_OF_VERSION_1_3_ok [v_proved]: "v_ok loci_validate_of_oxm_metadata_masked_OF_VERSION_1_3"
  unfolding loci_validate_of_oxm_metadata_masked_OF_VERSION_1_3_def by (intro v_intro; simp add: v_proved v_ok_imp_k_ok)

definition loci_validate_of_oxm_mpls_bos_OF_VERSION_1_3 :: validator where
  "loci_validate_of_oxm_mpls_bos_OF_VERSION_1_3 =
     v_min 5 (v_set_len 5 v_done)"

lemma loci_validate_of_oxm_mpls_bos_OF_VERSION_1_3_ok [v_proved]: "v_ok loci_validate_of_oxm_mpls_bos_OF_VERSION_1_3"
  unfolding loci_validate_of_oxm_mpls_bos_OF_VERSION_1_3_def by (intro v_intro; simp add: v_proved v_ok_imp_k_ok)

definition loci_validate_of_oxm_mpls_bos_masked_OF_VERSION_1_3 :: validator where
  "loci_validate_of_oxm_mpls_bos_masked_OF_VERSION_1_3 =
     v_min 6 (v_set_len 6 v_done)"

lemma loci_validate_of_oxm_mpls_bos_masked_OF_VERSION_1_3_ok [v_proved]: "v_ok loci_validate_of_oxm_mpls_bos_masked_OF_VERSION_1_3"
  unfolding loci_validate_of_oxm_mpls_bos_masked_OF_VERSION_1_3_def by (intro v_intro; simp add: v_proved v_ok_imp_k_ok)

definition loci_validate_of_oxm_mpls_label_OF_VERSION_1_3 :: validator where
  "loci_validate_of_oxm_mpls_label_OF_VERSION_1_3 =
     v_min 8 (v_set_len 8 v_done)"

lemma loci_validate_of_oxm_mpls_label_OF_VERSION_1_3_ok [v_proved]: "v_ok loci_validate_of_oxm_mpls_label_OF_VERSION_1_3"
  unfolding loci_validate_of_oxm_mpls_label_OF_VERSION_1_3_def by (intro v_intro; simp add: v_proved v_ok_imp_k_ok)

definition loci_validate_of_oxm_mpls_label_masked_OF_VERSION_1_3 :: validator where
  "loci_validate_of_oxm_mpls_label_masked_OF_VERSION_1_3 =
     v_min 12 (v_set_len 12 v_done)"

lemma loci_validate_of_oxm_mpls_label_masked_OF_VERSION_1_3_ok [v_proved]: "v_ok loci_validate_of_oxm_mpls_label_masked_OF_VERSION_1_3"
  unfolding loci_validate_of_oxm_mpls_label_masked_OF_VERSION_1_3_def by (intro v_intro; simp add: v_proved v_ok_imp_k_ok)

definition loci_validate_of_oxm_mpls_tc_OF_VERSION_1_3 :: validator where
  "loci_validate_of_oxm_mpls_tc_OF_VERSION_1_3 =
     v_min 5 (v_set_len 5 v_done)"

lemma loci_validate_of_oxm_mpls_tc_OF_VERSION_1_3_ok [v_proved]: "v_ok loci_validate_of_oxm_mpls_tc_OF_VERSION_1_3"
  unfolding loci_validate_of_oxm_mpls_tc_OF_VERSION_1_3_def by (intro v_intro; simp add: v_proved v_ok_imp_k_ok)

definition loci_validate_of_oxm_mpls_tc_masked_OF_VERSION_1_3 :: validator where
  "loci_validate_of_oxm_mpls_tc_masked_OF_VERSION_1_3 =
     v_min 6 (v_set_len 6 v_done)"

lemma loci_validate_of_oxm_mpls_tc_masked_OF_VERSION_1_3_ok [v_proved]: "v_ok loci_validate_of_oxm_mpls_tc_masked_OF_VERSION_1_3"
  unfolding loci_validate_of_oxm_mpls_tc_masked_OF_VERSION_1_3_def by (intro v_intro; simp add: v_proved v_ok_imp_k_ok)

definition loci_validate_of_oxm_sctp_dst_OF_VERSION_1_3 :: validator where
  "loci_validate_of_oxm_sctp_dst_OF_VERSION_1_3 =
     v_min 6 (v_set_len 6 v_done)"

lemma loci_validate_of_oxm_sctp_dst_OF_VERSION_1_3_ok [v_proved]: "v_ok loci_validate_of_oxm_sctp_dst_OF_VERSION_1_3"
  unfolding loci_validate_of_oxm_sctp_dst_OF_VERSION_1_3_def by (intro v_intro; simp add: v_proved v_ok_imp_k_ok)

definition loci_validate_of_oxm_sctp_dst_masked_OF_VERSION_1_3 :: validator where
  "loci_validate_of_oxm_sctp_dst_masked_OF_VERSION_1_3 =
     v_min 8 (v_set_len 8 v_done)"

lemma loci_validate_of_oxm_sctp_dst_masked_OF_VERSION_1_3_ok [v_proved]: "v_ok loci_validate_of_oxm_sctp_dst_masked_OF_VERSION_1_3"
  unfolding loci_validate_of_oxm_sctp_dst_masked_OF_VERSION_1_3_def by (intro v_intro; simp add: v_proved v_ok_imp_k_ok)

definition loci_validate_of_oxm_sctp_src_OF_VERSION_1_3 :: validator where
  "loci_validate_of_oxm_sctp_src_OF_VERSION_1_3 =
     v_min 6 (v_set_len 6 v_done)"

lemma loci_validate_of_oxm_sctp_src_OF_VERSION_1_3_ok [v_proved]: "v_ok loci_validate_of_oxm_sctp_src_OF_VERSION_1_3"
  unfolding loci_validate_of_oxm_sctp_src_OF_VERSION_1_3_def by (intro v_intro; simp add: v_proved v_ok_imp_k_ok)

definition loci_validate_of_oxm_sctp_src_masked_OF_VERSION_1_3 :: validator where
  "loci_validate_of_oxm_sctp_src_masked_OF_VERSION_1_3 =
     v_min 8 (v_set_len 8 v_done)"

lemma loci_validate_of_oxm_sctp_src_masked_OF_VERSION_1_3_ok [v_proved]: "v_ok loci_validate_of_oxm_sctp_src_masked_OF_VERSION_1_3"
  unfolding loci_validate_of_oxm_sctp_src_masked_OF_VERSION_1_3_def by (intro v_intro; simp add: v_proved v_ok_imp_k_ok)

definition loci_validate_of_oxm_tcp_dst_OF_VERSION_1_3 :: validator where
  "loci_validate_of_oxm_tcp_dst_OF_VERSION_1_3 =
     v_min 6 (v_set_len 6 v_done)"

lemma loci_validate_of_oxm_tcp_dst_OF_VERSION_1_3_ok [v_proved]: "v_ok loci_validate_of_oxm_tcp_dst_OF_VERSION_1_3"
  unfolding loci_validate_of_oxm_tcp_dst_OF_VERSION_1_3_def by (intro v_intro; simp add: v_proved v_ok_imp_k_ok)

definition loci_validate_of_oxm_tcp_dst_masked_OF_VERSION_1_3 :: validator where
  "loci_validate_of_oxm_tcp_dst_masked_OF_VERSION_1_3 =
     v_min 8 (v_set_len 8 v_done)"

lemma loci_validate_of_oxm_tcp_dst_masked_OF_VERSION_1_3_ok [v_proved]: "v_ok loci_validate_of_oxm_tcp_dst_masked_OF_VERSION_1_3"
  unfolding loci_validate_of_oxm_tcp_dst_masked_OF_VERSION_1_3_def by (intro v_intro; simp add: v_proved v_ok_imp_k_ok)

definition loci_validate_of_oxm_tcp_src_OF_VERSION_1_3 :: validator where
  "loci_validate_of_oxm_tcp_src_OF_VERSION_1_3 =
     v_min 6 (v_set_len 6 v_done)"

lemma loci_validate_of_oxm_tcp_src_OF_VERSION_1_3_ok [v_proved]: "v_ok loci_validate_of_oxm_tcp_src_OF_VERSION_1_3"
  unfolding loci_validate_of_oxm_tcp_src_OF_VERSION_1_3_def by (intro v_intro; simp add: v_proved v_ok_imp_k_ok)

definition loci_validate_of_oxm_tcp_src_masked_OF_VERSION_1_3 :: validator where
  "loci_validate_of_oxm_tcp_src_masked_OF_VERSION_1_3 =
     v_min 8 (v_set_len 8 v_done)"

lemma loci_validate_of_oxm_tcp_src_masked_OF_VERSION_1_3_ok [v_proved]: "v_ok loci_validate_of_oxm_tcp_src_masked_OF_VERSION_1_3"
  unfolding loci_validate_of_oxm_tcp_src_masked_OF_VERSION_1_3_def by (intro v_intro; simp add: v_proved v_ok_imp_k_ok)

definition loci_validate_of_oxm_tunnel_id_OF_VERSION_1_3 :: validator where
  "loci_validate_of_oxm_tunnel_id_OF_VERSION_1_3 =
     v_min 12 (v_set_len 12 v_done)"

lemma loci_validate_of_oxm_tunnel_id_OF_VERSION_1_3_ok [v_proved]: "v_ok loci_validate_of_oxm_tunnel_id_OF_VERSION_1_3"
  unfolding loci_validate_of_oxm_tunnel_id_OF_VERSION_1_3_def by (intro v_intro; simp add: v_proved v_ok_imp_k_ok)

definition loci_validate_of_oxm_tunnel_id_masked_OF_VERSION_1_3 :: validator where
  "loci_validate_of_oxm_tunnel_id_masked_OF_VERSION_1_3 =
     v_min 20 (v_set_len 20 v_done)"

lemma loci_validate_of_oxm_tunnel_id_masked_OF_VERSION_1_3_ok [v_proved]: "v_ok loci_validate_of_oxm_tunnel_id_masked_OF_VERSION_1_3"
  unfolding loci_validate_of_oxm_tunnel_id_masked_OF_VERSION_1_3_def by (intro v_intro; simp add: v_proved v_ok_imp_k_ok)

definition loci_validate_of_oxm_tunnel_ipv4_dst_OF_VERSION_1_3 :: validator where
  "loci_validate_of_oxm_tunnel_ipv4_dst_OF_VERSION_1_3 =
     v_min 8 (v_set_len 8 v_done)"

lemma loci_validate_of_oxm_tunnel_ipv4_dst_OF_VERSION_1_3_ok [v_proved]: "v_ok loci_validate_of_oxm_tunnel_ipv4_dst_OF_VERSION_1_3"
  unfolding loci_validate_of_oxm_tunnel_ipv4_dst_OF_VERSION_1_3_def by (intro v_intro; simp add: v_proved v_ok_imp_k_ok)

definition loci_validate_of_oxm_tunnel_ipv4_dst_masked_OF_VERSION_1_3 :: validator where
  "loci_validate_of_oxm_tunnel_ipv4_dst_masked_OF_VERSION_1_3 =
     v_min 12 (v_set_len 12 v_done)"

lemma loci_validate_of_oxm_tunnel_ipv4_dst_masked_OF_VERSION_1_3_ok [v_proved]: "v_ok loci_validate_of_oxm_tunnel_ipv4_dst_masked_OF_VERSION_1_3"
  unfolding loci_validate_of_oxm_tunnel_ipv4_dst_masked_OF_VERSION_1_3_def by (intro v_intro; simp add: v_proved v_ok_imp_k_ok)

definition loci_validate_of_oxm_tunnel_ipv4_src_OF_VERSION_1_3 :: validator where
  "loci_validate_of_oxm_tunnel_ipv4_src_OF_VERSION_1_3 =
     v_min 8 (v_set_len 8 v_done)"

lemma loci_validate_of_oxm_tunnel_ipv4_src_OF_VERSION_1_3_ok [v_proved]: "v_ok loci_validate_of_oxm_tunnel_ipv4_src_OF_VERSION_1_3"
  unfolding loci_validate_of_oxm_tunnel_ipv4_src_OF_VERSION_1_3_def by (intro v_intro; simp add: v_proved v_ok_imp_k_ok)

definition loci_validate_of_oxm_tunnel_ipv4_src_masked_OF_VERSION_1_3 :: validator where
  "loci_validate_of_oxm_tunnel_ipv4_src_masked_OF_VERSION_1_3 =
     v_min 12 (v_set_len 12 v_done)"

lemma loci_validate_of_oxm_tunnel_ipv4_src_masked_OF_VERSION_1_3_ok [v_proved]: "v_ok loci_validate_of_oxm_tunnel_ipv4_src_masked_OF_VERSION_1_3"
  unfolding loci_validate_of_oxm_tunnel_ipv4_src_masked_OF_VERSION_1_3_def by (intro v_intro; simp add: v_proved v_ok_imp_k_ok)

definition loci_validate_of_oxm_udp_dst_OF_VERSION_1_3 :: validator where
  "loci_validate_of_oxm_udp_dst_OF_VERSION_1_3 =
     v_min 6 (v_set_len 6 v_done)"

lemma loci_validate_of_oxm_udp_dst_OF_VERSION_1_3_ok [v_proved]: "v_ok loci_validate_of_oxm_udp_dst_OF_VERSION_1_3"
  unfolding loci_validate_of_oxm_udp_dst_OF_VERSION_1_3_def by (intro v_intro; simp add: v_proved v_ok_imp_k_ok)

definition loci_validate_of_oxm_udp_dst_masked_OF_VERSION_1_3 :: validator where
  "loci_validate_of_oxm_udp_dst_masked_OF_VERSION_1_3 =
     v_min 8 (v_set_len 8 v_done)"

lemma loci_validate_of_oxm_udp_dst_masked_OF_VERSION_1_3_ok [v_proved]: "v_ok loci_validate_of_oxm_udp_dst_masked_OF_VERSION_1_3"
  unfolding loci_validate_of_oxm_udp_dst_masked_OF_VERSION_1_3_def by (intro v_intro; simp add: v_proved v_ok_imp_k_ok)

definition loci_validate_of_oxm_udp_src_OF_VERSION_1_3 :: validator where
  "loci_validate_of_oxm_udp_src_OF_VERSION_1_3 =
     v_min 6 (v_set_len 6 v_done)"

lemma loci_validate_of_oxm_udp_src_OF_VERSION_1_3_ok [v_proved]: "v_ok loci_validate_of_oxm_udp_src_OF_VERSION_1_3"
  unfolding loci_validate_of_oxm_udp_src_OF_VERSION_1_3_def by (intro v_intro; simp add: v_proved v_ok_imp_k_ok)

definition loci_validate_of_oxm_udp_src_masked_OF_VERSION_1_3 :: validator where
  "loci_validate_of_oxm_udp_src_masked_OF_VERSION_1_3 =
     v_min 8 (v_set_len 8 v_done)"

lemma loci_validate_of_oxm_udp_src_masked_OF_VERSION_1_3_ok [v_proved]: "v_ok loci_validate_of_oxm_udp_src_masked_OF_VERSION_1_3"
  unfolding loci_validate_of_oxm_udp_src_masked_OF_VERSION_1_3_def by (intro v_intro; simp add: v_proved v_ok_imp_k_ok)

definition loci_validate_of_oxm_vlan_pcp_OF_VERSION_1_3 :: validator where
  "loci_validate_of_oxm_vlan_pcp_OF_VERSION_1_3 =
     v_min 5 (v_set_len 5 v_done)"

lemma loci_validate_of_oxm_vlan_pcp_OF_VERSION_1_3_ok [v_proved]: "v_ok loci_validate_of_oxm_vlan_pcp_OF_VERSION_1_3"
  unfolding loci_validate_of_oxm_vlan_pcp_OF_VERSION_1_3_def by (intro v_intro; simp add: v_proved v_ok_imp_k_ok)

definition loci_validate_of_oxm_vlan_pcp_masked_OF_VERSION_1_3 :: validator where
  "loci_validate_of_oxm_vlan_pcp_masked_OF_VERSION_1_3 =
     v_min 6 (v_set_len 6 v_done)"

lemma loci_validate_of_oxm_vlan_pcp_masked_OF_VERSION_1_3_ok [v_proved]: "v_ok loci_validate_of_oxm_vlan_pcp_masked_OF_VERSION_1_3"
  unfolding loci_validate_of_oxm_vlan_pcp_masked_OF_VERSION_1_3_def by (intro v_intro; simp add: v_proved v_ok_imp_k_ok)

definition loci_validate_of_oxm_vlan_vid_OF_VERSION_1_3 :: validator where
  "loci_validate_of_oxm_vlan_vid_OF_VERSION_1_3 =
     v_min 6 (v_set_len 6 v_done)"

lemma loci_validate_of_oxm_vlan_vid_OF_VERSION_1_3_ok [v_proved]: "v_ok loci_validate_of_oxm_vlan_vid_OF_VERSION_1_3"
  unfolding loci_validate_of_oxm_vlan_vid_OF_VERSION_1_3_def by (intro v_intro; simp add: v_proved v_ok_imp_k_ok)

definition loci_validate_of_oxm_vlan_vid_masked_OF_VERSION_1_3 :: validator where
  "loci_validate_of_oxm_vlan_vid_masked_OF_VERSION_1_3 =
     v_min 8 (v_set_len 8 v_done)"

lemma loci_validate_of_oxm_vlan_vid_masked_OF_VERSION_1_3_ok [v_proved]: "v_ok loci_validate_of_oxm_vlan_vid_masked_OF_VERSION_1_3"
  unfolding loci_validate_of_oxm_vlan_vid_masked_OF_VERSION_1_3_def by (intro v_intro; simp add: v_proved v_ok_imp_k_ok)

definition loci_validate_of_oxm_OF_VERSION_1_3 :: validator where
  "loci_validate_of_oxm_OF_VERSION_1_3 =
     v_min 4 (v_switch32 0
      [(0x80002a02, loci_validate_of_oxm_arp_op_OF_VERSION_1_3),
       (0x80002b04, loci_validate_of_oxm_arp_op_masked_OF_VERSION_1_3),
       (0x80003006, loci_validate_of_oxm_arp_sha_OF_VERSION_1_3),
       (0x8000310c, loci_validate_of_oxm_arp_sha_masked_OF_VERSION_1_3),
       (0x80002c04, loci_validate_of_oxm_arp_spa_OF_VERSION_1_3),
       (0x80002d08, loci_validate_of_oxm_arp_spa_masked_OF_VERSION_1_3),
       (0x80003206, loci_validate_of_oxm_arp_tha_OF_VERSION_1_3),
       (0x8000330c, loci_validate_of_oxm_arp_tha_masked_OF_VERSION_1_3),
       (0x80002e04, loci_validate_of_oxm_arp_tpa_OF_VERSION_1_3),
       (0x80002f08, loci_validate_of_oxm_arp_tpa_masked_OF_VERSION_1_3),
       (0x30e04, loci_validate_of_oxm_bsn_egr_port_group_id_OF_VERSION_1_3),
       (0x30f08, loci_validate_of_oxm_bsn_egr_port_group_id_masked_OF_VERSION_1_3),
       (0x30601, loci_validate_of_oxm_bsn_global_vrf_allowed_OF_VERSION_1_3),
       (0x30702, loci_validate_of_oxm_bsn_global_vrf_allowed_masked_OF_VERSION_1_3),
       (0x30010, loci_validate_of_oxm_bsn_in_ports_128_OF_VERSION_1_3),
       (0x30120, loci_validate_of_oxm_bsn_in_ports_128_masked_OF_VERSION_1_3),
       (0x32640, loci_validate_of_oxm_bsn_in_ports_512_OF_VERSION_1_3),
       (0x32780, loci_validate_of_oxm_bsn_in_ports_512_masked_OF_VERSION_1_3),
       (0x32804, loci_validate_of_oxm_bsn_ingress_port_group_id_OF_VERSION_1_3),
       (0x32908, loci_validate_of_oxm_bsn_ingress_port_group_id_masked_OF_VERSION_1_3),
       (0x32401, loci_validate_of_oxm_bsn_l2_cache_hit_OF_VERSION_1_3),
       (0x32502, loci_validate_of_oxm_bsn_l2_cache_hit_masked_OF_VERSION_1_3),
       (0x30c04, loci_validate_of_oxm_bsn_l3_dst_class_id_OF_VERSION_1_3),
       (0x30d08, loci_validate_of_oxm_bsn_l3_dst_class_id_masked_OF_VERSION_1_3),
       (0x30804, loci_validate_of_oxm_bsn_l3_interface_class_id_OF_VERSION_1_3),
       (0x30908, loci_validate_of_oxm_bsn_l3_interface_class_id_masked_OF_VERSION_1_3),
       (0x30a04, loci_validate_of_oxm_bsn_l3_src_class_id_OF_VERSION_1_3),
       (0x30b08, loci_validate_of_oxm_bsn_l3_src_class_id_masked_OF_VERSION_1_3),
       (0x30204, loci_validate_of_oxm_bsn_lag_id_OF_VERSION_1_3),
       (0x30308, loci_validate_of_oxm_bsn_lag_id_masked_OF_VERSION_1_3),
       (0x32002, loci_validate_of_oxm_bsn_tcp_flags_OF_VERSION_1_3),
       (0x32104, loci_validate_of_oxm_bsn_tcp_flags_masked_OF_VERSION_1_3),
       (0x31004, loci_validate_of_oxm_bsn_udf0_OF_VERSION_1_3),
       (0x31108, loci_validate_of_oxm_bsn_udf0_masked_OF_VERSION_1_3),
       (0x31204, loci_validate_of_oxm_bsn_udf1_OF_VERSION_1_3),
       (0x31308, loci_validate_of_oxm_bsn_udf1_masked_OF_VERSION_1_3),
       (0x31404, loci_validate_of_oxm_bsn_udf2_OF_VERSION_1_3),
       (0x31508, loci_validate_of_oxm_bsn_udf2_masked_OF_VERSION_1_3),
       (0x31604, loci_validate_of_oxm_bsn_udf3_OF_VERSION_1_3),
       (0x31708, loci_validate_of_oxm_bsn_udf3_masked_OF_VERSION_1_3),
       (0x31804, loci_validate_of_oxm_bsn_udf4_OF_VERSION_1_3),
       (0x31908, loci_validate_of_oxm_bsn_udf4_masked_OF_VERSION_1_3),
       (0x31a04, loci_validate_of_oxm_bsn_udf5_OF_VERSION_1_3),
       (0x31b08, loci_validate_of_oxm_bsn_udf5_masked_OF_VERSION_1_3),
       (0x31c04, loci_validate_of_oxm_bsn_udf6_OF_VERSION_1_3),
       (0x31d08, loci_validate_of_oxm_bsn_udf6_masked_OF_VERSION_1_3),
       (0x31e04, loci_validate_of_oxm_bsn_udf7_OF_VERSION_1_3),
       (0x31f08, loci_validate_of_oxm_bsn_udf7_masked_OF_VERSION_1_3),
       (0x32204, loci_validate_of_oxm_bsn_vlan_xlate_port_group_id_OF_VERSION_1_3),
       (0x32308, loci_validate_of_oxm_bsn_vlan_xlate_port_group_id_masked_OF_VERSION_1_3),
       (0x30404, loci_validate_of_oxm_bsn_vrf_OF_VERSION_1_3),
       (0x30508, loci_validate_of_oxm_bsn_vrf_masked_OF_VERSION_1_3),
       (0x80000606, loci_validate_of_oxm_eth_dst_OF_VERSION_1_3),
       (0x8000070c, loci_validate_of_oxm_eth_dst_masked_OF_VERSION_1_3),
       (0x80000806, loci_validate_of_oxm_eth_src_OF_VERSION_1_3),
       (0x8000090c, loci_validate_of_oxm_eth_src_masked_OF_VERSION_1_3),
       (0x80000a02, loci_validate_of_oxm_eth_type_OF_VERSION_1_3),
       (0x80000b04, loci_validate_of_oxm_eth_type_masked_OF_VERSION_1_3),
       (0x80002801, loci_validate_of_oxm_icmpv4_code_OF_VERSION_1_3),
       (0x80002902, loci_validate_of_oxm_icmpv4_code_masked_OF_VERSION_1_3),
       (0x80002601, loci_validate_of_oxm_icmpv4_type_OF_VERSION_1_3),
       (0x80002702, loci_validate_of_oxm_icmpv4_type_masked_OF_VERSION_1_3),
       (0x80003c01, loci_validate_of_oxm_icmpv6_code_OF_VERSION_1_3),
       (0x80003d02, loci_validate_of_oxm_icmpv6_code_masked_OF_VERSION_1_3),
       (0x80003a01, loci_validate_of_oxm_icmpv6_type_OF_VERSION_1_3),
       (0x80003b02, loci_validate_of_oxm_icmpv6_type_masked_OF_VERSION_1_3),
       (0x80000204, loci_validate_of_oxm_in_phy_port_OF_VERSION_1_3),
       (0x80000308, loci_validate_of_oxm_in_phy_port_masked_OF_VERSION_1_3),
       (0x80000004, loci_validate_of_oxm_in_port_OF_VERSION_1_3),
       (0x80000108, loci_validate_of_oxm_in_port_masked_OF_VERSION_1_3),
       (0x80001001, loci_validate_of_oxm_ip_dscp_OF_VERSION_1_3),
       (0x80001102, loci_validate_of_oxm_ip_dscp_masked_OF_VERSION_1_3),
       (0x80001201, loci_validate_of_oxm_ip_ecn_OF_VERSION_1_3),
       (0x80001302, loci_validate_of_oxm_ip_ecn_masked_OF_VERSION_1_3),
       (0x80001401, loci_validate_of_oxm_ip_proto_OF_VERSION_1_3),
       (0x80001502, loci_validate_of_oxm_ip_proto_masked_OF_VERSION_1_3),
       (0x80001804, loci_validate_of_oxm_ipv4_dst_OF_VERSION_1_3),
       (0x80001908, loci_validate_of_oxm_ipv4_dst_masked_OF_VERSION_1_3),
       (0x80001604, loci_validate_of_oxm_ipv4_src_OF_VERSION_1_3),
       (0x80001708, loci_validate_of_oxm_ipv4_src_masked_OF_VERSION_1_3),
       (0x80003610, loci_validate_of_oxm_ipv6_dst_OF_VERSION_1_3),
       (0x80003720, loci_validate_of_oxm_ipv6_dst_masked_OF_VERSION_1_3),
       (0x80004e02, loci_validate_of_oxm_ipv6_exthdr_OF_VERSION_1_3),
       (0x80004f04, loci_validate_of_oxm_ipv6_exthdr_masked_OF_VERSION_1_3),
       (0x80003804, loci_validate_of_oxm_ipv6_flabel_OF_VERSION_1_3),
       (0x80003908, loci_validate_of_oxm_ipv6_flabel_masked_OF_VERSION_1_3),
       (0x80004006, loci_validate_of_oxm_ipv6_nd_sll_OF_VERSION_1_3),
       (0x8000410c, loci_validate_of_oxm_ipv6_nd_sll_masked_OF_VERSION_1_3),
       (0x80003e10, loci_validate_of_oxm_ipv6_nd_target_OF_VERSION_1_3),
       (0x80003f20, loci_validate_of_oxm_ipv6_nd_target_masked_OF_VERSION_1_3),
       (0x80004206, loci_validate_of_oxm_ipv6_nd_tll_OF_VERSION_1_3),
       (0x8000430c, loci_validate_of_oxm_ipv6_nd_tll_masked_OF_VERSION_1_3),
       (0x80003410, loci_validate_of_oxm_ipv6_src_OF_VERSION_1_3),
       (0x80003520, loci_validate_of_oxm_ipv6_src_masked_OF_VERSION_1_3),
       (0x80000408, loci_validate_of_oxm_metadata_OF_VERSION_1_3),
       (0x80000510, loci_validate_of_oxm_metadata_masked_OF_VERSION_1_3),
       (0x80004801, loci_validate_of_oxm_mpls_bos_OF_VERSION_1_3),
       (0x80004902, loci_validate_of_oxm_mpls_bos_masked_OF_VERSION_1_3),
       (0x80004404, loci_validate_of_oxm_mpls_label_OF_VERSION_1_3),
       (0x80004508, loci_validate_of_oxm_mpls_label_masked_OF_VERSION_1_3),
       (0x80004601, loci_validate_of_oxm_mpls_tc_OF_VERSION_1_3),
       (0x80004702, loci_validate_of_oxm_mpls_tc_masked_OF_VERSION_1_3),
       (0x80002402, loci_validate_of_oxm_sctp_dst_OF_VERSION_1_3),
       (0x80002504, loci_validate_of_oxm_sctp_dst_masked_OF_VERSION_1_3),
       (0x80002202, loci_validate_of_oxm_sctp_src_OF_VERSION_1_3),
       (0x80002304, loci_validate_of_oxm_sctp_src_masked_OF_VERSION_1_3),
       (0x80001c02, loci_validate_of_oxm_tcp_dst_OF_VERSION_1_3),
       (0x80001d04, loci_validate_of_oxm_tcp_dst_masked_OF_VERSION_1_3),
       (0x80001a02, loci_validate_of_oxm_tcp_src_OF_VERSION_1_3),
       (0x80001b04, loci_validate_of_oxm_tcp_src_masked_OF_VERSION_1_3),
       (0x80004c08, loci_validate_of_oxm_tunnel_id_OF_VERSION_1_3),
       (0x80004d10, loci_validate_of_oxm_tunnel_id_masked_OF_VERSION_1_3),
       (0x14004, loci_validate_of_oxm_tunnel_ipv4_dst_OF_VERSION_1_3),
       (0x14108, loci_validate_of_oxm_tunnel_ipv4_dst_masked_OF_VERSION_1_3),
       (0x13e04, loci_validate_of_oxm_tunnel_ipv4_src_OF_VERSION_1_3),
       (0x13f08, loci_validate_of_oxm_tunnel_ipv4_src_masked_OF_VERSION_1_3),
       (0x80002002, loci_validate_of_oxm_udp_dst_OF_VERSION_1_3),
       (0x80002104, loci_validate_of_oxm_udp_dst_masked_OF_VERSION_1_3),
       (0x80001e02, loci_validate_of_oxm_udp_src_OF_VERSION_1_3),
       (0x80001f04, loci_validate_of_oxm_udp_src_masked_OF_VERSION_1_3),
       (0x80000e01, loci_validate_of_oxm_vlan_pcp_OF_VERSION_1_3),
       (0x80000f02, loci_validate_of_oxm_vlan_pcp_masked_OF_VERSION_1_3),
       (0x80000c02, loci_validate_of_oxm_vlan_vid_OF_VERSION_1_3),
       (0x80000d04, loci_validate_of_oxm_vlan_vid_masked_OF_VERSION_1_3)]
     v_done)"

lemma loci_validate_of_oxm_OF_VERSION_1_3_ok [v_proved]: "v_ok loci_validate_of_oxm_OF_VERSION_1_3"
  unfolding loci_validate_of_oxm_OF_VERSION_1_3_def by (intro v_intro; simp add: v_proved v_ok_imp_k_ok)

definition loci_validate_of_list_oxm_OF_VERSION_1_3 :: "byte list \<Rightarrow> int \<Rightarrow> int \<Rightarrow> bool res" where
  "loci_validate_of_list_oxm_OF_VERSION_1_3 = v_list loci_validate_of_oxm_OF_VERSION_1_3"

interpretation oxm_1_3_list: list_element loci_validate_of_oxm_OF_VERSION_1_3
  by unfold_locales (rule loci_validate_of_oxm_OF_VERSION_1_3_ok)

lemma loci_validate_of_list_oxm_OF_VERSION_1_3_ok [v_proved]: "l_ok loci_validate_of_list_oxm_OF_VERSION_1_3"
  unfolding loci_validate_of_list_oxm_OF_VERSION_1_3_def by (rule oxm_1_3_list.l_ok_list)

definition loci_validate_of_meter_band_drop_OF_VERSION_1_3 :: validator where
  "loci_validate_of_meter_band_drop_OF_VERSION_1_3 =
     v_min 16 (v_set_len 16 (v_wire_len 2 16 v_done))"

lemma loci_validate_of_meter_band_drop_OF_VERSION_1_3_ok [v_proved]: "v_ok loci_validate_of_meter_band_drop_OF_VERSION_1_3"
  unfolding loci_validate_of_meter_band_drop_OF_VERSION_1_3_def by (intro v_intro; simp add: v_proved v_ok_imp_k_ok)

lemma loci_validate_of_meter_band_drop_OF_VERSION_1_3_exact [x_proved]: "x_ok 2 loci_validate_of_meter_band_drop_OF_VERSION_1_3"
  unfolding loci_validate_of_meter_band_drop_OF_VERSION_1_3_def by (intro x_intro; simp add: x_proved x_ok_imp_kx_ok)

definition loci_validate_of_meter_band_dscp_remark_OF_VERSION_1_3 :: validator where
  "loci_validate_of_meter_band_dscp_remark_OF_VERSION_1_3 =
     v_min 16 (v_set_len 16 (v_wire_len 2 16 v_done))"

lemma loci_validate_of_meter_band_dscp_remark_OF_VERSION_1_3_ok [v_proved]: "v_ok loci_validate_of_meter_band_dscp_remark_OF_VERSION_1_3"
  unfolding loci_validate_of_meter_band_dscp_remark_OF_VERSION_1_3_def by (intro v_intro; simp add: v_proved v_ok_imp_k_ok)

lemma loci_validate_of_meter_band_dscp_remark_OF_VERSION_1_3_exact [x_proved]: "x_ok 2 loci_validate_of_meter_band_dscp_remark_OF_VERSION_1_3"
  unfolding loci_validate_of_meter_band_dscp_remark_OF_VERSION_1_3_def by (intro x_intro; simp add: x_proved x_ok_imp_kx_ok)

definition loci_validate_of_meter_band_experimenter_OF_VERSION_1_3 :: validator where
  "loci_validate_of_meter_band_experimenter_OF_VERSION_1_3 =
     v_min 16 (v_set_len 16 (v_wire_len 2 16 v_done))"

lemma loci_validate_of_meter_band_experimenter_OF_VERSION_1_3_ok [v_proved]: "v_ok loci_validate_of_meter_band_experimenter_OF_VERSION_1_3"
  unfolding loci_validate_of_meter_band_experimenter_OF_VERSION_1_3_def by (intro v_intro; simp add: v_proved v_ok_imp_k_ok)

lemma loci_validate_of_meter_band_experimenter_OF_VERSION_1_3_exact [x_proved]: "x_ok 2 loci_validate_of_meter_band_experimenter_OF_VERSION_1_3"
  unfolding loci_validate_of_meter_band_experimenter_OF_VERSION_1_3_def by (intro x_intro; simp add: x_proved x_ok_imp_kx_ok)

definition loci_validate_of_meter_band_OF_VERSION_1_3 :: validator where
  "loci_validate_of_meter_band_OF_VERSION_1_3 =
     v_min 4 (v_wire_len_set 2 4
     (v_switch16 0
      [(1, loci_validate_of_meter_band_drop_OF_VERSION_1_3),
       (2, loci_validate_of_meter_band_dscp_remark_OF_VERSION_1_3),
       (0xffff, loci_validate_of_meter_band_experimenter_OF_VERSION_1_3)]
     v_done))"

lemma loci_validate_of_meter_band_OF_VERSION_1_3_ok [v_proved]: "v_ok loci_validate_of_meter_band_OF_VERSION_1_3"
  unfolding loci_validate_of_meter_band_OF_VERSION_1_3_def by (intro v_intro; simp add: v_proved v_ok_imp_k_ok)

lemma loci_validate_of_meter_band_OF_VERSION_1_3_exact [x_proved]: "x_ok 2 loci_validate_of_meter_band_OF_VERSION_1_3"
  unfolding loci_validate_of_meter_band_OF_VERSION_1_3_def by (intro x_intro; simp add: x_proved x_ok_imp_kx_ok)

definition loci_validate_of_list_meter_band_OF_VERSION_1_3 :: "byte list \<Rightarrow> int \<Rightarrow> int \<Rightarrow> bool res" where
  "loci_validate_of_list_meter_band_OF_VERSION_1_3 = v_list loci_validate_of_meter_band_OF_VERSION_1_3"

interpretation meter_band_1_3_list: list_element loci_validate_of_meter_band_OF_VERSION_1_3
  by unfold_locales (rule loci_validate_of_meter_band_OF_VERSION_1_3_ok)

lemma loci_validate_of_list_meter_band_OF_VERSION_1_3_ok [v_proved]: "l_ok loci_validate_of_list_meter_band_OF_VERSION_1_3"
  unfolding loci_validate_of_list_meter_band_OF_VERSION_1_3_def by (rule meter_band_1_3_list.l_ok_list)

definition loci_validate_of_meter_band_stats_OF_VERSION_1_3 :: validator where
  "loci_validate_of_meter_band_stats_OF_VERSION_1_3 =
     v_min 16 (v_set_len 16 v_done)"

lemma loci_validate_of_meter_band_stats_OF_VERSION_1_3_ok [v_proved]: "v_ok loci_validate_of_meter_band_stats_OF_VERSION_1_3"
  unfolding loci_validate_of_meter_band_stats_OF_VERSION_1_3_def by (intro v_intro; simp add: v_proved v_ok_imp_k_ok)

definition loci_validate_of_list_meter_band_stats_OF_VERSION_1_3 :: "byte list \<Rightarrow> int \<Rightarrow> int \<Rightarrow> bool res" where
  "loci_validate_of_list_meter_band_stats_OF_VERSION_1_3 = v_list loci_validate_of_meter_band_stats_OF_VERSION_1_3"

interpretation meter_band_stats_1_3_list: list_element loci_validate_of_meter_band_stats_OF_VERSION_1_3
  by unfold_locales (rule loci_validate_of_meter_band_stats_OF_VERSION_1_3_ok)

lemma loci_validate_of_list_meter_band_stats_OF_VERSION_1_3_ok [v_proved]: "l_ok loci_validate_of_list_meter_band_stats_OF_VERSION_1_3"
  unfolding loci_validate_of_list_meter_band_stats_OF_VERSION_1_3_def by (rule meter_band_stats_1_3_list.l_ok_list)

definition loci_validate_of_meter_stats_OF_VERSION_1_3 :: validator where
  "loci_validate_of_meter_stats_OF_VERSION_1_3 =
     v_min 40 (v_wire_len_set 4 40
     (v_list_rest 40 loci_validate_of_list_meter_band_stats_OF_VERSION_1_3 v_done))"

lemma loci_validate_of_meter_stats_OF_VERSION_1_3_ok [v_proved]: "v_ok loci_validate_of_meter_stats_OF_VERSION_1_3"
  unfolding loci_validate_of_meter_stats_OF_VERSION_1_3_def by (intro v_intro; simp add: v_proved v_ok_imp_k_ok)

lemma loci_validate_of_meter_stats_OF_VERSION_1_3_exact [x_proved]: "x_ok 4 loci_validate_of_meter_stats_OF_VERSION_1_3"
  unfolding loci_validate_of_meter_stats_OF_VERSION_1_3_def by (intro x_intro; simp add: x_proved x_ok_imp_kx_ok)

definition loci_validate_of_list_meter_stats_OF_VERSION_1_3 :: "byte list \<Rightarrow> int \<Rightarrow> int \<Rightarrow> bool res" where
  "loci_validate_of_list_meter_stats_OF_VERSION_1_3 = v_list loci_validate_of_meter_stats_OF_VERSION_1_3"

interpretation meter_stats_1_3_list: list_element loci_validate_of_meter_stats_OF_VERSION_1_3
  by unfold_locales (rule loci_validate_of_meter_stats_OF_VERSION_1_3_ok)

lemma loci_validate_of_list_meter_stats_OF_VERSION_1_3_ok [v_proved]: "l_ok loci_validate_of_list_meter_stats_OF_VERSION_1_3"
  unfolding loci_validate_of_list_meter_stats_OF_VERSION_1_3_def by (rule meter_stats_1_3_list.l_ok_list)

definition loci_validate_of_queue_prop_experimenter_OF_VERSION_1_3 :: validator where
  "loci_validate_of_queue_prop_experimenter_OF_VERSION_1_3 =
     v_min 16 (v_wire_len_set 2 16
     (v_switch32 8
      []
     v_done))"

lemma loci_validate_of_queue_prop_experimenter_OF_VERSION_1_3_ok [v_proved]: "v_ok loci_validate_of_queue_prop_experimenter_OF_VERSION_1_3"
  unfolding loci_validate_of_queue_prop_experimenter_OF_VERSION_1_3_def by (intro v_intro; simp add: v_proved v_ok_imp_k_ok)

lemma loci_validate_of_queue_prop_experimenter_OF_VERSION_1_3_exact [x_proved]: "x_ok 2 loci_validate_of_queue_prop_experimenter_OF_VERSION_1_3"
  unfolding loci_validate_of_queue_prop_experimenter_OF_VERSION_1_3_def by (intro x_intro; simp add: x_proved x_ok_imp_kx_ok)

definition loci_validate_of_queue_prop_max_rate_OF_VERSION_1_3 :: validator where
  "loci_validate_of_queue_prop_max_rate_OF_VERSION_1_3 =
     v_min 16 (v_set_len 16 (v_wire_len 2 16 v_done))"

lemma loci_validate_of_queue_prop_max_rate_OF_VERSION_1_3_ok [v_proved]: "v_ok loci_validate_of_queue_prop_max_rate_OF_VERSION_1_3"
  unfolding loci_validate_of_queue_prop_max_rate_OF_VERSION_1_3_def by (intro v_intro; simp add: v_proved v_ok_imp_k_ok)

lemma loci_validate_of_queue_prop_max_rate_OF_VERSION_1_3_exact [x_proved]: "x_ok 2 loci_validate_of_queue_prop_max_rate_OF_VERSION_1_3"
  unfolding loci_validate_of_queue_prop_max_rate_OF_VERSION_1_3_def by (intro x_intro; simp add: x_proved x_ok_imp_kx_ok)

definition loci_validate_of_queue_prop_min_rate_OF_VERSION_1_3 :: validator where
  "loci_validate_of_queue_prop_min_rate_OF_VERSION_1_3 =
     v_min 16 (v_set_len 16 (v_wire_len 2 16 v_done))"

lemma loci_validate_of_queue_prop_min_rate_OF_VERSION_1_3_ok [v_proved]: "v_ok loci_validate_of_queue_prop_min_rate_OF_VERSION_1_3"
  unfolding loci_validate_of_queue_prop_min_rate_OF_VERSION_1_3_def by (intro v_intro; simp add: v_proved v_ok_imp_k_ok)

lemma loci_validate_of_queue_prop_min_rate_OF_VERSION_1_3_exact [x_proved]: "x_ok 2 loci_validate_of_queue_prop_min_rate_OF_VERSION_1_3"
  unfolding loci_validate_of_queue_prop_min_rate_OF_VERSION_1_3_def by (intro x_intro; simp add: x_proved x_ok_imp_kx_ok)

definition loci_validate_of_queue_prop_OF_VERSION_1_3 :: validator where
  "loci_validate_of_queue_prop_OF_VERSION_1_3 =
     v_min 8 (v_wire_len_set 2 8
     (v_switch16 0
      [(0xffff, loci_validate_of_queue_prop_experimenter_OF_VERSION_1_3),
       (2, loci_validate_of_queue_prop_max_rate_OF_VERSION_1_3),
       (1, loci_validate_of_queue_prop_min_rate_OF_VERSION_1_3)]
     v_done))"

lemma loci_validate_of_queue_prop_OF_VERSION_1_3_ok [v_proved]: "v_ok loci_validate_of_queue_prop_OF_VERSION_1_3"
  unfolding loci_validate_of_queue_prop_OF_VERSION_1_3_def by (intro v_intro; simp add: v_proved v_ok_imp_k_ok)

lemma loci_validate_of_queue_prop_OF_VERSION_1_3_exact [x_proved]: "x_ok 2 loci_validate_of_queue_prop_OF_VERSION_1_3"
  unfolding loci_validate_of_queue_prop_OF_VERSION_1_3_def by (intro x_intro; simp add: x_proved x_ok_imp_kx_ok)

definition loci_validate_of_list_queue_prop_OF_VERSION_1_3 :: "byte list \<Rightarrow> int \<Rightarrow> int \<Rightarrow> bool res" where
  "loci_validate_of_list_queue_prop_OF_VERSION_1_3 = v_list loci_validate_of_queue_prop_OF_VERSION_1_3"

interpretation queue_prop_1_3_list: list_element loci_validate_of_queue_prop_OF_VERSION_1_3
  by unfold_locales (rule loci_validate_of_queue_prop_OF_VERSION_1_3_ok)

lemma loci_validate_of_list_queue_prop_OF_VERSION_1_3_ok [v_proved]: "l_ok loci_validate_of_list_queue_prop_OF_VERSION_1_3"
  unfolding loci_validate_of_list_queue_prop_OF_VERSION_1_3_def by (rule queue_prop_1_3_list.l_ok_list)

definition loci_validate_of_port_desc_OF_VERSION_1_3 :: validator where
  "loci_validate_of_port_desc_OF_VERSION_1_3 =
     v_min 64 (v_set_len 64 v_done)"

lemma loci_validate_of_port_desc_OF_VERSION_1_3_ok [v_proved]: "v_ok loci_validate_of_port_desc_OF_VERSION_1_3"
  unfolding loci_validate_of_port_desc_OF_VERSION_1_3_def by (intro v_intro; simp add: v_proved v_ok_imp_k_ok)

definition loci_validate_of_list_port_desc_OF_VERSION_1_3 :: "byte list \<Rightarrow> int \<Rightarrow> int \<Rightarrow> bool res" where
  "loci_validate_of_list_port_desc_OF_VERSION_1_3 = v_list loci_validate_of_port_desc_OF_VERSION_1_3"

interpretation port_desc_1_3_list: list_element loci_validate_of_port_desc_OF_VERSION_1_3
  by unfold_locales (rule loci_validate_of_port_desc_OF_VERSION_1_3_ok)

lemma loci_validate_of_list_port_desc_OF_VERSION_1_3_ok [v_proved]: "l_ok loci_validate_of_list_port_desc_OF_VERSION_1_3"
  unfolding loci_validate_of_list_port_desc_OF_VERSION_1_3_def by (rule port_desc_1_3_list.l_ok_list)

definition loci_validate_of_port_stats_entry_OF_VERSION_1_3 :: validator where
  "loci_validate_of_port_stats_entry_OF_VERSION_1_3 =
     v_min 112 (v_set_len 112 v_done)"

lemma loci_validate_of_port_stats_entry_OF_VERSION_1_3_ok [v_proved]: "v_ok loci_validate_of_port_stats_entry_OF_VERSION_1_3"
  unfolding loci_validate_of_port_stats_entry_OF_VERSION_1_3_def by (intro v_intro; simp add: v_proved v_ok_imp_k_ok)

definition loci_validate_of_list_port_stats_entry_OF_VERSION_1_3 :: "byte list \<Rightarrow> int \<Rightarrow> int \<Rightarrow> bool res" where
  "loci_validate_of_list_port_stats_entry_OF_VERSION_1_3 = v_list loci_validate_of_port_stats_entry_OF_VERSION_1_3"

interpretation port_stats_entry_1_3_list: list_element loci_validate_of_port_stats_entry_OF_VERSION_1_3
  by unfold_locales (rule loci_validate_of_port_stats_entry_OF_VERSION_1_3_ok)

lemma loci_validate_of_list_port_stats_entry_OF_VERSION_1_3_ok [v_proved]: "l_ok loci_validate_of_list_port_stats_entry_OF_VERSION_1_3"
  unfolding loci_validate_of_list_port_stats_entry_OF_VERSION_1_3_def by (rule port_stats_entry_1_3_list.l_ok_list)

definition loci_validate_of_packet_queue_OF_VERSION_1_3 :: validator where
  "loci_validate_of_packet_queue_OF_VERSION_1_3 =
     v_min 16 (v_wire_len_set 8 16
     (v_list_rest 16 loci_validate_of_list_queue_prop_OF_VERSION_1_3 v_done))"

lemma loci_validate_of_packet_queue_OF_VERSION_1_3_ok [v_proved]: "v_ok loci_validate_of_packet_queue_OF_VERSION_1_3"
  unfolding loci_validate_of_packet_queue_OF_VERSION_1_3_def by (intro v_intro; simp add: v_proved v_ok_imp_k_ok)

lemma loci_validate_of_packet_queue_OF_VERSION_1_3_exact [x_proved]: "x_ok 8 loci_validate_of_packet_queue_OF_VERSION_1_3"
  unfolding loci_validate_of_packet_queue_OF_VERSION_1_3_def by (intro x_intro; simp add: x_proved x_ok_imp_kx_ok)

definition loci_validate_of_list_packet_queue_OF_VERSION_1_3 :: "byte list \<Rightarrow> int \<Rightarrow> int \<Rightarrow> bool res" where
  "loci_validate_of_list_packet_queue_OF_VERSION_1_3 = v_list loci_validate_of_packet_queue_OF_VERSION_1_3"

interpretation packet_queue_1_3_list: list_element loci_validate_of_packet_queue_OF_VERSION_1_3
  by unfold_locales (rule loci_validate_of_packet_queue_OF_VERSION_1_3_ok)

lemma loci_validate_of_list_packet_queue_OF_VERSION_1_3_ok [v_proved]: "l_ok loci_validate_of_list_packet_queue_OF_VERSION_1_3"
  unfolding loci_validate_of_list_packet_queue_OF_VERSION_1_3_def by (rule packet_queue_1_3_list.l_ok_list)

definition loci_validate_of_queue_stats_entry_OF_VERSION_1_3 :: validator where
  "loci_validate_of_queue_stats_entry_OF_VERSION_1_3 =
     v_min 40 (v_set_len 40 v_done)"

lemma loci_validate_of_queue_stats_entry_OF_VERSION_1_3_ok [v_proved]: "v_ok loci_validate_of_queue_stats_entry_OF_VERSION_1_3"
  unfolding loci_validate_of_queue_stats_entry_OF_VERSION_1_3_def by (intro v_intro; simp add: v_proved v_ok_imp_k_ok)

definition loci_validate_of_list_queue_stats_entry_OF_VERSION_1_3 :: "byte list \<Rightarrow> int \<Rightarrow> int \<Rightarrow> bool res" where
  "loci_validate_of_list_queue_stats_entry_OF_VERSION_1_3 = v_list loci_validate_of_queue_stats_entry_OF_VERSION_1_3"

interpretation queue_stats_entry_1_3_list: list_element loci_validate_of_queue_stats_entry_OF_VERSION_1_3
  by unfold_locales (rule loci_validate_of_queue_stats_entry_OF_VERSION_1_3_ok)

lemma loci_validate_of_list_queue_stats_entry_OF_VERSION_1_3_ok [v_proved]: "l_ok loci_validate_of_list_queue_stats_entry_OF_VERSION_1_3"
  unfolding loci_validate_of_list_queue_stats_entry_OF_VERSION_1_3_def by (rule queue_stats_entry_1_3_list.l_ok_list)

definition loci_validate_of_action_id_bsn_checksum_OF_VERSION_1_3 :: validator where
  "loci_validate_of_action_id_bsn_checksum_OF_VERSION_1_3 =
     v_min 12 (v_set_len 12 (v_wire_len 2 12 v_done))"

lemma loci_validate_of_action_id_bsn_checksum_OF_VERSION_1_3_ok [v_proved]: "v_ok loci_validate_of_action_id_bsn_checksum_OF_VERSION_1_3"
  unfolding loci_validate_of_action_id_bsn_checksum_OF_VERSION_1_3_def by (intro v_intro; simp add: v_proved v_ok_imp_k_ok)

lemma loci_validate_of_action_id_bsn_checksum_OF_VERSION_1_3_exact [x_proved]: "x_ok 2 loci_validate_of_action_id_bsn_checksum_OF_VERSION_1_3"
  unfolding loci_validate_of_action_id_bsn_checksum_OF_VERSION_1_3_def by (intro x_intro; simp add: x_proved x_ok_imp_kx_ok)

definition loci_validate_of_action_id_bsn_gentable_OF_VERSION_1_3 :: validator where
  "loci_validate_of_action_id_bsn_gentable_OF_VERSION_1_3 =
     v_min 12 (v_set_len 12 (v_wire_len 2 12 v_done))"

lemma loci_validate_of_action_id_bsn_gentable_OF_VERSION_1_3_ok [v_proved]: "v_ok loci_validate_of_action_id_bsn_gentable_OF_VERSION_1_3"
  unfolding loci_validate_of_action_id_bsn_gentable_OF_VERSION_1_3_def by (intro v_intro; simp add: v_proved v_ok_imp_k_ok)

lemma loci_validate_of_action_id_bsn_gentable_OF_VERSION_1_3_exact [x_proved]: "x_ok 2 loci_validate_of_action_id_bsn_gentable_OF_VERSION_1_3"
  unfolding loci_validate_of_action_id_bsn_gentable_OF_VERSION_1_3_def by (intro x_intro; simp add: x_proved x_ok_imp_kx_ok)

definition loci_validate_of_action_id_bsn_mirror_OF_VERSION_1_3 :: validator where
  "loci_validate_of_action_id_bsn_mirror_OF_VERSION_1_3 =
     v_min 12 (v_set_len 12 (v_wire_len 2 12 v_done))"

lemma loci_validate_of_action_id_bsn_mirror_OF_VERSION_1_3_ok [v_proved]: "v_ok loci_validate_of_action_id_bsn_mirror_OF_VERSION_1_3"
  unfolding loci_validate_of_action_id_bsn_mirror_OF_VERSION_1_3_def by (intro v_intro; simp add: v_proved v_ok_imp_k_ok)

lemma loci_validate_of_action_id_bsn_mirror_OF_VERSION_1_3_exact [x_proved]: "x_ok 2 loci_validate_of_action_id_bsn_mirror_OF_VERSION_1_3"
  unfolding loci_validate_of_action_id_bsn_mirror_OF_VERSION_1_3_def by (intro x_intro; simp add: x_proved x_ok_imp_kx_ok)

definition loci_validate_of_action_id_bsn_set_tunnel_dst_OF_VERSION_1_3 :: validator where
  "loci_validate_of_action_id_bsn_set_tunnel_dst_OF_VERSION_1_3 =
     v_min 12 (v_set_len 12 (v_wire_len 2 12 v_done))"

lemma loci_validate_of_action_id_bsn_set_tunnel_dst_OF_VERSION_1_3_ok [v_proved]: "v_ok loci_validate_of_action_id_bsn_set_tunnel_dst_OF_VERSION_1_3"
  unfolding loci_validate_of_action_id_bsn_set_tunnel_dst_OF_VERSION_1_3_def by (intro v_intro; simp add: v_proved v_ok_imp_k_ok)

lemma loci_validate_of_action_id_bsn_set_tunnel_dst_OF_VERSION_1_3_exact [x_proved]: "x_ok 2 loci_validate_of_action_id_bsn_set_tunnel_dst_OF_VERSION_1_3"
  unfolding loci_validate_of_action_id_bsn_set_tunnel_dst_OF_VERSION_1_3_def by (intro x_intro; simp add: x_proved x_ok_imp_kx_ok)

definition loci_validate_of_action_id_bsn_OF_VERSION_1_3 :: validator where
  "loci_validate_of_action_id_bsn_OF_VERSION_1_3 =
     v_min 12 (v_wire_len_set 2 12
     (v_switch32 8
      [(4, loci_validate_of_action_id_bsn_checksum_OF_VERSION_1_3),
       (5, loci_validate_of_action_id_bsn_gentable_OF_VERSION_1_3),
       (1, loci_validate_of_action_id_bsn_mirror_OF_VERSION_1_3),
       (2, loci_validate_of_action_id_bsn_set_tunnel_dst_OF_VERSION_1_3)]
     v_done))"

lemma loci_validate_of_action_id_bsn_OF_VERSION_1_3_ok [v_proved]: "v_ok loci_validate_of_action_id_bsn_OF_VERSION_1_3"
  unfolding loci_validate_of_action_id_bsn_OF_VERSION_1_3_def by (intro v_intro; simp add: v_proved v_ok_imp_k_ok)

lemma loci_validate_of_action_id_bsn_OF_VERSION_1_3_exact [x_proved]: "x_ok 2 loci_validate_of_action_id_bsn_OF_VERSION_1_3"
  unfolding loci_validate_of_action_id_bsn_OF_VERSION_1_3_def by (intro x_intro; simp add: x_proved x_ok_imp_kx_ok)

definition loci_validate_of_action_id_nicira_dec_ttl_OF_VERSION_1_3 :: validator where
  "loci_validate_of_action_id_nicira_dec_ttl_OF_VERSION_1_3 =
     v_min 10 (v_set_len 10 (v_wire_len 2 10 v_done))"

lemma loci_validate_of_action_id_nicira_dec_ttl_OF_VERSION_1_3_ok [v_proved]: "v_ok loci_validate_of_action_id_nicira_dec_ttl_OF_VERSION_1_3"
  unfolding loci_validate_of_action_id_nicira_dec_ttl_OF_VERSION_1_3_def by (intro v_intro; simp add: v_proved v_ok_imp_k_ok)

lemma loci_validate_of_action_id_nicira_dec_ttl_OF_VERSION_1_3_exact [x_proved]: "x_ok 2 loci_validate_of_action_id_nicira_dec_ttl_OF_VERSION_1_3"
  unfolding loci_validate_of_action_id_nicira_dec_ttl_OF_VERSION_1_3_def by (intro x_intro; simp add: x_proved x_ok_imp_kx_ok)

definition loci_validate_of_action_id_nicira_OF_VERSION_1_3 :: validator where
  "loci_validate_of_action_id_nicira_OF_VERSION_1_3 =
     v_min 10 (v_wire_len_set 2 10
     (v_switch16 8
      [(0x12, loci_validate_of_action_id_nicira_dec_ttl_OF_VERSION_1_3)]
     v_done))"

lemma loci_validate_of_action_id_nicira_OF_VERSION_1_3_ok [v_proved]: "v_ok loci_validate_of_action_id_nicira_OF_VERSION_1_3"
  unfolding loci_validate_of_action_id_nicira_OF_VERSION_1_3_def by (intro v_intro; simp add: v_proved v_ok_imp_k_ok)

lemma loci_validate_of_action_id_nicira_OF_VERSION_1_3_exact [x_proved]: "x_ok 2 loci_validate_of_action_id_nicira_OF_VERSION_1_3"
  unfolding loci_validate_of_action_id_nicira_OF_VERSION_1_3_def by (intro x_intro; simp add: x_proved x_ok_imp_kx_ok)

definition loci_validate_of_action_id_experimenter_OF_VERSION_1_3 :: validator where
  "loci_validate_of_action_id_experimenter_OF_VERSION_1_3 =
     v_min 8 (v_wire_len_set 2 8
     (v_switch32 4
      [(0x5c16c7, loci_validate_of_action_id_bsn_OF_VERSION_1_3),
       (0x2320, loci_validate_of_action_id_nicira_OF_VERSION_1_3)]
     v_done))"

lemma loci_validate_of_action_id_experimenter_OF_VERSION_1_3_ok [v_proved]: "v_ok loci_validate_of_action_id_experimenter_OF_VERSION_1_3"
  unfolding loci_validate_of_action_id_experimenter_OF_VERSION_1_3_def by (intro v_intro; simp add: v_proved v_ok_imp_k_ok)

lemma loci_validate_of_action_id_experimenter_OF_VERSION_1_3_exact [x_proved]: "x_ok 2 loci_validate_of_action_id_experimenter_OF_VERSION_1_3"
  unfolding loci_validate_of_action_id_experimenter_OF_VERSION_1_3_def by (intro x_intro; simp add: x_proved x_ok_imp_kx_ok)

definition loci_validate_of_action_id_copy_ttl_in_OF_VERSION_1_3 :: validator where
  "loci_validate_of_action_id_copy_ttl_in_OF_VERSION_1_3 =
     v_min 4 (v_set_len 4 (v_wire_len 2 4 v_done))"

lemma loci_validate_of_action_id_copy_ttl_in_OF_VERSION_1_3_ok [v_proved]: "v_ok loci_validate_of_action_id_copy_ttl_in_OF_VERSION_1_3"
  unfolding loci_validate_of_action_id_copy_ttl_in_OF_VERSION_1_3_def by (intro v_intro; simp add: v_proved v_ok_imp_k_ok)

lemma loci_validate_of_action_id_copy_ttl_in_OF_VERSION_1_3_exact [x_proved]: "x_ok 2 loci_validate_of_action_id_copy_ttl_in_OF_VERSION_1_3"
  unfolding loci_validate_of_action_id_copy_ttl_in_OF_VERSION_1_3_def by (intro x_intro; simp add: x_proved x_ok_imp_kx_ok)

definition loci_validate_of_action_id_copy_ttl_out_OF_VERSION_1_3 :: validator where
  "loci_validate_of_action_id_copy_ttl_out_OF_VERSION_1_3 =
     v_min 4 (v_set_len 4 (v_wire_len 2 4 v_done))"

lemma loci_validate_of_action_id_copy_ttl_out_OF_VERSION_1_3_ok [v_proved]: "v_ok loci_validate_of_action_id_copy_ttl_out_OF_VERSION_1_3"
  unfolding loci_validate_of_action_id_copy_ttl_out_OF_VERSION_1_3_def by (intro v_intro; simp add: v_proved v_ok_imp_k_ok)

lemma loci_validate_of_action_id_copy_ttl_out_OF_VERSION_1_3_exact [x_proved]: "x_ok 2 loci_validate_of_action_id_copy_ttl_out_OF_VERSION_1_3"
  unfolding loci_validate_of_action_id_copy_ttl_out_OF_VERSION_1_3_def by (intro x_intro; simp add: x_proved x_ok_imp_kx_ok)

definition loci_validate_of_action_id_dec_mpls_ttl_OF_VERSION_1_3 :: validator where
  "loci_validate_of_action_id_dec_mpls_ttl_OF_VERSION_1_3 =
     v_min 4 (v_set_len 4 (v_wire_len 2 4 v_done))"

lemma loci_validate_of_action_id_dec_mpls_ttl_OF_VERSION_1_3_ok [v_proved]: "v_ok loci_validate_of_action_id_dec_mpls_ttl_OF_VERSION_1_3"
  unfolding loci_validate_of_action_id_dec_mpls_ttl_OF_VERSION_1_3_def by (intro v_intro; simp add: v_proved v_ok_imp_k_ok)

lemma loci_validate_of_action_id_dec_mpls_ttl_OF_VERSION_1_3_exact [x_proved]: "x_ok 2 loci_validate_of_action_id_dec_mpls_ttl_OF_VERSION_1_3"
  unfolding loci_validate_of_action_id_dec_mpls_ttl_OF_VERSION_1_3_def by (intro x_intro; simp add: x_proved x_ok_imp_kx_ok)

definition loci_validate_of_action_id_dec_nw_ttl_OF_VERSION_1_3 :: validator where
  "loci_validate_of_action_id_dec_nw_ttl_OF_VERSION_1_3 =
     v_min 4 (v_set_len 4 (v_wire_len 2 4 v_done))"

lemma loci_validate_of_action_id_dec_nw_ttl_OF_VERSION_1_3_ok [v_proved]: "v_ok loci_validate_of_action_id_dec_nw_ttl_OF_VERSION_1_3"
  unfolding loci_validate_of_action_id_dec_nw_ttl_OF_VERSION_1_3_def by (intro v_intro; simp add: v_proved v_ok_imp_k_ok)

lemma loci_validate_of_action_id_dec_nw_ttl_OF_VERSION_1_3_exact [x_proved]: "x_ok 2 loci_validate_of_action_id_dec_nw_ttl_OF_VERSION_1_3"
  unfolding loci_validate_of_action_id_dec_nw_ttl_OF_VERSION_1_3_def by (intro x_intro; simp add: x_proved x_ok_imp_kx_ok)

definition loci_validate_of_action_id_group_OF_VERSION_1_3 :: validator where
  "loci_validate_of_action_id_group_OF_VERSION_1_3 =
     v_min 4 (v_set_len 4 (v_wire_len 2 4 v_done))"

lemma loci_validate_of_action_id_group_OF_VERSION_1_3_ok [v_proved]: "v_ok loci_validate_of_action_id_group_OF_VERSION_1_3"
  unfolding loci_validate_of_action_id_group_OF_VERSION_1_3_def by (intro v_intro; simp add: v_proved v_ok_imp_k_ok)

lemma loci_validate_of_action_id_group_OF_VERSION_1_3_exact [x_proved]: "x_ok 2 loci_validate_of_action_id_group_OF_VERSION_1_3"
  unfolding loci_validate_of_action_id_group_OF_VERSION_1_3_def by (intro x_intro; simp add: x_proved x_ok_imp_kx_ok)

definition loci_validate_of_action_id_output_OF_VERSION_1_3 :: validator where
  "loci_validate_of_action_id_output_OF_VERSION_1_3 =
     v_min 4 (v_set_len 4 (v_wire_len 2 4 v_done))"

lemma loci_validate_of_action_id_output_OF_VERSION_1_3_ok [v_proved]: "v_ok loci_validate_of_action_id_output_OF_VERSION_1_3"
  unfolding loci_validate_of_action_id_output_OF_VERSION_1_3_def by (intro v_intro; simp add: v_proved v_ok_imp_k_ok)

lemma loci_validate_of_action_id_output_OF_VERSION_1_3_exact [x_proved]: "x_ok 2 loci_validate_of_action_id_output_OF_VERSION_1_3"
  unfolding loci_validate_of_action_id_output_OF_VERSION_1_3_def by (intro x_intro; simp add: x_proved x_ok_imp_kx_ok)

definition loci_validate_of_action_id_pop_mpls_OF_VERSION_1_3 :: validator where
  "loci_validate_of_action_id_pop_mpls_OF_VERSION_1_3 =
     v_min 4 (v_set_len 4 (v_wire_len 2 4 v_done))"

lemma loci_validate_of_action_id_pop_mpls_OF_VERSION_1_3_ok [v_proved]: "v_ok loci_validate_of_action_id_pop_mpls_OF_VERSION_1_3"
  unfolding loci_validate_of_action_id_pop_mpls_OF_VERSION_1_3_def by (intro v_intro; simp add: v_proved v_ok_imp_k_ok)

lemma loci_validate_of_action_id_pop_mpls_OF_VERSION_1_3_exact [x_proved]: "x_ok 2 loci_validate_of_action_id_pop_mpls_OF_VERSION_1_3"
  unfolding loci_validate_of_action_id_pop_mpls_OF_VERSION_1_3_def by (intro x_intro; simp add: x_proved x_ok_imp_kx_ok)

definition loci_validate_of_action_id_pop_pbb_OF_VERSION_1_3 :: validator where
  "loci_validate_of_action_id_pop_pbb_OF_VERSION_1_3 =
     v_min 4 (v_set_len 4 (v_wire_len 2 4 v_done))"

lemma loci_validate_of_action_id_pop_pbb_OF_VERSION_1_3_ok [v_proved]: "v_ok loci_validate_of_action_id_pop_pbb_OF_VERSION_1_3"
  unfolding loci_validate_of_action_id_pop_pbb_OF_VERSION_1_3_def by (intro v_intro; simp add: v_proved v_ok_imp_k_ok)

lemma loci_validate_of_action_id_pop_pbb_OF_VERSION_1_3_exact [x_proved]: "x_ok 2 loci_validate_of_action_id_pop_pbb_OF_VERSION_1_3"
  unfolding loci_validate_of_action_id_pop_pbb_OF_VERSION_1_3_def by (intro x_intro; simp add: x_proved x_ok_imp_kx_ok)

definition loci_validate_of_action_id_pop_vlan_OF_VERSION_1_3 :: validator where
  "loci_validate_of_action_id_pop_vlan_OF_VERSION_1_3 =
     v_min 4 (v_set_len 4 (v_wire_len 2 4 v_done))"

lemma loci_validate_of_action_id_pop_vlan_OF_VERSION_1_3_ok [v_proved]: "v_ok loci_validate_of_action_id_pop_vlan_OF_VERSION_1_3"
  unfolding loci_validate_of_action_id_pop_vlan_OF_VERSION_1_3_def by (intro v_intro; simp add: v_proved v_ok_imp_k_ok)

lemma loci_validate_of_action_id_pop_vlan_OF_VERSION_1_3_exact [x_proved]: "x_ok 2 loci_validate_of_action_id_pop_vlan_OF_VERSION_1_3"
  unfolding loci_validate_of_action_id_pop_vlan_OF_VERSION_1_3_def by (intro x_intro; simp add: x_proved x_ok_imp_kx_ok)

definition loci_validate_of_action_id_push_mpls_OF_VERSION_1_3 :: validator where
  "loci_validate_of_action_id_push_mpls_OF_VERSION_1_3 =
     v_min 4 (v_set_len 4 (v_wire_len 2 4 v_done))"

lemma loci_validate_of_action_id_push_mpls_OF_VERSION_1_3_ok [v_proved]: "v_ok loci_validate_of_action_id_push_mpls_OF_VERSION_1_3"
  unfolding loci_validate_of_action_id_push_mpls_OF_VERSION_1_3_def by (intro v_intro; simp add: v_proved v_ok_imp_k_ok)

lemma loci_validate_of_action_id_push_mpls_OF_VERSION_1_3_exact [x_proved]: "x_ok 2 loci_validate_of_action_id_push_mpls_OF_VERSION_1_3"
  unfolding loci_validate_of_action_id_push_mpls_OF_VERSION_1_3_def by (intro x_intro; simp add: x_proved x_ok_imp_kx_ok)

definition loci_validate_of_action_id_push_pbb_OF_VERSION_1_3 :: validator where
  "loci_validate_of_action_id_push_pbb_OF_VERSION_1_3 =
     v_min 4 (v_set_len 4 (v_wire_len 2 4 v_done))"

lemma loci_validate_of_action_id_push_pbb_OF_VERSION_1_3_ok [v_proved]: "v_ok loci_validate_of_action_id_push_pbb_OF_VERSION_1_3"
  unfolding loci_validate_of_action_id_push_pbb_OF_VERSION_1_3_def by (intro v_intro; simp add: v_proved v_ok_imp_k_ok)

lemma loci_validate_of_action_id_push_pbb_OF_VERSION_1_3_exact [x_proved]: "x_ok 2 loci_validate_of_action_id_push_pbb_OF_VERSION_1_3"
  unfolding loci_validate_of_action_id_push_pbb_OF_VERSION_1_3_def by (intro x_intro; simp add: x_proved x_ok_imp_kx_ok)

definition loci_validate_of_action_id_push_vlan_OF_VERSION_1_3 :: validator where
  "loci_validate_of_action_id_push_vlan_OF_VERSION_1_3 =
     v_min 4 (v_set_len 4 (v_wire_len 2 4 v_done))"

lemma loci_validate_of_action_id_push_vlan_OF_VERSION_1_3_ok [v_proved]: "v_ok loci_validate_of_action_id_push_vlan_OF_VERSION_1_3"
  unfolding loci_validate_of_action_id_push_vlan_OF_VERSION_1_3_def by (intro v_intro; simp add: v_proved v_ok_imp_k_ok)

lemma loci_validate_of_action_id_push_vlan_OF_VERSION_1_3_exact [x_proved]: "x_ok 2 loci_validate_of_action_id_push_vlan_OF_VERSION_1_3"
  unfolding loci_validate_of_action_id_push_vlan_OF_VERSION_1_3_def by (intro x_intro; simp add: x_proved x_ok_imp_kx_ok)

definition loci_validate_of_action_id_set_field_OF_VERSION_1_3 :: validator where
  "loci_validate_of_action_id_set_field_OF_VERSION_1_3 =
     v_min 4 (v_set_len 4 (v_wire_len 2 4 v_done))"

lemma loci_validate_of_action_id_set_field_OF_VERSION_1_3_ok [v_proved]: "v_ok loci_validate_of_action_id_set_field_OF_VERSION_1_3"
  unfolding loci_validate_of_action_id_set_field_OF_VERSION_1_3_def by (intro v_intro; simp add: v_proved v_ok_imp_k_ok)

lemma loci_validate_of_action_id_set_field_OF_VERSION_1_3_exact [x_proved]: "x_ok 2 loci_validate_of_action_id_set_field_OF_VERSION_1_3"
  unfolding loci_validate_of_action_id_set_field_OF_VERSION_1_3_def by (intro x_intro; simp add: x_proved x_ok_imp_kx_ok)

definition loci_validate_of_action_id_set_mpls_ttl_OF_VERSION_1_3 :: validator where
  "loci_validate_of_action_id_set_mpls_ttl_OF_VERSION_1_3 =
     v_min 4 (v_set_len 4 (v_wire_len 2 4 v_done))"

lemma loci_validate_of_action_id_set_mpls_ttl_OF_VERSION_1_3_ok [v_proved]: "v_ok loci_validate_of_action_id_set_mpls_ttl_OF_VERSION_1_3"
  unfolding loci_validate_of_action_id_set_mpls_ttl_OF_VERSION_1_3_def by (intro v_intro; simp add: v_proved v_ok_imp_k_ok)

lemma loci_validate_of_action_id_set_mpls_ttl_OF_VERSION_1_3_exact [x_proved]: "x_ok 2 loci_validate_of_action_id_set_mpls_ttl_OF_VERSION_1_3"
  unfolding loci_validate_of_action_id_set_mpls_ttl_OF_VERSION_1_3_def by (intro x_intro; simp add: x_proved x_ok_imp_kx_ok)

definition loci_validate_of_action_id_set_nw_ttl_OF_VERSION_1_3 :: validator where
  "loci_validate_of_action_id_set_nw_ttl_OF_VERSION_1_3 =
     v_min 4 (v_set_len 4 (v_wire_len 2 4 v_done))"

lemma loci_validate_of_action_id_set_nw_ttl_OF_VERSION_1_3_ok [v_proved]: "v_ok loci_validate_of_action_id_set_nw_ttl_OF_VERSION_1_3"
  unfolding loci_validate_of_action_id_set_nw_ttl_OF_VERSION_1_3_def by (intro v_intro; simp add: v_proved v_ok_imp_k_ok)

lemma loci_validate_of_action_id_set_nw_ttl_OF_VERSION_1_3_exact [x_proved]: "x_ok 2 loci_validate_of_action_id_set_nw_ttl_OF_VERSION_1_3"
  unfolding loci_validate_of_action_id_set_nw_ttl_OF_VERSION_1_3_def by (intro x_intro; simp add: x_proved x_ok_imp_kx_ok)

definition loci_validate_of_action_id_set_queue_OF_VERSION_1_3 :: validator where
  "loci_validate_of_action_id_set_queue_OF_VERSION_1_3 =
     v_min 4 (v_set_len 4 (v_wire_len 2 4 v_done))"

lemma loci_validate_of_action_id_set_queue_OF_VERSION_1_3_ok [v_proved]: "v_ok loci_validate_of_action_id_set_queue_OF_VERSION_1_3"
  unfolding loci_validate_of_action_id_set_queue_OF_VERSION_1_3_def by (intro v_intro; simp add: v_proved v_ok_imp_k_ok)

lemma loci_validate_of_action_id_set_queue_OF_VERSION_1_3_exact [x_proved]: "x_ok 2 loci_validate_of_action_id_set_queue_OF_VERSION_1_3"
  unfolding loci_validate_of_action_id_set_queue_OF_VERSION_1_3_def by (intro x_intro; simp add: x_proved x_ok_imp_kx_ok)

definition loci_validate_of_action_id_OF_VERSION_1_3 :: validator where
  "loci_validate_of_action_id_OF_VERSION_1_3 =
     v_min 4 (v_wire_len_set 2 4
     (v_switch16 0
      [(0xffff, loci_validate_of_action_id_experimenter_OF_VERSION_1_3),
       (0xc, loci_validate_of_action_id_copy_ttl_in_OF_VERSION_1_3),
       (0xb, loci_validate_of_action_id_copy_ttl_out_OF_VERSION_1_3),
       (0x10, loci_validate_of_action_id_dec_mpls_ttl_OF_VERSION_1_3),
       (0x18, loci_validate_of_action_id_dec_nw_ttl_OF_VERSION_1_3),
       (0x16, loci_validate_of_action_id_group_OF_VERSION_1_3),
       (0, loci_validate_of_action_id_output_OF_VERSION_1_3),
       (0x14, loci_validate_of_action_id_pop_mpls_OF_VERSION_1_3),
       (0x1b, loci_validate_of_action_id_pop_pbb_OF_VERSION_1_3),
       (0x12, loci_validate_of_action_id_pop_vlan_OF_VERSION_1_3),
       (0x13, loci_validate_of_action_id_push_mpls_OF_VERSION_1_3),
       (0x1a, loci_validate_of_action_id_push_pbb_OF_VERSION_1_3),
       (0x11, loci_validate_of_action_id_push_vlan_OF_VERSION_1_3),
       (0x19, loci_validate_of_action_id_set_field_OF_VERSION_1_3),
       (0xf, loci_validate_of_action_id_set_mpls_ttl_OF_VERSION_1_3),
       (0x17, loci_validate_of_action_id_set_nw_ttl_OF_VERSION_1_3),
       (0x15, loci_validate_of_action_id_set_queue_OF_VERSION_1_3)]
     v_done))"

lemma loci_validate_of_action_id_OF_VERSION_1_3_ok [v_proved]: "v_ok loci_validate_of_action_id_OF_VERSION_1_3"
  unfolding loci_validate_of_action_id_OF_VERSION_1_3_def by (intro v_intro; simp add: v_proved v_ok_imp_k_ok)

lemma loci_validate_of_action_id_OF_VERSION_1_3_exact [x_proved]: "x_ok 2 loci_validate_of_action_id_OF_VERSION_1_3"
  unfolding loci_validate_of_action_id_OF_VERSION_1_3_def by (intro x_intro; simp add: x_proved x_ok_imp_kx_ok)

definition loci_validate_of_list_action_id_OF_VERSION_1_3 :: "byte list \<Rightarrow> int \<Rightarrow> int \<Rightarrow> bool res" where
  "loci_validate_of_list_action_id_OF_VERSION_1_3 = v_list loci_validate_of_action_id_OF_VERSION_1_3"

interpretation action_id_1_3_list: list_element loci_validate_of_action_id_OF_VERSION_1_3
  by unfold_locales (rule loci_validate_of_action_id_OF_VERSION_1_3_ok)

lemma loci_validate_of_list_action_id_OF_VERSION_1_3_ok [v_proved]: "l_ok loci_validate_of_list_action_id_OF_VERSION_1_3"
  unfolding loci_validate_of_list_action_id_OF_VERSION_1_3_def by (rule action_id_1_3_list.l_ok_list)

definition loci_validate_of_instruction_id_apply_actions_OF_VERSION_1_3 :: validator where
  "loci_validate_of_instruction_id_apply_actions_OF_VERSION_1_3 =
     v_min 4 (v_set_len 4 (v_wire_len 2 4 v_done))"

lemma loci_validate_of_instruction_id_apply_actions_OF_VERSION_1_3_ok [v_proved]: "v_ok loci_validate_of_instruction_id_apply_actions_OF_VERSION_1_3"
  unfolding loci_validate_of_instruction_id_apply_actions_OF_VERSION_1_3_def by (intro v_intro; simp add: v_proved v_ok_imp_k_ok)

lemma loci_validate_of_instruction_id_apply_actions_OF_VERSION_1_3_exact [x_proved]: "x_ok 2 loci_validate_of_instruction_id_apply_actions_OF_VERSION_1_3"
  unfolding loci_validate_of_instruction_id_apply_actions_OF_VERSION_1_3_def by (intro x_intro; simp add: x_proved x_ok_imp_kx_ok)

definition loci_validate_of_instruction_id_bsn_arp_offload_OF_VERSION_1_3 :: validator where
  "loci_validate_of_instruction_id_bsn_arp_offload_OF_VERSION_1_3 =
     v_min 12 (v_set_len 12 (v_wire_len 2 12 v_done))"

lemma loci_validate_of_instruction_id_bsn_arp_offload_OF_VERSION_1_3_ok [v_proved]: "v_ok loci_validate_of_instruction_id_bsn_arp_offload_OF_VERSION_1_3"
  unfolding loci_validate_of_instruction_id_bsn_arp_offload_OF_VERSION_1_3_def by (intro v_intro; simp add: v_proved v_ok_imp_k_ok)

lemma loci_validate_of_instruction_id_bsn_arp_offload_OF_VERSION_1_3_exact [x_proved]: "x_ok 2 loci_validate_of_instruction_id_bsn_arp_offload_OF_VERSION_1_3"
  unfolding loci_validate_of_instruction_id_bsn_arp_offload_OF_VERSION_1_3_def by (intro x_intro; simp add: x_proved x_ok_imp_kx_ok)

definition loci_validate_of_instruction_id_bsn_auto_negotiation_OF_VERSION_1_3 :: validator where
  "loci_validate_of_instruction_id_bsn_auto_negotiation_OF_VERSION_1_3 =
     v_min 12 (v_set_len 12 (v_wire_len 2 12 v_done))"

lemma loci_validate_of_instruction_id_bsn_auto_negotiation_OF_VERSION_1_3_ok [v_proved]: "v_ok loci_validate_of_instruction_id_bsn_auto_negotiation_OF_VERSION_1_3"
  unfolding loci_validate_of_instruction_id_bsn_auto_negotiation_OF_VERSION_1_3_def by (intro v_intro; simp add: v_proved v_ok_imp_k_ok)

lemma loci_validate_of_instruction_id_bsn_auto_negotiation_OF_VERSION_1_3_exact [x_proved]: "x_ok 2 loci_validate_of_instruction_id_bsn_auto_negotiation_OF_VERSION_1_3"
  unfolding loci_validate_of_instruction_id_bsn_auto_negotiation_OF_VERSION_1_3_def by (intro x_intro; simp add: x_proved x_ok_imp_kx_ok)

definition loci_validate_of_instruction_id_bsn_deny_OF_VERSION_1_3 :: validator where
  "loci_validate_of_instruction_id_bsn_deny_OF_VERSION_1_3 =
     v_min 12 (v_set_len 12 (v_wire_len 2 12 v_done))"

lemma loci_validate_of_instruction_id_bsn_deny_OF_VERSION_1_3_ok [v_proved]: "v_ok loci_validate_of_instruction_id_bsn_deny_OF_VERSION_1_3"
  unfolding loci_validate_of_instruction_id_bsn_deny_OF_VERSION_1_3_def by (intro v_intro; simp add: v_proved v_ok_imp_k_ok)

lemma loci_validate_of_instruction_id_bsn_deny_OF_VERSION_1_3_exact [x_proved]: "x_ok 2 loci_validate_of_instruction_id_bsn_deny_OF_VERSION_1_3"
  unfolding loci_validate_of_instruction_id_bsn_deny_OF_VERSION_1_3_def by (intro x_intro; simp add: x_proved x_ok_imp_kx_ok)

definition loci_validate_of_instruction_id_bsn_dhcp_offload_OF_VERSION_1_3 :: validator where
  "loci_validate_of_instruction_id_bsn_dhcp_offload_OF_VERSION_1_3 =
     v_min 12 (v_set_len 12 (v_wire_len 2 12 v_done))"

lemma loci_validate_of_instruction_id_bsn_dhcp_offload_OF_VERSION_1_3_ok [v_proved]: "v_ok loci_validate_of_instruction_id_bsn_dhcp_offload_OF_VERSION_1_3"
  unfolding loci_validate_of_instruction_id_bsn_dhcp_offload_OF_VERSION_1_3_def by (intro v_intro; simp add: v_proved v_ok_imp_k_ok)

lemma loci_validate_of_instruction_id_bsn_dhcp_offload_OF_VERSION_1_3_exact [x_proved]: "x_ok 2 loci_validate_of_instruction_id_bsn_dhcp_offload_OF_VERSION_1_3"
  unfolding loci_validate_of_instruction_id_bsn_dhcp_offload_OF_VERSION_1_3_def by (intro x_intro; simp add: x_proved x_ok_imp_kx_ok)

definition loci_validate_of_instruction_id_bsn_disable_l3_OF_VERSION_1_3 :: validator where
  "loci_validate_of_instruction_id_bsn_disable_l3_OF_VERSION_1_3 =
     v_min 12 (v_set_len 12 (v_wire_len 2 12 v_done))"

lemma loci_validate_of_instruction_id_bsn_disable_l3_OF_VERSION_1_3_ok [v_proved]: "v_ok loci_validate_of_instruction_id_bsn_disable_l3_OF_VERSION_1_3"
  unfolding loci_validate_of_instruction_id_bsn_disable_l3_OF_VERSION_1_3_def by (intro v_intro; simp add: v_proved v_ok_imp_k_ok)

lemma loci_validate_of_instruction_id_bsn_disable_l3_OF_VERSION_1_3_exact [x_proved]: "x_ok 2 loci_validate_of_instruction_id_bsn_disable_l3_OF_VERSION_1_3"
  unfolding loci_validate_of_instruction_id_bsn_disable_l3_OF_VERSION_1_3_def by (intro x_intro; simp add: x_proved x_ok_imp_kx_ok)

definition loci_validate_of_instruction_id_bsn_disable_split_horizon_check_OF_VERSION_1_3 :: validator where
  "loci_validate_of_instruction_id_bsn_disable_split_horizon_check_OF_VERSION_1_3 =
     v_min 12 (v_set_len 12 (v_wire_len 2 12 v_done))"

lemma loci_validate_of_instruction_id_bsn_disable_split_horizon_check_OF_VERSION_1_3_ok [v_proved]: "v_ok loci_validate_of_instruction_id_bsn_disable_split_horizon_check_OF_VERSION_1_3"
  unfolding loci_validate_of_instruction_id_bsn_disable_split_horizon_check_OF_VERSION_1_3_def by (intro v_intro; simp add: v_proved v_ok_imp_k_ok)

lemma loci_validate_of_instruction_id_bsn_disable_split_horizon_check_OF_VERSION_1_3_exact [x_proved]: "x_ok 2 loci_validate_of_instruction_id_bsn_disable_split_horizon_check_OF_VERSION_1_3"
  unfolding loci_validate_of_instruction_id_bsn_disable_split_horizon_check_OF_VERSION_1_3_def by (intro x_intro; simp add: x_proved x_ok_imp_kx_ok)

definition loci_validate_of_instruction_id_bsn_disable_src_mac_check_OF_VERSION_1_3 :: validator where
  "loci_validate_of_instruction_id_bsn_disable_src_mac_check_OF_VERSION_1_3 =
     v_min 12 (v_set_len 12 (v_wire_len 2 12 v_done))"

lemma loci_validate_of_instruction_id_bsn_disable_src_mac_check_OF_VERSION_1_3_ok [v_proved]: "v_ok loci_validate_of_instruction_id_bsn_disable_src_mac_check_OF_VERSION_1_3"
  unfolding loci_validate_of_instruction_id_bsn_disable_src_mac_check_OF_VERSION_1_3_def by (intro v_intro; simp add: v_proved v_ok_imp_k_ok)

lemma loci_validate_of_instruction_id_bsn_disable_src_mac_check_OF_VERSION_1_3_exact [x_proved]: "x_ok 2 loci_validate_of_instruction_id_bsn_disable_src_mac_check_OF_VERSION_1_3"
  unfolding loci_validate_of_instruction_id_bsn_disable_src_mac_check_OF_VERSION_1_3_def by (intro x_intro; simp add: x_proved x_ok_imp_kx_ok)

definition loci_validate_of_instruction_id_bsn_disable_vlan_counters_OF_VERSION_1_3 :: validator where
  "loci_validate_of_instruction_id_bsn_disable_vlan_counters_OF_VERSION_1_3 =
     v_min 12 (v_set_len 12 (v_wire_len 2 12 v_done))"

lemma loci_validate_of_instruction_id_bsn_disable_vlan_counters_OF_VERSION_1_3_ok [v_proved]: "v_ok loci_validate_of_instruction_id_bsn_disable_vlan_counters_OF_VERSION_1_3"
  unfolding loci_validate_of_instruction_id_bsn_disable_vlan_counters_OF_VERSION_1_3_def by (intro v_intro; simp add: v_proved v_ok_imp_k_ok)

lemma loci_validate_of_instruction_id_bsn_disable_vlan_counters_OF_VERSION_1_3_exact [x_proved]: "x_ok 2 loci_validate_of_instruction_id_bsn_disable_vlan_counters_OF_VERSION_1_3"
  unfolding loci_validate_of_instruction_id_bsn_disable_vlan_counters_OF_VERSION_1_3_def by (intro x_intro; simp add: x_proved x_ok_imp_kx_ok)

definition loci_validate_of_instruction_id_bsn_internal_priority_OF_VERSION_1_3 :: validator where
  "loci_validate_of_instruction_id_bsn_internal_priority_OF_VERSION_1_3 =
     v_min 12 (v_set_len 12 (v_wire_len 2 12 v_done))"

lemma loci_validate_of_instruction_id_bsn_internal_priority_OF_VERSION_1_3_ok [v_proved]: "v_ok loci_validate_of_instruction_id_bsn_internal_priority_OF_VERSION_1_3"
  unfolding loci_validate_of_instruction_id_bsn_internal_priority_OF_VERSION_1_3_def by (intro v_intro; simp add: v_proved v_ok_imp_k_ok)

lemma loci_validate_of_instruction_id_bsn_internal_priority_OF_VERSION_1_3_exact [x_proved]: "x_ok 2 loci_validate_of_instruction_id_bsn_internal_priority_OF_VERSION_1_3"
  unfolding loci_validate_of_instruction_id_bsn_internal_priority_OF_VERSION_1_3_def by (intro x_intro; simp add: x_proved x_ok_imp_kx_ok)

definition loci_validate_of_instruction_id_bsn_packet_of_death_OF_VERSION_1_3 :: validator where
  "loci_validate_of_instruction_id_bsn_packet_of_death_OF_VERSION_1_3 =
     v_min 12 (v_set_len 12 (v_wire_len 2 12 v_done))"

lemma loci_validate_of_instruction_id_bsn_packet_of_death_OF_VERSION_1_3_ok [v_proved]: "v_ok loci_validate_of_instruction_id_bsn_packet_of_death_OF_VERSION_1_3"
  unfolding loci_validate_of_instruction_id_bsn_packet_of_death_OF_VERSION_1_3_def by (intro v_intro; simp add: v_proved v_ok_imp_k_ok)

lemma loci_validate_of_instruction_id_bsn_packet_of_death_OF_VERSION_1_3_exact [x_proved]: "x_ok 2 loci_validate_of_instruction_id_bsn_packet_of_death_OF_VERSION_1_3"
  unfolding loci_validate_of_instruction_id_bsn_packet_of_death_OF_VERSION_1_3_def by (intro x_intro; simp add: x_proved x_ok_imp_kx_ok)

definition loci_validate_of_instruction_id_bsn_permit_OF_VERSION_1_3 :: validator where
  "loci_validate_of_instruction_id_bsn_permit_OF_VERSION_1_3 =
     v_min 12 (v_set_len 12 (v_wire_len 2 12 v_done))"

lemma loci_validate_of_instruction_id_bsn_permit_OF_VERSION_1_3_ok [v_proved]: "v_ok loci_validate_of_instruction_id_bsn_permit_OF_VERSION_1_3"
  unfolding loci_validate_of_instruction_id_bsn_permit_OF_VERSION_1_3_def by (intro v_intro; simp add: v_proved v_ok_imp_k_ok)

lemma loci_validate_of_instruction_id_bsn_permit_OF_VERSION_1_3_exact [x_proved]: "x_ok 2 loci_validate_of_instruction_id_bsn_permit_OF_VERSION_1_3"
  unfolding loci_validate_of_instruction_id_bsn_permit_OF_VERSION_1_3_def by (intro x_intro; simp add: x_proved x_ok_imp_kx_ok)

definition loci_validate_of_instruction_id_bsn_prioritize_pdus_OF_VERSION_1_3 :: validator where
  "loci_validate_of_instruction_id_bsn_prioritize_pdus_OF_VERSION_1_3 =
     v_min 12 (v_set_len 12 (v_wire_len 2 12 v_done))"

lemma loci_validate_of_instruction_id_bsn_prioritize_pdus_OF_VERSION_1_3_ok [v_proved]: "v_ok loci_validate_of_instruction_id_bsn_prioritize_pdus_OF_VERSION_1_3"
  unfolding loci_validate_of_instruction_id_bsn_prioritize_pdus_OF_VERSION_1_3_def by (intro v_intro; simp add: v_proved v_ok_imp_k_ok)

lemma loci_validate_of_instruction_id_bsn_prioritize_pdus_OF_VERSION_1_3_exact [x_proved]: "x_ok 2 loci_validate_of_instruction_id_bsn_prioritize_pdus_OF_VERSION_1_3"
  unfolding loci_validate_of_instruction_id_bsn_prioritize_pdus_OF_VERSION_1_3_def by (intro x_intro; simp add: x_proved x_ok_imp_kx_ok)

definition loci_validate_of_instruction_id_bsn_require_vlan_xlate_OF_VERSION_1_3 :: validator where
  "loci_validate_of_instruction_id_bsn_require_vlan_xlate_OF_VERSION_1_3 =
     v_min 12 (v_set_len 12 (v_wire_len 2 12 v_done))"

lemma loci_validate_of_instruction_id_bsn_require_vlan_xlate_OF_VERSION_1_3_ok [v_proved]: "v_ok loci_validate_of_instruction_id_bsn_require_vlan_xlate_OF_VERSION_1_3"
  unfolding loci_validate_of_instruction_id_bsn_require_vlan_xlate_OF_VERSION_1_3_def by (intro v_intro; simp add: v_proved v_ok_imp_k_ok)

lemma loci_validate_of_instruction_id_bsn_require_vlan_xlate_OF_VERSION_1_3_exact [x_proved]: "x_ok 2 loci_validate_of_instruction_id_bsn_require_vlan_xlate_OF_VERSION_1_3"
  unfolding loci_validate_of_instruction_id_bsn_require_vlan_xlate_OF_VERSION_1_3_def by (intro x_intro; simp add: x_proved x_ok_imp_kx_ok)

definition loci_validate_of_instruction_id_bsn_span_destination_OF_VERSION_1_3 :: validator where
  "loci_validate_of_instruction_id_bsn_span_destination_OF_VERSION_1_3 =
     v_min 12 (v_set_len 12 (v_wire_len 2 12 v_done))"

lemma loci_validate_of_instruction_id_bsn_span_destination_OF_VERSION_1_3_ok [v_proved]: "v_ok loci_validate_of_instruction_id_bsn_span_destination_OF_VERSION_1_3"
  unfolding loci_validate_of_instruction_id_bsn_span_destination_OF_VERSION_1_3_def by (intro v_intro; simp add: v_proved v_ok_imp_k_ok)

lemma loci_validate_of_instruction_id_bsn_span_destination_OF_VERSION_1_3_exact [x_proved]: "x_ok 2 loci_validate_of_instruction_id_bsn_span_destination_OF_VERSION_1_3"
  unfolding loci_validate_of_instruction_id_bsn_span_destination_OF_VERSION_1_3_def by (intro x_intro; simp add: x_proved x_ok_imp_kx_ok)

definition loci_validate_of_instruction_id_bsn_OF_VERSION_1_3 :: validator where
  "loci_validate_of_instruction_id_bsn_OF_VERSION_1_3 =
     v_min 12 (v_wire_len_set 2 12
     (v_switch32 8
      [(1, loci_validate_of_instruction_id_bsn_arp_offload_OF_VERSION_1_3),
       (0xb, loci_validate_of_instruction_id_bsn_auto_negotiation_OF_VERSION_1_3),
       (5, loci_validate_of_instruction_id_bsn_deny_OF_VERSION_1_3),
       (2, loci_validate_of_instruction_id_bsn_dhcp_offload_OF_VERSION_1_3),
       (0xd, loci_validate_of_instruction_id_bsn_disable_l3_OF_VERSION_1_3),
       (3, loci_validate_of_instruction_id_bsn_disable_split_horizon_check_OF_VERSION_1_3),
       (0, loci_validate_of_instruction_id_bsn_disable_src_mac_check_OF_VERSION_1_3),
       (9, loci_validate_of_instruction_id_bsn_disable_vlan_counters_OF_VERSION_1_3),
       (0xc, loci_validate_of_instruction_id_bsn_internal_priority_OF_VERSION_1_3),
       (6, loci_validate_of_instruction_id_bsn_packet_of_death_OF_VERSION_1_3),
       (4, loci_validate_of_instruction_id_bsn_permit_OF_VERSION_1_3),
       (7, loci_validate_of_instruction_id_bsn_prioritize_pdus_OF_VERSION_1_3),
       (8, loci_validate_of_instruction_id_bsn_require_vlan_xlate_OF_VERSION_1_3),
       (0xa, loci_validate_of_instruction_id_bsn_span_destination_OF_VERSION_1_3)]
     v_done))"

lemma loci_validate_of_instruction_id_bsn_OF_VERSION_1_3_ok [v_proved]: "v_ok loci_validate_of_instruction_id_bsn_OF_VERSION_1_3"
  unfolding loci_validate_of_instruction_id_bsn_OF_VERSION_1_3_def by (intro v_intro; simp add: v_proved v_ok_imp_k_ok)

lemma loci_validate_of_instruction_id_bsn_OF_VERSION_1_3_exact [x_proved]: "x_ok 2 loci_validate_of_instruction_id_bsn_OF_VERSION_1_3"
  unfolding loci_validate_of_instruction_id_bsn_OF_VERSION_1_3_def by (intro x_intro; simp add: x_proved x_ok_imp_kx_ok)

definition loci_validate_of_instruction_id_experimenter_OF_VERSION_1_3 :: validator where
  "loci_validate_of_instruction_id_experimenter_OF_VERSION_1_3 =
     v_min 8 (v_wire_len_set 2 8
     (v_switch32 4
      [(0x5c16c7, loci_validate_of_instruction_id_bsn_OF_VERSION_1_3)]
     v_done))"

lemma loci_validate_of_instruction_id_experimenter_OF_VERSION_1_3_ok [v_proved]: "v_ok loci_validate_of_instruction_id_experimenter_OF_VERSION_1_3"
  unfolding loci_validate_of_instruction_id_experimenter_OF_VERSION_1_3_def by (intro v_intro; simp add: v_proved v_ok_imp_k_ok)

lemma loci_validate_of_instruction_id_experimenter_OF_VERSION_1_3_exact [x_proved]: "x_ok 2 loci_validate_of_instruction_id_experimenter_OF_VERSION_1_3"
  unfolding loci_validate_of_instruction_id_experimenter_OF_VERSION_1_3_def by (intro x_intro; simp add: x_proved x_ok_imp_kx_ok)

definition loci_validate_of_instruction_id_clear_actions_OF_VERSION_1_3 :: validator where
  "loci_validate_of_instruction_id_clear_actions_OF_VERSION_1_3 =
     v_min 4 (v_set_len 4 (v_wire_len 2 4 v_done))"

lemma loci_validate_of_instruction_id_clear_actions_OF_VERSION_1_3_ok [v_proved]: "v_ok loci_validate_of_instruction_id_clear_actions_OF_VERSION_1_3"
  unfolding loci_validate_of_instruction_id_clear_actions_OF_VERSION_1_3_def by (intro v_intro; simp add: v_proved v_ok_imp_k_ok)

lemma loci_validate_of_instruction_id_clear_actions_OF_VERSION_1_3_exact [x_proved]: "x_ok 2 loci_validate_of_instruction_id_clear_actions_OF_VERSION_1_3"
  unfolding loci_validate_of_instruction_id_clear_actions_OF_VERSION_1_3_def by (intro x_intro; simp add: x_proved x_ok_imp_kx_ok)

definition loci_validate_of_instruction_id_goto_table_OF_VERSION_1_3 :: validator where
  "loci_validate_of_instruction_id_goto_table_OF_VERSION_1_3 =
     v_min 4 (v_set_len 4 (v_wire_len 2 4 v_done))"

lemma loci_validate_of_instruction_id_goto_table_OF_VERSION_1_3_ok [v_proved]: "v_ok loci_validate_of_instruction_id_goto_table_OF_VERSION_1_3"
  unfolding loci_validate_of_instruction_id_goto_table_OF_VERSION_1_3_def by (intro v_intro; simp add: v_proved v_ok_imp_k_ok)

lemma loci_validate_of_instruction_id_goto_table_OF_VERSION_1_3_exact [x_proved]: "x_ok 2 loci_validate_of_instruction_id_goto_table_OF_VERSION_1_3"
  unfolding loci_validate_of_instruction_id_goto_table_OF_VERSION_1_3_def by (intro x_intro; simp add: x_proved x_ok_imp_kx_ok)

definition loci_validate_of_instruction_id_meter_OF_VERSION_1_3 :: validator where
  "loci_validate_of_instruction_id_meter_OF_VERSION_1_3 =
     v_min 4 (v_set_len 4 (v_wire_len 2 4 v_done))"

lemma loci_validate_of_instruction_id_meter_OF_VERSION_1_3_ok [v_proved]: "v_ok loci_validate_of_instruction_id_meter_OF_VERSION_1_3"
  unfolding loci_validate_of_instruction_id_meter_OF_VERSION_1_3_def by (intro v_intro; simp add: v_proved v_ok_imp_k_ok)

lemma loci_validate_of_instruction_id_meter_OF_VERSION_1_3_exact [x_proved]: "x_ok 2 loci_validate_of_instruction_id_meter_OF_VERSION_1_3"
  unfolding loci_validate_of_instruction_id_meter_OF_VERSION_1_3_def by (intro x_intro; simp add: x_proved x_ok_imp_kx_ok)

definition loci_validate_of_instruction_id_write_actions_OF_VERSION_1_3 :: validator where
  "loci_validate_of_instruction_id_write_actions_OF_VERSION_1_3 =
     v_min 4 (v_set_len 4 (v_wire_len 2 4 v_done))"

lemma loci_validate_of_instruction_id_write_actions_OF_VERSION_1_3_ok [v_proved]: "v_ok loci_validate_of_instruction_id_write_actions_OF_VERSION_1_3"
  unfolding loci_validate_of_instruction_id_write_actions_OF_VERSION_1_3_def by (intro v_intro; simp add: v_proved v_ok_imp_k_ok)

lemma loci_validate_of_instruction_id_write_actions_OF_VERSION_1_3_exact [x_proved]: "x_ok 2 loci_validate_of_instruction_id_write_actions_OF_VERSION_1_3"
  unfolding loci_validate_of_instruction_id_write_actions_OF_VERSION_1_3_def by (intro x_intro; simp add: x_proved x_ok_imp_kx_ok)

definition loci_validate_of_instruction_id_write_metadata_OF_VERSION_1_3 :: validator where
  "loci_validate_of_instruction_id_write_metadata_OF_VERSION_1_3 =
     v_min 4 (v_set_len 4 (v_wire_len 2 4 v_done))"

lemma loci_validate_of_instruction_id_write_metadata_OF_VERSION_1_3_ok [v_proved]: "v_ok loci_validate_of_instruction_id_write_metadata_OF_VERSION_1_3"
  unfolding loci_validate_of_instruction_id_write_metadata_OF_VERSION_1_3_def by (intro v_intro; simp add: v_proved v_ok_imp_k_ok)

lemma loci_validate_of_instruction_id_write_metadata_OF_VERSION_1_3_exact [x_proved]: "x_ok 2 loci_validate_of_instruction_id_write_metadata_OF_VERSION_1_3"
  unfolding loci_validate_of_instruction_id_write_metadata_OF_VERSION_1_3_def by (intro x_intro; simp add: x_proved x_ok_imp_kx_ok)

definition loci_validate_of_instruction_id_OF_VERSION_1_3 :: validator where
  "loci_validate_of_instruction_id_OF_VERSION_1_3 =
     v_min 4 (v_wire_len_set 2 4
     (v_switch16 0
      [(4, loci_validate_of_instruction_id_apply_actions_OF_VERSION_1_3),
       (0xffff, loci_validate_of_instruction_id_experimenter_OF_VERSION_1_3),
       (5, loci_validate_of_instruction_id_clear_actions_OF_VERSION_1_3),
       (1, loci_validate_of_instruction_id_goto_table_OF_VERSION_1_3),
       (6, loci_validate_of_instruction_id_meter_OF_VERSION_1_3),
       (3, loci_validate_of_instruction_id_write_actions_OF_VERSION_1_3),
       (2, loci_validate_of_instruction_id_write_metadata_OF_VERSION_1_3)]
     v_done))"

lemma loci_validate_of_instruction_id_OF_VERSION_1_3_ok [v_proved]: "v_ok loci_validate_of_instruction_id_OF_VERSION_1_3"
  unfolding loci_validate_of_instruction_id_OF_VERSION_1_3_def by (intro v_intro; simp add: v_proved v_ok_imp_k_ok)

lemma loci_validate_of_instruction_id_OF_VERSION_1_3_exact [x_proved]: "x_ok 2 loci_validate_of_instruction_id_OF_VERSION_1_3"
  unfolding loci_validate_of_instruction_id_OF_VERSION_1_3_def by (intro x_intro; simp add: x_proved x_ok_imp_kx_ok)

definition loci_validate_of_list_instruction_id_OF_VERSION_1_3 :: "byte list \<Rightarrow> int \<Rightarrow> int \<Rightarrow> bool res" where
  "loci_validate_of_list_instruction_id_OF_VERSION_1_3 = v_list loci_validate_of_instruction_id_OF_VERSION_1_3"

interpretation instruction_id_1_3_list: list_element loci_validate_of_instruction_id_OF_VERSION_1_3
  by unfold_locales (rule loci_validate_of_instruction_id_OF_VERSION_1_3_ok)

lemma loci_validate_of_list_instruction_id_OF_VERSION_1_3_ok [v_proved]: "l_ok loci_validate_of_list_instruction_id_OF_VERSION_1_3"
  unfolding loci_validate_of_list_instruction_id_OF_VERSION_1_3_def by (rule instruction_id_1_3_list.l_ok_list)

definition loci_validate_of_uint8_OF_VERSION_1_3 :: validator where
  "loci_validate_of_uint8_OF_VERSION_1_3 =
     v_min 1 (v_set_len 1 v_done)"

lemma loci_validate_of_uint8_OF_VERSION_1_3_ok [v_proved]: "v_ok loci_validate_of_uint8_OF_VERSION_1_3"
  unfolding loci_validate_of_uint8_OF_VERSION_1_3_def by (intro v_intro; simp add: v_proved v_ok_imp_k_ok)

definition loci_validate_of_list_uint8_OF_VERSION_1_3 :: "byte list \<Rightarrow> int \<Rightarrow> int \<Rightarrow> bool res" where
  "loci_validate_of_list_uint8_OF_VERSION_1_3 = v_list loci_validate_of_uint8_OF_VERSION_1_3"

interpretation uint8_1_3_list: list_element loci_validate_of_uint8_OF_VERSION_1_3
  by unfold_locales (rule loci_validate_of_uint8_OF_VERSION_1_3_ok)

lemma loci_validate_of_list_uint8_OF_VERSION_1_3_ok [v_proved]: "l_ok loci_validate_of_list_uint8_OF_VERSION_1_3"
  unfolding loci_validate_of_list_uint8_OF_VERSION_1_3_def by (rule uint8_1_3_list.l_ok_list)

definition loci_validate_of_table_feature_prop_apply_actions_OF_VERSION_1_3 :: validator where
  "loci_validate_of_table_feature_prop_apply_actions_OF_VERSION_1_3 =
     v_min 4 (v_wire_len_set 2 4
     (v_list_rest 4 loci_validate_of_list_action_id_OF_VERSION_1_3 v_done))"

lemma loci_validate_of_table_feature_prop_apply_actions_OF_VERSION_1_3_ok [v_proved]: "v_ok loci_validate_of_table_feature_prop_apply_actions_OF_VERSION_1_3"
  unfolding loci_validate_of_table_feature_prop_apply_actions_OF_VERSION_1_3_def by (intro v_intro; simp add: v_proved v_ok_imp_k_ok)

lemma loci_validate_of_table_feature_prop_apply_actions_OF_VERSION_1_3_exact [x_proved]: "x_ok 2 loci_validate_of_table_feature_prop_apply_actions_OF_VERSION_1_3"
  unfolding loci_validate_of_table_feature_prop_apply_actions_OF_VERSION_1_3_def by (intro x_intro; simp add: x_proved x_ok_imp_kx_ok)

definition loci_validate_of_table_feature_prop_apply_actions_miss_OF_VERSION_1_3 :: validator where
  "loci_validate_of_table_feature_prop_apply_actions_miss_OF_VERSION_1_3 =
     v_min 4 (v_wire_len_set 2 4
     (v_list_rest 4 loci_validate_of_list_action_id_OF_VERSION_1_3 v_done))"

lemma loci_validate_of_table_feature_prop_apply_actions_miss_OF_VERSION_1_3_ok [v_proved]: "v_ok loci_validate_of_table_feature_prop_apply_actions_miss_OF_VERSION_1_3"
  unfolding loci_validate_of_table_feature_prop_apply_actions_miss_OF_VERSION_1_3_def by (intro v_intro; simp add: v_proved v_ok_imp_k_ok)

lemma loci_validate_of_table_feature_prop_apply_actions_miss_OF_VERSION_1_3_exact [x_proved]: "x_ok 2 loci_validate_of_table_feature_prop_apply_actions_miss_OF_VERSION_1_3"
  unfolding loci_validate_of_table_feature_prop_apply_actions_miss_OF_VERSION_1_3_def by (intro x_intro; simp add: x_proved x_ok_imp_kx_ok)

definition loci_validate_of_table_feature_prop_apply_setfield_OF_VERSION_1_3 :: validator where
  "loci_validate_of_table_feature_prop_apply_setfield_OF_VERSION_1_3 =
     v_min 4 (v_wire_len_set 2 4
     (v_list_rest 4 loci_validate_of_list_uint32_OF_VERSION_1_3 v_done))"

lemma loci_validate_of_table_feature_prop_apply_setfield_OF_VERSION_1_3_ok [v_proved]: "v_ok loci_validate_of_table_feature_prop_apply_setfield_OF_VERSION_1_3"
  unfolding loci_validate_of_table_feature_prop_apply_setfield_OF_VERSION_1_3_def by (intro v_intro; simp add: v_proved v_ok_imp_k_ok)

lemma loci_validate_of_table_feature_prop_apply_setfield_OF_VERSION_1_3_exact [x_proved]: "x_ok 2 loci_validate_of_table_feature_prop_apply_setfield_OF_VERSION_1_3"
  unfolding loci_validate_of_table_feature_prop_apply_setfield_OF_VERSION_1_3_def by (intro x_intro; simp add: x_proved x_ok_imp_kx_ok)

definition loci_validate_of_table_feature_prop_apply_setfield_miss_OF_VERSION_1_3 :: validator where
  "loci_validate_of_table_feature_prop_apply_setfield_miss_OF_VERSION_1_3 =
     v_min 4 (v_wire_len_set 2 4
     (v_list_rest 4 loci_validate_of_list_uint32_OF_VERSION_1_3 v_done))"

lemma loci_validate_of_table_feature_prop_apply_setfield_miss_OF_VERSION_1_3_ok [v_proved]: "v_ok loci_validate_of_table_feature_prop_apply_setfield_miss_OF_VERSION_1_3"
  unfolding loci_validate_of_table_feature_prop_apply_setfield_miss_OF_VERSION_1_3_def by (intro v_intro; simp add: v_proved v_ok_imp_k_ok)

lemma loci_validate_of_table_feature_prop_apply_setfield_miss_OF_VERSION_1_3_exact [x_proved]: "x_ok 2 loci_validate_of_table_feature_prop_apply_setfield_miss_OF_VERSION_1_3"
  unfolding loci_validate_of_table_feature_prop_apply_setfield_miss_OF_VERSION_1_3_def by (intro x_intro; simp add: x_proved x_ok_imp_kx_ok)

definition loci_validate_of_table_feature_prop_experimenter_OF_VERSION_1_3 :: validator where
  "loci_validate_of_table_feature_prop_experimenter_OF_VERSION_1_3 =
     v_min 12 (v_wire_len_set 2 12
     (v_switch32 4
      []
     v_done))"

lemma loci_validate_of_table_feature_prop_experimenter_OF_VERSION_1_3_ok [v_proved]: "v_ok loci_validate_of_table_feature_prop_experimenter_OF_VERSION_1_3"
  unfolding loci_validate_of_table_feature_prop_experimenter_OF_VERSION_1_3_def by (intro v_intro; simp add: v_proved v_ok_imp_k_ok)

lemma loci_validate_of_table_feature_prop_experimenter_OF_VERSION_1_3_exact [x_proved]: "x_ok 2 loci_validate_of_table_feature_prop_experimenter_OF_VERSION_1_3"
  unfolding loci_validate_of_table_feature_prop_experimenter_OF_VERSION_1_3_def by (intro x_intro; simp add: x_proved x_ok_imp_kx_ok)

definition loci_validate_of_table_feature_prop_experimenter_miss_OF_VERSION_1_3 :: validator where
  "loci_validate_of_table_feature_prop_experimenter_miss_OF_VERSION_1_3 =
     v_min 12 (v_wire_len_set 2 12
     (v_switch32 4
      []
     v_done))"

lemma loci_validate_of_table_feature_prop_experimenter_miss_OF_VERSION_1_3_ok [v_proved]: "v_ok loci_validate_of_table_feature_prop_experimenter_miss_OF_VERSION_1_3"
  unfolding loci_validate_of_table_feature_prop_experimenter_miss_OF_VERSION_1_3_def by (intro v_intro; simp add: v_proved v_ok_imp_k_ok)

lemma loci_validate_of_table_feature_prop_experimenter_miss_OF_VERSION_1_3_exact [x_proved]: "x_ok 2 loci_validate_of_table_feature_prop_experimenter_miss_OF_VERSION_1_3"
  unfolding loci_validate_of_table_feature_prop_experimenter_miss_OF_VERSION_1_3_def by (intro x_intro; simp add: x_proved x_ok_imp_kx_ok)

definition loci_validate_of_table_feature_prop_instructions_OF_VERSION_1_3 :: validator where
  "loci_validate_of_table_feature_prop_instructions_OF_VERSION_1_3 =
     v_min 4 (v_wire_len_set 2 4
     (v_list_rest 4 loci_validate_of_list_instruction_id_OF_VERSION_1_3 v_done))"

lemma loci_validate_of_table_feature_prop_instructions_OF_VERSION_1_3_ok [v_proved]: "v_ok loci_validate_of_table_feature_prop_instructions_OF_VERSION_1_3"
  unfolding loci_validate_of_table_feature_prop_instructions_OF_VERSION_1_3_def by (intro v_intro; simp add: v_proved v_ok_imp_k_ok)

lemma loci_validate_of_table_feature_prop_instructions_OF_VERSION_1_3_exact [x_proved]: "x_ok 2 loci_validate_of_table_feature_prop_instructions_OF_VERSION_1_3"
  unfolding loci_validate_of_table_feature_prop_instructions_OF_VERSION_1_3_def by (intro x_intro; simp add: x_proved x_ok_imp_kx_ok)

definition loci_validate_of_table_feature_prop_instructions_miss_OF_VERSION_1_3 :: validator where
  "loci_validate_of_table_feature_prop_instructions_miss_OF_VERSION_1_3 =
     v_min 4 (v_wire_len_set 2 4
     (v_list_rest 4 loci_validate_of_list_instruction_id_OF_VERSION_1_3 v_done))"

lemma loci_validate_of_table_feature_prop_instructions_miss_OF_VERSION_1_3_ok [v_proved]: "v_ok loci_validate_of_table_feature_prop_instructions_miss_OF_VERSION_1_3"
  unfolding loci_validate_of_table_feature_prop_instructions_miss_OF_VERSION_1_3_def by (intro v_intro; simp add: v_proved v_ok_imp_k_ok)

lemma loci_validate_of_table_feature_prop_instructions_miss_OF_VERSION_1_3_exact [x_proved]: "x_ok 2 loci_validate_of_table_feature_prop_instructions_miss_OF_VERSION_1_3"
  unfolding loci_validate_of_table_feature_prop_instructions_miss_OF_VERSION_1_3_def by (intro x_intro; simp add: x_proved x_ok_imp_kx_ok)

definition loci_validate_of_table_feature_prop_match_OF_VERSION_1_3 :: validator where
  "loci_validate_of_table_feature_prop_match_OF_VERSION_1_3 =
     v_min 4 (v_wire_len_set 2 4
     (v_list_rest 4 loci_validate_of_list_uint32_OF_VERSION_1_3 v_done))"

lemma loci_validate_of_table_feature_prop_match_OF_VERSION_1_3_ok [v_proved]: "v_ok loci_validate_of_table_feature_prop_match_OF_VERSION_1_3"
  unfolding loci_validate_of_table_feature_prop_match_OF_VERSION_1_3_def by (intro v_intro; simp add: v_proved v_ok_imp_k_ok)

lemma loci_validate_of_table_feature_prop_match_OF_VERSION_1_3_exact [x_proved]: "x_ok 2 loci_validate_of_table_feature_prop_match_OF_VERSION_1_3"
  unfolding loci_validate_of_table_feature_prop_match_OF_VERSION_1_3_def by (intro x_intro; simp add: x_proved x_ok_imp_kx_ok)

definition loci_validate_of_table_feature_prop_next_tables_OF_VERSION_1_3 :: validator where
  "loci_validate_of_table_feature_prop_next_tables_OF_VERSION_1_3 =
     v_min 4 (v_wire_len_set 2 4
     (v_list_rest 4 loci_validate_of_list_uint8_OF_VERSION_1_3 v_done))"

lemma loci_validate_of_table_feature_prop_next_tables_OF_VERSION_1_3_ok [v_proved]: "v_ok loci_validate_of_table_feature_prop_next_tables_OF_VERSION_1_3"
  unfolding loci_validate_of_table_feature_prop_next_tables_OF_VERSION_1_3_def by (intro v_intro; simp add: v_proved v_ok_imp_k_ok)

lemma loci_validate_of_table_feature_prop_next_tables_OF_VERSION_1_3_exact [x_proved]: "x_ok 2 loci_validate_of_table_feature_prop_next_tables_OF_VERSION_1_3"
  unfolding loci_validate_of_table_feature_prop_next_tables_OF_VERSION_1_3_def by (intro x_intro; simp add: x_proved x_ok_imp_kx_ok)

definition loci_validate_of_table_feature_prop_next_tables_miss_OF_VERSION_1_3 :: validator where
  "loci_validate_of_table_feature_prop_next_tables_miss_OF_VERSION_1_3 =
     v_min 4 (v_wire_len_set 2 4
     (v_list_rest 4 loci_validate_of_list_uint8_OF_VERSION_1_3 v_done))"

lemma loci_validate_of_table_feature_prop_next_tables_miss_OF_VERSION_1_3_ok [v_proved]: "v_ok loci_validate_of_table_feature_prop_next_tables_miss_OF_VERSION_1_3"
  unfolding loci_validate_of_table_feature_prop_next_tables_miss_OF_VERSION_1_3_def by (intro v_intro; simp add: v_proved v_ok_imp_k_ok)

lemma loci_validate_of_table_feature_prop_next_tables_miss_OF_VERSION_1_3_exact [x_proved]: "x_ok 2 loci_validate_of_table_feature_prop_next_tables_miss_OF_VERSION_1_3"
  unfolding loci_validate_of_table_feature_prop_next_tables_miss_OF_VERSION_1_3_def by (intro x_intro; simp add: x_proved x_ok_imp_kx_ok)

definition loci_validate_of_table_feature_prop_wildcards_OF_VERSION_1_3 :: validator where
  "loci_validate_of_table_feature_prop_wildcards_OF_VERSION_1_3 =
     v_min 4 (v_wire_len_set 2 4
     (v_list_rest 4 loci_validate_of_list_uint32_OF_VERSION_1_3 v_done))"

lemma loci_validate_of_table_feature_prop_wildcards_OF_VERSION_1_3_ok [v_proved]: "v_ok loci_validate_of_table_feature_prop_wildcards_OF_VERSION_1_3"
  unfolding loci_validate_of_table_feature_prop_wildcards_OF_VERSION_1_3_def by (intro v_intro; simp add: v_proved v_ok_imp_k_ok)

lemma loci_validate_of_table_feature_prop_wildcards_OF_VERSION_1_3_exact [x_proved]: "x_ok 2 loci_validate_of_table_feature_prop_wildcards_OF_VERSION_1_3"
  unfolding loci_validate_of_table_feature_prop_wildcards_OF_VERSION_1_3_def by (intro x_intro; simp add: x_proved x_ok_imp_kx_ok)

definition loci_validate_of_table_feature_prop_write_actions_OF_VERSION_1_3 :: validator where
  "loci_validate_of_table_feature_prop_write_actions_OF_VERSION_1_3 =
     v_min 4 (v_wire_len_set 2 4
     (v_list_rest 4 loci_validate_of_list_action_id_OF_VERSION_1_3 v_done))"

lemma loci_validate_of_table_feature_prop_write_actions_OF_VERSION_1_3_ok [v_proved]: "v_ok loci_validate_of_table_feature_prop_write_actions_OF_VERSION_1_3"
  unfolding loci_validate_of_table_feature_prop_write_actions_OF_VERSION_1_3_def by (intro v_intro; simp add: v_proved v_ok_imp_k_ok)

lemma loci_validate_of_table_feature_prop_write_actions_OF_VERSION_1_3_exact [x_proved]: "x_ok 2 loci_validate_of_table_feature_prop_write_actions_OF_VERSION_1_3"
  unfolding loci_validate_of_table_feature_prop_write_actions_OF_VERSION_1_3_def by (intro x_intro; simp add: x_proved x_ok_imp_kx_ok)

definition loci_validate_of_table_feature_prop_write_actions_miss_OF_VERSION_1_3 :: validator where
  "loci_validate_of_table_feature_prop_write_actions_miss_OF_VERSION_1_3 =
     v_min 4 (v_wire_len_set 2 4
     (v_list_rest 4 loci_validate_of_list_action_id_OF_VERSION_1_3 v_done))"

lemma loci_validate_of_table_feature_prop_write_actions_miss_OF_VERSION_1_3_ok [v_proved]: "v_ok loci_validate_of_table_feature_prop_write_actions_miss_OF_VERSION_1_3"
  unfolding loci_validate_of_table_feature_prop_write_actions_miss_OF_VERSION_1_3_def by (intro v_intro; simp add: v_proved v_ok_imp_k_ok)

lemma loci_validate_of_table_feature_prop_write_actions_miss_OF_VERSION_1_3_exact [x_proved]: "x_ok 2 loci_validate_of_table_feature_prop_write_actions_miss_OF_VERSION_1_3"
  unfolding loci_validate_of_table_feature_prop_write_actions_miss_OF_VERSION_1_3_def by (intro x_intro; simp add: x_proved x_ok_imp_kx_ok)

definition loci_validate_of_table_feature_prop_write_setfield_OF_VERSION_1_3 :: validator where
  "loci_validate_of_table_feature_prop_write_setfield_OF_VERSION_1_3 =
     v_min 4 (v_wire_len_set 2 4
     (v_list_rest 4 loci_validate_of_list_uint32_OF_VERSION_1_3 v_done))"

lemma loci_validate_of_table_feature_prop_write_setfield_OF_VERSION_1_3_ok [v_proved]: "v_ok loci_validate_of_table_feature_prop_write_setfield_OF_VERSION_1_3"
  unfolding loci_validate_of_table_feature_prop_write_setfield_OF_VERSION_1_3_def by (intro v_intro; simp add: v_proved v_ok_imp_k_ok)

lemma loci_validate_of_table_feature_prop_write_setfield_OF_VERSION_1_3_exact [x_proved]: "x_ok 2 loci_validate_of_table_feature_prop_write_setfield_OF_VERSION_1_3"
  unfolding loci_validate_of_table_feature_prop_write_setfield_OF_VERSION_1_3_def by (intro x_intro; simp add: x_proved x_ok_imp_kx_ok)

definition loci_validate_of_table_feature_prop_write_setfield_miss_OF_VERSION_1_3 :: validator where
  "loci_validate_of_table_feature_prop_write_setfield_miss_OF_VERSION_1_3 =
     v_min 4 (v_wire_len_set 2 4
     (v_list_rest 4 loci_validate_of_list_uint32_OF_VERSION_1_3 v_done))"

lemma loci_validate_of_table_feature_prop_write_setfield_miss_OF_VERSION_1_3_ok [v_proved]: "v_ok loci_validate_of_table_feature_prop_write_setfield_miss_OF_VERSION_1_3"
  unfolding loci_validate_of_table_feature_prop_write_setfield_miss_OF_VERSION_1_3_def by (intro v_intro; simp add: v_proved v_ok_imp_k_ok)

lemma loci_validate_of_table_feature_prop_write_setfield_miss_OF_VERSION_1_3_exact [x_proved]: "x_ok 2 loci_validate_of_table_feature_prop_write_setfield_miss_OF_VERSION_1_3"
  unfolding loci_validate_of_table_feature_prop_write_setfield_miss_OF_VERSION_1_3_def by (intro x_intro; simp add: x_proved x_ok_imp_kx_ok)

definition loci_validate_of_table_feature_prop_OF_VERSION_1_3 :: validator where
  "loci_validate_of_table_feature_prop_OF_VERSION_1_3 =
     v_min 4 (v_wire_len_set 2 4
     (v_switch16 0
      [(6, loci_validate_of_table_feature_prop_apply_actions_OF_VERSION_1_3),
       (7, loci_validate_of_table_feature_prop_apply_actions_miss_OF_VERSION_1_3),
       (0xe, loci_validate_of_table_feature_prop_apply_setfield_OF_VERSION_1_3),
       (0xf, loci_validate_of_table_feature_prop_apply_setfield_miss_OF_VERSION_1_3),
       (0xfffe, loci_validate_of_table_feature_prop_experimenter_OF_VERSION_1_3),
       (0xffff, loci_validate_of_table_feature_prop_experimenter_miss_OF_VERSION_1_3),
       (0, loci_validate_of_table_feature_prop_instructions_OF_VERSION_1_3),
       (1, loci_validate_of_table_feature_prop_instructions_miss_OF_VERSION_1_3),
       (8, loci_validate_of_table_feature_prop_match_OF_VERSION_1_3),
       (2, loci_validate_of_table_feature_prop_next_tables_OF_VERSION_1_3),
       (3, loci_validate_of_table_feature_prop_next_tables_miss_OF_VERSION_1_3),
       (0xa, loci_validate_of_table_feature_prop_wildcards_OF_VERSION_1_3),
       (4, loci_validate_of_table_feature_prop_write_actions_OF_VERSION_1_3),
       (5, loci_validate_of_table_feature_prop_write_actions_miss_OF_VERSION_1_3),
       (0xc, loci_validate_of_table_feature_prop_write_setfield_OF_VERSION_1_3),
       (0xd, loci_validate_of_table_feature_prop_write_setfield_miss_OF_VERSION_1_3)]
     v_done))"

lemma loci_validate_of_table_feature_prop_OF_VERSION_1_3_ok [v_proved]: "v_ok loci_validate_of_table_feature_prop_OF_VERSION_1_3"
  unfolding loci_validate_of_table_feature_prop_OF_VERSION_1_3_def by (intro v_intro; simp add: v_proved v_ok_imp_k_ok)

lemma loci_validate_of_table_feature_prop_OF_VERSION_1_3_exact [x_proved]: "x_ok 2 loci_validate_of_table_feature_prop_OF_VERSION_1_3"
  unfolding loci_validate_of_table_feature_prop_OF_VERSION_1_3_def by (intro x_intro; simp add: x_proved x_ok_imp_kx_ok)

definition loci_validate_of_list_table_feature_prop_OF_VERSION_1_3 :: "byte list \<Rightarrow> int \<Rightarrow> int \<Rightarrow> bool res" where
  "loci_validate_of_list_table_feature_prop_OF_VERSION_1_3 = v_list loci_validate_of_table_feature_prop_OF_VERSION_1_3"

interpretation table_feature_prop_1_3_list: list_element loci_validate_of_table_feature_prop_OF_VERSION_1_3
  by unfold_locales (rule loci_validate_of_table_feature_prop_OF_VERSION_1_3_ok)

lemma loci_validate_of_list_table_feature_prop_OF_VERSION_1_3_ok [v_proved]: "l_ok loci_validate_of_list_table_feature_prop_OF_VERSION_1_3"
  unfolding loci_validate_of_list_table_feature_prop_OF_VERSION_1_3_def by (rule table_feature_prop_1_3_list.l_ok_list)

definition loci_validate_of_table_features_OF_VERSION_1_3 :: validator where
  "loci_validate_of_table_features_OF_VERSION_1_3 =
     v_min 64 (v_wire_len_set 0 64
     (v_list_rest 64 loci_validate_of_list_table_feature_prop_OF_VERSION_1_3 v_done))"

lemma loci_validate_of_table_features_OF_VERSION_1_3_ok [v_proved]: "v_ok loci_validate_of_table_features_OF_VERSION_1_3"
  unfolding loci_validate_of_table_features_OF_VERSION_1_3_def by (intro v_intro; simp add: v_proved v_ok_imp_k_ok)

lemma loci_validate_of_table_features_OF_VERSION_1_3_exact [x_proved]: "x_ok 0 loci_validate_of_table_features_OF_VERSION_1_3"
  unfolding loci_validate_of_table_features_OF_VERSION_1_3_def by (intro x_intro; simp add: x_proved x_ok_imp_kx_ok)

definition loci_validate_of_list_table_features_OF_VERSION_1_3 :: "byte list \<Rightarrow> int \<Rightarrow> int \<Rightarrow> bool res" where
  "loci_validate_of_list_table_features_OF_VERSION_1_3 = v_list loci_validate_of_table_features_OF_VERSION_1_3"

interpretation table_features_1_3_list: list_element loci_validate_of_table_features_OF_VERSION_1_3
  by unfold_locales (rule loci_validate_of_table_features_OF_VERSION_1_3_ok)

lemma loci_validate_of_list_table_features_OF_VERSION_1_3_ok [v_proved]: "l_ok loci_validate_of_list_table_features_OF_VERSION_1_3"
  unfolding loci_validate_of_list_table_features_OF_VERSION_1_3_def by (rule table_features_1_3_list.l_ok_list)

definition loci_validate_of_table_stats_entry_OF_VERSION_1_3 :: validator where
  "loci_validate_of_table_stats_entry_OF_VERSION_1_3 =
     v_min 24 (v_set_len 24 v_done)"

lemma loci_validate_of_table_stats_entry_OF_VERSION_1_3_ok [v_proved]: "v_ok loci_validate_of_table_stats_entry_OF_VERSION_1_3"
  unfolding loci_validate_of_table_stats_entry_OF_VERSION_1_3_def by (intro v_intro; simp add: v_proved v_ok_imp_k_ok)

definition loci_validate_of_list_table_stats_entry_OF_VERSION_1_3 :: "byte list \<Rightarrow> int \<Rightarrow> int \<Rightarrow> bool res" where
  "loci_validate_of_list_table_stats_entry_OF_VERSION_1_3 = v_list loci_validate_of_table_stats_entry_OF_VERSION_1_3"

interpretation table_stats_entry_1_3_list: list_element loci_validate_of_table_stats_entry_OF_VERSION_1_3
  by unfold_locales (rule loci_validate_of_table_stats_entry_OF_VERSION_1_3_ok)

lemma loci_validate_of_list_table_stats_entry_OF_VERSION_1_3_ok [v_proved]: "l_ok loci_validate_of_list_table_stats_entry_OF_VERSION_1_3"
  unfolding loci_validate_of_list_table_stats_entry_OF_VERSION_1_3_def by (rule table_stats_entry_1_3_list.l_ok_list)

definition loci_validate_of_aggregate_stats_reply_OF_VERSION_1_3 :: validator where
  "loci_validate_of_aggregate_stats_reply_OF_VERSION_1_3 =
     v_min 40 (v_set_len 40 (v_wire_len 2 40 v_done))"

lemma loci_validate_of_aggregate_stats_reply_OF_VERSION_1_3_ok [v_proved]: "v_ok loci_validate_of_aggregate_stats_reply_OF_VERSION_1_3"
  unfolding loci_validate_of_aggregate_stats_reply_OF_VERSION_1_3_def by (intro v_intro; simp add: v_proved v_ok_imp_k_ok)

lemma loci_validate_of_aggregate_stats_reply_OF_VERSION_1_3_exact [x_proved]: "x_ok 2 loci_validate_of_aggregate_stats_reply_OF_VERSION_1_3"
  unfolding loci_validate_of_aggregate_stats_reply_OF_VERSION_1_3_def by (intro x_intro; simp add: x_proved x_ok_imp_kx_ok)

definition loci_validate_of_bsn_debug_counter_desc_stats_reply_OF_VERSION_1_3 :: validator where
  "loci_validate_of_bsn_debug_counter_desc_stats_reply_OF_VERSION_1_3 =
     v_min 24 (v_wire_len_set 2 24
     (v_list_rest 24 loci_validate_of_list_bsn_debug_counter_desc_stats_entry_OF_VERSION_1_3 v_done))"

lemma loci_validate_of_bsn_debug_counter_desc_stats_reply_OF_VERSION_1_3_ok [v_proved]: "v_ok loci_validate_of_bsn_debug_counter_desc_stats_reply_OF_VERSION_1_3"
  unfolding loci_validate_of_bsn_debug_counter_desc_stats_reply_OF_VERSION_1_3_def by (intro v_intro; simp add: v_proved v_ok_imp_k_ok)

lemma loci_validate_of_bsn_debug_counter_desc_stats_reply_OF_VERSION_1_3_exact [x_proved]: "x_ok 2 loci_validate_of_bsn_debug_counter_desc_stats_reply_OF_VERSION_1_3"
  unfolding loci_validate_of_bsn_debug_counter_desc_stats_reply_OF_VERSION_1_3_def by (intro x_intro; simp add: x_proved x_ok_imp_kx_ok)

definition loci_validate_of_bsn_debug_counter_stats_reply_OF_VERSION_1_3 :: validator where
  "loci_validate_of_bsn_debug_counter_stats_reply_OF_VERSION_1_3 =
     v_min 24 (v_wire_len_set 2 24
     (v_list_rest 24 loci_validate_of_list_bsn_debug_counter_stats_entry_OF_VERSION_1_3 v_done))"

lemma loci_validate_of_bsn_debug_counter_stats_reply_OF_VERSION_1_3_ok [v_proved]: "v_ok loci_validate_of_bsn_debug_counter_stats_reply_OF_VERSION_1_3"
  unfolding loci_validate_of_bsn_debug_counter_stats_reply_OF_VERSION_1_3_def by (intro v_intro; simp add: v_proved v_ok_imp_k_ok)

lemma loci_validate_of_bsn_debug_counter_stats_reply_OF_VERSION_1_3_exact [x_proved]: "x_ok 2 loci_validate_of_bsn_debug_counter_stats_reply_OF_VERSION_1_3"
  unfolding loci_validate_of_bsn_debug_counter_stats_reply_OF_VERSION_1_3_def by (intro x_intro; simp add: x_proved x_ok_imp_kx_ok)

definition loci_validate_of_bsn_flow_checksum_bucket_stats_reply_OF_VERSION_1_3 :: validator where
  "loci_validate_of_bsn_flow_checksum_bucket_stats_reply_OF_VERSION_1_3 =
     v_min 24 (v_wire_len_set 2 24
     (v_list_rest 24 loci_validate_of_list_bsn_flow_checksum_bucket_stats_entry_OF_VERSION_1_3 v_done))"

lemma loci_validate_of_bsn_flow_checksum_bucket_stats_reply_OF_VERSION_1_3_ok [v_proved]: "v_ok loci_validate_of_bsn_flow_checksum_bucket_stats_reply_OF_VERSION_1_3"
  unfolding loci_validate_of_bsn_flow_checksum_bucket_stats_reply_OF_VERSION_1_3_def by (intro v_intro; simp add: v_proved v_ok_imp_k_ok)

lemma loci_validate_of_bsn_flow_checksum_bucket_stats_reply_OF_VERSION_1_3_exact [x_proved]: "x_ok 2 loci_validate_of_bsn_flow_checksum_bucket_stats_reply_OF_VERSION_1_3"
  unfolding loci_validate_of_bsn_flow_checksum_bucket_stats_reply_OF_VERSION_1_3_def by (intro x_intro; simp add: x_proved x_ok_imp_kx_ok)

definition loci_validate_of_bsn_generic_stats_reply_OF_VERSION_1_3 :: validator where
  "loci_validate_of_bsn_generic_stats_reply_OF_VERSION_1_3 =
     v_min 24 (v_wire_len_set 2 24
     (v_list_rest 24 loci_validate_of_list_bsn_generic_stats_entry_OF_VERSION_1_3 v_done))"

lemma loci_validate_of_bsn_generic_stats_reply_OF_VERSION_1_3_ok [v_proved]: "v_ok loci_validate_of_bsn_generic_stats_reply_OF_VERSION_1_3"
  unfolding loci_validate_of_bsn_generic_stats_reply_OF_VERSION_1_3_def by (intro v_intro; simp add: v_proved v_ok_imp_k_ok)

lemma loci_validate_of_bsn_generic_stats_reply_OF_VERSION_1_3_exact [x_proved]: "x_ok 2 loci_validate_of_bsn_generic_stats_reply_OF_VERSION_1_3"
  unfolding loci_validate_of_bsn_generic_stats_reply_OF_VERSION_1_3_def by (intro x_intro; simp add: x_proved x_ok_imp_kx_ok)

definition loci_validate_of_bsn_gentable_bucket_stats_reply_OF_VERSION_1_3 :: validator where
  "loci_validate_of_bsn_gentable_bucket_stats_reply_OF_VERSION_1_3 =
     v_min 24 (v_wire_len_set 2 24
     (v_list_rest 24 loci_validate_of_list_bsn_gentable_bucket_stats_entry_OF_VERSION_1_3 v_done))"

lemma loci_validate_of_bsn_gentable_bucket_stats_reply_OF_VERSION_1_3_ok [v_proved]: "v_ok loci_validate_of_bsn_gentable_bucket_stats_reply_OF_VERSION_1_3"
  unfolding loci_validate_of_bsn_gentable_bucket_stats_reply_OF_VERSION_1_3_def by (intro v_intro; simp add: v_proved v_ok_imp_k_ok)

lemma loci_validate_of_bsn_gentable_bucket_stats_reply_OF_VERSION_1_3_exact [x_proved]: "x_ok 2 loci_validate_of_bsn_gentable_bucket_stats_reply_OF_VERSION_1_3"
  unfolding loci_validate_of_bsn_gentable_bucket_stats_reply_OF_VERSION_1_3_def by (intro x_intro; simp add: x_proved x_ok_imp_kx_ok)

definition loci_validate_of_bsn_gentable_desc_stats_reply_OF_VERSION_1_3 :: validator where
  "loci_validate_of_bsn_gentable_desc_stats_reply_OF_VERSION_1_3 =
     v_min 24 (v_wire_len_set 2 24
     (v_list_rest 24 loci_validate_of_list_bsn_gentable_desc_stats_entry_OF_VERSION_1_3 v_done))"

lemma loci_validate_of_bsn_gentable_desc_stats_reply_OF_VERSION_1_3_ok [v_proved]: "v_ok loci_validate_of_bsn_gentable_desc_stats_reply_OF_VERSION_1_3"
  unfolding loci_validate_of_bsn_gentable_desc_stats_reply_OF_VERSION_1_3_def by (intro v_intro; simp add: v_proved v_ok_imp_k_ok)

lemma loci_validate_of_bsn_gentable_desc_stats_reply_OF_VERSION_1_3_exact [x_proved]: "x_ok 2 loci_validate_of_bsn_gentable_desc_stats_reply_OF_VERSION_1_3"
  unfolding loci_validate_of_bsn_gentable_desc_stats_reply_OF_VERSION_1_3_def by (intro x_intro; simp add: x_proved x_ok_imp_kx_ok)

definition loci_validate_of_bsn_gentable_entry_desc_stats_reply_OF_VERSION_1_3 :: validator where
  "loci_validate_of_bsn_gentable_entry_desc_stats_reply_OF_VERSION_1_3 =
     v_min 24 (v_wire_len_set 2 24
     (v_list_rest 24 loci_validate_of_list_bsn_gentable_entry_desc_stats_entry_OF_VERSION_1_3 v_done))"

lemma loci_validate_of_bsn_gentable_entry_desc_stats_reply_OF_VERSION_1_3_ok [v_proved]: "v_ok loci_validate_of_bsn_gentable_entry_desc_stats_reply_OF_VERSION_1_3"
  unfolding loci_validate_of_bsn_gentable_entry_desc_stats_reply_OF_VERSION_1_3_def by (intro v_intro; simp add: v_proved v_ok_imp_k_ok)

lemma loci_validate_of_bsn_gentable_entry_desc_stats_reply_OF_VERSION_1_3_exact [x_proved]: "x_ok 2 loci_validate_of_bsn_gentable_entry_desc_stats_reply_OF_VERSION_1_3"
  unfolding loci_validate_of_bsn_gentable_entry_desc_stats_reply_OF_VERSION_1_3_def by (intro x_intro; simp add: x_proved x_ok_imp_kx_ok)

definition loci_validate_of_bsn_gentable_entry_stats_reply_OF_VERSION_1_3 :: validator where
  "loci_validate_of_bsn_gentable_entry_stats_reply_OF_VERSION_1_3 =
     v_min 24 (v_wire_len_set 2 24
     (v_list_rest 24 loci_validate_of_list_bsn_gentable_entry_stats_entry_OF_VERSION_1_3 v_done))"

lemma loci_validate_of_bsn_gentable_entry_stats_reply_OF_VERSION_1_3_ok [v_proved]: "v_ok loci_validate_of_bsn_gentable_entry_stats_reply_OF_VERSION_1_3"
  unfolding loci_validate_of_bsn_gentable_entry_stats_reply_OF_VERSION_1_3_def by (intro v_intro; simp add: v_proved v_ok_imp_k_ok)

lemma loci_validate_of_bsn_gentable_entry_stats_reply_OF_VERSION_1_3_exact [x_proved]: "x_ok 2 loci_validate_of_bsn_gentable_entry_stats_reply_OF_VERSION_1_3"
  unfolding loci_validate_of_bsn_gentable_entry_stats_reply_OF_VERSION_1_3_def by (intro x_intro; simp add: x_proved x_ok_imp_kx_ok)

definition loci_validate_of_bsn_gentable_stats_reply_OF_VERSION_1_3 :: validator where
  "loci_validate_of_bsn_gentable_stats_reply_OF_VERSION_1_3 =
     v_min 24 (v_wire_len_set 2 24
     (v_list_rest 24 loci_validate_of_list_bsn_gentable_stats_entry_OF_VERSION_1_3 v_done))"

lemma loci_validate_of_bsn_gentable_stats_reply_OF_VERSION_1_3_ok [v_proved]: "v_ok loci_validate_of_bsn_gentable_stats_reply_OF_VERSION_1_3"
  unfolding loci_validate_of_bsn_gentable_stats_reply_OF_VERSION_1_3_def by (intro v_intro; simp add: v_proved v_ok_imp_k_ok)

lemma loci_validate_of_bsn_gentable_stats_reply_OF_VERSION_1_3_exact [x_proved]: "x_ok 2 loci_validate_of_bsn_gentable_stats_reply_OF_VERSION_1_3"
  unfolding loci_validate_of_bsn_gentable_stats_reply_OF_VERSION_1_3_def by (intro x_intro; simp add: x_proved x_ok_imp_kx_ok)

definition loci_validate_of_bsn_image_desc_stats_reply_OF_VERSION_1_3 :: validator where
  "loci_validate_of_bsn_image_desc_stats_reply_OF_VERSION_1_3 =
     v_min 536 (v_set_len 536 (v_wire_len 2 536 v_done))"

lemma loci_validate_of_bsn_image_desc_stats_reply_OF_VERSION_1_3_ok [v_proved]: "v_ok loci_validate_of_bsn_image_desc_stats_reply_OF_VERSION_1_3"
  unfolding loci_validate_of_bsn_image_desc_stats_reply_OF_VERSION_1_3_def by (intro v_intro; simp add: v_proved v_ok_imp_k_ok)

lemma loci_validate_of_bsn_image_desc_stats_reply_OF_VERSION_1_3_exact [x_proved]: "x_ok 2 loci_validate_of_bsn_image_desc_stats_reply_OF_VERSION_1_3"
  unfolding loci_validate_of_bsn_image_desc_stats_reply_OF_VERSION_1_3_def by (intro x_intro; simp add: x_proved x_ok_imp_kx_ok)

definition loci_validate_of_bsn_lacp_stats_reply_OF_VERSION_1_3 :: validator where
  "loci_validate_of_bsn_lacp_stats_reply_OF_VERSION_1_3 =
     v_min 24 (v_wire_len_set 2 24
     (v_list_rest 24 loci_validate_of_list_bsn_lacp_stats_entry_OF_VERSION_1_3 v_done))"

lemma loci_validate_of_bsn_lacp_stats_reply_OF_VERSION_1_3_ok [v_proved]: "v_ok loci_validate_of_bsn_lacp_stats_reply_OF_VERSION_1_3"
  unfolding loci_validate_of_bsn_lacp_stats_reply_OF_VERSION_1_3_def by (intro v_intro; simp add: v_proved v_ok_imp_k_ok)

lemma loci_validate_of_bsn_lacp_stats_reply_OF_VERSION_1_3_exact [x_proved]: "x_ok 2 loci_validate_of_bsn_lacp_stats_reply_OF_VERSION_1_3"
  unfolding loci_validate_of_bsn_lacp_stats_reply_OF_VERSION_1_3_def by (intro x_intro; simp add: x_proved x_ok_imp_kx_ok)

definition loci_validate_of_bsn_port_counter_stats_reply_OF_VERSION_1_3 :: validator where
  "loci_validate_of_bsn_port_counter_stats_reply_OF_VERSION_1_3 =
     v_min 24 (v_wire_len_set 2 24
     (v_list_rest 24 loci_validate_of_list_bsn_port_counter_stats_entry_OF_VERSION_1_3 v_done))"

lemma loci_validate_of_bsn_port_counter_stats_reply_OF_VERSION_1_3_ok [v_proved]: "v_ok loci_validate_of_bsn_port_counter_stats_reply_OF_VERSION_1_3"
  unfolding loci_validate_of_bsn_port_counter_stats_reply_OF_VERSION_1_3_def by (intro v_intro; simp add: v_proved v_ok_imp_k_ok)

lemma loci_validate_of_bsn_port_counter_stats_reply_OF_VERSION_1_3_exact [x_proved]: "x_ok 2 loci_validate_of_bsn_port_counter_stats_reply_OF_VERSION_1_3"
  unfolding loci_validate_of_bsn_port_counter_stats_reply_OF_VERSION_1_3_def by (intro x_intro; simp add: x_proved x_ok_imp_kx_ok)

definition loci_validate_of_bsn_switch_pipeline_stats_reply_OF_VERSION_1_3 :: validator where
  "loci_validate_of_bsn_switch_pipeline_stats_reply_OF_VERSION_1_3 =
     v_min 24 (v_wire_len_set 2 24
     (v_list_rest 24 loci_validate_of_list_bsn_switch_pipeline_stats_entry_OF_VERSION_1_3 v_done))"

lemma loci_validate_of_bsn_switch_pipeline_stats_reply_OF_VERSION_1_3_ok [v_proved]: "v_ok loci_validate_of_bsn_switch_pipeline_stats_reply_OF_VERSION_1_3"
  unfolding loci_validate_of_bsn_switch_pipeline_stats_reply_OF_VERSION_1_3_def by (intro v_intro; simp add: v_proved v_ok_imp_k_ok)

lemma loci_validate_of_bsn_switch_pipeline_stats_reply_OF_VERSION_1_3_exact [x_proved]: "x_ok 2 loci_validate_of_bsn_switch_pipeline_stats_reply_OF_VERSION_1_3"
  unfolding loci_validate_of_bsn_switch_pipeline_stats_reply_OF_VERSION_1_3_def by (intro x_intro; simp add: x_proved x_ok_imp_kx_ok)

definition loci_validate_of_bsn_table_checksum_stats_reply_OF_VERSION_1_3 :: validator where
  "loci_validate_of_bsn_table_checksum_stats_reply_OF_VERSION_1_3 =
     v_min 24 (v_wire_len_set 2 24
     (v_list_rest 24 loci_validate_of_list_bsn_table_checksum_stats_entry_OF_VERSION_1_3 v_done))"

lemma loci_validate_of_bsn_table_checksum_stats_reply_OF_VERSION_1_3_ok [v_proved]: "v_ok loci_validate_of_bsn_table_checksum_stats_reply_OF_VERSION_1_3"
  unfolding loci_validate_of_bsn_table_checksum_stats_reply_OF_VERSION_1_3_def by (intro v_intro; simp add: v_proved v_ok_imp_k_ok)

lemma loci_validate_of_bsn_table_checksum_stats_reply_OF_VERSION_1_3_exact [x_proved]: "x_ok 2 loci_validate_of_bsn_table_checksum_stats_reply_OF_VERSION_1_3"
  unfolding loci_validate_of_bsn_table_checksum_stats_reply_OF_VERSION_1_3_def by (intro x_intro; simp add: x_proved x_ok_imp_kx_ok)

definition loci_validate_of_bsn_vlan_counter_stats_reply_OF_VERSION_1_3 :: validator where
  "loci_validate_of_bsn_vlan_counter_stats_reply_OF_VERSION_1_3 =
     v_min 24 (v_wire_len_set 2 24
     (v_list_rest 24 loci_validate_of_list_bsn_vlan_counter_stats_entry_OF_VERSION_1_3 v_done))"

lemma loci_validate_of_bsn_vlan_counter_stats_reply_OF_VERSION_1_3_ok [v_proved]: "v_ok loci_validate_of_bsn_vlan_counter_stats_reply_OF_VERSION_1_3"
  unfolding loci_validate_of_bsn_vlan_counter_stats_reply_OF_VERSION_1_3_def by (intro v_intro; simp add: v_proved v_ok_imp_k_ok)

lemma loci_validate_of_bsn_vlan_counter_stats_reply_OF_VERSION_1_3_exact [x_proved]: "x_ok 2 loci_validate_of_bsn_vlan_counter_stats_reply_OF_VERSION_1_3"
  unfolding loci_validate_of_bsn_vlan_counter_stats_reply_OF_VERSION_1_3_def by (intro x_intro; simp add: x_proved x_ok_imp_kx_ok)

definition loci_validate_of_bsn_vrf_counter_stats_reply_OF_VERSION_1_3 :: validator where
  "loci_validate_of_bsn_vrf_counter_stats_reply_OF_VERSION_1_3 =
     v_min 24 (v_wire_len_set 2 24
     (v_list_rest 24 loci_validate_of_list_bsn_vrf_counter_stats_entry_OF_VERSION_1_3 v_done))"

lemma loci_validate_of_bsn_vrf_counter_stats_reply_OF_VERSION_1_3_ok [v_proved]: "v_ok loci_validate_of_bsn_vrf_counter_stats_reply_OF_VERSION_1_3"
  unfolding loci_validate_of_bsn_vrf_counter_stats_reply_OF_VERSION_1_3_def by (intro v_intro; simp add: v_proved v_ok_imp_k_ok)

lemma loci_validate_of_bsn_vrf_counter_stats_reply_OF_VERSION_1_3_exact [x_proved]: "x_ok 2 loci_validate_of_bsn_vrf_counter_stats_reply_OF_VERSION_1_3"
  unfolding loci_validate_of_bsn_vrf_counter_stats_reply_OF_VERSION_1_3_def by (intro x_intro; simp add: x_proved x_ok_imp_kx_ok)

definition loci_validate_of_bsn_stats_reply_OF_VERSION_1_3 :: validator where
  "loci_validate_of_bsn_stats_reply_OF_VERSION_1_3 =
     v_min 24 (v_wire_len_set 2 24
     (v_switch32 20
      [(0xd, loci_validate_of_bsn_debug_counter_desc_stats_reply_OF_VERSION_1_3),
       (0xc, loci_validate_of_bsn_debug_counter_stats_reply_OF_VERSION_1_3),
       (0xa, loci_validate_of_bsn_flow_checksum_bucket_stats_reply_OF_VERSION_1_3),
       (0x10, loci_validate_of_bsn_generic_stats_reply_OF_VERSION_1_3),
       (5, loci_validate_of_bsn_gentable_bucket_stats_reply_OF_VERSION_1_3),
       (4, loci_validate_of_bsn_gentable_desc_stats_reply_OF_VERSION_1_3),
       (2, loci_validate_of_bsn_gentable_entry_desc_stats_reply_OF_VERSION_1_3),
       (3, loci_validate_of_bsn_gentable_entry_stats_reply_OF_VERSION_1_3),
       (7, loci_validate_of_bsn_gentable_stats_reply_OF_VERSION_1_3),
       (0xe, loci_validate_of_bsn_image_desc_stats_reply_OF_VERSION_1_3),
       (1, loci_validate_of_bsn_lacp_stats_reply_OF_VERSION_1_3),
       (8, loci_validate_of_bsn_port_counter_stats_reply_OF_VERSION_1_3),
       (6, loci_validate_of_bsn_switch_pipeline_stats_reply_OF_VERSION_1_3),
       (0xb, loci_validate_of_bsn_table_checksum_stats_reply_OF_VERSION_1_3),
       (9, loci_validate_of_bsn_vlan_counter_stats_reply_OF_VERSION_1_3),
       (0xf, loci_validate_of_bsn_vrf_counter_stats_reply_OF_VERSION_1_3)]
     v_done))"

lemma loci_validate_of_bsn_stats_reply_OF_VERSION_1_3_ok [v_proved]: "v_ok loci_validate_of_bsn_stats_reply_OF_VERSION_1_3"
  unfolding loci_validate_of_bsn_stats_reply_OF_VERSION_1_3_def by (intro v_intro; simp add: v_proved v_ok_imp_k_ok)

lemma loci_validate_of_bsn_stats_reply_OF_VERSION_1_3_exact [x_proved]: "x_ok 2 loci_validate_of_bsn_stats_reply_OF_VERSION_1_3"
  unfolding loci_validate_of_bsn_stats_reply_OF_VERSION_1_3_def by (intro x_intro; simp add: x_proved x_ok_imp_kx_ok)

definition loci_validate_of_experimenter_stats_reply_OF_VERSION_1_3 :: validator where
  "loci_validate_of_experimenter_stats_reply_OF_VERSION_1_3 =
     v_min 24 (v_wire_len_set 2 24
     (v_switch32 16
      [(0x5c16c7, loci_validate_of_bsn_stats_reply_OF_VERSION_1_3)]
     v_done))"

lemma loci_validate_of_experimenter_stats_reply_OF_VERSION_1_3_ok [v_proved]: "v_ok loci_validate_of_experimenter_stats_reply_OF_VERSION_1_3"
  unfolding loci_validate_of_experimenter_stats_reply_OF_VERSION_1_3_def by (intro v_intro; simp add: v_proved v_ok_imp_k_ok)

lemma loci_validate_of_experimenter_stats_reply_OF_VERSION_1_3_exact [x_proved]: "x_ok 2 loci_validate_of_experimenter_stats_reply_OF_VERSION_1_3"
  unfolding loci_validate_of_experimenter_stats_reply_OF_VERSION_1_3_def by (intro x_intro; simp add: x_proved x_ok_imp_kx_ok)

definition loci_validate_of_desc_stats_reply_OF_VERSION_1_3 :: validator where
  "loci_validate_of_desc_stats_reply_OF_VERSION_1_3 =
     v_min 1072 (v_set_len 1072 (v_wire_len 2 1072 v_done))"

lemma loci_validate_of_desc_stats_reply_OF_VERSION_1_3_ok [v_proved]: "v_ok loci_validate_of_desc_stats_reply_OF_VERSION_1_3"
  unfolding loci_validate_of_desc_stats_reply_OF_VERSION_1_3_def by (intro v_intro; simp add: v_proved v_ok_imp_k_ok)

lemma loci_validate_of_desc_stats_reply_OF_VERSION_1_3_exact [x_proved]: "x_ok 2 loci_validate_of_desc_stats_reply_OF_VERSION_1_3"
  unfolding loci_validate_of_desc_stats_reply_OF_VERSION_1_3_def by (intro x_intro; simp add: x_proved x_ok_imp_kx_ok)

definition loci_validate_of_flow_stats_reply_OF_VERSION_1_3 :: validator where
  "loci_validate_of_flow_stats_reply_OF_VERSION_1_3 =
     v_min 16 (v_wire_len_set 2 16
     (v_list_rest 16 loci_validate_of_list_flow_stats_entry_OF_VERSION_1_3 v_done))"

lemma loci_validate_of_flow_stats_reply_OF_VERSION_1_3_ok [v_proved]: "v_ok loci_validate_of_flow_stats_reply_OF_VERSION_1_3"
  unfolding loci_validate_of_flow_stats_reply_OF_VERSION_1_3_def by (intro v_intro; simp add: v_proved v_ok_imp_k_ok)

lemma loci_validate_of_flow_stats_reply_OF_VERSION_1_3_exact [x_proved]: "x_ok 2 loci_validate_of_flow_stats_reply_OF_VERSION_1_3"
  unfolding loci_validate_of_flow_stats_reply_OF_VERSION_1_3_def by (intro x_intro; simp add: x_proved x_ok_imp_kx_ok)

definition loci_validate_of_group_desc_stats_reply_OF_VERSION_1_3 :: validator where
  "loci_validate_of_group_desc_stats_reply_OF_VERSION_1_3 =
     v_min 16 (v_wire_len_set 2 16
     (v_list_rest 16 loci_validate_of_list_group_desc_stats_entry_OF_VERSION_1_3 v_done))"

lemma loci_validate_of_group_desc_stats_reply_OF_VERSION_1_3_ok [v_proved]: "v_ok loci_validate_of_group_desc_stats_reply_OF_VERSION_1_3"
  unfolding loci_validate_of_group_desc_stats_reply_OF_VERSION_1_3_def by (intro v_intro; simp add: v_proved v_ok_imp_k_ok)

lemma loci_validate_of_group_desc_stats_reply_OF_VERSION_1_3_exact [x_proved]: "x_ok 2 loci_validate_of_group_desc_stats_reply_OF_VERSION_1_3"
  unfolding loci_validate_of_group_desc_stats_reply_OF_VERSION_1_3_def by (intro x_intro; simp add: x_proved x_ok_imp_kx_ok)

definition loci_validate_of_group_features_stats_reply_OF_VERSION_1_3 :: validator where
  "loci_validate_of_group_features_stats_reply_OF_VERSION_1_3 =
     v_min 56 (v_set_len 56 (v_wire_len 2 56 v_done))"

lemma loci_validate_of_group_features_stats_reply_OF_VERSION_1_3_ok [v_proved]: "v_ok loci_validate_of_group_features_stats_reply_OF_VERSION_1_3"
  unfolding loci_validate_of_group_features_stats_reply_OF_VERSION_1_3_def by (intro v_intro; simp add: v_proved v_ok_imp_k_ok)

lemma loci_validate_of_group_features_stats_reply_OF_VERSION_1_3_exact [x_proved]: "x_ok 2 loci_validate_of_group_features_stats_reply_OF_VERSION_1_3"
  unfolding loci_validate_of_group_features_stats_reply_OF_VERSION_1_3_def by (intro x_intro; simp add: x_proved x_ok_imp_kx_ok)

definition loci_validate_of_group_stats_reply_OF_VERSION_1_3 :: validator where
  "loci_validate_of_group_stats_reply_OF_VERSION_1_3 =
     v_min 16 (v_wire_len_set 2 16
     (v_list_rest 16 loci_validate_of_list_group_stats_entry_OF_VERSION_1_3 v_done))"

lemma loci_validate_of_group_stats_reply_OF_VERSION_1_3_ok [v_proved]: "v_ok loci_validate_of_group_stats_reply_OF_VERSION_1_3"
  unfolding loci_validate_of_group_stats_reply_OF_VERSION_1_3_def by (intro v_intro; simp add: v_proved v_ok_imp_k_ok)

lemma loci_validate_of_group_stats_reply_OF_VERSION_1_3_exact [x_proved]: "x_ok 2 loci_validate_of_group_stats_reply_OF_VERSION_1_3"
  unfolding loci_validate_of_group_stats_reply_OF_VERSION_1_3_def by (intro x_intro; simp add: x_proved x_ok_imp_kx_ok)

definition loci_validate_of_meter_config_stats_reply_OF_VERSION_1_3 :: validator where
  "loci_validate_of_meter_config_stats_reply_OF_VERSION_1_3 =
     v_min 16 (v_wire_len_set 2 16
     (v_list_rest 16 loci_validate_of_list_meter_band_OF_VERSION_1_3 v_done))"

lemma loci_validate_of_meter_config_stats_reply_OF_VERSION_1_3_ok [v_proved]: "v_ok loci_validate_of_meter_config_stats_reply_OF_VERSION_1_3"
  unfolding loci_validate_of_meter_config_stats_reply_OF_VERSION_1_3_def by (intro v_intro; simp add: v_proved v_ok_imp_k_ok)

lemma loci_validate_of_meter_config_stats_reply_OF_VERSION_1_3_exact [x_proved]: "x_ok 2 loci_validate_of_meter_config_stats_reply_OF_VERSION_1_3"
  unfolding loci_validate_of_meter_config_stats_reply_OF_VERSION_1_3_def by (intro x_intro; simp add: x_proved x_ok_imp_kx_ok)

definition loci_validate_of_meter_features_stats_reply_OF_VERSION_1_3 :: validator where
  "loci_validate_of_meter_features_stats_reply_OF_VERSION_1_3 =
     v_min 32 (v_set_len 32 (v_wire_len 2 32 v_done))"

lemma loci_validate_of_meter_features_stats_reply_OF_VERSION_1_3_ok [v_proved]: "v_ok loci_validate_of_meter_features_stats_reply_OF_VERSION_1_3"
  unfolding loci_validate_of_meter_features_stats_reply_OF_VERSION_1_3_def by (intro v_intro; simp add: v_proved v_ok_imp_k_ok)

lemma loci_validate_of_meter_features_stats_reply_OF_VERSION_1_3_exact [x_proved]: "x_ok 2 loci_validate_of_meter_features_stats_reply_OF_VERSION_1_3"
  unfolding loci_validate_of_meter_features_stats_reply_OF_VERSION_1_3_def by (intro x_intro; simp add: x_proved x_ok_imp_kx_ok)

definition loci_validate_of_meter_stats_reply_OF_VERSION_1_3 :: validator where
  "loci_validate_of_meter_stats_reply_OF_VERSION_1_3 =
     v_min 16 (v_wire_len_set 2 16
     (v_list_rest 16 loci_validate_of_list_meter_stats_OF_VERSION_1_3 v_done))"

lemma loci_validate_of_meter_stats_reply_OF_VERSION_1_3_ok [v_proved]: "v_ok loci_validate_of_meter_stats_reply_OF_VERSION_1_3"
  unfolding loci_validate_of_meter_stats_reply_OF_VERSION_1_3_def by (intro v_intro; simp add: v_proved v_ok_imp_k_ok)

lemma loci_validate_of_meter_stats_reply_OF_VERSION_1_3_exact [x_proved]: "x_ok 2 loci_validate_of_meter_stats_reply_OF_VERSION_1_3"
  unfolding loci_validate_of_meter_stats_reply_OF_VERSION_1_3_def by (intro x_intro; simp add: x_proved x_ok_imp_kx_ok)

definition loci_validate_of_port_desc_stats_reply_OF_VERSION_1_3 :: validator where
  "loci_validate_of_port_desc_stats_reply_OF_VERSION_1_3 =
     v_min 16 (v_wire_len_set 2 16
     (v_list_rest 16 loci_validate_of_list_port_desc_OF_VERSION_1_3 v_done))"

lemma loci_validate_of_port_desc_stats_reply_OF_VERSION_1_3_ok [v_proved]: "v_ok loci_validate_of_port_desc_stats_reply_OF_VERSION_1_3"
  unfolding loci_validate_of_port_desc_stats_reply_OF_VERSION_1_3_def by (intro v_intro; simp add: v_proved v_ok_imp_k_ok)

lemma loci_validate_of_port_desc_stats_reply_OF_VERSION_1_3_exact [x_proved]: "x_ok 2 loci_validate_of_port_desc_stats_reply_OF_VERSION_1_3"
  unfolding loci_validate_of_port_desc_stats_reply_OF_VERSION_1_3_def by (intro x_intro; simp add: x_proved x_ok_imp_kx_ok)

definition loci_validate_of_port_stats_reply_OF_VERSION_1_3 :: validator where
  "loci_validate_of_port_stats_reply_OF_VERSION_1_3 =
     v_min 16 (v_wire_len_set 2 16
     (v_list_rest 16 loci_validate_of_list_port_stats_entry_OF_VERSION_1_3 v_done))"

lemma loci_validate_of_port_stats_reply_OF_VERSION_1_3_ok [v_proved]: "v_ok loci_validate_of_port_stats_reply_OF_VERSION_1_3"
  unfolding loci_validate_of_port_stats_reply_OF_VERSION_1_3_def by (intro v_intro; simp add: v_proved v_ok_imp_k_ok)

lemma loci_validate_of_port_stats_reply_OF_VERSION_1_3_exact [x_proved]: "x_ok 2 loci_validate_of_port_stats_reply_OF_VERSION_1_3"
  unfolding loci_validate_of_port_stats_reply_OF_VERSION_1_3_def by (intro x_intro; simp add: x_proved x_ok_imp_kx_ok)

definition loci_validate_of_queue_stats_reply_OF_VERSION_1_3 :: validator where
  "loci_validate_of_queue_stats_reply_OF_VERSION_1_3 =
     v_min 16 (v_wire_len_set 2 16
     (v_list_rest 16 loci_validate_of_list_queue_stats_entry_OF_VERSION_1_3 v_done))"

lemma loci_validate_of_queue_stats_reply_OF_VERSION_1_3_ok [v_proved]: "v_ok loci_validate_of_queue_stats_reply_OF_VERSION_1_3"
  unfolding loci_validate_of_queue_stats_reply_OF_VERSION_1_3_def by (intro v_intro; simp add: v_proved v_ok_imp_k_ok)

lemma loci_validate_of_queue_stats_reply_OF_VERSION_1_3_exact [x_proved]: "x_ok 2 loci_validate_of_queue_stats_reply_OF_VERSION_1_3"
  unfolding loci_validate_of_queue_stats_reply_OF_VERSION_1_3_def by (intro x_intro; simp add: x_proved x_ok_imp_kx_ok)

definition loci_validate_of_table_features_stats_reply_OF_VERSION_1_3 :: validator where
  "loci_validate_of_table_features_stats_reply_OF_VERSION_1_3 =
     v_min 16 (v_wire_len_set 2 16
     (v_list_rest 16 loci_validate_of_list_table_features_OF_VERSION_1_3 v_done))"

lemma loci_validate_of_table_features_stats_reply_OF_VERSION_1_3_ok [v_proved]: "v_ok loci_validate_of_table_features_stats_reply_OF_VERSION_1_3"
  unfolding loci_validate_of_table_features_stats_reply_OF_VERSION_1_3_def by (intro v_intro; simp add: v_proved v_ok_imp_k_ok)

lemma loci_validate_of_table_features_stats_reply_OF_VERSION_1_3_exact [x_proved]: "x_ok 2 loci_validate_of_table_features_stats_reply_OF_VERSION_1_3"
  unfolding loci_validate_of_table_features_stats_reply_OF_VERSION_1_3_def by (intro x_intro; simp add: x_proved x_ok_imp_kx_ok)

definition loci_validate_of_table_stats_reply_OF_VERSION_1_3 :: validator where
  "loci_validate_of_table_stats_reply_OF_VERSION_1_3 =
     v_min 16 (v_wire_len_set 2 16
     (v_list_rest 16 loci_validate_of_list_table_stats_entry_OF_VERSION_1_3 v_done))"

lemma loci_validate_of_table_stats_reply_OF_VERSION_1_3_ok [v_proved]: "v_ok loci_validate_of_table_stats_reply_OF_VERSION_1_3"
  unfolding loci_validate_of_table_stats_reply_OF_VERSION_1_3_def by (intro v_intro; simp add: v_proved v_ok_imp_k_ok)

lemma loci_validate_of_table_stats_reply_OF_VERSION_1_3_exact [x_proved]: "x_ok 2 loci_validate_of_table_stats_reply_OF_VERSION_1_3"
  unfolding loci_validate_of_table_stats_reply_OF_VERSION_1_3_def by (intro x_intro; simp add: x_proved x_ok_imp_kx_ok)

definition loci_validate_of_stats_reply_OF_VERSION_1_3 :: validator where
  "loci_validate_of_stats_reply_OF_VERSION_1_3 =
     v_min 16 (v_wire_len_set 2 16
     (v_switch16 8
      [(2, loci_validate_of_aggregate_stats_reply_OF_VERSION_1_3),
       (0xffff, loci_validate_of_experimenter_stats_reply_OF_VERSION_1_3),
       (0, loci_validate_of_desc_stats_reply_OF_VERSION_1_3),
       (1, loci_validate_of_flow_stats_reply_OF_VERSION_1_3),
       (7, loci_validate_of_group_desc_stats_reply_OF_VERSION_1_3),
       (8, loci_validate_of_group_features_stats_reply_OF_VERSION_1_3),
       (6, loci_validate_of_group_stats_reply_OF_VERSION_1_3),
       (0xa, loci_validate_of_meter_config_stats_reply_OF_VERSION_1_3),
       (0xb, loci_validate_of_meter_features_stats_reply_OF_VERSION_1_3),
       (9, loci_validate_of_meter_stats_reply_OF_VERSION_1_3),
       (0xd, loci_validate_of_port_desc_stats_reply_OF_VERSION_1_3),
       (4, loci_validate_of_port_stats_reply_OF_VERSION_1_3),
       (5, loci_validate_of_queue_stats_reply_OF_VERSION_1_3),
       (0xc, loci_validate_of_table_features_stats_reply_OF_VERSION_1_3),
       (3, loci_validate_of_table_stats_reply_OF_VERSION_1_3)]
     v_done))"

lemma loci_validate_of_stats_reply_OF_VERSION_1_3_ok [v_proved]: "v_ok loci_validate_of_stats_reply_OF_VERSION_1_3"
  unfolding loci_validate_of_stats_reply_OF_VERSION_1_3_def by (intro v_intro; simp add: v_proved v_ok_imp_k_ok)

lemma loci_validate_of_stats_reply_OF_VERSION_1_3_exact [x_proved]: "x_ok 2 loci_validate_of_stats_reply_OF_VERSION_1_3"
  unfolding loci_validate_of_stats_reply_OF_VERSION_1_3_def by (intro x_intro; simp add: x_proved x_ok_imp_kx_ok)

definition loci_validate_of_aggregate_stats_request_OF_VERSION_1_3 :: validator where
  "loci_validate_of_aggregate_stats_request_OF_VERSION_1_3 =
     v_min 56 (v_wire_len_set 2 56 v_done)"

lemma loci_validate_of_aggregate_stats_request_OF_VERSION_1_3_ok [v_proved]: "v_ok loci_validate_of_aggregate_stats_request_OF_VERSION_1_3"
  unfolding loci_validate_of_aggregate_stats_request_OF_VERSION_1_3_def by (intro v_intro; simp add: v_proved v_ok_imp_k_ok)

lemma loci_validate_of_aggregate_stats_request_OF_VERSION_1_3_exact [x_proved]: "x_ok 2 loci_validate_of_aggregate_stats_request_OF_VERSION_1_3"
  unfolding loci_validate_of_aggregate_stats_request_OF_VERSION_1_3_def by (intro x_intro; simp add: x_proved x_ok_imp_kx_ok)

definition loci_validate_of_bsn_debug_counter_desc_stats_request_OF_VERSION_1_3 :: validator where
  "loci_validate_of_bsn_debug_counter_desc_stats_request_OF_VERSION_1_3 =
     v_min 24 (v_set_len 24 (v_wire_len 2 24 v_done))"

lemma loci_validate_of_bsn_debug_counter_desc_stats_request_OF_VERSION_1_3_ok [v_proved]: "v_ok loci_validate_of_bsn_debug_counter_desc_stats_request_OF_VERSION_1_3"
  unfolding loci_validate_of_bsn_debug_counter_desc_stats_request_OF_VERSION_1_3_def by (intro v_intro; simp add: v_proved v_ok_imp_k_ok)

lemma loci_validate_of_bsn_debug_counter_desc_stats_request_OF_VERSION_1_3_exact [x_proved]: "x_ok 2 loci_validate_of_bsn_debug_counter_desc_stats_request_OF_VERSION_1_3"
  unfolding loci_validate_of_bsn_debug_counter_desc_stats_request_OF_VERSION_1_3_def by (intro x_intro; simp add: x_proved x_ok_imp_kx_ok)

definition loci_validate_of_bsn_debug_counter_stats_request_OF_VERSION_1_3 :: validator where
  "loci_validate_of_bsn_debug_counter_stats_request_OF_VERSION_1_3 =
     v_min 24 (v_set_len 24 (v_wire_len 2 24 v_done))"

lemma loci_validate_of_bsn_debug_counter_stats_request_OF_VERSION_1_3_ok [v_proved]: "v_ok loci_validate_of_bsn_debug_counter_stats_request_OF_VERSION_1_3"
  unfolding loci_validate_of_bsn_debug_counter_stats_request_OF_VERSION_1_3_def by (intro v_intro; simp add: v_proved v_ok_imp_k_ok)

lemma loci_validate_of_bsn_debug_counter_stats_request_OF_VERSION_1_3_exact [x_proved]: "x_ok 2 loci_validate_of_bsn_debug_counter_stats_request_OF_VERSION_1_3"
  unfolding loci_validate_of_bsn_debug_counter_stats_request_OF_VERSION_1_3_def by (intro x_intro; simp add: x_proved x_ok_imp_kx_ok)

definition loci_validate_of_bsn_flow_checksum_bucket_stats_request_OF_VERSION_1_3 :: validator where
  "loci_validate_of_bsn_flow_checksum_bucket_stats_request_OF_VERSION_1_3 =
     v_min 25 (v_set_len 25 (v_wire_len 2 25 v_done))"

lemma loci_validate_of_bsn_flow_checksum_bucket_stats_request_OF_VERSION_1_3_ok [v_proved]: "v_ok loci_validate_of_bsn_flow_checksum_bucket_stats_request_OF_VERSION_1_3"
  unfolding loci_validate_of_bsn_flow_checksum_bucket_stats_request_OF_VERSION_1_3_def by (intro v_intro; simp add: v_proved v_ok_imp_k_ok)

lemma loci_validate_of_bsn_flow_checksum_bucket_stats_request_OF_VERSION_1_3_exact [x_proved]: "x_ok 2 loci_validate_of_bsn_flow_checksum_bucket_stats_request_OF_VERSION_1_3"
  unfolding loci_validate_of_bsn_flow_checksum_bucket_stats_request_OF_VERSION_1_3_def by (intro x_intro; simp add: x_proved x_ok_imp_kx_ok)

definition loci_validate_of_bsn_generic_stats_request_OF_VERSION_1_3 :: validator where
  "loci_validate_of_bsn_generic_stats_request_OF_VERSION_1_3 =
     v_min 88 (v_wire_len_set 2 88
     (v_list_rest 88 loci_validate_of_list_bsn_tlv_OF_VERSION_1_3 v_done))"

lemma loci_validate_of_bsn_generic_stats_request_OF_VERSION_1_3_ok [v_proved]: "v_ok loci_validate_of_bsn_generic_stats_request_OF_VERSION_1_3"
  unfolding loci_validate_of_bsn_generic_stats_request_OF_VERSION_1_3_def by (intro v_intro; simp add: v_proved v_ok_imp_k_ok)

lemma loci_validate_of_bsn_generic_stats_request_OF_VERSION_1_3_exact [x_proved]: "x_ok 2 loci_validate_of_bsn_generic_stats_request_OF_VERSION_1_3"
  unfolding loci_validate_of_bsn_generic_stats_request_OF_VERSION_1_3_def by (intro x_intro; simp add: x_proved x_ok_imp_kx_ok)

definition loci_validate_of_bsn_gentable_bucket_stats_request_OF_VERSION_1_3 :: validator where
  "loci_validate_of_bsn_gentable_bucket_stats_request_OF_VERSION_1_3 =
     v_min 26 (v_set_len 26 (v_wire_len 2 26 v_done))"

lemma loci_validate_of_bsn_gentable_bucket_stats_request_OF_VERSION_1_3_ok [v_proved]: "v_ok loci_validate_of_bsn_gentable_bucket_stats_request_OF_VERSION_1_3"
  unfolding loci_validate_of_bsn_gentable_bucket_stats_request_OF_VERSION_1_3_def by (intro v_intro; simp add: v_proved v_ok_imp_k_ok)

lemma loci_validate_of_bsn_gentable_bucket_stats_request_OF_VERSION_1_3_exact [x_proved]: "x_ok 2 loci_validate_of_bsn_gentable_bucket_stats_request_OF_VERSION_1_3"
  unfolding loci_validate_of_bsn_gentable_bucket_stats_request_OF_VERSION_1_3_def by (intro x_intro; simp add: x_proved x_ok_imp_kx_ok)

definition loci_validate_of_bsn_gentable_desc_stats_request_OF_VERSION_1_3 :: validator where
  "loci_validate_of_bsn_gentable_desc_stats_request_OF_VERSION_1_3 =
     v_min 24 (v_set_len 24 (v_wire_len 2 24 v_done))"

lemma loci_validate_of_bsn_gentable_desc_stats_request_OF_VERSION_1_3_ok [v_proved]: "v_ok loci_validate_of_bsn_gentable_desc_stats_request_OF_VERSION_1_3"
  unfolding loci_validate_of_bsn_gentable_desc_stats_request_OF_VERSION_1_3_def by (intro v_intro; simp add: v_proved v_ok_imp_k_ok)

lemma loci_validate_of_bsn_gentable_desc_stats_request_OF_VERSION_1_3_exact [x_proved]: "x_ok 2 loci_validate_of_bsn_gentable_desc_stats_request_OF_VERSION_1_3"
  unfolding loci_validate_of_bsn_gentable_desc_stats_request_OF_VERSION_1_3_def by (intro x_intro; simp add: x_proved x_ok_imp_kx_ok)

definition loci_validate_of_bsn_gentable_entry_desc_stats_request_OF_VERSION_1_3 :: validator where
  "loci_validate_of_bsn_gentable_entry_desc_stats_request_OF_VERSION_1_3 =
     v_min 60 (v_set_len 60 (v_wire_len 2 60 v_done))"

lemma loci_validate_of_bsn_gentable_entry_desc_stats_request_OF_VERSION_1_3_ok [v_proved]: "v_ok loci_validate_of_bsn_gentable_entry_desc_stats_request_OF_VERSION_1_3"
  unfolding loci_validate_of_bsn_gentable_entry_desc_stats_request_OF_VERSION_1_3_def by (intro v_intro; simp add: v_proved v_ok_imp_k_ok)

lemma loci_validate_of_bsn_gentable_entry_desc_stats_request_OF_VERSION_1_3_exact [x_proved]: "x_ok 2 loci_validate_of_bsn_gentable_entry_desc_stats_request_OF_VERSION_1_3"
  unfolding loci_validate_of_bsn_gentable_entry_desc_stats_request_OF_VERSION_1_3_def by (intro x_intro; simp add: x_proved x_ok_imp_kx_ok)

definition loci_validate_of_bsn_gentable_entry_stats_request_OF_VERSION_1_3 :: validator where
  "loci_validate_of_bsn_gentable_entry_stats_request_OF_VERSION_1_3 =
     v_min 60 (v_set_len 60 (v_wire_len 2 60 v_done))"

lemma loci_validate_of_bsn_gentable_entry_stats_request_OF_VERSION_1_3_ok [v_proved]: "v_ok loci_validate_of_bsn_gentable_entry_stats_request_OF_VERSION_1_3"
  unfolding loci_validate_of_bsn_gentable_entry_stats_request_OF_VERSION_1_3_def by (intro v_intro; simp add: v_proved v_ok_imp_k_ok)

lemma loci_validate_of_bsn_gentable_entry_stats_request_OF_VERSION_1_3_exact [x_proved]: "x_ok 2 loci_validate_of_bsn_gentable_entry_stats_request_OF_VERSION_1_3"
  unfolding loci_validate_of_bsn_gentable_entry_stats_request_OF_VERSION_1_3_def by (intro x_intro; simp add: x_proved x_ok_imp_kx_ok)

definition loci_validate_of_bsn_gentable_stats_request_OF_VERSION_1_3 :: validator where
  "loci_validate_of_bsn_gentable_stats_request_OF_VERSION_1_3 =
     v_min 24 (v_set_len 24 (v_wire_len 2 24 v_done))"

lemma loci_validate_of_bsn_gentable_stats_request_OF_VERSION_1_3_ok [v_proved]: "v_ok loci_validate_of_bsn_gentable_stats_request_OF_VERSION_1_3"
  unfolding loci_validate_of_bsn_gentable_stats_request_OF_VERSION_1_3_def by (intro v_intro; simp add: v_proved v_ok_imp_k_ok)

lemma loci_validate_of_bsn_gentable_stats_request_OF_VERSION_1_3_exact [x_proved]: "x_ok 2 loci_validate_of_bsn_gentable_stats_request_OF_VERSION_1_3"
  unfolding loci_validate_of_bsn_gentable_stats_request_OF_VERSION_1_3_def by (intro x_intro; simp add: x_proved x_ok_imp_kx_ok)

definition loci_validate_of_bsn_image_desc_stats_request_OF_VERSION_1_3 :: validator where
  "loci_validate_of_bsn_image_desc_stats_request_OF_VERSION_1_3 =
     v_min 24 (v_set_len 24 (v_wire_len 2 24 v_done))"

lemma loci_validate_of_bsn_image_desc_stats_request_OF_VERSION_1_3_ok [v_proved]: "v_ok loci_validate_of_bsn_image_desc_stats_request_OF_VERSION_1_3"
  unfolding loci_validate_of_bsn_image_desc_stats_request_OF_VERSION_1_3_def by (intro v_intro; simp add: v_proved v_ok_imp_k_ok)

lemma loci_validate_of_bsn_image_desc_stats_request_OF_VERSION_1_3_exact [x_proved]: "x_ok 2 loci_validate_of_bsn_image_desc_stats_request_OF_VERSION_1_3"
  unfolding loci_validate_of_bsn_image_desc_stats_request_OF_VERSION_1_3_def by (intro x_intro; simp add: x_proved x_ok_imp_kx_ok)

definition loci_validate_of_bsn_lacp_stats_request_OF_VERSION_1_3 :: validator where
  "loci_validate_of_bsn_lacp_stats_request_OF_VERSION_1_3 =
     v_min 24 (v_set_len 24 (v_wire_len 2 24 v_done))"

lemma loci_validate_of_bsn_lacp_stats_request_OF_VERSION_1_3_ok [v_proved]: "v_ok loci_validate_of_bsn_lacp_stats_request_OF_VERSION_1_3"
  unfolding loci_validate_of_bsn_lacp_stats_request_OF_VERSION_1_3_def by (intro v_intro; simp add: v_proved v_ok_imp_k_ok)

lemma loci_validate_of_bsn_lacp_stats_request_OF_VERSION_1_3_exact [x_proved]: "x_ok 2 loci_validate_of_bsn_lacp_stats_request_OF_VERSION_1_3"
  unfolding loci_validate_of_bsn_lacp_stats_request_OF_VERSION_1_3_def by (intro x_intro; simp add: x_proved x_ok_imp_kx_ok)

definition loci_validate_of_bsn_port_counter_stats_request_OF_VERSION_1_3 :: validator where
  "loci_validate_of_bsn_port_counter_stats_request_OF_VERSION_1_3 =
     v_min 28 (v_set_len 28 (v_wire_len 2 28 v_done))"

lemma loci_validate_of_bsn_port_counter_stats_request_OF_VERSION_1_3_ok [v_proved]: "v_ok loci_validate_of_bsn_port_counter_stats_request_OF_VERSION_1_3"
  unfolding loci_validate_of_bsn_port_counter_stats_request_OF_VERSION_1_3_def by (intro v_intro; simp add: v_proved v_ok_imp_k_ok)

lemma loci_validate_of_bsn_port_counter_stats_request_OF_VERSION_1_3_exact [x_proved]: "x_ok 2 loci_validate_of_bsn_port_counter_stats_request_OF_VERSION_1_3"
  unfolding loci_validate_of_bsn_port_counter_stats_request_OF_VERSION_1_3_def by (intro x_intro; simp add: x_proved x_ok_imp_kx_ok)

definition loci_validate_of_bsn_switch_pipeline_stats_request_OF_VERSION_1_3 :: validator where
  "loci_validate_of_bsn_switch_pipeline_stats_request_OF_VERSION_1_3 =
     v_min 24 (v_set_len 24 (v_wire_len 2 24 v_done))"

lemma loci_validate_of_bsn_switch_pipeline_stats_request_OF_VERSION_1_3_ok [v_proved]: "v_ok loci_validate_of_bsn_switch_pipeline_stats_request_OF_VERSION_1_3"
  unfolding loci_validate_of_bsn_switch_pipeline_stats_request_OF_VERSION_1_3_def by (intro v_intro; simp add: v_proved v_ok_imp_k_ok)

lemma loci_validate_of_bsn_switch_pipeline_stats_request_OF_VERSION_1_3_exact [x_proved]: "x_ok 2 loci_validate_of_bsn_switch_pipeline_stats_request_OF_VERSION_1_3"
  unfolding loci_validate_of_bsn_switch_pipeline_stats_request_OF_VERSION_1_3_def by (intro x_intro; simp add: x_proved x_ok_imp_kx_ok)

definition loci_validate_of_bsn_table_checksum_stats_request_OF_VERSION_1_3 :: validator where
  "loci_validate_of_bsn_table_checksum_stats_request_OF_VERSION_1_3 =
     v_min 24 (v_set_len 24 (v_wire_len 2 24 v_done))"

lemma loci_validate_of_bsn_table_checksum_stats_request_OF_VERSION_1_3_ok [v_proved]: "v_ok loci_validate_of_bsn_table_checksum_stats_request_OF_VERSION_1_3"
  unfolding loci_validate_of_bsn_table_checksum_stats_request_OF_VERSION_1_3_def by (intro v_intro; simp add: v_proved v_ok_imp_k_ok)

lemma loci_validate_of_bsn_table_checksum_stats_request_OF_VERSION_1_3_exact [x_proved]: "x_ok 2 loci_validate_of_bsn_table_checksum_stats_request_OF_VERSION_1_3"
  unfolding loci_validate_of_bsn_table_checksum_stats_request_OF_VERSION_1_3_def by (intro x_intro; simp add: x_proved x_ok_imp_kx_ok)

definition loci_validate_of_bsn_vlan_counter_stats_request_OF_VERSION_1_3 :: validator where
  "loci_validate_of_bsn_vlan_counter_stats_request_OF_VERSION_1_3 =
     v_min 26 (v_set_len 26 (v_wire_len 2 26 v_done))"

lemma loci_validate_of_bsn_vlan_counter_stats_request_OF_VERSION_1_3_ok [v_proved]: "v_ok loci_validate_of_bsn_vlan_counter_stats_request_OF_VERSION_1_3"
  unfolding loci_validate_of_bsn_vlan_counter_stats_request_OF_VERSION_1_3_def by (intro v_intro; simp add: v_proved v_ok_imp_k_ok)

lemma loci_validate_of_bsn_vlan_counter_stats_request_OF_VERSION_1_3_exact [x_proved]: "x_ok 2 loci_validate_of_bsn_vlan_counter_stats_request_OF_VERSION_1_3"
  unfolding loci_validate_of_bsn_vlan_counter_stats_request_OF_VERSION_1_3_def by (intro x_intro; simp add: x_proved x_ok_imp_kx_ok)

definition loci_validate_of_bsn_vrf_counter_stats_request_OF_VERSION_1_3 :: validator where
  "loci_validate_of_bsn_vrf_counter_stats_request_OF_VERSION_1_3 =
     v_min 28 (v_set_len 28 (v_wire_len 2 28 v_done))"

lemma loci_validate_of_bsn_vrf_counter_stats_request_OF_VERSION_1_3_ok [v_proved]: "v_ok loci_validate_of_bsn_vrf_counter_stats_request_OF_VERSION_1_3"
  unfolding loci_validate_of_bsn_vrf_counter_stats_request_OF_VERSION_1_3_def by (intro v_intro; simp add: v_proved v_ok_imp_k_ok)

lemma loci_validate_of_bsn_vrf_counter_stats_request_OF_VERSION_1_3_exact [x_proved]: "x_ok 2 loci_validate_of_bsn_vrf_counter_stats_request_OF_VERSION_1_3"
  unfolding loci_validate_of_bsn_vrf_counter_stats_request_OF_VERSION_1_3_def by (intro x_intro; simp add: x_proved x_ok_imp_kx_ok)

definition loci_validate_of_bsn_stats_request_OF_VERSION_1_3 :: validator where
  "loci_validate_of_bsn_stats_request_OF_VERSION_1_3 =
     v_min 24 (v_wire_len_set 2 24
     (v_switch32 20
      [(0xd, loci_validate_of_bsn_debug_counter_desc_stats_request_OF_VERSION_1_3),
       (0xc, loci_validate_of_bsn_debug_counter_stats_request_OF_VERSION_1_3),
       (0xa, loci_validate_of_bsn_flow_checksum_bucket_stats_request_OF_VERSION_1_3),
       (0x10, loci_validate_of_bsn_generic_stats_request_OF_VERSION_1_3),
       (5, loci_validate_of_bsn_gentable_bucket_stats_request_OF_VERSION_1_3),
       (4, loci_validate_of_bsn_gentable_desc_stats_request_OF_VERSION_1_3),
       (2, loci_validate_of_bsn_gentable_entry_desc_stats_request_OF_VERSION_1_3),
       (3, loci_validate_of_bsn_gentable_entry_stats_request_OF_VERSION_1_3),
       (7, loci_validate_of_bsn_gentable_stats_request_OF_VERSION_1_3),
       (0xe, loci_validate_of_bsn_image_desc_stats_request_OF_VERSION_1_3),
       (1, loci_validate_of_bsn_lacp_stats_request_OF_VERSION_1_3),
       (8, loci_validate_of_bsn_port_counter_stats_request_OF_VERSION_1_3),
       (6, loci_validate_of_bsn_switch_pipeline_stats_request_OF_VERSION_1_3),
       (0xb, loci_validate_of_bsn_table_checksum_stats_request_OF_VERSION_1_3),
       (9, loci_validate_of_bsn_vlan_counter_stats_request_OF_VERSION_1_3),
       (0xf, loci_validate_of_bsn_vrf_counter_stats_request_OF_VERSION_1_3)]
     v_done))"

lemma loci_validate_of_bsn_stats_request_OF_VERSION_1_3_ok [v_proved]: "v_ok loci_validate_of_bsn_stats_request_OF_VERSION_1_3"
  unfolding loci_validate_of_bsn_stats_request_OF_VERSION_1_3_def by (intro v_intro; simp add: v_proved v_ok_imp_k_ok)

lemma loci_validate_of_bsn_stats_request_OF_VERSION_1_3_exact [x_proved]: "x_ok 2 loci_validate_of_bsn_stats_request_OF_VERSION_1_3"
  unfolding loci_validate_of_bsn_stats_request_OF_VERSION_1_3_def by (intro x_intro; simp add: x_proved x_ok_imp_kx_ok)

definition loci_validate_of_experimenter_stats_request_OF_VERSION_1_3 :: validator where
  "loci_validate_of_experimenter_stats_request_OF_VERSION_1_3 =
     v_min 24 (v_wire_len_set 2 24
     (v_switch32 16
      [(0x5c16c7, loci_validate_of_bsn_stats_request_OF_VERSION_1_3)]
     v_done))"

lemma loci_validate_of_experimenter_stats_request_OF_VERSION_1_3_ok [v_proved]: "v_ok loci_validate_of_experimenter_stats_request_OF_VERSION_1_3"
  unfolding loci_validate_of_experimenter_stats_request_OF_VERSION_1_3_def by (intro v_intro; simp add: v_proved v_ok_imp_k_ok)

lemma loci_validate_of_experimenter_stats_request_OF_VERSION_1_3_exact [x_proved]: "x_ok 2 loci_validate_of_experimenter_stats_request_OF_VERSION_1_3"
  unfolding loci_validate_of_experimenter_stats_request_OF_VERSION_1_3_def by (intro x_intro; simp add: x_proved x_ok_imp_kx_ok)

definition loci_validate_of_desc_stats_request_OF_VERSION_1_3 :: validator where
  "loci_validate_of_desc_stats_request_OF_VERSION_1_3 =
     v_min 16 (v_set_len 16 (v_wire_len 2 16 v_done))"

lemma loci_validate_of_desc_stats_request_OF_VERSION_1_3_ok [v_proved]: "v_ok loci_validate_of_desc_stats_request_OF_VERSION_1_3"
  unfolding loci_validate_of_desc_stats_request_OF_VERSION_1_3_def by (intro v_intro; simp add: v_proved v_ok_imp_k_ok)

lemma loci_validate_of_desc_stats_request_OF_VERSION_1_3_exact [x_proved]: "x_ok 2 loci_validate_of_desc_stats_request_OF_VERSION_1_3"
  unfolding loci_validate_of_desc_stats_request_OF_VERSION_1_3_def by (intro x_intro; simp add: x_proved x_ok_imp_kx_ok)

definition loci_validate_of_flow_stats_request_OF_VERSION_1_3 :: validator where
  "loci_validate_of_flow_stats_request_OF_VERSION_1_3 =
     v_min 56 (v_wire_len_set 2 56 v_done)"

lemma loci_validate_of_flow_stats_request_OF_VERSION_1_3_ok [v_proved]: "v_ok loci_validate_of_flow_stats_request_OF_VERSION_1_3"
  unfolding loci_validate_of_flow_stats_request_OF_VERSION_1_3_def by (intro v_intro; simp add: v_proved v_ok_imp_k_ok)

lemma loci_validate_of_flow_stats_request_OF_VERSION_1_3_exact [x_proved]: "x_ok 2 loci_validate_of_flow_stats_request_OF_VERSION_1_3"
  unfolding loci_validate_of_flow_stats_request_OF_VERSION_1_3_def by (intro x_intro; simp add: x_proved x_ok_imp_kx_ok)

definition loci_validate_of_group_desc_stats_request_OF_VERSION_1_3 :: validator where
  "loci_validate_of_group_desc_stats_request_OF_VERSION_1_3 =
     v_min 16 (v_set_len 16 (v_wire_len 2 16 v_done))"

lemma loci_validate_of_group_desc_stats_request_OF_VERSION_1_3_ok [v_proved]: "v_ok loci_validate_of_group_desc_stats_request_OF_VERSION_1_3"
  unfolding loci_validate_of_group_desc_stats_request_OF_VERSION_1_3_def by (intro v_intro; simp add: v_proved v_ok_imp_k_ok)

lemma loci_validate_of_group_desc_stats_request_OF_VERSION_1_3_exact [x_proved]: "x_ok 2 loci_validate_of_group_desc_stats_request_OF_VERSION_1_3"
  unfolding loci_validate_of_group_desc_stats_request_OF_VERSION_1_3_def by (intro x_intro; simp add: x_proved x_ok_imp_kx_ok)

definition loci_validate_of_group_features_stats_request_OF_VERSION_1_3 :: validator where
  "loci_validate_of_group_features_stats_request_OF_VERSION_1_3 =
     v_min 16 (v_set_len 16 (v_wire_len 2 16 v_done))"

lemma loci_validate_of_group_features_stats_request_OF_VERSION_1_3_ok [v_proved]: "v_ok loci_validate_of_group_features_stats_request_OF_VERSION_1_3"
  unfolding loci_validate_of_group_features_stats_request_OF_VERSION_1_3_def by (intro v_intro; simp add: v_proved v_ok_imp_k_ok)

lemma loci_validate_of_group_features_stats_request_OF_VERSION_1_3_exact [x_proved]: "x_ok 2 loci_validate_of_group_features_stats_request_OF_VERSION_1_3"
  unfolding loci_validate_of_group_features_stats_request_OF_VERSION_1_3_def by (intro x_intro; simp add: x_proved x_ok_imp_kx_ok)

definition loci_validate_of_group_stats_request_OF_VERSION_1_3 :: validator where
  "loci_validate_of_group_stats_request_OF_VERSION_1_3 =
     v_min 24 (v_set_len 24 (v_wire_len 2 24 v_done))"

lemma loci_validate_of_group_stats_request_OF_VERSION_1_3_ok [v_proved]: "v_ok loci_validate_of_group_stats_request_OF_VERSION_1_3"
  unfolding loci_validate_of_group_stats_request_OF_VERSION_1_3_def by (intro v_intro; simp add: v_proved v_ok_imp_k_ok)

lemma loci_validate_of_group_stats_request_OF_VERSION_1_3_exact [x_proved]: "x_ok 2 loci_validate_of_group_stats_request_OF_VERSION_1_3"
  unfolding loci_validate_of_group_stats_request_OF_VERSION_1_3_def by (intro x_intro; simp add: x_proved x_ok_imp_kx_ok)

definition loci_validate_of_meter_config_stats_request_OF_VERSION_1_3 :: validator where
  "loci_validate_of_meter_config_stats_request_OF_VERSION_1_3 =
     v_min 24 (v_set_len 24 (v_wire_len 2 24 v_done))"

lemma loci_validate_of_meter_config_stats_request_OF_VERSION_1_3_ok [v_proved]: "v_ok loci_validate_of_meter_config_stats_request_OF_VERSION_1_3"
  unfolding loci_validate_of_meter_config_stats_request_OF_VERSION_1_3_def by (intro v_intro; simp add: v_proved v_ok_imp_k_ok)

lemma loci_validate_of_meter_config_stats_request_OF_VERSION_1_3_exact [x_proved]: "x_ok 2 loci_validate_of_meter_config_stats_request_OF_VERSION_1_3"
  unfolding loci_validate_of_meter_config_stats_request_OF_VERSION_1_3_def by (intro x_intro; simp add: x_proved x_ok_imp_kx_ok)

definition loci_validate_of_meter_features_stats_request_OF_VERSION_1_3 :: validator where
  "loci_validate_of_meter_features_stats_request_OF_VERSION_1_3 =
     v_min 16 (v_set_len 16 (v_wire_len 2 16 v_done))"

lemma loci_validate_of_meter_features_stats_request_OF_VERSION_1_3_ok [v_proved]: "v_ok loci_validate_of_meter_features_stats_request_OF_VERSION_1_3"
  unfolding loci_validate_of_meter_features_stats_request_OF_VERSION_1_3_def by (intro v_intro; simp add: v_proved v_ok_imp_k_ok)

lemma loci_validate_of_meter_features_stats_request_OF_VERSION_1_3_exact [x_proved]: "x_ok 2 loci_validate_of_meter_features_stats_request_OF_VERSION_1_3"
  unfolding loci_validate_of_meter_features_stats_request_OF_VERSION_1_3_def by (intro x_intro; simp add: x_proved x_ok_imp_kx_ok)

definition loci_validate_of_meter_stats_request_OF_VERSION_1_3 :: validator where
  "loci_validate_of_meter_stats_request_OF_VERSION_1_3 =
     v_min 24 (v_set_len 24 (v_wire_len 2 24 v_done))"

lemma loci_validate_of_meter_stats_request_OF_VERSION_1_3_ok [v_proved]: "v_ok loci_validate_of_meter_stats_request_OF_VERSION_1_3"
  unfolding loci_validate_of_meter_stats_request_OF_VERSION_1_3_def by (intro v_intro; simp add: v_proved v_ok_imp_k_ok)

lemma loci_validate_of_meter_stats_request_OF_VERSION_1_3_exact [x_proved]: "x_ok 2 loci_validate_of_meter_stats_request_OF_VERSION_1_3"
  unfolding loci_validate_of_meter_stats_request_OF_VERSION_1_3_def by (intro x_intro; simp add: x_proved x_ok_imp_kx_ok)

definition loci_validate_of_port_desc_stats_request_OF_VERSION_1_3 :: validator where
  "loci_validate_of_port_desc_stats_request_OF_VERSION_1_3 =
     v_min 16 (v_set_len 16 (v_wire_len 2 16 v_done))"

lemma loci_validate_of_port_desc_stats_request_OF_VERSION_1_3_ok [v_proved]: "v_ok loci_validate_of_port_desc_stats_request_OF_VERSION_1_3"
  unfolding loci_validate_of_port_desc_stats_request_OF_VERSION_1_3_def by (intro v_intro; simp add: v_proved v_ok_imp_k_ok)

lemma loci_validate_of_port_desc_stats_request_OF_VERSION_1_3_exact [x_proved]: "x_ok 2 loci_validate_of_port_desc_stats_request_OF_VERSION_1_3"
  unfolding loci_validate_of_port_desc_stats_request_OF_VERSION_1_3_def by (intro x_intro; simp add: x_proved x_ok_imp_kx_ok)

definition loci_validate_of_port_stats_request_OF_VERSION_1_3 :: validator where
  "loci_validate_of_port_stats_request_OF_VERSION_1_3 =
     v_min 24 (v_set_len 24 (v_wire_len 2 24 v_done))"

lemma loci_validate_of_port_stats_request_OF_VERSION_1_3_ok [v_proved]: "v_ok loci_validate_of_port_stats_request_OF_VERSION_1_3"
  unfolding loci_validate_of_port_stats_request_OF_VERSION_1_3_def by (intro v_intro; simp add: v_proved v_ok_imp_k_ok)

lemma loci_validate_of_port_stats_request_OF_VERSION_1_3_exact [x_proved]: "x_ok 2 loci_validate_of_port_stats_request_OF_VERSION_1_3"
  unfolding loci_validate_of_port_stats_request_OF_VERSION_1_3_def by (intro x_intro; simp add: x_proved x_ok_imp_kx_ok)

definition loci_validate_of_queue_stats_request_OF_VERSION_1_3 :: validator where
  "loci_validate_of_queue_stats_request_OF_VERSION_1_3 =
     v_min 24 (v_set_len 24 (v_wire_len 2 24 v_done))"

lemma loci_validate_of_queue_stats_request_OF_VERSION_1_3_ok [v_proved]: "v_ok loci_validate_of_queue_stats_request_OF_VERSION_1_3"
  unfolding loci_validate_of_queue_stats_request_OF_VERSION_1_3_def by (intro v_intro; simp add: v_proved v_ok_imp_k_ok)

lemma loci_validate_of_queue_stats_request_OF_VERSION_1_3_exact [x_proved]: "x_ok 2 loci_validate_of_queue_stats_request_OF_VERSION_1_3"
  unfolding loci_validate_of_queue_stats_request_OF_VERSION_1_3_def by (intro x_intro; simp add: x_proved x_ok_imp_kx_ok)

definition loci_validate_of_table_features_stats_request_OF_VERSION_1_3 :: validator where
  "loci_validate_of_table_features_stats_request_OF_VERSION_1_3 =
     v_min 16 (v_wire_len_set 2 16
     (v_list_rest 16 loci_validate_of_list_table_features_OF_VERSION_1_3 v_done))"

lemma loci_validate_of_table_features_stats_request_OF_VERSION_1_3_ok [v_proved]: "v_ok loci_validate_of_table_features_stats_request_OF_VERSION_1_3"
  unfolding loci_validate_of_table_features_stats_request_OF_VERSION_1_3_def by (intro v_intro; simp add: v_proved v_ok_imp_k_ok)

lemma loci_validate_of_table_features_stats_request_OF_VERSION_1_3_exact [x_proved]: "x_ok 2 loci_validate_of_table_features_stats_request_OF_VERSION_1_3"
  unfolding loci_validate_of_table_features_stats_request_OF_VERSION_1_3_def by (intro x_intro; simp add: x_proved x_ok_imp_kx_ok)

definition loci_validate_of_table_stats_request_OF_VERSION_1_3 :: validator where
  "loci_validate_of_table_stats_request_OF_VERSION_1_3 =
     v_min 16 (v_set_len 16 (v_wire_len 2 16 v_done))"

lemma loci_validate_of_table_stats_request_OF_VERSION_1_3_ok [v_proved]: "v_ok loci_validate_of_table_stats_request_OF_VERSION_1_3"
  unfolding loci_validate_of_table_stats_request_OF_VERSION_1_3_def by (intro v_intro; simp add: v_proved v_ok_imp_k_ok)

lemma loci_validate_of_table_stats_request_OF_VERSION_1_3_exact [x_proved]: "x_ok 2 loci_validate_of_table_stats_request_OF_VERSION_1_3"
  unfolding loci_validate_of_table_stats_request_OF_VERSION_1_3_def by (intro x_intro; simp add: x_proved x_ok_imp_kx_ok)

definition loci_validate_of_stats_request_OF_VERSION_1_3 :: validator where
  "loci_validate_of_stats_request_OF_VERSION_1_3 =
     v_min 16 (v_wire_len_set 2 16
     (v_switch16 8
      [(2, loci_validate_of_aggregate_stats_request_OF_VERSION_1_3),
       (0xffff, loci_validate_of_experimenter_stats_request_OF_VERSION_1_3),
       (0, loci_validate_of_desc_stats_request_OF_VERSION_1_3),
       (1, loci_validate_of_flow_stats_request_OF_VERSION_1_3),
       (7, loci_validate_of_group_desc_stats_request_OF_VERSION_1_3),
       (8, loci_validate_of_group_features_stats_request_OF_VERSION_1_3),
       (6, loci_validate_of_group_stats_request_OF_VERSION_1_3),
       (0xa, loci_validate_of_meter_config_stats_request_OF_VERSION_1_3),
       (0xb, loci_validate_of_meter_features_stats_request_OF_VERSION_1_3),
       (9, loci_validate_of_meter_stats_request_OF_VERSION_1_3),
       (0xd, loci_validate_of_port_desc_stats_request_OF_VERSION_1_3),
       (4, loci_validate_of_port_stats_request_OF_VERSION_1_3),
       (5, loci_validate_of_queue_stats_request_OF_VERSION_1_3),
       (0xc, loci_validate_of_table_features_stats_request_OF_VERSION_1_3),
       (3, loci_validate_of_table_stats_request_OF_VERSION_1_3)]
     v_done))"

lemma loci_validate_of_stats_request_OF_VERSION_1_3_ok [v_proved]: "v_ok loci_validate_of_stats_request_OF_VERSION_1_3"
  unfolding loci_validate_of_stats_request_OF_VERSION_1_3_def by (intro v_intro; simp add: v_proved v_ok_imp_k_ok)

lemma loci_validate_of_stats_request_OF_VERSION_1_3_exact [x_proved]: "x_ok 2 loci_validate_of_stats_request_OF_VERSION_1_3"
  unfolding loci_validate_of_stats_request_OF_VERSION_1_3_def by (intro x_intro; simp add: x_proved x_ok_imp_kx_ok)

definition loci_validate_of_async_get_reply_OF_VERSION_1_3 :: validator where
  "loci_validate_of_async_get_reply_OF_VERSION_1_3 =
     v_min 32 (v_set_len 32 (v_wire_len 2 32 v_done))"

lemma loci_validate_of_async_get_reply_OF_VERSION_1_3_ok [v_proved]: "v_ok loci_validate_of_async_get_reply_OF_VERSION_1_3"
  unfolding loci_validate_of_async_get_reply_OF_VERSION_1_3_def by (intro v_intro; simp add: v_proved v_ok_imp_k_ok)

lemma loci_validate_of_async_get_reply_OF_VERSION_1_3_exact [x_proved]: "x_ok 2 loci_validate_of_async_get_reply_OF_VERSION_1_3"
  unfolding loci_validate_of_async_get_reply_OF_VERSION_1_3_def by (intro x_intro; simp add: x_proved x_ok_imp_kx_ok)

definition loci_validate_of_async_get_request_OF_VERSION_1_3 :: validator where
  "loci_validate_of_async_get_request_OF_VERSION_1_3 =
     v_min 32 (v_set_len 32 (v_wire_len 2 32 v_done))"

lemma loci_validate_of_async_get_request_OF_VERSION_1_3_ok [v_proved]: "v_ok loci_validate_of_async_get_request_OF_VERSION_1_3"
  unfolding loci_validate_of_async_get_request_OF_VERSION_1_3_def by (intro v_intro; simp add: v_proved v_ok_imp_k_ok)

lemma loci_validate_of_async_get_request_OF_VERSION_1_3_exact [x_proved]: "x_ok 2 loci_validate_of_async_get_request_OF_VERSION_1_3"
  unfolding loci_validate_of_async_get_request_OF_VERSION_1_3_def by (intro x_intro; simp add: x_proved x_ok_imp_kx_ok)

definition loci_validate_of_async_set_OF_VERSION_1_3 :: validator where
  "loci_validate_of_async_set_OF_VERSION_1_3 =
     v_min 32 (v_set_len 32 (v_wire_len 2 32 v_done))"

lemma loci_validate_of_async_set_OF_VERSION_1_3_ok [v_proved]: "v_ok loci_validate_of_async_set_OF_VERSION_1_3"
  unfolding loci_validate_of_async_set_OF_VERSION_1_3_def by (intro v_intro; simp add: v_proved v_ok_imp_k_ok)

lemma loci_validate_of_async_set_OF_VERSION_1_3_exact [x_proved]: "x_ok 2 loci_validate_of_async_set_OF_VERSION_1_3"
  unfolding loci_validate_of_async_set_OF_VERSION_1_3_def by (intro x_intro; simp add: x_proved x_ok_imp_kx_ok)

definition loci_validate_of_bad_action_error_msg_OF_VERSION_1_3 :: validator where
  "loci_validate_of_bad_action_error_msg_OF_VERSION_1_3 =
     v_min 12 (v_wire_len_set 2 12 v_done)"

lemma loci_validate_of_bad_action_error_msg_OF_VERSION_1_3_ok [v_proved]: "v_ok loci_validate_of_bad_action_error_msg_OF_VERSION_1_3"
  unfolding loci_validate_of_bad_action_error_msg_OF_VERSION_1_3_def by (intro v_intro; simp add: v_proved v_ok_imp_k_ok)

lemma loci_validate_of_bad_action_error_msg_OF_VERSION_1_3_exact [x_proved]: "x_ok 2 loci_validate_of_bad_action_error_msg_OF_VERSION_1_3"
  unfolding loci_validate_of_bad_action_error_msg_OF_VERSION_1_3_def by (intro x_intro; simp add: x_proved x_ok_imp_kx_ok)

definition loci_validate_of_bad_instruction_error_msg_OF_VERSION_1_3 :: validator where
  "loci_validate_of_bad_instruction_error_msg_OF_VERSION_1_3 =
     v_min 12 (v_wire_len_set 2 12 v_done)"

lemma loci_validate_of_bad_instruction_error_msg_OF_VERSION_1_3_ok [v_proved]: "v_ok loci_validate_of_bad_instruction_error_msg_OF_VERSION_1_3"
  unfolding loci_validate_of_bad_instruction_error_msg_OF_VERSION_1_3_def by (intro v_intro; simp add: v_proved v_ok_imp_k_ok)

lemma loci_validate_of_bad_instruction_error_msg_OF_VERSION_1_3_exact [x_proved]: "x_ok 2 loci_validate_of_bad_instruction_error_msg_OF_VERSION_1_3"
  unfolding loci_validate_of_bad_instruction_error_msg_OF_VERSION_1_3_def by (intro x_intro; simp add: x_proved x_ok_imp_kx_ok)

definition loci_validate_of_bad_match_error_msg_OF_VERSION_1_3 :: validator where
  "loci_validate_of_bad_match_error_msg_OF_VERSION_1_3 =
     v_min 12 (v_wire_len_set 2 12 v_done)"

lemma loci_validate_of_bad_match_error_msg_OF_VERSION_1_3_ok [v_proved]: "v_ok loci_validate_of_bad_match_error_msg_OF_VERSION_1_3"
  unfolding loci_validate_of_bad_match_error_msg_OF_VERSION_1_3_def by (intro v_intro; simp add: v_proved v_ok_imp_k_ok)

lemma loci_validate_of_bad_match_error_msg_OF_VERSION_1_3_exact [x_proved]: "x_ok 2 loci_validate_of_bad_match_error_msg_OF_VERSION_1_3"
  unfolding loci_validate_of_bad_match_error_msg_OF_VERSION_1_3_def by (intro x_intro; simp add: x_proved x_ok_imp_kx_ok)

definition loci_validate_of_bad_request_error_msg_OF_VERSION_1_3 :: validator where
  "loci_validate_of_bad_request_error_msg_OF_VERSION_1_3 =
     v_min 12 (v_wire_len_set 2 12 v_done)"

lemma loci_validate_of_bad_request_error_msg_OF_VERSION_1_3_ok [v_proved]: "v_ok loci_validate_of_bad_request_error_msg_OF_VERSION_1_3"
  unfolding loci_validate_of_bad_request_error_msg_OF_VERSION_1_3_def by (intro v_intro; simp add: v_proved v_ok_imp_k_ok)

lemma loci_validate_of_bad_request_error_msg_OF_VERSION_1_3_exact [x_proved]: "x_ok 2 loci_validate_of_bad_request_error_msg_OF_VERSION_1_3"
  unfolding loci_validate_of_bad_request_error_msg_OF_VERSION_1_3_def by (intro x_intro; simp add: x_proved x_ok_imp_kx_ok)

definition loci_validate_of_experimenter_error_msg_OF_VERSION_1_3 :: validator where
  "loci_validate_of_experimenter_error_msg_OF_VERSION_1_3 =
     v_min 16 (v_wire_len_set 2 16 v_done)"

lemma loci_validate_of_experimenter_error_msg_OF_VERSION_1_3_ok [v_proved]: "v_ok loci_validate_of_experimenter_error_msg_OF_VERSION_1_3"
  unfolding loci_validate_of_experimenter_error_msg_OF_VERSION_1_3_def by (intro v_intro; simp add: v_proved v_ok_imp_k_ok)

lemma loci_validate_of_experimenter_error_msg_OF_VERSION_1_3_exact [x_proved]: "x_ok 2 loci_validate_of_experimenter_error_msg_OF_VERSION_1_3"
  unfolding loci_validate_of_experimenter_error_msg_OF_VERSION_1_3_def by (intro x_intro; simp add: x_proved x_ok_imp_kx_ok)

definition loci_validate_of_flow_mod_failed_error_msg_OF_VERSION_1_3 :: validator where
  "loci_validate_of_flow_mod_failed_error_msg_OF_VERSION_1_3 =
     v_min 12 (v_wire_len_set 2 12 v_done)"

lemma loci_validate_of_flow_mod_failed_error_msg_OF_VERSION_1_3_ok [v_proved]: "v_ok loci_validate_of_flow_mod_failed_error_msg_OF_VERSION_1_3"
  unfolding loci_validate_of_flow_mod_failed_error_msg_OF_VERSION_1_3_def by (intro v_intro; simp add: v_proved v_ok_imp_k_ok)

lemma loci_validate_of_flow_mod_failed_error_msg_OF_VERSION_1_3_exact [x_proved]: "x_ok 2 loci_validate_of_flow_mod_failed_error_msg_OF_VERSION_1_3"
  unfolding loci_validate_of_flow_mod_failed_error_msg_OF_VERSION_1_3_def by (intro x_intro; simp add: x_proved x_ok_imp_kx_ok)

definition loci_validate_of_group_mod_failed_error_msg_OF_VERSION_1_3 :: validator where
  "loci_validate_of_group_mod_failed_error_msg_OF_VERSION_1_3 =
     v_min 12 (v_wire_len_set 2 12 v_done)"

lemma loci_validate_of_group_mod_failed_error_msg_OF_VERSION_1_3_ok [v_proved]: "v_ok loci_validate_of_group_mod_failed_error_msg_OF_VERSION_1_3"
  unfolding loci_validate_of_group_mod_failed_error_msg_OF_VERSION_1_3_def by (intro v_intro; simp add: v_proved v_ok_imp_k_ok)

lemma loci_validate_of_group_mod_failed_error_msg_OF_VERSION_1_3_exact [x_proved]: "x_ok 2 loci_validate_of_group_mod_failed_error_msg_OF_VERSION_1_3"
  unfolding loci_validate_of_group_mod_failed_error_msg_OF_VERSION_1_3_def by (intro x_intro; simp add: x_proved x_ok_imp_kx_ok)

definition loci_validate_of_hello_failed_error_msg_OF_VERSION_1_3 :: validator where
  "loci_validate_of_hello_failed_error_msg_OF_VERSION_1_3 =
     v_min 12 (v_wire_len_set 2 12 v_done)"

lemma loci_validate_of_hello_failed_error_msg_OF_VERSION_1_3_ok [v_proved]: "v_ok loci_validate_of_hello_failed_error_msg_OF_VERSION_1_3"
  unfolding loci_validate_of_hello_failed_error_msg_OF_VERSION_1_3_def by (intro v_intro; simp add: v_proved v_ok_imp_k_ok)

lemma loci_validate_of_hello_failed_error_msg_OF_VERSION_1_3_exact [x_proved]: "x_ok 2 loci_validate_of_hello_failed_error_msg_OF_VERSION_1_3"
  unfolding loci_validate_of_hello_failed_error_msg_OF_VERSION_1_3_def by (intro x_intro; simp add: x_proved x_ok_imp_kx_ok)

definition loci_validate_of_meter_mod_failed_error_msg_OF_VERSION_1_3 :: validator where
  "loci_validate_of_meter_mod_failed_error_msg_OF_VERSION_1_3 =
     v_min 12 (v_wire_len_set 2 12 v_done)"

lemma loci_validate_of_meter_mod_failed_error_msg_OF_VERSION_1_3_ok [v_proved]: "v_ok loci_validate_of_meter_mod_failed_error_msg_OF_VERSION_1_3"
  unfolding loci_validate_of_meter_mod_failed_error_msg_OF_VERSION_1_3_def by (intro v_intro; simp add: v_proved v_ok_imp_k_ok)

lemma loci_validate_of_meter_mod_failed_error_msg_OF_VERSION_1_3_exact [x_proved]: "x_ok 2 loci_validate_of_meter_mod_failed_error_msg_OF_VERSION_1_3"
  unfolding loci_validate_of_meter_mod_failed_error_msg_OF_VERSION_1_3_def by (intro x_intro; simp add: x_proved x_ok_imp_kx_ok)

definition loci_validate_of_port_mod_failed_error_msg_OF_VERSION_1_3 :: validator where
  "loci_validate_of_port_mod_failed_error_msg_OF_VERSION_1_3 =
     v_min 12 (v_wire_len_set 2 12 v_done)"

lemma loci_validate_of_port_mod_failed_error_msg_OF_VERSION_1_3_ok [v_proved]: "v_ok loci_validate_of_port_mod_failed_error_msg_OF_VERSION_1_3"
  unfolding loci_validate_of_port_mod_failed_error_msg_OF_VERSION_1_3_def by (intro v_intro; simp add: v_proved v_ok_imp_k_ok)

lemma loci_validate_of_port_mod_failed_error_msg_OF_VERSION_1_3_exact [x_proved]: "x_ok 2 loci_validate_of_port_mod_failed_error_msg_OF_VERSION_1_3"
  unfolding loci_validate_of_port_mod_failed_error_msg_OF_VERSION_1_3_def by (intro x_intro; simp add: x_proved x_ok_imp_kx_ok)

definition loci_validate_of_queue_op_failed_error_msg_OF_VERSION_1_3 :: validator where
  "loci_validate_of_queue_op_failed_error_msg_OF_VERSION_1_3 =
     v_min 12 (v_wire_len_set 2 12 v_done)"

lemma loci_validate_of_queue_op_failed_error_msg_OF_VERSION_1_3_ok [v_proved]: "v_ok loci_validate_of_queue_op_failed_error_msg_OF_VERSION_1_3"
  unfolding loci_validate_of_queue_op_failed_error_msg_OF_VERSION_1_3_def by (intro v_intro; simp add: v_proved v_ok_imp_k_ok)

lemma loci_validate_of_queue_op_failed_error_msg_OF_VERSION_1_3_exact [x_proved]: "x_ok 2 loci_validate_of_queue_op_failed_error_msg_OF_VERSION_1_3"
  unfolding loci_validate_of_queue_op_failed_error_msg_OF_VERSION_1_3_def by (intro x_intro; simp add: x_proved x_ok_imp_kx_ok)

definition loci_validate_of_role_request_failed_error_msg_OF_VERSION_1_3 :: validator where
  "loci_validate_of_role_request_failed_error_msg_OF_VERSION_1_3 =
     v_min 12 (v_wire_len_set 2 12 v_done)"

lemma loci_validate_of_role_request_failed_error_msg_OF_VERSION_1_3_ok [v_proved]: "v_ok loci_validate_of_role_request_failed_error_msg_OF_VERSION_1_3"
  unfolding loci_validate_of_role_request_failed_error_msg_OF_VERSION_1_3_def by (intro v_intro; simp add: v_proved v_ok_imp_k_ok)

lemma loci_validate_of_role_request_failed_error_msg_OF_VERSION_1_3_exact [x_proved]: "x_ok 2 loci_validate_of_role_request_failed_error_msg_OF_VERSION_1_3"
  unfolding loci_validate_of_role_request_failed_error_msg_OF_VERSION_1_3_def by (intro x_intro; simp add: x_proved x_ok_imp_kx_ok)

definition loci_validate_of_switch_config_failed_error_msg_OF_VERSION_1_3 :: validator where
  "loci_validate_of_switch_config_failed_error_msg_OF_VERSION_1_3 =
     v_min 12 (v_wire_len_set 2 12 v_done)"

lemma loci_validate_of_switch_config_failed_error_msg_OF_VERSION_1_3_ok [v_proved]: "v_ok loci_validate_of_switch_config_failed_error_msg_OF_VERSION_1_3"
  unfolding loci_validate_of_switch_config_failed_error_msg_OF_VERSION_1_3_def by (intro v_intro; simp add: v_proved v_ok_imp_k_ok)

lemma loci_validate_of_switch_config_failed_error_msg_OF_VERSION_1_3_exact [x_proved]: "x_ok 2 loci_validate_of_switch_config_failed_error_msg_OF_VERSION_1_3"
  unfolding loci_validate_of_switch_config_failed_error_msg_OF_VERSION_1_3_def by (intro x_intro; simp add: x_proved x_ok_imp_kx_ok)

definition loci_validate_of_table_features_failed_error_msg_OF_VERSION_1_3 :: validator where
  "loci_validate_of_table_features_failed_error_msg_OF_VERSION_1_3 =
     v_min 12 (v_wire_len_set 2 12 v_done)"

lemma loci_validate_of_table_features_failed_error_msg_OF_VERSION_1_3_ok [v_proved]: "v_ok loci_validate_of_table_features_failed_error_msg_OF_VERSION_1_3"
  unfolding loci_validate_of_table_features_failed_error_msg_OF_VERSION_1_3_def by (intro v_intro; simp add: v_proved v_ok_imp_k_ok)

lemma loci_validate_of_table_features_failed_error_msg_OF_VERSION_1_3_exact [x_proved]: "x_ok 2 loci_validate_of_table_features_failed_error_msg_OF_VERSION_1_3"
  unfolding loci_validate_of_table_features_failed_error_msg_OF_VERSION_1_3_def by (intro x_intro; simp add: x_proved x_ok_imp_kx_ok)

definition loci_validate_of_table_mod_failed_error_msg_OF_VERSION_1_3 :: validator where
  "loci_validate_of_table_mod_failed_error_msg_OF_VERSION_1_3 =
     v_min 12 (v_wire_len_set 2 12 v_done)"

lemma loci_validate_of_table_mod_failed_error_msg_OF_VERSION_1_3_ok [v_proved]: "v_ok loci_validate_of_table_mod_failed_error_msg_OF_VERSION_1_3"
  unfolding loci_validate_of_table_mod_failed_error_msg_OF_VERSION_1_3_def by (intro v_intro; simp add: v_proved v_ok_imp_k_ok)

lemma loci_validate_of_table_mod_failed_error_msg_OF_VERSION_1_3_exact [x_proved]: "x_ok 2 loci_validate_of_table_mod_failed_error_msg_OF_VERSION_1_3"
  unfolding loci_validate_of_table_mod_failed_error_msg_OF_VERSION_1_3_def by (intro x_intro; simp add: x_proved x_ok_imp_kx_ok)

definition loci_validate_of_error_msg_OF_VERSION_1_3 :: validator where
  "loci_validate_of_error_msg_OF_VERSION_1_3 =
     v_min 10 (v_wire_len_set 2 10
     (v_switch16 8
      [(2, loci_validate_of_bad_action_error_msg_OF_VERSION_1_3),
       (3, loci_validate_of_bad_instruction_error_msg_OF_VERSION_1_3),
       (4, loci_validate_of_bad_match_error_msg_OF_VERSION_1_3),
       (1, loci_validate_of_bad_request_error_msg_OF_VERSION_1_3),
       (0xffff, loci_validate_of_experimenter_error_msg_OF_VERSION_1_3),
       (5, loci_validate_of_flow_mod_failed_error_msg_OF_VERSION_1_3),
       (6, loci_validate_of_group_mod_failed_error_msg_OF_VERSION_1_3),
       (0, loci_validate_of_hello_failed_error_msg_OF_VERSION_1_3),
       (0xc, loci_validate_of_meter_mod_failed_error_msg_OF_VERSION_1_3),
       (7, loci_validate_of_port_mod_failed_error_msg_OF_VERSION_1_3),
       (9, loci_validate_of_queue_op_failed_error_msg_OF_VERSION_1_3),
       (0xb, loci_validate_of_role_request_failed_error_msg_OF_VERSION_1_3),
       (0xa, loci_validate_of_switch_config_failed_error_msg_OF_VERSION_1_3),
       (0xd, loci_validate_of_table_features_failed_error_msg_OF_VERSION_1_3),
       (8, loci_validate_of_table_mod_failed_error_msg_OF_VERSION_1_3)]
     v_done))"

lemma loci_validate_of_error_msg_OF_VERSION_1_3_ok [v_proved]: "v_ok loci_validate_of_error_msg_OF_VERSION_1_3"
  unfolding loci_validate_of_error_msg_OF_VERSION_1_3_def by (intro v_intro; simp add: v_proved v_ok_imp_k_ok)

lemma loci_validate_of_error_msg_OF_VERSION_1_3_exact [x_proved]: "x_ok 2 loci_validate_of_error_msg_OF_VERSION_1_3"
  unfolding loci_validate_of_error_msg_OF_VERSION_1_3_def by (intro x_intro; simp add: x_proved x_ok_imp_kx_ok)

definition loci_validate_of_barrier_reply_OF_VERSION_1_3 :: validator where
  "loci_validate_of_barrier_reply_OF_VERSION_1_3 =
     v_min 8 (v_set_len 8 (v_wire_len 2 8 v_done))"

lemma loci_validate_of_barrier_reply_OF_VERSION_1_3_ok [v_proved]: "v_ok loci_validate_of_barrier_reply_OF_VERSION_1_3"
  unfolding loci_validate_of_barrier_reply_OF_VERSION_1_3_def by (intro v_intro; simp add: v_proved v_ok_imp_k_ok)

lemma loci_validate_of_barrier_reply_OF_VERSION_1_3_exact [x_proved]: "x_ok 2 loci_validate_of_barrier_reply_OF_VERSION_1_3"
  unfolding loci_validate_of_barrier_reply_OF_VERSION_1_3_def by (intro x_intro; simp add: x_proved x_ok_imp_kx_ok)

definition loci_validate_of_barrier_request_OF_VERSION_1_3 :: validator where
  "loci_validate_of_barrier_request_OF_VERSION_1_3 =
     v_min 8 (v_set_len 8 (v_wire_len 2 8 v_done))"

lemma loci_validate_of_barrier_request_OF_VERSION_1_3_ok [v_proved]: "v_ok loci_validate_of_barrier_request_OF_VERSION_1_3"
  unfolding loci_validate_of_barrier_request_OF_VERSION_1_3_def by (intro v_intro; simp add: v_proved v_ok_imp_k_ok)

lemma loci_validate_of_barrier_request_OF_VERSION_1_3_exact [x_proved]: "x_ok 2 loci_validate_of_barrier_request_OF_VERSION_1_3"
  unfolding loci_validate_of_barrier_request_OF_VERSION_1_3_def by (intro x_intro; simp add: x_proved x_ok_imp_kx_ok)

definition loci_validate_of_bsn_arp_idle_OF_VERSION_1_3 :: validator where
  "loci_validate_of_bsn_arp_idle_OF_VERSION_1_3 =
     v_min 24 (v_set_len 24 (v_wire_len 2 24 v_done))"

lemma loci_validate_of_bsn_arp_idle_OF_VERSION_1_3_ok [v_proved]: "v_ok loci_validate_of_bsn_arp_idle_OF_VERSION_1_3"
  unfolding loci_validate_of_bsn_arp_idle_OF_VERSION_1_3_def by (intro v_intro; simp add: v_proved v_ok_imp_k_ok)

lemma loci_validate_of_bsn_arp_idle_OF_VERSION_1_3_exact [x_proved]: "x_ok 2 loci_validate_of_bsn_arp_idle_OF_VERSION_1_3"
  unfolding loci_validate_of_bsn_arp_idle_OF_VERSION_1_3_def by (intro x_intro; simp add: x_proved x_ok_imp_kx_ok)

definition loci_validate_of_bsn_bw_clear_data_reply_OF_VERSION_1_3 :: validator where
  "loci_validate_of_bsn_bw_clear_data_reply_OF_VERSION_1_3 =
     v_min 20 (v_set_len 20 (v_wire_len 2 20 v_done))"

lemma loci_validate_of_bsn_bw_clear_data_reply_OF_VERSION_1_3_ok [v_proved]: "v_ok loci_validate_of_bsn_bw_clear_data_reply_OF_VERSION_1_3"
  unfolding loci_validate_of_bsn_bw_clear_data_reply_OF_VERSION_1_3_def by (intro v_intro; simp add: v_proved v_ok_imp_k_ok)

lemma loci_validate_of_bsn_bw_clear_data_reply_OF_VERSION_1_3_exact [x_proved]: "x_ok 2 loci_validate_of_bsn_bw_clear_data_reply_OF_VERSION_1_3"
  unfolding loci_validate_of_bsn_bw_clear_data_reply_OF_VERSION_1_3_def by (intro x_intro; simp add: x_proved x_ok_imp_kx_ok)

definition loci_validate_of_bsn_bw_clear_data_request_OF_VERSION_1_3 :: validator where
  "loci_validate_of_bsn_bw_clear_data_request_OF_VERSION_1_3 =
     v_min 16 (v_set_len 16 (v_wire_len 2 16 v_done))"

lemma loci_validate_of_bsn_bw_clear_data_request_OF_VERSION_1_3_ok [v_proved]: "v_ok loci_validate_of_bsn_bw_clear_data_request_OF_VERSION_1_3"
  unfolding loci_validate_of_bsn_bw_clear_data_request_OF_VERSION_1_3_def by (intro v_intro; simp add: v_proved v_ok_imp_k_ok)

lemma loci_validate_of_bsn_bw_clear_data_request_OF_VERSION_1_3_exact [x_proved]: "x_ok 2 loci_validate_of_bsn_bw_clear_data_request_OF_VERSION_1_3"
  unfolding loci_validate_of_bsn_bw_clear_data_request_OF_VERSION_1_3_def by (intro x_intro; simp add: x_proved x_ok_imp_kx_ok)

definition loci_validate_of_bsn_bw_enable_get_reply_OF_VERSION_1_3 :: validator where
  "loci_validate_of_bsn_bw_enable_get_reply_OF_VERSION_1_3 =
     v_min 20 (v_set_len 20 (v_wire_len 2 20 v_done))"

lemma loci_validate_of_bsn_bw_enable_get_reply_OF_VERSION_1_3_ok [v_proved]: "v_ok loci_validate_of_bsn_bw_enable_get_reply_OF_VERSION_1_3"
  unfolding loci_validate_of_bsn_bw_enable_get_reply_OF_VERSION_1_3_def by (intro v_intro; simp add: v_proved v_ok_imp_k_ok)

lemma loci_validate_of_bsn_bw_enable_get_reply_OF_VERSION_1_3_exact [x_proved]: "x_ok 2 loci_validate_of_bsn_bw_enable_get_reply_OF_VERSION_1_3"
  unfolding loci_validate_of_bsn_bw_enable_get_reply_OF_VERSION_1_3_def by (intro x_intro; simp add: x_proved x_ok_imp_kx_ok)

definition loci_validate_of_bsn_bw_enable_get_request_OF_VERSION_1_3 :: validator where
  "loci_validate_of_bsn_bw_enable_get_request_OF_VERSION_1_3 =
     v_min 16 (v_set_len 16 (v_wire_len 2 16 v_done))"

lemma loci_validate_of_bsn_bw_enable_get_request_OF_VERSION_1_3_ok [v_proved]: "v_ok loci_validate_of_bsn_bw_enable_get_request_OF_VERSION_1_3"
  unfolding loci_validate_of_bsn_bw_enable_get_request_OF_VERSION_1_3_def by (intro v_intro; simp add: v_proved v_ok_imp_k_ok)

lemma loci_validate_of_bsn_bw_enable_get_request_OF_VERSION_1_3_exact [x_proved]: "x_ok 2 loci_validate_of_bsn_bw_enable_get_request_OF_VERSION_1_3"
  unfolding loci_validate_of_bsn_bw_enable_get_request_OF_VERSION_1_3_def by (intro x_intro; simp add: x_proved x_ok_imp_kx_ok)

definition loci_validate_of_bsn_bw_enable_set_reply_OF_VERSION_1_3 :: validator where
  "loci_validate_of_bsn_bw_enable_set_reply_OF_VERSION_1_3 =
     v_min 24 (v_set_len 24 (v_wire_len 2 24 v_done))"

lemma loci_validate_of_bsn_bw_enable_set_reply_OF_VERSION_1_3_ok [v_proved]: "v_ok loci_validate_of_bsn_bw_enable_set_reply_OF_VERSION_1_3"
  unfolding loci_validate_of_bsn_bw_enable_set_reply_OF_VERSION_1_3_def by (intro v_intro; simp add: v_proved v_ok_imp_k_ok)

lemma loci_validate_of_bsn_bw_enable_set_reply_OF_VERSION_1_3_exact [x_proved]: "x_ok 2 loci_validate_of_bsn_bw_enable_set_reply_OF_VERSION_1_3"
  unfolding loci_validate_of_bsn_bw_enable_set_reply_OF_VERSION_1_3_def by (intro x_intro; simp add: x_proved x_ok_imp_kx_ok)

definition loci_validate_of_bsn_bw_enable_set_request_OF_VERSION_1_3 :: validator where
  "loci_validate_of_bsn_bw_enable_set_request_OF_VERSION_1_3 =
     v_min 20 (v_set_len 20 (v_wire_len 2 20 v_done))"

lemma loci_validate_of_bsn_bw_enable_set_request_OF_VERSION_1_3_ok [v_proved]: "v_ok loci_validate_of_bsn_bw_enable_set_request_OF_VERSION_1_3"
  unfolding loci_validate_of_bsn_bw_enable_set_request_OF_VERSION_1_3_def by (intro v_intro; simp add: v_proved v_ok_imp_k_ok)

lemma loci_validate_of_bsn_bw_enable_set_request_OF_VERSION_1_3_exact [x_proved]: "x_ok 2 loci_validate_of_bsn_bw_enable_set_request_OF_VERSION_1_3"
  unfolding loci_validate_of_bsn_bw_enable_set_request_OF_VERSION_1_3_def by (intro x_intro; simp add: x_proved x_ok_imp_kx_ok)

definition loci_validate_of_bsn_controller_connections_reply_OF_VERSION_1_3 :: validator where
  "loci_validate_of_bsn_controller_connections_reply_OF_VERSION_1_3 =
     v_min 16 (v_wire_len_set 2 16
     (v_list_rest 16 loci_validate_of_list_bsn_controller_connection_OF_VERSION_1_3 v_done))"

lemma loci_validate_of_bsn_controller_connections_reply_OF_VERSION_1_3_ok [v_proved]: "v_ok loci_validate_of_bsn_controller_connections_reply_OF_VERSION_1_3"
  unfolding loci_validate_of_bsn_controller_connections_reply_OF_VERSION_1_3_def by (intro v_intro; simp add: v_proved v_ok_imp_k_ok)

lemma loci_validate_of_bsn_controller_connections_reply_OF_VERSION_1_3_exact [x_proved]: "x_ok 2 loci_validate_of_bsn_controller_connections_reply_OF_VERSION_1_3"
  unfolding loci_validate_of_bsn_controller_connections_reply_OF_VERSION_1_3_def by (intro x_intro; simp add: x_proved x_ok_imp_kx_ok)

definition loci_validate_of_bsn_controller_connections_request_OF_VERSION_1_3 :: validator where
  "loci_validate_of_bsn_controller_connections_request_OF_VERSION_1_3 =
     v_min 16 (v_set_len 16 (v_wire_len 2 16 v_done))"

lemma loci_validate_of_bsn_controller_connections_request_OF_VERSION_1_3_ok [v_proved]: "v_ok loci_validate_of_bsn_controller_connections_request_OF_VERSION_1_3"
  unfolding loci_validate_of_bsn_controller_connections_request_OF_VERSION_1_3_def by (intro v_intro; simp add: v_proved v_ok_imp_k_ok)

lemma loci_validate_of_bsn_controller_connections_request_OF_VERSION_1_3_exact [x_proved]: "x_ok 2 loci_validate_of_bsn_controller_connections_request_OF_VERSION_1_3"
  unfolding loci_validate_of_bsn_controller_connections_request_OF_VERSION_1_3_def by (intro x_intro; simp add: x_proved x_ok_imp_kx_ok)

definition loci_validate_of_bsn_flow_idle_OF_VERSION_1_3 :: validator where
  "loci_validate_of_bsn_flow_idle_OF_VERSION_1_3 =
     v_min 40 (v_wire_len_set 2 40 v_done)"

lemma loci_validate_of_bsn_flow_idle_OF_VERSION_1_3_ok [v_proved]: "v_ok loci_validate_of_bsn_flow_idle_OF_VERSION_1_3"
  unfolding loci_validate_of_bsn_flow_idle_OF_VERSION_1_3_def by (intro v_intro; simp add: v_proved v_ok_imp_k_ok)

lemma loci_validate_of_bsn_flow_idle_OF_VERSION_1_3_exact [x_proved]: "x_ok 2 loci_validate_of_bsn_flow_idle_OF_VERSION_1_3"
  unfolding loci_validate_of_bsn_flow_idle_OF_VERSION_1_3_def by (intro x_intro; simp add: x_proved x_ok_imp_kx_ok)

definition loci_validate_of_bsn_flow_idle_enable_get_reply_OF_VERSION_1_3 :: validator where
  "loci_validate_of_bsn_flow_idle_enable_get_reply_OF_VERSION_1_3 =
     v_min 20 (v_set_len 20 (v_wire_len 2 20 v_done))"

lemma loci_validate_of_bsn_flow_idle_enable_get_reply_OF_VERSION_1_3_ok [v_proved]: "v_ok loci_validate_of_bsn_flow_idle_enable_get_reply_OF_VERSION_1_3"
  unfolding loci_validate_of_bsn_flow_idle_enable_get_reply_OF_VERSION_1_3_def by (intro v_intro; simp add: v_proved v_ok_imp_k_ok)

lemma loci_validate_of_bsn_flow_idle_enable_get_reply_OF_VERSION_1_3_exact [x_proved]: "x_ok 2 loci_validate_of_bsn_flow_idle_enable_get_reply_OF_VERSION_1_3"
  unfolding loci_validate_of_bsn_flow_idle_enable_get_reply_OF_VERSION_1_3_def by (intro x_intro; simp add: x_proved x_ok_imp_kx_ok)

definition loci_validate_of_bsn_flow_idle_enable_get_request_OF_VERSION_1_3 :: validator where
  "loci_validate_of_bsn_flow_idle_enable_get_request_OF_VERSION_1_3 =
     v_min 16 (v_set_len 16 (v_wire_len 2 16 v_done))"

lemma loci_validate_of_bsn_flow_idle_enable_get_request_OF_VERSION_1_3_ok [v_proved]: "v_ok loci_validate_of_bsn_flow_idle_enable_get_request_OF_VERSION_1_3"
  unfolding loci_validate_of_bsn_flow_idle_enable_get_request_OF_VERSION_1_3_def by (intro v_intro; simp add: v_proved v_ok_imp_k_ok)

lemma loci_validate_of_bsn_flow_idle_enable_get_request_OF_VERSION_1_3_exact [x_proved]: "x_ok 2 loci_validate_of_bsn_flow_idle_enable_get_request_OF_VERSION_1_3"
  unfolding loci_validate_of_bsn_flow_idle_enable_get_request_OF_VERSION_1_3_def by (intro x_intro; simp add: x_proved x_ok_imp_kx_ok)

definition loci_validate_of_bsn_flow_idle_enable_set_reply_OF_VERSION_1_3 :: validator where
  "loci_validate_of_bsn_flow_idle_enable_set_reply_OF_VERSION_1_3 =
     v_min 24 (v_set_len 24 (v_wire_len 2 24 v_done))"

lemma loci_validate_of_bsn_flow_idle_enable_set_reply_OF_VERSION_1_3_ok [v_proved]: "v_ok loci_validate_of_bsn_flow_idle_enable_set_reply_OF_VERSION_1_3"
  unfolding loci_validate_of_bsn_flow_idle_enable_set_reply_OF_VERSION_1_3_def by (intro v_intro; simp add: v_proved v_ok_imp_k_ok)

lemma loci_validate_of_bsn_flow_idle_enable_set_reply_OF_VERSION_1_3_exact [x_proved]: "x_ok 2 loci_validate_of_bsn_flow_idle_enable_set_reply_OF_VERSION_1_3"
  unfolding loci_validate_of_bsn_flow_idle_enable_set_reply_OF_VERSION_1_3_def by (intro x_intro; simp add: x_proved x_ok_imp_kx_ok)

definition loci_validate_of_bsn_flow_idle_enable_set_request_OF_VERSION_1_3 :: validator where
  "loci_validate_of_bsn_flow_idle_enable_set_request_OF_VERSION_1_3 =
     v_min 20 (v_set_len 20 (v_wire_len 2 20 v_done))"

lemma loci_validate_of_bsn_flow_idle_enable_set_request_OF_VERSION_1_3_ok [v_proved]: "v_ok loci_validate_of_bsn_flow_idle_enable_set_request_OF_VERSION_1_3"
  unfolding loci_validate_of_bsn_flow_idle_enable_set_request_OF_VERSION_1_3_def by (intro v_intro; simp add: v_proved v_ok_imp_k_ok)

lemma loci_validate_of_bsn_flow_idle_enable_set_request_OF_VERSION_1_3_exact [x_proved]: "x_ok 2 loci_validate_of_bsn_flow_idle_enable_set_request_OF_VERSION_1_3"
  unfolding loci_validate_of_bsn_flow_idle_enable_set_request_OF_VERSION_1_3_def by (intro x_intro; simp add: x_proved x_ok_imp_kx_ok)

definition loci_validate_of_bsn_gentable_clear_reply_OF_VERSION_1_3 :: validator where
  "loci_validate_of_bsn_gentable_clear_reply_OF_VERSION_1_3 =
     v_min 28 (v_set_len 28 (v_wire_len 2 28 v_done))"

lemma loci_validate_of_bsn_gentable_clear_reply_OF_VERSION_1_3_ok [v_proved]: "v_ok loci_validate_of_bsn_gentable_clear_reply_OF_VERSION_1_3"
  unfolding loci_validate_of_bsn_gentable_clear_reply_OF_VERSION_1_3_def by (intro v_intro; simp add: v_proved v_ok_imp_k_ok)

lemma loci_validate_of_bsn_gentable_clear_reply_OF_VERSION_1_3_exact [x_proved]: "x_ok 2 loci_validate_of_bsn_gentable_clear_reply_OF_VERSION_1_3"
  unfolding loci_validate_of_bsn_gentable_clear_reply_OF_VERSION_1_3_def by (intro x_intro; simp add: x_proved x_ok_imp_kx_ok)

definition loci_validate_of_bsn_gentable_clear_request_OF_VERSION_1_3 :: validator where
  "loci_validate_of_bsn_gentable_clear_request_OF_VERSION_1_3 =
     v_min 52 (v_set_len 52 (v_wire_len 2 52 v_done))"

lemma loci_validate_of_bsn_gentable_clear_request_OF_VERSION_1_3_ok [v_proved]: "v_ok loci_validate_of_bsn_gentable_clear_request_OF_VERSION_1_3"
  unfolding loci_validate_of_bsn_gentable_clear_request_OF_VERSION_1_3_def by (intro v_intro; simp add: v_proved v_ok_imp_k_ok)

lemma loci_validate_of_bsn_gentable_clear_request_OF_VERSION_1_3_exact [x_proved]: "x_ok 2 loci_validate_of_bsn_gentable_clear_request_OF_VERSION_1_3"
  unfolding loci_validate_of_bsn_gentable_clear_request_OF_VERSION_1_3_def by (intro x_intro; simp add: x_proved x_ok_imp_kx_ok)

definition loci_validate_of_bsn_gentable_entry_add_OF_VERSION_1_3 :: validator where
  "loci_validate_of_bsn_gentable_entry_add_OF_VERSION_1_3 =
     v_min 36 (v_wire_len_set 2 36
     (v_list_len16 18 36 loci_validate_of_list_bsn_tlv_OF_VERSION_1_3 v_done))"

lemma loci_validate_of_bsn_gentable_entry_add_OF_VERSION_1_3_ok [v_proved]: "v_ok loci_validate_of_bsn_gentable_entry_add_OF_VERSION_1_3"
  unfolding loci_validate_of_bsn_gentable_entry_add_OF_VERSION_1_3_def by (intro v_intro; simp add: v_proved v_ok_imp_k_ok)

lemma loci_validate_of_bsn_gentable_entry_add_OF_VERSION_1_3_exact [x_proved]: "x_ok 2 loci_validate_of_bsn_gentable_entry_add_OF_VERSION_1_3"
  unfolding loci_validate_of_bsn_gentable_entry_add_OF_VERSION_1_3_def by (intro x_intro; simp add: x_proved x_ok_imp_kx_ok)

definition loci_validate_of_bsn_gentable_entry_delete_OF_VERSION_1_3 :: validator where
  "loci_validate_of_bsn_gentable_entry_delete_OF_VERSION_1_3 =
     v_min 18 (v_wire_len_set 2 18
     (v_list_rest 18 loci_validate_of_list_bsn_tlv_OF_VERSION_1_3 v_done))"

lemma loci_validate_of_bsn_gentable_entry_delete_OF_VERSION_1_3_ok [v_proved]: "v_ok loci_validate_of_bsn_gentable_entry_delete_OF_VERSION_1_3"
  unfolding loci_validate_of_bsn_gentable_entry_delete_OF_VERSION_1_3_def by (intro v_intro; simp add: v_proved v_ok_imp_k_ok)

lemma loci_validate_of_bsn_gentable_entry_delete_OF_VERSION_1_3_exact [x_proved]: "x_ok 2 loci_validate_of_bsn_gentable_entry_delete_OF_VERSION_1_3"
  unfolding loci_validate_of_bsn_gentable_entry_delete_OF_VERSION_1_3_def by (intro x_intro; simp add: x_proved x_ok_imp_kx_ok)

definition loci_validate_of_bsn_gentable_set_buckets_size_OF_VERSION_1_3 :: validator where
  "loci_validate_of_bsn_gentable_set_buckets_size_OF_VERSION_1_3 =
     v_min 24 (v_set_len 24 (v_wire_len 2 24 v_done))"

lemma loci_validate_of_bsn_gentable_set_buckets_size_OF_VERSION_1_3_ok [v_proved]: "v_ok loci_validate_of_bsn_gentable_set_buckets_size_OF_VERSION_1_3"
  unfolding loci_validate_of_bsn_gentable_set_buckets_size_OF_VERSION_1_3_def by (intro v_intro; simp add: v_proved v_ok_imp_k_ok)

lemma loci_validate_of_bsn_gentable_set_buckets_size_OF_VERSION_1_3_exact [x_proved]: "x_ok 2 loci_validate_of_bsn_gentable_set_buckets_size_OF_VERSION_1_3"
  unfolding loci_validate_of_bsn_gentable_set_buckets_size_OF_VERSION_1_3_def by (intro x_intro; simp add: x_proved x_ok_imp_kx_ok)

definition loci_validate_of_bsn_get_interfaces_reply_OF_VERSION_1_3 :: validator where
  "loci_validate_of_bsn_get_interfaces_reply_OF_VERSION_1_3 =
     v_min 16 (v_wire_len_set 2 16
     (v_list_rest 16 loci_validate_of_list_bsn_interface_OF_VERSION_1_3 v_done))"

lemma loci_validate_of_bsn_get_interfaces_reply_OF_VERSION_1_3_ok [v_proved]: "v_ok loci_validate_of_bsn_get_interfaces_reply_OF_VERSION_1_3"
  unfolding loci_validate_of_bsn_get_interfaces_reply_OF_VERSION_1_3_def by (intro v_intro; simp add: v_proved v_ok_imp_k_ok)

lemma loci_validate_of_bsn_get_interfaces_reply_OF_VERSION_1_3_exact [x_proved]: "x_ok 2 loci_validate_of_bsn_get_interfaces_reply_OF_VERSION_1_3"
  unfolding loci_validate_of_bsn_get_interfaces_reply_OF_VERSION_1_3_def by (intro x_intro; simp add: x_proved x_ok_imp_kx_ok)

definition loci_validate_of_bsn_get_interfaces_request_OF_VERSION_1_3 :: validator where
  "loci_validate_of_bsn_get_interfaces_request_OF_VERSION_1_3 =
     v_min 16 (v_set_len 16 (v_wire_len 2 16 v_done))"

lemma loci_validate_of_bsn_get_interfaces_request_OF_VERSION_1_3_ok [v_proved]: "v_ok loci_validate_of_bsn_get_interfaces_request_OF_VERSION_1_3"
  unfolding loci_validate_of_bsn_get_interfaces_request_OF_VERSION_1_3_def by (intro v_intro; simp add: v_proved v_ok_imp_k_ok)

lemma loci_validate_of_bsn_get_interfaces_request_OF_VERSION_1_3_exact [x_proved]: "x_ok 2 loci_validate_of_bsn_get_interfaces_request_OF_VERSION_1_3"
  unfolding loci_validate_of_bsn_get_interfaces_request_OF_VERSION_1_3_def by (intro x_intro; simp add: x_proved x_ok_imp_kx_ok)

definition loci_validate_of_bsn_get_mirroring_reply_OF_VERSION_1_3 :: validator where
  "loci_validate_of_bsn_get_mirroring_reply_OF_VERSION_1_3 =
     v_min 20 (v_set_len 20 (v_wire_len 2 20 v_done))"

lemma loci_validate_of_bsn_get_mirroring_reply_OF_VERSION_1_3_ok [v_proved]: "v_ok loci_validate_of_bsn_get_mirroring_reply_OF_VERSION_1_3"
  unfolding loci_validate_of_bsn_get_mirroring_reply_OF_VERSION_1_3_def by (intro v_intro; simp add: v_proved v_ok_imp_k_ok)

lemma loci_validate_of_bsn_get_mirroring_reply_OF_VERSION_1_3_exact [x_proved]: "x_ok 2 loci_validate_of_bsn_get_mirroring_reply_OF_VERSION_1_3"
  unfolding loci_validate_of_bsn_get_mirroring_reply_OF_VERSION_1_3_def by (intro x_intro; simp add: x_proved x_ok_imp_kx_ok)

definition loci_validate_of_bsn_get_mirroring_request_OF_VERSION_1_3 :: validator where
  "loci_validate_of_bsn_get_mirroring_request_OF_VERSION_1_3 =
     v_min 20 (v_set_len 20 (v_wire_len 2 20 v_done))"

lemma loci_validate_of_bsn_get_mirroring_request_OF_VERSION_1_3_ok [v_proved]: "v_ok loci_validate_of_bsn_get_mirroring_request_OF_VERSION_1_3"
  unfolding loci_validate_of_bsn_get_mirroring_request_OF_VERSION_1_3_def by (intro v_intro; simp add: v_proved v_ok_imp_k_ok)

lemma loci_validate_of_bsn_get_mirroring_request_OF_VERSION_1_3_exact [x_proved]: "x_ok 2 loci_validate_of_bsn_get_mirroring_request_OF_VERSION_1_3"
  unfolding loci_validate_of_bsn_get_mirroring_request_OF_VERSION_1_3_def by (intro x_intro; simp add: x_proved x_ok_imp_kx_ok)

definition loci_validate_of_bsn_get_switch_pipeline_reply_OF_VERSION_1_3 :: validator where
  "loci_validate_of_bsn_get_switch_pipeline_reply_OF_VERSION_1_3 =
     v_min 272 (v_set_len 272 (v_wire_len 2 272 v_done))"

lemma loci_validate_of_bsn_get_switch_pipeline_reply_OF_VERSION_1_3_ok [v_proved]: "v_ok loci_validate_of_bsn_get_switch_pipeline_reply_OF_VERSION_1_3"
  unfolding loci_validate_of_bsn_get_switch_pipeline_reply_OF_VERSION_1_3_def by (intro v_intro; simp add: v_proved v_ok_imp_k_ok)

lemma loci_validate_of_bsn_get_switch_pipeline_reply_OF_VERSION_1_3_exact [x_proved]: "x_ok 2 loci_validate_of_bsn_get_switch_pipeline_reply_OF_VERSION_1_3"
  unfolding loci_validate_of_bsn_get_switch_pipeline_reply_OF_VERSION_1_3_def by (intro x_intro; simp add: x_proved x_ok_imp_kx_ok)

definition loci_validate_of_bsn_get_switch_pipeline_request_OF_VERSION_1_3 :: validator where
  "loci_validate_of_bsn_get_switch_pipeline_request_OF_VERSION_1_3 =
     v_min 16 (v_set_len 16 (v_wire_len 2 16 v_done))"

lemma loci_validate_of_bsn_get_switch_pipeline_request_OF_VERSION_1_3_ok [v_proved]: "v_ok loci_validate_of_bsn_get_switch_pipeline_request_OF_VERSION_1_3"
  unfolding loci_validate_of_bsn_get_switch_pipeline_request_OF_VERSION_1_3_def by (intro v_intro; simp add: v_proved v_ok_imp_k_ok)

lemma loci_validate_of_bsn_get_switch_pipeline_request_OF_VERSION_1_3_exact [x_proved]: "x_ok 2 loci_validate_of_bsn_get_switch_pipeline_request_OF_VERSION_1_3"
  unfolding loci_validate_of_bsn_get_switch_pipeline_request_OF_VERSION_1_3_def by (intro x_intro; simp add: x_proved x_ok_imp_kx_ok)

definition loci_validate_of_bsn_lacp_convergence_notif_OF_VERSION_1_3 :: validator where
  "loci_validate_of_bsn_lacp_convergence_notif_OF_VERSION_1_3 =
     v_min 52 (v_set_len 52 (v_wire_len 2 52 v_done))"

lemma loci_validate_of_bsn_lacp_convergence_notif_OF_VERSION_1_3_ok [v_proved]: "v_ok loci_validate_of_bsn_lacp_convergence_notif_OF_VERSION_1_3"
  unfolding loci_validate_of_bsn_lacp_convergence_notif_OF_VERSION_1_3_def by (intro v_intro; simp add: v_proved v_ok_imp_k_ok)

lemma loci_validate_of_bsn_lacp_convergence_notif_OF_VERSION_1_3_exact [x_proved]: "x_ok 2 loci_validate_of_bsn_lacp_convergence_notif_OF_VERSION_1_3"
  unfolding loci_validate_of_bsn_lacp_convergence_notif_OF_VERSION_1_3_def by (intro x_intro; simp add: x_proved x_ok_imp_kx_ok)

definition loci_validate_of_bsn_log_OF_VERSION_1_3 :: validator where
  "loci_validate_of_bsn_log_OF_VERSION_1_3 =
     v_min 17 (v_wire_len_set 2 17 v_done)"

lemma loci_validate_of_bsn_log_OF_VERSION_1_3_ok [v_proved]: "v_ok loci_validate_of_bsn_log_OF_VERSION_1_3"
  unfolding loci_validate_of_bsn_log_OF_VERSION_1_3_def by (intro v_intro; simp add: v_proved v_ok_imp_k_ok)

lemma loci_validate_of_bsn_log_OF_VERSION_1_3_exact [x_proved]: "x_ok 2 loci_validate_of_bsn_log_OF_VERSION_1_3"
  unfolding loci_validate_of_bsn_log_OF_VERSION_1_3_def by (intro x_intro; simp add: x_proved x_ok_imp_kx_ok)

definition loci_validate_of_bsn_lua_command_reply_OF_VERSION_1_3 :: validator where
  "loci_validate_of_bsn_lua_command_reply_OF_VERSION_1_3 =
     v_min 16 (v_wire_len_set 2 16 v_done)"

lemma loci_validate_of_bsn_lua_command_reply_OF_VERSION_1_3_ok [v_proved]: "v_ok loci_validate_of_bsn_lua_command_reply_OF_VERSION_1_3"
  unfolding loci_validate_of_bsn_lua_command_reply_OF_VERSION_1_3_def by (intro v_intro; simp add: v_proved v_ok_imp_k_ok)

lemma loci_validate_of_bsn_lua_command_reply_OF_VERSION_1_3_exact [x_proved]: "x_ok 2 loci_validate_of_bsn_lua_command_reply_OF_VERSION_1_3"
  unfolding loci_validate_of_bsn_lua_command_reply_OF_VERSION_1_3_def by (intro x_intro; simp add: x_proved x_ok_imp_kx_ok)

definition loci_validate_of_bsn_lua_command_request_OF_VERSION_1_3 :: validator where
  "loci_validate_of_bsn_lua_command_request_OF_VERSION_1_3 =
     v_min 16 (v_wire_len_set 2 16 v_done)"

lemma loci_validate_of_bsn_lua_command_request_OF_VERSION_1_3_ok [v_proved]: "v_ok loci_validate_of_bsn_lua_command_request_OF_VERSION_1_3"
  unfolding loci_validate_of_bsn_lua_command_request_OF_VERSION_1_3_def by (intro v_intro; simp add: v_proved v_ok_imp_k_ok)

lemma loci_validate_of_bsn_lua_command_request_OF_VERSION_1_3_exact [x_proved]: "x_ok 2 loci_validate_of_bsn_lua_command_request_OF_VERSION_1_3"
  unfolding loci_validate_of_bsn_lua_command_request_OF_VERSION_1_3_def by (intro x_intro; simp add: x_proved x_ok_imp_kx_ok)

definition loci_validate_of_bsn_lua_notification_OF_VERSION_1_3 :: validator where
  "loci_validate_of_bsn_lua_notification_OF_VERSION_1_3 =
     v_min 16 (v_wire_len_set 2 16 v_done)"

lemma loci_validate_of_bsn_lua_notification_OF_VERSION_1_3_ok [v_proved]: "v_ok loci_validate_of_bsn_lua_notification_OF_VERSION_1_3"
  unfolding loci_validate_of_bsn_lua_notification_OF_VERSION_1_3_def by (intro v_intro; simp add: v_proved v_ok_imp_k_ok)

lemma loci_validate_of_bsn_lua_notification_OF_VERSION_1_3_exact [x_proved]: "x_ok 2 loci_validate_of_bsn_lua_notification_OF_VERSION_1_3"
  unfolding loci_validate_of_bsn_lua_notification_OF_VERSION_1_3_def by (intro x_intro; simp add: x_proved x_ok_imp_kx_ok)

definition loci_validate_of_bsn_lua_upload_OF_VERSION_1_3 :: validator where
  "loci_validate_of_bsn_lua_upload_OF_VERSION_1_3 =
     v_min 82 (v_wire_len_set 2 82 v_done)"

lemma loci_validate_of_bsn_lua_upload_OF_VERSION_1_3_ok [v_proved]: "v_ok loci_validate_of_bsn_lua_upload_OF_VERSION_1_3"
  unfolding loci_validate_of_bsn_lua_upload_OF_VERSION_1_3_def by (intro v_intro; simp add: v_proved v_ok_imp_k_ok)

lemma loci_validate_of_bsn_lua_upload_OF_VERSION_1_3_exact [x_proved]: "x_ok 2 loci_validate_of_bsn_lua_upload_OF_VERSION_1_3"
  unfolding loci_validate_of_bsn_lua_upload_OF_VERSION_1_3_def by (intro x_intro; simp add: x_proved x_ok_imp_kx_ok)

definition loci_validate_of_bsn_pdu_rx_reply_OF_VERSION_1_3 :: validator where
  "loci_validate_of_bsn_pdu_rx_reply_OF_VERSION_1_3 =
     v_min 25 (v_set_len 25 (v_wire_len 2 25 v_done))"

lemma loci_validate_of_bsn_pdu_rx_reply_OF_VERSION_1_3_ok [v_proved]: "v_ok loci_validate_of_bsn_pdu_rx_reply_OF_VERSION_1_3"
  unfolding loci_validate_of_bsn_pdu_rx_reply_OF_VERSION_1_3_def by (intro v_intro; simp add: v_proved v_ok_imp_k_ok)

lemma loci_validate_of_bsn_pdu_rx_reply_OF_VERSION_1_3_exact [x_proved]: "x_ok 2 loci_validate_of_bsn_pdu_rx_reply_OF_VERSION_1_3"
  unfolding loci_validate_of_bsn_pdu_rx_reply_OF_VERSION_1_3_def by (intro x_intro; simp add: x_proved x_ok_imp_kx_ok)

definition loci_validate_of_bsn_pdu_rx_request_OF_VERSION_1_3 :: validator where
  "loci_validate_of_bsn_pdu_rx_request_OF_VERSION_1_3 =
     v_min 28 (v_wire_len_set 2 28 v_done)"

lemma loci_validate_of_bsn_pdu_rx_request_OF_VERSION_1_3_ok [v_proved]: "v_ok loci_validate_of_bsn_pdu_rx_request_OF_VERSION_1_3"
  unfolding loci_validate_of_bsn_pdu_rx_request_OF_VERSION_1_3_def by (intro v_intro; simp add: v_proved v_ok_imp_k_ok)

lemma loci_validate_of_bsn_pdu_rx_request_OF_VERSION_1_3_exact [x_proved]: "x_ok 2 loci_validate_of_bsn_pdu_rx_request_OF_VERSION_1_3"
  unfolding loci_validate_of_bsn_pdu_rx_request_OF_VERSION_1_3_def by (intro x_intro; simp add: x_proved x_ok_imp_kx_ok)

definition loci_validate_of_bsn_pdu_rx_timeout_OF_VERSION_1_3 :: validator where
  "loci_validate_of_bsn_pdu_rx_timeout_OF_VERSION_1_3 =
     v_min 21 (v_set_len 21 (v_wire_len 2 21 v_done))"

lemma loci_validate_of_bsn_pdu_rx_timeout_OF_VERSION_1_3_ok [v_proved]: "v_ok loci_validate_of_bsn_pdu_rx_timeout_OF_VERSION_1_3"
  unfolding loci_validate_of_bsn_pdu_rx_timeout_OF_VERSION_1_3_def by (intro v_intro; simp add: v_proved v_ok_imp_k_ok)

lemma loci_validate_of_bsn_pdu_rx_timeout_OF_VERSION_1_3_exact [x_proved]: "x_ok 2 loci_validate_of_bsn_pdu_rx_timeout_OF_VERSION_1_3"
  unfolding loci_validate_of_bsn_pdu_rx_timeout_OF_VERSION_1_3_def by (intro x_intro; simp add: x_proved x_ok_imp_kx_ok)

definition loci_validate_of_bsn_pdu_tx_reply_OF_VERSION_1_3 :: validator where
  "loci_validate_of_bsn_pdu_tx_reply_OF_VERSION_1_3 =
     v_min 25 (v_set_len 25 (v_wire_len 2 25 v_done))"

lemma loci_validate_of_bsn_pdu_tx_reply_OF_VERSION_1_3_ok [v_proved]: "v_ok loci_validate_of_bsn_pdu_tx_reply_OF_VERSION_1_3"
  unfolding loci_validate_of_bsn_pdu_tx_reply_OF_VERSION_1_3_def by (intro v_intro; simp add: v_proved v_ok_imp_k_ok)

lemma loci_validate_of_bsn_pdu_tx_reply_OF_VERSION_1_3_exact [x_proved]: "x_ok 2 loci_validate_of_bsn_pdu_tx_reply_OF_VERSION_1_3"
  unfolding loci_validate_of_bsn_pdu_tx_reply_OF_VERSION_1_3_def by (intro x_intro; simp add: x_proved x_ok_imp_kx_ok)

definition loci_validate_of_bsn_pdu_tx_request_OF_VERSION_1_3 :: validator where
  "loci_validate_of_bsn_pdu_tx_request_OF_VERSION_1_3 =
     v_min 28 (v_wire_len_set 2 28 v_done)"

lemma loci_validate_of_bsn_pdu_tx_request_OF_VERSION_1_3_ok [v_proved]: "v_ok loci_validate_of_bsn_pdu_tx_request_OF_VERSION_1_3"
  unfolding loci_validate_of_bsn_pdu_tx_request_OF_VERSION_1_3_def by (intro v_intro; simp add: v_proved v_ok_imp_k_ok)

lemma loci_validate_of_bsn_pdu_tx_request_OF_VERSION_1_3_exact [x_proved]: "x_ok 2 loci_validate_of_bsn_pdu_tx_request_OF_VERSION_1_3"
  unfolding loci_validate_of_bsn_pdu_tx_request_OF_VERSION_1_3_def by (intro x_intro; simp add: x_proved x_ok_imp_kx_ok)

definition loci_validate_of_bsn_role_status_OF_VERSION_1_3 :: validator where
  "loci_validate_of_bsn_role_status_OF_VERSION_1_3 =
     v_min 32 (v_set_len 32 (v_wire_len 2 32 v_done))"

lemma loci_validate_of_bsn_role_status_OF_VERSION_1_3_ok [v_proved]: "v_ok loci_validate_of_bsn_role_status_OF_VERSION_1_3"
  unfolding loci_validate_of_bsn_role_status_OF_VERSION_1_3_def by (intro v_intro; simp add: v_proved v_ok_imp_k_ok)

lemma loci_validate_of_bsn_role_status_OF_VERSION_1_3_exact [x_proved]: "x_ok 2 loci_validate_of_bsn_role_status_OF_VERSION_1_3"
  unfolding loci_validate_of_bsn_role_status_OF_VERSION_1_3_def by (intro x_intro; simp add: x_proved x_ok_imp_kx_ok)

definition loci_validate_of_bsn_set_aux_cxns_reply_OF_VERSION_1_3 :: validator where
  "loci_validate_of_bsn_set_aux_cxns_reply_OF_VERSION_1_3 =
     v_min 24 (v_set_len 24 (v_wire_len 2 24 v_done))"

lemma loci_validate_of_bsn_set_aux_cxns_reply_OF_VERSION_1_3_ok [v_proved]: "v_ok loci_validate_of_bsn_set_aux_cxns_reply_OF_VERSION_1_3"
  unfolding loci_validate_of_bsn_set_aux_cxns_reply_OF_VERSION_1_3_def by (intro v_intro; simp add: v_proved v_ok_imp_k_ok)

lemma loci_validate_of_bsn_set_aux_cxns_reply_OF_VERSION_1_3_exact [x_proved]: "x_ok 2 loci_validate_of_bsn_set_aux_cxns_reply_OF_VERSION_1_3"
  unfolding loci_validate_of_bsn_set_aux_cxns_reply_OF_VERSION_1_3_def by (intro x_intro; simp add: x_proved x_ok_imp_kx_ok)

definition loci_validate_of_bsn_set_aux_cxns_request_OF_VERSION_1_3 :: validator where
  "loci_validate_of_bsn_set_aux_cxns_request_OF_VERSION_1_3 =
     v_min 20 (v_set_len 20 (v_wire_len 2 20 v_done))"

lemma loci_validate_of_bsn_set_aux_cxns_request_OF_VERSION_1_3_ok [v_proved]: "v_ok loci_validate_of_bsn_set_aux_cxns_request_OF_VERSION_1_3"
  unfolding loci_validate_of_bsn_set_aux_cxns_request_OF_VERSION_1_3_def by (intro v_intro; simp add: v_proved v_ok_imp_k_ok)

lemma loci_validate_of_bsn_set_aux_cxns_request_OF_VERSION_1_3_exact [x_proved]: "x_ok 2 loci_validate_of_bsn_set_aux_cxns_request_OF_VERSION_1_3"
  unfolding loci_validate_of_bsn_set_aux_cxns_request_OF_VERSION_1_3_def by (intro x_intro; simp add: x_proved x_ok_imp_kx_ok)

definition loci_validate_of_bsn_set_lacp_reply_OF_VERSION_1_3 :: validator where
  "loci_validate_of_bsn_set_lacp_reply_OF_VERSION_1_3 =
     v_min 24 (v_set_len 24 (v_wire_len 2 24 v_done))"

lemma loci_validate_of_bsn_set_lacp_reply_OF_VERSION_1_3_ok [v_proved]: "v_ok loci_validate_of_bsn_set_lacp_reply_OF_VERSION_1_3"
  unfolding loci_validate_of_bsn_set_lacp_reply_OF_VERSION_1_3_def by (intro v_intro; simp add: v_proved v_ok_imp_k_ok)

lemma loci_validate_of_bsn_set_lacp_reply_OF_VERSION_1_3_exact [x_proved]: "x_ok 2 loci_validate_of_bsn_set_lacp_reply_OF_VERSION_1_3"
  unfolding loci_validate_of_bsn_set_lacp_reply_OF_VERSION_1_3_def by (intro x_intro; simp add: x_proved x_ok_imp_kx_ok)

definition loci_validate_of_bsn_set_lacp_request_OF_VERSION_1_3 :: validator where
  "loci_validate_of_bsn_set_lacp_request_OF_VERSION_1_3 =
     v_min 38 (v_set_len 38 (v_wire_len 2 38 v_done))"

lemma loci_validate_of_bsn_set_lacp_request_OF_VERSION_1_3_ok [v_proved]: "v_ok loci_validate_of_bsn_set_lacp_request_OF_VERSION_1_3"
  unfolding loci_validate_of_bsn_set_lacp_request_OF_VERSION_1_3_def by (intro v_intro; simp add: v_proved v_ok_imp_k_ok)

lemma loci_validate_of_bsn_set_lacp_request_OF_VERSION_1_3_exact [x_proved]: "x_ok 2 loci_validate_of_bsn_set_lacp_request_OF_VERSION_1_3"
  unfolding loci_validate_of_bsn_set_lacp_request_OF_VERSION_1_3_def by (intro x_intro; simp add: x_proved x_ok_imp_kx_ok)

definition loci_validate_of_bsn_set_mirroring_OF_VERSION_1_3 :: validator where
  "loci_validate_of_bsn_set_mirroring_OF_VERSION_1_3 =
     v_min 20 (v_set_len 20 (v_wire_len 2 20 v_done))"

lemma loci_validate_of_bsn_set_mirroring_OF_VERSION_1_3_ok [v_proved]: "v_ok loci_validate_of_bsn_set_mirroring_OF_VERSION_1_3"
  unfolding loci_validate_of_bsn_set_mirroring_OF_VERSION_1_3_def by (intro v_intro; simp add: v_proved v_ok_imp_k_ok)

lemma loci_validate_of_bsn_set_mirroring_OF_VERSION_1_3_exact [x_proved]: "x_ok 2 loci_validate_of_bsn_set_mirroring_OF_VERSION_1_3"
  unfolding loci_validate_of_bsn_set_mirroring_OF_VERSION_1_3_def by (intro x_intro; simp add: x_proved x_ok_imp_kx_ok)

definition loci_validate_of_bsn_set_pktin_suppression_reply_OF_VERSION_1_3 :: validator where
  "loci_validate_of_bsn_set_pktin_suppression_reply_OF_VERSION_1_3 =
     v_min 20 (v_set_len 20 (v_wire_len 2 20 v_done))"

lemma loci_validate_of_bsn_set_pktin_suppression_reply_OF_VERSION_1_3_ok [v_proved]: "v_ok loci_validate_of_bsn_set_pktin_suppression_reply_OF_VERSION_1_3"
  unfolding loci_validate_of_bsn_set_pktin_suppression_reply_OF_VERSION_1_3_def by (intro v_intro; simp add: v_proved v_ok_imp_k_ok)

lemma loci_validate_of_bsn_set_pktin_suppression_reply_OF_VERSION_1_3_exact [x_proved]: "x_ok 2 loci_validate_of_bsn_set_pktin_suppression_reply_OF_VERSION_1_3"
  unfolding loci_validate_of_bsn_set_pktin_suppression_reply_OF_VERSION_1_3_def by (intro x_intro; simp add: x_proved x_ok_imp_kx_ok)

definition loci_validate_of_bsn_set_pktin_suppression_request_OF_VERSION_1_3 :: validator where
  "loci_validate_of_bsn_set_pktin_suppression_request_OF_VERSION_1_3 =
     v_min 32 (v_set_len 32 (v_wire_len 2 32 v_done))"

lemma loci_validate_of_bsn_set_pktin_suppression_request_OF_VERSION_1_3_ok [v_proved]: "v_ok loci_validate_of_bsn_set_pktin_suppression_request_OF_VERSION_1_3"
  unfolding loci_validate_of_bsn_set_pktin_suppression_request_OF_VERSION_1_3_def by (intro v_intro; simp add: v_proved v_ok_imp_k_ok)

lemma loci_validate_of_bsn_set_pktin_suppression_request_OF_VERSION_1_3_exact [x_proved]: "x_ok 2 loci_validate_of_bsn_set_pktin_suppression_request_OF_VERSION_1_3"
  unfolding loci_validate_of_bsn_set_pktin_suppression_request_OF_VERSION_1_3_def by (intro x_intro; simp add: x_proved x_ok_imp_kx_ok)

definition loci_validate_of_bsn_set_switch_pipeline_reply_OF_VERSION_1_3 :: validator where
  "loci_validate_of_bsn_set_switch_pipeline_reply_OF_VERSION_1_3 =
     v_min 20 (v_set_len 20 (v_wire_len 2 20 v_done))"

lemma loci_validate_of_bsn_set_switch_pipeline_reply_OF_VERSION_1_3_ok [v_proved]: "v_ok loci_validate_of_bsn_set_switch_pipeline_reply_OF_VERSION_1_3"
  unfolding loci_validate_of_bsn_set_switch_pipeline_reply_OF_VERSION_1_3_def by (intro v_intro; simp add: v_proved v_ok_imp_k_ok)

lemma loci_validate_of_bsn_set_switch_pipeline_reply_OF_VERSION_1_3_exact [x_proved]: "x_ok 2 loci_validate_of_bsn_set_switch_pipeline_reply_OF_VERSION_1_3"
  unfolding loci_validate_of_bsn_set_switch_pipeline_reply_OF_VERSION_1_3_def by (intro x_intro; simp add: x_proved x_ok_imp_kx_ok)

definition loci_validate_of_bsn_set_switch_pipeline_request_OF_VERSION_1_3 :: validator where
  "loci_validate_of_bsn_set_switch_pipeline_request_OF_VERSION_1_3 =
     v_min 272 (v_set_len 272 (v_wire_len 2 272 v_done))"

lemma loci_validate_of_bsn_set_switch_pipeline_request_OF_VERSION_1_3_ok [v_proved]: "v_ok loci_validate_of_bsn_set_switch_pipeline_request_OF_VERSION_1_3"
  unfolding loci_validate_of_bsn_set_switch_pipeline_request_OF_VERSION_1_3_def by (intro v_intro; simp add: v_proved v_ok_imp_k_ok)

lemma loci_validate_of_bsn_set_switch_pipeline_request_OF_VERSION_1_3_exact [x_proved]: "x_ok 2 loci_validate_of_bsn_set_switch_pipeline_request_OF_VERSION_1_3"
  unfolding loci_validate_of_bsn_set_switch_pipeline_request_OF_VERSION_1_3_def by (intro x_intro; simp add: x_proved x_ok_imp_kx_ok)

definition loci_validate_of_bsn_table_set_buckets_size_OF_VERSION_1_3 :: validator where
  "loci_validate_of_bsn_table_set_buckets_size_OF_VERSION_1_3 =
     v_min 24 (v_set_len 24 (v_wire_len 2 24 v_done))"

lemma loci_validate_of_bsn_table_set_buckets_size_OF_VERSION_1_3_ok [v_proved]: "v_ok loci_validate_of_bsn_table_set_buckets_size_OF_VERSION_1_3"
  unfolding loci_validate_of_bsn_table_set_buckets_size_OF_VERSION_1_3_def by (intro v_intro; simp add: v_proved v_ok_imp_k_ok)

lemma loci_validate_of_bsn_table_set_buckets_size_OF_VERSION_1_3_exact [x_proved]: "x_ok 2 loci_validate_of_bsn_table_set_buckets_size_OF_VERSION_1_3"
  unfolding loci_validate_of_bsn_table_set_buckets_size_OF_VERSION_1_3_def by (intro x_intro; simp add: x_proved x_ok_imp_kx_ok)

definition loci_validate_of_bsn_time_reply_OF_VERSION_1_3 :: validator where
  "loci_validate_of_bsn_time_reply_OF_VERSION_1_3 =
     v_min 24 (v_set_len 24 (v_wire_len 2 24 v_done))"

lemma loci_validate_of_bsn_time_reply_OF_VERSION_1_3_ok [v_proved]: "v_ok loci_validate_of_bsn_time_reply_OF_VERSION_1_3"
  unfolding loci_validate_of_bsn_time_reply_OF_VERSION_1_3_def by (intro v_intro; simp add: v_proved v_ok_imp_k_ok)

lemma loci_validate_of_bsn_time_reply_OF_VERSION_1_3_exact [x_proved]: "x_ok 2 loci_validate_of_bsn_time_reply_OF_VERSION_1_3"
  unfolding loci_validate_of_bsn_time_reply_OF_VERSION_1_3_def by (intro x_intro; simp add: x_proved x_ok_imp_kx_ok)

definition loci_validate_of_bsn_time_request_OF_VERSION_1_3 :: validator where
  "loci_validate_of_bsn_time_request_OF_VERSION_1_3 =
     v_min 16 (v_set_len 16 (v_wire_len 2 16 v_done))"

lemma loci_validate_of_bsn_time_request_OF_VERSION_1_3_ok [v_proved]: "v_ok loci_validate_of_bsn_time_request_OF_VERSION_1_3"
  unfolding loci_validate_of_bsn_time_request_OF_VERSION_1_3_def by (intro v_intro; simp add: v_proved v_ok_imp_k_ok)

lemma loci_validate_of_bsn_time_request_OF_VERSION_1_3_exact [x_proved]: "x_ok 2 loci_validate_of_bsn_time_request_OF_VERSION_1_3"
  unfolding loci_validate_of_bsn_time_request_OF_VERSION_1_3_def by (intro x_intro; simp add: x_proved x_ok_imp_kx_ok)

definition loci_validate_of_bsn_virtual_port_create_reply_OF_VERSION_1_3 :: validator where
  "loci_validate_of_bsn_virtual_port_create_reply_OF_VERSION_1_3 =
     v_min 24 (v_set_len 24 (v_wire_len 2 24 v_done))"

lemma loci_validate_of_bsn_virtual_port_create_reply_OF_VERSION_1_3_ok [v_proved]: "v_ok loci_validate_of_bsn_virtual_port_create_reply_OF_VERSION_1_3"
  unfolding loci_validate_of_bsn_virtual_port_create_reply_OF_VERSION_1_3_def by (intro v_intro; simp add: v_proved v_ok_imp_k_ok)

lemma loci_validate_of_bsn_virtual_port_create_reply_OF_VERSION_1_3_exact [x_proved]: "x_ok 2 loci_validate_of_bsn_virtual_port_create_reply_OF_VERSION_1_3"
  unfolding loci_validate_of_bsn_virtual_port_create_reply_OF_VERSION_1_3_def by (intro x_intro; simp add: x_proved x_ok_imp_kx_ok)

definition loci_validate_of_bsn_virtual_port_create_request_OF_VERSION_1_3 :: validator where
  "loci_validate_of_bsn_virtual_port_create_request_OF_VERSION_1_3 =
     v_min 20 (v_wire_len_set 2 20 v_done)"

lemma loci_validate_of_bsn_virtual_port_create_request_OF_VERSION_1_3_ok [v_proved]: "v_ok loci_validate_of_bsn_virtual_port_create_request_OF_VERSION_1_3"
  unfolding loci_validate_of_bsn_virtual_port_create_request_OF_VERSION_1_3_def by (intro v_intro; simp add: v_proved v_ok_imp_k_ok)

lemma loci_validate_of_bsn_virtual_port_create_request_OF_VERSION_1_3_exact [x_proved]: "x_ok 2 loci_validate_of_bsn_virtual_port_create_request_OF_VERSION_1_3"
  unfolding loci_validate_of_bsn_virtual_port_create_request_OF_VERSION_1_3_def by (intro x_intro; simp add: x_proved x_ok_imp_kx_ok)

definition loci_validate_of_bsn_virtual_port_remove_reply_OF_VERSION_1_3 :: validator where
  "loci_validate_of_bsn_virtual_port_remove_reply_OF_VERSION_1_3 =
     v_min 20 (v_set_len 20 (v_wire_len 2 20 v_done))"

lemma loci_validate_of_bsn_virtual_port_remove_reply_OF_VERSION_1_3_ok [v_proved]: "v_ok loci_validate_of_bsn_virtual_port_remove_reply_OF_VERSION_1_3"
  unfolding loci_validate_of_bsn_virtual_port_remove_reply_OF_VERSION_1_3_def by (intro v_intro; simp add: v_proved v_ok_imp_k_ok)

lemma loci_validate_of_bsn_virtual_port_remove_reply_OF_VERSION_1_3_exact [x_proved]: "x_ok 2 loci_validate_of_bsn_virtual_port_remove_reply_OF_VERSION_1_3"
  unfolding loci_validate_of_bsn_virtual_port_remove_reply_OF_VERSION_1_3_def by (intro x_intro; simp add: x_proved x_ok_imp_kx_ok)

definition loci_validate_of_bsn_virtual_port_remove_request_OF_VERSION_1_3 :: validator where
  "loci_validate_of_bsn_virtual_port_remove_request_OF_VERSION_1_3 =
     v_min 20 (v_set_len 20 (v_wire_len 2 20 v_done))"

lemma loci_validate_of_bsn_virtual_port_remove_request_OF_VERSION_1_3_ok [v_proved]: "v_ok loci_validate_of_bsn_virtual_port_remove_request_OF_VERSION_1_3"
  unfolding loci_validate_of_bsn_virtual_port_remove_request_OF_VERSION_1_3_def by (intro v_intro; simp add: v_proved v_ok_imp_k_ok)

lemma loci_validate_of_bsn_virtual_port_remove_request_OF_VERSION_1_3_exact [x_proved]: "x_ok 2 loci_validate_of_bsn_virtual_port_remove_request_OF_VERSION_1_3"
  unfolding loci_validate_of_bsn_virtual_port_remove_request_OF_VERSION_1_3_def by (intro x_intro; simp add: x_proved x_ok_imp_kx_ok)

definition loci_validate_of_bsn_header_OF_VERSION_1_3 :: validator where
  "loci_validate_of_bsn_header_OF_VERSION_1_3 =
     v_min 16 (v_wire_len_set 2 16
     (v_switch32 12
      [(0x3c, loci_validate_of_bsn_arp_idle_OF_VERSION_1_3),
       (0x16, loci_validate_of_bsn_bw_clear_data_reply_OF_VERSION_1_3),
       (0x15, loci_validate_of_bsn_bw_clear_data_request_OF_VERSION_1_3),
       (0x14, loci_validate_of_bsn_bw_enable_get_reply_OF_VERSION_1_3),
       (0x13, loci_validate_of_bsn_bw_enable_get_request_OF_VERSION_1_3),
       (0x17, loci_validate_of_bsn_bw_enable_set_reply_OF_VERSION_1_3),
       (0x12, loci_validate_of_bsn_bw_enable_set_request_OF_VERSION_1_3),
       (0x39, loci_validate_of_bsn_controller_connections_reply_OF_VERSION_1_3),
       (0x38, loci_validate_of_bsn_controller_connections_request_OF_VERSION_1_3),
       (0x28, loci_validate_of_bsn_flow_idle_OF_VERSION_1_3),
       (0x27, loci_validate_of_bsn_flow_idle_enable_get_reply_OF_VERSION_1_3),
       (0x26, loci_validate_of_bsn_flow_idle_enable_get_request_OF_VERSION_1_3),
       (0x25, loci_validate_of_bsn_flow_idle_enable_set_reply_OF_VERSION_1_3),
       (0x24, loci_validate_of_bsn_flow_idle_enable_set_request_OF_VERSION_1_3),
       (0x31, loci_validate_of_bsn_gentable_clear_reply_OF_VERSION_1_3),
       (0x30, loci_validate_of_bsn_gentable_clear_request_OF_VERSION_1_3),
       (0x2e, loci_validate_of_bsn_gentable_entry_add_OF_VERSION_1_3),
       (0x2f, loci_validate_of_bsn_gentable_entry_delete_OF_VERSION_1_3),
       (0x32, loci_validate_of_bsn_gentable_set_buckets_size_OF_VERSION_1_3),
       (0xa, loci_validate_of_bsn_get_interfaces_reply_OF_VERSION_1_3),
       (9, loci_validate_of_bsn_get_interfaces_request_OF_VERSION_1_3),
       (5, loci_validate_of_bsn_get_mirroring_reply_OF_VERSION_1_3),
       (4, loci_validate_of_bsn_get_mirroring_request_OF_VERSION_1_3),
       (0x34, loci_validate_of_bsn_get_switch_pipeline_reply_OF_VERSION_1_3),
       (0x33, loci_validate_of_bsn_get_switch_pipeline_request_OF_VERSION_1_3),
       (0x2b, loci_validate_of_bsn_lacp_convergence_notif_OF_VERSION_1_3),
       (0x3f, loci_validate_of_bsn_log_OF_VERSION_1_3),
       (0x42, loci_validate_of_bsn_lua_command_reply_OF_VERSION_1_3),
       (0x41, loci_validate_of_bsn_lua_command_request_OF_VERSION_1_3),
       (0x43, loci_validate_of_bsn_lua_notification_OF_VERSION_1_3),
       (0x40, loci_validate_of_bsn_lua_upload_OF_VERSION_1_3),
       (0x22, loci_validate_of_bsn_pdu_rx_reply_OF_VERSION_1_3),
       (0x21, loci_validate_of_bsn_pdu_rx_request_OF_VERSION_1_3),
       (0x23, loci_validate_of_bsn_pdu_rx_timeout_OF_VERSION_1_3),
       (0x20, loci_validate_of_bsn_pdu_tx_reply_OF_VERSION_1_3),
       (0x1f, loci_validate_of_bsn_pdu_tx_request_OF_VERSION_1_3),
       (0x37, loci_validate_of_bsn_role_status_OF_VERSION_1_3),
       (0x3b, loci_validate_of_bsn_set_aux_cxns_reply_OF_VERSION_1_3),
       (0x3a, loci_validate_of_bsn_set_aux_cxns_request_OF_VERSION_1_3),
       (0x2a, loci_validate_of_bsn_set_lacp_reply_OF_VERSION_1_3),
       (0x29, loci_validate_of_bsn_set_lacp_request_OF_VERSION_1_3),
       (3, loci_validate_of_bsn_set_mirroring_OF_VERSION_1_3),
       (0x19, loci_validate_of_bsn_set_pktin_suppression_reply_OF_VERSION_1_3),
       (0xb, loci_validate_of_bsn_set_pktin_suppression_request_OF_VERSION_1_3),
       (0x36, loci_validate_of_bsn_set_switch_pipeline_reply_OF_VERSION_1_3),
       (0x35, loci_validate_of_bsn_set_switch_pipeline_request_OF_VERSION_1_3),
       (0x3d, loci_validate_of_bsn_table_set_buckets_size_OF_VERSION_1_3),
       (0x2d, loci_validate_of_bsn_time_reply_OF_VERSION_1_3),
       (0x2c, loci_validate_of_bsn_time_request_OF_VERSION_1_3),
       (0x10, loci_validate_of_bsn_virtual_port_create_reply_OF_VERSION_1_3),
       (0xf, loci_validate_of_bsn_virtual_port_create_request_OF_VERSION_1_3),
       (0x1a, loci_validate_of_bsn_virtual_port_remove_reply_OF_VERSION_1_3),
       (0x11, loci_validate_of_bsn_virtual_port_remove_request_OF_VERSION_1_3)]
     v_done))"

lemma loci_validate_of_bsn_header_OF_VERSION_1_3_ok [v_proved]: "v_ok loci_validate_of_bsn_header_OF_VERSION_1_3"
  unfolding loci_validate_of_bsn_header_OF_VERSION_1_3_def by (intro v_intro; simp add: v_proved v_ok_imp_k_ok)

lemma loci_validate_of_bsn_header_OF_VERSION_1_3_exact [x_proved]: "x_ok 2 loci_validate_of_bsn_header_OF_VERSION_1_3"
  unfolding loci_validate_of_bsn_header_OF_VERSION_1_3_def by (intro x_intro; simp add: x_proved x_ok_imp_kx_ok)

definition loci_validate_of_nicira_header_OF_VERSION_1_3 :: validator where
  "loci_validate_of_nicira_header_OF_VERSION_1_3 =
     v_min 16 (v_wire_len_set 2 16
     (v_switch32 12
      []
     v_done))"

lemma loci_validate_of_nicira_header_OF_VERSION_1_3_ok [v_proved]: "v_ok loci_validate_of_nicira_header_OF_VERSION_1_3"
  unfolding loci_validate_of_nicira_header_OF_VERSION_1_3_def by (intro v_intro; simp add: v_proved v_ok_imp_k_ok)

lemma loci_validate_of_nicira_header_OF_VERSION_1_3_exact [x_proved]: "x_ok 2 loci_validate_of_nicira_header_OF_VERSION_1_3"
  unfolding loci_validate_of_nicira_header_OF_VERSION_1_3_def by (intro x_intro; simp add: x_proved x_ok_imp_kx_ok)

definition loci_validate_of_experimenter_OF_VERSION_1_3 :: validator where
  "loci_validate_of_experimenter_OF_VERSION_1_3 =
     v_min 16 (v_wire_len_set 2 16
     (v_switch32 8
      [(0x5c16c7, loci_validate_of_bsn_header_OF_VERSION_1_3),
       (0x2320, loci_validate_of_nicira_header_OF_VERSION_1_3)]
     v_done))"

lemma loci_validate_of_experimenter_OF_VERSION_1_3_ok [v_proved]: "v_ok loci_validate_of_experimenter_OF_VERSION_1_3"
  unfolding loci_validate_of_experimenter_OF_VERSION_1_3_def by (intro v_intro; simp add: v_proved v_ok_imp_k_ok)

lemma loci_validate_of_experimenter_OF_VERSION_1_3_exact [x_proved]: "x_ok 2 loci_validate_of_experimenter_OF_VERSION_1_3"
  unfolding loci_validate_of_experimenter_OF_VERSION_1_3_def by (intro x_intro; simp add: x_proved x_ok_imp_kx_ok)

definition loci_validate_of_echo_reply_OF_VERSION_1_3 :: validator where
  "loci_validate_of_echo_reply_OF_VERSION_1_3 =
     v_min 8 (v_wire_len_set 2 8 v_done)"

lemma loci_validate_of_echo_reply_OF_VERSION_1_3_ok [v_proved]: "v_ok loci_validate_of_echo_reply_OF_VERSION_1_3"
  unfolding loci_validate_of_echo_reply_OF_VERSION_1_3_def by (intro v_intro; simp add: v_proved v_ok_imp_k_ok)

lemma loci_validate_of_echo_reply_OF_VERSION_1_3_exact [x_proved]: "x_ok 2 loci_validate_of_echo_reply_OF_VERSION_1_3"
  unfolding loci_validate_of_echo_reply_OF_VERSION_1_3_def by (intro x_intro; simp add: x_proved x_ok_imp_kx_ok)

definition loci_validate_of_echo_request_OF_VERSION_1_3 :: validator where
  "loci_validate_of_echo_request_OF_VERSION_1_3 =
     v_min 8 (v_wire_len_set 2 8 v_done)"

lemma loci_validate_of_echo_request_OF_VERSION_1_3_ok [v_proved]: "v_ok loci_validate_of_echo_request_OF_VERSION_1_3"
  unfolding loci_validate_of_echo_request_OF_VERSION_1_3_def by (intro v_intro; simp add: v_proved v_ok_imp_k_ok)

lemma loci_validate_of_echo_request_OF_VERSION_1_3_exact [x_proved]: "x_ok 2 loci_validate_of_echo_request_OF_VERSION_1_3"
  unfolding loci_validate_of_echo_request_OF_VERSION_1_3_def by (intro x_intro; simp add: x_proved x_ok_imp_kx_ok)

definition loci_validate_of_features_reply_OF_VERSION_1_3 :: validator where
  "loci_validate_of_features_reply_OF_VERSION_1_3 =
     v_min 32 (v_set_len 32 (v_wire_len 2 32 v_done))"

lemma loci_validate_of_features_reply_OF_VERSION_1_3_ok [v_proved]: "v_ok loci_validate_of_features_reply_OF_VERSION_1_3"
  unfolding loci_validate_of_features_reply_OF_VERSION_1_3_def by (intro v_intro; simp add: v_proved v_ok_imp_k_ok)

lemma loci_validate_of_features_reply_OF_VERSION_1_3_exact [x_proved]: "x_ok 2 loci_validate_of_features_reply_OF_VERSION_1_3"
  unfolding loci_validate_of_features_reply_OF_VERSION_1_3_def by (intro x_intro; simp add: x_proved x_ok_imp_kx_ok)

definition loci_validate_of_features_request_OF_VERSION_1_3 :: validator where
  "loci_validate_of_features_request_OF_VERSION_1_3 =
     v_min 8 (v_set_len 8 (v_wire_len 2 8 v_done))"

lemma loci_validate_of_features_request_OF_VERSION_1_3_ok [v_proved]: "v_ok loci_validate_of_features_request_OF_VERSION_1_3"
  unfolding loci_validate_of_features_request_OF_VERSION_1_3_def by (intro v_intro; simp add: v_proved v_ok_imp_k_ok)

lemma loci_validate_of_features_request_OF_VERSION_1_3_exact [x_proved]: "x_ok 2 loci_validate_of_features_request_OF_VERSION_1_3"
  unfolding loci_validate_of_features_request_OF_VERSION_1_3_def by (intro x_intro; simp add: x_proved x_ok_imp_kx_ok)

definition loci_validate_of_flow_add_OF_VERSION_1_3 :: validator where
  "loci_validate_of_flow_add_OF_VERSION_1_3 =
     v_min 56 (v_wire_len_set 2 56 v_done)"

lemma loci_validate_of_flow_add_OF_VERSION_1_3_ok [v_proved]: "v_ok loci_validate_of_flow_add_OF_VERSION_1_3"
  unfolding loci_validate_of_flow_add_OF_VERSION_1_3_def by (intro v_intro; simp add: v_proved v_ok_imp_k_ok)

lemma loci_validate_of_flow_add_OF_VERSION_1_3_exact [x_proved]: "x_ok 2 loci_validate_of_flow_add_OF_VERSION_1_3"
  unfolding loci_validate_of_flow_add_OF_VERSION_1_3_def by (intro x_intro; simp add: x_proved x_ok_imp_kx_ok)

definition loci_validate_of_flow_delete_OF_VERSION_1_3 :: validator where
  "loci_validate_of_flow_delete_OF_VERSION_1_3 =
     v_min 56 (v_wire_len_set 2 56 v_done)"

lemma loci_validate_of_flow_delete_OF_VERSION_1_3_ok [v_proved]: "v_ok loci_validate_of_flow_delete_OF_VERSION_1_3"
  unfolding loci_validate_of_flow_delete_OF_VERSION_1_3_def by (intro v_intro; simp add: v_proved v_ok_imp_k_ok)

lemma loci_validate_of_flow_delete_OF_VERSION_1_3_exact [x_proved]: "x_ok 2 loci_validate_of_flow_delete_OF_VERSION_1_3"
  unfolding loci_validate_of_flow_delete_OF_VERSION_1_3_def by (intro x_intro; simp add: x_proved x_ok_imp_kx_ok)

definition loci_validate_of_flow_delete_strict_OF_VERSION_1_3 :: validator where
  "loci_validate_of_flow_delete_strict_OF_VERSION_1_3 =
     v_min 56 (v_wire_len_set 2 56 v_done)"

lemma loci_validate_of_flow_delete_strict_OF_VERSION_1_3_ok [v_proved]: "v_ok loci_validate_of_flow_delete_strict_OF_VERSION_1_3"
  unfolding loci_validate_of_flow_delete_strict_OF_VERSION_1_3_def by (intro v_intro; simp add: v_proved v_ok_imp_k_ok)

lemma loci_validate_of_flow_delete_strict_OF_VERSION_1_3_exact [x_proved]: "x_ok 2 loci_validate_of_flow_delete_strict_OF_VERSION_1_3"
  unfolding loci_validate_of_flow_delete_strict_OF_VERSION_1_3_def by (intro x_intro; simp add: x_proved x_ok_imp_kx_ok)

definition loci_validate_of_flow_modify_OF_VERSION_1_3 :: validator where
  "loci_validate_of_flow_modify_OF_VERSION_1_3 =
     v_min 56 (v_wire_len_set 2 56 v_done)"

lemma loci_validate_of_flow_modify_OF_VERSION_1_3_ok [v_proved]: "v_ok loci_validate_of_flow_modify_OF_VERSION_1_3"
  unfolding loci_validate_of_flow_modify_OF_VERSION_1_3_def by (intro v_intro; simp add: v_proved v_ok_imp_k_ok)

lemma loci_validate_of_flow_modify_OF_VERSION_1_3_exact [x_proved]: "x_ok 2 loci_validate_of_flow_modify_OF_VERSION_1_3"
  unfolding loci_validate_of_flow_modify_OF_VERSION_1_3_def by (intro x_intro; simp add: x_proved x_ok_imp_kx_ok)

definition loci_validate_of_flow_modify_strict_OF_VERSION_1_3 :: validator where
  "loci_validate_of_flow_modify_strict_OF_VERSION_1_3 =
     v_min 56 (v_wire_len_set 2 56 v_done)"

lemma loci_validate_of_flow_modify_strict_OF_VERSION_1_3_ok [v_proved]: "v_ok loci_validate_of_flow_modify_strict_OF_VERSION_1_3"
  unfolding loci_validate_of_flow_modify_strict_OF_VERSION_1_3_def by (intro v_intro; simp add: v_proved v_ok_imp_k_ok)

lemma loci_validate_of_flow_modify_strict_OF_VERSION_1_3_exact [x_proved]: "x_ok 2 loci_validate_of_flow_modify_strict_OF_VERSION_1_3"
  unfolding loci_validate_of_flow_modify_strict_OF_VERSION_1_3_def by (intro x_intro; simp add: x_proved x_ok_imp_kx_ok)

definition loci_validate_of_flow_mod_OF_VERSION_1_3 :: validator where
  "loci_validate_of_flow_mod_OF_VERSION_1_3 =
     v_min 56 (v_wire_len_set 2 56
     (v_switch8 25
      [(0, loci_validate_of_flow_add_OF_VERSION_1_3),
       (3, loci_validate_of_flow_delete_OF_VERSION_1_3),
       (4, loci_validate_of_flow_delete_strict_OF_VERSION_1_3),
       (1, loci_validate_of_flow_modify_OF_VERSION_1_3),
       (2, loci_validate_of_flow_modify_strict_OF_VERSION_1_3)]
     v_done))"

lemma loci_validate_of_flow_mod_OF_VERSION_1_3_ok [v_proved]: "v_ok loci_validate_of_flow_mod_OF_VERSION_1_3"
  unfolding loci_validate_of_flow_mod_OF_VERSION_1_3_def by (intro v_intro; simp add: v_proved v_ok_imp_k_ok)

lemma loci_validate_of_flow_mod_OF_VERSION_1_3_exact [x_proved]: "x_ok 2 loci_validate_of_flow_mod_OF_VERSION_1_3"
  unfolding loci_validate_of_flow_mod_OF_VERSION_1_3_def by (intro x_intro; simp add: x_proved x_ok_imp_kx_ok)

definition loci_validate_of_flow_removed_OF_VERSION_1_3 :: validator where
  "loci_validate_of_flow_removed_OF_VERSION_1_3 =
     v_min 56 (v_wire_len_set 2 56 v_done)"

lemma loci_validate_of_flow_removed_OF_VERSION_1_3_ok [v_proved]: "v_ok loci_validate_of_flow_removed_OF_VERSION_1_3"
  unfolding loci_validate_of_flow_removed_OF_VERSION_1_3_def by (intro v_intro; simp add: v_proved v_ok_imp_k_ok)

lemma loci_validate_of_flow_removed_OF_VERSION_1_3_exact [x_proved]: "x_ok 2 loci_validate_of_flow_removed_OF_VERSION_1_3"
  unfolding loci_validate_of_flow_removed_OF_VERSION_1_3_def by (intro x_intro; simp add: x_proved x_ok_imp_kx_ok)

definition loci_validate_of_get_config_reply_OF_VERSION_1_3 :: validator where
  "loci_validate_of_get_config_reply_OF_VERSION_1_3 =
     v_min 12 (v_set_len 12 (v_wire_len 2 12 v_done))"

lemma loci_validate_of_get_config_reply_OF_VERSION_1_3_ok [v_proved]: "v_ok loci_validate_of_get_config_reply_OF_VERSION_1_3"
  unfolding loci_validate_of_get_config_reply_OF_VERSION_1_3_def by (intro v_intro; simp add: v_proved v_ok_imp_k_ok)

lemma loci_validate_of_get_config_reply_OF_VERSION_1_3_exact [x_proved]: "x_ok 2 loci_validate_of_get_config_reply_OF_VERSION_1_3"
  unfolding loci_validate_of_get_config_reply_OF_VERSION_1_3_def by (intro x_intro; simp add: x_proved x_ok_imp_kx_ok)

definition loci_validate_of_get_config_request_OF_VERSION_1_3 :: validator where
  "loci_validate_of_get_config_request_OF_VERSION_1_3 =
     v_min 8 (v_set_len 8 (v_wire_len 2 8 v_done))"

lemma loci_validate_of_get_config_request_OF_VERSION_1_3_ok [v_proved]: "v_ok loci_validate_of_get_config_request_OF_VERSION_1_3"
  unfolding loci_validate_of_get_config_request_OF_VERSION_1_3_def by (intro v_intro; simp add: v_proved v_ok_imp_k_ok)

lemma loci_validate_of_get_config_request_OF_VERSION_1_3_exact [x_proved]: "x_ok 2 loci_validate_of_get_config_request_OF_VERSION_1_3"
  unfolding loci_validate_of_get_config_request_OF_VERSION_1_3_def by (intro x_intro; simp add: x_proved x_ok_imp_kx_ok)

definition loci_validate_of_group_add_OF_VERSION_1_3 :: validator where
  "loci_validate_of_group_add_OF_VERSION_1_3 =
     v_min 16 (v_wire_len_set 2 16
     (v_list_rest 16 loci_validate_of_list_bucket_OF_VERSION_1_3 v_done))"

lemma loci_validate_of_group_add_OF_VERSION_1_3_ok [v_proved]: "v_ok loci_validate_of_group_add_OF_VERSION_1_3"
  unfolding loci_validate_of_group_add_OF_VERSION_1_3_def by (intro v_intro; simp add: v_proved v_ok_imp_k_ok)

lemma loci_validate_of_group_add_OF_VERSION_1_3_exact [x_proved]: "x_ok 2 loci_validate_of_group_add_OF_VERSION_1_3"
  unfolding loci_validate_of_group_add_OF_VERSION_1_3_def by (intro x_intro; simp add: x_proved x_ok_imp_kx_ok)

definition loci_validate_of_group_delete_OF_VERSION_1_3 :: validator where
  "loci_validate_of_group_delete_OF_VERSION_1_3 =
     v_min 16 (v_wire_len_set 2 16
     (v_list_rest 16 loci_validate_of_list_bucket_OF_VERSION_1_3 v_done))"

lemma loci_validate_of_group_delete_OF_VERSION_1_3_ok [v_proved]: "v_ok loci_validate_of_group_delete_OF_VERSION_1_3"
  unfolding loci_validate_of_group_delete_OF_VERSION_1_3_def by (intro v_intro; simp add: v_proved v_ok_imp_k_ok)

lemma loci_validate_of_group_delete_OF_VERSION_1_3_exact [x_proved]: "x_ok 2 loci_validate_of_group_delete_OF_VERSION_1_3"
  unfolding loci_validate_of_group_delete_OF_VERSION_1_3_def by (intro x_intro; simp add: x_proved x_ok_imp_kx_ok)

definition loci_validate_of_group_modify_OF_VERSION_1_3 :: validator where
  "loci_validate_of_group_modify_OF_VERSION_1_3 =
     v_min 16 (v_wire_len_set 2 16
     (v_list_rest 16 loci_validate_of_list_bucket_OF_VERSION_1_3 v_done))"

lemma loci_validate_of_group_modify_OF_VERSION_1_3_ok [v_proved]: "v_ok loci_validate_of_group_modify_OF_VERSION_1_3"
  unfolding loci_validate_of_group_modify_OF_VERSION_1_3_def by (intro v_intro; simp add: v_proved v_ok_imp_k_ok)

lemma loci_validate_of_group_modify_OF_VERSION_1_3_exact [x_proved]: "x_ok 2 loci_validate_of_group_modify_OF_VERSION_1_3"
  unfolding loci_validate_of_group_modify_OF_VERSION_1_3_def by (intro x_intro; simp add: x_proved x_ok_imp_kx_ok)

definition loci_validate_of_group_mod_OF_VERSION_1_3 :: validator where
  "loci_validate_of_group_mod_OF_VERSION_1_3 =
     v_min 16 (v_wire_len_set 2 16
     (v_switch16 8
      [(0, loci_validate_of_group_add_OF_VERSION_1_3),
       (2, loci_validate_of_group_delete_OF_VERSION_1_3),
       (1, loci_validate_of_group_modify_OF_VERSION_1_3)]
     (v_list_rest 16 loci_validate_of_list_bucket_OF_VERSION_1_3 v_done)))"

lemma loci_validate_of_group_mod_OF_VERSION_1_3_ok [v_proved]: "v_ok loci_validate_of_group_mod_OF_VERSION_1_3"
  unfolding loci_validate_of_group_mod_OF_VERSION_1_3_def by (intro v_intro; simp add: v_proved v_ok_imp_k_ok)

lemma loci_validate_of_group_mod_OF_VERSION_1_3_exact [x_proved]: "x_ok 2 loci_validate_of_group_mod_OF_VERSION_1_3"
  unfolding loci_validate_of_group_mod_OF_VERSION_1_3_def by (intro x_intro; simp add: x_proved x_ok_imp_kx_ok)

definition loci_validate_of_hello_OF_VERSION_1_3 :: validator where
  "loci_validate_of_hello_OF_VERSION_1_3 =
     v_min 8 (v_wire_len_set 2 8
     (v_list_rest 8 loci_validate_of_list_hello_elem_OF_VERSION_1_3 v_done))"

lemma loci_validate_of_hello_OF_VERSION_1_3_ok [v_proved]: "v_ok loci_validate_of_hello_OF_VERSION_1_3"
  unfolding loci_validate_of_hello_OF_VERSION_1_3_def by (intro v_intro; simp add: v_proved v_ok_imp_k_ok)

lemma loci_validate_of_hello_OF_VERSION_1_3_exact [x_proved]: "x_ok 2 loci_validate_of_hello_OF_VERSION_1_3"
  unfolding loci_validate_of_hello_OF_VERSION_1_3_def by (intro x_intro; simp add: x_proved x_ok_imp_kx_ok)

definition loci_validate_of_meter_mod_OF_VERSION_1_3 :: validator where
  "loci_validate_of_meter_mod_OF_VERSION_1_3 =
     v_min 16 (v_wire_len_set 2 16
     (v_list_rest 16 loci_validate_of_list_meter_band_OF_VERSION_1_3 v_done))"

lemma loci_validate_of_meter_mod_OF_VERSION_1_3_ok [v_proved]: "v_ok loci_validate_of_meter_mod_OF_VERSION_1_3"
  unfolding loci_validate_of_meter_mod_OF_VERSION_1_3_def by (intro v_intro; simp add: v_proved v_ok_imp_k_ok)

lemma loci_validate_of_meter_mod_OF_VERSION_1_3_exact [x_proved]: "x_ok 2 loci_validate_of_meter_mod_OF_VERSION_1_3"
  unfolding loci_validate_of_meter_mod_OF_VERSION_1_3_def by (intro x_intro; simp add: x_proved x_ok_imp_kx_ok)

definition loci_validate_of_packet_in_OF_VERSION_1_3 :: validator where
  "loci_validate_of_packet_in_OF_VERSION_1_3 =
     v_min 34 (v_wire_len_set 2 34 v_done)"

lemma loci_validate_of_packet_in_OF_VERSION_1_3_ok [v_proved]: "v_ok loci_validate_of_packet_in_OF_VERSION_1_3"
  unfolding loci_validate_of_packet_in_OF_VERSION_1_3_def by (intro v_intro; simp add: v_proved v_ok_imp_k_ok)

lemma loci_validate_of_packet_in_OF_VERSION_1_3_exact [x_proved]: "x_ok 2 loci_validate_of_packet_in_OF_VERSION_1_3"
  unfolding loci_validate_of_packet_in_OF_VERSION_1_3_def by (intro x_intro; simp add: x_proved x_ok_imp_kx_ok)

definition loci_validate_of_packet_out_OF_VERSION_1_3 :: validator where
  "loci_validate_of_packet_out_OF_VERSION_1_3 =
     v_min 24 (v_wire_len_set 2 24
     (v_list_len16 16 24 loci_validate_of_list_action_OF_VERSION_1_3 v_done))"

lemma loci_validate_of_packet_out_OF_VERSION_1_3_ok [v_proved]: "v_ok loci_validate_of_packet_out_OF_VERSION_1_3"
  unfolding loci_validate_of_packet_out_OF_VERSION_1_3_def by (intro v_intro; simp add: v_proved v_ok_imp_k_ok)

lemma loci_validate_of_packet_out_OF_VERSION_1_3_exact [x_proved]: "x_ok 2 loci_validate_of_packet_out_OF_VERSION_1_3"
  unfolding loci_validate_of_packet_out_OF_VERSION_1_3_def by (intro x_intro; simp add: x_proved x_ok_imp_kx_ok)

definition loci_validate_of_port_mod_OF_VERSION_1_3 :: validator where
  "loci_validate_of_port_mod_OF_VERSION_1_3 =
     v_min 40 (v_set_len 40 (v_wire_len 2 40 v_done))"

lemma loci_validate_of_port_mod_OF_VERSION_1_3_ok [v_proved]: "v_ok loci_validate_of_port_mod_OF_VERSION_1_3"
  unfolding loci_validate_of_port_mod_OF_VERSION_1_3_def by (intro v_intro; simp add: v_proved v_ok_imp_k_ok)

lemma loci_validate_of_port_mod_OF_VERSION_1_3_exact [x_proved]: "x_ok 2 loci_validate_of_port_mod_OF_VERSION_1_3"
  unfolding loci_validate_of_port_mod_OF_VERSION_1_3_def by (intro x_intro; simp add: x_proved x_ok_imp_kx_ok)

definition loci_validate_of_port_status_OF_VERSION_1_3 :: validator where
  "loci_validate_of_port_status_OF_VERSION_1_3 =
     v_min 80 (v_set_len 80 (v_wire_len 2 80 v_done))"

lemma loci_validate_of_port_status_OF_VERSION_1_3_ok [v_proved]: "v_ok loci_validate_of_port_status_OF_VERSION_1_3"
  unfolding loci_validate_of_port_status_OF_VERSION_1_3_def by (intro v_intro; simp add: v_proved v_ok_imp_k_ok)

lemma loci_validate_of_port_status_OF_VERSION_1_3_exact [x_proved]: "x_ok 2 loci_validate_of_port_status_OF_VERSION_1_3"
  unfolding loci_validate_of_port_status_OF_VERSION_1_3_def by (intro x_intro; simp add: x_proved x_ok_imp_kx_ok)

definition loci_validate_of_queue_get_config_reply_OF_VERSION_1_3 :: validator where
  "loci_validate_of_queue_get_config_reply_OF_VERSION_1_3 =
     v_min 16 (v_wire_len_set 2 16
     (v_list_rest 16 loci_validate_of_list_packet_queue_OF_VERSION_1_3 v_done))"

lemma loci_validate_of_queue_get_config_reply_OF_VERSION_1_3_ok [v_proved]: "v_ok loci_validate_of_queue_get_config_reply_OF_VERSION_1_3"
  unfolding loci_validate_of_queue_get_config_reply_OF_VERSION_1_3_def by (intro v_intro; simp add: v_proved v_ok_imp_k_ok)

lemma loci_validate_of_queue_get_config_reply_OF_VERSION_1_3_exact [x_proved]: "x_ok 2 loci_validate_of_queue_get_config_reply_OF_VERSION_1_3"
  unfolding loci_validate_of_queue_get_config_reply_OF_VERSION_1_3_def by (intro x_intro; simp add: x_proved x_ok_imp_kx_ok)

definition loci_validate_of_queue_get_config_request_OF_VERSION_1_3 :: validator where
  "loci_validate_of_queue_get_config_request_OF_VERSION_1_3 =
     v_min 16 (v_set_len 16 (v_wire_len 2 16 v_done))"

lemma loci_validate_of_queue_get_config_request_OF_VERSION_1_3_ok [v_proved]: "v_ok loci_validate_of_queue_get_config_request_OF_VERSION_1_3"
  unfolding loci_validate_of_queue_get_config_request_OF_VERSION_1_3_def by (intro v_intro; simp add: v_proved v_ok_imp_k_ok)

lemma loci_validate_of_queue_get_config_request_OF_VERSION_1_3_exact [x_proved]: "x_ok 2 loci_validate_of_queue_get_config_request_OF_VERSION_1_3"
  unfolding loci_validate_of_queue_get_config_request_OF_VERSION_1_3_def by (intro x_intro; simp add: x_proved x_ok_imp_kx_ok)

definition loci_validate_of_role_reply_OF_VERSION_1_3 :: validator where
  "loci_validate_of_role_reply_OF_VERSION_1_3 =
     v_min 24 (v_set_len 24 (v_wire_len 2 24 v_done))"

lemma loci_validate_of_role_reply_OF_VERSION_1_3_ok [v_proved]: "v_ok loci_validate_of_role_reply_OF_VERSION_1_3"
  unfolding loci_validate_of_role_reply_OF_VERSION_1_3_def by (intro v_intro; simp add: v_proved v_ok_imp_k_ok)

lemma loci_validate_of_role_reply_OF_VERSION_1_3_exact [x_proved]: "x_ok 2 loci_validate_of_role_reply_OF_VERSION_1_3"
  unfolding loci_validate_of_role_reply_OF_VERSION_1_3_def by (intro x_intro; simp add: x_proved x_ok_imp_kx_ok)

definition loci_validate_of_role_request_OF_VERSION_1_3 :: validator where
  "loci_validate_of_role_request_OF_VERSION_1_3 =
     v_min 24 (v_set_len 24 (v_wire_len 2 24 v_done))"

lemma loci_validate_of_role_request_OF_VERSION_1_3_ok [v_proved]: "v_ok loci_validate_of_role_request_OF_VERSION_1_3"
  unfolding loci_validate_of_role_request_OF_VERSION_1_3_def by (intro v_intro; simp add: v_proved v_ok_imp_k_ok)

lemma loci_validate_of_role_request_OF_VERSION_1_3_exact [x_proved]: "x_ok 2 loci_validate_of_role_request_OF_VERSION_1_3"
  unfolding loci_validate_of_role_request_OF_VERSION_1_3_def by (intro x_intro; simp add: x_proved x_ok_imp_kx_ok)

definition loci_validate_of_set_config_OF_VERSION_1_3 :: validator where
  "loci_validate_of_set_config_OF_VERSION_1_3 =
     v_min 12 (v_set_len 12 (v_wire_len 2 12 v_done))"

lemma loci_validate_of_set_config_OF_VERSION_1_3_ok [v_proved]: "v_ok loci_validate_of_set_config_OF_VERSION_1_3"
  unfolding loci_validate_of_set_config_OF_VERSION_1_3_def by (intro v_intro; simp add: v_proved v_ok_imp_k_ok)

lemma loci_validate_of_set_config_OF_VERSION_1_3_exact [x_proved]: "x_ok 2 loci_validate_of_set_config_OF_VERSION_1_3"
  unfolding loci_validate_of_set_config_OF_VERSION_1_3_def by (intro x_intro; simp add: x_proved x_ok_imp_kx_ok)

definition loci_validate_of_table_mod_OF_VERSION_1_3 :: validator where
  "loci_validate_of_table_mod_OF_VERSION_1_3 =
     v_min 16 (v_set_len 16 (v_wire_len 2 16 v_done))"

lemma loci_validate_of_table_mod_OF_VERSION_1_3_ok [v_proved]: "v_ok loci_validate_of_table_mod_OF_VERSION_1_3"
  unfolding loci_validate_of_table_mod_OF_VERSION_1_3_def by (intro v_intro; simp add: v_proved v_ok_imp_k_ok)

lemma loci_validate_of_table_mod_OF_VERSION_1_3_exact [x_proved]: "x_ok 2 loci_validate_of_table_mod_OF_VERSION_1_3"
  unfolding loci_validate_of_table_mod_OF_VERSION_1_3_def by (intro x_intro; simp add: x_proved x_ok_imp_kx_ok)

definition loci_validate_of_header_OF_VERSION_1_3 :: validator where
  "loci_validate_of_header_OF_VERSION_1_3 =
     v_min 8 (v_wire_len_set 2 8
     (v_switch8 1
      [(0x13, loci_validate_of_stats_reply_OF_VERSION_1_3),
       (0x12, loci_validate_of_stats_request_OF_VERSION_1_3),
       (0x1b, loci_validate_of_async_get_reply_OF_VERSION_1_3),
       (0x1a, loci_validate_of_async_get_request_OF_VERSION_1_3),
       (0x1c, loci_validate_of_async_set_OF_VERSION_1_3),
       (1, loci_validate_of_error_msg_OF_VERSION_1_3),
       (0x15, loci_validate_of_barrier_reply_OF_VERSION_1_3),
       (0x14, loci_validate_of_barrier_request_OF_VERSION_1_3),
       (4, loci_validate_of_experimenter_OF_VERSION_1_3),
       (3, loci_validate_of_echo_reply_OF_VERSION_1_3),
       (2, loci_validate_of_echo_request_OF_VERSION_1_3),
       (6, loci_validate_of_features_reply_OF_VERSION_1_3),
       (5, loci_validate_of_features_request_OF_VERSION_1_3),
       (0xe, loci_validate_of_flow_mod_OF_VERSION_1_3),
       (0xb, loci_validate_of_flow_removed_OF_VERSION_1_3),
       (8, loci_validate_of_get_config_reply_OF_VERSION_1_3),
       (7, loci_validate_of_get_config_request_OF_VERSION_1_3),
       (0xf, loci_validate_of_group_mod_OF_VERSION_1_3),
       (0, loci_validate_of_hello_OF_VERSION_1_3),
       (0x1d, loci_validate_of_meter_mod_OF_VERSION_1_3),
       (0xa, loci_validate_of_packet_in_OF_VERSION_1_3),
       (0xd, loci_validate_of_packet_out_OF_VERSION_1_3),
       (0x10, loci_validate_of_port_mod_OF_VERSION_1_3),
       (0xc, loci_validate_of_port_status_OF_VERSION_1_3),
       (0x17, loci_validate_of_queue_get_config_reply_OF_VERSION_1_3),
       (0x16, loci_validate_of_queue_get_config_request_OF_VERSION_1_3),
       (0x19, loci_validate_of_role_reply_OF_VERSION_1_3),
       (0x18, loci_validate_of_role_request_OF_VERSION_1_3),
       (9, loci_validate_of_set_config_OF_VERSION_1_3),
       (0x11, loci_validate_of_table_mod_OF_VERSION_1_3)]
     v_done))"

lemma loci_validate_of_header_OF_VERSION_1_3_ok [v_proved]: "v_ok loci_validate_of_header_OF_VERSION_1_3"
  unfolding loci_validate_of_header_OF_VERSION_1_3_def by (intro v_intro; simp add: v_proved v_ok_imp_k_ok)

lemma loci_validate_of_header_OF_VERSION_1_3_exact [x_proved]: "x_ok 2 loci_validate_of_header_OF_VERSION_1_3"
  unfolding loci_validate_of_header_OF_VERSION_1_3_def by (intro x_intro; simp add: x_proved x_ok_imp_kx_ok)

definition loci_validate_of_bsn_vport_l2gre_OF_VERSION_1_3 :: validator where
  "loci_validate_of_bsn_vport_l2gre_OF_VERSION_1_3 =
     v_min 64 (v_set_len 64 (v_wire_len 2 64 v_done))"

lemma loci_validate_of_bsn_vport_l2gre_OF_VERSION_1_3_ok [v_proved]: "v_ok loci_validate_of_bsn_vport_l2gre_OF_VERSION_1_3"
  unfolding loci_validate_of_bsn_vport_l2gre_OF_VERSION_1_3_def by (intro v_intro; simp add: v_proved v_ok_imp_k_ok)

lemma loci_validate_of_bsn_vport_l2gre_OF_VERSION_1_3_exact [x_proved]: "x_ok 2 loci_validate_of_bsn_vport_l2gre_OF_VERSION_1_3"
  unfolding loci_validate_of_bsn_vport_l2gre_OF_VERSION_1_3_def by (intro x_intro; simp add: x_proved x_ok_imp_kx_ok)

definition loci_validate_of_bsn_vport_q_in_q_OF_VERSION_1_3 :: validator where
  "loci_validate_of_bsn_vport_q_in_q_OF_VERSION_1_3 =
     v_min 32 (v_set_len 32 (v_wire_len 2 32 v_done))"

lemma loci_validate_of_bsn_vport_q_in_q_OF_VERSION_1_3_ok [v_proved]: "v_ok loci_validate_of_bsn_vport_q_in_q_OF_VERSION_1_3"
  unfolding loci_validate_of_bsn_vport_q_in_q_OF_VERSION_1_3_def by (intro v_intro; simp add: v_proved v_ok_imp_k_ok)

lemma loci_validate_of_bsn_vport_q_in_q_OF_VERSION_1_3_exact [x_proved]: "x_ok 2 loci_validate_of_bsn_vport_q_in_q_OF_VERSION_1_3"
  unfolding loci_validate_of_bsn_vport_q_in_q_OF_VERSION_1_3_def by (intro x_intro; simp add: x_proved x_ok_imp_kx_ok)

definition loci_validate_of_bsn_vport_OF_VERSION_1_3 :: validator where
  "loci_validate_of_bsn_vport_OF_VERSION_1_3 =
     v_min 4 (v_wire_len_set 2 4
     (v_switch16 0
      [(1, loci_validate_of_bsn_vport_l2gre_OF_VERSION_1_3),
       (0, loci_validate_of_bsn_vport_q_in_q_OF_VERSION_1_3)]
     v_done))"

lemma loci_validate_of_bsn_vport_OF_VERSION_1_3_ok [v_proved]: "v_ok loci_validate_of_bsn_vport_OF_VERSION_1_3"
  unfolding loci_validate_of_bsn_vport_OF_VERSION_1_3_def by (intro v_intro; simp add: v_proved v_ok_imp_k_ok)

lemma loci_validate_of_bsn_vport_OF_VERSION_1_3_exact [x_proved]: "x_ok 2 loci_validate_of_bsn_vport_OF_VERSION_1_3"
  unfolding loci_validate_of_bsn_vport_OF_VERSION_1_3_def by (intro x_intro; simp add: x_proved x_ok_imp_kx_ok)

definition loci_validate_of_match_v3_OF_VERSION_1_3 :: validator where
  "loci_validate_of_match_v3_OF_VERSION_1_3 =
     v_min 4 (v_wire_len_set 2 4
     (v_list_rest 4 loci_validate_of_list_oxm_OF_VERSION_1_3 v_done))"

lemma loci_validate_of_match_v3_OF_VERSION_1_3_ok [v_proved]: "v_ok loci_validate_of_match_v3_OF_VERSION_1_3"
  unfolding loci_validate_of_match_v3_OF_VERSION_1_3_def by (intro v_intro; simp add: v_proved v_ok_imp_k_ok)

lemma loci_validate_of_match_v3_OF_VERSION_1_3_exact [x_proved]: "x_ok 2 loci_validate_of_match_v3_OF_VERSION_1_3"
  unfolding loci_validate_of_match_v3_OF_VERSION_1_3_def by (intro x_intro; simp add: x_proved x_ok_imp_kx_ok)

definition loci_validate_of_meter_config_OF_VERSION_1_3 :: validator where
  "loci_validate_of_meter_config_OF_VERSION_1_3 =
     v_min 8 (v_wire_len_set 0 8
     (v_list_rest 8 loci_validate_of_list_meter_band_OF_VERSION_1_3 v_done))"

lemma loci_validate_of_meter_config_OF_VERSION_1_3_ok [v_proved]: "v_ok loci_validate_of_meter_config_OF_VERSION_1_3"
  unfolding loci_validate_of_meter_config_OF_VERSION_1_3_def by (intro v_intro; simp add: v_proved v_ok_imp_k_ok)

lemma loci_validate_of_meter_config_OF_VERSION_1_3_exact [x_proved]: "x_ok 0 loci_validate_of_meter_config_OF_VERSION_1_3"
  unfolding loci_validate_of_meter_config_OF_VERSION_1_3_def by (intro x_intro; simp add: x_proved x_ok_imp_kx_ok)

definition loci_validate_of_meter_features_OF_VERSION_1_3 :: validator where
  "loci_validate_of_meter_features_OF_VERSION_1_3 =
     v_min 16 (v_set_len 16 v_done)"

lemma loci_validate_of_meter_features_OF_VERSION_1_3_ok [v_proved]: "v_ok loci_validate_of_meter_features_OF_VERSION_1_3"
  unfolding loci_validate_of_meter_features_OF_VERSION_1_3_def by (intro v_intro; simp add: v_proved v_ok_imp_k_ok)

end
