(* ===== verification/Validator.thy ===== *)
theory Validator
  imports Validator10 Validator11 Validator12 Validator13 Validator14
begin

text \<open>
  The entry point of the message validator, \<open>of_validate_message\<close> in
  \<^verbatim>\<open>src/loci_validator.c\<close>, and what it guarantees about the messages it lets through.
\<close>

definition header_validator :: "int \<Rightarrow> validator option" where
  "header_validator version =
     (if version = 1 then Some loci_validate_of_header_OF_VERSION_1_0
      else if version = 2 then Some loci_validate_of_header_OF_VERSION_1_1
      else if version = 3 then Some loci_validate_of_header_OF_VERSION_1_2
      else if version = 4 then Some loci_validate_of_header_OF_VERSION_1_3
      else if version = 5 then Some loci_validate_of_header_OF_VERSION_1_4
      else None)"

text \<open>The log message of the first rejection reads the length field once more.\<close>

definition of_validate_message :: "byte list \<Rightarrow> int \<Rightarrow> int res" where
  "of_validate_message msg len =
     bnd (if len < 8 then Inr True
          else bnd (of_message_length_get msg) (\<lambda>l. Inr (len \<noteq> uint l))) (\<lambda>bad.
     if bad then bnd (of_message_length_get msg) (\<lambda>l. Inr (-1))
     else bnd (of_message_version_get msg) (\<lambda>version.
       case header_validator (uint version) of
         None \<Rightarrow> Inr (-1)
       | Some v \<Rightarrow> bnd (v msg 0 len) (\<lambda>r. Inr (if r = None then -1 else 0))))"

lemma header_validator_ok: "header_validator version = Some v \<Longrightarrow> v_ok v \<and> x_ok 2 v"
  by (auto simp: header_validator_def v_proved x_proved split: if_splits)

lemma of_validate_message_accepts:
  assumes "8 \<le> length msg"
  shows "of_validate_message msg len = Inr 0 \<longleftrightarrow>
    8 \<le> len \<and> (\<exists>v l n. of_message_length_get msg = Inr l \<and> uint l = len \<and>
       header_validator (uint (msg ! 0)) = Some v \<and> v msg 0 len = Inr (Some n))"
  using header_reads [OF assms]
  by (auto simp: of_validate_message_def bnd_Inr split: option.splits)

lemma of_validate_message_total:
  assumes "4 \<le> length msg" and "len \<le> int (length msg)"
  shows "of_validate_message msg len = Inr 0 \<or> of_validate_message msg len = Inr (-1)"
proof -
  obtain l where l: "of_message_length_get msg = Inr l"
    using u16.get_in [of 2 msg] assms(1) by (auto simp: of_message_length_get_def)
  have v: "of_message_version_get msg = Inr (msg ! 0)"
    using assms(1) rd_of_nat [of 0 msg] by (simp add: of_message_version_get_def del: length_greater_0_conv)
  show ?thesis
  proof (cases "header_validator (uint (msg ! 0))")
    case None
    then show ?thesis
      using l v by (auto simp: of_validate_message_def)
  next
    case (Some k)
    then have "bounded k msg 0 len"
      using header_validator_ok [OF Some] assms(2) v_ok_bounded by simp
    then obtain r where "k msg 0 len = Inr r"
      by (auto simp: bounded_def split: sum.splits)
    then show ?thesis
      using l v Some by (cases r) (auto simp: of_validate_message_def)
  qed
qed

text \<open>The verdict on a message depends on the message's own bytes, not on what lies behind them.\<close>

lemma of_validate_message_local:
  assumes "same_bytes len msg 0 msg' 0" and "8 \<le> len"
  shows "of_validate_message msg len = of_validate_message msg' len"
proof -
  have "of_message_length_get msg = of_message_length_get msg'"
    using same_bytes_get(2) [OF assms(1), of 2] assms(2) by (simp add: of_message_length_get_def)
  moreover have v: "of_message_version_get msg = of_message_version_get msg'"
    using same_bytes_get(1) [OF assms(1), of 0] assms(2) by (simp add: of_message_version_get_def buf_u8_get_def)
  moreover have "k msg 0 len = k msg' 0 len" if "header_validator i = Some k" for i k
    using header_validator_ok [OF that] assms(1) by (simp add: v_ok_def v_loc_def)
  ultimately show ?thesis
    by (auto simp: of_validate_message_def intro!: bnd_cong split: option.split)
qed

subsection \<open>What an accepted action list looks like\<close>

text \<open>A region cut into pieces, each as long as the 16-bit field at offset \<open>off\<close> of it says.\<close>

fun framed :: "int \<Rightarrow> byte list \<Rightarrow> int \<Rightarrow> int \<Rightarrow> int list \<Rightarrow> bool" where
  "framed off data p len [] \<longleftrightarrow> len = 0"
| "framed off data p len (n # ns) \<longleftrightarrow>
     0 < n \<and> n \<le> len \<and> buf_u16_get data (p + off) = Inr (word_of_int n) \<and> framed off data (p + n) (len - n) ns"

lemma tiles_framed: "x_ok off v \<Longrightarrow> tiles v data p len ns \<Longrightarrow> framed off data p len ns"
proof (induction ns arbitrary: p len)
  case (Cons n ns)
  then obtain w where "buf_u16_get data (p + off) = Inr w" "n = uint w"
    by (fastforce simp: x_ok_def)
  then show ?case
    using Cons by simp
qed simp

lemma flow_mods_10:
  assumes "v \<in> {loci_validate_of_flow_add_OF_VERSION_1_0, loci_validate_of_flow_delete_OF_VERSION_1_0,
      loci_validate_of_flow_delete_strict_OF_VERSION_1_0, loci_validate_of_flow_modify_OF_VERSION_1_0,
      loci_validate_of_flow_modify_strict_OF_VERSION_1_0}"
  shows "v = v_min 72 (v_wire_len_set 2 72 (v_list_rest 72 loci_validate_of_list_action_OF_VERSION_1_0 v_done))"
  using assms
  unfolding loci_validate_of_flow_add_OF_VERSION_1_0_def loci_validate_of_flow_delete_OF_VERSION_1_0_def
    loci_validate_of_flow_delete_strict_OF_VERSION_1_0_def loci_validate_of_flow_modify_OF_VERSION_1_0_def
    loci_validate_of_flow_modify_strict_OF_VERSION_1_0_def
  by blast

lemma flow_mod_10_list:
  assumes "loci_validate_of_flow_mod_OF_VERSION_1_0 msg 0 len = Inr (Some n)"
  shows "\<exists>w. buf_u16_get msg 2 = Inr w \<and> 72 \<le> uint w \<and>
    loci_validate_of_list_action_OF_VERSION_1_0 msg 72 (uint w - 72) = Inr True"
proof -
  let ?v = "v_min 72 (v_wire_len_set 2 72 (v_list_rest 72 loci_validate_of_list_action_OF_VERSION_1_0 v_done))"
  let ?k = "v_list_rest 72 loci_validate_of_list_action_OF_VERSION_1_0 v_done"
  obtain w where w: "buf_u16_get msg 2 = Inr w" "72 \<le> uint w"
    and "v_switch16 56 [(0, ?v), (3, ?v), (4, ?v), (1, ?v), (2, ?v)] ?k msg 0 (uint w) = Inr (Some n)"
    using assms
    unfolding loci_validate_of_flow_mod_OF_VERSION_1_0_def loci_validate_of_flow_add_OF_VERSION_1_0_def
      loci_validate_of_flow_delete_OF_VERSION_1_0_def loci_validate_of_flow_delete_strict_OF_VERSION_1_0_def
      loci_validate_of_flow_modify_OF_VERSION_1_0_def loci_validate_of_flow_modify_strict_OF_VERSION_1_0_def
    by (auto simp: v_min_def v_wire_len_set_def bnd_Inr split: if_splits)
  then have "?v msg 0 (uint w) = Inr (Some n) \<or> ?k msg 0 (uint w) = Inr (Some n)"
    by (auto simp: v_switch16_def bnd_Inr v_case_def split: option.splits if_splits)
  then have "?k msg 0 (uint w) = Inr (Some n)"
    using w by (auto simp: v_min_def v_wire_len_set_def split: if_splits)
  then show ?thesis
    using w by (auto simp: v_list_rest_def bnd_Inr split: if_splits)
qed

lemma header_10_cases:
  assumes "8 \<le> len" and "buf_u16_get msg 2 = Inr w" and "uint w = len" and "1 < length msg"
  shows "loci_validate_of_header_OF_VERSION_1_0 msg 0 len =
    (if msg ! 1 = 14 then loci_validate_of_flow_mod_OF_VERSION_1_0 msg 0 len
     else if msg ! 1 = 0 then loci_validate_of_hello_OF_VERSION_1_0 msg 0 len
     else loci_validate_of_header_OF_VERSION_1_0 msg 0 len)"
proof -
  have "buf_u8_get msg 1 = Inr (msg ! 1)"
    using rd_of_nat [of 1 msg] assms(4) by (simp add: buf_u8_get_def)
  then show ?thesis
    using assms(1-3)
    by (simp add: loci_validate_of_header_OF_VERSION_1_0_def v_min_def v_wire_len_set_def v_switch8_def
        v_case_def)
qed

subsection \<open>Properties\<close>

text \<open>C7: Validating a message is safe for every content: told a length the block really has (and
  the block holding the four bytes the length check reads), the validator of any OpenFlow version
  reads inside the message only, always returns, and answers 0 or -1.\<close>

theorem of_validate_message_safe:
  assumes "4 \<le> length msg" and "len \<le> int (length msg)"
  shows "of_validate_message msg len = Inr 0 \<or> of_validate_message msg len = Inr (-1)"
  by (rule of_validate_message_total [OF assms])

lemma of_validate_message_safe_witness:
  "of_validate_message [1, 0, 0, 8, 0, 0, 0, 0] 8 \<in> {Inr 0, Inr (-1)}"
  using of_validate_message_safe [of "[1, 0, 0, 8, 0, 0, 0, 0]" 8] by simp

text \<open>In an accepted OpenFlow 1.0 flow modification the bytes behind the fixed part are cut
  without remainder into actions, each as long as its own length field says. (The C code has
  three lines of validation for this; the match part is not checked at all.)\<close>

theorem flow_mod_actions_framed:
  assumes "of_validate_message msg len = Inr 0" and "len \<le> int (length msg)"
    and "msg ! 0 = 1" and "msg ! 1 = 14"
  shows "72 \<le> len \<and> (\<exists>ns. framed 2 msg 72 (len - 72) ns)"
proof -
  have "8 \<le> len"
    using assms(1) by (auto simp: of_validate_message_def bnd_Inr split: if_splits)
  then have 8: "8 \<le> length msg" "8 \<le> len"
    using assms(2) by auto
  then obtain l n where l: "of_message_length_get msg = Inr l" "uint l = len"
    and acc: "loci_validate_of_header_OF_VERSION_1_0 msg 0 len = Inr (Some n)"
    using assms(1,3) by (auto simp: of_validate_message_accepts header_validator_def)
  have "loci_validate_of_flow_mod_OF_VERSION_1_0 msg 0 len = Inr (Some n)"
    using acc header_10_cases [of len msg l] 8 l assms(4) by (auto simp: of_message_length_get_def)
  then have len: "72 \<le> len" and lst: "v_list loci_validate_of_action_OF_VERSION_1_0 msg 72 (len - 72) = Inr True"
    using flow_mod_10_list l
    by (fastforce simp: of_message_length_get_def loci_validate_of_list_action_OF_VERSION_1_0_def)+
  then obtain ns where "tiles loci_validate_of_action_OF_VERSION_1_0 msg 72 (len - 72) ns"
    using action_1_0_list.list_accepts [of 72 "len - 72" msg] assms(2) by auto
  then show ?thesis
    using len tiles_framed [OF loci_validate_of_action_OF_VERSION_1_0_exact] by blast
qed

text \<open>A flow modification with one output action.\<close>

definition sample_flow_mod :: "byte list" where
  "sample_flow_mod = [1, 14, 0, 80] @ replicate 68 0 @ [0, 0, 0, 8, 0, 1, 0, 0]"

lemma flow_mod_actions_framed_witness: "\<exists>ns. framed 2 sample_flow_mod 72 8 ns"
proof -
  have "of_validate_message sample_flow_mod 80 = Inr 0"
    by code_simp
  moreover have "length sample_flow_mod = 80" "sample_flow_mod ! 0 = 1" "sample_flow_mod ! 1 = 14"
    by (simp_all add: sample_flow_mod_def)
  ultimately show ?thesis
    using flow_mod_actions_framed [of sample_flow_mod 80] by simp
qed

text \<open>An OpenFlow 1.0 hello is accepted only when it is exactly the eight header bytes; one that
  announces a body, as later versions allow, is refused.\<close>

theorem hello_10_accepts:
  assumes "8 \<le> len" and "len \<le> int (length msg)" and "msg ! 0 = 1" and "msg ! 1 = 0"
    and "of_message_length_get msg = Inr l" and "uint l = len"
  shows "of_validate_message msg len = Inr (if len = 8 then 0 else -1)"
proof -
  have 8: "8 \<le> length msg"
    using assms(1,2) by simp
  have "loci_validate_of_header_OF_VERSION_1_0 msg 0 len = loci_validate_of_hello_OF_VERSION_1_0 msg 0 len"
    using header_10_cases [of len msg l] 8 assms by (auto simp: of_message_length_get_def)
  also have "\<dots> = Inr (if len = 8 then Some 8 else None)"
    using assms(1,5,6)
    by (simp add: loci_validate_of_hello_OF_VERSION_1_0_def v_min_def v_set_len_def v_wire_len_def
        v_done_def of_message_length_get_def)
  finally show ?thesis
    using header_reads(1) [OF 8] assms by (simp add: of_validate_message_def header_validator_def)
qed

lemma hello_10_accepts_witness: "of_validate_message [1, 0, 0, 9, 0, 0, 0, 0, 7] 9 = Inr (-1)"
proof -
  have "of_message_length_get [1, 0, 0, 9, 0, 0, 0, 0, 7] = Inr 9"
    by code_simp
  from hello_10_accepts [OF _ _ _ _ this, of 9] show ?thesis
    by simp
qed

text \<open>C18: The verdict on a message depends on the message's own bytes only: whatever lies behind the
  \<open>len\<close> bytes of the message in the receive buffer, the validator of every version gives the
  same answer.\<close>

theorem of_validate_message_own_bytes:
  assumes "8 \<le> len" and "len \<le> int (length msg)"
  shows "of_validate_message (take (nat len) msg @ behind) len = of_validate_message msg len"
  using assms by (intro of_validate_message_local) (simp_all add: same_bytes_def)

lemma of_validate_message_own_bytes_witness:
  "of_validate_message [1, 0, 0, 8, 0, 0, 0, 0, 0xff, 0xff] 8 = of_validate_message [1, 0, 0, 8, 0, 0, 0, 0] 8"
  using of_validate_message_own_bytes [of 8 "[1, 0, 0, 8, 0, 0, 0, 0]" "[0xff, 0xff]"] by simp

end
