(* ===== verification/ObjectIds.thy ===== *)
theory ObjectIds
  imports Validate
begin

text \<open>
  How a message is given its object id: the id getters \<open>..._wire_object_id_get\<close> of the generated
  class files (\<^verbatim>\<open>src/class00.c\<close> and others) that \<open>of_header_wire_object_id_get\<close> reaches, and
  the tables \<open>of_object_fixed_len\<close> of \<^verbatim>\<open>src/of_type_maps.c\<close>, which say how long an object
  of an id is at least, -1 when the version has no such object. Object ids are the numbers of the C
  enumeration \<open>of_object_id_e\<close>.
\<close>

subsection \<open>Object ids\<close>

abbreviation (input) "OF_AGGREGATE_STATS_REPLY \<equiv> (1 :: int)"
abbreviation (input) "OF_AGGREGATE_STATS_REQUEST \<equiv> (2 :: int)"
abbreviation (input) "OF_ASYNC_CONFIG_FAILED_ERROR_MSG \<equiv> (3 :: int)"
abbreviation (input) "OF_ASYNC_GET_REPLY \<equiv> (4 :: int)"
abbreviation (input) "OF_ASYNC_GET_REQUEST \<equiv> (5 :: int)"
abbreviation (input) "OF_ASYNC_SET \<equiv> (6 :: int)"
abbreviation (input) "OF_BAD_ACTION_ERROR_MSG \<equiv> (7 :: int)"
abbreviation (input) "OF_BAD_INSTRUCTION_ERROR_MSG \<equiv> (8 :: int)"
abbreviation (input) "OF_BAD_MATCH_ERROR_MSG \<equiv> (9 :: int)"
abbreviation (input) "OF_BAD_PROPERTY_ERROR_MSG \<equiv> (10 :: int)"
abbreviation (input) "OF_BAD_REQUEST_ERROR_MSG \<equiv> (11 :: int)"
abbreviation (input) "OF_BARRIER_REPLY \<equiv> (12 :: int)"
abbreviation (input) "OF_BARRIER_REQUEST \<equiv> (13 :: int)"
abbreviation (input) "OF_BSN_ARP_IDLE \<equiv> (14 :: int)"
abbreviation (input) "OF_BSN_BW_CLEAR_DATA_REPLY \<equiv> (15 :: int)"
abbreviation (input) "OF_BSN_BW_CLEAR_DATA_REQUEST \<equiv> (16 :: int)"
abbreviation (input) "OF_BSN_BW_ENABLE_GET_REPLY \<equiv> (17 :: int)"
abbreviation (input) "OF_BSN_BW_ENABLE_GET_REQUEST \<equiv> (18 :: int)"
abbreviation (input) "OF_BSN_BW_ENABLE_SET_REPLY \<equiv> (19 :: int)"
abbreviation (input) "OF_BSN_BW_ENABLE_SET_REQUEST \<equiv> (20 :: int)"
abbreviation (input) "OF_BSN_CONTROLLER_CONNECTIONS_REPLY \<equiv> (21 :: int)"
abbreviation (input) "OF_BSN_CONTROLLER_CONNECTIONS_REQUEST \<equiv> (22 :: int)"
abbreviation (input) "OF_BSN_DEBUG_COUNTER_DESC_STATS_REPLY \<equiv> (23 :: int)"
abbreviation (input) "OF_BSN_DEBUG_COUNTER_DESC_STATS_REQUEST \<equiv> (24 :: int)"
abbreviation (input) "OF_BSN_DEBUG_COUNTER_STATS_REPLY \<equiv> (25 :: int)"
abbreviation (input) "OF_BSN_DEBUG_COUNTER_STATS_REQUEST \<equiv> (26 :: int)"
abbreviation (input) "OF_BSN_FLOW_CHECKSUM_BUCKET_STATS_REPLY \<equiv> (27 :: int)"
abbreviation (input) "OF_BSN_FLOW_CHECKSUM_BUCKET_STATS_REQUEST \<equiv> (28 :: int)"
abbreviation (input) "OF_BSN_FLOW_IDLE \<equiv> (29 :: int)"
abbreviation (input) "OF_BSN_FLOW_IDLE_ENABLE_GET_REPLY \<equiv> (30 :: int)"
abbreviation (input) "OF_BSN_FLOW_IDLE_ENABLE_GET_REQUEST \<equiv> (31 :: int)"
abbreviation (input) "OF_BSN_FLOW_IDLE_ENABLE_SET_REPLY \<equiv> (32 :: int)"
abbreviation (input) "OF_BSN_FLOW_IDLE_ENABLE_SET_REQUEST \<equiv> (33 :: int)"
abbreviation (input) "OF_BSN_GENERIC_STATS_REPLY \<equiv> (34 :: int)"
abbreviation (input) "OF_BSN_GENERIC_STATS_REQUEST \<equiv> (35 :: int)"
abbreviation (input) "OF_BSN_GENTABLE_BUCKET_STATS_REPLY \<equiv> (36 :: int)"
abbreviation (input) "OF_BSN_GENTABLE_BUCKET_STATS_REQUEST \<equiv> (37 :: int)"
abbreviation (input) "OF_BSN_GENTABLE_CLEAR_REPLY \<equiv> (38 :: int)"
abbreviation (input) "OF_BSN_GENTABLE_CLEAR_REQUEST \<equiv> (39 :: int)"
abbreviation (input) "OF_BSN_GENTABLE_DESC_STATS_REPLY \<equiv> (40 :: int)"
abbreviation (input) "OF_BSN_GENTABLE_DESC_STATS_REQUEST \<equiv> (41 :: int)"
abbreviation (input) "OF_BSN_GENTABLE_ENTRY_ADD \<equiv> (42 :: int)"
abbreviation (input) "OF_BSN_GENTABLE_ENTRY_DELETE \<equiv> (43 :: int)"
abbreviation (input) "OF_BSN_GENTABLE_ENTRY_DESC_STATS_REPLY \<equiv> (44 :: int)"
abbreviation (input) "OF_BSN_GENTABLE_ENTRY_DESC_STATS_REQUEST \<equiv> (45 :: int)"
abbreviation (input) "OF_BSN_GENTABLE_ENTRY_STATS_REPLY \<equiv> (46 :: int)"
abbreviation (input) "OF_BSN_GENTABLE_ENTRY_STATS_REQUEST \<equiv> (47 :: int)"
abbreviation (input) "OF_BSN_GENTABLE_SET_BUCKETS_SIZE \<equiv> (48 :: int)"
abbreviation (input) "OF_BSN_GENTABLE_STATS_REPLY \<equiv> (49 :: int)"
abbreviation (input) "OF_BSN_GENTABLE_STATS_REQUEST \<equiv> (50 :: int)"
abbreviation (input) "OF_BSN_GET_INTERFACES_REPLY \<equiv> (51 :: int)"
abbreviation (input) "OF_BSN_GET_INTERFACES_REQUEST \<equiv> (52 :: int)"
abbreviation (input) "OF_BSN_GET_IP_MASK_REPLY \<equiv> (53 :: int)"
abbreviation (input) "OF_BSN_GET_IP_MASK_REQUEST \<equiv> (54 :: int)"
abbreviation (input) "OF_BSN_GET_L2_TABLE_REPLY \<equiv> (55 :: int)"
abbreviation (input) "OF_BSN_GET_L2_TABLE_REQUEST \<equiv> (56 :: int)"
abbreviation (input) "OF_BSN_GET_MIRRORING_REPLY \<equiv> (57 :: int)"
abbreviation (input) "OF_BSN_GET_MIRRORING_REQUEST \<equiv> (58 :: int)"
abbreviation (input) "OF_BSN_GET_SWITCH_PIPELINE_REPLY \<equiv> (59 :: int)"
abbreviation (input) "OF_BSN_GET_SWITCH_PIPELINE_REQUEST \<equiv> (60 :: int)"
abbreviation (input) "OF_BSN_HEADER \<equiv> (61 :: int)"
abbreviation (input) "OF_BSN_HYBRID_GET_REPLY \<equiv> (62 :: int)"
abbreviation (input) "OF_BSN_HYBRID_GET_REQUEST \<equiv> (63 :: int)"
abbreviation (input) "OF_BSN_IMAGE_DESC_STATS_REPLY \<equiv> (64 :: int)"
abbreviation (input) "OF_BSN_IMAGE_DESC_STATS_REQUEST \<equiv> (65 :: int)"
abbreviation (input) "OF_BSN_LACP_CONVERGENCE_NOTIF \<equiv> (66 :: int)"
abbreviation (input) "OF_BSN_LACP_STATS_REPLY \<equiv> (67 :: int)"
abbreviation (input) "OF_BSN_LACP_STATS_REQUEST \<equiv> (68 :: int)"
abbreviation (input) "OF_BSN_LOG \<equiv> (69 :: int)"
abbreviation (input) "OF_BSN_LUA_COMMAND_REPLY \<equiv> (70 :: int)"
abbreviation (input) "OF_BSN_LUA_COMMAND_REQUEST \<equiv> (71 :: int)"
abbreviation (input) "OF_BSN_LUA_NOTIFICATION \<equiv> (72 :: int)"
abbreviation (input) "OF_BSN_LUA_UPLOAD \<equiv> (73 :: int)"
abbreviation (input) "OF_BSN_PDU_RX_REPLY \<equiv> (74 :: int)"
abbreviation (input) "OF_BSN_PDU_RX_REQUEST \<equiv> (75 :: int)"
abbreviation (input) "OF_BSN_PDU_RX_TIMEOUT \<equiv> (76 :: int)"
abbreviation (input) "OF_BSN_PDU_TX_REPLY \<equiv> (77 :: int)"
abbreviation (input) "OF_BSN_PDU_TX_REQUEST \<equiv> (78 :: int)"
abbreviation (input) "OF_BSN_PORT_COUNTER_STATS_REPLY \<equiv> (79 :: int)"
abbreviation (input) "OF_BSN_PORT_COUNTER_STATS_REQUEST \<equiv> (80 :: int)"
abbreviation (input) "OF_BSN_ROLE_STATUS \<equiv> (81 :: int)"
abbreviation (input) "OF_BSN_SET_AUX_CXNS_REPLY \<equiv> (82 :: int)"
abbreviation (input) "OF_BSN_SET_AUX_CXNS_REQUEST \<equiv> (83 :: int)"
abbreviation (input) "OF_BSN_SET_IP_MASK \<equiv> (84 :: int)"
abbreviation (input) "OF_BSN_SET_L2_TABLE_REPLY \<equiv> (85 :: int)"
abbreviation (input) "OF_BSN_SET_L2_TABLE_REQUEST \<equiv> (86 :: int)"
abbreviation (input) "OF_BSN_SET_LACP_REPLY \<equiv> (87 :: int)"
abbreviation (input) "OF_BSN_SET_LACP_REQUEST \<equiv> (88 :: int)"
abbreviation (input) "OF_BSN_SET_MIRRORING \<equiv> (89 :: int)"
abbreviation (input) "OF_BSN_SET_PKTIN_SUPPRESSION_REPLY \<equiv> (90 :: int)"
abbreviation (input) "OF_BSN_SET_PKTIN_SUPPRESSION_REQUEST \<equiv> (91 :: int)"
abbreviation (input) "OF_BSN_SET_SWITCH_PIPELINE_REPLY \<equiv> (92 :: int)"
abbreviation (input) "OF_BSN_SET_SWITCH_PIPELINE_REQUEST \<equiv> (93 :: int)"
abbreviation (input) "OF_BSN_SHELL_COMMAND \<equiv> (94 :: int)"
abbreviation (input) "OF_BSN_SHELL_OUTPUT \<equiv> (95 :: int)"
abbreviation (input) "OF_BSN_SHELL_STATUS \<equiv> (96 :: int)"
abbreviation (input) "OF_BSN_STATS_REPLY \<equiv> (97 :: int)"
abbreviation (input) "OF_BSN_STATS_REQUEST \<equiv> (98 :: int)"
abbreviation (input) "OF_BSN_SWITCH_PIPELINE_STATS_REPLY \<equiv> (99 :: int)"
abbreviation (input) "OF_BSN_SWITCH_PIPELINE_STATS_REQUEST \<equiv> (100 :: int)"
abbreviation (input) "OF_BSN_TABLE_CHECKSUM_STATS_REPLY \<equiv> (101 :: int)"
abbreviation (input) "OF_BSN_TABLE_CHECKSUM_STATS_REQUEST \<equiv> (102 :: int)"
abbreviation (input) "OF_BSN_TABLE_SET_BUCKETS_SIZE \<equiv> (103 :: int)"
abbreviation (input) "OF_BSN_TIME_REPLY \<equiv> (104 :: int)"
abbreviation (input) "OF_BSN_TIME_REQUEST \<equiv> (105 :: int)"
abbreviation (input) "OF_BSN_VIRTUAL_PORT_CREATE_REPLY \<equiv> (106 :: int)"
abbreviation (input) "OF_BSN_VIRTUAL_PORT_CREATE_REQUEST \<equiv> (107 :: int)"
abbreviation (input) "OF_BSN_VIRTUAL_PORT_REMOVE_REPLY \<equiv> (108 :: int)"
abbreviation (input) "OF_BSN_VIRTUAL_PORT_REMOVE_REQUEST \<equiv> (109 :: int)"
abbreviation (input) "OF_BSN_VLAN_COUNTER_STATS_REPLY \<equiv> (110 :: int)"
abbreviation (input) "OF_BSN_VLAN_COUNTER_STATS_REQUEST \<equiv> (111 :: int)"
abbreviation (input) "OF_BSN_VRF_COUNTER_STATS_REPLY \<equiv> (112 :: int)"
abbreviation (input) "OF_BSN_VRF_COUNTER_STATS_REQUEST \<equiv> (113 :: int)"
abbreviation (input) "OF_BUNDLE_ADD_MSG \<equiv> (114 :: int)"
abbreviation (input) "OF_BUNDLE_CTRL_MSG \<equiv> (115 :: int)"
abbreviation (input) "OF_BUNDLE_FAILED_ERROR_MSG \<equiv> (116 :: int)"
abbreviation (input) "OF_DESC_STATS_REPLY \<equiv> (117 :: int)"
abbreviation (input) "OF_DESC_STATS_REQUEST \<equiv> (118 :: int)"
abbreviation (input) "OF_ECHO_REPLY \<equiv> (119 :: int)"
abbreviation (input) "OF_ECHO_REQUEST \<equiv> (120 :: int)"
abbreviation (input) "OF_ERROR_MSG \<equiv> (121 :: int)"
abbreviation (input) "OF_EXPERIMENTER \<equiv> (122 :: int)"
abbreviation (input) "OF_EXPERIMENTER_ERROR_MSG \<equiv> (123 :: int)"
abbreviation (input) "OF_EXPERIMENTER_STATS_REPLY \<equiv> (124 :: int)"
abbreviation (input) "OF_EXPERIMENTER_STATS_REQUEST \<equiv> (125 :: int)"
abbreviation (input) "OF_FEATURES_REPLY \<equiv> (126 :: int)"
abbreviation (input) "OF_FEATURES_REQUEST \<equiv> (127 :: int)"
abbreviation (input) "OF_FLOW_ADD \<equiv> (128 :: int)"
abbreviation (input) "OF_FLOW_DELETE \<equiv> (129 :: int)"
abbreviation (input) "OF_FLOW_DELETE_STRICT \<equiv> (130 :: int)"
abbreviation (input) "OF_FLOW_MOD \<equiv> (131 :: int)"
abbreviation (input) "OF_FLOW_MOD_FAILED_ERROR_MSG \<equiv> (132 :: int)"
abbreviation (input) "OF_FLOW_MODIFY \<equiv> (133 :: int)"
abbreviation (input) "OF_FLOW_MODIFY_STRICT \<equiv> (134 :: int)"
abbreviation (input) "OF_FLOW_MONITOR_FAILED_ERROR_MSG \<equiv> (135 :: int)"
abbreviation (input) "OF_FLOW_REMOVED \<equiv> (136 :: int)"
abbreviation (input) "OF_FLOW_STATS_REPLY \<equiv> (137 :: int)"
abbreviation (input) "OF_FLOW_STATS_REQUEST \<equiv> (138 :: int)"
abbreviation (input) "OF_GET_CONFIG_REPLY \<equiv> (139 :: int)"
abbreviation (input) "OF_GET_CONFIG_REQUEST \<equiv> (140 :: int)"
abbreviation (input) "OF_GROUP_ADD \<equiv> (141 :: int)"
abbreviation (input) "OF_GROUP_DELETE \<equiv> (142 :: int)"
abbreviation (input) "OF_GROUP_DESC_STATS_REPLY \<equiv> (143 :: int)"
abbreviation (input) "OF_GROUP_DESC_STATS_REQUEST \<equiv> (144 :: int)"
abbreviation (input) "OF_GROUP_FEATURES_STATS_REPLY \<equiv> (145 :: int)"
abbreviation (input) "OF_GROUP_FEATURES_STATS_REQUEST \<equiv> (146 :: int)"
abbreviation (input) "OF_GROUP_MOD \<equiv> (147 :: int)"
abbreviation (input) "OF_GROUP_MOD_FAILED_ERROR_MSG \<equiv> (148 :: int)"
abbreviation (input) "OF_GROUP_MODIFY \<equiv> (149 :: int)"
abbreviation (input) "OF_GROUP_STATS_REPLY \<equiv> (150 :: int)"
abbreviation (input) "OF_GROUP_STATS_REQUEST \<equiv> (151 :: int)"
abbreviation (input) "OF_HEADER \<equiv> (152 :: int)"
abbreviation (input) "OF_HELLO \<equiv> (153 :: int)"
abbreviation (input) "OF_HELLO_FAILED_ERROR_MSG \<equiv> (154 :: int)"
abbreviation (input) "OF_METER_CONFIG_STATS_REPLY \<equiv> (155 :: int)"
abbreviation (input) "OF_METER_CONFIG_STATS_REQUEST \<equiv> (156 :: int)"
abbreviation (input) "OF_METER_FEATURES_STATS_REPLY \<equiv> (157 :: int)"
abbreviation (input) "OF_METER_FEATURES_STATS_REQUEST \<equiv> (158 :: int)"
abbreviation (input) "OF_METER_MOD \<equiv> (159 :: int)"
abbreviation (input) "OF_METER_MOD_FAILED_ERROR_MSG \<equiv> (160 :: int)"
abbreviation (input) "OF_METER_STATS_REPLY \<equiv> (161 :: int)"
abbreviation (input) "OF_METER_STATS_REQUEST \<equiv> (162 :: int)"
abbreviation (input) "OF_NICIRA_CONTROLLER_ROLE_REPLY \<equiv> (163 :: int)"
abbreviation (input) "OF_NICIRA_CONTROLLER_ROLE_REQUEST \<equiv> (164 :: int)"
abbreviation (input) "OF_NICIRA_HEADER \<equiv> (165 :: int)"
abbreviation (input) "OF_PACKET_IN \<equiv> (166 :: int)"
abbreviation (input) "OF_PACKET_OUT \<equiv> (167 :: int)"
abbreviation (input) "OF_PORT_DESC_STATS_REPLY \<equiv> (168 :: int)"
abbreviation (input) "OF_PORT_DESC_STATS_REQUEST \<equiv> (169 :: int)"
abbreviation (input) "OF_PORT_MOD \<equiv> (170 :: int)"
abbreviation (input) "OF_PORT_MOD_FAILED_ERROR_MSG \<equiv> (171 :: int)"
abbreviation (input) "OF_PORT_STATS_REPLY \<equiv> (172 :: int)"
abbreviation (input) "OF_PORT_STATS_REQUEST \<equiv> (173 :: int)"
abbreviation (input) "OF_PORT_STATUS \<equiv> (174 :: int)"
abbreviation (input) "OF_QUEUE_DESC_STATS_REPLY \<equiv> (175 :: int)"
abbreviation (input) "OF_QUEUE_DESC_STATS_REQUEST \<equiv> (176 :: int)"
abbreviation (input) "OF_QUEUE_GET_CONFIG_REPLY \<equiv> (177 :: int)"
abbreviation (input) "OF_QUEUE_GET_CONFIG_REQUEST \<equiv> (178 :: int)"
abbreviation (input) "OF_QUEUE_OP_FAILED_ERROR_MSG \<equiv> (179 :: int)"
abbreviation (input) "OF_QUEUE_STATS_REPLY \<equiv> (180 :: int)"
abbreviation (input) "OF_QUEUE_STATS_REQUEST \<equiv> (181 :: int)"
abbreviation (input) "OF_REQUESTFORWARD \<equiv> (182 :: int)"
abbreviation (input) "OF_ROLE_REPLY \<equiv> (183 :: int)"
abbreviation (input) "OF_ROLE_REQUEST \<equiv> (184 :: int)"
abbreviation (input) "OF_ROLE_REQUEST_FAILED_ERROR_MSG \<equiv> (185 :: int)"
abbreviation (input) "OF_ROLE_STATUS \<equiv> (186 :: int)"
abbreviation (input) "OF_SET_CONFIG \<equiv> (187 :: int)"
abbreviation (input) "OF_STATS_REPLY \<equiv> (188 :: int)"
abbreviation (input) "OF_STATS_REQUEST \<equiv> (189 :: int)"
abbreviation (input) "OF_SWITCH_CONFIG_FAILED_ERROR_MSG \<equiv> (190 :: int)"
abbreviation (input) "OF_TABLE_DESC_STATS_REPLY \<equiv> (191 :: int)"
abbreviation (input) "OF_TABLE_DESC_STATS_REQUEST \<equiv> (192 :: int)"
abbreviation (input) "OF_TABLE_FEATURES_FAILED_ERROR_MSG \<equiv> (193 :: int)"
abbreviation (input) "OF_TABLE_FEATURES_STATS_REPLY \<equiv> (194 :: int)"
abbreviation (input) "OF_TABLE_FEATURES_STATS_REQUEST \<equiv> (195 :: int)"
abbreviation (input) "OF_TABLE_MOD \<equiv> (196 :: int)"
abbreviation (input) "OF_TABLE_MOD_FAILED_ERROR_MSG \<equiv> (197 :: int)"
abbreviation (input) "OF_TABLE_STATS_REPLY \<equiv> (198 :: int)"
abbreviation (input) "OF_TABLE_STATS_REQUEST \<equiv> (199 :: int)"
abbreviation (input) "OF_TABLE_STATUS \<equiv> (200 :: int)"

subsection \<open>The id getters\<close>

text \<open>
  A getter reads a type field of the message, a raw pointer into the wire buffer's block, and maps
  it through a \<open>switch\<close>: to an id, to another getter, or to the default id.
\<close>

type_synonym getter = "byte list \<Rightarrow> int \<Rightarrow> int res"

definition d_id :: "int \<Rightarrow> getter" where
  "d_id i buf p = Inr i"

definition d_assert :: getter where
  "d_assert buf p = Inl AssertFail"

definition d_case :: "(int \<times> getter) list \<Rightarrow> int \<Rightarrow> int \<Rightarrow> getter" where
  "d_case cases t dflt = (case map_of cases t of None \<Rightarrow> d_id dflt | Some d \<Rightarrow> d)"

definition d_switch8 :: "int \<Rightarrow> (int \<times> getter) list \<Rightarrow> int \<Rightarrow> getter" where
  "d_switch8 off cases dflt buf p = bnd (buf_u8_get buf (p + off)) (\<lambda>v. d_case cases (uint v) dflt buf p)"

definition d_switch16 :: "int \<Rightarrow> (int \<times> getter) list \<Rightarrow> int \<Rightarrow> getter" where
  "d_switch16 off cases dflt buf p = bnd (buf_u16_get buf (p + off)) (\<lambda>v. d_case cases (uint v) dflt buf p)"

definition d_switch32 :: "int \<Rightarrow> (int \<times> getter) list \<Rightarrow> int \<Rightarrow> getter" where
  "d_switch32 off cases dflt buf p = bnd (buf_u32_get buf (p + off)) (\<lambda>v. d_case cases (uint v) dflt buf p)"

definition of_error_msg_wire_object_id_get :: "int \<Rightarrow> getter" where
  "of_error_msg_wire_object_id_get version =
     (if version = 1 then
       d_switch16 8
        [(0, d_id OF_HELLO_FAILED_ERROR_MSG),
         (1, d_id OF_BAD_REQUEST_ERROR_MSG),
         (2, d_id OF_BAD_ACTION_ERROR_MSG),
         (3, d_id OF_FLOW_MOD_FAILED_ERROR_MSG),
         (4, d_id OF_PORT_MOD_FAILED_ERROR_MSG),
         (5, d_id OF_QUEUE_OP_FAILED_ERROR_MSG)]
        OF_ERROR_MSG
      else if version = 2 then
       d_switch16 8
        [(0, d_id OF_HELLO_FAILED_ERROR_MSG),
         (1, d_id OF_BAD_REQUEST_ERROR_MSG),
         (2, d_id OF_BAD_ACTION_ERROR_MSG),
         (3, d_id OF_BAD_INSTRUCTION_ERROR_MSG),
         (4, d_id OF_BAD_MATCH_ERROR_MSG),
         (5, d_id OF_FLOW_MOD_FAILED_ERROR_MSG),
         (6, d_id OF_GROUP_MOD_FAILED_ERROR_MSG),
         (7, d_id OF_PORT_MOD_FAILED_ERROR_MSG),
         (8, d_id OF_TABLE_MOD_FAILED_ERROR_MSG),
         (9, d_id OF_QUEUE_OP_FAILED_ERROR_MSG),
         (0xa, d_id OF_SWITCH_CONFIG_FAILED_ERROR_MSG)]
        OF_ERROR_MSG
      else if version = 3 then
       d_switch16 8
        [(0, d_id OF_HELLO_FAILED_ERROR_MSG),
         (1, d_id OF_BAD_REQUEST_ERROR_MSG),
         (2, d_id OF_BAD_ACTION_ERROR_MSG),
         (3, d_id OF_BAD_INSTRUCTION_ERROR_MSG),
         (4, d_id OF_BAD_MATCH_ERROR_MSG),
         (5, d_id OF_FLOW_MOD_FAILED_ERROR_MSG),
         (6, d_id OF_GROUP_MOD_FAILED_ERROR_MSG),
         (7, d_id OF_PORT_MOD_FAILED_ERROR_MSG),
         (8, d_id OF_TABLE_MOD_FAILED_ERROR_MSG),
         (9, d_id OF_QUEUE_OP_FAILED_ERROR_MSG),
         (0xa, d_id OF_SWITCH_CONFIG_FAILED_ERROR_MSG),
         (0xb, d_id OF_ROLE_REQUEST_FAILED_ERROR_MSG),
         (0xffff, d_id OF_EXPERIMENTER_ERROR_MSG)]
        OF_ERROR_MSG
      else if version = 4 then
       d_switch16 8
        [(0, d_id OF_HELLO_FAILED_ERROR_MSG),
         (1, d_id OF_BAD_REQUEST_ERROR_MSG),
         (2, d_id OF_BAD_ACTION_ERROR_MSG),
         (3, d_id OF_BAD_INSTRUCTION_ERROR_MSG),
         (4, d_id OF_BAD_MATCH_ERROR_MSG),
         (5, d_id OF_FLOW_MOD_FAILED_ERROR_MSG),
         (6, d_id OF_GROUP_MOD_FAILED_ERROR_MSG),
         (7, d_id OF_PORT_MOD_FAILED_ERROR_MSG),
         (8, d_id OF_TABLE_MOD_FAILED_ERROR_MSG),
         (9, d_id OF_QUEUE_OP_FAILED_ERROR_MSG),
         (0xa, d_id OF_SWITCH_CONFIG_FAILED_ERROR_MSG),
         (0xb, d_id OF_ROLE_REQUEST_FAILED_ERROR_MSG),
         (0xc, d_id OF_METER_MOD_FAILED_ERROR_MSG),
         (0xd, d_id OF_TABLE_FEATURES_FAILED_ERROR_MSG),
         (0xffff, d_id OF_EXPERIMENTER_ERROR_MSG)]
        OF_ERROR_MSG
      else if version = 5 then
       d_switch16 8
        [(0, d_id OF_HELLO_FAILED_ERROR_MSG),
         (1, d_id OF_BAD_REQUEST_ERROR_MSG),
         (2, d_id OF_BAD_ACTION_ERROR_MSG),
         (3, d_id OF_BAD_INSTRUCTION_ERROR_MSG),
         (4, d_id OF_BAD_MATCH_ERROR_MSG),
         (5, d_id OF_FLOW_MOD_FAILED_ERROR_MSG),
         (6, d_id OF_GROUP_MOD_FAILED_ERROR_MSG),
         (7, d_id OF_PORT_MOD_FAILED_ERROR_MSG),
         (8, d_id OF_TABLE_MOD_FAILED_ERROR_MSG),
         (9, d_id OF_QUEUE_OP_FAILED_ERROR_MSG),
         (0xa, d_id OF_SWITCH_CONFIG_FAILED_ERROR_MSG),
         (0xb, d_id OF_ROLE_REQUEST_FAILED_ERROR_MSG),
         (0xc, d_id OF_METER_MOD_FAILED_ERROR_MSG),
         (0xd, d_id OF_TABLE_FEATURES_FAILED_ERROR_MSG),
         (0xe, d_id OF_BAD_PROPERTY_ERROR_MSG),
         (0xf, d_id OF_ASYNC_CONFIG_FAILED_ERROR_MSG),
         (0x10, d_id OF_FLOW_MONITOR_FAILED_ERROR_MSG),
         (0x11, d_id OF_BUNDLE_FAILED_ERROR_MSG),
         (0xffff, d_id OF_EXPERIMENTER_ERROR_MSG)]
        OF_ERROR_MSG
      else d_assert)"

definition of_nicira_header_wire_object_id_get :: "int \<Rightarrow> getter" where
  "of_nicira_header_wire_object_id_get version =
     (if version = 1 then
       d_switch32 12
        [(0xa, d_id OF_NICIRA_CONTROLLER_ROLE_REQUEST),
         (0xb, d_id OF_NICIRA_CONTROLLER_ROLE_REPLY)]
        OF_NICIRA_HEADER
      else if version = 2 then
       d_switch32 12
        []
        OF_NICIRA_HEADER
      else if version = 3 then
       d_switch32 12
        []
        OF_NICIRA_HEADER
      else if version = 4 then
       d_switch32 12
        []
        OF_NICIRA_HEADER
      else if version = 5 then
       d_switch32 12
        []
        OF_NICIRA_HEADER
      else d_assert)"

definition of_bsn_header_wire_object_id_get :: "int \<Rightarrow> getter" where
  "of_bsn_header_wire_object_id_get version =
     (if version = 1 then
       d_switch32 12
        [(0, d_id OF_BSN_SET_IP_MASK),
         (1, d_id OF_BSN_GET_IP_MASK_REQUEST),
         (2, d_id OF_BSN_GET_IP_MASK_REPLY),
         (3, d_id OF_BSN_SET_MIRRORING),
         (4, d_id OF_BSN_GET_MIRRORING_REQUEST),
         (5, d_id OF_BSN_GET_MIRRORING_REPLY),
         (6, d_id OF_BSN_SHELL_COMMAND),
         (7, d_id OF_BSN_SHELL_OUTPUT),
         (8, d_id OF_BSN_SHELL_STATUS),
         (9, d_id OF_BSN_GET_INTERFACES_REQUEST),
         (0xa, d_id OF_BSN_GET_INTERFACES_REPLY),
         (0xb, d_id OF_BSN_SET_PKTIN_SUPPRESSION_REQUEST),
         (0xc, d_id OF_BSN_SET_L2_TABLE_REQUEST),
         (0xd, d_id OF_BSN_GET_L2_TABLE_REQUEST),
         (0xe, d_id OF_BSN_GET_L2_TABLE_REPLY),
         (0xf, d_id OF_BSN_VIRTUAL_PORT_CREATE_REQUEST),
         (0x10, d_id OF_BSN_VIRTUAL_PORT_CREATE_REPLY),
         (0x11, d_id OF_BSN_VIRTUAL_PORT_REMOVE_REQUEST),
         (0x12, d_id OF_BSN_BW_ENABLE_SET_REQUEST),
         (0x13, d_id OF_BSN_BW_ENABLE_GET_REQUEST),
         (0x14, d_id OF_BSN_BW_ENABLE_GET_REPLY),
         (0x15, d_id OF_BSN_BW_CLEAR_DATA_REQUEST),
         (0x16, d_id OF_BSN_BW_CLEAR_DATA_REPLY),
         (0x17, d_id OF_BSN_BW_ENABLE_SET_REPLY),
         (0x18, d_id OF_BSN_SET_L2_TABLE_REPLY),
         (0x19, d_id OF_BSN_SET_PKTIN_SUPPRESSION_REPLY),
         (0x1a, d_id OF_BSN_VIRTUAL_PORT_REMOVE_REPLY),
         (0x1b, d_id OF_BSN_HYBRID_GET_REQUEST),
         (0x1c, d_id OF_BSN_HYBRID_GET_REPLY),
         (0x1f, d_id OF_BSN_PDU_TX_REQUEST),
         (0x20, d_id OF_BSN_PDU_TX_REPLY),
         (0x21, d_id OF_BSN_PDU_RX_REQUEST),
         (0x22, d_id OF_BSN_PDU_RX_REPLY),
         (0x23, d_id OF_BSN_PDU_RX_TIMEOUT)]
        OF_BSN_HEADER
      else if version = 2 then
       d_switch32 12
        [(3, d_id OF_BSN_SET_MIRRORING),
         (4, d_id OF_BSN_GET_MIRRORING_REQUEST),
         (5, d_id OF_BSN_GET_MIRRORING_REPLY),
         (9, d_id OF_BSN_GET_INTERFACES_REQUEST),
         (0xa, d_id OF_BSN_GET_INTERFACES_REPLY),
         (0xb, d_id OF_BSN_SET_PKTIN_SUPPRESSION_REQUEST),
         (0xf, d_id OF_BSN_VIRTUAL_PORT_CREATE_REQUEST),
         (0x10, d_id OF_BSN_VIRTUAL_PORT_CREATE_REPLY),
         (0x11, d_id OF_BSN_VIRTUAL_PORT_REMOVE_REQUEST),
         (0x12, d_id OF_BSN_BW_ENABLE_SET_REQUEST),
         (0x13, d_id OF_BSN_BW_ENABLE_GET_REQUEST),
         (0x14, d_id OF_BSN_BW_ENABLE_GET_REPLY),
         (0x15, d_id OF_BSN_BW_CLEAR_DATA_REQUEST),
         (0x16, d_id OF_BSN_BW_CLEAR_DATA_REPLY),
         (0x17, d_id OF_BSN_BW_ENABLE_SET_REPLY),
         (0x19, d_id OF_BSN_SET_PKTIN_SUPPRESSION_REPLY),
         (0x1a, d_id OF_BSN_VIRTUAL_PORT_REMOVE_REPLY),
         (0x1f, d_id OF_BSN_PDU_TX_REQUEST),
         (0x20, d_id OF_BSN_PDU_TX_REPLY),
         (0x21, d_id OF_BSN_PDU_RX_REQUEST),
         (0x22, d_id OF_BSN_PDU_RX_REPLY),
         (0x23, d_id OF_BSN_PDU_RX_TIMEOUT)]
        OF_BSN_HEADER
      else if version = 3 then
       d_switch32 12
        [(3, d_id OF_BSN_SET_MIRRORING),
         (4, d_id OF_BSN_GET_MIRRORING_REQUEST),
         (5, d_id OF_BSN_GET_MIRRORING_REPLY),
         (9, d_id OF_BSN_GET_INTERFACES_REQUEST),
         (0xa, d_id OF_BSN_GET_INTERFACES_REPLY),
         (0xb, d_id OF_BSN_SET_PKTIN_SUPPRESSION_REQUEST),
         (0xf, d_id OF_BSN_VIRTUAL_PORT_CREATE_REQUEST),
         (0x10, d_id OF_BSN_VIRTUAL_PORT_CREATE_REPLY),
         (0x11, d_id OF_BSN_VIRTUAL_PORT_REMOVE_REQUEST),
         (0x12, d_id OF_BSN_BW_ENABLE_SET_REQUEST),
         (0x13, d_id OF_BSN_BW_ENABLE_GET_REQUEST),
         (0x14, d_id OF_BSN_BW_ENABLE_GET_REPLY),
         (0x15, d_id OF_BSN_BW_CLEAR_DATA_REQUEST),
         (0x16, d_id OF_BSN_BW_CLEAR_DATA_REPLY),
         (0x17, d_id OF_BSN_BW_ENABLE_SET_REPLY),
         (0x19, d_id OF_BSN_SET_PKTIN_SUPPRESSION_REPLY),
         (0x1a, d_id OF_BSN_VIRTUAL_PORT_REMOVE_REPLY),
         (0x1f, d_id OF_BSN_PDU_TX_REQUEST),
         (0x20, d_id OF_BSN_PDU_TX_REPLY),
         (0x21, d_id OF_BSN_PDU_RX_REQUEST),
         (0x22, d_id OF_BSN_PDU_RX_REPLY),
         (0x23, d_id OF_BSN_PDU_RX_TIMEOUT)]
        OF_BSN_HEADER
      else if version = 4 then
       d_switch32 12
        [(3, d_id OF_BSN_SET_MIRRORING),
         (4, d_id OF_BSN_GET_MIRRORING_REQUEST),
         (5, d_id OF_BSN_GET_MIRRORING_REPLY),
         (9, d_id OF_BSN_GET_INTERFACES_REQUEST),
         (0xa, d_id OF_BSN_GET_INTERFACES_REPLY),
         (0xb, d_id OF_BSN_SET_PKTIN_SUPPRESSION_REQUEST),
         (0xf, d_id OF_BSN_VIRTUAL_PORT_CREATE_REQUEST),
         (0x10, d_id OF_BSN_VIRTUAL_PORT_CREATE_REPLY),
         (0x11, d_id OF_BSN_VIRTUAL_PORT_REMOVE_REQUEST),
         (0x12, d_id OF_BSN_BW_ENABLE_SET_REQUEST),
         (0x13, d_id OF_BSN_BW_ENABLE_GET_REQUEST),
         (0x14, d_id OF_BSN_BW_ENABLE_GET_REPLY),
         (0x15, d_id OF_BSN_BW_CLEAR_DATA_REQUEST),
         (0x16, d_id OF_BSN_BW_CLEAR_DATA_REPLY),
         (0x17, d_id OF_BSN_BW_ENABLE_SET_REPLY),
         (0x19, d_id OF_BSN_SET_PKTIN_SUPPRESSION_REPLY),
         (0x1a, d_id OF_BSN_VIRTUAL_PORT_REMOVE_REPLY),
         (0x1f, d_id OF_BSN_PDU_TX_REQUEST),
         (0x20, d_id OF_BSN_PDU_TX_REPLY),
         (0x21, d_id OF_BSN_PDU_RX_REQUEST),
         (0x22, d_id OF_BSN_PDU_RX_REPLY),
         (0x23, d_id OF_BSN_PDU_RX_TIMEOUT),
         (0x24, d_id OF_BSN_FLOW_IDLE_ENABLE_SET_REQUEST),
         (0x25, d_id OF_BSN_FLOW_IDLE_ENABLE_SET_REPLY),
         (0x26, d_id OF_BSN_FLOW_IDLE_ENABLE_GET_REQUEST),
         (0x27, d_id OF_BSN_FLOW_IDLE_ENABLE_GET_REPLY),
         (0x28, d_id OF_BSN_FLOW_IDLE),
         (0x29, d_id OF_BSN_SET_LACP_REQUEST),
         (0x2a, d_id OF_BSN_SET_LACP_REPLY),
         (0x2b, d_id OF_BSN_LACP_CONVERGENCE_NOTIF),
         (0x2c, d_id OF_BSN_TIME_REQUEST),
         (0x2d, d_id OF_BSN_TIME_REPLY),
         (0x2e, d_id OF_BSN_GENTABLE_ENTRY_ADD),
         (0x2f, d_id OF_BSN_GENTABLE_ENTRY_DELETE),
         (0x30, d_id OF_BSN_GENTABLE_CLEAR_REQUEST),
         (0x31, d_id OF_BSN_GENTABLE_CLEAR_REPLY),
         (0x32, d_id OF_BSN_GENTABLE_SET_BUCKETS_SIZE),
         (0x33, d_id OF_BSN_GET_SWITCH_PIPELINE_REQUEST),
         (0x34, d_id OF_BSN_GET_SWITCH_PIPELINE_REPLY),
         (0x35, d_id OF_BSN_SET_SWITCH_PIPELINE_REQUEST),
         (0x36, d_id OF_BSN_SET_SWITCH_PIPELINE_REPLY),
         (0x37, d_id OF_BSN_ROLE_STATUS),
         (0x38, d_id OF_BSN_CONTROLLER_CONNECTIONS_REQUEST),
         (0x39, d_id OF_BSN_CONTROLLER_CONNECTIONS_REPLY),
         (0x3a, d_id OF_BSN_SET_AUX_CXNS_REQUEST),
         (0x3b, d_id OF_BSN_SET_AUX_CXNS_REPLY),
         (0x3c, d_id OF_BSN_ARP_IDLE),
         (0x3d, d_id OF_BSN_TABLE_SET_BUCKETS_SIZE),
         (0x3f, d_id OF_BSN_LOG),
         (0x40, d_id OF_BSN_LUA_UPLOAD),
         (0x41, d_id OF_BSN_LUA_COMMAND_REQUEST),
         (0x42, d_id OF_BSN_LUA_COMMAND_REPLY),
         (0x43, d_id OF_BSN_LUA_NOTIFICATION)]
        OF_BSN_HEADER
      else if version = 5 then
       d_switch32 12
        [(3, d_id OF_BSN_SET_MIRRORING),
         (4, d_id OF_BSN_GET_MIRRORING_REQUEST),
         (5, d_id OF_BSN_GET_MIRRORING_REPLY),
         (9, d_id OF_BSN_GET_INTERFACES_REQUEST),
         (0xa, d_id OF_BSN_GET_INTERFACES_REPLY),
         (0xb, d_id OF_BSN_SET_PKTIN_SUPPRESSION_REQUEST),
         (0xf, d_id OF_BSN_VIRTUAL_PORT_CREATE_REQUEST),
         (0x10, d_id OF_BSN_VIRTUAL_PORT_CREATE_REPLY),
         (0x11, d_id OF_BSN_VIRTUAL_PORT_REMOVE_REQUEST),
         (0x12, d_id OF_BSN_BW_ENABLE_SET_REQUEST),
         (0x13, d_id OF_BSN_BW_ENABLE_GET_REQUEST),
         (0x14, d_id OF_BSN_BW_ENABLE_GET_REPLY),
         (0x15, d_id OF_BSN_BW_CLEAR_DATA_REQUEST),
         (0x16, d_id OF_BSN_BW_CLEAR_DATA_REPLY),
         (0x17, d_id OF_BSN_BW_ENABLE_SET_REPLY),
         (0x19, d_id OF_BSN_SET_PKTIN_SUPPRESSION_REPLY),
         (0x1a, d_id OF_BSN_VIRTUAL_PORT_REMOVE_REPLY),
         (0x1f, d_id OF_BSN_PDU_TX_REQUEST),
         (0x20, d_id OF_BSN_PDU_TX_REPLY),
         (0x21, d_id OF_BSN_PDU_RX_REQUEST),
         (0x22, d_id OF_BSN_PDU_RX_REPLY),
         (0x23, d_id OF_BSN_PDU_RX_TIMEOUT),
         (0x24, d_id OF_BSN_FLOW_IDLE_ENABLE_SET_REQUEST),
         (0x25, d_id OF_BSN_FLOW_IDLE_ENABLE_SET_REPLY),
         (0x26, d_id OF_BSN_FLOW_IDLE_ENABLE_GET_REQUEST),
         (0x27, d_id OF_BSN_FLOW_IDLE_ENABLE_GET_REPLY),
         (0x28, d_id OF_BSN_FLOW_IDLE),
         (0x29, d_id OF_BSN_SET_LACP_REQUEST),
         (0x2a, d_id OF_BSN_SET_LACP_REPLY),
         (0x2b, d_id OF_BSN_LACP_CONVERGENCE_NOTIF),
         (0x2c, d_id OF_BSN_TIME_REQUEST),
         (0x2d, d_id OF_BSN_TIME_REPLY),
         (0x2e, d_id OF_BSN_GENTABLE_ENTRY_ADD),
         (0x2f, d_id OF_BSN_GENTABLE_ENTRY_DELETE),
         (0x30, d_id OF_BSN_GENTABLE_CLEAR_REQUEST),
         (0x31, d_id OF_BSN_GENTABLE_CLEAR_REPLY),
         (0x32, d_id OF_BSN_GENTABLE_SET_BUCKETS_SIZE),
         (0x33, d_id OF_BSN_GET_SWITCH_PIPELINE_REQUEST),
         (0x34, d_id OF_BSN_GET_SWITCH_PIPELINE_REPLY),
         (0x35, d_id OF_BSN_SET_SWITCH_PIPELINE_REQUEST),
         (0x36, d_id OF_BSN_SET_SWITCH_PIPELINE_REPLY),
         (0x38, d_id OF_BSN_CONTROLLER_CONNECTIONS_REQUEST),
         (0x39, d_id OF_BSN_CONTROLLER_CONNECTIONS_REPLY),
         (0x3a, d_id OF_BSN_SET_AUX_CXNS_REQUEST),
         (0x3b, d_id OF_BSN_SET_AUX_CXNS_REPLY),
         (0x3c, d_id OF_BSN_ARP_IDLE),
         (0x3d, d_id OF_BSN_TABLE_SET_BUCKETS_SIZE),
         (0x3f, d_id OF_BSN_LOG),
         (0x40, d_id OF_BSN_LUA_UPLOAD),
         (0x41, d_id OF_BSN_LUA_COMMAND_REQUEST),
         (0x42, d_id OF_BSN_LUA_COMMAND_REPLY),
         (0x43, d_id OF_BSN_LUA_NOTIFICATION)]
        OF_BSN_HEADER
      else d_assert)"

definition of_experimenter_wire_object_id_get :: "int \<Rightarrow> getter" where
  "of_experimenter_wire_object_id_get version =
     (if version = 1 then
       d_switch32 8
        [(0x2320, of_nicira_header_wire_object_id_get version),
         (0x5c16c7, of_bsn_header_wire_object_id_get version)]
        OF_EXPERIMENTER
      else if version = 2 then
       d_switch32 8
        [(0x2320, of_nicira_header_wire_object_id_get version),
         (0x5c16c7, of_bsn_header_wire_object_id_get version)]
        OF_EXPERIMENTER
      else if version = 3 then
       d_switch32 8
        [(0x2320, of_nicira_header_wire_object_id_get version),
         (0x5c16c7, of_bsn_header_wire_object_id_get version)]
        OF_EXPERIMENTER
      else if version = 4 then
       d_switch32 8
        [(0x2320, of_nicira_header_wire_object_id_get version),
         (0x5c16c7, of_bsn_header_wire_object_id_get version)]
        OF_EXPERIMENTER
      else if version = 5 then
       d_switch32 8
        [(0x2320, of_nicira_header_wire_object_id_get version),
         (0x5c16c7, of_bsn_header_wire_object_id_get version)]
        OF_EXPERIMENTER
      else d_assert)"

definition of_flow_mod_wire_object_id_get :: "int \<Rightarrow> getter" where
  "of_flow_mod_wire_object_id_get version =
     (if version = 1 then
       d_switch16 56
        [(0, d_id OF_FLOW_ADD),
         (1, d_id OF_FLOW_MODIFY),
         (2, d_id OF_FLOW_MODIFY_STRICT),
         (3, d_id OF_FLOW_DELETE),
         (4, d_id OF_FLOW_DELETE_STRICT)]
        OF_FLOW_MOD
      else if version = 2 then
       d_switch8 25
        [(0, d_id OF_FLOW_ADD),
         (1, d_id OF_FLOW_MODIFY),
         (2, d_id OF_FLOW_MODIFY_STRICT),
         (3, d_id OF_FLOW_DELETE),
         (4, d_id OF_FLOW_DELETE_STRICT)]
        OF_FLOW_MOD
      else if version = 3 then
       d_switch8 25
        [(0, d_id OF_FLOW_ADD),
         (1, d_id OF_FLOW_MODIFY),
         (2, d_id OF_FLOW_MODIFY_STRICT),
         (3, d_id OF_FLOW_DELETE),
         (4, d_id OF_FLOW_DELETE_STRICT)]
        OF_FLOW_MOD
      else if version = 4 then
       d_switch8 25
        [(0, d_id OF_FLOW_ADD),
         (1, d_id OF_FLOW_MODIFY),
         (2, d_id OF_FLOW_MODIFY_STRICT),
         (3, d_id OF_FLOW_DELETE),
         (4, d_id OF_FLOW_DELETE_STRICT)]
        OF_FLOW_MOD
      else if version = 5 then
       d_switch8 25
        [(0, d_id OF_FLOW_ADD),
         (1, d_id OF_FLOW_MODIFY),
         (2, d_id OF_FLOW_MODIFY_STRICT),
         (3, d_id OF_FLOW_DELETE),
         (4, d_id OF_FLOW_DELETE_STRICT)]
        OF_FLOW_MOD
      else d_assert)"

definition of_bsn_stats_request_wire_object_id_get :: "int \<Rightarrow> getter" where
  "of_bsn_stats_request_wire_object_id_get version =
     (if version = 1 then
       d_switch32 20
        []
        OF_BSN_STATS_REQUEST
      else if version = 2 then
       d_switch32 20
        []
        OF_BSN_STATS_REQUEST
      else if version = 3 then
       d_switch32 20
        []
        OF_BSN_STATS_REQUEST
      else if version = 4 then
       d_switch32 20
        [(1, d_id OF_BSN_LACP_STATS_REQUEST),
         (2, d_id OF_BSN_GENTABLE_ENTRY_DESC_STATS_REQUEST),
         (3, d_id OF_BSN_GENTABLE_ENTRY_STATS_REQUEST),
         (4, d_id OF_BSN_GENTABLE_DESC_STATS_REQUEST),
         (5, d_id OF_BSN_GENTABLE_BUCKET_STATS_REQUEST),
         (6, d_id OF_BSN_SWITCH_PIPELINE_STATS_REQUEST),
         (7, d_id OF_BSN_GENTABLE_STATS_REQUEST),
         (8, d_id OF_BSN_PORT_COUNTER_STATS_REQUEST),
         (9, d_id OF_BSN_VLAN_COUNTER_STATS_REQUEST),
         (0xa, d_id OF_BSN_FLOW_CHECKSUM_BUCKET_STATS_REQUEST),
         (0xb, d_id OF_BSN_TABLE_CHECKSUM_STATS_REQUEST),
         (0xc, d_id OF_BSN_DEBUG_COUNTER_STATS_REQUEST),
         (0xd, d_id OF_BSN_DEBUG_COUNTER_DESC_STATS_REQUEST),
         (0xe, d_id OF_BSN_IMAGE_DESC_STATS_REQUEST),
         (0xf, d_id OF_BSN_VRF_COUNTER_STATS_REQUEST),
         (0x10, d_id OF_BSN_GENERIC_STATS_REQUEST)]
        OF_BSN_STATS_REQUEST
      else if version = 5 then
       d_switch32 20
        [(1, d_id OF_BSN_LACP_STATS_REQUEST),
         (2, d_id OF_BSN_GENTABLE_ENTRY_DESC_STATS_REQUEST),
         (3, d_id OF_BSN_GENTABLE_ENTRY_STATS_REQUEST),
         (4, d_id OF_BSN_GENTABLE_DESC_STATS_REQUEST),
         (5, d_id OF_BSN_GENTABLE_BUCKET_STATS_REQUEST),
         (6, d_id OF_BSN_SWITCH_PIPELINE_STATS_REQUEST),
         (7, d_id OF_BSN_GENTABLE_STATS_REQUEST),
         (8, d_id OF_BSN_PORT_COUNTER_STATS_REQUEST),
         (9, d_id OF_BSN_VLAN_COUNTER_STATS_REQUEST),
         (0xa, d_id OF_BSN_FLOW_CHECKSUM_BUCKET_STATS_REQUEST),
         (0xb, d_id OF_BSN_TABLE_CHECKSUM_STATS_REQUEST),
         (0xc, d_id OF_BSN_DEBUG_COUNTER_STATS_REQUEST),
         (0xd, d_id OF_BSN_DEBUG_COUNTER_DESC_STATS_REQUEST),
         (0xe, d_id OF_BSN_IMAGE_DESC_STATS_REQUEST),
         (0xf, d_id OF_BSN_VRF_COUNTER_STATS_REQUEST),
         (0x10, d_id OF_BSN_GENERIC_STATS_REQUEST)]
        OF_BSN_STATS_REQUEST
      else d_assert)"

definition of_experimenter_stats_request_wire_object_id_get :: "int \<Rightarrow> getter" where
  "of_experimenter_stats_request_wire_object_id_get version =
     (if version = 1 then
       d_switch32 12
        [(0x5c16c7, of_bsn_stats_request_wire_object_id_get version)]
        OF_EXPERIMENTER_STATS_REQUEST
      else if version = 2 then
       d_switch32 16
        [(0x5c16c7, of_bsn_stats_request_wire_object_id_get version)]
        OF_EXPERIMENTER_STATS_REQUEST
      else if version = 3 then
       d_switch32 16
        [(0x5c16c7, of_bsn_stats_request_wire_object_id_get version)]
        OF_EXPERIMENTER_STATS_REQUEST
      else if version = 4 then
       d_switch32 16
        [(0x5c16c7, of_bsn_stats_request_wire_object_id_get version)]
        OF_EXPERIMENTER_STATS_REQUEST
      else if version = 5 then
       d_switch32 16
        [(0x5c16c7, of_bsn_stats_request_wire_object_id_get version)]
        OF_EXPERIMENTER_STATS_REQUEST
      else d_assert)"

definition of_stats_request_wire_object_id_get :: "int \<Rightarrow> getter" where
  "of_stats_request_wire_object_id_get version =
     (if version = 1 then
       d_switch16 8
        [(0, d_id OF_DESC_STATS_REQUEST),
         (1, d_id OF_FLOW_STATS_REQUEST),
         (2, d_id OF_AGGREGATE_STATS_REQUEST),
         (3, d_id OF_TABLE_STATS_REQUEST),
         (4, d_id OF_PORT_STATS_REQUEST),
         (5, d_id OF_QUEUE_STATS_REQUEST),
         (0xffff, of_experimenter_stats_request_wire_object_id_get version)]
        OF_STATS_REQUEST
      else if version = 2 then
       d_switch16 8
        [(0, d_id OF_DESC_STATS_REQUEST),
         (1, d_id OF_FLOW_STATS_REQUEST),
         (2, d_id OF_AGGREGATE_STATS_REQUEST),
         (3, d_id OF_TABLE_STATS_REQUEST),
         (4, d_id OF_PORT_STATS_REQUEST),
         (5, d_id OF_QUEUE_STATS_REQUEST),
         (6, d_id OF_GROUP_STATS_REQUEST),
         (7, d_id OF_GROUP_DESC_STATS_REQUEST),
         (0xffff, of_experimenter_stats_request_wire_object_id_get version)]
        OF_STATS_REQUEST
      else if version = 3 then
       d_switch16 8
        [(0, d_id OF_DESC_STATS_REQUEST),
         (1, d_id OF_FLOW_STATS_REQUEST),
         (2, d_id OF_AGGREGATE_STATS_REQUEST),
         (3, d_id OF_TABLE_STATS_REQUEST),
         (4, d_id OF_PORT_STATS_REQUEST),
         (5, d_id OF_QUEUE_STATS_REQUEST),
         (6, d_id OF_GROUP_STATS_REQUEST),
         (7, d_id OF_GROUP_DESC_STATS_REQUEST),
         (8, d_id OF_GROUP_FEATURES_STATS_REQUEST),
         (0xffff, of_experimenter_stats_request_wire_object_id_get version)]
        OF_STATS_REQUEST
      else if version = 4 then
       d_switch16 8
        [(0, d_id OF_DESC_STATS_REQUEST),
         (1, d_id OF_FLOW_STATS_REQUEST),
         (2, d_id OF_AGGREGATE_STATS_REQUEST),
         (3, d_id OF_TABLE_STATS_REQUEST),
         (4, d_id OF_PORT_STATS_REQUEST),
         (5, d_id OF_QUEUE_STATS_REQUEST),
         (6, d_id OF_GROUP_STATS_REQUEST),
         (7, d_id OF_GROUP_DESC_STATS_REQUEST),
         (8, d_id OF_GROUP_FEATURES_STATS_REQUEST),
         (9, d_id OF_METER_STATS_REQUEST),
         (0xa, d_id OF_METER_CONFIG_STATS_REQUEST),
         (0xb, d_id OF_METER_FEATURES_STATS_REQUEST),
         (0xc, d_id OF_TABLE_FEATURES_STATS_REQUEST),
         (0xd, d_id OF_PORT_DESC_STATS_REQUEST),
         (0xffff, of_experimenter_stats_request_wire_object_id_get version)]
        OF_STATS_REQUEST
      else if version = 5 then
       d_switch16 8
        [(0, d_id OF_DESC_STATS_REQUEST),
         (1, d_id OF_FLOW_STATS_REQUEST),
         (2, d_id OF_AGGREGATE_STATS_REQUEST),
         (3, d_id OF_TABLE_STATS_REQUEST),
         (4, d_id OF_PORT_STATS_REQUEST),
         (5, d_id OF_QUEUE_STATS_REQUEST),
         (6, d_id OF_GROUP_STATS_REQUEST),
         (7, d_id OF_GROUP_DESC_STATS_REQUEST),
         (8, d_id OF_GROUP_FEATURES_STATS_REQUEST),
         (9, d_id OF_METER_STATS_REQUEST),
         (0xa, d_id OF_METER_CONFIG_STATS_REQUEST),
         (0xb, d_id OF_METER_FEATURES_STATS_REQUEST),
         (0xc, d_id OF_TABLE_FEATURES_STATS_REQUEST),
         (0xd, d_id OF_PORT_DESC_STATS_REQUEST),
         (0xe, d_id OF_TABLE_DESC_STATS_REQUEST),
         (0xf, d_id OF_QUEUE_DESC_STATS_REQUEST),
         (0xffff, of_experimenter_stats_request_wire_object_id_get version)]
        OF_STATS_REQUEST
      else d_assert)"

definition of_bsn_stats_reply_wire_object_id_get :: "int \<Rightarrow> getter" where
  "of_bsn_stats_reply_wire_object_id_get version =
     (if version = 1 then
       d_switch32 20
        []
        OF_BSN_STATS_REPLY
      else if version = 2 then
       d_switch32 20
        []
        OF_BSN_STATS_REPLY
      else if version = 3 then
       d_switch32 20
        []
        OF_BSN_STATS_REPLY
      else if version = 4 then
       d_switch32 20
        [(1, d_id OF_BSN_LACP_STATS_REPLY),
         (2, d_id OF_BSN_GENTABLE_ENTRY_DESC_STATS_REPLY),
         (3, d_id OF_BSN_GENTABLE_ENTRY_STATS_REPLY),
         (4, d_id OF_BSN_GENTABLE_DESC_STATS_REPLY),
         (5, d_id OF_BSN_GENTABLE_BUCKET_STATS_REPLY),
         (6, d_id OF_BSN_SWITCH_PIPELINE_STATS_REPLY),
         (7, d_id OF_BSN_GENTABLE_STATS_REPLY),
         (8, d_id OF_BSN_PORT_COUNTER_STATS_REPLY),
         (9, d_id OF_BSN_VLAN_COUNTER_STATS_REPLY),
         (0xa, d_id OF_BSN_FLOW_CHECKSUM_BUCKET_STATS_REPLY),
         (0xb, d_id OF_BSN_TABLE_CHECKSUM_STATS_REPLY),
         (0xc, d_id OF_BSN_DEBUG_COUNTER_STATS_REPLY),
         (0xd, d_id OF_BSN_DEBUG_COUNTER_DESC_STATS_REPLY),
         (0xe, d_id OF_BSN_IMAGE_DESC_STATS_REPLY),
         (0xf, d_id OF_BSN_VRF_COUNTER_STATS_REPLY),
         (0x10, d_id OF_BSN_GENERIC_STATS_REPLY)]
        OF_BSN_STATS_REPLY
      else if version = 5 then
       d_switch32 20
        [(1, d_id OF_BSN_LACP_STATS_REPLY),
         (2, d_id OF_BSN_GENTABLE_ENTRY_DESC_STATS_REPLY),
         (3, d_id OF_BSN_GENTABLE_ENTRY_STATS_REPLY),
         (4, d_id OF_BSN_GENTABLE_DESC_STATS_REPLY),
         (5, d_id OF_BSN_GENTABLE_BUCKET_STATS_REPLY),
         (6, d_id OF_BSN_SWITCH_PIPELINE_STATS_REPLY),
         (7, d_id OF_BSN_GENTABLE_STATS_REPLY),
         (8, d_id OF_BSN_PORT_COUNTER_STATS_REPLY),
         (9, d_id OF_BSN_VLAN_COUNTER_STATS_REPLY),
         (0xa, d_id OF_BSN_FLOW_CHECKSUM_BUCKET_STATS_REPLY),
         (0xb, d_id OF_BSN_TABLE_CHECKSUM_STATS_REPLY),
         (0xc, d_id OF_BSN_DEBUG_COUNTER_STATS_REPLY),
         (0xd, d_id OF_BSN_DEBUG_COUNTER_DESC_STATS_REPLY),
         (0xe, d_id OF_BSN_IMAGE_DESC_STATS_REPLY),
         (0xf, d_id OF_BSN_VRF_COUNTER_STATS_REPLY),
         (0x10, d_id OF_BSN_GENERIC_STATS_REPLY)]
        OF_BSN_STATS_REPLY
      else d_assert)"

definition of_experimenter_stats_reply_wire_object_id_get :: "int \<Rightarrow> getter" where
  "of_experimenter_stats_reply_wire_object_id_get version =
     (if version = 1 then
       d_switch32 12
        [(0x5c16c7, of_bsn_stats_reply_wire_object_id_get version)]
        OF_EXPERIMENTER_STATS_REPLY
      else if version = 2 then
       d_switch32 16
        [(0x5c16c7, of_bsn_stats_reply_wire_object_id_get version)]
        OF_EXPERIMENTER_STATS_REPLY
      else if version = 3 then
       d_switch32 16
        [(0x5c16c7, of_bsn_stats_reply_wire_object_id_get version)]
        OF_EXPERIMENTER_STATS_REPLY
      else if version = 4 then
       d_switch32 16
        [(0x5c16c7, of_bsn_stats_reply_wire_object_id_get version)]
        OF_EXPERIMENTER_STATS_REPLY
      else if version = 5 then
       d_switch32 16
        [(0x5c16c7, of_bsn_stats_reply_wire_object_id_get version)]
        OF_EXPERIMENTER_STATS_REPLY
      else d_assert)"

definition of_stats_reply_wire_object_id_get :: "int \<Rightarrow> getter" where
  "of_stats_reply_wire_object_id_get version =
     (if version = 1 then
       d_switch16 8
        [(0, d_id OF_DESC_STATS_REPLY),
         (1, d_id OF_FLOW_STATS_REPLY),
         (2, d_id OF_AGGREGATE_STATS_REPLY),
         (3, d_id OF_TABLE_STATS_REPLY),
         (4, d_id OF_PORT_STATS_REPLY),
         (5, d_id OF_QUEUE_STATS_REPLY),
         (0xffff, of_experimenter_stats_reply_wire_object_id_get version)]
        OF_STATS_REPLY
      else if version = 2 then
       d_switch16 8
        [(0, d_id OF_DESC_STATS_REPLY),
         (1, d_id OF_FLOW_STATS_REPLY),
         (2, d_id OF_AGGREGATE_STATS_REPLY),
         (3, d_id OF_TABLE_STATS_REPLY),
         (4, d_id OF_PORT_STATS_REPLY),
         (5, d_id OF_QUEUE_STATS_REPLY),
         (6, d_id OF_GROUP_STATS_REPLY),
         (7, d_id OF_GROUP_DESC_STATS_REPLY),
         (0xffff, of_experimenter_stats_reply_wire_object_id_get version)]
        OF_STATS_REPLY
      else if version = 3 then
       d_switch16 8
        [(0, d_id OF_DESC_STATS_REPLY),
         (1, d_id OF_FLOW_STATS_REPLY),
         (2, d_id OF_AGGREGATE_STATS_REPLY),
         (3, d_id OF_TABLE_STATS_REPLY),
         (4, d_id OF_PORT_STATS_REPLY),
         (5, d_id OF_QUEUE_STATS_REPLY),
         (6, d_id OF_GROUP_STATS_REPLY),
         (7, d_id OF_GROUP_DESC_STATS_REPLY),
         (8, d_id OF_GROUP_FEATURES_STATS_REPLY),
         (0xffff, of_experimenter_stats_reply_wire_object_id_get version)]
        OF_STATS_REPLY
      else if version = 4 then
       d_switch16 8
        [(0, d_id OF_DESC_STATS_REPLY),
         (1, d_id OF_FLOW_STATS_REPLY),
         (2, d_id OF_AGGREGATE_STATS_REPLY),
         (3, d_id OF_TABLE_STATS_REPLY),
         (4, d_id OF_PORT_STATS_REPLY),
         (5, d_id OF_QUEUE_STATS_REPLY),
         (6, d_id OF_GROUP_STATS_REPLY),
         (7, d_id OF_GROUP_DESC_STATS_REPLY),
         (8, d_id OF_GROUP_FEATURES_STATS_REPLY),
         (9, d_id OF_METER_STATS_REPLY),
         (0xa, d_id OF_METER_CONFIG_STATS_REPLY),
         (0xb, d_id OF_METER_FEATURES_STATS_REPLY),
         (0xc, d_id OF_TABLE_FEATURES_STATS_REPLY),
         (0xd, d_id OF_PORT_DESC_STATS_REPLY),
         (0xffff, of_experimenter_stats_reply_wire_object_id_get version)]
        OF_STATS_REPLY
      else if version = 5 then
       d_switch16 8
        [(0, d_id OF_DESC_STATS_REPLY),
         (1, d_id OF_FLOW_STATS_REPLY),
         (2, d_id OF_AGGREGATE_STATS_REPLY),
         (3, d_id OF_TABLE_STATS_REPLY),
         (4, d_id OF_PORT_STATS_REPLY),
         (5, d_id OF_QUEUE_STATS_REPLY),
         (6, d_id OF_GROUP_STATS_REPLY),
         (7, d_id OF_GROUP_DESC_STATS_REPLY),
         (8, d_id OF_GROUP_FEATURES_STATS_REPLY),
         (9, d_id OF_METER_STATS_REPLY),
         (0xa, d_id OF_METER_CONFIG_STATS_REPLY),
         (0xb, d_id OF_METER_FEATURES_STATS_REPLY),
         (0xc, d_id OF_TABLE_FEATURES_STATS_REPLY),
         (0xd, d_id OF_PORT_DESC_STATS_REPLY),
         (0xe, d_id OF_TABLE_DESC_STATS_REPLY),
         (0xf, d_id OF_QUEUE_DESC_STATS_REPLY),
         (0xffff, of_experimenter_stats_reply_wire_object_id_get version)]
        OF_STATS_REPLY
      else d_assert)"

definition of_group_mod_wire_object_id_get :: "int \<Rightarrow> getter" where
  "of_group_mod_wire_object_id_get version =
     (if version = 2 then
       d_switch16 8
        [(0, d_id OF_GROUP_ADD),
         (1, d_id OF_GROUP_MODIFY),
         (2, d_id OF_GROUP_DELETE)]
        OF_GROUP_MOD
      else if version = 3 then
       d_switch16 8
        [(0, d_id OF_GROUP_ADD),
         (1, d_id OF_GROUP_MODIFY),
         (2, d_id OF_GROUP_DELETE)]
        OF_GROUP_MOD
      else if version = 4 then
       d_switch16 8
        [(0, d_id OF_GROUP_ADD),
         (1, d_id OF_GROUP_MODIFY),
         (2, d_id OF_GROUP_DELETE)]
        OF_GROUP_MOD
      else if version = 5 then
       d_switch16 8
        [(0, d_id OF_GROUP_ADD),
         (1, d_id OF_GROUP_MODIFY),
         (2, d_id OF_GROUP_DELETE)]
        OF_GROUP_MOD
      else d_assert)"

definition of_header_wire_object_id_get :: "int \<Rightarrow> getter" where
  "of_header_wire_object_id_get version =
     (if version = 1 then
       d_switch8 1
        [(0, d_id OF_HELLO),
         (1, of_error_msg_wire_object_id_get version),
         (2, d_id OF_ECHO_REQUEST),
         (3, d_id OF_ECHO_REPLY),
         (4, of_experimenter_wire_object_id_get version),
         (5, d_id OF_FEATURES_REQUEST),
         (6, d_id OF_FEATURES_REPLY),
         (7, d_id OF_GET_CONFIG_REQUEST),
         (8, d_id OF_GET_CONFIG_REPLY),
         (9, d_id OF_SET_CONFIG),
         (0xa, d_id OF_PACKET_IN),
         (0xb, d_id OF_FLOW_REMOVED),
         (0xc, d_id OF_PORT_STATUS),
         (0xd, d_id OF_PACKET_OUT),
         (0xe, of_flow_mod_wire_object_id_get version),
         (0xf, d_id OF_PORT_MOD),
         (0x10, of_stats_request_wire_object_id_get version),
         (0x11, of_stats_reply_wire_object_id_get version),
         (0x12, d_id OF_BARRIER_REQUEST),
         (0x13, d_id OF_BARRIER_REPLY),
         (0x14, d_id OF_QUEUE_GET_CONFIG_REQUEST),
         (0x15, d_id OF_QUEUE_GET_CONFIG_REPLY),
         (0x16, d_id OF_TABLE_MOD)]
        OF_HEADER
      else if version = 2 then
       d_switch8 1
        [(0, d_id OF_HELLO),
         (1, of_error_msg_wire_object_id_get version),
         (2, d_id OF_ECHO_REQUEST),
         (3, d_id OF_ECHO_REPLY),
         (4, of_experimenter_wire_object_id_get version),
         (5, d_id OF_FEATURES_REQUEST),
         (6, d_id OF_FEATURES_REPLY),
         (7, d_id OF_GET_CONFIG_REQUEST),
         (8, d_id OF_GET_CONFIG_REPLY),
         (9, d_id OF_SET_CONFIG),
         (0xa, d_id OF_PACKET_IN),
         (0xb, d_id OF_FLOW_REMOVED),
         (0xc, d_id OF_PORT_STATUS),
         (0xd, d_id OF_PACKET_OUT),
         (0xe, of_flow_mod_wire_object_id_get version),
         (0xf, of_group_mod_wire_object_id_get version),
         (0x10, d_id OF_PORT_MOD),
         (0x11, d_id OF_TABLE_MOD),
         (0x12, of_stats_request_wire_object_id_get version),
         (0x13, of_stats_reply_wire_object_id_get version),
         (0x14, d_id OF_BARRIER_REQUEST),
         (0x15, d_id OF_BARRIER_REPLY),
         (0x16, d_id OF_QUEUE_GET_CONFIG_REQUEST),
         (0x17, d_id OF_QUEUE_GET_CONFIG_REPLY)]
        OF_HEADER
      else if version = 3 then
       d_switch8 1
        [(0, d_id OF_HELLO),
         (1, of_error_msg_wire_object_id_get version),
         (2, d_id OF_ECHO_REQUEST),
         (3, d_id OF_ECHO_REPLY),
         (4, of_experimenter_wire_object_id_get version),
         (5, d_id OF_FEATURES_REQUEST),
         (6, d_id OF_FEATURES_REPLY),
         (7, d_id OF_GET_CONFIG_REQUEST),
         (8, d_id OF_GET_CONFIG_REPLY),
         (9, d_id OF_SET_CONFIG),
         (0xa, d_id OF_PACKET_IN),
         (0xb, d_id OF_FLOW_REMOVED),
         (0xc, d_id OF_PORT_STATUS),
         (0xd, d_id OF_PACKET_OUT),
         (0xe, of_flow_mod_wire_object_id_get version),
         (0xf, of_group_mod_wire_object_id_get version),
         (0x10, d_id OF_PORT_MOD),
         (0x11, d_id OF_TABLE_MOD),
         (0x12, of_stats_request_wire_object_id_get version),
         (0x13, of_stats_reply_wire_object_id_get version),
         (0x14, d_id OF_BARRIER_REQUEST),
         (0x15, d_id OF_BARRIER_REPLY),
         (0x16, d_id OF_QUEUE_GET_CONFIG_REQUEST),
         (0x17, d_id OF_QUEUE_GET_CONFIG_REPLY),
         (0x18, d_id OF_ROLE_REQUEST),
         (0x19, d_id OF_ROLE_REPLY)]
        OF_HEADER
      else if version = 4 then
       d_switch8 1
        [(0, d_id OF_HELLO),
         (1, of_error_msg_wire_object_id_get version),
         (2, d_id OF_ECHO_REQUEST),
         (3, d_id OF_ECHO_REPLY),
         (4, of_experimenter_wire_object_id_get version),
         (5, d_id OF_FEATURES_REQUEST),
         (6, d_id OF_FEATURES_REPLY),
         (7, d_id OF_GET_CONFIG_REQUEST),
         (8, d_id OF_GET_CONFIG_REPLY),
         (9, d_id OF_SET_CONFIG),
         (0xa, d_id OF_PACKET_IN),
         (0xb, d_id OF_FLOW_REMOVED),
         (0xc, d_id OF_PORT_STATUS),
         (0xd, d_id OF_PACKET_OUT),
         (0xe, of_flow_mod_wire_object_id_get version),
         (0xf, of_group_mod_wire_object_id_get version),
         (0x10, d_id OF_PORT_MOD),
         (0x11, d_id OF_TABLE_MOD),
         (0x12, of_stats_request_wire_object_id_get version),
         (0x13, of_stats_reply_wire_object_id_get version),
         (0x14, d_id OF_BARRIER_REQUEST),
         (0x15, d_id OF_BARRIER_REPLY),
         (0x16, d_id OF_QUEUE_GET_CONFIG_REQUEST),
         (0x17, d_id OF_QUEUE_GET_CONFIG_REPLY),
         (0x18, d_id OF_ROLE_REQUEST),
         (0x19, d_id OF_ROLE_REPLY),
         (0x1a, d_id OF_ASYNC_GET_REQUEST),
         (0x1b, d_id OF_ASYNC_GET_REPLY),
         (0x1c, d_id OF_ASYNC_SET),
         (0x1d, d_id OF_METER_MOD)]
        OF_HEADER
      else if version = 5 then
       d_switch8 1
        [(0, d_id OF_HELLO),
         (1, of_error_msg_wire_object_id_get version),
         (2, d_id OF_ECHO_REQUEST),
         (3, d_id OF_ECHO_REPLY),
         (4, of_experimenter_wire_object_id_get version),
         (5, d_id OF_FEATURES_REQUEST),
         (6, d_id OF_FEATURES_REPLY),
         (7, d_id OF_GET_CONFIG_REQUEST),
         (8, d_id OF_GET_CONFIG_REPLY),
         (9, d_id OF_SET_CONFIG),
         (0xa, d_id OF_PACKET_IN),
         (0xb, d_id OF_FLOW_REMOVED),
         (0xc, d_id OF_PORT_STATUS),
         (0xd, d_id OF_PACKET_OUT),
         (0xe, of_flow_mod_wire_object_id_get version),
         (0xf, of_group_mod_wire_object_id_get version),
         (0x10, d_id OF_PORT_MOD),
         (0x11, d_id OF_TABLE_MOD),
         (0x12, of_stats_request_wire_object_id_get version),
         (0x13, of_stats_reply_wire_object_id_get version),
         (0x14, d_id OF_BARRIER_REQUEST),
         (0x15, d_id OF_BARRIER_REPLY),
         (0x18, d_id OF_ROLE_REQUEST),
         (0x19, d_id OF_ROLE_REPLY),
         (0x1a, d_id OF_ASYNC_GET_REQUEST),
         (0x1b, d_id OF_ASYNC_GET_REPLY),
         (0x1c, d_id OF_ASYNC_SET),
         (0x1d, d_id OF_METER_MOD),
         (0x1e, d_id OF_ROLE_STATUS),
         (0x1f, d_id OF_TABLE_STATUS),
         (0x20, d_id OF_REQUESTFORWARD),
         (0x21, d_id OF_BUNDLE_CTRL_MSG),
         (0x22, d_id OF_BUNDLE_ADD_MSG)]
        OF_HEADER
      else d_assert)"

subsection \<open>Fixed lengths\<close>

definition of_object_fixed_len_v1 :: "int list" where
  "of_object_fixed_len_v1 =
    [-1, 36, 56, -1, -1, -1, -1, 12, -1, -1, -1, 12, 8, 8, -1, 20, 16, 20, 16, 24, 20, -1, -1, -1,
     -1, -1, -1, -1, -1, -1, -1, -1, -1, -1, -1, -1, -1, -1, -1, -1, -1, -1, -1, -1, -1, -1, -1, -1,
     -1, -1, -1, 16, 16, 24, 24, 24, 16, 20, 20, -1, -1, 16, 24, 16, -1, -1, -1, -1, -1, -1, -1, -1,
     -1, -1, 23, 26, 19, 23, 26, -1, -1, -1, -1, -1, 24, 24, 24, -1, -1, 20, 20, 32, -1, -1, 20, 16,
     20, 24, 24, -1, -1, -1, -1, -1, -1, -1, 24, 20, 20, 20, -1, -1, -1, -1, -1, -1, -1, 1068, 12, 8,
     8, 10, 12, -1, 16, 16, 32, 8, 72, 72, 72, 72, 12, 72, 72, -1, 88, 12, 56, 12, 8, -1, -1, -1,
     -1, -1, -1, -1, -1, -1, -1, -1, 8, 8, 12, -1, -1, -1, -1, -1, -1, -1, -1, 20, 20, 16, 18, 16,
     -1, -1, 32, 12, 12, 20, 64, -1, -1, 16, 12, 12, 12, 20, -1, -1, -1, -1, -1, 12, 12, 12, -1, -1,
     -1, -1, -1, -1, 16, -1, 12, 12, -1, 8, 16, 28, -1, 24, 16, -1, -1, -1, -1, 16, 8, -1, -1, -1,
     -1, -1, -1, -1, -1, -1, -1, -1, -1, -1, -1, -1, -1, -1, -1, -1, -1, -1, -1, -1, -1, -1, -1, 16,
     16, 8, -1, -1, -1, -1, -1, -1, 16, 16, -1, -1, -1, -1, 8, -1, 8, 8, -1, -1, 8, 8, 8, 8,
     8, -1, -1, -1, -1, -1, -1, -1, -1, -1, -1, -1, -1, -1, -1, -1, -1, -1, -1, -1, -1, -1, -1, -1,
     -1, -1, 32, -1, -1, -1, -1, -1, -1, -1, -1, -1, -1, -1, -1, -1, -1, -1, -1, -1, -1, -1, -1, -1,
     -1, -1, -1, -1, -1, -1, -1, -1, -1, -1, -1, -1, -1, -1, -1, -1, -1, -1, -1, -1, -1, -1, -1, -1,
     -1, -1, -1, -1, -1, -1, -1, -1, -1, -1, -1, -1, -1, -1, -1, -1, -1, -1, -1, -1, -1, -1, -1, -1,
     -1, -1, -1, -1, -1, -1, -1, -1, -1, -1, -1, -1, -1, 4, 60, 32, -1, -1, -1, -1, -1, 88, -1, -1,
     -1, -1, -1, -1, -1, -1, -1, -1, -1, -1, -1, -1, -1, -1, -1, -1, -1, -1, -1, -1, -1, -1, -1, -1,
     -1, -1, -1, -1, -1, -1, -1, -1, -1, -1, -1, -1, -1, -1, -1, -1, -1, -1, -1, -1, -1, -1, -1, -1,
     40, -1, -1, -1, -1, -1, -1, -1, -1, -1, -1, -1, -1, -1, -1, -1, -1, -1, -1, -1, -1, -1, -1, -1,
     -1, -1, -1, -1, -1, -1, -1, -1, -1, -1, -1, -1, -1, -1, -1, -1, -1, -1, -1, -1, -1, -1, -1, -1,
     -1, -1, -1, -1, -1, -1, -1, -1, -1, -1, -1, -1, -1, -1, -1, -1, -1, -1, -1, -1, -1, -1, -1, -1,
     -1, -1, -1, -1, -1, -1, -1, -1, -1, -1, -1, -1, -1, -1, -1, -1, -1, -1, -1, -1, -1, -1, -1, -1,
     -1, -1, -1, -1, -1, -1, -1, -1, -1, -1, -1, -1, -1, -1, -1, -1, -1, -1, -1, -1, -1, -1, -1, -1,
     -1, -1, -1, -1, -1, -1, -1, -1, -1, -1, -1, -1, -1, -1, -1, -1, -1, -1, 8, 48, -1, -1, -1, -1,
     -1, -1, -1, -1, -1, -1, 104, -1, -1, -1, -1, -1, -1, -1, -1, -1, 8, -1, -1, 16, 32, -1, -1, -1,
     -1, -1, -1, -1, -1, -1, -1, -1, -1, -1, -1, -1, -1, -1, -1, -1, -1, -1, -1, -1, -1, -1, -1, -1,
     -1, 64, -1, -1, -1, 0, -1, -1, -1, -1, -1, -1, -1, -1, -1, -1, -1, -1, 0, -1, -1, -1, -1, -1,
     -1, -1, -1, -1, -1, 0, -1, -1, -1, -1, -1, -1, -1, -1, -1, 0, 0, -1, -1, 0, -1, -1, -1, 0,
     0, -1, -1, -1, -1, -1, -1, 0, -1, -1, -1]"

definition of_object_fixed_len_v2 :: "int list" where
  "of_object_fixed_len_v2 =
    [-1, 40, 136, -1, -1, -1, -1, 12, 12, 12, -1, 12, 8, 8, -1, 20, 16, 20, 16, 24, 20, -1, -1, -1,
     -1, -1, -1, -1, -1, -1, -1, -1, -1, -1, -1, -1, -1, -1, -1, -1, -1, -1, -1, -1, -1, -1, -1, -1,
     -1, -1, -1, 16, 16, -1, -1, -1, -1, 20, 20, -1, -1, 16, -1, -1, -1, -1, -1, -1, -1, -1, -1, -1,
     -1, -1, 25, 28, 21, 25, 28, -1, -1, -1, -1, -1, -1, -1, -1, -1, -1, 20, 20, 32, -1, -1, -1, -1,
     -1, 24, 24, -1, -1, -1, -1, -1, -1, -1, 24, 20, 20, 20, -1, -1, -1, -1, -1, -1, -1, 1072, 16, 8,
     8, 10, 12, -1, 24, 24, 32, 8, 136, 136, 136, 136, 12, 136, 136, -1, 136, 16, 136, 12, 8, 16, 16, 16,
     16, -1, -1, 16, 12, 16, 16, 24, 8, 8, 12, -1, -1, -1, -1, -1, -1, -1, -1, -1, -1, 16, 24, 24,
     -1, -1, 40, 12, 16, 24, 80, -1, -1, 16, 16, 12, 16, 24, -1, -1, -1, -1, -1, 12, 16, 16, 12, -1,
     -1, -1, -1, -1, 16, 12, 16, 16, -1, 8, 16, 28, -1, 24, 16, 8, 8, 8, 8, -1, 8, 8, -1, -1,
     -1, -1, -1, -1, -1, -1, -1, -1, -1, -1, -1, -1, -1, -1, -1, -1, -1, -1, -1, -1, -1, -1, -1, 16,
     16, 16, 8, -1, 8, 8, -1, 8, 16, 16, -1, 8, 8, 8, 8, 8, 8, 8, 8, 8, 8, 8, 8, 8,
     -1, -1, -1, -1, -1, -1, -1, -1, -1, -1, -1, -1, -1, -1, -1, -1, -1, -1, -1, -1, -1, -1, -1, -1,
     -1, -1, 32, -1, -1, -1, -1, -1, -1, -1, -1, -1, -1, -1, -1, -1, -1, -1, -1, -1, -1, -1, -1, -1,
     -1, -1, -1, -1, -1, -1, -1, -1, -1, -1, -1, -1, -1, -1, -1, -1, -1, -1, -1, -1, -1, -1, -1, -1,
     -1, -1, -1, -1, -1, -1, -1, -1, -1, -1, -1, -1, -1, -1, -1, -1, -1, -1, -1, -1, -1, -1, -1, -1,
     -1, -1, -1, -1, -1, -1, -1, -1, -1, -1, -1, -1, -1, 4, 64, 32, -1, 16, 16, -1, -1, 136, 8, 32,
     -1, -1, 8, 8, -1, -1, -1, -1, -1, -1, -1, -1, -1, -1, -1, -1, -1, -1, -1, 8, 8, 8, -1, -1,
     -1, -1, -1, -1, -1, -1, -1, -1, -1, -1, -1, -1, -1, -1, -1, -1, -1, -1, -1, -1, -1, -1, 8, 24,
     -1, 88, -1, -1, -1, -1, -1, -1, -1, -1, -1, -1, -1, -1, -1, -1, -1, -1, -1, -1, -1, -1, -1, -1,
     -1, -1, -1, -1, -1, -1, -1, -1, -1, -1, -1, -1, -1, -1, -1, -1, -1, -1, -1, -1, -1, -1, -1, -1,
     -1, -1, -1, -1, -1, -1, -1, -1, -1, -1, -1, -1, -1, -1, -1, -1, -1, -1, -1, -1, -1, -1, -1, -1,
     -1, -1, -1, -1, -1, -1, -1, -1, -1, -1, -1, -1, -1, -1, -1, -1, -1, -1, -1, -1, -1, -1, -1, -1,
     -1, -1, -1, -1, -1, -1, -1, -1, -1, -1, -1, -1, -1, -1, -1, -1, -1, -1, -1, -1, -1, -1, -1, -1,
     -1, -1, -1, -1, -1, -1, -1, -1, -1, -1, -1, -1, -1, -1, -1, -1, -1, -1, 8, 64, -1, -1, -1, -1,
     -1, -1, -1, -1, -1, -1, 104, -1, -1, -1, -1, -1, -1, -1, -1, -1, 8, -1, -1, 16, 32, -1, -1, -1,
     -1, -1, -1, -1, -1, -1, -1, -1, -1, -1, -1, -1, -1, -1, -1, -1, -1, -1, -1, -1, -1, -1, -1, -1,
     -1, 88, -1, -1, -1, 0, -1, -1, -1, -1, -1, -1, -1, -1, -1, -1, -1, -1, 0, -1, -1, -1, -1, -1,
     -1, -1, 0, 0, -1, 0, 0, 0, -1, 0, -1, -1, -1, -1, -1, 0, 0, -1, -1, 0, -1, -1, -1, 0,
     0, -1, -1, -1, -1, -1, -1, 0, -1, -1, -1]"

definition of_object_fixed_len_v3 :: "int list" where
  "of_object_fixed_len_v3 =
    [-1, 40, 56, -1, -1, -1, -1, 12, 12, 12, -1, 12, 8, 8, -1, 20, 16, 20, 16, 24, 20, -1, -1, -1,
     -1, -1, -1, -1, -1, -1, -1, -1, -1, -1, -1, -1, -1, -1, -1, -1, -1, -1, -1, -1, -1, -1, -1, -1,
     -1, -1, -1, 16, 16, -1, -1, -1, -1, 20, 20, -1, -1, 16, -1, -1, -1, -1, -1, -1, -1, -1, -1, -1,
     -1, -1, 25, 28, 21, 25, 28, -1, -1, -1, -1, -1, -1, -1, -1, -1, -1, 20, 20, 32, -1, -1, -1, -1,
     -1, 24, 24, -1, -1, -1, -1, -1, -1, -1, 24, 20, 20, 20, -1, -1, -1, -1, -1, -1, -1, 1072, 16, 8,
     8, 10, 16, 16, 24, 24, 32, 8, 56, 56, 56, 56, 12, 56, 56, -1, 56, 16, 56, 12, 8, 16, 16, 16,
     16, 56, 16, 16, 12, 16, 16, 24, 8, 8, 12, -1, -1, -1, -1, -1, -1, -1, -1, -1, -1, 16, 26, 24,
     -1, -1, 40, 12, 16, 24, 80, -1, -1, 16, 16, 12, 16, 24, -1, 24, 24, 12, -1, 12, 16, 16, 12, -1,
     -1, -1, -1, -1, 16, 12, 16, 16, -1, 8, 16, 28, -1, 24, 16, 8, 8, 8, 8, -1, 8, 8, -1, -1,
     -1, -1, -1, -1, -1, -1, -1, -1, -1, -1, -1, -1, -1, -1, -1, -1, -1, -1, -1, -1, -1, -1, -1, 16,
     16, 16, 8, -1, 8, 8, -1, 8, -1, -1, 8, -1, -1, 8, -1, -1, -1, -1, 8, 8, -1, -1, -1, -1,
     -1, -1, -1, -1, -1, -1, -1, -1, -1, -1, -1, -1, -1, -1, -1, -1, -1, -1, -1, -1, -1, -1, -1, -1,
     -1, -1, 32, -1, -1, -1, -1, -1, -1, -1, -1, -1, -1, -1, -1, -1, -1, -1, -1, -1, -1, -1, -1, -1,
     -1, -1, -1, -1, -1, -1, -1, -1, -1, -1, -1, -1, -1, -1, -1, -1, -1, -1, -1, -1, -1, -1, -1, -1,
     -1, -1, -1, -1, -1, -1, -1, -1, -1, -1, -1, -1, -1, -1, -1, -1, -1, -1, -1, -1, -1, -1, -1, -1,
     -1, -1, -1, -1, -1, -1, -1, -1, -1, -1, -1, -1, -1, 4, 64, 32, -1, 16, 16, -1, -1, 56, 8, 32,
     -1, -1, 8, 8, -1, -1, -1, -1, -1, -1, -1, -1, -1, -1, -1, -1, -1, -1, -1, 8, 8, 8, -1, -1,
     -1, -1, -1, -1, -1, -1, -1, -1, -1, -1, -1, -1, -1, -1, -1, -1, -1, -1, -1, -1, -1, -1, 8, 24,
     -1, -1, 4, -1, -1, -1, -1, -1, -1, -1, -1, 4, 6, 8, 10, 16, 8, 12, 10, 16, 8, 12, 8, 12,
     5, 6, 20, 36, 68, 132, 8, 12, 5, 6, 8, 12, 8, 12, 8, 12, 8, 12, 6, 8, 8, 12, 8, 12,
     8, 12, 8, 12, 8, 12, 8, 12, 8, 12, 8, 12, 8, 12, 8, 12, 10, 16, 10, 16, 6, 8, 5, 6,
     5, 6, 5, 6, 5, 6, 8, 12, 8, 12, 5, 6, 5, 6, 5, 6, 8, 12, 8, 12, 20, 36, -1, -1,
     8, 12, 10, 16, 20, 36, 10, 16, 20, 36, 12, 20, -1, -1, 8, 12, 5, 6, -1, -1, 6, 8, 6, 8,
     6, 8, 6, 8, -1, -1, 8, 12, 8, 12, 6, 8, 6, 8, 5, 6, 6, 8, 16, 64, -1, -1, -1, -1,
     -1, -1, -1, -1, -1, -1, 104, -1, -1, -1, -1, -1, -1, -1, -1, -1, 8, 16, 16, 16, 32, -1, -1, -1,
     -1, -1, -1, -1, -1, -1, -1, -1, -1, -1, -1, -1, -1, -1, -1, -1, -1, -1, -1, -1, -1, -1, -1, -1,
     -1, 128, -1, -1, -1, 0, -1, -1, -1, -1, -1, -1, -1, -1, -1, -1, -1, -1, 0, -1, -1, -1, -1, -1,
     -1, -1, 0, 0, -1, 0, 0, 0, -1, 0, -1, -1, -1, -1, 0, 0, 0, -1, -1, 0, -1, -1, -1, 0,
     0, -1, -1, -1, -1, -1, -1, 0, -1, -1, -1]"

definition of_object_fixed_len_v4 :: "int list" where
  "of_object_fixed_len_v4 =
    [-1, 40, 56, -1, 32, 32, 32, 12, 12, 12, -1, 12, 8, 8, 24, 20, 16, 20, 16, 24, 20, 16, 16, 24,
     24, 24, 24, 24, 25, 40, 20, 16, 24, 20, 24, 88, 24, 26, 28, 52, 24, 24, 36, 18, 24, 60, 24, 60,
     24, 24, 24, 16, 16, -1, -1, -1, -1, 20, 20, 272, 16, 16, -1, -1, 536, 24, 52, 24, 24, 17, 16, 16,
     16, 82, 25, 28, 21, 25, 28, 24, 28, 32, 24, 20, -1, -1, -1, 24, 38, 20, 20, 32, 20, 272, -1, -1,
     -1, 24, 24, 24, 24, 24, 24, 24, 24, 16, 24, 20, 20, 20, 24, 26, 24, 28, -1, -1, -1, 1072, 16, 8,
     8, 10, 16, 16, 24, 24, 32, 8, 56, 56, 56, 56, 12, 56, 56, -1, 56, 16, 56, 12, 8, 16, 16, 16,
     16, 56, 16, 16, 12, 16, 16, 24, 8, 8, 12, 16, 24, 32, 16, 16, 12, 16, 24, -1, -1, 16, 34, 24,
     16, 16, 40, 12, 16, 24, 80, -1, -1, 16, 16, 12, 16, 24, -1, 24, 24, 12, -1, 12, 16, 16, 12, -1,
     -1, 12, 16, 16, 16, 12, 16, 16, -1, 8, 16, 28, 16, 24, 16, 8, 8, 8, 8, -1, 8, 8, 4, 12,
     12, 12, 12, 12, 4, 4, 4, 4, 8, 4, 10, 10, 4, 4, 4, 4, 4, 4, 4, 4, 4, 4, 4, 16,
     16, 16, 8, 8, 8, 8, 8, 8, -1, -1, 8, -1, -1, 8, -1, -1, -1, -1, 8, 8, -1, -1, -1, -1,
     -1, -1, -1, -1, -1, -1, -1, -1, -1, -1, -1, -1, -1, -1, -1, -1, 264, 328, 16, 8, 2, 16, 48, 20,
     4, 24, 32, 36, 8, 256, 9, 4, 6, 6, 6, 5, 10, 6, 8, 4, 4, 5, 5, 4, 10, 10, 8, 10,
     8, 10, 8, 8, 5, 6, 5, 4, 12, 8, 10, 10, 8, 5, 8, 8, 8, 8, 10, 10, 12, 5, 8, 5,
     4, 6, 6, 6, 5, 10, 6, 8, 8, 8, 8, 6, 12, 12, 12, 12, 8, 4, 4, 4, 4, 8, 6, 6,
     12, 12, 6, 6, 6, 6, 6, 6, 8, 5, 6, 8, 8, 4, 64, 32, 8, 16, 16, -1, -1, 56, 8, 40,
     4, 4, 4, 8, 16, 16, 16, 16, 16, 16, 16, 16, 16, 16, 16, 16, 16, 16, 16, 8, 8, 8, 4, 4,
     12, 12, 12, 12, 12, 12, 12, 12, 12, 12, 12, 12, 12, 12, 12, 4, 8, 4, 4, 4, 4, 8, 8, 24,
     -1, -1, 4, 4, 16, 16, 16, 16, 8, 16, 40, 4, 6, 8, 10, 16, 8, 12, 10, 16, 8, 12, 8, 12,
     5, 6, 20, 36, 68, 132, 8, 12, 5, 6, 8, 12, 8, 12, 8, 12, 8, 12, 6, 8, 8, 12, 8, 12,
     8, 12, 8, 12, 8, 12, 8, 12, 8, 12, 8, 12, 8, 12, 8, 12, 10, 16, 10, 16, 6, 8, 5, 6,
     5, 6, 5, 6, 5, 6, 8, 12, 8, 12, 5, 6, 5, 6, 5, 6, 8, 12, 8, 12, 20, 36, 6, 8,
     8, 12, 10, 16, 20, 36, 10, 16, 20, 36, 12, 20, 5, 6, 8, 12, 5, 6, -1, -1, 6, 8, 6, 8,
     6, 8, 6, 8, 12, 20, 8, 12, 8, 12, 6, 8, 6, 8, 5, 6, 6, 8, 16, 64, -1, -1, -1, -1,
     -1, -1, -1, -1, -1, -1, 112, -1, -1, -1, -1, -1, -1, -1, -1, -1, 8, 16, 16, 16, 40, -1, -1, -1,
     -1, -1, 4, 4, 4, 4, 4, 12, 12, 4, 4, 4, 4, 4, -1, 4, 4, 4, 4, 4, 64, -1, -1, -1,
     -1, 24, 4, 8, 1, 0, 0, -1, 0, 0, 0, 0, 0, 0, 0, 0, 0, 0, 0, 0, 0, 0, 0, 0,
     0, 0, 0, 0, -1, 0, 0, 0, 0, 0, 0, 0, 0, 0, 0, 0, 0, -1, -1, 0, -1, -1, -1, 0,
     0, -1, -1, -1, 0, 0, -1, 0, 0, 0, 0]"

definition of_object_fixed_len_v5 :: "int list" where
  "of_object_fixed_len_v5 =
    [-1, 40, 56, 12, 8, 8, 8, 12, 12, 12, 12, 12, 8, 8, 24, 20, 16, 20, 16, 24, 20, 16, 16, 24,
     24, 24, 24, 24, 25, 40, 20, 16, 24, 20, 24, 88, 24, 26, 28, 52, 24, 24, 36, 18, 24, 60, 24, 60,
     24, 24, 24, 16, 16, -1, -1, -1, -1, 20, 20, 272, 16, 16, -1, -1, 536, 24, 52, 24, 24, 17, 16, 16,
     16, 82, 25, 28, 21, 25, 28, 24, 28, -1, 24, 20, -1, -1, -1, 24, 38, 20, 20, 32, 20, 272, -1, -1,
     -1, 24, 24, 24, 24, 24, 24, 24, 24, 16, 24, 20, 20, 20, 24, 26, 24, 28, 16, 16, 12, 1072, 16, 8,
     8, 10, 16, 16, 24, 24, 32, 8, 56, 56, 56, 56, 12, 56, 56, 12, 56, 16, 56, 12, 8, 16, 16, 16,
     16, 56, 16, 16, 12, 16, 16, 24, 8, 8, 12, 16, 24, 32, 16, 16, 12, 16, 24, -1, -1, 16, 34, 24,
     16, 16, 32, 12, 16, 24, 56, 16, 16, -1, -1, 12, 16, 24, 12, 24, 24, 12, 24, 12, 16, 16, 12, 16,
     16, 12, 16, 16, 16, 12, 16, 16, 28, 8, 16, 28, 16, 24, 16, 8, 8, 8, 8, -1, 8, 8, 4, 12,
     12, 12, 12, 12, 4, 4, 4, 4, 8, 4, 10, 10, 4, 4, 4, 4, 4, 4, 4, 4, 4, 4, 4, 16,
     16, 16, 8, 8, 8, 8, 8, 8, -1, -1, 8, -1, -1, 8, -1, -1, -1, -1, 8, 8, -1, -1, -1, -1,
     -1, 4, 4, 4, 8, 8, 8, 8, 8, 8, 8, 8, 8, 8, 8, 8, 264, 328, 16, 8, 2, 16, 48, 20,
     4, 24, 32, 36, 8, 256, 9, 4, 6, 6, 6, 5, 10, 6, 8, 4, 4, 5, 5, 4, 10, 10, 8, 10,
     8, 10, 8, 8, 5, 6, 5, 4, 12, 8, 10, 10, 8, 5, 8, 8, 8, 8, 10, 10, 12, 5, 8, 5,
     4, 6, 6, 6, 5, 10, 6, 8, 8, 8, 8, 6, 12, 12, 12, 12, 8, 4, 4, 4, 4, 8, 6, 6,
     12, 12, 6, 6, 6, 6, 6, 6, 8, 5, 6, 8, 8, 4, 64, 32, 8, 16, 16, 4, 12, 56, 8, 40,
     4, 4, 4, 8, 16, 16, 16, 16, 16, 16, -1, 16, 16, 16, 16, 16, 16, 16, 16, 8, 8, 8, 4, 4,
     12, 12, 12, 12, 12, 12, -1, 12, 12, 12, 12, 12, 12, 12, 12, 4, 8, 4, 4, 4, 4, 8, 8, 24,
     -1, -1, 4, 4, 16, 16, 16, 16, 8, 16, 40, 4, 6, 8, 10, 16, 8, 12, 10, 16, 8, 12, 8, 12,
     -1, -1, 20, 36, 68, 132, 8, 12, -1, -1, -1, -1, 8, 12, 8, 12, 8, 12, 6, 8, 8, 12, 8, 12,
     8, 12, 8, 12, 8, 12, 8, 12, 8, 12, 8, 12, 8, 12, 8, 12, 10, 16, 10, 16, 6, 8, 5, 6,
     5, 6, 5, 6, 5, 6, 8, 12, 8, 12, 5, 6, 5, 6, 5, 6, 8, 12, 8, 12, 20, 36, 6, 8,
     8, 12, 10, 16, 20, 36, 10, 16, 20, 36, 12, 20, 5, 6, 8, 12, 5, 6, 5, 6, 6, 8, 6, 8,
     6, 8, 6, 8, 12, 20, 8, 12, 8, 12, 6, 8, 6, 8, 5, 6, 6, 8, 16, 40, 4, 12, 12, 32,
     12, 44, 4, 8, 12, 24, 80, 4, 40, 12, 44, 16, 4, 12, 8, 8, 8, 16, 16, 16, 48, 4, 12, 4,
     12, 8, 4, 4, 4, 4, 4, 12, 12, 4, 4, 4, 4, 4, 4, 4, 4, 4, 4, 4, 64, 4, 8, 12,
     8, 24, 4, 8, 1, 0, 0, 0, 0, 0, 0, 0, 0, 0, 0, 0, 0, 0, 0, 0, 0, 0, 0, 0,
     0, 0, 0, 0, 0, 0, 0, 0, 0, 0, 0, 0, 0, 0, 0, -1, 0, 0, 0, 0, 0, 0, 0, 0,
     0, 0, 0, 0, 0, 0, 0, 0, 0, 0, 0]"

definition of_object_fixed_len :: "int \<Rightarrow> int \<Rightarrow> int res" where
  "of_object_fixed_len version i =
     (if version = 1 then rd of_object_fixed_len_v1 i
      else if version = 2 then rd of_object_fixed_len_v2 i
      else if version = 3 then rd of_object_fixed_len_v3 i
      else if version = 4 then rd of_object_fixed_len_v4 i
      else if version = 5 then rd of_object_fixed_len_v5 i
      else Inl NullDeref)"

text \<open>The ids the assertion of an object's initialiser lets through, and those whose objects fit \<open>l\<close> bytes.\<close>

definition fits :: "int \<Rightarrow> int \<Rightarrow> int \<Rightarrow> bool" where
  "fits version i l = (case of_object_fixed_len version i of Inl _ \<Rightarrow> False | Inr n \<Rightarrow> 0 \<le> n \<and> n \<le> l)"

definition instantiable :: "int \<Rightarrow> int \<Rightarrow> bool" where
  "instantiable version i = (case of_object_fixed_len version i of Inl _ \<Rightarrow> False | Inr n \<Rightarrow> 0 \<le> n)"

lemma fits_instantiable: "fits version i l \<Longrightarrow> instantiable version i"
  by (simp add: fits_def instantiable_def split: sum.splits)

lemma fits_mono: "fits version i l \<Longrightarrow> l \<le> l' \<Longrightarrow> fits version i l'"
  by (auto simp: fits_def split: sum.splits)

text \<open>The tables as facts, read off in one walk along each.\<close>

fun tab_walk :: "int \<Rightarrow> int list \<Rightarrow> (int \<times> int) list \<Rightarrow> bool" where
  "tab_walk k [] ps \<longleftrightarrow> ps = []"
| "tab_walk k (x # xs) [] \<longleftrightarrow> True"
| "tab_walk k (x # xs) ((i, n) # ps) \<longleftrightarrow>
     (if i = k then n = x \<and> tab_walk (k + 1) xs ps else tab_walk (k + 1) xs ((i, n) # ps))"

lemma rd_Cons_step:
  assumes "k + 1 \<le> i" and "rd xs (i - (k + 1)) = Inr n"
  shows "rd (x # xs) (i - k) = Inr n"
proof -
  have "nat (i - k) = Suc (nat (i - (k + 1)))"
    using assms(1) by linarith
  then show ?thesis
    using assms by (simp add: rd_def split: if_splits)
qed

lemma tab_walk_rd:
  "tab_walk k xs ps \<Longrightarrow> (i, n) \<in> set ps \<Longrightarrow> k \<le> i \<and> rd xs (i - k) = Inr n"
proof (induction k xs ps rule: tab_walk.induct)
  case (3 k x xs j m ps)
  show ?case
  proof (cases "j = k")
    case True
    show ?thesis
    proof (cases "(i, n) = (j, m)")
      case False
      then have "k + 1 \<le> i \<and> rd xs (i - (k + 1)) = Inr n"
        using 3 True by auto
      then show ?thesis
        using rd_Cons_step [of k i xs n x] by auto
    qed (use 3 True in \<open>simp add: rd_def\<close>)
  next
    case False
    then have "k + 1 \<le> i \<and> rd xs (i - (k + 1)) = Inr n"
      using 3 by auto
    then show ?thesis
      using rd_Cons_step [of k i xs n x] by auto
  qed
qed auto

lemma tab_walk_list: "tab_walk 0 xs ps \<Longrightarrow> list_all (\<lambda>(i, n). rd xs i = Inr n) ps"
  using tab_walk_rd [of 0 xs ps] by (auto simp: list_all_iff)

lemma fixed_len_rows_1:
  "list_all (\<lambda>(i, n). rd of_object_fixed_len_v1 i = Inr n)
    [(1, 36), (2, 56), (7, 12), (11, 12), (12, 8), (13, 8), (15, 20), (16, 16), (17, 20),
     (18, 16), (19, 24), (20, 20), (51, 16), (52, 16), (53, 24), (54, 24), (55, 24), (56, 16),
     (57, 20), (58, 20), (61, 16), (62, 24), (63, 16), (74, 23), (75, 26), (76, 19), (77, 23),
     (78, 26), (84, 24), (85, 24), (86, 24), (89, 20), (90, 20), (91, 32), (94, 20), (95, 16),
     (96, 20), (97, 24), (98, 24), (106, 24), (107, 20), (108, 20), (109, 20), (117, 1068),
     (118, 12), (119, 8), (120, 8), (121, 10), (122, 12), (124, 16), (125, 16), (126, 32),
     (127, 8), (128, 72), (129, 72), (130, 72), (131, 72), (132, 12), (133, 72), (134, 72),
     (136, 88), (137, 12), (138, 56), (139, 12), (140, 8), (152, 8), (153, 8), (154, 12),
     (163, 20), (164, 20), (165, 16), (166, 18), (167, 16), (170, 32), (171, 12), (172, 12),
     (173, 20), (174, 64), (177, 16), (178, 12), (179, 12), (180, 12), (181, 20), (187, 12),
     (188, 12), (189, 12), (196, 16), (198, 12), (199, 12), (201, 8), (202, 16), (203, 28),
     (205, 24), (206, 16), (211, 16), (212, 8), (239, 16), (240, 16), (241, 8), (248, 16),
     (249, 16), (254, 8), (256, 8), (257, 8), (260, 8), (261, 8), (262, 8), (263, 8), (264, 8),
     (290, 32), (373, 4), (374, 60), (375, 32), (381, 88), (432, 40), (570, 8), (571, 48),
     (582, 104), (592, 8), (595, 16), (596, 32), (625, 64), (629, 0), (642, 0), (653, 0),
     (663, 0), (664, 0), (667, 0), (671, 0), (672, 0), (679, 0)]"
  by (rule tab_walk_list) code_simp

lemmas fixed_len_1 [simp] = fixed_len_rows_1 [unfolded list.pred_inject prod.case simp_thms]

lemma fixed_len_rows_2:
  "list_all (\<lambda>(i, n). rd of_object_fixed_len_v2 i = Inr n)
    [(1, 40), (2, 136), (7, 12), (8, 12), (9, 12), (11, 12), (12, 8), (13, 8), (15, 20), (16, 16),
     (17, 20), (18, 16), (19, 24), (20, 20), (51, 16), (52, 16), (57, 20), (58, 20), (61, 16),
     (74, 25), (75, 28), (76, 21), (77, 25), (78, 28), (89, 20), (90, 20), (91, 32), (97, 24),
     (98, 24), (106, 24), (107, 20), (108, 20), (109, 20), (117, 1072), (118, 16), (119, 8),
     (120, 8), (121, 10), (122, 12), (124, 24), (125, 24), (126, 32), (127, 8), (128, 136),
     (129, 136), (130, 136), (131, 136), (132, 12), (133, 136), (134, 136), (136, 136), (137, 16),
     (138, 136), (139, 12), (140, 8), (141, 16), (142, 16), (143, 16), (144, 16), (147, 16),
     (148, 12), (149, 16), (150, 16), (151, 24), (152, 8), (153, 8), (154, 12), (165, 16),
     (166, 24), (167, 24), (170, 40), (171, 12), (172, 16), (173, 24), (174, 80), (177, 16),
     (178, 16), (179, 12), (180, 16), (181, 24), (187, 12), (188, 16), (189, 16), (190, 12),
     (196, 16), (197, 12), (198, 16), (199, 16), (201, 8), (202, 16), (203, 28), (205, 24),
     (206, 16), (207, 8), (208, 8), (209, 8), (210, 8), (212, 8), (213, 8), (239, 16), (240, 16),
     (241, 16), (242, 8), (244, 8), (245, 8), (247, 8), (248, 16), (249, 16), (251, 8), (252, 8),
     (253, 8), (254, 8), (255, 8), (256, 8), (257, 8), (258, 8), (259, 8), (260, 8), (261, 8),
     (262, 8), (263, 8), (290, 32), (373, 4), (374, 64), (375, 32), (377, 16), (378, 16),
     (381, 136), (382, 8), (383, 32), (386, 8), (387, 8), (403, 8), (404, 8), (405, 8), (430, 8),
     (431, 24), (433, 88), (570, 8), (571, 64), (582, 104), (592, 8), (595, 16), (596, 32),
     (625, 88), (629, 0), (642, 0), (650, 0), (651, 0), (653, 0), (654, 0), (655, 0), (657, 0),
     (663, 0), (664, 0), (667, 0), (671, 0), (672, 0), (679, 0)]"
  by (rule tab_walk_list) code_simp

lemmas fixed_len_2 [simp] = fixed_len_rows_2 [unfolded list.pred_inject prod.case simp_thms]

lemma fixed_len_rows_3:
  "list_all (\<lambda>(i, n). rd of_object_fixed_len_v3 i = Inr n)
    [(1, 40), (2, 56), (7, 12), (8, 12), (9, 12), (11, 12), (12, 8), (13, 8), (15, 20), (16, 16),
     (17, 20), (18, 16), (19, 24), (20, 20), (51, 16), (52, 16), (57, 20), (58, 20), (61, 16),
     (74, 25), (75, 28), (76, 21), (77, 25), (78, 28), (89, 20), (90, 20), (91, 32), (97, 24),
     (98, 24), (106, 24), (107, 20), (108, 20), (109, 20), (117, 1072), (118, 16), (119, 8),
     (120, 8), (121, 10), (122, 16), (123, 16), (124, 24), (125, 24), (126, 32), (127, 8),
     (128, 56), (129, 56), (130, 56), (131, 56), (132, 12), (133, 56), (134, 56), (136, 56),
     (137, 16), (138, 56), (139, 12), (140, 8), (141, 16), (142, 16), (143, 16), (144, 16),
     (145, 56), (146, 16), (147, 16), (148, 12), (149, 16), (150, 16), (151, 24), (152, 8),
     (153, 8), (154, 12), (165, 16), (166, 26), (167, 24), (170, 40), (171, 12), (172, 16),
     (173, 24), (174, 80), (177, 16), (178, 16), (179, 12), (180, 16), (181, 24), (183, 24),
     (184, 24), (185, 12), (187, 12), (188, 16), (189, 16), (190, 12), (196, 16), (197, 12),
     (198, 16), (199, 16), (201, 8), (202, 16), (203, 28), (205, 24), (206, 16), (207, 8),
     (208, 8), (209, 8), (210, 8), (212, 8), (213, 8), (239, 16), (240, 16), (241, 16), (242, 8),
     (244, 8), (245, 8), (247, 8), (250, 8), (253, 8), (258, 8), (259, 8), (290, 32), (373, 4),
     (374, 64), (375, 32), (377, 16), (378, 16), (381, 56), (382, 8), (383, 32), (386, 8),
     (387, 8), (403, 8), (404, 8), (405, 8), (430, 8), (431, 24), (434, 4), (443, 4), (444, 6),
     (445, 8), (446, 10), (447, 16), (448, 8), (449, 12), (450, 10), (451, 16), (452, 8),
     (453, 12), (454, 8), (455, 12), (456, 5), (457, 6), (458, 20), (459, 36), (460, 68),
     (461, 132), (462, 8), (463, 12), (464, 5), (465, 6), (466, 8), (467, 12), (468, 8),
     (469, 12), (470, 8), (471, 12), (472, 8), (473, 12), (474, 6), (475, 8), (476, 8), (477, 12),
     (478, 8), (479, 12), (480, 8), (481, 12), (482, 8), (483, 12), (484, 8), (485, 12),
     (486, 8), (487, 12), (488, 8), (489, 12), (490, 8), (491, 12), (492, 8), (493, 12),
     (494, 8), (495, 12), (496, 10), (497, 16), (498, 10), (499, 16), (500, 6), (501, 8),
     (502, 5), (503, 6), (504, 5), (505, 6), (506, 5), (507, 6), (508, 5), (509, 6), (510, 8),
     (511, 12), (512, 8), (513, 12), (514, 5), (515, 6), (516, 5), (517, 6), (518, 5), (519, 6),
     (520, 8), (521, 12), (522, 8), (523, 12), (524, 20), (525, 36), (528, 8), (529, 12),
     (530, 10), (531, 16), (532, 20), (533, 36), (534, 10), (535, 16), (536, 20), (537, 36),
     (538, 12), (539, 20), (542, 8), (543, 12), (544, 5), (545, 6), (548, 6), (549, 8), (550, 6),
     (551, 8), (552, 6), (553, 8), (554, 6), (555, 8), (558, 8), (559, 12), (560, 8), (561, 12),
     (562, 6), (563, 8), (564, 6), (565, 8), (566, 5), (567, 6), (568, 6), (569, 8), (570, 16),
     (571, 64), (582, 104), (592, 8), (593, 16), (594, 16), (595, 16), (596, 32), (625, 128),
     (629, 0), (642, 0), (650, 0), (651, 0), (653, 0), (654, 0), (655, 0), (657, 0), (662, 0),
     (663, 0), (664, 0), (667, 0), (671, 0), (672, 0), (679, 0)]"
  by (rule tab_walk_list) code_simp

lemmas fixed_len_3 [simp] = fixed_len_rows_3 [unfolded list.pred_inject prod.case simp_thms]

lemma fixed_len_rows_4:
  "list_all (\<lambda>(i, n). rd of_object_fixed_len_v4 i = Inr n)
    [(1, 40), (2, 56), (4, 32), (5, 32), (6, 32), (7, 12), (8, 12), (9, 12), (11, 12), (12, 8),
     (13, 8), (14, 24), (15, 20), (16, 16), (17, 20), (18, 16), (19, 24), (20, 20), (21, 16),
     (22, 16), (23, 24), (24, 24), (25, 24), (26, 24), (27, 24), (28, 25), (29, 40), (30, 20),
     (31, 16), (32, 24), (33, 20), (34, 24), (35, 88), (36, 24), (37, 26), (38, 28), (39, 52),
     (40, 24), (41, 24), (42, 36), (43, 18), (44, 24), (45, 60), (46, 24), (47, 60), (48, 24),
     (49, 24), (50, 24), (51, 16), (52, 16), (57, 20), (58, 20), (59, 272), (60, 16), (61, 16),
     (64, 536), (65, 24), (66, 52), (67, 24), (68, 24), (69, 17), (70, 16), (71, 16), (72, 16),
     (73, 82), (74, 25), (75, 28), (76, 21), (77, 25), (78, 28), (79, 24), (80, 28), (81, 32),
     (82, 24), (83, 20), (87, 24), (88, 38), (89, 20), (90, 20), (91, 32), (92, 20), (93, 272),
     (97, 24), (98, 24), (99, 24), (100, 24), (101, 24), (102, 24), (103, 24), (104, 24),
     (105, 16), (106, 24), (107, 20), (108, 20), (109, 20), (110, 24), (111, 26), (112, 24),
     (113, 28), (117, 1072), (118, 16), (119, 8), (120, 8), (121, 10), (122, 16), (123, 16),
     (124, 24), (125, 24), (126, 32), (127, 8), (128, 56), (129, 56), (130, 56), (131, 56),
     (132, 12), (133, 56), (134, 56), (136, 56), (137, 16), (138, 56), (139, 12), (140, 8),
     (141, 16), (142, 16), (143, 16), (144, 16), (145, 56), (146, 16), (147, 16), (148, 12),
     (149, 16), (150, 16), (151, 24), (152, 8), (153, 8), (154, 12), (155, 16), (156, 24),
     (157, 32), (158, 16), (159, 16), (160, 12), (161, 16), (162, 24), (165, 16), (166, 34),
     (167, 24), (168, 16), (169, 16), (170, 40), (171, 12), (172, 16), (173, 24), (174, 80),
     (177, 16), (178, 16), (179, 12), (180, 16), (181, 24), (183, 24), (184, 24), (185, 12),
     (187, 12), (188, 16), (189, 16), (190, 12), (193, 12), (194, 16), (195, 16), (196, 16),
     (197, 12), (198, 16), (199, 16), (201, 8), (202, 16), (203, 28), (204, 16), (205, 24),
     (206, 16), (207, 8), (208, 8), (209, 8), (210, 8), (212, 8), (213, 8), (214, 4), (215, 12),
     (216, 12), (217, 12), (218, 12), (219, 12), (220, 4), (221, 4), (222, 4), (223, 4),
     (224, 8), (225, 4), (226, 10), (227, 10), (228, 4), (229, 4), (230, 4), (231, 4), (232, 4),
     (233, 4), (234, 4), (235, 4), (236, 4), (237, 4), (238, 4), (239, 16), (240, 16), (241, 16),
     (242, 8), (243, 8), (244, 8), (245, 8), (246, 8), (247, 8), (250, 8), (253, 8), (258, 8),
     (259, 8), (280, 264), (281, 328), (282, 16), (283, 8), (284, 2), (285, 16), (286, 48),
     (287, 20), (288, 4), (289, 24), (290, 32), (291, 36), (292, 8), (293, 256), (294, 9),
     (295, 4), (296, 6), (297, 6), (298, 6), (299, 5), (300, 10), (301, 6), (302, 8), (303, 4),
     (304, 4), (305, 5), (306, 5), (307, 4), (308, 10), (309, 10), (310, 8), (311, 10), (312, 8),
     (313, 10), (314, 8), (315, 8), (316, 5), (317, 6), (318, 5), (319, 4), (320, 12), (321, 8),
     (322, 10), (323, 10), (324, 8), (325, 5), (326, 8), (327, 8), (328, 8), (329, 8), (330, 10),
     (331, 10), (332, 12), (333, 5), (334, 8), (335, 5), (336, 4), (337, 6), (338, 6), (339, 6),
     (340, 5), (341, 10), (342, 6), (343, 8), (344, 8), (345, 8), (346, 8), (347, 6), (348, 12),
     (349, 12), (350, 12), (351, 12), (352, 8), (353, 4), (354, 4), (355, 4), (356, 4), (357, 8),
     (358, 6), (359, 6), (360, 12), (361, 12), (362, 6), (363, 6), (364, 6), (365, 6), (366, 6),
     (367, 6), (368, 8), (369, 5), (370, 6), (371, 8), (372, 8), (373, 4), (374, 64), (375, 32),
     (376, 8), (377, 16), (378, 16), (381, 56), (382, 8), (383, 40), (384, 4), (385, 4),
     (386, 4), (387, 8), (388, 16), (389, 16), (390, 16), (391, 16), (392, 16), (393, 16),
     (394, 16), (395, 16), (396, 16), (397, 16), (398, 16), (399, 16), (400, 16), (401, 16),
     (402, 16), (403, 8), (404, 8), (405, 8), (406, 4), (407, 4), (408, 12), (409, 12), (410, 12),
     (411, 12), (412, 12), (413, 12), (414, 12), (415, 12), (416, 12), (417, 12), (418, 12),
     (419, 12), (420, 12), (421, 12), (422, 12), (423, 4), (424, 8), (425, 4), (426, 4),
     (427, 4), (428, 4), (429, 8), (430, 8), (431, 24), (434, 4), (435, 4), (436, 16), (437, 16),
     (438, 16), (439, 16), (440, 8), (441, 16), (442, 40), (443, 4), (444, 6), (445, 8),
     (446, 10), (447, 16), (448, 8), (449, 12), (450, 10), (451, 16), (452, 8), (453, 12),
     (454, 8), (455, 12), (456, 5), (457, 6), (458, 20), (459, 36), (460, 68), (461, 132),
     (462, 8), (463, 12), (464, 5), (465, 6), (466, 8), (467, 12), (468, 8), (469, 12), (470, 8),
     (471, 12), (472, 8), (473, 12), (474, 6), (475, 8), (476, 8), (477, 12), (478, 8), (479, 12),
     (480, 8), (481, 12), (482, 8), (483, 12), (484, 8), (485, 12), (486, 8), (487, 12),
     (488, 8), (489, 12), (490, 8), (491, 12), (492, 8), (493, 12), (494, 8), (495, 12),
     (496, 10), (497, 16), (498, 10), (499, 16), (500, 6), (501, 8), (502, 5), (503, 6),
     (504, 5), (505, 6), (506, 5), (507, 6), (508, 5), (509, 6), (510, 8), (511, 12), (512, 8),
     (513, 12), (514, 5), (515, 6), (516, 5), (517, 6), (518, 5), (519, 6), (520, 8), (521, 12),
     (522, 8), (523, 12), (524, 20), (525, 36), (526, 6), (527, 8), (528, 8), (529, 12),
     (530, 10), (531, 16), (532, 20), (533, 36), (534, 10), (535, 16), (536, 20), (537, 36),
     (538, 12), (539, 20), (540, 5), (541, 6), (542, 8), (543, 12), (544, 5), (545, 6), (548, 6),
     (549, 8), (550, 6), (551, 8), (552, 6), (553, 8), (554, 6), (555, 8), (556, 12), (557, 20),
     (558, 8), (559, 12), (560, 8), (561, 12), (562, 6), (563, 8), (564, 6), (565, 8), (566, 5),
     (567, 6), (568, 6), (569, 8), (570, 16), (571, 64), (582, 112), (592, 8), (593, 16),
     (594, 16), (595, 16), (596, 40), (602, 4), (603, 4), (604, 4), (605, 4), (606, 4), (607, 12),
     (608, 12), (609, 4), (610, 4), (611, 4), (612, 4), (613, 4), (615, 4), (616, 4), (617, 4),
     (618, 4), (619, 4), (620, 64), (625, 24), (626, 4), (627, 8), (628, 1), (629, 0), (630, 0),
     (632, 0), (633, 0), (634, 0), (635, 0), (636, 0), (637, 0), (638, 0), (639, 0), (640, 0),
     (641, 0), (642, 0), (643, 0), (644, 0), (645, 0), (646, 0), (647, 0), (648, 0), (649, 0),
     (650, 0), (651, 0), (653, 0), (654, 0), (655, 0), (656, 0), (657, 0), (658, 0), (659, 0),
     (660, 0), (661, 0), (662, 0), (663, 0), (664, 0), (667, 0), (671, 0), (672, 0), (676, 0),
     (677, 0), (679, 0), (680, 0), (681, 0), (682, 0)]"
  by (rule tab_walk_list) code_simp

lemmas fixed_len_4 [simp] = fixed_len_rows_4 [unfolded list.pred_inject prod.case simp_thms]

lemma fixed_len_rows_5:
  "list_all (\<lambda>(i, n). rd of_object_fixed_len_v5 i = Inr n)
    [(1, 40), (2, 56), (3, 12), (4, 8), (5, 8), (6, 8), (7, 12), (8, 12), (9, 12), (10, 12),
     (11, 12), (12, 8), (13, 8), (14, 24), (15, 20), (16, 16), (17, 20), (18, 16), (19, 24),
     (20, 20), (21, 16), (22, 16), (23, 24), (24, 24), (25, 24), (26, 24), (27, 24), (28, 25),
     (29, 40), (30, 20), (31, 16), (32, 24), (33, 20), (34, 24), (35, 88), (36, 24), (37, 26),
     (38, 28), (39, 52), (40, 24), (41, 24), (42, 36), (43, 18), (44, 24), (45, 60), (46, 24),
     (47, 60), (48, 24), (49, 24), (50, 24), (51, 16), (52, 16), (57, 20), (58, 20), (59, 272),
     (60, 16), (61, 16), (64, 536), (65, 24), (66, 52), (67, 24), (68, 24), (69, 17), (70, 16),
     (71, 16), (72, 16), (73, 82), (74, 25), (75, 28), (76, 21), (77, 25), (78, 28), (79, 24),
     (80, 28), (82, 24), (83, 20), (87, 24), (88, 38), (89, 20), (90, 20), (91, 32), (92, 20),
     (93, 272), (97, 24), (98, 24), (99, 24), (100, 24), (101, 24), (102, 24), (103, 24),
     (104, 24), (105, 16), (106, 24), (107, 20), (108, 20), (109, 20), (110, 24), (111, 26),
     (112, 24), (113, 28), (114, 16), (115, 16), (116, 12), (117, 1072), (118, 16), (119, 8),
     (120, 8), (121, 10), (122, 16), (123, 16), (124, 24), (125, 24), (126, 32), (127, 8),
     (128, 56), (129, 56), (130, 56), (131, 56), (132, 12), (133, 56), (134, 56), (135, 12),
     (136, 56), (137, 16), (138, 56), (139, 12), (140, 8), (141, 16), (142, 16), (143, 16),
     (144, 16), (145, 56), (146, 16), (147, 16), (148, 12), (149, 16), (150, 16), (151, 24),
     (152, 8), (153, 8), (154, 12), (155, 16), (156, 24), (157, 32), (158, 16), (159, 16),
     (160, 12), (161, 16), (162, 24), (165, 16), (166, 34), (167, 24), (168, 16), (169, 16),
     (170, 32), (171, 12), (172, 16), (173, 24), (174, 56), (175, 16), (176, 16), (179, 12),
     (180, 16), (181, 24), (182, 12), (183, 24), (184, 24), (185, 12), (186, 24), (187, 12),
     (188, 16), (189, 16), (190, 12), (191, 16), (192, 16), (193, 12), (194, 16), (195, 16),
     (196, 16), (197, 12), (198, 16), (199, 16), (200, 28), (201, 8), (202, 16), (203, 28),
     (204, 16), (205, 24), (206, 16), (207, 8), (208, 8), (209, 8), (210, 8), (212, 8), (213, 8),
     (214, 4), (215, 12), (216, 12), (217, 12), (218, 12), (219, 12), (220, 4), (221, 4),
     (222, 4), (223, 4), (224, 8), (225, 4), (226, 10), (227, 10), (228, 4), (229, 4), (230, 4),
     (231, 4), (232, 4), (233, 4), (234, 4), (235, 4), (236, 4), (237, 4), (238, 4), (239, 16),
     (240, 16), (241, 16), (242, 8), (243, 8), (244, 8), (245, 8), (246, 8), (247, 8), (250, 8),
     (253, 8), (258, 8), (259, 8), (265, 4), (266, 4), (267, 4), (268, 8), (269, 8), (270, 8),
     (271, 8), (272, 8), (273, 8), (274, 8), (275, 8), (276, 8), (277, 8), (278, 8), (279, 8),
     (280, 264), (281, 328), (282, 16), (283, 8), (284, 2), (285, 16), (286, 48), (287, 20),
     (288, 4), (289, 24), (290, 32), (291, 36), (292, 8), (293, 256), (294, 9), (295, 4),
     (296, 6), (297, 6), (298, 6), (299, 5), (300, 10), (301, 6), (302, 8), (303, 4), (304, 4),
     (305, 5), (306, 5), (307, 4), (308, 10), (309, 10), (310, 8), (311, 10), (312, 8), (313, 10),
     (314, 8), (315, 8), (316, 5), (317, 6), (318, 5), (319, 4), (320, 12), (321, 8), (322, 10),
     (323, 10), (324, 8), (325, 5), (326, 8), (327, 8), (328, 8), (329, 8), (330, 10), (331, 10),
     (332, 12), (333, 5), (334, 8), (335, 5), (336, 4), (337, 6), (338, 6), (339, 6), (340, 5),
     (341, 10), (342, 6), (343, 8), (344, 8), (345, 8), (346, 8), (347, 6), (348, 12), (349, 12),
     (350, 12), (351, 12), (352, 8), (353, 4), (354, 4), (355, 4), (356, 4), (357, 8), (358, 6),
     (359, 6), (360, 12), (361, 12), (362, 6), (363, 6), (364, 6), (365, 6), (366, 6), (367, 6),
     (368, 8), (369, 5), (370, 6), (371, 8), (372, 8), (373, 4), (374, 64), (375, 32), (376, 8),
     (377, 16), (378, 16), (379, 4), (380, 12), (381, 56), (382, 8), (383, 40), (384, 4),
     (385, 4), (386, 4), (387, 8), (388, 16), (389, 16), (390, 16), (391, 16), (392, 16),
     (393, 16), (395, 16), (396, 16), (397, 16), (398, 16), (399, 16), (400, 16), (401, 16),
     (402, 16), (403, 8), (404, 8), (405, 8), (406, 4), (407, 4), (408, 12), (409, 12), (410, 12),
     (411, 12), (412, 12), (413, 12), (415, 12), (416, 12), (417, 12), (418, 12), (419, 12),
     (420, 12), (421, 12), (422, 12), (423, 4), (424, 8), (425, 4), (426, 4), (427, 4), (428, 4),
     (429, 8), (430, 8), (431, 24), (434, 4), (435, 4), (436, 16), (437, 16), (438, 16),
     (439, 16), (440, 8), (441, 16), (442, 40), (443, 4), (444, 6), (445, 8), (446, 10),
     (447, 16), (448, 8), (449, 12), (450, 10), (451, 16), (452, 8), (453, 12), (454, 8),
     (455, 12), (458, 20), (459, 36), (460, 68), (461, 132), (462, 8), (463, 12), (468, 8),
     (469, 12), (470, 8), (471, 12), (472, 8), (473, 12), (474, 6), (475, 8), (476, 8), (477, 12),
     (478, 8), (479, 12), (480, 8), (481, 12), (482, 8), (483, 12), (484, 8), (485, 12),
     (486, 8), (487, 12), (488, 8), (489, 12), (490, 8), (491, 12), (492, 8), (493, 12),
     (494, 8), (495, 12), (496, 10), (497, 16), (498, 10), (499, 16), (500, 6), (501, 8),
     (502, 5), (503, 6), (504, 5), (505, 6), (506, 5), (507, 6), (508, 5), (509, 6), (510, 8),
     (511, 12), (512, 8), (513, 12), (514, 5), (515, 6), (516, 5), (517, 6), (518, 5), (519, 6),
     (520, 8), (521, 12), (522, 8), (523, 12), (524, 20), (525, 36), (526, 6), (527, 8),
     (528, 8), (529, 12), (530, 10), (531, 16), (532, 20), (533, 36), (534, 10), (535, 16),
     (536, 20), (537, 36), (538, 12), (539, 20), (540, 5), (541, 6), (542, 8), (543, 12),
     (544, 5), (545, 6), (546, 5), (547, 6), (548, 6), (549, 8), (550, 6), (551, 8), (552, 6),
     (553, 8), (554, 6), (555, 8), (556, 12), (557, 20), (558, 8), (559, 12), (560, 8), (561, 12),
     (562, 6), (563, 8), (564, 6), (565, 8), (566, 5), (567, 6), (568, 6), (569, 8), (570, 16),
     (571, 40), (572, 4), (573, 12), (574, 12), (575, 32), (576, 12), (577, 44), (578, 4),
     (579, 8), (580, 12), (581, 24), (582, 80), (583, 4), (584, 40), (585, 12), (586, 44),
     (587, 16), (588, 4), (589, 12), (590, 8), (591, 8), (592, 8), (593, 16), (594, 16),
     (595, 16), (596, 48), (597, 4), (598, 12), (599, 4), (600, 12), (601, 8), (602, 4),
     (603, 4), (604, 4), (605, 4), (606, 4), (607, 12), (608, 12), (609, 4), (610, 4), (611, 4),
     (612, 4), (613, 4), (614, 4), (615, 4), (616, 4), (617, 4), (618, 4), (619, 4), (620, 64),
     (621, 4), (622, 8), (623, 12), (624, 8), (625, 24), (626, 4), (627, 8), (628, 1), (629, 0),
     (630, 0), (631, 0), (632, 0), (633, 0), (634, 0), (635, 0), (636, 0), (637, 0), (638, 0),
     (639, 0), (640, 0), (641, 0), (642, 0), (643, 0), (644, 0), (645, 0), (646, 0), (647, 0),
     (648, 0), (649, 0), (650, 0), (651, 0), (652, 0), (653, 0), (654, 0), (655, 0), (656, 0),
     (657, 0), (658, 0), (659, 0), (660, 0), (661, 0), (662, 0), (664, 0), (665, 0), (666, 0),
     (667, 0), (668, 0), (669, 0), (670, 0), (671, 0), (672, 0), (673, 0), (674, 0), (675, 0),
     (676, 0), (677, 0), (678, 0), (679, 0), (680, 0), (681, 0), (682, 0)]"
  by (rule tab_walk_list) code_simp

lemmas fixed_len_5 [simp] = fixed_len_rows_5 [unfolded list.pred_inject prod.case simp_thms]

end
