(* ===== verification/Dispatch.thy ===== *)
theory Dispatch
  imports Validator ObjectIds
begin

text \<open>
  Why the id getters are safe on validated messages: a getter follows the type fields the
  validator has followed, so every field it reads lies inside the message, and every id it can
  return is one the version can instantiate, of a fixed length the message has.
\<close>

definition getter_ok :: "int \<Rightarrow> getter \<Rightarrow> byte list \<Rightarrow> int \<Rightarrow> int \<Rightarrow> bool" where
  "getter_ok ver d data p len = (case d data p of Inl _ \<Rightarrow> False | Inr i \<Rightarrow> fits ver i len)"

text \<open>\<open>covered ver v d\<close>: after \<open>v\<close> has accepted an object, \<open>d\<close> identifies it.\<close>

definition covered :: "int \<Rightarrow> validator \<Rightarrow> getter \<Rightarrow> bool" where
  "covered ver v d \<longleftrightarrow> (\<forall>data p len n. 0 \<le> p \<longrightarrow> p + len \<le> int (length data) \<longrightarrow>
     v data p len = Inr (Some n) \<longrightarrow> getter_ok ver d data p len)"

definition k_covered :: "int \<Rightarrow> int \<Rightarrow> validator \<Rightarrow> getter \<Rightarrow> bool" where
  "k_covered ver l v d \<longleftrightarrow> (\<forall>data p len n. l \<le> len \<longrightarrow> 0 \<le> p \<longrightarrow> p + len \<le> int (length data) \<longrightarrow>
     v data p len = Inr (Some n) \<longrightarrow> getter_ok ver d data p len)"

definition always_ok :: "int \<Rightarrow> int \<Rightarrow> getter \<Rightarrow> bool" where
  "always_ok ver l d \<longleftrightarrow> (\<forall>data p. getter_ok ver d data p l)"

text \<open>Case by case: a type the validator knows is covered, any other has a constant id.\<close>

definition case_covered :: "int \<Rightarrow> int \<Rightarrow> (int \<times> validator) list \<Rightarrow> int \<times> getter \<Rightarrow> bool" where
  "case_covered ver l cases c \<longleftrightarrow> (case map_of cases (fst c) of
     None \<Rightarrow> always_ok ver l (snd c) | Some v \<Rightarrow> covered ver v (snd c))"

named_theorems c_intro \<open>a validator statement covers a getter statement\<close>
named_theorems c_proved \<open>the getters shown to be covered\<close>

lemma getter_ok_mono: "getter_ok ver d data p l \<Longrightarrow> l \<le> l' \<Longrightarrow> getter_ok ver d data p l'"
  by (auto simp: getter_ok_def fits_mono split: sum.splits)

lemma always_ok_id [simp]: "always_ok ver l (d_id i) \<longleftrightarrow> fits ver i l"
  by (simp add: always_ok_def getter_ok_def d_id_def)

lemma covered_min_id: "fits ver i n \<Longrightarrow> covered ver (v_min n k) (d_id i)"
  by (auto simp: covered_def v_min_def getter_ok_def d_id_def fits_mono split: if_splits)

lemma covered_min [c_intro]: "k_covered ver n k d \<Longrightarrow> covered ver (v_min n k) d"
  unfolding covered_def k_covered_def v_min_def by (metis Inr_inject linorder_not_less option.distinct(1))

lemma k_covered_wire_len_set [c_intro]:
  assumes "k_covered ver n k d"
  shows "k_covered ver l (v_wire_len_set off n k) d"
  unfolding k_covered_def
proof (intro allI impI)
  fix data :: "byte list" and p len m
  assume h: "0 \<le> p" "p + len \<le> int (length data)" "v_wire_len_set off n k data p len = Inr (Some m)"
  then obtain w where "k data p (uint w) = Inr (Some m)" and w: "uint (w :: 16 word) \<le> len" "n \<le> uint w"
    by (auto simp: v_wire_len_set_def bnd_Inr split: if_splits)
  then have "getter_ok ver d data p (uint w)"
    using assms h(1,2) by (auto simp: k_covered_def)
  then show "getter_ok ver d data p len"
    using getter_ok_mono w(1) by blast
qed

lemma getter_case:
  assumes "\<forall>c\<in>set ds. case_covered ver l cases c" and "fits ver dflt l" and "l \<le> len"
    and "v_case cases t k data p len = Inr (Some n)" and "0 \<le> p" "p + len \<le> int (length data)"
  shows "getter_ok ver (d_case ds t dflt) data p len"
proof (cases "map_of ds t")
  case None
  then show ?thesis
    using assms(2,3) by (simp add: d_case_def getter_ok_def d_id_def fits_mono)
next
  case (Some d)
  then have c: "case_covered ver l cases (t, d)"
    using assms(1) map_of_SomeD by fastforce
  show ?thesis
  proof (cases "map_of cases t")
    case None
    then have "getter_ok ver d data p l"
      using c by (simp add: case_covered_def always_ok_def)
    then show ?thesis
      using Some getter_ok_mono assms(3) by (auto simp: d_case_def)
  next
    case (Some v)
    then have "covered ver v d" "v data p len = Inr (Some n)"
      using c assms(4) by (simp_all add: case_covered_def v_case_def)
    then show ?thesis
      using assms(5,6) \<open>map_of ds t = Some d\<close> by (auto simp: d_case_def covered_def)
  qed
qed

lemma k_covered_switch8 [c_intro]:
  assumes "\<forall>c\<in>set ds. case_covered ver l cases c" and "fits ver dflt l"
  shows "k_covered ver l (v_switch8 off cases k) (d_switch8 off ds dflt)"
  unfolding k_covered_def
proof (intro allI impI)
  fix data :: "byte list" and p len n
  assume h: "0 \<le> p" "p + len \<le> int (length data)" "v_switch8 off cases k data p len = Inr (Some n)" "l \<le> len"
  then obtain w where w: "buf_u8_get data (p + off) = Inr w"
    and "v_case cases (uint w) k data p len = Inr (Some n)"
    by (auto simp: v_switch8_def bnd_Inr)
  then have "getter_ok ver (d_case ds (uint w) dflt) data p len"
    using getter_case [OF assms h(4)] h(1,2) by blast
  then show "getter_ok ver (d_switch8 off ds dflt) data p len"
    using w by (simp add: getter_ok_def d_switch8_def)
qed

lemma k_covered_switch16 [c_intro]:
  assumes "\<forall>c\<in>set ds. case_covered ver l cases c" and "fits ver dflt l"
  shows "k_covered ver l (v_switch16 off cases k) (d_switch16 off ds dflt)"
  unfolding k_covered_def
proof (intro allI impI)
  fix data :: "byte list" and p len n
  assume h: "0 \<le> p" "p + len \<le> int (length data)" "v_switch16 off cases k data p len = Inr (Some n)" "l \<le> len"
  then obtain w where w: "buf_u16_get data (p + off) = Inr w"
    and "v_case cases (uint w) k data p len = Inr (Some n)"
    by (auto simp: v_switch16_def bnd_Inr)
  then have "getter_ok ver (d_case ds (uint w) dflt) data p len"
    using getter_case [OF assms h(4)] h(1,2) by blast
  then show "getter_ok ver (d_switch16 off ds dflt) data p len"
    using w by (simp add: getter_ok_def d_switch16_def)
qed

lemma k_covered_switch32 [c_intro]:
  assumes "\<forall>c\<in>set ds. case_covered ver l cases c" and "fits ver dflt l"
  shows "k_covered ver l (v_switch32 off cases k) (d_switch32 off ds dflt)"
  unfolding k_covered_def
proof (intro allI impI)
  fix data :: "byte list" and p len n
  assume h: "0 \<le> p" "p + len \<le> int (length data)" "v_switch32 off cases k data p len = Inr (Some n)" "l \<le> len"
  then obtain w where w: "buf_u32_get data (p + off) = Inr w"
    and "v_case cases (uint w) k data p len = Inr (Some n)"
    by (auto simp: v_switch32_def bnd_Inr)
  then have "getter_ok ver (d_case ds (uint w) dflt) data p len"
    using getter_case [OF assms h(4)] h(1,2) by blast
  then show "getter_ok ver (d_switch32 off ds dflt) data p len"
    using w by (simp add: getter_ok_def d_switch32_def)
qed

subsection \<open>OpenFlow 1.0\<close>

lemma covers_aggregate_stats_reply_1_0 [c_proved]: "covered 1 loci_validate_of_aggregate_stats_reply_OF_VERSION_1_0 (d_id 1)"
  by (simp add: loci_validate_of_aggregate_stats_reply_OF_VERSION_1_0_def covered_min_id fits_def of_object_fixed_len_def)

lemma covers_aggregate_stats_request_1_0 [c_proved]: "covered 1 loci_validate_of_aggregate_stats_request_OF_VERSION_1_0 (d_id 2)"
  by (simp add: loci_validate_of_aggregate_stats_request_OF_VERSION_1_0_def covered_min_id fits_def of_object_fixed_len_def)

lemma covers_bad_action_error_msg_1_0 [c_proved]: "covered 1 loci_validate_of_bad_action_error_msg_OF_VERSION_1_0 (d_id 7)"
  by (simp add: loci_validate_of_bad_action_error_msg_OF_VERSION_1_0_def covered_min_id fits_def of_object_fixed_len_def)

lemma covers_bad_request_error_msg_1_0 [c_proved]: "covered 1 loci_validate_of_bad_request_error_msg_OF_VERSION_1_0 (d_id 11)"
  by (simp add: loci_validate_of_bad_request_error_msg_OF_VERSION_1_0_def covered_min_id fits_def of_object_fixed_len_def)

lemma covers_barrier_reply_1_0 [c_proved]: "covered 1 loci_validate_of_barrier_reply_OF_VERSION_1_0 (d_id 12)"
  by (simp add: loci_validate_of_barrier_reply_OF_VERSION_1_0_def covered_min_id fits_def of_object_fixed_len_def)

lemma covers_barrier_request_1_0 [c_proved]: "covered 1 loci_validate_of_barrier_request_OF_VERSION_1_0 (d_id 13)"
  by (simp add: loci_validate_of_barrier_request_OF_VERSION_1_0_def covered_min_id fits_def of_object_fixed_len_def)

lemma covers_bsn_bw_clear_data_reply_1_0 [c_proved]: "covered 1 loci_validate_of_bsn_bw_clear_data_reply_OF_VERSION_1_0 (d_id 15)"
  by (simp add: loci_validate_of_bsn_bw_clear_data_reply_OF_VERSION_1_0_def covered_min_id fits_def of_object_fixed_len_def)

lemma covers_bsn_bw_clear_data_request_1_0 [c_proved]: "covered 1 loci_validate_of_bsn_bw_clear_data_request_OF_VERSION_1_0 (d_id 16)"
  by (simp add: loci_validate_of_bsn_bw_clear_data_request_OF_VERSION_1_0_def covered_min_id fits_def of_object_fixed_len_def)

lemma covers_bsn_bw_enable_get_reply_1_0 [c_proved]: "covered 1 loci_validate_of_bsn_bw_enable_get_reply_OF_VERSION_1_0 (d_id 17)"
  by (simp add: loci_validate_of_bsn_bw_enable_get_reply_OF_VERSION_1_0_def covered_min_id fits_def of_object_fixed_len_def)

lemma covers_bsn_bw_enable_get_request_1_0 [c_proved]: "covered 1 loci_validate_of_bsn_bw_enable_get_request_OF_VERSION_1_0 (d_id 18)"
  by (simp add: loci_validate_of_bsn_bw_enable_get_request_OF_VERSION_1_0_def covered_min_id fits_def of_object_fixed_len_def)

lemma covers_bsn_bw_enable_set_reply_1_0 [c_proved]: "covered 1 loci_validate_of_bsn_bw_enable_set_reply_OF_VERSION_1_0 (d_id 19)"
  by (simp add: loci_validate_of_bsn_bw_enable_set_reply_OF_VERSION_1_0_def covered_min_id fits_def of_object_fixed_len_def)

lemma covers_bsn_bw_enable_set_request_1_0 [c_proved]: "covered 1 loci_validate_of_bsn_bw_enable_set_request_OF_VERSION_1_0 (d_id 20)"
  by (simp add: loci_validate_of_bsn_bw_enable_set_request_OF_VERSION_1_0_def covered_min_id fits_def of_object_fixed_len_def)

lemma covers_bsn_get_interfaces_reply_1_0 [c_proved]: "covered 1 loci_validate_of_bsn_get_interfaces_reply_OF_VERSION_1_0 (d_id 51)"
  by (simp add: loci_validate_of_bsn_get_interfaces_reply_OF_VERSION_1_0_def covered_min_id fits_def of_object_fixed_len_def)

lemma covers_bsn_get_interfaces_request_1_0 [c_proved]: "covered 1 loci_validate_of_bsn_get_interfaces_request_OF_VERSION_1_0 (d_id 52)"
  by (simp add: loci_validate_of_bsn_get_interfaces_request_OF_VERSION_1_0_def covered_min_id fits_def of_object_fixed_len_def)

lemma covers_bsn_get_ip_mask_reply_1_0 [c_proved]: "covered 1 loci_validate_of_bsn_get_ip_mask_reply_OF_VERSION_1_0 (d_id 53)"
  by (simp add: loci_validate_of_bsn_get_ip_mask_reply_OF_VERSION_1_0_def covered_min_id fits_def of_object_fixed_len_def)

lemma covers_bsn_get_ip_mask_request_1_0 [c_proved]: "covered 1 loci_validate_of_bsn_get_ip_mask_request_OF_VERSION_1_0 (d_id 54)"
  by (simp add: loci_validate_of_bsn_get_ip_mask_request_OF_VERSION_1_0_def covered_min_id fits_def of_object_fixed_len_def)

lemma covers_bsn_get_l2_table_reply_1_0 [c_proved]: "covered 1 loci_validate_of_bsn_get_l2_table_reply_OF_VERSION_1_0 (d_id 55)"
  by (simp add: loci_validate_of_bsn_get_l2_table_reply_OF_VERSION_1_0_def covered_min_id fits_def of_object_fixed_len_def)

lemma covers_bsn_get_l2_table_request_1_0 [c_proved]: "covered 1 loci_validate_of_bsn_get_l2_table_request_OF_VERSION_1_0 (d_id 56)"
  by (simp add: loci_validate_of_bsn_get_l2_table_request_OF_VERSION_1_0_def covered_min_id fits_def of_object_fixed_len_def)

lemma covers_bsn_get_mirroring_reply_1_0 [c_proved]: "covered 1 loci_validate_of_bsn_get_mirroring_reply_OF_VERSION_1_0 (d_id 57)"
  by (simp add: loci_validate_of_bsn_get_mirroring_reply_OF_VERSION_1_0_def covered_min_id fits_def of_object_fixed_len_def)

lemma covers_bsn_get_mirroring_request_1_0 [c_proved]: "covered 1 loci_validate_of_bsn_get_mirroring_request_OF_VERSION_1_0 (d_id 58)"
  by (simp add: loci_validate_of_bsn_get_mirroring_request_OF_VERSION_1_0_def covered_min_id fits_def of_object_fixed_len_def)

lemma covers_bsn_hybrid_get_reply_1_0 [c_proved]: "covered 1 loci_validate_of_bsn_hybrid_get_reply_OF_VERSION_1_0 (d_id 62)"
  by (simp add: loci_validate_of_bsn_hybrid_get_reply_OF_VERSION_1_0_def covered_min_id fits_def of_object_fixed_len_def)

lemma covers_bsn_hybrid_get_request_1_0 [c_proved]: "covered 1 loci_validate_of_bsn_hybrid_get_request_OF_VERSION_1_0 (d_id 63)"
  by (simp add: loci_validate_of_bsn_hybrid_get_request_OF_VERSION_1_0_def covered_min_id fits_def of_object_fixed_len_def)

lemma covers_bsn_pdu_rx_reply_1_0 [c_proved]: "covered 1 loci_validate_of_bsn_pdu_rx_reply_OF_VERSION_1_0 (d_id 74)"
  by (simp add: loci_validate_of_bsn_pdu_rx_reply_OF_VERSION_1_0_def covered_min_id fits_def of_object_fixed_len_def)

lemma covers_bsn_pdu_rx_request_1_0 [c_proved]: "covered 1 loci_validate_of_bsn_pdu_rx_request_OF_VERSION_1_0 (d_id 75)"
  by (simp add: loci_validate_of_bsn_pdu_rx_request_OF_VERSION_1_0_def covered_min_id fits_def of_object_fixed_len_def)

lemma covers_bsn_pdu_rx_timeout_1_0 [c_proved]: "covered 1 loci_validate_of_bsn_pdu_rx_timeout_OF_VERSION_1_0 (d_id 76)"
  by (simp add: loci_validate_of_bsn_pdu_rx_timeout_OF_VERSION_1_0_def covered_min_id fits_def of_object_fixed_len_def)

lemma covers_bsn_pdu_tx_reply_1_0 [c_proved]: "covered 1 loci_validate_of_bsn_pdu_tx_reply_OF_VERSION_1_0 (d_id 77)"
  by (simp add: loci_validate_of_bsn_pdu_tx_reply_OF_VERSION_1_0_def covered_min_id fits_def of_object_fixed_len_def)

lemma covers_bsn_pdu_tx_request_1_0 [c_proved]: "covered 1 loci_validate_of_bsn_pdu_tx_request_OF_VERSION_1_0 (d_id 78)"
  by (simp add: loci_validate_of_bsn_pdu_tx_request_OF_VERSION_1_0_def covered_min_id fits_def of_object_fixed_len_def)

lemma covers_bsn_set_ip_mask_1_0 [c_proved]: "covered 1 loci_validate_of_bsn_set_ip_mask_OF_VERSION_1_0 (d_id 84)"
  by (simp add: loci_validate_of_bsn_set_ip_mask_OF_VERSION_1_0_def covered_min_id fits_def of_object_fixed_len_def)

lemma covers_bsn_set_l2_table_reply_1_0 [c_proved]: "covered 1 loci_validate_of_bsn_set_l2_table_reply_OF_VERSION_1_0 (d_id 85)"
  by (simp add: loci_validate_of_bsn_set_l2_table_reply_OF_VERSION_1_0_def covered_min_id fits_def of_object_fixed_len_def)

lemma covers_bsn_set_l2_table_request_1_0 [c_proved]: "covered 1 loci_validate_of_bsn_set_l2_table_request_OF_VERSION_1_0 (d_id 86)"
  by (simp add: loci_validate_of_bsn_set_l2_table_request_OF_VERSION_1_0_def covered_min_id fits_def of_object_fixed_len_def)

lemma covers_bsn_set_mirroring_1_0 [c_proved]: "covered 1 loci_validate_of_bsn_set_mirroring_OF_VERSION_1_0 (d_id 89)"
  by (simp add: loci_validate_of_bsn_set_mirroring_OF_VERSION_1_0_def covered_min_id fits_def of_object_fixed_len_def)

lemma covers_bsn_set_pktin_suppression_reply_1_0 [c_proved]: "covered 1 loci_validate_of_bsn_set_pktin_suppression_reply_OF_VERSION_1_0 (d_id 90)"
  by (simp add: loci_validate_of_bsn_set_pktin_suppression_reply_OF_VERSION_1_0_def covered_min_id fits_def of_object_fixed_len_def)

lemma covers_bsn_set_pktin_suppression_request_1_0 [c_proved]: "covered 1 loci_validate_of_bsn_set_pktin_suppression_request_OF_VERSION_1_0 (d_id 91)"
  by (simp add: loci_validate_of_bsn_set_pktin_suppression_request_OF_VERSION_1_0_def covered_min_id fits_def of_object_fixed_len_def)

lemma covers_bsn_shell_command_1_0 [c_proved]: "covered 1 loci_validate_of_bsn_shell_command_OF_VERSION_1_0 (d_id 94)"
  by (simp add: loci_validate_of_bsn_shell_command_OF_VERSION_1_0_def covered_min_id fits_def of_object_fixed_len_def)

lemma covers_bsn_shell_output_1_0 [c_proved]: "covered 1 loci_validate_of_bsn_shell_output_OF_VERSION_1_0 (d_id 95)"
  by (simp add: loci_validate_of_bsn_shell_output_OF_VERSION_1_0_def covered_min_id fits_def of_object_fixed_len_def)

lemma covers_bsn_shell_status_1_0 [c_proved]: "covered 1 loci_validate_of_bsn_shell_status_OF_VERSION_1_0 (d_id 96)"
  by (simp add: loci_validate_of_bsn_shell_status_OF_VERSION_1_0_def covered_min_id fits_def of_object_fixed_len_def)

lemma covers_bsn_virtual_port_create_reply_1_0 [c_proved]: "covered 1 loci_validate_of_bsn_virtual_port_create_reply_OF_VERSION_1_0 (d_id 106)"
  by (simp add: loci_validate_of_bsn_virtual_port_create_reply_OF_VERSION_1_0_def covered_min_id fits_def of_object_fixed_len_def)

lemma covers_bsn_virtual_port_create_request_1_0 [c_proved]: "covered 1 loci_validate_of_bsn_virtual_port_create_request_OF_VERSION_1_0 (d_id 107)"
  by (simp add: loci_validate_of_bsn_virtual_port_create_request_OF_VERSION_1_0_def covered_min_id fits_def of_object_fixed_len_def)

lemma covers_bsn_virtual_port_remove_reply_1_0 [c_proved]: "covered 1 loci_validate_of_bsn_virtual_port_remove_reply_OF_VERSION_1_0 (d_id 108)"
  by (simp add: loci_validate_of_bsn_virtual_port_remove_reply_OF_VERSION_1_0_def covered_min_id fits_def of_object_fixed_len_def)

lemma covers_bsn_virtual_port_remove_request_1_0 [c_proved]: "covered 1 loci_validate_of_bsn_virtual_port_remove_request_OF_VERSION_1_0 (d_id 109)"
  by (simp add: loci_validate_of_bsn_virtual_port_remove_request_OF_VERSION_1_0_def covered_min_id fits_def of_object_fixed_len_def)

lemma covers_desc_stats_reply_1_0 [c_proved]: "covered 1 loci_validate_of_desc_stats_reply_OF_VERSION_1_0 (d_id 117)"
  by (simp add: loci_validate_of_desc_stats_reply_OF_VERSION_1_0_def covered_min_id fits_def of_object_fixed_len_def)

lemma covers_desc_stats_request_1_0 [c_proved]: "covered 1 loci_validate_of_desc_stats_request_OF_VERSION_1_0 (d_id 118)"
  by (simp add: loci_validate_of_desc_stats_request_OF_VERSION_1_0_def covered_min_id fits_def of_object_fixed_len_def)

lemma covers_echo_reply_1_0 [c_proved]: "covered 1 loci_validate_of_echo_reply_OF_VERSION_1_0 (d_id 119)"
  by (simp add: loci_validate_of_echo_reply_OF_VERSION_1_0_def covered_min_id fits_def of_object_fixed_len_def)

lemma covers_echo_request_1_0 [c_proved]: "covered 1 loci_validate_of_echo_request_OF_VERSION_1_0 (d_id 120)"
  by (simp add: loci_validate_of_echo_request_OF_VERSION_1_0_def covered_min_id fits_def of_object_fixed_len_def)

lemma covers_features_reply_1_0 [c_proved]: "covered 1 loci_validate_of_features_reply_OF_VERSION_1_0 (d_id 126)"
  by (simp add: loci_validate_of_features_reply_OF_VERSION_1_0_def covered_min_id fits_def of_object_fixed_len_def)

lemma covers_features_request_1_0 [c_proved]: "covered 1 loci_validate_of_features_request_OF_VERSION_1_0 (d_id 127)"
  by (simp add: loci_validate_of_features_request_OF_VERSION_1_0_def covered_min_id fits_def of_object_fixed_len_def)

lemma covers_flow_add_1_0 [c_proved]: "covered 1 loci_validate_of_flow_add_OF_VERSION_1_0 (d_id 128)"
  by (simp add: loci_validate_of_flow_add_OF_VERSION_1_0_def covered_min_id fits_def of_object_fixed_len_def)

lemma covers_flow_delete_1_0 [c_proved]: "covered 1 loci_validate_of_flow_delete_OF_VERSION_1_0 (d_id 129)"
  by (simp add: loci_validate_of_flow_delete_OF_VERSION_1_0_def covered_min_id fits_def of_object_fixed_len_def)

lemma covers_flow_delete_strict_1_0 [c_proved]: "covered 1 loci_validate_of_flow_delete_strict_OF_VERSION_1_0 (d_id 130)"
  by (simp add: loci_validate_of_flow_delete_strict_OF_VERSION_1_0_def covered_min_id fits_def of_object_fixed_len_def)

lemma covers_flow_mod_failed_error_msg_1_0 [c_proved]: "covered 1 loci_validate_of_flow_mod_failed_error_msg_OF_VERSION_1_0 (d_id 132)"
  by (simp add: loci_validate_of_flow_mod_failed_error_msg_OF_VERSION_1_0_def covered_min_id fits_def of_object_fixed_len_def)

lemma covers_flow_modify_1_0 [c_proved]: "covered 1 loci_validate_of_flow_modify_OF_VERSION_1_0 (d_id 133)"
  by (simp add: loci_validate_of_flow_modify_OF_VERSION_1_0_def covered_min_id fits_def of_object_fixed_len_def)

lemma covers_flow_modify_strict_1_0 [c_proved]: "covered 1 loci_validate_of_flow_modify_strict_OF_VERSION_1_0 (d_id 134)"
  by (simp add: loci_validate_of_flow_modify_strict_OF_VERSION_1_0_def covered_min_id fits_def of_object_fixed_len_def)

lemma covers_flow_removed_1_0 [c_proved]: "covered 1 loci_validate_of_flow_removed_OF_VERSION_1_0 (d_id 136)"
  by (simp add: loci_validate_of_flow_removed_OF_VERSION_1_0_def covered_min_id fits_def of_object_fixed_len_def)

lemma covers_flow_stats_reply_1_0 [c_proved]: "covered 1 loci_validate_of_flow_stats_reply_OF_VERSION_1_0 (d_id 137)"
  by (simp add: loci_validate_of_flow_stats_reply_OF_VERSION_1_0_def covered_min_id fits_def of_object_fixed_len_def)

lemma covers_flow_stats_request_1_0 [c_proved]: "covered 1 loci_validate_of_flow_stats_request_OF_VERSION_1_0 (d_id 138)"
  by (simp add: loci_validate_of_flow_stats_request_OF_VERSION_1_0_def covered_min_id fits_def of_object_fixed_len_def)

lemma covers_get_config_reply_1_0 [c_proved]: "covered 1 loci_validate_of_get_config_reply_OF_VERSION_1_0 (d_id 139)"
  by (simp add: loci_validate_of_get_config_reply_OF_VERSION_1_0_def covered_min_id fits_def of_object_fixed_len_def)

lemma covers_get_config_request_1_0 [c_proved]: "covered 1 loci_validate_of_get_config_request_OF_VERSION_1_0 (d_id 140)"
  by (simp add: loci_validate_of_get_config_request_OF_VERSION_1_0_def covered_min_id fits_def of_object_fixed_len_def)

lemma covers_hello_1_0 [c_proved]: "covered 1 loci_validate_of_hello_OF_VERSION_1_0 (d_id 153)"
  by (simp add: loci_validate_of_hello_OF_VERSION_1_0_def covered_min_id fits_def of_object_fixed_len_def)

lemma covers_hello_failed_error_msg_1_0 [c_proved]: "covered 1 loci_validate_of_hello_failed_error_msg_OF_VERSION_1_0 (d_id 154)"
  by (simp add: loci_validate_of_hello_failed_error_msg_OF_VERSION_1_0_def covered_min_id fits_def of_object_fixed_len_def)

lemma covers_nicira_controller_role_reply_1_0 [c_proved]: "covered 1 loci_validate_of_nicira_controller_role_reply_OF_VERSION_1_0 (d_id 163)"
  by (simp add: loci_validate_of_nicira_controller_role_reply_OF_VERSION_1_0_def covered_min_id fits_def of_object_fixed_len_def)

lemma covers_nicira_controller_role_request_1_0 [c_proved]: "covered 1 loci_validate_of_nicira_controller_role_request_OF_VERSION_1_0 (d_id 164)"
  by (simp add: loci_validate_of_nicira_controller_role_request_OF_VERSION_1_0_def covered_min_id fits_def of_object_fixed_len_def)

lemma covers_packet_in_1_0 [c_proved]: "covered 1 loci_validate_of_packet_in_OF_VERSION_1_0 (d_id 166)"
  by (simp add: loci_validate_of_packet_in_OF_VERSION_1_0_def covered_min_id fits_def of_object_fixed_len_def)

lemma covers_packet_out_1_0 [c_proved]: "covered 1 loci_validate_of_packet_out_OF_VERSION_1_0 (d_id 167)"
  by (simp add: loci_validate_of_packet_out_OF_VERSION_1_0_def covered_min_id fits_def of_object_fixed_len_def)

lemma covers_port_mod_1_0 [c_proved]: "covered 1 loci_validate_of_port_mod_OF_VERSION_1_0 (d_id 170)"
  by (simp add: loci_validate_of_port_mod_OF_VERSION_1_0_def covered_min_id fits_def of_object_fixed_len_def)

lemma covers_port_mod_failed_error_msg_1_0 [c_proved]: "covered 1 loci_validate_of_port_mod_failed_error_msg_OF_VERSION_1_0 (d_id 171)"
  by (simp add: loci_validate_of_port_mod_failed_error_msg_OF_VERSION_1_0_def covered_min_id fits_def of_object_fixed_len_def)

lemma covers_port_stats_reply_1_0 [c_proved]: "covered 1 loci_validate_of_port_stats_reply_OF_VERSION_1_0 (d_id 172)"
  by (simp add: loci_validate_of_port_stats_reply_OF_VERSION_1_0_def covered_min_id fits_def of_object_fixed_len_def)

lemma covers_port_stats_request_1_0 [c_proved]: "covered 1 loci_validate_of_port_stats_request_OF_VERSION_1_0 (d_id 173)"
  by (simp add: loci_validate_of_port_stats_request_OF_VERSION_1_0_def covered_min_id fits_def of_object_fixed_len_def)

lemma covers_port_status_1_0 [c_proved]: "covered 1 loci_validate_of_port_status_OF_VERSION_1_0 (d_id 174)"
  by (simp add: loci_validate_of_port_status_OF_VERSION_1_0_def covered_min_id fits_def of_object_fixed_len_def)

lemma covers_queue_get_config_reply_1_0 [c_proved]: "covered 1 loci_validate_of_queue_get_config_reply_OF_VERSION_1_0 (d_id 177)"
  by (simp add: loci_validate_of_queue_get_config_reply_OF_VERSION_1_0_def covered_min_id fits_def of_object_fixed_len_def)

lemma covers_queue_get_config_request_1_0 [c_proved]: "covered 1 loci_validate_of_queue_get_config_request_OF_VERSION_1_0 (d_id 178)"
  by (simp add: loci_validate_of_queue_get_config_request_OF_VERSION_1_0_def covered_min_id fits_def of_object_fixed_len_def)

lemma covers_queue_op_failed_error_msg_1_0 [c_proved]: "covered 1 loci_validate_of_queue_op_failed_error_msg_OF_VERSION_1_0 (d_id 179)"
  by (simp add: loci_validate_of_queue_op_failed_error_msg_OF_VERSION_1_0_def covered_min_id fits_def of_object_fixed_len_def)

lemma covers_queue_stats_reply_1_0 [c_proved]: "covered 1 loci_validate_of_queue_stats_reply_OF_VERSION_1_0 (d_id 180)"
  by (simp add: loci_validate_of_queue_stats_reply_OF_VERSION_1_0_def covered_min_id fits_def of_object_fixed_len_def)

lemma covers_queue_stats_request_1_0 [c_proved]: "covered 1 loci_validate_of_queue_stats_request_OF_VERSION_1_0 (d_id 181)"
  by (simp add: loci_validate_of_queue_stats_request_OF_VERSION_1_0_def covered_min_id fits_def of_object_fixed_len_def)

lemma covers_set_config_1_0 [c_proved]: "covered 1 loci_validate_of_set_config_OF_VERSION_1_0 (d_id 187)"
  by (simp add: loci_validate_of_set_config_OF_VERSION_1_0_def covered_min_id fits_def of_object_fixed_len_def)

lemma covers_table_mod_1_0 [c_proved]: "covered 1 loci_validate_of_table_mod_OF_VERSION_1_0 (d_id 196)"
  by (simp add: loci_validate_of_table_mod_OF_VERSION_1_0_def covered_min_id fits_def of_object_fixed_len_def)

lemma covers_table_stats_reply_1_0 [c_proved]: "covered 1 loci_validate_of_table_stats_reply_OF_VERSION_1_0 (d_id 198)"
  by (simp add: loci_validate_of_table_stats_reply_OF_VERSION_1_0_def covered_min_id fits_def of_object_fixed_len_def)

lemma covers_table_stats_request_1_0 [c_proved]: "covered 1 loci_validate_of_table_stats_request_OF_VERSION_1_0 (d_id 199)"
  by (simp add: loci_validate_of_table_stats_request_OF_VERSION_1_0_def covered_min_id fits_def of_object_fixed_len_def)

lemma of_error_msg_covered_1_0 [c_proved]: "covered 1 loci_validate_of_error_msg_OF_VERSION_1_0 (of_error_msg_wire_object_id_get 1)"
  unfolding loci_validate_of_error_msg_OF_VERSION_1_0_def of_error_msg_wire_object_id_get_def
  by (simp, intro c_intro; simp add: case_covered_def c_proved fits_def of_object_fixed_len_def)

lemma of_nicira_header_covered_1_0 [c_proved]: "covered 1 loci_validate_of_nicira_header_OF_VERSION_1_0 (of_nicira_header_wire_object_id_get 1)"
  unfolding loci_validate_of_nicira_header_OF_VERSION_1_0_def of_nicira_header_wire_object_id_get_def
  by (simp, intro c_intro; simp add: case_covered_def c_proved fits_def of_object_fixed_len_def)

lemma of_bsn_header_covered_1_0 [c_proved]: "covered 1 loci_validate_of_bsn_header_OF_VERSION_1_0 (of_bsn_header_wire_object_id_get 1)"
  unfolding loci_validate_of_bsn_header_OF_VERSION_1_0_def of_bsn_header_wire_object_id_get_def
  by (simp, intro c_intro; simp add: case_covered_def c_proved fits_def of_object_fixed_len_def)

lemma of_experimenter_covered_1_0 [c_proved]: "covered 1 loci_validate_of_experimenter_OF_VERSION_1_0 (of_experimenter_wire_object_id_get 1)"
  unfolding loci_validate_of_experimenter_OF_VERSION_1_0_def of_experimenter_wire_object_id_get_def
  by (simp, intro c_intro; simp add: case_covered_def c_proved fits_def of_object_fixed_len_def)

lemma of_flow_mod_covered_1_0 [c_proved]: "covered 1 loci_validate_of_flow_mod_OF_VERSION_1_0 (of_flow_mod_wire_object_id_get 1)"
  unfolding loci_validate_of_flow_mod_OF_VERSION_1_0_def of_flow_mod_wire_object_id_get_def
  by (simp, intro c_intro; simp add: case_covered_def c_proved fits_def of_object_fixed_len_def)

lemma of_bsn_stats_request_covered_1_0 [c_proved]: "covered 1 loci_validate_of_bsn_stats_request_OF_VERSION_1_0 (of_bsn_stats_request_wire_object_id_get 1)"
  unfolding loci_validate_of_bsn_stats_request_OF_VERSION_1_0_def of_bsn_stats_request_wire_object_id_get_def
  by (simp, intro c_intro; simp add: case_covered_def c_proved fits_def of_object_fixed_len_def)

lemma of_experimenter_stats_request_covered_1_0 [c_proved]: "covered 1 loci_validate_of_experimenter_stats_request_OF_VERSION_1_0 (of_experimenter_stats_request_wire_object_id_get 1)"
  unfolding loci_validate_of_experimenter_stats_request_OF_VERSION_1_0_def of_experimenter_stats_request_wire_object_id_get_def
  by (simp, intro c_intro; simp add: case_covered_def c_proved fits_def of_object_fixed_len_def)

lemma of_stats_request_covered_1_0 [c_proved]: "covered 1 loci_validate_of_stats_request_OF_VERSION_1_0 (of_stats_request_wire_object_id_get 1)"
  unfolding loci_validate_of_stats_request_OF_VERSION_1_0_def of_stats_request_wire_object_id_get_def
  by (simp, intro c_intro; simp add: case_covered_def c_proved fits_def of_object_fixed_len_def)

lemma of_bsn_stats_reply_covered_1_0 [c_proved]: "covered 1 loci_validate_of_bsn_stats_reply_OF_VERSION_1_0 (of_bsn_stats_reply_wire_object_id_get 1)"
  unfolding loci_validate_of_bsn_stats_reply_OF_VERSION_1_0_def of_bsn_stats_reply_wire_object_id_get_def
  by (simp, intro c_intro; simp add: case_covered_def c_proved fits_def of_object_fixed_len_def)

lemma of_experimenter_stats_reply_covered_1_0 [c_proved]: "covered 1 loci_validate_of_experimenter_stats_reply_OF_VERSION_1_0 (of_experimenter_stats_reply_wire_object_id_get 1)"
  unfolding loci_validate_of_experimenter_stats_reply_OF_VERSION_1_0_def of_experimenter_stats_reply_wire_object_id_get_def
  by (simp, intro c_intro; simp add: case_covered_def c_proved fits_def of_object_fixed_len_def)

lemma of_stats_reply_covered_1_0 [c_proved]: "covered 1 loci_validate_of_stats_reply_OF_VERSION_1_0 (of_stats_reply_wire_object_id_get 1)"
  unfolding loci_validate_of_stats_reply_OF_VERSION_1_0_def of_stats_reply_wire_object_id_get_def
  by (simp, intro c_intro; simp add: case_covered_def c_proved fits_def of_object_fixed_len_def)

lemma of_header_covered_1_0 [c_proved]: "covered 1 loci_validate_of_header_OF_VERSION_1_0 (of_header_wire_object_id_get 1)"
  unfolding loci_validate_of_header_OF_VERSION_1_0_def of_header_wire_object_id_get_def
  by (simp, intro c_intro; simp add: case_covered_def c_proved fits_def of_object_fixed_len_def)

subsection \<open>OpenFlow 1.1\<close>

lemma covers_aggregate_stats_reply_1_1 [c_proved]: "covered 2 loci_validate_of_aggregate_stats_reply_OF_VERSION_1_1 (d_id 1)"
  by (simp add: loci_validate_of_aggregate_stats_reply_OF_VERSION_1_1_def covered_min_id fits_def of_object_fixed_len_def)

lemma covers_aggregate_stats_request_1_1 [c_proved]: "covered 2 loci_validate_of_aggregate_stats_request_OF_VERSION_1_1 (d_id 2)"
  by (simp add: loci_validate_of_aggregate_stats_request_OF_VERSION_1_1_def covered_min_id fits_def of_object_fixed_len_def)

lemma covers_bad_action_error_msg_1_1 [c_proved]: "covered 2 loci_validate_of_bad_action_error_msg_OF_VERSION_1_1 (d_id 7)"
  by (simp add: loci_validate_of_bad_action_error_msg_OF_VERSION_1_1_def covered_min_id fits_def of_object_fixed_len_def)

lemma covers_bad_instruction_error_msg_1_1 [c_proved]: "covered 2 loci_validate_of_bad_instruction_error_msg_OF_VERSION_1_1 (d_id 8)"
  by (simp add: loci_validate_of_bad_instruction_error_msg_OF_VERSION_1_1_def covered_min_id fits_def of_object_fixed_len_def)

lemma covers_bad_match_error_msg_1_1 [c_proved]: "covered 2 loci_validate_of_bad_match_error_msg_OF_VERSION_1_1 (d_id 9)"
  by (simp add: loci_validate_of_bad_match_error_msg_OF_VERSION_1_1_def covered_min_id fits_def of_object_fixed_len_def)

lemma covers_bad_request_error_msg_1_1 [c_proved]: "covered 2 loci_validate_of_bad_request_error_msg_OF_VERSION_1_1 (d_id 11)"
  by (simp add: loci_validate_of_bad_request_error_msg_OF_VERSION_1_1_def covered_min_id fits_def of_object_fixed_len_def)

lemma covers_barrier_reply_1_1 [c_proved]: "covered 2 loci_validate_of_barrier_reply_OF_VERSION_1_1 (d_id 12)"
  by (simp add: loci_validate_of_barrier_reply_OF_VERSION_1_1_def covered_min_id fits_def of_object_fixed_len_def)

lemma covers_barrier_request_1_1 [c_proved]: "covered 2 loci_validate_of_barrier_request_OF_VERSION_1_1 (d_id 13)"
  by (simp add: loci_validate_of_barrier_request_OF_VERSION_1_1_def covered_min_id fits_def of_object_fixed_len_def)

lemma covers_bsn_bw_clear_data_reply_1_1 [c_proved]: "covered 2 loci_validate_of_bsn_bw_clear_data_reply_OF_VERSION_1_1 (d_id 15)"
  by (simp add: loci_validate_of_bsn_bw_clear_data_reply_OF_VERSION_1_1_def covered_min_id fits_def of_object_fixed_len_def)

lemma covers_bsn_bw_clear_data_request_1_1 [c_proved]: "covered 2 loci_validate_of_bsn_bw_clear_data_request_OF_VERSION_1_1 (d_id 16)"
  by (simp add: loci_validate_of_bsn_bw_clear_data_request_OF_VERSION_1_1_def covered_min_id fits_def of_object_fixed_len_def)

lemma covers_bsn_bw_enable_get_reply_1_1 [c_proved]: "covered 2 loci_validate_of_bsn_bw_enable_get_reply_OF_VERSION_1_1 (d_id 17)"
  by (simp add: loci_validate_of_bsn_bw_enable_get_reply_OF_VERSION_1_1_def covered_min_id fits_def of_object_fixed_len_def)

lemma covers_bsn_bw_enable_get_request_1_1 [c_proved]: "covered 2 loci_validate_of_bsn_bw_enable_get_request_OF_VERSION_1_1 (d_id 18)"
  by (simp add: loci_validate_of_bsn_bw_enable_get_request_OF_VERSION_1_1_def covered_min_id fits_def of_object_fixed_len_def)

lemma covers_bsn_bw_enable_set_reply_1_1 [c_proved]: "covered 2 loci_validate_of_bsn_bw_enable_set_reply_OF_VERSION_1_1 (d_id 19)"
  by (simp add: loci_validate_of_bsn_bw_enable_set_reply_OF_VERSION_1_1_def covered_min_id fits_def of_object_fixed_len_def)

lemma covers_bsn_bw_enable_set_request_1_1 [c_proved]: "covered 2 loci_validate_of_bsn_bw_enable_set_request_OF_VERSION_1_1 (d_id 20)"
  by (simp add: loci_validate_of_bsn_bw_enable_set_request_OF_VERSION_1_1_def covered_min_id fits_def of_object_fixed_len_def)

lemma covers_bsn_get_interfaces_reply_1_1 [c_proved]: "covered 2 loci_validate_of_bsn_get_interfaces_reply_OF_VERSION_1_1 (d_id 51)"
  by (simp add: loci_validate_of_bsn_get_interfaces_reply_OF_VERSION_1_1_def covered_min_id fits_def of_object_fixed_len_def)

lemma covers_bsn_get_interfaces_request_1_1 [c_proved]: "covered 2 loci_validate_of_bsn_get_interfaces_request_OF_VERSION_1_1 (d_id 52)"
  by (simp add: loci_validate_of_bsn_get_interfaces_request_OF_VERSION_1_1_def covered_min_id fits_def of_object_fixed_len_def)

lemma covers_bsn_get_mirroring_reply_1_1 [c_proved]: "covered 2 loci_validate_of_bsn_get_mirroring_reply_OF_VERSION_1_1 (d_id 57)"
  by (simp add: loci_validate_of_bsn_get_mirroring_reply_OF_VERSION_1_1_def covered_min_id fits_def of_object_fixed_len_def)

lemma covers_bsn_get_mirroring_request_1_1 [c_proved]: "covered 2 loci_validate_of_bsn_get_mirroring_request_OF_VERSION_1_1 (d_id 58)"
  by (simp add: loci_validate_of_bsn_get_mirroring_request_OF_VERSION_1_1_def covered_min_id fits_def of_object_fixed_len_def)

lemma covers_bsn_pdu_rx_reply_1_1 [c_proved]: "covered 2 loci_validate_of_bsn_pdu_rx_reply_OF_VERSION_1_1 (d_id 74)"
  by (simp add: loci_validate_of_bsn_pdu_rx_reply_OF_VERSION_1_1_def covered_min_id fits_def of_object_fixed_len_def)

lemma covers_bsn_pdu_rx_request_1_1 [c_proved]: "covered 2 loci_validate_of_bsn_pdu_rx_request_OF_VERSION_1_1 (d_id 75)"
  by (simp add: loci_validate_of_bsn_pdu_rx_request_OF_VERSION_1_1_def covered_min_id fits_def of_object_fixed_len_def)

lemma covers_bsn_pdu_rx_timeout_1_1 [c_proved]: "covered 2 loci_validate_of_bsn_pdu_rx_timeout_OF_VERSION_1_1 (d_id 76)"
  by (simp add: loci_validate_of_bsn_pdu_rx_timeout_OF_VERSION_1_1_def covered_min_id fits_def of_object_fixed_len_def)

lemma covers_bsn_pdu_tx_reply_1_1 [c_proved]: "covered 2 loci_validate_of_bsn_pdu_tx_reply_OF_VERSION_1_1 (d_id 77)"
  by (simp add: loci_validate_of_bsn_pdu_tx_reply_OF_VERSION_1_1_def covered_min_id fits_def of_object_fixed_len_def)

lemma covers_bsn_pdu_tx_request_1_1 [c_proved]: "covered 2 loci_validate_of_bsn_pdu_tx_request_OF_VERSION_1_1 (d_id 78)"
  by (simp add: loci_validate_of_bsn_pdu_tx_request_OF_VERSION_1_1_def covered_min_id fits_def of_object_fixed_len_def)

lemma covers_bsn_set_mirroring_1_1 [c_proved]: "covered 2 loci_validate_of_bsn_set_mirroring_OF_VERSION_1_1 (d_id 89)"
  by (simp add: loci_validate_of_bsn_set_mirroring_OF_VERSION_1_1_def covered_min_id fits_def of_object_fixed_len_def)

lemma covers_bsn_set_pktin_suppression_reply_1_1 [c_proved]: "covered 2 loci_validate_of_bsn_set_pktin_suppression_reply_OF_VERSION_1_1 (d_id 90)"
  by (simp add: loci_validate_of_bsn_set_pktin_suppression_reply_OF_VERSION_1_1_def covered_min_id fits_def of_object_fixed_len_def)

lemma covers_bsn_set_pktin_suppression_request_1_1 [c_proved]: "covered 2 loci_validate_of_bsn_set_pktin_suppression_request_OF_VERSION_1_1 (d_id 91)"
  by (simp add: loci_validate_of_bsn_set_pktin_suppression_request_OF_VERSION_1_1_def covered_min_id fits_def of_object_fixed_len_def)

lemma covers_bsn_virtual_port_create_reply_1_1 [c_proved]: "covered 2 loci_validate_of_bsn_virtual_port_create_reply_OF_VERSION_1_1 (d_id 106)"
  by (simp add: loci_validate_of_bsn_virtual_port_create_reply_OF_VERSION_1_1_def covered_min_id fits_def of_object_fixed_len_def)

lemma covers_bsn_virtual_port_create_request_1_1 [c_proved]: "covered 2 loci_validate_of_bsn_virtual_port_create_request_OF_VERSION_1_1 (d_id 107)"
  by (simp add: loci_validate_of_bsn_virtual_port_create_request_OF_VERSION_1_1_def covered_min_id fits_def of_object_fixed_len_def)

lemma covers_bsn_virtual_port_remove_reply_1_1 [c_proved]: "covered 2 loci_validate_of_bsn_virtual_port_remove_reply_OF_VERSION_1_1 (d_id 108)"
  by (simp add: loci_validate_of_bsn_virtual_port_remove_reply_OF_VERSION_1_1_def covered_min_id fits_def of_object_fixed_len_def)

lemma covers_bsn_virtual_port_remove_request_1_1 [c_proved]: "covered 2 loci_validate_of_bsn_virtual_port_remove_request_OF_VERSION_1_1 (d_id 109)"
  by (simp add: loci_validate_of_bsn_virtual_port_remove_request_OF_VERSION_1_1_def covered_min_id fits_def of_object_fixed_len_def)

lemma covers_desc_stats_reply_1_1 [c_proved]: "covered 2 loci_validate_of_desc_stats_reply_OF_VERSION_1_1 (d_id 117)"
  by (simp add: loci_validate_of_desc_stats_reply_OF_VERSION_1_1_def covered_min_id fits_def of_object_fixed_len_def)

lemma covers_desc_stats_request_1_1 [c_proved]: "covered 2 loci_validate_of_desc_stats_request_OF_VERSION_1_1 (d_id 118)"
  by (simp add: loci_validate_of_desc_stats_request_OF_VERSION_1_1_def covered_min_id fits_def of_object_fixed_len_def)

lemma covers_echo_reply_1_1 [c_proved]: "covered 2 loci_validate_of_echo_reply_OF_VERSION_1_1 (d_id 119)"
  by (simp add: loci_validate_of_echo_reply_OF_VERSION_1_1_def covered_min_id fits_def of_object_fixed_len_def)

lemma covers_echo_request_1_1 [c_proved]: "covered 2 loci_validate_of_echo_request_OF_VERSION_1_1 (d_id 120)"
  by (simp add: loci_validate_of_echo_request_OF_VERSION_1_1_def covered_min_id fits_def of_object_fixed_len_def)

lemma covers_features_reply_1_1 [c_proved]: "covered 2 loci_validate_of_features_reply_OF_VERSION_1_1 (d_id 126)"
  by (simp add: loci_validate_of_features_reply_OF_VERSION_1_1_def covered_min_id fits_def of_object_fixed_len_def)

lemma covers_features_request_1_1 [c_proved]: "covered 2 loci_validate_of_features_request_OF_VERSION_1_1 (d_id 127)"
  by (simp add: loci_validate_of_features_request_OF_VERSION_1_1_def covered_min_id fits_def of_object_fixed_len_def)

lemma covers_flow_add_1_1 [c_proved]: "covered 2 loci_validate_of_flow_add_OF_VERSION_1_1 (d_id 128)"
  by (simp add: loci_validate_of_flow_add_OF_VERSION_1_1_def covered_min_id fits_def of_object_fixed_len_def)

lemma covers_flow_delete_1_1 [c_proved]: "covered 2 loci_validate_of_flow_delete_OF_VERSION_1_1 (d_id 129)"
  by (simp add: loci_validate_of_flow_delete_OF_VERSION_1_1_def covered_min_id fits_def of_object_fixed_len_def)

lemma covers_flow_delete_strict_1_1 [c_proved]: "covered 2 loci_validate_of_flow_delete_strict_OF_VERSION_1_1 (d_id 130)"
  by (simp add: loci_validate_of_flow_delete_strict_OF_VERSION_1_1_def covered_min_id fits_def of_object_fixed_len_def)

lemma covers_flow_mod_failed_error_msg_1_1 [c_proved]: "covered 2 loci_validate_of_flow_mod_failed_error_msg_OF_VERSION_1_1 (d_id 132)"
  by (simp add: loci_validate_of_flow_mod_failed_error_msg_OF_VERSION_1_1_def covered_min_id fits_def of_object_fixed_len_def)

lemma covers_flow_modify_1_1 [c_proved]: "covered 2 loci_validate_of_flow_modify_OF_VERSION_1_1 (d_id 133)"
  by (simp add: loci_validate_of_flow_modify_OF_VERSION_1_1_def covered_min_id fits_def of_object_fixed_len_def)

lemma covers_flow_modify_strict_1_1 [c_proved]: "covered 2 loci_validate_of_flow_modify_strict_OF_VERSION_1_1 (d_id 134)"
  by (simp add: loci_validate_of_flow_modify_strict_OF_VERSION_1_1_def covered_min_id fits_def of_object_fixed_len_def)

lemma covers_flow_removed_1_1 [c_proved]: "covered 2 loci_validate_of_flow_removed_OF_VERSION_1_1 (d_id 136)"
  by (simp add: loci_validate_of_flow_removed_OF_VERSION_1_1_def covered_min_id fits_def of_object_fixed_len_def)

lemma covers_flow_stats_reply_1_1 [c_proved]: "covered 2 loci_validate_of_flow_stats_reply_OF_VERSION_1_1 (d_id 137)"
  by (simp add: loci_validate_of_flow_stats_reply_OF_VERSION_1_1_def covered_min_id fits_def of_object_fixed_len_def)

lemma covers_flow_stats_request_1_1 [c_proved]: "covered 2 loci_validate_of_flow_stats_request_OF_VERSION_1_1 (d_id 138)"
  by (simp add: loci_validate_of_flow_stats_request_OF_VERSION_1_1_def covered_min_id fits_def of_object_fixed_len_def)

lemma covers_get_config_reply_1_1 [c_proved]: "covered 2 loci_validate_of_get_config_reply_OF_VERSION_1_1 (d_id 139)"
  by (simp add: loci_validate_of_get_config_reply_OF_VERSION_1_1_def covered_min_id fits_def of_object_fixed_len_def)

lemma covers_get_config_request_1_1 [c_proved]: "covered 2 loci_validate_of_get_config_request_OF_VERSION_1_1 (d_id 140)"
  by (simp add: loci_validate_of_get_config_request_OF_VERSION_1_1_def covered_min_id fits_def of_object_fixed_len_def)

lemma covers_group_add_1_1 [c_proved]: "covered 2 loci_validate_of_group_add_OF_VERSION_1_1 (d_id 141)"
  by (simp add: loci_validate_of_group_add_OF_VERSION_1_1_def covered_min_id fits_def of_object_fixed_len_def)

lemma covers_group_delete_1_1 [c_proved]: "covered 2 loci_validate_of_group_delete_OF_VERSION_1_1 (d_id 142)"
  by (simp add: loci_validate_of_group_delete_OF_VERSION_1_1_def covered_min_id fits_def of_object_fixed_len_def)

lemma covers_group_desc_stats_reply_1_1 [c_proved]: "covered 2 loci_validate_of_group_desc_stats_reply_OF_VERSION_1_1 (d_id 143)"
  by (simp add: loci_validate_of_group_desc_stats_reply_OF_VERSION_1_1_def covered_min_id fits_def of_object_fixed_len_def)

lemma covers_group_desc_stats_request_1_1 [c_proved]: "covered 2 loci_validate_of_group_desc_stats_request_OF_VERSION_1_1 (d_id 144)"
  by (simp add: loci_validate_of_group_desc_stats_request_OF_VERSION_1_1_def covered_min_id fits_def of_object_fixed_len_def)

lemma covers_group_mod_failed_error_msg_1_1 [c_proved]: "covered 2 loci_validate_of_group_mod_failed_error_msg_OF_VERSION_1_1 (d_id 148)"
  by (simp add: loci_validate_of_group_mod_failed_error_msg_OF_VERSION_1_1_def covered_min_id fits_def of_object_fixed_len_def)

lemma covers_group_modify_1_1 [c_proved]: "covered 2 loci_validate_of_group_modify_OF_VERSION_1_1 (d_id 149)"
  by (simp add: loci_validate_of_group_modify_OF_VERSION_1_1_def covered_min_id fits_def of_object_fixed_len_def)

lemma covers_group_stats_reply_1_1 [c_proved]: "covered 2 loci_validate_of_group_stats_reply_OF_VERSION_1_1 (d_id 150)"
  by (simp add: loci_validate_of_group_stats_reply_OF_VERSION_1_1_def covered_min_id fits_def of_object_fixed_len_def)

lemma covers_group_stats_request_1_1 [c_proved]: "covered 2 loci_validate_of_group_stats_request_OF_VERSION_1_1 (d_id 151)"
  by (simp add: loci_validate_of_group_stats_request_OF_VERSION_1_1_def covered_min_id fits_def of_object_fixed_len_def)

lemma covers_hello_1_1 [c_proved]: "covered 2 loci_validate_of_hello_OF_VERSION_1_1 (d_id 153)"
  by (simp add: loci_validate_of_hello_OF_VERSION_1_1_def covered_min_id fits_def of_object_fixed_len_def)

lemma covers_hello_failed_error_msg_1_1 [c_proved]: "covered 2 loci_validate_of_hello_failed_error_msg_OF_VERSION_1_1 (d_id 154)"
  by (simp add: loci_validate_of_hello_failed_error_msg_OF_VERSION_1_1_def covered_min_id fits_def of_object_fixed_len_def)

lemma covers_packet_in_1_1 [c_proved]: "covered 2 loci_validate_of_packet_in_OF_VERSION_1_1 (d_id 166)"
  by (simp add: loci_validate_of_packet_in_OF_VERSION_1_1_def covered_min_id fits_def of_object_fixed_len_def)

lemma covers_packet_out_1_1 [c_proved]: "covered 2 loci_validate_of_packet_out_OF_VERSION_1_1 (d_id 167)"
  by (simp add: loci_validate_of_packet_out_OF_VERSION_1_1_def covered_min_id fits_def of_object_fixed_len_def)

lemma covers_port_mod_1_1 [c_proved]: "covered 2 loci_validate_of_port_mod_OF_VERSION_1_1 (d_id 170)"
  by (simp add: loci_validate_of_port_mod_OF_VERSION_1_1_def covered_min_id fits_def of_object_fixed_len_def)

lemma covers_port_mod_failed_error_msg_1_1 [c_proved]: "covered 2 loci_validate_of_port_mod_failed_error_msg_OF_VERSION_1_1 (d_id 171)"
  by (simp add: loci_validate_of_port_mod_failed_error_msg_OF_VERSION_1_1_def covered_min_id fits_def of_object_fixed_len_def)

lemma covers_port_stats_reply_1_1 [c_proved]: "covered 2 loci_validate_of_port_stats_reply_OF_VERSION_1_1 (d_id 172)"
  by (simp add: loci_validate_of_port_stats_reply_OF_VERSION_1_1_def covered_min_id fits_def of_object_fixed_len_def)

lemma covers_port_stats_request_1_1 [c_proved]: "covered 2 loci_validate_of_port_stats_request_OF_VERSION_1_1 (d_id 173)"
  by (simp add: loci_validate_of_port_stats_request_OF_VERSION_1_1_def covered_min_id fits_def of_object_fixed_len_def)

lemma covers_port_status_1_1 [c_proved]: "covered 2 loci_validate_of_port_status_OF_VERSION_1_1 (d_id 174)"
  by (simp add: loci_validate_of_port_status_OF_VERSION_1_1_def covered_min_id fits_def of_object_fixed_len_def)

lemma covers_queue_get_config_reply_1_1 [c_proved]: "covered 2 loci_validate_of_queue_get_config_reply_OF_VERSION_1_1 (d_id 177)"
  by (simp add: loci_validate_of_queue_get_config_reply_OF_VERSION_1_1_def covered_min_id fits_def of_object_fixed_len_def)

lemma covers_queue_get_config_request_1_1 [c_proved]: "covered 2 loci_validate_of_queue_get_config_request_OF_VERSION_1_1 (d_id 178)"
  by (simp add: loci_validate_of_queue_get_config_request_OF_VERSION_1_1_def covered_min_id fits_def of_object_fixed_len_def)

lemma covers_queue_op_failed_error_msg_1_1 [c_proved]: "covered 2 loci_validate_of_queue_op_failed_error_msg_OF_VERSION_1_1 (d_id 179)"
  by (simp add: loci_validate_of_queue_op_failed_error_msg_OF_VERSION_1_1_def covered_min_id fits_def of_object_fixed_len_def)

lemma covers_queue_stats_reply_1_1 [c_proved]: "covered 2 loci_validate_of_queue_stats_reply_OF_VERSION_1_1 (d_id 180)"
  by (simp add: loci_validate_of_queue_stats_reply_OF_VERSION_1_1_def covered_min_id fits_def of_object_fixed_len_def)

lemma covers_queue_stats_request_1_1 [c_proved]: "covered 2 loci_validate_of_queue_stats_request_OF_VERSION_1_1 (d_id 181)"
  by (simp add: loci_validate_of_queue_stats_request_OF_VERSION_1_1_def covered_min_id fits_def of_object_fixed_len_def)

lemma covers_set_config_1_1 [c_proved]: "covered 2 loci_validate_of_set_config_OF_VERSION_1_1 (d_id 187)"
  by (simp add: loci_validate_of_set_config_OF_VERSION_1_1_def covered_min_id fits_def of_object_fixed_len_def)

lemma covers_switch_config_failed_error_msg_1_1 [c_proved]: "covered 2 loci_validate_of_switch_config_failed_error_msg_OF_VERSION_1_1 (d_id 190)"
  by (simp add: loci_validate_of_switch_config_failed_error_msg_OF_VERSION_1_1_def covered_min_id fits_def of_object_fixed_len_def)

lemma covers_table_mod_1_1 [c_proved]: "covered 2 loci_validate_of_table_mod_OF_VERSION_1_1 (d_id 196)"
  by (simp add: loci_validate_of_table_mod_OF_VERSION_1_1_def covered_min_id fits_def of_object_fixed_len_def)

lemma covers_table_mod_failed_error_msg_1_1 [c_proved]: "covered 2 loci_validate_of_table_mod_failed_error_msg_OF_VERSION_1_1 (d_id 197)"
  by (simp add: loci_validate_of_table_mod_failed_error_msg_OF_VERSION_1_1_def covered_min_id fits_def of_object_fixed_len_def)

lemma covers_table_stats_reply_1_1 [c_proved]: "covered 2 loci_validate_of_table_stats_reply_OF_VERSION_1_1 (d_id 198)"
  by (simp add: loci_validate_of_table_stats_reply_OF_VERSION_1_1_def covered_min_id fits_def of_object_fixed_len_def)

lemma covers_table_stats_request_1_1 [c_proved]: "covered 2 loci_validate_of_table_stats_request_OF_VERSION_1_1 (d_id 199)"
  by (simp add: loci_validate_of_table_stats_request_OF_VERSION_1_1_def covered_min_id fits_def of_object_fixed_len_def)

lemma of_error_msg_covered_1_1 [c_proved]: "covered 2 loci_validate_of_error_msg_OF_VERSION_1_1 (of_error_msg_wire_object_id_get 2)"
  unfolding loci_validate_of_error_msg_OF_VERSION_1_1_def of_error_msg_wire_object_id_get_def
  by (simp, intro c_intro; simp add: case_covered_def c_proved fits_def of_object_fixed_len_def)

lemma of_nicira_header_covered_1_1 [c_proved]: "covered 2 loci_validate_of_nicira_header_OF_VERSION_1_1 (of_nicira_header_wire_object_id_get 2)"
  unfolding loci_validate_of_nicira_header_OF_VERSION_1_1_def of_nicira_header_wire_object_id_get_def
  by (simp, intro c_intro; simp add: case_covered_def c_proved fits_def of_object_fixed_len_def)

lemma of_bsn_header_covered_1_1 [c_proved]: "covered 2 loci_validate_of_bsn_header_OF_VERSION_1_1 (of_bsn_header_wire_object_id_get 2)"
  unfolding loci_validate_of_bsn_header_OF_VERSION_1_1_def of_bsn_header_wire_object_id_get_def
  by (simp, intro c_intro; simp add: case_covered_def c_proved fits_def of_object_fixed_len_def)

lemma of_experimenter_covered_1_1 [c_proved]: "covered 2 loci_validate_of_experimenter_OF_VERSION_1_1 (of_experimenter_wire_object_id_get 2)"
  unfolding loci_validate_of_experimenter_OF_VERSION_1_1_def of_experimenter_wire_object_id_get_def
  by (simp, intro c_intro; simp add: case_covered_def c_proved fits_def of_object_fixed_len_def)

lemma of_flow_mod_covered_1_1 [c_proved]: "covered 2 loci_validate_of_flow_mod_OF_VERSION_1_1 (of_flow_mod_wire_object_id_get 2)"
  unfolding loci_validate_of_flow_mod_OF_VERSION_1_1_def of_flow_mod_wire_object_id_get_def
  by (simp, intro c_intro; simp add: case_covered_def c_proved fits_def of_object_fixed_len_def)

lemma of_group_mod_covered_1_1 [c_proved]: "covered 2 loci_validate_of_group_mod_OF_VERSION_1_1 (of_group_mod_wire_object_id_get 2)"
  unfolding loci_validate_of_group_mod_OF_VERSION_1_1_def of_group_mod_wire_object_id_get_def
  by (simp, intro c_intro; simp add: case_covered_def c_proved fits_def of_object_fixed_len_def)

lemma of_bsn_stats_request_covered_1_1 [c_proved]: "covered 2 loci_validate_of_bsn_stats_request_OF_VERSION_1_1 (of_bsn_stats_request_wire_object_id_get 2)"
  unfolding loci_validate_of_bsn_stats_request_OF_VERSION_1_1_def of_bsn_stats_request_wire_object_id_get_def
  by (simp, intro c_intro; simp add: case_covered_def c_proved fits_def of_object_fixed_len_def)

lemma of_experimenter_stats_request_covered_1_1 [c_proved]: "covered 2 loci_validate_of_experimenter_stats_request_OF_VERSION_1_1 (of_experimenter_stats_request_wire_object_id_get 2)"
  unfolding loci_validate_of_experimenter_stats_request_OF_VERSION_1_1_def of_experimenter_stats_request_wire_object_id_get_def
  by (simp, intro c_intro; simp add: case_covered_def c_proved fits_def of_object_fixed_len_def)

lemma of_stats_request_covered_1_1 [c_proved]: "covered 2 loci_validate_of_stats_request_OF_VERSION_1_1 (of_stats_request_wire_object_id_get 2)"
  unfolding loci_validate_of_stats_request_OF_VERSION_1_1_def of_stats_request_wire_object_id_get_def
  by (simp, intro c_intro; simp add: case_covered_def c_proved fits_def of_object_fixed_len_def)

lemma of_bsn_stats_reply_covered_1_1 [c_proved]: "covered 2 loci_validate_of_bsn_stats_reply_OF_VERSION_1_1 (of_bsn_stats_reply_wire_object_id_get 2)"
  unfolding loci_validate_of_bsn_stats_reply_OF_VERSION_1_1_def of_bsn_stats_reply_wire_object_id_get_def
  by (simp, intro c_intro; simp add: case_covered_def c_proved fits_def of_object_fixed_len_def)

lemma of_experimenter_stats_reply_covered_1_1 [c_proved]: "covered 2 loci_validate_of_experimenter_stats_reply_OF_VERSION_1_1 (of_experimenter_stats_reply_wire_object_id_get 2)"
  unfolding loci_validate_of_experimenter_stats_reply_OF_VERSION_1_1_def of_experimenter_stats_reply_wire_object_id_get_def
  by (simp, intro c_intro; simp add: case_covered_def c_proved fits_def of_object_fixed_len_def)

lemma of_stats_reply_covered_1_1 [c_proved]: "covered 2 loci_validate_of_stats_reply_OF_VERSION_1_1 (of_stats_reply_wire_object_id_get 2)"
  unfolding loci_validate_of_stats_reply_OF_VERSION_1_1_def of_stats_reply_wire_object_id_get_def
  by (simp, intro c_intro; simp add: case_covered_def c_proved fits_def of_object_fixed_len_def)

lemma of_header_covered_1_1 [c_proved]: "covered 2 loci_validate_of_header_OF_VERSION_1_1 (of_header_wire_object_id_get 2)"
  unfolding loci_validate_of_header_OF_VERSION_1_1_def of_header_wire_object_id_get_def
  by (simp, intro c_intro; simp add: case_covered_def c_proved fits_def of_object_fixed_len_def)

subsection \<open>OpenFlow 1.2\<close>

lemma covers_aggregate_stats_reply_1_2 [c_proved]: "covered 3 loci_validate_of_aggregate_stats_reply_OF_VERSION_1_2 (d_id 1)"
  by (simp add: loci_validate_of_aggregate_stats_reply_OF_VERSION_1_2_def covered_min_id fits_def of_object_fixed_len_def)

lemma covers_aggregate_stats_request_1_2 [c_proved]: "covered 3 loci_validate_of_aggregate_stats_request_OF_VERSION_1_2 (d_id 2)"
  by (simp add: loci_validate_of_aggregate_stats_request_OF_VERSION_1_2_def covered_min_id fits_def of_object_fixed_len_def)

lemma covers_bad_action_error_msg_1_2 [c_proved]: "covered 3 loci_validate_of_bad_action_error_msg_OF_VERSION_1_2 (d_id 7)"
  by (simp add: loci_validate_of_bad_action_error_msg_OF_VERSION_1_2_def covered_min_id fits_def of_object_fixed_len_def)

lemma covers_bad_instruction_error_msg_1_2 [c_proved]: "covered 3 loci_validate_of_bad_instruction_error_msg_OF_VERSION_1_2 (d_id 8)"
  by (simp add: loci_validate_of_bad_instruction_error_msg_OF_VERSION_1_2_def covered_min_id fits_def of_object_fixed_len_def)

lemma covers_bad_match_error_msg_1_2 [c_proved]: "covered 3 loci_validate_of_bad_match_error_msg_OF_VERSION_1_2 (d_id 9)"
  by (simp add: loci_validate_of_bad_match_error_msg_OF_VERSION_1_2_def covered_min_id fits_def of_object_fixed_len_def)

lemma covers_bad_request_error_msg_1_2 [c_proved]: "covered 3 loci_validate_of_bad_request_error_msg_OF_VERSION_1_2 (d_id 11)"
  by (simp add: loci_validate_of_bad_request_error_msg_OF_VERSION_1_2_def covered_min_id fits_def of_object_fixed_len_def)

lemma covers_barrier_reply_1_2 [c_proved]: "covered 3 loci_validate_of_barrier_reply_OF_VERSION_1_2 (d_id 12)"
  by (simp add: loci_validate_of_barrier_reply_OF_VERSION_1_2_def covered_min_id fits_def of_object_fixed_len_def)

lemma covers_barrier_request_1_2 [c_proved]: "covered 3 loci_validate_of_barrier_request_OF_VERSION_1_2 (d_id 13)"
  by (simp add: loci_validate_of_barrier_request_OF_VERSION_1_2_def covered_min_id fits_def of_object_fixed_len_def)

lemma covers_bsn_bw_clear_data_reply_1_2 [c_proved]: "covered 3 loci_validate_of_bsn_bw_clear_data_reply_OF_VERSION_1_2 (d_id 15)"
  by (simp add: loci_validate_of_bsn_bw_clear_data_reply_OF_VERSION_1_2_def covered_min_id fits_def of_object_fixed_len_def)

lemma covers_bsn_bw_clear_data_request_1_2 [c_proved]: "covered 3 loci_validate_of_bsn_bw_clear_data_request_OF_VERSION_1_2 (d_id 16)"
  by (simp add: loci_validate_of_bsn_bw_clear_data_request_OF_VERSION_1_2_def covered_min_id fits_def of_object_fixed_len_def)

lemma covers_bsn_bw_enable_get_reply_1_2 [c_proved]: "covered 3 loci_validate_of_bsn_bw_enable_get_reply_OF_VERSION_1_2 (d_id 17)"
  by (simp add: loci_validate_of_bsn_bw_enable_get_reply_OF_VERSION_1_2_def covered_min_id fits_def of_object_fixed_len_def)

lemma covers_bsn_bw_enable_get_request_1_2 [c_proved]: "covered 3 loci_validate_of_bsn_bw_enable_get_request_OF_VERSION_1_2 (d_id 18)"
  by (simp add: loci_validate_of_bsn_bw_enable_get_request_OF_VERSION_1_2_def covered_min_id fits_def of_object_fixed_len_def)

lemma covers_bsn_bw_enable_set_reply_1_2 [c_proved]: "covered 3 loci_validate_of_bsn_bw_enable_set_reply_OF_VERSION_1_2 (d_id 19)"
  by (simp add: loci_validate_of_bsn_bw_enable_set_reply_OF_VERSION_1_2_def covered_min_id fits_def of_object_fixed_len_def)

lemma covers_bsn_bw_enable_set_request_1_2 [c_proved]: "covered 3 loci_validate_of_bsn_bw_enable_set_request_OF_VERSION_1_2 (d_id 20)"
  by (simp add: loci_validate_of_bsn_bw_enable_set_request_OF_VERSION_1_2_def covered_min_id fits_def of_object_fixed_len_def)

lemma covers_bsn_get_interfaces_reply_1_2 [c_proved]: "covered 3 loci_validate_of_bsn_get_interfaces_reply_OF_VERSION_1_2 (d_id 51)"
  by (simp add: loci_validate_of_bsn_get_interfaces_reply_OF_VERSION_1_2_def covered_min_id fits_def of_object_fixed_len_def)

lemma covers_bsn_get_interfaces_request_1_2 [c_proved]: "covered 3 loci_validate_of_bsn_get_interfaces_request_OF_VERSION_1_2 (d_id 52)"
  by (simp add: loci_validate_of_bsn_get_interfaces_request_OF_VERSION_1_2_def covered_min_id fits_def of_object_fixed_len_def)

lemma covers_bsn_get_mirroring_reply_1_2 [c_proved]: "covered 3 loci_validate_of_bsn_get_mirroring_reply_OF_VERSION_1_2 (d_id 57)"
  by (simp add: loci_validate_of_bsn_get_mirroring_reply_OF_VERSION_1_2_def covered_min_id fits_def of_object_fixed_len_def)

lemma covers_bsn_get_mirroring_request_1_2 [c_proved]: "covered 3 loci_validate_of_bsn_get_mirroring_request_OF_VERSION_1_2 (d_id 58)"
  by (simp add: loci_validate_of_bsn_get_mirroring_request_OF_VERSION_1_2_def covered_min_id fits_def of_object_fixed_len_def)

lemma covers_bsn_pdu_rx_reply_1_2 [c_proved]: "covered 3 loci_validate_of_bsn_pdu_rx_reply_OF_VERSION_1_2 (d_id 74)"
  by (simp add: loci_validate_of_bsn_pdu_rx_reply_OF_VERSION_1_2_def covered_min_id fits_def of_object_fixed_len_def)

lemma covers_bsn_pdu_rx_request_1_2 [c_proved]: "covered 3 loci_validate_of_bsn_pdu_rx_request_OF_VERSION_1_2 (d_id 75)"
  by (simp add: loci_validate_of_bsn_pdu_rx_request_OF_VERSION_1_2_def covered_min_id fits_def of_object_fixed_len_def)

lemma covers_bsn_pdu_rx_timeout_1_2 [c_proved]: "covered 3 loci_validate_of_bsn_pdu_rx_timeout_OF_VERSION_1_2 (d_id 76)"
  by (simp add: loci_validate_of_bsn_pdu_rx_timeout_OF_VERSION_1_2_def covered_min_id fits_def of_object_fixed_len_def)

lemma covers_bsn_pdu_tx_reply_1_2 [c_proved]: "covered 3 loci_validate_of_bsn_pdu_tx_reply_OF_VERSION_1_2 (d_id 77)"
  by (simp add: loci_validate_of_bsn_pdu_tx_reply_OF_VERSION_1_2_def covered_min_id fits_def of_object_fixed_len_def)

lemma covers_bsn_pdu_tx_request_1_2 [c_proved]: "covered 3 loci_validate_of_bsn_pdu_tx_request_OF_VERSION_1_2 (d_id 78)"
  by (simp add: loci_validate_of_bsn_pdu_tx_request_OF_VERSION_1_2_def covered_min_id fits_def of_object_fixed_len_def)

lemma covers_bsn_set_mirroring_1_2 [c_proved]: "covered 3 loci_validate_of_bsn_set_mirroring_OF_VERSION_1_2 (d_id 89)"
  by (simp add: loci_validate_of_bsn_set_mirroring_OF_VERSION_1_2_def covered_min_id fits_def of_object_fixed_len_def)

lemma covers_bsn_set_pktin_suppression_reply_1_2 [c_proved]: "covered 3 loci_validate_of_bsn_set_pktin_suppression_reply_OF_VERSION_1_2 (d_id 90)"
  by (simp add: loci_validate_of_bsn_set_pktin_suppression_reply_OF_VERSION_1_2_def covered_min_id fits_def of_object_fixed_len_def)

lemma covers_bsn_set_pktin_suppression_request_1_2 [c_proved]: "covered 3 loci_validate_of_bsn_set_pktin_suppression_request_OF_VERSION_1_2 (d_id 91)"
  by (simp add: loci_validate_of_bsn_set_pktin_suppression_request_OF_VERSION_1_2_def covered_min_id fits_def of_object_fixed_len_def)

lemma covers_bsn_virtual_port_create_reply_1_2 [c_proved]: "covered 3 loci_validate_of_bsn_virtual_port_create_reply_OF_VERSION_1_2 (d_id 106)"
  by (simp add: loci_validate_of_bsn_virtual_port_create_reply_OF_VERSION_1_2_def covered_min_id fits_def of_object_fixed_len_def)

lemma covers_bsn_virtual_port_create_request_1_2 [c_proved]: "covered 3 loci_validate_of_bsn_virtual_port_create_request_OF_VERSION_1_2 (d_id 107)"
  by (simp add: loci_validate_of_bsn_virtual_port_create_request_OF_VERSION_1_2_def covered_min_id fits_def of_object_fixed_len_def)

lemma covers_bsn_virtual_port_remove_reply_1_2 [c_proved]: "covered 3 loci_validate_of_bsn_virtual_port_remove_reply_OF_VERSION_1_2 (d_id 108)"
  by (simp add: loci_validate_of_bsn_virtual_port_remove_reply_OF_VERSION_1_2_def covered_min_id fits_def of_object_fixed_len_def)

lemma covers_bsn_virtual_port_remove_request_1_2 [c_proved]: "covered 3 loci_validate_of_bsn_virtual_port_remove_request_OF_VERSION_1_2 (d_id 109)"
  by (simp add: loci_validate_of_bsn_virtual_port_remove_request_OF_VERSION_1_2_def covered_min_id fits_def of_object_fixed_len_def)

lemma covers_desc_stats_reply_1_2 [c_proved]: "covered 3 loci_validate_of_desc_stats_reply_OF_VERSION_1_2 (d_id 117)"
  by (simp add: loci_validate_of_desc_stats_reply_OF_VERSION_1_2_def covered_min_id fits_def of_object_fixed_len_def)

lemma covers_desc_stats_request_1_2 [c_proved]: "covered 3 loci_validate_of_desc_stats_request_OF_VERSION_1_2 (d_id 118)"
  by (simp add: loci_validate_of_desc_stats_request_OF_VERSION_1_2_def covered_min_id fits_def of_object_fixed_len_def)

lemma covers_echo_reply_1_2 [c_proved]: "covered 3 loci_validate_of_echo_reply_OF_VERSION_1_2 (d_id 119)"
  by (simp add: loci_validate_of_echo_reply_OF_VERSION_1_2_def covered_min_id fits_def of_object_fixed_len_def)

lemma covers_echo_request_1_2 [c_proved]: "covered 3 loci_validate_of_echo_request_OF_VERSION_1_2 (d_id 120)"
  by (simp add: loci_validate_of_echo_request_OF_VERSION_1_2_def covered_min_id fits_def of_object_fixed_len_def)

lemma covers_experimenter_error_msg_1_2 [c_proved]: "covered 3 loci_validate_of_experimenter_error_msg_OF_VERSION_1_2 (d_id 123)"
  by (simp add: loci_validate_of_experimenter_error_msg_OF_VERSION_1_2_def covered_min_id fits_def of_object_fixed_len_def)

lemma covers_features_reply_1_2 [c_proved]: "covered 3 loci_validate_of_features_reply_OF_VERSION_1_2 (d_id 126)"
  by (simp add: loci_validate_of_features_reply_OF_VERSION_1_2_def covered_min_id fits_def of_object_fixed_len_def)

lemma covers_features_request_1_2 [c_proved]: "covered 3 loci_validate_of_features_request_OF_VERSION_1_2 (d_id 127)"
  by (simp add: loci_validate_of_features_request_OF_VERSION_1_2_def covered_min_id fits_def of_object_fixed_len_def)

lemma covers_flow_add_1_2 [c_proved]: "covered 3 loci_validate_of_flow_add_OF_VERSION_1_2 (d_id 128)"
  by (simp add: loci_validate_of_flow_add_OF_VERSION_1_2_def covered_min_id fits_def of_object_fixed_len_def)

lemma covers_flow_delete_1_2 [c_proved]: "covered 3 loci_validate_of_flow_delete_OF_VERSION_1_2 (d_id 129)"
  by (simp add: loci_validate_of_flow_delete_OF_VERSION_1_2_def covered_min_id fits_def of_object_fixed_len_def)

lemma covers_flow_delete_strict_1_2 [c_proved]: "covered 3 loci_validate_of_flow_delete_strict_OF_VERSION_1_2 (d_id 130)"
  by (simp add: loci_validate_of_flow_delete_strict_OF_VERSION_1_2_def covered_min_id fits_def of_object_fixed_len_def)

lemma covers_flow_mod_failed_error_msg_1_2 [c_proved]: "covered 3 loci_validate_of_flow_mod_failed_error_msg_OF_VERSION_1_2 (d_id 132)"
  by (simp add: loci_validate_of_flow_mod_failed_error_msg_OF_VERSION_1_2_def covered_min_id fits_def of_object_fixed_len_def)

lemma covers_flow_modify_1_2 [c_proved]: "covered 3 loci_validate_of_flow_modify_OF_VERSION_1_2 (d_id 133)"
  by (simp add: loci_validate_of_flow_modify_OF_VERSION_1_2_def covered_min_id fits_def of_object_fixed_len_def)

lemma covers_flow_modify_strict_1_2 [c_proved]: "covered 3 loci_validate_of_flow_modify_strict_OF_VERSION_1_2 (d_id 134)"
  by (simp add: loci_validate_of_flow_modify_strict_OF_VERSION_1_2_def covered_min_id fits_def of_object_fixed_len_def)

lemma covers_flow_removed_1_2 [c_proved]: "covered 3 loci_validate_of_flow_removed_OF_VERSION_1_2 (d_id 136)"
  by (simp add: loci_validate_of_flow_removed_OF_VERSION_1_2_def covered_min_id fits_def of_object_fixed_len_def)

lemma covers_flow_stats_reply_1_2 [c_proved]: "covered 3 loci_validate_of_flow_stats_reply_OF_VERSION_1_2 (d_id 137)"
  by (simp add: loci_validate_of_flow_stats_reply_OF_VERSION_1_2_def covered_min_id fits_def of_object_fixed_len_def)

lemma covers_flow_stats_request_1_2 [c_proved]: "covered 3 loci_validate_of_flow_stats_request_OF_VERSION_1_2 (d_id 138)"
  by (simp add: loci_validate_of_flow_stats_request_OF_VERSION_1_2_def covered_min_id fits_def of_object_fixed_len_def)

lemma covers_get_config_reply_1_2 [c_proved]: "covered 3 loci_validate_of_get_config_reply_OF_VERSION_1_2 (d_id 139)"
  by (simp add: loci_validate_of_get_config_reply_OF_VERSION_1_2_def covered_min_id fits_def of_object_fixed_len_def)

lemma covers_get_config_request_1_2 [c_proved]: "covered 3 loci_validate_of_get_config_request_OF_VERSION_1_2 (d_id 140)"
  by (simp add: loci_validate_of_get_config_request_OF_VERSION_1_2_def covered_min_id fits_def of_object_fixed_len_def)

lemma covers_group_add_1_2 [c_proved]: "covered 3 loci_validate_of_group_add_OF_VERSION_1_2 (d_id 141)"
  by (simp add: loci_validate_of_group_add_OF_VERSION_1_2_def covered_min_id fits_def of_object_fixed_len_def)

lemma covers_group_delete_1_2 [c_proved]: "covered 3 loci_validate_of_group_delete_OF_VERSION_1_2 (d_id 142)"
  by (simp add: loci_validate_of_group_delete_OF_VERSION_1_2_def covered_min_id fits_def of_object_fixed_len_def)

lemma covers_group_desc_stats_reply_1_2 [c_proved]: "covered 3 loci_validate_of_group_desc_stats_reply_OF_VERSION_1_2 (d_id 143)"
  by (simp add: loci_validate_of_group_desc_stats_reply_OF_VERSION_1_2_def covered_min_id fits_def of_object_fixed_len_def)

lemma covers_group_desc_stats_request_1_2 [c_proved]: "covered 3 loci_validate_of_group_desc_stats_request_OF_VERSION_1_2 (d_id 144)"
  by (simp add: loci_validate_of_group_desc_stats_request_OF_VERSION_1_2_def covered_min_id fits_def of_object_fixed_len_def)

lemma covers_group_features_stats_reply_1_2 [c_proved]: "covered 3 loci_validate_of_group_features_stats_reply_OF_VERSION_1_2 (d_id 145)"
  by (simp add: loci_validate_of_group_features_stats_reply_OF_VERSION_1_2_def covered_min_id fits_def of_object_fixed_len_def)

lemma covers_group_features_stats_request_1_2 [c_proved]: "covered 3 loci_validate_of_group_features_stats_request_OF_VERSION_1_2 (d_id 146)"
  by (simp add: loci_validate_of_group_features_stats_request_OF_VERSION_1_2_def covered_min_id fits_def of_object_fixed_len_def)

lemma covers_group_mod_failed_error_msg_1_2 [c_proved]: "covered 3 loci_validate_of_group_mod_failed_error_msg_OF_VERSION_1_2 (d_id 148)"
  by (simp add: loci_validate_of_group_mod_failed_error_msg_OF_VERSION_1_2_def covered_min_id fits_def of_object_fixed_len_def)

lemma covers_group_modify_1_2 [c_proved]: "covered 3 loci_validate_of_group_modify_OF_VERSION_1_2 (d_id 149)"
  by (simp add: loci_validate_of_group_modify_OF_VERSION_1_2_def covered_min_id fits_def of_object_fixed_len_def)

lemma covers_group_stats_reply_1_2 [c_proved]: "covered 3 loci_validate_of_group_stats_reply_OF_VERSION_1_2 (d_id 150)"
  by (simp add: loci_validate_of_group_stats_reply_OF_VERSION_1_2_def covered_min_id fits_def of_object_fixed_len_def)

lemma covers_group_stats_request_1_2 [c_proved]: "covered 3 loci_validate_of_group_stats_request_OF_VERSION_1_2 (d_id 151)"
  by (simp add: loci_validate_of_group_stats_request_OF_VERSION_1_2_def covered_min_id fits_def of_object_fixed_len_def)

lemma covers_hello_1_2 [c_proved]: "covered 3 loci_validate_of_hello_OF_VERSION_1_2 (d_id 153)"
  by (simp add: loci_validate_of_hello_OF_VERSION_1_2_def covered_min_id fits_def of_object_fixed_len_def)

lemma covers_hello_failed_error_msg_1_2 [c_proved]: "covered 3 loci_validate_of_hello_failed_error_msg_OF_VERSION_1_2 (d_id 154)"
  by (simp add: loci_validate_of_hello_failed_error_msg_OF_VERSION_1_2_def covered_min_id fits_def of_object_fixed_len_def)

lemma covers_packet_in_1_2 [c_proved]: "covered 3 loci_validate_of_packet_in_OF_VERSION_1_2 (d_id 166)"
  by (simp add: loci_validate_of_packet_in_OF_VERSION_1_2_def covered_min_id fits_def of_object_fixed_len_def)

lemma covers_packet_out_1_2 [c_proved]: "covered 3 loci_validate_of_packet_out_OF_VERSION_1_2 (d_id 167)"
  by (simp add: loci_validate_of_packet_out_OF_VERSION_1_2_def covered_min_id fits_def of_object_fixed_len_def)

lemma covers_port_mod_1_2 [c_proved]: "covered 3 loci_validate_of_port_mod_OF_VERSION_1_2 (d_id 170)"
  by (simp add: loci_validate_of_port_mod_OF_VERSION_1_2_def covered_min_id fits_def of_object_fixed_len_def)

lemma covers_port_mod_failed_error_msg_1_2 [c_proved]: "covered 3 loci_validate_of_port_mod_failed_error_msg_OF_VERSION_1_2 (d_id 171)"
  by (simp add: loci_validate_of_port_mod_failed_error_msg_OF_VERSION_1_2_def covered_min_id fits_def of_object_fixed_len_def)

lemma covers_port_stats_reply_1_2 [c_proved]: "covered 3 loci_validate_of_port_stats_reply_OF_VERSION_1_2 (d_id 172)"
  by (simp add: loci_validate_of_port_stats_reply_OF_VERSION_1_2_def covered_min_id fits_def of_object_fixed_len_def)

lemma covers_port_stats_request_1_2 [c_proved]: "covered 3 loci_validate_of_port_stats_request_OF_VERSION_1_2 (d_id 173)"
  by (simp add: loci_validate_of_port_stats_request_OF_VERSION_1_2_def covered_min_id fits_def of_object_fixed_len_def)

lemma covers_port_status_1_2 [c_proved]: "covered 3 loci_validate_of_port_status_OF_VERSION_1_2 (d_id 174)"
  by (simp add: loci_validate_of_port_status_OF_VERSION_1_2_def covered_min_id fits_def of_object_fixed_len_def)

lemma covers_queue_get_config_reply_1_2 [c_proved]: "covered 3 loci_validate_of_queue_get_config_reply_OF_VERSION_1_2 (d_id 177)"
  by (simp add: loci_validate_of_queue_get_config_reply_OF_VERSION_1_2_def covered_min_id fits_def of_object_fixed_len_def)

lemma covers_queue_get_config_request_1_2 [c_proved]: "covered 3 loci_validate_of_queue_get_config_request_OF_VERSION_1_2 (d_id 178)"
  by (simp add: loci_validate_of_queue_get_config_request_OF_VERSION_1_2_def covered_min_id fits_def of_object_fixed_len_def)

lemma covers_queue_op_failed_error_msg_1_2 [c_proved]: "covered 3 loci_validate_of_queue_op_failed_error_msg_OF_VERSION_1_2 (d_id 179)"
  by (simp add: loci_validate_of_queue_op_failed_error_msg_OF_VERSION_1_2_def covered_min_id fits_def of_object_fixed_len_def)

lemma covers_queue_stats_reply_1_2 [c_proved]: "covered 3 loci_validate_of_queue_stats_reply_OF_VERSION_1_2 (d_id 180)"
  by (simp add: loci_validate_of_queue_stats_reply_OF_VERSION_1_2_def covered_min_id fits_def of_object_fixed_len_def)

lemma covers_queue_stats_request_1_2 [c_proved]: "covered 3 loci_validate_of_queue_stats_request_OF_VERSION_1_2 (d_id 181)"
  by (simp add: loci_validate_of_queue_stats_request_OF_VERSION_1_2_def covered_min_id fits_def of_object_fixed_len_def)

lemma covers_role_reply_1_2 [c_proved]: "covered 3 loci_validate_of_role_reply_OF_VERSION_1_2 (d_id 183)"
  by (simp add: loci_validate_of_role_reply_OF_VERSION_1_2_def covered_min_id fits_def of_object_fixed_len_def)

lemma covers_role_request_1_2 [c_proved]: "covered 3 loci_validate_of_role_request_OF_VERSION_1_2 (d_id 184)"
  by (simp add: loci_validate_of_role_request_OF_VERSION_1_2_def covered_min_id fits_def of_object_fixed_len_def)

lemma covers_role_request_failed_error_msg_1_2 [c_proved]: "covered 3 loci_validate_of_role_request_failed_error_msg_OF_VERSION_1_2 (d_id 185)"
  by (simp add: loci_validate_of_role_request_failed_error_msg_OF_VERSION_1_2_def covered_min_id fits_def of_object_fixed_len_def)

lemma covers_set_config_1_2 [c_proved]: "covered 3 loci_validate_of_set_config_OF_VERSION_1_2 (d_id 187)"
  by (simp add: loci_validate_of_set_config_OF_VERSION_1_2_def covered_min_id fits_def of_object_fixed_len_def)

lemma covers_switch_config_failed_error_msg_1_2 [c_proved]: "covered 3 loci_validate_of_switch_config_failed_error_msg_OF_VERSION_1_2 (d_id 190)"
  by (simp add: loci_validate_of_switch_config_failed_error_msg_OF_VERSION_1_2_def covered_min_id fits_def of_object_fixed_len_def)

lemma covers_table_mod_1_2 [c_proved]: "covered 3 loci_validate_of_table_mod_OF_VERSION_1_2 (d_id 196)"
  by (simp add: loci_validate_of_table_mod_OF_VERSION_1_2_def covered_min_id fits_def of_object_fixed_len_def)

lemma covers_table_mod_failed_error_msg_1_2 [c_proved]: "covered 3 loci_validate_of_table_mod_failed_error_msg_OF_VERSION_1_2 (d_id 197)"
  by (simp add: loci_validate_of_table_mod_failed_error_msg_OF_VERSION_1_2_def covered_min_id fits_def of_object_fixed_len_def)

lemma covers_table_stats_reply_1_2 [c_proved]: "covered 3 loci_validate_of_table_stats_reply_OF_VERSION_1_2 (d_id 198)"
  by (simp add: loci_validate_of_table_stats_reply_OF_VERSION_1_2_def covered_min_id fits_def of_object_fixed_len_def)

lemma covers_table_stats_request_1_2 [c_proved]: "covered 3 loci_validate_of_table_stats_request_OF_VERSION_1_2 (d_id 199)"
  by (simp add: loci_validate_of_table_stats_request_OF_VERSION_1_2_def covered_min_id fits_def of_object_fixed_len_def)

lemma of_error_msg_covered_1_2 [c_proved]: "covered 3 loci_validate_of_error_msg_OF_VERSION_1_2 (of_error_msg_wire_object_id_get 3)"
  unfolding loci_validate_of_error_msg_OF_VERSION_1_2_def of_error_msg_wire_object_id_get_def
  by (simp, intro c_intro; simp add: case_covered_def c_proved fits_def of_object_fixed_len_def)

lemma of_nicira_header_covered_1_2 [c_proved]: "covered 3 loci_validate_of_nicira_header_OF_VERSION_1_2 (of_nicira_header_wire_object_id_get 3)"
  unfolding loci_validate_of_nicira_header_OF_VERSION_1_2_def of_nicira_header_wire_object_id_get_def
  by (simp, intro c_intro; simp add: case_covered_def c_proved fits_def of_object_fixed_len_def)

lemma of_bsn_header_covered_1_2 [c_proved]: "covered 3 loci_validate_of_bsn_header_OF_VERSION_1_2 (of_bsn_header_wire_object_id_get 3)"
  unfolding loci_validate_of_bsn_header_OF_VERSION_1_2_def of_bsn_header_wire_object_id_get_def
  by (simp, intro c_intro; simp add: case_covered_def c_proved fits_def of_object_fixed_len_def)

lemma of_experimenter_covered_1_2 [c_proved]: "covered 3 loci_validate_of_experimenter_OF_VERSION_1_2 (of_experimenter_wire_object_id_get 3)"
  unfolding loci_validate_of_experimenter_OF_VERSION_1_2_def of_experimenter_wire_object_id_get_def
  by (simp, intro c_intro; simp add: case_covered_def c_proved fits_def of_object_fixed_len_def)

lemma of_flow_mod_covered_1_2 [c_proved]: "covered 3 loci_validate_of_flow_mod_OF_VERSION_1_2 (of_flow_mod_wire_object_id_get 3)"
  unfolding loci_validate_of_flow_mod_OF_VERSION_1_2_def of_flow_mod_wire_object_id_get_def
  by (simp, intro c_intro; simp add: case_covered_def c_proved fits_def of_object_fixed_len_def)

lemma of_group_mod_covered_1_2 [c_proved]: "covered 3 loci_validate_of_group_mod_OF_VERSION_1_2 (of_group_mod_wire_object_id_get 3)"
  unfolding loci_validate_of_group_mod_OF_VERSION_1_2_def of_group_mod_wire_object_id_get_def
  by (simp, intro c_intro; simp add: case_covered_def c_proved fits_def of_object_fixed_len_def)

lemma of_bsn_stats_request_covered_1_2 [c_proved]: "covered 3 loci_validate_of_bsn_stats_request_OF_VERSION_1_2 (of_bsn_stats_request_wire_object_id_get 3)"
  unfolding loci_validate_of_bsn_stats_request_OF_VERSION_1_2_def of_bsn_stats_request_wire_object_id_get_def
  by (simp, intro c_intro; simp add: case_covered_def c_proved fits_def of_object_fixed_len_def)

lemma of_experimenter_stats_request_covered_1_2 [c_proved]: "covered 3 loci_validate_of_experimenter_stats_request_OF_VERSION_1_2 (of_experimenter_stats_request_wire_object_id_get 3)"
  unfolding loci_validate_of_experimenter_stats_request_OF_VERSION_1_2_def of_experimenter_stats_request_wire_object_id_get_def
  by (simp, intro c_intro; simp add: case_covered_def c_proved fits_def of_object_fixed_len_def)

lemma of_stats_request_covered_1_2 [c_proved]: "covered 3 loci_validate_of_stats_request_OF_VERSION_1_2 (of_stats_request_wire_object_id_get 3)"
  unfolding loci_validate_of_stats_request_OF_VERSION_1_2_def of_stats_request_wire_object_id_get_def
  by (simp, intro c_intro; simp add: case_covered_def c_proved fits_def of_object_fixed_len_def)

lemma of_bsn_stats_reply_covered_1_2 [c_proved]: "covered 3 loci_validate_of_bsn_stats_reply_OF_VERSION_1_2 (of_bsn_stats_reply_wire_object_id_get 3)"
  unfolding loci_validate_of_bsn_stats_reply_OF_VERSION_1_2_def of_bsn_stats_reply_wire_object_id_get_def
  by (simp, intro c_intro; simp add: case_covered_def c_proved fits_def of_object_fixed_len_def)

lemma of_experimenter_stats_reply_covered_1_2 [c_proved]: "covered 3 loci_validate_of_experimenter_stats_reply_OF_VERSION_1_2 (of_experimenter_stats_reply_wire_object_id_get 3)"
  unfolding loci_validate_of_experimenter_stats_reply_OF_VERSION_1_2_def of_experimenter_stats_reply_wire_object_id_get_def
  by (simp, intro c_intro; simp add: case_covered_def c_proved fits_def of_object_fixed_len_def)

lemma of_stats_reply_covered_1_2 [c_proved]: "covered 3 loci_validate_of_stats_reply_OF_VERSION_1_2 (of_stats_reply_wire_object_id_get 3)"
  unfolding loci_validate_of_stats_reply_OF_VERSION_1_2_def of_stats_reply_wire_object_id_get_def
  by (simp, intro c_intro; simp add: case_covered_def c_proved fits_def of_object_fixed_len_def)

lemma of_header_covered_1_2 [c_proved]: "covered 3 loci_validate_of_header_OF_VERSION_1_2 (of_header_wire_object_id_get 3)"
  unfolding loci_validate_of_header_OF_VERSION_1_2_def of_header_wire_object_id_get_def
  by (simp, intro c_intro; simp add: case_covered_def c_proved fits_def of_object_fixed_len_def)

subsection \<open>OpenFlow 1.3\<close>

lemma covers_aggregate_stats_reply_1_3 [c_proved]: "covered 4 loci_validate_of_aggregate_stats_reply_OF_VERSION_1_3 (d_id 1)"
  by (simp add: loci_validate_of_aggregate_stats_reply_OF_VERSION_1_3_def covered_min_id fits_def of_object_fixed_len_def)

lemma covers_aggregate_stats_request_1_3 [c_proved]: "covered 4 loci_validate_of_aggregate_stats_request_OF_VERSION_1_3 (d_id 2)"
  by (simp add: loci_validate_of_aggregate_stats_request_OF_VERSION_1_3_def covered_min_id fits_def of_object_fixed_len_def)

lemma covers_async_get_reply_1_3 [c_proved]: "covered 4 loci_validate_of_async_get_reply_OF_VERSION_1_3 (d_id 4)"
  by (simp add: loci_validate_of_async_get_reply_OF_VERSION_1_3_def covered_min_id fits_def of_object_fixed_len_def)

lemma covers_async_get_request_1_3 [c_proved]: "covered 4 loci_validate_of_async_get_request_OF_VERSION_1_3 (d_id 5)"
  by (simp add: loci_validate_of_async_get_request_OF_VERSION_1_3_def covered_min_id fits_def of_object_fixed_len_def)

lemma covers_async_set_1_3 [c_proved]: "covered 4 loci_validate_of_async_set_OF_VERSION_1_3 (d_id 6)"
  by (simp add: loci_validate_of_async_set_OF_VERSION_1_3_def covered_min_id fits_def of_object_fixed_len_def)

lemma covers_bad_action_error_msg_1_3 [c_proved]: "covered 4 loci_validate_of_bad_action_error_msg_OF_VERSION_1_3 (d_id 7)"
  by (simp add: loci_validate_of_bad_action_error_msg_OF_VERSION_1_3_def covered_min_id fits_def of_object_fixed_len_def)

lemma covers_bad_instruction_error_msg_1_3 [c_proved]: "covered 4 loci_validate_of_bad_instruction_error_msg_OF_VERSION_1_3 (d_id 8)"
  by (simp add: loci_validate_of_bad_instruction_error_msg_OF_VERSION_1_3_def covered_min_id fits_def of_object_fixed_len_def)

lemma covers_bad_match_error_msg_1_3 [c_proved]: "covered 4 loci_validate_of_bad_match_error_msg_OF_VERSION_1_3 (d_id 9)"
  by (simp add: loci_validate_of_bad_match_error_msg_OF_VERSION_1_3_def covered_min_id fits_def of_object_fixed_len_def)

lemma covers_bad_request_error_msg_1_3 [c_proved]: "covered 4 loci_validate_of_bad_request_error_msg_OF_VERSION_1_3 (d_id 11)"
  by (simp add: loci_validate_of_bad_request_error_msg_OF_VERSION_1_3_def covered_min_id fits_def of_object_fixed_len_def)

lemma covers_barrier_reply_1_3 [c_proved]: "covered 4 loci_validate_of_barrier_reply_OF_VERSION_1_3 (d_id 12)"
  by (simp add: loci_validate_of_barrier_reply_OF_VERSION_1_3_def covered_min_id fits_def of_object_fixed_len_def)

lemma covers_barrier_request_1_3 [c_proved]: "covered 4 loci_validate_of_barrier_request_OF_VERSION_1_3 (d_id 13)"
  by (simp add: loci_validate_of_barrier_request_OF_VERSION_1_3_def covered_min_id fits_def of_object_fixed_len_def)

lemma covers_bsn_arp_idle_1_3 [c_proved]: "covered 4 loci_validate_of_bsn_arp_idle_OF_VERSION_1_3 (d_id 14)"
  by (simp add: loci_validate_of_bsn_arp_idle_OF_VERSION_1_3_def covered_min_id fits_def of_object_fixed_len_def)

lemma covers_bsn_bw_clear_data_reply_1_3 [c_proved]: "covered 4 loci_validate_of_bsn_bw_clear_data_reply_OF_VERSION_1_3 (d_id 15)"
  by (simp add: loci_validate_of_bsn_bw_clear_data_reply_OF_VERSION_1_3_def covered_min_id fits_def of_object_fixed_len_def)

lemma covers_bsn_bw_clear_data_request_1_3 [c_proved]: "covered 4 loci_validate_of_bsn_bw_clear_data_request_OF_VERSION_1_3 (d_id 16)"
  by (simp add: loci_validate_of_bsn_bw_clear_data_request_OF_VERSION_1_3_def covered_min_id fits_def of_object_fixed_len_def)

lemma covers_bsn_bw_enable_get_reply_1_3 [c_proved]: "covered 4 loci_validate_of_bsn_bw_enable_get_reply_OF_VERSION_1_3 (d_id 17)"
  by (simp add: loci_validate_of_bsn_bw_enable_get_reply_OF_VERSION_1_3_def covered_min_id fits_def of_object_fixed_len_def)

lemma covers_bsn_bw_enable_get_request_1_3 [c_proved]: "covered 4 loci_validate_of_bsn_bw_enable_get_request_OF_VERSION_1_3 (d_id 18)"
  by (simp add: loci_validate_of_bsn_bw_enable_get_request_OF_VERSION_1_3_def covered_min_id fits_def of_object_fixed_len_def)

lemma covers_bsn_bw_enable_set_reply_1_3 [c_proved]: "covered 4 loci_validate_of_bsn_bw_enable_set_reply_OF_VERSION_1_3 (d_id 19)"
  by (simp add: loci_validate_of_bsn_bw_enable_set_reply_OF_VERSION_1_3_def covered_min_id fits_def of_object_fixed_len_def)

lemma covers_bsn_bw_enable_set_request_1_3 [c_proved]: "covered 4 loci_validate_of_bsn_bw_enable_set_request_OF_VERSION_1_3 (d_id 20)"
  by (simp add: loci_validate_of_bsn_bw_enable_set_request_OF_VERSION_1_3_def covered_min_id fits_def of_object_fixed_len_def)

lemma covers_bsn_controller_connections_reply_1_3 [c_proved]: "covered 4 loci_validate_of_bsn_controller_connections_reply_OF_VERSION_1_3 (d_id 21)"
  by (simp add: loci_validate_of_bsn_controller_connections_reply_OF_VERSION_1_3_def covered_min_id fits_def of_object_fixed_len_def)

lemma covers_bsn_controller_connections_request_1_3 [c_proved]: "covered 4 loci_validate_of_bsn_controller_connections_request_OF_VERSION_1_3 (d_id 22)"
  by (simp add: loci_validate_of_bsn_controller_connections_request_OF_VERSION_1_3_def covered_min_id fits_def of_object_fixed_len_def)

lemma covers_bsn_debug_counter_desc_stats_reply_1_3 [c_proved]: "covered 4 loci_validate_of_bsn_debug_counter_desc_stats_reply_OF_VERSION_1_3 (d_id 23)"
  by (simp add: loci_validate_of_bsn_debug_counter_desc_stats_reply_OF_VERSION_1_3_def covered_min_id fits_def of_object_fixed_len_def)

lemma covers_bsn_debug_counter_desc_stats_request_1_3 [c_proved]: "covered 4 loci_validate_of_bsn_debug_counter_desc_stats_request_OF_VERSION_1_3 (d_id 24)"
  by (simp add: loci_validate_of_bsn_debug_counter_desc_stats_request_OF_VERSION_1_3_def covered_min_id fits_def of_object_fixed_len_def)

lemma covers_bsn_debug_counter_stats_reply_1_3 [c_proved]: "covered 4 loci_validate_of_bsn_debug_counter_stats_reply_OF_VERSION_1_3 (d_id 25)"
  by (simp add: loci_validate_of_bsn_debug_counter_stats_reply_OF_VERSION_1_3_def covered_min_id fits_def of_object_fixed_len_def)

lemma covers_bsn_debug_counter_stats_request_1_3 [c_proved]: "covered 4 loci_validate_of_bsn_debug_counter_stats_request_OF_VERSION_1_3 (d_id 26)"
  by (simp add: loci_validate_of_bsn_debug_counter_stats_request_OF_VERSION_1_3_def covered_min_id fits_def of_object_fixed_len_def)

lemma covers_bsn_flow_checksum_bucket_stats_reply_1_3 [c_proved]: "covered 4 loci_validate_of_bsn_flow_checksum_bucket_stats_reply_OF_VERSION_1_3 (d_id 27)"
  by (simp add: loci_validate_of_bsn_flow_checksum_bucket_stats_reply_OF_VERSION_1_3_def covered_min_id fits_def of_object_fixed_len_def)

lemma covers_bsn_flow_checksum_bucket_stats_request_1_3 [c_proved]: "covered 4 loci_validate_of_bsn_flow_checksum_bucket_stats_request_OF_VERSION_1_3 (d_id 28)"
  by (simp add: loci_validate_of_bsn_flow_checksum_bucket_stats_request_OF_VERSION_1_3_def covered_min_id fits_def of_object_fixed_len_def)

lemma covers_bsn_flow_idle_1_3 [c_proved]: "covered 4 loci_validate_of_bsn_flow_idle_OF_VERSION_1_3 (d_id 29)"
  by (simp add: loci_validate_of_bsn_flow_idle_OF_VERSION_1_3_def covered_min_id fits_def of_object_fixed_len_def)

lemma covers_bsn_flow_idle_enable_get_reply_1_3 [c_proved]: "covered 4 loci_validate_of_bsn_flow_idle_enable_get_reply_OF_VERSION_1_3 (d_id 30)"
  by (simp add: loci_validate_of_bsn_flow_idle_enable_get_reply_OF_VERSION_1_3_def covered_min_id fits_def of_object_fixed_len_def)

lemma covers_bsn_flow_idle_enable_get_request_1_3 [c_proved]: "covered 4 loci_validate_of_bsn_flow_idle_enable_get_request_OF_VERSION_1_3 (d_id 31)"
  by (simp add: loci_validate_of_bsn_flow_idle_enable_get_request_OF_VERSION_1_3_def covered_min_id fits_def of_object_fixed_len_def)

lemma covers_bsn_flow_idle_enable_set_reply_1_3 [c_proved]: "covered 4 loci_validate_of_bsn_flow_idle_enable_set_reply_OF_VERSION_1_3 (d_id 32)"
  by (simp add: loci_validate_of_bsn_flow_idle_enable_set_reply_OF_VERSION_1_3_def covered_min_id fits_def of_object_fixed_len_def)

lemma covers_bsn_flow_idle_enable_set_request_1_3 [c_proved]: "covered 4 loci_validate_of_bsn_flow_idle_enable_set_request_OF_VERSION_1_3 (d_id 33)"
  by (simp add: loci_validate_of_bsn_flow_idle_enable_set_request_OF_VERSION_1_3_def covered_min_id fits_def of_object_fixed_len_def)

lemma covers_bsn_generic_stats_reply_1_3 [c_proved]: "covered 4 loci_validate_of_bsn_generic_stats_reply_OF_VERSION_1_3 (d_id 34)"
  by (simp add: loci_validate_of_bsn_generic_stats_reply_OF_VERSION_1_3_def covered_min_id fits_def of_object_fixed_len_def)

lemma covers_bsn_generic_stats_request_1_3 [c_proved]: "covered 4 loci_validate_of_bsn_generic_stats_request_OF_VERSION_1_3 (d_id 35)"
  by (simp add: loci_validate_of_bsn_generic_stats_request_OF_VERSION_1_3_def covered_min_id fits_def of_object_fixed_len_def)

lemma covers_bsn_gentable_bucket_stats_reply_1_3 [c_proved]: "covered 4 loci_validate_of_bsn_gentable_bucket_stats_reply_OF_VERSION_1_3 (d_id 36)"
  by (simp add: loci_validate_of_bsn_gentable_bucket_stats_reply_OF_VERSION_1_3_def covered_min_id fits_def of_object_fixed_len_def)

lemma covers_bsn_gentable_bucket_stats_request_1_3 [c_proved]: "covered 4 loci_validate_of_bsn_gentable_bucket_stats_request_OF_VERSION_1_3 (d_id 37)"
  by (simp add: loci_validate_of_bsn_gentable_bucket_stats_request_OF_VERSION_1_3_def covered_min_id fits_def of_object_fixed_len_def)

lemma covers_bsn_gentable_clear_reply_1_3 [c_proved]: "covered 4 loci_validate_of_bsn_gentable_clear_reply_OF_VERSION_1_3 (d_id 38)"
  by (simp add: loci_validate_of_bsn_gentable_clear_reply_OF_VERSION_1_3_def covered_min_id fits_def of_object_fixed_len_def)

lemma covers_bsn_gentable_clear_request_1_3 [c_proved]: "covered 4 loci_validate_of_bsn_gentable_clear_request_OF_VERSION_1_3 (d_id 39)"
  by (simp add: loci_validate_of_bsn_gentable_clear_request_OF_VERSION_1_3_def covered_min_id fits_def of_object_fixed_len_def)

lemma covers_bsn_gentable_desc_stats_reply_1_3 [c_proved]: "covered 4 loci_validate_of_bsn_gentable_desc_stats_reply_OF_VERSION_1_3 (d_id 40)"
  by (simp add: loci_validate_of_bsn_gentable_desc_stats_reply_OF_VERSION_1_3_def covered_min_id fits_def of_object_fixed_len_def)

lemma covers_bsn_gentable_desc_stats_request_1_3 [c_proved]: "covered 4 loci_validate_of_bsn_gentable_desc_stats_request_OF_VERSION_1_3 (d_id 41)"
  by (simp add: loci_validate_of_bsn_gentable_desc_stats_request_OF_VERSION_1_3_def covered_min_id fits_def of_object_fixed_len_def)

lemma covers_bsn_gentable_entry_add_1_3 [c_proved]: "covered 4 loci_validate_of_bsn_gentable_entry_add_OF_VERSION_1_3 (d_id 42)"
  by (simp add: loci_validate_of_bsn_gentable_entry_add_OF_VERSION_1_3_def covered_min_id fits_def of_object_fixed_len_def)

lemma covers_bsn_gentable_entry_delete_1_3 [c_proved]: "covered 4 loci_validate_of_bsn_gentable_entry_delete_OF_VERSION_1_3 (d_id 43)"
  by (simp add: loci_validate_of_bsn_gentable_entry_delete_OF_VERSION_1_3_def covered_min_id fits_def of_object_fixed_len_def)

lemma covers_bsn_gentable_entry_desc_stats_reply_1_3 [c_proved]: "covered 4 loci_validate_of_bsn_gentable_entry_desc_stats_reply_OF_VERSION_1_3 (d_id 44)"
  by (simp add: loci_validate_of_bsn_gentable_entry_desc_stats_reply_OF_VERSION_1_3_def covered_min_id fits_def of_object_fixed_len_def)

lemma covers_bsn_gentable_entry_desc_stats_request_1_3 [c_proved]: "covered 4 loci_validate_of_bsn_gentable_entry_desc_stats_request_OF_VERSION_1_3 (d_id 45)"
  by (simp add: loci_validate_of_bsn_gentable_entry_desc_stats_request_OF_VERSION_1_3_def covered_min_id fits_def of_object_fixed_len_def)

lemma covers_bsn_gentable_entry_stats_reply_1_3 [c_proved]: "covered 4 loci_validate_of_bsn_gentable_entry_stats_reply_OF_VERSION_1_3 (d_id 46)"
  by (simp add: loci_validate_of_bsn_gentable_entry_stats_reply_OF_VERSION_1_3_def covered_min_id fits_def of_object_fixed_len_def)

lemma covers_bsn_gentable_entry_stats_request_1_3 [c_proved]: "covered 4 loci_validate_of_bsn_gentable_entry_stats_request_OF_VERSION_1_3 (d_id 47)"
  by (simp add: loci_validate_of_bsn_gentable_entry_stats_request_OF_VERSION_1_3_def covered_min_id fits_def of_object_fixed_len_def)

lemma covers_bsn_gentable_set_buckets_size_1_3 [c_proved]: "covered 4 loci_validate_of_bsn_gentable_set_buckets_size_OF_VERSION_1_3 (d_id 48)"
  by (simp add: loci_validate_of_bsn_gentable_set_buckets_size_OF_VERSION_1_3_def covered_min_id fits_def of_object_fixed_len_def)

lemma covers_bsn_gentable_stats_reply_1_3 [c_proved]: "covered 4 loci_validate_of_bsn_gentable_stats_reply_OF_VERSION_1_3 (d_id 49)"
  by (simp add: loci_validate_of_bsn_gentable_stats_reply_OF_VERSION_1_3_def covered_min_id fits_def of_object_fixed_len_def)

lemma covers_bsn_gentable_stats_request_1_3 [c_proved]: "covered 4 loci_validate_of_bsn_gentable_stats_request_OF_VERSION_1_3 (d_id 50)"
  by (simp add: loci_validate_of_bsn_gentable_stats_request_OF_VERSION_1_3_def covered_min_id fits_def of_object_fixed_len_def)

lemma covers_bsn_get_interfaces_reply_1_3 [c_proved]: "covered 4 loci_validate_of_bsn_get_interfaces_reply_OF_VERSION_1_3 (d_id 51)"
  by (simp add: loci_validate_of_bsn_get_interfaces_reply_OF_VERSION_1_3_def covered_min_id fits_def of_object_fixed_len_def)

lemma covers_bsn_get_interfaces_request_1_3 [c_proved]: "covered 4 loci_validate_of_bsn_get_interfaces_request_OF_VERSION_1_3 (d_id 52)"
  by (simp add: loci_validate_of_bsn_get_interfaces_request_OF_VERSION_1_3_def covered_min_id fits_def of_object_fixed_len_def)

lemma covers_bsn_get_mirroring_reply_1_3 [c_proved]: "covered 4 loci_validate_of_bsn_get_mirroring_reply_OF_VERSION_1_3 (d_id 57)"
  by (simp add: loci_validate_of_bsn_get_mirroring_reply_OF_VERSION_1_3_def covered_min_id fits_def of_object_fixed_len_def)

lemma covers_bsn_get_mirroring_request_1_3 [c_proved]: "covered 4 loci_validate_of_bsn_get_mirroring_request_OF_VERSION_1_3 (d_id 58)"
  by (simp add: loci_validate_of_bsn_get_mirroring_request_OF_VERSION_1_3_def covered_min_id fits_def of_object_fixed_len_def)

lemma covers_bsn_get_switch_pipeline_reply_1_3 [c_proved]: "covered 4 loci_validate_of_bsn_get_switch_pipeline_reply_OF_VERSION_1_3 (d_id 59)"
  by (simp add: loci_validate_of_bsn_get_switch_pipeline_reply_OF_VERSION_1_3_def covered_min_id fits_def of_object_fixed_len_def)

lemma covers_bsn_get_switch_pipeline_request_1_3 [c_proved]: "covered 4 loci_validate_of_bsn_get_switch_pipeline_request_OF_VERSION_1_3 (d_id 60)"
  by (simp add: loci_validate_of_bsn_get_switch_pipeline_request_OF_VERSION_1_3_def covered_min_id fits_def of_object_fixed_len_def)

lemma covers_bsn_image_desc_stats_reply_1_3 [c_proved]: "covered 4 loci_validate_of_bsn_image_desc_stats_reply_OF_VERSION_1_3 (d_id 64)"
  by (simp add: loci_validate_of_bsn_image_desc_stats_reply_OF_VERSION_1_3_def covered_min_id fits_def of_object_fixed_len_def)

lemma covers_bsn_image_desc_stats_request_1_3 [c_proved]: "covered 4 loci_validate_of_bsn_image_desc_stats_request_OF_VERSION_1_3 (d_id 65)"
  by (simp add: loci_validate_of_bsn_image_desc_stats_request_OF_VERSION_1_3_def covered_min_id fits_def of_object_fixed_len_def)

lemma covers_bsn_lacp_convergence_notif_1_3 [c_proved]: "covered 4 loci_validate_of_bsn_lacp_convergence_notif_OF_VERSION_1_3 (d_id 66)"
  by (simp add: loci_validate_of_bsn_lacp_convergence_notif_OF_VERSION_1_3_def covered_min_id fits_def of_object_fixed_len_def)

lemma covers_bsn_lacp_stats_reply_1_3 [c_proved]: "covered 4 loci_validate_of_bsn_lacp_stats_reply_OF_VERSION_1_3 (d_id 67)"
  by (simp add: loci_validate_of_bsn_lacp_stats_reply_OF_VERSION_1_3_def covered_min_id fits_def of_object_fixed_len_def)

lemma covers_bsn_lacp_stats_request_1_3 [c_proved]: "covered 4 loci_validate_of_bsn_lacp_stats_request_OF_VERSION_1_3 (d_id 68)"
  by (simp add: loci_validate_of_bsn_lacp_stats_request_OF_VERSION_1_3_def covered_min_id fits_def of_object_fixed_len_def)

lemma covers_bsn_log_1_3 [c_proved]: "covered 4 loci_validate_of_bsn_log_OF_VERSION_1_3 (d_id 69)"
  by (simp add: loci_validate_of_bsn_log_OF_VERSION_1_3_def covered_min_id fits_def of_object_fixed_len_def)

lemma covers_bsn_lua_command_reply_1_3 [c_proved]: "covered 4 loci_validate_of_bsn_lua_command_reply_OF_VERSION_1_3 (d_id 70)"
  by (simp add: loci_validate_of_bsn_lua_command_reply_OF_VERSION_1_3_def covered_min_id fits_def of_object_fixed_len_def)

lemma covers_bsn_lua_command_request_1_3 [c_proved]: "covered 4 loci_validate_of_bsn_lua_command_request_OF_VERSION_1_3 (d_id 71)"
  by (simp add: loci_validate_of_bsn_lua_command_request_OF_VERSION_1_3_def covered_min_id fits_def of_object_fixed_len_def)

lemma covers_bsn_lua_notification_1_3 [c_proved]: "covered 4 loci_validate_of_bsn_lua_notification_OF_VERSION_1_3 (d_id 72)"
  by (simp add: loci_validate_of_bsn_lua_notification_OF_VERSION_1_3_def covered_min_id fits_def of_object_fixed_len_def)

lemma covers_bsn_lua_upload_1_3 [c_proved]: "covered 4 loci_validate_of_bsn_lua_upload_OF_VERSION_1_3 (d_id 73)"
  by (simp add: loci_validate_of_bsn_lua_upload_OF_VERSION_1_3_def covered_min_id fits_def of_object_fixed_len_def)

lemma covers_bsn_pdu_rx_reply_1_3 [c_proved]: "covered 4 loci_validate_of_bsn_pdu_rx_reply_OF_VERSION_1_3 (d_id 74)"
  by (simp add: loci_validate_of_bsn_pdu_rx_reply_OF_VERSION_1_3_def covered_min_id fits_def of_object_fixed_len_def)

lemma covers_bsn_pdu_rx_request_1_3 [c_proved]: "covered 4 loci_validate_of_bsn_pdu_rx_request_OF_VERSION_1_3 (d_id 75)"
  by (simp add: loci_validate_of_bsn_pdu_rx_request_OF_VERSION_1_3_def covered_min_id fits_def of_object_fixed_len_def)

lemma covers_bsn_pdu_rx_timeout_1_3 [c_proved]: "covered 4 loci_validate_of_bsn_pdu_rx_timeout_OF_VERSION_1_3 (d_id 76)"
  by (simp add: loci_validate_of_bsn_pdu_rx_timeout_OF_VERSION_1_3_def covered_min_id fits_def of_object_fixed_len_def)

lemma covers_bsn_pdu_tx_reply_1_3 [c_proved]: "covered 4 loci_validate_of_bsn_pdu_tx_reply_OF_VERSION_1_3 (d_id 77)"
  by (simp add: loci_validate_of_bsn_pdu_tx_reply_OF_VERSION_1_3_def covered_min_id fits_def of_object_fixed_len_def)

lemma covers_bsn_pdu_tx_request_1_3 [c_proved]: "covered 4 loci_validate_of_bsn_pdu_tx_request_OF_VERSION_1_3 (d_id 78)"
  by (simp add: loci_validate_of_bsn_pdu_tx_request_OF_VERSION_1_3_def covered_min_id fits_def of_object_fixed_len_def)

lemma covers_bsn_port_counter_stats_reply_1_3 [c_proved]: "covered 4 loci_validate_of_bsn_port_counter_stats_reply_OF_VERSION_1_3 (d_id 79)"
  by (simp add: loci_validate_of_bsn_port_counter_stats_reply_OF_VERSION_1_3_def covered_min_id fits_def of_object_fixed_len_def)

lemma covers_bsn_port_counter_stats_request_1_3 [c_proved]: "covered 4 loci_validate_of_bsn_port_counter_stats_request_OF_VERSION_1_3 (d_id 80)"
  by (simp add: loci_validate_of_bsn_port_counter_stats_request_OF_VERSION_1_3_def covered_min_id fits_def of_object_fixed_len_def)

lemma covers_bsn_role_status_1_3 [c_proved]: "covered 4 loci_validate_of_bsn_role_status_OF_VERSION_1_3 (d_id 81)"
  by (simp add: loci_validate_of_bsn_role_status_OF_VERSION_1_3_def covered_min_id fits_def of_object_fixed_len_def)

lemma covers_bsn_set_aux_cxns_reply_1_3 [c_proved]: "covered 4 loci_validate_of_bsn_set_aux_cxns_reply_OF_VERSION_1_3 (d_id 82)"
  by (simp add: loci_validate_of_bsn_set_aux_cxns_reply_OF_VERSION_1_3_def covered_min_id fits_def of_object_fixed_len_def)

lemma covers_bsn_set_aux_cxns_request_1_3 [c_proved]: "covered 4 loci_validate_of_bsn_set_aux_cxns_request_OF_VERSION_1_3 (d_id 83)"
  by (simp add: loci_validate_of_bsn_set_aux_cxns_request_OF_VERSION_1_3_def covered_min_id fits_def of_object_fixed_len_def)

lemma covers_bsn_set_lacp_reply_1_3 [c_proved]: "covered 4 loci_validate_of_bsn_set_lacp_reply_OF_VERSION_1_3 (d_id 87)"
  by (simp add: loci_validate_of_bsn_set_lacp_reply_OF_VERSION_1_3_def covered_min_id fits_def of_object_fixed_len_def)

lemma covers_bsn_set_lacp_request_1_3 [c_proved]: "covered 4 loci_validate_of_bsn_set_lacp_request_OF_VERSION_1_3 (d_id 88)"
  by (simp add: loci_validate_of_bsn_set_lacp_request_OF_VERSION_1_3_def covered_min_id fits_def of_object_fixed_len_def)

lemma covers_bsn_set_mirroring_1_3 [c_proved]: "covered 4 loci_validate_of_bsn_set_mirroring_OF_VERSION_1_3 (d_id 89)"
  by (simp add: loci_validate_of_bsn_set_mirroring_OF_VERSION_1_3_def covered_min_id fits_def of_object_fixed_len_def)

lemma covers_bsn_set_pktin_suppression_reply_1_3 [c_proved]: "covered 4 loci_validate_of_bsn_set_pktin_suppression_reply_OF_VERSION_1_3 (d_id 90)"
  by (simp add: loci_validate_of_bsn_set_pktin_suppression_reply_OF_VERSION_1_3_def covered_min_id fits_def of_object_fixed_len_def)

lemma covers_bsn_set_pktin_suppression_request_1_3 [c_proved]: "covered 4 loci_validate_of_bsn_set_pktin_suppression_request_OF_VERSION_1_3 (d_id 91)"
  by (simp add: loci_validate_of_bsn_set_pktin_suppression_request_OF_VERSION_1_3_def covered_min_id fits_def of_object_fixed_len_def)

lemma covers_bsn_set_switch_pipeline_reply_1_3 [c_proved]: "covered 4 loci_validate_of_bsn_set_switch_pipeline_reply_OF_VERSION_1_3 (d_id 92)"
  by (simp add: loci_validate_of_bsn_set_switch_pipeline_reply_OF_VERSION_1_3_def covered_min_id fits_def of_object_fixed_len_def)

lemma covers_bsn_set_switch_pipeline_request_1_3 [c_proved]: "covered 4 loci_validate_of_bsn_set_switch_pipeline_request_OF_VERSION_1_3 (d_id 93)"
  by (simp add: loci_validate_of_bsn_set_switch_pipeline_request_OF_VERSION_1_3_def covered_min_id fits_def of_object_fixed_len_def)

lemma covers_bsn_switch_pipeline_stats_reply_1_3 [c_proved]: "covered 4 loci_validate_of_bsn_switch_pipeline_stats_reply_OF_VERSION_1_3 (d_id 99)"
  by (simp add: loci_validate_of_bsn_switch_pipeline_stats_reply_OF_VERSION_1_3_def covered_min_id fits_def of_object_fixed_len_def)

lemma covers_bsn_switch_pipeline_stats_request_1_3 [c_proved]: "covered 4 loci_validate_of_bsn_switch_pipeline_stats_request_OF_VERSION_1_3 (d_id 100)"
  by (simp add: loci_validate_of_bsn_switch_pipeline_stats_request_OF_VERSION_1_3_def covered_min_id fits_def of_object_fixed_len_def)

lemma covers_bsn_table_checksum_stats_reply_1_3 [c_proved]: "covered 4 loci_validate_of_bsn_table_checksum_stats_reply_OF_VERSION_1_3 (d_id 101)"
  by (simp add: loci_validate_of_bsn_table_checksum_stats_reply_OF_VERSION_1_3_def covered_min_id fits_def of_object_fixed_len_def)

lemma covers_bsn_table_checksum_stats_request_1_3 [c_proved]: "covered 4 loci_validate_of_bsn_table_checksum_stats_request_OF_VERSION_1_3 (d_id 102)"
  by (simp add: loci_validate_of_bsn_table_checksum_stats_request_OF_VERSION_1_3_def covered_min_id fits_def of_object_fixed_len_def)

lemma covers_bsn_table_set_buckets_size_1_3 [c_proved]: "covered 4 loci_validate_of_bsn_table_set_buckets_size_OF_VERSION_1_3 (d_id 103)"
  by (simp add: loci_validate_of_bsn_table_set_buckets_size_OF_VERSION_1_3_def covered_min_id fits_def of_object_fixed_len_def)

lemma covers_bsn_time_reply_1_3 [c_proved]: "covered 4 loci_validate_of_bsn_time_reply_OF_VERSION_1_3 (d_id 104)"
  by (simp add: loci_validate_of_bsn_time_reply_OF_VERSION_1_3_def covered_min_id fits_def of_object_fixed_len_def)

lemma covers_bsn_time_request_1_3 [c_proved]: "covered 4 loci_validate_of_bsn_time_request_OF_VERSION_1_3 (d_id 105)"
  by (simp add: loci_validate_of_bsn_time_request_OF_VERSION_1_3_def covered_min_id fits_def of_object_fixed_len_def)

lemma covers_bsn_virtual_port_create_reply_1_3 [c_proved]: "covered 4 loci_validate_of_bsn_virtual_port_create_reply_OF_VERSION_1_3 (d_id 106)"
  by (simp add: loci_validate_of_bsn_virtual_port_create_reply_OF_VERSION_1_3_def covered_min_id fits_def of_object_fixed_len_def)

lemma covers_bsn_virtual_port_create_request_1_3 [c_proved]: "covered 4 loci_validate_of_bsn_virtual_port_create_request_OF_VERSION_1_3 (d_id 107)"
  by (simp add: loci_validate_of_bsn_virtual_port_create_request_OF_VERSION_1_3_def covered_min_id fits_def of_object_fixed_len_def)

lemma covers_bsn_virtual_port_remove_reply_1_3 [c_proved]: "covered 4 loci_validate_of_bsn_virtual_port_remove_reply_OF_VERSION_1_3 (d_id 108)"
  by (simp add: loci_validate_of_bsn_virtual_port_remove_reply_OF_VERSION_1_3_def covered_min_id fits_def of_object_fixed_len_def)

lemma covers_bsn_virtual_port_remove_request_1_3 [c_proved]: "covered 4 loci_validate_of_bsn_virtual_port_remove_request_OF_VERSION_1_3 (d_id 109)"
  by (simp add: loci_validate_of_bsn_virtual_port_remove_request_OF_VERSION_1_3_def covered_min_id fits_def of_object_fixed_len_def)

lemma covers_bsn_vlan_counter_stats_reply_1_3 [c_proved]: "covered 4 loci_validate_of_bsn_vlan_counter_stats_reply_OF_VERSION_1_3 (d_id 110)"
  by (simp add: loci_validate_of_bsn_vlan_counter_stats_reply_OF_VERSION_1_3_def covered_min_id fits_def of_object_fixed_len_def)

lemma covers_bsn_vlan_counter_stats_request_1_3 [c_proved]: "covered 4 loci_validate_of_bsn_vlan_counter_stats_request_OF_VERSION_1_3 (d_id 111)"
  by (simp add: loci_validate_of_bsn_vlan_counter_stats_request_OF_VERSION_1_3_def covered_min_id fits_def of_object_fixed_len_def)

lemma covers_bsn_vrf_counter_stats_reply_1_3 [c_proved]: "covered 4 loci_validate_of_bsn_vrf_counter_stats_reply_OF_VERSION_1_3 (d_id 112)"
  by (simp add: loci_validate_of_bsn_vrf_counter_stats_reply_OF_VERSION_1_3_def covered_min_id fits_def of_object_fixed_len_def)

lemma covers_bsn_vrf_counter_stats_request_1_3 [c_proved]: "covered 4 loci_validate_of_bsn_vrf_counter_stats_request_OF_VERSION_1_3 (d_id 113)"
  by (simp add: loci_validate_of_bsn_vrf_counter_stats_request_OF_VERSION_1_3_def covered_min_id fits_def of_object_fixed_len_def)

lemma covers_desc_stats_reply_1_3 [c_proved]: "covered 4 loci_validate_of_desc_stats_reply_OF_VERSION_1_3 (d_id 117)"
  by (simp add: loci_validate_of_desc_stats_reply_OF_VERSION_1_3_def covered_min_id fits_def of_object_fixed_len_def)

lemma covers_desc_stats_request_1_3 [c_proved]: "covered 4 loci_validate_of_desc_stats_request_OF_VERSION_1_3 (d_id 118)"
  by (simp add: loci_validate_of_desc_stats_request_OF_VERSION_1_3_def covered_min_id fits_def of_object_fixed_len_def)

lemma covers_echo_reply_1_3 [c_proved]: "covered 4 loci_validate_of_echo_reply_OF_VERSION_1_3 (d_id 119)"
  by (simp add: loci_validate_of_echo_reply_OF_VERSION_1_3_def covered_min_id fits_def of_object_fixed_len_def)

lemma covers_echo_request_1_3 [c_proved]: "covered 4 loci_validate_of_echo_request_OF_VERSION_1_3 (d_id 120)"
  by (simp add: loci_validate_of_echo_request_OF_VERSION_1_3_def covered_min_id fits_def of_object_fixed_len_def)

lemma covers_experimenter_error_msg_1_3 [c_proved]: "covered 4 loci_validate_of_experimenter_error_msg_OF_VERSION_1_3 (d_id 123)"
  by (simp add: loci_validate_of_experimenter_error_msg_OF_VERSION_1_3_def covered_min_id fits_def of_object_fixed_len_def)

lemma covers_features_reply_1_3 [c_proved]: "covered 4 loci_validate_of_features_reply_OF_VERSION_1_3 (d_id 126)"
  by (simp add: loci_validate_of_features_reply_OF_VERSION_1_3_def covered_min_id fits_def of_object_fixed_len_def)

lemma covers_features_request_1_3 [c_proved]: "covered 4 loci_validate_of_features_request_OF_VERSION_1_3 (d_id 127)"
  by (simp add: loci_validate_of_features_request_OF_VERSION_1_3_def covered_min_id fits_def of_object_fixed_len_def)

lemma covers_flow_add_1_3 [c_proved]: "covered 4 loci_validate_of_flow_add_OF_VERSION_1_3 (d_id 128)"
  by (simp add: loci_validate_of_flow_add_OF_VERSION_1_3_def covered_min_id fits_def of_object_fixed_len_def)

lemma covers_flow_delete_1_3 [c_proved]: "covered 4 loci_validate_of_flow_delete_OF_VERSION_1_3 (d_id 129)"
  by (simp add: loci_validate_of_flow_delete_OF_VERSION_1_3_def covered_min_id fits_def of_object_fixed_len_def)

lemma covers_flow_delete_strict_1_3 [c_proved]: "covered 4 loci_validate_of_flow_delete_strict_OF_VERSION_1_3 (d_id 130)"
  by (simp add: loci_validate_of_flow_delete_strict_OF_VERSION_1_3_def covered_min_id fits_def of_object_fixed_len_def)

lemma covers_flow_mod_failed_error_msg_1_3 [c_proved]: "covered 4 loci_validate_of_flow_mod_failed_error_msg_OF_VERSION_1_3 (d_id 132)"
  by (simp add: loci_validate_of_flow_mod_failed_error_msg_OF_VERSION_1_3_def covered_min_id fits_def of_object_fixed_len_def)

lemma covers_flow_modify_1_3 [c_proved]: "covered 4 loci_validate_of_flow_modify_OF_VERSION_1_3 (d_id 133)"
  by (simp add: loci_validate_of_flow_modify_OF_VERSION_1_3_def covered_min_id fits_def of_object_fixed_len_def)

lemma covers_flow_modify_strict_1_3 [c_proved]: "covered 4 loci_validate_of_flow_modify_strict_OF_VERSION_1_3 (d_id 134)"
  by (simp add: loci_validate_of_flow_modify_strict_OF_VERSION_1_3_def covered_min_id fits_def of_object_fixed_len_def)

lemma covers_flow_removed_1_3 [c_proved]: "covered 4 loci_validate_of_flow_removed_OF_VERSION_1_3 (d_id 136)"
  by (simp add: loci_validate_of_flow_removed_OF_VERSION_1_3_def covered_min_id fits_def of_object_fixed_len_def)

lemma covers_flow_stats_reply_1_3 [c_proved]: "covered 4 loci_validate_of_flow_stats_reply_OF_VERSION_1_3 (d_id 137)"
  by (simp add: loci_validate_of_flow_stats_reply_OF_VERSION_1_3_def covered_min_id fits_def of_object_fixed_len_def)

lemma covers_flow_stats_request_1_3 [c_proved]: "covered 4 loci_validate_of_flow_stats_request_OF_VERSION_1_3 (d_id 138)"
  by (simp add: loci_validate_of_flow_stats_request_OF_VERSION_1_3_def covered_min_id fits_def of_object_fixed_len_def)

lemma covers_get_config_reply_1_3 [c_proved]: "covered 4 loci_validate_of_get_config_reply_OF_VERSION_1_3 (d_id 139)"
  by (simp add: loci_validate_of_get_config_reply_OF_VERSION_1_3_def covered_min_id fits_def of_object_fixed_len_def)

lemma covers_get_config_request_1_3 [c_proved]: "covered 4 loci_validate_of_get_config_request_OF_VERSION_1_3 (d_id 140)"
  by (simp add: loci_validate_of_get_config_request_OF_VERSION_1_3_def covered_min_id fits_def of_object_fixed_len_def)

lemma covers_group_add_1_3 [c_proved]: "covered 4 loci_validate_of_group_add_OF_VERSION_1_3 (d_id 141)"
  by (simp add: loci_validate_of_group_add_OF_VERSION_1_3_def covered_min_id fits_def of_object_fixed_len_def)

lemma covers_group_delete_1_3 [c_proved]: "covered 4 loci_validate_of_group_delete_OF_VERSION_1_3 (d_id 142)"
  by (simp add: loci_validate_of_group_delete_OF_VERSION_1_3_def covered_min_id fits_def of_object_fixed_len_def)

lemma covers_group_desc_stats_reply_1_3 [c_proved]: "covered 4 loci_validate_of_group_desc_stats_reply_OF_VERSION_1_3 (d_id 143)"
  by (simp add: loci_validate_of_group_desc_stats_reply_OF_VERSION_1_3_def covered_min_id fits_def of_object_fixed_len_def)

lemma covers_group_desc_stats_request_1_3 [c_proved]: "covered 4 loci_validate_of_group_desc_stats_request_OF_VERSION_1_3 (d_id 144)"
  by (simp add: loci_validate_of_group_desc_stats_request_OF_VERSION_1_3_def covered_min_id fits_def of_object_fixed_len_def)

lemma covers_group_features_stats_reply_1_3 [c_proved]: "covered 4 loci_validate_of_group_features_stats_reply_OF_VERSION_1_3 (d_id 145)"
  by (simp add: loci_validate_of_group_features_stats_reply_OF_VERSION_1_3_def covered_min_id fits_def of_object_fixed_len_def)

lemma covers_group_features_stats_request_1_3 [c_proved]: "covered 4 loci_validate_of_group_features_stats_request_OF_VERSION_1_3 (d_id 146)"
  by (simp add: loci_validate_of_group_features_stats_request_OF_VERSION_1_3_def covered_min_id fits_def of_object_fixed_len_def)

lemma covers_group_mod_failed_error_msg_1_3 [c_proved]: "covered 4 loci_validate_of_group_mod_failed_error_msg_OF_VERSION_1_3 (d_id 148)"
  by (simp add: loci_validate_of_group_mod_failed_error_msg_OF_VERSION_1_3_def covered_min_id fits_def of_object_fixed_len_def)

lemma covers_group_modify_1_3 [c_proved]: "covered 4 loci_validate_of_group_modify_OF_VERSION_1_3 (d_id 149)"
  by (simp add: loci_validate_of_group_modify_OF_VERSION_1_3_def covered_min_id fits_def of_object_fixed_len_def)

lemma covers_group_stats_reply_1_3 [c_proved]: "covered 4 loci_validate_of_group_stats_reply_OF_VERSION_1_3 (d_id 150)"
  by (simp add: loci_validate_of_group_stats_reply_OF_VERSION_1_3_def covered_min_id fits_def of_object_fixed_len_def)

lemma covers_group_stats_request_1_3 [c_proved]: "covered 4 loci_validate_of_group_stats_request_OF_VERSION_1_3 (d_id 151)"
  by (simp add: loci_validate_of_group_stats_request_OF_VERSION_1_3_def covered_min_id fits_def of_object_fixed_len_def)

lemma covers_hello_1_3 [c_proved]: "covered 4 loci_validate_of_hello_OF_VERSION_1_3 (d_id 153)"
  by (simp add: loci_validate_of_hello_OF_VERSION_1_3_def covered_min_id fits_def of_object_fixed_len_def)

lemma covers_hello_failed_error_msg_1_3 [c_proved]: "covered 4 loci_validate_of_hello_failed_error_msg_OF_VERSION_1_3 (d_id 154)"
  by (simp add: loci_validate_of_hello_failed_error_msg_OF_VERSION_1_3_def covered_min_id fits_def of_object_fixed_len_def)

lemma covers_meter_config_stats_reply_1_3 [c_proved]: "covered 4 loci_validate_of_meter_config_stats_reply_OF_VERSION_1_3 (d_id 155)"
  by (simp add: loci_validate_of_meter_config_stats_reply_OF_VERSION_1_3_def covered_min_id fits_def of_object_fixed_len_def)

lemma covers_meter_config_stats_request_1_3 [c_proved]: "covered 4 loci_validate_of_meter_config_stats_request_OF_VERSION_1_3 (d_id 156)"
  by (simp add: loci_validate_of_meter_config_stats_request_OF_VERSION_1_3_def covered_min_id fits_def of_object_fixed_len_def)

lemma covers_meter_features_stats_reply_1_3 [c_proved]: "covered 4 loci_validate_of_meter_features_stats_reply_OF_VERSION_1_3 (d_id 157)"
  by (simp add: loci_validate_of_meter_features_stats_reply_OF_VERSION_1_3_def covered_min_id fits_def of_object_fixed_len_def)

lemma covers_meter_features_stats_request_1_3 [c_proved]: "covered 4 loci_validate_of_meter_features_stats_request_OF_VERSION_1_3 (d_id 158)"
  by (simp add: loci_validate_of_meter_features_stats_request_OF_VERSION_1_3_def covered_min_id fits_def of_object_fixed_len_def)

lemma covers_meter_mod_1_3 [c_proved]: "covered 4 loci_validate_of_meter_mod_OF_VERSION_1_3 (d_id 159)"
  by (simp add: loci_validate_of_meter_mod_OF_VERSION_1_3_def covered_min_id fits_def of_object_fixed_len_def)

lemma covers_meter_mod_failed_error_msg_1_3 [c_proved]: "covered 4 loci_validate_of_meter_mod_failed_error_msg_OF_VERSION_1_3 (d_id 160)"
  by (simp add: loci_validate_of_meter_mod_failed_error_msg_OF_VERSION_1_3_def covered_min_id fits_def of_object_fixed_len_def)

lemma covers_meter_stats_reply_1_3 [c_proved]: "covered 4 loci_validate_of_meter_stats_reply_OF_VERSION_1_3 (d_id 161)"
  by (simp add: loci_validate_of_meter_stats_reply_OF_VERSION_1_3_def covered_min_id fits_def of_object_fixed_len_def)

lemma covers_meter_stats_request_1_3 [c_proved]: "covered 4 loci_validate_of_meter_stats_request_OF_VERSION_1_3 (d_id 162)"
  by (simp add: loci_validate_of_meter_stats_request_OF_VERSION_1_3_def covered_min_id fits_def of_object_fixed_len_def)

lemma covers_packet_in_1_3 [c_proved]: "covered 4 loci_validate_of_packet_in_OF_VERSION_1_3 (d_id 166)"
  by (simp add: loci_validate_of_packet_in_OF_VERSION_1_3_def covered_min_id fits_def of_object_fixed_len_def)

lemma covers_packet_out_1_3 [c_proved]: "covered 4 loci_validate_of_packet_out_OF_VERSION_1_3 (d_id 167)"
  by (simp add: loci_validate_of_packet_out_OF_VERSION_1_3_def covered_min_id fits_def of_object_fixed_len_def)

lemma covers_port_desc_stats_reply_1_3 [c_proved]: "covered 4 loci_validate_of_port_desc_stats_reply_OF_VERSION_1_3 (d_id 168)"
  by (simp add: loci_validate_of_port_desc_stats_reply_OF_VERSION_1_3_def covered_min_id fits_def of_object_fixed_len_def)

lemma covers_port_desc_stats_request_1_3 [c_proved]: "covered 4 loci_validate_of_port_desc_stats_request_OF_VERSION_1_3 (d_id 169)"
  by (simp add: loci_validate_of_port_desc_stats_request_OF_VERSION_1_3_def covered_min_id fits_def of_object_fixed_len_def)

lemma covers_port_mod_1_3 [c_proved]: "covered 4 loci_validate_of_port_mod_OF_VERSION_1_3 (d_id 170)"
  by (simp add: loci_validate_of_port_mod_OF_VERSION_1_3_def covered_min_id fits_def of_object_fixed_len_def)

lemma covers_port_mod_failed_error_msg_1_3 [c_proved]: "covered 4 loci_validate_of_port_mod_failed_error_msg_OF_VERSION_1_3 (d_id 171)"
  by (simp add: loci_validate_of_port_mod_failed_error_msg_OF_VERSION_1_3_def covered_min_id fits_def of_object_fixed_len_def)

lemma covers_port_stats_reply_1_3 [c_proved]: "covered 4 loci_validate_of_port_stats_reply_OF_VERSION_1_3 (d_id 172)"
  by (simp add: loci_validate_of_port_stats_reply_OF_VERSION_1_3_def covered_min_id fits_def of_object_fixed_len_def)

lemma covers_port_stats_request_1_3 [c_proved]: "covered 4 loci_validate_of_port_stats_request_OF_VERSION_1_3 (d_id 173)"
  by (simp add: loci_validate_of_port_stats_request_OF_VERSION_1_3_def covered_min_id fits_def of_object_fixed_len_def)

lemma covers_port_status_1_3 [c_proved]: "covered 4 loci_validate_of_port_status_OF_VERSION_1_3 (d_id 174)"
  by (simp add: loci_validate_of_port_status_OF_VERSION_1_3_def covered_min_id fits_def of_object_fixed_len_def)

lemma covers_queue_get_config_reply_1_3 [c_proved]: "covered 4 loci_validate_of_queue_get_config_reply_OF_VERSION_1_3 (d_id 177)"
  by (simp add: loci_validate_of_queue_get_config_reply_OF_VERSION_1_3_def covered_min_id fits_def of_object_fixed_len_def)

lemma covers_queue_get_config_request_1_3 [c_proved]: "covered 4 loci_validate_of_queue_get_config_request_OF_VERSION_1_3 (d_id 178)"
  by (simp add: loci_validate_of_queue_get_config_request_OF_VERSION_1_3_def covered_min_id fits_def of_object_fixed_len_def)

lemma covers_queue_op_failed_error_msg_1_3 [c_proved]: "covered 4 loci_validate_of_queue_op_failed_error_msg_OF_VERSION_1_3 (d_id 179)"
  by (simp add: loci_validate_of_queue_op_failed_error_msg_OF_VERSION_1_3_def covered_min_id fits_def of_object_fixed_len_def)

lemma covers_queue_stats_reply_1_3 [c_proved]: "covered 4 loci_validate_of_queue_stats_reply_OF_VERSION_1_3 (d_id 180)"
  by (simp add: loci_validate_of_queue_stats_reply_OF_VERSION_1_3_def covered_min_id fits_def of_object_fixed_len_def)

lemma covers_queue_stats_request_1_3 [c_proved]: "covered 4 loci_validate_of_queue_stats_request_OF_VERSION_1_3 (d_id 181)"
  by (simp add: loci_validate_of_queue_stats_request_OF_VERSION_1_3_def covered_min_id fits_def of_object_fixed_len_def)

lemma covers_role_reply_1_3 [c_proved]: "covered 4 loci_validate_of_role_reply_OF_VERSION_1_3 (d_id 183)"
  by (simp add: loci_validate_of_role_reply_OF_VERSION_1_3_def covered_min_id fits_def of_object_fixed_len_def)

lemma covers_role_request_1_3 [c_proved]: "covered 4 loci_validate_of_role_request_OF_VERSION_1_3 (d_id 184)"
  by (simp add: loci_validate_of_role_request_OF_VERSION_1_3_def covered_min_id fits_def of_object_fixed_len_def)

lemma covers_role_request_failed_error_msg_1_3 [c_proved]: "covered 4 loci_validate_of_role_request_failed_error_msg_OF_VERSION_1_3 (d_id 185)"
  by (simp add: loci_validate_of_role_request_failed_error_msg_OF_VERSION_1_3_def covered_min_id fits_def of_object_fixed_len_def)

lemma covers_set_config_1_3 [c_proved]: "covered 4 loci_validate_of_set_config_OF_VERSION_1_3 (d_id 187)"
  by (simp add: loci_validate_of_set_config_OF_VERSION_1_3_def covered_min_id fits_def of_object_fixed_len_def)

lemma covers_switch_config_failed_error_msg_1_3 [c_proved]: "covered 4 loci_validate_of_switch_config_failed_error_msg_OF_VERSION_1_3 (d_id 190)"
  by (simp add: loci_validate_of_switch_config_failed_error_msg_OF_VERSION_1_3_def covered_min_id fits_def of_object_fixed_len_def)

lemma covers_table_features_failed_error_msg_1_3 [c_proved]: "covered 4 loci_validate_of_table_features_failed_error_msg_OF_VERSION_1_3 (d_id 193)"
  by (simp add: loci_validate_of_table_features_failed_error_msg_OF_VERSION_1_3_def covered_min_id fits_def of_object_fixed_len_def)

lemma covers_table_features_stats_reply_1_3 [c_proved]: "covered 4 loci_validate_of_table_features_stats_reply_OF_VERSION_1_3 (d_id 194)"
  by (simp add: loci_validate_of_table_features_stats_reply_OF_VERSION_1_3_def covered_min_id fits_def of_object_fixed_len_def)

lemma covers_table_features_stats_request_1_3 [c_proved]: "covered 4 loci_validate_of_table_features_stats_request_OF_VERSION_1_3 (d_id 195)"
  by (simp add: loci_validate_of_table_features_stats_request_OF_VERSION_1_3_def covered_min_id fits_def of_object_fixed_len_def)

lemma covers_table_mod_1_3 [c_proved]: "covered 4 loci_validate_of_table_mod_OF_VERSION_1_3 (d_id 196)"
  by (simp add: loci_validate_of_table_mod_OF_VERSION_1_3_def covered_min_id fits_def of_object_fixed_len_def)

lemma covers_table_mod_failed_error_msg_1_3 [c_proved]: "covered 4 loci_validate_of_table_mod_failed_error_msg_OF_VERSION_1_3 (d_id 197)"
  by (simp add: loci_validate_of_table_mod_failed_error_msg_OF_VERSION_1_3_def covered_min_id fits_def of_object_fixed_len_def)

lemma covers_table_stats_reply_1_3 [c_proved]: "covered 4 loci_validate_of_table_stats_reply_OF_VERSION_1_3 (d_id 198)"
  by (simp add: loci_validate_of_table_stats_reply_OF_VERSION_1_3_def covered_min_id fits_def of_object_fixed_len_def)

lemma covers_table_stats_request_1_3 [c_proved]: "covered 4 loci_validate_of_table_stats_request_OF_VERSION_1_3 (d_id 199)"
  by (simp add: loci_validate_of_table_stats_request_OF_VERSION_1_3_def covered_min_id fits_def of_object_fixed_len_def)

lemma of_error_msg_covered_1_3 [c_proved]: "covered 4 loci_validate_of_error_msg_OF_VERSION_1_3 (of_error_msg_wire_object_id_get 4)"
  unfolding loci_validate_of_error_msg_OF_VERSION_1_3_def of_error_msg_wire_object_id_get_def
  by (simp, intro c_intro; simp add: case_covered_def c_proved fits_def of_object_fixed_len_def)

lemma of_nicira_header_covered_1_3 [c_proved]: "covered 4 loci_validate_of_nicira_header_OF_VERSION_1_3 (of_nicira_header_wire_object_id_get 4)"
  unfolding loci_validate_of_nicira_header_OF_VERSION_1_3_def of_nicira_header_wire_object_id_get_def
  by (simp, intro c_intro; simp add: case_covered_def c_proved fits_def of_object_fixed_len_def)

lemma of_bsn_header_covered_1_3 [c_proved]: "covered 4 loci_validate_of_bsn_header_OF_VERSION_1_3 (of_bsn_header_wire_object_id_get 4)"
  unfolding loci_validate_of_bsn_header_OF_VERSION_1_3_def of_bsn_header_wire_object_id_get_def
  by (simp, intro c_intro; simp add: case_covered_def c_proved fits_def of_object_fixed_len_def)

lemma of_experimenter_covered_1_3 [c_proved]: "covered 4 loci_validate_of_experimenter_OF_VERSION_1_3 (of_experimenter_wire_object_id_get 4)"
  unfolding loci_validate_of_experimenter_OF_VERSION_1_3_def of_experimenter_wire_object_id_get_def
  by (simp, intro c_intro; simp add: case_covered_def c_proved fits_def of_object_fixed_len_def)

lemma of_flow_mod_covered_1_3 [c_proved]: "covered 4 loci_validate_of_flow_mod_OF_VERSION_1_3 (of_flow_mod_wire_object_id_get 4)"
  unfolding loci_validate_of_flow_mod_OF_VERSION_1_3_def of_flow_mod_wire_object_id_get_def
  by (simp, intro c_intro; simp add: case_covered_def c_proved fits_def of_object_fixed_len_def)

lemma of_group_mod_covered_1_3 [c_proved]: "covered 4 loci_validate_of_group_mod_OF_VERSION_1_3 (of_group_mod_wire_object_id_get 4)"
  unfolding loci_validate_of_group_mod_OF_VERSION_1_3_def of_group_mod_wire_object_id_get_def
  by (simp, intro c_intro; simp add: case_covered_def c_proved fits_def of_object_fixed_len_def)

lemma of_bsn_stats_request_covered_1_3 [c_proved]: "covered 4 loci_validate_of_bsn_stats_request_OF_VERSION_1_3 (of_bsn_stats_request_wire_object_id_get 4)"
  unfolding loci_validate_of_bsn_stats_request_OF_VERSION_1_3_def of_bsn_stats_request_wire_object_id_get_def
  by (simp, intro c_intro; simp add: case_covered_def c_proved fits_def of_object_fixed_len_def)

lemma of_experimenter_stats_request_covered_1_3 [c_proved]: "covered 4 loci_validate_of_experimenter_stats_request_OF_VERSION_1_3 (of_experimenter_stats_request_wire_object_id_get 4)"
  unfolding loci_validate_of_experimenter_stats_request_OF_VERSION_1_3_def of_experimenter_stats_request_wire_object_id_get_def
  by (simp, intro c_intro; simp add: case_covered_def c_proved fits_def of_object_fixed_len_def)

lemma of_stats_request_covered_1_3 [c_proved]: "covered 4 loci_validate_of_stats_request_OF_VERSION_1_3 (of_stats_request_wire_object_id_get 4)"
  unfolding loci_validate_of_stats_request_OF_VERSION_1_3_def of_stats_request_wire_object_id_get_def
  by (simp, intro c_intro; simp add: case_covered_def c_proved fits_def of_object_fixed_len_def)

lemma of_bsn_stats_reply_covered_1_3 [c_proved]: "covered 4 loci_validate_of_bsn_stats_reply_OF_VERSION_1_3 (of_bsn_stats_reply_wire_object_id_get 4)"
  unfolding loci_validate_of_bsn_stats_reply_OF_VERSION_1_3_def of_bsn_stats_reply_wire_object_id_get_def
  by (simp, intro c_intro; simp add: case_covered_def c_proved fits_def of_object_fixed_len_def)

lemma of_experimenter_stats_reply_covered_1_3 [c_proved]: "covered 4 loci_validate_of_experimenter_stats_reply_OF_VERSION_1_3 (of_experimenter_stats_reply_wire_object_id_get 4)"
  unfolding loci_validate_of_experimenter_stats_reply_OF_VERSION_1_3_def of_experimenter_stats_reply_wire_object_id_get_def
  by (simp, intro c_intro; simp add: case_covered_def c_proved fits_def of_object_fixed_len_def)

lemma of_stats_reply_covered_1_3 [c_proved]: "covered 4 loci_validate_of_stats_reply_OF_VERSION_1_3 (of_stats_reply_wire_object_id_get 4)"
  unfolding loci_validate_of_stats_reply_OF_VERSION_1_3_def of_stats_reply_wire_object_id_get_def
  by (simp, intro c_intro; simp add: case_covered_def c_proved fits_def of_object_fixed_len_def)

lemma of_header_covered_1_3 [c_proved]: "covered 4 loci_validate_of_header_OF_VERSION_1_3 (of_header_wire_object_id_get 4)"
  unfolding loci_validate_of_header_OF_VERSION_1_3_def of_header_wire_object_id_get_def
  by (simp, intro c_intro; simp add: case_covered_def c_proved fits_def of_object_fixed_len_def)

subsection \<open>OpenFlow 1.4\<close>

lemma covers_aggregate_stats_reply_1_4 [c_proved]: "covered 5 loci_validate_of_aggregate_stats_reply_OF_VERSION_1_4 (d_id 1)"
  by (simp add: loci_validate_of_aggregate_stats_reply_OF_VERSION_1_4_def covered_min_id fits_def of_object_fixed_len_def)

lemma covers_aggregate_stats_request_1_4 [c_proved]: "covered 5 loci_validate_of_aggregate_stats_request_OF_VERSION_1_4 (d_id 2)"
  by (simp add: loci_validate_of_aggregate_stats_request_OF_VERSION_1_4_def covered_min_id fits_def of_object_fixed_len_def)

lemma covers_async_config_failed_error_msg_1_4 [c_proved]: "covered 5 loci_validate_of_async_config_failed_error_msg_OF_VERSION_1_4 (d_id 3)"
  by (simp add: loci_validate_of_async_config_failed_error_msg_OF_VERSION_1_4_def covered_min_id fits_def of_object_fixed_len_def)

lemma covers_async_get_reply_1_4 [c_proved]: "covered 5 loci_validate_of_async_get_reply_OF_VERSION_1_4 (d_id 4)"
  by (simp add: loci_validate_of_async_get_reply_OF_VERSION_1_4_def covered_min_id fits_def of_object_fixed_len_def)

lemma covers_async_get_request_1_4 [c_proved]: "covered 5 loci_validate_of_async_get_request_OF_VERSION_1_4 (d_id 5)"
  by (simp add: loci_validate_of_async_get_request_OF_VERSION_1_4_def covered_min_id fits_def of_object_fixed_len_def)

lemma covers_async_set_1_4 [c_proved]: "covered 5 loci_validate_of_async_set_OF_VERSION_1_4 (d_id 6)"
  by (simp add: loci_validate_of_async_set_OF_VERSION_1_4_def covered_min_id fits_def of_object_fixed_len_def)

lemma covers_bad_action_error_msg_1_4 [c_proved]: "covered 5 loci_validate_of_bad_action_error_msg_OF_VERSION_1_4 (d_id 7)"
  by (simp add: loci_validate_of_bad_action_error_msg_OF_VERSION_1_4_def covered_min_id fits_def of_object_fixed_len_def)

lemma covers_bad_instruction_error_msg_1_4 [c_proved]: "covered 5 loci_validate_of_bad_instruction_error_msg_OF_VERSION_1_4 (d_id 8)"
  by (simp add: loci_validate_of_bad_instruction_error_msg_OF_VERSION_1_4_def covered_min_id fits_def of_object_fixed_len_def)

lemma covers_bad_match_error_msg_1_4 [c_proved]: "covered 5 loci_validate_of_bad_match_error_msg_OF_VERSION_1_4 (d_id 9)"
  by (simp add: loci_validate_of_bad_match_error_msg_OF_VERSION_1_4_def covered_min_id fits_def of_object_fixed_len_def)

lemma covers_bad_property_error_msg_1_4 [c_proved]: "covered 5 loci_validate_of_bad_property_error_msg_OF_VERSION_1_4 (d_id 10)"
  by (simp add: loci_validate_of_bad_property_error_msg_OF_VERSION_1_4_def covered_min_id fits_def of_object_fixed_len_def)

lemma covers_bad_request_error_msg_1_4 [c_proved]: "covered 5 loci_validate_of_bad_request_error_msg_OF_VERSION_1_4 (d_id 11)"
  by (simp add: loci_validate_of_bad_request_error_msg_OF_VERSION_1_4_def covered_min_id fits_def of_object_fixed_len_def)

lemma covers_barrier_reply_1_4 [c_proved]: "covered 5 loci_validate_of_barrier_reply_OF_VERSION_1_4 (d_id 12)"
  by (simp add: loci_validate_of_barrier_reply_OF_VERSION_1_4_def covered_min_id fits_def of_object_fixed_len_def)

lemma covers_barrier_request_1_4 [c_proved]: "covered 5 loci_validate_of_barrier_request_OF_VERSION_1_4 (d_id 13)"
  by (simp add: loci_validate_of_barrier_request_OF_VERSION_1_4_def covered_min_id fits_def of_object_fixed_len_def)

lemma covers_bsn_arp_idle_1_4 [c_proved]: "covered 5 loci_validate_of_bsn_arp_idle_OF_VERSION_1_4 (d_id 14)"
  by (simp add: loci_validate_of_bsn_arp_idle_OF_VERSION_1_4_def covered_min_id fits_def of_object_fixed_len_def)

lemma covers_bsn_bw_clear_data_reply_1_4 [c_proved]: "covered 5 loci_validate_of_bsn_bw_clear_data_reply_OF_VERSION_1_4 (d_id 15)"
  by (simp add: loci_validate_of_bsn_bw_clear_data_reply_OF_VERSION_1_4_def covered_min_id fits_def of_object_fixed_len_def)

lemma covers_bsn_bw_clear_data_request_1_4 [c_proved]: "covered 5 loci_validate_of_bsn_bw_clear_data_request_OF_VERSION_1_4 (d_id 16)"
  by (simp add: loci_validate_of_bsn_bw_clear_data_request_OF_VERSION_1_4_def covered_min_id fits_def of_object_fixed_len_def)

lemma covers_bsn_bw_enable_get_reply_1_4 [c_proved]: "covered 5 loci_validate_of_bsn_bw_enable_get_reply_OF_VERSION_1_4 (d_id 17)"
  by (simp add: loci_validate_of_bsn_bw_enable_get_reply_OF_VERSION_1_4_def covered_min_id fits_def of_object_fixed_len_def)

lemma covers_bsn_bw_enable_get_request_1_4 [c_proved]: "covered 5 loci_validate_of_bsn_bw_enable_get_request_OF_VERSION_1_4 (d_id 18)"
  by (simp add: loci_validate_of_bsn_bw_enable_get_request_OF_VERSION_1_4_def covered_min_id fits_def of_object_fixed_len_def)

lemma covers_bsn_bw_enable_set_reply_1_4 [c_proved]: "covered 5 loci_validate_of_bsn_bw_enable_set_reply_OF_VERSION_1_4 (d_id 19)"
  by (simp add: loci_validate_of_bsn_bw_enable_set_reply_OF_VERSION_1_4_def covered_min_id fits_def of_object_fixed_len_def)

lemma covers_bsn_bw_enable_set_request_1_4 [c_proved]: "covered 5 loci_validate_of_bsn_bw_enable_set_request_OF_VERSION_1_4 (d_id 20)"
  by (simp add: loci_validate_of_bsn_bw_enable_set_request_OF_VERSION_1_4_def covered_min_id fits_def of_object_fixed_len_def)

lemma covers_bsn_controller_connections_reply_1_4 [c_proved]: "covered 5 loci_validate_of_bsn_controller_connections_reply_OF_VERSION_1_4 (d_id 21)"
  by (simp add: loci_validate_of_bsn_controller_connections_reply_OF_VERSION_1_4_def covered_min_id fits_def of_object_fixed_len_def)

lemma covers_bsn_controller_connections_request_1_4 [c_proved]: "covered 5 loci_validate_of_bsn_controller_connections_request_OF_VERSION_1_4 (d_id 22)"
  by (simp add: loci_validate_of_bsn_controller_connections_request_OF_VERSION_1_4_def covered_min_id fits_def of_object_fixed_len_def)

lemma covers_bsn_debug_counter_desc_stats_reply_1_4 [c_proved]: "covered 5 loci_validate_of_bsn_debug_counter_desc_stats_reply_OF_VERSION_1_4 (d_id 23)"
  by (simp add: loci_validate_of_bsn_debug_counter_desc_stats_reply_OF_VERSION_1_4_def covered_min_id fits_def of_object_fixed_len_def)

lemma covers_bsn_debug_counter_desc_stats_request_1_4 [c_proved]: "covered 5 loci_validate_of_bsn_debug_counter_desc_stats_request_OF_VERSION_1_4 (d_id 24)"
  by (simp add: loci_validate_of_bsn_debug_counter_desc_stats_request_OF_VERSION_1_4_def covered_min_id fits_def of_object_fixed_len_def)

lemma covers_bsn_debug_counter_stats_reply_1_4 [c_proved]: "covered 5 loci_validate_of_bsn_debug_counter_stats_reply_OF_VERSION_1_4 (d_id 25)"
  by (simp add: loci_validate_of_bsn_debug_counter_stats_reply_OF_VERSION_1_4_def covered_min_id fits_def of_object_fixed_len_def)

lemma covers_bsn_debug_counter_stats_request_1_4 [c_proved]: "covered 5 loci_validate_of_bsn_debug_counter_stats_request_OF_VERSION_1_4 (d_id 26)"
  by (simp add: loci_validate_of_bsn_debug_counter_stats_request_OF_VERSION_1_4_def covered_min_id fits_def of_object_fixed_len_def)

lemma covers_bsn_flow_checksum_bucket_stats_reply_1_4 [c_proved]: "covered 5 loci_validate_of_bsn_flow_checksum_bucket_stats_reply_OF_VERSION_1_4 (d_id 27)"
  by (simp add: loci_validate_of_bsn_flow_checksum_bucket_stats_reply_OF_VERSION_1_4_def covered_min_id fits_def of_object_fixed_len_def)

lemma covers_bsn_flow_checksum_bucket_stats_request_1_4 [c_proved]: "covered 5 loci_validate_of_bsn_flow_checksum_bucket_stats_request_OF_VERSION_1_4 (d_id 28)"
  by (simp add: loci_validate_of_bsn_flow_checksum_bucket_stats_request_OF_VERSION_1_4_def covered_min_id fits_def of_object_fixed_len_def)

lemma covers_bsn_flow_idle_1_4 [c_proved]: "covered 5 loci_validate_of_bsn_flow_idle_OF_VERSION_1_4 (d_id 29)"
  by (simp add: loci_validate_of_bsn_flow_idle_OF_VERSION_1_4_def covered_min_id fits_def of_object_fixed_len_def)

lemma covers_bsn_flow_idle_enable_get_reply_1_4 [c_proved]: "covered 5 loci_validate_of_bsn_flow_idle_enable_get_reply_OF_VERSION_1_4 (d_id 30)"
  by (simp add: loci_validate_of_bsn_flow_idle_enable_get_reply_OF_VERSION_1_4_def covered_min_id fits_def of_object_fixed_len_def)

lemma covers_bsn_flow_idle_enable_get_request_1_4 [c_proved]: "covered 5 loci_validate_of_bsn_flow_idle_enable_get_request_OF_VERSION_1_4 (d_id 31)"
  by (simp add: loci_validate_of_bsn_flow_idle_enable_get_request_OF_VERSION_1_4_def covered_min_id fits_def of_object_fixed_len_def)

lemma covers_bsn_flow_idle_enable_set_reply_1_4 [c_proved]: "covered 5 loci_validate_of_bsn_flow_idle_enable_set_reply_OF_VERSION_1_4 (d_id 32)"
  by (simp add: loci_validate_of_bsn_flow_idle_enable_set_reply_OF_VERSION_1_4_def covered_min_id fits_def of_object_fixed_len_def)

lemma covers_bsn_flow_idle_enable_set_request_1_4 [c_proved]: "covered 5 loci_validate_of_bsn_flow_idle_enable_set_request_OF_VERSION_1_4 (d_id 33)"
  by (simp add: loci_validate_of_bsn_flow_idle_enable_set_request_OF_VERSION_1_4_def covered_min_id fits_def of_object_fixed_len_def)

lemma covers_bsn_generic_stats_reply_1_4 [c_proved]: "covered 5 loci_validate_of_bsn_generic_stats_reply_OF_VERSION_1_4 (d_id 34)"
  by (simp add: loci_validate_of_bsn_generic_stats_reply_OF_VERSION_1_4_def covered_min_id fits_def of_object_fixed_len_def)

lemma covers_bsn_generic_stats_request_1_4 [c_proved]: "covered 5 loci_validate_of_bsn_generic_stats_request_OF_VERSION_1_4 (d_id 35)"
  by (simp add: loci_validate_of_bsn_generic_stats_request_OF_VERSION_1_4_def covered_min_id fits_def of_object_fixed_len_def)

lemma covers_bsn_gentable_bucket_stats_reply_1_4 [c_proved]: "covered 5 loci_validate_of_bsn_gentable_bucket_stats_reply_OF_VERSION_1_4 (d_id 36)"
  by (simp add: loci_validate_of_bsn_gentable_bucket_stats_reply_OF_VERSION_1_4_def covered_min_id fits_def of_object_fixed_len_def)

lemma covers_bsn_gentable_bucket_stats_request_1_4 [c_proved]: "covered 5 loci_validate_of_bsn_gentable_bucket_stats_request_OF_VERSION_1_4 (d_id 37)"
  by (simp add: loci_validate_of_bsn_gentable_bucket_stats_request_OF_VERSION_1_4_def covered_min_id fits_def of_object_fixed_len_def)

lemma covers_bsn_gentable_clear_reply_1_4 [c_proved]: "covered 5 loci_validate_of_bsn_gentable_clear_reply_OF_VERSION_1_4 (d_id 38)"
  by (simp add: loci_validate_of_bsn_gentable_clear_reply_OF_VERSION_1_4_def covered_min_id fits_def of_object_fixed_len_def)

lemma covers_bsn_gentable_clear_request_1_4 [c_proved]: "covered 5 loci_validate_of_bsn_gentable_clear_request_OF_VERSION_1_4 (d_id 39)"
  by (simp add: loci_validate_of_bsn_gentable_clear_request_OF_VERSION_1_4_def covered_min_id fits_def of_object_fixed_len_def)

lemma covers_bsn_gentable_desc_stats_reply_1_4 [c_proved]: "covered 5 loci_validate_of_bsn_gentable_desc_stats_reply_OF_VERSION_1_4 (d_id 40)"
  by (simp add: loci_validate_of_bsn_gentable_desc_stats_reply_OF_VERSION_1_4_def covered_min_id fits_def of_object_fixed_len_def)

lemma covers_bsn_gentable_desc_stats_request_1_4 [c_proved]: "covered 5 loci_validate_of_bsn_gentable_desc_stats_request_OF_VERSION_1_4 (d_id 41)"
  by (simp add: loci_validate_of_bsn_gentable_desc_stats_request_OF_VERSION_1_4_def covered_min_id fits_def of_object_fixed_len_def)

lemma covers_bsn_gentable_entry_add_1_4 [c_proved]: "covered 5 loci_validate_of_bsn_gentable_entry_add_OF_VERSION_1_4 (d_id 42)"
  by (simp add: loci_validate_of_bsn_gentable_entry_add_OF_VERSION_1_4_def covered_min_id fits_def of_object_fixed_len_def)

lemma covers_bsn_gentable_entry_delete_1_4 [c_proved]: "covered 5 loci_validate_of_bsn_gentable_entry_delete_OF_VERSION_1_4 (d_id 43)"
  by (simp add: loci_validate_of_bsn_gentable_entry_delete_OF_VERSION_1_4_def covered_min_id fits_def of_object_fixed_len_def)

lemma covers_bsn_gentable_entry_desc_stats_reply_1_4 [c_proved]: "covered 5 loci_validate_of_bsn_gentable_entry_desc_stats_reply_OF_VERSION_1_4 (d_id 44)"
  by (simp add: loci_validate_of_bsn_gentable_entry_desc_stats_reply_OF_VERSION_1_4_def covered_min_id fits_def of_object_fixed_len_def)

lemma covers_bsn_gentable_entry_desc_stats_request_1_4 [c_proved]: "covered 5 loci_validate_of_bsn_gentable_entry_desc_stats_request_OF_VERSION_1_4 (d_id 45)"
  by (simp add: loci_validate_of_bsn_gentable_entry_desc_stats_request_OF_VERSION_1_4_def covered_min_id fits_def of_object_fixed_len_def)

lemma covers_bsn_gentable_entry_stats_reply_1_4 [c_proved]: "covered 5 loci_validate_of_bsn_gentable_entry_stats_reply_OF_VERSION_1_4 (d_id 46)"
  by (simp add: loci_validate_of_bsn_gentable_entry_stats_reply_OF_VERSION_1_4_def covered_min_id fits_def of_object_fixed_len_def)

lemma covers_bsn_gentable_entry_stats_request_1_4 [c_proved]: "covered 5 loci_validate_of_bsn_gentable_entry_stats_request_OF_VERSION_1_4 (d_id 47)"
  by (simp add: loci_validate_of_bsn_gentable_entry_stats_request_OF_VERSION_1_4_def covered_min_id fits_def of_object_fixed_len_def)

lemma covers_bsn_gentable_set_buckets_size_1_4 [c_proved]: "covered 5 loci_validate_of_bsn_gentable_set_buckets_size_OF_VERSION_1_4 (d_id 48)"
  by (simp add: loci_validate_of_bsn_gentable_set_buckets_size_OF_VERSION_1_4_def covered_min_id fits_def of_object_fixed_len_def)

lemma covers_bsn_gentable_stats_reply_1_4 [c_proved]: "covered 5 loci_validate_of_bsn_gentable_stats_reply_OF_VERSION_1_4 (d_id 49)"
  by (simp add: loci_validate_of_bsn_gentable_stats_reply_OF_VERSION_1_4_def covered_min_id fits_def of_object_fixed_len_def)

lemma covers_bsn_gentable_stats_request_1_4 [c_proved]: "covered 5 loci_validate_of_bsn_gentable_stats_request_OF_VERSION_1_4 (d_id 50)"
  by (simp add: loci_validate_of_bsn_gentable_stats_request_OF_VERSION_1_4_def covered_min_id fits_def of_object_fixed_len_def)

lemma covers_bsn_get_interfaces_reply_1_4 [c_proved]: "covered 5 loci_validate_of_bsn_get_interfaces_reply_OF_VERSION_1_4 (d_id 51)"
  by (simp add: loci_validate_of_bsn_get_interfaces_reply_OF_VERSION_1_4_def covered_min_id fits_def of_object_fixed_len_def)

lemma covers_bsn_get_interfaces_request_1_4 [c_proved]: "covered 5 loci_validate_of_bsn_get_interfaces_request_OF_VERSION_1_4 (d_id 52)"
  by (simp add: loci_validate_of_bsn_get_interfaces_request_OF_VERSION_1_4_def covered_min_id fits_def of_object_fixed_len_def)

lemma covers_bsn_get_mirroring_reply_1_4 [c_proved]: "covered 5 loci_validate_of_bsn_get_mirroring_reply_OF_VERSION_1_4 (d_id 57)"
  by (simp add: loci_validate_of_bsn_get_mirroring_reply_OF_VERSION_1_4_def covered_min_id fits_def of_object_fixed_len_def)

lemma covers_bsn_get_mirroring_request_1_4 [c_proved]: "covered 5 loci_validate_of_bsn_get_mirroring_request_OF_VERSION_1_4 (d_id 58)"
  by (simp add: loci_validate_of_bsn_get_mirroring_request_OF_VERSION_1_4_def covered_min_id fits_def of_object_fixed_len_def)

lemma covers_bsn_get_switch_pipeline_reply_1_4 [c_proved]: "covered 5 loci_validate_of_bsn_get_switch_pipeline_reply_OF_VERSION_1_4 (d_id 59)"
  by (simp add: loci_validate_of_bsn_get_switch_pipeline_reply_OF_VERSION_1_4_def covered_min_id fits_def of_object_fixed_len_def)

lemma covers_bsn_get_switch_pipeline_request_1_4 [c_proved]: "covered 5 loci_validate_of_bsn_get_switch_pipeline_request_OF_VERSION_1_4 (d_id 60)"
  by (simp add: loci_validate_of_bsn_get_switch_pipeline_request_OF_VERSION_1_4_def covered_min_id fits_def of_object_fixed_len_def)

lemma covers_bsn_image_desc_stats_reply_1_4 [c_proved]: "covered 5 loci_validate_of_bsn_image_desc_stats_reply_OF_VERSION_1_4 (d_id 64)"
  by (simp add: loci_validate_of_bsn_image_desc_stats_reply_OF_VERSION_1_4_def covered_min_id fits_def of_object_fixed_len_def)

lemma covers_bsn_image_desc_stats_request_1_4 [c_proved]: "covered 5 loci_validate_of_bsn_image_desc_stats_request_OF_VERSION_1_4 (d_id 65)"
  by (simp add: loci_validate_of_bsn_image_desc_stats_request_OF_VERSION_1_4_def covered_min_id fits_def of_object_fixed_len_def)

lemma covers_bsn_lacp_convergence_notif_1_4 [c_proved]: "covered 5 loci_validate_of_bsn_lacp_convergence_notif_OF_VERSION_1_4 (d_id 66)"
  by (simp add: loci_validate_of_bsn_lacp_convergence_notif_OF_VERSION_1_4_def covered_min_id fits_def of_object_fixed_len_def)

lemma covers_bsn_lacp_stats_reply_1_4 [c_proved]: "covered 5 loci_validate_of_bsn_lacp_stats_reply_OF_VERSION_1_4 (d_id 67)"
  by (simp add: loci_validate_of_bsn_lacp_stats_reply_OF_VERSION_1_4_def covered_min_id fits_def of_object_fixed_len_def)

lemma covers_bsn_lacp_stats_request_1_4 [c_proved]: "covered 5 loci_validate_of_bsn_lacp_stats_request_OF_VERSION_1_4 (d_id 68)"
  by (simp add: loci_validate_of_bsn_lacp_stats_request_OF_VERSION_1_4_def covered_min_id fits_def of_object_fixed_len_def)

lemma covers_bsn_log_1_4 [c_proved]: "covered 5 loci_validate_of_bsn_log_OF_VERSION_1_4 (d_id 69)"
  by (simp add: loci_validate_of_bsn_log_OF_VERSION_1_4_def covered_min_id fits_def of_object_fixed_len_def)

lemma covers_bsn_lua_command_reply_1_4 [c_proved]: "covered 5 loci_validate_of_bsn_lua_command_reply_OF_VERSION_1_4 (d_id 70)"
  by (simp add: loci_validate_of_bsn_lua_command_reply_OF_VERSION_1_4_def covered_min_id fits_def of_object_fixed_len_def)

lemma covers_bsn_lua_command_request_1_4 [c_proved]: "covered 5 loci_validate_of_bsn_lua_command_request_OF_VERSION_1_4 (d_id 71)"
  by (simp add: loci_validate_of_bsn_lua_command_request_OF_VERSION_1_4_def covered_min_id fits_def of_object_fixed_len_def)

lemma covers_bsn_lua_notification_1_4 [c_proved]: "covered 5 loci_validate_of_bsn_lua_notification_OF_VERSION_1_4 (d_id 72)"
  by (simp add: loci_validate_of_bsn_lua_notification_OF_VERSION_1_4_def covered_min_id fits_def of_object_fixed_len_def)

lemma covers_bsn_lua_upload_1_4 [c_proved]: "covered 5 loci_validate_of_bsn_lua_upload_OF_VERSION_1_4 (d_id 73)"
  by (simp add: loci_validate_of_bsn_lua_upload_OF_VERSION_1_4_def covered_min_id fits_def of_object_fixed_len_def)

lemma covers_bsn_pdu_rx_reply_1_4 [c_proved]: "covered 5 loci_validate_of_bsn_pdu_rx_reply_OF_VERSION_1_4 (d_id 74)"
  by (simp add: loci_validate_of_bsn_pdu_rx_reply_OF_VERSION_1_4_def covered_min_id fits_def of_object_fixed_len_def)

lemma covers_bsn_pdu_rx_request_1_4 [c_proved]: "covered 5 loci_validate_of_bsn_pdu_rx_request_OF_VERSION_1_4 (d_id 75)"
  by (simp add: loci_validate_of_bsn_pdu_rx_request_OF_VERSION_1_4_def covered_min_id fits_def of_object_fixed_len_def)

lemma covers_bsn_pdu_rx_timeout_1_4 [c_proved]: "covered 5 loci_validate_of_bsn_pdu_rx_timeout_OF_VERSION_1_4 (d_id 76)"
  by (simp add: loci_validate_of_bsn_pdu_rx_timeout_OF_VERSION_1_4_def covered_min_id fits_def of_object_fixed_len_def)

lemma covers_bsn_pdu_tx_reply_1_4 [c_proved]: "covered 5 loci_validate_of_bsn_pdu_tx_reply_OF_VERSION_1_4 (d_id 77)"
  by (simp add: loci_validate_of_bsn_pdu_tx_reply_OF_VERSION_1_4_def covered_min_id fits_def of_object_fixed_len_def)

lemma covers_bsn_pdu_tx_request_1_4 [c_proved]: "covered 5 loci_validate_of_bsn_pdu_tx_request_OF_VERSION_1_4 (d_id 78)"
  by (simp add: loci_validate_of_bsn_pdu_tx_request_OF_VERSION_1_4_def covered_min_id fits_def of_object_fixed_len_def)

lemma covers_bsn_port_counter_stats_reply_1_4 [c_proved]: "covered 5 loci_validate_of_bsn_port_counter_stats_reply_OF_VERSION_1_4 (d_id 79)"
  by (simp add: loci_validate_of_bsn_port_counter_stats_reply_OF_VERSION_1_4_def covered_min_id fits_def of_object_fixed_len_def)

lemma covers_bsn_port_counter_stats_request_1_4 [c_proved]: "covered 5 loci_validate_of_bsn_port_counter_stats_request_OF_VERSION_1_4 (d_id 80)"
  by (simp add: loci_validate_of_bsn_port_counter_stats_request_OF_VERSION_1_4_def covered_min_id fits_def of_object_fixed_len_def)

lemma covers_bsn_set_aux_cxns_reply_1_4 [c_proved]: "covered 5 loci_validate_of_bsn_set_aux_cxns_reply_OF_VERSION_1_4 (d_id 82)"
  by (simp add: loci_validate_of_bsn_set_aux_cxns_reply_OF_VERSION_1_4_def covered_min_id fits_def of_object_fixed_len_def)

lemma covers_bsn_set_aux_cxns_request_1_4 [c_proved]: "covered 5 loci_validate_of_bsn_set_aux_cxns_request_OF_VERSION_1_4 (d_id 83)"
  by (simp add: loci_validate_of_bsn_set_aux_cxns_request_OF_VERSION_1_4_def covered_min_id fits_def of_object_fixed_len_def)

lemma covers_bsn_set_lacp_reply_1_4 [c_proved]: "covered 5 loci_validate_of_bsn_set_lacp_reply_OF_VERSION_1_4 (d_id 87)"
  by (simp add: loci_validate_of_bsn_set_lacp_reply_OF_VERSION_1_4_def covered_min_id fits_def of_object_fixed_len_def)

lemma covers_bsn_set_lacp_request_1_4 [c_proved]: "covered 5 loci_validate_of_bsn_set_lacp_request_OF_VERSION_1_4 (d_id 88)"
  by (simp add: loci_validate_of_bsn_set_lacp_request_OF_VERSION_1_4_def covered_min_id fits_def of_object_fixed_len_def)

lemma covers_bsn_set_mirroring_1_4 [c_proved]: "covered 5 loci_validate_of_bsn_set_mirroring_OF_VERSION_1_4 (d_id 89)"
  by (simp add: loci_validate_of_bsn_set_mirroring_OF_VERSION_1_4_def covered_min_id fits_def of_object_fixed_len_def)

lemma covers_bsn_set_pktin_suppression_reply_1_4 [c_proved]: "covered 5 loci_validate_of_bsn_set_pktin_suppression_reply_OF_VERSION_1_4 (d_id 90)"
  by (simp add: loci_validate_of_bsn_set_pktin_suppression_reply_OF_VERSION_1_4_def covered_min_id fits_def of_object_fixed_len_def)

lemma covers_bsn_set_pktin_suppression_request_1_4 [c_proved]: "covered 5 loci_validate_of_bsn_set_pktin_suppression_request_OF_VERSION_1_4 (d_id 91)"
  by (simp add: loci_validate_of_bsn_set_pktin_suppression_request_OF_VERSION_1_4_def covered_min_id fits_def of_object_fixed_len_def)

lemma covers_bsn_set_switch_pipeline_reply_1_4 [c_proved]: "covered 5 loci_validate_of_bsn_set_switch_pipeline_reply_OF_VERSION_1_4 (d_id 92)"
  by (simp add: loci_validate_of_bsn_set_switch_pipeline_reply_OF_VERSION_1_4_def covered_min_id fits_def of_object_fixed_len_def)

lemma covers_bsn_set_switch_pipeline_request_1_4 [c_proved]: "covered 5 loci_validate_of_bsn_set_switch_pipeline_request_OF_VERSION_1_4 (d_id 93)"
  by (simp add: loci_validate_of_bsn_set_switch_pipeline_request_OF_VERSION_1_4_def covered_min_id fits_def of_object_fixed_len_def)

lemma covers_bsn_switch_pipeline_stats_reply_1_4 [c_proved]: "covered 5 loci_validate_of_bsn_switch_pipeline_stats_reply_OF_VERSION_1_4 (d_id 99)"
  by (simp add: loci_validate_of_bsn_switch_pipeline_stats_reply_OF_VERSION_1_4_def covered_min_id fits_def of_object_fixed_len_def)

lemma covers_bsn_switch_pipeline_stats_request_1_4 [c_proved]: "covered 5 loci_validate_of_bsn_switch_pipeline_stats_request_OF_VERSION_1_4 (d_id 100)"
  by (simp add: loci_validate_of_bsn_switch_pipeline_stats_request_OF_VERSION_1_4_def covered_min_id fits_def of_object_fixed_len_def)

lemma covers_bsn_table_checksum_stats_reply_1_4 [c_proved]: "covered 5 loci_validate_of_bsn_table_checksum_stats_reply_OF_VERSION_1_4 (d_id 101)"
  by (simp add: loci_validate_of_bsn_table_checksum_stats_reply_OF_VERSION_1_4_def covered_min_id fits_def of_object_fixed_len_def)

lemma covers_bsn_table_checksum_stats_request_1_4 [c_proved]: "covered 5 loci_validate_of_bsn_table_checksum_stats_request_OF_VERSION_1_4 (d_id 102)"
  by (simp add: loci_validate_of_bsn_table_checksum_stats_request_OF_VERSION_1_4_def covered_min_id fits_def of_object_fixed_len_def)

lemma covers_bsn_table_set_buckets_size_1_4 [c_proved]: "covered 5 loci_validate_of_bsn_table_set_buckets_size_OF_VERSION_1_4 (d_id 103)"
  by (simp add: loci_validate_of_bsn_table_set_buckets_size_OF_VERSION_1_4_def covered_min_id fits_def of_object_fixed_len_def)

lemma covers_bsn_time_reply_1_4 [c_proved]: "covered 5 loci_validate_of_bsn_time_reply_OF_VERSION_1_4 (d_id 104)"
  by (simp add: loci_validate_of_bsn_time_reply_OF_VERSION_1_4_def covered_min_id fits_def of_object_fixed_len_def)

lemma covers_bsn_time_request_1_4 [c_proved]: "covered 5 loci_validate_of_bsn_time_request_OF_VERSION_1_4 (d_id 105)"
  by (simp add: loci_validate_of_bsn_time_request_OF_VERSION_1_4_def covered_min_id fits_def of_object_fixed_len_def)

lemma covers_bsn_virtual_port_create_reply_1_4 [c_proved]: "covered 5 loci_validate_of_bsn_virtual_port_create_reply_OF_VERSION_1_4 (d_id 106)"
  by (simp add: loci_validate_of_bsn_virtual_port_create_reply_OF_VERSION_1_4_def covered_min_id fits_def of_object_fixed_len_def)

lemma covers_bsn_virtual_port_create_request_1_4 [c_proved]: "covered 5 loci_validate_of_bsn_virtual_port_create_request_OF_VERSION_1_4 (d_id 107)"
  by (simp add: loci_validate_of_bsn_virtual_port_create_request_OF_VERSION_1_4_def covered_min_id fits_def of_object_fixed_len_def)

lemma covers_bsn_virtual_port_remove_reply_1_4 [c_proved]: "covered 5 loci_validate_of_bsn_virtual_port_remove_reply_OF_VERSION_1_4 (d_id 108)"
  by (simp add: loci_validate_of_bsn_virtual_port_remove_reply_OF_VERSION_1_4_def covered_min_id fits_def of_object_fixed_len_def)

lemma covers_bsn_virtual_port_remove_request_1_4 [c_proved]: "covered 5 loci_validate_of_bsn_virtual_port_remove_request_OF_VERSION_1_4 (d_id 109)"
  by (simp add: loci_validate_of_bsn_virtual_port_remove_request_OF_VERSION_1_4_def covered_min_id fits_def of_object_fixed_len_def)

lemma covers_bsn_vlan_counter_stats_reply_1_4 [c_proved]: "covered 5 loci_validate_of_bsn_vlan_counter_stats_reply_OF_VERSION_1_4 (d_id 110)"
  by (simp add: loci_validate_of_bsn_vlan_counter_stats_reply_OF_VERSION_1_4_def covered_min_id fits_def of_object_fixed_len_def)

lemma covers_bsn_vlan_counter_stats_request_1_4 [c_proved]: "covered 5 loci_validate_of_bsn_vlan_counter_stats_request_OF_VERSION_1_4 (d_id 111)"
  by (simp add: loci_validate_of_bsn_vlan_counter_stats_request_OF_VERSION_1_4_def covered_min_id fits_def of_object_fixed_len_def)

lemma covers_bsn_vrf_counter_stats_reply_1_4 [c_proved]: "covered 5 loci_validate_of_bsn_vrf_counter_stats_reply_OF_VERSION_1_4 (d_id 112)"
  by (simp add: loci_validate_of_bsn_vrf_counter_stats_reply_OF_VERSION_1_4_def covered_min_id fits_def of_object_fixed_len_def)

lemma covers_bsn_vrf_counter_stats_request_1_4 [c_proved]: "covered 5 loci_validate_of_bsn_vrf_counter_stats_request_OF_VERSION_1_4 (d_id 113)"
  by (simp add: loci_validate_of_bsn_vrf_counter_stats_request_OF_VERSION_1_4_def covered_min_id fits_def of_object_fixed_len_def)

lemma covers_bundle_add_msg_1_4 [c_proved]: "covered 5 loci_validate_of_bundle_add_msg_OF_VERSION_1_4 (d_id 114)"
  by (simp add: loci_validate_of_bundle_add_msg_OF_VERSION_1_4_def covered_min_id fits_def of_object_fixed_len_def)

lemma covers_bundle_ctrl_msg_1_4 [c_proved]: "covered 5 loci_validate_of_bundle_ctrl_msg_OF_VERSION_1_4 (d_id 115)"
  by (simp add: loci_validate_of_bundle_ctrl_msg_OF_VERSION_1_4_def covered_min_id fits_def of_object_fixed_len_def)

lemma covers_bundle_failed_error_msg_1_4 [c_proved]: "covered 5 loci_validate_of_bundle_failed_error_msg_OF_VERSION_1_4 (d_id 116)"
  by (simp add: loci_validate_of_bundle_failed_error_msg_OF_VERSION_1_4_def covered_min_id fits_def of_object_fixed_len_def)

lemma covers_desc_stats_reply_1_4 [c_proved]: "covered 5 loci_validate_of_desc_stats_reply_OF_VERSION_1_4 (d_id 117)"
  by (simp add: loci_validate_of_desc_stats_reply_OF_VERSION_1_4_def covered_min_id fits_def of_object_fixed_len_def)

lemma covers_desc_stats_request_1_4 [c_proved]: "covered 5 loci_validate_of_desc_stats_request_OF_VERSION_1_4 (d_id 118)"
  by (simp add: loci_validate_of_desc_stats_request_OF_VERSION_1_4_def covered_min_id fits_def of_object_fixed_len_def)

lemma covers_echo_reply_1_4 [c_proved]: "covered 5 loci_validate_of_echo_reply_OF_VERSION_1_4 (d_id 119)"
  by (simp add: loci_validate_of_echo_reply_OF_VERSION_1_4_def covered_min_id fits_def of_object_fixed_len_def)

lemma covers_echo_request_1_4 [c_proved]: "covered 5 loci_validate_of_echo_request_OF_VERSION_1_4 (d_id 120)"
  by (simp add: loci_validate_of_echo_request_OF_VERSION_1_4_def covered_min_id fits_def of_object_fixed_len_def)

lemma covers_experimenter_error_msg_1_4 [c_proved]: "covered 5 loci_validate_of_experimenter_error_msg_OF_VERSION_1_4 (d_id 123)"
  by (simp add: loci_validate_of_experimenter_error_msg_OF_VERSION_1_4_def covered_min_id fits_def of_object_fixed_len_def)

lemma covers_features_reply_1_4 [c_proved]: "covered 5 loci_validate_of_features_reply_OF_VERSION_1_4 (d_id 126)"
  by (simp add: loci_validate_of_features_reply_OF_VERSION_1_4_def covered_min_id fits_def of_object_fixed_len_def)

lemma covers_features_request_1_4 [c_proved]: "covered 5 loci_validate_of_features_request_OF_VERSION_1_4 (d_id 127)"
  by (simp add: loci_validate_of_features_request_OF_VERSION_1_4_def covered_min_id fits_def of_object_fixed_len_def)

lemma covers_flow_add_1_4 [c_proved]: "covered 5 loci_validate_of_flow_add_OF_VERSION_1_4 (d_id 128)"
  by (simp add: loci_validate_of_flow_add_OF_VERSION_1_4_def covered_min_id fits_def of_object_fixed_len_def)

lemma covers_flow_delete_1_4 [c_proved]: "covered 5 loci_validate_of_flow_delete_OF_VERSION_1_4 (d_id 129)"
  by (simp add: loci_validate_of_flow_delete_OF_VERSION_1_4_def covered_min_id fits_def of_object_fixed_len_def)

lemma covers_flow_delete_strict_1_4 [c_proved]: "covered 5 loci_validate_of_flow_delete_strict_OF_VERSION_1_4 (d_id 130)"
  by (simp add: loci_validate_of_flow_delete_strict_OF_VERSION_1_4_def covered_min_id fits_def of_object_fixed_len_def)

lemma covers_flow_mod_failed_error_msg_1_4 [c_proved]: "covered 5 loci_validate_of_flow_mod_failed_error_msg_OF_VERSION_1_4 (d_id 132)"
  by (simp add: loci_validate_of_flow_mod_failed_error_msg_OF_VERSION_1_4_def covered_min_id fits_def of_object_fixed_len_def)

lemma covers_flow_modify_1_4 [c_proved]: "covered 5 loci_validate_of_flow_modify_OF_VERSION_1_4 (d_id 133)"
  by (simp add: loci_validate_of_flow_modify_OF_VERSION_1_4_def covered_min_id fits_def of_object_fixed_len_def)

lemma covers_flow_modify_strict_1_4 [c_proved]: "covered 5 loci_validate_of_flow_modify_strict_OF_VERSION_1_4 (d_id 134)"
  by (simp add: loci_validate_of_flow_modify_strict_OF_VERSION_1_4_def covered_min_id fits_def of_object_fixed_len_def)

lemma covers_flow_monitor_failed_error_msg_1_4 [c_proved]: "covered 5 loci_validate_of_flow_monitor_failed_error_msg_OF_VERSION_1_4 (d_id 135)"
  by (simp add: loci_validate_of_flow_monitor_failed_error_msg_OF_VERSION_1_4_def covered_min_id fits_def of_object_fixed_len_def)

lemma covers_flow_removed_1_4 [c_proved]: "covered 5 loci_validate_of_flow_removed_OF_VERSION_1_4 (d_id 136)"
  by (simp add: loci_validate_of_flow_removed_OF_VERSION_1_4_def covered_min_id fits_def of_object_fixed_len_def)

lemma covers_flow_stats_reply_1_4 [c_proved]: "covered 5 loci_validate_of_flow_stats_reply_OF_VERSION_1_4 (d_id 137)"
  by (simp add: loci_validate_of_flow_stats_reply_OF_VERSION_1_4_def covered_min_id fits_def of_object_fixed_len_def)

lemma covers_flow_stats_request_1_4 [c_proved]: "covered 5 loci_validate_of_flow_stats_request_OF_VERSION_1_4 (d_id 138)"
  by (simp add: loci_validate_of_flow_stats_request_OF_VERSION_1_4_def covered_min_id fits_def of_object_fixed_len_def)

lemma covers_get_config_reply_1_4 [c_proved]: "covered 5 loci_validate_of_get_config_reply_OF_VERSION_1_4 (d_id 139)"
  by (simp add: loci_validate_of_get_config_reply_OF_VERSION_1_4_def covered_min_id fits_def of_object_fixed_len_def)

lemma covers_get_config_request_1_4 [c_proved]: "covered 5 loci_validate_of_get_config_request_OF_VERSION_1_4 (d_id 140)"
  by (simp add: loci_validate_of_get_config_request_OF_VERSION_1_4_def covered_min_id fits_def of_object_fixed_len_def)

lemma covers_group_add_1_4 [c_proved]: "covered 5 loci_validate_of_group_add_OF_VERSION_1_4 (d_id 141)"
  by (simp add: loci_validate_of_group_add_OF_VERSION_1_4_def covered_min_id fits_def of_object_fixed_len_def)

lemma covers_group_delete_1_4 [c_proved]: "covered 5 loci_validate_of_group_delete_OF_VERSION_1_4 (d_id 142)"
  by (simp add: loci_validate_of_group_delete_OF_VERSION_1_4_def covered_min_id fits_def of_object_fixed_len_def)

lemma covers_group_desc_stats_reply_1_4 [c_proved]: "covered 5 loci_validate_of_group_desc_stats_reply_OF_VERSION_1_4 (d_id 143)"
  by (simp add: loci_validate_of_group_desc_stats_reply_OF_VERSION_1_4_def covered_min_id fits_def of_object_fixed_len_def)

lemma covers_group_desc_stats_request_1_4 [c_proved]: "covered 5 loci_validate_of_group_desc_stats_request_OF_VERSION_1_4 (d_id 144)"
  by (simp add: loci_validate_of_group_desc_stats_request_OF_VERSION_1_4_def covered_min_id fits_def of_object_fixed_len_def)

lemma covers_group_features_stats_reply_1_4 [c_proved]: "covered 5 loci_validate_of_group_features_stats_reply_OF_VERSION_1_4 (d_id 145)"
  by (simp add: loci_validate_of_group_features_stats_reply_OF_VERSION_1_4_def covered_min_id fits_def of_object_fixed_len_def)

lemma covers_group_features_stats_request_1_4 [c_proved]: "covered 5 loci_validate_of_group_features_stats_request_OF_VERSION_1_4 (d_id 146)"
  by (simp add: loci_validate_of_group_features_stats_request_OF_VERSION_1_4_def covered_min_id fits_def of_object_fixed_len_def)

lemma covers_group_mod_failed_error_msg_1_4 [c_proved]: "covered 5 loci_validate_of_group_mod_failed_error_msg_OF_VERSION_1_4 (d_id 148)"
  by (simp add: loci_validate_of_group_mod_failed_error_msg_OF_VERSION_1_4_def covered_min_id fits_def of_object_fixed_len_def)

lemma covers_group_modify_1_4 [c_proved]: "covered 5 loci_validate_of_group_modify_OF_VERSION_1_4 (d_id 149)"
  by (simp add: loci_validate_of_group_modify_OF_VERSION_1_4_def covered_min_id fits_def of_object_fixed_len_def)

lemma covers_group_stats_reply_1_4 [c_proved]: "covered 5 loci_validate_of_group_stats_reply_OF_VERSION_1_4 (d_id 150)"
  by (simp add: loci_validate_of_group_stats_reply_OF_VERSION_1_4_def covered_min_id fits_def of_object_fixed_len_def)

lemma covers_group_stats_request_1_4 [c_proved]: "covered 5 loci_validate_of_group_stats_request_OF_VERSION_1_4 (d_id 151)"
  by (simp add: loci_validate_of_group_stats_request_OF_VERSION_1_4_def covered_min_id fits_def of_object_fixed_len_def)

lemma covers_hello_1_4 [c_proved]: "covered 5 loci_validate_of_hello_OF_VERSION_1_4 (d_id 153)"
  by (simp add: loci_validate_of_hello_OF_VERSION_1_4_def covered_min_id fits_def of_object_fixed_len_def)

lemma covers_hello_failed_error_msg_1_4 [c_proved]: "covered 5 loci_validate_of_hello_failed_error_msg_OF_VERSION_1_4 (d_id 154)"
  by (simp add: loci_validate_of_hello_failed_error_msg_OF_VERSION_1_4_def covered_min_id fits_def of_object_fixed_len_def)

lemma covers_meter_config_stats_reply_1_4 [c_proved]: "covered 5 loci_validate_of_meter_config_stats_reply_OF_VERSION_1_4 (d_id 155)"
  by (simp add: loci_validate_of_meter_config_stats_reply_OF_VERSION_1_4_def covered_min_id fits_def of_object_fixed_len_def)

lemma covers_meter_config_stats_request_1_4 [c_proved]: "covered 5 loci_validate_of_meter_config_stats_request_OF_VERSION_1_4 (d_id 156)"
  by (simp add: loci_validate_of_meter_config_stats_request_OF_VERSION_1_4_def covered_min_id fits_def of_object_fixed_len_def)

lemma covers_meter_features_stats_reply_1_4 [c_proved]: "covered 5 loci_validate_of_meter_features_stats_reply_OF_VERSION_1_4 (d_id 157)"
  by (simp add: loci_validate_of_meter_features_stats_reply_OF_VERSION_1_4_def covered_min_id fits_def of_object_fixed_len_def)

lemma covers_meter_features_stats_request_1_4 [c_proved]: "covered 5 loci_validate_of_meter_features_stats_request_OF_VERSION_1_4 (d_id 158)"
  by (simp add: loci_validate_of_meter_features_stats_request_OF_VERSION_1_4_def covered_min_id fits_def of_object_fixed_len_def)

lemma covers_meter_mod_1_4 [c_proved]: "covered 5 loci_validate_of_meter_mod_OF_VERSION_1_4 (d_id 159)"
  by (simp add: loci_validate_of_meter_mod_OF_VERSION_1_4_def covered_min_id fits_def of_object_fixed_len_def)

lemma covers_meter_mod_failed_error_msg_1_4 [c_proved]: "covered 5 loci_validate_of_meter_mod_failed_error_msg_OF_VERSION_1_4 (d_id 160)"
  by (simp add: loci_validate_of_meter_mod_failed_error_msg_OF_VERSION_1_4_def covered_min_id fits_def of_object_fixed_len_def)

lemma covers_meter_stats_reply_1_4 [c_proved]: "covered 5 loci_validate_of_meter_stats_reply_OF_VERSION_1_4 (d_id 161)"
  by (simp add: loci_validate_of_meter_stats_reply_OF_VERSION_1_4_def covered_min_id fits_def of_object_fixed_len_def)

lemma covers_meter_stats_request_1_4 [c_proved]: "covered 5 loci_validate_of_meter_stats_request_OF_VERSION_1_4 (d_id 162)"
  by (simp add: loci_validate_of_meter_stats_request_OF_VERSION_1_4_def covered_min_id fits_def of_object_fixed_len_def)

lemma covers_packet_in_1_4 [c_proved]: "covered 5 loci_validate_of_packet_in_OF_VERSION_1_4 (d_id 166)"
  by (simp add: loci_validate_of_packet_in_OF_VERSION_1_4_def covered_min_id fits_def of_object_fixed_len_def)

lemma covers_packet_out_1_4 [c_proved]: "covered 5 loci_validate_of_packet_out_OF_VERSION_1_4 (d_id 167)"
  by (simp add: loci_validate_of_packet_out_OF_VERSION_1_4_def covered_min_id fits_def of_object_fixed_len_def)

lemma covers_port_desc_stats_reply_1_4 [c_proved]: "covered 5 loci_validate_of_port_desc_stats_reply_OF_VERSION_1_4 (d_id 168)"
  by (simp add: loci_validate_of_port_desc_stats_reply_OF_VERSION_1_4_def covered_min_id fits_def of_object_fixed_len_def)

lemma covers_port_desc_stats_request_1_4 [c_proved]: "covered 5 loci_validate_of_port_desc_stats_request_OF_VERSION_1_4 (d_id 169)"
  by (simp add: loci_validate_of_port_desc_stats_request_OF_VERSION_1_4_def covered_min_id fits_def of_object_fixed_len_def)

lemma covers_port_mod_1_4 [c_proved]: "covered 5 loci_validate_of_port_mod_OF_VERSION_1_4 (d_id 170)"
  by (simp add: loci_validate_of_port_mod_OF_VERSION_1_4_def covered_min_id fits_def of_object_fixed_len_def)

lemma covers_port_mod_failed_error_msg_1_4 [c_proved]: "covered 5 loci_validate_of_port_mod_failed_error_msg_OF_VERSION_1_4 (d_id 171)"
  by (simp add: loci_validate_of_port_mod_failed_error_msg_OF_VERSION_1_4_def covered_min_id fits_def of_object_fixed_len_def)

lemma covers_port_stats_reply_1_4 [c_proved]: "covered 5 loci_validate_of_port_stats_reply_OF_VERSION_1_4 (d_id 172)"
  by (simp add: loci_validate_of_port_stats_reply_OF_VERSION_1_4_def covered_min_id fits_def of_object_fixed_len_def)

lemma covers_port_stats_request_1_4 [c_proved]: "covered 5 loci_validate_of_port_stats_request_OF_VERSION_1_4 (d_id 173)"
  by (simp add: loci_validate_of_port_stats_request_OF_VERSION_1_4_def covered_min_id fits_def of_object_fixed_len_def)

lemma covers_port_status_1_4 [c_proved]: "covered 5 loci_validate_of_port_status_OF_VERSION_1_4 (d_id 174)"
  by (simp add: loci_validate_of_port_status_OF_VERSION_1_4_def covered_min_id fits_def of_object_fixed_len_def)

lemma covers_queue_desc_stats_reply_1_4 [c_proved]: "covered 5 loci_validate_of_queue_desc_stats_reply_OF_VERSION_1_4 (d_id 175)"
  by (simp add: loci_validate_of_queue_desc_stats_reply_OF_VERSION_1_4_def covered_min_id fits_def of_object_fixed_len_def)

lemma covers_queue_desc_stats_request_1_4 [c_proved]: "covered 5 loci_validate_of_queue_desc_stats_request_OF_VERSION_1_4 (d_id 176)"
  by (simp add: loci_validate_of_queue_desc_stats_request_OF_VERSION_1_4_def covered_min_id fits_def of_object_fixed_len_def)

lemma covers_queue_op_failed_error_msg_1_4 [c_proved]: "covered 5 loci_validate_of_queue_op_failed_error_msg_OF_VERSION_1_4 (d_id 179)"
  by (simp add: loci_validate_of_queue_op_failed_error_msg_OF_VERSION_1_4_def covered_min_id fits_def of_object_fixed_len_def)

lemma covers_queue_stats_reply_1_4 [c_proved]: "covered 5 loci_validate_of_queue_stats_reply_OF_VERSION_1_4 (d_id 180)"
  by (simp add: loci_validate_of_queue_stats_reply_OF_VERSION_1_4_def covered_min_id fits_def of_object_fixed_len_def)

lemma covers_queue_stats_request_1_4 [c_proved]: "covered 5 loci_validate_of_queue_stats_request_OF_VERSION_1_4 (d_id 181)"
  by (simp add: loci_validate_of_queue_stats_request_OF_VERSION_1_4_def covered_min_id fits_def of_object_fixed_len_def)

lemma covers_requestforward_1_4 [c_proved]: "covered 5 loci_validate_of_requestforward_OF_VERSION_1_4 (d_id 182)"
  by (simp add: loci_validate_of_requestforward_OF_VERSION_1_4_def covered_min_id fits_def of_object_fixed_len_def)

lemma covers_role_reply_1_4 [c_proved]: "covered 5 loci_validate_of_role_reply_OF_VERSION_1_4 (d_id 183)"
  by (simp add: loci_validate_of_role_reply_OF_VERSION_1_4_def covered_min_id fits_def of_object_fixed_len_def)

lemma covers_role_request_1_4 [c_proved]: "covered 5 loci_validate_of_role_request_OF_VERSION_1_4 (d_id 184)"
  by (simp add: loci_validate_of_role_request_OF_VERSION_1_4_def covered_min_id fits_def of_object_fixed_len_def)

lemma covers_role_request_failed_error_msg_1_4 [c_proved]: "covered 5 loci_validate_of_role_request_failed_error_msg_OF_VERSION_1_4 (d_id 185)"
  by (simp add: loci_validate_of_role_request_failed_error_msg_OF_VERSION_1_4_def covered_min_id fits_def of_object_fixed_len_def)

lemma covers_role_status_1_4 [c_proved]: "covered 5 loci_validate_of_role_status_OF_VERSION_1_4 (d_id 186)"
  by (simp add: loci_validate_of_role_status_OF_VERSION_1_4_def covered_min_id fits_def of_object_fixed_len_def)

lemma covers_set_config_1_4 [c_proved]: "covered 5 loci_validate_of_set_config_OF_VERSION_1_4 (d_id 187)"
  by (simp add: loci_validate_of_set_config_OF_VERSION_1_4_def covered_min_id fits_def of_object_fixed_len_def)

lemma covers_switch_config_failed_error_msg_1_4 [c_proved]: "covered 5 loci_validate_of_switch_config_failed_error_msg_OF_VERSION_1_4 (d_id 190)"
  by (simp add: loci_validate_of_switch_config_failed_error_msg_OF_VERSION_1_4_def covered_min_id fits_def of_object_fixed_len_def)

lemma covers_table_desc_stats_reply_1_4 [c_proved]: "covered 5 loci_validate_of_table_desc_stats_reply_OF_VERSION_1_4 (d_id 191)"
  by (simp add: loci_validate_of_table_desc_stats_reply_OF_VERSION_1_4_def covered_min_id fits_def of_object_fixed_len_def)

lemma covers_table_desc_stats_request_1_4 [c_proved]: "covered 5 loci_validate_of_table_desc_stats_request_OF_VERSION_1_4 (d_id 192)"
  by (simp add: loci_validate_of_table_desc_stats_request_OF_VERSION_1_4_def covered_min_id fits_def of_object_fixed_len_def)

lemma covers_table_features_failed_error_msg_1_4 [c_proved]: "covered 5 loci_validate_of_table_features_failed_error_msg_OF_VERSION_1_4 (d_id 193)"
  by (simp add: loci_validate_of_table_features_failed_error_msg_OF_VERSION_1_4_def covered_min_id fits_def of_object_fixed_len_def)

lemma covers_table_features_stats_reply_1_4 [c_proved]: "covered 5 loci_validate_of_table_features_stats_reply_OF_VERSION_1_4 (d_id 194)"
  by (simp add: loci_validate_of_table_features_stats_reply_OF_VERSION_1_4_def covered_min_id fits_def of_object_fixed_len_def)

lemma covers_table_features_stats_request_1_4 [c_proved]: "covered 5 loci_validate_of_table_features_stats_request_OF_VERSION_1_4 (d_id 195)"
  by (simp add: loci_validate_of_table_features_stats_request_OF_VERSION_1_4_def covered_min_id fits_def of_object_fixed_len_def)

lemma covers_table_mod_1_4 [c_proved]: "covered 5 loci_validate_of_table_mod_OF_VERSION_1_4 (d_id 196)"
  by (simp add: loci_validate_of_table_mod_OF_VERSION_1_4_def covered_min_id fits_def of_object_fixed_len_def)

lemma covers_table_mod_failed_error_msg_1_4 [c_proved]: "covered 5 loci_validate_of_table_mod_failed_error_msg_OF_VERSION_1_4 (d_id 197)"
  by (simp add: loci_validate_of_table_mod_failed_error_msg_OF_VERSION_1_4_def covered_min_id fits_def of_object_fixed_len_def)

lemma covers_table_stats_reply_1_4 [c_proved]: "covered 5 loci_validate_of_table_stats_reply_OF_VERSION_1_4 (d_id 198)"
  by (simp add: loci_validate_of_table_stats_reply_OF_VERSION_1_4_def covered_min_id fits_def of_object_fixed_len_def)

lemma covers_table_stats_request_1_4 [c_proved]: "covered 5 loci_validate_of_table_stats_request_OF_VERSION_1_4 (d_id 199)"
  by (simp add: loci_validate_of_table_stats_request_OF_VERSION_1_4_def covered_min_id fits_def of_object_fixed_len_def)

lemma covers_table_status_1_4 [c_proved]: "covered 5 loci_validate_of_table_status_OF_VERSION_1_4 (d_id 200)"
  by (simp add: loci_validate_of_table_status_OF_VERSION_1_4_def covered_min_id fits_def of_object_fixed_len_def)

lemma of_error_msg_covered_1_4 [c_proved]: "covered 5 loci_validate_of_error_msg_OF_VERSION_1_4 (of_error_msg_wire_object_id_get 5)"
  unfolding loci_validate_of_error_msg_OF_VERSION_1_4_def of_error_msg_wire_object_id_get_def
  by (simp, intro c_intro; simp add: case_covered_def c_proved fits_def of_object_fixed_len_def)

lemma of_nicira_header_covered_1_4 [c_proved]: "covered 5 loci_validate_of_nicira_header_OF_VERSION_1_4 (of_nicira_header_wire_object_id_get 5)"
  unfolding loci_validate_of_nicira_header_OF_VERSION_1_4_def of_nicira_header_wire_object_id_get_def
  by (simp, intro c_intro; simp add: case_covered_def c_proved fits_def of_object_fixed_len_def)

lemma of_bsn_header_covered_1_4 [c_proved]: "covered 5 loci_validate_of_bsn_header_OF_VERSION_1_4 (of_bsn_header_wire_object_id_get 5)"
  unfolding loci_validate_of_bsn_header_OF_VERSION_1_4_def of_bsn_header_wire_object_id_get_def
  by (simp, intro c_intro; simp add: case_covered_def c_proved fits_def of_object_fixed_len_def)

lemma of_experimenter_covered_1_4 [c_proved]: "covered 5 loci_validate_of_experimenter_OF_VERSION_1_4 (of_experimenter_wire_object_id_get 5)"
  unfolding loci_validate_of_experimenter_OF_VERSION_1_4_def of_experimenter_wire_object_id_get_def
  by (simp, intro c_intro; simp add: case_covered_def c_proved fits_def of_object_fixed_len_def)

lemma of_flow_mod_covered_1_4 [c_proved]: "covered 5 loci_validate_of_flow_mod_OF_VERSION_1_4 (of_flow_mod_wire_object_id_get 5)"
  unfolding loci_validate_of_flow_mod_OF_VERSION_1_4_def of_flow_mod_wire_object_id_get_def
  by (simp, intro c_intro; simp add: case_covered_def c_proved fits_def of_object_fixed_len_def)

lemma of_group_mod_covered_1_4 [c_proved]: "covered 5 loci_validate_of_group_mod_OF_VERSION_1_4 (of_group_mod_wire_object_id_get 5)"
  unfolding loci_validate_of_group_mod_OF_VERSION_1_4_def of_group_mod_wire_object_id_get_def
  by (simp, intro c_intro; simp add: case_covered_def c_proved fits_def of_object_fixed_len_def)

lemma of_bsn_stats_request_covered_1_4 [c_proved]: "covered 5 loci_validate_of_bsn_stats_request_OF_VERSION_1_4 (of_bsn_stats_request_wire_object_id_get 5)"
  unfolding loci_validate_of_bsn_stats_request_OF_VERSION_1_4_def of_bsn_stats_request_wire_object_id_get_def
  by (simp, intro c_intro; simp add: case_covered_def c_proved fits_def of_object_fixed_len_def)

lemma of_experimenter_stats_request_covered_1_4 [c_proved]: "covered 5 loci_validate_of_experimenter_stats_request_OF_VERSION_1_4 (of_experimenter_stats_request_wire_object_id_get 5)"
  unfolding loci_validate_of_experimenter_stats_request_OF_VERSION_1_4_def of_experimenter_stats_request_wire_object_id_get_def
  by (simp, intro c_intro; simp add: case_covered_def c_proved fits_def of_object_fixed_len_def)

lemma of_stats_request_covered_1_4 [c_proved]: "covered 5 loci_validate_of_stats_request_OF_VERSION_1_4 (of_stats_request_wire_object_id_get 5)"
  unfolding loci_validate_of_stats_request_OF_VERSION_1_4_def of_stats_request_wire_object_id_get_def
  by (simp, intro c_intro; simp add: case_covered_def c_proved fits_def of_object_fixed_len_def)

lemma of_bsn_stats_reply_covered_1_4 [c_proved]: "covered 5 loci_validate_of_bsn_stats_reply_OF_VERSION_1_4 (of_bsn_stats_reply_wire_object_id_get 5)"
  unfolding loci_validate_of_bsn_stats_reply_OF_VERSION_1_4_def of_bsn_stats_reply_wire_object_id_get_def
  by (simp, intro c_intro; simp add: case_covered_def c_proved fits_def of_object_fixed_len_def)

lemma of_experimenter_stats_reply_covered_1_4 [c_proved]: "covered 5 loci_validate_of_experimenter_stats_reply_OF_VERSION_1_4 (of_experimenter_stats_reply_wire_object_id_get 5)"
  unfolding loci_validate_of_experimenter_stats_reply_OF_VERSION_1_4_def of_experimenter_stats_reply_wire_object_id_get_def
  by (simp, intro c_intro; simp add: case_covered_def c_proved fits_def of_object_fixed_len_def)

lemma of_stats_reply_covered_1_4 [c_proved]: "covered 5 loci_validate_of_stats_reply_OF_VERSION_1_4 (of_stats_reply_wire_object_id_get 5)"
  unfolding loci_validate_of_stats_reply_OF_VERSION_1_4_def of_stats_reply_wire_object_id_get_def
  by (simp, intro c_intro; simp add: case_covered_def c_proved fits_def of_object_fixed_len_def)

lemma of_header_covered_1_4 [c_proved]: "covered 5 loci_validate_of_header_OF_VERSION_1_4 (of_header_wire_object_id_get 5)"
  unfolding loci_validate_of_header_OF_VERSION_1_4_def of_header_wire_object_id_get_def
  by (simp, intro c_intro; simp add: case_covered_def c_proved fits_def of_object_fixed_len_def)

end
