(* ===== verification/Object.thy ===== *)
theory Object
  imports Dispatch
begin

text \<open>
  OpenFlow objects (\<^verbatim>\<open>src/of_object.c\<close>, \<^verbatim>\<open>inc/loci/of_object.h\<close>): making one from a raw
  message, its initialiser, the transaction id, and the iteration over the elements of a list. An
  object owns its wire buffer here; a child made by \<open>of_object_attach\<close> has the parent's. Of the
  \<open>parent\<close> pointer only whether it is null is kept here; theory \<open>Family\<close> has the functions that follow it.
\<close>

record of_object =
  wbuf :: "wire_buffer option"
  obj_offset :: int
  object_id :: int
  obj_length :: int
  obj_version :: int
  has_parent :: bool

definition zero_object :: of_object where
  "zero_object = \<lparr>wbuf = None, obj_offset = 0, object_id = 0, obj_length = 0, obj_version = 0, has_parent = False\<rparr>"

abbreviation (input) "OF_ERROR_NONE \<equiv> (0 :: int)"
abbreviation (input) "OF_ERROR_RESOURCE \<equiv> (-1 :: int)"
abbreviation (input) "OF_ERROR_PARAM \<equiv> (-2 :: int)"
abbreviation (input) "OF_ERROR_RANGE \<equiv> (-4 :: int)"

subsection \<open>Making objects\<close>

text \<open>
  Allocation outcomes: whether the object is granted, whether its wire buffer is, and the reply to
  the request for the buffer's memory.
\<close>

definition of_object_new :: "bool \<Rightarrow> bool \<Rightarrow> byte heap_reply \<Rightarrow> int \<Rightarrow> of_object option" where
  "of_object_new got_obj got_wbuf h bytes =
     (if \<not> got_obj then None
      else if bytes > 0 then
        (case of_wire_buffer_new got_wbuf h (nat bytes) of
           None \<Rightarrow> None
         | Some w \<Rightarrow> Some (zero_object\<lparr>wbuf := Some w\<rparr>))
      else Some zero_object)"

definition of_object_buffer_bind :: "bool \<Rightarrow> of_object \<Rightarrow> byte list option \<Rightarrow> int \<Rightarrow> (int \<times> of_object) res" where
  "of_object_buffer_bind got_wbuf obj buf bytes =
     c_assert (buf \<noteq> None) (c_assert (bytes > 0)
       (case of_wire_buffer_new_bind got_wbuf buf bytes of
          None \<Rightarrow> Inr (OF_ERROR_RESOURCE, obj)
        | Some w \<Rightarrow> Inr (OF_ERROR_NONE, obj\<lparr>wbuf := Some w, obj_offset := 0, obj_length := bytes\<rparr>)))"

text \<open>
  The initialisers \<open>of_..._init\<close> of all classes are the same function up to the id; the id map
  \<open>of_object_init_map\<close> has a null pointer at id 0 and one initialiser for each of 1 to 682.
\<close>

definition of_object_init :: "int \<Rightarrow> of_object \<Rightarrow> int \<Rightarrow> int \<Rightarrow> bool \<Rightarrow> of_object res" where
  "of_object_init i obj version bytes clean_wire =
     bnd (of_object_fixed_len version i) (\<lambda>fixed.
     c_assert (fixed \<ge> 0)
       (let obj = (if clean_wire then zero_object else obj);
            bytes = (if bytes < 0 then fixed else bytes);
            obj = obj\<lparr>obj_version := version, obj_length := bytes, object_id := i\<rparr>
        in case wbuf obj of
             None \<Rightarrow> Inr obj
           | Some w \<Rightarrow> bnd (of_wire_buffer_grow (Some w) (bytes + obj_offset obj)) (\<lambda>w.
                Inr (obj\<lparr>wbuf := Some w\<rparr>))))"

definition of_object_init_map :: "int \<Rightarrow> of_object \<Rightarrow> int \<Rightarrow> int \<Rightarrow> bool \<Rightarrow> of_object res" where
  "of_object_init_map i obj version bytes clean_wire =
     (if i = 0 then Inl NullDeref
      else if 1 \<le> i \<and> i \<le> 682 then of_object_init i obj version bytes clean_wire
      else Inl OutOfBounds)"

text \<open>An id getter applied to an object: its pointer is the object's place in the buffer.\<close>

definition object_getter :: "(int \<Rightarrow> getter) \<Rightarrow> of_object \<Rightarrow> int res" where
  "object_getter d obj =
     (case wbuf obj of
        None \<Rightarrow> Inl NullDeref
      | Some w \<Rightarrow>
          (case wbuf_buf w of
             None \<Rightarrow> Inl NullDeref
           | Some b \<Rightarrow> d (obj_version obj) b (obj_offset obj)))"

definition OF_VERSION_OKAY :: "int \<Rightarrow> bool" where
  "OF_VERSION_OKAY v \<longleftrightarrow> v \<ge> 1 \<and> v \<le> 5"

definition of_object_new_from_message :: "bool \<Rightarrow> bool \<Rightarrow> byte list \<Rightarrow> int \<Rightarrow> of_object option res" where
  "of_object_new_from_message got_obj got_wbuf msg len =
     bnd (of_message_version_get msg) (\<lambda>v. let version = uint v in
     if \<not> OF_VERSION_OKAY version then Inr None
     else bnd (of_validate_message msg len) (\<lambda>ret.
     if ret \<noteq> 0 then Inr None
     else (case of_object_new got_obj got_wbuf \<lparr>granted = False, junk = (\<lambda>_. 0)\<rparr> (-1) of
       None \<Rightarrow> Inr None
     | Some obj \<Rightarrow>
         bnd (of_object_buffer_bind got_wbuf obj (Some msg) len) (\<lambda>(rc, obj).
         if rc < 0 then Inr None
         else let obj = obj\<lparr>obj_version := version\<rparr> in
           bnd (object_getter of_header_wire_object_id_get obj) (\<lambda>i.
           bnd (of_object_init_map i obj version len False) (\<lambda>obj.
           Inr (Some obj)))))))"

text \<open>The variant that fills caller-supplied storage, zeroed first; it leaves the length to the initialiser.\<close>

definition of_object_new_from_message_preallocated :: "byte list \<Rightarrow> int \<Rightarrow> of_object option res" where
  "of_object_new_from_message_preallocated buf len =
     bnd (of_message_version_get buf) (\<lambda>v. let version = uint v in
     if \<not> OF_VERSION_OKAY version then Inr None
     else bnd (of_validate_message buf len) (\<lambda>ret.
     if ret \<noteq> 0 then Inr None
     else let obj = zero_object\<lparr>obj_version := version,
            wbuf := Some \<lparr>wbuf_buf = Some buf, alloc_bytes = len, current_bytes = len\<rparr>\<rparr> in
       bnd (object_getter of_header_wire_object_id_get obj) (\<lambda>i.
       bnd (of_object_init_map i obj version len False) (\<lambda>obj.
       Inr (Some obj)))))"

definition of_object_wire_buffer_steal :: "of_object \<Rightarrow> (byte list option \<times> of_object) res" where
  "of_object_wire_buffer_steal obj =
     (case wbuf obj of
        None \<Rightarrow> Inl NullDeref
      | Some w \<Rightarrow> Inr (of_wire_buffer_steal w, obj\<lparr>wbuf := None\<rparr>))"

definition of_object_truncate :: "of_object \<Rightarrow> of_object res" where
  "of_object_truncate obj =
     bnd (of_object_init_map (object_id obj) obj (obj_version obj) (-1) False) (\<lambda>obj.
     case wbuf obj of
       None \<Rightarrow> Inl NullDeref
     | Some w \<Rightarrow> Inr (obj\<lparr>wbuf := Some (w\<lparr>current_bytes := obj_length obj\<rparr>)\<rparr>))"

definition of_object_dup :: "bool \<Rightarrow> bool \<Rightarrow> byte heap_reply \<Rightarrow> of_object \<Rightarrow> of_object option res" where
  "of_object_dup got_obj got_wbuf h src =
     (if \<not> got_obj then Inr None
      else case of_wire_buffer_new got_wbuf h (nat (obj_length src)) of
        None \<Rightarrow> Inr None
      | Some w \<Rightarrow>
          bnd (of_object_init_map (object_id src) (zero_object\<lparr>wbuf := Some w\<rparr>) (obj_version src)
                 (obj_length src) False) (\<lambda>dst.
          case (wbuf src, wbuf dst) of
            (Some ws, Some wd) \<Rightarrow>
              (case (wbuf_buf ws, wbuf_buf wd) of
                 (Some bs, Some bd) \<Rightarrow>
                   bnd (rd_block bs (obj_offset src) (nat (obj_length src))) (\<lambda>xs.
                   bnd (wr_block bd (obj_offset dst) xs) (\<lambda>bd.
                   Inr (Some (dst\<lparr>wbuf := Some (wd\<lparr>wbuf_buf := Some bd\<rparr>)\<rparr>))))
               | _ \<Rightarrow> Inl NullDeref)
          | _ \<Rightarrow> Inl NullDeref))"

subsection \<open>Fields and room\<close>

definition of_object_can_grow :: "of_object \<Rightarrow> int \<Rightarrow> bool res" where
  "of_object_can_grow obj new_len =
     (case wbuf obj of
        None \<Rightarrow> Inl NullDeref
      | Some w \<Rightarrow> Inr (obj_offset obj + new_len \<le> alloc_bytes w))"

definition of_object_xid_set :: "of_object \<Rightarrow> 32 word \<Rightarrow> (int \<times> of_object) res" where
  "of_object_xid_set obj xid =
     (if wbuf obj = None then Inr (OF_ERROR_PARAM, obj)
      else bnd (of_wire_buffer_u32_set (wbuf obj) (obj_offset obj + 4) xid) (\<lambda>w.
           Inr (OF_ERROR_NONE, obj\<lparr>wbuf := Some w\<rparr>)))"

definition of_object_xid_get :: "of_object \<Rightarrow> (int \<times> 32 word option) res" where
  "of_object_xid_get obj =
     (if wbuf obj = None then Inr (OF_ERROR_PARAM, None)
      else bnd (of_wire_buffer_u32_get (wbuf obj) (obj_offset obj + 4)) (\<lambda>x. Inr (OF_ERROR_NONE, Some x)))"

subsection \<open>Lists\<close>

definition of_object_attach :: "of_object \<Rightarrow> of_object \<Rightarrow> int \<Rightarrow> int \<Rightarrow> of_object" where
  "of_object_attach parent child offset len =
     child\<lparr>wbuf := wbuf parent, obj_offset := obj_offset parent + offset, obj_length := len, has_parent := True\<rparr>"

definition of_list_first :: "of_object \<Rightarrow> of_object \<Rightarrow> int \<times> of_object" where
  "of_list_first parent child =
     (if obj_length parent = 0 then (OF_ERROR_RANGE, child)
      else (OF_ERROR_NONE, of_object_attach parent child 0 (obj_length child)))"

definition of_list_is_last :: "of_object \<Rightarrow> of_object \<Rightarrow> bool" where
  "of_list_is_last parent child \<longleftrightarrow>
     obj_offset child + obj_length child \<ge> obj_offset parent + obj_length parent"

definition of_list_next :: "of_object \<Rightarrow> of_object \<Rightarrow> (int \<times> of_object) res" where
  "of_list_next parent child =
     c_assert (obj_length child > 0)
       (if of_list_is_last parent child then Inr (OF_ERROR_RANGE, child)
        else Inr (OF_ERROR_NONE, of_object_attach parent child
                (obj_offset child - obj_offset parent + obj_length child) (obj_length child)))"


subsection \<open>Messages that validate can be turned into objects\<close>

lemma fixed_len_tables:
  "length of_object_fixed_len_v1 = 683" "length of_object_fixed_len_v2 = 683"
  "length of_object_fixed_len_v3 = 683" "length of_object_fixed_len_v4 = 683"
  "length of_object_fixed_len_v5 = 683"
  "hd of_object_fixed_len_v1 = -1" "hd of_object_fixed_len_v2 = -1" "hd of_object_fixed_len_v3 = -1"
  "hd of_object_fixed_len_v4 = -1" "hd of_object_fixed_len_v5 = -1"
  by code_simp+

lemma fixed_len_shape:
  assumes "of_object_fixed_len version i = Inr n" and "version \<in> {1..5}"
  shows "\<exists>t. rd t i = Inr n \<and> length t = 683 \<and> hd t = -1"
proof -
  have "version = 1 \<or> version = 2 \<or> version = 3 \<or> version = 4 \<or> version = 5"
    using assms(2) by auto
  then show ?thesis
    using assms(1) fixed_len_tables by (auto simp: of_object_fixed_len_def split: if_splits)
qed

lemma instantiable_range:
  assumes "instantiable version i"
  shows "1 \<le> i \<and> i \<le> 682"
proof -
  obtain n where n: "of_object_fixed_len version i = Inr n" "0 \<le> n"
    using assms by (auto simp: instantiable_def split: sum.splits)
  then have "version \<in> {1..5}"
    by (auto simp: of_object_fixed_len_def split: if_splits)
  then obtain t where t: "rd t i = Inr n" "length t = 683" "hd t = -1"
    using fixed_len_shape [OF n(1)] by blast
  have "0 \<le> i" "i < 683" "n = t ! nat i"
    using t by (auto simp: rd_Inr)
  moreover have "i \<noteq> 0"
    using n(2) t \<open>n = t ! nat i\<close> by (cases t) auto
  ultimately show ?thesis
    by simp
qed

lemma of_object_init_instantiable:
  assumes "instantiable version i" and "wbuf obj = Some w" and "wbuf_buf w = Some b"
    and "bytes + obj_offset obj \<le> current_bytes w" and "0 \<le> bytes" and "current_bytes w \<le> alloc_bytes w"
  shows "of_object_init_map i obj version bytes False =
    Inr (obj\<lparr>obj_version := version, obj_length := bytes, object_id := i\<rparr>)"
proof -
  obtain n where "of_object_fixed_len version i = Inr n" "0 \<le> n"
    using assms(1) by (auto simp: instantiable_def split: sum.splits)
  then show ?thesis
    using instantiable_range [OF assms(1)] assms(2-)
    by (simp add: of_object_init_map_def of_object_init_def of_wire_buffer_grow_def Let_def)
qed

lemma header_getter_ok:
  assumes "of_validate_message msg len = Inr 0" and "len \<le> int (length msg)"
  shows "8 \<le> len \<and> OF_VERSION_OKAY (uint (msg ! 0)) \<and>
    getter_ok (uint (msg ! 0)) (of_header_wire_object_id_get (uint (msg ! 0))) msg 0 len"
proof -
  have "8 \<le> len"
    using assms(1) by (auto simp: of_validate_message_def bnd_Inr split: if_splits)
  then have "8 \<le> length msg"
    using assms(2) by simp
  from of_validate_message_accepts [OF this] assms(1) obtain v n where
    v: "header_validator (uint (msg ! 0)) = Some v" "v msg 0 len = Inr (Some n)"
    by blast
  then have "OF_VERSION_OKAY (uint (msg ! 0))" and
    "covered (uint (msg ! 0)) v (of_header_wire_object_id_get (uint (msg ! 0)))"
    by (auto simp: header_validator_def OF_VERSION_OKAY_def c_proved split: if_splits)
  then show ?thesis
    using v(2) assms(2) \<open>8 \<le> len\<close> by (auto simp: covered_def)
qed

text \<open>What is known of an object made from the first \<open>len\<close> bytes of a message block.\<close>

definition object_of_message :: "byte list \<Rightarrow> int \<Rightarrow> of_object \<Rightarrow> bool" where
  "object_of_message msg len obj \<longleftrightarrow>
     wbuf obj = Some \<lparr>wbuf_buf = Some msg, alloc_bytes = len, current_bytes = len\<rparr> \<and>
     obj_offset obj = 0 \<and> obj_length obj = len \<and> obj_version obj = uint (msg ! 0) \<and> \<not> has_parent obj \<and>
     of_header_wire_object_id_get (uint (msg ! 0)) msg 0 = Inr (object_id obj) \<and> fits (uint (msg ! 0)) (object_id obj) len"

lemma new_from_message_valid:
  assumes "of_validate_message msg len = Inr 0" and "len \<le> int (length msg)"
  shows "\<exists>obj. of_object_new_from_message True True msg len = Inr (Some obj) \<and> object_of_message msg len obj"
    and "\<exists>obj. of_object_new_from_message_preallocated msg len = Inr (Some obj) \<and> object_of_message msg len obj"
proof -
  let ?v = "uint (msg ! 0)"
  have h: "8 \<le> len" "OF_VERSION_OKAY ?v" "getter_ok ?v (of_header_wire_object_id_get ?v) msg 0 len"
    using header_getter_ok [OF assms] by auto
  then obtain i where i: "of_header_wire_object_id_get ?v msg 0 = Inr i" "fits ?v i len"
    by (auto simp: getter_ok_def split: sum.splits)
  have ver: "of_message_version_get msg = Inr (msg ! 0)"
    using header_reads(1) [of msg] h(1) assms(2) by simp
  let ?w = "\<lparr>wbuf_buf = Some msg, alloc_bytes = len, current_bytes = len\<rparr>"
  have init: "of_object_init_map i obj ?v len False =
      Inr (obj\<lparr>obj_version := ?v, obj_length := len, object_id := i\<rparr>)"
    if "wbuf obj = Some ?w" "obj_offset obj = 0" for obj
    using that h(1) by (intro of_object_init_instantiable [OF fits_instantiable [OF i(2)], where w = ?w and b = msg]) simp_all
  show "\<exists>obj. of_object_new_from_message True True msg len = Inr (Some obj) \<and> object_of_message msg len obj"
    using ver h assms i init
    by (simp add: of_object_new_from_message_def Let_def of_object_new_def of_object_buffer_bind_def
        of_wire_buffer_new_bind_def zero_object_def object_getter_def object_of_message_def)
  show "\<exists>obj. of_object_new_from_message_preallocated msg len = Inr (Some obj) \<and> object_of_message msg len obj"
    using ver h assms i init
    by (simp add: of_object_new_from_message_preallocated_def Let_def zero_object_def object_getter_def
        object_of_message_def)
qed

lemma new_from_message_result:
  assumes "4 \<le> length msg" and "len \<le> int (length msg)"
  shows "\<exists>r. of_object_new_from_message got_obj got_wbuf msg len = Inr r \<and>
    (r = None \<longleftrightarrow> \<not> (got_obj \<and> got_wbuf \<and> of_validate_message msg len = Inr 0)) \<and>
    (\<forall>obj. r = Some obj \<longrightarrow> object_of_message msg len obj)"
proof (cases "got_obj \<and> got_wbuf \<and> of_validate_message msg len = Inr 0")
  case True
  then show ?thesis
    using new_from_message_valid(1) assms(2) by fastforce
next
  case False
  have ver: "of_message_version_get msg = Inr (msg ! 0)"
    using assms(1) rd_of_nat [of 0 msg] by (simp add: of_message_version_get_def del: length_greater_0_conv)
  have "of_object_new_from_message got_obj got_wbuf msg len = Inr None"
  proof (cases "of_validate_message msg len = Inr 0")
    case True
    then have "8 \<le> len"
      using header_getter_ok assms(2) by blast
    then show ?thesis
      using True False ver by (auto simp: of_object_new_from_message_def Let_def of_object_new_def
          of_object_buffer_bind_def of_wire_buffer_new_bind_def)
  next
    case f: False
    then have "of_validate_message msg len = Inr (-1)"
      using of_validate_message_total [OF assms] by blast
    then show ?thesis
      using ver by (simp add: of_object_new_from_message_def Let_def)
  qed
  then show ?thesis
    using False by simp
qed

subsection \<open>Walking a list\<close>

text \<open>A child inside the list: both extents positive where the code asserts it, the child within the parent.\<close>

definition child_in :: "of_object \<Rightarrow> of_object \<Rightarrow> bool" where
  "child_in parent child \<longleftrightarrow> obj_offset parent \<le> obj_offset child \<and>
     obj_offset child < obj_offset parent + obj_length parent"

text \<open>
  The loop the list macros make of the two functions: visit children until the code is not
  \<open>OF_ERROR_NONE\<close>. The length of each element is read from the wire, here a function of its
  offset; the list of the visited offsets is the result.
\<close>

fun of_list_walk :: "nat \<Rightarrow> (int \<Rightarrow> int) \<Rightarrow> of_object \<Rightarrow> int \<times> of_object \<Rightarrow> int list res" where
  "of_list_walk 0 wire_len parent (rv, child) = Inl Diverges"
| "of_list_walk (Suc fuel) wire_len parent (rv, child) =
     (if rv \<noteq> OF_ERROR_NONE then Inr []
      else bnd (of_list_next parent (child\<lparr>obj_length := wire_len (obj_offset child)\<rparr>)) (\<lambda>st.
           bnd (of_list_walk fuel wire_len parent st) (\<lambda>os. Inr (obj_offset child # os))))"

text \<open>Offsets that start at \<open>p\<close> and each lie one element length behind the one before; the next would be \<open>e\<close>.\<close>

fun chain :: "(int \<Rightarrow> int) \<Rightarrow> int \<Rightarrow> int list \<Rightarrow> int \<Rightarrow> bool" where
  "chain wire_len p [] e \<longleftrightarrow> e = p"
| "chain wire_len p (q # qs) e \<longleftrightarrow> q = p \<and> chain wire_len (p + wire_len p) qs e"

lemma of_list_next_cases:
  assumes "0 < obj_length child"
  shows "of_list_next parent child =
    (if obj_offset parent + obj_length parent \<le> obj_offset child + obj_length child
     then Inr (OF_ERROR_RANGE, child)
     else Inr (OF_ERROR_NONE, child\<lparr>wbuf := wbuf parent,
            obj_offset := obj_offset child + obj_length child, has_parent := True\<rparr>))"
  using assms by (simp add: of_list_next_def of_list_is_last_def of_object_attach_def)

text \<open>
  What a walk ends with: every element before \<open>e\<close> visited, or stuck at an element whose length is not
  positive.
\<close>

definition walk_ends :: "(int \<Rightarrow> int) \<Rightarrow> int \<Rightarrow> int \<Rightarrow> int list res \<Rightarrow> bool" where
  "walk_ends wire_len p e r =
     (case r of
        Inr os \<Rightarrow> (\<exists>q. chain wire_len p os q \<and> (\<forall>x\<in>set os. x < e \<and> 0 < wire_len x) \<and> e \<le> q)
      | Inl x \<Rightarrow> x = AssertFail \<and>
          (\<exists>os q. chain wire_len p os q \<and> (\<forall>x\<in>set os. x < e \<and> 0 < wire_len x) \<and> q < e \<and> wire_len q \<le> 0))"

lemma walk_ends_Cons:
  assumes "walk_ends wire_len (p + wire_len p) e r" and "0 < wire_len p" and "p < e"
  shows "walk_ends wire_len p e (bnd r (\<lambda>os. Inr (p # os)))"
proof (cases r)
  case (Inl x)
  then obtain os q where "chain wire_len (p + wire_len p) os q" "\<forall>x\<in>set os. x < e \<and> 0 < wire_len x"
    "q < e" "wire_len q \<le> 0" "x = AssertFail"
    using assms(1) by (auto simp: walk_ends_def)
  then show ?thesis
    using assms(2,3) Inl by (auto simp: walk_ends_def intro!: exI [of _ "p # os"])
qed (use assms in \<open>simp add: walk_ends_def\<close>)

lemma of_list_walk_ends:
  assumes "obj_offset parent + obj_length parent - obj_offset child < int fuel" and "child_in parent child"
  shows "walk_ends wire_len (obj_offset child) (obj_offset parent + obj_length parent)
    (of_list_walk (Suc fuel) wire_len parent (OF_ERROR_NONE, child))"
  using assms
proof (induction fuel arbitrary: child)
  case 0
  then show ?case
    by (simp add: child_in_def)
next
  case (Suc fuel)
  let ?n = "wire_len (obj_offset child)" and ?e = "obj_offset parent + obj_length parent"
  let ?c = "child\<lparr>obj_length := ?n\<rparr>" and ?d = "child\<lparr>obj_length := ?n, wbuf := wbuf parent,
      obj_offset := obj_offset child + ?n, has_parent := True\<rparr>"
  consider (stuck) "?n \<le> 0" | (last) "0 < ?n" "?e \<le> obj_offset child + ?n" | (more) "0 < ?n" "obj_offset child + ?n < ?e"
    by linarith
  then show ?case
  proof cases
    case stuck
    then have "of_list_next parent ?c = Inl AssertFail"
      by (simp add: of_list_next_def c_assert_def)
    then show ?thesis
      using stuck Suc.prems(2)
      by (auto simp: walk_ends_def child_in_def intro!: exI [of _ "[]"] exI [of _ "obj_offset child"])
  next
    case last
    then show ?thesis
      using Suc.prems(2) of_list_next_cases [of ?c parent] by (simp add: child_in_def walk_ends_def)
  next
    case more
    then have nx: "of_list_next parent ?c = Inr (OF_ERROR_NONE, ?d)"
      using of_list_next_cases [of ?c parent] by simp
    have "walk_ends wire_len (obj_offset ?d) ?e (of_list_walk (Suc fuel) wire_len parent (OF_ERROR_NONE, ?d))"
      using Suc.prems more by (intro Suc.IH) (simp_all add: child_in_def)
    then show ?thesis
      using walk_ends_Cons more(1) Suc.prems(2) nx by (simp add: child_in_def)
  qed
qed

subsection \<open>Properties\<close>

text \<open>C8: Making an object from a raw message never faults, whatever the bytes (the block holding the
  first four and the given length): the result is no object exactly when the message does not
  validate or memory is refused, and otherwise an object whose buffer is the message, whose length
  and version are the message's, and whose id is what the id getter reads from it, that of a class of the version whose fixed
  part fits the message.\<close>

theorem of_object_new_from_message_safe:
  assumes "4 \<le> length msg" and "len \<le> int (length msg)"
  shows "\<exists>r. of_object_new_from_message got_obj got_wbuf msg len = Inr r \<and>
    (r = None \<longleftrightarrow> \<not> (got_obj \<and> got_wbuf \<and> of_validate_message msg len = Inr 0)) \<and>
    (\<forall>obj. r = Some obj \<longrightarrow> object_of_message msg len obj)"
  by (rule new_from_message_result [OF assms])

lemma of_object_new_from_message_safe_witness:
  "\<exists>obj. of_object_new_from_message True True sample_flow_mod 80 = Inr (Some obj) \<and> obj_length obj = 80"
proof -
  have "of_validate_message sample_flow_mod 80 = Inr 0"
    by code_simp
  moreover have "length sample_flow_mod = 80"
    by (simp add: sample_flow_mod_def)
  ultimately show ?thesis
    using of_object_new_from_message_safe [of sample_flow_mod 80 True True]
    by (auto simp: object_of_message_def)
qed

text \<open>On an object made from a message, setting the transaction id succeeds, the id then reads as
  set, and the message keeps its length and its other 32-bit fields.\<close>

theorem of_object_xid_set_get:
  assumes "object_of_message msg len obj" and "8 \<le> len" and "len \<le> int (length msg)"
  shows "\<exists>obj'. of_object_xid_set obj xid = Inr (OF_ERROR_NONE, obj') \<and>
    of_object_xid_get obj' = Inr (OF_ERROR_NONE, Some xid) \<and> obj_length obj' = len \<and>
    (\<forall>q. q + 4 \<le> 4 \<or> 8 \<le> q \<longrightarrow>
       of_wire_buffer_u32_get (wbuf obj') q = of_wire_buffer_u32_get (wbuf obj) q)"
proof -
  let ?w = "\<lparr>wbuf_buf = Some msg, alloc_bytes = len, current_bytes = len\<rparr>"
  have w: "wbuf obj = Some ?w" "obj_offset obj = 0" "obj_length obj = len"
    using assms(1) by (simp_all add: object_of_message_def)
  have "wbuf_wf ?w" "0 \<le> (4 :: int)" "4 + int 4 \<le> current_bytes ?w"
    using assms(2,3) by (simp_all add: wbuf_wf_def)
  from u32.checked_set_ok [OF this, of xid] obtain w' where
    w': "of_wire_buffer_u32_set (Some ?w) 4 xid = Inr w'" "of_wire_buffer_u32_get (Some w') 4 = Inr xid"
      "\<And>q. q + 4 \<le> 4 \<or> 8 \<le> q \<Longrightarrow> of_wire_buffer_u32_get (Some w') q = of_wire_buffer_u32_get (Some ?w) q"
    by (auto simp: of_wire_buffer_u32_set_def of_wire_buffer_u32_get_def)
  then show ?thesis
    using w by (simp add: of_object_xid_set_def of_object_xid_get_def)
qed

lemma of_object_xid_set_get_witness:
  "\<exists>obj obj'. of_object_new_from_message True True [1, 0, 0, 8, 0, 0, 0, 9] 8 = Inr (Some obj) \<and>
     of_object_xid_set obj 7 = Inr (0, obj') \<and> of_object_xid_get obj' = Inr (0, Some 7)"
proof -
  have "of_validate_message [1, 0, 0, 8, 0, 0, 0, 9] 8 = Inr 0"
    by code_simp
  then obtain obj where
    obj: "of_object_new_from_message True True [1, 0, 0, 8, 0, 0, 0, 9] 8 = Inr (Some obj)"
      "object_of_message [1, 0, 0, 8, 0, 0, 0, 9] 8 obj"
    using new_from_message_valid(1) by fastforce
  with of_object_xid_set_get [OF obj(2), of 7] show ?thesis
    by auto
qed

text \<open>Walking a list ends: either the elements are visited one behind the other from the list's
  start to its end, each exactly once, or the walk reaches an element whose length is not positive
  and stops there at an assertion.\<close>

theorem of_list_walk_visits:
  assumes "0 < obj_length parent" and "obj_length parent < int fuel"
  shows "walk_ends wire_len (obj_offset parent) (obj_offset parent + obj_length parent)
    (of_list_walk (Suc fuel) wire_len parent (of_list_first parent child))"
  using of_list_walk_ends [of parent "of_object_attach parent child 0 (obj_length child)" fuel wire_len] assms
  by (simp add: of_list_first_def of_object_attach_def child_in_def del: of_list_walk.simps)

lemma of_list_walk_visits_witness:
  "walk_ends (\<lambda>q. 8) 72 96 (Inr [72, 80, 88]) \<and>
   walk_ends (\<lambda>q. 8) 72 96 (of_list_walk 31 (\<lambda>q. 8) (zero_object\<lparr>obj_offset := 72, obj_length := 24\<rparr>)
       (of_list_first (zero_object\<lparr>obj_offset := 72, obj_length := 24\<rparr>) zero_object))"
  using of_list_walk_visits [of "zero_object\<lparr>obj_offset := 72, obj_length := 24\<rparr>" 30 "\<lambda>q. 8" zero_object]
  by (simp add: walk_ends_def eval_nat_numeral del: of_list_walk.simps)

end
