(* ===== verification/Action.thy ===== *)
theory Action
  imports Object Rules
begin

text \<open>
  What the proxy does to one message, \<^verbatim>\<open>mproxy/src/action.c\<close> with the macros of
  \<^verbatim>\<open>attack.h\<close>: look the message up in the two tables, drop it, have it sent several
  times, or pass it through an OpenFlow object. The first components are the tables of the rules,
  the last the message forwarded.
\<close>

text \<open>The outcomes the environment decides: the value of \<open>rand()\<close> and of each allocation.\<close>

record inject_env =
  rand_val :: int
  got_object :: bool
  got_wire_buffer :: bool
  got_stream :: bool
  stream_mem :: "byte heap_reply"
  append_mem :: "byte heap_reply"

definition env_granted :: "inject_env \<Rightarrow> bool" where
  "env_granted e \<longleftrightarrow> 0 \<le> rand_val e \<and> got_object e \<and> got_wire_buffer e \<and> got_stream e \<and>
     granted (stream_mem e) \<and> granted (append_mem e)"

definition is_valid_ofp_header :: "32 word \<Rightarrow> 32 word \<Rightarrow> bool" where
  "is_valid_ofp_header v t \<longleftrightarrow> v \<le> 5 \<and> t \<le> 34"

text \<open>
  The macros index the tables with \<open>v - 1\<close>, an \<open>unsigned int\<close>. The percentage is a \<open>char\<close>
  assigned to an \<open>unsigned int\<close>.
\<close>

definition should_drop_msg :: "rule_tables \<Rightarrow> 32 word \<Rightarrow> 32 word \<Rightarrow> 32 word res" where
  "should_drop_msg T v m = bnd (tab_get (drop_tab T) (uint (v - 1)) (uint m)) (\<lambda>p. Inr (scast p))"

definition should_dup_msg :: "rule_tables \<Rightarrow> 32 word \<Rightarrow> 32 word \<Rightarrow> byte res" where
  "should_dup_msg T v m = tab_get (dup_tab T) (uint (v - 1)) (uint m)"

text \<open>
  \<open>ret = stream_new(n); stream_append(ret, src, n)\<close>: a refused stream is passed on as null, the
  result of the append is not looked at.
\<close>

definition copy_out :: "inject_env \<Rightarrow> byte list \<Rightarrow> nat \<Rightarrow> byte stream res" where
  "copy_out e src n =
     (case stream_new (got_stream e) (stream_mem e) n of
        None \<Rightarrow> Inl NullDeref
      | Some s \<Rightarrow> bnd (stream_append (append_mem e) s src n) (\<lambda>(rc, s'). Inr s'))"

text \<open>
  The handler: the stream to forward, if any, and the caller's \<open>dup_count\<close>, unset (\<open>None\<close>) until
  the duplication table is consulted. \<open>data\<close> is the memory from the message's first byte on.
\<close>

definition action_inject ::
  "inject_env \<Rightarrow> rule_tables \<Rightarrow> byte list \<Rightarrow> 16 word \<Rightarrow> byte option \<Rightarrow> (byte stream option \<times> byte option) res" where
  "action_inject e T data len dup_count =
     bnd (rd data 0) (\<lambda>d0. bnd (rd data 1) (\<lambda>d1.
     let ofp_ver = ucast d0; msg_type = ucast d1 in
     if \<not> is_valid_ofp_header ofp_ver msg_type then Inr (None, dup_count)
     else bnd (should_drop_msg T ofp_ver msg_type) (\<lambda>ptmp.
     if ptmp \<noteq> 0 \<and> word_of_int (rand_val e mod 100) < ptmp then Inr (None, dup_count)
     else bnd (should_dup_msg T ofp_ver msg_type) (\<lambda>d.
     if d \<noteq> 0 then bnd (copy_out e data (unat len)) (\<lambda>ret. Inr (Some ret, Some d))
     else
       bnd (of_object_new_from_message (got_object e) (got_wire_buffer e) data (uint len)) (\<lambda>r.
       case r of
         None \<Rightarrow> Inl NullDeref
       | Some obj \<Rightarrow>
           (case wbuf obj of
              None \<Rightarrow> Inl NullDeref
            | Some w \<Rightarrow>
                (case wbuf_buf w of
                   None \<Rightarrow> Inl NullDeref
                 | Some buf \<Rightarrow>
                     bnd (copy_out e buf (nat (current_bytes w))) (\<lambda>ret. Inr (Some ret, Some d)))))))))"

subsection \<open>Copies\<close>

lemma copy_out_ok:
  assumes "env_granted e" and "n \<le> length src"
  obtains s where "copy_out e src n = Inr s" "stream_wf s" "contents s = take n src"
proof -
  obtain s where s: "stream_new (got_stream e) (stream_mem e) n = Some s"
    using assms(1) by (auto simp: env_granted_def stream_new_def malloc_def)
  have wf: "stream_wf s" "contents s = []" "scap s = n"
    using stream_new_wf [OF s] by simp_all
  have g: "granted (append_mem e)"
    using assms(1) by (simp add: env_granted_def)
  show thesis
    by (rule stream_append_cases [OF wf(1) assms(2), where h = "append_mem e"])
       (use g s wf that in \<open>auto simp: copy_out_def\<close>)
qed

lemma copy_out_total:
  assumes "n \<le> length src"
  shows "copy_out e src n = Inl NullDeref \<or> (\<exists>s. copy_out e src n = Inr s \<and> stream_wf s)"
proof (cases "stream_new (got_stream e) (stream_mem e) n")
  case None
  then show ?thesis
    by (simp add: copy_out_def)
next
  case (Some s)
  have wf: "stream_wf s"
    using stream_new_wf [OF Some] by simp
  show ?thesis
    by (rule stream_append_cases [OF wf assms, where h = "append_mem e"]) (auto simp: Some copy_out_def wf)
qed

subsection \<open>Table look-ups\<close>

lemma uint_le_hundred: "unat (p :: byte) \<le> 100 \<Longrightarrow> uint p \<le> 100"
  by (simp only: uint_nat)

lemma scast_small: "unat (p :: byte) \<le> 100 \<Longrightarrow> (scast p :: 32 word) = word_of_int (uint p)"
proof -
  assume "unat p \<le> 100"
  then have "0 \<le> uint p" "uint p \<le> 100"
    by (simp_all add: uint_le_hundred)
  then have "sint p = uint p"
    using order_trans [OF _ uint_ge_0 [of p], of "- (2 ^ 7)"]
    by (simp add: sint_uint signed_take_bit_int_eq_self)
  then show ?thesis
    by (simp add: scast_eq)
qed

lemma header_index:
  assumes "1 \<le> uint v" and "uint v \<le> 5" and "uint m \<le> 34"
  shows "is_valid_ofp_header (ucast (v :: byte)) (ucast (m :: byte))"
    "uint ((ucast v :: 32 word) - 1) = uint v - 1" "uint (ucast m :: 32 word) = uint m"
    "(uint v - 1, uint m) \<in> grid_cells"
proof -
  have v: "uint (ucast v :: 32 word) = uint v"
    using assms by (simp add: unsigned_ucast_eq take_bit_int_eq_self)
  show m: "uint (ucast m :: 32 word) = uint m"
    using assms by (simp add: unsigned_ucast_eq take_bit_int_eq_self)
  show "is_valid_ofp_header (ucast v) (ucast m)"
    using assms v m by (simp add: is_valid_ofp_header_def word_le_def)
  show "uint ((ucast v :: 32 word) - 1) = uint v - 1"
    using assms v by (simp add: uint_sub_if')
  show "(uint v - 1, uint m) \<in> grid_cells"
    using assms by (simp add: grid_cells_def)
qed

lemma policy_lookup:
  assumes "tables_wf T" and "1 \<le> uint v" "uint v \<le> 5" "uint (m :: byte) \<le> 34"
    and "policy_of T (uint v - 1, uint m) = (p, d)"
  shows "should_drop_msg T (ucast (v :: byte)) (ucast m) = Inr (word_of_int p)" "0 \<le> p" "p \<le> 100"
    and "should_dup_msg T (ucast v) (ucast m) = Inr (word_of_int d)" "0 \<le> d" "d < 256"
proof -
  note i = header_index [OF assms(2-4)]
  have sh: "table_shape (drop_tab T)" "table_shape (dup_tab T)" "table_le 100 (drop_tab T)"
    using assms(1) by (simp_all add: tables_wf_def)
  obtain x y where x: "tab_get (drop_tab T) (uint v - 1) (uint m) = Inr x"
    and y: "tab_get (dup_tab T) (uint v - 1) (uint m) = Inr y"
    using tab_get_eq [OF sh(1) i(4)] tab_get_eq [OF sh(2) i(4)] by blast
  have le: "unat x \<le> 100"
    by (rule table_le_get [OF sh(3) i(4) x])
  have pd: "p = uint x" "d = uint y"
    using assms(5) by (simp_all add: policy_of_def cell_val_def x y)
  show "should_drop_msg T (ucast v) (ucast m) = Inr (word_of_int p)"
    using i x scast_small [OF le] by (simp add: should_drop_msg_def pd)
  show "0 \<le> p" "p \<le> 100"
    using uint_le_hundred [OF le] by (simp_all add: pd)
  show "should_dup_msg T (ucast v) (ucast m) = Inr (word_of_int d)"
    using i y by (simp add: should_dup_msg_def pd)
  show "0 \<le> d" "d < 256"
    using uint_lt2p [of y] by (simp_all add: pd)
qed

lemma drop_decision:
  assumes "0 \<le> p" "p \<le> 100"
  shows "(word_of_int p \<noteq> (0 :: 32 word) \<and> word_of_int (r mod 100) < (word_of_int p :: 32 word)) \<longleftrightarrow> r mod 100 < p"
proof -
  have r: "0 \<le> r mod 100" "r mod 100 < 100"
    by simp_all
  have u: "uint (word_of_int x :: 32 word) = x" if "0 \<le> x" "x \<le> 100" for x
    using that by (simp add: uint_word_of_int)
  have "word_of_int (r mod 100) < (word_of_int p :: 32 word) \<longleftrightarrow> r mod 100 < p"
    using u [of p] u [of "r mod 100"] r assms by (simp add: word_less_def)
  moreover have "word_of_int p \<noteq> (0 :: 32 word)" if "r mod 100 < p"
    using u [of p] r that assms by (metis leD unsigned_0)
  ultimately show ?thesis
    by blast
qed

text \<open>A message outside the tables: too new, of an unknown type, or of version 0.\<close>

lemma action_inject_invalid:
  assumes "2 \<le> length data" and "\<not> is_valid_ofp_header (ucast (data ! 0)) (ucast (data ! 1))"
  shows "action_inject e T data len dup_count = Inr (None, dup_count)"
  using assms rd_of_nat [of 0 data] rd_of_nat [of 1 data]
  by (auto simp: action_inject_def Let_def rd_def)

lemma is_valid_ofp_header_bytes:
  "is_valid_ofp_header (ucast (v :: byte)) (ucast (m :: byte)) \<longleftrightarrow> uint v \<le> 5 \<and> uint m \<le> 34"
proof -
  have "uint (ucast x :: 32 word) = uint x" for x :: byte
    using uint_lt2p [of x] by (simp add: unsigned_ucast_eq take_bit_int_eq_self)
  then show ?thesis
    by (simp add: is_valid_ofp_header_def word_le_def)
qed

lemma action_forwards:
  assumes "tables_wf T" and "env_granted e" and "4 \<le> length data" and "uint len \<le> int (length data)"
    and "1 \<le> uint (data ! 0)" "uint (data ! 0) \<le> 5" and "uint (data ! 1) \<le> 34"
    and "policy_of T (uint (data ! 0) - 1, uint (data ! 1)) = (p, d)"
  shows "if rand_val e mod 100 < p then action_inject e T data len dup_count = Inr (None, dup_count)
    else if d = 0 \<and> of_validate_message data (uint len) \<noteq> Inr 0
      then action_inject e T data len dup_count = Inl NullDeref
    else \<exists>s. action_inject e T data len dup_count = Inr (Some s, Some (word_of_int d)) \<and>
      stream_wf s \<and> contents s = take (unat len) data"
proof -
  note P = policy_lookup [OF assms(1,5-8)]
  note D = drop_decision [OF P(2,3), of "rand_val e"]
  have rd: "rd data 0 = Inr (data ! 0)" "rd data 1 = Inr (data ! 1)"
    using assms(3) by (auto simp: rd_def)
  have valid: "is_valid_ofp_header (ucast (data ! 0)) (ucast (data ! 1))"
    using header_index(1) assms(5-7) by blast
  have n: "unat len \<le> length data"
    using assms(4) by (simp only: uint_nat of_nat_le_iff)
  from copy_out_ok [OF assms(2) n] obtain s where
    s: "copy_out e data (unat len) = Inr s" "stream_wf s" "contents s = take (unat len) data" .
  have env: "got_object e" "got_wire_buffer e"
    using assms(2) by (simp_all add: env_granted_def)
  have d0: "(word_of_int d :: byte) = 0 \<longleftrightarrow> d = 0"
    using P(5,6) by (auto simp: word_of_int_eq_0_iff dest: zdvd_imp_le)
  from new_from_message_result [OF assms(3,4), of "got_object e" "got_wire_buffer e"] obtain r where
    r: "of_object_new_from_message True True data (uint len) = Inr r"
      "r = None \<longleftrightarrow> of_validate_message data (uint len) \<noteq> Inr 0"
      "\<And>obj. r = Some obj \<Longrightarrow> object_of_message data (uint len) obj"
    using env by auto
  have step: "action_inject e T data len dup_count =
    (if rand_val e mod 100 < p then Inr (None, dup_count)
     else if d \<noteq> 0 \<or> r \<noteq> None then Inr (Some s, Some (word_of_int d)) else Inl NullDeref)"
  proof (cases r)
    case None
    then show ?thesis
      using D d0 s(1) r(1) env
      by (simp add: action_inject_def Let_def rd valid P(1,4) del: One_nat_def)
  next
    case (Some obj)
    then have "wbuf obj = Some \<lparr>wbuf_buf = Some data, alloc_bytes = uint len, current_bytes = uint len\<rparr>"
      using r(3) by (simp add: object_of_message_def)
    then show ?thesis
      using D d0 s(1) r(1) env Some
      by (simp add: action_inject_def Let_def rd valid P(1,4) del: One_nat_def)
  qed
  show ?thesis
    using r(2) s(2,3) by (simp add: step)
qed

lemma header_check:
  assumes "2 \<le> length data" and "tables_wf T" and "data ! 0 = 0 \<or> 5 < uint (data ! 0) \<or> 34 < uint (data ! 1)"
  shows "action_inject e T data len dup_count =
    (if 5 < uint (data ! 0) \<or> 34 < uint (data ! 1) then Inr (None, dup_count) else Inl OutOfBounds)"
proof -
  have rd: "rd data 0 = Inr (data ! 0)" "rd data 1 = Inr (data ! 1)"
    using assms(1) by (auto simp: rd_def)
  have "uint ((0 :: 32 word) - 1) = 2 ^ 32 - 1"
    by (simp add: unsigned_minus_1_eq_mask mask_eq_exp_minus_1)
  then have "tab_get (drop_tab T) (uint ((0 :: 32 word) - 1)) j = Inl OutOfBounds" for j
    using assms(2) by (intro table_shape_off_grid) (simp_all add: tables_wf_def grid_cells_def)
  then have "should_drop_msg T 0 m = Inl OutOfBounds" for m
    by (simp add: should_drop_msg_def)
  then have "action_inject e T data len dup_count = Inl OutOfBounds" if "data ! 0 = 0" "uint (data ! 1) \<le> 34"
    using that is_valid_ofp_header_bytes [of 0 "data ! 1"] by (simp add: action_inject_def Let_def rd)
  then show ?thesis
    using action_inject_invalid [OF assms(1)] assms(3) by (auto simp: is_valid_ofp_header_bytes not_le)
qed

subsection \<open>Properties\<close>

text \<open>C19: The fate of a message of a known version and type, memory being granted: it is dropped
  exactly when the random percentage is below the rule's; otherwise, when no duplication is asked
  for and it does not validate, the null object is dereferenced and the process dies; in every
  other case its bytes go out unchanged, with the rule's number of repetitions. Duplicated
  messages are not validated.\<close>

theorem action_inject_forwards:
  assumes "tables_wf T" and "env_granted e" and "4 \<le> length data" and "uint len \<le> int (length data)"
    and "1 \<le> uint (data ! 0)" "uint (data ! 0) \<le> 5" and "uint (data ! 1) \<le> 34"
    and "policy_of T (uint (data ! 0) - 1, uint (data ! 1)) = (p, d)"
  shows "if rand_val e mod 100 < p then action_inject e T data len dup_count = Inr (None, dup_count)
    else if d = 0 \<and> of_validate_message data (uint len) \<noteq> Inr 0
      then action_inject e T data len dup_count = Inl NullDeref
    else \<exists>s. action_inject e T data len dup_count = Inr (Some s, Some (word_of_int d)) \<and>
      stream_wf s \<and> contents s = take (unat len) data"
  by (rule action_forwards [OF assms])

definition sample_env :: "int \<Rightarrow> inject_env" where
  "sample_env r = \<lparr>rand_val = r, got_object = True, got_wire_buffer = True, got_stream = True,
     stream_mem = \<lparr>granted = True, junk = (\<lambda>_. 0)\<rparr>, append_mem = \<lparr>granted = True, junk = (\<lambda>_. 0)\<rparr>\<rparr>"

lemma sample_env_granted: "0 \<le> r \<Longrightarrow> env_granted (sample_env r)"
  by (simp add: env_granted_def sample_env_def)

lemma action_inject_forwards_witness:
  "\<exists>s. action_inject (sample_env 0) init_tables sample_flow_mod 80 None = Inr (Some s, Some 0) \<and>
     contents s = sample_flow_mod"
proof -
  have "of_validate_message sample_flow_mod 80 = Inr 0" "policy_of init_tables (0, 14) = (0, 0)"
    by code_simp+
  moreover have "length sample_flow_mod = 80" "sample_flow_mod ! 0 = 1" "sample_flow_mod ! 1 = 14"
    by (simp_all add: sample_flow_mod_def)
  ultimately show ?thesis
    using action_inject_forwards [OF init_tables_wf sample_env_granted [of 0], of sample_flow_mod 80 0 0 None]
    by (auto simp: sample_env_def)
qed

text \<open>C34: The header check. A message whose version is above 5 or whose type is above 34 is
  swallowed without a look at the tables; version 0 passes the check, and the table index \<open>0 - 1\<close> is
  an unsigned number far outside the table.\<close>

theorem action_inject_header_check:
  assumes "2 \<le> length data" and "tables_wf T" and "data ! 0 = 0 \<or> 5 < uint (data ! 0) \<or> 34 < uint (data ! 1)"
  shows "action_inject e T data len dup_count =
    (if 5 < uint (data ! 0) \<or> 34 < uint (data ! 1) then Inr (None, dup_count) else Inl OutOfBounds)"
  by (rule header_check [OF assms])

lemma action_inject_header_check_witness:
  "action_inject (sample_env 0) init_tables [0, 0, 0, 8, 0, 0, 0, 0] 8 None = Inl OutOfBounds \<and>
   action_inject (sample_env 0) init_tables [6, 0, 0, 8, 0, 0, 0, 0] 8 None = Inr (None, None)"
  using action_inject_header_check [of "[0, 0, 0, 8, 0, 0, 0, 0]" init_tables "sample_env 0" 8 None]
    action_inject_header_check [of "[6, 0, 0, 8, 0, 0, 0, 0]" init_tables "sample_env 0" 8 None] init_tables_wf
  by simp

end
