(* ===== verification/Client.thy ===== *)
theory Client
  imports Stream
begin

text \<open>
  The client objects of \<^verbatim>\<open>mproxy/src/client.cpp\<close>: one per connection, two per proxied pair,
  found through the global map from file descriptors to clients. Objects live in a heap indexed by
  address; using an address whose object was freed is a fault, as is reading a member the
  constructor left unset. The buffers and events of libevent are opaque values.
\<close>

subsection \<open>State\<close>

datatype 'a ptr = Unset | Null | Ptr 'a

text \<open>An event base: whether the loop was asked to exit (\<open>loopexit\<close>) or to break (\<open>loopbreak\<close>).\<close>

record event_base =
  exit_asked :: bool
  break_asked :: bool

record ('e, 'v) client =
  fd :: int
  fw_fd :: int
  ev_base :: "event_base ptr"
  ev_buf :: "'e ptr"
  ev_event :: "'v ptr"
  buf :: "byte stream ptr"

text \<open>
  The shared state: the live objects, \<open>client_map\<close> (a \<open>std::unordered_map\<close>; looking up a missing key
  with \<open>[]\<close> inserts a null entry), and the open file descriptors.
\<close>

record ('e, 'v) world =
  objs :: "nat \<Rightarrow> ('e, 'v) client option"
  client_map :: "int \<Rightarrow> nat option option"
  open_fds :: "int set"

definition map_index :: "('e, 'v) world \<Rightarrow> int \<Rightarrow> nat option \<times> ('e, 'v) world" where
  "map_index w k =
     (case client_map w k of
        Some e \<Rightarrow> (e, w)
      | None \<Rightarrow> (None, w\<lparr>client_map := (client_map w)(k := Some None)\<rparr>))"

definition deref :: "('e, 'v) world \<Rightarrow> nat \<Rightarrow> ('e, 'v) client res" where
  "deref w c = (case objs w c of None \<Rightarrow> Inl UseAfterFree | Some cl \<Rightarrow> Inr cl)"

definition put_client :: "nat \<Rightarrow> ('e, 'v) client \<Rightarrow> ('e, 'v) world \<Rightarrow> ('e, 'v) world" where
  "put_client c cl w = w\<lparr>objs := (objs w)(c := Some cl)\<rparr>"

text \<open>
  \<open>event_base_loopexit\<close> and \<open>event_base_loopbreak\<close> on a client's base; libevent answers -1 to a null base,
  which no caller looks at.
\<close>

definition with_base :: "(event_base \<Rightarrow> event_base) \<Rightarrow> ('e, 'v) client \<Rightarrow> ('e, 'v) client res" where
  "with_base f cl =
     (case ev_base cl of
        Unset \<Rightarrow> Inl Uninit
      | Null \<Rightarrow> Inr cl
      | Ptr b \<Rightarrow> Inr (cl\<lparr>ev_base := Ptr (f b)\<rparr>))"

definition loopexit :: "('e, 'v) client \<Rightarrow> ('e, 'v) client res" where
  "loopexit = with_base (exit_asked_update (\<lambda>_. True))"

definition loopbreak :: "('e, 'v) client \<Rightarrow> ('e, 'v) client res" where
  "loopbreak = with_base (break_asked_update (\<lambda>_. True))"

subsection \<open>Constructor and initialisation\<close>

text \<open>
  The constructor sets \<open>ev_buf\<close> twice and \<open>ev_event\<close> and \<open>buf\<close> not at all.
\<close>

definition client_new :: "int \<Rightarrow> int \<Rightarrow> ('e, 'v) client" where
  "client_new cli_fd forward_fd =
     \<lparr>fd = cli_fd, fw_fd = forward_fd, ev_base = Null, ev_buf = Null, ev_event = Unset, buf = Unset\<rparr>"

text \<open>The answers of the allocating calls of \<open>Client::init\<close>, in their order.\<close>

record ('e, 'v) init_env =
  new_struct :: bool
  new_mem :: "byte heap_reply"
  new_evbuffer :: "'e option"
  new_base :: "event_base option"
  new_bufferevent :: "'v option"

definition to_ptr :: "'a option \<Rightarrow> 'a ptr" where
  "to_ptr r = (case r of None \<Rightarrow> Null | Some x \<Rightarrow> Ptr x)"

definition STATUS_ERR :: int where "STATUS_ERR = -1"
definition STATUS_OK :: int where "STATUS_OK = 0"

definition client_init :: "('e, 'v) init_env \<Rightarrow> nat \<Rightarrow> ('e, 'v) world \<Rightarrow> (int \<times> ('e, 'v) world) res" where
  "client_init e c w =
     bnd (deref w c) (\<lambda>cl.
     let b = stream_new (new_struct e) (new_mem e) DEFAULT_STREAM_LEN;
         cl = cl\<lparr>buf := to_ptr b\<rparr>
     in if b = None then Inr (STATUS_ERR, put_client c cl w)
     else let cl = cl\<lparr>ev_buf := to_ptr (new_evbuffer e)\<rparr>
     in if new_evbuffer e = None then Inr (STATUS_ERR, put_client c cl w)
     else let cl = cl\<lparr>ev_base := to_ptr (new_base e)\<rparr>
     in if new_base e = None then Inr (STATUS_ERR, put_client c cl w)
     else let cl = cl\<lparr>ev_event := to_ptr (new_bufferevent e)\<rparr>
     in if new_bufferevent e = None then Inr (STATUS_ERR, put_client c cl w)
     else let w = put_client c cl w
     in Inr (STATUS_OK, w\<lparr>client_map := (client_map w)(fd cl := Some (Some c))\<rparr>))"

subsection \<open>Destructor\<close>

text \<open>
  The destructor in the pieces other threads can come between: it looks up its partner; frees the
  event objects and closes its descriptor; takes its entry out of the map; marks the partner; and
  frees the receive buffer and itself.
\<close>

definition known :: "'a ptr \<Rightarrow> 'b res \<Rightarrow> 'b res" where
  "known p m = (if p = Unset then Inl Uninit else m)"

definition dtor_lookup :: "nat \<Rightarrow> ('e, 'v) world \<Rightarrow> (nat option \<times> ('e, 'v) world) res" where
  "dtor_lookup c w = bnd (deref w c) (\<lambda>cl. Inr (map_index w (fw_fd cl)))"

definition dtor_release :: "nat \<Rightarrow> ('e, 'v) world \<Rightarrow> ('e, 'v) world res" where
  "dtor_release c w =
     bnd (deref w c) (\<lambda>cl.
     known (ev_event cl) (known (ev_base cl) (known (ev_buf cl)
       (let w = put_client c (cl\<lparr>ev_event := Null, ev_base := Null, ev_buf := Null\<rparr>) w
        in Inr (if fd cl \<noteq> -1 then w\<lparr>open_fds := open_fds w - {fd cl}\<rparr> else w)))))"

definition dtor_unmap :: "nat \<Rightarrow> ('e, 'v) world \<Rightarrow> ('e, 'v) world res" where
  "dtor_unmap c w =
     bnd (deref w c) (\<lambda>cl. Inr (w\<lparr>client_map := (client_map w)(fd cl := None)\<rparr>))"

definition dtor_notify :: "nat option \<Rightarrow> ('e, 'v) world \<Rightarrow> ('e, 'v) world res" where
  "dtor_notify fw_cli w =
     (case fw_cli of
        None \<Rightarrow> Inr w
      | Some f \<Rightarrow> bnd (deref w f) (\<lambda>cl. bnd (loopbreak (cl\<lparr>fw_fd := -1\<rparr>)) (\<lambda>cl. Inr (put_client f cl w))))"

definition dtor_free :: "nat \<Rightarrow> ('e, 'v) world \<Rightarrow> ('e, 'v) world res" where
  "dtor_free c w =
     bnd (deref w c) (\<lambda>cl. known (buf cl) (Inr (w\<lparr>objs := (objs w)(c := None)\<rparr>)))"

definition client_delete :: "nat \<Rightarrow> ('e, 'v) world \<Rightarrow> ('e, 'v) world res" where
  "client_delete c w =
     bnd (dtor_lookup c w) (\<lambda>(fw_cli, w).
     bnd (dtor_release c w) (\<lambda>w.
     bnd (dtor_unmap c w) (\<lambda>w.
     bnd (dtor_notify fw_cli w) (dtor_free c))))"

subsection \<open>Running clients\<close>

text \<open>A client whose initialisation succeeded: every member is set, the receive buffer is a well-formed stream.\<close>

definition running :: "('e, 'v) client \<Rightarrow> bool" where
  "running cl \<longleftrightarrow> (\<exists>b. ev_base cl = Ptr b) \<and> (\<exists>b. ev_buf cl = Ptr b) \<and> (\<exists>v. ev_event cl = Ptr v) \<and>
     (\<exists>s. buf cl = Ptr s \<and> stream_wf s) \<and> 0 \<le> fd cl"

text \<open>Two states of a client that differ at most in its buffers, its event and the flags of its base.\<close>

definition same_ends :: "('e, 'v) client \<Rightarrow> ('e, 'v) client \<Rightarrow> bool" where
  "same_ends cl cl' \<longleftrightarrow> fd cl' = fd cl \<and> fw_fd cl' = fw_fd cl \<and> (running cl \<longrightarrow> running cl')"

lemma same_ends_refl [simp]: "same_ends cl cl"
  and same_ends_trans: "same_ends a b \<Longrightarrow> same_ends b c \<Longrightarrow> same_ends a c"
  by (simp_all add: same_ends_def)

lemma with_base_running: "running cl \<Longrightarrow> \<exists>b. with_base f cl = Inr (cl\<lparr>ev_base := Ptr b\<rparr>)"
  by (auto simp: running_def with_base_def)

lemma with_base_same: "with_base f cl = Inr cl' \<Longrightarrow> same_ends cl cl'"
  by (auto simp: with_base_def same_ends_def running_def split: ptr.splits)

text \<open>
  Initialisation: it succeeds exactly when all four calls do; otherwise the members behind the failing
  call keep what the constructor left, and the map is as before.
\<close>

definition all_granted :: "('e, 'v) init_env \<Rightarrow> bool" where
  "all_granted e \<longleftrightarrow> new_struct e \<and> granted (new_mem e) \<and> new_evbuffer e \<noteq> None \<and> new_base e \<noteq> None \<and>
     new_bufferevent e \<noteq> None"

definition last_fails :: "('e, 'v) init_env \<Rightarrow> bool" where
  "last_fails e \<longleftrightarrow> new_struct e \<and> granted (new_mem e) \<and> new_evbuffer e \<noteq> None \<and> new_base e \<noteq> None \<and>
     new_bufferevent e = None"

lemma client_init_result:
  assumes "objs w c = Some (client_new i j)" and "0 \<le> i"
  obtains (ok) cl where "all_granted e" "running cl" "fd cl = i" "fw_fd cl = j"
      "client_init e c w = Inr (STATUS_OK, put_client c cl (w\<lparr>client_map := (client_map w)(i := Some (Some c))\<rparr>))"
  | (unset) cl where "\<not> all_granted e" "\<not> last_fails e" "fd cl = i" "fw_fd cl = j"
      "client_init e c w = Inr (STATUS_ERR, put_client c cl w)" "ev_event cl = Unset"
  | (last) cl where "\<not> all_granted e" "last_fails e" "fd cl = i" "fw_fd cl = j"
      "client_init e c w = Inr (STATUS_ERR, put_client c cl w)"
      "ev_event cl = Null" "ev_base cl \<noteq> Unset" "ev_buf cl \<noteq> Unset" "buf cl \<noteq> Unset"
proof -
  define b where "b = stream_new (new_struct e) (new_mem e) DEFAULT_STREAM_LEN"
  have b: "b = None \<longleftrightarrow> \<not> (new_struct e \<and> granted (new_mem e))"
    by (simp add: b_def stream_new_def malloc_def)
  have init: "client_init e c w =
     (let cl = client_new i j; cl1 = cl\<lparr>buf := to_ptr b\<rparr>; cl2 = cl1\<lparr>ev_buf := to_ptr (new_evbuffer e)\<rparr>;
          cl3 = cl2\<lparr>ev_base := to_ptr (new_base e)\<rparr>; cl4 = cl3\<lparr>ev_event := to_ptr (new_bufferevent e)\<rparr>
      in if b = None then Inr (STATUS_ERR, put_client c cl1 w)
         else if new_evbuffer e = None then Inr (STATUS_ERR, put_client c cl2 w)
         else if new_base e = None then Inr (STATUS_ERR, put_client c cl3 w)
         else if new_bufferevent e = None then Inr (STATUS_ERR, put_client c cl4 w)
         else Inr (STATUS_OK, put_client c cl4 (w\<lparr>client_map := (client_map w)(i := Some (Some c))\<rparr>)))"
    using assms(1)
    by (simp add: client_init_def deref_def b_def [symmetric] Let_def put_client_def client_new_def)
  show thesis
  proof (cases "all_granted e")
    case True
    then obtain s eb ba ev where s: "b = Some s" "new_evbuffer e = Some eb" "new_base e = Some ba" "new_bufferevent e = Some ev"
      using b by (auto simp: all_granted_def)
    then have "stream_wf s"
      using stream_new_wf b_def by metis
    then show thesis
      using init s assms(2) True
      by (intro ok [of "client_new i j\<lparr>buf := Ptr s, ev_buf := Ptr eb, ev_base := Ptr ba, ev_event := Ptr ev\<rparr>"])
        (simp_all add: Let_def to_ptr_def running_def client_new_def)
  next
    case False
    show thesis
    proof (cases "last_fails e")
      case True
      then show thesis
        using False init b by (auto simp: Let_def client_new_def to_ptr_def last_fails_def intro!: last split: option.splits)
    next
      case nl: False
      then have "b = None \<or> new_evbuffer e = None \<or> new_base e = None"
        using False b by (auto simp: all_granted_def last_fails_def)
      then show thesis
        using False nl init by (auto simp: Let_def client_new_def to_ptr_def intro!: unset split: if_splits)
    qed
  qed
qed

lemma client_init_ok:
  assumes "objs w c = Some (client_new i j)" and "0 \<le> i" and "all_granted e"
  obtains cl where "running cl" "fd cl = i" "fw_fd cl = j"
      "client_init e c w = Inr (STATUS_OK, put_client c cl (w\<lparr>client_map := (client_map w)(i := Some (Some c))\<rparr>))"
  by (rule client_init_result [OF assms(1,2), of e]) (use assms(3) that in blast)+

end
