(* ===== verification/Flow.thy ===== *)
theory Flow
  imports Action Client
begin

text \<open>
  The read handler of a connection, \<open>on_flow_read\<close> in \<^verbatim>\<open>mproxy/src/proxy.cpp\<close>: collect
  the bytes that have come in, cut them into OpenFlow messages by the length in each header, put
  every complete message through \<open>action_inject\<close>, and write what comes out to the partner.
\<close>

text \<open>
  The calls of libevent the handler makes, as a parameter: the number of bytes waiting in a
  bufferevent's input, taking bytes out of it, adding bytes to an evbuffer, and writing an
  evbuffer to a bufferevent (0 for success).
\<close>

record ('e, 'v) libevent =
  input_length :: "'v \<Rightarrow> nat"
  input_remove :: "'v \<Rightarrow> nat \<Rightarrow> byte list \<times> 'v"
  evbuffer_add :: "'e \<Rightarrow> byte list \<Rightarrow> 'e"
  write_buffer :: "'v \<Rightarrow> 'e \<Rightarrow> int \<times> 'v \<times> 'e"

definition on_ptr :: "'a ptr \<Rightarrow> ('a \<Rightarrow> 'b res) \<Rightarrow> 'b res" where
  "on_ptr p f = (case p of Unset \<Rightarrow> Inl Uninit | Null \<Rightarrow> Inl NullDeref | Ptr x \<Rightarrow> f x)"

text \<open>The length of the message at \<open>processed\<close>: a native 16-bit load, its two bytes exchanged.\<close>

definition wire_msg_len :: "endian \<Rightarrow> byte list \<Rightarrow> nat \<Rightarrow> 16 word res" where
  "wire_msg_len en data processed =
     bnd (rd_block data (int processed + 2) 2) (\<lambda>xs.
       let n = native en xs :: 16 word in Inr (drop_bit 8 n OR push_bit 8 n))"

text \<open>
  Sending one response: add it once, add it \<open>dup_count\<close> more times, write. The loop on \<open>dup_count\<close>
  reads a variable that \<open>action_inject\<close> may have left unset.
\<close>

definition send_response ::
  "('e, 'v) libevent \<Rightarrow> byte stream \<Rightarrow> byte option \<Rightarrow> ('e, 'v) client \<Rightarrow> (int \<times> ('e, 'v) client) res" where
  "send_response L r dup_count fw =
     on_ptr (ev_buf fw) (\<lambda>b.
     bnd (rd_block (sdata r) 0 (slen r)) (\<lambda>xs.
     case dup_count of
       None \<Rightarrow> Inl Uninit
     | Some d \<Rightarrow>
         let b = ((\<lambda>b. evbuffer_add L b xs) ^^ unat d) (evbuffer_add L b xs) in
         on_ptr (ev_event fw) (\<lambda>v.
         let (rc, v, b) = write_buffer L v b in
         Inr (rc, fw\<lparr>ev_buf := Ptr b, ev_event := Ptr v\<rparr>))))"

text \<open>
  The message loop: the partner, the number of bytes to drop from the receive buffer, and whether
  the event loop is to exit. \<open>env k\<close> is the environment of the \<open>k\<close>-th message, \<open>alive\<close> says that the
  partner's descriptor is still open.
\<close>

function flow_loop ::
  "('e, 'v) libevent \<Rightarrow> endian \<Rightarrow> rule_tables \<Rightarrow> (nat \<Rightarrow> inject_env) \<Rightarrow> bool \<Rightarrow> byte stream \<Rightarrow>
     nat \<Rightarrow> nat \<Rightarrow> byte option \<Rightarrow> ('e, 'v) client \<Rightarrow> (('e, 'v) client \<times> nat \<times> bool) res" where
  "flow_loop L en T env alive s k processed dup_count fw =
     (if processed + 8 \<le> slen s then
        bnd (wire_msg_len en (sdata s) processed) (\<lambda>n.
        if n = 0 then Inr (fw, 0, True)
        else if unat n > slen s - processed then Inr (fw, processed, False)
        else bnd (action_inject (env k) T (drop processed (sdata s)) n dup_count) (\<lambda>(response, dup_count).
        case response of
          None \<Rightarrow> flow_loop L en T env alive s (Suc k) (processed + unat n) dup_count fw
        | Some r \<Rightarrow>
            if \<not> alive then Inr (fw, 0, True)
            else bnd (send_response L r dup_count fw) (\<lambda>(rc, fw).
                 if rc \<noteq> 0 then Inr (fw, 0, True)
                 else flow_loop L en T env alive s (Suc k) (processed + unat n) (Some 0) fw)))
      else Inr (fw, processed, False))"
  by pat_completeness auto
termination
  by (relation "measure (\<lambda>(L, en, T, env, alive, s, k, processed, dup_count, fw). slen s - processed)")
     (auto dest!: unat_gt_0 [THEN iffD2] intro!: diff_less_mono2)

declare flow_loop.simps [simp del]

definition make_room :: "byte heap_reply \<Rightarrow> byte stream \<Rightarrow> nat \<Rightarrow> int \<times> byte stream" where
  "make_room hx msg n = (if scap msg - slen msg < n then stream_expand hx msg n else (0, msg))"

text \<open>
  The handler. \<open>hx\<close> is the allocator's reply when the receive buffer has to grow; the capacity test
  is on \<open>size_t\<close> values that the stream's invariant keeps from wrapping.
\<close>

definition on_flow_read ::
  "('e, 'v) libevent \<Rightarrow> endian \<Rightarrow> memcpy_mode \<Rightarrow> rule_tables \<Rightarrow> byte heap_reply \<Rightarrow> (nat \<Rightarrow> inject_env) \<Rightarrow>
     nat \<Rightarrow> ('e, 'v) world \<Rightarrow> ('e, 'v) world res" where
  "on_flow_read L en mc T hx env c w =
     bnd (deref w c) (\<lambda>cl.
     on_ptr (ev_event cl) (\<lambda>bev.
     let bytes_to_read = input_length L bev in
     on_ptr (buf cl) (\<lambda>msg.
     let (fw_cli, w) = map_index w (fw_fd cl);
         (rc, msg) = make_room hx msg bytes_to_read
     in if rc \<noteq> 0 then Inr w
     else let (xs, bev) = input_remove L bev bytes_to_read in
     bnd (wr_block (sdata msg) (int (slen msg)) xs) (\<lambda>d.
     let msg = msg\<lparr>sdata := d, slen := slen msg + bytes_to_read\<rparr>;
         w = put_client c (cl\<lparr>ev_event := Ptr bev, buf := Ptr msg\<rparr>) w
     in if slen msg < 8 then Inr w
     else case fw_cli of
       None \<Rightarrow> bnd (deref w c) (\<lambda>cl. bnd (loopexit cl) (\<lambda>cl. Inr (put_client c cl w)))
     | Some f \<Rightarrow>
         bnd (deref w f) (\<lambda>fw.
         bnd (flow_loop L en T env (fw_fd cl \<in> open_fds w) msg 0 0 None fw) (\<lambda>(fw, shift, exit).
         let w = put_client f fw w in
         bnd (deref w c) (\<lambda>cl.
         bnd (if shift > 0 then stream_left_shift mc msg shift else Inr msg) (\<lambda>msg.
         let cl = cl\<lparr>buf := Ptr msg\<rparr> in
         bnd (if exit then loopexit cl else Inr cl) (\<lambda>cl. Inr (put_client c cl w))))))))))"

subsection \<open>The abstract handler\<close>

text \<open>
  A byte sequence is cut into messages by the big-endian length in each header: the complete
  messages, what is left, and whether a message of length 0 stopped the cutting.
\<close>

definition msg_len :: "byte list \<Rightarrow> nat" where
  "msg_len bs = unat (be_word (take 2 (drop 2 bs)) :: 16 word)"

function cut :: "byte list \<Rightarrow> byte list list \<times> byte list \<times> bool" where
  "cut bs =
     (if length bs < 8 then ([], bs, False)
      else if msg_len bs = 0 then ([], bs, True)
      else if length bs < msg_len bs then ([], bs, False)
      else (case cut (drop (msg_len bs) bs) of
              (ms, rest, bad) \<Rightarrow> (take (msg_len bs) bs # ms, rest, bad)))"
  by pat_completeness auto
termination
  by (relation "measure length") auto

declare cut.simps [simp del]

text \<open>What the policy makes of a message when \<open>rand()\<close> returns \<open>r\<close>: the bytes sent for it.\<close>

definition fate :: "policy \<Rightarrow> int \<Rightarrow> byte list \<Rightarrow> byte list" where
  "fate P r m =
     (if 5 < uint (m ! 0) \<or> 34 < uint (m ! 1) then []
      else case P (uint (m ! 0) - 1, uint (m ! 1)) of
        (p, d) \<Rightarrow> if r mod 100 < p then [] else concat (replicate (Suc (nat d)) m))"

text \<open>
  Messages the handler survives: of a version above 5 or of a type above 34; or of a version from 1
  on and dropped, duplicated, or valid.
\<close>

definition valid_msg :: "byte list \<Rightarrow> bool" where
  "valid_msg m \<longleftrightarrow> 8 \<le> length m \<and> of_validate_message m (int (length m)) = Inr 0"

definition survivable :: "policy \<Rightarrow> int \<Rightarrow> byte list \<Rightarrow> bool" where
  "survivable P r m \<longleftrightarrow> 2 \<le> length m \<and>
     (5 < uint (m ! 0) \<or> 34 < uint (m ! 1) \<or>
      1 \<le> uint (m ! 0) \<and>
        (case P (uint (m ! 0) - 1, uint (m ! 1)) of
           (p, d) \<Rightarrow> r mod 100 < p \<or> d \<noteq> 0 \<or> valid_msg m))"

primrec outputs :: "policy \<Rightarrow> (nat \<Rightarrow> inject_env) \<Rightarrow> nat \<Rightarrow> byte list list \<Rightarrow> byte list" where
  "outputs P env k [] = []"
| "outputs P env k (m # ms) = fate P (rand_val (env k)) m @ outputs P env (Suc k) ms"

primrec all_survivable :: "policy \<Rightarrow> (nat \<Rightarrow> inject_env) \<Rightarrow> nat \<Rightarrow> byte list list \<Rightarrow> bool" where
  "all_survivable P env k [] = True"
| "all_survivable P env k (m # ms) \<longleftrightarrow>
     survivable P (rand_val (env k)) m \<and> all_survivable P env (Suc k) ms"

text \<open>
  What the handler needs of libevent: the abstract values of an evbuffer and of the input and output of a
  bufferevent are byte sequences, removing takes a prefix, adding appends, and writing moves an
  evbuffer's bytes to the end of the output.
\<close>

definition libevent_ok ::
  "('e, 'v) libevent \<Rightarrow> ('e \<Rightarrow> byte list) \<Rightarrow> ('v \<Rightarrow> byte list) \<Rightarrow> ('v \<Rightarrow> byte list) \<Rightarrow> bool" where
  "libevent_ok L pending input output \<longleftrightarrow>
     (\<forall>v. input_length L v = length (input v)) \<and>
     (\<forall>v n. fst (input_remove L v n) = take n (input v) \<and>
        input (snd (input_remove L v n)) = drop n (input v) \<and> output (snd (input_remove L v n)) = output v) \<and>
     (\<forall>b xs. pending (evbuffer_add L b xs) = pending b @ xs) \<and>
     (\<forall>v b. \<exists>v' b'. write_buffer L v b = (0, v', b') \<and>
        output v' = output v @ pending b \<and> pending b' = [] \<and> input v' = input v)"

subsection \<open>Cutting\<close>

lemma cut_parts: "cut bs = (ms, rest, bad) \<Longrightarrow> bs = concat ms @ rest"
proof (induction bs arbitrary: ms rest bad rule: cut.induct)
  case (1 bs)
  show ?case
  proof (cases "length bs < 8 \<or> msg_len bs = 0 \<or> length bs < msg_len bs")
    case True
    then show ?thesis
      using "1.prems" by (auto simp: cut.simps [of bs] split: if_splits)
  next
    case False
    obtain ms' where c: "cut (drop (msg_len bs) bs) = (ms', rest, bad)" "ms = take (msg_len bs) bs # ms'"
      using "1.prems" False by (auto simp: cut.simps [of bs] split: prod.splits)
    then have "drop (msg_len bs) bs = concat ms' @ rest"
      using "1.IH" False by blast
    then have "take (msg_len bs) bs @ drop (msg_len bs) bs = concat ms @ rest"
      using c(2) by simp
    then show ?thesis
      by simp
  qed
qed

lemma cut_append:
  assumes "cut a = (ms, rest, False)"
  shows "cut (a @ b) = (case cut (rest @ b) of (ms', rest', bad) \<Rightarrow> (ms @ ms', rest', bad))"
  using assms
proof (induction a arbitrary: ms rest rule: cut.induct)
  case (1 a)
  show ?case
  proof (cases "length a < 8 \<or> msg_len a = 0 \<or> length a < msg_len a")
    case True
    then have "ms = []" "rest = a"
      using "1.prems" by (auto simp: cut.simps [of a] split: if_splits)
    then show ?thesis
      by (simp split: prod.split)
  next
    case False
    have len: "msg_len (a @ b) = msg_len a"
      using False by (simp add: msg_len_def)
    obtain ms' where c: "cut (drop (msg_len a) a) = (ms', rest, False)" "ms = take (msg_len a) a # ms'"
      using "1.prems" False by (auto simp: cut.simps [of a] split: prod.splits)
    have "cut (drop (msg_len a) a @ b) = (case cut (rest @ b) of (ms'', rest', bad) \<Rightarrow> (ms' @ ms'', rest', bad))"
      using "1.IH" False c(1) by blast
    then show ?thesis
      using False c(2) by (subst cut.simps) (auto simp: len split: prod.splits)
  qed
qed

text \<open>What is left has no complete message at its front.\<close>

lemma cut_idem: "cut bs = (ms, rest, bad) \<Longrightarrow> cut rest = ([], rest, bad)"
proof (induction bs arbitrary: ms rest bad rule: cut.induct)
  case (1 bs)
  show ?case
  proof (cases "length bs < 8 \<or> msg_len bs = 0 \<or> length bs < msg_len bs")
    case True
    then have "rest = bs" "cut bs = ([], bs, bad)"
      using "1.prems" by (auto simp: cut.simps [of bs] split: if_splits)
    then show ?thesis
      by simp
  next
    case False
    then show ?thesis
      using "1.prems" "1.IH" by (auto simp: cut.simps [of bs] split: prod.splits)
  qed
qed

subsection \<open>The loop implements the abstract handler\<close>

lemma wire_msg_len_native:
  "wire_msg_len LittleEndian data processed = buf_u16_get data (int processed + 2)"
proof -
  have "push_bit 8 (n AND 0xff) = push_bit 8 (n :: 16 word)" for n
    by (intro bit_eqI) (auto simp: byte_mask16 bit_simps)
  then have "wire_msg_len LittleEndian data processed = machine_u16_get LittleEndian data (int processed + 2)"
    by (simp add: wire_msg_len_def machine_u16_get_def U16_NTOH_def Let_def)
  then show ?thesis
    by (simp add: machine_u16_get)
qed

lemma wire_msg_len_contents:
  assumes "stream_wf s" and "processed + 8 \<le> slen s"
  shows "wire_msg_len LittleEndian (sdata s) processed =
    Inr (be_word (take 2 (drop 2 (drop processed (contents s)))))"
proof -
  have "take 2 (drop (processed + 2) (sdata s)) = take 2 (drop 2 (drop processed (contents s)))"
    using assms by (simp add: contents_def drop_take stream_wf_def add.commute)
  then show ?thesis
    using assms by (simp add: wire_msg_len_native buf_u16_get_def rd_block_def stream_wf_def nat_add_distrib)
qed

lemma frame_bytes:
  assumes "stream_wf s" and "bs = drop processed (contents s)"
  shows "length bs \<le> length (drop processed (sdata s))"
    and "n \<le> length bs \<Longrightarrow> take n (drop processed (sdata s)) = take n bs"
    and "i < length bs \<Longrightarrow> drop processed (sdata s) ! i = bs ! i"
  using assms by (auto simp: contents_def stream_wf_def drop_take)

lemma action_inject_frame:
  assumes "tables_wf T" and "env_granted e" and "stream_wf s" and "bs = drop processed (contents s)"
    and "8 \<le> length bs" and "unat n \<le> length bs" and "m = take (unat n) bs"
    and "survivable (policy_of T) (rand_val e) m"
  shows "(fate (policy_of T) (rand_val e) m = [] \<and>
      action_inject e T (drop processed (sdata s)) n dup_count = Inr (None, dup_count)) \<or>
    (\<exists>r d. action_inject e T (drop processed (sdata s)) n dup_count = Inr (Some r, Some d) \<and> stream_wf r \<and>
      fate (policy_of T) (rand_val e) m = concat (replicate (Suc (unat d)) (contents r)))"
proof -
  let ?data = "drop processed (sdata s)"
  note F = frame_bytes [OF assms(3,4)]
  have n: "unat n \<le> length ?data"
    by (rule order_trans [OF assms(6) F(1)])
  have len: "8 \<le> length ?data" "uint n \<le> int (length ?data)"
    using order_trans [OF assms(5) F(1)] n uint_nat [of n] by linarith+
  have m: "take (unat n) ?data = m" "length m = unat n" "2 \<le> length m"
    using F(2) assms(6-8) by (simp_all add: survivable_def)
  have nth: "?data ! i = m ! i" if "i < unat n" for i
    using that by (simp add: m(1) [symmetric])
  have hd: "?data ! 0 = m ! 0" "?data ! 1 = m ! 1"
    using m(2,3) by (intro nth; linarith)+
  show ?thesis
  proof (cases "5 < uint (m ! 0) \<or> 34 < uint (m ! 1)")
    case True
    then show ?thesis
      using header_check [of ?data T e n dup_count] assms(1) len(1) hd
      by (auto simp: fate_def)
  next
    case False
    obtain p d where pd: "policy_of T (uint (m ! 0) - 1, uint (m ! 1)) = (p, d)"
      by fastforce
    have v: "1 \<le> uint (m ! 0)" "rand_val e mod 100 < p \<or> d \<noteq> 0 \<or> valid_msg m"
      using assms(8) False pd by (auto simp: survivable_def)
    have d: "0 \<le> d" "d < 256"
      using policy_lookup(5,6) [OF assms(1) v(1) _ _ pd] False by auto
    have valid: "of_validate_message ?data (uint n) = Inr 0" if "valid_msg m"
    proof -
      have "of_validate_message m (uint n) = Inr 0" "8 \<le> uint n"
        using that m(2) by (simp_all only: valid_msg_def uint_nat) linarith
      then show ?thesis
        using of_validate_message_local [of "uint n" ?data m] m len by (simp add: same_bytes_def)
    qed
    have fw: "fate (policy_of T) (rand_val e) m = (if rand_val e mod 100 < p then [] else concat (replicate (Suc (nat d)) m))"
      using False pd by (simp add: fate_def)
    have "unat (word_of_int d :: byte) = nat d"
      using d by (simp add: unat_eq_nat_uint uint_word_of_int)
    then show ?thesis
      using action_forwards [of T e ?data n p d dup_count] assms(1,2) len v valid pd False fw m(1) hd
      by (auto split: if_splits)
  qed
qed

lemma concat_replicate_snoc: "concat (replicate k xs) @ xs = xs @ concat (replicate k xs)"
  by (induction k) simp_all

lemma pending_adds:
  assumes "libevent_ok L pending input output"
  shows "pending (((\<lambda>b. evbuffer_add L b xs) ^^ k) b) = pending b @ concat (replicate k xs)"
  using assms by (induction k) (simp_all add: libevent_ok_def concat_replicate_snoc)

text \<open>A partner ready to send: nothing is left in its evbuffer, and its output holds \<open>out\<close>.\<close>

definition ready :: "('e \<Rightarrow> byte list) \<Rightarrow> ('v \<Rightarrow> byte list) \<Rightarrow> ('v \<Rightarrow> byte list) \<Rightarrow>
    ('e, 'v) client \<Rightarrow> byte list \<Rightarrow> byte list \<Rightarrow> bool" where
  "ready pending input output cl inb out \<longleftrightarrow>
     (\<exists>b v. ev_buf cl = Ptr b \<and> pending b = [] \<and> ev_event cl = Ptr v \<and> input v = inb \<and> output v = out)"

text \<open>Two states of a client that differ at most in what libevent holds for it.\<close>

definition same_client :: "('e, 'v) client \<Rightarrow> ('e, 'v) client \<Rightarrow> bool" where
  "same_client cl cl' \<longleftrightarrow> fd cl' = fd cl \<and> fw_fd cl' = fw_fd cl \<and> ev_base cl' = ev_base cl \<and> buf cl' = buf cl"

lemma same_client_refl [simp]: "same_client cl cl"
  and same_client_trans: "same_client a b \<Longrightarrow> same_client b c \<Longrightarrow> same_client a c"
  by (simp_all add: same_client_def)

lemma send_response_ok:
  assumes "libevent_ok L pending input output" and "stream_wf r" and "ready pending input output fw inb out"
  shows "\<exists>fw'. send_response L r (Some d) fw = Inr (0, fw') \<and> same_client fw fw' \<and>
    ready pending input output fw' inb (out @ concat (replicate (Suc (unat d)) (contents r)))"
proof -
  obtain b v where bv: "ev_buf fw = Ptr b" "pending b = []" "ev_event fw = Ptr v" "input v = inb" "output v = out"
    using assms(3) by (auto simp: ready_def)
  let ?xs = "contents r"
  let ?b = "((\<lambda>b. evbuffer_add L b ?xs) ^^ unat d) (evbuffer_add L b ?xs)"
  have rd: "rd_block (sdata r) 0 (slen r) = Inr ?xs"
    using assms(2) by (simp add: rd_block_def contents_def stream_wf_def)
  have "pending ?b = concat (replicate (Suc (unat d)) ?xs)"
    using pending_adds [OF assms(1)] assms(1) bv(2) by (simp add: libevent_ok_def)
  moreover obtain v' b' where "write_buffer L v ?b = (0, v', b')" "output v' = output v @ pending ?b"
    "pending b' = []" "input v' = input v"
    using assms(1) unfolding libevent_ok_def by blast
  ultimately show ?thesis
    using bv rd by (simp add: send_response_def on_ptr_def ready_def same_client_def)
qed

lemma flow_loop_cut:
  assumes "libevent_ok L pending input output" and "tables_wf T" and "\<And>k. env_granted (env k)"
    and "stream_wf s"
  shows "processed \<le> slen s \<Longrightarrow> bs = drop processed (contents s) \<Longrightarrow> cut bs = (ms, rest, bad) \<Longrightarrow>
    all_survivable (policy_of T) env k ms \<Longrightarrow> ready pending input output fw inb out \<Longrightarrow>
    \<exists>fw'. flow_loop L LittleEndian T env True s k processed dup_count fw =
        Inr (fw', if bad then 0 else processed + length (concat ms), bad) \<and>
      same_client fw fw' \<and> ready pending input output fw' inb (out @ outputs (policy_of T) env k ms)"
proof (induction bs arbitrary: ms rest bad processed k dup_count fw out rule: cut.induct)
  case (1 bs)
  have len: "length bs = slen s - processed"
    using 1(2-4) assms(4) by simp
  show ?case
  proof (cases "length bs < 8")
    case True
    then have "ms = []" "\<not> bad" "\<not> processed + 8 \<le> slen s"
      using "1.prems"(3) len by (auto simp: cut.simps [of bs])
    then show ?thesis
      using "1.prems"(5) by (subst flow_loop.simps) simp
  next
    case eight: False
    then have p8: "processed + 8 \<le> slen s"
      using len by simp
    define n where "n = (be_word (take 2 (drop 2 bs)) :: 16 word)"
    have n: "wire_msg_len LittleEndian (sdata s) processed = Inr n" "msg_len bs = unat n"
      using wire_msg_len_contents [OF assms(4) p8] "1.prems"(2) by (simp_all add: n_def msg_len_def)
    show ?thesis
    proof (cases "n = 0 \<or> length bs < unat n")
      case True
      then have "ms = []" "bad \<longleftrightarrow> n = 0"
        using "1.prems"(3) eight n(2) by (auto simp: cut.simps [of bs] unat_eq_zero split: if_splits)
      then show ?thesis
        using True "1.prems"(5) p8 n(1) len by (subst flow_loop.simps) auto
    next
      case False
      then have pos: "0 < unat n" "unat n \<le> length bs"
        by (simp_all add: unat_gt_0)
      define m where "m = take (unat n) bs"
      obtain ms' where c: "cut (drop (unat n) bs) = (ms', rest, bad)" "ms = m # ms'"
        using "1.prems"(3) eight pos n(2) by (auto simp: cut.simps [of bs] m_def split: prod.splits if_splits)
      have surv: "survivable (policy_of T) (rand_val (env k)) m" "all_survivable (policy_of T) env (Suc k) ms'"
        using "1.prems"(4) c(2) by simp_all
      let ?p = "processed + unat n"
      have nx: "?p \<le> slen s" "drop (unat n) bs = drop ?p (contents s)" "length (concat ms) = unat n + length (concat ms')"
        using pos len "1.prems"(1,2) c(2) by (simp_all add: m_def add.commute)
      have IH: "\<exists>fw''. flow_loop L LittleEndian T env True s (Suc k) ?p dup fw' =
            Inr (fw'', if bad then 0 else ?p + length (concat ms'), bad) \<and>
          same_client fw' fw'' \<and> ready pending input output fw'' inb (out' @ outputs (policy_of T) env (Suc k) ms')"
        if "ready pending input output fw' inb out'" for dup fw' out'
        using "1.IH" [of ?p ms' rest bad "Suc k" fw' out' dup] eight pos n(2) nx c(1) surv(2) that by simp
      have go: "flow_loop L LittleEndian T env True s k processed dup_count fw =
        bnd (action_inject (env k) T (drop processed (sdata s)) n dup_count) (\<lambda>(response, dup_count).
          case response of
            None \<Rightarrow> flow_loop L LittleEndian T env True s (Suc k) ?p dup_count fw
          | Some r \<Rightarrow> bnd (send_response L r dup_count fw) (\<lambda>(rc, fw).
               if rc \<noteq> 0 then Inr (fw, 0, True)
               else flow_loop L LittleEndian T env True s (Suc k) ?p (Some 0) fw))"
        using p8 n(1) False len by (subst flow_loop.simps) (simp add: not_less cong: option.case_cong)
      from action_inject_frame [OF assms(2,3,4) "1.prems"(2) _ pos(2) m_def surv(1), of dup_count] eight
      consider (dropped) "fate (policy_of T) (rand_val (env k)) m = []"
          "action_inject (env k) T (drop processed (sdata s)) n dup_count = Inr (None, dup_count)"
        | (sent) r d where "action_inject (env k) T (drop processed (sdata s)) n dup_count = Inr (Some r, Some d)"
          "stream_wf r" "fate (policy_of T) (rand_val (env k)) m = concat (replicate (Suc (unat d)) (contents r))"
        by fastforce
      then show ?thesis
      proof cases
        case dropped
        then show ?thesis
          using IH [OF "1.prems"(5), of dup_count] go c(2) nx(3) by (cases bad) (simp_all add: add.assoc)
      next
        case sent
        from send_response_ok [OF assms(1) sent(2) "1.prems"(5), of d] obtain fw' where
          fw': "send_response L r (Some d) fw = Inr (0, fw')" "same_client fw fw'"
            "ready pending input output fw' inb (out @ fate (policy_of T) (rand_val (env k)) m)"
          using sent(3) by auto
        then show ?thesis
          using IH [OF fw'(3), of "Some 0"] go sent(1) c(2) nx(3)
          by (cases bad) (auto simp: add.assoc intro: same_client_trans)
      qed
    qed
  qed
qed

subsection \<open>The handler on the shared state\<close>

lemma receive_bytes:
  assumes "stream_wf s" and "granted hx"
  obtains msg d where
    "make_room hx s (length xs) = (0, msg)"
    "wr_block (sdata msg) (int (slen msg)) xs = Inr d"
    "stream_wf (msg\<lparr>sdata := d, slen := slen msg + length xs\<rparr>)"
    "contents (msg\<lparr>sdata := d, slen := slen msg + length xs\<rparr>) = contents s @ xs"
proof -
  obtain rc msg where r: "make_room hx s (length xs) = (rc, msg)"
    by (meson surj_pair)
  have "rc = 0 \<and> stream_wf msg \<and> contents msg = contents s \<and> slen msg = slen s \<and> slen msg + length xs \<le> scap msg"
  proof (cases "scap s - slen s < length xs")
    case True
    then have e: "stream_expand hx s (length xs) = (rc, msg)"
      using r by (simp add: make_room_def)
    show ?thesis
      using stream_expand_wf [OF assms(1) e] assms by (simp add: stream_wf_def)
  next
    case False
    then show ?thesis
      using r assms(1) by (auto simp: make_room_def stream_wf_def)
  qed
  then have m: "rc = 0" "stream_wf msg" "contents msg = contents s" "slen msg = slen s" "slen msg + length xs \<le> scap msg"
    by simp_all
  let ?d = "take (slen msg) (sdata msg) @ xs @ drop (slen msg + length xs) (sdata msg)"
  show thesis
  proof (rule that)
    show "wr_block (sdata msg) (int (slen msg)) xs = Inr ?d"
      by (rule contents_append_block [OF m(2,5)])
    show "stream_wf (msg\<lparr>sdata := ?d, slen := slen msg + length xs\<rparr>)"
      using m(2,5) by (simp add: stream_wf_def)
    show "contents (msg\<lparr>sdata := ?d, slen := slen msg + length xs\<rparr>) = contents s @ xs"
      using m(2,3,4) assms(1) by (simp add: contents_def stream_wf_def)
  qed (use r m(1) in simp)
qed

text \<open>
  Client \<open>c\<close> forwards to \<open>f\<close>: both are live and initialised, \<open>c\<close> finds \<open>f\<close> through the map, \<open>c\<close> holds \<open>held\<close> in its
  receive buffer and \<open>inb\<close> waits in its bufferevent, and \<open>out\<close> has been written to \<open>f\<close>. \<open>gone\<close> says that \<open>c\<close>'s event
  loop was asked to exit.
\<close>

definition forwards :: "('e \<Rightarrow> byte list) \<Rightarrow> ('v \<Rightarrow> byte list) \<Rightarrow> ('v \<Rightarrow> byte list) \<Rightarrow> ('e, 'v) world \<Rightarrow>
    nat \<Rightarrow> nat \<Rightarrow> byte list \<Rightarrow> byte list \<Rightarrow> byte list \<Rightarrow> bool \<Rightarrow> bool" where
  "forwards pending input output w c f held inb out gone \<longleftrightarrow>
     (\<exists>cl fw s base v finb. objs w c = Some cl \<and> objs w f = Some fw \<and> c \<noteq> f \<and>
        client_map w (fw_fd cl) = Some (Some f) \<and> fw_fd cl \<in> open_fds w \<and>
        ev_base cl = Ptr base \<and> exit_asked base = gone \<and>
        buf cl = Ptr s \<and> stream_wf s \<and> contents s = held \<and>
        ev_event cl = Ptr v \<and> input v = inb \<and> ready pending input output fw finb out)"

text \<open>The handler up to its message loop, for a client that forwards.\<close>

lemma on_flow_read_start:
  assumes L: "libevent_ok L pending input output" and hx: "granted hx"
    and F: "forwards pending input output w c f held inb out gone"
  obtains cl w1 fw msg base finb where
    "on_flow_read L LittleEndian mc T hx env c w =
      (if slen msg < 8 then Inr w1
       else bnd (flow_loop L LittleEndian T env True msg 0 0 None fw) (\<lambda>(fw, shift, exit).
         bnd (if shift > 0 then stream_left_shift mc msg shift else Inr msg) (\<lambda>msg.
         bnd (if exit then loopexit (cl\<lparr>buf := Ptr msg\<rparr>) else Inr (cl\<lparr>buf := Ptr msg\<rparr>))
           (\<lambda>cl. Inr (put_client c cl (put_client f fw w1))))))"
    "stream_wf msg" "contents msg = held @ inb" "ready pending input output fw finb out"
    "ev_base cl = Ptr base" "exit_asked base = gone"
    "forwards pending input output w1 c f (held @ inb) [] out gone"
    "\<And>t fw' out' b. stream_wf t \<Longrightarrow> ready pending input output fw' finb out' \<Longrightarrow>
       forwards pending input output (put_client c (cl\<lparr>buf := Ptr t, ev_base := Ptr b\<rparr>) (put_client f fw' w1))
         c f (contents t) [] out' (exit_asked b)"
proof -
  obtain cl fw s base v finb where w: "objs w c = Some cl" "objs w f = Some fw" "c \<noteq> f"
    "client_map w (fw_fd cl) = Some (Some f)" "fw_fd cl \<in> open_fds w"
    and cl: "ev_base cl = Ptr base" "exit_asked base = gone" "buf cl = Ptr s" "stream_wf s" "contents s = held"
      "ev_event cl = Ptr v" "input v = inb"
    and fw: "ready pending input output fw finb out"
    using F by (auto simp: forwards_def)
  have ix: "map_index w (fw_fd cl) = (Some f, w)"
    using w(4) by (simp add: map_index_def)
  obtain v' where v': "input_remove L v (length inb) = (inb, v')" "input v' = []" "input_length L v = length inb"
    using L cl(7) unfolding libevent_ok_def by (metis drop_all order_refl prod.collapse take_all)
  obtain m d where m: "make_room hx s (length inb) = (0, m)"
    and d: "wr_block (sdata m) (int (slen m)) inb = Inr d"
    and wf: "stream_wf (m\<lparr>sdata := d, slen := slen m + length inb\<rparr>)"
    and con: "contents (m\<lparr>sdata := d, slen := slen m + length inb\<rparr>) = held @ inb"
    using receive_bytes [OF cl(4) hx, of inb] cl(5) by metis
  define msg where "msg = m\<lparr>sdata := d, slen := slen m + length inb\<rparr>"
  define cl' where "cl' = cl\<lparr>ev_event := Ptr v', buf := Ptr msg\<rparr>"
  define w1 where "w1 = put_client c cl' w"
  have w1: "deref w1 f = Inr fw" "open_fds w1 = open_fds w" "deref w c = Inr cl"
    "deref (put_client f fw' w1) c = Inr cl'" for fw'
    using w by (simp_all add: w1_def deref_def put_client_def)
  show thesis
  proof (rule that [of msg w1 fw cl' finb base])
    show "on_flow_read L LittleEndian mc T hx env c w =
      (if slen msg < 8 then Inr w1
       else bnd (flow_loop L LittleEndian T env True msg 0 0 None fw) (\<lambda>(fw, shift, exit).
         bnd (if shift > 0 then stream_left_shift mc msg shift else Inr msg) (\<lambda>msg.
         bnd (if exit then loopexit (cl'\<lparr>buf := Ptr msg\<rparr>) else Inr (cl'\<lparr>buf := Ptr msg\<rparr>))
           (\<lambda>cl. Inr (put_client c cl (put_client f fw w1))))))"
      using w1 cl v' ix m d w(5) unfolding w1_def cl'_def msg_def
      by (simp add: on_flow_read_def on_ptr_def Let_def)
    show "stream_wf msg" "contents msg = held @ inb"
      using wf con by (simp_all add: msg_def)
    show "forwards pending input output w1 c f (held @ inb) [] out gone"
      using w cl v'(2) wf con fw unfolding w1_def cl'_def msg_def by (auto simp: forwards_def put_client_def)
    show "forwards pending input output (put_client c (cl'\<lparr>buf := Ptr t, ev_base := Ptr b\<rparr>) (put_client f fw' w1))
        c f (contents t) [] out' (exit_asked b)"
      if "stream_wf t" "ready pending input output fw' finb out'" for t fw' out' b
      using that w v'(2) by (auto simp: forwards_def put_client_def cl'_def w1_def)
  qed (use cl fw in \<open>simp_all add: cl'_def\<close>)
qed

lemma left_shift_rest:
  assumes "stream_wf msg" and "contents msg = concat ms @ rest"
    and "mc = AsMemmove \<or> ms = [] \<or> length rest \<le> length (concat ms)"
  obtains t where "(if length (concat ms) > 0 then stream_left_shift mc msg (length (concat ms)) else Inr msg) = Inr t"
    "stream_wf t" "contents t = rest"
proof (cases "length (concat ms) > 0")
  case True
  have n: "slen msg = length (concat ms) + length rest"
    using length_contents [OF assms(1)] assms(2) by (simp only: length_append)
  then have "mc = AsMemmove \<or> slen msg \<le> 2 * length (concat ms)"
    using True assms(3) by auto
  from stream_left_shift_ok [OF assms(1) _ this] n obtain t where
    "stream_left_shift mc msg (length (concat ms)) = Inr t" "stream_wf t"
    "contents t = drop (length (concat ms)) (contents msg)"
    by auto
  moreover have "drop (length (concat ms)) (contents msg) = rest"
    unfolding assms(2) by simp
  ultimately show thesis
    using True by (intro that [of t]) (simp_all only: if_True)
next
  case False
  then show thesis
    using assms by (intro that [of msg]) auto
qed

lemma forwards_read:
  assumes L: "libevent_ok L pending input output" and T: "tables_wf T" and E: "\<And>k. env_granted (env k)"
    and hx: "granted hx" and F: "forwards pending input output w c f held inb out gone"
    and cut: "cut (held @ inb) = (ms, rest, bad)" and surv: "all_survivable (policy_of T) env 0 ms"
    and mc: "mc = AsMemmove \<or> ms = [] \<or> length rest \<le> length (concat ms)"
  shows "\<exists>w'. on_flow_read L LittleEndian mc T hx env c w = Inr w' \<and>
    forwards pending input output w' c f (if bad then held @ inb else rest) [] (out @ outputs (policy_of T) env 0 ms) (gone \<or> bad)"
proof -
  obtain cl w1 fw msg base finb where head: "on_flow_read L LittleEndian mc T hx env c w =
      (if slen msg < 8 then Inr w1
       else bnd (flow_loop L LittleEndian T env True msg 0 0 None fw) (\<lambda>(fw, shift, exit).
         bnd (if shift > 0 then stream_left_shift mc msg shift else Inr msg) (\<lambda>msg.
         bnd (if exit then loopexit (cl\<lparr>buf := Ptr msg\<rparr>) else Inr (cl\<lparr>buf := Ptr msg\<rparr>))
           (\<lambda>cl. Inr (put_client c cl (put_client f fw w1))))))"
    and M: "stream_wf msg" "contents msg = held @ inb" and fw: "ready pending input output fw finb out"
    and cl: "ev_base cl = Ptr base" "exit_asked base = gone"
    and w1: "forwards pending input output w1 c f (held @ inb) [] out gone"
    and frame: "\<And>t fw' out' b. stream_wf t \<Longrightarrow> ready pending input output fw' finb out' \<Longrightarrow>
       forwards pending input output (put_client c (cl\<lparr>buf := Ptr t, ev_base := Ptr b\<rparr>) (put_client f fw' w1))
         c f (contents t) [] out' (exit_asked b)"
    by (rule on_flow_read_start [OF L hx F, of mc T env]) blast
  show ?thesis
  proof (cases "slen msg < 8")
    case True
    then have "ms = []" "rest = held @ inb" "\<not> bad"
      using cut length_contents [OF M(1)] M(2) by (auto simp: cut.simps [of "held @ inb"])
    then show ?thesis
      using True head w1 by simp
  next
    case False
    have "held @ inb = drop 0 (contents msg)"
      using M(2) by simp
    from flow_loop_cut [OF L T E M(1) _ this cut surv fw, of None] obtain fw' where
      fw': "flow_loop L LittleEndian T env True msg 0 0 None fw = Inr (fw', if bad then 0 else length (concat ms), bad)"
        "ready pending input output fw' finb (out @ outputs (policy_of T) env 0 ms)"
      by auto
    have same: "cl\<lparr>buf := Ptr t\<rparr> = cl\<lparr>buf := Ptr t, ev_base := Ptr base\<rparr>" for t
      using cl(1) by simp
    show ?thesis
    proof (cases bad)
      case True
      then show ?thesis
        using head False fw' cl frame [OF M(1) fw'(2), of "base\<lparr>exit_asked := True\<rparr>"] M(2)
        by (simp add: loopexit_def with_base_def)
    next
      case good: False
      from left_shift_rest [OF M(1) M(2) [unfolded cut_parts [OF cut]] mc] obtain t where
        t: "(if length (concat ms) > 0 then stream_left_shift mc msg (length (concat ms)) else Inr msg) = Inr t"
          "stream_wf t" "contents t = rest" .
      then show ?thesis
        using head False fw' good cl(2) frame [OF t(2) fw'(2), of base] same [of t]
        by (simp del: length_concat length_greater_0_conv)
    qed
  qed
qed

subsection \<open>A connection over time\<close>

text \<open>
  The network delivers a connection's bytes in chunks; each chunk is put into the bufferevent's input and
  the handler runs. \<open>feed\<close> is the run over a list of chunks, with an allocator and environment of its
  own for every read.
\<close>

definition arrive :: "('v \<Rightarrow> byte list \<Rightarrow> 'v) \<Rightarrow> nat \<Rightarrow> byte list \<Rightarrow> ('e, 'v) world \<Rightarrow> ('e, 'v) world" where
  "arrive ar c xs w =
     (case objs w c of
        Some cl \<Rightarrow> (case ev_event cl of Ptr v \<Rightarrow> put_client c (cl\<lparr>ev_event := Ptr (ar v xs)\<rparr>) w | _ \<Rightarrow> w)
      | None \<Rightarrow> w)"

primrec feed :: "('e, 'v) libevent \<Rightarrow> ('v \<Rightarrow> byte list \<Rightarrow> 'v) \<Rightarrow> rule_tables \<Rightarrow> (nat \<Rightarrow> byte heap_reply) \<Rightarrow>
    (nat \<Rightarrow> nat \<Rightarrow> inject_env) \<Rightarrow> nat \<Rightarrow> nat \<Rightarrow> ('e, 'v) world \<Rightarrow> byte list list \<Rightarrow> ('e, 'v) world res" where
  "feed L ar T hx env c j w [] = Inr w"
| "feed L ar T hx env c j w (xs # xss) =
     bnd (on_flow_read L LittleEndian AsMemmove T (hx j) (env j) c (arrive ar c xs w))
         (\<lambda>w. feed L ar T hx env c (Suc j) w xss)"

definition delivers :: "('v \<Rightarrow> byte list \<Rightarrow> 'v) \<Rightarrow> ('v \<Rightarrow> byte list) \<Rightarrow> ('v \<Rightarrow> byte list) \<Rightarrow> bool" where
  "delivers ar input output \<longleftrightarrow> (\<forall>v xs. input (ar v xs) = input v @ xs \<and> output (ar v xs) = output v)"

lemma forwards_arrive:
  assumes "delivers ar input output" and "forwards pending input output w c f held [] out gone"
  shows "forwards pending input output (arrive ar c xs w) c f held xs out gone"
  using assms by (auto simp: forwards_def arrive_def put_client_def delivers_def)

lemma cut_append_bad:
  assumes "cut a = (ms, rest, True)"
  shows "cut (a @ b) = (ms, rest @ b, True)"
  using assms
proof (induction a arbitrary: ms rest rule: cut.induct)
  case (1 a)
  have a: "8 \<le> length a" "msg_len (a @ b) = msg_len a"
    using "1.prems" by (auto simp: cut.simps [of a] msg_len_def split: if_splits)
  show ?case
  proof (cases "msg_len a = 0 \<or> length a < msg_len a")
    case True
    then show ?thesis
      using "1.prems" a by (auto simp: cut.simps [of a] cut.simps [of "a @ b"] split: if_splits)
  next
    case False
    then show ?thesis
      using "1.prems" "1.IH" a
      by (auto simp: cut.simps [of a] cut.simps [of "a @ b"] split: if_splits prod.splits)
  qed
qed

text \<open>With no rules loaded a valid message of a known version and type goes through as it is.\<close>

definition plain_msg :: "byte list \<Rightarrow> bool" where
  "plain_msg m \<longleftrightarrow> valid_msg m \<and> 1 \<le> uint (m ! 0) \<and> uint (m ! 0) \<le> 5 \<and> uint (m ! 1) \<le> 34"

lemma policy_of_init: "policy_of init_tables = (\<lambda>_. (0, 0))"
proof -
  have "tab_get (replicate 5 (replicate 35 (0 :: byte))) i j \<in> {Inr 0, Inl OutOfBounds}" for i j
    by (cases "0 \<le> i \<and> i < 5") (auto simp: tab_get_def rd_def)
  then have "cell_val (tab_get (replicate 5 (replicate 35 (0 :: byte))) i j) = 0" for i j
    unfolding cell_val_def by (metis (no_types, lifting) empty_iff insert_iff old.sum.simps(5,6) unsigned_0)
  then show ?thesis
    by (auto simp: policy_of_def init_tables_def)
qed

lemma plain_fate:
  assumes "plain_msg m"
  shows "survivable (policy_of init_tables) r m" "0 \<le> r \<Longrightarrow> fate (policy_of init_tables) r m = m"
  using assms by (auto simp: plain_msg_def survivable_def fate_def policy_of_init valid_msg_def)

lemma plain_outputs:
  assumes "\<forall>m\<in>set ms. plain_msg m" and "\<And>k. env_granted (env k)"
  shows "all_survivable (policy_of init_tables) env k ms \<and> outputs (policy_of init_tables) env k ms = concat ms"
  using assms(1)
proof (induction ms arbitrary: k)
  case (Cons m ms)
  have "0 \<le> rand_val (env k)"
    using assms(2) by (simp add: env_granted_def)
  then show ?case
    using Cons plain_fate by simp
qed simp

lemma feed_plain:
  assumes "libevent_ok L pending input output" and "delivers ar input output"
    and "\<And>j k. env_granted (env j k)" and "\<And>j. granted (hx j)"
  shows "forwards pending input output w c f held [] out gone \<Longrightarrow>
    cut (held @ concat xss) = (ms, rest, False) \<Longrightarrow> \<forall>m\<in>set ms. plain_msg m \<Longrightarrow>
    xss \<noteq> [] \<Longrightarrow>
    \<exists>w'. feed L ar init_tables hx env c j w xss = Inr w' \<and>
      forwards pending input output w' c f rest [] (out @ concat ms) gone"
proof (induction xss arbitrary: w held out ms j)
  case (Cons xs xss)
  obtain ms1 rest1 bad1 where c1: "cut (held @ xs) = (ms1, rest1, bad1)"
    by (metis prod_cases3)
  have nb: "\<not> bad1"
    using cut_append_bad [of "held @ xs" ms1 rest1 "concat xss"] c1 Cons.prems(2) by (cases bad1) simp_all
  obtain ms2 where c2: "cut (rest1 @ concat xss) = (ms2, rest, False)" "ms = ms1 @ ms2"
    using cut_append [of "held @ xs" ms1 rest1 "concat xss"] c1 nb Cons.prems(2) by (auto split: prod.splits)
  have plain: "\<forall>m\<in>set ms1. plain_msg m" "\<forall>m\<in>set ms2. plain_msg m"
    using Cons.prems(3) c2(2) by auto
  note out1 = plain_outputs [OF plain(1), where env = "env j" and k = 0, OF assms(3)]
  obtain w1 where w1: "on_flow_read L LittleEndian AsMemmove init_tables (hx j) (env j) c (arrive ar c xs w) = Inr w1"
    "forwards pending input output w1 c f rest1 [] (out @ concat ms1) gone"
    using forwards_read [where env = "env j" and hx = "hx j" and mc = AsMemmove,
        OF assms(1) init_tables_wf assms(3,4) forwards_arrive [OF assms(2) Cons.prems(1)] c1] out1 nb
    by auto
  show ?case
  proof (cases "xss = []")
    case True
    then have "rest1 @ concat xss = rest1" "cut rest1 = (ms2, rest, False)"
      using c2(1) by simp_all
    moreover have "ms2 = [] \<and> rest = rest1"
      using cut_idem [OF c1] nb calculation(2) by simp
    ultimately show ?thesis
      using w1 c2(2) True by simp
  next
    case False
    then show ?thesis
      using Cons.IH [OF w1(2) c2(1) plain(2), of "Suc j"] w1(1) c2(2) by simp
  qed
qed simp

subsection \<open>Faults and refusals\<close>

text \<open>A message of a known version and type that is neither dropped nor duplicated nor valid.\<close>

definition fatal_msg :: "rule_tables \<Rightarrow> int \<Rightarrow> byte list \<Rightarrow> bool" where
  "fatal_msg T r m \<longleftrightarrow> 2 \<le> length m \<and> 1 \<le> uint (m ! 0) \<and> uint (m ! 0) \<le> 5 \<and> uint (m ! 1) \<le> 34 \<and>
     (case policy_of T (uint (m ! 0) - 1, uint (m ! 1)) of
        (p, d) \<Rightarrow> \<not> r mod 100 < p \<and> d = 0 \<and> \<not> valid_msg m)"

lemma action_inject_fatal:
  assumes "tables_wf T" and "env_granted e" and "stream_wf s" and "bs = drop processed (contents s)"
    and "8 \<le> length bs" and "unat n \<le> length bs" and "m = take (unat n) bs"
    and "fatal_msg T (rand_val e) m"
  shows "action_inject e T (drop processed (sdata s)) n dup_count = Inl NullDeref"
proof -
  let ?data = "drop processed (sdata s)"
  note F = frame_bytes [OF assms(3,4)]
  have n: "unat n \<le> length ?data"
    by (rule order_trans [OF assms(6) F(1)])
  have len: "8 \<le> length ?data" "uint n \<le> int (length ?data)"
    using order_trans [OF assms(5) F(1)] n uint_nat [of n] by linarith+
  have m: "take (unat n) ?data = m" "length m = unat n" "2 \<le> length m"
    using F(2) assms(6-8) by (simp_all add: fatal_msg_def)
  have nth: "?data ! i = m ! i" if "i < unat n" for i
    using that by (simp add: m(1) [symmetric])
  have hd: "?data ! 0 = m ! 0" "?data ! 1 = m ! 1"
    using m(2,3) by (intro nth; linarith)+
  obtain p d where pd: "policy_of T (uint (m ! 0) - 1, uint (m ! 1)) = (p, d)"
    by fastforce
  have v: "\<not> rand_val e mod 100 < p" "d = 0" "\<not> valid_msg m" "1 \<le> uint (m ! 0)" "uint (m ! 0) \<le> 5" "uint (m ! 1) \<le> 34"
    using assms(8) pd by (auto simp: fatal_msg_def)
  have "of_validate_message ?data (uint n) \<noteq> Inr 0"
  proof (cases "8 \<le> uint n")
    case True
    have u: "uint n = int (length m)"
      by (simp only: m(2) uint_nat)
    then have "8 \<le> length m"
      using True by linarith
    then have "of_validate_message m (uint n) \<noteq> Inr 0"
      using v(3) unfolding u valid_msg_def by blast
    then show ?thesis
      using of_validate_message_local [of "uint n" ?data m] m len True by (simp add: same_bytes_def)
  next
    case False
    then show ?thesis
      by (auto simp: of_validate_message_def bnd_Inr)
  qed
  then show ?thesis
    using action_forwards [of T e ?data n p d dup_count] assms(1,2) len v pd hd by simp
qed

lemma forwards_fatal:
  assumes L: "libevent_ok L pending input output" and T: "tables_wf T" and E: "env_granted (env 0)"
    and hx: "granted hx" and F: "forwards pending input output w c f held inb out gone"
    and cut: "cut (held @ inb) = (m # ms, rest, bad)" and fatal: "fatal_msg T (rand_val (env 0)) m"
  shows "on_flow_read L LittleEndian mc T hx env c w = Inl NullDeref"
proof -
  obtain cl w1 fw msg where head: "on_flow_read L LittleEndian mc T hx env c w =
      (if slen msg < 8 then Inr w1
       else bnd (flow_loop L LittleEndian T env True msg 0 0 None fw) (\<lambda>(fw, shift, exit).
         bnd (if shift > 0 then stream_left_shift mc msg shift else Inr msg) (\<lambda>msg.
         bnd (if exit then loopexit (cl\<lparr>buf := Ptr msg\<rparr>) else Inr (cl\<lparr>buf := Ptr msg\<rparr>))
           (\<lambda>cl. Inr (put_client c cl (put_client f fw w1))))))"
    and M: "stream_wf msg" "contents msg = held @ inb"
    by (rule on_flow_read_start [OF L hx F, of mc T env]) blast
  let ?bs = "held @ inb"
  define n where "n = (be_word (take 2 (drop 2 ?bs)) :: 16 word)"
  have c: "8 \<le> length ?bs" "unat n \<noteq> 0" "unat n \<le> length ?bs" "m = take (unat n) ?bs"
    using cut by (auto simp: cut.simps [of ?bs] n_def msg_len_def split: if_splits prod.splits)
  have bs: "?bs = drop 0 (contents msg)" "0 + 8 \<le> slen msg"
    using M c(1) length_contents [OF M(1)] by simp_all
  have n: "wire_msg_len LittleEndian (sdata msg) 0 = Inr n"
    using wire_msg_len_contents [OF M(1) bs(2)] bs(1) by (simp add: n_def)
  have "n \<noteq> 0"
    using c(2) by auto
  then have "flow_loop L LittleEndian T env True msg 0 0 None fw = Inl NullDeref"
    using bs n c(3) M action_inject_fatal [OF T E M(1) bs(1) c(1,3,4) fatal, of None] length_contents [OF M(1)]
    by (subst flow_loop.simps) (simp add: not_less)
  then show ?thesis
    using head bs(2) by simp
qed

lemma partner_gone:
  assumes L: "libevent_ok L pending input output" and hx: "granted hx" and w: "objs w c = Some cl"
    and cl: "ev_event cl = Ptr v" "buf cl = Ptr s" "stream_wf s" "ev_base cl = Ptr base"
    and gone: "client_map w (fw_fd cl) = None \<or> client_map w (fw_fd cl) = Some None"
  obtains w' cl' s' where "on_flow_read L en mc T hx env c w = Inr w'"
    "objs w' = (objs w)(c := Some cl')" "client_map w' = (client_map w)(fw_fd cl := Some None)"
    "buf cl' = Ptr s'" "stream_wf s'" "contents s' = contents s @ input v"
    "ev_base cl' = Ptr (if 8 \<le> length (contents s @ input v) then base\<lparr>exit_asked := True\<rparr> else base)"
proof -
  define w0 where "w0 = w\<lparr>client_map := (client_map w)(fw_fd cl := Some None)\<rparr>"
  have ix: "map_index w (fw_fd cl) = (None, w0)"
    using gone by (auto simp: map_index_def w0_def fun_upd_idem)
  obtain v' where v': "input_remove L v (length (input v)) = (input v, v')" "input_length L v = length (input v)"
    using L unfolding libevent_ok_def by (metis order_refl prod.collapse take_all)
  obtain m d where m: "make_room hx s (length (input v)) = (0, m)"
    and d: "wr_block (sdata m) (int (slen m)) (input v) = Inr d"
    and wf: "stream_wf (m\<lparr>sdata := d, slen := slen m + length (input v)\<rparr>)"
    and con: "contents (m\<lparr>sdata := d, slen := slen m + length (input v)\<rparr>) = contents s @ input v"
    using receive_bytes [OF cl(3) hx, of "input v"] by metis
  let ?msg = "m\<lparr>sdata := d, slen := slen m + length (input v)\<rparr>"
  let ?cl = "cl\<lparr>ev_event := Ptr v', buf := Ptr ?msg\<rparr>"
  have len: "slen ?msg = length (contents s @ input v)"
    using length_contents [OF wf] con by simp
  show thesis
  proof (cases "8 \<le> length (contents s @ input v)")
    case False
    have "on_flow_read L en mc T hx env c w = Inr (put_client c ?cl w0)"
      using w cl v' ix m d False len by (simp add: on_flow_read_def on_ptr_def Let_def deref_def)
    then show thesis
      by (rule that [where cl' = ?cl and s' = ?msg])
        (use False wf con cl in \<open>simp_all add: put_client_def w0_def\<close>)
  next
    case True
    let ?cl' = "?cl\<lparr>ev_base := Ptr (base\<lparr>exit_asked := True\<rparr>)\<rparr>"
    have "on_flow_read L en mc T hx env c w = Inr (put_client c ?cl' (put_client c ?cl w0))"
      using w cl v' ix m d True len
      by (simp add: on_flow_read_def on_ptr_def Let_def deref_def put_client_def loopexit_def with_base_def)
    then show thesis
      by (rule that [where cl' = ?cl' and s' = ?msg])
        (use True wf con cl in \<open>simp_all add: put_client_def w0_def\<close>)
  qed
qed

subsection \<open>Properties\<close>

text \<open>A libevent made of byte lists, and a pair of clients on it with \<open>inb\<close> waiting at the first.\<close>

definition sample_libevent :: "(byte list, byte list \<times> byte list) libevent" where
  "sample_libevent = \<lparr>input_length = (\<lambda>v. length (fst v)),
     input_remove = (\<lambda>v n. (take n (fst v), (drop n (fst v), snd v))), evbuffer_add = (@),
     write_buffer = (\<lambda>v b. (0, (fst v, snd v @ b), []))\<rparr>"

definition sample_arrive :: "byte list \<times> byte list \<Rightarrow> byte list \<Rightarrow> byte list \<times> byte list" where
  "sample_arrive v xs = (fst v @ xs, snd v)"

definition sample_client :: "int \<Rightarrow> int \<Rightarrow> byte list \<Rightarrow> (byte list, byte list \<times> byte list) client" where
  "sample_client cfd ffd inb = \<lparr>fd = cfd, fw_fd = ffd, ev_base = Ptr \<lparr>exit_asked = False, break_asked = False\<rparr>,
     ev_buf = Ptr [], ev_event = Ptr (inb, []), buf = Ptr \<lparr>sdata = [], scap = 0, slen = 0\<rparr>\<rparr>"

definition sample_world :: "byte list \<Rightarrow> (byte list, byte list \<times> byte list) world" where
  "sample_world inb = \<lparr>objs = [0 \<mapsto> sample_client 4 5 inb, 1 \<mapsto> sample_client 5 4 []],
     client_map = [4 \<mapsto> Some 0, 5 \<mapsto> Some 1], open_fds = {4, 5}\<rparr>"

definition sample_grant :: "byte heap_reply" where
  "sample_grant = \<lparr>granted = True, junk = (\<lambda>_. 0)\<rparr>"

lemma sample_libevent_ok: "libevent_ok sample_libevent id fst snd"
  and sample_arrive_ok: "delivers sample_arrive fst snd"
  and sample_grant_ok: "granted sample_grant"
  by (simp_all add: libevent_ok_def sample_libevent_def delivers_def sample_arrive_def sample_grant_def)

lemma sample_forwards: "forwards id fst snd (sample_world inb) 0 1 [] inb [] False"
  by (simp add: forwards_def sample_world_def sample_client_def stream_wf_def contents_def ready_def)

definition hello_msg :: "byte list" where
  "hello_msg = [1, 0, 0, 8, 0, 0, 0, 0]"

lemma hello_msg_plain: "plain_msg hello_msg"
  by code_simp

text \<open>C1: With no rules loaded the proxy is transparent. However the network cuts a stream of
  valid messages of known versions and types into chunks, the partner is sent exactly the complete messages,
  byte for byte and in order, and the receive buffer keeps the incomplete rest. (The copy that
  moves the rest to the front is taken to work like \<open>memmove\<close>.)\<close>

theorem feed_transparent:
  assumes "libevent_ok L pending input output" and "delivers ar input output"
    and "\<And>j k. env_granted (env j k)" and "\<And>j. granted (hx j)"
    and "forwards pending input output w c f [] [] out gone"
    and "cut (concat xss) = (ms, rest, False)" and "\<forall>m\<in>set ms. plain_msg m" and "xss \<noteq> []"
  shows "concat xss = concat ms @ rest \<and>
    (\<exists>w'. feed L ar init_tables hx env c 0 w xss = Inr w' \<and>
      forwards pending input output w' c f rest [] (out @ concat ms) gone)"
  using feed_plain [OF assms(1-5), of xss ms rest] assms(6-8) cut_parts [OF assms(6)] by simp

lemma feed_transparent_witness:
  "\<exists>w'. feed sample_libevent sample_arrive init_tables (\<lambda>_. sample_grant) (\<lambda>_ _. sample_env 0) 0 0 (sample_world [])
       [[1, 0, 0], [8, 0, 0, 0, 0, 1, 0, 0], [8, 0, 0, 0, 0, 2]] = Inr w' \<and>
     forwards id fst snd w' 0 1 [2] [] (hello_msg @ hello_msg) False"
proof -
  have c: "cut (concat [[1, 0, 0], [8, 0, 0, 0, 0, 1, 0, 0], [8, 0, 0, 0, 0, 2]]) = ([hello_msg, hello_msg], [2], False)"
    by code_simp
  show ?thesis
    using feed_transparent [OF sample_libevent_ok sample_arrive_ok sample_env_granted [OF order_refl] sample_grant_ok
        sample_forwards [of "[]"] c] hello_msg_plain
    by simp
qed

text \<open>C4: One run of the read handler does what the abstract handler says: the bytes held and the bytes
  waiting are cut into messages, the partner is sent what the policy makes of each in turn, and
  the rest is kept. A message of length 0 makes the event loop exit with everything kept. The one
  restriction is that the copy of the rest either works like \<open>memmove\<close> or does not overlap.\<close>

theorem on_flow_read_forwards:
  assumes "libevent_ok L pending input output" and "tables_wf T" and "\<And>k. env_granted (env k)" and "granted hx"
    and "forwards pending input output w c f held inb out gone"
    and "cut (held @ inb) = (ms, rest, bad)" and "all_survivable (policy_of T) env 0 ms"
    and "mc = AsMemmove \<or> ms = [] \<or> length rest \<le> length (concat ms)"
  shows "\<exists>w'. on_flow_read L LittleEndian mc T hx env c w = Inr w' \<and>
    forwards pending input output w' c f (if bad then held @ inb else rest) [] (out @ outputs (policy_of T) env 0 ms) (gone \<or> bad)"
  by (rule forwards_read [OF assms])

lemma on_flow_read_forwards_witness:
  "\<exists>w'. on_flow_read sample_libevent LittleEndian IsoC init_tables sample_grant (\<lambda>_. sample_env 0) 0
       (sample_world (hello_msg @ [1, 2, 0, 0, 0, 0, 0, 0])) = Inr w' \<and>
     forwards id fst snd w' 0 1 (hello_msg @ [1, 2, 0, 0, 0, 0, 0, 0]) [] hello_msg True"
proof -
  have c: "cut (hello_msg @ [1, 2, 0, 0, 0, 0, 0, 0]) = ([hello_msg], [1, 2, 0, 0, 0, 0, 0, 0], True)"
    by code_simp
  have g: "env_granted (sample_env 0)"
    by (simp add: sample_env_granted)
  have o: "all_survivable (policy_of init_tables) (\<lambda>_. sample_env 0) 0 [hello_msg]"
    "outputs (policy_of init_tables) (\<lambda>_. sample_env 0) 0 [hello_msg] = hello_msg"
    using plain_outputs [of "[hello_msg]" "\<lambda>_. sample_env 0" 0] hello_msg_plain g by simp_all
  have "IsoC = AsMemmove \<or> [hello_msg] = [] \<or> length [1, 2, 0, 0, 0, 0, 0, 0 :: byte] \<le> length (concat [hello_msg])"
    by (simp add: hello_msg_def)
  then show ?thesis
    using on_flow_read_forwards [OF sample_libevent_ok init_tables_wf g sample_grant_ok sample_forwards _ o(1), of _ "[1, 2, 0, 0, 0, 0, 0, 0]" True IsoC] c o(2)
    by simp
qed

text \<open>C23: One malformed message kills the proxy: when the first complete message is of a known
  version and type, is neither dropped nor duplicated, and does not validate, the read handler
  dereferences a null pointer.\<close>

theorem on_flow_read_malformed:
  assumes "libevent_ok L pending input output" and "tables_wf T" and "env_granted (env 0)" and "granted hx"
    and "forwards pending input output w c f held inb out gone"
    and "cut (held @ inb) = (m # ms, rest, bad)" and "fatal_msg T (rand_val (env 0)) m"
  shows "on_flow_read L LittleEndian mc T hx env c w = Inl NullDeref"
  by (rule forwards_fatal [where env = env, OF assms])

lemma on_flow_read_malformed_witness:
  "on_flow_read sample_libevent LittleEndian IsoC init_tables sample_grant (\<lambda>_. sample_env 0) 0
     (sample_world [1, 0, 0, 9, 0, 0, 0, 0, 7]) = Inl NullDeref"
proof -
  have c: "cut ([] @ [1, 0, 0, 9, 0, 0, 0, 0, 7]) = ([[1, 0, 0, 9, 0, 0, 0, 0, 7]], [], False)"
    by code_simp
  have f: "fatal_msg init_tables 0 [1, 0, 0, 9, 0, 0, 0, 0, 7]"
    by code_simp
  have g: "env_granted (sample_env 0)"
    by (simp add: sample_env_granted)
  show ?thesis
    using on_flow_read_malformed [where env = "\<lambda>_. sample_env 0", OF sample_libevent_ok init_tables_wf _ sample_grant_ok sample_forwards c,
        of IsoC] f g
    by (simp add: sample_env_def)
qed

text \<open>When the partner is gone the handler still collects what comes in, sends nothing, and asks
  the event loop to exit as soon as a header's worth of bytes is there; looking the partner up
  leaves a null entry in the map under its descriptor.\<close>

theorem on_flow_read_partner_gone:
  assumes "libevent_ok L pending input output" and "granted hx" and "objs w c = Some cl"
    and "ev_event cl = Ptr v" "buf cl = Ptr s" "stream_wf s" "ev_base cl = Ptr base"
    and "client_map w (fw_fd cl) = None \<or> client_map w (fw_fd cl) = Some None"
  shows "\<exists>w' cl' s'. on_flow_read L en mc T hx env c w = Inr w' \<and> objs w' = (objs w)(c := Some cl') \<and>
    client_map w' = (client_map w)(fw_fd cl := Some None) \<and> buf cl' = Ptr s' \<and> stream_wf s' \<and>
    contents s' = contents s @ input v \<and>
    ev_base cl' = Ptr (if 8 \<le> length (contents s @ input v) then base\<lparr>exit_asked := True\<rparr> else base)"
  by (rule partner_gone [OF assms, of en mc T env]) blast

lemma on_flow_read_partner_gone_witness:
  "\<exists>w'. on_flow_read sample_libevent BigEndian IsoC init_tables sample_grant (\<lambda>_. sample_env 0) 0
     \<lparr>objs = [0 \<mapsto> sample_client 4 (-1) hello_msg], client_map = [4 \<mapsto> Some 0], open_fds = {4}\<rparr> = Inr w' \<and>
     client_map w' (-1) = Some None"
proof -
  let ?cl = "sample_client 4 (-1) hello_msg"
  let ?w = "\<lparr>objs = [0 \<mapsto> ?cl], client_map = [4 \<mapsto> Some 0], open_fds = {4}\<rparr>"
  have cl: "ev_event ?cl = Ptr (hello_msg, [])" "buf ?cl = Ptr \<lparr>sdata = [], scap = 0, slen = 0\<rparr>"
    "stream_wf \<lparr>sdata = [], scap = 0, slen = 0\<rparr>" "ev_base ?cl = Ptr \<lparr>exit_asked = False, break_asked = False\<rparr>" "fw_fd ?cl = -1"
    by (simp_all add: sample_client_def stream_wf_def)
  show ?thesis
    using on_flow_read_partner_gone [OF sample_libevent_ok sample_grant_ok _ cl(1-4), of ?w 0 BigEndian IsoC
        init_tables "\<lambda>_. sample_env 0"] cl(5)
    by auto
qed

end
