(* ===== verification/Proxy.thy ===== *)
theory Proxy
  imports Flow
begin

text \<open>
  The life of connections, \<^verbatim>\<open>mproxy/src/proxy.cpp\<close> and the cleanup of
  \<^verbatim>\<open>main.cpp\<close>: the listener accepts a connection, opens one to the target, and starts a client
  thread for each end; a thread handles reads until its event loop ends and then deletes its
  client. The state is the shared state of the clients; the kernel, the allocator and libevent
  decide the outcomes collected in \<open>accept_env\<close>.
\<close>

subsection \<open>The listener\<close>

text \<open>\<open>fcntl\<close>'s two answers.\<close>

definition set_nonblock :: "int \<times> int \<Rightarrow> int" where
  "set_nonblock r = (case r of (getfl, setfl) \<Rightarrow> if getfl < 0 then getfl else if setfl < 0 then -1 else 0)"

definition open_fd :: "int \<Rightarrow> ('e, 'v) world \<Rightarrow> ('e, 'v) world" where
  "open_fd k w = w\<lparr>open_fds := insert k (open_fds w)\<rparr>"

definition close_fd :: "int \<Rightarrow> ('e, 'v) world \<Rightarrow> ('e, 'v) world" where
  "close_fd k w = w\<lparr>open_fds := open_fds w - {k}\<rparr>"

text \<open>\<open>socket\<close> and \<open>connect\<close>; both error exits return \<open>STATUS_ERR\<close>.\<close>

definition get_outflow_fd :: "int \<Rightarrow> int \<Rightarrow> ('e, 'v) world \<Rightarrow> int \<times> ('e, 'v) world" where
  "get_outflow_fd sock rc w =
     (if sock < 0 then (STATUS_ERR, w)
      else let w = open_fd sock w in
        if rc < 0 then (STATUS_ERR, close_fd sock w) else (sock, w))"

record ('e, 'v) accept_env =
  accept_fd :: int
  in_flags :: "int \<times> int"
  sock_fd :: int
  connect_rc :: int
  out_flags :: "int \<times> int"
  in_addr :: nat
  out_addr :: nat
  in_init :: "('e, 'v) init_env"
  out_init :: "('e, 'v) init_env"

text \<open>
  One accepted connection: the addresses of the two clients whose threads are started, or nothing.
  (\<open>new\<close> does not return null in C++; the branches for that are dead.)
\<close>

definition handle_request ::
  "('e, 'v) accept_env \<Rightarrow> ('e, 'v) world \<Rightarrow> ((nat \<times> nat) option \<times> ('e, 'v) world) res" where
  "handle_request e w =
     (let in_fd = accept_fd e; w = open_fd in_fd w
      in if set_nonblock (in_flags e) < 0 then Inr (None, close_fd in_fd w)
      else let (out_fd, w) = get_outflow_fd (sock_fd e) (connect_rc e) w
      in if out_fd < 0 then Inr (None, close_fd in_fd w)
      else if set_nonblock (out_flags e) < 0 then Inr (None, close_fd out_fd (close_fd in_fd w))
      else let w = put_client (in_addr e) (client_new in_fd out_fd) w
      in bnd (client_init (in_init e) (in_addr e) w) (\<lambda>(rc, w).
         if rc \<noteq> 0 then bnd (client_delete (in_addr e) (close_fd out_fd w)) (\<lambda>w. Inr (None, w))
         else let w = put_client (out_addr e) (client_new out_fd in_fd) w
         in bnd (client_init (out_init e) (out_addr e) w) (\<lambda>(rc, w).
            if rc \<noteq> 0
            then bnd (client_delete (in_addr e) w) (\<lambda>w.
                 bnd (client_delete (out_addr e) w) (\<lambda>w. Inr (None, w)))
            else Inr (Some (in_addr e, out_addr e), w))))"

text \<open>
  The accept loop over a sequence of events: whether the listening socket is still valid and what
  \<open>accept\<close> returned (nothing for an error, which ends the loop). The result lists the pairs started.
\<close>

record ('e, 'v) listen_event =
  sock_valid :: bool
  accepted :: "('e, 'v) accept_env option"

fun start_listen :: "('e, 'v) listen_event list \<Rightarrow> ('e, 'v) world \<Rightarrow> ((nat \<times> nat) list \<times> ('e, 'v) world) res" where
  "start_listen [] w = Inr ([], w)"
| "start_listen (ev # evs) w =
     (if \<not> sock_valid ev then Inr ([], w)
      else case accepted ev of
        None \<Rightarrow> Inr ([], w)
      | Some e \<Rightarrow>
          bnd (handle_request e w) (\<lambda>(r, w).
          bnd (start_listen evs w) (\<lambda>(ts, w).
          Inr ((case r of None \<Rightarrow> ts | Some p \<Rightarrow> p # ts), w))))"

subsection \<open>The invariant of the shared state\<close>

text \<open>
  Every live client is initialised, owns an open descriptor and is what the map gives for it; its
  forwarding descriptor is -1 or leads to a live client that forwards back; and the map leads to
  live clients only.
\<close>

definition partner_ok :: "('e, 'v) world \<Rightarrow> nat \<Rightarrow> ('e, 'v) client \<Rightarrow> bool" where
  "partner_ok w c cl \<longleftrightarrow> fw_fd cl = -1 \<or>
     (\<exists>f fw. f \<noteq> c \<and> client_map w (fw_fd cl) = Some (Some f) \<and> objs w f = Some fw \<and> fw_fd fw = fd cl)"

definition world_inv :: "('e, 'v) world \<Rightarrow> bool" where
  "world_inv w \<longleftrightarrow>
     (\<forall>c cl. objs w c = Some cl \<longrightarrow>
        running cl \<and> fd cl \<in> open_fds w \<and> client_map w (fd cl) = Some (Some c) \<and> partner_ok w c cl) \<and>
     (\<forall>k c. client_map w k = Some (Some c) \<longrightarrow> (\<exists>cl. objs w c = Some cl \<and> fd cl = k))"

lemma world_invD:
  assumes "world_inv w" and "objs w c = Some cl"
  shows "running cl" "0 \<le> fd cl" "fd cl \<in> open_fds w" "client_map w (fd cl) = Some (Some c)" "partner_ok w c cl"
  using assms by (auto simp: world_inv_def running_def)

lemma world_inv_map:
  assumes "world_inv w" and "client_map w k = Some (Some c)"
  obtains cl where "objs w c = Some cl" "fd cl = k"
proof -
  have "\<exists>cl. objs w c = Some cl \<and> fd cl = k"
    using assms by (simp add: world_inv_def)
  then show thesis
    using that by blast
qed

lemma world_inv_fd_unique:
  "world_inv w \<Longrightarrow> objs w c = Some cl \<Longrightarrow> objs w d = Some dl \<Longrightarrow> fd cl = fd dl \<Longrightarrow> c = d"
  using world_invD(4) [of w c cl] world_invD(4) [of w d dl] by simp

lemma world_inv_minus_one: "world_inv w \<Longrightarrow> client_map w (-1) \<noteq> Some (Some c)"
proof
  assume w: "world_inv w" "client_map w (-1) = Some (Some c)"
  then obtain cl where "objs w c = Some cl" "fd cl = -1"
    by (rule world_inv_map)
  then show False
    using world_invD(2) [OF w(1)] by fastforce
qed

text \<open>A client's partner, by what the map holds under its forwarding descriptor.\<close>

lemma partner_cases:
  assumes "world_inv w" and "objs w c = Some cl"
  obtains (none) "fw_fd cl = -1" "client_map w (-1) = None \<or> client_map w (-1) = Some None"
  | (some) f fw where "f \<noteq> c" "client_map w (fw_fd cl) = Some (Some f)" "objs w f = Some fw" "running fw"
      "fd fw = fw_fd cl" "fw_fd fw = fd cl"
proof (cases "fw_fd cl = -1")
  case True
  then show thesis
    using none world_inv_minus_one [OF assms(1)] by (cases "client_map w (-1)") auto
next
  case False
  then obtain f fw where f: "f \<noteq> c" "client_map w (fw_fd cl) = Some (Some f)" "objs w f = Some fw" "fw_fd fw = fd cl"
    using world_invD(5) [OF assms] by (auto simp: partner_ok_def)
  moreover have "fd fw = fw_fd cl"
    using world_inv_map [OF assms(1) f(2)] f(3) by auto
  ultimately show thesis
    using some world_invD(1) [OF assms(1) f(3)] by blast
qed

subsection \<open>Deleting a client\<close>

lemma client_delete_paired:
  assumes "objs w c = Some cl" and "running cl" and "client_map w (fw_fd cl) = Some (Some f)"
    and "f \<noteq> c" and "objs w f = Some fw" and "running fw"
  obtains b where "client_delete c w = Inr (w\<lparr>objs := (objs w)(c := None, f := Some (fw\<lparr>fw_fd := -1, ev_base := Ptr b\<rparr>)),
      client_map := (client_map w)(fd cl := None), open_fds := open_fds w - {fd cl}\<rparr>)"
proof -
  obtain b where b: "loopbreak (fw\<lparr>fw_fd := -1\<rparr>) = Inr (fw\<lparr>fw_fd := -1, ev_base := Ptr b\<rparr>)"
    using assms(6) by (auto simp: loopbreak_def with_base_def running_def)
  have "client_delete c w = Inr (w\<lparr>objs := (objs w)(c := None, f := Some (fw\<lparr>fw_fd := -1, ev_base := Ptr b\<rparr>)),
      client_map := (client_map w)(fd cl := None), open_fds := open_fds w - {fd cl}\<rparr>)"
    using assms b
    by (auto simp: client_delete_def dtor_lookup_def dtor_release_def dtor_unmap_def dtor_notify_def dtor_free_def
        deref_def map_index_def known_def running_def put_client_def Let_def fun_upd_twist)
  then show thesis
    by (rule that)
qed

lemma client_delete_alone:
  assumes "objs w c = Some cl" and "ev_event cl \<noteq> Unset" "ev_base cl \<noteq> Unset" "ev_buf cl \<noteq> Unset" "buf cl \<noteq> Unset"
    and "client_map w (fw_fd cl) = None \<or> client_map w (fw_fd cl) = Some None" and "fd cl \<noteq> -1"
  shows "client_delete c w = Inr (w\<lparr>objs := (objs w)(c := None),
      client_map := (client_map w)(fw_fd cl := Some None, fd cl := None), open_fds := open_fds w - {fd cl}\<rparr>)"
proof -
  have ix: "map_index w (fw_fd cl) = (None, w\<lparr>client_map := (client_map w)(fw_fd cl := Some None)\<rparr>)"
    using assms(6) by (auto simp: map_index_def fun_upd_idem)
  show ?thesis
    using assms(1-5,7)
    by (simp add: client_delete_def dtor_lookup_def dtor_release_def dtor_unmap_def dtor_notify_def dtor_free_def
        deref_def ix known_def put_client_def Let_def)
qed

lemma client_delete_unset:
  assumes "objs w c = Some cl" and "ev_event cl = Unset"
  shows "client_delete c w = Inl Uninit"
proof -
  obtain p w' where "map_index w (fw_fd cl) = (p, w')" "objs w' = objs w"
    by (cases "client_map w (fw_fd cl)") (simp_all add: map_index_def)
  then show ?thesis
    using assms by (simp add: client_delete_def dtor_lookup_def dtor_release_def deref_def known_def)
qed

lemma running_marked: "running (fw\<lparr>fw_fd := i, ev_base := Ptr b\<rparr>) \<longleftrightarrow> running fw" if "running fw"
  using that by (auto simp: running_def)

lemma client_delete_inv:
  assumes I: "world_inv w" and c: "objs w c = Some cl"
  obtains w' where "client_delete c w = Inr w'" "world_inv w'" "dom (objs w') = dom (objs w) - {c}"
    "open_fds w' = open_fds w - {fd cl}"
    "\<And>k. client_map w' k = Some None \<Longrightarrow> k = -1 \<or> client_map w k = Some None"
  using I c
proof (cases rule: partner_cases)
  case none
  have set: "ev_event cl \<noteq> Unset" "ev_base cl \<noteq> Unset" "ev_buf cl \<noteq> Unset" "buf cl \<noteq> Unset" "fd cl \<noteq> -1"
    using world_invD(1,2) [OF I c] by (auto simp: running_def)
  let ?w = "w\<lparr>objs := (objs w)(c := None), client_map := (client_map w)(-1 := Some None, fd cl := None),
      open_fds := open_fds w - {fd cl}\<rparr>"
  have "client_delete c w = Inr ?w"
    using client_delete_alone [OF c set(1-4) _ set(5)] none by simp
  moreover have "world_inv ?w"
    unfolding world_inv_def
  proof (intro conjI allI impI)
    fix d dl
    assume "objs ?w d = Some dl"
    then have d: "objs w d = Some dl" "d \<noteq> c"
      by (auto split: if_splits)
    note D = world_invD [OF I d(1)]
    have ne: "fd dl \<noteq> fd cl" "fd dl \<noteq> -1"
      using world_inv_fd_unique [OF I d(1) c] d(2) D(2) by auto
    show "running dl" "fd dl \<in> open_fds ?w" "client_map ?w (fd dl) = Some (Some d)"
      using D ne by simp_all
    show "partner_ok ?w d dl"
      using I d(1)
    proof (cases rule: partner_cases)
      case (some f fw)
      then have "f \<noteq> c"
        using none(1) c D(2) by auto
      then have "fd fw \<noteq> fd cl"
        using world_inv_fd_unique [OF I some(3) c] by blast
      then show ?thesis
        using some \<open>f \<noteq> c\<close> world_invD(2) [OF I some(3)] by (simp add: partner_ok_def)
    qed (simp add: partner_ok_def)
  next
    fix k d
    assume "client_map ?w k = Some (Some d)"
    then have "client_map w k = Some (Some d)" "k \<noteq> fd cl"
      by (auto split: if_splits)
    moreover from I calculation(1) obtain dl where "objs w d = Some dl" "fd dl = k"
      by (rule world_inv_map)
    ultimately show "\<exists>dl. objs ?w d = Some dl \<and> fd dl = k"
      using c by auto
  qed
  ultimately show thesis
    by (rule that) (auto split: if_splits)
next
  case (some f fw)
  obtain b where del: "client_delete c w = Inr (w\<lparr>objs := (objs w)(c := None, f := Some (fw\<lparr>fw_fd := -1, ev_base := Ptr b\<rparr>)),
      client_map := (client_map w)(fd cl := None), open_fds := open_fds w - {fd cl}\<rparr>)" (is "_ = Inr ?w")
    by (rule client_delete_paired [OF c world_invD(1) [OF I c] some(2,1,3,4)])
  have "world_inv ?w"
    unfolding world_inv_def
  proof (intro conjI allI impI)
    fix d dl
    assume d': "objs ?w d = Some dl"
    then obtain dl' where d: "objs w d = Some dl'" "d \<noteq> c" "fd dl = fd dl'" "running dl"
      and fw: "fw_fd dl = (if d = f then -1 else fw_fd dl')"
      using some running_marked [OF some(4)] world_invD(1) [OF I] by (auto split: if_splits)
    note D = world_invD [OF I d(1)]
    have ne: "fd dl' \<noteq> fd cl"
      using world_inv_fd_unique [OF I d(1) c] d(2) by auto
    show "running dl" "fd dl \<in> open_fds ?w" "client_map ?w (fd dl) = Some (Some d)"
      using D ne d by simp_all
    show "partner_ok ?w d dl"
    proof (cases "d = f")
      case False
      from I d(1) show ?thesis
      proof (cases rule: partner_cases)
        case none
        then show ?thesis
          using False fw by (simp add: partner_ok_def)
      next
        case (some g gw)
        have "g \<noteq> c"
          using some \<open>f \<noteq> c\<close> \<open>fd fw = fw_fd cl\<close> \<open>objs w f = Some fw\<close> False c d(1) world_inv_fd_unique [OF I]
          by (metis option.inject)
        moreover have "fd gw \<noteq> fd cl"
          using \<open>g \<noteq> c\<close> world_inv_fd_unique [OF I some(3) c] by blast
        moreover have "g \<noteq> f"
          using some \<open>fw_fd fw = fd cl\<close> \<open>objs w f = Some fw\<close> ne by auto
        ultimately show ?thesis
          using some False fw d by (auto simp: partner_ok_def)
      qed
    qed (use fw in \<open>simp add: partner_ok_def\<close>)
  next
    fix k d
    assume "client_map ?w k = Some (Some d)"
    then have "client_map w k = Some (Some d)" "k \<noteq> fd cl"
      by (auto split: if_splits)
    moreover from I calculation(1) obtain dl where "objs w d = Some dl" "fd dl = k"
      by (rule world_inv_map)
    ultimately show "\<exists>dl. objs ?w d = Some dl \<and> fd dl = k"
      using c some by auto
  qed
  then show thesis
    by (rule that [OF del]) (use some(1,3) in \<open>auto split: if_splits\<close>)
qed

subsection \<open>Starting a pair\<close>

text \<open>The kernel hands out descriptors that are not open, the allocator addresses that are not in use.\<close>

definition accept_fresh :: "('e, 'v) accept_env \<Rightarrow> ('e, 'v) world \<Rightarrow> bool" where
  "accept_fresh e w \<longleftrightarrow>
     0 \<le> accept_fd e \<and> accept_fd e \<notin> open_fds w \<and> sock_fd e \<notin> open_fds w \<and> sock_fd e \<noteq> accept_fd e \<and>
     objs w (in_addr e) = None \<and> objs w (out_addr e) = None \<and> in_addr e \<noteq> out_addr e"

text \<open>Both descriptors could be had and made non-blocking.\<close>

definition connected :: "('e, 'v) accept_env \<Rightarrow> bool" where
  "connected e \<longleftrightarrow> 0 \<le> set_nonblock (in_flags e) \<and> 0 \<le> sock_fd e \<and> 0 \<le> connect_rc e \<and> 0 \<le> set_nonblock (out_flags e)"

text \<open>The state in which the clients are made.\<close>

definition with_fds :: "('e, 'v) accept_env \<Rightarrow> ('e, 'v) world \<Rightarrow> ('e, 'v) world" where
  "with_fds e w = w\<lparr>open_fds := insert (sock_fd e) (insert (accept_fd e) (open_fds w))\<rparr>"

lemma handle_request_connected:
  assumes "connected e"
  shows "handle_request e w =
    bnd (client_init (in_init e) (in_addr e)
          (put_client (in_addr e) (client_new (accept_fd e) (sock_fd e)) (with_fds e w))) (\<lambda>(rc, w).
      if rc \<noteq> 0 then bnd (client_delete (in_addr e) (close_fd (sock_fd e) w)) (\<lambda>w. Inr (None, w))
      else bnd (client_init (out_init e) (out_addr e)
             (put_client (out_addr e) (client_new (sock_fd e) (accept_fd e)) w)) (\<lambda>(rc, w).
        if rc \<noteq> 0
        then bnd (client_delete (in_addr e) w) (\<lambda>w. bnd (client_delete (out_addr e) w) (\<lambda>w. Inr (None, w)))
        else Inr (Some (in_addr e, out_addr e), w)))"
  using assms
  by (simp add: handle_request_def connected_def get_outflow_fd_def open_fd_def with_fds_def Let_def not_less
      cong: if_cong)

lemma handle_request_refused:
  assumes "\<not> connected e" and "accept_fresh e w"
  shows "handle_request e w = Inr (None, w)"
proof -
  have "open_fds w - {accept_fd e} = open_fds w" "insert (sock_fd e) (open_fds w) - {sock_fd e} = open_fds w"
    "open_fds w - {sock_fd e} = open_fds w"
    using assms(2) by (auto simp: accept_fresh_def)
  then show ?thesis
    using assms
    by (auto simp: handle_request_def connected_def get_outflow_fd_def open_fd_def close_fd_def Let_def
        accept_fresh_def not_le insert_Diff_if STATUS_ERR_def)
qed

lemma fresh_unmapped:
  assumes "world_inv w" and "k \<notin> open_fds w"
  shows "client_map w k = None \<or> client_map w k = Some None"
proof (cases "client_map w k")
  case (Some p)
  have "p = None"
  proof (cases p)
    case (Some c)
    obtain cl where "objs w c = Some cl" "fd cl = k"
      using world_inv_map [OF assms(1)] \<open>client_map w k = Some p\<close> Some by blast
    then show ?thesis
      using world_invD(3) [OF assms(1)] assms(2) by blast
  qed
  then show ?thesis
    using Some by simp
qed simp

lemma world_inv_pair:
  assumes I: "world_inv w" and fresh: "accept_fresh e w" and "0 \<le> sock_fd e"
    and cl: "running cl" "fd cl = accept_fd e" "fw_fd cl = sock_fd e"
    and dl: "running dl" "fd dl = sock_fd e" "fw_fd dl = accept_fd e"
  shows "world_inv (w\<lparr>objs := (objs w)(in_addr e := Some cl, out_addr e := Some dl),
    client_map := (client_map w)(accept_fd e := Some (Some (in_addr e)), sock_fd e := Some (Some (out_addr e))),
    open_fds := insert (sock_fd e) (insert (accept_fd e) (open_fds w))\<rparr>)" (is "world_inv ?w")
  unfolding world_inv_def
proof (intro conjI allI impI)
  note F = fresh [unfolded accept_fresh_def]
  fix g gl
  assume g: "objs ?w g = Some gl"
  consider (c) "g = in_addr e" "gl = cl" | (d) "g = out_addr e" "gl = dl"
    | (old) "objs w g = Some gl" "g \<noteq> in_addr e" "g \<noteq> out_addr e"
    using g by (cases "g = in_addr e"; cases "g = out_addr e") (use F in simp_all)
  then have "running gl \<and> fd gl \<in> open_fds ?w \<and> client_map ?w (fd gl) = Some (Some g) \<and> partner_ok ?w g gl"
  proof cases
    case old
    note D = world_invD [OF I old(1)]
    have "partner_ok ?w g gl"
      using I old(1)
    proof (cases rule: partner_cases)
      case (some f fw)
      have "fw_fd gl \<in> open_fds w"
        using world_invD(3) [OF I some(3)] some(5) by simp
      then have "fw_fd gl \<noteq> accept_fd e" "fw_fd gl \<noteq> sock_fd e" "f \<noteq> in_addr e" "f \<noteq> out_addr e"
        using F some(3) by auto
      then show ?thesis
        using some by (simp add: partner_ok_def)
    qed (simp add: partner_ok_def)
    moreover have "fd gl \<noteq> accept_fd e" "fd gl \<noteq> sock_fd e"
      using D(3) F by auto
    ultimately show ?thesis
      using D by simp
  qed (use F cl dl in \<open>auto simp: partner_ok_def\<close>)
  then show "running gl" "fd gl \<in> open_fds ?w" "client_map ?w (fd gl) = Some (Some g)" "partner_ok ?w g gl"
    by simp_all
next
  note F = fresh [unfolded accept_fresh_def]
  fix k g
  assume "client_map ?w k = Some (Some g)"
  then consider "k = sock_fd e" "g = out_addr e" | "k = accept_fd e" "g = in_addr e" | "client_map w k = Some (Some g)"
    by (cases "k = sock_fd e"; cases "k = accept_fd e") simp_all
  then show "\<exists>gl. objs ?w g = Some gl \<and> fd gl = k"
  proof cases
    case 3
    then obtain gl where "objs w g = Some gl" "fd gl = k"
      using world_inv_map [OF I] by blast
    then show ?thesis
      using F by auto
  qed (use F cl dl in auto)
qed

lemma handle_request_pair:
  assumes fresh: "accept_fresh e w" and conn: "connected e"
    and ok: "all_granted (in_init e)" "all_granted (out_init e)"
  obtains cl dl where "handle_request e w = Inr (Some (in_addr e, out_addr e),
      w\<lparr>objs := (objs w)(in_addr e := Some cl, out_addr e := Some dl),
        client_map := (client_map w)(accept_fd e := Some (Some (in_addr e)), sock_fd e := Some (Some (out_addr e))),
        open_fds := insert (sock_fd e) (insert (accept_fd e) (open_fds w))\<rparr>)"
    "running cl" "fd cl = accept_fd e" "fw_fd cl = sock_fd e" "running dl" "fd dl = sock_fd e" "fw_fd dl = accept_fd e"
proof -
  let ?c = "in_addr e" and ?d = "out_addr e" and ?i = "accept_fd e" and ?o = "sock_fd e"
  have nn: "0 \<le> ?i" "0 \<le> ?o" "?c \<noteq> ?d"
    using fresh conn by (auto simp: accept_fresh_def connected_def)
  let ?w0 = "put_client ?c (client_new ?i ?o) (with_fds e w)"
  have c0: "objs ?w0 ?c = Some (client_new ?i ?o)"
    by (simp add: put_client_def)
  obtain cl where cl: "running cl" "fd cl = ?i" "fw_fd cl = ?o"
    "client_init (in_init e) ?c ?w0 = Inr (STATUS_OK, put_client ?c cl (?w0\<lparr>client_map := (client_map ?w0)(?i := Some (Some ?c))\<rparr>))"
    by (rule client_init_ok [OF c0 nn(1) ok(1)])
  let ?w1 = "put_client ?d (client_new ?o ?i) (put_client ?c cl (?w0\<lparr>client_map := (client_map ?w0)(?i := Some (Some ?c))\<rparr>))"
  have d0: "objs ?w1 ?d = Some (client_new ?o ?i)"
    by (simp add: put_client_def)
  obtain dl where dl: "running dl" "fd dl = ?o" "fw_fd dl = ?i"
    "client_init (out_init e) ?d ?w1 = Inr (STATUS_OK, put_client ?d dl (?w1\<lparr>client_map := (client_map ?w1)(?o := Some (Some ?d))\<rparr>))"
    by (rule client_init_ok [OF d0 nn(2) ok(2)])
  show thesis
  proof (rule that [where cl = cl and dl = dl])
    show "handle_request e w = Inr (Some (?c, ?d), w\<lparr>objs := (objs w)(?c := Some cl, ?d := Some dl),
        client_map := (client_map w)(?i := Some (Some ?c), ?o := Some (Some ?d)),
        open_fds := insert ?o (insert ?i (open_fds w))\<rparr>)"
      using cl(4) dl(4) nn(3)
      by (simp add: handle_request_connected [OF conn] STATUS_OK_def put_client_def with_fds_def fun_upd_twist)
  qed (use cl dl in simp_all)
qed

lemma handle_request_started:
  assumes "world_inv w" and "accept_fresh e w" and "connected e"
    and "all_granted (in_init e)" "all_granted (out_init e)"
  obtains w' where "handle_request e w = Inr (Some (in_addr e, out_addr e), w')" "world_inv w'"
    "dom (objs w') = dom (objs w) \<union> {in_addr e, out_addr e}"
    "client_map w' = (client_map w)(accept_fd e := Some (Some (in_addr e)), sock_fd e := Some (Some (out_addr e)))"
    "open_fds w' = insert (sock_fd e) (insert (accept_fd e) (open_fds w))"
proof -
  have nn: "0 \<le> sock_fd e"
    using assms(3) by (simp add: connected_def)
  show thesis
  proof (rule handle_request_pair [OF assms(2-5)])
    fix cl dl
    assume h: "handle_request e w = Inr (Some (in_addr e, out_addr e),
        w\<lparr>objs := (objs w)(in_addr e := Some cl, out_addr e := Some dl),
          client_map := (client_map w)(accept_fd e := Some (Some (in_addr e)), sock_fd e := Some (Some (out_addr e))),
          open_fds := insert (sock_fd e) (insert (accept_fd e) (open_fds w))\<rparr>)"
      and c: "running cl" "fd cl = accept_fd e" "fw_fd cl = sock_fd e"
      and d: "running dl" "fd dl = sock_fd e" "fw_fd dl = accept_fd e"
    show thesis
      by (rule that [OF h world_inv_pair [OF assms(1,2) nn c d]]) auto
  qed
qed

text \<open>
  A failed initialisation: the destructor runs into the members the constructor left unset, unless it was
  the last call that failed; then everything is given back, but a null entry stays in the map.
\<close>

lemma fresh_restore:
  assumes "accept_fresh e w"
  shows "(objs w)(in_addr e := None) = objs w" "(objs w)(out_addr e := None) = objs w"
    "open_fds w - {accept_fd e} = open_fds w" "open_fds w - {sock_fd e} = open_fds w"
  using assms by (auto simp: accept_fresh_def)

lemma handle_request_in_fails:
  assumes I: "world_inv w" and fresh: "accept_fresh e w" and conn: "connected e"
    and fail: "\<not> all_granted (in_init e)"
  shows "handle_request e w =
    (if last_fails (in_init e) then Inr (None, w\<lparr>client_map := (client_map w)(sock_fd e := Some None, accept_fd e := None)\<rparr>)
     else Inl Uninit)"
proof -
  let ?c = "in_addr e" and ?i = "accept_fd e" and ?o = "sock_fd e"
  have nn: "0 \<le> ?i" "0 \<le> ?o" "?i \<noteq> ?o"
    using fresh conn by (auto simp: accept_fresh_def connected_def)
  have um: "client_map w ?o = None \<or> client_map w ?o = Some None"
    using fresh_unmapped [OF I] fresh by (simp add: accept_fresh_def)
  let ?w0 = "put_client ?c (client_new ?i ?o) (with_fds e w)"
  have c0: "objs ?w0 ?c = Some (client_new ?i ?o)"
    by (simp add: put_client_def)
  have h: "handle_request e w = bnd (client_delete ?c (close_fd ?o (put_client ?c cl ?w0))) (\<lambda>w. Inr (None, w))"
    if "client_init (in_init e) ?c ?w0 = Inr (STATUS_ERR, put_client ?c cl ?w0)" for cl
    using that by (simp add: handle_request_connected [OF conn] STATUS_ERR_def)
  show ?thesis
  proof (rule client_init_result [OF c0 nn(1), of "in_init e"])
    fix cl
    assume cl: "\<not> last_fails (in_init e)" "client_init (in_init e) ?c ?w0 = Inr (STATUS_ERR, put_client ?c cl ?w0)"
      "ev_event cl = Unset"
    show ?thesis
      using h [OF cl(2)] client_delete_unset [OF _ cl(3)] cl(1) by (simp add: put_client_def close_fd_def)
  next
    fix cl
    assume cl: "last_fails (in_init e)" "client_init (in_init e) ?c ?w0 = Inr (STATUS_ERR, put_client ?c cl ?w0)"
      "fd cl = ?i" "fw_fd cl = ?o" "ev_event cl = Null" "ev_base cl \<noteq> Unset" "ev_buf cl \<noteq> Unset" "buf cl \<noteq> Unset"
    let ?w = "close_fd ?o (put_client ?c cl ?w0)"
    have "client_delete ?c ?w = Inr (?w\<lparr>objs := (objs ?w)(?c := None), client_map := (client_map ?w)(?o := Some None, ?i := None),
        open_fds := open_fds ?w - {?i}\<rparr>)"
      using client_delete_alone [of ?w ?c cl] cl(3-8) nn um by (simp add: close_fd_def put_client_def with_fds_def)
    then show ?thesis
      using h [OF cl(2)] cl(1) fresh_restore [OF fresh] nn(3)
      by (simp add: close_fd_def put_client_def with_fds_def insert_Diff_if)
  qed (use fail in simp_all)
qed

lemma handle_request_out_fails:
  assumes I: "world_inv w" and fresh: "accept_fresh e w" and conn: "connected e"
    and ok: "all_granted (in_init e)" and fail: "\<not> all_granted (out_init e)"
  shows "handle_request e w =
    (if last_fails (out_init e) then Inr (None, w\<lparr>client_map := (client_map w)(accept_fd e := Some None, sock_fd e := None)\<rparr>)
     else Inl Uninit)"
proof -
  let ?c = "in_addr e" and ?d = "out_addr e" and ?i = "accept_fd e" and ?o = "sock_fd e"
  have nn: "0 \<le> ?i" "0 \<le> ?o" "?c \<noteq> ?d" "?i \<noteq> ?o"
    using fresh conn by (auto simp: accept_fresh_def connected_def)
  have um: "client_map w ?o = None \<or> client_map w ?o = Some None"
    using fresh_unmapped [OF I] fresh by (simp add: accept_fresh_def)
  let ?w0 = "put_client ?c (client_new ?i ?o) (with_fds e w)"
  have c0: "objs ?w0 ?c = Some (client_new ?i ?o)"
    by (simp add: put_client_def)
  obtain cl where cl: "running cl" "fd cl = ?i" "fw_fd cl = ?o"
    "client_init (in_init e) ?c ?w0 = Inr (STATUS_OK, put_client ?c cl (?w0\<lparr>client_map := (client_map ?w0)(?i := Some (Some ?c))\<rparr>))"
    by (rule client_init_ok [OF c0 nn(1) ok])
  let ?w1 = "put_client ?d (client_new ?o ?i) (put_client ?c cl (?w0\<lparr>client_map := (client_map ?w0)(?i := Some (Some ?c))\<rparr>))"
  have d0: "objs ?w1 ?d = Some (client_new ?o ?i)"
    by (simp add: put_client_def)
  let ?w = "\<lambda>dl. put_client ?d dl ?w1"
  let ?v = "\<lambda>dl. (?w dl)\<lparr>objs := (objs (?w dl))(?c := None), client_map := (client_map (?w dl))(?o := Some None, ?i := None),
      open_fds := open_fds (?w dl) - {?i}\<rparr>"
  have h: "handle_request e w = bnd (client_delete ?d (?v dl)) (\<lambda>w. Inr (None, w))"
    if "client_init (out_init e) ?d ?w1 = Inr (STATUS_ERR, ?w dl)" for dl
    using that cl(4) client_delete_alone [of "?w dl" ?c cl] cl(1-3) nn um
    by (auto simp: handle_request_connected [OF conn] STATUS_ERR_def STATUS_OK_def running_def put_client_def with_fds_def)
  show ?thesis
  proof (rule client_init_result [OF d0 nn(2), of "out_init e"])
    fix dl
    assume dl: "\<not> last_fails (out_init e)" "client_init (out_init e) ?d ?w1 = Inr (STATUS_ERR, ?w dl)" "ev_event dl = Unset"
    show ?thesis
      using h [OF dl(2)] client_delete_unset [of "?v dl" ?d, OF _ dl(3)] dl(1) nn(3) by (simp add: put_client_def)
  next
    fix dl
    assume dl: "last_fails (out_init e)" "client_init (out_init e) ?d ?w1 = Inr (STATUS_ERR, ?w dl)"
      "fd dl = ?o" "fw_fd dl = ?i" "ev_event dl = Null" "ev_base dl \<noteq> Unset" "ev_buf dl \<noteq> Unset" "buf dl \<noteq> Unset"
    have "client_delete ?d (?v dl) = Inr ((?v dl)\<lparr>objs := (objs (?v dl))(?d := None),
        client_map := (client_map (?v dl))(?i := Some None, ?o := None), open_fds := open_fds (?v dl) - {?o}\<rparr>)"
      using client_delete_alone [of "?v dl" ?d dl] dl(3-8) nn by (simp add: put_client_def)
    then show ?thesis
      using h [OF dl(2)] dl(1) fresh_restore [OF fresh] nn(3,4)
      by (auto simp: put_client_def with_fds_def insert_Diff_if fun_upd_twist)
  qed (use fail in simp_all)
qed

lemma handle_request_init_failed:
  assumes "world_inv w" and "accept_fresh e w" and "connected e"
    and "\<not> (all_granted (in_init e) \<and> all_granted (out_init e))"
  obtains (unset) "handle_request e w = Inl Uninit"
  | (undone) k j where "handle_request e w = Inr (None, w\<lparr>client_map := (client_map w)(k := Some None, j := None)\<rparr>)"
      "{k, j} = {accept_fd e, sock_fd e}" "k \<noteq> j"
proof (cases "all_granted (in_init e)")
  case True
  have "accept_fd e \<noteq> sock_fd e"
    using assms(2) by (auto simp: accept_fresh_def)
  then show thesis
    using handle_request_out_fails [OF assms(1-3) True] assms(4) True unset undone [of "accept_fd e" "sock_fd e"]
    by (auto split: if_splits)
next
  case False
  have "sock_fd e \<noteq> accept_fd e"
    using assms(2) by (auto simp: accept_fresh_def)
  then show thesis
    using handle_request_in_fails [OF assms(1-3) False] unset undone [of "sock_fd e" "accept_fd e"]
    by (auto split: if_splits)
qed

subsection \<open>Reading keeps the invariant\<close>

definition same_objs :: "('e, 'v) world \<Rightarrow> ('e, 'v) world \<Rightarrow> bool" where
  "same_objs w w' \<longleftrightarrow> open_fds w' = open_fds w \<and> (\<forall>d. rel_option same_ends (objs w d) (objs w' d))"

lemma same_objsD:
  assumes "same_objs w w'"
  shows "objs w d = Some dl \<Longrightarrow> \<exists>dl'. objs w' d = Some dl' \<and> same_ends dl dl'"
    and "objs w' d = Some dl' \<Longrightarrow> \<exists>dl. objs w d = Some dl \<and> same_ends dl dl'"
    and "dom (objs w') = dom (objs w)"
proof -
  have r: "rel_option same_ends (objs w d) (objs w' d)" for d
    using assms by (simp add: same_objs_def)
  show "objs w d = Some dl \<Longrightarrow> \<exists>dl'. objs w' d = Some dl' \<and> same_ends dl dl'"
    using r [of d] by (cases "objs w' d") auto
  show "objs w' d = Some dl' \<Longrightarrow> \<exists>dl. objs w d = Some dl \<and> same_ends dl dl'"
    using r [of d] by (cases "objs w d") auto
  have "objs w d = None \<longleftrightarrow> objs w' d = None" for d
    using r [of d] by (cases "objs w d"; cases "objs w' d") auto
  then show "dom (objs w') = dom (objs w)"
    by (auto simp: dom_def)
qed

lemma same_objs_put:
  assumes "same_objs w v" and "objs v c = Some cl" and "same_ends cl cl'"
  shows "same_objs w (put_client c cl' v)"
  unfolding same_objs_def
proof (intro conjI allI)
  show "open_fds (put_client c cl' v) = open_fds w"
    using assms(1) by (simp add: put_client_def same_objs_def)
  fix d
  have "rel_option same_ends (objs w d) (objs v d)"
    using assms(1) by (simp add: same_objs_def)
  then show "rel_option same_ends (objs w d) (objs (put_client c cl' v) d)"
    using assms(2,3) same_ends_trans by (cases "objs w d") (auto simp: put_client_def)
qed

lemma send_response_same: "send_response L r d fw = Inr (rc, fw') \<Longrightarrow> same_ends fw fw'"
  by (cases "ev_buf fw"; cases d; cases "ev_event fw")
    (auto simp: send_response_def on_ptr_def bnd_Inr same_ends_def running_def Let_def split_beta)

lemma flow_loop_same: "flow_loop L en T env alive s k p dup fw = Inr (fw', sh, ex) \<Longrightarrow> same_ends fw fw'"
proof (induction L en T env alive s k p dup fw rule: flow_loop.induct)
  case (1 L en T env alive s k p dup fw)
  show ?case
  proof (cases "p + 8 \<le> slen s")
    case True
    from 1(3) True obtain n where n: "wire_msg_len en (sdata s) p = Inr n"
      by (subst (asm) flow_loop.simps) (auto simp: bnd_Inr)
    show ?thesis
    proof (cases "n = 0 \<or> slen s - p < unat n")
      case True
      then show ?thesis
        using 1(3) n \<open>p + 8 \<le> slen s\<close> by (subst (asm) flow_loop.simps) (auto split: if_splits)
    next
      case False
      then obtain r d where a: "action_inject (env k) T (drop p (sdata s)) n dup = Inr (r, d)"
        using 1(3) n True by (subst (asm) flow_loop.simps) (auto simp: bnd_Inr)
      show ?thesis
      proof (cases r)
        case None
        then show ?thesis
          using 1(3) n True False a 1(1) [OF True n _ _ a refl None] by (subst (asm) flow_loop.simps) auto
      next
        case (Some st)
        show ?thesis
        proof (cases alive)
          case alive: True
          then obtain rc fw1 where s: "send_response L st d fw = Inr (rc, fw1)"
            using 1(3) n True False a Some by (subst (asm) flow_loop.simps) (auto simp: bnd_Inr)
          show ?thesis
            using 1(3) n True False a Some alive s send_response_same [OF s] 1(2) [OF True n _ _ a refl Some _ s refl]
            by (subst (asm) flow_loop.simps) (auto split: if_splits intro: same_ends_trans)
        qed (use 1(3) n True False a Some in \<open>subst (asm) flow_loop.simps, auto\<close>)
      qed
    qed
  qed (use 1(3) in \<open>subst (asm) flow_loop.simps, simp\<close>)
qed

lemma make_room_wf:
  assumes "stream_wf s" and "make_room hx s n = (0, m)"
  shows "stream_wf m \<and> slen m + n \<le> scap m"
proof (cases "scap s - slen s < n")
  case True
  then have e: "stream_expand hx s n = (0, m)"
    using assms(2) by (simp add: make_room_def)
  show ?thesis
    using stream_expand_wf(1,4,5) [OF assms(1) e] assms(1) by (simp add: stream_wf_def)
next
  case False
  then show ?thesis
    using assms by (auto simp: make_room_def stream_wf_def)
qed

lemma left_shift_wf: "stream_wf s \<Longrightarrow> stream_left_shift mc s n = Inr t \<Longrightarrow> stream_wf t"
proof -
  assume h: "stream_wf s" "stream_left_shift mc s n = Inr t"
  then have "n \<le> slen s" "mc = AsMemmove \<or> slen s \<le> 2 * n"
    by (cases mc; auto simp: stream_left_shift_def split: if_splits)+
  from stream_left_shift_ok [OF h(1) this] h(2) show "stream_wf t"
    by auto
qed

lemma same_ends_buf: "running cl \<Longrightarrow> stream_wf s \<Longrightarrow> same_ends cl (cl\<lparr>buf := Ptr s\<rparr>)"
  and same_ends_event: "running cl \<Longrightarrow> stream_wf s \<Longrightarrow> same_ends cl (cl\<lparr>ev_event := Ptr v, buf := Ptr s\<rparr>)"
  by (auto simp: same_ends_def running_def)

lemma on_flow_read_frame:
  assumes step: "on_flow_read L en mc T hx env c w = Inr w'" and c: "objs w c = Some cl" and run: "running cl"
  shows "same_objs w w' \<and> client_map w' = client_map (snd (map_index w (fw_fd cl)))"
proof -
  obtain v s where cl: "ev_event cl = Ptr v" "buf cl = Ptr s" "stream_wf s"
    using run by (auto simp: running_def)
  obtain p w0 where ix: "map_index w (fw_fd cl) = (p, w0)"
    by fastforce
  have w0: "objs w0 = objs w" "same_objs w w0"
    using ix by (auto simp: map_index_def same_objs_def option.rel_refl split: option.splits)
  obtain xs bev where rm: "input_remove L v (input_length L v) = (xs, bev)"
    by fastforce
  obtain rc m where room: "make_room hx s (input_length L v) = (rc, m)"
    by fastforce
  show ?thesis
  proof (cases "rc = 0")
    case False
    then show ?thesis
      using step c cl ix rm room w0(2) by (simp add: on_flow_read_def deref_def on_ptr_def Let_def)
  next
    case True
    then have m: "stream_wf m" "slen m + input_length L v \<le> scap m"
      using make_room_wf [OF cl(3)] room by auto
    obtain d where d: "wr_block (sdata m) (int (slen m)) xs = Inr d"
      using step c cl ix rm room True by (auto simp: on_flow_read_def deref_def on_ptr_def Let_def bnd_Inr)
    define msg where "msg = m\<lparr>sdata := d, slen := slen m + input_length L v\<rparr>"
    define cl1 where "cl1 = cl\<lparr>ev_event := Ptr bev, buf := Ptr msg\<rparr>"
    define w1 where "w1 = put_client c cl1 w0"
    have msg: "stream_wf msg"
      using m wr_block_length [OF d] by (simp add: msg_def stream_wf_def)
    have s1: "same_ends cl cl1"
      using same_ends_event [OF run msg] by (simp add: cl1_def)
    then have run1: "running cl1"
      using run by (simp add: same_ends_def)
    have o1: "same_objs w w1" "deref w1 c = Inr cl1" "client_map w1 = client_map w0"
      using same_objs_put [OF w0(2) _ s1, of c] w0(1) c by (simp_all add: w1_def deref_def put_client_def)
    have "same_objs w w' \<and> client_map w' = client_map w1"
    proof (cases "slen msg < 8")
      case True
      then have "w' = w1"
        using step c cl ix rm room \<open>rc = 0\<close> d unfolding w1_def cl1_def msg_def
        by (simp add: on_flow_read_def deref_def on_ptr_def Let_def put_client_def)
      then show ?thesis
        using o1 by simp
    next
      case False
      show ?thesis
      proof (cases p)
        case None
        have "bnd (loopexit cl1) (\<lambda>cl. Inr (put_client c cl w1)) = Inr w'"
          using step c cl ix rm room True d False None unfolding w1_def cl1_def msg_def
          by (simp add: on_flow_read_def deref_def on_ptr_def Let_def put_client_def)
        then obtain cl2 where "loopexit cl1 = Inr cl2" "w' = put_client c cl2 w1"
          by (auto simp: bnd_Inr)
        then show ?thesis
          using same_objs_put [OF o1(1), of c cl1 cl2] with_base_same [of _ cl1 cl2] o1(2)
          by (auto simp: loopexit_def deref_def put_client_def split: option.splits)
      next
        case (Some f)
        have "bnd (deref w1 f) (\<lambda>fw.
           bnd (flow_loop L en T env (fw_fd cl \<in> open_fds w1) msg 0 0 None fw) (\<lambda>(fw, shift, exit).
           bnd (deref (put_client f fw w1) c) (\<lambda>cl.
           bnd (if shift > 0 then stream_left_shift mc msg shift else Inr msg) (\<lambda>msg.
           bnd (if exit then loopexit (cl\<lparr>buf := Ptr msg\<rparr>) else Inr (cl\<lparr>buf := Ptr msg\<rparr>))
             (\<lambda>cl. Inr (put_client c cl (put_client f fw w1))))))) = Inr w'"
          using step c cl ix rm room True d False Some unfolding w1_def cl1_def msg_def
          by (simp add: on_flow_read_def deref_def on_ptr_def Let_def put_client_def)
        then obtain fw fw1 sh ex cl2 t cl3 where b: "deref w1 f = Inr fw"
          "flow_loop L en T env (fw_fd cl \<in> open_fds w1) msg 0 0 None fw = Inr (fw1, sh, ex)"
          "deref (put_client f fw1 w1) c = Inr cl2"
          "(if sh > 0 then stream_left_shift mc msg sh else Inr msg) = Inr t"
          "(if ex then loopexit (cl2\<lparr>buf := Ptr t\<rparr>) else Inr (cl2\<lparr>buf := Ptr t\<rparr>)) = Inr cl3"
          "w' = put_client c cl3 (put_client f fw1 w1)"
          by (auto simp: bnd_Inr)
        let ?w2 = "put_client f fw1 w1"
        have o2: "same_objs w ?w2"
          using same_objs_put [OF o1(1) _ flow_loop_same [OF b(2)]] b(1)
          by (simp add: deref_def split: option.splits)
        have "stream_wf t"
          using b(4) msg left_shift_wf by (auto split: if_splits)
        moreover have c2: "objs ?w2 c = Some cl2"
          using b(3) by (simp add: deref_def split: option.splits)
        then have "same_ends cl cl2"
          using same_objsD(1) [OF o2 c] by auto
        then have "running cl2"
          using run by (simp add: same_ends_def)
        ultimately have "same_ends cl2 (cl2\<lparr>buf := Ptr t\<rparr>)"
          by (rule same_ends_buf [rotated])
        then have "same_ends cl2 cl3"
          using b(5) with_base_same [of _ "cl2\<lparr>buf := Ptr t\<rparr>" cl3]
          by (auto simp: loopexit_def split: if_splits intro: same_ends_trans)
        then have "same_objs w w'"
          using same_objs_put [OF o2 c2] b(6) by simp
        then show ?thesis
          using b(6) by (simp add: put_client_def)
      qed
    qed
    then show ?thesis
      using o1(3) ix by simp
  qed
qed

lemma same_objs_inv:
  assumes I: "world_inv w" and same: "same_objs w w'"
    and m: "\<And>k d. client_map w' k = Some (Some d) \<longleftrightarrow> client_map w k = Some (Some d)"
  shows "world_inv w'"
  unfolding world_inv_def
proof (intro conjI allI impI)
  have fwd: "\<exists>dl'. objs w' d = Some dl' \<and> same_ends dl dl'" if "objs w d = Some dl" for d dl
    by (rule same_objsD(1) [OF same that])
  fix d dl'
  assume "objs w' d = Some dl'"
  then obtain dl where d: "objs w d = Some dl" "same_ends dl dl'"
    using same_objsD(2) [OF same] by blast
  note D = world_invD [OF I d(1)]
  show "running dl'" "fd dl' \<in> open_fds w'" "client_map w' (fd dl') = Some (Some d)"
    using D d(2) same m by (auto simp: same_ends_def same_objs_def)
  show "partner_ok w' d dl'"
    using I d(1)
  proof (cases rule: partner_cases)
    case (some f fw)
    then obtain fw' where "objs w' f = Some fw'" "same_ends fw fw'"
      using fwd by blast
    then show ?thesis
      using some d(2) m by (auto simp: partner_ok_def same_ends_def)
  qed (use d(2) in \<open>simp add: partner_ok_def same_ends_def\<close>)
next
  fix k d
  assume "client_map w' k = Some (Some d)"
  then have "client_map w k = Some (Some d)"
    using m by simp
  then obtain dl where "objs w d = Some dl" "fd dl = k"
    using world_inv_map [OF I] by blast
  then show "\<exists>dl. objs w' d = Some dl \<and> fd dl = k"
    using same_objsD(1) [OF same] by (fastforce simp: same_ends_def)
qed

lemma on_flow_read_inv:
  assumes "on_flow_read L en mc T hx env c w = Inr w'" and "world_inv w" and "objs w c = Some cl"
  shows "world_inv w'" "dom (objs w') = dom (objs w)" "open_fds w' = open_fds w"
    "client_map w' k = Some None \<Longrightarrow> k = -1 \<or> client_map w k = Some None"
proof -
  note F = on_flow_read_frame [OF assms(1,3) world_invD(1) [OF assms(2,3)]]
  have map: "client_map w' = client_map w \<or> client_map w' = (client_map w)(-1 := Some None)"
    using F partner_cases [OF assms(2,3)] by (force simp: map_index_def)
  have "client_map w' j = Some (Some d) \<longleftrightarrow> client_map w j = Some (Some d)" for j d
    using map world_inv_minus_one [OF assms(2)] by (cases "j = -1") auto
  then show "world_inv w'"
    using same_objs_inv [OF assms(2)] F by blast
  show "open_fds w' = open_fds w"
    using F by (simp add: same_objs_def)
  show "dom (objs w') = dom (objs w)"
    using F same_objsD(3) by blast
  show "k = -1 \<or> client_map w k = Some None" if "client_map w' k = Some None"
    using that map by (auto split: if_splits)
qed

end
