(* ===== verification/Lifecycle.thy ===== *)
theory Lifecycle
  imports Proxy
begin

text \<open>
  The proxy as a system of threads. Its serial executions take the listener's requests, the reads and the
  ends of event loops one after the other, each as a whole, and keep an invariant. The code has no lock
  that keeps its threads from interleaving: the theory also takes a destructor apart into its pieces and
  has two interleavings of them that leave the serial executions. Last comes the cleanup loop of \<^verbatim>\<open>main.cpp\<close>.
\<close>

subsection \<open>The system\<close>

record ('e, 'v) sys =
  wld :: "('e, 'v) world"
  threads :: "nat set"

definition started :: "(nat \<times> nat) option \<Rightarrow> nat set" where
  "started r = (case r of None \<Rightarrow> {} | Some (c, d) \<Rightarrow> {c, d})"

text \<open>
  The steps of a serial execution, each taken as a whole: a request is handled, bytes arrive, a client's
  read handler runs, a client's event loop ends and its thread deletes the client. The threads of the
  program are not serialised, so these are the executions in which no two of them touch the clients or the map at the
  same time. \<open>A\<close> restricts the requests.
\<close>

inductive serial_step :: "(('e, 'v) accept_env \<Rightarrow> bool) \<Rightarrow> ('e, 'v) libevent \<Rightarrow> ('v \<Rightarrow> byte list \<Rightarrow> 'v) \<Rightarrow>
    ('e, 'v) sys \<Rightarrow> ('e, 'v) sys \<Rightarrow> bool"
  for A L ar where
  request: "A e \<Longrightarrow> accept_fresh e (wld S) \<Longrightarrow> handle_request e (wld S) = Inr (r, w) \<Longrightarrow>
     serial_step A L ar S (S\<lparr>wld := w, threads := threads S \<union> started r\<rparr>)"
| arrival: "c \<in> threads S \<Longrightarrow> serial_step A L ar S (S\<lparr>wld := arrive ar c xs (wld S)\<rparr>)"
| read: "c \<in> threads S \<Longrightarrow> on_flow_read L en mc T hx env c (wld S) = Inr w \<Longrightarrow> serial_step A L ar S (S\<lparr>wld := w\<rparr>)"
| finish: "c \<in> threads S \<Longrightarrow> client_delete c (wld S) = Inr w \<Longrightarrow>
     serial_step A L ar S (S\<lparr>wld := w, threads := threads S - {c}\<rparr>)"

inductive_cases stepE: "serial_step A L ar S S'"

inductive serially_reachable :: "(('e, 'v) accept_env \<Rightarrow> bool) \<Rightarrow> ('e, 'v) libevent \<Rightarrow> ('v \<Rightarrow> byte list \<Rightarrow> 'v) \<Rightarrow>
    ('e, 'v) sys \<Rightarrow> bool"
  for A L ar where
  init: "serially_reachable A L ar \<lparr>wld = \<lparr>objs = Map.empty, client_map = Map.empty, open_fds = F\<rparr>, threads = {}\<rparr>"
| step: "serially_reachable A L ar S \<Longrightarrow> serial_step A L ar S S' \<Longrightarrow> serially_reachable A L ar S'"

definition sys_inv :: "('e, 'v) sys \<Rightarrow> bool" where
  "sys_inv S \<longleftrightarrow> world_inv (wld S) \<and> dom (objs (wld S)) = threads S"

text \<open>Null entries of the map: only under -1.\<close>

definition nulls_ok :: "('e, 'v) world \<Rightarrow> bool" where
  "nulls_ok w \<longleftrightarrow> (\<forall>k. client_map w k = Some None \<longrightarrow> k = -1)"

subsection \<open>Every step keeps the invariant\<close>

lemma same_ends_arrive: "running cl \<Longrightarrow> same_ends cl (cl\<lparr>ev_event := Ptr v\<rparr>)"
  by (auto simp: same_ends_def running_def)

lemma arrive_inv:
  assumes "world_inv w"
  shows "world_inv (arrive ar c xs w)" "dom (objs (arrive ar c xs w)) = dom (objs w)"
    "client_map (arrive ar c xs w) = client_map w"
proof -
  have refl: "same_objs w w"
    by (simp add: same_objs_def option.rel_refl)
  have same: "same_objs w (arrive ar c xs w)"
  proof (cases "objs w c")
    case (Some cl)
    obtain v where "ev_event cl = Ptr v"
      using world_invD(1) [OF assms Some] by (auto simp: running_def)
    then show ?thesis
      using same_objs_put [OF refl Some same_ends_arrive] world_invD(1) [OF assms Some] Some
      by (simp add: arrive_def)
  qed (simp add: arrive_def refl)
  show map: "client_map (arrive ar c xs w) = client_map w"
    by (auto simp: arrive_def put_client_def split: option.split ptr.split)
  show "world_inv (arrive ar c xs w)"
    by (rule same_objs_inv [OF assms same]) (simp add: map)
  show "dom (objs (arrive ar c xs w)) = dom (objs w)"
    by (rule same_objsD(3) [OF same])
qed

lemma handle_request_inv:
  assumes I: "world_inv w" and fresh: "accept_fresh e w" and h: "handle_request e w = Inr (r, w')"
  shows "world_inv w'" "dom (objs w') = dom (objs w) \<union> started r"
    "all_granted (in_init e) \<Longrightarrow> all_granted (out_init e) \<Longrightarrow> nulls_ok w \<Longrightarrow> nulls_ok w'"
proof -
  have "world_inv w' \<and> dom (objs w') = dom (objs w) \<union> started r \<and>
    (all_granted (in_init e) \<longrightarrow> all_granted (out_init e) \<longrightarrow> nulls_ok w \<longrightarrow> nulls_ok w')"
  proof (cases "connected e")
    case False
    then show ?thesis
      using handle_request_refused [OF False fresh] h I by (simp add: started_def)
  next
    case conn: True
    show ?thesis
    proof (cases "all_granted (in_init e) \<and> all_granted (out_init e)")
      case True
      then obtain v where v: "handle_request e w = Inr (Some (in_addr e, out_addr e), v)" "world_inv v"
        "dom (objs v) = dom (objs w) \<union> {in_addr e, out_addr e}"
        "client_map v = (client_map w)(accept_fd e := Some (Some (in_addr e)), sock_fd e := Some (Some (out_addr e)))"
        using handle_request_started [OF I fresh conn] by metis
      then show ?thesis
        using h by (auto simp: started_def nulls_ok_def split: if_splits)
    next
      case False
      from I fresh conn False show ?thesis
      proof (cases rule: handle_request_init_failed)
        case (undone k j)
        have um: "client_map w i = None \<or> client_map w i = Some None" if "i \<in> {k, j}" for i
          using that undone(2) fresh by (intro fresh_unmapped [OF I]) (auto simp: accept_fresh_def)
        let ?v = "w\<lparr>client_map := (client_map w)(k := Some None, j := None)\<rparr>"
        have "same_objs w ?v"
          by (simp add: same_objs_def option.rel_refl)
        then have "world_inv ?v"
          by (rule same_objs_inv [OF I]) (use um [of k] um [of j] in auto)
        then show ?thesis
          using undone(1) h False by (auto simp: started_def)
      qed (use h in simp)
    qed
  qed
  then show "world_inv w'" "dom (objs w') = dom (objs w) \<union> started r"
    "all_granted (in_init e) \<Longrightarrow> all_granted (out_init e) \<Longrightarrow> nulls_ok w \<Longrightarrow> nulls_ok w'"
    by auto
qed

lemma step_inv:
  assumes "serial_step A L ar S S'" and "sys_inv S"
  shows "sys_inv S'"
  using assms(1)
proof (cases rule: serial_step.cases)
  case (request e r w)
  then show ?thesis
    using assms(2) handle_request_inv(1,2) [of "wld S" e r w] by (simp add: sys_inv_def)
next
  case (arrival c xs)
  then show ?thesis
    using assms(2) arrive_inv(1,2) [of "wld S"] by (simp add: sys_inv_def)
next
  case (read c en mc T hx env w)
  then obtain cl where "objs (wld S) c = Some cl"
    using assms(2) by (auto simp: sys_inv_def dom_def)
  then show ?thesis
    using assms(2) read on_flow_read_inv(1,2) [OF read(3)] by (simp add: sys_inv_def)
next
  case (finish c w)
  then obtain cl where c: "objs (wld S) c = Some cl"
    using assms(2) by (auto simp: sys_inv_def dom_def)
  have I: "world_inv (wld S)"
    using assms(2) by (simp add: sys_inv_def)
  show ?thesis
    by (rule client_delete_inv [OF I c]) (use finish assms(2) in \<open>simp add: sys_inv_def\<close>)
qed

lemma reachable_inv: "serially_reachable A L ar S \<Longrightarrow> sys_inv S"
proof (induction rule: serially_reachable.induct)
  case (init F)
  then show ?case
    by (simp add: sys_inv_def world_inv_def)
qed (rule step_inv)

text \<open>Requests whose allocations all succeed.\<close>

definition clean_request :: "('e, 'v) accept_env \<Rightarrow> bool" where
  "clean_request e \<longleftrightarrow> all_granted (in_init e) \<and> all_granted (out_init e)"

lemma step_nulls:
  assumes "serial_step clean_request L ar S S'" and "sys_inv S" and "nulls_ok (wld S)"
  shows "nulls_ok (wld S')"
  using assms(1)
proof (cases rule: serial_step.cases)
  case (request e r w)
  then show ?thesis
    using assms(2,3) handle_request_inv(3) [of "wld S" e r w] by (simp add: sys_inv_def clean_request_def)
next
  case (arrival c xs)
  then show ?thesis
    using assms(2,3) arrive_inv(3) [of "wld S"] by (simp add: sys_inv_def nulls_ok_def)
next
  case (read c en mc T hx env w)
  then obtain cl where "objs (wld S) c = Some cl"
    using assms(2) by (auto simp: sys_inv_def dom_def)
  then show ?thesis
    using assms(2,3) read on_flow_read_inv(4) [OF read(3)] by (auto simp: sys_inv_def nulls_ok_def)
next
  case (finish c w)
  then obtain cl where c: "objs (wld S) c = Some cl"
    using assms(2) by (auto simp: sys_inv_def dom_def)
  have I: "world_inv (wld S)"
    using assms(2) by (simp add: sys_inv_def)
  show ?thesis
    by (rule client_delete_inv [OF I c]) (use finish assms(3) in \<open>fastforce simp: nulls_ok_def\<close>)
qed

lemma reachable_nulls: "serially_reachable clean_request L ar S \<Longrightarrow> nulls_ok (wld S)"
proof (induction rule: serially_reachable.induct)
  case (init F)
  then show ?case
    by (simp add: nulls_ok_def)
next
  case (step S S')
  then show ?case
    using step_nulls reachable_inv by blast
qed

subsection \<open>Destructors that interleave\<close>

text \<open>
  Nothing orders the destructors of two clients. Each thread runs its destructor piece by piece;
  a schedule is the list of the threads that take the next piece.
\<close>

datatype dtor_pc =
    AtLookup
  | AtRelease "nat option"
  | AtUnmap "nat option"
  | AtNotify "nat option"
  | AtFree
  | Freed

definition dtor_piece :: "nat \<Rightarrow> dtor_pc \<Rightarrow> ('e, 'v) world \<Rightarrow> (dtor_pc \<times> ('e, 'v) world) res" where
  "dtor_piece c pc w =
     (case pc of
        AtLookup \<Rightarrow> bnd (dtor_lookup c w) (\<lambda>(f, w). Inr (AtRelease f, w))
      | AtRelease f \<Rightarrow> bnd (dtor_release c w) (\<lambda>w. Inr (AtUnmap f, w))
      | AtUnmap f \<Rightarrow> bnd (dtor_unmap c w) (\<lambda>w. Inr (AtNotify f, w))
      | AtNotify f \<Rightarrow> bnd (dtor_notify f w) (\<lambda>w. Inr (AtFree, w))
      | AtFree \<Rightarrow> bnd (dtor_free c w) (\<lambda>w. Inr (Freed, w))
      | Freed \<Rightarrow> Inr (Freed, w))"

primrec run_dtors :: "nat list \<Rightarrow> (nat \<Rightarrow> dtor_pc) \<Rightarrow> ('e, 'v) world \<Rightarrow> ((nat \<Rightarrow> dtor_pc) \<times> ('e, 'v) world) res" where
  "run_dtors [] pcs w = Inr (pcs, w)"
| "run_dtors (c # cs) pcs w = bnd (dtor_piece c (pcs c) w) (\<lambda>(pc, w). run_dtors cs (pcs(c := pc)) w)"

lemmas dtor_defs = dtor_piece_def dtor_lookup_def dtor_release_def dtor_unmap_def dtor_notify_def dtor_free_def
  deref_def map_index_def known_def put_client_def Let_def

text \<open>Undisturbed, the pieces are the destructor.\<close>

lemma run_dtors_alone:
  "pcs c = AtLookup \<Longrightarrow>
   run_dtors [c, c, c, c, c] pcs w = bnd (client_delete c w) (\<lambda>w. Inr (pcs(c := Freed), w))"
  by (simp add: client_delete_def dtor_piece_def bnd_assoc split_beta)

lemma run_dtors_append: "run_dtors (xs @ ys) pcs w = bnd (run_dtors xs pcs w) (\<lambda>(pcs, w). run_dtors ys pcs w)"
  by (induction xs arbitrary: pcs w) (simp_all add: bnd_assoc case_prod_beta')

text \<open>One destructor after the other: both end, whichever is first.\<close>

lemma dtors_in_turn:
  assumes "world_inv w" and "c \<in> dom (objs w)" and "d \<in> dom (objs w)" and "c \<noteq> d"
  shows "\<exists>pcs v. run_dtors [c, c, c, c, c, d, d, d, d, d] (\<lambda>_. AtLookup) w = Inr (pcs, v) \<and>
    dom (objs v) = dom (objs w) - {c, d}"
proof -
  obtain cl where c: "objs w c = Some cl"
    using assms(2) by blast
  obtain w1 where w1: "client_delete c w = Inr w1" "world_inv w1" "dom (objs w1) = dom (objs w) - {c}"
    by (rule client_delete_inv [OF assms(1) c])
  then obtain dl where d: "objs w1 d = Some dl"
    using assms(3,4) by blast
  obtain v where v: "client_delete d w1 = Inr v" "dom (objs v) = dom (objs w1) - {d}"
    by (rule client_delete_inv [OF w1(2) d])
  have "run_dtors ([c, c, c, c, c] @ [d, d, d, d, d]) (\<lambda>_. AtLookup) w = Inr ((\<lambda>_. AtLookup)(c := Freed, d := Freed), v)"
    unfolding run_dtors_append using assms(4) w1(1) v(1) by (simp add: run_dtors_alone del: run_dtors.simps)
  then show ?thesis
    using v(2) w1(3) by auto
qed

text \<open>
  \<open>c\<close> looks its partner up and is overtaken by the partner's whole destructor. \<open>c\<close> goes on up to where it
  marks the partner, whose object is freed by then.
\<close>

lemma dtors_race:
  assumes I: "world_inv w" and c: "objs w c = Some cl" and f: "f \<noteq> c" "client_map w (fw_fd cl) = Some (Some f)"
    "objs w f = Some fw" "running fw" "fw_fd fw = fd cl"
  shows "\<exists>pcs v. run_dtors [c, f, f, f, f, f, c, c] (\<lambda>_. AtLookup) w = Inr (pcs, v) \<and>
    pcs f = Freed \<and> objs v f = None \<and> pcs c = AtNotify (Some f)"
proof -
  have cl: "running cl" "client_map w (fd cl) = Some (Some c)"
    using world_invD [OF I c] by simp_all
  have look: "run_dtors [c] (\<lambda>_. AtLookup) w = Inr ((\<lambda>_. AtLookup)(c := AtRelease (Some f)), w)"
    using c f(2) by (simp add: dtor_piece_def dtor_lookup_def deref_def map_index_def)
  obtain b where del: "client_delete f w = Inr (w\<lparr>objs := (objs w)(f := None, c := Some (cl\<lparr>fw_fd := -1, ev_base := Ptr b\<rparr>)),
      client_map := (client_map w)(fd fw := None), open_fds := open_fds w - {fd fw}\<rparr>)" (is "_ = Inr ?w1")
    by (rule client_delete_paired [OF f(3,4) _ f(1) [symmetric] c cl(1)]) (simp add: f(5) cl(2))
  let ?pcs = "(\<lambda>_. AtLookup)(c := AtRelease (Some f), f := Freed)"
  have part: "run_dtors [f, f, f, f, f] ((\<lambda>_. AtLookup)(c := AtRelease (Some f))) w = Inr (?pcs, ?w1)"
    using run_dtors_alone [of "(\<lambda>_. AtLookup)(c := AtRelease (Some f))" f w] f(1) del by simp
  have "\<exists>v. run_dtors [c, c] ?pcs ?w1 = Inr (?pcs(c := AtNotify (Some f)), v) \<and> objs v f = None"
    using f(1) cl(1) by (auto simp: dtor_defs running_def)
  then obtain v where "run_dtors [c, c] ?pcs ?w1 = Inr (?pcs(c := AtNotify (Some f)), v)" "objs v f = None"
    by blast
  then have "run_dtors ([c] @ [f, f, f, f, f] @ [c, c]) (\<lambda>_. AtLookup) w = Inr (?pcs(c := AtNotify (Some f)), v)" "objs v f = None"
    unfolding run_dtors_append look part bnd_simps split by simp_all
  then show ?thesis
    using f(1) by (intro exI [of _ "?pcs(c := AtNotify (Some f))"] exI [of _ v]) simp
qed

text \<open>
  \<open>c\<close> closes its descriptor before it takes its entry out of the map. A request accepted in between may
  get the same descriptor; then \<open>c\<close> takes out the entry of the new client.
\<close>

lemma fd_reuse_race:
  assumes I: "world_inv w" and c: "objs w c = Some cl"
    and e: "accept_fd e = fd cl" "accept_fresh e (w\<lparr>open_fds := open_fds w - {fd cl}\<rparr>)" "connected e" "clean_request e"
  obtains w' where "bnd (dtor_lookup c w) (\<lambda>(_, w). bnd (dtor_release c w) (\<lambda>w.
      bnd (handle_request e w) (\<lambda>(r, w). bnd (dtor_unmap c w) (\<lambda>w. Inr (r, w))))) = Inr (Some (in_addr e, out_addr e), w')"
    "objs w' (in_addr e) \<noteq> None" "client_map w' (accept_fd e) = None"
proof -
  obtain p w1 where look: "map_index w (fw_fd cl) = (p, w1)" "objs w1 = objs w" "open_fds w1 = open_fds w"
    by (cases "client_map w (fw_fd cl)") (simp_all add: map_index_def)
  let ?cl = "cl\<lparr>ev_event := Null, ev_base := Null, ev_buf := Null\<rparr>"
  let ?w2 = "(put_client c ?cl w1)\<lparr>open_fds := open_fds w1 - {fd cl}\<rparr>"
  have rel: "dtor_release c w1 = Inr ?w2"
    using look(2,3) c world_invD(1,2) [OF I c]
    by (auto simp: dtor_release_def deref_def known_def running_def put_client_def Let_def)
  have addr: "in_addr e \<noteq> c" "out_addr e \<noteq> c"
    using e(2) c by (auto simp: accept_fresh_def)
  have fresh: "accept_fresh e ?w2"
    using e(2) look(2,3) addr by (simp add: accept_fresh_def put_client_def)
  have grant: "all_granted (in_init e)" "all_granted (out_init e)"
    using e(4) by (simp_all add: clean_request_def)
  show thesis
  proof (rule handle_request_pair [OF fresh e(3) grant])
    fix al bl
    let ?w3 = "?w2\<lparr>objs := (objs ?w2)(in_addr e := Some al, out_addr e := Some bl),
        client_map := (client_map ?w2)(accept_fd e := Some (Some (in_addr e)), sock_fd e := Some (Some (out_addr e))),
        open_fds := insert (sock_fd e) (insert (accept_fd e) (open_fds ?w2))\<rparr>"
    assume h: "handle_request e ?w2 = Inr (Some (in_addr e, out_addr e), ?w3)"
    have "dtor_lookup c w = Inr (p, w1)"
      using look(1) c by (simp add: dtor_lookup_def deref_def)
    moreover have "dtor_unmap c ?w3 = Inr (?w3\<lparr>client_map := (client_map ?w3)(fd cl := None)\<rparr>)"
      using addr by (simp add: dtor_unmap_def deref_def put_client_def)
    ultimately show thesis
      using h rel e(1) fresh
      by (intro that [of "?w3\<lparr>client_map := (client_map ?w3)(fd cl := None)\<rparr>"]) (auto simp: accept_fresh_def)
  qed
qed

subsection \<open>The cleanup loop\<close>

text \<open>
  One turn of the loop at the end of \<open>main\<close>. \<open>first\<close> is \<open>client_map.begin()\<close>: some key of the map, or
  nothing when it is empty. The result says whether the loop has ended.
\<close>

definition main_sweep :: "((int \<Rightarrow> nat option option) \<Rightarrow> int option) \<Rightarrow> ('e, 'v) world \<Rightarrow> (bool \<times> ('e, 'v) world) res" where
  "main_sweep first w =
     (if first (client_map w) = None then Inr (True, w)
      else let w = w\<lparr>client_map := (client_map w)(-1 := None)\<rparr>
      in case first (client_map w) of
           None \<Rightarrow> Inr (True, w)
         | Some k \<Rightarrow>
             (case client_map w k of
                Some (Some d) \<Rightarrow>
                  bnd (deref w d) (\<lambda>cl. bnd (loopbreak cl) (\<lambda>cl. Inr (False, put_client d cl w)))
              | _ \<Rightarrow> Inr (False, w)))"

definition begins :: "((int \<Rightarrow> nat option option) \<Rightarrow> int option) \<Rightarrow> bool" where
  "begins first \<longleftrightarrow> (\<forall>m. case first m of None \<Rightarrow> m = Map.empty | Some k \<Rightarrow> m k \<noteq> None)"

text \<open>
  What may happen later on in a serial execution, turns of the cleanup included, when no request is
  given one of the descriptors \<open>K\<close>.
\<close>

definition avoids :: "int set \<Rightarrow> ('e, 'v) accept_env \<Rightarrow> bool" where
  "avoids K e \<longleftrightarrow> accept_fd e \<notin> K \<and> sock_fd e \<notin> K"

inductive later :: "int set \<Rightarrow> ('e, 'v) libevent \<Rightarrow> ('v \<Rightarrow> byte list \<Rightarrow> 'v) \<Rightarrow>
    ((int \<Rightarrow> nat option option) \<Rightarrow> int option) \<Rightarrow> ('e, 'v) sys \<Rightarrow> ('e, 'v) sys \<Rightarrow> bool"
  for K L ar first S where
  now: "later K L ar first S S"
| step: "later K L ar first S S' \<Longrightarrow> serial_step (avoids K) L ar S' S'' \<Longrightarrow> later K L ar first S S''"
| sweep: "later K L ar first S S' \<Longrightarrow> main_sweep first (wld S') = Inr (b, w) \<Longrightarrow> later K L ar first S (S'\<lparr>wld := w\<rparr>)"

lemma begins_None: "begins first \<Longrightarrow> first m = None \<longleftrightarrow> m = Map.empty"
  by (auto simp: begins_def split: option.splits dest: spec [of _ m])

lemma begins_Some: "begins first \<Longrightarrow> first m = Some k \<Longrightarrow> m k \<noteq> None"
  by (auto simp: begins_def split: option.splits dest: spec [of _ m])

lemma main_sweep_ends:
  assumes "begins first" and "world_inv w" and "nulls_ok w" and "dom (objs w) = {}"
  shows "\<exists>w'. main_sweep first w = Inr (True, w')"
proof -
  have "client_map w k = None \<or> k = -1" for k
  proof (cases "client_map w k")
    case (Some p)
    then show ?thesis
    proof (cases p)
      case (Some c)
      then show ?thesis
        using world_inv_map [OF assms(2), of k c] \<open>client_map w k = Some p\<close> assms(4) by auto
    qed (use assms(3) in \<open>simp add: nulls_ok_def\<close>)
  qed simp
  then have "(client_map w)(-1 := None) = Map.empty"
    by (intro ext) (metis fun_upd_apply)
  then show ?thesis
    using begins_None [OF assms(1), of Map.empty] by (simp add: main_sweep_def Let_def)
qed

lemma main_sweep_stuck:
  assumes "begins first" and "world_inv w" and "client_map w k = Some None" and "k \<noteq> -1"
  shows "\<exists>w'. main_sweep first w = Inr (False, w') \<and> world_inv w' \<and> client_map w' k = Some None \<and>
    dom (objs w') = dom (objs w)"
proof -
  let ?w = "w\<lparr>client_map := (client_map w)(-1 := None)\<rparr>"
  have I: "world_inv ?w"
  proof (rule same_objs_inv [OF assms(2)])
    show "same_objs w ?w"
      by (simp add: same_objs_def option.rel_refl)
    show "client_map ?w i = Some (Some d) \<longleftrightarrow> client_map w i = Some (Some d)" for i d
      using world_inv_minus_one [OF assms(2)] by simp
  qed
  have ne: "client_map w \<noteq> Map.empty" "client_map ?w \<noteq> Map.empty" "client_map ?w k = Some None"
    using assms(3,4) by (auto dest: fun_cong [of _ _ k])
  obtain j where j1: "first (client_map ?w) = Some j"
    using begins_None [OF assms(1), of "client_map ?w"] ne(2) by (cases "first (client_map ?w)") simp_all
  obtain p where "client_map ?w j = Some p"
    using begins_Some [OF assms(1) j1] by (cases "client_map ?w j") simp_all
  note j = j1 this
  have head: "main_sweep first w = (case p of None \<Rightarrow> Inr (False, ?w)
      | Some d \<Rightarrow> bnd (deref ?w d) (\<lambda>cl. bnd (loopbreak cl) (\<lambda>cl. Inr (False, put_client d cl ?w))))"
    using j begins_None [OF assms(1), of "client_map w"] ne(1)
    by (cases p) (auto simp: main_sweep_def Let_def)
  show ?thesis
  proof (cases p)
    case None
    then show ?thesis
      using head I ne(3) by simp
  next
    case (Some d)
    obtain cl where cl: "objs ?w d = Some cl"
      using world_inv_map [OF I, of j d] j(2) Some by blast
    then have run: "running cl"
      by (rule world_invD(1) [OF I])
    obtain cl' where cl': "loopbreak cl = Inr cl'" "same_ends cl cl'"
      using with_base_running [OF run] with_base_same unfolding loopbreak_def by blast
    have same: "same_objs ?w (put_client d cl' ?w)"
      by (rule same_objs_put [OF _ cl cl'(2)]) (simp add: same_objs_def option.rel_refl)
    have "world_inv (put_client d cl' ?w)"
      by (rule same_objs_inv [OF I same]) (simp add: put_client_def)
    then show ?thesis
      using head Some cl cl'(1) ne(3) by (auto simp: deref_def put_client_def)
  qed
qed

text \<open>A null entry under another descriptor stays where it is.\<close>

lemma client_delete_map:
  assumes "client_delete c w = Inr w'" and "objs w c = Some cl"
  shows "client_map w' = (client_map (snd (map_index w (fw_fd cl))))(fd cl := None)"
proof -
  obtain p w1 where look: "map_index w (fw_fd cl) = (p, w1)" "objs w1 = objs w"
    by (cases "client_map w (fw_fd cl)") (simp_all add: map_index_def)
  have "dtor_lookup c w = Inr (p, w1)"
    using look(1) assms(2) by (simp add: dtor_lookup_def deref_def)
  then obtain w2 w3 w4 where r: "dtor_release c w1 = Inr w2" "dtor_unmap c w2 = Inr w3" "dtor_notify p w3 = Inr w4"
    "dtor_free c w4 = Inr w'"
    using assms(1) by (auto simp: client_delete_def bnd_Inr)
  have "client_map w2 = client_map w1" "\<exists>cl2. objs w2 c = Some cl2 \<and> fd cl2 = fd cl"
    using r(1) look(2) assms(2) by (auto simp: dtor_release_def deref_def known_def put_client_def Let_def split: if_splits)
  moreover from this have "client_map w3 = (client_map w2)(fd cl := None)"
    using r(2) by (auto simp: dtor_unmap_def deref_def)
  moreover have "client_map w4 = client_map w3"
    using r(3) by (auto simp: dtor_notify_def bnd_Inr put_client_def split: option.splits)
  moreover have "client_map w' = client_map w4"
    using r(4) by (auto simp: dtor_free_def known_def bnd_Inr split: if_splits)
  ultimately show ?thesis
    using look(1) by simp
qed

lemma map_index_null: "client_map w k = Some None \<Longrightarrow> client_map (snd (map_index w j)) k = Some None"
  by (simp add: map_index_def split: option.split)

lemma handle_request_null:
  assumes I: "world_inv w" and e: "accept_fresh e w" "k \<noteq> accept_fd e" "k \<noteq> sock_fd e"
    and h: "handle_request e w = Inr (r, w')" and k: "client_map w k = Some None"
  shows "client_map w' k = Some None"
proof (cases "connected e")
  case conn: True
  show ?thesis
  proof (cases "all_granted (in_init e) \<and> all_granted (out_init e)")
    case True
    then obtain v where "handle_request e w = Inr (Some (in_addr e, out_addr e), v)"
      "client_map v = (client_map w)(accept_fd e := Some (Some (in_addr e)), sock_fd e := Some (Some (out_addr e)))"
      using handle_request_started [OF I e(1) conn] by metis
    then show ?thesis
      using h e k by simp
  next
    case False
    from I e(1) conn False show ?thesis
    proof (cases rule: handle_request_init_failed)
      case (undone i j)
      then show ?thesis
        using h e k by auto
    qed (use h in simp)
  qed
qed (use handle_request_refused [OF _ e(1)] h k in simp)

lemma serial_step_null:
  assumes "serial_step (avoids K) L ar S S'" and "sys_inv S" and "k \<in> K" and k: "client_map (wld S) k = Some None"
  shows "client_map (wld S') k = Some None"
proof -
  have I: "world_inv (wld S)" and th: "dom (objs (wld S)) = threads S"
    using assms(2) by (simp_all add: sys_inv_def)
  show ?thesis
    using assms(1)
  proof (cases rule: serial_step.cases)
    case (request e r w)
    then have "k \<noteq> accept_fd e" "k \<noteq> sock_fd e"
      using assms(3) by (auto simp: avoids_def)
    then show ?thesis
      using handle_request_null [OF I request(3) _ _ request(4) k] request(1) by simp
  next
    case (arrival c xs)
    then show ?thesis
      using arrive_inv(3) [OF I] k by simp
  next
    case (read c en mc T hx env w)
    then obtain cl where "objs (wld S) c = Some cl"
      using th by blast
    then show ?thesis
      using read on_flow_read_frame [OF read(3)] world_invD(1) [OF I] map_index_null [OF k] by auto
  next
    case (finish c w)
    then obtain cl where c: "objs (wld S) c = Some cl"
      using th by blast
    have "fd cl \<noteq> k"
      using world_invD(4) [OF I c] k by auto
    then show ?thesis
      using finish client_delete_map [OF finish(3) c] map_index_null [OF k] by simp
  qed
qed

lemma later_stuck:
  assumes "later K L ar first S S'" and "begins first" and "sys_inv S" and "client_map (wld S) k = Some None"
    and "k \<in> K" "k \<noteq> -1"
  shows "sys_inv S' \<and> client_map (wld S') k = Some None"
  using assms(1)
proof (induction rule: later.induct)
  case (step S' S'')
  then show ?case
    using step_inv serial_step_null assms(5) by blast
next
  case (sweep S' b w)
  then have "world_inv (wld S')" "dom (objs (wld S')) = threads S'" "client_map (wld S') k = Some None"
    by (simp_all add: sys_inv_def)
  then show ?case
    using main_sweep_stuck [OF assms(2) _ _ assms(6)] sweep(2) by (fastforce simp: sys_inv_def)
qed (use assms(3,4) in simp)

subsection \<open>Runs of the listener\<close>

text \<open>Events whose requests are clean and get fresh descriptors and addresses in the state they meet.\<close>

fun listen_ok :: "('e, 'v) listen_event list \<Rightarrow> ('e, 'v) world \<Rightarrow> bool" where
  "listen_ok [] w \<longleftrightarrow> True"
| "listen_ok (ev # evs) w \<longleftrightarrow>
     (case accepted ev of
        None \<Rightarrow> True
      | Some e \<Rightarrow> clean_request e \<and> accept_fresh e w \<and>
          (case handle_request e w of Inl _ \<Rightarrow> True | Inr (r, w') \<Rightarrow> listen_ok evs w'))"

lemma handle_request_clean:
  assumes "world_inv w" and "accept_fresh e w" and "clean_request e"
  shows "\<exists>w'. handle_request e w = Inr (if connected e then Some (in_addr e, out_addr e) else None, w')"
proof (cases "connected e")
  case True
  have g: "all_granted (in_init e)" "all_granted (out_init e)"
    using assms(3) by (simp_all add: clean_request_def)
  show ?thesis
    by (rule handle_request_started [OF assms(1,2) True g]) (use True in auto)
next
  case False
  then show ?thesis
    using handle_request_refused [OF False assms(2)] by simp
qed

text \<open>The accept loop over any sequence of clean requests never faults and leaves a consistent state
  in which the live clients are those from before and the pairs it has started.\<close>

lemma start_listen_consistent:
  "listen_ok evs w \<Longrightarrow> world_inv w \<Longrightarrow>
   \<exists>ts w'. start_listen evs w = Inr (ts, w') \<and> world_inv w' \<and>
     dom (objs w') = dom (objs w) \<union> (\<Union>(c, d)\<in>set ts. {c, d})"
proof (induction evs arbitrary: w)
  case (Cons ev evs)
  show ?case
  proof (cases "sock_valid ev \<and> accepted ev \<noteq> None")
    case True
    then obtain e where e: "accepted ev = Some e" "sock_valid ev"
      by auto
    have ok: "clean_request e" "accept_fresh e w"
      using Cons.prems(1) e by simp_all
    obtain r v where v: "handle_request e w = Inr (r, v)"
      using handle_request_clean [OF Cons.prems(2) ok(2,1)] by blast
    note inv = handle_request_inv(1,2) [OF Cons.prems(2) ok(2) v]
    obtain ts w' where "start_listen evs v = Inr (ts, w')" "world_inv w'"
      "dom (objs w') = dom (objs v) \<union> (\<Union>(c, d)\<in>set ts. {c, d})"
      using Cons.IH [of v] Cons.prems(1) e v inv(1) by auto
    then show ?thesis
      using e v inv(2) by (auto simp: started_def split: option.splits)
  qed (use Cons.prems in auto)
qed simp

subsection \<open>Properties\<close>

definition sample_init :: "(byte list, byte list \<times> byte list) init_env" where
  "sample_init = \<lparr>new_struct = True, new_mem = sample_grant, new_evbuffer = Some [],
     new_base = Some \<lparr>exit_asked = False, break_asked = False\<rparr>, new_bufferevent = Some ([], [])\<rparr>"

definition sample_request :: "(byte list, byte list \<times> byte list) accept_env" where
  "sample_request = \<lparr>accept_fd = 4, in_flags = (0, 0), sock_fd = 5, connect_rc = 0, out_flags = (0, 0),
     in_addr = 0, out_addr = 1, in_init = sample_init, out_init = sample_init\<rparr>"

abbreviation empty_world :: "(byte list, byte list \<times> byte list) world" where
  "empty_world \<equiv> \<lparr>objs = Map.empty, client_map = Map.empty, open_fds = {}\<rparr>"

lemma sample_request_ok:
  "clean_request sample_request" "connected sample_request" "accept_fresh sample_request empty_world"
  "world_inv empty_world"
  by (simp_all add: clean_request_def sample_request_def sample_init_def all_granted_def sample_grant_def
      connected_def set_nonblock_def accept_fresh_def world_inv_def)

lemma sample_started:
  obtains w cl where "handle_request sample_request empty_world = Inr (Some (0, 1), w)"
    "objs w 0 = Some cl" "fw_fd cl = 5" "fd cl = 4"
    "serially_reachable clean_request sample_libevent sample_arrive \<lparr>wld = w, threads = {0, 1}\<rparr>"
proof -
  have g: "all_granted (in_init sample_request)" "all_granted (out_init sample_request)"
    using sample_request_ok(1) by (simp_all add: clean_request_def)
  show thesis
  proof (rule handle_request_pair [OF sample_request_ok(3,2) g])
    fix cl dl
    let ?w = "empty_world\<lparr>objs := (objs empty_world)(in_addr sample_request := Some cl, out_addr sample_request := Some dl),
        client_map := (client_map empty_world)(accept_fd sample_request := Some (Some (in_addr sample_request)),
          sock_fd sample_request := Some (Some (out_addr sample_request))),
        open_fds := insert (sock_fd sample_request) (insert (accept_fd sample_request) (open_fds empty_world))\<rparr>"
    assume h: "handle_request sample_request empty_world = Inr (Some (in_addr sample_request, out_addr sample_request), ?w)"
      and cl: "fd cl = accept_fd sample_request" "fw_fd cl = sock_fd sample_request"
    let ?S = "\<lparr>wld = empty_world, threads = {}\<rparr>"
    have "serial_step clean_request sample_libevent sample_arrive ?S
        (?S\<lparr>wld := ?w, threads := threads ?S \<union> started (Some (in_addr sample_request, out_addr sample_request))\<rparr>)"
      by (rule serial_step.request [where e = sample_request]) (use sample_request_ok(1,3) h in simp_all)
    then have "serially_reachable clean_request sample_libevent sample_arrive \<lparr>wld = ?w, threads = {0, 1}\<rparr>"
      using serially_reachable.step [OF serially_reachable.init] by (fastforce simp: started_def sample_request_def)
    then show thesis
      using h cl by (intro that [of ?w cl]) (simp_all add: sample_request_def)
  qed
qed

text \<open>C6: A serial execution, one in which requests, arrivals, reads and the ends of clients take effect one
  after the other and each as a whole, keeps the shared state consistent: exactly the clients with a
  thread are live, each is initialised, owns an open descriptor and is what the map gives for it, and
  each that forwards forwards to a live client that forwards back. The program's threads run without a
  lock, so this does not speak of executions in which they interleave within a destructor: C24 and
  C28 have two in which consistency is lost.\<close>

theorem serially_reachable_consistent:
  assumes "serially_reachable A L ar S"
  shows "world_inv (wld S) \<and> dom (objs (wld S)) = threads S"
  using reachable_inv [OF assms] by (simp add: sys_inv_def)

lemma serially_reachable_consistent_witness:
  "\<exists>w. handle_request sample_request empty_world = Inr (Some (0, 1), w) \<and> world_inv w \<and> dom (objs w) = {0, 1}"
  using sample_started serially_reachable_consistent [of clean_request sample_libevent sample_arrive]
  by (metis sys.select_convs(1,2))

text \<open>C25: When a client's event loop ends in a state of a serial execution, its destructor, run as a whole, never
  faults: it frees this client and no other, closes its descriptor and no other.\<close>

theorem finish_safe:
  assumes "serially_reachable A L ar S" and "c \<in> threads S"
  shows "\<exists>cl w. objs (wld S) c = Some cl \<and> client_delete c (wld S) = Inr w \<and>
    dom (objs w) = threads S - {c} \<and> open_fds w = open_fds (wld S) - {fd cl}"
proof -
  have I: "world_inv (wld S)" "dom (objs (wld S)) = threads S"
    using reachable_inv [OF assms(1)] by (simp_all add: sys_inv_def)
  then obtain cl where c: "objs (wld S) c = Some cl"
    using assms(2) by (auto simp: dom_def)
  show ?thesis
    by (rule client_delete_inv [OF I(1) c]) (use c I(2) in auto)
qed

lemma finish_safe_witness:
  "\<exists>w v. handle_request sample_request empty_world = Inr (Some (0, 1), w) \<and> client_delete 0 w = Inr v \<and> dom (objs v) = {1}"
proof (rule sample_started)
  fix w cl
  assume w: "handle_request sample_request empty_world = Inr (Some (0, 1), w)"
    "serially_reachable clean_request sample_libevent sample_arrive \<lparr>wld = w, threads = {0, 1}\<rparr>"
  show ?thesis
    using finish_safe [OF w(2), of 0] w(1) by auto
qed

text \<open>C24: The destructors of two partners must not interleave, and nothing keeps them from it. Take a
  live client that still forwards, and the partner the map gives for its forwarding descriptor. Run
  one after the other, in either order, both destructors end and free both. But when the first has
  looked its partner up and the partner's destructor then runs to its end, the first goes on to where
  it marks the partner, which has been freed, and there it uses freed memory.\<close>

theorem destructors_use_after_free:
  assumes "serially_reachable A L ar S" and "objs (wld S) c = Some cl" and "fw_fd cl \<noteq> -1"
  shows "\<exists>f pcs v. client_map (wld S) (fw_fd cl) = Some (Some f) \<and> f \<in> threads S \<and> f \<noteq> c \<and>
    (\<exists>pcs w. run_dtors [c, c, c, c, c, f, f, f, f, f] (\<lambda>_. AtLookup) (wld S) = Inr (pcs, w) \<and> dom (objs w) = threads S - {c, f}) \<and>
    (\<exists>pcs w. run_dtors [f, f, f, f, f, c, c, c, c, c] (\<lambda>_. AtLookup) (wld S) = Inr (pcs, w) \<and> dom (objs w) = threads S - {c, f}) \<and>
    run_dtors [c, f, f, f, f, f, c, c] (\<lambda>_. AtLookup) (wld S) = Inr (pcs, v) \<and>
    pcs f = Freed \<and> objs v f = None \<and> pcs c = AtNotify (Some f) \<and> dtor_piece c (pcs c) v = Inl UseAfterFree"
proof -
  have I: "world_inv (wld S)" and th: "dom (objs (wld S)) = threads S"
    using reachable_inv [OF assms(1)] by (simp_all add: sys_inv_def)
  from I assms(2) show ?thesis
  proof (cases rule: partner_cases)
    case (some f fw)
    have dom: "c \<in> dom (objs (wld S))" "f \<in> dom (objs (wld S))"
      using assms(2) some(3) by blast+
    obtain pcs v where race: "run_dtors [c, f, f, f, f, f, c, c] (\<lambda>_. AtLookup) (wld S) = Inr (pcs, v)"
      "pcs f = Freed" "objs v f = None" "pcs c = AtNotify (Some f)"
      using dtors_race [OF I assms(2) some(1-4,6)] by blast
    have "dtor_piece c (pcs c) v = Inl UseAfterFree"
      using race(3,4) by (simp add: dtor_piece_def dtor_notify_def deref_def)
    moreover have "f \<in> threads S"
      using dom(2) th by simp
    moreover have "\<exists>pcs w. run_dtors [c, c, c, c, c, f, f, f, f, f] (\<lambda>_. AtLookup) (wld S) = Inr (pcs, w) \<and>
        dom (objs w) = threads S - {c, f}"
      using dtors_in_turn [OF I dom some(1) [symmetric]] by (simp only: th)
    moreover have "\<exists>pcs w. run_dtors [f, f, f, f, f, c, c, c, c, c] (\<lambda>_. AtLookup) (wld S) = Inr (pcs, w) \<and>
        dom (objs w) = threads S - {c, f}"
      using dtors_in_turn [OF I dom(2,1) some(1)] by (simp only: th insert_commute)
    ultimately show ?thesis
      using some(1,2) race by - (rule exI [of _ f], rule exI [of _ pcs], rule exI [of _ v], intro conjI)
  qed (use assms(3) in simp)
qed

lemma destructors_use_after_free_witness:
  "\<exists>w f pcs v. handle_request sample_request empty_world = Inr (Some (0, 1), w) \<and> client_map w 5 = Some (Some f) \<and>
     run_dtors [0, f, f, f, f, f, 0, 0] (\<lambda>_. AtLookup) w = Inr (pcs, v) \<and> dtor_piece 0 (pcs 0) v = Inl UseAfterFree"
proof (rule sample_started)
  fix w cl
  assume w: "handle_request sample_request empty_world = Inr (Some (0, 1), w)" "objs w 0 = Some cl" "fw_fd cl = 5"
    "serially_reachable clean_request sample_libevent sample_arrive \<lparr>wld = w, threads = {0, 1}\<rparr>"
  show ?thesis
    using destructors_use_after_free [OF w(4), of 0 cl] w(1-3) by auto
qed

text \<open>C28: A destructor gives its descriptor back before it gives up its entry in the map. When a
  request accepted in between gets the same descriptor, the entry given up is that of the new,
  live client, which no partner can find from then on.\<close>

theorem descriptor_reuse_unmaps:
  assumes "serially_reachable A L ar S" and "objs (wld S) c = Some cl" and "accept_fd e = fd cl"
    and "accept_fresh e ((wld S)\<lparr>open_fds := open_fds (wld S) - {fd cl}\<rparr>)" and "connected e" and "clean_request e"
  shows "\<exists>w. bnd (dtor_lookup c (wld S)) (\<lambda>(_, w). bnd (dtor_release c w) (\<lambda>w.
      bnd (handle_request e w) (\<lambda>(r, w). bnd (dtor_unmap c w) (\<lambda>w. Inr (r, w))))) = Inr (Some (in_addr e, out_addr e), w) \<and>
    objs w (in_addr e) \<noteq> None \<and> client_map w (accept_fd e) = None"
proof -
  have "world_inv (wld S)"
    using reachable_inv [OF assms(1)] by (simp add: sys_inv_def)
  then show ?thesis
    by (rule fd_reuse_race [OF _ assms(2-6)]) blast
qed

lemma descriptor_reuse_unmaps_witness:
  "\<exists>w e v r. handle_request sample_request empty_world = Inr (Some (0, 1), w) \<and>
     bnd (dtor_lookup 0 w) (\<lambda>(_, w). bnd (dtor_release 0 w) (\<lambda>w.
       bnd (handle_request e w) (\<lambda>(r, w). bnd (dtor_unmap 0 w) (\<lambda>w. Inr (r, w))))) = Inr (r, v) \<and>
     objs v (in_addr e) \<noteq> None \<and> client_map v (accept_fd e) = None"
proof -
  have g: "all_granted (in_init sample_request)" "all_granted (out_init sample_request)"
    using sample_request_ok(1) by (simp_all add: clean_request_def)
  obtain w cl where w: "handle_request sample_request empty_world = Inr (Some (0, 1), w)" "objs w 0 = Some cl"
    "fd cl = 4" "serially_reachable clean_request sample_libevent sample_arrive \<lparr>wld = w, threads = {0, 1}\<rparr>"
    by (rule sample_started)
  obtain w2 where "handle_request sample_request empty_world = Inr (Some (in_addr sample_request, out_addr sample_request), w2)"
    "open_fds w2 = insert (sock_fd sample_request) (insert (accept_fd sample_request) (open_fds empty_world))"
    by (rule handle_request_started [OF sample_request_ok(4,3,2) g])
  then have v: "dom (objs w) = {0, 1}" "open_fds w = {5, 4}"
    using reachable_inv [OF w(4)] w(1) by (simp_all add: sys_inv_def sample_request_def)
  let ?e = "sample_request\<lparr>sock_fd := 6, in_addr := 2, out_addr := 3\<rparr>"
  have "2 \<notin> dom (objs w)" "3 \<notin> dom (objs w)"
    unfolding v(1) by simp_all
  then have "objs w 2 = None" "objs w 3 = None"
    by (simp_all only: domIff not_not)
  then have "accept_fresh ?e (w\<lparr>open_fds := open_fds w - {fd cl}\<rparr>)" "connected ?e" "clean_request ?e" "accept_fd ?e = fd cl"
    using v(2) w(3) sample_request_ok(1,2)
    by (simp_all add: accept_fresh_def sample_request_def connected_def clean_request_def)
  then show ?thesis
    using descriptor_reuse_unmaps [OF w(4), of 0 cl ?e] w(1,2) by fastforce
qed

text \<open>C26: The outcome of a request in a consistent state with fresh descriptors. When a connection
  cannot be had, everything is given back. When everything is granted, a consistent pair is
  running. When an initialisation fails, the destructor reads a member that was never set, unless
  only the last call failed; then all is given back except for a null entry left in the map.\<close>

theorem handle_request_outcome:
  assumes "world_inv w" and "accept_fresh e w"
  shows "if \<not> connected e then handle_request e w = Inr (None, w)
    else if clean_request e then
      \<exists>w'. handle_request e w = Inr (Some (in_addr e, out_addr e), w') \<and> world_inv w' \<and>
        dom (objs w') = dom (objs w) \<union> {in_addr e, out_addr e} \<and>
        open_fds w' = insert (sock_fd e) (insert (accept_fd e) (open_fds w))
    else if all_granted (in_init e) then handle_request e w =
      (if last_fails (out_init e)
       then Inr (None, w\<lparr>client_map := (client_map w)(accept_fd e := Some None, sock_fd e := None)\<rparr>)
       else Inl Uninit)
    else handle_request e w =
      (if last_fails (in_init e)
       then Inr (None, w\<lparr>client_map := (client_map w)(sock_fd e := Some None, accept_fd e := None)\<rparr>)
       else Inl Uninit)"
proof (cases "connected e")
  case conn: True
  show ?thesis
  proof (cases "clean_request e")
    case True
    then have g: "all_granted (in_init e)" "all_granted (out_init e)"
      by (simp_all add: clean_request_def)
    show ?thesis
      by (rule handle_request_started [OF assms conn g]) (use conn True in auto)
  next
    case False
    then show ?thesis
      using conn handle_request_in_fails [OF assms conn] handle_request_out_fails [OF assms conn]
      by (auto simp: clean_request_def)
  qed
qed (use handle_request_refused [OF _ assms(2)] in simp)

lemma handle_request_outcome_witness:
  "\<exists>w'. handle_request sample_request empty_world = Inr (Some (0, 1), w') \<and> world_inv w'"
  using handle_request_outcome [OF sample_request_ok(4,3)] sample_request_ok(1,2)
  by (auto simp: sample_request_def)

text \<open>C30: The cleanup of \<open>main\<close> ends once every thread has: if no initialisation ever failed and no
  client is left, the next turn of the loop is the last, whatever the order of the map.\<close>

theorem cleanup_ends:
  assumes "serially_reachable clean_request L ar S" and "threads S = {}" and "begins first"
  shows "\<exists>w. main_sweep first (wld S) = Inr (True, w)"
  using main_sweep_ends [OF assms(3), of "wld S"] reachable_inv [OF assms(1)] reachable_nulls [OF assms(1)] assms(2)
  by (simp add: sys_inv_def)

definition sample_first :: "(int \<Rightarrow> nat option option) \<Rightarrow> int option" where
  "sample_first m = (if m = Map.empty then None else Some (SOME k. m k \<noteq> None))"

lemma sample_first_begins: "begins sample_first"
proof -
  have "m (SOME k. m k \<noteq> None) \<noteq> None" if "m \<noteq> Map.empty" for m :: "int \<Rightarrow> nat option option"
    using that by (intro someI_ex [of "\<lambda>k. m k \<noteq> None"]) auto
  then show ?thesis
    by (simp add: begins_def sample_first_def)
qed

lemma cleanup_ends_witness:
  "\<exists>w w0 w1 v. handle_request sample_request empty_world = Inr (Some (0, 1), w) \<and> client_delete 0 w = Inr w0 \<and>
     client_delete 1 w0 = Inr w1 \<and> main_sweep sample_first w1 = Inr (True, v)"
proof (rule sample_started)
  fix w cl
  assume w: "handle_request sample_request empty_world = Inr (Some (0, 1), w)"
    "serially_reachable clean_request sample_libevent sample_arrive \<lparr>wld = w, threads = {0, 1}\<rparr>" (is "serially_reachable _ _ _ ?S")
  have inv: "world_inv w" "dom (objs w) = {0, 1}"
    using reachable_inv [OF w(2)] by (simp_all add: sys_inv_def)
  then have "0 \<in> dom (objs w)"
    by simp
  then obtain c0 where c0: "objs w 0 = Some c0"
    by blast
  obtain w0 where w0: "client_delete 0 w = Inr w0" "world_inv w0" "dom (objs w0) = dom (objs w) - {0}"
    by (rule client_delete_inv [OF inv(1) c0])
  then have "1 \<in> dom (objs w0)"
    using inv(2) by simp
  then obtain c1 where c1: "objs w0 1 = Some c1"
    by blast
  obtain w1 where w1: "client_delete 1 w0 = Inr w1"
    by (rule client_delete_inv [OF w0(2) c1])
  let ?R = "?S\<lparr>wld := w0, threads := threads ?S - {0}\<rparr>"
  have "serial_step clean_request sample_libevent sample_arrive ?S ?R"
    by (rule serial_step.finish) (use w0(1) in simp_all)
  then have S0: "serially_reachable clean_request sample_libevent sample_arrive ?R"
    by (rule serially_reachable.step [OF w(2)])
  have "serial_step clean_request sample_libevent sample_arrive ?R (?R\<lparr>wld := w1, threads := threads ?R - {1}\<rparr>)"
    by (rule serial_step.finish) (use w1 in simp_all)
  then have "serially_reachable clean_request sample_libevent sample_arrive (?R\<lparr>wld := w1, threads := threads ?R - {1}\<rparr>)"
    by (rule serially_reachable.step [OF S0])
  from cleanup_ends [OF this _ sample_first_begins] show ?thesis
    using w(1) w0(1) w1 by auto
qed

text \<open>C31: A request whose last initialisation call failed leaves a null entry in the map that keeps the
  cleanup of \<open>main\<close> from ending. In a serial execution it stays there whatever happens later (more
  requests, reads, clients that end, turns of the cleanup), as long as no request is given a
  descriptor of the failed one again: then no turn of the cleanup is the last, even when no client is left,
  because the entry is not under -1, the only key a turn takes out.\<close>

theorem cleanup_never_ends:
  assumes "serially_reachable A L ar S" and "accept_fresh e (wld S)" and "connected e"
    and "handle_request e (wld S) = Inr (None, w)" and "begins first"
    and "later {accept_fd e, sock_fd e} L ar first (S\<lparr>wld := w\<rparr>) S'"
  shows "\<exists>v. main_sweep first (wld S') = Inr (False, v)"
proof -
  have I: "sys_inv S" "world_inv (wld S)"
    using reachable_inv [OF assms(1)] by (simp_all add: sys_inv_def)
  have inv: "sys_inv (S\<lparr>wld := w\<rparr>)"
    using handle_request_inv(1,2) [OF I(2) assms(2,4)] I(1) by (simp add: sys_inv_def started_def)
  have f: "\<not> (all_granted (in_init e) \<and> all_granted (out_init e))"
    using handle_request_clean [OF I(2) assms(2)] assms(3,4) by (auto simp: clean_request_def)
  from I(2) assms(2,3) f show ?thesis
  proof (cases rule: handle_request_init_failed)
    case (undone k j)
    then have k: "k \<in> {accept_fd e, sock_fd e}" "k \<noteq> -1" "client_map w k = Some None"
      using assms(2,3,4) by (auto simp: accept_fresh_def connected_def doubleton_eq_iff)
    then have "sys_inv S'" "client_map (wld S') k = Some None"
      using later_stuck [OF assms(6,5) inv _ k(1,2)] by simp_all
    then show ?thesis
      using main_sweep_stuck [OF assms(5) _ _ k(2), of "wld S'"] by (auto simp: sys_inv_def)
  qed (use assms(4) in simp)
qed

text \<open>A request whose event object is refused, one that succeeds, and the cleanup.\<close>

lemma cleanup_never_ends_witness:
  "\<exists>w r w1 v. handle_request (sample_request\<lparr>in_init := sample_init\<lparr>new_bufferevent := None\<rparr>\<rparr>) empty_world = Inr (None, w) \<and>
     handle_request (sample_request\<lparr>accept_fd := 6, sock_fd := 7\<rparr>) w = Inr (r, w1) \<and> main_sweep sample_first w1 = Inr (False, v)"
proof -
  let ?e = "sample_request\<lparr>in_init := sample_init\<lparr>new_bufferevent := None\<rparr>\<rparr>"
  let ?g = "sample_request\<lparr>accept_fd := 6, sock_fd := 7\<rparr> :: (byte list, byte list \<times> byte list) accept_env"
  let ?S = "\<lparr>wld = empty_world, threads = {}\<rparr>"
  have e: "accept_fresh ?e empty_world" "connected ?e"
    using sample_request_ok(2,3) by (simp_all add: accept_fresh_def connected_def)
  have "\<not> all_granted (in_init ?e)" "last_fails (in_init ?e)"
    by (simp_all add: all_granted_def last_fails_def sample_init_def sample_grant_def)
  then obtain w where w: "handle_request ?e empty_world = Inr (None, w)" and fds: "open_fds w = {}"
    using handle_request_in_fails [OF sample_request_ok(4) e] by simp
  note inv = handle_request_inv(1,2) [OF sample_request_ok(4) e(1) w]
  have e1: "accept_fresh ?g w" "clean_request ?g"
    using inv(2) fds sample_request_ok(1) by (auto simp: accept_fresh_def sample_request_def started_def clean_request_def)
  obtain r w1 where w1: "handle_request ?g w = Inr (r, w1)"
    using handle_request_clean [OF inv(1) e1] by blast
  let ?R = "?S\<lparr>wld := w\<rparr>"
  have "serial_step (avoids {accept_fd ?e, sock_fd ?e}) sample_libevent sample_arrive ?R
      (?R\<lparr>wld := w1, threads := threads ?R \<union> started r\<rparr>)"
    by (rule serial_step.request [where e = ?g]) (use e1 w1 in \<open>simp_all add: avoids_def sample_request_def\<close>)
  then have later: "later {accept_fd ?e, sock_fd ?e} sample_libevent sample_arrive sample_first ?R
      (?R\<lparr>wld := w1, threads := threads ?R \<union> started r\<rparr>)"
    by (rule later.step [OF later.now])
  have "\<exists>v. main_sweep sample_first (wld (?R\<lparr>wld := w1, threads := threads ?R \<union> started r\<rparr>)) = Inr (False, v)"
    by (rule cleanup_never_ends [OF serially_reachable.init [of "\<lambda>_. True" sample_libevent sample_arrive "{}"] _ e(2) _
        sample_first_begins later]) (use e(1) w in simp_all)
  then show ?thesis
    using w w1 by auto
qed

lemma start_listen_consistent_witness:
  "\<exists>ts w'. start_listen [\<lparr>sock_valid = True, accepted = Some sample_request\<rparr>, \<lparr>sock_valid = False, accepted = None\<rparr>]
     empty_world = Inr (ts, w') \<and> world_inv w'"
proof -
  have "listen_ok [\<lparr>sock_valid = True, accepted = Some sample_request\<rparr>, \<lparr>sock_valid = False, accepted = None\<rparr>] empty_world"
    using sample_request_ok(1,3) by (simp split: sum.split prod.split)
  from start_listen_consistent [OF this sample_request_ok(4)] show ?thesis
    by blast
qed

end
