(* ===== verification/Cmdline.thy ===== *)
theory Cmdline
  imports Rules
begin

text \<open>
  The command line of \<^verbatim>\<open>mproxy/src/main.cpp\<close>: the option loop, the port and target
  parsers, and the port text the proxy makes for the resolver. An argument is a block of
  characters ending in NUL; the target parser overwrites its argument. The result of the loop is a
  process exit or the values the proxy is started with.
\<close>

subsection \<open>Comparing arguments\<close>

text \<open>
  \<open>memcmp(a, b, n) == 0\<close>, reading both blocks up to the first difference. (ISO C allows an
  implementation to read all \<open>n\<close> bytes, more than a short argument has.)
\<close>

fun mem_eq :: "char list \<Rightarrow> char list \<Rightarrow> nat \<Rightarrow> bool res" where
  "mem_eq a b 0 = Inr True"
| "mem_eq (x # a) (y # b) (Suc n) = (if x = y then mem_eq a b n else Inr False)"
| "mem_eq _ _ (Suc n) = Inl OutOfBounds"

text \<open>The option tests, in the order of the loop.\<close>

datatype option_kind = HelpOpt | PortOpt | PortEq | TargetOpt | TargetEq | ProfileOpt | ProfileEq | NoOpt

definition tests :: "(string \<times> nat \<times> option_kind) list" where
  "tests = [(''-h'', 2, HelpOpt), (''-p'', 3, PortOpt), (''--port'', 7, PortOpt), (''--port='', 7, PortEq),
     (''-t'', 3, TargetOpt), (''--target'', 9, TargetOpt), (''--target='', 9, TargetEq),
     (''-f'', 3, ProfileOpt), (''--profile'', 10, ProfileOpt), (''--profile='', 10, ProfileEq)]"

fun match_option :: "(string \<times> nat \<times> option_kind) list \<Rightarrow> char list \<Rightarrow> option_kind res" where
  "match_option [] arg = Inr NoOpt"
| "match_option ((s, n, k) # ts) arg =
     bnd (mem_eq arg (s @ [NUL]) n) (\<lambda>eq. if eq then Inr k else match_option ts arg)"

subsection \<open>Ports and targets\<close>

text \<open>\<open>die\<close> ends the process with a status; otherwise there is a value.\<close>

datatype 'a outcome = Exit int | Go 'a

definition is_valid_port :: "32 word \<Rightarrow> bool" where
  "is_valid_port x \<longleftrightarrow> x \<ge> 0 \<and> x \<le> 65535"

definition parse_port_num :: "char list \<Rightarrow> int \<Rightarrow> 32 word outcome res" where
  "parse_port_num b p =
     bnd (bnd (c_string b p) atoi) (\<lambda>i.
     let val = word_of_int i in Inr (if is_valid_port val then Go val else Exit 1))"

text \<open>
  The target: everything before the first colon is copied over the start of the host buffer, without a
  terminating NUL and without a look at the buffer's size.
\<close>

definition parse_fw_host :: "char list \<Rightarrow> int \<Rightarrow> char list \<Rightarrow> (char list \<times> 32 word) outcome res" where
  "parse_fw_host b p hostname =
     bnd (c_string b p) (\<lambda>s.
     if \<not> str_has s (CHR '':'') then Inr (Exit 1)
     else let n = length (takeWhile (\<lambda>c. c \<noteq> CHR '':'') s) in
       bnd (wr b (p + int n) NUL) (\<lambda>b.
       bnd (rd_block b p n) (\<lambda>xs.
       bnd (wr_block hostname 0 xs) (\<lambda>hostname.
       bnd (parse_port_num b (p + int n + 1)) (\<lambda>r.
       Inr (case r of Exit i \<Rightarrow> Exit i | Go v \<Rightarrow> Go (hostname, v)))))))"

definition DEFAULT_PORT :: "32 word" where "DEFAULT_PORT = 6633"
definition DEFAULT_FW_HOST :: string where "DEFAULT_FW_HOST = ''127.0.0.1''"
definition DEFAULT_FW_PORT :: "32 word" where "DEFAULT_FW_PORT = 6635"
definition HOST_NAME_MAX :: nat where "HOST_NAME_MAX = 64"

definition init_fw_host :: "char list" where
  "init_fw_host = DEFAULT_FW_HOST @ replicate (HOST_NAME_MAX + 1 - length DEFAULT_FW_HOST) NUL"

subsection \<open>The option loop\<close>

record config =
  port :: "32 word"
  fw_port :: "32 word"
  fw_host :: "char list"
  tables :: rule_tables

definition init_config :: config where
  "init_config = \<lparr>port = DEFAULT_PORT, fw_port = DEFAULT_FW_PORT, fw_host = init_fw_host, tables = init_tables\<rparr>"

text \<open>
  What an option does with the argument at offset \<open>p\<close> of a block, or with the null pointer behind
  the last argument. \<open>profile\<close> reads the rules of the file of a given name into the tables.
\<close>

definition apply_option :: "(string \<Rightarrow> rule_tables \<Rightarrow> rule_tables res) \<Rightarrow> option_kind \<Rightarrow> (char list \<times> int) option \<Rightarrow>
    config \<Rightarrow> config outcome res" where
  "apply_option profile k arg cfg =
     (case arg of
        None \<Rightarrow> Inl NullDeref
      | Some (b, p) \<Rightarrow>
          if k = PortOpt \<or> k = PortEq then
            bnd (parse_port_num b p) (\<lambda>r. Inr (case r of Exit i \<Rightarrow> Exit i | Go v \<Rightarrow> Go (cfg\<lparr>port := v\<rparr>)))
          else if k = TargetOpt \<or> k = TargetEq then
            bnd (parse_fw_host b p (fw_host cfg)) (\<lambda>r. Inr (case r of Exit i \<Rightarrow> Exit i
              | Go (h, v) \<Rightarrow> Go (cfg\<lparr>fw_host := h, fw_port := v\<rparr>)))
          else
            bnd (c_string b p) (\<lambda>f. bnd (profile f (tables cfg)) (\<lambda>T. Inr (Go (cfg\<lparr>tables := T\<rparr>)))))"

text \<open>
  The loop starts with the program's own name. A help option prints the usage and returns 0. An option with
  a separate value takes the next argument, the null pointer when there is none.
\<close>

fun main_options :: "(string \<Rightarrow> rule_tables \<Rightarrow> rule_tables res) \<Rightarrow> char list list \<Rightarrow> config \<Rightarrow> config outcome res" where
  "main_options profile [] cfg = Inr (Go cfg)"
| "main_options profile (arg # args) cfg =
     bnd (match_option tests arg) (\<lambda>k.
     case k of
       NoOpt \<Rightarrow> main_options profile args cfg
     | HelpOpt \<Rightarrow> Inr (Exit 0)
     | PortEq \<Rightarrow> bnd (apply_option profile k (Some (arg, 7)) cfg) (\<lambda>r. case r of Exit i \<Rightarrow> Inr (Exit i) | Go cfg \<Rightarrow> main_options profile args cfg)
     | TargetEq \<Rightarrow> bnd (apply_option profile k (Some (arg, 9)) cfg) (\<lambda>r. case r of Exit i \<Rightarrow> Inr (Exit i) | Go cfg \<Rightarrow> main_options profile args cfg)
     | ProfileEq \<Rightarrow> bnd (apply_option profile k (Some (arg, 10)) cfg) (\<lambda>r. case r of Exit i \<Rightarrow> Inr (Exit i) | Go cfg \<Rightarrow> main_options profile args cfg)
     | _ \<Rightarrow>
         (case args of
            [] \<Rightarrow> apply_option profile k None cfg
          | val # rest \<Rightarrow> bnd (apply_option profile k (Some (val, 0)) cfg) (\<lambda>r. case r of Exit i \<Rightarrow> Inr (Exit i) | Go cfg \<Rightarrow> main_options profile rest cfg)))"

subsection \<open>The sockets of the proxy\<close>

text \<open>
  \<open>init_in_socket\<close>, on the answers of \<open>socket\<close>, \<open>setsockopt\<close>, \<open>bind\<close> and \<open>listen\<close>: the status, \<open>in_sock_fd\<close>, and whether
  the socket is left open.
\<close>

definition init_in_socket :: "int \<Rightarrow> int \<Rightarrow> int \<Rightarrow> int \<Rightarrow> int \<times> int \<times> bool" where
  "init_in_socket sock setopt bind_rc listen_rc =
     (if sock < 0 then (-1, sock, False)
      else if setopt \<noteq> 0 then (-1, -1, False)
      else if bind_rc < 0 then (-1, -1, False)
      else if listen_rc < 0 then (-1, -1, False)
      else (0, sock, True))"

text \<open>\<open>snprintf(buf, 6, "%d%c", fw_port, '\0')\<close>: at most five characters and a NUL.\<close>

fun dec :: "nat \<Rightarrow> string" where
  "dec n = (if n < 10 then [char_of (48 + n)] else dec (n div 10) @ [char_of (48 + n mod 10)])"

declare dec.simps [simp del]

definition port_text :: "nat \<Rightarrow> string" where
  "port_text p = take 5 (dec p)"

text \<open>The answers of \<open>getaddrinfo\<close>: 0 and the resolved addresses, or an error.\<close>

definition init_out_socket :: "(string \<Rightarrow> string \<Rightarrow> int) \<Rightarrow> string \<Rightarrow> nat \<Rightarrow> int" where
  "init_out_socket getaddrinfo host p = (if getaddrinfo host (port_text p) \<noteq> 0 then -1 else 0)"

subsection \<open>Options\<close>

lemma mem_eq_whole: "NUL \<notin> set s \<Longrightarrow> NUL \<notin> set t \<Longrightarrow>
  mem_eq (s @ NUL # post) (t @ [NUL]) (Suc (length t)) = Inr (s = t)"
proof (induction t arbitrary: s)
  case Nil
  then show ?case
    by (cases s) auto
next
  case (Cons y t)
  then show ?case
    by (cases s) auto
qed

lemma mem_eq_prefix: "NUL \<notin> set s \<Longrightarrow> NUL \<notin> set t \<Longrightarrow>
  mem_eq (s @ NUL # post) (t @ [NUL]) (length t) = Inr (take (length t) s = t)"
proof (induction t arbitrary: s)
  case (Cons y t)
  then show ?case
    by (cases s) auto
qed simp

text \<open>What an argument means.\<close>

definition option_of :: "string \<Rightarrow> option_kind" where
  "option_of s =
     (if take 2 s = ''-h'' then HelpOpt
      else if s = ''-p'' \<or> s = ''--port'' then PortOpt
      else if take 7 s = ''--port='' then PortEq
      else if s = ''-t'' \<or> s = ''--target'' then TargetOpt
      else if take 9 s = ''--target='' then TargetEq
      else if s = ''-f'' \<or> s = ''--profile'' then ProfileOpt
      else if take 10 s = ''--profile='' then ProfileEq
      else NoOpt)"

lemma match_option_of:
  assumes "NUL \<notin> set s"
  shows "match_option tests (s @ NUL # post) = Inr (option_of s)"
proof -
  note W = mem_eq_whole [OF assms, where post = post] and P = mem_eq_prefix [OF assms, where post = post]
  have w: "mem_eq (s @ NUL # post) (''-p'' @ [NUL]) 3 = Inr (s = ''-p'')"
    "mem_eq (s @ NUL # post) (''--port'' @ [NUL]) 7 = Inr (s = ''--port'')"
    "mem_eq (s @ NUL # post) (''-t'' @ [NUL]) 3 = Inr (s = ''-t'')"
    "mem_eq (s @ NUL # post) (''--target'' @ [NUL]) 9 = Inr (s = ''--target'')"
    "mem_eq (s @ NUL # post) (''-f'' @ [NUL]) 3 = Inr (s = ''-f'')"
    "mem_eq (s @ NUL # post) (''--profile'' @ [NUL]) 10 = Inr (s = ''--profile'')"
    using W [of "''-p''"] W [of "''--port''"] W [of "''-t''"] W [of "''--target''"] W [of "''-f''"] W [of "''--profile''"]
    by (simp_all add: eval_nat_numeral del: mem_eq.simps append.simps)
  have p: "mem_eq (s @ NUL # post) (''-h'' @ [NUL]) 2 = Inr (take 2 s = ''-h'')"
    "mem_eq (s @ NUL # post) (''--port='' @ [NUL]) 7 = Inr (take 7 s = ''--port='')"
    "mem_eq (s @ NUL # post) (''--target='' @ [NUL]) 9 = Inr (take 9 s = ''--target='')"
    "mem_eq (s @ NUL # post) (''--profile='' @ [NUL]) 10 = Inr (take 10 s = ''--profile='')"
    using P [of "''-h''"] P [of "''--port=''"] P [of "''--target=''"] P [of "''--profile=''"]
    by (simp_all add: eval_nat_numeral del: mem_eq.simps append.simps take_Suc_Cons)
  show ?thesis
    unfolding tests_def match_option.simps w p bnd_simps by (simp add: option_of_def)
qed

subsection \<open>Ports and targets in the command line\<close>

lemma digit_char: "d < 10 \<Longrightarrow> is_digit (char_of (48 + d)) \<and> digit_val (char_of (48 + d)) = int d" for d :: nat
proof -
  assume "d < 10"
  then have "d \<in> set [0..<10]"
    by simp
  moreover have "\<forall>d\<in>set [0..<10]. is_digit (char_of (48 + d)) \<and> digit_val (char_of (48 + d)) = int d"
    by code_simp
  ultimately show ?thesis
    by blast
qed

lemma digits_val_snoc:
  "\<forall>c\<in>set s. is_digit c \<Longrightarrow> is_digit d \<Longrightarrow> digits_val acc (s @ [d]) = 10 * digits_val acc s + digit_val d"
  by (induction s arbitrary: acc) simp_all

lemma dec_digits: "dec n \<noteq> [] \<and> (\<forall>c\<in>set (dec n). is_digit c) \<and> digits_val 0 (dec n) = int n"
proof (induction n rule: dec.induct)
  case (1 n)
  show ?case
  proof (cases "n < 10")
    case True
    then show ?thesis
      using digit_char [OF True] by (subst (1 2 3) dec.simps) simp
  next
    case False
    have d: "n mod 10 < 10"
      by simp
    have "int n = 10 * int (n div 10) + int (n mod 10)"
      by presburger
    then show ?thesis
      using "1.IH" [OF False] digit_char [OF d] False
      by (subst (1 2 3) dec.simps) (simp add: digits_val_snoc)
  qed
qed

lemma dec_length: "n < 10 ^ k \<Longrightarrow> 0 < k \<Longrightarrow> length (dec n) \<le> k"
proof (induction k arbitrary: n)
  case (Suc k)
  show ?case
  proof (cases "n < 10")
    case True
    then show ?thesis
      by (subst dec.simps) simp
  next
    case False
    then have "n div 10 < 10 ^ k" "0 < k"
      using Suc.prems(1) by (cases k; simp add: div_less_iff_less_mult mult.commute)+
    then show ?thesis
      using Suc.IH [of "n div 10"] False by (subst dec.simps) simp
  qed
qed simp

lemma port_word: "0 \<le> n \<Longrightarrow> n < 2 ^ 31 \<Longrightarrow> is_valid_port (word_of_int n) \<longleftrightarrow> n \<le> 65535"
proof -
  assume n: "0 \<le> n" "n < 2 ^ 31"
  then have "uint (word_of_int n :: 32 word) = n"
    by (simp add: uint_word_of_int)
  then show ?thesis
    using n by (simp add: is_valid_port_def word_le_def)
qed

lemma number_chars: "number s n \<Longrightarrow> NUL \<notin> set s \<and> CHR '':'' \<notin> set s"
proof -
  have "\<not> is_digit NUL" "\<not> is_digit (CHR '':'')"
    by code_simp+
  then show "number s n \<Longrightarrow> NUL \<notin> set s \<and> CHR '':'' \<notin> set s"
    unfolding number_def by blast
qed

lemma parse_port_number:
  assumes "number s n" and "b = pre @ s @ NUL # post" and "p = int (length pre)"
  shows "parse_port_num b p = Inr (if n \<le> 65535 then Go (word_of_int n) else Exit 1)"
proof -
  have c: "c_string b p = Inr s"
    using number_chars [OF assms(1)] by (intro c_string_at [OF assms(2,3)]) simp
  have "0 \<le> n" "n < 2 ^ 31"
    using number_nonneg [OF assms(1)] assms(1) by (auto simp: number_def in_int_range_def)
  then show ?thesis
    using port_word [of n] c atoi_number [OF assms(1)] by (simp add: parse_port_num_def Let_def)
qed

lemma parse_target:
  assumes "number s n" and "n \<le> 65535" and "NUL \<notin> set h" and "CHR '':'' \<notin> set h"
  shows "parse_fw_host (h @ CHR '':'' # s @ NUL # post) 0 hostname =
    (if length h \<le> length hostname then Inr (Go (h @ drop (length h) hostname, word_of_int n)) else Inl OutOfBounds)"
proof -
  let ?b = "h @ CHR '':'' # s @ NUL # post"
  have c: "c_string ?b 0 = Inr (h @ CHR '':'' # s)"
    using number_chars [OF assms(1)] assms(3) by (intro c_string_at [where pre = "[]"]) simp_all
  have tw: "takeWhile (\<lambda>c. c \<noteq> CHR '':'') (h @ CHR '':'' # s) = h"
    using assms(4) by (intro takeWhile_append_stop) auto
  have w: "wr ?b (int (length h)) NUL = Inr (h @ NUL # s @ NUL # post)"
    by (simp add: wr_at)
  have r: "rd_block (h @ NUL # s @ NUL # post) 0 (length h) = Inr h"
    by (simp add: rd_block_def)
  have p: "parse_port_num (h @ NUL # s @ NUL # post) (int (length h) + 1) = Inr (Go (word_of_int n))"
    using parse_port_number [OF assms(1), of "h @ NUL # s @ NUL # post" "h @ [NUL]" post] assms(2)
    by (simp add: add.commute)
  show ?thesis
    using c tw w r p by (simp add: parse_fw_host_def str_has_def wr_block_def)
qed

text \<open>The host the proxy sees: the copied bytes and what was behind them in the buffer.\<close>

lemma host_string:
  assumes "NUL \<notin> set h" and "length h \<le> 64"
  shows "c_string (h @ drop (length h) init_fw_host) 0 = Inr (h @ drop (length h) DEFAULT_FW_HOST)"
proof -
  have nul: "NUL \<notin> set DEFAULT_FW_HOST"
    by code_simp
  have len: "length DEFAULT_FW_HOST = 9"
    by code_simp
  have "h @ drop (length h) init_fw_host =
      [] @ (h @ drop (length h) DEFAULT_FW_HOST) @ NUL # replicate (64 - max (length h) 9) NUL"
    using assms(2) len
    by (cases "length h \<le> 9") (simp_all add: init_fw_host_def HOST_NAME_MAX_def replicate_Suc [symmetric] Suc_diff_le
        del: replicate_Suc)
  then show ?thesis
    using assms(1) nul in_set_dropD [of NUL "length h" DEFAULT_FW_HOST] by (intro c_string_at) auto
qed

lemma host_unterminated:
  assumes "NUL \<notin> set h" and "length h = 65"
  shows "c_string (h @ drop (length h) init_fw_host) 0 = Inl OutOfBounds"
proof -
  have "length init_fw_host = 65"
    by code_simp
  then show ?thesis
    using assms by (simp add: c_string_def)
qed

subsection \<open>A printed command line\<close>

text \<open>Options as a user means them, the three ways to write one, and what each makes the code store.\<close>

datatype opt = PortIs string int | TargetIs string string int | ProfileIs string

datatype form = Short | Long | WithEq

fun opt_args :: "form \<Rightarrow> opt \<Rightarrow> string list" where
  "opt_args Short (PortIs s n) = [''-p'', s]"
| "opt_args Long (PortIs s n) = [''--port'', s]"
| "opt_args WithEq (PortIs s n) = [''--port='' @ s]"
| "opt_args Short (TargetIs h s n) = [''-t'', h @ CHR '':'' # s]"
| "opt_args Long (TargetIs h s n) = [''--target'', h @ CHR '':'' # s]"
| "opt_args WithEq (TargetIs h s n) = [''--target='' @ h @ CHR '':'' # s]"
| "opt_args Short (ProfileIs f) = [''-f'', f]"
| "opt_args Long (ProfileIs f) = [''--profile'', f]"
| "opt_args WithEq (ProfileIs f) = [''--profile='' @ f]"

fun opt_ok :: "opt \<Rightarrow> bool" where
  "opt_ok (PortIs s n) \<longleftrightarrow> number s n \<and> n \<le> 65535"
| "opt_ok (TargetIs h s n) \<longleftrightarrow> number s n \<and> n \<le> 65535 \<and> NUL \<notin> set h \<and> CHR '':'' \<notin> set h \<and> length h \<le> 64"
| "opt_ok (ProfileIs f) \<longleftrightarrow> NUL \<notin> set f"

fun opt_store :: "(string \<Rightarrow> rule_tables \<Rightarrow> rule_tables res) \<Rightarrow> opt \<Rightarrow> config \<Rightarrow> config res" where
  "opt_store profile (PortIs s n) cfg = Inr (cfg\<lparr>port := word_of_int n\<rparr>)"
| "opt_store profile (TargetIs h s n) cfg =
     Inr (cfg\<lparr>fw_host := h @ drop (length h) (fw_host cfg), fw_port := word_of_int n\<rparr>)"
| "opt_store profile (ProfileIs f) cfg = bnd (profile f (tables cfg)) (\<lambda>T. Inr (cfg\<lparr>tables := T\<rparr>))"

fun opts_store :: "(string \<Rightarrow> rule_tables \<Rightarrow> rule_tables res) \<Rightarrow> opt list \<Rightarrow> config \<Rightarrow> config res" where
  "opts_store profile [] cfg = Inr cfg"
| "opts_store profile (x # xs) cfg = bnd (opt_store profile x cfg) (opts_store profile xs)"

abbreviation c_arg :: "string \<Rightarrow> char list" where
  "c_arg s \<equiv> s @ [NUL]"

lemma option_of_words:
  "option_of ''-p'' = PortOpt" "option_of ''--port'' = PortOpt" "option_of (''--port='' @ s) = PortEq"
  "option_of ''-t'' = TargetOpt" "option_of ''--target'' = TargetOpt" "option_of (''--target='' @ s) = TargetEq"
  "option_of ''-f'' = ProfileOpt" "option_of ''--profile'' = ProfileOpt" "option_of (''--profile='' @ s) = ProfileEq"
  by (simp_all add: option_of_def)

lemma match_word:
  assumes "option_of s = k" and "NUL \<notin> set s"
  shows "match_option tests (c_arg s) = Inr k"
  using match_option_of [OF assms(2), of "[]"] assms(1) by simp

lemma apply_port:
  assumes "number s n" and "n \<le> 65535" and "k = PortOpt \<or> k = PortEq" and "p = int (length pre)"
  shows "apply_option profile k (Some (pre @ c_arg s, p)) cfg = Inr (Go (cfg\<lparr>port := word_of_int n\<rparr>))"
  using parse_port_number [OF assms(1) _ assms(4), of "pre @ c_arg s" "[]"] assms(2,3)
  by (auto simp: apply_option_def)

lemma apply_profile:
  assumes "NUL \<notin> set f" and "k = ProfileOpt \<or> k = ProfileEq" and "p = int (length pre)"
  shows "apply_option profile k (Some (pre @ c_arg f, p)) cfg =
    bnd (profile f (tables cfg)) (\<lambda>T. Inr (Go (cfg\<lparr>tables := T\<rparr>)))"
  using c_string_at [of "pre @ c_arg f" pre f "[]" p] assms by (auto simp: apply_option_def)

text \<open>The target parser works at any offset of its argument.\<close>

lemma parse_target_at:
  assumes "number s n" and "n \<le> 65535" and "NUL \<notin> set h" and "CHR '':'' \<notin> set h" and "p = int (length pre)"
    and "length h \<le> length hostname"
  shows "parse_fw_host (pre @ h @ CHR '':'' # c_arg s) p hostname = Inr (Go (h @ drop (length h) hostname, word_of_int n))"
proof -
  let ?b = "pre @ h @ CHR '':'' # s @ [NUL]"
  let ?b' = "pre @ h @ NUL # s @ [NUL]"
  have c: "c_string ?b p = Inr (h @ CHR '':'' # s)"
    using number_chars [OF assms(1)] assms(3,5) by (intro c_string_at [where pre = pre]) simp_all
  have tw: "takeWhile (\<lambda>c. c \<noteq> CHR '':'') (h @ CHR '':'' # s) = h"
    using assms(4) by (intro takeWhile_append_stop) auto
  have w: "wr ?b (p + int (length h)) NUL = Inr ?b'"
    using wr_at [of "p + int (length h)" "pre @ h" "CHR '':''" "s @ [NUL]" NUL] assms(5) by simp
  have r: "rd_block ?b' p (length h) = Inr h"
    using assms(5) by (simp add: rd_block_def)
  have q: "parse_port_num ?b' (p + int (length h) + 1) = Inr (Go (word_of_int n))"
    using parse_port_number [OF assms(1), of ?b' "pre @ h @ [NUL]" "[]"] assms(2,5) by (simp add: add.commute add.left_commute)
  show ?thesis
    using c tw w r q assms(6) by (simp add: parse_fw_host_def str_has_def wr_block_def)
qed

lemma apply_target:
  assumes "number s n" and "n \<le> 65535" and "NUL \<notin> set h" and "CHR '':'' \<notin> set h" and "p = int (length pre)"
    and "length h \<le> length (fw_host cfg)" and "k = TargetOpt \<or> k = TargetEq"
  shows "apply_option profile k (Some (pre @ h @ CHR '':'' # c_arg s, p)) cfg =
    Inr (Go (cfg\<lparr>fw_host := h @ drop (length h) (fw_host cfg), fw_port := word_of_int n\<rparr>))"
  using parse_target_at [OF assms(1-6)] assms(7) by (auto simp: apply_option_def)

lemma main_option:
  assumes "opt_ok x" and "length (fw_host cfg) = 65"
  shows "main_options profile (map c_arg (opt_args f x) @ args) cfg =
    bnd (opt_store profile x cfg) (main_options profile args)"
proof -
  note W = match_word [OF option_of_words(1)] match_word [OF option_of_words(2)] match_word [OF option_of_words(3)]
    match_word [OF option_of_words(4)] match_word [OF option_of_words(5)] match_word [OF option_of_words(6)]
    match_word [OF option_of_words(7)] match_word [OF option_of_words(8)] match_word [OF option_of_words(9)]
  show ?thesis
  proof (cases x)
    case (PortIs s n)
    then show ?thesis
      using assms(1) W apply_port [of s n PortOpt 0 "[]" profile cfg] apply_port [of s n PortEq 7 "''--port=''" profile cfg]
        number_chars [of s n]
      by (cases f) (simp_all del: match_option.simps)
  next
    case (TargetIs h s n)
    then show ?thesis
      using assms W apply_target [of s n h 0 "[]" cfg TargetOpt profile]
        apply_target [of s n h 9 "''--target=''" cfg TargetEq profile] number_chars [of s n]
        match_word [OF option_of_words(6) [of "h @ CHR '':'' # s"]]
      by (cases f) (simp_all del: match_option.simps)
  next
    case (ProfileIs g)
    then show ?thesis
      using assms(1) W apply_profile [of g ProfileOpt 0 "[]" profile cfg]
        apply_profile [of g ProfileEq 10 "''--profile=''" profile cfg]
      by (cases f) (simp_all del: match_option.simps add: bnd_assoc)
  qed
qed

lemma opt_store_host:
  "opt_store profile x cfg = Inr cfg' \<Longrightarrow> opt_ok x \<Longrightarrow> length (fw_host cfg) = 65 \<Longrightarrow> length (fw_host cfg') = 65"
  by (cases x) (auto simp: bnd_Inr)

lemma main_options_printed:
  "\<forall>(f, x)\<in>set xs. opt_ok x \<Longrightarrow> length (fw_host cfg) = 65 \<Longrightarrow>
   main_options profile (map c_arg (concat (map (\<lambda>(f, x). opt_args f x) xs))) cfg =
     bnd (opts_store profile (map snd xs) cfg) (\<lambda>cfg. Inr (Go cfg))"
proof (induction xs arbitrary: cfg)
  case (Cons y ys)
  obtain f x where y: "y = (f, x)"
    by (cases y)
  have "main_options profile (map c_arg (concat (map (\<lambda>(f, x). opt_args f x) (y # ys)))) cfg =
      bnd (opt_store profile x cfg) (main_options profile (map c_arg (concat (map (\<lambda>(f, x). opt_args f x) ys))))"
    using main_option [of x cfg profile f] Cons.prems y by simp
  also have "\<dots> = bnd (opt_store profile x cfg) (\<lambda>cfg. bnd (opts_store profile (map snd ys) cfg) (\<lambda>cfg. Inr (Go cfg)))"
    using Cons opt_store_host y by (intro bnd_cong refl) auto
  finally show ?case
    using y by (simp add: bnd_assoc)
qed simp

subsection \<open>What the options are documented to mean\<close>

text \<open>
  The settings of the usage text, in the values a user writes: the port to use, the address of the remote
  controller, and the rules of the profiles that have been loaded. An option changes its own setting.
\<close>

record settings =
  own_port :: int
  target_host :: string
  target_port :: int
  loaded :: rule_tables

definition default_settings :: settings where
  "default_settings = \<lparr>own_port = 6633, target_host = ''127.0.0.1'', target_port = 6635, loaded = init_tables\<rparr>"

fun opt_effect :: "(string \<Rightarrow> rule_tables \<Rightarrow> rule_tables res) \<Rightarrow> opt \<Rightarrow> settings \<Rightarrow> settings res" where
  "opt_effect profile (PortIs s n) st = Inr (st\<lparr>own_port := n\<rparr>)"
| "opt_effect profile (TargetIs h s n) st = Inr (st\<lparr>target_host := h, target_port := n\<rparr>)"
| "opt_effect profile (ProfileIs f) st = bnd (profile f (loaded st)) (\<lambda>T. Inr (st\<lparr>loaded := T\<rparr>))"

fun opts_effect :: "(string \<Rightarrow> rule_tables \<Rightarrow> rule_tables res) \<Rightarrow> opt list \<Rightarrow> settings \<Rightarrow> settings res" where
  "opts_effect profile [] st = Inr st"
| "opts_effect profile (x # xs) st = bnd (opt_effect profile x st) (opts_effect profile xs)"

text \<open>The configuration the program is started with, and the settings it stands for.\<close>

definition configured :: "config \<Rightarrow> settings \<Rightarrow> bool" where
  "configured cfg st \<longleftrightarrow> uint (port cfg) = own_port st \<and> c_string (fw_host cfg) 0 = Inr (target_host st) \<and>
     uint (fw_port cfg) = target_port st \<and> tables cfg = loaded st"

text \<open>
  The code copies a host without its end over the one before. It honours the options as documented when no
  target has a shorter host than the one it replaces, the first of which is the default.
\<close>

fun hosts_cover :: "nat \<Rightarrow> opt list \<Rightarrow> bool" where
  "hosts_cover n [] \<longleftrightarrow> True"
| "hosts_cover n (TargetIs h s m # xs) \<longleftrightarrow> n \<le> length h \<and> hosts_cover (length h) xs"
| "hosts_cover n (x # xs) \<longleftrightarrow> hosts_cover n xs"

definition padded :: "string \<Rightarrow> char list \<Rightarrow> bool" where
  "padded h b \<longleftrightarrow> NUL \<notin> set h \<and> length h \<le> 64 \<and> b = h @ replicate (65 - length h) NUL"

lemma padded_string: "padded h b \<Longrightarrow> c_string b 0 = Inr h"
proof -
  assume p: "padded h b"
  have "length h \<le> 64"
    using p by (simp add: padded_def)
  then have "65 - length h = Suc (64 - length h)"
    by linarith
  then have "b = [] @ h @ NUL # replicate (64 - length h) NUL"
    using p by (simp add: padded_def)
  then show "c_string b 0 = Inr h"
    by (rule c_string_at) (use p in \<open>simp_all add: padded_def\<close>)
qed

lemma padded_over: "padded h b \<Longrightarrow> NUL \<notin> set g \<Longrightarrow> length h \<le> length g \<Longrightarrow> length g \<le> 64 \<Longrightarrow> padded g (g @ drop (length g) b)"
  by (simp add: padded_def)

lemma uint_port: "number s n \<Longrightarrow> n \<le> 65535 \<Longrightarrow> uint (word_of_int n :: 32 word) = n"
  using number_nonneg [of s n] by (simp add: uint_word_of_int)

lemma opt_store_effect:
  assumes "opt_ok x" and "hosts_cover (length (target_host st)) (x # xs)"
    and "configured cfg st" and "padded (target_host st) (fw_host cfg)"
  shows "rel_sum (=) (\<lambda>cfg st. configured cfg st \<and> padded (target_host st) (fw_host cfg) \<and> hosts_cover (length (target_host st)) xs)
    (opt_store profile x cfg) (opt_effect profile x st)"
proof (cases x)
  case (TargetIs h s n)
  then have "padded h (h @ drop (length h) (fw_host cfg))"
    using assms(1,2) by (intro padded_over [OF assms(4)]) auto
  then show ?thesis
    using assms padded_string uint_port TargetIs by (auto simp: configured_def)
next
  case (ProfileIs f)
  then show ?thesis
    using assms by (cases "profile f (loaded st)") (simp_all add: configured_def)
qed (use assms uint_port in \<open>auto simp: configured_def\<close>)

lemma opts_store_effect:
  assumes "\<forall>x\<in>set xs. opt_ok x" and "hosts_cover (length (target_host st)) xs"
    and "configured cfg st" and "padded (target_host st) (fw_host cfg)"
  shows "rel_sum (=) configured (opts_store profile xs cfg) (opts_effect profile xs st)"
  using assms
proof (induction xs arbitrary: cfg st)
  case (Cons x xs)
  then have "opt_ok x" "\<forall>x\<in>set xs. opt_ok x"
    by simp_all
  from opt_store_effect [OF this(1) Cons.prems(2-4), of profile] Cons.IH [OF this(2)] show ?case
    by (cases "opt_store profile x cfg"; cases "opt_effect profile x st") auto
qed simp

lemma init_configured: "configured init_config default_settings" "padded (target_host default_settings) (fw_host init_config)"
proof -
  show p: "padded (target_host default_settings) (fw_host init_config)"
    by code_simp
  show "configured init_config default_settings"
    using padded_string [OF p] by (simp add: configured_def init_config_def default_settings_def DEFAULT_PORT_def DEFAULT_FW_PORT_def)
qed

subsection \<open>Properties\<close>

text \<open>C20: A command line written from options, each in its short form, its long form or with \<open>=\<close>, is
  understood: the loop ends with a configuration that stands for the settings the options are documented to
  make, applied from left to right (reading a profile being the only thing that can go wrong on the
  way). This is so when no target's host is shorter than the one it replaces, the first being the
  default \<open>127.0.0.1\<close>; a shorter host is not given its end (C33), and is not covered here.\<close>

theorem main_options_print:
  assumes "\<forall>(f, x)\<in>set xs. opt_ok x" and "hosts_cover (length (target_host default_settings)) (map snd xs)"
    and "NUL \<notin> set name" and "option_of name = NoOpt"
  shows "case opts_effect profile (map snd xs) default_settings of
      Inl e \<Rightarrow> main_options profile (map c_arg (name # concat (map (\<lambda>(f, x). opt_args f x) xs))) init_config = Inl e
    | Inr st \<Rightarrow> \<exists>cfg. main_options profile (map c_arg (name # concat (map (\<lambda>(f, x). opt_args f x) xs))) init_config = Inr (Go cfg) \<and>
        configured cfg st"
proof -
  have "length (fw_host init_config) = 65"
    by (simp add: init_config_def init_fw_host_def HOST_NAME_MAX_def DEFAULT_FW_HOST_def)
  then have run: "main_options profile (map c_arg (name # concat (map (\<lambda>(f, x). opt_args f x) xs))) init_config =
      bnd (opts_store profile (map snd xs) init_config) (\<lambda>cfg. Inr (Go cfg))"
    using main_options_printed [OF assms(1)] match_word [OF assms(4,3)] by (simp del: match_option.simps)
  have "\<forall>x\<in>set (map snd xs). opt_ok x"
    using assms(1) by auto
  from opts_store_effect [OF this assms(2) init_configured, of profile] show ?thesis
    unfolding run by (cases rule: rel_sum.cases) simp_all
qed

text \<open>A port, a target, and the same target again with a longer host.\<close>

lemma main_options_print_witness:
  "\<exists>cfg. main_options (\<lambda>_. Inr) (map c_arg [''./mproxy'', ''-p'', ''80'', ''--target=localhost:99'', ''-t'', ''controller:6653'']) init_config =
      Inr (Go cfg) \<and> uint (port cfg) = 80 \<and> c_string (fw_host cfg) 0 = Inr ''controller'' \<and> uint (fw_port cfg) = 6653"
proof -
  have "number ''80'' 80" "number ''99'' 99" "number ''6653'' 6653"
    by code_simp+
  then have ok: "\<forall>(f, x)\<in>set [(Short, PortIs ''80'' 80), (WithEq, TargetIs ''localhost'' ''99'' 99),
      (Short, TargetIs ''controller'' ''6653'' 6653)]. opt_ok x"
    by simp
  have name: "NUL \<notin> set ''./mproxy''" "option_of ''./mproxy'' = NoOpt"
    by (simp_all add: option_of_def)
  show ?thesis
    using main_options_print [OF ok _ name, of "\<lambda>_. Inr"]
    by (auto simp: default_settings_def configured_def simp del: main_options.simps match_option.simps)
qed

text \<open>C33: The target's host is copied without its end. A host shorter than the default \<open>127.0.0.1\<close> keeps
  the rest of the default behind it; one of exactly 65 characters is left without a terminating
  NUL, so reading it runs off the buffer; a longer one is written past the buffer.\<close>

theorem parse_fw_host_target:
  assumes "number s n" and "n \<le> 65535" and "NUL \<notin> set h" and "CHR '':'' \<notin> set h"
  shows "if length h \<le> 65
    then \<exists>host. parse_fw_host (h @ CHR '':'' # s @ NUL # post) 0 init_fw_host = Inr (Go (host, word_of_int n)) \<and>
      c_string host 0 = (if length h \<le> 64 then Inr (h @ drop (length h) DEFAULT_FW_HOST) else Inl OutOfBounds)
    else parse_fw_host (h @ CHR '':'' # s @ NUL # post) 0 init_fw_host = Inl OutOfBounds"
proof -
  have len: "length init_fw_host = 65"
    by code_simp
  have p: "parse_fw_host (h @ CHR '':'' # s @ NUL # post) 0 init_fw_host =
    (if length h \<le> 65 then Inr (Go (h @ drop (length h) init_fw_host, word_of_int n)) else Inl OutOfBounds)"
    using parse_target [OF assms, of post init_fw_host] len by simp
  show ?thesis
  proof (cases "length h \<le> 64")
    case True
    then show ?thesis
      using p host_string [OF assms(3) True] by simp
  next
    case False
    then have "length h = 65 \<or> 65 < length h"
      by auto
    then show ?thesis
      using p host_unterminated [OF assms(3)] False by auto
  qed
qed

lemma parse_fw_host_target_witness:
  "\<exists>host. parse_fw_host (c_arg ''10.0.0.1:6653'') 0 init_fw_host = Inr (Go (host, 6653)) \<and>
     c_string host 0 = Inr ''10.0.0.11''"
proof -
  have n: "number ''6653'' 6653"
    by code_simp
  show ?thesis
    using parse_fw_host_target [OF n, of "''10.0.0.1''" "[]"] by (simp add: DEFAULT_FW_HOST_def)
qed

text \<open>An option that needs a value and is the last argument makes the program use the null pointer
  behind the arguments.\<close>

theorem main_options_missing_value:
  assumes "NUL \<notin> set s" and "option_of s \<in> {PortOpt, TargetOpt, ProfileOpt}"
  shows "main_options profile [c_arg s] cfg = Inl NullDeref"
  using match_word [OF refl assms(1)] assms(2) by (auto simp: apply_option_def simp del: match_option.simps)

lemma main_options_missing_value_witness: "main_options (\<lambda>_. Inr) [c_arg ''--port''] init_config = Inl NullDeref"
  using main_options_missing_value [of "''--port''" "\<lambda>_. Inr" init_config] option_of_words(2) by simp

lemma port_text_dec: "n \<le> 65535 \<Longrightarrow> port_text n = dec n \<and> length (dec n) \<le> 5"
  using dec_length [of n 5] by (simp add: port_text_def)

text \<open>The port text given to the resolver is the decimal number of the port, never cut off: it has at
  most five characters and reads back as the port.\<close>

theorem port_text_reads_back:
  assumes "n \<le> 65535"
  shows "length (port_text n) \<le> 5 \<and> atoi (port_text n) = Inr (int n)"
proof -
  have "number (dec n) (int n)"
    using dec_digits [of n] assms by (simp add: number_def in_int_range_def)
  then show ?thesis
    using port_text_dec [OF assms] by (simp add: atoi_number)
qed

lemma port_text_reads_back_witness: "atoi (port_text 6633) = Inr 6633"
  using port_text_reads_back [of 6633] by simp

end
