(* ===== verification/Program.thy ===== *)
theory Program
  imports Profile Lifecycle Cmdline
begin

text \<open>
  The program as a whole (\<^verbatim>\<open>main.cpp\<close>, \<open>Proxy::Proxy\<close>, \<open>Proxy::~Proxy\<close>, \<open>Proxy::start\<close> and
  \<open>Proxy::stop\<close> of \<^verbatim>\<open>proxy.cpp\<close>): from the command line to the accept loop, and how the parts meet.
\<close>

subsection \<open>The proxy object\<close>

text \<open>
  \<open>out_host\<close> is what the resolver was asked for, the list of addresses it gave standing behind it. \<open>listening\<close> is the port
  of the bound socket.
\<close>

record proxy =
  p_status :: int
  in_sock_fd :: int
  listening :: "16 word"
  out_host :: "(string \<times> string) option"

definition STATUS_STOP :: int where "STATUS_STOP = 1"

text \<open>
  The answers of the system to the calls \<open>main\<close> makes: the files, the memory for reading a profile, the
  thread support of libevent, the signal handlers, the listening socket, the resolver.
\<close>

record answers =
  files :: "string \<Rightarrow> char list option"
  got_stream :: bool
  first_reply :: "char heap_reply"
  replies :: "nat \<Rightarrow> char heap_reply"
  got_row :: "nat \<Rightarrow> nat \<Rightarrow> bool"
  got_args :: "nat \<Rightarrow> nat \<Rightarrow> bool"
  threads_rc :: int
  sigterm_ok :: bool
  sigint_ok :: bool
  socket_rc :: int
  setsockopt_rc :: int
  bind_rc :: int
  listen_rc :: int
  getaddrinfo :: "string \<Rightarrow> string \<Rightarrow> int"

definition parse_profile :: "answers \<Rightarrow> string \<Rightarrow> rule_tables \<Rightarrow> rule_tables res" where
  "parse_profile a f T =
     attacker_read_rows (got_stream a) (first_reply a) (replies a) (got_row a) (got_args a) T (files a f)"

text \<open>The constructor throws its status, \<open>STATUS_ERR\<close>, when a socket call or the resolver fails.\<close>

definition proxy_new :: "answers \<Rightarrow> 32 word \<Rightarrow> char list \<Rightarrow> 32 word \<Rightarrow> ('e, 'v) world \<Rightarrow> ((int + proxy) \<times> ('e, 'v) world) res" where
  "proxy_new a p_in host p_out w =
     (let (rc, sock, left_open) = init_in_socket (socket_rc a) (setsockopt_rc a) (bind_rc a) (listen_rc a);
          w = (if left_open then open_fd sock w else w)
      in if rc \<noteq> 0 then Inr (Inl STATUS_ERR, w)
         else bnd (c_string host 0) (\<lambda>host.
           if init_out_socket (getaddrinfo a) host (unat p_out) \<noteq> 0 then Inr (Inl STATUS_ERR, w)
           else Inr (Inr \<lparr>p_status = STATUS_OK, in_sock_fd = sock, listening = ucast p_in,
             out_host = Some (host, port_text (unat p_out))\<rparr>, w)))"

text \<open>\<open>stop\<close> runs in the signal handler; the destructor also waits for the client threads.\<close>

definition proxy_stop :: "proxy \<Rightarrow> ('e, 'v) world \<Rightarrow> proxy \<times> ('e, 'v) world" where
  "proxy_stop p w = (p\<lparr>p_status := STATUS_STOP, in_sock_fd := -1\<rparr>, close_fd (in_sock_fd p) w)"

definition proxy_delete :: "proxy \<Rightarrow> ('e, 'v) world \<Rightarrow> ('e, 'v) world" where
  "proxy_delete p w = (if in_sock_fd p \<ge> 0 then close_fd (in_sock_fd p) w else w)"

subsection \<open>main\<close>

definition start_world :: "int set \<Rightarrow> ('e, 'v) world" where
  "start_world F = \<lparr>objs = Map.empty, client_map = Map.empty, open_fds = F\<rparr>"

text \<open>
  Up to \<open>proxy->start()\<close>. \<open>F\<close> are the descriptors the process is started with. Exit codes are the arguments of
  \<open>exit\<close>.
\<close>

definition main_start :: "answers \<Rightarrow> char list list \<Rightarrow> int set \<Rightarrow> (config \<times> proxy \<times> ('e, 'v) world) outcome res" where
  "main_start a argv F =
     bnd (main_options (parse_profile a) argv init_config) (\<lambda>r.
     case r of Exit i \<Rightarrow> Inr (Exit i)
     | Go cfg \<Rightarrow>
         if threads_rc a \<noteq> 0 then Inr (Exit 1)
         else if \<not> sigterm_ok a \<or> \<not> sigint_ok a then Inr (Exit 1)
         else bnd (proxy_new a (port cfg) (fw_host cfg) (fw_port cfg) (start_world F)) (\<lambda>(r, w).
           case r of Inl err \<Rightarrow> Inr (Exit err) | Inr p \<Rightarrow> Inr (Go (cfg, p, w))))"

text \<open>Then the accept loop, on the events it meets: the configuration, the proxy, the pairs of clients started.\<close>

definition main_run :: "answers \<Rightarrow> char list list \<Rightarrow> int set \<Rightarrow> ('e, 'v) listen_event list \<Rightarrow>
    (config \<times> proxy \<times> (nat \<times> nat) list \<times> ('e, 'v) world) outcome res" where
  "main_run a argv F evs =
     bnd (main_start a argv F) (\<lambda>r.
     case r of Exit i \<Rightarrow> Inr (Exit i)
     | Go (cfg, p, w) \<Rightarrow> bnd (start_listen evs w) (\<lambda>(ts, w). Inr (Go (cfg, p, ts, w))))"

text \<open>One turn of the cleanup and, when it has ended, the end of the proxy object: the return value of \<open>main\<close>, once there is one.\<close>

definition main_end :: "((int \<Rightarrow> nat option option) \<Rightarrow> int option) \<Rightarrow> proxy \<Rightarrow> ('e, 'v) world \<Rightarrow>
    (int option \<times> ('e, 'v) world) res" where
  "main_end first p w =
     bnd (main_sweep first w) (\<lambda>(done, w). Inr (if done then (Some 0, proxy_delete p w) else (None, w)))"

subsection \<open>Starting up\<close>

definition sockets_ok :: "answers \<Rightarrow> bool" where
  "sockets_ok a \<longleftrightarrow> 0 \<le> socket_rc a \<and> setsockopt_rc a = 0 \<and> 0 \<le> bind_rc a \<and> 0 \<le> listen_rc a"

definition the_proxy :: "answers \<Rightarrow> config \<Rightarrow> string \<Rightarrow> proxy" where
  "the_proxy a cfg host = \<lparr>p_status = STATUS_OK, in_sock_fd = socket_rc a, listening = ucast (port cfg),
     out_host = Some (host, port_text (unat (fw_port cfg)))\<rparr>"

lemma unat_port_number:
  assumes "0 \<le> m" and "m \<le> 65535"
  shows "unat (word_of_int m :: 32 word) = nat m"
proof -
  have "m mod 4294967296 = m"
    using assms by simp
  then show ?thesis
    using assms by (simp add: unsigned_of_int take_bit_eq_mod)
qed

lemma uint_bound_port:
  assumes "0 \<le> n" and "n \<le> 65535"
  shows "uint (ucast (word_of_int n :: 32 word) :: 16 word) = n"
proof -
  have "n mod 65536 = n" "n mod 4294967296 = n"
    using assms by simp_all
  then show ?thesis
    by (simp add: unsigned_ucast_eq unsigned_of_int take_bit_eq_mod)
qed

lemma proxy_new_result:
  assumes "c_string (fw_host cfg) 0 = Inr host"
  shows "proxy_new a (port cfg) (fw_host cfg) (fw_port cfg) w =
    Inr (if sockets_ok a \<and> getaddrinfo a host (port_text (unat (fw_port cfg))) = 0
         then (Inr (the_proxy a cfg host), open_fd (socket_rc a) w)
         else (Inl STATUS_ERR, if sockets_ok a then open_fd (socket_rc a) w else w))"
  using assms by (simp add: proxy_new_def sockets_ok_def init_in_socket_def init_out_socket_def the_proxy_def)

lemma main_start_result:
  assumes "main_options (parse_profile a) argv init_config = Inr (Go cfg)" and "c_string (fw_host cfg) 0 = Inr host"
  shows "main_start a argv F =
    Inr (if threads_rc a \<noteq> 0 \<or> \<not> sigterm_ok a \<or> \<not> sigint_ok a then Exit 1
         else if sockets_ok a \<and> getaddrinfo a host (port_text (unat (fw_port cfg))) = 0
         then Go (cfg, the_proxy a cfg host, start_world (insert (socket_rc a) F))
         else Exit STATUS_ERR)"
  by (simp add: main_start_def assms(1) proxy_new_result [OF assms(2)]) (simp add: start_world_def open_fd_def)

lemma start_world_inv: "world_inv (start_world F)"
  using reachable_inv [OF serially_reachable.init] by (simp add: sys_inv_def start_world_def)

text \<open>C27: How \<open>main\<close> leaves before it serves: exit code 1 when libevent's threads or a signal handler cannot be set
  up, -1 when a call for the listening socket or the resolver fails, in any state of the options; otherwise
  it goes on with the configured port bound and the target resolved.\<close>

theorem main_start_exits:
  assumes "main_options (parse_profile a) argv init_config = Inr (Go cfg)" and "c_string (fw_host cfg) 0 = Inr host"
  shows "main_start a argv F =
    Inr (if threads_rc a \<noteq> 0 \<or> \<not> sigterm_ok a \<or> \<not> sigint_ok a then Exit 1
         else if sockets_ok a \<and> getaddrinfo a host (port_text (unat (fw_port cfg))) = 0
         then Go (cfg, the_proxy a cfg host, start_world (insert (socket_rc a) F))
         else Exit (-1))"
  by (simp add: main_start_result [OF assms] STATUS_ERR_def)

text \<open>A system without files and without a resolver.\<close>

definition offline_answers :: answers where
  "offline_answers = \<lparr>files = Map.empty, got_stream = True, first_reply = sample_reply, replies = (\<lambda>_. sample_reply),
     got_row = (\<lambda>_ _. True), got_args = (\<lambda>_ _. True), threads_rc = 0, sigterm_ok = True, sigint_ok = True, socket_rc = 3,
     setsockopt_rc = 0, bind_rc = 0, listen_rc = 0, getaddrinfo = (\<lambda>_ _. -2)\<rparr>"

lemma main_start_exits_witness:
  "main_start offline_answers [c_arg ''mproxy''] {} = Inr (Exit (-1) :: (config \<times> proxy \<times> (unit, unit) world) outcome)"
proof -
  have name: "NUL \<notin> set ''mproxy''" "option_of ''mproxy'' = NoOpt"
    and len: "length (fw_host init_config) = 65"
    by code_simp+
  have "main_options (parse_profile offline_answers) (map c_arg [''mproxy'']) init_config = Inr (Go init_config)"
    using main_options_printed [of "[]" init_config] match_word [OF name(2,1)] len
    by (simp del: match_option.simps)
  then have o: "main_options (parse_profile offline_answers) [c_arg ''mproxy''] init_config = Inr (Go init_config)"
    by simp
  have h: "c_string (fw_host init_config) 0 = Inr ''127.0.0.1''"
    by code_simp
  show ?thesis
    by (subst main_start_exits [OF o h]) (simp add: offline_answers_def)
qed

end
