(* ===== verification/ClassIds.thy ===== *)
theory ClassIds
  imports ObjectIds
begin

text \<open>
  The object ids of the classes that no id getter gives: the rest of the C enumeration
  \<open>of_object_id_e\<close> of \<^verbatim>\<open>inc/loci/loci_base.h\<close>.
\<close>

abbreviation (input) "OF_ACTION \<equiv> (201 :: int)"
abbreviation (input) "OF_ACTION_BSN \<equiv> (202 :: int)"
abbreviation (input) "OF_ACTION_BSN_CHECKSUM \<equiv> (203 :: int)"
abbreviation (input) "OF_ACTION_BSN_GENTABLE \<equiv> (204 :: int)"
abbreviation (input) "OF_ACTION_BSN_MIRROR \<equiv> (205 :: int)"
abbreviation (input) "OF_ACTION_BSN_SET_TUNNEL_DST \<equiv> (206 :: int)"
abbreviation (input) "OF_ACTION_COPY_TTL_IN \<equiv> (207 :: int)"
abbreviation (input) "OF_ACTION_COPY_TTL_OUT \<equiv> (208 :: int)"
abbreviation (input) "OF_ACTION_DEC_MPLS_TTL \<equiv> (209 :: int)"
abbreviation (input) "OF_ACTION_DEC_NW_TTL \<equiv> (210 :: int)"
abbreviation (input) "OF_ACTION_ENQUEUE \<equiv> (211 :: int)"
abbreviation (input) "OF_ACTION_EXPERIMENTER \<equiv> (212 :: int)"
abbreviation (input) "OF_ACTION_GROUP \<equiv> (213 :: int)"
abbreviation (input) "OF_ACTION_ID \<equiv> (214 :: int)"
abbreviation (input) "OF_ACTION_ID_BSN \<equiv> (215 :: int)"
abbreviation (input) "OF_ACTION_ID_BSN_CHECKSUM \<equiv> (216 :: int)"
abbreviation (input) "OF_ACTION_ID_BSN_GENTABLE \<equiv> (217 :: int)"
abbreviation (input) "OF_ACTION_ID_BSN_MIRROR \<equiv> (218 :: int)"
abbreviation (input) "OF_ACTION_ID_BSN_SET_TUNNEL_DST \<equiv> (219 :: int)"
abbreviation (input) "OF_ACTION_ID_COPY_TTL_IN \<equiv> (220 :: int)"
abbreviation (input) "OF_ACTION_ID_COPY_TTL_OUT \<equiv> (221 :: int)"
abbreviation (input) "OF_ACTION_ID_DEC_MPLS_TTL \<equiv> (222 :: int)"
abbreviation (input) "OF_ACTION_ID_DEC_NW_TTL \<equiv> (223 :: int)"
abbreviation (input) "OF_ACTION_ID_EXPERIMENTER \<equiv> (224 :: int)"
abbreviation (input) "OF_ACTION_ID_GROUP \<equiv> (225 :: int)"
abbreviation (input) "OF_ACTION_ID_NICIRA \<equiv> (226 :: int)"
abbreviation (input) "OF_ACTION_ID_NICIRA_DEC_TTL \<equiv> (227 :: int)"
abbreviation (input) "OF_ACTION_ID_OUTPUT \<equiv> (228 :: int)"
abbreviation (input) "OF_ACTION_ID_POP_MPLS \<equiv> (229 :: int)"
abbreviation (input) "OF_ACTION_ID_POP_PBB \<equiv> (230 :: int)"
abbreviation (input) "OF_ACTION_ID_POP_VLAN \<equiv> (231 :: int)"
abbreviation (input) "OF_ACTION_ID_PUSH_MPLS \<equiv> (232 :: int)"
abbreviation (input) "OF_ACTION_ID_PUSH_PBB \<equiv> (233 :: int)"
abbreviation (input) "OF_ACTION_ID_PUSH_VLAN \<equiv> (234 :: int)"
abbreviation (input) "OF_ACTION_ID_SET_FIELD \<equiv> (235 :: int)"
abbreviation (input) "OF_ACTION_ID_SET_MPLS_TTL \<equiv> (236 :: int)"
abbreviation (input) "OF_ACTION_ID_SET_NW_TTL \<equiv> (237 :: int)"
abbreviation (input) "OF_ACTION_ID_SET_QUEUE \<equiv> (238 :: int)"
abbreviation (input) "OF_ACTION_NICIRA \<equiv> (239 :: int)"
abbreviation (input) "OF_ACTION_NICIRA_DEC_TTL \<equiv> (240 :: int)"
abbreviation (input) "OF_ACTION_OUTPUT \<equiv> (241 :: int)"
abbreviation (input) "OF_ACTION_POP_MPLS \<equiv> (242 :: int)"
abbreviation (input) "OF_ACTION_POP_PBB \<equiv> (243 :: int)"
abbreviation (input) "OF_ACTION_POP_VLAN \<equiv> (244 :: int)"
abbreviation (input) "OF_ACTION_PUSH_MPLS \<equiv> (245 :: int)"
abbreviation (input) "OF_ACTION_PUSH_PBB \<equiv> (246 :: int)"
abbreviation (input) "OF_ACTION_PUSH_VLAN \<equiv> (247 :: int)"
abbreviation (input) "OF_ACTION_SET_DL_DST \<equiv> (248 :: int)"
abbreviation (input) "OF_ACTION_SET_DL_SRC \<equiv> (249 :: int)"
abbreviation (input) "OF_ACTION_SET_FIELD \<equiv> (250 :: int)"
abbreviation (input) "OF_ACTION_SET_MPLS_LABEL \<equiv> (251 :: int)"
abbreviation (input) "OF_ACTION_SET_MPLS_TC \<equiv> (252 :: int)"
abbreviation (input) "OF_ACTION_SET_MPLS_TTL \<equiv> (253 :: int)"
abbreviation (input) "OF_ACTION_SET_NW_DST \<equiv> (254 :: int)"
abbreviation (input) "OF_ACTION_SET_NW_ECN \<equiv> (255 :: int)"
abbreviation (input) "OF_ACTION_SET_NW_SRC \<equiv> (256 :: int)"
abbreviation (input) "OF_ACTION_SET_NW_TOS \<equiv> (257 :: int)"
abbreviation (input) "OF_ACTION_SET_NW_TTL \<equiv> (258 :: int)"
abbreviation (input) "OF_ACTION_SET_QUEUE \<equiv> (259 :: int)"
abbreviation (input) "OF_ACTION_SET_TP_DST \<equiv> (260 :: int)"
abbreviation (input) "OF_ACTION_SET_TP_SRC \<equiv> (261 :: int)"
abbreviation (input) "OF_ACTION_SET_VLAN_PCP \<equiv> (262 :: int)"
abbreviation (input) "OF_ACTION_SET_VLAN_VID \<equiv> (263 :: int)"
abbreviation (input) "OF_ACTION_STRIP_VLAN \<equiv> (264 :: int)"
abbreviation (input) "OF_ASYNC_CONFIG_PROP \<equiv> (265 :: int)"
abbreviation (input) "OF_ASYNC_CONFIG_PROP_EXPERIMENTER_MASTER \<equiv> (266 :: int)"
abbreviation (input) "OF_ASYNC_CONFIG_PROP_EXPERIMENTER_SLAVE \<equiv> (267 :: int)"
abbreviation (input) "OF_ASYNC_CONFIG_PROP_FLOW_REMOVED_MASTER \<equiv> (268 :: int)"
abbreviation (input) "OF_ASYNC_CONFIG_PROP_FLOW_REMOVED_SLAVE \<equiv> (269 :: int)"
abbreviation (input) "OF_ASYNC_CONFIG_PROP_PACKET_IN_MASTER \<equiv> (270 :: int)"
abbreviation (input) "OF_ASYNC_CONFIG_PROP_PACKET_IN_SLAVE \<equiv> (271 :: int)"
abbreviation (input) "OF_ASYNC_CONFIG_PROP_PORT_STATUS_MASTER \<equiv> (272 :: int)"
abbreviation (input) "OF_ASYNC_CONFIG_PROP_PORT_STATUS_SLAVE \<equiv> (273 :: int)"
abbreviation (input) "OF_ASYNC_CONFIG_PROP_REQUESTFORWARD_MASTER \<equiv> (274 :: int)"
abbreviation (input) "OF_ASYNC_CONFIG_PROP_REQUESTFORWARD_SLAVE \<equiv> (275 :: int)"
abbreviation (input) "OF_ASYNC_CONFIG_PROP_ROLE_STATUS_MASTER \<equiv> (276 :: int)"
abbreviation (input) "OF_ASYNC_CONFIG_PROP_ROLE_STATUS_SLAVE \<equiv> (277 :: int)"
abbreviation (input) "OF_ASYNC_CONFIG_PROP_TABLE_STATUS_MASTER \<equiv> (278 :: int)"
abbreviation (input) "OF_ASYNC_CONFIG_PROP_TABLE_STATUS_SLAVE \<equiv> (279 :: int)"
abbreviation (input) "OF_BSN_CONTROLLER_CONNECTION \<equiv> (280 :: int)"
abbreviation (input) "OF_BSN_DEBUG_COUNTER_DESC_STATS_ENTRY \<equiv> (281 :: int)"
abbreviation (input) "OF_BSN_DEBUG_COUNTER_STATS_ENTRY \<equiv> (282 :: int)"
abbreviation (input) "OF_BSN_FLOW_CHECKSUM_BUCKET_STATS_ENTRY \<equiv> (283 :: int)"
abbreviation (input) "OF_BSN_GENERIC_STATS_ENTRY \<equiv> (284 :: int)"
abbreviation (input) "OF_BSN_GENTABLE_BUCKET_STATS_ENTRY \<equiv> (285 :: int)"
abbreviation (input) "OF_BSN_GENTABLE_DESC_STATS_ENTRY \<equiv> (286 :: int)"
abbreviation (input) "OF_BSN_GENTABLE_ENTRY_DESC_STATS_ENTRY \<equiv> (287 :: int)"
abbreviation (input) "OF_BSN_GENTABLE_ENTRY_STATS_ENTRY \<equiv> (288 :: int)"
abbreviation (input) "OF_BSN_GENTABLE_STATS_ENTRY \<equiv> (289 :: int)"
abbreviation (input) "OF_BSN_INTERFACE \<equiv> (290 :: int)"
abbreviation (input) "OF_BSN_LACP_STATS_ENTRY \<equiv> (291 :: int)"
abbreviation (input) "OF_BSN_PORT_COUNTER_STATS_ENTRY \<equiv> (292 :: int)"
abbreviation (input) "OF_BSN_SWITCH_PIPELINE_STATS_ENTRY \<equiv> (293 :: int)"
abbreviation (input) "OF_BSN_TABLE_CHECKSUM_STATS_ENTRY \<equiv> (294 :: int)"
abbreviation (input) "OF_BSN_TLV \<equiv> (295 :: int)"
abbreviation (input) "OF_BSN_TLV_ACTOR_KEY \<equiv> (296 :: int)"
abbreviation (input) "OF_BSN_TLV_ACTOR_PORT_NUM \<equiv> (297 :: int)"
abbreviation (input) "OF_BSN_TLV_ACTOR_PORT_PRIORITY \<equiv> (298 :: int)"
abbreviation (input) "OF_BSN_TLV_ACTOR_STATE \<equiv> (299 :: int)"
abbreviation (input) "OF_BSN_TLV_ACTOR_SYSTEM_MAC \<equiv> (300 :: int)"
abbreviation (input) "OF_BSN_TLV_ACTOR_SYSTEM_PRIORITY \<equiv> (301 :: int)"
abbreviation (input) "OF_BSN_TLV_BROADCAST_QUERY_TIMEOUT \<equiv> (302 :: int)"
abbreviation (input) "OF_BSN_TLV_BUCKET \<equiv> (303 :: int)"
abbreviation (input) "OF_BSN_TLV_CIRCUIT_ID \<equiv> (304 :: int)"
abbreviation (input) "OF_BSN_TLV_CONVERGENCE_STATUS \<equiv> (305 :: int)"
abbreviation (input) "OF_BSN_TLV_CRC_ENABLED \<equiv> (306 :: int)"
abbreviation (input) "OF_BSN_TLV_DATA \<equiv> (307 :: int)"
abbreviation (input) "OF_BSN_TLV_ETH_DST \<equiv> (308 :: int)"
abbreviation (input) "OF_BSN_TLV_ETH_SRC \<equiv> (309 :: int)"
abbreviation (input) "OF_BSN_TLV_EXTERNAL_GATEWAY_IP \<equiv> (310 :: int)"
abbreviation (input) "OF_BSN_TLV_EXTERNAL_GATEWAY_MAC \<equiv> (311 :: int)"
abbreviation (input) "OF_BSN_TLV_EXTERNAL_IP \<equiv> (312 :: int)"
abbreviation (input) "OF_BSN_TLV_EXTERNAL_MAC \<equiv> (313 :: int)"
abbreviation (input) "OF_BSN_TLV_EXTERNAL_NETMASK \<equiv> (314 :: int)"
abbreviation (input) "OF_BSN_TLV_HEADER_SIZE \<equiv> (315 :: int)"
abbreviation (input) "OF_BSN_TLV_ICMP_CODE \<equiv> (316 :: int)"
abbreviation (input) "OF_BSN_TLV_ICMP_ID \<equiv> (317 :: int)"
abbreviation (input) "OF_BSN_TLV_ICMP_TYPE \<equiv> (318 :: int)"
abbreviation (input) "OF_BSN_TLV_IDLE_NOTIFICATION \<equiv> (319 :: int)"
abbreviation (input) "OF_BSN_TLV_IDLE_TIME \<equiv> (320 :: int)"
abbreviation (input) "OF_BSN_TLV_IDLE_TIMEOUT \<equiv> (321 :: int)"
abbreviation (input) "OF_BSN_TLV_INTERNAL_GATEWAY_MAC \<equiv> (322 :: int)"
abbreviation (input) "OF_BSN_TLV_INTERNAL_MAC \<equiv> (323 :: int)"
abbreviation (input) "OF_BSN_TLV_INTERVAL \<equiv> (324 :: int)"
abbreviation (input) "OF_BSN_TLV_IP_PROTO \<equiv> (325 :: int)"
abbreviation (input) "OF_BSN_TLV_IPV4 \<equiv> (326 :: int)"
abbreviation (input) "OF_BSN_TLV_IPV4_DST \<equiv> (327 :: int)"
abbreviation (input) "OF_BSN_TLV_IPV4_NETMASK \<equiv> (328 :: int)"
abbreviation (input) "OF_BSN_TLV_IPV4_SRC \<equiv> (329 :: int)"
abbreviation (input) "OF_BSN_TLV_MAC \<equiv> (330 :: int)"
abbreviation (input) "OF_BSN_TLV_MAC_MASK \<equiv> (331 :: int)"
abbreviation (input) "OF_BSN_TLV_MISS_PACKETS \<equiv> (332 :: int)"
abbreviation (input) "OF_BSN_TLV_MPLS_CONTROL_WORD \<equiv> (333 :: int)"
abbreviation (input) "OF_BSN_TLV_MPLS_LABEL \<equiv> (334 :: int)"
abbreviation (input) "OF_BSN_TLV_MPLS_SEQUENCED \<equiv> (335 :: int)"
abbreviation (input) "OF_BSN_TLV_NAME \<equiv> (336 :: int)"
abbreviation (input) "OF_BSN_TLV_PARTNER_KEY \<equiv> (337 :: int)"
abbreviation (input) "OF_BSN_TLV_PARTNER_PORT_NUM \<equiv> (338 :: int)"
abbreviation (input) "OF_BSN_TLV_PARTNER_PORT_PRIORITY \<equiv> (339 :: int)"
abbreviation (input) "OF_BSN_TLV_PARTNER_STATE \<equiv> (340 :: int)"
abbreviation (input) "OF_BSN_TLV_PARTNER_SYSTEM_MAC \<equiv> (341 :: int)"
abbreviation (input) "OF_BSN_TLV_PARTNER_SYSTEM_PRIORITY \<equiv> (342 :: int)"
abbreviation (input) "OF_BSN_TLV_PORT \<equiv> (343 :: int)"
abbreviation (input) "OF_BSN_TLV_PRIORITY \<equiv> (344 :: int)"
abbreviation (input) "OF_BSN_TLV_QUEUE_ID \<equiv> (345 :: int)"
abbreviation (input) "OF_BSN_TLV_QUEUE_WEIGHT \<equiv> (346 :: int)"
abbreviation (input) "OF_BSN_TLV_REFERENCE \<equiv> (347 :: int)"
abbreviation (input) "OF_BSN_TLV_REPLY_PACKETS \<equiv> (348 :: int)"
abbreviation (input) "OF_BSN_TLV_REQUEST_PACKETS \<equiv> (349 :: int)"
abbreviation (input) "OF_BSN_TLV_RX_BYTES \<equiv> (350 :: int)"
abbreviation (input) "OF_BSN_TLV_RX_PACKETS \<equiv> (351 :: int)"
abbreviation (input) "OF_BSN_TLV_SAMPLING_RATE \<equiv> (352 :: int)"
abbreviation (input) "OF_BSN_TLV_SET_LOOPBACK_MODE \<equiv> (353 :: int)"
abbreviation (input) "OF_BSN_TLV_STRIP_MPLS_L2_ON_INGRESS \<equiv> (354 :: int)"
abbreviation (input) "OF_BSN_TLV_STRIP_MPLS_L3_ON_INGRESS \<equiv> (355 :: int)"
abbreviation (input) "OF_BSN_TLV_STRIP_VLAN_ON_EGRESS \<equiv> (356 :: int)"
abbreviation (input) "OF_BSN_TLV_SUB_AGENT_ID \<equiv> (357 :: int)"
abbreviation (input) "OF_BSN_TLV_TCP_DST \<equiv> (358 :: int)"
abbreviation (input) "OF_BSN_TLV_TCP_SRC \<equiv> (359 :: int)"
abbreviation (input) "OF_BSN_TLV_TX_BYTES \<equiv> (360 :: int)"
abbreviation (input) "OF_BSN_TLV_TX_PACKETS \<equiv> (361 :: int)"
abbreviation (input) "OF_BSN_TLV_UDF_ANCHOR \<equiv> (362 :: int)"
abbreviation (input) "OF_BSN_TLV_UDF_ID \<equiv> (363 :: int)"
abbreviation (input) "OF_BSN_TLV_UDF_LENGTH \<equiv> (364 :: int)"
abbreviation (input) "OF_BSN_TLV_UDF_OFFSET \<equiv> (365 :: int)"
abbreviation (input) "OF_BSN_TLV_UDP_DST \<equiv> (366 :: int)"
abbreviation (input) "OF_BSN_TLV_UDP_SRC \<equiv> (367 :: int)"
abbreviation (input) "OF_BSN_TLV_UNICAST_QUERY_TIMEOUT \<equiv> (368 :: int)"
abbreviation (input) "OF_BSN_TLV_VLAN_PCP \<equiv> (369 :: int)"
abbreviation (input) "OF_BSN_TLV_VLAN_VID \<equiv> (370 :: int)"
abbreviation (input) "OF_BSN_TLV_VRF \<equiv> (371 :: int)"
abbreviation (input) "OF_BSN_VLAN_COUNTER_STATS_ENTRY \<equiv> (372 :: int)"
abbreviation (input) "OF_BSN_VPORT \<equiv> (373 :: int)"
abbreviation (input) "OF_BSN_VPORT_L2GRE \<equiv> (374 :: int)"
abbreviation (input) "OF_BSN_VPORT_Q_IN_Q \<equiv> (375 :: int)"
abbreviation (input) "OF_BSN_VRF_COUNTER_STATS_ENTRY \<equiv> (376 :: int)"
abbreviation (input) "OF_BUCKET \<equiv> (377 :: int)"
abbreviation (input) "OF_BUCKET_COUNTER \<equiv> (378 :: int)"
abbreviation (input) "OF_BUNDLE_PROP \<equiv> (379 :: int)"
abbreviation (input) "OF_BUNDLE_PROP_EXPERIMENTER \<equiv> (380 :: int)"
abbreviation (input) "OF_FLOW_STATS_ENTRY \<equiv> (381 :: int)"
abbreviation (input) "OF_GROUP_DESC_STATS_ENTRY \<equiv> (382 :: int)"
abbreviation (input) "OF_GROUP_STATS_ENTRY \<equiv> (383 :: int)"
abbreviation (input) "OF_HELLO_ELEM \<equiv> (384 :: int)"
abbreviation (input) "OF_HELLO_ELEM_VERSIONBITMAP \<equiv> (385 :: int)"
abbreviation (input) "OF_INSTRUCTION \<equiv> (386 :: int)"
abbreviation (input) "OF_INSTRUCTION_APPLY_ACTIONS \<equiv> (387 :: int)"
abbreviation (input) "OF_INSTRUCTION_BSN \<equiv> (388 :: int)"
abbreviation (input) "OF_INSTRUCTION_BSN_ARP_OFFLOAD \<equiv> (389 :: int)"
abbreviation (input) "OF_INSTRUCTION_BSN_AUTO_NEGOTIATION \<equiv> (390 :: int)"
abbreviation (input) "OF_INSTRUCTION_BSN_DENY \<equiv> (391 :: int)"
abbreviation (input) "OF_INSTRUCTION_BSN_DHCP_OFFLOAD \<equiv> (392 :: int)"
abbreviation (input) "OF_INSTRUCTION_BSN_DISABLE_L3 \<equiv> (393 :: int)"
abbreviation (input) "OF_INSTRUCTION_BSN_DISABLE_SPLIT_HORIZON_CHECK \<equiv> (394 :: int)"
abbreviation (input) "OF_INSTRUCTION_BSN_DISABLE_SRC_MAC_CHECK \<equiv> (395 :: int)"
abbreviation (input) "OF_INSTRUCTION_BSN_DISABLE_VLAN_COUNTERS \<equiv> (396 :: int)"
abbreviation (input) "OF_INSTRUCTION_BSN_INTERNAL_PRIORITY \<equiv> (397 :: int)"
abbreviation (input) "OF_INSTRUCTION_BSN_PACKET_OF_DEATH \<equiv> (398 :: int)"
abbreviation (input) "OF_INSTRUCTION_BSN_PERMIT \<equiv> (399 :: int)"
abbreviation (input) "OF_INSTRUCTION_BSN_PRIORITIZE_PDUS \<equiv> (400 :: int)"
abbreviation (input) "OF_INSTRUCTION_BSN_REQUIRE_VLAN_XLATE \<equiv> (401 :: int)"
abbreviation (input) "OF_INSTRUCTION_BSN_SPAN_DESTINATION \<equiv> (402 :: int)"
abbreviation (input) "OF_INSTRUCTION_CLEAR_ACTIONS \<equiv> (403 :: int)"
abbreviation (input) "OF_INSTRUCTION_EXPERIMENTER \<equiv> (404 :: int)"
abbreviation (input) "OF_INSTRUCTION_GOTO_TABLE \<equiv> (405 :: int)"
abbreviation (input) "OF_INSTRUCTION_ID \<equiv> (406 :: int)"
abbreviation (input) "OF_INSTRUCTION_ID_APPLY_ACTIONS \<equiv> (407 :: int)"
abbreviation (input) "OF_INSTRUCTION_ID_BSN \<equiv> (408 :: int)"
abbreviation (input) "OF_INSTRUCTION_ID_BSN_ARP_OFFLOAD \<equiv> (409 :: int)"
abbreviation (input) "OF_INSTRUCTION_ID_BSN_AUTO_NEGOTIATION \<equiv> (410 :: int)"
abbreviation (input) "OF_INSTRUCTION_ID_BSN_DENY \<equiv> (411 :: int)"
abbreviation (input) "OF_INSTRUCTION_ID_BSN_DHCP_OFFLOAD \<equiv> (412 :: int)"
abbreviation (input) "OF_INSTRUCTION_ID_BSN_DISABLE_L3 \<equiv> (413 :: int)"
abbreviation (input) "OF_INSTRUCTION_ID_BSN_DISABLE_SPLIT_HORIZON_CHECK \<equiv> (414 :: int)"
abbreviation (input) "OF_INSTRUCTION_ID_BSN_DISABLE_SRC_MAC_CHECK \<equiv> (415 :: int)"
abbreviation (input) "OF_INSTRUCTION_ID_BSN_DISABLE_VLAN_COUNTERS \<equiv> (416 :: int)"
abbreviation (input) "OF_INSTRUCTION_ID_BSN_INTERNAL_PRIORITY \<equiv> (417 :: int)"
abbreviation (input) "OF_INSTRUCTION_ID_BSN_PACKET_OF_DEATH \<equiv> (418 :: int)"
abbreviation (input) "OF_INSTRUCTION_ID_BSN_PERMIT \<equiv> (419 :: int)"
abbreviation (input) "OF_INSTRUCTION_ID_BSN_PRIORITIZE_PDUS \<equiv> (420 :: int)"
abbreviation (input) "OF_INSTRUCTION_ID_BSN_REQUIRE_VLAN_XLATE \<equiv> (421 :: int)"
abbreviation (input) "OF_INSTRUCTION_ID_BSN_SPAN_DESTINATION \<equiv> (422 :: int)"
abbreviation (input) "OF_INSTRUCTION_ID_CLEAR_ACTIONS \<equiv> (423 :: int)"
abbreviation (input) "OF_INSTRUCTION_ID_EXPERIMENTER \<equiv> (424 :: int)"
abbreviation (input) "OF_INSTRUCTION_ID_GOTO_TABLE \<equiv> (425 :: int)"
abbreviation (input) "OF_INSTRUCTION_ID_METER \<equiv> (426 :: int)"
abbreviation (input) "OF_INSTRUCTION_ID_WRITE_ACTIONS \<equiv> (427 :: int)"
abbreviation (input) "OF_INSTRUCTION_ID_WRITE_METADATA \<equiv> (428 :: int)"
abbreviation (input) "OF_INSTRUCTION_METER \<equiv> (429 :: int)"
abbreviation (input) "OF_INSTRUCTION_WRITE_ACTIONS \<equiv> (430 :: int)"
abbreviation (input) "OF_INSTRUCTION_WRITE_METADATA \<equiv> (431 :: int)"
abbreviation (input) "OF_MATCH_V1 \<equiv> (432 :: int)"
abbreviation (input) "OF_MATCH_V2 \<equiv> (433 :: int)"
abbreviation (input) "OF_MATCH_V3 \<equiv> (434 :: int)"
abbreviation (input) "OF_METER_BAND \<equiv> (435 :: int)"
abbreviation (input) "OF_METER_BAND_DROP \<equiv> (436 :: int)"
abbreviation (input) "OF_METER_BAND_DSCP_REMARK \<equiv> (437 :: int)"
abbreviation (input) "OF_METER_BAND_EXPERIMENTER \<equiv> (438 :: int)"
abbreviation (input) "OF_METER_BAND_STATS \<equiv> (439 :: int)"
abbreviation (input) "OF_METER_CONFIG \<equiv> (440 :: int)"
abbreviation (input) "OF_METER_FEATURES \<equiv> (441 :: int)"
abbreviation (input) "OF_METER_STATS \<equiv> (442 :: int)"
abbreviation (input) "OF_OXM \<equiv> (443 :: int)"
abbreviation (input) "OF_OXM_ARP_OP \<equiv> (444 :: int)"
abbreviation (input) "OF_OXM_ARP_OP_MASKED \<equiv> (445 :: int)"
abbreviation (input) "OF_OXM_ARP_SHA \<equiv> (446 :: int)"
abbreviation (input) "OF_OXM_ARP_SHA_MASKED \<equiv> (447 :: int)"
abbreviation (input) "OF_OXM_ARP_SPA \<equiv> (448 :: int)"
abbreviation (input) "OF_OXM_ARP_SPA_MASKED \<equiv> (449 :: int)"
abbreviation (input) "OF_OXM_ARP_THA \<equiv> (450 :: int)"
abbreviation (input) "OF_OXM_ARP_THA_MASKED \<equiv> (451 :: int)"
abbreviation (input) "OF_OXM_ARP_TPA \<equiv> (452 :: int)"
abbreviation (input) "OF_OXM_ARP_TPA_MASKED \<equiv> (453 :: int)"
abbreviation (input) "OF_OXM_BSN_EGR_PORT_GROUP_ID \<equiv> (454 :: int)"
abbreviation (input) "OF_OXM_BSN_EGR_PORT_GROUP_ID_MASKED \<equiv> (455 :: int)"
abbreviation (input) "OF_OXM_BSN_GLOBAL_VRF_ALLOWED \<equiv> (456 :: int)"
abbreviation (input) "OF_OXM_BSN_GLOBAL_VRF_ALLOWED_MASKED \<equiv> (457 :: int)"
abbreviation (input) "OF_OXM_BSN_IN_PORTS_128 \<equiv> (458 :: int)"
abbreviation (input) "OF_OXM_BSN_IN_PORTS_128_MASKED \<equiv> (459 :: int)"
abbreviation (input) "OF_OXM_BSN_IN_PORTS_512 \<equiv> (460 :: int)"
abbreviation (input) "OF_OXM_BSN_IN_PORTS_512_MASKED \<equiv> (461 :: int)"
abbreviation (input) "OF_OXM_BSN_INGRESS_PORT_GROUP_ID \<equiv> (462 :: int)"
abbreviation (input) "OF_OXM_BSN_INGRESS_PORT_GROUP_ID_MASKED \<equiv> (463 :: int)"
abbreviation (input) "OF_OXM_BSN_L2_CACHE_HIT \<equiv> (464 :: int)"
abbreviation (input) "OF_OXM_BSN_L2_CACHE_HIT_MASKED \<equiv> (465 :: int)"
abbreviation (input) "OF_OXM_BSN_L3_DST_CLASS_ID \<equiv> (466 :: int)"
abbreviation (input) "OF_OXM_BSN_L3_DST_CLASS_ID_MASKED \<equiv> (467 :: int)"
abbreviation (input) "OF_OXM_BSN_L3_INTERFACE_CLASS_ID \<equiv> (468 :: int)"
abbreviation (input) "OF_OXM_BSN_L3_INTERFACE_CLASS_ID_MASKED \<equiv> (469 :: int)"
abbreviation (input) "OF_OXM_BSN_L3_SRC_CLASS_ID \<equiv> (470 :: int)"
abbreviation (input) "OF_OXM_BSN_L3_SRC_CLASS_ID_MASKED \<equiv> (471 :: int)"
abbreviation (input) "OF_OXM_BSN_LAG_ID \<equiv> (472 :: int)"
abbreviation (input) "OF_OXM_BSN_LAG_ID_MASKED \<equiv> (473 :: int)"
abbreviation (input) "OF_OXM_BSN_TCP_FLAGS \<equiv> (474 :: int)"
abbreviation (input) "OF_OXM_BSN_TCP_FLAGS_MASKED \<equiv> (475 :: int)"
abbreviation (input) "OF_OXM_BSN_UDF0 \<equiv> (476 :: int)"
abbreviation (input) "OF_OXM_BSN_UDF0_MASKED \<equiv> (477 :: int)"
abbreviation (input) "OF_OXM_BSN_UDF1 \<equiv> (478 :: int)"
abbreviation (input) "OF_OXM_BSN_UDF1_MASKED \<equiv> (479 :: int)"
abbreviation (input) "OF_OXM_BSN_UDF2 \<equiv> (480 :: int)"
abbreviation (input) "OF_OXM_BSN_UDF2_MASKED \<equiv> (481 :: int)"
abbreviation (input) "OF_OXM_BSN_UDF3 \<equiv> (482 :: int)"
abbreviation (input) "OF_OXM_BSN_UDF3_MASKED \<equiv> (483 :: int)"
abbreviation (input) "OF_OXM_BSN_UDF4 \<equiv> (484 :: int)"
abbreviation (input) "OF_OXM_BSN_UDF4_MASKED \<equiv> (485 :: int)"
abbreviation (input) "OF_OXM_BSN_UDF5 \<equiv> (486 :: int)"
abbreviation (input) "OF_OXM_BSN_UDF5_MASKED \<equiv> (487 :: int)"
abbreviation (input) "OF_OXM_BSN_UDF6 \<equiv> (488 :: int)"
abbreviation (input) "OF_OXM_BSN_UDF6_MASKED \<equiv> (489 :: int)"
abbreviation (input) "OF_OXM_BSN_UDF7 \<equiv> (490 :: int)"
abbreviation (input) "OF_OXM_BSN_UDF7_MASKED \<equiv> (491 :: int)"
abbreviation (input) "OF_OXM_BSN_VLAN_XLATE_PORT_GROUP_ID \<equiv> (492 :: int)"
abbreviation (input) "OF_OXM_BSN_VLAN_XLATE_PORT_GROUP_ID_MASKED \<equiv> (493 :: int)"
abbreviation (input) "OF_OXM_BSN_VRF \<equiv> (494 :: int)"
abbreviation (input) "OF_OXM_BSN_VRF_MASKED \<equiv> (495 :: int)"
abbreviation (input) "OF_OXM_ETH_DST \<equiv> (496 :: int)"
abbreviation (input) "OF_OXM_ETH_DST_MASKED \<equiv> (497 :: int)"
abbreviation (input) "OF_OXM_ETH_SRC \<equiv> (498 :: int)"
abbreviation (input) "OF_OXM_ETH_SRC_MASKED \<equiv> (499 :: int)"
abbreviation (input) "OF_OXM_ETH_TYPE \<equiv> (500 :: int)"
abbreviation (input) "OF_OXM_ETH_TYPE_MASKED \<equiv> (501 :: int)"
abbreviation (input) "OF_OXM_ICMPV4_CODE \<equiv> (502 :: int)"
abbreviation (input) "OF_OXM_ICMPV4_CODE_MASKED \<equiv> (503 :: int)"
abbreviation (input) "OF_OXM_ICMPV4_TYPE \<equiv> (504 :: int)"
abbreviation (input) "OF_OXM_ICMPV4_TYPE_MASKED \<equiv> (505 :: int)"
abbreviation (input) "OF_OXM_ICMPV6_CODE \<equiv> (506 :: int)"
abbreviation (input) "OF_OXM_ICMPV6_CODE_MASKED \<equiv> (507 :: int)"
abbreviation (input) "OF_OXM_ICMPV6_TYPE \<equiv> (508 :: int)"
abbreviation (input) "OF_OXM_ICMPV6_TYPE_MASKED \<equiv> (509 :: int)"
abbreviation (input) "OF_OXM_IN_PHY_PORT \<equiv> (510 :: int)"
abbreviation (input) "OF_OXM_IN_PHY_PORT_MASKED \<equiv> (511 :: int)"
abbreviation (input) "OF_OXM_IN_PORT \<equiv> (512 :: int)"
abbreviation (input) "OF_OXM_IN_PORT_MASKED \<equiv> (513 :: int)"
abbreviation (input) "OF_OXM_IP_DSCP \<equiv> (514 :: int)"
abbreviation (input) "OF_OXM_IP_DSCP_MASKED \<equiv> (515 :: int)"
abbreviation (input) "OF_OXM_IP_ECN \<equiv> (516 :: int)"
abbreviation (input) "OF_OXM_IP_ECN_MASKED \<equiv> (517 :: int)"
abbreviation (input) "OF_OXM_IP_PROTO \<equiv> (518 :: int)"
abbreviation (input) "OF_OXM_IP_PROTO_MASKED \<equiv> (519 :: int)"
abbreviation (input) "OF_OXM_IPV4_DST \<equiv> (520 :: int)"
abbreviation (input) "OF_OXM_IPV4_DST_MASKED \<equiv> (521 :: int)"
abbreviation (input) "OF_OXM_IPV4_SRC \<equiv> (522 :: int)"
abbreviation (input) "OF_OXM_IPV4_SRC_MASKED \<equiv> (523 :: int)"
abbreviation (input) "OF_OXM_IPV6_DST \<equiv> (524 :: int)"
abbreviation (input) "OF_OXM_IPV6_DST_MASKED \<equiv> (525 :: int)"
abbreviation (input) "OF_OXM_IPV6_EXTHDR \<equiv> (526 :: int)"
abbreviation (input) "OF_OXM_IPV6_EXTHDR_MASKED \<equiv> (527 :: int)"
abbreviation (input) "OF_OXM_IPV6_FLABEL \<equiv> (528 :: int)"
abbreviation (input) "OF_OXM_IPV6_FLABEL_MASKED \<equiv> (529 :: int)"
abbreviation (input) "OF_OXM_IPV6_ND_SLL \<equiv> (530 :: int)"
abbreviation (input) "OF_OXM_IPV6_ND_SLL_MASKED \<equiv> (531 :: int)"
abbreviation (input) "OF_OXM_IPV6_ND_TARGET \<equiv> (532 :: int)"
abbreviation (input) "OF_OXM_IPV6_ND_TARGET_MASKED \<equiv> (533 :: int)"
abbreviation (input) "OF_OXM_IPV6_ND_TLL \<equiv> (534 :: int)"
abbreviation (input) "OF_OXM_IPV6_ND_TLL_MASKED \<equiv> (535 :: int)"
abbreviation (input) "OF_OXM_IPV6_SRC \<equiv> (536 :: int)"
abbreviation (input) "OF_OXM_IPV6_SRC_MASKED \<equiv> (537 :: int)"
abbreviation (input) "OF_OXM_METADATA \<equiv> (538 :: int)"
abbreviation (input) "OF_OXM_METADATA_MASKED \<equiv> (539 :: int)"
abbreviation (input) "OF_OXM_MPLS_BOS \<equiv> (540 :: int)"
abbreviation (input) "OF_OXM_MPLS_BOS_MASKED \<equiv> (541 :: int)"
abbreviation (input) "OF_OXM_MPLS_LABEL \<equiv> (542 :: int)"
abbreviation (input) "OF_OXM_MPLS_LABEL_MASKED \<equiv> (543 :: int)"
abbreviation (input) "OF_OXM_MPLS_TC \<equiv> (544 :: int)"
abbreviation (input) "OF_OXM_MPLS_TC_MASKED \<equiv> (545 :: int)"
abbreviation (input) "OF_OXM_PBB_UCA \<equiv> (546 :: int)"
abbreviation (input) "OF_OXM_PBB_UCA_MASKED \<equiv> (547 :: int)"
abbreviation (input) "OF_OXM_SCTP_DST \<equiv> (548 :: int)"
abbreviation (input) "OF_OXM_SCTP_DST_MASKED \<equiv> (549 :: int)"
abbreviation (input) "OF_OXM_SCTP_SRC \<equiv> (550 :: int)"
abbreviation (input) "OF_OXM_SCTP_SRC_MASKED \<equiv> (551 :: int)"
abbreviation (input) "OF_OXM_TCP_DST \<equiv> (552 :: int)"
abbreviation (input) "OF_OXM_TCP_DST_MASKED \<equiv> (553 :: int)"
abbreviation (input) "OF_OXM_TCP_SRC \<equiv> (554 :: int)"
abbreviation (input) "OF_OXM_TCP_SRC_MASKED \<equiv> (555 :: int)"
abbreviation (input) "OF_OXM_TUNNEL_ID \<equiv> (556 :: int)"
abbreviation (input) "OF_OXM_TUNNEL_ID_MASKED \<equiv> (557 :: int)"
abbreviation (input) "OF_OXM_TUNNEL_IPV4_DST \<equiv> (558 :: int)"
abbreviation (input) "OF_OXM_TUNNEL_IPV4_DST_MASKED \<equiv> (559 :: int)"
abbreviation (input) "OF_OXM_TUNNEL_IPV4_SRC \<equiv> (560 :: int)"
abbreviation (input) "OF_OXM_TUNNEL_IPV4_SRC_MASKED \<equiv> (561 :: int)"
abbreviation (input) "OF_OXM_UDP_DST \<equiv> (562 :: int)"
abbreviation (input) "OF_OXM_UDP_DST_MASKED \<equiv> (563 :: int)"
abbreviation (input) "OF_OXM_UDP_SRC \<equiv> (564 :: int)"
abbreviation (input) "OF_OXM_UDP_SRC_MASKED \<equiv> (565 :: int)"
abbreviation (input) "OF_OXM_VLAN_PCP \<equiv> (566 :: int)"
abbreviation (input) "OF_OXM_VLAN_PCP_MASKED \<equiv> (567 :: int)"
abbreviation (input) "OF_OXM_VLAN_VID \<equiv> (568 :: int)"
abbreviation (input) "OF_OXM_VLAN_VID_MASKED \<equiv> (569 :: int)"
abbreviation (input) "OF_PACKET_QUEUE \<equiv> (570 :: int)"
abbreviation (input) "OF_PORT_DESC \<equiv> (571 :: int)"
abbreviation (input) "OF_PORT_DESC_PROP \<equiv> (572 :: int)"
abbreviation (input) "OF_PORT_DESC_PROP_BSN \<equiv> (573 :: int)"
abbreviation (input) "OF_PORT_DESC_PROP_BSN_UPLINK \<equiv> (574 :: int)"
abbreviation (input) "OF_PORT_DESC_PROP_ETHERNET \<equiv> (575 :: int)"
abbreviation (input) "OF_PORT_DESC_PROP_EXPERIMENTER \<equiv> (576 :: int)"
abbreviation (input) "OF_PORT_DESC_PROP_OPTICAL \<equiv> (577 :: int)"
abbreviation (input) "OF_PORT_MOD_PROP \<equiv> (578 :: int)"
abbreviation (input) "OF_PORT_MOD_PROP_ETHERNET \<equiv> (579 :: int)"
abbreviation (input) "OF_PORT_MOD_PROP_EXPERIMENTER \<equiv> (580 :: int)"
abbreviation (input) "OF_PORT_MOD_PROP_OPTICAL \<equiv> (581 :: int)"
abbreviation (input) "OF_PORT_STATS_ENTRY \<equiv> (582 :: int)"
abbreviation (input) "OF_PORT_STATS_PROP \<equiv> (583 :: int)"
abbreviation (input) "OF_PORT_STATS_PROP_ETHERNET \<equiv> (584 :: int)"
abbreviation (input) "OF_PORT_STATS_PROP_EXPERIMENTER \<equiv> (585 :: int)"
abbreviation (input) "OF_PORT_STATS_PROP_OPTICAL \<equiv> (586 :: int)"
abbreviation (input) "OF_QUEUE_DESC \<equiv> (587 :: int)"
abbreviation (input) "OF_QUEUE_DESC_PROP \<equiv> (588 :: int)"
abbreviation (input) "OF_QUEUE_DESC_PROP_EXPERIMENTER \<equiv> (589 :: int)"
abbreviation (input) "OF_QUEUE_DESC_PROP_MAX_RATE \<equiv> (590 :: int)"
abbreviation (input) "OF_QUEUE_DESC_PROP_MIN_RATE \<equiv> (591 :: int)"
abbreviation (input) "OF_QUEUE_PROP \<equiv> (592 :: int)"
abbreviation (input) "OF_QUEUE_PROP_EXPERIMENTER \<equiv> (593 :: int)"
abbreviation (input) "OF_QUEUE_PROP_MAX_RATE \<equiv> (594 :: int)"
abbreviation (input) "OF_QUEUE_PROP_MIN_RATE \<equiv> (595 :: int)"
abbreviation (input) "OF_QUEUE_STATS_ENTRY \<equiv> (596 :: int)"
abbreviation (input) "OF_QUEUE_STATS_PROP \<equiv> (597 :: int)"
abbreviation (input) "OF_QUEUE_STATS_PROP_EXPERIMENTER \<equiv> (598 :: int)"
abbreviation (input) "OF_ROLE_PROP \<equiv> (599 :: int)"
abbreviation (input) "OF_ROLE_PROP_EXPERIMENTER \<equiv> (600 :: int)"
abbreviation (input) "OF_TABLE_DESC \<equiv> (601 :: int)"
abbreviation (input) "OF_TABLE_FEATURE_PROP \<equiv> (602 :: int)"
abbreviation (input) "OF_TABLE_FEATURE_PROP_APPLY_ACTIONS \<equiv> (603 :: int)"
abbreviation (input) "OF_TABLE_FEATURE_PROP_APPLY_ACTIONS_MISS \<equiv> (604 :: int)"
abbreviation (input) "OF_TABLE_FEATURE_PROP_APPLY_SETFIELD \<equiv> (605 :: int)"
abbreviation (input) "OF_TABLE_FEATURE_PROP_APPLY_SETFIELD_MISS \<equiv> (606 :: int)"
abbreviation (input) "OF_TABLE_FEATURE_PROP_EXPERIMENTER \<equiv> (607 :: int)"
abbreviation (input) "OF_TABLE_FEATURE_PROP_EXPERIMENTER_MISS \<equiv> (608 :: int)"
abbreviation (input) "OF_TABLE_FEATURE_PROP_INSTRUCTIONS \<equiv> (609 :: int)"
abbreviation (input) "OF_TABLE_FEATURE_PROP_INSTRUCTIONS_MISS \<equiv> (610 :: int)"
abbreviation (input) "OF_TABLE_FEATURE_PROP_MATCH \<equiv> (611 :: int)"
abbreviation (input) "OF_TABLE_FEATURE_PROP_NEXT_TABLES \<equiv> (612 :: int)"
abbreviation (input) "OF_TABLE_FEATURE_PROP_NEXT_TABLES_MISS \<equiv> (613 :: int)"
abbreviation (input) "OF_TABLE_FEATURE_PROP_TABLE_SYNC_FROM \<equiv> (614 :: int)"
abbreviation (input) "OF_TABLE_FEATURE_PROP_WILDCARDS \<equiv> (615 :: int)"
abbreviation (input) "OF_TABLE_FEATURE_PROP_WRITE_ACTIONS \<equiv> (616 :: int)"
abbreviation (input) "OF_TABLE_FEATURE_PROP_WRITE_ACTIONS_MISS \<equiv> (617 :: int)"
abbreviation (input) "OF_TABLE_FEATURE_PROP_WRITE_SETFIELD \<equiv> (618 :: int)"
abbreviation (input) "OF_TABLE_FEATURE_PROP_WRITE_SETFIELD_MISS \<equiv> (619 :: int)"
abbreviation (input) "OF_TABLE_FEATURES \<equiv> (620 :: int)"
abbreviation (input) "OF_TABLE_MOD_PROP \<equiv> (621 :: int)"
abbreviation (input) "OF_TABLE_MOD_PROP_EVICTION \<equiv> (622 :: int)"
abbreviation (input) "OF_TABLE_MOD_PROP_EXPERIMENTER \<equiv> (623 :: int)"
abbreviation (input) "OF_TABLE_MOD_PROP_VACANCY \<equiv> (624 :: int)"
abbreviation (input) "OF_TABLE_STATS_ENTRY \<equiv> (625 :: int)"
abbreviation (input) "OF_UINT32 \<equiv> (626 :: int)"
abbreviation (input) "OF_UINT64 \<equiv> (627 :: int)"
abbreviation (input) "OF_UINT8 \<equiv> (628 :: int)"
abbreviation (input) "OF_LIST_ACTION \<equiv> (629 :: int)"
abbreviation (input) "OF_LIST_ACTION_ID \<equiv> (630 :: int)"
abbreviation (input) "OF_LIST_ASYNC_CONFIG_PROP \<equiv> (631 :: int)"
abbreviation (input) "OF_LIST_BSN_CONTROLLER_CONNECTION \<equiv> (632 :: int)"
abbreviation (input) "OF_LIST_BSN_DEBUG_COUNTER_DESC_STATS_ENTRY \<equiv> (633 :: int)"
abbreviation (input) "OF_LIST_BSN_DEBUG_COUNTER_STATS_ENTRY \<equiv> (634 :: int)"
abbreviation (input) "OF_LIST_BSN_FLOW_CHECKSUM_BUCKET_STATS_ENTRY \<equiv> (635 :: int)"
abbreviation (input) "OF_LIST_BSN_GENERIC_STATS_ENTRY \<equiv> (636 :: int)"
abbreviation (input) "OF_LIST_BSN_GENTABLE_BUCKET_STATS_ENTRY \<equiv> (637 :: int)"
abbreviation (input) "OF_LIST_BSN_GENTABLE_DESC_STATS_ENTRY \<equiv> (638 :: int)"
abbreviation (input) "OF_LIST_BSN_GENTABLE_ENTRY_DESC_STATS_ENTRY \<equiv> (639 :: int)"
abbreviation (input) "OF_LIST_BSN_GENTABLE_ENTRY_STATS_ENTRY \<equiv> (640 :: int)"
abbreviation (input) "OF_LIST_BSN_GENTABLE_STATS_ENTRY \<equiv> (641 :: int)"
abbreviation (input) "OF_LIST_BSN_INTERFACE \<equiv> (642 :: int)"
abbreviation (input) "OF_LIST_BSN_LACP_STATS_ENTRY \<equiv> (643 :: int)"
abbreviation (input) "OF_LIST_BSN_PORT_COUNTER_STATS_ENTRY \<equiv> (644 :: int)"
abbreviation (input) "OF_LIST_BSN_SWITCH_PIPELINE_STATS_ENTRY \<equiv> (645 :: int)"
abbreviation (input) "OF_LIST_BSN_TABLE_CHECKSUM_STATS_ENTRY \<equiv> (646 :: int)"
abbreviation (input) "OF_LIST_BSN_TLV \<equiv> (647 :: int)"
abbreviation (input) "OF_LIST_BSN_VLAN_COUNTER_STATS_ENTRY \<equiv> (648 :: int)"
abbreviation (input) "OF_LIST_BSN_VRF_COUNTER_STATS_ENTRY \<equiv> (649 :: int)"
abbreviation (input) "OF_LIST_BUCKET \<equiv> (650 :: int)"
abbreviation (input) "OF_LIST_BUCKET_COUNTER \<equiv> (651 :: int)"
abbreviation (input) "OF_LIST_BUNDLE_PROP \<equiv> (652 :: int)"
abbreviation (input) "OF_LIST_FLOW_STATS_ENTRY \<equiv> (653 :: int)"
abbreviation (input) "OF_LIST_GROUP_DESC_STATS_ENTRY \<equiv> (654 :: int)"
abbreviation (input) "OF_LIST_GROUP_STATS_ENTRY \<equiv> (655 :: int)"
abbreviation (input) "OF_LIST_HELLO_ELEM \<equiv> (656 :: int)"
abbreviation (input) "OF_LIST_INSTRUCTION \<equiv> (657 :: int)"
abbreviation (input) "OF_LIST_INSTRUCTION_ID \<equiv> (658 :: int)"
abbreviation (input) "OF_LIST_METER_BAND \<equiv> (659 :: int)"
abbreviation (input) "OF_LIST_METER_BAND_STATS \<equiv> (660 :: int)"
abbreviation (input) "OF_LIST_METER_STATS \<equiv> (661 :: int)"
abbreviation (input) "OF_LIST_OXM \<equiv> (662 :: int)"
abbreviation (input) "OF_LIST_PACKET_QUEUE \<equiv> (663 :: int)"
abbreviation (input) "OF_LIST_PORT_DESC \<equiv> (664 :: int)"
abbreviation (input) "OF_LIST_PORT_DESC_PROP \<equiv> (665 :: int)"
abbreviation (input) "OF_LIST_PORT_MOD_PROP \<equiv> (666 :: int)"
abbreviation (input) "OF_LIST_PORT_STATS_ENTRY \<equiv> (667 :: int)"
abbreviation (input) "OF_LIST_PORT_STATS_PROP \<equiv> (668 :: int)"
abbreviation (input) "OF_LIST_QUEUE_DESC \<equiv> (669 :: int)"
abbreviation (input) "OF_LIST_QUEUE_DESC_PROP \<equiv> (670 :: int)"
abbreviation (input) "OF_LIST_QUEUE_PROP \<equiv> (671 :: int)"
abbreviation (input) "OF_LIST_QUEUE_STATS_ENTRY \<equiv> (672 :: int)"
abbreviation (input) "OF_LIST_QUEUE_STATS_PROP \<equiv> (673 :: int)"
abbreviation (input) "OF_LIST_ROLE_PROP \<equiv> (674 :: int)"
abbreviation (input) "OF_LIST_TABLE_DESC \<equiv> (675 :: int)"
abbreviation (input) "OF_LIST_TABLE_FEATURE_PROP \<equiv> (676 :: int)"
abbreviation (input) "OF_LIST_TABLE_FEATURES \<equiv> (677 :: int)"
abbreviation (input) "OF_LIST_TABLE_MOD_PROP \<equiv> (678 :: int)"
abbreviation (input) "OF_LIST_TABLE_STATS_ENTRY \<equiv> (679 :: int)"
abbreviation (input) "OF_LIST_UINT32 \<equiv> (680 :: int)"
abbreviation (input) "OF_LIST_UINT64 \<equiv> (681 :: int)"
abbreviation (input) "OF_LIST_UINT8 \<equiv> (682 :: int)"

text \<open>The ids a version has no objects of.\<close>

lemma no_fixed_len_rows_1:
  "list_all (\<lambda>(i, n). rd of_object_fixed_len_v1 i = Inr n)
    (map (\<lambda>i. (i, -1)) [0, 3, 4, 5, 6, 8, 9, 10, 14, 21, 22, 23, 24, 25, 26, 27, 28, 29, 30, 31, 32, 33, 34, 35, 36, 37, 38,
     39, 40, 41, 42, 43, 44, 45, 46, 47, 48, 49, 50, 59, 60, 64, 65, 66, 67, 68, 69, 70, 71, 72, 73, 79,
     80, 81, 82, 83, 87, 88, 92, 93, 99, 100, 101, 102, 103, 104, 105, 110, 111, 112, 113, 114, 115, 116,
     123, 135, 141, 142, 143, 144, 145, 146, 147, 148, 149, 150, 151, 155, 156, 157, 158, 159, 160, 161,
     162, 168, 169, 175, 176, 182, 183, 184, 185, 186, 190, 191, 192, 193, 194, 195, 197, 200, 204, 207,
     208, 209, 210, 213, 214, 215, 216, 217, 218, 219, 220, 221, 222, 223, 224, 225, 226, 227, 228, 229,
     230, 231, 232, 233, 234, 235, 236, 237, 238, 242, 243, 244, 245, 246, 247, 250, 251, 252, 253, 255,
     258, 259, 265, 266, 267, 268, 269, 270, 271, 272, 273, 274, 275, 276, 277, 278, 279, 280, 281, 282,
     283, 284, 285, 286, 287, 288, 289, 291, 292, 293, 294, 295, 296, 297, 298, 299, 300, 301, 302, 303,
     304, 305, 306, 307, 308, 309, 310, 311, 312, 313, 314, 315, 316, 317, 318, 319, 320, 321, 322, 323,
     324, 325, 326, 327, 328, 329, 330, 331, 332, 333, 334, 335, 336, 337, 338, 339, 340, 341, 342, 343,
     344, 345, 346, 347, 348, 349, 350, 351, 352, 353, 354, 355, 356, 357, 358, 359, 360, 361, 362, 363,
     364, 365, 366, 367, 368, 369, 370, 371, 372, 376, 377, 378, 379, 380, 382, 383, 384, 385, 386, 387,
     388, 389, 390, 391, 392, 393, 394, 395, 396, 397, 398, 399, 400, 401, 402, 403, 404, 405, 406, 407,
     408, 409, 410, 411, 412, 413, 414, 415, 416, 417, 418, 419, 420, 421, 422, 423, 424, 425, 426, 427,
     428, 429, 430, 431, 433, 434, 435, 436, 437, 438, 439, 440, 441, 442, 443, 444, 445, 446, 447, 448,
     449, 450, 451, 452, 453, 454, 455, 456, 457, 458, 459, 460, 461, 462, 463, 464, 465, 466, 467, 468,
     469, 470, 471, 472, 473, 474, 475, 476, 477, 478, 479, 480, 481, 482, 483, 484, 485, 486, 487, 488,
     489, 490, 491, 492, 493, 494, 495, 496, 497, 498, 499, 500, 501, 502, 503, 504, 505, 506, 507, 508,
     509, 510, 511, 512, 513, 514, 515, 516, 517, 518, 519, 520, 521, 522, 523, 524, 525, 526, 527, 528,
     529, 530, 531, 532, 533, 534, 535, 536, 537, 538, 539, 540, 541, 542, 543, 544, 545, 546, 547, 548,
     549, 550, 551, 552, 553, 554, 555, 556, 557, 558, 559, 560, 561, 562, 563, 564, 565, 566, 567, 568,
     569, 572, 573, 574, 575, 576, 577, 578, 579, 580, 581, 583, 584, 585, 586, 587, 588, 589, 590, 591,
     593, 594, 597, 598, 599, 600, 601, 602, 603, 604, 605, 606, 607, 608, 609, 610, 611, 612, 613, 614,
     615, 616, 617, 618, 619, 620, 621, 622, 623, 624, 626, 627, 628, 630, 631, 632, 633, 634, 635, 636,
     637, 638, 639, 640, 641, 643, 644, 645, 646, 647, 648, 649, 650, 651, 652, 654, 655, 656, 657, 658,
     659, 660, 661, 662, 665, 666, 668, 669, 670, 673, 674, 675, 676, 677, 678, 680, 681, 682])"
  by (rule tab_walk_list) code_simp

lemmas no_fixed_len_1 [simp] = no_fixed_len_rows_1 [unfolded list.map list.pred_inject prod.case simp_thms]

lemma no_fixed_len_rows_2:
  "list_all (\<lambda>(i, n). rd of_object_fixed_len_v2 i = Inr n)
    (map (\<lambda>i. (i, -1)) [0, 3, 4, 5, 6, 10, 14, 21, 22, 23, 24, 25, 26, 27, 28, 29, 30, 31, 32, 33, 34, 35, 36, 37, 38, 39,
     40, 41, 42, 43, 44, 45, 46, 47, 48, 49, 50, 53, 54, 55, 56, 59, 60, 62, 63, 64, 65, 66, 67, 68, 69,
     70, 71, 72, 73, 79, 80, 81, 82, 83, 84, 85, 86, 87, 88, 92, 93, 94, 95, 96, 99, 100, 101, 102, 103,
     104, 105, 110, 111, 112, 113, 114, 115, 116, 123, 135, 145, 146, 155, 156, 157, 158, 159, 160, 161,
     162, 163, 164, 168, 169, 175, 176, 182, 183, 184, 185, 186, 191, 192, 193, 194, 195, 200, 204, 211,
     214, 215, 216, 217, 218, 219, 220, 221, 222, 223, 224, 225, 226, 227, 228, 229, 230, 231, 232, 233,
     234, 235, 236, 237, 238, 243, 246, 250, 264, 265, 266, 267, 268, 269, 270, 271, 272, 273, 274, 275,
     276, 277, 278, 279, 280, 281, 282, 283, 284, 285, 286, 287, 288, 289, 291, 292, 293, 294, 295, 296,
     297, 298, 299, 300, 301, 302, 303, 304, 305, 306, 307, 308, 309, 310, 311, 312, 313, 314, 315, 316,
     317, 318, 319, 320, 321, 322, 323, 324, 325, 326, 327, 328, 329, 330, 331, 332, 333, 334, 335, 336,
     337, 338, 339, 340, 341, 342, 343, 344, 345, 346, 347, 348, 349, 350, 351, 352, 353, 354, 355, 356,
     357, 358, 359, 360, 361, 362, 363, 364, 365, 366, 367, 368, 369, 370, 371, 372, 376, 379, 380, 384,
     385, 388, 389, 390, 391, 392, 393, 394, 395, 396, 397, 398, 399, 400, 401, 402, 406, 407, 408, 409,
     410, 411, 412, 413, 414, 415, 416, 417, 418, 419, 420, 421, 422, 423, 424, 425, 426, 427, 428, 429,
     432, 434, 435, 436, 437, 438, 439, 440, 441, 442, 443, 444, 445, 446, 447, 448, 449, 450, 451, 452,
     453, 454, 455, 456, 457, 458, 459, 460, 461, 462, 463, 464, 465, 466, 467, 468, 469, 470, 471, 472,
     473, 474, 475, 476, 477, 478, 479, 480, 481, 482, 483, 484, 485, 486, 487, 488, 489, 490, 491, 492,
     493, 494, 495, 496, 497, 498, 499, 500, 501, 502, 503, 504, 505, 506, 507, 508, 509, 510, 511, 512,
     513, 514, 515, 516, 517, 518, 519, 520, 521, 522, 523, 524, 525, 526, 527, 528, 529, 530, 531, 532,
     533, 534, 535, 536, 537, 538, 539, 540, 541, 542, 543, 544, 545, 546, 547, 548, 549, 550, 551, 552,
     553, 554, 555, 556, 557, 558, 559, 560, 561, 562, 563, 564, 565, 566, 567, 568, 569, 572, 573, 574,
     575, 576, 577, 578, 579, 580, 581, 583, 584, 585, 586, 587, 588, 589, 590, 591, 593, 594, 597, 598,
     599, 600, 601, 602, 603, 604, 605, 606, 607, 608, 609, 610, 611, 612, 613, 614, 615, 616, 617, 618,
     619, 620, 621, 622, 623, 624, 626, 627, 628, 630, 631, 632, 633, 634, 635, 636, 637, 638, 639, 640,
     641, 643, 644, 645, 646, 647, 648, 649, 652, 656, 658, 659, 660, 661, 662, 665, 666, 668, 669, 670,
     673, 674, 675, 676, 677, 678, 680, 681, 682])"
  by (rule tab_walk_list) code_simp

lemmas no_fixed_len_2 [simp] = no_fixed_len_rows_2 [unfolded list.map list.pred_inject prod.case simp_thms]

lemma no_fixed_len_rows_3:
  "list_all (\<lambda>(i, n). rd of_object_fixed_len_v3 i = Inr n)
    (map (\<lambda>i. (i, -1)) [0, 3, 4, 5, 6, 10, 14, 21, 22, 23, 24, 25, 26, 27, 28, 29, 30, 31, 32, 33, 34, 35, 36, 37, 38, 39,
     40, 41, 42, 43, 44, 45, 46, 47, 48, 49, 50, 53, 54, 55, 56, 59, 60, 62, 63, 64, 65, 66, 67, 68, 69,
     70, 71, 72, 73, 79, 80, 81, 82, 83, 84, 85, 86, 87, 88, 92, 93, 94, 95, 96, 99, 100, 101, 102, 103,
     104, 105, 110, 111, 112, 113, 114, 115, 116, 135, 155, 156, 157, 158, 159, 160, 161, 162, 163, 164,
     168, 169, 175, 176, 182, 186, 191, 192, 193, 194, 195, 200, 204, 211, 214, 215, 216, 217, 218, 219,
     220, 221, 222, 223, 224, 225, 226, 227, 228, 229, 230, 231, 232, 233, 234, 235, 236, 237, 238, 243,
     246, 248, 249, 251, 252, 254, 255, 256, 257, 260, 261, 262, 263, 264, 265, 266, 267, 268, 269, 270,
     271, 272, 273, 274, 275, 276, 277, 278, 279, 280, 281, 282, 283, 284, 285, 286, 287, 288, 289, 291,
     292, 293, 294, 295, 296, 297, 298, 299, 300, 301, 302, 303, 304, 305, 306, 307, 308, 309, 310, 311,
     312, 313, 314, 315, 316, 317, 318, 319, 320, 321, 322, 323, 324, 325, 326, 327, 328, 329, 330, 331,
     332, 333, 334, 335, 336, 337, 338, 339, 340, 341, 342, 343, 344, 345, 346, 347, 348, 349, 350, 351,
     352, 353, 354, 355, 356, 357, 358, 359, 360, 361, 362, 363, 364, 365, 366, 367, 368, 369, 370, 371,
     372, 376, 379, 380, 384, 385, 388, 389, 390, 391, 392, 393, 394, 395, 396, 397, 398, 399, 400, 401,
     402, 406, 407, 408, 409, 410, 411, 412, 413, 414, 415, 416, 417, 418, 419, 420, 421, 422, 423, 424,
     425, 426, 427, 428, 429, 432, 433, 435, 436, 437, 438, 439, 440, 441, 442, 526, 527, 540, 541, 546,
     547, 556, 557, 572, 573, 574, 575, 576, 577, 578, 579, 580, 581, 583, 584, 585, 586, 587, 588, 589,
     590, 591, 597, 598, 599, 600, 601, 602, 603, 604, 605, 606, 607, 608, 609, 610, 611, 612, 613, 614,
     615, 616, 617, 618, 619, 620, 621, 622, 623, 624, 626, 627, 628, 630, 631, 632, 633, 634, 635, 636,
     637, 638, 639, 640, 641, 643, 644, 645, 646, 647, 648, 649, 652, 656, 658, 659, 660, 661, 665, 666,
     668, 669, 670, 673, 674, 675, 676, 677, 678, 680, 681, 682])"
  by (rule tab_walk_list) code_simp

lemmas no_fixed_len_3 [simp] = no_fixed_len_rows_3 [unfolded list.map list.pred_inject prod.case simp_thms]

lemma no_fixed_len_rows_4:
  "list_all (\<lambda>(i, n). rd of_object_fixed_len_v4 i = Inr n)
    (map (\<lambda>i. (i, -1)) [0, 3, 10, 53, 54, 55, 56, 62, 63, 84, 85, 86, 94, 95, 96, 114, 115, 116, 135, 163, 164, 175, 176,
     182, 186, 191, 192, 200, 211, 248, 249, 251, 252, 254, 255, 256, 257, 260, 261, 262, 263, 264, 265,
     266, 267, 268, 269, 270, 271, 272, 273, 274, 275, 276, 277, 278, 279, 379, 380, 432, 433, 546, 547,
     572, 573, 574, 575, 576, 577, 578, 579, 580, 581, 583, 584, 585, 586, 587, 588, 589, 590, 591, 597,
     598, 599, 600, 601, 614, 621, 622, 623, 624, 631, 652, 665, 666, 668, 669, 670, 673, 674, 675, 678])"
  by (rule tab_walk_list) code_simp

lemmas no_fixed_len_4 [simp] = no_fixed_len_rows_4 [unfolded list.map list.pred_inject prod.case simp_thms]

lemma no_fixed_len_rows_5:
  "list_all (\<lambda>(i, n). rd of_object_fixed_len_v5 i = Inr n)
    (map (\<lambda>i. (i, -1)) [0, 53, 54, 55, 56, 62, 63, 81, 84, 85, 86, 94, 95, 96, 163, 164, 177, 178, 211, 248, 249, 251, 252,
     254, 255, 256, 257, 260, 261, 262, 263, 264, 394, 414, 432, 433, 456, 457, 464, 465, 466, 467, 663])"
  by (rule tab_walk_list) code_simp

lemmas no_fixed_len_5 [simp] = no_fixed_len_rows_5 [unfolded list.map list.pred_inject prod.case simp_thms]

end
