(* ===== verification/FieldAccess.thy ===== *)
theory FieldAccess
  imports Object ClassIds
begin

text \<open>
  Scalar fields of objects: the generated getters and setters of \<^verbatim>\<open>src/class00.c\<close> to \<^verbatim>\<open>class19.c\<close> are
  one function up to the class, the offsets by version and the accessor of the wire buffer. This
  theory has that function, the remaining accessors of \<^verbatim>\<open>inc/loci/of_wire_buf.h\<close>, and what holds of a
  getter and setter whose field lies in the fixed part of its class.
\<close>

subsection \<open>The accessors\<close>

definition OF_LENGTH_CHECK_ASSERT :: "of_object \<Rightarrow> 'a res \<Rightarrow> 'a res" where
  "OF_LENGTH_CHECK_ASSERT obj m =
     c_assert (has_parent obj \<or> (case wbuf obj of None \<Rightarrow> True | Some w \<Rightarrow> current_bytes w = obj_length obj)) m"

text \<open>
  \<open>ids\<close> are the object ids the getter asserts, \<open>cases\<close> the offset of the field by version, \<open>get\<close> the
  accessor of the wire buffer.
\<close>

definition field_get :: "int list \<Rightarrow> (int \<times> int) list \<Rightarrow> (int \<Rightarrow> wire_buffer option \<Rightarrow> int \<Rightarrow> 'v res) \<Rightarrow> of_object \<Rightarrow> 'v res" where
  "field_get ids cases get obj =
     c_assert (object_id obj \<in> set ids)
       (let ver = obj_version obj in
        c_assert (wbuf obj \<noteq> None)
          (case map_of cases ver of
             None \<Rightarrow> Inl AssertFail
           | Some offset \<Rightarrow>
               let abs_offset = obj_offset obj + offset in
               c_assert (abs_offset \<ge> 0)
                 (bnd (get ver (wbuf obj) abs_offset) (\<lambda>x. OF_LENGTH_CHECK_ASSERT obj (Inr x)))))"

definition field_set :: "int list \<Rightarrow> (int \<times> int) list \<Rightarrow> (int \<Rightarrow> wire_buffer option \<Rightarrow> int \<Rightarrow> 'v \<Rightarrow> wire_buffer res) \<Rightarrow>
    of_object \<Rightarrow> 'v \<Rightarrow> of_object res" where
  "field_set ids cases put obj x =
     c_assert (object_id obj \<in> set ids)
       (let ver = obj_version obj in
        c_assert (wbuf obj \<noteq> None)
          (case map_of cases ver of
             None \<Rightarrow> Inl AssertFail
           | Some offset \<Rightarrow>
               let abs_offset = obj_offset obj + offset in
               c_assert (abs_offset \<ge> 0)
                 (bnd (put ver (wbuf obj) abs_offset x) (\<lambda>w.
                  let obj = obj\<lparr>wbuf := Some w\<rparr> in OF_LENGTH_CHECK_ASSERT obj (Inr obj)))))"

text \<open>\<open>IS_FLOW_MOD_SUBTYPE\<close>: modify, modify strict, delete, delete strict, add.\<close>

definition flow_mod_subtypes :: "int list" where
  "flow_mod_subtypes = [OF_FLOW_MODIFY, OF_FLOW_MODIFY_STRICT, OF_FLOW_DELETE, OF_FLOW_DELETE_STRICT, OF_FLOW_ADD]"

text \<open>A port number of version 1.0 above \<open>0xff00\<close> becomes the 32-bit number of the same port.\<close>

definition OF_PORT_NO_VALUE_CHECK :: "32 word \<Rightarrow> int \<Rightarrow> 32 word" where
  "OF_PORT_NO_VALUE_CHECK port ver = (if ver = 1 \<and> port > 0xff00 then port + 0xffff0000 else port)"

definition port_no_get :: "int \<Rightarrow> wire_buffer option \<Rightarrow> int \<Rightarrow> 32 word res" where
  "port_no_get ver wb offset =
     bnd (of_wire_buffer_port_no_get ver wb offset) (\<lambda>port. Inr (OF_PORT_NO_VALUE_CHECK port ver))"

text \<open>Addresses and names are blocks of bytes; a 128-bit value is a pair of 64-bit words.\<close>

definition octets_get :: "nat \<Rightarrow> wire_buffer option \<Rightarrow> int \<Rightarrow> byte list res" where
  "octets_get n wb offset = wbuf_octets_get wb offset n"

definition octets_set :: "nat \<Rightarrow> wire_buffer option \<Rightarrow> int \<Rightarrow> byte list \<Rightarrow> wire_buffer res" where
  "octets_set n wb offset xs = wbuf_octets_set wb offset (take n xs)"

definition of_wire_buffer_mac_get :: "wire_buffer option \<Rightarrow> int \<Rightarrow> byte list res" where
  "of_wire_buffer_mac_get = octets_get 6"
definition of_wire_buffer_mac_set :: "wire_buffer option \<Rightarrow> int \<Rightarrow> byte list \<Rightarrow> wire_buffer res" where
  "of_wire_buffer_mac_set = octets_set 6"
definition of_wire_buffer_port_name_get :: "wire_buffer option \<Rightarrow> int \<Rightarrow> byte list res" where
  "of_wire_buffer_port_name_get = octets_get 16"
definition of_wire_buffer_port_name_set :: "wire_buffer option \<Rightarrow> int \<Rightarrow> byte list \<Rightarrow> wire_buffer res" where
  "of_wire_buffer_port_name_set = octets_set 16"
definition of_wire_buffer_tab_name_get :: "wire_buffer option \<Rightarrow> int \<Rightarrow> byte list res" where
  "of_wire_buffer_tab_name_get = octets_get 32"
definition of_wire_buffer_tab_name_set :: "wire_buffer option \<Rightarrow> int \<Rightarrow> byte list \<Rightarrow> wire_buffer res" where
  "of_wire_buffer_tab_name_set = octets_set 32"
definition of_wire_buffer_desc_str_get :: "wire_buffer option \<Rightarrow> int \<Rightarrow> byte list res" where
  "of_wire_buffer_desc_str_get = octets_get 256"
definition of_wire_buffer_desc_str_set :: "wire_buffer option \<Rightarrow> int \<Rightarrow> byte list \<Rightarrow> wire_buffer res" where
  "of_wire_buffer_desc_str_set = octets_set 256"
definition of_wire_buffer_ser_num_get :: "wire_buffer option \<Rightarrow> int \<Rightarrow> byte list res" where
  "of_wire_buffer_ser_num_get = octets_get 32"
definition of_wire_buffer_ser_num_set :: "wire_buffer option \<Rightarrow> int \<Rightarrow> byte list \<Rightarrow> wire_buffer res" where
  "of_wire_buffer_ser_num_set = octets_set 32"
definition of_wire_buffer_str64_get :: "wire_buffer option \<Rightarrow> int \<Rightarrow> byte list res" where
  "of_wire_buffer_str64_get = octets_get 64"
definition of_wire_buffer_str64_set :: "wire_buffer option \<Rightarrow> int \<Rightarrow> byte list \<Rightarrow> wire_buffer res" where
  "of_wire_buffer_str64_set = octets_set 64"
definition of_wire_buffer_ipv6_get :: "wire_buffer option \<Rightarrow> int \<Rightarrow> byte list res" where
  "of_wire_buffer_ipv6_get = octets_get 16"
definition of_wire_buffer_ipv6_set :: "wire_buffer option \<Rightarrow> int \<Rightarrow> byte list \<Rightarrow> wire_buffer res" where
  "of_wire_buffer_ipv6_set = octets_set 16"
definition of_wire_buffer_ipv4_get :: "wire_buffer option \<Rightarrow> int \<Rightarrow> 32 word res" where
  "of_wire_buffer_ipv4_get = of_wire_buffer_u32_get"
definition of_wire_buffer_ipv4_set :: "wire_buffer option \<Rightarrow> int \<Rightarrow> 32 word \<Rightarrow> wire_buffer res" where
  "of_wire_buffer_ipv4_set = of_wire_buffer_u32_set"

definition u64_pair_get :: "wire_buffer option \<Rightarrow> int \<Rightarrow> (64 word \<times> 64 word) res" where
  "u64_pair_get wb offset =
     bnd (of_wire_buffer_u64_get wb offset) (\<lambda>hi. bnd (of_wire_buffer_u64_get wb (offset + 8)) (\<lambda>lo. Inr (hi, lo)))"

definition u64_pair_set :: "wire_buffer option \<Rightarrow> int \<Rightarrow> 64 word \<times> 64 word \<Rightarrow> wire_buffer res" where
  "u64_pair_set wb offset x =
     bnd (of_wire_buffer_u64_set wb offset (fst x)) (\<lambda>w. of_wire_buffer_u64_set (Some w) (offset + 8) (snd x))"

subsection \<open>What a field accessor relies on\<close>

text \<open>\<open>b'\<close> differs from \<open>b\<close> at most in the \<open>n\<close> bytes from \<open>p\<close> on.\<close>

definition outside_same :: "byte list \<Rightarrow> byte list \<Rightarrow> int \<Rightarrow> nat \<Rightarrow> bool" where
  "outside_same b b' p n \<longleftrightarrow> length b' = length b \<and>
     (\<forall>q m. q + int m \<le> p \<or> p + int n \<le> q \<longrightarrow> rd_block b' q m = rd_block b q m)"

lemma outside_same_wr_block:
  "wr_block b p xs = Inr b' \<Longrightarrow> outside_same b b' p (length xs)"
  using rd_block_wr_block_other [of b p xs b'] by (simp add: outside_same_def wr_block_length)

lemma outside_same_trans:
  assumes "outside_same b b1 p n" and "outside_same b1 b2 (p + int n) m"
  shows "outside_same b b2 p (n + m)"
  using assms by (simp add: outside_same_def)

locale wire_field =
  fixes get :: "int \<Rightarrow> wire_buffer option \<Rightarrow> int \<Rightarrow> 'v res"
    and put :: "int \<Rightarrow> wire_buffer option \<Rightarrow> int \<Rightarrow> 'v \<Rightarrow> wire_buffer res"
    and width :: "int \<Rightarrow> nat"
    and valid :: "int \<Rightarrow> 'v \<Rightarrow> bool"
  assumes get_in: "wbuf_wf w \<Longrightarrow> 0 \<le> p \<Longrightarrow> p + int (width ver) \<le> current_bytes w \<Longrightarrow> \<exists>x. get ver (Some w) p = Inr x"
    and put_in: "wbuf_wf w \<Longrightarrow> 0 \<le> p \<Longrightarrow> p + int (width ver) \<le> current_bytes w \<Longrightarrow> valid ver x \<Longrightarrow>
      wbuf_buf w = Some b \<Longrightarrow> \<exists>b'. put ver (Some w) p x = Inr (w\<lparr>wbuf_buf := Some b'\<rparr>) \<and>
        outside_same b b' p (width ver) \<and> get ver (Some (w\<lparr>wbuf_buf := Some b'\<rparr>)) p = Inr x"
    and get_local: "wbuf_buf w = Some b \<Longrightarrow> outside_same b b' q m \<Longrightarrow>
      p + int (width ver) \<le> q \<or> q + int m \<le> p \<Longrightarrow>
      get ver (Some (w\<lparr>wbuf_buf := Some b'\<rparr>)) p = get ver (Some w) p"

text \<open>Fields that are read and written as one block.\<close>

lemma block_field:
  assumes n: "0 < n"
    and g: "\<And>ver wb p. get ver wb p = access_check wb (p + int n) (\<lambda>w b. bnd (rd_block b p n) (\<lambda>xs. Inr (dec xs)))"
    and s: "\<And>ver wb p x. valid ver x \<Longrightarrow> put ver wb p x =
      access_check wb (p + int n) (\<lambda>w b. bnd (wr_block b p (enc x)) (\<lambda>b'. Inr (w\<lparr>wbuf_buf := Some b'\<rparr>)))"
    and v: "\<And>ver x. valid ver x \<Longrightarrow> length (enc x) = n \<and> dec (enc x) = x"
  shows "wire_field get put (\<lambda>_. n) valid"
proof unfold_locales
  fix w p and ver :: int
  assume w: "wbuf_wf w" "0 \<le> p" "p + int n \<le> current_bytes w"
  obtain b where b: "wbuf_buf w = Some b" "current_bytes w \<le> int (length b)"
    using w(1) by (rule wbuf_wfE) auto
  show "\<exists>x. get ver (Some w) p = Inr x"
    using w b n by (simp add: g access_check_def rd_block_def c_assert_def)
  fix x c
  assume x: "valid ver x" "wbuf_buf w = Some c"
  obtain b' where b': "wr_block b p (enc x) = Inr b'"
    using w b v [OF x(1)] by (simp add: wr_block_def)
  have "rd_block b' p n = Inr (enc x)"
    using rd_block_wr_block_same [OF b'] v [OF x(1)] by simp
  then show "\<exists>b'. put ver (Some w) p x = Inr (w\<lparr>wbuf_buf := Some b'\<rparr>) \<and>
      outside_same c b' p n \<and> get ver (Some (w\<lparr>wbuf_buf := Some b'\<rparr>)) p = Inr x"
    using w b b' x v [OF x(1)] n outside_same_wr_block [OF b']
    by (intro exI [of _ b']) (simp add: s [OF x(1)] g access_check_def c_assert_def)
next
  fix w :: wire_buffer and b b' p q m and ver :: int
  assume "wbuf_buf w = Some b" "outside_same b b' q m" "p + int n \<le> q \<or> q + int m \<le> p"
  then show "get ver (Some (w\<lparr>wbuf_buf := Some b'\<rparr>)) p = get ver (Some w) p"
    by (auto simp: g access_check_def outside_same_def)
qed

lemma wr_as_block: "wr b p x = wr_block b p [x]"
  by (auto simp: wr_def wr_block_def upd_conv_take_nth_drop)

interpretation u8_field: wire_field "\<lambda>_. of_wire_buffer_u8_get" "\<lambda>_. of_wire_buffer_u8_set" "\<lambda>_. 1" "\<lambda>_ _. True"
  by (rule block_field [of _ _ hd _ _ "\<lambda>x. [x]"])
     (simp_all add: of_wire_buffer_u8_get_def of_wire_buffer_u8_set_def checked_get_def checked_set_def
       buf_u8_get_def buf_u8_set_def rd_as_block wr_as_block)

interpretation u16_field: wire_field "\<lambda>_. of_wire_buffer_u16_get" "\<lambda>_. of_wire_buffer_u16_set" "\<lambda>_. 2" "\<lambda>_ _. True"
  by (rule block_field [of _ _ be_word _ _ "be_bytes 2"])
     (simp_all add: of_wire_buffer_u16_get_def of_wire_buffer_u16_set_def checked_get_def checked_set_def
       buf_u16_get_def buf_u16_set_def be_word_bytes)

interpretation u32_field: wire_field "\<lambda>_. of_wire_buffer_u32_get" "\<lambda>_. of_wire_buffer_u32_set" "\<lambda>_. 4" "\<lambda>_ _. True"
  by (rule block_field [of _ _ be_word _ _ "be_bytes 4"])
     (simp_all add: of_wire_buffer_u32_get_def of_wire_buffer_u32_set_def checked_get_def checked_set_def
       buf_u32_get_def buf_u32_set_def be_word_bytes)

interpretation u64_field: wire_field "\<lambda>_. of_wire_buffer_u64_get" "\<lambda>_. of_wire_buffer_u64_set" "\<lambda>_. 8" "\<lambda>_ _. True"
  by (rule block_field [of _ _ be_word _ _ "be_bytes 8"])
     (simp_all add: of_wire_buffer_u64_get_def of_wire_buffer_u64_set_def checked_get_def checked_set_def
       buf_u64_get_def buf_u64_set_def be_word_bytes)

interpretation ipv4_field: wire_field "\<lambda>_. of_wire_buffer_ipv4_get" "\<lambda>_. of_wire_buffer_ipv4_set" "\<lambda>_. 4" "\<lambda>_ _. True"
  unfolding of_wire_buffer_ipv4_get_def of_wire_buffer_ipv4_set_def by (rule u32_field.wire_field_axioms)

lemma octets_field: "0 < n \<Longrightarrow> wire_field (\<lambda>_. octets_get n) (\<lambda>_. octets_set n) (\<lambda>_. n) (\<lambda>_ xs. length xs = n)"
  by (rule block_field [of _ _ "\<lambda>xs. xs" _ _ "\<lambda>xs. xs"])
     (simp_all add: octets_get_def octets_set_def wbuf_octets_get_def of_wire_buffer_octets_data_get_def wbuf_octets_set_def
       of_wire_buffer_octets_data_set_def buf_octets_get_def buf_octets_set_def c_assert_def)

text \<open>Two fields in a row, a field behind a conversion, and a field chosen by the version.\<close>

lemma pair_field:
  assumes "wire_field g1 p1 n1 v1" and "wire_field g2 p2 n2 v2"
  shows "wire_field
    (\<lambda>ver wb p. bnd (g1 ver wb p) (\<lambda>x. bnd (g2 ver wb (p + int (n1 ver))) (\<lambda>y. Inr (x, y))))
    (\<lambda>ver wb p x. bnd (p1 ver wb p (fst x)) (\<lambda>w. p2 ver (Some w) (p + int (n1 ver)) (snd x)))
    (\<lambda>ver. n1 ver + n2 ver) (\<lambda>ver x. v1 ver (fst x) \<and> v2 ver (snd x))"
proof unfold_locales
  fix w p and ver :: int
  assume w: "wbuf_wf w" "0 \<le> p" "p + int (n1 ver + n2 ver) \<le> current_bytes w"
  then have w1: "p + int (n1 ver) \<le> current_bytes w"
    and w2: "0 \<le> p + int (n1 ver)" "p + int (n1 ver) + int (n2 ver) \<le> current_bytes w"
    by simp_all
  show "\<exists>x. bnd (g1 ver (Some w) p) (\<lambda>x. bnd (g2 ver (Some w) (p + int (n1 ver))) (\<lambda>y. Inr (x, y))) = Inr x"
    using wire_field.get_in [OF assms(1) w(1,2) w1] wire_field.get_in [OF assms(2) w(1) w2] by auto
  fix x b
  assume x: "v1 ver (fst x) \<and> v2 ver (snd x)" and b: "wbuf_buf w = Some b"
  obtain b1 where b1: "p1 ver (Some w) p (fst x) = Inr (w\<lparr>wbuf_buf := Some b1\<rparr>)" "outside_same b b1 p (n1 ver)"
    "g1 ver (Some (w\<lparr>wbuf_buf := Some b1\<rparr>)) p = Inr (fst x)"
    using wire_field.put_in [OF assms(1) w(1,2) w1 _ b, of "fst x"] x by auto
  let ?w1 = "w\<lparr>wbuf_buf := Some b1\<rparr>"
  have wf1: "wbuf_wf ?w1"
    using w(1) b b1(2) by (simp add: wbuf_wf_def outside_same_def)
  obtain b2 where b2: "p2 ver (Some ?w1) (p + int (n1 ver)) (snd x) = Inr (w\<lparr>wbuf_buf := Some b2\<rparr>)"
    "outside_same b1 b2 (p + int (n1 ver)) (n2 ver)"
    "g2 ver (Some (w\<lparr>wbuf_buf := Some b2\<rparr>)) (p + int (n1 ver)) = Inr (snd x)"
    using wire_field.put_in [OF assms(2) wf1 w2(1) _ _, of ver "snd x" b1] w2 x by auto
  have "g1 ver (Some (w\<lparr>wbuf_buf := Some b2\<rparr>)) p = Inr (fst x)"
    using wire_field.get_local [OF assms(1), of ?w1 b1 b2 "p + int (n1 ver)" "n2 ver" p ver] b1(3) b2(2) by simp
  then show "\<exists>b'. bnd (p1 ver (Some w) p (fst x)) (\<lambda>w. p2 ver (Some w) (p + int (n1 ver)) (snd x)) = Inr (w\<lparr>wbuf_buf := Some b'\<rparr>) \<and>
      outside_same b b' p (n1 ver + n2 ver) \<and>
      bnd (g1 ver (Some (w\<lparr>wbuf_buf := Some b'\<rparr>)) p) (\<lambda>x. bnd (g2 ver (Some (w\<lparr>wbuf_buf := Some b'\<rparr>)) (p + int (n1 ver))) (\<lambda>y. Inr (x, y))) = Inr x"
    using b1 b2 outside_same_trans [OF b1(2) b2(2)] by (intro exI [of _ b2]) simp
next
  fix w :: wire_buffer and b b' p q m and ver :: int
  assume "wbuf_buf w = Some b" "outside_same b b' q m" "p + int (n1 ver + n2 ver) \<le> q \<or> q + int m \<le> p"
  then show "bnd (g1 ver (Some (w\<lparr>wbuf_buf := Some b'\<rparr>)) p) (\<lambda>x. bnd (g2 ver (Some (w\<lparr>wbuf_buf := Some b'\<rparr>)) (p + int (n1 ver))) (\<lambda>y. Inr (x, y))) =
      bnd (g1 ver (Some w) p) (\<lambda>x. bnd (g2 ver (Some w) (p + int (n1 ver))) (\<lambda>y. Inr (x, y)))"
    using wire_field.get_local [OF assms(1), of w b b' q m p ver]
      wire_field.get_local [OF assms(2), of w b b' q m "p + int (n1 ver)" ver]
    by (cases "p + int (n1 ver + n2 ver) \<le> q") simp_all
qed

lemma conv_field:
  assumes "wire_field g p n v"
  shows "wire_field (\<lambda>ver wb q. bnd (g ver wb q) (\<lambda>x. Inr (f ver x))) (\<lambda>ver wb q x. p ver wb q (h ver x)) n
    (\<lambda>ver x. v ver (h ver x) \<and> f ver (h ver x) = x)"
proof unfold_locales
  fix w q and ver :: int
  assume w: "wbuf_wf w" "0 \<le> q" "q + int (n ver) \<le> current_bytes w"
  then show "\<exists>x. bnd (g ver (Some w) q) (\<lambda>x. Inr (f ver x)) = Inr x"
    using wire_field.get_in [OF assms w] by auto
  fix x b
  assume "v ver (h ver x) \<and> f ver (h ver x) = x" and b: "wbuf_buf w = Some b"
  then show "\<exists>b'. p ver (Some w) q (h ver x) = Inr (w\<lparr>wbuf_buf := Some b'\<rparr>) \<and> outside_same b b' q (n ver) \<and>
      bnd (g ver (Some (w\<lparr>wbuf_buf := Some b'\<rparr>)) q) (\<lambda>x. Inr (f ver x)) = Inr x"
    using wire_field.put_in [OF assms w _ b, of "h ver x"] by auto
next
  fix w :: wire_buffer and b b' q q' m and ver :: int
  assume "wbuf_buf w = Some b" "outside_same b b' q' m" "q + int (n ver) \<le> q' \<or> q' + int m \<le> q"
  then show "bnd (g ver (Some (w\<lparr>wbuf_buf := Some b'\<rparr>)) q) (\<lambda>x. Inr (f ver x)) = bnd (g ver (Some w) q) (\<lambda>x. Inr (f ver x))"
    using wire_field.get_local [OF assms] by metis
qed

lemma version_field:
  assumes "wire_field g1 p1 n1 v1" and "wire_field g2 p2 n2 v2"
  shows "wire_field (\<lambda>ver. if c ver then g1 ver else g2 ver) (\<lambda>ver. if c ver then p1 ver else p2 ver)
    (\<lambda>ver. if c ver then n1 ver else n2 ver) (\<lambda>ver. if c ver then v1 ver else v2 ver)"
  using assms unfolding wire_field_def by simp

subsection \<open>Every kind of field\<close>

interpretation u64_pair_field: wire_field "\<lambda>_. u64_pair_get" "\<lambda>_. u64_pair_set" "\<lambda>_. 16" "\<lambda>_ _. True"
  using pair_field [OF u64_field.wire_field_axioms u64_field.wire_field_axioms]
  by (simp add: u64_pair_get_def [abs_def] u64_pair_set_def [abs_def])

text \<open>
  Of the 32-bit port numbers a 1.0 message can hold those of its 16-bit numbers: up to \<open>0xff00\<close> as
  they are, the reserved ones above with the high half set.
\<close>

definition port_no_valid :: "int \<Rightarrow> 32 word \<Rightarrow> bool" where
  "port_no_valid ver port \<longleftrightarrow> ver \<noteq> 1 \<or> port \<le> 0xff00 \<or> port > 0xffffff00"

definition wc_bmap_valid :: "int \<Rightarrow> 64 word \<Rightarrow> bool" where
  "wc_bmap_valid ver x \<longleftrightarrow> \<not> (ver = 1 \<or> ver = 2) \<or> x \<le> 0xffffffff"

lemma low_16: "port \<le> 0xff00 \<Longrightarrow> ucast (ucast port :: 16 word) = (port :: 32 word)"
  by (rule word_uint_eqI) (simp add: word_le_def unsigned_ucast_eq take_bit_eq_mod uint_mod)

lemma low_32: "x \<le> 0xffffffff \<Longrightarrow> ucast (ucast x :: 32 word) = (x :: 64 word)"
  by (rule word_uint_eqI) (simp add: word_le_def unsigned_ucast_eq take_bit_eq_mod uint_mod)

lemma reserved_16:
  assumes "port > 0xffffff00"
  shows "ucast (ucast port :: 16 word) = (port :: 32 word) - 0xffff0000" and "port - 0xffff0000 > 0xff00"
proof -
  have b: "4294967040 < uint port" "uint port < 4294967296"
    using assms uint_bounded [of port] by (simp_all add: word_less_def)
  have "uint port mod 65536 = uint port - 4294901760"
    using b mod_mult_self1 [of "uint port - 4294901760" 65535 65536] by simp
  moreover have d: "uint (port - 0xffff0000) = uint port - 4294901760"
    using b by (simp add: uint_sub_lem [THEN iffD1] word_le_def)
  ultimately show "ucast (ucast port :: 16 word) = port - 0xffff0000"
    by (intro word_uint_eqI) (simp add: unsigned_ucast_eq take_bit_eq_mod uint_mod)
  show "port - 0xffff0000 > 0xff00"
    using b d by (simp add: word_less_def)
qed

lemma port_no_16:
  assumes "port \<le> 0xff00 \<or> port > 0xffffff00"
  shows "OF_PORT_NO_VALUE_CHECK (ucast (ucast port :: 16 word)) 1 = port"
  using assms low_16 [of port] reserved_16 [of port]
  by (auto simp: OF_PORT_NO_VALUE_CHECK_def simp flip: linorder_not_le)

definition port_no_width :: "int \<Rightarrow> nat" where
  "port_no_width ver = (if ver = 1 then 2 else 4)"

definition wc_bmap_width :: "int \<Rightarrow> nat" where
  "wc_bmap_width ver = (if ver = 1 \<or> ver = 2 then 4 else 8)"

lemma wire_field_weaken:
  assumes "wire_field g p n v" and "\<And>ver x. v' ver x \<Longrightarrow> v ver x"
  shows "wire_field g p n v'"
  using assms unfolding wire_field_def by blast

interpretation port_no_field: wire_field port_no_get of_wire_buffer_port_no_set port_no_width port_no_valid
proof -
  have "wire_field
     (\<lambda>ver. if ver = 1 then (\<lambda>wb q. bnd (of_wire_buffer_u16_get wb q) (\<lambda>x. Inr (OF_PORT_NO_VALUE_CHECK (ucast x) ver)))
            else of_wire_buffer_u32_get)
     (\<lambda>ver. if ver = 1 then (\<lambda>wb q x. of_wire_buffer_u16_set wb q (ucast x)) else of_wire_buffer_u32_set)
     (\<lambda>ver. if ver = 1 then 2 else 4)
     (\<lambda>ver. if ver = 1 then (\<lambda>x. True \<and> OF_PORT_NO_VALUE_CHECK (ucast (ucast x :: 16 word)) ver = x) else (\<lambda>_. True))"
    by (rule version_field [OF conv_field [OF u16_field.wire_field_axioms] u32_field.wire_field_axioms])
  moreover have "(\<lambda>ver. if ver = 1 then (\<lambda>wb q. bnd (of_wire_buffer_u16_get wb q) (\<lambda>x. Inr (OF_PORT_NO_VALUE_CHECK (ucast x) ver)))
            else of_wire_buffer_u32_get) = port_no_get"
    by (intro ext) (simp add: port_no_get_def of_wire_buffer_port_no_get_def bnd_assoc OF_PORT_NO_VALUE_CHECK_def)
  moreover have "(\<lambda>ver. if ver = 1 then (\<lambda>wb q x. of_wire_buffer_u16_set wb q (ucast x)) else of_wire_buffer_u32_set) =
      of_wire_buffer_port_no_set"
    by (intro ext) (simp add: of_wire_buffer_port_no_set_def)
  ultimately show "wire_field port_no_get of_wire_buffer_port_no_set port_no_width port_no_valid"
    unfolding port_no_width_def [abs_def]
    by (simp only:) (erule wire_field_weaken, simp add: port_no_valid_def port_no_16)
qed

interpretation wc_bmap_field: wire_field of_wire_buffer_wc_bmap_get of_wire_buffer_wc_bmap_set wc_bmap_width wc_bmap_valid
proof -
  have "wire_field
     (\<lambda>ver. if ver = 1 \<or> ver = 2 then (\<lambda>wb q. bnd (of_wire_buffer_u32_get wb q) (\<lambda>x. Inr (ucast x)))
            else of_wire_buffer_u64_get)
     (\<lambda>ver. if ver = 1 \<or> ver = 2 then (\<lambda>wb q x. of_wire_buffer_u32_set wb q (ucast x)) else of_wire_buffer_u64_set)
     (\<lambda>ver. if ver = 1 \<or> ver = 2 then 4 else 8)
     (\<lambda>ver. if ver = 1 \<or> ver = 2 then (\<lambda>x. True \<and> ucast (ucast x :: 32 word) = x) else (\<lambda>_. True))"
    by (rule version_field [OF conv_field [OF u32_field.wire_field_axioms] u64_field.wire_field_axioms])
  moreover have "(\<lambda>ver. if ver = 1 \<or> ver = 2 then (\<lambda>wb q. bnd (of_wire_buffer_u32_get wb q) (\<lambda>x. Inr (ucast x)))
            else of_wire_buffer_u64_get) = of_wire_buffer_wc_bmap_get"
    by (intro ext) (simp add: of_wire_buffer_wc_bmap_get_def)
  moreover have "(\<lambda>ver. if ver = 1 \<or> ver = 2 then (\<lambda>wb q x. of_wire_buffer_u32_set wb q (ucast x)) else of_wire_buffer_u64_set) =
      of_wire_buffer_wc_bmap_set"
    by (intro ext) (simp add: of_wire_buffer_wc_bmap_set_def)
  ultimately show "wire_field of_wire_buffer_wc_bmap_get of_wire_buffer_wc_bmap_set wc_bmap_width wc_bmap_valid"
    unfolding wc_bmap_width_def [abs_def]
    by (simp only:) (erule wire_field_weaken, auto simp: wc_bmap_valid_def low_32)
qed

text \<open>The 512-bit bitmap is eight words in a row.\<close>

lemma buf_u64_local:
  assumes "outside_same b b' q m" and "p + 8 \<le> q \<or> q + int m \<le> p"
  shows "buf_u64_get b' p = buf_u64_get b p"
  using assms by (auto simp: buf_u64_get_def outside_same_def)

lemma u64s_get_local:
  "outside_same b b' q m \<Longrightarrow> p + 8 * int n \<le> q \<or> q + int m \<le> p \<Longrightarrow> u64s_get b' p n = u64s_get b p n"
proof (induction n arbitrary: p)
  case (Suc n)
  then show ?case
    using buf_u64_local [OF Suc.prems(1), of p] by (auto intro!: arg_cong2 [where f = bnd])
qed simp

lemma u64s_get_in: "0 \<le> p \<Longrightarrow> p + 8 * int n \<le> int (length b) \<Longrightarrow> \<exists>vs. u64s_get b p n = Inr vs"
proof (induction n arbitrary: p)
  case (Suc n)
  then obtain v where "buf_u64_get b p = Inr v"
    using u64.get_in [of p b] by auto
  moreover obtain vs where "u64s_get b (p + 8) n = Inr vs"
    using Suc.IH [of "p + 8"] Suc.prems by auto
  ultimately show ?case
    by simp
qed simp

lemma u64s_set_get:
  "0 \<le> p \<Longrightarrow> p + 8 * int (length vs) \<le> int (length b) \<Longrightarrow>
   \<exists>b'. u64s_set b p vs = Inr b' \<and> outside_same b b' p (8 * length vs) \<and> u64s_get b' p (length vs) = Inr vs"
proof (induction vs arbitrary: b p)
  case (Cons v vs)
  obtain b1 where b1: "buf_u64_set b p v = Inr b1" "outside_same b b1 p 8" "buf_u64_get b1 p = Inr v"
  proof -
    obtain b1 where "buf_u64_set b p v = Inr b1"
      using Cons.prems u64.put_in [of p b v] by auto
    moreover from this have "outside_same b b1 p 8"
      using outside_same_wr_block [of b p "be_bytes 8 v" b1] by (simp add: buf_u64_set_def)
    ultimately show ?thesis
      using that u64.get_put [of b p v b1] by blast
  qed
  then have l: "length b1 = length b"
    by (simp add: outside_same_def)
  obtain b2 where b2: "u64s_set b1 (p + 8) vs = Inr b2" "outside_same b1 b2 (p + 8) (8 * length vs)"
    "u64s_get b2 (p + 8) (length vs) = Inr vs"
    using Cons.IH [of "p + 8" b1] Cons.prems l by auto
  moreover have "buf_u64_get b2 p = Inr v"
    using buf_u64_local [OF b2(2), of p] b1(3) by simp
  moreover have "outside_same b b2 p (8 * length (v # vs))"
    using outside_same_trans [OF b1(2), of b2 "8 * length vs"] b2(2) by simp
  ultimately show ?case
    using b1(1) by simp
qed (simp add: outside_same_def)

interpretation bitmap_512_field: wire_field "\<lambda>_. of_wire_buffer_bitmap_512_get" "\<lambda>_. of_wire_buffer_bitmap_512_set"
  "\<lambda>_. 64" "\<lambda>_ words. length words = 8"
proof unfold_locales
  fix w p and ver :: int
  assume w: "wbuf_wf w" "0 \<le> p" "p + int 64 \<le> current_bytes w"
  obtain b where b: "wbuf_buf w = Some b" "current_bytes w \<le> int (length b)"
    using w(1) by (rule wbuf_wfE) auto
  show "\<exists>x. of_wire_buffer_bitmap_512_get (Some w) p = Inr x"
    using w b u64s_get_in [of p 8 b] by (simp add: of_wire_buffer_bitmap_512_get_def access_check_def c_assert_def)
  fix x :: "64 word list" and c
  assume x: "length x = 8" "wbuf_buf w = Some c"
  then show "\<exists>b'. of_wire_buffer_bitmap_512_set (Some w) p x = Inr (w\<lparr>wbuf_buf := Some b'\<rparr>) \<and>
      outside_same c b' p 64 \<and> of_wire_buffer_bitmap_512_get (Some (w\<lparr>wbuf_buf := Some b'\<rparr>)) p = Inr x"
    using w b u64s_set_get [of p x b]
    by (auto simp: of_wire_buffer_bitmap_512_get_def of_wire_buffer_bitmap_512_set_def access_check_def c_assert_def)
next
  fix w :: wire_buffer and b b' p q m and ver :: int
  assume "wbuf_buf w = Some b" "outside_same b b' q m" "p + int 64 \<le> q \<or> q + int m \<le> p"
  then show "of_wire_buffer_bitmap_512_get (Some (w\<lparr>wbuf_buf := Some b'\<rparr>)) p = of_wire_buffer_bitmap_512_get (Some w) p"
    using u64s_get_local [of b b' q m p 8] by (simp add: of_wire_buffer_bitmap_512_get_def access_check_def)
qed

subsection \<open>Accessors of an object\<close>

text \<open>
  A well-formed object: within the bytes in use of its buffer, exactly those bytes when it is not
  part of another object, and no shorter than the fixed part of its class.
\<close>

definition obj_wf :: "of_object \<Rightarrow> bool" where
  "obj_wf obj \<longleftrightarrow> (case wbuf obj of
       None \<Rightarrow> False
     | Some w \<Rightarrow> wbuf_wf w \<and> 0 \<le> obj_offset obj \<and> obj_offset obj + obj_length obj \<le> current_bytes w \<and>
         (has_parent obj \<or> current_bytes w = obj_length obj)) \<and>
     fits (obj_version obj) (object_id obj) (obj_length obj)"

text \<open>\<open>obj'\<close> is \<open>obj\<close> with at most the \<open>n\<close> bytes of the buffer from \<open>p\<close> on changed.\<close>

definition only_bytes :: "of_object \<Rightarrow> of_object \<Rightarrow> int \<Rightarrow> nat \<Rightarrow> bool" where
  "only_bytes obj obj' p n \<longleftrightarrow> (\<exists>w b b'. wbuf obj = Some w \<and> wbuf_buf w = Some b \<and>
     obj' = obj\<lparr>wbuf := Some (w\<lparr>wbuf_buf := Some b'\<rparr>)\<rparr> \<and> outside_same b b' p n)"

text \<open>
  The getter and the setter of a field, with the ids of the classes they are for and the offset of the
  field in each version.
\<close>

record 'v accessor =
  acc_ids :: "int list"
  acc_cases :: "(int \<times> int) list"
  acc_get :: "of_object \<Rightarrow> 'v res"
  acc_set :: "of_object \<Rightarrow> 'v \<Rightarrow> of_object res"

definition accessor :: "int list \<Rightarrow> (int \<times> int) list \<Rightarrow> (int \<Rightarrow> wire_buffer option \<Rightarrow> int \<Rightarrow> 'v res) \<Rightarrow>
    (int \<Rightarrow> wire_buffer option \<Rightarrow> int \<Rightarrow> 'v \<Rightarrow> wire_buffer res) \<Rightarrow> 'v accessor" where
  "accessor ids cases get put =
     \<lparr>acc_ids = ids, acc_cases = cases, acc_get = field_get ids cases get, acc_set = field_set ids cases put\<rparr>"

definition accessor_ok :: "(int \<Rightarrow> nat) \<Rightarrow> (int \<Rightarrow> 'v \<Rightarrow> bool) \<Rightarrow> 'v accessor \<Rightarrow> bool" where
  "accessor_ok width valid a \<longleftrightarrow>
     (\<forall>obj x. object_id obj \<notin> set (acc_ids a) \<or> map_of (acc_cases a) (obj_version obj) = None \<longrightarrow>
        acc_get a obj = Inl AssertFail \<and> acc_set a obj x = Inl AssertFail) \<and>
     (\<forall>obj offset. obj_wf obj \<and> object_id obj \<in> set (acc_ids a) \<and> map_of (acc_cases a) (obj_version obj) = Some offset \<longrightarrow>
        0 \<le> offset \<and> offset + int (width (obj_version obj)) \<le> obj_length obj \<and> (\<exists>x. acc_get a obj = Inr x) \<and>
        (\<forall>x. valid (obj_version obj) x \<longrightarrow> (\<exists>obj'. acc_set a obj x = Inr obj' \<and> acc_get a obj' = Inr x \<and>
           only_bytes obj obj' (obj_offset obj + offset) (width (obj_version obj)))) \<and>
        (\<forall>obj' q m. only_bytes obj obj' q m \<longrightarrow>
           obj_offset obj + offset + int (width (obj_version obj)) \<le> q \<or> q + int m \<le> obj_offset obj + offset \<longrightarrow>
           acc_get a obj' = acc_get a obj))"

text \<open>The field lies in the fixed part of each class in each version it has an offset for.\<close>

definition inside :: "int list \<Rightarrow> (int \<times> int) list \<Rightarrow> (int \<Rightarrow> nat) \<Rightarrow> bool" where
  "inside ids cases width \<longleftrightarrow> list_all (\<lambda>i. list_all (\<lambda>(v, offset). 0 \<le> offset \<and>
     (case of_object_fixed_len v i of Inl _ \<Rightarrow> False | Inr n \<Rightarrow> offset + int (width v) \<le> n)) cases) ids"

lemma inside_fits:
  assumes "inside ids cases width" and "i \<in> set ids" and "map_of cases v = Some offset" and "fits v i l"
  shows "0 \<le> offset \<and> offset + int (width v) \<le> l"
  using assms map_of_SomeD [OF assms(3)] by (fastforce simp: inside_def fits_def list_all_iff split: sum.splits)

lemma obj_wf_only_bytes:
  assumes "obj_wf obj" and "only_bytes obj obj' p n"
  shows "obj_wf obj'"
  using assms by (auto simp: obj_wf_def only_bytes_def outside_same_def wbuf_wf_def split: option.splits)

context wire_field
begin

lemma accessors_in:
  assumes i: "inside ids cases width"
  shows "accessor_ok width valid (accessor ids cases get put)"
proof -
  have set_get: "0 \<le> offset \<and> offset + int (width (obj_version obj)) \<le> obj_length obj \<and> (\<exists>x. field_get ids cases get obj = Inr x) \<and>
      (\<forall>x. valid (obj_version obj) x \<longrightarrow> (\<exists>obj'. field_set ids cases put obj x = Inr obj' \<and> field_get ids cases get obj' = Inr x \<and>
         only_bytes obj obj' (obj_offset obj + offset) (width (obj_version obj)))) \<and>
      (\<forall>obj' q m. only_bytes obj obj' q m \<longrightarrow>
         obj_offset obj + offset + int (width (obj_version obj)) \<le> q \<or> q + int m \<le> obj_offset obj + offset \<longrightarrow>
         field_get ids cases get obj' = field_get ids cases get obj)"
    if o: "obj_wf obj" "object_id obj \<in> set ids" "map_of cases (obj_version obj) = Some offset" for obj offset
  proof -
    obtain w where w: "wbuf obj = Some w" "wbuf_wf w" "0 \<le> obj_offset obj" "obj_offset obj + obj_length obj \<le> current_bytes w"
      "has_parent obj \<or> current_bytes w = obj_length obj" "fits (obj_version obj) (object_id obj) (obj_length obj)"
      using o(1) by (auto simp: obj_wf_def split: option.splits)
    obtain b where b: "wbuf_buf w = Some b"
      using w(2) by (rule wbuf_wfE)
    let ?p = "obj_offset obj + offset" and ?v = "obj_version obj"
    have p: "0 \<le> ?p" "?p + int (width ?v) \<le> current_bytes w"
      using inside_fits [OF i o(2,3) w(6)] w(3,4) by auto
    have g: "\<exists>x. field_get ids cases get obj = Inr x"
      using get_in [OF w(2) p] o w p by (auto simp: field_get_def OF_LENGTH_CHECK_ASSERT_def Let_def)
    have s: "\<exists>obj'. field_set ids cases put obj x = Inr obj' \<and> field_get ids cases get obj' = Inr x \<and>
         only_bytes obj obj' ?p (width ?v)" if vx: "valid ?v x" for x
    proof -
      obtain b' where b': "put ?v (Some w) ?p x = Inr (w\<lparr>wbuf_buf := Some b'\<rparr>)" "outside_same b b' ?p (width ?v)"
        "get ?v (Some (w\<lparr>wbuf_buf := Some b'\<rparr>)) ?p = Inr x"
        using put_in [OF w(2) p vx b] by blast
      then show ?thesis
        using o w p b by (intro exI [of _ "obj\<lparr>wbuf := Some (w\<lparr>wbuf_buf := Some b'\<rparr>)\<rparr>"])
          (auto simp: field_set_def field_get_def OF_LENGTH_CHECK_ASSERT_def Let_def only_bytes_def)
    qed
    have "field_get ids cases get obj' = field_get ids cases get obj"
      if ob: "only_bytes obj obj' q m" "?p + int (width ?v) \<le> q \<or> q + int m \<le> ?p" for obj' q m
    proof -
      obtain b' where b': "obj' = obj\<lparr>wbuf := Some (w\<lparr>wbuf_buf := Some b'\<rparr>)\<rparr>" "outside_same b b' q m"
        using ob(1) w(1) b by (auto simp: only_bytes_def)
      then show ?thesis
        using get_local [OF b b'(2) ob(2)] o w by (simp add: field_get_def OF_LENGTH_CHECK_ASSERT_def Let_def)
    qed
    then show ?thesis
      using g s inside_fits [OF i o(2,3) w(6)] by blast
  qed
  have "field_get ids cases get obj = Inl AssertFail \<and> field_set ids cases put obj x = Inl AssertFail"
    if "object_id obj \<notin> set ids \<or> map_of cases (obj_version obj) = None" for obj x
    using that by (auto simp: field_get_def field_set_def Let_def c_assert_def)
  then show ?thesis
    using set_get unfolding accessor_ok_def accessor_def accessor.simps by blast
qed

end

subsection \<open>The kinds of accessors\<close>

text \<open>\<open>match_bmap\<close> fields are accessed as \<open>wc_bmap\<close> ones, \<open>bitmap_128\<close> fields as \<open>checksum_128\<close> ones.\<close>

definition u8_accessor :: "int list \<Rightarrow> (int \<times> int) list \<Rightarrow> byte accessor" where
  "u8_accessor ids cases = accessor ids cases (\<lambda>_. of_wire_buffer_u8_get) (\<lambda>_. of_wire_buffer_u8_set)"

definition u16_accessor :: "int list \<Rightarrow> (int \<times> int) list \<Rightarrow> 16 word accessor" where
  "u16_accessor ids cases = accessor ids cases (\<lambda>_. of_wire_buffer_u16_get) (\<lambda>_. of_wire_buffer_u16_set)"

definition u32_accessor :: "int list \<Rightarrow> (int \<times> int) list \<Rightarrow> 32 word accessor" where
  "u32_accessor ids cases = accessor ids cases (\<lambda>_. of_wire_buffer_u32_get) (\<lambda>_. of_wire_buffer_u32_set)"

definition u64_accessor :: "int list \<Rightarrow> (int \<times> int) list \<Rightarrow> 64 word accessor" where
  "u64_accessor ids cases = accessor ids cases (\<lambda>_. of_wire_buffer_u64_get) (\<lambda>_. of_wire_buffer_u64_set)"

definition ipv4_accessor :: "int list \<Rightarrow> (int \<times> int) list \<Rightarrow> 32 word accessor" where
  "ipv4_accessor ids cases = accessor ids cases (\<lambda>_. of_wire_buffer_ipv4_get) (\<lambda>_. of_wire_buffer_ipv4_set)"

definition port_no_accessor :: "int list \<Rightarrow> (int \<times> int) list \<Rightarrow> 32 word accessor" where
  "port_no_accessor ids cases = accessor ids cases port_no_get of_wire_buffer_port_no_set"

definition wc_bmap_accessor :: "int list \<Rightarrow> (int \<times> int) list \<Rightarrow> 64 word accessor" where
  "wc_bmap_accessor ids cases = accessor ids cases of_wire_buffer_wc_bmap_get of_wire_buffer_wc_bmap_set"

definition checksum_128_accessor :: "int list \<Rightarrow> (int \<times> int) list \<Rightarrow> (64 word \<times> 64 word) accessor" where
  "checksum_128_accessor ids cases = accessor ids cases (\<lambda>_. u64_pair_get) (\<lambda>_. u64_pair_set)"

definition bitmap_512_accessor :: "int list \<Rightarrow> (int \<times> int) list \<Rightarrow> 64 word list accessor" where
  "bitmap_512_accessor ids cases = accessor ids cases (\<lambda>_. of_wire_buffer_bitmap_512_get) (\<lambda>_. of_wire_buffer_bitmap_512_set)"

definition mac_accessor :: "int list \<Rightarrow> (int \<times> int) list \<Rightarrow> byte list accessor" where
  "mac_accessor ids cases = accessor ids cases (\<lambda>_. of_wire_buffer_mac_get) (\<lambda>_. of_wire_buffer_mac_set)"

definition port_name_accessor :: "int list \<Rightarrow> (int \<times> int) list \<Rightarrow> byte list accessor" where
  "port_name_accessor ids cases = accessor ids cases (\<lambda>_. of_wire_buffer_port_name_get) (\<lambda>_. of_wire_buffer_port_name_set)"

definition tab_name_accessor :: "int list \<Rightarrow> (int \<times> int) list \<Rightarrow> byte list accessor" where
  "tab_name_accessor ids cases = accessor ids cases (\<lambda>_. of_wire_buffer_tab_name_get) (\<lambda>_. of_wire_buffer_tab_name_set)"

definition desc_str_accessor :: "int list \<Rightarrow> (int \<times> int) list \<Rightarrow> byte list accessor" where
  "desc_str_accessor ids cases = accessor ids cases (\<lambda>_. of_wire_buffer_desc_str_get) (\<lambda>_. of_wire_buffer_desc_str_set)"

definition ser_num_accessor :: "int list \<Rightarrow> (int \<times> int) list \<Rightarrow> byte list accessor" where
  "ser_num_accessor ids cases = accessor ids cases (\<lambda>_. of_wire_buffer_ser_num_get) (\<lambda>_. of_wire_buffer_ser_num_set)"

definition str64_accessor :: "int list \<Rightarrow> (int \<times> int) list \<Rightarrow> byte list accessor" where
  "str64_accessor ids cases = accessor ids cases (\<lambda>_. of_wire_buffer_str64_get) (\<lambda>_. of_wire_buffer_str64_set)"

definition ipv6_accessor :: "int list \<Rightarrow> (int \<times> int) list \<Rightarrow> byte list accessor" where
  "ipv6_accessor ids cases = accessor ids cases (\<lambda>_. of_wire_buffer_ipv6_get) (\<lambda>_. of_wire_buffer_ipv6_set)"

text \<open>The accessors of all kinds in one table, and the contract of each kind.\<close>

datatype field =
    U8 "byte accessor" | U16 "16 word accessor" | U32 "32 word accessor" | U64 "64 word accessor"
  | PortNo "32 word accessor" | Bmap "64 word accessor" | U128 "(64 word \<times> 64 word) accessor"
  | Bitmap512 "64 word list accessor" | Octets nat "byte list accessor"

fun field_ok :: "field \<Rightarrow> bool" where
  "field_ok (U8 a) = accessor_ok (\<lambda>_. 1) (\<lambda>_ _. True) a"
| "field_ok (U16 a) = accessor_ok (\<lambda>_. 2) (\<lambda>_ _. True) a"
| "field_ok (U32 a) = accessor_ok (\<lambda>_. 4) (\<lambda>_ _. True) a"
| "field_ok (U64 a) = accessor_ok (\<lambda>_. 8) (\<lambda>_ _. True) a"
| "field_ok (PortNo a) = accessor_ok port_no_width port_no_valid a"
| "field_ok (Bmap a) = accessor_ok wc_bmap_width wc_bmap_valid a"
| "field_ok (U128 a) = accessor_ok (\<lambda>_. 16) (\<lambda>_ _. True) a"
| "field_ok (Bitmap512 a) = accessor_ok (\<lambda>_. 64) (\<lambda>_ words. length words = 8) a"
| "field_ok (Octets n a) = accessor_ok (\<lambda>_. n) (\<lambda>_ xs. length xs = n) a"

lemma accessors_ok:
  "inside ids cases (\<lambda>_. 1) \<Longrightarrow> field_ok (U8 (u8_accessor ids cases))"
  "inside ids cases (\<lambda>_. 2) \<Longrightarrow> field_ok (U16 (u16_accessor ids cases))"
  "inside ids cases (\<lambda>_. 4) \<Longrightarrow> field_ok (U32 (u32_accessor ids cases))"
  "inside ids cases (\<lambda>_. 8) \<Longrightarrow> field_ok (U64 (u64_accessor ids cases))"
  "inside ids cases (\<lambda>_. 4) \<Longrightarrow> field_ok (U32 (ipv4_accessor ids cases))"
  "inside ids cases port_no_width \<Longrightarrow> field_ok (PortNo (port_no_accessor ids cases))"
  "inside ids cases wc_bmap_width \<Longrightarrow> field_ok (Bmap (wc_bmap_accessor ids cases))"
  "inside ids cases (\<lambda>_. 16) \<Longrightarrow> field_ok (U128 (checksum_128_accessor ids cases))"
  "inside ids cases (\<lambda>_. 64) \<Longrightarrow> field_ok (Bitmap512 (bitmap_512_accessor ids cases))"
  by (simp_all only: field_ok.simps u8_accessor_def u16_accessor_def u32_accessor_def u64_accessor_def
      ipv4_accessor_def port_no_accessor_def wc_bmap_accessor_def checksum_128_accessor_def bitmap_512_accessor_def
      u8_field.accessors_in u16_field.accessors_in u32_field.accessors_in u64_field.accessors_in ipv4_field.accessors_in
      port_no_field.accessors_in wc_bmap_field.accessors_in u64_pair_field.accessors_in bitmap_512_field.accessors_in)

lemmas octets_kinds = mac_accessor_def of_wire_buffer_mac_get_def of_wire_buffer_mac_set_def
  port_name_accessor_def of_wire_buffer_port_name_get_def of_wire_buffer_port_name_set_def
  tab_name_accessor_def of_wire_buffer_tab_name_get_def of_wire_buffer_tab_name_set_def
  desc_str_accessor_def of_wire_buffer_desc_str_get_def of_wire_buffer_desc_str_set_def
  ser_num_accessor_def of_wire_buffer_ser_num_get_def of_wire_buffer_ser_num_set_def str64_accessor_def
  of_wire_buffer_str64_get_def of_wire_buffer_str64_set_def ipv6_accessor_def of_wire_buffer_ipv6_get_def
  of_wire_buffer_ipv6_set_def

lemma octets_accessors_ok:
  "inside ids cases (\<lambda>_. 6) \<Longrightarrow> field_ok (Octets 6 (mac_accessor ids cases))"
  "inside ids cases (\<lambda>_. 16) \<Longrightarrow> field_ok (Octets 16 (port_name_accessor ids cases))"
  "inside ids cases (\<lambda>_. 32) \<Longrightarrow> field_ok (Octets 32 (tab_name_accessor ids cases))"
  "inside ids cases (\<lambda>_. 256) \<Longrightarrow> field_ok (Octets 256 (desc_str_accessor ids cases))"
  "inside ids cases (\<lambda>_. 32) \<Longrightarrow> field_ok (Octets 32 (ser_num_accessor ids cases))"
  "inside ids cases (\<lambda>_. 64) \<Longrightarrow> field_ok (Octets 64 (str64_accessor ids cases))"
  "inside ids cases (\<lambda>_. 16) \<Longrightarrow> field_ok (Octets 16 (ipv6_accessor ids cases))"
  using wire_field.accessors_in [OF octets_field, of 6] wire_field.accessors_in [OF octets_field, of 16]
    wire_field.accessors_in [OF octets_field, of 32] wire_field.accessors_in [OF octets_field, of 64]
    wire_field.accessors_in [OF octets_field, of 256]
  by (simp_all add: octets_kinds)

lemmas inside_rows = inside_def port_no_width_def wc_bmap_width_def of_object_fixed_len_def

end
