(* ===== verification/Construct.thy ===== *)
theory Construct
  imports FieldAccess
begin

text \<open>
  Making objects of a class: the functions \<open>of_X_new\<close>, \<open>of_X_init\<close> and \<open>of_X_push_wire_types\<close> of the
  generated class files, which differ between classes in the data of a \<open>wire_class\<close> only, and the functions
  of \<^verbatim>\<open>src/of_type_maps.c\<close> that read and write an object's length on the wire.
\<close>

subsection \<open>Lengths on the wire\<close>

definition of_object_message_wire_length_get :: "of_object \<Rightarrow> int res" where
  "of_object_message_wire_length_get obj =
     (case wbuf obj of None \<Rightarrow> Inl AssertFail
      | Some w \<Rightarrow> (case wbuf_buf w of None \<Rightarrow> Inl NullDeref
        | Some b \<Rightarrow> bnd (of_message_length_get b) (\<lambda>l. Inr (uint l))))"

definition of_object_message_wire_length_set :: "of_object \<Rightarrow> int \<Rightarrow> of_object res" where
  "of_object_message_wire_length_set obj bytes =
     (case wbuf obj of None \<Rightarrow> Inl AssertFail
      | Some w \<Rightarrow> (case wbuf_buf w of None \<Rightarrow> Inl NullDeref
        | Some b \<Rightarrow> bnd (of_message_length_set b (word_of_int bytes)) (\<lambda>b.
            Inr (obj\<lparr>wbuf := Some (w\<lparr>wbuf_buf := Some b\<rparr>)\<rparr>))))"

text \<open>\<open>of_object_u16_get\<close> and \<open>of_object_u16_set\<close> of \<^verbatim>\<open>src/loci_int.h\<close>.\<close>

definition of_object_u16_get :: "of_object \<Rightarrow> int \<Rightarrow> int res" where
  "of_object_u16_get obj offset =
     bnd (of_wire_buffer_u16_get (wbuf obj) (obj_offset obj + offset)) (\<lambda>x. Inr (uint x))"

definition of_object_u16_set :: "of_object \<Rightarrow> int \<Rightarrow> int \<Rightarrow> of_object res" where
  "of_object_u16_set obj offset value =
     bnd (of_wire_buffer_u16_set (wbuf obj) (obj_offset obj + offset) (word_of_int value)) (\<lambda>w.
       Inr (obj\<lparr>wbuf := Some w\<rparr>))"

definition of_tlv16_wire_length_get :: "of_object \<Rightarrow> int res" where
  "of_tlv16_wire_length_get obj = c_assert (wbuf obj \<noteq> None) (of_object_u16_get obj 2)"

definition of_tlv16_wire_length_set :: "of_object \<Rightarrow> int \<Rightarrow> of_object res" where
  "of_tlv16_wire_length_set obj bytes = c_assert (wbuf obj \<noteq> None) (of_object_u16_set obj 2 bytes)"

definition of_oxm_wire_length_get :: "of_object \<Rightarrow> int res" where
  "of_oxm_wire_length_get obj = c_assert (wbuf obj \<noteq> None)
     (bnd (of_wire_buffer_u32_get (wbuf obj) (obj_offset obj)) (\<lambda>type_len. Inr (uint (type_len AND 0xff) + 4)))"

definition of_u16_len_wire_length_get :: "of_object \<Rightarrow> int res" where
  "of_u16_len_wire_length_get obj = c_assert (wbuf obj \<noteq> None) (of_object_u16_get obj 0)"

definition of_u16_len_wire_length_set :: "of_object \<Rightarrow> int \<Rightarrow> of_object res" where
  "of_u16_len_wire_length_set obj bytes = c_assert (wbuf obj \<noteq> None) (of_object_u16_set obj 0 bytes)"

definition OF_PACKET_QUEUE_LENGTH_OFFSET :: "int \<Rightarrow> int" where
  "OF_PACKET_QUEUE_LENGTH_OFFSET ver = (if ver \<ge> 3 then 8 else 4)"

definition of_packet_queue_wire_length_get :: "of_object \<Rightarrow> int res" where
  "of_packet_queue_wire_length_get obj = c_assert (wbuf obj \<noteq> None)
     (of_object_u16_get obj (OF_PACKET_QUEUE_LENGTH_OFFSET (obj_version obj)))"

definition of_packet_queue_wire_length_set :: "of_object \<Rightarrow> int \<Rightarrow> of_object res" where
  "of_packet_queue_wire_length_set obj bytes = c_assert (wbuf obj \<noteq> None)
     (of_object_u16_set obj (OF_PACKET_QUEUE_LENGTH_OFFSET (obj_version obj)) bytes)"

definition of_meter_stats_wire_length_get :: "of_object \<Rightarrow> int res" where
  "of_meter_stats_wire_length_get obj = c_assert (wbuf obj \<noteq> None) (of_object_u16_get obj 4)"

definition of_meter_stats_wire_length_set :: "of_object \<Rightarrow> int \<Rightarrow> of_object res" where
  "of_meter_stats_wire_length_set obj bytes = c_assert (wbuf obj \<noteq> None) (of_object_u16_set obj 4 bytes)"

text \<open>Objects whose length is on the wire from version 1.4 on: before, they have their fixed length.\<close>

definition wire_length_from_14_get :: "int \<Rightarrow> of_object \<Rightarrow> int res" where
  "wire_length_from_14_get offset obj = c_assert (wbuf obj \<noteq> None)
     (if obj_version obj \<ge> 5 then of_object_u16_get obj offset
      else of_object_fixed_len (obj_version obj) (object_id obj))"

definition wire_length_from_14_set :: "int \<Rightarrow> of_object \<Rightarrow> int \<Rightarrow> of_object res" where
  "wire_length_from_14_set offset obj bytes = c_assert (wbuf obj \<noteq> None)
     (if obj_version obj \<ge> 5 then of_object_u16_set obj offset bytes
      else bnd (of_object_fixed_len (obj_version obj) (object_id obj)) (\<lambda>n. c_assert (obj_length obj = n) (Inr obj)))"

definition of_port_desc_wire_length_get :: "of_object \<Rightarrow> int res" where
  "of_port_desc_wire_length_get = wire_length_from_14_get 4"

definition of_port_desc_wire_length_set :: "of_object \<Rightarrow> int \<Rightarrow> of_object res" where
  "of_port_desc_wire_length_set = wire_length_from_14_set 4"

definition of_port_stats_entry_wire_length_get :: "of_object \<Rightarrow> int res" where
  "of_port_stats_entry_wire_length_get = wire_length_from_14_get 0"

definition of_port_stats_entry_wire_length_set :: "of_object \<Rightarrow> int \<Rightarrow> of_object res" where
  "of_port_stats_entry_wire_length_set = wire_length_from_14_set 0"

definition of_queue_stats_entry_wire_length_get :: "of_object \<Rightarrow> int res" where
  "of_queue_stats_entry_wire_length_get = wire_length_from_14_get 0"

definition of_queue_stats_entry_wire_length_set :: "of_object \<Rightarrow> int \<Rightarrow> of_object res" where
  "of_queue_stats_entry_wire_length_set = wire_length_from_14_set 0"

definition of_queue_desc_wire_length_get :: "of_object \<Rightarrow> int res" where
  "of_queue_desc_wire_length_get obj = c_assert (wbuf obj \<noteq> None) (of_object_u16_get obj 8)"

definition of_queue_desc_wire_length_set :: "of_object \<Rightarrow> int \<Rightarrow> of_object res" where
  "of_queue_desc_wire_length_set obj bytes = c_assert (wbuf obj \<noteq> None) (of_object_u16_set obj 8 bytes)"

subsection \<open>Constructors\<close>

text \<open>One assignment of \<open>of_X_push_wire_types\<close>: the object's version or a constant, at a place in the object.\<close>

datatype wire_type = PutVersion int | Put8 int byte | Put16 int "16 word" | Put32 int "32 word"

fun put_wire_type :: "int \<Rightarrow> int \<Rightarrow> wire_type \<Rightarrow> byte list \<Rightarrow> byte list res" where
  "put_wire_type ver p (PutVersion q) b = buf_u8_set b (p + q) (word_of_int ver)"
| "put_wire_type ver p (Put8 q x) b = buf_u8_set b (p + q) x"
| "put_wire_type ver p (Put16 q x) b = buf_u16_set b (p + q) x"
| "put_wire_type ver p (Put32 q x) b = buf_u32_set b (p + q) x"

fun put_wire_types :: "int \<Rightarrow> int \<Rightarrow> wire_type list \<Rightarrow> byte list \<Rightarrow> byte list res" where
  "put_wire_types ver p [] b = Inr b"
| "put_wire_types ver p (t # ts) b = bnd (put_wire_type ver p t b) (put_wire_types ver p ts)"

text \<open>What follows the wire types in \<open>of_X_new\<close>: writing the length, and for embedded matches the length of the empty match.\<close>

datatype finish =
    Tlv16Length | MessageLength | U16Length | PacketQueueLength | PortDescLength | PortStatsLength
  | QueueStatsLength | MeterStatsLength | QueueDescLength | MatchTlv int

fun do_finish :: "finish \<Rightarrow> of_object \<Rightarrow> of_object res" where
  "do_finish Tlv16Length obj = of_tlv16_wire_length_set obj (obj_length obj)"
| "do_finish MessageLength obj = of_object_message_wire_length_set obj (obj_length obj)"
| "do_finish U16Length obj = of_u16_len_wire_length_set obj (obj_length obj)"
| "do_finish PacketQueueLength obj = of_packet_queue_wire_length_set obj (obj_length obj)"
| "do_finish PortDescLength obj = of_port_desc_wire_length_set obj (obj_length obj)"
| "do_finish PortStatsLength obj = of_port_stats_entry_wire_length_set obj (obj_length obj)"
| "do_finish QueueStatsLength obj = of_queue_stats_entry_wire_length_set obj (obj_length obj)"
| "do_finish MeterStatsLength obj = of_meter_stats_wire_length_set obj (obj_length obj)"
| "do_finish QueueDescLength obj = of_queue_desc_wire_length_set obj (obj_length obj)"
| "do_finish (MatchTlv offset) obj = (if obj_version obj \<ge> 3 then of_object_u16_set obj offset 4 else Inr obj)"

fun do_finishes :: "finish list \<Rightarrow> of_object \<Rightarrow> of_object res" where
  "do_finishes [] obj = Inr obj"
| "do_finishes (s # ss) obj = bnd (do_finish s obj) (do_finishes ss)"

text \<open>
  A class: its id, whether \<open>of_X_new\<close> asks for the largest buffer or for the fixed length, the wire types by
  version (\<open>None\<close> when the class has none to push), and the rest of \<open>of_X_new\<close>.
\<close>

record wire_class =
  class_id :: int
  whole_buffer :: bool
  wire_types :: "(int \<times> wire_type list) list option"
  finishes :: "finish list"

definition OF_WIRE_BUFFER_MAX_LENGTH :: int where
  "OF_WIRE_BUFFER_MAX_LENGTH = 65535"

definition class_init :: "wire_class \<Rightarrow> of_object \<Rightarrow> int \<Rightarrow> int \<Rightarrow> bool \<Rightarrow> of_object res" where
  "class_init c = of_object_init (class_id c)"

definition push_wire_types :: "(int \<times> wire_type list) list \<Rightarrow> of_object \<Rightarrow> of_object res" where
  "push_wire_types cases obj =
     (case wbuf obj of None \<Rightarrow> Inl NullDeref
      | Some w \<Rightarrow> (case map_of cases (obj_version obj) of None \<Rightarrow> Inl Unreachable
        | Some ts \<Rightarrow> (case wbuf_buf w of None \<Rightarrow> Inl NullDeref
          | Some b \<Rightarrow> bnd (put_wire_types (obj_version obj) (obj_offset obj) ts b) (\<lambda>b.
              Inr (obj\<lparr>wbuf := Some (w\<lparr>wbuf_buf := Some b\<rparr>)\<rparr>)))))"

definition class_new :: "wire_class \<Rightarrow> bool \<Rightarrow> bool \<Rightarrow> byte heap_reply \<Rightarrow> int \<Rightarrow> of_object option res" where
  "class_new c got_obj got_wbuf h version =
     bnd (of_object_fixed_len version (class_id c)) (\<lambda>bytes.
     case of_object_new got_obj got_wbuf h (if whole_buffer c then OF_WIRE_BUFFER_MAX_LENGTH else bytes) of
       None \<Rightarrow> Inr None
     | Some obj \<Rightarrow>
         bnd (class_init c obj version bytes False) (\<lambda>obj.
         bnd (case wire_types c of None \<Rightarrow> Inr obj | Some cases \<Rightarrow> push_wire_types cases obj) (\<lambda>obj.
         bnd (do_finishes (finishes c) obj) (\<lambda>obj.
         Inr (Some obj)))))"

subsection \<open>What a constructor leaves\<close>

text \<open>The bytes a wire type takes, and what it leaves there.\<close>

fun wire_place :: "wire_type \<Rightarrow> int \<times> int" where
  "wire_place (PutVersion q) = (q, 1)"
| "wire_place (Put8 q x) = (q, 1)"
| "wire_place (Put16 q x) = (q, 2)"
| "wire_place (Put32 q x) = (q, 4)"

fun wire_holds :: "int \<Rightarrow> byte list \<Rightarrow> wire_type \<Rightarrow> bool" where
  "wire_holds ver b (PutVersion q) \<longleftrightarrow> buf_u8_get b q = Inr (word_of_int ver)"
| "wire_holds ver b (Put8 q x) \<longleftrightarrow> buf_u8_get b q = Inr x"
| "wire_holds ver b (Put16 q x) \<longleftrightarrow> buf_u16_get b q = Inr x"
| "wire_holds ver b (Put32 q x) \<longleftrightarrow> buf_u32_get b q = Inr x"

definition apart :: "int \<times> int \<Rightarrow> int \<times> int \<Rightarrow> bool" where
  "apart x y \<longleftrightarrow> fst x + snd x \<le> fst y \<or> fst y + snd y \<le> fst x"

text \<open>The rest of \<open>of_X_new\<close> as wire types, for an object of \<open>n\<close> bytes.\<close>

fun finish_types :: "int \<Rightarrow> int \<Rightarrow> finish \<Rightarrow> wire_type list" where
  "finish_types ver n Tlv16Length = [Put16 2 (word_of_int n)]"
| "finish_types ver n MessageLength = [Put16 2 (word_of_int n)]"
| "finish_types ver n U16Length = [Put16 0 (word_of_int n)]"
| "finish_types ver n PacketQueueLength = [Put16 (OF_PACKET_QUEUE_LENGTH_OFFSET ver) (word_of_int n)]"
| "finish_types ver n PortDescLength = (if ver \<ge> 5 then [Put16 4 (word_of_int n)] else [])"
| "finish_types ver n PortStatsLength = (if ver \<ge> 5 then [Put16 0 (word_of_int n)] else [])"
| "finish_types ver n QueueStatsLength = (if ver \<ge> 5 then [Put16 0 (word_of_int n)] else [])"
| "finish_types ver n MeterStatsLength = [Put16 4 (word_of_int n)]"
| "finish_types ver n QueueDescLength = [Put16 8 (word_of_int n)]"
| "finish_types ver n (MatchTlv q) = (if ver \<ge> 3 then [Put16 q 4] else [])"

definition all_types :: "wire_class \<Rightarrow> int \<Rightarrow> int \<Rightarrow> wire_type list option" where
  "all_types c ver n =
     map_option (\<lambda>ts. ts @ concat (map (finish_types ver n) (finishes c)))
       (case wire_types c of None \<Rightarrow> Some [] | Some cases \<Rightarrow> map_of cases ver)"

definition class_wf :: "wire_class \<Rightarrow> int \<Rightarrow> int \<Rightarrow> bool" where
  "class_wf c ver n \<longleftrightarrow> of_object_fixed_len ver (class_id c) = Inr n \<and> 0 \<le> n \<and> n \<le> 65535 \<and> (whole_buffer c \<or> 0 < n) \<and>
     (case all_types c ver n of None \<Rightarrow> False
      | Some ts \<Rightarrow> list_all (\<lambda>t. 0 \<le> fst (wire_place t) \<and> fst (wire_place t) + snd (wire_place t) \<le> n) ts \<and>
          sorted_wrt apart (map wire_place ts))"

lemma put_wire_type_block:
  "\<exists>xs. int (length xs) = snd (wire_place t) \<and>
     (\<forall>p b. put_wire_type ver p t b = wr_block b (p + fst (wire_place t)) xs)"
proof (cases t)
  case (PutVersion q)
  then show ?thesis
    by (intro exI [of _ "[word_of_int ver]"]) (simp add: buf_u8_set_def wr_as_block)
next
  case (Put8 q x)
  then show ?thesis
    by (intro exI [of _ "[x]"]) (simp add: buf_u8_set_def wr_as_block)
next
  case (Put16 q x)
  then show ?thesis
    by (intro exI [of _ "be_bytes 2 x"]) (simp add: buf_u16_set_def)
next
  case (Put32 q x)
  then show ?thesis
    by (intro exI [of _ "be_bytes 4 x"]) (simp add: buf_u32_set_def)
qed

lemma wr_block_append:
  "0 \<le> p \<Longrightarrow> p + int (length xs) \<le> int (length b) \<Longrightarrow>
   \<exists>b'. wr_block b p xs = Inr b' \<and> length b' = length b \<and> wr_block (b @ r) p xs = Inr (b' @ r)"
  by (simp add: wr_block_def min_def) linarith

lemma put_wire_type_ok:
  assumes "0 \<le> fst (wire_place t)" and "fst (wire_place t) + snd (wire_place t) \<le> int (length b)"
  shows "\<exists>b'. put_wire_type ver 0 t b = Inr b' \<and> length b' = length b \<and> put_wire_type ver 0 t (b @ r) = Inr (b' @ r) \<and>
    wire_holds ver b' t \<and>
    (\<forall>t'. apart (wire_place t') (wire_place t) \<longrightarrow> wire_holds ver b t' \<longrightarrow> wire_holds ver b' t')"
proof -
  obtain xs where xs: "int (length xs) = snd (wire_place t)"
    "\<And>p b. put_wire_type ver p t b = wr_block b (p + fst (wire_place t)) xs"
    using put_wire_type_block [of t ver] by blast
  obtain b' where b': "put_wire_type ver 0 t b = Inr b'" "length b' = length b"
    "put_wire_type ver 0 t (b @ r) = Inr (b' @ r)"
    using wr_block_append [of "fst (wire_place t)" xs b r] assms xs by auto
  have "wire_holds ver b' t"
    using b'(1) u8.get_put u16.get_put u32.get_put by (cases t) auto
  moreover have "wire_holds ver b' t'" if "apart (wire_place t') (wire_place t)" "wire_holds ver b t'" for t'
  proof -
    have "rd_block b' q (nat m) = rd_block b q (nat m)" if "wire_place t' = (q, m)" "0 \<le> m" for q m
      using rd_block_wr_block_other [of b "fst (wire_place t)" xs b' q "nat m"] b'(1) xs that
        \<open>apart (wire_place t') (wire_place t)\<close> by (auto simp: apart_def)
    then show ?thesis
      using that(2) by (cases t') (force simp: buf_u8_get_def buf_u16_get_def buf_u32_get_def rd_as_block)+
  qed
  ultimately show ?thesis
    using b' by blast
qed

lemma put_wire_types_ok:
  "list_all (\<lambda>t. 0 \<le> fst (wire_place t) \<and> fst (wire_place t) + snd (wire_place t) \<le> int (length b)) ts \<Longrightarrow>
   sorted_wrt apart (map wire_place ts) \<Longrightarrow>
   \<exists>b'. put_wire_types ver 0 ts b = Inr b' \<and> length b' = length b \<and> put_wire_types ver 0 ts (b @ r) = Inr (b' @ r) \<and>
     list_all (wire_holds ver b') ts \<and>
     (\<forall>t. list_all (\<lambda>t'. apart (wire_place t) (wire_place t')) ts \<longrightarrow> wire_holds ver b t \<longrightarrow> wire_holds ver b' t)"
proof (induction ts arbitrary: b)
  case (Cons t ts)
  obtain b1 where b1: "put_wire_type ver 0 t b = Inr b1" "length b1 = length b"
    "put_wire_type ver 0 t (b @ r) = Inr (b1 @ r)" "wire_holds ver b1 t"
    "\<forall>t'. apart (wire_place t') (wire_place t) \<longrightarrow> wire_holds ver b t' \<longrightarrow> wire_holds ver b1 t'"
    using put_wire_type_ok [of t b ver r] Cons.prems(1) by auto
  obtain b2 where b2: "put_wire_types ver 0 ts b1 = Inr b2" "length b2 = length b1"
    "put_wire_types ver 0 ts (b1 @ r) = Inr (b2 @ r)" "list_all (wire_holds ver b2) ts"
    "\<forall>t. list_all (\<lambda>t'. apart (wire_place t) (wire_place t')) ts \<longrightarrow> wire_holds ver b1 t \<longrightarrow> wire_holds ver b2 t"
    using Cons.IH [of b1] Cons.prems b1(2) by auto
  have "wire_holds ver b2 t"
    using b2(5) b1(4) Cons.prems(2) by (auto simp: list_all_iff)
  then show ?case
    using b1 b2 by (intro exI [of _ b2]) simp
qed simp

text \<open>An object of class id \<open>i\<close> that starts its own buffer.\<close>

definition fresh_object :: "int \<Rightarrow> int \<Rightarrow> int \<Rightarrow> int \<Rightarrow> byte list \<Rightarrow> of_object" where
  "fresh_object i ver n alloc b =
     \<lparr>wbuf = Some \<lparr>wbuf_buf = Some b, alloc_bytes = alloc, current_bytes = n\<rparr>, obj_offset = 0, object_id = i,
      obj_length = n, obj_version = ver, has_parent = False\<rparr>"

lemma put_wire_types_append:
  "put_wire_types ver p (ts @ us) = (\<lambda>b. bnd (put_wire_types ver p ts b) (put_wire_types ver p us))"
  by (induction ts) (rule ext, simp add: bnd_assoc)+

lemma u16_set_fresh:
  assumes "0 \<le> q" and "q + 2 \<le> n"
  shows "of_object_u16_set (fresh_object i ver n alloc b) q x =
    bnd (put_wire_types ver 0 [Put16 q (word_of_int x)] b) (\<lambda>b. Inr (fresh_object i ver n alloc b))"
  using assms by (simp add: of_object_u16_set_def fresh_object_def of_wire_buffer_u16_set_def checked_set_def access_check_def
      c_assert_def bnd_assoc)

lemma do_finish_fresh:
  assumes "of_object_fixed_len ver i = Inr n"
    and "list_all (\<lambda>t. 0 \<le> fst (wire_place t) \<and> fst (wire_place t) + snd (wire_place t) \<le> n) (finish_types ver n f)"
  shows "do_finish f (fresh_object i ver n alloc b) =
    bnd (put_wire_types ver 0 (finish_types ver n f) b) (\<lambda>b. Inr (fresh_object i ver n alloc b))"
proof -
  have v: "wbuf (fresh_object i ver n alloc b) \<noteq> None" "obj_version (fresh_object i ver n alloc b) = ver"
    "obj_length (fresh_object i ver n alloc b) = n" "object_id (fresh_object i ver n alloc b) = i"
    by (simp_all add: fresh_object_def)
  show ?thesis
  proof (cases f)
    case MessageLength
    then show ?thesis
      by (simp add: fresh_object_def of_object_message_wire_length_set_def of_message_length_set_def bnd_assoc)
  qed (use assms v in \<open>auto simp: u16_set_fresh of_tlv16_wire_length_set_def of_u16_len_wire_length_set_def
      of_packet_queue_wire_length_set_def of_meter_stats_wire_length_set_def of_queue_desc_wire_length_set_def
      of_port_desc_wire_length_set_def of_port_stats_entry_wire_length_set_def of_queue_stats_entry_wire_length_set_def
      wire_length_from_14_set_def simp del: put_wire_types.simps(2) put_wire_type.simps\<close>)
qed

lemma do_finishes_fresh:
  assumes "of_object_fixed_len ver i = Inr n"
    and "list_all (\<lambda>t. 0 \<le> fst (wire_place t) \<and> fst (wire_place t) + snd (wire_place t) \<le> n) (concat (map (finish_types ver n) fs))"
  shows "do_finishes fs (fresh_object i ver n alloc b) =
    bnd (put_wire_types ver 0 (concat (map (finish_types ver n) fs)) b) (\<lambda>b. Inr (fresh_object i ver n alloc b))"
  using assms(2)
proof (induction fs arbitrary: b)
  case (Cons f fs)
  show ?case
    using Cons do_finish_fresh [OF assms(1), of f alloc b]
    by (simp add: put_wire_types_append bnd_assoc)
qed simp

text \<open>
  The bytes of a new object: zero but for the wire types.
\<close>

definition new_bytes :: "wire_class \<Rightarrow> int \<Rightarrow> int \<Rightarrow> byte list res" where
  "new_bytes c ver n =
     (case all_types c ver n of None \<Rightarrow> Inl Unreachable | Some ts \<Rightarrow> put_wire_types ver 0 ts (replicate (nat n) 0))"

lemma new_room:
  assumes "granted h" and "0 \<le> n" and "n \<le> alloc" and "0 < alloc" and "of_object_fixed_len ver i = Inr n"
  shows "\<exists>obj r. of_object_new True True h alloc = Some obj \<and>
    of_object_init i obj ver n False = Inr (fresh_object i ver n alloc (replicate (nat n) 0 @ r)) \<and>
    alloc = int (length (replicate (nat n) (0 :: byte) @ r))"
proof -
  let ?b = "map (junk h) [0..<nat alloc]"
  have o: "of_object_new True True h alloc = Some (zero_object\<lparr>wbuf := Some \<lparr>wbuf_buf = Some ?b, alloc_bytes = alloc, current_bytes = 0\<rparr>\<rparr>)"
    using assms by (simp add: of_object_new_def of_wire_buffer_new_def malloc_def)
  have "of_object_init i (zero_object\<lparr>wbuf := Some \<lparr>wbuf_buf = Some ?b, alloc_bytes = alloc, current_bytes = 0\<rparr>\<rparr>) ver n False =
      Inr (fresh_object i ver n alloc (replicate (nat n) 0 @ drop (nat n) ?b))"
    using assms by (cases "n = 0") (simp_all add: of_object_init_def zero_object_def of_wire_buffer_grow_def Let_def
        fresh_object_def wr_block_def)
  then show ?thesis
    using o assms by (intro exI conjI) (auto simp: nat_le_iff)
qed

lemma class_new_ok:
  assumes c: "class_wf c ver n" and h: "granted h"
  shows "\<exists>b r ts alloc. class_new c True True h ver = Inr (Some (fresh_object (class_id c) ver n alloc (b @ r))) \<and>
    new_bytes c ver n = Inr b \<and> int (length b) = n \<and> all_types c ver n = Some ts \<and> list_all (wire_holds ver b) ts \<and>
    alloc = int (length (b @ r))"
proof -
  let ?i = "class_id c" and ?in = "list_all (\<lambda>t. 0 \<le> fst (wire_place t) \<and> fst (wire_place t) + snd (wire_place t) \<le> n)"
  define alloc where "alloc = (if whole_buffer c then OF_WIRE_BUFFER_MAX_LENGTH else n)"
  obtain ts where ts: "all_types c ver n = Some ts" "?in ts" "sorted_wrt apart (map wire_place ts)"
    and n: "of_object_fixed_len ver ?i = Inr n" "0 \<le> n" "n \<le> alloc" "0 < alloc"
    using c by (auto simp: class_wf_def alloc_def OF_WIRE_BUFFER_MAX_LENGTH_def split: option.splits)
  obtain obj r where o: "of_object_new True True h alloc = Some obj"
    "of_object_init ?i obj ver n False = Inr (fresh_object ?i ver n alloc (replicate (nat n) 0 @ r))"
    "alloc = int (length (replicate (nat n) (0 :: byte) @ r))"
    using new_room [OF h n(2,3,4,1)] by blast
  define us where "us = (case wire_types c of None \<Rightarrow> [] | Some cases \<Rightarrow> the (map_of cases ver))"
  define vs where "vs = concat (map (finish_types ver n) (finishes c))"
  have t: "ts = us @ vs"
    using ts(1) by (auto simp: all_types_def us_def vs_def split: option.splits)
  obtain b where b: "put_wire_types ver 0 ts (replicate (nat n) 0) = Inr b" "int (length b) = n"
    "put_wire_types ver 0 ts (replicate (nat n) 0 @ r) = Inr (b @ r)" "list_all (wire_holds ver b) ts"
    using put_wire_types_ok [of "replicate (nat n) 0" ts ver r] ts n(2) by auto
  obtain b1 where b1: "put_wire_types ver 0 us (replicate (nat n) 0 @ r) = Inr b1" "put_wire_types ver 0 vs b1 = Inr (b @ r)"
    using b(3) by (auto simp: t put_wire_types_append bnd_Inr)
  have push: "(case wire_types c of None \<Rightarrow> Inr obj | Some cases \<Rightarrow> push_wire_types cases obj) = Inr (fresh_object ?i ver n alloc b1)"
    if "obj = fresh_object ?i ver n alloc (replicate (nat n) 0 @ r)" for obj
    using that b1(1) ts(1) by (auto simp: us_def all_types_def push_wire_types_def fresh_object_def split: option.splits)
  have fin: "do_finishes (finishes c) (fresh_object ?i ver n alloc b1) = Inr (fresh_object ?i ver n alloc (b @ r))"
    using do_finishes_fresh [OF n(1), of "finishes c" alloc b1] ts(2) b1(2) by (simp add: t vs_def)
  have "class_new c True True h ver = Inr (Some (fresh_object ?i ver n alloc (b @ r)))"
    using n(1) o(1,2) push fin by (simp add: class_new_def class_init_def flip: alloc_def)
  moreover have "new_bytes c ver n = Inr b"
    using ts(1) b(1) by (simp add: new_bytes_def)
  moreover have "alloc = int (length (b @ r))"
    using o(3) b(2) n(2) by simp
  ultimately show ?thesis
    using ts(1) b by blast
qed

text \<open>In every version that has objects of the class, the wire types lie in the object and share no byte.\<close>

definition class_ok :: "wire_class \<Rightarrow> bool" where
  "class_ok c \<longleftrightarrow> list_all (\<lambda>ver. case of_object_fixed_len ver (class_id c) of Inl _ \<Rightarrow> False
     | Inr n \<Rightarrow> n < 0 \<or> class_wf c ver n) [1, 2, 3, 4, 5]"

lemmas class_checks = class_ok_def class_wf_def all_types_def of_object_fixed_len_def apart_def
  OF_PACKET_QUEUE_LENGTH_OFFSET_def

subsection \<open>New messages\<close>

text \<open>
  A block that begins with \<open>n\<close> bytes that are zero but for the wire types \<open>ts\<close>, as far as the accessors of
  1, 2 and 4 bytes can tell.
\<close>

definition fresh :: "int \<Rightarrow> int \<Rightarrow> wire_type list \<Rightarrow> byte list \<Rightarrow> bool" where
  "fresh ver n ts b \<longleftrightarrow> n \<le> int (length b) \<and> list_all (wire_holds ver b) ts \<and>
     (\<forall>q. 0 \<le> q \<and> q + 1 \<le> n \<and> list_all (\<lambda>t. apart (q, 1) (wire_place t)) ts \<longrightarrow> buf_u8_get b q = Inr 0) \<and>
     (\<forall>q. 0 \<le> q \<and> q + 2 \<le> n \<and> list_all (\<lambda>t. apart (q, 2) (wire_place t)) ts \<longrightarrow> buf_u16_get b q = Inr 0) \<and>
     (\<forall>q. 0 \<le> q \<and> q + 4 \<le> n \<and> list_all (\<lambda>t. apart (q, 4) (wire_place t)) ts \<longrightarrow> buf_u32_get b q = Inr 0)"

lemma wire_holds_zero:
  assumes "0 \<le> fst (wire_place t)" and "fst (wire_place t) + snd (wire_place t) \<le> int n"
  shows "(\<forall>q. t = Put8 q 0 \<longrightarrow> wire_holds ver (replicate n 0) t) \<and> (\<forall>q. t = Put16 q 0 \<longrightarrow> wire_holds ver (replicate n 0) t) \<and>
    (\<forall>q. t = Put32 q 0 \<longrightarrow> wire_holds ver (replicate n 0) t)"
proof -
  have r: "rd_block (replicate n 0) q m = Inr (replicate m (0 :: byte))" if "0 \<le> q" "q + int m \<le> int n" for q m
    using that by (cases q) (auto simp: rd_block_def)
  have z: "be_word [0, 0] = (0 :: 16 word)" "be_word [0, 0, 0, 0] = (0 :: 32 word)"
    by (simp_all add: be_word_def)
  show ?thesis
    using assms by (auto simp: buf_u8_get_def buf_u16_get_def buf_u32_get_def rd_as_block r z eval_nat_numeral)
qed

lemma fresh_new_bytes:
  assumes c: "class_wf c ver n" and b: "new_bytes c ver n = Inr b" and ts: "all_types c ver n = Some ts"
  shows "fresh ver n ts (b @ r) \<and> int (length b) = n"
proof -
  let ?in = "\<lambda>t. 0 \<le> fst (wire_place t) \<and> fst (wire_place t) + snd (wire_place t) \<le> n"
  have n: "0 \<le> n" "list_all ?in ts" "sorted_wrt apart (map wire_place ts)"
    using c ts by (auto simp: class_wf_def)
  have p: "put_wire_types ver 0 ts (replicate (nat n) 0) = Inr b"
    using b ts by (simp add: new_bytes_def)
  obtain b' where b': "put_wire_types ver 0 ts (replicate (nat n) 0) = Inr b'" "length b' = nat n"
    "list_all (wire_holds ver b') ts"
    "\<And>t. list_all (\<lambda>t'. apart (wire_place t) (wire_place t')) ts \<Longrightarrow> wire_holds ver (replicate (nat n) 0) t \<Longrightarrow> wire_holds ver b' t"
    using put_wire_types_ok [of "replicate (nat n) 0" ts ver "[]"] n by auto
  then have [simp]: "b' = b"
    using p by simp
  have zero: "wire_holds ver b t" if "t = Put8 q 0 \<or> t = Put16 q 0 \<or> t = Put32 q 0" "?in t"
    "list_all (\<lambda>t'. apart (wire_place t) (wire_place t')) ts" for t q
    using b'(4) [of t] wire_holds_zero [of t "nat n" ver] that n(1) by auto
  have app: "wire_holds ver (b @ r) t" if "wire_holds ver b t" for t
  proof -
    have "rd_block (b @ r) q m = Inr xs" if "rd_block b q m = Inr xs" for q m xs
      using that by (auto simp: rd_block_Inr)
    then show ?thesis
      using that by (cases t) (auto simp: buf_u8_get_def buf_u16_get_def buf_u32_get_def rd_as_block bnd_Inr)
  qed
  have "list_all (wire_holds ver (b @ r)) ts"
    using b'(3) app by (auto simp: list_all_iff)
  moreover have "buf_u8_get (b @ r) q = Inr 0"
    if "0 \<le> q" "q + 1 \<le> n" "list_all (\<lambda>t. apart (q, 1) (wire_place t)) ts" for q
    using app [OF zero [of "Put8 q 0" q]] that by simp
  moreover have "buf_u16_get (b @ r) q = Inr 0"
    if "0 \<le> q" "q + 2 \<le> n" "list_all (\<lambda>t. apart (q, 2) (wire_place t)) ts" for q
    using app [OF zero [of "Put16 q 0" q]] that by simp
  moreover have "buf_u32_get (b @ r) q = Inr 0"
    if "0 \<le> q" "q + 4 \<le> n" "list_all (\<lambda>t. apart (q, 4) (wire_place t)) ts" for q
    using app [OF zero [of "Put32 q 0" q]] that by simp
  ultimately show ?thesis
    using b'(2) n(1) by (simp add: fresh_def)
qed

text \<open>A new message of the class is accepted by the validator and given the id of its class.\<close>

definition fresh_ok :: "wire_class \<Rightarrow> int \<Rightarrow> int \<Rightarrow> bool" where
  "fresh_ok c ver n \<longleftrightarrow> (case all_types c ver n of None \<Rightarrow> False | Some ts \<Rightarrow> \<forall>b. fresh ver n ts b \<longrightarrow>
     of_validate_message b n = Inr 0 \<and> of_message_version_get b = Inr (word_of_int ver) \<and>
     of_header_wire_object_id_get ver b 0 = Inr (class_id c))"

definition speaks :: "wire_class \<Rightarrow> bool" where
  "speaks c \<longleftrightarrow> list_all (\<lambda>ver. case of_object_fixed_len ver (class_id c) of Inl _ \<Rightarrow> False
     | Inr n \<Rightarrow> n < 0 \<or> fresh_ok c ver n) [1, 2, 3, 4, 5]"

end
