(* ===== verification/Class00.thy ===== *)
theory Class00
  imports Construct
begin

text \<open>
  The classes of \<^verbatim>\<open>src/class00.c\<close>: for each what its constructor, initialiser and
  \<open>push_wire_types\<close> write, and the scalar accessors, a getter and a setter for each field at a fixed offset.
\<close>

definition of_action_class :: wire_class where
  "of_action_class = \<lparr>class_id = OF_ACTION, whole_buffer = True, wire_types = None,
     finishes = []\<rparr>"

definition of_action_experimenter_class :: wire_class where
  "of_action_experimenter_class = \<lparr>class_id = OF_ACTION_EXPERIMENTER, whole_buffer = True, wire_types = None,
     finishes = []\<rparr>"

definition of_action_experimenter_experimenter :: "32 word accessor" where
  "of_action_experimenter_experimenter = u32_accessor [OF_ACTION_EXPERIMENTER] [(1, 4), (2, 4), (3, 4), (4, 4), (5, 4)]"

definition of_action_bsn_class :: wire_class where
  "of_action_bsn_class = \<lparr>class_id = OF_ACTION_BSN, whole_buffer = True, wire_types = None,
     finishes = []\<rparr>"

definition of_action_bsn_experimenter :: "32 word accessor" where
  "of_action_bsn_experimenter = u32_accessor [OF_ACTION_BSN] [(1, 4), (2, 4), (3, 4), (4, 4), (5, 4)]"

definition of_action_bsn_subtype :: "32 word accessor" where
  "of_action_bsn_subtype = u32_accessor [OF_ACTION_BSN] [(1, 8), (2, 8), (3, 8), (4, 8), (5, 8)]"

definition of_action_bsn_checksum_class :: wire_class where
  "of_action_bsn_checksum_class = \<lparr>class_id = OF_ACTION_BSN_CHECKSUM, whole_buffer = False, wire_types = Some [(1, [Put16 0 0xffff, Put32 4 0x5c16c7, Put32 8 0x4]),
     (2, [Put16 0 0xffff, Put32 4 0x5c16c7, Put32 8 0x4]),
     (3, [Put16 0 0xffff, Put32 4 0x5c16c7, Put32 8 0x4]),
     (4, [Put16 0 0xffff, Put32 4 0x5c16c7, Put32 8 0x4]),
     (5, [Put16 0 0xffff, Put32 4 0x5c16c7, Put32 8 0x4])],
     finishes = [Tlv16Length]\<rparr>"

definition of_action_bsn_checksum_experimenter :: "32 word accessor" where
  "of_action_bsn_checksum_experimenter = u32_accessor [OF_ACTION_BSN_CHECKSUM] [(1, 4), (2, 4), (3, 4), (4, 4), (5, 4)]"

definition of_action_bsn_checksum_subtype :: "32 word accessor" where
  "of_action_bsn_checksum_subtype = u32_accessor [OF_ACTION_BSN_CHECKSUM] [(1, 8), (2, 8), (3, 8), (4, 8), (5, 8)]"

definition of_action_bsn_checksum_checksum :: "(64 word \<times> 64 word) accessor" where
  "of_action_bsn_checksum_checksum = checksum_128_accessor [OF_ACTION_BSN_CHECKSUM] [(1, 12), (2, 12), (3, 12), (4, 12), (5, 12)]"

definition of_action_bsn_mirror_class :: wire_class where
  "of_action_bsn_mirror_class = \<lparr>class_id = OF_ACTION_BSN_MIRROR, whole_buffer = False, wire_types = Some [(1, [Put16 0 0xffff, Put32 4 0x5c16c7, Put32 8 0x1]),
     (2, [Put16 0 0xffff, Put32 4 0x5c16c7, Put32 8 0x1]),
     (3, [Put16 0 0xffff, Put32 4 0x5c16c7, Put32 8 0x1]),
     (4, [Put16 0 0xffff, Put32 4 0x5c16c7, Put32 8 0x1]),
     (5, [Put16 0 0xffff, Put32 4 0x5c16c7, Put32 8 0x1])],
     finishes = [Tlv16Length]\<rparr>"

definition of_action_bsn_mirror_experimenter :: "32 word accessor" where
  "of_action_bsn_mirror_experimenter = u32_accessor [OF_ACTION_BSN_MIRROR] [(1, 4), (2, 4), (3, 4), (4, 4), (5, 4)]"

definition of_action_bsn_mirror_subtype :: "32 word accessor" where
  "of_action_bsn_mirror_subtype = u32_accessor [OF_ACTION_BSN_MIRROR] [(1, 8), (2, 8), (3, 8), (4, 8), (5, 8)]"

definition of_action_bsn_mirror_dest_port :: "32 word accessor" where
  "of_action_bsn_mirror_dest_port = u32_accessor [OF_ACTION_BSN_MIRROR] [(1, 12), (2, 12), (3, 12), (4, 12), (5, 12)]"

definition of_action_bsn_mirror_vlan_tag :: "32 word accessor" where
  "of_action_bsn_mirror_vlan_tag = u32_accessor [OF_ACTION_BSN_MIRROR] [(1, 16), (2, 16), (3, 16), (4, 16), (5, 16)]"

definition of_action_bsn_mirror_copy_stage :: "byte accessor" where
  "of_action_bsn_mirror_copy_stage = u8_accessor [OF_ACTION_BSN_MIRROR] [(1, 20), (2, 20), (3, 20), (4, 20), (5, 20)]"

definition of_action_bsn_set_tunnel_dst_class :: wire_class where
  "of_action_bsn_set_tunnel_dst_class = \<lparr>class_id = OF_ACTION_BSN_SET_TUNNEL_DST, whole_buffer = False, wire_types = Some [(1, [Put16 0 0xffff, Put32 4 0x5c16c7, Put32 8 0x2]),
     (2, [Put16 0 0xffff, Put32 4 0x5c16c7, Put32 8 0x2]),
     (3, [Put16 0 0xffff, Put32 4 0x5c16c7, Put32 8 0x2]),
     (4, [Put16 0 0xffff, Put32 4 0x5c16c7, Put32 8 0x2]),
     (5, [Put16 0 0xffff, Put32 4 0x5c16c7, Put32 8 0x2])],
     finishes = [Tlv16Length]\<rparr>"

definition of_action_bsn_set_tunnel_dst_experimenter :: "32 word accessor" where
  "of_action_bsn_set_tunnel_dst_experimenter = u32_accessor [OF_ACTION_BSN_SET_TUNNEL_DST] [(1, 4), (2, 4), (3, 4), (4, 4), (5, 4)]"

definition of_action_bsn_set_tunnel_dst_subtype :: "32 word accessor" where
  "of_action_bsn_set_tunnel_dst_subtype = u32_accessor [OF_ACTION_BSN_SET_TUNNEL_DST] [(1, 8), (2, 8), (3, 8), (4, 8), (5, 8)]"

definition of_action_bsn_set_tunnel_dst_dst :: "32 word accessor" where
  "of_action_bsn_set_tunnel_dst_dst = u32_accessor [OF_ACTION_BSN_SET_TUNNEL_DST] [(1, 12), (2, 12), (3, 12), (4, 12), (5, 12)]"

definition of_action_enqueue_class :: wire_class where
  "of_action_enqueue_class = \<lparr>class_id = OF_ACTION_ENQUEUE, whole_buffer = False, wire_types = Some [(1, [Put16 0 0xb])],
     finishes = [Tlv16Length]\<rparr>"

definition of_action_enqueue_port :: "32 word accessor" where
  "of_action_enqueue_port = port_no_accessor [OF_ACTION_ENQUEUE] [(1, 4)]"

definition of_action_enqueue_queue_id :: "32 word accessor" where
  "of_action_enqueue_queue_id = u32_accessor [OF_ACTION_ENQUEUE] [(1, 12)]"

definition of_action_nicira_class :: wire_class where
  "of_action_nicira_class = \<lparr>class_id = OF_ACTION_NICIRA, whole_buffer = True, wire_types = None,
     finishes = []\<rparr>"

definition of_action_nicira_experimenter :: "32 word accessor" where
  "of_action_nicira_experimenter = u32_accessor [OF_ACTION_NICIRA] [(1, 4), (2, 4), (3, 4), (4, 4), (5, 4)]"

definition of_action_nicira_subtype :: "16 word accessor" where
  "of_action_nicira_subtype = u16_accessor [OF_ACTION_NICIRA] [(1, 8), (2, 8), (3, 8), (4, 8), (5, 8)]"

definition of_action_nicira_dec_ttl_class :: wire_class where
  "of_action_nicira_dec_ttl_class = \<lparr>class_id = OF_ACTION_NICIRA_DEC_TTL, whole_buffer = False, wire_types = Some [(1, [Put16 0 0xffff, Put32 4 0x2320, Put16 8 0x12]),
     (2, [Put16 0 0xffff, Put32 4 0x2320, Put16 8 0x12]),
     (3, [Put16 0 0xffff, Put32 4 0x2320, Put16 8 0x12]),
     (4, [Put16 0 0xffff, Put32 4 0x2320, Put16 8 0x12]),
     (5, [Put16 0 0xffff, Put32 4 0x2320, Put16 8 0x12])],
     finishes = [Tlv16Length]\<rparr>"

definition of_action_nicira_dec_ttl_experimenter :: "32 word accessor" where
  "of_action_nicira_dec_ttl_experimenter = u32_accessor [OF_ACTION_NICIRA_DEC_TTL] [(1, 4), (2, 4), (3, 4), (4, 4), (5, 4)]"

definition of_action_nicira_dec_ttl_subtype :: "16 word accessor" where
  "of_action_nicira_dec_ttl_subtype = u16_accessor [OF_ACTION_NICIRA_DEC_TTL] [(1, 8), (2, 8), (3, 8), (4, 8), (5, 8)]"

definition of_action_output_class :: wire_class where
  "of_action_output_class = \<lparr>class_id = OF_ACTION_OUTPUT, whole_buffer = True, wire_types = Some [(1, [Put16 0 0x0]),
     (2, [Put16 0 0x0]),
     (3, [Put16 0 0x0]),
     (4, [Put16 0 0x0]),
     (5, [Put16 0 0x0])],
     finishes = [Tlv16Length]\<rparr>"

definition of_action_output_port :: "32 word accessor" where
  "of_action_output_port = port_no_accessor [OF_ACTION_OUTPUT] [(1, 4), (2, 4), (3, 4), (4, 4), (5, 4)]"

definition of_action_output_max_len :: "16 word accessor" where
  "of_action_output_max_len = u16_accessor [OF_ACTION_OUTPUT] [(1, 6), (2, 8), (3, 8), (4, 8), (5, 8)]"

definition of_action_set_dl_dst_class :: wire_class where
  "of_action_set_dl_dst_class = \<lparr>class_id = OF_ACTION_SET_DL_DST, whole_buffer = False, wire_types = Some [(1, [Put16 0 0x5]),
     (2, [Put16 0 0x4])],
     finishes = [Tlv16Length]\<rparr>"

definition of_action_set_dl_dst_dl_addr :: "byte list accessor" where
  "of_action_set_dl_dst_dl_addr = mac_accessor [OF_ACTION_SET_DL_DST] [(1, 4), (2, 4)]"

definition of_action_set_dl_src_class :: wire_class where
  "of_action_set_dl_src_class = \<lparr>class_id = OF_ACTION_SET_DL_SRC, whole_buffer = False, wire_types = Some [(1, [Put16 0 0x4]),
     (2, [Put16 0 0x3])],
     finishes = [Tlv16Length]\<rparr>"

definition of_action_set_dl_src_dl_addr :: "byte list accessor" where
  "of_action_set_dl_src_dl_addr = mac_accessor [OF_ACTION_SET_DL_SRC] [(1, 4), (2, 4)]"

definition of_action_set_nw_dst_class :: wire_class where
  "of_action_set_nw_dst_class = \<lparr>class_id = OF_ACTION_SET_NW_DST, whole_buffer = False, wire_types = Some [(1, [Put16 0 0x7]),
     (2, [Put16 0 0x6])],
     finishes = [Tlv16Length]\<rparr>"

definition of_action_set_nw_dst_nw_addr :: "32 word accessor" where
  "of_action_set_nw_dst_nw_addr = u32_accessor [OF_ACTION_SET_NW_DST] [(1, 4), (2, 4)]"

definition of_action_set_nw_src_class :: wire_class where
  "of_action_set_nw_src_class = \<lparr>class_id = OF_ACTION_SET_NW_SRC, whole_buffer = False, wire_types = Some [(1, [Put16 0 0x6]),
     (2, [Put16 0 0x5])],
     finishes = [Tlv16Length]\<rparr>"

definition of_action_set_nw_src_nw_addr :: "32 word accessor" where
  "of_action_set_nw_src_nw_addr = u32_accessor [OF_ACTION_SET_NW_SRC] [(1, 4), (2, 4)]"

definition of_action_set_nw_tos_class :: wire_class where
  "of_action_set_nw_tos_class = \<lparr>class_id = OF_ACTION_SET_NW_TOS, whole_buffer = False, wire_types = Some [(1, [Put16 0 0x8]),
     (2, [Put16 0 0x7])],
     finishes = [Tlv16Length]\<rparr>"

definition of_action_set_nw_tos_nw_tos :: "byte accessor" where
  "of_action_set_nw_tos_nw_tos = u8_accessor [OF_ACTION_SET_NW_TOS] [(1, 4), (2, 4)]"

definition of_action_set_tp_dst_class :: wire_class where
  "of_action_set_tp_dst_class = \<lparr>class_id = OF_ACTION_SET_TP_DST, whole_buffer = False, wire_types = Some [(1, [Put16 0 0xa]),
     (2, [Put16 0 0xa])],
     finishes = [Tlv16Length]\<rparr>"

definition of_action_set_tp_dst_tp_port :: "16 word accessor" where
  "of_action_set_tp_dst_tp_port = u16_accessor [OF_ACTION_SET_TP_DST] [(1, 4), (2, 4)]"

definition of_action_set_tp_src_class :: wire_class where
  "of_action_set_tp_src_class = \<lparr>class_id = OF_ACTION_SET_TP_SRC, whole_buffer = False, wire_types = Some [(1, [Put16 0 0x9]),
     (2, [Put16 0 0x9])],
     finishes = [Tlv16Length]\<rparr>"

definition of_action_set_tp_src_tp_port :: "16 word accessor" where
  "of_action_set_tp_src_tp_port = u16_accessor [OF_ACTION_SET_TP_SRC] [(1, 4), (2, 4)]"

definition of_action_set_vlan_pcp_class :: wire_class where
  "of_action_set_vlan_pcp_class = \<lparr>class_id = OF_ACTION_SET_VLAN_PCP, whole_buffer = False, wire_types = Some [(1, [Put16 0 0x2]),
     (2, [Put16 0 0x2])],
     finishes = [Tlv16Length]\<rparr>"

definition of_action_set_vlan_pcp_vlan_pcp :: "byte accessor" where
  "of_action_set_vlan_pcp_vlan_pcp = u8_accessor [OF_ACTION_SET_VLAN_PCP] [(1, 4), (2, 4)]"

definition of_action_set_vlan_vid_class :: wire_class where
  "of_action_set_vlan_vid_class = \<lparr>class_id = OF_ACTION_SET_VLAN_VID, whole_buffer = False, wire_types = Some [(1, [Put16 0 0x1]),
     (2, [Put16 0 0x1])],
     finishes = [Tlv16Length]\<rparr>"

definition of_action_set_vlan_vid_vlan_vid :: "16 word accessor" where
  "of_action_set_vlan_vid_vlan_vid = u16_accessor [OF_ACTION_SET_VLAN_VID] [(1, 4), (2, 4)]"

definition of_action_strip_vlan_class :: wire_class where
  "of_action_strip_vlan_class = \<lparr>class_id = OF_ACTION_STRIP_VLAN, whole_buffer = False, wire_types = Some [(1, [Put16 0 0x3])],
     finishes = [Tlv16Length]\<rparr>"

definition of_header_class :: wire_class where
  "of_header_class = \<lparr>class_id = OF_HEADER, whole_buffer = True, wire_types = None,
     finishes = []\<rparr>"

definition of_header_xid :: "32 word accessor" where
  "of_header_xid = u32_accessor [OF_HEADER] [(1, 4), (2, 4), (3, 4), (4, 4), (5, 4)]"

definition of_stats_reply_class :: wire_class where
  "of_stats_reply_class = \<lparr>class_id = OF_STATS_REPLY, whole_buffer = True, wire_types = None,
     finishes = []\<rparr>"

definition of_stats_reply_xid :: "32 word accessor" where
  "of_stats_reply_xid = u32_accessor [OF_STATS_REPLY] [(1, 4), (2, 4), (3, 4), (4, 4), (5, 4)]"

definition of_stats_reply_flags :: "16 word accessor" where
  "of_stats_reply_flags = u16_accessor [OF_STATS_REPLY] [(1, 10), (2, 10), (3, 10), (4, 10), (5, 10)]"

definition of_aggregate_stats_reply_class :: wire_class where
  "of_aggregate_stats_reply_class = \<lparr>class_id = OF_AGGREGATE_STATS_REPLY, whole_buffer = True, wire_types = Some [(1, [PutVersion 0, Put8 1 0x11, Put16 8 0x2]),
     (2, [PutVersion 0, Put8 1 0x13, Put16 8 0x2]),
     (3, [PutVersion 0, Put8 1 0x13, Put16 8 0x2]),
     (4, [PutVersion 0, Put8 1 0x13, Put16 8 0x2]),
     (5, [PutVersion 0, Put8 1 0x13, Put16 8 0x2])],
     finishes = [MessageLength]\<rparr>"

definition of_aggregate_stats_reply_xid :: "32 word accessor" where
  "of_aggregate_stats_reply_xid = u32_accessor [OF_AGGREGATE_STATS_REPLY] [(1, 4), (2, 4), (3, 4), (4, 4), (5, 4)]"

definition of_aggregate_stats_reply_flags :: "16 word accessor" where
  "of_aggregate_stats_reply_flags = u16_accessor [OF_AGGREGATE_STATS_REPLY] [(1, 10), (2, 10), (3, 10), (4, 10), (5, 10)]"

definition of_aggregate_stats_reply_packet_count :: "64 word accessor" where
  "of_aggregate_stats_reply_packet_count = u64_accessor [OF_AGGREGATE_STATS_REPLY] [(1, 12), (2, 16), (3, 16), (4, 16), (5, 16)]"

definition of_aggregate_stats_reply_byte_count :: "64 word accessor" where
  "of_aggregate_stats_reply_byte_count = u64_accessor [OF_AGGREGATE_STATS_REPLY] [(1, 20), (2, 24), (3, 24), (4, 24), (5, 24)]"

definition of_aggregate_stats_reply_flow_count :: "32 word accessor" where
  "of_aggregate_stats_reply_flow_count = u32_accessor [OF_AGGREGATE_STATS_REPLY] [(1, 28), (2, 32), (3, 32), (4, 32), (5, 32)]"

definition of_stats_request_class :: wire_class where
  "of_stats_request_class = \<lparr>class_id = OF_STATS_REQUEST, whole_buffer = True, wire_types = None,
     finishes = []\<rparr>"

definition of_stats_request_xid :: "32 word accessor" where
  "of_stats_request_xid = u32_accessor [OF_STATS_REQUEST] [(1, 4), (2, 4), (3, 4), (4, 4), (5, 4)]"

definition of_stats_request_flags :: "16 word accessor" where
  "of_stats_request_flags = u16_accessor [OF_STATS_REQUEST] [(1, 10), (2, 10), (3, 10), (4, 10), (5, 10)]"

definition of_aggregate_stats_request_class :: wire_class where
  "of_aggregate_stats_request_class = \<lparr>class_id = OF_AGGREGATE_STATS_REQUEST, whole_buffer = True, wire_types = Some [(1, [PutVersion 0, Put8 1 0x10, Put16 8 0x2]),
     (2, [PutVersion 0, Put8 1 0x12, Put16 8 0x2]),
     (3, [PutVersion 0, Put8 1 0x12, Put16 8 0x2]),
     (4, [PutVersion 0, Put8 1 0x12, Put16 8 0x2]),
     (5, [PutVersion 0, Put8 1 0x12, Put16 8 0x2])],
     finishes = [MessageLength, MatchTlv 50]\<rparr>"

definition of_aggregate_stats_request_xid :: "32 word accessor" where
  "of_aggregate_stats_request_xid = u32_accessor [OF_AGGREGATE_STATS_REQUEST] [(1, 4), (2, 4), (3, 4), (4, 4), (5, 4)]"

definition of_aggregate_stats_request_flags :: "16 word accessor" where
  "of_aggregate_stats_request_flags = u16_accessor [OF_AGGREGATE_STATS_REQUEST] [(1, 10), (2, 10), (3, 10), (4, 10), (5, 10)]"

definition of_aggregate_stats_request_table_id :: "byte accessor" where
  "of_aggregate_stats_request_table_id = u8_accessor [OF_AGGREGATE_STATS_REQUEST] [(1, 52), (2, 16), (3, 16), (4, 16), (5, 16)]"

definition of_aggregate_stats_request_out_port :: "32 word accessor" where
  "of_aggregate_stats_request_out_port = port_no_accessor [OF_AGGREGATE_STATS_REQUEST] [(1, 54), (2, 20), (3, 20), (4, 20), (5, 20)]"

definition of_aggregate_stats_request_out_group :: "32 word accessor" where
  "of_aggregate_stats_request_out_group = u32_accessor [OF_AGGREGATE_STATS_REQUEST] [(2, 24), (3, 24), (4, 24), (5, 24)]"

definition of_aggregate_stats_request_cookie :: "64 word accessor" where
  "of_aggregate_stats_request_cookie = u64_accessor [OF_AGGREGATE_STATS_REQUEST] [(2, 32), (3, 32), (4, 32), (5, 32)]"

definition of_aggregate_stats_request_cookie_mask :: "64 word accessor" where
  "of_aggregate_stats_request_cookie_mask = u64_accessor [OF_AGGREGATE_STATS_REQUEST] [(2, 40), (3, 40), (4, 40), (5, 40)]"

definition of_error_msg_class :: wire_class where
  "of_error_msg_class = \<lparr>class_id = OF_ERROR_MSG, whole_buffer = True, wire_types = None,
     finishes = []\<rparr>"

definition of_error_msg_xid :: "32 word accessor" where
  "of_error_msg_xid = u32_accessor [OF_ERROR_MSG] [(1, 4), (2, 4), (3, 4), (4, 4), (5, 4)]"

definition of_bad_action_error_msg_class :: wire_class where
  "of_bad_action_error_msg_class = \<lparr>class_id = OF_BAD_ACTION_ERROR_MSG, whole_buffer = True, wire_types = Some [(1, [PutVersion 0, Put8 1 0x1, Put16 8 0x2]),
     (2, [PutVersion 0, Put8 1 0x1, Put16 8 0x2]),
     (3, [PutVersion 0, Put8 1 0x1, Put16 8 0x2]),
     (4, [PutVersion 0, Put8 1 0x1, Put16 8 0x2]),
     (5, [PutVersion 0, Put8 1 0x1, Put16 8 0x2])],
     finishes = [MessageLength]\<rparr>"

definition of_bad_action_error_msg_xid :: "32 word accessor" where
  "of_bad_action_error_msg_xid = u32_accessor [OF_BAD_ACTION_ERROR_MSG] [(1, 4), (2, 4), (3, 4), (4, 4), (5, 4)]"

definition of_bad_action_error_msg_code :: "16 word accessor" where
  "of_bad_action_error_msg_code = u16_accessor [OF_BAD_ACTION_ERROR_MSG] [(1, 10), (2, 10), (3, 10), (4, 10), (5, 10)]"

definition of_bad_request_error_msg_class :: wire_class where
  "of_bad_request_error_msg_class = \<lparr>class_id = OF_BAD_REQUEST_ERROR_MSG, whole_buffer = True, wire_types = Some [(1, [PutVersion 0, Put8 1 0x1, Put16 8 0x1]),
     (2, [PutVersion 0, Put8 1 0x1, Put16 8 0x1]),
     (3, [PutVersion 0, Put8 1 0x1, Put16 8 0x1]),
     (4, [PutVersion 0, Put8 1 0x1, Put16 8 0x1]),
     (5, [PutVersion 0, Put8 1 0x1, Put16 8 0x1])],
     finishes = [MessageLength]\<rparr>"

definition of_bad_request_error_msg_xid :: "32 word accessor" where
  "of_bad_request_error_msg_xid = u32_accessor [OF_BAD_REQUEST_ERROR_MSG] [(1, 4), (2, 4), (3, 4), (4, 4), (5, 4)]"

definition of_bad_request_error_msg_code :: "16 word accessor" where
  "of_bad_request_error_msg_code = u16_accessor [OF_BAD_REQUEST_ERROR_MSG] [(1, 10), (2, 10), (3, 10), (4, 10), (5, 10)]"

definition of_barrier_reply_class :: wire_class where
  "of_barrier_reply_class = \<lparr>class_id = OF_BARRIER_REPLY, whole_buffer = False, wire_types = Some [(1, [PutVersion 0, Put8 1 0x13]),
     (2, [PutVersion 0, Put8 1 0x15]),
     (3, [PutVersion 0, Put8 1 0x15]),
     (4, [PutVersion 0, Put8 1 0x15]),
     (5, [PutVersion 0, Put8 1 0x15])],
     finishes = [MessageLength]\<rparr>"

definition of_barrier_reply_xid :: "32 word accessor" where
  "of_barrier_reply_xid = u32_accessor [OF_BARRIER_REPLY] [(1, 4), (2, 4), (3, 4), (4, 4), (5, 4)]"

definition of_barrier_request_class :: wire_class where
  "of_barrier_request_class = \<lparr>class_id = OF_BARRIER_REQUEST, whole_buffer = False, wire_types = Some [(1, [PutVersion 0, Put8 1 0x12]),
     (2, [PutVersion 0, Put8 1 0x14]),
     (3, [PutVersion 0, Put8 1 0x14]),
     (4, [PutVersion 0, Put8 1 0x14]),
     (5, [PutVersion 0, Put8 1 0x14])],
     finishes = [MessageLength]\<rparr>"

definition of_barrier_request_xid :: "32 word accessor" where
  "of_barrier_request_xid = u32_accessor [OF_BARRIER_REQUEST] [(1, 4), (2, 4), (3, 4), (4, 4), (5, 4)]"

definition of_experimenter_class :: wire_class where
  "of_experimenter_class = \<lparr>class_id = OF_EXPERIMENTER, whole_buffer = True, wire_types = None,
     finishes = []\<rparr>"

definition of_experimenter_xid :: "32 word accessor" where
  "of_experimenter_xid = u32_accessor [OF_EXPERIMENTER] [(1, 4), (2, 4), (3, 4), (4, 4), (5, 4)]"

definition of_experimenter_experimenter :: "32 word accessor" where
  "of_experimenter_experimenter = u32_accessor [OF_EXPERIMENTER] [(1, 8), (2, 8), (3, 8), (4, 8), (5, 8)]"

definition of_experimenter_subtype :: "32 word accessor" where
  "of_experimenter_subtype = u32_accessor [OF_EXPERIMENTER] [(3, 12), (4, 12), (5, 12)]"

definition of_bsn_header_class :: wire_class where
  "of_bsn_header_class = \<lparr>class_id = OF_BSN_HEADER, whole_buffer = True, wire_types = None,
     finishes = []\<rparr>"

definition of_bsn_header_xid :: "32 word accessor" where
  "of_bsn_header_xid = u32_accessor [OF_BSN_HEADER] [(1, 4), (2, 4), (3, 4), (4, 4), (5, 4)]"

definition of_bsn_header_experimenter :: "32 word accessor" where
  "of_bsn_header_experimenter = u32_accessor [OF_BSN_HEADER] [(1, 8), (2, 8), (3, 8), (4, 8), (5, 8)]"

definition of_bsn_header_subtype :: "32 word accessor" where
  "of_bsn_header_subtype = u32_accessor [OF_BSN_HEADER] [(1, 12), (2, 12), (3, 12), (4, 12), (5, 12)]"

text \<open>The classes, each with consistent wire types in every version that has it.\<close>

definition classes_00 :: "wire_class list" where
  "classes_00 = [of_action_class, of_action_experimenter_class, of_action_bsn_class, of_action_bsn_checksum_class,
     of_action_bsn_mirror_class, of_action_bsn_set_tunnel_dst_class, of_action_enqueue_class,
     of_action_nicira_class, of_action_nicira_dec_ttl_class, of_action_output_class,
     of_action_set_dl_dst_class, of_action_set_dl_src_class, of_action_set_nw_dst_class,
     of_action_set_nw_src_class, of_action_set_nw_tos_class, of_action_set_tp_dst_class,
     of_action_set_tp_src_class, of_action_set_vlan_pcp_class, of_action_set_vlan_vid_class,
     of_action_strip_vlan_class, of_header_class, of_stats_reply_class, of_aggregate_stats_reply_class,
     of_stats_request_class, of_aggregate_stats_request_class, of_error_msg_class,
     of_bad_action_error_msg_class, of_bad_request_error_msg_class, of_barrier_reply_class,
     of_barrier_request_class, of_experimenter_class, of_bsn_header_class]"

lemmas class_defs_00 =
  of_action_class_def of_action_experimenter_class_def of_action_bsn_class_def
  of_action_bsn_checksum_class_def of_action_bsn_mirror_class_def
  of_action_bsn_set_tunnel_dst_class_def of_action_enqueue_class_def of_action_nicira_class_def
  of_action_nicira_dec_ttl_class_def of_action_output_class_def of_action_set_dl_dst_class_def
  of_action_set_dl_src_class_def of_action_set_nw_dst_class_def of_action_set_nw_src_class_def
  of_action_set_nw_tos_class_def of_action_set_tp_dst_class_def of_action_set_tp_src_class_def
  of_action_set_vlan_pcp_class_def of_action_set_vlan_vid_class_def of_action_strip_vlan_class_def
  of_header_class_def of_stats_reply_class_def of_aggregate_stats_reply_class_def
  of_stats_request_class_def of_aggregate_stats_request_class_def of_error_msg_class_def
  of_bad_action_error_msg_class_def of_bad_request_error_msg_class_def of_barrier_reply_class_def
  of_barrier_request_class_def of_experimenter_class_def of_bsn_header_class_def

lemma classes_ok_00: "list_all class_ok classes_00"
  unfolding classes_00_def
  by (simp add: class_defs_00 class_checks)

text \<open>The accessors.\<close>

definition fields_00 :: "field list" where
  "fields_00 = [U32 of_action_experimenter_experimenter, U32 of_action_bsn_experimenter, U32 of_action_bsn_subtype,
     U32 of_action_bsn_checksum_experimenter, U32 of_action_bsn_checksum_subtype,
     U128 of_action_bsn_checksum_checksum, U32 of_action_bsn_mirror_experimenter,
     U32 of_action_bsn_mirror_subtype, U32 of_action_bsn_mirror_dest_port,
     U32 of_action_bsn_mirror_vlan_tag, U8 of_action_bsn_mirror_copy_stage,
     U32 of_action_bsn_set_tunnel_dst_experimenter, U32 of_action_bsn_set_tunnel_dst_subtype,
     U32 of_action_bsn_set_tunnel_dst_dst, PortNo of_action_enqueue_port, U32 of_action_enqueue_queue_id,
     U32 of_action_nicira_experimenter, U16 of_action_nicira_subtype,
     U32 of_action_nicira_dec_ttl_experimenter, U16 of_action_nicira_dec_ttl_subtype,
     PortNo of_action_output_port, U16 of_action_output_max_len, Octets 6 of_action_set_dl_dst_dl_addr,
     Octets 6 of_action_set_dl_src_dl_addr, U32 of_action_set_nw_dst_nw_addr,
     U32 of_action_set_nw_src_nw_addr, U8 of_action_set_nw_tos_nw_tos, U16 of_action_set_tp_dst_tp_port,
     U16 of_action_set_tp_src_tp_port, U8 of_action_set_vlan_pcp_vlan_pcp,
     U16 of_action_set_vlan_vid_vlan_vid, U32 of_header_xid, U32 of_stats_reply_xid,
     U16 of_stats_reply_flags, U32 of_aggregate_stats_reply_xid, U16 of_aggregate_stats_reply_flags,
     U64 of_aggregate_stats_reply_packet_count, U64 of_aggregate_stats_reply_byte_count,
     U32 of_aggregate_stats_reply_flow_count, U32 of_stats_request_xid, U16 of_stats_request_flags,
     U32 of_aggregate_stats_request_xid, U16 of_aggregate_stats_request_flags,
     U8 of_aggregate_stats_request_table_id, PortNo of_aggregate_stats_request_out_port,
     U32 of_aggregate_stats_request_out_group, U64 of_aggregate_stats_request_cookie,
     U64 of_aggregate_stats_request_cookie_mask, U32 of_error_msg_xid, U32 of_bad_action_error_msg_xid,
     U16 of_bad_action_error_msg_code, U32 of_bad_request_error_msg_xid,
     U16 of_bad_request_error_msg_code, U32 of_barrier_reply_xid, U32 of_barrier_request_xid,
     U32 of_experimenter_xid, U32 of_experimenter_experimenter, U32 of_experimenter_subtype,
     U32 of_bsn_header_xid, U32 of_bsn_header_experimenter, U32 of_bsn_header_subtype]"

lemmas accessor_defs_00 =
  of_action_experimenter_experimenter_def of_action_bsn_experimenter_def of_action_bsn_subtype_def
  of_action_bsn_checksum_experimenter_def of_action_bsn_checksum_subtype_def
  of_action_bsn_checksum_checksum_def of_action_bsn_mirror_experimenter_def
  of_action_bsn_mirror_subtype_def of_action_bsn_mirror_dest_port_def
  of_action_bsn_mirror_vlan_tag_def of_action_bsn_mirror_copy_stage_def
  of_action_bsn_set_tunnel_dst_experimenter_def of_action_bsn_set_tunnel_dst_subtype_def
  of_action_bsn_set_tunnel_dst_dst_def of_action_enqueue_port_def of_action_enqueue_queue_id_def
  of_action_nicira_experimenter_def of_action_nicira_subtype_def
  of_action_nicira_dec_ttl_experimenter_def of_action_nicira_dec_ttl_subtype_def
  of_action_output_port_def of_action_output_max_len_def of_action_set_dl_dst_dl_addr_def
  of_action_set_dl_src_dl_addr_def of_action_set_nw_dst_nw_addr_def of_action_set_nw_src_nw_addr_def
  of_action_set_nw_tos_nw_tos_def of_action_set_tp_dst_tp_port_def of_action_set_tp_src_tp_port_def
  of_action_set_vlan_pcp_vlan_pcp_def of_action_set_vlan_vid_vlan_vid_def of_header_xid_def
  of_stats_reply_xid_def of_stats_reply_flags_def of_aggregate_stats_reply_xid_def
  of_aggregate_stats_reply_flags_def of_aggregate_stats_reply_packet_count_def
  of_aggregate_stats_reply_byte_count_def of_aggregate_stats_reply_flow_count_def
  of_stats_request_xid_def of_stats_request_flags_def of_aggregate_stats_request_xid_def
  of_aggregate_stats_request_flags_def of_aggregate_stats_request_table_id_def
  of_aggregate_stats_request_out_port_def of_aggregate_stats_request_out_group_def
  of_aggregate_stats_request_cookie_def of_aggregate_stats_request_cookie_mask_def
  of_error_msg_xid_def of_bad_action_error_msg_xid_def of_bad_action_error_msg_code_def
  of_bad_request_error_msg_xid_def of_bad_request_error_msg_code_def of_barrier_reply_xid_def
  of_barrier_request_xid_def of_experimenter_xid_def of_experimenter_experimenter_def
  of_experimenter_subtype_def of_bsn_header_xid_def of_bsn_header_experimenter_def
  of_bsn_header_subtype_def

lemma fields_ok_00: "list_all field_ok fields_00"
  unfolding fields_00_def accessor_defs_00
  by (simp add: accessors_ok octets_accessors_ok inside_rows del: field_ok.simps)

end
