(* ===== verification/Class01.thy ===== *)
theory Class01
  imports Construct
begin

text \<open>
  The classes of \<^verbatim>\<open>src/class01.c\<close>: for each what its constructor, initialiser and
  \<open>push_wire_types\<close> write, and the scalar accessors, a getter and a setter for each field at a fixed offset.
\<close>

definition of_bsn_bw_clear_data_reply_class :: wire_class where
  "of_bsn_bw_clear_data_reply_class = \<lparr>class_id = OF_BSN_BW_CLEAR_DATA_REPLY, whole_buffer = False, wire_types = Some [(1, [PutVersion 0, Put8 1 0x4, Put32 8 0x5c16c7, Put32 12 0x16]),
     (2, [PutVersion 0, Put8 1 0x4, Put32 8 0x5c16c7, Put32 12 0x16]),
     (3, [PutVersion 0, Put8 1 0x4, Put32 8 0x5c16c7, Put32 12 0x16]),
     (4, [PutVersion 0, Put8 1 0x4, Put32 8 0x5c16c7, Put32 12 0x16]),
     (5, [PutVersion 0, Put8 1 0x4, Put32 8 0x5c16c7, Put32 12 0x16])],
     finishes = [MessageLength]\<rparr>"

definition of_bsn_bw_clear_data_reply_xid :: "32 word accessor" where
  "of_bsn_bw_clear_data_reply_xid = u32_accessor [OF_BSN_BW_CLEAR_DATA_REPLY] [(1, 4), (2, 4), (3, 4), (4, 4), (5, 4)]"

definition of_bsn_bw_clear_data_reply_experimenter :: "32 word accessor" where
  "of_bsn_bw_clear_data_reply_experimenter = u32_accessor [OF_BSN_BW_CLEAR_DATA_REPLY] [(1, 8), (2, 8), (3, 8), (4, 8), (5, 8)]"

definition of_bsn_bw_clear_data_reply_subtype :: "32 word accessor" where
  "of_bsn_bw_clear_data_reply_subtype = u32_accessor [OF_BSN_BW_CLEAR_DATA_REPLY] [(1, 12), (2, 12), (3, 12), (4, 12), (5, 12)]"

definition of_bsn_bw_clear_data_reply_status :: "32 word accessor" where
  "of_bsn_bw_clear_data_reply_status = u32_accessor [OF_BSN_BW_CLEAR_DATA_REPLY] [(1, 16), (2, 16), (3, 16), (4, 16), (5, 16)]"

definition of_bsn_bw_clear_data_request_class :: wire_class where
  "of_bsn_bw_clear_data_request_class = \<lparr>class_id = OF_BSN_BW_CLEAR_DATA_REQUEST, whole_buffer = False, wire_types = Some [(1, [PutVersion 0, Put8 1 0x4, Put32 8 0x5c16c7, Put32 12 0x15]),
     (2, [PutVersion 0, Put8 1 0x4, Put32 8 0x5c16c7, Put32 12 0x15]),
     (3, [PutVersion 0, Put8 1 0x4, Put32 8 0x5c16c7, Put32 12 0x15]),
     (4, [PutVersion 0, Put8 1 0x4, Put32 8 0x5c16c7, Put32 12 0x15]),
     (5, [PutVersion 0, Put8 1 0x4, Put32 8 0x5c16c7, Put32 12 0x15])],
     finishes = [MessageLength]\<rparr>"

definition of_bsn_bw_clear_data_request_xid :: "32 word accessor" where
  "of_bsn_bw_clear_data_request_xid = u32_accessor [OF_BSN_BW_CLEAR_DATA_REQUEST] [(1, 4), (2, 4), (3, 4), (4, 4), (5, 4)]"

definition of_bsn_bw_clear_data_request_experimenter :: "32 word accessor" where
  "of_bsn_bw_clear_data_request_experimenter = u32_accessor [OF_BSN_BW_CLEAR_DATA_REQUEST] [(1, 8), (2, 8), (3, 8), (4, 8), (5, 8)]"

definition of_bsn_bw_clear_data_request_subtype :: "32 word accessor" where
  "of_bsn_bw_clear_data_request_subtype = u32_accessor [OF_BSN_BW_CLEAR_DATA_REQUEST] [(1, 12), (2, 12), (3, 12), (4, 12), (5, 12)]"

definition of_bsn_bw_enable_get_reply_class :: wire_class where
  "of_bsn_bw_enable_get_reply_class = \<lparr>class_id = OF_BSN_BW_ENABLE_GET_REPLY, whole_buffer = False, wire_types = Some [(1, [PutVersion 0, Put8 1 0x4, Put32 8 0x5c16c7, Put32 12 0x14]),
     (2, [PutVersion 0, Put8 1 0x4, Put32 8 0x5c16c7, Put32 12 0x14]),
     (3, [PutVersion 0, Put8 1 0x4, Put32 8 0x5c16c7, Put32 12 0x14]),
     (4, [PutVersion 0, Put8 1 0x4, Put32 8 0x5c16c7, Put32 12 0x14]),
     (5, [PutVersion 0, Put8 1 0x4, Put32 8 0x5c16c7, Put32 12 0x14])],
     finishes = [MessageLength]\<rparr>"

definition of_bsn_bw_enable_get_reply_xid :: "32 word accessor" where
  "of_bsn_bw_enable_get_reply_xid = u32_accessor [OF_BSN_BW_ENABLE_GET_REPLY] [(1, 4), (2, 4), (3, 4), (4, 4), (5, 4)]"

definition of_bsn_bw_enable_get_reply_experimenter :: "32 word accessor" where
  "of_bsn_bw_enable_get_reply_experimenter = u32_accessor [OF_BSN_BW_ENABLE_GET_REPLY] [(1, 8), (2, 8), (3, 8), (4, 8), (5, 8)]"

definition of_bsn_bw_enable_get_reply_subtype :: "32 word accessor" where
  "of_bsn_bw_enable_get_reply_subtype = u32_accessor [OF_BSN_BW_ENABLE_GET_REPLY] [(1, 12), (2, 12), (3, 12), (4, 12), (5, 12)]"

definition of_bsn_bw_enable_get_reply_enabled :: "32 word accessor" where
  "of_bsn_bw_enable_get_reply_enabled = u32_accessor [OF_BSN_BW_ENABLE_GET_REPLY] [(1, 16), (2, 16), (3, 16), (4, 16), (5, 16)]"

definition of_bsn_bw_enable_get_request_class :: wire_class where
  "of_bsn_bw_enable_get_request_class = \<lparr>class_id = OF_BSN_BW_ENABLE_GET_REQUEST, whole_buffer = False, wire_types = Some [(1, [PutVersion 0, Put8 1 0x4, Put32 8 0x5c16c7, Put32 12 0x13]),
     (2, [PutVersion 0, Put8 1 0x4, Put32 8 0x5c16c7, Put32 12 0x13]),
     (3, [PutVersion 0, Put8 1 0x4, Put32 8 0x5c16c7, Put32 12 0x13]),
     (4, [PutVersion 0, Put8 1 0x4, Put32 8 0x5c16c7, Put32 12 0x13]),
     (5, [PutVersion 0, Put8 1 0x4, Put32 8 0x5c16c7, Put32 12 0x13])],
     finishes = [MessageLength]\<rparr>"

definition of_bsn_bw_enable_get_request_xid :: "32 word accessor" where
  "of_bsn_bw_enable_get_request_xid = u32_accessor [OF_BSN_BW_ENABLE_GET_REQUEST] [(1, 4), (2, 4), (3, 4), (4, 4), (5, 4)]"

definition of_bsn_bw_enable_get_request_experimenter :: "32 word accessor" where
  "of_bsn_bw_enable_get_request_experimenter = u32_accessor [OF_BSN_BW_ENABLE_GET_REQUEST] [(1, 8), (2, 8), (3, 8), (4, 8), (5, 8)]"

definition of_bsn_bw_enable_get_request_subtype :: "32 word accessor" where
  "of_bsn_bw_enable_get_request_subtype = u32_accessor [OF_BSN_BW_ENABLE_GET_REQUEST] [(1, 12), (2, 12), (3, 12), (4, 12), (5, 12)]"

definition of_bsn_bw_enable_set_reply_class :: wire_class where
  "of_bsn_bw_enable_set_reply_class = \<lparr>class_id = OF_BSN_BW_ENABLE_SET_REPLY, whole_buffer = False, wire_types = Some [(1, [PutVersion 0, Put8 1 0x4, Put32 8 0x5c16c7, Put32 12 0x17]),
     (2, [PutVersion 0, Put8 1 0x4, Put32 8 0x5c16c7, Put32 12 0x17]),
     (3, [PutVersion 0, Put8 1 0x4, Put32 8 0x5c16c7, Put32 12 0x17]),
     (4, [PutVersion 0, Put8 1 0x4, Put32 8 0x5c16c7, Put32 12 0x17]),
     (5, [PutVersion 0, Put8 1 0x4, Put32 8 0x5c16c7, Put32 12 0x17])],
     finishes = [MessageLength]\<rparr>"

definition of_bsn_bw_enable_set_reply_xid :: "32 word accessor" where
  "of_bsn_bw_enable_set_reply_xid = u32_accessor [OF_BSN_BW_ENABLE_SET_REPLY] [(1, 4), (2, 4), (3, 4), (4, 4), (5, 4)]"

definition of_bsn_bw_enable_set_reply_experimenter :: "32 word accessor" where
  "of_bsn_bw_enable_set_reply_experimenter = u32_accessor [OF_BSN_BW_ENABLE_SET_REPLY] [(1, 8), (2, 8), (3, 8), (4, 8), (5, 8)]"

definition of_bsn_bw_enable_set_reply_subtype :: "32 word accessor" where
  "of_bsn_bw_enable_set_reply_subtype = u32_accessor [OF_BSN_BW_ENABLE_SET_REPLY] [(1, 12), (2, 12), (3, 12), (4, 12), (5, 12)]"

definition of_bsn_bw_enable_set_reply_enable :: "32 word accessor" where
  "of_bsn_bw_enable_set_reply_enable = u32_accessor [OF_BSN_BW_ENABLE_SET_REPLY] [(1, 16), (2, 16), (3, 16), (4, 16), (5, 16)]"

definition of_bsn_bw_enable_set_reply_status :: "32 word accessor" where
  "of_bsn_bw_enable_set_reply_status = u32_accessor [OF_BSN_BW_ENABLE_SET_REPLY] [(1, 20), (2, 20), (3, 20), (4, 20), (5, 20)]"

definition of_bsn_bw_enable_set_request_class :: wire_class where
  "of_bsn_bw_enable_set_request_class = \<lparr>class_id = OF_BSN_BW_ENABLE_SET_REQUEST, whole_buffer = False, wire_types = Some [(1, [PutVersion 0, Put8 1 0x4, Put32 8 0x5c16c7, Put32 12 0x12]),
     (2, [PutVersion 0, Put8 1 0x4, Put32 8 0x5c16c7, Put32 12 0x12]),
     (3, [PutVersion 0, Put8 1 0x4, Put32 8 0x5c16c7, Put32 12 0x12]),
     (4, [PutVersion 0, Put8 1 0x4, Put32 8 0x5c16c7, Put32 12 0x12]),
     (5, [PutVersion 0, Put8 1 0x4, Put32 8 0x5c16c7, Put32 12 0x12])],
     finishes = [MessageLength]\<rparr>"

definition of_bsn_bw_enable_set_request_xid :: "32 word accessor" where
  "of_bsn_bw_enable_set_request_xid = u32_accessor [OF_BSN_BW_ENABLE_SET_REQUEST] [(1, 4), (2, 4), (3, 4), (4, 4), (5, 4)]"

definition of_bsn_bw_enable_set_request_experimenter :: "32 word accessor" where
  "of_bsn_bw_enable_set_request_experimenter = u32_accessor [OF_BSN_BW_ENABLE_SET_REQUEST] [(1, 8), (2, 8), (3, 8), (4, 8), (5, 8)]"

definition of_bsn_bw_enable_set_request_subtype :: "32 word accessor" where
  "of_bsn_bw_enable_set_request_subtype = u32_accessor [OF_BSN_BW_ENABLE_SET_REQUEST] [(1, 12), (2, 12), (3, 12), (4, 12), (5, 12)]"

definition of_bsn_bw_enable_set_request_enable :: "32 word accessor" where
  "of_bsn_bw_enable_set_request_enable = u32_accessor [OF_BSN_BW_ENABLE_SET_REQUEST] [(1, 16), (2, 16), (3, 16), (4, 16), (5, 16)]"

definition of_bsn_get_interfaces_reply_class :: wire_class where
  "of_bsn_get_interfaces_reply_class = \<lparr>class_id = OF_BSN_GET_INTERFACES_REPLY, whole_buffer = True, wire_types = Some [(1, [PutVersion 0, Put8 1 0x4, Put32 8 0x5c16c7, Put32 12 0xa]),
     (2, [PutVersion 0, Put8 1 0x4, Put32 8 0x5c16c7, Put32 12 0xa]),
     (3, [PutVersion 0, Put8 1 0x4, Put32 8 0x5c16c7, Put32 12 0xa]),
     (4, [PutVersion 0, Put8 1 0x4, Put32 8 0x5c16c7, Put32 12 0xa]),
     (5, [PutVersion 0, Put8 1 0x4, Put32 8 0x5c16c7, Put32 12 0xa])],
     finishes = [MessageLength]\<rparr>"

definition of_bsn_get_interfaces_reply_xid :: "32 word accessor" where
  "of_bsn_get_interfaces_reply_xid = u32_accessor [OF_BSN_GET_INTERFACES_REPLY] [(1, 4), (2, 4), (3, 4), (4, 4), (5, 4)]"

definition of_bsn_get_interfaces_reply_experimenter :: "32 word accessor" where
  "of_bsn_get_interfaces_reply_experimenter = u32_accessor [OF_BSN_GET_INTERFACES_REPLY] [(1, 8), (2, 8), (3, 8), (4, 8), (5, 8)]"

definition of_bsn_get_interfaces_reply_subtype :: "32 word accessor" where
  "of_bsn_get_interfaces_reply_subtype = u32_accessor [OF_BSN_GET_INTERFACES_REPLY] [(1, 12), (2, 12), (3, 12), (4, 12), (5, 12)]"

definition of_bsn_get_interfaces_request_class :: wire_class where
  "of_bsn_get_interfaces_request_class = \<lparr>class_id = OF_BSN_GET_INTERFACES_REQUEST, whole_buffer = False, wire_types = Some [(1, [PutVersion 0, Put8 1 0x4, Put32 8 0x5c16c7, Put32 12 0x9]),
     (2, [PutVersion 0, Put8 1 0x4, Put32 8 0x5c16c7, Put32 12 0x9]),
     (3, [PutVersion 0, Put8 1 0x4, Put32 8 0x5c16c7, Put32 12 0x9]),
     (4, [PutVersion 0, Put8 1 0x4, Put32 8 0x5c16c7, Put32 12 0x9]),
     (5, [PutVersion 0, Put8 1 0x4, Put32 8 0x5c16c7, Put32 12 0x9])],
     finishes = [MessageLength]\<rparr>"

definition of_bsn_get_interfaces_request_xid :: "32 word accessor" where
  "of_bsn_get_interfaces_request_xid = u32_accessor [OF_BSN_GET_INTERFACES_REQUEST] [(1, 4), (2, 4), (3, 4), (4, 4), (5, 4)]"

definition of_bsn_get_interfaces_request_experimenter :: "32 word accessor" where
  "of_bsn_get_interfaces_request_experimenter = u32_accessor [OF_BSN_GET_INTERFACES_REQUEST] [(1, 8), (2, 8), (3, 8), (4, 8), (5, 8)]"

definition of_bsn_get_interfaces_request_subtype :: "32 word accessor" where
  "of_bsn_get_interfaces_request_subtype = u32_accessor [OF_BSN_GET_INTERFACES_REQUEST] [(1, 12), (2, 12), (3, 12), (4, 12), (5, 12)]"

definition of_bsn_get_ip_mask_reply_class :: wire_class where
  "of_bsn_get_ip_mask_reply_class = \<lparr>class_id = OF_BSN_GET_IP_MASK_REPLY, whole_buffer = False, wire_types = Some [(1, [PutVersion 0, Put8 1 0x4, Put32 8 0x5c16c7, Put32 12 0x2])],
     finishes = [MessageLength]\<rparr>"

definition of_bsn_get_ip_mask_reply_xid :: "32 word accessor" where
  "of_bsn_get_ip_mask_reply_xid = u32_accessor [OF_BSN_GET_IP_MASK_REPLY] [(1, 4)]"

definition of_bsn_get_ip_mask_reply_experimenter :: "32 word accessor" where
  "of_bsn_get_ip_mask_reply_experimenter = u32_accessor [OF_BSN_GET_IP_MASK_REPLY] [(1, 8)]"

definition of_bsn_get_ip_mask_reply_subtype :: "32 word accessor" where
  "of_bsn_get_ip_mask_reply_subtype = u32_accessor [OF_BSN_GET_IP_MASK_REPLY] [(1, 12)]"

definition of_bsn_get_ip_mask_reply_index :: "byte accessor" where
  "of_bsn_get_ip_mask_reply_index = u8_accessor [OF_BSN_GET_IP_MASK_REPLY] [(1, 16)]"

definition of_bsn_get_ip_mask_reply_mask :: "32 word accessor" where
  "of_bsn_get_ip_mask_reply_mask = u32_accessor [OF_BSN_GET_IP_MASK_REPLY] [(1, 20)]"

definition of_bsn_get_ip_mask_request_class :: wire_class where
  "of_bsn_get_ip_mask_request_class = \<lparr>class_id = OF_BSN_GET_IP_MASK_REQUEST, whole_buffer = False, wire_types = Some [(1, [PutVersion 0, Put8 1 0x4, Put32 8 0x5c16c7, Put32 12 0x1])],
     finishes = [MessageLength]\<rparr>"

definition of_bsn_get_ip_mask_request_xid :: "32 word accessor" where
  "of_bsn_get_ip_mask_request_xid = u32_accessor [OF_BSN_GET_IP_MASK_REQUEST] [(1, 4)]"

definition of_bsn_get_ip_mask_request_experimenter :: "32 word accessor" where
  "of_bsn_get_ip_mask_request_experimenter = u32_accessor [OF_BSN_GET_IP_MASK_REQUEST] [(1, 8)]"

definition of_bsn_get_ip_mask_request_subtype :: "32 word accessor" where
  "of_bsn_get_ip_mask_request_subtype = u32_accessor [OF_BSN_GET_IP_MASK_REQUEST] [(1, 12)]"

definition of_bsn_get_ip_mask_request_index :: "byte accessor" where
  "of_bsn_get_ip_mask_request_index = u8_accessor [OF_BSN_GET_IP_MASK_REQUEST] [(1, 16)]"

definition of_bsn_get_l2_table_reply_class :: wire_class where
  "of_bsn_get_l2_table_reply_class = \<lparr>class_id = OF_BSN_GET_L2_TABLE_REPLY, whole_buffer = False, wire_types = Some [(1, [PutVersion 0, Put8 1 0x4, Put32 8 0x5c16c7, Put32 12 0xe])],
     finishes = [MessageLength]\<rparr>"

definition of_bsn_get_l2_table_reply_xid :: "32 word accessor" where
  "of_bsn_get_l2_table_reply_xid = u32_accessor [OF_BSN_GET_L2_TABLE_REPLY] [(1, 4)]"

definition of_bsn_get_l2_table_reply_experimenter :: "32 word accessor" where
  "of_bsn_get_l2_table_reply_experimenter = u32_accessor [OF_BSN_GET_L2_TABLE_REPLY] [(1, 8)]"

definition of_bsn_get_l2_table_reply_subtype :: "32 word accessor" where
  "of_bsn_get_l2_table_reply_subtype = u32_accessor [OF_BSN_GET_L2_TABLE_REPLY] [(1, 12)]"

definition of_bsn_get_l2_table_reply_l2_table_enable :: "byte accessor" where
  "of_bsn_get_l2_table_reply_l2_table_enable = u8_accessor [OF_BSN_GET_L2_TABLE_REPLY] [(1, 16)]"

definition of_bsn_get_l2_table_reply_l2_table_priority :: "16 word accessor" where
  "of_bsn_get_l2_table_reply_l2_table_priority = u16_accessor [OF_BSN_GET_L2_TABLE_REPLY] [(1, 18)]"

definition of_bsn_get_l2_table_request_class :: wire_class where
  "of_bsn_get_l2_table_request_class = \<lparr>class_id = OF_BSN_GET_L2_TABLE_REQUEST, whole_buffer = False, wire_types = Some [(1, [PutVersion 0, Put8 1 0x4, Put32 8 0x5c16c7, Put32 12 0xd])],
     finishes = [MessageLength]\<rparr>"

definition of_bsn_get_l2_table_request_xid :: "32 word accessor" where
  "of_bsn_get_l2_table_request_xid = u32_accessor [OF_BSN_GET_L2_TABLE_REQUEST] [(1, 4)]"

definition of_bsn_get_l2_table_request_experimenter :: "32 word accessor" where
  "of_bsn_get_l2_table_request_experimenter = u32_accessor [OF_BSN_GET_L2_TABLE_REQUEST] [(1, 8)]"

definition of_bsn_get_l2_table_request_subtype :: "32 word accessor" where
  "of_bsn_get_l2_table_request_subtype = u32_accessor [OF_BSN_GET_L2_TABLE_REQUEST] [(1, 12)]"

definition of_bsn_get_mirroring_reply_class :: wire_class where
  "of_bsn_get_mirroring_reply_class = \<lparr>class_id = OF_BSN_GET_MIRRORING_REPLY, whole_buffer = False, wire_types = Some [(1, [PutVersion 0, Put8 1 0x4, Put32 8 0x5c16c7, Put32 12 0x5]),
     (2, [PutVersion 0, Put8 1 0x4, Put32 8 0x5c16c7, Put32 12 0x5]),
     (3, [PutVersion 0, Put8 1 0x4, Put32 8 0x5c16c7, Put32 12 0x5]),
     (4, [PutVersion 0, Put8 1 0x4, Put32 8 0x5c16c7, Put32 12 0x5]),
     (5, [PutVersion 0, Put8 1 0x4, Put32 8 0x5c16c7, Put32 12 0x5])],
     finishes = [MessageLength]\<rparr>"

definition of_bsn_get_mirroring_reply_xid :: "32 word accessor" where
  "of_bsn_get_mirroring_reply_xid = u32_accessor [OF_BSN_GET_MIRRORING_REPLY] [(1, 4), (2, 4), (3, 4), (4, 4), (5, 4)]"

definition of_bsn_get_mirroring_reply_experimenter :: "32 word accessor" where
  "of_bsn_get_mirroring_reply_experimenter = u32_accessor [OF_BSN_GET_MIRRORING_REPLY] [(1, 8), (2, 8), (3, 8), (4, 8), (5, 8)]"

definition of_bsn_get_mirroring_reply_subtype :: "32 word accessor" where
  "of_bsn_get_mirroring_reply_subtype = u32_accessor [OF_BSN_GET_MIRRORING_REPLY] [(1, 12), (2, 12), (3, 12), (4, 12), (5, 12)]"

definition of_bsn_get_mirroring_reply_report_mirror_ports :: "byte accessor" where
  "of_bsn_get_mirroring_reply_report_mirror_ports = u8_accessor [OF_BSN_GET_MIRRORING_REPLY] [(1, 16), (2, 16), (3, 16), (4, 16), (5, 16)]"

definition of_bsn_get_mirroring_request_class :: wire_class where
  "of_bsn_get_mirroring_request_class = \<lparr>class_id = OF_BSN_GET_MIRRORING_REQUEST, whole_buffer = False, wire_types = Some [(1, [PutVersion 0, Put8 1 0x4, Put32 8 0x5c16c7, Put32 12 0x4]),
     (2, [PutVersion 0, Put8 1 0x4, Put32 8 0x5c16c7, Put32 12 0x4]),
     (3, [PutVersion 0, Put8 1 0x4, Put32 8 0x5c16c7, Put32 12 0x4]),
     (4, [PutVersion 0, Put8 1 0x4, Put32 8 0x5c16c7, Put32 12 0x4]),
     (5, [PutVersion 0, Put8 1 0x4, Put32 8 0x5c16c7, Put32 12 0x4])],
     finishes = [MessageLength]\<rparr>"

definition of_bsn_get_mirroring_request_xid :: "32 word accessor" where
  "of_bsn_get_mirroring_request_xid = u32_accessor [OF_BSN_GET_MIRRORING_REQUEST] [(1, 4), (2, 4), (3, 4), (4, 4), (5, 4)]"

definition of_bsn_get_mirroring_request_experimenter :: "32 word accessor" where
  "of_bsn_get_mirroring_request_experimenter = u32_accessor [OF_BSN_GET_MIRRORING_REQUEST] [(1, 8), (2, 8), (3, 8), (4, 8), (5, 8)]"

definition of_bsn_get_mirroring_request_subtype :: "32 word accessor" where
  "of_bsn_get_mirroring_request_subtype = u32_accessor [OF_BSN_GET_MIRRORING_REQUEST] [(1, 12), (2, 12), (3, 12), (4, 12), (5, 12)]"

definition of_bsn_get_mirroring_request_report_mirror_ports :: "byte accessor" where
  "of_bsn_get_mirroring_request_report_mirror_ports = u8_accessor [OF_BSN_GET_MIRRORING_REQUEST] [(1, 16), (2, 16), (3, 16), (4, 16), (5, 16)]"

definition of_bsn_hybrid_get_reply_class :: wire_class where
  "of_bsn_hybrid_get_reply_class = \<lparr>class_id = OF_BSN_HYBRID_GET_REPLY, whole_buffer = False, wire_types = Some [(1, [PutVersion 0, Put8 1 0x4, Put32 8 0x5c16c7, Put32 12 0x1c])],
     finishes = [MessageLength]\<rparr>"

definition of_bsn_hybrid_get_reply_xid :: "32 word accessor" where
  "of_bsn_hybrid_get_reply_xid = u32_accessor [OF_BSN_HYBRID_GET_REPLY] [(1, 4)]"

definition of_bsn_hybrid_get_reply_experimenter :: "32 word accessor" where
  "of_bsn_hybrid_get_reply_experimenter = u32_accessor [OF_BSN_HYBRID_GET_REPLY] [(1, 8)]"

definition of_bsn_hybrid_get_reply_subtype :: "32 word accessor" where
  "of_bsn_hybrid_get_reply_subtype = u32_accessor [OF_BSN_HYBRID_GET_REPLY] [(1, 12)]"

definition of_bsn_hybrid_get_reply_hybrid_enable :: "byte accessor" where
  "of_bsn_hybrid_get_reply_hybrid_enable = u8_accessor [OF_BSN_HYBRID_GET_REPLY] [(1, 16)]"

definition of_bsn_hybrid_get_reply_hybrid_version :: "16 word accessor" where
  "of_bsn_hybrid_get_reply_hybrid_version = u16_accessor [OF_BSN_HYBRID_GET_REPLY] [(1, 18)]"

definition of_bsn_hybrid_get_request_class :: wire_class where
  "of_bsn_hybrid_get_request_class = \<lparr>class_id = OF_BSN_HYBRID_GET_REQUEST, whole_buffer = False, wire_types = Some [(1, [PutVersion 0, Put8 1 0x4, Put32 8 0x5c16c7, Put32 12 0x1b])],
     finishes = [MessageLength]\<rparr>"

definition of_bsn_hybrid_get_request_xid :: "32 word accessor" where
  "of_bsn_hybrid_get_request_xid = u32_accessor [OF_BSN_HYBRID_GET_REQUEST] [(1, 4)]"

definition of_bsn_hybrid_get_request_experimenter :: "32 word accessor" where
  "of_bsn_hybrid_get_request_experimenter = u32_accessor [OF_BSN_HYBRID_GET_REQUEST] [(1, 8)]"

definition of_bsn_hybrid_get_request_subtype :: "32 word accessor" where
  "of_bsn_hybrid_get_request_subtype = u32_accessor [OF_BSN_HYBRID_GET_REQUEST] [(1, 12)]"

definition of_bsn_interface_class :: wire_class where
  "of_bsn_interface_class = \<lparr>class_id = OF_BSN_INTERFACE, whole_buffer = False, wire_types = None,
     finishes = []\<rparr>"

definition of_bsn_interface_hw_addr :: "byte list accessor" where
  "of_bsn_interface_hw_addr = mac_accessor [OF_BSN_INTERFACE] [(1, 0), (2, 0), (3, 0), (4, 0), (5, 0)]"

definition of_bsn_interface_name :: "byte list accessor" where
  "of_bsn_interface_name = port_name_accessor [OF_BSN_INTERFACE] [(1, 8), (2, 8), (3, 8), (4, 8), (5, 8)]"

definition of_bsn_interface_ipv4_addr :: "32 word accessor" where
  "of_bsn_interface_ipv4_addr = ipv4_accessor [OF_BSN_INTERFACE] [(1, 24), (2, 24), (3, 24), (4, 24), (5, 24)]"

definition of_bsn_interface_ipv4_netmask :: "32 word accessor" where
  "of_bsn_interface_ipv4_netmask = ipv4_accessor [OF_BSN_INTERFACE] [(1, 28), (2, 28), (3, 28), (4, 28), (5, 28)]"

definition of_bsn_pdu_rx_reply_class :: wire_class where
  "of_bsn_pdu_rx_reply_class = \<lparr>class_id = OF_BSN_PDU_RX_REPLY, whole_buffer = True, wire_types = Some [(1, [PutVersion 0, Put8 1 0x4, Put32 8 0x5c16c7, Put32 12 0x22]),
     (2, [PutVersion 0, Put8 1 0x4, Put32 8 0x5c16c7, Put32 12 0x22]),
     (3, [PutVersion 0, Put8 1 0x4, Put32 8 0x5c16c7, Put32 12 0x22]),
     (4, [PutVersion 0, Put8 1 0x4, Put32 8 0x5c16c7, Put32 12 0x22]),
     (5, [PutVersion 0, Put8 1 0x4, Put32 8 0x5c16c7, Put32 12 0x22])],
     finishes = [MessageLength]\<rparr>"

definition of_bsn_pdu_rx_reply_xid :: "32 word accessor" where
  "of_bsn_pdu_rx_reply_xid = u32_accessor [OF_BSN_PDU_RX_REPLY] [(1, 4), (2, 4), (3, 4), (4, 4), (5, 4)]"

definition of_bsn_pdu_rx_reply_experimenter :: "32 word accessor" where
  "of_bsn_pdu_rx_reply_experimenter = u32_accessor [OF_BSN_PDU_RX_REPLY] [(1, 8), (2, 8), (3, 8), (4, 8), (5, 8)]"

definition of_bsn_pdu_rx_reply_subtype :: "32 word accessor" where
  "of_bsn_pdu_rx_reply_subtype = u32_accessor [OF_BSN_PDU_RX_REPLY] [(1, 12), (2, 12), (3, 12), (4, 12), (5, 12)]"

definition of_bsn_pdu_rx_reply_status :: "32 word accessor" where
  "of_bsn_pdu_rx_reply_status = u32_accessor [OF_BSN_PDU_RX_REPLY] [(1, 16), (2, 16), (3, 16), (4, 16), (5, 16)]"

definition of_bsn_pdu_rx_reply_port_no :: "32 word accessor" where
  "of_bsn_pdu_rx_reply_port_no = port_no_accessor [OF_BSN_PDU_RX_REPLY] [(1, 20), (2, 20), (3, 20), (4, 20), (5, 20)]"

definition of_bsn_pdu_rx_reply_slot_num :: "byte accessor" where
  "of_bsn_pdu_rx_reply_slot_num = u8_accessor [OF_BSN_PDU_RX_REPLY] [(1, 22), (2, 24), (3, 24), (4, 24), (5, 24)]"

definition of_bsn_pdu_rx_request_class :: wire_class where
  "of_bsn_pdu_rx_request_class = \<lparr>class_id = OF_BSN_PDU_RX_REQUEST, whole_buffer = True, wire_types = Some [(1, [PutVersion 0, Put8 1 0x4, Put32 8 0x5c16c7, Put32 12 0x21]),
     (2, [PutVersion 0, Put8 1 0x4, Put32 8 0x5c16c7, Put32 12 0x21]),
     (3, [PutVersion 0, Put8 1 0x4, Put32 8 0x5c16c7, Put32 12 0x21]),
     (4, [PutVersion 0, Put8 1 0x4, Put32 8 0x5c16c7, Put32 12 0x21]),
     (5, [PutVersion 0, Put8 1 0x4, Put32 8 0x5c16c7, Put32 12 0x21])],
     finishes = [MessageLength]\<rparr>"

definition of_bsn_pdu_rx_request_xid :: "32 word accessor" where
  "of_bsn_pdu_rx_request_xid = u32_accessor [OF_BSN_PDU_RX_REQUEST] [(1, 4), (2, 4), (3, 4), (4, 4), (5, 4)]"

definition of_bsn_pdu_rx_request_experimenter :: "32 word accessor" where
  "of_bsn_pdu_rx_request_experimenter = u32_accessor [OF_BSN_PDU_RX_REQUEST] [(1, 8), (2, 8), (3, 8), (4, 8), (5, 8)]"

definition of_bsn_pdu_rx_request_subtype :: "32 word accessor" where
  "of_bsn_pdu_rx_request_subtype = u32_accessor [OF_BSN_PDU_RX_REQUEST] [(1, 12), (2, 12), (3, 12), (4, 12), (5, 12)]"

definition of_bsn_pdu_rx_request_timeout_ms :: "32 word accessor" where
  "of_bsn_pdu_rx_request_timeout_ms = u32_accessor [OF_BSN_PDU_RX_REQUEST] [(1, 16), (2, 16), (3, 16), (4, 16), (5, 16)]"

definition of_bsn_pdu_rx_request_port_no :: "32 word accessor" where
  "of_bsn_pdu_rx_request_port_no = port_no_accessor [OF_BSN_PDU_RX_REQUEST] [(1, 20), (2, 20), (3, 20), (4, 20), (5, 20)]"

definition of_bsn_pdu_rx_request_slot_num :: "byte accessor" where
  "of_bsn_pdu_rx_request_slot_num = u8_accessor [OF_BSN_PDU_RX_REQUEST] [(1, 22), (2, 24), (3, 24), (4, 24), (5, 24)]"

definition of_bsn_pdu_rx_timeout_class :: wire_class where
  "of_bsn_pdu_rx_timeout_class = \<lparr>class_id = OF_BSN_PDU_RX_TIMEOUT, whole_buffer = True, wire_types = Some [(1, [PutVersion 0, Put8 1 0x4, Put32 8 0x5c16c7, Put32 12 0x23]),
     (2, [PutVersion 0, Put8 1 0x4, Put32 8 0x5c16c7, Put32 12 0x23]),
     (3, [PutVersion 0, Put8 1 0x4, Put32 8 0x5c16c7, Put32 12 0x23]),
     (4, [PutVersion 0, Put8 1 0x4, Put32 8 0x5c16c7, Put32 12 0x23]),
     (5, [PutVersion 0, Put8 1 0x4, Put32 8 0x5c16c7, Put32 12 0x23])],
     finishes = [MessageLength]\<rparr>"

definition of_bsn_pdu_rx_timeout_xid :: "32 word accessor" where
  "of_bsn_pdu_rx_timeout_xid = u32_accessor [OF_BSN_PDU_RX_TIMEOUT] [(1, 4), (2, 4), (3, 4), (4, 4), (5, 4)]"

definition of_bsn_pdu_rx_timeout_experimenter :: "32 word accessor" where
  "of_bsn_pdu_rx_timeout_experimenter = u32_accessor [OF_BSN_PDU_RX_TIMEOUT] [(1, 8), (2, 8), (3, 8), (4, 8), (5, 8)]"

definition of_bsn_pdu_rx_timeout_subtype :: "32 word accessor" where
  "of_bsn_pdu_rx_timeout_subtype = u32_accessor [OF_BSN_PDU_RX_TIMEOUT] [(1, 12), (2, 12), (3, 12), (4, 12), (5, 12)]"

definition of_bsn_pdu_rx_timeout_port_no :: "32 word accessor" where
  "of_bsn_pdu_rx_timeout_port_no = port_no_accessor [OF_BSN_PDU_RX_TIMEOUT] [(1, 16), (2, 16), (3, 16), (4, 16), (5, 16)]"

definition of_bsn_pdu_rx_timeout_slot_num :: "byte accessor" where
  "of_bsn_pdu_rx_timeout_slot_num = u8_accessor [OF_BSN_PDU_RX_TIMEOUT] [(1, 18), (2, 20), (3, 20), (4, 20), (5, 20)]"

definition of_bsn_pdu_tx_reply_class :: wire_class where
  "of_bsn_pdu_tx_reply_class = \<lparr>class_id = OF_BSN_PDU_TX_REPLY, whole_buffer = True, wire_types = Some [(1, [PutVersion 0, Put8 1 0x4, Put32 8 0x5c16c7, Put32 12 0x20]),
     (2, [PutVersion 0, Put8 1 0x4, Put32 8 0x5c16c7, Put32 12 0x20]),
     (3, [PutVersion 0, Put8 1 0x4, Put32 8 0x5c16c7, Put32 12 0x20]),
     (4, [PutVersion 0, Put8 1 0x4, Put32 8 0x5c16c7, Put32 12 0x20]),
     (5, [PutVersion 0, Put8 1 0x4, Put32 8 0x5c16c7, Put32 12 0x20])],
     finishes = [MessageLength]\<rparr>"

definition of_bsn_pdu_tx_reply_xid :: "32 word accessor" where
  "of_bsn_pdu_tx_reply_xid = u32_accessor [OF_BSN_PDU_TX_REPLY] [(1, 4), (2, 4), (3, 4), (4, 4), (5, 4)]"

definition of_bsn_pdu_tx_reply_experimenter :: "32 word accessor" where
  "of_bsn_pdu_tx_reply_experimenter = u32_accessor [OF_BSN_PDU_TX_REPLY] [(1, 8), (2, 8), (3, 8), (4, 8), (5, 8)]"

definition of_bsn_pdu_tx_reply_subtype :: "32 word accessor" where
  "of_bsn_pdu_tx_reply_subtype = u32_accessor [OF_BSN_PDU_TX_REPLY] [(1, 12), (2, 12), (3, 12), (4, 12), (5, 12)]"

definition of_bsn_pdu_tx_reply_status :: "32 word accessor" where
  "of_bsn_pdu_tx_reply_status = u32_accessor [OF_BSN_PDU_TX_REPLY] [(1, 16), (2, 16), (3, 16), (4, 16), (5, 16)]"

definition of_bsn_pdu_tx_reply_port_no :: "32 word accessor" where
  "of_bsn_pdu_tx_reply_port_no = port_no_accessor [OF_BSN_PDU_TX_REPLY] [(1, 20), (2, 20), (3, 20), (4, 20), (5, 20)]"

definition of_bsn_pdu_tx_reply_slot_num :: "byte accessor" where
  "of_bsn_pdu_tx_reply_slot_num = u8_accessor [OF_BSN_PDU_TX_REPLY] [(1, 22), (2, 24), (3, 24), (4, 24), (5, 24)]"

definition of_bsn_pdu_tx_request_class :: wire_class where
  "of_bsn_pdu_tx_request_class = \<lparr>class_id = OF_BSN_PDU_TX_REQUEST, whole_buffer = True, wire_types = Some [(1, [PutVersion 0, Put8 1 0x4, Put32 8 0x5c16c7, Put32 12 0x1f]),
     (2, [PutVersion 0, Put8 1 0x4, Put32 8 0x5c16c7, Put32 12 0x1f]),
     (3, [PutVersion 0, Put8 1 0x4, Put32 8 0x5c16c7, Put32 12 0x1f]),
     (4, [PutVersion 0, Put8 1 0x4, Put32 8 0x5c16c7, Put32 12 0x1f]),
     (5, [PutVersion 0, Put8 1 0x4, Put32 8 0x5c16c7, Put32 12 0x1f])],
     finishes = [MessageLength]\<rparr>"

definition of_bsn_pdu_tx_request_xid :: "32 word accessor" where
  "of_bsn_pdu_tx_request_xid = u32_accessor [OF_BSN_PDU_TX_REQUEST] [(1, 4), (2, 4), (3, 4), (4, 4), (5, 4)]"

definition of_bsn_pdu_tx_request_experimenter :: "32 word accessor" where
  "of_bsn_pdu_tx_request_experimenter = u32_accessor [OF_BSN_PDU_TX_REQUEST] [(1, 8), (2, 8), (3, 8), (4, 8), (5, 8)]"

definition of_bsn_pdu_tx_request_subtype :: "32 word accessor" where
  "of_bsn_pdu_tx_request_subtype = u32_accessor [OF_BSN_PDU_TX_REQUEST] [(1, 12), (2, 12), (3, 12), (4, 12), (5, 12)]"

definition of_bsn_pdu_tx_request_tx_interval_ms :: "32 word accessor" where
  "of_bsn_pdu_tx_request_tx_interval_ms = u32_accessor [OF_BSN_PDU_TX_REQUEST] [(1, 16), (2, 16), (3, 16), (4, 16), (5, 16)]"

definition of_bsn_pdu_tx_request_port_no :: "32 word accessor" where
  "of_bsn_pdu_tx_request_port_no = port_no_accessor [OF_BSN_PDU_TX_REQUEST] [(1, 20), (2, 20), (3, 20), (4, 20), (5, 20)]"

definition of_bsn_pdu_tx_request_slot_num :: "byte accessor" where
  "of_bsn_pdu_tx_request_slot_num = u8_accessor [OF_BSN_PDU_TX_REQUEST] [(1, 22), (2, 24), (3, 24), (4, 24), (5, 24)]"

definition of_bsn_set_ip_mask_class :: wire_class where
  "of_bsn_set_ip_mask_class = \<lparr>class_id = OF_BSN_SET_IP_MASK, whole_buffer = False, wire_types = Some [(1, [PutVersion 0, Put8 1 0x4, Put32 8 0x5c16c7, Put32 12 0x0])],
     finishes = [MessageLength]\<rparr>"

definition of_bsn_set_ip_mask_xid :: "32 word accessor" where
  "of_bsn_set_ip_mask_xid = u32_accessor [OF_BSN_SET_IP_MASK] [(1, 4)]"

definition of_bsn_set_ip_mask_experimenter :: "32 word accessor" where
  "of_bsn_set_ip_mask_experimenter = u32_accessor [OF_BSN_SET_IP_MASK] [(1, 8)]"

definition of_bsn_set_ip_mask_subtype :: "32 word accessor" where
  "of_bsn_set_ip_mask_subtype = u32_accessor [OF_BSN_SET_IP_MASK] [(1, 12)]"

definition of_bsn_set_ip_mask_index :: "byte accessor" where
  "of_bsn_set_ip_mask_index = u8_accessor [OF_BSN_SET_IP_MASK] [(1, 16)]"

definition of_bsn_set_ip_mask_mask :: "32 word accessor" where
  "of_bsn_set_ip_mask_mask = u32_accessor [OF_BSN_SET_IP_MASK] [(1, 20)]"

definition of_bsn_set_l2_table_reply_class :: wire_class where
  "of_bsn_set_l2_table_reply_class = \<lparr>class_id = OF_BSN_SET_L2_TABLE_REPLY, whole_buffer = False, wire_types = Some [(1, [PutVersion 0, Put8 1 0x4, Put32 8 0x5c16c7, Put32 12 0x18])],
     finishes = [MessageLength]\<rparr>"

definition of_bsn_set_l2_table_reply_xid :: "32 word accessor" where
  "of_bsn_set_l2_table_reply_xid = u32_accessor [OF_BSN_SET_L2_TABLE_REPLY] [(1, 4)]"

definition of_bsn_set_l2_table_reply_experimenter :: "32 word accessor" where
  "of_bsn_set_l2_table_reply_experimenter = u32_accessor [OF_BSN_SET_L2_TABLE_REPLY] [(1, 8)]"

definition of_bsn_set_l2_table_reply_subtype :: "32 word accessor" where
  "of_bsn_set_l2_table_reply_subtype = u32_accessor [OF_BSN_SET_L2_TABLE_REPLY] [(1, 12)]"

definition of_bsn_set_l2_table_reply_l2_table_enable :: "byte accessor" where
  "of_bsn_set_l2_table_reply_l2_table_enable = u8_accessor [OF_BSN_SET_L2_TABLE_REPLY] [(1, 16)]"

definition of_bsn_set_l2_table_reply_l2_table_priority :: "16 word accessor" where
  "of_bsn_set_l2_table_reply_l2_table_priority = u16_accessor [OF_BSN_SET_L2_TABLE_REPLY] [(1, 18)]"

definition of_bsn_set_l2_table_reply_status :: "32 word accessor" where
  "of_bsn_set_l2_table_reply_status = u32_accessor [OF_BSN_SET_L2_TABLE_REPLY] [(1, 20)]"

definition of_bsn_set_l2_table_request_class :: wire_class where
  "of_bsn_set_l2_table_request_class = \<lparr>class_id = OF_BSN_SET_L2_TABLE_REQUEST, whole_buffer = False, wire_types = Some [(1, [PutVersion 0, Put8 1 0x4, Put32 8 0x5c16c7, Put32 12 0xc])],
     finishes = [MessageLength]\<rparr>"

definition of_bsn_set_l2_table_request_xid :: "32 word accessor" where
  "of_bsn_set_l2_table_request_xid = u32_accessor [OF_BSN_SET_L2_TABLE_REQUEST] [(1, 4)]"

definition of_bsn_set_l2_table_request_experimenter :: "32 word accessor" where
  "of_bsn_set_l2_table_request_experimenter = u32_accessor [OF_BSN_SET_L2_TABLE_REQUEST] [(1, 8)]"

definition of_bsn_set_l2_table_request_subtype :: "32 word accessor" where
  "of_bsn_set_l2_table_request_subtype = u32_accessor [OF_BSN_SET_L2_TABLE_REQUEST] [(1, 12)]"

definition of_bsn_set_l2_table_request_l2_table_enable :: "byte accessor" where
  "of_bsn_set_l2_table_request_l2_table_enable = u8_accessor [OF_BSN_SET_L2_TABLE_REQUEST] [(1, 16)]"

definition of_bsn_set_l2_table_request_l2_table_priority :: "16 word accessor" where
  "of_bsn_set_l2_table_request_l2_table_priority = u16_accessor [OF_BSN_SET_L2_TABLE_REQUEST] [(1, 18)]"

definition of_bsn_set_mirroring_class :: wire_class where
  "of_bsn_set_mirroring_class = \<lparr>class_id = OF_BSN_SET_MIRRORING, whole_buffer = False, wire_types = Some [(1, [PutVersion 0, Put8 1 0x4, Put32 8 0x5c16c7, Put32 12 0x3]),
     (2, [PutVersion 0, Put8 1 0x4, Put32 8 0x5c16c7, Put32 12 0x3]),
     (3, [PutVersion 0, Put8 1 0x4, Put32 8 0x5c16c7, Put32 12 0x3]),
     (4, [PutVersion 0, Put8 1 0x4, Put32 8 0x5c16c7, Put32 12 0x3]),
     (5, [PutVersion 0, Put8 1 0x4, Put32 8 0x5c16c7, Put32 12 0x3])],
     finishes = [MessageLength]\<rparr>"

definition of_bsn_set_mirroring_xid :: "32 word accessor" where
  "of_bsn_set_mirroring_xid = u32_accessor [OF_BSN_SET_MIRRORING] [(1, 4), (2, 4), (3, 4), (4, 4), (5, 4)]"

definition of_bsn_set_mirroring_experimenter :: "32 word accessor" where
  "of_bsn_set_mirroring_experimenter = u32_accessor [OF_BSN_SET_MIRRORING] [(1, 8), (2, 8), (3, 8), (4, 8), (5, 8)]"

definition of_bsn_set_mirroring_subtype :: "32 word accessor" where
  "of_bsn_set_mirroring_subtype = u32_accessor [OF_BSN_SET_MIRRORING] [(1, 12), (2, 12), (3, 12), (4, 12), (5, 12)]"

definition of_bsn_set_mirroring_report_mirror_ports :: "byte accessor" where
  "of_bsn_set_mirroring_report_mirror_ports = u8_accessor [OF_BSN_SET_MIRRORING] [(1, 16), (2, 16), (3, 16), (4, 16), (5, 16)]"

definition of_bsn_set_pktin_suppression_reply_class :: wire_class where
  "of_bsn_set_pktin_suppression_reply_class = \<lparr>class_id = OF_BSN_SET_PKTIN_SUPPRESSION_REPLY, whole_buffer = False, wire_types = Some [(1, [PutVersion 0, Put8 1 0x4, Put32 8 0x5c16c7, Put32 12 0x19]),
     (2, [PutVersion 0, Put8 1 0x4, Put32 8 0x5c16c7, Put32 12 0x19]),
     (3, [PutVersion 0, Put8 1 0x4, Put32 8 0x5c16c7, Put32 12 0x19]),
     (4, [PutVersion 0, Put8 1 0x4, Put32 8 0x5c16c7, Put32 12 0x19]),
     (5, [PutVersion 0, Put8 1 0x4, Put32 8 0x5c16c7, Put32 12 0x19])],
     finishes = [MessageLength]\<rparr>"

definition of_bsn_set_pktin_suppression_reply_xid :: "32 word accessor" where
  "of_bsn_set_pktin_suppression_reply_xid = u32_accessor [OF_BSN_SET_PKTIN_SUPPRESSION_REPLY] [(1, 4), (2, 4), (3, 4), (4, 4), (5, 4)]"

definition of_bsn_set_pktin_suppression_reply_experimenter :: "32 word accessor" where
  "of_bsn_set_pktin_suppression_reply_experimenter = u32_accessor [OF_BSN_SET_PKTIN_SUPPRESSION_REPLY] [(1, 8), (2, 8), (3, 8), (4, 8), (5, 8)]"

definition of_bsn_set_pktin_suppression_reply_subtype :: "32 word accessor" where
  "of_bsn_set_pktin_suppression_reply_subtype = u32_accessor [OF_BSN_SET_PKTIN_SUPPRESSION_REPLY] [(1, 12), (2, 12), (3, 12), (4, 12), (5, 12)]"

definition of_bsn_set_pktin_suppression_reply_status :: "32 word accessor" where
  "of_bsn_set_pktin_suppression_reply_status = u32_accessor [OF_BSN_SET_PKTIN_SUPPRESSION_REPLY] [(1, 16), (2, 16), (3, 16), (4, 16), (5, 16)]"

definition of_bsn_set_pktin_suppression_request_class :: wire_class where
  "of_bsn_set_pktin_suppression_request_class = \<lparr>class_id = OF_BSN_SET_PKTIN_SUPPRESSION_REQUEST, whole_buffer = False, wire_types = Some [(1, [PutVersion 0, Put8 1 0x4, Put32 8 0x5c16c7, Put32 12 0xb]),
     (2, [PutVersion 0, Put8 1 0x4, Put32 8 0x5c16c7, Put32 12 0xb]),
     (3, [PutVersion 0, Put8 1 0x4, Put32 8 0x5c16c7, Put32 12 0xb]),
     (4, [PutVersion 0, Put8 1 0x4, Put32 8 0x5c16c7, Put32 12 0xb]),
     (5, [PutVersion 0, Put8 1 0x4, Put32 8 0x5c16c7, Put32 12 0xb])],
     finishes = [MessageLength]\<rparr>"

definition of_bsn_set_pktin_suppression_request_xid :: "32 word accessor" where
  "of_bsn_set_pktin_suppression_request_xid = u32_accessor [OF_BSN_SET_PKTIN_SUPPRESSION_REQUEST] [(1, 4), (2, 4), (3, 4), (4, 4), (5, 4)]"

definition of_bsn_set_pktin_suppression_request_experimenter :: "32 word accessor" where
  "of_bsn_set_pktin_suppression_request_experimenter = u32_accessor [OF_BSN_SET_PKTIN_SUPPRESSION_REQUEST] [(1, 8), (2, 8), (3, 8), (4, 8), (5, 8)]"

definition of_bsn_set_pktin_suppression_request_subtype :: "32 word accessor" where
  "of_bsn_set_pktin_suppression_request_subtype = u32_accessor [OF_BSN_SET_PKTIN_SUPPRESSION_REQUEST] [(1, 12), (2, 12), (3, 12), (4, 12), (5, 12)]"

definition of_bsn_set_pktin_suppression_request_enabled :: "byte accessor" where
  "of_bsn_set_pktin_suppression_request_enabled = u8_accessor [OF_BSN_SET_PKTIN_SUPPRESSION_REQUEST] [(1, 16), (2, 16), (3, 16), (4, 16), (5, 16)]"

definition of_bsn_set_pktin_suppression_request_idle_timeout :: "16 word accessor" where
  "of_bsn_set_pktin_suppression_request_idle_timeout = u16_accessor [OF_BSN_SET_PKTIN_SUPPRESSION_REQUEST] [(1, 18), (2, 18), (3, 18), (4, 18), (5, 18)]"

definition of_bsn_set_pktin_suppression_request_hard_timeout :: "16 word accessor" where
  "of_bsn_set_pktin_suppression_request_hard_timeout = u16_accessor [OF_BSN_SET_PKTIN_SUPPRESSION_REQUEST] [(1, 20), (2, 20), (3, 20), (4, 20), (5, 20)]"

definition of_bsn_set_pktin_suppression_request_priority :: "16 word accessor" where
  "of_bsn_set_pktin_suppression_request_priority = u16_accessor [OF_BSN_SET_PKTIN_SUPPRESSION_REQUEST] [(1, 22), (2, 22), (3, 22), (4, 22), (5, 22)]"

definition of_bsn_set_pktin_suppression_request_cookie :: "64 word accessor" where
  "of_bsn_set_pktin_suppression_request_cookie = u64_accessor [OF_BSN_SET_PKTIN_SUPPRESSION_REQUEST] [(1, 24), (2, 24), (3, 24), (4, 24), (5, 24)]"

definition of_bsn_shell_command_class :: wire_class where
  "of_bsn_shell_command_class = \<lparr>class_id = OF_BSN_SHELL_COMMAND, whole_buffer = True, wire_types = Some [(1, [PutVersion 0, Put8 1 0x4, Put32 8 0x5c16c7, Put32 12 0x6])],
     finishes = [MessageLength]\<rparr>"

definition of_bsn_shell_command_xid :: "32 word accessor" where
  "of_bsn_shell_command_xid = u32_accessor [OF_BSN_SHELL_COMMAND] [(1, 4)]"

definition of_bsn_shell_command_experimenter :: "32 word accessor" where
  "of_bsn_shell_command_experimenter = u32_accessor [OF_BSN_SHELL_COMMAND] [(1, 8)]"

definition of_bsn_shell_command_subtype :: "32 word accessor" where
  "of_bsn_shell_command_subtype = u32_accessor [OF_BSN_SHELL_COMMAND] [(1, 12)]"

definition of_bsn_shell_command_service :: "32 word accessor" where
  "of_bsn_shell_command_service = u32_accessor [OF_BSN_SHELL_COMMAND] [(1, 16)]"

definition of_bsn_shell_output_class :: wire_class where
  "of_bsn_shell_output_class = \<lparr>class_id = OF_BSN_SHELL_OUTPUT, whole_buffer = True, wire_types = Some [(1, [PutVersion 0, Put8 1 0x4, Put32 8 0x5c16c7, Put32 12 0x7])],
     finishes = [MessageLength]\<rparr>"

definition of_bsn_shell_output_xid :: "32 word accessor" where
  "of_bsn_shell_output_xid = u32_accessor [OF_BSN_SHELL_OUTPUT] [(1, 4)]"

definition of_bsn_shell_output_experimenter :: "32 word accessor" where
  "of_bsn_shell_output_experimenter = u32_accessor [OF_BSN_SHELL_OUTPUT] [(1, 8)]"

definition of_bsn_shell_output_subtype :: "32 word accessor" where
  "of_bsn_shell_output_subtype = u32_accessor [OF_BSN_SHELL_OUTPUT] [(1, 12)]"

definition of_bsn_shell_status_class :: wire_class where
  "of_bsn_shell_status_class = \<lparr>class_id = OF_BSN_SHELL_STATUS, whole_buffer = False, wire_types = Some [(1, [PutVersion 0, Put8 1 0x4, Put32 8 0x5c16c7, Put32 12 0x8])],
     finishes = [MessageLength]\<rparr>"

definition of_bsn_shell_status_xid :: "32 word accessor" where
  "of_bsn_shell_status_xid = u32_accessor [OF_BSN_SHELL_STATUS] [(1, 4)]"

definition of_bsn_shell_status_experimenter :: "32 word accessor" where
  "of_bsn_shell_status_experimenter = u32_accessor [OF_BSN_SHELL_STATUS] [(1, 8)]"

definition of_bsn_shell_status_subtype :: "32 word accessor" where
  "of_bsn_shell_status_subtype = u32_accessor [OF_BSN_SHELL_STATUS] [(1, 12)]"

definition of_bsn_shell_status_status :: "32 word accessor" where
  "of_bsn_shell_status_status = u32_accessor [OF_BSN_SHELL_STATUS] [(1, 16)]"

definition of_experimenter_stats_reply_class :: wire_class where
  "of_experimenter_stats_reply_class = \<lparr>class_id = OF_EXPERIMENTER_STATS_REPLY, whole_buffer = True, wire_types = None,
     finishes = []\<rparr>"

definition of_experimenter_stats_reply_xid :: "32 word accessor" where
  "of_experimenter_stats_reply_xid = u32_accessor [OF_EXPERIMENTER_STATS_REPLY] [(1, 4), (2, 4), (3, 4), (4, 4), (5, 4)]"

definition of_experimenter_stats_reply_flags :: "16 word accessor" where
  "of_experimenter_stats_reply_flags = u16_accessor [OF_EXPERIMENTER_STATS_REPLY] [(1, 10), (2, 10), (3, 10), (4, 10), (5, 10)]"

definition of_experimenter_stats_reply_experimenter :: "32 word accessor" where
  "of_experimenter_stats_reply_experimenter = u32_accessor [OF_EXPERIMENTER_STATS_REPLY] [(1, 12), (2, 16), (3, 16), (4, 16), (5, 16)]"

definition of_experimenter_stats_reply_subtype :: "32 word accessor" where
  "of_experimenter_stats_reply_subtype = u32_accessor [OF_EXPERIMENTER_STATS_REPLY] [(3, 20), (4, 20), (5, 20)]"

text \<open>The classes, each with consistent wire types in every version that has it.\<close>

definition classes_01 :: "wire_class list" where
  "classes_01 = [of_bsn_bw_clear_data_reply_class, of_bsn_bw_clear_data_request_class,
     of_bsn_bw_enable_get_reply_class, of_bsn_bw_enable_get_request_class,
     of_bsn_bw_enable_set_reply_class, of_bsn_bw_enable_set_request_class,
     of_bsn_get_interfaces_reply_class, of_bsn_get_interfaces_request_class,
     of_bsn_get_ip_mask_reply_class, of_bsn_get_ip_mask_request_class, of_bsn_get_l2_table_reply_class,
     of_bsn_get_l2_table_request_class, of_bsn_get_mirroring_reply_class,
     of_bsn_get_mirroring_request_class, of_bsn_hybrid_get_reply_class, of_bsn_hybrid_get_request_class,
     of_bsn_interface_class, of_bsn_pdu_rx_reply_class, of_bsn_pdu_rx_request_class,
     of_bsn_pdu_rx_timeout_class, of_bsn_pdu_tx_reply_class, of_bsn_pdu_tx_request_class,
     of_bsn_set_ip_mask_class, of_bsn_set_l2_table_reply_class, of_bsn_set_l2_table_request_class,
     of_bsn_set_mirroring_class, of_bsn_set_pktin_suppression_reply_class,
     of_bsn_set_pktin_suppression_request_class, of_bsn_shell_command_class, of_bsn_shell_output_class,
     of_bsn_shell_status_class, of_experimenter_stats_reply_class]"

lemmas class_defs_01 =
  of_bsn_bw_clear_data_reply_class_def of_bsn_bw_clear_data_request_class_def
  of_bsn_bw_enable_get_reply_class_def of_bsn_bw_enable_get_request_class_def
  of_bsn_bw_enable_set_reply_class_def of_bsn_bw_enable_set_request_class_def
  of_bsn_get_interfaces_reply_class_def of_bsn_get_interfaces_request_class_def
  of_bsn_get_ip_mask_reply_class_def of_bsn_get_ip_mask_request_class_def
  of_bsn_get_l2_table_reply_class_def of_bsn_get_l2_table_request_class_def
  of_bsn_get_mirroring_reply_class_def of_bsn_get_mirroring_request_class_def
  of_bsn_hybrid_get_reply_class_def of_bsn_hybrid_get_request_class_def of_bsn_interface_class_def
  of_bsn_pdu_rx_reply_class_def of_bsn_pdu_rx_request_class_def of_bsn_pdu_rx_timeout_class_def
  of_bsn_pdu_tx_reply_class_def of_bsn_pdu_tx_request_class_def of_bsn_set_ip_mask_class_def
  of_bsn_set_l2_table_reply_class_def of_bsn_set_l2_table_request_class_def
  of_bsn_set_mirroring_class_def of_bsn_set_pktin_suppression_reply_class_def
  of_bsn_set_pktin_suppression_request_class_def of_bsn_shell_command_class_def
  of_bsn_shell_output_class_def of_bsn_shell_status_class_def of_experimenter_stats_reply_class_def

lemma classes_ok_01: "list_all class_ok classes_01"
  unfolding classes_01_def
  by (simp add: class_defs_01 class_checks)

text \<open>The accessors.\<close>

definition fields_01 :: "field list" where
  "fields_01 = [U32 of_bsn_bw_clear_data_reply_xid, U32 of_bsn_bw_clear_data_reply_experimenter,
     U32 of_bsn_bw_clear_data_reply_subtype, U32 of_bsn_bw_clear_data_reply_status,
     U32 of_bsn_bw_clear_data_request_xid, U32 of_bsn_bw_clear_data_request_experimenter,
     U32 of_bsn_bw_clear_data_request_subtype, U32 of_bsn_bw_enable_get_reply_xid,
     U32 of_bsn_bw_enable_get_reply_experimenter, U32 of_bsn_bw_enable_get_reply_subtype,
     U32 of_bsn_bw_enable_get_reply_enabled, U32 of_bsn_bw_enable_get_request_xid,
     U32 of_bsn_bw_enable_get_request_experimenter, U32 of_bsn_bw_enable_get_request_subtype,
     U32 of_bsn_bw_enable_set_reply_xid, U32 of_bsn_bw_enable_set_reply_experimenter,
     U32 of_bsn_bw_enable_set_reply_subtype, U32 of_bsn_bw_enable_set_reply_enable,
     U32 of_bsn_bw_enable_set_reply_status, U32 of_bsn_bw_enable_set_request_xid,
     U32 of_bsn_bw_enable_set_request_experimenter, U32 of_bsn_bw_enable_set_request_subtype,
     U32 of_bsn_bw_enable_set_request_enable, U32 of_bsn_get_interfaces_reply_xid,
     U32 of_bsn_get_interfaces_reply_experimenter, U32 of_bsn_get_interfaces_reply_subtype,
     U32 of_bsn_get_interfaces_request_xid, U32 of_bsn_get_interfaces_request_experimenter,
     U32 of_bsn_get_interfaces_request_subtype, U32 of_bsn_get_ip_mask_reply_xid,
     U32 of_bsn_get_ip_mask_reply_experimenter, U32 of_bsn_get_ip_mask_reply_subtype,
     U8 of_bsn_get_ip_mask_reply_index, U32 of_bsn_get_ip_mask_reply_mask,
     U32 of_bsn_get_ip_mask_request_xid, U32 of_bsn_get_ip_mask_request_experimenter,
     U32 of_bsn_get_ip_mask_request_subtype, U8 of_bsn_get_ip_mask_request_index,
     U32 of_bsn_get_l2_table_reply_xid, U32 of_bsn_get_l2_table_reply_experimenter,
     U32 of_bsn_get_l2_table_reply_subtype, U8 of_bsn_get_l2_table_reply_l2_table_enable,
     U16 of_bsn_get_l2_table_reply_l2_table_priority, U32 of_bsn_get_l2_table_request_xid,
     U32 of_bsn_get_l2_table_request_experimenter, U32 of_bsn_get_l2_table_request_subtype,
     U32 of_bsn_get_mirroring_reply_xid, U32 of_bsn_get_mirroring_reply_experimenter,
     U32 of_bsn_get_mirroring_reply_subtype, U8 of_bsn_get_mirroring_reply_report_mirror_ports,
     U32 of_bsn_get_mirroring_request_xid, U32 of_bsn_get_mirroring_request_experimenter,
     U32 of_bsn_get_mirroring_request_subtype, U8 of_bsn_get_mirroring_request_report_mirror_ports,
     U32 of_bsn_hybrid_get_reply_xid, U32 of_bsn_hybrid_get_reply_experimenter,
     U32 of_bsn_hybrid_get_reply_subtype, U8 of_bsn_hybrid_get_reply_hybrid_enable,
     U16 of_bsn_hybrid_get_reply_hybrid_version, U32 of_bsn_hybrid_get_request_xid,
     U32 of_bsn_hybrid_get_request_experimenter, U32 of_bsn_hybrid_get_request_subtype,
     Octets 6 of_bsn_interface_hw_addr, Octets 16 of_bsn_interface_name, U32 of_bsn_interface_ipv4_addr,
     U32 of_bsn_interface_ipv4_netmask, U32 of_bsn_pdu_rx_reply_xid, U32 of_bsn_pdu_rx_reply_experimenter,
     U32 of_bsn_pdu_rx_reply_subtype, U32 of_bsn_pdu_rx_reply_status, PortNo of_bsn_pdu_rx_reply_port_no,
     U8 of_bsn_pdu_rx_reply_slot_num, U32 of_bsn_pdu_rx_request_xid,
     U32 of_bsn_pdu_rx_request_experimenter, U32 of_bsn_pdu_rx_request_subtype,
     U32 of_bsn_pdu_rx_request_timeout_ms, PortNo of_bsn_pdu_rx_request_port_no,
     U8 of_bsn_pdu_rx_request_slot_num, U32 of_bsn_pdu_rx_timeout_xid,
     U32 of_bsn_pdu_rx_timeout_experimenter, U32 of_bsn_pdu_rx_timeout_subtype,
     PortNo of_bsn_pdu_rx_timeout_port_no, U8 of_bsn_pdu_rx_timeout_slot_num, U32 of_bsn_pdu_tx_reply_xid,
     U32 of_bsn_pdu_tx_reply_experimenter, U32 of_bsn_pdu_tx_reply_subtype,
     U32 of_bsn_pdu_tx_reply_status, PortNo of_bsn_pdu_tx_reply_port_no, U8 of_bsn_pdu_tx_reply_slot_num,
     U32 of_bsn_pdu_tx_request_xid, U32 of_bsn_pdu_tx_request_experimenter,
     U32 of_bsn_pdu_tx_request_subtype, U32 of_bsn_pdu_tx_request_tx_interval_ms,
     PortNo of_bsn_pdu_tx_request_port_no, U8 of_bsn_pdu_tx_request_slot_num, U32 of_bsn_set_ip_mask_xid,
     U32 of_bsn_set_ip_mask_experimenter, U32 of_bsn_set_ip_mask_subtype, U8 of_bsn_set_ip_mask_index,
     U32 of_bsn_set_ip_mask_mask, U32 of_bsn_set_l2_table_reply_xid,
     U32 of_bsn_set_l2_table_reply_experimenter, U32 of_bsn_set_l2_table_reply_subtype,
     U8 of_bsn_set_l2_table_reply_l2_table_enable, U16 of_bsn_set_l2_table_reply_l2_table_priority,
     U32 of_bsn_set_l2_table_reply_status, U32 of_bsn_set_l2_table_request_xid,
     U32 of_bsn_set_l2_table_request_experimenter, U32 of_bsn_set_l2_table_request_subtype,
     U8 of_bsn_set_l2_table_request_l2_table_enable, U16 of_bsn_set_l2_table_request_l2_table_priority,
     U32 of_bsn_set_mirroring_xid, U32 of_bsn_set_mirroring_experimenter,
     U32 of_bsn_set_mirroring_subtype, U8 of_bsn_set_mirroring_report_mirror_ports,
     U32 of_bsn_set_pktin_suppression_reply_xid, U32 of_bsn_set_pktin_suppression_reply_experimenter,
     U32 of_bsn_set_pktin_suppression_reply_subtype, U32 of_bsn_set_pktin_suppression_reply_status,
     U32 of_bsn_set_pktin_suppression_request_xid, U32 of_bsn_set_pktin_suppression_request_experimenter,
     U32 of_bsn_set_pktin_suppression_request_subtype, U8 of_bsn_set_pktin_suppression_request_enabled,
     U16 of_bsn_set_pktin_suppression_request_idle_timeout,
     U16 of_bsn_set_pktin_suppression_request_hard_timeout,
     U16 of_bsn_set_pktin_suppression_request_priority, U64 of_bsn_set_pktin_suppression_request_cookie,
     U32 of_bsn_shell_command_xid, U32 of_bsn_shell_command_experimenter,
     U32 of_bsn_shell_command_subtype, U32 of_bsn_shell_command_service, U32 of_bsn_shell_output_xid,
     U32 of_bsn_shell_output_experimenter, U32 of_bsn_shell_output_subtype, U32 of_bsn_shell_status_xid,
     U32 of_bsn_shell_status_experimenter, U32 of_bsn_shell_status_subtype,
     U32 of_bsn_shell_status_status, U32 of_experimenter_stats_reply_xid,
     U16 of_experimenter_stats_reply_flags, U32 of_experimenter_stats_reply_experimenter,
     U32 of_experimenter_stats_reply_subtype]"

lemmas accessor_defs_01 =
  of_bsn_bw_clear_data_reply_xid_def of_bsn_bw_clear_data_reply_experimenter_def
  of_bsn_bw_clear_data_reply_subtype_def of_bsn_bw_clear_data_reply_status_def
  of_bsn_bw_clear_data_request_xid_def of_bsn_bw_clear_data_request_experimenter_def
  of_bsn_bw_clear_data_request_subtype_def of_bsn_bw_enable_get_reply_xid_def
  of_bsn_bw_enable_get_reply_experimenter_def of_bsn_bw_enable_get_reply_subtype_def
  of_bsn_bw_enable_get_reply_enabled_def of_bsn_bw_enable_get_request_xid_def
  of_bsn_bw_enable_get_request_experimenter_def of_bsn_bw_enable_get_request_subtype_def
  of_bsn_bw_enable_set_reply_xid_def of_bsn_bw_enable_set_reply_experimenter_def
  of_bsn_bw_enable_set_reply_subtype_def of_bsn_bw_enable_set_reply_enable_def
  of_bsn_bw_enable_set_reply_status_def of_bsn_bw_enable_set_request_xid_def
  of_bsn_bw_enable_set_request_experimenter_def of_bsn_bw_enable_set_request_subtype_def
  of_bsn_bw_enable_set_request_enable_def of_bsn_get_interfaces_reply_xid_def
  of_bsn_get_interfaces_reply_experimenter_def of_bsn_get_interfaces_reply_subtype_def
  of_bsn_get_interfaces_request_xid_def of_bsn_get_interfaces_request_experimenter_def
  of_bsn_get_interfaces_request_subtype_def of_bsn_get_ip_mask_reply_xid_def
  of_bsn_get_ip_mask_reply_experimenter_def of_bsn_get_ip_mask_reply_subtype_def
  of_bsn_get_ip_mask_reply_index_def of_bsn_get_ip_mask_reply_mask_def
  of_bsn_get_ip_mask_request_xid_def of_bsn_get_ip_mask_request_experimenter_def
  of_bsn_get_ip_mask_request_subtype_def of_bsn_get_ip_mask_request_index_def
  of_bsn_get_l2_table_reply_xid_def of_bsn_get_l2_table_reply_experimenter_def
  of_bsn_get_l2_table_reply_subtype_def of_bsn_get_l2_table_reply_l2_table_enable_def
  of_bsn_get_l2_table_reply_l2_table_priority_def of_bsn_get_l2_table_request_xid_def
  of_bsn_get_l2_table_request_experimenter_def of_bsn_get_l2_table_request_subtype_def
  of_bsn_get_mirroring_reply_xid_def of_bsn_get_mirroring_reply_experimenter_def
  of_bsn_get_mirroring_reply_subtype_def of_bsn_get_mirroring_reply_report_mirror_ports_def
  of_bsn_get_mirroring_request_xid_def of_bsn_get_mirroring_request_experimenter_def
  of_bsn_get_mirroring_request_subtype_def of_bsn_get_mirroring_request_report_mirror_ports_def
  of_bsn_hybrid_get_reply_xid_def of_bsn_hybrid_get_reply_experimenter_def
  of_bsn_hybrid_get_reply_subtype_def of_bsn_hybrid_get_reply_hybrid_enable_def
  of_bsn_hybrid_get_reply_hybrid_version_def of_bsn_hybrid_get_request_xid_def
  of_bsn_hybrid_get_request_experimenter_def of_bsn_hybrid_get_request_subtype_def
  of_bsn_interface_hw_addr_def of_bsn_interface_name_def of_bsn_interface_ipv4_addr_def
  of_bsn_interface_ipv4_netmask_def of_bsn_pdu_rx_reply_xid_def of_bsn_pdu_rx_reply_experimenter_def
  of_bsn_pdu_rx_reply_subtype_def of_bsn_pdu_rx_reply_status_def of_bsn_pdu_rx_reply_port_no_def
  of_bsn_pdu_rx_reply_slot_num_def of_bsn_pdu_rx_request_xid_def
  of_bsn_pdu_rx_request_experimenter_def of_bsn_pdu_rx_request_subtype_def
  of_bsn_pdu_rx_request_timeout_ms_def of_bsn_pdu_rx_request_port_no_def
  of_bsn_pdu_rx_request_slot_num_def of_bsn_pdu_rx_timeout_xid_def
  of_bsn_pdu_rx_timeout_experimenter_def of_bsn_pdu_rx_timeout_subtype_def
  of_bsn_pdu_rx_timeout_port_no_def of_bsn_pdu_rx_timeout_slot_num_def of_bsn_pdu_tx_reply_xid_def
  of_bsn_pdu_tx_reply_experimenter_def of_bsn_pdu_tx_reply_subtype_def
  of_bsn_pdu_tx_reply_status_def of_bsn_pdu_tx_reply_port_no_def of_bsn_pdu_tx_reply_slot_num_def
  of_bsn_pdu_tx_request_xid_def of_bsn_pdu_tx_request_experimenter_def
  of_bsn_pdu_tx_request_subtype_def of_bsn_pdu_tx_request_tx_interval_ms_def
  of_bsn_pdu_tx_request_port_no_def of_bsn_pdu_tx_request_slot_num_def of_bsn_set_ip_mask_xid_def
  of_bsn_set_ip_mask_experimenter_def of_bsn_set_ip_mask_subtype_def of_bsn_set_ip_mask_index_def
  of_bsn_set_ip_mask_mask_def of_bsn_set_l2_table_reply_xid_def
  of_bsn_set_l2_table_reply_experimenter_def of_bsn_set_l2_table_reply_subtype_def
  of_bsn_set_l2_table_reply_l2_table_enable_def of_bsn_set_l2_table_reply_l2_table_priority_def
  of_bsn_set_l2_table_reply_status_def of_bsn_set_l2_table_request_xid_def
  of_bsn_set_l2_table_request_experimenter_def of_bsn_set_l2_table_request_subtype_def
  of_bsn_set_l2_table_request_l2_table_enable_def of_bsn_set_l2_table_request_l2_table_priority_def
  of_bsn_set_mirroring_xid_def of_bsn_set_mirroring_experimenter_def
  of_bsn_set_mirroring_subtype_def of_bsn_set_mirroring_report_mirror_ports_def
  of_bsn_set_pktin_suppression_reply_xid_def of_bsn_set_pktin_suppression_reply_experimenter_def
  of_bsn_set_pktin_suppression_reply_subtype_def of_bsn_set_pktin_suppression_reply_status_def
  of_bsn_set_pktin_suppression_request_xid_def of_bsn_set_pktin_suppression_request_experimenter_def
  of_bsn_set_pktin_suppression_request_subtype_def of_bsn_set_pktin_suppression_request_enabled_def
  of_bsn_set_pktin_suppression_request_idle_timeout_def
  of_bsn_set_pktin_suppression_request_hard_timeout_def
  of_bsn_set_pktin_suppression_request_priority_def of_bsn_set_pktin_suppression_request_cookie_def
  of_bsn_shell_command_xid_def of_bsn_shell_command_experimenter_def
  of_bsn_shell_command_subtype_def of_bsn_shell_command_service_def of_bsn_shell_output_xid_def
  of_bsn_shell_output_experimenter_def of_bsn_shell_output_subtype_def of_bsn_shell_status_xid_def
  of_bsn_shell_status_experimenter_def of_bsn_shell_status_subtype_def
  of_bsn_shell_status_status_def of_experimenter_stats_reply_xid_def
  of_experimenter_stats_reply_flags_def of_experimenter_stats_reply_experimenter_def
  of_experimenter_stats_reply_subtype_def

lemma fields_ok_01: "list_all field_ok fields_01"
  unfolding fields_01_def accessor_defs_01
  by (simp add: accessors_ok octets_accessors_ok inside_rows del: field_ok.simps)

end
