(* ===== verification/Class02.thy ===== *)
theory Class02
  imports Construct
begin

text \<open>
  The classes of \<^verbatim>\<open>src/class02.c\<close>: for each what its constructor, initialiser and
  \<open>push_wire_types\<close> write, and the scalar accessors, a getter and a setter for each field at a fixed offset.
\<close>

definition of_bsn_stats_reply_class :: wire_class where
  "of_bsn_stats_reply_class = \<lparr>class_id = OF_BSN_STATS_REPLY, whole_buffer = True, wire_types = None,
     finishes = []\<rparr>"

definition of_bsn_stats_reply_xid :: "32 word accessor" where
  "of_bsn_stats_reply_xid = u32_accessor [OF_BSN_STATS_REPLY] [(1, 4), (2, 4), (3, 4), (4, 4), (5, 4)]"

definition of_bsn_stats_reply_flags :: "16 word accessor" where
  "of_bsn_stats_reply_flags = u16_accessor [OF_BSN_STATS_REPLY] [(1, 10), (2, 10), (3, 10), (4, 10), (5, 10)]"

definition of_bsn_stats_reply_experimenter :: "32 word accessor" where
  "of_bsn_stats_reply_experimenter = u32_accessor [OF_BSN_STATS_REPLY] [(1, 16), (2, 16), (3, 16), (4, 16), (5, 16)]"

definition of_bsn_stats_reply_subtype :: "32 word accessor" where
  "of_bsn_stats_reply_subtype = u32_accessor [OF_BSN_STATS_REPLY] [(1, 20), (2, 20), (3, 20), (4, 20), (5, 20)]"

definition of_experimenter_stats_request_class :: wire_class where
  "of_experimenter_stats_request_class = \<lparr>class_id = OF_EXPERIMENTER_STATS_REQUEST, whole_buffer = True, wire_types = None,
     finishes = []\<rparr>"

definition of_experimenter_stats_request_xid :: "32 word accessor" where
  "of_experimenter_stats_request_xid = u32_accessor [OF_EXPERIMENTER_STATS_REQUEST] [(1, 4), (2, 4), (3, 4), (4, 4), (5, 4)]"

definition of_experimenter_stats_request_flags :: "16 word accessor" where
  "of_experimenter_stats_request_flags = u16_accessor [OF_EXPERIMENTER_STATS_REQUEST] [(1, 10), (2, 10), (3, 10), (4, 10), (5, 10)]"

definition of_experimenter_stats_request_experimenter :: "32 word accessor" where
  "of_experimenter_stats_request_experimenter = u32_accessor [OF_EXPERIMENTER_STATS_REQUEST] [(1, 12), (2, 16), (3, 16), (4, 16), (5, 16)]"

definition of_experimenter_stats_request_subtype :: "32 word accessor" where
  "of_experimenter_stats_request_subtype = u32_accessor [OF_EXPERIMENTER_STATS_REQUEST] [(3, 20), (4, 20), (5, 20)]"

definition of_bsn_stats_request_class :: wire_class where
  "of_bsn_stats_request_class = \<lparr>class_id = OF_BSN_STATS_REQUEST, whole_buffer = True, wire_types = None,
     finishes = []\<rparr>"

definition of_bsn_stats_request_xid :: "32 word accessor" where
  "of_bsn_stats_request_xid = u32_accessor [OF_BSN_STATS_REQUEST] [(1, 4), (2, 4), (3, 4), (4, 4), (5, 4)]"

definition of_bsn_stats_request_flags :: "16 word accessor" where
  "of_bsn_stats_request_flags = u16_accessor [OF_BSN_STATS_REQUEST] [(1, 10), (2, 10), (3, 10), (4, 10), (5, 10)]"

definition of_bsn_stats_request_experimenter :: "32 word accessor" where
  "of_bsn_stats_request_experimenter = u32_accessor [OF_BSN_STATS_REQUEST] [(1, 16), (2, 16), (3, 16), (4, 16), (5, 16)]"

definition of_bsn_stats_request_subtype :: "32 word accessor" where
  "of_bsn_stats_request_subtype = u32_accessor [OF_BSN_STATS_REQUEST] [(1, 20), (2, 20), (3, 20), (4, 20), (5, 20)]"

definition of_bsn_virtual_port_create_reply_class :: wire_class where
  "of_bsn_virtual_port_create_reply_class = \<lparr>class_id = OF_BSN_VIRTUAL_PORT_CREATE_REPLY, whole_buffer = False, wire_types = Some [(1, [PutVersion 0, Put8 1 0x4, Put32 8 0x5c16c7, Put32 12 0x10]),
     (2, [PutVersion 0, Put8 1 0x4, Put32 8 0x5c16c7, Put32 12 0x10]),
     (3, [PutVersion 0, Put8 1 0x4, Put32 8 0x5c16c7, Put32 12 0x10]),
     (4, [PutVersion 0, Put8 1 0x4, Put32 8 0x5c16c7, Put32 12 0x10]),
     (5, [PutVersion 0, Put8 1 0x4, Put32 8 0x5c16c7, Put32 12 0x10])],
     finishes = [MessageLength]\<rparr>"

definition of_bsn_virtual_port_create_reply_xid :: "32 word accessor" where
  "of_bsn_virtual_port_create_reply_xid = u32_accessor [OF_BSN_VIRTUAL_PORT_CREATE_REPLY] [(1, 4), (2, 4), (3, 4), (4, 4), (5, 4)]"

definition of_bsn_virtual_port_create_reply_experimenter :: "32 word accessor" where
  "of_bsn_virtual_port_create_reply_experimenter = u32_accessor [OF_BSN_VIRTUAL_PORT_CREATE_REPLY] [(1, 8), (2, 8), (3, 8), (4, 8), (5, 8)]"

definition of_bsn_virtual_port_create_reply_subtype :: "32 word accessor" where
  "of_bsn_virtual_port_create_reply_subtype = u32_accessor [OF_BSN_VIRTUAL_PORT_CREATE_REPLY] [(1, 12), (2, 12), (3, 12), (4, 12), (5, 12)]"

definition of_bsn_virtual_port_create_reply_status :: "32 word accessor" where
  "of_bsn_virtual_port_create_reply_status = u32_accessor [OF_BSN_VIRTUAL_PORT_CREATE_REPLY] [(1, 16), (2, 16), (3, 16), (4, 16), (5, 16)]"

definition of_bsn_virtual_port_create_reply_vport_no :: "32 word accessor" where
  "of_bsn_virtual_port_create_reply_vport_no = u32_accessor [OF_BSN_VIRTUAL_PORT_CREATE_REPLY] [(1, 20), (2, 20), (3, 20), (4, 20), (5, 20)]"

definition of_bsn_vport_class :: wire_class where
  "of_bsn_vport_class = \<lparr>class_id = OF_BSN_VPORT, whole_buffer = True, wire_types = None,
     finishes = []\<rparr>"

definition of_bsn_virtual_port_create_request_class :: wire_class where
  "of_bsn_virtual_port_create_request_class = \<lparr>class_id = OF_BSN_VIRTUAL_PORT_CREATE_REQUEST, whole_buffer = True, wire_types = Some [(1, [PutVersion 0, Put8 1 0x4, Put32 8 0x5c16c7, Put32 12 0xf]),
     (2, [PutVersion 0, Put8 1 0x4, Put32 8 0x5c16c7, Put32 12 0xf]),
     (3, [PutVersion 0, Put8 1 0x4, Put32 8 0x5c16c7, Put32 12 0xf]),
     (4, [PutVersion 0, Put8 1 0x4, Put32 8 0x5c16c7, Put32 12 0xf]),
     (5, [PutVersion 0, Put8 1 0x4, Put32 8 0x5c16c7, Put32 12 0xf])],
     finishes = [MessageLength]\<rparr>"

definition of_bsn_virtual_port_create_request_xid :: "32 word accessor" where
  "of_bsn_virtual_port_create_request_xid = u32_accessor [OF_BSN_VIRTUAL_PORT_CREATE_REQUEST] [(1, 4), (2, 4), (3, 4), (4, 4), (5, 4)]"

definition of_bsn_virtual_port_create_request_experimenter :: "32 word accessor" where
  "of_bsn_virtual_port_create_request_experimenter = u32_accessor [OF_BSN_VIRTUAL_PORT_CREATE_REQUEST] [(1, 8), (2, 8), (3, 8), (4, 8), (5, 8)]"

definition of_bsn_virtual_port_create_request_subtype :: "32 word accessor" where
  "of_bsn_virtual_port_create_request_subtype = u32_accessor [OF_BSN_VIRTUAL_PORT_CREATE_REQUEST] [(1, 12), (2, 12), (3, 12), (4, 12), (5, 12)]"

definition of_bsn_virtual_port_remove_reply_class :: wire_class where
  "of_bsn_virtual_port_remove_reply_class = \<lparr>class_id = OF_BSN_VIRTUAL_PORT_REMOVE_REPLY, whole_buffer = False, wire_types = Some [(1, [PutVersion 0, Put8 1 0x4, Put32 8 0x5c16c7, Put32 12 0x1a]),
     (2, [PutVersion 0, Put8 1 0x4, Put32 8 0x5c16c7, Put32 12 0x1a]),
     (3, [PutVersion 0, Put8 1 0x4, Put32 8 0x5c16c7, Put32 12 0x1a]),
     (4, [PutVersion 0, Put8 1 0x4, Put32 8 0x5c16c7, Put32 12 0x1a]),
     (5, [PutVersion 0, Put8 1 0x4, Put32 8 0x5c16c7, Put32 12 0x1a])],
     finishes = [MessageLength]\<rparr>"

definition of_bsn_virtual_port_remove_reply_xid :: "32 word accessor" where
  "of_bsn_virtual_port_remove_reply_xid = u32_accessor [OF_BSN_VIRTUAL_PORT_REMOVE_REPLY] [(1, 4), (2, 4), (3, 4), (4, 4), (5, 4)]"

definition of_bsn_virtual_port_remove_reply_experimenter :: "32 word accessor" where
  "of_bsn_virtual_port_remove_reply_experimenter = u32_accessor [OF_BSN_VIRTUAL_PORT_REMOVE_REPLY] [(1, 8), (2, 8), (3, 8), (4, 8), (5, 8)]"

definition of_bsn_virtual_port_remove_reply_subtype :: "32 word accessor" where
  "of_bsn_virtual_port_remove_reply_subtype = u32_accessor [OF_BSN_VIRTUAL_PORT_REMOVE_REPLY] [(1, 12), (2, 12), (3, 12), (4, 12), (5, 12)]"

definition of_bsn_virtual_port_remove_reply_status :: "32 word accessor" where
  "of_bsn_virtual_port_remove_reply_status = u32_accessor [OF_BSN_VIRTUAL_PORT_REMOVE_REPLY] [(1, 16), (2, 16), (3, 16), (4, 16), (5, 16)]"

definition of_bsn_virtual_port_remove_request_class :: wire_class where
  "of_bsn_virtual_port_remove_request_class = \<lparr>class_id = OF_BSN_VIRTUAL_PORT_REMOVE_REQUEST, whole_buffer = False, wire_types = Some [(1, [PutVersion 0, Put8 1 0x4, Put32 8 0x5c16c7, Put32 12 0x11]),
     (2, [PutVersion 0, Put8 1 0x4, Put32 8 0x5c16c7, Put32 12 0x11]),
     (3, [PutVersion 0, Put8 1 0x4, Put32 8 0x5c16c7, Put32 12 0x11]),
     (4, [PutVersion 0, Put8 1 0x4, Put32 8 0x5c16c7, Put32 12 0x11]),
     (5, [PutVersion 0, Put8 1 0x4, Put32 8 0x5c16c7, Put32 12 0x11])],
     finishes = [MessageLength]\<rparr>"

definition of_bsn_virtual_port_remove_request_xid :: "32 word accessor" where
  "of_bsn_virtual_port_remove_request_xid = u32_accessor [OF_BSN_VIRTUAL_PORT_REMOVE_REQUEST] [(1, 4), (2, 4), (3, 4), (4, 4), (5, 4)]"

definition of_bsn_virtual_port_remove_request_experimenter :: "32 word accessor" where
  "of_bsn_virtual_port_remove_request_experimenter = u32_accessor [OF_BSN_VIRTUAL_PORT_REMOVE_REQUEST] [(1, 8), (2, 8), (3, 8), (4, 8), (5, 8)]"

definition of_bsn_virtual_port_remove_request_subtype :: "32 word accessor" where
  "of_bsn_virtual_port_remove_request_subtype = u32_accessor [OF_BSN_VIRTUAL_PORT_REMOVE_REQUEST] [(1, 12), (2, 12), (3, 12), (4, 12), (5, 12)]"

definition of_bsn_virtual_port_remove_request_vport_no :: "32 word accessor" where
  "of_bsn_virtual_port_remove_request_vport_no = u32_accessor [OF_BSN_VIRTUAL_PORT_REMOVE_REQUEST] [(1, 16), (2, 16), (3, 16), (4, 16), (5, 16)]"

definition of_bsn_vport_l2gre_class :: wire_class where
  "of_bsn_vport_l2gre_class = \<lparr>class_id = OF_BSN_VPORT_L2GRE, whole_buffer = True, wire_types = Some [(1, [Put16 0 0x1]),
     (2, [Put16 0 0x1]),
     (3, [Put16 0 0x1]),
     (4, [Put16 0 0x1]),
     (5, [Put16 0 0x1])],
     finishes = [Tlv16Length]\<rparr>"

definition of_bsn_vport_l2gre_flags :: "32 word accessor" where
  "of_bsn_vport_l2gre_flags = u32_accessor [OF_BSN_VPORT_L2GRE] [(1, 4), (2, 4), (3, 4), (4, 4), (5, 4)]"

definition of_bsn_vport_l2gre_port_no :: "32 word accessor" where
  "of_bsn_vport_l2gre_port_no = port_no_accessor [OF_BSN_VPORT_L2GRE] [(1, 8), (2, 8), (3, 8), (4, 8), (5, 8)]"

definition of_bsn_vport_l2gre_loopback_port_no :: "32 word accessor" where
  "of_bsn_vport_l2gre_loopback_port_no = port_no_accessor [OF_BSN_VPORT_L2GRE] [(1, 10), (2, 12), (3, 12), (4, 12), (5, 12)]"

definition of_bsn_vport_l2gre_local_mac :: "byte list accessor" where
  "of_bsn_vport_l2gre_local_mac = mac_accessor [OF_BSN_VPORT_L2GRE] [(1, 12), (2, 16), (3, 16), (4, 16), (5, 16)]"

definition of_bsn_vport_l2gre_nh_mac :: "byte list accessor" where
  "of_bsn_vport_l2gre_nh_mac = mac_accessor [OF_BSN_VPORT_L2GRE] [(1, 18), (2, 22), (3, 22), (4, 22), (5, 22)]"

definition of_bsn_vport_l2gre_src_ip :: "32 word accessor" where
  "of_bsn_vport_l2gre_src_ip = ipv4_accessor [OF_BSN_VPORT_L2GRE] [(1, 24), (2, 28), (3, 28), (4, 28), (5, 28)]"

definition of_bsn_vport_l2gre_dst_ip :: "32 word accessor" where
  "of_bsn_vport_l2gre_dst_ip = ipv4_accessor [OF_BSN_VPORT_L2GRE] [(1, 28), (2, 32), (3, 32), (4, 32), (5, 32)]"

definition of_bsn_vport_l2gre_dscp :: "byte accessor" where
  "of_bsn_vport_l2gre_dscp = u8_accessor [OF_BSN_VPORT_L2GRE] [(1, 32), (2, 36), (3, 36), (4, 36), (5, 36)]"

definition of_bsn_vport_l2gre_ttl :: "byte accessor" where
  "of_bsn_vport_l2gre_ttl = u8_accessor [OF_BSN_VPORT_L2GRE] [(1, 33), (2, 37), (3, 37), (4, 37), (5, 37)]"

definition of_bsn_vport_l2gre_vpn :: "32 word accessor" where
  "of_bsn_vport_l2gre_vpn = u32_accessor [OF_BSN_VPORT_L2GRE] [(1, 36), (2, 40), (3, 40), (4, 40), (5, 40)]"

definition of_bsn_vport_l2gre_rate_limit :: "32 word accessor" where
  "of_bsn_vport_l2gre_rate_limit = u32_accessor [OF_BSN_VPORT_L2GRE] [(1, 40), (2, 44), (3, 44), (4, 44), (5, 44)]"

definition of_bsn_vport_l2gre_if_name :: "byte list accessor" where
  "of_bsn_vport_l2gre_if_name = port_name_accessor [OF_BSN_VPORT_L2GRE] [(1, 44), (2, 48), (3, 48), (4, 48), (5, 48)]"

definition of_bsn_vport_q_in_q_class :: wire_class where
  "of_bsn_vport_q_in_q_class = \<lparr>class_id = OF_BSN_VPORT_Q_IN_Q, whole_buffer = False, wire_types = Some [(1, [Put16 0 0x0]),
     (2, [Put16 0 0x0]),
     (3, [Put16 0 0x0]),
     (4, [Put16 0 0x0]),
     (5, [Put16 0 0x0])],
     finishes = [Tlv16Length]\<rparr>"

definition of_bsn_vport_q_in_q_port_no :: "32 word accessor" where
  "of_bsn_vport_q_in_q_port_no = u32_accessor [OF_BSN_VPORT_Q_IN_Q] [(1, 4), (2, 4), (3, 4), (4, 4), (5, 4)]"

definition of_bsn_vport_q_in_q_ingress_tpid :: "16 word accessor" where
  "of_bsn_vport_q_in_q_ingress_tpid = u16_accessor [OF_BSN_VPORT_Q_IN_Q] [(1, 8), (2, 8), (3, 8), (4, 8), (5, 8)]"

definition of_bsn_vport_q_in_q_ingress_vlan_id :: "16 word accessor" where
  "of_bsn_vport_q_in_q_ingress_vlan_id = u16_accessor [OF_BSN_VPORT_Q_IN_Q] [(1, 10), (2, 10), (3, 10), (4, 10), (5, 10)]"

definition of_bsn_vport_q_in_q_egress_tpid :: "16 word accessor" where
  "of_bsn_vport_q_in_q_egress_tpid = u16_accessor [OF_BSN_VPORT_Q_IN_Q] [(1, 12), (2, 12), (3, 12), (4, 12), (5, 12)]"

definition of_bsn_vport_q_in_q_egress_vlan_id :: "16 word accessor" where
  "of_bsn_vport_q_in_q_egress_vlan_id = u16_accessor [OF_BSN_VPORT_Q_IN_Q] [(1, 14), (2, 14), (3, 14), (4, 14), (5, 14)]"

definition of_bsn_vport_q_in_q_if_name :: "byte list accessor" where
  "of_bsn_vport_q_in_q_if_name = port_name_accessor [OF_BSN_VPORT_Q_IN_Q] [(1, 16), (2, 16), (3, 16), (4, 16), (5, 16)]"

definition of_desc_stats_reply_class :: wire_class where
  "of_desc_stats_reply_class = \<lparr>class_id = OF_DESC_STATS_REPLY, whole_buffer = True, wire_types = Some [(1, [PutVersion 0, Put8 1 0x11, Put16 8 0x0]),
     (2, [PutVersion 0, Put8 1 0x13, Put16 8 0x0]),
     (3, [PutVersion 0, Put8 1 0x13, Put16 8 0x0]),
     (4, [PutVersion 0, Put8 1 0x13, Put16 8 0x0]),
     (5, [PutVersion 0, Put8 1 0x13, Put16 8 0x0])],
     finishes = [MessageLength]\<rparr>"

definition of_desc_stats_reply_xid :: "32 word accessor" where
  "of_desc_stats_reply_xid = u32_accessor [OF_DESC_STATS_REPLY] [(1, 4), (2, 4), (3, 4), (4, 4), (5, 4)]"

definition of_desc_stats_reply_flags :: "16 word accessor" where
  "of_desc_stats_reply_flags = u16_accessor [OF_DESC_STATS_REPLY] [(1, 10), (2, 10), (3, 10), (4, 10), (5, 10)]"

definition of_desc_stats_reply_mfr_desc :: "byte list accessor" where
  "of_desc_stats_reply_mfr_desc = desc_str_accessor [OF_DESC_STATS_REPLY] [(1, 12), (2, 16), (3, 16), (4, 16), (5, 16)]"

definition of_desc_stats_reply_hw_desc :: "byte list accessor" where
  "of_desc_stats_reply_hw_desc = desc_str_accessor [OF_DESC_STATS_REPLY] [(1, 268), (2, 272), (3, 272), (4, 272), (5, 272)]"

definition of_desc_stats_reply_sw_desc :: "byte list accessor" where
  "of_desc_stats_reply_sw_desc = desc_str_accessor [OF_DESC_STATS_REPLY] [(1, 524), (2, 528), (3, 528), (4, 528), (5, 528)]"

definition of_desc_stats_reply_serial_num :: "byte list accessor" where
  "of_desc_stats_reply_serial_num = ser_num_accessor [OF_DESC_STATS_REPLY] [(1, 780), (2, 784), (3, 784), (4, 784), (5, 784)]"

definition of_desc_stats_reply_dp_desc :: "byte list accessor" where
  "of_desc_stats_reply_dp_desc = desc_str_accessor [OF_DESC_STATS_REPLY] [(1, 812), (2, 816), (3, 816), (4, 816), (5, 816)]"

definition of_desc_stats_request_class :: wire_class where
  "of_desc_stats_request_class = \<lparr>class_id = OF_DESC_STATS_REQUEST, whole_buffer = True, wire_types = Some [(1, [PutVersion 0, Put8 1 0x10, Put16 8 0x0]),
     (2, [PutVersion 0, Put8 1 0x12, Put16 8 0x0]),
     (3, [PutVersion 0, Put8 1 0x12, Put16 8 0x0]),
     (4, [PutVersion 0, Put8 1 0x12, Put16 8 0x0]),
     (5, [PutVersion 0, Put8 1 0x12, Put16 8 0x0])],
     finishes = [MessageLength]\<rparr>"

definition of_desc_stats_request_xid :: "32 word accessor" where
  "of_desc_stats_request_xid = u32_accessor [OF_DESC_STATS_REQUEST] [(1, 4), (2, 4), (3, 4), (4, 4), (5, 4)]"

definition of_desc_stats_request_flags :: "16 word accessor" where
  "of_desc_stats_request_flags = u16_accessor [OF_DESC_STATS_REQUEST] [(1, 10), (2, 10), (3, 10), (4, 10), (5, 10)]"

definition of_echo_reply_class :: wire_class where
  "of_echo_reply_class = \<lparr>class_id = OF_ECHO_REPLY, whole_buffer = True, wire_types = Some [(1, [PutVersion 0, Put8 1 0x3]),
     (2, [PutVersion 0, Put8 1 0x3]),
     (3, [PutVersion 0, Put8 1 0x3]),
     (4, [PutVersion 0, Put8 1 0x3]),
     (5, [PutVersion 0, Put8 1 0x3])],
     finishes = [MessageLength]\<rparr>"

definition of_echo_reply_xid :: "32 word accessor" where
  "of_echo_reply_xid = u32_accessor [OF_ECHO_REPLY] [(1, 4), (2, 4), (3, 4), (4, 4), (5, 4)]"

definition of_echo_request_class :: wire_class where
  "of_echo_request_class = \<lparr>class_id = OF_ECHO_REQUEST, whole_buffer = True, wire_types = Some [(1, [PutVersion 0, Put8 1 0x2]),
     (2, [PutVersion 0, Put8 1 0x2]),
     (3, [PutVersion 0, Put8 1 0x2]),
     (4, [PutVersion 0, Put8 1 0x2]),
     (5, [PutVersion 0, Put8 1 0x2])],
     finishes = [MessageLength]\<rparr>"

definition of_echo_request_xid :: "32 word accessor" where
  "of_echo_request_xid = u32_accessor [OF_ECHO_REQUEST] [(1, 4), (2, 4), (3, 4), (4, 4), (5, 4)]"

definition of_features_reply_class :: wire_class where
  "of_features_reply_class = \<lparr>class_id = OF_FEATURES_REPLY, whole_buffer = True, wire_types = Some [(1, [PutVersion 0, Put8 1 0x6]),
     (2, [PutVersion 0, Put8 1 0x6]),
     (3, [PutVersion 0, Put8 1 0x6]),
     (4, [PutVersion 0, Put8 1 0x6]),
     (5, [PutVersion 0, Put8 1 0x6])],
     finishes = [MessageLength]\<rparr>"

definition of_features_reply_xid :: "32 word accessor" where
  "of_features_reply_xid = u32_accessor [OF_FEATURES_REPLY] [(1, 4), (2, 4), (3, 4), (4, 4), (5, 4)]"

definition of_features_reply_datapath_id :: "64 word accessor" where
  "of_features_reply_datapath_id = u64_accessor [OF_FEATURES_REPLY] [(1, 8), (2, 8), (3, 8), (4, 8), (5, 8)]"

definition of_features_reply_n_buffers :: "32 word accessor" where
  "of_features_reply_n_buffers = u32_accessor [OF_FEATURES_REPLY] [(1, 16), (2, 16), (3, 16), (4, 16), (5, 16)]"

definition of_features_reply_n_tables :: "byte accessor" where
  "of_features_reply_n_tables = u8_accessor [OF_FEATURES_REPLY] [(1, 20), (2, 20), (3, 20), (4, 20), (5, 20)]"

definition of_features_reply_auxiliary_id :: "byte accessor" where
  "of_features_reply_auxiliary_id = u8_accessor [OF_FEATURES_REPLY] [(4, 21), (5, 21)]"

definition of_features_reply_capabilities :: "32 word accessor" where
  "of_features_reply_capabilities = u32_accessor [OF_FEATURES_REPLY] [(1, 24), (2, 24), (3, 24), (4, 24), (5, 24)]"

definition of_features_reply_reserved :: "32 word accessor" where
  "of_features_reply_reserved = u32_accessor [OF_FEATURES_REPLY] [(2, 28), (3, 28), (4, 28), (5, 28)]"

definition of_features_reply_actions :: "32 word accessor" where
  "of_features_reply_actions = u32_accessor [OF_FEATURES_REPLY] [(1, 28)]"

definition of_features_request_class :: wire_class where
  "of_features_request_class = \<lparr>class_id = OF_FEATURES_REQUEST, whole_buffer = False, wire_types = Some [(1, [PutVersion 0, Put8 1 0x5]),
     (2, [PutVersion 0, Put8 1 0x5]),
     (3, [PutVersion 0, Put8 1 0x5]),
     (4, [PutVersion 0, Put8 1 0x5]),
     (5, [PutVersion 0, Put8 1 0x5])],
     finishes = [MessageLength]\<rparr>"

definition of_features_request_xid :: "32 word accessor" where
  "of_features_request_xid = u32_accessor [OF_FEATURES_REQUEST] [(1, 4), (2, 4), (3, 4), (4, 4), (5, 4)]"

definition of_flow_mod_class :: wire_class where
  "of_flow_mod_class = \<lparr>class_id = OF_FLOW_MOD, whole_buffer = True, wire_types = None,
     finishes = [MatchTlv 50]\<rparr>"

definition of_flow_mod_xid :: "32 word accessor" where
  "of_flow_mod_xid = u32_accessor [OF_FLOW_MOD] [(1, 4), (2, 4), (3, 4), (4, 4), (5, 4)]"

definition of_flow_mod_cookie :: "64 word accessor" where
  "of_flow_mod_cookie = u64_accessor [OF_FLOW_MOD] [(1, 48), (2, 8), (3, 8), (4, 8), (5, 8)]"

definition of_flow_mod_cookie_mask :: "64 word accessor" where
  "of_flow_mod_cookie_mask = u64_accessor [OF_FLOW_MOD] [(2, 16), (3, 16), (4, 16), (5, 16)]"

definition of_flow_mod_table_id :: "byte accessor" where
  "of_flow_mod_table_id = u8_accessor [OF_FLOW_MOD] [(2, 24), (3, 24), (4, 24), (5, 24)]"

definition of_flow_mod_idle_timeout :: "16 word accessor" where
  "of_flow_mod_idle_timeout = u16_accessor [OF_FLOW_MOD] [(1, 58), (2, 26), (3, 26), (4, 26), (5, 26)]"

definition of_flow_mod_hard_timeout :: "16 word accessor" where
  "of_flow_mod_hard_timeout = u16_accessor [OF_FLOW_MOD] [(1, 60), (2, 28), (3, 28), (4, 28), (5, 28)]"

definition of_flow_mod_priority :: "16 word accessor" where
  "of_flow_mod_priority = u16_accessor [OF_FLOW_MOD] [(1, 62), (2, 30), (3, 30), (4, 30), (5, 30)]"

definition of_flow_mod_buffer_id :: "32 word accessor" where
  "of_flow_mod_buffer_id = u32_accessor [OF_FLOW_MOD] [(1, 64), (2, 32), (3, 32), (4, 32), (5, 32)]"

definition of_flow_mod_out_port :: "32 word accessor" where
  "of_flow_mod_out_port = port_no_accessor [OF_FLOW_MOD] [(1, 68), (2, 36), (3, 36), (4, 36), (5, 36)]"

definition of_flow_mod_out_group :: "32 word accessor" where
  "of_flow_mod_out_group = u32_accessor [OF_FLOW_MOD] [(2, 40), (3, 40), (4, 40), (5, 40)]"

definition of_flow_mod_flags :: "16 word accessor" where
  "of_flow_mod_flags = u16_accessor [OF_FLOW_MOD] [(1, 70), (2, 44), (3, 44), (4, 44), (5, 44)]"

definition of_flow_add_class :: wire_class where
  "of_flow_add_class = \<lparr>class_id = OF_FLOW_ADD, whole_buffer = True, wire_types = Some [(1, [PutVersion 0, Put8 1 0xe, Put16 56 0x0]),
     (2, [PutVersion 0, Put8 1 0xe, Put8 25 0x0]),
     (3, [PutVersion 0, Put8 1 0xe, Put8 25 0x0]),
     (4, [PutVersion 0, Put8 1 0xe, Put8 25 0x0]),
     (5, [PutVersion 0, Put8 1 0xe, Put8 25 0x0])],
     finishes = [MessageLength, MatchTlv 50]\<rparr>"

definition of_flow_add_xid :: "32 word accessor" where
  "of_flow_add_xid = u32_accessor flow_mod_subtypes [(1, 4), (2, 4), (3, 4), (4, 4), (5, 4)]"

definition of_flow_add_cookie :: "64 word accessor" where
  "of_flow_add_cookie = u64_accessor flow_mod_subtypes [(1, 48), (2, 8), (3, 8), (4, 8), (5, 8)]"

definition of_flow_add_cookie_mask :: "64 word accessor" where
  "of_flow_add_cookie_mask = u64_accessor flow_mod_subtypes [(2, 16), (3, 16), (4, 16), (5, 16)]"

definition of_flow_add_table_id :: "byte accessor" where
  "of_flow_add_table_id = u8_accessor flow_mod_subtypes [(2, 24), (3, 24), (4, 24), (5, 24)]"

definition of_flow_add_idle_timeout :: "16 word accessor" where
  "of_flow_add_idle_timeout = u16_accessor flow_mod_subtypes [(1, 58), (2, 26), (3, 26), (4, 26), (5, 26)]"

definition of_flow_add_hard_timeout :: "16 word accessor" where
  "of_flow_add_hard_timeout = u16_accessor flow_mod_subtypes [(1, 60), (2, 28), (3, 28), (4, 28), (5, 28)]"

definition of_flow_add_priority :: "16 word accessor" where
  "of_flow_add_priority = u16_accessor flow_mod_subtypes [(1, 62), (2, 30), (3, 30), (4, 30), (5, 30)]"

definition of_flow_add_buffer_id :: "32 word accessor" where
  "of_flow_add_buffer_id = u32_accessor flow_mod_subtypes [(1, 64), (2, 32), (3, 32), (4, 32), (5, 32)]"

definition of_flow_add_out_port :: "32 word accessor" where
  "of_flow_add_out_port = port_no_accessor flow_mod_subtypes [(1, 68), (2, 36), (3, 36), (4, 36), (5, 36)]"

definition of_flow_add_out_group :: "32 word accessor" where
  "of_flow_add_out_group = u32_accessor flow_mod_subtypes [(2, 40), (3, 40), (4, 40), (5, 40)]"

definition of_flow_add_flags :: "16 word accessor" where
  "of_flow_add_flags = u16_accessor flow_mod_subtypes [(1, 70), (2, 44), (3, 44), (4, 44), (5, 44)]"

definition of_flow_add_importance :: "16 word accessor" where
  "of_flow_add_importance = u16_accessor flow_mod_subtypes [(5, 46)]"

definition of_flow_delete_class :: wire_class where
  "of_flow_delete_class = \<lparr>class_id = OF_FLOW_DELETE, whole_buffer = True, wire_types = Some [(1, [PutVersion 0, Put8 1 0xe, Put16 56 0x3]),
     (2, [PutVersion 0, Put8 1 0xe, Put8 25 0x3]),
     (3, [PutVersion 0, Put8 1 0xe, Put8 25 0x3]),
     (4, [PutVersion 0, Put8 1 0xe, Put8 25 0x3]),
     (5, [PutVersion 0, Put8 1 0xe, Put8 25 0x3])],
     finishes = [MessageLength, MatchTlv 50]\<rparr>"

definition of_flow_delete_xid :: "32 word accessor" where
  "of_flow_delete_xid = u32_accessor flow_mod_subtypes [(1, 4), (2, 4), (3, 4), (4, 4), (5, 4)]"

definition of_flow_delete_cookie :: "64 word accessor" where
  "of_flow_delete_cookie = u64_accessor flow_mod_subtypes [(1, 48), (2, 8), (3, 8), (4, 8), (5, 8)]"

definition of_flow_delete_cookie_mask :: "64 word accessor" where
  "of_flow_delete_cookie_mask = u64_accessor flow_mod_subtypes [(2, 16), (3, 16), (4, 16), (5, 16)]"

definition of_flow_delete_table_id :: "byte accessor" where
  "of_flow_delete_table_id = u8_accessor flow_mod_subtypes [(2, 24), (3, 24), (4, 24), (5, 24)]"

definition of_flow_delete_idle_timeout :: "16 word accessor" where
  "of_flow_delete_idle_timeout = u16_accessor flow_mod_subtypes [(1, 58), (2, 26), (3, 26), (4, 26), (5, 26)]"

definition of_flow_delete_hard_timeout :: "16 word accessor" where
  "of_flow_delete_hard_timeout = u16_accessor flow_mod_subtypes [(1, 60), (2, 28), (3, 28), (4, 28), (5, 28)]"

definition of_flow_delete_priority :: "16 word accessor" where
  "of_flow_delete_priority = u16_accessor flow_mod_subtypes [(1, 62), (2, 30), (3, 30), (4, 30), (5, 30)]"

definition of_flow_delete_buffer_id :: "32 word accessor" where
  "of_flow_delete_buffer_id = u32_accessor flow_mod_subtypes [(1, 64), (2, 32), (3, 32), (4, 32), (5, 32)]"

definition of_flow_delete_out_port :: "32 word accessor" where
  "of_flow_delete_out_port = port_no_accessor flow_mod_subtypes [(1, 68), (2, 36), (3, 36), (4, 36), (5, 36)]"

definition of_flow_delete_out_group :: "32 word accessor" where
  "of_flow_delete_out_group = u32_accessor flow_mod_subtypes [(2, 40), (3, 40), (4, 40), (5, 40)]"

definition of_flow_delete_flags :: "16 word accessor" where
  "of_flow_delete_flags = u16_accessor flow_mod_subtypes [(1, 70), (2, 44), (3, 44), (4, 44), (5, 44)]"

definition of_flow_delete_importance :: "16 word accessor" where
  "of_flow_delete_importance = u16_accessor flow_mod_subtypes [(5, 46)]"

definition of_flow_delete_strict_class :: wire_class where
  "of_flow_delete_strict_class = \<lparr>class_id = OF_FLOW_DELETE_STRICT, whole_buffer = True, wire_types = Some [(1, [PutVersion 0, Put8 1 0xe, Put16 56 0x4]),
     (2, [PutVersion 0, Put8 1 0xe, Put8 25 0x4]),
     (3, [PutVersion 0, Put8 1 0xe, Put8 25 0x4]),
     (4, [PutVersion 0, Put8 1 0xe, Put8 25 0x4]),
     (5, [PutVersion 0, Put8 1 0xe, Put8 25 0x4])],
     finishes = [MessageLength, MatchTlv 50]\<rparr>"

definition of_flow_delete_strict_xid :: "32 word accessor" where
  "of_flow_delete_strict_xid = u32_accessor flow_mod_subtypes [(1, 4), (2, 4), (3, 4), (4, 4), (5, 4)]"

definition of_flow_delete_strict_cookie :: "64 word accessor" where
  "of_flow_delete_strict_cookie = u64_accessor flow_mod_subtypes [(1, 48), (2, 8), (3, 8), (4, 8), (5, 8)]"

definition of_flow_delete_strict_cookie_mask :: "64 word accessor" where
  "of_flow_delete_strict_cookie_mask = u64_accessor flow_mod_subtypes [(2, 16), (3, 16), (4, 16), (5, 16)]"

definition of_flow_delete_strict_table_id :: "byte accessor" where
  "of_flow_delete_strict_table_id = u8_accessor flow_mod_subtypes [(2, 24), (3, 24), (4, 24), (5, 24)]"

definition of_flow_delete_strict_idle_timeout :: "16 word accessor" where
  "of_flow_delete_strict_idle_timeout = u16_accessor flow_mod_subtypes [(1, 58), (2, 26), (3, 26), (4, 26), (5, 26)]"

definition of_flow_delete_strict_hard_timeout :: "16 word accessor" where
  "of_flow_delete_strict_hard_timeout = u16_accessor flow_mod_subtypes [(1, 60), (2, 28), (3, 28), (4, 28), (5, 28)]"

definition of_flow_delete_strict_priority :: "16 word accessor" where
  "of_flow_delete_strict_priority = u16_accessor flow_mod_subtypes [(1, 62), (2, 30), (3, 30), (4, 30), (5, 30)]"

definition of_flow_delete_strict_buffer_id :: "32 word accessor" where
  "of_flow_delete_strict_buffer_id = u32_accessor flow_mod_subtypes [(1, 64), (2, 32), (3, 32), (4, 32), (5, 32)]"

definition of_flow_delete_strict_out_port :: "32 word accessor" where
  "of_flow_delete_strict_out_port = port_no_accessor flow_mod_subtypes [(1, 68), (2, 36), (3, 36), (4, 36), (5, 36)]"

definition of_flow_delete_strict_out_group :: "32 word accessor" where
  "of_flow_delete_strict_out_group = u32_accessor flow_mod_subtypes [(2, 40), (3, 40), (4, 40), (5, 40)]"

definition of_flow_delete_strict_flags :: "16 word accessor" where
  "of_flow_delete_strict_flags = u16_accessor flow_mod_subtypes [(1, 70), (2, 44), (3, 44), (4, 44), (5, 44)]"

definition of_flow_delete_strict_importance :: "16 word accessor" where
  "of_flow_delete_strict_importance = u16_accessor flow_mod_subtypes [(5, 46)]"

definition of_flow_mod_failed_error_msg_class :: wire_class where
  "of_flow_mod_failed_error_msg_class = \<lparr>class_id = OF_FLOW_MOD_FAILED_ERROR_MSG, whole_buffer = True, wire_types = Some [(1, [PutVersion 0, Put8 1 0x1, Put16 8 0x3]),
     (2, [PutVersion 0, Put8 1 0x1, Put16 8 0x5]),
     (3, [PutVersion 0, Put8 1 0x1, Put16 8 0x5]),
     (4, [PutVersion 0, Put8 1 0x1, Put16 8 0x5]),
     (5, [PutVersion 0, Put8 1 0x1, Put16 8 0x5])],
     finishes = [MessageLength]\<rparr>"

definition of_flow_mod_failed_error_msg_xid :: "32 word accessor" where
  "of_flow_mod_failed_error_msg_xid = u32_accessor [OF_FLOW_MOD_FAILED_ERROR_MSG] [(1, 4), (2, 4), (3, 4), (4, 4), (5, 4)]"

definition of_flow_mod_failed_error_msg_code :: "16 word accessor" where
  "of_flow_mod_failed_error_msg_code = u16_accessor [OF_FLOW_MOD_FAILED_ERROR_MSG] [(1, 10), (2, 10), (3, 10), (4, 10), (5, 10)]"

definition of_flow_modify_class :: wire_class where
  "of_flow_modify_class = \<lparr>class_id = OF_FLOW_MODIFY, whole_buffer = True, wire_types = Some [(1, [PutVersion 0, Put8 1 0xe, Put16 56 0x1]),
     (2, [PutVersion 0, Put8 1 0xe, Put8 25 0x1]),
     (3, [PutVersion 0, Put8 1 0xe, Put8 25 0x1]),
     (4, [PutVersion 0, Put8 1 0xe, Put8 25 0x1]),
     (5, [PutVersion 0, Put8 1 0xe, Put8 25 0x1])],
     finishes = [MessageLength, MatchTlv 50]\<rparr>"

definition of_flow_modify_xid :: "32 word accessor" where
  "of_flow_modify_xid = u32_accessor flow_mod_subtypes [(1, 4), (2, 4), (3, 4), (4, 4), (5, 4)]"

definition of_flow_modify_cookie :: "64 word accessor" where
  "of_flow_modify_cookie = u64_accessor flow_mod_subtypes [(1, 48), (2, 8), (3, 8), (4, 8), (5, 8)]"

definition of_flow_modify_cookie_mask :: "64 word accessor" where
  "of_flow_modify_cookie_mask = u64_accessor flow_mod_subtypes [(2, 16), (3, 16), (4, 16), (5, 16)]"

definition of_flow_modify_table_id :: "byte accessor" where
  "of_flow_modify_table_id = u8_accessor flow_mod_subtypes [(2, 24), (3, 24), (4, 24), (5, 24)]"

definition of_flow_modify_idle_timeout :: "16 word accessor" where
  "of_flow_modify_idle_timeout = u16_accessor flow_mod_subtypes [(1, 58), (2, 26), (3, 26), (4, 26), (5, 26)]"

definition of_flow_modify_hard_timeout :: "16 word accessor" where
  "of_flow_modify_hard_timeout = u16_accessor flow_mod_subtypes [(1, 60), (2, 28), (3, 28), (4, 28), (5, 28)]"

definition of_flow_modify_priority :: "16 word accessor" where
  "of_flow_modify_priority = u16_accessor flow_mod_subtypes [(1, 62), (2, 30), (3, 30), (4, 30), (5, 30)]"

definition of_flow_modify_buffer_id :: "32 word accessor" where
  "of_flow_modify_buffer_id = u32_accessor flow_mod_subtypes [(1, 64), (2, 32), (3, 32), (4, 32), (5, 32)]"

definition of_flow_modify_out_port :: "32 word accessor" where
  "of_flow_modify_out_port = port_no_accessor flow_mod_subtypes [(1, 68), (2, 36), (3, 36), (4, 36), (5, 36)]"

definition of_flow_modify_out_group :: "32 word accessor" where
  "of_flow_modify_out_group = u32_accessor flow_mod_subtypes [(2, 40), (3, 40), (4, 40), (5, 40)]"

definition of_flow_modify_flags :: "16 word accessor" where
  "of_flow_modify_flags = u16_accessor flow_mod_subtypes [(1, 70), (2, 44), (3, 44), (4, 44), (5, 44)]"

definition of_flow_modify_importance :: "16 word accessor" where
  "of_flow_modify_importance = u16_accessor flow_mod_subtypes [(5, 46)]"

definition of_flow_modify_strict_class :: wire_class where
  "of_flow_modify_strict_class = \<lparr>class_id = OF_FLOW_MODIFY_STRICT, whole_buffer = True, wire_types = Some [(1, [PutVersion 0, Put8 1 0xe, Put16 56 0x2]),
     (2, [PutVersion 0, Put8 1 0xe, Put8 25 0x2]),
     (3, [PutVersion 0, Put8 1 0xe, Put8 25 0x2]),
     (4, [PutVersion 0, Put8 1 0xe, Put8 25 0x2]),
     (5, [PutVersion 0, Put8 1 0xe, Put8 25 0x2])],
     finishes = [MessageLength, MatchTlv 50]\<rparr>"

definition of_flow_modify_strict_xid :: "32 word accessor" where
  "of_flow_modify_strict_xid = u32_accessor flow_mod_subtypes [(1, 4), (2, 4), (3, 4), (4, 4), (5, 4)]"

definition of_flow_modify_strict_cookie :: "64 word accessor" where
  "of_flow_modify_strict_cookie = u64_accessor flow_mod_subtypes [(1, 48), (2, 8), (3, 8), (4, 8), (5, 8)]"

definition of_flow_modify_strict_cookie_mask :: "64 word accessor" where
  "of_flow_modify_strict_cookie_mask = u64_accessor flow_mod_subtypes [(2, 16), (3, 16), (4, 16), (5, 16)]"

definition of_flow_modify_strict_table_id :: "byte accessor" where
  "of_flow_modify_strict_table_id = u8_accessor flow_mod_subtypes [(2, 24), (3, 24), (4, 24), (5, 24)]"

definition of_flow_modify_strict_idle_timeout :: "16 word accessor" where
  "of_flow_modify_strict_idle_timeout = u16_accessor flow_mod_subtypes [(1, 58), (2, 26), (3, 26), (4, 26), (5, 26)]"

definition of_flow_modify_strict_hard_timeout :: "16 word accessor" where
  "of_flow_modify_strict_hard_timeout = u16_accessor flow_mod_subtypes [(1, 60), (2, 28), (3, 28), (4, 28), (5, 28)]"

definition of_flow_modify_strict_priority :: "16 word accessor" where
  "of_flow_modify_strict_priority = u16_accessor flow_mod_subtypes [(1, 62), (2, 30), (3, 30), (4, 30), (5, 30)]"

definition of_flow_modify_strict_buffer_id :: "32 word accessor" where
  "of_flow_modify_strict_buffer_id = u32_accessor flow_mod_subtypes [(1, 64), (2, 32), (3, 32), (4, 32), (5, 32)]"

definition of_flow_modify_strict_out_port :: "32 word accessor" where
  "of_flow_modify_strict_out_port = port_no_accessor flow_mod_subtypes [(1, 68), (2, 36), (3, 36), (4, 36), (5, 36)]"

definition of_flow_modify_strict_out_group :: "32 word accessor" where
  "of_flow_modify_strict_out_group = u32_accessor flow_mod_subtypes [(2, 40), (3, 40), (4, 40), (5, 40)]"

definition of_flow_modify_strict_flags :: "16 word accessor" where
  "of_flow_modify_strict_flags = u16_accessor flow_mod_subtypes [(1, 70), (2, 44), (3, 44), (4, 44), (5, 44)]"

definition of_flow_modify_strict_importance :: "16 word accessor" where
  "of_flow_modify_strict_importance = u16_accessor flow_mod_subtypes [(5, 46)]"

definition of_flow_removed_class :: wire_class where
  "of_flow_removed_class = \<lparr>class_id = OF_FLOW_REMOVED, whole_buffer = True, wire_types = Some [(1, [PutVersion 0, Put8 1 0xb]),
     (2, [PutVersion 0, Put8 1 0xb]),
     (3, [PutVersion 0, Put8 1 0xb]),
     (4, [PutVersion 0, Put8 1 0xb]),
     (5, [PutVersion 0, Put8 1 0xb])],
     finishes = [MessageLength, MatchTlv 50]\<rparr>"

definition of_flow_removed_xid :: "32 word accessor" where
  "of_flow_removed_xid = u32_accessor [OF_FLOW_REMOVED] [(1, 4), (2, 4), (3, 4), (4, 4), (5, 4)]"

definition of_flow_removed_cookie :: "64 word accessor" where
  "of_flow_removed_cookie = u64_accessor [OF_FLOW_REMOVED] [(1, 48), (2, 8), (3, 8), (4, 8), (5, 8)]"

definition of_flow_removed_priority :: "16 word accessor" where
  "of_flow_removed_priority = u16_accessor [OF_FLOW_REMOVED] [(1, 56), (2, 16), (3, 16), (4, 16), (5, 16)]"

definition of_flow_removed_reason :: "byte accessor" where
  "of_flow_removed_reason = u8_accessor [OF_FLOW_REMOVED] [(1, 58), (2, 18), (3, 18), (4, 18), (5, 18)]"

definition of_flow_removed_table_id :: "byte accessor" where
  "of_flow_removed_table_id = u8_accessor [OF_FLOW_REMOVED] [(2, 19), (3, 19), (4, 19), (5, 19)]"

definition of_flow_removed_duration_sec :: "32 word accessor" where
  "of_flow_removed_duration_sec = u32_accessor [OF_FLOW_REMOVED] [(1, 60), (2, 20), (3, 20), (4, 20), (5, 20)]"

definition of_flow_removed_duration_nsec :: "32 word accessor" where
  "of_flow_removed_duration_nsec = u32_accessor [OF_FLOW_REMOVED] [(1, 64), (2, 24), (3, 24), (4, 24), (5, 24)]"

definition of_flow_removed_idle_timeout :: "16 word accessor" where
  "of_flow_removed_idle_timeout = u16_accessor [OF_FLOW_REMOVED] [(1, 68), (2, 28), (3, 28), (4, 28), (5, 28)]"

definition of_flow_removed_hard_timeout :: "16 word accessor" where
  "of_flow_removed_hard_timeout = u16_accessor [OF_FLOW_REMOVED] [(3, 30), (4, 30), (5, 30)]"

definition of_flow_removed_packet_count :: "64 word accessor" where
  "of_flow_removed_packet_count = u64_accessor [OF_FLOW_REMOVED] [(1, 72), (2, 32), (3, 32), (4, 32), (5, 32)]"

definition of_flow_removed_byte_count :: "64 word accessor" where
  "of_flow_removed_byte_count = u64_accessor [OF_FLOW_REMOVED] [(1, 80), (2, 40), (3, 40), (4, 40), (5, 40)]"

definition of_flow_stats_entry_class :: wire_class where
  "of_flow_stats_entry_class = \<lparr>class_id = OF_FLOW_STATS_ENTRY, whole_buffer = True, wire_types = None,
     finishes = [U16Length, MatchTlv 50]\<rparr>"

definition of_flow_stats_entry_table_id :: "byte accessor" where
  "of_flow_stats_entry_table_id = u8_accessor [OF_FLOW_STATS_ENTRY] [(1, 2), (2, 2), (3, 2), (4, 2), (5, 2)]"

definition of_flow_stats_entry_duration_sec :: "32 word accessor" where
  "of_flow_stats_entry_duration_sec = u32_accessor [OF_FLOW_STATS_ENTRY] [(1, 44), (2, 4), (3, 4), (4, 4), (5, 4)]"

definition of_flow_stats_entry_duration_nsec :: "32 word accessor" where
  "of_flow_stats_entry_duration_nsec = u32_accessor [OF_FLOW_STATS_ENTRY] [(1, 48), (2, 8), (3, 8), (4, 8), (5, 8)]"

definition of_flow_stats_entry_priority :: "16 word accessor" where
  "of_flow_stats_entry_priority = u16_accessor [OF_FLOW_STATS_ENTRY] [(1, 52), (2, 12), (3, 12), (4, 12), (5, 12)]"

definition of_flow_stats_entry_idle_timeout :: "16 word accessor" where
  "of_flow_stats_entry_idle_timeout = u16_accessor [OF_FLOW_STATS_ENTRY] [(1, 54), (2, 14), (3, 14), (4, 14), (5, 14)]"

definition of_flow_stats_entry_hard_timeout :: "16 word accessor" where
  "of_flow_stats_entry_hard_timeout = u16_accessor [OF_FLOW_STATS_ENTRY] [(1, 56), (2, 16), (3, 16), (4, 16), (5, 16)]"

definition of_flow_stats_entry_flags :: "16 word accessor" where
  "of_flow_stats_entry_flags = u16_accessor [OF_FLOW_STATS_ENTRY] [(4, 18), (5, 18)]"

definition of_flow_stats_entry_importance :: "16 word accessor" where
  "of_flow_stats_entry_importance = u16_accessor [OF_FLOW_STATS_ENTRY] [(5, 20)]"

definition of_flow_stats_entry_cookie :: "64 word accessor" where
  "of_flow_stats_entry_cookie = u64_accessor [OF_FLOW_STATS_ENTRY] [(1, 64), (2, 24), (3, 24), (4, 24), (5, 24)]"

definition of_flow_stats_entry_packet_count :: "64 word accessor" where
  "of_flow_stats_entry_packet_count = u64_accessor [OF_FLOW_STATS_ENTRY] [(1, 72), (2, 32), (3, 32), (4, 32), (5, 32)]"

definition of_flow_stats_entry_byte_count :: "64 word accessor" where
  "of_flow_stats_entry_byte_count = u64_accessor [OF_FLOW_STATS_ENTRY] [(1, 80), (2, 40), (3, 40), (4, 40), (5, 40)]"

definition of_flow_stats_reply_class :: wire_class where
  "of_flow_stats_reply_class = \<lparr>class_id = OF_FLOW_STATS_REPLY, whole_buffer = True, wire_types = Some [(1, [PutVersion 0, Put8 1 0x11, Put16 8 0x1]),
     (2, [PutVersion 0, Put8 1 0x13, Put16 8 0x1]),
     (3, [PutVersion 0, Put8 1 0x13, Put16 8 0x1]),
     (4, [PutVersion 0, Put8 1 0x13, Put16 8 0x1]),
     (5, [PutVersion 0, Put8 1 0x13, Put16 8 0x1])],
     finishes = [MessageLength]\<rparr>"

definition of_flow_stats_reply_xid :: "32 word accessor" where
  "of_flow_stats_reply_xid = u32_accessor [OF_FLOW_STATS_REPLY] [(1, 4), (2, 4), (3, 4), (4, 4), (5, 4)]"

definition of_flow_stats_reply_flags :: "16 word accessor" where
  "of_flow_stats_reply_flags = u16_accessor [OF_FLOW_STATS_REPLY] [(1, 10), (2, 10), (3, 10), (4, 10), (5, 10)]"

definition of_flow_stats_request_class :: wire_class where
  "of_flow_stats_request_class = \<lparr>class_id = OF_FLOW_STATS_REQUEST, whole_buffer = True, wire_types = Some [(1, [PutVersion 0, Put8 1 0x10, Put16 8 0x1]),
     (2, [PutVersion 0, Put8 1 0x12, Put16 8 0x1]),
     (3, [PutVersion 0, Put8 1 0x12, Put16 8 0x1]),
     (4, [PutVersion 0, Put8 1 0x12, Put16 8 0x1]),
     (5, [PutVersion 0, Put8 1 0x12, Put16 8 0x1])],
     finishes = [MessageLength, MatchTlv 50]\<rparr>"

definition of_flow_stats_request_xid :: "32 word accessor" where
  "of_flow_stats_request_xid = u32_accessor [OF_FLOW_STATS_REQUEST] [(1, 4), (2, 4), (3, 4), (4, 4), (5, 4)]"

definition of_flow_stats_request_flags :: "16 word accessor" where
  "of_flow_stats_request_flags = u16_accessor [OF_FLOW_STATS_REQUEST] [(1, 10), (2, 10), (3, 10), (4, 10), (5, 10)]"

definition of_flow_stats_request_table_id :: "byte accessor" where
  "of_flow_stats_request_table_id = u8_accessor [OF_FLOW_STATS_REQUEST] [(1, 52), (2, 16), (3, 16), (4, 16), (5, 16)]"

definition of_flow_stats_request_out_port :: "32 word accessor" where
  "of_flow_stats_request_out_port = port_no_accessor [OF_FLOW_STATS_REQUEST] [(1, 54), (2, 20), (3, 20), (4, 20), (5, 20)]"

definition of_flow_stats_request_out_group :: "32 word accessor" where
  "of_flow_stats_request_out_group = u32_accessor [OF_FLOW_STATS_REQUEST] [(2, 24), (3, 24), (4, 24), (5, 24)]"

definition of_flow_stats_request_cookie :: "64 word accessor" where
  "of_flow_stats_request_cookie = u64_accessor [OF_FLOW_STATS_REQUEST] [(2, 32), (3, 32), (4, 32), (5, 32)]"

definition of_flow_stats_request_cookie_mask :: "64 word accessor" where
  "of_flow_stats_request_cookie_mask = u64_accessor [OF_FLOW_STATS_REQUEST] [(2, 40), (3, 40), (4, 40), (5, 40)]"

definition of_get_config_reply_class :: wire_class where
  "of_get_config_reply_class = \<lparr>class_id = OF_GET_CONFIG_REPLY, whole_buffer = False, wire_types = Some [(1, [PutVersion 0, Put8 1 0x8]),
     (2, [PutVersion 0, Put8 1 0x8]),
     (3, [PutVersion 0, Put8 1 0x8]),
     (4, [PutVersion 0, Put8 1 0x8]),
     (5, [PutVersion 0, Put8 1 0x8])],
     finishes = [MessageLength]\<rparr>"

definition of_get_config_reply_xid :: "32 word accessor" where
  "of_get_config_reply_xid = u32_accessor [OF_GET_CONFIG_REPLY] [(1, 4), (2, 4), (3, 4), (4, 4), (5, 4)]"

definition of_get_config_reply_flags :: "16 word accessor" where
  "of_get_config_reply_flags = u16_accessor [OF_GET_CONFIG_REPLY] [(1, 8), (2, 8), (3, 8), (4, 8), (5, 8)]"

definition of_get_config_reply_miss_send_len :: "16 word accessor" where
  "of_get_config_reply_miss_send_len = u16_accessor [OF_GET_CONFIG_REPLY] [(1, 10), (2, 10), (3, 10), (4, 10), (5, 10)]"

definition of_get_config_request_class :: wire_class where
  "of_get_config_request_class = \<lparr>class_id = OF_GET_CONFIG_REQUEST, whole_buffer = False, wire_types = Some [(1, [PutVersion 0, Put8 1 0x7]),
     (2, [PutVersion 0, Put8 1 0x7]),
     (3, [PutVersion 0, Put8 1 0x7]),
     (4, [PutVersion 0, Put8 1 0x7]),
     (5, [PutVersion 0, Put8 1 0x7])],
     finishes = [MessageLength]\<rparr>"

definition of_get_config_request_xid :: "32 word accessor" where
  "of_get_config_request_xid = u32_accessor [OF_GET_CONFIG_REQUEST] [(1, 4), (2, 4), (3, 4), (4, 4), (5, 4)]"

definition of_hello_class :: wire_class where
  "of_hello_class = \<lparr>class_id = OF_HELLO, whole_buffer = True, wire_types = Some [(1, [PutVersion 0, Put8 1 0x0]),
     (2, [PutVersion 0, Put8 1 0x0]),
     (3, [PutVersion 0, Put8 1 0x0]),
     (4, [PutVersion 0, Put8 1 0x0]),
     (5, [PutVersion 0, Put8 1 0x0])],
     finishes = [MessageLength]\<rparr>"

definition of_hello_xid :: "32 word accessor" where
  "of_hello_xid = u32_accessor [OF_HELLO] [(1, 4), (2, 4), (3, 4), (4, 4), (5, 4)]"

definition of_hello_failed_error_msg_class :: wire_class where
  "of_hello_failed_error_msg_class = \<lparr>class_id = OF_HELLO_FAILED_ERROR_MSG, whole_buffer = True, wire_types = Some [(1, [PutVersion 0, Put8 1 0x1, Put16 8 0x0]),
     (2, [PutVersion 0, Put8 1 0x1, Put16 8 0x0]),
     (3, [PutVersion 0, Put8 1 0x1, Put16 8 0x0]),
     (4, [PutVersion 0, Put8 1 0x1, Put16 8 0x0]),
     (5, [PutVersion 0, Put8 1 0x1, Put16 8 0x0])],
     finishes = [MessageLength]\<rparr>"

definition of_hello_failed_error_msg_xid :: "32 word accessor" where
  "of_hello_failed_error_msg_xid = u32_accessor [OF_HELLO_FAILED_ERROR_MSG] [(1, 4), (2, 4), (3, 4), (4, 4), (5, 4)]"

definition of_hello_failed_error_msg_code :: "16 word accessor" where
  "of_hello_failed_error_msg_code = u16_accessor [OF_HELLO_FAILED_ERROR_MSG] [(1, 10), (2, 10), (3, 10), (4, 10), (5, 10)]"

definition of_match_v1_class :: wire_class where
  "of_match_v1_class = \<lparr>class_id = OF_MATCH_V1, whole_buffer = False, wire_types = None,
     finishes = []\<rparr>"

definition of_match_v1_wildcards :: "64 word accessor" where
  "of_match_v1_wildcards = wc_bmap_accessor [OF_MATCH_V1] [(1, 0)]"

definition of_match_v1_in_port :: "32 word accessor" where
  "of_match_v1_in_port = port_no_accessor [OF_MATCH_V1] [(1, 4)]"

definition of_match_v1_eth_src :: "byte list accessor" where
  "of_match_v1_eth_src = mac_accessor [OF_MATCH_V1] [(1, 6)]"

definition of_match_v1_eth_dst :: "byte list accessor" where
  "of_match_v1_eth_dst = mac_accessor [OF_MATCH_V1] [(1, 12)]"

definition of_match_v1_vlan_vid :: "16 word accessor" where
  "of_match_v1_vlan_vid = u16_accessor [OF_MATCH_V1] [(1, 18)]"

definition of_match_v1_vlan_pcp :: "byte accessor" where
  "of_match_v1_vlan_pcp = u8_accessor [OF_MATCH_V1] [(1, 20)]"

definition of_match_v1_eth_type :: "16 word accessor" where
  "of_match_v1_eth_type = u16_accessor [OF_MATCH_V1] [(1, 22)]"

definition of_match_v1_ip_dscp :: "byte accessor" where
  "of_match_v1_ip_dscp = u8_accessor [OF_MATCH_V1] [(1, 24)]"

definition of_match_v1_ip_proto :: "byte accessor" where
  "of_match_v1_ip_proto = u8_accessor [OF_MATCH_V1] [(1, 25)]"

definition of_match_v1_ipv4_src :: "32 word accessor" where
  "of_match_v1_ipv4_src = ipv4_accessor [OF_MATCH_V1] [(1, 28)]"

definition of_match_v1_ipv4_dst :: "32 word accessor" where
  "of_match_v1_ipv4_dst = ipv4_accessor [OF_MATCH_V1] [(1, 32)]"

definition of_match_v1_tcp_src :: "16 word accessor" where
  "of_match_v1_tcp_src = u16_accessor [OF_MATCH_V1] [(1, 36)]"

definition of_match_v1_tcp_dst :: "16 word accessor" where
  "of_match_v1_tcp_dst = u16_accessor [OF_MATCH_V1] [(1, 38)]"

text \<open>The classes, each with consistent wire types in every version that has it.\<close>

definition classes_02 :: "wire_class list" where
  "classes_02 = [of_bsn_stats_reply_class, of_experimenter_stats_request_class, of_bsn_stats_request_class,
     of_bsn_virtual_port_create_reply_class, of_bsn_vport_class, of_bsn_virtual_port_create_request_class,
     of_bsn_virtual_port_remove_reply_class, of_bsn_virtual_port_remove_request_class,
     of_bsn_vport_l2gre_class, of_bsn_vport_q_in_q_class, of_desc_stats_reply_class,
     of_desc_stats_request_class, of_echo_reply_class, of_echo_request_class, of_features_reply_class,
     of_features_request_class, of_flow_mod_class, of_flow_add_class, of_flow_delete_class,
     of_flow_delete_strict_class, of_flow_mod_failed_error_msg_class, of_flow_modify_class,
     of_flow_modify_strict_class, of_flow_removed_class, of_flow_stats_entry_class,
     of_flow_stats_reply_class, of_flow_stats_request_class, of_get_config_reply_class,
     of_get_config_request_class, of_hello_class, of_hello_failed_error_msg_class, of_match_v1_class]"

lemmas class_defs_02 =
  of_bsn_stats_reply_class_def of_experimenter_stats_request_class_def
  of_bsn_stats_request_class_def of_bsn_virtual_port_create_reply_class_def of_bsn_vport_class_def
  of_bsn_virtual_port_create_request_class_def of_bsn_virtual_port_remove_reply_class_def
  of_bsn_virtual_port_remove_request_class_def of_bsn_vport_l2gre_class_def
  of_bsn_vport_q_in_q_class_def of_desc_stats_reply_class_def of_desc_stats_request_class_def
  of_echo_reply_class_def of_echo_request_class_def of_features_reply_class_def
  of_features_request_class_def of_flow_mod_class_def of_flow_add_class_def
  of_flow_delete_class_def of_flow_delete_strict_class_def of_flow_mod_failed_error_msg_class_def
  of_flow_modify_class_def of_flow_modify_strict_class_def of_flow_removed_class_def
  of_flow_stats_entry_class_def of_flow_stats_reply_class_def of_flow_stats_request_class_def
  of_get_config_reply_class_def of_get_config_request_class_def of_hello_class_def
  of_hello_failed_error_msg_class_def of_match_v1_class_def

lemma classes_ok_02: "list_all class_ok classes_02"
  unfolding classes_02_def
  by (simp add: class_defs_02 class_checks)

text \<open>The accessors.\<close>

definition fields_02 :: "field list" where
  "fields_02 = [U32 of_bsn_stats_reply_xid, U16 of_bsn_stats_reply_flags, U32 of_bsn_stats_reply_experimenter,
     U32 of_bsn_stats_reply_subtype, U32 of_experimenter_stats_request_xid,
     U16 of_experimenter_stats_request_flags, U32 of_experimenter_stats_request_experimenter,
     U32 of_experimenter_stats_request_subtype, U32 of_bsn_stats_request_xid,
     U16 of_bsn_stats_request_flags, U32 of_bsn_stats_request_experimenter,
     U32 of_bsn_stats_request_subtype, U32 of_bsn_virtual_port_create_reply_xid,
     U32 of_bsn_virtual_port_create_reply_experimenter, U32 of_bsn_virtual_port_create_reply_subtype,
     U32 of_bsn_virtual_port_create_reply_status, U32 of_bsn_virtual_port_create_reply_vport_no,
     U32 of_bsn_virtual_port_create_request_xid, U32 of_bsn_virtual_port_create_request_experimenter,
     U32 of_bsn_virtual_port_create_request_subtype, U32 of_bsn_virtual_port_remove_reply_xid,
     U32 of_bsn_virtual_port_remove_reply_experimenter, U32 of_bsn_virtual_port_remove_reply_subtype,
     U32 of_bsn_virtual_port_remove_reply_status, U32 of_bsn_virtual_port_remove_request_xid,
     U32 of_bsn_virtual_port_remove_request_experimenter, U32 of_bsn_virtual_port_remove_request_subtype,
     U32 of_bsn_virtual_port_remove_request_vport_no, U32 of_bsn_vport_l2gre_flags,
     PortNo of_bsn_vport_l2gre_port_no, PortNo of_bsn_vport_l2gre_loopback_port_no,
     Octets 6 of_bsn_vport_l2gre_local_mac, Octets 6 of_bsn_vport_l2gre_nh_mac,
     U32 of_bsn_vport_l2gre_src_ip, U32 of_bsn_vport_l2gre_dst_ip, U8 of_bsn_vport_l2gre_dscp,
     U8 of_bsn_vport_l2gre_ttl, U32 of_bsn_vport_l2gre_vpn, U32 of_bsn_vport_l2gre_rate_limit,
     Octets 16 of_bsn_vport_l2gre_if_name, U32 of_bsn_vport_q_in_q_port_no,
     U16 of_bsn_vport_q_in_q_ingress_tpid, U16 of_bsn_vport_q_in_q_ingress_vlan_id,
     U16 of_bsn_vport_q_in_q_egress_tpid, U16 of_bsn_vport_q_in_q_egress_vlan_id,
     Octets 16 of_bsn_vport_q_in_q_if_name, U32 of_desc_stats_reply_xid, U16 of_desc_stats_reply_flags,
     Octets 256 of_desc_stats_reply_mfr_desc, Octets 256 of_desc_stats_reply_hw_desc,
     Octets 256 of_desc_stats_reply_sw_desc, Octets 32 of_desc_stats_reply_serial_num,
     Octets 256 of_desc_stats_reply_dp_desc, U32 of_desc_stats_request_xid,
     U16 of_desc_stats_request_flags, U32 of_echo_reply_xid, U32 of_echo_request_xid,
     U32 of_features_reply_xid, U64 of_features_reply_datapath_id, U32 of_features_reply_n_buffers,
     U8 of_features_reply_n_tables, U8 of_features_reply_auxiliary_id, U32 of_features_reply_capabilities,
     U32 of_features_reply_reserved, U32 of_features_reply_actions, U32 of_features_request_xid,
     U32 of_flow_mod_xid, U64 of_flow_mod_cookie, U64 of_flow_mod_cookie_mask, U8 of_flow_mod_table_id,
     U16 of_flow_mod_idle_timeout, U16 of_flow_mod_hard_timeout, U16 of_flow_mod_priority,
     U32 of_flow_mod_buffer_id, PortNo of_flow_mod_out_port, U32 of_flow_mod_out_group,
     U16 of_flow_mod_flags, U32 of_flow_add_xid, U64 of_flow_add_cookie, U64 of_flow_add_cookie_mask,
     U8 of_flow_add_table_id, U16 of_flow_add_idle_timeout, U16 of_flow_add_hard_timeout,
     U16 of_flow_add_priority, U32 of_flow_add_buffer_id, PortNo of_flow_add_out_port,
     U32 of_flow_add_out_group, U16 of_flow_add_flags, U16 of_flow_add_importance, U32 of_flow_delete_xid,
     U64 of_flow_delete_cookie, U64 of_flow_delete_cookie_mask, U8 of_flow_delete_table_id,
     U16 of_flow_delete_idle_timeout, U16 of_flow_delete_hard_timeout, U16 of_flow_delete_priority,
     U32 of_flow_delete_buffer_id, PortNo of_flow_delete_out_port, U32 of_flow_delete_out_group,
     U16 of_flow_delete_flags, U16 of_flow_delete_importance, U32 of_flow_delete_strict_xid,
     U64 of_flow_delete_strict_cookie, U64 of_flow_delete_strict_cookie_mask,
     U8 of_flow_delete_strict_table_id, U16 of_flow_delete_strict_idle_timeout,
     U16 of_flow_delete_strict_hard_timeout, U16 of_flow_delete_strict_priority,
     U32 of_flow_delete_strict_buffer_id, PortNo of_flow_delete_strict_out_port,
     U32 of_flow_delete_strict_out_group, U16 of_flow_delete_strict_flags,
     U16 of_flow_delete_strict_importance, U32 of_flow_mod_failed_error_msg_xid,
     U16 of_flow_mod_failed_error_msg_code, U32 of_flow_modify_xid, U64 of_flow_modify_cookie,
     U64 of_flow_modify_cookie_mask, U8 of_flow_modify_table_id, U16 of_flow_modify_idle_timeout,
     U16 of_flow_modify_hard_timeout, U16 of_flow_modify_priority, U32 of_flow_modify_buffer_id,
     PortNo of_flow_modify_out_port, U32 of_flow_modify_out_group, U16 of_flow_modify_flags,
     U16 of_flow_modify_importance, U32 of_flow_modify_strict_xid, U64 of_flow_modify_strict_cookie,
     U64 of_flow_modify_strict_cookie_mask, U8 of_flow_modify_strict_table_id,
     U16 of_flow_modify_strict_idle_timeout, U16 of_flow_modify_strict_hard_timeout,
     U16 of_flow_modify_strict_priority, U32 of_flow_modify_strict_buffer_id,
     PortNo of_flow_modify_strict_out_port, U32 of_flow_modify_strict_out_group,
     U16 of_flow_modify_strict_flags, U16 of_flow_modify_strict_importance, U32 of_flow_removed_xid,
     U64 of_flow_removed_cookie, U16 of_flow_removed_priority, U8 of_flow_removed_reason,
     U8 of_flow_removed_table_id, U32 of_flow_removed_duration_sec, U32 of_flow_removed_duration_nsec,
     U16 of_flow_removed_idle_timeout, U16 of_flow_removed_hard_timeout, U64 of_flow_removed_packet_count,
     U64 of_flow_removed_byte_count, U8 of_flow_stats_entry_table_id,
     U32 of_flow_stats_entry_duration_sec, U32 of_flow_stats_entry_duration_nsec,
     U16 of_flow_stats_entry_priority, U16 of_flow_stats_entry_idle_timeout,
     U16 of_flow_stats_entry_hard_timeout, U16 of_flow_stats_entry_flags,
     U16 of_flow_stats_entry_importance, U64 of_flow_stats_entry_cookie,
     U64 of_flow_stats_entry_packet_count, U64 of_flow_stats_entry_byte_count,
     U32 of_flow_stats_reply_xid, U16 of_flow_stats_reply_flags, U32 of_flow_stats_request_xid,
     U16 of_flow_stats_request_flags, U8 of_flow_stats_request_table_id,
     PortNo of_flow_stats_request_out_port, U32 of_flow_stats_request_out_group,
     U64 of_flow_stats_request_cookie, U64 of_flow_stats_request_cookie_mask, U32 of_get_config_reply_xid,
     U16 of_get_config_reply_flags, U16 of_get_config_reply_miss_send_len, U32 of_get_config_request_xid,
     U32 of_hello_xid, U32 of_hello_failed_error_msg_xid, U16 of_hello_failed_error_msg_code,
     Bmap of_match_v1_wildcards, PortNo of_match_v1_in_port, Octets 6 of_match_v1_eth_src,
     Octets 6 of_match_v1_eth_dst, U16 of_match_v1_vlan_vid, U8 of_match_v1_vlan_pcp,
     U16 of_match_v1_eth_type, U8 of_match_v1_ip_dscp, U8 of_match_v1_ip_proto, U32 of_match_v1_ipv4_src,
     U32 of_match_v1_ipv4_dst, U16 of_match_v1_tcp_src, U16 of_match_v1_tcp_dst]"

lemmas accessor_defs_02 =
  of_bsn_stats_reply_xid_def of_bsn_stats_reply_flags_def of_bsn_stats_reply_experimenter_def
  of_bsn_stats_reply_subtype_def of_experimenter_stats_request_xid_def
  of_experimenter_stats_request_flags_def of_experimenter_stats_request_experimenter_def
  of_experimenter_stats_request_subtype_def of_bsn_stats_request_xid_def
  of_bsn_stats_request_flags_def of_bsn_stats_request_experimenter_def
  of_bsn_stats_request_subtype_def of_bsn_virtual_port_create_reply_xid_def
  of_bsn_virtual_port_create_reply_experimenter_def of_bsn_virtual_port_create_reply_subtype_def
  of_bsn_virtual_port_create_reply_status_def of_bsn_virtual_port_create_reply_vport_no_def
  of_bsn_virtual_port_create_request_xid_def of_bsn_virtual_port_create_request_experimenter_def
  of_bsn_virtual_port_create_request_subtype_def of_bsn_virtual_port_remove_reply_xid_def
  of_bsn_virtual_port_remove_reply_experimenter_def of_bsn_virtual_port_remove_reply_subtype_def
  of_bsn_virtual_port_remove_reply_status_def of_bsn_virtual_port_remove_request_xid_def
  of_bsn_virtual_port_remove_request_experimenter_def of_bsn_virtual_port_remove_request_subtype_def
  of_bsn_virtual_port_remove_request_vport_no_def of_bsn_vport_l2gre_flags_def
  of_bsn_vport_l2gre_port_no_def of_bsn_vport_l2gre_loopback_port_no_def
  of_bsn_vport_l2gre_local_mac_def of_bsn_vport_l2gre_nh_mac_def of_bsn_vport_l2gre_src_ip_def
  of_bsn_vport_l2gre_dst_ip_def of_bsn_vport_l2gre_dscp_def of_bsn_vport_l2gre_ttl_def
  of_bsn_vport_l2gre_vpn_def of_bsn_vport_l2gre_rate_limit_def of_bsn_vport_l2gre_if_name_def
  of_bsn_vport_q_in_q_port_no_def of_bsn_vport_q_in_q_ingress_tpid_def
  of_bsn_vport_q_in_q_ingress_vlan_id_def of_bsn_vport_q_in_q_egress_tpid_def
  of_bsn_vport_q_in_q_egress_vlan_id_def of_bsn_vport_q_in_q_if_name_def of_desc_stats_reply_xid_def
  of_desc_stats_reply_flags_def of_desc_stats_reply_mfr_desc_def of_desc_stats_reply_hw_desc_def
  of_desc_stats_reply_sw_desc_def of_desc_stats_reply_serial_num_def of_desc_stats_reply_dp_desc_def
  of_desc_stats_request_xid_def of_desc_stats_request_flags_def of_echo_reply_xid_def
  of_echo_request_xid_def of_features_reply_xid_def of_features_reply_datapath_id_def
  of_features_reply_n_buffers_def of_features_reply_n_tables_def of_features_reply_auxiliary_id_def
  of_features_reply_capabilities_def of_features_reply_reserved_def of_features_reply_actions_def
  of_features_request_xid_def of_flow_mod_xid_def of_flow_mod_cookie_def
  of_flow_mod_cookie_mask_def of_flow_mod_table_id_def of_flow_mod_idle_timeout_def
  of_flow_mod_hard_timeout_def of_flow_mod_priority_def of_flow_mod_buffer_id_def
  of_flow_mod_out_port_def of_flow_mod_out_group_def of_flow_mod_flags_def of_flow_add_xid_def
  of_flow_add_cookie_def of_flow_add_cookie_mask_def of_flow_add_table_id_def
  of_flow_add_idle_timeout_def of_flow_add_hard_timeout_def of_flow_add_priority_def
  of_flow_add_buffer_id_def of_flow_add_out_port_def of_flow_add_out_group_def
  of_flow_add_flags_def of_flow_add_importance_def of_flow_delete_xid_def of_flow_delete_cookie_def
  of_flow_delete_cookie_mask_def of_flow_delete_table_id_def of_flow_delete_idle_timeout_def
  of_flow_delete_hard_timeout_def of_flow_delete_priority_def of_flow_delete_buffer_id_def
  of_flow_delete_out_port_def of_flow_delete_out_group_def of_flow_delete_flags_def
  of_flow_delete_importance_def of_flow_delete_strict_xid_def of_flow_delete_strict_cookie_def
  of_flow_delete_strict_cookie_mask_def of_flow_delete_strict_table_id_def
  of_flow_delete_strict_idle_timeout_def of_flow_delete_strict_hard_timeout_def
  of_flow_delete_strict_priority_def of_flow_delete_strict_buffer_id_def
  of_flow_delete_strict_out_port_def of_flow_delete_strict_out_group_def
  of_flow_delete_strict_flags_def of_flow_delete_strict_importance_def
  of_flow_mod_failed_error_msg_xid_def of_flow_mod_failed_error_msg_code_def of_flow_modify_xid_def
  of_flow_modify_cookie_def of_flow_modify_cookie_mask_def of_flow_modify_table_id_def
  of_flow_modify_idle_timeout_def of_flow_modify_hard_timeout_def of_flow_modify_priority_def
  of_flow_modify_buffer_id_def of_flow_modify_out_port_def of_flow_modify_out_group_def
  of_flow_modify_flags_def of_flow_modify_importance_def of_flow_modify_strict_xid_def
  of_flow_modify_strict_cookie_def of_flow_modify_strict_cookie_mask_def
  of_flow_modify_strict_table_id_def of_flow_modify_strict_idle_timeout_def
  of_flow_modify_strict_hard_timeout_def of_flow_modify_strict_priority_def
  of_flow_modify_strict_buffer_id_def of_flow_modify_strict_out_port_def
  of_flow_modify_strict_out_group_def of_flow_modify_strict_flags_def
  of_flow_modify_strict_importance_def of_flow_removed_xid_def of_flow_removed_cookie_def
  of_flow_removed_priority_def of_flow_removed_reason_def of_flow_removed_table_id_def
  of_flow_removed_duration_sec_def of_flow_removed_duration_nsec_def
  of_flow_removed_idle_timeout_def of_flow_removed_hard_timeout_def of_flow_removed_packet_count_def
  of_flow_removed_byte_count_def of_flow_stats_entry_table_id_def
  of_flow_stats_entry_duration_sec_def of_flow_stats_entry_duration_nsec_def
  of_flow_stats_entry_priority_def of_flow_stats_entry_idle_timeout_def
  of_flow_stats_entry_hard_timeout_def of_flow_stats_entry_flags_def
  of_flow_stats_entry_importance_def of_flow_stats_entry_cookie_def
  of_flow_stats_entry_packet_count_def of_flow_stats_entry_byte_count_def
  of_flow_stats_reply_xid_def of_flow_stats_reply_flags_def of_flow_stats_request_xid_def
  of_flow_stats_request_flags_def of_flow_stats_request_table_id_def
  of_flow_stats_request_out_port_def of_flow_stats_request_out_group_def
  of_flow_stats_request_cookie_def of_flow_stats_request_cookie_mask_def of_get_config_reply_xid_def
  of_get_config_reply_flags_def of_get_config_reply_miss_send_len_def of_get_config_request_xid_def
  of_hello_xid_def of_hello_failed_error_msg_xid_def of_hello_failed_error_msg_code_def
  of_match_v1_wildcards_def of_match_v1_in_port_def of_match_v1_eth_src_def of_match_v1_eth_dst_def
  of_match_v1_vlan_vid_def of_match_v1_vlan_pcp_def of_match_v1_eth_type_def
  of_match_v1_ip_dscp_def of_match_v1_ip_proto_def of_match_v1_ipv4_src_def
  of_match_v1_ipv4_dst_def of_match_v1_tcp_src_def of_match_v1_tcp_dst_def

lemma fields_ok_02: "list_all field_ok fields_02"
  unfolding fields_02_def accessor_defs_02
  by (simp add: accessors_ok octets_accessors_ok inside_rows flow_mod_subtypes_def del: field_ok.simps)

end
