(* ===== verification/Class03.thy ===== *)
theory Class03
  imports Construct
begin

text \<open>
  The classes of \<^verbatim>\<open>src/class03.c\<close>: for each what its constructor, initialiser and
  \<open>push_wire_types\<close> write, and the scalar accessors, a getter and a setter for each field at a fixed offset.
\<close>

definition of_nicira_header_class :: wire_class where
  "of_nicira_header_class = \<lparr>class_id = OF_NICIRA_HEADER, whole_buffer = True, wire_types = None,
     finishes = []\<rparr>"

definition of_nicira_header_xid :: "32 word accessor" where
  "of_nicira_header_xid = u32_accessor [OF_NICIRA_HEADER] [(1, 4), (2, 4), (3, 4), (4, 4), (5, 4)]"

definition of_nicira_header_experimenter :: "32 word accessor" where
  "of_nicira_header_experimenter = u32_accessor [OF_NICIRA_HEADER] [(1, 8), (2, 8), (3, 8), (4, 8), (5, 8)]"

definition of_nicira_header_subtype :: "32 word accessor" where
  "of_nicira_header_subtype = u32_accessor [OF_NICIRA_HEADER] [(1, 12), (2, 12), (3, 12), (4, 12), (5, 12)]"

definition of_nicira_controller_role_reply_class :: wire_class where
  "of_nicira_controller_role_reply_class = \<lparr>class_id = OF_NICIRA_CONTROLLER_ROLE_REPLY, whole_buffer = False, wire_types = Some [(1, [PutVersion 0, Put8 1 0x4, Put32 8 0x2320, Put32 12 0xb])],
     finishes = [MessageLength]\<rparr>"

definition of_nicira_controller_role_reply_xid :: "32 word accessor" where
  "of_nicira_controller_role_reply_xid = u32_accessor [OF_NICIRA_CONTROLLER_ROLE_REPLY] [(1, 4)]"

definition of_nicira_controller_role_reply_experimenter :: "32 word accessor" where
  "of_nicira_controller_role_reply_experimenter = u32_accessor [OF_NICIRA_CONTROLLER_ROLE_REPLY] [(1, 8)]"

definition of_nicira_controller_role_reply_subtype :: "32 word accessor" where
  "of_nicira_controller_role_reply_subtype = u32_accessor [OF_NICIRA_CONTROLLER_ROLE_REPLY] [(1, 12)]"

definition of_nicira_controller_role_reply_role :: "32 word accessor" where
  "of_nicira_controller_role_reply_role = u32_accessor [OF_NICIRA_CONTROLLER_ROLE_REPLY] [(1, 16)]"

definition of_nicira_controller_role_request_class :: wire_class where
  "of_nicira_controller_role_request_class = \<lparr>class_id = OF_NICIRA_CONTROLLER_ROLE_REQUEST, whole_buffer = False, wire_types = Some [(1, [PutVersion 0, Put8 1 0x4, Put32 8 0x2320, Put32 12 0xa])],
     finishes = [MessageLength]\<rparr>"

definition of_nicira_controller_role_request_xid :: "32 word accessor" where
  "of_nicira_controller_role_request_xid = u32_accessor [OF_NICIRA_CONTROLLER_ROLE_REQUEST] [(1, 4)]"

definition of_nicira_controller_role_request_experimenter :: "32 word accessor" where
  "of_nicira_controller_role_request_experimenter = u32_accessor [OF_NICIRA_CONTROLLER_ROLE_REQUEST] [(1, 8)]"

definition of_nicira_controller_role_request_subtype :: "32 word accessor" where
  "of_nicira_controller_role_request_subtype = u32_accessor [OF_NICIRA_CONTROLLER_ROLE_REQUEST] [(1, 12)]"

definition of_nicira_controller_role_request_role :: "32 word accessor" where
  "of_nicira_controller_role_request_role = u32_accessor [OF_NICIRA_CONTROLLER_ROLE_REQUEST] [(1, 16)]"

definition of_packet_in_class :: wire_class where
  "of_packet_in_class = \<lparr>class_id = OF_PACKET_IN, whole_buffer = True, wire_types = Some [(1, [PutVersion 0, Put8 1 0xa]),
     (2, [PutVersion 0, Put8 1 0xa]),
     (3, [PutVersion 0, Put8 1 0xa]),
     (4, [PutVersion 0, Put8 1 0xa]),
     (5, [PutVersion 0, Put8 1 0xa])],
     finishes = [MessageLength, MatchTlv 18]\<rparr>"

definition of_packet_in_xid :: "32 word accessor" where
  "of_packet_in_xid = u32_accessor [OF_PACKET_IN] [(1, 4), (2, 4), (3, 4), (4, 4), (5, 4)]"

definition of_packet_in_buffer_id :: "32 word accessor" where
  "of_packet_in_buffer_id = u32_accessor [OF_PACKET_IN] [(1, 8), (2, 8), (3, 8), (4, 8), (5, 8)]"

definition of_packet_in_total_len :: "16 word accessor" where
  "of_packet_in_total_len = u16_accessor [OF_PACKET_IN] [(1, 12), (2, 20), (3, 12), (4, 12), (5, 12)]"

definition of_packet_in_reason :: "byte accessor" where
  "of_packet_in_reason = u8_accessor [OF_PACKET_IN] [(1, 16), (2, 22), (3, 14), (4, 14), (5, 14)]"

definition of_packet_in_table_id :: "byte accessor" where
  "of_packet_in_table_id = u8_accessor [OF_PACKET_IN] [(2, 23), (3, 15), (4, 15), (5, 15)]"

definition of_packet_in_cookie :: "64 word accessor" where
  "of_packet_in_cookie = u64_accessor [OF_PACKET_IN] [(4, 16), (5, 16)]"

definition of_packet_in_in_port :: "32 word accessor" where
  "of_packet_in_in_port = port_no_accessor [OF_PACKET_IN] [(1, 14), (2, 12)]"

definition of_packet_in_in_phy_port :: "32 word accessor" where
  "of_packet_in_in_phy_port = port_no_accessor [OF_PACKET_IN] [(2, 16)]"

definition of_packet_out_class :: wire_class where
  "of_packet_out_class = \<lparr>class_id = OF_PACKET_OUT, whole_buffer = True, wire_types = Some [(1, [PutVersion 0, Put8 1 0xd]),
     (2, [PutVersion 0, Put8 1 0xd]),
     (3, [PutVersion 0, Put8 1 0xd]),
     (4, [PutVersion 0, Put8 1 0xd]),
     (5, [PutVersion 0, Put8 1 0xd])],
     finishes = [MessageLength]\<rparr>"

definition of_packet_out_xid :: "32 word accessor" where
  "of_packet_out_xid = u32_accessor [OF_PACKET_OUT] [(1, 4), (2, 4), (3, 4), (4, 4), (5, 4)]"

definition of_packet_out_buffer_id :: "32 word accessor" where
  "of_packet_out_buffer_id = u32_accessor [OF_PACKET_OUT] [(1, 8), (2, 8), (3, 8), (4, 8), (5, 8)]"

definition of_packet_out_in_port :: "32 word accessor" where
  "of_packet_out_in_port = port_no_accessor [OF_PACKET_OUT] [(1, 12), (2, 12), (3, 12), (4, 12), (5, 12)]"

definition of_packet_queue_class :: wire_class where
  "of_packet_queue_class = \<lparr>class_id = OF_PACKET_QUEUE, whole_buffer = True, wire_types = None,
     finishes = [PacketQueueLength]\<rparr>"

definition of_packet_queue_queue_id :: "32 word accessor" where
  "of_packet_queue_queue_id = u32_accessor [OF_PACKET_QUEUE] [(1, 0), (2, 0), (3, 0), (4, 0), (5, 0)]"

definition of_packet_queue_port :: "32 word accessor" where
  "of_packet_queue_port = port_no_accessor [OF_PACKET_QUEUE] [(3, 4), (4, 4), (5, 4)]"

definition of_port_desc_class :: wire_class where
  "of_port_desc_class = \<lparr>class_id = OF_PORT_DESC, whole_buffer = True, wire_types = None,
     finishes = [PortDescLength]\<rparr>"

definition of_port_desc_port_no :: "32 word accessor" where
  "of_port_desc_port_no = port_no_accessor [OF_PORT_DESC] [(1, 0), (2, 0), (3, 0), (4, 0), (5, 0)]"

definition of_port_desc_hw_addr :: "byte list accessor" where
  "of_port_desc_hw_addr = mac_accessor [OF_PORT_DESC] [(1, 2), (2, 8), (3, 8), (4, 8), (5, 8)]"

definition of_port_desc_name :: "byte list accessor" where
  "of_port_desc_name = port_name_accessor [OF_PORT_DESC] [(1, 8), (2, 16), (3, 16), (4, 16), (5, 16)]"

definition of_port_desc_config :: "32 word accessor" where
  "of_port_desc_config = u32_accessor [OF_PORT_DESC] [(1, 24), (2, 32), (3, 32), (4, 32), (5, 32)]"

definition of_port_desc_state :: "32 word accessor" where
  "of_port_desc_state = u32_accessor [OF_PORT_DESC] [(1, 28), (2, 36), (3, 36), (4, 36), (5, 36)]"

definition of_port_desc_curr :: "32 word accessor" where
  "of_port_desc_curr = u32_accessor [OF_PORT_DESC] [(1, 32), (2, 40), (3, 40), (4, 40)]"

definition of_port_desc_advertised :: "32 word accessor" where
  "of_port_desc_advertised = u32_accessor [OF_PORT_DESC] [(1, 36), (2, 44), (3, 44), (4, 44)]"

definition of_port_desc_supported :: "32 word accessor" where
  "of_port_desc_supported = u32_accessor [OF_PORT_DESC] [(1, 40), (2, 48), (3, 48), (4, 48)]"

definition of_port_desc_peer :: "32 word accessor" where
  "of_port_desc_peer = u32_accessor [OF_PORT_DESC] [(1, 44), (2, 52), (3, 52), (4, 52)]"

definition of_port_desc_curr_speed :: "32 word accessor" where
  "of_port_desc_curr_speed = u32_accessor [OF_PORT_DESC] [(2, 56), (3, 56), (4, 56)]"

definition of_port_desc_max_speed :: "32 word accessor" where
  "of_port_desc_max_speed = u32_accessor [OF_PORT_DESC] [(2, 60), (3, 60), (4, 60)]"

definition of_port_mod_class :: wire_class where
  "of_port_mod_class = \<lparr>class_id = OF_PORT_MOD, whole_buffer = True, wire_types = Some [(1, [PutVersion 0, Put8 1 0xf]),
     (2, [PutVersion 0, Put8 1 0x10]),
     (3, [PutVersion 0, Put8 1 0x10]),
     (4, [PutVersion 0, Put8 1 0x10]),
     (5, [PutVersion 0, Put8 1 0x10])],
     finishes = [MessageLength]\<rparr>"

definition of_port_mod_xid :: "32 word accessor" where
  "of_port_mod_xid = u32_accessor [OF_PORT_MOD] [(1, 4), (2, 4), (3, 4), (4, 4), (5, 4)]"

definition of_port_mod_port_no :: "32 word accessor" where
  "of_port_mod_port_no = port_no_accessor [OF_PORT_MOD] [(1, 8), (2, 8), (3, 8), (4, 8), (5, 8)]"

definition of_port_mod_hw_addr :: "byte list accessor" where
  "of_port_mod_hw_addr = mac_accessor [OF_PORT_MOD] [(1, 10), (2, 16), (3, 16), (4, 16), (5, 16)]"

definition of_port_mod_config :: "32 word accessor" where
  "of_port_mod_config = u32_accessor [OF_PORT_MOD] [(1, 16), (2, 24), (3, 24), (4, 24), (5, 24)]"

definition of_port_mod_mask :: "32 word accessor" where
  "of_port_mod_mask = u32_accessor [OF_PORT_MOD] [(1, 20), (2, 28), (3, 28), (4, 28), (5, 28)]"

definition of_port_mod_advertise :: "32 word accessor" where
  "of_port_mod_advertise = u32_accessor [OF_PORT_MOD] [(1, 24), (2, 32), (3, 32), (4, 32)]"

definition of_port_mod_failed_error_msg_class :: wire_class where
  "of_port_mod_failed_error_msg_class = \<lparr>class_id = OF_PORT_MOD_FAILED_ERROR_MSG, whole_buffer = True, wire_types = Some [(1, [PutVersion 0, Put8 1 0x1, Put16 8 0x4]),
     (2, [PutVersion 0, Put8 1 0x1, Put16 8 0x7]),
     (3, [PutVersion 0, Put8 1 0x1, Put16 8 0x7]),
     (4, [PutVersion 0, Put8 1 0x1, Put16 8 0x7]),
     (5, [PutVersion 0, Put8 1 0x1, Put16 8 0x7])],
     finishes = [MessageLength]\<rparr>"

definition of_port_mod_failed_error_msg_xid :: "32 word accessor" where
  "of_port_mod_failed_error_msg_xid = u32_accessor [OF_PORT_MOD_FAILED_ERROR_MSG] [(1, 4), (2, 4), (3, 4), (4, 4), (5, 4)]"

definition of_port_mod_failed_error_msg_code :: "16 word accessor" where
  "of_port_mod_failed_error_msg_code = u16_accessor [OF_PORT_MOD_FAILED_ERROR_MSG] [(1, 10), (2, 10), (3, 10), (4, 10), (5, 10)]"

definition of_port_stats_entry_class :: wire_class where
  "of_port_stats_entry_class = \<lparr>class_id = OF_PORT_STATS_ENTRY, whole_buffer = True, wire_types = None,
     finishes = [PortStatsLength]\<rparr>"

definition of_port_stats_entry_port_no :: "32 word accessor" where
  "of_port_stats_entry_port_no = port_no_accessor [OF_PORT_STATS_ENTRY] [(1, 0), (2, 0), (3, 0), (4, 0), (5, 4)]"

definition of_port_stats_entry_duration_sec :: "32 word accessor" where
  "of_port_stats_entry_duration_sec = u32_accessor [OF_PORT_STATS_ENTRY] [(4, 104), (5, 8)]"

definition of_port_stats_entry_duration_nsec :: "32 word accessor" where
  "of_port_stats_entry_duration_nsec = u32_accessor [OF_PORT_STATS_ENTRY] [(4, 108), (5, 12)]"

definition of_port_stats_entry_rx_packets :: "64 word accessor" where
  "of_port_stats_entry_rx_packets = u64_accessor [OF_PORT_STATS_ENTRY] [(1, 8), (2, 8), (3, 8), (4, 8), (5, 16)]"

definition of_port_stats_entry_tx_packets :: "64 word accessor" where
  "of_port_stats_entry_tx_packets = u64_accessor [OF_PORT_STATS_ENTRY] [(1, 16), (2, 16), (3, 16), (4, 16), (5, 24)]"

definition of_port_stats_entry_rx_bytes :: "64 word accessor" where
  "of_port_stats_entry_rx_bytes = u64_accessor [OF_PORT_STATS_ENTRY] [(1, 24), (2, 24), (3, 24), (4, 24), (5, 32)]"

definition of_port_stats_entry_tx_bytes :: "64 word accessor" where
  "of_port_stats_entry_tx_bytes = u64_accessor [OF_PORT_STATS_ENTRY] [(1, 32), (2, 32), (3, 32), (4, 32), (5, 40)]"

definition of_port_stats_entry_rx_dropped :: "64 word accessor" where
  "of_port_stats_entry_rx_dropped = u64_accessor [OF_PORT_STATS_ENTRY] [(1, 40), (2, 40), (3, 40), (4, 40), (5, 48)]"

definition of_port_stats_entry_tx_dropped :: "64 word accessor" where
  "of_port_stats_entry_tx_dropped = u64_accessor [OF_PORT_STATS_ENTRY] [(1, 48), (2, 48), (3, 48), (4, 48), (5, 56)]"

definition of_port_stats_entry_rx_errors :: "64 word accessor" where
  "of_port_stats_entry_rx_errors = u64_accessor [OF_PORT_STATS_ENTRY] [(1, 56), (2, 56), (3, 56), (4, 56), (5, 64)]"

definition of_port_stats_entry_tx_errors :: "64 word accessor" where
  "of_port_stats_entry_tx_errors = u64_accessor [OF_PORT_STATS_ENTRY] [(1, 64), (2, 64), (3, 64), (4, 64), (5, 72)]"

definition of_port_stats_entry_rx_frame_err :: "64 word accessor" where
  "of_port_stats_entry_rx_frame_err = u64_accessor [OF_PORT_STATS_ENTRY] [(1, 72), (2, 72), (3, 72), (4, 72)]"

definition of_port_stats_entry_rx_over_err :: "64 word accessor" where
  "of_port_stats_entry_rx_over_err = u64_accessor [OF_PORT_STATS_ENTRY] [(1, 80), (2, 80), (3, 80), (4, 80)]"

definition of_port_stats_entry_rx_crc_err :: "64 word accessor" where
  "of_port_stats_entry_rx_crc_err = u64_accessor [OF_PORT_STATS_ENTRY] [(1, 88), (2, 88), (3, 88), (4, 88)]"

definition of_port_stats_entry_collisions :: "64 word accessor" where
  "of_port_stats_entry_collisions = u64_accessor [OF_PORT_STATS_ENTRY] [(1, 96), (2, 96), (3, 96), (4, 96)]"

definition of_port_stats_reply_class :: wire_class where
  "of_port_stats_reply_class = \<lparr>class_id = OF_PORT_STATS_REPLY, whole_buffer = True, wire_types = Some [(1, [PutVersion 0, Put8 1 0x11, Put16 8 0x4]),
     (2, [PutVersion 0, Put8 1 0x13, Put16 8 0x4]),
     (3, [PutVersion 0, Put8 1 0x13, Put16 8 0x4]),
     (4, [PutVersion 0, Put8 1 0x13, Put16 8 0x4]),
     (5, [PutVersion 0, Put8 1 0x13, Put16 8 0x4])],
     finishes = [MessageLength]\<rparr>"

definition of_port_stats_reply_xid :: "32 word accessor" where
  "of_port_stats_reply_xid = u32_accessor [OF_PORT_STATS_REPLY] [(1, 4), (2, 4), (3, 4), (4, 4), (5, 4)]"

definition of_port_stats_reply_flags :: "16 word accessor" where
  "of_port_stats_reply_flags = u16_accessor [OF_PORT_STATS_REPLY] [(1, 10), (2, 10), (3, 10), (4, 10), (5, 10)]"

definition of_port_stats_request_class :: wire_class where
  "of_port_stats_request_class = \<lparr>class_id = OF_PORT_STATS_REQUEST, whole_buffer = True, wire_types = Some [(1, [PutVersion 0, Put8 1 0x10, Put16 8 0x4]),
     (2, [PutVersion 0, Put8 1 0x12, Put16 8 0x4]),
     (3, [PutVersion 0, Put8 1 0x12, Put16 8 0x4]),
     (4, [PutVersion 0, Put8 1 0x12, Put16 8 0x4]),
     (5, [PutVersion 0, Put8 1 0x12, Put16 8 0x4])],
     finishes = [MessageLength]\<rparr>"

definition of_port_stats_request_xid :: "32 word accessor" where
  "of_port_stats_request_xid = u32_accessor [OF_PORT_STATS_REQUEST] [(1, 4), (2, 4), (3, 4), (4, 4), (5, 4)]"

definition of_port_stats_request_flags :: "16 word accessor" where
  "of_port_stats_request_flags = u16_accessor [OF_PORT_STATS_REQUEST] [(1, 10), (2, 10), (3, 10), (4, 10), (5, 10)]"

definition of_port_stats_request_port_no :: "32 word accessor" where
  "of_port_stats_request_port_no = port_no_accessor [OF_PORT_STATS_REQUEST] [(1, 12), (2, 16), (3, 16), (4, 16), (5, 16)]"

definition of_port_status_class :: wire_class where
  "of_port_status_class = \<lparr>class_id = OF_PORT_STATUS, whole_buffer = True, wire_types = Some [(1, [PutVersion 0, Put8 1 0xc]),
     (2, [PutVersion 0, Put8 1 0xc]),
     (3, [PutVersion 0, Put8 1 0xc]),
     (4, [PutVersion 0, Put8 1 0xc]),
     (5, [PutVersion 0, Put8 1 0xc])],
     finishes = [MessageLength]\<rparr>"

definition of_port_status_xid :: "32 word accessor" where
  "of_port_status_xid = u32_accessor [OF_PORT_STATUS] [(1, 4), (2, 4), (3, 4), (4, 4), (5, 4)]"

definition of_port_status_reason :: "byte accessor" where
  "of_port_status_reason = u8_accessor [OF_PORT_STATUS] [(1, 8), (2, 8), (3, 8), (4, 8), (5, 8)]"

definition of_queue_get_config_reply_class :: wire_class where
  "of_queue_get_config_reply_class = \<lparr>class_id = OF_QUEUE_GET_CONFIG_REPLY, whole_buffer = True, wire_types = Some [(1, [PutVersion 0, Put8 1 0x15]),
     (2, [PutVersion 0, Put8 1 0x17]),
     (3, [PutVersion 0, Put8 1 0x17]),
     (4, [PutVersion 0, Put8 1 0x17])],
     finishes = [MessageLength]\<rparr>"

definition of_queue_get_config_reply_xid :: "32 word accessor" where
  "of_queue_get_config_reply_xid = u32_accessor [OF_QUEUE_GET_CONFIG_REPLY] [(1, 4), (2, 4), (3, 4), (4, 4)]"

definition of_queue_get_config_reply_port :: "32 word accessor" where
  "of_queue_get_config_reply_port = port_no_accessor [OF_QUEUE_GET_CONFIG_REPLY] [(1, 8), (2, 8), (3, 8), (4, 8)]"

definition of_queue_get_config_request_class :: wire_class where
  "of_queue_get_config_request_class = \<lparr>class_id = OF_QUEUE_GET_CONFIG_REQUEST, whole_buffer = True, wire_types = Some [(1, [PutVersion 0, Put8 1 0x14]),
     (2, [PutVersion 0, Put8 1 0x16]),
     (3, [PutVersion 0, Put8 1 0x16]),
     (4, [PutVersion 0, Put8 1 0x16])],
     finishes = [MessageLength]\<rparr>"

definition of_queue_get_config_request_xid :: "32 word accessor" where
  "of_queue_get_config_request_xid = u32_accessor [OF_QUEUE_GET_CONFIG_REQUEST] [(1, 4), (2, 4), (3, 4), (4, 4)]"

definition of_queue_get_config_request_port :: "32 word accessor" where
  "of_queue_get_config_request_port = port_no_accessor [OF_QUEUE_GET_CONFIG_REQUEST] [(1, 8), (2, 8), (3, 8), (4, 8)]"

definition of_queue_op_failed_error_msg_class :: wire_class where
  "of_queue_op_failed_error_msg_class = \<lparr>class_id = OF_QUEUE_OP_FAILED_ERROR_MSG, whole_buffer = True, wire_types = Some [(1, [PutVersion 0, Put8 1 0x1, Put16 8 0x5]),
     (2, [PutVersion 0, Put8 1 0x1, Put16 8 0x9]),
     (3, [PutVersion 0, Put8 1 0x1, Put16 8 0x9]),
     (4, [PutVersion 0, Put8 1 0x1, Put16 8 0x9]),
     (5, [PutVersion 0, Put8 1 0x1, Put16 8 0x9])],
     finishes = [MessageLength]\<rparr>"

definition of_queue_op_failed_error_msg_xid :: "32 word accessor" where
  "of_queue_op_failed_error_msg_xid = u32_accessor [OF_QUEUE_OP_FAILED_ERROR_MSG] [(1, 4), (2, 4), (3, 4), (4, 4), (5, 4)]"

definition of_queue_op_failed_error_msg_code :: "16 word accessor" where
  "of_queue_op_failed_error_msg_code = u16_accessor [OF_QUEUE_OP_FAILED_ERROR_MSG] [(1, 10), (2, 10), (3, 10), (4, 10), (5, 10)]"

definition of_queue_prop_class :: wire_class where
  "of_queue_prop_class = \<lparr>class_id = OF_QUEUE_PROP, whole_buffer = True, wire_types = None,
     finishes = []\<rparr>"

definition of_queue_prop_min_rate_class :: wire_class where
  "of_queue_prop_min_rate_class = \<lparr>class_id = OF_QUEUE_PROP_MIN_RATE, whole_buffer = False, wire_types = Some [(1, [Put16 0 0x1]),
     (2, [Put16 0 0x1]),
     (3, [Put16 0 0x1]),
     (4, [Put16 0 0x1]),
     (5, [Put16 0 0x1])],
     finishes = [Tlv16Length]\<rparr>"

definition of_queue_prop_min_rate_rate :: "16 word accessor" where
  "of_queue_prop_min_rate_rate = u16_accessor [OF_QUEUE_PROP_MIN_RATE] [(1, 8), (2, 8), (3, 8), (4, 8), (5, 8)]"

definition of_queue_stats_entry_class :: wire_class where
  "of_queue_stats_entry_class = \<lparr>class_id = OF_QUEUE_STATS_ENTRY, whole_buffer = True, wire_types = None,
     finishes = [QueueStatsLength]\<rparr>"

definition of_queue_stats_entry_port_no :: "32 word accessor" where
  "of_queue_stats_entry_port_no = port_no_accessor [OF_QUEUE_STATS_ENTRY] [(1, 0), (2, 0), (3, 0), (4, 0), (5, 8)]"

definition of_queue_stats_entry_queue_id :: "32 word accessor" where
  "of_queue_stats_entry_queue_id = u32_accessor [OF_QUEUE_STATS_ENTRY] [(1, 4), (2, 4), (3, 4), (4, 4), (5, 12)]"

definition of_queue_stats_entry_tx_bytes :: "64 word accessor" where
  "of_queue_stats_entry_tx_bytes = u64_accessor [OF_QUEUE_STATS_ENTRY] [(1, 8), (2, 8), (3, 8), (4, 8), (5, 16)]"

definition of_queue_stats_entry_tx_packets :: "64 word accessor" where
  "of_queue_stats_entry_tx_packets = u64_accessor [OF_QUEUE_STATS_ENTRY] [(1, 16), (2, 16), (3, 16), (4, 16), (5, 24)]"

definition of_queue_stats_entry_tx_errors :: "64 word accessor" where
  "of_queue_stats_entry_tx_errors = u64_accessor [OF_QUEUE_STATS_ENTRY] [(1, 24), (2, 24), (3, 24), (4, 24), (5, 32)]"

definition of_queue_stats_entry_duration_sec :: "32 word accessor" where
  "of_queue_stats_entry_duration_sec = u32_accessor [OF_QUEUE_STATS_ENTRY] [(4, 32), (5, 40)]"

definition of_queue_stats_entry_duration_nsec :: "32 word accessor" where
  "of_queue_stats_entry_duration_nsec = u32_accessor [OF_QUEUE_STATS_ENTRY] [(4, 36), (5, 44)]"

definition of_queue_stats_reply_class :: wire_class where
  "of_queue_stats_reply_class = \<lparr>class_id = OF_QUEUE_STATS_REPLY, whole_buffer = True, wire_types = Some [(1, [PutVersion 0, Put8 1 0x11, Put16 8 0x5]),
     (2, [PutVersion 0, Put8 1 0x13, Put16 8 0x5]),
     (3, [PutVersion 0, Put8 1 0x13, Put16 8 0x5]),
     (4, [PutVersion 0, Put8 1 0x13, Put16 8 0x5]),
     (5, [PutVersion 0, Put8 1 0x13, Put16 8 0x5])],
     finishes = [MessageLength]\<rparr>"

definition of_queue_stats_reply_xid :: "32 word accessor" where
  "of_queue_stats_reply_xid = u32_accessor [OF_QUEUE_STATS_REPLY] [(1, 4), (2, 4), (3, 4), (4, 4), (5, 4)]"

definition of_queue_stats_reply_flags :: "16 word accessor" where
  "of_queue_stats_reply_flags = u16_accessor [OF_QUEUE_STATS_REPLY] [(1, 10), (2, 10), (3, 10), (4, 10), (5, 10)]"

definition of_queue_stats_request_class :: wire_class where
  "of_queue_stats_request_class = \<lparr>class_id = OF_QUEUE_STATS_REQUEST, whole_buffer = True, wire_types = Some [(1, [PutVersion 0, Put8 1 0x10, Put16 8 0x5]),
     (2, [PutVersion 0, Put8 1 0x12, Put16 8 0x5]),
     (3, [PutVersion 0, Put8 1 0x12, Put16 8 0x5]),
     (4, [PutVersion 0, Put8 1 0x12, Put16 8 0x5]),
     (5, [PutVersion 0, Put8 1 0x12, Put16 8 0x5])],
     finishes = [MessageLength]\<rparr>"

definition of_queue_stats_request_xid :: "32 word accessor" where
  "of_queue_stats_request_xid = u32_accessor [OF_QUEUE_STATS_REQUEST] [(1, 4), (2, 4), (3, 4), (4, 4), (5, 4)]"

definition of_queue_stats_request_flags :: "16 word accessor" where
  "of_queue_stats_request_flags = u16_accessor [OF_QUEUE_STATS_REQUEST] [(1, 10), (2, 10), (3, 10), (4, 10), (5, 10)]"

definition of_queue_stats_request_port_no :: "32 word accessor" where
  "of_queue_stats_request_port_no = port_no_accessor [OF_QUEUE_STATS_REQUEST] [(1, 12), (2, 16), (3, 16), (4, 16), (5, 16)]"

definition of_queue_stats_request_queue_id :: "32 word accessor" where
  "of_queue_stats_request_queue_id = u32_accessor [OF_QUEUE_STATS_REQUEST] [(1, 16), (2, 20), (3, 20), (4, 20), (5, 20)]"

definition of_set_config_class :: wire_class where
  "of_set_config_class = \<lparr>class_id = OF_SET_CONFIG, whole_buffer = False, wire_types = Some [(1, [PutVersion 0, Put8 1 0x9]),
     (2, [PutVersion 0, Put8 1 0x9]),
     (3, [PutVersion 0, Put8 1 0x9]),
     (4, [PutVersion 0, Put8 1 0x9]),
     (5, [PutVersion 0, Put8 1 0x9])],
     finishes = [MessageLength]\<rparr>"

definition of_set_config_xid :: "32 word accessor" where
  "of_set_config_xid = u32_accessor [OF_SET_CONFIG] [(1, 4), (2, 4), (3, 4), (4, 4), (5, 4)]"

definition of_set_config_flags :: "16 word accessor" where
  "of_set_config_flags = u16_accessor [OF_SET_CONFIG] [(1, 8), (2, 8), (3, 8), (4, 8), (5, 8)]"

definition of_set_config_miss_send_len :: "16 word accessor" where
  "of_set_config_miss_send_len = u16_accessor [OF_SET_CONFIG] [(1, 10), (2, 10), (3, 10), (4, 10), (5, 10)]"

definition of_table_mod_class :: wire_class where
  "of_table_mod_class = \<lparr>class_id = OF_TABLE_MOD, whole_buffer = True, wire_types = Some [(1, [PutVersion 0, Put8 1 0x16]),
     (2, [PutVersion 0, Put8 1 0x11]),
     (3, [PutVersion 0, Put8 1 0x11]),
     (4, [PutVersion 0, Put8 1 0x11]),
     (5, [PutVersion 0, Put8 1 0x11])],
     finishes = [MessageLength]\<rparr>"

definition of_table_mod_xid :: "32 word accessor" where
  "of_table_mod_xid = u32_accessor [OF_TABLE_MOD] [(1, 4), (2, 4), (3, 4), (4, 4), (5, 4)]"

definition of_table_mod_table_id :: "byte accessor" where
  "of_table_mod_table_id = u8_accessor [OF_TABLE_MOD] [(1, 8), (2, 8), (3, 8), (4, 8), (5, 8)]"

definition of_table_mod_config :: "32 word accessor" where
  "of_table_mod_config = u32_accessor [OF_TABLE_MOD] [(1, 12), (2, 12), (3, 12), (4, 12), (5, 12)]"

definition of_table_stats_entry_class :: wire_class where
  "of_table_stats_entry_class = \<lparr>class_id = OF_TABLE_STATS_ENTRY, whole_buffer = True, wire_types = None,
     finishes = []\<rparr>"

definition of_table_stats_entry_table_id :: "byte accessor" where
  "of_table_stats_entry_table_id = u8_accessor [OF_TABLE_STATS_ENTRY] [(1, 0), (2, 0), (3, 0), (4, 0), (5, 0)]"

definition of_table_stats_entry_active_count :: "32 word accessor" where
  "of_table_stats_entry_active_count = u32_accessor [OF_TABLE_STATS_ENTRY] [(1, 44), (2, 68), (3, 108), (4, 4), (5, 4)]"

definition of_table_stats_entry_lookup_count :: "64 word accessor" where
  "of_table_stats_entry_lookup_count = u64_accessor [OF_TABLE_STATS_ENTRY] [(1, 48), (2, 72), (3, 112), (4, 8), (5, 8)]"

definition of_table_stats_entry_matched_count :: "64 word accessor" where
  "of_table_stats_entry_matched_count = u64_accessor [OF_TABLE_STATS_ENTRY] [(1, 56), (2, 80), (3, 120), (4, 16), (5, 16)]"

definition of_table_stats_entry_name :: "byte list accessor" where
  "of_table_stats_entry_name = tab_name_accessor [OF_TABLE_STATS_ENTRY] [(1, 4), (2, 8), (3, 8)]"

definition of_table_stats_entry_match :: "64 word accessor" where
  "of_table_stats_entry_match = wc_bmap_accessor [OF_TABLE_STATS_ENTRY] [(2, 44), (3, 40)]"

definition of_table_stats_entry_wildcards :: "64 word accessor" where
  "of_table_stats_entry_wildcards = wc_bmap_accessor [OF_TABLE_STATS_ENTRY] [(1, 36), (2, 40), (3, 48)]"

definition of_table_stats_entry_write_actions :: "32 word accessor" where
  "of_table_stats_entry_write_actions = u32_accessor [OF_TABLE_STATS_ENTRY] [(2, 52), (3, 56)]"

definition of_table_stats_entry_apply_actions :: "32 word accessor" where
  "of_table_stats_entry_apply_actions = u32_accessor [OF_TABLE_STATS_ENTRY] [(2, 56), (3, 60)]"

definition of_table_stats_entry_write_setfields :: "64 word accessor" where
  "of_table_stats_entry_write_setfields = u64_accessor [OF_TABLE_STATS_ENTRY] [(3, 64)]"

definition of_table_stats_entry_apply_setfields :: "64 word accessor" where
  "of_table_stats_entry_apply_setfields = u64_accessor [OF_TABLE_STATS_ENTRY] [(3, 72)]"

definition of_table_stats_entry_metadata_match :: "64 word accessor" where
  "of_table_stats_entry_metadata_match = u64_accessor [OF_TABLE_STATS_ENTRY] [(3, 80)]"

definition of_table_stats_entry_metadata_write :: "64 word accessor" where
  "of_table_stats_entry_metadata_write = u64_accessor [OF_TABLE_STATS_ENTRY] [(3, 88)]"

definition of_table_stats_entry_instructions :: "32 word accessor" where
  "of_table_stats_entry_instructions = u32_accessor [OF_TABLE_STATS_ENTRY] [(2, 48), (3, 96)]"

definition of_table_stats_entry_config :: "32 word accessor" where
  "of_table_stats_entry_config = u32_accessor [OF_TABLE_STATS_ENTRY] [(2, 60), (3, 100)]"

definition of_table_stats_entry_max_entries :: "32 word accessor" where
  "of_table_stats_entry_max_entries = u32_accessor [OF_TABLE_STATS_ENTRY] [(1, 40), (2, 64), (3, 104)]"

definition of_table_stats_reply_class :: wire_class where
  "of_table_stats_reply_class = \<lparr>class_id = OF_TABLE_STATS_REPLY, whole_buffer = True, wire_types = Some [(1, [PutVersion 0, Put8 1 0x11, Put16 8 0x3]),
     (2, [PutVersion 0, Put8 1 0x13, Put16 8 0x3]),
     (3, [PutVersion 0, Put8 1 0x13, Put16 8 0x3]),
     (4, [PutVersion 0, Put8 1 0x13, Put16 8 0x3]),
     (5, [PutVersion 0, Put8 1 0x13, Put16 8 0x3])],
     finishes = [MessageLength]\<rparr>"

definition of_table_stats_reply_xid :: "32 word accessor" where
  "of_table_stats_reply_xid = u32_accessor [OF_TABLE_STATS_REPLY] [(1, 4), (2, 4), (3, 4), (4, 4), (5, 4)]"

definition of_table_stats_reply_flags :: "16 word accessor" where
  "of_table_stats_reply_flags = u16_accessor [OF_TABLE_STATS_REPLY] [(1, 10), (2, 10), (3, 10), (4, 10), (5, 10)]"

definition of_table_stats_request_class :: wire_class where
  "of_table_stats_request_class = \<lparr>class_id = OF_TABLE_STATS_REQUEST, whole_buffer = True, wire_types = Some [(1, [PutVersion 0, Put8 1 0x10, Put16 8 0x3]),
     (2, [PutVersion 0, Put8 1 0x12, Put16 8 0x3]),
     (3, [PutVersion 0, Put8 1 0x12, Put16 8 0x3]),
     (4, [PutVersion 0, Put8 1 0x12, Put16 8 0x3]),
     (5, [PutVersion 0, Put8 1 0x12, Put16 8 0x3])],
     finishes = [MessageLength]\<rparr>"

definition of_table_stats_request_xid :: "32 word accessor" where
  "of_table_stats_request_xid = u32_accessor [OF_TABLE_STATS_REQUEST] [(1, 4), (2, 4), (3, 4), (4, 4), (5, 4)]"

definition of_table_stats_request_flags :: "16 word accessor" where
  "of_table_stats_request_flags = u16_accessor [OF_TABLE_STATS_REQUEST] [(1, 10), (2, 10), (3, 10), (4, 10), (5, 10)]"

definition of_action_copy_ttl_in_class :: wire_class where
  "of_action_copy_ttl_in_class = \<lparr>class_id = OF_ACTION_COPY_TTL_IN, whole_buffer = False, wire_types = Some [(2, [Put16 0 0xc]),
     (3, [Put16 0 0xc]),
     (4, [Put16 0 0xc]),
     (5, [Put16 0 0xc])],
     finishes = [Tlv16Length]\<rparr>"

definition of_action_copy_ttl_out_class :: wire_class where
  "of_action_copy_ttl_out_class = \<lparr>class_id = OF_ACTION_COPY_TTL_OUT, whole_buffer = False, wire_types = Some [(2, [Put16 0 0xb]),
     (3, [Put16 0 0xb]),
     (4, [Put16 0 0xb]),
     (5, [Put16 0 0xb])],
     finishes = [Tlv16Length]\<rparr>"

definition of_action_dec_mpls_ttl_class :: wire_class where
  "of_action_dec_mpls_ttl_class = \<lparr>class_id = OF_ACTION_DEC_MPLS_TTL, whole_buffer = False, wire_types = Some [(2, [Put16 0 0x10]),
     (3, [Put16 0 0x10]),
     (4, [Put16 0 0x10]),
     (5, [Put16 0 0x10])],
     finishes = [Tlv16Length]\<rparr>"

definition of_action_dec_nw_ttl_class :: wire_class where
  "of_action_dec_nw_ttl_class = \<lparr>class_id = OF_ACTION_DEC_NW_TTL, whole_buffer = False, wire_types = Some [(2, [Put16 0 0x18]),
     (3, [Put16 0 0x18]),
     (4, [Put16 0 0x18]),
     (5, [Put16 0 0x18])],
     finishes = [Tlv16Length]\<rparr>"

definition of_action_group_class :: wire_class where
  "of_action_group_class = \<lparr>class_id = OF_ACTION_GROUP, whole_buffer = False, wire_types = Some [(2, [Put16 0 0x16]),
     (3, [Put16 0 0x16]),
     (4, [Put16 0 0x16]),
     (5, [Put16 0 0x16])],
     finishes = [Tlv16Length]\<rparr>"

definition of_action_group_group_id :: "32 word accessor" where
  "of_action_group_group_id = u32_accessor [OF_ACTION_GROUP] [(2, 4), (3, 4), (4, 4), (5, 4)]"

definition of_action_pop_mpls_class :: wire_class where
  "of_action_pop_mpls_class = \<lparr>class_id = OF_ACTION_POP_MPLS, whole_buffer = False, wire_types = Some [(2, [Put16 0 0x14]),
     (3, [Put16 0 0x14]),
     (4, [Put16 0 0x14]),
     (5, [Put16 0 0x14])],
     finishes = [Tlv16Length]\<rparr>"

definition of_action_pop_mpls_ethertype :: "16 word accessor" where
  "of_action_pop_mpls_ethertype = u16_accessor [OF_ACTION_POP_MPLS] [(2, 4), (3, 4), (4, 4), (5, 4)]"

text \<open>The classes, each with consistent wire types in every version that has it.\<close>

definition classes_03 :: "wire_class list" where
  "classes_03 = [of_nicira_header_class, of_nicira_controller_role_reply_class,
     of_nicira_controller_role_request_class, of_packet_in_class, of_packet_out_class,
     of_packet_queue_class, of_port_desc_class, of_port_mod_class, of_port_mod_failed_error_msg_class,
     of_port_stats_entry_class, of_port_stats_reply_class, of_port_stats_request_class,
     of_port_status_class, of_queue_get_config_reply_class, of_queue_get_config_request_class,
     of_queue_op_failed_error_msg_class, of_queue_prop_class, of_queue_prop_min_rate_class,
     of_queue_stats_entry_class, of_queue_stats_reply_class, of_queue_stats_request_class,
     of_set_config_class, of_table_mod_class, of_table_stats_entry_class, of_table_stats_reply_class,
     of_table_stats_request_class, of_action_copy_ttl_in_class, of_action_copy_ttl_out_class,
     of_action_dec_mpls_ttl_class, of_action_dec_nw_ttl_class, of_action_group_class,
     of_action_pop_mpls_class]"

lemmas class_defs_03 =
  of_nicira_header_class_def of_nicira_controller_role_reply_class_def
  of_nicira_controller_role_request_class_def of_packet_in_class_def of_packet_out_class_def
  of_packet_queue_class_def of_port_desc_class_def of_port_mod_class_def
  of_port_mod_failed_error_msg_class_def of_port_stats_entry_class_def of_port_stats_reply_class_def
  of_port_stats_request_class_def of_port_status_class_def of_queue_get_config_reply_class_def
  of_queue_get_config_request_class_def of_queue_op_failed_error_msg_class_def
  of_queue_prop_class_def of_queue_prop_min_rate_class_def of_queue_stats_entry_class_def
  of_queue_stats_reply_class_def of_queue_stats_request_class_def of_set_config_class_def
  of_table_mod_class_def of_table_stats_entry_class_def of_table_stats_reply_class_def
  of_table_stats_request_class_def of_action_copy_ttl_in_class_def of_action_copy_ttl_out_class_def
  of_action_dec_mpls_ttl_class_def of_action_dec_nw_ttl_class_def of_action_group_class_def
  of_action_pop_mpls_class_def

lemma classes_ok_03: "list_all class_ok classes_03"
  unfolding classes_03_def
  by (simp add: class_defs_03 class_checks)

text \<open>The accessors.\<close>

definition fields_03 :: "field list" where
  "fields_03 = [U32 of_nicira_header_xid, U32 of_nicira_header_experimenter, U32 of_nicira_header_subtype,
     U32 of_nicira_controller_role_reply_xid, U32 of_nicira_controller_role_reply_experimenter,
     U32 of_nicira_controller_role_reply_subtype, U32 of_nicira_controller_role_reply_role,
     U32 of_nicira_controller_role_request_xid, U32 of_nicira_controller_role_request_experimenter,
     U32 of_nicira_controller_role_request_subtype, U32 of_nicira_controller_role_request_role,
     U32 of_packet_in_xid, U32 of_packet_in_buffer_id, U16 of_packet_in_total_len, U8 of_packet_in_reason,
     U8 of_packet_in_table_id, U64 of_packet_in_cookie, PortNo of_packet_in_in_port,
     PortNo of_packet_in_in_phy_port, U32 of_packet_out_xid, U32 of_packet_out_buffer_id,
     PortNo of_packet_out_in_port, U32 of_packet_queue_queue_id, PortNo of_packet_queue_port,
     PortNo of_port_desc_port_no, Octets 6 of_port_desc_hw_addr, Octets 16 of_port_desc_name,
     U32 of_port_desc_config, U32 of_port_desc_state, U32 of_port_desc_curr, U32 of_port_desc_advertised,
     U32 of_port_desc_supported, U32 of_port_desc_peer, U32 of_port_desc_curr_speed,
     U32 of_port_desc_max_speed, U32 of_port_mod_xid, PortNo of_port_mod_port_no,
     Octets 6 of_port_mod_hw_addr, U32 of_port_mod_config, U32 of_port_mod_mask,
     U32 of_port_mod_advertise, U32 of_port_mod_failed_error_msg_xid,
     U16 of_port_mod_failed_error_msg_code, PortNo of_port_stats_entry_port_no,
     U32 of_port_stats_entry_duration_sec, U32 of_port_stats_entry_duration_nsec,
     U64 of_port_stats_entry_rx_packets, U64 of_port_stats_entry_tx_packets,
     U64 of_port_stats_entry_rx_bytes, U64 of_port_stats_entry_tx_bytes,
     U64 of_port_stats_entry_rx_dropped, U64 of_port_stats_entry_tx_dropped,
     U64 of_port_stats_entry_rx_errors, U64 of_port_stats_entry_tx_errors,
     U64 of_port_stats_entry_rx_frame_err, U64 of_port_stats_entry_rx_over_err,
     U64 of_port_stats_entry_rx_crc_err, U64 of_port_stats_entry_collisions, U32 of_port_stats_reply_xid,
     U16 of_port_stats_reply_flags, U32 of_port_stats_request_xid, U16 of_port_stats_request_flags,
     PortNo of_port_stats_request_port_no, U32 of_port_status_xid, U8 of_port_status_reason,
     U32 of_queue_get_config_reply_xid, PortNo of_queue_get_config_reply_port,
     U32 of_queue_get_config_request_xid, PortNo of_queue_get_config_request_port,
     U32 of_queue_op_failed_error_msg_xid, U16 of_queue_op_failed_error_msg_code,
     U16 of_queue_prop_min_rate_rate, PortNo of_queue_stats_entry_port_no,
     U32 of_queue_stats_entry_queue_id, U64 of_queue_stats_entry_tx_bytes,
     U64 of_queue_stats_entry_tx_packets, U64 of_queue_stats_entry_tx_errors,
     U32 of_queue_stats_entry_duration_sec, U32 of_queue_stats_entry_duration_nsec,
     U32 of_queue_stats_reply_xid, U16 of_queue_stats_reply_flags, U32 of_queue_stats_request_xid,
     U16 of_queue_stats_request_flags, PortNo of_queue_stats_request_port_no,
     U32 of_queue_stats_request_queue_id, U32 of_set_config_xid, U16 of_set_config_flags,
     U16 of_set_config_miss_send_len, U32 of_table_mod_xid, U8 of_table_mod_table_id,
     U32 of_table_mod_config, U8 of_table_stats_entry_table_id, U32 of_table_stats_entry_active_count,
     U64 of_table_stats_entry_lookup_count, U64 of_table_stats_entry_matched_count,
     Octets 32 of_table_stats_entry_name, Bmap of_table_stats_entry_match,
     Bmap of_table_stats_entry_wildcards, U32 of_table_stats_entry_write_actions,
     U32 of_table_stats_entry_apply_actions, U64 of_table_stats_entry_write_setfields,
     U64 of_table_stats_entry_apply_setfields, U64 of_table_stats_entry_metadata_match,
     U64 of_table_stats_entry_metadata_write, U32 of_table_stats_entry_instructions,
     U32 of_table_stats_entry_config, U32 of_table_stats_entry_max_entries, U32 of_table_stats_reply_xid,
     U16 of_table_stats_reply_flags, U32 of_table_stats_request_xid, U16 of_table_stats_request_flags,
     U32 of_action_group_group_id, U16 of_action_pop_mpls_ethertype]"

lemmas accessor_defs_03 =
  of_nicira_header_xid_def of_nicira_header_experimenter_def of_nicira_header_subtype_def
  of_nicira_controller_role_reply_xid_def of_nicira_controller_role_reply_experimenter_def
  of_nicira_controller_role_reply_subtype_def of_nicira_controller_role_reply_role_def
  of_nicira_controller_role_request_xid_def of_nicira_controller_role_request_experimenter_def
  of_nicira_controller_role_request_subtype_def of_nicira_controller_role_request_role_def
  of_packet_in_xid_def of_packet_in_buffer_id_def of_packet_in_total_len_def
  of_packet_in_reason_def of_packet_in_table_id_def of_packet_in_cookie_def
  of_packet_in_in_port_def of_packet_in_in_phy_port_def of_packet_out_xid_def
  of_packet_out_buffer_id_def of_packet_out_in_port_def of_packet_queue_queue_id_def
  of_packet_queue_port_def of_port_desc_port_no_def of_port_desc_hw_addr_def of_port_desc_name_def
  of_port_desc_config_def of_port_desc_state_def of_port_desc_curr_def of_port_desc_advertised_def
  of_port_desc_supported_def of_port_desc_peer_def of_port_desc_curr_speed_def
  of_port_desc_max_speed_def of_port_mod_xid_def of_port_mod_port_no_def of_port_mod_hw_addr_def
  of_port_mod_config_def of_port_mod_mask_def of_port_mod_advertise_def
  of_port_mod_failed_error_msg_xid_def of_port_mod_failed_error_msg_code_def
  of_port_stats_entry_port_no_def of_port_stats_entry_duration_sec_def
  of_port_stats_entry_duration_nsec_def of_port_stats_entry_rx_packets_def
  of_port_stats_entry_tx_packets_def of_port_stats_entry_rx_bytes_def
  of_port_stats_entry_tx_bytes_def of_port_stats_entry_rx_dropped_def
  of_port_stats_entry_tx_dropped_def of_port_stats_entry_rx_errors_def
  of_port_stats_entry_tx_errors_def of_port_stats_entry_rx_frame_err_def
  of_port_stats_entry_rx_over_err_def of_port_stats_entry_rx_crc_err_def
  of_port_stats_entry_collisions_def of_port_stats_reply_xid_def of_port_stats_reply_flags_def
  of_port_stats_request_xid_def of_port_stats_request_flags_def of_port_stats_request_port_no_def
  of_port_status_xid_def of_port_status_reason_def of_queue_get_config_reply_xid_def
  of_queue_get_config_reply_port_def of_queue_get_config_request_xid_def
  of_queue_get_config_request_port_def of_queue_op_failed_error_msg_xid_def
  of_queue_op_failed_error_msg_code_def of_queue_prop_min_rate_rate_def
  of_queue_stats_entry_port_no_def of_queue_stats_entry_queue_id_def
  of_queue_stats_entry_tx_bytes_def of_queue_stats_entry_tx_packets_def
  of_queue_stats_entry_tx_errors_def of_queue_stats_entry_duration_sec_def
  of_queue_stats_entry_duration_nsec_def of_queue_stats_reply_xid_def of_queue_stats_reply_flags_def
  of_queue_stats_request_xid_def of_queue_stats_request_flags_def of_queue_stats_request_port_no_def
  of_queue_stats_request_queue_id_def of_set_config_xid_def of_set_config_flags_def
  of_set_config_miss_send_len_def of_table_mod_xid_def of_table_mod_table_id_def
  of_table_mod_config_def of_table_stats_entry_table_id_def of_table_stats_entry_active_count_def
  of_table_stats_entry_lookup_count_def of_table_stats_entry_matched_count_def
  of_table_stats_entry_name_def of_table_stats_entry_match_def of_table_stats_entry_wildcards_def
  of_table_stats_entry_write_actions_def of_table_stats_entry_apply_actions_def
  of_table_stats_entry_write_setfields_def of_table_stats_entry_apply_setfields_def
  of_table_stats_entry_metadata_match_def of_table_stats_entry_metadata_write_def
  of_table_stats_entry_instructions_def of_table_stats_entry_config_def
  of_table_stats_entry_max_entries_def of_table_stats_reply_xid_def of_table_stats_reply_flags_def
  of_table_stats_request_xid_def of_table_stats_request_flags_def of_action_group_group_id_def
  of_action_pop_mpls_ethertype_def

lemma fields_ok_03: "list_all field_ok fields_03"
  unfolding fields_03_def accessor_defs_03
  by (simp add: accessors_ok octets_accessors_ok inside_rows del: field_ok.simps)

end
