(* ===== verification/Class04.thy ===== *)
theory Class04
  imports Construct
begin

text \<open>
  The classes of \<^verbatim>\<open>src/class04.c\<close>: for each what its constructor, initialiser and
  \<open>push_wire_types\<close> write, and the scalar accessors, a getter and a setter for each field at a fixed offset.
\<close>

definition of_action_pop_vlan_class :: wire_class where
  "of_action_pop_vlan_class = \<lparr>class_id = OF_ACTION_POP_VLAN, whole_buffer = False, wire_types = Some [(2, [Put16 0 0x12]),
     (3, [Put16 0 0x12]),
     (4, [Put16 0 0x12]),
     (5, [Put16 0 0x12])],
     finishes = [Tlv16Length]\<rparr>"

definition of_action_push_mpls_class :: wire_class where
  "of_action_push_mpls_class = \<lparr>class_id = OF_ACTION_PUSH_MPLS, whole_buffer = False, wire_types = Some [(2, [Put16 0 0x13]),
     (3, [Put16 0 0x13]),
     (4, [Put16 0 0x13]),
     (5, [Put16 0 0x13])],
     finishes = [Tlv16Length]\<rparr>"

definition of_action_push_mpls_ethertype :: "16 word accessor" where
  "of_action_push_mpls_ethertype = u16_accessor [OF_ACTION_PUSH_MPLS] [(2, 4), (3, 4), (4, 4), (5, 4)]"

definition of_action_push_vlan_class :: wire_class where
  "of_action_push_vlan_class = \<lparr>class_id = OF_ACTION_PUSH_VLAN, whole_buffer = False, wire_types = Some [(2, [Put16 0 0x11]),
     (3, [Put16 0 0x11]),
     (4, [Put16 0 0x11]),
     (5, [Put16 0 0x11])],
     finishes = [Tlv16Length]\<rparr>"

definition of_action_push_vlan_ethertype :: "16 word accessor" where
  "of_action_push_vlan_ethertype = u16_accessor [OF_ACTION_PUSH_VLAN] [(2, 4), (3, 4), (4, 4), (5, 4)]"

definition of_action_set_mpls_label_class :: wire_class where
  "of_action_set_mpls_label_class = \<lparr>class_id = OF_ACTION_SET_MPLS_LABEL, whole_buffer = False, wire_types = Some [(2, [Put16 0 0xd])],
     finishes = [Tlv16Length]\<rparr>"

definition of_action_set_mpls_label_mpls_label :: "32 word accessor" where
  "of_action_set_mpls_label_mpls_label = u32_accessor [OF_ACTION_SET_MPLS_LABEL] [(2, 4)]"

definition of_action_set_mpls_tc_class :: wire_class where
  "of_action_set_mpls_tc_class = \<lparr>class_id = OF_ACTION_SET_MPLS_TC, whole_buffer = False, wire_types = Some [(2, [Put16 0 0xe])],
     finishes = [Tlv16Length]\<rparr>"

definition of_action_set_mpls_tc_mpls_tc :: "byte accessor" where
  "of_action_set_mpls_tc_mpls_tc = u8_accessor [OF_ACTION_SET_MPLS_TC] [(2, 4)]"

definition of_action_set_mpls_ttl_class :: wire_class where
  "of_action_set_mpls_ttl_class = \<lparr>class_id = OF_ACTION_SET_MPLS_TTL, whole_buffer = False, wire_types = Some [(2, [Put16 0 0xf]),
     (3, [Put16 0 0xf]),
     (4, [Put16 0 0xf]),
     (5, [Put16 0 0xf])],
     finishes = [Tlv16Length]\<rparr>"

definition of_action_set_mpls_ttl_mpls_ttl :: "byte accessor" where
  "of_action_set_mpls_ttl_mpls_ttl = u8_accessor [OF_ACTION_SET_MPLS_TTL] [(2, 4), (3, 4), (4, 4), (5, 4)]"

definition of_action_set_nw_ecn_class :: wire_class where
  "of_action_set_nw_ecn_class = \<lparr>class_id = OF_ACTION_SET_NW_ECN, whole_buffer = False, wire_types = Some [(2, [Put16 0 0x8])],
     finishes = [Tlv16Length]\<rparr>"

definition of_action_set_nw_ecn_nw_ecn :: "byte accessor" where
  "of_action_set_nw_ecn_nw_ecn = u8_accessor [OF_ACTION_SET_NW_ECN] [(2, 4)]"

definition of_action_set_nw_ttl_class :: wire_class where
  "of_action_set_nw_ttl_class = \<lparr>class_id = OF_ACTION_SET_NW_TTL, whole_buffer = False, wire_types = Some [(2, [Put16 0 0x17]),
     (3, [Put16 0 0x17]),
     (4, [Put16 0 0x17]),
     (5, [Put16 0 0x17])],
     finishes = [Tlv16Length]\<rparr>"

definition of_action_set_nw_ttl_nw_ttl :: "byte accessor" where
  "of_action_set_nw_ttl_nw_ttl = u8_accessor [OF_ACTION_SET_NW_TTL] [(2, 4), (3, 4), (4, 4), (5, 4)]"

definition of_action_set_queue_class :: wire_class where
  "of_action_set_queue_class = \<lparr>class_id = OF_ACTION_SET_QUEUE, whole_buffer = False, wire_types = Some [(2, [Put16 0 0x15]),
     (3, [Put16 0 0x15]),
     (4, [Put16 0 0x15]),
     (5, [Put16 0 0x15])],
     finishes = [Tlv16Length]\<rparr>"

definition of_action_set_queue_queue_id :: "32 word accessor" where
  "of_action_set_queue_queue_id = u32_accessor [OF_ACTION_SET_QUEUE] [(2, 4), (3, 4), (4, 4), (5, 4)]"

definition of_bad_instruction_error_msg_class :: wire_class where
  "of_bad_instruction_error_msg_class = \<lparr>class_id = OF_BAD_INSTRUCTION_ERROR_MSG, whole_buffer = True, wire_types = Some [(2, [PutVersion 0, Put8 1 0x1, Put16 8 0x3]),
     (3, [PutVersion 0, Put8 1 0x1, Put16 8 0x3]),
     (4, [PutVersion 0, Put8 1 0x1, Put16 8 0x3]),
     (5, [PutVersion 0, Put8 1 0x1, Put16 8 0x3])],
     finishes = [MessageLength]\<rparr>"

definition of_bad_instruction_error_msg_xid :: "32 word accessor" where
  "of_bad_instruction_error_msg_xid = u32_accessor [OF_BAD_INSTRUCTION_ERROR_MSG] [(2, 4), (3, 4), (4, 4), (5, 4)]"

definition of_bad_instruction_error_msg_code :: "16 word accessor" where
  "of_bad_instruction_error_msg_code = u16_accessor [OF_BAD_INSTRUCTION_ERROR_MSG] [(2, 10), (3, 10), (4, 10), (5, 10)]"

definition of_bad_match_error_msg_class :: wire_class where
  "of_bad_match_error_msg_class = \<lparr>class_id = OF_BAD_MATCH_ERROR_MSG, whole_buffer = True, wire_types = Some [(2, [PutVersion 0, Put8 1 0x1, Put16 8 0x4]),
     (3, [PutVersion 0, Put8 1 0x1, Put16 8 0x4]),
     (4, [PutVersion 0, Put8 1 0x1, Put16 8 0x4]),
     (5, [PutVersion 0, Put8 1 0x1, Put16 8 0x4])],
     finishes = [MessageLength]\<rparr>"

definition of_bad_match_error_msg_xid :: "32 word accessor" where
  "of_bad_match_error_msg_xid = u32_accessor [OF_BAD_MATCH_ERROR_MSG] [(2, 4), (3, 4), (4, 4), (5, 4)]"

definition of_bad_match_error_msg_code :: "16 word accessor" where
  "of_bad_match_error_msg_code = u16_accessor [OF_BAD_MATCH_ERROR_MSG] [(2, 10), (3, 10), (4, 10), (5, 10)]"

definition of_bucket_class :: wire_class where
  "of_bucket_class = \<lparr>class_id = OF_BUCKET, whole_buffer = True, wire_types = None,
     finishes = [U16Length]\<rparr>"

definition of_bucket_weight :: "16 word accessor" where
  "of_bucket_weight = u16_accessor [OF_BUCKET] [(2, 2), (3, 2), (4, 2), (5, 2)]"

definition of_bucket_watch_port :: "32 word accessor" where
  "of_bucket_watch_port = port_no_accessor [OF_BUCKET] [(2, 4), (3, 4), (4, 4), (5, 4)]"

definition of_bucket_watch_group :: "32 word accessor" where
  "of_bucket_watch_group = u32_accessor [OF_BUCKET] [(2, 8), (3, 8), (4, 8), (5, 8)]"

definition of_bucket_counter_class :: wire_class where
  "of_bucket_counter_class = \<lparr>class_id = OF_BUCKET_COUNTER, whole_buffer = False, wire_types = None,
     finishes = []\<rparr>"

definition of_bucket_counter_packet_count :: "64 word accessor" where
  "of_bucket_counter_packet_count = u64_accessor [OF_BUCKET_COUNTER] [(2, 0), (3, 0), (4, 0), (5, 0)]"

definition of_bucket_counter_byte_count :: "64 word accessor" where
  "of_bucket_counter_byte_count = u64_accessor [OF_BUCKET_COUNTER] [(2, 8), (3, 8), (4, 8), (5, 8)]"

definition of_group_mod_class :: wire_class where
  "of_group_mod_class = \<lparr>class_id = OF_GROUP_MOD, whole_buffer = True, wire_types = None,
     finishes = []\<rparr>"

definition of_group_mod_xid :: "32 word accessor" where
  "of_group_mod_xid = u32_accessor [OF_GROUP_MOD] [(2, 4), (3, 4), (4, 4), (5, 4)]"

definition of_group_mod_group_type :: "byte accessor" where
  "of_group_mod_group_type = u8_accessor [OF_GROUP_MOD] [(2, 10), (3, 10), (4, 10), (5, 10)]"

definition of_group_mod_group_id :: "32 word accessor" where
  "of_group_mod_group_id = u32_accessor [OF_GROUP_MOD] [(2, 12), (3, 12), (4, 12), (5, 12)]"

definition of_group_add_class :: wire_class where
  "of_group_add_class = \<lparr>class_id = OF_GROUP_ADD, whole_buffer = True, wire_types = Some [(2, [PutVersion 0, Put8 1 0xf, Put16 8 0x0]),
     (3, [PutVersion 0, Put8 1 0xf, Put16 8 0x0]),
     (4, [PutVersion 0, Put8 1 0xf, Put16 8 0x0]),
     (5, [PutVersion 0, Put8 1 0xf, Put16 8 0x0])],
     finishes = [MessageLength]\<rparr>"

definition of_group_add_xid :: "32 word accessor" where
  "of_group_add_xid = u32_accessor [OF_GROUP_ADD] [(2, 4), (3, 4), (4, 4), (5, 4)]"

definition of_group_add_group_type :: "byte accessor" where
  "of_group_add_group_type = u8_accessor [OF_GROUP_ADD] [(2, 10), (3, 10), (4, 10), (5, 10)]"

definition of_group_add_group_id :: "32 word accessor" where
  "of_group_add_group_id = u32_accessor [OF_GROUP_ADD] [(2, 12), (3, 12), (4, 12), (5, 12)]"

definition of_group_delete_class :: wire_class where
  "of_group_delete_class = \<lparr>class_id = OF_GROUP_DELETE, whole_buffer = True, wire_types = Some [(2, [PutVersion 0, Put8 1 0xf, Put16 8 0x2]),
     (3, [PutVersion 0, Put8 1 0xf, Put16 8 0x2]),
     (4, [PutVersion 0, Put8 1 0xf, Put16 8 0x2]),
     (5, [PutVersion 0, Put8 1 0xf, Put16 8 0x2])],
     finishes = [MessageLength]\<rparr>"

definition of_group_delete_xid :: "32 word accessor" where
  "of_group_delete_xid = u32_accessor [OF_GROUP_DELETE] [(2, 4), (3, 4), (4, 4), (5, 4)]"

definition of_group_delete_group_type :: "byte accessor" where
  "of_group_delete_group_type = u8_accessor [OF_GROUP_DELETE] [(2, 10), (3, 10), (4, 10), (5, 10)]"

definition of_group_delete_group_id :: "32 word accessor" where
  "of_group_delete_group_id = u32_accessor [OF_GROUP_DELETE] [(2, 12), (3, 12), (4, 12), (5, 12)]"

definition of_group_desc_stats_entry_class :: wire_class where
  "of_group_desc_stats_entry_class = \<lparr>class_id = OF_GROUP_DESC_STATS_ENTRY, whole_buffer = True, wire_types = None,
     finishes = [U16Length]\<rparr>"

definition of_group_desc_stats_entry_group_type :: "byte accessor" where
  "of_group_desc_stats_entry_group_type = u8_accessor [OF_GROUP_DESC_STATS_ENTRY] [(2, 2), (3, 2), (4, 2), (5, 2)]"

definition of_group_desc_stats_entry_group_id :: "32 word accessor" where
  "of_group_desc_stats_entry_group_id = u32_accessor [OF_GROUP_DESC_STATS_ENTRY] [(2, 4), (3, 4), (4, 4), (5, 4)]"

definition of_group_desc_stats_reply_class :: wire_class where
  "of_group_desc_stats_reply_class = \<lparr>class_id = OF_GROUP_DESC_STATS_REPLY, whole_buffer = True, wire_types = Some [(2, [PutVersion 0, Put8 1 0x13, Put16 8 0x7]),
     (3, [PutVersion 0, Put8 1 0x13, Put16 8 0x7]),
     (4, [PutVersion 0, Put8 1 0x13, Put16 8 0x7]),
     (5, [PutVersion 0, Put8 1 0x13, Put16 8 0x7])],
     finishes = [MessageLength]\<rparr>"

definition of_group_desc_stats_reply_xid :: "32 word accessor" where
  "of_group_desc_stats_reply_xid = u32_accessor [OF_GROUP_DESC_STATS_REPLY] [(2, 4), (3, 4), (4, 4), (5, 4)]"

definition of_group_desc_stats_reply_flags :: "16 word accessor" where
  "of_group_desc_stats_reply_flags = u16_accessor [OF_GROUP_DESC_STATS_REPLY] [(2, 10), (3, 10), (4, 10), (5, 10)]"

definition of_group_desc_stats_request_class :: wire_class where
  "of_group_desc_stats_request_class = \<lparr>class_id = OF_GROUP_DESC_STATS_REQUEST, whole_buffer = False, wire_types = Some [(2, [PutVersion 0, Put8 1 0x12, Put16 8 0x7]),
     (3, [PutVersion 0, Put8 1 0x12, Put16 8 0x7]),
     (4, [PutVersion 0, Put8 1 0x12, Put16 8 0x7]),
     (5, [PutVersion 0, Put8 1 0x12, Put16 8 0x7])],
     finishes = [MessageLength]\<rparr>"

definition of_group_desc_stats_request_xid :: "32 word accessor" where
  "of_group_desc_stats_request_xid = u32_accessor [OF_GROUP_DESC_STATS_REQUEST] [(2, 4), (3, 4), (4, 4), (5, 4)]"

definition of_group_desc_stats_request_flags :: "16 word accessor" where
  "of_group_desc_stats_request_flags = u16_accessor [OF_GROUP_DESC_STATS_REQUEST] [(2, 10), (3, 10), (4, 10), (5, 10)]"

definition of_group_mod_failed_error_msg_class :: wire_class where
  "of_group_mod_failed_error_msg_class = \<lparr>class_id = OF_GROUP_MOD_FAILED_ERROR_MSG, whole_buffer = True, wire_types = Some [(2, [PutVersion 0, Put8 1 0x1, Put16 8 0x6]),
     (3, [PutVersion 0, Put8 1 0x1, Put16 8 0x6]),
     (4, [PutVersion 0, Put8 1 0x1, Put16 8 0x6]),
     (5, [PutVersion 0, Put8 1 0x1, Put16 8 0x6])],
     finishes = [MessageLength]\<rparr>"

definition of_group_mod_failed_error_msg_xid :: "32 word accessor" where
  "of_group_mod_failed_error_msg_xid = u32_accessor [OF_GROUP_MOD_FAILED_ERROR_MSG] [(2, 4), (3, 4), (4, 4), (5, 4)]"

definition of_group_mod_failed_error_msg_code :: "16 word accessor" where
  "of_group_mod_failed_error_msg_code = u16_accessor [OF_GROUP_MOD_FAILED_ERROR_MSG] [(2, 10), (3, 10), (4, 10), (5, 10)]"

definition of_group_modify_class :: wire_class where
  "of_group_modify_class = \<lparr>class_id = OF_GROUP_MODIFY, whole_buffer = True, wire_types = Some [(2, [PutVersion 0, Put8 1 0xf, Put16 8 0x1]),
     (3, [PutVersion 0, Put8 1 0xf, Put16 8 0x1]),
     (4, [PutVersion 0, Put8 1 0xf, Put16 8 0x1]),
     (5, [PutVersion 0, Put8 1 0xf, Put16 8 0x1])],
     finishes = [MessageLength]\<rparr>"

definition of_group_modify_xid :: "32 word accessor" where
  "of_group_modify_xid = u32_accessor [OF_GROUP_MODIFY] [(2, 4), (3, 4), (4, 4), (5, 4)]"

definition of_group_modify_group_type :: "byte accessor" where
  "of_group_modify_group_type = u8_accessor [OF_GROUP_MODIFY] [(2, 10), (3, 10), (4, 10), (5, 10)]"

definition of_group_modify_group_id :: "32 word accessor" where
  "of_group_modify_group_id = u32_accessor [OF_GROUP_MODIFY] [(2, 12), (3, 12), (4, 12), (5, 12)]"

definition of_group_stats_entry_class :: wire_class where
  "of_group_stats_entry_class = \<lparr>class_id = OF_GROUP_STATS_ENTRY, whole_buffer = True, wire_types = None,
     finishes = [U16Length]\<rparr>"

definition of_group_stats_entry_group_id :: "32 word accessor" where
  "of_group_stats_entry_group_id = u32_accessor [OF_GROUP_STATS_ENTRY] [(2, 4), (3, 4), (4, 4), (5, 4)]"

definition of_group_stats_entry_ref_count :: "32 word accessor" where
  "of_group_stats_entry_ref_count = u32_accessor [OF_GROUP_STATS_ENTRY] [(2, 8), (3, 8), (4, 8), (5, 8)]"

definition of_group_stats_entry_packet_count :: "64 word accessor" where
  "of_group_stats_entry_packet_count = u64_accessor [OF_GROUP_STATS_ENTRY] [(2, 16), (3, 16), (4, 16), (5, 16)]"

definition of_group_stats_entry_byte_count :: "64 word accessor" where
  "of_group_stats_entry_byte_count = u64_accessor [OF_GROUP_STATS_ENTRY] [(2, 24), (3, 24), (4, 24), (5, 24)]"

definition of_group_stats_entry_duration_sec :: "32 word accessor" where
  "of_group_stats_entry_duration_sec = u32_accessor [OF_GROUP_STATS_ENTRY] [(4, 32), (5, 32)]"

definition of_group_stats_entry_duration_nsec :: "32 word accessor" where
  "of_group_stats_entry_duration_nsec = u32_accessor [OF_GROUP_STATS_ENTRY] [(4, 36), (5, 36)]"

definition of_group_stats_reply_class :: wire_class where
  "of_group_stats_reply_class = \<lparr>class_id = OF_GROUP_STATS_REPLY, whole_buffer = True, wire_types = Some [(2, [PutVersion 0, Put8 1 0x13, Put16 8 0x6]),
     (3, [PutVersion 0, Put8 1 0x13, Put16 8 0x6]),
     (4, [PutVersion 0, Put8 1 0x13, Put16 8 0x6]),
     (5, [PutVersion 0, Put8 1 0x13, Put16 8 0x6])],
     finishes = [MessageLength]\<rparr>"

definition of_group_stats_reply_xid :: "32 word accessor" where
  "of_group_stats_reply_xid = u32_accessor [OF_GROUP_STATS_REPLY] [(2, 4), (3, 4), (4, 4), (5, 4)]"

definition of_group_stats_reply_flags :: "16 word accessor" where
  "of_group_stats_reply_flags = u16_accessor [OF_GROUP_STATS_REPLY] [(2, 10), (3, 10), (4, 10), (5, 10)]"

definition of_group_stats_request_class :: wire_class where
  "of_group_stats_request_class = \<lparr>class_id = OF_GROUP_STATS_REQUEST, whole_buffer = False, wire_types = Some [(2, [PutVersion 0, Put8 1 0x12, Put16 8 0x6]),
     (3, [PutVersion 0, Put8 1 0x12, Put16 8 0x6]),
     (4, [PutVersion 0, Put8 1 0x12, Put16 8 0x6]),
     (5, [PutVersion 0, Put8 1 0x12, Put16 8 0x6])],
     finishes = [MessageLength]\<rparr>"

definition of_group_stats_request_xid :: "32 word accessor" where
  "of_group_stats_request_xid = u32_accessor [OF_GROUP_STATS_REQUEST] [(2, 4), (3, 4), (4, 4), (5, 4)]"

definition of_group_stats_request_flags :: "16 word accessor" where
  "of_group_stats_request_flags = u16_accessor [OF_GROUP_STATS_REQUEST] [(2, 10), (3, 10), (4, 10), (5, 10)]"

definition of_group_stats_request_group_id :: "32 word accessor" where
  "of_group_stats_request_group_id = u32_accessor [OF_GROUP_STATS_REQUEST] [(2, 16), (3, 16), (4, 16), (5, 16)]"

definition of_instruction_class :: wire_class where
  "of_instruction_class = \<lparr>class_id = OF_INSTRUCTION, whole_buffer = True, wire_types = None,
     finishes = []\<rparr>"

definition of_instruction_apply_actions_class :: wire_class where
  "of_instruction_apply_actions_class = \<lparr>class_id = OF_INSTRUCTION_APPLY_ACTIONS, whole_buffer = True, wire_types = Some [(2, [Put16 0 0x4]),
     (3, [Put16 0 0x4]),
     (4, [Put16 0 0x4]),
     (5, [Put16 0 0x4])],
     finishes = [Tlv16Length]\<rparr>"

definition of_instruction_clear_actions_class :: wire_class where
  "of_instruction_clear_actions_class = \<lparr>class_id = OF_INSTRUCTION_CLEAR_ACTIONS, whole_buffer = False, wire_types = Some [(2, [Put16 0 0x5]),
     (3, [Put16 0 0x5]),
     (4, [Put16 0 0x5]),
     (5, [Put16 0 0x5])],
     finishes = [Tlv16Length]\<rparr>"

definition of_instruction_experimenter_class :: wire_class where
  "of_instruction_experimenter_class = \<lparr>class_id = OF_INSTRUCTION_EXPERIMENTER, whole_buffer = True, wire_types = None,
     finishes = []\<rparr>"

definition of_instruction_experimenter_experimenter :: "32 word accessor" where
  "of_instruction_experimenter_experimenter = u32_accessor [OF_INSTRUCTION_EXPERIMENTER] [(2, 4), (3, 4), (4, 4), (5, 4)]"

definition of_instruction_goto_table_class :: wire_class where
  "of_instruction_goto_table_class = \<lparr>class_id = OF_INSTRUCTION_GOTO_TABLE, whole_buffer = False, wire_types = Some [(2, [Put16 0 0x1]),
     (3, [Put16 0 0x1]),
     (4, [Put16 0 0x1]),
     (5, [Put16 0 0x1])],
     finishes = [Tlv16Length]\<rparr>"

definition of_instruction_goto_table_table_id :: "byte accessor" where
  "of_instruction_goto_table_table_id = u8_accessor [OF_INSTRUCTION_GOTO_TABLE] [(2, 4), (3, 4), (4, 4), (5, 4)]"

definition of_instruction_write_actions_class :: wire_class where
  "of_instruction_write_actions_class = \<lparr>class_id = OF_INSTRUCTION_WRITE_ACTIONS, whole_buffer = True, wire_types = Some [(2, [Put16 0 0x3]),
     (3, [Put16 0 0x3]),
     (4, [Put16 0 0x3]),
     (5, [Put16 0 0x3])],
     finishes = [Tlv16Length]\<rparr>"

definition of_instruction_write_metadata_class :: wire_class where
  "of_instruction_write_metadata_class = \<lparr>class_id = OF_INSTRUCTION_WRITE_METADATA, whole_buffer = False, wire_types = Some [(2, [Put16 0 0x2]),
     (3, [Put16 0 0x2]),
     (4, [Put16 0 0x2]),
     (5, [Put16 0 0x2])],
     finishes = [Tlv16Length]\<rparr>"

definition of_instruction_write_metadata_metadata :: "64 word accessor" where
  "of_instruction_write_metadata_metadata = u64_accessor [OF_INSTRUCTION_WRITE_METADATA] [(2, 8), (3, 8), (4, 8), (5, 8)]"

definition of_instruction_write_metadata_metadata_mask :: "64 word accessor" where
  "of_instruction_write_metadata_metadata_mask = u64_accessor [OF_INSTRUCTION_WRITE_METADATA] [(2, 16), (3, 16), (4, 16), (5, 16)]"

definition of_match_v2_class :: wire_class where
  "of_match_v2_class = \<lparr>class_id = OF_MATCH_V2, whole_buffer = False, wire_types = Some [(2, [Put16 0 0x0])],
     finishes = [Tlv16Length]\<rparr>"

definition of_match_v2_in_port :: "32 word accessor" where
  "of_match_v2_in_port = port_no_accessor [OF_MATCH_V2] [(2, 4)]"

definition of_match_v2_wildcards :: "64 word accessor" where
  "of_match_v2_wildcards = wc_bmap_accessor [OF_MATCH_V2] [(2, 8)]"

definition of_match_v2_eth_src :: "byte list accessor" where
  "of_match_v2_eth_src = mac_accessor [OF_MATCH_V2] [(2, 12)]"

definition of_match_v2_eth_src_mask :: "byte list accessor" where
  "of_match_v2_eth_src_mask = mac_accessor [OF_MATCH_V2] [(2, 18)]"

definition of_match_v2_eth_dst :: "byte list accessor" where
  "of_match_v2_eth_dst = mac_accessor [OF_MATCH_V2] [(2, 24)]"

definition of_match_v2_eth_dst_mask :: "byte list accessor" where
  "of_match_v2_eth_dst_mask = mac_accessor [OF_MATCH_V2] [(2, 30)]"

definition of_match_v2_vlan_vid :: "16 word accessor" where
  "of_match_v2_vlan_vid = u16_accessor [OF_MATCH_V2] [(2, 36)]"

definition of_match_v2_vlan_pcp :: "byte accessor" where
  "of_match_v2_vlan_pcp = u8_accessor [OF_MATCH_V2] [(2, 38)]"

definition of_match_v2_eth_type :: "16 word accessor" where
  "of_match_v2_eth_type = u16_accessor [OF_MATCH_V2] [(2, 40)]"

definition of_match_v2_ip_dscp :: "byte accessor" where
  "of_match_v2_ip_dscp = u8_accessor [OF_MATCH_V2] [(2, 42)]"

definition of_match_v2_ip_proto :: "byte accessor" where
  "of_match_v2_ip_proto = u8_accessor [OF_MATCH_V2] [(2, 43)]"

definition of_match_v2_ipv4_src :: "32 word accessor" where
  "of_match_v2_ipv4_src = ipv4_accessor [OF_MATCH_V2] [(2, 44)]"

definition of_match_v2_ipv4_src_mask :: "32 word accessor" where
  "of_match_v2_ipv4_src_mask = ipv4_accessor [OF_MATCH_V2] [(2, 48)]"

definition of_match_v2_ipv4_dst :: "32 word accessor" where
  "of_match_v2_ipv4_dst = ipv4_accessor [OF_MATCH_V2] [(2, 52)]"

definition of_match_v2_ipv4_dst_mask :: "32 word accessor" where
  "of_match_v2_ipv4_dst_mask = ipv4_accessor [OF_MATCH_V2] [(2, 56)]"

definition of_match_v2_tcp_src :: "16 word accessor" where
  "of_match_v2_tcp_src = u16_accessor [OF_MATCH_V2] [(2, 60)]"

definition of_match_v2_tcp_dst :: "16 word accessor" where
  "of_match_v2_tcp_dst = u16_accessor [OF_MATCH_V2] [(2, 62)]"

definition of_match_v2_mpls_label :: "32 word accessor" where
  "of_match_v2_mpls_label = u32_accessor [OF_MATCH_V2] [(2, 64)]"

definition of_match_v2_mpls_tc :: "byte accessor" where
  "of_match_v2_mpls_tc = u8_accessor [OF_MATCH_V2] [(2, 68)]"

definition of_match_v2_metadata :: "64 word accessor" where
  "of_match_v2_metadata = u64_accessor [OF_MATCH_V2] [(2, 72)]"

definition of_match_v2_metadata_mask :: "64 word accessor" where
  "of_match_v2_metadata_mask = u64_accessor [OF_MATCH_V2] [(2, 80)]"

text \<open>The classes, each with consistent wire types in every version that has it.\<close>

definition classes_04 :: "wire_class list" where
  "classes_04 = [of_action_pop_vlan_class, of_action_push_mpls_class, of_action_push_vlan_class,
     of_action_set_mpls_label_class, of_action_set_mpls_tc_class, of_action_set_mpls_ttl_class,
     of_action_set_nw_ecn_class, of_action_set_nw_ttl_class, of_action_set_queue_class,
     of_bad_instruction_error_msg_class, of_bad_match_error_msg_class, of_bucket_class,
     of_bucket_counter_class, of_group_mod_class, of_group_add_class, of_group_delete_class,
     of_group_desc_stats_entry_class, of_group_desc_stats_reply_class, of_group_desc_stats_request_class,
     of_group_mod_failed_error_msg_class, of_group_modify_class, of_group_stats_entry_class,
     of_group_stats_reply_class, of_group_stats_request_class, of_instruction_class,
     of_instruction_apply_actions_class, of_instruction_clear_actions_class,
     of_instruction_experimenter_class, of_instruction_goto_table_class,
     of_instruction_write_actions_class, of_instruction_write_metadata_class, of_match_v2_class]"

lemmas class_defs_04 =
  of_action_pop_vlan_class_def of_action_push_mpls_class_def of_action_push_vlan_class_def
  of_action_set_mpls_label_class_def of_action_set_mpls_tc_class_def
  of_action_set_mpls_ttl_class_def of_action_set_nw_ecn_class_def of_action_set_nw_ttl_class_def
  of_action_set_queue_class_def of_bad_instruction_error_msg_class_def
  of_bad_match_error_msg_class_def of_bucket_class_def of_bucket_counter_class_def
  of_group_mod_class_def of_group_add_class_def of_group_delete_class_def
  of_group_desc_stats_entry_class_def of_group_desc_stats_reply_class_def
  of_group_desc_stats_request_class_def of_group_mod_failed_error_msg_class_def
  of_group_modify_class_def of_group_stats_entry_class_def of_group_stats_reply_class_def
  of_group_stats_request_class_def of_instruction_class_def of_instruction_apply_actions_class_def
  of_instruction_clear_actions_class_def of_instruction_experimenter_class_def
  of_instruction_goto_table_class_def of_instruction_write_actions_class_def
  of_instruction_write_metadata_class_def of_match_v2_class_def

lemma classes_ok_04: "list_all class_ok classes_04"
  unfolding classes_04_def
  by (simp add: class_defs_04 class_checks)

text \<open>The accessors.\<close>

definition fields_04 :: "field list" where
  "fields_04 = [U16 of_action_push_mpls_ethertype, U16 of_action_push_vlan_ethertype,
     U32 of_action_set_mpls_label_mpls_label, U8 of_action_set_mpls_tc_mpls_tc,
     U8 of_action_set_mpls_ttl_mpls_ttl, U8 of_action_set_nw_ecn_nw_ecn, U8 of_action_set_nw_ttl_nw_ttl,
     U32 of_action_set_queue_queue_id, U32 of_bad_instruction_error_msg_xid,
     U16 of_bad_instruction_error_msg_code, U32 of_bad_match_error_msg_xid,
     U16 of_bad_match_error_msg_code, U16 of_bucket_weight, PortNo of_bucket_watch_port,
     U32 of_bucket_watch_group, U64 of_bucket_counter_packet_count, U64 of_bucket_counter_byte_count,
     U32 of_group_mod_xid, U8 of_group_mod_group_type, U32 of_group_mod_group_id, U32 of_group_add_xid,
     U8 of_group_add_group_type, U32 of_group_add_group_id, U32 of_group_delete_xid,
     U8 of_group_delete_group_type, U32 of_group_delete_group_id, U8 of_group_desc_stats_entry_group_type,
     U32 of_group_desc_stats_entry_group_id, U32 of_group_desc_stats_reply_xid,
     U16 of_group_desc_stats_reply_flags, U32 of_group_desc_stats_request_xid,
     U16 of_group_desc_stats_request_flags, U32 of_group_mod_failed_error_msg_xid,
     U16 of_group_mod_failed_error_msg_code, U32 of_group_modify_xid, U8 of_group_modify_group_type,
     U32 of_group_modify_group_id, U32 of_group_stats_entry_group_id, U32 of_group_stats_entry_ref_count,
     U64 of_group_stats_entry_packet_count, U64 of_group_stats_entry_byte_count,
     U32 of_group_stats_entry_duration_sec, U32 of_group_stats_entry_duration_nsec,
     U32 of_group_stats_reply_xid, U16 of_group_stats_reply_flags, U32 of_group_stats_request_xid,
     U16 of_group_stats_request_flags, U32 of_group_stats_request_group_id,
     U32 of_instruction_experimenter_experimenter, U8 of_instruction_goto_table_table_id,
     U64 of_instruction_write_metadata_metadata, U64 of_instruction_write_metadata_metadata_mask,
     PortNo of_match_v2_in_port, Bmap of_match_v2_wildcards, Octets 6 of_match_v2_eth_src,
     Octets 6 of_match_v2_eth_src_mask, Octets 6 of_match_v2_eth_dst, Octets 6 of_match_v2_eth_dst_mask,
     U16 of_match_v2_vlan_vid, U8 of_match_v2_vlan_pcp, U16 of_match_v2_eth_type, U8 of_match_v2_ip_dscp,
     U8 of_match_v2_ip_proto, U32 of_match_v2_ipv4_src, U32 of_match_v2_ipv4_src_mask,
     U32 of_match_v2_ipv4_dst, U32 of_match_v2_ipv4_dst_mask, U16 of_match_v2_tcp_src,
     U16 of_match_v2_tcp_dst, U32 of_match_v2_mpls_label, U8 of_match_v2_mpls_tc,
     U64 of_match_v2_metadata, U64 of_match_v2_metadata_mask]"

lemmas accessor_defs_04 =
  of_action_push_mpls_ethertype_def of_action_push_vlan_ethertype_def
  of_action_set_mpls_label_mpls_label_def of_action_set_mpls_tc_mpls_tc_def
  of_action_set_mpls_ttl_mpls_ttl_def of_action_set_nw_ecn_nw_ecn_def
  of_action_set_nw_ttl_nw_ttl_def of_action_set_queue_queue_id_def
  of_bad_instruction_error_msg_xid_def of_bad_instruction_error_msg_code_def
  of_bad_match_error_msg_xid_def of_bad_match_error_msg_code_def of_bucket_weight_def
  of_bucket_watch_port_def of_bucket_watch_group_def of_bucket_counter_packet_count_def
  of_bucket_counter_byte_count_def of_group_mod_xid_def of_group_mod_group_type_def
  of_group_mod_group_id_def of_group_add_xid_def of_group_add_group_type_def
  of_group_add_group_id_def of_group_delete_xid_def of_group_delete_group_type_def
  of_group_delete_group_id_def of_group_desc_stats_entry_group_type_def
  of_group_desc_stats_entry_group_id_def of_group_desc_stats_reply_xid_def
  of_group_desc_stats_reply_flags_def of_group_desc_stats_request_xid_def
  of_group_desc_stats_request_flags_def of_group_mod_failed_error_msg_xid_def
  of_group_mod_failed_error_msg_code_def of_group_modify_xid_def of_group_modify_group_type_def
  of_group_modify_group_id_def of_group_stats_entry_group_id_def of_group_stats_entry_ref_count_def
  of_group_stats_entry_packet_count_def of_group_stats_entry_byte_count_def
  of_group_stats_entry_duration_sec_def of_group_stats_entry_duration_nsec_def
  of_group_stats_reply_xid_def of_group_stats_reply_flags_def of_group_stats_request_xid_def
  of_group_stats_request_flags_def of_group_stats_request_group_id_def
  of_instruction_experimenter_experimenter_def of_instruction_goto_table_table_id_def
  of_instruction_write_metadata_metadata_def of_instruction_write_metadata_metadata_mask_def
  of_match_v2_in_port_def of_match_v2_wildcards_def of_match_v2_eth_src_def
  of_match_v2_eth_src_mask_def of_match_v2_eth_dst_def of_match_v2_eth_dst_mask_def
  of_match_v2_vlan_vid_def of_match_v2_vlan_pcp_def of_match_v2_eth_type_def
  of_match_v2_ip_dscp_def of_match_v2_ip_proto_def of_match_v2_ipv4_src_def
  of_match_v2_ipv4_src_mask_def of_match_v2_ipv4_dst_def of_match_v2_ipv4_dst_mask_def
  of_match_v2_tcp_src_def of_match_v2_tcp_dst_def of_match_v2_mpls_label_def
  of_match_v2_mpls_tc_def of_match_v2_metadata_def of_match_v2_metadata_mask_def

lemma fields_ok_04: "list_all field_ok fields_04"
  unfolding fields_04_def accessor_defs_04
  by (simp add: accessors_ok octets_accessors_ok inside_rows del: field_ok.simps)

end
