(* ===== verification/Class05.thy ===== *)
theory Class05
  imports Construct
begin

text \<open>
  The classes of \<^verbatim>\<open>src/class05.c\<close>: for each what its constructor, initialiser and
  \<open>push_wire_types\<close> write, and the scalar accessors, a getter and a setter for each field at a fixed offset.
\<close>

definition of_switch_config_failed_error_msg_class :: wire_class where
  "of_switch_config_failed_error_msg_class = \<lparr>class_id = OF_SWITCH_CONFIG_FAILED_ERROR_MSG, whole_buffer = True, wire_types = Some [(2, [PutVersion 0, Put8 1 0x1, Put16 8 0xa]),
     (3, [PutVersion 0, Put8 1 0x1, Put16 8 0xa]),
     (4, [PutVersion 0, Put8 1 0x1, Put16 8 0xa]),
     (5, [PutVersion 0, Put8 1 0x1, Put16 8 0xa])],
     finishes = [MessageLength]\<rparr>"

definition of_switch_config_failed_error_msg_xid :: "32 word accessor" where
  "of_switch_config_failed_error_msg_xid = u32_accessor [OF_SWITCH_CONFIG_FAILED_ERROR_MSG] [(2, 4), (3, 4), (4, 4), (5, 4)]"

definition of_switch_config_failed_error_msg_code :: "16 word accessor" where
  "of_switch_config_failed_error_msg_code = u16_accessor [OF_SWITCH_CONFIG_FAILED_ERROR_MSG] [(2, 10), (3, 10), (4, 10), (5, 10)]"

definition of_table_mod_failed_error_msg_class :: wire_class where
  "of_table_mod_failed_error_msg_class = \<lparr>class_id = OF_TABLE_MOD_FAILED_ERROR_MSG, whole_buffer = True, wire_types = Some [(2, [PutVersion 0, Put8 1 0x1, Put16 8 0x8]),
     (3, [PutVersion 0, Put8 1 0x1, Put16 8 0x8]),
     (4, [PutVersion 0, Put8 1 0x1, Put16 8 0x8]),
     (5, [PutVersion 0, Put8 1 0x1, Put16 8 0x8])],
     finishes = [MessageLength]\<rparr>"

definition of_table_mod_failed_error_msg_xid :: "32 word accessor" where
  "of_table_mod_failed_error_msg_xid = u32_accessor [OF_TABLE_MOD_FAILED_ERROR_MSG] [(2, 4), (3, 4), (4, 4), (5, 4)]"

definition of_table_mod_failed_error_msg_code :: "16 word accessor" where
  "of_table_mod_failed_error_msg_code = u16_accessor [OF_TABLE_MOD_FAILED_ERROR_MSG] [(2, 10), (3, 10), (4, 10), (5, 10)]"

definition of_oxm_class :: wire_class where
  "of_oxm_class = \<lparr>class_id = OF_OXM, whole_buffer = True, wire_types = None,
     finishes = []\<rparr>"

definition of_action_set_field_class :: wire_class where
  "of_action_set_field_class = \<lparr>class_id = OF_ACTION_SET_FIELD, whole_buffer = True, wire_types = Some [(3, [Put16 0 0x19]),
     (4, [Put16 0 0x19]),
     (5, [Put16 0 0x19])],
     finishes = [Tlv16Length]\<rparr>"

definition of_experimenter_error_msg_class :: wire_class where
  "of_experimenter_error_msg_class = \<lparr>class_id = OF_EXPERIMENTER_ERROR_MSG, whole_buffer = True, wire_types = Some [(3, [PutVersion 0, Put8 1 0x1, Put16 8 0xffff]),
     (4, [PutVersion 0, Put8 1 0x1, Put16 8 0xffff]),
     (5, [PutVersion 0, Put8 1 0x1, Put16 8 0xffff])],
     finishes = [MessageLength]\<rparr>"

definition of_experimenter_error_msg_xid :: "32 word accessor" where
  "of_experimenter_error_msg_xid = u32_accessor [OF_EXPERIMENTER_ERROR_MSG] [(3, 4), (4, 4), (5, 4)]"

definition of_experimenter_error_msg_subtype :: "16 word accessor" where
  "of_experimenter_error_msg_subtype = u16_accessor [OF_EXPERIMENTER_ERROR_MSG] [(3, 10), (4, 10), (5, 10)]"

definition of_experimenter_error_msg_experimenter :: "32 word accessor" where
  "of_experimenter_error_msg_experimenter = u32_accessor [OF_EXPERIMENTER_ERROR_MSG] [(3, 12), (4, 12), (5, 12)]"

definition of_group_features_stats_reply_class :: wire_class where
  "of_group_features_stats_reply_class = \<lparr>class_id = OF_GROUP_FEATURES_STATS_REPLY, whole_buffer = False, wire_types = Some [(3, [PutVersion 0, Put8 1 0x13, Put16 8 0x8]),
     (4, [PutVersion 0, Put8 1 0x13, Put16 8 0x8]),
     (5, [PutVersion 0, Put8 1 0x13, Put16 8 0x8])],
     finishes = [MessageLength]\<rparr>"

definition of_group_features_stats_reply_xid :: "32 word accessor" where
  "of_group_features_stats_reply_xid = u32_accessor [OF_GROUP_FEATURES_STATS_REPLY] [(3, 4), (4, 4), (5, 4)]"

definition of_group_features_stats_reply_flags :: "16 word accessor" where
  "of_group_features_stats_reply_flags = u16_accessor [OF_GROUP_FEATURES_STATS_REPLY] [(3, 10), (4, 10), (5, 10)]"

definition of_group_features_stats_reply_types :: "32 word accessor" where
  "of_group_features_stats_reply_types = u32_accessor [OF_GROUP_FEATURES_STATS_REPLY] [(3, 16), (4, 16), (5, 16)]"

definition of_group_features_stats_reply_capabilities :: "32 word accessor" where
  "of_group_features_stats_reply_capabilities = u32_accessor [OF_GROUP_FEATURES_STATS_REPLY] [(3, 20), (4, 20), (5, 20)]"

definition of_group_features_stats_reply_max_groups_all :: "32 word accessor" where
  "of_group_features_stats_reply_max_groups_all = u32_accessor [OF_GROUP_FEATURES_STATS_REPLY] [(3, 24), (4, 24), (5, 24)]"

definition of_group_features_stats_reply_max_groups_select :: "32 word accessor" where
  "of_group_features_stats_reply_max_groups_select = u32_accessor [OF_GROUP_FEATURES_STATS_REPLY] [(3, 28), (4, 28), (5, 28)]"

definition of_group_features_stats_reply_max_groups_indirect :: "32 word accessor" where
  "of_group_features_stats_reply_max_groups_indirect = u32_accessor [OF_GROUP_FEATURES_STATS_REPLY] [(3, 32), (4, 32), (5, 32)]"

definition of_group_features_stats_reply_max_groups_ff :: "32 word accessor" where
  "of_group_features_stats_reply_max_groups_ff = u32_accessor [OF_GROUP_FEATURES_STATS_REPLY] [(3, 36), (4, 36), (5, 36)]"

definition of_group_features_stats_reply_actions_all :: "32 word accessor" where
  "of_group_features_stats_reply_actions_all = u32_accessor [OF_GROUP_FEATURES_STATS_REPLY] [(3, 40), (4, 40), (5, 40)]"

definition of_group_features_stats_reply_actions_select :: "32 word accessor" where
  "of_group_features_stats_reply_actions_select = u32_accessor [OF_GROUP_FEATURES_STATS_REPLY] [(3, 44), (4, 44), (5, 44)]"

definition of_group_features_stats_reply_actions_indirect :: "32 word accessor" where
  "of_group_features_stats_reply_actions_indirect = u32_accessor [OF_GROUP_FEATURES_STATS_REPLY] [(3, 48), (4, 48), (5, 48)]"

definition of_group_features_stats_reply_actions_ff :: "32 word accessor" where
  "of_group_features_stats_reply_actions_ff = u32_accessor [OF_GROUP_FEATURES_STATS_REPLY] [(3, 52), (4, 52), (5, 52)]"

definition of_group_features_stats_request_class :: wire_class where
  "of_group_features_stats_request_class = \<lparr>class_id = OF_GROUP_FEATURES_STATS_REQUEST, whole_buffer = False, wire_types = Some [(3, [PutVersion 0, Put8 1 0x12, Put16 8 0x8]),
     (4, [PutVersion 0, Put8 1 0x12, Put16 8 0x8]),
     (5, [PutVersion 0, Put8 1 0x12, Put16 8 0x8])],
     finishes = [MessageLength]\<rparr>"

definition of_group_features_stats_request_xid :: "32 word accessor" where
  "of_group_features_stats_request_xid = u32_accessor [OF_GROUP_FEATURES_STATS_REQUEST] [(3, 4), (4, 4), (5, 4)]"

definition of_group_features_stats_request_flags :: "16 word accessor" where
  "of_group_features_stats_request_flags = u16_accessor [OF_GROUP_FEATURES_STATS_REQUEST] [(3, 10), (4, 10), (5, 10)]"

definition of_match_v3_class :: wire_class where
  "of_match_v3_class = \<lparr>class_id = OF_MATCH_V3, whole_buffer = True, wire_types = Some [(3, [Put16 0 0x1]),
     (4, [Put16 0 0x1]),
     (5, [Put16 0 0x1])],
     finishes = [Tlv16Length]\<rparr>"

definition of_oxm_arp_op_class :: wire_class where
  "of_oxm_arp_op_class = \<lparr>class_id = OF_OXM_ARP_OP, whole_buffer = False, wire_types = Some [(3, [Put32 0 0x80002a02]),
     (4, [Put32 0 0x80002a02]),
     (5, [Put32 0 0x80002a02])],
     finishes = []\<rparr>"

definition of_oxm_arp_op_value :: "16 word accessor" where
  "of_oxm_arp_op_value = u16_accessor [OF_OXM_ARP_OP] [(3, 4), (4, 4), (5, 4)]"

definition of_oxm_arp_op_masked_class :: wire_class where
  "of_oxm_arp_op_masked_class = \<lparr>class_id = OF_OXM_ARP_OP_MASKED, whole_buffer = False, wire_types = Some [(3, [Put32 0 0x80002b04]),
     (4, [Put32 0 0x80002b04]),
     (5, [Put32 0 0x80002b04])],
     finishes = []\<rparr>"

definition of_oxm_arp_op_masked_value :: "16 word accessor" where
  "of_oxm_arp_op_masked_value = u16_accessor [OF_OXM_ARP_OP_MASKED] [(3, 4), (4, 4), (5, 4)]"

definition of_oxm_arp_op_masked_value_mask :: "16 word accessor" where
  "of_oxm_arp_op_masked_value_mask = u16_accessor [OF_OXM_ARP_OP_MASKED] [(3, 6), (4, 6), (5, 6)]"

definition of_oxm_arp_sha_class :: wire_class where
  "of_oxm_arp_sha_class = \<lparr>class_id = OF_OXM_ARP_SHA, whole_buffer = False, wire_types = Some [(3, [Put32 0 0x80003006]),
     (4, [Put32 0 0x80003006]),
     (5, [Put32 0 0x80003006])],
     finishes = []\<rparr>"

definition of_oxm_arp_sha_value :: "byte list accessor" where
  "of_oxm_arp_sha_value = mac_accessor [OF_OXM_ARP_SHA] [(3, 4), (4, 4), (5, 4)]"

definition of_oxm_arp_sha_masked_class :: wire_class where
  "of_oxm_arp_sha_masked_class = \<lparr>class_id = OF_OXM_ARP_SHA_MASKED, whole_buffer = False, wire_types = Some [(3, [Put32 0 0x8000310c]),
     (4, [Put32 0 0x8000310c]),
     (5, [Put32 0 0x8000310c])],
     finishes = []\<rparr>"

definition of_oxm_arp_sha_masked_value :: "byte list accessor" where
  "of_oxm_arp_sha_masked_value = mac_accessor [OF_OXM_ARP_SHA_MASKED] [(3, 4), (4, 4), (5, 4)]"

definition of_oxm_arp_sha_masked_value_mask :: "byte list accessor" where
  "of_oxm_arp_sha_masked_value_mask = mac_accessor [OF_OXM_ARP_SHA_MASKED] [(3, 10), (4, 10), (5, 10)]"

definition of_oxm_arp_spa_class :: wire_class where
  "of_oxm_arp_spa_class = \<lparr>class_id = OF_OXM_ARP_SPA, whole_buffer = False, wire_types = Some [(3, [Put32 0 0x80002c04]),
     (4, [Put32 0 0x80002c04]),
     (5, [Put32 0 0x80002c04])],
     finishes = []\<rparr>"

definition of_oxm_arp_spa_value :: "32 word accessor" where
  "of_oxm_arp_spa_value = u32_accessor [OF_OXM_ARP_SPA] [(3, 4), (4, 4), (5, 4)]"

definition of_oxm_arp_spa_masked_class :: wire_class where
  "of_oxm_arp_spa_masked_class = \<lparr>class_id = OF_OXM_ARP_SPA_MASKED, whole_buffer = False, wire_types = Some [(3, [Put32 0 0x80002d08]),
     (4, [Put32 0 0x80002d08]),
     (5, [Put32 0 0x80002d08])],
     finishes = []\<rparr>"

definition of_oxm_arp_spa_masked_value :: "32 word accessor" where
  "of_oxm_arp_spa_masked_value = u32_accessor [OF_OXM_ARP_SPA_MASKED] [(3, 4), (4, 4), (5, 4)]"

definition of_oxm_arp_spa_masked_value_mask :: "32 word accessor" where
  "of_oxm_arp_spa_masked_value_mask = u32_accessor [OF_OXM_ARP_SPA_MASKED] [(3, 8), (4, 8), (5, 8)]"

definition of_oxm_arp_tha_class :: wire_class where
  "of_oxm_arp_tha_class = \<lparr>class_id = OF_OXM_ARP_THA, whole_buffer = False, wire_types = Some [(3, [Put32 0 0x80003206]),
     (4, [Put32 0 0x80003206]),
     (5, [Put32 0 0x80003206])],
     finishes = []\<rparr>"

definition of_oxm_arp_tha_value :: "byte list accessor" where
  "of_oxm_arp_tha_value = mac_accessor [OF_OXM_ARP_THA] [(3, 4), (4, 4), (5, 4)]"

definition of_oxm_arp_tha_masked_class :: wire_class where
  "of_oxm_arp_tha_masked_class = \<lparr>class_id = OF_OXM_ARP_THA_MASKED, whole_buffer = False, wire_types = Some [(3, [Put32 0 0x8000330c]),
     (4, [Put32 0 0x8000330c]),
     (5, [Put32 0 0x8000330c])],
     finishes = []\<rparr>"

definition of_oxm_arp_tha_masked_value :: "byte list accessor" where
  "of_oxm_arp_tha_masked_value = mac_accessor [OF_OXM_ARP_THA_MASKED] [(3, 4), (4, 4), (5, 4)]"

definition of_oxm_arp_tha_masked_value_mask :: "byte list accessor" where
  "of_oxm_arp_tha_masked_value_mask = mac_accessor [OF_OXM_ARP_THA_MASKED] [(3, 10), (4, 10), (5, 10)]"

definition of_oxm_arp_tpa_class :: wire_class where
  "of_oxm_arp_tpa_class = \<lparr>class_id = OF_OXM_ARP_TPA, whole_buffer = False, wire_types = Some [(3, [Put32 0 0x80002e04]),
     (4, [Put32 0 0x80002e04]),
     (5, [Put32 0 0x80002e04])],
     finishes = []\<rparr>"

definition of_oxm_arp_tpa_value :: "32 word accessor" where
  "of_oxm_arp_tpa_value = u32_accessor [OF_OXM_ARP_TPA] [(3, 4), (4, 4), (5, 4)]"

definition of_oxm_arp_tpa_masked_class :: wire_class where
  "of_oxm_arp_tpa_masked_class = \<lparr>class_id = OF_OXM_ARP_TPA_MASKED, whole_buffer = False, wire_types = Some [(3, [Put32 0 0x80002f08]),
     (4, [Put32 0 0x80002f08]),
     (5, [Put32 0 0x80002f08])],
     finishes = []\<rparr>"

definition of_oxm_arp_tpa_masked_value :: "32 word accessor" where
  "of_oxm_arp_tpa_masked_value = u32_accessor [OF_OXM_ARP_TPA_MASKED] [(3, 4), (4, 4), (5, 4)]"

definition of_oxm_arp_tpa_masked_value_mask :: "32 word accessor" where
  "of_oxm_arp_tpa_masked_value_mask = u32_accessor [OF_OXM_ARP_TPA_MASKED] [(3, 8), (4, 8), (5, 8)]"

definition of_oxm_bsn_egr_port_group_id_class :: wire_class where
  "of_oxm_bsn_egr_port_group_id_class = \<lparr>class_id = OF_OXM_BSN_EGR_PORT_GROUP_ID, whole_buffer = False, wire_types = Some [(3, [Put32 0 0x30e04]),
     (4, [Put32 0 0x30e04]),
     (5, [Put32 0 0x30e04])],
     finishes = []\<rparr>"

definition of_oxm_bsn_egr_port_group_id_value :: "32 word accessor" where
  "of_oxm_bsn_egr_port_group_id_value = u32_accessor [OF_OXM_BSN_EGR_PORT_GROUP_ID] [(3, 4), (4, 4), (5, 4)]"

definition of_oxm_bsn_egr_port_group_id_masked_class :: wire_class where
  "of_oxm_bsn_egr_port_group_id_masked_class = \<lparr>class_id = OF_OXM_BSN_EGR_PORT_GROUP_ID_MASKED, whole_buffer = False, wire_types = Some [(3, [Put32 0 0x30f08]),
     (4, [Put32 0 0x30f08]),
     (5, [Put32 0 0x30f08])],
     finishes = []\<rparr>"

definition of_oxm_bsn_egr_port_group_id_masked_value :: "32 word accessor" where
  "of_oxm_bsn_egr_port_group_id_masked_value = u32_accessor [OF_OXM_BSN_EGR_PORT_GROUP_ID_MASKED] [(3, 4), (4, 4), (5, 4)]"

definition of_oxm_bsn_egr_port_group_id_masked_value_mask :: "32 word accessor" where
  "of_oxm_bsn_egr_port_group_id_masked_value_mask = u32_accessor [OF_OXM_BSN_EGR_PORT_GROUP_ID_MASKED] [(3, 8), (4, 8), (5, 8)]"

definition of_oxm_bsn_global_vrf_allowed_class :: wire_class where
  "of_oxm_bsn_global_vrf_allowed_class = \<lparr>class_id = OF_OXM_BSN_GLOBAL_VRF_ALLOWED, whole_buffer = False, wire_types = Some [(3, [Put32 0 0x30601]),
     (4, [Put32 0 0x30601])],
     finishes = []\<rparr>"

definition of_oxm_bsn_global_vrf_allowed_value :: "byte accessor" where
  "of_oxm_bsn_global_vrf_allowed_value = u8_accessor [OF_OXM_BSN_GLOBAL_VRF_ALLOWED] [(3, 4), (4, 4)]"

definition of_oxm_bsn_global_vrf_allowed_masked_class :: wire_class where
  "of_oxm_bsn_global_vrf_allowed_masked_class = \<lparr>class_id = OF_OXM_BSN_GLOBAL_VRF_ALLOWED_MASKED, whole_buffer = False, wire_types = Some [(3, [Put32 0 0x30702]),
     (4, [Put32 0 0x30702])],
     finishes = []\<rparr>"

definition of_oxm_bsn_global_vrf_allowed_masked_value :: "byte accessor" where
  "of_oxm_bsn_global_vrf_allowed_masked_value = u8_accessor [OF_OXM_BSN_GLOBAL_VRF_ALLOWED_MASKED] [(3, 4), (4, 4)]"

definition of_oxm_bsn_global_vrf_allowed_masked_value_mask :: "byte accessor" where
  "of_oxm_bsn_global_vrf_allowed_masked_value_mask = u8_accessor [OF_OXM_BSN_GLOBAL_VRF_ALLOWED_MASKED] [(3, 5), (4, 5)]"

definition of_oxm_bsn_in_ports_128_class :: wire_class where
  "of_oxm_bsn_in_ports_128_class = \<lparr>class_id = OF_OXM_BSN_IN_PORTS_128, whole_buffer = False, wire_types = Some [(3, [Put32 0 0x30010]),
     (4, [Put32 0 0x30010]),
     (5, [Put32 0 0x30010])],
     finishes = []\<rparr>"

definition of_oxm_bsn_in_ports_128_value :: "(64 word \<times> 64 word) accessor" where
  "of_oxm_bsn_in_ports_128_value = checksum_128_accessor [OF_OXM_BSN_IN_PORTS_128] [(3, 4), (4, 4), (5, 4)]"

definition of_oxm_bsn_in_ports_128_masked_class :: wire_class where
  "of_oxm_bsn_in_ports_128_masked_class = \<lparr>class_id = OF_OXM_BSN_IN_PORTS_128_MASKED, whole_buffer = False, wire_types = Some [(3, [Put32 0 0x30120]),
     (4, [Put32 0 0x30120]),
     (5, [Put32 0 0x30120])],
     finishes = []\<rparr>"

definition of_oxm_bsn_in_ports_128_masked_value :: "(64 word \<times> 64 word) accessor" where
  "of_oxm_bsn_in_ports_128_masked_value = checksum_128_accessor [OF_OXM_BSN_IN_PORTS_128_MASKED] [(3, 4), (4, 4), (5, 4)]"

definition of_oxm_bsn_in_ports_128_masked_value_mask :: "(64 word \<times> 64 word) accessor" where
  "of_oxm_bsn_in_ports_128_masked_value_mask = checksum_128_accessor [OF_OXM_BSN_IN_PORTS_128_MASKED] [(3, 20), (4, 20), (5, 20)]"

definition of_oxm_bsn_in_ports_512_class :: wire_class where
  "of_oxm_bsn_in_ports_512_class = \<lparr>class_id = OF_OXM_BSN_IN_PORTS_512, whole_buffer = False, wire_types = Some [(3, [Put32 0 0x32640]),
     (4, [Put32 0 0x32640]),
     (5, [Put32 0 0x32640])],
     finishes = []\<rparr>"

definition of_oxm_bsn_in_ports_512_value :: "64 word list accessor" where
  "of_oxm_bsn_in_ports_512_value = bitmap_512_accessor [OF_OXM_BSN_IN_PORTS_512] [(3, 4), (4, 4), (5, 4)]"

definition of_oxm_bsn_in_ports_512_masked_class :: wire_class where
  "of_oxm_bsn_in_ports_512_masked_class = \<lparr>class_id = OF_OXM_BSN_IN_PORTS_512_MASKED, whole_buffer = False, wire_types = Some [(3, [Put32 0 0x32780]),
     (4, [Put32 0 0x32780]),
     (5, [Put32 0 0x32780])],
     finishes = []\<rparr>"

definition of_oxm_bsn_in_ports_512_masked_value :: "64 word list accessor" where
  "of_oxm_bsn_in_ports_512_masked_value = bitmap_512_accessor [OF_OXM_BSN_IN_PORTS_512_MASKED] [(3, 4), (4, 4), (5, 4)]"

definition of_oxm_bsn_in_ports_512_masked_value_mask :: "64 word list accessor" where
  "of_oxm_bsn_in_ports_512_masked_value_mask = bitmap_512_accessor [OF_OXM_BSN_IN_PORTS_512_MASKED] [(3, 68), (4, 68), (5, 68)]"

definition of_oxm_bsn_ingress_port_group_id_class :: wire_class where
  "of_oxm_bsn_ingress_port_group_id_class = \<lparr>class_id = OF_OXM_BSN_INGRESS_PORT_GROUP_ID, whole_buffer = False, wire_types = Some [(3, [Put32 0 0x32804]),
     (4, [Put32 0 0x32804]),
     (5, [Put32 0 0x32804])],
     finishes = []\<rparr>"

definition of_oxm_bsn_ingress_port_group_id_value :: "32 word accessor" where
  "of_oxm_bsn_ingress_port_group_id_value = u32_accessor [OF_OXM_BSN_INGRESS_PORT_GROUP_ID] [(3, 4), (4, 4), (5, 4)]"

definition of_oxm_bsn_ingress_port_group_id_masked_class :: wire_class where
  "of_oxm_bsn_ingress_port_group_id_masked_class = \<lparr>class_id = OF_OXM_BSN_INGRESS_PORT_GROUP_ID_MASKED, whole_buffer = False, wire_types = Some [(3, [Put32 0 0x32908]),
     (4, [Put32 0 0x32908]),
     (5, [Put32 0 0x32908])],
     finishes = []\<rparr>"

definition of_oxm_bsn_ingress_port_group_id_masked_value :: "32 word accessor" where
  "of_oxm_bsn_ingress_port_group_id_masked_value = u32_accessor [OF_OXM_BSN_INGRESS_PORT_GROUP_ID_MASKED] [(3, 4), (4, 4), (5, 4)]"

definition of_oxm_bsn_ingress_port_group_id_masked_value_mask :: "32 word accessor" where
  "of_oxm_bsn_ingress_port_group_id_masked_value_mask = u32_accessor [OF_OXM_BSN_INGRESS_PORT_GROUP_ID_MASKED] [(3, 8), (4, 8), (5, 8)]"

definition of_oxm_bsn_l2_cache_hit_class :: wire_class where
  "of_oxm_bsn_l2_cache_hit_class = \<lparr>class_id = OF_OXM_BSN_L2_CACHE_HIT, whole_buffer = False, wire_types = Some [(3, [Put32 0 0x32401]),
     (4, [Put32 0 0x32401])],
     finishes = []\<rparr>"

definition of_oxm_bsn_l2_cache_hit_value :: "byte accessor" where
  "of_oxm_bsn_l2_cache_hit_value = u8_accessor [OF_OXM_BSN_L2_CACHE_HIT] [(3, 4), (4, 4)]"

definition of_oxm_bsn_l2_cache_hit_masked_class :: wire_class where
  "of_oxm_bsn_l2_cache_hit_masked_class = \<lparr>class_id = OF_OXM_BSN_L2_CACHE_HIT_MASKED, whole_buffer = False, wire_types = Some [(3, [Put32 0 0x32502]),
     (4, [Put32 0 0x32502])],
     finishes = []\<rparr>"

definition of_oxm_bsn_l2_cache_hit_masked_value :: "byte accessor" where
  "of_oxm_bsn_l2_cache_hit_masked_value = u8_accessor [OF_OXM_BSN_L2_CACHE_HIT_MASKED] [(3, 4), (4, 4)]"

definition of_oxm_bsn_l2_cache_hit_masked_value_mask :: "byte accessor" where
  "of_oxm_bsn_l2_cache_hit_masked_value_mask = u8_accessor [OF_OXM_BSN_L2_CACHE_HIT_MASKED] [(3, 5), (4, 5)]"

definition of_oxm_bsn_l3_dst_class_id_class :: wire_class where
  "of_oxm_bsn_l3_dst_class_id_class = \<lparr>class_id = OF_OXM_BSN_L3_DST_CLASS_ID, whole_buffer = False, wire_types = Some [(3, [Put32 0 0x30c04]),
     (4, [Put32 0 0x30c04])],
     finishes = []\<rparr>"

definition of_oxm_bsn_l3_dst_class_id_value :: "32 word accessor" where
  "of_oxm_bsn_l3_dst_class_id_value = u32_accessor [OF_OXM_BSN_L3_DST_CLASS_ID] [(3, 4), (4, 4)]"

definition of_oxm_bsn_l3_dst_class_id_masked_class :: wire_class where
  "of_oxm_bsn_l3_dst_class_id_masked_class = \<lparr>class_id = OF_OXM_BSN_L3_DST_CLASS_ID_MASKED, whole_buffer = False, wire_types = Some [(3, [Put32 0 0x30d08]),
     (4, [Put32 0 0x30d08])],
     finishes = []\<rparr>"

definition of_oxm_bsn_l3_dst_class_id_masked_value :: "32 word accessor" where
  "of_oxm_bsn_l3_dst_class_id_masked_value = u32_accessor [OF_OXM_BSN_L3_DST_CLASS_ID_MASKED] [(3, 4), (4, 4)]"

definition of_oxm_bsn_l3_dst_class_id_masked_value_mask :: "32 word accessor" where
  "of_oxm_bsn_l3_dst_class_id_masked_value_mask = u32_accessor [OF_OXM_BSN_L3_DST_CLASS_ID_MASKED] [(3, 8), (4, 8)]"

text \<open>The classes, each with consistent wire types in every version that has it.\<close>

definition classes_05 :: "wire_class list" where
  "classes_05 = [of_switch_config_failed_error_msg_class, of_table_mod_failed_error_msg_class, of_oxm_class,
     of_action_set_field_class, of_experimenter_error_msg_class, of_group_features_stats_reply_class,
     of_group_features_stats_request_class, of_match_v3_class, of_oxm_arp_op_class,
     of_oxm_arp_op_masked_class, of_oxm_arp_sha_class, of_oxm_arp_sha_masked_class, of_oxm_arp_spa_class,
     of_oxm_arp_spa_masked_class, of_oxm_arp_tha_class, of_oxm_arp_tha_masked_class, of_oxm_arp_tpa_class,
     of_oxm_arp_tpa_masked_class, of_oxm_bsn_egr_port_group_id_class,
     of_oxm_bsn_egr_port_group_id_masked_class, of_oxm_bsn_global_vrf_allowed_class,
     of_oxm_bsn_global_vrf_allowed_masked_class, of_oxm_bsn_in_ports_128_class,
     of_oxm_bsn_in_ports_128_masked_class, of_oxm_bsn_in_ports_512_class,
     of_oxm_bsn_in_ports_512_masked_class, of_oxm_bsn_ingress_port_group_id_class,
     of_oxm_bsn_ingress_port_group_id_masked_class, of_oxm_bsn_l2_cache_hit_class,
     of_oxm_bsn_l2_cache_hit_masked_class, of_oxm_bsn_l3_dst_class_id_class,
     of_oxm_bsn_l3_dst_class_id_masked_class]"

lemmas class_defs_05 =
  of_switch_config_failed_error_msg_class_def of_table_mod_failed_error_msg_class_def
  of_oxm_class_def of_action_set_field_class_def of_experimenter_error_msg_class_def
  of_group_features_stats_reply_class_def of_group_features_stats_request_class_def
  of_match_v3_class_def of_oxm_arp_op_class_def of_oxm_arp_op_masked_class_def
  of_oxm_arp_sha_class_def of_oxm_arp_sha_masked_class_def of_oxm_arp_spa_class_def
  of_oxm_arp_spa_masked_class_def of_oxm_arp_tha_class_def of_oxm_arp_tha_masked_class_def
  of_oxm_arp_tpa_class_def of_oxm_arp_tpa_masked_class_def of_oxm_bsn_egr_port_group_id_class_def
  of_oxm_bsn_egr_port_group_id_masked_class_def of_oxm_bsn_global_vrf_allowed_class_def
  of_oxm_bsn_global_vrf_allowed_masked_class_def of_oxm_bsn_in_ports_128_class_def
  of_oxm_bsn_in_ports_128_masked_class_def of_oxm_bsn_in_ports_512_class_def
  of_oxm_bsn_in_ports_512_masked_class_def of_oxm_bsn_ingress_port_group_id_class_def
  of_oxm_bsn_ingress_port_group_id_masked_class_def of_oxm_bsn_l2_cache_hit_class_def
  of_oxm_bsn_l2_cache_hit_masked_class_def of_oxm_bsn_l3_dst_class_id_class_def
  of_oxm_bsn_l3_dst_class_id_masked_class_def

lemma classes_ok_05: "list_all class_ok classes_05"
  unfolding classes_05_def
  by (simp add: class_defs_05 class_checks)

text \<open>The accessors.\<close>

definition fields_05 :: "field list" where
  "fields_05 = [U32 of_switch_config_failed_error_msg_xid, U16 of_switch_config_failed_error_msg_code,
     U32 of_table_mod_failed_error_msg_xid, U16 of_table_mod_failed_error_msg_code,
     U32 of_experimenter_error_msg_xid, U16 of_experimenter_error_msg_subtype,
     U32 of_experimenter_error_msg_experimenter, U32 of_group_features_stats_reply_xid,
     U16 of_group_features_stats_reply_flags, U32 of_group_features_stats_reply_types,
     U32 of_group_features_stats_reply_capabilities, U32 of_group_features_stats_reply_max_groups_all,
     U32 of_group_features_stats_reply_max_groups_select,
     U32 of_group_features_stats_reply_max_groups_indirect,
     U32 of_group_features_stats_reply_max_groups_ff, U32 of_group_features_stats_reply_actions_all,
     U32 of_group_features_stats_reply_actions_select, U32 of_group_features_stats_reply_actions_indirect,
     U32 of_group_features_stats_reply_actions_ff, U32 of_group_features_stats_request_xid,
     U16 of_group_features_stats_request_flags, U16 of_oxm_arp_op_value, U16 of_oxm_arp_op_masked_value,
     U16 of_oxm_arp_op_masked_value_mask, Octets 6 of_oxm_arp_sha_value,
     Octets 6 of_oxm_arp_sha_masked_value, Octets 6 of_oxm_arp_sha_masked_value_mask,
     U32 of_oxm_arp_spa_value, U32 of_oxm_arp_spa_masked_value, U32 of_oxm_arp_spa_masked_value_mask,
     Octets 6 of_oxm_arp_tha_value, Octets 6 of_oxm_arp_tha_masked_value,
     Octets 6 of_oxm_arp_tha_masked_value_mask, U32 of_oxm_arp_tpa_value, U32 of_oxm_arp_tpa_masked_value,
     U32 of_oxm_arp_tpa_masked_value_mask, U32 of_oxm_bsn_egr_port_group_id_value,
     U32 of_oxm_bsn_egr_port_group_id_masked_value, U32 of_oxm_bsn_egr_port_group_id_masked_value_mask,
     U8 of_oxm_bsn_global_vrf_allowed_value, U8 of_oxm_bsn_global_vrf_allowed_masked_value,
     U8 of_oxm_bsn_global_vrf_allowed_masked_value_mask, U128 of_oxm_bsn_in_ports_128_value,
     U128 of_oxm_bsn_in_ports_128_masked_value, U128 of_oxm_bsn_in_ports_128_masked_value_mask,
     Bitmap512 of_oxm_bsn_in_ports_512_value, Bitmap512 of_oxm_bsn_in_ports_512_masked_value,
     Bitmap512 of_oxm_bsn_in_ports_512_masked_value_mask, U32 of_oxm_bsn_ingress_port_group_id_value,
     U32 of_oxm_bsn_ingress_port_group_id_masked_value,
     U32 of_oxm_bsn_ingress_port_group_id_masked_value_mask, U8 of_oxm_bsn_l2_cache_hit_value,
     U8 of_oxm_bsn_l2_cache_hit_masked_value, U8 of_oxm_bsn_l2_cache_hit_masked_value_mask,
     U32 of_oxm_bsn_l3_dst_class_id_value, U32 of_oxm_bsn_l3_dst_class_id_masked_value,
     U32 of_oxm_bsn_l3_dst_class_id_masked_value_mask]"

lemmas accessor_defs_05 =
  of_switch_config_failed_error_msg_xid_def of_switch_config_failed_error_msg_code_def
  of_table_mod_failed_error_msg_xid_def of_table_mod_failed_error_msg_code_def
  of_experimenter_error_msg_xid_def of_experimenter_error_msg_subtype_def
  of_experimenter_error_msg_experimenter_def of_group_features_stats_reply_xid_def
  of_group_features_stats_reply_flags_def of_group_features_stats_reply_types_def
  of_group_features_stats_reply_capabilities_def of_group_features_stats_reply_max_groups_all_def
  of_group_features_stats_reply_max_groups_select_def
  of_group_features_stats_reply_max_groups_indirect_def
  of_group_features_stats_reply_max_groups_ff_def of_group_features_stats_reply_actions_all_def
  of_group_features_stats_reply_actions_select_def of_group_features_stats_reply_actions_indirect_def
  of_group_features_stats_reply_actions_ff_def of_group_features_stats_request_xid_def
  of_group_features_stats_request_flags_def of_oxm_arp_op_value_def of_oxm_arp_op_masked_value_def
  of_oxm_arp_op_masked_value_mask_def of_oxm_arp_sha_value_def of_oxm_arp_sha_masked_value_def
  of_oxm_arp_sha_masked_value_mask_def of_oxm_arp_spa_value_def of_oxm_arp_spa_masked_value_def
  of_oxm_arp_spa_masked_value_mask_def of_oxm_arp_tha_value_def of_oxm_arp_tha_masked_value_def
  of_oxm_arp_tha_masked_value_mask_def of_oxm_arp_tpa_value_def of_oxm_arp_tpa_masked_value_def
  of_oxm_arp_tpa_masked_value_mask_def of_oxm_bsn_egr_port_group_id_value_def
  of_oxm_bsn_egr_port_group_id_masked_value_def of_oxm_bsn_egr_port_group_id_masked_value_mask_def
  of_oxm_bsn_global_vrf_allowed_value_def of_oxm_bsn_global_vrf_allowed_masked_value_def
  of_oxm_bsn_global_vrf_allowed_masked_value_mask_def of_oxm_bsn_in_ports_128_value_def
  of_oxm_bsn_in_ports_128_masked_value_def of_oxm_bsn_in_ports_128_masked_value_mask_def
  of_oxm_bsn_in_ports_512_value_def of_oxm_bsn_in_ports_512_masked_value_def
  of_oxm_bsn_in_ports_512_masked_value_mask_def of_oxm_bsn_ingress_port_group_id_value_def
  of_oxm_bsn_ingress_port_group_id_masked_value_def
  of_oxm_bsn_ingress_port_group_id_masked_value_mask_def of_oxm_bsn_l2_cache_hit_value_def
  of_oxm_bsn_l2_cache_hit_masked_value_def of_oxm_bsn_l2_cache_hit_masked_value_mask_def
  of_oxm_bsn_l3_dst_class_id_value_def of_oxm_bsn_l3_dst_class_id_masked_value_def
  of_oxm_bsn_l3_dst_class_id_masked_value_mask_def

lemma fields_ok_05: "list_all field_ok fields_05"
  unfolding fields_05_def accessor_defs_05
  by (simp add: accessors_ok octets_accessors_ok inside_rows del: field_ok.simps)

end
