(* ===== verification/Class06.thy ===== *)
theory Class06
  imports Construct
begin

text \<open>
  The classes of \<^verbatim>\<open>src/class06.c\<close>: for each what its constructor, initialiser and
  \<open>push_wire_types\<close> write, and the scalar accessors, a getter and a setter for each field at a fixed offset.
\<close>

definition of_oxm_bsn_l3_interface_class_id_class :: wire_class where
  "of_oxm_bsn_l3_interface_class_id_class = \<lparr>class_id = OF_OXM_BSN_L3_INTERFACE_CLASS_ID, whole_buffer = False, wire_types = Some [(3, [Put32 0 0x30804]),
     (4, [Put32 0 0x30804]),
     (5, [Put32 0 0x30804])],
     finishes = []\<rparr>"

definition of_oxm_bsn_l3_interface_class_id_value :: "32 word accessor" where
  "of_oxm_bsn_l3_interface_class_id_value = u32_accessor [OF_OXM_BSN_L3_INTERFACE_CLASS_ID] [(3, 4), (4, 4), (5, 4)]"

definition of_oxm_bsn_l3_interface_class_id_masked_class :: wire_class where
  "of_oxm_bsn_l3_interface_class_id_masked_class = \<lparr>class_id = OF_OXM_BSN_L3_INTERFACE_CLASS_ID_MASKED, whole_buffer = False, wire_types = Some [(3, [Put32 0 0x30908]),
     (4, [Put32 0 0x30908]),
     (5, [Put32 0 0x30908])],
     finishes = []\<rparr>"

definition of_oxm_bsn_l3_interface_class_id_masked_value :: "32 word accessor" where
  "of_oxm_bsn_l3_interface_class_id_masked_value = u32_accessor [OF_OXM_BSN_L3_INTERFACE_CLASS_ID_MASKED] [(3, 4), (4, 4), (5, 4)]"

definition of_oxm_bsn_l3_interface_class_id_masked_value_mask :: "32 word accessor" where
  "of_oxm_bsn_l3_interface_class_id_masked_value_mask = u32_accessor [OF_OXM_BSN_L3_INTERFACE_CLASS_ID_MASKED] [(3, 8), (4, 8), (5, 8)]"

definition of_oxm_bsn_l3_src_class_id_class :: wire_class where
  "of_oxm_bsn_l3_src_class_id_class = \<lparr>class_id = OF_OXM_BSN_L3_SRC_CLASS_ID, whole_buffer = False, wire_types = Some [(3, [Put32 0 0x30a04]),
     (4, [Put32 0 0x30a04]),
     (5, [Put32 0 0x30a04])],
     finishes = []\<rparr>"

definition of_oxm_bsn_l3_src_class_id_value :: "32 word accessor" where
  "of_oxm_bsn_l3_src_class_id_value = u32_accessor [OF_OXM_BSN_L3_SRC_CLASS_ID] [(3, 4), (4, 4), (5, 4)]"

definition of_oxm_bsn_l3_src_class_id_masked_class :: wire_class where
  "of_oxm_bsn_l3_src_class_id_masked_class = \<lparr>class_id = OF_OXM_BSN_L3_SRC_CLASS_ID_MASKED, whole_buffer = False, wire_types = Some [(3, [Put32 0 0x30b08]),
     (4, [Put32 0 0x30b08]),
     (5, [Put32 0 0x30b08])],
     finishes = []\<rparr>"

definition of_oxm_bsn_l3_src_class_id_masked_value :: "32 word accessor" where
  "of_oxm_bsn_l3_src_class_id_masked_value = u32_accessor [OF_OXM_BSN_L3_SRC_CLASS_ID_MASKED] [(3, 4), (4, 4), (5, 4)]"

definition of_oxm_bsn_l3_src_class_id_masked_value_mask :: "32 word accessor" where
  "of_oxm_bsn_l3_src_class_id_masked_value_mask = u32_accessor [OF_OXM_BSN_L3_SRC_CLASS_ID_MASKED] [(3, 8), (4, 8), (5, 8)]"

definition of_oxm_bsn_lag_id_class :: wire_class where
  "of_oxm_bsn_lag_id_class = \<lparr>class_id = OF_OXM_BSN_LAG_ID, whole_buffer = False, wire_types = Some [(3, [Put32 0 0x30204]),
     (4, [Put32 0 0x30204]),
     (5, [Put32 0 0x30204])],
     finishes = []\<rparr>"

definition of_oxm_bsn_lag_id_value :: "32 word accessor" where
  "of_oxm_bsn_lag_id_value = u32_accessor [OF_OXM_BSN_LAG_ID] [(3, 4), (4, 4), (5, 4)]"

definition of_oxm_bsn_lag_id_masked_class :: wire_class where
  "of_oxm_bsn_lag_id_masked_class = \<lparr>class_id = OF_OXM_BSN_LAG_ID_MASKED, whole_buffer = False, wire_types = Some [(3, [Put32 0 0x30308]),
     (4, [Put32 0 0x30308]),
     (5, [Put32 0 0x30308])],
     finishes = []\<rparr>"

definition of_oxm_bsn_lag_id_masked_value :: "32 word accessor" where
  "of_oxm_bsn_lag_id_masked_value = u32_accessor [OF_OXM_BSN_LAG_ID_MASKED] [(3, 4), (4, 4), (5, 4)]"

definition of_oxm_bsn_lag_id_masked_value_mask :: "32 word accessor" where
  "of_oxm_bsn_lag_id_masked_value_mask = u32_accessor [OF_OXM_BSN_LAG_ID_MASKED] [(3, 8), (4, 8), (5, 8)]"

definition of_oxm_bsn_tcp_flags_class :: wire_class where
  "of_oxm_bsn_tcp_flags_class = \<lparr>class_id = OF_OXM_BSN_TCP_FLAGS, whole_buffer = False, wire_types = Some [(3, [Put32 0 0x32002]),
     (4, [Put32 0 0x32002]),
     (5, [Put32 0 0x32002])],
     finishes = []\<rparr>"

definition of_oxm_bsn_tcp_flags_value :: "16 word accessor" where
  "of_oxm_bsn_tcp_flags_value = u16_accessor [OF_OXM_BSN_TCP_FLAGS] [(3, 4), (4, 4), (5, 4)]"

definition of_oxm_bsn_tcp_flags_masked_class :: wire_class where
  "of_oxm_bsn_tcp_flags_masked_class = \<lparr>class_id = OF_OXM_BSN_TCP_FLAGS_MASKED, whole_buffer = False, wire_types = Some [(3, [Put32 0 0x32104]),
     (4, [Put32 0 0x32104]),
     (5, [Put32 0 0x32104])],
     finishes = []\<rparr>"

definition of_oxm_bsn_tcp_flags_masked_value :: "16 word accessor" where
  "of_oxm_bsn_tcp_flags_masked_value = u16_accessor [OF_OXM_BSN_TCP_FLAGS_MASKED] [(3, 4), (4, 4), (5, 4)]"

definition of_oxm_bsn_tcp_flags_masked_value_mask :: "16 word accessor" where
  "of_oxm_bsn_tcp_flags_masked_value_mask = u16_accessor [OF_OXM_BSN_TCP_FLAGS_MASKED] [(3, 6), (4, 6), (5, 6)]"

definition of_oxm_bsn_udf0_class :: wire_class where
  "of_oxm_bsn_udf0_class = \<lparr>class_id = OF_OXM_BSN_UDF0, whole_buffer = False, wire_types = Some [(3, [Put32 0 0x31004]),
     (4, [Put32 0 0x31004]),
     (5, [Put32 0 0x31004])],
     finishes = []\<rparr>"

definition of_oxm_bsn_udf0_value :: "32 word accessor" where
  "of_oxm_bsn_udf0_value = u32_accessor [OF_OXM_BSN_UDF0] [(3, 4), (4, 4), (5, 4)]"

definition of_oxm_bsn_udf0_masked_class :: wire_class where
  "of_oxm_bsn_udf0_masked_class = \<lparr>class_id = OF_OXM_BSN_UDF0_MASKED, whole_buffer = False, wire_types = Some [(3, [Put32 0 0x31108]),
     (4, [Put32 0 0x31108]),
     (5, [Put32 0 0x31108])],
     finishes = []\<rparr>"

definition of_oxm_bsn_udf0_masked_value :: "32 word accessor" where
  "of_oxm_bsn_udf0_masked_value = u32_accessor [OF_OXM_BSN_UDF0_MASKED] [(3, 4), (4, 4), (5, 4)]"

definition of_oxm_bsn_udf0_masked_value_mask :: "32 word accessor" where
  "of_oxm_bsn_udf0_masked_value_mask = u32_accessor [OF_OXM_BSN_UDF0_MASKED] [(3, 8), (4, 8), (5, 8)]"

definition of_oxm_bsn_udf1_class :: wire_class where
  "of_oxm_bsn_udf1_class = \<lparr>class_id = OF_OXM_BSN_UDF1, whole_buffer = False, wire_types = Some [(3, [Put32 0 0x31204]),
     (4, [Put32 0 0x31204]),
     (5, [Put32 0 0x31204])],
     finishes = []\<rparr>"

definition of_oxm_bsn_udf1_value :: "32 word accessor" where
  "of_oxm_bsn_udf1_value = u32_accessor [OF_OXM_BSN_UDF1] [(3, 4), (4, 4), (5, 4)]"

definition of_oxm_bsn_udf1_masked_class :: wire_class where
  "of_oxm_bsn_udf1_masked_class = \<lparr>class_id = OF_OXM_BSN_UDF1_MASKED, whole_buffer = False, wire_types = Some [(3, [Put32 0 0x31308]),
     (4, [Put32 0 0x31308]),
     (5, [Put32 0 0x31308])],
     finishes = []\<rparr>"

definition of_oxm_bsn_udf1_masked_value :: "32 word accessor" where
  "of_oxm_bsn_udf1_masked_value = u32_accessor [OF_OXM_BSN_UDF1_MASKED] [(3, 4), (4, 4), (5, 4)]"

definition of_oxm_bsn_udf1_masked_value_mask :: "32 word accessor" where
  "of_oxm_bsn_udf1_masked_value_mask = u32_accessor [OF_OXM_BSN_UDF1_MASKED] [(3, 8), (4, 8), (5, 8)]"

definition of_oxm_bsn_udf2_class :: wire_class where
  "of_oxm_bsn_udf2_class = \<lparr>class_id = OF_OXM_BSN_UDF2, whole_buffer = False, wire_types = Some [(3, [Put32 0 0x31404]),
     (4, [Put32 0 0x31404]),
     (5, [Put32 0 0x31404])],
     finishes = []\<rparr>"

definition of_oxm_bsn_udf2_value :: "32 word accessor" where
  "of_oxm_bsn_udf2_value = u32_accessor [OF_OXM_BSN_UDF2] [(3, 4), (4, 4), (5, 4)]"

definition of_oxm_bsn_udf2_masked_class :: wire_class where
  "of_oxm_bsn_udf2_masked_class = \<lparr>class_id = OF_OXM_BSN_UDF2_MASKED, whole_buffer = False, wire_types = Some [(3, [Put32 0 0x31508]),
     (4, [Put32 0 0x31508]),
     (5, [Put32 0 0x31508])],
     finishes = []\<rparr>"

definition of_oxm_bsn_udf2_masked_value :: "32 word accessor" where
  "of_oxm_bsn_udf2_masked_value = u32_accessor [OF_OXM_BSN_UDF2_MASKED] [(3, 4), (4, 4), (5, 4)]"

definition of_oxm_bsn_udf2_masked_value_mask :: "32 word accessor" where
  "of_oxm_bsn_udf2_masked_value_mask = u32_accessor [OF_OXM_BSN_UDF2_MASKED] [(3, 8), (4, 8), (5, 8)]"

definition of_oxm_bsn_udf3_class :: wire_class where
  "of_oxm_bsn_udf3_class = \<lparr>class_id = OF_OXM_BSN_UDF3, whole_buffer = False, wire_types = Some [(3, [Put32 0 0x31604]),
     (4, [Put32 0 0x31604]),
     (5, [Put32 0 0x31604])],
     finishes = []\<rparr>"

definition of_oxm_bsn_udf3_value :: "32 word accessor" where
  "of_oxm_bsn_udf3_value = u32_accessor [OF_OXM_BSN_UDF3] [(3, 4), (4, 4), (5, 4)]"

definition of_oxm_bsn_udf3_masked_class :: wire_class where
  "of_oxm_bsn_udf3_masked_class = \<lparr>class_id = OF_OXM_BSN_UDF3_MASKED, whole_buffer = False, wire_types = Some [(3, [Put32 0 0x31708]),
     (4, [Put32 0 0x31708]),
     (5, [Put32 0 0x31708])],
     finishes = []\<rparr>"

definition of_oxm_bsn_udf3_masked_value :: "32 word accessor" where
  "of_oxm_bsn_udf3_masked_value = u32_accessor [OF_OXM_BSN_UDF3_MASKED] [(3, 4), (4, 4), (5, 4)]"

definition of_oxm_bsn_udf3_masked_value_mask :: "32 word accessor" where
  "of_oxm_bsn_udf3_masked_value_mask = u32_accessor [OF_OXM_BSN_UDF3_MASKED] [(3, 8), (4, 8), (5, 8)]"

definition of_oxm_bsn_udf4_class :: wire_class where
  "of_oxm_bsn_udf4_class = \<lparr>class_id = OF_OXM_BSN_UDF4, whole_buffer = False, wire_types = Some [(3, [Put32 0 0x31804]),
     (4, [Put32 0 0x31804]),
     (5, [Put32 0 0x31804])],
     finishes = []\<rparr>"

definition of_oxm_bsn_udf4_value :: "32 word accessor" where
  "of_oxm_bsn_udf4_value = u32_accessor [OF_OXM_BSN_UDF4] [(3, 4), (4, 4), (5, 4)]"

definition of_oxm_bsn_udf4_masked_class :: wire_class where
  "of_oxm_bsn_udf4_masked_class = \<lparr>class_id = OF_OXM_BSN_UDF4_MASKED, whole_buffer = False, wire_types = Some [(3, [Put32 0 0x31908]),
     (4, [Put32 0 0x31908]),
     (5, [Put32 0 0x31908])],
     finishes = []\<rparr>"

definition of_oxm_bsn_udf4_masked_value :: "32 word accessor" where
  "of_oxm_bsn_udf4_masked_value = u32_accessor [OF_OXM_BSN_UDF4_MASKED] [(3, 4), (4, 4), (5, 4)]"

definition of_oxm_bsn_udf4_masked_value_mask :: "32 word accessor" where
  "of_oxm_bsn_udf4_masked_value_mask = u32_accessor [OF_OXM_BSN_UDF4_MASKED] [(3, 8), (4, 8), (5, 8)]"

definition of_oxm_bsn_udf5_class :: wire_class where
  "of_oxm_bsn_udf5_class = \<lparr>class_id = OF_OXM_BSN_UDF5, whole_buffer = False, wire_types = Some [(3, [Put32 0 0x31a04]),
     (4, [Put32 0 0x31a04]),
     (5, [Put32 0 0x31a04])],
     finishes = []\<rparr>"

definition of_oxm_bsn_udf5_value :: "32 word accessor" where
  "of_oxm_bsn_udf5_value = u32_accessor [OF_OXM_BSN_UDF5] [(3, 4), (4, 4), (5, 4)]"

definition of_oxm_bsn_udf5_masked_class :: wire_class where
  "of_oxm_bsn_udf5_masked_class = \<lparr>class_id = OF_OXM_BSN_UDF5_MASKED, whole_buffer = False, wire_types = Some [(3, [Put32 0 0x31b08]),
     (4, [Put32 0 0x31b08]),
     (5, [Put32 0 0x31b08])],
     finishes = []\<rparr>"

definition of_oxm_bsn_udf5_masked_value :: "32 word accessor" where
  "of_oxm_bsn_udf5_masked_value = u32_accessor [OF_OXM_BSN_UDF5_MASKED] [(3, 4), (4, 4), (5, 4)]"

definition of_oxm_bsn_udf5_masked_value_mask :: "32 word accessor" where
  "of_oxm_bsn_udf5_masked_value_mask = u32_accessor [OF_OXM_BSN_UDF5_MASKED] [(3, 8), (4, 8), (5, 8)]"

definition of_oxm_bsn_udf6_class :: wire_class where
  "of_oxm_bsn_udf6_class = \<lparr>class_id = OF_OXM_BSN_UDF6, whole_buffer = False, wire_types = Some [(3, [Put32 0 0x31c04]),
     (4, [Put32 0 0x31c04]),
     (5, [Put32 0 0x31c04])],
     finishes = []\<rparr>"

definition of_oxm_bsn_udf6_value :: "32 word accessor" where
  "of_oxm_bsn_udf6_value = u32_accessor [OF_OXM_BSN_UDF6] [(3, 4), (4, 4), (5, 4)]"

definition of_oxm_bsn_udf6_masked_class :: wire_class where
  "of_oxm_bsn_udf6_masked_class = \<lparr>class_id = OF_OXM_BSN_UDF6_MASKED, whole_buffer = False, wire_types = Some [(3, [Put32 0 0x31d08]),
     (4, [Put32 0 0x31d08]),
     (5, [Put32 0 0x31d08])],
     finishes = []\<rparr>"

definition of_oxm_bsn_udf6_masked_value :: "32 word accessor" where
  "of_oxm_bsn_udf6_masked_value = u32_accessor [OF_OXM_BSN_UDF6_MASKED] [(3, 4), (4, 4), (5, 4)]"

definition of_oxm_bsn_udf6_masked_value_mask :: "32 word accessor" where
  "of_oxm_bsn_udf6_masked_value_mask = u32_accessor [OF_OXM_BSN_UDF6_MASKED] [(3, 8), (4, 8), (5, 8)]"

definition of_oxm_bsn_udf7_class :: wire_class where
  "of_oxm_bsn_udf7_class = \<lparr>class_id = OF_OXM_BSN_UDF7, whole_buffer = False, wire_types = Some [(3, [Put32 0 0x31e04]),
     (4, [Put32 0 0x31e04]),
     (5, [Put32 0 0x31e04])],
     finishes = []\<rparr>"

definition of_oxm_bsn_udf7_value :: "32 word accessor" where
  "of_oxm_bsn_udf7_value = u32_accessor [OF_OXM_BSN_UDF7] [(3, 4), (4, 4), (5, 4)]"

definition of_oxm_bsn_udf7_masked_class :: wire_class where
  "of_oxm_bsn_udf7_masked_class = \<lparr>class_id = OF_OXM_BSN_UDF7_MASKED, whole_buffer = False, wire_types = Some [(3, [Put32 0 0x31f08]),
     (4, [Put32 0 0x31f08]),
     (5, [Put32 0 0x31f08])],
     finishes = []\<rparr>"

definition of_oxm_bsn_udf7_masked_value :: "32 word accessor" where
  "of_oxm_bsn_udf7_masked_value = u32_accessor [OF_OXM_BSN_UDF7_MASKED] [(3, 4), (4, 4), (5, 4)]"

definition of_oxm_bsn_udf7_masked_value_mask :: "32 word accessor" where
  "of_oxm_bsn_udf7_masked_value_mask = u32_accessor [OF_OXM_BSN_UDF7_MASKED] [(3, 8), (4, 8), (5, 8)]"

definition of_oxm_bsn_vlan_xlate_port_group_id_class :: wire_class where
  "of_oxm_bsn_vlan_xlate_port_group_id_class = \<lparr>class_id = OF_OXM_BSN_VLAN_XLATE_PORT_GROUP_ID, whole_buffer = False, wire_types = Some [(3, [Put32 0 0x32204]),
     (4, [Put32 0 0x32204]),
     (5, [Put32 0 0x32204])],
     finishes = []\<rparr>"

definition of_oxm_bsn_vlan_xlate_port_group_id_value :: "32 word accessor" where
  "of_oxm_bsn_vlan_xlate_port_group_id_value = u32_accessor [OF_OXM_BSN_VLAN_XLATE_PORT_GROUP_ID] [(3, 4), (4, 4), (5, 4)]"

definition of_oxm_bsn_vlan_xlate_port_group_id_masked_class :: wire_class where
  "of_oxm_bsn_vlan_xlate_port_group_id_masked_class = \<lparr>class_id = OF_OXM_BSN_VLAN_XLATE_PORT_GROUP_ID_MASKED, whole_buffer = False, wire_types = Some [(3, [Put32 0 0x32308]),
     (4, [Put32 0 0x32308]),
     (5, [Put32 0 0x32308])],
     finishes = []\<rparr>"

definition of_oxm_bsn_vlan_xlate_port_group_id_masked_value :: "32 word accessor" where
  "of_oxm_bsn_vlan_xlate_port_group_id_masked_value = u32_accessor [OF_OXM_BSN_VLAN_XLATE_PORT_GROUP_ID_MASKED] [(3, 4), (4, 4), (5, 4)]"

definition of_oxm_bsn_vlan_xlate_port_group_id_masked_value_mask :: "32 word accessor" where
  "of_oxm_bsn_vlan_xlate_port_group_id_masked_value_mask = u32_accessor [OF_OXM_BSN_VLAN_XLATE_PORT_GROUP_ID_MASKED] [(3, 8), (4, 8), (5, 8)]"

definition of_oxm_bsn_vrf_class :: wire_class where
  "of_oxm_bsn_vrf_class = \<lparr>class_id = OF_OXM_BSN_VRF, whole_buffer = False, wire_types = Some [(3, [Put32 0 0x30404]),
     (4, [Put32 0 0x30404]),
     (5, [Put32 0 0x30404])],
     finishes = []\<rparr>"

definition of_oxm_bsn_vrf_value :: "32 word accessor" where
  "of_oxm_bsn_vrf_value = u32_accessor [OF_OXM_BSN_VRF] [(3, 4), (4, 4), (5, 4)]"

definition of_oxm_bsn_vrf_masked_class :: wire_class where
  "of_oxm_bsn_vrf_masked_class = \<lparr>class_id = OF_OXM_BSN_VRF_MASKED, whole_buffer = False, wire_types = Some [(3, [Put32 0 0x30508]),
     (4, [Put32 0 0x30508]),
     (5, [Put32 0 0x30508])],
     finishes = []\<rparr>"

definition of_oxm_bsn_vrf_masked_value :: "32 word accessor" where
  "of_oxm_bsn_vrf_masked_value = u32_accessor [OF_OXM_BSN_VRF_MASKED] [(3, 4), (4, 4), (5, 4)]"

definition of_oxm_bsn_vrf_masked_value_mask :: "32 word accessor" where
  "of_oxm_bsn_vrf_masked_value_mask = u32_accessor [OF_OXM_BSN_VRF_MASKED] [(3, 8), (4, 8), (5, 8)]"

definition of_oxm_eth_dst_class :: wire_class where
  "of_oxm_eth_dst_class = \<lparr>class_id = OF_OXM_ETH_DST, whole_buffer = False, wire_types = Some [(3, [Put32 0 0x80000606]),
     (4, [Put32 0 0x80000606]),
     (5, [Put32 0 0x80000606])],
     finishes = []\<rparr>"

definition of_oxm_eth_dst_value :: "byte list accessor" where
  "of_oxm_eth_dst_value = mac_accessor [OF_OXM_ETH_DST] [(3, 4), (4, 4), (5, 4)]"

definition of_oxm_eth_dst_masked_class :: wire_class where
  "of_oxm_eth_dst_masked_class = \<lparr>class_id = OF_OXM_ETH_DST_MASKED, whole_buffer = False, wire_types = Some [(3, [Put32 0 0x8000070c]),
     (4, [Put32 0 0x8000070c]),
     (5, [Put32 0 0x8000070c])],
     finishes = []\<rparr>"

definition of_oxm_eth_dst_masked_value :: "byte list accessor" where
  "of_oxm_eth_dst_masked_value = mac_accessor [OF_OXM_ETH_DST_MASKED] [(3, 4), (4, 4), (5, 4)]"

definition of_oxm_eth_dst_masked_value_mask :: "byte list accessor" where
  "of_oxm_eth_dst_masked_value_mask = mac_accessor [OF_OXM_ETH_DST_MASKED] [(3, 10), (4, 10), (5, 10)]"

definition of_oxm_eth_src_class :: wire_class where
  "of_oxm_eth_src_class = \<lparr>class_id = OF_OXM_ETH_SRC, whole_buffer = False, wire_types = Some [(3, [Put32 0 0x80000806]),
     (4, [Put32 0 0x80000806]),
     (5, [Put32 0 0x80000806])],
     finishes = []\<rparr>"

definition of_oxm_eth_src_value :: "byte list accessor" where
  "of_oxm_eth_src_value = mac_accessor [OF_OXM_ETH_SRC] [(3, 4), (4, 4), (5, 4)]"

definition of_oxm_eth_src_masked_class :: wire_class where
  "of_oxm_eth_src_masked_class = \<lparr>class_id = OF_OXM_ETH_SRC_MASKED, whole_buffer = False, wire_types = Some [(3, [Put32 0 0x8000090c]),
     (4, [Put32 0 0x8000090c]),
     (5, [Put32 0 0x8000090c])],
     finishes = []\<rparr>"

definition of_oxm_eth_src_masked_value :: "byte list accessor" where
  "of_oxm_eth_src_masked_value = mac_accessor [OF_OXM_ETH_SRC_MASKED] [(3, 4), (4, 4), (5, 4)]"

definition of_oxm_eth_src_masked_value_mask :: "byte list accessor" where
  "of_oxm_eth_src_masked_value_mask = mac_accessor [OF_OXM_ETH_SRC_MASKED] [(3, 10), (4, 10), (5, 10)]"

text \<open>The classes, each with consistent wire types in every version that has it.\<close>

definition classes_06 :: "wire_class list" where
  "classes_06 = [of_oxm_bsn_l3_interface_class_id_class, of_oxm_bsn_l3_interface_class_id_masked_class,
     of_oxm_bsn_l3_src_class_id_class, of_oxm_bsn_l3_src_class_id_masked_class, of_oxm_bsn_lag_id_class,
     of_oxm_bsn_lag_id_masked_class, of_oxm_bsn_tcp_flags_class, of_oxm_bsn_tcp_flags_masked_class,
     of_oxm_bsn_udf0_class, of_oxm_bsn_udf0_masked_class, of_oxm_bsn_udf1_class,
     of_oxm_bsn_udf1_masked_class, of_oxm_bsn_udf2_class, of_oxm_bsn_udf2_masked_class,
     of_oxm_bsn_udf3_class, of_oxm_bsn_udf3_masked_class, of_oxm_bsn_udf4_class,
     of_oxm_bsn_udf4_masked_class, of_oxm_bsn_udf5_class, of_oxm_bsn_udf5_masked_class,
     of_oxm_bsn_udf6_class, of_oxm_bsn_udf6_masked_class, of_oxm_bsn_udf7_class,
     of_oxm_bsn_udf7_masked_class, of_oxm_bsn_vlan_xlate_port_group_id_class,
     of_oxm_bsn_vlan_xlate_port_group_id_masked_class, of_oxm_bsn_vrf_class, of_oxm_bsn_vrf_masked_class,
     of_oxm_eth_dst_class, of_oxm_eth_dst_masked_class, of_oxm_eth_src_class, of_oxm_eth_src_masked_class]"

lemmas class_defs_06 =
  of_oxm_bsn_l3_interface_class_id_class_def of_oxm_bsn_l3_interface_class_id_masked_class_def
  of_oxm_bsn_l3_src_class_id_class_def of_oxm_bsn_l3_src_class_id_masked_class_def
  of_oxm_bsn_lag_id_class_def of_oxm_bsn_lag_id_masked_class_def of_oxm_bsn_tcp_flags_class_def
  of_oxm_bsn_tcp_flags_masked_class_def of_oxm_bsn_udf0_class_def of_oxm_bsn_udf0_masked_class_def
  of_oxm_bsn_udf1_class_def of_oxm_bsn_udf1_masked_class_def of_oxm_bsn_udf2_class_def
  of_oxm_bsn_udf2_masked_class_def of_oxm_bsn_udf3_class_def of_oxm_bsn_udf3_masked_class_def
  of_oxm_bsn_udf4_class_def of_oxm_bsn_udf4_masked_class_def of_oxm_bsn_udf5_class_def
  of_oxm_bsn_udf5_masked_class_def of_oxm_bsn_udf6_class_def of_oxm_bsn_udf6_masked_class_def
  of_oxm_bsn_udf7_class_def of_oxm_bsn_udf7_masked_class_def
  of_oxm_bsn_vlan_xlate_port_group_id_class_def of_oxm_bsn_vlan_xlate_port_group_id_masked_class_def
  of_oxm_bsn_vrf_class_def of_oxm_bsn_vrf_masked_class_def of_oxm_eth_dst_class_def
  of_oxm_eth_dst_masked_class_def of_oxm_eth_src_class_def of_oxm_eth_src_masked_class_def

lemma classes_ok_06: "list_all class_ok classes_06"
  unfolding classes_06_def
  by (simp add: class_defs_06 class_checks)

text \<open>The accessors.\<close>

definition fields_06 :: "field list" where
  "fields_06 = [U32 of_oxm_bsn_l3_interface_class_id_value, U32 of_oxm_bsn_l3_interface_class_id_masked_value,
     U32 of_oxm_bsn_l3_interface_class_id_masked_value_mask, U32 of_oxm_bsn_l3_src_class_id_value,
     U32 of_oxm_bsn_l3_src_class_id_masked_value, U32 of_oxm_bsn_l3_src_class_id_masked_value_mask,
     U32 of_oxm_bsn_lag_id_value, U32 of_oxm_bsn_lag_id_masked_value,
     U32 of_oxm_bsn_lag_id_masked_value_mask, U16 of_oxm_bsn_tcp_flags_value,
     U16 of_oxm_bsn_tcp_flags_masked_value, U16 of_oxm_bsn_tcp_flags_masked_value_mask,
     U32 of_oxm_bsn_udf0_value, U32 of_oxm_bsn_udf0_masked_value, U32 of_oxm_bsn_udf0_masked_value_mask,
     U32 of_oxm_bsn_udf1_value, U32 of_oxm_bsn_udf1_masked_value, U32 of_oxm_bsn_udf1_masked_value_mask,
     U32 of_oxm_bsn_udf2_value, U32 of_oxm_bsn_udf2_masked_value, U32 of_oxm_bsn_udf2_masked_value_mask,
     U32 of_oxm_bsn_udf3_value, U32 of_oxm_bsn_udf3_masked_value, U32 of_oxm_bsn_udf3_masked_value_mask,
     U32 of_oxm_bsn_udf4_value, U32 of_oxm_bsn_udf4_masked_value, U32 of_oxm_bsn_udf4_masked_value_mask,
     U32 of_oxm_bsn_udf5_value, U32 of_oxm_bsn_udf5_masked_value, U32 of_oxm_bsn_udf5_masked_value_mask,
     U32 of_oxm_bsn_udf6_value, U32 of_oxm_bsn_udf6_masked_value, U32 of_oxm_bsn_udf6_masked_value_mask,
     U32 of_oxm_bsn_udf7_value, U32 of_oxm_bsn_udf7_masked_value, U32 of_oxm_bsn_udf7_masked_value_mask,
     U32 of_oxm_bsn_vlan_xlate_port_group_id_value, U32 of_oxm_bsn_vlan_xlate_port_group_id_masked_value,
     U32 of_oxm_bsn_vlan_xlate_port_group_id_masked_value_mask, U32 of_oxm_bsn_vrf_value,
     U32 of_oxm_bsn_vrf_masked_value, U32 of_oxm_bsn_vrf_masked_value_mask, Octets 6 of_oxm_eth_dst_value,
     Octets 6 of_oxm_eth_dst_masked_value, Octets 6 of_oxm_eth_dst_masked_value_mask,
     Octets 6 of_oxm_eth_src_value, Octets 6 of_oxm_eth_src_masked_value,
     Octets 6 of_oxm_eth_src_masked_value_mask]"

lemmas accessor_defs_06 =
  of_oxm_bsn_l3_interface_class_id_value_def of_oxm_bsn_l3_interface_class_id_masked_value_def
  of_oxm_bsn_l3_interface_class_id_masked_value_mask_def of_oxm_bsn_l3_src_class_id_value_def
  of_oxm_bsn_l3_src_class_id_masked_value_def of_oxm_bsn_l3_src_class_id_masked_value_mask_def
  of_oxm_bsn_lag_id_value_def of_oxm_bsn_lag_id_masked_value_def
  of_oxm_bsn_lag_id_masked_value_mask_def of_oxm_bsn_tcp_flags_value_def
  of_oxm_bsn_tcp_flags_masked_value_def of_oxm_bsn_tcp_flags_masked_value_mask_def
  of_oxm_bsn_udf0_value_def of_oxm_bsn_udf0_masked_value_def of_oxm_bsn_udf0_masked_value_mask_def
  of_oxm_bsn_udf1_value_def of_oxm_bsn_udf1_masked_value_def of_oxm_bsn_udf1_masked_value_mask_def
  of_oxm_bsn_udf2_value_def of_oxm_bsn_udf2_masked_value_def of_oxm_bsn_udf2_masked_value_mask_def
  of_oxm_bsn_udf3_value_def of_oxm_bsn_udf3_masked_value_def of_oxm_bsn_udf3_masked_value_mask_def
  of_oxm_bsn_udf4_value_def of_oxm_bsn_udf4_masked_value_def of_oxm_bsn_udf4_masked_value_mask_def
  of_oxm_bsn_udf5_value_def of_oxm_bsn_udf5_masked_value_def of_oxm_bsn_udf5_masked_value_mask_def
  of_oxm_bsn_udf6_value_def of_oxm_bsn_udf6_masked_value_def of_oxm_bsn_udf6_masked_value_mask_def
  of_oxm_bsn_udf7_value_def of_oxm_bsn_udf7_masked_value_def of_oxm_bsn_udf7_masked_value_mask_def
  of_oxm_bsn_vlan_xlate_port_group_id_value_def of_oxm_bsn_vlan_xlate_port_group_id_masked_value_def
  of_oxm_bsn_vlan_xlate_port_group_id_masked_value_mask_def of_oxm_bsn_vrf_value_def
  of_oxm_bsn_vrf_masked_value_def of_oxm_bsn_vrf_masked_value_mask_def of_oxm_eth_dst_value_def
  of_oxm_eth_dst_masked_value_def of_oxm_eth_dst_masked_value_mask_def of_oxm_eth_src_value_def
  of_oxm_eth_src_masked_value_def of_oxm_eth_src_masked_value_mask_def

lemma fields_ok_06: "list_all field_ok fields_06"
  unfolding fields_06_def accessor_defs_06
  by (simp add: accessors_ok octets_accessors_ok inside_rows del: field_ok.simps)

end
