(* ===== verification/Class07.thy ===== *)
theory Class07
  imports Construct
begin

text \<open>
  The classes of \<^verbatim>\<open>src/class07.c\<close>: for each what its constructor, initialiser and
  \<open>push_wire_types\<close> write, and the scalar accessors, a getter and a setter for each field at a fixed offset.
\<close>

definition of_oxm_eth_type_class :: wire_class where
  "of_oxm_eth_type_class = \<lparr>class_id = OF_OXM_ETH_TYPE, whole_buffer = False, wire_types = Some [(3, [Put32 0 0x80000a02]),
     (4, [Put32 0 0x80000a02]),
     (5, [Put32 0 0x80000a02])],
     finishes = []\<rparr>"

definition of_oxm_eth_type_value :: "16 word accessor" where
  "of_oxm_eth_type_value = u16_accessor [OF_OXM_ETH_TYPE] [(3, 4), (4, 4), (5, 4)]"

definition of_oxm_eth_type_masked_class :: wire_class where
  "of_oxm_eth_type_masked_class = \<lparr>class_id = OF_OXM_ETH_TYPE_MASKED, whole_buffer = False, wire_types = Some [(3, [Put32 0 0x80000b04]),
     (4, [Put32 0 0x80000b04]),
     (5, [Put32 0 0x80000b04])],
     finishes = []\<rparr>"

definition of_oxm_eth_type_masked_value :: "16 word accessor" where
  "of_oxm_eth_type_masked_value = u16_accessor [OF_OXM_ETH_TYPE_MASKED] [(3, 4), (4, 4), (5, 4)]"

definition of_oxm_eth_type_masked_value_mask :: "16 word accessor" where
  "of_oxm_eth_type_masked_value_mask = u16_accessor [OF_OXM_ETH_TYPE_MASKED] [(3, 6), (4, 6), (5, 6)]"

definition of_oxm_icmpv4_code_class :: wire_class where
  "of_oxm_icmpv4_code_class = \<lparr>class_id = OF_OXM_ICMPV4_CODE, whole_buffer = False, wire_types = Some [(3, [Put32 0 0x80002801]),
     (4, [Put32 0 0x80002801]),
     (5, [Put32 0 0x80002801])],
     finishes = []\<rparr>"

definition of_oxm_icmpv4_code_value :: "byte accessor" where
  "of_oxm_icmpv4_code_value = u8_accessor [OF_OXM_ICMPV4_CODE] [(3, 4), (4, 4), (5, 4)]"

definition of_oxm_icmpv4_code_masked_class :: wire_class where
  "of_oxm_icmpv4_code_masked_class = \<lparr>class_id = OF_OXM_ICMPV4_CODE_MASKED, whole_buffer = False, wire_types = Some [(3, [Put32 0 0x80002902]),
     (4, [Put32 0 0x80002902]),
     (5, [Put32 0 0x80002902])],
     finishes = []\<rparr>"

definition of_oxm_icmpv4_code_masked_value :: "byte accessor" where
  "of_oxm_icmpv4_code_masked_value = u8_accessor [OF_OXM_ICMPV4_CODE_MASKED] [(3, 4), (4, 4), (5, 4)]"

definition of_oxm_icmpv4_code_masked_value_mask :: "byte accessor" where
  "of_oxm_icmpv4_code_masked_value_mask = u8_accessor [OF_OXM_ICMPV4_CODE_MASKED] [(3, 5), (4, 5), (5, 5)]"

definition of_oxm_icmpv4_type_class :: wire_class where
  "of_oxm_icmpv4_type_class = \<lparr>class_id = OF_OXM_ICMPV4_TYPE, whole_buffer = False, wire_types = Some [(3, [Put32 0 0x80002601]),
     (4, [Put32 0 0x80002601]),
     (5, [Put32 0 0x80002601])],
     finishes = []\<rparr>"

definition of_oxm_icmpv4_type_value :: "byte accessor" where
  "of_oxm_icmpv4_type_value = u8_accessor [OF_OXM_ICMPV4_TYPE] [(3, 4), (4, 4), (5, 4)]"

definition of_oxm_icmpv4_type_masked_class :: wire_class where
  "of_oxm_icmpv4_type_masked_class = \<lparr>class_id = OF_OXM_ICMPV4_TYPE_MASKED, whole_buffer = False, wire_types = Some [(3, [Put32 0 0x80002702]),
     (4, [Put32 0 0x80002702]),
     (5, [Put32 0 0x80002702])],
     finishes = []\<rparr>"

definition of_oxm_icmpv4_type_masked_value :: "byte accessor" where
  "of_oxm_icmpv4_type_masked_value = u8_accessor [OF_OXM_ICMPV4_TYPE_MASKED] [(3, 4), (4, 4), (5, 4)]"

definition of_oxm_icmpv4_type_masked_value_mask :: "byte accessor" where
  "of_oxm_icmpv4_type_masked_value_mask = u8_accessor [OF_OXM_ICMPV4_TYPE_MASKED] [(3, 5), (4, 5), (5, 5)]"

definition of_oxm_icmpv6_code_class :: wire_class where
  "of_oxm_icmpv6_code_class = \<lparr>class_id = OF_OXM_ICMPV6_CODE, whole_buffer = False, wire_types = Some [(3, [Put32 0 0x80003c01]),
     (4, [Put32 0 0x80003c01]),
     (5, [Put32 0 0x80003c01])],
     finishes = []\<rparr>"

definition of_oxm_icmpv6_code_value :: "byte accessor" where
  "of_oxm_icmpv6_code_value = u8_accessor [OF_OXM_ICMPV6_CODE] [(3, 4), (4, 4), (5, 4)]"

definition of_oxm_icmpv6_code_masked_class :: wire_class where
  "of_oxm_icmpv6_code_masked_class = \<lparr>class_id = OF_OXM_ICMPV6_CODE_MASKED, whole_buffer = False, wire_types = Some [(3, [Put32 0 0x80003d02]),
     (4, [Put32 0 0x80003d02]),
     (5, [Put32 0 0x80003d02])],
     finishes = []\<rparr>"

definition of_oxm_icmpv6_code_masked_value :: "byte accessor" where
  "of_oxm_icmpv6_code_masked_value = u8_accessor [OF_OXM_ICMPV6_CODE_MASKED] [(3, 4), (4, 4), (5, 4)]"

definition of_oxm_icmpv6_code_masked_value_mask :: "byte accessor" where
  "of_oxm_icmpv6_code_masked_value_mask = u8_accessor [OF_OXM_ICMPV6_CODE_MASKED] [(3, 5), (4, 5), (5, 5)]"

definition of_oxm_icmpv6_type_class :: wire_class where
  "of_oxm_icmpv6_type_class = \<lparr>class_id = OF_OXM_ICMPV6_TYPE, whole_buffer = False, wire_types = Some [(3, [Put32 0 0x80003a01]),
     (4, [Put32 0 0x80003a01]),
     (5, [Put32 0 0x80003a01])],
     finishes = []\<rparr>"

definition of_oxm_icmpv6_type_value :: "byte accessor" where
  "of_oxm_icmpv6_type_value = u8_accessor [OF_OXM_ICMPV6_TYPE] [(3, 4), (4, 4), (5, 4)]"

definition of_oxm_icmpv6_type_masked_class :: wire_class where
  "of_oxm_icmpv6_type_masked_class = \<lparr>class_id = OF_OXM_ICMPV6_TYPE_MASKED, whole_buffer = False, wire_types = Some [(3, [Put32 0 0x80003b02]),
     (4, [Put32 0 0x80003b02]),
     (5, [Put32 0 0x80003b02])],
     finishes = []\<rparr>"

definition of_oxm_icmpv6_type_masked_value :: "byte accessor" where
  "of_oxm_icmpv6_type_masked_value = u8_accessor [OF_OXM_ICMPV6_TYPE_MASKED] [(3, 4), (4, 4), (5, 4)]"

definition of_oxm_icmpv6_type_masked_value_mask :: "byte accessor" where
  "of_oxm_icmpv6_type_masked_value_mask = u8_accessor [OF_OXM_ICMPV6_TYPE_MASKED] [(3, 5), (4, 5), (5, 5)]"

definition of_oxm_in_phy_port_class :: wire_class where
  "of_oxm_in_phy_port_class = \<lparr>class_id = OF_OXM_IN_PHY_PORT, whole_buffer = False, wire_types = Some [(3, [Put32 0 0x80000204]),
     (4, [Put32 0 0x80000204]),
     (5, [Put32 0 0x80000204])],
     finishes = []\<rparr>"

definition of_oxm_in_phy_port_value :: "32 word accessor" where
  "of_oxm_in_phy_port_value = port_no_accessor [OF_OXM_IN_PHY_PORT] [(3, 4), (4, 4), (5, 4)]"

definition of_oxm_in_phy_port_masked_class :: wire_class where
  "of_oxm_in_phy_port_masked_class = \<lparr>class_id = OF_OXM_IN_PHY_PORT_MASKED, whole_buffer = False, wire_types = Some [(3, [Put32 0 0x80000308]),
     (4, [Put32 0 0x80000308]),
     (5, [Put32 0 0x80000308])],
     finishes = []\<rparr>"

definition of_oxm_in_phy_port_masked_value :: "32 word accessor" where
  "of_oxm_in_phy_port_masked_value = port_no_accessor [OF_OXM_IN_PHY_PORT_MASKED] [(3, 4), (4, 4), (5, 4)]"

definition of_oxm_in_phy_port_masked_value_mask :: "32 word accessor" where
  "of_oxm_in_phy_port_masked_value_mask = port_no_accessor [OF_OXM_IN_PHY_PORT_MASKED] [(3, 8), (4, 8), (5, 8)]"

definition of_oxm_in_port_class :: wire_class where
  "of_oxm_in_port_class = \<lparr>class_id = OF_OXM_IN_PORT, whole_buffer = False, wire_types = Some [(3, [Put32 0 0x80000004]),
     (4, [Put32 0 0x80000004]),
     (5, [Put32 0 0x80000004])],
     finishes = []\<rparr>"

definition of_oxm_in_port_value :: "32 word accessor" where
  "of_oxm_in_port_value = port_no_accessor [OF_OXM_IN_PORT] [(3, 4), (4, 4), (5, 4)]"

definition of_oxm_in_port_masked_class :: wire_class where
  "of_oxm_in_port_masked_class = \<lparr>class_id = OF_OXM_IN_PORT_MASKED, whole_buffer = False, wire_types = Some [(3, [Put32 0 0x80000108]),
     (4, [Put32 0 0x80000108]),
     (5, [Put32 0 0x80000108])],
     finishes = []\<rparr>"

definition of_oxm_in_port_masked_value :: "32 word accessor" where
  "of_oxm_in_port_masked_value = port_no_accessor [OF_OXM_IN_PORT_MASKED] [(3, 4), (4, 4), (5, 4)]"

definition of_oxm_in_port_masked_value_mask :: "32 word accessor" where
  "of_oxm_in_port_masked_value_mask = port_no_accessor [OF_OXM_IN_PORT_MASKED] [(3, 8), (4, 8), (5, 8)]"

definition of_oxm_ip_dscp_class :: wire_class where
  "of_oxm_ip_dscp_class = \<lparr>class_id = OF_OXM_IP_DSCP, whole_buffer = False, wire_types = Some [(3, [Put32 0 0x80001001]),
     (4, [Put32 0 0x80001001]),
     (5, [Put32 0 0x80001001])],
     finishes = []\<rparr>"

definition of_oxm_ip_dscp_value :: "byte accessor" where
  "of_oxm_ip_dscp_value = u8_accessor [OF_OXM_IP_DSCP] [(3, 4), (4, 4), (5, 4)]"

definition of_oxm_ip_dscp_masked_class :: wire_class where
  "of_oxm_ip_dscp_masked_class = \<lparr>class_id = OF_OXM_IP_DSCP_MASKED, whole_buffer = False, wire_types = Some [(3, [Put32 0 0x80001102]),
     (4, [Put32 0 0x80001102]),
     (5, [Put32 0 0x80001102])],
     finishes = []\<rparr>"

definition of_oxm_ip_dscp_masked_value :: "byte accessor" where
  "of_oxm_ip_dscp_masked_value = u8_accessor [OF_OXM_IP_DSCP_MASKED] [(3, 4), (4, 4), (5, 4)]"

definition of_oxm_ip_dscp_masked_value_mask :: "byte accessor" where
  "of_oxm_ip_dscp_masked_value_mask = u8_accessor [OF_OXM_IP_DSCP_MASKED] [(3, 5), (4, 5), (5, 5)]"

definition of_oxm_ip_ecn_class :: wire_class where
  "of_oxm_ip_ecn_class = \<lparr>class_id = OF_OXM_IP_ECN, whole_buffer = False, wire_types = Some [(3, [Put32 0 0x80001201]),
     (4, [Put32 0 0x80001201]),
     (5, [Put32 0 0x80001201])],
     finishes = []\<rparr>"

definition of_oxm_ip_ecn_value :: "byte accessor" where
  "of_oxm_ip_ecn_value = u8_accessor [OF_OXM_IP_ECN] [(3, 4), (4, 4), (5, 4)]"

definition of_oxm_ip_ecn_masked_class :: wire_class where
  "of_oxm_ip_ecn_masked_class = \<lparr>class_id = OF_OXM_IP_ECN_MASKED, whole_buffer = False, wire_types = Some [(3, [Put32 0 0x80001302]),
     (4, [Put32 0 0x80001302]),
     (5, [Put32 0 0x80001302])],
     finishes = []\<rparr>"

definition of_oxm_ip_ecn_masked_value :: "byte accessor" where
  "of_oxm_ip_ecn_masked_value = u8_accessor [OF_OXM_IP_ECN_MASKED] [(3, 4), (4, 4), (5, 4)]"

definition of_oxm_ip_ecn_masked_value_mask :: "byte accessor" where
  "of_oxm_ip_ecn_masked_value_mask = u8_accessor [OF_OXM_IP_ECN_MASKED] [(3, 5), (4, 5), (5, 5)]"

definition of_oxm_ip_proto_class :: wire_class where
  "of_oxm_ip_proto_class = \<lparr>class_id = OF_OXM_IP_PROTO, whole_buffer = False, wire_types = Some [(3, [Put32 0 0x80001401]),
     (4, [Put32 0 0x80001401]),
     (5, [Put32 0 0x80001401])],
     finishes = []\<rparr>"

definition of_oxm_ip_proto_value :: "byte accessor" where
  "of_oxm_ip_proto_value = u8_accessor [OF_OXM_IP_PROTO] [(3, 4), (4, 4), (5, 4)]"

definition of_oxm_ip_proto_masked_class :: wire_class where
  "of_oxm_ip_proto_masked_class = \<lparr>class_id = OF_OXM_IP_PROTO_MASKED, whole_buffer = False, wire_types = Some [(3, [Put32 0 0x80001502]),
     (4, [Put32 0 0x80001502]),
     (5, [Put32 0 0x80001502])],
     finishes = []\<rparr>"

definition of_oxm_ip_proto_masked_value :: "byte accessor" where
  "of_oxm_ip_proto_masked_value = u8_accessor [OF_OXM_IP_PROTO_MASKED] [(3, 4), (4, 4), (5, 4)]"

definition of_oxm_ip_proto_masked_value_mask :: "byte accessor" where
  "of_oxm_ip_proto_masked_value_mask = u8_accessor [OF_OXM_IP_PROTO_MASKED] [(3, 5), (4, 5), (5, 5)]"

definition of_oxm_ipv4_dst_class :: wire_class where
  "of_oxm_ipv4_dst_class = \<lparr>class_id = OF_OXM_IPV4_DST, whole_buffer = False, wire_types = Some [(3, [Put32 0 0x80001804]),
     (4, [Put32 0 0x80001804]),
     (5, [Put32 0 0x80001804])],
     finishes = []\<rparr>"

definition of_oxm_ipv4_dst_value :: "32 word accessor" where
  "of_oxm_ipv4_dst_value = ipv4_accessor [OF_OXM_IPV4_DST] [(3, 4), (4, 4), (5, 4)]"

definition of_oxm_ipv4_dst_masked_class :: wire_class where
  "of_oxm_ipv4_dst_masked_class = \<lparr>class_id = OF_OXM_IPV4_DST_MASKED, whole_buffer = False, wire_types = Some [(3, [Put32 0 0x80001908]),
     (4, [Put32 0 0x80001908]),
     (5, [Put32 0 0x80001908])],
     finishes = []\<rparr>"

definition of_oxm_ipv4_dst_masked_value :: "32 word accessor" where
  "of_oxm_ipv4_dst_masked_value = ipv4_accessor [OF_OXM_IPV4_DST_MASKED] [(3, 4), (4, 4), (5, 4)]"

definition of_oxm_ipv4_dst_masked_value_mask :: "32 word accessor" where
  "of_oxm_ipv4_dst_masked_value_mask = ipv4_accessor [OF_OXM_IPV4_DST_MASKED] [(3, 8), (4, 8), (5, 8)]"

definition of_oxm_ipv4_src_class :: wire_class where
  "of_oxm_ipv4_src_class = \<lparr>class_id = OF_OXM_IPV4_SRC, whole_buffer = False, wire_types = Some [(3, [Put32 0 0x80001604]),
     (4, [Put32 0 0x80001604]),
     (5, [Put32 0 0x80001604])],
     finishes = []\<rparr>"

definition of_oxm_ipv4_src_value :: "32 word accessor" where
  "of_oxm_ipv4_src_value = ipv4_accessor [OF_OXM_IPV4_SRC] [(3, 4), (4, 4), (5, 4)]"

definition of_oxm_ipv4_src_masked_class :: wire_class where
  "of_oxm_ipv4_src_masked_class = \<lparr>class_id = OF_OXM_IPV4_SRC_MASKED, whole_buffer = False, wire_types = Some [(3, [Put32 0 0x80001708]),
     (4, [Put32 0 0x80001708]),
     (5, [Put32 0 0x80001708])],
     finishes = []\<rparr>"

definition of_oxm_ipv4_src_masked_value :: "32 word accessor" where
  "of_oxm_ipv4_src_masked_value = ipv4_accessor [OF_OXM_IPV4_SRC_MASKED] [(3, 4), (4, 4), (5, 4)]"

definition of_oxm_ipv4_src_masked_value_mask :: "32 word accessor" where
  "of_oxm_ipv4_src_masked_value_mask = ipv4_accessor [OF_OXM_IPV4_SRC_MASKED] [(3, 8), (4, 8), (5, 8)]"

definition of_oxm_ipv6_dst_class :: wire_class where
  "of_oxm_ipv6_dst_class = \<lparr>class_id = OF_OXM_IPV6_DST, whole_buffer = False, wire_types = Some [(3, [Put32 0 0x80003610]),
     (4, [Put32 0 0x80003610]),
     (5, [Put32 0 0x80003610])],
     finishes = []\<rparr>"

definition of_oxm_ipv6_dst_value :: "byte list accessor" where
  "of_oxm_ipv6_dst_value = ipv6_accessor [OF_OXM_IPV6_DST] [(3, 4), (4, 4), (5, 4)]"

definition of_oxm_ipv6_dst_masked_class :: wire_class where
  "of_oxm_ipv6_dst_masked_class = \<lparr>class_id = OF_OXM_IPV6_DST_MASKED, whole_buffer = False, wire_types = Some [(3, [Put32 0 0x80003720]),
     (4, [Put32 0 0x80003720]),
     (5, [Put32 0 0x80003720])],
     finishes = []\<rparr>"

definition of_oxm_ipv6_dst_masked_value :: "byte list accessor" where
  "of_oxm_ipv6_dst_masked_value = ipv6_accessor [OF_OXM_IPV6_DST_MASKED] [(3, 4), (4, 4), (5, 4)]"

definition of_oxm_ipv6_dst_masked_value_mask :: "byte list accessor" where
  "of_oxm_ipv6_dst_masked_value_mask = ipv6_accessor [OF_OXM_IPV6_DST_MASKED] [(3, 20), (4, 20), (5, 20)]"

definition of_oxm_ipv6_flabel_class :: wire_class where
  "of_oxm_ipv6_flabel_class = \<lparr>class_id = OF_OXM_IPV6_FLABEL, whole_buffer = False, wire_types = Some [(3, [Put32 0 0x80003804]),
     (4, [Put32 0 0x80003804]),
     (5, [Put32 0 0x80003804])],
     finishes = []\<rparr>"

definition of_oxm_ipv6_flabel_value :: "32 word accessor" where
  "of_oxm_ipv6_flabel_value = u32_accessor [OF_OXM_IPV6_FLABEL] [(3, 4), (4, 4), (5, 4)]"

definition of_oxm_ipv6_flabel_masked_class :: wire_class where
  "of_oxm_ipv6_flabel_masked_class = \<lparr>class_id = OF_OXM_IPV6_FLABEL_MASKED, whole_buffer = False, wire_types = Some [(3, [Put32 0 0x80003908]),
     (4, [Put32 0 0x80003908]),
     (5, [Put32 0 0x80003908])],
     finishes = []\<rparr>"

definition of_oxm_ipv6_flabel_masked_value :: "32 word accessor" where
  "of_oxm_ipv6_flabel_masked_value = u32_accessor [OF_OXM_IPV6_FLABEL_MASKED] [(3, 4), (4, 4), (5, 4)]"

definition of_oxm_ipv6_flabel_masked_value_mask :: "32 word accessor" where
  "of_oxm_ipv6_flabel_masked_value_mask = u32_accessor [OF_OXM_IPV6_FLABEL_MASKED] [(3, 8), (4, 8), (5, 8)]"

definition of_oxm_ipv6_nd_sll_class :: wire_class where
  "of_oxm_ipv6_nd_sll_class = \<lparr>class_id = OF_OXM_IPV6_ND_SLL, whole_buffer = False, wire_types = Some [(3, [Put32 0 0x80004006]),
     (4, [Put32 0 0x80004006]),
     (5, [Put32 0 0x80004006])],
     finishes = []\<rparr>"

definition of_oxm_ipv6_nd_sll_value :: "byte list accessor" where
  "of_oxm_ipv6_nd_sll_value = mac_accessor [OF_OXM_IPV6_ND_SLL] [(3, 4), (4, 4), (5, 4)]"

definition of_oxm_ipv6_nd_sll_masked_class :: wire_class where
  "of_oxm_ipv6_nd_sll_masked_class = \<lparr>class_id = OF_OXM_IPV6_ND_SLL_MASKED, whole_buffer = False, wire_types = Some [(3, [Put32 0 0x8000410c]),
     (4, [Put32 0 0x8000410c]),
     (5, [Put32 0 0x8000410c])],
     finishes = []\<rparr>"

definition of_oxm_ipv6_nd_sll_masked_value :: "byte list accessor" where
  "of_oxm_ipv6_nd_sll_masked_value = mac_accessor [OF_OXM_IPV6_ND_SLL_MASKED] [(3, 4), (4, 4), (5, 4)]"

definition of_oxm_ipv6_nd_sll_masked_value_mask :: "byte list accessor" where
  "of_oxm_ipv6_nd_sll_masked_value_mask = mac_accessor [OF_OXM_IPV6_ND_SLL_MASKED] [(3, 10), (4, 10), (5, 10)]"

definition of_oxm_ipv6_nd_target_class :: wire_class where
  "of_oxm_ipv6_nd_target_class = \<lparr>class_id = OF_OXM_IPV6_ND_TARGET, whole_buffer = False, wire_types = Some [(3, [Put32 0 0x80003e10]),
     (4, [Put32 0 0x80003e10]),
     (5, [Put32 0 0x80003e10])],
     finishes = []\<rparr>"

definition of_oxm_ipv6_nd_target_value :: "byte list accessor" where
  "of_oxm_ipv6_nd_target_value = ipv6_accessor [OF_OXM_IPV6_ND_TARGET] [(3, 4), (4, 4), (5, 4)]"

definition of_oxm_ipv6_nd_target_masked_class :: wire_class where
  "of_oxm_ipv6_nd_target_masked_class = \<lparr>class_id = OF_OXM_IPV6_ND_TARGET_MASKED, whole_buffer = False, wire_types = Some [(3, [Put32 0 0x80003f20]),
     (4, [Put32 0 0x80003f20]),
     (5, [Put32 0 0x80003f20])],
     finishes = []\<rparr>"

definition of_oxm_ipv6_nd_target_masked_value :: "byte list accessor" where
  "of_oxm_ipv6_nd_target_masked_value = ipv6_accessor [OF_OXM_IPV6_ND_TARGET_MASKED] [(3, 4), (4, 4), (5, 4)]"

definition of_oxm_ipv6_nd_target_masked_value_mask :: "byte list accessor" where
  "of_oxm_ipv6_nd_target_masked_value_mask = ipv6_accessor [OF_OXM_IPV6_ND_TARGET_MASKED] [(3, 20), (4, 20), (5, 20)]"

text \<open>The classes, each with consistent wire types in every version that has it.\<close>

definition classes_07 :: "wire_class list" where
  "classes_07 = [of_oxm_eth_type_class, of_oxm_eth_type_masked_class, of_oxm_icmpv4_code_class,
     of_oxm_icmpv4_code_masked_class, of_oxm_icmpv4_type_class, of_oxm_icmpv4_type_masked_class,
     of_oxm_icmpv6_code_class, of_oxm_icmpv6_code_masked_class, of_oxm_icmpv6_type_class,
     of_oxm_icmpv6_type_masked_class, of_oxm_in_phy_port_class, of_oxm_in_phy_port_masked_class,
     of_oxm_in_port_class, of_oxm_in_port_masked_class, of_oxm_ip_dscp_class, of_oxm_ip_dscp_masked_class,
     of_oxm_ip_ecn_class, of_oxm_ip_ecn_masked_class, of_oxm_ip_proto_class, of_oxm_ip_proto_masked_class,
     of_oxm_ipv4_dst_class, of_oxm_ipv4_dst_masked_class, of_oxm_ipv4_src_class,
     of_oxm_ipv4_src_masked_class, of_oxm_ipv6_dst_class, of_oxm_ipv6_dst_masked_class,
     of_oxm_ipv6_flabel_class, of_oxm_ipv6_flabel_masked_class, of_oxm_ipv6_nd_sll_class,
     of_oxm_ipv6_nd_sll_masked_class, of_oxm_ipv6_nd_target_class, of_oxm_ipv6_nd_target_masked_class]"

lemmas class_defs_07 =
  of_oxm_eth_type_class_def of_oxm_eth_type_masked_class_def of_oxm_icmpv4_code_class_def
  of_oxm_icmpv4_code_masked_class_def of_oxm_icmpv4_type_class_def
  of_oxm_icmpv4_type_masked_class_def of_oxm_icmpv6_code_class_def
  of_oxm_icmpv6_code_masked_class_def of_oxm_icmpv6_type_class_def
  of_oxm_icmpv6_type_masked_class_def of_oxm_in_phy_port_class_def
  of_oxm_in_phy_port_masked_class_def of_oxm_in_port_class_def of_oxm_in_port_masked_class_def
  of_oxm_ip_dscp_class_def of_oxm_ip_dscp_masked_class_def of_oxm_ip_ecn_class_def
  of_oxm_ip_ecn_masked_class_def of_oxm_ip_proto_class_def of_oxm_ip_proto_masked_class_def
  of_oxm_ipv4_dst_class_def of_oxm_ipv4_dst_masked_class_def of_oxm_ipv4_src_class_def
  of_oxm_ipv4_src_masked_class_def of_oxm_ipv6_dst_class_def of_oxm_ipv6_dst_masked_class_def
  of_oxm_ipv6_flabel_class_def of_oxm_ipv6_flabel_masked_class_def of_oxm_ipv6_nd_sll_class_def
  of_oxm_ipv6_nd_sll_masked_class_def of_oxm_ipv6_nd_target_class_def
  of_oxm_ipv6_nd_target_masked_class_def

lemma classes_ok_07: "list_all class_ok classes_07"
  unfolding classes_07_def
  by (simp add: class_defs_07 class_checks)

text \<open>The accessors.\<close>

definition fields_07 :: "field list" where
  "fields_07 = [U16 of_oxm_eth_type_value, U16 of_oxm_eth_type_masked_value, U16 of_oxm_eth_type_masked_value_mask,
     U8 of_oxm_icmpv4_code_value, U8 of_oxm_icmpv4_code_masked_value,
     U8 of_oxm_icmpv4_code_masked_value_mask, U8 of_oxm_icmpv4_type_value,
     U8 of_oxm_icmpv4_type_masked_value, U8 of_oxm_icmpv4_type_masked_value_mask,
     U8 of_oxm_icmpv6_code_value, U8 of_oxm_icmpv6_code_masked_value,
     U8 of_oxm_icmpv6_code_masked_value_mask, U8 of_oxm_icmpv6_type_value,
     U8 of_oxm_icmpv6_type_masked_value, U8 of_oxm_icmpv6_type_masked_value_mask,
     PortNo of_oxm_in_phy_port_value, PortNo of_oxm_in_phy_port_masked_value,
     PortNo of_oxm_in_phy_port_masked_value_mask, PortNo of_oxm_in_port_value,
     PortNo of_oxm_in_port_masked_value, PortNo of_oxm_in_port_masked_value_mask, U8 of_oxm_ip_dscp_value,
     U8 of_oxm_ip_dscp_masked_value, U8 of_oxm_ip_dscp_masked_value_mask, U8 of_oxm_ip_ecn_value,
     U8 of_oxm_ip_ecn_masked_value, U8 of_oxm_ip_ecn_masked_value_mask, U8 of_oxm_ip_proto_value,
     U8 of_oxm_ip_proto_masked_value, U8 of_oxm_ip_proto_masked_value_mask, U32 of_oxm_ipv4_dst_value,
     U32 of_oxm_ipv4_dst_masked_value, U32 of_oxm_ipv4_dst_masked_value_mask, U32 of_oxm_ipv4_src_value,
     U32 of_oxm_ipv4_src_masked_value, U32 of_oxm_ipv4_src_masked_value_mask,
     Octets 16 of_oxm_ipv6_dst_value, Octets 16 of_oxm_ipv6_dst_masked_value,
     Octets 16 of_oxm_ipv6_dst_masked_value_mask, U32 of_oxm_ipv6_flabel_value,
     U32 of_oxm_ipv6_flabel_masked_value, U32 of_oxm_ipv6_flabel_masked_value_mask,
     Octets 6 of_oxm_ipv6_nd_sll_value, Octets 6 of_oxm_ipv6_nd_sll_masked_value,
     Octets 6 of_oxm_ipv6_nd_sll_masked_value_mask, Octets 16 of_oxm_ipv6_nd_target_value,
     Octets 16 of_oxm_ipv6_nd_target_masked_value, Octets 16 of_oxm_ipv6_nd_target_masked_value_mask]"

lemmas accessor_defs_07 =
  of_oxm_eth_type_value_def of_oxm_eth_type_masked_value_def of_oxm_eth_type_masked_value_mask_def
  of_oxm_icmpv4_code_value_def of_oxm_icmpv4_code_masked_value_def
  of_oxm_icmpv4_code_masked_value_mask_def of_oxm_icmpv4_type_value_def
  of_oxm_icmpv4_type_masked_value_def of_oxm_icmpv4_type_masked_value_mask_def
  of_oxm_icmpv6_code_value_def of_oxm_icmpv6_code_masked_value_def
  of_oxm_icmpv6_code_masked_value_mask_def of_oxm_icmpv6_type_value_def
  of_oxm_icmpv6_type_masked_value_def of_oxm_icmpv6_type_masked_value_mask_def
  of_oxm_in_phy_port_value_def of_oxm_in_phy_port_masked_value_def
  of_oxm_in_phy_port_masked_value_mask_def of_oxm_in_port_value_def of_oxm_in_port_masked_value_def
  of_oxm_in_port_masked_value_mask_def of_oxm_ip_dscp_value_def of_oxm_ip_dscp_masked_value_def
  of_oxm_ip_dscp_masked_value_mask_def of_oxm_ip_ecn_value_def of_oxm_ip_ecn_masked_value_def
  of_oxm_ip_ecn_masked_value_mask_def of_oxm_ip_proto_value_def of_oxm_ip_proto_masked_value_def
  of_oxm_ip_proto_masked_value_mask_def of_oxm_ipv4_dst_value_def of_oxm_ipv4_dst_masked_value_def
  of_oxm_ipv4_dst_masked_value_mask_def of_oxm_ipv4_src_value_def of_oxm_ipv4_src_masked_value_def
  of_oxm_ipv4_src_masked_value_mask_def of_oxm_ipv6_dst_value_def of_oxm_ipv6_dst_masked_value_def
  of_oxm_ipv6_dst_masked_value_mask_def of_oxm_ipv6_flabel_value_def
  of_oxm_ipv6_flabel_masked_value_def of_oxm_ipv6_flabel_masked_value_mask_def
  of_oxm_ipv6_nd_sll_value_def of_oxm_ipv6_nd_sll_masked_value_def
  of_oxm_ipv6_nd_sll_masked_value_mask_def of_oxm_ipv6_nd_target_value_def
  of_oxm_ipv6_nd_target_masked_value_def of_oxm_ipv6_nd_target_masked_value_mask_def

lemma fields_ok_07: "list_all field_ok fields_07"
  unfolding fields_07_def accessor_defs_07
  by (simp add: accessors_ok octets_accessors_ok inside_rows del: field_ok.simps)

end
