(* ===== verification/Class08.thy ===== *)
theory Class08
  imports Construct
begin

text \<open>
  The classes of \<^verbatim>\<open>src/class08.c\<close>: for each what its constructor, initialiser and
  \<open>push_wire_types\<close> write, and the scalar accessors, a getter and a setter for each field at a fixed offset.
\<close>

definition of_oxm_ipv6_nd_tll_class :: wire_class where
  "of_oxm_ipv6_nd_tll_class = \<lparr>class_id = OF_OXM_IPV6_ND_TLL, whole_buffer = False, wire_types = Some [(3, [Put32 0 0x80004206]),
     (4, [Put32 0 0x80004206]),
     (5, [Put32 0 0x80004206])],
     finishes = []\<rparr>"

definition of_oxm_ipv6_nd_tll_value :: "byte list accessor" where
  "of_oxm_ipv6_nd_tll_value = mac_accessor [OF_OXM_IPV6_ND_TLL] [(3, 4), (4, 4), (5, 4)]"

definition of_oxm_ipv6_nd_tll_masked_class :: wire_class where
  "of_oxm_ipv6_nd_tll_masked_class = \<lparr>class_id = OF_OXM_IPV6_ND_TLL_MASKED, whole_buffer = False, wire_types = Some [(3, [Put32 0 0x8000430c]),
     (4, [Put32 0 0x8000430c]),
     (5, [Put32 0 0x8000430c])],
     finishes = []\<rparr>"

definition of_oxm_ipv6_nd_tll_masked_value :: "byte list accessor" where
  "of_oxm_ipv6_nd_tll_masked_value = mac_accessor [OF_OXM_IPV6_ND_TLL_MASKED] [(3, 4), (4, 4), (5, 4)]"

definition of_oxm_ipv6_nd_tll_masked_value_mask :: "byte list accessor" where
  "of_oxm_ipv6_nd_tll_masked_value_mask = mac_accessor [OF_OXM_IPV6_ND_TLL_MASKED] [(3, 10), (4, 10), (5, 10)]"

definition of_oxm_ipv6_src_class :: wire_class where
  "of_oxm_ipv6_src_class = \<lparr>class_id = OF_OXM_IPV6_SRC, whole_buffer = False, wire_types = Some [(3, [Put32 0 0x80003410]),
     (4, [Put32 0 0x80003410]),
     (5, [Put32 0 0x80003410])],
     finishes = []\<rparr>"

definition of_oxm_ipv6_src_value :: "byte list accessor" where
  "of_oxm_ipv6_src_value = ipv6_accessor [OF_OXM_IPV6_SRC] [(3, 4), (4, 4), (5, 4)]"

definition of_oxm_ipv6_src_masked_class :: wire_class where
  "of_oxm_ipv6_src_masked_class = \<lparr>class_id = OF_OXM_IPV6_SRC_MASKED, whole_buffer = False, wire_types = Some [(3, [Put32 0 0x80003520]),
     (4, [Put32 0 0x80003520]),
     (5, [Put32 0 0x80003520])],
     finishes = []\<rparr>"

definition of_oxm_ipv6_src_masked_value :: "byte list accessor" where
  "of_oxm_ipv6_src_masked_value = ipv6_accessor [OF_OXM_IPV6_SRC_MASKED] [(3, 4), (4, 4), (5, 4)]"

definition of_oxm_ipv6_src_masked_value_mask :: "byte list accessor" where
  "of_oxm_ipv6_src_masked_value_mask = ipv6_accessor [OF_OXM_IPV6_SRC_MASKED] [(3, 20), (4, 20), (5, 20)]"

definition of_oxm_metadata_class :: wire_class where
  "of_oxm_metadata_class = \<lparr>class_id = OF_OXM_METADATA, whole_buffer = False, wire_types = Some [(3, [Put32 0 0x80000408]),
     (4, [Put32 0 0x80000408]),
     (5, [Put32 0 0x80000408])],
     finishes = []\<rparr>"

definition of_oxm_metadata_value :: "64 word accessor" where
  "of_oxm_metadata_value = u64_accessor [OF_OXM_METADATA] [(3, 4), (4, 4), (5, 4)]"

definition of_oxm_metadata_masked_class :: wire_class where
  "of_oxm_metadata_masked_class = \<lparr>class_id = OF_OXM_METADATA_MASKED, whole_buffer = False, wire_types = Some [(3, [Put32 0 0x80000510]),
     (4, [Put32 0 0x80000510]),
     (5, [Put32 0 0x80000510])],
     finishes = []\<rparr>"

definition of_oxm_metadata_masked_value :: "64 word accessor" where
  "of_oxm_metadata_masked_value = u64_accessor [OF_OXM_METADATA_MASKED] [(3, 4), (4, 4), (5, 4)]"

definition of_oxm_metadata_masked_value_mask :: "64 word accessor" where
  "of_oxm_metadata_masked_value_mask = u64_accessor [OF_OXM_METADATA_MASKED] [(3, 12), (4, 12), (5, 12)]"

definition of_oxm_mpls_label_class :: wire_class where
  "of_oxm_mpls_label_class = \<lparr>class_id = OF_OXM_MPLS_LABEL, whole_buffer = False, wire_types = Some [(3, [Put32 0 0x80004404]),
     (4, [Put32 0 0x80004404]),
     (5, [Put32 0 0x80004404])],
     finishes = []\<rparr>"

definition of_oxm_mpls_label_value :: "32 word accessor" where
  "of_oxm_mpls_label_value = u32_accessor [OF_OXM_MPLS_LABEL] [(3, 4), (4, 4), (5, 4)]"

definition of_oxm_mpls_label_masked_class :: wire_class where
  "of_oxm_mpls_label_masked_class = \<lparr>class_id = OF_OXM_MPLS_LABEL_MASKED, whole_buffer = False, wire_types = Some [(3, [Put32 0 0x80004508]),
     (4, [Put32 0 0x80004508]),
     (5, [Put32 0 0x80004508])],
     finishes = []\<rparr>"

definition of_oxm_mpls_label_masked_value :: "32 word accessor" where
  "of_oxm_mpls_label_masked_value = u32_accessor [OF_OXM_MPLS_LABEL_MASKED] [(3, 4), (4, 4), (5, 4)]"

definition of_oxm_mpls_label_masked_value_mask :: "32 word accessor" where
  "of_oxm_mpls_label_masked_value_mask = u32_accessor [OF_OXM_MPLS_LABEL_MASKED] [(3, 8), (4, 8), (5, 8)]"

definition of_oxm_mpls_tc_class :: wire_class where
  "of_oxm_mpls_tc_class = \<lparr>class_id = OF_OXM_MPLS_TC, whole_buffer = False, wire_types = Some [(3, [Put32 0 0x80004601]),
     (4, [Put32 0 0x80004601]),
     (5, [Put32 0 0x80004601])],
     finishes = []\<rparr>"

definition of_oxm_mpls_tc_value :: "byte accessor" where
  "of_oxm_mpls_tc_value = u8_accessor [OF_OXM_MPLS_TC] [(3, 4), (4, 4), (5, 4)]"

definition of_oxm_mpls_tc_masked_class :: wire_class where
  "of_oxm_mpls_tc_masked_class = \<lparr>class_id = OF_OXM_MPLS_TC_MASKED, whole_buffer = False, wire_types = Some [(3, [Put32 0 0x80004702]),
     (4, [Put32 0 0x80004702]),
     (5, [Put32 0 0x80004702])],
     finishes = []\<rparr>"

definition of_oxm_mpls_tc_masked_value :: "byte accessor" where
  "of_oxm_mpls_tc_masked_value = u8_accessor [OF_OXM_MPLS_TC_MASKED] [(3, 4), (4, 4), (5, 4)]"

definition of_oxm_mpls_tc_masked_value_mask :: "byte accessor" where
  "of_oxm_mpls_tc_masked_value_mask = u8_accessor [OF_OXM_MPLS_TC_MASKED] [(3, 5), (4, 5), (5, 5)]"

definition of_oxm_sctp_dst_class :: wire_class where
  "of_oxm_sctp_dst_class = \<lparr>class_id = OF_OXM_SCTP_DST, whole_buffer = False, wire_types = Some [(3, [Put32 0 0x80002402]),
     (4, [Put32 0 0x80002402]),
     (5, [Put32 0 0x80002402])],
     finishes = []\<rparr>"

definition of_oxm_sctp_dst_value :: "16 word accessor" where
  "of_oxm_sctp_dst_value = u16_accessor [OF_OXM_SCTP_DST] [(3, 4), (4, 4), (5, 4)]"

definition of_oxm_sctp_dst_masked_class :: wire_class where
  "of_oxm_sctp_dst_masked_class = \<lparr>class_id = OF_OXM_SCTP_DST_MASKED, whole_buffer = False, wire_types = Some [(3, [Put32 0 0x80002504]),
     (4, [Put32 0 0x80002504]),
     (5, [Put32 0 0x80002504])],
     finishes = []\<rparr>"

definition of_oxm_sctp_dst_masked_value :: "16 word accessor" where
  "of_oxm_sctp_dst_masked_value = u16_accessor [OF_OXM_SCTP_DST_MASKED] [(3, 4), (4, 4), (5, 4)]"

definition of_oxm_sctp_dst_masked_value_mask :: "16 word accessor" where
  "of_oxm_sctp_dst_masked_value_mask = u16_accessor [OF_OXM_SCTP_DST_MASKED] [(3, 6), (4, 6), (5, 6)]"

definition of_oxm_sctp_src_class :: wire_class where
  "of_oxm_sctp_src_class = \<lparr>class_id = OF_OXM_SCTP_SRC, whole_buffer = False, wire_types = Some [(3, [Put32 0 0x80002202]),
     (4, [Put32 0 0x80002202]),
     (5, [Put32 0 0x80002202])],
     finishes = []\<rparr>"

definition of_oxm_sctp_src_value :: "16 word accessor" where
  "of_oxm_sctp_src_value = u16_accessor [OF_OXM_SCTP_SRC] [(3, 4), (4, 4), (5, 4)]"

definition of_oxm_sctp_src_masked_class :: wire_class where
  "of_oxm_sctp_src_masked_class = \<lparr>class_id = OF_OXM_SCTP_SRC_MASKED, whole_buffer = False, wire_types = Some [(3, [Put32 0 0x80002304]),
     (4, [Put32 0 0x80002304]),
     (5, [Put32 0 0x80002304])],
     finishes = []\<rparr>"

definition of_oxm_sctp_src_masked_value :: "16 word accessor" where
  "of_oxm_sctp_src_masked_value = u16_accessor [OF_OXM_SCTP_SRC_MASKED] [(3, 4), (4, 4), (5, 4)]"

definition of_oxm_sctp_src_masked_value_mask :: "16 word accessor" where
  "of_oxm_sctp_src_masked_value_mask = u16_accessor [OF_OXM_SCTP_SRC_MASKED] [(3, 6), (4, 6), (5, 6)]"

definition of_oxm_tcp_dst_class :: wire_class where
  "of_oxm_tcp_dst_class = \<lparr>class_id = OF_OXM_TCP_DST, whole_buffer = False, wire_types = Some [(3, [Put32 0 0x80001c02]),
     (4, [Put32 0 0x80001c02]),
     (5, [Put32 0 0x80001c02])],
     finishes = []\<rparr>"

definition of_oxm_tcp_dst_value :: "16 word accessor" where
  "of_oxm_tcp_dst_value = u16_accessor [OF_OXM_TCP_DST] [(3, 4), (4, 4), (5, 4)]"

definition of_oxm_tcp_dst_masked_class :: wire_class where
  "of_oxm_tcp_dst_masked_class = \<lparr>class_id = OF_OXM_TCP_DST_MASKED, whole_buffer = False, wire_types = Some [(3, [Put32 0 0x80001d04]),
     (4, [Put32 0 0x80001d04]),
     (5, [Put32 0 0x80001d04])],
     finishes = []\<rparr>"

definition of_oxm_tcp_dst_masked_value :: "16 word accessor" where
  "of_oxm_tcp_dst_masked_value = u16_accessor [OF_OXM_TCP_DST_MASKED] [(3, 4), (4, 4), (5, 4)]"

definition of_oxm_tcp_dst_masked_value_mask :: "16 word accessor" where
  "of_oxm_tcp_dst_masked_value_mask = u16_accessor [OF_OXM_TCP_DST_MASKED] [(3, 6), (4, 6), (5, 6)]"

definition of_oxm_tcp_src_class :: wire_class where
  "of_oxm_tcp_src_class = \<lparr>class_id = OF_OXM_TCP_SRC, whole_buffer = False, wire_types = Some [(3, [Put32 0 0x80001a02]),
     (4, [Put32 0 0x80001a02]),
     (5, [Put32 0 0x80001a02])],
     finishes = []\<rparr>"

definition of_oxm_tcp_src_value :: "16 word accessor" where
  "of_oxm_tcp_src_value = u16_accessor [OF_OXM_TCP_SRC] [(3, 4), (4, 4), (5, 4)]"

definition of_oxm_tcp_src_masked_class :: wire_class where
  "of_oxm_tcp_src_masked_class = \<lparr>class_id = OF_OXM_TCP_SRC_MASKED, whole_buffer = False, wire_types = Some [(3, [Put32 0 0x80001b04]),
     (4, [Put32 0 0x80001b04]),
     (5, [Put32 0 0x80001b04])],
     finishes = []\<rparr>"

definition of_oxm_tcp_src_masked_value :: "16 word accessor" where
  "of_oxm_tcp_src_masked_value = u16_accessor [OF_OXM_TCP_SRC_MASKED] [(3, 4), (4, 4), (5, 4)]"

definition of_oxm_tcp_src_masked_value_mask :: "16 word accessor" where
  "of_oxm_tcp_src_masked_value_mask = u16_accessor [OF_OXM_TCP_SRC_MASKED] [(3, 6), (4, 6), (5, 6)]"

definition of_oxm_tunnel_ipv4_dst_class :: wire_class where
  "of_oxm_tunnel_ipv4_dst_class = \<lparr>class_id = OF_OXM_TUNNEL_IPV4_DST, whole_buffer = False, wire_types = Some [(3, [Put32 0 0x14004]),
     (4, [Put32 0 0x14004]),
     (5, [Put32 0 0x14004])],
     finishes = []\<rparr>"

definition of_oxm_tunnel_ipv4_dst_value :: "32 word accessor" where
  "of_oxm_tunnel_ipv4_dst_value = ipv4_accessor [OF_OXM_TUNNEL_IPV4_DST] [(3, 4), (4, 4), (5, 4)]"

definition of_oxm_tunnel_ipv4_dst_masked_class :: wire_class where
  "of_oxm_tunnel_ipv4_dst_masked_class = \<lparr>class_id = OF_OXM_TUNNEL_IPV4_DST_MASKED, whole_buffer = False, wire_types = Some [(3, [Put32 0 0x14108]),
     (4, [Put32 0 0x14108]),
     (5, [Put32 0 0x14108])],
     finishes = []\<rparr>"

definition of_oxm_tunnel_ipv4_dst_masked_value :: "32 word accessor" where
  "of_oxm_tunnel_ipv4_dst_masked_value = ipv4_accessor [OF_OXM_TUNNEL_IPV4_DST_MASKED] [(3, 4), (4, 4), (5, 4)]"

definition of_oxm_tunnel_ipv4_dst_masked_value_mask :: "32 word accessor" where
  "of_oxm_tunnel_ipv4_dst_masked_value_mask = ipv4_accessor [OF_OXM_TUNNEL_IPV4_DST_MASKED] [(3, 8), (4, 8), (5, 8)]"

definition of_oxm_tunnel_ipv4_src_class :: wire_class where
  "of_oxm_tunnel_ipv4_src_class = \<lparr>class_id = OF_OXM_TUNNEL_IPV4_SRC, whole_buffer = False, wire_types = Some [(3, [Put32 0 0x13e04]),
     (4, [Put32 0 0x13e04]),
     (5, [Put32 0 0x13e04])],
     finishes = []\<rparr>"

definition of_oxm_tunnel_ipv4_src_value :: "32 word accessor" where
  "of_oxm_tunnel_ipv4_src_value = ipv4_accessor [OF_OXM_TUNNEL_IPV4_SRC] [(3, 4), (4, 4), (5, 4)]"

definition of_oxm_tunnel_ipv4_src_masked_class :: wire_class where
  "of_oxm_tunnel_ipv4_src_masked_class = \<lparr>class_id = OF_OXM_TUNNEL_IPV4_SRC_MASKED, whole_buffer = False, wire_types = Some [(3, [Put32 0 0x13f08]),
     (4, [Put32 0 0x13f08]),
     (5, [Put32 0 0x13f08])],
     finishes = []\<rparr>"

definition of_oxm_tunnel_ipv4_src_masked_value :: "32 word accessor" where
  "of_oxm_tunnel_ipv4_src_masked_value = ipv4_accessor [OF_OXM_TUNNEL_IPV4_SRC_MASKED] [(3, 4), (4, 4), (5, 4)]"

definition of_oxm_tunnel_ipv4_src_masked_value_mask :: "32 word accessor" where
  "of_oxm_tunnel_ipv4_src_masked_value_mask = ipv4_accessor [OF_OXM_TUNNEL_IPV4_SRC_MASKED] [(3, 8), (4, 8), (5, 8)]"

definition of_oxm_udp_dst_class :: wire_class where
  "of_oxm_udp_dst_class = \<lparr>class_id = OF_OXM_UDP_DST, whole_buffer = False, wire_types = Some [(3, [Put32 0 0x80002002]),
     (4, [Put32 0 0x80002002]),
     (5, [Put32 0 0x80002002])],
     finishes = []\<rparr>"

definition of_oxm_udp_dst_value :: "16 word accessor" where
  "of_oxm_udp_dst_value = u16_accessor [OF_OXM_UDP_DST] [(3, 4), (4, 4), (5, 4)]"

definition of_oxm_udp_dst_masked_class :: wire_class where
  "of_oxm_udp_dst_masked_class = \<lparr>class_id = OF_OXM_UDP_DST_MASKED, whole_buffer = False, wire_types = Some [(3, [Put32 0 0x80002104]),
     (4, [Put32 0 0x80002104]),
     (5, [Put32 0 0x80002104])],
     finishes = []\<rparr>"

definition of_oxm_udp_dst_masked_value :: "16 word accessor" where
  "of_oxm_udp_dst_masked_value = u16_accessor [OF_OXM_UDP_DST_MASKED] [(3, 4), (4, 4), (5, 4)]"

definition of_oxm_udp_dst_masked_value_mask :: "16 word accessor" where
  "of_oxm_udp_dst_masked_value_mask = u16_accessor [OF_OXM_UDP_DST_MASKED] [(3, 6), (4, 6), (5, 6)]"

definition of_oxm_udp_src_class :: wire_class where
  "of_oxm_udp_src_class = \<lparr>class_id = OF_OXM_UDP_SRC, whole_buffer = False, wire_types = Some [(3, [Put32 0 0x80001e02]),
     (4, [Put32 0 0x80001e02]),
     (5, [Put32 0 0x80001e02])],
     finishes = []\<rparr>"

definition of_oxm_udp_src_value :: "16 word accessor" where
  "of_oxm_udp_src_value = u16_accessor [OF_OXM_UDP_SRC] [(3, 4), (4, 4), (5, 4)]"

definition of_oxm_udp_src_masked_class :: wire_class where
  "of_oxm_udp_src_masked_class = \<lparr>class_id = OF_OXM_UDP_SRC_MASKED, whole_buffer = False, wire_types = Some [(3, [Put32 0 0x80001f04]),
     (4, [Put32 0 0x80001f04]),
     (5, [Put32 0 0x80001f04])],
     finishes = []\<rparr>"

definition of_oxm_udp_src_masked_value :: "16 word accessor" where
  "of_oxm_udp_src_masked_value = u16_accessor [OF_OXM_UDP_SRC_MASKED] [(3, 4), (4, 4), (5, 4)]"

definition of_oxm_udp_src_masked_value_mask :: "16 word accessor" where
  "of_oxm_udp_src_masked_value_mask = u16_accessor [OF_OXM_UDP_SRC_MASKED] [(3, 6), (4, 6), (5, 6)]"

definition of_oxm_vlan_pcp_class :: wire_class where
  "of_oxm_vlan_pcp_class = \<lparr>class_id = OF_OXM_VLAN_PCP, whole_buffer = False, wire_types = Some [(3, [Put32 0 0x80000e01]),
     (4, [Put32 0 0x80000e01]),
     (5, [Put32 0 0x80000e01])],
     finishes = []\<rparr>"

definition of_oxm_vlan_pcp_value :: "byte accessor" where
  "of_oxm_vlan_pcp_value = u8_accessor [OF_OXM_VLAN_PCP] [(3, 4), (4, 4), (5, 4)]"

definition of_oxm_vlan_pcp_masked_class :: wire_class where
  "of_oxm_vlan_pcp_masked_class = \<lparr>class_id = OF_OXM_VLAN_PCP_MASKED, whole_buffer = False, wire_types = Some [(3, [Put32 0 0x80000f02]),
     (4, [Put32 0 0x80000f02]),
     (5, [Put32 0 0x80000f02])],
     finishes = []\<rparr>"

definition of_oxm_vlan_pcp_masked_value :: "byte accessor" where
  "of_oxm_vlan_pcp_masked_value = u8_accessor [OF_OXM_VLAN_PCP_MASKED] [(3, 4), (4, 4), (5, 4)]"

definition of_oxm_vlan_pcp_masked_value_mask :: "byte accessor" where
  "of_oxm_vlan_pcp_masked_value_mask = u8_accessor [OF_OXM_VLAN_PCP_MASKED] [(3, 5), (4, 5), (5, 5)]"

definition of_oxm_vlan_vid_class :: wire_class where
  "of_oxm_vlan_vid_class = \<lparr>class_id = OF_OXM_VLAN_VID, whole_buffer = False, wire_types = Some [(3, [Put32 0 0x80000c02]),
     (4, [Put32 0 0x80000c02]),
     (5, [Put32 0 0x80000c02])],
     finishes = []\<rparr>"

definition of_oxm_vlan_vid_value :: "16 word accessor" where
  "of_oxm_vlan_vid_value = u16_accessor [OF_OXM_VLAN_VID] [(3, 4), (4, 4), (5, 4)]"

definition of_oxm_vlan_vid_masked_class :: wire_class where
  "of_oxm_vlan_vid_masked_class = \<lparr>class_id = OF_OXM_VLAN_VID_MASKED, whole_buffer = False, wire_types = Some [(3, [Put32 0 0x80000d04]),
     (4, [Put32 0 0x80000d04]),
     (5, [Put32 0 0x80000d04])],
     finishes = []\<rparr>"

definition of_oxm_vlan_vid_masked_value :: "16 word accessor" where
  "of_oxm_vlan_vid_masked_value = u16_accessor [OF_OXM_VLAN_VID_MASKED] [(3, 4), (4, 4), (5, 4)]"

definition of_oxm_vlan_vid_masked_value_mask :: "16 word accessor" where
  "of_oxm_vlan_vid_masked_value_mask = u16_accessor [OF_OXM_VLAN_VID_MASKED] [(3, 6), (4, 6), (5, 6)]"

definition of_queue_prop_experimenter_class :: wire_class where
  "of_queue_prop_experimenter_class = \<lparr>class_id = OF_QUEUE_PROP_EXPERIMENTER, whole_buffer = True, wire_types = None,
     finishes = []\<rparr>"

definition of_queue_prop_experimenter_experimenter :: "32 word accessor" where
  "of_queue_prop_experimenter_experimenter = u32_accessor [OF_QUEUE_PROP_EXPERIMENTER] [(3, 8), (4, 8), (5, 8)]"

definition of_queue_prop_max_rate_class :: wire_class where
  "of_queue_prop_max_rate_class = \<lparr>class_id = OF_QUEUE_PROP_MAX_RATE, whole_buffer = False, wire_types = Some [(3, [Put16 0 0x2]),
     (4, [Put16 0 0x2]),
     (5, [Put16 0 0x2])],
     finishes = [Tlv16Length]\<rparr>"

definition of_queue_prop_max_rate_rate :: "16 word accessor" where
  "of_queue_prop_max_rate_rate = u16_accessor [OF_QUEUE_PROP_MAX_RATE] [(3, 8), (4, 8), (5, 8)]"

text \<open>The classes, each with consistent wire types in every version that has it.\<close>

definition classes_08 :: "wire_class list" where
  "classes_08 = [of_oxm_ipv6_nd_tll_class, of_oxm_ipv6_nd_tll_masked_class, of_oxm_ipv6_src_class,
     of_oxm_ipv6_src_masked_class, of_oxm_metadata_class, of_oxm_metadata_masked_class,
     of_oxm_mpls_label_class, of_oxm_mpls_label_masked_class, of_oxm_mpls_tc_class,
     of_oxm_mpls_tc_masked_class, of_oxm_sctp_dst_class, of_oxm_sctp_dst_masked_class,
     of_oxm_sctp_src_class, of_oxm_sctp_src_masked_class, of_oxm_tcp_dst_class,
     of_oxm_tcp_dst_masked_class, of_oxm_tcp_src_class, of_oxm_tcp_src_masked_class,
     of_oxm_tunnel_ipv4_dst_class, of_oxm_tunnel_ipv4_dst_masked_class, of_oxm_tunnel_ipv4_src_class,
     of_oxm_tunnel_ipv4_src_masked_class, of_oxm_udp_dst_class, of_oxm_udp_dst_masked_class,
     of_oxm_udp_src_class, of_oxm_udp_src_masked_class, of_oxm_vlan_pcp_class,
     of_oxm_vlan_pcp_masked_class, of_oxm_vlan_vid_class, of_oxm_vlan_vid_masked_class,
     of_queue_prop_experimenter_class, of_queue_prop_max_rate_class]"

lemmas class_defs_08 =
  of_oxm_ipv6_nd_tll_class_def of_oxm_ipv6_nd_tll_masked_class_def of_oxm_ipv6_src_class_def
  of_oxm_ipv6_src_masked_class_def of_oxm_metadata_class_def of_oxm_metadata_masked_class_def
  of_oxm_mpls_label_class_def of_oxm_mpls_label_masked_class_def of_oxm_mpls_tc_class_def
  of_oxm_mpls_tc_masked_class_def of_oxm_sctp_dst_class_def of_oxm_sctp_dst_masked_class_def
  of_oxm_sctp_src_class_def of_oxm_sctp_src_masked_class_def of_oxm_tcp_dst_class_def
  of_oxm_tcp_dst_masked_class_def of_oxm_tcp_src_class_def of_oxm_tcp_src_masked_class_def
  of_oxm_tunnel_ipv4_dst_class_def of_oxm_tunnel_ipv4_dst_masked_class_def
  of_oxm_tunnel_ipv4_src_class_def of_oxm_tunnel_ipv4_src_masked_class_def of_oxm_udp_dst_class_def
  of_oxm_udp_dst_masked_class_def of_oxm_udp_src_class_def of_oxm_udp_src_masked_class_def
  of_oxm_vlan_pcp_class_def of_oxm_vlan_pcp_masked_class_def of_oxm_vlan_vid_class_def
  of_oxm_vlan_vid_masked_class_def of_queue_prop_experimenter_class_def
  of_queue_prop_max_rate_class_def

lemma classes_ok_08: "list_all class_ok classes_08"
  unfolding classes_08_def
  by (simp add: class_defs_08 class_checks)

text \<open>The accessors.\<close>

definition fields_08 :: "field list" where
  "fields_08 = [Octets 6 of_oxm_ipv6_nd_tll_value, Octets 6 of_oxm_ipv6_nd_tll_masked_value,
     Octets 6 of_oxm_ipv6_nd_tll_masked_value_mask, Octets 16 of_oxm_ipv6_src_value,
     Octets 16 of_oxm_ipv6_src_masked_value, Octets 16 of_oxm_ipv6_src_masked_value_mask,
     U64 of_oxm_metadata_value, U64 of_oxm_metadata_masked_value, U64 of_oxm_metadata_masked_value_mask,
     U32 of_oxm_mpls_label_value, U32 of_oxm_mpls_label_masked_value,
     U32 of_oxm_mpls_label_masked_value_mask, U8 of_oxm_mpls_tc_value, U8 of_oxm_mpls_tc_masked_value,
     U8 of_oxm_mpls_tc_masked_value_mask, U16 of_oxm_sctp_dst_value, U16 of_oxm_sctp_dst_masked_value,
     U16 of_oxm_sctp_dst_masked_value_mask, U16 of_oxm_sctp_src_value, U16 of_oxm_sctp_src_masked_value,
     U16 of_oxm_sctp_src_masked_value_mask, U16 of_oxm_tcp_dst_value, U16 of_oxm_tcp_dst_masked_value,
     U16 of_oxm_tcp_dst_masked_value_mask, U16 of_oxm_tcp_src_value, U16 of_oxm_tcp_src_masked_value,
     U16 of_oxm_tcp_src_masked_value_mask, U32 of_oxm_tunnel_ipv4_dst_value,
     U32 of_oxm_tunnel_ipv4_dst_masked_value, U32 of_oxm_tunnel_ipv4_dst_masked_value_mask,
     U32 of_oxm_tunnel_ipv4_src_value, U32 of_oxm_tunnel_ipv4_src_masked_value,
     U32 of_oxm_tunnel_ipv4_src_masked_value_mask, U16 of_oxm_udp_dst_value,
     U16 of_oxm_udp_dst_masked_value, U16 of_oxm_udp_dst_masked_value_mask, U16 of_oxm_udp_src_value,
     U16 of_oxm_udp_src_masked_value, U16 of_oxm_udp_src_masked_value_mask, U8 of_oxm_vlan_pcp_value,
     U8 of_oxm_vlan_pcp_masked_value, U8 of_oxm_vlan_pcp_masked_value_mask, U16 of_oxm_vlan_vid_value,
     U16 of_oxm_vlan_vid_masked_value, U16 of_oxm_vlan_vid_masked_value_mask,
     U32 of_queue_prop_experimenter_experimenter, U16 of_queue_prop_max_rate_rate]"

lemmas accessor_defs_08 =
  of_oxm_ipv6_nd_tll_value_def of_oxm_ipv6_nd_tll_masked_value_def
  of_oxm_ipv6_nd_tll_masked_value_mask_def of_oxm_ipv6_src_value_def
  of_oxm_ipv6_src_masked_value_def of_oxm_ipv6_src_masked_value_mask_def of_oxm_metadata_value_def
  of_oxm_metadata_masked_value_def of_oxm_metadata_masked_value_mask_def of_oxm_mpls_label_value_def
  of_oxm_mpls_label_masked_value_def of_oxm_mpls_label_masked_value_mask_def
  of_oxm_mpls_tc_value_def of_oxm_mpls_tc_masked_value_def of_oxm_mpls_tc_masked_value_mask_def
  of_oxm_sctp_dst_value_def of_oxm_sctp_dst_masked_value_def of_oxm_sctp_dst_masked_value_mask_def
  of_oxm_sctp_src_value_def of_oxm_sctp_src_masked_value_def of_oxm_sctp_src_masked_value_mask_def
  of_oxm_tcp_dst_value_def of_oxm_tcp_dst_masked_value_def of_oxm_tcp_dst_masked_value_mask_def
  of_oxm_tcp_src_value_def of_oxm_tcp_src_masked_value_def of_oxm_tcp_src_masked_value_mask_def
  of_oxm_tunnel_ipv4_dst_value_def of_oxm_tunnel_ipv4_dst_masked_value_def
  of_oxm_tunnel_ipv4_dst_masked_value_mask_def of_oxm_tunnel_ipv4_src_value_def
  of_oxm_tunnel_ipv4_src_masked_value_def of_oxm_tunnel_ipv4_src_masked_value_mask_def
  of_oxm_udp_dst_value_def of_oxm_udp_dst_masked_value_def of_oxm_udp_dst_masked_value_mask_def
  of_oxm_udp_src_value_def of_oxm_udp_src_masked_value_def of_oxm_udp_src_masked_value_mask_def
  of_oxm_vlan_pcp_value_def of_oxm_vlan_pcp_masked_value_def of_oxm_vlan_pcp_masked_value_mask_def
  of_oxm_vlan_vid_value_def of_oxm_vlan_vid_masked_value_def of_oxm_vlan_vid_masked_value_mask_def
  of_queue_prop_experimenter_experimenter_def of_queue_prop_max_rate_rate_def

lemma fields_ok_08: "list_all field_ok fields_08"
  unfolding fields_08_def accessor_defs_08
  by (simp add: accessors_ok octets_accessors_ok inside_rows del: field_ok.simps)

end
