(* ===== verification/Class09.thy ===== *)
theory Class09
  imports Construct
begin

text \<open>
  The classes of \<^verbatim>\<open>src/class09.c\<close>: for each what its constructor, initialiser and
  \<open>push_wire_types\<close> write, and the scalar accessors, a getter and a setter for each field at a fixed offset.
\<close>

definition of_role_reply_class :: wire_class where
  "of_role_reply_class = \<lparr>class_id = OF_ROLE_REPLY, whole_buffer = False, wire_types = Some [(3, [PutVersion 0, Put8 1 0x19]),
     (4, [PutVersion 0, Put8 1 0x19]),
     (5, [PutVersion 0, Put8 1 0x19])],
     finishes = [MessageLength]\<rparr>"

definition of_role_reply_xid :: "32 word accessor" where
  "of_role_reply_xid = u32_accessor [OF_ROLE_REPLY] [(3, 4), (4, 4), (5, 4)]"

definition of_role_reply_role :: "32 word accessor" where
  "of_role_reply_role = u32_accessor [OF_ROLE_REPLY] [(3, 8), (4, 8), (5, 8)]"

definition of_role_reply_generation_id :: "64 word accessor" where
  "of_role_reply_generation_id = u64_accessor [OF_ROLE_REPLY] [(3, 16), (4, 16), (5, 16)]"

definition of_role_request_class :: wire_class where
  "of_role_request_class = \<lparr>class_id = OF_ROLE_REQUEST, whole_buffer = False, wire_types = Some [(3, [PutVersion 0, Put8 1 0x18]),
     (4, [PutVersion 0, Put8 1 0x18]),
     (5, [PutVersion 0, Put8 1 0x18])],
     finishes = [MessageLength]\<rparr>"

definition of_role_request_xid :: "32 word accessor" where
  "of_role_request_xid = u32_accessor [OF_ROLE_REQUEST] [(3, 4), (4, 4), (5, 4)]"

definition of_role_request_role :: "32 word accessor" where
  "of_role_request_role = u32_accessor [OF_ROLE_REQUEST] [(3, 8), (4, 8), (5, 8)]"

definition of_role_request_generation_id :: "64 word accessor" where
  "of_role_request_generation_id = u64_accessor [OF_ROLE_REQUEST] [(3, 16), (4, 16), (5, 16)]"

definition of_role_request_failed_error_msg_class :: wire_class where
  "of_role_request_failed_error_msg_class = \<lparr>class_id = OF_ROLE_REQUEST_FAILED_ERROR_MSG, whole_buffer = True, wire_types = Some [(3, [PutVersion 0, Put8 1 0x1, Put16 8 0xb]),
     (4, [PutVersion 0, Put8 1 0x1, Put16 8 0xb]),
     (5, [PutVersion 0, Put8 1 0x1, Put16 8 0xb])],
     finishes = [MessageLength]\<rparr>"

definition of_role_request_failed_error_msg_xid :: "32 word accessor" where
  "of_role_request_failed_error_msg_xid = u32_accessor [OF_ROLE_REQUEST_FAILED_ERROR_MSG] [(3, 4), (4, 4), (5, 4)]"

definition of_role_request_failed_error_msg_code :: "16 word accessor" where
  "of_role_request_failed_error_msg_code = u16_accessor [OF_ROLE_REQUEST_FAILED_ERROR_MSG] [(3, 10), (4, 10), (5, 10)]"

definition of_action_id_class :: wire_class where
  "of_action_id_class = \<lparr>class_id = OF_ACTION_ID, whole_buffer = True, wire_types = None,
     finishes = []\<rparr>"

definition of_action_id_experimenter_class :: wire_class where
  "of_action_id_experimenter_class = \<lparr>class_id = OF_ACTION_ID_EXPERIMENTER, whole_buffer = True, wire_types = None,
     finishes = []\<rparr>"

definition of_action_id_experimenter_experimenter :: "32 word accessor" where
  "of_action_id_experimenter_experimenter = u32_accessor [OF_ACTION_ID_EXPERIMENTER] [(4, 4), (5, 4)]"

definition of_action_id_bsn_class :: wire_class where
  "of_action_id_bsn_class = \<lparr>class_id = OF_ACTION_ID_BSN, whole_buffer = True, wire_types = None,
     finishes = []\<rparr>"

definition of_action_id_bsn_experimenter :: "32 word accessor" where
  "of_action_id_bsn_experimenter = u32_accessor [OF_ACTION_ID_BSN] [(4, 4), (5, 4)]"

definition of_action_id_bsn_subtype :: "32 word accessor" where
  "of_action_id_bsn_subtype = u32_accessor [OF_ACTION_ID_BSN] [(4, 8), (5, 8)]"

definition of_action_id_bsn_checksum_class :: wire_class where
  "of_action_id_bsn_checksum_class = \<lparr>class_id = OF_ACTION_ID_BSN_CHECKSUM, whole_buffer = False, wire_types = Some [(4, [Put16 0 0xffff, Put32 4 0x5c16c7, Put32 8 0x4]),
     (5, [Put16 0 0xffff, Put32 4 0x5c16c7, Put32 8 0x4])],
     finishes = [Tlv16Length]\<rparr>"

definition of_action_id_bsn_checksum_experimenter :: "32 word accessor" where
  "of_action_id_bsn_checksum_experimenter = u32_accessor [OF_ACTION_ID_BSN_CHECKSUM] [(4, 4), (5, 4)]"

definition of_action_id_bsn_checksum_subtype :: "32 word accessor" where
  "of_action_id_bsn_checksum_subtype = u32_accessor [OF_ACTION_ID_BSN_CHECKSUM] [(4, 8), (5, 8)]"

definition of_action_bsn_gentable_class :: wire_class where
  "of_action_bsn_gentable_class = \<lparr>class_id = OF_ACTION_BSN_GENTABLE, whole_buffer = True, wire_types = Some [(4, [Put16 0 0xffff, Put32 4 0x5c16c7, Put32 8 0x5]),
     (5, [Put16 0 0xffff, Put32 4 0x5c16c7, Put32 8 0x5])],
     finishes = [Tlv16Length]\<rparr>"

definition of_action_bsn_gentable_experimenter :: "32 word accessor" where
  "of_action_bsn_gentable_experimenter = u32_accessor [OF_ACTION_BSN_GENTABLE] [(4, 4), (5, 4)]"

definition of_action_bsn_gentable_subtype :: "32 word accessor" where
  "of_action_bsn_gentable_subtype = u32_accessor [OF_ACTION_BSN_GENTABLE] [(4, 8), (5, 8)]"

definition of_action_bsn_gentable_table_id :: "32 word accessor" where
  "of_action_bsn_gentable_table_id = u32_accessor [OF_ACTION_BSN_GENTABLE] [(4, 12), (5, 12)]"

definition of_action_id_bsn_gentable_class :: wire_class where
  "of_action_id_bsn_gentable_class = \<lparr>class_id = OF_ACTION_ID_BSN_GENTABLE, whole_buffer = False, wire_types = Some [(4, [Put16 0 0xffff, Put32 4 0x5c16c7, Put32 8 0x5]),
     (5, [Put16 0 0xffff, Put32 4 0x5c16c7, Put32 8 0x5])],
     finishes = [Tlv16Length]\<rparr>"

definition of_action_id_bsn_gentable_experimenter :: "32 word accessor" where
  "of_action_id_bsn_gentable_experimenter = u32_accessor [OF_ACTION_ID_BSN_GENTABLE] [(4, 4), (5, 4)]"

definition of_action_id_bsn_gentable_subtype :: "32 word accessor" where
  "of_action_id_bsn_gentable_subtype = u32_accessor [OF_ACTION_ID_BSN_GENTABLE] [(4, 8), (5, 8)]"

definition of_action_id_bsn_mirror_class :: wire_class where
  "of_action_id_bsn_mirror_class = \<lparr>class_id = OF_ACTION_ID_BSN_MIRROR, whole_buffer = False, wire_types = Some [(4, [Put16 0 0xffff, Put32 4 0x5c16c7, Put32 8 0x1]),
     (5, [Put16 0 0xffff, Put32 4 0x5c16c7, Put32 8 0x1])],
     finishes = [Tlv16Length]\<rparr>"

definition of_action_id_bsn_mirror_experimenter :: "32 word accessor" where
  "of_action_id_bsn_mirror_experimenter = u32_accessor [OF_ACTION_ID_BSN_MIRROR] [(4, 4), (5, 4)]"

definition of_action_id_bsn_mirror_subtype :: "32 word accessor" where
  "of_action_id_bsn_mirror_subtype = u32_accessor [OF_ACTION_ID_BSN_MIRROR] [(4, 8), (5, 8)]"

definition of_action_id_bsn_set_tunnel_dst_class :: wire_class where
  "of_action_id_bsn_set_tunnel_dst_class = \<lparr>class_id = OF_ACTION_ID_BSN_SET_TUNNEL_DST, whole_buffer = False, wire_types = Some [(4, [Put16 0 0xffff, Put32 4 0x5c16c7, Put32 8 0x2]),
     (5, [Put16 0 0xffff, Put32 4 0x5c16c7, Put32 8 0x2])],
     finishes = [Tlv16Length]\<rparr>"

definition of_action_id_bsn_set_tunnel_dst_experimenter :: "32 word accessor" where
  "of_action_id_bsn_set_tunnel_dst_experimenter = u32_accessor [OF_ACTION_ID_BSN_SET_TUNNEL_DST] [(4, 4), (5, 4)]"

definition of_action_id_bsn_set_tunnel_dst_subtype :: "32 word accessor" where
  "of_action_id_bsn_set_tunnel_dst_subtype = u32_accessor [OF_ACTION_ID_BSN_SET_TUNNEL_DST] [(4, 8), (5, 8)]"

definition of_action_id_copy_ttl_in_class :: wire_class where
  "of_action_id_copy_ttl_in_class = \<lparr>class_id = OF_ACTION_ID_COPY_TTL_IN, whole_buffer = False, wire_types = Some [(4, [Put16 0 0xc]),
     (5, [Put16 0 0xc])],
     finishes = [Tlv16Length]\<rparr>"

definition of_action_id_copy_ttl_out_class :: wire_class where
  "of_action_id_copy_ttl_out_class = \<lparr>class_id = OF_ACTION_ID_COPY_TTL_OUT, whole_buffer = False, wire_types = Some [(4, [Put16 0 0xb]),
     (5, [Put16 0 0xb])],
     finishes = [Tlv16Length]\<rparr>"

definition of_action_id_dec_mpls_ttl_class :: wire_class where
  "of_action_id_dec_mpls_ttl_class = \<lparr>class_id = OF_ACTION_ID_DEC_MPLS_TTL, whole_buffer = False, wire_types = Some [(4, [Put16 0 0x10]),
     (5, [Put16 0 0x10])],
     finishes = [Tlv16Length]\<rparr>"

definition of_action_id_dec_nw_ttl_class :: wire_class where
  "of_action_id_dec_nw_ttl_class = \<lparr>class_id = OF_ACTION_ID_DEC_NW_TTL, whole_buffer = False, wire_types = Some [(4, [Put16 0 0x18]),
     (5, [Put16 0 0x18])],
     finishes = [Tlv16Length]\<rparr>"

definition of_action_id_group_class :: wire_class where
  "of_action_id_group_class = \<lparr>class_id = OF_ACTION_ID_GROUP, whole_buffer = False, wire_types = Some [(4, [Put16 0 0x16]),
     (5, [Put16 0 0x16])],
     finishes = [Tlv16Length]\<rparr>"

definition of_action_id_nicira_class :: wire_class where
  "of_action_id_nicira_class = \<lparr>class_id = OF_ACTION_ID_NICIRA, whole_buffer = True, wire_types = None,
     finishes = []\<rparr>"

definition of_action_id_nicira_experimenter :: "32 word accessor" where
  "of_action_id_nicira_experimenter = u32_accessor [OF_ACTION_ID_NICIRA] [(4, 4), (5, 4)]"

definition of_action_id_nicira_subtype :: "16 word accessor" where
  "of_action_id_nicira_subtype = u16_accessor [OF_ACTION_ID_NICIRA] [(4, 8), (5, 8)]"

definition of_action_id_nicira_dec_ttl_class :: wire_class where
  "of_action_id_nicira_dec_ttl_class = \<lparr>class_id = OF_ACTION_ID_NICIRA_DEC_TTL, whole_buffer = False, wire_types = Some [(4, [Put16 0 0xffff, Put32 4 0x2320, Put16 8 0x12]),
     (5, [Put16 0 0xffff, Put32 4 0x2320, Put16 8 0x12])],
     finishes = [Tlv16Length]\<rparr>"

definition of_action_id_nicira_dec_ttl_experimenter :: "32 word accessor" where
  "of_action_id_nicira_dec_ttl_experimenter = u32_accessor [OF_ACTION_ID_NICIRA_DEC_TTL] [(4, 4), (5, 4)]"

definition of_action_id_nicira_dec_ttl_subtype :: "16 word accessor" where
  "of_action_id_nicira_dec_ttl_subtype = u16_accessor [OF_ACTION_ID_NICIRA_DEC_TTL] [(4, 8), (5, 8)]"

definition of_action_id_output_class :: wire_class where
  "of_action_id_output_class = \<lparr>class_id = OF_ACTION_ID_OUTPUT, whole_buffer = False, wire_types = Some [(4, [Put16 0 0x0]),
     (5, [Put16 0 0x0])],
     finishes = [Tlv16Length]\<rparr>"

definition of_action_id_pop_mpls_class :: wire_class where
  "of_action_id_pop_mpls_class = \<lparr>class_id = OF_ACTION_ID_POP_MPLS, whole_buffer = False, wire_types = Some [(4, [Put16 0 0x14]),
     (5, [Put16 0 0x14])],
     finishes = [Tlv16Length]\<rparr>"

definition of_action_pop_pbb_class :: wire_class where
  "of_action_pop_pbb_class = \<lparr>class_id = OF_ACTION_POP_PBB, whole_buffer = False, wire_types = Some [(4, [Put16 0 0x1b]),
     (5, [Put16 0 0x1b])],
     finishes = [Tlv16Length]\<rparr>"

definition of_action_id_pop_pbb_class :: wire_class where
  "of_action_id_pop_pbb_class = \<lparr>class_id = OF_ACTION_ID_POP_PBB, whole_buffer = False, wire_types = Some [(4, [Put16 0 0x1b]),
     (5, [Put16 0 0x1b])],
     finishes = [Tlv16Length]\<rparr>"

definition of_action_id_pop_vlan_class :: wire_class where
  "of_action_id_pop_vlan_class = \<lparr>class_id = OF_ACTION_ID_POP_VLAN, whole_buffer = False, wire_types = Some [(4, [Put16 0 0x12]),
     (5, [Put16 0 0x12])],
     finishes = [Tlv16Length]\<rparr>"

definition of_action_id_push_mpls_class :: wire_class where
  "of_action_id_push_mpls_class = \<lparr>class_id = OF_ACTION_ID_PUSH_MPLS, whole_buffer = False, wire_types = Some [(4, [Put16 0 0x13]),
     (5, [Put16 0 0x13])],
     finishes = [Tlv16Length]\<rparr>"

definition of_action_push_pbb_class :: wire_class where
  "of_action_push_pbb_class = \<lparr>class_id = OF_ACTION_PUSH_PBB, whole_buffer = False, wire_types = Some [(4, [Put16 0 0x1a]),
     (5, [Put16 0 0x1a])],
     finishes = [Tlv16Length]\<rparr>"

definition of_action_push_pbb_ethertype :: "16 word accessor" where
  "of_action_push_pbb_ethertype = u16_accessor [OF_ACTION_PUSH_PBB] [(4, 4), (5, 4)]"

definition of_action_id_push_pbb_class :: wire_class where
  "of_action_id_push_pbb_class = \<lparr>class_id = OF_ACTION_ID_PUSH_PBB, whole_buffer = False, wire_types = Some [(4, [Put16 0 0x1a]),
     (5, [Put16 0 0x1a])],
     finishes = [Tlv16Length]\<rparr>"

definition of_action_id_push_vlan_class :: wire_class where
  "of_action_id_push_vlan_class = \<lparr>class_id = OF_ACTION_ID_PUSH_VLAN, whole_buffer = False, wire_types = Some [(4, [Put16 0 0x11]),
     (5, [Put16 0 0x11])],
     finishes = [Tlv16Length]\<rparr>"

definition of_action_id_set_field_class :: wire_class where
  "of_action_id_set_field_class = \<lparr>class_id = OF_ACTION_ID_SET_FIELD, whole_buffer = False, wire_types = Some [(4, [Put16 0 0x19]),
     (5, [Put16 0 0x19])],
     finishes = [Tlv16Length]\<rparr>"

definition of_action_id_set_mpls_ttl_class :: wire_class where
  "of_action_id_set_mpls_ttl_class = \<lparr>class_id = OF_ACTION_ID_SET_MPLS_TTL, whole_buffer = False, wire_types = Some [(4, [Put16 0 0xf]),
     (5, [Put16 0 0xf])],
     finishes = [Tlv16Length]\<rparr>"

definition of_action_id_set_nw_ttl_class :: wire_class where
  "of_action_id_set_nw_ttl_class = \<lparr>class_id = OF_ACTION_ID_SET_NW_TTL, whole_buffer = False, wire_types = Some [(4, [Put16 0 0x17]),
     (5, [Put16 0 0x17])],
     finishes = [Tlv16Length]\<rparr>"

definition of_action_id_set_queue_class :: wire_class where
  "of_action_id_set_queue_class = \<lparr>class_id = OF_ACTION_ID_SET_QUEUE, whole_buffer = False, wire_types = Some [(4, [Put16 0 0x15]),
     (5, [Put16 0 0x15])],
     finishes = [Tlv16Length]\<rparr>"

definition of_async_get_reply_class :: wire_class where
  "of_async_get_reply_class = \<lparr>class_id = OF_ASYNC_GET_REPLY, whole_buffer = True, wire_types = Some [(4, [PutVersion 0, Put8 1 0x1b]),
     (5, [PutVersion 0, Put8 1 0x1b])],
     finishes = [MessageLength]\<rparr>"

definition of_async_get_reply_xid :: "32 word accessor" where
  "of_async_get_reply_xid = u32_accessor [OF_ASYNC_GET_REPLY] [(4, 4), (5, 4)]"

definition of_async_get_reply_packet_in_mask_equal_master :: "32 word accessor" where
  "of_async_get_reply_packet_in_mask_equal_master = u32_accessor [OF_ASYNC_GET_REPLY] [(4, 8)]"

definition of_async_get_reply_packet_in_mask_slave :: "32 word accessor" where
  "of_async_get_reply_packet_in_mask_slave = u32_accessor [OF_ASYNC_GET_REPLY] [(4, 12)]"

definition of_async_get_reply_port_status_mask_equal_master :: "32 word accessor" where
  "of_async_get_reply_port_status_mask_equal_master = u32_accessor [OF_ASYNC_GET_REPLY] [(4, 16)]"

definition of_async_get_reply_port_status_mask_slave :: "32 word accessor" where
  "of_async_get_reply_port_status_mask_slave = u32_accessor [OF_ASYNC_GET_REPLY] [(4, 20)]"

definition of_async_get_reply_flow_removed_mask_equal_master :: "32 word accessor" where
  "of_async_get_reply_flow_removed_mask_equal_master = u32_accessor [OF_ASYNC_GET_REPLY] [(4, 24)]"

definition of_async_get_reply_flow_removed_mask_slave :: "32 word accessor" where
  "of_async_get_reply_flow_removed_mask_slave = u32_accessor [OF_ASYNC_GET_REPLY] [(4, 28)]"

text \<open>The classes, each with consistent wire types in every version that has it.\<close>

definition classes_09 :: "wire_class list" where
  "classes_09 = [of_role_reply_class, of_role_request_class, of_role_request_failed_error_msg_class,
     of_action_id_class, of_action_id_experimenter_class, of_action_id_bsn_class,
     of_action_id_bsn_checksum_class, of_action_bsn_gentable_class, of_action_id_bsn_gentable_class,
     of_action_id_bsn_mirror_class, of_action_id_bsn_set_tunnel_dst_class, of_action_id_copy_ttl_in_class,
     of_action_id_copy_ttl_out_class, of_action_id_dec_mpls_ttl_class, of_action_id_dec_nw_ttl_class,
     of_action_id_group_class, of_action_id_nicira_class, of_action_id_nicira_dec_ttl_class,
     of_action_id_output_class, of_action_id_pop_mpls_class, of_action_pop_pbb_class,
     of_action_id_pop_pbb_class, of_action_id_pop_vlan_class, of_action_id_push_mpls_class,
     of_action_push_pbb_class, of_action_id_push_pbb_class, of_action_id_push_vlan_class,
     of_action_id_set_field_class, of_action_id_set_mpls_ttl_class, of_action_id_set_nw_ttl_class,
     of_action_id_set_queue_class, of_async_get_reply_class]"

lemmas class_defs_09 =
  of_role_reply_class_def of_role_request_class_def of_role_request_failed_error_msg_class_def
  of_action_id_class_def of_action_id_experimenter_class_def of_action_id_bsn_class_def
  of_action_id_bsn_checksum_class_def of_action_bsn_gentable_class_def
  of_action_id_bsn_gentable_class_def of_action_id_bsn_mirror_class_def
  of_action_id_bsn_set_tunnel_dst_class_def of_action_id_copy_ttl_in_class_def
  of_action_id_copy_ttl_out_class_def of_action_id_dec_mpls_ttl_class_def
  of_action_id_dec_nw_ttl_class_def of_action_id_group_class_def of_action_id_nicira_class_def
  of_action_id_nicira_dec_ttl_class_def of_action_id_output_class_def
  of_action_id_pop_mpls_class_def of_action_pop_pbb_class_def of_action_id_pop_pbb_class_def
  of_action_id_pop_vlan_class_def of_action_id_push_mpls_class_def of_action_push_pbb_class_def
  of_action_id_push_pbb_class_def of_action_id_push_vlan_class_def of_action_id_set_field_class_def
  of_action_id_set_mpls_ttl_class_def of_action_id_set_nw_ttl_class_def
  of_action_id_set_queue_class_def of_async_get_reply_class_def

lemma classes_ok_09: "list_all class_ok classes_09"
  unfolding classes_09_def
  by (simp add: class_defs_09 class_checks)

text \<open>The accessors.\<close>

definition fields_09 :: "field list" where
  "fields_09 = [U32 of_role_reply_xid, U32 of_role_reply_role, U64 of_role_reply_generation_id,
     U32 of_role_request_xid, U32 of_role_request_role, U64 of_role_request_generation_id,
     U32 of_role_request_failed_error_msg_xid, U16 of_role_request_failed_error_msg_code,
     U32 of_action_id_experimenter_experimenter, U32 of_action_id_bsn_experimenter,
     U32 of_action_id_bsn_subtype, U32 of_action_id_bsn_checksum_experimenter,
     U32 of_action_id_bsn_checksum_subtype, U32 of_action_bsn_gentable_experimenter,
     U32 of_action_bsn_gentable_subtype, U32 of_action_bsn_gentable_table_id,
     U32 of_action_id_bsn_gentable_experimenter, U32 of_action_id_bsn_gentable_subtype,
     U32 of_action_id_bsn_mirror_experimenter, U32 of_action_id_bsn_mirror_subtype,
     U32 of_action_id_bsn_set_tunnel_dst_experimenter, U32 of_action_id_bsn_set_tunnel_dst_subtype,
     U32 of_action_id_nicira_experimenter, U16 of_action_id_nicira_subtype,
     U32 of_action_id_nicira_dec_ttl_experimenter, U16 of_action_id_nicira_dec_ttl_subtype,
     U16 of_action_push_pbb_ethertype, U32 of_async_get_reply_xid,
     U32 of_async_get_reply_packet_in_mask_equal_master, U32 of_async_get_reply_packet_in_mask_slave,
     U32 of_async_get_reply_port_status_mask_equal_master, U32 of_async_get_reply_port_status_mask_slave,
     U32 of_async_get_reply_flow_removed_mask_equal_master,
     U32 of_async_get_reply_flow_removed_mask_slave]"

lemmas accessor_defs_09 =
  of_role_reply_xid_def of_role_reply_role_def of_role_reply_generation_id_def
  of_role_request_xid_def of_role_request_role_def of_role_request_generation_id_def
  of_role_request_failed_error_msg_xid_def of_role_request_failed_error_msg_code_def
  of_action_id_experimenter_experimenter_def of_action_id_bsn_experimenter_def
  of_action_id_bsn_subtype_def of_action_id_bsn_checksum_experimenter_def
  of_action_id_bsn_checksum_subtype_def of_action_bsn_gentable_experimenter_def
  of_action_bsn_gentable_subtype_def of_action_bsn_gentable_table_id_def
  of_action_id_bsn_gentable_experimenter_def of_action_id_bsn_gentable_subtype_def
  of_action_id_bsn_mirror_experimenter_def of_action_id_bsn_mirror_subtype_def
  of_action_id_bsn_set_tunnel_dst_experimenter_def of_action_id_bsn_set_tunnel_dst_subtype_def
  of_action_id_nicira_experimenter_def of_action_id_nicira_subtype_def
  of_action_id_nicira_dec_ttl_experimenter_def of_action_id_nicira_dec_ttl_subtype_def
  of_action_push_pbb_ethertype_def of_async_get_reply_xid_def
  of_async_get_reply_packet_in_mask_equal_master_def of_async_get_reply_packet_in_mask_slave_def
  of_async_get_reply_port_status_mask_equal_master_def of_async_get_reply_port_status_mask_slave_def
  of_async_get_reply_flow_removed_mask_equal_master_def
  of_async_get_reply_flow_removed_mask_slave_def

lemma fields_ok_09: "list_all field_ok fields_09"
  unfolding fields_09_def accessor_defs_09
  by (simp add: accessors_ok octets_accessors_ok inside_rows del: field_ok.simps)

end
