(* ===== verification/Class10.thy ===== *)
theory Class10
  imports Construct
begin

text \<open>
  The classes of \<^verbatim>\<open>src/class10.c\<close>: for each what its constructor, initialiser and
  \<open>push_wire_types\<close> write, and the scalar accessors, a getter and a setter for each field at a fixed offset.
\<close>

definition of_async_get_request_class :: wire_class where
  "of_async_get_request_class = \<lparr>class_id = OF_ASYNC_GET_REQUEST, whole_buffer = True, wire_types = Some [(4, [PutVersion 0, Put8 1 0x1a]),
     (5, [PutVersion 0, Put8 1 0x1a])],
     finishes = [MessageLength]\<rparr>"

definition of_async_get_request_xid :: "32 word accessor" where
  "of_async_get_request_xid = u32_accessor [OF_ASYNC_GET_REQUEST] [(4, 4), (5, 4)]"

definition of_async_get_request_packet_in_mask_equal_master :: "32 word accessor" where
  "of_async_get_request_packet_in_mask_equal_master = u32_accessor [OF_ASYNC_GET_REQUEST] [(4, 8)]"

definition of_async_get_request_packet_in_mask_slave :: "32 word accessor" where
  "of_async_get_request_packet_in_mask_slave = u32_accessor [OF_ASYNC_GET_REQUEST] [(4, 12)]"

definition of_async_get_request_port_status_mask_equal_master :: "32 word accessor" where
  "of_async_get_request_port_status_mask_equal_master = u32_accessor [OF_ASYNC_GET_REQUEST] [(4, 16)]"

definition of_async_get_request_port_status_mask_slave :: "32 word accessor" where
  "of_async_get_request_port_status_mask_slave = u32_accessor [OF_ASYNC_GET_REQUEST] [(4, 20)]"

definition of_async_get_request_flow_removed_mask_equal_master :: "32 word accessor" where
  "of_async_get_request_flow_removed_mask_equal_master = u32_accessor [OF_ASYNC_GET_REQUEST] [(4, 24)]"

definition of_async_get_request_flow_removed_mask_slave :: "32 word accessor" where
  "of_async_get_request_flow_removed_mask_slave = u32_accessor [OF_ASYNC_GET_REQUEST] [(4, 28)]"

definition of_async_set_class :: wire_class where
  "of_async_set_class = \<lparr>class_id = OF_ASYNC_SET, whole_buffer = True, wire_types = Some [(4, [PutVersion 0, Put8 1 0x1c]),
     (5, [PutVersion 0, Put8 1 0x1c])],
     finishes = [MessageLength]\<rparr>"

definition of_async_set_xid :: "32 word accessor" where
  "of_async_set_xid = u32_accessor [OF_ASYNC_SET] [(4, 4), (5, 4)]"

definition of_async_set_packet_in_mask_equal_master :: "32 word accessor" where
  "of_async_set_packet_in_mask_equal_master = u32_accessor [OF_ASYNC_SET] [(4, 8)]"

definition of_async_set_packet_in_mask_slave :: "32 word accessor" where
  "of_async_set_packet_in_mask_slave = u32_accessor [OF_ASYNC_SET] [(4, 12)]"

definition of_async_set_port_status_mask_equal_master :: "32 word accessor" where
  "of_async_set_port_status_mask_equal_master = u32_accessor [OF_ASYNC_SET] [(4, 16)]"

definition of_async_set_port_status_mask_slave :: "32 word accessor" where
  "of_async_set_port_status_mask_slave = u32_accessor [OF_ASYNC_SET] [(4, 20)]"

definition of_async_set_flow_removed_mask_equal_master :: "32 word accessor" where
  "of_async_set_flow_removed_mask_equal_master = u32_accessor [OF_ASYNC_SET] [(4, 24)]"

definition of_async_set_flow_removed_mask_slave :: "32 word accessor" where
  "of_async_set_flow_removed_mask_slave = u32_accessor [OF_ASYNC_SET] [(4, 28)]"

definition of_bsn_arp_idle_class :: wire_class where
  "of_bsn_arp_idle_class = \<lparr>class_id = OF_BSN_ARP_IDLE, whole_buffer = False, wire_types = Some [(4, [PutVersion 0, Put8 1 0x4, Put32 8 0x5c16c7, Put32 12 0x3c]),
     (5, [PutVersion 0, Put8 1 0x4, Put32 8 0x5c16c7, Put32 12 0x3c])],
     finishes = [MessageLength]\<rparr>"

definition of_bsn_arp_idle_xid :: "32 word accessor" where
  "of_bsn_arp_idle_xid = u32_accessor [OF_BSN_ARP_IDLE] [(4, 4), (5, 4)]"

definition of_bsn_arp_idle_experimenter :: "32 word accessor" where
  "of_bsn_arp_idle_experimenter = u32_accessor [OF_BSN_ARP_IDLE] [(4, 8), (5, 8)]"

definition of_bsn_arp_idle_subtype :: "32 word accessor" where
  "of_bsn_arp_idle_subtype = u32_accessor [OF_BSN_ARP_IDLE] [(4, 12), (5, 12)]"

definition of_bsn_arp_idle_vlan_vid :: "16 word accessor" where
  "of_bsn_arp_idle_vlan_vid = u16_accessor [OF_BSN_ARP_IDLE] [(4, 16), (5, 16)]"

definition of_bsn_arp_idle_ipv4_addr :: "32 word accessor" where
  "of_bsn_arp_idle_ipv4_addr = ipv4_accessor [OF_BSN_ARP_IDLE] [(4, 20), (5, 20)]"

definition of_bsn_controller_connection_class :: wire_class where
  "of_bsn_controller_connection_class = \<lparr>class_id = OF_BSN_CONTROLLER_CONNECTION, whole_buffer = False, wire_types = None,
     finishes = []\<rparr>"

definition of_bsn_controller_connection_state :: "byte accessor" where
  "of_bsn_controller_connection_state = u8_accessor [OF_BSN_CONTROLLER_CONNECTION] [(4, 0), (5, 0)]"

definition of_bsn_controller_connection_auxiliary_id :: "byte accessor" where
  "of_bsn_controller_connection_auxiliary_id = u8_accessor [OF_BSN_CONTROLLER_CONNECTION] [(4, 1), (5, 1)]"

definition of_bsn_controller_connection_role :: "32 word accessor" where
  "of_bsn_controller_connection_role = u32_accessor [OF_BSN_CONTROLLER_CONNECTION] [(4, 4), (5, 4)]"

definition of_bsn_controller_connection_uri :: "byte list accessor" where
  "of_bsn_controller_connection_uri = desc_str_accessor [OF_BSN_CONTROLLER_CONNECTION] [(4, 8), (5, 8)]"

definition of_bsn_controller_connections_reply_class :: wire_class where
  "of_bsn_controller_connections_reply_class = \<lparr>class_id = OF_BSN_CONTROLLER_CONNECTIONS_REPLY, whole_buffer = True, wire_types = Some [(4, [PutVersion 0, Put8 1 0x4, Put32 8 0x5c16c7, Put32 12 0x39]),
     (5, [PutVersion 0, Put8 1 0x4, Put32 8 0x5c16c7, Put32 12 0x39])],
     finishes = [MessageLength]\<rparr>"

definition of_bsn_controller_connections_reply_xid :: "32 word accessor" where
  "of_bsn_controller_connections_reply_xid = u32_accessor [OF_BSN_CONTROLLER_CONNECTIONS_REPLY] [(4, 4), (5, 4)]"

definition of_bsn_controller_connections_reply_experimenter :: "32 word accessor" where
  "of_bsn_controller_connections_reply_experimenter = u32_accessor [OF_BSN_CONTROLLER_CONNECTIONS_REPLY] [(4, 8), (5, 8)]"

definition of_bsn_controller_connections_reply_subtype :: "32 word accessor" where
  "of_bsn_controller_connections_reply_subtype = u32_accessor [OF_BSN_CONTROLLER_CONNECTIONS_REPLY] [(4, 12), (5, 12)]"

definition of_bsn_controller_connections_request_class :: wire_class where
  "of_bsn_controller_connections_request_class = \<lparr>class_id = OF_BSN_CONTROLLER_CONNECTIONS_REQUEST, whole_buffer = False, wire_types = Some [(4, [PutVersion 0, Put8 1 0x4, Put32 8 0x5c16c7, Put32 12 0x38]),
     (5, [PutVersion 0, Put8 1 0x4, Put32 8 0x5c16c7, Put32 12 0x38])],
     finishes = [MessageLength]\<rparr>"

definition of_bsn_controller_connections_request_xid :: "32 word accessor" where
  "of_bsn_controller_connections_request_xid = u32_accessor [OF_BSN_CONTROLLER_CONNECTIONS_REQUEST] [(4, 4), (5, 4)]"

definition of_bsn_controller_connections_request_experimenter :: "32 word accessor" where
  "of_bsn_controller_connections_request_experimenter = u32_accessor [OF_BSN_CONTROLLER_CONNECTIONS_REQUEST] [(4, 8), (5, 8)]"

definition of_bsn_controller_connections_request_subtype :: "32 word accessor" where
  "of_bsn_controller_connections_request_subtype = u32_accessor [OF_BSN_CONTROLLER_CONNECTIONS_REQUEST] [(4, 12), (5, 12)]"

definition of_bsn_debug_counter_desc_stats_entry_class :: wire_class where
  "of_bsn_debug_counter_desc_stats_entry_class = \<lparr>class_id = OF_BSN_DEBUG_COUNTER_DESC_STATS_ENTRY, whole_buffer = False, wire_types = None,
     finishes = []\<rparr>"

definition of_bsn_debug_counter_desc_stats_entry_counter_id :: "64 word accessor" where
  "of_bsn_debug_counter_desc_stats_entry_counter_id = u64_accessor [OF_BSN_DEBUG_COUNTER_DESC_STATS_ENTRY] [(4, 0), (5, 0)]"

definition of_bsn_debug_counter_desc_stats_entry_name :: "byte list accessor" where
  "of_bsn_debug_counter_desc_stats_entry_name = str64_accessor [OF_BSN_DEBUG_COUNTER_DESC_STATS_ENTRY] [(4, 8), (5, 8)]"

definition of_bsn_debug_counter_desc_stats_entry_description :: "byte list accessor" where
  "of_bsn_debug_counter_desc_stats_entry_description = desc_str_accessor [OF_BSN_DEBUG_COUNTER_DESC_STATS_ENTRY] [(4, 72), (5, 72)]"

definition of_bsn_debug_counter_desc_stats_reply_class :: wire_class where
  "of_bsn_debug_counter_desc_stats_reply_class = \<lparr>class_id = OF_BSN_DEBUG_COUNTER_DESC_STATS_REPLY, whole_buffer = True, wire_types = Some [(4, [PutVersion 0, Put8 1 0x13, Put16 8 0xffff, Put32 16 0x5c16c7, Put32 20 0xd]),
     (5, [PutVersion 0, Put8 1 0x13, Put16 8 0xffff, Put32 16 0x5c16c7, Put32 20 0xd])],
     finishes = [MessageLength]\<rparr>"

definition of_bsn_debug_counter_desc_stats_reply_xid :: "32 word accessor" where
  "of_bsn_debug_counter_desc_stats_reply_xid = u32_accessor [OF_BSN_DEBUG_COUNTER_DESC_STATS_REPLY] [(4, 4), (5, 4)]"

definition of_bsn_debug_counter_desc_stats_reply_flags :: "16 word accessor" where
  "of_bsn_debug_counter_desc_stats_reply_flags = u16_accessor [OF_BSN_DEBUG_COUNTER_DESC_STATS_REPLY] [(4, 10), (5, 10)]"

definition of_bsn_debug_counter_desc_stats_reply_experimenter :: "32 word accessor" where
  "of_bsn_debug_counter_desc_stats_reply_experimenter = u32_accessor [OF_BSN_DEBUG_COUNTER_DESC_STATS_REPLY] [(4, 16), (5, 16)]"

definition of_bsn_debug_counter_desc_stats_reply_subtype :: "32 word accessor" where
  "of_bsn_debug_counter_desc_stats_reply_subtype = u32_accessor [OF_BSN_DEBUG_COUNTER_DESC_STATS_REPLY] [(4, 20), (5, 20)]"

definition of_bsn_debug_counter_desc_stats_request_class :: wire_class where
  "of_bsn_debug_counter_desc_stats_request_class = \<lparr>class_id = OF_BSN_DEBUG_COUNTER_DESC_STATS_REQUEST, whole_buffer = False, wire_types = Some [(4, [PutVersion 0, Put8 1 0x12, Put16 8 0xffff, Put32 16 0x5c16c7, Put32 20 0xd]),
     (5, [PutVersion 0, Put8 1 0x12, Put16 8 0xffff, Put32 16 0x5c16c7, Put32 20 0xd])],
     finishes = [MessageLength]\<rparr>"

definition of_bsn_debug_counter_desc_stats_request_xid :: "32 word accessor" where
  "of_bsn_debug_counter_desc_stats_request_xid = u32_accessor [OF_BSN_DEBUG_COUNTER_DESC_STATS_REQUEST] [(4, 4), (5, 4)]"

definition of_bsn_debug_counter_desc_stats_request_flags :: "16 word accessor" where
  "of_bsn_debug_counter_desc_stats_request_flags = u16_accessor [OF_BSN_DEBUG_COUNTER_DESC_STATS_REQUEST] [(4, 10), (5, 10)]"

definition of_bsn_debug_counter_desc_stats_request_experimenter :: "32 word accessor" where
  "of_bsn_debug_counter_desc_stats_request_experimenter = u32_accessor [OF_BSN_DEBUG_COUNTER_DESC_STATS_REQUEST] [(4, 16), (5, 16)]"

definition of_bsn_debug_counter_desc_stats_request_subtype :: "32 word accessor" where
  "of_bsn_debug_counter_desc_stats_request_subtype = u32_accessor [OF_BSN_DEBUG_COUNTER_DESC_STATS_REQUEST] [(4, 20), (5, 20)]"

definition of_bsn_debug_counter_stats_entry_class :: wire_class where
  "of_bsn_debug_counter_stats_entry_class = \<lparr>class_id = OF_BSN_DEBUG_COUNTER_STATS_ENTRY, whole_buffer = False, wire_types = None,
     finishes = []\<rparr>"

definition of_bsn_debug_counter_stats_entry_counter_id :: "64 word accessor" where
  "of_bsn_debug_counter_stats_entry_counter_id = u64_accessor [OF_BSN_DEBUG_COUNTER_STATS_ENTRY] [(4, 0), (5, 0)]"

definition of_bsn_debug_counter_stats_entry_value :: "64 word accessor" where
  "of_bsn_debug_counter_stats_entry_value = u64_accessor [OF_BSN_DEBUG_COUNTER_STATS_ENTRY] [(4, 8), (5, 8)]"

definition of_bsn_debug_counter_stats_reply_class :: wire_class where
  "of_bsn_debug_counter_stats_reply_class = \<lparr>class_id = OF_BSN_DEBUG_COUNTER_STATS_REPLY, whole_buffer = True, wire_types = Some [(4, [PutVersion 0, Put8 1 0x13, Put16 8 0xffff, Put32 16 0x5c16c7, Put32 20 0xc]),
     (5, [PutVersion 0, Put8 1 0x13, Put16 8 0xffff, Put32 16 0x5c16c7, Put32 20 0xc])],
     finishes = [MessageLength]\<rparr>"

definition of_bsn_debug_counter_stats_reply_xid :: "32 word accessor" where
  "of_bsn_debug_counter_stats_reply_xid = u32_accessor [OF_BSN_DEBUG_COUNTER_STATS_REPLY] [(4, 4), (5, 4)]"

definition of_bsn_debug_counter_stats_reply_flags :: "16 word accessor" where
  "of_bsn_debug_counter_stats_reply_flags = u16_accessor [OF_BSN_DEBUG_COUNTER_STATS_REPLY] [(4, 10), (5, 10)]"

definition of_bsn_debug_counter_stats_reply_experimenter :: "32 word accessor" where
  "of_bsn_debug_counter_stats_reply_experimenter = u32_accessor [OF_BSN_DEBUG_COUNTER_STATS_REPLY] [(4, 16), (5, 16)]"

definition of_bsn_debug_counter_stats_reply_subtype :: "32 word accessor" where
  "of_bsn_debug_counter_stats_reply_subtype = u32_accessor [OF_BSN_DEBUG_COUNTER_STATS_REPLY] [(4, 20), (5, 20)]"

definition of_bsn_debug_counter_stats_request_class :: wire_class where
  "of_bsn_debug_counter_stats_request_class = \<lparr>class_id = OF_BSN_DEBUG_COUNTER_STATS_REQUEST, whole_buffer = False, wire_types = Some [(4, [PutVersion 0, Put8 1 0x12, Put16 8 0xffff, Put32 16 0x5c16c7, Put32 20 0xc]),
     (5, [PutVersion 0, Put8 1 0x12, Put16 8 0xffff, Put32 16 0x5c16c7, Put32 20 0xc])],
     finishes = [MessageLength]\<rparr>"

definition of_bsn_debug_counter_stats_request_xid :: "32 word accessor" where
  "of_bsn_debug_counter_stats_request_xid = u32_accessor [OF_BSN_DEBUG_COUNTER_STATS_REQUEST] [(4, 4), (5, 4)]"

definition of_bsn_debug_counter_stats_request_flags :: "16 word accessor" where
  "of_bsn_debug_counter_stats_request_flags = u16_accessor [OF_BSN_DEBUG_COUNTER_STATS_REQUEST] [(4, 10), (5, 10)]"

definition of_bsn_debug_counter_stats_request_experimenter :: "32 word accessor" where
  "of_bsn_debug_counter_stats_request_experimenter = u32_accessor [OF_BSN_DEBUG_COUNTER_STATS_REQUEST] [(4, 16), (5, 16)]"

definition of_bsn_debug_counter_stats_request_subtype :: "32 word accessor" where
  "of_bsn_debug_counter_stats_request_subtype = u32_accessor [OF_BSN_DEBUG_COUNTER_STATS_REQUEST] [(4, 20), (5, 20)]"

definition of_bsn_flow_checksum_bucket_stats_entry_class :: wire_class where
  "of_bsn_flow_checksum_bucket_stats_entry_class = \<lparr>class_id = OF_BSN_FLOW_CHECKSUM_BUCKET_STATS_ENTRY, whole_buffer = False, wire_types = None,
     finishes = []\<rparr>"

definition of_bsn_flow_checksum_bucket_stats_entry_checksum :: "64 word accessor" where
  "of_bsn_flow_checksum_bucket_stats_entry_checksum = u64_accessor [OF_BSN_FLOW_CHECKSUM_BUCKET_STATS_ENTRY] [(4, 0), (5, 0)]"

definition of_bsn_flow_checksum_bucket_stats_reply_class :: wire_class where
  "of_bsn_flow_checksum_bucket_stats_reply_class = \<lparr>class_id = OF_BSN_FLOW_CHECKSUM_BUCKET_STATS_REPLY, whole_buffer = True, wire_types = Some [(4, [PutVersion 0, Put8 1 0x13, Put16 8 0xffff, Put32 16 0x5c16c7, Put32 20 0xa]),
     (5, [PutVersion 0, Put8 1 0x13, Put16 8 0xffff, Put32 16 0x5c16c7, Put32 20 0xa])],
     finishes = [MessageLength]\<rparr>"

definition of_bsn_flow_checksum_bucket_stats_reply_xid :: "32 word accessor" where
  "of_bsn_flow_checksum_bucket_stats_reply_xid = u32_accessor [OF_BSN_FLOW_CHECKSUM_BUCKET_STATS_REPLY] [(4, 4), (5, 4)]"

definition of_bsn_flow_checksum_bucket_stats_reply_flags :: "16 word accessor" where
  "of_bsn_flow_checksum_bucket_stats_reply_flags = u16_accessor [OF_BSN_FLOW_CHECKSUM_BUCKET_STATS_REPLY] [(4, 10), (5, 10)]"

definition of_bsn_flow_checksum_bucket_stats_reply_experimenter :: "32 word accessor" where
  "of_bsn_flow_checksum_bucket_stats_reply_experimenter = u32_accessor [OF_BSN_FLOW_CHECKSUM_BUCKET_STATS_REPLY] [(4, 16), (5, 16)]"

definition of_bsn_flow_checksum_bucket_stats_reply_subtype :: "32 word accessor" where
  "of_bsn_flow_checksum_bucket_stats_reply_subtype = u32_accessor [OF_BSN_FLOW_CHECKSUM_BUCKET_STATS_REPLY] [(4, 20), (5, 20)]"

definition of_bsn_flow_checksum_bucket_stats_request_class :: wire_class where
  "of_bsn_flow_checksum_bucket_stats_request_class = \<lparr>class_id = OF_BSN_FLOW_CHECKSUM_BUCKET_STATS_REQUEST, whole_buffer = False, wire_types = Some [(4, [PutVersion 0, Put8 1 0x12, Put16 8 0xffff, Put32 16 0x5c16c7, Put32 20 0xa]),
     (5, [PutVersion 0, Put8 1 0x12, Put16 8 0xffff, Put32 16 0x5c16c7, Put32 20 0xa])],
     finishes = [MessageLength]\<rparr>"

definition of_bsn_flow_checksum_bucket_stats_request_xid :: "32 word accessor" where
  "of_bsn_flow_checksum_bucket_stats_request_xid = u32_accessor [OF_BSN_FLOW_CHECKSUM_BUCKET_STATS_REQUEST] [(4, 4), (5, 4)]"

definition of_bsn_flow_checksum_bucket_stats_request_flags :: "16 word accessor" where
  "of_bsn_flow_checksum_bucket_stats_request_flags = u16_accessor [OF_BSN_FLOW_CHECKSUM_BUCKET_STATS_REQUEST] [(4, 10), (5, 10)]"

definition of_bsn_flow_checksum_bucket_stats_request_experimenter :: "32 word accessor" where
  "of_bsn_flow_checksum_bucket_stats_request_experimenter = u32_accessor [OF_BSN_FLOW_CHECKSUM_BUCKET_STATS_REQUEST] [(4, 16), (5, 16)]"

definition of_bsn_flow_checksum_bucket_stats_request_subtype :: "32 word accessor" where
  "of_bsn_flow_checksum_bucket_stats_request_subtype = u32_accessor [OF_BSN_FLOW_CHECKSUM_BUCKET_STATS_REQUEST] [(4, 20), (5, 20)]"

definition of_bsn_flow_checksum_bucket_stats_request_table_id :: "byte accessor" where
  "of_bsn_flow_checksum_bucket_stats_request_table_id = u8_accessor [OF_BSN_FLOW_CHECKSUM_BUCKET_STATS_REQUEST] [(4, 24), (5, 24)]"

definition of_bsn_flow_idle_class :: wire_class where
  "of_bsn_flow_idle_class = \<lparr>class_id = OF_BSN_FLOW_IDLE, whole_buffer = True, wire_types = Some [(4, [PutVersion 0, Put8 1 0x4, Put32 8 0x5c16c7, Put32 12 0x28]),
     (5, [PutVersion 0, Put8 1 0x4, Put32 8 0x5c16c7, Put32 12 0x28])],
     finishes = [MessageLength]\<rparr>"

definition of_bsn_flow_idle_xid :: "32 word accessor" where
  "of_bsn_flow_idle_xid = u32_accessor [OF_BSN_FLOW_IDLE] [(4, 4), (5, 4)]"

definition of_bsn_flow_idle_experimenter :: "32 word accessor" where
  "of_bsn_flow_idle_experimenter = u32_accessor [OF_BSN_FLOW_IDLE] [(4, 8), (5, 8)]"

definition of_bsn_flow_idle_subtype :: "32 word accessor" where
  "of_bsn_flow_idle_subtype = u32_accessor [OF_BSN_FLOW_IDLE] [(4, 12), (5, 12)]"

definition of_bsn_flow_idle_cookie :: "64 word accessor" where
  "of_bsn_flow_idle_cookie = u64_accessor [OF_BSN_FLOW_IDLE] [(4, 16), (5, 16)]"

definition of_bsn_flow_idle_priority :: "16 word accessor" where
  "of_bsn_flow_idle_priority = u16_accessor [OF_BSN_FLOW_IDLE] [(4, 24), (5, 24)]"

definition of_bsn_flow_idle_table_id :: "byte accessor" where
  "of_bsn_flow_idle_table_id = u8_accessor [OF_BSN_FLOW_IDLE] [(4, 26), (5, 26)]"

definition of_bsn_flow_idle_enable_get_reply_class :: wire_class where
  "of_bsn_flow_idle_enable_get_reply_class = \<lparr>class_id = OF_BSN_FLOW_IDLE_ENABLE_GET_REPLY, whole_buffer = False, wire_types = Some [(4, [PutVersion 0, Put8 1 0x4, Put32 8 0x5c16c7, Put32 12 0x27]),
     (5, [PutVersion 0, Put8 1 0x4, Put32 8 0x5c16c7, Put32 12 0x27])],
     finishes = [MessageLength]\<rparr>"

definition of_bsn_flow_idle_enable_get_reply_xid :: "32 word accessor" where
  "of_bsn_flow_idle_enable_get_reply_xid = u32_accessor [OF_BSN_FLOW_IDLE_ENABLE_GET_REPLY] [(4, 4), (5, 4)]"

definition of_bsn_flow_idle_enable_get_reply_experimenter :: "32 word accessor" where
  "of_bsn_flow_idle_enable_get_reply_experimenter = u32_accessor [OF_BSN_FLOW_IDLE_ENABLE_GET_REPLY] [(4, 8), (5, 8)]"

definition of_bsn_flow_idle_enable_get_reply_subtype :: "32 word accessor" where
  "of_bsn_flow_idle_enable_get_reply_subtype = u32_accessor [OF_BSN_FLOW_IDLE_ENABLE_GET_REPLY] [(4, 12), (5, 12)]"

definition of_bsn_flow_idle_enable_get_reply_enabled :: "32 word accessor" where
  "of_bsn_flow_idle_enable_get_reply_enabled = u32_accessor [OF_BSN_FLOW_IDLE_ENABLE_GET_REPLY] [(4, 16), (5, 16)]"

definition of_bsn_flow_idle_enable_get_request_class :: wire_class where
  "of_bsn_flow_idle_enable_get_request_class = \<lparr>class_id = OF_BSN_FLOW_IDLE_ENABLE_GET_REQUEST, whole_buffer = False, wire_types = Some [(4, [PutVersion 0, Put8 1 0x4, Put32 8 0x5c16c7, Put32 12 0x26]),
     (5, [PutVersion 0, Put8 1 0x4, Put32 8 0x5c16c7, Put32 12 0x26])],
     finishes = [MessageLength]\<rparr>"

definition of_bsn_flow_idle_enable_get_request_xid :: "32 word accessor" where
  "of_bsn_flow_idle_enable_get_request_xid = u32_accessor [OF_BSN_FLOW_IDLE_ENABLE_GET_REQUEST] [(4, 4), (5, 4)]"

definition of_bsn_flow_idle_enable_get_request_experimenter :: "32 word accessor" where
  "of_bsn_flow_idle_enable_get_request_experimenter = u32_accessor [OF_BSN_FLOW_IDLE_ENABLE_GET_REQUEST] [(4, 8), (5, 8)]"

definition of_bsn_flow_idle_enable_get_request_subtype :: "32 word accessor" where
  "of_bsn_flow_idle_enable_get_request_subtype = u32_accessor [OF_BSN_FLOW_IDLE_ENABLE_GET_REQUEST] [(4, 12), (5, 12)]"

definition of_bsn_flow_idle_enable_set_reply_class :: wire_class where
  "of_bsn_flow_idle_enable_set_reply_class = \<lparr>class_id = OF_BSN_FLOW_IDLE_ENABLE_SET_REPLY, whole_buffer = False, wire_types = Some [(4, [PutVersion 0, Put8 1 0x4, Put32 8 0x5c16c7, Put32 12 0x25]),
     (5, [PutVersion 0, Put8 1 0x4, Put32 8 0x5c16c7, Put32 12 0x25])],
     finishes = [MessageLength]\<rparr>"

definition of_bsn_flow_idle_enable_set_reply_xid :: "32 word accessor" where
  "of_bsn_flow_idle_enable_set_reply_xid = u32_accessor [OF_BSN_FLOW_IDLE_ENABLE_SET_REPLY] [(4, 4), (5, 4)]"

definition of_bsn_flow_idle_enable_set_reply_experimenter :: "32 word accessor" where
  "of_bsn_flow_idle_enable_set_reply_experimenter = u32_accessor [OF_BSN_FLOW_IDLE_ENABLE_SET_REPLY] [(4, 8), (5, 8)]"

definition of_bsn_flow_idle_enable_set_reply_subtype :: "32 word accessor" where
  "of_bsn_flow_idle_enable_set_reply_subtype = u32_accessor [OF_BSN_FLOW_IDLE_ENABLE_SET_REPLY] [(4, 12), (5, 12)]"

definition of_bsn_flow_idle_enable_set_reply_enable :: "32 word accessor" where
  "of_bsn_flow_idle_enable_set_reply_enable = u32_accessor [OF_BSN_FLOW_IDLE_ENABLE_SET_REPLY] [(4, 16), (5, 16)]"

definition of_bsn_flow_idle_enable_set_reply_status :: "32 word accessor" where
  "of_bsn_flow_idle_enable_set_reply_status = u32_accessor [OF_BSN_FLOW_IDLE_ENABLE_SET_REPLY] [(4, 20), (5, 20)]"

definition of_bsn_flow_idle_enable_set_request_class :: wire_class where
  "of_bsn_flow_idle_enable_set_request_class = \<lparr>class_id = OF_BSN_FLOW_IDLE_ENABLE_SET_REQUEST, whole_buffer = False, wire_types = Some [(4, [PutVersion 0, Put8 1 0x4, Put32 8 0x5c16c7, Put32 12 0x24]),
     (5, [PutVersion 0, Put8 1 0x4, Put32 8 0x5c16c7, Put32 12 0x24])],
     finishes = [MessageLength]\<rparr>"

definition of_bsn_flow_idle_enable_set_request_xid :: "32 word accessor" where
  "of_bsn_flow_idle_enable_set_request_xid = u32_accessor [OF_BSN_FLOW_IDLE_ENABLE_SET_REQUEST] [(4, 4), (5, 4)]"

definition of_bsn_flow_idle_enable_set_request_experimenter :: "32 word accessor" where
  "of_bsn_flow_idle_enable_set_request_experimenter = u32_accessor [OF_BSN_FLOW_IDLE_ENABLE_SET_REQUEST] [(4, 8), (5, 8)]"

definition of_bsn_flow_idle_enable_set_request_subtype :: "32 word accessor" where
  "of_bsn_flow_idle_enable_set_request_subtype = u32_accessor [OF_BSN_FLOW_IDLE_ENABLE_SET_REQUEST] [(4, 12), (5, 12)]"

definition of_bsn_flow_idle_enable_set_request_enable :: "32 word accessor" where
  "of_bsn_flow_idle_enable_set_request_enable = u32_accessor [OF_BSN_FLOW_IDLE_ENABLE_SET_REQUEST] [(4, 16), (5, 16)]"

definition of_bsn_generic_stats_entry_class :: wire_class where
  "of_bsn_generic_stats_entry_class = \<lparr>class_id = OF_BSN_GENERIC_STATS_ENTRY, whole_buffer = True, wire_types = None,
     finishes = [U16Length]\<rparr>"

definition of_bsn_generic_stats_reply_class :: wire_class where
  "of_bsn_generic_stats_reply_class = \<lparr>class_id = OF_BSN_GENERIC_STATS_REPLY, whole_buffer = True, wire_types = Some [(4, [PutVersion 0, Put8 1 0x13, Put16 8 0xffff, Put32 16 0x5c16c7, Put32 20 0x10]),
     (5, [PutVersion 0, Put8 1 0x13, Put16 8 0xffff, Put32 16 0x5c16c7, Put32 20 0x10])],
     finishes = [MessageLength]\<rparr>"

definition of_bsn_generic_stats_reply_xid :: "32 word accessor" where
  "of_bsn_generic_stats_reply_xid = u32_accessor [OF_BSN_GENERIC_STATS_REPLY] [(4, 4), (5, 4)]"

definition of_bsn_generic_stats_reply_flags :: "16 word accessor" where
  "of_bsn_generic_stats_reply_flags = u16_accessor [OF_BSN_GENERIC_STATS_REPLY] [(4, 10), (5, 10)]"

definition of_bsn_generic_stats_reply_experimenter :: "32 word accessor" where
  "of_bsn_generic_stats_reply_experimenter = u32_accessor [OF_BSN_GENERIC_STATS_REPLY] [(4, 16), (5, 16)]"

definition of_bsn_generic_stats_reply_subtype :: "32 word accessor" where
  "of_bsn_generic_stats_reply_subtype = u32_accessor [OF_BSN_GENERIC_STATS_REPLY] [(4, 20), (5, 20)]"

definition of_bsn_generic_stats_request_class :: wire_class where
  "of_bsn_generic_stats_request_class = \<lparr>class_id = OF_BSN_GENERIC_STATS_REQUEST, whole_buffer = True, wire_types = Some [(4, [PutVersion 0, Put8 1 0x12, Put16 8 0xffff, Put32 16 0x5c16c7, Put32 20 0x10]),
     (5, [PutVersion 0, Put8 1 0x12, Put16 8 0xffff, Put32 16 0x5c16c7, Put32 20 0x10])],
     finishes = [MessageLength]\<rparr>"

definition of_bsn_generic_stats_request_xid :: "32 word accessor" where
  "of_bsn_generic_stats_request_xid = u32_accessor [OF_BSN_GENERIC_STATS_REQUEST] [(4, 4), (5, 4)]"

definition of_bsn_generic_stats_request_flags :: "16 word accessor" where
  "of_bsn_generic_stats_request_flags = u16_accessor [OF_BSN_GENERIC_STATS_REQUEST] [(4, 10), (5, 10)]"

definition of_bsn_generic_stats_request_experimenter :: "32 word accessor" where
  "of_bsn_generic_stats_request_experimenter = u32_accessor [OF_BSN_GENERIC_STATS_REQUEST] [(4, 16), (5, 16)]"

definition of_bsn_generic_stats_request_subtype :: "32 word accessor" where
  "of_bsn_generic_stats_request_subtype = u32_accessor [OF_BSN_GENERIC_STATS_REQUEST] [(4, 20), (5, 20)]"

definition of_bsn_generic_stats_request_name :: "byte list accessor" where
  "of_bsn_generic_stats_request_name = str64_accessor [OF_BSN_GENERIC_STATS_REQUEST] [(4, 24), (5, 24)]"

definition of_bsn_gentable_bucket_stats_entry_class :: wire_class where
  "of_bsn_gentable_bucket_stats_entry_class = \<lparr>class_id = OF_BSN_GENTABLE_BUCKET_STATS_ENTRY, whole_buffer = False, wire_types = None,
     finishes = []\<rparr>"

definition of_bsn_gentable_bucket_stats_entry_checksum :: "(64 word \<times> 64 word) accessor" where
  "of_bsn_gentable_bucket_stats_entry_checksum = checksum_128_accessor [OF_BSN_GENTABLE_BUCKET_STATS_ENTRY] [(4, 0), (5, 0)]"

definition of_bsn_gentable_bucket_stats_reply_class :: wire_class where
  "of_bsn_gentable_bucket_stats_reply_class = \<lparr>class_id = OF_BSN_GENTABLE_BUCKET_STATS_REPLY, whole_buffer = True, wire_types = Some [(4, [PutVersion 0, Put8 1 0x13, Put16 8 0xffff, Put32 16 0x5c16c7, Put32 20 0x5]),
     (5, [PutVersion 0, Put8 1 0x13, Put16 8 0xffff, Put32 16 0x5c16c7, Put32 20 0x5])],
     finishes = [MessageLength]\<rparr>"

definition of_bsn_gentable_bucket_stats_reply_xid :: "32 word accessor" where
  "of_bsn_gentable_bucket_stats_reply_xid = u32_accessor [OF_BSN_GENTABLE_BUCKET_STATS_REPLY] [(4, 4), (5, 4)]"

definition of_bsn_gentable_bucket_stats_reply_flags :: "16 word accessor" where
  "of_bsn_gentable_bucket_stats_reply_flags = u16_accessor [OF_BSN_GENTABLE_BUCKET_STATS_REPLY] [(4, 10), (5, 10)]"

definition of_bsn_gentable_bucket_stats_reply_experimenter :: "32 word accessor" where
  "of_bsn_gentable_bucket_stats_reply_experimenter = u32_accessor [OF_BSN_GENTABLE_BUCKET_STATS_REPLY] [(4, 16), (5, 16)]"

definition of_bsn_gentable_bucket_stats_reply_subtype :: "32 word accessor" where
  "of_bsn_gentable_bucket_stats_reply_subtype = u32_accessor [OF_BSN_GENTABLE_BUCKET_STATS_REPLY] [(4, 20), (5, 20)]"

definition of_bsn_gentable_bucket_stats_request_class :: wire_class where
  "of_bsn_gentable_bucket_stats_request_class = \<lparr>class_id = OF_BSN_GENTABLE_BUCKET_STATS_REQUEST, whole_buffer = False, wire_types = Some [(4, [PutVersion 0, Put8 1 0x12, Put16 8 0xffff, Put32 16 0x5c16c7, Put32 20 0x5]),
     (5, [PutVersion 0, Put8 1 0x12, Put16 8 0xffff, Put32 16 0x5c16c7, Put32 20 0x5])],
     finishes = [MessageLength]\<rparr>"

definition of_bsn_gentable_bucket_stats_request_xid :: "32 word accessor" where
  "of_bsn_gentable_bucket_stats_request_xid = u32_accessor [OF_BSN_GENTABLE_BUCKET_STATS_REQUEST] [(4, 4), (5, 4)]"

definition of_bsn_gentable_bucket_stats_request_flags :: "16 word accessor" where
  "of_bsn_gentable_bucket_stats_request_flags = u16_accessor [OF_BSN_GENTABLE_BUCKET_STATS_REQUEST] [(4, 10), (5, 10)]"

definition of_bsn_gentable_bucket_stats_request_experimenter :: "32 word accessor" where
  "of_bsn_gentable_bucket_stats_request_experimenter = u32_accessor [OF_BSN_GENTABLE_BUCKET_STATS_REQUEST] [(4, 16), (5, 16)]"

definition of_bsn_gentable_bucket_stats_request_subtype :: "32 word accessor" where
  "of_bsn_gentable_bucket_stats_request_subtype = u32_accessor [OF_BSN_GENTABLE_BUCKET_STATS_REQUEST] [(4, 20), (5, 20)]"

definition of_bsn_gentable_bucket_stats_request_table_id :: "16 word accessor" where
  "of_bsn_gentable_bucket_stats_request_table_id = u16_accessor [OF_BSN_GENTABLE_BUCKET_STATS_REQUEST] [(4, 24), (5, 24)]"

definition of_bsn_gentable_clear_reply_class :: wire_class where
  "of_bsn_gentable_clear_reply_class = \<lparr>class_id = OF_BSN_GENTABLE_CLEAR_REPLY, whole_buffer = False, wire_types = Some [(4, [PutVersion 0, Put8 1 0x4, Put32 8 0x5c16c7, Put32 12 0x31]),
     (5, [PutVersion 0, Put8 1 0x4, Put32 8 0x5c16c7, Put32 12 0x31])],
     finishes = [MessageLength]\<rparr>"

definition of_bsn_gentable_clear_reply_xid :: "32 word accessor" where
  "of_bsn_gentable_clear_reply_xid = u32_accessor [OF_BSN_GENTABLE_CLEAR_REPLY] [(4, 4), (5, 4)]"

definition of_bsn_gentable_clear_reply_experimenter :: "32 word accessor" where
  "of_bsn_gentable_clear_reply_experimenter = u32_accessor [OF_BSN_GENTABLE_CLEAR_REPLY] [(4, 8), (5, 8)]"

definition of_bsn_gentable_clear_reply_subtype :: "32 word accessor" where
  "of_bsn_gentable_clear_reply_subtype = u32_accessor [OF_BSN_GENTABLE_CLEAR_REPLY] [(4, 12), (5, 12)]"

definition of_bsn_gentable_clear_reply_table_id :: "16 word accessor" where
  "of_bsn_gentable_clear_reply_table_id = u16_accessor [OF_BSN_GENTABLE_CLEAR_REPLY] [(4, 16), (5, 16)]"

definition of_bsn_gentable_clear_reply_deleted_count :: "32 word accessor" where
  "of_bsn_gentable_clear_reply_deleted_count = u32_accessor [OF_BSN_GENTABLE_CLEAR_REPLY] [(4, 20), (5, 20)]"

definition of_bsn_gentable_clear_reply_error_count :: "32 word accessor" where
  "of_bsn_gentable_clear_reply_error_count = u32_accessor [OF_BSN_GENTABLE_CLEAR_REPLY] [(4, 24), (5, 24)]"

definition of_bsn_gentable_clear_request_class :: wire_class where
  "of_bsn_gentable_clear_request_class = \<lparr>class_id = OF_BSN_GENTABLE_CLEAR_REQUEST, whole_buffer = False, wire_types = Some [(4, [PutVersion 0, Put8 1 0x4, Put32 8 0x5c16c7, Put32 12 0x30]),
     (5, [PutVersion 0, Put8 1 0x4, Put32 8 0x5c16c7, Put32 12 0x30])],
     finishes = [MessageLength]\<rparr>"

definition of_bsn_gentable_clear_request_xid :: "32 word accessor" where
  "of_bsn_gentable_clear_request_xid = u32_accessor [OF_BSN_GENTABLE_CLEAR_REQUEST] [(4, 4), (5, 4)]"

definition of_bsn_gentable_clear_request_experimenter :: "32 word accessor" where
  "of_bsn_gentable_clear_request_experimenter = u32_accessor [OF_BSN_GENTABLE_CLEAR_REQUEST] [(4, 8), (5, 8)]"

definition of_bsn_gentable_clear_request_subtype :: "32 word accessor" where
  "of_bsn_gentable_clear_request_subtype = u32_accessor [OF_BSN_GENTABLE_CLEAR_REQUEST] [(4, 12), (5, 12)]"

definition of_bsn_gentable_clear_request_table_id :: "16 word accessor" where
  "of_bsn_gentable_clear_request_table_id = u16_accessor [OF_BSN_GENTABLE_CLEAR_REQUEST] [(4, 16), (5, 16)]"

definition of_bsn_gentable_clear_request_checksum :: "(64 word \<times> 64 word) accessor" where
  "of_bsn_gentable_clear_request_checksum = checksum_128_accessor [OF_BSN_GENTABLE_CLEAR_REQUEST] [(4, 20), (5, 20)]"

definition of_bsn_gentable_clear_request_checksum_mask :: "(64 word \<times> 64 word) accessor" where
  "of_bsn_gentable_clear_request_checksum_mask = checksum_128_accessor [OF_BSN_GENTABLE_CLEAR_REQUEST] [(4, 36), (5, 36)]"

definition of_bsn_gentable_desc_stats_entry_class :: wire_class where
  "of_bsn_gentable_desc_stats_entry_class = \<lparr>class_id = OF_BSN_GENTABLE_DESC_STATS_ENTRY, whole_buffer = False, wire_types = None,
     finishes = [U16Length]\<rparr>"

definition of_bsn_gentable_desc_stats_entry_table_id :: "16 word accessor" where
  "of_bsn_gentable_desc_stats_entry_table_id = u16_accessor [OF_BSN_GENTABLE_DESC_STATS_ENTRY] [(4, 2), (5, 2)]"

definition of_bsn_gentable_desc_stats_entry_name :: "byte list accessor" where
  "of_bsn_gentable_desc_stats_entry_name = tab_name_accessor [OF_BSN_GENTABLE_DESC_STATS_ENTRY] [(4, 4), (5, 4)]"

definition of_bsn_gentable_desc_stats_entry_buckets_size :: "32 word accessor" where
  "of_bsn_gentable_desc_stats_entry_buckets_size = u32_accessor [OF_BSN_GENTABLE_DESC_STATS_ENTRY] [(4, 36), (5, 36)]"

definition of_bsn_gentable_desc_stats_entry_max_entries :: "32 word accessor" where
  "of_bsn_gentable_desc_stats_entry_max_entries = u32_accessor [OF_BSN_GENTABLE_DESC_STATS_ENTRY] [(4, 40), (5, 40)]"

definition of_bsn_gentable_desc_stats_reply_class :: wire_class where
  "of_bsn_gentable_desc_stats_reply_class = \<lparr>class_id = OF_BSN_GENTABLE_DESC_STATS_REPLY, whole_buffer = True, wire_types = Some [(4, [PutVersion 0, Put8 1 0x13, Put16 8 0xffff, Put32 16 0x5c16c7, Put32 20 0x4]),
     (5, [PutVersion 0, Put8 1 0x13, Put16 8 0xffff, Put32 16 0x5c16c7, Put32 20 0x4])],
     finishes = [MessageLength]\<rparr>"

definition of_bsn_gentable_desc_stats_reply_xid :: "32 word accessor" where
  "of_bsn_gentable_desc_stats_reply_xid = u32_accessor [OF_BSN_GENTABLE_DESC_STATS_REPLY] [(4, 4), (5, 4)]"

definition of_bsn_gentable_desc_stats_reply_flags :: "16 word accessor" where
  "of_bsn_gentable_desc_stats_reply_flags = u16_accessor [OF_BSN_GENTABLE_DESC_STATS_REPLY] [(4, 10), (5, 10)]"

definition of_bsn_gentable_desc_stats_reply_experimenter :: "32 word accessor" where
  "of_bsn_gentable_desc_stats_reply_experimenter = u32_accessor [OF_BSN_GENTABLE_DESC_STATS_REPLY] [(4, 16), (5, 16)]"

definition of_bsn_gentable_desc_stats_reply_subtype :: "32 word accessor" where
  "of_bsn_gentable_desc_stats_reply_subtype = u32_accessor [OF_BSN_GENTABLE_DESC_STATS_REPLY] [(4, 20), (5, 20)]"

definition of_bsn_gentable_desc_stats_request_class :: wire_class where
  "of_bsn_gentable_desc_stats_request_class = \<lparr>class_id = OF_BSN_GENTABLE_DESC_STATS_REQUEST, whole_buffer = False, wire_types = Some [(4, [PutVersion 0, Put8 1 0x12, Put16 8 0xffff, Put32 16 0x5c16c7, Put32 20 0x4]),
     (5, [PutVersion 0, Put8 1 0x12, Put16 8 0xffff, Put32 16 0x5c16c7, Put32 20 0x4])],
     finishes = [MessageLength]\<rparr>"

definition of_bsn_gentable_desc_stats_request_xid :: "32 word accessor" where
  "of_bsn_gentable_desc_stats_request_xid = u32_accessor [OF_BSN_GENTABLE_DESC_STATS_REQUEST] [(4, 4), (5, 4)]"

definition of_bsn_gentable_desc_stats_request_flags :: "16 word accessor" where
  "of_bsn_gentable_desc_stats_request_flags = u16_accessor [OF_BSN_GENTABLE_DESC_STATS_REQUEST] [(4, 10), (5, 10)]"

definition of_bsn_gentable_desc_stats_request_experimenter :: "32 word accessor" where
  "of_bsn_gentable_desc_stats_request_experimenter = u32_accessor [OF_BSN_GENTABLE_DESC_STATS_REQUEST] [(4, 16), (5, 16)]"

definition of_bsn_gentable_desc_stats_request_subtype :: "32 word accessor" where
  "of_bsn_gentable_desc_stats_request_subtype = u32_accessor [OF_BSN_GENTABLE_DESC_STATS_REQUEST] [(4, 20), (5, 20)]"

definition of_bsn_gentable_entry_add_class :: wire_class where
  "of_bsn_gentable_entry_add_class = \<lparr>class_id = OF_BSN_GENTABLE_ENTRY_ADD, whole_buffer = True, wire_types = Some [(4, [PutVersion 0, Put8 1 0x4, Put32 8 0x5c16c7, Put32 12 0x2e]),
     (5, [PutVersion 0, Put8 1 0x4, Put32 8 0x5c16c7, Put32 12 0x2e])],
     finishes = [MessageLength]\<rparr>"

definition of_bsn_gentable_entry_add_xid :: "32 word accessor" where
  "of_bsn_gentable_entry_add_xid = u32_accessor [OF_BSN_GENTABLE_ENTRY_ADD] [(4, 4), (5, 4)]"

definition of_bsn_gentable_entry_add_experimenter :: "32 word accessor" where
  "of_bsn_gentable_entry_add_experimenter = u32_accessor [OF_BSN_GENTABLE_ENTRY_ADD] [(4, 8), (5, 8)]"

definition of_bsn_gentable_entry_add_subtype :: "32 word accessor" where
  "of_bsn_gentable_entry_add_subtype = u32_accessor [OF_BSN_GENTABLE_ENTRY_ADD] [(4, 12), (5, 12)]"

definition of_bsn_gentable_entry_add_table_id :: "16 word accessor" where
  "of_bsn_gentable_entry_add_table_id = u16_accessor [OF_BSN_GENTABLE_ENTRY_ADD] [(4, 16), (5, 16)]"

definition of_bsn_gentable_entry_add_checksum :: "(64 word \<times> 64 word) accessor" where
  "of_bsn_gentable_entry_add_checksum = checksum_128_accessor [OF_BSN_GENTABLE_ENTRY_ADD] [(4, 20), (5, 20)]"

text \<open>The classes, each with consistent wire types in every version that has it.\<close>

definition classes_10 :: "wire_class list" where
  "classes_10 = [of_async_get_request_class, of_async_set_class, of_bsn_arp_idle_class,
     of_bsn_controller_connection_class, of_bsn_controller_connections_reply_class,
     of_bsn_controller_connections_request_class, of_bsn_debug_counter_desc_stats_entry_class,
     of_bsn_debug_counter_desc_stats_reply_class, of_bsn_debug_counter_desc_stats_request_class,
     of_bsn_debug_counter_stats_entry_class, of_bsn_debug_counter_stats_reply_class,
     of_bsn_debug_counter_stats_request_class, of_bsn_flow_checksum_bucket_stats_entry_class,
     of_bsn_flow_checksum_bucket_stats_reply_class, of_bsn_flow_checksum_bucket_stats_request_class,
     of_bsn_flow_idle_class, of_bsn_flow_idle_enable_get_reply_class,
     of_bsn_flow_idle_enable_get_request_class, of_bsn_flow_idle_enable_set_reply_class,
     of_bsn_flow_idle_enable_set_request_class, of_bsn_generic_stats_entry_class,
     of_bsn_generic_stats_reply_class, of_bsn_generic_stats_request_class,
     of_bsn_gentable_bucket_stats_entry_class, of_bsn_gentable_bucket_stats_reply_class,
     of_bsn_gentable_bucket_stats_request_class, of_bsn_gentable_clear_reply_class,
     of_bsn_gentable_clear_request_class, of_bsn_gentable_desc_stats_entry_class,
     of_bsn_gentable_desc_stats_reply_class, of_bsn_gentable_desc_stats_request_class,
     of_bsn_gentable_entry_add_class]"

lemmas class_defs_10 =
  of_async_get_request_class_def of_async_set_class_def of_bsn_arp_idle_class_def
  of_bsn_controller_connection_class_def of_bsn_controller_connections_reply_class_def
  of_bsn_controller_connections_request_class_def of_bsn_debug_counter_desc_stats_entry_class_def
  of_bsn_debug_counter_desc_stats_reply_class_def of_bsn_debug_counter_desc_stats_request_class_def
  of_bsn_debug_counter_stats_entry_class_def of_bsn_debug_counter_stats_reply_class_def
  of_bsn_debug_counter_stats_request_class_def of_bsn_flow_checksum_bucket_stats_entry_class_def
  of_bsn_flow_checksum_bucket_stats_reply_class_def
  of_bsn_flow_checksum_bucket_stats_request_class_def of_bsn_flow_idle_class_def
  of_bsn_flow_idle_enable_get_reply_class_def of_bsn_flow_idle_enable_get_request_class_def
  of_bsn_flow_idle_enable_set_reply_class_def of_bsn_flow_idle_enable_set_request_class_def
  of_bsn_generic_stats_entry_class_def of_bsn_generic_stats_reply_class_def
  of_bsn_generic_stats_request_class_def of_bsn_gentable_bucket_stats_entry_class_def
  of_bsn_gentable_bucket_stats_reply_class_def of_bsn_gentable_bucket_stats_request_class_def
  of_bsn_gentable_clear_reply_class_def of_bsn_gentable_clear_request_class_def
  of_bsn_gentable_desc_stats_entry_class_def of_bsn_gentable_desc_stats_reply_class_def
  of_bsn_gentable_desc_stats_request_class_def of_bsn_gentable_entry_add_class_def

lemma classes_ok_10: "list_all class_ok classes_10"
  unfolding classes_10_def
  by (simp add: class_defs_10 class_checks)

text \<open>The accessors.\<close>

definition fields_10 :: "field list" where
  "fields_10 = [U32 of_async_get_request_xid, U32 of_async_get_request_packet_in_mask_equal_master,
     U32 of_async_get_request_packet_in_mask_slave,
     U32 of_async_get_request_port_status_mask_equal_master,
     U32 of_async_get_request_port_status_mask_slave,
     U32 of_async_get_request_flow_removed_mask_equal_master,
     U32 of_async_get_request_flow_removed_mask_slave, U32 of_async_set_xid,
     U32 of_async_set_packet_in_mask_equal_master, U32 of_async_set_packet_in_mask_slave,
     U32 of_async_set_port_status_mask_equal_master, U32 of_async_set_port_status_mask_slave,
     U32 of_async_set_flow_removed_mask_equal_master, U32 of_async_set_flow_removed_mask_slave,
     U32 of_bsn_arp_idle_xid, U32 of_bsn_arp_idle_experimenter, U32 of_bsn_arp_idle_subtype,
     U16 of_bsn_arp_idle_vlan_vid, U32 of_bsn_arp_idle_ipv4_addr, U8 of_bsn_controller_connection_state,
     U8 of_bsn_controller_connection_auxiliary_id, U32 of_bsn_controller_connection_role,
     Octets 256 of_bsn_controller_connection_uri, U32 of_bsn_controller_connections_reply_xid,
     U32 of_bsn_controller_connections_reply_experimenter,
     U32 of_bsn_controller_connections_reply_subtype, U32 of_bsn_controller_connections_request_xid,
     U32 of_bsn_controller_connections_request_experimenter,
     U32 of_bsn_controller_connections_request_subtype,
     U64 of_bsn_debug_counter_desc_stats_entry_counter_id,
     Octets 64 of_bsn_debug_counter_desc_stats_entry_name,
     Octets 256 of_bsn_debug_counter_desc_stats_entry_description,
     U32 of_bsn_debug_counter_desc_stats_reply_xid, U16 of_bsn_debug_counter_desc_stats_reply_flags,
     U32 of_bsn_debug_counter_desc_stats_reply_experimenter,
     U32 of_bsn_debug_counter_desc_stats_reply_subtype, U32 of_bsn_debug_counter_desc_stats_request_xid,
     U16 of_bsn_debug_counter_desc_stats_request_flags,
     U32 of_bsn_debug_counter_desc_stats_request_experimenter,
     U32 of_bsn_debug_counter_desc_stats_request_subtype, U64 of_bsn_debug_counter_stats_entry_counter_id,
     U64 of_bsn_debug_counter_stats_entry_value, U32 of_bsn_debug_counter_stats_reply_xid,
     U16 of_bsn_debug_counter_stats_reply_flags, U32 of_bsn_debug_counter_stats_reply_experimenter,
     U32 of_bsn_debug_counter_stats_reply_subtype, U32 of_bsn_debug_counter_stats_request_xid,
     U16 of_bsn_debug_counter_stats_request_flags, U32 of_bsn_debug_counter_stats_request_experimenter,
     U32 of_bsn_debug_counter_stats_request_subtype, U64 of_bsn_flow_checksum_bucket_stats_entry_checksum,
     U32 of_bsn_flow_checksum_bucket_stats_reply_xid, U16 of_bsn_flow_checksum_bucket_stats_reply_flags,
     U32 of_bsn_flow_checksum_bucket_stats_reply_experimenter,
     U32 of_bsn_flow_checksum_bucket_stats_reply_subtype,
     U32 of_bsn_flow_checksum_bucket_stats_request_xid,
     U16 of_bsn_flow_checksum_bucket_stats_request_flags,
     U32 of_bsn_flow_checksum_bucket_stats_request_experimenter,
     U32 of_bsn_flow_checksum_bucket_stats_request_subtype,
     U8 of_bsn_flow_checksum_bucket_stats_request_table_id, U32 of_bsn_flow_idle_xid,
     U32 of_bsn_flow_idle_experimenter, U32 of_bsn_flow_idle_subtype, U64 of_bsn_flow_idle_cookie,
     U16 of_bsn_flow_idle_priority, U8 of_bsn_flow_idle_table_id,
     U32 of_bsn_flow_idle_enable_get_reply_xid, U32 of_bsn_flow_idle_enable_get_reply_experimenter,
     U32 of_bsn_flow_idle_enable_get_reply_subtype, U32 of_bsn_flow_idle_enable_get_reply_enabled,
     U32 of_bsn_flow_idle_enable_get_request_xid, U32 of_bsn_flow_idle_enable_get_request_experimenter,
     U32 of_bsn_flow_idle_enable_get_request_subtype, U32 of_bsn_flow_idle_enable_set_reply_xid,
     U32 of_bsn_flow_idle_enable_set_reply_experimenter, U32 of_bsn_flow_idle_enable_set_reply_subtype,
     U32 of_bsn_flow_idle_enable_set_reply_enable, U32 of_bsn_flow_idle_enable_set_reply_status,
     U32 of_bsn_flow_idle_enable_set_request_xid, U32 of_bsn_flow_idle_enable_set_request_experimenter,
     U32 of_bsn_flow_idle_enable_set_request_subtype, U32 of_bsn_flow_idle_enable_set_request_enable,
     U32 of_bsn_generic_stats_reply_xid, U16 of_bsn_generic_stats_reply_flags,
     U32 of_bsn_generic_stats_reply_experimenter, U32 of_bsn_generic_stats_reply_subtype,
     U32 of_bsn_generic_stats_request_xid, U16 of_bsn_generic_stats_request_flags,
     U32 of_bsn_generic_stats_request_experimenter, U32 of_bsn_generic_stats_request_subtype,
     Octets 64 of_bsn_generic_stats_request_name, U128 of_bsn_gentable_bucket_stats_entry_checksum,
     U32 of_bsn_gentable_bucket_stats_reply_xid, U16 of_bsn_gentable_bucket_stats_reply_flags,
     U32 of_bsn_gentable_bucket_stats_reply_experimenter, U32 of_bsn_gentable_bucket_stats_reply_subtype,
     U32 of_bsn_gentable_bucket_stats_request_xid, U16 of_bsn_gentable_bucket_stats_request_flags,
     U32 of_bsn_gentable_bucket_stats_request_experimenter,
     U32 of_bsn_gentable_bucket_stats_request_subtype, U16 of_bsn_gentable_bucket_stats_request_table_id,
     U32 of_bsn_gentable_clear_reply_xid, U32 of_bsn_gentable_clear_reply_experimenter,
     U32 of_bsn_gentable_clear_reply_subtype, U16 of_bsn_gentable_clear_reply_table_id,
     U32 of_bsn_gentable_clear_reply_deleted_count, U32 of_bsn_gentable_clear_reply_error_count,
     U32 of_bsn_gentable_clear_request_xid, U32 of_bsn_gentable_clear_request_experimenter,
     U32 of_bsn_gentable_clear_request_subtype, U16 of_bsn_gentable_clear_request_table_id,
     U128 of_bsn_gentable_clear_request_checksum, U128 of_bsn_gentable_clear_request_checksum_mask,
     U16 of_bsn_gentable_desc_stats_entry_table_id, Octets 32 of_bsn_gentable_desc_stats_entry_name,
     U32 of_bsn_gentable_desc_stats_entry_buckets_size, U32 of_bsn_gentable_desc_stats_entry_max_entries,
     U32 of_bsn_gentable_desc_stats_reply_xid, U16 of_bsn_gentable_desc_stats_reply_flags,
     U32 of_bsn_gentable_desc_stats_reply_experimenter, U32 of_bsn_gentable_desc_stats_reply_subtype,
     U32 of_bsn_gentable_desc_stats_request_xid, U16 of_bsn_gentable_desc_stats_request_flags,
     U32 of_bsn_gentable_desc_stats_request_experimenter, U32 of_bsn_gentable_desc_stats_request_subtype,
     U32 of_bsn_gentable_entry_add_xid, U32 of_bsn_gentable_entry_add_experimenter,
     U32 of_bsn_gentable_entry_add_subtype, U16 of_bsn_gentable_entry_add_table_id,
     U128 of_bsn_gentable_entry_add_checksum]"

lemmas accessor_defs_10 =
  of_async_get_request_xid_def of_async_get_request_packet_in_mask_equal_master_def
  of_async_get_request_packet_in_mask_slave_def
  of_async_get_request_port_status_mask_equal_master_def
  of_async_get_request_port_status_mask_slave_def
  of_async_get_request_flow_removed_mask_equal_master_def
  of_async_get_request_flow_removed_mask_slave_def of_async_set_xid_def
  of_async_set_packet_in_mask_equal_master_def of_async_set_packet_in_mask_slave_def
  of_async_set_port_status_mask_equal_master_def of_async_set_port_status_mask_slave_def
  of_async_set_flow_removed_mask_equal_master_def of_async_set_flow_removed_mask_slave_def
  of_bsn_arp_idle_xid_def of_bsn_arp_idle_experimenter_def of_bsn_arp_idle_subtype_def
  of_bsn_arp_idle_vlan_vid_def of_bsn_arp_idle_ipv4_addr_def of_bsn_controller_connection_state_def
  of_bsn_controller_connection_auxiliary_id_def of_bsn_controller_connection_role_def
  of_bsn_controller_connection_uri_def of_bsn_controller_connections_reply_xid_def
  of_bsn_controller_connections_reply_experimenter_def
  of_bsn_controller_connections_reply_subtype_def of_bsn_controller_connections_request_xid_def
  of_bsn_controller_connections_request_experimenter_def
  of_bsn_controller_connections_request_subtype_def
  of_bsn_debug_counter_desc_stats_entry_counter_id_def of_bsn_debug_counter_desc_stats_entry_name_def
  of_bsn_debug_counter_desc_stats_entry_description_def of_bsn_debug_counter_desc_stats_reply_xid_def
  of_bsn_debug_counter_desc_stats_reply_flags_def
  of_bsn_debug_counter_desc_stats_reply_experimenter_def
  of_bsn_debug_counter_desc_stats_reply_subtype_def of_bsn_debug_counter_desc_stats_request_xid_def
  of_bsn_debug_counter_desc_stats_request_flags_def
  of_bsn_debug_counter_desc_stats_request_experimenter_def
  of_bsn_debug_counter_desc_stats_request_subtype_def of_bsn_debug_counter_stats_entry_counter_id_def
  of_bsn_debug_counter_stats_entry_value_def of_bsn_debug_counter_stats_reply_xid_def
  of_bsn_debug_counter_stats_reply_flags_def of_bsn_debug_counter_stats_reply_experimenter_def
  of_bsn_debug_counter_stats_reply_subtype_def of_bsn_debug_counter_stats_request_xid_def
  of_bsn_debug_counter_stats_request_flags_def of_bsn_debug_counter_stats_request_experimenter_def
  of_bsn_debug_counter_stats_request_subtype_def of_bsn_flow_checksum_bucket_stats_entry_checksum_def
  of_bsn_flow_checksum_bucket_stats_reply_xid_def of_bsn_flow_checksum_bucket_stats_reply_flags_def
  of_bsn_flow_checksum_bucket_stats_reply_experimenter_def
  of_bsn_flow_checksum_bucket_stats_reply_subtype_def
  of_bsn_flow_checksum_bucket_stats_request_xid_def
  of_bsn_flow_checksum_bucket_stats_request_flags_def
  of_bsn_flow_checksum_bucket_stats_request_experimenter_def
  of_bsn_flow_checksum_bucket_stats_request_subtype_def
  of_bsn_flow_checksum_bucket_stats_request_table_id_def of_bsn_flow_idle_xid_def
  of_bsn_flow_idle_experimenter_def of_bsn_flow_idle_subtype_def of_bsn_flow_idle_cookie_def
  of_bsn_flow_idle_priority_def of_bsn_flow_idle_table_id_def
  of_bsn_flow_idle_enable_get_reply_xid_def of_bsn_flow_idle_enable_get_reply_experimenter_def
  of_bsn_flow_idle_enable_get_reply_subtype_def of_bsn_flow_idle_enable_get_reply_enabled_def
  of_bsn_flow_idle_enable_get_request_xid_def of_bsn_flow_idle_enable_get_request_experimenter_def
  of_bsn_flow_idle_enable_get_request_subtype_def of_bsn_flow_idle_enable_set_reply_xid_def
  of_bsn_flow_idle_enable_set_reply_experimenter_def of_bsn_flow_idle_enable_set_reply_subtype_def
  of_bsn_flow_idle_enable_set_reply_enable_def of_bsn_flow_idle_enable_set_reply_status_def
  of_bsn_flow_idle_enable_set_request_xid_def of_bsn_flow_idle_enable_set_request_experimenter_def
  of_bsn_flow_idle_enable_set_request_subtype_def of_bsn_flow_idle_enable_set_request_enable_def
  of_bsn_generic_stats_reply_xid_def of_bsn_generic_stats_reply_flags_def
  of_bsn_generic_stats_reply_experimenter_def of_bsn_generic_stats_reply_subtype_def
  of_bsn_generic_stats_request_xid_def of_bsn_generic_stats_request_flags_def
  of_bsn_generic_stats_request_experimenter_def of_bsn_generic_stats_request_subtype_def
  of_bsn_generic_stats_request_name_def of_bsn_gentable_bucket_stats_entry_checksum_def
  of_bsn_gentable_bucket_stats_reply_xid_def of_bsn_gentable_bucket_stats_reply_flags_def
  of_bsn_gentable_bucket_stats_reply_experimenter_def of_bsn_gentable_bucket_stats_reply_subtype_def
  of_bsn_gentable_bucket_stats_request_xid_def of_bsn_gentable_bucket_stats_request_flags_def
  of_bsn_gentable_bucket_stats_request_experimenter_def
  of_bsn_gentable_bucket_stats_request_subtype_def of_bsn_gentable_bucket_stats_request_table_id_def
  of_bsn_gentable_clear_reply_xid_def of_bsn_gentable_clear_reply_experimenter_def
  of_bsn_gentable_clear_reply_subtype_def of_bsn_gentable_clear_reply_table_id_def
  of_bsn_gentable_clear_reply_deleted_count_def of_bsn_gentable_clear_reply_error_count_def
  of_bsn_gentable_clear_request_xid_def of_bsn_gentable_clear_request_experimenter_def
  of_bsn_gentable_clear_request_subtype_def of_bsn_gentable_clear_request_table_id_def
  of_bsn_gentable_clear_request_checksum_def of_bsn_gentable_clear_request_checksum_mask_def
  of_bsn_gentable_desc_stats_entry_table_id_def of_bsn_gentable_desc_stats_entry_name_def
  of_bsn_gentable_desc_stats_entry_buckets_size_def of_bsn_gentable_desc_stats_entry_max_entries_def
  of_bsn_gentable_desc_stats_reply_xid_def of_bsn_gentable_desc_stats_reply_flags_def
  of_bsn_gentable_desc_stats_reply_experimenter_def of_bsn_gentable_desc_stats_reply_subtype_def
  of_bsn_gentable_desc_stats_request_xid_def of_bsn_gentable_desc_stats_request_flags_def
  of_bsn_gentable_desc_stats_request_experimenter_def of_bsn_gentable_desc_stats_request_subtype_def
  of_bsn_gentable_entry_add_xid_def of_bsn_gentable_entry_add_experimenter_def
  of_bsn_gentable_entry_add_subtype_def of_bsn_gentable_entry_add_table_id_def
  of_bsn_gentable_entry_add_checksum_def

lemma fields_ok_10: "list_all field_ok fields_10"
  unfolding fields_10_def accessor_defs_10
  by (simp add: accessors_ok octets_accessors_ok inside_rows del: field_ok.simps)

end
