(* ===== verification/Class11.thy ===== *)
theory Class11
  imports Construct
begin

text \<open>
  The classes of \<^verbatim>\<open>src/class11.c\<close>: for each what its constructor, initialiser and
  \<open>push_wire_types\<close> write, and the scalar accessors, a getter and a setter for each field at a fixed offset.
\<close>

definition of_bsn_gentable_entry_delete_class :: wire_class where
  "of_bsn_gentable_entry_delete_class = \<lparr>class_id = OF_BSN_GENTABLE_ENTRY_DELETE, whole_buffer = True, wire_types = Some [(4, [PutVersion 0, Put8 1 0x4, Put32 8 0x5c16c7, Put32 12 0x2f]),
     (5, [PutVersion 0, Put8 1 0x4, Put32 8 0x5c16c7, Put32 12 0x2f])],
     finishes = [MessageLength]\<rparr>"

definition of_bsn_gentable_entry_delete_xid :: "32 word accessor" where
  "of_bsn_gentable_entry_delete_xid = u32_accessor [OF_BSN_GENTABLE_ENTRY_DELETE] [(4, 4), (5, 4)]"

definition of_bsn_gentable_entry_delete_experimenter :: "32 word accessor" where
  "of_bsn_gentable_entry_delete_experimenter = u32_accessor [OF_BSN_GENTABLE_ENTRY_DELETE] [(4, 8), (5, 8)]"

definition of_bsn_gentable_entry_delete_subtype :: "32 word accessor" where
  "of_bsn_gentable_entry_delete_subtype = u32_accessor [OF_BSN_GENTABLE_ENTRY_DELETE] [(4, 12), (5, 12)]"

definition of_bsn_gentable_entry_delete_table_id :: "16 word accessor" where
  "of_bsn_gentable_entry_delete_table_id = u16_accessor [OF_BSN_GENTABLE_ENTRY_DELETE] [(4, 16), (5, 16)]"

definition of_bsn_gentable_entry_desc_stats_entry_class :: wire_class where
  "of_bsn_gentable_entry_desc_stats_entry_class = \<lparr>class_id = OF_BSN_GENTABLE_ENTRY_DESC_STATS_ENTRY, whole_buffer = True, wire_types = None,
     finishes = [U16Length]\<rparr>"

definition of_bsn_gentable_entry_desc_stats_entry_checksum :: "(64 word \<times> 64 word) accessor" where
  "of_bsn_gentable_entry_desc_stats_entry_checksum = checksum_128_accessor [OF_BSN_GENTABLE_ENTRY_DESC_STATS_ENTRY] [(4, 4), (5, 4)]"

definition of_bsn_gentable_entry_desc_stats_reply_class :: wire_class where
  "of_bsn_gentable_entry_desc_stats_reply_class = \<lparr>class_id = OF_BSN_GENTABLE_ENTRY_DESC_STATS_REPLY, whole_buffer = True, wire_types = Some [(4, [PutVersion 0, Put8 1 0x13, Put16 8 0xffff, Put32 16 0x5c16c7, Put32 20 0x2]),
     (5, [PutVersion 0, Put8 1 0x13, Put16 8 0xffff, Put32 16 0x5c16c7, Put32 20 0x2])],
     finishes = [MessageLength]\<rparr>"

definition of_bsn_gentable_entry_desc_stats_reply_xid :: "32 word accessor" where
  "of_bsn_gentable_entry_desc_stats_reply_xid = u32_accessor [OF_BSN_GENTABLE_ENTRY_DESC_STATS_REPLY] [(4, 4), (5, 4)]"

definition of_bsn_gentable_entry_desc_stats_reply_flags :: "16 word accessor" where
  "of_bsn_gentable_entry_desc_stats_reply_flags = u16_accessor [OF_BSN_GENTABLE_ENTRY_DESC_STATS_REPLY] [(4, 10), (5, 10)]"

definition of_bsn_gentable_entry_desc_stats_reply_experimenter :: "32 word accessor" where
  "of_bsn_gentable_entry_desc_stats_reply_experimenter = u32_accessor [OF_BSN_GENTABLE_ENTRY_DESC_STATS_REPLY] [(4, 16), (5, 16)]"

definition of_bsn_gentable_entry_desc_stats_reply_subtype :: "32 word accessor" where
  "of_bsn_gentable_entry_desc_stats_reply_subtype = u32_accessor [OF_BSN_GENTABLE_ENTRY_DESC_STATS_REPLY] [(4, 20), (5, 20)]"

definition of_bsn_gentable_entry_desc_stats_request_class :: wire_class where
  "of_bsn_gentable_entry_desc_stats_request_class = \<lparr>class_id = OF_BSN_GENTABLE_ENTRY_DESC_STATS_REQUEST, whole_buffer = False, wire_types = Some [(4, [PutVersion 0, Put8 1 0x12, Put16 8 0xffff, Put32 16 0x5c16c7, Put32 20 0x2]),
     (5, [PutVersion 0, Put8 1 0x12, Put16 8 0xffff, Put32 16 0x5c16c7, Put32 20 0x2])],
     finishes = [MessageLength]\<rparr>"

definition of_bsn_gentable_entry_desc_stats_request_xid :: "32 word accessor" where
  "of_bsn_gentable_entry_desc_stats_request_xid = u32_accessor [OF_BSN_GENTABLE_ENTRY_DESC_STATS_REQUEST] [(4, 4), (5, 4)]"

definition of_bsn_gentable_entry_desc_stats_request_flags :: "16 word accessor" where
  "of_bsn_gentable_entry_desc_stats_request_flags = u16_accessor [OF_BSN_GENTABLE_ENTRY_DESC_STATS_REQUEST] [(4, 10), (5, 10)]"

definition of_bsn_gentable_entry_desc_stats_request_experimenter :: "32 word accessor" where
  "of_bsn_gentable_entry_desc_stats_request_experimenter = u32_accessor [OF_BSN_GENTABLE_ENTRY_DESC_STATS_REQUEST] [(4, 16), (5, 16)]"

definition of_bsn_gentable_entry_desc_stats_request_subtype :: "32 word accessor" where
  "of_bsn_gentable_entry_desc_stats_request_subtype = u32_accessor [OF_BSN_GENTABLE_ENTRY_DESC_STATS_REQUEST] [(4, 20), (5, 20)]"

definition of_bsn_gentable_entry_desc_stats_request_table_id :: "16 word accessor" where
  "of_bsn_gentable_entry_desc_stats_request_table_id = u16_accessor [OF_BSN_GENTABLE_ENTRY_DESC_STATS_REQUEST] [(4, 24), (5, 24)]"

definition of_bsn_gentable_entry_desc_stats_request_checksum :: "(64 word \<times> 64 word) accessor" where
  "of_bsn_gentable_entry_desc_stats_request_checksum = checksum_128_accessor [OF_BSN_GENTABLE_ENTRY_DESC_STATS_REQUEST] [(4, 28), (5, 28)]"

definition of_bsn_gentable_entry_desc_stats_request_checksum_mask :: "(64 word \<times> 64 word) accessor" where
  "of_bsn_gentable_entry_desc_stats_request_checksum_mask = checksum_128_accessor [OF_BSN_GENTABLE_ENTRY_DESC_STATS_REQUEST] [(4, 44), (5, 44)]"

definition of_bsn_gentable_entry_stats_entry_class :: wire_class where
  "of_bsn_gentable_entry_stats_entry_class = \<lparr>class_id = OF_BSN_GENTABLE_ENTRY_STATS_ENTRY, whole_buffer = True, wire_types = None,
     finishes = [U16Length]\<rparr>"

definition of_bsn_gentable_entry_stats_reply_class :: wire_class where
  "of_bsn_gentable_entry_stats_reply_class = \<lparr>class_id = OF_BSN_GENTABLE_ENTRY_STATS_REPLY, whole_buffer = True, wire_types = Some [(4, [PutVersion 0, Put8 1 0x13, Put16 8 0xffff, Put32 16 0x5c16c7, Put32 20 0x3]),
     (5, [PutVersion 0, Put8 1 0x13, Put16 8 0xffff, Put32 16 0x5c16c7, Put32 20 0x3])],
     finishes = [MessageLength]\<rparr>"

definition of_bsn_gentable_entry_stats_reply_xid :: "32 word accessor" where
  "of_bsn_gentable_entry_stats_reply_xid = u32_accessor [OF_BSN_GENTABLE_ENTRY_STATS_REPLY] [(4, 4), (5, 4)]"

definition of_bsn_gentable_entry_stats_reply_flags :: "16 word accessor" where
  "of_bsn_gentable_entry_stats_reply_flags = u16_accessor [OF_BSN_GENTABLE_ENTRY_STATS_REPLY] [(4, 10), (5, 10)]"

definition of_bsn_gentable_entry_stats_reply_experimenter :: "32 word accessor" where
  "of_bsn_gentable_entry_stats_reply_experimenter = u32_accessor [OF_BSN_GENTABLE_ENTRY_STATS_REPLY] [(4, 16), (5, 16)]"

definition of_bsn_gentable_entry_stats_reply_subtype :: "32 word accessor" where
  "of_bsn_gentable_entry_stats_reply_subtype = u32_accessor [OF_BSN_GENTABLE_ENTRY_STATS_REPLY] [(4, 20), (5, 20)]"

definition of_bsn_gentable_entry_stats_request_class :: wire_class where
  "of_bsn_gentable_entry_stats_request_class = \<lparr>class_id = OF_BSN_GENTABLE_ENTRY_STATS_REQUEST, whole_buffer = False, wire_types = Some [(4, [PutVersion 0, Put8 1 0x12, Put16 8 0xffff, Put32 16 0x5c16c7, Put32 20 0x3]),
     (5, [PutVersion 0, Put8 1 0x12, Put16 8 0xffff, Put32 16 0x5c16c7, Put32 20 0x3])],
     finishes = [MessageLength]\<rparr>"

definition of_bsn_gentable_entry_stats_request_xid :: "32 word accessor" where
  "of_bsn_gentable_entry_stats_request_xid = u32_accessor [OF_BSN_GENTABLE_ENTRY_STATS_REQUEST] [(4, 4), (5, 4)]"

definition of_bsn_gentable_entry_stats_request_flags :: "16 word accessor" where
  "of_bsn_gentable_entry_stats_request_flags = u16_accessor [OF_BSN_GENTABLE_ENTRY_STATS_REQUEST] [(4, 10), (5, 10)]"

definition of_bsn_gentable_entry_stats_request_experimenter :: "32 word accessor" where
  "of_bsn_gentable_entry_stats_request_experimenter = u32_accessor [OF_BSN_GENTABLE_ENTRY_STATS_REQUEST] [(4, 16), (5, 16)]"

definition of_bsn_gentable_entry_stats_request_subtype :: "32 word accessor" where
  "of_bsn_gentable_entry_stats_request_subtype = u32_accessor [OF_BSN_GENTABLE_ENTRY_STATS_REQUEST] [(4, 20), (5, 20)]"

definition of_bsn_gentable_entry_stats_request_table_id :: "16 word accessor" where
  "of_bsn_gentable_entry_stats_request_table_id = u16_accessor [OF_BSN_GENTABLE_ENTRY_STATS_REQUEST] [(4, 24), (5, 24)]"

definition of_bsn_gentable_entry_stats_request_checksum :: "(64 word \<times> 64 word) accessor" where
  "of_bsn_gentable_entry_stats_request_checksum = checksum_128_accessor [OF_BSN_GENTABLE_ENTRY_STATS_REQUEST] [(4, 28), (5, 28)]"

definition of_bsn_gentable_entry_stats_request_checksum_mask :: "(64 word \<times> 64 word) accessor" where
  "of_bsn_gentable_entry_stats_request_checksum_mask = checksum_128_accessor [OF_BSN_GENTABLE_ENTRY_STATS_REQUEST] [(4, 44), (5, 44)]"

definition of_bsn_gentable_set_buckets_size_class :: wire_class where
  "of_bsn_gentable_set_buckets_size_class = \<lparr>class_id = OF_BSN_GENTABLE_SET_BUCKETS_SIZE, whole_buffer = False, wire_types = Some [(4, [PutVersion 0, Put8 1 0x4, Put32 8 0x5c16c7, Put32 12 0x32]),
     (5, [PutVersion 0, Put8 1 0x4, Put32 8 0x5c16c7, Put32 12 0x32])],
     finishes = [MessageLength]\<rparr>"

definition of_bsn_gentable_set_buckets_size_xid :: "32 word accessor" where
  "of_bsn_gentable_set_buckets_size_xid = u32_accessor [OF_BSN_GENTABLE_SET_BUCKETS_SIZE] [(4, 4), (5, 4)]"

definition of_bsn_gentable_set_buckets_size_experimenter :: "32 word accessor" where
  "of_bsn_gentable_set_buckets_size_experimenter = u32_accessor [OF_BSN_GENTABLE_SET_BUCKETS_SIZE] [(4, 8), (5, 8)]"

definition of_bsn_gentable_set_buckets_size_subtype :: "32 word accessor" where
  "of_bsn_gentable_set_buckets_size_subtype = u32_accessor [OF_BSN_GENTABLE_SET_BUCKETS_SIZE] [(4, 12), (5, 12)]"

definition of_bsn_gentable_set_buckets_size_table_id :: "16 word accessor" where
  "of_bsn_gentable_set_buckets_size_table_id = u16_accessor [OF_BSN_GENTABLE_SET_BUCKETS_SIZE] [(4, 16), (5, 16)]"

definition of_bsn_gentable_set_buckets_size_buckets_size :: "32 word accessor" where
  "of_bsn_gentable_set_buckets_size_buckets_size = u32_accessor [OF_BSN_GENTABLE_SET_BUCKETS_SIZE] [(4, 20), (5, 20)]"

definition of_bsn_gentable_stats_entry_class :: wire_class where
  "of_bsn_gentable_stats_entry_class = \<lparr>class_id = OF_BSN_GENTABLE_STATS_ENTRY, whole_buffer = False, wire_types = None,
     finishes = []\<rparr>"

definition of_bsn_gentable_stats_entry_table_id :: "16 word accessor" where
  "of_bsn_gentable_stats_entry_table_id = u16_accessor [OF_BSN_GENTABLE_STATS_ENTRY] [(4, 0), (5, 0)]"

definition of_bsn_gentable_stats_entry_entry_count :: "32 word accessor" where
  "of_bsn_gentable_stats_entry_entry_count = u32_accessor [OF_BSN_GENTABLE_STATS_ENTRY] [(4, 4), (5, 4)]"

definition of_bsn_gentable_stats_entry_checksum :: "(64 word \<times> 64 word) accessor" where
  "of_bsn_gentable_stats_entry_checksum = checksum_128_accessor [OF_BSN_GENTABLE_STATS_ENTRY] [(4, 8), (5, 8)]"

definition of_bsn_gentable_stats_reply_class :: wire_class where
  "of_bsn_gentable_stats_reply_class = \<lparr>class_id = OF_BSN_GENTABLE_STATS_REPLY, whole_buffer = True, wire_types = Some [(4, [PutVersion 0, Put8 1 0x13, Put16 8 0xffff, Put32 16 0x5c16c7, Put32 20 0x7]),
     (5, [PutVersion 0, Put8 1 0x13, Put16 8 0xffff, Put32 16 0x5c16c7, Put32 20 0x7])],
     finishes = [MessageLength]\<rparr>"

definition of_bsn_gentable_stats_reply_xid :: "32 word accessor" where
  "of_bsn_gentable_stats_reply_xid = u32_accessor [OF_BSN_GENTABLE_STATS_REPLY] [(4, 4), (5, 4)]"

definition of_bsn_gentable_stats_reply_flags :: "16 word accessor" where
  "of_bsn_gentable_stats_reply_flags = u16_accessor [OF_BSN_GENTABLE_STATS_REPLY] [(4, 10), (5, 10)]"

definition of_bsn_gentable_stats_reply_experimenter :: "32 word accessor" where
  "of_bsn_gentable_stats_reply_experimenter = u32_accessor [OF_BSN_GENTABLE_STATS_REPLY] [(4, 16), (5, 16)]"

definition of_bsn_gentable_stats_reply_subtype :: "32 word accessor" where
  "of_bsn_gentable_stats_reply_subtype = u32_accessor [OF_BSN_GENTABLE_STATS_REPLY] [(4, 20), (5, 20)]"

definition of_bsn_gentable_stats_request_class :: wire_class where
  "of_bsn_gentable_stats_request_class = \<lparr>class_id = OF_BSN_GENTABLE_STATS_REQUEST, whole_buffer = False, wire_types = Some [(4, [PutVersion 0, Put8 1 0x12, Put16 8 0xffff, Put32 16 0x5c16c7, Put32 20 0x7]),
     (5, [PutVersion 0, Put8 1 0x12, Put16 8 0xffff, Put32 16 0x5c16c7, Put32 20 0x7])],
     finishes = [MessageLength]\<rparr>"

definition of_bsn_gentable_stats_request_xid :: "32 word accessor" where
  "of_bsn_gentable_stats_request_xid = u32_accessor [OF_BSN_GENTABLE_STATS_REQUEST] [(4, 4), (5, 4)]"

definition of_bsn_gentable_stats_request_flags :: "16 word accessor" where
  "of_bsn_gentable_stats_request_flags = u16_accessor [OF_BSN_GENTABLE_STATS_REQUEST] [(4, 10), (5, 10)]"

definition of_bsn_gentable_stats_request_experimenter :: "32 word accessor" where
  "of_bsn_gentable_stats_request_experimenter = u32_accessor [OF_BSN_GENTABLE_STATS_REQUEST] [(4, 16), (5, 16)]"

definition of_bsn_gentable_stats_request_subtype :: "32 word accessor" where
  "of_bsn_gentable_stats_request_subtype = u32_accessor [OF_BSN_GENTABLE_STATS_REQUEST] [(4, 20), (5, 20)]"

definition of_bsn_get_switch_pipeline_reply_class :: wire_class where
  "of_bsn_get_switch_pipeline_reply_class = \<lparr>class_id = OF_BSN_GET_SWITCH_PIPELINE_REPLY, whole_buffer = False, wire_types = Some [(4, [PutVersion 0, Put8 1 0x4, Put32 8 0x5c16c7, Put32 12 0x34]),
     (5, [PutVersion 0, Put8 1 0x4, Put32 8 0x5c16c7, Put32 12 0x34])],
     finishes = [MessageLength]\<rparr>"

definition of_bsn_get_switch_pipeline_reply_xid :: "32 word accessor" where
  "of_bsn_get_switch_pipeline_reply_xid = u32_accessor [OF_BSN_GET_SWITCH_PIPELINE_REPLY] [(4, 4), (5, 4)]"

definition of_bsn_get_switch_pipeline_reply_experimenter :: "32 word accessor" where
  "of_bsn_get_switch_pipeline_reply_experimenter = u32_accessor [OF_BSN_GET_SWITCH_PIPELINE_REPLY] [(4, 8), (5, 8)]"

definition of_bsn_get_switch_pipeline_reply_subtype :: "32 word accessor" where
  "of_bsn_get_switch_pipeline_reply_subtype = u32_accessor [OF_BSN_GET_SWITCH_PIPELINE_REPLY] [(4, 12), (5, 12)]"

definition of_bsn_get_switch_pipeline_reply_pipeline :: "byte list accessor" where
  "of_bsn_get_switch_pipeline_reply_pipeline = desc_str_accessor [OF_BSN_GET_SWITCH_PIPELINE_REPLY] [(4, 16), (5, 16)]"

definition of_bsn_get_switch_pipeline_request_class :: wire_class where
  "of_bsn_get_switch_pipeline_request_class = \<lparr>class_id = OF_BSN_GET_SWITCH_PIPELINE_REQUEST, whole_buffer = False, wire_types = Some [(4, [PutVersion 0, Put8 1 0x4, Put32 8 0x5c16c7, Put32 12 0x33]),
     (5, [PutVersion 0, Put8 1 0x4, Put32 8 0x5c16c7, Put32 12 0x33])],
     finishes = [MessageLength]\<rparr>"

definition of_bsn_get_switch_pipeline_request_xid :: "32 word accessor" where
  "of_bsn_get_switch_pipeline_request_xid = u32_accessor [OF_BSN_GET_SWITCH_PIPELINE_REQUEST] [(4, 4), (5, 4)]"

definition of_bsn_get_switch_pipeline_request_experimenter :: "32 word accessor" where
  "of_bsn_get_switch_pipeline_request_experimenter = u32_accessor [OF_BSN_GET_SWITCH_PIPELINE_REQUEST] [(4, 8), (5, 8)]"

definition of_bsn_get_switch_pipeline_request_subtype :: "32 word accessor" where
  "of_bsn_get_switch_pipeline_request_subtype = u32_accessor [OF_BSN_GET_SWITCH_PIPELINE_REQUEST] [(4, 12), (5, 12)]"

definition of_bsn_image_desc_stats_reply_class :: wire_class where
  "of_bsn_image_desc_stats_reply_class = \<lparr>class_id = OF_BSN_IMAGE_DESC_STATS_REPLY, whole_buffer = False, wire_types = Some [(4, [PutVersion 0, Put8 1 0x13, Put16 8 0xffff, Put32 16 0x5c16c7, Put32 20 0xe]),
     (5, [PutVersion 0, Put8 1 0x13, Put16 8 0xffff, Put32 16 0x5c16c7, Put32 20 0xe])],
     finishes = [MessageLength]\<rparr>"

definition of_bsn_image_desc_stats_reply_xid :: "32 word accessor" where
  "of_bsn_image_desc_stats_reply_xid = u32_accessor [OF_BSN_IMAGE_DESC_STATS_REPLY] [(4, 4), (5, 4)]"

definition of_bsn_image_desc_stats_reply_flags :: "16 word accessor" where
  "of_bsn_image_desc_stats_reply_flags = u16_accessor [OF_BSN_IMAGE_DESC_STATS_REPLY] [(4, 10), (5, 10)]"

definition of_bsn_image_desc_stats_reply_experimenter :: "32 word accessor" where
  "of_bsn_image_desc_stats_reply_experimenter = u32_accessor [OF_BSN_IMAGE_DESC_STATS_REPLY] [(4, 16), (5, 16)]"

definition of_bsn_image_desc_stats_reply_subtype :: "32 word accessor" where
  "of_bsn_image_desc_stats_reply_subtype = u32_accessor [OF_BSN_IMAGE_DESC_STATS_REPLY] [(4, 20), (5, 20)]"

definition of_bsn_image_desc_stats_reply_image_checksum :: "byte list accessor" where
  "of_bsn_image_desc_stats_reply_image_checksum = desc_str_accessor [OF_BSN_IMAGE_DESC_STATS_REPLY] [(4, 24), (5, 24)]"

definition of_bsn_image_desc_stats_reply_startup_config_checksum :: "byte list accessor" where
  "of_bsn_image_desc_stats_reply_startup_config_checksum = desc_str_accessor [OF_BSN_IMAGE_DESC_STATS_REPLY] [(4, 280), (5, 280)]"

definition of_bsn_image_desc_stats_request_class :: wire_class where
  "of_bsn_image_desc_stats_request_class = \<lparr>class_id = OF_BSN_IMAGE_DESC_STATS_REQUEST, whole_buffer = False, wire_types = Some [(4, [PutVersion 0, Put8 1 0x12, Put16 8 0xffff, Put32 16 0x5c16c7, Put32 20 0xe]),
     (5, [PutVersion 0, Put8 1 0x12, Put16 8 0xffff, Put32 16 0x5c16c7, Put32 20 0xe])],
     finishes = [MessageLength]\<rparr>"

definition of_bsn_image_desc_stats_request_xid :: "32 word accessor" where
  "of_bsn_image_desc_stats_request_xid = u32_accessor [OF_BSN_IMAGE_DESC_STATS_REQUEST] [(4, 4), (5, 4)]"

definition of_bsn_image_desc_stats_request_flags :: "16 word accessor" where
  "of_bsn_image_desc_stats_request_flags = u16_accessor [OF_BSN_IMAGE_DESC_STATS_REQUEST] [(4, 10), (5, 10)]"

definition of_bsn_image_desc_stats_request_experimenter :: "32 word accessor" where
  "of_bsn_image_desc_stats_request_experimenter = u32_accessor [OF_BSN_IMAGE_DESC_STATS_REQUEST] [(4, 16), (5, 16)]"

definition of_bsn_image_desc_stats_request_subtype :: "32 word accessor" where
  "of_bsn_image_desc_stats_request_subtype = u32_accessor [OF_BSN_IMAGE_DESC_STATS_REQUEST] [(4, 20), (5, 20)]"

definition of_bsn_lacp_convergence_notif_class :: wire_class where
  "of_bsn_lacp_convergence_notif_class = \<lparr>class_id = OF_BSN_LACP_CONVERGENCE_NOTIF, whole_buffer = False, wire_types = Some [(4, [PutVersion 0, Put8 1 0x4, Put32 8 0x5c16c7, Put32 12 0x2b]),
     (5, [PutVersion 0, Put8 1 0x4, Put32 8 0x5c16c7, Put32 12 0x2b])],
     finishes = [MessageLength]\<rparr>"

definition of_bsn_lacp_convergence_notif_xid :: "32 word accessor" where
  "of_bsn_lacp_convergence_notif_xid = u32_accessor [OF_BSN_LACP_CONVERGENCE_NOTIF] [(4, 4), (5, 4)]"

definition of_bsn_lacp_convergence_notif_experimenter :: "32 word accessor" where
  "of_bsn_lacp_convergence_notif_experimenter = u32_accessor [OF_BSN_LACP_CONVERGENCE_NOTIF] [(4, 8), (5, 8)]"

definition of_bsn_lacp_convergence_notif_subtype :: "32 word accessor" where
  "of_bsn_lacp_convergence_notif_subtype = u32_accessor [OF_BSN_LACP_CONVERGENCE_NOTIF] [(4, 12), (5, 12)]"

definition of_bsn_lacp_convergence_notif_convergence_status :: "byte accessor" where
  "of_bsn_lacp_convergence_notif_convergence_status = u8_accessor [OF_BSN_LACP_CONVERGENCE_NOTIF] [(4, 16), (5, 16)]"

definition of_bsn_lacp_convergence_notif_port_no :: "32 word accessor" where
  "of_bsn_lacp_convergence_notif_port_no = port_no_accessor [OF_BSN_LACP_CONVERGENCE_NOTIF] [(4, 20), (5, 20)]"

definition of_bsn_lacp_convergence_notif_actor_sys_priority :: "16 word accessor" where
  "of_bsn_lacp_convergence_notif_actor_sys_priority = u16_accessor [OF_BSN_LACP_CONVERGENCE_NOTIF] [(4, 24), (5, 24)]"

definition of_bsn_lacp_convergence_notif_actor_sys_mac :: "byte list accessor" where
  "of_bsn_lacp_convergence_notif_actor_sys_mac = mac_accessor [OF_BSN_LACP_CONVERGENCE_NOTIF] [(4, 26), (5, 26)]"

definition of_bsn_lacp_convergence_notif_actor_port_priority :: "16 word accessor" where
  "of_bsn_lacp_convergence_notif_actor_port_priority = u16_accessor [OF_BSN_LACP_CONVERGENCE_NOTIF] [(4, 32), (5, 32)]"

definition of_bsn_lacp_convergence_notif_actor_port_num :: "16 word accessor" where
  "of_bsn_lacp_convergence_notif_actor_port_num = u16_accessor [OF_BSN_LACP_CONVERGENCE_NOTIF] [(4, 34), (5, 34)]"

definition of_bsn_lacp_convergence_notif_actor_key :: "16 word accessor" where
  "of_bsn_lacp_convergence_notif_actor_key = u16_accessor [OF_BSN_LACP_CONVERGENCE_NOTIF] [(4, 36), (5, 36)]"

definition of_bsn_lacp_convergence_notif_partner_sys_priority :: "16 word accessor" where
  "of_bsn_lacp_convergence_notif_partner_sys_priority = u16_accessor [OF_BSN_LACP_CONVERGENCE_NOTIF] [(4, 38), (5, 38)]"

definition of_bsn_lacp_convergence_notif_partner_sys_mac :: "byte list accessor" where
  "of_bsn_lacp_convergence_notif_partner_sys_mac = mac_accessor [OF_BSN_LACP_CONVERGENCE_NOTIF] [(4, 40), (5, 40)]"

definition of_bsn_lacp_convergence_notif_partner_port_priority :: "16 word accessor" where
  "of_bsn_lacp_convergence_notif_partner_port_priority = u16_accessor [OF_BSN_LACP_CONVERGENCE_NOTIF] [(4, 46), (5, 46)]"

definition of_bsn_lacp_convergence_notif_partner_port_num :: "16 word accessor" where
  "of_bsn_lacp_convergence_notif_partner_port_num = u16_accessor [OF_BSN_LACP_CONVERGENCE_NOTIF] [(4, 48), (5, 48)]"

definition of_bsn_lacp_convergence_notif_partner_key :: "16 word accessor" where
  "of_bsn_lacp_convergence_notif_partner_key = u16_accessor [OF_BSN_LACP_CONVERGENCE_NOTIF] [(4, 50), (5, 50)]"

definition of_bsn_lacp_stats_entry_class :: wire_class where
  "of_bsn_lacp_stats_entry_class = \<lparr>class_id = OF_BSN_LACP_STATS_ENTRY, whole_buffer = False, wire_types = None,
     finishes = []\<rparr>"

definition of_bsn_lacp_stats_entry_port_no :: "32 word accessor" where
  "of_bsn_lacp_stats_entry_port_no = port_no_accessor [OF_BSN_LACP_STATS_ENTRY] [(4, 0), (5, 0)]"

definition of_bsn_lacp_stats_entry_actor_sys_priority :: "16 word accessor" where
  "of_bsn_lacp_stats_entry_actor_sys_priority = u16_accessor [OF_BSN_LACP_STATS_ENTRY] [(4, 4), (5, 4)]"

definition of_bsn_lacp_stats_entry_actor_sys_mac :: "byte list accessor" where
  "of_bsn_lacp_stats_entry_actor_sys_mac = mac_accessor [OF_BSN_LACP_STATS_ENTRY] [(4, 6), (5, 6)]"

definition of_bsn_lacp_stats_entry_actor_port_priority :: "16 word accessor" where
  "of_bsn_lacp_stats_entry_actor_port_priority = u16_accessor [OF_BSN_LACP_STATS_ENTRY] [(4, 12), (5, 12)]"

definition of_bsn_lacp_stats_entry_actor_port_num :: "16 word accessor" where
  "of_bsn_lacp_stats_entry_actor_port_num = u16_accessor [OF_BSN_LACP_STATS_ENTRY] [(4, 14), (5, 14)]"

definition of_bsn_lacp_stats_entry_actor_key :: "16 word accessor" where
  "of_bsn_lacp_stats_entry_actor_key = u16_accessor [OF_BSN_LACP_STATS_ENTRY] [(4, 16), (5, 16)]"

definition of_bsn_lacp_stats_entry_convergence_status :: "byte accessor" where
  "of_bsn_lacp_stats_entry_convergence_status = u8_accessor [OF_BSN_LACP_STATS_ENTRY] [(4, 18), (5, 18)]"

definition of_bsn_lacp_stats_entry_partner_sys_priority :: "16 word accessor" where
  "of_bsn_lacp_stats_entry_partner_sys_priority = u16_accessor [OF_BSN_LACP_STATS_ENTRY] [(4, 20), (5, 20)]"

definition of_bsn_lacp_stats_entry_partner_sys_mac :: "byte list accessor" where
  "of_bsn_lacp_stats_entry_partner_sys_mac = mac_accessor [OF_BSN_LACP_STATS_ENTRY] [(4, 22), (5, 22)]"

definition of_bsn_lacp_stats_entry_partner_port_priority :: "16 word accessor" where
  "of_bsn_lacp_stats_entry_partner_port_priority = u16_accessor [OF_BSN_LACP_STATS_ENTRY] [(4, 28), (5, 28)]"

definition of_bsn_lacp_stats_entry_partner_port_num :: "16 word accessor" where
  "of_bsn_lacp_stats_entry_partner_port_num = u16_accessor [OF_BSN_LACP_STATS_ENTRY] [(4, 30), (5, 30)]"

definition of_bsn_lacp_stats_entry_partner_key :: "16 word accessor" where
  "of_bsn_lacp_stats_entry_partner_key = u16_accessor [OF_BSN_LACP_STATS_ENTRY] [(4, 32), (5, 32)]"

definition of_bsn_lacp_stats_reply_class :: wire_class where
  "of_bsn_lacp_stats_reply_class = \<lparr>class_id = OF_BSN_LACP_STATS_REPLY, whole_buffer = True, wire_types = Some [(4, [PutVersion 0, Put8 1 0x13, Put16 8 0xffff, Put32 16 0x5c16c7, Put32 20 0x1]),
     (5, [PutVersion 0, Put8 1 0x13, Put16 8 0xffff, Put32 16 0x5c16c7, Put32 20 0x1])],
     finishes = [MessageLength]\<rparr>"

definition of_bsn_lacp_stats_reply_xid :: "32 word accessor" where
  "of_bsn_lacp_stats_reply_xid = u32_accessor [OF_BSN_LACP_STATS_REPLY] [(4, 4), (5, 4)]"

definition of_bsn_lacp_stats_reply_flags :: "16 word accessor" where
  "of_bsn_lacp_stats_reply_flags = u16_accessor [OF_BSN_LACP_STATS_REPLY] [(4, 10), (5, 10)]"

definition of_bsn_lacp_stats_reply_experimenter :: "32 word accessor" where
  "of_bsn_lacp_stats_reply_experimenter = u32_accessor [OF_BSN_LACP_STATS_REPLY] [(4, 16), (5, 16)]"

definition of_bsn_lacp_stats_reply_subtype :: "32 word accessor" where
  "of_bsn_lacp_stats_reply_subtype = u32_accessor [OF_BSN_LACP_STATS_REPLY] [(4, 20), (5, 20)]"

definition of_bsn_lacp_stats_request_class :: wire_class where
  "of_bsn_lacp_stats_request_class = \<lparr>class_id = OF_BSN_LACP_STATS_REQUEST, whole_buffer = False, wire_types = Some [(4, [PutVersion 0, Put8 1 0x12, Put16 8 0xffff, Put32 16 0x5c16c7, Put32 20 0x1]),
     (5, [PutVersion 0, Put8 1 0x12, Put16 8 0xffff, Put32 16 0x5c16c7, Put32 20 0x1])],
     finishes = [MessageLength]\<rparr>"

definition of_bsn_lacp_stats_request_xid :: "32 word accessor" where
  "of_bsn_lacp_stats_request_xid = u32_accessor [OF_BSN_LACP_STATS_REQUEST] [(4, 4), (5, 4)]"

definition of_bsn_lacp_stats_request_flags :: "16 word accessor" where
  "of_bsn_lacp_stats_request_flags = u16_accessor [OF_BSN_LACP_STATS_REQUEST] [(4, 10), (5, 10)]"

definition of_bsn_lacp_stats_request_experimenter :: "32 word accessor" where
  "of_bsn_lacp_stats_request_experimenter = u32_accessor [OF_BSN_LACP_STATS_REQUEST] [(4, 16), (5, 16)]"

definition of_bsn_lacp_stats_request_subtype :: "32 word accessor" where
  "of_bsn_lacp_stats_request_subtype = u32_accessor [OF_BSN_LACP_STATS_REQUEST] [(4, 20), (5, 20)]"

definition of_bsn_log_class :: wire_class where
  "of_bsn_log_class = \<lparr>class_id = OF_BSN_LOG, whole_buffer = True, wire_types = Some [(4, [PutVersion 0, Put8 1 0x4, Put32 8 0x5c16c7, Put32 12 0x3f]),
     (5, [PutVersion 0, Put8 1 0x4, Put32 8 0x5c16c7, Put32 12 0x3f])],
     finishes = [MessageLength]\<rparr>"

definition of_bsn_log_xid :: "32 word accessor" where
  "of_bsn_log_xid = u32_accessor [OF_BSN_LOG] [(4, 4), (5, 4)]"

definition of_bsn_log_experimenter :: "32 word accessor" where
  "of_bsn_log_experimenter = u32_accessor [OF_BSN_LOG] [(4, 8), (5, 8)]"

definition of_bsn_log_subtype :: "32 word accessor" where
  "of_bsn_log_subtype = u32_accessor [OF_BSN_LOG] [(4, 12), (5, 12)]"

definition of_bsn_log_loglevel :: "byte accessor" where
  "of_bsn_log_loglevel = u8_accessor [OF_BSN_LOG] [(4, 16), (5, 16)]"

definition of_bsn_lua_command_reply_class :: wire_class where
  "of_bsn_lua_command_reply_class = \<lparr>class_id = OF_BSN_LUA_COMMAND_REPLY, whole_buffer = True, wire_types = Some [(4, [PutVersion 0, Put8 1 0x4, Put32 8 0x5c16c7, Put32 12 0x42]),
     (5, [PutVersion 0, Put8 1 0x4, Put32 8 0x5c16c7, Put32 12 0x42])],
     finishes = [MessageLength]\<rparr>"

definition of_bsn_lua_command_reply_xid :: "32 word accessor" where
  "of_bsn_lua_command_reply_xid = u32_accessor [OF_BSN_LUA_COMMAND_REPLY] [(4, 4), (5, 4)]"

definition of_bsn_lua_command_reply_experimenter :: "32 word accessor" where
  "of_bsn_lua_command_reply_experimenter = u32_accessor [OF_BSN_LUA_COMMAND_REPLY] [(4, 8), (5, 8)]"

definition of_bsn_lua_command_reply_subtype :: "32 word accessor" where
  "of_bsn_lua_command_reply_subtype = u32_accessor [OF_BSN_LUA_COMMAND_REPLY] [(4, 12), (5, 12)]"

definition of_bsn_lua_command_request_class :: wire_class where
  "of_bsn_lua_command_request_class = \<lparr>class_id = OF_BSN_LUA_COMMAND_REQUEST, whole_buffer = True, wire_types = Some [(4, [PutVersion 0, Put8 1 0x4, Put32 8 0x5c16c7, Put32 12 0x41]),
     (5, [PutVersion 0, Put8 1 0x4, Put32 8 0x5c16c7, Put32 12 0x41])],
     finishes = [MessageLength]\<rparr>"

definition of_bsn_lua_command_request_xid :: "32 word accessor" where
  "of_bsn_lua_command_request_xid = u32_accessor [OF_BSN_LUA_COMMAND_REQUEST] [(4, 4), (5, 4)]"

definition of_bsn_lua_command_request_experimenter :: "32 word accessor" where
  "of_bsn_lua_command_request_experimenter = u32_accessor [OF_BSN_LUA_COMMAND_REQUEST] [(4, 8), (5, 8)]"

definition of_bsn_lua_command_request_subtype :: "32 word accessor" where
  "of_bsn_lua_command_request_subtype = u32_accessor [OF_BSN_LUA_COMMAND_REQUEST] [(4, 12), (5, 12)]"

definition of_bsn_lua_notification_class :: wire_class where
  "of_bsn_lua_notification_class = \<lparr>class_id = OF_BSN_LUA_NOTIFICATION, whole_buffer = True, wire_types = Some [(4, [PutVersion 0, Put8 1 0x4, Put32 8 0x5c16c7, Put32 12 0x43]),
     (5, [PutVersion 0, Put8 1 0x4, Put32 8 0x5c16c7, Put32 12 0x43])],
     finishes = [MessageLength]\<rparr>"

definition of_bsn_lua_notification_xid :: "32 word accessor" where
  "of_bsn_lua_notification_xid = u32_accessor [OF_BSN_LUA_NOTIFICATION] [(4, 4), (5, 4)]"

definition of_bsn_lua_notification_experimenter :: "32 word accessor" where
  "of_bsn_lua_notification_experimenter = u32_accessor [OF_BSN_LUA_NOTIFICATION] [(4, 8), (5, 8)]"

definition of_bsn_lua_notification_subtype :: "32 word accessor" where
  "of_bsn_lua_notification_subtype = u32_accessor [OF_BSN_LUA_NOTIFICATION] [(4, 12), (5, 12)]"

definition of_bsn_lua_upload_class :: wire_class where
  "of_bsn_lua_upload_class = \<lparr>class_id = OF_BSN_LUA_UPLOAD, whole_buffer = True, wire_types = Some [(4, [PutVersion 0, Put8 1 0x4, Put32 8 0x5c16c7, Put32 12 0x40]),
     (5, [PutVersion 0, Put8 1 0x4, Put32 8 0x5c16c7, Put32 12 0x40])],
     finishes = [MessageLength]\<rparr>"

definition of_bsn_lua_upload_xid :: "32 word accessor" where
  "of_bsn_lua_upload_xid = u32_accessor [OF_BSN_LUA_UPLOAD] [(4, 4), (5, 4)]"

definition of_bsn_lua_upload_experimenter :: "32 word accessor" where
  "of_bsn_lua_upload_experimenter = u32_accessor [OF_BSN_LUA_UPLOAD] [(4, 8), (5, 8)]"

definition of_bsn_lua_upload_subtype :: "32 word accessor" where
  "of_bsn_lua_upload_subtype = u32_accessor [OF_BSN_LUA_UPLOAD] [(4, 12), (5, 12)]"

definition of_bsn_lua_upload_flags :: "16 word accessor" where
  "of_bsn_lua_upload_flags = u16_accessor [OF_BSN_LUA_UPLOAD] [(4, 16), (5, 16)]"

definition of_bsn_lua_upload_filename :: "byte list accessor" where
  "of_bsn_lua_upload_filename = str64_accessor [OF_BSN_LUA_UPLOAD] [(4, 18), (5, 18)]"

definition of_bsn_port_counter_stats_entry_class :: wire_class where
  "of_bsn_port_counter_stats_entry_class = \<lparr>class_id = OF_BSN_PORT_COUNTER_STATS_ENTRY, whole_buffer = True, wire_types = None,
     finishes = [U16Length]\<rparr>"

definition of_bsn_port_counter_stats_entry_port_no :: "32 word accessor" where
  "of_bsn_port_counter_stats_entry_port_no = port_no_accessor [OF_BSN_PORT_COUNTER_STATS_ENTRY] [(4, 4), (5, 4)]"

definition of_bsn_port_counter_stats_reply_class :: wire_class where
  "of_bsn_port_counter_stats_reply_class = \<lparr>class_id = OF_BSN_PORT_COUNTER_STATS_REPLY, whole_buffer = True, wire_types = Some [(4, [PutVersion 0, Put8 1 0x13, Put16 8 0xffff, Put32 16 0x5c16c7, Put32 20 0x8]),
     (5, [PutVersion 0, Put8 1 0x13, Put16 8 0xffff, Put32 16 0x5c16c7, Put32 20 0x8])],
     finishes = [MessageLength]\<rparr>"

definition of_bsn_port_counter_stats_reply_xid :: "32 word accessor" where
  "of_bsn_port_counter_stats_reply_xid = u32_accessor [OF_BSN_PORT_COUNTER_STATS_REPLY] [(4, 4), (5, 4)]"

definition of_bsn_port_counter_stats_reply_flags :: "16 word accessor" where
  "of_bsn_port_counter_stats_reply_flags = u16_accessor [OF_BSN_PORT_COUNTER_STATS_REPLY] [(4, 10), (5, 10)]"

definition of_bsn_port_counter_stats_reply_experimenter :: "32 word accessor" where
  "of_bsn_port_counter_stats_reply_experimenter = u32_accessor [OF_BSN_PORT_COUNTER_STATS_REPLY] [(4, 16), (5, 16)]"

definition of_bsn_port_counter_stats_reply_subtype :: "32 word accessor" where
  "of_bsn_port_counter_stats_reply_subtype = u32_accessor [OF_BSN_PORT_COUNTER_STATS_REPLY] [(4, 20), (5, 20)]"

definition of_bsn_port_counter_stats_request_class :: wire_class where
  "of_bsn_port_counter_stats_request_class = \<lparr>class_id = OF_BSN_PORT_COUNTER_STATS_REQUEST, whole_buffer = False, wire_types = Some [(4, [PutVersion 0, Put8 1 0x12, Put16 8 0xffff, Put32 16 0x5c16c7, Put32 20 0x8]),
     (5, [PutVersion 0, Put8 1 0x12, Put16 8 0xffff, Put32 16 0x5c16c7, Put32 20 0x8])],
     finishes = [MessageLength]\<rparr>"

definition of_bsn_port_counter_stats_request_xid :: "32 word accessor" where
  "of_bsn_port_counter_stats_request_xid = u32_accessor [OF_BSN_PORT_COUNTER_STATS_REQUEST] [(4, 4), (5, 4)]"

definition of_bsn_port_counter_stats_request_flags :: "16 word accessor" where
  "of_bsn_port_counter_stats_request_flags = u16_accessor [OF_BSN_PORT_COUNTER_STATS_REQUEST] [(4, 10), (5, 10)]"

definition of_bsn_port_counter_stats_request_experimenter :: "32 word accessor" where
  "of_bsn_port_counter_stats_request_experimenter = u32_accessor [OF_BSN_PORT_COUNTER_STATS_REQUEST] [(4, 16), (5, 16)]"

definition of_bsn_port_counter_stats_request_subtype :: "32 word accessor" where
  "of_bsn_port_counter_stats_request_subtype = u32_accessor [OF_BSN_PORT_COUNTER_STATS_REQUEST] [(4, 20), (5, 20)]"

definition of_bsn_port_counter_stats_request_port_no :: "32 word accessor" where
  "of_bsn_port_counter_stats_request_port_no = port_no_accessor [OF_BSN_PORT_COUNTER_STATS_REQUEST] [(4, 24), (5, 24)]"

definition of_bsn_role_status_class :: wire_class where
  "of_bsn_role_status_class = \<lparr>class_id = OF_BSN_ROLE_STATUS, whole_buffer = False, wire_types = Some [(4, [PutVersion 0, Put8 1 0x4, Put32 8 0x5c16c7, Put32 12 0x37])],
     finishes = [MessageLength]\<rparr>"

definition of_bsn_role_status_xid :: "32 word accessor" where
  "of_bsn_role_status_xid = u32_accessor [OF_BSN_ROLE_STATUS] [(4, 4)]"

definition of_bsn_role_status_experimenter :: "32 word accessor" where
  "of_bsn_role_status_experimenter = u32_accessor [OF_BSN_ROLE_STATUS] [(4, 8)]"

definition of_bsn_role_status_subtype :: "32 word accessor" where
  "of_bsn_role_status_subtype = u32_accessor [OF_BSN_ROLE_STATUS] [(4, 12)]"

definition of_bsn_role_status_role :: "32 word accessor" where
  "of_bsn_role_status_role = u32_accessor [OF_BSN_ROLE_STATUS] [(4, 16)]"

definition of_bsn_role_status_reason :: "byte accessor" where
  "of_bsn_role_status_reason = u8_accessor [OF_BSN_ROLE_STATUS] [(4, 20)]"

definition of_bsn_role_status_generation_id :: "64 word accessor" where
  "of_bsn_role_status_generation_id = u64_accessor [OF_BSN_ROLE_STATUS] [(4, 24)]"

definition of_bsn_set_aux_cxns_reply_class :: wire_class where
  "of_bsn_set_aux_cxns_reply_class = \<lparr>class_id = OF_BSN_SET_AUX_CXNS_REPLY, whole_buffer = False, wire_types = Some [(4, [PutVersion 0, Put8 1 0x4, Put32 8 0x5c16c7, Put32 12 0x3b]),
     (5, [PutVersion 0, Put8 1 0x4, Put32 8 0x5c16c7, Put32 12 0x3b])],
     finishes = [MessageLength]\<rparr>"

definition of_bsn_set_aux_cxns_reply_xid :: "32 word accessor" where
  "of_bsn_set_aux_cxns_reply_xid = u32_accessor [OF_BSN_SET_AUX_CXNS_REPLY] [(4, 4), (5, 4)]"

definition of_bsn_set_aux_cxns_reply_experimenter :: "32 word accessor" where
  "of_bsn_set_aux_cxns_reply_experimenter = u32_accessor [OF_BSN_SET_AUX_CXNS_REPLY] [(4, 8), (5, 8)]"

definition of_bsn_set_aux_cxns_reply_subtype :: "32 word accessor" where
  "of_bsn_set_aux_cxns_reply_subtype = u32_accessor [OF_BSN_SET_AUX_CXNS_REPLY] [(4, 12), (5, 12)]"

definition of_bsn_set_aux_cxns_reply_num_aux :: "32 word accessor" where
  "of_bsn_set_aux_cxns_reply_num_aux = u32_accessor [OF_BSN_SET_AUX_CXNS_REPLY] [(4, 16), (5, 16)]"

definition of_bsn_set_aux_cxns_reply_status :: "32 word accessor" where
  "of_bsn_set_aux_cxns_reply_status = u32_accessor [OF_BSN_SET_AUX_CXNS_REPLY] [(4, 20), (5, 20)]"

definition of_bsn_set_aux_cxns_request_class :: wire_class where
  "of_bsn_set_aux_cxns_request_class = \<lparr>class_id = OF_BSN_SET_AUX_CXNS_REQUEST, whole_buffer = False, wire_types = Some [(4, [PutVersion 0, Put8 1 0x4, Put32 8 0x5c16c7, Put32 12 0x3a]),
     (5, [PutVersion 0, Put8 1 0x4, Put32 8 0x5c16c7, Put32 12 0x3a])],
     finishes = [MessageLength]\<rparr>"

definition of_bsn_set_aux_cxns_request_xid :: "32 word accessor" where
  "of_bsn_set_aux_cxns_request_xid = u32_accessor [OF_BSN_SET_AUX_CXNS_REQUEST] [(4, 4), (5, 4)]"

definition of_bsn_set_aux_cxns_request_experimenter :: "32 word accessor" where
  "of_bsn_set_aux_cxns_request_experimenter = u32_accessor [OF_BSN_SET_AUX_CXNS_REQUEST] [(4, 8), (5, 8)]"

definition of_bsn_set_aux_cxns_request_subtype :: "32 word accessor" where
  "of_bsn_set_aux_cxns_request_subtype = u32_accessor [OF_BSN_SET_AUX_CXNS_REQUEST] [(4, 12), (5, 12)]"

definition of_bsn_set_aux_cxns_request_num_aux :: "32 word accessor" where
  "of_bsn_set_aux_cxns_request_num_aux = u32_accessor [OF_BSN_SET_AUX_CXNS_REQUEST] [(4, 16), (5, 16)]"

definition of_bsn_set_lacp_reply_class :: wire_class where
  "of_bsn_set_lacp_reply_class = \<lparr>class_id = OF_BSN_SET_LACP_REPLY, whole_buffer = False, wire_types = Some [(4, [PutVersion 0, Put8 1 0x4, Put32 8 0x5c16c7, Put32 12 0x2a]),
     (5, [PutVersion 0, Put8 1 0x4, Put32 8 0x5c16c7, Put32 12 0x2a])],
     finishes = [MessageLength]\<rparr>"

definition of_bsn_set_lacp_reply_xid :: "32 word accessor" where
  "of_bsn_set_lacp_reply_xid = u32_accessor [OF_BSN_SET_LACP_REPLY] [(4, 4), (5, 4)]"

definition of_bsn_set_lacp_reply_experimenter :: "32 word accessor" where
  "of_bsn_set_lacp_reply_experimenter = u32_accessor [OF_BSN_SET_LACP_REPLY] [(4, 8), (5, 8)]"

definition of_bsn_set_lacp_reply_subtype :: "32 word accessor" where
  "of_bsn_set_lacp_reply_subtype = u32_accessor [OF_BSN_SET_LACP_REPLY] [(4, 12), (5, 12)]"

definition of_bsn_set_lacp_reply_status :: "32 word accessor" where
  "of_bsn_set_lacp_reply_status = u32_accessor [OF_BSN_SET_LACP_REPLY] [(4, 16), (5, 16)]"

definition of_bsn_set_lacp_reply_port_no :: "32 word accessor" where
  "of_bsn_set_lacp_reply_port_no = port_no_accessor [OF_BSN_SET_LACP_REPLY] [(4, 20), (5, 20)]"

definition of_bsn_set_lacp_request_class :: wire_class where
  "of_bsn_set_lacp_request_class = \<lparr>class_id = OF_BSN_SET_LACP_REQUEST, whole_buffer = False, wire_types = Some [(4, [PutVersion 0, Put8 1 0x4, Put32 8 0x5c16c7, Put32 12 0x29]),
     (5, [PutVersion 0, Put8 1 0x4, Put32 8 0x5c16c7, Put32 12 0x29])],
     finishes = [MessageLength]\<rparr>"

definition of_bsn_set_lacp_request_xid :: "32 word accessor" where
  "of_bsn_set_lacp_request_xid = u32_accessor [OF_BSN_SET_LACP_REQUEST] [(4, 4), (5, 4)]"

definition of_bsn_set_lacp_request_experimenter :: "32 word accessor" where
  "of_bsn_set_lacp_request_experimenter = u32_accessor [OF_BSN_SET_LACP_REQUEST] [(4, 8), (5, 8)]"

definition of_bsn_set_lacp_request_subtype :: "32 word accessor" where
  "of_bsn_set_lacp_request_subtype = u32_accessor [OF_BSN_SET_LACP_REQUEST] [(4, 12), (5, 12)]"

definition of_bsn_set_lacp_request_enabled :: "byte accessor" where
  "of_bsn_set_lacp_request_enabled = u8_accessor [OF_BSN_SET_LACP_REQUEST] [(4, 16), (5, 16)]"

definition of_bsn_set_lacp_request_port_no :: "32 word accessor" where
  "of_bsn_set_lacp_request_port_no = port_no_accessor [OF_BSN_SET_LACP_REQUEST] [(4, 20), (5, 20)]"

definition of_bsn_set_lacp_request_actor_sys_priority :: "16 word accessor" where
  "of_bsn_set_lacp_request_actor_sys_priority = u16_accessor [OF_BSN_SET_LACP_REQUEST] [(4, 24), (5, 24)]"

definition of_bsn_set_lacp_request_actor_sys_mac :: "byte list accessor" where
  "of_bsn_set_lacp_request_actor_sys_mac = mac_accessor [OF_BSN_SET_LACP_REQUEST] [(4, 26), (5, 26)]"

definition of_bsn_set_lacp_request_actor_port_priority :: "16 word accessor" where
  "of_bsn_set_lacp_request_actor_port_priority = u16_accessor [OF_BSN_SET_LACP_REQUEST] [(4, 32), (5, 32)]"

definition of_bsn_set_lacp_request_actor_port_num :: "16 word accessor" where
  "of_bsn_set_lacp_request_actor_port_num = u16_accessor [OF_BSN_SET_LACP_REQUEST] [(4, 34), (5, 34)]"

definition of_bsn_set_lacp_request_actor_key :: "16 word accessor" where
  "of_bsn_set_lacp_request_actor_key = u16_accessor [OF_BSN_SET_LACP_REQUEST] [(4, 36), (5, 36)]"

text \<open>The classes, each with consistent wire types in every version that has it.\<close>

definition classes_11 :: "wire_class list" where
  "classes_11 = [of_bsn_gentable_entry_delete_class, of_bsn_gentable_entry_desc_stats_entry_class,
     of_bsn_gentable_entry_desc_stats_reply_class, of_bsn_gentable_entry_desc_stats_request_class,
     of_bsn_gentable_entry_stats_entry_class, of_bsn_gentable_entry_stats_reply_class,
     of_bsn_gentable_entry_stats_request_class, of_bsn_gentable_set_buckets_size_class,
     of_bsn_gentable_stats_entry_class, of_bsn_gentable_stats_reply_class,
     of_bsn_gentable_stats_request_class, of_bsn_get_switch_pipeline_reply_class,
     of_bsn_get_switch_pipeline_request_class, of_bsn_image_desc_stats_reply_class,
     of_bsn_image_desc_stats_request_class, of_bsn_lacp_convergence_notif_class,
     of_bsn_lacp_stats_entry_class, of_bsn_lacp_stats_reply_class, of_bsn_lacp_stats_request_class,
     of_bsn_log_class, of_bsn_lua_command_reply_class, of_bsn_lua_command_request_class,
     of_bsn_lua_notification_class, of_bsn_lua_upload_class, of_bsn_port_counter_stats_entry_class,
     of_bsn_port_counter_stats_reply_class, of_bsn_port_counter_stats_request_class,
     of_bsn_role_status_class, of_bsn_set_aux_cxns_reply_class, of_bsn_set_aux_cxns_request_class,
     of_bsn_set_lacp_reply_class, of_bsn_set_lacp_request_class]"

lemmas class_defs_11 =
  of_bsn_gentable_entry_delete_class_def of_bsn_gentable_entry_desc_stats_entry_class_def
  of_bsn_gentable_entry_desc_stats_reply_class_def of_bsn_gentable_entry_desc_stats_request_class_def
  of_bsn_gentable_entry_stats_entry_class_def of_bsn_gentable_entry_stats_reply_class_def
  of_bsn_gentable_entry_stats_request_class_def of_bsn_gentable_set_buckets_size_class_def
  of_bsn_gentable_stats_entry_class_def of_bsn_gentable_stats_reply_class_def
  of_bsn_gentable_stats_request_class_def of_bsn_get_switch_pipeline_reply_class_def
  of_bsn_get_switch_pipeline_request_class_def of_bsn_image_desc_stats_reply_class_def
  of_bsn_image_desc_stats_request_class_def of_bsn_lacp_convergence_notif_class_def
  of_bsn_lacp_stats_entry_class_def of_bsn_lacp_stats_reply_class_def
  of_bsn_lacp_stats_request_class_def of_bsn_log_class_def of_bsn_lua_command_reply_class_def
  of_bsn_lua_command_request_class_def of_bsn_lua_notification_class_def of_bsn_lua_upload_class_def
  of_bsn_port_counter_stats_entry_class_def of_bsn_port_counter_stats_reply_class_def
  of_bsn_port_counter_stats_request_class_def of_bsn_role_status_class_def
  of_bsn_set_aux_cxns_reply_class_def of_bsn_set_aux_cxns_request_class_def
  of_bsn_set_lacp_reply_class_def of_bsn_set_lacp_request_class_def

lemma classes_ok_11: "list_all class_ok classes_11"
  unfolding classes_11_def
  by (simp add: class_defs_11 class_checks)

text \<open>The accessors.\<close>

definition fields_11 :: "field list" where
  "fields_11 = [U32 of_bsn_gentable_entry_delete_xid, U32 of_bsn_gentable_entry_delete_experimenter,
     U32 of_bsn_gentable_entry_delete_subtype, U16 of_bsn_gentable_entry_delete_table_id,
     U128 of_bsn_gentable_entry_desc_stats_entry_checksum, U32 of_bsn_gentable_entry_desc_stats_reply_xid,
     U16 of_bsn_gentable_entry_desc_stats_reply_flags,
     U32 of_bsn_gentable_entry_desc_stats_reply_experimenter,
     U32 of_bsn_gentable_entry_desc_stats_reply_subtype, U32 of_bsn_gentable_entry_desc_stats_request_xid,
     U16 of_bsn_gentable_entry_desc_stats_request_flags,
     U32 of_bsn_gentable_entry_desc_stats_request_experimenter,
     U32 of_bsn_gentable_entry_desc_stats_request_subtype,
     U16 of_bsn_gentable_entry_desc_stats_request_table_id,
     U128 of_bsn_gentable_entry_desc_stats_request_checksum,
     U128 of_bsn_gentable_entry_desc_stats_request_checksum_mask,
     U32 of_bsn_gentable_entry_stats_reply_xid, U16 of_bsn_gentable_entry_stats_reply_flags,
     U32 of_bsn_gentable_entry_stats_reply_experimenter, U32 of_bsn_gentable_entry_stats_reply_subtype,
     U32 of_bsn_gentable_entry_stats_request_xid, U16 of_bsn_gentable_entry_stats_request_flags,
     U32 of_bsn_gentable_entry_stats_request_experimenter,
     U32 of_bsn_gentable_entry_stats_request_subtype, U16 of_bsn_gentable_entry_stats_request_table_id,
     U128 of_bsn_gentable_entry_stats_request_checksum,
     U128 of_bsn_gentable_entry_stats_request_checksum_mask, U32 of_bsn_gentable_set_buckets_size_xid,
     U32 of_bsn_gentable_set_buckets_size_experimenter, U32 of_bsn_gentable_set_buckets_size_subtype,
     U16 of_bsn_gentable_set_buckets_size_table_id, U32 of_bsn_gentable_set_buckets_size_buckets_size,
     U16 of_bsn_gentable_stats_entry_table_id, U32 of_bsn_gentable_stats_entry_entry_count,
     U128 of_bsn_gentable_stats_entry_checksum, U32 of_bsn_gentable_stats_reply_xid,
     U16 of_bsn_gentable_stats_reply_flags, U32 of_bsn_gentable_stats_reply_experimenter,
     U32 of_bsn_gentable_stats_reply_subtype, U32 of_bsn_gentable_stats_request_xid,
     U16 of_bsn_gentable_stats_request_flags, U32 of_bsn_gentable_stats_request_experimenter,
     U32 of_bsn_gentable_stats_request_subtype, U32 of_bsn_get_switch_pipeline_reply_xid,
     U32 of_bsn_get_switch_pipeline_reply_experimenter, U32 of_bsn_get_switch_pipeline_reply_subtype,
     Octets 256 of_bsn_get_switch_pipeline_reply_pipeline, U32 of_bsn_get_switch_pipeline_request_xid,
     U32 of_bsn_get_switch_pipeline_request_experimenter, U32 of_bsn_get_switch_pipeline_request_subtype,
     U32 of_bsn_image_desc_stats_reply_xid, U16 of_bsn_image_desc_stats_reply_flags,
     U32 of_bsn_image_desc_stats_reply_experimenter, U32 of_bsn_image_desc_stats_reply_subtype,
     Octets 256 of_bsn_image_desc_stats_reply_image_checksum,
     Octets 256 of_bsn_image_desc_stats_reply_startup_config_checksum,
     U32 of_bsn_image_desc_stats_request_xid, U16 of_bsn_image_desc_stats_request_flags,
     U32 of_bsn_image_desc_stats_request_experimenter, U32 of_bsn_image_desc_stats_request_subtype,
     U32 of_bsn_lacp_convergence_notif_xid, U32 of_bsn_lacp_convergence_notif_experimenter,
     U32 of_bsn_lacp_convergence_notif_subtype, U8 of_bsn_lacp_convergence_notif_convergence_status,
     PortNo of_bsn_lacp_convergence_notif_port_no, U16 of_bsn_lacp_convergence_notif_actor_sys_priority,
     Octets 6 of_bsn_lacp_convergence_notif_actor_sys_mac,
     U16 of_bsn_lacp_convergence_notif_actor_port_priority,
     U16 of_bsn_lacp_convergence_notif_actor_port_num, U16 of_bsn_lacp_convergence_notif_actor_key,
     U16 of_bsn_lacp_convergence_notif_partner_sys_priority,
     Octets 6 of_bsn_lacp_convergence_notif_partner_sys_mac,
     U16 of_bsn_lacp_convergence_notif_partner_port_priority,
     U16 of_bsn_lacp_convergence_notif_partner_port_num, U16 of_bsn_lacp_convergence_notif_partner_key,
     PortNo of_bsn_lacp_stats_entry_port_no, U16 of_bsn_lacp_stats_entry_actor_sys_priority,
     Octets 6 of_bsn_lacp_stats_entry_actor_sys_mac, U16 of_bsn_lacp_stats_entry_actor_port_priority,
     U16 of_bsn_lacp_stats_entry_actor_port_num, U16 of_bsn_lacp_stats_entry_actor_key,
     U8 of_bsn_lacp_stats_entry_convergence_status, U16 of_bsn_lacp_stats_entry_partner_sys_priority,
     Octets 6 of_bsn_lacp_stats_entry_partner_sys_mac, U16 of_bsn_lacp_stats_entry_partner_port_priority,
     U16 of_bsn_lacp_stats_entry_partner_port_num, U16 of_bsn_lacp_stats_entry_partner_key,
     U32 of_bsn_lacp_stats_reply_xid, U16 of_bsn_lacp_stats_reply_flags,
     U32 of_bsn_lacp_stats_reply_experimenter, U32 of_bsn_lacp_stats_reply_subtype,
     U32 of_bsn_lacp_stats_request_xid, U16 of_bsn_lacp_stats_request_flags,
     U32 of_bsn_lacp_stats_request_experimenter, U32 of_bsn_lacp_stats_request_subtype,
     U32 of_bsn_log_xid, U32 of_bsn_log_experimenter, U32 of_bsn_log_subtype, U8 of_bsn_log_loglevel,
     U32 of_bsn_lua_command_reply_xid, U32 of_bsn_lua_command_reply_experimenter,
     U32 of_bsn_lua_command_reply_subtype, U32 of_bsn_lua_command_request_xid,
     U32 of_bsn_lua_command_request_experimenter, U32 of_bsn_lua_command_request_subtype,
     U32 of_bsn_lua_notification_xid, U32 of_bsn_lua_notification_experimenter,
     U32 of_bsn_lua_notification_subtype, U32 of_bsn_lua_upload_xid, U32 of_bsn_lua_upload_experimenter,
     U32 of_bsn_lua_upload_subtype, U16 of_bsn_lua_upload_flags, Octets 64 of_bsn_lua_upload_filename,
     PortNo of_bsn_port_counter_stats_entry_port_no, U32 of_bsn_port_counter_stats_reply_xid,
     U16 of_bsn_port_counter_stats_reply_flags, U32 of_bsn_port_counter_stats_reply_experimenter,
     U32 of_bsn_port_counter_stats_reply_subtype, U32 of_bsn_port_counter_stats_request_xid,
     U16 of_bsn_port_counter_stats_request_flags, U32 of_bsn_port_counter_stats_request_experimenter,
     U32 of_bsn_port_counter_stats_request_subtype, PortNo of_bsn_port_counter_stats_request_port_no,
     U32 of_bsn_role_status_xid, U32 of_bsn_role_status_experimenter, U32 of_bsn_role_status_subtype,
     U32 of_bsn_role_status_role, U8 of_bsn_role_status_reason, U64 of_bsn_role_status_generation_id,
     U32 of_bsn_set_aux_cxns_reply_xid, U32 of_bsn_set_aux_cxns_reply_experimenter,
     U32 of_bsn_set_aux_cxns_reply_subtype, U32 of_bsn_set_aux_cxns_reply_num_aux,
     U32 of_bsn_set_aux_cxns_reply_status, U32 of_bsn_set_aux_cxns_request_xid,
     U32 of_bsn_set_aux_cxns_request_experimenter, U32 of_bsn_set_aux_cxns_request_subtype,
     U32 of_bsn_set_aux_cxns_request_num_aux, U32 of_bsn_set_lacp_reply_xid,
     U32 of_bsn_set_lacp_reply_experimenter, U32 of_bsn_set_lacp_reply_subtype,
     U32 of_bsn_set_lacp_reply_status, PortNo of_bsn_set_lacp_reply_port_no,
     U32 of_bsn_set_lacp_request_xid, U32 of_bsn_set_lacp_request_experimenter,
     U32 of_bsn_set_lacp_request_subtype, U8 of_bsn_set_lacp_request_enabled,
     PortNo of_bsn_set_lacp_request_port_no, U16 of_bsn_set_lacp_request_actor_sys_priority,
     Octets 6 of_bsn_set_lacp_request_actor_sys_mac, U16 of_bsn_set_lacp_request_actor_port_priority,
     U16 of_bsn_set_lacp_request_actor_port_num, U16 of_bsn_set_lacp_request_actor_key]"

lemmas accessor_defs_11 =
  of_bsn_gentable_entry_delete_xid_def of_bsn_gentable_entry_delete_experimenter_def
  of_bsn_gentable_entry_delete_subtype_def of_bsn_gentable_entry_delete_table_id_def
  of_bsn_gentable_entry_desc_stats_entry_checksum_def of_bsn_gentable_entry_desc_stats_reply_xid_def
  of_bsn_gentable_entry_desc_stats_reply_flags_def
  of_bsn_gentable_entry_desc_stats_reply_experimenter_def
  of_bsn_gentable_entry_desc_stats_reply_subtype_def of_bsn_gentable_entry_desc_stats_request_xid_def
  of_bsn_gentable_entry_desc_stats_request_flags_def
  of_bsn_gentable_entry_desc_stats_request_experimenter_def
  of_bsn_gentable_entry_desc_stats_request_subtype_def
  of_bsn_gentable_entry_desc_stats_request_table_id_def
  of_bsn_gentable_entry_desc_stats_request_checksum_def
  of_bsn_gentable_entry_desc_stats_request_checksum_mask_def
  of_bsn_gentable_entry_stats_reply_xid_def of_bsn_gentable_entry_stats_reply_flags_def
  of_bsn_gentable_entry_stats_reply_experimenter_def of_bsn_gentable_entry_stats_reply_subtype_def
  of_bsn_gentable_entry_stats_request_xid_def of_bsn_gentable_entry_stats_request_flags_def
  of_bsn_gentable_entry_stats_request_experimenter_def
  of_bsn_gentable_entry_stats_request_subtype_def of_bsn_gentable_entry_stats_request_table_id_def
  of_bsn_gentable_entry_stats_request_checksum_def
  of_bsn_gentable_entry_stats_request_checksum_mask_def of_bsn_gentable_set_buckets_size_xid_def
  of_bsn_gentable_set_buckets_size_experimenter_def of_bsn_gentable_set_buckets_size_subtype_def
  of_bsn_gentable_set_buckets_size_table_id_def of_bsn_gentable_set_buckets_size_buckets_size_def
  of_bsn_gentable_stats_entry_table_id_def of_bsn_gentable_stats_entry_entry_count_def
  of_bsn_gentable_stats_entry_checksum_def of_bsn_gentable_stats_reply_xid_def
  of_bsn_gentable_stats_reply_flags_def of_bsn_gentable_stats_reply_experimenter_def
  of_bsn_gentable_stats_reply_subtype_def of_bsn_gentable_stats_request_xid_def
  of_bsn_gentable_stats_request_flags_def of_bsn_gentable_stats_request_experimenter_def
  of_bsn_gentable_stats_request_subtype_def of_bsn_get_switch_pipeline_reply_xid_def
  of_bsn_get_switch_pipeline_reply_experimenter_def of_bsn_get_switch_pipeline_reply_subtype_def
  of_bsn_get_switch_pipeline_reply_pipeline_def of_bsn_get_switch_pipeline_request_xid_def
  of_bsn_get_switch_pipeline_request_experimenter_def of_bsn_get_switch_pipeline_request_subtype_def
  of_bsn_image_desc_stats_reply_xid_def of_bsn_image_desc_stats_reply_flags_def
  of_bsn_image_desc_stats_reply_experimenter_def of_bsn_image_desc_stats_reply_subtype_def
  of_bsn_image_desc_stats_reply_image_checksum_def
  of_bsn_image_desc_stats_reply_startup_config_checksum_def of_bsn_image_desc_stats_request_xid_def
  of_bsn_image_desc_stats_request_flags_def of_bsn_image_desc_stats_request_experimenter_def
  of_bsn_image_desc_stats_request_subtype_def of_bsn_lacp_convergence_notif_xid_def
  of_bsn_lacp_convergence_notif_experimenter_def of_bsn_lacp_convergence_notif_subtype_def
  of_bsn_lacp_convergence_notif_convergence_status_def of_bsn_lacp_convergence_notif_port_no_def
  of_bsn_lacp_convergence_notif_actor_sys_priority_def
  of_bsn_lacp_convergence_notif_actor_sys_mac_def
  of_bsn_lacp_convergence_notif_actor_port_priority_def
  of_bsn_lacp_convergence_notif_actor_port_num_def of_bsn_lacp_convergence_notif_actor_key_def
  of_bsn_lacp_convergence_notif_partner_sys_priority_def
  of_bsn_lacp_convergence_notif_partner_sys_mac_def
  of_bsn_lacp_convergence_notif_partner_port_priority_def
  of_bsn_lacp_convergence_notif_partner_port_num_def of_bsn_lacp_convergence_notif_partner_key_def
  of_bsn_lacp_stats_entry_port_no_def of_bsn_lacp_stats_entry_actor_sys_priority_def
  of_bsn_lacp_stats_entry_actor_sys_mac_def of_bsn_lacp_stats_entry_actor_port_priority_def
  of_bsn_lacp_stats_entry_actor_port_num_def of_bsn_lacp_stats_entry_actor_key_def
  of_bsn_lacp_stats_entry_convergence_status_def of_bsn_lacp_stats_entry_partner_sys_priority_def
  of_bsn_lacp_stats_entry_partner_sys_mac_def of_bsn_lacp_stats_entry_partner_port_priority_def
  of_bsn_lacp_stats_entry_partner_port_num_def of_bsn_lacp_stats_entry_partner_key_def
  of_bsn_lacp_stats_reply_xid_def of_bsn_lacp_stats_reply_flags_def
  of_bsn_lacp_stats_reply_experimenter_def of_bsn_lacp_stats_reply_subtype_def
  of_bsn_lacp_stats_request_xid_def of_bsn_lacp_stats_request_flags_def
  of_bsn_lacp_stats_request_experimenter_def of_bsn_lacp_stats_request_subtype_def
  of_bsn_log_xid_def of_bsn_log_experimenter_def of_bsn_log_subtype_def of_bsn_log_loglevel_def
  of_bsn_lua_command_reply_xid_def of_bsn_lua_command_reply_experimenter_def
  of_bsn_lua_command_reply_subtype_def of_bsn_lua_command_request_xid_def
  of_bsn_lua_command_request_experimenter_def of_bsn_lua_command_request_subtype_def
  of_bsn_lua_notification_xid_def of_bsn_lua_notification_experimenter_def
  of_bsn_lua_notification_subtype_def of_bsn_lua_upload_xid_def of_bsn_lua_upload_experimenter_def
  of_bsn_lua_upload_subtype_def of_bsn_lua_upload_flags_def of_bsn_lua_upload_filename_def
  of_bsn_port_counter_stats_entry_port_no_def of_bsn_port_counter_stats_reply_xid_def
  of_bsn_port_counter_stats_reply_flags_def of_bsn_port_counter_stats_reply_experimenter_def
  of_bsn_port_counter_stats_reply_subtype_def of_bsn_port_counter_stats_request_xid_def
  of_bsn_port_counter_stats_request_flags_def of_bsn_port_counter_stats_request_experimenter_def
  of_bsn_port_counter_stats_request_subtype_def of_bsn_port_counter_stats_request_port_no_def
  of_bsn_role_status_xid_def of_bsn_role_status_experimenter_def of_bsn_role_status_subtype_def
  of_bsn_role_status_role_def of_bsn_role_status_reason_def of_bsn_role_status_generation_id_def
  of_bsn_set_aux_cxns_reply_xid_def of_bsn_set_aux_cxns_reply_experimenter_def
  of_bsn_set_aux_cxns_reply_subtype_def of_bsn_set_aux_cxns_reply_num_aux_def
  of_bsn_set_aux_cxns_reply_status_def of_bsn_set_aux_cxns_request_xid_def
  of_bsn_set_aux_cxns_request_experimenter_def of_bsn_set_aux_cxns_request_subtype_def
  of_bsn_set_aux_cxns_request_num_aux_def of_bsn_set_lacp_reply_xid_def
  of_bsn_set_lacp_reply_experimenter_def of_bsn_set_lacp_reply_subtype_def
  of_bsn_set_lacp_reply_status_def of_bsn_set_lacp_reply_port_no_def of_bsn_set_lacp_request_xid_def
  of_bsn_set_lacp_request_experimenter_def of_bsn_set_lacp_request_subtype_def
  of_bsn_set_lacp_request_enabled_def of_bsn_set_lacp_request_port_no_def
  of_bsn_set_lacp_request_actor_sys_priority_def of_bsn_set_lacp_request_actor_sys_mac_def
  of_bsn_set_lacp_request_actor_port_priority_def of_bsn_set_lacp_request_actor_port_num_def
  of_bsn_set_lacp_request_actor_key_def

lemma fields_ok_11: "list_all field_ok fields_11"
  unfolding fields_11_def accessor_defs_11
  by (simp add: accessors_ok octets_accessors_ok inside_rows del: field_ok.simps)

end
