(* ===== verification/Class12.thy ===== *)
theory Class12
  imports Construct
begin

text \<open>
  The classes of \<^verbatim>\<open>src/class12.c\<close>: for each what its constructor, initialiser and
  \<open>push_wire_types\<close> write, and the scalar accessors, a getter and a setter for each field at a fixed offset.
\<close>

definition of_bsn_set_switch_pipeline_reply_class :: wire_class where
  "of_bsn_set_switch_pipeline_reply_class = \<lparr>class_id = OF_BSN_SET_SWITCH_PIPELINE_REPLY, whole_buffer = False, wire_types = Some [(4, [PutVersion 0, Put8 1 0x4, Put32 8 0x5c16c7, Put32 12 0x36]),
     (5, [PutVersion 0, Put8 1 0x4, Put32 8 0x5c16c7, Put32 12 0x36])],
     finishes = [MessageLength]\<rparr>"

definition of_bsn_set_switch_pipeline_reply_xid :: "32 word accessor" where
  "of_bsn_set_switch_pipeline_reply_xid = u32_accessor [OF_BSN_SET_SWITCH_PIPELINE_REPLY] [(4, 4), (5, 4)]"

definition of_bsn_set_switch_pipeline_reply_experimenter :: "32 word accessor" where
  "of_bsn_set_switch_pipeline_reply_experimenter = u32_accessor [OF_BSN_SET_SWITCH_PIPELINE_REPLY] [(4, 8), (5, 8)]"

definition of_bsn_set_switch_pipeline_reply_subtype :: "32 word accessor" where
  "of_bsn_set_switch_pipeline_reply_subtype = u32_accessor [OF_BSN_SET_SWITCH_PIPELINE_REPLY] [(4, 12), (5, 12)]"

definition of_bsn_set_switch_pipeline_reply_status :: "32 word accessor" where
  "of_bsn_set_switch_pipeline_reply_status = u32_accessor [OF_BSN_SET_SWITCH_PIPELINE_REPLY] [(4, 16), (5, 16)]"

definition of_bsn_set_switch_pipeline_request_class :: wire_class where
  "of_bsn_set_switch_pipeline_request_class = \<lparr>class_id = OF_BSN_SET_SWITCH_PIPELINE_REQUEST, whole_buffer = False, wire_types = Some [(4, [PutVersion 0, Put8 1 0x4, Put32 8 0x5c16c7, Put32 12 0x35]),
     (5, [PutVersion 0, Put8 1 0x4, Put32 8 0x5c16c7, Put32 12 0x35])],
     finishes = [MessageLength]\<rparr>"

definition of_bsn_set_switch_pipeline_request_xid :: "32 word accessor" where
  "of_bsn_set_switch_pipeline_request_xid = u32_accessor [OF_BSN_SET_SWITCH_PIPELINE_REQUEST] [(4, 4), (5, 4)]"

definition of_bsn_set_switch_pipeline_request_experimenter :: "32 word accessor" where
  "of_bsn_set_switch_pipeline_request_experimenter = u32_accessor [OF_BSN_SET_SWITCH_PIPELINE_REQUEST] [(4, 8), (5, 8)]"

definition of_bsn_set_switch_pipeline_request_subtype :: "32 word accessor" where
  "of_bsn_set_switch_pipeline_request_subtype = u32_accessor [OF_BSN_SET_SWITCH_PIPELINE_REQUEST] [(4, 12), (5, 12)]"

definition of_bsn_set_switch_pipeline_request_pipeline :: "byte list accessor" where
  "of_bsn_set_switch_pipeline_request_pipeline = desc_str_accessor [OF_BSN_SET_SWITCH_PIPELINE_REQUEST] [(4, 16), (5, 16)]"

definition of_bsn_switch_pipeline_stats_entry_class :: wire_class where
  "of_bsn_switch_pipeline_stats_entry_class = \<lparr>class_id = OF_BSN_SWITCH_PIPELINE_STATS_ENTRY, whole_buffer = False, wire_types = None,
     finishes = []\<rparr>"

definition of_bsn_switch_pipeline_stats_entry_pipeline :: "byte list accessor" where
  "of_bsn_switch_pipeline_stats_entry_pipeline = desc_str_accessor [OF_BSN_SWITCH_PIPELINE_STATS_ENTRY] [(4, 0), (5, 0)]"

definition of_bsn_switch_pipeline_stats_reply_class :: wire_class where
  "of_bsn_switch_pipeline_stats_reply_class = \<lparr>class_id = OF_BSN_SWITCH_PIPELINE_STATS_REPLY, whole_buffer = True, wire_types = Some [(4, [PutVersion 0, Put8 1 0x13, Put16 8 0xffff, Put32 16 0x5c16c7, Put32 20 0x6]),
     (5, [PutVersion 0, Put8 1 0x13, Put16 8 0xffff, Put32 16 0x5c16c7, Put32 20 0x6])],
     finishes = [MessageLength]\<rparr>"

definition of_bsn_switch_pipeline_stats_reply_xid :: "32 word accessor" where
  "of_bsn_switch_pipeline_stats_reply_xid = u32_accessor [OF_BSN_SWITCH_PIPELINE_STATS_REPLY] [(4, 4), (5, 4)]"

definition of_bsn_switch_pipeline_stats_reply_flags :: "16 word accessor" where
  "of_bsn_switch_pipeline_stats_reply_flags = u16_accessor [OF_BSN_SWITCH_PIPELINE_STATS_REPLY] [(4, 10), (5, 10)]"

definition of_bsn_switch_pipeline_stats_reply_experimenter :: "32 word accessor" where
  "of_bsn_switch_pipeline_stats_reply_experimenter = u32_accessor [OF_BSN_SWITCH_PIPELINE_STATS_REPLY] [(4, 16), (5, 16)]"

definition of_bsn_switch_pipeline_stats_reply_subtype :: "32 word accessor" where
  "of_bsn_switch_pipeline_stats_reply_subtype = u32_accessor [OF_BSN_SWITCH_PIPELINE_STATS_REPLY] [(4, 20), (5, 20)]"

definition of_bsn_switch_pipeline_stats_request_class :: wire_class where
  "of_bsn_switch_pipeline_stats_request_class = \<lparr>class_id = OF_BSN_SWITCH_PIPELINE_STATS_REQUEST, whole_buffer = False, wire_types = Some [(4, [PutVersion 0, Put8 1 0x12, Put16 8 0xffff, Put32 16 0x5c16c7, Put32 20 0x6]),
     (5, [PutVersion 0, Put8 1 0x12, Put16 8 0xffff, Put32 16 0x5c16c7, Put32 20 0x6])],
     finishes = [MessageLength]\<rparr>"

definition of_bsn_switch_pipeline_stats_request_xid :: "32 word accessor" where
  "of_bsn_switch_pipeline_stats_request_xid = u32_accessor [OF_BSN_SWITCH_PIPELINE_STATS_REQUEST] [(4, 4), (5, 4)]"

definition of_bsn_switch_pipeline_stats_request_flags :: "16 word accessor" where
  "of_bsn_switch_pipeline_stats_request_flags = u16_accessor [OF_BSN_SWITCH_PIPELINE_STATS_REQUEST] [(4, 10), (5, 10)]"

definition of_bsn_switch_pipeline_stats_request_experimenter :: "32 word accessor" where
  "of_bsn_switch_pipeline_stats_request_experimenter = u32_accessor [OF_BSN_SWITCH_PIPELINE_STATS_REQUEST] [(4, 16), (5, 16)]"

definition of_bsn_switch_pipeline_stats_request_subtype :: "32 word accessor" where
  "of_bsn_switch_pipeline_stats_request_subtype = u32_accessor [OF_BSN_SWITCH_PIPELINE_STATS_REQUEST] [(4, 20), (5, 20)]"

definition of_bsn_table_checksum_stats_entry_class :: wire_class where
  "of_bsn_table_checksum_stats_entry_class = \<lparr>class_id = OF_BSN_TABLE_CHECKSUM_STATS_ENTRY, whole_buffer = False, wire_types = None,
     finishes = []\<rparr>"

definition of_bsn_table_checksum_stats_entry_table_id :: "byte accessor" where
  "of_bsn_table_checksum_stats_entry_table_id = u8_accessor [OF_BSN_TABLE_CHECKSUM_STATS_ENTRY] [(4, 0), (5, 0)]"

definition of_bsn_table_checksum_stats_entry_checksum :: "64 word accessor" where
  "of_bsn_table_checksum_stats_entry_checksum = u64_accessor [OF_BSN_TABLE_CHECKSUM_STATS_ENTRY] [(4, 1), (5, 1)]"

definition of_bsn_table_checksum_stats_reply_class :: wire_class where
  "of_bsn_table_checksum_stats_reply_class = \<lparr>class_id = OF_BSN_TABLE_CHECKSUM_STATS_REPLY, whole_buffer = True, wire_types = Some [(4, [PutVersion 0, Put8 1 0x13, Put16 8 0xffff, Put32 16 0x5c16c7, Put32 20 0xb]),
     (5, [PutVersion 0, Put8 1 0x13, Put16 8 0xffff, Put32 16 0x5c16c7, Put32 20 0xb])],
     finishes = [MessageLength]\<rparr>"

definition of_bsn_table_checksum_stats_reply_xid :: "32 word accessor" where
  "of_bsn_table_checksum_stats_reply_xid = u32_accessor [OF_BSN_TABLE_CHECKSUM_STATS_REPLY] [(4, 4), (5, 4)]"

definition of_bsn_table_checksum_stats_reply_flags :: "16 word accessor" where
  "of_bsn_table_checksum_stats_reply_flags = u16_accessor [OF_BSN_TABLE_CHECKSUM_STATS_REPLY] [(4, 10), (5, 10)]"

definition of_bsn_table_checksum_stats_reply_experimenter :: "32 word accessor" where
  "of_bsn_table_checksum_stats_reply_experimenter = u32_accessor [OF_BSN_TABLE_CHECKSUM_STATS_REPLY] [(4, 16), (5, 16)]"

definition of_bsn_table_checksum_stats_reply_subtype :: "32 word accessor" where
  "of_bsn_table_checksum_stats_reply_subtype = u32_accessor [OF_BSN_TABLE_CHECKSUM_STATS_REPLY] [(4, 20), (5, 20)]"

definition of_bsn_table_checksum_stats_request_class :: wire_class where
  "of_bsn_table_checksum_stats_request_class = \<lparr>class_id = OF_BSN_TABLE_CHECKSUM_STATS_REQUEST, whole_buffer = False, wire_types = Some [(4, [PutVersion 0, Put8 1 0x12, Put16 8 0xffff, Put32 16 0x5c16c7, Put32 20 0xb]),
     (5, [PutVersion 0, Put8 1 0x12, Put16 8 0xffff, Put32 16 0x5c16c7, Put32 20 0xb])],
     finishes = [MessageLength]\<rparr>"

definition of_bsn_table_checksum_stats_request_xid :: "32 word accessor" where
  "of_bsn_table_checksum_stats_request_xid = u32_accessor [OF_BSN_TABLE_CHECKSUM_STATS_REQUEST] [(4, 4), (5, 4)]"

definition of_bsn_table_checksum_stats_request_flags :: "16 word accessor" where
  "of_bsn_table_checksum_stats_request_flags = u16_accessor [OF_BSN_TABLE_CHECKSUM_STATS_REQUEST] [(4, 10), (5, 10)]"

definition of_bsn_table_checksum_stats_request_experimenter :: "32 word accessor" where
  "of_bsn_table_checksum_stats_request_experimenter = u32_accessor [OF_BSN_TABLE_CHECKSUM_STATS_REQUEST] [(4, 16), (5, 16)]"

definition of_bsn_table_checksum_stats_request_subtype :: "32 word accessor" where
  "of_bsn_table_checksum_stats_request_subtype = u32_accessor [OF_BSN_TABLE_CHECKSUM_STATS_REQUEST] [(4, 20), (5, 20)]"

definition of_bsn_table_set_buckets_size_class :: wire_class where
  "of_bsn_table_set_buckets_size_class = \<lparr>class_id = OF_BSN_TABLE_SET_BUCKETS_SIZE, whole_buffer = False, wire_types = Some [(4, [PutVersion 0, Put8 1 0x4, Put32 8 0x5c16c7, Put32 12 0x3d]),
     (5, [PutVersion 0, Put8 1 0x4, Put32 8 0x5c16c7, Put32 12 0x3d])],
     finishes = [MessageLength]\<rparr>"

definition of_bsn_table_set_buckets_size_xid :: "32 word accessor" where
  "of_bsn_table_set_buckets_size_xid = u32_accessor [OF_BSN_TABLE_SET_BUCKETS_SIZE] [(4, 4), (5, 4)]"

definition of_bsn_table_set_buckets_size_experimenter :: "32 word accessor" where
  "of_bsn_table_set_buckets_size_experimenter = u32_accessor [OF_BSN_TABLE_SET_BUCKETS_SIZE] [(4, 8), (5, 8)]"

definition of_bsn_table_set_buckets_size_subtype :: "32 word accessor" where
  "of_bsn_table_set_buckets_size_subtype = u32_accessor [OF_BSN_TABLE_SET_BUCKETS_SIZE] [(4, 12), (5, 12)]"

definition of_bsn_table_set_buckets_size_table_id :: "byte accessor" where
  "of_bsn_table_set_buckets_size_table_id = u8_accessor [OF_BSN_TABLE_SET_BUCKETS_SIZE] [(4, 17), (5, 17)]"

definition of_bsn_table_set_buckets_size_buckets_size :: "32 word accessor" where
  "of_bsn_table_set_buckets_size_buckets_size = u32_accessor [OF_BSN_TABLE_SET_BUCKETS_SIZE] [(4, 20), (5, 20)]"

definition of_bsn_time_reply_class :: wire_class where
  "of_bsn_time_reply_class = \<lparr>class_id = OF_BSN_TIME_REPLY, whole_buffer = False, wire_types = Some [(4, [PutVersion 0, Put8 1 0x4, Put32 8 0x5c16c7, Put32 12 0x2d]),
     (5, [PutVersion 0, Put8 1 0x4, Put32 8 0x5c16c7, Put32 12 0x2d])],
     finishes = [MessageLength]\<rparr>"

definition of_bsn_time_reply_xid :: "32 word accessor" where
  "of_bsn_time_reply_xid = u32_accessor [OF_BSN_TIME_REPLY] [(4, 4), (5, 4)]"

definition of_bsn_time_reply_experimenter :: "32 word accessor" where
  "of_bsn_time_reply_experimenter = u32_accessor [OF_BSN_TIME_REPLY] [(4, 8), (5, 8)]"

definition of_bsn_time_reply_subtype :: "32 word accessor" where
  "of_bsn_time_reply_subtype = u32_accessor [OF_BSN_TIME_REPLY] [(4, 12), (5, 12)]"

definition of_bsn_time_reply_time_ms :: "64 word accessor" where
  "of_bsn_time_reply_time_ms = u64_accessor [OF_BSN_TIME_REPLY] [(4, 16), (5, 16)]"

definition of_bsn_time_request_class :: wire_class where
  "of_bsn_time_request_class = \<lparr>class_id = OF_BSN_TIME_REQUEST, whole_buffer = False, wire_types = Some [(4, [PutVersion 0, Put8 1 0x4, Put32 8 0x5c16c7, Put32 12 0x2c]),
     (5, [PutVersion 0, Put8 1 0x4, Put32 8 0x5c16c7, Put32 12 0x2c])],
     finishes = [MessageLength]\<rparr>"

definition of_bsn_time_request_xid :: "32 word accessor" where
  "of_bsn_time_request_xid = u32_accessor [OF_BSN_TIME_REQUEST] [(4, 4), (5, 4)]"

definition of_bsn_time_request_experimenter :: "32 word accessor" where
  "of_bsn_time_request_experimenter = u32_accessor [OF_BSN_TIME_REQUEST] [(4, 8), (5, 8)]"

definition of_bsn_time_request_subtype :: "32 word accessor" where
  "of_bsn_time_request_subtype = u32_accessor [OF_BSN_TIME_REQUEST] [(4, 12), (5, 12)]"

definition of_bsn_tlv_class :: wire_class where
  "of_bsn_tlv_class = \<lparr>class_id = OF_BSN_TLV, whole_buffer = True, wire_types = None,
     finishes = []\<rparr>"

definition of_bsn_tlv_actor_key_class :: wire_class where
  "of_bsn_tlv_actor_key_class = \<lparr>class_id = OF_BSN_TLV_ACTOR_KEY, whole_buffer = False, wire_types = Some [(4, [Put16 0 0x2c]),
     (5, [Put16 0 0x2c])],
     finishes = [Tlv16Length]\<rparr>"

definition of_bsn_tlv_actor_key_value :: "16 word accessor" where
  "of_bsn_tlv_actor_key_value = u16_accessor [OF_BSN_TLV_ACTOR_KEY] [(4, 4), (5, 4)]"

definition of_bsn_tlv_actor_port_num_class :: wire_class where
  "of_bsn_tlv_actor_port_num_class = \<lparr>class_id = OF_BSN_TLV_ACTOR_PORT_NUM, whole_buffer = False, wire_types = Some [(4, [Put16 0 0x2b]),
     (5, [Put16 0 0x2b])],
     finishes = [Tlv16Length]\<rparr>"

definition of_bsn_tlv_actor_port_num_value :: "16 word accessor" where
  "of_bsn_tlv_actor_port_num_value = u16_accessor [OF_BSN_TLV_ACTOR_PORT_NUM] [(4, 4), (5, 4)]"

definition of_bsn_tlv_actor_port_priority_class :: wire_class where
  "of_bsn_tlv_actor_port_priority_class = \<lparr>class_id = OF_BSN_TLV_ACTOR_PORT_PRIORITY, whole_buffer = False, wire_types = Some [(4, [Put16 0 0x2a]),
     (5, [Put16 0 0x2a])],
     finishes = [Tlv16Length]\<rparr>"

definition of_bsn_tlv_actor_port_priority_value :: "16 word accessor" where
  "of_bsn_tlv_actor_port_priority_value = u16_accessor [OF_BSN_TLV_ACTOR_PORT_PRIORITY] [(4, 4), (5, 4)]"

definition of_bsn_tlv_actor_state_class :: wire_class where
  "of_bsn_tlv_actor_state_class = \<lparr>class_id = OF_BSN_TLV_ACTOR_STATE, whole_buffer = False, wire_types = Some [(4, [Put16 0 0x35]),
     (5, [Put16 0 0x35])],
     finishes = [Tlv16Length]\<rparr>"

definition of_bsn_tlv_actor_state_value :: "byte accessor" where
  "of_bsn_tlv_actor_state_value = u8_accessor [OF_BSN_TLV_ACTOR_STATE] [(4, 4), (5, 4)]"

definition of_bsn_tlv_actor_system_mac_class :: wire_class where
  "of_bsn_tlv_actor_system_mac_class = \<lparr>class_id = OF_BSN_TLV_ACTOR_SYSTEM_MAC, whole_buffer = False, wire_types = Some [(4, [Put16 0 0x29]),
     (5, [Put16 0 0x29])],
     finishes = [Tlv16Length]\<rparr>"

definition of_bsn_tlv_actor_system_mac_value :: "byte list accessor" where
  "of_bsn_tlv_actor_system_mac_value = mac_accessor [OF_BSN_TLV_ACTOR_SYSTEM_MAC] [(4, 4), (5, 4)]"

definition of_bsn_tlv_actor_system_priority_class :: wire_class where
  "of_bsn_tlv_actor_system_priority_class = \<lparr>class_id = OF_BSN_TLV_ACTOR_SYSTEM_PRIORITY, whole_buffer = False, wire_types = Some [(4, [Put16 0 0x28]),
     (5, [Put16 0 0x28])],
     finishes = [Tlv16Length]\<rparr>"

definition of_bsn_tlv_actor_system_priority_value :: "16 word accessor" where
  "of_bsn_tlv_actor_system_priority_value = u16_accessor [OF_BSN_TLV_ACTOR_SYSTEM_PRIORITY] [(4, 4), (5, 4)]"

definition of_bsn_tlv_broadcast_query_timeout_class :: wire_class where
  "of_bsn_tlv_broadcast_query_timeout_class = \<lparr>class_id = OF_BSN_TLV_BROADCAST_QUERY_TIMEOUT, whole_buffer = False, wire_types = Some [(4, [Put16 0 0xa]),
     (5, [Put16 0 0xa])],
     finishes = [Tlv16Length]\<rparr>"

definition of_bsn_tlv_broadcast_query_timeout_value :: "32 word accessor" where
  "of_bsn_tlv_broadcast_query_timeout_value = u32_accessor [OF_BSN_TLV_BROADCAST_QUERY_TIMEOUT] [(4, 4), (5, 4)]"

definition of_bsn_tlv_bucket_class :: wire_class where
  "of_bsn_tlv_bucket_class = \<lparr>class_id = OF_BSN_TLV_BUCKET, whole_buffer = True, wire_types = Some [(4, [Put16 0 0x40]),
     (5, [Put16 0 0x40])],
     finishes = [Tlv16Length]\<rparr>"

definition of_bsn_tlv_circuit_id_class :: wire_class where
  "of_bsn_tlv_circuit_id_class = \<lparr>class_id = OF_BSN_TLV_CIRCUIT_ID, whole_buffer = True, wire_types = Some [(4, [Put16 0 0xe]),
     (5, [Put16 0 0xe])],
     finishes = [Tlv16Length]\<rparr>"

definition of_bsn_tlv_convergence_status_class :: wire_class where
  "of_bsn_tlv_convergence_status_class = \<lparr>class_id = OF_BSN_TLV_CONVERGENCE_STATUS, whole_buffer = False, wire_types = Some [(4, [Put16 0 0x2d]),
     (5, [Put16 0 0x2d])],
     finishes = [Tlv16Length]\<rparr>"

definition of_bsn_tlv_convergence_status_value :: "byte accessor" where
  "of_bsn_tlv_convergence_status_value = u8_accessor [OF_BSN_TLV_CONVERGENCE_STATUS] [(4, 4), (5, 4)]"

definition of_bsn_tlv_crc_enabled_class :: wire_class where
  "of_bsn_tlv_crc_enabled_class = \<lparr>class_id = OF_BSN_TLV_CRC_ENABLED, whole_buffer = False, wire_types = Some [(4, [Put16 0 0x16]),
     (5, [Put16 0 0x16])],
     finishes = [Tlv16Length]\<rparr>"

definition of_bsn_tlv_crc_enabled_value :: "byte accessor" where
  "of_bsn_tlv_crc_enabled_value = u8_accessor [OF_BSN_TLV_CRC_ENABLED] [(4, 4), (5, 4)]"

definition of_bsn_tlv_data_class :: wire_class where
  "of_bsn_tlv_data_class = \<lparr>class_id = OF_BSN_TLV_DATA, whole_buffer = True, wire_types = Some [(4, [Put16 0 0x37]),
     (5, [Put16 0 0x37])],
     finishes = [Tlv16Length]\<rparr>"

definition of_bsn_tlv_eth_dst_class :: wire_class where
  "of_bsn_tlv_eth_dst_class = \<lparr>class_id = OF_BSN_TLV_ETH_DST, whole_buffer = False, wire_types = Some [(4, [Put16 0 0x21]),
     (5, [Put16 0 0x21])],
     finishes = [Tlv16Length]\<rparr>"

definition of_bsn_tlv_eth_dst_value :: "byte list accessor" where
  "of_bsn_tlv_eth_dst_value = mac_accessor [OF_BSN_TLV_ETH_DST] [(4, 4), (5, 4)]"

definition of_bsn_tlv_eth_src_class :: wire_class where
  "of_bsn_tlv_eth_src_class = \<lparr>class_id = OF_BSN_TLV_ETH_SRC, whole_buffer = False, wire_types = Some [(4, [Put16 0 0x20]),
     (5, [Put16 0 0x20])],
     finishes = [Tlv16Length]\<rparr>"

definition of_bsn_tlv_eth_src_value :: "byte list accessor" where
  "of_bsn_tlv_eth_src_value = mac_accessor [OF_BSN_TLV_ETH_SRC] [(4, 4), (5, 4)]"

definition of_bsn_tlv_external_gateway_ip_class :: wire_class where
  "of_bsn_tlv_external_gateway_ip_class = \<lparr>class_id = OF_BSN_TLV_EXTERNAL_GATEWAY_IP, whole_buffer = False, wire_types = Some [(4, [Put16 0 0x1a]),
     (5, [Put16 0 0x1a])],
     finishes = [Tlv16Length]\<rparr>"

definition of_bsn_tlv_external_gateway_ip_value :: "32 word accessor" where
  "of_bsn_tlv_external_gateway_ip_value = ipv4_accessor [OF_BSN_TLV_EXTERNAL_GATEWAY_IP] [(4, 4), (5, 4)]"

definition of_bsn_tlv_external_gateway_mac_class :: wire_class where
  "of_bsn_tlv_external_gateway_mac_class = \<lparr>class_id = OF_BSN_TLV_EXTERNAL_GATEWAY_MAC, whole_buffer = False, wire_types = Some [(4, [Put16 0 0x1d]),
     (5, [Put16 0 0x1d])],
     finishes = [Tlv16Length]\<rparr>"

definition of_bsn_tlv_external_gateway_mac_value :: "byte list accessor" where
  "of_bsn_tlv_external_gateway_mac_value = mac_accessor [OF_BSN_TLV_EXTERNAL_GATEWAY_MAC] [(4, 4), (5, 4)]"

definition of_bsn_tlv_external_ip_class :: wire_class where
  "of_bsn_tlv_external_ip_class = \<lparr>class_id = OF_BSN_TLV_EXTERNAL_IP, whole_buffer = False, wire_types = Some [(4, [Put16 0 0x17]),
     (5, [Put16 0 0x17])],
     finishes = [Tlv16Length]\<rparr>"

definition of_bsn_tlv_external_ip_value :: "32 word accessor" where
  "of_bsn_tlv_external_ip_value = ipv4_accessor [OF_BSN_TLV_EXTERNAL_IP] [(4, 4), (5, 4)]"

definition of_bsn_tlv_external_mac_class :: wire_class where
  "of_bsn_tlv_external_mac_class = \<lparr>class_id = OF_BSN_TLV_EXTERNAL_MAC, whole_buffer = False, wire_types = Some [(4, [Put16 0 0x18]),
     (5, [Put16 0 0x18])],
     finishes = [Tlv16Length]\<rparr>"

definition of_bsn_tlv_external_mac_value :: "byte list accessor" where
  "of_bsn_tlv_external_mac_value = mac_accessor [OF_BSN_TLV_EXTERNAL_MAC] [(4, 4), (5, 4)]"

definition of_bsn_tlv_external_netmask_class :: wire_class where
  "of_bsn_tlv_external_netmask_class = \<lparr>class_id = OF_BSN_TLV_EXTERNAL_NETMASK, whole_buffer = False, wire_types = Some [(4, [Put16 0 0x19]),
     (5, [Put16 0 0x19])],
     finishes = [Tlv16Length]\<rparr>"

definition of_bsn_tlv_external_netmask_value :: "32 word accessor" where
  "of_bsn_tlv_external_netmask_value = ipv4_accessor [OF_BSN_TLV_EXTERNAL_NETMASK] [(4, 4), (5, 4)]"

definition of_bsn_tlv_header_size_class :: wire_class where
  "of_bsn_tlv_header_size_class = \<lparr>class_id = OF_BSN_TLV_HEADER_SIZE, whole_buffer = False, wire_types = Some [(4, [Put16 0 0x1f]),
     (5, [Put16 0 0x1f])],
     finishes = [Tlv16Length]\<rparr>"

definition of_bsn_tlv_header_size_value :: "32 word accessor" where
  "of_bsn_tlv_header_size_value = u32_accessor [OF_BSN_TLV_HEADER_SIZE] [(4, 4), (5, 4)]"

text \<open>The classes, each with consistent wire types in every version that has it.\<close>

definition classes_12 :: "wire_class list" where
  "classes_12 = [of_bsn_set_switch_pipeline_reply_class, of_bsn_set_switch_pipeline_request_class,
     of_bsn_switch_pipeline_stats_entry_class, of_bsn_switch_pipeline_stats_reply_class,
     of_bsn_switch_pipeline_stats_request_class, of_bsn_table_checksum_stats_entry_class,
     of_bsn_table_checksum_stats_reply_class, of_bsn_table_checksum_stats_request_class,
     of_bsn_table_set_buckets_size_class, of_bsn_time_reply_class, of_bsn_time_request_class,
     of_bsn_tlv_class, of_bsn_tlv_actor_key_class, of_bsn_tlv_actor_port_num_class,
     of_bsn_tlv_actor_port_priority_class, of_bsn_tlv_actor_state_class,
     of_bsn_tlv_actor_system_mac_class, of_bsn_tlv_actor_system_priority_class,
     of_bsn_tlv_broadcast_query_timeout_class, of_bsn_tlv_bucket_class, of_bsn_tlv_circuit_id_class,
     of_bsn_tlv_convergence_status_class, of_bsn_tlv_crc_enabled_class, of_bsn_tlv_data_class,
     of_bsn_tlv_eth_dst_class, of_bsn_tlv_eth_src_class, of_bsn_tlv_external_gateway_ip_class,
     of_bsn_tlv_external_gateway_mac_class, of_bsn_tlv_external_ip_class, of_bsn_tlv_external_mac_class,
     of_bsn_tlv_external_netmask_class, of_bsn_tlv_header_size_class]"

lemmas class_defs_12 =
  of_bsn_set_switch_pipeline_reply_class_def of_bsn_set_switch_pipeline_request_class_def
  of_bsn_switch_pipeline_stats_entry_class_def of_bsn_switch_pipeline_stats_reply_class_def
  of_bsn_switch_pipeline_stats_request_class_def of_bsn_table_checksum_stats_entry_class_def
  of_bsn_table_checksum_stats_reply_class_def of_bsn_table_checksum_stats_request_class_def
  of_bsn_table_set_buckets_size_class_def of_bsn_time_reply_class_def of_bsn_time_request_class_def
  of_bsn_tlv_class_def of_bsn_tlv_actor_key_class_def of_bsn_tlv_actor_port_num_class_def
  of_bsn_tlv_actor_port_priority_class_def of_bsn_tlv_actor_state_class_def
  of_bsn_tlv_actor_system_mac_class_def of_bsn_tlv_actor_system_priority_class_def
  of_bsn_tlv_broadcast_query_timeout_class_def of_bsn_tlv_bucket_class_def
  of_bsn_tlv_circuit_id_class_def of_bsn_tlv_convergence_status_class_def
  of_bsn_tlv_crc_enabled_class_def of_bsn_tlv_data_class_def of_bsn_tlv_eth_dst_class_def
  of_bsn_tlv_eth_src_class_def of_bsn_tlv_external_gateway_ip_class_def
  of_bsn_tlv_external_gateway_mac_class_def of_bsn_tlv_external_ip_class_def
  of_bsn_tlv_external_mac_class_def of_bsn_tlv_external_netmask_class_def
  of_bsn_tlv_header_size_class_def

lemma classes_ok_12: "list_all class_ok classes_12"
  unfolding classes_12_def
  by (simp add: class_defs_12 class_checks)

text \<open>The accessors.\<close>

definition fields_12 :: "field list" where
  "fields_12 = [U32 of_bsn_set_switch_pipeline_reply_xid, U32 of_bsn_set_switch_pipeline_reply_experimenter,
     U32 of_bsn_set_switch_pipeline_reply_subtype, U32 of_bsn_set_switch_pipeline_reply_status,
     U32 of_bsn_set_switch_pipeline_request_xid, U32 of_bsn_set_switch_pipeline_request_experimenter,
     U32 of_bsn_set_switch_pipeline_request_subtype,
     Octets 256 of_bsn_set_switch_pipeline_request_pipeline,
     Octets 256 of_bsn_switch_pipeline_stats_entry_pipeline, U32 of_bsn_switch_pipeline_stats_reply_xid,
     U16 of_bsn_switch_pipeline_stats_reply_flags, U32 of_bsn_switch_pipeline_stats_reply_experimenter,
     U32 of_bsn_switch_pipeline_stats_reply_subtype, U32 of_bsn_switch_pipeline_stats_request_xid,
     U16 of_bsn_switch_pipeline_stats_request_flags,
     U32 of_bsn_switch_pipeline_stats_request_experimenter,
     U32 of_bsn_switch_pipeline_stats_request_subtype, U8 of_bsn_table_checksum_stats_entry_table_id,
     U64 of_bsn_table_checksum_stats_entry_checksum, U32 of_bsn_table_checksum_stats_reply_xid,
     U16 of_bsn_table_checksum_stats_reply_flags, U32 of_bsn_table_checksum_stats_reply_experimenter,
     U32 of_bsn_table_checksum_stats_reply_subtype, U32 of_bsn_table_checksum_stats_request_xid,
     U16 of_bsn_table_checksum_stats_request_flags, U32 of_bsn_table_checksum_stats_request_experimenter,
     U32 of_bsn_table_checksum_stats_request_subtype, U32 of_bsn_table_set_buckets_size_xid,
     U32 of_bsn_table_set_buckets_size_experimenter, U32 of_bsn_table_set_buckets_size_subtype,
     U8 of_bsn_table_set_buckets_size_table_id, U32 of_bsn_table_set_buckets_size_buckets_size,
     U32 of_bsn_time_reply_xid, U32 of_bsn_time_reply_experimenter, U32 of_bsn_time_reply_subtype,
     U64 of_bsn_time_reply_time_ms, U32 of_bsn_time_request_xid, U32 of_bsn_time_request_experimenter,
     U32 of_bsn_time_request_subtype, U16 of_bsn_tlv_actor_key_value, U16 of_bsn_tlv_actor_port_num_value,
     U16 of_bsn_tlv_actor_port_priority_value, U8 of_bsn_tlv_actor_state_value,
     Octets 6 of_bsn_tlv_actor_system_mac_value, U16 of_bsn_tlv_actor_system_priority_value,
     U32 of_bsn_tlv_broadcast_query_timeout_value, U8 of_bsn_tlv_convergence_status_value,
     U8 of_bsn_tlv_crc_enabled_value, Octets 6 of_bsn_tlv_eth_dst_value,
     Octets 6 of_bsn_tlv_eth_src_value, U32 of_bsn_tlv_external_gateway_ip_value,
     Octets 6 of_bsn_tlv_external_gateway_mac_value, U32 of_bsn_tlv_external_ip_value,
     Octets 6 of_bsn_tlv_external_mac_value, U32 of_bsn_tlv_external_netmask_value,
     U32 of_bsn_tlv_header_size_value]"

lemmas accessor_defs_12 =
  of_bsn_set_switch_pipeline_reply_xid_def of_bsn_set_switch_pipeline_reply_experimenter_def
  of_bsn_set_switch_pipeline_reply_subtype_def of_bsn_set_switch_pipeline_reply_status_def
  of_bsn_set_switch_pipeline_request_xid_def of_bsn_set_switch_pipeline_request_experimenter_def
  of_bsn_set_switch_pipeline_request_subtype_def of_bsn_set_switch_pipeline_request_pipeline_def
  of_bsn_switch_pipeline_stats_entry_pipeline_def of_bsn_switch_pipeline_stats_reply_xid_def
  of_bsn_switch_pipeline_stats_reply_flags_def of_bsn_switch_pipeline_stats_reply_experimenter_def
  of_bsn_switch_pipeline_stats_reply_subtype_def of_bsn_switch_pipeline_stats_request_xid_def
  of_bsn_switch_pipeline_stats_request_flags_def
  of_bsn_switch_pipeline_stats_request_experimenter_def
  of_bsn_switch_pipeline_stats_request_subtype_def of_bsn_table_checksum_stats_entry_table_id_def
  of_bsn_table_checksum_stats_entry_checksum_def of_bsn_table_checksum_stats_reply_xid_def
  of_bsn_table_checksum_stats_reply_flags_def of_bsn_table_checksum_stats_reply_experimenter_def
  of_bsn_table_checksum_stats_reply_subtype_def of_bsn_table_checksum_stats_request_xid_def
  of_bsn_table_checksum_stats_request_flags_def of_bsn_table_checksum_stats_request_experimenter_def
  of_bsn_table_checksum_stats_request_subtype_def of_bsn_table_set_buckets_size_xid_def
  of_bsn_table_set_buckets_size_experimenter_def of_bsn_table_set_buckets_size_subtype_def
  of_bsn_table_set_buckets_size_table_id_def of_bsn_table_set_buckets_size_buckets_size_def
  of_bsn_time_reply_xid_def of_bsn_time_reply_experimenter_def of_bsn_time_reply_subtype_def
  of_bsn_time_reply_time_ms_def of_bsn_time_request_xid_def of_bsn_time_request_experimenter_def
  of_bsn_time_request_subtype_def of_bsn_tlv_actor_key_value_def of_bsn_tlv_actor_port_num_value_def
  of_bsn_tlv_actor_port_priority_value_def of_bsn_tlv_actor_state_value_def
  of_bsn_tlv_actor_system_mac_value_def of_bsn_tlv_actor_system_priority_value_def
  of_bsn_tlv_broadcast_query_timeout_value_def of_bsn_tlv_convergence_status_value_def
  of_bsn_tlv_crc_enabled_value_def of_bsn_tlv_eth_dst_value_def of_bsn_tlv_eth_src_value_def
  of_bsn_tlv_external_gateway_ip_value_def of_bsn_tlv_external_gateway_mac_value_def
  of_bsn_tlv_external_ip_value_def of_bsn_tlv_external_mac_value_def
  of_bsn_tlv_external_netmask_value_def of_bsn_tlv_header_size_value_def

lemma fields_ok_12: "list_all field_ok fields_12"
  unfolding fields_12_def accessor_defs_12
  by (simp add: accessors_ok octets_accessors_ok inside_rows del: field_ok.simps)

end
