(* ===== verification/Class13.thy ===== *)
theory Class13
  imports Construct
begin

text \<open>
  The classes of \<^verbatim>\<open>src/class13.c\<close>: for each what its constructor, initialiser and
  \<open>push_wire_types\<close> write, and the scalar accessors, a getter and a setter for each field at a fixed offset.
\<close>

definition of_bsn_tlv_icmp_code_class :: wire_class where
  "of_bsn_tlv_icmp_code_class = \<lparr>class_id = OF_BSN_TLV_ICMP_CODE, whole_buffer = False, wire_types = Some [(4, [Put16 0 0x45]),
     (5, [Put16 0 0x45])],
     finishes = [Tlv16Length]\<rparr>"

definition of_bsn_tlv_icmp_code_value :: "byte accessor" where
  "of_bsn_tlv_icmp_code_value = u8_accessor [OF_BSN_TLV_ICMP_CODE] [(4, 4), (5, 4)]"

definition of_bsn_tlv_icmp_id_class :: wire_class where
  "of_bsn_tlv_icmp_id_class = \<lparr>class_id = OF_BSN_TLV_ICMP_ID, whole_buffer = False, wire_types = Some [(4, [Put16 0 0x46]),
     (5, [Put16 0 0x46])],
     finishes = [Tlv16Length]\<rparr>"

definition of_bsn_tlv_icmp_id_value :: "16 word accessor" where
  "of_bsn_tlv_icmp_id_value = u16_accessor [OF_BSN_TLV_ICMP_ID] [(4, 4), (5, 4)]"

definition of_bsn_tlv_icmp_type_class :: wire_class where
  "of_bsn_tlv_icmp_type_class = \<lparr>class_id = OF_BSN_TLV_ICMP_TYPE, whole_buffer = False, wire_types = Some [(4, [Put16 0 0x44]),
     (5, [Put16 0 0x44])],
     finishes = [Tlv16Length]\<rparr>"

definition of_bsn_tlv_icmp_type_value :: "byte accessor" where
  "of_bsn_tlv_icmp_type_value = u8_accessor [OF_BSN_TLV_ICMP_TYPE] [(4, 4), (5, 4)]"

definition of_bsn_tlv_idle_notification_class :: wire_class where
  "of_bsn_tlv_idle_notification_class = \<lparr>class_id = OF_BSN_TLV_IDLE_NOTIFICATION, whole_buffer = False, wire_types = Some [(4, [Put16 0 0x7]),
     (5, [Put16 0 0x7])],
     finishes = [Tlv16Length]\<rparr>"

definition of_bsn_tlv_idle_time_class :: wire_class where
  "of_bsn_tlv_idle_time_class = \<lparr>class_id = OF_BSN_TLV_IDLE_TIME, whole_buffer = False, wire_types = Some [(4, [Put16 0 0x5]),
     (5, [Put16 0 0x5])],
     finishes = [Tlv16Length]\<rparr>"

definition of_bsn_tlv_idle_time_value :: "64 word accessor" where
  "of_bsn_tlv_idle_time_value = u64_accessor [OF_BSN_TLV_IDLE_TIME] [(4, 4), (5, 4)]"

definition of_bsn_tlv_idle_timeout_class :: wire_class where
  "of_bsn_tlv_idle_timeout_class = \<lparr>class_id = OF_BSN_TLV_IDLE_TIMEOUT, whole_buffer = False, wire_types = Some [(4, [Put16 0 0x8]),
     (5, [Put16 0 0x8])],
     finishes = [Tlv16Length]\<rparr>"

definition of_bsn_tlv_idle_timeout_value :: "32 word accessor" where
  "of_bsn_tlv_idle_timeout_value = u32_accessor [OF_BSN_TLV_IDLE_TIMEOUT] [(4, 4), (5, 4)]"

definition of_bsn_tlv_internal_gateway_mac_class :: wire_class where
  "of_bsn_tlv_internal_gateway_mac_class = \<lparr>class_id = OF_BSN_TLV_INTERNAL_GATEWAY_MAC, whole_buffer = False, wire_types = Some [(4, [Put16 0 0x1c]),
     (5, [Put16 0 0x1c])],
     finishes = [Tlv16Length]\<rparr>"

definition of_bsn_tlv_internal_gateway_mac_value :: "byte list accessor" where
  "of_bsn_tlv_internal_gateway_mac_value = mac_accessor [OF_BSN_TLV_INTERNAL_GATEWAY_MAC] [(4, 4), (5, 4)]"

definition of_bsn_tlv_internal_mac_class :: wire_class where
  "of_bsn_tlv_internal_mac_class = \<lparr>class_id = OF_BSN_TLV_INTERNAL_MAC, whole_buffer = False, wire_types = Some [(4, [Put16 0 0x1b]),
     (5, [Put16 0 0x1b])],
     finishes = [Tlv16Length]\<rparr>"

definition of_bsn_tlv_internal_mac_value :: "byte list accessor" where
  "of_bsn_tlv_internal_mac_value = mac_accessor [OF_BSN_TLV_INTERNAL_MAC] [(4, 4), (5, 4)]"

definition of_bsn_tlv_interval_class :: wire_class where
  "of_bsn_tlv_interval_class = \<lparr>class_id = OF_BSN_TLV_INTERVAL, whole_buffer = False, wire_types = Some [(4, [Put16 0 0x3a]),
     (5, [Put16 0 0x3a])],
     finishes = [Tlv16Length]\<rparr>"

definition of_bsn_tlv_interval_value :: "32 word accessor" where
  "of_bsn_tlv_interval_value = u32_accessor [OF_BSN_TLV_INTERVAL] [(4, 4), (5, 4)]"

definition of_bsn_tlv_ip_proto_class :: wire_class where
  "of_bsn_tlv_ip_proto_class = \<lparr>class_id = OF_BSN_TLV_IP_PROTO, whole_buffer = False, wire_types = Some [(4, [Put16 0 0x43]),
     (5, [Put16 0 0x43])],
     finishes = [Tlv16Length]\<rparr>"

definition of_bsn_tlv_ip_proto_value :: "byte accessor" where
  "of_bsn_tlv_ip_proto_value = u8_accessor [OF_BSN_TLV_IP_PROTO] [(4, 4), (5, 4)]"

definition of_bsn_tlv_ipv4_class :: wire_class where
  "of_bsn_tlv_ipv4_class = \<lparr>class_id = OF_BSN_TLV_IPV4, whole_buffer = False, wire_types = Some [(4, [Put16 0 0x4]),
     (5, [Put16 0 0x4])],
     finishes = [Tlv16Length]\<rparr>"

definition of_bsn_tlv_ipv4_value :: "32 word accessor" where
  "of_bsn_tlv_ipv4_value = ipv4_accessor [OF_BSN_TLV_IPV4] [(4, 4), (5, 4)]"

definition of_bsn_tlv_ipv4_dst_class :: wire_class where
  "of_bsn_tlv_ipv4_dst_class = \<lparr>class_id = OF_BSN_TLV_IPV4_DST, whole_buffer = False, wire_types = Some [(4, [Put16 0 0x23]),
     (5, [Put16 0 0x23])],
     finishes = [Tlv16Length]\<rparr>"

definition of_bsn_tlv_ipv4_dst_value :: "32 word accessor" where
  "of_bsn_tlv_ipv4_dst_value = ipv4_accessor [OF_BSN_TLV_IPV4_DST] [(4, 4), (5, 4)]"

definition of_bsn_tlv_ipv4_netmask_class :: wire_class where
  "of_bsn_tlv_ipv4_netmask_class = \<lparr>class_id = OF_BSN_TLV_IPV4_NETMASK, whole_buffer = False, wire_types = Some [(4, [Put16 0 0x3c]),
     (5, [Put16 0 0x3c])],
     finishes = [Tlv16Length]\<rparr>"

definition of_bsn_tlv_ipv4_netmask_value :: "32 word accessor" where
  "of_bsn_tlv_ipv4_netmask_value = ipv4_accessor [OF_BSN_TLV_IPV4_NETMASK] [(4, 4), (5, 4)]"

definition of_bsn_tlv_ipv4_src_class :: wire_class where
  "of_bsn_tlv_ipv4_src_class = \<lparr>class_id = OF_BSN_TLV_IPV4_SRC, whole_buffer = False, wire_types = Some [(4, [Put16 0 0x22]),
     (5, [Put16 0 0x22])],
     finishes = [Tlv16Length]\<rparr>"

definition of_bsn_tlv_ipv4_src_value :: "32 word accessor" where
  "of_bsn_tlv_ipv4_src_value = ipv4_accessor [OF_BSN_TLV_IPV4_SRC] [(4, 4), (5, 4)]"

definition of_bsn_tlv_mac_class :: wire_class where
  "of_bsn_tlv_mac_class = \<lparr>class_id = OF_BSN_TLV_MAC, whole_buffer = False, wire_types = Some [(4, [Put16 0 0x1]),
     (5, [Put16 0 0x1])],
     finishes = [Tlv16Length]\<rparr>"

definition of_bsn_tlv_mac_value :: "byte list accessor" where
  "of_bsn_tlv_mac_value = mac_accessor [OF_BSN_TLV_MAC] [(4, 4), (5, 4)]"

definition of_bsn_tlv_mac_mask_class :: wire_class where
  "of_bsn_tlv_mac_mask_class = \<lparr>class_id = OF_BSN_TLV_MAC_MASK, whole_buffer = False, wire_types = Some [(4, [Put16 0 0x38]),
     (5, [Put16 0 0x38])],
     finishes = [Tlv16Length]\<rparr>"

definition of_bsn_tlv_mac_mask_value :: "byte list accessor" where
  "of_bsn_tlv_mac_mask_value = mac_accessor [OF_BSN_TLV_MAC_MASK] [(4, 4), (5, 4)]"

definition of_bsn_tlv_miss_packets_class :: wire_class where
  "of_bsn_tlv_miss_packets_class = \<lparr>class_id = OF_BSN_TLV_MISS_PACKETS, whole_buffer = False, wire_types = Some [(4, [Put16 0 0xd]),
     (5, [Put16 0 0xd])],
     finishes = [Tlv16Length]\<rparr>"

definition of_bsn_tlv_miss_packets_value :: "64 word accessor" where
  "of_bsn_tlv_miss_packets_value = u64_accessor [OF_BSN_TLV_MISS_PACKETS] [(4, 4), (5, 4)]"

definition of_bsn_tlv_mpls_control_word_class :: wire_class where
  "of_bsn_tlv_mpls_control_word_class = \<lparr>class_id = OF_BSN_TLV_MPLS_CONTROL_WORD, whole_buffer = False, wire_types = Some [(4, [Put16 0 0x3e]),
     (5, [Put16 0 0x3e])],
     finishes = [Tlv16Length]\<rparr>"

definition of_bsn_tlv_mpls_control_word_value :: "byte accessor" where
  "of_bsn_tlv_mpls_control_word_value = u8_accessor [OF_BSN_TLV_MPLS_CONTROL_WORD] [(4, 4), (5, 4)]"

definition of_bsn_tlv_mpls_label_class :: wire_class where
  "of_bsn_tlv_mpls_label_class = \<lparr>class_id = OF_BSN_TLV_MPLS_LABEL, whole_buffer = False, wire_types = Some [(4, [Put16 0 0x3d]),
     (5, [Put16 0 0x3d])],
     finishes = [Tlv16Length]\<rparr>"

definition of_bsn_tlv_mpls_label_value :: "32 word accessor" where
  "of_bsn_tlv_mpls_label_value = u32_accessor [OF_BSN_TLV_MPLS_LABEL] [(4, 4), (5, 4)]"

definition of_bsn_tlv_mpls_sequenced_class :: wire_class where
  "of_bsn_tlv_mpls_sequenced_class = \<lparr>class_id = OF_BSN_TLV_MPLS_SEQUENCED, whole_buffer = False, wire_types = Some [(4, [Put16 0 0x3f]),
     (5, [Put16 0 0x3f])],
     finishes = [Tlv16Length]\<rparr>"

definition of_bsn_tlv_mpls_sequenced_value :: "byte accessor" where
  "of_bsn_tlv_mpls_sequenced_value = u8_accessor [OF_BSN_TLV_MPLS_SEQUENCED] [(4, 4), (5, 4)]"

definition of_bsn_tlv_name_class :: wire_class where
  "of_bsn_tlv_name_class = \<lparr>class_id = OF_BSN_TLV_NAME, whole_buffer = True, wire_types = Some [(4, [Put16 0 0x34]),
     (5, [Put16 0 0x34])],
     finishes = [Tlv16Length]\<rparr>"

definition of_bsn_tlv_partner_key_class :: wire_class where
  "of_bsn_tlv_partner_key_class = \<lparr>class_id = OF_BSN_TLV_PARTNER_KEY, whole_buffer = False, wire_types = Some [(4, [Put16 0 0x33]),
     (5, [Put16 0 0x33])],
     finishes = [Tlv16Length]\<rparr>"

definition of_bsn_tlv_partner_key_value :: "16 word accessor" where
  "of_bsn_tlv_partner_key_value = u16_accessor [OF_BSN_TLV_PARTNER_KEY] [(4, 4), (5, 4)]"

definition of_bsn_tlv_partner_port_num_class :: wire_class where
  "of_bsn_tlv_partner_port_num_class = \<lparr>class_id = OF_BSN_TLV_PARTNER_PORT_NUM, whole_buffer = False, wire_types = Some [(4, [Put16 0 0x32]),
     (5, [Put16 0 0x32])],
     finishes = [Tlv16Length]\<rparr>"

definition of_bsn_tlv_partner_port_num_value :: "16 word accessor" where
  "of_bsn_tlv_partner_port_num_value = u16_accessor [OF_BSN_TLV_PARTNER_PORT_NUM] [(4, 4), (5, 4)]"

definition of_bsn_tlv_partner_port_priority_class :: wire_class where
  "of_bsn_tlv_partner_port_priority_class = \<lparr>class_id = OF_BSN_TLV_PARTNER_PORT_PRIORITY, whole_buffer = False, wire_types = Some [(4, [Put16 0 0x31]),
     (5, [Put16 0 0x31])],
     finishes = [Tlv16Length]\<rparr>"

definition of_bsn_tlv_partner_port_priority_value :: "16 word accessor" where
  "of_bsn_tlv_partner_port_priority_value = u16_accessor [OF_BSN_TLV_PARTNER_PORT_PRIORITY] [(4, 4), (5, 4)]"

definition of_bsn_tlv_partner_state_class :: wire_class where
  "of_bsn_tlv_partner_state_class = \<lparr>class_id = OF_BSN_TLV_PARTNER_STATE, whole_buffer = False, wire_types = Some [(4, [Put16 0 0x36]),
     (5, [Put16 0 0x36])],
     finishes = [Tlv16Length]\<rparr>"

definition of_bsn_tlv_partner_state_value :: "byte accessor" where
  "of_bsn_tlv_partner_state_value = u8_accessor [OF_BSN_TLV_PARTNER_STATE] [(4, 4), (5, 4)]"

definition of_bsn_tlv_partner_system_mac_class :: wire_class where
  "of_bsn_tlv_partner_system_mac_class = \<lparr>class_id = OF_BSN_TLV_PARTNER_SYSTEM_MAC, whole_buffer = False, wire_types = Some [(4, [Put16 0 0x30]),
     (5, [Put16 0 0x30])],
     finishes = [Tlv16Length]\<rparr>"

definition of_bsn_tlv_partner_system_mac_value :: "byte list accessor" where
  "of_bsn_tlv_partner_system_mac_value = mac_accessor [OF_BSN_TLV_PARTNER_SYSTEM_MAC] [(4, 4), (5, 4)]"

definition of_bsn_tlv_partner_system_priority_class :: wire_class where
  "of_bsn_tlv_partner_system_priority_class = \<lparr>class_id = OF_BSN_TLV_PARTNER_SYSTEM_PRIORITY, whole_buffer = False, wire_types = Some [(4, [Put16 0 0x2f]),
     (5, [Put16 0 0x2f])],
     finishes = [Tlv16Length]\<rparr>"

definition of_bsn_tlv_partner_system_priority_value :: "16 word accessor" where
  "of_bsn_tlv_partner_system_priority_value = u16_accessor [OF_BSN_TLV_PARTNER_SYSTEM_PRIORITY] [(4, 4), (5, 4)]"

definition of_bsn_tlv_port_class :: wire_class where
  "of_bsn_tlv_port_class = \<lparr>class_id = OF_BSN_TLV_PORT, whole_buffer = False, wire_types = Some [(4, [Put16 0 0x0]),
     (5, [Put16 0 0x0])],
     finishes = [Tlv16Length]\<rparr>"

definition of_bsn_tlv_port_value :: "32 word accessor" where
  "of_bsn_tlv_port_value = port_no_accessor [OF_BSN_TLV_PORT] [(4, 4), (5, 4)]"

definition of_bsn_tlv_priority_class :: wire_class where
  "of_bsn_tlv_priority_class = \<lparr>class_id = OF_BSN_TLV_PRIORITY, whole_buffer = False, wire_types = Some [(4, [Put16 0 0x39]),
     (5, [Put16 0 0x39])],
     finishes = [Tlv16Length]\<rparr>"

definition of_bsn_tlv_priority_value :: "32 word accessor" where
  "of_bsn_tlv_priority_value = u32_accessor [OF_BSN_TLV_PRIORITY] [(4, 4), (5, 4)]"

definition of_bsn_tlv_queue_id_class :: wire_class where
  "of_bsn_tlv_queue_id_class = \<lparr>class_id = OF_BSN_TLV_QUEUE_ID, whole_buffer = False, wire_types = Some [(4, [Put16 0 0x14]),
     (5, [Put16 0 0x14])],
     finishes = [Tlv16Length]\<rparr>"

definition of_bsn_tlv_queue_id_value :: "32 word accessor" where
  "of_bsn_tlv_queue_id_value = u32_accessor [OF_BSN_TLV_QUEUE_ID] [(4, 4), (5, 4)]"

definition of_bsn_tlv_queue_weight_class :: wire_class where
  "of_bsn_tlv_queue_weight_class = \<lparr>class_id = OF_BSN_TLV_QUEUE_WEIGHT, whole_buffer = False, wire_types = Some [(4, [Put16 0 0x15]),
     (5, [Put16 0 0x15])],
     finishes = [Tlv16Length]\<rparr>"

definition of_bsn_tlv_queue_weight_value :: "32 word accessor" where
  "of_bsn_tlv_queue_weight_value = u32_accessor [OF_BSN_TLV_QUEUE_WEIGHT] [(4, 4), (5, 4)]"

definition of_bsn_tlv_reference_class :: wire_class where
  "of_bsn_tlv_reference_class = \<lparr>class_id = OF_BSN_TLV_REFERENCE, whole_buffer = True, wire_types = Some [(4, [Put16 0 0x3b]),
     (5, [Put16 0 0x3b])],
     finishes = [Tlv16Length]\<rparr>"

definition of_bsn_tlv_reference_table_id :: "16 word accessor" where
  "of_bsn_tlv_reference_table_id = u16_accessor [OF_BSN_TLV_REFERENCE] [(4, 4), (5, 4)]"

text \<open>The classes, each with consistent wire types in every version that has it.\<close>

definition classes_13 :: "wire_class list" where
  "classes_13 = [of_bsn_tlv_icmp_code_class, of_bsn_tlv_icmp_id_class, of_bsn_tlv_icmp_type_class,
     of_bsn_tlv_idle_notification_class, of_bsn_tlv_idle_time_class, of_bsn_tlv_idle_timeout_class,
     of_bsn_tlv_internal_gateway_mac_class, of_bsn_tlv_internal_mac_class, of_bsn_tlv_interval_class,
     of_bsn_tlv_ip_proto_class, of_bsn_tlv_ipv4_class, of_bsn_tlv_ipv4_dst_class,
     of_bsn_tlv_ipv4_netmask_class, of_bsn_tlv_ipv4_src_class, of_bsn_tlv_mac_class,
     of_bsn_tlv_mac_mask_class, of_bsn_tlv_miss_packets_class, of_bsn_tlv_mpls_control_word_class,
     of_bsn_tlv_mpls_label_class, of_bsn_tlv_mpls_sequenced_class, of_bsn_tlv_name_class,
     of_bsn_tlv_partner_key_class, of_bsn_tlv_partner_port_num_class,
     of_bsn_tlv_partner_port_priority_class, of_bsn_tlv_partner_state_class,
     of_bsn_tlv_partner_system_mac_class, of_bsn_tlv_partner_system_priority_class, of_bsn_tlv_port_class,
     of_bsn_tlv_priority_class, of_bsn_tlv_queue_id_class, of_bsn_tlv_queue_weight_class,
     of_bsn_tlv_reference_class]"

lemmas class_defs_13 =
  of_bsn_tlv_icmp_code_class_def of_bsn_tlv_icmp_id_class_def of_bsn_tlv_icmp_type_class_def
  of_bsn_tlv_idle_notification_class_def of_bsn_tlv_idle_time_class_def
  of_bsn_tlv_idle_timeout_class_def of_bsn_tlv_internal_gateway_mac_class_def
  of_bsn_tlv_internal_mac_class_def of_bsn_tlv_interval_class_def of_bsn_tlv_ip_proto_class_def
  of_bsn_tlv_ipv4_class_def of_bsn_tlv_ipv4_dst_class_def of_bsn_tlv_ipv4_netmask_class_def
  of_bsn_tlv_ipv4_src_class_def of_bsn_tlv_mac_class_def of_bsn_tlv_mac_mask_class_def
  of_bsn_tlv_miss_packets_class_def of_bsn_tlv_mpls_control_word_class_def
  of_bsn_tlv_mpls_label_class_def of_bsn_tlv_mpls_sequenced_class_def of_bsn_tlv_name_class_def
  of_bsn_tlv_partner_key_class_def of_bsn_tlv_partner_port_num_class_def
  of_bsn_tlv_partner_port_priority_class_def of_bsn_tlv_partner_state_class_def
  of_bsn_tlv_partner_system_mac_class_def of_bsn_tlv_partner_system_priority_class_def
  of_bsn_tlv_port_class_def of_bsn_tlv_priority_class_def of_bsn_tlv_queue_id_class_def
  of_bsn_tlv_queue_weight_class_def of_bsn_tlv_reference_class_def

lemma classes_ok_13: "list_all class_ok classes_13"
  unfolding classes_13_def
  by (simp add: class_defs_13 class_checks)

text \<open>The accessors.\<close>

definition fields_13 :: "field list" where
  "fields_13 = [U8 of_bsn_tlv_icmp_code_value, U16 of_bsn_tlv_icmp_id_value, U8 of_bsn_tlv_icmp_type_value,
     U64 of_bsn_tlv_idle_time_value, U32 of_bsn_tlv_idle_timeout_value,
     Octets 6 of_bsn_tlv_internal_gateway_mac_value, Octets 6 of_bsn_tlv_internal_mac_value,
     U32 of_bsn_tlv_interval_value, U8 of_bsn_tlv_ip_proto_value, U32 of_bsn_tlv_ipv4_value,
     U32 of_bsn_tlv_ipv4_dst_value, U32 of_bsn_tlv_ipv4_netmask_value, U32 of_bsn_tlv_ipv4_src_value,
     Octets 6 of_bsn_tlv_mac_value, Octets 6 of_bsn_tlv_mac_mask_value, U64 of_bsn_tlv_miss_packets_value,
     U8 of_bsn_tlv_mpls_control_word_value, U32 of_bsn_tlv_mpls_label_value,
     U8 of_bsn_tlv_mpls_sequenced_value, U16 of_bsn_tlv_partner_key_value,
     U16 of_bsn_tlv_partner_port_num_value, U16 of_bsn_tlv_partner_port_priority_value,
     U8 of_bsn_tlv_partner_state_value, Octets 6 of_bsn_tlv_partner_system_mac_value,
     U16 of_bsn_tlv_partner_system_priority_value, PortNo of_bsn_tlv_port_value,
     U32 of_bsn_tlv_priority_value, U32 of_bsn_tlv_queue_id_value, U32 of_bsn_tlv_queue_weight_value,
     U16 of_bsn_tlv_reference_table_id]"

lemmas accessor_defs_13 =
  of_bsn_tlv_icmp_code_value_def of_bsn_tlv_icmp_id_value_def of_bsn_tlv_icmp_type_value_def
  of_bsn_tlv_idle_time_value_def of_bsn_tlv_idle_timeout_value_def
  of_bsn_tlv_internal_gateway_mac_value_def of_bsn_tlv_internal_mac_value_def
  of_bsn_tlv_interval_value_def of_bsn_tlv_ip_proto_value_def of_bsn_tlv_ipv4_value_def
  of_bsn_tlv_ipv4_dst_value_def of_bsn_tlv_ipv4_netmask_value_def of_bsn_tlv_ipv4_src_value_def
  of_bsn_tlv_mac_value_def of_bsn_tlv_mac_mask_value_def of_bsn_tlv_miss_packets_value_def
  of_bsn_tlv_mpls_control_word_value_def of_bsn_tlv_mpls_label_value_def
  of_bsn_tlv_mpls_sequenced_value_def of_bsn_tlv_partner_key_value_def
  of_bsn_tlv_partner_port_num_value_def of_bsn_tlv_partner_port_priority_value_def
  of_bsn_tlv_partner_state_value_def of_bsn_tlv_partner_system_mac_value_def
  of_bsn_tlv_partner_system_priority_value_def of_bsn_tlv_port_value_def
  of_bsn_tlv_priority_value_def of_bsn_tlv_queue_id_value_def of_bsn_tlv_queue_weight_value_def
  of_bsn_tlv_reference_table_id_def

lemma fields_ok_13: "list_all field_ok fields_13"
  unfolding fields_13_def accessor_defs_13
  by (simp add: accessors_ok octets_accessors_ok inside_rows del: field_ok.simps)

end
