(* ===== verification/Class14.thy ===== *)
theory Class14
  imports Construct
begin

text \<open>
  The classes of \<^verbatim>\<open>src/class14.c\<close>: for each what its constructor, initialiser and
  \<open>push_wire_types\<close> write, and the scalar accessors, a getter and a setter for each field at a fixed offset.
\<close>

definition of_bsn_tlv_reply_packets_class :: wire_class where
  "of_bsn_tlv_reply_packets_class = \<lparr>class_id = OF_BSN_TLV_REPLY_PACKETS, whole_buffer = False, wire_types = Some [(4, [Put16 0 0xc]),
     (5, [Put16 0 0xc])],
     finishes = [Tlv16Length]\<rparr>"

definition of_bsn_tlv_reply_packets_value :: "64 word accessor" where
  "of_bsn_tlv_reply_packets_value = u64_accessor [OF_BSN_TLV_REPLY_PACKETS] [(4, 4), (5, 4)]"

definition of_bsn_tlv_request_packets_class :: wire_class where
  "of_bsn_tlv_request_packets_class = \<lparr>class_id = OF_BSN_TLV_REQUEST_PACKETS, whole_buffer = False, wire_types = Some [(4, [Put16 0 0xb]),
     (5, [Put16 0 0xb])],
     finishes = [Tlv16Length]\<rparr>"

definition of_bsn_tlv_request_packets_value :: "64 word accessor" where
  "of_bsn_tlv_request_packets_value = u64_accessor [OF_BSN_TLV_REQUEST_PACKETS] [(4, 4), (5, 4)]"

definition of_bsn_tlv_rx_bytes_class :: wire_class where
  "of_bsn_tlv_rx_bytes_class = \<lparr>class_id = OF_BSN_TLV_RX_BYTES, whole_buffer = False, wire_types = Some [(4, [Put16 0 0x47]),
     (5, [Put16 0 0x47])],
     finishes = [Tlv16Length]\<rparr>"

definition of_bsn_tlv_rx_bytes_value :: "64 word accessor" where
  "of_bsn_tlv_rx_bytes_value = u64_accessor [OF_BSN_TLV_RX_BYTES] [(4, 4), (5, 4)]"

definition of_bsn_tlv_rx_packets_class :: wire_class where
  "of_bsn_tlv_rx_packets_class = \<lparr>class_id = OF_BSN_TLV_RX_PACKETS, whole_buffer = False, wire_types = Some [(4, [Put16 0 0x2]),
     (5, [Put16 0 0x2])],
     finishes = [Tlv16Length]\<rparr>"

definition of_bsn_tlv_rx_packets_value :: "64 word accessor" where
  "of_bsn_tlv_rx_packets_value = u64_accessor [OF_BSN_TLV_RX_PACKETS] [(4, 4), (5, 4)]"

definition of_bsn_tlv_sampling_rate_class :: wire_class where
  "of_bsn_tlv_sampling_rate_class = \<lparr>class_id = OF_BSN_TLV_SAMPLING_RATE, whole_buffer = False, wire_types = Some [(4, [Put16 0 0x1e]),
     (5, [Put16 0 0x1e])],
     finishes = [Tlv16Length]\<rparr>"

definition of_bsn_tlv_sampling_rate_value :: "32 word accessor" where
  "of_bsn_tlv_sampling_rate_value = u32_accessor [OF_BSN_TLV_SAMPLING_RATE] [(4, 4), (5, 4)]"

definition of_bsn_tlv_set_loopback_mode_class :: wire_class where
  "of_bsn_tlv_set_loopback_mode_class = \<lparr>class_id = OF_BSN_TLV_SET_LOOPBACK_MODE, whole_buffer = False, wire_types = Some [(4, [Put16 0 0x4a]),
     (5, [Put16 0 0x4a])],
     finishes = [Tlv16Length]\<rparr>"

definition of_bsn_tlv_strip_mpls_l2_on_ingress_class :: wire_class where
  "of_bsn_tlv_strip_mpls_l2_on_ingress_class = \<lparr>class_id = OF_BSN_TLV_STRIP_MPLS_L2_ON_INGRESS, whole_buffer = False, wire_types = Some [(4, [Put16 0 0x4b]),
     (5, [Put16 0 0x4b])],
     finishes = [Tlv16Length]\<rparr>"

definition of_bsn_tlv_strip_mpls_l3_on_ingress_class :: wire_class where
  "of_bsn_tlv_strip_mpls_l3_on_ingress_class = \<lparr>class_id = OF_BSN_TLV_STRIP_MPLS_L3_ON_INGRESS, whole_buffer = False, wire_types = Some [(4, [Put16 0 0x4c]),
     (5, [Put16 0 0x4c])],
     finishes = [Tlv16Length]\<rparr>"

definition of_bsn_tlv_strip_vlan_on_egress_class :: wire_class where
  "of_bsn_tlv_strip_vlan_on_egress_class = \<lparr>class_id = OF_BSN_TLV_STRIP_VLAN_ON_EGRESS, whole_buffer = False, wire_types = Some [(4, [Put16 0 0x49]),
     (5, [Put16 0 0x49])],
     finishes = [Tlv16Length]\<rparr>"

definition of_bsn_tlv_sub_agent_id_class :: wire_class where
  "of_bsn_tlv_sub_agent_id_class = \<lparr>class_id = OF_BSN_TLV_SUB_AGENT_ID, whole_buffer = False, wire_types = Some [(4, [Put16 0 0x26]),
     (5, [Put16 0 0x26])],
     finishes = [Tlv16Length]\<rparr>"

definition of_bsn_tlv_sub_agent_id_value :: "32 word accessor" where
  "of_bsn_tlv_sub_agent_id_value = u32_accessor [OF_BSN_TLV_SUB_AGENT_ID] [(4, 4), (5, 4)]"

definition of_bsn_tlv_tcp_dst_class :: wire_class where
  "of_bsn_tlv_tcp_dst_class = \<lparr>class_id = OF_BSN_TLV_TCP_DST, whole_buffer = False, wire_types = Some [(4, [Put16 0 0x42]),
     (5, [Put16 0 0x42])],
     finishes = [Tlv16Length]\<rparr>"

definition of_bsn_tlv_tcp_dst_value :: "16 word accessor" where
  "of_bsn_tlv_tcp_dst_value = u16_accessor [OF_BSN_TLV_TCP_DST] [(4, 4), (5, 4)]"

definition of_bsn_tlv_tcp_src_class :: wire_class where
  "of_bsn_tlv_tcp_src_class = \<lparr>class_id = OF_BSN_TLV_TCP_SRC, whole_buffer = False, wire_types = Some [(4, [Put16 0 0x41]),
     (5, [Put16 0 0x41])],
     finishes = [Tlv16Length]\<rparr>"

definition of_bsn_tlv_tcp_src_value :: "16 word accessor" where
  "of_bsn_tlv_tcp_src_value = u16_accessor [OF_BSN_TLV_TCP_SRC] [(4, 4), (5, 4)]"

definition of_bsn_tlv_tx_bytes_class :: wire_class where
  "of_bsn_tlv_tx_bytes_class = \<lparr>class_id = OF_BSN_TLV_TX_BYTES, whole_buffer = False, wire_types = Some [(4, [Put16 0 0x27]),
     (5, [Put16 0 0x27])],
     finishes = [Tlv16Length]\<rparr>"

definition of_bsn_tlv_tx_bytes_value :: "64 word accessor" where
  "of_bsn_tlv_tx_bytes_value = u64_accessor [OF_BSN_TLV_TX_BYTES] [(4, 4), (5, 4)]"

definition of_bsn_tlv_tx_packets_class :: wire_class where
  "of_bsn_tlv_tx_packets_class = \<lparr>class_id = OF_BSN_TLV_TX_PACKETS, whole_buffer = False, wire_types = Some [(4, [Put16 0 0x3]),
     (5, [Put16 0 0x3])],
     finishes = [Tlv16Length]\<rparr>"

definition of_bsn_tlv_tx_packets_value :: "64 word accessor" where
  "of_bsn_tlv_tx_packets_value = u64_accessor [OF_BSN_TLV_TX_PACKETS] [(4, 4), (5, 4)]"

definition of_bsn_tlv_udf_anchor_class :: wire_class where
  "of_bsn_tlv_udf_anchor_class = \<lparr>class_id = OF_BSN_TLV_UDF_ANCHOR, whole_buffer = False, wire_types = Some [(4, [Put16 0 0x10]),
     (5, [Put16 0 0x10])],
     finishes = [Tlv16Length]\<rparr>"

definition of_bsn_tlv_udf_anchor_value :: "16 word accessor" where
  "of_bsn_tlv_udf_anchor_value = u16_accessor [OF_BSN_TLV_UDF_ANCHOR] [(4, 4), (5, 4)]"

definition of_bsn_tlv_udf_id_class :: wire_class where
  "of_bsn_tlv_udf_id_class = \<lparr>class_id = OF_BSN_TLV_UDF_ID, whole_buffer = False, wire_types = Some [(4, [Put16 0 0xf]),
     (5, [Put16 0 0xf])],
     finishes = [Tlv16Length]\<rparr>"

definition of_bsn_tlv_udf_id_value :: "16 word accessor" where
  "of_bsn_tlv_udf_id_value = u16_accessor [OF_BSN_TLV_UDF_ID] [(4, 4), (5, 4)]"

definition of_bsn_tlv_udf_length_class :: wire_class where
  "of_bsn_tlv_udf_length_class = \<lparr>class_id = OF_BSN_TLV_UDF_LENGTH, whole_buffer = False, wire_types = Some [(4, [Put16 0 0x12]),
     (5, [Put16 0 0x12])],
     finishes = [Tlv16Length]\<rparr>"

definition of_bsn_tlv_udf_length_value :: "16 word accessor" where
  "of_bsn_tlv_udf_length_value = u16_accessor [OF_BSN_TLV_UDF_LENGTH] [(4, 4), (5, 4)]"

definition of_bsn_tlv_udf_offset_class :: wire_class where
  "of_bsn_tlv_udf_offset_class = \<lparr>class_id = OF_BSN_TLV_UDF_OFFSET, whole_buffer = False, wire_types = Some [(4, [Put16 0 0x11]),
     (5, [Put16 0 0x11])],
     finishes = [Tlv16Length]\<rparr>"

definition of_bsn_tlv_udf_offset_value :: "16 word accessor" where
  "of_bsn_tlv_udf_offset_value = u16_accessor [OF_BSN_TLV_UDF_OFFSET] [(4, 4), (5, 4)]"

definition of_bsn_tlv_udp_dst_class :: wire_class where
  "of_bsn_tlv_udp_dst_class = \<lparr>class_id = OF_BSN_TLV_UDP_DST, whole_buffer = False, wire_types = Some [(4, [Put16 0 0x25]),
     (5, [Put16 0 0x25])],
     finishes = [Tlv16Length]\<rparr>"

definition of_bsn_tlv_udp_dst_value :: "16 word accessor" where
  "of_bsn_tlv_udp_dst_value = u16_accessor [OF_BSN_TLV_UDP_DST] [(4, 4), (5, 4)]"

definition of_bsn_tlv_udp_src_class :: wire_class where
  "of_bsn_tlv_udp_src_class = \<lparr>class_id = OF_BSN_TLV_UDP_SRC, whole_buffer = False, wire_types = Some [(4, [Put16 0 0x24]),
     (5, [Put16 0 0x24])],
     finishes = [Tlv16Length]\<rparr>"

definition of_bsn_tlv_udp_src_value :: "16 word accessor" where
  "of_bsn_tlv_udp_src_value = u16_accessor [OF_BSN_TLV_UDP_SRC] [(4, 4), (5, 4)]"

definition of_bsn_tlv_unicast_query_timeout_class :: wire_class where
  "of_bsn_tlv_unicast_query_timeout_class = \<lparr>class_id = OF_BSN_TLV_UNICAST_QUERY_TIMEOUT, whole_buffer = False, wire_types = Some [(4, [Put16 0 0x9]),
     (5, [Put16 0 0x9])],
     finishes = [Tlv16Length]\<rparr>"

definition of_bsn_tlv_unicast_query_timeout_value :: "32 word accessor" where
  "of_bsn_tlv_unicast_query_timeout_value = u32_accessor [OF_BSN_TLV_UNICAST_QUERY_TIMEOUT] [(4, 4), (5, 4)]"

definition of_bsn_tlv_vlan_pcp_class :: wire_class where
  "of_bsn_tlv_vlan_pcp_class = \<lparr>class_id = OF_BSN_TLV_VLAN_PCP, whole_buffer = False, wire_types = Some [(4, [Put16 0 0x48]),
     (5, [Put16 0 0x48])],
     finishes = [Tlv16Length]\<rparr>"

definition of_bsn_tlv_vlan_pcp_value :: "byte accessor" where
  "of_bsn_tlv_vlan_pcp_value = u8_accessor [OF_BSN_TLV_VLAN_PCP] [(4, 4), (5, 4)]"

definition of_bsn_tlv_vlan_vid_class :: wire_class where
  "of_bsn_tlv_vlan_vid_class = \<lparr>class_id = OF_BSN_TLV_VLAN_VID, whole_buffer = False, wire_types = Some [(4, [Put16 0 0x6]),
     (5, [Put16 0 0x6])],
     finishes = [Tlv16Length]\<rparr>"

definition of_bsn_tlv_vlan_vid_value :: "16 word accessor" where
  "of_bsn_tlv_vlan_vid_value = u16_accessor [OF_BSN_TLV_VLAN_VID] [(4, 4), (5, 4)]"

definition of_bsn_tlv_vrf_class :: wire_class where
  "of_bsn_tlv_vrf_class = \<lparr>class_id = OF_BSN_TLV_VRF, whole_buffer = False, wire_types = Some [(4, [Put16 0 0x13]),
     (5, [Put16 0 0x13])],
     finishes = [Tlv16Length]\<rparr>"

definition of_bsn_tlv_vrf_value :: "32 word accessor" where
  "of_bsn_tlv_vrf_value = u32_accessor [OF_BSN_TLV_VRF] [(4, 4), (5, 4)]"

definition of_bsn_vlan_counter_stats_entry_class :: wire_class where
  "of_bsn_vlan_counter_stats_entry_class = \<lparr>class_id = OF_BSN_VLAN_COUNTER_STATS_ENTRY, whole_buffer = True, wire_types = None,
     finishes = [U16Length]\<rparr>"

definition of_bsn_vlan_counter_stats_entry_vlan_vid :: "16 word accessor" where
  "of_bsn_vlan_counter_stats_entry_vlan_vid = u16_accessor [OF_BSN_VLAN_COUNTER_STATS_ENTRY] [(4, 2), (5, 2)]"

definition of_bsn_vlan_counter_stats_reply_class :: wire_class where
  "of_bsn_vlan_counter_stats_reply_class = \<lparr>class_id = OF_BSN_VLAN_COUNTER_STATS_REPLY, whole_buffer = True, wire_types = Some [(4, [PutVersion 0, Put8 1 0x13, Put16 8 0xffff, Put32 16 0x5c16c7, Put32 20 0x9]),
     (5, [PutVersion 0, Put8 1 0x13, Put16 8 0xffff, Put32 16 0x5c16c7, Put32 20 0x9])],
     finishes = [MessageLength]\<rparr>"

definition of_bsn_vlan_counter_stats_reply_xid :: "32 word accessor" where
  "of_bsn_vlan_counter_stats_reply_xid = u32_accessor [OF_BSN_VLAN_COUNTER_STATS_REPLY] [(4, 4), (5, 4)]"

definition of_bsn_vlan_counter_stats_reply_flags :: "16 word accessor" where
  "of_bsn_vlan_counter_stats_reply_flags = u16_accessor [OF_BSN_VLAN_COUNTER_STATS_REPLY] [(4, 10), (5, 10)]"

definition of_bsn_vlan_counter_stats_reply_experimenter :: "32 word accessor" where
  "of_bsn_vlan_counter_stats_reply_experimenter = u32_accessor [OF_BSN_VLAN_COUNTER_STATS_REPLY] [(4, 16), (5, 16)]"

definition of_bsn_vlan_counter_stats_reply_subtype :: "32 word accessor" where
  "of_bsn_vlan_counter_stats_reply_subtype = u32_accessor [OF_BSN_VLAN_COUNTER_STATS_REPLY] [(4, 20), (5, 20)]"

definition of_bsn_vlan_counter_stats_request_class :: wire_class where
  "of_bsn_vlan_counter_stats_request_class = \<lparr>class_id = OF_BSN_VLAN_COUNTER_STATS_REQUEST, whole_buffer = False, wire_types = Some [(4, [PutVersion 0, Put8 1 0x12, Put16 8 0xffff, Put32 16 0x5c16c7, Put32 20 0x9]),
     (5, [PutVersion 0, Put8 1 0x12, Put16 8 0xffff, Put32 16 0x5c16c7, Put32 20 0x9])],
     finishes = [MessageLength]\<rparr>"

definition of_bsn_vlan_counter_stats_request_xid :: "32 word accessor" where
  "of_bsn_vlan_counter_stats_request_xid = u32_accessor [OF_BSN_VLAN_COUNTER_STATS_REQUEST] [(4, 4), (5, 4)]"

definition of_bsn_vlan_counter_stats_request_flags :: "16 word accessor" where
  "of_bsn_vlan_counter_stats_request_flags = u16_accessor [OF_BSN_VLAN_COUNTER_STATS_REQUEST] [(4, 10), (5, 10)]"

definition of_bsn_vlan_counter_stats_request_experimenter :: "32 word accessor" where
  "of_bsn_vlan_counter_stats_request_experimenter = u32_accessor [OF_BSN_VLAN_COUNTER_STATS_REQUEST] [(4, 16), (5, 16)]"

definition of_bsn_vlan_counter_stats_request_subtype :: "32 word accessor" where
  "of_bsn_vlan_counter_stats_request_subtype = u32_accessor [OF_BSN_VLAN_COUNTER_STATS_REQUEST] [(4, 20), (5, 20)]"

definition of_bsn_vlan_counter_stats_request_vlan_vid :: "16 word accessor" where
  "of_bsn_vlan_counter_stats_request_vlan_vid = u16_accessor [OF_BSN_VLAN_COUNTER_STATS_REQUEST] [(4, 24), (5, 24)]"

definition of_bsn_vrf_counter_stats_entry_class :: wire_class where
  "of_bsn_vrf_counter_stats_entry_class = \<lparr>class_id = OF_BSN_VRF_COUNTER_STATS_ENTRY, whole_buffer = True, wire_types = None,
     finishes = [U16Length]\<rparr>"

definition of_bsn_vrf_counter_stats_entry_vrf :: "32 word accessor" where
  "of_bsn_vrf_counter_stats_entry_vrf = u32_accessor [OF_BSN_VRF_COUNTER_STATS_ENTRY] [(4, 4), (5, 4)]"

definition of_bsn_vrf_counter_stats_reply_class :: wire_class where
  "of_bsn_vrf_counter_stats_reply_class = \<lparr>class_id = OF_BSN_VRF_COUNTER_STATS_REPLY, whole_buffer = True, wire_types = Some [(4, [PutVersion 0, Put8 1 0x13, Put16 8 0xffff, Put32 16 0x5c16c7, Put32 20 0xf]),
     (5, [PutVersion 0, Put8 1 0x13, Put16 8 0xffff, Put32 16 0x5c16c7, Put32 20 0xf])],
     finishes = [MessageLength]\<rparr>"

definition of_bsn_vrf_counter_stats_reply_xid :: "32 word accessor" where
  "of_bsn_vrf_counter_stats_reply_xid = u32_accessor [OF_BSN_VRF_COUNTER_STATS_REPLY] [(4, 4), (5, 4)]"

definition of_bsn_vrf_counter_stats_reply_flags :: "16 word accessor" where
  "of_bsn_vrf_counter_stats_reply_flags = u16_accessor [OF_BSN_VRF_COUNTER_STATS_REPLY] [(4, 10), (5, 10)]"

definition of_bsn_vrf_counter_stats_reply_experimenter :: "32 word accessor" where
  "of_bsn_vrf_counter_stats_reply_experimenter = u32_accessor [OF_BSN_VRF_COUNTER_STATS_REPLY] [(4, 16), (5, 16)]"

definition of_bsn_vrf_counter_stats_reply_subtype :: "32 word accessor" where
  "of_bsn_vrf_counter_stats_reply_subtype = u32_accessor [OF_BSN_VRF_COUNTER_STATS_REPLY] [(4, 20), (5, 20)]"

definition of_bsn_vrf_counter_stats_request_class :: wire_class where
  "of_bsn_vrf_counter_stats_request_class = \<lparr>class_id = OF_BSN_VRF_COUNTER_STATS_REQUEST, whole_buffer = False, wire_types = Some [(4, [PutVersion 0, Put8 1 0x12, Put16 8 0xffff, Put32 16 0x5c16c7, Put32 20 0xf]),
     (5, [PutVersion 0, Put8 1 0x12, Put16 8 0xffff, Put32 16 0x5c16c7, Put32 20 0xf])],
     finishes = [MessageLength]\<rparr>"

definition of_bsn_vrf_counter_stats_request_xid :: "32 word accessor" where
  "of_bsn_vrf_counter_stats_request_xid = u32_accessor [OF_BSN_VRF_COUNTER_STATS_REQUEST] [(4, 4), (5, 4)]"

definition of_bsn_vrf_counter_stats_request_flags :: "16 word accessor" where
  "of_bsn_vrf_counter_stats_request_flags = u16_accessor [OF_BSN_VRF_COUNTER_STATS_REQUEST] [(4, 10), (5, 10)]"

definition of_bsn_vrf_counter_stats_request_experimenter :: "32 word accessor" where
  "of_bsn_vrf_counter_stats_request_experimenter = u32_accessor [OF_BSN_VRF_COUNTER_STATS_REQUEST] [(4, 16), (5, 16)]"

definition of_bsn_vrf_counter_stats_request_subtype :: "32 word accessor" where
  "of_bsn_vrf_counter_stats_request_subtype = u32_accessor [OF_BSN_VRF_COUNTER_STATS_REQUEST] [(4, 20), (5, 20)]"

definition of_bsn_vrf_counter_stats_request_vrf :: "32 word accessor" where
  "of_bsn_vrf_counter_stats_request_vrf = u32_accessor [OF_BSN_VRF_COUNTER_STATS_REQUEST] [(4, 24), (5, 24)]"

definition of_hello_elem_class :: wire_class where
  "of_hello_elem_class = \<lparr>class_id = OF_HELLO_ELEM, whole_buffer = True, wire_types = None,
     finishes = []\<rparr>"

definition of_hello_elem_versionbitmap_class :: wire_class where
  "of_hello_elem_versionbitmap_class = \<lparr>class_id = OF_HELLO_ELEM_VERSIONBITMAP, whole_buffer = True, wire_types = Some [(4, [Put16 0 0x1]),
     (5, [Put16 0 0x1])],
     finishes = [Tlv16Length]\<rparr>"

text \<open>The classes, each with consistent wire types in every version that has it.\<close>

definition classes_14 :: "wire_class list" where
  "classes_14 = [of_bsn_tlv_reply_packets_class, of_bsn_tlv_request_packets_class, of_bsn_tlv_rx_bytes_class,
     of_bsn_tlv_rx_packets_class, of_bsn_tlv_sampling_rate_class, of_bsn_tlv_set_loopback_mode_class,
     of_bsn_tlv_strip_mpls_l2_on_ingress_class, of_bsn_tlv_strip_mpls_l3_on_ingress_class,
     of_bsn_tlv_strip_vlan_on_egress_class, of_bsn_tlv_sub_agent_id_class, of_bsn_tlv_tcp_dst_class,
     of_bsn_tlv_tcp_src_class, of_bsn_tlv_tx_bytes_class, of_bsn_tlv_tx_packets_class,
     of_bsn_tlv_udf_anchor_class, of_bsn_tlv_udf_id_class, of_bsn_tlv_udf_length_class,
     of_bsn_tlv_udf_offset_class, of_bsn_tlv_udp_dst_class, of_bsn_tlv_udp_src_class,
     of_bsn_tlv_unicast_query_timeout_class, of_bsn_tlv_vlan_pcp_class, of_bsn_tlv_vlan_vid_class,
     of_bsn_tlv_vrf_class, of_bsn_vlan_counter_stats_entry_class, of_bsn_vlan_counter_stats_reply_class,
     of_bsn_vlan_counter_stats_request_class, of_bsn_vrf_counter_stats_entry_class,
     of_bsn_vrf_counter_stats_reply_class, of_bsn_vrf_counter_stats_request_class, of_hello_elem_class,
     of_hello_elem_versionbitmap_class]"

lemmas class_defs_14 =
  of_bsn_tlv_reply_packets_class_def of_bsn_tlv_request_packets_class_def
  of_bsn_tlv_rx_bytes_class_def of_bsn_tlv_rx_packets_class_def of_bsn_tlv_sampling_rate_class_def
  of_bsn_tlv_set_loopback_mode_class_def of_bsn_tlv_strip_mpls_l2_on_ingress_class_def
  of_bsn_tlv_strip_mpls_l3_on_ingress_class_def of_bsn_tlv_strip_vlan_on_egress_class_def
  of_bsn_tlv_sub_agent_id_class_def of_bsn_tlv_tcp_dst_class_def of_bsn_tlv_tcp_src_class_def
  of_bsn_tlv_tx_bytes_class_def of_bsn_tlv_tx_packets_class_def of_bsn_tlv_udf_anchor_class_def
  of_bsn_tlv_udf_id_class_def of_bsn_tlv_udf_length_class_def of_bsn_tlv_udf_offset_class_def
  of_bsn_tlv_udp_dst_class_def of_bsn_tlv_udp_src_class_def
  of_bsn_tlv_unicast_query_timeout_class_def of_bsn_tlv_vlan_pcp_class_def
  of_bsn_tlv_vlan_vid_class_def of_bsn_tlv_vrf_class_def of_bsn_vlan_counter_stats_entry_class_def
  of_bsn_vlan_counter_stats_reply_class_def of_bsn_vlan_counter_stats_request_class_def
  of_bsn_vrf_counter_stats_entry_class_def of_bsn_vrf_counter_stats_reply_class_def
  of_bsn_vrf_counter_stats_request_class_def of_hello_elem_class_def
  of_hello_elem_versionbitmap_class_def

lemma classes_ok_14: "list_all class_ok classes_14"
  unfolding classes_14_def
  by (simp add: class_defs_14 class_checks)

text \<open>The accessors.\<close>

definition fields_14 :: "field list" where
  "fields_14 = [U64 of_bsn_tlv_reply_packets_value, U64 of_bsn_tlv_request_packets_value,
     U64 of_bsn_tlv_rx_bytes_value, U64 of_bsn_tlv_rx_packets_value, U32 of_bsn_tlv_sampling_rate_value,
     U32 of_bsn_tlv_sub_agent_id_value, U16 of_bsn_tlv_tcp_dst_value, U16 of_bsn_tlv_tcp_src_value,
     U64 of_bsn_tlv_tx_bytes_value, U64 of_bsn_tlv_tx_packets_value, U16 of_bsn_tlv_udf_anchor_value,
     U16 of_bsn_tlv_udf_id_value, U16 of_bsn_tlv_udf_length_value, U16 of_bsn_tlv_udf_offset_value,
     U16 of_bsn_tlv_udp_dst_value, U16 of_bsn_tlv_udp_src_value,
     U32 of_bsn_tlv_unicast_query_timeout_value, U8 of_bsn_tlv_vlan_pcp_value,
     U16 of_bsn_tlv_vlan_vid_value, U32 of_bsn_tlv_vrf_value,
     U16 of_bsn_vlan_counter_stats_entry_vlan_vid, U32 of_bsn_vlan_counter_stats_reply_xid,
     U16 of_bsn_vlan_counter_stats_reply_flags, U32 of_bsn_vlan_counter_stats_reply_experimenter,
     U32 of_bsn_vlan_counter_stats_reply_subtype, U32 of_bsn_vlan_counter_stats_request_xid,
     U16 of_bsn_vlan_counter_stats_request_flags, U32 of_bsn_vlan_counter_stats_request_experimenter,
     U32 of_bsn_vlan_counter_stats_request_subtype, U16 of_bsn_vlan_counter_stats_request_vlan_vid,
     U32 of_bsn_vrf_counter_stats_entry_vrf, U32 of_bsn_vrf_counter_stats_reply_xid,
     U16 of_bsn_vrf_counter_stats_reply_flags, U32 of_bsn_vrf_counter_stats_reply_experimenter,
     U32 of_bsn_vrf_counter_stats_reply_subtype, U32 of_bsn_vrf_counter_stats_request_xid,
     U16 of_bsn_vrf_counter_stats_request_flags, U32 of_bsn_vrf_counter_stats_request_experimenter,
     U32 of_bsn_vrf_counter_stats_request_subtype, U32 of_bsn_vrf_counter_stats_request_vrf]"

lemmas accessor_defs_14 =
  of_bsn_tlv_reply_packets_value_def of_bsn_tlv_request_packets_value_def
  of_bsn_tlv_rx_bytes_value_def of_bsn_tlv_rx_packets_value_def of_bsn_tlv_sampling_rate_value_def
  of_bsn_tlv_sub_agent_id_value_def of_bsn_tlv_tcp_dst_value_def of_bsn_tlv_tcp_src_value_def
  of_bsn_tlv_tx_bytes_value_def of_bsn_tlv_tx_packets_value_def of_bsn_tlv_udf_anchor_value_def
  of_bsn_tlv_udf_id_value_def of_bsn_tlv_udf_length_value_def of_bsn_tlv_udf_offset_value_def
  of_bsn_tlv_udp_dst_value_def of_bsn_tlv_udp_src_value_def
  of_bsn_tlv_unicast_query_timeout_value_def of_bsn_tlv_vlan_pcp_value_def
  of_bsn_tlv_vlan_vid_value_def of_bsn_tlv_vrf_value_def
  of_bsn_vlan_counter_stats_entry_vlan_vid_def of_bsn_vlan_counter_stats_reply_xid_def
  of_bsn_vlan_counter_stats_reply_flags_def of_bsn_vlan_counter_stats_reply_experimenter_def
  of_bsn_vlan_counter_stats_reply_subtype_def of_bsn_vlan_counter_stats_request_xid_def
  of_bsn_vlan_counter_stats_request_flags_def of_bsn_vlan_counter_stats_request_experimenter_def
  of_bsn_vlan_counter_stats_request_subtype_def of_bsn_vlan_counter_stats_request_vlan_vid_def
  of_bsn_vrf_counter_stats_entry_vrf_def of_bsn_vrf_counter_stats_reply_xid_def
  of_bsn_vrf_counter_stats_reply_flags_def of_bsn_vrf_counter_stats_reply_experimenter_def
  of_bsn_vrf_counter_stats_reply_subtype_def of_bsn_vrf_counter_stats_request_xid_def
  of_bsn_vrf_counter_stats_request_flags_def of_bsn_vrf_counter_stats_request_experimenter_def
  of_bsn_vrf_counter_stats_request_subtype_def of_bsn_vrf_counter_stats_request_vrf_def

lemma fields_ok_14: "list_all field_ok fields_14"
  unfolding fields_14_def accessor_defs_14
  by (simp add: accessors_ok octets_accessors_ok inside_rows del: field_ok.simps)

end
