(* ===== verification/Class15.thy ===== *)
theory Class15
  imports Construct
begin

text \<open>
  The classes of \<^verbatim>\<open>src/class15.c\<close>: for each what its constructor, initialiser and
  \<open>push_wire_types\<close> write, and the scalar accessors, a getter and a setter for each field at a fixed offset.
\<close>

definition of_instruction_id_class :: wire_class where
  "of_instruction_id_class = \<lparr>class_id = OF_INSTRUCTION_ID, whole_buffer = True, wire_types = None,
     finishes = []\<rparr>"

definition of_instruction_id_apply_actions_class :: wire_class where
  "of_instruction_id_apply_actions_class = \<lparr>class_id = OF_INSTRUCTION_ID_APPLY_ACTIONS, whole_buffer = False, wire_types = Some [(4, [Put16 0 0x4]),
     (5, [Put16 0 0x4])],
     finishes = [Tlv16Length]\<rparr>"

definition of_instruction_bsn_class :: wire_class where
  "of_instruction_bsn_class = \<lparr>class_id = OF_INSTRUCTION_BSN, whole_buffer = True, wire_types = None,
     finishes = []\<rparr>"

definition of_instruction_bsn_experimenter :: "32 word accessor" where
  "of_instruction_bsn_experimenter = u32_accessor [OF_INSTRUCTION_BSN] [(4, 4), (5, 4)]"

definition of_instruction_bsn_subtype :: "32 word accessor" where
  "of_instruction_bsn_subtype = u32_accessor [OF_INSTRUCTION_BSN] [(4, 8), (5, 8)]"

definition of_instruction_id_experimenter_class :: wire_class where
  "of_instruction_id_experimenter_class = \<lparr>class_id = OF_INSTRUCTION_ID_EXPERIMENTER, whole_buffer = True, wire_types = None,
     finishes = []\<rparr>"

definition of_instruction_id_experimenter_experimenter :: "32 word accessor" where
  "of_instruction_id_experimenter_experimenter = u32_accessor [OF_INSTRUCTION_ID_EXPERIMENTER] [(4, 4), (5, 4)]"

definition of_instruction_id_bsn_class :: wire_class where
  "of_instruction_id_bsn_class = \<lparr>class_id = OF_INSTRUCTION_ID_BSN, whole_buffer = True, wire_types = None,
     finishes = []\<rparr>"

definition of_instruction_id_bsn_experimenter :: "32 word accessor" where
  "of_instruction_id_bsn_experimenter = u32_accessor [OF_INSTRUCTION_ID_BSN] [(4, 4), (5, 4)]"

definition of_instruction_id_bsn_subtype :: "32 word accessor" where
  "of_instruction_id_bsn_subtype = u32_accessor [OF_INSTRUCTION_ID_BSN] [(4, 8), (5, 8)]"

definition of_instruction_bsn_arp_offload_class :: wire_class where
  "of_instruction_bsn_arp_offload_class = \<lparr>class_id = OF_INSTRUCTION_BSN_ARP_OFFLOAD, whole_buffer = False, wire_types = Some [(4, [Put16 0 0xffff, Put32 4 0x5c16c7, Put32 8 0x1]),
     (5, [Put16 0 0xffff, Put32 4 0x5c16c7, Put32 8 0x1])],
     finishes = [Tlv16Length]\<rparr>"

definition of_instruction_bsn_arp_offload_experimenter :: "32 word accessor" where
  "of_instruction_bsn_arp_offload_experimenter = u32_accessor [OF_INSTRUCTION_BSN_ARP_OFFLOAD] [(4, 4), (5, 4)]"

definition of_instruction_bsn_arp_offload_subtype :: "32 word accessor" where
  "of_instruction_bsn_arp_offload_subtype = u32_accessor [OF_INSTRUCTION_BSN_ARP_OFFLOAD] [(4, 8), (5, 8)]"

definition of_instruction_id_bsn_arp_offload_class :: wire_class where
  "of_instruction_id_bsn_arp_offload_class = \<lparr>class_id = OF_INSTRUCTION_ID_BSN_ARP_OFFLOAD, whole_buffer = False, wire_types = Some [(4, [Put16 0 0xffff, Put32 4 0x5c16c7, Put32 8 0x1]),
     (5, [Put16 0 0xffff, Put32 4 0x5c16c7, Put32 8 0x1])],
     finishes = [Tlv16Length]\<rparr>"

definition of_instruction_id_bsn_arp_offload_experimenter :: "32 word accessor" where
  "of_instruction_id_bsn_arp_offload_experimenter = u32_accessor [OF_INSTRUCTION_ID_BSN_ARP_OFFLOAD] [(4, 4), (5, 4)]"

definition of_instruction_id_bsn_arp_offload_subtype :: "32 word accessor" where
  "of_instruction_id_bsn_arp_offload_subtype = u32_accessor [OF_INSTRUCTION_ID_BSN_ARP_OFFLOAD] [(4, 8), (5, 8)]"

definition of_instruction_bsn_auto_negotiation_class :: wire_class where
  "of_instruction_bsn_auto_negotiation_class = \<lparr>class_id = OF_INSTRUCTION_BSN_AUTO_NEGOTIATION, whole_buffer = False, wire_types = Some [(4, [Put16 0 0xffff, Put32 4 0x5c16c7, Put32 8 0xb]),
     (5, [Put16 0 0xffff, Put32 4 0x5c16c7, Put32 8 0xb])],
     finishes = [Tlv16Length]\<rparr>"

definition of_instruction_bsn_auto_negotiation_experimenter :: "32 word accessor" where
  "of_instruction_bsn_auto_negotiation_experimenter = u32_accessor [OF_INSTRUCTION_BSN_AUTO_NEGOTIATION] [(4, 4), (5, 4)]"

definition of_instruction_bsn_auto_negotiation_subtype :: "32 word accessor" where
  "of_instruction_bsn_auto_negotiation_subtype = u32_accessor [OF_INSTRUCTION_BSN_AUTO_NEGOTIATION] [(4, 8), (5, 8)]"

definition of_instruction_id_bsn_auto_negotiation_class :: wire_class where
  "of_instruction_id_bsn_auto_negotiation_class = \<lparr>class_id = OF_INSTRUCTION_ID_BSN_AUTO_NEGOTIATION, whole_buffer = False, wire_types = Some [(4, [Put16 0 0xffff, Put32 4 0x5c16c7, Put32 8 0xb]),
     (5, [Put16 0 0xffff, Put32 4 0x5c16c7, Put32 8 0xb])],
     finishes = [Tlv16Length]\<rparr>"

definition of_instruction_id_bsn_auto_negotiation_experimenter :: "32 word accessor" where
  "of_instruction_id_bsn_auto_negotiation_experimenter = u32_accessor [OF_INSTRUCTION_ID_BSN_AUTO_NEGOTIATION] [(4, 4), (5, 4)]"

definition of_instruction_id_bsn_auto_negotiation_subtype :: "32 word accessor" where
  "of_instruction_id_bsn_auto_negotiation_subtype = u32_accessor [OF_INSTRUCTION_ID_BSN_AUTO_NEGOTIATION] [(4, 8), (5, 8)]"

definition of_instruction_bsn_deny_class :: wire_class where
  "of_instruction_bsn_deny_class = \<lparr>class_id = OF_INSTRUCTION_BSN_DENY, whole_buffer = False, wire_types = Some [(4, [Put16 0 0xffff, Put32 4 0x5c16c7, Put32 8 0x5]),
     (5, [Put16 0 0xffff, Put32 4 0x5c16c7, Put32 8 0x5])],
     finishes = [Tlv16Length]\<rparr>"

definition of_instruction_bsn_deny_experimenter :: "32 word accessor" where
  "of_instruction_bsn_deny_experimenter = u32_accessor [OF_INSTRUCTION_BSN_DENY] [(4, 4), (5, 4)]"

definition of_instruction_bsn_deny_subtype :: "32 word accessor" where
  "of_instruction_bsn_deny_subtype = u32_accessor [OF_INSTRUCTION_BSN_DENY] [(4, 8), (5, 8)]"

definition of_instruction_id_bsn_deny_class :: wire_class where
  "of_instruction_id_bsn_deny_class = \<lparr>class_id = OF_INSTRUCTION_ID_BSN_DENY, whole_buffer = False, wire_types = Some [(4, [Put16 0 0xffff, Put32 4 0x5c16c7, Put32 8 0x5]),
     (5, [Put16 0 0xffff, Put32 4 0x5c16c7, Put32 8 0x5])],
     finishes = [Tlv16Length]\<rparr>"

definition of_instruction_id_bsn_deny_experimenter :: "32 word accessor" where
  "of_instruction_id_bsn_deny_experimenter = u32_accessor [OF_INSTRUCTION_ID_BSN_DENY] [(4, 4), (5, 4)]"

definition of_instruction_id_bsn_deny_subtype :: "32 word accessor" where
  "of_instruction_id_bsn_deny_subtype = u32_accessor [OF_INSTRUCTION_ID_BSN_DENY] [(4, 8), (5, 8)]"

definition of_instruction_bsn_dhcp_offload_class :: wire_class where
  "of_instruction_bsn_dhcp_offload_class = \<lparr>class_id = OF_INSTRUCTION_BSN_DHCP_OFFLOAD, whole_buffer = False, wire_types = Some [(4, [Put16 0 0xffff, Put32 4 0x5c16c7, Put32 8 0x2]),
     (5, [Put16 0 0xffff, Put32 4 0x5c16c7, Put32 8 0x2])],
     finishes = [Tlv16Length]\<rparr>"

definition of_instruction_bsn_dhcp_offload_experimenter :: "32 word accessor" where
  "of_instruction_bsn_dhcp_offload_experimenter = u32_accessor [OF_INSTRUCTION_BSN_DHCP_OFFLOAD] [(4, 4), (5, 4)]"

definition of_instruction_bsn_dhcp_offload_subtype :: "32 word accessor" where
  "of_instruction_bsn_dhcp_offload_subtype = u32_accessor [OF_INSTRUCTION_BSN_DHCP_OFFLOAD] [(4, 8), (5, 8)]"

definition of_instruction_id_bsn_dhcp_offload_class :: wire_class where
  "of_instruction_id_bsn_dhcp_offload_class = \<lparr>class_id = OF_INSTRUCTION_ID_BSN_DHCP_OFFLOAD, whole_buffer = False, wire_types = Some [(4, [Put16 0 0xffff, Put32 4 0x5c16c7, Put32 8 0x2]),
     (5, [Put16 0 0xffff, Put32 4 0x5c16c7, Put32 8 0x2])],
     finishes = [Tlv16Length]\<rparr>"

definition of_instruction_id_bsn_dhcp_offload_experimenter :: "32 word accessor" where
  "of_instruction_id_bsn_dhcp_offload_experimenter = u32_accessor [OF_INSTRUCTION_ID_BSN_DHCP_OFFLOAD] [(4, 4), (5, 4)]"

definition of_instruction_id_bsn_dhcp_offload_subtype :: "32 word accessor" where
  "of_instruction_id_bsn_dhcp_offload_subtype = u32_accessor [OF_INSTRUCTION_ID_BSN_DHCP_OFFLOAD] [(4, 8), (5, 8)]"

definition of_instruction_bsn_disable_l3_class :: wire_class where
  "of_instruction_bsn_disable_l3_class = \<lparr>class_id = OF_INSTRUCTION_BSN_DISABLE_L3, whole_buffer = False, wire_types = Some [(4, [Put16 0 0xffff, Put32 4 0x5c16c7, Put32 8 0xd]),
     (5, [Put16 0 0xffff, Put32 4 0x5c16c7, Put32 8 0xd])],
     finishes = [Tlv16Length]\<rparr>"

definition of_instruction_bsn_disable_l3_experimenter :: "32 word accessor" where
  "of_instruction_bsn_disable_l3_experimenter = u32_accessor [OF_INSTRUCTION_BSN_DISABLE_L3] [(4, 4), (5, 4)]"

definition of_instruction_bsn_disable_l3_subtype :: "32 word accessor" where
  "of_instruction_bsn_disable_l3_subtype = u32_accessor [OF_INSTRUCTION_BSN_DISABLE_L3] [(4, 8), (5, 8)]"

definition of_instruction_id_bsn_disable_l3_class :: wire_class where
  "of_instruction_id_bsn_disable_l3_class = \<lparr>class_id = OF_INSTRUCTION_ID_BSN_DISABLE_L3, whole_buffer = False, wire_types = Some [(4, [Put16 0 0xffff, Put32 4 0x5c16c7, Put32 8 0xd]),
     (5, [Put16 0 0xffff, Put32 4 0x5c16c7, Put32 8 0xd])],
     finishes = [Tlv16Length]\<rparr>"

definition of_instruction_id_bsn_disable_l3_experimenter :: "32 word accessor" where
  "of_instruction_id_bsn_disable_l3_experimenter = u32_accessor [OF_INSTRUCTION_ID_BSN_DISABLE_L3] [(4, 4), (5, 4)]"

definition of_instruction_id_bsn_disable_l3_subtype :: "32 word accessor" where
  "of_instruction_id_bsn_disable_l3_subtype = u32_accessor [OF_INSTRUCTION_ID_BSN_DISABLE_L3] [(4, 8), (5, 8)]"

definition of_instruction_bsn_disable_split_horizon_check_class :: wire_class where
  "of_instruction_bsn_disable_split_horizon_check_class = \<lparr>class_id = OF_INSTRUCTION_BSN_DISABLE_SPLIT_HORIZON_CHECK, whole_buffer = False, wire_types = Some [(4, [Put16 0 0xffff, Put32 4 0x5c16c7, Put32 8 0x3])],
     finishes = [Tlv16Length]\<rparr>"

definition of_instruction_bsn_disable_split_horizon_check_experimenter :: "32 word accessor" where
  "of_instruction_bsn_disable_split_horizon_check_experimenter = u32_accessor [OF_INSTRUCTION_BSN_DISABLE_SPLIT_HORIZON_CHECK] [(4, 4)]"

definition of_instruction_bsn_disable_split_horizon_check_subtype :: "32 word accessor" where
  "of_instruction_bsn_disable_split_horizon_check_subtype = u32_accessor [OF_INSTRUCTION_BSN_DISABLE_SPLIT_HORIZON_CHECK] [(4, 8)]"

definition of_instruction_id_bsn_disable_split_horizon_check_class :: wire_class where
  "of_instruction_id_bsn_disable_split_horizon_check_class = \<lparr>class_id = OF_INSTRUCTION_ID_BSN_DISABLE_SPLIT_HORIZON_CHECK, whole_buffer = False, wire_types = Some [(4, [Put16 0 0xffff, Put32 4 0x5c16c7, Put32 8 0x3])],
     finishes = [Tlv16Length]\<rparr>"

definition of_instruction_id_bsn_disable_split_horizon_check_experimenter :: "32 word accessor" where
  "of_instruction_id_bsn_disable_split_horizon_check_experimenter = u32_accessor [OF_INSTRUCTION_ID_BSN_DISABLE_SPLIT_HORIZON_CHECK] [(4, 4)]"

definition of_instruction_id_bsn_disable_split_horizon_check_subtype :: "32 word accessor" where
  "of_instruction_id_bsn_disable_split_horizon_check_subtype = u32_accessor [OF_INSTRUCTION_ID_BSN_DISABLE_SPLIT_HORIZON_CHECK] [(4, 8)]"

definition of_instruction_bsn_disable_src_mac_check_class :: wire_class where
  "of_instruction_bsn_disable_src_mac_check_class = \<lparr>class_id = OF_INSTRUCTION_BSN_DISABLE_SRC_MAC_CHECK, whole_buffer = False, wire_types = Some [(4, [Put16 0 0xffff, Put32 4 0x5c16c7, Put32 8 0x0]),
     (5, [Put16 0 0xffff, Put32 4 0x5c16c7, Put32 8 0x0])],
     finishes = [Tlv16Length]\<rparr>"

definition of_instruction_bsn_disable_src_mac_check_experimenter :: "32 word accessor" where
  "of_instruction_bsn_disable_src_mac_check_experimenter = u32_accessor [OF_INSTRUCTION_BSN_DISABLE_SRC_MAC_CHECK] [(4, 4), (5, 4)]"

definition of_instruction_bsn_disable_src_mac_check_subtype :: "32 word accessor" where
  "of_instruction_bsn_disable_src_mac_check_subtype = u32_accessor [OF_INSTRUCTION_BSN_DISABLE_SRC_MAC_CHECK] [(4, 8), (5, 8)]"

definition of_instruction_id_bsn_disable_src_mac_check_class :: wire_class where
  "of_instruction_id_bsn_disable_src_mac_check_class = \<lparr>class_id = OF_INSTRUCTION_ID_BSN_DISABLE_SRC_MAC_CHECK, whole_buffer = False, wire_types = Some [(4, [Put16 0 0xffff, Put32 4 0x5c16c7, Put32 8 0x0]),
     (5, [Put16 0 0xffff, Put32 4 0x5c16c7, Put32 8 0x0])],
     finishes = [Tlv16Length]\<rparr>"

definition of_instruction_id_bsn_disable_src_mac_check_experimenter :: "32 word accessor" where
  "of_instruction_id_bsn_disable_src_mac_check_experimenter = u32_accessor [OF_INSTRUCTION_ID_BSN_DISABLE_SRC_MAC_CHECK] [(4, 4), (5, 4)]"

definition of_instruction_id_bsn_disable_src_mac_check_subtype :: "32 word accessor" where
  "of_instruction_id_bsn_disable_src_mac_check_subtype = u32_accessor [OF_INSTRUCTION_ID_BSN_DISABLE_SRC_MAC_CHECK] [(4, 8), (5, 8)]"

definition of_instruction_bsn_disable_vlan_counters_class :: wire_class where
  "of_instruction_bsn_disable_vlan_counters_class = \<lparr>class_id = OF_INSTRUCTION_BSN_DISABLE_VLAN_COUNTERS, whole_buffer = False, wire_types = Some [(4, [Put16 0 0xffff, Put32 4 0x5c16c7, Put32 8 0x9]),
     (5, [Put16 0 0xffff, Put32 4 0x5c16c7, Put32 8 0x9])],
     finishes = [Tlv16Length]\<rparr>"

definition of_instruction_bsn_disable_vlan_counters_experimenter :: "32 word accessor" where
  "of_instruction_bsn_disable_vlan_counters_experimenter = u32_accessor [OF_INSTRUCTION_BSN_DISABLE_VLAN_COUNTERS] [(4, 4), (5, 4)]"

definition of_instruction_bsn_disable_vlan_counters_subtype :: "32 word accessor" where
  "of_instruction_bsn_disable_vlan_counters_subtype = u32_accessor [OF_INSTRUCTION_BSN_DISABLE_VLAN_COUNTERS] [(4, 8), (5, 8)]"

definition of_instruction_id_bsn_disable_vlan_counters_class :: wire_class where
  "of_instruction_id_bsn_disable_vlan_counters_class = \<lparr>class_id = OF_INSTRUCTION_ID_BSN_DISABLE_VLAN_COUNTERS, whole_buffer = False, wire_types = Some [(4, [Put16 0 0xffff, Put32 4 0x5c16c7, Put32 8 0x9]),
     (5, [Put16 0 0xffff, Put32 4 0x5c16c7, Put32 8 0x9])],
     finishes = [Tlv16Length]\<rparr>"

definition of_instruction_id_bsn_disable_vlan_counters_experimenter :: "32 word accessor" where
  "of_instruction_id_bsn_disable_vlan_counters_experimenter = u32_accessor [OF_INSTRUCTION_ID_BSN_DISABLE_VLAN_COUNTERS] [(4, 4), (5, 4)]"

definition of_instruction_id_bsn_disable_vlan_counters_subtype :: "32 word accessor" where
  "of_instruction_id_bsn_disable_vlan_counters_subtype = u32_accessor [OF_INSTRUCTION_ID_BSN_DISABLE_VLAN_COUNTERS] [(4, 8), (5, 8)]"

definition of_instruction_bsn_internal_priority_class :: wire_class where
  "of_instruction_bsn_internal_priority_class = \<lparr>class_id = OF_INSTRUCTION_BSN_INTERNAL_PRIORITY, whole_buffer = False, wire_types = Some [(4, [Put16 0 0xffff, Put32 4 0x5c16c7, Put32 8 0xc]),
     (5, [Put16 0 0xffff, Put32 4 0x5c16c7, Put32 8 0xc])],
     finishes = [Tlv16Length]\<rparr>"

definition of_instruction_bsn_internal_priority_experimenter :: "32 word accessor" where
  "of_instruction_bsn_internal_priority_experimenter = u32_accessor [OF_INSTRUCTION_BSN_INTERNAL_PRIORITY] [(4, 4), (5, 4)]"

definition of_instruction_bsn_internal_priority_subtype :: "32 word accessor" where
  "of_instruction_bsn_internal_priority_subtype = u32_accessor [OF_INSTRUCTION_BSN_INTERNAL_PRIORITY] [(4, 8), (5, 8)]"

definition of_instruction_bsn_internal_priority_value :: "32 word accessor" where
  "of_instruction_bsn_internal_priority_value = u32_accessor [OF_INSTRUCTION_BSN_INTERNAL_PRIORITY] [(4, 12), (5, 12)]"

definition of_instruction_id_bsn_internal_priority_class :: wire_class where
  "of_instruction_id_bsn_internal_priority_class = \<lparr>class_id = OF_INSTRUCTION_ID_BSN_INTERNAL_PRIORITY, whole_buffer = False, wire_types = Some [(4, [Put16 0 0xffff, Put32 4 0x5c16c7, Put32 8 0xc]),
     (5, [Put16 0 0xffff, Put32 4 0x5c16c7, Put32 8 0xc])],
     finishes = [Tlv16Length]\<rparr>"

definition of_instruction_id_bsn_internal_priority_experimenter :: "32 word accessor" where
  "of_instruction_id_bsn_internal_priority_experimenter = u32_accessor [OF_INSTRUCTION_ID_BSN_INTERNAL_PRIORITY] [(4, 4), (5, 4)]"

definition of_instruction_id_bsn_internal_priority_subtype :: "32 word accessor" where
  "of_instruction_id_bsn_internal_priority_subtype = u32_accessor [OF_INSTRUCTION_ID_BSN_INTERNAL_PRIORITY] [(4, 8), (5, 8)]"

definition of_instruction_bsn_packet_of_death_class :: wire_class where
  "of_instruction_bsn_packet_of_death_class = \<lparr>class_id = OF_INSTRUCTION_BSN_PACKET_OF_DEATH, whole_buffer = False, wire_types = Some [(4, [Put16 0 0xffff, Put32 4 0x5c16c7, Put32 8 0x6]),
     (5, [Put16 0 0xffff, Put32 4 0x5c16c7, Put32 8 0x6])],
     finishes = [Tlv16Length]\<rparr>"

definition of_instruction_bsn_packet_of_death_experimenter :: "32 word accessor" where
  "of_instruction_bsn_packet_of_death_experimenter = u32_accessor [OF_INSTRUCTION_BSN_PACKET_OF_DEATH] [(4, 4), (5, 4)]"

definition of_instruction_bsn_packet_of_death_subtype :: "32 word accessor" where
  "of_instruction_bsn_packet_of_death_subtype = u32_accessor [OF_INSTRUCTION_BSN_PACKET_OF_DEATH] [(4, 8), (5, 8)]"

definition of_instruction_id_bsn_packet_of_death_class :: wire_class where
  "of_instruction_id_bsn_packet_of_death_class = \<lparr>class_id = OF_INSTRUCTION_ID_BSN_PACKET_OF_DEATH, whole_buffer = False, wire_types = Some [(4, [Put16 0 0xffff, Put32 4 0x5c16c7, Put32 8 0x6]),
     (5, [Put16 0 0xffff, Put32 4 0x5c16c7, Put32 8 0x6])],
     finishes = [Tlv16Length]\<rparr>"

definition of_instruction_id_bsn_packet_of_death_experimenter :: "32 word accessor" where
  "of_instruction_id_bsn_packet_of_death_experimenter = u32_accessor [OF_INSTRUCTION_ID_BSN_PACKET_OF_DEATH] [(4, 4), (5, 4)]"

definition of_instruction_id_bsn_packet_of_death_subtype :: "32 word accessor" where
  "of_instruction_id_bsn_packet_of_death_subtype = u32_accessor [OF_INSTRUCTION_ID_BSN_PACKET_OF_DEATH] [(4, 8), (5, 8)]"

definition of_instruction_bsn_permit_class :: wire_class where
  "of_instruction_bsn_permit_class = \<lparr>class_id = OF_INSTRUCTION_BSN_PERMIT, whole_buffer = False, wire_types = Some [(4, [Put16 0 0xffff, Put32 4 0x5c16c7, Put32 8 0x4]),
     (5, [Put16 0 0xffff, Put32 4 0x5c16c7, Put32 8 0x4])],
     finishes = [Tlv16Length]\<rparr>"

definition of_instruction_bsn_permit_experimenter :: "32 word accessor" where
  "of_instruction_bsn_permit_experimenter = u32_accessor [OF_INSTRUCTION_BSN_PERMIT] [(4, 4), (5, 4)]"

definition of_instruction_bsn_permit_subtype :: "32 word accessor" where
  "of_instruction_bsn_permit_subtype = u32_accessor [OF_INSTRUCTION_BSN_PERMIT] [(4, 8), (5, 8)]"

definition of_instruction_id_bsn_permit_class :: wire_class where
  "of_instruction_id_bsn_permit_class = \<lparr>class_id = OF_INSTRUCTION_ID_BSN_PERMIT, whole_buffer = False, wire_types = Some [(4, [Put16 0 0xffff, Put32 4 0x5c16c7, Put32 8 0x4]),
     (5, [Put16 0 0xffff, Put32 4 0x5c16c7, Put32 8 0x4])],
     finishes = [Tlv16Length]\<rparr>"

definition of_instruction_id_bsn_permit_experimenter :: "32 word accessor" where
  "of_instruction_id_bsn_permit_experimenter = u32_accessor [OF_INSTRUCTION_ID_BSN_PERMIT] [(4, 4), (5, 4)]"

definition of_instruction_id_bsn_permit_subtype :: "32 word accessor" where
  "of_instruction_id_bsn_permit_subtype = u32_accessor [OF_INSTRUCTION_ID_BSN_PERMIT] [(4, 8), (5, 8)]"

definition of_instruction_bsn_prioritize_pdus_class :: wire_class where
  "of_instruction_bsn_prioritize_pdus_class = \<lparr>class_id = OF_INSTRUCTION_BSN_PRIORITIZE_PDUS, whole_buffer = False, wire_types = Some [(4, [Put16 0 0xffff, Put32 4 0x5c16c7, Put32 8 0x7]),
     (5, [Put16 0 0xffff, Put32 4 0x5c16c7, Put32 8 0x7])],
     finishes = [Tlv16Length]\<rparr>"

definition of_instruction_bsn_prioritize_pdus_experimenter :: "32 word accessor" where
  "of_instruction_bsn_prioritize_pdus_experimenter = u32_accessor [OF_INSTRUCTION_BSN_PRIORITIZE_PDUS] [(4, 4), (5, 4)]"

definition of_instruction_bsn_prioritize_pdus_subtype :: "32 word accessor" where
  "of_instruction_bsn_prioritize_pdus_subtype = u32_accessor [OF_INSTRUCTION_BSN_PRIORITIZE_PDUS] [(4, 8), (5, 8)]"

definition of_instruction_id_bsn_prioritize_pdus_class :: wire_class where
  "of_instruction_id_bsn_prioritize_pdus_class = \<lparr>class_id = OF_INSTRUCTION_ID_BSN_PRIORITIZE_PDUS, whole_buffer = False, wire_types = Some [(4, [Put16 0 0xffff, Put32 4 0x5c16c7, Put32 8 0x7]),
     (5, [Put16 0 0xffff, Put32 4 0x5c16c7, Put32 8 0x7])],
     finishes = [Tlv16Length]\<rparr>"

definition of_instruction_id_bsn_prioritize_pdus_experimenter :: "32 word accessor" where
  "of_instruction_id_bsn_prioritize_pdus_experimenter = u32_accessor [OF_INSTRUCTION_ID_BSN_PRIORITIZE_PDUS] [(4, 4), (5, 4)]"

definition of_instruction_id_bsn_prioritize_pdus_subtype :: "32 word accessor" where
  "of_instruction_id_bsn_prioritize_pdus_subtype = u32_accessor [OF_INSTRUCTION_ID_BSN_PRIORITIZE_PDUS] [(4, 8), (5, 8)]"

definition of_instruction_bsn_require_vlan_xlate_class :: wire_class where
  "of_instruction_bsn_require_vlan_xlate_class = \<lparr>class_id = OF_INSTRUCTION_BSN_REQUIRE_VLAN_XLATE, whole_buffer = False, wire_types = Some [(4, [Put16 0 0xffff, Put32 4 0x5c16c7, Put32 8 0x8]),
     (5, [Put16 0 0xffff, Put32 4 0x5c16c7, Put32 8 0x8])],
     finishes = [Tlv16Length]\<rparr>"

definition of_instruction_bsn_require_vlan_xlate_experimenter :: "32 word accessor" where
  "of_instruction_bsn_require_vlan_xlate_experimenter = u32_accessor [OF_INSTRUCTION_BSN_REQUIRE_VLAN_XLATE] [(4, 4), (5, 4)]"

definition of_instruction_bsn_require_vlan_xlate_subtype :: "32 word accessor" where
  "of_instruction_bsn_require_vlan_xlate_subtype = u32_accessor [OF_INSTRUCTION_BSN_REQUIRE_VLAN_XLATE] [(4, 8), (5, 8)]"

definition of_instruction_id_bsn_require_vlan_xlate_class :: wire_class where
  "of_instruction_id_bsn_require_vlan_xlate_class = \<lparr>class_id = OF_INSTRUCTION_ID_BSN_REQUIRE_VLAN_XLATE, whole_buffer = False, wire_types = Some [(4, [Put16 0 0xffff, Put32 4 0x5c16c7, Put32 8 0x8]),
     (5, [Put16 0 0xffff, Put32 4 0x5c16c7, Put32 8 0x8])],
     finishes = [Tlv16Length]\<rparr>"

definition of_instruction_id_bsn_require_vlan_xlate_experimenter :: "32 word accessor" where
  "of_instruction_id_bsn_require_vlan_xlate_experimenter = u32_accessor [OF_INSTRUCTION_ID_BSN_REQUIRE_VLAN_XLATE] [(4, 4), (5, 4)]"

definition of_instruction_id_bsn_require_vlan_xlate_subtype :: "32 word accessor" where
  "of_instruction_id_bsn_require_vlan_xlate_subtype = u32_accessor [OF_INSTRUCTION_ID_BSN_REQUIRE_VLAN_XLATE] [(4, 8), (5, 8)]"

definition of_instruction_bsn_span_destination_class :: wire_class where
  "of_instruction_bsn_span_destination_class = \<lparr>class_id = OF_INSTRUCTION_BSN_SPAN_DESTINATION, whole_buffer = False, wire_types = Some [(4, [Put16 0 0xffff, Put32 4 0x5c16c7, Put32 8 0xa]),
     (5, [Put16 0 0xffff, Put32 4 0x5c16c7, Put32 8 0xa])],
     finishes = [Tlv16Length]\<rparr>"

definition of_instruction_bsn_span_destination_experimenter :: "32 word accessor" where
  "of_instruction_bsn_span_destination_experimenter = u32_accessor [OF_INSTRUCTION_BSN_SPAN_DESTINATION] [(4, 4), (5, 4)]"

definition of_instruction_bsn_span_destination_subtype :: "32 word accessor" where
  "of_instruction_bsn_span_destination_subtype = u32_accessor [OF_INSTRUCTION_BSN_SPAN_DESTINATION] [(4, 8), (5, 8)]"

text \<open>The classes, each with consistent wire types in every version that has it.\<close>

definition classes_15 :: "wire_class list" where
  "classes_15 = [of_instruction_id_class, of_instruction_id_apply_actions_class, of_instruction_bsn_class,
     of_instruction_id_experimenter_class, of_instruction_id_bsn_class,
     of_instruction_bsn_arp_offload_class, of_instruction_id_bsn_arp_offload_class,
     of_instruction_bsn_auto_negotiation_class, of_instruction_id_bsn_auto_negotiation_class,
     of_instruction_bsn_deny_class, of_instruction_id_bsn_deny_class,
     of_instruction_bsn_dhcp_offload_class, of_instruction_id_bsn_dhcp_offload_class,
     of_instruction_bsn_disable_l3_class, of_instruction_id_bsn_disable_l3_class,
     of_instruction_bsn_disable_split_horizon_check_class,
     of_instruction_id_bsn_disable_split_horizon_check_class,
     of_instruction_bsn_disable_src_mac_check_class, of_instruction_id_bsn_disable_src_mac_check_class,
     of_instruction_bsn_disable_vlan_counters_class, of_instruction_id_bsn_disable_vlan_counters_class,
     of_instruction_bsn_internal_priority_class, of_instruction_id_bsn_internal_priority_class,
     of_instruction_bsn_packet_of_death_class, of_instruction_id_bsn_packet_of_death_class,
     of_instruction_bsn_permit_class, of_instruction_id_bsn_permit_class,
     of_instruction_bsn_prioritize_pdus_class, of_instruction_id_bsn_prioritize_pdus_class,
     of_instruction_bsn_require_vlan_xlate_class, of_instruction_id_bsn_require_vlan_xlate_class,
     of_instruction_bsn_span_destination_class]"

lemmas class_defs_15 =
  of_instruction_id_class_def of_instruction_id_apply_actions_class_def of_instruction_bsn_class_def
  of_instruction_id_experimenter_class_def of_instruction_id_bsn_class_def
  of_instruction_bsn_arp_offload_class_def of_instruction_id_bsn_arp_offload_class_def
  of_instruction_bsn_auto_negotiation_class_def of_instruction_id_bsn_auto_negotiation_class_def
  of_instruction_bsn_deny_class_def of_instruction_id_bsn_deny_class_def
  of_instruction_bsn_dhcp_offload_class_def of_instruction_id_bsn_dhcp_offload_class_def
  of_instruction_bsn_disable_l3_class_def of_instruction_id_bsn_disable_l3_class_def
  of_instruction_bsn_disable_split_horizon_check_class_def
  of_instruction_id_bsn_disable_split_horizon_check_class_def
  of_instruction_bsn_disable_src_mac_check_class_def
  of_instruction_id_bsn_disable_src_mac_check_class_def
  of_instruction_bsn_disable_vlan_counters_class_def
  of_instruction_id_bsn_disable_vlan_counters_class_def
  of_instruction_bsn_internal_priority_class_def of_instruction_id_bsn_internal_priority_class_def
  of_instruction_bsn_packet_of_death_class_def of_instruction_id_bsn_packet_of_death_class_def
  of_instruction_bsn_permit_class_def of_instruction_id_bsn_permit_class_def
  of_instruction_bsn_prioritize_pdus_class_def of_instruction_id_bsn_prioritize_pdus_class_def
  of_instruction_bsn_require_vlan_xlate_class_def of_instruction_id_bsn_require_vlan_xlate_class_def
  of_instruction_bsn_span_destination_class_def

lemma classes_ok_15: "list_all class_ok classes_15"
  unfolding classes_15_def
  by (simp add: class_defs_15 class_checks)

text \<open>The accessors.\<close>

definition fields_15 :: "field list" where
  "fields_15 = [U32 of_instruction_bsn_experimenter, U32 of_instruction_bsn_subtype,
     U32 of_instruction_id_experimenter_experimenter, U32 of_instruction_id_bsn_experimenter,
     U32 of_instruction_id_bsn_subtype, U32 of_instruction_bsn_arp_offload_experimenter,
     U32 of_instruction_bsn_arp_offload_subtype, U32 of_instruction_id_bsn_arp_offload_experimenter,
     U32 of_instruction_id_bsn_arp_offload_subtype, U32 of_instruction_bsn_auto_negotiation_experimenter,
     U32 of_instruction_bsn_auto_negotiation_subtype,
     U32 of_instruction_id_bsn_auto_negotiation_experimenter,
     U32 of_instruction_id_bsn_auto_negotiation_subtype, U32 of_instruction_bsn_deny_experimenter,
     U32 of_instruction_bsn_deny_subtype, U32 of_instruction_id_bsn_deny_experimenter,
     U32 of_instruction_id_bsn_deny_subtype, U32 of_instruction_bsn_dhcp_offload_experimenter,
     U32 of_instruction_bsn_dhcp_offload_subtype, U32 of_instruction_id_bsn_dhcp_offload_experimenter,
     U32 of_instruction_id_bsn_dhcp_offload_subtype, U32 of_instruction_bsn_disable_l3_experimenter,
     U32 of_instruction_bsn_disable_l3_subtype, U32 of_instruction_id_bsn_disable_l3_experimenter,
     U32 of_instruction_id_bsn_disable_l3_subtype,
     U32 of_instruction_bsn_disable_split_horizon_check_experimenter,
     U32 of_instruction_bsn_disable_split_horizon_check_subtype,
     U32 of_instruction_id_bsn_disable_split_horizon_check_experimenter,
     U32 of_instruction_id_bsn_disable_split_horizon_check_subtype,
     U32 of_instruction_bsn_disable_src_mac_check_experimenter,
     U32 of_instruction_bsn_disable_src_mac_check_subtype,
     U32 of_instruction_id_bsn_disable_src_mac_check_experimenter,
     U32 of_instruction_id_bsn_disable_src_mac_check_subtype,
     U32 of_instruction_bsn_disable_vlan_counters_experimenter,
     U32 of_instruction_bsn_disable_vlan_counters_subtype,
     U32 of_instruction_id_bsn_disable_vlan_counters_experimenter,
     U32 of_instruction_id_bsn_disable_vlan_counters_subtype,
     U32 of_instruction_bsn_internal_priority_experimenter,
     U32 of_instruction_bsn_internal_priority_subtype, U32 of_instruction_bsn_internal_priority_value,
     U32 of_instruction_id_bsn_internal_priority_experimenter,
     U32 of_instruction_id_bsn_internal_priority_subtype,
     U32 of_instruction_bsn_packet_of_death_experimenter, U32 of_instruction_bsn_packet_of_death_subtype,
     U32 of_instruction_id_bsn_packet_of_death_experimenter,
     U32 of_instruction_id_bsn_packet_of_death_subtype, U32 of_instruction_bsn_permit_experimenter,
     U32 of_instruction_bsn_permit_subtype, U32 of_instruction_id_bsn_permit_experimenter,
     U32 of_instruction_id_bsn_permit_subtype, U32 of_instruction_bsn_prioritize_pdus_experimenter,
     U32 of_instruction_bsn_prioritize_pdus_subtype,
     U32 of_instruction_id_bsn_prioritize_pdus_experimenter,
     U32 of_instruction_id_bsn_prioritize_pdus_subtype,
     U32 of_instruction_bsn_require_vlan_xlate_experimenter,
     U32 of_instruction_bsn_require_vlan_xlate_subtype,
     U32 of_instruction_id_bsn_require_vlan_xlate_experimenter,
     U32 of_instruction_id_bsn_require_vlan_xlate_subtype,
     U32 of_instruction_bsn_span_destination_experimenter,
     U32 of_instruction_bsn_span_destination_subtype]"

lemmas accessor_defs_15 =
  of_instruction_bsn_experimenter_def of_instruction_bsn_subtype_def
  of_instruction_id_experimenter_experimenter_def of_instruction_id_bsn_experimenter_def
  of_instruction_id_bsn_subtype_def of_instruction_bsn_arp_offload_experimenter_def
  of_instruction_bsn_arp_offload_subtype_def of_instruction_id_bsn_arp_offload_experimenter_def
  of_instruction_id_bsn_arp_offload_subtype_def of_instruction_bsn_auto_negotiation_experimenter_def
  of_instruction_bsn_auto_negotiation_subtype_def
  of_instruction_id_bsn_auto_negotiation_experimenter_def
  of_instruction_id_bsn_auto_negotiation_subtype_def of_instruction_bsn_deny_experimenter_def
  of_instruction_bsn_deny_subtype_def of_instruction_id_bsn_deny_experimenter_def
  of_instruction_id_bsn_deny_subtype_def of_instruction_bsn_dhcp_offload_experimenter_def
  of_instruction_bsn_dhcp_offload_subtype_def of_instruction_id_bsn_dhcp_offload_experimenter_def
  of_instruction_id_bsn_dhcp_offload_subtype_def of_instruction_bsn_disable_l3_experimenter_def
  of_instruction_bsn_disable_l3_subtype_def of_instruction_id_bsn_disable_l3_experimenter_def
  of_instruction_id_bsn_disable_l3_subtype_def
  of_instruction_bsn_disable_split_horizon_check_experimenter_def
  of_instruction_bsn_disable_split_horizon_check_subtype_def
  of_instruction_id_bsn_disable_split_horizon_check_experimenter_def
  of_instruction_id_bsn_disable_split_horizon_check_subtype_def
  of_instruction_bsn_disable_src_mac_check_experimenter_def
  of_instruction_bsn_disable_src_mac_check_subtype_def
  of_instruction_id_bsn_disable_src_mac_check_experimenter_def
  of_instruction_id_bsn_disable_src_mac_check_subtype_def
  of_instruction_bsn_disable_vlan_counters_experimenter_def
  of_instruction_bsn_disable_vlan_counters_subtype_def
  of_instruction_id_bsn_disable_vlan_counters_experimenter_def
  of_instruction_id_bsn_disable_vlan_counters_subtype_def
  of_instruction_bsn_internal_priority_experimenter_def
  of_instruction_bsn_internal_priority_subtype_def of_instruction_bsn_internal_priority_value_def
  of_instruction_id_bsn_internal_priority_experimenter_def
  of_instruction_id_bsn_internal_priority_subtype_def
  of_instruction_bsn_packet_of_death_experimenter_def of_instruction_bsn_packet_of_death_subtype_def
  of_instruction_id_bsn_packet_of_death_experimenter_def
  of_instruction_id_bsn_packet_of_death_subtype_def of_instruction_bsn_permit_experimenter_def
  of_instruction_bsn_permit_subtype_def of_instruction_id_bsn_permit_experimenter_def
  of_instruction_id_bsn_permit_subtype_def of_instruction_bsn_prioritize_pdus_experimenter_def
  of_instruction_bsn_prioritize_pdus_subtype_def
  of_instruction_id_bsn_prioritize_pdus_experimenter_def
  of_instruction_id_bsn_prioritize_pdus_subtype_def
  of_instruction_bsn_require_vlan_xlate_experimenter_def
  of_instruction_bsn_require_vlan_xlate_subtype_def
  of_instruction_id_bsn_require_vlan_xlate_experimenter_def
  of_instruction_id_bsn_require_vlan_xlate_subtype_def
  of_instruction_bsn_span_destination_experimenter_def
  of_instruction_bsn_span_destination_subtype_def

lemma fields_ok_15: "list_all field_ok fields_15"
  unfolding fields_15_def accessor_defs_15
  by (simp add: accessors_ok octets_accessors_ok inside_rows del: field_ok.simps)

end
