(* ===== verification/Class16.thy ===== *)
theory Class16
  imports Construct
begin

text \<open>
  The classes of \<^verbatim>\<open>src/class16.c\<close>: for each what its constructor, initialiser and
  \<open>push_wire_types\<close> write, and the scalar accessors, a getter and a setter for each field at a fixed offset.
\<close>

definition of_instruction_id_bsn_span_destination_class :: wire_class where
  "of_instruction_id_bsn_span_destination_class = \<lparr>class_id = OF_INSTRUCTION_ID_BSN_SPAN_DESTINATION, whole_buffer = False, wire_types = Some [(4, [Put16 0 0xffff, Put32 4 0x5c16c7, Put32 8 0xa]),
     (5, [Put16 0 0xffff, Put32 4 0x5c16c7, Put32 8 0xa])],
     finishes = [Tlv16Length]\<rparr>"

definition of_instruction_id_bsn_span_destination_experimenter :: "32 word accessor" where
  "of_instruction_id_bsn_span_destination_experimenter = u32_accessor [OF_INSTRUCTION_ID_BSN_SPAN_DESTINATION] [(4, 4), (5, 4)]"

definition of_instruction_id_bsn_span_destination_subtype :: "32 word accessor" where
  "of_instruction_id_bsn_span_destination_subtype = u32_accessor [OF_INSTRUCTION_ID_BSN_SPAN_DESTINATION] [(4, 8), (5, 8)]"

definition of_instruction_id_clear_actions_class :: wire_class where
  "of_instruction_id_clear_actions_class = \<lparr>class_id = OF_INSTRUCTION_ID_CLEAR_ACTIONS, whole_buffer = False, wire_types = Some [(4, [Put16 0 0x5]),
     (5, [Put16 0 0x5])],
     finishes = [Tlv16Length]\<rparr>"

definition of_instruction_id_goto_table_class :: wire_class where
  "of_instruction_id_goto_table_class = \<lparr>class_id = OF_INSTRUCTION_ID_GOTO_TABLE, whole_buffer = False, wire_types = Some [(4, [Put16 0 0x1]),
     (5, [Put16 0 0x1])],
     finishes = [Tlv16Length]\<rparr>"

definition of_instruction_meter_class :: wire_class where
  "of_instruction_meter_class = \<lparr>class_id = OF_INSTRUCTION_METER, whole_buffer = False, wire_types = Some [(4, [Put16 0 0x6]),
     (5, [Put16 0 0x6])],
     finishes = [Tlv16Length]\<rparr>"

definition of_instruction_meter_meter_id :: "32 word accessor" where
  "of_instruction_meter_meter_id = u32_accessor [OF_INSTRUCTION_METER] [(4, 4), (5, 4)]"

definition of_instruction_id_meter_class :: wire_class where
  "of_instruction_id_meter_class = \<lparr>class_id = OF_INSTRUCTION_ID_METER, whole_buffer = False, wire_types = Some [(4, [Put16 0 0x6]),
     (5, [Put16 0 0x6])],
     finishes = [Tlv16Length]\<rparr>"

definition of_instruction_id_write_actions_class :: wire_class where
  "of_instruction_id_write_actions_class = \<lparr>class_id = OF_INSTRUCTION_ID_WRITE_ACTIONS, whole_buffer = False, wire_types = Some [(4, [Put16 0 0x3]),
     (5, [Put16 0 0x3])],
     finishes = [Tlv16Length]\<rparr>"

definition of_instruction_id_write_metadata_class :: wire_class where
  "of_instruction_id_write_metadata_class = \<lparr>class_id = OF_INSTRUCTION_ID_WRITE_METADATA, whole_buffer = False, wire_types = Some [(4, [Put16 0 0x2]),
     (5, [Put16 0 0x2])],
     finishes = [Tlv16Length]\<rparr>"

definition of_meter_band_class :: wire_class where
  "of_meter_band_class = \<lparr>class_id = OF_METER_BAND, whole_buffer = True, wire_types = None,
     finishes = []\<rparr>"

definition of_meter_band_drop_class :: wire_class where
  "of_meter_band_drop_class = \<lparr>class_id = OF_METER_BAND_DROP, whole_buffer = False, wire_types = Some [(4, [Put16 0 0x1]),
     (5, [Put16 0 0x1])],
     finishes = [Tlv16Length]\<rparr>"

definition of_meter_band_drop_rate :: "32 word accessor" where
  "of_meter_band_drop_rate = u32_accessor [OF_METER_BAND_DROP] [(4, 4), (5, 4)]"

definition of_meter_band_drop_burst_size :: "32 word accessor" where
  "of_meter_band_drop_burst_size = u32_accessor [OF_METER_BAND_DROP] [(4, 8), (5, 8)]"

definition of_meter_band_dscp_remark_class :: wire_class where
  "of_meter_band_dscp_remark_class = \<lparr>class_id = OF_METER_BAND_DSCP_REMARK, whole_buffer = False, wire_types = Some [(4, [Put16 0 0x2]),
     (5, [Put16 0 0x2])],
     finishes = [Tlv16Length]\<rparr>"

definition of_meter_band_dscp_remark_rate :: "32 word accessor" where
  "of_meter_band_dscp_remark_rate = u32_accessor [OF_METER_BAND_DSCP_REMARK] [(4, 4), (5, 4)]"

definition of_meter_band_dscp_remark_burst_size :: "32 word accessor" where
  "of_meter_band_dscp_remark_burst_size = u32_accessor [OF_METER_BAND_DSCP_REMARK] [(4, 8), (5, 8)]"

definition of_meter_band_dscp_remark_prec_level :: "byte accessor" where
  "of_meter_band_dscp_remark_prec_level = u8_accessor [OF_METER_BAND_DSCP_REMARK] [(4, 12), (5, 12)]"

definition of_meter_band_experimenter_class :: wire_class where
  "of_meter_band_experimenter_class = \<lparr>class_id = OF_METER_BAND_EXPERIMENTER, whole_buffer = False, wire_types = Some [(4, [Put16 0 0xffff]),
     (5, [Put16 0 0xffff])],
     finishes = [Tlv16Length]\<rparr>"

definition of_meter_band_experimenter_rate :: "32 word accessor" where
  "of_meter_band_experimenter_rate = u32_accessor [OF_METER_BAND_EXPERIMENTER] [(4, 4), (5, 4)]"

definition of_meter_band_experimenter_burst_size :: "32 word accessor" where
  "of_meter_band_experimenter_burst_size = u32_accessor [OF_METER_BAND_EXPERIMENTER] [(4, 8), (5, 8)]"

definition of_meter_band_experimenter_experimenter :: "32 word accessor" where
  "of_meter_band_experimenter_experimenter = u32_accessor [OF_METER_BAND_EXPERIMENTER] [(4, 12), (5, 12)]"

definition of_meter_band_stats_class :: wire_class where
  "of_meter_band_stats_class = \<lparr>class_id = OF_METER_BAND_STATS, whole_buffer = False, wire_types = None,
     finishes = []\<rparr>"

definition of_meter_band_stats_packet_band_count :: "64 word accessor" where
  "of_meter_band_stats_packet_band_count = u64_accessor [OF_METER_BAND_STATS] [(4, 0), (5, 0)]"

definition of_meter_band_stats_byte_band_count :: "64 word accessor" where
  "of_meter_band_stats_byte_band_count = u64_accessor [OF_METER_BAND_STATS] [(4, 8), (5, 8)]"

definition of_meter_config_class :: wire_class where
  "of_meter_config_class = \<lparr>class_id = OF_METER_CONFIG, whole_buffer = True, wire_types = None,
     finishes = [U16Length]\<rparr>"

definition of_meter_config_flags :: "16 word accessor" where
  "of_meter_config_flags = u16_accessor [OF_METER_CONFIG] [(4, 2), (5, 2)]"

definition of_meter_config_meter_id :: "32 word accessor" where
  "of_meter_config_meter_id = u32_accessor [OF_METER_CONFIG] [(4, 4), (5, 4)]"

definition of_meter_config_stats_reply_class :: wire_class where
  "of_meter_config_stats_reply_class = \<lparr>class_id = OF_METER_CONFIG_STATS_REPLY, whole_buffer = True, wire_types = Some [(4, [PutVersion 0, Put8 1 0x13, Put16 8 0xa]),
     (5, [PutVersion 0, Put8 1 0x13, Put16 8 0xa])],
     finishes = [MessageLength]\<rparr>"

definition of_meter_config_stats_reply_xid :: "32 word accessor" where
  "of_meter_config_stats_reply_xid = u32_accessor [OF_METER_CONFIG_STATS_REPLY] [(4, 4), (5, 4)]"

definition of_meter_config_stats_reply_flags :: "16 word accessor" where
  "of_meter_config_stats_reply_flags = u16_accessor [OF_METER_CONFIG_STATS_REPLY] [(4, 10), (5, 10)]"

definition of_meter_config_stats_request_class :: wire_class where
  "of_meter_config_stats_request_class = \<lparr>class_id = OF_METER_CONFIG_STATS_REQUEST, whole_buffer = False, wire_types = Some [(4, [PutVersion 0, Put8 1 0x12, Put16 8 0xa]),
     (5, [PutVersion 0, Put8 1 0x12, Put16 8 0xa])],
     finishes = [MessageLength]\<rparr>"

definition of_meter_config_stats_request_xid :: "32 word accessor" where
  "of_meter_config_stats_request_xid = u32_accessor [OF_METER_CONFIG_STATS_REQUEST] [(4, 4), (5, 4)]"

definition of_meter_config_stats_request_flags :: "16 word accessor" where
  "of_meter_config_stats_request_flags = u16_accessor [OF_METER_CONFIG_STATS_REQUEST] [(4, 10), (5, 10)]"

definition of_meter_config_stats_request_meter_id :: "32 word accessor" where
  "of_meter_config_stats_request_meter_id = u32_accessor [OF_METER_CONFIG_STATS_REQUEST] [(4, 16), (5, 16)]"

definition of_meter_features_class :: wire_class where
  "of_meter_features_class = \<lparr>class_id = OF_METER_FEATURES, whole_buffer = False, wire_types = None,
     finishes = []\<rparr>"

definition of_meter_features_max_meter :: "32 word accessor" where
  "of_meter_features_max_meter = u32_accessor [OF_METER_FEATURES] [(4, 0), (5, 0)]"

definition of_meter_features_band_types :: "32 word accessor" where
  "of_meter_features_band_types = u32_accessor [OF_METER_FEATURES] [(4, 4), (5, 4)]"

definition of_meter_features_capabilities :: "32 word accessor" where
  "of_meter_features_capabilities = u32_accessor [OF_METER_FEATURES] [(4, 8), (5, 8)]"

definition of_meter_features_max_bands :: "byte accessor" where
  "of_meter_features_max_bands = u8_accessor [OF_METER_FEATURES] [(4, 12), (5, 12)]"

definition of_meter_features_max_color :: "byte accessor" where
  "of_meter_features_max_color = u8_accessor [OF_METER_FEATURES] [(4, 13), (5, 13)]"

definition of_meter_features_stats_reply_class :: wire_class where
  "of_meter_features_stats_reply_class = \<lparr>class_id = OF_METER_FEATURES_STATS_REPLY, whole_buffer = False, wire_types = Some [(4, [PutVersion 0, Put8 1 0x13, Put16 8 0xb]),
     (5, [PutVersion 0, Put8 1 0x13, Put16 8 0xb])],
     finishes = [MessageLength]\<rparr>"

definition of_meter_features_stats_reply_xid :: "32 word accessor" where
  "of_meter_features_stats_reply_xid = u32_accessor [OF_METER_FEATURES_STATS_REPLY] [(4, 4), (5, 4)]"

definition of_meter_features_stats_reply_flags :: "16 word accessor" where
  "of_meter_features_stats_reply_flags = u16_accessor [OF_METER_FEATURES_STATS_REPLY] [(4, 10), (5, 10)]"

definition of_meter_features_stats_request_class :: wire_class where
  "of_meter_features_stats_request_class = \<lparr>class_id = OF_METER_FEATURES_STATS_REQUEST, whole_buffer = False, wire_types = Some [(4, [PutVersion 0, Put8 1 0x12, Put16 8 0xb]),
     (5, [PutVersion 0, Put8 1 0x12, Put16 8 0xb])],
     finishes = [MessageLength]\<rparr>"

definition of_meter_features_stats_request_xid :: "32 word accessor" where
  "of_meter_features_stats_request_xid = u32_accessor [OF_METER_FEATURES_STATS_REQUEST] [(4, 4), (5, 4)]"

definition of_meter_features_stats_request_flags :: "16 word accessor" where
  "of_meter_features_stats_request_flags = u16_accessor [OF_METER_FEATURES_STATS_REQUEST] [(4, 10), (5, 10)]"

definition of_meter_mod_class :: wire_class where
  "of_meter_mod_class = \<lparr>class_id = OF_METER_MOD, whole_buffer = True, wire_types = Some [(4, [PutVersion 0, Put8 1 0x1d]),
     (5, [PutVersion 0, Put8 1 0x1d])],
     finishes = [MessageLength]\<rparr>"

definition of_meter_mod_xid :: "32 word accessor" where
  "of_meter_mod_xid = u32_accessor [OF_METER_MOD] [(4, 4), (5, 4)]"

definition of_meter_mod_flags :: "16 word accessor" where
  "of_meter_mod_flags = u16_accessor [OF_METER_MOD] [(4, 10), (5, 10)]"

definition of_meter_mod_meter_id :: "32 word accessor" where
  "of_meter_mod_meter_id = u32_accessor [OF_METER_MOD] [(4, 12), (5, 12)]"

definition of_meter_mod_failed_error_msg_class :: wire_class where
  "of_meter_mod_failed_error_msg_class = \<lparr>class_id = OF_METER_MOD_FAILED_ERROR_MSG, whole_buffer = True, wire_types = Some [(4, [PutVersion 0, Put8 1 0x1, Put16 8 0xc]),
     (5, [PutVersion 0, Put8 1 0x1, Put16 8 0xc])],
     finishes = [MessageLength]\<rparr>"

definition of_meter_mod_failed_error_msg_xid :: "32 word accessor" where
  "of_meter_mod_failed_error_msg_xid = u32_accessor [OF_METER_MOD_FAILED_ERROR_MSG] [(4, 4), (5, 4)]"

definition of_meter_mod_failed_error_msg_code :: "16 word accessor" where
  "of_meter_mod_failed_error_msg_code = u16_accessor [OF_METER_MOD_FAILED_ERROR_MSG] [(4, 10), (5, 10)]"

definition of_meter_stats_class :: wire_class where
  "of_meter_stats_class = \<lparr>class_id = OF_METER_STATS, whole_buffer = True, wire_types = None,
     finishes = [MeterStatsLength]\<rparr>"

definition of_meter_stats_meter_id :: "32 word accessor" where
  "of_meter_stats_meter_id = u32_accessor [OF_METER_STATS] [(4, 0), (5, 0)]"

definition of_meter_stats_flow_count :: "32 word accessor" where
  "of_meter_stats_flow_count = u32_accessor [OF_METER_STATS] [(4, 12), (5, 12)]"

definition of_meter_stats_packet_in_count :: "64 word accessor" where
  "of_meter_stats_packet_in_count = u64_accessor [OF_METER_STATS] [(4, 16), (5, 16)]"

definition of_meter_stats_byte_in_count :: "64 word accessor" where
  "of_meter_stats_byte_in_count = u64_accessor [OF_METER_STATS] [(4, 24), (5, 24)]"

definition of_meter_stats_duration_sec :: "32 word accessor" where
  "of_meter_stats_duration_sec = u32_accessor [OF_METER_STATS] [(4, 32), (5, 32)]"

definition of_meter_stats_duration_nsec :: "32 word accessor" where
  "of_meter_stats_duration_nsec = u32_accessor [OF_METER_STATS] [(4, 36), (5, 36)]"

definition of_meter_stats_reply_class :: wire_class where
  "of_meter_stats_reply_class = \<lparr>class_id = OF_METER_STATS_REPLY, whole_buffer = True, wire_types = Some [(4, [PutVersion 0, Put8 1 0x13, Put16 8 0x9]),
     (5, [PutVersion 0, Put8 1 0x13, Put16 8 0x9])],
     finishes = [MessageLength]\<rparr>"

definition of_meter_stats_reply_xid :: "32 word accessor" where
  "of_meter_stats_reply_xid = u32_accessor [OF_METER_STATS_REPLY] [(4, 4), (5, 4)]"

definition of_meter_stats_reply_flags :: "16 word accessor" where
  "of_meter_stats_reply_flags = u16_accessor [OF_METER_STATS_REPLY] [(4, 10), (5, 10)]"

definition of_meter_stats_request_class :: wire_class where
  "of_meter_stats_request_class = \<lparr>class_id = OF_METER_STATS_REQUEST, whole_buffer = False, wire_types = Some [(4, [PutVersion 0, Put8 1 0x12, Put16 8 0x9]),
     (5, [PutVersion 0, Put8 1 0x12, Put16 8 0x9])],
     finishes = [MessageLength]\<rparr>"

definition of_meter_stats_request_xid :: "32 word accessor" where
  "of_meter_stats_request_xid = u32_accessor [OF_METER_STATS_REQUEST] [(4, 4), (5, 4)]"

definition of_meter_stats_request_flags :: "16 word accessor" where
  "of_meter_stats_request_flags = u16_accessor [OF_METER_STATS_REQUEST] [(4, 10), (5, 10)]"

definition of_meter_stats_request_meter_id :: "32 word accessor" where
  "of_meter_stats_request_meter_id = u32_accessor [OF_METER_STATS_REQUEST] [(4, 16), (5, 16)]"

definition of_oxm_ipv6_exthdr_class :: wire_class where
  "of_oxm_ipv6_exthdr_class = \<lparr>class_id = OF_OXM_IPV6_EXTHDR, whole_buffer = False, wire_types = Some [(4, [Put32 0 0x80004e02]),
     (5, [Put32 0 0x80004e02])],
     finishes = []\<rparr>"

definition of_oxm_ipv6_exthdr_value :: "16 word accessor" where
  "of_oxm_ipv6_exthdr_value = u16_accessor [OF_OXM_IPV6_EXTHDR] [(4, 4), (5, 4)]"

definition of_oxm_ipv6_exthdr_masked_class :: wire_class where
  "of_oxm_ipv6_exthdr_masked_class = \<lparr>class_id = OF_OXM_IPV6_EXTHDR_MASKED, whole_buffer = False, wire_types = Some [(4, [Put32 0 0x80004f04]),
     (5, [Put32 0 0x80004f04])],
     finishes = []\<rparr>"

definition of_oxm_ipv6_exthdr_masked_value :: "16 word accessor" where
  "of_oxm_ipv6_exthdr_masked_value = u16_accessor [OF_OXM_IPV6_EXTHDR_MASKED] [(4, 4), (5, 4)]"

definition of_oxm_ipv6_exthdr_masked_value_mask :: "16 word accessor" where
  "of_oxm_ipv6_exthdr_masked_value_mask = u16_accessor [OF_OXM_IPV6_EXTHDR_MASKED] [(4, 6), (5, 6)]"

definition of_oxm_mpls_bos_class :: wire_class where
  "of_oxm_mpls_bos_class = \<lparr>class_id = OF_OXM_MPLS_BOS, whole_buffer = False, wire_types = Some [(4, [Put32 0 0x80004801]),
     (5, [Put32 0 0x80004801])],
     finishes = []\<rparr>"

definition of_oxm_mpls_bos_value :: "byte accessor" where
  "of_oxm_mpls_bos_value = u8_accessor [OF_OXM_MPLS_BOS] [(4, 4), (5, 4)]"

definition of_oxm_mpls_bos_masked_class :: wire_class where
  "of_oxm_mpls_bos_masked_class = \<lparr>class_id = OF_OXM_MPLS_BOS_MASKED, whole_buffer = False, wire_types = Some [(4, [Put32 0 0x80004902]),
     (5, [Put32 0 0x80004902])],
     finishes = []\<rparr>"

definition of_oxm_mpls_bos_masked_value :: "byte accessor" where
  "of_oxm_mpls_bos_masked_value = u8_accessor [OF_OXM_MPLS_BOS_MASKED] [(4, 4), (5, 4)]"

definition of_oxm_mpls_bos_masked_value_mask :: "byte accessor" where
  "of_oxm_mpls_bos_masked_value_mask = u8_accessor [OF_OXM_MPLS_BOS_MASKED] [(4, 5), (5, 5)]"

definition of_oxm_tunnel_id_class :: wire_class where
  "of_oxm_tunnel_id_class = \<lparr>class_id = OF_OXM_TUNNEL_ID, whole_buffer = False, wire_types = Some [(4, [Put32 0 0x80004c08]),
     (5, [Put32 0 0x80004c08])],
     finishes = []\<rparr>"

definition of_oxm_tunnel_id_value :: "64 word accessor" where
  "of_oxm_tunnel_id_value = u64_accessor [OF_OXM_TUNNEL_ID] [(4, 4), (5, 4)]"

definition of_oxm_tunnel_id_masked_class :: wire_class where
  "of_oxm_tunnel_id_masked_class = \<lparr>class_id = OF_OXM_TUNNEL_ID_MASKED, whole_buffer = False, wire_types = Some [(4, [Put32 0 0x80004d10]),
     (5, [Put32 0 0x80004d10])],
     finishes = []\<rparr>"

definition of_oxm_tunnel_id_masked_value :: "64 word accessor" where
  "of_oxm_tunnel_id_masked_value = u64_accessor [OF_OXM_TUNNEL_ID_MASKED] [(4, 4), (5, 4)]"

definition of_oxm_tunnel_id_masked_value_mask :: "64 word accessor" where
  "of_oxm_tunnel_id_masked_value_mask = u64_accessor [OF_OXM_TUNNEL_ID_MASKED] [(4, 12), (5, 12)]"

definition of_port_desc_stats_reply_class :: wire_class where
  "of_port_desc_stats_reply_class = \<lparr>class_id = OF_PORT_DESC_STATS_REPLY, whole_buffer = True, wire_types = Some [(4, [PutVersion 0, Put8 1 0x13, Put16 8 0xd]),
     (5, [PutVersion 0, Put8 1 0x13, Put16 8 0xd])],
     finishes = [MessageLength]\<rparr>"

definition of_port_desc_stats_reply_xid :: "32 word accessor" where
  "of_port_desc_stats_reply_xid = u32_accessor [OF_PORT_DESC_STATS_REPLY] [(4, 4), (5, 4)]"

definition of_port_desc_stats_reply_flags :: "16 word accessor" where
  "of_port_desc_stats_reply_flags = u16_accessor [OF_PORT_DESC_STATS_REPLY] [(4, 10), (5, 10)]"

definition of_port_desc_stats_request_class :: wire_class where
  "of_port_desc_stats_request_class = \<lparr>class_id = OF_PORT_DESC_STATS_REQUEST, whole_buffer = False, wire_types = Some [(4, [PutVersion 0, Put8 1 0x12, Put16 8 0xd]),
     (5, [PutVersion 0, Put8 1 0x12, Put16 8 0xd])],
     finishes = [MessageLength]\<rparr>"

definition of_port_desc_stats_request_xid :: "32 word accessor" where
  "of_port_desc_stats_request_xid = u32_accessor [OF_PORT_DESC_STATS_REQUEST] [(4, 4), (5, 4)]"

definition of_port_desc_stats_request_flags :: "16 word accessor" where
  "of_port_desc_stats_request_flags = u16_accessor [OF_PORT_DESC_STATS_REQUEST] [(4, 10), (5, 10)]"

definition of_table_feature_prop_class :: wire_class where
  "of_table_feature_prop_class = \<lparr>class_id = OF_TABLE_FEATURE_PROP, whole_buffer = True, wire_types = None,
     finishes = []\<rparr>"

text \<open>The classes, each with consistent wire types in every version that has it.\<close>

definition classes_16 :: "wire_class list" where
  "classes_16 = [of_instruction_id_bsn_span_destination_class, of_instruction_id_clear_actions_class,
     of_instruction_id_goto_table_class, of_instruction_meter_class, of_instruction_id_meter_class,
     of_instruction_id_write_actions_class, of_instruction_id_write_metadata_class, of_meter_band_class,
     of_meter_band_drop_class, of_meter_band_dscp_remark_class, of_meter_band_experimenter_class,
     of_meter_band_stats_class, of_meter_config_class, of_meter_config_stats_reply_class,
     of_meter_config_stats_request_class, of_meter_features_class, of_meter_features_stats_reply_class,
     of_meter_features_stats_request_class, of_meter_mod_class, of_meter_mod_failed_error_msg_class,
     of_meter_stats_class, of_meter_stats_reply_class, of_meter_stats_request_class,
     of_oxm_ipv6_exthdr_class, of_oxm_ipv6_exthdr_masked_class, of_oxm_mpls_bos_class,
     of_oxm_mpls_bos_masked_class, of_oxm_tunnel_id_class, of_oxm_tunnel_id_masked_class,
     of_port_desc_stats_reply_class, of_port_desc_stats_request_class, of_table_feature_prop_class]"

lemmas class_defs_16 =
  of_instruction_id_bsn_span_destination_class_def of_instruction_id_clear_actions_class_def
  of_instruction_id_goto_table_class_def of_instruction_meter_class_def
  of_instruction_id_meter_class_def of_instruction_id_write_actions_class_def
  of_instruction_id_write_metadata_class_def of_meter_band_class_def of_meter_band_drop_class_def
  of_meter_band_dscp_remark_class_def of_meter_band_experimenter_class_def
  of_meter_band_stats_class_def of_meter_config_class_def of_meter_config_stats_reply_class_def
  of_meter_config_stats_request_class_def of_meter_features_class_def
  of_meter_features_stats_reply_class_def of_meter_features_stats_request_class_def
  of_meter_mod_class_def of_meter_mod_failed_error_msg_class_def of_meter_stats_class_def
  of_meter_stats_reply_class_def of_meter_stats_request_class_def of_oxm_ipv6_exthdr_class_def
  of_oxm_ipv6_exthdr_masked_class_def of_oxm_mpls_bos_class_def of_oxm_mpls_bos_masked_class_def
  of_oxm_tunnel_id_class_def of_oxm_tunnel_id_masked_class_def of_port_desc_stats_reply_class_def
  of_port_desc_stats_request_class_def of_table_feature_prop_class_def

lemma classes_ok_16: "list_all class_ok classes_16"
  unfolding classes_16_def
  by (simp add: class_defs_16 class_checks)

text \<open>The accessors.\<close>

definition fields_16 :: "field list" where
  "fields_16 = [U32 of_instruction_id_bsn_span_destination_experimenter,
     U32 of_instruction_id_bsn_span_destination_subtype, U32 of_instruction_meter_meter_id,
     U32 of_meter_band_drop_rate, U32 of_meter_band_drop_burst_size, U32 of_meter_band_dscp_remark_rate,
     U32 of_meter_band_dscp_remark_burst_size, U8 of_meter_band_dscp_remark_prec_level,
     U32 of_meter_band_experimenter_rate, U32 of_meter_band_experimenter_burst_size,
     U32 of_meter_band_experimenter_experimenter, U64 of_meter_band_stats_packet_band_count,
     U64 of_meter_band_stats_byte_band_count, U16 of_meter_config_flags, U32 of_meter_config_meter_id,
     U32 of_meter_config_stats_reply_xid, U16 of_meter_config_stats_reply_flags,
     U32 of_meter_config_stats_request_xid, U16 of_meter_config_stats_request_flags,
     U32 of_meter_config_stats_request_meter_id, U32 of_meter_features_max_meter,
     U32 of_meter_features_band_types, U32 of_meter_features_capabilities, U8 of_meter_features_max_bands,
     U8 of_meter_features_max_color, U32 of_meter_features_stats_reply_xid,
     U16 of_meter_features_stats_reply_flags, U32 of_meter_features_stats_request_xid,
     U16 of_meter_features_stats_request_flags, U32 of_meter_mod_xid, U16 of_meter_mod_flags,
     U32 of_meter_mod_meter_id, U32 of_meter_mod_failed_error_msg_xid,
     U16 of_meter_mod_failed_error_msg_code, U32 of_meter_stats_meter_id, U32 of_meter_stats_flow_count,
     U64 of_meter_stats_packet_in_count, U64 of_meter_stats_byte_in_count,
     U32 of_meter_stats_duration_sec, U32 of_meter_stats_duration_nsec, U32 of_meter_stats_reply_xid,
     U16 of_meter_stats_reply_flags, U32 of_meter_stats_request_xid, U16 of_meter_stats_request_flags,
     U32 of_meter_stats_request_meter_id, U16 of_oxm_ipv6_exthdr_value,
     U16 of_oxm_ipv6_exthdr_masked_value, U16 of_oxm_ipv6_exthdr_masked_value_mask,
     U8 of_oxm_mpls_bos_value, U8 of_oxm_mpls_bos_masked_value, U8 of_oxm_mpls_bos_masked_value_mask,
     U64 of_oxm_tunnel_id_value, U64 of_oxm_tunnel_id_masked_value,
     U64 of_oxm_tunnel_id_masked_value_mask, U32 of_port_desc_stats_reply_xid,
     U16 of_port_desc_stats_reply_flags, U32 of_port_desc_stats_request_xid,
     U16 of_port_desc_stats_request_flags]"

lemmas accessor_defs_16 =
  of_instruction_id_bsn_span_destination_experimenter_def
  of_instruction_id_bsn_span_destination_subtype_def of_instruction_meter_meter_id_def
  of_meter_band_drop_rate_def of_meter_band_drop_burst_size_def of_meter_band_dscp_remark_rate_def
  of_meter_band_dscp_remark_burst_size_def of_meter_band_dscp_remark_prec_level_def
  of_meter_band_experimenter_rate_def of_meter_band_experimenter_burst_size_def
  of_meter_band_experimenter_experimenter_def of_meter_band_stats_packet_band_count_def
  of_meter_band_stats_byte_band_count_def of_meter_config_flags_def of_meter_config_meter_id_def
  of_meter_config_stats_reply_xid_def of_meter_config_stats_reply_flags_def
  of_meter_config_stats_request_xid_def of_meter_config_stats_request_flags_def
  of_meter_config_stats_request_meter_id_def of_meter_features_max_meter_def
  of_meter_features_band_types_def of_meter_features_capabilities_def
  of_meter_features_max_bands_def of_meter_features_max_color_def
  of_meter_features_stats_reply_xid_def of_meter_features_stats_reply_flags_def
  of_meter_features_stats_request_xid_def of_meter_features_stats_request_flags_def
  of_meter_mod_xid_def of_meter_mod_flags_def of_meter_mod_meter_id_def
  of_meter_mod_failed_error_msg_xid_def of_meter_mod_failed_error_msg_code_def
  of_meter_stats_meter_id_def of_meter_stats_flow_count_def of_meter_stats_packet_in_count_def
  of_meter_stats_byte_in_count_def of_meter_stats_duration_sec_def of_meter_stats_duration_nsec_def
  of_meter_stats_reply_xid_def of_meter_stats_reply_flags_def of_meter_stats_request_xid_def
  of_meter_stats_request_flags_def of_meter_stats_request_meter_id_def of_oxm_ipv6_exthdr_value_def
  of_oxm_ipv6_exthdr_masked_value_def of_oxm_ipv6_exthdr_masked_value_mask_def
  of_oxm_mpls_bos_value_def of_oxm_mpls_bos_masked_value_def of_oxm_mpls_bos_masked_value_mask_def
  of_oxm_tunnel_id_value_def of_oxm_tunnel_id_masked_value_def
  of_oxm_tunnel_id_masked_value_mask_def of_port_desc_stats_reply_xid_def
  of_port_desc_stats_reply_flags_def of_port_desc_stats_request_xid_def
  of_port_desc_stats_request_flags_def

lemma fields_ok_16: "list_all field_ok fields_16"
  unfolding fields_16_def accessor_defs_16
  by (simp add: accessors_ok octets_accessors_ok inside_rows del: field_ok.simps)

end
