(* ===== verification/Class17.thy ===== *)
theory Class17
  imports Construct
begin

text \<open>
  The classes of \<^verbatim>\<open>src/class17.c\<close>: for each what its constructor, initialiser and
  \<open>push_wire_types\<close> write, and the scalar accessors, a getter and a setter for each field at a fixed offset.
\<close>

definition of_table_feature_prop_apply_actions_class :: wire_class where
  "of_table_feature_prop_apply_actions_class = \<lparr>class_id = OF_TABLE_FEATURE_PROP_APPLY_ACTIONS, whole_buffer = True, wire_types = Some [(4, [Put16 0 0x6]),
     (5, [Put16 0 0x6])],
     finishes = [Tlv16Length]\<rparr>"

definition of_table_feature_prop_apply_actions_miss_class :: wire_class where
  "of_table_feature_prop_apply_actions_miss_class = \<lparr>class_id = OF_TABLE_FEATURE_PROP_APPLY_ACTIONS_MISS, whole_buffer = True, wire_types = Some [(4, [Put16 0 0x7]),
     (5, [Put16 0 0x7])],
     finishes = [Tlv16Length]\<rparr>"

definition of_table_feature_prop_apply_setfield_class :: wire_class where
  "of_table_feature_prop_apply_setfield_class = \<lparr>class_id = OF_TABLE_FEATURE_PROP_APPLY_SETFIELD, whole_buffer = True, wire_types = Some [(4, [Put16 0 0xe]),
     (5, [Put16 0 0xe])],
     finishes = [Tlv16Length]\<rparr>"

definition of_table_feature_prop_apply_setfield_miss_class :: wire_class where
  "of_table_feature_prop_apply_setfield_miss_class = \<lparr>class_id = OF_TABLE_FEATURE_PROP_APPLY_SETFIELD_MISS, whole_buffer = True, wire_types = Some [(4, [Put16 0 0xf]),
     (5, [Put16 0 0xf])],
     finishes = [Tlv16Length]\<rparr>"

definition of_table_feature_prop_experimenter_class :: wire_class where
  "of_table_feature_prop_experimenter_class = \<lparr>class_id = OF_TABLE_FEATURE_PROP_EXPERIMENTER, whole_buffer = True, wire_types = None,
     finishes = []\<rparr>"

definition of_table_feature_prop_experimenter_experimenter :: "32 word accessor" where
  "of_table_feature_prop_experimenter_experimenter = u32_accessor [OF_TABLE_FEATURE_PROP_EXPERIMENTER] [(4, 4), (5, 4)]"

definition of_table_feature_prop_experimenter_subtype :: "32 word accessor" where
  "of_table_feature_prop_experimenter_subtype = u32_accessor [OF_TABLE_FEATURE_PROP_EXPERIMENTER] [(4, 8), (5, 8)]"

definition of_table_feature_prop_experimenter_miss_class :: wire_class where
  "of_table_feature_prop_experimenter_miss_class = \<lparr>class_id = OF_TABLE_FEATURE_PROP_EXPERIMENTER_MISS, whole_buffer = True, wire_types = None,
     finishes = []\<rparr>"

definition of_table_feature_prop_experimenter_miss_experimenter :: "32 word accessor" where
  "of_table_feature_prop_experimenter_miss_experimenter = u32_accessor [OF_TABLE_FEATURE_PROP_EXPERIMENTER_MISS] [(4, 4), (5, 4)]"

definition of_table_feature_prop_experimenter_miss_subtype :: "32 word accessor" where
  "of_table_feature_prop_experimenter_miss_subtype = u32_accessor [OF_TABLE_FEATURE_PROP_EXPERIMENTER_MISS] [(4, 8), (5, 8)]"

definition of_table_feature_prop_instructions_class :: wire_class where
  "of_table_feature_prop_instructions_class = \<lparr>class_id = OF_TABLE_FEATURE_PROP_INSTRUCTIONS, whole_buffer = True, wire_types = Some [(4, [Put16 0 0x0]),
     (5, [Put16 0 0x0])],
     finishes = [Tlv16Length]\<rparr>"

definition of_table_feature_prop_instructions_miss_class :: wire_class where
  "of_table_feature_prop_instructions_miss_class = \<lparr>class_id = OF_TABLE_FEATURE_PROP_INSTRUCTIONS_MISS, whole_buffer = True, wire_types = Some [(4, [Put16 0 0x1]),
     (5, [Put16 0 0x1])],
     finishes = [Tlv16Length]\<rparr>"

definition of_table_feature_prop_match_class :: wire_class where
  "of_table_feature_prop_match_class = \<lparr>class_id = OF_TABLE_FEATURE_PROP_MATCH, whole_buffer = True, wire_types = Some [(4, [Put16 0 0x8]),
     (5, [Put16 0 0x8])],
     finishes = [Tlv16Length]\<rparr>"

definition of_table_feature_prop_next_tables_class :: wire_class where
  "of_table_feature_prop_next_tables_class = \<lparr>class_id = OF_TABLE_FEATURE_PROP_NEXT_TABLES, whole_buffer = True, wire_types = Some [(4, [Put16 0 0x2]),
     (5, [Put16 0 0x2])],
     finishes = [Tlv16Length]\<rparr>"

definition of_table_feature_prop_next_tables_miss_class :: wire_class where
  "of_table_feature_prop_next_tables_miss_class = \<lparr>class_id = OF_TABLE_FEATURE_PROP_NEXT_TABLES_MISS, whole_buffer = True, wire_types = Some [(4, [Put16 0 0x3]),
     (5, [Put16 0 0x3])],
     finishes = [Tlv16Length]\<rparr>"

definition of_table_feature_prop_wildcards_class :: wire_class where
  "of_table_feature_prop_wildcards_class = \<lparr>class_id = OF_TABLE_FEATURE_PROP_WILDCARDS, whole_buffer = True, wire_types = Some [(4, [Put16 0 0xa]),
     (5, [Put16 0 0xa])],
     finishes = [Tlv16Length]\<rparr>"

definition of_table_feature_prop_write_actions_class :: wire_class where
  "of_table_feature_prop_write_actions_class = \<lparr>class_id = OF_TABLE_FEATURE_PROP_WRITE_ACTIONS, whole_buffer = True, wire_types = Some [(4, [Put16 0 0x4]),
     (5, [Put16 0 0x4])],
     finishes = [Tlv16Length]\<rparr>"

definition of_table_feature_prop_write_actions_miss_class :: wire_class where
  "of_table_feature_prop_write_actions_miss_class = \<lparr>class_id = OF_TABLE_FEATURE_PROP_WRITE_ACTIONS_MISS, whole_buffer = True, wire_types = Some [(4, [Put16 0 0x5]),
     (5, [Put16 0 0x5])],
     finishes = [Tlv16Length]\<rparr>"

definition of_table_feature_prop_write_setfield_class :: wire_class where
  "of_table_feature_prop_write_setfield_class = \<lparr>class_id = OF_TABLE_FEATURE_PROP_WRITE_SETFIELD, whole_buffer = True, wire_types = Some [(4, [Put16 0 0xc]),
     (5, [Put16 0 0xc])],
     finishes = [Tlv16Length]\<rparr>"

definition of_table_feature_prop_write_setfield_miss_class :: wire_class where
  "of_table_feature_prop_write_setfield_miss_class = \<lparr>class_id = OF_TABLE_FEATURE_PROP_WRITE_SETFIELD_MISS, whole_buffer = True, wire_types = Some [(4, [Put16 0 0xd]),
     (5, [Put16 0 0xd])],
     finishes = [Tlv16Length]\<rparr>"

definition of_table_features_class :: wire_class where
  "of_table_features_class = \<lparr>class_id = OF_TABLE_FEATURES, whole_buffer = True, wire_types = None,
     finishes = [U16Length]\<rparr>"

definition of_table_features_table_id :: "byte accessor" where
  "of_table_features_table_id = u8_accessor [OF_TABLE_FEATURES] [(4, 2), (5, 2)]"

definition of_table_features_name :: "byte list accessor" where
  "of_table_features_name = tab_name_accessor [OF_TABLE_FEATURES] [(4, 8), (5, 8)]"

definition of_table_features_metadata_match :: "64 word accessor" where
  "of_table_features_metadata_match = u64_accessor [OF_TABLE_FEATURES] [(4, 40), (5, 40)]"

definition of_table_features_metadata_write :: "64 word accessor" where
  "of_table_features_metadata_write = u64_accessor [OF_TABLE_FEATURES] [(4, 48), (5, 48)]"

definition of_table_features_config :: "32 word accessor" where
  "of_table_features_config = u32_accessor [OF_TABLE_FEATURES] [(4, 56), (5, 56)]"

definition of_table_features_max_entries :: "32 word accessor" where
  "of_table_features_max_entries = u32_accessor [OF_TABLE_FEATURES] [(4, 60), (5, 60)]"

definition of_table_features_failed_error_msg_class :: wire_class where
  "of_table_features_failed_error_msg_class = \<lparr>class_id = OF_TABLE_FEATURES_FAILED_ERROR_MSG, whole_buffer = True, wire_types = Some [(4, [PutVersion 0, Put8 1 0x1, Put16 8 0xd]),
     (5, [PutVersion 0, Put8 1 0x1, Put16 8 0xd])],
     finishes = [MessageLength]\<rparr>"

definition of_table_features_failed_error_msg_xid :: "32 word accessor" where
  "of_table_features_failed_error_msg_xid = u32_accessor [OF_TABLE_FEATURES_FAILED_ERROR_MSG] [(4, 4), (5, 4)]"

definition of_table_features_failed_error_msg_code :: "16 word accessor" where
  "of_table_features_failed_error_msg_code = u16_accessor [OF_TABLE_FEATURES_FAILED_ERROR_MSG] [(4, 10), (5, 10)]"

definition of_table_features_stats_reply_class :: wire_class where
  "of_table_features_stats_reply_class = \<lparr>class_id = OF_TABLE_FEATURES_STATS_REPLY, whole_buffer = True, wire_types = Some [(4, [PutVersion 0, Put8 1 0x13, Put16 8 0xc]),
     (5, [PutVersion 0, Put8 1 0x13, Put16 8 0xc])],
     finishes = [MessageLength]\<rparr>"

definition of_table_features_stats_reply_xid :: "32 word accessor" where
  "of_table_features_stats_reply_xid = u32_accessor [OF_TABLE_FEATURES_STATS_REPLY] [(4, 4), (5, 4)]"

definition of_table_features_stats_reply_flags :: "16 word accessor" where
  "of_table_features_stats_reply_flags = u16_accessor [OF_TABLE_FEATURES_STATS_REPLY] [(4, 10), (5, 10)]"

definition of_table_features_stats_request_class :: wire_class where
  "of_table_features_stats_request_class = \<lparr>class_id = OF_TABLE_FEATURES_STATS_REQUEST, whole_buffer = True, wire_types = Some [(4, [PutVersion 0, Put8 1 0x12, Put16 8 0xc]),
     (5, [PutVersion 0, Put8 1 0x12, Put16 8 0xc])],
     finishes = [MessageLength]\<rparr>"

definition of_table_features_stats_request_xid :: "32 word accessor" where
  "of_table_features_stats_request_xid = u32_accessor [OF_TABLE_FEATURES_STATS_REQUEST] [(4, 4), (5, 4)]"

definition of_table_features_stats_request_flags :: "16 word accessor" where
  "of_table_features_stats_request_flags = u16_accessor [OF_TABLE_FEATURES_STATS_REQUEST] [(4, 10), (5, 10)]"

definition of_uint32_class :: wire_class where
  "of_uint32_class = \<lparr>class_id = OF_UINT32, whole_buffer = False, wire_types = None,
     finishes = []\<rparr>"

definition of_uint32_value :: "32 word accessor" where
  "of_uint32_value = u32_accessor [OF_UINT32] [(4, 0), (5, 0)]"

definition of_uint64_class :: wire_class where
  "of_uint64_class = \<lparr>class_id = OF_UINT64, whole_buffer = False, wire_types = None,
     finishes = []\<rparr>"

definition of_uint64_value :: "64 word accessor" where
  "of_uint64_value = u64_accessor [OF_UINT64] [(4, 0), (5, 0)]"

definition of_uint8_class :: wire_class where
  "of_uint8_class = \<lparr>class_id = OF_UINT8, whole_buffer = False, wire_types = None,
     finishes = []\<rparr>"

definition of_uint8_value :: "byte accessor" where
  "of_uint8_value = u8_accessor [OF_UINT8] [(4, 0), (5, 0)]"

definition of_async_config_failed_error_msg_class :: wire_class where
  "of_async_config_failed_error_msg_class = \<lparr>class_id = OF_ASYNC_CONFIG_FAILED_ERROR_MSG, whole_buffer = True, wire_types = Some [(5, [PutVersion 0, Put8 1 0x1, Put16 8 0xf])],
     finishes = [MessageLength]\<rparr>"

definition of_async_config_failed_error_msg_xid :: "32 word accessor" where
  "of_async_config_failed_error_msg_xid = u32_accessor [OF_ASYNC_CONFIG_FAILED_ERROR_MSG] [(5, 4)]"

definition of_async_config_failed_error_msg_code :: "16 word accessor" where
  "of_async_config_failed_error_msg_code = u16_accessor [OF_ASYNC_CONFIG_FAILED_ERROR_MSG] [(5, 10)]"

definition of_async_config_prop_class :: wire_class where
  "of_async_config_prop_class = \<lparr>class_id = OF_ASYNC_CONFIG_PROP, whole_buffer = True, wire_types = None,
     finishes = []\<rparr>"

definition of_async_config_prop_experimenter_master_class :: wire_class where
  "of_async_config_prop_experimenter_master_class = \<lparr>class_id = OF_ASYNC_CONFIG_PROP_EXPERIMENTER_MASTER, whole_buffer = False, wire_types = Some [(5, [Put16 0 0xffff])],
     finishes = [Tlv16Length]\<rparr>"

definition of_async_config_prop_experimenter_slave_class :: wire_class where
  "of_async_config_prop_experimenter_slave_class = \<lparr>class_id = OF_ASYNC_CONFIG_PROP_EXPERIMENTER_SLAVE, whole_buffer = False, wire_types = Some [(5, [Put16 0 0xfffe])],
     finishes = [Tlv16Length]\<rparr>"

definition of_async_config_prop_flow_removed_master_class :: wire_class where
  "of_async_config_prop_flow_removed_master_class = \<lparr>class_id = OF_ASYNC_CONFIG_PROP_FLOW_REMOVED_MASTER, whole_buffer = False, wire_types = Some [(5, [Put16 0 0x5])],
     finishes = [Tlv16Length]\<rparr>"

definition of_async_config_prop_flow_removed_master_mask :: "32 word accessor" where
  "of_async_config_prop_flow_removed_master_mask = u32_accessor [OF_ASYNC_CONFIG_PROP_FLOW_REMOVED_MASTER] [(5, 4)]"

definition of_async_config_prop_flow_removed_slave_class :: wire_class where
  "of_async_config_prop_flow_removed_slave_class = \<lparr>class_id = OF_ASYNC_CONFIG_PROP_FLOW_REMOVED_SLAVE, whole_buffer = False, wire_types = Some [(5, [Put16 0 0x4])],
     finishes = [Tlv16Length]\<rparr>"

definition of_async_config_prop_flow_removed_slave_mask :: "32 word accessor" where
  "of_async_config_prop_flow_removed_slave_mask = u32_accessor [OF_ASYNC_CONFIG_PROP_FLOW_REMOVED_SLAVE] [(5, 4)]"

definition of_async_config_prop_packet_in_master_class :: wire_class where
  "of_async_config_prop_packet_in_master_class = \<lparr>class_id = OF_ASYNC_CONFIG_PROP_PACKET_IN_MASTER, whole_buffer = False, wire_types = Some [(5, [Put16 0 0x1])],
     finishes = [Tlv16Length]\<rparr>"

definition of_async_config_prop_packet_in_master_mask :: "32 word accessor" where
  "of_async_config_prop_packet_in_master_mask = u32_accessor [OF_ASYNC_CONFIG_PROP_PACKET_IN_MASTER] [(5, 4)]"

definition of_async_config_prop_packet_in_slave_class :: wire_class where
  "of_async_config_prop_packet_in_slave_class = \<lparr>class_id = OF_ASYNC_CONFIG_PROP_PACKET_IN_SLAVE, whole_buffer = False, wire_types = Some [(5, [Put16 0 0x0])],
     finishes = [Tlv16Length]\<rparr>"

definition of_async_config_prop_packet_in_slave_mask :: "32 word accessor" where
  "of_async_config_prop_packet_in_slave_mask = u32_accessor [OF_ASYNC_CONFIG_PROP_PACKET_IN_SLAVE] [(5, 4)]"

definition of_async_config_prop_port_status_master_class :: wire_class where
  "of_async_config_prop_port_status_master_class = \<lparr>class_id = OF_ASYNC_CONFIG_PROP_PORT_STATUS_MASTER, whole_buffer = False, wire_types = Some [(5, [Put16 0 0x3])],
     finishes = [Tlv16Length]\<rparr>"

definition of_async_config_prop_port_status_master_mask :: "32 word accessor" where
  "of_async_config_prop_port_status_master_mask = u32_accessor [OF_ASYNC_CONFIG_PROP_PORT_STATUS_MASTER] [(5, 4)]"

text \<open>The classes, each with consistent wire types in every version that has it.\<close>

definition classes_17 :: "wire_class list" where
  "classes_17 = [of_table_feature_prop_apply_actions_class, of_table_feature_prop_apply_actions_miss_class,
     of_table_feature_prop_apply_setfield_class, of_table_feature_prop_apply_setfield_miss_class,
     of_table_feature_prop_experimenter_class, of_table_feature_prop_experimenter_miss_class,
     of_table_feature_prop_instructions_class, of_table_feature_prop_instructions_miss_class,
     of_table_feature_prop_match_class, of_table_feature_prop_next_tables_class,
     of_table_feature_prop_next_tables_miss_class, of_table_feature_prop_wildcards_class,
     of_table_feature_prop_write_actions_class, of_table_feature_prop_write_actions_miss_class,
     of_table_feature_prop_write_setfield_class, of_table_feature_prop_write_setfield_miss_class,
     of_table_features_class, of_table_features_failed_error_msg_class,
     of_table_features_stats_reply_class, of_table_features_stats_request_class, of_uint32_class,
     of_uint64_class, of_uint8_class, of_async_config_failed_error_msg_class, of_async_config_prop_class,
     of_async_config_prop_experimenter_master_class, of_async_config_prop_experimenter_slave_class,
     of_async_config_prop_flow_removed_master_class, of_async_config_prop_flow_removed_slave_class,
     of_async_config_prop_packet_in_master_class, of_async_config_prop_packet_in_slave_class,
     of_async_config_prop_port_status_master_class]"

lemmas class_defs_17 =
  of_table_feature_prop_apply_actions_class_def of_table_feature_prop_apply_actions_miss_class_def
  of_table_feature_prop_apply_setfield_class_def of_table_feature_prop_apply_setfield_miss_class_def
  of_table_feature_prop_experimenter_class_def of_table_feature_prop_experimenter_miss_class_def
  of_table_feature_prop_instructions_class_def of_table_feature_prop_instructions_miss_class_def
  of_table_feature_prop_match_class_def of_table_feature_prop_next_tables_class_def
  of_table_feature_prop_next_tables_miss_class_def of_table_feature_prop_wildcards_class_def
  of_table_feature_prop_write_actions_class_def of_table_feature_prop_write_actions_miss_class_def
  of_table_feature_prop_write_setfield_class_def of_table_feature_prop_write_setfield_miss_class_def
  of_table_features_class_def of_table_features_failed_error_msg_class_def
  of_table_features_stats_reply_class_def of_table_features_stats_request_class_def
  of_uint32_class_def of_uint64_class_def of_uint8_class_def
  of_async_config_failed_error_msg_class_def of_async_config_prop_class_def
  of_async_config_prop_experimenter_master_class_def
  of_async_config_prop_experimenter_slave_class_def
  of_async_config_prop_flow_removed_master_class_def
  of_async_config_prop_flow_removed_slave_class_def of_async_config_prop_packet_in_master_class_def
  of_async_config_prop_packet_in_slave_class_def of_async_config_prop_port_status_master_class_def

lemma classes_ok_17: "list_all class_ok classes_17"
  unfolding classes_17_def
  by (simp add: class_defs_17 class_checks)

text \<open>The accessors.\<close>

definition fields_17 :: "field list" where
  "fields_17 = [U32 of_table_feature_prop_experimenter_experimenter, U32 of_table_feature_prop_experimenter_subtype,
     U32 of_table_feature_prop_experimenter_miss_experimenter,
     U32 of_table_feature_prop_experimenter_miss_subtype, U8 of_table_features_table_id,
     Octets 32 of_table_features_name, U64 of_table_features_metadata_match,
     U64 of_table_features_metadata_write, U32 of_table_features_config,
     U32 of_table_features_max_entries, U32 of_table_features_failed_error_msg_xid,
     U16 of_table_features_failed_error_msg_code, U32 of_table_features_stats_reply_xid,
     U16 of_table_features_stats_reply_flags, U32 of_table_features_stats_request_xid,
     U16 of_table_features_stats_request_flags, U32 of_uint32_value, U64 of_uint64_value,
     U8 of_uint8_value, U32 of_async_config_failed_error_msg_xid,
     U16 of_async_config_failed_error_msg_code, U32 of_async_config_prop_flow_removed_master_mask,
     U32 of_async_config_prop_flow_removed_slave_mask, U32 of_async_config_prop_packet_in_master_mask,
     U32 of_async_config_prop_packet_in_slave_mask, U32 of_async_config_prop_port_status_master_mask]"

lemmas accessor_defs_17 =
  of_table_feature_prop_experimenter_experimenter_def of_table_feature_prop_experimenter_subtype_def
  of_table_feature_prop_experimenter_miss_experimenter_def
  of_table_feature_prop_experimenter_miss_subtype_def of_table_features_table_id_def
  of_table_features_name_def of_table_features_metadata_match_def
  of_table_features_metadata_write_def of_table_features_config_def
  of_table_features_max_entries_def of_table_features_failed_error_msg_xid_def
  of_table_features_failed_error_msg_code_def of_table_features_stats_reply_xid_def
  of_table_features_stats_reply_flags_def of_table_features_stats_request_xid_def
  of_table_features_stats_request_flags_def of_uint32_value_def of_uint64_value_def
  of_uint8_value_def of_async_config_failed_error_msg_xid_def
  of_async_config_failed_error_msg_code_def of_async_config_prop_flow_removed_master_mask_def
  of_async_config_prop_flow_removed_slave_mask_def of_async_config_prop_packet_in_master_mask_def
  of_async_config_prop_packet_in_slave_mask_def of_async_config_prop_port_status_master_mask_def

lemma fields_ok_17: "list_all field_ok fields_17"
  unfolding fields_17_def accessor_defs_17
  by (simp add: accessors_ok octets_accessors_ok inside_rows del: field_ok.simps)

end
