(* ===== verification/Class18.thy ===== *)
theory Class18
  imports Construct
begin

text \<open>
  The classes of \<^verbatim>\<open>src/class18.c\<close>: for each what its constructor, initialiser and
  \<open>push_wire_types\<close> write, and the scalar accessors, a getter and a setter for each field at a fixed offset.
\<close>

definition of_async_config_prop_port_status_slave_class :: wire_class where
  "of_async_config_prop_port_status_slave_class = \<lparr>class_id = OF_ASYNC_CONFIG_PROP_PORT_STATUS_SLAVE, whole_buffer = False, wire_types = Some [(5, [Put16 0 0x2])],
     finishes = [Tlv16Length]\<rparr>"

definition of_async_config_prop_port_status_slave_mask :: "32 word accessor" where
  "of_async_config_prop_port_status_slave_mask = u32_accessor [OF_ASYNC_CONFIG_PROP_PORT_STATUS_SLAVE] [(5, 4)]"

definition of_async_config_prop_requestforward_master_class :: wire_class where
  "of_async_config_prop_requestforward_master_class = \<lparr>class_id = OF_ASYNC_CONFIG_PROP_REQUESTFORWARD_MASTER, whole_buffer = False, wire_types = Some [(5, [Put16 0 0xb])],
     finishes = [Tlv16Length]\<rparr>"

definition of_async_config_prop_requestforward_master_mask :: "32 word accessor" where
  "of_async_config_prop_requestforward_master_mask = u32_accessor [OF_ASYNC_CONFIG_PROP_REQUESTFORWARD_MASTER] [(5, 4)]"

definition of_async_config_prop_requestforward_slave_class :: wire_class where
  "of_async_config_prop_requestforward_slave_class = \<lparr>class_id = OF_ASYNC_CONFIG_PROP_REQUESTFORWARD_SLAVE, whole_buffer = False, wire_types = Some [(5, [Put16 0 0xa])],
     finishes = [Tlv16Length]\<rparr>"

definition of_async_config_prop_requestforward_slave_mask :: "32 word accessor" where
  "of_async_config_prop_requestforward_slave_mask = u32_accessor [OF_ASYNC_CONFIG_PROP_REQUESTFORWARD_SLAVE] [(5, 4)]"

definition of_async_config_prop_role_status_master_class :: wire_class where
  "of_async_config_prop_role_status_master_class = \<lparr>class_id = OF_ASYNC_CONFIG_PROP_ROLE_STATUS_MASTER, whole_buffer = False, wire_types = Some [(5, [Put16 0 0x7])],
     finishes = [Tlv16Length]\<rparr>"

definition of_async_config_prop_role_status_master_mask :: "32 word accessor" where
  "of_async_config_prop_role_status_master_mask = u32_accessor [OF_ASYNC_CONFIG_PROP_ROLE_STATUS_MASTER] [(5, 4)]"

definition of_async_config_prop_role_status_slave_class :: wire_class where
  "of_async_config_prop_role_status_slave_class = \<lparr>class_id = OF_ASYNC_CONFIG_PROP_ROLE_STATUS_SLAVE, whole_buffer = False, wire_types = Some [(5, [Put16 0 0x6])],
     finishes = [Tlv16Length]\<rparr>"

definition of_async_config_prop_role_status_slave_mask :: "32 word accessor" where
  "of_async_config_prop_role_status_slave_mask = u32_accessor [OF_ASYNC_CONFIG_PROP_ROLE_STATUS_SLAVE] [(5, 4)]"

definition of_async_config_prop_table_status_master_class :: wire_class where
  "of_async_config_prop_table_status_master_class = \<lparr>class_id = OF_ASYNC_CONFIG_PROP_TABLE_STATUS_MASTER, whole_buffer = False, wire_types = Some [(5, [Put16 0 0x9])],
     finishes = [Tlv16Length]\<rparr>"

definition of_async_config_prop_table_status_master_mask :: "32 word accessor" where
  "of_async_config_prop_table_status_master_mask = u32_accessor [OF_ASYNC_CONFIG_PROP_TABLE_STATUS_MASTER] [(5, 4)]"

definition of_async_config_prop_table_status_slave_class :: wire_class where
  "of_async_config_prop_table_status_slave_class = \<lparr>class_id = OF_ASYNC_CONFIG_PROP_TABLE_STATUS_SLAVE, whole_buffer = False, wire_types = Some [(5, [Put16 0 0x8])],
     finishes = [Tlv16Length]\<rparr>"

definition of_async_config_prop_table_status_slave_mask :: "32 word accessor" where
  "of_async_config_prop_table_status_slave_mask = u32_accessor [OF_ASYNC_CONFIG_PROP_TABLE_STATUS_SLAVE] [(5, 4)]"

definition of_bad_property_error_msg_class :: wire_class where
  "of_bad_property_error_msg_class = \<lparr>class_id = OF_BAD_PROPERTY_ERROR_MSG, whole_buffer = True, wire_types = Some [(5, [PutVersion 0, Put8 1 0x1, Put16 8 0xe])],
     finishes = [MessageLength]\<rparr>"

definition of_bad_property_error_msg_xid :: "32 word accessor" where
  "of_bad_property_error_msg_xid = u32_accessor [OF_BAD_PROPERTY_ERROR_MSG] [(5, 4)]"

definition of_bad_property_error_msg_code :: "16 word accessor" where
  "of_bad_property_error_msg_code = u16_accessor [OF_BAD_PROPERTY_ERROR_MSG] [(5, 10)]"

definition of_bundle_add_msg_class :: wire_class where
  "of_bundle_add_msg_class = \<lparr>class_id = OF_BUNDLE_ADD_MSG, whole_buffer = True, wire_types = Some [(5, [PutVersion 0, Put8 1 0x22])],
     finishes = [MessageLength]\<rparr>"

definition of_bundle_add_msg_xid :: "32 word accessor" where
  "of_bundle_add_msg_xid = u32_accessor [OF_BUNDLE_ADD_MSG] [(5, 4)]"

definition of_bundle_add_msg_bundle_id :: "32 word accessor" where
  "of_bundle_add_msg_bundle_id = u32_accessor [OF_BUNDLE_ADD_MSG] [(5, 8)]"

definition of_bundle_add_msg_flags :: "16 word accessor" where
  "of_bundle_add_msg_flags = u16_accessor [OF_BUNDLE_ADD_MSG] [(5, 14)]"

definition of_bundle_ctrl_msg_class :: wire_class where
  "of_bundle_ctrl_msg_class = \<lparr>class_id = OF_BUNDLE_CTRL_MSG, whole_buffer = True, wire_types = Some [(5, [PutVersion 0, Put8 1 0x21])],
     finishes = [MessageLength]\<rparr>"

definition of_bundle_ctrl_msg_xid :: "32 word accessor" where
  "of_bundle_ctrl_msg_xid = u32_accessor [OF_BUNDLE_CTRL_MSG] [(5, 4)]"

definition of_bundle_ctrl_msg_bundle_id :: "32 word accessor" where
  "of_bundle_ctrl_msg_bundle_id = u32_accessor [OF_BUNDLE_CTRL_MSG] [(5, 8)]"

definition of_bundle_ctrl_msg_bundle_ctrl_type :: "16 word accessor" where
  "of_bundle_ctrl_msg_bundle_ctrl_type = u16_accessor [OF_BUNDLE_CTRL_MSG] [(5, 12)]"

definition of_bundle_ctrl_msg_flags :: "16 word accessor" where
  "of_bundle_ctrl_msg_flags = u16_accessor [OF_BUNDLE_CTRL_MSG] [(5, 14)]"

definition of_bundle_failed_error_msg_class :: wire_class where
  "of_bundle_failed_error_msg_class = \<lparr>class_id = OF_BUNDLE_FAILED_ERROR_MSG, whole_buffer = True, wire_types = Some [(5, [PutVersion 0, Put8 1 0x1, Put16 8 0x11])],
     finishes = [MessageLength]\<rparr>"

definition of_bundle_failed_error_msg_xid :: "32 word accessor" where
  "of_bundle_failed_error_msg_xid = u32_accessor [OF_BUNDLE_FAILED_ERROR_MSG] [(5, 4)]"

definition of_bundle_failed_error_msg_code :: "16 word accessor" where
  "of_bundle_failed_error_msg_code = u16_accessor [OF_BUNDLE_FAILED_ERROR_MSG] [(5, 10)]"

definition of_bundle_prop_class :: wire_class where
  "of_bundle_prop_class = \<lparr>class_id = OF_BUNDLE_PROP, whole_buffer = True, wire_types = None,
     finishes = []\<rparr>"

definition of_bundle_prop_experimenter_class :: wire_class where
  "of_bundle_prop_experimenter_class = \<lparr>class_id = OF_BUNDLE_PROP_EXPERIMENTER, whole_buffer = True, wire_types = None,
     finishes = []\<rparr>"

definition of_bundle_prop_experimenter_experimenter :: "32 word accessor" where
  "of_bundle_prop_experimenter_experimenter = u32_accessor [OF_BUNDLE_PROP_EXPERIMENTER] [(5, 4)]"

definition of_bundle_prop_experimenter_exp_type :: "32 word accessor" where
  "of_bundle_prop_experimenter_exp_type = u32_accessor [OF_BUNDLE_PROP_EXPERIMENTER] [(5, 8)]"

definition of_flow_monitor_failed_error_msg_class :: wire_class where
  "of_flow_monitor_failed_error_msg_class = \<lparr>class_id = OF_FLOW_MONITOR_FAILED_ERROR_MSG, whole_buffer = True, wire_types = Some [(5, [PutVersion 0, Put8 1 0x1, Put16 8 0x10])],
     finishes = [MessageLength]\<rparr>"

definition of_flow_monitor_failed_error_msg_xid :: "32 word accessor" where
  "of_flow_monitor_failed_error_msg_xid = u32_accessor [OF_FLOW_MONITOR_FAILED_ERROR_MSG] [(5, 4)]"

definition of_flow_monitor_failed_error_msg_code :: "16 word accessor" where
  "of_flow_monitor_failed_error_msg_code = u16_accessor [OF_FLOW_MONITOR_FAILED_ERROR_MSG] [(5, 10)]"

definition of_oxm_pbb_uca_class :: wire_class where
  "of_oxm_pbb_uca_class = \<lparr>class_id = OF_OXM_PBB_UCA, whole_buffer = False, wire_types = Some [(5, [Put32 0 0x80005201])],
     finishes = []\<rparr>"

definition of_oxm_pbb_uca_value :: "byte accessor" where
  "of_oxm_pbb_uca_value = u8_accessor [OF_OXM_PBB_UCA] [(5, 4)]"

definition of_oxm_pbb_uca_masked_class :: wire_class where
  "of_oxm_pbb_uca_masked_class = \<lparr>class_id = OF_OXM_PBB_UCA_MASKED, whole_buffer = False, wire_types = Some [(5, [Put32 0 0x80005302])],
     finishes = []\<rparr>"

definition of_oxm_pbb_uca_masked_value :: "byte accessor" where
  "of_oxm_pbb_uca_masked_value = u8_accessor [OF_OXM_PBB_UCA_MASKED] [(5, 4)]"

definition of_oxm_pbb_uca_masked_value_mask :: "byte accessor" where
  "of_oxm_pbb_uca_masked_value_mask = u8_accessor [OF_OXM_PBB_UCA_MASKED] [(5, 5)]"

definition of_port_desc_prop_class :: wire_class where
  "of_port_desc_prop_class = \<lparr>class_id = OF_PORT_DESC_PROP, whole_buffer = True, wire_types = None,
     finishes = []\<rparr>"

definition of_port_desc_prop_experimenter_class :: wire_class where
  "of_port_desc_prop_experimenter_class = \<lparr>class_id = OF_PORT_DESC_PROP_EXPERIMENTER, whole_buffer = True, wire_types = None,
     finishes = []\<rparr>"

definition of_port_desc_prop_experimenter_experimenter :: "32 word accessor" where
  "of_port_desc_prop_experimenter_experimenter = u32_accessor [OF_PORT_DESC_PROP_EXPERIMENTER] [(5, 4)]"

definition of_port_desc_prop_experimenter_exp_type :: "32 word accessor" where
  "of_port_desc_prop_experimenter_exp_type = u32_accessor [OF_PORT_DESC_PROP_EXPERIMENTER] [(5, 8)]"

definition of_port_desc_prop_bsn_class :: wire_class where
  "of_port_desc_prop_bsn_class = \<lparr>class_id = OF_PORT_DESC_PROP_BSN, whole_buffer = True, wire_types = None,
     finishes = []\<rparr>"

definition of_port_desc_prop_bsn_experimenter :: "32 word accessor" where
  "of_port_desc_prop_bsn_experimenter = u32_accessor [OF_PORT_DESC_PROP_BSN] [(5, 4)]"

definition of_port_desc_prop_bsn_exp_type :: "32 word accessor" where
  "of_port_desc_prop_bsn_exp_type = u32_accessor [OF_PORT_DESC_PROP_BSN] [(5, 8)]"

definition of_port_desc_prop_bsn_uplink_class :: wire_class where
  "of_port_desc_prop_bsn_uplink_class = \<lparr>class_id = OF_PORT_DESC_PROP_BSN_UPLINK, whole_buffer = False, wire_types = Some [(5, [Put16 0 0xffff, Put32 4 0x5c16c7, Put32 8 0x0])],
     finishes = [Tlv16Length]\<rparr>"

definition of_port_desc_prop_bsn_uplink_experimenter :: "32 word accessor" where
  "of_port_desc_prop_bsn_uplink_experimenter = u32_accessor [OF_PORT_DESC_PROP_BSN_UPLINK] [(5, 4)]"

definition of_port_desc_prop_bsn_uplink_exp_type :: "32 word accessor" where
  "of_port_desc_prop_bsn_uplink_exp_type = u32_accessor [OF_PORT_DESC_PROP_BSN_UPLINK] [(5, 8)]"

definition of_port_desc_prop_ethernet_class :: wire_class where
  "of_port_desc_prop_ethernet_class = \<lparr>class_id = OF_PORT_DESC_PROP_ETHERNET, whole_buffer = False, wire_types = Some [(5, [Put16 0 0x0])],
     finishes = [Tlv16Length]\<rparr>"

definition of_port_desc_prop_ethernet_curr :: "32 word accessor" where
  "of_port_desc_prop_ethernet_curr = u32_accessor [OF_PORT_DESC_PROP_ETHERNET] [(5, 8)]"

definition of_port_desc_prop_ethernet_advertised :: "32 word accessor" where
  "of_port_desc_prop_ethernet_advertised = u32_accessor [OF_PORT_DESC_PROP_ETHERNET] [(5, 12)]"

definition of_port_desc_prop_ethernet_supported :: "32 word accessor" where
  "of_port_desc_prop_ethernet_supported = u32_accessor [OF_PORT_DESC_PROP_ETHERNET] [(5, 16)]"

definition of_port_desc_prop_ethernet_peer :: "32 word accessor" where
  "of_port_desc_prop_ethernet_peer = u32_accessor [OF_PORT_DESC_PROP_ETHERNET] [(5, 20)]"

definition of_port_desc_prop_ethernet_curr_speed :: "32 word accessor" where
  "of_port_desc_prop_ethernet_curr_speed = u32_accessor [OF_PORT_DESC_PROP_ETHERNET] [(5, 24)]"

definition of_port_desc_prop_ethernet_max_speed :: "32 word accessor" where
  "of_port_desc_prop_ethernet_max_speed = u32_accessor [OF_PORT_DESC_PROP_ETHERNET] [(5, 28)]"

definition of_port_desc_prop_optical_class :: wire_class where
  "of_port_desc_prop_optical_class = \<lparr>class_id = OF_PORT_DESC_PROP_OPTICAL, whole_buffer = False, wire_types = Some [(5, [Put16 0 0x1])],
     finishes = [Tlv16Length]\<rparr>"

definition of_port_desc_prop_optical_supported :: "32 word accessor" where
  "of_port_desc_prop_optical_supported = u32_accessor [OF_PORT_DESC_PROP_OPTICAL] [(5, 8)]"

definition of_port_desc_prop_optical_tx_min_freq_lmda :: "32 word accessor" where
  "of_port_desc_prop_optical_tx_min_freq_lmda = u32_accessor [OF_PORT_DESC_PROP_OPTICAL] [(5, 12)]"

definition of_port_desc_prop_optical_tx_max_freq_lmda :: "32 word accessor" where
  "of_port_desc_prop_optical_tx_max_freq_lmda = u32_accessor [OF_PORT_DESC_PROP_OPTICAL] [(5, 16)]"

definition of_port_desc_prop_optical_tx_grid_freq_lmda :: "32 word accessor" where
  "of_port_desc_prop_optical_tx_grid_freq_lmda = u32_accessor [OF_PORT_DESC_PROP_OPTICAL] [(5, 20)]"

definition of_port_desc_prop_optical_rx_min_freq_lmda :: "32 word accessor" where
  "of_port_desc_prop_optical_rx_min_freq_lmda = u32_accessor [OF_PORT_DESC_PROP_OPTICAL] [(5, 24)]"

definition of_port_desc_prop_optical_rx_max_freq_lmda :: "32 word accessor" where
  "of_port_desc_prop_optical_rx_max_freq_lmda = u32_accessor [OF_PORT_DESC_PROP_OPTICAL] [(5, 28)]"

definition of_port_desc_prop_optical_rx_grid_freq_lmda :: "32 word accessor" where
  "of_port_desc_prop_optical_rx_grid_freq_lmda = u32_accessor [OF_PORT_DESC_PROP_OPTICAL] [(5, 32)]"

definition of_port_desc_prop_optical_tx_pwr_min :: "32 word accessor" where
  "of_port_desc_prop_optical_tx_pwr_min = u32_accessor [OF_PORT_DESC_PROP_OPTICAL] [(5, 36)]"

definition of_port_desc_prop_optical_tx_pwr_max :: "32 word accessor" where
  "of_port_desc_prop_optical_tx_pwr_max = u32_accessor [OF_PORT_DESC_PROP_OPTICAL] [(5, 40)]"

definition of_port_mod_prop_class :: wire_class where
  "of_port_mod_prop_class = \<lparr>class_id = OF_PORT_MOD_PROP, whole_buffer = True, wire_types = None,
     finishes = []\<rparr>"

definition of_port_mod_prop_ethernet_class :: wire_class where
  "of_port_mod_prop_ethernet_class = \<lparr>class_id = OF_PORT_MOD_PROP_ETHERNET, whole_buffer = False, wire_types = Some [(5, [Put16 0 0x0])],
     finishes = [Tlv16Length]\<rparr>"

definition of_port_mod_prop_ethernet_advertise :: "32 word accessor" where
  "of_port_mod_prop_ethernet_advertise = u32_accessor [OF_PORT_MOD_PROP_ETHERNET] [(5, 4)]"

definition of_port_mod_prop_experimenter_class :: wire_class where
  "of_port_mod_prop_experimenter_class = \<lparr>class_id = OF_PORT_MOD_PROP_EXPERIMENTER, whole_buffer = True, wire_types = None,
     finishes = []\<rparr>"

definition of_port_mod_prop_experimenter_experimenter :: "32 word accessor" where
  "of_port_mod_prop_experimenter_experimenter = u32_accessor [OF_PORT_MOD_PROP_EXPERIMENTER] [(5, 4)]"

definition of_port_mod_prop_experimenter_exp_type :: "32 word accessor" where
  "of_port_mod_prop_experimenter_exp_type = u32_accessor [OF_PORT_MOD_PROP_EXPERIMENTER] [(5, 8)]"

definition of_port_mod_prop_optical_class :: wire_class where
  "of_port_mod_prop_optical_class = \<lparr>class_id = OF_PORT_MOD_PROP_OPTICAL, whole_buffer = False, wire_types = Some [(5, [Put16 0 0x1])],
     finishes = [Tlv16Length]\<rparr>"

definition of_port_mod_prop_optical_configure :: "32 word accessor" where
  "of_port_mod_prop_optical_configure = u32_accessor [OF_PORT_MOD_PROP_OPTICAL] [(5, 4)]"

definition of_port_mod_prop_optical_freq_ldma :: "32 word accessor" where
  "of_port_mod_prop_optical_freq_ldma = u32_accessor [OF_PORT_MOD_PROP_OPTICAL] [(5, 8)]"

definition of_port_mod_prop_optical_fl_offset :: "32 word accessor" where
  "of_port_mod_prop_optical_fl_offset = u32_accessor [OF_PORT_MOD_PROP_OPTICAL] [(5, 12)]"

definition of_port_mod_prop_optical_grid_span :: "32 word accessor" where
  "of_port_mod_prop_optical_grid_span = u32_accessor [OF_PORT_MOD_PROP_OPTICAL] [(5, 16)]"

definition of_port_mod_prop_optical_tx_pwr :: "32 word accessor" where
  "of_port_mod_prop_optical_tx_pwr = u32_accessor [OF_PORT_MOD_PROP_OPTICAL] [(5, 20)]"

definition of_port_stats_prop_class :: wire_class where
  "of_port_stats_prop_class = \<lparr>class_id = OF_PORT_STATS_PROP, whole_buffer = True, wire_types = None,
     finishes = []\<rparr>"

definition of_port_stats_prop_ethernet_class :: wire_class where
  "of_port_stats_prop_ethernet_class = \<lparr>class_id = OF_PORT_STATS_PROP_ETHERNET, whole_buffer = False, wire_types = Some [(5, [Put16 0 0x0])],
     finishes = [Tlv16Length]\<rparr>"

definition of_port_stats_prop_ethernet_rx_frame_err :: "64 word accessor" where
  "of_port_stats_prop_ethernet_rx_frame_err = u64_accessor [OF_PORT_STATS_PROP_ETHERNET] [(5, 8)]"

definition of_port_stats_prop_ethernet_rx_over_err :: "64 word accessor" where
  "of_port_stats_prop_ethernet_rx_over_err = u64_accessor [OF_PORT_STATS_PROP_ETHERNET] [(5, 16)]"

definition of_port_stats_prop_ethernet_rx_crc_err :: "64 word accessor" where
  "of_port_stats_prop_ethernet_rx_crc_err = u64_accessor [OF_PORT_STATS_PROP_ETHERNET] [(5, 24)]"

definition of_port_stats_prop_ethernet_collisions :: "64 word accessor" where
  "of_port_stats_prop_ethernet_collisions = u64_accessor [OF_PORT_STATS_PROP_ETHERNET] [(5, 32)]"

definition of_port_stats_prop_experimenter_class :: wire_class where
  "of_port_stats_prop_experimenter_class = \<lparr>class_id = OF_PORT_STATS_PROP_EXPERIMENTER, whole_buffer = True, wire_types = None,
     finishes = []\<rparr>"

definition of_port_stats_prop_experimenter_experimenter :: "32 word accessor" where
  "of_port_stats_prop_experimenter_experimenter = u32_accessor [OF_PORT_STATS_PROP_EXPERIMENTER] [(5, 4)]"

definition of_port_stats_prop_experimenter_exp_type :: "32 word accessor" where
  "of_port_stats_prop_experimenter_exp_type = u32_accessor [OF_PORT_STATS_PROP_EXPERIMENTER] [(5, 8)]"

definition of_port_stats_prop_optical_class :: wire_class where
  "of_port_stats_prop_optical_class = \<lparr>class_id = OF_PORT_STATS_PROP_OPTICAL, whole_buffer = False, wire_types = Some [(5, [Put16 0 0x1])],
     finishes = [Tlv16Length]\<rparr>"

definition of_port_stats_prop_optical_flags :: "32 word accessor" where
  "of_port_stats_prop_optical_flags = u32_accessor [OF_PORT_STATS_PROP_OPTICAL] [(5, 8)]"

definition of_port_stats_prop_optical_tx_freq_lmda :: "32 word accessor" where
  "of_port_stats_prop_optical_tx_freq_lmda = u32_accessor [OF_PORT_STATS_PROP_OPTICAL] [(5, 12)]"

definition of_port_stats_prop_optical_tx_offset :: "32 word accessor" where
  "of_port_stats_prop_optical_tx_offset = u32_accessor [OF_PORT_STATS_PROP_OPTICAL] [(5, 16)]"

definition of_port_stats_prop_optical_tx_grid_span :: "32 word accessor" where
  "of_port_stats_prop_optical_tx_grid_span = u32_accessor [OF_PORT_STATS_PROP_OPTICAL] [(5, 20)]"

definition of_port_stats_prop_optical_rx_freq_lmda :: "32 word accessor" where
  "of_port_stats_prop_optical_rx_freq_lmda = u32_accessor [OF_PORT_STATS_PROP_OPTICAL] [(5, 24)]"

definition of_port_stats_prop_optical_rx_offset :: "32 word accessor" where
  "of_port_stats_prop_optical_rx_offset = u32_accessor [OF_PORT_STATS_PROP_OPTICAL] [(5, 28)]"

definition of_port_stats_prop_optical_rx_grid_span :: "32 word accessor" where
  "of_port_stats_prop_optical_rx_grid_span = u32_accessor [OF_PORT_STATS_PROP_OPTICAL] [(5, 32)]"

definition of_port_stats_prop_optical_tx_pwr :: "16 word accessor" where
  "of_port_stats_prop_optical_tx_pwr = u16_accessor [OF_PORT_STATS_PROP_OPTICAL] [(5, 36)]"

definition of_port_stats_prop_optical_rx_pwr :: "16 word accessor" where
  "of_port_stats_prop_optical_rx_pwr = u16_accessor [OF_PORT_STATS_PROP_OPTICAL] [(5, 38)]"

definition of_port_stats_prop_optical_bias_current :: "16 word accessor" where
  "of_port_stats_prop_optical_bias_current = u16_accessor [OF_PORT_STATS_PROP_OPTICAL] [(5, 40)]"

definition of_port_stats_prop_optical_temperature :: "16 word accessor" where
  "of_port_stats_prop_optical_temperature = u16_accessor [OF_PORT_STATS_PROP_OPTICAL] [(5, 42)]"

definition of_queue_desc_class :: wire_class where
  "of_queue_desc_class = \<lparr>class_id = OF_QUEUE_DESC, whole_buffer = True, wire_types = None,
     finishes = [QueueDescLength]\<rparr>"

definition of_queue_desc_port_no :: "32 word accessor" where
  "of_queue_desc_port_no = u32_accessor [OF_QUEUE_DESC] [(5, 0)]"

definition of_queue_desc_queue_id :: "32 word accessor" where
  "of_queue_desc_queue_id = u32_accessor [OF_QUEUE_DESC] [(5, 4)]"

definition of_queue_desc_prop_class :: wire_class where
  "of_queue_desc_prop_class = \<lparr>class_id = OF_QUEUE_DESC_PROP, whole_buffer = True, wire_types = None,
     finishes = []\<rparr>"

text \<open>The classes, each with consistent wire types in every version that has it.\<close>

definition classes_18 :: "wire_class list" where
  "classes_18 = [of_async_config_prop_port_status_slave_class, of_async_config_prop_requestforward_master_class,
     of_async_config_prop_requestforward_slave_class, of_async_config_prop_role_status_master_class,
     of_async_config_prop_role_status_slave_class, of_async_config_prop_table_status_master_class,
     of_async_config_prop_table_status_slave_class, of_bad_property_error_msg_class,
     of_bundle_add_msg_class, of_bundle_ctrl_msg_class, of_bundle_failed_error_msg_class,
     of_bundle_prop_class, of_bundle_prop_experimenter_class, of_flow_monitor_failed_error_msg_class,
     of_oxm_pbb_uca_class, of_oxm_pbb_uca_masked_class, of_port_desc_prop_class,
     of_port_desc_prop_experimenter_class, of_port_desc_prop_bsn_class,
     of_port_desc_prop_bsn_uplink_class, of_port_desc_prop_ethernet_class,
     of_port_desc_prop_optical_class, of_port_mod_prop_class, of_port_mod_prop_ethernet_class,
     of_port_mod_prop_experimenter_class, of_port_mod_prop_optical_class, of_port_stats_prop_class,
     of_port_stats_prop_ethernet_class, of_port_stats_prop_experimenter_class,
     of_port_stats_prop_optical_class, of_queue_desc_class, of_queue_desc_prop_class]"

lemmas class_defs_18 =
  of_async_config_prop_port_status_slave_class_def
  of_async_config_prop_requestforward_master_class_def
  of_async_config_prop_requestforward_slave_class_def
  of_async_config_prop_role_status_master_class_def of_async_config_prop_role_status_slave_class_def
  of_async_config_prop_table_status_master_class_def
  of_async_config_prop_table_status_slave_class_def of_bad_property_error_msg_class_def
  of_bundle_add_msg_class_def of_bundle_ctrl_msg_class_def of_bundle_failed_error_msg_class_def
  of_bundle_prop_class_def of_bundle_prop_experimenter_class_def
  of_flow_monitor_failed_error_msg_class_def of_oxm_pbb_uca_class_def
  of_oxm_pbb_uca_masked_class_def of_port_desc_prop_class_def
  of_port_desc_prop_experimenter_class_def of_port_desc_prop_bsn_class_def
  of_port_desc_prop_bsn_uplink_class_def of_port_desc_prop_ethernet_class_def
  of_port_desc_prop_optical_class_def of_port_mod_prop_class_def of_port_mod_prop_ethernet_class_def
  of_port_mod_prop_experimenter_class_def of_port_mod_prop_optical_class_def
  of_port_stats_prop_class_def of_port_stats_prop_ethernet_class_def
  of_port_stats_prop_experimenter_class_def of_port_stats_prop_optical_class_def
  of_queue_desc_class_def of_queue_desc_prop_class_def

lemma classes_ok_18: "list_all class_ok classes_18"
  unfolding classes_18_def
  by (simp add: class_defs_18 class_checks)

text \<open>The accessors.\<close>

definition fields_18 :: "field list" where
  "fields_18 = [U32 of_async_config_prop_port_status_slave_mask, U32 of_async_config_prop_requestforward_master_mask,
     U32 of_async_config_prop_requestforward_slave_mask, U32 of_async_config_prop_role_status_master_mask,
     U32 of_async_config_prop_role_status_slave_mask, U32 of_async_config_prop_table_status_master_mask,
     U32 of_async_config_prop_table_status_slave_mask, U32 of_bad_property_error_msg_xid,
     U16 of_bad_property_error_msg_code, U32 of_bundle_add_msg_xid, U32 of_bundle_add_msg_bundle_id,
     U16 of_bundle_add_msg_flags, U32 of_bundle_ctrl_msg_xid, U32 of_bundle_ctrl_msg_bundle_id,
     U16 of_bundle_ctrl_msg_bundle_ctrl_type, U16 of_bundle_ctrl_msg_flags,
     U32 of_bundle_failed_error_msg_xid, U16 of_bundle_failed_error_msg_code,
     U32 of_bundle_prop_experimenter_experimenter, U32 of_bundle_prop_experimenter_exp_type,
     U32 of_flow_monitor_failed_error_msg_xid, U16 of_flow_monitor_failed_error_msg_code,
     U8 of_oxm_pbb_uca_value, U8 of_oxm_pbb_uca_masked_value, U8 of_oxm_pbb_uca_masked_value_mask,
     U32 of_port_desc_prop_experimenter_experimenter, U32 of_port_desc_prop_experimenter_exp_type,
     U32 of_port_desc_prop_bsn_experimenter, U32 of_port_desc_prop_bsn_exp_type,
     U32 of_port_desc_prop_bsn_uplink_experimenter, U32 of_port_desc_prop_bsn_uplink_exp_type,
     U32 of_port_desc_prop_ethernet_curr, U32 of_port_desc_prop_ethernet_advertised,
     U32 of_port_desc_prop_ethernet_supported, U32 of_port_desc_prop_ethernet_peer,
     U32 of_port_desc_prop_ethernet_curr_speed, U32 of_port_desc_prop_ethernet_max_speed,
     U32 of_port_desc_prop_optical_supported, U32 of_port_desc_prop_optical_tx_min_freq_lmda,
     U32 of_port_desc_prop_optical_tx_max_freq_lmda, U32 of_port_desc_prop_optical_tx_grid_freq_lmda,
     U32 of_port_desc_prop_optical_rx_min_freq_lmda, U32 of_port_desc_prop_optical_rx_max_freq_lmda,
     U32 of_port_desc_prop_optical_rx_grid_freq_lmda, U32 of_port_desc_prop_optical_tx_pwr_min,
     U32 of_port_desc_prop_optical_tx_pwr_max, U32 of_port_mod_prop_ethernet_advertise,
     U32 of_port_mod_prop_experimenter_experimenter, U32 of_port_mod_prop_experimenter_exp_type,
     U32 of_port_mod_prop_optical_configure, U32 of_port_mod_prop_optical_freq_ldma,
     U32 of_port_mod_prop_optical_fl_offset, U32 of_port_mod_prop_optical_grid_span,
     U32 of_port_mod_prop_optical_tx_pwr, U64 of_port_stats_prop_ethernet_rx_frame_err,
     U64 of_port_stats_prop_ethernet_rx_over_err, U64 of_port_stats_prop_ethernet_rx_crc_err,
     U64 of_port_stats_prop_ethernet_collisions, U32 of_port_stats_prop_experimenter_experimenter,
     U32 of_port_stats_prop_experimenter_exp_type, U32 of_port_stats_prop_optical_flags,
     U32 of_port_stats_prop_optical_tx_freq_lmda, U32 of_port_stats_prop_optical_tx_offset,
     U32 of_port_stats_prop_optical_tx_grid_span, U32 of_port_stats_prop_optical_rx_freq_lmda,
     U32 of_port_stats_prop_optical_rx_offset, U32 of_port_stats_prop_optical_rx_grid_span,
     U16 of_port_stats_prop_optical_tx_pwr, U16 of_port_stats_prop_optical_rx_pwr,
     U16 of_port_stats_prop_optical_bias_current, U16 of_port_stats_prop_optical_temperature,
     U32 of_queue_desc_port_no, U32 of_queue_desc_queue_id]"

lemmas accessor_defs_18 =
  of_async_config_prop_port_status_slave_mask_def of_async_config_prop_requestforward_master_mask_def
  of_async_config_prop_requestforward_slave_mask_def of_async_config_prop_role_status_master_mask_def
  of_async_config_prop_role_status_slave_mask_def of_async_config_prop_table_status_master_mask_def
  of_async_config_prop_table_status_slave_mask_def of_bad_property_error_msg_xid_def
  of_bad_property_error_msg_code_def of_bundle_add_msg_xid_def of_bundle_add_msg_bundle_id_def
  of_bundle_add_msg_flags_def of_bundle_ctrl_msg_xid_def of_bundle_ctrl_msg_bundle_id_def
  of_bundle_ctrl_msg_bundle_ctrl_type_def of_bundle_ctrl_msg_flags_def
  of_bundle_failed_error_msg_xid_def of_bundle_failed_error_msg_code_def
  of_bundle_prop_experimenter_experimenter_def of_bundle_prop_experimenter_exp_type_def
  of_flow_monitor_failed_error_msg_xid_def of_flow_monitor_failed_error_msg_code_def
  of_oxm_pbb_uca_value_def of_oxm_pbb_uca_masked_value_def of_oxm_pbb_uca_masked_value_mask_def
  of_port_desc_prop_experimenter_experimenter_def of_port_desc_prop_experimenter_exp_type_def
  of_port_desc_prop_bsn_experimenter_def of_port_desc_prop_bsn_exp_type_def
  of_port_desc_prop_bsn_uplink_experimenter_def of_port_desc_prop_bsn_uplink_exp_type_def
  of_port_desc_prop_ethernet_curr_def of_port_desc_prop_ethernet_advertised_def
  of_port_desc_prop_ethernet_supported_def of_port_desc_prop_ethernet_peer_def
  of_port_desc_prop_ethernet_curr_speed_def of_port_desc_prop_ethernet_max_speed_def
  of_port_desc_prop_optical_supported_def of_port_desc_prop_optical_tx_min_freq_lmda_def
  of_port_desc_prop_optical_tx_max_freq_lmda_def of_port_desc_prop_optical_tx_grid_freq_lmda_def
  of_port_desc_prop_optical_rx_min_freq_lmda_def of_port_desc_prop_optical_rx_max_freq_lmda_def
  of_port_desc_prop_optical_rx_grid_freq_lmda_def of_port_desc_prop_optical_tx_pwr_min_def
  of_port_desc_prop_optical_tx_pwr_max_def of_port_mod_prop_ethernet_advertise_def
  of_port_mod_prop_experimenter_experimenter_def of_port_mod_prop_experimenter_exp_type_def
  of_port_mod_prop_optical_configure_def of_port_mod_prop_optical_freq_ldma_def
  of_port_mod_prop_optical_fl_offset_def of_port_mod_prop_optical_grid_span_def
  of_port_mod_prop_optical_tx_pwr_def of_port_stats_prop_ethernet_rx_frame_err_def
  of_port_stats_prop_ethernet_rx_over_err_def of_port_stats_prop_ethernet_rx_crc_err_def
  of_port_stats_prop_ethernet_collisions_def of_port_stats_prop_experimenter_experimenter_def
  of_port_stats_prop_experimenter_exp_type_def of_port_stats_prop_optical_flags_def
  of_port_stats_prop_optical_tx_freq_lmda_def of_port_stats_prop_optical_tx_offset_def
  of_port_stats_prop_optical_tx_grid_span_def of_port_stats_prop_optical_rx_freq_lmda_def
  of_port_stats_prop_optical_rx_offset_def of_port_stats_prop_optical_rx_grid_span_def
  of_port_stats_prop_optical_tx_pwr_def of_port_stats_prop_optical_rx_pwr_def
  of_port_stats_prop_optical_bias_current_def of_port_stats_prop_optical_temperature_def
  of_queue_desc_port_no_def of_queue_desc_queue_id_def

lemma fields_ok_18: "list_all field_ok fields_18"
  unfolding fields_18_def accessor_defs_18
  by (simp add: accessors_ok octets_accessors_ok inside_rows del: field_ok.simps)

end
