(* ===== verification/Class19.thy ===== *)
theory Class19
  imports Construct
begin

text \<open>
  The classes of \<^verbatim>\<open>src/class19.c\<close>: for each what its constructor, initialiser and
  \<open>push_wire_types\<close> write, and the scalar accessors, a getter and a setter for each field at a fixed offset.
\<close>

definition of_queue_desc_prop_experimenter_class :: wire_class where
  "of_queue_desc_prop_experimenter_class = \<lparr>class_id = OF_QUEUE_DESC_PROP_EXPERIMENTER, whole_buffer = True, wire_types = None,
     finishes = []\<rparr>"

definition of_queue_desc_prop_experimenter_experimenter :: "32 word accessor" where
  "of_queue_desc_prop_experimenter_experimenter = u32_accessor [OF_QUEUE_DESC_PROP_EXPERIMENTER] [(5, 4)]"

definition of_queue_desc_prop_experimenter_exp_type :: "32 word accessor" where
  "of_queue_desc_prop_experimenter_exp_type = u32_accessor [OF_QUEUE_DESC_PROP_EXPERIMENTER] [(5, 8)]"

definition of_queue_desc_prop_max_rate_class :: wire_class where
  "of_queue_desc_prop_max_rate_class = \<lparr>class_id = OF_QUEUE_DESC_PROP_MAX_RATE, whole_buffer = False, wire_types = Some [(5, [Put16 0 0x2])],
     finishes = [Tlv16Length]\<rparr>"

definition of_queue_desc_prop_max_rate_rate :: "16 word accessor" where
  "of_queue_desc_prop_max_rate_rate = u16_accessor [OF_QUEUE_DESC_PROP_MAX_RATE] [(5, 4)]"

definition of_queue_desc_prop_min_rate_class :: wire_class where
  "of_queue_desc_prop_min_rate_class = \<lparr>class_id = OF_QUEUE_DESC_PROP_MIN_RATE, whole_buffer = False, wire_types = Some [(5, [Put16 0 0x1])],
     finishes = [Tlv16Length]\<rparr>"

definition of_queue_desc_prop_min_rate_rate :: "16 word accessor" where
  "of_queue_desc_prop_min_rate_rate = u16_accessor [OF_QUEUE_DESC_PROP_MIN_RATE] [(5, 4)]"

definition of_queue_desc_stats_reply_class :: wire_class where
  "of_queue_desc_stats_reply_class = \<lparr>class_id = OF_QUEUE_DESC_STATS_REPLY, whole_buffer = True, wire_types = Some [(5, [PutVersion 0, Put8 1 0x13, Put16 8 0xf])],
     finishes = [MessageLength]\<rparr>"

definition of_queue_desc_stats_reply_xid :: "32 word accessor" where
  "of_queue_desc_stats_reply_xid = u32_accessor [OF_QUEUE_DESC_STATS_REPLY] [(5, 4)]"

definition of_queue_desc_stats_reply_flags :: "16 word accessor" where
  "of_queue_desc_stats_reply_flags = u16_accessor [OF_QUEUE_DESC_STATS_REPLY] [(5, 10)]"

definition of_queue_desc_stats_request_class :: wire_class where
  "of_queue_desc_stats_request_class = \<lparr>class_id = OF_QUEUE_DESC_STATS_REQUEST, whole_buffer = False, wire_types = Some [(5, [PutVersion 0, Put8 1 0x12, Put16 8 0xf])],
     finishes = [MessageLength]\<rparr>"

definition of_queue_desc_stats_request_xid :: "32 word accessor" where
  "of_queue_desc_stats_request_xid = u32_accessor [OF_QUEUE_DESC_STATS_REQUEST] [(5, 4)]"

definition of_queue_desc_stats_request_flags :: "16 word accessor" where
  "of_queue_desc_stats_request_flags = u16_accessor [OF_QUEUE_DESC_STATS_REQUEST] [(5, 10)]"

definition of_queue_stats_prop_class :: wire_class where
  "of_queue_stats_prop_class = \<lparr>class_id = OF_QUEUE_STATS_PROP, whole_buffer = True, wire_types = None,
     finishes = []\<rparr>"

definition of_queue_stats_prop_experimenter_class :: wire_class where
  "of_queue_stats_prop_experimenter_class = \<lparr>class_id = OF_QUEUE_STATS_PROP_EXPERIMENTER, whole_buffer = True, wire_types = None,
     finishes = []\<rparr>"

definition of_queue_stats_prop_experimenter_experimenter :: "32 word accessor" where
  "of_queue_stats_prop_experimenter_experimenter = u32_accessor [OF_QUEUE_STATS_PROP_EXPERIMENTER] [(5, 4)]"

definition of_queue_stats_prop_experimenter_exp_type :: "32 word accessor" where
  "of_queue_stats_prop_experimenter_exp_type = u32_accessor [OF_QUEUE_STATS_PROP_EXPERIMENTER] [(5, 8)]"

definition of_requestforward_class :: wire_class where
  "of_requestforward_class = \<lparr>class_id = OF_REQUESTFORWARD, whole_buffer = True, wire_types = Some [(5, [PutVersion 0, Put8 1 0x20])],
     finishes = [MessageLength]\<rparr>"

definition of_requestforward_xid :: "32 word accessor" where
  "of_requestforward_xid = u32_accessor [OF_REQUESTFORWARD] [(5, 4)]"

definition of_requestforward_role :: "32 word accessor" where
  "of_requestforward_role = u32_accessor [OF_REQUESTFORWARD] [(5, 8)]"

definition of_role_prop_class :: wire_class where
  "of_role_prop_class = \<lparr>class_id = OF_ROLE_PROP, whole_buffer = True, wire_types = None,
     finishes = []\<rparr>"

definition of_role_prop_experimenter_class :: wire_class where
  "of_role_prop_experimenter_class = \<lparr>class_id = OF_ROLE_PROP_EXPERIMENTER, whole_buffer = True, wire_types = None,
     finishes = []\<rparr>"

definition of_role_prop_experimenter_experimenter :: "32 word accessor" where
  "of_role_prop_experimenter_experimenter = u32_accessor [OF_ROLE_PROP_EXPERIMENTER] [(5, 4)]"

definition of_role_prop_experimenter_exp_type :: "32 word accessor" where
  "of_role_prop_experimenter_exp_type = u32_accessor [OF_ROLE_PROP_EXPERIMENTER] [(5, 8)]"

definition of_role_status_class :: wire_class where
  "of_role_status_class = \<lparr>class_id = OF_ROLE_STATUS, whole_buffer = True, wire_types = Some [(5, [PutVersion 0, Put8 1 0x1e])],
     finishes = [MessageLength]\<rparr>"

definition of_role_status_xid :: "32 word accessor" where
  "of_role_status_xid = u32_accessor [OF_ROLE_STATUS] [(5, 4)]"

definition of_role_status_role :: "32 word accessor" where
  "of_role_status_role = u32_accessor [OF_ROLE_STATUS] [(5, 8)]"

definition of_role_status_reason :: "byte accessor" where
  "of_role_status_reason = u8_accessor [OF_ROLE_STATUS] [(5, 12)]"

definition of_role_status_generation_id :: "64 word accessor" where
  "of_role_status_generation_id = u64_accessor [OF_ROLE_STATUS] [(5, 16)]"

definition of_table_desc_class :: wire_class where
  "of_table_desc_class = \<lparr>class_id = OF_TABLE_DESC, whole_buffer = False, wire_types = None,
     finishes = [U16Length]\<rparr>"

definition of_table_desc_table_id :: "byte accessor" where
  "of_table_desc_table_id = u8_accessor [OF_TABLE_DESC] [(5, 2)]"

definition of_table_desc_config :: "32 word accessor" where
  "of_table_desc_config = u32_accessor [OF_TABLE_DESC] [(5, 4)]"

definition of_table_desc_stats_reply_class :: wire_class where
  "of_table_desc_stats_reply_class = \<lparr>class_id = OF_TABLE_DESC_STATS_REPLY, whole_buffer = True, wire_types = Some [(5, [PutVersion 0, Put8 1 0x13, Put16 8 0xe])],
     finishes = [MessageLength]\<rparr>"

definition of_table_desc_stats_reply_xid :: "32 word accessor" where
  "of_table_desc_stats_reply_xid = u32_accessor [OF_TABLE_DESC_STATS_REPLY] [(5, 4)]"

definition of_table_desc_stats_reply_flags :: "16 word accessor" where
  "of_table_desc_stats_reply_flags = u16_accessor [OF_TABLE_DESC_STATS_REPLY] [(5, 10)]"

definition of_table_desc_stats_request_class :: wire_class where
  "of_table_desc_stats_request_class = \<lparr>class_id = OF_TABLE_DESC_STATS_REQUEST, whole_buffer = False, wire_types = Some [(5, [PutVersion 0, Put8 1 0x12, Put16 8 0xe])],
     finishes = [MessageLength]\<rparr>"

definition of_table_desc_stats_request_xid :: "32 word accessor" where
  "of_table_desc_stats_request_xid = u32_accessor [OF_TABLE_DESC_STATS_REQUEST] [(5, 4)]"

definition of_table_desc_stats_request_flags :: "16 word accessor" where
  "of_table_desc_stats_request_flags = u16_accessor [OF_TABLE_DESC_STATS_REQUEST] [(5, 10)]"

definition of_table_feature_prop_table_sync_from_class :: wire_class where
  "of_table_feature_prop_table_sync_from_class = \<lparr>class_id = OF_TABLE_FEATURE_PROP_TABLE_SYNC_FROM, whole_buffer = True, wire_types = Some [(5, [Put16 0 0x10])],
     finishes = [Tlv16Length]\<rparr>"

definition of_table_mod_prop_class :: wire_class where
  "of_table_mod_prop_class = \<lparr>class_id = OF_TABLE_MOD_PROP, whole_buffer = True, wire_types = None,
     finishes = []\<rparr>"

definition of_table_mod_prop_eviction_class :: wire_class where
  "of_table_mod_prop_eviction_class = \<lparr>class_id = OF_TABLE_MOD_PROP_EVICTION, whole_buffer = False, wire_types = Some [(5, [Put16 0 0x2])],
     finishes = [Tlv16Length]\<rparr>"

definition of_table_mod_prop_eviction_flags :: "32 word accessor" where
  "of_table_mod_prop_eviction_flags = u32_accessor [OF_TABLE_MOD_PROP_EVICTION] [(5, 4)]"

definition of_table_mod_prop_experimenter_class :: wire_class where
  "of_table_mod_prop_experimenter_class = \<lparr>class_id = OF_TABLE_MOD_PROP_EXPERIMENTER, whole_buffer = True, wire_types = None,
     finishes = []\<rparr>"

definition of_table_mod_prop_experimenter_experimenter :: "32 word accessor" where
  "of_table_mod_prop_experimenter_experimenter = u32_accessor [OF_TABLE_MOD_PROP_EXPERIMENTER] [(5, 4)]"

definition of_table_mod_prop_experimenter_exp_type :: "32 word accessor" where
  "of_table_mod_prop_experimenter_exp_type = u32_accessor [OF_TABLE_MOD_PROP_EXPERIMENTER] [(5, 8)]"

definition of_table_mod_prop_vacancy_class :: wire_class where
  "of_table_mod_prop_vacancy_class = \<lparr>class_id = OF_TABLE_MOD_PROP_VACANCY, whole_buffer = False, wire_types = Some [(5, [Put16 0 0x3])],
     finishes = [Tlv16Length]\<rparr>"

definition of_table_mod_prop_vacancy_vacancy_down :: "byte accessor" where
  "of_table_mod_prop_vacancy_vacancy_down = u8_accessor [OF_TABLE_MOD_PROP_VACANCY] [(5, 4)]"

definition of_table_mod_prop_vacancy_vacancy_up :: "byte accessor" where
  "of_table_mod_prop_vacancy_vacancy_up = u8_accessor [OF_TABLE_MOD_PROP_VACANCY] [(5, 5)]"

definition of_table_mod_prop_vacancy_vacancy :: "byte accessor" where
  "of_table_mod_prop_vacancy_vacancy = u8_accessor [OF_TABLE_MOD_PROP_VACANCY] [(5, 6)]"

definition of_table_status_class :: wire_class where
  "of_table_status_class = \<lparr>class_id = OF_TABLE_STATUS, whole_buffer = False, wire_types = Some [(5, [PutVersion 0, Put8 1 0x1f])],
     finishes = [MessageLength]\<rparr>"

definition of_table_status_xid :: "32 word accessor" where
  "of_table_status_xid = u32_accessor [OF_TABLE_STATUS] [(5, 4)]"

definition of_table_status_role :: "32 word accessor" where
  "of_table_status_role = u32_accessor [OF_TABLE_STATUS] [(5, 8)]"

definition of_table_status_reason :: "byte accessor" where
  "of_table_status_reason = u8_accessor [OF_TABLE_STATUS] [(5, 12)]"

text \<open>The classes, each with consistent wire types in every version that has it.\<close>

definition classes_19 :: "wire_class list" where
  "classes_19 = [of_queue_desc_prop_experimenter_class, of_queue_desc_prop_max_rate_class,
     of_queue_desc_prop_min_rate_class, of_queue_desc_stats_reply_class,
     of_queue_desc_stats_request_class, of_queue_stats_prop_class, of_queue_stats_prop_experimenter_class,
     of_requestforward_class, of_role_prop_class, of_role_prop_experimenter_class, of_role_status_class,
     of_table_desc_class, of_table_desc_stats_reply_class, of_table_desc_stats_request_class,
     of_table_feature_prop_table_sync_from_class, of_table_mod_prop_class,
     of_table_mod_prop_eviction_class, of_table_mod_prop_experimenter_class,
     of_table_mod_prop_vacancy_class, of_table_status_class]"

lemmas class_defs_19 =
  of_queue_desc_prop_experimenter_class_def of_queue_desc_prop_max_rate_class_def
  of_queue_desc_prop_min_rate_class_def of_queue_desc_stats_reply_class_def
  of_queue_desc_stats_request_class_def of_queue_stats_prop_class_def
  of_queue_stats_prop_experimenter_class_def of_requestforward_class_def of_role_prop_class_def
  of_role_prop_experimenter_class_def of_role_status_class_def of_table_desc_class_def
  of_table_desc_stats_reply_class_def of_table_desc_stats_request_class_def
  of_table_feature_prop_table_sync_from_class_def of_table_mod_prop_class_def
  of_table_mod_prop_eviction_class_def of_table_mod_prop_experimenter_class_def
  of_table_mod_prop_vacancy_class_def of_table_status_class_def

lemma classes_ok_19: "list_all class_ok classes_19"
  unfolding classes_19_def
  by (simp add: class_defs_19 class_checks)

text \<open>The accessors.\<close>

definition fields_19 :: "field list" where
  "fields_19 = [U32 of_queue_desc_prop_experimenter_experimenter, U32 of_queue_desc_prop_experimenter_exp_type,
     U16 of_queue_desc_prop_max_rate_rate, U16 of_queue_desc_prop_min_rate_rate,
     U32 of_queue_desc_stats_reply_xid, U16 of_queue_desc_stats_reply_flags,
     U32 of_queue_desc_stats_request_xid, U16 of_queue_desc_stats_request_flags,
     U32 of_queue_stats_prop_experimenter_experimenter, U32 of_queue_stats_prop_experimenter_exp_type,
     U32 of_requestforward_xid, U32 of_requestforward_role, U32 of_role_prop_experimenter_experimenter,
     U32 of_role_prop_experimenter_exp_type, U32 of_role_status_xid, U32 of_role_status_role,
     U8 of_role_status_reason, U64 of_role_status_generation_id, U8 of_table_desc_table_id,
     U32 of_table_desc_config, U32 of_table_desc_stats_reply_xid, U16 of_table_desc_stats_reply_flags,
     U32 of_table_desc_stats_request_xid, U16 of_table_desc_stats_request_flags,
     U32 of_table_mod_prop_eviction_flags, U32 of_table_mod_prop_experimenter_experimenter,
     U32 of_table_mod_prop_experimenter_exp_type, U8 of_table_mod_prop_vacancy_vacancy_down,
     U8 of_table_mod_prop_vacancy_vacancy_up, U8 of_table_mod_prop_vacancy_vacancy,
     U32 of_table_status_xid, U32 of_table_status_role, U8 of_table_status_reason]"

lemmas accessor_defs_19 =
  of_queue_desc_prop_experimenter_experimenter_def of_queue_desc_prop_experimenter_exp_type_def
  of_queue_desc_prop_max_rate_rate_def of_queue_desc_prop_min_rate_rate_def
  of_queue_desc_stats_reply_xid_def of_queue_desc_stats_reply_flags_def
  of_queue_desc_stats_request_xid_def of_queue_desc_stats_request_flags_def
  of_queue_stats_prop_experimenter_experimenter_def of_queue_stats_prop_experimenter_exp_type_def
  of_requestforward_xid_def of_requestforward_role_def of_role_prop_experimenter_experimenter_def
  of_role_prop_experimenter_exp_type_def of_role_status_xid_def of_role_status_role_def
  of_role_status_reason_def of_role_status_generation_id_def of_table_desc_table_id_def
  of_table_desc_config_def of_table_desc_stats_reply_xid_def of_table_desc_stats_reply_flags_def
  of_table_desc_stats_request_xid_def of_table_desc_stats_request_flags_def
  of_table_mod_prop_eviction_flags_def of_table_mod_prop_experimenter_experimenter_def
  of_table_mod_prop_experimenter_exp_type_def of_table_mod_prop_vacancy_vacancy_down_def
  of_table_mod_prop_vacancy_vacancy_up_def of_table_mod_prop_vacancy_vacancy_def
  of_table_status_xid_def of_table_status_role_def of_table_status_reason_def

lemma fields_ok_19: "list_all field_ok fields_19"
  unfolding fields_19_def accessor_defs_19
  by (simp add: accessors_ok octets_accessors_ok inside_rows del: field_ok.simps)

end
