(* ===== verification/Accessors.thy ===== *)
theory Accessors
  imports Class00 Class01 Class02 Class03 Class04 Class05 Class06 Class07 Class08 Class09
    Class10 Class11 Class12 Class13 Class14 Class15 Class16 Class17 Class18 Class19
begin

text \<open>
  The scalar accessors of all classes together: each getter and setter keeps to its field, fields that
  share no byte do not disturb each other, and the fields of an object made of a validated message can be
  read and written.
\<close>

definition all_fields :: "field list" where
  "all_fields = fields_00 @ fields_01 @ fields_02 @ fields_03 @ fields_04 @ fields_05 @ fields_06 @ fields_07 @
     fields_08 @ fields_09 @ fields_10 @ fields_11 @ fields_12 @ fields_13 @ fields_14 @ fields_15 @ fields_16 @
     fields_17 @ fields_18 @ fields_19"

lemma fields_accessible: "f \<in> set all_fields \<Longrightarrow> field_ok f"
  using fields_ok_00 fields_ok_01 fields_ok_02 fields_ok_03 fields_ok_04 fields_ok_05 fields_ok_06 fields_ok_07
    fields_ok_08 fields_ok_09 fields_ok_10 fields_ok_11 fields_ok_12 fields_ok_13 fields_ok_14 fields_ok_15
    fields_ok_16 fields_ok_17 fields_ok_18 fields_ok_19
  by (auto simp: all_fields_def list_all_iff)

subsection \<open>Fields of any kind\<close>

text \<open>
  What can be said of a field whatever the type of its values: where it is in an object, that its getter
  answers, that its setter with some value it can hold takes one object to another, and that its getter answers the
  same on two objects.
\<close>

record view =
  v_place :: "of_object \<Rightarrow> (int \<times> nat) option"
  v_reads :: "of_object \<Rightarrow> bool"
  v_sets :: "of_object \<Rightarrow> of_object \<Rightarrow> bool"
  v_same :: "of_object \<Rightarrow> of_object \<Rightarrow> bool"

definition view_row :: "(int \<Rightarrow> nat) \<Rightarrow> (int \<Rightarrow> 'v \<Rightarrow> bool) \<Rightarrow> 'v accessor \<Rightarrow> view" where
  "view_row width valid a =
     \<lparr>v_place = (\<lambda>obj. if object_id obj \<in> set (acc_ids a)
         then map_option (\<lambda>offset. (obj_offset obj + offset, width (obj_version obj))) (map_of (acc_cases a) (obj_version obj))
         else None),
      v_reads = (\<lambda>obj. \<exists>x. acc_get a obj = Inr x),
      v_sets = (\<lambda>obj obj'. \<exists>x. valid (obj_version obj) x \<and> acc_set a obj x = Inr obj'),
      v_same = (\<lambda>obj obj'. acc_get a obj' = acc_get a obj)\<rparr>"

fun view_of :: "field \<Rightarrow> view" where
  "view_of (U8 r) = view_row (\<lambda>_. 1) (\<lambda>_ _. True) r"
| "view_of (U16 r) = view_row (\<lambda>_. 2) (\<lambda>_ _. True) r"
| "view_of (U32 r) = view_row (\<lambda>_. 4) (\<lambda>_ _. True) r"
| "view_of (U64 r) = view_row (\<lambda>_. 8) (\<lambda>_ _. True) r"
| "view_of (PortNo r) = view_row port_no_width port_no_valid r"
| "view_of (Bmap r) = view_row wc_bmap_width wc_bmap_valid r"
| "view_of (U128 r) = view_row (\<lambda>_. 16) (\<lambda>_ _. True) r"
| "view_of (Bitmap512 r) = view_row (\<lambda>_. 64) (\<lambda>_ words. length words = 8) r"
| "view_of (Octets n r) = view_row (\<lambda>_. n) (\<lambda>_ xs. length xs = n) r"

definition view_ok :: "view \<Rightarrow> bool" where
  "view_ok v \<longleftrightarrow> (\<forall>obj p n. obj_wf obj \<and> v_place v obj = Some (p, n) \<longrightarrow>
     obj_offset obj \<le> p \<and> p + int n \<le> obj_offset obj + obj_length obj \<and> v_reads v obj \<and>
     (\<forall>obj'. v_sets v obj obj' \<longrightarrow> only_bytes obj obj' p n) \<and>
     (\<forall>obj' q m. only_bytes obj obj' q m \<longrightarrow> p + int n \<le> q \<or> q + int m \<le> p \<longrightarrow> v_same v obj obj'))"

lemma view_row_ok:
  assumes "accessor_ok width valid a"
  shows "view_ok (view_row width valid a)"
proof -
  let ?v = "view_row width valid a"
  note ok = assms [unfolded accessor_ok_def, THEN conjunct2, rule_format]
  have "obj_offset obj \<le> p \<and> p + int n \<le> obj_offset obj + obj_length obj \<and> v_reads ?v obj \<and>
     (\<forall>obj'. v_sets ?v obj obj' \<longrightarrow> only_bytes obj obj' p n) \<and>
     (\<forall>obj' q m. only_bytes obj obj' q m \<longrightarrow> p + int n \<le> q \<or> q + int m \<le> p \<longrightarrow> v_same ?v obj obj')"
    if o: "obj_wf obj" "v_place ?v obj = Some (p, n)" for obj p n
  proof -
    obtain offset where off: "object_id obj \<in> set (acc_ids a)" "map_of (acc_cases a) (obj_version obj) = Some offset"
      "p = obj_offset obj + offset" "n = width (obj_version obj)"
      using o(2) by (auto simp: view_row_def split: if_splits)
    then have "obj_wf obj \<and> object_id obj \<in> set (acc_ids a) \<and> map_of (acc_cases a) (obj_version obj) = Some offset"
      using o(1) by simp
    note b = ok [OF this]
    have "only_bytes obj obj' p n" if "valid (obj_version obj) x" "acc_set a obj x = Inr obj'" for x obj'
      using b [THEN conjunct2, THEN conjunct2, THEN conjunct2, THEN conjunct1, rule_format, OF that(1)] that(2) off(3,4) by auto
    then show ?thesis
      using b [THEN conjunct1] b [THEN conjunct2, THEN conjunct1] b [THEN conjunct2, THEN conjunct2, THEN conjunct1]
        b [THEN conjunct2, THEN conjunct2, THEN conjunct2, THEN conjunct2] off(3,4)
      by (simp add: view_row_def) metis
  qed
  then show ?thesis
    unfolding view_ok_def by blast
qed

lemma view_of_ok: "field_ok f \<Longrightarrow> view_ok (view_of f)"
  by (cases f) (simp_all add: view_row_ok)

subsection \<open>Objects made of messages\<close>

lemma object_of_message_wf:
  assumes "object_of_message msg len obj" and "0 \<le> len" and "len \<le> int (length msg)"
  shows "obj_wf obj"
  using assms by (simp add: object_of_message_def obj_wf_def wbuf_wf_def)

text \<open>C10: Every scalar accessor of every class fails its assertion on an object of another class or version; on a
  well-formed object of its own the field lies inside the object, the getter returns, the setter stores any value the field
  can hold, changes no byte outside the field, and the getter then returns that value.\<close>

theorem fields_set_get: "list_all field_ok all_fields"
  by (simp add: list_all_iff fields_accessible)

text \<open>C17: Setting a field of any kind leaves a well-formed object well-formed, and every field of the object
  that shares no byte with it reads as before.\<close>

theorem fields_independent:
  assumes "f \<in> set all_fields" and "f' \<in> set all_fields" and "obj_wf obj"
    and "v_place (view_of f) obj = Some (p, n)" and "v_place (view_of f') obj = Some (q, m)"
    and "p + int n \<le> q \<or> q + int m \<le> p" and "v_sets (view_of f) obj obj'"
  shows "obj_wf obj' \<and> v_same (view_of f') obj obj'"
proof -
  have f: "view_ok (view_of f)" "view_ok (view_of f')"
    using assms(1,2) by (simp_all add: fields_accessible view_of_ok)
  have b: "only_bytes obj obj' p n"
    using f(1) assms(3,4,7) unfolding view_ok_def by blast
  then have "v_same (view_of f') obj obj'"
    using f(2) assms(3,5,6) unfolding view_ok_def by blast
  then show ?thesis
    using obj_wf_only_bytes [OF assms(3) b] by simp
qed

text \<open>C11: An object made of a validated message is well-formed, and the fields of its class can all be read: each
  lies in the bytes of the message.\<close>

theorem message_fields_readable:
  assumes "of_validate_message msg len = Inr 0" and "len \<le> int (length msg)"
    and "of_object_new_from_message True True msg len = Inr (Some obj)"
    and "f \<in> set all_fields" and "v_place (view_of f) obj = Some (p, n)"
  shows "obj_wf obj \<and> 0 \<le> p \<and> p + int n \<le> len \<and> v_reads (view_of f) obj"
proof -
  have m: "object_of_message msg len obj"
    using new_from_message_valid(1) [OF assms(1,2)] assms(3) by auto
  moreover have "0 \<le> len"
    using header_getter_ok [OF assms(1,2)] by simp
  ultimately have w: "obj_wf obj"
    using object_of_message_wf assms(2) by blast
  have "view_ok (view_of f)"
    using assms(4) by (simp add: fields_accessible view_of_ok)
  then have "obj_offset obj \<le> p \<and> p + int n \<le> obj_offset obj + obj_length obj \<and> v_reads (view_of f) obj"
    using w assms(5) unfolding view_ok_def by blast
  then show ?thesis
    using m w by (auto simp: object_of_message_def)
qed

text \<open>A 1.0 get-config reply: transaction id 5, flags 1, 128 bytes to the controller.\<close>

definition sample_config_reply :: "byte list" where
  "sample_config_reply = [1, 8, 0, 12, 0, 0, 0, 5, 0, 1, 0, 128]"

definition sample_config_object :: of_object where
  "sample_config_object = \<lparr>wbuf = Some \<lparr>wbuf_buf = Some sample_config_reply, alloc_bytes = 12, current_bytes = 12\<rparr>,
     obj_offset = 0, object_id = OF_GET_CONFIG_REPLY, obj_length = 12, obj_version = 1, has_parent = False\<rparr>"

lemma sample_fields: "U16 of_get_config_reply_flags \<in> set all_fields" "U16 of_get_config_reply_miss_send_len \<in> set all_fields"
  by (simp_all add: all_fields_def fields_02_def)

lemma sample_place:
  "v_place (view_of (U16 of_get_config_reply_flags)) sample_config_object = Some (8, 2)"
  "v_place (view_of (U16 of_get_config_reply_miss_send_len)) sample_config_object = Some (10, 2)"
  by (simp_all add: view_row_def sample_config_object_def of_get_config_reply_flags_def
    of_get_config_reply_miss_send_len_def u16_accessor_def accessor_def)

lemma sample_config_wf: "obj_wf sample_config_object"
  by code_simp

lemma message_fields_readable_witness:
  "obj_wf sample_config_object \<and> 0 \<le> (8 :: int) \<and> 8 + int 2 \<le> 12 \<and> v_reads (view_of (U16 of_get_config_reply_flags)) sample_config_object"
proof (rule message_fields_readable)
  show "of_validate_message sample_config_reply 12 = Inr 0"
    by code_simp
  show "of_object_new_from_message True True sample_config_reply 12 = Inr (Some sample_config_object)"
    by code_simp
qed (simp_all add: sample_fields(1) sample_place(1) sample_config_reply_def del: view_of.simps)

lemma fields_independent_witness:
  "\<exists>obj'. acc_set of_get_config_reply_flags sample_config_object 3 = Inr obj' \<and> obj_wf obj' \<and>
     acc_get of_get_config_reply_miss_send_len obj' = Inr 128"
proof -
  have "\<not> isl (acc_set of_get_config_reply_flags sample_config_object 3)"
    by code_simp
  then obtain obj' where s: "acc_set of_get_config_reply_flags sample_config_object 3 = Inr obj'"
    by (cases "acc_set of_get_config_reply_flags sample_config_object 3") auto
  have g: "acc_get of_get_config_reply_miss_send_len sample_config_object = Inr 128"
    by code_simp
  have "v_sets (view_of (U16 of_get_config_reply_flags)) sample_config_object obj'"
    using s by (auto simp: view_row_def)
  then have "obj_wf obj' \<and> v_same (view_of (U16 of_get_config_reply_miss_send_len)) sample_config_object obj'"
    by (intro fields_independent [OF sample_fields sample_config_wf sample_place]) (simp_all del: view_of.simps)
  then show ?thesis
    using s g by (auto simp: view_row_def)
qed

end
