(* ===== verification/Fresh.thy ===== *)
theory Fresh
  imports Accessors
begin

text \<open>
  What the receiver of a new message makes of it: the validator accepts the message of every class that
  \<open>of_X_new\<close> makes, and the id getter gives it the id of its class again. The validators and getters are run
  on what is known of the bytes (\<open>fresh\<close>).
\<close>

text \<open>The validators and getters applied to their arguments, so that a switch unfolds the chosen case only.\<close>

lemmas validator_defs_10 =
  loci_validate_of_bsn_interface_OF_VERSION_1_0_def loci_validate_of_port_desc_OF_VERSION_1_0_def
  loci_validate_of_action_bsn_checksum_OF_VERSION_1_0_def
  loci_validate_of_action_bsn_mirror_OF_VERSION_1_0_def
  loci_validate_of_action_bsn_set_tunnel_dst_OF_VERSION_1_0_def
  loci_validate_of_action_bsn_OF_VERSION_1_0_def
  loci_validate_of_action_nicira_dec_ttl_OF_VERSION_1_0_def
  loci_validate_of_action_nicira_OF_VERSION_1_0_def
  loci_validate_of_action_experimenter_OF_VERSION_1_0_def
  loci_validate_of_action_enqueue_OF_VERSION_1_0_def loci_validate_of_action_output_OF_VERSION_1_0_def
  loci_validate_of_action_set_dl_dst_OF_VERSION_1_0_def
  loci_validate_of_action_set_dl_src_OF_VERSION_1_0_def
  loci_validate_of_action_set_nw_dst_OF_VERSION_1_0_def
  loci_validate_of_action_set_nw_src_OF_VERSION_1_0_def
  loci_validate_of_action_set_nw_tos_OF_VERSION_1_0_def
  loci_validate_of_action_set_tp_dst_OF_VERSION_1_0_def
  loci_validate_of_action_set_tp_src_OF_VERSION_1_0_def
  loci_validate_of_action_set_vlan_pcp_OF_VERSION_1_0_def
  loci_validate_of_action_set_vlan_vid_OF_VERSION_1_0_def
  loci_validate_of_action_strip_vlan_OF_VERSION_1_0_def loci_validate_of_action_OF_VERSION_1_0_def
  loci_validate_of_flow_stats_entry_OF_VERSION_1_0_def
  loci_validate_of_queue_prop_min_rate_OF_VERSION_1_0_def
  loci_validate_of_queue_prop_OF_VERSION_1_0_def loci_validate_of_port_stats_entry_OF_VERSION_1_0_def
  loci_validate_of_packet_queue_OF_VERSION_1_0_def
  loci_validate_of_queue_stats_entry_OF_VERSION_1_0_def
  loci_validate_of_table_stats_entry_OF_VERSION_1_0_def
  loci_validate_of_aggregate_stats_reply_OF_VERSION_1_0_def
  loci_validate_of_bsn_stats_reply_OF_VERSION_1_0_def
  loci_validate_of_experimenter_stats_reply_OF_VERSION_1_0_def
  loci_validate_of_desc_stats_reply_OF_VERSION_1_0_def
  loci_validate_of_flow_stats_reply_OF_VERSION_1_0_def
  loci_validate_of_port_stats_reply_OF_VERSION_1_0_def
  loci_validate_of_queue_stats_reply_OF_VERSION_1_0_def
  loci_validate_of_table_stats_reply_OF_VERSION_1_0_def
  loci_validate_of_stats_reply_OF_VERSION_1_0_def
  loci_validate_of_aggregate_stats_request_OF_VERSION_1_0_def
  loci_validate_of_bsn_stats_request_OF_VERSION_1_0_def
  loci_validate_of_experimenter_stats_request_OF_VERSION_1_0_def
  loci_validate_of_desc_stats_request_OF_VERSION_1_0_def
  loci_validate_of_flow_stats_request_OF_VERSION_1_0_def
  loci_validate_of_port_stats_request_OF_VERSION_1_0_def
  loci_validate_of_queue_stats_request_OF_VERSION_1_0_def
  loci_validate_of_table_stats_request_OF_VERSION_1_0_def
  loci_validate_of_stats_request_OF_VERSION_1_0_def
  loci_validate_of_bad_action_error_msg_OF_VERSION_1_0_def
  loci_validate_of_bad_request_error_msg_OF_VERSION_1_0_def
  loci_validate_of_flow_mod_failed_error_msg_OF_VERSION_1_0_def
  loci_validate_of_hello_failed_error_msg_OF_VERSION_1_0_def
  loci_validate_of_port_mod_failed_error_msg_OF_VERSION_1_0_def
  loci_validate_of_queue_op_failed_error_msg_OF_VERSION_1_0_def
  loci_validate_of_error_msg_OF_VERSION_1_0_def loci_validate_of_barrier_reply_OF_VERSION_1_0_def
  loci_validate_of_barrier_request_OF_VERSION_1_0_def
  loci_validate_of_bsn_bw_clear_data_reply_OF_VERSION_1_0_def
  loci_validate_of_bsn_bw_clear_data_request_OF_VERSION_1_0_def
  loci_validate_of_bsn_bw_enable_get_reply_OF_VERSION_1_0_def
  loci_validate_of_bsn_bw_enable_get_request_OF_VERSION_1_0_def
  loci_validate_of_bsn_bw_enable_set_reply_OF_VERSION_1_0_def
  loci_validate_of_bsn_bw_enable_set_request_OF_VERSION_1_0_def
  loci_validate_of_bsn_get_interfaces_reply_OF_VERSION_1_0_def
  loci_validate_of_bsn_get_interfaces_request_OF_VERSION_1_0_def
  loci_validate_of_bsn_get_ip_mask_reply_OF_VERSION_1_0_def
  loci_validate_of_bsn_get_ip_mask_request_OF_VERSION_1_0_def
  loci_validate_of_bsn_get_l2_table_reply_OF_VERSION_1_0_def
  loci_validate_of_bsn_get_l2_table_request_OF_VERSION_1_0_def
  loci_validate_of_bsn_get_mirroring_reply_OF_VERSION_1_0_def
  loci_validate_of_bsn_get_mirroring_request_OF_VERSION_1_0_def
  loci_validate_of_bsn_hybrid_get_reply_OF_VERSION_1_0_def
  loci_validate_of_bsn_hybrid_get_request_OF_VERSION_1_0_def
  loci_validate_of_bsn_pdu_rx_reply_OF_VERSION_1_0_def
  loci_validate_of_bsn_pdu_rx_request_OF_VERSION_1_0_def
  loci_validate_of_bsn_pdu_rx_timeout_OF_VERSION_1_0_def
  loci_validate_of_bsn_pdu_tx_reply_OF_VERSION_1_0_def
  loci_validate_of_bsn_pdu_tx_request_OF_VERSION_1_0_def
  loci_validate_of_bsn_set_ip_mask_OF_VERSION_1_0_def
  loci_validate_of_bsn_set_l2_table_reply_OF_VERSION_1_0_def
  loci_validate_of_bsn_set_l2_table_request_OF_VERSION_1_0_def
  loci_validate_of_bsn_set_mirroring_OF_VERSION_1_0_def
  loci_validate_of_bsn_set_pktin_suppression_reply_OF_VERSION_1_0_def
  loci_validate_of_bsn_set_pktin_suppression_request_OF_VERSION_1_0_def
  loci_validate_of_bsn_shell_command_OF_VERSION_1_0_def
  loci_validate_of_bsn_shell_output_OF_VERSION_1_0_def
  loci_validate_of_bsn_shell_status_OF_VERSION_1_0_def
  loci_validate_of_bsn_virtual_port_create_reply_OF_VERSION_1_0_def
  loci_validate_of_bsn_virtual_port_create_request_OF_VERSION_1_0_def
  loci_validate_of_bsn_virtual_port_remove_reply_OF_VERSION_1_0_def
  loci_validate_of_bsn_virtual_port_remove_request_OF_VERSION_1_0_def
  loci_validate_of_bsn_header_OF_VERSION_1_0_def
  loci_validate_of_nicira_controller_role_reply_OF_VERSION_1_0_def
  loci_validate_of_nicira_controller_role_request_OF_VERSION_1_0_def
  loci_validate_of_nicira_header_OF_VERSION_1_0_def loci_validate_of_experimenter_OF_VERSION_1_0_def
  loci_validate_of_echo_reply_OF_VERSION_1_0_def loci_validate_of_echo_request_OF_VERSION_1_0_def
  loci_validate_of_features_reply_OF_VERSION_1_0_def
  loci_validate_of_features_request_OF_VERSION_1_0_def loci_validate_of_flow_add_OF_VERSION_1_0_def
  loci_validate_of_flow_delete_OF_VERSION_1_0_def
  loci_validate_of_flow_delete_strict_OF_VERSION_1_0_def
  loci_validate_of_flow_modify_OF_VERSION_1_0_def
  loci_validate_of_flow_modify_strict_OF_VERSION_1_0_def loci_validate_of_flow_mod_OF_VERSION_1_0_def
  loci_validate_of_flow_removed_OF_VERSION_1_0_def
  loci_validate_of_get_config_reply_OF_VERSION_1_0_def
  loci_validate_of_get_config_request_OF_VERSION_1_0_def loci_validate_of_hello_OF_VERSION_1_0_def
  loci_validate_of_packet_in_OF_VERSION_1_0_def loci_validate_of_packet_out_OF_VERSION_1_0_def
  loci_validate_of_port_mod_OF_VERSION_1_0_def loci_validate_of_port_status_OF_VERSION_1_0_def
  loci_validate_of_queue_get_config_reply_OF_VERSION_1_0_def
  loci_validate_of_queue_get_config_request_OF_VERSION_1_0_def
  loci_validate_of_set_config_OF_VERSION_1_0_def loci_validate_of_table_mod_OF_VERSION_1_0_def
  loci_validate_of_header_OF_VERSION_1_0_def loci_validate_of_bsn_vport_l2gre_OF_VERSION_1_0_def
  loci_validate_of_bsn_vport_q_in_q_OF_VERSION_1_0_def loci_validate_of_bsn_vport_OF_VERSION_1_0_def
  loci_validate_of_match_v1_OF_VERSION_1_0_def loci_validate_of_list_bsn_interface_OF_VERSION_1_0_def
  loci_validate_of_list_port_desc_OF_VERSION_1_0_def loci_validate_of_list_action_OF_VERSION_1_0_def
  loci_validate_of_list_flow_stats_entry_OF_VERSION_1_0_def
  loci_validate_of_list_queue_prop_OF_VERSION_1_0_def
  loci_validate_of_list_port_stats_entry_OF_VERSION_1_0_def
  loci_validate_of_list_packet_queue_OF_VERSION_1_0_def
  loci_validate_of_list_queue_stats_entry_OF_VERSION_1_0_def
  loci_validate_of_list_table_stats_entry_OF_VERSION_1_0_def

lemmas applied_10 = validator_defs_10 [THEN fun_cong, THEN fun_cong, THEN fun_cong]

lemmas validator_defs_11 =
  loci_validate_of_bsn_interface_OF_VERSION_1_1_def
  loci_validate_of_action_bsn_checksum_OF_VERSION_1_1_def
  loci_validate_of_action_bsn_mirror_OF_VERSION_1_1_def
  loci_validate_of_action_bsn_set_tunnel_dst_OF_VERSION_1_1_def
  loci_validate_of_action_bsn_OF_VERSION_1_1_def
  loci_validate_of_action_nicira_dec_ttl_OF_VERSION_1_1_def
  loci_validate_of_action_nicira_OF_VERSION_1_1_def
  loci_validate_of_action_experimenter_OF_VERSION_1_1_def
  loci_validate_of_action_copy_ttl_in_OF_VERSION_1_1_def
  loci_validate_of_action_copy_ttl_out_OF_VERSION_1_1_def
  loci_validate_of_action_dec_mpls_ttl_OF_VERSION_1_1_def
  loci_validate_of_action_dec_nw_ttl_OF_VERSION_1_1_def
  loci_validate_of_action_group_OF_VERSION_1_1_def loci_validate_of_action_output_OF_VERSION_1_1_def
  loci_validate_of_action_pop_mpls_OF_VERSION_1_1_def
  loci_validate_of_action_pop_vlan_OF_VERSION_1_1_def
  loci_validate_of_action_push_mpls_OF_VERSION_1_1_def
  loci_validate_of_action_push_vlan_OF_VERSION_1_1_def
  loci_validate_of_action_set_dl_dst_OF_VERSION_1_1_def
  loci_validate_of_action_set_dl_src_OF_VERSION_1_1_def
  loci_validate_of_action_set_mpls_label_OF_VERSION_1_1_def
  loci_validate_of_action_set_mpls_tc_OF_VERSION_1_1_def
  loci_validate_of_action_set_mpls_ttl_OF_VERSION_1_1_def
  loci_validate_of_action_set_nw_dst_OF_VERSION_1_1_def
  loci_validate_of_action_set_nw_ecn_OF_VERSION_1_1_def
  loci_validate_of_action_set_nw_src_OF_VERSION_1_1_def
  loci_validate_of_action_set_nw_tos_OF_VERSION_1_1_def
  loci_validate_of_action_set_nw_ttl_OF_VERSION_1_1_def
  loci_validate_of_action_set_queue_OF_VERSION_1_1_def
  loci_validate_of_action_set_tp_dst_OF_VERSION_1_1_def
  loci_validate_of_action_set_tp_src_OF_VERSION_1_1_def
  loci_validate_of_action_set_vlan_pcp_OF_VERSION_1_1_def
  loci_validate_of_action_set_vlan_vid_OF_VERSION_1_1_def loci_validate_of_action_OF_VERSION_1_1_def
  loci_validate_of_port_desc_OF_VERSION_1_1_def
  loci_validate_of_instruction_apply_actions_OF_VERSION_1_1_def
  loci_validate_of_instruction_clear_actions_OF_VERSION_1_1_def
  loci_validate_of_instruction_experimenter_OF_VERSION_1_1_def
  loci_validate_of_instruction_goto_table_OF_VERSION_1_1_def
  loci_validate_of_instruction_write_actions_OF_VERSION_1_1_def
  loci_validate_of_instruction_write_metadata_OF_VERSION_1_1_def
  loci_validate_of_instruction_OF_VERSION_1_1_def loci_validate_of_flow_stats_entry_OF_VERSION_1_1_def
  loci_validate_of_bucket_OF_VERSION_1_1_def
  loci_validate_of_group_desc_stats_entry_OF_VERSION_1_1_def
  loci_validate_of_bucket_counter_OF_VERSION_1_1_def
  loci_validate_of_group_stats_entry_OF_VERSION_1_1_def
  loci_validate_of_queue_prop_min_rate_OF_VERSION_1_1_def
  loci_validate_of_queue_prop_OF_VERSION_1_1_def loci_validate_of_port_stats_entry_OF_VERSION_1_1_def
  loci_validate_of_packet_queue_OF_VERSION_1_1_def
  loci_validate_of_queue_stats_entry_OF_VERSION_1_1_def
  loci_validate_of_table_stats_entry_OF_VERSION_1_1_def
  loci_validate_of_aggregate_stats_reply_OF_VERSION_1_1_def
  loci_validate_of_bsn_stats_reply_OF_VERSION_1_1_def
  loci_validate_of_experimenter_stats_reply_OF_VERSION_1_1_def
  loci_validate_of_desc_stats_reply_OF_VERSION_1_1_def
  loci_validate_of_flow_stats_reply_OF_VERSION_1_1_def
  loci_validate_of_group_desc_stats_reply_OF_VERSION_1_1_def
  loci_validate_of_group_stats_reply_OF_VERSION_1_1_def
  loci_validate_of_port_stats_reply_OF_VERSION_1_1_def
  loci_validate_of_queue_stats_reply_OF_VERSION_1_1_def
  loci_validate_of_table_stats_reply_OF_VERSION_1_1_def
  loci_validate_of_stats_reply_OF_VERSION_1_1_def
  loci_validate_of_aggregate_stats_request_OF_VERSION_1_1_def
  loci_validate_of_bsn_stats_request_OF_VERSION_1_1_def
  loci_validate_of_experimenter_stats_request_OF_VERSION_1_1_def
  loci_validate_of_desc_stats_request_OF_VERSION_1_1_def
  loci_validate_of_flow_stats_request_OF_VERSION_1_1_def
  loci_validate_of_group_desc_stats_request_OF_VERSION_1_1_def
  loci_validate_of_group_stats_request_OF_VERSION_1_1_def
  loci_validate_of_port_stats_request_OF_VERSION_1_1_def
  loci_validate_of_queue_stats_request_OF_VERSION_1_1_def
  loci_validate_of_table_stats_request_OF_VERSION_1_1_def
  loci_validate_of_stats_request_OF_VERSION_1_1_def
  loci_validate_of_bad_action_error_msg_OF_VERSION_1_1_def
  loci_validate_of_bad_instruction_error_msg_OF_VERSION_1_1_def
  loci_validate_of_bad_match_error_msg_OF_VERSION_1_1_def
  loci_validate_of_bad_request_error_msg_OF_VERSION_1_1_def
  loci_validate_of_flow_mod_failed_error_msg_OF_VERSION_1_1_def
  loci_validate_of_group_mod_failed_error_msg_OF_VERSION_1_1_def
  loci_validate_of_hello_failed_error_msg_OF_VERSION_1_1_def
  loci_validate_of_port_mod_failed_error_msg_OF_VERSION_1_1_def
  loci_validate_of_queue_op_failed_error_msg_OF_VERSION_1_1_def
  loci_validate_of_switch_config_failed_error_msg_OF_VERSION_1_1_def
  loci_validate_of_table_mod_failed_error_msg_OF_VERSION_1_1_def
  loci_validate_of_error_msg_OF_VERSION_1_1_def loci_validate_of_barrier_reply_OF_VERSION_1_1_def
  loci_validate_of_barrier_request_OF_VERSION_1_1_def
  loci_validate_of_bsn_bw_clear_data_reply_OF_VERSION_1_1_def
  loci_validate_of_bsn_bw_clear_data_request_OF_VERSION_1_1_def
  loci_validate_of_bsn_bw_enable_get_reply_OF_VERSION_1_1_def
  loci_validate_of_bsn_bw_enable_get_request_OF_VERSION_1_1_def
  loci_validate_of_bsn_bw_enable_set_reply_OF_VERSION_1_1_def
  loci_validate_of_bsn_bw_enable_set_request_OF_VERSION_1_1_def
  loci_validate_of_bsn_get_interfaces_reply_OF_VERSION_1_1_def
  loci_validate_of_bsn_get_interfaces_request_OF_VERSION_1_1_def
  loci_validate_of_bsn_get_mirroring_reply_OF_VERSION_1_1_def
  loci_validate_of_bsn_get_mirroring_request_OF_VERSION_1_1_def
  loci_validate_of_bsn_pdu_rx_reply_OF_VERSION_1_1_def
  loci_validate_of_bsn_pdu_rx_request_OF_VERSION_1_1_def
  loci_validate_of_bsn_pdu_rx_timeout_OF_VERSION_1_1_def
  loci_validate_of_bsn_pdu_tx_reply_OF_VERSION_1_1_def
  loci_validate_of_bsn_pdu_tx_request_OF_VERSION_1_1_def
  loci_validate_of_bsn_set_mirroring_OF_VERSION_1_1_def
  loci_validate_of_bsn_set_pktin_suppression_reply_OF_VERSION_1_1_def
  loci_validate_of_bsn_set_pktin_suppression_request_OF_VERSION_1_1_def
  loci_validate_of_bsn_virtual_port_create_reply_OF_VERSION_1_1_def
  loci_validate_of_bsn_virtual_port_create_request_OF_VERSION_1_1_def
  loci_validate_of_bsn_virtual_port_remove_reply_OF_VERSION_1_1_def
  loci_validate_of_bsn_virtual_port_remove_request_OF_VERSION_1_1_def
  loci_validate_of_bsn_header_OF_VERSION_1_1_def loci_validate_of_nicira_header_OF_VERSION_1_1_def
  loci_validate_of_experimenter_OF_VERSION_1_1_def loci_validate_of_echo_reply_OF_VERSION_1_1_def
  loci_validate_of_echo_request_OF_VERSION_1_1_def loci_validate_of_features_reply_OF_VERSION_1_1_def
  loci_validate_of_features_request_OF_VERSION_1_1_def loci_validate_of_flow_add_OF_VERSION_1_1_def
  loci_validate_of_flow_delete_OF_VERSION_1_1_def
  loci_validate_of_flow_delete_strict_OF_VERSION_1_1_def
  loci_validate_of_flow_modify_OF_VERSION_1_1_def
  loci_validate_of_flow_modify_strict_OF_VERSION_1_1_def loci_validate_of_flow_mod_OF_VERSION_1_1_def
  loci_validate_of_flow_removed_OF_VERSION_1_1_def
  loci_validate_of_get_config_reply_OF_VERSION_1_1_def
  loci_validate_of_get_config_request_OF_VERSION_1_1_def loci_validate_of_group_add_OF_VERSION_1_1_def
  loci_validate_of_group_delete_OF_VERSION_1_1_def loci_validate_of_group_modify_OF_VERSION_1_1_def
  loci_validate_of_group_mod_OF_VERSION_1_1_def loci_validate_of_hello_OF_VERSION_1_1_def
  loci_validate_of_packet_in_OF_VERSION_1_1_def loci_validate_of_packet_out_OF_VERSION_1_1_def
  loci_validate_of_port_mod_OF_VERSION_1_1_def loci_validate_of_port_status_OF_VERSION_1_1_def
  loci_validate_of_queue_get_config_reply_OF_VERSION_1_1_def
  loci_validate_of_queue_get_config_request_OF_VERSION_1_1_def
  loci_validate_of_set_config_OF_VERSION_1_1_def loci_validate_of_table_mod_OF_VERSION_1_1_def
  loci_validate_of_header_OF_VERSION_1_1_def loci_validate_of_bsn_vport_l2gre_OF_VERSION_1_1_def
  loci_validate_of_bsn_vport_q_in_q_OF_VERSION_1_1_def loci_validate_of_bsn_vport_OF_VERSION_1_1_def
  loci_validate_of_match_v2_OF_VERSION_1_1_def loci_validate_of_list_bsn_interface_OF_VERSION_1_1_def
  loci_validate_of_list_action_OF_VERSION_1_1_def loci_validate_of_list_port_desc_OF_VERSION_1_1_def
  loci_validate_of_list_instruction_OF_VERSION_1_1_def
  loci_validate_of_list_flow_stats_entry_OF_VERSION_1_1_def
  loci_validate_of_list_bucket_OF_VERSION_1_1_def
  loci_validate_of_list_group_desc_stats_entry_OF_VERSION_1_1_def
  loci_validate_of_list_bucket_counter_OF_VERSION_1_1_def
  loci_validate_of_list_group_stats_entry_OF_VERSION_1_1_def
  loci_validate_of_list_queue_prop_OF_VERSION_1_1_def
  loci_validate_of_list_port_stats_entry_OF_VERSION_1_1_def
  loci_validate_of_list_packet_queue_OF_VERSION_1_1_def
  loci_validate_of_list_queue_stats_entry_OF_VERSION_1_1_def
  loci_validate_of_list_table_stats_entry_OF_VERSION_1_1_def

lemmas applied_11 = validator_defs_11 [THEN fun_cong, THEN fun_cong, THEN fun_cong]

lemmas validator_defs_12 =
  loci_validate_of_bsn_interface_OF_VERSION_1_2_def
  loci_validate_of_action_bsn_checksum_OF_VERSION_1_2_def
  loci_validate_of_action_bsn_mirror_OF_VERSION_1_2_def
  loci_validate_of_action_bsn_set_tunnel_dst_OF_VERSION_1_2_def
  loci_validate_of_action_bsn_OF_VERSION_1_2_def
  loci_validate_of_action_nicira_dec_ttl_OF_VERSION_1_2_def
  loci_validate_of_action_nicira_OF_VERSION_1_2_def
  loci_validate_of_action_experimenter_OF_VERSION_1_2_def
  loci_validate_of_action_copy_ttl_in_OF_VERSION_1_2_def
  loci_validate_of_action_copy_ttl_out_OF_VERSION_1_2_def
  loci_validate_of_action_dec_mpls_ttl_OF_VERSION_1_2_def
  loci_validate_of_action_dec_nw_ttl_OF_VERSION_1_2_def
  loci_validate_of_action_group_OF_VERSION_1_2_def loci_validate_of_action_output_OF_VERSION_1_2_def
  loci_validate_of_action_pop_mpls_OF_VERSION_1_2_def
  loci_validate_of_action_pop_vlan_OF_VERSION_1_2_def
  loci_validate_of_action_push_mpls_OF_VERSION_1_2_def
  loci_validate_of_action_push_vlan_OF_VERSION_1_2_def
  loci_validate_of_action_set_field_OF_VERSION_1_2_def
  loci_validate_of_action_set_mpls_ttl_OF_VERSION_1_2_def
  loci_validate_of_action_set_nw_ttl_OF_VERSION_1_2_def
  loci_validate_of_action_set_queue_OF_VERSION_1_2_def loci_validate_of_action_OF_VERSION_1_2_def
  loci_validate_of_port_desc_OF_VERSION_1_2_def
  loci_validate_of_instruction_apply_actions_OF_VERSION_1_2_def
  loci_validate_of_instruction_clear_actions_OF_VERSION_1_2_def
  loci_validate_of_instruction_experimenter_OF_VERSION_1_2_def
  loci_validate_of_instruction_goto_table_OF_VERSION_1_2_def
  loci_validate_of_instruction_write_actions_OF_VERSION_1_2_def
  loci_validate_of_instruction_write_metadata_OF_VERSION_1_2_def
  loci_validate_of_instruction_OF_VERSION_1_2_def loci_validate_of_flow_stats_entry_OF_VERSION_1_2_def
  loci_validate_of_bucket_OF_VERSION_1_2_def
  loci_validate_of_group_desc_stats_entry_OF_VERSION_1_2_def
  loci_validate_of_bucket_counter_OF_VERSION_1_2_def
  loci_validate_of_group_stats_entry_OF_VERSION_1_2_def loci_validate_of_oxm_arp_op_OF_VERSION_1_2_def
  loci_validate_of_oxm_arp_op_masked_OF_VERSION_1_2_def
  loci_validate_of_oxm_arp_sha_OF_VERSION_1_2_def
  loci_validate_of_oxm_arp_sha_masked_OF_VERSION_1_2_def
  loci_validate_of_oxm_arp_spa_OF_VERSION_1_2_def
  loci_validate_of_oxm_arp_spa_masked_OF_VERSION_1_2_def
  loci_validate_of_oxm_arp_tha_OF_VERSION_1_2_def
  loci_validate_of_oxm_arp_tha_masked_OF_VERSION_1_2_def
  loci_validate_of_oxm_arp_tpa_OF_VERSION_1_2_def
  loci_validate_of_oxm_arp_tpa_masked_OF_VERSION_1_2_def
  loci_validate_of_oxm_bsn_egr_port_group_id_OF_VERSION_1_2_def
  loci_validate_of_oxm_bsn_egr_port_group_id_masked_OF_VERSION_1_2_def
  loci_validate_of_oxm_bsn_global_vrf_allowed_OF_VERSION_1_2_def
  loci_validate_of_oxm_bsn_global_vrf_allowed_masked_OF_VERSION_1_2_def
  loci_validate_of_oxm_bsn_in_ports_128_OF_VERSION_1_2_def
  loci_validate_of_oxm_bsn_in_ports_128_masked_OF_VERSION_1_2_def
  loci_validate_of_oxm_bsn_in_ports_512_OF_VERSION_1_2_def
  loci_validate_of_oxm_bsn_in_ports_512_masked_OF_VERSION_1_2_def
  loci_validate_of_oxm_bsn_ingress_port_group_id_OF_VERSION_1_2_def
  loci_validate_of_oxm_bsn_ingress_port_group_id_masked_OF_VERSION_1_2_def
  loci_validate_of_oxm_bsn_l2_cache_hit_OF_VERSION_1_2_def
  loci_validate_of_oxm_bsn_l2_cache_hit_masked_OF_VERSION_1_2_def
  loci_validate_of_oxm_bsn_l3_dst_class_id_OF_VERSION_1_2_def
  loci_validate_of_oxm_bsn_l3_dst_class_id_masked_OF_VERSION_1_2_def
  loci_validate_of_oxm_bsn_l3_interface_class_id_OF_VERSION_1_2_def
  loci_validate_of_oxm_bsn_l3_interface_class_id_masked_OF_VERSION_1_2_def
  loci_validate_of_oxm_bsn_l3_src_class_id_OF_VERSION_1_2_def
  loci_validate_of_oxm_bsn_l3_src_class_id_masked_OF_VERSION_1_2_def
  loci_validate_of_oxm_bsn_lag_id_OF_VERSION_1_2_def
  loci_validate_of_oxm_bsn_lag_id_masked_OF_VERSION_1_2_def
  loci_validate_of_oxm_bsn_tcp_flags_OF_VERSION_1_2_def
  loci_validate_of_oxm_bsn_tcp_flags_masked_OF_VERSION_1_2_def
  loci_validate_of_oxm_bsn_udf0_OF_VERSION_1_2_def
  loci_validate_of_oxm_bsn_udf0_masked_OF_VERSION_1_2_def
  loci_validate_of_oxm_bsn_udf1_OF_VERSION_1_2_def
  loci_validate_of_oxm_bsn_udf1_masked_OF_VERSION_1_2_def
  loci_validate_of_oxm_bsn_udf2_OF_VERSION_1_2_def
  loci_validate_of_oxm_bsn_udf2_masked_OF_VERSION_1_2_def
  loci_validate_of_oxm_bsn_udf3_OF_VERSION_1_2_def
  loci_validate_of_oxm_bsn_udf3_masked_OF_VERSION_1_2_def
  loci_validate_of_oxm_bsn_udf4_OF_VERSION_1_2_def
  loci_validate_of_oxm_bsn_udf4_masked_OF_VERSION_1_2_def
  loci_validate_of_oxm_bsn_udf5_OF_VERSION_1_2_def
  loci_validate_of_oxm_bsn_udf5_masked_OF_VERSION_1_2_def
  loci_validate_of_oxm_bsn_udf6_OF_VERSION_1_2_def
  loci_validate_of_oxm_bsn_udf6_masked_OF_VERSION_1_2_def
  loci_validate_of_oxm_bsn_udf7_OF_VERSION_1_2_def
  loci_validate_of_oxm_bsn_udf7_masked_OF_VERSION_1_2_def
  loci_validate_of_oxm_bsn_vlan_xlate_port_group_id_OF_VERSION_1_2_def
  loci_validate_of_oxm_bsn_vlan_xlate_port_group_id_masked_OF_VERSION_1_2_def
  loci_validate_of_oxm_bsn_vrf_OF_VERSION_1_2_def
  loci_validate_of_oxm_bsn_vrf_masked_OF_VERSION_1_2_def
  loci_validate_of_oxm_eth_dst_OF_VERSION_1_2_def
  loci_validate_of_oxm_eth_dst_masked_OF_VERSION_1_2_def
  loci_validate_of_oxm_eth_src_OF_VERSION_1_2_def
  loci_validate_of_oxm_eth_src_masked_OF_VERSION_1_2_def
  loci_validate_of_oxm_eth_type_OF_VERSION_1_2_def
  loci_validate_of_oxm_eth_type_masked_OF_VERSION_1_2_def
  loci_validate_of_oxm_icmpv4_code_OF_VERSION_1_2_def
  loci_validate_of_oxm_icmpv4_code_masked_OF_VERSION_1_2_def
  loci_validate_of_oxm_icmpv4_type_OF_VERSION_1_2_def
  loci_validate_of_oxm_icmpv4_type_masked_OF_VERSION_1_2_def
  loci_validate_of_oxm_icmpv6_code_OF_VERSION_1_2_def
  loci_validate_of_oxm_icmpv6_code_masked_OF_VERSION_1_2_def
  loci_validate_of_oxm_icmpv6_type_OF_VERSION_1_2_def
  loci_validate_of_oxm_icmpv6_type_masked_OF_VERSION_1_2_def
  loci_validate_of_oxm_in_phy_port_OF_VERSION_1_2_def
  loci_validate_of_oxm_in_phy_port_masked_OF_VERSION_1_2_def
  loci_validate_of_oxm_in_port_OF_VERSION_1_2_def
  loci_validate_of_oxm_in_port_masked_OF_VERSION_1_2_def
  loci_validate_of_oxm_ip_dscp_OF_VERSION_1_2_def
  loci_validate_of_oxm_ip_dscp_masked_OF_VERSION_1_2_def
  loci_validate_of_oxm_ip_ecn_OF_VERSION_1_2_def loci_validate_of_oxm_ip_ecn_masked_OF_VERSION_1_2_def
  loci_validate_of_oxm_ip_proto_OF_VERSION_1_2_def
  loci_validate_of_oxm_ip_proto_masked_OF_VERSION_1_2_def
  loci_validate_of_oxm_ipv4_dst_OF_VERSION_1_2_def
  loci_validate_of_oxm_ipv4_dst_masked_OF_VERSION_1_2_def
  loci_validate_of_oxm_ipv4_src_OF_VERSION_1_2_def
  loci_validate_of_oxm_ipv4_src_masked_OF_VERSION_1_2_def
  loci_validate_of_oxm_ipv6_dst_OF_VERSION_1_2_def
  loci_validate_of_oxm_ipv6_dst_masked_OF_VERSION_1_2_def
  loci_validate_of_oxm_ipv6_flabel_OF_VERSION_1_2_def
  loci_validate_of_oxm_ipv6_flabel_masked_OF_VERSION_1_2_def
  loci_validate_of_oxm_ipv6_nd_sll_OF_VERSION_1_2_def
  loci_validate_of_oxm_ipv6_nd_sll_masked_OF_VERSION_1_2_def
  loci_validate_of_oxm_ipv6_nd_target_OF_VERSION_1_2_def
  loci_validate_of_oxm_ipv6_nd_target_masked_OF_VERSION_1_2_def
  loci_validate_of_oxm_ipv6_nd_tll_OF_VERSION_1_2_def
  loci_validate_of_oxm_ipv6_nd_tll_masked_OF_VERSION_1_2_def
  loci_validate_of_oxm_ipv6_src_OF_VERSION_1_2_def
  loci_validate_of_oxm_ipv6_src_masked_OF_VERSION_1_2_def
  loci_validate_of_oxm_metadata_OF_VERSION_1_2_def
  loci_validate_of_oxm_metadata_masked_OF_VERSION_1_2_def
  loci_validate_of_oxm_mpls_label_OF_VERSION_1_2_def
  loci_validate_of_oxm_mpls_label_masked_OF_VERSION_1_2_def
  loci_validate_of_oxm_mpls_tc_OF_VERSION_1_2_def
  loci_validate_of_oxm_mpls_tc_masked_OF_VERSION_1_2_def
  loci_validate_of_oxm_sctp_dst_OF_VERSION_1_2_def
  loci_validate_of_oxm_sctp_dst_masked_OF_VERSION_1_2_def
  loci_validate_of_oxm_sctp_src_OF_VERSION_1_2_def
  loci_validate_of_oxm_sctp_src_masked_OF_VERSION_1_2_def
  loci_validate_of_oxm_tcp_dst_OF_VERSION_1_2_def
  loci_validate_of_oxm_tcp_dst_masked_OF_VERSION_1_2_def
  loci_validate_of_oxm_tcp_src_OF_VERSION_1_2_def
  loci_validate_of_oxm_tcp_src_masked_OF_VERSION_1_2_def
  loci_validate_of_oxm_tunnel_ipv4_dst_OF_VERSION_1_2_def
  loci_validate_of_oxm_tunnel_ipv4_dst_masked_OF_VERSION_1_2_def
  loci_validate_of_oxm_tunnel_ipv4_src_OF_VERSION_1_2_def
  loci_validate_of_oxm_tunnel_ipv4_src_masked_OF_VERSION_1_2_def
  loci_validate_of_oxm_udp_dst_OF_VERSION_1_2_def
  loci_validate_of_oxm_udp_dst_masked_OF_VERSION_1_2_def
  loci_validate_of_oxm_udp_src_OF_VERSION_1_2_def
  loci_validate_of_oxm_udp_src_masked_OF_VERSION_1_2_def
  loci_validate_of_oxm_vlan_pcp_OF_VERSION_1_2_def
  loci_validate_of_oxm_vlan_pcp_masked_OF_VERSION_1_2_def
  loci_validate_of_oxm_vlan_vid_OF_VERSION_1_2_def
  loci_validate_of_oxm_vlan_vid_masked_OF_VERSION_1_2_def loci_validate_of_oxm_OF_VERSION_1_2_def
  loci_validate_of_queue_prop_experimenter_OF_VERSION_1_2_def
  loci_validate_of_queue_prop_max_rate_OF_VERSION_1_2_def
  loci_validate_of_queue_prop_min_rate_OF_VERSION_1_2_def
  loci_validate_of_queue_prop_OF_VERSION_1_2_def loci_validate_of_port_stats_entry_OF_VERSION_1_2_def
  loci_validate_of_packet_queue_OF_VERSION_1_2_def
  loci_validate_of_queue_stats_entry_OF_VERSION_1_2_def
  loci_validate_of_table_stats_entry_OF_VERSION_1_2_def
  loci_validate_of_aggregate_stats_reply_OF_VERSION_1_2_def
  loci_validate_of_bsn_stats_reply_OF_VERSION_1_2_def
  loci_validate_of_experimenter_stats_reply_OF_VERSION_1_2_def
  loci_validate_of_desc_stats_reply_OF_VERSION_1_2_def
  loci_validate_of_flow_stats_reply_OF_VERSION_1_2_def
  loci_validate_of_group_desc_stats_reply_OF_VERSION_1_2_def
  loci_validate_of_group_features_stats_reply_OF_VERSION_1_2_def
  loci_validate_of_group_stats_reply_OF_VERSION_1_2_def
  loci_validate_of_port_stats_reply_OF_VERSION_1_2_def
  loci_validate_of_queue_stats_reply_OF_VERSION_1_2_def
  loci_validate_of_table_stats_reply_OF_VERSION_1_2_def
  loci_validate_of_stats_reply_OF_VERSION_1_2_def
  loci_validate_of_aggregate_stats_request_OF_VERSION_1_2_def
  loci_validate_of_bsn_stats_request_OF_VERSION_1_2_def
  loci_validate_of_experimenter_stats_request_OF_VERSION_1_2_def
  loci_validate_of_desc_stats_request_OF_VERSION_1_2_def
  loci_validate_of_flow_stats_request_OF_VERSION_1_2_def
  loci_validate_of_group_desc_stats_request_OF_VERSION_1_2_def
  loci_validate_of_group_features_stats_request_OF_VERSION_1_2_def
  loci_validate_of_group_stats_request_OF_VERSION_1_2_def
  loci_validate_of_port_stats_request_OF_VERSION_1_2_def
  loci_validate_of_queue_stats_request_OF_VERSION_1_2_def
  loci_validate_of_table_stats_request_OF_VERSION_1_2_def
  loci_validate_of_stats_request_OF_VERSION_1_2_def
  loci_validate_of_bad_action_error_msg_OF_VERSION_1_2_def
  loci_validate_of_bad_instruction_error_msg_OF_VERSION_1_2_def
  loci_validate_of_bad_match_error_msg_OF_VERSION_1_2_def
  loci_validate_of_bad_request_error_msg_OF_VERSION_1_2_def
  loci_validate_of_experimenter_error_msg_OF_VERSION_1_2_def
  loci_validate_of_flow_mod_failed_error_msg_OF_VERSION_1_2_def
  loci_validate_of_group_mod_failed_error_msg_OF_VERSION_1_2_def
  loci_validate_of_hello_failed_error_msg_OF_VERSION_1_2_def
  loci_validate_of_port_mod_failed_error_msg_OF_VERSION_1_2_def
  loci_validate_of_queue_op_failed_error_msg_OF_VERSION_1_2_def
  loci_validate_of_role_request_failed_error_msg_OF_VERSION_1_2_def
  loci_validate_of_switch_config_failed_error_msg_OF_VERSION_1_2_def
  loci_validate_of_table_mod_failed_error_msg_OF_VERSION_1_2_def
  loci_validate_of_error_msg_OF_VERSION_1_2_def loci_validate_of_barrier_reply_OF_VERSION_1_2_def
  loci_validate_of_barrier_request_OF_VERSION_1_2_def
  loci_validate_of_bsn_bw_clear_data_reply_OF_VERSION_1_2_def
  loci_validate_of_bsn_bw_clear_data_request_OF_VERSION_1_2_def
  loci_validate_of_bsn_bw_enable_get_reply_OF_VERSION_1_2_def
  loci_validate_of_bsn_bw_enable_get_request_OF_VERSION_1_2_def
  loci_validate_of_bsn_bw_enable_set_reply_OF_VERSION_1_2_def
  loci_validate_of_bsn_bw_enable_set_request_OF_VERSION_1_2_def
  loci_validate_of_bsn_get_interfaces_reply_OF_VERSION_1_2_def
  loci_validate_of_bsn_get_interfaces_request_OF_VERSION_1_2_def
  loci_validate_of_bsn_get_mirroring_reply_OF_VERSION_1_2_def
  loci_validate_of_bsn_get_mirroring_request_OF_VERSION_1_2_def
  loci_validate_of_bsn_pdu_rx_reply_OF_VERSION_1_2_def
  loci_validate_of_bsn_pdu_rx_request_OF_VERSION_1_2_def
  loci_validate_of_bsn_pdu_rx_timeout_OF_VERSION_1_2_def
  loci_validate_of_bsn_pdu_tx_reply_OF_VERSION_1_2_def
  loci_validate_of_bsn_pdu_tx_request_OF_VERSION_1_2_def
  loci_validate_of_bsn_set_mirroring_OF_VERSION_1_2_def
  loci_validate_of_bsn_set_pktin_suppression_reply_OF_VERSION_1_2_def
  loci_validate_of_bsn_set_pktin_suppression_request_OF_VERSION_1_2_def
  loci_validate_of_bsn_virtual_port_create_reply_OF_VERSION_1_2_def
  loci_validate_of_bsn_virtual_port_create_request_OF_VERSION_1_2_def
  loci_validate_of_bsn_virtual_port_remove_reply_OF_VERSION_1_2_def
  loci_validate_of_bsn_virtual_port_remove_request_OF_VERSION_1_2_def
  loci_validate_of_bsn_header_OF_VERSION_1_2_def loci_validate_of_nicira_header_OF_VERSION_1_2_def
  loci_validate_of_experimenter_OF_VERSION_1_2_def loci_validate_of_echo_reply_OF_VERSION_1_2_def
  loci_validate_of_echo_request_OF_VERSION_1_2_def loci_validate_of_features_reply_OF_VERSION_1_2_def
  loci_validate_of_features_request_OF_VERSION_1_2_def loci_validate_of_flow_add_OF_VERSION_1_2_def
  loci_validate_of_flow_delete_OF_VERSION_1_2_def
  loci_validate_of_flow_delete_strict_OF_VERSION_1_2_def
  loci_validate_of_flow_modify_OF_VERSION_1_2_def
  loci_validate_of_flow_modify_strict_OF_VERSION_1_2_def loci_validate_of_flow_mod_OF_VERSION_1_2_def
  loci_validate_of_flow_removed_OF_VERSION_1_2_def
  loci_validate_of_get_config_reply_OF_VERSION_1_2_def
  loci_validate_of_get_config_request_OF_VERSION_1_2_def loci_validate_of_group_add_OF_VERSION_1_2_def
  loci_validate_of_group_delete_OF_VERSION_1_2_def loci_validate_of_group_modify_OF_VERSION_1_2_def
  loci_validate_of_group_mod_OF_VERSION_1_2_def loci_validate_of_hello_OF_VERSION_1_2_def
  loci_validate_of_packet_in_OF_VERSION_1_2_def loci_validate_of_packet_out_OF_VERSION_1_2_def
  loci_validate_of_port_mod_OF_VERSION_1_2_def loci_validate_of_port_status_OF_VERSION_1_2_def
  loci_validate_of_queue_get_config_reply_OF_VERSION_1_2_def
  loci_validate_of_queue_get_config_request_OF_VERSION_1_2_def
  loci_validate_of_role_reply_OF_VERSION_1_2_def loci_validate_of_role_request_OF_VERSION_1_2_def
  loci_validate_of_set_config_OF_VERSION_1_2_def loci_validate_of_table_mod_OF_VERSION_1_2_def
  loci_validate_of_header_OF_VERSION_1_2_def loci_validate_of_bsn_vport_l2gre_OF_VERSION_1_2_def
  loci_validate_of_bsn_vport_q_in_q_OF_VERSION_1_2_def loci_validate_of_bsn_vport_OF_VERSION_1_2_def
  loci_validate_of_match_v3_OF_VERSION_1_2_def loci_validate_of_list_bsn_interface_OF_VERSION_1_2_def
  loci_validate_of_list_action_OF_VERSION_1_2_def loci_validate_of_list_port_desc_OF_VERSION_1_2_def
  loci_validate_of_list_instruction_OF_VERSION_1_2_def
  loci_validate_of_list_flow_stats_entry_OF_VERSION_1_2_def
  loci_validate_of_list_bucket_OF_VERSION_1_2_def
  loci_validate_of_list_group_desc_stats_entry_OF_VERSION_1_2_def
  loci_validate_of_list_bucket_counter_OF_VERSION_1_2_def
  loci_validate_of_list_group_stats_entry_OF_VERSION_1_2_def
  loci_validate_of_list_oxm_OF_VERSION_1_2_def loci_validate_of_list_queue_prop_OF_VERSION_1_2_def
  loci_validate_of_list_port_stats_entry_OF_VERSION_1_2_def
  loci_validate_of_list_packet_queue_OF_VERSION_1_2_def
  loci_validate_of_list_queue_stats_entry_OF_VERSION_1_2_def
  loci_validate_of_list_table_stats_entry_OF_VERSION_1_2_def

lemmas applied_12 = validator_defs_12 [THEN fun_cong, THEN fun_cong, THEN fun_cong]

lemmas validator_defs_13 =
  loci_validate_of_bsn_tlv_actor_key_OF_VERSION_1_3_def
  loci_validate_of_bsn_tlv_actor_port_num_OF_VERSION_1_3_def
  loci_validate_of_bsn_tlv_actor_port_priority_OF_VERSION_1_3_def
  loci_validate_of_bsn_tlv_actor_state_OF_VERSION_1_3_def
  loci_validate_of_bsn_tlv_actor_system_mac_OF_VERSION_1_3_def
  loci_validate_of_bsn_tlv_actor_system_priority_OF_VERSION_1_3_def
  loci_validate_of_bsn_tlv_broadcast_query_timeout_OF_VERSION_1_3_def
  loci_validate_of_bsn_tlv_circuit_id_OF_VERSION_1_3_def
  loci_validate_of_bsn_tlv_convergence_status_OF_VERSION_1_3_def
  loci_validate_of_bsn_tlv_crc_enabled_OF_VERSION_1_3_def
  loci_validate_of_bsn_tlv_data_OF_VERSION_1_3_def loci_validate_of_bsn_tlv_eth_dst_OF_VERSION_1_3_def
  loci_validate_of_bsn_tlv_eth_src_OF_VERSION_1_3_def
  loci_validate_of_bsn_tlv_external_gateway_ip_OF_VERSION_1_3_def
  loci_validate_of_bsn_tlv_external_gateway_mac_OF_VERSION_1_3_def
  loci_validate_of_bsn_tlv_external_ip_OF_VERSION_1_3_def
  loci_validate_of_bsn_tlv_external_mac_OF_VERSION_1_3_def
  loci_validate_of_bsn_tlv_external_netmask_OF_VERSION_1_3_def
  loci_validate_of_bsn_tlv_header_size_OF_VERSION_1_3_def
  loci_validate_of_bsn_tlv_icmp_code_OF_VERSION_1_3_def
  loci_validate_of_bsn_tlv_icmp_id_OF_VERSION_1_3_def
  loci_validate_of_bsn_tlv_icmp_type_OF_VERSION_1_3_def
  loci_validate_of_bsn_tlv_idle_notification_OF_VERSION_1_3_def
  loci_validate_of_bsn_tlv_idle_time_OF_VERSION_1_3_def
  loci_validate_of_bsn_tlv_idle_timeout_OF_VERSION_1_3_def
  loci_validate_of_bsn_tlv_internal_gateway_mac_OF_VERSION_1_3_def
  loci_validate_of_bsn_tlv_internal_mac_OF_VERSION_1_3_def
  loci_validate_of_bsn_tlv_interval_OF_VERSION_1_3_def
  loci_validate_of_bsn_tlv_ip_proto_OF_VERSION_1_3_def
  loci_validate_of_bsn_tlv_ipv4_OF_VERSION_1_3_def
  loci_validate_of_bsn_tlv_ipv4_dst_OF_VERSION_1_3_def
  loci_validate_of_bsn_tlv_ipv4_netmask_OF_VERSION_1_3_def
  loci_validate_of_bsn_tlv_ipv4_src_OF_VERSION_1_3_def loci_validate_of_bsn_tlv_mac_OF_VERSION_1_3_def
  loci_validate_of_bsn_tlv_mac_mask_OF_VERSION_1_3_def
  loci_validate_of_bsn_tlv_miss_packets_OF_VERSION_1_3_def
  loci_validate_of_bsn_tlv_mpls_control_word_OF_VERSION_1_3_def
  loci_validate_of_bsn_tlv_mpls_label_OF_VERSION_1_3_def
  loci_validate_of_bsn_tlv_mpls_sequenced_OF_VERSION_1_3_def
  loci_validate_of_bsn_tlv_name_OF_VERSION_1_3_def
  loci_validate_of_bsn_tlv_partner_key_OF_VERSION_1_3_def
  loci_validate_of_bsn_tlv_partner_port_num_OF_VERSION_1_3_def
  loci_validate_of_bsn_tlv_partner_port_priority_OF_VERSION_1_3_def
  loci_validate_of_bsn_tlv_partner_state_OF_VERSION_1_3_def
  loci_validate_of_bsn_tlv_partner_system_mac_OF_VERSION_1_3_def
  loci_validate_of_bsn_tlv_partner_system_priority_OF_VERSION_1_3_def
  loci_validate_of_bsn_tlv_port_OF_VERSION_1_3_def
  loci_validate_of_bsn_tlv_priority_OF_VERSION_1_3_def
  loci_validate_of_bsn_tlv_queue_id_OF_VERSION_1_3_def
  loci_validate_of_bsn_tlv_queue_weight_OF_VERSION_1_3_def
  loci_validate_of_bsn_tlv_reply_packets_OF_VERSION_1_3_def
  loci_validate_of_bsn_tlv_request_packets_OF_VERSION_1_3_def
  loci_validate_of_bsn_tlv_rx_bytes_OF_VERSION_1_3_def
  loci_validate_of_bsn_tlv_rx_packets_OF_VERSION_1_3_def
  loci_validate_of_bsn_tlv_sampling_rate_OF_VERSION_1_3_def
  loci_validate_of_bsn_tlv_set_loopback_mode_OF_VERSION_1_3_def
  loci_validate_of_bsn_tlv_strip_mpls_l2_on_ingress_OF_VERSION_1_3_def
  loci_validate_of_bsn_tlv_strip_mpls_l3_on_ingress_OF_VERSION_1_3_def
  loci_validate_of_bsn_tlv_strip_vlan_on_egress_OF_VERSION_1_3_def
  loci_validate_of_bsn_tlv_sub_agent_id_OF_VERSION_1_3_def
  loci_validate_of_bsn_tlv_tcp_dst_OF_VERSION_1_3_def
  loci_validate_of_bsn_tlv_tcp_src_OF_VERSION_1_3_def
  loci_validate_of_bsn_tlv_tx_bytes_OF_VERSION_1_3_def
  loci_validate_of_bsn_tlv_tx_packets_OF_VERSION_1_3_def
  loci_validate_of_bsn_tlv_udf_anchor_OF_VERSION_1_3_def
  loci_validate_of_bsn_tlv_udf_id_OF_VERSION_1_3_def
  loci_validate_of_bsn_tlv_udf_length_OF_VERSION_1_3_def
  loci_validate_of_bsn_tlv_udf_offset_OF_VERSION_1_3_def
  loci_validate_of_bsn_tlv_udp_dst_OF_VERSION_1_3_def
  loci_validate_of_bsn_tlv_udp_src_OF_VERSION_1_3_def
  loci_validate_of_bsn_tlv_unicast_query_timeout_OF_VERSION_1_3_def
  loci_validate_of_bsn_tlv_vlan_pcp_OF_VERSION_1_3_def
  loci_validate_of_bsn_tlv_vlan_vid_OF_VERSION_1_3_def loci_validate_of_bsn_tlv_vrf_OF_VERSION_1_3_def
  loci_validate_of_bsn_tlv_OF_VERSION_1_3_def loci_validate_of_bsn_tlv_bucket_OF_VERSION_1_3_def
  loci_validate_of_bsn_tlv_reference_OF_VERSION_1_3_def
  loci_validate_of_bsn_controller_connection_OF_VERSION_1_3_def
  loci_validate_of_bsn_debug_counter_desc_stats_entry_OF_VERSION_1_3_def
  loci_validate_of_bsn_debug_counter_stats_entry_OF_VERSION_1_3_def
  loci_validate_of_bsn_flow_checksum_bucket_stats_entry_OF_VERSION_1_3_def
  loci_validate_of_bsn_generic_stats_entry_OF_VERSION_1_3_def
  loci_validate_of_bsn_gentable_bucket_stats_entry_OF_VERSION_1_3_def
  loci_validate_of_bsn_gentable_desc_stats_entry_OF_VERSION_1_3_def
  loci_validate_of_bsn_gentable_entry_desc_stats_entry_OF_VERSION_1_3_def
  loci_validate_of_bsn_gentable_entry_stats_entry_OF_VERSION_1_3_def
  loci_validate_of_bsn_gentable_stats_entry_OF_VERSION_1_3_def
  loci_validate_of_bsn_interface_OF_VERSION_1_3_def
  loci_validate_of_bsn_lacp_stats_entry_OF_VERSION_1_3_def loci_validate_of_uint64_OF_VERSION_1_3_def
  loci_validate_of_bsn_port_counter_stats_entry_OF_VERSION_1_3_def
  loci_validate_of_bsn_switch_pipeline_stats_entry_OF_VERSION_1_3_def
  loci_validate_of_bsn_table_checksum_stats_entry_OF_VERSION_1_3_def
  loci_validate_of_bsn_vlan_counter_stats_entry_OF_VERSION_1_3_def
  loci_validate_of_bsn_vrf_counter_stats_entry_OF_VERSION_1_3_def
  loci_validate_of_action_bsn_checksum_OF_VERSION_1_3_def
  loci_validate_of_action_bsn_gentable_OF_VERSION_1_3_def
  loci_validate_of_action_bsn_mirror_OF_VERSION_1_3_def
  loci_validate_of_action_bsn_set_tunnel_dst_OF_VERSION_1_3_def
  loci_validate_of_action_bsn_OF_VERSION_1_3_def
  loci_validate_of_action_nicira_dec_ttl_OF_VERSION_1_3_def
  loci_validate_of_action_nicira_OF_VERSION_1_3_def
  loci_validate_of_action_experimenter_OF_VERSION_1_3_def
  loci_validate_of_action_copy_ttl_in_OF_VERSION_1_3_def
  loci_validate_of_action_copy_ttl_out_OF_VERSION_1_3_def
  loci_validate_of_action_dec_mpls_ttl_OF_VERSION_1_3_def
  loci_validate_of_action_dec_nw_ttl_OF_VERSION_1_3_def
  loci_validate_of_action_group_OF_VERSION_1_3_def loci_validate_of_action_output_OF_VERSION_1_3_def
  loci_validate_of_action_pop_mpls_OF_VERSION_1_3_def
  loci_validate_of_action_pop_pbb_OF_VERSION_1_3_def
  loci_validate_of_action_pop_vlan_OF_VERSION_1_3_def
  loci_validate_of_action_push_mpls_OF_VERSION_1_3_def
  loci_validate_of_action_push_pbb_OF_VERSION_1_3_def
  loci_validate_of_action_push_vlan_OF_VERSION_1_3_def
  loci_validate_of_action_set_field_OF_VERSION_1_3_def
  loci_validate_of_action_set_mpls_ttl_OF_VERSION_1_3_def
  loci_validate_of_action_set_nw_ttl_OF_VERSION_1_3_def
  loci_validate_of_action_set_queue_OF_VERSION_1_3_def loci_validate_of_action_OF_VERSION_1_3_def
  loci_validate_of_instruction_apply_actions_OF_VERSION_1_3_def
  loci_validate_of_instruction_bsn_arp_offload_OF_VERSION_1_3_def
  loci_validate_of_instruction_bsn_auto_negotiation_OF_VERSION_1_3_def
  loci_validate_of_instruction_bsn_deny_OF_VERSION_1_3_def
  loci_validate_of_instruction_bsn_dhcp_offload_OF_VERSION_1_3_def
  loci_validate_of_instruction_bsn_disable_l3_OF_VERSION_1_3_def
  loci_validate_of_instruction_bsn_disable_split_horizon_check_OF_VERSION_1_3_def
  loci_validate_of_instruction_bsn_disable_src_mac_check_OF_VERSION_1_3_def
  loci_validate_of_instruction_bsn_disable_vlan_counters_OF_VERSION_1_3_def
  loci_validate_of_instruction_bsn_internal_priority_OF_VERSION_1_3_def
  loci_validate_of_instruction_bsn_packet_of_death_OF_VERSION_1_3_def
  loci_validate_of_instruction_bsn_permit_OF_VERSION_1_3_def
  loci_validate_of_instruction_bsn_prioritize_pdus_OF_VERSION_1_3_def
  loci_validate_of_instruction_bsn_require_vlan_xlate_OF_VERSION_1_3_def
  loci_validate_of_instruction_bsn_span_destination_OF_VERSION_1_3_def
  loci_validate_of_instruction_bsn_OF_VERSION_1_3_def
  loci_validate_of_instruction_experimenter_OF_VERSION_1_3_def
  loci_validate_of_instruction_clear_actions_OF_VERSION_1_3_def
  loci_validate_of_instruction_goto_table_OF_VERSION_1_3_def
  loci_validate_of_instruction_meter_OF_VERSION_1_3_def
  loci_validate_of_instruction_write_actions_OF_VERSION_1_3_def
  loci_validate_of_instruction_write_metadata_OF_VERSION_1_3_def
  loci_validate_of_instruction_OF_VERSION_1_3_def loci_validate_of_flow_stats_entry_OF_VERSION_1_3_def
  loci_validate_of_bucket_OF_VERSION_1_3_def
  loci_validate_of_group_desc_stats_entry_OF_VERSION_1_3_def
  loci_validate_of_bucket_counter_OF_VERSION_1_3_def
  loci_validate_of_group_stats_entry_OF_VERSION_1_3_def loci_validate_of_uint32_OF_VERSION_1_3_def
  loci_validate_of_hello_elem_versionbitmap_OF_VERSION_1_3_def
  loci_validate_of_hello_elem_OF_VERSION_1_3_def loci_validate_of_oxm_arp_op_OF_VERSION_1_3_def
  loci_validate_of_oxm_arp_op_masked_OF_VERSION_1_3_def
  loci_validate_of_oxm_arp_sha_OF_VERSION_1_3_def
  loci_validate_of_oxm_arp_sha_masked_OF_VERSION_1_3_def
  loci_validate_of_oxm_arp_spa_OF_VERSION_1_3_def
  loci_validate_of_oxm_arp_spa_masked_OF_VERSION_1_3_def
  loci_validate_of_oxm_arp_tha_OF_VERSION_1_3_def
  loci_validate_of_oxm_arp_tha_masked_OF_VERSION_1_3_def
  loci_validate_of_oxm_arp_tpa_OF_VERSION_1_3_def
  loci_validate_of_oxm_arp_tpa_masked_OF_VERSION_1_3_def
  loci_validate_of_oxm_bsn_egr_port_group_id_OF_VERSION_1_3_def
  loci_validate_of_oxm_bsn_egr_port_group_id_masked_OF_VERSION_1_3_def
  loci_validate_of_oxm_bsn_global_vrf_allowed_OF_VERSION_1_3_def
  loci_validate_of_oxm_bsn_global_vrf_allowed_masked_OF_VERSION_1_3_def
  loci_validate_of_oxm_bsn_in_ports_128_OF_VERSION_1_3_def
  loci_validate_of_oxm_bsn_in_ports_128_masked_OF_VERSION_1_3_def
  loci_validate_of_oxm_bsn_in_ports_512_OF_VERSION_1_3_def
  loci_validate_of_oxm_bsn_in_ports_512_masked_OF_VERSION_1_3_def
  loci_validate_of_oxm_bsn_ingress_port_group_id_OF_VERSION_1_3_def
  loci_validate_of_oxm_bsn_ingress_port_group_id_masked_OF_VERSION_1_3_def
  loci_validate_of_oxm_bsn_l2_cache_hit_OF_VERSION_1_3_def
  loci_validate_of_oxm_bsn_l2_cache_hit_masked_OF_VERSION_1_3_def
  loci_validate_of_oxm_bsn_l3_dst_class_id_OF_VERSION_1_3_def
  loci_validate_of_oxm_bsn_l3_dst_class_id_masked_OF_VERSION_1_3_def
  loci_validate_of_oxm_bsn_l3_interface_class_id_OF_VERSION_1_3_def
  loci_validate_of_oxm_bsn_l3_interface_class_id_masked_OF_VERSION_1_3_def
  loci_validate_of_oxm_bsn_l3_src_class_id_OF_VERSION_1_3_def
  loci_validate_of_oxm_bsn_l3_src_class_id_masked_OF_VERSION_1_3_def
  loci_validate_of_oxm_bsn_lag_id_OF_VERSION_1_3_def
  loci_validate_of_oxm_bsn_lag_id_masked_OF_VERSION_1_3_def
  loci_validate_of_oxm_bsn_tcp_flags_OF_VERSION_1_3_def
  loci_validate_of_oxm_bsn_tcp_flags_masked_OF_VERSION_1_3_def
  loci_validate_of_oxm_bsn_udf0_OF_VERSION_1_3_def
  loci_validate_of_oxm_bsn_udf0_masked_OF_VERSION_1_3_def
  loci_validate_of_oxm_bsn_udf1_OF_VERSION_1_3_def
  loci_validate_of_oxm_bsn_udf1_masked_OF_VERSION_1_3_def
  loci_validate_of_oxm_bsn_udf2_OF_VERSION_1_3_def
  loci_validate_of_oxm_bsn_udf2_masked_OF_VERSION_1_3_def
  loci_validate_of_oxm_bsn_udf3_OF_VERSION_1_3_def
  loci_validate_of_oxm_bsn_udf3_masked_OF_VERSION_1_3_def
  loci_validate_of_oxm_bsn_udf4_OF_VERSION_1_3_def
  loci_validate_of_oxm_bsn_udf4_masked_OF_VERSION_1_3_def
  loci_validate_of_oxm_bsn_udf5_OF_VERSION_1_3_def
  loci_validate_of_oxm_bsn_udf5_masked_OF_VERSION_1_3_def
  loci_validate_of_oxm_bsn_udf6_OF_VERSION_1_3_def
  loci_validate_of_oxm_bsn_udf6_masked_OF_VERSION_1_3_def
  loci_validate_of_oxm_bsn_udf7_OF_VERSION_1_3_def
  loci_validate_of_oxm_bsn_udf7_masked_OF_VERSION_1_3_def
  loci_validate_of_oxm_bsn_vlan_xlate_port_group_id_OF_VERSION_1_3_def
  loci_validate_of_oxm_bsn_vlan_xlate_port_group_id_masked_OF_VERSION_1_3_def
  loci_validate_of_oxm_bsn_vrf_OF_VERSION_1_3_def
  loci_validate_of_oxm_bsn_vrf_masked_OF_VERSION_1_3_def
  loci_validate_of_oxm_eth_dst_OF_VERSION_1_3_def
  loci_validate_of_oxm_eth_dst_masked_OF_VERSION_1_3_def
  loci_validate_of_oxm_eth_src_OF_VERSION_1_3_def
  loci_validate_of_oxm_eth_src_masked_OF_VERSION_1_3_def
  loci_validate_of_oxm_eth_type_OF_VERSION_1_3_def
  loci_validate_of_oxm_eth_type_masked_OF_VERSION_1_3_def
  loci_validate_of_oxm_icmpv4_code_OF_VERSION_1_3_def
  loci_validate_of_oxm_icmpv4_code_masked_OF_VERSION_1_3_def
  loci_validate_of_oxm_icmpv4_type_OF_VERSION_1_3_def
  loci_validate_of_oxm_icmpv4_type_masked_OF_VERSION_1_3_def
  loci_validate_of_oxm_icmpv6_code_OF_VERSION_1_3_def
  loci_validate_of_oxm_icmpv6_code_masked_OF_VERSION_1_3_def
  loci_validate_of_oxm_icmpv6_type_OF_VERSION_1_3_def
  loci_validate_of_oxm_icmpv6_type_masked_OF_VERSION_1_3_def
  loci_validate_of_oxm_in_phy_port_OF_VERSION_1_3_def
  loci_validate_of_oxm_in_phy_port_masked_OF_VERSION_1_3_def
  loci_validate_of_oxm_in_port_OF_VERSION_1_3_def
  loci_validate_of_oxm_in_port_masked_OF_VERSION_1_3_def
  loci_validate_of_oxm_ip_dscp_OF_VERSION_1_3_def
  loci_validate_of_oxm_ip_dscp_masked_OF_VERSION_1_3_def
  loci_validate_of_oxm_ip_ecn_OF_VERSION_1_3_def loci_validate_of_oxm_ip_ecn_masked_OF_VERSION_1_3_def
  loci_validate_of_oxm_ip_proto_OF_VERSION_1_3_def
  loci_validate_of_oxm_ip_proto_masked_OF_VERSION_1_3_def
  loci_validate_of_oxm_ipv4_dst_OF_VERSION_1_3_def
  loci_validate_of_oxm_ipv4_dst_masked_OF_VERSION_1_3_def
  loci_validate_of_oxm_ipv4_src_OF_VERSION_1_3_def
  loci_validate_of_oxm_ipv4_src_masked_OF_VERSION_1_3_def
  loci_validate_of_oxm_ipv6_dst_OF_VERSION_1_3_def
  loci_validate_of_oxm_ipv6_dst_masked_OF_VERSION_1_3_def
  loci_validate_of_oxm_ipv6_exthdr_OF_VERSION_1_3_def
  loci_validate_of_oxm_ipv6_exthdr_masked_OF_VERSION_1_3_def
  loci_validate_of_oxm_ipv6_flabel_OF_VERSION_1_3_def
  loci_validate_of_oxm_ipv6_flabel_masked_OF_VERSION_1_3_def
  loci_validate_of_oxm_ipv6_nd_sll_OF_VERSION_1_3_def
  loci_validate_of_oxm_ipv6_nd_sll_masked_OF_VERSION_1_3_def
  loci_validate_of_oxm_ipv6_nd_target_OF_VERSION_1_3_def
  loci_validate_of_oxm_ipv6_nd_target_masked_OF_VERSION_1_3_def
  loci_validate_of_oxm_ipv6_nd_tll_OF_VERSION_1_3_def
  loci_validate_of_oxm_ipv6_nd_tll_masked_OF_VERSION_1_3_def
  loci_validate_of_oxm_ipv6_src_OF_VERSION_1_3_def
  loci_validate_of_oxm_ipv6_src_masked_OF_VERSION_1_3_def
  loci_validate_of_oxm_metadata_OF_VERSION_1_3_def
  loci_validate_of_oxm_metadata_masked_OF_VERSION_1_3_def
  loci_validate_of_oxm_mpls_bos_OF_VERSION_1_3_def
  loci_validate_of_oxm_mpls_bos_masked_OF_VERSION_1_3_def
  loci_validate_of_oxm_mpls_label_OF_VERSION_1_3_def
  loci_validate_of_oxm_mpls_label_masked_OF_VERSION_1_3_def
  loci_validate_of_oxm_mpls_tc_OF_VERSION_1_3_def
  loci_validate_of_oxm_mpls_tc_masked_OF_VERSION_1_3_def
  loci_validate_of_oxm_sctp_dst_OF_VERSION_1_3_def
  loci_validate_of_oxm_sctp_dst_masked_OF_VERSION_1_3_def
  loci_validate_of_oxm_sctp_src_OF_VERSION_1_3_def
  loci_validate_of_oxm_sctp_src_masked_OF_VERSION_1_3_def
  loci_validate_of_oxm_tcp_dst_OF_VERSION_1_3_def
  loci_validate_of_oxm_tcp_dst_masked_OF_VERSION_1_3_def
  loci_validate_of_oxm_tcp_src_OF_VERSION_1_3_def
  loci_validate_of_oxm_tcp_src_masked_OF_VERSION_1_3_def
  loci_validate_of_oxm_tunnel_id_OF_VERSION_1_3_def
  loci_validate_of_oxm_tunnel_id_masked_OF_VERSION_1_3_def
  loci_validate_of_oxm_tunnel_ipv4_dst_OF_VERSION_1_3_def
  loci_validate_of_oxm_tunnel_ipv4_dst_masked_OF_VERSION_1_3_def
  loci_validate_of_oxm_tunnel_ipv4_src_OF_VERSION_1_3_def
  loci_validate_of_oxm_tunnel_ipv4_src_masked_OF_VERSION_1_3_def
  loci_validate_of_oxm_udp_dst_OF_VERSION_1_3_def
  loci_validate_of_oxm_udp_dst_masked_OF_VERSION_1_3_def
  loci_validate_of_oxm_udp_src_OF_VERSION_1_3_def
  loci_validate_of_oxm_udp_src_masked_OF_VERSION_1_3_def
  loci_validate_of_oxm_vlan_pcp_OF_VERSION_1_3_def
  loci_validate_of_oxm_vlan_pcp_masked_OF_VERSION_1_3_def
  loci_validate_of_oxm_vlan_vid_OF_VERSION_1_3_def
  loci_validate_of_oxm_vlan_vid_masked_OF_VERSION_1_3_def loci_validate_of_oxm_OF_VERSION_1_3_def
  loci_validate_of_meter_band_drop_OF_VERSION_1_3_def
  loci_validate_of_meter_band_dscp_remark_OF_VERSION_1_3_def
  loci_validate_of_meter_band_experimenter_OF_VERSION_1_3_def
  loci_validate_of_meter_band_OF_VERSION_1_3_def loci_validate_of_meter_band_stats_OF_VERSION_1_3_def
  loci_validate_of_meter_stats_OF_VERSION_1_3_def
  loci_validate_of_queue_prop_experimenter_OF_VERSION_1_3_def
  loci_validate_of_queue_prop_max_rate_OF_VERSION_1_3_def
  loci_validate_of_queue_prop_min_rate_OF_VERSION_1_3_def
  loci_validate_of_queue_prop_OF_VERSION_1_3_def loci_validate_of_port_desc_OF_VERSION_1_3_def
  loci_validate_of_port_stats_entry_OF_VERSION_1_3_def
  loci_validate_of_packet_queue_OF_VERSION_1_3_def
  loci_validate_of_queue_stats_entry_OF_VERSION_1_3_def
  loci_validate_of_action_id_bsn_checksum_OF_VERSION_1_3_def
  loci_validate_of_action_id_bsn_gentable_OF_VERSION_1_3_def
  loci_validate_of_action_id_bsn_mirror_OF_VERSION_1_3_def
  loci_validate_of_action_id_bsn_set_tunnel_dst_OF_VERSION_1_3_def
  loci_validate_of_action_id_bsn_OF_VERSION_1_3_def
  loci_validate_of_action_id_nicira_dec_ttl_OF_VERSION_1_3_def
  loci_validate_of_action_id_nicira_OF_VERSION_1_3_def
  loci_validate_of_action_id_experimenter_OF_VERSION_1_3_def
  loci_validate_of_action_id_copy_ttl_in_OF_VERSION_1_3_def
  loci_validate_of_action_id_copy_ttl_out_OF_VERSION_1_3_def
  loci_validate_of_action_id_dec_mpls_ttl_OF_VERSION_1_3_def
  loci_validate_of_action_id_dec_nw_ttl_OF_VERSION_1_3_def
  loci_validate_of_action_id_group_OF_VERSION_1_3_def
  loci_validate_of_action_id_output_OF_VERSION_1_3_def
  loci_validate_of_action_id_pop_mpls_OF_VERSION_1_3_def
  loci_validate_of_action_id_pop_pbb_OF_VERSION_1_3_def
  loci_validate_of_action_id_pop_vlan_OF_VERSION_1_3_def
  loci_validate_of_action_id_push_mpls_OF_VERSION_1_3_def
  loci_validate_of_action_id_push_pbb_OF_VERSION_1_3_def
  loci_validate_of_action_id_push_vlan_OF_VERSION_1_3_def
  loci_validate_of_action_id_set_field_OF_VERSION_1_3_def
  loci_validate_of_action_id_set_mpls_ttl_OF_VERSION_1_3_def
  loci_validate_of_action_id_set_nw_ttl_OF_VERSION_1_3_def
  loci_validate_of_action_id_set_queue_OF_VERSION_1_3_def
  loci_validate_of_action_id_OF_VERSION_1_3_def
  loci_validate_of_instruction_id_apply_actions_OF_VERSION_1_3_def
  loci_validate_of_instruction_id_bsn_arp_offload_OF_VERSION_1_3_def
  loci_validate_of_instruction_id_bsn_auto_negotiation_OF_VERSION_1_3_def
  loci_validate_of_instruction_id_bsn_deny_OF_VERSION_1_3_def
  loci_validate_of_instruction_id_bsn_dhcp_offload_OF_VERSION_1_3_def
  loci_validate_of_instruction_id_bsn_disable_l3_OF_VERSION_1_3_def
  loci_validate_of_instruction_id_bsn_disable_split_horizon_check_OF_VERSION_1_3_def
  loci_validate_of_instruction_id_bsn_disable_src_mac_check_OF_VERSION_1_3_def
  loci_validate_of_instruction_id_bsn_disable_vlan_counters_OF_VERSION_1_3_def
  loci_validate_of_instruction_id_bsn_internal_priority_OF_VERSION_1_3_def
  loci_validate_of_instruction_id_bsn_packet_of_death_OF_VERSION_1_3_def
  loci_validate_of_instruction_id_bsn_permit_OF_VERSION_1_3_def
  loci_validate_of_instruction_id_bsn_prioritize_pdus_OF_VERSION_1_3_def
  loci_validate_of_instruction_id_bsn_require_vlan_xlate_OF_VERSION_1_3_def
  loci_validate_of_instruction_id_bsn_span_destination_OF_VERSION_1_3_def
  loci_validate_of_instruction_id_bsn_OF_VERSION_1_3_def
  loci_validate_of_instruction_id_experimenter_OF_VERSION_1_3_def
  loci_validate_of_instruction_id_clear_actions_OF_VERSION_1_3_def
  loci_validate_of_instruction_id_goto_table_OF_VERSION_1_3_def
  loci_validate_of_instruction_id_meter_OF_VERSION_1_3_def
  loci_validate_of_instruction_id_write_actions_OF_VERSION_1_3_def
  loci_validate_of_instruction_id_write_metadata_OF_VERSION_1_3_def
  loci_validate_of_instruction_id_OF_VERSION_1_3_def loci_validate_of_uint8_OF_VERSION_1_3_def
  loci_validate_of_table_feature_prop_apply_actions_OF_VERSION_1_3_def
  loci_validate_of_table_feature_prop_apply_actions_miss_OF_VERSION_1_3_def
  loci_validate_of_table_feature_prop_apply_setfield_OF_VERSION_1_3_def
  loci_validate_of_table_feature_prop_apply_setfield_miss_OF_VERSION_1_3_def
  loci_validate_of_table_feature_prop_experimenter_OF_VERSION_1_3_def
  loci_validate_of_table_feature_prop_experimenter_miss_OF_VERSION_1_3_def
  loci_validate_of_table_feature_prop_instructions_OF_VERSION_1_3_def
  loci_validate_of_table_feature_prop_instructions_miss_OF_VERSION_1_3_def
  loci_validate_of_table_feature_prop_match_OF_VERSION_1_3_def
  loci_validate_of_table_feature_prop_next_tables_OF_VERSION_1_3_def
  loci_validate_of_table_feature_prop_next_tables_miss_OF_VERSION_1_3_def
  loci_validate_of_table_feature_prop_wildcards_OF_VERSION_1_3_def
  loci_validate_of_table_feature_prop_write_actions_OF_VERSION_1_3_def
  loci_validate_of_table_feature_prop_write_actions_miss_OF_VERSION_1_3_def
  loci_validate_of_table_feature_prop_write_setfield_OF_VERSION_1_3_def
  loci_validate_of_table_feature_prop_write_setfield_miss_OF_VERSION_1_3_def
  loci_validate_of_table_feature_prop_OF_VERSION_1_3_def
  loci_validate_of_table_features_OF_VERSION_1_3_def
  loci_validate_of_table_stats_entry_OF_VERSION_1_3_def
  loci_validate_of_aggregate_stats_reply_OF_VERSION_1_3_def
  loci_validate_of_bsn_debug_counter_desc_stats_reply_OF_VERSION_1_3_def
  loci_validate_of_bsn_debug_counter_stats_reply_OF_VERSION_1_3_def
  loci_validate_of_bsn_flow_checksum_bucket_stats_reply_OF_VERSION_1_3_def
  loci_validate_of_bsn_generic_stats_reply_OF_VERSION_1_3_def
  loci_validate_of_bsn_gentable_bucket_stats_reply_OF_VERSION_1_3_def
  loci_validate_of_bsn_gentable_desc_stats_reply_OF_VERSION_1_3_def
  loci_validate_of_bsn_gentable_entry_desc_stats_reply_OF_VERSION_1_3_def
  loci_validate_of_bsn_gentable_entry_stats_reply_OF_VERSION_1_3_def
  loci_validate_of_bsn_gentable_stats_reply_OF_VERSION_1_3_def
  loci_validate_of_bsn_image_desc_stats_reply_OF_VERSION_1_3_def
  loci_validate_of_bsn_lacp_stats_reply_OF_VERSION_1_3_def
  loci_validate_of_bsn_port_counter_stats_reply_OF_VERSION_1_3_def
  loci_validate_of_bsn_switch_pipeline_stats_reply_OF_VERSION_1_3_def
  loci_validate_of_bsn_table_checksum_stats_reply_OF_VERSION_1_3_def
  loci_validate_of_bsn_vlan_counter_stats_reply_OF_VERSION_1_3_def
  loci_validate_of_bsn_vrf_counter_stats_reply_OF_VERSION_1_3_def
  loci_validate_of_bsn_stats_reply_OF_VERSION_1_3_def
  loci_validate_of_experimenter_stats_reply_OF_VERSION_1_3_def
  loci_validate_of_desc_stats_reply_OF_VERSION_1_3_def
  loci_validate_of_flow_stats_reply_OF_VERSION_1_3_def
  loci_validate_of_group_desc_stats_reply_OF_VERSION_1_3_def
  loci_validate_of_group_features_stats_reply_OF_VERSION_1_3_def
  loci_validate_of_group_stats_reply_OF_VERSION_1_3_def
  loci_validate_of_meter_config_stats_reply_OF_VERSION_1_3_def
  loci_validate_of_meter_features_stats_reply_OF_VERSION_1_3_def
  loci_validate_of_meter_stats_reply_OF_VERSION_1_3_def
  loci_validate_of_port_desc_stats_reply_OF_VERSION_1_3_def
  loci_validate_of_port_stats_reply_OF_VERSION_1_3_def
  loci_validate_of_queue_stats_reply_OF_VERSION_1_3_def
  loci_validate_of_table_features_stats_reply_OF_VERSION_1_3_def
  loci_validate_of_table_stats_reply_OF_VERSION_1_3_def
  loci_validate_of_stats_reply_OF_VERSION_1_3_def
  loci_validate_of_aggregate_stats_request_OF_VERSION_1_3_def
  loci_validate_of_bsn_debug_counter_desc_stats_request_OF_VERSION_1_3_def
  loci_validate_of_bsn_debug_counter_stats_request_OF_VERSION_1_3_def
  loci_validate_of_bsn_flow_checksum_bucket_stats_request_OF_VERSION_1_3_def
  loci_validate_of_bsn_generic_stats_request_OF_VERSION_1_3_def
  loci_validate_of_bsn_gentable_bucket_stats_request_OF_VERSION_1_3_def
  loci_validate_of_bsn_gentable_desc_stats_request_OF_VERSION_1_3_def
  loci_validate_of_bsn_gentable_entry_desc_stats_request_OF_VERSION_1_3_def
  loci_validate_of_bsn_gentable_entry_stats_request_OF_VERSION_1_3_def
  loci_validate_of_bsn_gentable_stats_request_OF_VERSION_1_3_def
  loci_validate_of_bsn_image_desc_stats_request_OF_VERSION_1_3_def
  loci_validate_of_bsn_lacp_stats_request_OF_VERSION_1_3_def
  loci_validate_of_bsn_port_counter_stats_request_OF_VERSION_1_3_def
  loci_validate_of_bsn_switch_pipeline_stats_request_OF_VERSION_1_3_def
  loci_validate_of_bsn_table_checksum_stats_request_OF_VERSION_1_3_def
  loci_validate_of_bsn_vlan_counter_stats_request_OF_VERSION_1_3_def
  loci_validate_of_bsn_vrf_counter_stats_request_OF_VERSION_1_3_def
  loci_validate_of_bsn_stats_request_OF_VERSION_1_3_def
  loci_validate_of_experimenter_stats_request_OF_VERSION_1_3_def
  loci_validate_of_desc_stats_request_OF_VERSION_1_3_def
  loci_validate_of_flow_stats_request_OF_VERSION_1_3_def
  loci_validate_of_group_desc_stats_request_OF_VERSION_1_3_def
  loci_validate_of_group_features_stats_request_OF_VERSION_1_3_def
  loci_validate_of_group_stats_request_OF_VERSION_1_3_def
  loci_validate_of_meter_config_stats_request_OF_VERSION_1_3_def
  loci_validate_of_meter_features_stats_request_OF_VERSION_1_3_def
  loci_validate_of_meter_stats_request_OF_VERSION_1_3_def
  loci_validate_of_port_desc_stats_request_OF_VERSION_1_3_def
  loci_validate_of_port_stats_request_OF_VERSION_1_3_def
  loci_validate_of_queue_stats_request_OF_VERSION_1_3_def
  loci_validate_of_table_features_stats_request_OF_VERSION_1_3_def
  loci_validate_of_table_stats_request_OF_VERSION_1_3_def
  loci_validate_of_stats_request_OF_VERSION_1_3_def
  loci_validate_of_async_get_reply_OF_VERSION_1_3_def
  loci_validate_of_async_get_request_OF_VERSION_1_3_def loci_validate_of_async_set_OF_VERSION_1_3_def
  loci_validate_of_bad_action_error_msg_OF_VERSION_1_3_def
  loci_validate_of_bad_instruction_error_msg_OF_VERSION_1_3_def
  loci_validate_of_bad_match_error_msg_OF_VERSION_1_3_def
  loci_validate_of_bad_request_error_msg_OF_VERSION_1_3_def
  loci_validate_of_experimenter_error_msg_OF_VERSION_1_3_def
  loci_validate_of_flow_mod_failed_error_msg_OF_VERSION_1_3_def
  loci_validate_of_group_mod_failed_error_msg_OF_VERSION_1_3_def
  loci_validate_of_hello_failed_error_msg_OF_VERSION_1_3_def
  loci_validate_of_meter_mod_failed_error_msg_OF_VERSION_1_3_def
  loci_validate_of_port_mod_failed_error_msg_OF_VERSION_1_3_def
  loci_validate_of_queue_op_failed_error_msg_OF_VERSION_1_3_def
  loci_validate_of_role_request_failed_error_msg_OF_VERSION_1_3_def
  loci_validate_of_switch_config_failed_error_msg_OF_VERSION_1_3_def
  loci_validate_of_table_features_failed_error_msg_OF_VERSION_1_3_def
  loci_validate_of_table_mod_failed_error_msg_OF_VERSION_1_3_def
  loci_validate_of_error_msg_OF_VERSION_1_3_def loci_validate_of_barrier_reply_OF_VERSION_1_3_def
  loci_validate_of_barrier_request_OF_VERSION_1_3_def loci_validate_of_bsn_arp_idle_OF_VERSION_1_3_def
  loci_validate_of_bsn_bw_clear_data_reply_OF_VERSION_1_3_def
  loci_validate_of_bsn_bw_clear_data_request_OF_VERSION_1_3_def
  loci_validate_of_bsn_bw_enable_get_reply_OF_VERSION_1_3_def
  loci_validate_of_bsn_bw_enable_get_request_OF_VERSION_1_3_def
  loci_validate_of_bsn_bw_enable_set_reply_OF_VERSION_1_3_def
  loci_validate_of_bsn_bw_enable_set_request_OF_VERSION_1_3_def
  loci_validate_of_bsn_controller_connections_reply_OF_VERSION_1_3_def
  loci_validate_of_bsn_controller_connections_request_OF_VERSION_1_3_def
  loci_validate_of_bsn_flow_idle_OF_VERSION_1_3_def
  loci_validate_of_bsn_flow_idle_enable_get_reply_OF_VERSION_1_3_def
  loci_validate_of_bsn_flow_idle_enable_get_request_OF_VERSION_1_3_def
  loci_validate_of_bsn_flow_idle_enable_set_reply_OF_VERSION_1_3_def
  loci_validate_of_bsn_flow_idle_enable_set_request_OF_VERSION_1_3_def
  loci_validate_of_bsn_gentable_clear_reply_OF_VERSION_1_3_def
  loci_validate_of_bsn_gentable_clear_request_OF_VERSION_1_3_def
  loci_validate_of_bsn_gentable_entry_add_OF_VERSION_1_3_def
  loci_validate_of_bsn_gentable_entry_delete_OF_VERSION_1_3_def
  loci_validate_of_bsn_gentable_set_buckets_size_OF_VERSION_1_3_def
  loci_validate_of_bsn_get_interfaces_reply_OF_VERSION_1_3_def
  loci_validate_of_bsn_get_interfaces_request_OF_VERSION_1_3_def
  loci_validate_of_bsn_get_mirroring_reply_OF_VERSION_1_3_def
  loci_validate_of_bsn_get_mirroring_request_OF_VERSION_1_3_def
  loci_validate_of_bsn_get_switch_pipeline_reply_OF_VERSION_1_3_def
  loci_validate_of_bsn_get_switch_pipeline_request_OF_VERSION_1_3_def
  loci_validate_of_bsn_lacp_convergence_notif_OF_VERSION_1_3_def
  loci_validate_of_bsn_log_OF_VERSION_1_3_def
  loci_validate_of_bsn_lua_command_reply_OF_VERSION_1_3_def
  loci_validate_of_bsn_lua_command_request_OF_VERSION_1_3_def
  loci_validate_of_bsn_lua_notification_OF_VERSION_1_3_def
  loci_validate_of_bsn_lua_upload_OF_VERSION_1_3_def
  loci_validate_of_bsn_pdu_rx_reply_OF_VERSION_1_3_def
  loci_validate_of_bsn_pdu_rx_request_OF_VERSION_1_3_def
  loci_validate_of_bsn_pdu_rx_timeout_OF_VERSION_1_3_def
  loci_validate_of_bsn_pdu_tx_reply_OF_VERSION_1_3_def
  loci_validate_of_bsn_pdu_tx_request_OF_VERSION_1_3_def
  loci_validate_of_bsn_role_status_OF_VERSION_1_3_def
  loci_validate_of_bsn_set_aux_cxns_reply_OF_VERSION_1_3_def
  loci_validate_of_bsn_set_aux_cxns_request_OF_VERSION_1_3_def
  loci_validate_of_bsn_set_lacp_reply_OF_VERSION_1_3_def
  loci_validate_of_bsn_set_lacp_request_OF_VERSION_1_3_def
  loci_validate_of_bsn_set_mirroring_OF_VERSION_1_3_def
  loci_validate_of_bsn_set_pktin_suppression_reply_OF_VERSION_1_3_def
  loci_validate_of_bsn_set_pktin_suppression_request_OF_VERSION_1_3_def
  loci_validate_of_bsn_set_switch_pipeline_reply_OF_VERSION_1_3_def
  loci_validate_of_bsn_set_switch_pipeline_request_OF_VERSION_1_3_def
  loci_validate_of_bsn_table_set_buckets_size_OF_VERSION_1_3_def
  loci_validate_of_bsn_time_reply_OF_VERSION_1_3_def
  loci_validate_of_bsn_time_request_OF_VERSION_1_3_def
  loci_validate_of_bsn_virtual_port_create_reply_OF_VERSION_1_3_def
  loci_validate_of_bsn_virtual_port_create_request_OF_VERSION_1_3_def
  loci_validate_of_bsn_virtual_port_remove_reply_OF_VERSION_1_3_def
  loci_validate_of_bsn_virtual_port_remove_request_OF_VERSION_1_3_def
  loci_validate_of_bsn_header_OF_VERSION_1_3_def loci_validate_of_nicira_header_OF_VERSION_1_3_def
  loci_validate_of_experimenter_OF_VERSION_1_3_def loci_validate_of_echo_reply_OF_VERSION_1_3_def
  loci_validate_of_echo_request_OF_VERSION_1_3_def loci_validate_of_features_reply_OF_VERSION_1_3_def
  loci_validate_of_features_request_OF_VERSION_1_3_def loci_validate_of_flow_add_OF_VERSION_1_3_def
  loci_validate_of_flow_delete_OF_VERSION_1_3_def
  loci_validate_of_flow_delete_strict_OF_VERSION_1_3_def
  loci_validate_of_flow_modify_OF_VERSION_1_3_def
  loci_validate_of_flow_modify_strict_OF_VERSION_1_3_def loci_validate_of_flow_mod_OF_VERSION_1_3_def
  loci_validate_of_flow_removed_OF_VERSION_1_3_def
  loci_validate_of_get_config_reply_OF_VERSION_1_3_def
  loci_validate_of_get_config_request_OF_VERSION_1_3_def loci_validate_of_group_add_OF_VERSION_1_3_def
  loci_validate_of_group_delete_OF_VERSION_1_3_def loci_validate_of_group_modify_OF_VERSION_1_3_def
  loci_validate_of_group_mod_OF_VERSION_1_3_def loci_validate_of_hello_OF_VERSION_1_3_def
  loci_validate_of_meter_mod_OF_VERSION_1_3_def loci_validate_of_packet_in_OF_VERSION_1_3_def
  loci_validate_of_packet_out_OF_VERSION_1_3_def loci_validate_of_port_mod_OF_VERSION_1_3_def
  loci_validate_of_port_status_OF_VERSION_1_3_def
  loci_validate_of_queue_get_config_reply_OF_VERSION_1_3_def
  loci_validate_of_queue_get_config_request_OF_VERSION_1_3_def
  loci_validate_of_role_reply_OF_VERSION_1_3_def loci_validate_of_role_request_OF_VERSION_1_3_def
  loci_validate_of_set_config_OF_VERSION_1_3_def loci_validate_of_table_mod_OF_VERSION_1_3_def
  loci_validate_of_header_OF_VERSION_1_3_def loci_validate_of_bsn_vport_l2gre_OF_VERSION_1_3_def
  loci_validate_of_bsn_vport_q_in_q_OF_VERSION_1_3_def loci_validate_of_bsn_vport_OF_VERSION_1_3_def
  loci_validate_of_match_v3_OF_VERSION_1_3_def loci_validate_of_meter_config_OF_VERSION_1_3_def
  loci_validate_of_meter_features_OF_VERSION_1_3_def loci_validate_of_list_bsn_tlv_OF_VERSION_1_3_def
  loci_validate_of_list_bsn_controller_connection_OF_VERSION_1_3_def
  loci_validate_of_list_bsn_debug_counter_desc_stats_entry_OF_VERSION_1_3_def
  loci_validate_of_list_bsn_debug_counter_stats_entry_OF_VERSION_1_3_def
  loci_validate_of_list_bsn_flow_checksum_bucket_stats_entry_OF_VERSION_1_3_def
  loci_validate_of_list_bsn_generic_stats_entry_OF_VERSION_1_3_def
  loci_validate_of_list_bsn_gentable_bucket_stats_entry_OF_VERSION_1_3_def
  loci_validate_of_list_bsn_gentable_desc_stats_entry_OF_VERSION_1_3_def
  loci_validate_of_list_bsn_gentable_entry_desc_stats_entry_OF_VERSION_1_3_def
  loci_validate_of_list_bsn_gentable_entry_stats_entry_OF_VERSION_1_3_def
  loci_validate_of_list_bsn_gentable_stats_entry_OF_VERSION_1_3_def
  loci_validate_of_list_bsn_interface_OF_VERSION_1_3_def
  loci_validate_of_list_bsn_lacp_stats_entry_OF_VERSION_1_3_def
  loci_validate_of_list_uint64_OF_VERSION_1_3_def
  loci_validate_of_list_bsn_port_counter_stats_entry_OF_VERSION_1_3_def
  loci_validate_of_list_bsn_switch_pipeline_stats_entry_OF_VERSION_1_3_def
  loci_validate_of_list_bsn_table_checksum_stats_entry_OF_VERSION_1_3_def
  loci_validate_of_list_bsn_vlan_counter_stats_entry_OF_VERSION_1_3_def
  loci_validate_of_list_bsn_vrf_counter_stats_entry_OF_VERSION_1_3_def
  loci_validate_of_list_action_OF_VERSION_1_3_def loci_validate_of_list_instruction_OF_VERSION_1_3_def
  loci_validate_of_list_flow_stats_entry_OF_VERSION_1_3_def
  loci_validate_of_list_bucket_OF_VERSION_1_3_def
  loci_validate_of_list_group_desc_stats_entry_OF_VERSION_1_3_def
  loci_validate_of_list_bucket_counter_OF_VERSION_1_3_def
  loci_validate_of_list_group_stats_entry_OF_VERSION_1_3_def
  loci_validate_of_list_uint32_OF_VERSION_1_3_def loci_validate_of_list_hello_elem_OF_VERSION_1_3_def
  loci_validate_of_list_oxm_OF_VERSION_1_3_def loci_validate_of_list_meter_band_OF_VERSION_1_3_def
  loci_validate_of_list_meter_band_stats_OF_VERSION_1_3_def
  loci_validate_of_list_meter_stats_OF_VERSION_1_3_def
  loci_validate_of_list_queue_prop_OF_VERSION_1_3_def
  loci_validate_of_list_port_desc_OF_VERSION_1_3_def
  loci_validate_of_list_port_stats_entry_OF_VERSION_1_3_def
  loci_validate_of_list_packet_queue_OF_VERSION_1_3_def
  loci_validate_of_list_queue_stats_entry_OF_VERSION_1_3_def
  loci_validate_of_list_action_id_OF_VERSION_1_3_def
  loci_validate_of_list_instruction_id_OF_VERSION_1_3_def
  loci_validate_of_list_uint8_OF_VERSION_1_3_def
  loci_validate_of_list_table_feature_prop_OF_VERSION_1_3_def
  loci_validate_of_list_table_features_OF_VERSION_1_3_def
  loci_validate_of_list_table_stats_entry_OF_VERSION_1_3_def

lemmas applied_13 = validator_defs_13 [THEN fun_cong, THEN fun_cong, THEN fun_cong]

lemmas validator_defs_14 =
  loci_validate_of_bsn_tlv_actor_key_OF_VERSION_1_4_def
  loci_validate_of_bsn_tlv_actor_port_num_OF_VERSION_1_4_def
  loci_validate_of_bsn_tlv_actor_port_priority_OF_VERSION_1_4_def
  loci_validate_of_bsn_tlv_actor_state_OF_VERSION_1_4_def
  loci_validate_of_bsn_tlv_actor_system_mac_OF_VERSION_1_4_def
  loci_validate_of_bsn_tlv_actor_system_priority_OF_VERSION_1_4_def
  loci_validate_of_bsn_tlv_broadcast_query_timeout_OF_VERSION_1_4_def
  loci_validate_of_bsn_tlv_circuit_id_OF_VERSION_1_4_def
  loci_validate_of_bsn_tlv_convergence_status_OF_VERSION_1_4_def
  loci_validate_of_bsn_tlv_crc_enabled_OF_VERSION_1_4_def
  loci_validate_of_bsn_tlv_data_OF_VERSION_1_4_def loci_validate_of_bsn_tlv_eth_dst_OF_VERSION_1_4_def
  loci_validate_of_bsn_tlv_eth_src_OF_VERSION_1_4_def
  loci_validate_of_bsn_tlv_external_gateway_ip_OF_VERSION_1_4_def
  loci_validate_of_bsn_tlv_external_gateway_mac_OF_VERSION_1_4_def
  loci_validate_of_bsn_tlv_external_ip_OF_VERSION_1_4_def
  loci_validate_of_bsn_tlv_external_mac_OF_VERSION_1_4_def
  loci_validate_of_bsn_tlv_external_netmask_OF_VERSION_1_4_def
  loci_validate_of_bsn_tlv_header_size_OF_VERSION_1_4_def
  loci_validate_of_bsn_tlv_icmp_code_OF_VERSION_1_4_def
  loci_validate_of_bsn_tlv_icmp_id_OF_VERSION_1_4_def
  loci_validate_of_bsn_tlv_icmp_type_OF_VERSION_1_4_def
  loci_validate_of_bsn_tlv_idle_notification_OF_VERSION_1_4_def
  loci_validate_of_bsn_tlv_idle_time_OF_VERSION_1_4_def
  loci_validate_of_bsn_tlv_idle_timeout_OF_VERSION_1_4_def
  loci_validate_of_bsn_tlv_internal_gateway_mac_OF_VERSION_1_4_def
  loci_validate_of_bsn_tlv_internal_mac_OF_VERSION_1_4_def
  loci_validate_of_bsn_tlv_interval_OF_VERSION_1_4_def
  loci_validate_of_bsn_tlv_ip_proto_OF_VERSION_1_4_def
  loci_validate_of_bsn_tlv_ipv4_OF_VERSION_1_4_def
  loci_validate_of_bsn_tlv_ipv4_dst_OF_VERSION_1_4_def
  loci_validate_of_bsn_tlv_ipv4_netmask_OF_VERSION_1_4_def
  loci_validate_of_bsn_tlv_ipv4_src_OF_VERSION_1_4_def loci_validate_of_bsn_tlv_mac_OF_VERSION_1_4_def
  loci_validate_of_bsn_tlv_mac_mask_OF_VERSION_1_4_def
  loci_validate_of_bsn_tlv_miss_packets_OF_VERSION_1_4_def
  loci_validate_of_bsn_tlv_mpls_control_word_OF_VERSION_1_4_def
  loci_validate_of_bsn_tlv_mpls_label_OF_VERSION_1_4_def
  loci_validate_of_bsn_tlv_mpls_sequenced_OF_VERSION_1_4_def
  loci_validate_of_bsn_tlv_name_OF_VERSION_1_4_def
  loci_validate_of_bsn_tlv_partner_key_OF_VERSION_1_4_def
  loci_validate_of_bsn_tlv_partner_port_num_OF_VERSION_1_4_def
  loci_validate_of_bsn_tlv_partner_port_priority_OF_VERSION_1_4_def
  loci_validate_of_bsn_tlv_partner_state_OF_VERSION_1_4_def
  loci_validate_of_bsn_tlv_partner_system_mac_OF_VERSION_1_4_def
  loci_validate_of_bsn_tlv_partner_system_priority_OF_VERSION_1_4_def
  loci_validate_of_bsn_tlv_port_OF_VERSION_1_4_def
  loci_validate_of_bsn_tlv_priority_OF_VERSION_1_4_def
  loci_validate_of_bsn_tlv_queue_id_OF_VERSION_1_4_def
  loci_validate_of_bsn_tlv_queue_weight_OF_VERSION_1_4_def
  loci_validate_of_bsn_tlv_reply_packets_OF_VERSION_1_4_def
  loci_validate_of_bsn_tlv_request_packets_OF_VERSION_1_4_def
  loci_validate_of_bsn_tlv_rx_bytes_OF_VERSION_1_4_def
  loci_validate_of_bsn_tlv_rx_packets_OF_VERSION_1_4_def
  loci_validate_of_bsn_tlv_sampling_rate_OF_VERSION_1_4_def
  loci_validate_of_bsn_tlv_set_loopback_mode_OF_VERSION_1_4_def
  loci_validate_of_bsn_tlv_strip_mpls_l2_on_ingress_OF_VERSION_1_4_def
  loci_validate_of_bsn_tlv_strip_mpls_l3_on_ingress_OF_VERSION_1_4_def
  loci_validate_of_bsn_tlv_strip_vlan_on_egress_OF_VERSION_1_4_def
  loci_validate_of_bsn_tlv_sub_agent_id_OF_VERSION_1_4_def
  loci_validate_of_bsn_tlv_tcp_dst_OF_VERSION_1_4_def
  loci_validate_of_bsn_tlv_tcp_src_OF_VERSION_1_4_def
  loci_validate_of_bsn_tlv_tx_bytes_OF_VERSION_1_4_def
  loci_validate_of_bsn_tlv_tx_packets_OF_VERSION_1_4_def
  loci_validate_of_bsn_tlv_udf_anchor_OF_VERSION_1_4_def
  loci_validate_of_bsn_tlv_udf_id_OF_VERSION_1_4_def
  loci_validate_of_bsn_tlv_udf_length_OF_VERSION_1_4_def
  loci_validate_of_bsn_tlv_udf_offset_OF_VERSION_1_4_def
  loci_validate_of_bsn_tlv_udp_dst_OF_VERSION_1_4_def
  loci_validate_of_bsn_tlv_udp_src_OF_VERSION_1_4_def
  loci_validate_of_bsn_tlv_unicast_query_timeout_OF_VERSION_1_4_def
  loci_validate_of_bsn_tlv_vlan_pcp_OF_VERSION_1_4_def
  loci_validate_of_bsn_tlv_vlan_vid_OF_VERSION_1_4_def loci_validate_of_bsn_tlv_vrf_OF_VERSION_1_4_def
  loci_validate_of_bsn_tlv_OF_VERSION_1_4_def loci_validate_of_bsn_tlv_bucket_OF_VERSION_1_4_def
  loci_validate_of_bsn_tlv_reference_OF_VERSION_1_4_def
  loci_validate_of_async_config_prop_experimenter_master_OF_VERSION_1_4_def
  loci_validate_of_async_config_prop_experimenter_slave_OF_VERSION_1_4_def
  loci_validate_of_async_config_prop_flow_removed_master_OF_VERSION_1_4_def
  loci_validate_of_async_config_prop_flow_removed_slave_OF_VERSION_1_4_def
  loci_validate_of_async_config_prop_packet_in_master_OF_VERSION_1_4_def
  loci_validate_of_async_config_prop_packet_in_slave_OF_VERSION_1_4_def
  loci_validate_of_async_config_prop_port_status_master_OF_VERSION_1_4_def
  loci_validate_of_async_config_prop_port_status_slave_OF_VERSION_1_4_def
  loci_validate_of_async_config_prop_requestforward_master_OF_VERSION_1_4_def
  loci_validate_of_async_config_prop_requestforward_slave_OF_VERSION_1_4_def
  loci_validate_of_async_config_prop_role_status_master_OF_VERSION_1_4_def
  loci_validate_of_async_config_prop_role_status_slave_OF_VERSION_1_4_def
  loci_validate_of_async_config_prop_table_status_master_OF_VERSION_1_4_def
  loci_validate_of_async_config_prop_table_status_slave_OF_VERSION_1_4_def
  loci_validate_of_async_config_prop_OF_VERSION_1_4_def
  loci_validate_of_bsn_controller_connection_OF_VERSION_1_4_def
  loci_validate_of_bsn_debug_counter_desc_stats_entry_OF_VERSION_1_4_def
  loci_validate_of_bsn_debug_counter_stats_entry_OF_VERSION_1_4_def
  loci_validate_of_bsn_flow_checksum_bucket_stats_entry_OF_VERSION_1_4_def
  loci_validate_of_bsn_generic_stats_entry_OF_VERSION_1_4_def
  loci_validate_of_bsn_gentable_bucket_stats_entry_OF_VERSION_1_4_def
  loci_validate_of_bsn_gentable_desc_stats_entry_OF_VERSION_1_4_def
  loci_validate_of_bsn_gentable_entry_desc_stats_entry_OF_VERSION_1_4_def
  loci_validate_of_bsn_gentable_entry_stats_entry_OF_VERSION_1_4_def
  loci_validate_of_bsn_gentable_stats_entry_OF_VERSION_1_4_def
  loci_validate_of_bsn_interface_OF_VERSION_1_4_def
  loci_validate_of_bsn_lacp_stats_entry_OF_VERSION_1_4_def loci_validate_of_uint64_OF_VERSION_1_4_def
  loci_validate_of_bsn_port_counter_stats_entry_OF_VERSION_1_4_def
  loci_validate_of_bsn_switch_pipeline_stats_entry_OF_VERSION_1_4_def
  loci_validate_of_bsn_table_checksum_stats_entry_OF_VERSION_1_4_def
  loci_validate_of_bsn_vlan_counter_stats_entry_OF_VERSION_1_4_def
  loci_validate_of_bsn_vrf_counter_stats_entry_OF_VERSION_1_4_def
  loci_validate_of_action_bsn_checksum_OF_VERSION_1_4_def
  loci_validate_of_action_bsn_gentable_OF_VERSION_1_4_def
  loci_validate_of_action_bsn_mirror_OF_VERSION_1_4_def
  loci_validate_of_action_bsn_set_tunnel_dst_OF_VERSION_1_4_def
  loci_validate_of_action_bsn_OF_VERSION_1_4_def
  loci_validate_of_action_nicira_dec_ttl_OF_VERSION_1_4_def
  loci_validate_of_action_nicira_OF_VERSION_1_4_def
  loci_validate_of_action_experimenter_OF_VERSION_1_4_def
  loci_validate_of_action_copy_ttl_in_OF_VERSION_1_4_def
  loci_validate_of_action_copy_ttl_out_OF_VERSION_1_4_def
  loci_validate_of_action_dec_mpls_ttl_OF_VERSION_1_4_def
  loci_validate_of_action_dec_nw_ttl_OF_VERSION_1_4_def
  loci_validate_of_action_group_OF_VERSION_1_4_def loci_validate_of_action_output_OF_VERSION_1_4_def
  loci_validate_of_action_pop_mpls_OF_VERSION_1_4_def
  loci_validate_of_action_pop_pbb_OF_VERSION_1_4_def
  loci_validate_of_action_pop_vlan_OF_VERSION_1_4_def
  loci_validate_of_action_push_mpls_OF_VERSION_1_4_def
  loci_validate_of_action_push_pbb_OF_VERSION_1_4_def
  loci_validate_of_action_push_vlan_OF_VERSION_1_4_def
  loci_validate_of_action_set_field_OF_VERSION_1_4_def
  loci_validate_of_action_set_mpls_ttl_OF_VERSION_1_4_def
  loci_validate_of_action_set_nw_ttl_OF_VERSION_1_4_def
  loci_validate_of_action_set_queue_OF_VERSION_1_4_def loci_validate_of_action_OF_VERSION_1_4_def
  loci_validate_of_bundle_prop_experimenter_OF_VERSION_1_4_def
  loci_validate_of_bundle_prop_OF_VERSION_1_4_def
  loci_validate_of_instruction_apply_actions_OF_VERSION_1_4_def
  loci_validate_of_instruction_bsn_arp_offload_OF_VERSION_1_4_def
  loci_validate_of_instruction_bsn_auto_negotiation_OF_VERSION_1_4_def
  loci_validate_of_instruction_bsn_deny_OF_VERSION_1_4_def
  loci_validate_of_instruction_bsn_dhcp_offload_OF_VERSION_1_4_def
  loci_validate_of_instruction_bsn_disable_l3_OF_VERSION_1_4_def
  loci_validate_of_instruction_bsn_disable_src_mac_check_OF_VERSION_1_4_def
  loci_validate_of_instruction_bsn_disable_vlan_counters_OF_VERSION_1_4_def
  loci_validate_of_instruction_bsn_internal_priority_OF_VERSION_1_4_def
  loci_validate_of_instruction_bsn_packet_of_death_OF_VERSION_1_4_def
  loci_validate_of_instruction_bsn_permit_OF_VERSION_1_4_def
  loci_validate_of_instruction_bsn_prioritize_pdus_OF_VERSION_1_4_def
  loci_validate_of_instruction_bsn_require_vlan_xlate_OF_VERSION_1_4_def
  loci_validate_of_instruction_bsn_span_destination_OF_VERSION_1_4_def
  loci_validate_of_instruction_bsn_OF_VERSION_1_4_def
  loci_validate_of_instruction_experimenter_OF_VERSION_1_4_def
  loci_validate_of_instruction_clear_actions_OF_VERSION_1_4_def
  loci_validate_of_instruction_goto_table_OF_VERSION_1_4_def
  loci_validate_of_instruction_meter_OF_VERSION_1_4_def
  loci_validate_of_instruction_write_actions_OF_VERSION_1_4_def
  loci_validate_of_instruction_write_metadata_OF_VERSION_1_4_def
  loci_validate_of_instruction_OF_VERSION_1_4_def loci_validate_of_flow_stats_entry_OF_VERSION_1_4_def
  loci_validate_of_bucket_OF_VERSION_1_4_def
  loci_validate_of_group_desc_stats_entry_OF_VERSION_1_4_def
  loci_validate_of_bucket_counter_OF_VERSION_1_4_def
  loci_validate_of_group_stats_entry_OF_VERSION_1_4_def loci_validate_of_uint32_OF_VERSION_1_4_def
  loci_validate_of_hello_elem_versionbitmap_OF_VERSION_1_4_def
  loci_validate_of_hello_elem_OF_VERSION_1_4_def loci_validate_of_oxm_arp_op_OF_VERSION_1_4_def
  loci_validate_of_oxm_arp_op_masked_OF_VERSION_1_4_def
  loci_validate_of_oxm_arp_sha_OF_VERSION_1_4_def
  loci_validate_of_oxm_arp_sha_masked_OF_VERSION_1_4_def
  loci_validate_of_oxm_arp_spa_OF_VERSION_1_4_def
  loci_validate_of_oxm_arp_spa_masked_OF_VERSION_1_4_def
  loci_validate_of_oxm_arp_tha_OF_VERSION_1_4_def
  loci_validate_of_oxm_arp_tha_masked_OF_VERSION_1_4_def
  loci_validate_of_oxm_arp_tpa_OF_VERSION_1_4_def
  loci_validate_of_oxm_arp_tpa_masked_OF_VERSION_1_4_def
  loci_validate_of_oxm_bsn_egr_port_group_id_OF_VERSION_1_4_def
  loci_validate_of_oxm_bsn_egr_port_group_id_masked_OF_VERSION_1_4_def
  loci_validate_of_oxm_bsn_in_ports_128_OF_VERSION_1_4_def
  loci_validate_of_oxm_bsn_in_ports_128_masked_OF_VERSION_1_4_def
  loci_validate_of_oxm_bsn_in_ports_512_OF_VERSION_1_4_def
  loci_validate_of_oxm_bsn_in_ports_512_masked_OF_VERSION_1_4_def
  loci_validate_of_oxm_bsn_ingress_port_group_id_OF_VERSION_1_4_def
  loci_validate_of_oxm_bsn_ingress_port_group_id_masked_OF_VERSION_1_4_def
  loci_validate_of_oxm_bsn_l3_interface_class_id_OF_VERSION_1_4_def
  loci_validate_of_oxm_bsn_l3_interface_class_id_masked_OF_VERSION_1_4_def
  loci_validate_of_oxm_bsn_l3_src_class_id_OF_VERSION_1_4_def
  loci_validate_of_oxm_bsn_l3_src_class_id_masked_OF_VERSION_1_4_def
  loci_validate_of_oxm_bsn_lag_id_OF_VERSION_1_4_def
  loci_validate_of_oxm_bsn_lag_id_masked_OF_VERSION_1_4_def
  loci_validate_of_oxm_bsn_tcp_flags_OF_VERSION_1_4_def
  loci_validate_of_oxm_bsn_tcp_flags_masked_OF_VERSION_1_4_def
  loci_validate_of_oxm_bsn_udf0_OF_VERSION_1_4_def
  loci_validate_of_oxm_bsn_udf0_masked_OF_VERSION_1_4_def
  loci_validate_of_oxm_bsn_udf1_OF_VERSION_1_4_def
  loci_validate_of_oxm_bsn_udf1_masked_OF_VERSION_1_4_def
  loci_validate_of_oxm_bsn_udf2_OF_VERSION_1_4_def
  loci_validate_of_oxm_bsn_udf2_masked_OF_VERSION_1_4_def
  loci_validate_of_oxm_bsn_udf3_OF_VERSION_1_4_def
  loci_validate_of_oxm_bsn_udf3_masked_OF_VERSION_1_4_def
  loci_validate_of_oxm_bsn_udf4_OF_VERSION_1_4_def
  loci_validate_of_oxm_bsn_udf4_masked_OF_VERSION_1_4_def
  loci_validate_of_oxm_bsn_udf5_OF_VERSION_1_4_def
  loci_validate_of_oxm_bsn_udf5_masked_OF_VERSION_1_4_def
  loci_validate_of_oxm_bsn_udf6_OF_VERSION_1_4_def
  loci_validate_of_oxm_bsn_udf6_masked_OF_VERSION_1_4_def
  loci_validate_of_oxm_bsn_udf7_OF_VERSION_1_4_def
  loci_validate_of_oxm_bsn_udf7_masked_OF_VERSION_1_4_def
  loci_validate_of_oxm_bsn_vlan_xlate_port_group_id_OF_VERSION_1_4_def
  loci_validate_of_oxm_bsn_vlan_xlate_port_group_id_masked_OF_VERSION_1_4_def
  loci_validate_of_oxm_bsn_vrf_OF_VERSION_1_4_def
  loci_validate_of_oxm_bsn_vrf_masked_OF_VERSION_1_4_def
  loci_validate_of_oxm_eth_dst_OF_VERSION_1_4_def
  loci_validate_of_oxm_eth_dst_masked_OF_VERSION_1_4_def
  loci_validate_of_oxm_eth_src_OF_VERSION_1_4_def
  loci_validate_of_oxm_eth_src_masked_OF_VERSION_1_4_def
  loci_validate_of_oxm_eth_type_OF_VERSION_1_4_def
  loci_validate_of_oxm_eth_type_masked_OF_VERSION_1_4_def
  loci_validate_of_oxm_icmpv4_code_OF_VERSION_1_4_def
  loci_validate_of_oxm_icmpv4_code_masked_OF_VERSION_1_4_def
  loci_validate_of_oxm_icmpv4_type_OF_VERSION_1_4_def
  loci_validate_of_oxm_icmpv4_type_masked_OF_VERSION_1_4_def
  loci_validate_of_oxm_icmpv6_code_OF_VERSION_1_4_def
  loci_validate_of_oxm_icmpv6_code_masked_OF_VERSION_1_4_def
  loci_validate_of_oxm_icmpv6_type_OF_VERSION_1_4_def
  loci_validate_of_oxm_icmpv6_type_masked_OF_VERSION_1_4_def
  loci_validate_of_oxm_in_phy_port_OF_VERSION_1_4_def
  loci_validate_of_oxm_in_phy_port_masked_OF_VERSION_1_4_def
  loci_validate_of_oxm_in_port_OF_VERSION_1_4_def
  loci_validate_of_oxm_in_port_masked_OF_VERSION_1_4_def
  loci_validate_of_oxm_ip_dscp_OF_VERSION_1_4_def
  loci_validate_of_oxm_ip_dscp_masked_OF_VERSION_1_4_def
  loci_validate_of_oxm_ip_ecn_OF_VERSION_1_4_def loci_validate_of_oxm_ip_ecn_masked_OF_VERSION_1_4_def
  loci_validate_of_oxm_ip_proto_OF_VERSION_1_4_def
  loci_validate_of_oxm_ip_proto_masked_OF_VERSION_1_4_def
  loci_validate_of_oxm_ipv4_dst_OF_VERSION_1_4_def
  loci_validate_of_oxm_ipv4_dst_masked_OF_VERSION_1_4_def
  loci_validate_of_oxm_ipv4_src_OF_VERSION_1_4_def
  loci_validate_of_oxm_ipv4_src_masked_OF_VERSION_1_4_def
  loci_validate_of_oxm_ipv6_dst_OF_VERSION_1_4_def
  loci_validate_of_oxm_ipv6_dst_masked_OF_VERSION_1_4_def
  loci_validate_of_oxm_ipv6_exthdr_OF_VERSION_1_4_def
  loci_validate_of_oxm_ipv6_exthdr_masked_OF_VERSION_1_4_def
  loci_validate_of_oxm_ipv6_flabel_OF_VERSION_1_4_def
  loci_validate_of_oxm_ipv6_flabel_masked_OF_VERSION_1_4_def
  loci_validate_of_oxm_ipv6_nd_sll_OF_VERSION_1_4_def
  loci_validate_of_oxm_ipv6_nd_sll_masked_OF_VERSION_1_4_def
  loci_validate_of_oxm_ipv6_nd_target_OF_VERSION_1_4_def
  loci_validate_of_oxm_ipv6_nd_target_masked_OF_VERSION_1_4_def
  loci_validate_of_oxm_ipv6_nd_tll_OF_VERSION_1_4_def
  loci_validate_of_oxm_ipv6_nd_tll_masked_OF_VERSION_1_4_def
  loci_validate_of_oxm_ipv6_src_OF_VERSION_1_4_def
  loci_validate_of_oxm_ipv6_src_masked_OF_VERSION_1_4_def
  loci_validate_of_oxm_metadata_OF_VERSION_1_4_def
  loci_validate_of_oxm_metadata_masked_OF_VERSION_1_4_def
  loci_validate_of_oxm_mpls_bos_OF_VERSION_1_4_def
  loci_validate_of_oxm_mpls_bos_masked_OF_VERSION_1_4_def
  loci_validate_of_oxm_mpls_label_OF_VERSION_1_4_def
  loci_validate_of_oxm_mpls_label_masked_OF_VERSION_1_4_def
  loci_validate_of_oxm_mpls_tc_OF_VERSION_1_4_def
  loci_validate_of_oxm_mpls_tc_masked_OF_VERSION_1_4_def
  loci_validate_of_oxm_pbb_uca_OF_VERSION_1_4_def
  loci_validate_of_oxm_pbb_uca_masked_OF_VERSION_1_4_def
  loci_validate_of_oxm_sctp_dst_OF_VERSION_1_4_def
  loci_validate_of_oxm_sctp_dst_masked_OF_VERSION_1_4_def
  loci_validate_of_oxm_sctp_src_OF_VERSION_1_4_def
  loci_validate_of_oxm_sctp_src_masked_OF_VERSION_1_4_def
  loci_validate_of_oxm_tcp_dst_OF_VERSION_1_4_def
  loci_validate_of_oxm_tcp_dst_masked_OF_VERSION_1_4_def
  loci_validate_of_oxm_tcp_src_OF_VERSION_1_4_def
  loci_validate_of_oxm_tcp_src_masked_OF_VERSION_1_4_def
  loci_validate_of_oxm_tunnel_id_OF_VERSION_1_4_def
  loci_validate_of_oxm_tunnel_id_masked_OF_VERSION_1_4_def
  loci_validate_of_oxm_tunnel_ipv4_dst_OF_VERSION_1_4_def
  loci_validate_of_oxm_tunnel_ipv4_dst_masked_OF_VERSION_1_4_def
  loci_validate_of_oxm_tunnel_ipv4_src_OF_VERSION_1_4_def
  loci_validate_of_oxm_tunnel_ipv4_src_masked_OF_VERSION_1_4_def
  loci_validate_of_oxm_udp_dst_OF_VERSION_1_4_def
  loci_validate_of_oxm_udp_dst_masked_OF_VERSION_1_4_def
  loci_validate_of_oxm_udp_src_OF_VERSION_1_4_def
  loci_validate_of_oxm_udp_src_masked_OF_VERSION_1_4_def
  loci_validate_of_oxm_vlan_pcp_OF_VERSION_1_4_def
  loci_validate_of_oxm_vlan_pcp_masked_OF_VERSION_1_4_def
  loci_validate_of_oxm_vlan_vid_OF_VERSION_1_4_def
  loci_validate_of_oxm_vlan_vid_masked_OF_VERSION_1_4_def loci_validate_of_oxm_OF_VERSION_1_4_def
  loci_validate_of_meter_band_drop_OF_VERSION_1_4_def
  loci_validate_of_meter_band_dscp_remark_OF_VERSION_1_4_def
  loci_validate_of_meter_band_experimenter_OF_VERSION_1_4_def
  loci_validate_of_meter_band_OF_VERSION_1_4_def loci_validate_of_meter_band_stats_OF_VERSION_1_4_def
  loci_validate_of_meter_stats_OF_VERSION_1_4_def
  loci_validate_of_queue_prop_experimenter_OF_VERSION_1_4_def
  loci_validate_of_queue_prop_max_rate_OF_VERSION_1_4_def
  loci_validate_of_queue_prop_min_rate_OF_VERSION_1_4_def
  loci_validate_of_queue_prop_OF_VERSION_1_4_def
  loci_validate_of_port_desc_prop_bsn_uplink_OF_VERSION_1_4_def
  loci_validate_of_port_desc_prop_bsn_OF_VERSION_1_4_def
  loci_validate_of_port_desc_prop_experimenter_OF_VERSION_1_4_def
  loci_validate_of_port_desc_prop_ethernet_OF_VERSION_1_4_def
  loci_validate_of_port_desc_prop_optical_OF_VERSION_1_4_def
  loci_validate_of_port_desc_prop_OF_VERSION_1_4_def loci_validate_of_port_desc_OF_VERSION_1_4_def
  loci_validate_of_port_mod_prop_ethernet_OF_VERSION_1_4_def
  loci_validate_of_port_mod_prop_experimenter_OF_VERSION_1_4_def
  loci_validate_of_port_mod_prop_optical_OF_VERSION_1_4_def
  loci_validate_of_port_mod_prop_OF_VERSION_1_4_def
  loci_validate_of_port_stats_prop_ethernet_OF_VERSION_1_4_def
  loci_validate_of_port_stats_prop_experimenter_OF_VERSION_1_4_def
  loci_validate_of_port_stats_prop_optical_OF_VERSION_1_4_def
  loci_validate_of_port_stats_prop_OF_VERSION_1_4_def
  loci_validate_of_port_stats_entry_OF_VERSION_1_4_def
  loci_validate_of_queue_desc_prop_experimenter_OF_VERSION_1_4_def
  loci_validate_of_queue_desc_prop_max_rate_OF_VERSION_1_4_def
  loci_validate_of_queue_desc_prop_min_rate_OF_VERSION_1_4_def
  loci_validate_of_queue_desc_prop_OF_VERSION_1_4_def loci_validate_of_queue_desc_OF_VERSION_1_4_def
  loci_validate_of_queue_stats_prop_experimenter_OF_VERSION_1_4_def
  loci_validate_of_queue_stats_prop_OF_VERSION_1_4_def
  loci_validate_of_queue_stats_entry_OF_VERSION_1_4_def
  loci_validate_of_role_prop_experimenter_OF_VERSION_1_4_def
  loci_validate_of_role_prop_OF_VERSION_1_4_def loci_validate_of_table_desc_OF_VERSION_1_4_def
  loci_validate_of_action_id_bsn_checksum_OF_VERSION_1_4_def
  loci_validate_of_action_id_bsn_gentable_OF_VERSION_1_4_def
  loci_validate_of_action_id_bsn_mirror_OF_VERSION_1_4_def
  loci_validate_of_action_id_bsn_set_tunnel_dst_OF_VERSION_1_4_def
  loci_validate_of_action_id_bsn_OF_VERSION_1_4_def
  loci_validate_of_action_id_nicira_dec_ttl_OF_VERSION_1_4_def
  loci_validate_of_action_id_nicira_OF_VERSION_1_4_def
  loci_validate_of_action_id_experimenter_OF_VERSION_1_4_def
  loci_validate_of_action_id_copy_ttl_in_OF_VERSION_1_4_def
  loci_validate_of_action_id_copy_ttl_out_OF_VERSION_1_4_def
  loci_validate_of_action_id_dec_mpls_ttl_OF_VERSION_1_4_def
  loci_validate_of_action_id_dec_nw_ttl_OF_VERSION_1_4_def
  loci_validate_of_action_id_group_OF_VERSION_1_4_def
  loci_validate_of_action_id_output_OF_VERSION_1_4_def
  loci_validate_of_action_id_pop_mpls_OF_VERSION_1_4_def
  loci_validate_of_action_id_pop_pbb_OF_VERSION_1_4_def
  loci_validate_of_action_id_pop_vlan_OF_VERSION_1_4_def
  loci_validate_of_action_id_push_mpls_OF_VERSION_1_4_def
  loci_validate_of_action_id_push_pbb_OF_VERSION_1_4_def
  loci_validate_of_action_id_push_vlan_OF_VERSION_1_4_def
  loci_validate_of_action_id_set_field_OF_VERSION_1_4_def
  loci_validate_of_action_id_set_mpls_ttl_OF_VERSION_1_4_def
  loci_validate_of_action_id_set_nw_ttl_OF_VERSION_1_4_def
  loci_validate_of_action_id_set_queue_OF_VERSION_1_4_def
  loci_validate_of_action_id_OF_VERSION_1_4_def
  loci_validate_of_instruction_id_apply_actions_OF_VERSION_1_4_def
  loci_validate_of_instruction_id_bsn_arp_offload_OF_VERSION_1_4_def
  loci_validate_of_instruction_id_bsn_auto_negotiation_OF_VERSION_1_4_def
  loci_validate_of_instruction_id_bsn_deny_OF_VERSION_1_4_def
  loci_validate_of_instruction_id_bsn_dhcp_offload_OF_VERSION_1_4_def
  loci_validate_of_instruction_id_bsn_disable_l3_OF_VERSION_1_4_def
  loci_validate_of_instruction_id_bsn_disable_src_mac_check_OF_VERSION_1_4_def
  loci_validate_of_instruction_id_bsn_disable_vlan_counters_OF_VERSION_1_4_def
  loci_validate_of_instruction_id_bsn_internal_priority_OF_VERSION_1_4_def
  loci_validate_of_instruction_id_bsn_packet_of_death_OF_VERSION_1_4_def
  loci_validate_of_instruction_id_bsn_permit_OF_VERSION_1_4_def
  loci_validate_of_instruction_id_bsn_prioritize_pdus_OF_VERSION_1_4_def
  loci_validate_of_instruction_id_bsn_require_vlan_xlate_OF_VERSION_1_4_def
  loci_validate_of_instruction_id_bsn_span_destination_OF_VERSION_1_4_def
  loci_validate_of_instruction_id_bsn_OF_VERSION_1_4_def
  loci_validate_of_instruction_id_experimenter_OF_VERSION_1_4_def
  loci_validate_of_instruction_id_clear_actions_OF_VERSION_1_4_def
  loci_validate_of_instruction_id_goto_table_OF_VERSION_1_4_def
  loci_validate_of_instruction_id_meter_OF_VERSION_1_4_def
  loci_validate_of_instruction_id_write_actions_OF_VERSION_1_4_def
  loci_validate_of_instruction_id_write_metadata_OF_VERSION_1_4_def
  loci_validate_of_instruction_id_OF_VERSION_1_4_def loci_validate_of_uint8_OF_VERSION_1_4_def
  loci_validate_of_table_feature_prop_apply_actions_OF_VERSION_1_4_def
  loci_validate_of_table_feature_prop_apply_actions_miss_OF_VERSION_1_4_def
  loci_validate_of_table_feature_prop_apply_setfield_OF_VERSION_1_4_def
  loci_validate_of_table_feature_prop_apply_setfield_miss_OF_VERSION_1_4_def
  loci_validate_of_table_feature_prop_experimenter_OF_VERSION_1_4_def
  loci_validate_of_table_feature_prop_experimenter_miss_OF_VERSION_1_4_def
  loci_validate_of_table_feature_prop_instructions_OF_VERSION_1_4_def
  loci_validate_of_table_feature_prop_instructions_miss_OF_VERSION_1_4_def
  loci_validate_of_table_feature_prop_match_OF_VERSION_1_4_def
  loci_validate_of_table_feature_prop_next_tables_OF_VERSION_1_4_def
  loci_validate_of_table_feature_prop_next_tables_miss_OF_VERSION_1_4_def
  loci_validate_of_table_feature_prop_table_sync_from_OF_VERSION_1_4_def
  loci_validate_of_table_feature_prop_wildcards_OF_VERSION_1_4_def
  loci_validate_of_table_feature_prop_write_actions_OF_VERSION_1_4_def
  loci_validate_of_table_feature_prop_write_actions_miss_OF_VERSION_1_4_def
  loci_validate_of_table_feature_prop_write_setfield_OF_VERSION_1_4_def
  loci_validate_of_table_feature_prop_write_setfield_miss_OF_VERSION_1_4_def
  loci_validate_of_table_feature_prop_OF_VERSION_1_4_def
  loci_validate_of_table_features_OF_VERSION_1_4_def
  loci_validate_of_table_mod_prop_OF_VERSION_1_4_def
  loci_validate_of_table_stats_entry_OF_VERSION_1_4_def
  loci_validate_of_aggregate_stats_reply_OF_VERSION_1_4_def
  loci_validate_of_bsn_debug_counter_desc_stats_reply_OF_VERSION_1_4_def
  loci_validate_of_bsn_debug_counter_stats_reply_OF_VERSION_1_4_def
  loci_validate_of_bsn_flow_checksum_bucket_stats_reply_OF_VERSION_1_4_def
  loci_validate_of_bsn_generic_stats_reply_OF_VERSION_1_4_def
  loci_validate_of_bsn_gentable_bucket_stats_reply_OF_VERSION_1_4_def
  loci_validate_of_bsn_gentable_desc_stats_reply_OF_VERSION_1_4_def
  loci_validate_of_bsn_gentable_entry_desc_stats_reply_OF_VERSION_1_4_def
  loci_validate_of_bsn_gentable_entry_stats_reply_OF_VERSION_1_4_def
  loci_validate_of_bsn_gentable_stats_reply_OF_VERSION_1_4_def
  loci_validate_of_bsn_image_desc_stats_reply_OF_VERSION_1_4_def
  loci_validate_of_bsn_lacp_stats_reply_OF_VERSION_1_4_def
  loci_validate_of_bsn_port_counter_stats_reply_OF_VERSION_1_4_def
  loci_validate_of_bsn_switch_pipeline_stats_reply_OF_VERSION_1_4_def
  loci_validate_of_bsn_table_checksum_stats_reply_OF_VERSION_1_4_def
  loci_validate_of_bsn_vlan_counter_stats_reply_OF_VERSION_1_4_def
  loci_validate_of_bsn_vrf_counter_stats_reply_OF_VERSION_1_4_def
  loci_validate_of_bsn_stats_reply_OF_VERSION_1_4_def
  loci_validate_of_experimenter_stats_reply_OF_VERSION_1_4_def
  loci_validate_of_desc_stats_reply_OF_VERSION_1_4_def
  loci_validate_of_flow_stats_reply_OF_VERSION_1_4_def
  loci_validate_of_group_desc_stats_reply_OF_VERSION_1_4_def
  loci_validate_of_group_features_stats_reply_OF_VERSION_1_4_def
  loci_validate_of_group_stats_reply_OF_VERSION_1_4_def
  loci_validate_of_meter_config_stats_reply_OF_VERSION_1_4_def
  loci_validate_of_meter_features_stats_reply_OF_VERSION_1_4_def
  loci_validate_of_meter_stats_reply_OF_VERSION_1_4_def
  loci_validate_of_port_desc_stats_reply_OF_VERSION_1_4_def
  loci_validate_of_port_stats_reply_OF_VERSION_1_4_def
  loci_validate_of_queue_desc_stats_reply_OF_VERSION_1_4_def
  loci_validate_of_queue_stats_reply_OF_VERSION_1_4_def
  loci_validate_of_table_desc_stats_reply_OF_VERSION_1_4_def
  loci_validate_of_table_features_stats_reply_OF_VERSION_1_4_def
  loci_validate_of_table_stats_reply_OF_VERSION_1_4_def
  loci_validate_of_stats_reply_OF_VERSION_1_4_def
  loci_validate_of_aggregate_stats_request_OF_VERSION_1_4_def
  loci_validate_of_bsn_debug_counter_desc_stats_request_OF_VERSION_1_4_def
  loci_validate_of_bsn_debug_counter_stats_request_OF_VERSION_1_4_def
  loci_validate_of_bsn_flow_checksum_bucket_stats_request_OF_VERSION_1_4_def
  loci_validate_of_bsn_generic_stats_request_OF_VERSION_1_4_def
  loci_validate_of_bsn_gentable_bucket_stats_request_OF_VERSION_1_4_def
  loci_validate_of_bsn_gentable_desc_stats_request_OF_VERSION_1_4_def
  loci_validate_of_bsn_gentable_entry_desc_stats_request_OF_VERSION_1_4_def
  loci_validate_of_bsn_gentable_entry_stats_request_OF_VERSION_1_4_def
  loci_validate_of_bsn_gentable_stats_request_OF_VERSION_1_4_def
  loci_validate_of_bsn_image_desc_stats_request_OF_VERSION_1_4_def
  loci_validate_of_bsn_lacp_stats_request_OF_VERSION_1_4_def
  loci_validate_of_bsn_port_counter_stats_request_OF_VERSION_1_4_def
  loci_validate_of_bsn_switch_pipeline_stats_request_OF_VERSION_1_4_def
  loci_validate_of_bsn_table_checksum_stats_request_OF_VERSION_1_4_def
  loci_validate_of_bsn_vlan_counter_stats_request_OF_VERSION_1_4_def
  loci_validate_of_bsn_vrf_counter_stats_request_OF_VERSION_1_4_def
  loci_validate_of_bsn_stats_request_OF_VERSION_1_4_def
  loci_validate_of_experimenter_stats_request_OF_VERSION_1_4_def
  loci_validate_of_desc_stats_request_OF_VERSION_1_4_def
  loci_validate_of_flow_stats_request_OF_VERSION_1_4_def
  loci_validate_of_group_desc_stats_request_OF_VERSION_1_4_def
  loci_validate_of_group_features_stats_request_OF_VERSION_1_4_def
  loci_validate_of_group_stats_request_OF_VERSION_1_4_def
  loci_validate_of_meter_config_stats_request_OF_VERSION_1_4_def
  loci_validate_of_meter_features_stats_request_OF_VERSION_1_4_def
  loci_validate_of_meter_stats_request_OF_VERSION_1_4_def
  loci_validate_of_port_desc_stats_request_OF_VERSION_1_4_def
  loci_validate_of_port_stats_request_OF_VERSION_1_4_def
  loci_validate_of_queue_desc_stats_request_OF_VERSION_1_4_def
  loci_validate_of_queue_stats_request_OF_VERSION_1_4_def
  loci_validate_of_table_desc_stats_request_OF_VERSION_1_4_def
  loci_validate_of_table_features_stats_request_OF_VERSION_1_4_def
  loci_validate_of_table_stats_request_OF_VERSION_1_4_def
  loci_validate_of_stats_request_OF_VERSION_1_4_def
  loci_validate_of_async_config_failed_error_msg_OF_VERSION_1_4_def
  loci_validate_of_bad_action_error_msg_OF_VERSION_1_4_def
  loci_validate_of_bad_instruction_error_msg_OF_VERSION_1_4_def
  loci_validate_of_bad_match_error_msg_OF_VERSION_1_4_def
  loci_validate_of_bad_property_error_msg_OF_VERSION_1_4_def
  loci_validate_of_bad_request_error_msg_OF_VERSION_1_4_def
  loci_validate_of_bundle_failed_error_msg_OF_VERSION_1_4_def
  loci_validate_of_experimenter_error_msg_OF_VERSION_1_4_def
  loci_validate_of_flow_mod_failed_error_msg_OF_VERSION_1_4_def
  loci_validate_of_flow_monitor_failed_error_msg_OF_VERSION_1_4_def
  loci_validate_of_group_mod_failed_error_msg_OF_VERSION_1_4_def
  loci_validate_of_hello_failed_error_msg_OF_VERSION_1_4_def
  loci_validate_of_meter_mod_failed_error_msg_OF_VERSION_1_4_def
  loci_validate_of_port_mod_failed_error_msg_OF_VERSION_1_4_def
  loci_validate_of_queue_op_failed_error_msg_OF_VERSION_1_4_def
  loci_validate_of_role_request_failed_error_msg_OF_VERSION_1_4_def
  loci_validate_of_switch_config_failed_error_msg_OF_VERSION_1_4_def
  loci_validate_of_table_features_failed_error_msg_OF_VERSION_1_4_def
  loci_validate_of_table_mod_failed_error_msg_OF_VERSION_1_4_def
  loci_validate_of_error_msg_OF_VERSION_1_4_def loci_validate_of_async_get_reply_OF_VERSION_1_4_def
  loci_validate_of_async_get_request_OF_VERSION_1_4_def loci_validate_of_async_set_OF_VERSION_1_4_def
  loci_validate_of_barrier_reply_OF_VERSION_1_4_def
  loci_validate_of_barrier_request_OF_VERSION_1_4_def loci_validate_of_bsn_arp_idle_OF_VERSION_1_4_def
  loci_validate_of_bsn_bw_clear_data_reply_OF_VERSION_1_4_def
  loci_validate_of_bsn_bw_clear_data_request_OF_VERSION_1_4_def
  loci_validate_of_bsn_bw_enable_get_reply_OF_VERSION_1_4_def
  loci_validate_of_bsn_bw_enable_get_request_OF_VERSION_1_4_def
  loci_validate_of_bsn_bw_enable_set_reply_OF_VERSION_1_4_def
  loci_validate_of_bsn_bw_enable_set_request_OF_VERSION_1_4_def
  loci_validate_of_bsn_controller_connections_reply_OF_VERSION_1_4_def
  loci_validate_of_bsn_controller_connections_request_OF_VERSION_1_4_def
  loci_validate_of_bsn_flow_idle_OF_VERSION_1_4_def
  loci_validate_of_bsn_flow_idle_enable_get_reply_OF_VERSION_1_4_def
  loci_validate_of_bsn_flow_idle_enable_get_request_OF_VERSION_1_4_def
  loci_validate_of_bsn_flow_idle_enable_set_reply_OF_VERSION_1_4_def
  loci_validate_of_bsn_flow_idle_enable_set_request_OF_VERSION_1_4_def
  loci_validate_of_bsn_gentable_clear_reply_OF_VERSION_1_4_def
  loci_validate_of_bsn_gentable_clear_request_OF_VERSION_1_4_def
  loci_validate_of_bsn_gentable_entry_add_OF_VERSION_1_4_def
  loci_validate_of_bsn_gentable_entry_delete_OF_VERSION_1_4_def
  loci_validate_of_bsn_gentable_set_buckets_size_OF_VERSION_1_4_def
  loci_validate_of_bsn_get_interfaces_reply_OF_VERSION_1_4_def
  loci_validate_of_bsn_get_interfaces_request_OF_VERSION_1_4_def
  loci_validate_of_bsn_get_mirroring_reply_OF_VERSION_1_4_def
  loci_validate_of_bsn_get_mirroring_request_OF_VERSION_1_4_def
  loci_validate_of_bsn_get_switch_pipeline_reply_OF_VERSION_1_4_def
  loci_validate_of_bsn_get_switch_pipeline_request_OF_VERSION_1_4_def
  loci_validate_of_bsn_lacp_convergence_notif_OF_VERSION_1_4_def
  loci_validate_of_bsn_log_OF_VERSION_1_4_def
  loci_validate_of_bsn_lua_command_reply_OF_VERSION_1_4_def
  loci_validate_of_bsn_lua_command_request_OF_VERSION_1_4_def
  loci_validate_of_bsn_lua_notification_OF_VERSION_1_4_def
  loci_validate_of_bsn_lua_upload_OF_VERSION_1_4_def
  loci_validate_of_bsn_pdu_rx_reply_OF_VERSION_1_4_def
  loci_validate_of_bsn_pdu_rx_request_OF_VERSION_1_4_def
  loci_validate_of_bsn_pdu_rx_timeout_OF_VERSION_1_4_def
  loci_validate_of_bsn_pdu_tx_reply_OF_VERSION_1_4_def
  loci_validate_of_bsn_pdu_tx_request_OF_VERSION_1_4_def
  loci_validate_of_bsn_set_aux_cxns_reply_OF_VERSION_1_4_def
  loci_validate_of_bsn_set_aux_cxns_request_OF_VERSION_1_4_def
  loci_validate_of_bsn_set_lacp_reply_OF_VERSION_1_4_def
  loci_validate_of_bsn_set_lacp_request_OF_VERSION_1_4_def
  loci_validate_of_bsn_set_mirroring_OF_VERSION_1_4_def
  loci_validate_of_bsn_set_pktin_suppression_reply_OF_VERSION_1_4_def
  loci_validate_of_bsn_set_pktin_suppression_request_OF_VERSION_1_4_def
  loci_validate_of_bsn_set_switch_pipeline_reply_OF_VERSION_1_4_def
  loci_validate_of_bsn_set_switch_pipeline_request_OF_VERSION_1_4_def
  loci_validate_of_bsn_table_set_buckets_size_OF_VERSION_1_4_def
  loci_validate_of_bsn_time_reply_OF_VERSION_1_4_def
  loci_validate_of_bsn_time_request_OF_VERSION_1_4_def
  loci_validate_of_bsn_virtual_port_create_reply_OF_VERSION_1_4_def
  loci_validate_of_bsn_virtual_port_create_request_OF_VERSION_1_4_def
  loci_validate_of_bsn_virtual_port_remove_reply_OF_VERSION_1_4_def
  loci_validate_of_bsn_virtual_port_remove_request_OF_VERSION_1_4_def
  loci_validate_of_bsn_header_OF_VERSION_1_4_def loci_validate_of_nicira_header_OF_VERSION_1_4_def
  loci_validate_of_experimenter_OF_VERSION_1_4_def loci_validate_of_bundle_add_msg_OF_VERSION_1_4_def
  loci_validate_of_bundle_ctrl_msg_OF_VERSION_1_4_def loci_validate_of_echo_reply_OF_VERSION_1_4_def
  loci_validate_of_echo_request_OF_VERSION_1_4_def loci_validate_of_features_reply_OF_VERSION_1_4_def
  loci_validate_of_features_request_OF_VERSION_1_4_def loci_validate_of_flow_add_OF_VERSION_1_4_def
  loci_validate_of_flow_delete_OF_VERSION_1_4_def
  loci_validate_of_flow_delete_strict_OF_VERSION_1_4_def
  loci_validate_of_flow_modify_OF_VERSION_1_4_def
  loci_validate_of_flow_modify_strict_OF_VERSION_1_4_def loci_validate_of_flow_mod_OF_VERSION_1_4_def
  loci_validate_of_flow_removed_OF_VERSION_1_4_def
  loci_validate_of_get_config_reply_OF_VERSION_1_4_def
  loci_validate_of_get_config_request_OF_VERSION_1_4_def loci_validate_of_group_add_OF_VERSION_1_4_def
  loci_validate_of_group_delete_OF_VERSION_1_4_def loci_validate_of_group_modify_OF_VERSION_1_4_def
  loci_validate_of_group_mod_OF_VERSION_1_4_def loci_validate_of_hello_OF_VERSION_1_4_def
  loci_validate_of_meter_mod_OF_VERSION_1_4_def loci_validate_of_packet_in_OF_VERSION_1_4_def
  loci_validate_of_packet_out_OF_VERSION_1_4_def loci_validate_of_port_mod_OF_VERSION_1_4_def
  loci_validate_of_port_status_OF_VERSION_1_4_def loci_validate_of_requestforward_OF_VERSION_1_4_def
  loci_validate_of_role_reply_OF_VERSION_1_4_def loci_validate_of_role_request_OF_VERSION_1_4_def
  loci_validate_of_role_status_OF_VERSION_1_4_def loci_validate_of_set_config_OF_VERSION_1_4_def
  loci_validate_of_table_mod_OF_VERSION_1_4_def loci_validate_of_table_status_OF_VERSION_1_4_def
  loci_validate_of_header_OF_VERSION_1_4_def loci_validate_of_bsn_vport_l2gre_OF_VERSION_1_4_def
  loci_validate_of_bsn_vport_q_in_q_OF_VERSION_1_4_def loci_validate_of_bsn_vport_OF_VERSION_1_4_def
  loci_validate_of_match_v3_OF_VERSION_1_4_def loci_validate_of_meter_config_OF_VERSION_1_4_def
  loci_validate_of_meter_features_OF_VERSION_1_4_def loci_validate_of_packet_queue_OF_VERSION_1_4_def
  loci_validate_of_table_mod_prop_eviction_OF_VERSION_1_4_def
  loci_validate_of_table_mod_prop_experimenter_OF_VERSION_1_4_def
  loci_validate_of_table_mod_prop_vacancy_OF_VERSION_1_4_def
  loci_validate_of_list_bsn_tlv_OF_VERSION_1_4_def
  loci_validate_of_list_async_config_prop_OF_VERSION_1_4_def
  loci_validate_of_list_bsn_controller_connection_OF_VERSION_1_4_def
  loci_validate_of_list_bsn_debug_counter_desc_stats_entry_OF_VERSION_1_4_def
  loci_validate_of_list_bsn_debug_counter_stats_entry_OF_VERSION_1_4_def
  loci_validate_of_list_bsn_flow_checksum_bucket_stats_entry_OF_VERSION_1_4_def
  loci_validate_of_list_bsn_generic_stats_entry_OF_VERSION_1_4_def
  loci_validate_of_list_bsn_gentable_bucket_stats_entry_OF_VERSION_1_4_def
  loci_validate_of_list_bsn_gentable_desc_stats_entry_OF_VERSION_1_4_def
  loci_validate_of_list_bsn_gentable_entry_desc_stats_entry_OF_VERSION_1_4_def
  loci_validate_of_list_bsn_gentable_entry_stats_entry_OF_VERSION_1_4_def
  loci_validate_of_list_bsn_gentable_stats_entry_OF_VERSION_1_4_def
  loci_validate_of_list_bsn_interface_OF_VERSION_1_4_def
  loci_validate_of_list_bsn_lacp_stats_entry_OF_VERSION_1_4_def
  loci_validate_of_list_uint64_OF_VERSION_1_4_def
  loci_validate_of_list_bsn_port_counter_stats_entry_OF_VERSION_1_4_def
  loci_validate_of_list_bsn_switch_pipeline_stats_entry_OF_VERSION_1_4_def
  loci_validate_of_list_bsn_table_checksum_stats_entry_OF_VERSION_1_4_def
  loci_validate_of_list_bsn_vlan_counter_stats_entry_OF_VERSION_1_4_def
  loci_validate_of_list_bsn_vrf_counter_stats_entry_OF_VERSION_1_4_def
  loci_validate_of_list_action_OF_VERSION_1_4_def loci_validate_of_list_bundle_prop_OF_VERSION_1_4_def
  loci_validate_of_list_instruction_OF_VERSION_1_4_def
  loci_validate_of_list_flow_stats_entry_OF_VERSION_1_4_def
  loci_validate_of_list_bucket_OF_VERSION_1_4_def
  loci_validate_of_list_group_desc_stats_entry_OF_VERSION_1_4_def
  loci_validate_of_list_bucket_counter_OF_VERSION_1_4_def
  loci_validate_of_list_group_stats_entry_OF_VERSION_1_4_def
  loci_validate_of_list_uint32_OF_VERSION_1_4_def loci_validate_of_list_hello_elem_OF_VERSION_1_4_def
  loci_validate_of_list_oxm_OF_VERSION_1_4_def loci_validate_of_list_meter_band_OF_VERSION_1_4_def
  loci_validate_of_list_meter_band_stats_OF_VERSION_1_4_def
  loci_validate_of_list_meter_stats_OF_VERSION_1_4_def
  loci_validate_of_list_queue_prop_OF_VERSION_1_4_def
  loci_validate_of_list_port_desc_prop_OF_VERSION_1_4_def
  loci_validate_of_list_port_desc_OF_VERSION_1_4_def
  loci_validate_of_list_port_mod_prop_OF_VERSION_1_4_def
  loci_validate_of_list_port_stats_prop_OF_VERSION_1_4_def
  loci_validate_of_list_port_stats_entry_OF_VERSION_1_4_def
  loci_validate_of_list_queue_desc_prop_OF_VERSION_1_4_def
  loci_validate_of_list_queue_desc_OF_VERSION_1_4_def
  loci_validate_of_list_queue_stats_prop_OF_VERSION_1_4_def
  loci_validate_of_list_queue_stats_entry_OF_VERSION_1_4_def
  loci_validate_of_list_role_prop_OF_VERSION_1_4_def
  loci_validate_of_list_table_desc_OF_VERSION_1_4_def
  loci_validate_of_list_action_id_OF_VERSION_1_4_def
  loci_validate_of_list_instruction_id_OF_VERSION_1_4_def
  loci_validate_of_list_uint8_OF_VERSION_1_4_def
  loci_validate_of_list_table_feature_prop_OF_VERSION_1_4_def
  loci_validate_of_list_table_features_OF_VERSION_1_4_def
  loci_validate_of_list_table_mod_prop_OF_VERSION_1_4_def
  loci_validate_of_list_table_stats_entry_OF_VERSION_1_4_def

lemmas applied_14 = validator_defs_14 [THEN fun_cong, THEN fun_cong, THEN fun_cong]

lemmas getter_defs =
  of_error_msg_wire_object_id_get_def of_nicira_header_wire_object_id_get_def
  of_bsn_header_wire_object_id_get_def of_experimenter_wire_object_id_get_def
  of_flow_mod_wire_object_id_get_def of_bsn_stats_request_wire_object_id_get_def
  of_experimenter_stats_request_wire_object_id_get_def of_stats_request_wire_object_id_get_def
  of_bsn_stats_reply_wire_object_id_get_def of_experimenter_stats_reply_wire_object_id_get_def
  of_stats_reply_wire_object_id_get_def of_group_mod_wire_object_id_get_def
  of_header_wire_object_id_get_def

lemmas applied_getters = getter_defs [THEN fun_cong, THEN fun_cong]

lemma v_list_none: "len \<le> 0 \<Longrightarrow> v_list elem data p len = Inr True"
  by (simp add: v_list.simps)

lemmas runs = v_done_def v_min_def v_set_len_def v_wire_len_def v_wire_len_set_def v_case_def v_switch8_def v_switch16_def
  v_switch32_def v_list_none v_list_rest_def v_list_len16_def d_id_def d_assert_def d_case_def d_switch8_def d_switch16_def
  d_switch32_def of_validate_message_def header_validator_def of_message_length_get_def of_message_version_get_def
  buf_u8_get_def [symmetric] applied_10 applied_11 applied_12 applied_13 applied_14 applied_getters

lemmas fresh_checks = speaks_def fresh_ok_def fresh_def all_types_def of_object_fixed_len_def apart_def

lemma messages_00: "list_all (\<lambda>c. MessageLength \<in> set (finishes c) \<longrightarrow> speaks c) classes_00"
  unfolding classes_00_def
  by (simp add: class_defs_00 fresh_checks runs)

lemma messages_01: "list_all (\<lambda>c. MessageLength \<in> set (finishes c) \<longrightarrow> speaks c) classes_01"
  unfolding classes_01_def
  by (simp add: class_defs_01 fresh_checks runs)

lemma messages_02: "list_all (\<lambda>c. MessageLength \<in> set (finishes c) \<longrightarrow> speaks c) classes_02"
  unfolding classes_02_def
  by (simp add: class_defs_02 fresh_checks runs)

lemma messages_03: "list_all (\<lambda>c. MessageLength \<in> set (finishes c) \<longrightarrow> speaks c) classes_03"
  unfolding classes_03_def
  by (simp add: class_defs_03 fresh_checks runs)

lemma messages_04: "list_all (\<lambda>c. MessageLength \<in> set (finishes c) \<longrightarrow> speaks c) classes_04"
  unfolding classes_04_def
  by (simp add: class_defs_04 fresh_checks runs)

lemma messages_05: "list_all (\<lambda>c. MessageLength \<in> set (finishes c) \<longrightarrow> speaks c) classes_05"
  unfolding classes_05_def
  by (simp add: class_defs_05 fresh_checks runs)

lemma messages_06: "list_all (\<lambda>c. MessageLength \<in> set (finishes c) \<longrightarrow> speaks c) classes_06"
  unfolding classes_06_def
  by (simp add: class_defs_06 fresh_checks runs)

lemma messages_07: "list_all (\<lambda>c. MessageLength \<in> set (finishes c) \<longrightarrow> speaks c) classes_07"
  unfolding classes_07_def
  by (simp add: class_defs_07 fresh_checks runs)

lemma messages_08: "list_all (\<lambda>c. MessageLength \<in> set (finishes c) \<longrightarrow> speaks c) classes_08"
  unfolding classes_08_def
  by (simp add: class_defs_08 fresh_checks runs)

lemma messages_09: "list_all (\<lambda>c. MessageLength \<in> set (finishes c) \<longrightarrow> speaks c) classes_09"
  unfolding classes_09_def
  by (simp add: class_defs_09 fresh_checks runs)

lemma messages_10: "list_all (\<lambda>c. MessageLength \<in> set (finishes c) \<longrightarrow> speaks c) classes_10"
  unfolding classes_10_def
  by (simp add: class_defs_10 fresh_checks runs)

lemma messages_11: "list_all (\<lambda>c. MessageLength \<in> set (finishes c) \<longrightarrow> speaks c) classes_11"
  unfolding classes_11_def
  by (simp add: class_defs_11 fresh_checks runs)

lemma messages_12: "list_all (\<lambda>c. MessageLength \<in> set (finishes c) \<longrightarrow> speaks c) classes_12"
  unfolding classes_12_def
  by (simp add: class_defs_12 fresh_checks runs)

lemma messages_13: "list_all (\<lambda>c. MessageLength \<in> set (finishes c) \<longrightarrow> speaks c) classes_13"
  unfolding classes_13_def
  by (simp add: class_defs_13 fresh_checks runs)

lemma messages_14: "list_all (\<lambda>c. MessageLength \<in> set (finishes c) \<longrightarrow> speaks c) classes_14"
  unfolding classes_14_def
  by (simp add: class_defs_14 fresh_checks runs)

lemma messages_15: "list_all (\<lambda>c. MessageLength \<in> set (finishes c) \<longrightarrow> speaks c) classes_15"
  unfolding classes_15_def
  by (simp add: class_defs_15 fresh_checks runs)

lemma messages_16: "list_all (\<lambda>c. MessageLength \<in> set (finishes c) \<longrightarrow> speaks c) classes_16"
  unfolding classes_16_def
  by (simp add: class_defs_16 fresh_checks runs)

lemma messages_17: "list_all (\<lambda>c. MessageLength \<in> set (finishes c) \<longrightarrow> speaks c) classes_17"
  unfolding classes_17_def
  by (simp add: class_defs_17 fresh_checks runs)

lemma messages_18: "list_all (\<lambda>c. MessageLength \<in> set (finishes c) \<longrightarrow> speaks c) classes_18"
  unfolding classes_18_def
  by (simp add: class_defs_18 fresh_checks runs)

lemma messages_19: "list_all (\<lambda>c. MessageLength \<in> set (finishes c) \<longrightarrow> speaks c) classes_19"
  unfolding classes_19_def
  by (simp add: class_defs_19 fresh_checks runs)

end
