(* ===== verification/ClassLists.thy ===== *)
theory ClassLists
  imports Construct
begin

text \<open>
  The constructors and initialisers of the list classes, \<^verbatim>\<open>src/of_list_action.c\<close> and the other \<^verbatim>\<open>src/of_list_*.c\<close>.
\<close>

definition of_list_action_class :: wire_class where
  "of_list_action_class = \<lparr>class_id = OF_LIST_ACTION, whole_buffer = True, wire_types = None,
     finishes = []\<rparr>"

definition of_list_action_id_class :: wire_class where
  "of_list_action_id_class = \<lparr>class_id = OF_LIST_ACTION_ID, whole_buffer = True, wire_types = None,
     finishes = []\<rparr>"

definition of_list_async_config_prop_class :: wire_class where
  "of_list_async_config_prop_class = \<lparr>class_id = OF_LIST_ASYNC_CONFIG_PROP, whole_buffer = True, wire_types = None,
     finishes = []\<rparr>"

definition of_list_bsn_controller_connection_class :: wire_class where
  "of_list_bsn_controller_connection_class = \<lparr>class_id = OF_LIST_BSN_CONTROLLER_CONNECTION, whole_buffer = True, wire_types = None,
     finishes = []\<rparr>"

definition of_list_bsn_debug_counter_desc_stats_entry_class :: wire_class where
  "of_list_bsn_debug_counter_desc_stats_entry_class = \<lparr>class_id = OF_LIST_BSN_DEBUG_COUNTER_DESC_STATS_ENTRY, whole_buffer = True, wire_types = None,
     finishes = []\<rparr>"

definition of_list_bsn_debug_counter_stats_entry_class :: wire_class where
  "of_list_bsn_debug_counter_stats_entry_class = \<lparr>class_id = OF_LIST_BSN_DEBUG_COUNTER_STATS_ENTRY, whole_buffer = True, wire_types = None,
     finishes = []\<rparr>"

definition of_list_bsn_flow_checksum_bucket_stats_entry_class :: wire_class where
  "of_list_bsn_flow_checksum_bucket_stats_entry_class = \<lparr>class_id = OF_LIST_BSN_FLOW_CHECKSUM_BUCKET_STATS_ENTRY, whole_buffer = True, wire_types = None,
     finishes = []\<rparr>"

definition of_list_bsn_generic_stats_entry_class :: wire_class where
  "of_list_bsn_generic_stats_entry_class = \<lparr>class_id = OF_LIST_BSN_GENERIC_STATS_ENTRY, whole_buffer = True, wire_types = None,
     finishes = []\<rparr>"

definition of_list_bsn_gentable_bucket_stats_entry_class :: wire_class where
  "of_list_bsn_gentable_bucket_stats_entry_class = \<lparr>class_id = OF_LIST_BSN_GENTABLE_BUCKET_STATS_ENTRY, whole_buffer = True, wire_types = None,
     finishes = []\<rparr>"

definition of_list_bsn_gentable_desc_stats_entry_class :: wire_class where
  "of_list_bsn_gentable_desc_stats_entry_class = \<lparr>class_id = OF_LIST_BSN_GENTABLE_DESC_STATS_ENTRY, whole_buffer = True, wire_types = None,
     finishes = []\<rparr>"

definition of_list_bsn_gentable_entry_desc_stats_entry_class :: wire_class where
  "of_list_bsn_gentable_entry_desc_stats_entry_class = \<lparr>class_id = OF_LIST_BSN_GENTABLE_ENTRY_DESC_STATS_ENTRY, whole_buffer = True, wire_types = None,
     finishes = []\<rparr>"

definition of_list_bsn_gentable_entry_stats_entry_class :: wire_class where
  "of_list_bsn_gentable_entry_stats_entry_class = \<lparr>class_id = OF_LIST_BSN_GENTABLE_ENTRY_STATS_ENTRY, whole_buffer = True, wire_types = None,
     finishes = []\<rparr>"

definition of_list_bsn_gentable_stats_entry_class :: wire_class where
  "of_list_bsn_gentable_stats_entry_class = \<lparr>class_id = OF_LIST_BSN_GENTABLE_STATS_ENTRY, whole_buffer = True, wire_types = None,
     finishes = []\<rparr>"

definition of_list_bsn_interface_class :: wire_class where
  "of_list_bsn_interface_class = \<lparr>class_id = OF_LIST_BSN_INTERFACE, whole_buffer = True, wire_types = None,
     finishes = []\<rparr>"

definition of_list_bsn_lacp_stats_entry_class :: wire_class where
  "of_list_bsn_lacp_stats_entry_class = \<lparr>class_id = OF_LIST_BSN_LACP_STATS_ENTRY, whole_buffer = True, wire_types = None,
     finishes = []\<rparr>"

definition of_list_bsn_port_counter_stats_entry_class :: wire_class where
  "of_list_bsn_port_counter_stats_entry_class = \<lparr>class_id = OF_LIST_BSN_PORT_COUNTER_STATS_ENTRY, whole_buffer = True, wire_types = None,
     finishes = []\<rparr>"

definition of_list_bsn_switch_pipeline_stats_entry_class :: wire_class where
  "of_list_bsn_switch_pipeline_stats_entry_class = \<lparr>class_id = OF_LIST_BSN_SWITCH_PIPELINE_STATS_ENTRY, whole_buffer = True, wire_types = None,
     finishes = []\<rparr>"

definition of_list_bsn_table_checksum_stats_entry_class :: wire_class where
  "of_list_bsn_table_checksum_stats_entry_class = \<lparr>class_id = OF_LIST_BSN_TABLE_CHECKSUM_STATS_ENTRY, whole_buffer = True, wire_types = None,
     finishes = []\<rparr>"

definition of_list_bsn_tlv_class :: wire_class where
  "of_list_bsn_tlv_class = \<lparr>class_id = OF_LIST_BSN_TLV, whole_buffer = True, wire_types = None,
     finishes = []\<rparr>"

definition of_list_bsn_vlan_counter_stats_entry_class :: wire_class where
  "of_list_bsn_vlan_counter_stats_entry_class = \<lparr>class_id = OF_LIST_BSN_VLAN_COUNTER_STATS_ENTRY, whole_buffer = True, wire_types = None,
     finishes = []\<rparr>"

definition of_list_bsn_vrf_counter_stats_entry_class :: wire_class where
  "of_list_bsn_vrf_counter_stats_entry_class = \<lparr>class_id = OF_LIST_BSN_VRF_COUNTER_STATS_ENTRY, whole_buffer = True, wire_types = None,
     finishes = []\<rparr>"

definition of_list_bucket_class :: wire_class where
  "of_list_bucket_class = \<lparr>class_id = OF_LIST_BUCKET, whole_buffer = True, wire_types = None,
     finishes = []\<rparr>"

definition of_list_bucket_counter_class :: wire_class where
  "of_list_bucket_counter_class = \<lparr>class_id = OF_LIST_BUCKET_COUNTER, whole_buffer = True, wire_types = None,
     finishes = []\<rparr>"

definition of_list_bundle_prop_class :: wire_class where
  "of_list_bundle_prop_class = \<lparr>class_id = OF_LIST_BUNDLE_PROP, whole_buffer = True, wire_types = None,
     finishes = []\<rparr>"

definition of_list_flow_stats_entry_class :: wire_class where
  "of_list_flow_stats_entry_class = \<lparr>class_id = OF_LIST_FLOW_STATS_ENTRY, whole_buffer = True, wire_types = None,
     finishes = []\<rparr>"

definition of_list_group_desc_stats_entry_class :: wire_class where
  "of_list_group_desc_stats_entry_class = \<lparr>class_id = OF_LIST_GROUP_DESC_STATS_ENTRY, whole_buffer = True, wire_types = None,
     finishes = []\<rparr>"

definition of_list_group_stats_entry_class :: wire_class where
  "of_list_group_stats_entry_class = \<lparr>class_id = OF_LIST_GROUP_STATS_ENTRY, whole_buffer = True, wire_types = None,
     finishes = []\<rparr>"

definition of_list_hello_elem_class :: wire_class where
  "of_list_hello_elem_class = \<lparr>class_id = OF_LIST_HELLO_ELEM, whole_buffer = True, wire_types = None,
     finishes = []\<rparr>"

definition of_list_instruction_class :: wire_class where
  "of_list_instruction_class = \<lparr>class_id = OF_LIST_INSTRUCTION, whole_buffer = True, wire_types = None,
     finishes = []\<rparr>"

definition of_list_instruction_id_class :: wire_class where
  "of_list_instruction_id_class = \<lparr>class_id = OF_LIST_INSTRUCTION_ID, whole_buffer = True, wire_types = None,
     finishes = []\<rparr>"

definition of_list_meter_band_class :: wire_class where
  "of_list_meter_band_class = \<lparr>class_id = OF_LIST_METER_BAND, whole_buffer = True, wire_types = None,
     finishes = []\<rparr>"

definition of_list_meter_band_stats_class :: wire_class where
  "of_list_meter_band_stats_class = \<lparr>class_id = OF_LIST_METER_BAND_STATS, whole_buffer = True, wire_types = None,
     finishes = []\<rparr>"

definition of_list_meter_stats_class :: wire_class where
  "of_list_meter_stats_class = \<lparr>class_id = OF_LIST_METER_STATS, whole_buffer = True, wire_types = None,
     finishes = []\<rparr>"

definition of_list_oxm_class :: wire_class where
  "of_list_oxm_class = \<lparr>class_id = OF_LIST_OXM, whole_buffer = True, wire_types = None,
     finishes = []\<rparr>"

definition of_list_packet_queue_class :: wire_class where
  "of_list_packet_queue_class = \<lparr>class_id = OF_LIST_PACKET_QUEUE, whole_buffer = True, wire_types = None,
     finishes = []\<rparr>"

definition of_list_port_desc_class :: wire_class where
  "of_list_port_desc_class = \<lparr>class_id = OF_LIST_PORT_DESC, whole_buffer = True, wire_types = None,
     finishes = []\<rparr>"

definition of_list_port_desc_prop_class :: wire_class where
  "of_list_port_desc_prop_class = \<lparr>class_id = OF_LIST_PORT_DESC_PROP, whole_buffer = True, wire_types = None,
     finishes = []\<rparr>"

definition of_list_port_mod_prop_class :: wire_class where
  "of_list_port_mod_prop_class = \<lparr>class_id = OF_LIST_PORT_MOD_PROP, whole_buffer = True, wire_types = None,
     finishes = []\<rparr>"

definition of_list_port_stats_entry_class :: wire_class where
  "of_list_port_stats_entry_class = \<lparr>class_id = OF_LIST_PORT_STATS_ENTRY, whole_buffer = True, wire_types = None,
     finishes = []\<rparr>"

definition of_list_port_stats_prop_class :: wire_class where
  "of_list_port_stats_prop_class = \<lparr>class_id = OF_LIST_PORT_STATS_PROP, whole_buffer = True, wire_types = None,
     finishes = []\<rparr>"

definition of_list_queue_desc_class :: wire_class where
  "of_list_queue_desc_class = \<lparr>class_id = OF_LIST_QUEUE_DESC, whole_buffer = True, wire_types = None,
     finishes = []\<rparr>"

definition of_list_queue_desc_prop_class :: wire_class where
  "of_list_queue_desc_prop_class = \<lparr>class_id = OF_LIST_QUEUE_DESC_PROP, whole_buffer = True, wire_types = None,
     finishes = []\<rparr>"

definition of_list_queue_prop_class :: wire_class where
  "of_list_queue_prop_class = \<lparr>class_id = OF_LIST_QUEUE_PROP, whole_buffer = True, wire_types = None,
     finishes = []\<rparr>"

definition of_list_queue_stats_entry_class :: wire_class where
  "of_list_queue_stats_entry_class = \<lparr>class_id = OF_LIST_QUEUE_STATS_ENTRY, whole_buffer = True, wire_types = None,
     finishes = []\<rparr>"

definition of_list_queue_stats_prop_class :: wire_class where
  "of_list_queue_stats_prop_class = \<lparr>class_id = OF_LIST_QUEUE_STATS_PROP, whole_buffer = True, wire_types = None,
     finishes = []\<rparr>"

definition of_list_role_prop_class :: wire_class where
  "of_list_role_prop_class = \<lparr>class_id = OF_LIST_ROLE_PROP, whole_buffer = True, wire_types = None,
     finishes = []\<rparr>"

definition of_list_table_desc_class :: wire_class where
  "of_list_table_desc_class = \<lparr>class_id = OF_LIST_TABLE_DESC, whole_buffer = True, wire_types = None,
     finishes = []\<rparr>"

definition of_list_table_feature_prop_class :: wire_class where
  "of_list_table_feature_prop_class = \<lparr>class_id = OF_LIST_TABLE_FEATURE_PROP, whole_buffer = True, wire_types = None,
     finishes = []\<rparr>"

definition of_list_table_features_class :: wire_class where
  "of_list_table_features_class = \<lparr>class_id = OF_LIST_TABLE_FEATURES, whole_buffer = True, wire_types = None,
     finishes = []\<rparr>"

definition of_list_table_mod_prop_class :: wire_class where
  "of_list_table_mod_prop_class = \<lparr>class_id = OF_LIST_TABLE_MOD_PROP, whole_buffer = True, wire_types = None,
     finishes = []\<rparr>"

definition of_list_table_stats_entry_class :: wire_class where
  "of_list_table_stats_entry_class = \<lparr>class_id = OF_LIST_TABLE_STATS_ENTRY, whole_buffer = True, wire_types = None,
     finishes = []\<rparr>"

definition of_list_uint32_class :: wire_class where
  "of_list_uint32_class = \<lparr>class_id = OF_LIST_UINT32, whole_buffer = True, wire_types = None,
     finishes = []\<rparr>"

definition of_list_uint64_class :: wire_class where
  "of_list_uint64_class = \<lparr>class_id = OF_LIST_UINT64, whole_buffer = True, wire_types = None,
     finishes = []\<rparr>"

definition of_list_uint8_class :: wire_class where
  "of_list_uint8_class = \<lparr>class_id = OF_LIST_UINT8, whole_buffer = True, wire_types = None,
     finishes = []\<rparr>"

text \<open>The classes, each with consistent wire types in every version that has it.\<close>

definition classes_lists :: "wire_class list" where
  "classes_lists = [of_list_action_class, of_list_action_id_class, of_list_async_config_prop_class,
     of_list_bsn_controller_connection_class, of_list_bsn_debug_counter_desc_stats_entry_class,
     of_list_bsn_debug_counter_stats_entry_class, of_list_bsn_flow_checksum_bucket_stats_entry_class,
     of_list_bsn_generic_stats_entry_class, of_list_bsn_gentable_bucket_stats_entry_class,
     of_list_bsn_gentable_desc_stats_entry_class, of_list_bsn_gentable_entry_desc_stats_entry_class,
     of_list_bsn_gentable_entry_stats_entry_class, of_list_bsn_gentable_stats_entry_class,
     of_list_bsn_interface_class, of_list_bsn_lacp_stats_entry_class,
     of_list_bsn_port_counter_stats_entry_class, of_list_bsn_switch_pipeline_stats_entry_class,
     of_list_bsn_table_checksum_stats_entry_class, of_list_bsn_tlv_class,
     of_list_bsn_vlan_counter_stats_entry_class, of_list_bsn_vrf_counter_stats_entry_class,
     of_list_bucket_class, of_list_bucket_counter_class, of_list_bundle_prop_class,
     of_list_flow_stats_entry_class, of_list_group_desc_stats_entry_class,
     of_list_group_stats_entry_class, of_list_hello_elem_class, of_list_instruction_class,
     of_list_instruction_id_class, of_list_meter_band_class, of_list_meter_band_stats_class,
     of_list_meter_stats_class, of_list_oxm_class, of_list_packet_queue_class, of_list_port_desc_class,
     of_list_port_desc_prop_class, of_list_port_mod_prop_class, of_list_port_stats_entry_class,
     of_list_port_stats_prop_class, of_list_queue_desc_class, of_list_queue_desc_prop_class,
     of_list_queue_prop_class, of_list_queue_stats_entry_class, of_list_queue_stats_prop_class,
     of_list_role_prop_class, of_list_table_desc_class, of_list_table_feature_prop_class,
     of_list_table_features_class, of_list_table_mod_prop_class, of_list_table_stats_entry_class,
     of_list_uint32_class, of_list_uint64_class, of_list_uint8_class]"

lemmas class_defs_lists =
  of_list_action_class_def of_list_action_id_class_def of_list_async_config_prop_class_def
  of_list_bsn_controller_connection_class_def of_list_bsn_debug_counter_desc_stats_entry_class_def
  of_list_bsn_debug_counter_stats_entry_class_def
  of_list_bsn_flow_checksum_bucket_stats_entry_class_def of_list_bsn_generic_stats_entry_class_def
  of_list_bsn_gentable_bucket_stats_entry_class_def of_list_bsn_gentable_desc_stats_entry_class_def
  of_list_bsn_gentable_entry_desc_stats_entry_class_def
  of_list_bsn_gentable_entry_stats_entry_class_def of_list_bsn_gentable_stats_entry_class_def
  of_list_bsn_interface_class_def of_list_bsn_lacp_stats_entry_class_def
  of_list_bsn_port_counter_stats_entry_class_def of_list_bsn_switch_pipeline_stats_entry_class_def
  of_list_bsn_table_checksum_stats_entry_class_def of_list_bsn_tlv_class_def
  of_list_bsn_vlan_counter_stats_entry_class_def of_list_bsn_vrf_counter_stats_entry_class_def
  of_list_bucket_class_def of_list_bucket_counter_class_def of_list_bundle_prop_class_def
  of_list_flow_stats_entry_class_def of_list_group_desc_stats_entry_class_def
  of_list_group_stats_entry_class_def of_list_hello_elem_class_def of_list_instruction_class_def
  of_list_instruction_id_class_def of_list_meter_band_class_def of_list_meter_band_stats_class_def
  of_list_meter_stats_class_def of_list_oxm_class_def of_list_packet_queue_class_def
  of_list_port_desc_class_def of_list_port_desc_prop_class_def of_list_port_mod_prop_class_def
  of_list_port_stats_entry_class_def of_list_port_stats_prop_class_def of_list_queue_desc_class_def
  of_list_queue_desc_prop_class_def of_list_queue_prop_class_def of_list_queue_stats_entry_class_def
  of_list_queue_stats_prop_class_def of_list_role_prop_class_def of_list_table_desc_class_def
  of_list_table_feature_prop_class_def of_list_table_features_class_def
  of_list_table_mod_prop_class_def of_list_table_stats_entry_class_def of_list_uint32_class_def
  of_list_uint64_class_def of_list_uint8_class_def

lemma classes_ok_lists: "list_all class_ok classes_lists"
  unfolding classes_lists_def
  by (simp add: class_defs_lists class_checks)

end
