(* ===== verification/Constructors.thy ===== *)
theory Constructors
  imports Fresh ClassLists
begin

text \<open>
  The constructors of all classes together: what \<open>of_X_new\<close> returns, and that a new message is understood by
  the code that receives it.
\<close>

definition all_classes :: "wire_class list" where
  "all_classes = classes_00 @ classes_01 @ classes_02 @ classes_03 @ classes_04 @ classes_05 @ classes_06 @ classes_07 @
     classes_08 @ classes_09 @ classes_10 @ classes_11 @ classes_12 @ classes_13 @ classes_14 @ classes_15 @ classes_16 @
     classes_17 @ classes_18 @ classes_19 @ classes_lists"

lemma classes_consistent: "c \<in> set all_classes \<Longrightarrow> class_ok c"
  using classes_ok_00 classes_ok_01 classes_ok_02 classes_ok_03 classes_ok_04 classes_ok_05 classes_ok_06 classes_ok_07
    classes_ok_08 classes_ok_09 classes_ok_10 classes_ok_11 classes_ok_12 classes_ok_13 classes_ok_14 classes_ok_15
    classes_ok_16 classes_ok_17 classes_ok_18 classes_ok_19 classes_ok_lists
  by (auto simp: all_classes_def list_all_iff)

lemma messages_lists: "list_all (\<lambda>c. MessageLength \<in> set (finishes c) \<longrightarrow> speaks c) classes_lists"
  by (simp add: classes_lists_def class_defs_lists)

lemma messages_speak: "c \<in> set all_classes \<Longrightarrow> MessageLength \<in> set (finishes c) \<Longrightarrow> speaks c"
  using messages_00 messages_01 messages_02 messages_03 messages_04 messages_05 messages_06 messages_07
    messages_08 messages_09 messages_10 messages_11 messages_12 messages_13 messages_14 messages_15
    messages_16 messages_17 messages_18 messages_19 messages_lists
  by (auto simp: all_classes_def list_all_iff)

lemma in_versions: "of_object_fixed_len ver i = Inr n \<Longrightarrow> ver \<in> set [1, 2, 3, 4, 5]"
  by (auto simp: of_object_fixed_len_def split: if_splits)

lemma class_ok_wf:
  assumes "class_ok c" and "of_object_fixed_len ver (class_id c) = Inr n" and "0 \<le> n"
  shows "class_wf c ver n"
  using assms in_versions [OF assms(2)] by (fastforce simp: class_ok_def list_all_iff)

lemma speaks_fresh:
  assumes "speaks c" and "of_object_fixed_len ver (class_id c) = Inr n" and "0 \<le> n"
  shows "fresh_ok c ver n"
  using assms in_versions [OF assms(2)] by (fastforce simp: speaks_def list_all_iff)

text \<open>The object a constructor makes of the class, in a version where it has \<open>n\<close> bytes.\<close>

definition object_of_class :: "wire_class \<Rightarrow> int \<Rightarrow> int \<Rightarrow> of_object \<Rightarrow> bool" where
  "object_of_class c ver n obj \<longleftrightarrow> obj_wf obj \<and> object_id obj = class_id c \<and> obj_version obj = ver \<and> obj_length obj = n \<and>
     obj_offset obj = 0 \<and> \<not> has_parent obj \<and>
     (case wbuf obj of None \<Rightarrow> False | Some w \<Rightarrow> new_bytes c ver n = Inr (wbuf_data w))"

lemma class_new_object:
  assumes "class_wf c ver n" and "granted h"
  shows "\<exists>obj. class_new c True True h ver = Inr (Some obj) \<and> object_of_class c ver n obj"
proof -
  obtain b r ts alloc where b: "class_new c True True h ver = Inr (Some (fresh_object (class_id c) ver n alloc (b @ r)))"
    "new_bytes c ver n = Inr b" "int (length b) = n" "alloc = int (length (b @ r))"
    using class_new_ok [OF assms] by blast
  have "of_object_fixed_len ver (class_id c) = Inr n" "0 \<le> n"
    using assms(1) by (simp_all add: class_wf_def)
  then have "object_of_class c ver n (fresh_object (class_id c) ver n alloc (b @ r))"
    using b(2-4) by (auto simp: object_of_class_def fresh_object_def obj_wf_def wbuf_wf_def fits_def wbuf_data_def)
  then show ?thesis
    using b(1) by blast
qed

lemma class_new_refused:
  assumes "class_wf c ver n" and "\<not> (got_obj \<and> got_wbuf \<and> granted h)"
  shows "class_new c got_obj got_wbuf h ver = Inr None"
  using assms by (auto simp: class_wf_def class_new_def of_object_new_def of_wire_buffer_new_def malloc_def
      OF_WIRE_BUFFER_MAX_LENGTH_def split: option.splits)

lemma new_message_object:
  assumes "class_wf c ver n" and "fresh_ok c ver n" and "new_bytes c ver n = Inr b"
  shows "\<exists>obj. of_object_new_from_message True True b n = Inr (Some obj) \<and> object_of_message b n obj \<and>
    object_id obj = class_id c \<and> obj_version obj = ver"
proof -
  obtain ts where ts: "all_types c ver n = Some ts"
    using assms(1) by (auto simp: class_wf_def split: option.splits)
  have f: "fresh ver n ts b" "int (length b) = n"
    using fresh_new_bytes [OF assms(1,3) ts, of "[]"] by simp_all
  have v: "of_validate_message b n = Inr 0" "of_message_version_get b = Inr (word_of_int ver)"
    "of_header_wire_object_id_get ver b 0 = Inr (class_id c)"
    using assms(2) ts f(1) by (simp_all add: fresh_ok_def)
  obtain obj where obj: "of_object_new_from_message True True b n = Inr (Some obj)" "object_of_message b n obj"
    using new_from_message_valid(1) [OF v(1)] f(2) by auto
  have "ver \<in> set [1, 2, 3, 4, 5]"
    using assms(1) in_versions [of ver "class_id c" n] by (simp add: class_wf_def)
  then have "uint (b ! 0) = ver"
    using v(2) by (auto simp: of_message_version_get_def rd_def split: if_splits)
  then show ?thesis
    using obj v(3) by (auto simp: object_of_message_def)
qed

text \<open>C12: The constructor of every class, in every version that has objects of it, gives no object exactly when memory is
  refused; otherwise a well-formed object of the class and version with its fixed length, alone in its buffer, whose bytes are
  zero but for the class's wire types and lengths. In a version without such objects it fails its assertion.\<close>

theorem class_new_makes_object:
  assumes "c \<in> set all_classes" and "of_object_fixed_len ver (class_id c) = Inr n"
  shows "if n < 0 then class_new c True True h ver \<in> {Inl AssertFail, Inr None}
     else if got_obj \<and> got_wbuf \<and> granted h
     then \<exists>obj. class_new c got_obj got_wbuf h ver = Inr (Some obj) \<and> object_of_class c ver n obj
     else class_new c got_obj got_wbuf h ver = Inr None"
proof (cases "n < 0")
  case True
  then show ?thesis
    using assms(2) by (auto simp: class_new_def of_object_new_def class_init_def of_object_init_def c_assert_def split: option.splits)
next
  case False
  then have w: "class_wf c ver n"
    using class_ok_wf [OF classes_consistent [OF assms(1)] assms(2)] by simp
  show ?thesis
    using False class_new_object [OF w] class_new_refused [OF w] by auto
qed

text \<open>C9: A new message of any class and version is understood by its receiver: its bytes are accepted by the validator, and
  the object made of them has the class's id, its fixed length and the version. The classes are those whose constructor
  writes the length of the message; abstract ones such as \<^verbatim>\<open>of_header\<close>, which leave it to their subclasses, are
  not messages by themselves.\<close>

theorem new_message_understood:
  assumes "c \<in> set all_classes" and "MessageLength \<in> set (finishes c)"
    and "of_object_fixed_len ver (class_id c) = Inr n" and "0 \<le> n" and "granted h"
  shows "\<exists>obj w obj'. class_new c True True h ver = Inr (Some obj) \<and> wbuf obj = Some w \<and>
     of_object_new_from_message True True (wbuf_data w) n = Inr (Some obj') \<and>
     object_id obj' = class_id c \<and> obj_length obj' = n \<and> obj_version obj' = ver"
proof -
  have w: "class_wf c ver n"
    using class_ok_wf [OF classes_consistent [OF assms(1)] assms(3,4)] .
  obtain obj where obj: "class_new c True True h ver = Inr (Some obj)" "object_of_class c ver n obj"
    using class_new_object [OF w assms(5)] by blast
  then obtain wb where wb: "wbuf obj = Some wb" "new_bytes c ver n = Inr (wbuf_data wb)"
    by (auto simp: object_of_class_def split: option.splits)
  have f: "fresh_ok c ver n"
    using speaks_fresh [OF messages_speak [OF assms(1,2)] assms(3,4)] .
  obtain obj' where "of_object_new_from_message True True (wbuf_data wb) n = Inr (Some obj')"
    "object_of_message (wbuf_data wb) n obj'" "object_id obj' = class_id c" "obj_version obj' = ver"
    using new_message_object [OF w f wb(2)] by blast
  then show ?thesis
    using obj(1) wb(1) by (auto simp: object_of_message_def)
qed

text \<open>A hello and a flow modification of version 1.3, which embeds an empty match.\<close>

lemma sample_classes: "of_hello_class \<in> set all_classes" "of_flow_add_class \<in> set all_classes"
  by (simp_all add: all_classes_def classes_02_def)

lemma class_new_makes_object_witness:
  "\<exists>obj. class_new of_hello_class True True \<lparr>granted = True, junk = (\<lambda>_. 0xff)\<rparr> 4 = Inr (Some obj) \<and> object_of_class of_hello_class 4 8 obj"
  using class_new_makes_object [OF sample_classes(1), of 4 8 "\<lparr>granted = True, junk = (\<lambda>_. 0xff)\<rparr>" True True]
  by (simp add: of_hello_class_def of_object_fixed_len_def)

lemma new_message_understood_witness:
  "\<exists>obj w obj'. class_new of_flow_add_class True True \<lparr>granted = True, junk = (\<lambda>_. 0xff)\<rparr> 4 = Inr (Some obj) \<and> wbuf obj = Some w \<and>
     of_object_new_from_message True True (wbuf_data w) 56 = Inr (Some obj') \<and>
     object_id obj' = OF_FLOW_ADD \<and> obj_length obj' = 56 \<and> obj_version obj' = 4"
  using new_message_understood [OF sample_classes(2), of 4 56 "\<lparr>granted = True, junk = (\<lambda>_. 0xff)\<rparr>"]
  by (simp add: of_flow_add_class_def of_object_fixed_len_def)

end
