(* ===== verification/ElementIds.thy ===== *)
theory ElementIds
  imports ClassIds
begin

text \<open>
  The id getters of the parts of messages: actions, instructions, OXM fields, properties and the other elements of
  lists (\<open>of_X_wire_object_id_get\<close> of the generated class files that the message header's getter does not reach).
\<close>

definition of_action_bsn_wire_object_id_get :: "int \<Rightarrow> getter" where
  "of_action_bsn_wire_object_id_get version =
     (if version = 1 then
       d_switch32 8
        [(1, d_id OF_ACTION_BSN_MIRROR),
         (2, d_id OF_ACTION_BSN_SET_TUNNEL_DST),
         (4, d_id OF_ACTION_BSN_CHECKSUM)]
        OF_ACTION_BSN
      else if version = 2 then
       d_switch32 8
        [(1, d_id OF_ACTION_BSN_MIRROR),
         (2, d_id OF_ACTION_BSN_SET_TUNNEL_DST),
         (4, d_id OF_ACTION_BSN_CHECKSUM)]
        OF_ACTION_BSN
      else if version = 3 then
       d_switch32 8
        [(1, d_id OF_ACTION_BSN_MIRROR),
         (2, d_id OF_ACTION_BSN_SET_TUNNEL_DST),
         (4, d_id OF_ACTION_BSN_CHECKSUM)]
        OF_ACTION_BSN
      else if version = 4 then
       d_switch32 8
        [(1, d_id OF_ACTION_BSN_MIRROR),
         (2, d_id OF_ACTION_BSN_SET_TUNNEL_DST),
         (4, d_id OF_ACTION_BSN_CHECKSUM),
         (5, d_id OF_ACTION_BSN_GENTABLE)]
        OF_ACTION_BSN
      else if version = 5 then
       d_switch32 8
        [(1, d_id OF_ACTION_BSN_MIRROR),
         (2, d_id OF_ACTION_BSN_SET_TUNNEL_DST),
         (4, d_id OF_ACTION_BSN_CHECKSUM),
         (5, d_id OF_ACTION_BSN_GENTABLE)]
        OF_ACTION_BSN
      else d_assert)"

definition of_action_nicira_wire_object_id_get :: "int \<Rightarrow> getter" where
  "of_action_nicira_wire_object_id_get version =
     (if version = 1 then
       d_switch16 8
        [(0x12, d_id OF_ACTION_NICIRA_DEC_TTL)]
        OF_ACTION_NICIRA
      else if version = 2 then
       d_switch16 8
        [(0x12, d_id OF_ACTION_NICIRA_DEC_TTL)]
        OF_ACTION_NICIRA
      else if version = 3 then
       d_switch16 8
        [(0x12, d_id OF_ACTION_NICIRA_DEC_TTL)]
        OF_ACTION_NICIRA
      else if version = 4 then
       d_switch16 8
        [(0x12, d_id OF_ACTION_NICIRA_DEC_TTL)]
        OF_ACTION_NICIRA
      else if version = 5 then
       d_switch16 8
        [(0x12, d_id OF_ACTION_NICIRA_DEC_TTL)]
        OF_ACTION_NICIRA
      else d_assert)"

definition of_action_experimenter_wire_object_id_get :: "int \<Rightarrow> getter" where
  "of_action_experimenter_wire_object_id_get version =
     (if version = 1 then
       d_switch32 4
        [(0x2320, of_action_nicira_wire_object_id_get version),
         (0x5c16c7, of_action_bsn_wire_object_id_get version)]
        OF_ACTION_EXPERIMENTER
      else if version = 2 then
       d_switch32 4
        [(0x2320, of_action_nicira_wire_object_id_get version),
         (0x5c16c7, of_action_bsn_wire_object_id_get version)]
        OF_ACTION_EXPERIMENTER
      else if version = 3 then
       d_switch32 4
        [(0x2320, of_action_nicira_wire_object_id_get version),
         (0x5c16c7, of_action_bsn_wire_object_id_get version)]
        OF_ACTION_EXPERIMENTER
      else if version = 4 then
       d_switch32 4
        [(0x2320, of_action_nicira_wire_object_id_get version),
         (0x5c16c7, of_action_bsn_wire_object_id_get version)]
        OF_ACTION_EXPERIMENTER
      else if version = 5 then
       d_switch32 4
        [(0x2320, of_action_nicira_wire_object_id_get version),
         (0x5c16c7, of_action_bsn_wire_object_id_get version)]
        OF_ACTION_EXPERIMENTER
      else d_assert)"

definition of_action_id_bsn_wire_object_id_get :: "int \<Rightarrow> getter" where
  "of_action_id_bsn_wire_object_id_get version =
     (if version = 4 then
       d_switch32 8
        [(1, d_id OF_ACTION_ID_BSN_MIRROR),
         (2, d_id OF_ACTION_ID_BSN_SET_TUNNEL_DST),
         (4, d_id OF_ACTION_ID_BSN_CHECKSUM),
         (5, d_id OF_ACTION_ID_BSN_GENTABLE)]
        OF_ACTION_ID_BSN
      else if version = 5 then
       d_switch32 8
        [(1, d_id OF_ACTION_ID_BSN_MIRROR),
         (2, d_id OF_ACTION_ID_BSN_SET_TUNNEL_DST),
         (4, d_id OF_ACTION_ID_BSN_CHECKSUM),
         (5, d_id OF_ACTION_ID_BSN_GENTABLE)]
        OF_ACTION_ID_BSN
      else d_assert)"

definition of_action_id_nicira_wire_object_id_get :: "int \<Rightarrow> getter" where
  "of_action_id_nicira_wire_object_id_get version =
     (if version = 4 then
       d_switch16 8
        [(0x12, d_id OF_ACTION_ID_NICIRA_DEC_TTL)]
        OF_ACTION_ID_NICIRA
      else if version = 5 then
       d_switch16 8
        [(0x12, d_id OF_ACTION_ID_NICIRA_DEC_TTL)]
        OF_ACTION_ID_NICIRA
      else d_assert)"

definition of_action_id_experimenter_wire_object_id_get :: "int \<Rightarrow> getter" where
  "of_action_id_experimenter_wire_object_id_get version =
     (if version = 4 then
       d_switch32 4
        [(0x2320, of_action_id_nicira_wire_object_id_get version),
         (0x5c16c7, of_action_id_bsn_wire_object_id_get version)]
        OF_ACTION_ID_EXPERIMENTER
      else if version = 5 then
       d_switch32 4
        [(0x2320, of_action_id_nicira_wire_object_id_get version),
         (0x5c16c7, of_action_id_bsn_wire_object_id_get version)]
        OF_ACTION_ID_EXPERIMENTER
      else d_assert)"

definition of_action_id_wire_object_id_get :: "int \<Rightarrow> getter" where
  "of_action_id_wire_object_id_get version =
     (if version = 4 then
       d_switch16 0
        [(0, d_id OF_ACTION_ID_OUTPUT),
         (0xb, d_id OF_ACTION_ID_COPY_TTL_OUT),
         (0xc, d_id OF_ACTION_ID_COPY_TTL_IN),
         (0xf, d_id OF_ACTION_ID_SET_MPLS_TTL),
         (0x10, d_id OF_ACTION_ID_DEC_MPLS_TTL),
         (0x11, d_id OF_ACTION_ID_PUSH_VLAN),
         (0x12, d_id OF_ACTION_ID_POP_VLAN),
         (0x13, d_id OF_ACTION_ID_PUSH_MPLS),
         (0x14, d_id OF_ACTION_ID_POP_MPLS),
         (0x15, d_id OF_ACTION_ID_SET_QUEUE),
         (0x16, d_id OF_ACTION_ID_GROUP),
         (0x17, d_id OF_ACTION_ID_SET_NW_TTL),
         (0x18, d_id OF_ACTION_ID_DEC_NW_TTL),
         (0x19, d_id OF_ACTION_ID_SET_FIELD),
         (0x1a, d_id OF_ACTION_ID_PUSH_PBB),
         (0x1b, d_id OF_ACTION_ID_POP_PBB),
         (0xffff, of_action_id_experimenter_wire_object_id_get version)]
        OF_ACTION_ID
      else if version = 5 then
       d_switch16 0
        [(0, d_id OF_ACTION_ID_OUTPUT),
         (0xb, d_id OF_ACTION_ID_COPY_TTL_OUT),
         (0xc, d_id OF_ACTION_ID_COPY_TTL_IN),
         (0xf, d_id OF_ACTION_ID_SET_MPLS_TTL),
         (0x10, d_id OF_ACTION_ID_DEC_MPLS_TTL),
         (0x11, d_id OF_ACTION_ID_PUSH_VLAN),
         (0x12, d_id OF_ACTION_ID_POP_VLAN),
         (0x13, d_id OF_ACTION_ID_PUSH_MPLS),
         (0x14, d_id OF_ACTION_ID_POP_MPLS),
         (0x15, d_id OF_ACTION_ID_SET_QUEUE),
         (0x16, d_id OF_ACTION_ID_GROUP),
         (0x17, d_id OF_ACTION_ID_SET_NW_TTL),
         (0x18, d_id OF_ACTION_ID_DEC_NW_TTL),
         (0x19, d_id OF_ACTION_ID_SET_FIELD),
         (0x1a, d_id OF_ACTION_ID_PUSH_PBB),
         (0x1b, d_id OF_ACTION_ID_POP_PBB),
         (0xffff, of_action_id_experimenter_wire_object_id_get version)]
        OF_ACTION_ID
      else d_assert)"

definition of_action_wire_object_id_get :: "int \<Rightarrow> getter" where
  "of_action_wire_object_id_get version =
     (if version = 1 then
       d_switch16 0
        [(0, d_id OF_ACTION_OUTPUT),
         (1, d_id OF_ACTION_SET_VLAN_VID),
         (2, d_id OF_ACTION_SET_VLAN_PCP),
         (3, d_id OF_ACTION_STRIP_VLAN),
         (4, d_id OF_ACTION_SET_DL_SRC),
         (5, d_id OF_ACTION_SET_DL_DST),
         (6, d_id OF_ACTION_SET_NW_SRC),
         (7, d_id OF_ACTION_SET_NW_DST),
         (8, d_id OF_ACTION_SET_NW_TOS),
         (9, d_id OF_ACTION_SET_TP_SRC),
         (0xa, d_id OF_ACTION_SET_TP_DST),
         (0xb, d_id OF_ACTION_ENQUEUE),
         (0xffff, of_action_experimenter_wire_object_id_get version)]
        OF_ACTION
      else if version = 2 then
       d_switch16 0
        [(0, d_id OF_ACTION_OUTPUT),
         (1, d_id OF_ACTION_SET_VLAN_VID),
         (2, d_id OF_ACTION_SET_VLAN_PCP),
         (3, d_id OF_ACTION_SET_DL_SRC),
         (4, d_id OF_ACTION_SET_DL_DST),
         (5, d_id OF_ACTION_SET_NW_SRC),
         (6, d_id OF_ACTION_SET_NW_DST),
         (7, d_id OF_ACTION_SET_NW_TOS),
         (8, d_id OF_ACTION_SET_NW_ECN),
         (9, d_id OF_ACTION_SET_TP_SRC),
         (0xa, d_id OF_ACTION_SET_TP_DST),
         (0xb, d_id OF_ACTION_COPY_TTL_OUT),
         (0xc, d_id OF_ACTION_COPY_TTL_IN),
         (0xd, d_id OF_ACTION_SET_MPLS_LABEL),
         (0xe, d_id OF_ACTION_SET_MPLS_TC),
         (0xf, d_id OF_ACTION_SET_MPLS_TTL),
         (0x10, d_id OF_ACTION_DEC_MPLS_TTL),
         (0x11, d_id OF_ACTION_PUSH_VLAN),
         (0x12, d_id OF_ACTION_POP_VLAN),
         (0x13, d_id OF_ACTION_PUSH_MPLS),
         (0x14, d_id OF_ACTION_POP_MPLS),
         (0x15, d_id OF_ACTION_SET_QUEUE),
         (0x16, d_id OF_ACTION_GROUP),
         (0x17, d_id OF_ACTION_SET_NW_TTL),
         (0x18, d_id OF_ACTION_DEC_NW_TTL),
         (0xffff, of_action_experimenter_wire_object_id_get version)]
        OF_ACTION
      else if version = 3 then
       d_switch16 0
        [(0, d_id OF_ACTION_OUTPUT),
         (0xb, d_id OF_ACTION_COPY_TTL_OUT),
         (0xc, d_id OF_ACTION_COPY_TTL_IN),
         (0xf, d_id OF_ACTION_SET_MPLS_TTL),
         (0x10, d_id OF_ACTION_DEC_MPLS_TTL),
         (0x11, d_id OF_ACTION_PUSH_VLAN),
         (0x12, d_id OF_ACTION_POP_VLAN),
         (0x13, d_id OF_ACTION_PUSH_MPLS),
         (0x14, d_id OF_ACTION_POP_MPLS),
         (0x15, d_id OF_ACTION_SET_QUEUE),
         (0x16, d_id OF_ACTION_GROUP),
         (0x17, d_id OF_ACTION_SET_NW_TTL),
         (0x18, d_id OF_ACTION_DEC_NW_TTL),
         (0x19, d_id OF_ACTION_SET_FIELD),
         (0xffff, of_action_experimenter_wire_object_id_get version)]
        OF_ACTION
      else if version = 4 then
       d_switch16 0
        [(0, d_id OF_ACTION_OUTPUT),
         (0xb, d_id OF_ACTION_COPY_TTL_OUT),
         (0xc, d_id OF_ACTION_COPY_TTL_IN),
         (0xf, d_id OF_ACTION_SET_MPLS_TTL),
         (0x10, d_id OF_ACTION_DEC_MPLS_TTL),
         (0x11, d_id OF_ACTION_PUSH_VLAN),
         (0x12, d_id OF_ACTION_POP_VLAN),
         (0x13, d_id OF_ACTION_PUSH_MPLS),
         (0x14, d_id OF_ACTION_POP_MPLS),
         (0x15, d_id OF_ACTION_SET_QUEUE),
         (0x16, d_id OF_ACTION_GROUP),
         (0x17, d_id OF_ACTION_SET_NW_TTL),
         (0x18, d_id OF_ACTION_DEC_NW_TTL),
         (0x19, d_id OF_ACTION_SET_FIELD),
         (0x1a, d_id OF_ACTION_PUSH_PBB),
         (0x1b, d_id OF_ACTION_POP_PBB),
         (0xffff, of_action_experimenter_wire_object_id_get version)]
        OF_ACTION
      else if version = 5 then
       d_switch16 0
        [(0, d_id OF_ACTION_OUTPUT),
         (0xb, d_id OF_ACTION_COPY_TTL_OUT),
         (0xc, d_id OF_ACTION_COPY_TTL_IN),
         (0xf, d_id OF_ACTION_SET_MPLS_TTL),
         (0x10, d_id OF_ACTION_DEC_MPLS_TTL),
         (0x11, d_id OF_ACTION_PUSH_VLAN),
         (0x12, d_id OF_ACTION_POP_VLAN),
         (0x13, d_id OF_ACTION_PUSH_MPLS),
         (0x14, d_id OF_ACTION_POP_MPLS),
         (0x15, d_id OF_ACTION_SET_QUEUE),
         (0x16, d_id OF_ACTION_GROUP),
         (0x17, d_id OF_ACTION_SET_NW_TTL),
         (0x18, d_id OF_ACTION_DEC_NW_TTL),
         (0x19, d_id OF_ACTION_SET_FIELD),
         (0x1a, d_id OF_ACTION_PUSH_PBB),
         (0x1b, d_id OF_ACTION_POP_PBB),
         (0xffff, of_action_experimenter_wire_object_id_get version)]
        OF_ACTION
      else d_assert)"

definition of_async_config_prop_wire_object_id_get :: "int \<Rightarrow> getter" where
  "of_async_config_prop_wire_object_id_get version =
     (if version = 5 then
       d_switch16 0
        [(0, d_id OF_ASYNC_CONFIG_PROP_PACKET_IN_SLAVE),
         (1, d_id OF_ASYNC_CONFIG_PROP_PACKET_IN_MASTER),
         (2, d_id OF_ASYNC_CONFIG_PROP_PORT_STATUS_SLAVE),
         (3, d_id OF_ASYNC_CONFIG_PROP_PORT_STATUS_MASTER),
         (4, d_id OF_ASYNC_CONFIG_PROP_FLOW_REMOVED_SLAVE),
         (5, d_id OF_ASYNC_CONFIG_PROP_FLOW_REMOVED_MASTER),
         (6, d_id OF_ASYNC_CONFIG_PROP_ROLE_STATUS_SLAVE),
         (7, d_id OF_ASYNC_CONFIG_PROP_ROLE_STATUS_MASTER),
         (8, d_id OF_ASYNC_CONFIG_PROP_TABLE_STATUS_SLAVE),
         (9, d_id OF_ASYNC_CONFIG_PROP_TABLE_STATUS_MASTER),
         (0xa, d_id OF_ASYNC_CONFIG_PROP_REQUESTFORWARD_SLAVE),
         (0xb, d_id OF_ASYNC_CONFIG_PROP_REQUESTFORWARD_MASTER),
         (0xfffe, d_id OF_ASYNC_CONFIG_PROP_EXPERIMENTER_SLAVE),
         (0xffff, d_id OF_ASYNC_CONFIG_PROP_EXPERIMENTER_MASTER)]
        OF_ASYNC_CONFIG_PROP
      else d_assert)"

definition of_bsn_tlv_wire_object_id_get :: "int \<Rightarrow> getter" where
  "of_bsn_tlv_wire_object_id_get version =
     (if version = 4 then
       d_switch16 0
        [(0, d_id OF_BSN_TLV_PORT),
         (1, d_id OF_BSN_TLV_MAC),
         (2, d_id OF_BSN_TLV_RX_PACKETS),
         (3, d_id OF_BSN_TLV_TX_PACKETS),
         (4, d_id OF_BSN_TLV_IPV4),
         (5, d_id OF_BSN_TLV_IDLE_TIME),
         (6, d_id OF_BSN_TLV_VLAN_VID),
         (7, d_id OF_BSN_TLV_IDLE_NOTIFICATION),
         (8, d_id OF_BSN_TLV_IDLE_TIMEOUT),
         (9, d_id OF_BSN_TLV_UNICAST_QUERY_TIMEOUT),
         (0xa, d_id OF_BSN_TLV_BROADCAST_QUERY_TIMEOUT),
         (0xb, d_id OF_BSN_TLV_REQUEST_PACKETS),
         (0xc, d_id OF_BSN_TLV_REPLY_PACKETS),
         (0xd, d_id OF_BSN_TLV_MISS_PACKETS),
         (0xe, d_id OF_BSN_TLV_CIRCUIT_ID),
         (0xf, d_id OF_BSN_TLV_UDF_ID),
         (0x10, d_id OF_BSN_TLV_UDF_ANCHOR),
         (0x11, d_id OF_BSN_TLV_UDF_OFFSET),
         (0x12, d_id OF_BSN_TLV_UDF_LENGTH),
         (0x13, d_id OF_BSN_TLV_VRF),
         (0x14, d_id OF_BSN_TLV_QUEUE_ID),
         (0x15, d_id OF_BSN_TLV_QUEUE_WEIGHT),
         (0x16, d_id OF_BSN_TLV_CRC_ENABLED),
         (0x17, d_id OF_BSN_TLV_EXTERNAL_IP),
         (0x18, d_id OF_BSN_TLV_EXTERNAL_MAC),
         (0x19, d_id OF_BSN_TLV_EXTERNAL_NETMASK),
         (0x1a, d_id OF_BSN_TLV_EXTERNAL_GATEWAY_IP),
         (0x1b, d_id OF_BSN_TLV_INTERNAL_MAC),
         (0x1c, d_id OF_BSN_TLV_INTERNAL_GATEWAY_MAC),
         (0x1d, d_id OF_BSN_TLV_EXTERNAL_GATEWAY_MAC),
         (0x1e, d_id OF_BSN_TLV_SAMPLING_RATE),
         (0x1f, d_id OF_BSN_TLV_HEADER_SIZE),
         (0x20, d_id OF_BSN_TLV_ETH_SRC),
         (0x21, d_id OF_BSN_TLV_ETH_DST),
         (0x22, d_id OF_BSN_TLV_IPV4_SRC),
         (0x23, d_id OF_BSN_TLV_IPV4_DST),
         (0x24, d_id OF_BSN_TLV_UDP_SRC),
         (0x25, d_id OF_BSN_TLV_UDP_DST),
         (0x26, d_id OF_BSN_TLV_SUB_AGENT_ID),
         (0x27, d_id OF_BSN_TLV_TX_BYTES),
         (0x28, d_id OF_BSN_TLV_ACTOR_SYSTEM_PRIORITY),
         (0x29, d_id OF_BSN_TLV_ACTOR_SYSTEM_MAC),
         (0x2a, d_id OF_BSN_TLV_ACTOR_PORT_PRIORITY),
         (0x2b, d_id OF_BSN_TLV_ACTOR_PORT_NUM),
         (0x2c, d_id OF_BSN_TLV_ACTOR_KEY),
         (0x2d, d_id OF_BSN_TLV_CONVERGENCE_STATUS),
         (0x2f, d_id OF_BSN_TLV_PARTNER_SYSTEM_PRIORITY),
         (0x30, d_id OF_BSN_TLV_PARTNER_SYSTEM_MAC),
         (0x31, d_id OF_BSN_TLV_PARTNER_PORT_PRIORITY),
         (0x32, d_id OF_BSN_TLV_PARTNER_PORT_NUM),
         (0x33, d_id OF_BSN_TLV_PARTNER_KEY),
         (0x34, d_id OF_BSN_TLV_NAME),
         (0x35, d_id OF_BSN_TLV_ACTOR_STATE),
         (0x36, d_id OF_BSN_TLV_PARTNER_STATE),
         (0x37, d_id OF_BSN_TLV_DATA),
         (0x38, d_id OF_BSN_TLV_MAC_MASK),
         (0x39, d_id OF_BSN_TLV_PRIORITY),
         (0x3a, d_id OF_BSN_TLV_INTERVAL),
         (0x3b, d_id OF_BSN_TLV_REFERENCE),
         (0x3c, d_id OF_BSN_TLV_IPV4_NETMASK),
         (0x3d, d_id OF_BSN_TLV_MPLS_LABEL),
         (0x3e, d_id OF_BSN_TLV_MPLS_CONTROL_WORD),
         (0x3f, d_id OF_BSN_TLV_MPLS_SEQUENCED),
         (0x40, d_id OF_BSN_TLV_BUCKET),
         (0x41, d_id OF_BSN_TLV_TCP_SRC),
         (0x42, d_id OF_BSN_TLV_TCP_DST),
         (0x43, d_id OF_BSN_TLV_IP_PROTO),
         (0x44, d_id OF_BSN_TLV_ICMP_TYPE),
         (0x45, d_id OF_BSN_TLV_ICMP_CODE),
         (0x46, d_id OF_BSN_TLV_ICMP_ID),
         (0x47, d_id OF_BSN_TLV_RX_BYTES),
         (0x48, d_id OF_BSN_TLV_VLAN_PCP),
         (0x49, d_id OF_BSN_TLV_STRIP_VLAN_ON_EGRESS),
         (0x4a, d_id OF_BSN_TLV_SET_LOOPBACK_MODE),
         (0x4b, d_id OF_BSN_TLV_STRIP_MPLS_L2_ON_INGRESS),
         (0x4c, d_id OF_BSN_TLV_STRIP_MPLS_L3_ON_INGRESS)]
        OF_BSN_TLV
      else if version = 5 then
       d_switch16 0
        [(0, d_id OF_BSN_TLV_PORT),
         (1, d_id OF_BSN_TLV_MAC),
         (2, d_id OF_BSN_TLV_RX_PACKETS),
         (3, d_id OF_BSN_TLV_TX_PACKETS),
         (4, d_id OF_BSN_TLV_IPV4),
         (5, d_id OF_BSN_TLV_IDLE_TIME),
         (6, d_id OF_BSN_TLV_VLAN_VID),
         (7, d_id OF_BSN_TLV_IDLE_NOTIFICATION),
         (8, d_id OF_BSN_TLV_IDLE_TIMEOUT),
         (9, d_id OF_BSN_TLV_UNICAST_QUERY_TIMEOUT),
         (0xa, d_id OF_BSN_TLV_BROADCAST_QUERY_TIMEOUT),
         (0xb, d_id OF_BSN_TLV_REQUEST_PACKETS),
         (0xc, d_id OF_BSN_TLV_REPLY_PACKETS),
         (0xd, d_id OF_BSN_TLV_MISS_PACKETS),
         (0xe, d_id OF_BSN_TLV_CIRCUIT_ID),
         (0xf, d_id OF_BSN_TLV_UDF_ID),
         (0x10, d_id OF_BSN_TLV_UDF_ANCHOR),
         (0x11, d_id OF_BSN_TLV_UDF_OFFSET),
         (0x12, d_id OF_BSN_TLV_UDF_LENGTH),
         (0x13, d_id OF_BSN_TLV_VRF),
         (0x14, d_id OF_BSN_TLV_QUEUE_ID),
         (0x15, d_id OF_BSN_TLV_QUEUE_WEIGHT),
         (0x16, d_id OF_BSN_TLV_CRC_ENABLED),
         (0x17, d_id OF_BSN_TLV_EXTERNAL_IP),
         (0x18, d_id OF_BSN_TLV_EXTERNAL_MAC),
         (0x19, d_id OF_BSN_TLV_EXTERNAL_NETMASK),
         (0x1a, d_id OF_BSN_TLV_EXTERNAL_GATEWAY_IP),
         (0x1b, d_id OF_BSN_TLV_INTERNAL_MAC),
         (0x1c, d_id OF_BSN_TLV_INTERNAL_GATEWAY_MAC),
         (0x1d, d_id OF_BSN_TLV_EXTERNAL_GATEWAY_MAC),
         (0x1e, d_id OF_BSN_TLV_SAMPLING_RATE),
         (0x1f, d_id OF_BSN_TLV_HEADER_SIZE),
         (0x20, d_id OF_BSN_TLV_ETH_SRC),
         (0x21, d_id OF_BSN_TLV_ETH_DST),
         (0x22, d_id OF_BSN_TLV_IPV4_SRC),
         (0x23, d_id OF_BSN_TLV_IPV4_DST),
         (0x24, d_id OF_BSN_TLV_UDP_SRC),
         (0x25, d_id OF_BSN_TLV_UDP_DST),
         (0x26, d_id OF_BSN_TLV_SUB_AGENT_ID),
         (0x27, d_id OF_BSN_TLV_TX_BYTES),
         (0x28, d_id OF_BSN_TLV_ACTOR_SYSTEM_PRIORITY),
         (0x29, d_id OF_BSN_TLV_ACTOR_SYSTEM_MAC),
         (0x2a, d_id OF_BSN_TLV_ACTOR_PORT_PRIORITY),
         (0x2b, d_id OF_BSN_TLV_ACTOR_PORT_NUM),
         (0x2c, d_id OF_BSN_TLV_ACTOR_KEY),
         (0x2d, d_id OF_BSN_TLV_CONVERGENCE_STATUS),
         (0x2f, d_id OF_BSN_TLV_PARTNER_SYSTEM_PRIORITY),
         (0x30, d_id OF_BSN_TLV_PARTNER_SYSTEM_MAC),
         (0x31, d_id OF_BSN_TLV_PARTNER_PORT_PRIORITY),
         (0x32, d_id OF_BSN_TLV_PARTNER_PORT_NUM),
         (0x33, d_id OF_BSN_TLV_PARTNER_KEY),
         (0x34, d_id OF_BSN_TLV_NAME),
         (0x35, d_id OF_BSN_TLV_ACTOR_STATE),
         (0x36, d_id OF_BSN_TLV_PARTNER_STATE),
         (0x37, d_id OF_BSN_TLV_DATA),
         (0x38, d_id OF_BSN_TLV_MAC_MASK),
         (0x39, d_id OF_BSN_TLV_PRIORITY),
         (0x3a, d_id OF_BSN_TLV_INTERVAL),
         (0x3b, d_id OF_BSN_TLV_REFERENCE),
         (0x3c, d_id OF_BSN_TLV_IPV4_NETMASK),
         (0x3d, d_id OF_BSN_TLV_MPLS_LABEL),
         (0x3e, d_id OF_BSN_TLV_MPLS_CONTROL_WORD),
         (0x3f, d_id OF_BSN_TLV_MPLS_SEQUENCED),
         (0x40, d_id OF_BSN_TLV_BUCKET),
         (0x41, d_id OF_BSN_TLV_TCP_SRC),
         (0x42, d_id OF_BSN_TLV_TCP_DST),
         (0x43, d_id OF_BSN_TLV_IP_PROTO),
         (0x44, d_id OF_BSN_TLV_ICMP_TYPE),
         (0x45, d_id OF_BSN_TLV_ICMP_CODE),
         (0x46, d_id OF_BSN_TLV_ICMP_ID),
         (0x47, d_id OF_BSN_TLV_RX_BYTES),
         (0x48, d_id OF_BSN_TLV_VLAN_PCP),
         (0x49, d_id OF_BSN_TLV_STRIP_VLAN_ON_EGRESS),
         (0x4a, d_id OF_BSN_TLV_SET_LOOPBACK_MODE),
         (0x4b, d_id OF_BSN_TLV_STRIP_MPLS_L2_ON_INGRESS),
         (0x4c, d_id OF_BSN_TLV_STRIP_MPLS_L3_ON_INGRESS)]
        OF_BSN_TLV
      else d_assert)"

definition of_bsn_vport_wire_object_id_get :: "int \<Rightarrow> getter" where
  "of_bsn_vport_wire_object_id_get version =
     (if version = 1 then
       d_switch16 0
        [(0, d_id OF_BSN_VPORT_Q_IN_Q),
         (1, d_id OF_BSN_VPORT_L2GRE)]
        OF_BSN_VPORT
      else if version = 2 then
       d_switch16 0
        [(0, d_id OF_BSN_VPORT_Q_IN_Q),
         (1, d_id OF_BSN_VPORT_L2GRE)]
        OF_BSN_VPORT
      else if version = 3 then
       d_switch16 0
        [(0, d_id OF_BSN_VPORT_Q_IN_Q),
         (1, d_id OF_BSN_VPORT_L2GRE)]
        OF_BSN_VPORT
      else if version = 4 then
       d_switch16 0
        [(0, d_id OF_BSN_VPORT_Q_IN_Q),
         (1, d_id OF_BSN_VPORT_L2GRE)]
        OF_BSN_VPORT
      else if version = 5 then
       d_switch16 0
        [(0, d_id OF_BSN_VPORT_Q_IN_Q),
         (1, d_id OF_BSN_VPORT_L2GRE)]
        OF_BSN_VPORT
      else d_assert)"

definition of_bundle_prop_experimenter_wire_object_id_get :: "int \<Rightarrow> getter" where
  "of_bundle_prop_experimenter_wire_object_id_get version =
     (if version = 5 then
       d_switch32 4
        []
        OF_BUNDLE_PROP_EXPERIMENTER
      else d_assert)"

definition of_bundle_prop_wire_object_id_get :: "int \<Rightarrow> getter" where
  "of_bundle_prop_wire_object_id_get version =
     (if version = 5 then
       d_switch16 0
        [(0xffff, of_bundle_prop_experimenter_wire_object_id_get version)]
        OF_BUNDLE_PROP
      else d_assert)"

definition of_hello_elem_wire_object_id_get :: "int \<Rightarrow> getter" where
  "of_hello_elem_wire_object_id_get version =
     (if version = 4 then
       d_switch16 0
        [(1, d_id OF_HELLO_ELEM_VERSIONBITMAP)]
        OF_HELLO_ELEM
      else if version = 5 then
       d_switch16 0
        [(1, d_id OF_HELLO_ELEM_VERSIONBITMAP)]
        OF_HELLO_ELEM
      else d_assert)"

definition of_instruction_bsn_wire_object_id_get :: "int \<Rightarrow> getter" where
  "of_instruction_bsn_wire_object_id_get version =
     (if version = 4 then
       d_switch32 8
        [(0, d_id OF_INSTRUCTION_BSN_DISABLE_SRC_MAC_CHECK),
         (1, d_id OF_INSTRUCTION_BSN_ARP_OFFLOAD),
         (2, d_id OF_INSTRUCTION_BSN_DHCP_OFFLOAD),
         (3, d_id OF_INSTRUCTION_BSN_DISABLE_SPLIT_HORIZON_CHECK),
         (4, d_id OF_INSTRUCTION_BSN_PERMIT),
         (5, d_id OF_INSTRUCTION_BSN_DENY),
         (6, d_id OF_INSTRUCTION_BSN_PACKET_OF_DEATH),
         (7, d_id OF_INSTRUCTION_BSN_PRIORITIZE_PDUS),
         (8, d_id OF_INSTRUCTION_BSN_REQUIRE_VLAN_XLATE),
         (9, d_id OF_INSTRUCTION_BSN_DISABLE_VLAN_COUNTERS),
         (0xa, d_id OF_INSTRUCTION_BSN_SPAN_DESTINATION),
         (0xb, d_id OF_INSTRUCTION_BSN_AUTO_NEGOTIATION),
         (0xc, d_id OF_INSTRUCTION_BSN_INTERNAL_PRIORITY),
         (0xd, d_id OF_INSTRUCTION_BSN_DISABLE_L3)]
        OF_INSTRUCTION_BSN
      else if version = 5 then
       d_switch32 8
        [(0, d_id OF_INSTRUCTION_BSN_DISABLE_SRC_MAC_CHECK),
         (1, d_id OF_INSTRUCTION_BSN_ARP_OFFLOAD),
         (2, d_id OF_INSTRUCTION_BSN_DHCP_OFFLOAD),
         (4, d_id OF_INSTRUCTION_BSN_PERMIT),
         (5, d_id OF_INSTRUCTION_BSN_DENY),
         (6, d_id OF_INSTRUCTION_BSN_PACKET_OF_DEATH),
         (7, d_id OF_INSTRUCTION_BSN_PRIORITIZE_PDUS),
         (8, d_id OF_INSTRUCTION_BSN_REQUIRE_VLAN_XLATE),
         (9, d_id OF_INSTRUCTION_BSN_DISABLE_VLAN_COUNTERS),
         (0xa, d_id OF_INSTRUCTION_BSN_SPAN_DESTINATION),
         (0xb, d_id OF_INSTRUCTION_BSN_AUTO_NEGOTIATION),
         (0xc, d_id OF_INSTRUCTION_BSN_INTERNAL_PRIORITY),
         (0xd, d_id OF_INSTRUCTION_BSN_DISABLE_L3)]
        OF_INSTRUCTION_BSN
      else d_assert)"

definition of_instruction_experimenter_wire_object_id_get :: "int \<Rightarrow> getter" where
  "of_instruction_experimenter_wire_object_id_get version =
     (if version = 2 then
       d_switch32 4
        []
        OF_INSTRUCTION_EXPERIMENTER
      else if version = 3 then
       d_switch32 4
        []
        OF_INSTRUCTION_EXPERIMENTER
      else if version = 4 then
       d_switch32 4
        [(0x5c16c7, of_instruction_bsn_wire_object_id_get version)]
        OF_INSTRUCTION_EXPERIMENTER
      else if version = 5 then
       d_switch32 4
        [(0x5c16c7, of_instruction_bsn_wire_object_id_get version)]
        OF_INSTRUCTION_EXPERIMENTER
      else d_assert)"

definition of_instruction_id_bsn_wire_object_id_get :: "int \<Rightarrow> getter" where
  "of_instruction_id_bsn_wire_object_id_get version =
     (if version = 4 then
       d_switch32 8
        [(0, d_id OF_INSTRUCTION_ID_BSN_DISABLE_SRC_MAC_CHECK),
         (1, d_id OF_INSTRUCTION_ID_BSN_ARP_OFFLOAD),
         (2, d_id OF_INSTRUCTION_ID_BSN_DHCP_OFFLOAD),
         (3, d_id OF_INSTRUCTION_ID_BSN_DISABLE_SPLIT_HORIZON_CHECK),
         (4, d_id OF_INSTRUCTION_ID_BSN_PERMIT),
         (5, d_id OF_INSTRUCTION_ID_BSN_DENY),
         (6, d_id OF_INSTRUCTION_ID_BSN_PACKET_OF_DEATH),
         (7, d_id OF_INSTRUCTION_ID_BSN_PRIORITIZE_PDUS),
         (8, d_id OF_INSTRUCTION_ID_BSN_REQUIRE_VLAN_XLATE),
         (9, d_id OF_INSTRUCTION_ID_BSN_DISABLE_VLAN_COUNTERS),
         (0xa, d_id OF_INSTRUCTION_ID_BSN_SPAN_DESTINATION),
         (0xb, d_id OF_INSTRUCTION_ID_BSN_AUTO_NEGOTIATION),
         (0xc, d_id OF_INSTRUCTION_ID_BSN_INTERNAL_PRIORITY),
         (0xd, d_id OF_INSTRUCTION_ID_BSN_DISABLE_L3)]
        OF_INSTRUCTION_ID_BSN
      else if version = 5 then
       d_switch32 8
        [(0, d_id OF_INSTRUCTION_ID_BSN_DISABLE_SRC_MAC_CHECK),
         (1, d_id OF_INSTRUCTION_ID_BSN_ARP_OFFLOAD),
         (2, d_id OF_INSTRUCTION_ID_BSN_DHCP_OFFLOAD),
         (4, d_id OF_INSTRUCTION_ID_BSN_PERMIT),
         (5, d_id OF_INSTRUCTION_ID_BSN_DENY),
         (6, d_id OF_INSTRUCTION_ID_BSN_PACKET_OF_DEATH),
         (7, d_id OF_INSTRUCTION_ID_BSN_PRIORITIZE_PDUS),
         (8, d_id OF_INSTRUCTION_ID_BSN_REQUIRE_VLAN_XLATE),
         (9, d_id OF_INSTRUCTION_ID_BSN_DISABLE_VLAN_COUNTERS),
         (0xa, d_id OF_INSTRUCTION_ID_BSN_SPAN_DESTINATION),
         (0xb, d_id OF_INSTRUCTION_ID_BSN_AUTO_NEGOTIATION),
         (0xc, d_id OF_INSTRUCTION_ID_BSN_INTERNAL_PRIORITY),
         (0xd, d_id OF_INSTRUCTION_ID_BSN_DISABLE_L3)]
        OF_INSTRUCTION_ID_BSN
      else d_assert)"

definition of_instruction_id_experimenter_wire_object_id_get :: "int \<Rightarrow> getter" where
  "of_instruction_id_experimenter_wire_object_id_get version =
     (if version = 4 then
       d_switch32 4
        [(0x5c16c7, of_instruction_id_bsn_wire_object_id_get version)]
        OF_INSTRUCTION_ID_EXPERIMENTER
      else if version = 5 then
       d_switch32 4
        [(0x5c16c7, of_instruction_id_bsn_wire_object_id_get version)]
        OF_INSTRUCTION_ID_EXPERIMENTER
      else d_assert)"

definition of_instruction_id_wire_object_id_get :: "int \<Rightarrow> getter" where
  "of_instruction_id_wire_object_id_get version =
     (if version = 4 then
       d_switch16 0
        [(1, d_id OF_INSTRUCTION_ID_GOTO_TABLE),
         (2, d_id OF_INSTRUCTION_ID_WRITE_METADATA),
         (3, d_id OF_INSTRUCTION_ID_WRITE_ACTIONS),
         (4, d_id OF_INSTRUCTION_ID_APPLY_ACTIONS),
         (5, d_id OF_INSTRUCTION_ID_CLEAR_ACTIONS),
         (6, d_id OF_INSTRUCTION_ID_METER),
         (0xffff, of_instruction_id_experimenter_wire_object_id_get version)]
        OF_INSTRUCTION_ID
      else if version = 5 then
       d_switch16 0
        [(1, d_id OF_INSTRUCTION_ID_GOTO_TABLE),
         (2, d_id OF_INSTRUCTION_ID_WRITE_METADATA),
         (3, d_id OF_INSTRUCTION_ID_WRITE_ACTIONS),
         (4, d_id OF_INSTRUCTION_ID_APPLY_ACTIONS),
         (5, d_id OF_INSTRUCTION_ID_CLEAR_ACTIONS),
         (6, d_id OF_INSTRUCTION_ID_METER),
         (0xffff, of_instruction_id_experimenter_wire_object_id_get version)]
        OF_INSTRUCTION_ID
      else d_assert)"

definition of_instruction_wire_object_id_get :: "int \<Rightarrow> getter" where
  "of_instruction_wire_object_id_get version =
     (if version = 2 then
       d_switch16 0
        [(1, d_id OF_INSTRUCTION_GOTO_TABLE),
         (2, d_id OF_INSTRUCTION_WRITE_METADATA),
         (3, d_id OF_INSTRUCTION_WRITE_ACTIONS),
         (4, d_id OF_INSTRUCTION_APPLY_ACTIONS),
         (5, d_id OF_INSTRUCTION_CLEAR_ACTIONS),
         (0xffff, of_instruction_experimenter_wire_object_id_get version)]
        OF_INSTRUCTION
      else if version = 3 then
       d_switch16 0
        [(1, d_id OF_INSTRUCTION_GOTO_TABLE),
         (2, d_id OF_INSTRUCTION_WRITE_METADATA),
         (3, d_id OF_INSTRUCTION_WRITE_ACTIONS),
         (4, d_id OF_INSTRUCTION_APPLY_ACTIONS),
         (5, d_id OF_INSTRUCTION_CLEAR_ACTIONS),
         (0xffff, of_instruction_experimenter_wire_object_id_get version)]
        OF_INSTRUCTION
      else if version = 4 then
       d_switch16 0
        [(1, d_id OF_INSTRUCTION_GOTO_TABLE),
         (2, d_id OF_INSTRUCTION_WRITE_METADATA),
         (3, d_id OF_INSTRUCTION_WRITE_ACTIONS),
         (4, d_id OF_INSTRUCTION_APPLY_ACTIONS),
         (5, d_id OF_INSTRUCTION_CLEAR_ACTIONS),
         (6, d_id OF_INSTRUCTION_METER),
         (0xffff, of_instruction_experimenter_wire_object_id_get version)]
        OF_INSTRUCTION
      else if version = 5 then
       d_switch16 0
        [(1, d_id OF_INSTRUCTION_GOTO_TABLE),
         (2, d_id OF_INSTRUCTION_WRITE_METADATA),
         (3, d_id OF_INSTRUCTION_WRITE_ACTIONS),
         (4, d_id OF_INSTRUCTION_APPLY_ACTIONS),
         (5, d_id OF_INSTRUCTION_CLEAR_ACTIONS),
         (6, d_id OF_INSTRUCTION_METER),
         (0xffff, of_instruction_experimenter_wire_object_id_get version)]
        OF_INSTRUCTION
      else d_assert)"

definition of_meter_band_wire_object_id_get :: "int \<Rightarrow> getter" where
  "of_meter_band_wire_object_id_get version =
     (if version = 4 then
       d_switch16 0
        [(1, d_id OF_METER_BAND_DROP),
         (2, d_id OF_METER_BAND_DSCP_REMARK),
         (0xffff, d_id OF_METER_BAND_EXPERIMENTER)]
        OF_METER_BAND
      else if version = 5 then
       d_switch16 0
        [(1, d_id OF_METER_BAND_DROP),
         (2, d_id OF_METER_BAND_DSCP_REMARK),
         (0xffff, d_id OF_METER_BAND_EXPERIMENTER)]
        OF_METER_BAND
      else d_assert)"

definition of_oxm_wire_object_id_get :: "int \<Rightarrow> getter" where
  "of_oxm_wire_object_id_get version =
     (if version = 3 then
       d_switch32 0
        [(0x13e04, d_id OF_OXM_TUNNEL_IPV4_SRC),
         (0x13f08, d_id OF_OXM_TUNNEL_IPV4_SRC_MASKED),
         (0x14004, d_id OF_OXM_TUNNEL_IPV4_DST),
         (0x14108, d_id OF_OXM_TUNNEL_IPV4_DST_MASKED),
         (0x30010, d_id OF_OXM_BSN_IN_PORTS_128),
         (0x30120, d_id OF_OXM_BSN_IN_PORTS_128_MASKED),
         (0x30204, d_id OF_OXM_BSN_LAG_ID),
         (0x30308, d_id OF_OXM_BSN_LAG_ID_MASKED),
         (0x30404, d_id OF_OXM_BSN_VRF),
         (0x30508, d_id OF_OXM_BSN_VRF_MASKED),
         (0x30601, d_id OF_OXM_BSN_GLOBAL_VRF_ALLOWED),
         (0x30702, d_id OF_OXM_BSN_GLOBAL_VRF_ALLOWED_MASKED),
         (0x30804, d_id OF_OXM_BSN_L3_INTERFACE_CLASS_ID),
         (0x30908, d_id OF_OXM_BSN_L3_INTERFACE_CLASS_ID_MASKED),
         (0x30a04, d_id OF_OXM_BSN_L3_SRC_CLASS_ID),
         (0x30b08, d_id OF_OXM_BSN_L3_SRC_CLASS_ID_MASKED),
         (0x30c04, d_id OF_OXM_BSN_L3_DST_CLASS_ID),
         (0x30d08, d_id OF_OXM_BSN_L3_DST_CLASS_ID_MASKED),
         (0x30e04, d_id OF_OXM_BSN_EGR_PORT_GROUP_ID),
         (0x30f08, d_id OF_OXM_BSN_EGR_PORT_GROUP_ID_MASKED),
         (0x31004, d_id OF_OXM_BSN_UDF0),
         (0x31108, d_id OF_OXM_BSN_UDF0_MASKED),
         (0x31204, d_id OF_OXM_BSN_UDF1),
         (0x31308, d_id OF_OXM_BSN_UDF1_MASKED),
         (0x31404, d_id OF_OXM_BSN_UDF2),
         (0x31508, d_id OF_OXM_BSN_UDF2_MASKED),
         (0x31604, d_id OF_OXM_BSN_UDF3),
         (0x31708, d_id OF_OXM_BSN_UDF3_MASKED),
         (0x31804, d_id OF_OXM_BSN_UDF4),
         (0x31908, d_id OF_OXM_BSN_UDF4_MASKED),
         (0x31a04, d_id OF_OXM_BSN_UDF5),
         (0x31b08, d_id OF_OXM_BSN_UDF5_MASKED),
         (0x31c04, d_id OF_OXM_BSN_UDF6),
         (0x31d08, d_id OF_OXM_BSN_UDF6_MASKED),
         (0x31e04, d_id OF_OXM_BSN_UDF7),
         (0x31f08, d_id OF_OXM_BSN_UDF7_MASKED),
         (0x32002, d_id OF_OXM_BSN_TCP_FLAGS),
         (0x32104, d_id OF_OXM_BSN_TCP_FLAGS_MASKED),
         (0x32204, d_id OF_OXM_BSN_VLAN_XLATE_PORT_GROUP_ID),
         (0x32308, d_id OF_OXM_BSN_VLAN_XLATE_PORT_GROUP_ID_MASKED),
         (0x32401, d_id OF_OXM_BSN_L2_CACHE_HIT),
         (0x32502, d_id OF_OXM_BSN_L2_CACHE_HIT_MASKED),
         (0x32640, d_id OF_OXM_BSN_IN_PORTS_512),
         (0x32780, d_id OF_OXM_BSN_IN_PORTS_512_MASKED),
         (0x32804, d_id OF_OXM_BSN_INGRESS_PORT_GROUP_ID),
         (0x32908, d_id OF_OXM_BSN_INGRESS_PORT_GROUP_ID_MASKED),
         (0x80000004, d_id OF_OXM_IN_PORT),
         (0x80000108, d_id OF_OXM_IN_PORT_MASKED),
         (0x80000204, d_id OF_OXM_IN_PHY_PORT),
         (0x80000308, d_id OF_OXM_IN_PHY_PORT_MASKED),
         (0x80000408, d_id OF_OXM_METADATA),
         (0x80000510, d_id OF_OXM_METADATA_MASKED),
         (0x80000606, d_id OF_OXM_ETH_DST),
         (0x8000070c, d_id OF_OXM_ETH_DST_MASKED),
         (0x80000806, d_id OF_OXM_ETH_SRC),
         (0x8000090c, d_id OF_OXM_ETH_SRC_MASKED),
         (0x80000a02, d_id OF_OXM_ETH_TYPE),
         (0x80000b04, d_id OF_OXM_ETH_TYPE_MASKED),
         (0x80000c02, d_id OF_OXM_VLAN_VID),
         (0x80000d04, d_id OF_OXM_VLAN_VID_MASKED),
         (0x80000e01, d_id OF_OXM_VLAN_PCP),
         (0x80000f02, d_id OF_OXM_VLAN_PCP_MASKED),
         (0x80001001, d_id OF_OXM_IP_DSCP),
         (0x80001102, d_id OF_OXM_IP_DSCP_MASKED),
         (0x80001201, d_id OF_OXM_IP_ECN),
         (0x80001302, d_id OF_OXM_IP_ECN_MASKED),
         (0x80001401, d_id OF_OXM_IP_PROTO),
         (0x80001502, d_id OF_OXM_IP_PROTO_MASKED),
         (0x80001604, d_id OF_OXM_IPV4_SRC),
         (0x80001708, d_id OF_OXM_IPV4_SRC_MASKED),
         (0x80001804, d_id OF_OXM_IPV4_DST),
         (0x80001908, d_id OF_OXM_IPV4_DST_MASKED),
         (0x80001a02, d_id OF_OXM_TCP_SRC),
         (0x80001b04, d_id OF_OXM_TCP_SRC_MASKED),
         (0x80001c02, d_id OF_OXM_TCP_DST),
         (0x80001d04, d_id OF_OXM_TCP_DST_MASKED),
         (0x80001e02, d_id OF_OXM_UDP_SRC),
         (0x80001f04, d_id OF_OXM_UDP_SRC_MASKED),
         (0x80002002, d_id OF_OXM_UDP_DST),
         (0x80002104, d_id OF_OXM_UDP_DST_MASKED),
         (0x80002202, d_id OF_OXM_SCTP_SRC),
         (0x80002304, d_id OF_OXM_SCTP_SRC_MASKED),
         (0x80002402, d_id OF_OXM_SCTP_DST),
         (0x80002504, d_id OF_OXM_SCTP_DST_MASKED),
         (0x80002601, d_id OF_OXM_ICMPV4_TYPE),
         (0x80002702, d_id OF_OXM_ICMPV4_TYPE_MASKED),
         (0x80002801, d_id OF_OXM_ICMPV4_CODE),
         (0x80002902, d_id OF_OXM_ICMPV4_CODE_MASKED),
         (0x80002a02, d_id OF_OXM_ARP_OP),
         (0x80002b04, d_id OF_OXM_ARP_OP_MASKED),
         (0x80002c04, d_id OF_OXM_ARP_SPA),
         (0x80002d08, d_id OF_OXM_ARP_SPA_MASKED),
         (0x80002e04, d_id OF_OXM_ARP_TPA),
         (0x80002f08, d_id OF_OXM_ARP_TPA_MASKED),
         (0x80003006, d_id OF_OXM_ARP_SHA),
         (0x8000310c, d_id OF_OXM_ARP_SHA_MASKED),
         (0x80003206, d_id OF_OXM_ARP_THA),
         (0x8000330c, d_id OF_OXM_ARP_THA_MASKED),
         (0x80003410, d_id OF_OXM_IPV6_SRC),
         (0x80003520, d_id OF_OXM_IPV6_SRC_MASKED),
         (0x80003610, d_id OF_OXM_IPV6_DST),
         (0x80003720, d_id OF_OXM_IPV6_DST_MASKED),
         (0x80003804, d_id OF_OXM_IPV6_FLABEL),
         (0x80003908, d_id OF_OXM_IPV6_FLABEL_MASKED),
         (0x80003a01, d_id OF_OXM_ICMPV6_TYPE),
         (0x80003b02, d_id OF_OXM_ICMPV6_TYPE_MASKED),
         (0x80003c01, d_id OF_OXM_ICMPV6_CODE),
         (0x80003d02, d_id OF_OXM_ICMPV6_CODE_MASKED),
         (0x80003e10, d_id OF_OXM_IPV6_ND_TARGET),
         (0x80003f20, d_id OF_OXM_IPV6_ND_TARGET_MASKED),
         (0x80004006, d_id OF_OXM_IPV6_ND_SLL),
         (0x8000410c, d_id OF_OXM_IPV6_ND_SLL_MASKED),
         (0x80004206, d_id OF_OXM_IPV6_ND_TLL),
         (0x8000430c, d_id OF_OXM_IPV6_ND_TLL_MASKED),
         (0x80004404, d_id OF_OXM_MPLS_LABEL),
         (0x80004508, d_id OF_OXM_MPLS_LABEL_MASKED),
         (0x80004601, d_id OF_OXM_MPLS_TC),
         (0x80004702, d_id OF_OXM_MPLS_TC_MASKED)]
        OF_OXM
      else if version = 4 then
       d_switch32 0
        [(0x13e04, d_id OF_OXM_TUNNEL_IPV4_SRC),
         (0x13f08, d_id OF_OXM_TUNNEL_IPV4_SRC_MASKED),
         (0x14004, d_id OF_OXM_TUNNEL_IPV4_DST),
         (0x14108, d_id OF_OXM_TUNNEL_IPV4_DST_MASKED),
         (0x30010, d_id OF_OXM_BSN_IN_PORTS_128),
         (0x30120, d_id OF_OXM_BSN_IN_PORTS_128_MASKED),
         (0x30204, d_id OF_OXM_BSN_LAG_ID),
         (0x30308, d_id OF_OXM_BSN_LAG_ID_MASKED),
         (0x30404, d_id OF_OXM_BSN_VRF),
         (0x30508, d_id OF_OXM_BSN_VRF_MASKED),
         (0x30601, d_id OF_OXM_BSN_GLOBAL_VRF_ALLOWED),
         (0x30702, d_id OF_OXM_BSN_GLOBAL_VRF_ALLOWED_MASKED),
         (0x30804, d_id OF_OXM_BSN_L3_INTERFACE_CLASS_ID),
         (0x30908, d_id OF_OXM_BSN_L3_INTERFACE_CLASS_ID_MASKED),
         (0x30a04, d_id OF_OXM_BSN_L3_SRC_CLASS_ID),
         (0x30b08, d_id OF_OXM_BSN_L3_SRC_CLASS_ID_MASKED),
         (0x30c04, d_id OF_OXM_BSN_L3_DST_CLASS_ID),
         (0x30d08, d_id OF_OXM_BSN_L3_DST_CLASS_ID_MASKED),
         (0x30e04, d_id OF_OXM_BSN_EGR_PORT_GROUP_ID),
         (0x30f08, d_id OF_OXM_BSN_EGR_PORT_GROUP_ID_MASKED),
         (0x31004, d_id OF_OXM_BSN_UDF0),
         (0x31108, d_id OF_OXM_BSN_UDF0_MASKED),
         (0x31204, d_id OF_OXM_BSN_UDF1),
         (0x31308, d_id OF_OXM_BSN_UDF1_MASKED),
         (0x31404, d_id OF_OXM_BSN_UDF2),
         (0x31508, d_id OF_OXM_BSN_UDF2_MASKED),
         (0x31604, d_id OF_OXM_BSN_UDF3),
         (0x31708, d_id OF_OXM_BSN_UDF3_MASKED),
         (0x31804, d_id OF_OXM_BSN_UDF4),
         (0x31908, d_id OF_OXM_BSN_UDF4_MASKED),
         (0x31a04, d_id OF_OXM_BSN_UDF5),
         (0x31b08, d_id OF_OXM_BSN_UDF5_MASKED),
         (0x31c04, d_id OF_OXM_BSN_UDF6),
         (0x31d08, d_id OF_OXM_BSN_UDF6_MASKED),
         (0x31e04, d_id OF_OXM_BSN_UDF7),
         (0x31f08, d_id OF_OXM_BSN_UDF7_MASKED),
         (0x32002, d_id OF_OXM_BSN_TCP_FLAGS),
         (0x32104, d_id OF_OXM_BSN_TCP_FLAGS_MASKED),
         (0x32204, d_id OF_OXM_BSN_VLAN_XLATE_PORT_GROUP_ID),
         (0x32308, d_id OF_OXM_BSN_VLAN_XLATE_PORT_GROUP_ID_MASKED),
         (0x32401, d_id OF_OXM_BSN_L2_CACHE_HIT),
         (0x32502, d_id OF_OXM_BSN_L2_CACHE_HIT_MASKED),
         (0x32640, d_id OF_OXM_BSN_IN_PORTS_512),
         (0x32780, d_id OF_OXM_BSN_IN_PORTS_512_MASKED),
         (0x32804, d_id OF_OXM_BSN_INGRESS_PORT_GROUP_ID),
         (0x32908, d_id OF_OXM_BSN_INGRESS_PORT_GROUP_ID_MASKED),
         (0x80000004, d_id OF_OXM_IN_PORT),
         (0x80000108, d_id OF_OXM_IN_PORT_MASKED),
         (0x80000204, d_id OF_OXM_IN_PHY_PORT),
         (0x80000308, d_id OF_OXM_IN_PHY_PORT_MASKED),
         (0x80000408, d_id OF_OXM_METADATA),
         (0x80000510, d_id OF_OXM_METADATA_MASKED),
         (0x80000606, d_id OF_OXM_ETH_DST),
         (0x8000070c, d_id OF_OXM_ETH_DST_MASKED),
         (0x80000806, d_id OF_OXM_ETH_SRC),
         (0x8000090c, d_id OF_OXM_ETH_SRC_MASKED),
         (0x80000a02, d_id OF_OXM_ETH_TYPE),
         (0x80000b04, d_id OF_OXM_ETH_TYPE_MASKED),
         (0x80000c02, d_id OF_OXM_VLAN_VID),
         (0x80000d04, d_id OF_OXM_VLAN_VID_MASKED),
         (0x80000e01, d_id OF_OXM_VLAN_PCP),
         (0x80000f02, d_id OF_OXM_VLAN_PCP_MASKED),
         (0x80001001, d_id OF_OXM_IP_DSCP),
         (0x80001102, d_id OF_OXM_IP_DSCP_MASKED),
         (0x80001201, d_id OF_OXM_IP_ECN),
         (0x80001302, d_id OF_OXM_IP_ECN_MASKED),
         (0x80001401, d_id OF_OXM_IP_PROTO),
         (0x80001502, d_id OF_OXM_IP_PROTO_MASKED),
         (0x80001604, d_id OF_OXM_IPV4_SRC),
         (0x80001708, d_id OF_OXM_IPV4_SRC_MASKED),
         (0x80001804, d_id OF_OXM_IPV4_DST),
         (0x80001908, d_id OF_OXM_IPV4_DST_MASKED),
         (0x80001a02, d_id OF_OXM_TCP_SRC),
         (0x80001b04, d_id OF_OXM_TCP_SRC_MASKED),
         (0x80001c02, d_id OF_OXM_TCP_DST),
         (0x80001d04, d_id OF_OXM_TCP_DST_MASKED),
         (0x80001e02, d_id OF_OXM_UDP_SRC),
         (0x80001f04, d_id OF_OXM_UDP_SRC_MASKED),
         (0x80002002, d_id OF_OXM_UDP_DST),
         (0x80002104, d_id OF_OXM_UDP_DST_MASKED),
         (0x80002202, d_id OF_OXM_SCTP_SRC),
         (0x80002304, d_id OF_OXM_SCTP_SRC_MASKED),
         (0x80002402, d_id OF_OXM_SCTP_DST),
         (0x80002504, d_id OF_OXM_SCTP_DST_MASKED),
         (0x80002601, d_id OF_OXM_ICMPV4_TYPE),
         (0x80002702, d_id OF_OXM_ICMPV4_TYPE_MASKED),
         (0x80002801, d_id OF_OXM_ICMPV4_CODE),
         (0x80002902, d_id OF_OXM_ICMPV4_CODE_MASKED),
         (0x80002a02, d_id OF_OXM_ARP_OP),
         (0x80002b04, d_id OF_OXM_ARP_OP_MASKED),
         (0x80002c04, d_id OF_OXM_ARP_SPA),
         (0x80002d08, d_id OF_OXM_ARP_SPA_MASKED),
         (0x80002e04, d_id OF_OXM_ARP_TPA),
         (0x80002f08, d_id OF_OXM_ARP_TPA_MASKED),
         (0x80003006, d_id OF_OXM_ARP_SHA),
         (0x8000310c, d_id OF_OXM_ARP_SHA_MASKED),
         (0x80003206, d_id OF_OXM_ARP_THA),
         (0x8000330c, d_id OF_OXM_ARP_THA_MASKED),
         (0x80003410, d_id OF_OXM_IPV6_SRC),
         (0x80003520, d_id OF_OXM_IPV6_SRC_MASKED),
         (0x80003610, d_id OF_OXM_IPV6_DST),
         (0x80003720, d_id OF_OXM_IPV6_DST_MASKED),
         (0x80003804, d_id OF_OXM_IPV6_FLABEL),
         (0x80003908, d_id OF_OXM_IPV6_FLABEL_MASKED),
         (0x80003a01, d_id OF_OXM_ICMPV6_TYPE),
         (0x80003b02, d_id OF_OXM_ICMPV6_TYPE_MASKED),
         (0x80003c01, d_id OF_OXM_ICMPV6_CODE),
         (0x80003d02, d_id OF_OXM_ICMPV6_CODE_MASKED),
         (0x80003e10, d_id OF_OXM_IPV6_ND_TARGET),
         (0x80003f20, d_id OF_OXM_IPV6_ND_TARGET_MASKED),
         (0x80004006, d_id OF_OXM_IPV6_ND_SLL),
         (0x8000410c, d_id OF_OXM_IPV6_ND_SLL_MASKED),
         (0x80004206, d_id OF_OXM_IPV6_ND_TLL),
         (0x8000430c, d_id OF_OXM_IPV6_ND_TLL_MASKED),
         (0x80004404, d_id OF_OXM_MPLS_LABEL),
         (0x80004508, d_id OF_OXM_MPLS_LABEL_MASKED),
         (0x80004601, d_id OF_OXM_MPLS_TC),
         (0x80004702, d_id OF_OXM_MPLS_TC_MASKED),
         (0x80004801, d_id OF_OXM_MPLS_BOS),
         (0x80004902, d_id OF_OXM_MPLS_BOS_MASKED),
         (0x80004c08, d_id OF_OXM_TUNNEL_ID),
         (0x80004d10, d_id OF_OXM_TUNNEL_ID_MASKED),
         (0x80004e02, d_id OF_OXM_IPV6_EXTHDR),
         (0x80004f04, d_id OF_OXM_IPV6_EXTHDR_MASKED)]
        OF_OXM
      else if version = 5 then
       d_switch32 0
        [(0x13e04, d_id OF_OXM_TUNNEL_IPV4_SRC),
         (0x13f08, d_id OF_OXM_TUNNEL_IPV4_SRC_MASKED),
         (0x14004, d_id OF_OXM_TUNNEL_IPV4_DST),
         (0x14108, d_id OF_OXM_TUNNEL_IPV4_DST_MASKED),
         (0x30010, d_id OF_OXM_BSN_IN_PORTS_128),
         (0x30120, d_id OF_OXM_BSN_IN_PORTS_128_MASKED),
         (0x30204, d_id OF_OXM_BSN_LAG_ID),
         (0x30308, d_id OF_OXM_BSN_LAG_ID_MASKED),
         (0x30404, d_id OF_OXM_BSN_VRF),
         (0x30508, d_id OF_OXM_BSN_VRF_MASKED),
         (0x30804, d_id OF_OXM_BSN_L3_INTERFACE_CLASS_ID),
         (0x30908, d_id OF_OXM_BSN_L3_INTERFACE_CLASS_ID_MASKED),
         (0x30a04, d_id OF_OXM_BSN_L3_SRC_CLASS_ID),
         (0x30b08, d_id OF_OXM_BSN_L3_SRC_CLASS_ID_MASKED),
         (0x30e04, d_id OF_OXM_BSN_EGR_PORT_GROUP_ID),
         (0x30f08, d_id OF_OXM_BSN_EGR_PORT_GROUP_ID_MASKED),
         (0x31004, d_id OF_OXM_BSN_UDF0),
         (0x31108, d_id OF_OXM_BSN_UDF0_MASKED),
         (0x31204, d_id OF_OXM_BSN_UDF1),
         (0x31308, d_id OF_OXM_BSN_UDF1_MASKED),
         (0x31404, d_id OF_OXM_BSN_UDF2),
         (0x31508, d_id OF_OXM_BSN_UDF2_MASKED),
         (0x31604, d_id OF_OXM_BSN_UDF3),
         (0x31708, d_id OF_OXM_BSN_UDF3_MASKED),
         (0x31804, d_id OF_OXM_BSN_UDF4),
         (0x31908, d_id OF_OXM_BSN_UDF4_MASKED),
         (0x31a04, d_id OF_OXM_BSN_UDF5),
         (0x31b08, d_id OF_OXM_BSN_UDF5_MASKED),
         (0x31c04, d_id OF_OXM_BSN_UDF6),
         (0x31d08, d_id OF_OXM_BSN_UDF6_MASKED),
         (0x31e04, d_id OF_OXM_BSN_UDF7),
         (0x31f08, d_id OF_OXM_BSN_UDF7_MASKED),
         (0x32002, d_id OF_OXM_BSN_TCP_FLAGS),
         (0x32104, d_id OF_OXM_BSN_TCP_FLAGS_MASKED),
         (0x32204, d_id OF_OXM_BSN_VLAN_XLATE_PORT_GROUP_ID),
         (0x32308, d_id OF_OXM_BSN_VLAN_XLATE_PORT_GROUP_ID_MASKED),
         (0x32640, d_id OF_OXM_BSN_IN_PORTS_512),
         (0x32780, d_id OF_OXM_BSN_IN_PORTS_512_MASKED),
         (0x32804, d_id OF_OXM_BSN_INGRESS_PORT_GROUP_ID),
         (0x32908, d_id OF_OXM_BSN_INGRESS_PORT_GROUP_ID_MASKED),
         (0x80000004, d_id OF_OXM_IN_PORT),
         (0x80000108, d_id OF_OXM_IN_PORT_MASKED),
         (0x80000204, d_id OF_OXM_IN_PHY_PORT),
         (0x80000308, d_id OF_OXM_IN_PHY_PORT_MASKED),
         (0x80000408, d_id OF_OXM_METADATA),
         (0x80000510, d_id OF_OXM_METADATA_MASKED),
         (0x80000606, d_id OF_OXM_ETH_DST),
         (0x8000070c, d_id OF_OXM_ETH_DST_MASKED),
         (0x80000806, d_id OF_OXM_ETH_SRC),
         (0x8000090c, d_id OF_OXM_ETH_SRC_MASKED),
         (0x80000a02, d_id OF_OXM_ETH_TYPE),
         (0x80000b04, d_id OF_OXM_ETH_TYPE_MASKED),
         (0x80000c02, d_id OF_OXM_VLAN_VID),
         (0x80000d04, d_id OF_OXM_VLAN_VID_MASKED),
         (0x80000e01, d_id OF_OXM_VLAN_PCP),
         (0x80000f02, d_id OF_OXM_VLAN_PCP_MASKED),
         (0x80001001, d_id OF_OXM_IP_DSCP),
         (0x80001102, d_id OF_OXM_IP_DSCP_MASKED),
         (0x80001201, d_id OF_OXM_IP_ECN),
         (0x80001302, d_id OF_OXM_IP_ECN_MASKED),
         (0x80001401, d_id OF_OXM_IP_PROTO),
         (0x80001502, d_id OF_OXM_IP_PROTO_MASKED),
         (0x80001604, d_id OF_OXM_IPV4_SRC),
         (0x80001708, d_id OF_OXM_IPV4_SRC_MASKED),
         (0x80001804, d_id OF_OXM_IPV4_DST),
         (0x80001908, d_id OF_OXM_IPV4_DST_MASKED),
         (0x80001a02, d_id OF_OXM_TCP_SRC),
         (0x80001b04, d_id OF_OXM_TCP_SRC_MASKED),
         (0x80001c02, d_id OF_OXM_TCP_DST),
         (0x80001d04, d_id OF_OXM_TCP_DST_MASKED),
         (0x80001e02, d_id OF_OXM_UDP_SRC),
         (0x80001f04, d_id OF_OXM_UDP_SRC_MASKED),
         (0x80002002, d_id OF_OXM_UDP_DST),
         (0x80002104, d_id OF_OXM_UDP_DST_MASKED),
         (0x80002202, d_id OF_OXM_SCTP_SRC),
         (0x80002304, d_id OF_OXM_SCTP_SRC_MASKED),
         (0x80002402, d_id OF_OXM_SCTP_DST),
         (0x80002504, d_id OF_OXM_SCTP_DST_MASKED),
         (0x80002601, d_id OF_OXM_ICMPV4_TYPE),
         (0x80002702, d_id OF_OXM_ICMPV4_TYPE_MASKED),
         (0x80002801, d_id OF_OXM_ICMPV4_CODE),
         (0x80002902, d_id OF_OXM_ICMPV4_CODE_MASKED),
         (0x80002a02, d_id OF_OXM_ARP_OP),
         (0x80002b04, d_id OF_OXM_ARP_OP_MASKED),
         (0x80002c04, d_id OF_OXM_ARP_SPA),
         (0x80002d08, d_id OF_OXM_ARP_SPA_MASKED),
         (0x80002e04, d_id OF_OXM_ARP_TPA),
         (0x80002f08, d_id OF_OXM_ARP_TPA_MASKED),
         (0x80003006, d_id OF_OXM_ARP_SHA),
         (0x8000310c, d_id OF_OXM_ARP_SHA_MASKED),
         (0x80003206, d_id OF_OXM_ARP_THA),
         (0x8000330c, d_id OF_OXM_ARP_THA_MASKED),
         (0x80003410, d_id OF_OXM_IPV6_SRC),
         (0x80003520, d_id OF_OXM_IPV6_SRC_MASKED),
         (0x80003610, d_id OF_OXM_IPV6_DST),
         (0x80003720, d_id OF_OXM_IPV6_DST_MASKED),
         (0x80003804, d_id OF_OXM_IPV6_FLABEL),
         (0x80003908, d_id OF_OXM_IPV6_FLABEL_MASKED),
         (0x80003a01, d_id OF_OXM_ICMPV6_TYPE),
         (0x80003b02, d_id OF_OXM_ICMPV6_TYPE_MASKED),
         (0x80003c01, d_id OF_OXM_ICMPV6_CODE),
         (0x80003d02, d_id OF_OXM_ICMPV6_CODE_MASKED),
         (0x80003e10, d_id OF_OXM_IPV6_ND_TARGET),
         (0x80003f20, d_id OF_OXM_IPV6_ND_TARGET_MASKED),
         (0x80004006, d_id OF_OXM_IPV6_ND_SLL),
         (0x8000410c, d_id OF_OXM_IPV6_ND_SLL_MASKED),
         (0x80004206, d_id OF_OXM_IPV6_ND_TLL),
         (0x8000430c, d_id OF_OXM_IPV6_ND_TLL_MASKED),
         (0x80004404, d_id OF_OXM_MPLS_LABEL),
         (0x80004508, d_id OF_OXM_MPLS_LABEL_MASKED),
         (0x80004601, d_id OF_OXM_MPLS_TC),
         (0x80004702, d_id OF_OXM_MPLS_TC_MASKED),
         (0x80004801, d_id OF_OXM_MPLS_BOS),
         (0x80004902, d_id OF_OXM_MPLS_BOS_MASKED),
         (0x80004c08, d_id OF_OXM_TUNNEL_ID),
         (0x80004d10, d_id OF_OXM_TUNNEL_ID_MASKED),
         (0x80004e02, d_id OF_OXM_IPV6_EXTHDR),
         (0x80004f04, d_id OF_OXM_IPV6_EXTHDR_MASKED),
         (0x80005201, d_id OF_OXM_PBB_UCA),
         (0x80005302, d_id OF_OXM_PBB_UCA_MASKED)]
        OF_OXM
      else d_assert)"

definition of_port_desc_prop_bsn_wire_object_id_get :: "int \<Rightarrow> getter" where
  "of_port_desc_prop_bsn_wire_object_id_get version =
     (if version = 5 then
       d_switch32 8
        [(0, d_id OF_PORT_DESC_PROP_BSN_UPLINK)]
        OF_PORT_DESC_PROP_BSN
      else d_assert)"

definition of_port_desc_prop_experimenter_wire_object_id_get :: "int \<Rightarrow> getter" where
  "of_port_desc_prop_experimenter_wire_object_id_get version =
     (if version = 5 then
       d_switch32 4
        [(0x5c16c7, of_port_desc_prop_bsn_wire_object_id_get version)]
        OF_PORT_DESC_PROP_EXPERIMENTER
      else d_assert)"

definition of_port_desc_prop_wire_object_id_get :: "int \<Rightarrow> getter" where
  "of_port_desc_prop_wire_object_id_get version =
     (if version = 5 then
       d_switch16 0
        [(0, d_id OF_PORT_DESC_PROP_ETHERNET),
         (1, d_id OF_PORT_DESC_PROP_OPTICAL),
         (0xffff, of_port_desc_prop_experimenter_wire_object_id_get version)]
        OF_PORT_DESC_PROP
      else d_assert)"

definition of_port_mod_prop_experimenter_wire_object_id_get :: "int \<Rightarrow> getter" where
  "of_port_mod_prop_experimenter_wire_object_id_get version =
     (if version = 5 then
       d_switch32 4
        []
        OF_PORT_MOD_PROP_EXPERIMENTER
      else d_assert)"

definition of_port_mod_prop_wire_object_id_get :: "int \<Rightarrow> getter" where
  "of_port_mod_prop_wire_object_id_get version =
     (if version = 5 then
       d_switch16 0
        [(0, d_id OF_PORT_MOD_PROP_ETHERNET),
         (1, d_id OF_PORT_MOD_PROP_OPTICAL),
         (0xffff, of_port_mod_prop_experimenter_wire_object_id_get version)]
        OF_PORT_MOD_PROP
      else d_assert)"

definition of_port_stats_prop_experimenter_wire_object_id_get :: "int \<Rightarrow> getter" where
  "of_port_stats_prop_experimenter_wire_object_id_get version =
     (if version = 5 then
       d_switch32 4
        []
        OF_PORT_STATS_PROP_EXPERIMENTER
      else d_assert)"

definition of_port_stats_prop_wire_object_id_get :: "int \<Rightarrow> getter" where
  "of_port_stats_prop_wire_object_id_get version =
     (if version = 5 then
       d_switch16 0
        [(0, d_id OF_PORT_STATS_PROP_ETHERNET),
         (1, d_id OF_PORT_STATS_PROP_OPTICAL),
         (0xffff, of_port_stats_prop_experimenter_wire_object_id_get version)]
        OF_PORT_STATS_PROP
      else d_assert)"

definition of_queue_desc_prop_experimenter_wire_object_id_get :: "int \<Rightarrow> getter" where
  "of_queue_desc_prop_experimenter_wire_object_id_get version =
     (if version = 5 then
       d_switch32 4
        []
        OF_QUEUE_DESC_PROP_EXPERIMENTER
      else d_assert)"

definition of_queue_desc_prop_wire_object_id_get :: "int \<Rightarrow> getter" where
  "of_queue_desc_prop_wire_object_id_get version =
     (if version = 5 then
       d_switch16 0
        [(1, d_id OF_QUEUE_DESC_PROP_MIN_RATE),
         (2, d_id OF_QUEUE_DESC_PROP_MAX_RATE),
         (0xffff, of_queue_desc_prop_experimenter_wire_object_id_get version)]
        OF_QUEUE_DESC_PROP
      else d_assert)"

definition of_queue_prop_experimenter_wire_object_id_get :: "int \<Rightarrow> getter" where
  "of_queue_prop_experimenter_wire_object_id_get version =
     (if version = 3 then
       d_switch32 8
        []
        OF_QUEUE_PROP_EXPERIMENTER
      else if version = 4 then
       d_switch32 8
        []
        OF_QUEUE_PROP_EXPERIMENTER
      else if version = 5 then
       d_switch32 8
        []
        OF_QUEUE_PROP_EXPERIMENTER
      else d_assert)"

definition of_queue_prop_wire_object_id_get :: "int \<Rightarrow> getter" where
  "of_queue_prop_wire_object_id_get version =
     (if version = 1 then
       d_switch16 0
        [(1, d_id OF_QUEUE_PROP_MIN_RATE)]
        OF_QUEUE_PROP
      else if version = 2 then
       d_switch16 0
        [(1, d_id OF_QUEUE_PROP_MIN_RATE)]
        OF_QUEUE_PROP
      else if version = 3 then
       d_switch16 0
        [(1, d_id OF_QUEUE_PROP_MIN_RATE),
         (2, d_id OF_QUEUE_PROP_MAX_RATE),
         (0xffff, of_queue_prop_experimenter_wire_object_id_get version)]
        OF_QUEUE_PROP
      else if version = 4 then
       d_switch16 0
        [(1, d_id OF_QUEUE_PROP_MIN_RATE),
         (2, d_id OF_QUEUE_PROP_MAX_RATE),
         (0xffff, of_queue_prop_experimenter_wire_object_id_get version)]
        OF_QUEUE_PROP
      else if version = 5 then
       d_switch16 0
        [(1, d_id OF_QUEUE_PROP_MIN_RATE),
         (2, d_id OF_QUEUE_PROP_MAX_RATE),
         (0xffff, of_queue_prop_experimenter_wire_object_id_get version)]
        OF_QUEUE_PROP
      else d_assert)"

definition of_queue_stats_prop_experimenter_wire_object_id_get :: "int \<Rightarrow> getter" where
  "of_queue_stats_prop_experimenter_wire_object_id_get version =
     (if version = 5 then
       d_switch32 4
        []
        OF_QUEUE_STATS_PROP_EXPERIMENTER
      else d_assert)"

definition of_queue_stats_prop_wire_object_id_get :: "int \<Rightarrow> getter" where
  "of_queue_stats_prop_wire_object_id_get version =
     (if version = 5 then
       d_switch16 0
        [(0xffff, of_queue_stats_prop_experimenter_wire_object_id_get version)]
        OF_QUEUE_STATS_PROP
      else d_assert)"

definition of_role_prop_experimenter_wire_object_id_get :: "int \<Rightarrow> getter" where
  "of_role_prop_experimenter_wire_object_id_get version =
     (if version = 5 then
       d_switch32 4
        []
        OF_ROLE_PROP_EXPERIMENTER
      else d_assert)"

definition of_role_prop_wire_object_id_get :: "int \<Rightarrow> getter" where
  "of_role_prop_wire_object_id_get version =
     (if version = 5 then
       d_switch16 0
        [(0xffff, of_role_prop_experimenter_wire_object_id_get version)]
        OF_ROLE_PROP
      else d_assert)"

definition of_table_feature_prop_experimenter_miss_wire_object_id_get :: "int \<Rightarrow> getter" where
  "of_table_feature_prop_experimenter_miss_wire_object_id_get version =
     (if version = 4 then
       d_switch32 4
        []
        OF_TABLE_FEATURE_PROP_EXPERIMENTER_MISS
      else if version = 5 then
       d_switch32 4
        []
        OF_TABLE_FEATURE_PROP_EXPERIMENTER_MISS
      else d_assert)"

definition of_table_feature_prop_experimenter_wire_object_id_get :: "int \<Rightarrow> getter" where
  "of_table_feature_prop_experimenter_wire_object_id_get version =
     (if version = 4 then
       d_switch32 4
        []
        OF_TABLE_FEATURE_PROP_EXPERIMENTER
      else if version = 5 then
       d_switch32 4
        []
        OF_TABLE_FEATURE_PROP_EXPERIMENTER
      else d_assert)"

definition of_table_feature_prop_wire_object_id_get :: "int \<Rightarrow> getter" where
  "of_table_feature_prop_wire_object_id_get version =
     (if version = 4 then
       d_switch16 0
        [(0, d_id OF_TABLE_FEATURE_PROP_INSTRUCTIONS),
         (1, d_id OF_TABLE_FEATURE_PROP_INSTRUCTIONS_MISS),
         (2, d_id OF_TABLE_FEATURE_PROP_NEXT_TABLES),
         (3, d_id OF_TABLE_FEATURE_PROP_NEXT_TABLES_MISS),
         (4, d_id OF_TABLE_FEATURE_PROP_WRITE_ACTIONS),
         (5, d_id OF_TABLE_FEATURE_PROP_WRITE_ACTIONS_MISS),
         (6, d_id OF_TABLE_FEATURE_PROP_APPLY_ACTIONS),
         (7, d_id OF_TABLE_FEATURE_PROP_APPLY_ACTIONS_MISS),
         (8, d_id OF_TABLE_FEATURE_PROP_MATCH),
         (0xa, d_id OF_TABLE_FEATURE_PROP_WILDCARDS),
         (0xc, d_id OF_TABLE_FEATURE_PROP_WRITE_SETFIELD),
         (0xd, d_id OF_TABLE_FEATURE_PROP_WRITE_SETFIELD_MISS),
         (0xe, d_id OF_TABLE_FEATURE_PROP_APPLY_SETFIELD),
         (0xf, d_id OF_TABLE_FEATURE_PROP_APPLY_SETFIELD_MISS),
         (0xfffe, of_table_feature_prop_experimenter_wire_object_id_get version),
         (0xffff, of_table_feature_prop_experimenter_miss_wire_object_id_get version)]
        OF_TABLE_FEATURE_PROP
      else if version = 5 then
       d_switch16 0
        [(0, d_id OF_TABLE_FEATURE_PROP_INSTRUCTIONS),
         (1, d_id OF_TABLE_FEATURE_PROP_INSTRUCTIONS_MISS),
         (2, d_id OF_TABLE_FEATURE_PROP_NEXT_TABLES),
         (3, d_id OF_TABLE_FEATURE_PROP_NEXT_TABLES_MISS),
         (4, d_id OF_TABLE_FEATURE_PROP_WRITE_ACTIONS),
         (5, d_id OF_TABLE_FEATURE_PROP_WRITE_ACTIONS_MISS),
         (6, d_id OF_TABLE_FEATURE_PROP_APPLY_ACTIONS),
         (7, d_id OF_TABLE_FEATURE_PROP_APPLY_ACTIONS_MISS),
         (8, d_id OF_TABLE_FEATURE_PROP_MATCH),
         (0xa, d_id OF_TABLE_FEATURE_PROP_WILDCARDS),
         (0xc, d_id OF_TABLE_FEATURE_PROP_WRITE_SETFIELD),
         (0xd, d_id OF_TABLE_FEATURE_PROP_WRITE_SETFIELD_MISS),
         (0xe, d_id OF_TABLE_FEATURE_PROP_APPLY_SETFIELD),
         (0xf, d_id OF_TABLE_FEATURE_PROP_APPLY_SETFIELD_MISS),
         (0x10, d_id OF_TABLE_FEATURE_PROP_TABLE_SYNC_FROM),
         (0xfffe, of_table_feature_prop_experimenter_wire_object_id_get version),
         (0xffff, of_table_feature_prop_experimenter_miss_wire_object_id_get version)]
        OF_TABLE_FEATURE_PROP
      else d_assert)"

definition of_table_mod_prop_experimenter_wire_object_id_get :: "int \<Rightarrow> getter" where
  "of_table_mod_prop_experimenter_wire_object_id_get version =
     (if version = 5 then
       d_switch32 4
        []
        OF_TABLE_MOD_PROP_EXPERIMENTER
      else d_assert)"

definition of_table_mod_prop_wire_object_id_get :: "int \<Rightarrow> getter" where
  "of_table_mod_prop_wire_object_id_get version =
     (if version = 5 then
       d_switch16 0
        []
        OF_TABLE_MOD_PROP
      else d_assert)"

end
