(* ===== verification/Elements.thy ===== *)
theory Elements
  imports Dispatch ElementIds
begin

text \<open>
  The id getters of list elements on validated elements: as for messages, a getter follows the type fields
  the validator has followed.
\<close>

text \<open>Looking a key up in a long list of cases without simplifying the rest of the list at each step.\<close>

lemma map_of_freeze: "k = k' \<Longrightarrow> map_of xs k = map_of xs k'"
  by simp

lemmas eq_num = numeral_eq_iff num.distinct num.inject one_eq_numeral_iff eq_numeral_simps

subsection \<open>OpenFlow 1.0\<close>

lemma covers_action_bsn_checksum_1_0 [c_proved]: "covered 1 loci_validate_of_action_bsn_checksum_OF_VERSION_1_0 (d_id OF_ACTION_BSN_CHECKSUM)"
  by (simp add: loci_validate_of_action_bsn_checksum_OF_VERSION_1_0_def covered_min_id fits_def of_object_fixed_len_def)

lemma covers_action_bsn_mirror_1_0 [c_proved]: "covered 1 loci_validate_of_action_bsn_mirror_OF_VERSION_1_0 (d_id OF_ACTION_BSN_MIRROR)"
  by (simp add: loci_validate_of_action_bsn_mirror_OF_VERSION_1_0_def covered_min_id fits_def of_object_fixed_len_def)

lemma covers_action_bsn_set_tunnel_dst_1_0 [c_proved]: "covered 1 loci_validate_of_action_bsn_set_tunnel_dst_OF_VERSION_1_0 (d_id OF_ACTION_BSN_SET_TUNNEL_DST)"
  by (simp add: loci_validate_of_action_bsn_set_tunnel_dst_OF_VERSION_1_0_def covered_min_id fits_def of_object_fixed_len_def)

lemma covers_action_enqueue_1_0 [c_proved]: "covered 1 loci_validate_of_action_enqueue_OF_VERSION_1_0 (d_id OF_ACTION_ENQUEUE)"
  by (simp add: loci_validate_of_action_enqueue_OF_VERSION_1_0_def covered_min_id fits_def of_object_fixed_len_def)

lemma covers_action_nicira_dec_ttl_1_0 [c_proved]: "covered 1 loci_validate_of_action_nicira_dec_ttl_OF_VERSION_1_0 (d_id OF_ACTION_NICIRA_DEC_TTL)"
  by (simp add: loci_validate_of_action_nicira_dec_ttl_OF_VERSION_1_0_def covered_min_id fits_def of_object_fixed_len_def)

lemma covers_action_output_1_0 [c_proved]: "covered 1 loci_validate_of_action_output_OF_VERSION_1_0 (d_id OF_ACTION_OUTPUT)"
  by (simp add: loci_validate_of_action_output_OF_VERSION_1_0_def covered_min_id fits_def of_object_fixed_len_def)

lemma covers_action_set_dl_dst_1_0 [c_proved]: "covered 1 loci_validate_of_action_set_dl_dst_OF_VERSION_1_0 (d_id OF_ACTION_SET_DL_DST)"
  by (simp add: loci_validate_of_action_set_dl_dst_OF_VERSION_1_0_def covered_min_id fits_def of_object_fixed_len_def)

lemma covers_action_set_dl_src_1_0 [c_proved]: "covered 1 loci_validate_of_action_set_dl_src_OF_VERSION_1_0 (d_id OF_ACTION_SET_DL_SRC)"
  by (simp add: loci_validate_of_action_set_dl_src_OF_VERSION_1_0_def covered_min_id fits_def of_object_fixed_len_def)

lemma covers_action_set_nw_dst_1_0 [c_proved]: "covered 1 loci_validate_of_action_set_nw_dst_OF_VERSION_1_0 (d_id OF_ACTION_SET_NW_DST)"
  by (simp add: loci_validate_of_action_set_nw_dst_OF_VERSION_1_0_def covered_min_id fits_def of_object_fixed_len_def)

lemma covers_action_set_nw_src_1_0 [c_proved]: "covered 1 loci_validate_of_action_set_nw_src_OF_VERSION_1_0 (d_id OF_ACTION_SET_NW_SRC)"
  by (simp add: loci_validate_of_action_set_nw_src_OF_VERSION_1_0_def covered_min_id fits_def of_object_fixed_len_def)

lemma covers_action_set_nw_tos_1_0 [c_proved]: "covered 1 loci_validate_of_action_set_nw_tos_OF_VERSION_1_0 (d_id OF_ACTION_SET_NW_TOS)"
  by (simp add: loci_validate_of_action_set_nw_tos_OF_VERSION_1_0_def covered_min_id fits_def of_object_fixed_len_def)

lemma covers_action_set_tp_dst_1_0 [c_proved]: "covered 1 loci_validate_of_action_set_tp_dst_OF_VERSION_1_0 (d_id OF_ACTION_SET_TP_DST)"
  by (simp add: loci_validate_of_action_set_tp_dst_OF_VERSION_1_0_def covered_min_id fits_def of_object_fixed_len_def)

lemma covers_action_set_tp_src_1_0 [c_proved]: "covered 1 loci_validate_of_action_set_tp_src_OF_VERSION_1_0 (d_id OF_ACTION_SET_TP_SRC)"
  by (simp add: loci_validate_of_action_set_tp_src_OF_VERSION_1_0_def covered_min_id fits_def of_object_fixed_len_def)

lemma covers_action_set_vlan_pcp_1_0 [c_proved]: "covered 1 loci_validate_of_action_set_vlan_pcp_OF_VERSION_1_0 (d_id OF_ACTION_SET_VLAN_PCP)"
  by (simp add: loci_validate_of_action_set_vlan_pcp_OF_VERSION_1_0_def covered_min_id fits_def of_object_fixed_len_def)

lemma covers_action_set_vlan_vid_1_0 [c_proved]: "covered 1 loci_validate_of_action_set_vlan_vid_OF_VERSION_1_0 (d_id OF_ACTION_SET_VLAN_VID)"
  by (simp add: loci_validate_of_action_set_vlan_vid_OF_VERSION_1_0_def covered_min_id fits_def of_object_fixed_len_def)

lemma covers_action_strip_vlan_1_0 [c_proved]: "covered 1 loci_validate_of_action_strip_vlan_OF_VERSION_1_0 (d_id OF_ACTION_STRIP_VLAN)"
  by (simp add: loci_validate_of_action_strip_vlan_OF_VERSION_1_0_def covered_min_id fits_def of_object_fixed_len_def)

lemma covers_queue_prop_min_rate_1_0 [c_proved]: "covered 1 loci_validate_of_queue_prop_min_rate_OF_VERSION_1_0 (d_id OF_QUEUE_PROP_MIN_RATE)"
  by (simp add: loci_validate_of_queue_prop_min_rate_OF_VERSION_1_0_def covered_min_id fits_def of_object_fixed_len_def)

lemma of_action_nicira_covered_1_0 [c_proved]: "covered 1 loci_validate_of_action_nicira_OF_VERSION_1_0 (of_action_nicira_wire_object_id_get 1)"
  unfolding loci_validate_of_action_nicira_OF_VERSION_1_0_def of_action_nicira_wire_object_id_get_def
  by (simp only: refl if_True if_False eq_num, intro c_intro)
   (simp_all add: case_covered_def c_proved map_of_Cons_code fits_def of_object_fixed_len_def del: map_of.simps cong: map_of_freeze)

lemma of_action_bsn_covered_1_0 [c_proved]: "covered 1 loci_validate_of_action_bsn_OF_VERSION_1_0 (of_action_bsn_wire_object_id_get 1)"
  unfolding loci_validate_of_action_bsn_OF_VERSION_1_0_def of_action_bsn_wire_object_id_get_def
  by (simp only: refl if_True if_False eq_num, intro c_intro)
   (simp_all add: case_covered_def c_proved map_of_Cons_code fits_def of_object_fixed_len_def del: map_of.simps cong: map_of_freeze)

lemma of_action_experimenter_covered_1_0 [c_proved]: "covered 1 loci_validate_of_action_experimenter_OF_VERSION_1_0 (of_action_experimenter_wire_object_id_get 1)"
  unfolding loci_validate_of_action_experimenter_OF_VERSION_1_0_def of_action_experimenter_wire_object_id_get_def
  by (simp only: refl if_True if_False eq_num, intro c_intro)
   (simp_all add: case_covered_def c_proved map_of_Cons_code fits_def of_object_fixed_len_def del: map_of.simps cong: map_of_freeze)

lemma of_action_covered_1_0 [c_proved]: "covered 1 loci_validate_of_action_OF_VERSION_1_0 (of_action_wire_object_id_get 1)"
  unfolding loci_validate_of_action_OF_VERSION_1_0_def of_action_wire_object_id_get_def
  by (simp only: refl if_True if_False eq_num, intro c_intro)
   (simp_all add: case_covered_def c_proved map_of_Cons_code fits_def of_object_fixed_len_def del: map_of.simps cong: map_of_freeze)

lemma of_queue_prop_covered_1_0 [c_proved]: "covered 1 loci_validate_of_queue_prop_OF_VERSION_1_0 (of_queue_prop_wire_object_id_get 1)"
  unfolding loci_validate_of_queue_prop_OF_VERSION_1_0_def of_queue_prop_wire_object_id_get_def
  by (simp only: refl if_True if_False eq_num, intro c_intro)
   (simp_all add: case_covered_def c_proved map_of_Cons_code fits_def of_object_fixed_len_def del: map_of.simps cong: map_of_freeze)

subsection \<open>OpenFlow 1.1\<close>

lemma covers_action_bsn_checksum_1_1 [c_proved]: "covered 2 loci_validate_of_action_bsn_checksum_OF_VERSION_1_1 (d_id OF_ACTION_BSN_CHECKSUM)"
  by (simp add: loci_validate_of_action_bsn_checksum_OF_VERSION_1_1_def covered_min_id fits_def of_object_fixed_len_def)

lemma covers_action_bsn_mirror_1_1 [c_proved]: "covered 2 loci_validate_of_action_bsn_mirror_OF_VERSION_1_1 (d_id OF_ACTION_BSN_MIRROR)"
  by (simp add: loci_validate_of_action_bsn_mirror_OF_VERSION_1_1_def covered_min_id fits_def of_object_fixed_len_def)

lemma covers_action_bsn_set_tunnel_dst_1_1 [c_proved]: "covered 2 loci_validate_of_action_bsn_set_tunnel_dst_OF_VERSION_1_1 (d_id OF_ACTION_BSN_SET_TUNNEL_DST)"
  by (simp add: loci_validate_of_action_bsn_set_tunnel_dst_OF_VERSION_1_1_def covered_min_id fits_def of_object_fixed_len_def)

lemma covers_action_copy_ttl_in_1_1 [c_proved]: "covered 2 loci_validate_of_action_copy_ttl_in_OF_VERSION_1_1 (d_id OF_ACTION_COPY_TTL_IN)"
  by (simp add: loci_validate_of_action_copy_ttl_in_OF_VERSION_1_1_def covered_min_id fits_def of_object_fixed_len_def)

lemma covers_action_copy_ttl_out_1_1 [c_proved]: "covered 2 loci_validate_of_action_copy_ttl_out_OF_VERSION_1_1 (d_id OF_ACTION_COPY_TTL_OUT)"
  by (simp add: loci_validate_of_action_copy_ttl_out_OF_VERSION_1_1_def covered_min_id fits_def of_object_fixed_len_def)

lemma covers_action_dec_mpls_ttl_1_1 [c_proved]: "covered 2 loci_validate_of_action_dec_mpls_ttl_OF_VERSION_1_1 (d_id OF_ACTION_DEC_MPLS_TTL)"
  by (simp add: loci_validate_of_action_dec_mpls_ttl_OF_VERSION_1_1_def covered_min_id fits_def of_object_fixed_len_def)

lemma covers_action_dec_nw_ttl_1_1 [c_proved]: "covered 2 loci_validate_of_action_dec_nw_ttl_OF_VERSION_1_1 (d_id OF_ACTION_DEC_NW_TTL)"
  by (simp add: loci_validate_of_action_dec_nw_ttl_OF_VERSION_1_1_def covered_min_id fits_def of_object_fixed_len_def)

lemma covers_action_group_1_1 [c_proved]: "covered 2 loci_validate_of_action_group_OF_VERSION_1_1 (d_id OF_ACTION_GROUP)"
  by (simp add: loci_validate_of_action_group_OF_VERSION_1_1_def covered_min_id fits_def of_object_fixed_len_def)

lemma covers_action_nicira_dec_ttl_1_1 [c_proved]: "covered 2 loci_validate_of_action_nicira_dec_ttl_OF_VERSION_1_1 (d_id OF_ACTION_NICIRA_DEC_TTL)"
  by (simp add: loci_validate_of_action_nicira_dec_ttl_OF_VERSION_1_1_def covered_min_id fits_def of_object_fixed_len_def)

lemma covers_action_output_1_1 [c_proved]: "covered 2 loci_validate_of_action_output_OF_VERSION_1_1 (d_id OF_ACTION_OUTPUT)"
  by (simp add: loci_validate_of_action_output_OF_VERSION_1_1_def covered_min_id fits_def of_object_fixed_len_def)

lemma covers_action_pop_mpls_1_1 [c_proved]: "covered 2 loci_validate_of_action_pop_mpls_OF_VERSION_1_1 (d_id OF_ACTION_POP_MPLS)"
  by (simp add: loci_validate_of_action_pop_mpls_OF_VERSION_1_1_def covered_min_id fits_def of_object_fixed_len_def)

lemma covers_action_pop_vlan_1_1 [c_proved]: "covered 2 loci_validate_of_action_pop_vlan_OF_VERSION_1_1 (d_id OF_ACTION_POP_VLAN)"
  by (simp add: loci_validate_of_action_pop_vlan_OF_VERSION_1_1_def covered_min_id fits_def of_object_fixed_len_def)

lemma covers_action_push_mpls_1_1 [c_proved]: "covered 2 loci_validate_of_action_push_mpls_OF_VERSION_1_1 (d_id OF_ACTION_PUSH_MPLS)"
  by (simp add: loci_validate_of_action_push_mpls_OF_VERSION_1_1_def covered_min_id fits_def of_object_fixed_len_def)

lemma covers_action_push_vlan_1_1 [c_proved]: "covered 2 loci_validate_of_action_push_vlan_OF_VERSION_1_1 (d_id OF_ACTION_PUSH_VLAN)"
  by (simp add: loci_validate_of_action_push_vlan_OF_VERSION_1_1_def covered_min_id fits_def of_object_fixed_len_def)

lemma covers_action_set_dl_dst_1_1 [c_proved]: "covered 2 loci_validate_of_action_set_dl_dst_OF_VERSION_1_1 (d_id OF_ACTION_SET_DL_DST)"
  by (simp add: loci_validate_of_action_set_dl_dst_OF_VERSION_1_1_def covered_min_id fits_def of_object_fixed_len_def)

lemma covers_action_set_dl_src_1_1 [c_proved]: "covered 2 loci_validate_of_action_set_dl_src_OF_VERSION_1_1 (d_id OF_ACTION_SET_DL_SRC)"
  by (simp add: loci_validate_of_action_set_dl_src_OF_VERSION_1_1_def covered_min_id fits_def of_object_fixed_len_def)

lemma covers_action_set_mpls_label_1_1 [c_proved]: "covered 2 loci_validate_of_action_set_mpls_label_OF_VERSION_1_1 (d_id OF_ACTION_SET_MPLS_LABEL)"
  by (simp add: loci_validate_of_action_set_mpls_label_OF_VERSION_1_1_def covered_min_id fits_def of_object_fixed_len_def)

lemma covers_action_set_mpls_tc_1_1 [c_proved]: "covered 2 loci_validate_of_action_set_mpls_tc_OF_VERSION_1_1 (d_id OF_ACTION_SET_MPLS_TC)"
  by (simp add: loci_validate_of_action_set_mpls_tc_OF_VERSION_1_1_def covered_min_id fits_def of_object_fixed_len_def)

lemma covers_action_set_mpls_ttl_1_1 [c_proved]: "covered 2 loci_validate_of_action_set_mpls_ttl_OF_VERSION_1_1 (d_id OF_ACTION_SET_MPLS_TTL)"
  by (simp add: loci_validate_of_action_set_mpls_ttl_OF_VERSION_1_1_def covered_min_id fits_def of_object_fixed_len_def)

lemma covers_action_set_nw_dst_1_1 [c_proved]: "covered 2 loci_validate_of_action_set_nw_dst_OF_VERSION_1_1 (d_id OF_ACTION_SET_NW_DST)"
  by (simp add: loci_validate_of_action_set_nw_dst_OF_VERSION_1_1_def covered_min_id fits_def of_object_fixed_len_def)

lemma covers_action_set_nw_ecn_1_1 [c_proved]: "covered 2 loci_validate_of_action_set_nw_ecn_OF_VERSION_1_1 (d_id OF_ACTION_SET_NW_ECN)"
  by (simp add: loci_validate_of_action_set_nw_ecn_OF_VERSION_1_1_def covered_min_id fits_def of_object_fixed_len_def)

lemma covers_action_set_nw_src_1_1 [c_proved]: "covered 2 loci_validate_of_action_set_nw_src_OF_VERSION_1_1 (d_id OF_ACTION_SET_NW_SRC)"
  by (simp add: loci_validate_of_action_set_nw_src_OF_VERSION_1_1_def covered_min_id fits_def of_object_fixed_len_def)

lemma covers_action_set_nw_tos_1_1 [c_proved]: "covered 2 loci_validate_of_action_set_nw_tos_OF_VERSION_1_1 (d_id OF_ACTION_SET_NW_TOS)"
  by (simp add: loci_validate_of_action_set_nw_tos_OF_VERSION_1_1_def covered_min_id fits_def of_object_fixed_len_def)

lemma covers_action_set_nw_ttl_1_1 [c_proved]: "covered 2 loci_validate_of_action_set_nw_ttl_OF_VERSION_1_1 (d_id OF_ACTION_SET_NW_TTL)"
  by (simp add: loci_validate_of_action_set_nw_ttl_OF_VERSION_1_1_def covered_min_id fits_def of_object_fixed_len_def)

lemma covers_action_set_queue_1_1 [c_proved]: "covered 2 loci_validate_of_action_set_queue_OF_VERSION_1_1 (d_id OF_ACTION_SET_QUEUE)"
  by (simp add: loci_validate_of_action_set_queue_OF_VERSION_1_1_def covered_min_id fits_def of_object_fixed_len_def)

lemma covers_action_set_tp_dst_1_1 [c_proved]: "covered 2 loci_validate_of_action_set_tp_dst_OF_VERSION_1_1 (d_id OF_ACTION_SET_TP_DST)"
  by (simp add: loci_validate_of_action_set_tp_dst_OF_VERSION_1_1_def covered_min_id fits_def of_object_fixed_len_def)

lemma covers_action_set_tp_src_1_1 [c_proved]: "covered 2 loci_validate_of_action_set_tp_src_OF_VERSION_1_1 (d_id OF_ACTION_SET_TP_SRC)"
  by (simp add: loci_validate_of_action_set_tp_src_OF_VERSION_1_1_def covered_min_id fits_def of_object_fixed_len_def)

lemma covers_action_set_vlan_pcp_1_1 [c_proved]: "covered 2 loci_validate_of_action_set_vlan_pcp_OF_VERSION_1_1 (d_id OF_ACTION_SET_VLAN_PCP)"
  by (simp add: loci_validate_of_action_set_vlan_pcp_OF_VERSION_1_1_def covered_min_id fits_def of_object_fixed_len_def)

lemma covers_action_set_vlan_vid_1_1 [c_proved]: "covered 2 loci_validate_of_action_set_vlan_vid_OF_VERSION_1_1 (d_id OF_ACTION_SET_VLAN_VID)"
  by (simp add: loci_validate_of_action_set_vlan_vid_OF_VERSION_1_1_def covered_min_id fits_def of_object_fixed_len_def)

lemma covers_instruction_apply_actions_1_1 [c_proved]: "covered 2 loci_validate_of_instruction_apply_actions_OF_VERSION_1_1 (d_id OF_INSTRUCTION_APPLY_ACTIONS)"
  by (simp add: loci_validate_of_instruction_apply_actions_OF_VERSION_1_1_def covered_min_id fits_def of_object_fixed_len_def)

lemma covers_instruction_clear_actions_1_1 [c_proved]: "covered 2 loci_validate_of_instruction_clear_actions_OF_VERSION_1_1 (d_id OF_INSTRUCTION_CLEAR_ACTIONS)"
  by (simp add: loci_validate_of_instruction_clear_actions_OF_VERSION_1_1_def covered_min_id fits_def of_object_fixed_len_def)

lemma covers_instruction_goto_table_1_1 [c_proved]: "covered 2 loci_validate_of_instruction_goto_table_OF_VERSION_1_1 (d_id OF_INSTRUCTION_GOTO_TABLE)"
  by (simp add: loci_validate_of_instruction_goto_table_OF_VERSION_1_1_def covered_min_id fits_def of_object_fixed_len_def)

lemma covers_instruction_write_actions_1_1 [c_proved]: "covered 2 loci_validate_of_instruction_write_actions_OF_VERSION_1_1 (d_id OF_INSTRUCTION_WRITE_ACTIONS)"
  by (simp add: loci_validate_of_instruction_write_actions_OF_VERSION_1_1_def covered_min_id fits_def of_object_fixed_len_def)

lemma covers_instruction_write_metadata_1_1 [c_proved]: "covered 2 loci_validate_of_instruction_write_metadata_OF_VERSION_1_1 (d_id OF_INSTRUCTION_WRITE_METADATA)"
  by (simp add: loci_validate_of_instruction_write_metadata_OF_VERSION_1_1_def covered_min_id fits_def of_object_fixed_len_def)

lemma covers_queue_prop_min_rate_1_1 [c_proved]: "covered 2 loci_validate_of_queue_prop_min_rate_OF_VERSION_1_1 (d_id OF_QUEUE_PROP_MIN_RATE)"
  by (simp add: loci_validate_of_queue_prop_min_rate_OF_VERSION_1_1_def covered_min_id fits_def of_object_fixed_len_def)

lemma of_action_nicira_covered_1_1 [c_proved]: "covered 2 loci_validate_of_action_nicira_OF_VERSION_1_1 (of_action_nicira_wire_object_id_get 2)"
  unfolding loci_validate_of_action_nicira_OF_VERSION_1_1_def of_action_nicira_wire_object_id_get_def
  by (simp only: refl if_True if_False eq_num, intro c_intro)
   (simp_all add: case_covered_def c_proved map_of_Cons_code fits_def of_object_fixed_len_def del: map_of.simps cong: map_of_freeze)

lemma of_action_bsn_covered_1_1 [c_proved]: "covered 2 loci_validate_of_action_bsn_OF_VERSION_1_1 (of_action_bsn_wire_object_id_get 2)"
  unfolding loci_validate_of_action_bsn_OF_VERSION_1_1_def of_action_bsn_wire_object_id_get_def
  by (simp only: refl if_True if_False eq_num, intro c_intro)
   (simp_all add: case_covered_def c_proved map_of_Cons_code fits_def of_object_fixed_len_def del: map_of.simps cong: map_of_freeze)

lemma of_action_experimenter_covered_1_1 [c_proved]: "covered 2 loci_validate_of_action_experimenter_OF_VERSION_1_1 (of_action_experimenter_wire_object_id_get 2)"
  unfolding loci_validate_of_action_experimenter_OF_VERSION_1_1_def of_action_experimenter_wire_object_id_get_def
  by (simp only: refl if_True if_False eq_num, intro c_intro)
   (simp_all add: case_covered_def c_proved map_of_Cons_code fits_def of_object_fixed_len_def del: map_of.simps cong: map_of_freeze)

lemma of_action_covered_1_1 [c_proved]: "covered 2 loci_validate_of_action_OF_VERSION_1_1 (of_action_wire_object_id_get 2)"
  unfolding loci_validate_of_action_OF_VERSION_1_1_def of_action_wire_object_id_get_def
  by (simp only: refl if_True if_False eq_num, intro c_intro)
   (simp_all add: case_covered_def c_proved map_of_Cons_code fits_def of_object_fixed_len_def del: map_of.simps cong: map_of_freeze)

lemma of_instruction_experimenter_covered_1_1 [c_proved]: "covered 2 loci_validate_of_instruction_experimenter_OF_VERSION_1_1 (of_instruction_experimenter_wire_object_id_get 2)"
  unfolding loci_validate_of_instruction_experimenter_OF_VERSION_1_1_def of_instruction_experimenter_wire_object_id_get_def
  by (simp only: refl if_True if_False eq_num, intro c_intro)
   (simp_all add: case_covered_def c_proved map_of_Cons_code fits_def of_object_fixed_len_def del: map_of.simps cong: map_of_freeze)

lemma of_instruction_covered_1_1 [c_proved]: "covered 2 loci_validate_of_instruction_OF_VERSION_1_1 (of_instruction_wire_object_id_get 2)"
  unfolding loci_validate_of_instruction_OF_VERSION_1_1_def of_instruction_wire_object_id_get_def
  by (simp only: refl if_True if_False eq_num, intro c_intro)
   (simp_all add: case_covered_def c_proved map_of_Cons_code fits_def of_object_fixed_len_def del: map_of.simps cong: map_of_freeze)

lemma of_queue_prop_covered_1_1 [c_proved]: "covered 2 loci_validate_of_queue_prop_OF_VERSION_1_1 (of_queue_prop_wire_object_id_get 2)"
  unfolding loci_validate_of_queue_prop_OF_VERSION_1_1_def of_queue_prop_wire_object_id_get_def
  by (simp only: refl if_True if_False eq_num, intro c_intro)
   (simp_all add: case_covered_def c_proved map_of_Cons_code fits_def of_object_fixed_len_def del: map_of.simps cong: map_of_freeze)

subsection \<open>OpenFlow 1.2\<close>

lemma covers_action_bsn_checksum_1_2 [c_proved]: "covered 3 loci_validate_of_action_bsn_checksum_OF_VERSION_1_2 (d_id OF_ACTION_BSN_CHECKSUM)"
  by (simp add: loci_validate_of_action_bsn_checksum_OF_VERSION_1_2_def covered_min_id fits_def of_object_fixed_len_def)

lemma covers_action_bsn_mirror_1_2 [c_proved]: "covered 3 loci_validate_of_action_bsn_mirror_OF_VERSION_1_2 (d_id OF_ACTION_BSN_MIRROR)"
  by (simp add: loci_validate_of_action_bsn_mirror_OF_VERSION_1_2_def covered_min_id fits_def of_object_fixed_len_def)

lemma covers_action_bsn_set_tunnel_dst_1_2 [c_proved]: "covered 3 loci_validate_of_action_bsn_set_tunnel_dst_OF_VERSION_1_2 (d_id OF_ACTION_BSN_SET_TUNNEL_DST)"
  by (simp add: loci_validate_of_action_bsn_set_tunnel_dst_OF_VERSION_1_2_def covered_min_id fits_def of_object_fixed_len_def)

lemma covers_action_copy_ttl_in_1_2 [c_proved]: "covered 3 loci_validate_of_action_copy_ttl_in_OF_VERSION_1_2 (d_id OF_ACTION_COPY_TTL_IN)"
  by (simp add: loci_validate_of_action_copy_ttl_in_OF_VERSION_1_2_def covered_min_id fits_def of_object_fixed_len_def)

lemma covers_action_copy_ttl_out_1_2 [c_proved]: "covered 3 loci_validate_of_action_copy_ttl_out_OF_VERSION_1_2 (d_id OF_ACTION_COPY_TTL_OUT)"
  by (simp add: loci_validate_of_action_copy_ttl_out_OF_VERSION_1_2_def covered_min_id fits_def of_object_fixed_len_def)

lemma covers_action_dec_mpls_ttl_1_2 [c_proved]: "covered 3 loci_validate_of_action_dec_mpls_ttl_OF_VERSION_1_2 (d_id OF_ACTION_DEC_MPLS_TTL)"
  by (simp add: loci_validate_of_action_dec_mpls_ttl_OF_VERSION_1_2_def covered_min_id fits_def of_object_fixed_len_def)

lemma covers_action_dec_nw_ttl_1_2 [c_proved]: "covered 3 loci_validate_of_action_dec_nw_ttl_OF_VERSION_1_2 (d_id OF_ACTION_DEC_NW_TTL)"
  by (simp add: loci_validate_of_action_dec_nw_ttl_OF_VERSION_1_2_def covered_min_id fits_def of_object_fixed_len_def)

lemma covers_action_group_1_2 [c_proved]: "covered 3 loci_validate_of_action_group_OF_VERSION_1_2 (d_id OF_ACTION_GROUP)"
  by (simp add: loci_validate_of_action_group_OF_VERSION_1_2_def covered_min_id fits_def of_object_fixed_len_def)

lemma covers_action_nicira_dec_ttl_1_2 [c_proved]: "covered 3 loci_validate_of_action_nicira_dec_ttl_OF_VERSION_1_2 (d_id OF_ACTION_NICIRA_DEC_TTL)"
  by (simp add: loci_validate_of_action_nicira_dec_ttl_OF_VERSION_1_2_def covered_min_id fits_def of_object_fixed_len_def)

lemma covers_action_output_1_2 [c_proved]: "covered 3 loci_validate_of_action_output_OF_VERSION_1_2 (d_id OF_ACTION_OUTPUT)"
  by (simp add: loci_validate_of_action_output_OF_VERSION_1_2_def covered_min_id fits_def of_object_fixed_len_def)

lemma covers_action_pop_mpls_1_2 [c_proved]: "covered 3 loci_validate_of_action_pop_mpls_OF_VERSION_1_2 (d_id OF_ACTION_POP_MPLS)"
  by (simp add: loci_validate_of_action_pop_mpls_OF_VERSION_1_2_def covered_min_id fits_def of_object_fixed_len_def)

lemma covers_action_pop_vlan_1_2 [c_proved]: "covered 3 loci_validate_of_action_pop_vlan_OF_VERSION_1_2 (d_id OF_ACTION_POP_VLAN)"
  by (simp add: loci_validate_of_action_pop_vlan_OF_VERSION_1_2_def covered_min_id fits_def of_object_fixed_len_def)

lemma covers_action_push_mpls_1_2 [c_proved]: "covered 3 loci_validate_of_action_push_mpls_OF_VERSION_1_2 (d_id OF_ACTION_PUSH_MPLS)"
  by (simp add: loci_validate_of_action_push_mpls_OF_VERSION_1_2_def covered_min_id fits_def of_object_fixed_len_def)

lemma covers_action_push_vlan_1_2 [c_proved]: "covered 3 loci_validate_of_action_push_vlan_OF_VERSION_1_2 (d_id OF_ACTION_PUSH_VLAN)"
  by (simp add: loci_validate_of_action_push_vlan_OF_VERSION_1_2_def covered_min_id fits_def of_object_fixed_len_def)

lemma covers_action_set_field_1_2 [c_proved]: "covered 3 loci_validate_of_action_set_field_OF_VERSION_1_2 (d_id OF_ACTION_SET_FIELD)"
  by (simp add: loci_validate_of_action_set_field_OF_VERSION_1_2_def covered_min_id fits_def of_object_fixed_len_def)

lemma covers_action_set_mpls_ttl_1_2 [c_proved]: "covered 3 loci_validate_of_action_set_mpls_ttl_OF_VERSION_1_2 (d_id OF_ACTION_SET_MPLS_TTL)"
  by (simp add: loci_validate_of_action_set_mpls_ttl_OF_VERSION_1_2_def covered_min_id fits_def of_object_fixed_len_def)

lemma covers_action_set_nw_ttl_1_2 [c_proved]: "covered 3 loci_validate_of_action_set_nw_ttl_OF_VERSION_1_2 (d_id OF_ACTION_SET_NW_TTL)"
  by (simp add: loci_validate_of_action_set_nw_ttl_OF_VERSION_1_2_def covered_min_id fits_def of_object_fixed_len_def)

lemma covers_action_set_queue_1_2 [c_proved]: "covered 3 loci_validate_of_action_set_queue_OF_VERSION_1_2 (d_id OF_ACTION_SET_QUEUE)"
  by (simp add: loci_validate_of_action_set_queue_OF_VERSION_1_2_def covered_min_id fits_def of_object_fixed_len_def)

lemma covers_instruction_apply_actions_1_2 [c_proved]: "covered 3 loci_validate_of_instruction_apply_actions_OF_VERSION_1_2 (d_id OF_INSTRUCTION_APPLY_ACTIONS)"
  by (simp add: loci_validate_of_instruction_apply_actions_OF_VERSION_1_2_def covered_min_id fits_def of_object_fixed_len_def)

lemma covers_instruction_clear_actions_1_2 [c_proved]: "covered 3 loci_validate_of_instruction_clear_actions_OF_VERSION_1_2 (d_id OF_INSTRUCTION_CLEAR_ACTIONS)"
  by (simp add: loci_validate_of_instruction_clear_actions_OF_VERSION_1_2_def covered_min_id fits_def of_object_fixed_len_def)

lemma covers_instruction_goto_table_1_2 [c_proved]: "covered 3 loci_validate_of_instruction_goto_table_OF_VERSION_1_2 (d_id OF_INSTRUCTION_GOTO_TABLE)"
  by (simp add: loci_validate_of_instruction_goto_table_OF_VERSION_1_2_def covered_min_id fits_def of_object_fixed_len_def)

lemma covers_instruction_write_actions_1_2 [c_proved]: "covered 3 loci_validate_of_instruction_write_actions_OF_VERSION_1_2 (d_id OF_INSTRUCTION_WRITE_ACTIONS)"
  by (simp add: loci_validate_of_instruction_write_actions_OF_VERSION_1_2_def covered_min_id fits_def of_object_fixed_len_def)

lemma covers_instruction_write_metadata_1_2 [c_proved]: "covered 3 loci_validate_of_instruction_write_metadata_OF_VERSION_1_2 (d_id OF_INSTRUCTION_WRITE_METADATA)"
  by (simp add: loci_validate_of_instruction_write_metadata_OF_VERSION_1_2_def covered_min_id fits_def of_object_fixed_len_def)

lemma covers_oxm_arp_op_1_2 [c_proved]: "covered 3 loci_validate_of_oxm_arp_op_OF_VERSION_1_2 (d_id OF_OXM_ARP_OP)"
  by (simp add: loci_validate_of_oxm_arp_op_OF_VERSION_1_2_def covered_min_id fits_def of_object_fixed_len_def)

lemma covers_oxm_arp_op_masked_1_2 [c_proved]: "covered 3 loci_validate_of_oxm_arp_op_masked_OF_VERSION_1_2 (d_id OF_OXM_ARP_OP_MASKED)"
  by (simp add: loci_validate_of_oxm_arp_op_masked_OF_VERSION_1_2_def covered_min_id fits_def of_object_fixed_len_def)

lemma covers_oxm_arp_sha_1_2 [c_proved]: "covered 3 loci_validate_of_oxm_arp_sha_OF_VERSION_1_2 (d_id OF_OXM_ARP_SHA)"
  by (simp add: loci_validate_of_oxm_arp_sha_OF_VERSION_1_2_def covered_min_id fits_def of_object_fixed_len_def)

lemma covers_oxm_arp_sha_masked_1_2 [c_proved]: "covered 3 loci_validate_of_oxm_arp_sha_masked_OF_VERSION_1_2 (d_id OF_OXM_ARP_SHA_MASKED)"
  by (simp add: loci_validate_of_oxm_arp_sha_masked_OF_VERSION_1_2_def covered_min_id fits_def of_object_fixed_len_def)

lemma covers_oxm_arp_spa_1_2 [c_proved]: "covered 3 loci_validate_of_oxm_arp_spa_OF_VERSION_1_2 (d_id OF_OXM_ARP_SPA)"
  by (simp add: loci_validate_of_oxm_arp_spa_OF_VERSION_1_2_def covered_min_id fits_def of_object_fixed_len_def)

lemma covers_oxm_arp_spa_masked_1_2 [c_proved]: "covered 3 loci_validate_of_oxm_arp_spa_masked_OF_VERSION_1_2 (d_id OF_OXM_ARP_SPA_MASKED)"
  by (simp add: loci_validate_of_oxm_arp_spa_masked_OF_VERSION_1_2_def covered_min_id fits_def of_object_fixed_len_def)

lemma covers_oxm_arp_tha_1_2 [c_proved]: "covered 3 loci_validate_of_oxm_arp_tha_OF_VERSION_1_2 (d_id OF_OXM_ARP_THA)"
  by (simp add: loci_validate_of_oxm_arp_tha_OF_VERSION_1_2_def covered_min_id fits_def of_object_fixed_len_def)

lemma covers_oxm_arp_tha_masked_1_2 [c_proved]: "covered 3 loci_validate_of_oxm_arp_tha_masked_OF_VERSION_1_2 (d_id OF_OXM_ARP_THA_MASKED)"
  by (simp add: loci_validate_of_oxm_arp_tha_masked_OF_VERSION_1_2_def covered_min_id fits_def of_object_fixed_len_def)

lemma covers_oxm_arp_tpa_1_2 [c_proved]: "covered 3 loci_validate_of_oxm_arp_tpa_OF_VERSION_1_2 (d_id OF_OXM_ARP_TPA)"
  by (simp add: loci_validate_of_oxm_arp_tpa_OF_VERSION_1_2_def covered_min_id fits_def of_object_fixed_len_def)

lemma covers_oxm_arp_tpa_masked_1_2 [c_proved]: "covered 3 loci_validate_of_oxm_arp_tpa_masked_OF_VERSION_1_2 (d_id OF_OXM_ARP_TPA_MASKED)"
  by (simp add: loci_validate_of_oxm_arp_tpa_masked_OF_VERSION_1_2_def covered_min_id fits_def of_object_fixed_len_def)

lemma covers_oxm_bsn_egr_port_group_id_1_2 [c_proved]: "covered 3 loci_validate_of_oxm_bsn_egr_port_group_id_OF_VERSION_1_2 (d_id OF_OXM_BSN_EGR_PORT_GROUP_ID)"
  by (simp add: loci_validate_of_oxm_bsn_egr_port_group_id_OF_VERSION_1_2_def covered_min_id fits_def of_object_fixed_len_def)

lemma covers_oxm_bsn_egr_port_group_id_masked_1_2 [c_proved]: "covered 3 loci_validate_of_oxm_bsn_egr_port_group_id_masked_OF_VERSION_1_2 (d_id OF_OXM_BSN_EGR_PORT_GROUP_ID_MASKED)"
  by (simp add: loci_validate_of_oxm_bsn_egr_port_group_id_masked_OF_VERSION_1_2_def covered_min_id fits_def of_object_fixed_len_def)

lemma covers_oxm_bsn_global_vrf_allowed_1_2 [c_proved]: "covered 3 loci_validate_of_oxm_bsn_global_vrf_allowed_OF_VERSION_1_2 (d_id OF_OXM_BSN_GLOBAL_VRF_ALLOWED)"
  by (simp add: loci_validate_of_oxm_bsn_global_vrf_allowed_OF_VERSION_1_2_def covered_min_id fits_def of_object_fixed_len_def)

lemma covers_oxm_bsn_global_vrf_allowed_masked_1_2 [c_proved]: "covered 3 loci_validate_of_oxm_bsn_global_vrf_allowed_masked_OF_VERSION_1_2 (d_id OF_OXM_BSN_GLOBAL_VRF_ALLOWED_MASKED)"
  by (simp add: loci_validate_of_oxm_bsn_global_vrf_allowed_masked_OF_VERSION_1_2_def covered_min_id fits_def of_object_fixed_len_def)

lemma covers_oxm_bsn_in_ports_128_1_2 [c_proved]: "covered 3 loci_validate_of_oxm_bsn_in_ports_128_OF_VERSION_1_2 (d_id OF_OXM_BSN_IN_PORTS_128)"
  by (simp add: loci_validate_of_oxm_bsn_in_ports_128_OF_VERSION_1_2_def covered_min_id fits_def of_object_fixed_len_def)

lemma covers_oxm_bsn_in_ports_128_masked_1_2 [c_proved]: "covered 3 loci_validate_of_oxm_bsn_in_ports_128_masked_OF_VERSION_1_2 (d_id OF_OXM_BSN_IN_PORTS_128_MASKED)"
  by (simp add: loci_validate_of_oxm_bsn_in_ports_128_masked_OF_VERSION_1_2_def covered_min_id fits_def of_object_fixed_len_def)

lemma covers_oxm_bsn_in_ports_512_1_2 [c_proved]: "covered 3 loci_validate_of_oxm_bsn_in_ports_512_OF_VERSION_1_2 (d_id OF_OXM_BSN_IN_PORTS_512)"
  by (simp add: loci_validate_of_oxm_bsn_in_ports_512_OF_VERSION_1_2_def covered_min_id fits_def of_object_fixed_len_def)

lemma covers_oxm_bsn_in_ports_512_masked_1_2 [c_proved]: "covered 3 loci_validate_of_oxm_bsn_in_ports_512_masked_OF_VERSION_1_2 (d_id OF_OXM_BSN_IN_PORTS_512_MASKED)"
  by (simp add: loci_validate_of_oxm_bsn_in_ports_512_masked_OF_VERSION_1_2_def covered_min_id fits_def of_object_fixed_len_def)

lemma covers_oxm_bsn_ingress_port_group_id_1_2 [c_proved]: "covered 3 loci_validate_of_oxm_bsn_ingress_port_group_id_OF_VERSION_1_2 (d_id OF_OXM_BSN_INGRESS_PORT_GROUP_ID)"
  by (simp add: loci_validate_of_oxm_bsn_ingress_port_group_id_OF_VERSION_1_2_def covered_min_id fits_def of_object_fixed_len_def)

lemma covers_oxm_bsn_ingress_port_group_id_masked_1_2 [c_proved]: "covered 3 loci_validate_of_oxm_bsn_ingress_port_group_id_masked_OF_VERSION_1_2 (d_id OF_OXM_BSN_INGRESS_PORT_GROUP_ID_MASKED)"
  by (simp add: loci_validate_of_oxm_bsn_ingress_port_group_id_masked_OF_VERSION_1_2_def covered_min_id fits_def of_object_fixed_len_def)

lemma covers_oxm_bsn_l2_cache_hit_1_2 [c_proved]: "covered 3 loci_validate_of_oxm_bsn_l2_cache_hit_OF_VERSION_1_2 (d_id OF_OXM_BSN_L2_CACHE_HIT)"
  by (simp add: loci_validate_of_oxm_bsn_l2_cache_hit_OF_VERSION_1_2_def covered_min_id fits_def of_object_fixed_len_def)

lemma covers_oxm_bsn_l2_cache_hit_masked_1_2 [c_proved]: "covered 3 loci_validate_of_oxm_bsn_l2_cache_hit_masked_OF_VERSION_1_2 (d_id OF_OXM_BSN_L2_CACHE_HIT_MASKED)"
  by (simp add: loci_validate_of_oxm_bsn_l2_cache_hit_masked_OF_VERSION_1_2_def covered_min_id fits_def of_object_fixed_len_def)

lemma covers_oxm_bsn_l3_dst_class_id_1_2 [c_proved]: "covered 3 loci_validate_of_oxm_bsn_l3_dst_class_id_OF_VERSION_1_2 (d_id OF_OXM_BSN_L3_DST_CLASS_ID)"
  by (simp add: loci_validate_of_oxm_bsn_l3_dst_class_id_OF_VERSION_1_2_def covered_min_id fits_def of_object_fixed_len_def)

lemma covers_oxm_bsn_l3_dst_class_id_masked_1_2 [c_proved]: "covered 3 loci_validate_of_oxm_bsn_l3_dst_class_id_masked_OF_VERSION_1_2 (d_id OF_OXM_BSN_L3_DST_CLASS_ID_MASKED)"
  by (simp add: loci_validate_of_oxm_bsn_l3_dst_class_id_masked_OF_VERSION_1_2_def covered_min_id fits_def of_object_fixed_len_def)

lemma covers_oxm_bsn_l3_interface_class_id_1_2 [c_proved]: "covered 3 loci_validate_of_oxm_bsn_l3_interface_class_id_OF_VERSION_1_2 (d_id OF_OXM_BSN_L3_INTERFACE_CLASS_ID)"
  by (simp add: loci_validate_of_oxm_bsn_l3_interface_class_id_OF_VERSION_1_2_def covered_min_id fits_def of_object_fixed_len_def)

lemma covers_oxm_bsn_l3_interface_class_id_masked_1_2 [c_proved]: "covered 3 loci_validate_of_oxm_bsn_l3_interface_class_id_masked_OF_VERSION_1_2 (d_id OF_OXM_BSN_L3_INTERFACE_CLASS_ID_MASKED)"
  by (simp add: loci_validate_of_oxm_bsn_l3_interface_class_id_masked_OF_VERSION_1_2_def covered_min_id fits_def of_object_fixed_len_def)

lemma covers_oxm_bsn_l3_src_class_id_1_2 [c_proved]: "covered 3 loci_validate_of_oxm_bsn_l3_src_class_id_OF_VERSION_1_2 (d_id OF_OXM_BSN_L3_SRC_CLASS_ID)"
  by (simp add: loci_validate_of_oxm_bsn_l3_src_class_id_OF_VERSION_1_2_def covered_min_id fits_def of_object_fixed_len_def)

lemma covers_oxm_bsn_l3_src_class_id_masked_1_2 [c_proved]: "covered 3 loci_validate_of_oxm_bsn_l3_src_class_id_masked_OF_VERSION_1_2 (d_id OF_OXM_BSN_L3_SRC_CLASS_ID_MASKED)"
  by (simp add: loci_validate_of_oxm_bsn_l3_src_class_id_masked_OF_VERSION_1_2_def covered_min_id fits_def of_object_fixed_len_def)

lemma covers_oxm_bsn_lag_id_1_2 [c_proved]: "covered 3 loci_validate_of_oxm_bsn_lag_id_OF_VERSION_1_2 (d_id OF_OXM_BSN_LAG_ID)"
  by (simp add: loci_validate_of_oxm_bsn_lag_id_OF_VERSION_1_2_def covered_min_id fits_def of_object_fixed_len_def)

lemma covers_oxm_bsn_lag_id_masked_1_2 [c_proved]: "covered 3 loci_validate_of_oxm_bsn_lag_id_masked_OF_VERSION_1_2 (d_id OF_OXM_BSN_LAG_ID_MASKED)"
  by (simp add: loci_validate_of_oxm_bsn_lag_id_masked_OF_VERSION_1_2_def covered_min_id fits_def of_object_fixed_len_def)

lemma covers_oxm_bsn_tcp_flags_1_2 [c_proved]: "covered 3 loci_validate_of_oxm_bsn_tcp_flags_OF_VERSION_1_2 (d_id OF_OXM_BSN_TCP_FLAGS)"
  by (simp add: loci_validate_of_oxm_bsn_tcp_flags_OF_VERSION_1_2_def covered_min_id fits_def of_object_fixed_len_def)

lemma covers_oxm_bsn_tcp_flags_masked_1_2 [c_proved]: "covered 3 loci_validate_of_oxm_bsn_tcp_flags_masked_OF_VERSION_1_2 (d_id OF_OXM_BSN_TCP_FLAGS_MASKED)"
  by (simp add: loci_validate_of_oxm_bsn_tcp_flags_masked_OF_VERSION_1_2_def covered_min_id fits_def of_object_fixed_len_def)

lemma covers_oxm_bsn_udf0_1_2 [c_proved]: "covered 3 loci_validate_of_oxm_bsn_udf0_OF_VERSION_1_2 (d_id OF_OXM_BSN_UDF0)"
  by (simp add: loci_validate_of_oxm_bsn_udf0_OF_VERSION_1_2_def covered_min_id fits_def of_object_fixed_len_def)

lemma covers_oxm_bsn_udf0_masked_1_2 [c_proved]: "covered 3 loci_validate_of_oxm_bsn_udf0_masked_OF_VERSION_1_2 (d_id OF_OXM_BSN_UDF0_MASKED)"
  by (simp add: loci_validate_of_oxm_bsn_udf0_masked_OF_VERSION_1_2_def covered_min_id fits_def of_object_fixed_len_def)

lemma covers_oxm_bsn_udf1_1_2 [c_proved]: "covered 3 loci_validate_of_oxm_bsn_udf1_OF_VERSION_1_2 (d_id OF_OXM_BSN_UDF1)"
  by (simp add: loci_validate_of_oxm_bsn_udf1_OF_VERSION_1_2_def covered_min_id fits_def of_object_fixed_len_def)

lemma covers_oxm_bsn_udf1_masked_1_2 [c_proved]: "covered 3 loci_validate_of_oxm_bsn_udf1_masked_OF_VERSION_1_2 (d_id OF_OXM_BSN_UDF1_MASKED)"
  by (simp add: loci_validate_of_oxm_bsn_udf1_masked_OF_VERSION_1_2_def covered_min_id fits_def of_object_fixed_len_def)

lemma covers_oxm_bsn_udf2_1_2 [c_proved]: "covered 3 loci_validate_of_oxm_bsn_udf2_OF_VERSION_1_2 (d_id OF_OXM_BSN_UDF2)"
  by (simp add: loci_validate_of_oxm_bsn_udf2_OF_VERSION_1_2_def covered_min_id fits_def of_object_fixed_len_def)

lemma covers_oxm_bsn_udf2_masked_1_2 [c_proved]: "covered 3 loci_validate_of_oxm_bsn_udf2_masked_OF_VERSION_1_2 (d_id OF_OXM_BSN_UDF2_MASKED)"
  by (simp add: loci_validate_of_oxm_bsn_udf2_masked_OF_VERSION_1_2_def covered_min_id fits_def of_object_fixed_len_def)

lemma covers_oxm_bsn_udf3_1_2 [c_proved]: "covered 3 loci_validate_of_oxm_bsn_udf3_OF_VERSION_1_2 (d_id OF_OXM_BSN_UDF3)"
  by (simp add: loci_validate_of_oxm_bsn_udf3_OF_VERSION_1_2_def covered_min_id fits_def of_object_fixed_len_def)

lemma covers_oxm_bsn_udf3_masked_1_2 [c_proved]: "covered 3 loci_validate_of_oxm_bsn_udf3_masked_OF_VERSION_1_2 (d_id OF_OXM_BSN_UDF3_MASKED)"
  by (simp add: loci_validate_of_oxm_bsn_udf3_masked_OF_VERSION_1_2_def covered_min_id fits_def of_object_fixed_len_def)

lemma covers_oxm_bsn_udf4_1_2 [c_proved]: "covered 3 loci_validate_of_oxm_bsn_udf4_OF_VERSION_1_2 (d_id OF_OXM_BSN_UDF4)"
  by (simp add: loci_validate_of_oxm_bsn_udf4_OF_VERSION_1_2_def covered_min_id fits_def of_object_fixed_len_def)

lemma covers_oxm_bsn_udf4_masked_1_2 [c_proved]: "covered 3 loci_validate_of_oxm_bsn_udf4_masked_OF_VERSION_1_2 (d_id OF_OXM_BSN_UDF4_MASKED)"
  by (simp add: loci_validate_of_oxm_bsn_udf4_masked_OF_VERSION_1_2_def covered_min_id fits_def of_object_fixed_len_def)

lemma covers_oxm_bsn_udf5_1_2 [c_proved]: "covered 3 loci_validate_of_oxm_bsn_udf5_OF_VERSION_1_2 (d_id OF_OXM_BSN_UDF5)"
  by (simp add: loci_validate_of_oxm_bsn_udf5_OF_VERSION_1_2_def covered_min_id fits_def of_object_fixed_len_def)

lemma covers_oxm_bsn_udf5_masked_1_2 [c_proved]: "covered 3 loci_validate_of_oxm_bsn_udf5_masked_OF_VERSION_1_2 (d_id OF_OXM_BSN_UDF5_MASKED)"
  by (simp add: loci_validate_of_oxm_bsn_udf5_masked_OF_VERSION_1_2_def covered_min_id fits_def of_object_fixed_len_def)

lemma covers_oxm_bsn_udf6_1_2 [c_proved]: "covered 3 loci_validate_of_oxm_bsn_udf6_OF_VERSION_1_2 (d_id OF_OXM_BSN_UDF6)"
  by (simp add: loci_validate_of_oxm_bsn_udf6_OF_VERSION_1_2_def covered_min_id fits_def of_object_fixed_len_def)

lemma covers_oxm_bsn_udf6_masked_1_2 [c_proved]: "covered 3 loci_validate_of_oxm_bsn_udf6_masked_OF_VERSION_1_2 (d_id OF_OXM_BSN_UDF6_MASKED)"
  by (simp add: loci_validate_of_oxm_bsn_udf6_masked_OF_VERSION_1_2_def covered_min_id fits_def of_object_fixed_len_def)

lemma covers_oxm_bsn_udf7_1_2 [c_proved]: "covered 3 loci_validate_of_oxm_bsn_udf7_OF_VERSION_1_2 (d_id OF_OXM_BSN_UDF7)"
  by (simp add: loci_validate_of_oxm_bsn_udf7_OF_VERSION_1_2_def covered_min_id fits_def of_object_fixed_len_def)

lemma covers_oxm_bsn_udf7_masked_1_2 [c_proved]: "covered 3 loci_validate_of_oxm_bsn_udf7_masked_OF_VERSION_1_2 (d_id OF_OXM_BSN_UDF7_MASKED)"
  by (simp add: loci_validate_of_oxm_bsn_udf7_masked_OF_VERSION_1_2_def covered_min_id fits_def of_object_fixed_len_def)

lemma covers_oxm_bsn_vlan_xlate_port_group_id_1_2 [c_proved]: "covered 3 loci_validate_of_oxm_bsn_vlan_xlate_port_group_id_OF_VERSION_1_2 (d_id OF_OXM_BSN_VLAN_XLATE_PORT_GROUP_ID)"
  by (simp add: loci_validate_of_oxm_bsn_vlan_xlate_port_group_id_OF_VERSION_1_2_def covered_min_id fits_def of_object_fixed_len_def)

lemma covers_oxm_bsn_vlan_xlate_port_group_id_masked_1_2 [c_proved]: "covered 3 loci_validate_of_oxm_bsn_vlan_xlate_port_group_id_masked_OF_VERSION_1_2 (d_id OF_OXM_BSN_VLAN_XLATE_PORT_GROUP_ID_MASKED)"
  by (simp add: loci_validate_of_oxm_bsn_vlan_xlate_port_group_id_masked_OF_VERSION_1_2_def covered_min_id fits_def of_object_fixed_len_def)

lemma covers_oxm_bsn_vrf_1_2 [c_proved]: "covered 3 loci_validate_of_oxm_bsn_vrf_OF_VERSION_1_2 (d_id OF_OXM_BSN_VRF)"
  by (simp add: loci_validate_of_oxm_bsn_vrf_OF_VERSION_1_2_def covered_min_id fits_def of_object_fixed_len_def)

lemma covers_oxm_bsn_vrf_masked_1_2 [c_proved]: "covered 3 loci_validate_of_oxm_bsn_vrf_masked_OF_VERSION_1_2 (d_id OF_OXM_BSN_VRF_MASKED)"
  by (simp add: loci_validate_of_oxm_bsn_vrf_masked_OF_VERSION_1_2_def covered_min_id fits_def of_object_fixed_len_def)

lemma covers_oxm_eth_dst_1_2 [c_proved]: "covered 3 loci_validate_of_oxm_eth_dst_OF_VERSION_1_2 (d_id OF_OXM_ETH_DST)"
  by (simp add: loci_validate_of_oxm_eth_dst_OF_VERSION_1_2_def covered_min_id fits_def of_object_fixed_len_def)

lemma covers_oxm_eth_dst_masked_1_2 [c_proved]: "covered 3 loci_validate_of_oxm_eth_dst_masked_OF_VERSION_1_2 (d_id OF_OXM_ETH_DST_MASKED)"
  by (simp add: loci_validate_of_oxm_eth_dst_masked_OF_VERSION_1_2_def covered_min_id fits_def of_object_fixed_len_def)

lemma covers_oxm_eth_src_1_2 [c_proved]: "covered 3 loci_validate_of_oxm_eth_src_OF_VERSION_1_2 (d_id OF_OXM_ETH_SRC)"
  by (simp add: loci_validate_of_oxm_eth_src_OF_VERSION_1_2_def covered_min_id fits_def of_object_fixed_len_def)

lemma covers_oxm_eth_src_masked_1_2 [c_proved]: "covered 3 loci_validate_of_oxm_eth_src_masked_OF_VERSION_1_2 (d_id OF_OXM_ETH_SRC_MASKED)"
  by (simp add: loci_validate_of_oxm_eth_src_masked_OF_VERSION_1_2_def covered_min_id fits_def of_object_fixed_len_def)

lemma covers_oxm_eth_type_1_2 [c_proved]: "covered 3 loci_validate_of_oxm_eth_type_OF_VERSION_1_2 (d_id OF_OXM_ETH_TYPE)"
  by (simp add: loci_validate_of_oxm_eth_type_OF_VERSION_1_2_def covered_min_id fits_def of_object_fixed_len_def)

lemma covers_oxm_eth_type_masked_1_2 [c_proved]: "covered 3 loci_validate_of_oxm_eth_type_masked_OF_VERSION_1_2 (d_id OF_OXM_ETH_TYPE_MASKED)"
  by (simp add: loci_validate_of_oxm_eth_type_masked_OF_VERSION_1_2_def covered_min_id fits_def of_object_fixed_len_def)

lemma covers_oxm_icmpv4_code_1_2 [c_proved]: "covered 3 loci_validate_of_oxm_icmpv4_code_OF_VERSION_1_2 (d_id OF_OXM_ICMPV4_CODE)"
  by (simp add: loci_validate_of_oxm_icmpv4_code_OF_VERSION_1_2_def covered_min_id fits_def of_object_fixed_len_def)

lemma covers_oxm_icmpv4_code_masked_1_2 [c_proved]: "covered 3 loci_validate_of_oxm_icmpv4_code_masked_OF_VERSION_1_2 (d_id OF_OXM_ICMPV4_CODE_MASKED)"
  by (simp add: loci_validate_of_oxm_icmpv4_code_masked_OF_VERSION_1_2_def covered_min_id fits_def of_object_fixed_len_def)

lemma covers_oxm_icmpv4_type_1_2 [c_proved]: "covered 3 loci_validate_of_oxm_icmpv4_type_OF_VERSION_1_2 (d_id OF_OXM_ICMPV4_TYPE)"
  by (simp add: loci_validate_of_oxm_icmpv4_type_OF_VERSION_1_2_def covered_min_id fits_def of_object_fixed_len_def)

lemma covers_oxm_icmpv4_type_masked_1_2 [c_proved]: "covered 3 loci_validate_of_oxm_icmpv4_type_masked_OF_VERSION_1_2 (d_id OF_OXM_ICMPV4_TYPE_MASKED)"
  by (simp add: loci_validate_of_oxm_icmpv4_type_masked_OF_VERSION_1_2_def covered_min_id fits_def of_object_fixed_len_def)

lemma covers_oxm_icmpv6_code_1_2 [c_proved]: "covered 3 loci_validate_of_oxm_icmpv6_code_OF_VERSION_1_2 (d_id OF_OXM_ICMPV6_CODE)"
  by (simp add: loci_validate_of_oxm_icmpv6_code_OF_VERSION_1_2_def covered_min_id fits_def of_object_fixed_len_def)

lemma covers_oxm_icmpv6_code_masked_1_2 [c_proved]: "covered 3 loci_validate_of_oxm_icmpv6_code_masked_OF_VERSION_1_2 (d_id OF_OXM_ICMPV6_CODE_MASKED)"
  by (simp add: loci_validate_of_oxm_icmpv6_code_masked_OF_VERSION_1_2_def covered_min_id fits_def of_object_fixed_len_def)

lemma covers_oxm_icmpv6_type_1_2 [c_proved]: "covered 3 loci_validate_of_oxm_icmpv6_type_OF_VERSION_1_2 (d_id OF_OXM_ICMPV6_TYPE)"
  by (simp add: loci_validate_of_oxm_icmpv6_type_OF_VERSION_1_2_def covered_min_id fits_def of_object_fixed_len_def)

lemma covers_oxm_icmpv6_type_masked_1_2 [c_proved]: "covered 3 loci_validate_of_oxm_icmpv6_type_masked_OF_VERSION_1_2 (d_id OF_OXM_ICMPV6_TYPE_MASKED)"
  by (simp add: loci_validate_of_oxm_icmpv6_type_masked_OF_VERSION_1_2_def covered_min_id fits_def of_object_fixed_len_def)

lemma covers_oxm_in_phy_port_1_2 [c_proved]: "covered 3 loci_validate_of_oxm_in_phy_port_OF_VERSION_1_2 (d_id OF_OXM_IN_PHY_PORT)"
  by (simp add: loci_validate_of_oxm_in_phy_port_OF_VERSION_1_2_def covered_min_id fits_def of_object_fixed_len_def)

lemma covers_oxm_in_phy_port_masked_1_2 [c_proved]: "covered 3 loci_validate_of_oxm_in_phy_port_masked_OF_VERSION_1_2 (d_id OF_OXM_IN_PHY_PORT_MASKED)"
  by (simp add: loci_validate_of_oxm_in_phy_port_masked_OF_VERSION_1_2_def covered_min_id fits_def of_object_fixed_len_def)

lemma covers_oxm_in_port_1_2 [c_proved]: "covered 3 loci_validate_of_oxm_in_port_OF_VERSION_1_2 (d_id OF_OXM_IN_PORT)"
  by (simp add: loci_validate_of_oxm_in_port_OF_VERSION_1_2_def covered_min_id fits_def of_object_fixed_len_def)

lemma covers_oxm_in_port_masked_1_2 [c_proved]: "covered 3 loci_validate_of_oxm_in_port_masked_OF_VERSION_1_2 (d_id OF_OXM_IN_PORT_MASKED)"
  by (simp add: loci_validate_of_oxm_in_port_masked_OF_VERSION_1_2_def covered_min_id fits_def of_object_fixed_len_def)

lemma covers_oxm_ip_dscp_1_2 [c_proved]: "covered 3 loci_validate_of_oxm_ip_dscp_OF_VERSION_1_2 (d_id OF_OXM_IP_DSCP)"
  by (simp add: loci_validate_of_oxm_ip_dscp_OF_VERSION_1_2_def covered_min_id fits_def of_object_fixed_len_def)

lemma covers_oxm_ip_dscp_masked_1_2 [c_proved]: "covered 3 loci_validate_of_oxm_ip_dscp_masked_OF_VERSION_1_2 (d_id OF_OXM_IP_DSCP_MASKED)"
  by (simp add: loci_validate_of_oxm_ip_dscp_masked_OF_VERSION_1_2_def covered_min_id fits_def of_object_fixed_len_def)

lemma covers_oxm_ip_ecn_1_2 [c_proved]: "covered 3 loci_validate_of_oxm_ip_ecn_OF_VERSION_1_2 (d_id OF_OXM_IP_ECN)"
  by (simp add: loci_validate_of_oxm_ip_ecn_OF_VERSION_1_2_def covered_min_id fits_def of_object_fixed_len_def)

lemma covers_oxm_ip_ecn_masked_1_2 [c_proved]: "covered 3 loci_validate_of_oxm_ip_ecn_masked_OF_VERSION_1_2 (d_id OF_OXM_IP_ECN_MASKED)"
  by (simp add: loci_validate_of_oxm_ip_ecn_masked_OF_VERSION_1_2_def covered_min_id fits_def of_object_fixed_len_def)

lemma covers_oxm_ip_proto_1_2 [c_proved]: "covered 3 loci_validate_of_oxm_ip_proto_OF_VERSION_1_2 (d_id OF_OXM_IP_PROTO)"
  by (simp add: loci_validate_of_oxm_ip_proto_OF_VERSION_1_2_def covered_min_id fits_def of_object_fixed_len_def)

lemma covers_oxm_ip_proto_masked_1_2 [c_proved]: "covered 3 loci_validate_of_oxm_ip_proto_masked_OF_VERSION_1_2 (d_id OF_OXM_IP_PROTO_MASKED)"
  by (simp add: loci_validate_of_oxm_ip_proto_masked_OF_VERSION_1_2_def covered_min_id fits_def of_object_fixed_len_def)

lemma covers_oxm_ipv4_dst_1_2 [c_proved]: "covered 3 loci_validate_of_oxm_ipv4_dst_OF_VERSION_1_2 (d_id OF_OXM_IPV4_DST)"
  by (simp add: loci_validate_of_oxm_ipv4_dst_OF_VERSION_1_2_def covered_min_id fits_def of_object_fixed_len_def)

lemma covers_oxm_ipv4_dst_masked_1_2 [c_proved]: "covered 3 loci_validate_of_oxm_ipv4_dst_masked_OF_VERSION_1_2 (d_id OF_OXM_IPV4_DST_MASKED)"
  by (simp add: loci_validate_of_oxm_ipv4_dst_masked_OF_VERSION_1_2_def covered_min_id fits_def of_object_fixed_len_def)

lemma covers_oxm_ipv4_src_1_2 [c_proved]: "covered 3 loci_validate_of_oxm_ipv4_src_OF_VERSION_1_2 (d_id OF_OXM_IPV4_SRC)"
  by (simp add: loci_validate_of_oxm_ipv4_src_OF_VERSION_1_2_def covered_min_id fits_def of_object_fixed_len_def)

lemma covers_oxm_ipv4_src_masked_1_2 [c_proved]: "covered 3 loci_validate_of_oxm_ipv4_src_masked_OF_VERSION_1_2 (d_id OF_OXM_IPV4_SRC_MASKED)"
  by (simp add: loci_validate_of_oxm_ipv4_src_masked_OF_VERSION_1_2_def covered_min_id fits_def of_object_fixed_len_def)

lemma covers_oxm_ipv6_dst_1_2 [c_proved]: "covered 3 loci_validate_of_oxm_ipv6_dst_OF_VERSION_1_2 (d_id OF_OXM_IPV6_DST)"
  by (simp add: loci_validate_of_oxm_ipv6_dst_OF_VERSION_1_2_def covered_min_id fits_def of_object_fixed_len_def)

lemma covers_oxm_ipv6_dst_masked_1_2 [c_proved]: "covered 3 loci_validate_of_oxm_ipv6_dst_masked_OF_VERSION_1_2 (d_id OF_OXM_IPV6_DST_MASKED)"
  by (simp add: loci_validate_of_oxm_ipv6_dst_masked_OF_VERSION_1_2_def covered_min_id fits_def of_object_fixed_len_def)

lemma covers_oxm_ipv6_flabel_1_2 [c_proved]: "covered 3 loci_validate_of_oxm_ipv6_flabel_OF_VERSION_1_2 (d_id OF_OXM_IPV6_FLABEL)"
  by (simp add: loci_validate_of_oxm_ipv6_flabel_OF_VERSION_1_2_def covered_min_id fits_def of_object_fixed_len_def)

lemma covers_oxm_ipv6_flabel_masked_1_2 [c_proved]: "covered 3 loci_validate_of_oxm_ipv6_flabel_masked_OF_VERSION_1_2 (d_id OF_OXM_IPV6_FLABEL_MASKED)"
  by (simp add: loci_validate_of_oxm_ipv6_flabel_masked_OF_VERSION_1_2_def covered_min_id fits_def of_object_fixed_len_def)

lemma covers_oxm_ipv6_nd_sll_1_2 [c_proved]: "covered 3 loci_validate_of_oxm_ipv6_nd_sll_OF_VERSION_1_2 (d_id OF_OXM_IPV6_ND_SLL)"
  by (simp add: loci_validate_of_oxm_ipv6_nd_sll_OF_VERSION_1_2_def covered_min_id fits_def of_object_fixed_len_def)

lemma covers_oxm_ipv6_nd_sll_masked_1_2 [c_proved]: "covered 3 loci_validate_of_oxm_ipv6_nd_sll_masked_OF_VERSION_1_2 (d_id OF_OXM_IPV6_ND_SLL_MASKED)"
  by (simp add: loci_validate_of_oxm_ipv6_nd_sll_masked_OF_VERSION_1_2_def covered_min_id fits_def of_object_fixed_len_def)

lemma covers_oxm_ipv6_nd_target_1_2 [c_proved]: "covered 3 loci_validate_of_oxm_ipv6_nd_target_OF_VERSION_1_2 (d_id OF_OXM_IPV6_ND_TARGET)"
  by (simp add: loci_validate_of_oxm_ipv6_nd_target_OF_VERSION_1_2_def covered_min_id fits_def of_object_fixed_len_def)

lemma covers_oxm_ipv6_nd_target_masked_1_2 [c_proved]: "covered 3 loci_validate_of_oxm_ipv6_nd_target_masked_OF_VERSION_1_2 (d_id OF_OXM_IPV6_ND_TARGET_MASKED)"
  by (simp add: loci_validate_of_oxm_ipv6_nd_target_masked_OF_VERSION_1_2_def covered_min_id fits_def of_object_fixed_len_def)

lemma covers_oxm_ipv6_nd_tll_1_2 [c_proved]: "covered 3 loci_validate_of_oxm_ipv6_nd_tll_OF_VERSION_1_2 (d_id OF_OXM_IPV6_ND_TLL)"
  by (simp add: loci_validate_of_oxm_ipv6_nd_tll_OF_VERSION_1_2_def covered_min_id fits_def of_object_fixed_len_def)

lemma covers_oxm_ipv6_nd_tll_masked_1_2 [c_proved]: "covered 3 loci_validate_of_oxm_ipv6_nd_tll_masked_OF_VERSION_1_2 (d_id OF_OXM_IPV6_ND_TLL_MASKED)"
  by (simp add: loci_validate_of_oxm_ipv6_nd_tll_masked_OF_VERSION_1_2_def covered_min_id fits_def of_object_fixed_len_def)

lemma covers_oxm_ipv6_src_1_2 [c_proved]: "covered 3 loci_validate_of_oxm_ipv6_src_OF_VERSION_1_2 (d_id OF_OXM_IPV6_SRC)"
  by (simp add: loci_validate_of_oxm_ipv6_src_OF_VERSION_1_2_def covered_min_id fits_def of_object_fixed_len_def)

lemma covers_oxm_ipv6_src_masked_1_2 [c_proved]: "covered 3 loci_validate_of_oxm_ipv6_src_masked_OF_VERSION_1_2 (d_id OF_OXM_IPV6_SRC_MASKED)"
  by (simp add: loci_validate_of_oxm_ipv6_src_masked_OF_VERSION_1_2_def covered_min_id fits_def of_object_fixed_len_def)

lemma covers_oxm_metadata_1_2 [c_proved]: "covered 3 loci_validate_of_oxm_metadata_OF_VERSION_1_2 (d_id OF_OXM_METADATA)"
  by (simp add: loci_validate_of_oxm_metadata_OF_VERSION_1_2_def covered_min_id fits_def of_object_fixed_len_def)

lemma covers_oxm_metadata_masked_1_2 [c_proved]: "covered 3 loci_validate_of_oxm_metadata_masked_OF_VERSION_1_2 (d_id OF_OXM_METADATA_MASKED)"
  by (simp add: loci_validate_of_oxm_metadata_masked_OF_VERSION_1_2_def covered_min_id fits_def of_object_fixed_len_def)

lemma covers_oxm_mpls_label_1_2 [c_proved]: "covered 3 loci_validate_of_oxm_mpls_label_OF_VERSION_1_2 (d_id OF_OXM_MPLS_LABEL)"
  by (simp add: loci_validate_of_oxm_mpls_label_OF_VERSION_1_2_def covered_min_id fits_def of_object_fixed_len_def)

lemma covers_oxm_mpls_label_masked_1_2 [c_proved]: "covered 3 loci_validate_of_oxm_mpls_label_masked_OF_VERSION_1_2 (d_id OF_OXM_MPLS_LABEL_MASKED)"
  by (simp add: loci_validate_of_oxm_mpls_label_masked_OF_VERSION_1_2_def covered_min_id fits_def of_object_fixed_len_def)

lemma covers_oxm_mpls_tc_1_2 [c_proved]: "covered 3 loci_validate_of_oxm_mpls_tc_OF_VERSION_1_2 (d_id OF_OXM_MPLS_TC)"
  by (simp add: loci_validate_of_oxm_mpls_tc_OF_VERSION_1_2_def covered_min_id fits_def of_object_fixed_len_def)

lemma covers_oxm_mpls_tc_masked_1_2 [c_proved]: "covered 3 loci_validate_of_oxm_mpls_tc_masked_OF_VERSION_1_2 (d_id OF_OXM_MPLS_TC_MASKED)"
  by (simp add: loci_validate_of_oxm_mpls_tc_masked_OF_VERSION_1_2_def covered_min_id fits_def of_object_fixed_len_def)

lemma covers_oxm_sctp_dst_1_2 [c_proved]: "covered 3 loci_validate_of_oxm_sctp_dst_OF_VERSION_1_2 (d_id OF_OXM_SCTP_DST)"
  by (simp add: loci_validate_of_oxm_sctp_dst_OF_VERSION_1_2_def covered_min_id fits_def of_object_fixed_len_def)

lemma covers_oxm_sctp_dst_masked_1_2 [c_proved]: "covered 3 loci_validate_of_oxm_sctp_dst_masked_OF_VERSION_1_2 (d_id OF_OXM_SCTP_DST_MASKED)"
  by (simp add: loci_validate_of_oxm_sctp_dst_masked_OF_VERSION_1_2_def covered_min_id fits_def of_object_fixed_len_def)

lemma covers_oxm_sctp_src_1_2 [c_proved]: "covered 3 loci_validate_of_oxm_sctp_src_OF_VERSION_1_2 (d_id OF_OXM_SCTP_SRC)"
  by (simp add: loci_validate_of_oxm_sctp_src_OF_VERSION_1_2_def covered_min_id fits_def of_object_fixed_len_def)

lemma covers_oxm_sctp_src_masked_1_2 [c_proved]: "covered 3 loci_validate_of_oxm_sctp_src_masked_OF_VERSION_1_2 (d_id OF_OXM_SCTP_SRC_MASKED)"
  by (simp add: loci_validate_of_oxm_sctp_src_masked_OF_VERSION_1_2_def covered_min_id fits_def of_object_fixed_len_def)

lemma covers_oxm_tcp_dst_1_2 [c_proved]: "covered 3 loci_validate_of_oxm_tcp_dst_OF_VERSION_1_2 (d_id OF_OXM_TCP_DST)"
  by (simp add: loci_validate_of_oxm_tcp_dst_OF_VERSION_1_2_def covered_min_id fits_def of_object_fixed_len_def)

lemma covers_oxm_tcp_dst_masked_1_2 [c_proved]: "covered 3 loci_validate_of_oxm_tcp_dst_masked_OF_VERSION_1_2 (d_id OF_OXM_TCP_DST_MASKED)"
  by (simp add: loci_validate_of_oxm_tcp_dst_masked_OF_VERSION_1_2_def covered_min_id fits_def of_object_fixed_len_def)

lemma covers_oxm_tcp_src_1_2 [c_proved]: "covered 3 loci_validate_of_oxm_tcp_src_OF_VERSION_1_2 (d_id OF_OXM_TCP_SRC)"
  by (simp add: loci_validate_of_oxm_tcp_src_OF_VERSION_1_2_def covered_min_id fits_def of_object_fixed_len_def)

lemma covers_oxm_tcp_src_masked_1_2 [c_proved]: "covered 3 loci_validate_of_oxm_tcp_src_masked_OF_VERSION_1_2 (d_id OF_OXM_TCP_SRC_MASKED)"
  by (simp add: loci_validate_of_oxm_tcp_src_masked_OF_VERSION_1_2_def covered_min_id fits_def of_object_fixed_len_def)

lemma covers_oxm_tunnel_ipv4_dst_1_2 [c_proved]: "covered 3 loci_validate_of_oxm_tunnel_ipv4_dst_OF_VERSION_1_2 (d_id OF_OXM_TUNNEL_IPV4_DST)"
  by (simp add: loci_validate_of_oxm_tunnel_ipv4_dst_OF_VERSION_1_2_def covered_min_id fits_def of_object_fixed_len_def)

lemma covers_oxm_tunnel_ipv4_dst_masked_1_2 [c_proved]: "covered 3 loci_validate_of_oxm_tunnel_ipv4_dst_masked_OF_VERSION_1_2 (d_id OF_OXM_TUNNEL_IPV4_DST_MASKED)"
  by (simp add: loci_validate_of_oxm_tunnel_ipv4_dst_masked_OF_VERSION_1_2_def covered_min_id fits_def of_object_fixed_len_def)

lemma covers_oxm_tunnel_ipv4_src_1_2 [c_proved]: "covered 3 loci_validate_of_oxm_tunnel_ipv4_src_OF_VERSION_1_2 (d_id OF_OXM_TUNNEL_IPV4_SRC)"
  by (simp add: loci_validate_of_oxm_tunnel_ipv4_src_OF_VERSION_1_2_def covered_min_id fits_def of_object_fixed_len_def)

lemma covers_oxm_tunnel_ipv4_src_masked_1_2 [c_proved]: "covered 3 loci_validate_of_oxm_tunnel_ipv4_src_masked_OF_VERSION_1_2 (d_id OF_OXM_TUNNEL_IPV4_SRC_MASKED)"
  by (simp add: loci_validate_of_oxm_tunnel_ipv4_src_masked_OF_VERSION_1_2_def covered_min_id fits_def of_object_fixed_len_def)

lemma covers_oxm_udp_dst_1_2 [c_proved]: "covered 3 loci_validate_of_oxm_udp_dst_OF_VERSION_1_2 (d_id OF_OXM_UDP_DST)"
  by (simp add: loci_validate_of_oxm_udp_dst_OF_VERSION_1_2_def covered_min_id fits_def of_object_fixed_len_def)

lemma covers_oxm_udp_dst_masked_1_2 [c_proved]: "covered 3 loci_validate_of_oxm_udp_dst_masked_OF_VERSION_1_2 (d_id OF_OXM_UDP_DST_MASKED)"
  by (simp add: loci_validate_of_oxm_udp_dst_masked_OF_VERSION_1_2_def covered_min_id fits_def of_object_fixed_len_def)

lemma covers_oxm_udp_src_1_2 [c_proved]: "covered 3 loci_validate_of_oxm_udp_src_OF_VERSION_1_2 (d_id OF_OXM_UDP_SRC)"
  by (simp add: loci_validate_of_oxm_udp_src_OF_VERSION_1_2_def covered_min_id fits_def of_object_fixed_len_def)

lemma covers_oxm_udp_src_masked_1_2 [c_proved]: "covered 3 loci_validate_of_oxm_udp_src_masked_OF_VERSION_1_2 (d_id OF_OXM_UDP_SRC_MASKED)"
  by (simp add: loci_validate_of_oxm_udp_src_masked_OF_VERSION_1_2_def covered_min_id fits_def of_object_fixed_len_def)

lemma covers_oxm_vlan_pcp_1_2 [c_proved]: "covered 3 loci_validate_of_oxm_vlan_pcp_OF_VERSION_1_2 (d_id OF_OXM_VLAN_PCP)"
  by (simp add: loci_validate_of_oxm_vlan_pcp_OF_VERSION_1_2_def covered_min_id fits_def of_object_fixed_len_def)

lemma covers_oxm_vlan_pcp_masked_1_2 [c_proved]: "covered 3 loci_validate_of_oxm_vlan_pcp_masked_OF_VERSION_1_2 (d_id OF_OXM_VLAN_PCP_MASKED)"
  by (simp add: loci_validate_of_oxm_vlan_pcp_masked_OF_VERSION_1_2_def covered_min_id fits_def of_object_fixed_len_def)

lemma covers_oxm_vlan_vid_1_2 [c_proved]: "covered 3 loci_validate_of_oxm_vlan_vid_OF_VERSION_1_2 (d_id OF_OXM_VLAN_VID)"
  by (simp add: loci_validate_of_oxm_vlan_vid_OF_VERSION_1_2_def covered_min_id fits_def of_object_fixed_len_def)

lemma covers_oxm_vlan_vid_masked_1_2 [c_proved]: "covered 3 loci_validate_of_oxm_vlan_vid_masked_OF_VERSION_1_2 (d_id OF_OXM_VLAN_VID_MASKED)"
  by (simp add: loci_validate_of_oxm_vlan_vid_masked_OF_VERSION_1_2_def covered_min_id fits_def of_object_fixed_len_def)

lemma covers_queue_prop_max_rate_1_2 [c_proved]: "covered 3 loci_validate_of_queue_prop_max_rate_OF_VERSION_1_2 (d_id OF_QUEUE_PROP_MAX_RATE)"
  by (simp add: loci_validate_of_queue_prop_max_rate_OF_VERSION_1_2_def covered_min_id fits_def of_object_fixed_len_def)

lemma covers_queue_prop_min_rate_1_2 [c_proved]: "covered 3 loci_validate_of_queue_prop_min_rate_OF_VERSION_1_2 (d_id OF_QUEUE_PROP_MIN_RATE)"
  by (simp add: loci_validate_of_queue_prop_min_rate_OF_VERSION_1_2_def covered_min_id fits_def of_object_fixed_len_def)

lemma of_action_nicira_covered_1_2 [c_proved]: "covered 3 loci_validate_of_action_nicira_OF_VERSION_1_2 (of_action_nicira_wire_object_id_get 3)"
  unfolding loci_validate_of_action_nicira_OF_VERSION_1_2_def of_action_nicira_wire_object_id_get_def
  by (simp only: refl if_True if_False eq_num, intro c_intro)
   (simp_all add: case_covered_def c_proved map_of_Cons_code fits_def of_object_fixed_len_def del: map_of.simps cong: map_of_freeze)

lemma of_action_bsn_covered_1_2 [c_proved]: "covered 3 loci_validate_of_action_bsn_OF_VERSION_1_2 (of_action_bsn_wire_object_id_get 3)"
  unfolding loci_validate_of_action_bsn_OF_VERSION_1_2_def of_action_bsn_wire_object_id_get_def
  by (simp only: refl if_True if_False eq_num, intro c_intro)
   (simp_all add: case_covered_def c_proved map_of_Cons_code fits_def of_object_fixed_len_def del: map_of.simps cong: map_of_freeze)

lemma of_action_experimenter_covered_1_2 [c_proved]: "covered 3 loci_validate_of_action_experimenter_OF_VERSION_1_2 (of_action_experimenter_wire_object_id_get 3)"
  unfolding loci_validate_of_action_experimenter_OF_VERSION_1_2_def of_action_experimenter_wire_object_id_get_def
  by (simp only: refl if_True if_False eq_num, intro c_intro)
   (simp_all add: case_covered_def c_proved map_of_Cons_code fits_def of_object_fixed_len_def del: map_of.simps cong: map_of_freeze)

lemma of_action_covered_1_2 [c_proved]: "covered 3 loci_validate_of_action_OF_VERSION_1_2 (of_action_wire_object_id_get 3)"
  unfolding loci_validate_of_action_OF_VERSION_1_2_def of_action_wire_object_id_get_def
  by (simp only: refl if_True if_False eq_num, intro c_intro)
   (simp_all add: case_covered_def c_proved map_of_Cons_code fits_def of_object_fixed_len_def del: map_of.simps cong: map_of_freeze)

lemma of_instruction_experimenter_covered_1_2 [c_proved]: "covered 3 loci_validate_of_instruction_experimenter_OF_VERSION_1_2 (of_instruction_experimenter_wire_object_id_get 3)"
  unfolding loci_validate_of_instruction_experimenter_OF_VERSION_1_2_def of_instruction_experimenter_wire_object_id_get_def
  by (simp only: refl if_True if_False eq_num, intro c_intro)
   (simp_all add: case_covered_def c_proved map_of_Cons_code fits_def of_object_fixed_len_def del: map_of.simps cong: map_of_freeze)

lemma of_instruction_covered_1_2 [c_proved]: "covered 3 loci_validate_of_instruction_OF_VERSION_1_2 (of_instruction_wire_object_id_get 3)"
  unfolding loci_validate_of_instruction_OF_VERSION_1_2_def of_instruction_wire_object_id_get_def
  by (simp only: refl if_True if_False eq_num, intro c_intro)
   (simp_all add: case_covered_def c_proved map_of_Cons_code fits_def of_object_fixed_len_def del: map_of.simps cong: map_of_freeze)

lemma of_oxm_covered_1_2 [c_proved]: "covered 3 loci_validate_of_oxm_OF_VERSION_1_2 (of_oxm_wire_object_id_get 3)"
  unfolding loci_validate_of_oxm_OF_VERSION_1_2_def of_oxm_wire_object_id_get_def
  by (simp only: refl if_True if_False eq_num, intro c_intro)
   (simp_all add: case_covered_def c_proved map_of_Cons_code fits_def of_object_fixed_len_def del: map_of.simps cong: map_of_freeze)

lemma of_queue_prop_experimenter_covered_1_2 [c_proved]: "covered 3 loci_validate_of_queue_prop_experimenter_OF_VERSION_1_2 (of_queue_prop_experimenter_wire_object_id_get 3)"
  unfolding loci_validate_of_queue_prop_experimenter_OF_VERSION_1_2_def of_queue_prop_experimenter_wire_object_id_get_def
  by (simp only: refl if_True if_False eq_num, intro c_intro)
   (simp_all add: case_covered_def c_proved map_of_Cons_code fits_def of_object_fixed_len_def del: map_of.simps cong: map_of_freeze)

lemma of_queue_prop_covered_1_2 [c_proved]: "covered 3 loci_validate_of_queue_prop_OF_VERSION_1_2 (of_queue_prop_wire_object_id_get 3)"
  unfolding loci_validate_of_queue_prop_OF_VERSION_1_2_def of_queue_prop_wire_object_id_get_def
  by (simp only: refl if_True if_False eq_num, intro c_intro)
   (simp_all add: case_covered_def c_proved map_of_Cons_code fits_def of_object_fixed_len_def del: map_of.simps cong: map_of_freeze)

subsection \<open>OpenFlow 1.3\<close>

lemma covers_action_bsn_checksum_1_3 [c_proved]: "covered 4 loci_validate_of_action_bsn_checksum_OF_VERSION_1_3 (d_id OF_ACTION_BSN_CHECKSUM)"
  by (simp add: loci_validate_of_action_bsn_checksum_OF_VERSION_1_3_def covered_min_id fits_def of_object_fixed_len_def)

lemma covers_action_bsn_gentable_1_3 [c_proved]: "covered 4 loci_validate_of_action_bsn_gentable_OF_VERSION_1_3 (d_id OF_ACTION_BSN_GENTABLE)"
  by (simp add: loci_validate_of_action_bsn_gentable_OF_VERSION_1_3_def covered_min_id fits_def of_object_fixed_len_def)

lemma covers_action_bsn_mirror_1_3 [c_proved]: "covered 4 loci_validate_of_action_bsn_mirror_OF_VERSION_1_3 (d_id OF_ACTION_BSN_MIRROR)"
  by (simp add: loci_validate_of_action_bsn_mirror_OF_VERSION_1_3_def covered_min_id fits_def of_object_fixed_len_def)

lemma covers_action_bsn_set_tunnel_dst_1_3 [c_proved]: "covered 4 loci_validate_of_action_bsn_set_tunnel_dst_OF_VERSION_1_3 (d_id OF_ACTION_BSN_SET_TUNNEL_DST)"
  by (simp add: loci_validate_of_action_bsn_set_tunnel_dst_OF_VERSION_1_3_def covered_min_id fits_def of_object_fixed_len_def)

lemma covers_action_copy_ttl_in_1_3 [c_proved]: "covered 4 loci_validate_of_action_copy_ttl_in_OF_VERSION_1_3 (d_id OF_ACTION_COPY_TTL_IN)"
  by (simp add: loci_validate_of_action_copy_ttl_in_OF_VERSION_1_3_def covered_min_id fits_def of_object_fixed_len_def)

lemma covers_action_copy_ttl_out_1_3 [c_proved]: "covered 4 loci_validate_of_action_copy_ttl_out_OF_VERSION_1_3 (d_id OF_ACTION_COPY_TTL_OUT)"
  by (simp add: loci_validate_of_action_copy_ttl_out_OF_VERSION_1_3_def covered_min_id fits_def of_object_fixed_len_def)

lemma covers_action_dec_mpls_ttl_1_3 [c_proved]: "covered 4 loci_validate_of_action_dec_mpls_ttl_OF_VERSION_1_3 (d_id OF_ACTION_DEC_MPLS_TTL)"
  by (simp add: loci_validate_of_action_dec_mpls_ttl_OF_VERSION_1_3_def covered_min_id fits_def of_object_fixed_len_def)

lemma covers_action_dec_nw_ttl_1_3 [c_proved]: "covered 4 loci_validate_of_action_dec_nw_ttl_OF_VERSION_1_3 (d_id OF_ACTION_DEC_NW_TTL)"
  by (simp add: loci_validate_of_action_dec_nw_ttl_OF_VERSION_1_3_def covered_min_id fits_def of_object_fixed_len_def)

lemma covers_action_group_1_3 [c_proved]: "covered 4 loci_validate_of_action_group_OF_VERSION_1_3 (d_id OF_ACTION_GROUP)"
  by (simp add: loci_validate_of_action_group_OF_VERSION_1_3_def covered_min_id fits_def of_object_fixed_len_def)

lemma covers_action_id_bsn_checksum_1_3 [c_proved]: "covered 4 loci_validate_of_action_id_bsn_checksum_OF_VERSION_1_3 (d_id OF_ACTION_ID_BSN_CHECKSUM)"
  by (simp add: loci_validate_of_action_id_bsn_checksum_OF_VERSION_1_3_def covered_min_id fits_def of_object_fixed_len_def)

lemma covers_action_id_bsn_gentable_1_3 [c_proved]: "covered 4 loci_validate_of_action_id_bsn_gentable_OF_VERSION_1_3 (d_id OF_ACTION_ID_BSN_GENTABLE)"
  by (simp add: loci_validate_of_action_id_bsn_gentable_OF_VERSION_1_3_def covered_min_id fits_def of_object_fixed_len_def)

lemma covers_action_id_bsn_mirror_1_3 [c_proved]: "covered 4 loci_validate_of_action_id_bsn_mirror_OF_VERSION_1_3 (d_id OF_ACTION_ID_BSN_MIRROR)"
  by (simp add: loci_validate_of_action_id_bsn_mirror_OF_VERSION_1_3_def covered_min_id fits_def of_object_fixed_len_def)

lemma covers_action_id_bsn_set_tunnel_dst_1_3 [c_proved]: "covered 4 loci_validate_of_action_id_bsn_set_tunnel_dst_OF_VERSION_1_3 (d_id OF_ACTION_ID_BSN_SET_TUNNEL_DST)"
  by (simp add: loci_validate_of_action_id_bsn_set_tunnel_dst_OF_VERSION_1_3_def covered_min_id fits_def of_object_fixed_len_def)

lemma covers_action_id_copy_ttl_in_1_3 [c_proved]: "covered 4 loci_validate_of_action_id_copy_ttl_in_OF_VERSION_1_3 (d_id OF_ACTION_ID_COPY_TTL_IN)"
  by (simp add: loci_validate_of_action_id_copy_ttl_in_OF_VERSION_1_3_def covered_min_id fits_def of_object_fixed_len_def)

lemma covers_action_id_copy_ttl_out_1_3 [c_proved]: "covered 4 loci_validate_of_action_id_copy_ttl_out_OF_VERSION_1_3 (d_id OF_ACTION_ID_COPY_TTL_OUT)"
  by (simp add: loci_validate_of_action_id_copy_ttl_out_OF_VERSION_1_3_def covered_min_id fits_def of_object_fixed_len_def)

lemma covers_action_id_dec_mpls_ttl_1_3 [c_proved]: "covered 4 loci_validate_of_action_id_dec_mpls_ttl_OF_VERSION_1_3 (d_id OF_ACTION_ID_DEC_MPLS_TTL)"
  by (simp add: loci_validate_of_action_id_dec_mpls_ttl_OF_VERSION_1_3_def covered_min_id fits_def of_object_fixed_len_def)

lemma covers_action_id_dec_nw_ttl_1_3 [c_proved]: "covered 4 loci_validate_of_action_id_dec_nw_ttl_OF_VERSION_1_3 (d_id OF_ACTION_ID_DEC_NW_TTL)"
  by (simp add: loci_validate_of_action_id_dec_nw_ttl_OF_VERSION_1_3_def covered_min_id fits_def of_object_fixed_len_def)

lemma covers_action_id_group_1_3 [c_proved]: "covered 4 loci_validate_of_action_id_group_OF_VERSION_1_3 (d_id OF_ACTION_ID_GROUP)"
  by (simp add: loci_validate_of_action_id_group_OF_VERSION_1_3_def covered_min_id fits_def of_object_fixed_len_def)

lemma covers_action_id_nicira_dec_ttl_1_3 [c_proved]: "covered 4 loci_validate_of_action_id_nicira_dec_ttl_OF_VERSION_1_3 (d_id OF_ACTION_ID_NICIRA_DEC_TTL)"
  by (simp add: loci_validate_of_action_id_nicira_dec_ttl_OF_VERSION_1_3_def covered_min_id fits_def of_object_fixed_len_def)

lemma covers_action_id_output_1_3 [c_proved]: "covered 4 loci_validate_of_action_id_output_OF_VERSION_1_3 (d_id OF_ACTION_ID_OUTPUT)"
  by (simp add: loci_validate_of_action_id_output_OF_VERSION_1_3_def covered_min_id fits_def of_object_fixed_len_def)

lemma covers_action_id_pop_mpls_1_3 [c_proved]: "covered 4 loci_validate_of_action_id_pop_mpls_OF_VERSION_1_3 (d_id OF_ACTION_ID_POP_MPLS)"
  by (simp add: loci_validate_of_action_id_pop_mpls_OF_VERSION_1_3_def covered_min_id fits_def of_object_fixed_len_def)

lemma covers_action_id_pop_pbb_1_3 [c_proved]: "covered 4 loci_validate_of_action_id_pop_pbb_OF_VERSION_1_3 (d_id OF_ACTION_ID_POP_PBB)"
  by (simp add: loci_validate_of_action_id_pop_pbb_OF_VERSION_1_3_def covered_min_id fits_def of_object_fixed_len_def)

lemma covers_action_id_pop_vlan_1_3 [c_proved]: "covered 4 loci_validate_of_action_id_pop_vlan_OF_VERSION_1_3 (d_id OF_ACTION_ID_POP_VLAN)"
  by (simp add: loci_validate_of_action_id_pop_vlan_OF_VERSION_1_3_def covered_min_id fits_def of_object_fixed_len_def)

lemma covers_action_id_push_mpls_1_3 [c_proved]: "covered 4 loci_validate_of_action_id_push_mpls_OF_VERSION_1_3 (d_id OF_ACTION_ID_PUSH_MPLS)"
  by (simp add: loci_validate_of_action_id_push_mpls_OF_VERSION_1_3_def covered_min_id fits_def of_object_fixed_len_def)

lemma covers_action_id_push_pbb_1_3 [c_proved]: "covered 4 loci_validate_of_action_id_push_pbb_OF_VERSION_1_3 (d_id OF_ACTION_ID_PUSH_PBB)"
  by (simp add: loci_validate_of_action_id_push_pbb_OF_VERSION_1_3_def covered_min_id fits_def of_object_fixed_len_def)

lemma covers_action_id_push_vlan_1_3 [c_proved]: "covered 4 loci_validate_of_action_id_push_vlan_OF_VERSION_1_3 (d_id OF_ACTION_ID_PUSH_VLAN)"
  by (simp add: loci_validate_of_action_id_push_vlan_OF_VERSION_1_3_def covered_min_id fits_def of_object_fixed_len_def)

lemma covers_action_id_set_field_1_3 [c_proved]: "covered 4 loci_validate_of_action_id_set_field_OF_VERSION_1_3 (d_id OF_ACTION_ID_SET_FIELD)"
  by (simp add: loci_validate_of_action_id_set_field_OF_VERSION_1_3_def covered_min_id fits_def of_object_fixed_len_def)

lemma covers_action_id_set_mpls_ttl_1_3 [c_proved]: "covered 4 loci_validate_of_action_id_set_mpls_ttl_OF_VERSION_1_3 (d_id OF_ACTION_ID_SET_MPLS_TTL)"
  by (simp add: loci_validate_of_action_id_set_mpls_ttl_OF_VERSION_1_3_def covered_min_id fits_def of_object_fixed_len_def)

lemma covers_action_id_set_nw_ttl_1_3 [c_proved]: "covered 4 loci_validate_of_action_id_set_nw_ttl_OF_VERSION_1_3 (d_id OF_ACTION_ID_SET_NW_TTL)"
  by (simp add: loci_validate_of_action_id_set_nw_ttl_OF_VERSION_1_3_def covered_min_id fits_def of_object_fixed_len_def)

lemma covers_action_id_set_queue_1_3 [c_proved]: "covered 4 loci_validate_of_action_id_set_queue_OF_VERSION_1_3 (d_id OF_ACTION_ID_SET_QUEUE)"
  by (simp add: loci_validate_of_action_id_set_queue_OF_VERSION_1_3_def covered_min_id fits_def of_object_fixed_len_def)

lemma covers_action_nicira_dec_ttl_1_3 [c_proved]: "covered 4 loci_validate_of_action_nicira_dec_ttl_OF_VERSION_1_3 (d_id OF_ACTION_NICIRA_DEC_TTL)"
  by (simp add: loci_validate_of_action_nicira_dec_ttl_OF_VERSION_1_3_def covered_min_id fits_def of_object_fixed_len_def)

lemma covers_action_output_1_3 [c_proved]: "covered 4 loci_validate_of_action_output_OF_VERSION_1_3 (d_id OF_ACTION_OUTPUT)"
  by (simp add: loci_validate_of_action_output_OF_VERSION_1_3_def covered_min_id fits_def of_object_fixed_len_def)

lemma covers_action_pop_mpls_1_3 [c_proved]: "covered 4 loci_validate_of_action_pop_mpls_OF_VERSION_1_3 (d_id OF_ACTION_POP_MPLS)"
  by (simp add: loci_validate_of_action_pop_mpls_OF_VERSION_1_3_def covered_min_id fits_def of_object_fixed_len_def)

lemma covers_action_pop_pbb_1_3 [c_proved]: "covered 4 loci_validate_of_action_pop_pbb_OF_VERSION_1_3 (d_id OF_ACTION_POP_PBB)"
  by (simp add: loci_validate_of_action_pop_pbb_OF_VERSION_1_3_def covered_min_id fits_def of_object_fixed_len_def)

lemma covers_action_pop_vlan_1_3 [c_proved]: "covered 4 loci_validate_of_action_pop_vlan_OF_VERSION_1_3 (d_id OF_ACTION_POP_VLAN)"
  by (simp add: loci_validate_of_action_pop_vlan_OF_VERSION_1_3_def covered_min_id fits_def of_object_fixed_len_def)

lemma covers_action_push_mpls_1_3 [c_proved]: "covered 4 loci_validate_of_action_push_mpls_OF_VERSION_1_3 (d_id OF_ACTION_PUSH_MPLS)"
  by (simp add: loci_validate_of_action_push_mpls_OF_VERSION_1_3_def covered_min_id fits_def of_object_fixed_len_def)

lemma covers_action_push_pbb_1_3 [c_proved]: "covered 4 loci_validate_of_action_push_pbb_OF_VERSION_1_3 (d_id OF_ACTION_PUSH_PBB)"
  by (simp add: loci_validate_of_action_push_pbb_OF_VERSION_1_3_def covered_min_id fits_def of_object_fixed_len_def)

lemma covers_action_push_vlan_1_3 [c_proved]: "covered 4 loci_validate_of_action_push_vlan_OF_VERSION_1_3 (d_id OF_ACTION_PUSH_VLAN)"
  by (simp add: loci_validate_of_action_push_vlan_OF_VERSION_1_3_def covered_min_id fits_def of_object_fixed_len_def)

lemma covers_action_set_field_1_3 [c_proved]: "covered 4 loci_validate_of_action_set_field_OF_VERSION_1_3 (d_id OF_ACTION_SET_FIELD)"
  by (simp add: loci_validate_of_action_set_field_OF_VERSION_1_3_def covered_min_id fits_def of_object_fixed_len_def)

lemma covers_action_set_mpls_ttl_1_3 [c_proved]: "covered 4 loci_validate_of_action_set_mpls_ttl_OF_VERSION_1_3 (d_id OF_ACTION_SET_MPLS_TTL)"
  by (simp add: loci_validate_of_action_set_mpls_ttl_OF_VERSION_1_3_def covered_min_id fits_def of_object_fixed_len_def)

lemma covers_action_set_nw_ttl_1_3 [c_proved]: "covered 4 loci_validate_of_action_set_nw_ttl_OF_VERSION_1_3 (d_id OF_ACTION_SET_NW_TTL)"
  by (simp add: loci_validate_of_action_set_nw_ttl_OF_VERSION_1_3_def covered_min_id fits_def of_object_fixed_len_def)

lemma covers_action_set_queue_1_3 [c_proved]: "covered 4 loci_validate_of_action_set_queue_OF_VERSION_1_3 (d_id OF_ACTION_SET_QUEUE)"
  by (simp add: loci_validate_of_action_set_queue_OF_VERSION_1_3_def covered_min_id fits_def of_object_fixed_len_def)

lemma covers_bsn_tlv_actor_key_1_3 [c_proved]: "covered 4 loci_validate_of_bsn_tlv_actor_key_OF_VERSION_1_3 (d_id OF_BSN_TLV_ACTOR_KEY)"
  by (simp add: loci_validate_of_bsn_tlv_actor_key_OF_VERSION_1_3_def covered_min_id fits_def of_object_fixed_len_def)

lemma covers_bsn_tlv_actor_port_num_1_3 [c_proved]: "covered 4 loci_validate_of_bsn_tlv_actor_port_num_OF_VERSION_1_3 (d_id OF_BSN_TLV_ACTOR_PORT_NUM)"
  by (simp add: loci_validate_of_bsn_tlv_actor_port_num_OF_VERSION_1_3_def covered_min_id fits_def of_object_fixed_len_def)

lemma covers_bsn_tlv_actor_port_priority_1_3 [c_proved]: "covered 4 loci_validate_of_bsn_tlv_actor_port_priority_OF_VERSION_1_3 (d_id OF_BSN_TLV_ACTOR_PORT_PRIORITY)"
  by (simp add: loci_validate_of_bsn_tlv_actor_port_priority_OF_VERSION_1_3_def covered_min_id fits_def of_object_fixed_len_def)

lemma covers_bsn_tlv_actor_state_1_3 [c_proved]: "covered 4 loci_validate_of_bsn_tlv_actor_state_OF_VERSION_1_3 (d_id OF_BSN_TLV_ACTOR_STATE)"
  by (simp add: loci_validate_of_bsn_tlv_actor_state_OF_VERSION_1_3_def covered_min_id fits_def of_object_fixed_len_def)

lemma covers_bsn_tlv_actor_system_mac_1_3 [c_proved]: "covered 4 loci_validate_of_bsn_tlv_actor_system_mac_OF_VERSION_1_3 (d_id OF_BSN_TLV_ACTOR_SYSTEM_MAC)"
  by (simp add: loci_validate_of_bsn_tlv_actor_system_mac_OF_VERSION_1_3_def covered_min_id fits_def of_object_fixed_len_def)

lemma covers_bsn_tlv_actor_system_priority_1_3 [c_proved]: "covered 4 loci_validate_of_bsn_tlv_actor_system_priority_OF_VERSION_1_3 (d_id OF_BSN_TLV_ACTOR_SYSTEM_PRIORITY)"
  by (simp add: loci_validate_of_bsn_tlv_actor_system_priority_OF_VERSION_1_3_def covered_min_id fits_def of_object_fixed_len_def)

lemma covers_bsn_tlv_broadcast_query_timeout_1_3 [c_proved]: "covered 4 loci_validate_of_bsn_tlv_broadcast_query_timeout_OF_VERSION_1_3 (d_id OF_BSN_TLV_BROADCAST_QUERY_TIMEOUT)"
  by (simp add: loci_validate_of_bsn_tlv_broadcast_query_timeout_OF_VERSION_1_3_def covered_min_id fits_def of_object_fixed_len_def)

lemma covers_bsn_tlv_bucket_1_3 [c_proved]: "covered 4 loci_validate_of_bsn_tlv_bucket_OF_VERSION_1_3 (d_id OF_BSN_TLV_BUCKET)"
  by (simp add: loci_validate_of_bsn_tlv_bucket_OF_VERSION_1_3_def loci_validate_of_bsn_tlv_bucket_OF_VERSION_1_3_body_def covered_min_id fits_def of_object_fixed_len_def)

lemma covers_bsn_tlv_circuit_id_1_3 [c_proved]: "covered 4 loci_validate_of_bsn_tlv_circuit_id_OF_VERSION_1_3 (d_id OF_BSN_TLV_CIRCUIT_ID)"
  by (simp add: loci_validate_of_bsn_tlv_circuit_id_OF_VERSION_1_3_def covered_min_id fits_def of_object_fixed_len_def)

lemma covers_bsn_tlv_convergence_status_1_3 [c_proved]: "covered 4 loci_validate_of_bsn_tlv_convergence_status_OF_VERSION_1_3 (d_id OF_BSN_TLV_CONVERGENCE_STATUS)"
  by (simp add: loci_validate_of_bsn_tlv_convergence_status_OF_VERSION_1_3_def covered_min_id fits_def of_object_fixed_len_def)

lemma covers_bsn_tlv_crc_enabled_1_3 [c_proved]: "covered 4 loci_validate_of_bsn_tlv_crc_enabled_OF_VERSION_1_3 (d_id OF_BSN_TLV_CRC_ENABLED)"
  by (simp add: loci_validate_of_bsn_tlv_crc_enabled_OF_VERSION_1_3_def covered_min_id fits_def of_object_fixed_len_def)

lemma covers_bsn_tlv_data_1_3 [c_proved]: "covered 4 loci_validate_of_bsn_tlv_data_OF_VERSION_1_3 (d_id OF_BSN_TLV_DATA)"
  by (simp add: loci_validate_of_bsn_tlv_data_OF_VERSION_1_3_def covered_min_id fits_def of_object_fixed_len_def)

lemma covers_bsn_tlv_eth_dst_1_3 [c_proved]: "covered 4 loci_validate_of_bsn_tlv_eth_dst_OF_VERSION_1_3 (d_id OF_BSN_TLV_ETH_DST)"
  by (simp add: loci_validate_of_bsn_tlv_eth_dst_OF_VERSION_1_3_def covered_min_id fits_def of_object_fixed_len_def)

lemma covers_bsn_tlv_eth_src_1_3 [c_proved]: "covered 4 loci_validate_of_bsn_tlv_eth_src_OF_VERSION_1_3 (d_id OF_BSN_TLV_ETH_SRC)"
  by (simp add: loci_validate_of_bsn_tlv_eth_src_OF_VERSION_1_3_def covered_min_id fits_def of_object_fixed_len_def)

lemma covers_bsn_tlv_external_gateway_ip_1_3 [c_proved]: "covered 4 loci_validate_of_bsn_tlv_external_gateway_ip_OF_VERSION_1_3 (d_id OF_BSN_TLV_EXTERNAL_GATEWAY_IP)"
  by (simp add: loci_validate_of_bsn_tlv_external_gateway_ip_OF_VERSION_1_3_def covered_min_id fits_def of_object_fixed_len_def)

lemma covers_bsn_tlv_external_gateway_mac_1_3 [c_proved]: "covered 4 loci_validate_of_bsn_tlv_external_gateway_mac_OF_VERSION_1_3 (d_id OF_BSN_TLV_EXTERNAL_GATEWAY_MAC)"
  by (simp add: loci_validate_of_bsn_tlv_external_gateway_mac_OF_VERSION_1_3_def covered_min_id fits_def of_object_fixed_len_def)

lemma covers_bsn_tlv_external_ip_1_3 [c_proved]: "covered 4 loci_validate_of_bsn_tlv_external_ip_OF_VERSION_1_3 (d_id OF_BSN_TLV_EXTERNAL_IP)"
  by (simp add: loci_validate_of_bsn_tlv_external_ip_OF_VERSION_1_3_def covered_min_id fits_def of_object_fixed_len_def)

lemma covers_bsn_tlv_external_mac_1_3 [c_proved]: "covered 4 loci_validate_of_bsn_tlv_external_mac_OF_VERSION_1_3 (d_id OF_BSN_TLV_EXTERNAL_MAC)"
  by (simp add: loci_validate_of_bsn_tlv_external_mac_OF_VERSION_1_3_def covered_min_id fits_def of_object_fixed_len_def)

lemma covers_bsn_tlv_external_netmask_1_3 [c_proved]: "covered 4 loci_validate_of_bsn_tlv_external_netmask_OF_VERSION_1_3 (d_id OF_BSN_TLV_EXTERNAL_NETMASK)"
  by (simp add: loci_validate_of_bsn_tlv_external_netmask_OF_VERSION_1_3_def covered_min_id fits_def of_object_fixed_len_def)

lemma covers_bsn_tlv_header_size_1_3 [c_proved]: "covered 4 loci_validate_of_bsn_tlv_header_size_OF_VERSION_1_3 (d_id OF_BSN_TLV_HEADER_SIZE)"
  by (simp add: loci_validate_of_bsn_tlv_header_size_OF_VERSION_1_3_def covered_min_id fits_def of_object_fixed_len_def)

lemma covers_bsn_tlv_icmp_code_1_3 [c_proved]: "covered 4 loci_validate_of_bsn_tlv_icmp_code_OF_VERSION_1_3 (d_id OF_BSN_TLV_ICMP_CODE)"
  by (simp add: loci_validate_of_bsn_tlv_icmp_code_OF_VERSION_1_3_def covered_min_id fits_def of_object_fixed_len_def)

lemma covers_bsn_tlv_icmp_id_1_3 [c_proved]: "covered 4 loci_validate_of_bsn_tlv_icmp_id_OF_VERSION_1_3 (d_id OF_BSN_TLV_ICMP_ID)"
  by (simp add: loci_validate_of_bsn_tlv_icmp_id_OF_VERSION_1_3_def covered_min_id fits_def of_object_fixed_len_def)

lemma covers_bsn_tlv_icmp_type_1_3 [c_proved]: "covered 4 loci_validate_of_bsn_tlv_icmp_type_OF_VERSION_1_3 (d_id OF_BSN_TLV_ICMP_TYPE)"
  by (simp add: loci_validate_of_bsn_tlv_icmp_type_OF_VERSION_1_3_def covered_min_id fits_def of_object_fixed_len_def)

lemma covers_bsn_tlv_idle_notification_1_3 [c_proved]: "covered 4 loci_validate_of_bsn_tlv_idle_notification_OF_VERSION_1_3 (d_id OF_BSN_TLV_IDLE_NOTIFICATION)"
  by (simp add: loci_validate_of_bsn_tlv_idle_notification_OF_VERSION_1_3_def covered_min_id fits_def of_object_fixed_len_def)

lemma covers_bsn_tlv_idle_time_1_3 [c_proved]: "covered 4 loci_validate_of_bsn_tlv_idle_time_OF_VERSION_1_3 (d_id OF_BSN_TLV_IDLE_TIME)"
  by (simp add: loci_validate_of_bsn_tlv_idle_time_OF_VERSION_1_3_def covered_min_id fits_def of_object_fixed_len_def)

lemma covers_bsn_tlv_idle_timeout_1_3 [c_proved]: "covered 4 loci_validate_of_bsn_tlv_idle_timeout_OF_VERSION_1_3 (d_id OF_BSN_TLV_IDLE_TIMEOUT)"
  by (simp add: loci_validate_of_bsn_tlv_idle_timeout_OF_VERSION_1_3_def covered_min_id fits_def of_object_fixed_len_def)

lemma covers_bsn_tlv_internal_gateway_mac_1_3 [c_proved]: "covered 4 loci_validate_of_bsn_tlv_internal_gateway_mac_OF_VERSION_1_3 (d_id OF_BSN_TLV_INTERNAL_GATEWAY_MAC)"
  by (simp add: loci_validate_of_bsn_tlv_internal_gateway_mac_OF_VERSION_1_3_def covered_min_id fits_def of_object_fixed_len_def)

lemma covers_bsn_tlv_internal_mac_1_3 [c_proved]: "covered 4 loci_validate_of_bsn_tlv_internal_mac_OF_VERSION_1_3 (d_id OF_BSN_TLV_INTERNAL_MAC)"
  by (simp add: loci_validate_of_bsn_tlv_internal_mac_OF_VERSION_1_3_def covered_min_id fits_def of_object_fixed_len_def)

lemma covers_bsn_tlv_interval_1_3 [c_proved]: "covered 4 loci_validate_of_bsn_tlv_interval_OF_VERSION_1_3 (d_id OF_BSN_TLV_INTERVAL)"
  by (simp add: loci_validate_of_bsn_tlv_interval_OF_VERSION_1_3_def covered_min_id fits_def of_object_fixed_len_def)

lemma covers_bsn_tlv_ip_proto_1_3 [c_proved]: "covered 4 loci_validate_of_bsn_tlv_ip_proto_OF_VERSION_1_3 (d_id OF_BSN_TLV_IP_PROTO)"
  by (simp add: loci_validate_of_bsn_tlv_ip_proto_OF_VERSION_1_3_def covered_min_id fits_def of_object_fixed_len_def)

lemma covers_bsn_tlv_ipv4_1_3 [c_proved]: "covered 4 loci_validate_of_bsn_tlv_ipv4_OF_VERSION_1_3 (d_id OF_BSN_TLV_IPV4)"
  by (simp add: loci_validate_of_bsn_tlv_ipv4_OF_VERSION_1_3_def covered_min_id fits_def of_object_fixed_len_def)

lemma covers_bsn_tlv_ipv4_dst_1_3 [c_proved]: "covered 4 loci_validate_of_bsn_tlv_ipv4_dst_OF_VERSION_1_3 (d_id OF_BSN_TLV_IPV4_DST)"
  by (simp add: loci_validate_of_bsn_tlv_ipv4_dst_OF_VERSION_1_3_def covered_min_id fits_def of_object_fixed_len_def)

lemma covers_bsn_tlv_ipv4_netmask_1_3 [c_proved]: "covered 4 loci_validate_of_bsn_tlv_ipv4_netmask_OF_VERSION_1_3 (d_id OF_BSN_TLV_IPV4_NETMASK)"
  by (simp add: loci_validate_of_bsn_tlv_ipv4_netmask_OF_VERSION_1_3_def covered_min_id fits_def of_object_fixed_len_def)

lemma covers_bsn_tlv_ipv4_src_1_3 [c_proved]: "covered 4 loci_validate_of_bsn_tlv_ipv4_src_OF_VERSION_1_3 (d_id OF_BSN_TLV_IPV4_SRC)"
  by (simp add: loci_validate_of_bsn_tlv_ipv4_src_OF_VERSION_1_3_def covered_min_id fits_def of_object_fixed_len_def)

lemma covers_bsn_tlv_mac_1_3 [c_proved]: "covered 4 loci_validate_of_bsn_tlv_mac_OF_VERSION_1_3 (d_id OF_BSN_TLV_MAC)"
  by (simp add: loci_validate_of_bsn_tlv_mac_OF_VERSION_1_3_def covered_min_id fits_def of_object_fixed_len_def)

lemma covers_bsn_tlv_mac_mask_1_3 [c_proved]: "covered 4 loci_validate_of_bsn_tlv_mac_mask_OF_VERSION_1_3 (d_id OF_BSN_TLV_MAC_MASK)"
  by (simp add: loci_validate_of_bsn_tlv_mac_mask_OF_VERSION_1_3_def covered_min_id fits_def of_object_fixed_len_def)

lemma covers_bsn_tlv_miss_packets_1_3 [c_proved]: "covered 4 loci_validate_of_bsn_tlv_miss_packets_OF_VERSION_1_3 (d_id OF_BSN_TLV_MISS_PACKETS)"
  by (simp add: loci_validate_of_bsn_tlv_miss_packets_OF_VERSION_1_3_def covered_min_id fits_def of_object_fixed_len_def)

lemma covers_bsn_tlv_mpls_control_word_1_3 [c_proved]: "covered 4 loci_validate_of_bsn_tlv_mpls_control_word_OF_VERSION_1_3 (d_id OF_BSN_TLV_MPLS_CONTROL_WORD)"
  by (simp add: loci_validate_of_bsn_tlv_mpls_control_word_OF_VERSION_1_3_def covered_min_id fits_def of_object_fixed_len_def)

lemma covers_bsn_tlv_mpls_label_1_3 [c_proved]: "covered 4 loci_validate_of_bsn_tlv_mpls_label_OF_VERSION_1_3 (d_id OF_BSN_TLV_MPLS_LABEL)"
  by (simp add: loci_validate_of_bsn_tlv_mpls_label_OF_VERSION_1_3_def covered_min_id fits_def of_object_fixed_len_def)

lemma covers_bsn_tlv_mpls_sequenced_1_3 [c_proved]: "covered 4 loci_validate_of_bsn_tlv_mpls_sequenced_OF_VERSION_1_3 (d_id OF_BSN_TLV_MPLS_SEQUENCED)"
  by (simp add: loci_validate_of_bsn_tlv_mpls_sequenced_OF_VERSION_1_3_def covered_min_id fits_def of_object_fixed_len_def)

lemma covers_bsn_tlv_name_1_3 [c_proved]: "covered 4 loci_validate_of_bsn_tlv_name_OF_VERSION_1_3 (d_id OF_BSN_TLV_NAME)"
  by (simp add: loci_validate_of_bsn_tlv_name_OF_VERSION_1_3_def covered_min_id fits_def of_object_fixed_len_def)

lemma covers_bsn_tlv_partner_key_1_3 [c_proved]: "covered 4 loci_validate_of_bsn_tlv_partner_key_OF_VERSION_1_3 (d_id OF_BSN_TLV_PARTNER_KEY)"
  by (simp add: loci_validate_of_bsn_tlv_partner_key_OF_VERSION_1_3_def covered_min_id fits_def of_object_fixed_len_def)

lemma covers_bsn_tlv_partner_port_num_1_3 [c_proved]: "covered 4 loci_validate_of_bsn_tlv_partner_port_num_OF_VERSION_1_3 (d_id OF_BSN_TLV_PARTNER_PORT_NUM)"
  by (simp add: loci_validate_of_bsn_tlv_partner_port_num_OF_VERSION_1_3_def covered_min_id fits_def of_object_fixed_len_def)

lemma covers_bsn_tlv_partner_port_priority_1_3 [c_proved]: "covered 4 loci_validate_of_bsn_tlv_partner_port_priority_OF_VERSION_1_3 (d_id OF_BSN_TLV_PARTNER_PORT_PRIORITY)"
  by (simp add: loci_validate_of_bsn_tlv_partner_port_priority_OF_VERSION_1_3_def covered_min_id fits_def of_object_fixed_len_def)

lemma covers_bsn_tlv_partner_state_1_3 [c_proved]: "covered 4 loci_validate_of_bsn_tlv_partner_state_OF_VERSION_1_3 (d_id OF_BSN_TLV_PARTNER_STATE)"
  by (simp add: loci_validate_of_bsn_tlv_partner_state_OF_VERSION_1_3_def covered_min_id fits_def of_object_fixed_len_def)

lemma covers_bsn_tlv_partner_system_mac_1_3 [c_proved]: "covered 4 loci_validate_of_bsn_tlv_partner_system_mac_OF_VERSION_1_3 (d_id OF_BSN_TLV_PARTNER_SYSTEM_MAC)"
  by (simp add: loci_validate_of_bsn_tlv_partner_system_mac_OF_VERSION_1_3_def covered_min_id fits_def of_object_fixed_len_def)

lemma covers_bsn_tlv_partner_system_priority_1_3 [c_proved]: "covered 4 loci_validate_of_bsn_tlv_partner_system_priority_OF_VERSION_1_3 (d_id OF_BSN_TLV_PARTNER_SYSTEM_PRIORITY)"
  by (simp add: loci_validate_of_bsn_tlv_partner_system_priority_OF_VERSION_1_3_def covered_min_id fits_def of_object_fixed_len_def)

lemma covers_bsn_tlv_port_1_3 [c_proved]: "covered 4 loci_validate_of_bsn_tlv_port_OF_VERSION_1_3 (d_id OF_BSN_TLV_PORT)"
  by (simp add: loci_validate_of_bsn_tlv_port_OF_VERSION_1_3_def covered_min_id fits_def of_object_fixed_len_def)

lemma covers_bsn_tlv_priority_1_3 [c_proved]: "covered 4 loci_validate_of_bsn_tlv_priority_OF_VERSION_1_3 (d_id OF_BSN_TLV_PRIORITY)"
  by (simp add: loci_validate_of_bsn_tlv_priority_OF_VERSION_1_3_def covered_min_id fits_def of_object_fixed_len_def)

lemma covers_bsn_tlv_queue_id_1_3 [c_proved]: "covered 4 loci_validate_of_bsn_tlv_queue_id_OF_VERSION_1_3 (d_id OF_BSN_TLV_QUEUE_ID)"
  by (simp add: loci_validate_of_bsn_tlv_queue_id_OF_VERSION_1_3_def covered_min_id fits_def of_object_fixed_len_def)

lemma covers_bsn_tlv_queue_weight_1_3 [c_proved]: "covered 4 loci_validate_of_bsn_tlv_queue_weight_OF_VERSION_1_3 (d_id OF_BSN_TLV_QUEUE_WEIGHT)"
  by (simp add: loci_validate_of_bsn_tlv_queue_weight_OF_VERSION_1_3_def covered_min_id fits_def of_object_fixed_len_def)

lemma covers_bsn_tlv_reference_1_3 [c_proved]: "covered 4 loci_validate_of_bsn_tlv_reference_OF_VERSION_1_3 (d_id OF_BSN_TLV_REFERENCE)"
  by (simp add: loci_validate_of_bsn_tlv_reference_OF_VERSION_1_3_def loci_validate_of_bsn_tlv_reference_OF_VERSION_1_3_body_def covered_min_id fits_def of_object_fixed_len_def)

lemma covers_bsn_tlv_reply_packets_1_3 [c_proved]: "covered 4 loci_validate_of_bsn_tlv_reply_packets_OF_VERSION_1_3 (d_id OF_BSN_TLV_REPLY_PACKETS)"
  by (simp add: loci_validate_of_bsn_tlv_reply_packets_OF_VERSION_1_3_def covered_min_id fits_def of_object_fixed_len_def)

lemma covers_bsn_tlv_request_packets_1_3 [c_proved]: "covered 4 loci_validate_of_bsn_tlv_request_packets_OF_VERSION_1_3 (d_id OF_BSN_TLV_REQUEST_PACKETS)"
  by (simp add: loci_validate_of_bsn_tlv_request_packets_OF_VERSION_1_3_def covered_min_id fits_def of_object_fixed_len_def)

lemma covers_bsn_tlv_rx_bytes_1_3 [c_proved]: "covered 4 loci_validate_of_bsn_tlv_rx_bytes_OF_VERSION_1_3 (d_id OF_BSN_TLV_RX_BYTES)"
  by (simp add: loci_validate_of_bsn_tlv_rx_bytes_OF_VERSION_1_3_def covered_min_id fits_def of_object_fixed_len_def)

lemma covers_bsn_tlv_rx_packets_1_3 [c_proved]: "covered 4 loci_validate_of_bsn_tlv_rx_packets_OF_VERSION_1_3 (d_id OF_BSN_TLV_RX_PACKETS)"
  by (simp add: loci_validate_of_bsn_tlv_rx_packets_OF_VERSION_1_3_def covered_min_id fits_def of_object_fixed_len_def)

lemma covers_bsn_tlv_sampling_rate_1_3 [c_proved]: "covered 4 loci_validate_of_bsn_tlv_sampling_rate_OF_VERSION_1_3 (d_id OF_BSN_TLV_SAMPLING_RATE)"
  by (simp add: loci_validate_of_bsn_tlv_sampling_rate_OF_VERSION_1_3_def covered_min_id fits_def of_object_fixed_len_def)

lemma covers_bsn_tlv_set_loopback_mode_1_3 [c_proved]: "covered 4 loci_validate_of_bsn_tlv_set_loopback_mode_OF_VERSION_1_3 (d_id OF_BSN_TLV_SET_LOOPBACK_MODE)"
  by (simp add: loci_validate_of_bsn_tlv_set_loopback_mode_OF_VERSION_1_3_def covered_min_id fits_def of_object_fixed_len_def)

lemma covers_bsn_tlv_strip_mpls_l2_on_ingress_1_3 [c_proved]: "covered 4 loci_validate_of_bsn_tlv_strip_mpls_l2_on_ingress_OF_VERSION_1_3 (d_id OF_BSN_TLV_STRIP_MPLS_L2_ON_INGRESS)"
  by (simp add: loci_validate_of_bsn_tlv_strip_mpls_l2_on_ingress_OF_VERSION_1_3_def covered_min_id fits_def of_object_fixed_len_def)

lemma covers_bsn_tlv_strip_mpls_l3_on_ingress_1_3 [c_proved]: "covered 4 loci_validate_of_bsn_tlv_strip_mpls_l3_on_ingress_OF_VERSION_1_3 (d_id OF_BSN_TLV_STRIP_MPLS_L3_ON_INGRESS)"
  by (simp add: loci_validate_of_bsn_tlv_strip_mpls_l3_on_ingress_OF_VERSION_1_3_def covered_min_id fits_def of_object_fixed_len_def)

lemma covers_bsn_tlv_strip_vlan_on_egress_1_3 [c_proved]: "covered 4 loci_validate_of_bsn_tlv_strip_vlan_on_egress_OF_VERSION_1_3 (d_id OF_BSN_TLV_STRIP_VLAN_ON_EGRESS)"
  by (simp add: loci_validate_of_bsn_tlv_strip_vlan_on_egress_OF_VERSION_1_3_def covered_min_id fits_def of_object_fixed_len_def)

lemma covers_bsn_tlv_sub_agent_id_1_3 [c_proved]: "covered 4 loci_validate_of_bsn_tlv_sub_agent_id_OF_VERSION_1_3 (d_id OF_BSN_TLV_SUB_AGENT_ID)"
  by (simp add: loci_validate_of_bsn_tlv_sub_agent_id_OF_VERSION_1_3_def covered_min_id fits_def of_object_fixed_len_def)

lemma covers_bsn_tlv_tcp_dst_1_3 [c_proved]: "covered 4 loci_validate_of_bsn_tlv_tcp_dst_OF_VERSION_1_3 (d_id OF_BSN_TLV_TCP_DST)"
  by (simp add: loci_validate_of_bsn_tlv_tcp_dst_OF_VERSION_1_3_def covered_min_id fits_def of_object_fixed_len_def)

lemma covers_bsn_tlv_tcp_src_1_3 [c_proved]: "covered 4 loci_validate_of_bsn_tlv_tcp_src_OF_VERSION_1_3 (d_id OF_BSN_TLV_TCP_SRC)"
  by (simp add: loci_validate_of_bsn_tlv_tcp_src_OF_VERSION_1_3_def covered_min_id fits_def of_object_fixed_len_def)

lemma covers_bsn_tlv_tx_bytes_1_3 [c_proved]: "covered 4 loci_validate_of_bsn_tlv_tx_bytes_OF_VERSION_1_3 (d_id OF_BSN_TLV_TX_BYTES)"
  by (simp add: loci_validate_of_bsn_tlv_tx_bytes_OF_VERSION_1_3_def covered_min_id fits_def of_object_fixed_len_def)

lemma covers_bsn_tlv_tx_packets_1_3 [c_proved]: "covered 4 loci_validate_of_bsn_tlv_tx_packets_OF_VERSION_1_3 (d_id OF_BSN_TLV_TX_PACKETS)"
  by (simp add: loci_validate_of_bsn_tlv_tx_packets_OF_VERSION_1_3_def covered_min_id fits_def of_object_fixed_len_def)

lemma covers_bsn_tlv_udf_anchor_1_3 [c_proved]: "covered 4 loci_validate_of_bsn_tlv_udf_anchor_OF_VERSION_1_3 (d_id OF_BSN_TLV_UDF_ANCHOR)"
  by (simp add: loci_validate_of_bsn_tlv_udf_anchor_OF_VERSION_1_3_def covered_min_id fits_def of_object_fixed_len_def)

lemma covers_bsn_tlv_udf_id_1_3 [c_proved]: "covered 4 loci_validate_of_bsn_tlv_udf_id_OF_VERSION_1_3 (d_id OF_BSN_TLV_UDF_ID)"
  by (simp add: loci_validate_of_bsn_tlv_udf_id_OF_VERSION_1_3_def covered_min_id fits_def of_object_fixed_len_def)

lemma covers_bsn_tlv_udf_length_1_3 [c_proved]: "covered 4 loci_validate_of_bsn_tlv_udf_length_OF_VERSION_1_3 (d_id OF_BSN_TLV_UDF_LENGTH)"
  by (simp add: loci_validate_of_bsn_tlv_udf_length_OF_VERSION_1_3_def covered_min_id fits_def of_object_fixed_len_def)

lemma covers_bsn_tlv_udf_offset_1_3 [c_proved]: "covered 4 loci_validate_of_bsn_tlv_udf_offset_OF_VERSION_1_3 (d_id OF_BSN_TLV_UDF_OFFSET)"
  by (simp add: loci_validate_of_bsn_tlv_udf_offset_OF_VERSION_1_3_def covered_min_id fits_def of_object_fixed_len_def)

lemma covers_bsn_tlv_udp_dst_1_3 [c_proved]: "covered 4 loci_validate_of_bsn_tlv_udp_dst_OF_VERSION_1_3 (d_id OF_BSN_TLV_UDP_DST)"
  by (simp add: loci_validate_of_bsn_tlv_udp_dst_OF_VERSION_1_3_def covered_min_id fits_def of_object_fixed_len_def)

lemma covers_bsn_tlv_udp_src_1_3 [c_proved]: "covered 4 loci_validate_of_bsn_tlv_udp_src_OF_VERSION_1_3 (d_id OF_BSN_TLV_UDP_SRC)"
  by (simp add: loci_validate_of_bsn_tlv_udp_src_OF_VERSION_1_3_def covered_min_id fits_def of_object_fixed_len_def)

lemma covers_bsn_tlv_unicast_query_timeout_1_3 [c_proved]: "covered 4 loci_validate_of_bsn_tlv_unicast_query_timeout_OF_VERSION_1_3 (d_id OF_BSN_TLV_UNICAST_QUERY_TIMEOUT)"
  by (simp add: loci_validate_of_bsn_tlv_unicast_query_timeout_OF_VERSION_1_3_def covered_min_id fits_def of_object_fixed_len_def)

lemma covers_bsn_tlv_vlan_pcp_1_3 [c_proved]: "covered 4 loci_validate_of_bsn_tlv_vlan_pcp_OF_VERSION_1_3 (d_id OF_BSN_TLV_VLAN_PCP)"
  by (simp add: loci_validate_of_bsn_tlv_vlan_pcp_OF_VERSION_1_3_def covered_min_id fits_def of_object_fixed_len_def)

lemma covers_bsn_tlv_vlan_vid_1_3 [c_proved]: "covered 4 loci_validate_of_bsn_tlv_vlan_vid_OF_VERSION_1_3 (d_id OF_BSN_TLV_VLAN_VID)"
  by (simp add: loci_validate_of_bsn_tlv_vlan_vid_OF_VERSION_1_3_def covered_min_id fits_def of_object_fixed_len_def)

lemma covers_bsn_tlv_vrf_1_3 [c_proved]: "covered 4 loci_validate_of_bsn_tlv_vrf_OF_VERSION_1_3 (d_id OF_BSN_TLV_VRF)"
  by (simp add: loci_validate_of_bsn_tlv_vrf_OF_VERSION_1_3_def covered_min_id fits_def of_object_fixed_len_def)

lemma covers_hello_elem_versionbitmap_1_3 [c_proved]: "covered 4 loci_validate_of_hello_elem_versionbitmap_OF_VERSION_1_3 (d_id OF_HELLO_ELEM_VERSIONBITMAP)"
  by (simp add: loci_validate_of_hello_elem_versionbitmap_OF_VERSION_1_3_def covered_min_id fits_def of_object_fixed_len_def)

lemma covers_instruction_apply_actions_1_3 [c_proved]: "covered 4 loci_validate_of_instruction_apply_actions_OF_VERSION_1_3 (d_id OF_INSTRUCTION_APPLY_ACTIONS)"
  by (simp add: loci_validate_of_instruction_apply_actions_OF_VERSION_1_3_def covered_min_id fits_def of_object_fixed_len_def)

lemma covers_instruction_bsn_arp_offload_1_3 [c_proved]: "covered 4 loci_validate_of_instruction_bsn_arp_offload_OF_VERSION_1_3 (d_id OF_INSTRUCTION_BSN_ARP_OFFLOAD)"
  by (simp add: loci_validate_of_instruction_bsn_arp_offload_OF_VERSION_1_3_def covered_min_id fits_def of_object_fixed_len_def)

lemma covers_instruction_bsn_auto_negotiation_1_3 [c_proved]: "covered 4 loci_validate_of_instruction_bsn_auto_negotiation_OF_VERSION_1_3 (d_id OF_INSTRUCTION_BSN_AUTO_NEGOTIATION)"
  by (simp add: loci_validate_of_instruction_bsn_auto_negotiation_OF_VERSION_1_3_def covered_min_id fits_def of_object_fixed_len_def)

lemma covers_instruction_bsn_deny_1_3 [c_proved]: "covered 4 loci_validate_of_instruction_bsn_deny_OF_VERSION_1_3 (d_id OF_INSTRUCTION_BSN_DENY)"
  by (simp add: loci_validate_of_instruction_bsn_deny_OF_VERSION_1_3_def covered_min_id fits_def of_object_fixed_len_def)

lemma covers_instruction_bsn_dhcp_offload_1_3 [c_proved]: "covered 4 loci_validate_of_instruction_bsn_dhcp_offload_OF_VERSION_1_3 (d_id OF_INSTRUCTION_BSN_DHCP_OFFLOAD)"
  by (simp add: loci_validate_of_instruction_bsn_dhcp_offload_OF_VERSION_1_3_def covered_min_id fits_def of_object_fixed_len_def)

lemma covers_instruction_bsn_disable_l3_1_3 [c_proved]: "covered 4 loci_validate_of_instruction_bsn_disable_l3_OF_VERSION_1_3 (d_id OF_INSTRUCTION_BSN_DISABLE_L3)"
  by (simp add: loci_validate_of_instruction_bsn_disable_l3_OF_VERSION_1_3_def covered_min_id fits_def of_object_fixed_len_def)

lemma covers_instruction_bsn_disable_split_horizon_check_1_3 [c_proved]: "covered 4 loci_validate_of_instruction_bsn_disable_split_horizon_check_OF_VERSION_1_3 (d_id OF_INSTRUCTION_BSN_DISABLE_SPLIT_HORIZON_CHECK)"
  by (simp add: loci_validate_of_instruction_bsn_disable_split_horizon_check_OF_VERSION_1_3_def covered_min_id fits_def of_object_fixed_len_def)

lemma covers_instruction_bsn_disable_src_mac_check_1_3 [c_proved]: "covered 4 loci_validate_of_instruction_bsn_disable_src_mac_check_OF_VERSION_1_3 (d_id OF_INSTRUCTION_BSN_DISABLE_SRC_MAC_CHECK)"
  by (simp add: loci_validate_of_instruction_bsn_disable_src_mac_check_OF_VERSION_1_3_def covered_min_id fits_def of_object_fixed_len_def)

lemma covers_instruction_bsn_disable_vlan_counters_1_3 [c_proved]: "covered 4 loci_validate_of_instruction_bsn_disable_vlan_counters_OF_VERSION_1_3 (d_id OF_INSTRUCTION_BSN_DISABLE_VLAN_COUNTERS)"
  by (simp add: loci_validate_of_instruction_bsn_disable_vlan_counters_OF_VERSION_1_3_def covered_min_id fits_def of_object_fixed_len_def)

lemma covers_instruction_bsn_internal_priority_1_3 [c_proved]: "covered 4 loci_validate_of_instruction_bsn_internal_priority_OF_VERSION_1_3 (d_id OF_INSTRUCTION_BSN_INTERNAL_PRIORITY)"
  by (simp add: loci_validate_of_instruction_bsn_internal_priority_OF_VERSION_1_3_def covered_min_id fits_def of_object_fixed_len_def)

lemma covers_instruction_bsn_packet_of_death_1_3 [c_proved]: "covered 4 loci_validate_of_instruction_bsn_packet_of_death_OF_VERSION_1_3 (d_id OF_INSTRUCTION_BSN_PACKET_OF_DEATH)"
  by (simp add: loci_validate_of_instruction_bsn_packet_of_death_OF_VERSION_1_3_def covered_min_id fits_def of_object_fixed_len_def)

lemma covers_instruction_bsn_permit_1_3 [c_proved]: "covered 4 loci_validate_of_instruction_bsn_permit_OF_VERSION_1_3 (d_id OF_INSTRUCTION_BSN_PERMIT)"
  by (simp add: loci_validate_of_instruction_bsn_permit_OF_VERSION_1_3_def covered_min_id fits_def of_object_fixed_len_def)

lemma covers_instruction_bsn_prioritize_pdus_1_3 [c_proved]: "covered 4 loci_validate_of_instruction_bsn_prioritize_pdus_OF_VERSION_1_3 (d_id OF_INSTRUCTION_BSN_PRIORITIZE_PDUS)"
  by (simp add: loci_validate_of_instruction_bsn_prioritize_pdus_OF_VERSION_1_3_def covered_min_id fits_def of_object_fixed_len_def)

lemma covers_instruction_bsn_require_vlan_xlate_1_3 [c_proved]: "covered 4 loci_validate_of_instruction_bsn_require_vlan_xlate_OF_VERSION_1_3 (d_id OF_INSTRUCTION_BSN_REQUIRE_VLAN_XLATE)"
  by (simp add: loci_validate_of_instruction_bsn_require_vlan_xlate_OF_VERSION_1_3_def covered_min_id fits_def of_object_fixed_len_def)

lemma covers_instruction_bsn_span_destination_1_3 [c_proved]: "covered 4 loci_validate_of_instruction_bsn_span_destination_OF_VERSION_1_3 (d_id OF_INSTRUCTION_BSN_SPAN_DESTINATION)"
  by (simp add: loci_validate_of_instruction_bsn_span_destination_OF_VERSION_1_3_def covered_min_id fits_def of_object_fixed_len_def)

lemma covers_instruction_clear_actions_1_3 [c_proved]: "covered 4 loci_validate_of_instruction_clear_actions_OF_VERSION_1_3 (d_id OF_INSTRUCTION_CLEAR_ACTIONS)"
  by (simp add: loci_validate_of_instruction_clear_actions_OF_VERSION_1_3_def covered_min_id fits_def of_object_fixed_len_def)

lemma covers_instruction_goto_table_1_3 [c_proved]: "covered 4 loci_validate_of_instruction_goto_table_OF_VERSION_1_3 (d_id OF_INSTRUCTION_GOTO_TABLE)"
  by (simp add: loci_validate_of_instruction_goto_table_OF_VERSION_1_3_def covered_min_id fits_def of_object_fixed_len_def)

lemma covers_instruction_id_apply_actions_1_3 [c_proved]: "covered 4 loci_validate_of_instruction_id_apply_actions_OF_VERSION_1_3 (d_id OF_INSTRUCTION_ID_APPLY_ACTIONS)"
  by (simp add: loci_validate_of_instruction_id_apply_actions_OF_VERSION_1_3_def covered_min_id fits_def of_object_fixed_len_def)

lemma covers_instruction_id_bsn_arp_offload_1_3 [c_proved]: "covered 4 loci_validate_of_instruction_id_bsn_arp_offload_OF_VERSION_1_3 (d_id OF_INSTRUCTION_ID_BSN_ARP_OFFLOAD)"
  by (simp add: loci_validate_of_instruction_id_bsn_arp_offload_OF_VERSION_1_3_def covered_min_id fits_def of_object_fixed_len_def)

lemma covers_instruction_id_bsn_auto_negotiation_1_3 [c_proved]: "covered 4 loci_validate_of_instruction_id_bsn_auto_negotiation_OF_VERSION_1_3 (d_id OF_INSTRUCTION_ID_BSN_AUTO_NEGOTIATION)"
  by (simp add: loci_validate_of_instruction_id_bsn_auto_negotiation_OF_VERSION_1_3_def covered_min_id fits_def of_object_fixed_len_def)

lemma covers_instruction_id_bsn_deny_1_3 [c_proved]: "covered 4 loci_validate_of_instruction_id_bsn_deny_OF_VERSION_1_3 (d_id OF_INSTRUCTION_ID_BSN_DENY)"
  by (simp add: loci_validate_of_instruction_id_bsn_deny_OF_VERSION_1_3_def covered_min_id fits_def of_object_fixed_len_def)

lemma covers_instruction_id_bsn_dhcp_offload_1_3 [c_proved]: "covered 4 loci_validate_of_instruction_id_bsn_dhcp_offload_OF_VERSION_1_3 (d_id OF_INSTRUCTION_ID_BSN_DHCP_OFFLOAD)"
  by (simp add: loci_validate_of_instruction_id_bsn_dhcp_offload_OF_VERSION_1_3_def covered_min_id fits_def of_object_fixed_len_def)

lemma covers_instruction_id_bsn_disable_l3_1_3 [c_proved]: "covered 4 loci_validate_of_instruction_id_bsn_disable_l3_OF_VERSION_1_3 (d_id OF_INSTRUCTION_ID_BSN_DISABLE_L3)"
  by (simp add: loci_validate_of_instruction_id_bsn_disable_l3_OF_VERSION_1_3_def covered_min_id fits_def of_object_fixed_len_def)

lemma covers_instruction_id_bsn_disable_split_horizon_check_1_3 [c_proved]: "covered 4 loci_validate_of_instruction_id_bsn_disable_split_horizon_check_OF_VERSION_1_3 (d_id OF_INSTRUCTION_ID_BSN_DISABLE_SPLIT_HORIZON_CHECK)"
  by (simp add: loci_validate_of_instruction_id_bsn_disable_split_horizon_check_OF_VERSION_1_3_def covered_min_id fits_def of_object_fixed_len_def)

lemma covers_instruction_id_bsn_disable_src_mac_check_1_3 [c_proved]: "covered 4 loci_validate_of_instruction_id_bsn_disable_src_mac_check_OF_VERSION_1_3 (d_id OF_INSTRUCTION_ID_BSN_DISABLE_SRC_MAC_CHECK)"
  by (simp add: loci_validate_of_instruction_id_bsn_disable_src_mac_check_OF_VERSION_1_3_def covered_min_id fits_def of_object_fixed_len_def)

lemma covers_instruction_id_bsn_disable_vlan_counters_1_3 [c_proved]: "covered 4 loci_validate_of_instruction_id_bsn_disable_vlan_counters_OF_VERSION_1_3 (d_id OF_INSTRUCTION_ID_BSN_DISABLE_VLAN_COUNTERS)"
  by (simp add: loci_validate_of_instruction_id_bsn_disable_vlan_counters_OF_VERSION_1_3_def covered_min_id fits_def of_object_fixed_len_def)

lemma covers_instruction_id_bsn_internal_priority_1_3 [c_proved]: "covered 4 loci_validate_of_instruction_id_bsn_internal_priority_OF_VERSION_1_3 (d_id OF_INSTRUCTION_ID_BSN_INTERNAL_PRIORITY)"
  by (simp add: loci_validate_of_instruction_id_bsn_internal_priority_OF_VERSION_1_3_def covered_min_id fits_def of_object_fixed_len_def)

lemma covers_instruction_id_bsn_packet_of_death_1_3 [c_proved]: "covered 4 loci_validate_of_instruction_id_bsn_packet_of_death_OF_VERSION_1_3 (d_id OF_INSTRUCTION_ID_BSN_PACKET_OF_DEATH)"
  by (simp add: loci_validate_of_instruction_id_bsn_packet_of_death_OF_VERSION_1_3_def covered_min_id fits_def of_object_fixed_len_def)

lemma covers_instruction_id_bsn_permit_1_3 [c_proved]: "covered 4 loci_validate_of_instruction_id_bsn_permit_OF_VERSION_1_3 (d_id OF_INSTRUCTION_ID_BSN_PERMIT)"
  by (simp add: loci_validate_of_instruction_id_bsn_permit_OF_VERSION_1_3_def covered_min_id fits_def of_object_fixed_len_def)

lemma covers_instruction_id_bsn_prioritize_pdus_1_3 [c_proved]: "covered 4 loci_validate_of_instruction_id_bsn_prioritize_pdus_OF_VERSION_1_3 (d_id OF_INSTRUCTION_ID_BSN_PRIORITIZE_PDUS)"
  by (simp add: loci_validate_of_instruction_id_bsn_prioritize_pdus_OF_VERSION_1_3_def covered_min_id fits_def of_object_fixed_len_def)

lemma covers_instruction_id_bsn_require_vlan_xlate_1_3 [c_proved]: "covered 4 loci_validate_of_instruction_id_bsn_require_vlan_xlate_OF_VERSION_1_3 (d_id OF_INSTRUCTION_ID_BSN_REQUIRE_VLAN_XLATE)"
  by (simp add: loci_validate_of_instruction_id_bsn_require_vlan_xlate_OF_VERSION_1_3_def covered_min_id fits_def of_object_fixed_len_def)

lemma covers_instruction_id_bsn_span_destination_1_3 [c_proved]: "covered 4 loci_validate_of_instruction_id_bsn_span_destination_OF_VERSION_1_3 (d_id OF_INSTRUCTION_ID_BSN_SPAN_DESTINATION)"
  by (simp add: loci_validate_of_instruction_id_bsn_span_destination_OF_VERSION_1_3_def covered_min_id fits_def of_object_fixed_len_def)

lemma covers_instruction_id_clear_actions_1_3 [c_proved]: "covered 4 loci_validate_of_instruction_id_clear_actions_OF_VERSION_1_3 (d_id OF_INSTRUCTION_ID_CLEAR_ACTIONS)"
  by (simp add: loci_validate_of_instruction_id_clear_actions_OF_VERSION_1_3_def covered_min_id fits_def of_object_fixed_len_def)

lemma covers_instruction_id_goto_table_1_3 [c_proved]: "covered 4 loci_validate_of_instruction_id_goto_table_OF_VERSION_1_3 (d_id OF_INSTRUCTION_ID_GOTO_TABLE)"
  by (simp add: loci_validate_of_instruction_id_goto_table_OF_VERSION_1_3_def covered_min_id fits_def of_object_fixed_len_def)

lemma covers_instruction_id_meter_1_3 [c_proved]: "covered 4 loci_validate_of_instruction_id_meter_OF_VERSION_1_3 (d_id OF_INSTRUCTION_ID_METER)"
  by (simp add: loci_validate_of_instruction_id_meter_OF_VERSION_1_3_def covered_min_id fits_def of_object_fixed_len_def)

lemma covers_instruction_id_write_actions_1_3 [c_proved]: "covered 4 loci_validate_of_instruction_id_write_actions_OF_VERSION_1_3 (d_id OF_INSTRUCTION_ID_WRITE_ACTIONS)"
  by (simp add: loci_validate_of_instruction_id_write_actions_OF_VERSION_1_3_def covered_min_id fits_def of_object_fixed_len_def)

lemma covers_instruction_id_write_metadata_1_3 [c_proved]: "covered 4 loci_validate_of_instruction_id_write_metadata_OF_VERSION_1_3 (d_id OF_INSTRUCTION_ID_WRITE_METADATA)"
  by (simp add: loci_validate_of_instruction_id_write_metadata_OF_VERSION_1_3_def covered_min_id fits_def of_object_fixed_len_def)

lemma covers_instruction_meter_1_3 [c_proved]: "covered 4 loci_validate_of_instruction_meter_OF_VERSION_1_3 (d_id OF_INSTRUCTION_METER)"
  by (simp add: loci_validate_of_instruction_meter_OF_VERSION_1_3_def covered_min_id fits_def of_object_fixed_len_def)

lemma covers_instruction_write_actions_1_3 [c_proved]: "covered 4 loci_validate_of_instruction_write_actions_OF_VERSION_1_3 (d_id OF_INSTRUCTION_WRITE_ACTIONS)"
  by (simp add: loci_validate_of_instruction_write_actions_OF_VERSION_1_3_def covered_min_id fits_def of_object_fixed_len_def)

lemma covers_instruction_write_metadata_1_3 [c_proved]: "covered 4 loci_validate_of_instruction_write_metadata_OF_VERSION_1_3 (d_id OF_INSTRUCTION_WRITE_METADATA)"
  by (simp add: loci_validate_of_instruction_write_metadata_OF_VERSION_1_3_def covered_min_id fits_def of_object_fixed_len_def)

lemma covers_meter_band_drop_1_3 [c_proved]: "covered 4 loci_validate_of_meter_band_drop_OF_VERSION_1_3 (d_id OF_METER_BAND_DROP)"
  by (simp add: loci_validate_of_meter_band_drop_OF_VERSION_1_3_def covered_min_id fits_def of_object_fixed_len_def)

lemma covers_meter_band_dscp_remark_1_3 [c_proved]: "covered 4 loci_validate_of_meter_band_dscp_remark_OF_VERSION_1_3 (d_id OF_METER_BAND_DSCP_REMARK)"
  by (simp add: loci_validate_of_meter_band_dscp_remark_OF_VERSION_1_3_def covered_min_id fits_def of_object_fixed_len_def)

lemma covers_meter_band_experimenter_1_3 [c_proved]: "covered 4 loci_validate_of_meter_band_experimenter_OF_VERSION_1_3 (d_id OF_METER_BAND_EXPERIMENTER)"
  by (simp add: loci_validate_of_meter_band_experimenter_OF_VERSION_1_3_def covered_min_id fits_def of_object_fixed_len_def)

lemma covers_oxm_arp_op_1_3 [c_proved]: "covered 4 loci_validate_of_oxm_arp_op_OF_VERSION_1_3 (d_id OF_OXM_ARP_OP)"
  by (simp add: loci_validate_of_oxm_arp_op_OF_VERSION_1_3_def covered_min_id fits_def of_object_fixed_len_def)

lemma covers_oxm_arp_op_masked_1_3 [c_proved]: "covered 4 loci_validate_of_oxm_arp_op_masked_OF_VERSION_1_3 (d_id OF_OXM_ARP_OP_MASKED)"
  by (simp add: loci_validate_of_oxm_arp_op_masked_OF_VERSION_1_3_def covered_min_id fits_def of_object_fixed_len_def)

lemma covers_oxm_arp_sha_1_3 [c_proved]: "covered 4 loci_validate_of_oxm_arp_sha_OF_VERSION_1_3 (d_id OF_OXM_ARP_SHA)"
  by (simp add: loci_validate_of_oxm_arp_sha_OF_VERSION_1_3_def covered_min_id fits_def of_object_fixed_len_def)

lemma covers_oxm_arp_sha_masked_1_3 [c_proved]: "covered 4 loci_validate_of_oxm_arp_sha_masked_OF_VERSION_1_3 (d_id OF_OXM_ARP_SHA_MASKED)"
  by (simp add: loci_validate_of_oxm_arp_sha_masked_OF_VERSION_1_3_def covered_min_id fits_def of_object_fixed_len_def)

lemma covers_oxm_arp_spa_1_3 [c_proved]: "covered 4 loci_validate_of_oxm_arp_spa_OF_VERSION_1_3 (d_id OF_OXM_ARP_SPA)"
  by (simp add: loci_validate_of_oxm_arp_spa_OF_VERSION_1_3_def covered_min_id fits_def of_object_fixed_len_def)

lemma covers_oxm_arp_spa_masked_1_3 [c_proved]: "covered 4 loci_validate_of_oxm_arp_spa_masked_OF_VERSION_1_3 (d_id OF_OXM_ARP_SPA_MASKED)"
  by (simp add: loci_validate_of_oxm_arp_spa_masked_OF_VERSION_1_3_def covered_min_id fits_def of_object_fixed_len_def)

lemma covers_oxm_arp_tha_1_3 [c_proved]: "covered 4 loci_validate_of_oxm_arp_tha_OF_VERSION_1_3 (d_id OF_OXM_ARP_THA)"
  by (simp add: loci_validate_of_oxm_arp_tha_OF_VERSION_1_3_def covered_min_id fits_def of_object_fixed_len_def)

lemma covers_oxm_arp_tha_masked_1_3 [c_proved]: "covered 4 loci_validate_of_oxm_arp_tha_masked_OF_VERSION_1_3 (d_id OF_OXM_ARP_THA_MASKED)"
  by (simp add: loci_validate_of_oxm_arp_tha_masked_OF_VERSION_1_3_def covered_min_id fits_def of_object_fixed_len_def)

lemma covers_oxm_arp_tpa_1_3 [c_proved]: "covered 4 loci_validate_of_oxm_arp_tpa_OF_VERSION_1_3 (d_id OF_OXM_ARP_TPA)"
  by (simp add: loci_validate_of_oxm_arp_tpa_OF_VERSION_1_3_def covered_min_id fits_def of_object_fixed_len_def)

lemma covers_oxm_arp_tpa_masked_1_3 [c_proved]: "covered 4 loci_validate_of_oxm_arp_tpa_masked_OF_VERSION_1_3 (d_id OF_OXM_ARP_TPA_MASKED)"
  by (simp add: loci_validate_of_oxm_arp_tpa_masked_OF_VERSION_1_3_def covered_min_id fits_def of_object_fixed_len_def)

lemma covers_oxm_bsn_egr_port_group_id_1_3 [c_proved]: "covered 4 loci_validate_of_oxm_bsn_egr_port_group_id_OF_VERSION_1_3 (d_id OF_OXM_BSN_EGR_PORT_GROUP_ID)"
  by (simp add: loci_validate_of_oxm_bsn_egr_port_group_id_OF_VERSION_1_3_def covered_min_id fits_def of_object_fixed_len_def)

lemma covers_oxm_bsn_egr_port_group_id_masked_1_3 [c_proved]: "covered 4 loci_validate_of_oxm_bsn_egr_port_group_id_masked_OF_VERSION_1_3 (d_id OF_OXM_BSN_EGR_PORT_GROUP_ID_MASKED)"
  by (simp add: loci_validate_of_oxm_bsn_egr_port_group_id_masked_OF_VERSION_1_3_def covered_min_id fits_def of_object_fixed_len_def)

lemma covers_oxm_bsn_global_vrf_allowed_1_3 [c_proved]: "covered 4 loci_validate_of_oxm_bsn_global_vrf_allowed_OF_VERSION_1_3 (d_id OF_OXM_BSN_GLOBAL_VRF_ALLOWED)"
  by (simp add: loci_validate_of_oxm_bsn_global_vrf_allowed_OF_VERSION_1_3_def covered_min_id fits_def of_object_fixed_len_def)

lemma covers_oxm_bsn_global_vrf_allowed_masked_1_3 [c_proved]: "covered 4 loci_validate_of_oxm_bsn_global_vrf_allowed_masked_OF_VERSION_1_3 (d_id OF_OXM_BSN_GLOBAL_VRF_ALLOWED_MASKED)"
  by (simp add: loci_validate_of_oxm_bsn_global_vrf_allowed_masked_OF_VERSION_1_3_def covered_min_id fits_def of_object_fixed_len_def)

lemma covers_oxm_bsn_in_ports_128_1_3 [c_proved]: "covered 4 loci_validate_of_oxm_bsn_in_ports_128_OF_VERSION_1_3 (d_id OF_OXM_BSN_IN_PORTS_128)"
  by (simp add: loci_validate_of_oxm_bsn_in_ports_128_OF_VERSION_1_3_def covered_min_id fits_def of_object_fixed_len_def)

lemma covers_oxm_bsn_in_ports_128_masked_1_3 [c_proved]: "covered 4 loci_validate_of_oxm_bsn_in_ports_128_masked_OF_VERSION_1_3 (d_id OF_OXM_BSN_IN_PORTS_128_MASKED)"
  by (simp add: loci_validate_of_oxm_bsn_in_ports_128_masked_OF_VERSION_1_3_def covered_min_id fits_def of_object_fixed_len_def)

lemma covers_oxm_bsn_in_ports_512_1_3 [c_proved]: "covered 4 loci_validate_of_oxm_bsn_in_ports_512_OF_VERSION_1_3 (d_id OF_OXM_BSN_IN_PORTS_512)"
  by (simp add: loci_validate_of_oxm_bsn_in_ports_512_OF_VERSION_1_3_def covered_min_id fits_def of_object_fixed_len_def)

lemma covers_oxm_bsn_in_ports_512_masked_1_3 [c_proved]: "covered 4 loci_validate_of_oxm_bsn_in_ports_512_masked_OF_VERSION_1_3 (d_id OF_OXM_BSN_IN_PORTS_512_MASKED)"
  by (simp add: loci_validate_of_oxm_bsn_in_ports_512_masked_OF_VERSION_1_3_def covered_min_id fits_def of_object_fixed_len_def)

lemma covers_oxm_bsn_ingress_port_group_id_1_3 [c_proved]: "covered 4 loci_validate_of_oxm_bsn_ingress_port_group_id_OF_VERSION_1_3 (d_id OF_OXM_BSN_INGRESS_PORT_GROUP_ID)"
  by (simp add: loci_validate_of_oxm_bsn_ingress_port_group_id_OF_VERSION_1_3_def covered_min_id fits_def of_object_fixed_len_def)

lemma covers_oxm_bsn_ingress_port_group_id_masked_1_3 [c_proved]: "covered 4 loci_validate_of_oxm_bsn_ingress_port_group_id_masked_OF_VERSION_1_3 (d_id OF_OXM_BSN_INGRESS_PORT_GROUP_ID_MASKED)"
  by (simp add: loci_validate_of_oxm_bsn_ingress_port_group_id_masked_OF_VERSION_1_3_def covered_min_id fits_def of_object_fixed_len_def)

lemma covers_oxm_bsn_l2_cache_hit_1_3 [c_proved]: "covered 4 loci_validate_of_oxm_bsn_l2_cache_hit_OF_VERSION_1_3 (d_id OF_OXM_BSN_L2_CACHE_HIT)"
  by (simp add: loci_validate_of_oxm_bsn_l2_cache_hit_OF_VERSION_1_3_def covered_min_id fits_def of_object_fixed_len_def)

lemma covers_oxm_bsn_l2_cache_hit_masked_1_3 [c_proved]: "covered 4 loci_validate_of_oxm_bsn_l2_cache_hit_masked_OF_VERSION_1_3 (d_id OF_OXM_BSN_L2_CACHE_HIT_MASKED)"
  by (simp add: loci_validate_of_oxm_bsn_l2_cache_hit_masked_OF_VERSION_1_3_def covered_min_id fits_def of_object_fixed_len_def)

lemma covers_oxm_bsn_l3_dst_class_id_1_3 [c_proved]: "covered 4 loci_validate_of_oxm_bsn_l3_dst_class_id_OF_VERSION_1_3 (d_id OF_OXM_BSN_L3_DST_CLASS_ID)"
  by (simp add: loci_validate_of_oxm_bsn_l3_dst_class_id_OF_VERSION_1_3_def covered_min_id fits_def of_object_fixed_len_def)

lemma covers_oxm_bsn_l3_dst_class_id_masked_1_3 [c_proved]: "covered 4 loci_validate_of_oxm_bsn_l3_dst_class_id_masked_OF_VERSION_1_3 (d_id OF_OXM_BSN_L3_DST_CLASS_ID_MASKED)"
  by (simp add: loci_validate_of_oxm_bsn_l3_dst_class_id_masked_OF_VERSION_1_3_def covered_min_id fits_def of_object_fixed_len_def)

lemma covers_oxm_bsn_l3_interface_class_id_1_3 [c_proved]: "covered 4 loci_validate_of_oxm_bsn_l3_interface_class_id_OF_VERSION_1_3 (d_id OF_OXM_BSN_L3_INTERFACE_CLASS_ID)"
  by (simp add: loci_validate_of_oxm_bsn_l3_interface_class_id_OF_VERSION_1_3_def covered_min_id fits_def of_object_fixed_len_def)

lemma covers_oxm_bsn_l3_interface_class_id_masked_1_3 [c_proved]: "covered 4 loci_validate_of_oxm_bsn_l3_interface_class_id_masked_OF_VERSION_1_3 (d_id OF_OXM_BSN_L3_INTERFACE_CLASS_ID_MASKED)"
  by (simp add: loci_validate_of_oxm_bsn_l3_interface_class_id_masked_OF_VERSION_1_3_def covered_min_id fits_def of_object_fixed_len_def)

lemma covers_oxm_bsn_l3_src_class_id_1_3 [c_proved]: "covered 4 loci_validate_of_oxm_bsn_l3_src_class_id_OF_VERSION_1_3 (d_id OF_OXM_BSN_L3_SRC_CLASS_ID)"
  by (simp add: loci_validate_of_oxm_bsn_l3_src_class_id_OF_VERSION_1_3_def covered_min_id fits_def of_object_fixed_len_def)

lemma covers_oxm_bsn_l3_src_class_id_masked_1_3 [c_proved]: "covered 4 loci_validate_of_oxm_bsn_l3_src_class_id_masked_OF_VERSION_1_3 (d_id OF_OXM_BSN_L3_SRC_CLASS_ID_MASKED)"
  by (simp add: loci_validate_of_oxm_bsn_l3_src_class_id_masked_OF_VERSION_1_3_def covered_min_id fits_def of_object_fixed_len_def)

lemma covers_oxm_bsn_lag_id_1_3 [c_proved]: "covered 4 loci_validate_of_oxm_bsn_lag_id_OF_VERSION_1_3 (d_id OF_OXM_BSN_LAG_ID)"
  by (simp add: loci_validate_of_oxm_bsn_lag_id_OF_VERSION_1_3_def covered_min_id fits_def of_object_fixed_len_def)

lemma covers_oxm_bsn_lag_id_masked_1_3 [c_proved]: "covered 4 loci_validate_of_oxm_bsn_lag_id_masked_OF_VERSION_1_3 (d_id OF_OXM_BSN_LAG_ID_MASKED)"
  by (simp add: loci_validate_of_oxm_bsn_lag_id_masked_OF_VERSION_1_3_def covered_min_id fits_def of_object_fixed_len_def)

lemma covers_oxm_bsn_tcp_flags_1_3 [c_proved]: "covered 4 loci_validate_of_oxm_bsn_tcp_flags_OF_VERSION_1_3 (d_id OF_OXM_BSN_TCP_FLAGS)"
  by (simp add: loci_validate_of_oxm_bsn_tcp_flags_OF_VERSION_1_3_def covered_min_id fits_def of_object_fixed_len_def)

lemma covers_oxm_bsn_tcp_flags_masked_1_3 [c_proved]: "covered 4 loci_validate_of_oxm_bsn_tcp_flags_masked_OF_VERSION_1_3 (d_id OF_OXM_BSN_TCP_FLAGS_MASKED)"
  by (simp add: loci_validate_of_oxm_bsn_tcp_flags_masked_OF_VERSION_1_3_def covered_min_id fits_def of_object_fixed_len_def)

lemma covers_oxm_bsn_udf0_1_3 [c_proved]: "covered 4 loci_validate_of_oxm_bsn_udf0_OF_VERSION_1_3 (d_id OF_OXM_BSN_UDF0)"
  by (simp add: loci_validate_of_oxm_bsn_udf0_OF_VERSION_1_3_def covered_min_id fits_def of_object_fixed_len_def)

lemma covers_oxm_bsn_udf0_masked_1_3 [c_proved]: "covered 4 loci_validate_of_oxm_bsn_udf0_masked_OF_VERSION_1_3 (d_id OF_OXM_BSN_UDF0_MASKED)"
  by (simp add: loci_validate_of_oxm_bsn_udf0_masked_OF_VERSION_1_3_def covered_min_id fits_def of_object_fixed_len_def)

lemma covers_oxm_bsn_udf1_1_3 [c_proved]: "covered 4 loci_validate_of_oxm_bsn_udf1_OF_VERSION_1_3 (d_id OF_OXM_BSN_UDF1)"
  by (simp add: loci_validate_of_oxm_bsn_udf1_OF_VERSION_1_3_def covered_min_id fits_def of_object_fixed_len_def)

lemma covers_oxm_bsn_udf1_masked_1_3 [c_proved]: "covered 4 loci_validate_of_oxm_bsn_udf1_masked_OF_VERSION_1_3 (d_id OF_OXM_BSN_UDF1_MASKED)"
  by (simp add: loci_validate_of_oxm_bsn_udf1_masked_OF_VERSION_1_3_def covered_min_id fits_def of_object_fixed_len_def)

lemma covers_oxm_bsn_udf2_1_3 [c_proved]: "covered 4 loci_validate_of_oxm_bsn_udf2_OF_VERSION_1_3 (d_id OF_OXM_BSN_UDF2)"
  by (simp add: loci_validate_of_oxm_bsn_udf2_OF_VERSION_1_3_def covered_min_id fits_def of_object_fixed_len_def)

lemma covers_oxm_bsn_udf2_masked_1_3 [c_proved]: "covered 4 loci_validate_of_oxm_bsn_udf2_masked_OF_VERSION_1_3 (d_id OF_OXM_BSN_UDF2_MASKED)"
  by (simp add: loci_validate_of_oxm_bsn_udf2_masked_OF_VERSION_1_3_def covered_min_id fits_def of_object_fixed_len_def)

lemma covers_oxm_bsn_udf3_1_3 [c_proved]: "covered 4 loci_validate_of_oxm_bsn_udf3_OF_VERSION_1_3 (d_id OF_OXM_BSN_UDF3)"
  by (simp add: loci_validate_of_oxm_bsn_udf3_OF_VERSION_1_3_def covered_min_id fits_def of_object_fixed_len_def)

lemma covers_oxm_bsn_udf3_masked_1_3 [c_proved]: "covered 4 loci_validate_of_oxm_bsn_udf3_masked_OF_VERSION_1_3 (d_id OF_OXM_BSN_UDF3_MASKED)"
  by (simp add: loci_validate_of_oxm_bsn_udf3_masked_OF_VERSION_1_3_def covered_min_id fits_def of_object_fixed_len_def)

lemma covers_oxm_bsn_udf4_1_3 [c_proved]: "covered 4 loci_validate_of_oxm_bsn_udf4_OF_VERSION_1_3 (d_id OF_OXM_BSN_UDF4)"
  by (simp add: loci_validate_of_oxm_bsn_udf4_OF_VERSION_1_3_def covered_min_id fits_def of_object_fixed_len_def)

lemma covers_oxm_bsn_udf4_masked_1_3 [c_proved]: "covered 4 loci_validate_of_oxm_bsn_udf4_masked_OF_VERSION_1_3 (d_id OF_OXM_BSN_UDF4_MASKED)"
  by (simp add: loci_validate_of_oxm_bsn_udf4_masked_OF_VERSION_1_3_def covered_min_id fits_def of_object_fixed_len_def)

lemma covers_oxm_bsn_udf5_1_3 [c_proved]: "covered 4 loci_validate_of_oxm_bsn_udf5_OF_VERSION_1_3 (d_id OF_OXM_BSN_UDF5)"
  by (simp add: loci_validate_of_oxm_bsn_udf5_OF_VERSION_1_3_def covered_min_id fits_def of_object_fixed_len_def)

lemma covers_oxm_bsn_udf5_masked_1_3 [c_proved]: "covered 4 loci_validate_of_oxm_bsn_udf5_masked_OF_VERSION_1_3 (d_id OF_OXM_BSN_UDF5_MASKED)"
  by (simp add: loci_validate_of_oxm_bsn_udf5_masked_OF_VERSION_1_3_def covered_min_id fits_def of_object_fixed_len_def)

lemma covers_oxm_bsn_udf6_1_3 [c_proved]: "covered 4 loci_validate_of_oxm_bsn_udf6_OF_VERSION_1_3 (d_id OF_OXM_BSN_UDF6)"
  by (simp add: loci_validate_of_oxm_bsn_udf6_OF_VERSION_1_3_def covered_min_id fits_def of_object_fixed_len_def)

lemma covers_oxm_bsn_udf6_masked_1_3 [c_proved]: "covered 4 loci_validate_of_oxm_bsn_udf6_masked_OF_VERSION_1_3 (d_id OF_OXM_BSN_UDF6_MASKED)"
  by (simp add: loci_validate_of_oxm_bsn_udf6_masked_OF_VERSION_1_3_def covered_min_id fits_def of_object_fixed_len_def)

lemma covers_oxm_bsn_udf7_1_3 [c_proved]: "covered 4 loci_validate_of_oxm_bsn_udf7_OF_VERSION_1_3 (d_id OF_OXM_BSN_UDF7)"
  by (simp add: loci_validate_of_oxm_bsn_udf7_OF_VERSION_1_3_def covered_min_id fits_def of_object_fixed_len_def)

lemma covers_oxm_bsn_udf7_masked_1_3 [c_proved]: "covered 4 loci_validate_of_oxm_bsn_udf7_masked_OF_VERSION_1_3 (d_id OF_OXM_BSN_UDF7_MASKED)"
  by (simp add: loci_validate_of_oxm_bsn_udf7_masked_OF_VERSION_1_3_def covered_min_id fits_def of_object_fixed_len_def)

lemma covers_oxm_bsn_vlan_xlate_port_group_id_1_3 [c_proved]: "covered 4 loci_validate_of_oxm_bsn_vlan_xlate_port_group_id_OF_VERSION_1_3 (d_id OF_OXM_BSN_VLAN_XLATE_PORT_GROUP_ID)"
  by (simp add: loci_validate_of_oxm_bsn_vlan_xlate_port_group_id_OF_VERSION_1_3_def covered_min_id fits_def of_object_fixed_len_def)

lemma covers_oxm_bsn_vlan_xlate_port_group_id_masked_1_3 [c_proved]: "covered 4 loci_validate_of_oxm_bsn_vlan_xlate_port_group_id_masked_OF_VERSION_1_3 (d_id OF_OXM_BSN_VLAN_XLATE_PORT_GROUP_ID_MASKED)"
  by (simp add: loci_validate_of_oxm_bsn_vlan_xlate_port_group_id_masked_OF_VERSION_1_3_def covered_min_id fits_def of_object_fixed_len_def)

lemma covers_oxm_bsn_vrf_1_3 [c_proved]: "covered 4 loci_validate_of_oxm_bsn_vrf_OF_VERSION_1_3 (d_id OF_OXM_BSN_VRF)"
  by (simp add: loci_validate_of_oxm_bsn_vrf_OF_VERSION_1_3_def covered_min_id fits_def of_object_fixed_len_def)

lemma covers_oxm_bsn_vrf_masked_1_3 [c_proved]: "covered 4 loci_validate_of_oxm_bsn_vrf_masked_OF_VERSION_1_3 (d_id OF_OXM_BSN_VRF_MASKED)"
  by (simp add: loci_validate_of_oxm_bsn_vrf_masked_OF_VERSION_1_3_def covered_min_id fits_def of_object_fixed_len_def)

lemma covers_oxm_eth_dst_1_3 [c_proved]: "covered 4 loci_validate_of_oxm_eth_dst_OF_VERSION_1_3 (d_id OF_OXM_ETH_DST)"
  by (simp add: loci_validate_of_oxm_eth_dst_OF_VERSION_1_3_def covered_min_id fits_def of_object_fixed_len_def)

lemma covers_oxm_eth_dst_masked_1_3 [c_proved]: "covered 4 loci_validate_of_oxm_eth_dst_masked_OF_VERSION_1_3 (d_id OF_OXM_ETH_DST_MASKED)"
  by (simp add: loci_validate_of_oxm_eth_dst_masked_OF_VERSION_1_3_def covered_min_id fits_def of_object_fixed_len_def)

lemma covers_oxm_eth_src_1_3 [c_proved]: "covered 4 loci_validate_of_oxm_eth_src_OF_VERSION_1_3 (d_id OF_OXM_ETH_SRC)"
  by (simp add: loci_validate_of_oxm_eth_src_OF_VERSION_1_3_def covered_min_id fits_def of_object_fixed_len_def)

lemma covers_oxm_eth_src_masked_1_3 [c_proved]: "covered 4 loci_validate_of_oxm_eth_src_masked_OF_VERSION_1_3 (d_id OF_OXM_ETH_SRC_MASKED)"
  by (simp add: loci_validate_of_oxm_eth_src_masked_OF_VERSION_1_3_def covered_min_id fits_def of_object_fixed_len_def)

lemma covers_oxm_eth_type_1_3 [c_proved]: "covered 4 loci_validate_of_oxm_eth_type_OF_VERSION_1_3 (d_id OF_OXM_ETH_TYPE)"
  by (simp add: loci_validate_of_oxm_eth_type_OF_VERSION_1_3_def covered_min_id fits_def of_object_fixed_len_def)

lemma covers_oxm_eth_type_masked_1_3 [c_proved]: "covered 4 loci_validate_of_oxm_eth_type_masked_OF_VERSION_1_3 (d_id OF_OXM_ETH_TYPE_MASKED)"
  by (simp add: loci_validate_of_oxm_eth_type_masked_OF_VERSION_1_3_def covered_min_id fits_def of_object_fixed_len_def)

lemma covers_oxm_icmpv4_code_1_3 [c_proved]: "covered 4 loci_validate_of_oxm_icmpv4_code_OF_VERSION_1_3 (d_id OF_OXM_ICMPV4_CODE)"
  by (simp add: loci_validate_of_oxm_icmpv4_code_OF_VERSION_1_3_def covered_min_id fits_def of_object_fixed_len_def)

lemma covers_oxm_icmpv4_code_masked_1_3 [c_proved]: "covered 4 loci_validate_of_oxm_icmpv4_code_masked_OF_VERSION_1_3 (d_id OF_OXM_ICMPV4_CODE_MASKED)"
  by (simp add: loci_validate_of_oxm_icmpv4_code_masked_OF_VERSION_1_3_def covered_min_id fits_def of_object_fixed_len_def)

lemma covers_oxm_icmpv4_type_1_3 [c_proved]: "covered 4 loci_validate_of_oxm_icmpv4_type_OF_VERSION_1_3 (d_id OF_OXM_ICMPV4_TYPE)"
  by (simp add: loci_validate_of_oxm_icmpv4_type_OF_VERSION_1_3_def covered_min_id fits_def of_object_fixed_len_def)

lemma covers_oxm_icmpv4_type_masked_1_3 [c_proved]: "covered 4 loci_validate_of_oxm_icmpv4_type_masked_OF_VERSION_1_3 (d_id OF_OXM_ICMPV4_TYPE_MASKED)"
  by (simp add: loci_validate_of_oxm_icmpv4_type_masked_OF_VERSION_1_3_def covered_min_id fits_def of_object_fixed_len_def)

lemma covers_oxm_icmpv6_code_1_3 [c_proved]: "covered 4 loci_validate_of_oxm_icmpv6_code_OF_VERSION_1_3 (d_id OF_OXM_ICMPV6_CODE)"
  by (simp add: loci_validate_of_oxm_icmpv6_code_OF_VERSION_1_3_def covered_min_id fits_def of_object_fixed_len_def)

lemma covers_oxm_icmpv6_code_masked_1_3 [c_proved]: "covered 4 loci_validate_of_oxm_icmpv6_code_masked_OF_VERSION_1_3 (d_id OF_OXM_ICMPV6_CODE_MASKED)"
  by (simp add: loci_validate_of_oxm_icmpv6_code_masked_OF_VERSION_1_3_def covered_min_id fits_def of_object_fixed_len_def)

lemma covers_oxm_icmpv6_type_1_3 [c_proved]: "covered 4 loci_validate_of_oxm_icmpv6_type_OF_VERSION_1_3 (d_id OF_OXM_ICMPV6_TYPE)"
  by (simp add: loci_validate_of_oxm_icmpv6_type_OF_VERSION_1_3_def covered_min_id fits_def of_object_fixed_len_def)

lemma covers_oxm_icmpv6_type_masked_1_3 [c_proved]: "covered 4 loci_validate_of_oxm_icmpv6_type_masked_OF_VERSION_1_3 (d_id OF_OXM_ICMPV6_TYPE_MASKED)"
  by (simp add: loci_validate_of_oxm_icmpv6_type_masked_OF_VERSION_1_3_def covered_min_id fits_def of_object_fixed_len_def)

lemma covers_oxm_in_phy_port_1_3 [c_proved]: "covered 4 loci_validate_of_oxm_in_phy_port_OF_VERSION_1_3 (d_id OF_OXM_IN_PHY_PORT)"
  by (simp add: loci_validate_of_oxm_in_phy_port_OF_VERSION_1_3_def covered_min_id fits_def of_object_fixed_len_def)

lemma covers_oxm_in_phy_port_masked_1_3 [c_proved]: "covered 4 loci_validate_of_oxm_in_phy_port_masked_OF_VERSION_1_3 (d_id OF_OXM_IN_PHY_PORT_MASKED)"
  by (simp add: loci_validate_of_oxm_in_phy_port_masked_OF_VERSION_1_3_def covered_min_id fits_def of_object_fixed_len_def)

lemma covers_oxm_in_port_1_3 [c_proved]: "covered 4 loci_validate_of_oxm_in_port_OF_VERSION_1_3 (d_id OF_OXM_IN_PORT)"
  by (simp add: loci_validate_of_oxm_in_port_OF_VERSION_1_3_def covered_min_id fits_def of_object_fixed_len_def)

lemma covers_oxm_in_port_masked_1_3 [c_proved]: "covered 4 loci_validate_of_oxm_in_port_masked_OF_VERSION_1_3 (d_id OF_OXM_IN_PORT_MASKED)"
  by (simp add: loci_validate_of_oxm_in_port_masked_OF_VERSION_1_3_def covered_min_id fits_def of_object_fixed_len_def)

lemma covers_oxm_ip_dscp_1_3 [c_proved]: "covered 4 loci_validate_of_oxm_ip_dscp_OF_VERSION_1_3 (d_id OF_OXM_IP_DSCP)"
  by (simp add: loci_validate_of_oxm_ip_dscp_OF_VERSION_1_3_def covered_min_id fits_def of_object_fixed_len_def)

lemma covers_oxm_ip_dscp_masked_1_3 [c_proved]: "covered 4 loci_validate_of_oxm_ip_dscp_masked_OF_VERSION_1_3 (d_id OF_OXM_IP_DSCP_MASKED)"
  by (simp add: loci_validate_of_oxm_ip_dscp_masked_OF_VERSION_1_3_def covered_min_id fits_def of_object_fixed_len_def)

lemma covers_oxm_ip_ecn_1_3 [c_proved]: "covered 4 loci_validate_of_oxm_ip_ecn_OF_VERSION_1_3 (d_id OF_OXM_IP_ECN)"
  by (simp add: loci_validate_of_oxm_ip_ecn_OF_VERSION_1_3_def covered_min_id fits_def of_object_fixed_len_def)

lemma covers_oxm_ip_ecn_masked_1_3 [c_proved]: "covered 4 loci_validate_of_oxm_ip_ecn_masked_OF_VERSION_1_3 (d_id OF_OXM_IP_ECN_MASKED)"
  by (simp add: loci_validate_of_oxm_ip_ecn_masked_OF_VERSION_1_3_def covered_min_id fits_def of_object_fixed_len_def)

lemma covers_oxm_ip_proto_1_3 [c_proved]: "covered 4 loci_validate_of_oxm_ip_proto_OF_VERSION_1_3 (d_id OF_OXM_IP_PROTO)"
  by (simp add: loci_validate_of_oxm_ip_proto_OF_VERSION_1_3_def covered_min_id fits_def of_object_fixed_len_def)

lemma covers_oxm_ip_proto_masked_1_3 [c_proved]: "covered 4 loci_validate_of_oxm_ip_proto_masked_OF_VERSION_1_3 (d_id OF_OXM_IP_PROTO_MASKED)"
  by (simp add: loci_validate_of_oxm_ip_proto_masked_OF_VERSION_1_3_def covered_min_id fits_def of_object_fixed_len_def)

lemma covers_oxm_ipv4_dst_1_3 [c_proved]: "covered 4 loci_validate_of_oxm_ipv4_dst_OF_VERSION_1_3 (d_id OF_OXM_IPV4_DST)"
  by (simp add: loci_validate_of_oxm_ipv4_dst_OF_VERSION_1_3_def covered_min_id fits_def of_object_fixed_len_def)

lemma covers_oxm_ipv4_dst_masked_1_3 [c_proved]: "covered 4 loci_validate_of_oxm_ipv4_dst_masked_OF_VERSION_1_3 (d_id OF_OXM_IPV4_DST_MASKED)"
  by (simp add: loci_validate_of_oxm_ipv4_dst_masked_OF_VERSION_1_3_def covered_min_id fits_def of_object_fixed_len_def)

lemma covers_oxm_ipv4_src_1_3 [c_proved]: "covered 4 loci_validate_of_oxm_ipv4_src_OF_VERSION_1_3 (d_id OF_OXM_IPV4_SRC)"
  by (simp add: loci_validate_of_oxm_ipv4_src_OF_VERSION_1_3_def covered_min_id fits_def of_object_fixed_len_def)

lemma covers_oxm_ipv4_src_masked_1_3 [c_proved]: "covered 4 loci_validate_of_oxm_ipv4_src_masked_OF_VERSION_1_3 (d_id OF_OXM_IPV4_SRC_MASKED)"
  by (simp add: loci_validate_of_oxm_ipv4_src_masked_OF_VERSION_1_3_def covered_min_id fits_def of_object_fixed_len_def)

lemma covers_oxm_ipv6_dst_1_3 [c_proved]: "covered 4 loci_validate_of_oxm_ipv6_dst_OF_VERSION_1_3 (d_id OF_OXM_IPV6_DST)"
  by (simp add: loci_validate_of_oxm_ipv6_dst_OF_VERSION_1_3_def covered_min_id fits_def of_object_fixed_len_def)

lemma covers_oxm_ipv6_dst_masked_1_3 [c_proved]: "covered 4 loci_validate_of_oxm_ipv6_dst_masked_OF_VERSION_1_3 (d_id OF_OXM_IPV6_DST_MASKED)"
  by (simp add: loci_validate_of_oxm_ipv6_dst_masked_OF_VERSION_1_3_def covered_min_id fits_def of_object_fixed_len_def)

lemma covers_oxm_ipv6_exthdr_1_3 [c_proved]: "covered 4 loci_validate_of_oxm_ipv6_exthdr_OF_VERSION_1_3 (d_id OF_OXM_IPV6_EXTHDR)"
  by (simp add: loci_validate_of_oxm_ipv6_exthdr_OF_VERSION_1_3_def covered_min_id fits_def of_object_fixed_len_def)

lemma covers_oxm_ipv6_exthdr_masked_1_3 [c_proved]: "covered 4 loci_validate_of_oxm_ipv6_exthdr_masked_OF_VERSION_1_3 (d_id OF_OXM_IPV6_EXTHDR_MASKED)"
  by (simp add: loci_validate_of_oxm_ipv6_exthdr_masked_OF_VERSION_1_3_def covered_min_id fits_def of_object_fixed_len_def)

lemma covers_oxm_ipv6_flabel_1_3 [c_proved]: "covered 4 loci_validate_of_oxm_ipv6_flabel_OF_VERSION_1_3 (d_id OF_OXM_IPV6_FLABEL)"
  by (simp add: loci_validate_of_oxm_ipv6_flabel_OF_VERSION_1_3_def covered_min_id fits_def of_object_fixed_len_def)

lemma covers_oxm_ipv6_flabel_masked_1_3 [c_proved]: "covered 4 loci_validate_of_oxm_ipv6_flabel_masked_OF_VERSION_1_3 (d_id OF_OXM_IPV6_FLABEL_MASKED)"
  by (simp add: loci_validate_of_oxm_ipv6_flabel_masked_OF_VERSION_1_3_def covered_min_id fits_def of_object_fixed_len_def)

lemma covers_oxm_ipv6_nd_sll_1_3 [c_proved]: "covered 4 loci_validate_of_oxm_ipv6_nd_sll_OF_VERSION_1_3 (d_id OF_OXM_IPV6_ND_SLL)"
  by (simp add: loci_validate_of_oxm_ipv6_nd_sll_OF_VERSION_1_3_def covered_min_id fits_def of_object_fixed_len_def)

lemma covers_oxm_ipv6_nd_sll_masked_1_3 [c_proved]: "covered 4 loci_validate_of_oxm_ipv6_nd_sll_masked_OF_VERSION_1_3 (d_id OF_OXM_IPV6_ND_SLL_MASKED)"
  by (simp add: loci_validate_of_oxm_ipv6_nd_sll_masked_OF_VERSION_1_3_def covered_min_id fits_def of_object_fixed_len_def)

lemma covers_oxm_ipv6_nd_target_1_3 [c_proved]: "covered 4 loci_validate_of_oxm_ipv6_nd_target_OF_VERSION_1_3 (d_id OF_OXM_IPV6_ND_TARGET)"
  by (simp add: loci_validate_of_oxm_ipv6_nd_target_OF_VERSION_1_3_def covered_min_id fits_def of_object_fixed_len_def)

lemma covers_oxm_ipv6_nd_target_masked_1_3 [c_proved]: "covered 4 loci_validate_of_oxm_ipv6_nd_target_masked_OF_VERSION_1_3 (d_id OF_OXM_IPV6_ND_TARGET_MASKED)"
  by (simp add: loci_validate_of_oxm_ipv6_nd_target_masked_OF_VERSION_1_3_def covered_min_id fits_def of_object_fixed_len_def)

lemma covers_oxm_ipv6_nd_tll_1_3 [c_proved]: "covered 4 loci_validate_of_oxm_ipv6_nd_tll_OF_VERSION_1_3 (d_id OF_OXM_IPV6_ND_TLL)"
  by (simp add: loci_validate_of_oxm_ipv6_nd_tll_OF_VERSION_1_3_def covered_min_id fits_def of_object_fixed_len_def)

lemma covers_oxm_ipv6_nd_tll_masked_1_3 [c_proved]: "covered 4 loci_validate_of_oxm_ipv6_nd_tll_masked_OF_VERSION_1_3 (d_id OF_OXM_IPV6_ND_TLL_MASKED)"
  by (simp add: loci_validate_of_oxm_ipv6_nd_tll_masked_OF_VERSION_1_3_def covered_min_id fits_def of_object_fixed_len_def)

lemma covers_oxm_ipv6_src_1_3 [c_proved]: "covered 4 loci_validate_of_oxm_ipv6_src_OF_VERSION_1_3 (d_id OF_OXM_IPV6_SRC)"
  by (simp add: loci_validate_of_oxm_ipv6_src_OF_VERSION_1_3_def covered_min_id fits_def of_object_fixed_len_def)

lemma covers_oxm_ipv6_src_masked_1_3 [c_proved]: "covered 4 loci_validate_of_oxm_ipv6_src_masked_OF_VERSION_1_3 (d_id OF_OXM_IPV6_SRC_MASKED)"
  by (simp add: loci_validate_of_oxm_ipv6_src_masked_OF_VERSION_1_3_def covered_min_id fits_def of_object_fixed_len_def)

lemma covers_oxm_metadata_1_3 [c_proved]: "covered 4 loci_validate_of_oxm_metadata_OF_VERSION_1_3 (d_id OF_OXM_METADATA)"
  by (simp add: loci_validate_of_oxm_metadata_OF_VERSION_1_3_def covered_min_id fits_def of_object_fixed_len_def)

lemma covers_oxm_metadata_masked_1_3 [c_proved]: "covered 4 loci_validate_of_oxm_metadata_masked_OF_VERSION_1_3 (d_id OF_OXM_METADATA_MASKED)"
  by (simp add: loci_validate_of_oxm_metadata_masked_OF_VERSION_1_3_def covered_min_id fits_def of_object_fixed_len_def)

lemma covers_oxm_mpls_bos_1_3 [c_proved]: "covered 4 loci_validate_of_oxm_mpls_bos_OF_VERSION_1_3 (d_id OF_OXM_MPLS_BOS)"
  by (simp add: loci_validate_of_oxm_mpls_bos_OF_VERSION_1_3_def covered_min_id fits_def of_object_fixed_len_def)

lemma covers_oxm_mpls_bos_masked_1_3 [c_proved]: "covered 4 loci_validate_of_oxm_mpls_bos_masked_OF_VERSION_1_3 (d_id OF_OXM_MPLS_BOS_MASKED)"
  by (simp add: loci_validate_of_oxm_mpls_bos_masked_OF_VERSION_1_3_def covered_min_id fits_def of_object_fixed_len_def)

lemma covers_oxm_mpls_label_1_3 [c_proved]: "covered 4 loci_validate_of_oxm_mpls_label_OF_VERSION_1_3 (d_id OF_OXM_MPLS_LABEL)"
  by (simp add: loci_validate_of_oxm_mpls_label_OF_VERSION_1_3_def covered_min_id fits_def of_object_fixed_len_def)

lemma covers_oxm_mpls_label_masked_1_3 [c_proved]: "covered 4 loci_validate_of_oxm_mpls_label_masked_OF_VERSION_1_3 (d_id OF_OXM_MPLS_LABEL_MASKED)"
  by (simp add: loci_validate_of_oxm_mpls_label_masked_OF_VERSION_1_3_def covered_min_id fits_def of_object_fixed_len_def)

lemma covers_oxm_mpls_tc_1_3 [c_proved]: "covered 4 loci_validate_of_oxm_mpls_tc_OF_VERSION_1_3 (d_id OF_OXM_MPLS_TC)"
  by (simp add: loci_validate_of_oxm_mpls_tc_OF_VERSION_1_3_def covered_min_id fits_def of_object_fixed_len_def)

lemma covers_oxm_mpls_tc_masked_1_3 [c_proved]: "covered 4 loci_validate_of_oxm_mpls_tc_masked_OF_VERSION_1_3 (d_id OF_OXM_MPLS_TC_MASKED)"
  by (simp add: loci_validate_of_oxm_mpls_tc_masked_OF_VERSION_1_3_def covered_min_id fits_def of_object_fixed_len_def)

lemma covers_oxm_sctp_dst_1_3 [c_proved]: "covered 4 loci_validate_of_oxm_sctp_dst_OF_VERSION_1_3 (d_id OF_OXM_SCTP_DST)"
  by (simp add: loci_validate_of_oxm_sctp_dst_OF_VERSION_1_3_def covered_min_id fits_def of_object_fixed_len_def)

lemma covers_oxm_sctp_dst_masked_1_3 [c_proved]: "covered 4 loci_validate_of_oxm_sctp_dst_masked_OF_VERSION_1_3 (d_id OF_OXM_SCTP_DST_MASKED)"
  by (simp add: loci_validate_of_oxm_sctp_dst_masked_OF_VERSION_1_3_def covered_min_id fits_def of_object_fixed_len_def)

lemma covers_oxm_sctp_src_1_3 [c_proved]: "covered 4 loci_validate_of_oxm_sctp_src_OF_VERSION_1_3 (d_id OF_OXM_SCTP_SRC)"
  by (simp add: loci_validate_of_oxm_sctp_src_OF_VERSION_1_3_def covered_min_id fits_def of_object_fixed_len_def)

lemma covers_oxm_sctp_src_masked_1_3 [c_proved]: "covered 4 loci_validate_of_oxm_sctp_src_masked_OF_VERSION_1_3 (d_id OF_OXM_SCTP_SRC_MASKED)"
  by (simp add: loci_validate_of_oxm_sctp_src_masked_OF_VERSION_1_3_def covered_min_id fits_def of_object_fixed_len_def)

lemma covers_oxm_tcp_dst_1_3 [c_proved]: "covered 4 loci_validate_of_oxm_tcp_dst_OF_VERSION_1_3 (d_id OF_OXM_TCP_DST)"
  by (simp add: loci_validate_of_oxm_tcp_dst_OF_VERSION_1_3_def covered_min_id fits_def of_object_fixed_len_def)

lemma covers_oxm_tcp_dst_masked_1_3 [c_proved]: "covered 4 loci_validate_of_oxm_tcp_dst_masked_OF_VERSION_1_3 (d_id OF_OXM_TCP_DST_MASKED)"
  by (simp add: loci_validate_of_oxm_tcp_dst_masked_OF_VERSION_1_3_def covered_min_id fits_def of_object_fixed_len_def)

lemma covers_oxm_tcp_src_1_3 [c_proved]: "covered 4 loci_validate_of_oxm_tcp_src_OF_VERSION_1_3 (d_id OF_OXM_TCP_SRC)"
  by (simp add: loci_validate_of_oxm_tcp_src_OF_VERSION_1_3_def covered_min_id fits_def of_object_fixed_len_def)

lemma covers_oxm_tcp_src_masked_1_3 [c_proved]: "covered 4 loci_validate_of_oxm_tcp_src_masked_OF_VERSION_1_3 (d_id OF_OXM_TCP_SRC_MASKED)"
  by (simp add: loci_validate_of_oxm_tcp_src_masked_OF_VERSION_1_3_def covered_min_id fits_def of_object_fixed_len_def)

lemma covers_oxm_tunnel_id_1_3 [c_proved]: "covered 4 loci_validate_of_oxm_tunnel_id_OF_VERSION_1_3 (d_id OF_OXM_TUNNEL_ID)"
  by (simp add: loci_validate_of_oxm_tunnel_id_OF_VERSION_1_3_def covered_min_id fits_def of_object_fixed_len_def)

lemma covers_oxm_tunnel_id_masked_1_3 [c_proved]: "covered 4 loci_validate_of_oxm_tunnel_id_masked_OF_VERSION_1_3 (d_id OF_OXM_TUNNEL_ID_MASKED)"
  by (simp add: loci_validate_of_oxm_tunnel_id_masked_OF_VERSION_1_3_def covered_min_id fits_def of_object_fixed_len_def)

lemma covers_oxm_tunnel_ipv4_dst_1_3 [c_proved]: "covered 4 loci_validate_of_oxm_tunnel_ipv4_dst_OF_VERSION_1_3 (d_id OF_OXM_TUNNEL_IPV4_DST)"
  by (simp add: loci_validate_of_oxm_tunnel_ipv4_dst_OF_VERSION_1_3_def covered_min_id fits_def of_object_fixed_len_def)

lemma covers_oxm_tunnel_ipv4_dst_masked_1_3 [c_proved]: "covered 4 loci_validate_of_oxm_tunnel_ipv4_dst_masked_OF_VERSION_1_3 (d_id OF_OXM_TUNNEL_IPV4_DST_MASKED)"
  by (simp add: loci_validate_of_oxm_tunnel_ipv4_dst_masked_OF_VERSION_1_3_def covered_min_id fits_def of_object_fixed_len_def)

lemma covers_oxm_tunnel_ipv4_src_1_3 [c_proved]: "covered 4 loci_validate_of_oxm_tunnel_ipv4_src_OF_VERSION_1_3 (d_id OF_OXM_TUNNEL_IPV4_SRC)"
  by (simp add: loci_validate_of_oxm_tunnel_ipv4_src_OF_VERSION_1_3_def covered_min_id fits_def of_object_fixed_len_def)

lemma covers_oxm_tunnel_ipv4_src_masked_1_3 [c_proved]: "covered 4 loci_validate_of_oxm_tunnel_ipv4_src_masked_OF_VERSION_1_3 (d_id OF_OXM_TUNNEL_IPV4_SRC_MASKED)"
  by (simp add: loci_validate_of_oxm_tunnel_ipv4_src_masked_OF_VERSION_1_3_def covered_min_id fits_def of_object_fixed_len_def)

lemma covers_oxm_udp_dst_1_3 [c_proved]: "covered 4 loci_validate_of_oxm_udp_dst_OF_VERSION_1_3 (d_id OF_OXM_UDP_DST)"
  by (simp add: loci_validate_of_oxm_udp_dst_OF_VERSION_1_3_def covered_min_id fits_def of_object_fixed_len_def)

lemma covers_oxm_udp_dst_masked_1_3 [c_proved]: "covered 4 loci_validate_of_oxm_udp_dst_masked_OF_VERSION_1_3 (d_id OF_OXM_UDP_DST_MASKED)"
  by (simp add: loci_validate_of_oxm_udp_dst_masked_OF_VERSION_1_3_def covered_min_id fits_def of_object_fixed_len_def)

lemma covers_oxm_udp_src_1_3 [c_proved]: "covered 4 loci_validate_of_oxm_udp_src_OF_VERSION_1_3 (d_id OF_OXM_UDP_SRC)"
  by (simp add: loci_validate_of_oxm_udp_src_OF_VERSION_1_3_def covered_min_id fits_def of_object_fixed_len_def)

lemma covers_oxm_udp_src_masked_1_3 [c_proved]: "covered 4 loci_validate_of_oxm_udp_src_masked_OF_VERSION_1_3 (d_id OF_OXM_UDP_SRC_MASKED)"
  by (simp add: loci_validate_of_oxm_udp_src_masked_OF_VERSION_1_3_def covered_min_id fits_def of_object_fixed_len_def)

lemma covers_oxm_vlan_pcp_1_3 [c_proved]: "covered 4 loci_validate_of_oxm_vlan_pcp_OF_VERSION_1_3 (d_id OF_OXM_VLAN_PCP)"
  by (simp add: loci_validate_of_oxm_vlan_pcp_OF_VERSION_1_3_def covered_min_id fits_def of_object_fixed_len_def)

lemma covers_oxm_vlan_pcp_masked_1_3 [c_proved]: "covered 4 loci_validate_of_oxm_vlan_pcp_masked_OF_VERSION_1_3 (d_id OF_OXM_VLAN_PCP_MASKED)"
  by (simp add: loci_validate_of_oxm_vlan_pcp_masked_OF_VERSION_1_3_def covered_min_id fits_def of_object_fixed_len_def)

lemma covers_oxm_vlan_vid_1_3 [c_proved]: "covered 4 loci_validate_of_oxm_vlan_vid_OF_VERSION_1_3 (d_id OF_OXM_VLAN_VID)"
  by (simp add: loci_validate_of_oxm_vlan_vid_OF_VERSION_1_3_def covered_min_id fits_def of_object_fixed_len_def)

lemma covers_oxm_vlan_vid_masked_1_3 [c_proved]: "covered 4 loci_validate_of_oxm_vlan_vid_masked_OF_VERSION_1_3 (d_id OF_OXM_VLAN_VID_MASKED)"
  by (simp add: loci_validate_of_oxm_vlan_vid_masked_OF_VERSION_1_3_def covered_min_id fits_def of_object_fixed_len_def)

lemma covers_queue_prop_max_rate_1_3 [c_proved]: "covered 4 loci_validate_of_queue_prop_max_rate_OF_VERSION_1_3 (d_id OF_QUEUE_PROP_MAX_RATE)"
  by (simp add: loci_validate_of_queue_prop_max_rate_OF_VERSION_1_3_def covered_min_id fits_def of_object_fixed_len_def)

lemma covers_queue_prop_min_rate_1_3 [c_proved]: "covered 4 loci_validate_of_queue_prop_min_rate_OF_VERSION_1_3 (d_id OF_QUEUE_PROP_MIN_RATE)"
  by (simp add: loci_validate_of_queue_prop_min_rate_OF_VERSION_1_3_def covered_min_id fits_def of_object_fixed_len_def)

lemma covers_table_feature_prop_apply_actions_1_3 [c_proved]: "covered 4 loci_validate_of_table_feature_prop_apply_actions_OF_VERSION_1_3 (d_id OF_TABLE_FEATURE_PROP_APPLY_ACTIONS)"
  by (simp add: loci_validate_of_table_feature_prop_apply_actions_OF_VERSION_1_3_def covered_min_id fits_def of_object_fixed_len_def)

lemma covers_table_feature_prop_apply_actions_miss_1_3 [c_proved]: "covered 4 loci_validate_of_table_feature_prop_apply_actions_miss_OF_VERSION_1_3 (d_id OF_TABLE_FEATURE_PROP_APPLY_ACTIONS_MISS)"
  by (simp add: loci_validate_of_table_feature_prop_apply_actions_miss_OF_VERSION_1_3_def covered_min_id fits_def of_object_fixed_len_def)

lemma covers_table_feature_prop_apply_setfield_1_3 [c_proved]: "covered 4 loci_validate_of_table_feature_prop_apply_setfield_OF_VERSION_1_3 (d_id OF_TABLE_FEATURE_PROP_APPLY_SETFIELD)"
  by (simp add: loci_validate_of_table_feature_prop_apply_setfield_OF_VERSION_1_3_def covered_min_id fits_def of_object_fixed_len_def)

lemma covers_table_feature_prop_apply_setfield_miss_1_3 [c_proved]: "covered 4 loci_validate_of_table_feature_prop_apply_setfield_miss_OF_VERSION_1_3 (d_id OF_TABLE_FEATURE_PROP_APPLY_SETFIELD_MISS)"
  by (simp add: loci_validate_of_table_feature_prop_apply_setfield_miss_OF_VERSION_1_3_def covered_min_id fits_def of_object_fixed_len_def)

lemma covers_table_feature_prop_instructions_1_3 [c_proved]: "covered 4 loci_validate_of_table_feature_prop_instructions_OF_VERSION_1_3 (d_id OF_TABLE_FEATURE_PROP_INSTRUCTIONS)"
  by (simp add: loci_validate_of_table_feature_prop_instructions_OF_VERSION_1_3_def covered_min_id fits_def of_object_fixed_len_def)

lemma covers_table_feature_prop_instructions_miss_1_3 [c_proved]: "covered 4 loci_validate_of_table_feature_prop_instructions_miss_OF_VERSION_1_3 (d_id OF_TABLE_FEATURE_PROP_INSTRUCTIONS_MISS)"
  by (simp add: loci_validate_of_table_feature_prop_instructions_miss_OF_VERSION_1_3_def covered_min_id fits_def of_object_fixed_len_def)

lemma covers_table_feature_prop_match_1_3 [c_proved]: "covered 4 loci_validate_of_table_feature_prop_match_OF_VERSION_1_3 (d_id OF_TABLE_FEATURE_PROP_MATCH)"
  by (simp add: loci_validate_of_table_feature_prop_match_OF_VERSION_1_3_def covered_min_id fits_def of_object_fixed_len_def)

lemma covers_table_feature_prop_next_tables_1_3 [c_proved]: "covered 4 loci_validate_of_table_feature_prop_next_tables_OF_VERSION_1_3 (d_id OF_TABLE_FEATURE_PROP_NEXT_TABLES)"
  by (simp add: loci_validate_of_table_feature_prop_next_tables_OF_VERSION_1_3_def covered_min_id fits_def of_object_fixed_len_def)

lemma covers_table_feature_prop_next_tables_miss_1_3 [c_proved]: "covered 4 loci_validate_of_table_feature_prop_next_tables_miss_OF_VERSION_1_3 (d_id OF_TABLE_FEATURE_PROP_NEXT_TABLES_MISS)"
  by (simp add: loci_validate_of_table_feature_prop_next_tables_miss_OF_VERSION_1_3_def covered_min_id fits_def of_object_fixed_len_def)

lemma covers_table_feature_prop_wildcards_1_3 [c_proved]: "covered 4 loci_validate_of_table_feature_prop_wildcards_OF_VERSION_1_3 (d_id OF_TABLE_FEATURE_PROP_WILDCARDS)"
  by (simp add: loci_validate_of_table_feature_prop_wildcards_OF_VERSION_1_3_def covered_min_id fits_def of_object_fixed_len_def)

lemma covers_table_feature_prop_write_actions_1_3 [c_proved]: "covered 4 loci_validate_of_table_feature_prop_write_actions_OF_VERSION_1_3 (d_id OF_TABLE_FEATURE_PROP_WRITE_ACTIONS)"
  by (simp add: loci_validate_of_table_feature_prop_write_actions_OF_VERSION_1_3_def covered_min_id fits_def of_object_fixed_len_def)

lemma covers_table_feature_prop_write_actions_miss_1_3 [c_proved]: "covered 4 loci_validate_of_table_feature_prop_write_actions_miss_OF_VERSION_1_3 (d_id OF_TABLE_FEATURE_PROP_WRITE_ACTIONS_MISS)"
  by (simp add: loci_validate_of_table_feature_prop_write_actions_miss_OF_VERSION_1_3_def covered_min_id fits_def of_object_fixed_len_def)

lemma covers_table_feature_prop_write_setfield_1_3 [c_proved]: "covered 4 loci_validate_of_table_feature_prop_write_setfield_OF_VERSION_1_3 (d_id OF_TABLE_FEATURE_PROP_WRITE_SETFIELD)"
  by (simp add: loci_validate_of_table_feature_prop_write_setfield_OF_VERSION_1_3_def covered_min_id fits_def of_object_fixed_len_def)

lemma covers_table_feature_prop_write_setfield_miss_1_3 [c_proved]: "covered 4 loci_validate_of_table_feature_prop_write_setfield_miss_OF_VERSION_1_3 (d_id OF_TABLE_FEATURE_PROP_WRITE_SETFIELD_MISS)"
  by (simp add: loci_validate_of_table_feature_prop_write_setfield_miss_OF_VERSION_1_3_def covered_min_id fits_def of_object_fixed_len_def)

lemma of_action_id_nicira_covered_1_3 [c_proved]: "covered 4 loci_validate_of_action_id_nicira_OF_VERSION_1_3 (of_action_id_nicira_wire_object_id_get 4)"
  unfolding loci_validate_of_action_id_nicira_OF_VERSION_1_3_def of_action_id_nicira_wire_object_id_get_def
  by (simp only: refl if_True if_False eq_num, intro c_intro)
   (simp_all add: case_covered_def c_proved map_of_Cons_code fits_def of_object_fixed_len_def del: map_of.simps cong: map_of_freeze)

lemma of_action_id_bsn_covered_1_3 [c_proved]: "covered 4 loci_validate_of_action_id_bsn_OF_VERSION_1_3 (of_action_id_bsn_wire_object_id_get 4)"
  unfolding loci_validate_of_action_id_bsn_OF_VERSION_1_3_def of_action_id_bsn_wire_object_id_get_def
  by (simp only: refl if_True if_False eq_num, intro c_intro)
   (simp_all add: case_covered_def c_proved map_of_Cons_code fits_def of_object_fixed_len_def del: map_of.simps cong: map_of_freeze)

lemma of_action_id_experimenter_covered_1_3 [c_proved]: "covered 4 loci_validate_of_action_id_experimenter_OF_VERSION_1_3 (of_action_id_experimenter_wire_object_id_get 4)"
  unfolding loci_validate_of_action_id_experimenter_OF_VERSION_1_3_def of_action_id_experimenter_wire_object_id_get_def
  by (simp only: refl if_True if_False eq_num, intro c_intro)
   (simp_all add: case_covered_def c_proved map_of_Cons_code fits_def of_object_fixed_len_def del: map_of.simps cong: map_of_freeze)

lemma of_action_id_covered_1_3 [c_proved]: "covered 4 loci_validate_of_action_id_OF_VERSION_1_3 (of_action_id_wire_object_id_get 4)"
  unfolding loci_validate_of_action_id_OF_VERSION_1_3_def of_action_id_wire_object_id_get_def
  by (simp only: refl if_True if_False eq_num, intro c_intro)
   (simp_all add: case_covered_def c_proved map_of_Cons_code fits_def of_object_fixed_len_def del: map_of.simps cong: map_of_freeze)

lemma of_action_nicira_covered_1_3 [c_proved]: "covered 4 loci_validate_of_action_nicira_OF_VERSION_1_3 (of_action_nicira_wire_object_id_get 4)"
  unfolding loci_validate_of_action_nicira_OF_VERSION_1_3_def of_action_nicira_wire_object_id_get_def
  by (simp only: refl if_True if_False eq_num, intro c_intro)
   (simp_all add: case_covered_def c_proved map_of_Cons_code fits_def of_object_fixed_len_def del: map_of.simps cong: map_of_freeze)

lemma of_action_bsn_covered_1_3 [c_proved]: "covered 4 loci_validate_of_action_bsn_OF_VERSION_1_3 (of_action_bsn_wire_object_id_get 4)"
  unfolding loci_validate_of_action_bsn_OF_VERSION_1_3_def of_action_bsn_wire_object_id_get_def
  by (simp only: refl if_True if_False eq_num, intro c_intro)
   (simp_all add: case_covered_def c_proved map_of_Cons_code fits_def of_object_fixed_len_def del: map_of.simps cong: map_of_freeze)

lemma of_action_experimenter_covered_1_3 [c_proved]: "covered 4 loci_validate_of_action_experimenter_OF_VERSION_1_3 (of_action_experimenter_wire_object_id_get 4)"
  unfolding loci_validate_of_action_experimenter_OF_VERSION_1_3_def of_action_experimenter_wire_object_id_get_def
  by (simp only: refl if_True if_False eq_num, intro c_intro)
   (simp_all add: case_covered_def c_proved map_of_Cons_code fits_def of_object_fixed_len_def del: map_of.simps cong: map_of_freeze)

lemma of_action_covered_1_3 [c_proved]: "covered 4 loci_validate_of_action_OF_VERSION_1_3 (of_action_wire_object_id_get 4)"
  unfolding loci_validate_of_action_OF_VERSION_1_3_def of_action_wire_object_id_get_def
  by (simp only: refl if_True if_False eq_num, intro c_intro)
   (simp_all add: case_covered_def c_proved map_of_Cons_code fits_def of_object_fixed_len_def del: map_of.simps cong: map_of_freeze)

lemma of_bsn_tlv_covered_1_3 [c_proved]: "covered 4 loci_validate_of_bsn_tlv_OF_VERSION_1_3 (of_bsn_tlv_wire_object_id_get 4)"
  unfolding of_bsn_tlv_wire_object_id_get_def
  by (subst loci_validate_of_bsn_tlv_OF_VERSION_1_3_eq, simp only: refl if_True if_False eq_num, intro c_intro)
   (simp_all add: case_covered_def c_proved map_of_Cons_code fits_def of_object_fixed_len_def del: map_of.simps cong: map_of_freeze)

lemma of_hello_elem_covered_1_3 [c_proved]: "covered 4 loci_validate_of_hello_elem_OF_VERSION_1_3 (of_hello_elem_wire_object_id_get 4)"
  unfolding loci_validate_of_hello_elem_OF_VERSION_1_3_def of_hello_elem_wire_object_id_get_def
  by (simp only: refl if_True if_False eq_num, intro c_intro)
   (simp_all add: case_covered_def c_proved map_of_Cons_code fits_def of_object_fixed_len_def del: map_of.simps cong: map_of_freeze)

lemma of_instruction_id_bsn_covered_1_3 [c_proved]: "covered 4 loci_validate_of_instruction_id_bsn_OF_VERSION_1_3 (of_instruction_id_bsn_wire_object_id_get 4)"
  unfolding loci_validate_of_instruction_id_bsn_OF_VERSION_1_3_def of_instruction_id_bsn_wire_object_id_get_def
  by (simp only: refl if_True if_False eq_num, intro c_intro)
   (simp_all add: case_covered_def c_proved map_of_Cons_code fits_def of_object_fixed_len_def del: map_of.simps cong: map_of_freeze)

lemma of_instruction_id_experimenter_covered_1_3 [c_proved]: "covered 4 loci_validate_of_instruction_id_experimenter_OF_VERSION_1_3 (of_instruction_id_experimenter_wire_object_id_get 4)"
  unfolding loci_validate_of_instruction_id_experimenter_OF_VERSION_1_3_def of_instruction_id_experimenter_wire_object_id_get_def
  by (simp only: refl if_True if_False eq_num, intro c_intro)
   (simp_all add: case_covered_def c_proved map_of_Cons_code fits_def of_object_fixed_len_def del: map_of.simps cong: map_of_freeze)

lemma of_instruction_id_covered_1_3 [c_proved]: "covered 4 loci_validate_of_instruction_id_OF_VERSION_1_3 (of_instruction_id_wire_object_id_get 4)"
  unfolding loci_validate_of_instruction_id_OF_VERSION_1_3_def of_instruction_id_wire_object_id_get_def
  by (simp only: refl if_True if_False eq_num, intro c_intro)
   (simp_all add: case_covered_def c_proved map_of_Cons_code fits_def of_object_fixed_len_def del: map_of.simps cong: map_of_freeze)

lemma of_instruction_bsn_covered_1_3 [c_proved]: "covered 4 loci_validate_of_instruction_bsn_OF_VERSION_1_3 (of_instruction_bsn_wire_object_id_get 4)"
  unfolding loci_validate_of_instruction_bsn_OF_VERSION_1_3_def of_instruction_bsn_wire_object_id_get_def
  by (simp only: refl if_True if_False eq_num, intro c_intro)
   (simp_all add: case_covered_def c_proved map_of_Cons_code fits_def of_object_fixed_len_def del: map_of.simps cong: map_of_freeze)

lemma of_instruction_experimenter_covered_1_3 [c_proved]: "covered 4 loci_validate_of_instruction_experimenter_OF_VERSION_1_3 (of_instruction_experimenter_wire_object_id_get 4)"
  unfolding loci_validate_of_instruction_experimenter_OF_VERSION_1_3_def of_instruction_experimenter_wire_object_id_get_def
  by (simp only: refl if_True if_False eq_num, intro c_intro)
   (simp_all add: case_covered_def c_proved map_of_Cons_code fits_def of_object_fixed_len_def del: map_of.simps cong: map_of_freeze)

lemma of_instruction_covered_1_3 [c_proved]: "covered 4 loci_validate_of_instruction_OF_VERSION_1_3 (of_instruction_wire_object_id_get 4)"
  unfolding loci_validate_of_instruction_OF_VERSION_1_3_def of_instruction_wire_object_id_get_def
  by (simp only: refl if_True if_False eq_num, intro c_intro)
   (simp_all add: case_covered_def c_proved map_of_Cons_code fits_def of_object_fixed_len_def del: map_of.simps cong: map_of_freeze)

lemma of_meter_band_covered_1_3 [c_proved]: "covered 4 loci_validate_of_meter_band_OF_VERSION_1_3 (of_meter_band_wire_object_id_get 4)"
  unfolding loci_validate_of_meter_band_OF_VERSION_1_3_def of_meter_band_wire_object_id_get_def
  by (simp only: refl if_True if_False eq_num, intro c_intro)
   (simp_all add: case_covered_def c_proved map_of_Cons_code fits_def of_object_fixed_len_def del: map_of.simps cong: map_of_freeze)

lemma of_oxm_covered_1_3 [c_proved]: "covered 4 loci_validate_of_oxm_OF_VERSION_1_3 (of_oxm_wire_object_id_get 4)"
  unfolding loci_validate_of_oxm_OF_VERSION_1_3_def of_oxm_wire_object_id_get_def
  by (simp only: refl if_True if_False eq_num, intro c_intro)
   (simp_all add: case_covered_def c_proved map_of_Cons_code fits_def of_object_fixed_len_def del: map_of.simps cong: map_of_freeze)

lemma of_queue_prop_experimenter_covered_1_3 [c_proved]: "covered 4 loci_validate_of_queue_prop_experimenter_OF_VERSION_1_3 (of_queue_prop_experimenter_wire_object_id_get 4)"
  unfolding loci_validate_of_queue_prop_experimenter_OF_VERSION_1_3_def of_queue_prop_experimenter_wire_object_id_get_def
  by (simp only: refl if_True if_False eq_num, intro c_intro)
   (simp_all add: case_covered_def c_proved map_of_Cons_code fits_def of_object_fixed_len_def del: map_of.simps cong: map_of_freeze)

lemma of_queue_prop_covered_1_3 [c_proved]: "covered 4 loci_validate_of_queue_prop_OF_VERSION_1_3 (of_queue_prop_wire_object_id_get 4)"
  unfolding loci_validate_of_queue_prop_OF_VERSION_1_3_def of_queue_prop_wire_object_id_get_def
  by (simp only: refl if_True if_False eq_num, intro c_intro)
   (simp_all add: case_covered_def c_proved map_of_Cons_code fits_def of_object_fixed_len_def del: map_of.simps cong: map_of_freeze)

lemma of_table_feature_prop_experimenter_covered_1_3 [c_proved]: "covered 4 loci_validate_of_table_feature_prop_experimenter_OF_VERSION_1_3 (of_table_feature_prop_experimenter_wire_object_id_get 4)"
  unfolding loci_validate_of_table_feature_prop_experimenter_OF_VERSION_1_3_def of_table_feature_prop_experimenter_wire_object_id_get_def
  by (simp only: refl if_True if_False eq_num, intro c_intro)
   (simp_all add: case_covered_def c_proved map_of_Cons_code fits_def of_object_fixed_len_def del: map_of.simps cong: map_of_freeze)

lemma of_table_feature_prop_experimenter_miss_covered_1_3 [c_proved]: "covered 4 loci_validate_of_table_feature_prop_experimenter_miss_OF_VERSION_1_3 (of_table_feature_prop_experimenter_miss_wire_object_id_get 4)"
  unfolding loci_validate_of_table_feature_prop_experimenter_miss_OF_VERSION_1_3_def of_table_feature_prop_experimenter_miss_wire_object_id_get_def
  by (simp only: refl if_True if_False eq_num, intro c_intro)
   (simp_all add: case_covered_def c_proved map_of_Cons_code fits_def of_object_fixed_len_def del: map_of.simps cong: map_of_freeze)

lemma of_table_feature_prop_covered_1_3 [c_proved]: "covered 4 loci_validate_of_table_feature_prop_OF_VERSION_1_3 (of_table_feature_prop_wire_object_id_get 4)"
  unfolding loci_validate_of_table_feature_prop_OF_VERSION_1_3_def of_table_feature_prop_wire_object_id_get_def
  by (simp only: refl if_True if_False eq_num, intro c_intro)
   (simp_all add: case_covered_def c_proved map_of_Cons_code fits_def of_object_fixed_len_def del: map_of.simps cong: map_of_freeze)

subsection \<open>OpenFlow 1.4\<close>

lemma covers_action_bsn_checksum_1_4 [c_proved]: "covered 5 loci_validate_of_action_bsn_checksum_OF_VERSION_1_4 (d_id OF_ACTION_BSN_CHECKSUM)"
  by (simp add: loci_validate_of_action_bsn_checksum_OF_VERSION_1_4_def covered_min_id fits_def of_object_fixed_len_def)

lemma covers_action_bsn_gentable_1_4 [c_proved]: "covered 5 loci_validate_of_action_bsn_gentable_OF_VERSION_1_4 (d_id OF_ACTION_BSN_GENTABLE)"
  by (simp add: loci_validate_of_action_bsn_gentable_OF_VERSION_1_4_def covered_min_id fits_def of_object_fixed_len_def)

lemma covers_action_bsn_mirror_1_4 [c_proved]: "covered 5 loci_validate_of_action_bsn_mirror_OF_VERSION_1_4 (d_id OF_ACTION_BSN_MIRROR)"
  by (simp add: loci_validate_of_action_bsn_mirror_OF_VERSION_1_4_def covered_min_id fits_def of_object_fixed_len_def)

lemma covers_action_bsn_set_tunnel_dst_1_4 [c_proved]: "covered 5 loci_validate_of_action_bsn_set_tunnel_dst_OF_VERSION_1_4 (d_id OF_ACTION_BSN_SET_TUNNEL_DST)"
  by (simp add: loci_validate_of_action_bsn_set_tunnel_dst_OF_VERSION_1_4_def covered_min_id fits_def of_object_fixed_len_def)

lemma covers_action_copy_ttl_in_1_4 [c_proved]: "covered 5 loci_validate_of_action_copy_ttl_in_OF_VERSION_1_4 (d_id OF_ACTION_COPY_TTL_IN)"
  by (simp add: loci_validate_of_action_copy_ttl_in_OF_VERSION_1_4_def covered_min_id fits_def of_object_fixed_len_def)

lemma covers_action_copy_ttl_out_1_4 [c_proved]: "covered 5 loci_validate_of_action_copy_ttl_out_OF_VERSION_1_4 (d_id OF_ACTION_COPY_TTL_OUT)"
  by (simp add: loci_validate_of_action_copy_ttl_out_OF_VERSION_1_4_def covered_min_id fits_def of_object_fixed_len_def)

lemma covers_action_dec_mpls_ttl_1_4 [c_proved]: "covered 5 loci_validate_of_action_dec_mpls_ttl_OF_VERSION_1_4 (d_id OF_ACTION_DEC_MPLS_TTL)"
  by (simp add: loci_validate_of_action_dec_mpls_ttl_OF_VERSION_1_4_def covered_min_id fits_def of_object_fixed_len_def)

lemma covers_action_dec_nw_ttl_1_4 [c_proved]: "covered 5 loci_validate_of_action_dec_nw_ttl_OF_VERSION_1_4 (d_id OF_ACTION_DEC_NW_TTL)"
  by (simp add: loci_validate_of_action_dec_nw_ttl_OF_VERSION_1_4_def covered_min_id fits_def of_object_fixed_len_def)

lemma covers_action_group_1_4 [c_proved]: "covered 5 loci_validate_of_action_group_OF_VERSION_1_4 (d_id OF_ACTION_GROUP)"
  by (simp add: loci_validate_of_action_group_OF_VERSION_1_4_def covered_min_id fits_def of_object_fixed_len_def)

lemma covers_action_id_bsn_checksum_1_4 [c_proved]: "covered 5 loci_validate_of_action_id_bsn_checksum_OF_VERSION_1_4 (d_id OF_ACTION_ID_BSN_CHECKSUM)"
  by (simp add: loci_validate_of_action_id_bsn_checksum_OF_VERSION_1_4_def covered_min_id fits_def of_object_fixed_len_def)

lemma covers_action_id_bsn_gentable_1_4 [c_proved]: "covered 5 loci_validate_of_action_id_bsn_gentable_OF_VERSION_1_4 (d_id OF_ACTION_ID_BSN_GENTABLE)"
  by (simp add: loci_validate_of_action_id_bsn_gentable_OF_VERSION_1_4_def covered_min_id fits_def of_object_fixed_len_def)

lemma covers_action_id_bsn_mirror_1_4 [c_proved]: "covered 5 loci_validate_of_action_id_bsn_mirror_OF_VERSION_1_4 (d_id OF_ACTION_ID_BSN_MIRROR)"
  by (simp add: loci_validate_of_action_id_bsn_mirror_OF_VERSION_1_4_def covered_min_id fits_def of_object_fixed_len_def)

lemma covers_action_id_bsn_set_tunnel_dst_1_4 [c_proved]: "covered 5 loci_validate_of_action_id_bsn_set_tunnel_dst_OF_VERSION_1_4 (d_id OF_ACTION_ID_BSN_SET_TUNNEL_DST)"
  by (simp add: loci_validate_of_action_id_bsn_set_tunnel_dst_OF_VERSION_1_4_def covered_min_id fits_def of_object_fixed_len_def)

lemma covers_action_id_copy_ttl_in_1_4 [c_proved]: "covered 5 loci_validate_of_action_id_copy_ttl_in_OF_VERSION_1_4 (d_id OF_ACTION_ID_COPY_TTL_IN)"
  by (simp add: loci_validate_of_action_id_copy_ttl_in_OF_VERSION_1_4_def covered_min_id fits_def of_object_fixed_len_def)

lemma covers_action_id_copy_ttl_out_1_4 [c_proved]: "covered 5 loci_validate_of_action_id_copy_ttl_out_OF_VERSION_1_4 (d_id OF_ACTION_ID_COPY_TTL_OUT)"
  by (simp add: loci_validate_of_action_id_copy_ttl_out_OF_VERSION_1_4_def covered_min_id fits_def of_object_fixed_len_def)

lemma covers_action_id_dec_mpls_ttl_1_4 [c_proved]: "covered 5 loci_validate_of_action_id_dec_mpls_ttl_OF_VERSION_1_4 (d_id OF_ACTION_ID_DEC_MPLS_TTL)"
  by (simp add: loci_validate_of_action_id_dec_mpls_ttl_OF_VERSION_1_4_def covered_min_id fits_def of_object_fixed_len_def)

lemma covers_action_id_dec_nw_ttl_1_4 [c_proved]: "covered 5 loci_validate_of_action_id_dec_nw_ttl_OF_VERSION_1_4 (d_id OF_ACTION_ID_DEC_NW_TTL)"
  by (simp add: loci_validate_of_action_id_dec_nw_ttl_OF_VERSION_1_4_def covered_min_id fits_def of_object_fixed_len_def)

lemma covers_action_id_group_1_4 [c_proved]: "covered 5 loci_validate_of_action_id_group_OF_VERSION_1_4 (d_id OF_ACTION_ID_GROUP)"
  by (simp add: loci_validate_of_action_id_group_OF_VERSION_1_4_def covered_min_id fits_def of_object_fixed_len_def)

lemma covers_action_id_nicira_dec_ttl_1_4 [c_proved]: "covered 5 loci_validate_of_action_id_nicira_dec_ttl_OF_VERSION_1_4 (d_id OF_ACTION_ID_NICIRA_DEC_TTL)"
  by (simp add: loci_validate_of_action_id_nicira_dec_ttl_OF_VERSION_1_4_def covered_min_id fits_def of_object_fixed_len_def)

lemma covers_action_id_output_1_4 [c_proved]: "covered 5 loci_validate_of_action_id_output_OF_VERSION_1_4 (d_id OF_ACTION_ID_OUTPUT)"
  by (simp add: loci_validate_of_action_id_output_OF_VERSION_1_4_def covered_min_id fits_def of_object_fixed_len_def)

lemma covers_action_id_pop_mpls_1_4 [c_proved]: "covered 5 loci_validate_of_action_id_pop_mpls_OF_VERSION_1_4 (d_id OF_ACTION_ID_POP_MPLS)"
  by (simp add: loci_validate_of_action_id_pop_mpls_OF_VERSION_1_4_def covered_min_id fits_def of_object_fixed_len_def)

lemma covers_action_id_pop_pbb_1_4 [c_proved]: "covered 5 loci_validate_of_action_id_pop_pbb_OF_VERSION_1_4 (d_id OF_ACTION_ID_POP_PBB)"
  by (simp add: loci_validate_of_action_id_pop_pbb_OF_VERSION_1_4_def covered_min_id fits_def of_object_fixed_len_def)

lemma covers_action_id_pop_vlan_1_4 [c_proved]: "covered 5 loci_validate_of_action_id_pop_vlan_OF_VERSION_1_4 (d_id OF_ACTION_ID_POP_VLAN)"
  by (simp add: loci_validate_of_action_id_pop_vlan_OF_VERSION_1_4_def covered_min_id fits_def of_object_fixed_len_def)

lemma covers_action_id_push_mpls_1_4 [c_proved]: "covered 5 loci_validate_of_action_id_push_mpls_OF_VERSION_1_4 (d_id OF_ACTION_ID_PUSH_MPLS)"
  by (simp add: loci_validate_of_action_id_push_mpls_OF_VERSION_1_4_def covered_min_id fits_def of_object_fixed_len_def)

lemma covers_action_id_push_pbb_1_4 [c_proved]: "covered 5 loci_validate_of_action_id_push_pbb_OF_VERSION_1_4 (d_id OF_ACTION_ID_PUSH_PBB)"
  by (simp add: loci_validate_of_action_id_push_pbb_OF_VERSION_1_4_def covered_min_id fits_def of_object_fixed_len_def)

lemma covers_action_id_push_vlan_1_4 [c_proved]: "covered 5 loci_validate_of_action_id_push_vlan_OF_VERSION_1_4 (d_id OF_ACTION_ID_PUSH_VLAN)"
  by (simp add: loci_validate_of_action_id_push_vlan_OF_VERSION_1_4_def covered_min_id fits_def of_object_fixed_len_def)

lemma covers_action_id_set_field_1_4 [c_proved]: "covered 5 loci_validate_of_action_id_set_field_OF_VERSION_1_4 (d_id OF_ACTION_ID_SET_FIELD)"
  by (simp add: loci_validate_of_action_id_set_field_OF_VERSION_1_4_def covered_min_id fits_def of_object_fixed_len_def)

lemma covers_action_id_set_mpls_ttl_1_4 [c_proved]: "covered 5 loci_validate_of_action_id_set_mpls_ttl_OF_VERSION_1_4 (d_id OF_ACTION_ID_SET_MPLS_TTL)"
  by (simp add: loci_validate_of_action_id_set_mpls_ttl_OF_VERSION_1_4_def covered_min_id fits_def of_object_fixed_len_def)

lemma covers_action_id_set_nw_ttl_1_4 [c_proved]: "covered 5 loci_validate_of_action_id_set_nw_ttl_OF_VERSION_1_4 (d_id OF_ACTION_ID_SET_NW_TTL)"
  by (simp add: loci_validate_of_action_id_set_nw_ttl_OF_VERSION_1_4_def covered_min_id fits_def of_object_fixed_len_def)

lemma covers_action_id_set_queue_1_4 [c_proved]: "covered 5 loci_validate_of_action_id_set_queue_OF_VERSION_1_4 (d_id OF_ACTION_ID_SET_QUEUE)"
  by (simp add: loci_validate_of_action_id_set_queue_OF_VERSION_1_4_def covered_min_id fits_def of_object_fixed_len_def)

lemma covers_action_nicira_dec_ttl_1_4 [c_proved]: "covered 5 loci_validate_of_action_nicira_dec_ttl_OF_VERSION_1_4 (d_id OF_ACTION_NICIRA_DEC_TTL)"
  by (simp add: loci_validate_of_action_nicira_dec_ttl_OF_VERSION_1_4_def covered_min_id fits_def of_object_fixed_len_def)

lemma covers_action_output_1_4 [c_proved]: "covered 5 loci_validate_of_action_output_OF_VERSION_1_4 (d_id OF_ACTION_OUTPUT)"
  by (simp add: loci_validate_of_action_output_OF_VERSION_1_4_def covered_min_id fits_def of_object_fixed_len_def)

lemma covers_action_pop_mpls_1_4 [c_proved]: "covered 5 loci_validate_of_action_pop_mpls_OF_VERSION_1_4 (d_id OF_ACTION_POP_MPLS)"
  by (simp add: loci_validate_of_action_pop_mpls_OF_VERSION_1_4_def covered_min_id fits_def of_object_fixed_len_def)

lemma covers_action_pop_pbb_1_4 [c_proved]: "covered 5 loci_validate_of_action_pop_pbb_OF_VERSION_1_4 (d_id OF_ACTION_POP_PBB)"
  by (simp add: loci_validate_of_action_pop_pbb_OF_VERSION_1_4_def covered_min_id fits_def of_object_fixed_len_def)

lemma covers_action_pop_vlan_1_4 [c_proved]: "covered 5 loci_validate_of_action_pop_vlan_OF_VERSION_1_4 (d_id OF_ACTION_POP_VLAN)"
  by (simp add: loci_validate_of_action_pop_vlan_OF_VERSION_1_4_def covered_min_id fits_def of_object_fixed_len_def)

lemma covers_action_push_mpls_1_4 [c_proved]: "covered 5 loci_validate_of_action_push_mpls_OF_VERSION_1_4 (d_id OF_ACTION_PUSH_MPLS)"
  by (simp add: loci_validate_of_action_push_mpls_OF_VERSION_1_4_def covered_min_id fits_def of_object_fixed_len_def)

lemma covers_action_push_pbb_1_4 [c_proved]: "covered 5 loci_validate_of_action_push_pbb_OF_VERSION_1_4 (d_id OF_ACTION_PUSH_PBB)"
  by (simp add: loci_validate_of_action_push_pbb_OF_VERSION_1_4_def covered_min_id fits_def of_object_fixed_len_def)

lemma covers_action_push_vlan_1_4 [c_proved]: "covered 5 loci_validate_of_action_push_vlan_OF_VERSION_1_4 (d_id OF_ACTION_PUSH_VLAN)"
  by (simp add: loci_validate_of_action_push_vlan_OF_VERSION_1_4_def covered_min_id fits_def of_object_fixed_len_def)

lemma covers_action_set_field_1_4 [c_proved]: "covered 5 loci_validate_of_action_set_field_OF_VERSION_1_4 (d_id OF_ACTION_SET_FIELD)"
  by (simp add: loci_validate_of_action_set_field_OF_VERSION_1_4_def covered_min_id fits_def of_object_fixed_len_def)

lemma covers_action_set_mpls_ttl_1_4 [c_proved]: "covered 5 loci_validate_of_action_set_mpls_ttl_OF_VERSION_1_4 (d_id OF_ACTION_SET_MPLS_TTL)"
  by (simp add: loci_validate_of_action_set_mpls_ttl_OF_VERSION_1_4_def covered_min_id fits_def of_object_fixed_len_def)

lemma covers_action_set_nw_ttl_1_4 [c_proved]: "covered 5 loci_validate_of_action_set_nw_ttl_OF_VERSION_1_4 (d_id OF_ACTION_SET_NW_TTL)"
  by (simp add: loci_validate_of_action_set_nw_ttl_OF_VERSION_1_4_def covered_min_id fits_def of_object_fixed_len_def)

lemma covers_action_set_queue_1_4 [c_proved]: "covered 5 loci_validate_of_action_set_queue_OF_VERSION_1_4 (d_id OF_ACTION_SET_QUEUE)"
  by (simp add: loci_validate_of_action_set_queue_OF_VERSION_1_4_def covered_min_id fits_def of_object_fixed_len_def)

lemma covers_async_config_prop_experimenter_master_1_4 [c_proved]: "covered 5 loci_validate_of_async_config_prop_experimenter_master_OF_VERSION_1_4 (d_id OF_ASYNC_CONFIG_PROP_EXPERIMENTER_MASTER)"
  by (simp add: loci_validate_of_async_config_prop_experimenter_master_OF_VERSION_1_4_def covered_min_id fits_def of_object_fixed_len_def)

lemma covers_async_config_prop_experimenter_slave_1_4 [c_proved]: "covered 5 loci_validate_of_async_config_prop_experimenter_slave_OF_VERSION_1_4 (d_id OF_ASYNC_CONFIG_PROP_EXPERIMENTER_SLAVE)"
  by (simp add: loci_validate_of_async_config_prop_experimenter_slave_OF_VERSION_1_4_def covered_min_id fits_def of_object_fixed_len_def)

lemma covers_async_config_prop_flow_removed_master_1_4 [c_proved]: "covered 5 loci_validate_of_async_config_prop_flow_removed_master_OF_VERSION_1_4 (d_id OF_ASYNC_CONFIG_PROP_FLOW_REMOVED_MASTER)"
  by (simp add: loci_validate_of_async_config_prop_flow_removed_master_OF_VERSION_1_4_def covered_min_id fits_def of_object_fixed_len_def)

lemma covers_async_config_prop_flow_removed_slave_1_4 [c_proved]: "covered 5 loci_validate_of_async_config_prop_flow_removed_slave_OF_VERSION_1_4 (d_id OF_ASYNC_CONFIG_PROP_FLOW_REMOVED_SLAVE)"
  by (simp add: loci_validate_of_async_config_prop_flow_removed_slave_OF_VERSION_1_4_def covered_min_id fits_def of_object_fixed_len_def)

lemma covers_async_config_prop_packet_in_master_1_4 [c_proved]: "covered 5 loci_validate_of_async_config_prop_packet_in_master_OF_VERSION_1_4 (d_id OF_ASYNC_CONFIG_PROP_PACKET_IN_MASTER)"
  by (simp add: loci_validate_of_async_config_prop_packet_in_master_OF_VERSION_1_4_def covered_min_id fits_def of_object_fixed_len_def)

lemma covers_async_config_prop_packet_in_slave_1_4 [c_proved]: "covered 5 loci_validate_of_async_config_prop_packet_in_slave_OF_VERSION_1_4 (d_id OF_ASYNC_CONFIG_PROP_PACKET_IN_SLAVE)"
  by (simp add: loci_validate_of_async_config_prop_packet_in_slave_OF_VERSION_1_4_def covered_min_id fits_def of_object_fixed_len_def)

lemma covers_async_config_prop_port_status_master_1_4 [c_proved]: "covered 5 loci_validate_of_async_config_prop_port_status_master_OF_VERSION_1_4 (d_id OF_ASYNC_CONFIG_PROP_PORT_STATUS_MASTER)"
  by (simp add: loci_validate_of_async_config_prop_port_status_master_OF_VERSION_1_4_def covered_min_id fits_def of_object_fixed_len_def)

lemma covers_async_config_prop_port_status_slave_1_4 [c_proved]: "covered 5 loci_validate_of_async_config_prop_port_status_slave_OF_VERSION_1_4 (d_id OF_ASYNC_CONFIG_PROP_PORT_STATUS_SLAVE)"
  by (simp add: loci_validate_of_async_config_prop_port_status_slave_OF_VERSION_1_4_def covered_min_id fits_def of_object_fixed_len_def)

lemma covers_async_config_prop_requestforward_master_1_4 [c_proved]: "covered 5 loci_validate_of_async_config_prop_requestforward_master_OF_VERSION_1_4 (d_id OF_ASYNC_CONFIG_PROP_REQUESTFORWARD_MASTER)"
  by (simp add: loci_validate_of_async_config_prop_requestforward_master_OF_VERSION_1_4_def covered_min_id fits_def of_object_fixed_len_def)

lemma covers_async_config_prop_requestforward_slave_1_4 [c_proved]: "covered 5 loci_validate_of_async_config_prop_requestforward_slave_OF_VERSION_1_4 (d_id OF_ASYNC_CONFIG_PROP_REQUESTFORWARD_SLAVE)"
  by (simp add: loci_validate_of_async_config_prop_requestforward_slave_OF_VERSION_1_4_def covered_min_id fits_def of_object_fixed_len_def)

lemma covers_async_config_prop_role_status_master_1_4 [c_proved]: "covered 5 loci_validate_of_async_config_prop_role_status_master_OF_VERSION_1_4 (d_id OF_ASYNC_CONFIG_PROP_ROLE_STATUS_MASTER)"
  by (simp add: loci_validate_of_async_config_prop_role_status_master_OF_VERSION_1_4_def covered_min_id fits_def of_object_fixed_len_def)

lemma covers_async_config_prop_role_status_slave_1_4 [c_proved]: "covered 5 loci_validate_of_async_config_prop_role_status_slave_OF_VERSION_1_4 (d_id OF_ASYNC_CONFIG_PROP_ROLE_STATUS_SLAVE)"
  by (simp add: loci_validate_of_async_config_prop_role_status_slave_OF_VERSION_1_4_def covered_min_id fits_def of_object_fixed_len_def)

lemma covers_async_config_prop_table_status_master_1_4 [c_proved]: "covered 5 loci_validate_of_async_config_prop_table_status_master_OF_VERSION_1_4 (d_id OF_ASYNC_CONFIG_PROP_TABLE_STATUS_MASTER)"
  by (simp add: loci_validate_of_async_config_prop_table_status_master_OF_VERSION_1_4_def covered_min_id fits_def of_object_fixed_len_def)

lemma covers_async_config_prop_table_status_slave_1_4 [c_proved]: "covered 5 loci_validate_of_async_config_prop_table_status_slave_OF_VERSION_1_4 (d_id OF_ASYNC_CONFIG_PROP_TABLE_STATUS_SLAVE)"
  by (simp add: loci_validate_of_async_config_prop_table_status_slave_OF_VERSION_1_4_def covered_min_id fits_def of_object_fixed_len_def)

lemma covers_bsn_tlv_actor_key_1_4 [c_proved]: "covered 5 loci_validate_of_bsn_tlv_actor_key_OF_VERSION_1_4 (d_id OF_BSN_TLV_ACTOR_KEY)"
  by (simp add: loci_validate_of_bsn_tlv_actor_key_OF_VERSION_1_4_def covered_min_id fits_def of_object_fixed_len_def)

lemma covers_bsn_tlv_actor_port_num_1_4 [c_proved]: "covered 5 loci_validate_of_bsn_tlv_actor_port_num_OF_VERSION_1_4 (d_id OF_BSN_TLV_ACTOR_PORT_NUM)"
  by (simp add: loci_validate_of_bsn_tlv_actor_port_num_OF_VERSION_1_4_def covered_min_id fits_def of_object_fixed_len_def)

lemma covers_bsn_tlv_actor_port_priority_1_4 [c_proved]: "covered 5 loci_validate_of_bsn_tlv_actor_port_priority_OF_VERSION_1_4 (d_id OF_BSN_TLV_ACTOR_PORT_PRIORITY)"
  by (simp add: loci_validate_of_bsn_tlv_actor_port_priority_OF_VERSION_1_4_def covered_min_id fits_def of_object_fixed_len_def)

lemma covers_bsn_tlv_actor_state_1_4 [c_proved]: "covered 5 loci_validate_of_bsn_tlv_actor_state_OF_VERSION_1_4 (d_id OF_BSN_TLV_ACTOR_STATE)"
  by (simp add: loci_validate_of_bsn_tlv_actor_state_OF_VERSION_1_4_def covered_min_id fits_def of_object_fixed_len_def)

lemma covers_bsn_tlv_actor_system_mac_1_4 [c_proved]: "covered 5 loci_validate_of_bsn_tlv_actor_system_mac_OF_VERSION_1_4 (d_id OF_BSN_TLV_ACTOR_SYSTEM_MAC)"
  by (simp add: loci_validate_of_bsn_tlv_actor_system_mac_OF_VERSION_1_4_def covered_min_id fits_def of_object_fixed_len_def)

lemma covers_bsn_tlv_actor_system_priority_1_4 [c_proved]: "covered 5 loci_validate_of_bsn_tlv_actor_system_priority_OF_VERSION_1_4 (d_id OF_BSN_TLV_ACTOR_SYSTEM_PRIORITY)"
  by (simp add: loci_validate_of_bsn_tlv_actor_system_priority_OF_VERSION_1_4_def covered_min_id fits_def of_object_fixed_len_def)

lemma covers_bsn_tlv_broadcast_query_timeout_1_4 [c_proved]: "covered 5 loci_validate_of_bsn_tlv_broadcast_query_timeout_OF_VERSION_1_4 (d_id OF_BSN_TLV_BROADCAST_QUERY_TIMEOUT)"
  by (simp add: loci_validate_of_bsn_tlv_broadcast_query_timeout_OF_VERSION_1_4_def covered_min_id fits_def of_object_fixed_len_def)

lemma covers_bsn_tlv_bucket_1_4 [c_proved]: "covered 5 loci_validate_of_bsn_tlv_bucket_OF_VERSION_1_4 (d_id OF_BSN_TLV_BUCKET)"
  by (simp add: loci_validate_of_bsn_tlv_bucket_OF_VERSION_1_4_def loci_validate_of_bsn_tlv_bucket_OF_VERSION_1_4_body_def covered_min_id fits_def of_object_fixed_len_def)

lemma covers_bsn_tlv_circuit_id_1_4 [c_proved]: "covered 5 loci_validate_of_bsn_tlv_circuit_id_OF_VERSION_1_4 (d_id OF_BSN_TLV_CIRCUIT_ID)"
  by (simp add: loci_validate_of_bsn_tlv_circuit_id_OF_VERSION_1_4_def covered_min_id fits_def of_object_fixed_len_def)

lemma covers_bsn_tlv_convergence_status_1_4 [c_proved]: "covered 5 loci_validate_of_bsn_tlv_convergence_status_OF_VERSION_1_4 (d_id OF_BSN_TLV_CONVERGENCE_STATUS)"
  by (simp add: loci_validate_of_bsn_tlv_convergence_status_OF_VERSION_1_4_def covered_min_id fits_def of_object_fixed_len_def)

lemma covers_bsn_tlv_crc_enabled_1_4 [c_proved]: "covered 5 loci_validate_of_bsn_tlv_crc_enabled_OF_VERSION_1_4 (d_id OF_BSN_TLV_CRC_ENABLED)"
  by (simp add: loci_validate_of_bsn_tlv_crc_enabled_OF_VERSION_1_4_def covered_min_id fits_def of_object_fixed_len_def)

lemma covers_bsn_tlv_data_1_4 [c_proved]: "covered 5 loci_validate_of_bsn_tlv_data_OF_VERSION_1_4 (d_id OF_BSN_TLV_DATA)"
  by (simp add: loci_validate_of_bsn_tlv_data_OF_VERSION_1_4_def covered_min_id fits_def of_object_fixed_len_def)

lemma covers_bsn_tlv_eth_dst_1_4 [c_proved]: "covered 5 loci_validate_of_bsn_tlv_eth_dst_OF_VERSION_1_4 (d_id OF_BSN_TLV_ETH_DST)"
  by (simp add: loci_validate_of_bsn_tlv_eth_dst_OF_VERSION_1_4_def covered_min_id fits_def of_object_fixed_len_def)

lemma covers_bsn_tlv_eth_src_1_4 [c_proved]: "covered 5 loci_validate_of_bsn_tlv_eth_src_OF_VERSION_1_4 (d_id OF_BSN_TLV_ETH_SRC)"
  by (simp add: loci_validate_of_bsn_tlv_eth_src_OF_VERSION_1_4_def covered_min_id fits_def of_object_fixed_len_def)

lemma covers_bsn_tlv_external_gateway_ip_1_4 [c_proved]: "covered 5 loci_validate_of_bsn_tlv_external_gateway_ip_OF_VERSION_1_4 (d_id OF_BSN_TLV_EXTERNAL_GATEWAY_IP)"
  by (simp add: loci_validate_of_bsn_tlv_external_gateway_ip_OF_VERSION_1_4_def covered_min_id fits_def of_object_fixed_len_def)

lemma covers_bsn_tlv_external_gateway_mac_1_4 [c_proved]: "covered 5 loci_validate_of_bsn_tlv_external_gateway_mac_OF_VERSION_1_4 (d_id OF_BSN_TLV_EXTERNAL_GATEWAY_MAC)"
  by (simp add: loci_validate_of_bsn_tlv_external_gateway_mac_OF_VERSION_1_4_def covered_min_id fits_def of_object_fixed_len_def)

lemma covers_bsn_tlv_external_ip_1_4 [c_proved]: "covered 5 loci_validate_of_bsn_tlv_external_ip_OF_VERSION_1_4 (d_id OF_BSN_TLV_EXTERNAL_IP)"
  by (simp add: loci_validate_of_bsn_tlv_external_ip_OF_VERSION_1_4_def covered_min_id fits_def of_object_fixed_len_def)

lemma covers_bsn_tlv_external_mac_1_4 [c_proved]: "covered 5 loci_validate_of_bsn_tlv_external_mac_OF_VERSION_1_4 (d_id OF_BSN_TLV_EXTERNAL_MAC)"
  by (simp add: loci_validate_of_bsn_tlv_external_mac_OF_VERSION_1_4_def covered_min_id fits_def of_object_fixed_len_def)

lemma covers_bsn_tlv_external_netmask_1_4 [c_proved]: "covered 5 loci_validate_of_bsn_tlv_external_netmask_OF_VERSION_1_4 (d_id OF_BSN_TLV_EXTERNAL_NETMASK)"
  by (simp add: loci_validate_of_bsn_tlv_external_netmask_OF_VERSION_1_4_def covered_min_id fits_def of_object_fixed_len_def)

lemma covers_bsn_tlv_header_size_1_4 [c_proved]: "covered 5 loci_validate_of_bsn_tlv_header_size_OF_VERSION_1_4 (d_id OF_BSN_TLV_HEADER_SIZE)"
  by (simp add: loci_validate_of_bsn_tlv_header_size_OF_VERSION_1_4_def covered_min_id fits_def of_object_fixed_len_def)

lemma covers_bsn_tlv_icmp_code_1_4 [c_proved]: "covered 5 loci_validate_of_bsn_tlv_icmp_code_OF_VERSION_1_4 (d_id OF_BSN_TLV_ICMP_CODE)"
  by (simp add: loci_validate_of_bsn_tlv_icmp_code_OF_VERSION_1_4_def covered_min_id fits_def of_object_fixed_len_def)

lemma covers_bsn_tlv_icmp_id_1_4 [c_proved]: "covered 5 loci_validate_of_bsn_tlv_icmp_id_OF_VERSION_1_4 (d_id OF_BSN_TLV_ICMP_ID)"
  by (simp add: loci_validate_of_bsn_tlv_icmp_id_OF_VERSION_1_4_def covered_min_id fits_def of_object_fixed_len_def)

lemma covers_bsn_tlv_icmp_type_1_4 [c_proved]: "covered 5 loci_validate_of_bsn_tlv_icmp_type_OF_VERSION_1_4 (d_id OF_BSN_TLV_ICMP_TYPE)"
  by (simp add: loci_validate_of_bsn_tlv_icmp_type_OF_VERSION_1_4_def covered_min_id fits_def of_object_fixed_len_def)

lemma covers_bsn_tlv_idle_notification_1_4 [c_proved]: "covered 5 loci_validate_of_bsn_tlv_idle_notification_OF_VERSION_1_4 (d_id OF_BSN_TLV_IDLE_NOTIFICATION)"
  by (simp add: loci_validate_of_bsn_tlv_idle_notification_OF_VERSION_1_4_def covered_min_id fits_def of_object_fixed_len_def)

lemma covers_bsn_tlv_idle_time_1_4 [c_proved]: "covered 5 loci_validate_of_bsn_tlv_idle_time_OF_VERSION_1_4 (d_id OF_BSN_TLV_IDLE_TIME)"
  by (simp add: loci_validate_of_bsn_tlv_idle_time_OF_VERSION_1_4_def covered_min_id fits_def of_object_fixed_len_def)

lemma covers_bsn_tlv_idle_timeout_1_4 [c_proved]: "covered 5 loci_validate_of_bsn_tlv_idle_timeout_OF_VERSION_1_4 (d_id OF_BSN_TLV_IDLE_TIMEOUT)"
  by (simp add: loci_validate_of_bsn_tlv_idle_timeout_OF_VERSION_1_4_def covered_min_id fits_def of_object_fixed_len_def)

lemma covers_bsn_tlv_internal_gateway_mac_1_4 [c_proved]: "covered 5 loci_validate_of_bsn_tlv_internal_gateway_mac_OF_VERSION_1_4 (d_id OF_BSN_TLV_INTERNAL_GATEWAY_MAC)"
  by (simp add: loci_validate_of_bsn_tlv_internal_gateway_mac_OF_VERSION_1_4_def covered_min_id fits_def of_object_fixed_len_def)

lemma covers_bsn_tlv_internal_mac_1_4 [c_proved]: "covered 5 loci_validate_of_bsn_tlv_internal_mac_OF_VERSION_1_4 (d_id OF_BSN_TLV_INTERNAL_MAC)"
  by (simp add: loci_validate_of_bsn_tlv_internal_mac_OF_VERSION_1_4_def covered_min_id fits_def of_object_fixed_len_def)

lemma covers_bsn_tlv_interval_1_4 [c_proved]: "covered 5 loci_validate_of_bsn_tlv_interval_OF_VERSION_1_4 (d_id OF_BSN_TLV_INTERVAL)"
  by (simp add: loci_validate_of_bsn_tlv_interval_OF_VERSION_1_4_def covered_min_id fits_def of_object_fixed_len_def)

lemma covers_bsn_tlv_ip_proto_1_4 [c_proved]: "covered 5 loci_validate_of_bsn_tlv_ip_proto_OF_VERSION_1_4 (d_id OF_BSN_TLV_IP_PROTO)"
  by (simp add: loci_validate_of_bsn_tlv_ip_proto_OF_VERSION_1_4_def covered_min_id fits_def of_object_fixed_len_def)

lemma covers_bsn_tlv_ipv4_1_4 [c_proved]: "covered 5 loci_validate_of_bsn_tlv_ipv4_OF_VERSION_1_4 (d_id OF_BSN_TLV_IPV4)"
  by (simp add: loci_validate_of_bsn_tlv_ipv4_OF_VERSION_1_4_def covered_min_id fits_def of_object_fixed_len_def)

lemma covers_bsn_tlv_ipv4_dst_1_4 [c_proved]: "covered 5 loci_validate_of_bsn_tlv_ipv4_dst_OF_VERSION_1_4 (d_id OF_BSN_TLV_IPV4_DST)"
  by (simp add: loci_validate_of_bsn_tlv_ipv4_dst_OF_VERSION_1_4_def covered_min_id fits_def of_object_fixed_len_def)

lemma covers_bsn_tlv_ipv4_netmask_1_4 [c_proved]: "covered 5 loci_validate_of_bsn_tlv_ipv4_netmask_OF_VERSION_1_4 (d_id OF_BSN_TLV_IPV4_NETMASK)"
  by (simp add: loci_validate_of_bsn_tlv_ipv4_netmask_OF_VERSION_1_4_def covered_min_id fits_def of_object_fixed_len_def)

lemma covers_bsn_tlv_ipv4_src_1_4 [c_proved]: "covered 5 loci_validate_of_bsn_tlv_ipv4_src_OF_VERSION_1_4 (d_id OF_BSN_TLV_IPV4_SRC)"
  by (simp add: loci_validate_of_bsn_tlv_ipv4_src_OF_VERSION_1_4_def covered_min_id fits_def of_object_fixed_len_def)

lemma covers_bsn_tlv_mac_1_4 [c_proved]: "covered 5 loci_validate_of_bsn_tlv_mac_OF_VERSION_1_4 (d_id OF_BSN_TLV_MAC)"
  by (simp add: loci_validate_of_bsn_tlv_mac_OF_VERSION_1_4_def covered_min_id fits_def of_object_fixed_len_def)

lemma covers_bsn_tlv_mac_mask_1_4 [c_proved]: "covered 5 loci_validate_of_bsn_tlv_mac_mask_OF_VERSION_1_4 (d_id OF_BSN_TLV_MAC_MASK)"
  by (simp add: loci_validate_of_bsn_tlv_mac_mask_OF_VERSION_1_4_def covered_min_id fits_def of_object_fixed_len_def)

lemma covers_bsn_tlv_miss_packets_1_4 [c_proved]: "covered 5 loci_validate_of_bsn_tlv_miss_packets_OF_VERSION_1_4 (d_id OF_BSN_TLV_MISS_PACKETS)"
  by (simp add: loci_validate_of_bsn_tlv_miss_packets_OF_VERSION_1_4_def covered_min_id fits_def of_object_fixed_len_def)

lemma covers_bsn_tlv_mpls_control_word_1_4 [c_proved]: "covered 5 loci_validate_of_bsn_tlv_mpls_control_word_OF_VERSION_1_4 (d_id OF_BSN_TLV_MPLS_CONTROL_WORD)"
  by (simp add: loci_validate_of_bsn_tlv_mpls_control_word_OF_VERSION_1_4_def covered_min_id fits_def of_object_fixed_len_def)

lemma covers_bsn_tlv_mpls_label_1_4 [c_proved]: "covered 5 loci_validate_of_bsn_tlv_mpls_label_OF_VERSION_1_4 (d_id OF_BSN_TLV_MPLS_LABEL)"
  by (simp add: loci_validate_of_bsn_tlv_mpls_label_OF_VERSION_1_4_def covered_min_id fits_def of_object_fixed_len_def)

lemma covers_bsn_tlv_mpls_sequenced_1_4 [c_proved]: "covered 5 loci_validate_of_bsn_tlv_mpls_sequenced_OF_VERSION_1_4 (d_id OF_BSN_TLV_MPLS_SEQUENCED)"
  by (simp add: loci_validate_of_bsn_tlv_mpls_sequenced_OF_VERSION_1_4_def covered_min_id fits_def of_object_fixed_len_def)

lemma covers_bsn_tlv_name_1_4 [c_proved]: "covered 5 loci_validate_of_bsn_tlv_name_OF_VERSION_1_4 (d_id OF_BSN_TLV_NAME)"
  by (simp add: loci_validate_of_bsn_tlv_name_OF_VERSION_1_4_def covered_min_id fits_def of_object_fixed_len_def)

lemma covers_bsn_tlv_partner_key_1_4 [c_proved]: "covered 5 loci_validate_of_bsn_tlv_partner_key_OF_VERSION_1_4 (d_id OF_BSN_TLV_PARTNER_KEY)"
  by (simp add: loci_validate_of_bsn_tlv_partner_key_OF_VERSION_1_4_def covered_min_id fits_def of_object_fixed_len_def)

lemma covers_bsn_tlv_partner_port_num_1_4 [c_proved]: "covered 5 loci_validate_of_bsn_tlv_partner_port_num_OF_VERSION_1_4 (d_id OF_BSN_TLV_PARTNER_PORT_NUM)"
  by (simp add: loci_validate_of_bsn_tlv_partner_port_num_OF_VERSION_1_4_def covered_min_id fits_def of_object_fixed_len_def)

lemma covers_bsn_tlv_partner_port_priority_1_4 [c_proved]: "covered 5 loci_validate_of_bsn_tlv_partner_port_priority_OF_VERSION_1_4 (d_id OF_BSN_TLV_PARTNER_PORT_PRIORITY)"
  by (simp add: loci_validate_of_bsn_tlv_partner_port_priority_OF_VERSION_1_4_def covered_min_id fits_def of_object_fixed_len_def)

lemma covers_bsn_tlv_partner_state_1_4 [c_proved]: "covered 5 loci_validate_of_bsn_tlv_partner_state_OF_VERSION_1_4 (d_id OF_BSN_TLV_PARTNER_STATE)"
  by (simp add: loci_validate_of_bsn_tlv_partner_state_OF_VERSION_1_4_def covered_min_id fits_def of_object_fixed_len_def)

lemma covers_bsn_tlv_partner_system_mac_1_4 [c_proved]: "covered 5 loci_validate_of_bsn_tlv_partner_system_mac_OF_VERSION_1_4 (d_id OF_BSN_TLV_PARTNER_SYSTEM_MAC)"
  by (simp add: loci_validate_of_bsn_tlv_partner_system_mac_OF_VERSION_1_4_def covered_min_id fits_def of_object_fixed_len_def)

lemma covers_bsn_tlv_partner_system_priority_1_4 [c_proved]: "covered 5 loci_validate_of_bsn_tlv_partner_system_priority_OF_VERSION_1_4 (d_id OF_BSN_TLV_PARTNER_SYSTEM_PRIORITY)"
  by (simp add: loci_validate_of_bsn_tlv_partner_system_priority_OF_VERSION_1_4_def covered_min_id fits_def of_object_fixed_len_def)

lemma covers_bsn_tlv_port_1_4 [c_proved]: "covered 5 loci_validate_of_bsn_tlv_port_OF_VERSION_1_4 (d_id OF_BSN_TLV_PORT)"
  by (simp add: loci_validate_of_bsn_tlv_port_OF_VERSION_1_4_def covered_min_id fits_def of_object_fixed_len_def)

lemma covers_bsn_tlv_priority_1_4 [c_proved]: "covered 5 loci_validate_of_bsn_tlv_priority_OF_VERSION_1_4 (d_id OF_BSN_TLV_PRIORITY)"
  by (simp add: loci_validate_of_bsn_tlv_priority_OF_VERSION_1_4_def covered_min_id fits_def of_object_fixed_len_def)

lemma covers_bsn_tlv_queue_id_1_4 [c_proved]: "covered 5 loci_validate_of_bsn_tlv_queue_id_OF_VERSION_1_4 (d_id OF_BSN_TLV_QUEUE_ID)"
  by (simp add: loci_validate_of_bsn_tlv_queue_id_OF_VERSION_1_4_def covered_min_id fits_def of_object_fixed_len_def)

lemma covers_bsn_tlv_queue_weight_1_4 [c_proved]: "covered 5 loci_validate_of_bsn_tlv_queue_weight_OF_VERSION_1_4 (d_id OF_BSN_TLV_QUEUE_WEIGHT)"
  by (simp add: loci_validate_of_bsn_tlv_queue_weight_OF_VERSION_1_4_def covered_min_id fits_def of_object_fixed_len_def)

lemma covers_bsn_tlv_reference_1_4 [c_proved]: "covered 5 loci_validate_of_bsn_tlv_reference_OF_VERSION_1_4 (d_id OF_BSN_TLV_REFERENCE)"
  by (simp add: loci_validate_of_bsn_tlv_reference_OF_VERSION_1_4_def loci_validate_of_bsn_tlv_reference_OF_VERSION_1_4_body_def covered_min_id fits_def of_object_fixed_len_def)

lemma covers_bsn_tlv_reply_packets_1_4 [c_proved]: "covered 5 loci_validate_of_bsn_tlv_reply_packets_OF_VERSION_1_4 (d_id OF_BSN_TLV_REPLY_PACKETS)"
  by (simp add: loci_validate_of_bsn_tlv_reply_packets_OF_VERSION_1_4_def covered_min_id fits_def of_object_fixed_len_def)

lemma covers_bsn_tlv_request_packets_1_4 [c_proved]: "covered 5 loci_validate_of_bsn_tlv_request_packets_OF_VERSION_1_4 (d_id OF_BSN_TLV_REQUEST_PACKETS)"
  by (simp add: loci_validate_of_bsn_tlv_request_packets_OF_VERSION_1_4_def covered_min_id fits_def of_object_fixed_len_def)

lemma covers_bsn_tlv_rx_bytes_1_4 [c_proved]: "covered 5 loci_validate_of_bsn_tlv_rx_bytes_OF_VERSION_1_4 (d_id OF_BSN_TLV_RX_BYTES)"
  by (simp add: loci_validate_of_bsn_tlv_rx_bytes_OF_VERSION_1_4_def covered_min_id fits_def of_object_fixed_len_def)

lemma covers_bsn_tlv_rx_packets_1_4 [c_proved]: "covered 5 loci_validate_of_bsn_tlv_rx_packets_OF_VERSION_1_4 (d_id OF_BSN_TLV_RX_PACKETS)"
  by (simp add: loci_validate_of_bsn_tlv_rx_packets_OF_VERSION_1_4_def covered_min_id fits_def of_object_fixed_len_def)

lemma covers_bsn_tlv_sampling_rate_1_4 [c_proved]: "covered 5 loci_validate_of_bsn_tlv_sampling_rate_OF_VERSION_1_4 (d_id OF_BSN_TLV_SAMPLING_RATE)"
  by (simp add: loci_validate_of_bsn_tlv_sampling_rate_OF_VERSION_1_4_def covered_min_id fits_def of_object_fixed_len_def)

lemma covers_bsn_tlv_set_loopback_mode_1_4 [c_proved]: "covered 5 loci_validate_of_bsn_tlv_set_loopback_mode_OF_VERSION_1_4 (d_id OF_BSN_TLV_SET_LOOPBACK_MODE)"
  by (simp add: loci_validate_of_bsn_tlv_set_loopback_mode_OF_VERSION_1_4_def covered_min_id fits_def of_object_fixed_len_def)

lemma covers_bsn_tlv_strip_mpls_l2_on_ingress_1_4 [c_proved]: "covered 5 loci_validate_of_bsn_tlv_strip_mpls_l2_on_ingress_OF_VERSION_1_4 (d_id OF_BSN_TLV_STRIP_MPLS_L2_ON_INGRESS)"
  by (simp add: loci_validate_of_bsn_tlv_strip_mpls_l2_on_ingress_OF_VERSION_1_4_def covered_min_id fits_def of_object_fixed_len_def)

lemma covers_bsn_tlv_strip_mpls_l3_on_ingress_1_4 [c_proved]: "covered 5 loci_validate_of_bsn_tlv_strip_mpls_l3_on_ingress_OF_VERSION_1_4 (d_id OF_BSN_TLV_STRIP_MPLS_L3_ON_INGRESS)"
  by (simp add: loci_validate_of_bsn_tlv_strip_mpls_l3_on_ingress_OF_VERSION_1_4_def covered_min_id fits_def of_object_fixed_len_def)

lemma covers_bsn_tlv_strip_vlan_on_egress_1_4 [c_proved]: "covered 5 loci_validate_of_bsn_tlv_strip_vlan_on_egress_OF_VERSION_1_4 (d_id OF_BSN_TLV_STRIP_VLAN_ON_EGRESS)"
  by (simp add: loci_validate_of_bsn_tlv_strip_vlan_on_egress_OF_VERSION_1_4_def covered_min_id fits_def of_object_fixed_len_def)

lemma covers_bsn_tlv_sub_agent_id_1_4 [c_proved]: "covered 5 loci_validate_of_bsn_tlv_sub_agent_id_OF_VERSION_1_4 (d_id OF_BSN_TLV_SUB_AGENT_ID)"
  by (simp add: loci_validate_of_bsn_tlv_sub_agent_id_OF_VERSION_1_4_def covered_min_id fits_def of_object_fixed_len_def)

lemma covers_bsn_tlv_tcp_dst_1_4 [c_proved]: "covered 5 loci_validate_of_bsn_tlv_tcp_dst_OF_VERSION_1_4 (d_id OF_BSN_TLV_TCP_DST)"
  by (simp add: loci_validate_of_bsn_tlv_tcp_dst_OF_VERSION_1_4_def covered_min_id fits_def of_object_fixed_len_def)

lemma covers_bsn_tlv_tcp_src_1_4 [c_proved]: "covered 5 loci_validate_of_bsn_tlv_tcp_src_OF_VERSION_1_4 (d_id OF_BSN_TLV_TCP_SRC)"
  by (simp add: loci_validate_of_bsn_tlv_tcp_src_OF_VERSION_1_4_def covered_min_id fits_def of_object_fixed_len_def)

lemma covers_bsn_tlv_tx_bytes_1_4 [c_proved]: "covered 5 loci_validate_of_bsn_tlv_tx_bytes_OF_VERSION_1_4 (d_id OF_BSN_TLV_TX_BYTES)"
  by (simp add: loci_validate_of_bsn_tlv_tx_bytes_OF_VERSION_1_4_def covered_min_id fits_def of_object_fixed_len_def)

lemma covers_bsn_tlv_tx_packets_1_4 [c_proved]: "covered 5 loci_validate_of_bsn_tlv_tx_packets_OF_VERSION_1_4 (d_id OF_BSN_TLV_TX_PACKETS)"
  by (simp add: loci_validate_of_bsn_tlv_tx_packets_OF_VERSION_1_4_def covered_min_id fits_def of_object_fixed_len_def)

lemma covers_bsn_tlv_udf_anchor_1_4 [c_proved]: "covered 5 loci_validate_of_bsn_tlv_udf_anchor_OF_VERSION_1_4 (d_id OF_BSN_TLV_UDF_ANCHOR)"
  by (simp add: loci_validate_of_bsn_tlv_udf_anchor_OF_VERSION_1_4_def covered_min_id fits_def of_object_fixed_len_def)

lemma covers_bsn_tlv_udf_id_1_4 [c_proved]: "covered 5 loci_validate_of_bsn_tlv_udf_id_OF_VERSION_1_4 (d_id OF_BSN_TLV_UDF_ID)"
  by (simp add: loci_validate_of_bsn_tlv_udf_id_OF_VERSION_1_4_def covered_min_id fits_def of_object_fixed_len_def)

lemma covers_bsn_tlv_udf_length_1_4 [c_proved]: "covered 5 loci_validate_of_bsn_tlv_udf_length_OF_VERSION_1_4 (d_id OF_BSN_TLV_UDF_LENGTH)"
  by (simp add: loci_validate_of_bsn_tlv_udf_length_OF_VERSION_1_4_def covered_min_id fits_def of_object_fixed_len_def)

lemma covers_bsn_tlv_udf_offset_1_4 [c_proved]: "covered 5 loci_validate_of_bsn_tlv_udf_offset_OF_VERSION_1_4 (d_id OF_BSN_TLV_UDF_OFFSET)"
  by (simp add: loci_validate_of_bsn_tlv_udf_offset_OF_VERSION_1_4_def covered_min_id fits_def of_object_fixed_len_def)

lemma covers_bsn_tlv_udp_dst_1_4 [c_proved]: "covered 5 loci_validate_of_bsn_tlv_udp_dst_OF_VERSION_1_4 (d_id OF_BSN_TLV_UDP_DST)"
  by (simp add: loci_validate_of_bsn_tlv_udp_dst_OF_VERSION_1_4_def covered_min_id fits_def of_object_fixed_len_def)

lemma covers_bsn_tlv_udp_src_1_4 [c_proved]: "covered 5 loci_validate_of_bsn_tlv_udp_src_OF_VERSION_1_4 (d_id OF_BSN_TLV_UDP_SRC)"
  by (simp add: loci_validate_of_bsn_tlv_udp_src_OF_VERSION_1_4_def covered_min_id fits_def of_object_fixed_len_def)

lemma covers_bsn_tlv_unicast_query_timeout_1_4 [c_proved]: "covered 5 loci_validate_of_bsn_tlv_unicast_query_timeout_OF_VERSION_1_4 (d_id OF_BSN_TLV_UNICAST_QUERY_TIMEOUT)"
  by (simp add: loci_validate_of_bsn_tlv_unicast_query_timeout_OF_VERSION_1_4_def covered_min_id fits_def of_object_fixed_len_def)

lemma covers_bsn_tlv_vlan_pcp_1_4 [c_proved]: "covered 5 loci_validate_of_bsn_tlv_vlan_pcp_OF_VERSION_1_4 (d_id OF_BSN_TLV_VLAN_PCP)"
  by (simp add: loci_validate_of_bsn_tlv_vlan_pcp_OF_VERSION_1_4_def covered_min_id fits_def of_object_fixed_len_def)

lemma covers_bsn_tlv_vlan_vid_1_4 [c_proved]: "covered 5 loci_validate_of_bsn_tlv_vlan_vid_OF_VERSION_1_4 (d_id OF_BSN_TLV_VLAN_VID)"
  by (simp add: loci_validate_of_bsn_tlv_vlan_vid_OF_VERSION_1_4_def covered_min_id fits_def of_object_fixed_len_def)

lemma covers_bsn_tlv_vrf_1_4 [c_proved]: "covered 5 loci_validate_of_bsn_tlv_vrf_OF_VERSION_1_4 (d_id OF_BSN_TLV_VRF)"
  by (simp add: loci_validate_of_bsn_tlv_vrf_OF_VERSION_1_4_def covered_min_id fits_def of_object_fixed_len_def)

lemma covers_hello_elem_versionbitmap_1_4 [c_proved]: "covered 5 loci_validate_of_hello_elem_versionbitmap_OF_VERSION_1_4 (d_id OF_HELLO_ELEM_VERSIONBITMAP)"
  by (simp add: loci_validate_of_hello_elem_versionbitmap_OF_VERSION_1_4_def covered_min_id fits_def of_object_fixed_len_def)

lemma covers_instruction_apply_actions_1_4 [c_proved]: "covered 5 loci_validate_of_instruction_apply_actions_OF_VERSION_1_4 (d_id OF_INSTRUCTION_APPLY_ACTIONS)"
  by (simp add: loci_validate_of_instruction_apply_actions_OF_VERSION_1_4_def covered_min_id fits_def of_object_fixed_len_def)

lemma covers_instruction_bsn_arp_offload_1_4 [c_proved]: "covered 5 loci_validate_of_instruction_bsn_arp_offload_OF_VERSION_1_4 (d_id OF_INSTRUCTION_BSN_ARP_OFFLOAD)"
  by (simp add: loci_validate_of_instruction_bsn_arp_offload_OF_VERSION_1_4_def covered_min_id fits_def of_object_fixed_len_def)

lemma covers_instruction_bsn_auto_negotiation_1_4 [c_proved]: "covered 5 loci_validate_of_instruction_bsn_auto_negotiation_OF_VERSION_1_4 (d_id OF_INSTRUCTION_BSN_AUTO_NEGOTIATION)"
  by (simp add: loci_validate_of_instruction_bsn_auto_negotiation_OF_VERSION_1_4_def covered_min_id fits_def of_object_fixed_len_def)

lemma covers_instruction_bsn_deny_1_4 [c_proved]: "covered 5 loci_validate_of_instruction_bsn_deny_OF_VERSION_1_4 (d_id OF_INSTRUCTION_BSN_DENY)"
  by (simp add: loci_validate_of_instruction_bsn_deny_OF_VERSION_1_4_def covered_min_id fits_def of_object_fixed_len_def)

lemma covers_instruction_bsn_dhcp_offload_1_4 [c_proved]: "covered 5 loci_validate_of_instruction_bsn_dhcp_offload_OF_VERSION_1_4 (d_id OF_INSTRUCTION_BSN_DHCP_OFFLOAD)"
  by (simp add: loci_validate_of_instruction_bsn_dhcp_offload_OF_VERSION_1_4_def covered_min_id fits_def of_object_fixed_len_def)

lemma covers_instruction_bsn_disable_l3_1_4 [c_proved]: "covered 5 loci_validate_of_instruction_bsn_disable_l3_OF_VERSION_1_4 (d_id OF_INSTRUCTION_BSN_DISABLE_L3)"
  by (simp add: loci_validate_of_instruction_bsn_disable_l3_OF_VERSION_1_4_def covered_min_id fits_def of_object_fixed_len_def)

lemma covers_instruction_bsn_disable_src_mac_check_1_4 [c_proved]: "covered 5 loci_validate_of_instruction_bsn_disable_src_mac_check_OF_VERSION_1_4 (d_id OF_INSTRUCTION_BSN_DISABLE_SRC_MAC_CHECK)"
  by (simp add: loci_validate_of_instruction_bsn_disable_src_mac_check_OF_VERSION_1_4_def covered_min_id fits_def of_object_fixed_len_def)

lemma covers_instruction_bsn_disable_vlan_counters_1_4 [c_proved]: "covered 5 loci_validate_of_instruction_bsn_disable_vlan_counters_OF_VERSION_1_4 (d_id OF_INSTRUCTION_BSN_DISABLE_VLAN_COUNTERS)"
  by (simp add: loci_validate_of_instruction_bsn_disable_vlan_counters_OF_VERSION_1_4_def covered_min_id fits_def of_object_fixed_len_def)

lemma covers_instruction_bsn_internal_priority_1_4 [c_proved]: "covered 5 loci_validate_of_instruction_bsn_internal_priority_OF_VERSION_1_4 (d_id OF_INSTRUCTION_BSN_INTERNAL_PRIORITY)"
  by (simp add: loci_validate_of_instruction_bsn_internal_priority_OF_VERSION_1_4_def covered_min_id fits_def of_object_fixed_len_def)

lemma covers_instruction_bsn_packet_of_death_1_4 [c_proved]: "covered 5 loci_validate_of_instruction_bsn_packet_of_death_OF_VERSION_1_4 (d_id OF_INSTRUCTION_BSN_PACKET_OF_DEATH)"
  by (simp add: loci_validate_of_instruction_bsn_packet_of_death_OF_VERSION_1_4_def covered_min_id fits_def of_object_fixed_len_def)

lemma covers_instruction_bsn_permit_1_4 [c_proved]: "covered 5 loci_validate_of_instruction_bsn_permit_OF_VERSION_1_4 (d_id OF_INSTRUCTION_BSN_PERMIT)"
  by (simp add: loci_validate_of_instruction_bsn_permit_OF_VERSION_1_4_def covered_min_id fits_def of_object_fixed_len_def)

lemma covers_instruction_bsn_prioritize_pdus_1_4 [c_proved]: "covered 5 loci_validate_of_instruction_bsn_prioritize_pdus_OF_VERSION_1_4 (d_id OF_INSTRUCTION_BSN_PRIORITIZE_PDUS)"
  by (simp add: loci_validate_of_instruction_bsn_prioritize_pdus_OF_VERSION_1_4_def covered_min_id fits_def of_object_fixed_len_def)

lemma covers_instruction_bsn_require_vlan_xlate_1_4 [c_proved]: "covered 5 loci_validate_of_instruction_bsn_require_vlan_xlate_OF_VERSION_1_4 (d_id OF_INSTRUCTION_BSN_REQUIRE_VLAN_XLATE)"
  by (simp add: loci_validate_of_instruction_bsn_require_vlan_xlate_OF_VERSION_1_4_def covered_min_id fits_def of_object_fixed_len_def)

lemma covers_instruction_bsn_span_destination_1_4 [c_proved]: "covered 5 loci_validate_of_instruction_bsn_span_destination_OF_VERSION_1_4 (d_id OF_INSTRUCTION_BSN_SPAN_DESTINATION)"
  by (simp add: loci_validate_of_instruction_bsn_span_destination_OF_VERSION_1_4_def covered_min_id fits_def of_object_fixed_len_def)

lemma covers_instruction_clear_actions_1_4 [c_proved]: "covered 5 loci_validate_of_instruction_clear_actions_OF_VERSION_1_4 (d_id OF_INSTRUCTION_CLEAR_ACTIONS)"
  by (simp add: loci_validate_of_instruction_clear_actions_OF_VERSION_1_4_def covered_min_id fits_def of_object_fixed_len_def)

lemma covers_instruction_goto_table_1_4 [c_proved]: "covered 5 loci_validate_of_instruction_goto_table_OF_VERSION_1_4 (d_id OF_INSTRUCTION_GOTO_TABLE)"
  by (simp add: loci_validate_of_instruction_goto_table_OF_VERSION_1_4_def covered_min_id fits_def of_object_fixed_len_def)

lemma covers_instruction_id_apply_actions_1_4 [c_proved]: "covered 5 loci_validate_of_instruction_id_apply_actions_OF_VERSION_1_4 (d_id OF_INSTRUCTION_ID_APPLY_ACTIONS)"
  by (simp add: loci_validate_of_instruction_id_apply_actions_OF_VERSION_1_4_def covered_min_id fits_def of_object_fixed_len_def)

lemma covers_instruction_id_bsn_arp_offload_1_4 [c_proved]: "covered 5 loci_validate_of_instruction_id_bsn_arp_offload_OF_VERSION_1_4 (d_id OF_INSTRUCTION_ID_BSN_ARP_OFFLOAD)"
  by (simp add: loci_validate_of_instruction_id_bsn_arp_offload_OF_VERSION_1_4_def covered_min_id fits_def of_object_fixed_len_def)

lemma covers_instruction_id_bsn_auto_negotiation_1_4 [c_proved]: "covered 5 loci_validate_of_instruction_id_bsn_auto_negotiation_OF_VERSION_1_4 (d_id OF_INSTRUCTION_ID_BSN_AUTO_NEGOTIATION)"
  by (simp add: loci_validate_of_instruction_id_bsn_auto_negotiation_OF_VERSION_1_4_def covered_min_id fits_def of_object_fixed_len_def)

lemma covers_instruction_id_bsn_deny_1_4 [c_proved]: "covered 5 loci_validate_of_instruction_id_bsn_deny_OF_VERSION_1_4 (d_id OF_INSTRUCTION_ID_BSN_DENY)"
  by (simp add: loci_validate_of_instruction_id_bsn_deny_OF_VERSION_1_4_def covered_min_id fits_def of_object_fixed_len_def)

lemma covers_instruction_id_bsn_dhcp_offload_1_4 [c_proved]: "covered 5 loci_validate_of_instruction_id_bsn_dhcp_offload_OF_VERSION_1_4 (d_id OF_INSTRUCTION_ID_BSN_DHCP_OFFLOAD)"
  by (simp add: loci_validate_of_instruction_id_bsn_dhcp_offload_OF_VERSION_1_4_def covered_min_id fits_def of_object_fixed_len_def)

lemma covers_instruction_id_bsn_disable_l3_1_4 [c_proved]: "covered 5 loci_validate_of_instruction_id_bsn_disable_l3_OF_VERSION_1_4 (d_id OF_INSTRUCTION_ID_BSN_DISABLE_L3)"
  by (simp add: loci_validate_of_instruction_id_bsn_disable_l3_OF_VERSION_1_4_def covered_min_id fits_def of_object_fixed_len_def)

lemma covers_instruction_id_bsn_disable_src_mac_check_1_4 [c_proved]: "covered 5 loci_validate_of_instruction_id_bsn_disable_src_mac_check_OF_VERSION_1_4 (d_id OF_INSTRUCTION_ID_BSN_DISABLE_SRC_MAC_CHECK)"
  by (simp add: loci_validate_of_instruction_id_bsn_disable_src_mac_check_OF_VERSION_1_4_def covered_min_id fits_def of_object_fixed_len_def)

lemma covers_instruction_id_bsn_disable_vlan_counters_1_4 [c_proved]: "covered 5 loci_validate_of_instruction_id_bsn_disable_vlan_counters_OF_VERSION_1_4 (d_id OF_INSTRUCTION_ID_BSN_DISABLE_VLAN_COUNTERS)"
  by (simp add: loci_validate_of_instruction_id_bsn_disable_vlan_counters_OF_VERSION_1_4_def covered_min_id fits_def of_object_fixed_len_def)

lemma covers_instruction_id_bsn_internal_priority_1_4 [c_proved]: "covered 5 loci_validate_of_instruction_id_bsn_internal_priority_OF_VERSION_1_4 (d_id OF_INSTRUCTION_ID_BSN_INTERNAL_PRIORITY)"
  by (simp add: loci_validate_of_instruction_id_bsn_internal_priority_OF_VERSION_1_4_def covered_min_id fits_def of_object_fixed_len_def)

lemma covers_instruction_id_bsn_packet_of_death_1_4 [c_proved]: "covered 5 loci_validate_of_instruction_id_bsn_packet_of_death_OF_VERSION_1_4 (d_id OF_INSTRUCTION_ID_BSN_PACKET_OF_DEATH)"
  by (simp add: loci_validate_of_instruction_id_bsn_packet_of_death_OF_VERSION_1_4_def covered_min_id fits_def of_object_fixed_len_def)

lemma covers_instruction_id_bsn_permit_1_4 [c_proved]: "covered 5 loci_validate_of_instruction_id_bsn_permit_OF_VERSION_1_4 (d_id OF_INSTRUCTION_ID_BSN_PERMIT)"
  by (simp add: loci_validate_of_instruction_id_bsn_permit_OF_VERSION_1_4_def covered_min_id fits_def of_object_fixed_len_def)

lemma covers_instruction_id_bsn_prioritize_pdus_1_4 [c_proved]: "covered 5 loci_validate_of_instruction_id_bsn_prioritize_pdus_OF_VERSION_1_4 (d_id OF_INSTRUCTION_ID_BSN_PRIORITIZE_PDUS)"
  by (simp add: loci_validate_of_instruction_id_bsn_prioritize_pdus_OF_VERSION_1_4_def covered_min_id fits_def of_object_fixed_len_def)

lemma covers_instruction_id_bsn_require_vlan_xlate_1_4 [c_proved]: "covered 5 loci_validate_of_instruction_id_bsn_require_vlan_xlate_OF_VERSION_1_4 (d_id OF_INSTRUCTION_ID_BSN_REQUIRE_VLAN_XLATE)"
  by (simp add: loci_validate_of_instruction_id_bsn_require_vlan_xlate_OF_VERSION_1_4_def covered_min_id fits_def of_object_fixed_len_def)

lemma covers_instruction_id_bsn_span_destination_1_4 [c_proved]: "covered 5 loci_validate_of_instruction_id_bsn_span_destination_OF_VERSION_1_4 (d_id OF_INSTRUCTION_ID_BSN_SPAN_DESTINATION)"
  by (simp add: loci_validate_of_instruction_id_bsn_span_destination_OF_VERSION_1_4_def covered_min_id fits_def of_object_fixed_len_def)

lemma covers_instruction_id_clear_actions_1_4 [c_proved]: "covered 5 loci_validate_of_instruction_id_clear_actions_OF_VERSION_1_4 (d_id OF_INSTRUCTION_ID_CLEAR_ACTIONS)"
  by (simp add: loci_validate_of_instruction_id_clear_actions_OF_VERSION_1_4_def covered_min_id fits_def of_object_fixed_len_def)

lemma covers_instruction_id_goto_table_1_4 [c_proved]: "covered 5 loci_validate_of_instruction_id_goto_table_OF_VERSION_1_4 (d_id OF_INSTRUCTION_ID_GOTO_TABLE)"
  by (simp add: loci_validate_of_instruction_id_goto_table_OF_VERSION_1_4_def covered_min_id fits_def of_object_fixed_len_def)

lemma covers_instruction_id_meter_1_4 [c_proved]: "covered 5 loci_validate_of_instruction_id_meter_OF_VERSION_1_4 (d_id OF_INSTRUCTION_ID_METER)"
  by (simp add: loci_validate_of_instruction_id_meter_OF_VERSION_1_4_def covered_min_id fits_def of_object_fixed_len_def)

lemma covers_instruction_id_write_actions_1_4 [c_proved]: "covered 5 loci_validate_of_instruction_id_write_actions_OF_VERSION_1_4 (d_id OF_INSTRUCTION_ID_WRITE_ACTIONS)"
  by (simp add: loci_validate_of_instruction_id_write_actions_OF_VERSION_1_4_def covered_min_id fits_def of_object_fixed_len_def)

lemma covers_instruction_id_write_metadata_1_4 [c_proved]: "covered 5 loci_validate_of_instruction_id_write_metadata_OF_VERSION_1_4 (d_id OF_INSTRUCTION_ID_WRITE_METADATA)"
  by (simp add: loci_validate_of_instruction_id_write_metadata_OF_VERSION_1_4_def covered_min_id fits_def of_object_fixed_len_def)

lemma covers_instruction_meter_1_4 [c_proved]: "covered 5 loci_validate_of_instruction_meter_OF_VERSION_1_4 (d_id OF_INSTRUCTION_METER)"
  by (simp add: loci_validate_of_instruction_meter_OF_VERSION_1_4_def covered_min_id fits_def of_object_fixed_len_def)

lemma covers_instruction_write_actions_1_4 [c_proved]: "covered 5 loci_validate_of_instruction_write_actions_OF_VERSION_1_4 (d_id OF_INSTRUCTION_WRITE_ACTIONS)"
  by (simp add: loci_validate_of_instruction_write_actions_OF_VERSION_1_4_def covered_min_id fits_def of_object_fixed_len_def)

lemma covers_instruction_write_metadata_1_4 [c_proved]: "covered 5 loci_validate_of_instruction_write_metadata_OF_VERSION_1_4 (d_id OF_INSTRUCTION_WRITE_METADATA)"
  by (simp add: loci_validate_of_instruction_write_metadata_OF_VERSION_1_4_def covered_min_id fits_def of_object_fixed_len_def)

lemma covers_meter_band_drop_1_4 [c_proved]: "covered 5 loci_validate_of_meter_band_drop_OF_VERSION_1_4 (d_id OF_METER_BAND_DROP)"
  by (simp add: loci_validate_of_meter_band_drop_OF_VERSION_1_4_def covered_min_id fits_def of_object_fixed_len_def)

lemma covers_meter_band_dscp_remark_1_4 [c_proved]: "covered 5 loci_validate_of_meter_band_dscp_remark_OF_VERSION_1_4 (d_id OF_METER_BAND_DSCP_REMARK)"
  by (simp add: loci_validate_of_meter_band_dscp_remark_OF_VERSION_1_4_def covered_min_id fits_def of_object_fixed_len_def)

lemma covers_meter_band_experimenter_1_4 [c_proved]: "covered 5 loci_validate_of_meter_band_experimenter_OF_VERSION_1_4 (d_id OF_METER_BAND_EXPERIMENTER)"
  by (simp add: loci_validate_of_meter_band_experimenter_OF_VERSION_1_4_def covered_min_id fits_def of_object_fixed_len_def)

lemma covers_oxm_arp_op_1_4 [c_proved]: "covered 5 loci_validate_of_oxm_arp_op_OF_VERSION_1_4 (d_id OF_OXM_ARP_OP)"
  by (simp add: loci_validate_of_oxm_arp_op_OF_VERSION_1_4_def covered_min_id fits_def of_object_fixed_len_def)

lemma covers_oxm_arp_op_masked_1_4 [c_proved]: "covered 5 loci_validate_of_oxm_arp_op_masked_OF_VERSION_1_4 (d_id OF_OXM_ARP_OP_MASKED)"
  by (simp add: loci_validate_of_oxm_arp_op_masked_OF_VERSION_1_4_def covered_min_id fits_def of_object_fixed_len_def)

lemma covers_oxm_arp_sha_1_4 [c_proved]: "covered 5 loci_validate_of_oxm_arp_sha_OF_VERSION_1_4 (d_id OF_OXM_ARP_SHA)"
  by (simp add: loci_validate_of_oxm_arp_sha_OF_VERSION_1_4_def covered_min_id fits_def of_object_fixed_len_def)

lemma covers_oxm_arp_sha_masked_1_4 [c_proved]: "covered 5 loci_validate_of_oxm_arp_sha_masked_OF_VERSION_1_4 (d_id OF_OXM_ARP_SHA_MASKED)"
  by (simp add: loci_validate_of_oxm_arp_sha_masked_OF_VERSION_1_4_def covered_min_id fits_def of_object_fixed_len_def)

lemma covers_oxm_arp_spa_1_4 [c_proved]: "covered 5 loci_validate_of_oxm_arp_spa_OF_VERSION_1_4 (d_id OF_OXM_ARP_SPA)"
  by (simp add: loci_validate_of_oxm_arp_spa_OF_VERSION_1_4_def covered_min_id fits_def of_object_fixed_len_def)

lemma covers_oxm_arp_spa_masked_1_4 [c_proved]: "covered 5 loci_validate_of_oxm_arp_spa_masked_OF_VERSION_1_4 (d_id OF_OXM_ARP_SPA_MASKED)"
  by (simp add: loci_validate_of_oxm_arp_spa_masked_OF_VERSION_1_4_def covered_min_id fits_def of_object_fixed_len_def)

lemma covers_oxm_arp_tha_1_4 [c_proved]: "covered 5 loci_validate_of_oxm_arp_tha_OF_VERSION_1_4 (d_id OF_OXM_ARP_THA)"
  by (simp add: loci_validate_of_oxm_arp_tha_OF_VERSION_1_4_def covered_min_id fits_def of_object_fixed_len_def)

lemma covers_oxm_arp_tha_masked_1_4 [c_proved]: "covered 5 loci_validate_of_oxm_arp_tha_masked_OF_VERSION_1_4 (d_id OF_OXM_ARP_THA_MASKED)"
  by (simp add: loci_validate_of_oxm_arp_tha_masked_OF_VERSION_1_4_def covered_min_id fits_def of_object_fixed_len_def)

lemma covers_oxm_arp_tpa_1_4 [c_proved]: "covered 5 loci_validate_of_oxm_arp_tpa_OF_VERSION_1_4 (d_id OF_OXM_ARP_TPA)"
  by (simp add: loci_validate_of_oxm_arp_tpa_OF_VERSION_1_4_def covered_min_id fits_def of_object_fixed_len_def)

lemma covers_oxm_arp_tpa_masked_1_4 [c_proved]: "covered 5 loci_validate_of_oxm_arp_tpa_masked_OF_VERSION_1_4 (d_id OF_OXM_ARP_TPA_MASKED)"
  by (simp add: loci_validate_of_oxm_arp_tpa_masked_OF_VERSION_1_4_def covered_min_id fits_def of_object_fixed_len_def)

lemma covers_oxm_bsn_egr_port_group_id_1_4 [c_proved]: "covered 5 loci_validate_of_oxm_bsn_egr_port_group_id_OF_VERSION_1_4 (d_id OF_OXM_BSN_EGR_PORT_GROUP_ID)"
  by (simp add: loci_validate_of_oxm_bsn_egr_port_group_id_OF_VERSION_1_4_def covered_min_id fits_def of_object_fixed_len_def)

lemma covers_oxm_bsn_egr_port_group_id_masked_1_4 [c_proved]: "covered 5 loci_validate_of_oxm_bsn_egr_port_group_id_masked_OF_VERSION_1_4 (d_id OF_OXM_BSN_EGR_PORT_GROUP_ID_MASKED)"
  by (simp add: loci_validate_of_oxm_bsn_egr_port_group_id_masked_OF_VERSION_1_4_def covered_min_id fits_def of_object_fixed_len_def)

lemma covers_oxm_bsn_in_ports_128_1_4 [c_proved]: "covered 5 loci_validate_of_oxm_bsn_in_ports_128_OF_VERSION_1_4 (d_id OF_OXM_BSN_IN_PORTS_128)"
  by (simp add: loci_validate_of_oxm_bsn_in_ports_128_OF_VERSION_1_4_def covered_min_id fits_def of_object_fixed_len_def)

lemma covers_oxm_bsn_in_ports_128_masked_1_4 [c_proved]: "covered 5 loci_validate_of_oxm_bsn_in_ports_128_masked_OF_VERSION_1_4 (d_id OF_OXM_BSN_IN_PORTS_128_MASKED)"
  by (simp add: loci_validate_of_oxm_bsn_in_ports_128_masked_OF_VERSION_1_4_def covered_min_id fits_def of_object_fixed_len_def)

lemma covers_oxm_bsn_in_ports_512_1_4 [c_proved]: "covered 5 loci_validate_of_oxm_bsn_in_ports_512_OF_VERSION_1_4 (d_id OF_OXM_BSN_IN_PORTS_512)"
  by (simp add: loci_validate_of_oxm_bsn_in_ports_512_OF_VERSION_1_4_def covered_min_id fits_def of_object_fixed_len_def)

lemma covers_oxm_bsn_in_ports_512_masked_1_4 [c_proved]: "covered 5 loci_validate_of_oxm_bsn_in_ports_512_masked_OF_VERSION_1_4 (d_id OF_OXM_BSN_IN_PORTS_512_MASKED)"
  by (simp add: loci_validate_of_oxm_bsn_in_ports_512_masked_OF_VERSION_1_4_def covered_min_id fits_def of_object_fixed_len_def)

lemma covers_oxm_bsn_ingress_port_group_id_1_4 [c_proved]: "covered 5 loci_validate_of_oxm_bsn_ingress_port_group_id_OF_VERSION_1_4 (d_id OF_OXM_BSN_INGRESS_PORT_GROUP_ID)"
  by (simp add: loci_validate_of_oxm_bsn_ingress_port_group_id_OF_VERSION_1_4_def covered_min_id fits_def of_object_fixed_len_def)

lemma covers_oxm_bsn_ingress_port_group_id_masked_1_4 [c_proved]: "covered 5 loci_validate_of_oxm_bsn_ingress_port_group_id_masked_OF_VERSION_1_4 (d_id OF_OXM_BSN_INGRESS_PORT_GROUP_ID_MASKED)"
  by (simp add: loci_validate_of_oxm_bsn_ingress_port_group_id_masked_OF_VERSION_1_4_def covered_min_id fits_def of_object_fixed_len_def)

lemma covers_oxm_bsn_l3_interface_class_id_1_4 [c_proved]: "covered 5 loci_validate_of_oxm_bsn_l3_interface_class_id_OF_VERSION_1_4 (d_id OF_OXM_BSN_L3_INTERFACE_CLASS_ID)"
  by (simp add: loci_validate_of_oxm_bsn_l3_interface_class_id_OF_VERSION_1_4_def covered_min_id fits_def of_object_fixed_len_def)

lemma covers_oxm_bsn_l3_interface_class_id_masked_1_4 [c_proved]: "covered 5 loci_validate_of_oxm_bsn_l3_interface_class_id_masked_OF_VERSION_1_4 (d_id OF_OXM_BSN_L3_INTERFACE_CLASS_ID_MASKED)"
  by (simp add: loci_validate_of_oxm_bsn_l3_interface_class_id_masked_OF_VERSION_1_4_def covered_min_id fits_def of_object_fixed_len_def)

lemma covers_oxm_bsn_l3_src_class_id_1_4 [c_proved]: "covered 5 loci_validate_of_oxm_bsn_l3_src_class_id_OF_VERSION_1_4 (d_id OF_OXM_BSN_L3_SRC_CLASS_ID)"
  by (simp add: loci_validate_of_oxm_bsn_l3_src_class_id_OF_VERSION_1_4_def covered_min_id fits_def of_object_fixed_len_def)

lemma covers_oxm_bsn_l3_src_class_id_masked_1_4 [c_proved]: "covered 5 loci_validate_of_oxm_bsn_l3_src_class_id_masked_OF_VERSION_1_4 (d_id OF_OXM_BSN_L3_SRC_CLASS_ID_MASKED)"
  by (simp add: loci_validate_of_oxm_bsn_l3_src_class_id_masked_OF_VERSION_1_4_def covered_min_id fits_def of_object_fixed_len_def)

lemma covers_oxm_bsn_lag_id_1_4 [c_proved]: "covered 5 loci_validate_of_oxm_bsn_lag_id_OF_VERSION_1_4 (d_id OF_OXM_BSN_LAG_ID)"
  by (simp add: loci_validate_of_oxm_bsn_lag_id_OF_VERSION_1_4_def covered_min_id fits_def of_object_fixed_len_def)

lemma covers_oxm_bsn_lag_id_masked_1_4 [c_proved]: "covered 5 loci_validate_of_oxm_bsn_lag_id_masked_OF_VERSION_1_4 (d_id OF_OXM_BSN_LAG_ID_MASKED)"
  by (simp add: loci_validate_of_oxm_bsn_lag_id_masked_OF_VERSION_1_4_def covered_min_id fits_def of_object_fixed_len_def)

lemma covers_oxm_bsn_tcp_flags_1_4 [c_proved]: "covered 5 loci_validate_of_oxm_bsn_tcp_flags_OF_VERSION_1_4 (d_id OF_OXM_BSN_TCP_FLAGS)"
  by (simp add: loci_validate_of_oxm_bsn_tcp_flags_OF_VERSION_1_4_def covered_min_id fits_def of_object_fixed_len_def)

lemma covers_oxm_bsn_tcp_flags_masked_1_4 [c_proved]: "covered 5 loci_validate_of_oxm_bsn_tcp_flags_masked_OF_VERSION_1_4 (d_id OF_OXM_BSN_TCP_FLAGS_MASKED)"
  by (simp add: loci_validate_of_oxm_bsn_tcp_flags_masked_OF_VERSION_1_4_def covered_min_id fits_def of_object_fixed_len_def)

lemma covers_oxm_bsn_udf0_1_4 [c_proved]: "covered 5 loci_validate_of_oxm_bsn_udf0_OF_VERSION_1_4 (d_id OF_OXM_BSN_UDF0)"
  by (simp add: loci_validate_of_oxm_bsn_udf0_OF_VERSION_1_4_def covered_min_id fits_def of_object_fixed_len_def)

lemma covers_oxm_bsn_udf0_masked_1_4 [c_proved]: "covered 5 loci_validate_of_oxm_bsn_udf0_masked_OF_VERSION_1_4 (d_id OF_OXM_BSN_UDF0_MASKED)"
  by (simp add: loci_validate_of_oxm_bsn_udf0_masked_OF_VERSION_1_4_def covered_min_id fits_def of_object_fixed_len_def)

lemma covers_oxm_bsn_udf1_1_4 [c_proved]: "covered 5 loci_validate_of_oxm_bsn_udf1_OF_VERSION_1_4 (d_id OF_OXM_BSN_UDF1)"
  by (simp add: loci_validate_of_oxm_bsn_udf1_OF_VERSION_1_4_def covered_min_id fits_def of_object_fixed_len_def)

lemma covers_oxm_bsn_udf1_masked_1_4 [c_proved]: "covered 5 loci_validate_of_oxm_bsn_udf1_masked_OF_VERSION_1_4 (d_id OF_OXM_BSN_UDF1_MASKED)"
  by (simp add: loci_validate_of_oxm_bsn_udf1_masked_OF_VERSION_1_4_def covered_min_id fits_def of_object_fixed_len_def)

lemma covers_oxm_bsn_udf2_1_4 [c_proved]: "covered 5 loci_validate_of_oxm_bsn_udf2_OF_VERSION_1_4 (d_id OF_OXM_BSN_UDF2)"
  by (simp add: loci_validate_of_oxm_bsn_udf2_OF_VERSION_1_4_def covered_min_id fits_def of_object_fixed_len_def)

lemma covers_oxm_bsn_udf2_masked_1_4 [c_proved]: "covered 5 loci_validate_of_oxm_bsn_udf2_masked_OF_VERSION_1_4 (d_id OF_OXM_BSN_UDF2_MASKED)"
  by (simp add: loci_validate_of_oxm_bsn_udf2_masked_OF_VERSION_1_4_def covered_min_id fits_def of_object_fixed_len_def)

lemma covers_oxm_bsn_udf3_1_4 [c_proved]: "covered 5 loci_validate_of_oxm_bsn_udf3_OF_VERSION_1_4 (d_id OF_OXM_BSN_UDF3)"
  by (simp add: loci_validate_of_oxm_bsn_udf3_OF_VERSION_1_4_def covered_min_id fits_def of_object_fixed_len_def)

lemma covers_oxm_bsn_udf3_masked_1_4 [c_proved]: "covered 5 loci_validate_of_oxm_bsn_udf3_masked_OF_VERSION_1_4 (d_id OF_OXM_BSN_UDF3_MASKED)"
  by (simp add: loci_validate_of_oxm_bsn_udf3_masked_OF_VERSION_1_4_def covered_min_id fits_def of_object_fixed_len_def)

lemma covers_oxm_bsn_udf4_1_4 [c_proved]: "covered 5 loci_validate_of_oxm_bsn_udf4_OF_VERSION_1_4 (d_id OF_OXM_BSN_UDF4)"
  by (simp add: loci_validate_of_oxm_bsn_udf4_OF_VERSION_1_4_def covered_min_id fits_def of_object_fixed_len_def)

lemma covers_oxm_bsn_udf4_masked_1_4 [c_proved]: "covered 5 loci_validate_of_oxm_bsn_udf4_masked_OF_VERSION_1_4 (d_id OF_OXM_BSN_UDF4_MASKED)"
  by (simp add: loci_validate_of_oxm_bsn_udf4_masked_OF_VERSION_1_4_def covered_min_id fits_def of_object_fixed_len_def)

lemma covers_oxm_bsn_udf5_1_4 [c_proved]: "covered 5 loci_validate_of_oxm_bsn_udf5_OF_VERSION_1_4 (d_id OF_OXM_BSN_UDF5)"
  by (simp add: loci_validate_of_oxm_bsn_udf5_OF_VERSION_1_4_def covered_min_id fits_def of_object_fixed_len_def)

lemma covers_oxm_bsn_udf5_masked_1_4 [c_proved]: "covered 5 loci_validate_of_oxm_bsn_udf5_masked_OF_VERSION_1_4 (d_id OF_OXM_BSN_UDF5_MASKED)"
  by (simp add: loci_validate_of_oxm_bsn_udf5_masked_OF_VERSION_1_4_def covered_min_id fits_def of_object_fixed_len_def)

lemma covers_oxm_bsn_udf6_1_4 [c_proved]: "covered 5 loci_validate_of_oxm_bsn_udf6_OF_VERSION_1_4 (d_id OF_OXM_BSN_UDF6)"
  by (simp add: loci_validate_of_oxm_bsn_udf6_OF_VERSION_1_4_def covered_min_id fits_def of_object_fixed_len_def)

lemma covers_oxm_bsn_udf6_masked_1_4 [c_proved]: "covered 5 loci_validate_of_oxm_bsn_udf6_masked_OF_VERSION_1_4 (d_id OF_OXM_BSN_UDF6_MASKED)"
  by (simp add: loci_validate_of_oxm_bsn_udf6_masked_OF_VERSION_1_4_def covered_min_id fits_def of_object_fixed_len_def)

lemma covers_oxm_bsn_udf7_1_4 [c_proved]: "covered 5 loci_validate_of_oxm_bsn_udf7_OF_VERSION_1_4 (d_id OF_OXM_BSN_UDF7)"
  by (simp add: loci_validate_of_oxm_bsn_udf7_OF_VERSION_1_4_def covered_min_id fits_def of_object_fixed_len_def)

lemma covers_oxm_bsn_udf7_masked_1_4 [c_proved]: "covered 5 loci_validate_of_oxm_bsn_udf7_masked_OF_VERSION_1_4 (d_id OF_OXM_BSN_UDF7_MASKED)"
  by (simp add: loci_validate_of_oxm_bsn_udf7_masked_OF_VERSION_1_4_def covered_min_id fits_def of_object_fixed_len_def)

lemma covers_oxm_bsn_vlan_xlate_port_group_id_1_4 [c_proved]: "covered 5 loci_validate_of_oxm_bsn_vlan_xlate_port_group_id_OF_VERSION_1_4 (d_id OF_OXM_BSN_VLAN_XLATE_PORT_GROUP_ID)"
  by (simp add: loci_validate_of_oxm_bsn_vlan_xlate_port_group_id_OF_VERSION_1_4_def covered_min_id fits_def of_object_fixed_len_def)

lemma covers_oxm_bsn_vlan_xlate_port_group_id_masked_1_4 [c_proved]: "covered 5 loci_validate_of_oxm_bsn_vlan_xlate_port_group_id_masked_OF_VERSION_1_4 (d_id OF_OXM_BSN_VLAN_XLATE_PORT_GROUP_ID_MASKED)"
  by (simp add: loci_validate_of_oxm_bsn_vlan_xlate_port_group_id_masked_OF_VERSION_1_4_def covered_min_id fits_def of_object_fixed_len_def)

lemma covers_oxm_bsn_vrf_1_4 [c_proved]: "covered 5 loci_validate_of_oxm_bsn_vrf_OF_VERSION_1_4 (d_id OF_OXM_BSN_VRF)"
  by (simp add: loci_validate_of_oxm_bsn_vrf_OF_VERSION_1_4_def covered_min_id fits_def of_object_fixed_len_def)

lemma covers_oxm_bsn_vrf_masked_1_4 [c_proved]: "covered 5 loci_validate_of_oxm_bsn_vrf_masked_OF_VERSION_1_4 (d_id OF_OXM_BSN_VRF_MASKED)"
  by (simp add: loci_validate_of_oxm_bsn_vrf_masked_OF_VERSION_1_4_def covered_min_id fits_def of_object_fixed_len_def)

lemma covers_oxm_eth_dst_1_4 [c_proved]: "covered 5 loci_validate_of_oxm_eth_dst_OF_VERSION_1_4 (d_id OF_OXM_ETH_DST)"
  by (simp add: loci_validate_of_oxm_eth_dst_OF_VERSION_1_4_def covered_min_id fits_def of_object_fixed_len_def)

lemma covers_oxm_eth_dst_masked_1_4 [c_proved]: "covered 5 loci_validate_of_oxm_eth_dst_masked_OF_VERSION_1_4 (d_id OF_OXM_ETH_DST_MASKED)"
  by (simp add: loci_validate_of_oxm_eth_dst_masked_OF_VERSION_1_4_def covered_min_id fits_def of_object_fixed_len_def)

lemma covers_oxm_eth_src_1_4 [c_proved]: "covered 5 loci_validate_of_oxm_eth_src_OF_VERSION_1_4 (d_id OF_OXM_ETH_SRC)"
  by (simp add: loci_validate_of_oxm_eth_src_OF_VERSION_1_4_def covered_min_id fits_def of_object_fixed_len_def)

lemma covers_oxm_eth_src_masked_1_4 [c_proved]: "covered 5 loci_validate_of_oxm_eth_src_masked_OF_VERSION_1_4 (d_id OF_OXM_ETH_SRC_MASKED)"
  by (simp add: loci_validate_of_oxm_eth_src_masked_OF_VERSION_1_4_def covered_min_id fits_def of_object_fixed_len_def)

lemma covers_oxm_eth_type_1_4 [c_proved]: "covered 5 loci_validate_of_oxm_eth_type_OF_VERSION_1_4 (d_id OF_OXM_ETH_TYPE)"
  by (simp add: loci_validate_of_oxm_eth_type_OF_VERSION_1_4_def covered_min_id fits_def of_object_fixed_len_def)

lemma covers_oxm_eth_type_masked_1_4 [c_proved]: "covered 5 loci_validate_of_oxm_eth_type_masked_OF_VERSION_1_4 (d_id OF_OXM_ETH_TYPE_MASKED)"
  by (simp add: loci_validate_of_oxm_eth_type_masked_OF_VERSION_1_4_def covered_min_id fits_def of_object_fixed_len_def)

lemma covers_oxm_icmpv4_code_1_4 [c_proved]: "covered 5 loci_validate_of_oxm_icmpv4_code_OF_VERSION_1_4 (d_id OF_OXM_ICMPV4_CODE)"
  by (simp add: loci_validate_of_oxm_icmpv4_code_OF_VERSION_1_4_def covered_min_id fits_def of_object_fixed_len_def)

lemma covers_oxm_icmpv4_code_masked_1_4 [c_proved]: "covered 5 loci_validate_of_oxm_icmpv4_code_masked_OF_VERSION_1_4 (d_id OF_OXM_ICMPV4_CODE_MASKED)"
  by (simp add: loci_validate_of_oxm_icmpv4_code_masked_OF_VERSION_1_4_def covered_min_id fits_def of_object_fixed_len_def)

lemma covers_oxm_icmpv4_type_1_4 [c_proved]: "covered 5 loci_validate_of_oxm_icmpv4_type_OF_VERSION_1_4 (d_id OF_OXM_ICMPV4_TYPE)"
  by (simp add: loci_validate_of_oxm_icmpv4_type_OF_VERSION_1_4_def covered_min_id fits_def of_object_fixed_len_def)

lemma covers_oxm_icmpv4_type_masked_1_4 [c_proved]: "covered 5 loci_validate_of_oxm_icmpv4_type_masked_OF_VERSION_1_4 (d_id OF_OXM_ICMPV4_TYPE_MASKED)"
  by (simp add: loci_validate_of_oxm_icmpv4_type_masked_OF_VERSION_1_4_def covered_min_id fits_def of_object_fixed_len_def)

lemma covers_oxm_icmpv6_code_1_4 [c_proved]: "covered 5 loci_validate_of_oxm_icmpv6_code_OF_VERSION_1_4 (d_id OF_OXM_ICMPV6_CODE)"
  by (simp add: loci_validate_of_oxm_icmpv6_code_OF_VERSION_1_4_def covered_min_id fits_def of_object_fixed_len_def)

lemma covers_oxm_icmpv6_code_masked_1_4 [c_proved]: "covered 5 loci_validate_of_oxm_icmpv6_code_masked_OF_VERSION_1_4 (d_id OF_OXM_ICMPV6_CODE_MASKED)"
  by (simp add: loci_validate_of_oxm_icmpv6_code_masked_OF_VERSION_1_4_def covered_min_id fits_def of_object_fixed_len_def)

lemma covers_oxm_icmpv6_type_1_4 [c_proved]: "covered 5 loci_validate_of_oxm_icmpv6_type_OF_VERSION_1_4 (d_id OF_OXM_ICMPV6_TYPE)"
  by (simp add: loci_validate_of_oxm_icmpv6_type_OF_VERSION_1_4_def covered_min_id fits_def of_object_fixed_len_def)

lemma covers_oxm_icmpv6_type_masked_1_4 [c_proved]: "covered 5 loci_validate_of_oxm_icmpv6_type_masked_OF_VERSION_1_4 (d_id OF_OXM_ICMPV6_TYPE_MASKED)"
  by (simp add: loci_validate_of_oxm_icmpv6_type_masked_OF_VERSION_1_4_def covered_min_id fits_def of_object_fixed_len_def)

lemma covers_oxm_in_phy_port_1_4 [c_proved]: "covered 5 loci_validate_of_oxm_in_phy_port_OF_VERSION_1_4 (d_id OF_OXM_IN_PHY_PORT)"
  by (simp add: loci_validate_of_oxm_in_phy_port_OF_VERSION_1_4_def covered_min_id fits_def of_object_fixed_len_def)

lemma covers_oxm_in_phy_port_masked_1_4 [c_proved]: "covered 5 loci_validate_of_oxm_in_phy_port_masked_OF_VERSION_1_4 (d_id OF_OXM_IN_PHY_PORT_MASKED)"
  by (simp add: loci_validate_of_oxm_in_phy_port_masked_OF_VERSION_1_4_def covered_min_id fits_def of_object_fixed_len_def)

lemma covers_oxm_in_port_1_4 [c_proved]: "covered 5 loci_validate_of_oxm_in_port_OF_VERSION_1_4 (d_id OF_OXM_IN_PORT)"
  by (simp add: loci_validate_of_oxm_in_port_OF_VERSION_1_4_def covered_min_id fits_def of_object_fixed_len_def)

lemma covers_oxm_in_port_masked_1_4 [c_proved]: "covered 5 loci_validate_of_oxm_in_port_masked_OF_VERSION_1_4 (d_id OF_OXM_IN_PORT_MASKED)"
  by (simp add: loci_validate_of_oxm_in_port_masked_OF_VERSION_1_4_def covered_min_id fits_def of_object_fixed_len_def)

lemma covers_oxm_ip_dscp_1_4 [c_proved]: "covered 5 loci_validate_of_oxm_ip_dscp_OF_VERSION_1_4 (d_id OF_OXM_IP_DSCP)"
  by (simp add: loci_validate_of_oxm_ip_dscp_OF_VERSION_1_4_def covered_min_id fits_def of_object_fixed_len_def)

lemma covers_oxm_ip_dscp_masked_1_4 [c_proved]: "covered 5 loci_validate_of_oxm_ip_dscp_masked_OF_VERSION_1_4 (d_id OF_OXM_IP_DSCP_MASKED)"
  by (simp add: loci_validate_of_oxm_ip_dscp_masked_OF_VERSION_1_4_def covered_min_id fits_def of_object_fixed_len_def)

lemma covers_oxm_ip_ecn_1_4 [c_proved]: "covered 5 loci_validate_of_oxm_ip_ecn_OF_VERSION_1_4 (d_id OF_OXM_IP_ECN)"
  by (simp add: loci_validate_of_oxm_ip_ecn_OF_VERSION_1_4_def covered_min_id fits_def of_object_fixed_len_def)

lemma covers_oxm_ip_ecn_masked_1_4 [c_proved]: "covered 5 loci_validate_of_oxm_ip_ecn_masked_OF_VERSION_1_4 (d_id OF_OXM_IP_ECN_MASKED)"
  by (simp add: loci_validate_of_oxm_ip_ecn_masked_OF_VERSION_1_4_def covered_min_id fits_def of_object_fixed_len_def)

lemma covers_oxm_ip_proto_1_4 [c_proved]: "covered 5 loci_validate_of_oxm_ip_proto_OF_VERSION_1_4 (d_id OF_OXM_IP_PROTO)"
  by (simp add: loci_validate_of_oxm_ip_proto_OF_VERSION_1_4_def covered_min_id fits_def of_object_fixed_len_def)

lemma covers_oxm_ip_proto_masked_1_4 [c_proved]: "covered 5 loci_validate_of_oxm_ip_proto_masked_OF_VERSION_1_4 (d_id OF_OXM_IP_PROTO_MASKED)"
  by (simp add: loci_validate_of_oxm_ip_proto_masked_OF_VERSION_1_4_def covered_min_id fits_def of_object_fixed_len_def)

lemma covers_oxm_ipv4_dst_1_4 [c_proved]: "covered 5 loci_validate_of_oxm_ipv4_dst_OF_VERSION_1_4 (d_id OF_OXM_IPV4_DST)"
  by (simp add: loci_validate_of_oxm_ipv4_dst_OF_VERSION_1_4_def covered_min_id fits_def of_object_fixed_len_def)

lemma covers_oxm_ipv4_dst_masked_1_4 [c_proved]: "covered 5 loci_validate_of_oxm_ipv4_dst_masked_OF_VERSION_1_4 (d_id OF_OXM_IPV4_DST_MASKED)"
  by (simp add: loci_validate_of_oxm_ipv4_dst_masked_OF_VERSION_1_4_def covered_min_id fits_def of_object_fixed_len_def)

lemma covers_oxm_ipv4_src_1_4 [c_proved]: "covered 5 loci_validate_of_oxm_ipv4_src_OF_VERSION_1_4 (d_id OF_OXM_IPV4_SRC)"
  by (simp add: loci_validate_of_oxm_ipv4_src_OF_VERSION_1_4_def covered_min_id fits_def of_object_fixed_len_def)

lemma covers_oxm_ipv4_src_masked_1_4 [c_proved]: "covered 5 loci_validate_of_oxm_ipv4_src_masked_OF_VERSION_1_4 (d_id OF_OXM_IPV4_SRC_MASKED)"
  by (simp add: loci_validate_of_oxm_ipv4_src_masked_OF_VERSION_1_4_def covered_min_id fits_def of_object_fixed_len_def)

lemma covers_oxm_ipv6_dst_1_4 [c_proved]: "covered 5 loci_validate_of_oxm_ipv6_dst_OF_VERSION_1_4 (d_id OF_OXM_IPV6_DST)"
  by (simp add: loci_validate_of_oxm_ipv6_dst_OF_VERSION_1_4_def covered_min_id fits_def of_object_fixed_len_def)

lemma covers_oxm_ipv6_dst_masked_1_4 [c_proved]: "covered 5 loci_validate_of_oxm_ipv6_dst_masked_OF_VERSION_1_4 (d_id OF_OXM_IPV6_DST_MASKED)"
  by (simp add: loci_validate_of_oxm_ipv6_dst_masked_OF_VERSION_1_4_def covered_min_id fits_def of_object_fixed_len_def)

lemma covers_oxm_ipv6_exthdr_1_4 [c_proved]: "covered 5 loci_validate_of_oxm_ipv6_exthdr_OF_VERSION_1_4 (d_id OF_OXM_IPV6_EXTHDR)"
  by (simp add: loci_validate_of_oxm_ipv6_exthdr_OF_VERSION_1_4_def covered_min_id fits_def of_object_fixed_len_def)

lemma covers_oxm_ipv6_exthdr_masked_1_4 [c_proved]: "covered 5 loci_validate_of_oxm_ipv6_exthdr_masked_OF_VERSION_1_4 (d_id OF_OXM_IPV6_EXTHDR_MASKED)"
  by (simp add: loci_validate_of_oxm_ipv6_exthdr_masked_OF_VERSION_1_4_def covered_min_id fits_def of_object_fixed_len_def)

lemma covers_oxm_ipv6_flabel_1_4 [c_proved]: "covered 5 loci_validate_of_oxm_ipv6_flabel_OF_VERSION_1_4 (d_id OF_OXM_IPV6_FLABEL)"
  by (simp add: loci_validate_of_oxm_ipv6_flabel_OF_VERSION_1_4_def covered_min_id fits_def of_object_fixed_len_def)

lemma covers_oxm_ipv6_flabel_masked_1_4 [c_proved]: "covered 5 loci_validate_of_oxm_ipv6_flabel_masked_OF_VERSION_1_4 (d_id OF_OXM_IPV6_FLABEL_MASKED)"
  by (simp add: loci_validate_of_oxm_ipv6_flabel_masked_OF_VERSION_1_4_def covered_min_id fits_def of_object_fixed_len_def)

lemma covers_oxm_ipv6_nd_sll_1_4 [c_proved]: "covered 5 loci_validate_of_oxm_ipv6_nd_sll_OF_VERSION_1_4 (d_id OF_OXM_IPV6_ND_SLL)"
  by (simp add: loci_validate_of_oxm_ipv6_nd_sll_OF_VERSION_1_4_def covered_min_id fits_def of_object_fixed_len_def)

lemma covers_oxm_ipv6_nd_sll_masked_1_4 [c_proved]: "covered 5 loci_validate_of_oxm_ipv6_nd_sll_masked_OF_VERSION_1_4 (d_id OF_OXM_IPV6_ND_SLL_MASKED)"
  by (simp add: loci_validate_of_oxm_ipv6_nd_sll_masked_OF_VERSION_1_4_def covered_min_id fits_def of_object_fixed_len_def)

lemma covers_oxm_ipv6_nd_target_1_4 [c_proved]: "covered 5 loci_validate_of_oxm_ipv6_nd_target_OF_VERSION_1_4 (d_id OF_OXM_IPV6_ND_TARGET)"
  by (simp add: loci_validate_of_oxm_ipv6_nd_target_OF_VERSION_1_4_def covered_min_id fits_def of_object_fixed_len_def)

lemma covers_oxm_ipv6_nd_target_masked_1_4 [c_proved]: "covered 5 loci_validate_of_oxm_ipv6_nd_target_masked_OF_VERSION_1_4 (d_id OF_OXM_IPV6_ND_TARGET_MASKED)"
  by (simp add: loci_validate_of_oxm_ipv6_nd_target_masked_OF_VERSION_1_4_def covered_min_id fits_def of_object_fixed_len_def)

lemma covers_oxm_ipv6_nd_tll_1_4 [c_proved]: "covered 5 loci_validate_of_oxm_ipv6_nd_tll_OF_VERSION_1_4 (d_id OF_OXM_IPV6_ND_TLL)"
  by (simp add: loci_validate_of_oxm_ipv6_nd_tll_OF_VERSION_1_4_def covered_min_id fits_def of_object_fixed_len_def)

lemma covers_oxm_ipv6_nd_tll_masked_1_4 [c_proved]: "covered 5 loci_validate_of_oxm_ipv6_nd_tll_masked_OF_VERSION_1_4 (d_id OF_OXM_IPV6_ND_TLL_MASKED)"
  by (simp add: loci_validate_of_oxm_ipv6_nd_tll_masked_OF_VERSION_1_4_def covered_min_id fits_def of_object_fixed_len_def)

lemma covers_oxm_ipv6_src_1_4 [c_proved]: "covered 5 loci_validate_of_oxm_ipv6_src_OF_VERSION_1_4 (d_id OF_OXM_IPV6_SRC)"
  by (simp add: loci_validate_of_oxm_ipv6_src_OF_VERSION_1_4_def covered_min_id fits_def of_object_fixed_len_def)

lemma covers_oxm_ipv6_src_masked_1_4 [c_proved]: "covered 5 loci_validate_of_oxm_ipv6_src_masked_OF_VERSION_1_4 (d_id OF_OXM_IPV6_SRC_MASKED)"
  by (simp add: loci_validate_of_oxm_ipv6_src_masked_OF_VERSION_1_4_def covered_min_id fits_def of_object_fixed_len_def)

lemma covers_oxm_metadata_1_4 [c_proved]: "covered 5 loci_validate_of_oxm_metadata_OF_VERSION_1_4 (d_id OF_OXM_METADATA)"
  by (simp add: loci_validate_of_oxm_metadata_OF_VERSION_1_4_def covered_min_id fits_def of_object_fixed_len_def)

lemma covers_oxm_metadata_masked_1_4 [c_proved]: "covered 5 loci_validate_of_oxm_metadata_masked_OF_VERSION_1_4 (d_id OF_OXM_METADATA_MASKED)"
  by (simp add: loci_validate_of_oxm_metadata_masked_OF_VERSION_1_4_def covered_min_id fits_def of_object_fixed_len_def)

lemma covers_oxm_mpls_bos_1_4 [c_proved]: "covered 5 loci_validate_of_oxm_mpls_bos_OF_VERSION_1_4 (d_id OF_OXM_MPLS_BOS)"
  by (simp add: loci_validate_of_oxm_mpls_bos_OF_VERSION_1_4_def covered_min_id fits_def of_object_fixed_len_def)

lemma covers_oxm_mpls_bos_masked_1_4 [c_proved]: "covered 5 loci_validate_of_oxm_mpls_bos_masked_OF_VERSION_1_4 (d_id OF_OXM_MPLS_BOS_MASKED)"
  by (simp add: loci_validate_of_oxm_mpls_bos_masked_OF_VERSION_1_4_def covered_min_id fits_def of_object_fixed_len_def)

lemma covers_oxm_mpls_label_1_4 [c_proved]: "covered 5 loci_validate_of_oxm_mpls_label_OF_VERSION_1_4 (d_id OF_OXM_MPLS_LABEL)"
  by (simp add: loci_validate_of_oxm_mpls_label_OF_VERSION_1_4_def covered_min_id fits_def of_object_fixed_len_def)

lemma covers_oxm_mpls_label_masked_1_4 [c_proved]: "covered 5 loci_validate_of_oxm_mpls_label_masked_OF_VERSION_1_4 (d_id OF_OXM_MPLS_LABEL_MASKED)"
  by (simp add: loci_validate_of_oxm_mpls_label_masked_OF_VERSION_1_4_def covered_min_id fits_def of_object_fixed_len_def)

lemma covers_oxm_mpls_tc_1_4 [c_proved]: "covered 5 loci_validate_of_oxm_mpls_tc_OF_VERSION_1_4 (d_id OF_OXM_MPLS_TC)"
  by (simp add: loci_validate_of_oxm_mpls_tc_OF_VERSION_1_4_def covered_min_id fits_def of_object_fixed_len_def)

lemma covers_oxm_mpls_tc_masked_1_4 [c_proved]: "covered 5 loci_validate_of_oxm_mpls_tc_masked_OF_VERSION_1_4 (d_id OF_OXM_MPLS_TC_MASKED)"
  by (simp add: loci_validate_of_oxm_mpls_tc_masked_OF_VERSION_1_4_def covered_min_id fits_def of_object_fixed_len_def)

lemma covers_oxm_pbb_uca_1_4 [c_proved]: "covered 5 loci_validate_of_oxm_pbb_uca_OF_VERSION_1_4 (d_id OF_OXM_PBB_UCA)"
  by (simp add: loci_validate_of_oxm_pbb_uca_OF_VERSION_1_4_def covered_min_id fits_def of_object_fixed_len_def)

lemma covers_oxm_pbb_uca_masked_1_4 [c_proved]: "covered 5 loci_validate_of_oxm_pbb_uca_masked_OF_VERSION_1_4 (d_id OF_OXM_PBB_UCA_MASKED)"
  by (simp add: loci_validate_of_oxm_pbb_uca_masked_OF_VERSION_1_4_def covered_min_id fits_def of_object_fixed_len_def)

lemma covers_oxm_sctp_dst_1_4 [c_proved]: "covered 5 loci_validate_of_oxm_sctp_dst_OF_VERSION_1_4 (d_id OF_OXM_SCTP_DST)"
  by (simp add: loci_validate_of_oxm_sctp_dst_OF_VERSION_1_4_def covered_min_id fits_def of_object_fixed_len_def)

lemma covers_oxm_sctp_dst_masked_1_4 [c_proved]: "covered 5 loci_validate_of_oxm_sctp_dst_masked_OF_VERSION_1_4 (d_id OF_OXM_SCTP_DST_MASKED)"
  by (simp add: loci_validate_of_oxm_sctp_dst_masked_OF_VERSION_1_4_def covered_min_id fits_def of_object_fixed_len_def)

lemma covers_oxm_sctp_src_1_4 [c_proved]: "covered 5 loci_validate_of_oxm_sctp_src_OF_VERSION_1_4 (d_id OF_OXM_SCTP_SRC)"
  by (simp add: loci_validate_of_oxm_sctp_src_OF_VERSION_1_4_def covered_min_id fits_def of_object_fixed_len_def)

lemma covers_oxm_sctp_src_masked_1_4 [c_proved]: "covered 5 loci_validate_of_oxm_sctp_src_masked_OF_VERSION_1_4 (d_id OF_OXM_SCTP_SRC_MASKED)"
  by (simp add: loci_validate_of_oxm_sctp_src_masked_OF_VERSION_1_4_def covered_min_id fits_def of_object_fixed_len_def)

lemma covers_oxm_tcp_dst_1_4 [c_proved]: "covered 5 loci_validate_of_oxm_tcp_dst_OF_VERSION_1_4 (d_id OF_OXM_TCP_DST)"
  by (simp add: loci_validate_of_oxm_tcp_dst_OF_VERSION_1_4_def covered_min_id fits_def of_object_fixed_len_def)

lemma covers_oxm_tcp_dst_masked_1_4 [c_proved]: "covered 5 loci_validate_of_oxm_tcp_dst_masked_OF_VERSION_1_4 (d_id OF_OXM_TCP_DST_MASKED)"
  by (simp add: loci_validate_of_oxm_tcp_dst_masked_OF_VERSION_1_4_def covered_min_id fits_def of_object_fixed_len_def)

lemma covers_oxm_tcp_src_1_4 [c_proved]: "covered 5 loci_validate_of_oxm_tcp_src_OF_VERSION_1_4 (d_id OF_OXM_TCP_SRC)"
  by (simp add: loci_validate_of_oxm_tcp_src_OF_VERSION_1_4_def covered_min_id fits_def of_object_fixed_len_def)

lemma covers_oxm_tcp_src_masked_1_4 [c_proved]: "covered 5 loci_validate_of_oxm_tcp_src_masked_OF_VERSION_1_4 (d_id OF_OXM_TCP_SRC_MASKED)"
  by (simp add: loci_validate_of_oxm_tcp_src_masked_OF_VERSION_1_4_def covered_min_id fits_def of_object_fixed_len_def)

lemma covers_oxm_tunnel_id_1_4 [c_proved]: "covered 5 loci_validate_of_oxm_tunnel_id_OF_VERSION_1_4 (d_id OF_OXM_TUNNEL_ID)"
  by (simp add: loci_validate_of_oxm_tunnel_id_OF_VERSION_1_4_def covered_min_id fits_def of_object_fixed_len_def)

lemma covers_oxm_tunnel_id_masked_1_4 [c_proved]: "covered 5 loci_validate_of_oxm_tunnel_id_masked_OF_VERSION_1_4 (d_id OF_OXM_TUNNEL_ID_MASKED)"
  by (simp add: loci_validate_of_oxm_tunnel_id_masked_OF_VERSION_1_4_def covered_min_id fits_def of_object_fixed_len_def)

lemma covers_oxm_tunnel_ipv4_dst_1_4 [c_proved]: "covered 5 loci_validate_of_oxm_tunnel_ipv4_dst_OF_VERSION_1_4 (d_id OF_OXM_TUNNEL_IPV4_DST)"
  by (simp add: loci_validate_of_oxm_tunnel_ipv4_dst_OF_VERSION_1_4_def covered_min_id fits_def of_object_fixed_len_def)

lemma covers_oxm_tunnel_ipv4_dst_masked_1_4 [c_proved]: "covered 5 loci_validate_of_oxm_tunnel_ipv4_dst_masked_OF_VERSION_1_4 (d_id OF_OXM_TUNNEL_IPV4_DST_MASKED)"
  by (simp add: loci_validate_of_oxm_tunnel_ipv4_dst_masked_OF_VERSION_1_4_def covered_min_id fits_def of_object_fixed_len_def)

lemma covers_oxm_tunnel_ipv4_src_1_4 [c_proved]: "covered 5 loci_validate_of_oxm_tunnel_ipv4_src_OF_VERSION_1_4 (d_id OF_OXM_TUNNEL_IPV4_SRC)"
  by (simp add: loci_validate_of_oxm_tunnel_ipv4_src_OF_VERSION_1_4_def covered_min_id fits_def of_object_fixed_len_def)

lemma covers_oxm_tunnel_ipv4_src_masked_1_4 [c_proved]: "covered 5 loci_validate_of_oxm_tunnel_ipv4_src_masked_OF_VERSION_1_4 (d_id OF_OXM_TUNNEL_IPV4_SRC_MASKED)"
  by (simp add: loci_validate_of_oxm_tunnel_ipv4_src_masked_OF_VERSION_1_4_def covered_min_id fits_def of_object_fixed_len_def)

lemma covers_oxm_udp_dst_1_4 [c_proved]: "covered 5 loci_validate_of_oxm_udp_dst_OF_VERSION_1_4 (d_id OF_OXM_UDP_DST)"
  by (simp add: loci_validate_of_oxm_udp_dst_OF_VERSION_1_4_def covered_min_id fits_def of_object_fixed_len_def)

lemma covers_oxm_udp_dst_masked_1_4 [c_proved]: "covered 5 loci_validate_of_oxm_udp_dst_masked_OF_VERSION_1_4 (d_id OF_OXM_UDP_DST_MASKED)"
  by (simp add: loci_validate_of_oxm_udp_dst_masked_OF_VERSION_1_4_def covered_min_id fits_def of_object_fixed_len_def)

lemma covers_oxm_udp_src_1_4 [c_proved]: "covered 5 loci_validate_of_oxm_udp_src_OF_VERSION_1_4 (d_id OF_OXM_UDP_SRC)"
  by (simp add: loci_validate_of_oxm_udp_src_OF_VERSION_1_4_def covered_min_id fits_def of_object_fixed_len_def)

lemma covers_oxm_udp_src_masked_1_4 [c_proved]: "covered 5 loci_validate_of_oxm_udp_src_masked_OF_VERSION_1_4 (d_id OF_OXM_UDP_SRC_MASKED)"
  by (simp add: loci_validate_of_oxm_udp_src_masked_OF_VERSION_1_4_def covered_min_id fits_def of_object_fixed_len_def)

lemma covers_oxm_vlan_pcp_1_4 [c_proved]: "covered 5 loci_validate_of_oxm_vlan_pcp_OF_VERSION_1_4 (d_id OF_OXM_VLAN_PCP)"
  by (simp add: loci_validate_of_oxm_vlan_pcp_OF_VERSION_1_4_def covered_min_id fits_def of_object_fixed_len_def)

lemma covers_oxm_vlan_pcp_masked_1_4 [c_proved]: "covered 5 loci_validate_of_oxm_vlan_pcp_masked_OF_VERSION_1_4 (d_id OF_OXM_VLAN_PCP_MASKED)"
  by (simp add: loci_validate_of_oxm_vlan_pcp_masked_OF_VERSION_1_4_def covered_min_id fits_def of_object_fixed_len_def)

lemma covers_oxm_vlan_vid_1_4 [c_proved]: "covered 5 loci_validate_of_oxm_vlan_vid_OF_VERSION_1_4 (d_id OF_OXM_VLAN_VID)"
  by (simp add: loci_validate_of_oxm_vlan_vid_OF_VERSION_1_4_def covered_min_id fits_def of_object_fixed_len_def)

lemma covers_oxm_vlan_vid_masked_1_4 [c_proved]: "covered 5 loci_validate_of_oxm_vlan_vid_masked_OF_VERSION_1_4 (d_id OF_OXM_VLAN_VID_MASKED)"
  by (simp add: loci_validate_of_oxm_vlan_vid_masked_OF_VERSION_1_4_def covered_min_id fits_def of_object_fixed_len_def)

lemma covers_port_desc_prop_bsn_uplink_1_4 [c_proved]: "covered 5 loci_validate_of_port_desc_prop_bsn_uplink_OF_VERSION_1_4 (d_id OF_PORT_DESC_PROP_BSN_UPLINK)"
  by (simp add: loci_validate_of_port_desc_prop_bsn_uplink_OF_VERSION_1_4_def covered_min_id fits_def of_object_fixed_len_def)

lemma covers_port_desc_prop_ethernet_1_4 [c_proved]: "covered 5 loci_validate_of_port_desc_prop_ethernet_OF_VERSION_1_4 (d_id OF_PORT_DESC_PROP_ETHERNET)"
  by (simp add: loci_validate_of_port_desc_prop_ethernet_OF_VERSION_1_4_def covered_min_id fits_def of_object_fixed_len_def)

lemma covers_port_desc_prop_optical_1_4 [c_proved]: "covered 5 loci_validate_of_port_desc_prop_optical_OF_VERSION_1_4 (d_id OF_PORT_DESC_PROP_OPTICAL)"
  by (simp add: loci_validate_of_port_desc_prop_optical_OF_VERSION_1_4_def covered_min_id fits_def of_object_fixed_len_def)

lemma covers_port_mod_prop_ethernet_1_4 [c_proved]: "covered 5 loci_validate_of_port_mod_prop_ethernet_OF_VERSION_1_4 (d_id OF_PORT_MOD_PROP_ETHERNET)"
  by (simp add: loci_validate_of_port_mod_prop_ethernet_OF_VERSION_1_4_def covered_min_id fits_def of_object_fixed_len_def)

lemma covers_port_mod_prop_optical_1_4 [c_proved]: "covered 5 loci_validate_of_port_mod_prop_optical_OF_VERSION_1_4 (d_id OF_PORT_MOD_PROP_OPTICAL)"
  by (simp add: loci_validate_of_port_mod_prop_optical_OF_VERSION_1_4_def covered_min_id fits_def of_object_fixed_len_def)

lemma covers_port_stats_prop_ethernet_1_4 [c_proved]: "covered 5 loci_validate_of_port_stats_prop_ethernet_OF_VERSION_1_4 (d_id OF_PORT_STATS_PROP_ETHERNET)"
  by (simp add: loci_validate_of_port_stats_prop_ethernet_OF_VERSION_1_4_def covered_min_id fits_def of_object_fixed_len_def)

lemma covers_port_stats_prop_optical_1_4 [c_proved]: "covered 5 loci_validate_of_port_stats_prop_optical_OF_VERSION_1_4 (d_id OF_PORT_STATS_PROP_OPTICAL)"
  by (simp add: loci_validate_of_port_stats_prop_optical_OF_VERSION_1_4_def covered_min_id fits_def of_object_fixed_len_def)

lemma covers_queue_desc_prop_max_rate_1_4 [c_proved]: "covered 5 loci_validate_of_queue_desc_prop_max_rate_OF_VERSION_1_4 (d_id OF_QUEUE_DESC_PROP_MAX_RATE)"
  by (simp add: loci_validate_of_queue_desc_prop_max_rate_OF_VERSION_1_4_def covered_min_id fits_def of_object_fixed_len_def)

lemma covers_queue_desc_prop_min_rate_1_4 [c_proved]: "covered 5 loci_validate_of_queue_desc_prop_min_rate_OF_VERSION_1_4 (d_id OF_QUEUE_DESC_PROP_MIN_RATE)"
  by (simp add: loci_validate_of_queue_desc_prop_min_rate_OF_VERSION_1_4_def covered_min_id fits_def of_object_fixed_len_def)

lemma covers_queue_prop_max_rate_1_4 [c_proved]: "covered 5 loci_validate_of_queue_prop_max_rate_OF_VERSION_1_4 (d_id OF_QUEUE_PROP_MAX_RATE)"
  by (simp add: loci_validate_of_queue_prop_max_rate_OF_VERSION_1_4_def covered_min_id fits_def of_object_fixed_len_def)

lemma covers_queue_prop_min_rate_1_4 [c_proved]: "covered 5 loci_validate_of_queue_prop_min_rate_OF_VERSION_1_4 (d_id OF_QUEUE_PROP_MIN_RATE)"
  by (simp add: loci_validate_of_queue_prop_min_rate_OF_VERSION_1_4_def covered_min_id fits_def of_object_fixed_len_def)

lemma covers_table_feature_prop_apply_actions_1_4 [c_proved]: "covered 5 loci_validate_of_table_feature_prop_apply_actions_OF_VERSION_1_4 (d_id OF_TABLE_FEATURE_PROP_APPLY_ACTIONS)"
  by (simp add: loci_validate_of_table_feature_prop_apply_actions_OF_VERSION_1_4_def covered_min_id fits_def of_object_fixed_len_def)

lemma covers_table_feature_prop_apply_actions_miss_1_4 [c_proved]: "covered 5 loci_validate_of_table_feature_prop_apply_actions_miss_OF_VERSION_1_4 (d_id OF_TABLE_FEATURE_PROP_APPLY_ACTIONS_MISS)"
  by (simp add: loci_validate_of_table_feature_prop_apply_actions_miss_OF_VERSION_1_4_def covered_min_id fits_def of_object_fixed_len_def)

lemma covers_table_feature_prop_apply_setfield_1_4 [c_proved]: "covered 5 loci_validate_of_table_feature_prop_apply_setfield_OF_VERSION_1_4 (d_id OF_TABLE_FEATURE_PROP_APPLY_SETFIELD)"
  by (simp add: loci_validate_of_table_feature_prop_apply_setfield_OF_VERSION_1_4_def covered_min_id fits_def of_object_fixed_len_def)

lemma covers_table_feature_prop_apply_setfield_miss_1_4 [c_proved]: "covered 5 loci_validate_of_table_feature_prop_apply_setfield_miss_OF_VERSION_1_4 (d_id OF_TABLE_FEATURE_PROP_APPLY_SETFIELD_MISS)"
  by (simp add: loci_validate_of_table_feature_prop_apply_setfield_miss_OF_VERSION_1_4_def covered_min_id fits_def of_object_fixed_len_def)

lemma covers_table_feature_prop_instructions_1_4 [c_proved]: "covered 5 loci_validate_of_table_feature_prop_instructions_OF_VERSION_1_4 (d_id OF_TABLE_FEATURE_PROP_INSTRUCTIONS)"
  by (simp add: loci_validate_of_table_feature_prop_instructions_OF_VERSION_1_4_def covered_min_id fits_def of_object_fixed_len_def)

lemma covers_table_feature_prop_instructions_miss_1_4 [c_proved]: "covered 5 loci_validate_of_table_feature_prop_instructions_miss_OF_VERSION_1_4 (d_id OF_TABLE_FEATURE_PROP_INSTRUCTIONS_MISS)"
  by (simp add: loci_validate_of_table_feature_prop_instructions_miss_OF_VERSION_1_4_def covered_min_id fits_def of_object_fixed_len_def)

lemma covers_table_feature_prop_match_1_4 [c_proved]: "covered 5 loci_validate_of_table_feature_prop_match_OF_VERSION_1_4 (d_id OF_TABLE_FEATURE_PROP_MATCH)"
  by (simp add: loci_validate_of_table_feature_prop_match_OF_VERSION_1_4_def covered_min_id fits_def of_object_fixed_len_def)

lemma covers_table_feature_prop_next_tables_1_4 [c_proved]: "covered 5 loci_validate_of_table_feature_prop_next_tables_OF_VERSION_1_4 (d_id OF_TABLE_FEATURE_PROP_NEXT_TABLES)"
  by (simp add: loci_validate_of_table_feature_prop_next_tables_OF_VERSION_1_4_def covered_min_id fits_def of_object_fixed_len_def)

lemma covers_table_feature_prop_next_tables_miss_1_4 [c_proved]: "covered 5 loci_validate_of_table_feature_prop_next_tables_miss_OF_VERSION_1_4 (d_id OF_TABLE_FEATURE_PROP_NEXT_TABLES_MISS)"
  by (simp add: loci_validate_of_table_feature_prop_next_tables_miss_OF_VERSION_1_4_def covered_min_id fits_def of_object_fixed_len_def)

lemma covers_table_feature_prop_table_sync_from_1_4 [c_proved]: "covered 5 loci_validate_of_table_feature_prop_table_sync_from_OF_VERSION_1_4 (d_id OF_TABLE_FEATURE_PROP_TABLE_SYNC_FROM)"
  by (simp add: loci_validate_of_table_feature_prop_table_sync_from_OF_VERSION_1_4_def covered_min_id fits_def of_object_fixed_len_def)

lemma covers_table_feature_prop_wildcards_1_4 [c_proved]: "covered 5 loci_validate_of_table_feature_prop_wildcards_OF_VERSION_1_4 (d_id OF_TABLE_FEATURE_PROP_WILDCARDS)"
  by (simp add: loci_validate_of_table_feature_prop_wildcards_OF_VERSION_1_4_def covered_min_id fits_def of_object_fixed_len_def)

lemma covers_table_feature_prop_write_actions_1_4 [c_proved]: "covered 5 loci_validate_of_table_feature_prop_write_actions_OF_VERSION_1_4 (d_id OF_TABLE_FEATURE_PROP_WRITE_ACTIONS)"
  by (simp add: loci_validate_of_table_feature_prop_write_actions_OF_VERSION_1_4_def covered_min_id fits_def of_object_fixed_len_def)

lemma covers_table_feature_prop_write_actions_miss_1_4 [c_proved]: "covered 5 loci_validate_of_table_feature_prop_write_actions_miss_OF_VERSION_1_4 (d_id OF_TABLE_FEATURE_PROP_WRITE_ACTIONS_MISS)"
  by (simp add: loci_validate_of_table_feature_prop_write_actions_miss_OF_VERSION_1_4_def covered_min_id fits_def of_object_fixed_len_def)

lemma covers_table_feature_prop_write_setfield_1_4 [c_proved]: "covered 5 loci_validate_of_table_feature_prop_write_setfield_OF_VERSION_1_4 (d_id OF_TABLE_FEATURE_PROP_WRITE_SETFIELD)"
  by (simp add: loci_validate_of_table_feature_prop_write_setfield_OF_VERSION_1_4_def covered_min_id fits_def of_object_fixed_len_def)

lemma covers_table_feature_prop_write_setfield_miss_1_4 [c_proved]: "covered 5 loci_validate_of_table_feature_prop_write_setfield_miss_OF_VERSION_1_4 (d_id OF_TABLE_FEATURE_PROP_WRITE_SETFIELD_MISS)"
  by (simp add: loci_validate_of_table_feature_prop_write_setfield_miss_OF_VERSION_1_4_def covered_min_id fits_def of_object_fixed_len_def)

lemma of_action_id_nicira_covered_1_4 [c_proved]: "covered 5 loci_validate_of_action_id_nicira_OF_VERSION_1_4 (of_action_id_nicira_wire_object_id_get 5)"
  unfolding loci_validate_of_action_id_nicira_OF_VERSION_1_4_def of_action_id_nicira_wire_object_id_get_def
  by (simp only: refl if_True if_False eq_num, intro c_intro)
   (simp_all add: case_covered_def c_proved map_of_Cons_code fits_def of_object_fixed_len_def del: map_of.simps cong: map_of_freeze)

lemma of_action_id_bsn_covered_1_4 [c_proved]: "covered 5 loci_validate_of_action_id_bsn_OF_VERSION_1_4 (of_action_id_bsn_wire_object_id_get 5)"
  unfolding loci_validate_of_action_id_bsn_OF_VERSION_1_4_def of_action_id_bsn_wire_object_id_get_def
  by (simp only: refl if_True if_False eq_num, intro c_intro)
   (simp_all add: case_covered_def c_proved map_of_Cons_code fits_def of_object_fixed_len_def del: map_of.simps cong: map_of_freeze)

lemma of_action_id_experimenter_covered_1_4 [c_proved]: "covered 5 loci_validate_of_action_id_experimenter_OF_VERSION_1_4 (of_action_id_experimenter_wire_object_id_get 5)"
  unfolding loci_validate_of_action_id_experimenter_OF_VERSION_1_4_def of_action_id_experimenter_wire_object_id_get_def
  by (simp only: refl if_True if_False eq_num, intro c_intro)
   (simp_all add: case_covered_def c_proved map_of_Cons_code fits_def of_object_fixed_len_def del: map_of.simps cong: map_of_freeze)

lemma of_action_id_covered_1_4 [c_proved]: "covered 5 loci_validate_of_action_id_OF_VERSION_1_4 (of_action_id_wire_object_id_get 5)"
  unfolding loci_validate_of_action_id_OF_VERSION_1_4_def of_action_id_wire_object_id_get_def
  by (simp only: refl if_True if_False eq_num, intro c_intro)
   (simp_all add: case_covered_def c_proved map_of_Cons_code fits_def of_object_fixed_len_def del: map_of.simps cong: map_of_freeze)

lemma of_action_nicira_covered_1_4 [c_proved]: "covered 5 loci_validate_of_action_nicira_OF_VERSION_1_4 (of_action_nicira_wire_object_id_get 5)"
  unfolding loci_validate_of_action_nicira_OF_VERSION_1_4_def of_action_nicira_wire_object_id_get_def
  by (simp only: refl if_True if_False eq_num, intro c_intro)
   (simp_all add: case_covered_def c_proved map_of_Cons_code fits_def of_object_fixed_len_def del: map_of.simps cong: map_of_freeze)

lemma of_action_bsn_covered_1_4 [c_proved]: "covered 5 loci_validate_of_action_bsn_OF_VERSION_1_4 (of_action_bsn_wire_object_id_get 5)"
  unfolding loci_validate_of_action_bsn_OF_VERSION_1_4_def of_action_bsn_wire_object_id_get_def
  by (simp only: refl if_True if_False eq_num, intro c_intro)
   (simp_all add: case_covered_def c_proved map_of_Cons_code fits_def of_object_fixed_len_def del: map_of.simps cong: map_of_freeze)

lemma of_action_experimenter_covered_1_4 [c_proved]: "covered 5 loci_validate_of_action_experimenter_OF_VERSION_1_4 (of_action_experimenter_wire_object_id_get 5)"
  unfolding loci_validate_of_action_experimenter_OF_VERSION_1_4_def of_action_experimenter_wire_object_id_get_def
  by (simp only: refl if_True if_False eq_num, intro c_intro)
   (simp_all add: case_covered_def c_proved map_of_Cons_code fits_def of_object_fixed_len_def del: map_of.simps cong: map_of_freeze)

lemma of_action_covered_1_4 [c_proved]: "covered 5 loci_validate_of_action_OF_VERSION_1_4 (of_action_wire_object_id_get 5)"
  unfolding loci_validate_of_action_OF_VERSION_1_4_def of_action_wire_object_id_get_def
  by (simp only: refl if_True if_False eq_num, intro c_intro)
   (simp_all add: case_covered_def c_proved map_of_Cons_code fits_def of_object_fixed_len_def del: map_of.simps cong: map_of_freeze)

lemma of_async_config_prop_covered_1_4 [c_proved]: "covered 5 loci_validate_of_async_config_prop_OF_VERSION_1_4 (of_async_config_prop_wire_object_id_get 5)"
  unfolding loci_validate_of_async_config_prop_OF_VERSION_1_4_def of_async_config_prop_wire_object_id_get_def
  by (simp only: refl if_True if_False eq_num, intro c_intro)
   (simp_all add: case_covered_def c_proved map_of_Cons_code fits_def of_object_fixed_len_def del: map_of.simps cong: map_of_freeze)

lemma of_bsn_tlv_covered_1_4 [c_proved]: "covered 5 loci_validate_of_bsn_tlv_OF_VERSION_1_4 (of_bsn_tlv_wire_object_id_get 5)"
  unfolding of_bsn_tlv_wire_object_id_get_def
  by (subst loci_validate_of_bsn_tlv_OF_VERSION_1_4_eq, simp only: refl if_True if_False eq_num, intro c_intro)
   (simp_all add: case_covered_def c_proved map_of_Cons_code fits_def of_object_fixed_len_def del: map_of.simps cong: map_of_freeze)

lemma of_bundle_prop_experimenter_covered_1_4 [c_proved]: "covered 5 loci_validate_of_bundle_prop_experimenter_OF_VERSION_1_4 (of_bundle_prop_experimenter_wire_object_id_get 5)"
  unfolding loci_validate_of_bundle_prop_experimenter_OF_VERSION_1_4_def of_bundle_prop_experimenter_wire_object_id_get_def
  by (simp only: refl if_True if_False eq_num, intro c_intro)
   (simp_all add: case_covered_def c_proved map_of_Cons_code fits_def of_object_fixed_len_def del: map_of.simps cong: map_of_freeze)

lemma of_bundle_prop_covered_1_4 [c_proved]: "covered 5 loci_validate_of_bundle_prop_OF_VERSION_1_4 (of_bundle_prop_wire_object_id_get 5)"
  unfolding loci_validate_of_bundle_prop_OF_VERSION_1_4_def of_bundle_prop_wire_object_id_get_def
  by (simp only: refl if_True if_False eq_num, intro c_intro)
   (simp_all add: case_covered_def c_proved map_of_Cons_code fits_def of_object_fixed_len_def del: map_of.simps cong: map_of_freeze)

lemma of_hello_elem_covered_1_4 [c_proved]: "covered 5 loci_validate_of_hello_elem_OF_VERSION_1_4 (of_hello_elem_wire_object_id_get 5)"
  unfolding loci_validate_of_hello_elem_OF_VERSION_1_4_def of_hello_elem_wire_object_id_get_def
  by (simp only: refl if_True if_False eq_num, intro c_intro)
   (simp_all add: case_covered_def c_proved map_of_Cons_code fits_def of_object_fixed_len_def del: map_of.simps cong: map_of_freeze)

lemma of_instruction_id_bsn_covered_1_4 [c_proved]: "covered 5 loci_validate_of_instruction_id_bsn_OF_VERSION_1_4 (of_instruction_id_bsn_wire_object_id_get 5)"
  unfolding loci_validate_of_instruction_id_bsn_OF_VERSION_1_4_def of_instruction_id_bsn_wire_object_id_get_def
  by (simp only: refl if_True if_False eq_num, intro c_intro)
   (simp_all add: case_covered_def c_proved map_of_Cons_code fits_def of_object_fixed_len_def del: map_of.simps cong: map_of_freeze)

lemma of_instruction_id_experimenter_covered_1_4 [c_proved]: "covered 5 loci_validate_of_instruction_id_experimenter_OF_VERSION_1_4 (of_instruction_id_experimenter_wire_object_id_get 5)"
  unfolding loci_validate_of_instruction_id_experimenter_OF_VERSION_1_4_def of_instruction_id_experimenter_wire_object_id_get_def
  by (simp only: refl if_True if_False eq_num, intro c_intro)
   (simp_all add: case_covered_def c_proved map_of_Cons_code fits_def of_object_fixed_len_def del: map_of.simps cong: map_of_freeze)

lemma of_instruction_id_covered_1_4 [c_proved]: "covered 5 loci_validate_of_instruction_id_OF_VERSION_1_4 (of_instruction_id_wire_object_id_get 5)"
  unfolding loci_validate_of_instruction_id_OF_VERSION_1_4_def of_instruction_id_wire_object_id_get_def
  by (simp only: refl if_True if_False eq_num, intro c_intro)
   (simp_all add: case_covered_def c_proved map_of_Cons_code fits_def of_object_fixed_len_def del: map_of.simps cong: map_of_freeze)

lemma of_instruction_bsn_covered_1_4 [c_proved]: "covered 5 loci_validate_of_instruction_bsn_OF_VERSION_1_4 (of_instruction_bsn_wire_object_id_get 5)"
  unfolding loci_validate_of_instruction_bsn_OF_VERSION_1_4_def of_instruction_bsn_wire_object_id_get_def
  by (simp only: refl if_True if_False eq_num, intro c_intro)
   (simp_all add: case_covered_def c_proved map_of_Cons_code fits_def of_object_fixed_len_def del: map_of.simps cong: map_of_freeze)

lemma of_instruction_experimenter_covered_1_4 [c_proved]: "covered 5 loci_validate_of_instruction_experimenter_OF_VERSION_1_4 (of_instruction_experimenter_wire_object_id_get 5)"
  unfolding loci_validate_of_instruction_experimenter_OF_VERSION_1_4_def of_instruction_experimenter_wire_object_id_get_def
  by (simp only: refl if_True if_False eq_num, intro c_intro)
   (simp_all add: case_covered_def c_proved map_of_Cons_code fits_def of_object_fixed_len_def del: map_of.simps cong: map_of_freeze)

lemma of_instruction_covered_1_4 [c_proved]: "covered 5 loci_validate_of_instruction_OF_VERSION_1_4 (of_instruction_wire_object_id_get 5)"
  unfolding loci_validate_of_instruction_OF_VERSION_1_4_def of_instruction_wire_object_id_get_def
  by (simp only: refl if_True if_False eq_num, intro c_intro)
   (simp_all add: case_covered_def c_proved map_of_Cons_code fits_def of_object_fixed_len_def del: map_of.simps cong: map_of_freeze)

lemma of_meter_band_covered_1_4 [c_proved]: "covered 5 loci_validate_of_meter_band_OF_VERSION_1_4 (of_meter_band_wire_object_id_get 5)"
  unfolding loci_validate_of_meter_band_OF_VERSION_1_4_def of_meter_band_wire_object_id_get_def
  by (simp only: refl if_True if_False eq_num, intro c_intro)
   (simp_all add: case_covered_def c_proved map_of_Cons_code fits_def of_object_fixed_len_def del: map_of.simps cong: map_of_freeze)

lemma of_oxm_covered_1_4 [c_proved]: "covered 5 loci_validate_of_oxm_OF_VERSION_1_4 (of_oxm_wire_object_id_get 5)"
  unfolding loci_validate_of_oxm_OF_VERSION_1_4_def of_oxm_wire_object_id_get_def
  by (simp only: refl if_True if_False eq_num, intro c_intro)
   (simp_all add: case_covered_def c_proved map_of_Cons_code fits_def of_object_fixed_len_def del: map_of.simps cong: map_of_freeze)

lemma of_port_desc_prop_bsn_covered_1_4 [c_proved]: "covered 5 loci_validate_of_port_desc_prop_bsn_OF_VERSION_1_4 (of_port_desc_prop_bsn_wire_object_id_get 5)"
  unfolding loci_validate_of_port_desc_prop_bsn_OF_VERSION_1_4_def of_port_desc_prop_bsn_wire_object_id_get_def
  by (simp only: refl if_True if_False eq_num, intro c_intro)
   (simp_all add: case_covered_def c_proved map_of_Cons_code fits_def of_object_fixed_len_def del: map_of.simps cong: map_of_freeze)

lemma of_port_desc_prop_experimenter_covered_1_4 [c_proved]: "covered 5 loci_validate_of_port_desc_prop_experimenter_OF_VERSION_1_4 (of_port_desc_prop_experimenter_wire_object_id_get 5)"
  unfolding loci_validate_of_port_desc_prop_experimenter_OF_VERSION_1_4_def of_port_desc_prop_experimenter_wire_object_id_get_def
  by (simp only: refl if_True if_False eq_num, intro c_intro)
   (simp_all add: case_covered_def c_proved map_of_Cons_code fits_def of_object_fixed_len_def del: map_of.simps cong: map_of_freeze)

lemma of_port_desc_prop_covered_1_4 [c_proved]: "covered 5 loci_validate_of_port_desc_prop_OF_VERSION_1_4 (of_port_desc_prop_wire_object_id_get 5)"
  unfolding loci_validate_of_port_desc_prop_OF_VERSION_1_4_def of_port_desc_prop_wire_object_id_get_def
  by (simp only: refl if_True if_False eq_num, intro c_intro)
   (simp_all add: case_covered_def c_proved map_of_Cons_code fits_def of_object_fixed_len_def del: map_of.simps cong: map_of_freeze)

lemma of_port_mod_prop_experimenter_covered_1_4 [c_proved]: "covered 5 loci_validate_of_port_mod_prop_experimenter_OF_VERSION_1_4 (of_port_mod_prop_experimenter_wire_object_id_get 5)"
  unfolding loci_validate_of_port_mod_prop_experimenter_OF_VERSION_1_4_def of_port_mod_prop_experimenter_wire_object_id_get_def
  by (simp only: refl if_True if_False eq_num, intro c_intro)
   (simp_all add: case_covered_def c_proved map_of_Cons_code fits_def of_object_fixed_len_def del: map_of.simps cong: map_of_freeze)

lemma of_port_mod_prop_covered_1_4 [c_proved]: "covered 5 loci_validate_of_port_mod_prop_OF_VERSION_1_4 (of_port_mod_prop_wire_object_id_get 5)"
  unfolding loci_validate_of_port_mod_prop_OF_VERSION_1_4_def of_port_mod_prop_wire_object_id_get_def
  by (simp only: refl if_True if_False eq_num, intro c_intro)
   (simp_all add: case_covered_def c_proved map_of_Cons_code fits_def of_object_fixed_len_def del: map_of.simps cong: map_of_freeze)

lemma of_port_stats_prop_experimenter_covered_1_4 [c_proved]: "covered 5 loci_validate_of_port_stats_prop_experimenter_OF_VERSION_1_4 (of_port_stats_prop_experimenter_wire_object_id_get 5)"
  unfolding loci_validate_of_port_stats_prop_experimenter_OF_VERSION_1_4_def of_port_stats_prop_experimenter_wire_object_id_get_def
  by (simp only: refl if_True if_False eq_num, intro c_intro)
   (simp_all add: case_covered_def c_proved map_of_Cons_code fits_def of_object_fixed_len_def del: map_of.simps cong: map_of_freeze)

lemma of_port_stats_prop_covered_1_4 [c_proved]: "covered 5 loci_validate_of_port_stats_prop_OF_VERSION_1_4 (of_port_stats_prop_wire_object_id_get 5)"
  unfolding loci_validate_of_port_stats_prop_OF_VERSION_1_4_def of_port_stats_prop_wire_object_id_get_def
  by (simp only: refl if_True if_False eq_num, intro c_intro)
   (simp_all add: case_covered_def c_proved map_of_Cons_code fits_def of_object_fixed_len_def del: map_of.simps cong: map_of_freeze)

lemma of_queue_desc_prop_experimenter_covered_1_4 [c_proved]: "covered 5 loci_validate_of_queue_desc_prop_experimenter_OF_VERSION_1_4 (of_queue_desc_prop_experimenter_wire_object_id_get 5)"
  unfolding loci_validate_of_queue_desc_prop_experimenter_OF_VERSION_1_4_def of_queue_desc_prop_experimenter_wire_object_id_get_def
  by (simp only: refl if_True if_False eq_num, intro c_intro)
   (simp_all add: case_covered_def c_proved map_of_Cons_code fits_def of_object_fixed_len_def del: map_of.simps cong: map_of_freeze)

lemma of_queue_desc_prop_covered_1_4 [c_proved]: "covered 5 loci_validate_of_queue_desc_prop_OF_VERSION_1_4 (of_queue_desc_prop_wire_object_id_get 5)"
  unfolding loci_validate_of_queue_desc_prop_OF_VERSION_1_4_def of_queue_desc_prop_wire_object_id_get_def
  by (simp only: refl if_True if_False eq_num, intro c_intro)
   (simp_all add: case_covered_def c_proved map_of_Cons_code fits_def of_object_fixed_len_def del: map_of.simps cong: map_of_freeze)

lemma of_queue_prop_experimenter_covered_1_4 [c_proved]: "covered 5 loci_validate_of_queue_prop_experimenter_OF_VERSION_1_4 (of_queue_prop_experimenter_wire_object_id_get 5)"
  unfolding loci_validate_of_queue_prop_experimenter_OF_VERSION_1_4_def of_queue_prop_experimenter_wire_object_id_get_def
  by (simp only: refl if_True if_False eq_num, intro c_intro)
   (simp_all add: case_covered_def c_proved map_of_Cons_code fits_def of_object_fixed_len_def del: map_of.simps cong: map_of_freeze)

lemma of_queue_prop_covered_1_4 [c_proved]: "covered 5 loci_validate_of_queue_prop_OF_VERSION_1_4 (of_queue_prop_wire_object_id_get 5)"
  unfolding loci_validate_of_queue_prop_OF_VERSION_1_4_def of_queue_prop_wire_object_id_get_def
  by (simp only: refl if_True if_False eq_num, intro c_intro)
   (simp_all add: case_covered_def c_proved map_of_Cons_code fits_def of_object_fixed_len_def del: map_of.simps cong: map_of_freeze)

lemma of_queue_stats_prop_experimenter_covered_1_4 [c_proved]: "covered 5 loci_validate_of_queue_stats_prop_experimenter_OF_VERSION_1_4 (of_queue_stats_prop_experimenter_wire_object_id_get 5)"
  unfolding loci_validate_of_queue_stats_prop_experimenter_OF_VERSION_1_4_def of_queue_stats_prop_experimenter_wire_object_id_get_def
  by (simp only: refl if_True if_False eq_num, intro c_intro)
   (simp_all add: case_covered_def c_proved map_of_Cons_code fits_def of_object_fixed_len_def del: map_of.simps cong: map_of_freeze)

lemma of_queue_stats_prop_covered_1_4 [c_proved]: "covered 5 loci_validate_of_queue_stats_prop_OF_VERSION_1_4 (of_queue_stats_prop_wire_object_id_get 5)"
  unfolding loci_validate_of_queue_stats_prop_OF_VERSION_1_4_def of_queue_stats_prop_wire_object_id_get_def
  by (simp only: refl if_True if_False eq_num, intro c_intro)
   (simp_all add: case_covered_def c_proved map_of_Cons_code fits_def of_object_fixed_len_def del: map_of.simps cong: map_of_freeze)

lemma of_role_prop_experimenter_covered_1_4 [c_proved]: "covered 5 loci_validate_of_role_prop_experimenter_OF_VERSION_1_4 (of_role_prop_experimenter_wire_object_id_get 5)"
  unfolding loci_validate_of_role_prop_experimenter_OF_VERSION_1_4_def of_role_prop_experimenter_wire_object_id_get_def
  by (simp only: refl if_True if_False eq_num, intro c_intro)
   (simp_all add: case_covered_def c_proved map_of_Cons_code fits_def of_object_fixed_len_def del: map_of.simps cong: map_of_freeze)

lemma of_role_prop_covered_1_4 [c_proved]: "covered 5 loci_validate_of_role_prop_OF_VERSION_1_4 (of_role_prop_wire_object_id_get 5)"
  unfolding loci_validate_of_role_prop_OF_VERSION_1_4_def of_role_prop_wire_object_id_get_def
  by (simp only: refl if_True if_False eq_num, intro c_intro)
   (simp_all add: case_covered_def c_proved map_of_Cons_code fits_def of_object_fixed_len_def del: map_of.simps cong: map_of_freeze)

lemma of_table_feature_prop_experimenter_covered_1_4 [c_proved]: "covered 5 loci_validate_of_table_feature_prop_experimenter_OF_VERSION_1_4 (of_table_feature_prop_experimenter_wire_object_id_get 5)"
  unfolding loci_validate_of_table_feature_prop_experimenter_OF_VERSION_1_4_def of_table_feature_prop_experimenter_wire_object_id_get_def
  by (simp only: refl if_True if_False eq_num, intro c_intro)
   (simp_all add: case_covered_def c_proved map_of_Cons_code fits_def of_object_fixed_len_def del: map_of.simps cong: map_of_freeze)

lemma of_table_feature_prop_experimenter_miss_covered_1_4 [c_proved]: "covered 5 loci_validate_of_table_feature_prop_experimenter_miss_OF_VERSION_1_4 (of_table_feature_prop_experimenter_miss_wire_object_id_get 5)"
  unfolding loci_validate_of_table_feature_prop_experimenter_miss_OF_VERSION_1_4_def of_table_feature_prop_experimenter_miss_wire_object_id_get_def
  by (simp only: refl if_True if_False eq_num, intro c_intro)
   (simp_all add: case_covered_def c_proved map_of_Cons_code fits_def of_object_fixed_len_def del: map_of.simps cong: map_of_freeze)

lemma of_table_feature_prop_covered_1_4 [c_proved]: "covered 5 loci_validate_of_table_feature_prop_OF_VERSION_1_4 (of_table_feature_prop_wire_object_id_get 5)"
  unfolding loci_validate_of_table_feature_prop_OF_VERSION_1_4_def of_table_feature_prop_wire_object_id_get_def
  by (simp only: refl if_True if_False eq_num, intro c_intro)
   (simp_all add: case_covered_def c_proved map_of_Cons_code fits_def of_object_fixed_len_def del: map_of.simps cong: map_of_freeze)

lemma of_table_mod_prop_covered_1_4 [c_proved]: "covered 5 loci_validate_of_table_mod_prop_OF_VERSION_1_4 (of_table_mod_prop_wire_object_id_get 5)"
  unfolding loci_validate_of_table_mod_prop_OF_VERSION_1_4_def of_table_mod_prop_wire_object_id_get_def
  by (simp only: refl if_True if_False eq_num, intro c_intro)
   (simp_all add: case_covered_def c_proved map_of_Cons_code fits_def of_object_fixed_len_def del: map_of.simps cong: map_of_freeze)

end
