(* ===== verification/ListIter.thy ===== *)
theory ListIter
  imports Construct Elements
begin

text \<open>
  Iterating over the elements of a list: the functions \<open>of_list_X_first\<close> and \<open>of_list_X_next\<close> of the files
  \<^verbatim>\<open>src/of_list_X.c\<close>, which differ between the lists in the data of a \<open>list_class\<close> only, the loop the iteration
  macros make of them, and what it visits in a list the message validator has accepted.
\<close>

subsection \<open>The iterators\<close>

text \<open>The functions that read an element's length from the wire.\<close>

datatype length_kind =
    MessageLen | Tlv16Len | OxmLen | U16Len | PacketQueueLen | PortDescLen | PortStatsLen
  | QueueStatsLen | QueueDescLen | MeterStatsLen

fun wire_length_get :: "length_kind \<Rightarrow> of_object \<Rightarrow> int res" where
  "wire_length_get MessageLen = of_object_message_wire_length_get"
| "wire_length_get Tlv16Len = of_tlv16_wire_length_get"
| "wire_length_get OxmLen = of_oxm_wire_length_get"
| "wire_length_get U16Len = of_u16_len_wire_length_get"
| "wire_length_get PacketQueueLen = of_packet_queue_wire_length_get"
| "wire_length_get PortDescLen = of_port_desc_wire_length_get"
| "wire_length_get PortStatsLen = of_port_stats_entry_wire_length_get"
| "wire_length_get QueueStatsLen = of_queue_stats_entry_wire_length_get"
| "wire_length_get QueueDescLen = of_queue_desc_wire_length_get"
| "wire_length_get MeterStatsLen = of_meter_stats_wire_length_get"

text \<open>A list: the class an element is initialised as, the getter of its id and of its length, where there is one.\<close>

record list_class =
  elem_base :: int
  elem_type :: "(int \<Rightarrow> getter) option"
  elem_length :: "length_kind option"

definition element_read :: "list_class \<Rightarrow> of_object \<Rightarrow> of_object res" where
  "element_read lc obj =
     bnd (case elem_type lc of None \<Rightarrow> Inr obj
          | Some g \<Rightarrow> bnd (object_getter g obj) (\<lambda>i. Inr (obj\<lparr>object_id := i\<rparr>))) (\<lambda>obj.
     case elem_length lc of None \<Rightarrow> Inr obj
     | Some k \<Rightarrow> bnd (wire_length_get k obj) (\<lambda>n. Inr (obj\<lparr>obj_length := n\<rparr>)))"

definition list_first :: "list_class \<Rightarrow> of_object \<Rightarrow> of_object \<Rightarrow> (int \<times> of_object) res" where
  "list_first lc lst obj =
     bnd (of_object_init (elem_base lc) obj (obj_version lst) (-1) True) (\<lambda>obj.
     let (rv, obj) = of_list_first lst obj
     in if rv < 0 then Inr (rv, obj) else bnd (element_read lc obj) (\<lambda>obj. Inr (rv, obj)))"

definition list_next :: "list_class \<Rightarrow> of_object \<Rightarrow> of_object \<Rightarrow> (int \<times> of_object) res" where
  "list_next lc lst obj =
     bnd (of_list_next lst obj) (\<lambda>(rv, obj).
     if rv < 0 then Inr (rv, obj) else bnd (element_read lc obj) (\<lambda>obj. Inr (rv, obj)))"

text \<open>The iteration macro: the objects the loop body sees. The list's length bounds the number of turns.\<close>

fun list_walk :: "nat \<Rightarrow> list_class \<Rightarrow> of_object \<Rightarrow> int \<times> of_object \<Rightarrow> of_object list res" where
  "list_walk 0 lc lst (rv, obj) = Inl Diverges"
| "list_walk (Suc fuel) lc lst (rv, obj) =
     (if rv \<noteq> OF_ERROR_NONE then Inr []
      else bnd (list_next lc lst obj) (\<lambda>st. bnd (list_walk fuel lc lst st) (\<lambda>os. Inr (obj # os))))"

definition list_elements :: "list_class \<Rightarrow> of_object \<Rightarrow> of_object \<Rightarrow> of_object list res" where
  "list_elements lc lst obj = bnd (list_first lc lst obj) (list_walk (Suc (nat (obj_length lst))) lc lst)"

subsection \<open>What an iteration relies on\<close>

text \<open>
  \<open>element_ok lc ver elem\<close>: where the validator \<open>elem\<close> has accepted \<open>n\<close> bytes, the iterators read the length \<open>n\<close> and the id
  of a class whose fixed part fits them.
\<close>

definition element_ok :: "list_class \<Rightarrow> int \<Rightarrow> validator \<Rightarrow> bool" where
  "element_ok lc ver elem \<longleftrightarrow> v_ok elem \<and> instantiable ver (elem_base lc) \<and>
     (\<forall>w b p len n obj. wbuf_wf w \<longrightarrow> wbuf_buf w = Some b \<longrightarrow> 0 \<le> p \<longrightarrow> p + len \<le> current_bytes w \<longrightarrow>
        elem b p len = Inr (Some n) \<longrightarrow> wbuf obj = Some w \<longrightarrow> obj_offset obj = p \<longrightarrow> obj_version obj = ver \<longrightarrow>
        (elem_type lc = None \<longrightarrow> object_id obj = elem_base lc) \<longrightarrow>
        (elem_length lc = None \<longrightarrow> of_object_fixed_len ver (elem_base lc) = Inr (obj_length obj)) \<longrightarrow>
        (\<exists>i. element_read lc obj = Inr (obj\<lparr>object_id := i, obj_length := n\<rparr>) \<and> fits ver i n \<and>
           (elem_type lc = None \<longrightarrow> i = elem_base lc) \<and>
           (elem_length lc = None \<longrightarrow> of_object_fixed_len ver (elem_base lc) = Inr n)))"

fun offsets :: "int \<Rightarrow> int list \<Rightarrow> int list" where
  "offsets p [] = []"
| "offsets p (n # ns) = p # offsets (p + n) ns"

text \<open>The elements of a list over the bytes \<open>b\<close>: cut by the validator, well-formed objects of its version in its buffer.\<close>

definition elements_of :: "validator \<Rightarrow> byte list \<Rightarrow> of_object \<Rightarrow> of_object list \<Rightarrow> bool" where
  "elements_of elem b lst os \<longleftrightarrow>
     tiles elem b (obj_offset lst) (obj_length lst) (map obj_length os) \<and>
     map obj_offset os = offsets (obj_offset lst) (map obj_length os) \<and>
     (\<forall>x\<in>set os. wbuf x = wbuf lst \<and> obj_version x = obj_version lst \<and> has_parent x \<and> obj_wf x)"

definition list_in :: "of_object \<Rightarrow> wire_buffer \<Rightarrow> byte list \<Rightarrow> bool" where
  "list_in lst w b \<longleftrightarrow> wbuf lst = Some w \<and> wbuf_wf w \<and> wbuf_buf w = Some b \<and> 0 \<le> obj_offset lst \<and>
     0 \<le> obj_length lst \<and> obj_offset lst + obj_length lst \<le> current_bytes w"

lemma list_in_bytes:
  assumes "list_in lst w b"
  shows "obj_offset lst + obj_length lst \<le> int (length b)"
  using assms by (auto simp: list_in_def elim!: wbuf_wfE)

text \<open>One turn of the loop at an element: \<open>q\<close> is where it starts, \<open>e\<close> where the list ends.\<close>

lemma element_turn:
  assumes e: "element_ok lc ver elem" and l: "list_in lst w b" "obj_version lst = ver"
    and q: "obj_offset lst \<le> q" "q + len = obj_offset lst + obj_length lst" "elem b q len = Inr (Some n)"
    and o: "wbuf obj = Some w" "obj_offset obj = q" "obj_version obj = ver" "has_parent obj"
      "elem_type lc = None \<longrightarrow> object_id obj = elem_base lc"
      "elem_length lc = None \<longrightarrow> of_object_fixed_len ver (elem_base lc) = Inr (obj_length obj)"
    and n: "n \<le> len"
  obtains i where "element_read lc obj = Inr (obj\<lparr>object_id := i, obj_length := n\<rparr>)"
    "obj_wf (obj\<lparr>object_id := i, obj_length := n\<rparr>)" "elem_type lc = None \<longrightarrow> i = elem_base lc"
    "elem_length lc = None \<longrightarrow> of_object_fixed_len ver (elem_base lc) = Inr n"
proof -
  note ex = e [unfolded element_ok_def, THEN conjunct2, THEN conjunct2, THEN spec [of _ w], THEN spec [of _ b],
      THEN spec [of _ q], THEN spec [of _ len], THEN spec [of _ n], THEN spec [of _ obj], THEN mp, THEN mp, THEN mp, THEN mp,
      THEN mp, THEN mp, THEN mp, THEN mp, THEN mp, THEN mp, OF _ _ _ _ q(3) o(1-3,5,6)]
  have l': "wbuf_wf w" "wbuf_buf w = Some b" "0 \<le> q" "q + len \<le> current_bytes w"
    using l q by (simp_all add: list_in_def)
  show thesis
  proof (rule exE [OF ex [OF l']], elim conjE)
    fix i
    assume i: "element_read lc obj = Inr (obj\<lparr>object_id := i, obj_length := n\<rparr>)" "fits ver i n"
      "elem_type lc = None \<longrightarrow> i = elem_base lc" "elem_length lc = None \<longrightarrow> of_object_fixed_len ver (elem_base lc) = Inr n"
    have "obj_wf (obj\<lparr>object_id := i, obj_length := n\<rparr>)"
      using l q o n i(2) by (simp add: obj_wf_def list_in_def)
    then show thesis
      by (rule that [OF i(1) _ i(3,4)])
  qed
qed

lemma tiles_bounded: "tiles elem b p len ns \<Longrightarrow> 0 \<le> len \<and> int (length ns) \<le> len"
  by (induction ns arbitrary: p len) fastforce+

lemma list_walk_tiles:
  assumes e: "element_ok lc ver elem" and l: "list_in lst w b" "obj_version lst = ver"
  shows "tiles elem b q len (n # ns) \<Longrightarrow> obj_offset lst \<le> q \<Longrightarrow> q + len = obj_offset lst + obj_length lst \<Longrightarrow>
    length ns < fuel \<Longrightarrow> wbuf obj = Some w \<Longrightarrow> obj_offset obj = q \<Longrightarrow> obj_version obj = ver \<Longrightarrow> has_parent obj \<Longrightarrow>
    obj_wf obj \<Longrightarrow> obj_length obj = n \<Longrightarrow> elem_type lc = None \<longrightarrow> object_id obj = elem_base lc \<Longrightarrow>
    elem_length lc = None \<longrightarrow> of_object_fixed_len ver (elem_base lc) = Inr n \<Longrightarrow>
    \<exists>os. list_walk (Suc fuel) lc lst (OF_ERROR_NONE, obj) = Inr os \<and> map obj_length os = n # ns \<and>
      map obj_offset os = offsets q (n # ns) \<and>
      (\<forall>x\<in>set os. wbuf x = Some w \<and> obj_version x = ver \<and> has_parent x \<and> obj_wf x)"
proof (induction ns arbitrary: q len n fuel obj)
  case Nil
  then have "obj_offset lst + obj_length lst \<le> obj_offset obj + obj_length obj" "0 < obj_length obj"
    by simp_all
  then have "list_next lc lst obj = Inr (OF_ERROR_RANGE, obj)"
    by (simp add: list_next_def of_list_next_cases)
  then show ?case
    using Nil by (cases fuel) simp_all
next
  case (Cons m ms)
  obtain k where fuel: "fuel = Suc k" "length ms < k"
    using Cons.prems(4) by (cases fuel) auto
  have t: "0 < n" "n \<le> len" "tiles elem b (q + n) (len - n) (m # ms)"
    "0 < m" "m \<le> len - n" "elem b (q + n) (len - n) = Inr (Some m)"
    using Cons.prems(1) by auto
  let ?obj = "obj\<lparr>wbuf := wbuf lst, obj_offset := obj_offset obj + obj_length obj, has_parent := True\<rparr>"
  have nx: "of_list_next lst obj = Inr (OF_ERROR_NONE, ?obj)"
    using Cons.prems(3,6,10) t by (simp add: of_list_next_cases)
  have lw: "wbuf lst = Some w"
    using l(1) by (simp add: list_in_def)
  obtain i where i: "element_read lc ?obj = Inr (?obj\<lparr>object_id := i, obj_length := m\<rparr>)"
    "obj_wf (?obj\<lparr>object_id := i, obj_length := m\<rparr>)" "elem_type lc = None \<longrightarrow> i = elem_base lc"
    "elem_length lc = None \<longrightarrow> of_object_fixed_len ver (elem_base lc) = Inr m"
    by (rule element_turn [OF e l, of "q + n" "len - n" m ?obj]) (use Cons.prems t lw in simp_all)
  let ?next = "?obj\<lparr>object_id := i, obj_length := m\<rparr>"
  have "\<exists>os. list_walk (Suc k) lc lst (OF_ERROR_NONE, ?next) = Inr os \<and> map obj_length os = m # ms \<and>
      map obj_offset os = offsets (q + n) (m # ms) \<and>
      (\<forall>x\<in>set os. wbuf x = Some w \<and> obj_version x = ver \<and> has_parent x \<and> obj_wf x)"
    by (rule Cons.IH [OF t(3)]) (use Cons.prems(2,3,6,7,10) t i fuel lw in simp_all)
  then obtain os where os: "list_walk (Suc k) lc lst (OF_ERROR_NONE, ?next) = Inr os" "map obj_length os = m # ms"
    "map obj_offset os = offsets (q + n) (m # ms)" "\<forall>x\<in>set os. wbuf x = Some w \<and> obj_version x = ver \<and> has_parent x \<and> obj_wf x"
    by (elim exE conjE) (rule that)
  have "list_next lc lst obj = Inr (OF_ERROR_NONE, ?next)"
    using nx i(1) by (simp add: list_next_def)
  then have "list_walk (Suc fuel) lc lst (OF_ERROR_NONE, obj) = Inr (obj # os)"
    using os(1) fuel(1) by simp
  then show ?case
    using os Cons.prems by (intro exI [of _ "obj # os"]) simp
qed

text \<open>An iteration over a list the validator has accepted visits its elements, one behind the other.\<close>

lemma list_elements_accepted:
  assumes e: "element_ok lc ver elem" and l: "list_in lst w b" "obj_version lst = ver"
    and acc: "v_list elem b (obj_offset lst) (obj_length lst) = Inr True"
  shows "\<exists>os. list_elements lc lst obj = Inr os \<and> elements_of elem b lst os"
proof -
  have v: "v_ok elem" "instantiable ver (elem_base lc)"
    using e by (simp_all add: element_ok_def)
  then obtain fx where fx: "of_object_fixed_len ver (elem_base lc) = Inr fx" "0 \<le> fx"
    by (auto simp: instantiable_def split: sum.splits)
  have "0 \<le> obj_offset lst" "0 \<le> obj_length lst"
    using l(1) by (simp_all add: list_in_def)
  then obtain ns where ns: "tiles elem b (obj_offset lst) (obj_length lst) ns"
    using list_element.list_accepts [OF list_element.intro [OF v(1)] _ list_in_bytes [OF l(1)]] acc by blast
  let ?obj = "zero_object\<lparr>obj_version := ver, obj_length := fx, object_id := elem_base lc\<rparr>"
  have init: "of_object_init (elem_base lc) obj (obj_version lst) (-1) True = Inr ?obj"
    using fx l(2) by (simp add: of_object_init_def zero_object_def Let_def)
  show ?thesis
  proof (cases ns)
    case Nil
    then have "list_first lc lst obj = Inr (OF_ERROR_RANGE, ?obj)"
      using ns init by (simp add: list_first_def of_list_first_def)
    then show ?thesis
      using ns Nil by (simp add: list_elements_def elements_of_def)
  next
    case (Cons n ms)
    have t: "0 < n" "n \<le> obj_length lst" "elem b (obj_offset lst) (obj_length lst) = Inr (Some n)"
      using ns Cons by auto
    have lw: "wbuf lst = Some w"
      using l(1) by (simp add: list_in_def)
    let ?first = "of_object_attach lst ?obj 0 fx"
    obtain i where i: "element_read lc ?first = Inr (?first\<lparr>object_id := i, obj_length := n\<rparr>)"
      "obj_wf (?first\<lparr>object_id := i, obj_length := n\<rparr>)" "elem_type lc = None \<longrightarrow> i = elem_base lc"
      "elem_length lc = None \<longrightarrow> of_object_fixed_len ver (elem_base lc) = Inr n"
      by (rule element_turn [OF e l, of "obj_offset lst" "obj_length lst" n ?first])
         (use t lw l fx in \<open>simp_all add: of_object_attach_def\<close>)
    let ?start = "?first\<lparr>object_id := i, obj_length := n\<rparr>"
    have first: "list_first lc lst obj = Inr (OF_ERROR_NONE, ?start)"
      using init i(1) t(1,2) by (simp add: list_first_def of_list_first_def)
    have "length ms < nat (obj_length lst)"
      using tiles_bounded [OF ns] Cons by auto
    then have "\<exists>os. list_walk (Suc (nat (obj_length lst))) lc lst (OF_ERROR_NONE, ?start) = Inr os \<and> map obj_length os = n # ms \<and>
        map obj_offset os = offsets (obj_offset lst) (n # ms) \<and>
        (\<forall>x\<in>set os. wbuf x = Some w \<and> obj_version x = ver \<and> has_parent x \<and> obj_wf x)"
      by (intro list_walk_tiles [OF e l ns [unfolded Cons]]) (use lw i in \<open>simp_all add: of_object_attach_def\<close>)
    then show ?thesis
      using first ns lw l(2) unfolding list_elements_def elements_of_def Cons
      by (auto simp del: list_walk.simps)
  qed
qed

subsection \<open>Elements of each kind\<close>

text \<open>Where the 16-bit length of an element lies; the other elements have the length of the table of fixed lengths.\<close>

fun len_place :: "length_kind \<Rightarrow> int \<Rightarrow> int option" where
  "len_place MessageLen ver = None"
| "len_place Tlv16Len ver = Some 2"
| "len_place OxmLen ver = None"
| "len_place U16Len ver = Some 0"
| "len_place PacketQueueLen ver = Some (OF_PACKET_QUEUE_LENGTH_OFFSET ver)"
| "len_place PortDescLen ver = (if ver \<ge> 5 then Some 4 else None)"
| "len_place PortStatsLen ver = (if ver \<ge> 5 then Some 0 else None)"
| "len_place QueueStatsLen ver = (if ver \<ge> 5 then Some 0 else None)"
| "len_place QueueDescLen ver = Some 8"
| "len_place MeterStatsLen ver = Some 4"

lemmas wire_length_gets = of_tlv16_wire_length_get_def of_u16_len_wire_length_get_def of_packet_queue_wire_length_get_def
  of_meter_stats_wire_length_get_def of_queue_desc_wire_length_get_def of_port_desc_wire_length_get_def
  of_port_stats_entry_wire_length_get_def of_queue_stats_entry_wire_length_get_def wire_length_from_14_get_def

lemma wire_length_get_place:
  "len_place k (obj_version obj) = Some off \<Longrightarrow> wbuf obj = Some w \<Longrightarrow> wire_length_get k obj = of_object_u16_get obj off"
  by (cases k) (auto simp: wire_length_gets split: if_splits)

lemma wire_length_get_fixed:
  "len_place k (obj_version obj) = None \<Longrightarrow> k \<notin> {MessageLen, OxmLen} \<Longrightarrow> wbuf obj = Some w \<Longrightarrow>
   wire_length_get k obj = of_object_fixed_len (obj_version obj) (object_id obj)"
  by (cases k) (auto simp: wire_length_gets split: if_splits)

text \<open>An element that carries its length is accepted again when it is given just its own bytes.\<close>

lemma framed_again:
  assumes "elem = v_min m (v_wire_len_set off m k)" and "x_ok off elem" and "elem data p len = Inr (Some n)"
  shows "m \<le> n \<and> n \<le> len \<and> elem data p n = Inr (Some n)"
proof -
  obtain wl where wl: "buf_u16_get data (p + off) = Inr wl" "n = uint wl"
    using assms(2,3) unfolding x_ok_def by blast
  then show ?thesis
    using assms(3) unfolding assms(1) by (auto simp: v_min_def v_wire_len_set_def split: if_splits)
qed

lemma element_framed:
  assumes d: "elem = v_min m (v_wire_len_set off m k)" and x: "x_ok off elem" and v: "v_ok elem"
    and i: "instantiable ver (elem_base lc)" and l: "elem_length lc = Some lk" "len_place lk ver = Some off"
    and m: "0 \<le> off" "off + 2 \<le> m"
    and t: "case elem_type lc of None \<Rightarrow> fits ver (elem_base lc) m | Some g \<Rightarrow> covered ver elem (g ver)"
  shows "element_ok lc ver elem"
proof -
  have core: "\<exists>i. element_read lc obj = Inr (obj\<lparr>object_id := i, obj_length := n\<rparr>) \<and> fits ver i n \<and>
      (elem_type lc = None \<longrightarrow> i = elem_base lc) \<and> (elem_length lc = None \<longrightarrow> of_object_fixed_len ver (elem_base lc) = Inr n)"
    if a: "wbuf_wf w" "wbuf_buf w = Some b" "0 \<le> p" "p + len \<le> current_bytes w" "elem b p len = Inr (Some n)"
      "wbuf obj = Some w" "obj_offset obj = p" "obj_version obj = ver" "elem_type lc = None \<longrightarrow> object_id obj = elem_base lc"
    for w b p len n obj
  proof -
    obtain wl where wl: "buf_u16_get b (p + off) = Inr wl" "n = uint wl"
      using x a(5) unfolding x_ok_def by blast
    have n: "m \<le> n" "n \<le> len" "elem b p n = Inr (Some n)"
      using framed_again [OF d x a(5)] by simp_all
    have cb: "current_bytes w \<le> int (length b)"
      using a(1,2) by (auto elim!: wbuf_wfE)
    have len: "wire_length_get lk obj' = Inr n" if "wbuf obj' = Some w" "obj_offset obj' = p" "obj_version obj' = ver" for obj'
      using that a(2-4) m n wl
      by (simp add: wire_length_get_place [OF l(2) [folded that(3)] that(1)] of_object_u16_get_def of_wire_buffer_u16_get_def
          checked_get_def access_check_def c_assert_def)
    show ?thesis
    proof (cases "elem_type lc")
      case None
      then show ?thesis
        using t a len l(1) fits_mono n(1) by (auto simp: element_read_def intro!: exI [of _ "elem_base lc"])
    next
      case (Some g)
      have "p + n \<le> int (length b)"
        using a(4) n(2) cb by simp
      then have "getter_ok ver (g ver) b p n"
        using t Some a(3) n(3) by (simp add: covered_def)
      then obtain i where "g ver b p = Inr i" "fits ver i n"
        by (auto simp: getter_ok_def split: sum.splits)
      then show ?thesis
        using Some a len l(1) by (intro exI [of _ i]) (simp add: element_read_def object_getter_def)
    qed
  qed
  show ?thesis
    unfolding element_ok_def by (intro conjI allI impI v i) (rule core; assumption)
qed

lemma element_fixed:
  assumes def: "elem = v_min m (v_set_len m v_done)" and v: "v_ok elem"
    and f: "of_object_fixed_len ver (elem_base lc) = Inr m" "0 \<le> m" and t: "elem_type lc = None"
    and l: "\<And>lk. elem_length lc = Some lk \<Longrightarrow> lk \<notin> {MessageLen, OxmLen} \<and> len_place lk ver = None"
  shows "element_ok lc ver elem"
proof -
  have d: "n = m" if "elem data p len = Inr (Some n)" for data p len n
    using that unfolding def by (simp add: v_min_def v_set_len_def v_done_def split: if_splits)
  have core: "\<exists>i. element_read lc obj = Inr (obj\<lparr>object_id := i, obj_length := n\<rparr>) \<and> fits ver i n \<and>
      (elem_type lc = None \<longrightarrow> i = elem_base lc) \<and> (elem_length lc = None \<longrightarrow> of_object_fixed_len ver (elem_base lc) = Inr n)"
    if a: "wbuf_wf w" "wbuf_buf w = Some b" "0 \<le> p" "p + len \<le> current_bytes w" "elem b p len = Inr (Some n)"
      "wbuf obj = Some w" "obj_offset obj = p" "obj_version obj = ver" "elem_type lc = None \<longrightarrow> object_id obj = elem_base lc"
      "elem_length lc = None \<longrightarrow> of_object_fixed_len ver (elem_base lc) = Inr (obj_length obj)" for w b p len n obj
  proof -
    have i: "object_id obj = elem_base lc"
      using a(9) t by simp
    have "element_read lc obj = Inr (obj\<lparr>object_id := elem_base lc, obj_length := n\<rparr>)"
    proof (cases "elem_length lc")
      case None
      then show ?thesis
        using t d [OF a(5)] a(10) i f by (auto simp: element_read_def intro!: of_object.equality)
    next
      case (Some lk)
      then show ?thesis
        using t d [OF a(5)] a(6,8) i f l [OF Some] wire_length_get_fixed [of lk obj w]
        by (auto simp: element_read_def intro!: of_object.equality)
    qed
    then show ?thesis
      using d [OF a(5)] f by (intro exI [of _ "elem_base lc"]) (simp add: fits_def)
  qed
  have i: "instantiable ver (elem_base lc)"
    using f by (simp add: instantiable_def)
  show ?thesis
    unfolding element_ok_def by (intro conjI allI impI v i) (rule core; assumption)
qed

text \<open>An element whose length field is checked against the fixed length: it can hold no other value.\<close>

lemma element_checked:
  assumes d: "elem = v_min m (v_set_len m (v_wire_len off m v_done))" and v: "v_ok elem"
    and f: "of_object_fixed_len ver (elem_base lc) = Inr m" and t: "elem_type lc = None"
    and l: "elem_length lc = Some lk" "len_place lk ver = Some off" and m: "0 \<le> off" "off + 2 \<le> m"
  shows "element_ok lc ver elem"
proof -
  have core: "\<exists>i. element_read lc obj = Inr (obj\<lparr>object_id := i, obj_length := n\<rparr>) \<and> fits ver i n \<and>
      (elem_type lc = None \<longrightarrow> i = elem_base lc) \<and> (elem_length lc = None \<longrightarrow> of_object_fixed_len ver (elem_base lc) = Inr n)"
    if a: "wbuf_wf w" "wbuf_buf w = Some b" "0 \<le> p" "p + len \<le> current_bytes w" "elem b p len = Inr (Some n)"
      "wbuf obj = Some w" "obj_offset obj = p" "obj_version obj = ver" "elem_type lc = None \<longrightarrow> object_id obj = elem_base lc"
      "elem_length lc = None \<longrightarrow> of_object_fixed_len ver (elem_base lc) = Inr (obj_length obj)" for w b p len n obj
  proof -
    have n: "n = m" "m \<le> len" and "\<exists>wl. buf_u16_get b (p + off) = Inr wl \<and> uint wl = m"
      using a(5) unfolding d by (auto simp: v_min_def v_set_len_def v_wire_len_def v_done_def bnd_Inr split: if_splits)
    then obtain wl where wl: "buf_u16_get b (p + off) = Inr wl" "uint wl = m"
      by blast
    have "wire_length_get lk obj = Inr m"
      using a(2-4) m n wl a(6,7)
      by (simp add: wire_length_get_place [OF l(2) [folded a(8)] a(6)] of_object_u16_get_def of_wire_buffer_u16_get_def
          checked_get_def access_check_def c_assert_def)
    then have "element_read lc obj = Inr (obj\<lparr>object_id := elem_base lc, obj_length := n\<rparr>)"
      using n a(9) t l(1) by (auto simp: element_read_def intro!: of_object.equality)
    then show ?thesis
      using n f m by (intro exI [of _ "elem_base lc"]) (simp add: fits_def)
  qed
  have i: "instantiable ver (elem_base lc)"
    using f m by (simp add: instantiable_def)
  show ?thesis
    unfolding element_ok_def by (intro conjI allI impI v i) (rule core; assumption)
qed

end
