(* ===== verification/ListClasses.thy ===== *)
theory ListClasses
  imports ListIter
begin

text \<open>
  The lists of the OpenFlow library, one \<open>list_class\<close> per file \<^verbatim>\<open>src/of_list_X.c\<close>, and for each version whose
  validator checks lists of the class, that the iterators agree with the validator about every element
  (\<open>element_ok\<close>). The lists of OXM fields are the exception, at the end.
\<close>

definition iter_of_list_action :: list_class where
  "iter_of_list_action = \<lparr>elem_base = OF_ACTION, elem_type = Some of_action_wire_object_id_get,
     elem_length = Some Tlv16Len\<rparr>"

lemma of_list_action_1_0: "element_ok iter_of_list_action 1 loci_validate_of_action_OF_VERSION_1_0"
  by (rule element_framed [where lk = Tlv16Len, OF loci_validate_of_action_OF_VERSION_1_0_def loci_validate_of_action_OF_VERSION_1_0_exact loci_validate_of_action_OF_VERSION_1_0_ok])
     (simp_all add: iter_of_list_action_def c_proved instantiable_def fits_def of_object_fixed_len_def OF_PACKET_QUEUE_LENGTH_OFFSET_def)

lemma of_list_action_1_1: "element_ok iter_of_list_action 2 loci_validate_of_action_OF_VERSION_1_1"
  by (rule element_framed [where lk = Tlv16Len, OF loci_validate_of_action_OF_VERSION_1_1_def loci_validate_of_action_OF_VERSION_1_1_exact loci_validate_of_action_OF_VERSION_1_1_ok])
     (simp_all add: iter_of_list_action_def c_proved instantiable_def fits_def of_object_fixed_len_def OF_PACKET_QUEUE_LENGTH_OFFSET_def)

lemma of_list_action_1_2: "element_ok iter_of_list_action 3 loci_validate_of_action_OF_VERSION_1_2"
  by (rule element_framed [where lk = Tlv16Len, OF loci_validate_of_action_OF_VERSION_1_2_def loci_validate_of_action_OF_VERSION_1_2_exact loci_validate_of_action_OF_VERSION_1_2_ok])
     (simp_all add: iter_of_list_action_def c_proved instantiable_def fits_def of_object_fixed_len_def OF_PACKET_QUEUE_LENGTH_OFFSET_def)

lemma of_list_action_1_3: "element_ok iter_of_list_action 4 loci_validate_of_action_OF_VERSION_1_3"
  by (rule element_framed [where lk = Tlv16Len, OF loci_validate_of_action_OF_VERSION_1_3_def loci_validate_of_action_OF_VERSION_1_3_exact loci_validate_of_action_OF_VERSION_1_3_ok])
     (simp_all add: iter_of_list_action_def c_proved instantiable_def fits_def of_object_fixed_len_def OF_PACKET_QUEUE_LENGTH_OFFSET_def)

lemma of_list_action_1_4: "element_ok iter_of_list_action 5 loci_validate_of_action_OF_VERSION_1_4"
  by (rule element_framed [where lk = Tlv16Len, OF loci_validate_of_action_OF_VERSION_1_4_def loci_validate_of_action_OF_VERSION_1_4_exact loci_validate_of_action_OF_VERSION_1_4_ok])
     (simp_all add: iter_of_list_action_def c_proved instantiable_def fits_def of_object_fixed_len_def OF_PACKET_QUEUE_LENGTH_OFFSET_def)

definition iter_of_list_action_id :: list_class where
  "iter_of_list_action_id = \<lparr>elem_base = OF_ACTION_ID, elem_type = Some of_action_id_wire_object_id_get,
     elem_length = Some Tlv16Len\<rparr>"

lemma of_list_action_id_1_3: "element_ok iter_of_list_action_id 4 loci_validate_of_action_id_OF_VERSION_1_3"
  by (rule element_framed [where lk = Tlv16Len, OF loci_validate_of_action_id_OF_VERSION_1_3_def loci_validate_of_action_id_OF_VERSION_1_3_exact loci_validate_of_action_id_OF_VERSION_1_3_ok])
     (simp_all add: iter_of_list_action_id_def c_proved instantiable_def fits_def of_object_fixed_len_def OF_PACKET_QUEUE_LENGTH_OFFSET_def)

lemma of_list_action_id_1_4: "element_ok iter_of_list_action_id 5 loci_validate_of_action_id_OF_VERSION_1_4"
  by (rule element_framed [where lk = Tlv16Len, OF loci_validate_of_action_id_OF_VERSION_1_4_def loci_validate_of_action_id_OF_VERSION_1_4_exact loci_validate_of_action_id_OF_VERSION_1_4_ok])
     (simp_all add: iter_of_list_action_id_def c_proved instantiable_def fits_def of_object_fixed_len_def OF_PACKET_QUEUE_LENGTH_OFFSET_def)

definition iter_of_list_async_config_prop :: list_class where
  "iter_of_list_async_config_prop = \<lparr>elem_base = OF_ASYNC_CONFIG_PROP, elem_type = Some of_async_config_prop_wire_object_id_get,
     elem_length = Some Tlv16Len\<rparr>"

lemma of_list_async_config_prop_1_4: "element_ok iter_of_list_async_config_prop 5 loci_validate_of_async_config_prop_OF_VERSION_1_4"
  by (rule element_framed [where lk = Tlv16Len, OF loci_validate_of_async_config_prop_OF_VERSION_1_4_def loci_validate_of_async_config_prop_OF_VERSION_1_4_exact loci_validate_of_async_config_prop_OF_VERSION_1_4_ok])
     (simp_all add: iter_of_list_async_config_prop_def c_proved instantiable_def fits_def of_object_fixed_len_def OF_PACKET_QUEUE_LENGTH_OFFSET_def)

definition iter_of_list_bsn_controller_connection :: list_class where
  "iter_of_list_bsn_controller_connection = \<lparr>elem_base = OF_BSN_CONTROLLER_CONNECTION, elem_type = None,
     elem_length = None\<rparr>"

lemma of_list_bsn_controller_connection_1_3: "element_ok iter_of_list_bsn_controller_connection 4 loci_validate_of_bsn_controller_connection_OF_VERSION_1_3"
  by (rule element_fixed [OF loci_validate_of_bsn_controller_connection_OF_VERSION_1_3_def loci_validate_of_bsn_controller_connection_OF_VERSION_1_3_ok])
     (simp_all add: iter_of_list_bsn_controller_connection_def c_proved instantiable_def fits_def of_object_fixed_len_def OF_PACKET_QUEUE_LENGTH_OFFSET_def)

lemma of_list_bsn_controller_connection_1_4: "element_ok iter_of_list_bsn_controller_connection 5 loci_validate_of_bsn_controller_connection_OF_VERSION_1_4"
  by (rule element_fixed [OF loci_validate_of_bsn_controller_connection_OF_VERSION_1_4_def loci_validate_of_bsn_controller_connection_OF_VERSION_1_4_ok])
     (simp_all add: iter_of_list_bsn_controller_connection_def c_proved instantiable_def fits_def of_object_fixed_len_def OF_PACKET_QUEUE_LENGTH_OFFSET_def)

definition iter_of_list_bsn_debug_counter_desc_stats_entry :: list_class where
  "iter_of_list_bsn_debug_counter_desc_stats_entry = \<lparr>elem_base = OF_BSN_DEBUG_COUNTER_DESC_STATS_ENTRY, elem_type = None,
     elem_length = None\<rparr>"

lemma of_list_bsn_debug_counter_desc_stats_entry_1_3: "element_ok iter_of_list_bsn_debug_counter_desc_stats_entry 4 loci_validate_of_bsn_debug_counter_desc_stats_entry_OF_VERSION_1_3"
  by (rule element_fixed [OF loci_validate_of_bsn_debug_counter_desc_stats_entry_OF_VERSION_1_3_def loci_validate_of_bsn_debug_counter_desc_stats_entry_OF_VERSION_1_3_ok])
     (simp_all add: iter_of_list_bsn_debug_counter_desc_stats_entry_def c_proved instantiable_def fits_def of_object_fixed_len_def OF_PACKET_QUEUE_LENGTH_OFFSET_def)

lemma of_list_bsn_debug_counter_desc_stats_entry_1_4: "element_ok iter_of_list_bsn_debug_counter_desc_stats_entry 5 loci_validate_of_bsn_debug_counter_desc_stats_entry_OF_VERSION_1_4"
  by (rule element_fixed [OF loci_validate_of_bsn_debug_counter_desc_stats_entry_OF_VERSION_1_4_def loci_validate_of_bsn_debug_counter_desc_stats_entry_OF_VERSION_1_4_ok])
     (simp_all add: iter_of_list_bsn_debug_counter_desc_stats_entry_def c_proved instantiable_def fits_def of_object_fixed_len_def OF_PACKET_QUEUE_LENGTH_OFFSET_def)

definition iter_of_list_bsn_debug_counter_stats_entry :: list_class where
  "iter_of_list_bsn_debug_counter_stats_entry = \<lparr>elem_base = OF_BSN_DEBUG_COUNTER_STATS_ENTRY, elem_type = None,
     elem_length = None\<rparr>"

lemma of_list_bsn_debug_counter_stats_entry_1_3: "element_ok iter_of_list_bsn_debug_counter_stats_entry 4 loci_validate_of_bsn_debug_counter_stats_entry_OF_VERSION_1_3"
  by (rule element_fixed [OF loci_validate_of_bsn_debug_counter_stats_entry_OF_VERSION_1_3_def loci_validate_of_bsn_debug_counter_stats_entry_OF_VERSION_1_3_ok])
     (simp_all add: iter_of_list_bsn_debug_counter_stats_entry_def c_proved instantiable_def fits_def of_object_fixed_len_def OF_PACKET_QUEUE_LENGTH_OFFSET_def)

lemma of_list_bsn_debug_counter_stats_entry_1_4: "element_ok iter_of_list_bsn_debug_counter_stats_entry 5 loci_validate_of_bsn_debug_counter_stats_entry_OF_VERSION_1_4"
  by (rule element_fixed [OF loci_validate_of_bsn_debug_counter_stats_entry_OF_VERSION_1_4_def loci_validate_of_bsn_debug_counter_stats_entry_OF_VERSION_1_4_ok])
     (simp_all add: iter_of_list_bsn_debug_counter_stats_entry_def c_proved instantiable_def fits_def of_object_fixed_len_def OF_PACKET_QUEUE_LENGTH_OFFSET_def)

definition iter_of_list_bsn_flow_checksum_bucket_stats_entry :: list_class where
  "iter_of_list_bsn_flow_checksum_bucket_stats_entry = \<lparr>elem_base = OF_BSN_FLOW_CHECKSUM_BUCKET_STATS_ENTRY, elem_type = None,
     elem_length = None\<rparr>"

lemma of_list_bsn_flow_checksum_bucket_stats_entry_1_3: "element_ok iter_of_list_bsn_flow_checksum_bucket_stats_entry 4 loci_validate_of_bsn_flow_checksum_bucket_stats_entry_OF_VERSION_1_3"
  by (rule element_fixed [OF loci_validate_of_bsn_flow_checksum_bucket_stats_entry_OF_VERSION_1_3_def loci_validate_of_bsn_flow_checksum_bucket_stats_entry_OF_VERSION_1_3_ok])
     (simp_all add: iter_of_list_bsn_flow_checksum_bucket_stats_entry_def c_proved instantiable_def fits_def of_object_fixed_len_def OF_PACKET_QUEUE_LENGTH_OFFSET_def)

lemma of_list_bsn_flow_checksum_bucket_stats_entry_1_4: "element_ok iter_of_list_bsn_flow_checksum_bucket_stats_entry 5 loci_validate_of_bsn_flow_checksum_bucket_stats_entry_OF_VERSION_1_4"
  by (rule element_fixed [OF loci_validate_of_bsn_flow_checksum_bucket_stats_entry_OF_VERSION_1_4_def loci_validate_of_bsn_flow_checksum_bucket_stats_entry_OF_VERSION_1_4_ok])
     (simp_all add: iter_of_list_bsn_flow_checksum_bucket_stats_entry_def c_proved instantiable_def fits_def of_object_fixed_len_def OF_PACKET_QUEUE_LENGTH_OFFSET_def)

definition iter_of_list_bsn_generic_stats_entry :: list_class where
  "iter_of_list_bsn_generic_stats_entry = \<lparr>elem_base = OF_BSN_GENERIC_STATS_ENTRY, elem_type = None,
     elem_length = Some U16Len\<rparr>"

lemma of_list_bsn_generic_stats_entry_1_3: "element_ok iter_of_list_bsn_generic_stats_entry 4 loci_validate_of_bsn_generic_stats_entry_OF_VERSION_1_3"
  by (rule element_framed [where lk = U16Len, OF loci_validate_of_bsn_generic_stats_entry_OF_VERSION_1_3_def loci_validate_of_bsn_generic_stats_entry_OF_VERSION_1_3_exact loci_validate_of_bsn_generic_stats_entry_OF_VERSION_1_3_ok])
     (simp_all add: iter_of_list_bsn_generic_stats_entry_def c_proved instantiable_def fits_def of_object_fixed_len_def OF_PACKET_QUEUE_LENGTH_OFFSET_def)

lemma of_list_bsn_generic_stats_entry_1_4: "element_ok iter_of_list_bsn_generic_stats_entry 5 loci_validate_of_bsn_generic_stats_entry_OF_VERSION_1_4"
  by (rule element_framed [where lk = U16Len, OF loci_validate_of_bsn_generic_stats_entry_OF_VERSION_1_4_def loci_validate_of_bsn_generic_stats_entry_OF_VERSION_1_4_exact loci_validate_of_bsn_generic_stats_entry_OF_VERSION_1_4_ok])
     (simp_all add: iter_of_list_bsn_generic_stats_entry_def c_proved instantiable_def fits_def of_object_fixed_len_def OF_PACKET_QUEUE_LENGTH_OFFSET_def)

definition iter_of_list_bsn_gentable_bucket_stats_entry :: list_class where
  "iter_of_list_bsn_gentable_bucket_stats_entry = \<lparr>elem_base = OF_BSN_GENTABLE_BUCKET_STATS_ENTRY, elem_type = None,
     elem_length = None\<rparr>"

lemma of_list_bsn_gentable_bucket_stats_entry_1_3: "element_ok iter_of_list_bsn_gentable_bucket_stats_entry 4 loci_validate_of_bsn_gentable_bucket_stats_entry_OF_VERSION_1_3"
  by (rule element_fixed [OF loci_validate_of_bsn_gentable_bucket_stats_entry_OF_VERSION_1_3_def loci_validate_of_bsn_gentable_bucket_stats_entry_OF_VERSION_1_3_ok])
     (simp_all add: iter_of_list_bsn_gentable_bucket_stats_entry_def c_proved instantiable_def fits_def of_object_fixed_len_def OF_PACKET_QUEUE_LENGTH_OFFSET_def)

lemma of_list_bsn_gentable_bucket_stats_entry_1_4: "element_ok iter_of_list_bsn_gentable_bucket_stats_entry 5 loci_validate_of_bsn_gentable_bucket_stats_entry_OF_VERSION_1_4"
  by (rule element_fixed [OF loci_validate_of_bsn_gentable_bucket_stats_entry_OF_VERSION_1_4_def loci_validate_of_bsn_gentable_bucket_stats_entry_OF_VERSION_1_4_ok])
     (simp_all add: iter_of_list_bsn_gentable_bucket_stats_entry_def c_proved instantiable_def fits_def of_object_fixed_len_def OF_PACKET_QUEUE_LENGTH_OFFSET_def)

definition iter_of_list_bsn_gentable_desc_stats_entry :: list_class where
  "iter_of_list_bsn_gentable_desc_stats_entry = \<lparr>elem_base = OF_BSN_GENTABLE_DESC_STATS_ENTRY, elem_type = None,
     elem_length = Some U16Len\<rparr>"

lemma of_list_bsn_gentable_desc_stats_entry_1_3: "element_ok iter_of_list_bsn_gentable_desc_stats_entry 4 loci_validate_of_bsn_gentable_desc_stats_entry_OF_VERSION_1_3"
  by (rule element_checked [where lk = U16Len, OF loci_validate_of_bsn_gentable_desc_stats_entry_OF_VERSION_1_3_def loci_validate_of_bsn_gentable_desc_stats_entry_OF_VERSION_1_3_ok])
     (simp_all add: iter_of_list_bsn_gentable_desc_stats_entry_def c_proved instantiable_def fits_def of_object_fixed_len_def OF_PACKET_QUEUE_LENGTH_OFFSET_def)

lemma of_list_bsn_gentable_desc_stats_entry_1_4: "element_ok iter_of_list_bsn_gentable_desc_stats_entry 5 loci_validate_of_bsn_gentable_desc_stats_entry_OF_VERSION_1_4"
  by (rule element_checked [where lk = U16Len, OF loci_validate_of_bsn_gentable_desc_stats_entry_OF_VERSION_1_4_def loci_validate_of_bsn_gentable_desc_stats_entry_OF_VERSION_1_4_ok])
     (simp_all add: iter_of_list_bsn_gentable_desc_stats_entry_def c_proved instantiable_def fits_def of_object_fixed_len_def OF_PACKET_QUEUE_LENGTH_OFFSET_def)

definition iter_of_list_bsn_gentable_entry_desc_stats_entry :: list_class where
  "iter_of_list_bsn_gentable_entry_desc_stats_entry = \<lparr>elem_base = OF_BSN_GENTABLE_ENTRY_DESC_STATS_ENTRY, elem_type = None,
     elem_length = Some U16Len\<rparr>"

lemma of_list_bsn_gentable_entry_desc_stats_entry_1_3: "element_ok iter_of_list_bsn_gentable_entry_desc_stats_entry 4 loci_validate_of_bsn_gentable_entry_desc_stats_entry_OF_VERSION_1_3"
  by (rule element_framed [where lk = U16Len, OF loci_validate_of_bsn_gentable_entry_desc_stats_entry_OF_VERSION_1_3_def loci_validate_of_bsn_gentable_entry_desc_stats_entry_OF_VERSION_1_3_exact loci_validate_of_bsn_gentable_entry_desc_stats_entry_OF_VERSION_1_3_ok])
     (simp_all add: iter_of_list_bsn_gentable_entry_desc_stats_entry_def c_proved instantiable_def fits_def of_object_fixed_len_def OF_PACKET_QUEUE_LENGTH_OFFSET_def)

lemma of_list_bsn_gentable_entry_desc_stats_entry_1_4: "element_ok iter_of_list_bsn_gentable_entry_desc_stats_entry 5 loci_validate_of_bsn_gentable_entry_desc_stats_entry_OF_VERSION_1_4"
  by (rule element_framed [where lk = U16Len, OF loci_validate_of_bsn_gentable_entry_desc_stats_entry_OF_VERSION_1_4_def loci_validate_of_bsn_gentable_entry_desc_stats_entry_OF_VERSION_1_4_exact loci_validate_of_bsn_gentable_entry_desc_stats_entry_OF_VERSION_1_4_ok])
     (simp_all add: iter_of_list_bsn_gentable_entry_desc_stats_entry_def c_proved instantiable_def fits_def of_object_fixed_len_def OF_PACKET_QUEUE_LENGTH_OFFSET_def)

definition iter_of_list_bsn_gentable_entry_stats_entry :: list_class where
  "iter_of_list_bsn_gentable_entry_stats_entry = \<lparr>elem_base = OF_BSN_GENTABLE_ENTRY_STATS_ENTRY, elem_type = None,
     elem_length = Some U16Len\<rparr>"

lemma of_list_bsn_gentable_entry_stats_entry_1_3: "element_ok iter_of_list_bsn_gentable_entry_stats_entry 4 loci_validate_of_bsn_gentable_entry_stats_entry_OF_VERSION_1_3"
  by (rule element_framed [where lk = U16Len, OF loci_validate_of_bsn_gentable_entry_stats_entry_OF_VERSION_1_3_def loci_validate_of_bsn_gentable_entry_stats_entry_OF_VERSION_1_3_exact loci_validate_of_bsn_gentable_entry_stats_entry_OF_VERSION_1_3_ok])
     (simp_all add: iter_of_list_bsn_gentable_entry_stats_entry_def c_proved instantiable_def fits_def of_object_fixed_len_def OF_PACKET_QUEUE_LENGTH_OFFSET_def)

lemma of_list_bsn_gentable_entry_stats_entry_1_4: "element_ok iter_of_list_bsn_gentable_entry_stats_entry 5 loci_validate_of_bsn_gentable_entry_stats_entry_OF_VERSION_1_4"
  by (rule element_framed [where lk = U16Len, OF loci_validate_of_bsn_gentable_entry_stats_entry_OF_VERSION_1_4_def loci_validate_of_bsn_gentable_entry_stats_entry_OF_VERSION_1_4_exact loci_validate_of_bsn_gentable_entry_stats_entry_OF_VERSION_1_4_ok])
     (simp_all add: iter_of_list_bsn_gentable_entry_stats_entry_def c_proved instantiable_def fits_def of_object_fixed_len_def OF_PACKET_QUEUE_LENGTH_OFFSET_def)

definition iter_of_list_bsn_gentable_stats_entry :: list_class where
  "iter_of_list_bsn_gentable_stats_entry = \<lparr>elem_base = OF_BSN_GENTABLE_STATS_ENTRY, elem_type = None,
     elem_length = None\<rparr>"

lemma of_list_bsn_gentable_stats_entry_1_3: "element_ok iter_of_list_bsn_gentable_stats_entry 4 loci_validate_of_bsn_gentable_stats_entry_OF_VERSION_1_3"
  by (rule element_fixed [OF loci_validate_of_bsn_gentable_stats_entry_OF_VERSION_1_3_def loci_validate_of_bsn_gentable_stats_entry_OF_VERSION_1_3_ok])
     (simp_all add: iter_of_list_bsn_gentable_stats_entry_def c_proved instantiable_def fits_def of_object_fixed_len_def OF_PACKET_QUEUE_LENGTH_OFFSET_def)

lemma of_list_bsn_gentable_stats_entry_1_4: "element_ok iter_of_list_bsn_gentable_stats_entry 5 loci_validate_of_bsn_gentable_stats_entry_OF_VERSION_1_4"
  by (rule element_fixed [OF loci_validate_of_bsn_gentable_stats_entry_OF_VERSION_1_4_def loci_validate_of_bsn_gentable_stats_entry_OF_VERSION_1_4_ok])
     (simp_all add: iter_of_list_bsn_gentable_stats_entry_def c_proved instantiable_def fits_def of_object_fixed_len_def OF_PACKET_QUEUE_LENGTH_OFFSET_def)

definition iter_of_list_bsn_interface :: list_class where
  "iter_of_list_bsn_interface = \<lparr>elem_base = OF_BSN_INTERFACE, elem_type = None,
     elem_length = None\<rparr>"

lemma of_list_bsn_interface_1_0: "element_ok iter_of_list_bsn_interface 1 loci_validate_of_bsn_interface_OF_VERSION_1_0"
  by (rule element_fixed [OF loci_validate_of_bsn_interface_OF_VERSION_1_0_def loci_validate_of_bsn_interface_OF_VERSION_1_0_ok])
     (simp_all add: iter_of_list_bsn_interface_def c_proved instantiable_def fits_def of_object_fixed_len_def OF_PACKET_QUEUE_LENGTH_OFFSET_def)

lemma of_list_bsn_interface_1_1: "element_ok iter_of_list_bsn_interface 2 loci_validate_of_bsn_interface_OF_VERSION_1_1"
  by (rule element_fixed [OF loci_validate_of_bsn_interface_OF_VERSION_1_1_def loci_validate_of_bsn_interface_OF_VERSION_1_1_ok])
     (simp_all add: iter_of_list_bsn_interface_def c_proved instantiable_def fits_def of_object_fixed_len_def OF_PACKET_QUEUE_LENGTH_OFFSET_def)

lemma of_list_bsn_interface_1_2: "element_ok iter_of_list_bsn_interface 3 loci_validate_of_bsn_interface_OF_VERSION_1_2"
  by (rule element_fixed [OF loci_validate_of_bsn_interface_OF_VERSION_1_2_def loci_validate_of_bsn_interface_OF_VERSION_1_2_ok])
     (simp_all add: iter_of_list_bsn_interface_def c_proved instantiable_def fits_def of_object_fixed_len_def OF_PACKET_QUEUE_LENGTH_OFFSET_def)

lemma of_list_bsn_interface_1_3: "element_ok iter_of_list_bsn_interface 4 loci_validate_of_bsn_interface_OF_VERSION_1_3"
  by (rule element_fixed [OF loci_validate_of_bsn_interface_OF_VERSION_1_3_def loci_validate_of_bsn_interface_OF_VERSION_1_3_ok])
     (simp_all add: iter_of_list_bsn_interface_def c_proved instantiable_def fits_def of_object_fixed_len_def OF_PACKET_QUEUE_LENGTH_OFFSET_def)

lemma of_list_bsn_interface_1_4: "element_ok iter_of_list_bsn_interface 5 loci_validate_of_bsn_interface_OF_VERSION_1_4"
  by (rule element_fixed [OF loci_validate_of_bsn_interface_OF_VERSION_1_4_def loci_validate_of_bsn_interface_OF_VERSION_1_4_ok])
     (simp_all add: iter_of_list_bsn_interface_def c_proved instantiable_def fits_def of_object_fixed_len_def OF_PACKET_QUEUE_LENGTH_OFFSET_def)

definition iter_of_list_bsn_lacp_stats_entry :: list_class where
  "iter_of_list_bsn_lacp_stats_entry = \<lparr>elem_base = OF_BSN_LACP_STATS_ENTRY, elem_type = None,
     elem_length = None\<rparr>"

lemma of_list_bsn_lacp_stats_entry_1_3: "element_ok iter_of_list_bsn_lacp_stats_entry 4 loci_validate_of_bsn_lacp_stats_entry_OF_VERSION_1_3"
  by (rule element_fixed [OF loci_validate_of_bsn_lacp_stats_entry_OF_VERSION_1_3_def loci_validate_of_bsn_lacp_stats_entry_OF_VERSION_1_3_ok])
     (simp_all add: iter_of_list_bsn_lacp_stats_entry_def c_proved instantiable_def fits_def of_object_fixed_len_def OF_PACKET_QUEUE_LENGTH_OFFSET_def)

lemma of_list_bsn_lacp_stats_entry_1_4: "element_ok iter_of_list_bsn_lacp_stats_entry 5 loci_validate_of_bsn_lacp_stats_entry_OF_VERSION_1_4"
  by (rule element_fixed [OF loci_validate_of_bsn_lacp_stats_entry_OF_VERSION_1_4_def loci_validate_of_bsn_lacp_stats_entry_OF_VERSION_1_4_ok])
     (simp_all add: iter_of_list_bsn_lacp_stats_entry_def c_proved instantiable_def fits_def of_object_fixed_len_def OF_PACKET_QUEUE_LENGTH_OFFSET_def)

definition iter_of_list_bsn_port_counter_stats_entry :: list_class where
  "iter_of_list_bsn_port_counter_stats_entry = \<lparr>elem_base = OF_BSN_PORT_COUNTER_STATS_ENTRY, elem_type = None,
     elem_length = Some U16Len\<rparr>"

lemma of_list_bsn_port_counter_stats_entry_1_3: "element_ok iter_of_list_bsn_port_counter_stats_entry 4 loci_validate_of_bsn_port_counter_stats_entry_OF_VERSION_1_3"
  by (rule element_framed [where lk = U16Len, OF loci_validate_of_bsn_port_counter_stats_entry_OF_VERSION_1_3_def loci_validate_of_bsn_port_counter_stats_entry_OF_VERSION_1_3_exact loci_validate_of_bsn_port_counter_stats_entry_OF_VERSION_1_3_ok])
     (simp_all add: iter_of_list_bsn_port_counter_stats_entry_def c_proved instantiable_def fits_def of_object_fixed_len_def OF_PACKET_QUEUE_LENGTH_OFFSET_def)

lemma of_list_bsn_port_counter_stats_entry_1_4: "element_ok iter_of_list_bsn_port_counter_stats_entry 5 loci_validate_of_bsn_port_counter_stats_entry_OF_VERSION_1_4"
  by (rule element_framed [where lk = U16Len, OF loci_validate_of_bsn_port_counter_stats_entry_OF_VERSION_1_4_def loci_validate_of_bsn_port_counter_stats_entry_OF_VERSION_1_4_exact loci_validate_of_bsn_port_counter_stats_entry_OF_VERSION_1_4_ok])
     (simp_all add: iter_of_list_bsn_port_counter_stats_entry_def c_proved instantiable_def fits_def of_object_fixed_len_def OF_PACKET_QUEUE_LENGTH_OFFSET_def)

definition iter_of_list_bsn_switch_pipeline_stats_entry :: list_class where
  "iter_of_list_bsn_switch_pipeline_stats_entry = \<lparr>elem_base = OF_BSN_SWITCH_PIPELINE_STATS_ENTRY, elem_type = None,
     elem_length = None\<rparr>"

lemma of_list_bsn_switch_pipeline_stats_entry_1_3: "element_ok iter_of_list_bsn_switch_pipeline_stats_entry 4 loci_validate_of_bsn_switch_pipeline_stats_entry_OF_VERSION_1_3"
  by (rule element_fixed [OF loci_validate_of_bsn_switch_pipeline_stats_entry_OF_VERSION_1_3_def loci_validate_of_bsn_switch_pipeline_stats_entry_OF_VERSION_1_3_ok])
     (simp_all add: iter_of_list_bsn_switch_pipeline_stats_entry_def c_proved instantiable_def fits_def of_object_fixed_len_def OF_PACKET_QUEUE_LENGTH_OFFSET_def)

lemma of_list_bsn_switch_pipeline_stats_entry_1_4: "element_ok iter_of_list_bsn_switch_pipeline_stats_entry 5 loci_validate_of_bsn_switch_pipeline_stats_entry_OF_VERSION_1_4"
  by (rule element_fixed [OF loci_validate_of_bsn_switch_pipeline_stats_entry_OF_VERSION_1_4_def loci_validate_of_bsn_switch_pipeline_stats_entry_OF_VERSION_1_4_ok])
     (simp_all add: iter_of_list_bsn_switch_pipeline_stats_entry_def c_proved instantiable_def fits_def of_object_fixed_len_def OF_PACKET_QUEUE_LENGTH_OFFSET_def)

definition iter_of_list_bsn_table_checksum_stats_entry :: list_class where
  "iter_of_list_bsn_table_checksum_stats_entry = \<lparr>elem_base = OF_BSN_TABLE_CHECKSUM_STATS_ENTRY, elem_type = None,
     elem_length = None\<rparr>"

lemma of_list_bsn_table_checksum_stats_entry_1_3: "element_ok iter_of_list_bsn_table_checksum_stats_entry 4 loci_validate_of_bsn_table_checksum_stats_entry_OF_VERSION_1_3"
  by (rule element_fixed [OF loci_validate_of_bsn_table_checksum_stats_entry_OF_VERSION_1_3_def loci_validate_of_bsn_table_checksum_stats_entry_OF_VERSION_1_3_ok])
     (simp_all add: iter_of_list_bsn_table_checksum_stats_entry_def c_proved instantiable_def fits_def of_object_fixed_len_def OF_PACKET_QUEUE_LENGTH_OFFSET_def)

lemma of_list_bsn_table_checksum_stats_entry_1_4: "element_ok iter_of_list_bsn_table_checksum_stats_entry 5 loci_validate_of_bsn_table_checksum_stats_entry_OF_VERSION_1_4"
  by (rule element_fixed [OF loci_validate_of_bsn_table_checksum_stats_entry_OF_VERSION_1_4_def loci_validate_of_bsn_table_checksum_stats_entry_OF_VERSION_1_4_ok])
     (simp_all add: iter_of_list_bsn_table_checksum_stats_entry_def c_proved instantiable_def fits_def of_object_fixed_len_def OF_PACKET_QUEUE_LENGTH_OFFSET_def)

definition iter_of_list_bsn_tlv :: list_class where
  "iter_of_list_bsn_tlv = \<lparr>elem_base = OF_BSN_TLV, elem_type = Some of_bsn_tlv_wire_object_id_get,
     elem_length = Some Tlv16Len\<rparr>"

lemma of_list_bsn_tlv_1_3: "element_ok iter_of_list_bsn_tlv 4 loci_validate_of_bsn_tlv_OF_VERSION_1_3"
  by (rule element_framed [where lk = Tlv16Len, OF loci_validate_of_bsn_tlv_OF_VERSION_1_3_eq loci_validate_of_bsn_tlv_OF_VERSION_1_3_exact loci_validate_of_bsn_tlv_OF_VERSION_1_3_ok])
     (simp_all add: iter_of_list_bsn_tlv_def c_proved instantiable_def fits_def of_object_fixed_len_def OF_PACKET_QUEUE_LENGTH_OFFSET_def)

lemma of_list_bsn_tlv_1_4: "element_ok iter_of_list_bsn_tlv 5 loci_validate_of_bsn_tlv_OF_VERSION_1_4"
  by (rule element_framed [where lk = Tlv16Len, OF loci_validate_of_bsn_tlv_OF_VERSION_1_4_eq loci_validate_of_bsn_tlv_OF_VERSION_1_4_exact loci_validate_of_bsn_tlv_OF_VERSION_1_4_ok])
     (simp_all add: iter_of_list_bsn_tlv_def c_proved instantiable_def fits_def of_object_fixed_len_def OF_PACKET_QUEUE_LENGTH_OFFSET_def)

definition iter_of_list_bsn_vlan_counter_stats_entry :: list_class where
  "iter_of_list_bsn_vlan_counter_stats_entry = \<lparr>elem_base = OF_BSN_VLAN_COUNTER_STATS_ENTRY, elem_type = None,
     elem_length = Some U16Len\<rparr>"

lemma of_list_bsn_vlan_counter_stats_entry_1_3: "element_ok iter_of_list_bsn_vlan_counter_stats_entry 4 loci_validate_of_bsn_vlan_counter_stats_entry_OF_VERSION_1_3"
  by (rule element_framed [where lk = U16Len, OF loci_validate_of_bsn_vlan_counter_stats_entry_OF_VERSION_1_3_def loci_validate_of_bsn_vlan_counter_stats_entry_OF_VERSION_1_3_exact loci_validate_of_bsn_vlan_counter_stats_entry_OF_VERSION_1_3_ok])
     (simp_all add: iter_of_list_bsn_vlan_counter_stats_entry_def c_proved instantiable_def fits_def of_object_fixed_len_def OF_PACKET_QUEUE_LENGTH_OFFSET_def)

lemma of_list_bsn_vlan_counter_stats_entry_1_4: "element_ok iter_of_list_bsn_vlan_counter_stats_entry 5 loci_validate_of_bsn_vlan_counter_stats_entry_OF_VERSION_1_4"
  by (rule element_framed [where lk = U16Len, OF loci_validate_of_bsn_vlan_counter_stats_entry_OF_VERSION_1_4_def loci_validate_of_bsn_vlan_counter_stats_entry_OF_VERSION_1_4_exact loci_validate_of_bsn_vlan_counter_stats_entry_OF_VERSION_1_4_ok])
     (simp_all add: iter_of_list_bsn_vlan_counter_stats_entry_def c_proved instantiable_def fits_def of_object_fixed_len_def OF_PACKET_QUEUE_LENGTH_OFFSET_def)

definition iter_of_list_bsn_vrf_counter_stats_entry :: list_class where
  "iter_of_list_bsn_vrf_counter_stats_entry = \<lparr>elem_base = OF_BSN_VRF_COUNTER_STATS_ENTRY, elem_type = None,
     elem_length = Some U16Len\<rparr>"

lemma of_list_bsn_vrf_counter_stats_entry_1_3: "element_ok iter_of_list_bsn_vrf_counter_stats_entry 4 loci_validate_of_bsn_vrf_counter_stats_entry_OF_VERSION_1_3"
  by (rule element_framed [where lk = U16Len, OF loci_validate_of_bsn_vrf_counter_stats_entry_OF_VERSION_1_3_def loci_validate_of_bsn_vrf_counter_stats_entry_OF_VERSION_1_3_exact loci_validate_of_bsn_vrf_counter_stats_entry_OF_VERSION_1_3_ok])
     (simp_all add: iter_of_list_bsn_vrf_counter_stats_entry_def c_proved instantiable_def fits_def of_object_fixed_len_def OF_PACKET_QUEUE_LENGTH_OFFSET_def)

lemma of_list_bsn_vrf_counter_stats_entry_1_4: "element_ok iter_of_list_bsn_vrf_counter_stats_entry 5 loci_validate_of_bsn_vrf_counter_stats_entry_OF_VERSION_1_4"
  by (rule element_framed [where lk = U16Len, OF loci_validate_of_bsn_vrf_counter_stats_entry_OF_VERSION_1_4_def loci_validate_of_bsn_vrf_counter_stats_entry_OF_VERSION_1_4_exact loci_validate_of_bsn_vrf_counter_stats_entry_OF_VERSION_1_4_ok])
     (simp_all add: iter_of_list_bsn_vrf_counter_stats_entry_def c_proved instantiable_def fits_def of_object_fixed_len_def OF_PACKET_QUEUE_LENGTH_OFFSET_def)

definition iter_of_list_bucket :: list_class where
  "iter_of_list_bucket = \<lparr>elem_base = OF_BUCKET, elem_type = None,
     elem_length = Some U16Len\<rparr>"

lemma of_list_bucket_1_1: "element_ok iter_of_list_bucket 2 loci_validate_of_bucket_OF_VERSION_1_1"
  by (rule element_framed [where lk = U16Len, OF loci_validate_of_bucket_OF_VERSION_1_1_def loci_validate_of_bucket_OF_VERSION_1_1_exact loci_validate_of_bucket_OF_VERSION_1_1_ok])
     (simp_all add: iter_of_list_bucket_def c_proved instantiable_def fits_def of_object_fixed_len_def OF_PACKET_QUEUE_LENGTH_OFFSET_def)

lemma of_list_bucket_1_2: "element_ok iter_of_list_bucket 3 loci_validate_of_bucket_OF_VERSION_1_2"
  by (rule element_framed [where lk = U16Len, OF loci_validate_of_bucket_OF_VERSION_1_2_def loci_validate_of_bucket_OF_VERSION_1_2_exact loci_validate_of_bucket_OF_VERSION_1_2_ok])
     (simp_all add: iter_of_list_bucket_def c_proved instantiable_def fits_def of_object_fixed_len_def OF_PACKET_QUEUE_LENGTH_OFFSET_def)

lemma of_list_bucket_1_3: "element_ok iter_of_list_bucket 4 loci_validate_of_bucket_OF_VERSION_1_3"
  by (rule element_framed [where lk = U16Len, OF loci_validate_of_bucket_OF_VERSION_1_3_def loci_validate_of_bucket_OF_VERSION_1_3_exact loci_validate_of_bucket_OF_VERSION_1_3_ok])
     (simp_all add: iter_of_list_bucket_def c_proved instantiable_def fits_def of_object_fixed_len_def OF_PACKET_QUEUE_LENGTH_OFFSET_def)

lemma of_list_bucket_1_4: "element_ok iter_of_list_bucket 5 loci_validate_of_bucket_OF_VERSION_1_4"
  by (rule element_framed [where lk = U16Len, OF loci_validate_of_bucket_OF_VERSION_1_4_def loci_validate_of_bucket_OF_VERSION_1_4_exact loci_validate_of_bucket_OF_VERSION_1_4_ok])
     (simp_all add: iter_of_list_bucket_def c_proved instantiable_def fits_def of_object_fixed_len_def OF_PACKET_QUEUE_LENGTH_OFFSET_def)

definition iter_of_list_bucket_counter :: list_class where
  "iter_of_list_bucket_counter = \<lparr>elem_base = OF_BUCKET_COUNTER, elem_type = None,
     elem_length = None\<rparr>"

lemma of_list_bucket_counter_1_1: "element_ok iter_of_list_bucket_counter 2 loci_validate_of_bucket_counter_OF_VERSION_1_1"
  by (rule element_fixed [OF loci_validate_of_bucket_counter_OF_VERSION_1_1_def loci_validate_of_bucket_counter_OF_VERSION_1_1_ok])
     (simp_all add: iter_of_list_bucket_counter_def c_proved instantiable_def fits_def of_object_fixed_len_def OF_PACKET_QUEUE_LENGTH_OFFSET_def)

lemma of_list_bucket_counter_1_2: "element_ok iter_of_list_bucket_counter 3 loci_validate_of_bucket_counter_OF_VERSION_1_2"
  by (rule element_fixed [OF loci_validate_of_bucket_counter_OF_VERSION_1_2_def loci_validate_of_bucket_counter_OF_VERSION_1_2_ok])
     (simp_all add: iter_of_list_bucket_counter_def c_proved instantiable_def fits_def of_object_fixed_len_def OF_PACKET_QUEUE_LENGTH_OFFSET_def)

lemma of_list_bucket_counter_1_3: "element_ok iter_of_list_bucket_counter 4 loci_validate_of_bucket_counter_OF_VERSION_1_3"
  by (rule element_fixed [OF loci_validate_of_bucket_counter_OF_VERSION_1_3_def loci_validate_of_bucket_counter_OF_VERSION_1_3_ok])
     (simp_all add: iter_of_list_bucket_counter_def c_proved instantiable_def fits_def of_object_fixed_len_def OF_PACKET_QUEUE_LENGTH_OFFSET_def)

lemma of_list_bucket_counter_1_4: "element_ok iter_of_list_bucket_counter 5 loci_validate_of_bucket_counter_OF_VERSION_1_4"
  by (rule element_fixed [OF loci_validate_of_bucket_counter_OF_VERSION_1_4_def loci_validate_of_bucket_counter_OF_VERSION_1_4_ok])
     (simp_all add: iter_of_list_bucket_counter_def c_proved instantiable_def fits_def of_object_fixed_len_def OF_PACKET_QUEUE_LENGTH_OFFSET_def)

definition iter_of_list_bundle_prop :: list_class where
  "iter_of_list_bundle_prop = \<lparr>elem_base = OF_BUNDLE_PROP, elem_type = Some of_bundle_prop_wire_object_id_get,
     elem_length = Some Tlv16Len\<rparr>"

lemma of_list_bundle_prop_1_4: "element_ok iter_of_list_bundle_prop 5 loci_validate_of_bundle_prop_OF_VERSION_1_4"
  by (rule element_framed [where lk = Tlv16Len, OF loci_validate_of_bundle_prop_OF_VERSION_1_4_def loci_validate_of_bundle_prop_OF_VERSION_1_4_exact loci_validate_of_bundle_prop_OF_VERSION_1_4_ok])
     (simp_all add: iter_of_list_bundle_prop_def c_proved instantiable_def fits_def of_object_fixed_len_def OF_PACKET_QUEUE_LENGTH_OFFSET_def)

definition iter_of_list_flow_stats_entry :: list_class where
  "iter_of_list_flow_stats_entry = \<lparr>elem_base = OF_FLOW_STATS_ENTRY, elem_type = None,
     elem_length = Some U16Len\<rparr>"

lemma of_list_flow_stats_entry_1_0: "element_ok iter_of_list_flow_stats_entry 1 loci_validate_of_flow_stats_entry_OF_VERSION_1_0"
  by (rule element_framed [where lk = U16Len, OF loci_validate_of_flow_stats_entry_OF_VERSION_1_0_def loci_validate_of_flow_stats_entry_OF_VERSION_1_0_exact loci_validate_of_flow_stats_entry_OF_VERSION_1_0_ok])
     (simp_all add: iter_of_list_flow_stats_entry_def c_proved instantiable_def fits_def of_object_fixed_len_def OF_PACKET_QUEUE_LENGTH_OFFSET_def)

lemma of_list_flow_stats_entry_1_1: "element_ok iter_of_list_flow_stats_entry 2 loci_validate_of_flow_stats_entry_OF_VERSION_1_1"
  by (rule element_framed [where lk = U16Len, OF loci_validate_of_flow_stats_entry_OF_VERSION_1_1_def loci_validate_of_flow_stats_entry_OF_VERSION_1_1_exact loci_validate_of_flow_stats_entry_OF_VERSION_1_1_ok])
     (simp_all add: iter_of_list_flow_stats_entry_def c_proved instantiable_def fits_def of_object_fixed_len_def OF_PACKET_QUEUE_LENGTH_OFFSET_def)

lemma of_list_flow_stats_entry_1_2: "element_ok iter_of_list_flow_stats_entry 3 loci_validate_of_flow_stats_entry_OF_VERSION_1_2"
  by (rule element_framed [where lk = U16Len, OF loci_validate_of_flow_stats_entry_OF_VERSION_1_2_def loci_validate_of_flow_stats_entry_OF_VERSION_1_2_exact loci_validate_of_flow_stats_entry_OF_VERSION_1_2_ok])
     (simp_all add: iter_of_list_flow_stats_entry_def c_proved instantiable_def fits_def of_object_fixed_len_def OF_PACKET_QUEUE_LENGTH_OFFSET_def)

lemma of_list_flow_stats_entry_1_3: "element_ok iter_of_list_flow_stats_entry 4 loci_validate_of_flow_stats_entry_OF_VERSION_1_3"
  by (rule element_framed [where lk = U16Len, OF loci_validate_of_flow_stats_entry_OF_VERSION_1_3_def loci_validate_of_flow_stats_entry_OF_VERSION_1_3_exact loci_validate_of_flow_stats_entry_OF_VERSION_1_3_ok])
     (simp_all add: iter_of_list_flow_stats_entry_def c_proved instantiable_def fits_def of_object_fixed_len_def OF_PACKET_QUEUE_LENGTH_OFFSET_def)

lemma of_list_flow_stats_entry_1_4: "element_ok iter_of_list_flow_stats_entry 5 loci_validate_of_flow_stats_entry_OF_VERSION_1_4"
  by (rule element_framed [where lk = U16Len, OF loci_validate_of_flow_stats_entry_OF_VERSION_1_4_def loci_validate_of_flow_stats_entry_OF_VERSION_1_4_exact loci_validate_of_flow_stats_entry_OF_VERSION_1_4_ok])
     (simp_all add: iter_of_list_flow_stats_entry_def c_proved instantiable_def fits_def of_object_fixed_len_def OF_PACKET_QUEUE_LENGTH_OFFSET_def)

definition iter_of_list_group_desc_stats_entry :: list_class where
  "iter_of_list_group_desc_stats_entry = \<lparr>elem_base = OF_GROUP_DESC_STATS_ENTRY, elem_type = None,
     elem_length = Some U16Len\<rparr>"

lemma of_list_group_desc_stats_entry_1_1: "element_ok iter_of_list_group_desc_stats_entry 2 loci_validate_of_group_desc_stats_entry_OF_VERSION_1_1"
  by (rule element_framed [where lk = U16Len, OF loci_validate_of_group_desc_stats_entry_OF_VERSION_1_1_def loci_validate_of_group_desc_stats_entry_OF_VERSION_1_1_exact loci_validate_of_group_desc_stats_entry_OF_VERSION_1_1_ok])
     (simp_all add: iter_of_list_group_desc_stats_entry_def c_proved instantiable_def fits_def of_object_fixed_len_def OF_PACKET_QUEUE_LENGTH_OFFSET_def)

lemma of_list_group_desc_stats_entry_1_2: "element_ok iter_of_list_group_desc_stats_entry 3 loci_validate_of_group_desc_stats_entry_OF_VERSION_1_2"
  by (rule element_framed [where lk = U16Len, OF loci_validate_of_group_desc_stats_entry_OF_VERSION_1_2_def loci_validate_of_group_desc_stats_entry_OF_VERSION_1_2_exact loci_validate_of_group_desc_stats_entry_OF_VERSION_1_2_ok])
     (simp_all add: iter_of_list_group_desc_stats_entry_def c_proved instantiable_def fits_def of_object_fixed_len_def OF_PACKET_QUEUE_LENGTH_OFFSET_def)

lemma of_list_group_desc_stats_entry_1_3: "element_ok iter_of_list_group_desc_stats_entry 4 loci_validate_of_group_desc_stats_entry_OF_VERSION_1_3"
  by (rule element_framed [where lk = U16Len, OF loci_validate_of_group_desc_stats_entry_OF_VERSION_1_3_def loci_validate_of_group_desc_stats_entry_OF_VERSION_1_3_exact loci_validate_of_group_desc_stats_entry_OF_VERSION_1_3_ok])
     (simp_all add: iter_of_list_group_desc_stats_entry_def c_proved instantiable_def fits_def of_object_fixed_len_def OF_PACKET_QUEUE_LENGTH_OFFSET_def)

lemma of_list_group_desc_stats_entry_1_4: "element_ok iter_of_list_group_desc_stats_entry 5 loci_validate_of_group_desc_stats_entry_OF_VERSION_1_4"
  by (rule element_framed [where lk = U16Len, OF loci_validate_of_group_desc_stats_entry_OF_VERSION_1_4_def loci_validate_of_group_desc_stats_entry_OF_VERSION_1_4_exact loci_validate_of_group_desc_stats_entry_OF_VERSION_1_4_ok])
     (simp_all add: iter_of_list_group_desc_stats_entry_def c_proved instantiable_def fits_def of_object_fixed_len_def OF_PACKET_QUEUE_LENGTH_OFFSET_def)

definition iter_of_list_group_stats_entry :: list_class where
  "iter_of_list_group_stats_entry = \<lparr>elem_base = OF_GROUP_STATS_ENTRY, elem_type = None,
     elem_length = Some U16Len\<rparr>"

lemma of_list_group_stats_entry_1_1: "element_ok iter_of_list_group_stats_entry 2 loci_validate_of_group_stats_entry_OF_VERSION_1_1"
  by (rule element_framed [where lk = U16Len, OF loci_validate_of_group_stats_entry_OF_VERSION_1_1_def loci_validate_of_group_stats_entry_OF_VERSION_1_1_exact loci_validate_of_group_stats_entry_OF_VERSION_1_1_ok])
     (simp_all add: iter_of_list_group_stats_entry_def c_proved instantiable_def fits_def of_object_fixed_len_def OF_PACKET_QUEUE_LENGTH_OFFSET_def)

lemma of_list_group_stats_entry_1_2: "element_ok iter_of_list_group_stats_entry 3 loci_validate_of_group_stats_entry_OF_VERSION_1_2"
  by (rule element_framed [where lk = U16Len, OF loci_validate_of_group_stats_entry_OF_VERSION_1_2_def loci_validate_of_group_stats_entry_OF_VERSION_1_2_exact loci_validate_of_group_stats_entry_OF_VERSION_1_2_ok])
     (simp_all add: iter_of_list_group_stats_entry_def c_proved instantiable_def fits_def of_object_fixed_len_def OF_PACKET_QUEUE_LENGTH_OFFSET_def)

lemma of_list_group_stats_entry_1_3: "element_ok iter_of_list_group_stats_entry 4 loci_validate_of_group_stats_entry_OF_VERSION_1_3"
  by (rule element_framed [where lk = U16Len, OF loci_validate_of_group_stats_entry_OF_VERSION_1_3_def loci_validate_of_group_stats_entry_OF_VERSION_1_3_exact loci_validate_of_group_stats_entry_OF_VERSION_1_3_ok])
     (simp_all add: iter_of_list_group_stats_entry_def c_proved instantiable_def fits_def of_object_fixed_len_def OF_PACKET_QUEUE_LENGTH_OFFSET_def)

lemma of_list_group_stats_entry_1_4: "element_ok iter_of_list_group_stats_entry 5 loci_validate_of_group_stats_entry_OF_VERSION_1_4"
  by (rule element_framed [where lk = U16Len, OF loci_validate_of_group_stats_entry_OF_VERSION_1_4_def loci_validate_of_group_stats_entry_OF_VERSION_1_4_exact loci_validate_of_group_stats_entry_OF_VERSION_1_4_ok])
     (simp_all add: iter_of_list_group_stats_entry_def c_proved instantiable_def fits_def of_object_fixed_len_def OF_PACKET_QUEUE_LENGTH_OFFSET_def)

definition iter_of_list_hello_elem :: list_class where
  "iter_of_list_hello_elem = \<lparr>elem_base = OF_HELLO_ELEM, elem_type = Some of_hello_elem_wire_object_id_get,
     elem_length = Some Tlv16Len\<rparr>"

lemma of_list_hello_elem_1_3: "element_ok iter_of_list_hello_elem 4 loci_validate_of_hello_elem_OF_VERSION_1_3"
  by (rule element_framed [where lk = Tlv16Len, OF loci_validate_of_hello_elem_OF_VERSION_1_3_def loci_validate_of_hello_elem_OF_VERSION_1_3_exact loci_validate_of_hello_elem_OF_VERSION_1_3_ok])
     (simp_all add: iter_of_list_hello_elem_def c_proved instantiable_def fits_def of_object_fixed_len_def OF_PACKET_QUEUE_LENGTH_OFFSET_def)

lemma of_list_hello_elem_1_4: "element_ok iter_of_list_hello_elem 5 loci_validate_of_hello_elem_OF_VERSION_1_4"
  by (rule element_framed [where lk = Tlv16Len, OF loci_validate_of_hello_elem_OF_VERSION_1_4_def loci_validate_of_hello_elem_OF_VERSION_1_4_exact loci_validate_of_hello_elem_OF_VERSION_1_4_ok])
     (simp_all add: iter_of_list_hello_elem_def c_proved instantiable_def fits_def of_object_fixed_len_def OF_PACKET_QUEUE_LENGTH_OFFSET_def)

definition iter_of_list_instruction :: list_class where
  "iter_of_list_instruction = \<lparr>elem_base = OF_INSTRUCTION, elem_type = Some of_instruction_wire_object_id_get,
     elem_length = Some Tlv16Len\<rparr>"

lemma of_list_instruction_1_1: "element_ok iter_of_list_instruction 2 loci_validate_of_instruction_OF_VERSION_1_1"
  by (rule element_framed [where lk = Tlv16Len, OF loci_validate_of_instruction_OF_VERSION_1_1_def loci_validate_of_instruction_OF_VERSION_1_1_exact loci_validate_of_instruction_OF_VERSION_1_1_ok])
     (simp_all add: iter_of_list_instruction_def c_proved instantiable_def fits_def of_object_fixed_len_def OF_PACKET_QUEUE_LENGTH_OFFSET_def)

lemma of_list_instruction_1_2: "element_ok iter_of_list_instruction 3 loci_validate_of_instruction_OF_VERSION_1_2"
  by (rule element_framed [where lk = Tlv16Len, OF loci_validate_of_instruction_OF_VERSION_1_2_def loci_validate_of_instruction_OF_VERSION_1_2_exact loci_validate_of_instruction_OF_VERSION_1_2_ok])
     (simp_all add: iter_of_list_instruction_def c_proved instantiable_def fits_def of_object_fixed_len_def OF_PACKET_QUEUE_LENGTH_OFFSET_def)

lemma of_list_instruction_1_3: "element_ok iter_of_list_instruction 4 loci_validate_of_instruction_OF_VERSION_1_3"
  by (rule element_framed [where lk = Tlv16Len, OF loci_validate_of_instruction_OF_VERSION_1_3_def loci_validate_of_instruction_OF_VERSION_1_3_exact loci_validate_of_instruction_OF_VERSION_1_3_ok])
     (simp_all add: iter_of_list_instruction_def c_proved instantiable_def fits_def of_object_fixed_len_def OF_PACKET_QUEUE_LENGTH_OFFSET_def)

lemma of_list_instruction_1_4: "element_ok iter_of_list_instruction 5 loci_validate_of_instruction_OF_VERSION_1_4"
  by (rule element_framed [where lk = Tlv16Len, OF loci_validate_of_instruction_OF_VERSION_1_4_def loci_validate_of_instruction_OF_VERSION_1_4_exact loci_validate_of_instruction_OF_VERSION_1_4_ok])
     (simp_all add: iter_of_list_instruction_def c_proved instantiable_def fits_def of_object_fixed_len_def OF_PACKET_QUEUE_LENGTH_OFFSET_def)

definition iter_of_list_instruction_id :: list_class where
  "iter_of_list_instruction_id = \<lparr>elem_base = OF_INSTRUCTION_ID, elem_type = Some of_instruction_id_wire_object_id_get,
     elem_length = Some Tlv16Len\<rparr>"

lemma of_list_instruction_id_1_3: "element_ok iter_of_list_instruction_id 4 loci_validate_of_instruction_id_OF_VERSION_1_3"
  by (rule element_framed [where lk = Tlv16Len, OF loci_validate_of_instruction_id_OF_VERSION_1_3_def loci_validate_of_instruction_id_OF_VERSION_1_3_exact loci_validate_of_instruction_id_OF_VERSION_1_3_ok])
     (simp_all add: iter_of_list_instruction_id_def c_proved instantiable_def fits_def of_object_fixed_len_def OF_PACKET_QUEUE_LENGTH_OFFSET_def)

lemma of_list_instruction_id_1_4: "element_ok iter_of_list_instruction_id 5 loci_validate_of_instruction_id_OF_VERSION_1_4"
  by (rule element_framed [where lk = Tlv16Len, OF loci_validate_of_instruction_id_OF_VERSION_1_4_def loci_validate_of_instruction_id_OF_VERSION_1_4_exact loci_validate_of_instruction_id_OF_VERSION_1_4_ok])
     (simp_all add: iter_of_list_instruction_id_def c_proved instantiable_def fits_def of_object_fixed_len_def OF_PACKET_QUEUE_LENGTH_OFFSET_def)

definition iter_of_list_meter_band :: list_class where
  "iter_of_list_meter_band = \<lparr>elem_base = OF_METER_BAND, elem_type = Some of_meter_band_wire_object_id_get,
     elem_length = Some Tlv16Len\<rparr>"

lemma of_list_meter_band_1_3: "element_ok iter_of_list_meter_band 4 loci_validate_of_meter_band_OF_VERSION_1_3"
  by (rule element_framed [where lk = Tlv16Len, OF loci_validate_of_meter_band_OF_VERSION_1_3_def loci_validate_of_meter_band_OF_VERSION_1_3_exact loci_validate_of_meter_band_OF_VERSION_1_3_ok])
     (simp_all add: iter_of_list_meter_band_def c_proved instantiable_def fits_def of_object_fixed_len_def OF_PACKET_QUEUE_LENGTH_OFFSET_def)

lemma of_list_meter_band_1_4: "element_ok iter_of_list_meter_band 5 loci_validate_of_meter_band_OF_VERSION_1_4"
  by (rule element_framed [where lk = Tlv16Len, OF loci_validate_of_meter_band_OF_VERSION_1_4_def loci_validate_of_meter_band_OF_VERSION_1_4_exact loci_validate_of_meter_band_OF_VERSION_1_4_ok])
     (simp_all add: iter_of_list_meter_band_def c_proved instantiable_def fits_def of_object_fixed_len_def OF_PACKET_QUEUE_LENGTH_OFFSET_def)

definition iter_of_list_meter_band_stats :: list_class where
  "iter_of_list_meter_band_stats = \<lparr>elem_base = OF_METER_BAND_STATS, elem_type = None,
     elem_length = None\<rparr>"

lemma of_list_meter_band_stats_1_3: "element_ok iter_of_list_meter_band_stats 4 loci_validate_of_meter_band_stats_OF_VERSION_1_3"
  by (rule element_fixed [OF loci_validate_of_meter_band_stats_OF_VERSION_1_3_def loci_validate_of_meter_band_stats_OF_VERSION_1_3_ok])
     (simp_all add: iter_of_list_meter_band_stats_def c_proved instantiable_def fits_def of_object_fixed_len_def OF_PACKET_QUEUE_LENGTH_OFFSET_def)

lemma of_list_meter_band_stats_1_4: "element_ok iter_of_list_meter_band_stats 5 loci_validate_of_meter_band_stats_OF_VERSION_1_4"
  by (rule element_fixed [OF loci_validate_of_meter_band_stats_OF_VERSION_1_4_def loci_validate_of_meter_band_stats_OF_VERSION_1_4_ok])
     (simp_all add: iter_of_list_meter_band_stats_def c_proved instantiable_def fits_def of_object_fixed_len_def OF_PACKET_QUEUE_LENGTH_OFFSET_def)

definition iter_of_list_meter_stats :: list_class where
  "iter_of_list_meter_stats = \<lparr>elem_base = OF_METER_STATS, elem_type = None,
     elem_length = Some MeterStatsLen\<rparr>"

lemma of_list_meter_stats_1_3: "element_ok iter_of_list_meter_stats 4 loci_validate_of_meter_stats_OF_VERSION_1_3"
  by (rule element_framed [where lk = MeterStatsLen, OF loci_validate_of_meter_stats_OF_VERSION_1_3_def loci_validate_of_meter_stats_OF_VERSION_1_3_exact loci_validate_of_meter_stats_OF_VERSION_1_3_ok])
     (simp_all add: iter_of_list_meter_stats_def c_proved instantiable_def fits_def of_object_fixed_len_def OF_PACKET_QUEUE_LENGTH_OFFSET_def)

lemma of_list_meter_stats_1_4: "element_ok iter_of_list_meter_stats 5 loci_validate_of_meter_stats_OF_VERSION_1_4"
  by (rule element_framed [where lk = MeterStatsLen, OF loci_validate_of_meter_stats_OF_VERSION_1_4_def loci_validate_of_meter_stats_OF_VERSION_1_4_exact loci_validate_of_meter_stats_OF_VERSION_1_4_ok])
     (simp_all add: iter_of_list_meter_stats_def c_proved instantiable_def fits_def of_object_fixed_len_def OF_PACKET_QUEUE_LENGTH_OFFSET_def)

definition iter_of_list_oxm :: list_class where
  "iter_of_list_oxm = \<lparr>elem_base = OF_OXM, elem_type = Some of_oxm_wire_object_id_get,
     elem_length = Some OxmLen\<rparr>"

definition iter_of_list_packet_queue :: list_class where
  "iter_of_list_packet_queue = \<lparr>elem_base = OF_PACKET_QUEUE, elem_type = None,
     elem_length = Some PacketQueueLen\<rparr>"

lemma of_list_packet_queue_1_0: "element_ok iter_of_list_packet_queue 1 loci_validate_of_packet_queue_OF_VERSION_1_0"
  by (rule element_framed [where lk = PacketQueueLen, OF loci_validate_of_packet_queue_OF_VERSION_1_0_def loci_validate_of_packet_queue_OF_VERSION_1_0_exact loci_validate_of_packet_queue_OF_VERSION_1_0_ok])
     (simp_all add: iter_of_list_packet_queue_def c_proved instantiable_def fits_def of_object_fixed_len_def OF_PACKET_QUEUE_LENGTH_OFFSET_def)

lemma of_list_packet_queue_1_1: "element_ok iter_of_list_packet_queue 2 loci_validate_of_packet_queue_OF_VERSION_1_1"
  by (rule element_framed [where lk = PacketQueueLen, OF loci_validate_of_packet_queue_OF_VERSION_1_1_def loci_validate_of_packet_queue_OF_VERSION_1_1_exact loci_validate_of_packet_queue_OF_VERSION_1_1_ok])
     (simp_all add: iter_of_list_packet_queue_def c_proved instantiable_def fits_def of_object_fixed_len_def OF_PACKET_QUEUE_LENGTH_OFFSET_def)

lemma of_list_packet_queue_1_2: "element_ok iter_of_list_packet_queue 3 loci_validate_of_packet_queue_OF_VERSION_1_2"
  by (rule element_framed [where lk = PacketQueueLen, OF loci_validate_of_packet_queue_OF_VERSION_1_2_def loci_validate_of_packet_queue_OF_VERSION_1_2_exact loci_validate_of_packet_queue_OF_VERSION_1_2_ok])
     (simp_all add: iter_of_list_packet_queue_def c_proved instantiable_def fits_def of_object_fixed_len_def OF_PACKET_QUEUE_LENGTH_OFFSET_def)

lemma of_list_packet_queue_1_3: "element_ok iter_of_list_packet_queue 4 loci_validate_of_packet_queue_OF_VERSION_1_3"
  by (rule element_framed [where lk = PacketQueueLen, OF loci_validate_of_packet_queue_OF_VERSION_1_3_def loci_validate_of_packet_queue_OF_VERSION_1_3_exact loci_validate_of_packet_queue_OF_VERSION_1_3_ok])
     (simp_all add: iter_of_list_packet_queue_def c_proved instantiable_def fits_def of_object_fixed_len_def OF_PACKET_QUEUE_LENGTH_OFFSET_def)

definition iter_of_list_port_desc :: list_class where
  "iter_of_list_port_desc = \<lparr>elem_base = OF_PORT_DESC, elem_type = None,
     elem_length = Some PortDescLen\<rparr>"

lemma of_list_port_desc_1_0: "element_ok iter_of_list_port_desc 1 loci_validate_of_port_desc_OF_VERSION_1_0"
  by (rule element_fixed [OF loci_validate_of_port_desc_OF_VERSION_1_0_def loci_validate_of_port_desc_OF_VERSION_1_0_ok])
     (simp_all add: iter_of_list_port_desc_def c_proved instantiable_def fits_def of_object_fixed_len_def OF_PACKET_QUEUE_LENGTH_OFFSET_def)

lemma of_list_port_desc_1_1: "element_ok iter_of_list_port_desc 2 loci_validate_of_port_desc_OF_VERSION_1_1"
  by (rule element_fixed [OF loci_validate_of_port_desc_OF_VERSION_1_1_def loci_validate_of_port_desc_OF_VERSION_1_1_ok])
     (simp_all add: iter_of_list_port_desc_def c_proved instantiable_def fits_def of_object_fixed_len_def OF_PACKET_QUEUE_LENGTH_OFFSET_def)

lemma of_list_port_desc_1_2: "element_ok iter_of_list_port_desc 3 loci_validate_of_port_desc_OF_VERSION_1_2"
  by (rule element_fixed [OF loci_validate_of_port_desc_OF_VERSION_1_2_def loci_validate_of_port_desc_OF_VERSION_1_2_ok])
     (simp_all add: iter_of_list_port_desc_def c_proved instantiable_def fits_def of_object_fixed_len_def OF_PACKET_QUEUE_LENGTH_OFFSET_def)

lemma of_list_port_desc_1_3: "element_ok iter_of_list_port_desc 4 loci_validate_of_port_desc_OF_VERSION_1_3"
  by (rule element_fixed [OF loci_validate_of_port_desc_OF_VERSION_1_3_def loci_validate_of_port_desc_OF_VERSION_1_3_ok])
     (simp_all add: iter_of_list_port_desc_def c_proved instantiable_def fits_def of_object_fixed_len_def OF_PACKET_QUEUE_LENGTH_OFFSET_def)

lemma of_list_port_desc_1_4: "element_ok iter_of_list_port_desc 5 loci_validate_of_port_desc_OF_VERSION_1_4"
  by (rule element_framed [where lk = PortDescLen, OF loci_validate_of_port_desc_OF_VERSION_1_4_def loci_validate_of_port_desc_OF_VERSION_1_4_exact loci_validate_of_port_desc_OF_VERSION_1_4_ok])
     (simp_all add: iter_of_list_port_desc_def c_proved instantiable_def fits_def of_object_fixed_len_def OF_PACKET_QUEUE_LENGTH_OFFSET_def)

definition iter_of_list_port_desc_prop :: list_class where
  "iter_of_list_port_desc_prop = \<lparr>elem_base = OF_PORT_DESC_PROP, elem_type = Some of_port_desc_prop_wire_object_id_get,
     elem_length = Some Tlv16Len\<rparr>"

lemma of_list_port_desc_prop_1_4: "element_ok iter_of_list_port_desc_prop 5 loci_validate_of_port_desc_prop_OF_VERSION_1_4"
  by (rule element_framed [where lk = Tlv16Len, OF loci_validate_of_port_desc_prop_OF_VERSION_1_4_def loci_validate_of_port_desc_prop_OF_VERSION_1_4_exact loci_validate_of_port_desc_prop_OF_VERSION_1_4_ok])
     (simp_all add: iter_of_list_port_desc_prop_def c_proved instantiable_def fits_def of_object_fixed_len_def OF_PACKET_QUEUE_LENGTH_OFFSET_def)

definition iter_of_list_port_mod_prop :: list_class where
  "iter_of_list_port_mod_prop = \<lparr>elem_base = OF_PORT_MOD_PROP, elem_type = Some of_port_mod_prop_wire_object_id_get,
     elem_length = Some Tlv16Len\<rparr>"

lemma of_list_port_mod_prop_1_4: "element_ok iter_of_list_port_mod_prop 5 loci_validate_of_port_mod_prop_OF_VERSION_1_4"
  by (rule element_framed [where lk = Tlv16Len, OF loci_validate_of_port_mod_prop_OF_VERSION_1_4_def loci_validate_of_port_mod_prop_OF_VERSION_1_4_exact loci_validate_of_port_mod_prop_OF_VERSION_1_4_ok])
     (simp_all add: iter_of_list_port_mod_prop_def c_proved instantiable_def fits_def of_object_fixed_len_def OF_PACKET_QUEUE_LENGTH_OFFSET_def)

definition iter_of_list_port_stats_entry :: list_class where
  "iter_of_list_port_stats_entry = \<lparr>elem_base = OF_PORT_STATS_ENTRY, elem_type = None,
     elem_length = Some PortStatsLen\<rparr>"

lemma of_list_port_stats_entry_1_0: "element_ok iter_of_list_port_stats_entry 1 loci_validate_of_port_stats_entry_OF_VERSION_1_0"
  by (rule element_fixed [OF loci_validate_of_port_stats_entry_OF_VERSION_1_0_def loci_validate_of_port_stats_entry_OF_VERSION_1_0_ok])
     (simp_all add: iter_of_list_port_stats_entry_def c_proved instantiable_def fits_def of_object_fixed_len_def OF_PACKET_QUEUE_LENGTH_OFFSET_def)

lemma of_list_port_stats_entry_1_1: "element_ok iter_of_list_port_stats_entry 2 loci_validate_of_port_stats_entry_OF_VERSION_1_1"
  by (rule element_fixed [OF loci_validate_of_port_stats_entry_OF_VERSION_1_1_def loci_validate_of_port_stats_entry_OF_VERSION_1_1_ok])
     (simp_all add: iter_of_list_port_stats_entry_def c_proved instantiable_def fits_def of_object_fixed_len_def OF_PACKET_QUEUE_LENGTH_OFFSET_def)

lemma of_list_port_stats_entry_1_2: "element_ok iter_of_list_port_stats_entry 3 loci_validate_of_port_stats_entry_OF_VERSION_1_2"
  by (rule element_fixed [OF loci_validate_of_port_stats_entry_OF_VERSION_1_2_def loci_validate_of_port_stats_entry_OF_VERSION_1_2_ok])
     (simp_all add: iter_of_list_port_stats_entry_def c_proved instantiable_def fits_def of_object_fixed_len_def OF_PACKET_QUEUE_LENGTH_OFFSET_def)

lemma of_list_port_stats_entry_1_3: "element_ok iter_of_list_port_stats_entry 4 loci_validate_of_port_stats_entry_OF_VERSION_1_3"
  by (rule element_fixed [OF loci_validate_of_port_stats_entry_OF_VERSION_1_3_def loci_validate_of_port_stats_entry_OF_VERSION_1_3_ok])
     (simp_all add: iter_of_list_port_stats_entry_def c_proved instantiable_def fits_def of_object_fixed_len_def OF_PACKET_QUEUE_LENGTH_OFFSET_def)

lemma of_list_port_stats_entry_1_4: "element_ok iter_of_list_port_stats_entry 5 loci_validate_of_port_stats_entry_OF_VERSION_1_4"
  by (rule element_framed [where lk = PortStatsLen, OF loci_validate_of_port_stats_entry_OF_VERSION_1_4_def loci_validate_of_port_stats_entry_OF_VERSION_1_4_exact loci_validate_of_port_stats_entry_OF_VERSION_1_4_ok])
     (simp_all add: iter_of_list_port_stats_entry_def c_proved instantiable_def fits_def of_object_fixed_len_def OF_PACKET_QUEUE_LENGTH_OFFSET_def)

definition iter_of_list_port_stats_prop :: list_class where
  "iter_of_list_port_stats_prop = \<lparr>elem_base = OF_PORT_STATS_PROP, elem_type = Some of_port_stats_prop_wire_object_id_get,
     elem_length = Some Tlv16Len\<rparr>"

lemma of_list_port_stats_prop_1_4: "element_ok iter_of_list_port_stats_prop 5 loci_validate_of_port_stats_prop_OF_VERSION_1_4"
  by (rule element_framed [where lk = Tlv16Len, OF loci_validate_of_port_stats_prop_OF_VERSION_1_4_def loci_validate_of_port_stats_prop_OF_VERSION_1_4_exact loci_validate_of_port_stats_prop_OF_VERSION_1_4_ok])
     (simp_all add: iter_of_list_port_stats_prop_def c_proved instantiable_def fits_def of_object_fixed_len_def OF_PACKET_QUEUE_LENGTH_OFFSET_def)

definition iter_of_list_queue_desc :: list_class where
  "iter_of_list_queue_desc = \<lparr>elem_base = OF_QUEUE_DESC, elem_type = None,
     elem_length = Some QueueDescLen\<rparr>"

lemma of_list_queue_desc_1_4: "element_ok iter_of_list_queue_desc 5 loci_validate_of_queue_desc_OF_VERSION_1_4"
  by (rule element_framed [where lk = QueueDescLen, OF loci_validate_of_queue_desc_OF_VERSION_1_4_def loci_validate_of_queue_desc_OF_VERSION_1_4_exact loci_validate_of_queue_desc_OF_VERSION_1_4_ok])
     (simp_all add: iter_of_list_queue_desc_def c_proved instantiable_def fits_def of_object_fixed_len_def OF_PACKET_QUEUE_LENGTH_OFFSET_def)

definition iter_of_list_queue_desc_prop :: list_class where
  "iter_of_list_queue_desc_prop = \<lparr>elem_base = OF_QUEUE_DESC_PROP, elem_type = Some of_queue_desc_prop_wire_object_id_get,
     elem_length = Some Tlv16Len\<rparr>"

lemma of_list_queue_desc_prop_1_4: "element_ok iter_of_list_queue_desc_prop 5 loci_validate_of_queue_desc_prop_OF_VERSION_1_4"
  by (rule element_framed [where lk = Tlv16Len, OF loci_validate_of_queue_desc_prop_OF_VERSION_1_4_def loci_validate_of_queue_desc_prop_OF_VERSION_1_4_exact loci_validate_of_queue_desc_prop_OF_VERSION_1_4_ok])
     (simp_all add: iter_of_list_queue_desc_prop_def c_proved instantiable_def fits_def of_object_fixed_len_def OF_PACKET_QUEUE_LENGTH_OFFSET_def)

definition iter_of_list_queue_prop :: list_class where
  "iter_of_list_queue_prop = \<lparr>elem_base = OF_QUEUE_PROP, elem_type = Some of_queue_prop_wire_object_id_get,
     elem_length = Some Tlv16Len\<rparr>"

lemma of_list_queue_prop_1_0: "element_ok iter_of_list_queue_prop 1 loci_validate_of_queue_prop_OF_VERSION_1_0"
  by (rule element_framed [where lk = Tlv16Len, OF loci_validate_of_queue_prop_OF_VERSION_1_0_def loci_validate_of_queue_prop_OF_VERSION_1_0_exact loci_validate_of_queue_prop_OF_VERSION_1_0_ok])
     (simp_all add: iter_of_list_queue_prop_def c_proved instantiable_def fits_def of_object_fixed_len_def OF_PACKET_QUEUE_LENGTH_OFFSET_def)

lemma of_list_queue_prop_1_1: "element_ok iter_of_list_queue_prop 2 loci_validate_of_queue_prop_OF_VERSION_1_1"
  by (rule element_framed [where lk = Tlv16Len, OF loci_validate_of_queue_prop_OF_VERSION_1_1_def loci_validate_of_queue_prop_OF_VERSION_1_1_exact loci_validate_of_queue_prop_OF_VERSION_1_1_ok])
     (simp_all add: iter_of_list_queue_prop_def c_proved instantiable_def fits_def of_object_fixed_len_def OF_PACKET_QUEUE_LENGTH_OFFSET_def)

lemma of_list_queue_prop_1_2: "element_ok iter_of_list_queue_prop 3 loci_validate_of_queue_prop_OF_VERSION_1_2"
  by (rule element_framed [where lk = Tlv16Len, OF loci_validate_of_queue_prop_OF_VERSION_1_2_def loci_validate_of_queue_prop_OF_VERSION_1_2_exact loci_validate_of_queue_prop_OF_VERSION_1_2_ok])
     (simp_all add: iter_of_list_queue_prop_def c_proved instantiable_def fits_def of_object_fixed_len_def OF_PACKET_QUEUE_LENGTH_OFFSET_def)

lemma of_list_queue_prop_1_3: "element_ok iter_of_list_queue_prop 4 loci_validate_of_queue_prop_OF_VERSION_1_3"
  by (rule element_framed [where lk = Tlv16Len, OF loci_validate_of_queue_prop_OF_VERSION_1_3_def loci_validate_of_queue_prop_OF_VERSION_1_3_exact loci_validate_of_queue_prop_OF_VERSION_1_3_ok])
     (simp_all add: iter_of_list_queue_prop_def c_proved instantiable_def fits_def of_object_fixed_len_def OF_PACKET_QUEUE_LENGTH_OFFSET_def)

lemma of_list_queue_prop_1_4: "element_ok iter_of_list_queue_prop 5 loci_validate_of_queue_prop_OF_VERSION_1_4"
  by (rule element_framed [where lk = Tlv16Len, OF loci_validate_of_queue_prop_OF_VERSION_1_4_def loci_validate_of_queue_prop_OF_VERSION_1_4_exact loci_validate_of_queue_prop_OF_VERSION_1_4_ok])
     (simp_all add: iter_of_list_queue_prop_def c_proved instantiable_def fits_def of_object_fixed_len_def OF_PACKET_QUEUE_LENGTH_OFFSET_def)

definition iter_of_list_queue_stats_entry :: list_class where
  "iter_of_list_queue_stats_entry = \<lparr>elem_base = OF_QUEUE_STATS_ENTRY, elem_type = None,
     elem_length = Some QueueStatsLen\<rparr>"

lemma of_list_queue_stats_entry_1_0: "element_ok iter_of_list_queue_stats_entry 1 loci_validate_of_queue_stats_entry_OF_VERSION_1_0"
  by (rule element_fixed [OF loci_validate_of_queue_stats_entry_OF_VERSION_1_0_def loci_validate_of_queue_stats_entry_OF_VERSION_1_0_ok])
     (simp_all add: iter_of_list_queue_stats_entry_def c_proved instantiable_def fits_def of_object_fixed_len_def OF_PACKET_QUEUE_LENGTH_OFFSET_def)

lemma of_list_queue_stats_entry_1_1: "element_ok iter_of_list_queue_stats_entry 2 loci_validate_of_queue_stats_entry_OF_VERSION_1_1"
  by (rule element_fixed [OF loci_validate_of_queue_stats_entry_OF_VERSION_1_1_def loci_validate_of_queue_stats_entry_OF_VERSION_1_1_ok])
     (simp_all add: iter_of_list_queue_stats_entry_def c_proved instantiable_def fits_def of_object_fixed_len_def OF_PACKET_QUEUE_LENGTH_OFFSET_def)

lemma of_list_queue_stats_entry_1_2: "element_ok iter_of_list_queue_stats_entry 3 loci_validate_of_queue_stats_entry_OF_VERSION_1_2"
  by (rule element_fixed [OF loci_validate_of_queue_stats_entry_OF_VERSION_1_2_def loci_validate_of_queue_stats_entry_OF_VERSION_1_2_ok])
     (simp_all add: iter_of_list_queue_stats_entry_def c_proved instantiable_def fits_def of_object_fixed_len_def OF_PACKET_QUEUE_LENGTH_OFFSET_def)

lemma of_list_queue_stats_entry_1_3: "element_ok iter_of_list_queue_stats_entry 4 loci_validate_of_queue_stats_entry_OF_VERSION_1_3"
  by (rule element_fixed [OF loci_validate_of_queue_stats_entry_OF_VERSION_1_3_def loci_validate_of_queue_stats_entry_OF_VERSION_1_3_ok])
     (simp_all add: iter_of_list_queue_stats_entry_def c_proved instantiable_def fits_def of_object_fixed_len_def OF_PACKET_QUEUE_LENGTH_OFFSET_def)

lemma of_list_queue_stats_entry_1_4: "element_ok iter_of_list_queue_stats_entry 5 loci_validate_of_queue_stats_entry_OF_VERSION_1_4"
  by (rule element_framed [where lk = QueueStatsLen, OF loci_validate_of_queue_stats_entry_OF_VERSION_1_4_def loci_validate_of_queue_stats_entry_OF_VERSION_1_4_exact loci_validate_of_queue_stats_entry_OF_VERSION_1_4_ok])
     (simp_all add: iter_of_list_queue_stats_entry_def c_proved instantiable_def fits_def of_object_fixed_len_def OF_PACKET_QUEUE_LENGTH_OFFSET_def)

definition iter_of_list_queue_stats_prop :: list_class where
  "iter_of_list_queue_stats_prop = \<lparr>elem_base = OF_QUEUE_STATS_PROP, elem_type = Some of_queue_stats_prop_wire_object_id_get,
     elem_length = Some Tlv16Len\<rparr>"

lemma of_list_queue_stats_prop_1_4: "element_ok iter_of_list_queue_stats_prop 5 loci_validate_of_queue_stats_prop_OF_VERSION_1_4"
  by (rule element_framed [where lk = Tlv16Len, OF loci_validate_of_queue_stats_prop_OF_VERSION_1_4_def loci_validate_of_queue_stats_prop_OF_VERSION_1_4_exact loci_validate_of_queue_stats_prop_OF_VERSION_1_4_ok])
     (simp_all add: iter_of_list_queue_stats_prop_def c_proved instantiable_def fits_def of_object_fixed_len_def OF_PACKET_QUEUE_LENGTH_OFFSET_def)

definition iter_of_list_role_prop :: list_class where
  "iter_of_list_role_prop = \<lparr>elem_base = OF_ROLE_PROP, elem_type = Some of_role_prop_wire_object_id_get,
     elem_length = Some Tlv16Len\<rparr>"

lemma of_list_role_prop_1_4: "element_ok iter_of_list_role_prop 5 loci_validate_of_role_prop_OF_VERSION_1_4"
  by (rule element_framed [where lk = Tlv16Len, OF loci_validate_of_role_prop_OF_VERSION_1_4_def loci_validate_of_role_prop_OF_VERSION_1_4_exact loci_validate_of_role_prop_OF_VERSION_1_4_ok])
     (simp_all add: iter_of_list_role_prop_def c_proved instantiable_def fits_def of_object_fixed_len_def OF_PACKET_QUEUE_LENGTH_OFFSET_def)

definition iter_of_list_table_desc :: list_class where
  "iter_of_list_table_desc = \<lparr>elem_base = OF_TABLE_DESC, elem_type = None,
     elem_length = Some U16Len\<rparr>"

lemma of_list_table_desc_1_4: "element_ok iter_of_list_table_desc 5 loci_validate_of_table_desc_OF_VERSION_1_4"
  by (rule element_checked [where lk = U16Len, OF loci_validate_of_table_desc_OF_VERSION_1_4_def loci_validate_of_table_desc_OF_VERSION_1_4_ok])
     (simp_all add: iter_of_list_table_desc_def c_proved instantiable_def fits_def of_object_fixed_len_def OF_PACKET_QUEUE_LENGTH_OFFSET_def)

definition iter_of_list_table_feature_prop :: list_class where
  "iter_of_list_table_feature_prop = \<lparr>elem_base = OF_TABLE_FEATURE_PROP, elem_type = Some of_table_feature_prop_wire_object_id_get,
     elem_length = Some Tlv16Len\<rparr>"

lemma of_list_table_feature_prop_1_3: "element_ok iter_of_list_table_feature_prop 4 loci_validate_of_table_feature_prop_OF_VERSION_1_3"
  by (rule element_framed [where lk = Tlv16Len, OF loci_validate_of_table_feature_prop_OF_VERSION_1_3_def loci_validate_of_table_feature_prop_OF_VERSION_1_3_exact loci_validate_of_table_feature_prop_OF_VERSION_1_3_ok])
     (simp_all add: iter_of_list_table_feature_prop_def c_proved instantiable_def fits_def of_object_fixed_len_def OF_PACKET_QUEUE_LENGTH_OFFSET_def)

lemma of_list_table_feature_prop_1_4: "element_ok iter_of_list_table_feature_prop 5 loci_validate_of_table_feature_prop_OF_VERSION_1_4"
  by (rule element_framed [where lk = Tlv16Len, OF loci_validate_of_table_feature_prop_OF_VERSION_1_4_def loci_validate_of_table_feature_prop_OF_VERSION_1_4_exact loci_validate_of_table_feature_prop_OF_VERSION_1_4_ok])
     (simp_all add: iter_of_list_table_feature_prop_def c_proved instantiable_def fits_def of_object_fixed_len_def OF_PACKET_QUEUE_LENGTH_OFFSET_def)

definition iter_of_list_table_features :: list_class where
  "iter_of_list_table_features = \<lparr>elem_base = OF_TABLE_FEATURES, elem_type = None,
     elem_length = Some U16Len\<rparr>"

lemma of_list_table_features_1_3: "element_ok iter_of_list_table_features 4 loci_validate_of_table_features_OF_VERSION_1_3"
  by (rule element_framed [where lk = U16Len, OF loci_validate_of_table_features_OF_VERSION_1_3_def loci_validate_of_table_features_OF_VERSION_1_3_exact loci_validate_of_table_features_OF_VERSION_1_3_ok])
     (simp_all add: iter_of_list_table_features_def c_proved instantiable_def fits_def of_object_fixed_len_def OF_PACKET_QUEUE_LENGTH_OFFSET_def)

lemma of_list_table_features_1_4: "element_ok iter_of_list_table_features 5 loci_validate_of_table_features_OF_VERSION_1_4"
  by (rule element_framed [where lk = U16Len, OF loci_validate_of_table_features_OF_VERSION_1_4_def loci_validate_of_table_features_OF_VERSION_1_4_exact loci_validate_of_table_features_OF_VERSION_1_4_ok])
     (simp_all add: iter_of_list_table_features_def c_proved instantiable_def fits_def of_object_fixed_len_def OF_PACKET_QUEUE_LENGTH_OFFSET_def)

definition iter_of_list_table_mod_prop :: list_class where
  "iter_of_list_table_mod_prop = \<lparr>elem_base = OF_TABLE_MOD_PROP, elem_type = Some of_table_mod_prop_wire_object_id_get,
     elem_length = Some Tlv16Len\<rparr>"

lemma of_list_table_mod_prop_1_4: "element_ok iter_of_list_table_mod_prop 5 loci_validate_of_table_mod_prop_OF_VERSION_1_4"
  by (rule element_framed [where lk = Tlv16Len, OF loci_validate_of_table_mod_prop_OF_VERSION_1_4_def loci_validate_of_table_mod_prop_OF_VERSION_1_4_exact loci_validate_of_table_mod_prop_OF_VERSION_1_4_ok])
     (simp_all add: iter_of_list_table_mod_prop_def c_proved instantiable_def fits_def of_object_fixed_len_def OF_PACKET_QUEUE_LENGTH_OFFSET_def)

definition iter_of_list_table_stats_entry :: list_class where
  "iter_of_list_table_stats_entry = \<lparr>elem_base = OF_TABLE_STATS_ENTRY, elem_type = None,
     elem_length = None\<rparr>"

lemma of_list_table_stats_entry_1_0: "element_ok iter_of_list_table_stats_entry 1 loci_validate_of_table_stats_entry_OF_VERSION_1_0"
  by (rule element_fixed [OF loci_validate_of_table_stats_entry_OF_VERSION_1_0_def loci_validate_of_table_stats_entry_OF_VERSION_1_0_ok])
     (simp_all add: iter_of_list_table_stats_entry_def c_proved instantiable_def fits_def of_object_fixed_len_def OF_PACKET_QUEUE_LENGTH_OFFSET_def)

lemma of_list_table_stats_entry_1_1: "element_ok iter_of_list_table_stats_entry 2 loci_validate_of_table_stats_entry_OF_VERSION_1_1"
  by (rule element_fixed [OF loci_validate_of_table_stats_entry_OF_VERSION_1_1_def loci_validate_of_table_stats_entry_OF_VERSION_1_1_ok])
     (simp_all add: iter_of_list_table_stats_entry_def c_proved instantiable_def fits_def of_object_fixed_len_def OF_PACKET_QUEUE_LENGTH_OFFSET_def)

lemma of_list_table_stats_entry_1_2: "element_ok iter_of_list_table_stats_entry 3 loci_validate_of_table_stats_entry_OF_VERSION_1_2"
  by (rule element_fixed [OF loci_validate_of_table_stats_entry_OF_VERSION_1_2_def loci_validate_of_table_stats_entry_OF_VERSION_1_2_ok])
     (simp_all add: iter_of_list_table_stats_entry_def c_proved instantiable_def fits_def of_object_fixed_len_def OF_PACKET_QUEUE_LENGTH_OFFSET_def)

lemma of_list_table_stats_entry_1_3: "element_ok iter_of_list_table_stats_entry 4 loci_validate_of_table_stats_entry_OF_VERSION_1_3"
  by (rule element_fixed [OF loci_validate_of_table_stats_entry_OF_VERSION_1_3_def loci_validate_of_table_stats_entry_OF_VERSION_1_3_ok])
     (simp_all add: iter_of_list_table_stats_entry_def c_proved instantiable_def fits_def of_object_fixed_len_def OF_PACKET_QUEUE_LENGTH_OFFSET_def)

lemma of_list_table_stats_entry_1_4: "element_ok iter_of_list_table_stats_entry 5 loci_validate_of_table_stats_entry_OF_VERSION_1_4"
  by (rule element_fixed [OF loci_validate_of_table_stats_entry_OF_VERSION_1_4_def loci_validate_of_table_stats_entry_OF_VERSION_1_4_ok])
     (simp_all add: iter_of_list_table_stats_entry_def c_proved instantiable_def fits_def of_object_fixed_len_def OF_PACKET_QUEUE_LENGTH_OFFSET_def)

definition iter_of_list_uint32 :: list_class where
  "iter_of_list_uint32 = \<lparr>elem_base = OF_UINT32, elem_type = None,
     elem_length = None\<rparr>"

lemma of_list_uint32_1_3: "element_ok iter_of_list_uint32 4 loci_validate_of_uint32_OF_VERSION_1_3"
  by (rule element_fixed [OF loci_validate_of_uint32_OF_VERSION_1_3_def loci_validate_of_uint32_OF_VERSION_1_3_ok])
     (simp_all add: iter_of_list_uint32_def c_proved instantiable_def fits_def of_object_fixed_len_def OF_PACKET_QUEUE_LENGTH_OFFSET_def)

lemma of_list_uint32_1_4: "element_ok iter_of_list_uint32 5 loci_validate_of_uint32_OF_VERSION_1_4"
  by (rule element_fixed [OF loci_validate_of_uint32_OF_VERSION_1_4_def loci_validate_of_uint32_OF_VERSION_1_4_ok])
     (simp_all add: iter_of_list_uint32_def c_proved instantiable_def fits_def of_object_fixed_len_def OF_PACKET_QUEUE_LENGTH_OFFSET_def)

definition iter_of_list_uint64 :: list_class where
  "iter_of_list_uint64 = \<lparr>elem_base = OF_UINT64, elem_type = None,
     elem_length = None\<rparr>"

lemma of_list_uint64_1_3: "element_ok iter_of_list_uint64 4 loci_validate_of_uint64_OF_VERSION_1_3"
  by (rule element_fixed [OF loci_validate_of_uint64_OF_VERSION_1_3_def loci_validate_of_uint64_OF_VERSION_1_3_ok])
     (simp_all add: iter_of_list_uint64_def c_proved instantiable_def fits_def of_object_fixed_len_def OF_PACKET_QUEUE_LENGTH_OFFSET_def)

lemma of_list_uint64_1_4: "element_ok iter_of_list_uint64 5 loci_validate_of_uint64_OF_VERSION_1_4"
  by (rule element_fixed [OF loci_validate_of_uint64_OF_VERSION_1_4_def loci_validate_of_uint64_OF_VERSION_1_4_ok])
     (simp_all add: iter_of_list_uint64_def c_proved instantiable_def fits_def of_object_fixed_len_def OF_PACKET_QUEUE_LENGTH_OFFSET_def)

definition iter_of_list_uint8 :: list_class where
  "iter_of_list_uint8 = \<lparr>elem_base = OF_UINT8, elem_type = None,
     elem_length = None\<rparr>"

lemma of_list_uint8_1_3: "element_ok iter_of_list_uint8 4 loci_validate_of_uint8_OF_VERSION_1_3"
  by (rule element_fixed [OF loci_validate_of_uint8_OF_VERSION_1_3_def loci_validate_of_uint8_OF_VERSION_1_3_ok])
     (simp_all add: iter_of_list_uint8_def c_proved instantiable_def fits_def of_object_fixed_len_def OF_PACKET_QUEUE_LENGTH_OFFSET_def)

lemma of_list_uint8_1_4: "element_ok iter_of_list_uint8 5 loci_validate_of_uint8_OF_VERSION_1_4"
  by (rule element_fixed [OF loci_validate_of_uint8_OF_VERSION_1_4_def loci_validate_of_uint8_OF_VERSION_1_4_ok])
     (simp_all add: iter_of_list_uint8_def c_proved instantiable_def fits_def of_object_fixed_len_def OF_PACKET_QUEUE_LENGTH_OFFSET_def)

text \<open>The lists with the version and the validator of their elements.\<close>

definition all_lists :: "(list_class \<times> int \<times> validator) list" where
  "all_lists = [
    (iter_of_list_action, 1, loci_validate_of_action_OF_VERSION_1_0),
    (iter_of_list_action, 2, loci_validate_of_action_OF_VERSION_1_1),
    (iter_of_list_action, 3, loci_validate_of_action_OF_VERSION_1_2),
    (iter_of_list_action, 4, loci_validate_of_action_OF_VERSION_1_3),
    (iter_of_list_action, 5, loci_validate_of_action_OF_VERSION_1_4),
    (iter_of_list_action_id, 4, loci_validate_of_action_id_OF_VERSION_1_3),
    (iter_of_list_action_id, 5, loci_validate_of_action_id_OF_VERSION_1_4),
    (iter_of_list_async_config_prop, 5, loci_validate_of_async_config_prop_OF_VERSION_1_4),
    (iter_of_list_bsn_controller_connection, 4, loci_validate_of_bsn_controller_connection_OF_VERSION_1_3),
    (iter_of_list_bsn_controller_connection, 5, loci_validate_of_bsn_controller_connection_OF_VERSION_1_4),
    (iter_of_list_bsn_debug_counter_desc_stats_entry, 4, loci_validate_of_bsn_debug_counter_desc_stats_entry_OF_VERSION_1_3),
    (iter_of_list_bsn_debug_counter_desc_stats_entry, 5, loci_validate_of_bsn_debug_counter_desc_stats_entry_OF_VERSION_1_4),
    (iter_of_list_bsn_debug_counter_stats_entry, 4, loci_validate_of_bsn_debug_counter_stats_entry_OF_VERSION_1_3),
    (iter_of_list_bsn_debug_counter_stats_entry, 5, loci_validate_of_bsn_debug_counter_stats_entry_OF_VERSION_1_4),
    (iter_of_list_bsn_flow_checksum_bucket_stats_entry, 4, loci_validate_of_bsn_flow_checksum_bucket_stats_entry_OF_VERSION_1_3),
    (iter_of_list_bsn_flow_checksum_bucket_stats_entry, 5, loci_validate_of_bsn_flow_checksum_bucket_stats_entry_OF_VERSION_1_4),
    (iter_of_list_bsn_generic_stats_entry, 4, loci_validate_of_bsn_generic_stats_entry_OF_VERSION_1_3),
    (iter_of_list_bsn_generic_stats_entry, 5, loci_validate_of_bsn_generic_stats_entry_OF_VERSION_1_4),
    (iter_of_list_bsn_gentable_bucket_stats_entry, 4, loci_validate_of_bsn_gentable_bucket_stats_entry_OF_VERSION_1_3),
    (iter_of_list_bsn_gentable_bucket_stats_entry, 5, loci_validate_of_bsn_gentable_bucket_stats_entry_OF_VERSION_1_4),
    (iter_of_list_bsn_gentable_desc_stats_entry, 4, loci_validate_of_bsn_gentable_desc_stats_entry_OF_VERSION_1_3),
    (iter_of_list_bsn_gentable_desc_stats_entry, 5, loci_validate_of_bsn_gentable_desc_stats_entry_OF_VERSION_1_4),
    (iter_of_list_bsn_gentable_entry_desc_stats_entry, 4, loci_validate_of_bsn_gentable_entry_desc_stats_entry_OF_VERSION_1_3),
    (iter_of_list_bsn_gentable_entry_desc_stats_entry, 5, loci_validate_of_bsn_gentable_entry_desc_stats_entry_OF_VERSION_1_4),
    (iter_of_list_bsn_gentable_entry_stats_entry, 4, loci_validate_of_bsn_gentable_entry_stats_entry_OF_VERSION_1_3),
    (iter_of_list_bsn_gentable_entry_stats_entry, 5, loci_validate_of_bsn_gentable_entry_stats_entry_OF_VERSION_1_4),
    (iter_of_list_bsn_gentable_stats_entry, 4, loci_validate_of_bsn_gentable_stats_entry_OF_VERSION_1_3),
    (iter_of_list_bsn_gentable_stats_entry, 5, loci_validate_of_bsn_gentable_stats_entry_OF_VERSION_1_4),
    (iter_of_list_bsn_interface, 1, loci_validate_of_bsn_interface_OF_VERSION_1_0),
    (iter_of_list_bsn_interface, 2, loci_validate_of_bsn_interface_OF_VERSION_1_1),
    (iter_of_list_bsn_interface, 3, loci_validate_of_bsn_interface_OF_VERSION_1_2),
    (iter_of_list_bsn_interface, 4, loci_validate_of_bsn_interface_OF_VERSION_1_3),
    (iter_of_list_bsn_interface, 5, loci_validate_of_bsn_interface_OF_VERSION_1_4),
    (iter_of_list_bsn_lacp_stats_entry, 4, loci_validate_of_bsn_lacp_stats_entry_OF_VERSION_1_3),
    (iter_of_list_bsn_lacp_stats_entry, 5, loci_validate_of_bsn_lacp_stats_entry_OF_VERSION_1_4),
    (iter_of_list_bsn_port_counter_stats_entry, 4, loci_validate_of_bsn_port_counter_stats_entry_OF_VERSION_1_3),
    (iter_of_list_bsn_port_counter_stats_entry, 5, loci_validate_of_bsn_port_counter_stats_entry_OF_VERSION_1_4),
    (iter_of_list_bsn_switch_pipeline_stats_entry, 4, loci_validate_of_bsn_switch_pipeline_stats_entry_OF_VERSION_1_3),
    (iter_of_list_bsn_switch_pipeline_stats_entry, 5, loci_validate_of_bsn_switch_pipeline_stats_entry_OF_VERSION_1_4),
    (iter_of_list_bsn_table_checksum_stats_entry, 4, loci_validate_of_bsn_table_checksum_stats_entry_OF_VERSION_1_3),
    (iter_of_list_bsn_table_checksum_stats_entry, 5, loci_validate_of_bsn_table_checksum_stats_entry_OF_VERSION_1_4),
    (iter_of_list_bsn_tlv, 4, loci_validate_of_bsn_tlv_OF_VERSION_1_3),
    (iter_of_list_bsn_tlv, 5, loci_validate_of_bsn_tlv_OF_VERSION_1_4),
    (iter_of_list_bsn_vlan_counter_stats_entry, 4, loci_validate_of_bsn_vlan_counter_stats_entry_OF_VERSION_1_3),
    (iter_of_list_bsn_vlan_counter_stats_entry, 5, loci_validate_of_bsn_vlan_counter_stats_entry_OF_VERSION_1_4),
    (iter_of_list_bsn_vrf_counter_stats_entry, 4, loci_validate_of_bsn_vrf_counter_stats_entry_OF_VERSION_1_3),
    (iter_of_list_bsn_vrf_counter_stats_entry, 5, loci_validate_of_bsn_vrf_counter_stats_entry_OF_VERSION_1_4),
    (iter_of_list_bucket, 2, loci_validate_of_bucket_OF_VERSION_1_1),
    (iter_of_list_bucket, 3, loci_validate_of_bucket_OF_VERSION_1_2),
    (iter_of_list_bucket, 4, loci_validate_of_bucket_OF_VERSION_1_3),
    (iter_of_list_bucket, 5, loci_validate_of_bucket_OF_VERSION_1_4),
    (iter_of_list_bucket_counter, 2, loci_validate_of_bucket_counter_OF_VERSION_1_1),
    (iter_of_list_bucket_counter, 3, loci_validate_of_bucket_counter_OF_VERSION_1_2),
    (iter_of_list_bucket_counter, 4, loci_validate_of_bucket_counter_OF_VERSION_1_3),
    (iter_of_list_bucket_counter, 5, loci_validate_of_bucket_counter_OF_VERSION_1_4),
    (iter_of_list_bundle_prop, 5, loci_validate_of_bundle_prop_OF_VERSION_1_4),
    (iter_of_list_flow_stats_entry, 1, loci_validate_of_flow_stats_entry_OF_VERSION_1_0),
    (iter_of_list_flow_stats_entry, 2, loci_validate_of_flow_stats_entry_OF_VERSION_1_1),
    (iter_of_list_flow_stats_entry, 3, loci_validate_of_flow_stats_entry_OF_VERSION_1_2),
    (iter_of_list_flow_stats_entry, 4, loci_validate_of_flow_stats_entry_OF_VERSION_1_3),
    (iter_of_list_flow_stats_entry, 5, loci_validate_of_flow_stats_entry_OF_VERSION_1_4),
    (iter_of_list_group_desc_stats_entry, 2, loci_validate_of_group_desc_stats_entry_OF_VERSION_1_1),
    (iter_of_list_group_desc_stats_entry, 3, loci_validate_of_group_desc_stats_entry_OF_VERSION_1_2),
    (iter_of_list_group_desc_stats_entry, 4, loci_validate_of_group_desc_stats_entry_OF_VERSION_1_3),
    (iter_of_list_group_desc_stats_entry, 5, loci_validate_of_group_desc_stats_entry_OF_VERSION_1_4),
    (iter_of_list_group_stats_entry, 2, loci_validate_of_group_stats_entry_OF_VERSION_1_1),
    (iter_of_list_group_stats_entry, 3, loci_validate_of_group_stats_entry_OF_VERSION_1_2),
    (iter_of_list_group_stats_entry, 4, loci_validate_of_group_stats_entry_OF_VERSION_1_3),
    (iter_of_list_group_stats_entry, 5, loci_validate_of_group_stats_entry_OF_VERSION_1_4),
    (iter_of_list_hello_elem, 4, loci_validate_of_hello_elem_OF_VERSION_1_3),
    (iter_of_list_hello_elem, 5, loci_validate_of_hello_elem_OF_VERSION_1_4),
    (iter_of_list_instruction, 2, loci_validate_of_instruction_OF_VERSION_1_1),
    (iter_of_list_instruction, 3, loci_validate_of_instruction_OF_VERSION_1_2),
    (iter_of_list_instruction, 4, loci_validate_of_instruction_OF_VERSION_1_3),
    (iter_of_list_instruction, 5, loci_validate_of_instruction_OF_VERSION_1_4),
    (iter_of_list_instruction_id, 4, loci_validate_of_instruction_id_OF_VERSION_1_3),
    (iter_of_list_instruction_id, 5, loci_validate_of_instruction_id_OF_VERSION_1_4),
    (iter_of_list_meter_band, 4, loci_validate_of_meter_band_OF_VERSION_1_3),
    (iter_of_list_meter_band, 5, loci_validate_of_meter_band_OF_VERSION_1_4),
    (iter_of_list_meter_band_stats, 4, loci_validate_of_meter_band_stats_OF_VERSION_1_3),
    (iter_of_list_meter_band_stats, 5, loci_validate_of_meter_band_stats_OF_VERSION_1_4),
    (iter_of_list_meter_stats, 4, loci_validate_of_meter_stats_OF_VERSION_1_3),
    (iter_of_list_meter_stats, 5, loci_validate_of_meter_stats_OF_VERSION_1_4),
    (iter_of_list_packet_queue, 1, loci_validate_of_packet_queue_OF_VERSION_1_0),
    (iter_of_list_packet_queue, 2, loci_validate_of_packet_queue_OF_VERSION_1_1),
    (iter_of_list_packet_queue, 3, loci_validate_of_packet_queue_OF_VERSION_1_2),
    (iter_of_list_packet_queue, 4, loci_validate_of_packet_queue_OF_VERSION_1_3),
    (iter_of_list_port_desc, 1, loci_validate_of_port_desc_OF_VERSION_1_0),
    (iter_of_list_port_desc, 2, loci_validate_of_port_desc_OF_VERSION_1_1),
    (iter_of_list_port_desc, 3, loci_validate_of_port_desc_OF_VERSION_1_2),
    (iter_of_list_port_desc, 4, loci_validate_of_port_desc_OF_VERSION_1_3),
    (iter_of_list_port_desc, 5, loci_validate_of_port_desc_OF_VERSION_1_4),
    (iter_of_list_port_desc_prop, 5, loci_validate_of_port_desc_prop_OF_VERSION_1_4),
    (iter_of_list_port_mod_prop, 5, loci_validate_of_port_mod_prop_OF_VERSION_1_4),
    (iter_of_list_port_stats_entry, 1, loci_validate_of_port_stats_entry_OF_VERSION_1_0),
    (iter_of_list_port_stats_entry, 2, loci_validate_of_port_stats_entry_OF_VERSION_1_1),
    (iter_of_list_port_stats_entry, 3, loci_validate_of_port_stats_entry_OF_VERSION_1_2),
    (iter_of_list_port_stats_entry, 4, loci_validate_of_port_stats_entry_OF_VERSION_1_3),
    (iter_of_list_port_stats_entry, 5, loci_validate_of_port_stats_entry_OF_VERSION_1_4),
    (iter_of_list_port_stats_prop, 5, loci_validate_of_port_stats_prop_OF_VERSION_1_4),
    (iter_of_list_queue_desc, 5, loci_validate_of_queue_desc_OF_VERSION_1_4),
    (iter_of_list_queue_desc_prop, 5, loci_validate_of_queue_desc_prop_OF_VERSION_1_4),
    (iter_of_list_queue_prop, 1, loci_validate_of_queue_prop_OF_VERSION_1_0),
    (iter_of_list_queue_prop, 2, loci_validate_of_queue_prop_OF_VERSION_1_1),
    (iter_of_list_queue_prop, 3, loci_validate_of_queue_prop_OF_VERSION_1_2),
    (iter_of_list_queue_prop, 4, loci_validate_of_queue_prop_OF_VERSION_1_3),
    (iter_of_list_queue_prop, 5, loci_validate_of_queue_prop_OF_VERSION_1_4),
    (iter_of_list_queue_stats_entry, 1, loci_validate_of_queue_stats_entry_OF_VERSION_1_0),
    (iter_of_list_queue_stats_entry, 2, loci_validate_of_queue_stats_entry_OF_VERSION_1_1),
    (iter_of_list_queue_stats_entry, 3, loci_validate_of_queue_stats_entry_OF_VERSION_1_2),
    (iter_of_list_queue_stats_entry, 4, loci_validate_of_queue_stats_entry_OF_VERSION_1_3),
    (iter_of_list_queue_stats_entry, 5, loci_validate_of_queue_stats_entry_OF_VERSION_1_4),
    (iter_of_list_queue_stats_prop, 5, loci_validate_of_queue_stats_prop_OF_VERSION_1_4),
    (iter_of_list_role_prop, 5, loci_validate_of_role_prop_OF_VERSION_1_4),
    (iter_of_list_table_desc, 5, loci_validate_of_table_desc_OF_VERSION_1_4),
    (iter_of_list_table_feature_prop, 4, loci_validate_of_table_feature_prop_OF_VERSION_1_3),
    (iter_of_list_table_feature_prop, 5, loci_validate_of_table_feature_prop_OF_VERSION_1_4),
    (iter_of_list_table_features, 4, loci_validate_of_table_features_OF_VERSION_1_3),
    (iter_of_list_table_features, 5, loci_validate_of_table_features_OF_VERSION_1_4),
    (iter_of_list_table_mod_prop, 5, loci_validate_of_table_mod_prop_OF_VERSION_1_4),
    (iter_of_list_table_stats_entry, 1, loci_validate_of_table_stats_entry_OF_VERSION_1_0),
    (iter_of_list_table_stats_entry, 2, loci_validate_of_table_stats_entry_OF_VERSION_1_1),
    (iter_of_list_table_stats_entry, 3, loci_validate_of_table_stats_entry_OF_VERSION_1_2),
    (iter_of_list_table_stats_entry, 4, loci_validate_of_table_stats_entry_OF_VERSION_1_3),
    (iter_of_list_table_stats_entry, 5, loci_validate_of_table_stats_entry_OF_VERSION_1_4),
    (iter_of_list_uint32, 4, loci_validate_of_uint32_OF_VERSION_1_3),
    (iter_of_list_uint32, 5, loci_validate_of_uint32_OF_VERSION_1_4),
    (iter_of_list_uint64, 4, loci_validate_of_uint64_OF_VERSION_1_3),
    (iter_of_list_uint64, 5, loci_validate_of_uint64_OF_VERSION_1_4),
    (iter_of_list_uint8, 4, loci_validate_of_uint8_OF_VERSION_1_3),
    (iter_of_list_uint8, 5, loci_validate_of_uint8_OF_VERSION_1_4)]"

lemma all_lists_ok: "list_all (\<lambda>(lc, ver, elem). element_ok lc ver elem) all_lists"
  unfolding all_lists_def
  by (simp add:
    of_list_action_1_0
    of_list_action_1_1
    of_list_action_1_2
    of_list_action_1_3
    of_list_action_1_4
    of_list_action_id_1_3
    of_list_action_id_1_4
    of_list_async_config_prop_1_4
    of_list_bsn_controller_connection_1_3
    of_list_bsn_controller_connection_1_4
    of_list_bsn_debug_counter_desc_stats_entry_1_3
    of_list_bsn_debug_counter_desc_stats_entry_1_4
    of_list_bsn_debug_counter_stats_entry_1_3
    of_list_bsn_debug_counter_stats_entry_1_4
    of_list_bsn_flow_checksum_bucket_stats_entry_1_3
    of_list_bsn_flow_checksum_bucket_stats_entry_1_4
    of_list_bsn_generic_stats_entry_1_3
    of_list_bsn_generic_stats_entry_1_4
    of_list_bsn_gentable_bucket_stats_entry_1_3
    of_list_bsn_gentable_bucket_stats_entry_1_4
    of_list_bsn_gentable_desc_stats_entry_1_3
    of_list_bsn_gentable_desc_stats_entry_1_4
    of_list_bsn_gentable_entry_desc_stats_entry_1_3
    of_list_bsn_gentable_entry_desc_stats_entry_1_4
    of_list_bsn_gentable_entry_stats_entry_1_3
    of_list_bsn_gentable_entry_stats_entry_1_4
    of_list_bsn_gentable_stats_entry_1_3
    of_list_bsn_gentable_stats_entry_1_4
    of_list_bsn_interface_1_0
    of_list_bsn_interface_1_1
    of_list_bsn_interface_1_2
    of_list_bsn_interface_1_3
    of_list_bsn_interface_1_4
    of_list_bsn_lacp_stats_entry_1_3
    of_list_bsn_lacp_stats_entry_1_4
    of_list_bsn_port_counter_stats_entry_1_3
    of_list_bsn_port_counter_stats_entry_1_4
    of_list_bsn_switch_pipeline_stats_entry_1_3
    of_list_bsn_switch_pipeline_stats_entry_1_4
    of_list_bsn_table_checksum_stats_entry_1_3
    of_list_bsn_table_checksum_stats_entry_1_4
    of_list_bsn_tlv_1_3
    of_list_bsn_tlv_1_4
    of_list_bsn_vlan_counter_stats_entry_1_3
    of_list_bsn_vlan_counter_stats_entry_1_4
    of_list_bsn_vrf_counter_stats_entry_1_3
    of_list_bsn_vrf_counter_stats_entry_1_4
    of_list_bucket_1_1
    of_list_bucket_1_2
    of_list_bucket_1_3
    of_list_bucket_1_4
    of_list_bucket_counter_1_1
    of_list_bucket_counter_1_2
    of_list_bucket_counter_1_3
    of_list_bucket_counter_1_4
    of_list_bundle_prop_1_4
    of_list_flow_stats_entry_1_0
    of_list_flow_stats_entry_1_1
    of_list_flow_stats_entry_1_2
    of_list_flow_stats_entry_1_3
    of_list_flow_stats_entry_1_4
    of_list_group_desc_stats_entry_1_1
    of_list_group_desc_stats_entry_1_2
    of_list_group_desc_stats_entry_1_3
    of_list_group_desc_stats_entry_1_4
    of_list_group_stats_entry_1_1
    of_list_group_stats_entry_1_2
    of_list_group_stats_entry_1_3
    of_list_group_stats_entry_1_4
    of_list_hello_elem_1_3
    of_list_hello_elem_1_4
    of_list_instruction_1_1
    of_list_instruction_1_2
    of_list_instruction_1_3
    of_list_instruction_1_4
    of_list_instruction_id_1_3
    of_list_instruction_id_1_4
    of_list_meter_band_1_3
    of_list_meter_band_1_4
    of_list_meter_band_stats_1_3
    of_list_meter_band_stats_1_4
    of_list_meter_stats_1_3
    of_list_meter_stats_1_4
    of_list_packet_queue_1_0
    of_list_packet_queue_1_1
    of_list_packet_queue_1_2
    of_list_packet_queue_1_3
    of_list_port_desc_1_0
    of_list_port_desc_1_1
    of_list_port_desc_1_2
    of_list_port_desc_1_3
    of_list_port_desc_1_4
    of_list_port_desc_prop_1_4
    of_list_port_mod_prop_1_4
    of_list_port_stats_entry_1_0
    of_list_port_stats_entry_1_1
    of_list_port_stats_entry_1_2
    of_list_port_stats_entry_1_3
    of_list_port_stats_entry_1_4
    of_list_port_stats_prop_1_4
    of_list_queue_desc_1_4
    of_list_queue_desc_prop_1_4
    of_list_queue_prop_1_0
    of_list_queue_prop_1_1
    of_list_queue_prop_1_2
    of_list_queue_prop_1_3
    of_list_queue_prop_1_4
    of_list_queue_stats_entry_1_0
    of_list_queue_stats_entry_1_1
    of_list_queue_stats_entry_1_2
    of_list_queue_stats_entry_1_3
    of_list_queue_stats_entry_1_4
    of_list_queue_stats_prop_1_4
    of_list_role_prop_1_4
    of_list_table_desc_1_4
    of_list_table_feature_prop_1_3
    of_list_table_feature_prop_1_4
    of_list_table_features_1_3
    of_list_table_features_1_4
    of_list_table_mod_prop_1_4
    of_list_table_stats_entry_1_0
    of_list_table_stats_entry_1_1
    of_list_table_stats_entry_1_2
    of_list_table_stats_entry_1_3
    of_list_table_stats_entry_1_4
    of_list_uint32_1_3
    of_list_uint32_1_4
    of_list_uint64_1_3
    of_list_uint64_1_4
    of_list_uint8_1_3
    of_list_uint8_1_4)

end
