(* ===== verification/Metadata.thy ===== *)
theory Metadata
  imports ListClasses Constructors
begin

text \<open>
  The table \<^verbatim>\<open>src/loci_class_metadata.c\<close>: for each class the functions that read and write an object's length and
  type on the wire, and the dispatch through it (\<^verbatim>\<open>inc/loci/loci_class_metadata.h\<close>). A pointer to a length function is the
  \<open>length_kind\<close> it is of, one to a type getter the getter, and one to \<open>of_X_push_wire_types\<close> the wire types of the class.
\<close>

record metadata =
  wire_length_getter :: "length_kind option"
  wire_length_setter :: "length_kind option"
  wire_type_getter :: "(int \<Rightarrow> getter) option"
  wire_type_setter :: "(int \<times> wire_type list) list option"

abbreviation (input) row :: "int \<Rightarrow> length_kind option \<Rightarrow> length_kind option \<Rightarrow> (int \<Rightarrow> getter) option \<Rightarrow>
    (int \<times> wire_type list) list option \<Rightarrow> int \<times> metadata" where
  "row i lg ls tg ts \<equiv> (i, \<lparr>wire_length_getter = lg, wire_length_setter = ls, wire_type_getter = tg, wire_type_setter = ts\<rparr>)"

definition metadata_rows_00 :: "(int \<times> metadata) list" where
  "metadata_rows_00 =
    [row OF_ACTION (Some Tlv16Len) (Some Tlv16Len) (Some of_action_wire_object_id_get) None,
     row OF_ACTION_EXPERIMENTER (Some Tlv16Len) (Some Tlv16Len) (Some of_action_wire_object_id_get) None,
     row OF_ACTION_BSN (Some Tlv16Len) (Some Tlv16Len) (Some of_action_wire_object_id_get) None,
     row OF_ACTION_BSN_CHECKSUM (Some Tlv16Len) (Some Tlv16Len) (Some of_action_wire_object_id_get) (wire_types of_action_bsn_checksum_class),
     row OF_ACTION_BSN_MIRROR (Some Tlv16Len) (Some Tlv16Len) (Some of_action_wire_object_id_get) (wire_types of_action_bsn_mirror_class),
     row OF_ACTION_BSN_SET_TUNNEL_DST (Some Tlv16Len) (Some Tlv16Len) (Some of_action_wire_object_id_get) (wire_types of_action_bsn_set_tunnel_dst_class),
     row OF_ACTION_ENQUEUE (Some Tlv16Len) (Some Tlv16Len) (Some of_action_wire_object_id_get) (wire_types of_action_enqueue_class),
     row OF_ACTION_NICIRA (Some Tlv16Len) (Some Tlv16Len) (Some of_action_wire_object_id_get) None,
     row OF_ACTION_NICIRA_DEC_TTL (Some Tlv16Len) (Some Tlv16Len) (Some of_action_wire_object_id_get) (wire_types of_action_nicira_dec_ttl_class),
     row OF_ACTION_OUTPUT (Some Tlv16Len) (Some Tlv16Len) (Some of_action_wire_object_id_get) (wire_types of_action_output_class),
     row OF_ACTION_SET_DL_DST (Some Tlv16Len) (Some Tlv16Len) (Some of_action_wire_object_id_get) (wire_types of_action_set_dl_dst_class),
     row OF_ACTION_SET_DL_SRC (Some Tlv16Len) (Some Tlv16Len) (Some of_action_wire_object_id_get) (wire_types of_action_set_dl_src_class),
     row OF_ACTION_SET_NW_DST (Some Tlv16Len) (Some Tlv16Len) (Some of_action_wire_object_id_get) (wire_types of_action_set_nw_dst_class),
     row OF_ACTION_SET_NW_SRC (Some Tlv16Len) (Some Tlv16Len) (Some of_action_wire_object_id_get) (wire_types of_action_set_nw_src_class),
     row OF_ACTION_SET_NW_TOS (Some Tlv16Len) (Some Tlv16Len) (Some of_action_wire_object_id_get) (wire_types of_action_set_nw_tos_class),
     row OF_ACTION_SET_TP_DST (Some Tlv16Len) (Some Tlv16Len) (Some of_action_wire_object_id_get) (wire_types of_action_set_tp_dst_class),
     row OF_ACTION_SET_TP_SRC (Some Tlv16Len) (Some Tlv16Len) (Some of_action_wire_object_id_get) (wire_types of_action_set_tp_src_class),
     row OF_ACTION_SET_VLAN_PCP (Some Tlv16Len) (Some Tlv16Len) (Some of_action_wire_object_id_get) (wire_types of_action_set_vlan_pcp_class),
     row OF_ACTION_SET_VLAN_VID (Some Tlv16Len) (Some Tlv16Len) (Some of_action_wire_object_id_get) (wire_types of_action_set_vlan_vid_class),
     row OF_ACTION_STRIP_VLAN (Some Tlv16Len) (Some Tlv16Len) (Some of_action_wire_object_id_get) (wire_types of_action_strip_vlan_class),
     row OF_HEADER (Some MessageLen) (Some MessageLen) None None,
     row OF_STATS_REPLY (Some MessageLen) (Some MessageLen) None None,
     row OF_AGGREGATE_STATS_REPLY (Some MessageLen) (Some MessageLen) None (wire_types of_aggregate_stats_reply_class),
     row OF_STATS_REQUEST (Some MessageLen) (Some MessageLen) None None]"

definition metadata_rows_01 :: "(int \<times> metadata) list" where
  "metadata_rows_01 =
    [row OF_AGGREGATE_STATS_REQUEST (Some MessageLen) (Some MessageLen) None (wire_types of_aggregate_stats_request_class),
     row OF_ERROR_MSG (Some MessageLen) (Some MessageLen) None None,
     row OF_BAD_ACTION_ERROR_MSG (Some MessageLen) (Some MessageLen) None (wire_types of_bad_action_error_msg_class),
     row OF_BAD_REQUEST_ERROR_MSG (Some MessageLen) (Some MessageLen) None (wire_types of_bad_request_error_msg_class),
     row OF_BARRIER_REPLY (Some MessageLen) (Some MessageLen) None (wire_types of_barrier_reply_class),
     row OF_BARRIER_REQUEST (Some MessageLen) (Some MessageLen) None (wire_types of_barrier_request_class),
     row OF_EXPERIMENTER (Some MessageLen) (Some MessageLen) None None,
     row OF_BSN_HEADER (Some MessageLen) (Some MessageLen) None None,
     row OF_BSN_BW_CLEAR_DATA_REPLY (Some MessageLen) (Some MessageLen) None (wire_types of_bsn_bw_clear_data_reply_class),
     row OF_BSN_BW_CLEAR_DATA_REQUEST (Some MessageLen) (Some MessageLen) None (wire_types of_bsn_bw_clear_data_request_class),
     row OF_BSN_BW_ENABLE_GET_REPLY (Some MessageLen) (Some MessageLen) None (wire_types of_bsn_bw_enable_get_reply_class),
     row OF_BSN_BW_ENABLE_GET_REQUEST (Some MessageLen) (Some MessageLen) None (wire_types of_bsn_bw_enable_get_request_class),
     row OF_BSN_BW_ENABLE_SET_REPLY (Some MessageLen) (Some MessageLen) None (wire_types of_bsn_bw_enable_set_reply_class),
     row OF_BSN_BW_ENABLE_SET_REQUEST (Some MessageLen) (Some MessageLen) None (wire_types of_bsn_bw_enable_set_request_class),
     row OF_BSN_GET_INTERFACES_REPLY (Some MessageLen) (Some MessageLen) None (wire_types of_bsn_get_interfaces_reply_class),
     row OF_BSN_GET_INTERFACES_REQUEST (Some MessageLen) (Some MessageLen) None (wire_types of_bsn_get_interfaces_request_class),
     row OF_BSN_GET_IP_MASK_REPLY (Some MessageLen) (Some MessageLen) None (wire_types of_bsn_get_ip_mask_reply_class),
     row OF_BSN_GET_IP_MASK_REQUEST (Some MessageLen) (Some MessageLen) None (wire_types of_bsn_get_ip_mask_request_class),
     row OF_BSN_GET_L2_TABLE_REPLY (Some MessageLen) (Some MessageLen) None (wire_types of_bsn_get_l2_table_reply_class),
     row OF_BSN_GET_L2_TABLE_REQUEST (Some MessageLen) (Some MessageLen) None (wire_types of_bsn_get_l2_table_request_class),
     row OF_BSN_GET_MIRRORING_REPLY (Some MessageLen) (Some MessageLen) None (wire_types of_bsn_get_mirroring_reply_class),
     row OF_BSN_GET_MIRRORING_REQUEST (Some MessageLen) (Some MessageLen) None (wire_types of_bsn_get_mirroring_request_class),
     row OF_BSN_HYBRID_GET_REPLY (Some MessageLen) (Some MessageLen) None (wire_types of_bsn_hybrid_get_reply_class),
     row OF_BSN_HYBRID_GET_REQUEST (Some MessageLen) (Some MessageLen) None (wire_types of_bsn_hybrid_get_request_class)]"

definition metadata_rows_02 :: "(int \<times> metadata) list" where
  "metadata_rows_02 =
    [row OF_BSN_INTERFACE None None None None,
     row OF_BSN_PDU_RX_REPLY (Some MessageLen) (Some MessageLen) None (wire_types of_bsn_pdu_rx_reply_class),
     row OF_BSN_PDU_RX_REQUEST (Some MessageLen) (Some MessageLen) None (wire_types of_bsn_pdu_rx_request_class),
     row OF_BSN_PDU_RX_TIMEOUT (Some MessageLen) (Some MessageLen) None (wire_types of_bsn_pdu_rx_timeout_class),
     row OF_BSN_PDU_TX_REPLY (Some MessageLen) (Some MessageLen) None (wire_types of_bsn_pdu_tx_reply_class),
     row OF_BSN_PDU_TX_REQUEST (Some MessageLen) (Some MessageLen) None (wire_types of_bsn_pdu_tx_request_class),
     row OF_BSN_SET_IP_MASK (Some MessageLen) (Some MessageLen) None (wire_types of_bsn_set_ip_mask_class),
     row OF_BSN_SET_L2_TABLE_REPLY (Some MessageLen) (Some MessageLen) None (wire_types of_bsn_set_l2_table_reply_class),
     row OF_BSN_SET_L2_TABLE_REQUEST (Some MessageLen) (Some MessageLen) None (wire_types of_bsn_set_l2_table_request_class),
     row OF_BSN_SET_MIRRORING (Some MessageLen) (Some MessageLen) None (wire_types of_bsn_set_mirroring_class),
     row OF_BSN_SET_PKTIN_SUPPRESSION_REPLY (Some MessageLen) (Some MessageLen) None (wire_types of_bsn_set_pktin_suppression_reply_class),
     row OF_BSN_SET_PKTIN_SUPPRESSION_REQUEST (Some MessageLen) (Some MessageLen) None (wire_types of_bsn_set_pktin_suppression_request_class),
     row OF_BSN_SHELL_COMMAND (Some MessageLen) (Some MessageLen) None (wire_types of_bsn_shell_command_class),
     row OF_BSN_SHELL_OUTPUT (Some MessageLen) (Some MessageLen) None (wire_types of_bsn_shell_output_class),
     row OF_BSN_SHELL_STATUS (Some MessageLen) (Some MessageLen) None (wire_types of_bsn_shell_status_class),
     row OF_EXPERIMENTER_STATS_REPLY (Some MessageLen) (Some MessageLen) None None,
     row OF_BSN_STATS_REPLY (Some MessageLen) (Some MessageLen) None None,
     row OF_EXPERIMENTER_STATS_REQUEST (Some MessageLen) (Some MessageLen) None None,
     row OF_BSN_STATS_REQUEST (Some MessageLen) (Some MessageLen) None None,
     row OF_BSN_VIRTUAL_PORT_CREATE_REPLY (Some MessageLen) (Some MessageLen) None (wire_types of_bsn_virtual_port_create_reply_class),
     row OF_BSN_VPORT (Some Tlv16Len) (Some Tlv16Len) (Some of_bsn_vport_wire_object_id_get) None,
     row OF_BSN_VIRTUAL_PORT_CREATE_REQUEST (Some MessageLen) (Some MessageLen) None (wire_types of_bsn_virtual_port_create_request_class),
     row OF_BSN_VIRTUAL_PORT_REMOVE_REPLY (Some MessageLen) (Some MessageLen) None (wire_types of_bsn_virtual_port_remove_reply_class),
     row OF_BSN_VIRTUAL_PORT_REMOVE_REQUEST (Some MessageLen) (Some MessageLen) None (wire_types of_bsn_virtual_port_remove_request_class)]"

definition metadata_rows_03 :: "(int \<times> metadata) list" where
  "metadata_rows_03 =
    [row OF_BSN_VPORT_L2GRE (Some Tlv16Len) (Some Tlv16Len) (Some of_bsn_vport_wire_object_id_get) (wire_types of_bsn_vport_l2gre_class),
     row OF_BSN_VPORT_Q_IN_Q (Some Tlv16Len) (Some Tlv16Len) (Some of_bsn_vport_wire_object_id_get) (wire_types of_bsn_vport_q_in_q_class),
     row OF_DESC_STATS_REPLY (Some MessageLen) (Some MessageLen) None (wire_types of_desc_stats_reply_class),
     row OF_DESC_STATS_REQUEST (Some MessageLen) (Some MessageLen) None (wire_types of_desc_stats_request_class),
     row OF_ECHO_REPLY (Some MessageLen) (Some MessageLen) None (wire_types of_echo_reply_class),
     row OF_ECHO_REQUEST (Some MessageLen) (Some MessageLen) None (wire_types of_echo_request_class),
     row OF_FEATURES_REPLY (Some MessageLen) (Some MessageLen) None (wire_types of_features_reply_class),
     row OF_FEATURES_REQUEST (Some MessageLen) (Some MessageLen) None (wire_types of_features_request_class),
     row OF_FLOW_MOD (Some MessageLen) (Some MessageLen) None None,
     row OF_FLOW_ADD (Some MessageLen) (Some MessageLen) None (wire_types of_flow_add_class),
     row OF_FLOW_DELETE (Some MessageLen) (Some MessageLen) None (wire_types of_flow_delete_class),
     row OF_FLOW_DELETE_STRICT (Some MessageLen) (Some MessageLen) None (wire_types of_flow_delete_strict_class),
     row OF_FLOW_MOD_FAILED_ERROR_MSG (Some MessageLen) (Some MessageLen) None (wire_types of_flow_mod_failed_error_msg_class),
     row OF_FLOW_MODIFY (Some MessageLen) (Some MessageLen) None (wire_types of_flow_modify_class),
     row OF_FLOW_MODIFY_STRICT (Some MessageLen) (Some MessageLen) None (wire_types of_flow_modify_strict_class),
     row OF_FLOW_REMOVED (Some MessageLen) (Some MessageLen) None (wire_types of_flow_removed_class),
     row OF_FLOW_STATS_ENTRY (Some U16Len) (Some U16Len) None None,
     row OF_FLOW_STATS_REPLY (Some MessageLen) (Some MessageLen) None (wire_types of_flow_stats_reply_class),
     row OF_FLOW_STATS_REQUEST (Some MessageLen) (Some MessageLen) None (wire_types of_flow_stats_request_class),
     row OF_GET_CONFIG_REPLY (Some MessageLen) (Some MessageLen) None (wire_types of_get_config_reply_class),
     row OF_GET_CONFIG_REQUEST (Some MessageLen) (Some MessageLen) None (wire_types of_get_config_request_class),
     row OF_HELLO (Some MessageLen) (Some MessageLen) None (wire_types of_hello_class),
     row OF_HELLO_FAILED_ERROR_MSG (Some MessageLen) (Some MessageLen) None (wire_types of_hello_failed_error_msg_class),
     row OF_MATCH_V1 None None None None]"

definition metadata_rows_04 :: "(int \<times> metadata) list" where
  "metadata_rows_04 =
    [row OF_NICIRA_HEADER (Some MessageLen) (Some MessageLen) None None,
     row OF_NICIRA_CONTROLLER_ROLE_REPLY (Some MessageLen) (Some MessageLen) None (wire_types of_nicira_controller_role_reply_class),
     row OF_NICIRA_CONTROLLER_ROLE_REQUEST (Some MessageLen) (Some MessageLen) None (wire_types of_nicira_controller_role_request_class),
     row OF_PACKET_IN (Some MessageLen) (Some MessageLen) None (wire_types of_packet_in_class),
     row OF_PACKET_OUT (Some MessageLen) (Some MessageLen) None (wire_types of_packet_out_class),
     row OF_PACKET_QUEUE (Some PacketQueueLen) (Some PacketQueueLen) None None,
     row OF_PORT_DESC (Some PortDescLen) (Some PortDescLen) None None,
     row OF_PORT_MOD (Some MessageLen) (Some MessageLen) None (wire_types of_port_mod_class),
     row OF_PORT_MOD_FAILED_ERROR_MSG (Some MessageLen) (Some MessageLen) None (wire_types of_port_mod_failed_error_msg_class),
     row OF_PORT_STATS_ENTRY (Some PortStatsLen) (Some PortStatsLen) None None,
     row OF_PORT_STATS_REPLY (Some MessageLen) (Some MessageLen) None (wire_types of_port_stats_reply_class),
     row OF_PORT_STATS_REQUEST (Some MessageLen) (Some MessageLen) None (wire_types of_port_stats_request_class),
     row OF_PORT_STATUS (Some MessageLen) (Some MessageLen) None (wire_types of_port_status_class),
     row OF_QUEUE_GET_CONFIG_REPLY (Some MessageLen) (Some MessageLen) None (wire_types of_queue_get_config_reply_class),
     row OF_QUEUE_GET_CONFIG_REQUEST (Some MessageLen) (Some MessageLen) None (wire_types of_queue_get_config_request_class),
     row OF_QUEUE_OP_FAILED_ERROR_MSG (Some MessageLen) (Some MessageLen) None (wire_types of_queue_op_failed_error_msg_class),
     row OF_QUEUE_PROP (Some Tlv16Len) (Some Tlv16Len) (Some of_queue_prop_wire_object_id_get) None,
     row OF_QUEUE_PROP_MIN_RATE (Some Tlv16Len) (Some Tlv16Len) (Some of_queue_prop_wire_object_id_get) (wire_types of_queue_prop_min_rate_class),
     row OF_QUEUE_STATS_ENTRY (Some QueueStatsLen) (Some QueueStatsLen) None None,
     row OF_QUEUE_STATS_REPLY (Some MessageLen) (Some MessageLen) None (wire_types of_queue_stats_reply_class),
     row OF_QUEUE_STATS_REQUEST (Some MessageLen) (Some MessageLen) None (wire_types of_queue_stats_request_class),
     row OF_SET_CONFIG (Some MessageLen) (Some MessageLen) None (wire_types of_set_config_class),
     row OF_TABLE_MOD (Some MessageLen) (Some MessageLen) None (wire_types of_table_mod_class),
     row OF_TABLE_STATS_ENTRY None None None None]"

definition metadata_rows_05 :: "(int \<times> metadata) list" where
  "metadata_rows_05 =
    [row OF_TABLE_STATS_REPLY (Some MessageLen) (Some MessageLen) None (wire_types of_table_stats_reply_class),
     row OF_TABLE_STATS_REQUEST (Some MessageLen) (Some MessageLen) None (wire_types of_table_stats_request_class),
     row OF_ACTION_COPY_TTL_IN (Some Tlv16Len) (Some Tlv16Len) (Some of_action_wire_object_id_get) (wire_types of_action_copy_ttl_in_class),
     row OF_ACTION_COPY_TTL_OUT (Some Tlv16Len) (Some Tlv16Len) (Some of_action_wire_object_id_get) (wire_types of_action_copy_ttl_out_class),
     row OF_ACTION_DEC_MPLS_TTL (Some Tlv16Len) (Some Tlv16Len) (Some of_action_wire_object_id_get) (wire_types of_action_dec_mpls_ttl_class),
     row OF_ACTION_DEC_NW_TTL (Some Tlv16Len) (Some Tlv16Len) (Some of_action_wire_object_id_get) (wire_types of_action_dec_nw_ttl_class),
     row OF_ACTION_GROUP (Some Tlv16Len) (Some Tlv16Len) (Some of_action_wire_object_id_get) (wire_types of_action_group_class),
     row OF_ACTION_POP_MPLS (Some Tlv16Len) (Some Tlv16Len) (Some of_action_wire_object_id_get) (wire_types of_action_pop_mpls_class),
     row OF_ACTION_POP_VLAN (Some Tlv16Len) (Some Tlv16Len) (Some of_action_wire_object_id_get) (wire_types of_action_pop_vlan_class),
     row OF_ACTION_PUSH_MPLS (Some Tlv16Len) (Some Tlv16Len) (Some of_action_wire_object_id_get) (wire_types of_action_push_mpls_class),
     row OF_ACTION_PUSH_VLAN (Some Tlv16Len) (Some Tlv16Len) (Some of_action_wire_object_id_get) (wire_types of_action_push_vlan_class),
     row OF_ACTION_SET_MPLS_LABEL (Some Tlv16Len) (Some Tlv16Len) (Some of_action_wire_object_id_get) (wire_types of_action_set_mpls_label_class),
     row OF_ACTION_SET_MPLS_TC (Some Tlv16Len) (Some Tlv16Len) (Some of_action_wire_object_id_get) (wire_types of_action_set_mpls_tc_class),
     row OF_ACTION_SET_MPLS_TTL (Some Tlv16Len) (Some Tlv16Len) (Some of_action_wire_object_id_get) (wire_types of_action_set_mpls_ttl_class),
     row OF_ACTION_SET_NW_ECN (Some Tlv16Len) (Some Tlv16Len) (Some of_action_wire_object_id_get) (wire_types of_action_set_nw_ecn_class),
     row OF_ACTION_SET_NW_TTL (Some Tlv16Len) (Some Tlv16Len) (Some of_action_wire_object_id_get) (wire_types of_action_set_nw_ttl_class),
     row OF_ACTION_SET_QUEUE (Some Tlv16Len) (Some Tlv16Len) (Some of_action_wire_object_id_get) (wire_types of_action_set_queue_class),
     row OF_BAD_INSTRUCTION_ERROR_MSG (Some MessageLen) (Some MessageLen) None (wire_types of_bad_instruction_error_msg_class),
     row OF_BAD_MATCH_ERROR_MSG (Some MessageLen) (Some MessageLen) None (wire_types of_bad_match_error_msg_class),
     row OF_BUCKET (Some U16Len) (Some U16Len) None None,
     row OF_BUCKET_COUNTER None None None None,
     row OF_GROUP_MOD (Some MessageLen) (Some MessageLen) None None,
     row OF_GROUP_ADD (Some MessageLen) (Some MessageLen) None (wire_types of_group_add_class),
     row OF_GROUP_DELETE (Some MessageLen) (Some MessageLen) None (wire_types of_group_delete_class)]"

definition metadata_rows_06 :: "(int \<times> metadata) list" where
  "metadata_rows_06 =
    [row OF_GROUP_DESC_STATS_ENTRY (Some U16Len) (Some U16Len) None None,
     row OF_GROUP_DESC_STATS_REPLY (Some MessageLen) (Some MessageLen) None (wire_types of_group_desc_stats_reply_class),
     row OF_GROUP_DESC_STATS_REQUEST (Some MessageLen) (Some MessageLen) None (wire_types of_group_desc_stats_request_class),
     row OF_GROUP_MOD_FAILED_ERROR_MSG (Some MessageLen) (Some MessageLen) None (wire_types of_group_mod_failed_error_msg_class),
     row OF_GROUP_MODIFY (Some MessageLen) (Some MessageLen) None (wire_types of_group_modify_class),
     row OF_GROUP_STATS_ENTRY (Some U16Len) (Some U16Len) None None,
     row OF_GROUP_STATS_REPLY (Some MessageLen) (Some MessageLen) None (wire_types of_group_stats_reply_class),
     row OF_GROUP_STATS_REQUEST (Some MessageLen) (Some MessageLen) None (wire_types of_group_stats_request_class),
     row OF_INSTRUCTION (Some Tlv16Len) (Some Tlv16Len) (Some of_instruction_wire_object_id_get) None,
     row OF_INSTRUCTION_APPLY_ACTIONS (Some Tlv16Len) (Some Tlv16Len) (Some of_instruction_wire_object_id_get) (wire_types of_instruction_apply_actions_class),
     row OF_INSTRUCTION_CLEAR_ACTIONS (Some Tlv16Len) (Some Tlv16Len) (Some of_instruction_wire_object_id_get) (wire_types of_instruction_clear_actions_class),
     row OF_INSTRUCTION_EXPERIMENTER (Some Tlv16Len) (Some Tlv16Len) (Some of_instruction_wire_object_id_get) None,
     row OF_INSTRUCTION_GOTO_TABLE (Some Tlv16Len) (Some Tlv16Len) (Some of_instruction_wire_object_id_get) (wire_types of_instruction_goto_table_class),
     row OF_INSTRUCTION_WRITE_ACTIONS (Some Tlv16Len) (Some Tlv16Len) (Some of_instruction_wire_object_id_get) (wire_types of_instruction_write_actions_class),
     row OF_INSTRUCTION_WRITE_METADATA (Some Tlv16Len) (Some Tlv16Len) (Some of_instruction_wire_object_id_get) (wire_types of_instruction_write_metadata_class),
     row OF_MATCH_V2 (Some Tlv16Len) (Some Tlv16Len) None (wire_types of_match_v2_class),
     row OF_SWITCH_CONFIG_FAILED_ERROR_MSG (Some MessageLen) (Some MessageLen) None (wire_types of_switch_config_failed_error_msg_class),
     row OF_TABLE_MOD_FAILED_ERROR_MSG (Some MessageLen) (Some MessageLen) None (wire_types of_table_mod_failed_error_msg_class),
     row OF_OXM (Some OxmLen) None (Some of_oxm_wire_object_id_get) None,
     row OF_ACTION_SET_FIELD (Some Tlv16Len) (Some Tlv16Len) (Some of_action_wire_object_id_get) (wire_types of_action_set_field_class),
     row OF_EXPERIMENTER_ERROR_MSG (Some MessageLen) (Some MessageLen) None (wire_types of_experimenter_error_msg_class),
     row OF_GROUP_FEATURES_STATS_REPLY (Some MessageLen) (Some MessageLen) None (wire_types of_group_features_stats_reply_class),
     row OF_GROUP_FEATURES_STATS_REQUEST (Some MessageLen) (Some MessageLen) None (wire_types of_group_features_stats_request_class),
     row OF_MATCH_V3 (Some Tlv16Len) (Some Tlv16Len) None (wire_types of_match_v3_class)]"

definition metadata_rows_07 :: "(int \<times> metadata) list" where
  "metadata_rows_07 =
    [row OF_OXM_ARP_OP (Some OxmLen) None (Some of_oxm_wire_object_id_get) (wire_types of_oxm_arp_op_class),
     row OF_OXM_ARP_OP_MASKED (Some OxmLen) None (Some of_oxm_wire_object_id_get) (wire_types of_oxm_arp_op_masked_class),
     row OF_OXM_ARP_SHA (Some OxmLen) None (Some of_oxm_wire_object_id_get) (wire_types of_oxm_arp_sha_class),
     row OF_OXM_ARP_SHA_MASKED (Some OxmLen) None (Some of_oxm_wire_object_id_get) (wire_types of_oxm_arp_sha_masked_class),
     row OF_OXM_ARP_SPA (Some OxmLen) None (Some of_oxm_wire_object_id_get) (wire_types of_oxm_arp_spa_class),
     row OF_OXM_ARP_SPA_MASKED (Some OxmLen) None (Some of_oxm_wire_object_id_get) (wire_types of_oxm_arp_spa_masked_class),
     row OF_OXM_ARP_THA (Some OxmLen) None (Some of_oxm_wire_object_id_get) (wire_types of_oxm_arp_tha_class),
     row OF_OXM_ARP_THA_MASKED (Some OxmLen) None (Some of_oxm_wire_object_id_get) (wire_types of_oxm_arp_tha_masked_class),
     row OF_OXM_ARP_TPA (Some OxmLen) None (Some of_oxm_wire_object_id_get) (wire_types of_oxm_arp_tpa_class),
     row OF_OXM_ARP_TPA_MASKED (Some OxmLen) None (Some of_oxm_wire_object_id_get) (wire_types of_oxm_arp_tpa_masked_class),
     row OF_OXM_BSN_EGR_PORT_GROUP_ID (Some OxmLen) None (Some of_oxm_wire_object_id_get) (wire_types of_oxm_bsn_egr_port_group_id_class),
     row OF_OXM_BSN_EGR_PORT_GROUP_ID_MASKED (Some OxmLen) None (Some of_oxm_wire_object_id_get) (wire_types of_oxm_bsn_egr_port_group_id_masked_class),
     row OF_OXM_BSN_GLOBAL_VRF_ALLOWED (Some OxmLen) None (Some of_oxm_wire_object_id_get) (wire_types of_oxm_bsn_global_vrf_allowed_class),
     row OF_OXM_BSN_GLOBAL_VRF_ALLOWED_MASKED (Some OxmLen) None (Some of_oxm_wire_object_id_get) (wire_types of_oxm_bsn_global_vrf_allowed_masked_class),
     row OF_OXM_BSN_IN_PORTS_128 (Some OxmLen) None (Some of_oxm_wire_object_id_get) (wire_types of_oxm_bsn_in_ports_128_class),
     row OF_OXM_BSN_IN_PORTS_128_MASKED (Some OxmLen) None (Some of_oxm_wire_object_id_get) (wire_types of_oxm_bsn_in_ports_128_masked_class),
     row OF_OXM_BSN_IN_PORTS_512 (Some OxmLen) None (Some of_oxm_wire_object_id_get) (wire_types of_oxm_bsn_in_ports_512_class),
     row OF_OXM_BSN_IN_PORTS_512_MASKED (Some OxmLen) None (Some of_oxm_wire_object_id_get) (wire_types of_oxm_bsn_in_ports_512_masked_class),
     row OF_OXM_BSN_INGRESS_PORT_GROUP_ID (Some OxmLen) None (Some of_oxm_wire_object_id_get) (wire_types of_oxm_bsn_ingress_port_group_id_class),
     row OF_OXM_BSN_INGRESS_PORT_GROUP_ID_MASKED (Some OxmLen) None (Some of_oxm_wire_object_id_get) (wire_types of_oxm_bsn_ingress_port_group_id_masked_class),
     row OF_OXM_BSN_L2_CACHE_HIT (Some OxmLen) None (Some of_oxm_wire_object_id_get) (wire_types of_oxm_bsn_l2_cache_hit_class),
     row OF_OXM_BSN_L2_CACHE_HIT_MASKED (Some OxmLen) None (Some of_oxm_wire_object_id_get) (wire_types of_oxm_bsn_l2_cache_hit_masked_class),
     row OF_OXM_BSN_L3_DST_CLASS_ID (Some OxmLen) None (Some of_oxm_wire_object_id_get) (wire_types of_oxm_bsn_l3_dst_class_id_class),
     row OF_OXM_BSN_L3_DST_CLASS_ID_MASKED (Some OxmLen) None (Some of_oxm_wire_object_id_get) (wire_types of_oxm_bsn_l3_dst_class_id_masked_class)]"

definition metadata_rows_08 :: "(int \<times> metadata) list" where
  "metadata_rows_08 =
    [row OF_OXM_BSN_L3_INTERFACE_CLASS_ID (Some OxmLen) None (Some of_oxm_wire_object_id_get) (wire_types of_oxm_bsn_l3_interface_class_id_class),
     row OF_OXM_BSN_L3_INTERFACE_CLASS_ID_MASKED (Some OxmLen) None (Some of_oxm_wire_object_id_get) (wire_types of_oxm_bsn_l3_interface_class_id_masked_class),
     row OF_OXM_BSN_L3_SRC_CLASS_ID (Some OxmLen) None (Some of_oxm_wire_object_id_get) (wire_types of_oxm_bsn_l3_src_class_id_class),
     row OF_OXM_BSN_L3_SRC_CLASS_ID_MASKED (Some OxmLen) None (Some of_oxm_wire_object_id_get) (wire_types of_oxm_bsn_l3_src_class_id_masked_class),
     row OF_OXM_BSN_LAG_ID (Some OxmLen) None (Some of_oxm_wire_object_id_get) (wire_types of_oxm_bsn_lag_id_class),
     row OF_OXM_BSN_LAG_ID_MASKED (Some OxmLen) None (Some of_oxm_wire_object_id_get) (wire_types of_oxm_bsn_lag_id_masked_class),
     row OF_OXM_BSN_TCP_FLAGS (Some OxmLen) None (Some of_oxm_wire_object_id_get) (wire_types of_oxm_bsn_tcp_flags_class),
     row OF_OXM_BSN_TCP_FLAGS_MASKED (Some OxmLen) None (Some of_oxm_wire_object_id_get) (wire_types of_oxm_bsn_tcp_flags_masked_class),
     row OF_OXM_BSN_UDF0 (Some OxmLen) None (Some of_oxm_wire_object_id_get) (wire_types of_oxm_bsn_udf0_class),
     row OF_OXM_BSN_UDF0_MASKED (Some OxmLen) None (Some of_oxm_wire_object_id_get) (wire_types of_oxm_bsn_udf0_masked_class),
     row OF_OXM_BSN_UDF1 (Some OxmLen) None (Some of_oxm_wire_object_id_get) (wire_types of_oxm_bsn_udf1_class),
     row OF_OXM_BSN_UDF1_MASKED (Some OxmLen) None (Some of_oxm_wire_object_id_get) (wire_types of_oxm_bsn_udf1_masked_class),
     row OF_OXM_BSN_UDF2 (Some OxmLen) None (Some of_oxm_wire_object_id_get) (wire_types of_oxm_bsn_udf2_class),
     row OF_OXM_BSN_UDF2_MASKED (Some OxmLen) None (Some of_oxm_wire_object_id_get) (wire_types of_oxm_bsn_udf2_masked_class),
     row OF_OXM_BSN_UDF3 (Some OxmLen) None (Some of_oxm_wire_object_id_get) (wire_types of_oxm_bsn_udf3_class),
     row OF_OXM_BSN_UDF3_MASKED (Some OxmLen) None (Some of_oxm_wire_object_id_get) (wire_types of_oxm_bsn_udf3_masked_class),
     row OF_OXM_BSN_UDF4 (Some OxmLen) None (Some of_oxm_wire_object_id_get) (wire_types of_oxm_bsn_udf4_class),
     row OF_OXM_BSN_UDF4_MASKED (Some OxmLen) None (Some of_oxm_wire_object_id_get) (wire_types of_oxm_bsn_udf4_masked_class),
     row OF_OXM_BSN_UDF5 (Some OxmLen) None (Some of_oxm_wire_object_id_get) (wire_types of_oxm_bsn_udf5_class),
     row OF_OXM_BSN_UDF5_MASKED (Some OxmLen) None (Some of_oxm_wire_object_id_get) (wire_types of_oxm_bsn_udf5_masked_class),
     row OF_OXM_BSN_UDF6 (Some OxmLen) None (Some of_oxm_wire_object_id_get) (wire_types of_oxm_bsn_udf6_class),
     row OF_OXM_BSN_UDF6_MASKED (Some OxmLen) None (Some of_oxm_wire_object_id_get) (wire_types of_oxm_bsn_udf6_masked_class),
     row OF_OXM_BSN_UDF7 (Some OxmLen) None (Some of_oxm_wire_object_id_get) (wire_types of_oxm_bsn_udf7_class),
     row OF_OXM_BSN_UDF7_MASKED (Some OxmLen) None (Some of_oxm_wire_object_id_get) (wire_types of_oxm_bsn_udf7_masked_class)]"

definition metadata_rows_09 :: "(int \<times> metadata) list" where
  "metadata_rows_09 =
    [row OF_OXM_BSN_VLAN_XLATE_PORT_GROUP_ID (Some OxmLen) None (Some of_oxm_wire_object_id_get) (wire_types of_oxm_bsn_vlan_xlate_port_group_id_class),
     row OF_OXM_BSN_VLAN_XLATE_PORT_GROUP_ID_MASKED (Some OxmLen) None (Some of_oxm_wire_object_id_get) (wire_types of_oxm_bsn_vlan_xlate_port_group_id_masked_class),
     row OF_OXM_BSN_VRF (Some OxmLen) None (Some of_oxm_wire_object_id_get) (wire_types of_oxm_bsn_vrf_class),
     row OF_OXM_BSN_VRF_MASKED (Some OxmLen) None (Some of_oxm_wire_object_id_get) (wire_types of_oxm_bsn_vrf_masked_class),
     row OF_OXM_ETH_DST (Some OxmLen) None (Some of_oxm_wire_object_id_get) (wire_types of_oxm_eth_dst_class),
     row OF_OXM_ETH_DST_MASKED (Some OxmLen) None (Some of_oxm_wire_object_id_get) (wire_types of_oxm_eth_dst_masked_class),
     row OF_OXM_ETH_SRC (Some OxmLen) None (Some of_oxm_wire_object_id_get) (wire_types of_oxm_eth_src_class),
     row OF_OXM_ETH_SRC_MASKED (Some OxmLen) None (Some of_oxm_wire_object_id_get) (wire_types of_oxm_eth_src_masked_class),
     row OF_OXM_ETH_TYPE (Some OxmLen) None (Some of_oxm_wire_object_id_get) (wire_types of_oxm_eth_type_class),
     row OF_OXM_ETH_TYPE_MASKED (Some OxmLen) None (Some of_oxm_wire_object_id_get) (wire_types of_oxm_eth_type_masked_class),
     row OF_OXM_ICMPV4_CODE (Some OxmLen) None (Some of_oxm_wire_object_id_get) (wire_types of_oxm_icmpv4_code_class),
     row OF_OXM_ICMPV4_CODE_MASKED (Some OxmLen) None (Some of_oxm_wire_object_id_get) (wire_types of_oxm_icmpv4_code_masked_class),
     row OF_OXM_ICMPV4_TYPE (Some OxmLen) None (Some of_oxm_wire_object_id_get) (wire_types of_oxm_icmpv4_type_class),
     row OF_OXM_ICMPV4_TYPE_MASKED (Some OxmLen) None (Some of_oxm_wire_object_id_get) (wire_types of_oxm_icmpv4_type_masked_class),
     row OF_OXM_ICMPV6_CODE (Some OxmLen) None (Some of_oxm_wire_object_id_get) (wire_types of_oxm_icmpv6_code_class),
     row OF_OXM_ICMPV6_CODE_MASKED (Some OxmLen) None (Some of_oxm_wire_object_id_get) (wire_types of_oxm_icmpv6_code_masked_class),
     row OF_OXM_ICMPV6_TYPE (Some OxmLen) None (Some of_oxm_wire_object_id_get) (wire_types of_oxm_icmpv6_type_class),
     row OF_OXM_ICMPV6_TYPE_MASKED (Some OxmLen) None (Some of_oxm_wire_object_id_get) (wire_types of_oxm_icmpv6_type_masked_class),
     row OF_OXM_IN_PHY_PORT (Some OxmLen) None (Some of_oxm_wire_object_id_get) (wire_types of_oxm_in_phy_port_class),
     row OF_OXM_IN_PHY_PORT_MASKED (Some OxmLen) None (Some of_oxm_wire_object_id_get) (wire_types of_oxm_in_phy_port_masked_class),
     row OF_OXM_IN_PORT (Some OxmLen) None (Some of_oxm_wire_object_id_get) (wire_types of_oxm_in_port_class),
     row OF_OXM_IN_PORT_MASKED (Some OxmLen) None (Some of_oxm_wire_object_id_get) (wire_types of_oxm_in_port_masked_class),
     row OF_OXM_IP_DSCP (Some OxmLen) None (Some of_oxm_wire_object_id_get) (wire_types of_oxm_ip_dscp_class),
     row OF_OXM_IP_DSCP_MASKED (Some OxmLen) None (Some of_oxm_wire_object_id_get) (wire_types of_oxm_ip_dscp_masked_class)]"

definition metadata_rows_10 :: "(int \<times> metadata) list" where
  "metadata_rows_10 =
    [row OF_OXM_IP_ECN (Some OxmLen) None (Some of_oxm_wire_object_id_get) (wire_types of_oxm_ip_ecn_class),
     row OF_OXM_IP_ECN_MASKED (Some OxmLen) None (Some of_oxm_wire_object_id_get) (wire_types of_oxm_ip_ecn_masked_class),
     row OF_OXM_IP_PROTO (Some OxmLen) None (Some of_oxm_wire_object_id_get) (wire_types of_oxm_ip_proto_class),
     row OF_OXM_IP_PROTO_MASKED (Some OxmLen) None (Some of_oxm_wire_object_id_get) (wire_types of_oxm_ip_proto_masked_class),
     row OF_OXM_IPV4_DST (Some OxmLen) None (Some of_oxm_wire_object_id_get) (wire_types of_oxm_ipv4_dst_class),
     row OF_OXM_IPV4_DST_MASKED (Some OxmLen) None (Some of_oxm_wire_object_id_get) (wire_types of_oxm_ipv4_dst_masked_class),
     row OF_OXM_IPV4_SRC (Some OxmLen) None (Some of_oxm_wire_object_id_get) (wire_types of_oxm_ipv4_src_class),
     row OF_OXM_IPV4_SRC_MASKED (Some OxmLen) None (Some of_oxm_wire_object_id_get) (wire_types of_oxm_ipv4_src_masked_class),
     row OF_OXM_IPV6_DST (Some OxmLen) None (Some of_oxm_wire_object_id_get) (wire_types of_oxm_ipv6_dst_class),
     row OF_OXM_IPV6_DST_MASKED (Some OxmLen) None (Some of_oxm_wire_object_id_get) (wire_types of_oxm_ipv6_dst_masked_class),
     row OF_OXM_IPV6_FLABEL (Some OxmLen) None (Some of_oxm_wire_object_id_get) (wire_types of_oxm_ipv6_flabel_class),
     row OF_OXM_IPV6_FLABEL_MASKED (Some OxmLen) None (Some of_oxm_wire_object_id_get) (wire_types of_oxm_ipv6_flabel_masked_class),
     row OF_OXM_IPV6_ND_SLL (Some OxmLen) None (Some of_oxm_wire_object_id_get) (wire_types of_oxm_ipv6_nd_sll_class),
     row OF_OXM_IPV6_ND_SLL_MASKED (Some OxmLen) None (Some of_oxm_wire_object_id_get) (wire_types of_oxm_ipv6_nd_sll_masked_class),
     row OF_OXM_IPV6_ND_TARGET (Some OxmLen) None (Some of_oxm_wire_object_id_get) (wire_types of_oxm_ipv6_nd_target_class),
     row OF_OXM_IPV6_ND_TARGET_MASKED (Some OxmLen) None (Some of_oxm_wire_object_id_get) (wire_types of_oxm_ipv6_nd_target_masked_class),
     row OF_OXM_IPV6_ND_TLL (Some OxmLen) None (Some of_oxm_wire_object_id_get) (wire_types of_oxm_ipv6_nd_tll_class),
     row OF_OXM_IPV6_ND_TLL_MASKED (Some OxmLen) None (Some of_oxm_wire_object_id_get) (wire_types of_oxm_ipv6_nd_tll_masked_class),
     row OF_OXM_IPV6_SRC (Some OxmLen) None (Some of_oxm_wire_object_id_get) (wire_types of_oxm_ipv6_src_class),
     row OF_OXM_IPV6_SRC_MASKED (Some OxmLen) None (Some of_oxm_wire_object_id_get) (wire_types of_oxm_ipv6_src_masked_class),
     row OF_OXM_METADATA (Some OxmLen) None (Some of_oxm_wire_object_id_get) (wire_types of_oxm_metadata_class),
     row OF_OXM_METADATA_MASKED (Some OxmLen) None (Some of_oxm_wire_object_id_get) (wire_types of_oxm_metadata_masked_class),
     row OF_OXM_MPLS_LABEL (Some OxmLen) None (Some of_oxm_wire_object_id_get) (wire_types of_oxm_mpls_label_class),
     row OF_OXM_MPLS_LABEL_MASKED (Some OxmLen) None (Some of_oxm_wire_object_id_get) (wire_types of_oxm_mpls_label_masked_class)]"

definition metadata_rows_11 :: "(int \<times> metadata) list" where
  "metadata_rows_11 =
    [row OF_OXM_MPLS_TC (Some OxmLen) None (Some of_oxm_wire_object_id_get) (wire_types of_oxm_mpls_tc_class),
     row OF_OXM_MPLS_TC_MASKED (Some OxmLen) None (Some of_oxm_wire_object_id_get) (wire_types of_oxm_mpls_tc_masked_class),
     row OF_OXM_SCTP_DST (Some OxmLen) None (Some of_oxm_wire_object_id_get) (wire_types of_oxm_sctp_dst_class),
     row OF_OXM_SCTP_DST_MASKED (Some OxmLen) None (Some of_oxm_wire_object_id_get) (wire_types of_oxm_sctp_dst_masked_class),
     row OF_OXM_SCTP_SRC (Some OxmLen) None (Some of_oxm_wire_object_id_get) (wire_types of_oxm_sctp_src_class),
     row OF_OXM_SCTP_SRC_MASKED (Some OxmLen) None (Some of_oxm_wire_object_id_get) (wire_types of_oxm_sctp_src_masked_class),
     row OF_OXM_TCP_DST (Some OxmLen) None (Some of_oxm_wire_object_id_get) (wire_types of_oxm_tcp_dst_class),
     row OF_OXM_TCP_DST_MASKED (Some OxmLen) None (Some of_oxm_wire_object_id_get) (wire_types of_oxm_tcp_dst_masked_class),
     row OF_OXM_TCP_SRC (Some OxmLen) None (Some of_oxm_wire_object_id_get) (wire_types of_oxm_tcp_src_class),
     row OF_OXM_TCP_SRC_MASKED (Some OxmLen) None (Some of_oxm_wire_object_id_get) (wire_types of_oxm_tcp_src_masked_class),
     row OF_OXM_TUNNEL_IPV4_DST (Some OxmLen) None (Some of_oxm_wire_object_id_get) (wire_types of_oxm_tunnel_ipv4_dst_class),
     row OF_OXM_TUNNEL_IPV4_DST_MASKED (Some OxmLen) None (Some of_oxm_wire_object_id_get) (wire_types of_oxm_tunnel_ipv4_dst_masked_class),
     row OF_OXM_TUNNEL_IPV4_SRC (Some OxmLen) None (Some of_oxm_wire_object_id_get) (wire_types of_oxm_tunnel_ipv4_src_class),
     row OF_OXM_TUNNEL_IPV4_SRC_MASKED (Some OxmLen) None (Some of_oxm_wire_object_id_get) (wire_types of_oxm_tunnel_ipv4_src_masked_class),
     row OF_OXM_UDP_DST (Some OxmLen) None (Some of_oxm_wire_object_id_get) (wire_types of_oxm_udp_dst_class),
     row OF_OXM_UDP_DST_MASKED (Some OxmLen) None (Some of_oxm_wire_object_id_get) (wire_types of_oxm_udp_dst_masked_class),
     row OF_OXM_UDP_SRC (Some OxmLen) None (Some of_oxm_wire_object_id_get) (wire_types of_oxm_udp_src_class),
     row OF_OXM_UDP_SRC_MASKED (Some OxmLen) None (Some of_oxm_wire_object_id_get) (wire_types of_oxm_udp_src_masked_class),
     row OF_OXM_VLAN_PCP (Some OxmLen) None (Some of_oxm_wire_object_id_get) (wire_types of_oxm_vlan_pcp_class),
     row OF_OXM_VLAN_PCP_MASKED (Some OxmLen) None (Some of_oxm_wire_object_id_get) (wire_types of_oxm_vlan_pcp_masked_class),
     row OF_OXM_VLAN_VID (Some OxmLen) None (Some of_oxm_wire_object_id_get) (wire_types of_oxm_vlan_vid_class),
     row OF_OXM_VLAN_VID_MASKED (Some OxmLen) None (Some of_oxm_wire_object_id_get) (wire_types of_oxm_vlan_vid_masked_class),
     row OF_QUEUE_PROP_EXPERIMENTER (Some Tlv16Len) (Some Tlv16Len) (Some of_queue_prop_wire_object_id_get) None,
     row OF_QUEUE_PROP_MAX_RATE (Some Tlv16Len) (Some Tlv16Len) (Some of_queue_prop_wire_object_id_get) (wire_types of_queue_prop_max_rate_class)]"

definition metadata_rows_12 :: "(int \<times> metadata) list" where
  "metadata_rows_12 =
    [row OF_ROLE_REPLY (Some MessageLen) (Some MessageLen) None (wire_types of_role_reply_class),
     row OF_ROLE_REQUEST (Some MessageLen) (Some MessageLen) None (wire_types of_role_request_class),
     row OF_ROLE_REQUEST_FAILED_ERROR_MSG (Some MessageLen) (Some MessageLen) None (wire_types of_role_request_failed_error_msg_class),
     row OF_ACTION_ID (Some Tlv16Len) (Some Tlv16Len) (Some of_action_id_wire_object_id_get) None,
     row OF_ACTION_ID_EXPERIMENTER (Some Tlv16Len) (Some Tlv16Len) (Some of_action_id_wire_object_id_get) None,
     row OF_ACTION_ID_BSN (Some Tlv16Len) (Some Tlv16Len) (Some of_action_id_wire_object_id_get) None,
     row OF_ACTION_ID_BSN_CHECKSUM (Some Tlv16Len) (Some Tlv16Len) (Some of_action_id_wire_object_id_get) (wire_types of_action_id_bsn_checksum_class),
     row OF_ACTION_BSN_GENTABLE (Some Tlv16Len) (Some Tlv16Len) (Some of_action_wire_object_id_get) (wire_types of_action_bsn_gentable_class),
     row OF_ACTION_ID_BSN_GENTABLE (Some Tlv16Len) (Some Tlv16Len) (Some of_action_id_wire_object_id_get) (wire_types of_action_id_bsn_gentable_class),
     row OF_ACTION_ID_BSN_MIRROR (Some Tlv16Len) (Some Tlv16Len) (Some of_action_id_wire_object_id_get) (wire_types of_action_id_bsn_mirror_class),
     row OF_ACTION_ID_BSN_SET_TUNNEL_DST (Some Tlv16Len) (Some Tlv16Len) (Some of_action_id_wire_object_id_get) (wire_types of_action_id_bsn_set_tunnel_dst_class),
     row OF_ACTION_ID_COPY_TTL_IN (Some Tlv16Len) (Some Tlv16Len) (Some of_action_id_wire_object_id_get) (wire_types of_action_id_copy_ttl_in_class),
     row OF_ACTION_ID_COPY_TTL_OUT (Some Tlv16Len) (Some Tlv16Len) (Some of_action_id_wire_object_id_get) (wire_types of_action_id_copy_ttl_out_class),
     row OF_ACTION_ID_DEC_MPLS_TTL (Some Tlv16Len) (Some Tlv16Len) (Some of_action_id_wire_object_id_get) (wire_types of_action_id_dec_mpls_ttl_class),
     row OF_ACTION_ID_DEC_NW_TTL (Some Tlv16Len) (Some Tlv16Len) (Some of_action_id_wire_object_id_get) (wire_types of_action_id_dec_nw_ttl_class),
     row OF_ACTION_ID_GROUP (Some Tlv16Len) (Some Tlv16Len) (Some of_action_id_wire_object_id_get) (wire_types of_action_id_group_class),
     row OF_ACTION_ID_NICIRA (Some Tlv16Len) (Some Tlv16Len) (Some of_action_id_wire_object_id_get) None,
     row OF_ACTION_ID_NICIRA_DEC_TTL (Some Tlv16Len) (Some Tlv16Len) (Some of_action_id_wire_object_id_get) (wire_types of_action_id_nicira_dec_ttl_class),
     row OF_ACTION_ID_OUTPUT (Some Tlv16Len) (Some Tlv16Len) (Some of_action_id_wire_object_id_get) (wire_types of_action_id_output_class),
     row OF_ACTION_ID_POP_MPLS (Some Tlv16Len) (Some Tlv16Len) (Some of_action_id_wire_object_id_get) (wire_types of_action_id_pop_mpls_class),
     row OF_ACTION_POP_PBB (Some Tlv16Len) (Some Tlv16Len) (Some of_action_wire_object_id_get) (wire_types of_action_pop_pbb_class),
     row OF_ACTION_ID_POP_PBB (Some Tlv16Len) (Some Tlv16Len) (Some of_action_id_wire_object_id_get) (wire_types of_action_id_pop_pbb_class),
     row OF_ACTION_ID_POP_VLAN (Some Tlv16Len) (Some Tlv16Len) (Some of_action_id_wire_object_id_get) (wire_types of_action_id_pop_vlan_class),
     row OF_ACTION_ID_PUSH_MPLS (Some Tlv16Len) (Some Tlv16Len) (Some of_action_id_wire_object_id_get) (wire_types of_action_id_push_mpls_class)]"

definition metadata_rows_13 :: "(int \<times> metadata) list" where
  "metadata_rows_13 =
    [row OF_ACTION_PUSH_PBB (Some Tlv16Len) (Some Tlv16Len) (Some of_action_wire_object_id_get) (wire_types of_action_push_pbb_class),
     row OF_ACTION_ID_PUSH_PBB (Some Tlv16Len) (Some Tlv16Len) (Some of_action_id_wire_object_id_get) (wire_types of_action_id_push_pbb_class),
     row OF_ACTION_ID_PUSH_VLAN (Some Tlv16Len) (Some Tlv16Len) (Some of_action_id_wire_object_id_get) (wire_types of_action_id_push_vlan_class),
     row OF_ACTION_ID_SET_FIELD (Some Tlv16Len) (Some Tlv16Len) (Some of_action_id_wire_object_id_get) (wire_types of_action_id_set_field_class),
     row OF_ACTION_ID_SET_MPLS_TTL (Some Tlv16Len) (Some Tlv16Len) (Some of_action_id_wire_object_id_get) (wire_types of_action_id_set_mpls_ttl_class),
     row OF_ACTION_ID_SET_NW_TTL (Some Tlv16Len) (Some Tlv16Len) (Some of_action_id_wire_object_id_get) (wire_types of_action_id_set_nw_ttl_class),
     row OF_ACTION_ID_SET_QUEUE (Some Tlv16Len) (Some Tlv16Len) (Some of_action_id_wire_object_id_get) (wire_types of_action_id_set_queue_class),
     row OF_ASYNC_GET_REPLY (Some MessageLen) (Some MessageLen) None (wire_types of_async_get_reply_class),
     row OF_ASYNC_GET_REQUEST (Some MessageLen) (Some MessageLen) None (wire_types of_async_get_request_class),
     row OF_ASYNC_SET (Some MessageLen) (Some MessageLen) None (wire_types of_async_set_class),
     row OF_BSN_ARP_IDLE (Some MessageLen) (Some MessageLen) None (wire_types of_bsn_arp_idle_class),
     row OF_BSN_CONTROLLER_CONNECTION None None None None,
     row OF_BSN_CONTROLLER_CONNECTIONS_REPLY (Some MessageLen) (Some MessageLen) None (wire_types of_bsn_controller_connections_reply_class),
     row OF_BSN_CONTROLLER_CONNECTIONS_REQUEST (Some MessageLen) (Some MessageLen) None (wire_types of_bsn_controller_connections_request_class),
     row OF_BSN_DEBUG_COUNTER_DESC_STATS_ENTRY None None None None,
     row OF_BSN_DEBUG_COUNTER_DESC_STATS_REPLY (Some MessageLen) (Some MessageLen) None (wire_types of_bsn_debug_counter_desc_stats_reply_class),
     row OF_BSN_DEBUG_COUNTER_DESC_STATS_REQUEST (Some MessageLen) (Some MessageLen) None (wire_types of_bsn_debug_counter_desc_stats_request_class),
     row OF_BSN_DEBUG_COUNTER_STATS_ENTRY None None None None,
     row OF_BSN_DEBUG_COUNTER_STATS_REPLY (Some MessageLen) (Some MessageLen) None (wire_types of_bsn_debug_counter_stats_reply_class),
     row OF_BSN_DEBUG_COUNTER_STATS_REQUEST (Some MessageLen) (Some MessageLen) None (wire_types of_bsn_debug_counter_stats_request_class),
     row OF_BSN_FLOW_CHECKSUM_BUCKET_STATS_ENTRY None None None None,
     row OF_BSN_FLOW_CHECKSUM_BUCKET_STATS_REPLY (Some MessageLen) (Some MessageLen) None (wire_types of_bsn_flow_checksum_bucket_stats_reply_class),
     row OF_BSN_FLOW_CHECKSUM_BUCKET_STATS_REQUEST (Some MessageLen) (Some MessageLen) None (wire_types of_bsn_flow_checksum_bucket_stats_request_class),
     row OF_BSN_FLOW_IDLE (Some MessageLen) (Some MessageLen) None (wire_types of_bsn_flow_idle_class)]"

definition metadata_rows_14 :: "(int \<times> metadata) list" where
  "metadata_rows_14 =
    [row OF_BSN_FLOW_IDLE_ENABLE_GET_REPLY (Some MessageLen) (Some MessageLen) None (wire_types of_bsn_flow_idle_enable_get_reply_class),
     row OF_BSN_FLOW_IDLE_ENABLE_GET_REQUEST (Some MessageLen) (Some MessageLen) None (wire_types of_bsn_flow_idle_enable_get_request_class),
     row OF_BSN_FLOW_IDLE_ENABLE_SET_REPLY (Some MessageLen) (Some MessageLen) None (wire_types of_bsn_flow_idle_enable_set_reply_class),
     row OF_BSN_FLOW_IDLE_ENABLE_SET_REQUEST (Some MessageLen) (Some MessageLen) None (wire_types of_bsn_flow_idle_enable_set_request_class),
     row OF_BSN_GENERIC_STATS_ENTRY (Some U16Len) (Some U16Len) None None,
     row OF_BSN_GENERIC_STATS_REPLY (Some MessageLen) (Some MessageLen) None (wire_types of_bsn_generic_stats_reply_class),
     row OF_BSN_GENERIC_STATS_REQUEST (Some MessageLen) (Some MessageLen) None (wire_types of_bsn_generic_stats_request_class),
     row OF_BSN_GENTABLE_BUCKET_STATS_ENTRY None None None None,
     row OF_BSN_GENTABLE_BUCKET_STATS_REPLY (Some MessageLen) (Some MessageLen) None (wire_types of_bsn_gentable_bucket_stats_reply_class),
     row OF_BSN_GENTABLE_BUCKET_STATS_REQUEST (Some MessageLen) (Some MessageLen) None (wire_types of_bsn_gentable_bucket_stats_request_class),
     row OF_BSN_GENTABLE_CLEAR_REPLY (Some MessageLen) (Some MessageLen) None (wire_types of_bsn_gentable_clear_reply_class),
     row OF_BSN_GENTABLE_CLEAR_REQUEST (Some MessageLen) (Some MessageLen) None (wire_types of_bsn_gentable_clear_request_class),
     row OF_BSN_GENTABLE_DESC_STATS_ENTRY (Some U16Len) (Some U16Len) None None,
     row OF_BSN_GENTABLE_DESC_STATS_REPLY (Some MessageLen) (Some MessageLen) None (wire_types of_bsn_gentable_desc_stats_reply_class),
     row OF_BSN_GENTABLE_DESC_STATS_REQUEST (Some MessageLen) (Some MessageLen) None (wire_types of_bsn_gentable_desc_stats_request_class),
     row OF_BSN_GENTABLE_ENTRY_ADD (Some MessageLen) (Some MessageLen) None (wire_types of_bsn_gentable_entry_add_class),
     row OF_BSN_GENTABLE_ENTRY_DELETE (Some MessageLen) (Some MessageLen) None (wire_types of_bsn_gentable_entry_delete_class),
     row OF_BSN_GENTABLE_ENTRY_DESC_STATS_ENTRY (Some U16Len) (Some U16Len) None None,
     row OF_BSN_GENTABLE_ENTRY_DESC_STATS_REPLY (Some MessageLen) (Some MessageLen) None (wire_types of_bsn_gentable_entry_desc_stats_reply_class),
     row OF_BSN_GENTABLE_ENTRY_DESC_STATS_REQUEST (Some MessageLen) (Some MessageLen) None (wire_types of_bsn_gentable_entry_desc_stats_request_class),
     row OF_BSN_GENTABLE_ENTRY_STATS_ENTRY (Some U16Len) (Some U16Len) None None,
     row OF_BSN_GENTABLE_ENTRY_STATS_REPLY (Some MessageLen) (Some MessageLen) None (wire_types of_bsn_gentable_entry_stats_reply_class),
     row OF_BSN_GENTABLE_ENTRY_STATS_REQUEST (Some MessageLen) (Some MessageLen) None (wire_types of_bsn_gentable_entry_stats_request_class),
     row OF_BSN_GENTABLE_SET_BUCKETS_SIZE (Some MessageLen) (Some MessageLen) None (wire_types of_bsn_gentable_set_buckets_size_class)]"

definition metadata_rows_15 :: "(int \<times> metadata) list" where
  "metadata_rows_15 =
    [row OF_BSN_GENTABLE_STATS_ENTRY None None None None,
     row OF_BSN_GENTABLE_STATS_REPLY (Some MessageLen) (Some MessageLen) None (wire_types of_bsn_gentable_stats_reply_class),
     row OF_BSN_GENTABLE_STATS_REQUEST (Some MessageLen) (Some MessageLen) None (wire_types of_bsn_gentable_stats_request_class),
     row OF_BSN_GET_SWITCH_PIPELINE_REPLY (Some MessageLen) (Some MessageLen) None (wire_types of_bsn_get_switch_pipeline_reply_class),
     row OF_BSN_GET_SWITCH_PIPELINE_REQUEST (Some MessageLen) (Some MessageLen) None (wire_types of_bsn_get_switch_pipeline_request_class),
     row OF_BSN_IMAGE_DESC_STATS_REPLY (Some MessageLen) (Some MessageLen) None (wire_types of_bsn_image_desc_stats_reply_class),
     row OF_BSN_IMAGE_DESC_STATS_REQUEST (Some MessageLen) (Some MessageLen) None (wire_types of_bsn_image_desc_stats_request_class),
     row OF_BSN_LACP_CONVERGENCE_NOTIF (Some MessageLen) (Some MessageLen) None (wire_types of_bsn_lacp_convergence_notif_class),
     row OF_BSN_LACP_STATS_ENTRY None None None None,
     row OF_BSN_LACP_STATS_REPLY (Some MessageLen) (Some MessageLen) None (wire_types of_bsn_lacp_stats_reply_class),
     row OF_BSN_LACP_STATS_REQUEST (Some MessageLen) (Some MessageLen) None (wire_types of_bsn_lacp_stats_request_class),
     row OF_BSN_LOG (Some MessageLen) (Some MessageLen) None (wire_types of_bsn_log_class),
     row OF_BSN_LUA_COMMAND_REPLY (Some MessageLen) (Some MessageLen) None (wire_types of_bsn_lua_command_reply_class),
     row OF_BSN_LUA_COMMAND_REQUEST (Some MessageLen) (Some MessageLen) None (wire_types of_bsn_lua_command_request_class),
     row OF_BSN_LUA_NOTIFICATION (Some MessageLen) (Some MessageLen) None (wire_types of_bsn_lua_notification_class),
     row OF_BSN_LUA_UPLOAD (Some MessageLen) (Some MessageLen) None (wire_types of_bsn_lua_upload_class),
     row OF_BSN_PORT_COUNTER_STATS_ENTRY (Some U16Len) (Some U16Len) None None,
     row OF_BSN_PORT_COUNTER_STATS_REPLY (Some MessageLen) (Some MessageLen) None (wire_types of_bsn_port_counter_stats_reply_class),
     row OF_BSN_PORT_COUNTER_STATS_REQUEST (Some MessageLen) (Some MessageLen) None (wire_types of_bsn_port_counter_stats_request_class),
     row OF_BSN_ROLE_STATUS (Some MessageLen) (Some MessageLen) None (wire_types of_bsn_role_status_class),
     row OF_BSN_SET_AUX_CXNS_REPLY (Some MessageLen) (Some MessageLen) None (wire_types of_bsn_set_aux_cxns_reply_class),
     row OF_BSN_SET_AUX_CXNS_REQUEST (Some MessageLen) (Some MessageLen) None (wire_types of_bsn_set_aux_cxns_request_class),
     row OF_BSN_SET_LACP_REPLY (Some MessageLen) (Some MessageLen) None (wire_types of_bsn_set_lacp_reply_class),
     row OF_BSN_SET_LACP_REQUEST (Some MessageLen) (Some MessageLen) None (wire_types of_bsn_set_lacp_request_class)]"

definition metadata_rows_16 :: "(int \<times> metadata) list" where
  "metadata_rows_16 =
    [row OF_BSN_SET_SWITCH_PIPELINE_REPLY (Some MessageLen) (Some MessageLen) None (wire_types of_bsn_set_switch_pipeline_reply_class),
     row OF_BSN_SET_SWITCH_PIPELINE_REQUEST (Some MessageLen) (Some MessageLen) None (wire_types of_bsn_set_switch_pipeline_request_class),
     row OF_BSN_SWITCH_PIPELINE_STATS_ENTRY None None None None,
     row OF_BSN_SWITCH_PIPELINE_STATS_REPLY (Some MessageLen) (Some MessageLen) None (wire_types of_bsn_switch_pipeline_stats_reply_class),
     row OF_BSN_SWITCH_PIPELINE_STATS_REQUEST (Some MessageLen) (Some MessageLen) None (wire_types of_bsn_switch_pipeline_stats_request_class),
     row OF_BSN_TABLE_CHECKSUM_STATS_ENTRY None None None None,
     row OF_BSN_TABLE_CHECKSUM_STATS_REPLY (Some MessageLen) (Some MessageLen) None (wire_types of_bsn_table_checksum_stats_reply_class),
     row OF_BSN_TABLE_CHECKSUM_STATS_REQUEST (Some MessageLen) (Some MessageLen) None (wire_types of_bsn_table_checksum_stats_request_class),
     row OF_BSN_TABLE_SET_BUCKETS_SIZE (Some MessageLen) (Some MessageLen) None (wire_types of_bsn_table_set_buckets_size_class),
     row OF_BSN_TIME_REPLY (Some MessageLen) (Some MessageLen) None (wire_types of_bsn_time_reply_class),
     row OF_BSN_TIME_REQUEST (Some MessageLen) (Some MessageLen) None (wire_types of_bsn_time_request_class),
     row OF_BSN_TLV (Some Tlv16Len) (Some Tlv16Len) (Some of_bsn_tlv_wire_object_id_get) None,
     row OF_BSN_TLV_ACTOR_KEY (Some Tlv16Len) (Some Tlv16Len) (Some of_bsn_tlv_wire_object_id_get) (wire_types of_bsn_tlv_actor_key_class),
     row OF_BSN_TLV_ACTOR_PORT_NUM (Some Tlv16Len) (Some Tlv16Len) (Some of_bsn_tlv_wire_object_id_get) (wire_types of_bsn_tlv_actor_port_num_class),
     row OF_BSN_TLV_ACTOR_PORT_PRIORITY (Some Tlv16Len) (Some Tlv16Len) (Some of_bsn_tlv_wire_object_id_get) (wire_types of_bsn_tlv_actor_port_priority_class),
     row OF_BSN_TLV_ACTOR_STATE (Some Tlv16Len) (Some Tlv16Len) (Some of_bsn_tlv_wire_object_id_get) (wire_types of_bsn_tlv_actor_state_class),
     row OF_BSN_TLV_ACTOR_SYSTEM_MAC (Some Tlv16Len) (Some Tlv16Len) (Some of_bsn_tlv_wire_object_id_get) (wire_types of_bsn_tlv_actor_system_mac_class),
     row OF_BSN_TLV_ACTOR_SYSTEM_PRIORITY (Some Tlv16Len) (Some Tlv16Len) (Some of_bsn_tlv_wire_object_id_get) (wire_types of_bsn_tlv_actor_system_priority_class),
     row OF_BSN_TLV_BROADCAST_QUERY_TIMEOUT (Some Tlv16Len) (Some Tlv16Len) (Some of_bsn_tlv_wire_object_id_get) (wire_types of_bsn_tlv_broadcast_query_timeout_class),
     row OF_BSN_TLV_BUCKET (Some Tlv16Len) (Some Tlv16Len) (Some of_bsn_tlv_wire_object_id_get) (wire_types of_bsn_tlv_bucket_class),
     row OF_BSN_TLV_CIRCUIT_ID (Some Tlv16Len) (Some Tlv16Len) (Some of_bsn_tlv_wire_object_id_get) (wire_types of_bsn_tlv_circuit_id_class),
     row OF_BSN_TLV_CONVERGENCE_STATUS (Some Tlv16Len) (Some Tlv16Len) (Some of_bsn_tlv_wire_object_id_get) (wire_types of_bsn_tlv_convergence_status_class),
     row OF_BSN_TLV_CRC_ENABLED (Some Tlv16Len) (Some Tlv16Len) (Some of_bsn_tlv_wire_object_id_get) (wire_types of_bsn_tlv_crc_enabled_class),
     row OF_BSN_TLV_DATA (Some Tlv16Len) (Some Tlv16Len) (Some of_bsn_tlv_wire_object_id_get) (wire_types of_bsn_tlv_data_class)]"

definition metadata_rows_17 :: "(int \<times> metadata) list" where
  "metadata_rows_17 =
    [row OF_BSN_TLV_ETH_DST (Some Tlv16Len) (Some Tlv16Len) (Some of_bsn_tlv_wire_object_id_get) (wire_types of_bsn_tlv_eth_dst_class),
     row OF_BSN_TLV_ETH_SRC (Some Tlv16Len) (Some Tlv16Len) (Some of_bsn_tlv_wire_object_id_get) (wire_types of_bsn_tlv_eth_src_class),
     row OF_BSN_TLV_EXTERNAL_GATEWAY_IP (Some Tlv16Len) (Some Tlv16Len) (Some of_bsn_tlv_wire_object_id_get) (wire_types of_bsn_tlv_external_gateway_ip_class),
     row OF_BSN_TLV_EXTERNAL_GATEWAY_MAC (Some Tlv16Len) (Some Tlv16Len) (Some of_bsn_tlv_wire_object_id_get) (wire_types of_bsn_tlv_external_gateway_mac_class),
     row OF_BSN_TLV_EXTERNAL_IP (Some Tlv16Len) (Some Tlv16Len) (Some of_bsn_tlv_wire_object_id_get) (wire_types of_bsn_tlv_external_ip_class),
     row OF_BSN_TLV_EXTERNAL_MAC (Some Tlv16Len) (Some Tlv16Len) (Some of_bsn_tlv_wire_object_id_get) (wire_types of_bsn_tlv_external_mac_class),
     row OF_BSN_TLV_EXTERNAL_NETMASK (Some Tlv16Len) (Some Tlv16Len) (Some of_bsn_tlv_wire_object_id_get) (wire_types of_bsn_tlv_external_netmask_class),
     row OF_BSN_TLV_HEADER_SIZE (Some Tlv16Len) (Some Tlv16Len) (Some of_bsn_tlv_wire_object_id_get) (wire_types of_bsn_tlv_header_size_class),
     row OF_BSN_TLV_ICMP_CODE (Some Tlv16Len) (Some Tlv16Len) (Some of_bsn_tlv_wire_object_id_get) (wire_types of_bsn_tlv_icmp_code_class),
     row OF_BSN_TLV_ICMP_ID (Some Tlv16Len) (Some Tlv16Len) (Some of_bsn_tlv_wire_object_id_get) (wire_types of_bsn_tlv_icmp_id_class),
     row OF_BSN_TLV_ICMP_TYPE (Some Tlv16Len) (Some Tlv16Len) (Some of_bsn_tlv_wire_object_id_get) (wire_types of_bsn_tlv_icmp_type_class),
     row OF_BSN_TLV_IDLE_NOTIFICATION (Some Tlv16Len) (Some Tlv16Len) (Some of_bsn_tlv_wire_object_id_get) (wire_types of_bsn_tlv_idle_notification_class),
     row OF_BSN_TLV_IDLE_TIME (Some Tlv16Len) (Some Tlv16Len) (Some of_bsn_tlv_wire_object_id_get) (wire_types of_bsn_tlv_idle_time_class),
     row OF_BSN_TLV_IDLE_TIMEOUT (Some Tlv16Len) (Some Tlv16Len) (Some of_bsn_tlv_wire_object_id_get) (wire_types of_bsn_tlv_idle_timeout_class),
     row OF_BSN_TLV_INTERNAL_GATEWAY_MAC (Some Tlv16Len) (Some Tlv16Len) (Some of_bsn_tlv_wire_object_id_get) (wire_types of_bsn_tlv_internal_gateway_mac_class),
     row OF_BSN_TLV_INTERNAL_MAC (Some Tlv16Len) (Some Tlv16Len) (Some of_bsn_tlv_wire_object_id_get) (wire_types of_bsn_tlv_internal_mac_class),
     row OF_BSN_TLV_INTERVAL (Some Tlv16Len) (Some Tlv16Len) (Some of_bsn_tlv_wire_object_id_get) (wire_types of_bsn_tlv_interval_class),
     row OF_BSN_TLV_IP_PROTO (Some Tlv16Len) (Some Tlv16Len) (Some of_bsn_tlv_wire_object_id_get) (wire_types of_bsn_tlv_ip_proto_class),
     row OF_BSN_TLV_IPV4 (Some Tlv16Len) (Some Tlv16Len) (Some of_bsn_tlv_wire_object_id_get) (wire_types of_bsn_tlv_ipv4_class),
     row OF_BSN_TLV_IPV4_DST (Some Tlv16Len) (Some Tlv16Len) (Some of_bsn_tlv_wire_object_id_get) (wire_types of_bsn_tlv_ipv4_dst_class),
     row OF_BSN_TLV_IPV4_NETMASK (Some Tlv16Len) (Some Tlv16Len) (Some of_bsn_tlv_wire_object_id_get) (wire_types of_bsn_tlv_ipv4_netmask_class),
     row OF_BSN_TLV_IPV4_SRC (Some Tlv16Len) (Some Tlv16Len) (Some of_bsn_tlv_wire_object_id_get) (wire_types of_bsn_tlv_ipv4_src_class),
     row OF_BSN_TLV_MAC (Some Tlv16Len) (Some Tlv16Len) (Some of_bsn_tlv_wire_object_id_get) (wire_types of_bsn_tlv_mac_class),
     row OF_BSN_TLV_MAC_MASK (Some Tlv16Len) (Some Tlv16Len) (Some of_bsn_tlv_wire_object_id_get) (wire_types of_bsn_tlv_mac_mask_class)]"

definition metadata_rows_18 :: "(int \<times> metadata) list" where
  "metadata_rows_18 =
    [row OF_BSN_TLV_MISS_PACKETS (Some Tlv16Len) (Some Tlv16Len) (Some of_bsn_tlv_wire_object_id_get) (wire_types of_bsn_tlv_miss_packets_class),
     row OF_BSN_TLV_MPLS_CONTROL_WORD (Some Tlv16Len) (Some Tlv16Len) (Some of_bsn_tlv_wire_object_id_get) (wire_types of_bsn_tlv_mpls_control_word_class),
     row OF_BSN_TLV_MPLS_LABEL (Some Tlv16Len) (Some Tlv16Len) (Some of_bsn_tlv_wire_object_id_get) (wire_types of_bsn_tlv_mpls_label_class),
     row OF_BSN_TLV_MPLS_SEQUENCED (Some Tlv16Len) (Some Tlv16Len) (Some of_bsn_tlv_wire_object_id_get) (wire_types of_bsn_tlv_mpls_sequenced_class),
     row OF_BSN_TLV_NAME (Some Tlv16Len) (Some Tlv16Len) (Some of_bsn_tlv_wire_object_id_get) (wire_types of_bsn_tlv_name_class),
     row OF_BSN_TLV_PARTNER_KEY (Some Tlv16Len) (Some Tlv16Len) (Some of_bsn_tlv_wire_object_id_get) (wire_types of_bsn_tlv_partner_key_class),
     row OF_BSN_TLV_PARTNER_PORT_NUM (Some Tlv16Len) (Some Tlv16Len) (Some of_bsn_tlv_wire_object_id_get) (wire_types of_bsn_tlv_partner_port_num_class),
     row OF_BSN_TLV_PARTNER_PORT_PRIORITY (Some Tlv16Len) (Some Tlv16Len) (Some of_bsn_tlv_wire_object_id_get) (wire_types of_bsn_tlv_partner_port_priority_class),
     row OF_BSN_TLV_PARTNER_STATE (Some Tlv16Len) (Some Tlv16Len) (Some of_bsn_tlv_wire_object_id_get) (wire_types of_bsn_tlv_partner_state_class),
     row OF_BSN_TLV_PARTNER_SYSTEM_MAC (Some Tlv16Len) (Some Tlv16Len) (Some of_bsn_tlv_wire_object_id_get) (wire_types of_bsn_tlv_partner_system_mac_class),
     row OF_BSN_TLV_PARTNER_SYSTEM_PRIORITY (Some Tlv16Len) (Some Tlv16Len) (Some of_bsn_tlv_wire_object_id_get) (wire_types of_bsn_tlv_partner_system_priority_class),
     row OF_BSN_TLV_PORT (Some Tlv16Len) (Some Tlv16Len) (Some of_bsn_tlv_wire_object_id_get) (wire_types of_bsn_tlv_port_class),
     row OF_BSN_TLV_PRIORITY (Some Tlv16Len) (Some Tlv16Len) (Some of_bsn_tlv_wire_object_id_get) (wire_types of_bsn_tlv_priority_class),
     row OF_BSN_TLV_QUEUE_ID (Some Tlv16Len) (Some Tlv16Len) (Some of_bsn_tlv_wire_object_id_get) (wire_types of_bsn_tlv_queue_id_class),
     row OF_BSN_TLV_QUEUE_WEIGHT (Some Tlv16Len) (Some Tlv16Len) (Some of_bsn_tlv_wire_object_id_get) (wire_types of_bsn_tlv_queue_weight_class),
     row OF_BSN_TLV_REFERENCE (Some Tlv16Len) (Some Tlv16Len) (Some of_bsn_tlv_wire_object_id_get) (wire_types of_bsn_tlv_reference_class),
     row OF_BSN_TLV_REPLY_PACKETS (Some Tlv16Len) (Some Tlv16Len) (Some of_bsn_tlv_wire_object_id_get) (wire_types of_bsn_tlv_reply_packets_class),
     row OF_BSN_TLV_REQUEST_PACKETS (Some Tlv16Len) (Some Tlv16Len) (Some of_bsn_tlv_wire_object_id_get) (wire_types of_bsn_tlv_request_packets_class),
     row OF_BSN_TLV_RX_BYTES (Some Tlv16Len) (Some Tlv16Len) (Some of_bsn_tlv_wire_object_id_get) (wire_types of_bsn_tlv_rx_bytes_class),
     row OF_BSN_TLV_RX_PACKETS (Some Tlv16Len) (Some Tlv16Len) (Some of_bsn_tlv_wire_object_id_get) (wire_types of_bsn_tlv_rx_packets_class),
     row OF_BSN_TLV_SAMPLING_RATE (Some Tlv16Len) (Some Tlv16Len) (Some of_bsn_tlv_wire_object_id_get) (wire_types of_bsn_tlv_sampling_rate_class),
     row OF_BSN_TLV_SET_LOOPBACK_MODE (Some Tlv16Len) (Some Tlv16Len) (Some of_bsn_tlv_wire_object_id_get) (wire_types of_bsn_tlv_set_loopback_mode_class),
     row OF_BSN_TLV_STRIP_MPLS_L2_ON_INGRESS (Some Tlv16Len) (Some Tlv16Len) (Some of_bsn_tlv_wire_object_id_get) (wire_types of_bsn_tlv_strip_mpls_l2_on_ingress_class),
     row OF_BSN_TLV_STRIP_MPLS_L3_ON_INGRESS (Some Tlv16Len) (Some Tlv16Len) (Some of_bsn_tlv_wire_object_id_get) (wire_types of_bsn_tlv_strip_mpls_l3_on_ingress_class)]"

definition metadata_rows_19 :: "(int \<times> metadata) list" where
  "metadata_rows_19 =
    [row OF_BSN_TLV_STRIP_VLAN_ON_EGRESS (Some Tlv16Len) (Some Tlv16Len) (Some of_bsn_tlv_wire_object_id_get) (wire_types of_bsn_tlv_strip_vlan_on_egress_class),
     row OF_BSN_TLV_SUB_AGENT_ID (Some Tlv16Len) (Some Tlv16Len) (Some of_bsn_tlv_wire_object_id_get) (wire_types of_bsn_tlv_sub_agent_id_class),
     row OF_BSN_TLV_TCP_DST (Some Tlv16Len) (Some Tlv16Len) (Some of_bsn_tlv_wire_object_id_get) (wire_types of_bsn_tlv_tcp_dst_class),
     row OF_BSN_TLV_TCP_SRC (Some Tlv16Len) (Some Tlv16Len) (Some of_bsn_tlv_wire_object_id_get) (wire_types of_bsn_tlv_tcp_src_class),
     row OF_BSN_TLV_TX_BYTES (Some Tlv16Len) (Some Tlv16Len) (Some of_bsn_tlv_wire_object_id_get) (wire_types of_bsn_tlv_tx_bytes_class),
     row OF_BSN_TLV_TX_PACKETS (Some Tlv16Len) (Some Tlv16Len) (Some of_bsn_tlv_wire_object_id_get) (wire_types of_bsn_tlv_tx_packets_class),
     row OF_BSN_TLV_UDF_ANCHOR (Some Tlv16Len) (Some Tlv16Len) (Some of_bsn_tlv_wire_object_id_get) (wire_types of_bsn_tlv_udf_anchor_class),
     row OF_BSN_TLV_UDF_ID (Some Tlv16Len) (Some Tlv16Len) (Some of_bsn_tlv_wire_object_id_get) (wire_types of_bsn_tlv_udf_id_class),
     row OF_BSN_TLV_UDF_LENGTH (Some Tlv16Len) (Some Tlv16Len) (Some of_bsn_tlv_wire_object_id_get) (wire_types of_bsn_tlv_udf_length_class),
     row OF_BSN_TLV_UDF_OFFSET (Some Tlv16Len) (Some Tlv16Len) (Some of_bsn_tlv_wire_object_id_get) (wire_types of_bsn_tlv_udf_offset_class),
     row OF_BSN_TLV_UDP_DST (Some Tlv16Len) (Some Tlv16Len) (Some of_bsn_tlv_wire_object_id_get) (wire_types of_bsn_tlv_udp_dst_class),
     row OF_BSN_TLV_UDP_SRC (Some Tlv16Len) (Some Tlv16Len) (Some of_bsn_tlv_wire_object_id_get) (wire_types of_bsn_tlv_udp_src_class),
     row OF_BSN_TLV_UNICAST_QUERY_TIMEOUT (Some Tlv16Len) (Some Tlv16Len) (Some of_bsn_tlv_wire_object_id_get) (wire_types of_bsn_tlv_unicast_query_timeout_class),
     row OF_BSN_TLV_VLAN_PCP (Some Tlv16Len) (Some Tlv16Len) (Some of_bsn_tlv_wire_object_id_get) (wire_types of_bsn_tlv_vlan_pcp_class),
     row OF_BSN_TLV_VLAN_VID (Some Tlv16Len) (Some Tlv16Len) (Some of_bsn_tlv_wire_object_id_get) (wire_types of_bsn_tlv_vlan_vid_class),
     row OF_BSN_TLV_VRF (Some Tlv16Len) (Some Tlv16Len) (Some of_bsn_tlv_wire_object_id_get) (wire_types of_bsn_tlv_vrf_class),
     row OF_BSN_VLAN_COUNTER_STATS_ENTRY (Some U16Len) (Some U16Len) None None,
     row OF_BSN_VLAN_COUNTER_STATS_REPLY (Some MessageLen) (Some MessageLen) None (wire_types of_bsn_vlan_counter_stats_reply_class),
     row OF_BSN_VLAN_COUNTER_STATS_REQUEST (Some MessageLen) (Some MessageLen) None (wire_types of_bsn_vlan_counter_stats_request_class),
     row OF_BSN_VRF_COUNTER_STATS_ENTRY (Some U16Len) (Some U16Len) None None,
     row OF_BSN_VRF_COUNTER_STATS_REPLY (Some MessageLen) (Some MessageLen) None (wire_types of_bsn_vrf_counter_stats_reply_class),
     row OF_BSN_VRF_COUNTER_STATS_REQUEST (Some MessageLen) (Some MessageLen) None (wire_types of_bsn_vrf_counter_stats_request_class),
     row OF_HELLO_ELEM (Some Tlv16Len) (Some Tlv16Len) (Some of_hello_elem_wire_object_id_get) None,
     row OF_HELLO_ELEM_VERSIONBITMAP (Some Tlv16Len) (Some Tlv16Len) (Some of_hello_elem_wire_object_id_get) (wire_types of_hello_elem_versionbitmap_class)]"

definition metadata_rows_20 :: "(int \<times> metadata) list" where
  "metadata_rows_20 =
    [row OF_INSTRUCTION_ID (Some Tlv16Len) (Some Tlv16Len) (Some of_instruction_id_wire_object_id_get) None,
     row OF_INSTRUCTION_ID_APPLY_ACTIONS (Some Tlv16Len) (Some Tlv16Len) (Some of_instruction_id_wire_object_id_get) (wire_types of_instruction_id_apply_actions_class),
     row OF_INSTRUCTION_BSN (Some Tlv16Len) (Some Tlv16Len) (Some of_instruction_wire_object_id_get) None,
     row OF_INSTRUCTION_ID_EXPERIMENTER (Some Tlv16Len) (Some Tlv16Len) (Some of_instruction_id_wire_object_id_get) None,
     row OF_INSTRUCTION_ID_BSN (Some Tlv16Len) (Some Tlv16Len) (Some of_instruction_id_wire_object_id_get) None,
     row OF_INSTRUCTION_BSN_ARP_OFFLOAD (Some Tlv16Len) (Some Tlv16Len) (Some of_instruction_wire_object_id_get) (wire_types of_instruction_bsn_arp_offload_class),
     row OF_INSTRUCTION_ID_BSN_ARP_OFFLOAD (Some Tlv16Len) (Some Tlv16Len) (Some of_instruction_id_wire_object_id_get) (wire_types of_instruction_id_bsn_arp_offload_class),
     row OF_INSTRUCTION_BSN_AUTO_NEGOTIATION (Some Tlv16Len) (Some Tlv16Len) (Some of_instruction_wire_object_id_get) (wire_types of_instruction_bsn_auto_negotiation_class),
     row OF_INSTRUCTION_ID_BSN_AUTO_NEGOTIATION (Some Tlv16Len) (Some Tlv16Len) (Some of_instruction_id_wire_object_id_get) (wire_types of_instruction_id_bsn_auto_negotiation_class),
     row OF_INSTRUCTION_BSN_DENY (Some Tlv16Len) (Some Tlv16Len) (Some of_instruction_wire_object_id_get) (wire_types of_instruction_bsn_deny_class),
     row OF_INSTRUCTION_ID_BSN_DENY (Some Tlv16Len) (Some Tlv16Len) (Some of_instruction_id_wire_object_id_get) (wire_types of_instruction_id_bsn_deny_class),
     row OF_INSTRUCTION_BSN_DHCP_OFFLOAD (Some Tlv16Len) (Some Tlv16Len) (Some of_instruction_wire_object_id_get) (wire_types of_instruction_bsn_dhcp_offload_class),
     row OF_INSTRUCTION_ID_BSN_DHCP_OFFLOAD (Some Tlv16Len) (Some Tlv16Len) (Some of_instruction_id_wire_object_id_get) (wire_types of_instruction_id_bsn_dhcp_offload_class),
     row OF_INSTRUCTION_BSN_DISABLE_L3 (Some Tlv16Len) (Some Tlv16Len) (Some of_instruction_wire_object_id_get) (wire_types of_instruction_bsn_disable_l3_class),
     row OF_INSTRUCTION_ID_BSN_DISABLE_L3 (Some Tlv16Len) (Some Tlv16Len) (Some of_instruction_id_wire_object_id_get) (wire_types of_instruction_id_bsn_disable_l3_class),
     row OF_INSTRUCTION_BSN_DISABLE_SPLIT_HORIZON_CHECK (Some Tlv16Len) (Some Tlv16Len) (Some of_instruction_wire_object_id_get) (wire_types of_instruction_bsn_disable_split_horizon_check_class),
     row OF_INSTRUCTION_ID_BSN_DISABLE_SPLIT_HORIZON_CHECK (Some Tlv16Len) (Some Tlv16Len) (Some of_instruction_id_wire_object_id_get) (wire_types of_instruction_id_bsn_disable_split_horizon_check_class),
     row OF_INSTRUCTION_BSN_DISABLE_SRC_MAC_CHECK (Some Tlv16Len) (Some Tlv16Len) (Some of_instruction_wire_object_id_get) (wire_types of_instruction_bsn_disable_src_mac_check_class),
     row OF_INSTRUCTION_ID_BSN_DISABLE_SRC_MAC_CHECK (Some Tlv16Len) (Some Tlv16Len) (Some of_instruction_id_wire_object_id_get) (wire_types of_instruction_id_bsn_disable_src_mac_check_class),
     row OF_INSTRUCTION_BSN_DISABLE_VLAN_COUNTERS (Some Tlv16Len) (Some Tlv16Len) (Some of_instruction_wire_object_id_get) (wire_types of_instruction_bsn_disable_vlan_counters_class),
     row OF_INSTRUCTION_ID_BSN_DISABLE_VLAN_COUNTERS (Some Tlv16Len) (Some Tlv16Len) (Some of_instruction_id_wire_object_id_get) (wire_types of_instruction_id_bsn_disable_vlan_counters_class),
     row OF_INSTRUCTION_BSN_INTERNAL_PRIORITY (Some Tlv16Len) (Some Tlv16Len) (Some of_instruction_wire_object_id_get) (wire_types of_instruction_bsn_internal_priority_class),
     row OF_INSTRUCTION_ID_BSN_INTERNAL_PRIORITY (Some Tlv16Len) (Some Tlv16Len) (Some of_instruction_id_wire_object_id_get) (wire_types of_instruction_id_bsn_internal_priority_class),
     row OF_INSTRUCTION_BSN_PACKET_OF_DEATH (Some Tlv16Len) (Some Tlv16Len) (Some of_instruction_wire_object_id_get) (wire_types of_instruction_bsn_packet_of_death_class)]"

definition metadata_rows_21 :: "(int \<times> metadata) list" where
  "metadata_rows_21 =
    [row OF_INSTRUCTION_ID_BSN_PACKET_OF_DEATH (Some Tlv16Len) (Some Tlv16Len) (Some of_instruction_id_wire_object_id_get) (wire_types of_instruction_id_bsn_packet_of_death_class),
     row OF_INSTRUCTION_BSN_PERMIT (Some Tlv16Len) (Some Tlv16Len) (Some of_instruction_wire_object_id_get) (wire_types of_instruction_bsn_permit_class),
     row OF_INSTRUCTION_ID_BSN_PERMIT (Some Tlv16Len) (Some Tlv16Len) (Some of_instruction_id_wire_object_id_get) (wire_types of_instruction_id_bsn_permit_class),
     row OF_INSTRUCTION_BSN_PRIORITIZE_PDUS (Some Tlv16Len) (Some Tlv16Len) (Some of_instruction_wire_object_id_get) (wire_types of_instruction_bsn_prioritize_pdus_class),
     row OF_INSTRUCTION_ID_BSN_PRIORITIZE_PDUS (Some Tlv16Len) (Some Tlv16Len) (Some of_instruction_id_wire_object_id_get) (wire_types of_instruction_id_bsn_prioritize_pdus_class),
     row OF_INSTRUCTION_BSN_REQUIRE_VLAN_XLATE (Some Tlv16Len) (Some Tlv16Len) (Some of_instruction_wire_object_id_get) (wire_types of_instruction_bsn_require_vlan_xlate_class),
     row OF_INSTRUCTION_ID_BSN_REQUIRE_VLAN_XLATE (Some Tlv16Len) (Some Tlv16Len) (Some of_instruction_id_wire_object_id_get) (wire_types of_instruction_id_bsn_require_vlan_xlate_class),
     row OF_INSTRUCTION_BSN_SPAN_DESTINATION (Some Tlv16Len) (Some Tlv16Len) (Some of_instruction_wire_object_id_get) (wire_types of_instruction_bsn_span_destination_class),
     row OF_INSTRUCTION_ID_BSN_SPAN_DESTINATION (Some Tlv16Len) (Some Tlv16Len) (Some of_instruction_id_wire_object_id_get) (wire_types of_instruction_id_bsn_span_destination_class),
     row OF_INSTRUCTION_ID_CLEAR_ACTIONS (Some Tlv16Len) (Some Tlv16Len) (Some of_instruction_id_wire_object_id_get) (wire_types of_instruction_id_clear_actions_class),
     row OF_INSTRUCTION_ID_GOTO_TABLE (Some Tlv16Len) (Some Tlv16Len) (Some of_instruction_id_wire_object_id_get) (wire_types of_instruction_id_goto_table_class),
     row OF_INSTRUCTION_METER (Some Tlv16Len) (Some Tlv16Len) (Some of_instruction_wire_object_id_get) (wire_types of_instruction_meter_class),
     row OF_INSTRUCTION_ID_METER (Some Tlv16Len) (Some Tlv16Len) (Some of_instruction_id_wire_object_id_get) (wire_types of_instruction_id_meter_class),
     row OF_INSTRUCTION_ID_WRITE_ACTIONS (Some Tlv16Len) (Some Tlv16Len) (Some of_instruction_id_wire_object_id_get) (wire_types of_instruction_id_write_actions_class),
     row OF_INSTRUCTION_ID_WRITE_METADATA (Some Tlv16Len) (Some Tlv16Len) (Some of_instruction_id_wire_object_id_get) (wire_types of_instruction_id_write_metadata_class),
     row OF_METER_BAND (Some Tlv16Len) (Some Tlv16Len) (Some of_meter_band_wire_object_id_get) None,
     row OF_METER_BAND_DROP (Some Tlv16Len) (Some Tlv16Len) (Some of_meter_band_wire_object_id_get) (wire_types of_meter_band_drop_class),
     row OF_METER_BAND_DSCP_REMARK (Some Tlv16Len) (Some Tlv16Len) (Some of_meter_band_wire_object_id_get) (wire_types of_meter_band_dscp_remark_class),
     row OF_METER_BAND_EXPERIMENTER (Some Tlv16Len) (Some Tlv16Len) (Some of_meter_band_wire_object_id_get) (wire_types of_meter_band_experimenter_class),
     row OF_METER_BAND_STATS None None None None,
     row OF_METER_CONFIG (Some U16Len) (Some U16Len) None None,
     row OF_METER_CONFIG_STATS_REPLY (Some MessageLen) (Some MessageLen) None (wire_types of_meter_config_stats_reply_class),
     row OF_METER_CONFIG_STATS_REQUEST (Some MessageLen) (Some MessageLen) None (wire_types of_meter_config_stats_request_class),
     row OF_METER_FEATURES None None None None]"

definition metadata_rows_22 :: "(int \<times> metadata) list" where
  "metadata_rows_22 =
    [row OF_METER_FEATURES_STATS_REPLY (Some MessageLen) (Some MessageLen) None (wire_types of_meter_features_stats_reply_class),
     row OF_METER_FEATURES_STATS_REQUEST (Some MessageLen) (Some MessageLen) None (wire_types of_meter_features_stats_request_class),
     row OF_METER_MOD (Some MessageLen) (Some MessageLen) None (wire_types of_meter_mod_class),
     row OF_METER_MOD_FAILED_ERROR_MSG (Some MessageLen) (Some MessageLen) None (wire_types of_meter_mod_failed_error_msg_class),
     row OF_METER_STATS (Some MeterStatsLen) (Some MeterStatsLen) None None,
     row OF_METER_STATS_REPLY (Some MessageLen) (Some MessageLen) None (wire_types of_meter_stats_reply_class),
     row OF_METER_STATS_REQUEST (Some MessageLen) (Some MessageLen) None (wire_types of_meter_stats_request_class),
     row OF_OXM_IPV6_EXTHDR (Some OxmLen) None (Some of_oxm_wire_object_id_get) (wire_types of_oxm_ipv6_exthdr_class),
     row OF_OXM_IPV6_EXTHDR_MASKED (Some OxmLen) None (Some of_oxm_wire_object_id_get) (wire_types of_oxm_ipv6_exthdr_masked_class),
     row OF_OXM_MPLS_BOS (Some OxmLen) None (Some of_oxm_wire_object_id_get) (wire_types of_oxm_mpls_bos_class),
     row OF_OXM_MPLS_BOS_MASKED (Some OxmLen) None (Some of_oxm_wire_object_id_get) (wire_types of_oxm_mpls_bos_masked_class),
     row OF_OXM_TUNNEL_ID (Some OxmLen) None (Some of_oxm_wire_object_id_get) (wire_types of_oxm_tunnel_id_class),
     row OF_OXM_TUNNEL_ID_MASKED (Some OxmLen) None (Some of_oxm_wire_object_id_get) (wire_types of_oxm_tunnel_id_masked_class),
     row OF_PORT_DESC_STATS_REPLY (Some MessageLen) (Some MessageLen) None (wire_types of_port_desc_stats_reply_class),
     row OF_PORT_DESC_STATS_REQUEST (Some MessageLen) (Some MessageLen) None (wire_types of_port_desc_stats_request_class),
     row OF_TABLE_FEATURE_PROP (Some Tlv16Len) (Some Tlv16Len) (Some of_table_feature_prop_wire_object_id_get) None,
     row OF_TABLE_FEATURE_PROP_APPLY_ACTIONS (Some Tlv16Len) (Some Tlv16Len) (Some of_table_feature_prop_wire_object_id_get) (wire_types of_table_feature_prop_apply_actions_class),
     row OF_TABLE_FEATURE_PROP_APPLY_ACTIONS_MISS (Some Tlv16Len) (Some Tlv16Len) (Some of_table_feature_prop_wire_object_id_get) (wire_types of_table_feature_prop_apply_actions_miss_class),
     row OF_TABLE_FEATURE_PROP_APPLY_SETFIELD (Some Tlv16Len) (Some Tlv16Len) (Some of_table_feature_prop_wire_object_id_get) (wire_types of_table_feature_prop_apply_setfield_class),
     row OF_TABLE_FEATURE_PROP_APPLY_SETFIELD_MISS (Some Tlv16Len) (Some Tlv16Len) (Some of_table_feature_prop_wire_object_id_get) (wire_types of_table_feature_prop_apply_setfield_miss_class),
     row OF_TABLE_FEATURE_PROP_EXPERIMENTER (Some Tlv16Len) (Some Tlv16Len) (Some of_table_feature_prop_wire_object_id_get) None,
     row OF_TABLE_FEATURE_PROP_EXPERIMENTER_MISS (Some Tlv16Len) (Some Tlv16Len) (Some of_table_feature_prop_wire_object_id_get) None,
     row OF_TABLE_FEATURE_PROP_INSTRUCTIONS (Some Tlv16Len) (Some Tlv16Len) (Some of_table_feature_prop_wire_object_id_get) (wire_types of_table_feature_prop_instructions_class),
     row OF_TABLE_FEATURE_PROP_INSTRUCTIONS_MISS (Some Tlv16Len) (Some Tlv16Len) (Some of_table_feature_prop_wire_object_id_get) (wire_types of_table_feature_prop_instructions_miss_class)]"

definition metadata_rows_23 :: "(int \<times> metadata) list" where
  "metadata_rows_23 =
    [row OF_TABLE_FEATURE_PROP_MATCH (Some Tlv16Len) (Some Tlv16Len) (Some of_table_feature_prop_wire_object_id_get) (wire_types of_table_feature_prop_match_class),
     row OF_TABLE_FEATURE_PROP_NEXT_TABLES (Some Tlv16Len) (Some Tlv16Len) (Some of_table_feature_prop_wire_object_id_get) (wire_types of_table_feature_prop_next_tables_class),
     row OF_TABLE_FEATURE_PROP_NEXT_TABLES_MISS (Some Tlv16Len) (Some Tlv16Len) (Some of_table_feature_prop_wire_object_id_get) (wire_types of_table_feature_prop_next_tables_miss_class),
     row OF_TABLE_FEATURE_PROP_WILDCARDS (Some Tlv16Len) (Some Tlv16Len) (Some of_table_feature_prop_wire_object_id_get) (wire_types of_table_feature_prop_wildcards_class),
     row OF_TABLE_FEATURE_PROP_WRITE_ACTIONS (Some Tlv16Len) (Some Tlv16Len) (Some of_table_feature_prop_wire_object_id_get) (wire_types of_table_feature_prop_write_actions_class),
     row OF_TABLE_FEATURE_PROP_WRITE_ACTIONS_MISS (Some Tlv16Len) (Some Tlv16Len) (Some of_table_feature_prop_wire_object_id_get) (wire_types of_table_feature_prop_write_actions_miss_class),
     row OF_TABLE_FEATURE_PROP_WRITE_SETFIELD (Some Tlv16Len) (Some Tlv16Len) (Some of_table_feature_prop_wire_object_id_get) (wire_types of_table_feature_prop_write_setfield_class),
     row OF_TABLE_FEATURE_PROP_WRITE_SETFIELD_MISS (Some Tlv16Len) (Some Tlv16Len) (Some of_table_feature_prop_wire_object_id_get) (wire_types of_table_feature_prop_write_setfield_miss_class),
     row OF_TABLE_FEATURES (Some U16Len) (Some U16Len) None None,
     row OF_TABLE_FEATURES_FAILED_ERROR_MSG (Some MessageLen) (Some MessageLen) None (wire_types of_table_features_failed_error_msg_class),
     row OF_TABLE_FEATURES_STATS_REPLY (Some MessageLen) (Some MessageLen) None (wire_types of_table_features_stats_reply_class),
     row OF_TABLE_FEATURES_STATS_REQUEST (Some MessageLen) (Some MessageLen) None (wire_types of_table_features_stats_request_class),
     row OF_UINT32 None None None None,
     row OF_UINT64 None None None None,
     row OF_UINT8 None None None None,
     row OF_ASYNC_CONFIG_FAILED_ERROR_MSG (Some MessageLen) (Some MessageLen) None (wire_types of_async_config_failed_error_msg_class),
     row OF_ASYNC_CONFIG_PROP (Some Tlv16Len) (Some Tlv16Len) (Some of_async_config_prop_wire_object_id_get) None,
     row OF_ASYNC_CONFIG_PROP_EXPERIMENTER_MASTER (Some Tlv16Len) (Some Tlv16Len) (Some of_async_config_prop_wire_object_id_get) (wire_types of_async_config_prop_experimenter_master_class),
     row OF_ASYNC_CONFIG_PROP_EXPERIMENTER_SLAVE (Some Tlv16Len) (Some Tlv16Len) (Some of_async_config_prop_wire_object_id_get) (wire_types of_async_config_prop_experimenter_slave_class),
     row OF_ASYNC_CONFIG_PROP_FLOW_REMOVED_MASTER (Some Tlv16Len) (Some Tlv16Len) (Some of_async_config_prop_wire_object_id_get) (wire_types of_async_config_prop_flow_removed_master_class),
     row OF_ASYNC_CONFIG_PROP_FLOW_REMOVED_SLAVE (Some Tlv16Len) (Some Tlv16Len) (Some of_async_config_prop_wire_object_id_get) (wire_types of_async_config_prop_flow_removed_slave_class),
     row OF_ASYNC_CONFIG_PROP_PACKET_IN_MASTER (Some Tlv16Len) (Some Tlv16Len) (Some of_async_config_prop_wire_object_id_get) (wire_types of_async_config_prop_packet_in_master_class),
     row OF_ASYNC_CONFIG_PROP_PACKET_IN_SLAVE (Some Tlv16Len) (Some Tlv16Len) (Some of_async_config_prop_wire_object_id_get) (wire_types of_async_config_prop_packet_in_slave_class),
     row OF_ASYNC_CONFIG_PROP_PORT_STATUS_MASTER (Some Tlv16Len) (Some Tlv16Len) (Some of_async_config_prop_wire_object_id_get) (wire_types of_async_config_prop_port_status_master_class)]"

definition metadata_rows_24 :: "(int \<times> metadata) list" where
  "metadata_rows_24 =
    [row OF_ASYNC_CONFIG_PROP_PORT_STATUS_SLAVE (Some Tlv16Len) (Some Tlv16Len) (Some of_async_config_prop_wire_object_id_get) (wire_types of_async_config_prop_port_status_slave_class),
     row OF_ASYNC_CONFIG_PROP_REQUESTFORWARD_MASTER (Some Tlv16Len) (Some Tlv16Len) (Some of_async_config_prop_wire_object_id_get) (wire_types of_async_config_prop_requestforward_master_class),
     row OF_ASYNC_CONFIG_PROP_REQUESTFORWARD_SLAVE (Some Tlv16Len) (Some Tlv16Len) (Some of_async_config_prop_wire_object_id_get) (wire_types of_async_config_prop_requestforward_slave_class),
     row OF_ASYNC_CONFIG_PROP_ROLE_STATUS_MASTER (Some Tlv16Len) (Some Tlv16Len) (Some of_async_config_prop_wire_object_id_get) (wire_types of_async_config_prop_role_status_master_class),
     row OF_ASYNC_CONFIG_PROP_ROLE_STATUS_SLAVE (Some Tlv16Len) (Some Tlv16Len) (Some of_async_config_prop_wire_object_id_get) (wire_types of_async_config_prop_role_status_slave_class),
     row OF_ASYNC_CONFIG_PROP_TABLE_STATUS_MASTER (Some Tlv16Len) (Some Tlv16Len) (Some of_async_config_prop_wire_object_id_get) (wire_types of_async_config_prop_table_status_master_class),
     row OF_ASYNC_CONFIG_PROP_TABLE_STATUS_SLAVE (Some Tlv16Len) (Some Tlv16Len) (Some of_async_config_prop_wire_object_id_get) (wire_types of_async_config_prop_table_status_slave_class),
     row OF_BAD_PROPERTY_ERROR_MSG (Some MessageLen) (Some MessageLen) None (wire_types of_bad_property_error_msg_class),
     row OF_BUNDLE_ADD_MSG (Some MessageLen) (Some MessageLen) None (wire_types of_bundle_add_msg_class),
     row OF_BUNDLE_CTRL_MSG (Some MessageLen) (Some MessageLen) None (wire_types of_bundle_ctrl_msg_class),
     row OF_BUNDLE_FAILED_ERROR_MSG (Some MessageLen) (Some MessageLen) None (wire_types of_bundle_failed_error_msg_class),
     row OF_BUNDLE_PROP (Some Tlv16Len) (Some Tlv16Len) (Some of_bundle_prop_wire_object_id_get) None,
     row OF_BUNDLE_PROP_EXPERIMENTER (Some Tlv16Len) (Some Tlv16Len) (Some of_bundle_prop_wire_object_id_get) None,
     row OF_FLOW_MONITOR_FAILED_ERROR_MSG (Some MessageLen) (Some MessageLen) None (wire_types of_flow_monitor_failed_error_msg_class),
     row OF_OXM_PBB_UCA (Some OxmLen) None (Some of_oxm_wire_object_id_get) (wire_types of_oxm_pbb_uca_class),
     row OF_OXM_PBB_UCA_MASKED (Some OxmLen) None (Some of_oxm_wire_object_id_get) (wire_types of_oxm_pbb_uca_masked_class),
     row OF_PORT_DESC_PROP (Some Tlv16Len) (Some Tlv16Len) (Some of_port_desc_prop_wire_object_id_get) None,
     row OF_PORT_DESC_PROP_EXPERIMENTER (Some Tlv16Len) (Some Tlv16Len) (Some of_port_desc_prop_wire_object_id_get) None,
     row OF_PORT_DESC_PROP_BSN (Some Tlv16Len) (Some Tlv16Len) (Some of_port_desc_prop_wire_object_id_get) None,
     row OF_PORT_DESC_PROP_BSN_UPLINK (Some Tlv16Len) (Some Tlv16Len) (Some of_port_desc_prop_wire_object_id_get) (wire_types of_port_desc_prop_bsn_uplink_class),
     row OF_PORT_DESC_PROP_ETHERNET (Some Tlv16Len) (Some Tlv16Len) (Some of_port_desc_prop_wire_object_id_get) (wire_types of_port_desc_prop_ethernet_class),
     row OF_PORT_DESC_PROP_OPTICAL (Some Tlv16Len) (Some Tlv16Len) (Some of_port_desc_prop_wire_object_id_get) (wire_types of_port_desc_prop_optical_class),
     row OF_PORT_MOD_PROP (Some Tlv16Len) (Some Tlv16Len) (Some of_port_mod_prop_wire_object_id_get) None,
     row OF_PORT_MOD_PROP_ETHERNET (Some Tlv16Len) (Some Tlv16Len) (Some of_port_mod_prop_wire_object_id_get) (wire_types of_port_mod_prop_ethernet_class)]"

definition metadata_rows_25 :: "(int \<times> metadata) list" where
  "metadata_rows_25 =
    [row OF_PORT_MOD_PROP_EXPERIMENTER (Some Tlv16Len) (Some Tlv16Len) (Some of_port_mod_prop_wire_object_id_get) None,
     row OF_PORT_MOD_PROP_OPTICAL (Some Tlv16Len) (Some Tlv16Len) (Some of_port_mod_prop_wire_object_id_get) (wire_types of_port_mod_prop_optical_class),
     row OF_PORT_STATS_PROP (Some Tlv16Len) (Some Tlv16Len) (Some of_port_stats_prop_wire_object_id_get) None,
     row OF_PORT_STATS_PROP_ETHERNET (Some Tlv16Len) (Some Tlv16Len) (Some of_port_stats_prop_wire_object_id_get) (wire_types of_port_stats_prop_ethernet_class),
     row OF_PORT_STATS_PROP_EXPERIMENTER (Some Tlv16Len) (Some Tlv16Len) (Some of_port_stats_prop_wire_object_id_get) None,
     row OF_PORT_STATS_PROP_OPTICAL (Some Tlv16Len) (Some Tlv16Len) (Some of_port_stats_prop_wire_object_id_get) (wire_types of_port_stats_prop_optical_class),
     row OF_QUEUE_DESC (Some QueueDescLen) (Some QueueDescLen) None None,
     row OF_QUEUE_DESC_PROP (Some Tlv16Len) (Some Tlv16Len) (Some of_queue_desc_prop_wire_object_id_get) None,
     row OF_QUEUE_DESC_PROP_EXPERIMENTER (Some Tlv16Len) (Some Tlv16Len) (Some of_queue_desc_prop_wire_object_id_get) None,
     row OF_QUEUE_DESC_PROP_MAX_RATE (Some Tlv16Len) (Some Tlv16Len) (Some of_queue_desc_prop_wire_object_id_get) (wire_types of_queue_desc_prop_max_rate_class),
     row OF_QUEUE_DESC_PROP_MIN_RATE (Some Tlv16Len) (Some Tlv16Len) (Some of_queue_desc_prop_wire_object_id_get) (wire_types of_queue_desc_prop_min_rate_class),
     row OF_QUEUE_DESC_STATS_REPLY (Some MessageLen) (Some MessageLen) None (wire_types of_queue_desc_stats_reply_class),
     row OF_QUEUE_DESC_STATS_REQUEST (Some MessageLen) (Some MessageLen) None (wire_types of_queue_desc_stats_request_class),
     row OF_QUEUE_STATS_PROP (Some Tlv16Len) (Some Tlv16Len) (Some of_queue_stats_prop_wire_object_id_get) None,
     row OF_QUEUE_STATS_PROP_EXPERIMENTER (Some Tlv16Len) (Some Tlv16Len) (Some of_queue_stats_prop_wire_object_id_get) None,
     row OF_REQUESTFORWARD (Some MessageLen) (Some MessageLen) None (wire_types of_requestforward_class),
     row OF_ROLE_PROP (Some Tlv16Len) (Some Tlv16Len) (Some of_role_prop_wire_object_id_get) None,
     row OF_ROLE_PROP_EXPERIMENTER (Some Tlv16Len) (Some Tlv16Len) (Some of_role_prop_wire_object_id_get) None,
     row OF_ROLE_STATUS (Some MessageLen) (Some MessageLen) None (wire_types of_role_status_class),
     row OF_TABLE_DESC (Some U16Len) (Some U16Len) None None,
     row OF_TABLE_DESC_STATS_REPLY (Some MessageLen) (Some MessageLen) None (wire_types of_table_desc_stats_reply_class),
     row OF_TABLE_DESC_STATS_REQUEST (Some MessageLen) (Some MessageLen) None (wire_types of_table_desc_stats_request_class),
     row OF_TABLE_FEATURE_PROP_TABLE_SYNC_FROM (Some Tlv16Len) (Some Tlv16Len) (Some of_table_feature_prop_wire_object_id_get) (wire_types of_table_feature_prop_table_sync_from_class),
     row OF_TABLE_MOD_PROP (Some Tlv16Len) (Some Tlv16Len) (Some of_table_mod_prop_wire_object_id_get) None]"

definition metadata_rows_26 :: "(int \<times> metadata) list" where
  "metadata_rows_26 =
    [row OF_TABLE_MOD_PROP_EVICTION (Some Tlv16Len) (Some Tlv16Len) None (wire_types of_table_mod_prop_eviction_class),
     row OF_TABLE_MOD_PROP_EXPERIMENTER (Some Tlv16Len) (Some Tlv16Len) (Some of_table_mod_prop_experimenter_wire_object_id_get) None,
     row OF_TABLE_MOD_PROP_VACANCY (Some Tlv16Len) (Some Tlv16Len) None (wire_types of_table_mod_prop_vacancy_class),
     row OF_TABLE_STATUS (Some MessageLen) (Some MessageLen) None (wire_types of_table_status_class)]"

definition metadata_table :: "(int \<times> metadata) list" where
  "metadata_table = metadata_rows_00 @
     metadata_rows_01 @
     metadata_rows_02 @
     metadata_rows_03 @
     metadata_rows_04 @
     metadata_rows_05 @
     metadata_rows_06 @
     metadata_rows_07 @
     metadata_rows_08 @
     metadata_rows_09 @
     metadata_rows_10 @
     metadata_rows_11 @
     metadata_rows_12 @
     metadata_rows_13 @
     metadata_rows_14 @
     metadata_rows_15 @
     metadata_rows_16 @
     metadata_rows_17 @
     metadata_rows_18 @
     metadata_rows_19 @
     metadata_rows_20 @
     metadata_rows_21 @
     metadata_rows_22 @
     metadata_rows_23 @
     metadata_rows_24 @
     metadata_rows_25 @
     metadata_rows_26"

lemmas metadata_rows = metadata_rows_00_def metadata_rows_01_def metadata_rows_02_def metadata_rows_03_def metadata_rows_04_def metadata_rows_05_def metadata_rows_06_def metadata_rows_07_def metadata_rows_08_def metadata_rows_09_def metadata_rows_10_def metadata_rows_11_def metadata_rows_12_def metadata_rows_13_def metadata_rows_14_def metadata_rows_15_def metadata_rows_16_def metadata_rows_17_def metadata_rows_18_def metadata_rows_19_def metadata_rows_20_def metadata_rows_21_def metadata_rows_22_def metadata_rows_23_def metadata_rows_24_def metadata_rows_25_def metadata_rows_26_def

abbreviation (input) "OF_ERROR_PARSE \<equiv> (-6 :: int)"

text \<open>Ids without an initialiser in the table have null pointers.\<close>

definition loci_class_metadata :: "int \<Rightarrow> metadata res" where
  "loci_class_metadata i =
     (if 0 \<le> i \<and> i < 683 then
        (case map_of metadata_table i of
           None \<Rightarrow> Inr \<lparr>wire_length_getter = None, wire_length_setter = None, wire_type_getter = None, wire_type_setter = None\<rparr>
         | Some m \<Rightarrow> Inr m)
      else Inl OutOfBounds)"

text \<open>The setters of \<^verbatim>\<open>src/of_type_maps.c\<close>; an OXM field's length has none.\<close>

fun wire_length_set :: "length_kind \<Rightarrow> of_object \<Rightarrow> int \<Rightarrow> of_object res" where
  "wire_length_set MessageLen = of_object_message_wire_length_set"
| "wire_length_set Tlv16Len = of_tlv16_wire_length_set"
| "wire_length_set OxmLen = (\<lambda>obj n. Inl NullDeref)"
| "wire_length_set U16Len = of_u16_len_wire_length_set"
| "wire_length_set PacketQueueLen = of_packet_queue_wire_length_set"
| "wire_length_set PortDescLen = of_port_desc_wire_length_set"
| "wire_length_set PortStatsLen = of_port_stats_entry_wire_length_set"
| "wire_length_set QueueStatsLen = of_queue_stats_entry_wire_length_set"
| "wire_length_set QueueDescLen = of_queue_desc_wire_length_set"
| "wire_length_set MeterStatsLen = of_meter_stats_wire_length_set"

definition of_object_wire_length_set :: "of_object \<Rightarrow> int \<Rightarrow> of_object res" where
  "of_object_wire_length_set obj bytes =
     bnd (loci_class_metadata (object_id obj)) (\<lambda>m.
     case wire_length_setter m of None \<Rightarrow> Inr obj | Some k \<Rightarrow> wire_length_set k obj bytes)"

definition of_object_wire_type_set :: "of_object \<Rightarrow> of_object res" where
  "of_object_wire_type_set obj =
     bnd (loci_class_metadata (object_id obj)) (\<lambda>m.
     case wire_type_setter m of None \<Rightarrow> Inr obj | Some cases \<Rightarrow> push_wire_types cases obj)"

text \<open>
  \<open>of_object_wire_init\<close>: the type and the length of an object whose place in the buffer is known are taken from there.
\<close>

definition of_object_wire_init :: "of_object \<Rightarrow> int \<Rightarrow> int \<Rightarrow> (int \<times> of_object) res" where
  "of_object_wire_init obj base_object_id max_len =
     bnd (loci_class_metadata (object_id obj)) (\<lambda>m.
     bnd (case wire_type_getter m of None \<Rightarrow> Inr obj
          | Some g \<Rightarrow> bnd (object_getter g obj) (\<lambda>i.
              of_object_init_map i (obj\<lparr>object_id := i\<rparr>) (obj_version obj) (-1) False)) (\<lambda>obj.
     bnd (loci_class_metadata (object_id obj)) (\<lambda>m.
     case wire_length_getter m of
       None \<Rightarrow> bnd (of_object_fixed_len (obj_version obj) base_object_id) (\<lambda>n.
         Inr (OF_ERROR_NONE, obj\<lparr>obj_length := n\<rparr>))
     | Some k \<Rightarrow> bnd (wire_length_get k obj) (\<lambda>len.
         if len < 0 \<or> (max_len > 0 \<and> len > max_len) then Inr (OF_ERROR_PARSE, obj)
         else Inr (OF_ERROR_NONE, obj\<lparr>obj_length := len\<rparr>)))))"

end
