(* ===== verification/Family.thy ===== *)
theory Family
  imports Metadata
begin

text \<open>
  Objects that share a wire buffer (\<^verbatim>\<open>src/of_object.c\<close>): a list bound to a message, an element bound to a list. They
  are kept in a store, in which an object refers to its buffer and to its parent by address, so that what is
  done through one of them is seen through the others. Appending to a list, and the update of the lengths of an
  object and its ancestors.
\<close>

subsection \<open>The store\<close>

record cell =
  cell_buf :: "int option"
  cell_parent :: "int option"
  cell_offset :: int
  cell_id :: int
  cell_length :: int
  cell_version :: int

record store =
  cells :: "int \<Rightarrow> cell option"
  bufs :: "int \<Rightarrow> wire_buffer option"

text \<open>The object at an address, together with the buffer it points to; writing it back. No operation moves a pointer this way.\<close>

definition cell_object :: "store \<Rightarrow> cell \<Rightarrow> of_object res" where
  "cell_object s c =
     bnd (case cell_buf c of None \<Rightarrow> Inr None
          | Some r \<Rightarrow> (case bufs s r of None \<Rightarrow> Inl UseAfterFree | Some w \<Rightarrow> Inr (Some w))) (\<lambda>wb.
     Inr \<lparr>wbuf = wb, obj_offset = cell_offset c, object_id = cell_id c, obj_length = cell_length c,
          obj_version = cell_version c, has_parent = cell_parent c \<noteq> None\<rparr>)"

definition cell_at :: "store \<Rightarrow> int \<Rightarrow> cell res" where
  "cell_at s a = (case cells s a of None \<Rightarrow> Inl UseAfterFree | Some c \<Rightarrow> Inr c)"

definition put_object :: "store \<Rightarrow> int \<Rightarrow> cell \<Rightarrow> of_object \<Rightarrow> store" where
  "put_object s a c obj =
     s\<lparr>cells := (cells s)(a \<mapsto> c\<lparr>cell_offset := obj_offset obj, cell_id := object_id obj, cell_length := obj_length obj,
          cell_version := obj_version obj\<rparr>),
       bufs := (case cell_buf c of None \<Rightarrow> bufs s | Some r \<Rightarrow> (bufs s)(r := wbuf obj))\<rparr>"

definition with_object :: "store \<Rightarrow> int \<Rightarrow> (of_object \<Rightarrow> 'a res) \<Rightarrow> 'a res" where
  "with_object s a f = bnd (cell_at s a) (\<lambda>c. bnd (cell_object s c) f)"

definition on_object :: "store \<Rightarrow> int \<Rightarrow> (of_object \<Rightarrow> of_object res) \<Rightarrow> store res" where
  "on_object s a f = bnd (cell_at s a) (\<lambda>c. bnd (cell_object s c) (\<lambda>obj. bnd (f obj) (\<lambda>obj. Inr (put_object s a c obj))))"

subsection \<open>Operations\<close>

definition MAX_PARENT_ITERATIONS :: nat where
  "MAX_PARENT_ITERATIONS = 8"

text \<open>The first argument is the number of turns the loop's assertion leaves.\<close>

primrec length_update_loop :: "nat \<Rightarrow> store \<Rightarrow> int option \<Rightarrow> int \<Rightarrow> store res" where
  "length_update_loop 0 s p delta = (case p of None \<Rightarrow> Inr s | Some a \<Rightarrow> Inl AssertFail)"
| "length_update_loop (Suc turns) s p delta =
     (case p of None \<Rightarrow> Inr s
      | Some a \<Rightarrow>
          bnd (cell_at s a) (\<lambda>c.
          bnd (cell_object s c) (\<lambda>obj.
          bnd (of_object_wire_length_set (obj\<lparr>obj_length := obj_length obj + delta\<rparr>) (obj_length obj + delta)) (\<lambda>obj.
          case wbuf obj of
            None \<Rightarrow> Inl NullDeref
          | Some w \<Rightarrow>
              c_assert (obj_length obj + obj_offset obj \<le> current_bytes w)
                (c_assert (cell_parent c = None \<longrightarrow> obj_length obj + obj_offset obj = current_bytes w)
                  (length_update_loop turns (put_object s a c obj) (cell_parent c) delta))))))"

definition of_object_parent_length_update :: "store \<Rightarrow> int \<Rightarrow> int \<Rightarrow> store res" where
  "of_object_parent_length_update s a delta = length_update_loop MAX_PARENT_ITERATIONS s (Some a) delta"

text \<open>
  The child is given the parent's buffer and its address; a positive number of bytes asks for room in the buffer. The buffer of
  the parent is not null here, as the callers have checked.
\<close>

definition object_child_attach :: "store \<Rightarrow> int \<Rightarrow> int \<Rightarrow> int \<Rightarrow> int \<Rightarrow> store res" where
  "object_child_attach s parent child offset bytes =
     bnd (cell_at s parent) (\<lambda>cp.
     bnd (cell_at s child) (\<lambda>cc.
     let s = s\<lparr>cells := (cells s)(child \<mapsto> cc\<lparr>cell_parent := Some parent, cell_buf := cell_buf cp,
           cell_offset := cell_offset cp + offset, cell_length := bytes\<rparr>)\<rparr>
     in if bytes > 0 then
          on_object s parent (\<lambda>obj. bnd (of_wire_buffer_grow (wbuf obj) (obj_offset obj + offset + bytes)) (\<lambda>w. Inr (obj\<lparr>wbuf := Some w\<rparr>)))
        else Inr s))"

definition of_list_append_bind :: "store \<Rightarrow> int option \<Rightarrow> int option \<Rightarrow> (int \<times> store) res" where
  "of_list_append_bind s parent child =
     (case (parent, child) of
        (Some p, Some c) \<Rightarrow>
          with_object s p (\<lambda>po. with_object s c (\<lambda>co.
            if wbuf po = None then Inr (OF_ERROR_PARAM, s)
            else bnd (of_object_can_grow po (obj_length po + obj_length co)) (\<lambda>room.
              if \<not> room then Inr (OF_ERROR_RESOURCE, s)
              else
                bnd (object_child_attach s p c (obj_length po) (obj_length co)) (\<lambda>s.
                bnd (on_object s c (\<lambda>co. of_object_wire_length_set co (obj_length co))) (\<lambda>s.
                bnd (on_object s c of_object_wire_type_set) (\<lambda>s.
                bnd (of_object_parent_length_update s p (obj_length co)) (\<lambda>s.
                with_object s p (\<lambda>po. OF_LENGTH_CHECK_ASSERT po (Inr (OF_ERROR_NONE, s))))))))))
      | _ \<Rightarrow> Inr (OF_ERROR_PARAM, s))"

text \<open>The bytes of an object, where a pointer to them is followed.\<close>

definition object_bytes :: "of_object \<Rightarrow> byte list res" where
  "object_bytes obj =
     (case wbuf obj of None \<Rightarrow> Inl NullDeref
      | Some w \<Rightarrow> (case wbuf_buf w of None \<Rightarrow> Inl NullDeref
        | Some b \<Rightarrow> if obj_length obj < 0 then Inl OutOfBounds else rd_block b (obj_offset obj) (nat (obj_length obj))))"

text \<open>\<^verbatim>\<open>memcpy\<close> requires that the item does not lie across the place it is copied to; it may be in the same buffer.\<close>

definition of_list_append :: "store \<Rightarrow> int \<Rightarrow> int \<Rightarrow> (int \<times> store) res" where
  "of_list_append s list item =
     with_object s list (\<lambda>lo. with_object s item (\<lambda>io.
       let new_len = obj_length lo + obj_length io; dst = obj_offset lo + obj_length lo in
       bnd (of_object_can_grow lo new_len) (\<lambda>room.
       if \<not> room then Inr (OF_ERROR_RESOURCE, s)
       else
         bnd (on_object s list (\<lambda>lo. bnd (of_wire_buffer_grow (wbuf lo) (obj_offset lo + new_len)) (\<lambda>w. Inr (lo\<lparr>wbuf := Some w\<rparr>)))) (\<lambda>s.
         bnd (with_object s item object_bytes) (\<lambda>xs.
         bnd (cell_at s list) (\<lambda>lc. bnd (cell_at s item) (\<lambda>ic.
         if cell_buf lc = cell_buf ic \<and> obj_offset io < dst + obj_length io \<and> dst < obj_offset io + obj_length io then Inl Overlap
         else
           bnd (on_object s list (\<lambda>lo.
             case wbuf lo of None \<Rightarrow> Inl NullDeref
             | Some w \<Rightarrow> (case wbuf_buf w of None \<Rightarrow> Inl NullDeref
               | Some b \<Rightarrow> bnd (wr_block b dst xs) (\<lambda>b. Inr (lo\<lparr>wbuf := Some (w\<lparr>wbuf_buf := Some b\<rparr>)\<rparr>))))) (\<lambda>s.
           bnd (of_object_parent_length_update s list (obj_length io)) (\<lambda>s.
           with_object s list (\<lambda>lo. OF_LENGTH_CHECK_ASSERT lo (Inr (OF_ERROR_NONE, s))))))))))))"

subsection \<open>Where the lengths are\<close>

definition overwrite :: "'a list \<Rightarrow> int \<Rightarrow> 'a list \<Rightarrow> 'a list" where
  "overwrite b p xs = take (nat p) b @ xs @ drop (nat p + length xs) b"

lemma wr_block_overwrite: "0 \<le> p \<Longrightarrow> p + int (length xs) \<le> int (length b) \<Longrightarrow> wr_block b p xs = Inr (overwrite b p xs)"
  by (simp add: wr_block_def overwrite_def)

lemma length_overwrite: "0 \<le> p \<Longrightarrow> p + int (length xs) \<le> int (length b) \<Longrightarrow> length (overwrite b p xs) = length b"
  by (simp add: overwrite_def)

text \<open>The place of an object's length in the buffer, if its class keeps one. A message's is at the start of the buffer.\<close>

definition length_at :: "cell \<Rightarrow> int option" where
  "length_at c =
     (case map_of metadata_table (cell_id c) of None \<Rightarrow> None
      | Some m \<Rightarrow> (case wire_length_setter m of None \<Rightarrow> None
        | Some k \<Rightarrow> if k = MessageLen then Some 2 else map_option (\<lambda>q. cell_offset c + q) (len_place k (cell_version c))))"

text \<open>Before version 1.4 some classes have a fixed length, and setting another aborts.\<close>

definition sizable :: "cell \<Rightarrow> bool" where
  "sizable c \<longleftrightarrow> 0 \<le> cell_id c \<and> cell_id c < 683 \<and>
     (case map_of metadata_table (cell_id c) of None \<Rightarrow> True
      | Some m \<Rightarrow> (case wire_length_setter m of None \<Rightarrow> True | Some k \<Rightarrow> k \<noteq> OxmLen \<and> length_at c \<noteq> None))"

definition put_length :: "cell \<Rightarrow> byte list \<Rightarrow> byte list" where
  "put_length c b = (case length_at c of None \<Rightarrow> b | Some p \<Rightarrow> overwrite b p (be_bytes 2 (word_of_int (cell_length c) :: 16 word)))"

definition cell_in :: "wire_buffer \<Rightarrow> cell \<Rightarrow> of_object" where
  "cell_in w c = \<lparr>wbuf = Some w, obj_offset = cell_offset c, object_id = cell_id c, obj_length = cell_length c,
     obj_version = cell_version c, has_parent = cell_parent c \<noteq> None\<rparr>"

lemma cell_in_sel [simp]: "wbuf (cell_in w c) = Some w" "obj_offset (cell_in w c) = cell_offset c"
  "object_id (cell_in w c) = cell_id c" "obj_length (cell_in w c) = cell_length c" "obj_version (cell_in w c) = cell_version c"
  "has_parent (cell_in w c) \<longleftrightarrow> cell_parent c \<noteq> None"
  by (simp_all add: cell_in_def)

lemma cell_in_wbuf [simp]: "(cell_in w c)\<lparr>wbuf := Some w'\<rparr> = cell_in w' c"
  by (simp add: cell_in_def)

lemma cell_object_in: "cell_buf c = Some r \<Longrightarrow> bufs s r = Some w \<Longrightarrow> cell_object s c = Inr (cell_in w c)"
  by (simp add: cell_object_def cell_in_def)

lemma with_object_in: "cells s a = Some c \<Longrightarrow> cell_buf c = Some r \<Longrightarrow> bufs s r = Some w \<Longrightarrow> with_object s a f = f (cell_in w c)"
  by (simp add: with_object_def cell_at_def cell_object_in)

lemma on_object_in:
  "cells s a = Some c \<Longrightarrow> cell_buf c = Some r \<Longrightarrow> bufs s r = Some w \<Longrightarrow>
   on_object s a f = bnd (f (cell_in w c)) (\<lambda>obj. Inr (put_object s a c obj))"
  by (simp add: on_object_def cell_at_def cell_object_in)

lemma u16_set_overwrite:
  assumes "wbuf_wf w" and "wbuf_buf w = Some b" and "0 \<le> p" and "p + 2 \<le> current_bytes w"
  shows "of_wire_buffer_u16_set (Some w) p v = Inr (w\<lparr>wbuf_buf := Some (overwrite b p (be_bytes 2 v))\<rparr>)"
proof -
  have "p + 2 \<le> int (length b)"
    using assms by (auto elim!: wbuf_wfE)
  then show ?thesis
    using assms by (simp add: of_wire_buffer_u16_set_def checked_set_def access_check_def buf_u16_set_def wr_block_overwrite)
qed

lemmas wire_length_sets = of_tlv16_wire_length_set_def of_u16_len_wire_length_set_def of_packet_queue_wire_length_set_def
  of_meter_stats_wire_length_set_def of_queue_desc_wire_length_set_def of_port_desc_wire_length_set_def
  of_port_stats_entry_wire_length_set_def of_queue_stats_entry_wire_length_set_def wire_length_from_14_set_def

lemma wire_length_set_place:
  "len_place k (obj_version obj) = Some off \<Longrightarrow> wbuf obj = Some w \<Longrightarrow> wire_length_set k obj n = of_object_u16_set obj off n"
  by (cases k) (auto simp: wire_length_sets split: if_splits)

text \<open>Writing the length of an object is \<open>put_length\<close>.\<close>

lemma wire_length_set_put:
  assumes w: "wbuf_wf w" "wbuf_buf w = Some b" and c: "sizable c"
    and p: "\<And>p. length_at c = Some p \<Longrightarrow> 0 \<le> p \<and> p + 2 \<le> current_bytes w"
  shows "of_object_wire_length_set (cell_in w c) (cell_length c) = Inr (cell_in (w\<lparr>wbuf_buf := Some (put_length c b)\<rparr>) c)"
proof -
  have id: "0 \<le> cell_id c" "cell_id c < 683"
    using c by (simp_all add: sizable_def)
  have same: "cell_in w c = cell_in (w\<lparr>wbuf_buf := Some b\<rparr>) c"
    using w(2) by (cases w) simp
  show ?thesis
  proof (cases "map_of metadata_table (cell_id c)")
    case None
    then show ?thesis
      using id same by (simp add: of_object_wire_length_set_def loci_class_metadata_def put_length_def length_at_def)
  next
    case (Some m)
    have set: "of_object_wire_length_set (cell_in w c) (cell_length c) =
        (case wire_length_setter m of None \<Rightarrow> Inr (cell_in w c) | Some k \<Rightarrow> wire_length_set k (cell_in w c) (cell_length c))"
      using Some id by (simp add: of_object_wire_length_set_def loci_class_metadata_def)
    show ?thesis
    proof (cases "wire_length_setter m")
      case None
      then show ?thesis
        using Some same set by (simp add: put_length_def length_at_def)
    next
      case k: (Some k)
      show ?thesis
      proof (cases "k = MessageLen")
        case True
        have "2 + 2 \<le> int (length b)"
          using p [of 2] Some k True w by (auto simp: length_at_def elim!: wbuf_wfE)
        then show ?thesis
          using Some k True set w by (simp add: put_length_def length_at_def of_object_message_wire_length_set_def
              of_message_length_set_def buf_u16_set_def wr_block_overwrite)
      next
        case False
        then obtain q where q: "len_place k (cell_version c) = Some q" "length_at c = Some (cell_offset c + q)"
          using c Some k by (auto simp: sizable_def length_at_def)
        then have "wire_length_set k (cell_in w c) (cell_length c) = of_object_u16_set (cell_in w c) q (cell_length c)"
          by (intro wire_length_set_place [of _ _ _ w]) simp_all
        then show ?thesis
          using k set q p [OF q(2)] w
          by (simp add: of_object_u16_set_def u16_set_overwrite put_length_def)
      qed
    qed
  qed
qed

subsection \<open>The chain of ancestors\<close>

primrec lineage :: "store \<Rightarrow> int option \<Rightarrow> int list \<Rightarrow> bool" where
  "lineage s p [] \<longleftrightarrow> p = None"
| "lineage s p (a # as) \<longleftrightarrow> p = Some a \<and> (\<exists>c. cells s a = Some c \<and> lineage s (cell_parent c) as)"

lemma lineage_cell: "lineage s p as \<Longrightarrow> a \<in> set as \<Longrightarrow> \<exists>c. cells s a = Some c"
  by (induction as arbitrary: p) auto

lemma lineage_cong:
  "lineage s p as \<Longrightarrow> (\<And>a. a \<in> set as \<Longrightarrow> map_option cell_parent (cells s' a) = map_option cell_parent (cells s a)) \<Longrightarrow>
   lineage s' p as"
  by (induction as arbitrary: p) fastforce+

lemma lineage_bufs [simp]: "lineage (s\<lparr>bufs := x\<rparr>) p as \<longleftrightarrow> lineage s p as"
  by (induction as arbitrary: p) auto

lemma lineage_unique: "lineage s p as \<Longrightarrow> lineage s p bs \<Longrightarrow> as = bs"
proof (induction as arbitrary: p bs)
  case (Cons a as)
  then show ?case
    by (cases bs) auto
qed (case_tac bs; simp)

lemma lineage_from: "lineage s p as \<Longrightarrow> a \<in> set as \<Longrightarrow> \<exists>pre post. as = pre @ a # post \<and> lineage s (Some a) (a # post)"
proof (induction as arbitrary: p)
  case (Cons b bs)
  show ?case
  proof (cases "a = b")
    case True
    then show ?thesis
      using Cons.prems(1) by (intro exI [of _ "[]"] exI [of _ bs]) simp
  next
    case False
    then obtain c where c: "cells s b = Some c" "lineage s (cell_parent c) bs" "a \<in> set bs"
      using Cons.prems by auto
    obtain pre post where "bs = pre @ a # post" "lineage s (Some a) (a # post)"
      using Cons.IH [OF c(2,3)] by blast
    then show ?thesis
      by (intro exI [of _ "b # pre"] exI [of _ post]) simp
  qed
qed simp

lemma lineage_distinct: "lineage s p as \<Longrightarrow> distinct as"
proof (induction as arbitrary: p)
  case (Cons a as)
  then obtain c where c: "cells s a = Some c" "lineage s (cell_parent c) as"
    by auto
  have "a \<notin> set as"
  proof
    assume "a \<in> set as"
    then obtain pre post where post: "as = pre @ a # post" "lineage s (Some a) (a # post)"
      using lineage_from [OF c(2)] by blast
    then have "post = as"
      using lineage_unique [of s "cell_parent c" post as] c by auto
    then show False
      using post(1) by simp
  qed
  then show ?case
    using Cons.IH [OF c(2)] by simp
qed simp

text \<open>Every object of a chain \<open>as\<close> made \<open>delta\<close> bytes longer, in the store and on the wire.\<close>

definition longer :: "int \<Rightarrow> cell \<Rightarrow> cell" where
  "longer delta c = c\<lparr>cell_length := cell_length c + delta\<rparr>"

definition put_lengths :: "cell list \<Rightarrow> byte list \<Rightarrow> byte list" where
  "put_lengths cs b = fold put_length cs b"

definition chain_cells :: "store \<Rightarrow> int list \<Rightarrow> cell list" where
  "chain_cells s as = map (\<lambda>a. the (cells s a)) as"

lemma chain_cells_bufs [simp]: "chain_cells (s\<lparr>bufs := x\<rparr>) as = chain_cells s as"
  by (simp add: chain_cells_def)

definition lengthen :: "store \<Rightarrow> int \<Rightarrow> wire_buffer \<Rightarrow> byte list \<Rightarrow> int list \<Rightarrow> int \<Rightarrow> store" where
  "lengthen s r w b as delta =
     s\<lparr>cells := (\<lambda>a. if a \<in> set as then map_option (longer delta) (cells s a) else cells s a),
       bufs := (bufs s)(r \<mapsto> w\<lparr>wbuf_buf := Some (put_lengths (map (longer delta) (chain_cells s as)) b)\<rparr>)\<rparr>"

text \<open>What the loop asserts of an object on its way, in the buffer \<open>w\<close>, and where its length may lie.\<close>

definition growable :: "wire_buffer \<Rightarrow> int \<Rightarrow> cell \<Rightarrow> bool" where
  "growable w delta c \<longleftrightarrow> sizable c \<and> (\<forall>p. length_at c = Some p \<longrightarrow> 0 \<le> p \<and> p + 2 \<le> current_bytes w) \<and>
     cell_offset c + cell_length c + delta \<le> current_bytes w \<and>
     (cell_parent c = None \<longrightarrow> cell_offset c + cell_length c + delta = current_bytes w)"

lemma longer_sel [simp]: "cell_length (longer delta c) = cell_length c + delta" "cell_offset (longer delta c) = cell_offset c"
  "cell_parent (longer delta c) = cell_parent c" "cell_buf (longer delta c) = cell_buf c"
  "cell_id (longer delta c) = cell_id c" "cell_version (longer delta c) = cell_version c"
  by (simp_all add: longer_def)

lemma length_at_longer [simp]: "length_at (longer delta c) = length_at c"
  by (simp add: length_at_def split: option.split)

lemma sizable_longer [simp]: "sizable (longer delta c) = sizable c"
  by (simp add: sizable_def split: option.split)

lemma be_bytes_2: "length (be_bytes 2 x) = 2"
  by (simp add: be_bytes_length)

lemma length_put_length:
  "(\<And>p. length_at c = Some p \<Longrightarrow> 0 \<le> p \<and> p + 2 \<le> int (length b)) \<Longrightarrow> length (put_length c b) = length b"
  by (auto simp: put_length_def length_overwrite be_bytes_2 split: option.split)

lemma length_put_lengths:
  "\<forall>c\<in>set cs. \<forall>p. length_at c = Some p \<longrightarrow> 0 \<le> p \<and> p + 2 \<le> int (length b) \<Longrightarrow> length (put_lengths cs b) = length b"
proof (induction cs arbitrary: b)
  case (Cons c cs)
  then have "length (put_length c b) = length b"
    by (intro length_put_length) simp
  then show ?case
    using Cons by (simp add: put_lengths_def)
qed (simp add: put_lengths_def)

lemma length_update_loop_ok:
  "lineage s p as \<Longrightarrow> length as \<le> turns \<Longrightarrow> bufs s r = Some w \<Longrightarrow> wbuf_wf w \<Longrightarrow> wbuf_buf w = Some b \<Longrightarrow>
   \<forall>c\<in>set (chain_cells s as). cell_buf c = Some r \<and> growable w delta c \<Longrightarrow>
   length_update_loop turns s p delta = Inr (lengthen s r w b as delta)"
proof (induction as arbitrary: s p turns w b)
  case Nil
  have "lengthen s r w b [] delta = s"
    using Nil by (cases s) (auto simp: lengthen_def put_lengths_def chain_cells_def)
  then show ?case
    using Nil by (cases turns) simp_all
next
  case (Cons a as)
  obtain c where c: "p = Some a" "cells s a = Some c" "lineage s (cell_parent c) as"
    using Cons.prems(1) by auto
  obtain k where k: "turns = Suc k" "length as \<le> k"
    using Cons.prems(2) by (cases turns) auto
  have g: "cell_buf c = Some r" "growable w delta c"
    using Cons.prems(6) c(2) by (simp_all add: chain_cells_def)
  have fresh: "a \<notin> set as"
    using lineage_distinct [OF Cons.prems(1)] by simp
  let ?c = "longer delta c"
  let ?w = "w\<lparr>wbuf_buf := Some (put_length ?c b)\<rparr>"
  have obj: "(cell_in w c)\<lparr>obj_length := cell_length c + delta\<rparr> = cell_in w ?c"
    by (simp add: cell_in_def)
  have set: "of_object_wire_length_set (cell_in w ?c) (cell_length ?c) = Inr (cell_in ?w ?c)"
    by (rule wire_length_set_put) (use Cons.prems(4,5) g(2) in \<open>simp_all add: growable_def\<close>)
  have put: "put_object s a c (cell_in ?w ?c) = s\<lparr>cells := (cells s)(a \<mapsto> ?c), bufs := (bufs s)(r \<mapsto> ?w)\<rparr>" (is "_ = ?s")
    using g(1) by (simp add: put_object_def longer_def)
  have "int (length b) \<ge> current_bytes w"
    using Cons.prems(4,5) by (auto elim!: wbuf_wfE)
  then have len: "length (put_length ?c b) = length b"
    using g(2) by (intro length_put_length) (force simp: growable_def)
  have same: "chain_cells ?s as = chain_cells s as"
    using fresh by (auto simp: chain_cells_def)
  have "length_update_loop k ?s (cell_parent c) delta = Inr (lengthen ?s r ?w (put_length ?c b) as delta)"
  proof (rule Cons.IH)
    show "lineage ?s (cell_parent c) as"
      using fresh by (intro lineage_cong [OF c(3)]) auto
    show "wbuf_wf ?w"
      using Cons.prems(4,5) len by (auto simp: wbuf_wf_def)
    show "\<forall>c\<in>set (chain_cells ?s as). cell_buf c = Some r \<and> growable ?w delta c"
      using Cons.prems(6) unfolding same by (simp add: growable_def chain_cells_def)
  qed (use k in simp_all)
  moreover have "lengthen ?s r ?w (put_length ?c b) as delta = lengthen s r w b (a # as) delta"
    using c(2) fresh unfolding lengthen_def same
    by (intro store.equality) (auto simp: put_lengths_def chain_cells_def fun_eq_iff comp_def)
  moreover have "cell_length c + delta + cell_offset c \<le> current_bytes w"
    "cell_parent c = None \<longrightarrow> cell_length c + delta + cell_offset c = current_bytes w"
    using g(2) by (auto simp: growable_def)
  then have "length_update_loop turns s p delta = length_update_loop k ?s (cell_parent c) delta"
    using c k Cons.prems(3) put set by (simp add: cell_at_def cell_object_in [OF g(1)] obj)
  ultimately show ?case
    by simp
qed

subsection \<open>Appending to a list\<close>

text \<open>
  \<open>family s r w b as\<close>: the chain \<open>as\<close> from an object to its outermost ancestor, all in the buffer \<open>w\<close> at the address \<open>r\<close>
  with the bytes \<open>b\<close>, none with more than \<^verbatim>\<open>_MAX_PARENT_ITERATIONS\<close> objects. The outermost is the whole of the buffer's data; the lengths that
  the objects keep on the wire lie in the data and apart from each other.
\<close>

definition length_places :: "cell list \<Rightarrow> int list" where
  "length_places cs = concat (map (\<lambda>c. case length_at c of None \<Rightarrow> [] | Some p \<Rightarrow> [p]) cs)"

definition family :: "store \<Rightarrow> int \<Rightarrow> wire_buffer \<Rightarrow> byte list \<Rightarrow> int list \<Rightarrow> bool" where
  "family s r w b as \<longleftrightarrow> as \<noteq> [] \<and> lineage s (Some (hd as)) as \<and> length as \<le> MAX_PARENT_ITERATIONS \<and>
     bufs s r = Some w \<and> wbuf_wf w \<and> wbuf_buf w = Some b \<and>
     (\<forall>c\<in>set (chain_cells s as). cell_buf c = Some r \<and> sizable c \<and> 0 \<le> cell_offset c \<and> 0 \<le> cell_length c \<and>
        cell_offset c + cell_length c \<le> current_bytes w \<and> cell_offset c \<le> cell_offset (hd (chain_cells s as)) \<and>
        (cell_parent c = None \<longrightarrow> cell_offset c = 0 \<and> cell_length c = current_bytes w)) \<and>
     (\<forall>p\<in>set (length_places (chain_cells s as)). 0 \<le> p \<and> p + 2 \<le> current_bytes w) \<and>
     sorted_wrt (\<lambda>p q. q + 2 \<le> p) (length_places (chain_cells s as))"

text \<open>The lengths on the wire lie before \<open>q\<close>.\<close>

definition lengths_before :: "store \<Rightarrow> int list \<Rightarrow> int \<Rightarrow> bool" where
  "lengths_before s as q \<longleftrightarrow> (\<forall>p\<in>set (length_places (chain_cells s as)). p + 2 \<le> q)"

text \<open>The length on the wire is the length of the object.\<close>

definition wire_length_agrees :: "byte list \<Rightarrow> cell \<Rightarrow> bool" where
  "wire_length_agrees b c \<longleftrightarrow> (\<forall>p. length_at c = Some p \<longrightarrow> buf_u16_get b p = Inr (word_of_int (cell_length c)))"

text \<open>The objects end together, at the end of the buffer's data.\<close>

definition ends_together :: "store \<Rightarrow> wire_buffer \<Rightarrow> int list \<Rightarrow> bool" where
  "ends_together s w as \<longleftrightarrow> (\<forall>c\<in>set (chain_cells s as). cell_offset c + cell_length c = current_bytes w)"

text \<open>What the library keeps of the objects of a message while it is written.\<close>

definition consistent_family :: "store \<Rightarrow> int \<Rightarrow> wire_buffer \<Rightarrow> byte list \<Rightarrow> int list \<Rightarrow> bool" where
  "consistent_family s r w b as \<longleftrightarrow> family s r w b as \<and> ends_together s w as \<and> (\<forall>c\<in>set (chain_cells s as). wire_length_agrees b c)"

lemma familyD:
  assumes "family s r w b (a # as)"
  obtains c where "cells s a = Some c" "chain_cells s (a # as) = c # chain_cells s as" "cell_buf c = Some r" "bufs s r = Some w"
    "wbuf_wf w" "wbuf_buf w = Some b" "0 \<le> cell_offset c" "0 \<le> cell_length c" "cell_offset c + cell_length c \<le> current_bytes w"
    "lineage s (Some a) (a # as)" "cell_parent c = None \<longrightarrow> cell_offset c = 0 \<and> cell_length c = current_bytes w"
proof -
  obtain c where "cells s a = Some c"
    using assms by (auto simp: family_def)
  then show thesis
    using assms by (intro that [of c]) (simp_all add: family_def chain_cells_def)
qed

lemma length_places_set: "p \<in> set (length_places cs) \<longleftrightarrow> (\<exists>c\<in>set cs. length_at c = Some p)"
  by (force simp: length_places_def split: option.splits)

lemma length_places_simps [simp]: "length_places [] = []"
  "length_places (c # cs) = (case length_at c of None \<Rightarrow> [] | Some p \<Rightarrow> [p]) @ length_places cs"
  by (simp_all add: length_places_def)

lemma length_places_longer [simp]: "length_places (map (longer n) cs) = length_places cs"
  by (simp add: length_places_def comp_def)

lemma chain_cells_lengthen: "chain_cells (lengthen s r w b as n) as = map (longer n) (chain_cells s as)"
  if "lineage s p as"
  using lineage_cell [OF that] by (force simp: chain_cells_def lengthen_def)

lemma drop_overwrite:
  assumes "0 \<le> p" and "p + int (length xs) \<le> q" and "p + int (length xs) \<le> int (length b)"
  shows "drop (nat q) (overwrite b p xs) = drop (nat q) b"
proof -
  have "nat p + length xs \<le> nat q" "nat p \<le> length b"
    using assms by linarith+
  then show ?thesis
    by (simp add: overwrite_def)
qed

lemma family_place:
  assumes "family s r w b as" and "d \<in> set (chain_cells s as)" and "length_at d = Some p"
  shows "0 \<le> p \<and> p + 2 \<le> current_bytes w"
proof -
  have "p \<in> set (length_places (chain_cells s as))"
    using assms(2,3) by (auto simp: length_places_set)
  then show ?thesis
    using assms(1) by (simp add: family_def)
qed

lemma overwrite_within:
  assumes "0 \<le> p" and "p \<le> q" and "q + int (length ys) \<le> p + int (length xs)" and "p + int (length xs) \<le> int (length b)"
  shows "overwrite (overwrite b q ys) p xs = overwrite b p xs"
proof -
  have n: "nat p \<le> nat q" "nat q + length ys \<le> nat p + length xs" "nat p + length xs \<le> length b"
    using assms by linarith+
  have "take (nat p) (overwrite b q ys) = take (nat p) b"
    using n by (simp add: overwrite_def min_def)
  moreover have "drop (nat p + length xs) (overwrite b q ys) = drop (nat p + length xs) b"
    using drop_overwrite [of q ys "p + int (length xs)" b] assms by (simp add: nat_add_distrib)
  ultimately show ?thesis
    by (simp add: overwrite_def)
qed

lemma overwrite_nothing [simp]: "overwrite b p [] = b"
  by (simp add: overwrite_def)

text \<open>Making room at \<open>p\<close> in or at the end of the data and filling it with \<open>xs\<close>.\<close>

lemma grow_and_write:
  assumes "wbuf_wf w" and "wbuf_buf w = Some b" and "0 \<le> p" "p \<le> current_bytes w" and "p + int (length xs) \<le> alloc_bytes w"
  obtains b1 where "of_wire_buffer_grow (Some w) (p + int (length xs)) =
      Inr (w\<lparr>current_bytes := max (current_bytes w) (p + int (length xs)), wbuf_buf := Some b1\<rparr>)"
    "wr_block b1 p xs = Inr (overwrite b p xs)"
proof -
  have l: "0 \<le> current_bytes w" "p + int (length xs) \<le> int (length b)"
    using assms by (auto elim!: wbuf_wfE)
  define m where "m = nat (p + int (length xs) - current_bytes w)"
  define b1 where "b1 = overwrite b (current_bytes w) (replicate m 0)"
  show thesis
  proof (cases "current_bytes w < p + int (length xs)")
    case True
    have m: "current_bytes w + int m = p + int (length xs)"
      using True by (simp add: m_def)
    have "length b1 = length b"
      unfolding b1_def using l m by (intro length_overwrite) simp_all
    then have "wr_block b1 p xs = Inr (overwrite b p xs)"
      using assms l m by (simp add: wr_block_overwrite b1_def overwrite_within)
    moreover have "of_wire_buffer_grow (Some w) (p + int (length xs)) =
        Inr (w\<lparr>current_bytes := max (current_bytes w) (p + int (length xs)), wbuf_buf := Some b1\<rparr>)"
      using True assms(2,5) l m by (simp add: of_wire_buffer_grow_def wr_block_overwrite b1_def m_def)
    ultimately show thesis
      using that by blast
  next
    case False
    then show thesis
      using assms l by (intro that [of b]) (cases w; simp add: of_wire_buffer_grow_def wr_block_overwrite)+
  qed
qed

text \<open>What appending does before it updates the lengths.\<close>

lemma list_append_runs:
  assumes f: "family s r w b (l # as)" and c: "cells s l = Some c"
    and i: "cells s item = Some ic" "cell_buf ic = Some r'" "r' \<noteq> r" "bufs s r' = Some wi"
    and x: "object_bytes (cell_in wi ic) = Inr xs"
    and room: "cell_offset c + cell_length c + int (length xs) \<le> alloc_bytes w"
  shows "of_list_append s l item =
    bnd (of_object_parent_length_update (s\<lparr>bufs := (bufs s)(r \<mapsto> w\<lparr>current_bytes := max (current_bytes w) (cell_offset c + cell_length c + int (length xs)),
        wbuf_buf := Some (overwrite b (cell_offset c + cell_length c) xs)\<rparr>)\<rparr>) l (int (length xs))) (\<lambda>s.
    with_object s l (\<lambda>lo. OF_LENGTH_CHECK_ASSERT lo (Inr (OF_ERROR_NONE, s))))"
proof -
  have c': "cell_buf c = Some r" "bufs s r = Some w" "wbuf_wf w" "wbuf_buf w = Some b" "0 \<le> cell_offset c" "0 \<le> cell_length c"
    "cell_offset c + cell_length c \<le> current_bytes w"
    by (rule familyD [OF f]; use c in simp)+
  let ?n = "int (length xs)" and ?d = "cell_offset c + cell_length c"
  let ?cur = "max (current_bytes w) (?d + ?n)"
  have n: "cell_length ic = ?n"
    using x by (auto simp: object_bytes_def rd_block_Inr split: option.splits if_splits)
  obtain b1 where b1: "of_wire_buffer_grow (Some w) (?d + ?n) = Inr (w\<lparr>current_bytes := ?cur, wbuf_buf := Some b1\<rparr>)"
    "wr_block b1 ?d xs = Inr (overwrite b ?d xs)"
    using grow_and_write [of w b ?d xs] c' room by auto
  let ?w1 = "w\<lparr>current_bytes := ?cur, wbuf_buf := Some b1\<rparr>"
  let ?w2 = "w\<lparr>current_bytes := ?cur, wbuf_buf := Some (overwrite b ?d xs)\<rparr>"
  let ?s1 = "s\<lparr>bufs := (bufs s)(r \<mapsto> ?w1)\<rparr>"
  have put: "put_object s' l c (cell_in v c) = s'\<lparr>bufs := (bufs s')(r \<mapsto> v)\<rparr>" if "cells s' = cells s" for v s'
    using c c'(1) that by (auto intro!: store.equality simp: put_object_def fun_eq_iff)
  have "on_object s l (\<lambda>lo. bnd (of_wire_buffer_grow (wbuf lo) (obj_offset lo + (cell_length c + ?n))) (\<lambda>w. Inr (lo\<lparr>wbuf := Some w\<rparr>))) = Inr ?s1"
    using b1(1) put [of s] by (simp add: on_object_in [OF c c'(1,2)] add.assoc)
  moreover have "on_object ?s1 l (\<lambda>lo. case wbuf lo of None \<Rightarrow> Inl NullDeref
      | Some w' \<Rightarrow> (case wbuf_buf w' of None \<Rightarrow> Inl NullDeref
        | Some b \<Rightarrow> bnd (wr_block b (obj_offset (cell_in w c) + obj_length (cell_in w c)) xs) (\<lambda>b.
            Inr (lo\<lparr>wbuf := Some (w'\<lparr>wbuf_buf := Some b\<rparr>)\<rparr>)))) = Inr (s\<lparr>bufs := (bufs s)(r \<mapsto> ?w2)\<rparr>)"
    using b1(2) put [of ?s1] by (simp add: on_object_in [of _ _ c r, OF _ c'(1)] c)
  moreover have "with_object ?s1 item object_bytes = Inr xs"
    using i x by (simp add: with_object_in [of _ _ ic r' wi])
  ultimately show ?thesis
    using c'(1) i room n
    by (simp add: of_list_append_def with_object_in [OF c c'(1,2)] with_object_in [OF i(1,2,4)] of_object_can_grow_def cell_at_def c Let_def add.assoc)
qed

lemma put_length_other:
  assumes "\<And>p. length_at c = Some p \<Longrightarrow> 0 \<le> p \<and> p + 2 \<le> int (length b) \<and> (p + 2 \<le> q \<or> q + 2 \<le> p)"
  shows "buf_u16_get (put_length c b) q = buf_u16_get b q"
proof (cases "length_at c")
  case (Some p)
  then have "buf_u16_set b p (word_of_int (cell_length c)) = Inr (put_length c b)"
    using assms by (simp add: put_length_def buf_u16_set_def wr_block_overwrite be_bytes_2)
  then show ?thesis
    using u16.get_put_other assms [OF Some] by force
qed (simp add: put_length_def)

lemma put_length_agrees:
  assumes "\<And>p. length_at c = Some p \<Longrightarrow> 0 \<le> p \<and> p + 2 \<le> int (length b)"
  shows "wire_length_agrees (put_length c b) c"
  unfolding wire_length_agrees_def
proof (intro allI impI)
  fix p
  assume p: "length_at c = Some p"
  then have "buf_u16_set b p (word_of_int (cell_length c)) = Inr (put_length c b)"
    using assms by (simp add: put_length_def buf_u16_set_def wr_block_overwrite be_bytes_2)
  then show "buf_u16_get (put_length c b) p = Inr (word_of_int (cell_length c))"
    using u16.get_put by blast
qed

lemma put_lengths_other:
  "\<forall>c\<in>set cs. \<forall>p. length_at c = Some p \<longrightarrow> 0 \<le> p \<and> p + 2 \<le> int (length b) \<and> (p + 2 \<le> q \<or> q + 2 \<le> p) \<Longrightarrow>
   buf_u16_get (put_lengths cs b) q = buf_u16_get b q"
proof (induction cs arbitrary: b)
  case (Cons c cs)
  have "length (put_length c b) = length b"
    using Cons.prems by (intro length_put_length) simp
  then have "buf_u16_get (put_lengths cs (put_length c b)) q = buf_u16_get (put_length c b) q"
    using Cons.prems by (intro Cons.IH) simp
  also have "\<dots> = buf_u16_get b q"
    using Cons.prems by (intro put_length_other) simp
  finally show ?case
    by (simp add: put_lengths_def)
qed (simp add: put_lengths_def)

lemma put_lengths_agree:
  "\<forall>p\<in>set (length_places cs). 0 \<le> p \<and> p + 2 \<le> int (length b) \<Longrightarrow> sorted_wrt (\<lambda>p q. q + 2 \<le> p) (length_places cs) \<Longrightarrow>
   c \<in> set cs \<Longrightarrow> wire_length_agrees (put_lengths cs b) c"
proof (induction cs arbitrary: b)
  case (Cons d cs)
  have d: "0 \<le> p \<and> p + 2 \<le> int (length b)" if "length_at d = Some p" for p
    using Cons.prems(1) that by (simp add: length_places_set)
  then have len: "length (put_length d b) = length b"
    by (rule length_put_length)
  have "sorted_wrt (\<lambda>p q. q + 2 \<le> p) (length_places cs)"
    using Cons.prems(2) by (simp add: sorted_wrt_append)
  then have tl: "c \<in> set cs \<Longrightarrow> wire_length_agrees (put_lengths cs (put_length d b)) c"
    using Cons.prems(1) len by (intro Cons.IH) (simp_all add: length_places_set)
  show ?case
  proof (cases "c = d")
    case True
    have "buf_u16_get (put_lengths cs (put_length d b)) p = buf_u16_get (put_length d b) p" if "length_at d = Some p" for p
    proof (rule put_lengths_other, intro ballI allI impI)
      fix e q
      assume "e \<in> set cs" "length_at e = Some q"
      then have "q \<in> set (length_places cs)"
        by (auto simp: length_places_set)
      moreover from this have "q + 2 \<le> p"
        using Cons.prems(2) that by simp
      ultimately show "0 \<le> q \<and> q + 2 \<le> int (length (put_length d b)) \<and> (q + 2 \<le> p \<or> p + 2 \<le> q)"
        using Cons.prems(1) len by simp
    qed
    then show ?thesis
      using put_length_agrees [OF d] True by (simp add: wire_length_agrees_def put_lengths_def)
  next
    case False
    then show ?thesis
      using tl Cons.prems(3) by (simp add: put_lengths_def)
  qed
qed simp

lemma drop_put_lengths:
  "\<forall>p\<in>set (length_places cs). 0 \<le> p \<and> p + 2 \<le> q \<Longrightarrow> q \<le> int (length b) \<Longrightarrow> drop (nat q) (put_lengths cs b) = drop (nat q) b"
proof (induction cs arbitrary: b)
  case (Cons c cs)
  have c: "0 \<le> p \<and> p + 2 \<le> q" if "length_at c = Some p" for p
    using Cons.prems(1) that by (simp add: length_places_set)
  then have len: "length (put_length c b) = length b"
    using Cons.prems(2) by (intro length_put_length) fastforce
  have "drop (nat q) (put_lengths cs (put_length c b)) = drop (nat q) (put_length c b)"
    using Cons.prems len by (intro Cons.IH) (simp_all add: length_places_set)
  also have "\<dots> = drop (nat q) b"
    using c Cons.prems(2) by (auto simp: put_length_def be_bytes_2 split: option.split intro!: drop_overwrite)
  finally show ?case
    by (simp add: put_lengths_def)
qed (simp add: put_lengths_def)

subsection \<open>Changing the end of the data\<close>

text \<open>
  What is left when the data of the buffer from \<open>p\<close> on have become \<open>xs\<close>: every object of the chain ends with the data again.
\<close>

definition resized :: "store \<Rightarrow> int \<Rightarrow> wire_buffer \<Rightarrow> byte list \<Rightarrow> int list \<Rightarrow> int \<Rightarrow> byte list \<Rightarrow> store" where
  "resized s r w b as p xs = lengthen s r (w\<lparr>current_bytes := p + int (length xs)\<rparr>) (overwrite b p xs) as (p + int (length xs) - current_bytes w)"

lemma family_data:
  assumes "family s r w b as"
  shows "bufs s r = Some w" "wbuf_wf w" "wbuf_buf w = Some b" "0 \<le> current_bytes w" "alloc_bytes w \<le> int (length b)"
  using assms by (auto simp: family_def elim: wbuf_wfE)

lemma update_resized:
  assumes f: "family s r w b (a # as)" and e: "ends_together s w (a # as)" and q: "lengths_before s (a # as) p"
    and p: "0 \<le> p" "p + int (length xs) \<le> alloc_bytes w"
  shows "of_object_parent_length_update (s\<lparr>bufs := (bufs s)(r \<mapsto> w\<lparr>current_bytes := p + int (length xs), wbuf_buf := Some (overwrite b p xs)\<rparr>)\<rparr>) a
     (p + int (length xs) - current_bytes w) = Inr (resized s r w b (a # as) p xs)"
proof -
  let ?n = "int (length xs)" and ?b = "overwrite b p xs" and ?delta = "p + int (length xs) - current_bytes w"
  let ?w = "w\<lparr>current_bytes := p + ?n, wbuf_buf := Some ?b\<rparr>"
  let ?s = "s\<lparr>bufs := (bufs s)(r \<mapsto> ?w)\<rparr>"
  note d = family_data [OF f]
  have w: "wbuf_wf ?w" "bufs ?s r = Some ?w" "wbuf_buf ?w = Some ?b"
    using d p by (auto simp: wbuf_wf_def length_overwrite)
  have "length_update_loop MAX_PARENT_ITERATIONS ?s (Some a) ?delta = Inr (lengthen ?s r ?w ?b (a # as) ?delta)"
  proof (rule length_update_loop_ok)
    have "lineage s (Some a) (a # as)"
      using f by (simp add: family_def)
    then show "lineage ?s (Some a) (a # as)"
      by (rule lineage_cong) simp
    show "\<forall>c\<in>set (chain_cells ?s (a # as)). cell_buf c = Some r \<and> growable ?w ?delta c"
    proof
      fix c
      assume "c \<in> set (chain_cells ?s (a # as))"
      then have c: "c \<in> set (chain_cells s (a # as))"
        by simp
      have "0 \<le> x \<and> x + 2 \<le> p + ?n" if "length_at c = Some x" for x
      proof -
        have "x \<in> set (length_places (chain_cells s (a # as)))"
          using c that by (auto simp: length_places_set)
        then show ?thesis
          using family_place [OF f c that] q by (auto simp: lengths_before_def)
      qed
      moreover have "cell_buf c = Some r" "sizable c" "cell_parent c = None \<Longrightarrow> cell_offset c = 0 \<and> cell_length c = current_bytes w"
        using f c unfolding family_def by blast+
      moreover have "cell_offset c + cell_length c = current_bytes w"
        using e c unfolding ends_together_def by blast
      ultimately show "cell_buf c = Some r \<and> growable ?w ?delta c"
        by (simp add: growable_def)
    qed
  qed (use f w in \<open>simp_all add: family_def\<close>)
  moreover have "lengthen ?s r ?w ?b (a # as) ?delta = resized s r w b (a # as) p xs"
    by (simp add: resized_def lengthen_def cong: if_cong)
  ultimately show ?thesis
    by (simp add: of_object_parent_length_update_def)
qed

lemma longer_zero [simp]: "longer 0 c = c"
  by (simp add: longer_def)

lemma map_longer_zero [simp]: "map (longer 0) cs = cs"
  by (induction cs) simp_all

lemma resized_family:
  assumes f: "family s r w b as" and e: "ends_together s w as" and q: "lengths_before s as q"
    and p: "0 \<le> q" "q \<le> p" "p \<le> current_bytes w" "p + int (length xs) \<le> alloc_bytes w"
    and o: "cell_offset (hd (chain_cells s as)) \<le> p"
  defines "s' \<equiv> resized s r w b as p xs"
    and "delta \<equiv> p + int (length xs) - current_bytes w"
  defines "b' \<equiv> put_lengths (map (longer delta) (chain_cells s as)) (overwrite b p xs)"
  defines "w' \<equiv> w\<lparr>current_bytes := p + int (length xs), wbuf_buf := Some b'\<rparr>"
  shows "family s' r w' b' as" "ends_together s' w' as"
    "chain_cells s' as = map (longer delta) (chain_cells s as)"
    "\<forall>c\<in>set (chain_cells s' as). wire_length_agrees b' c"
    "drop (nat q) (wbuf_data w') = drop (nat q) (take (nat p) b) @ xs"
proof -
  let ?cs = "chain_cells s as" and ?n = "int (length xs)"
  note d = family_data [OF f]
  have lin0: "lineage s (Some (hd as)) as"
    using f by (simp add: family_def)
  have pl: "\<forall>x\<in>set (length_places ?cs). 0 \<le> x \<and> x + 2 \<le> q"
    using f q by (simp add: family_def lengths_before_def)
  then have pb: "\<forall>x\<in>set (length_places ?cs). 0 \<le> x \<and> x + 2 \<le> int (length b)" and pc: "\<forall>x\<in>set (length_places ?cs). 0 \<le> x \<and> x + 2 \<le> p + ?n"
    using p d by fastforce+
  have ov: "length (overwrite b p xs) = length b"
    using p d by (simp add: length_overwrite)
  have len: "length b' = length b"
    unfolding b'_def using pb ov by (subst length_put_lengths) (auto simp: length_places_set)
  show cells': "chain_cells s' as = map (longer delta) ?cs"
    unfolding s'_def resized_def delta_def by (rule chain_cells_lengthen [OF lin0])
  show "ends_together s' w' as"
    using e unfolding ends_together_def cells' w'_def delta_def by (auto simp: algebra_simps)
  have sorted: "sorted_wrt (\<lambda>p q. q + 2 \<le> p) (length_places ?cs)"
    using f by (simp add: family_def)
  show "\<forall>c\<in>set (chain_cells s' as). wire_length_agrees b' c"
    unfolding cells' b'_def using pb ov sorted by (intro ballI put_lengths_agree) simp_all
  have lin: "lineage s' (Some (hd as)) as"
    by (rule lineage_cong [OF lin0]) (auto simp: s'_def resized_def lengthen_def longer_def option.map_comp comp_def)
  have w': "wbuf_wf w'"
    using d p len by (auto simp: w'_def wbuf_wf_def)
  have "bufs s' r = Some w'"
    by (simp add: s'_def resized_def lengthen_def w'_def b'_def delta_def)
  moreover have "\<forall>c\<in>set (map (longer delta) ?cs). cell_buf c = Some r \<and> sizable c \<and> 0 \<le> cell_offset c \<and> 0 \<le> cell_length c \<and>
      cell_offset c + cell_length c \<le> current_bytes w' \<and> cell_offset c \<le> cell_offset (hd (map (longer delta) ?cs)) \<and> (cell_parent c = None \<longrightarrow> cell_offset c = 0 \<and> cell_length c = current_bytes w')"
  proof
    fix c
    assume "c \<in> set (map (longer delta) ?cs)"
    then obtain c0 where c0: "c0 \<in> set ?cs" "c = longer delta c0"
      by auto
    have "cell_buf c0 = Some r" "sizable c0" "0 \<le> cell_offset c0" "cell_parent c0 = None \<Longrightarrow> cell_offset c0 = 0"
      using f c0(1) unfolding family_def by blast+
    moreover have "cell_offset c0 + cell_length c0 = current_bytes w"
      using e c0(1) unfolding ends_together_def by blast
    moreover have "cell_offset c0 \<le> cell_offset (hd ?cs)" "hd (map (longer delta) ?cs) = longer delta (hd ?cs)"
      using f c0(1) unfolding family_def by (blast, simp add: chain_cells_def hd_map)
    ultimately show "cell_buf c = Some r \<and> sizable c \<and> 0 \<le> cell_offset c \<and> 0 \<le> cell_length c \<and>
      cell_offset c + cell_length c \<le> current_bytes w' \<and> cell_offset c \<le> cell_offset (hd (map (longer delta) ?cs)) \<and> (cell_parent c = None \<longrightarrow> cell_offset c = 0 \<and> cell_length c = current_bytes w')"
      using c0(2) o by (cases "cell_parent c0 = None") (auto simp: w'_def delta_def)
  qed
  ultimately show "family s' r w' b' as"
    using f lin w' pl pc sorted unfolding family_def cells' by (simp add: w'_def)
  have "drop (nat q) b' = drop (nat q) (overwrite b p xs)"
    unfolding b'_def using pl p d ov by (intro drop_put_lengths) simp_all
  then have "drop (nat q) (take (nat (p + ?n)) b') = drop (nat q) (take (nat (p + ?n)) (overwrite b p xs))"
    by (simp add: drop_take)
  also have "take (nat (p + ?n)) (overwrite b p xs) = take (nat p) b @ xs"
    using p d by (simp add: overwrite_def nat_add_distrib)
  finally show "drop (nat q) (wbuf_data w') = drop (nat q) (take (nat p) b) @ xs"
    using p d by (simp add: w'_def wbuf_data_def nat_le_eq_zle)
qed

lemma resized_check:
  assumes f: "family s r w b (a # as)" and e: "ends_together s w (a # as)"
  shows "with_object (resized s r w b (a # as) p xs) a (\<lambda>obj. OF_LENGTH_CHECK_ASSERT obj (Inr x)) = Inr x"
proof -
  obtain c where c: "cells s a = Some c" "cell_buf c = Some r" "cell_parent c = None \<longrightarrow> cell_offset c = 0 \<and> cell_length c = current_bytes w"
    by (rule familyD [OF f])
  then show ?thesis
    by (auto simp: with_object_def cell_at_def resized_def lengthen_def cell_object_def OF_LENGTH_CHECK_ASSERT_def c_assert_def)
qed

text \<open>Appending at the end of the data.\<close>

lemma list_append_at_end:
  assumes f: "family s r w b (l # as)" and e: "ends_together s w (l # as)"
    and i: "cells s item = Some ic" "cell_buf ic = Some r'" "r' \<noteq> r" "bufs s r' = Some wi"
    and x: "object_bytes (cell_in wi ic) = Inr xs"
    and room: "current_bytes w + int (length xs) \<le> alloc_bytes w"
  shows "of_list_append s l item = Inr (OF_ERROR_NONE, resized s r w b (l # as) (current_bytes w) xs)"
proof -
  obtain c where c: "cells s l = Some c" "chain_cells s (l # as) = c # chain_cells s as"
    by (rule familyD [OF f])
  have fin: "cell_offset c + cell_length c = current_bytes w"
    using e c(2) by (simp add: ends_together_def)
  have "lengths_before s (l # as) (current_bytes w)"
    using f by (simp add: family_def lengths_before_def)
  from update_resized [OF f e this, of xs] show ?thesis
    using list_append_runs [OF f c(1) i x] room resized_check [OF f e] family_data [OF f] by (simp add: fin max_def)
qed

text \<open>The update of the lengths aborts when the outermost object would not end with the data.\<close>

lemma length_update_loop_aborts:
  "lineage s p as \<Longrightarrow> as \<noteq> [] \<Longrightarrow> bufs s r = Some w \<Longrightarrow> wbuf_wf w \<Longrightarrow> wbuf_buf w = Some b \<Longrightarrow>
   \<forall>c\<in>set (chain_cells s as). cell_buf c = Some r \<and> sizable c \<and> (\<forall>p. length_at c = Some p \<longrightarrow> 0 \<le> p \<and> p + 2 \<le> current_bytes w) \<and>
     (cell_parent c = None \<longrightarrow> cell_offset c + cell_length c + delta \<noteq> current_bytes w) \<Longrightarrow>
   length_update_loop turns s p delta = Inl AssertFail"
proof (induction as arbitrary: s p turns w b)
  case (Cons a as)
  obtain c where c: "p = Some a" "cells s a = Some c" "lineage s (cell_parent c) as"
    using Cons.prems(1) by auto
  have g: "cell_buf c = Some r" "sizable c" "\<And>p. length_at c = Some p \<Longrightarrow> 0 \<le> p \<and> p + 2 \<le> current_bytes w"
    "cell_parent c = None \<longrightarrow> cell_offset c + cell_length c + delta \<noteq> current_bytes w"
    using Cons.prems(6) c(2) by (simp_all add: chain_cells_def)
  have fresh: "a \<notin> set as"
    using lineage_distinct [OF Cons.prems(1)] by simp
  let ?c = "longer delta c"
  let ?w = "w\<lparr>wbuf_buf := Some (put_length ?c b)\<rparr>"
  let ?s = "s\<lparr>cells := (cells s)(a \<mapsto> ?c), bufs := (bufs s)(r \<mapsto> ?w)\<rparr>"
  have obj: "(cell_in w c)\<lparr>obj_length := cell_length c + delta\<rparr> = cell_in w ?c"
    by (simp add: cell_in_def)
  have set: "of_object_wire_length_set (cell_in w ?c) (cell_length ?c) = Inr (cell_in ?w ?c)"
    by (rule wire_length_set_put) (use Cons.prems(4,5) g in simp_all)
  have put: "put_object s a c (cell_in ?w ?c) = ?s"
    using g(1) by (simp add: put_object_def longer_def)
  have "int (length b) \<ge> current_bytes w"
    using Cons.prems(4,5) by (auto elim!: wbuf_wfE)
  then have len: "length (put_length ?c b) = length b"
    using g(3) by (intro length_put_length) force
  have same: "chain_cells ?s as = chain_cells s as"
    using fresh by (auto simp: chain_cells_def)
  have rest: "length_update_loop k ?s (cell_parent c) delta = Inl AssertFail" if "cell_parent c \<noteq> None" for k
  proof (rule Cons.IH)
    show "lineage ?s (cell_parent c) as"
      using fresh by (intro lineage_cong [OF c(3)]) auto
    show "as \<noteq> []"
      using c(3) that by (cases as) auto
    show "wbuf_wf ?w"
      using Cons.prems(4,5) len by (auto simp: wbuf_wf_def)
    show "\<forall>c\<in>set (chain_cells ?s as). cell_buf c = Some r \<and> sizable c \<and> (\<forall>p. length_at c = Some p \<longrightarrow> 0 \<le> p \<and> p + 2 \<le> current_bytes ?w) \<and>
        (cell_parent c = None \<longrightarrow> cell_offset c + cell_length c + delta \<noteq> current_bytes ?w)"
      using Cons.prems(6) unfolding same by (simp add: chain_cells_def)
  qed simp_all
  show ?case
  proof (cases turns)
    case 0
    then show ?thesis
      using c by simp
  next
    case (Suc k)
    then show ?thesis
      using c Cons.prems(3) put set g(4) rest
      by (cases "cell_parent c = None") (auto simp: cell_at_def cell_object_in [OF g(1)] obj c_assert_def)
  qed
qed simp

end
