(* ===== verification/Members.thy ===== *)
theory Members
  imports Family
begin

text \<open>
  The accessors of members of variable length: byte strings (\<open>of_X_M_get\<close>, \<open>of_X_M_set\<close>) and embedded objects, most
  of them lists (\<open>of_X_M_bind\<close>, \<open>of_X_M_get\<close>, \<open>of_X_M_set\<close>), of the generated class files. They differ between members
  in the classes they are for, in where the member is in each version and how long it is, and in a few special cases.
\<close>

subsection \<open>Where a member is\<close>

text \<open>The macros of \<^verbatim>\<open>src/loci_int.h\<close>.\<close>

definition TLV16_LEN :: "of_object \<Rightarrow> int \<Rightarrow> int res" where
  "TLV16_LEN obj offset = of_object_u16_get obj (offset + 2)"

definition MATCH_OFFSET_V3 :: "int \<Rightarrow> int" where
  "MATCH_OFFSET_V3 fixed_obj_len = fixed_obj_len - 8"

definition OFFSET_FOLLOWING_MATCH_V3 :: "of_object \<Rightarrow> int \<Rightarrow> int res" where
  "OFFSET_FOLLOWING_MATCH_V3 obj fixed_obj_len =
     bnd (TLV16_LEN obj (MATCH_OFFSET_V3 fixed_obj_len)) (\<lambda>n. Inr (fixed_obj_len + (OF_MATCH_BYTES n - 8)))"

definition WIRE_MATCH_LEN :: "of_object \<Rightarrow> int \<Rightarrow> int res" where
  "WIRE_MATCH_LEN obj match_offset =
     (if obj_version obj = 1 then Inr 40 else if obj_version obj = 2 then Inr 88 else TLV16_LEN obj match_offset)"

definition wire_match_len :: "of_object \<Rightarrow> int \<Rightarrow> int res" where
  "wire_match_len obj match_offset = bnd (WIRE_MATCH_LEN obj match_offset) (\<lambda>len. Inr (if len = 0 then 4 else len))"

definition PACKET_OUT_ACTION_LEN_OFFSET :: "of_object \<Rightarrow> int" where
  "PACKET_OUT_ACTION_LEN_OFFSET obj = (if obj_version obj = 1 then 14 else 16)"

definition PACKET_OUT_ACTION_LEN :: "of_object \<Rightarrow> int res" where
  "PACKET_OUT_ACTION_LEN obj = of_object_u16_get obj (PACKET_OUT_ACTION_LEN_OFFSET obj)"

definition after_key :: "of_object \<Rightarrow> int \<Rightarrow> int \<Rightarrow> int res" where
  "after_key obj q i = bnd (of_object_u16_get obj q) (\<lambda>n. bnd (of_object_fixed_len (obj_version obj) i) (\<lambda>fixed. Inr (n + fixed)))"

datatype place =
    At int | FlowModInstructions | FlowStatsEntryInstructions | PacketInData | PacketOutData
  | GentableEntryAddValue | GentableEntryDescValue | GentableEntryStats

fun place_at :: "place \<Rightarrow> of_object \<Rightarrow> int res" where
  "place_at (At n) obj = Inr n"
| "place_at FlowModInstructions obj = OFFSET_FOLLOWING_MATCH_V3 obj 56"
| "place_at FlowStatsEntryInstructions obj = OFFSET_FOLLOWING_MATCH_V3 obj 56"
| "place_at PacketInData obj =
     bnd (OFFSET_FOLLOWING_MATCH_V3 obj (if obj_version obj = 3 then 26 - 2 else 34 - 2)) (\<lambda>n. Inr (n + 2))"
| "place_at PacketOutData obj =
     bnd (PACKET_OUT_ACTION_LEN obj) (\<lambda>n. bnd (of_object_fixed_len (obj_version obj) OF_PACKET_OUT) (\<lambda>fixed. Inr (n + fixed)))"
| "place_at GentableEntryAddValue obj = after_key obj 18 OF_BSN_GENTABLE_ENTRY_ADD"
| "place_at GentableEntryDescValue obj = after_key obj 2 OF_BSN_GENTABLE_ENTRY_DESC_STATS_ENTRY"
| "place_at GentableEntryStats obj = after_key obj 2 OF_BSN_GENTABLE_ENTRY_STATS_ENTRY"

datatype extent = ToEnd | PaddedMatch | BareMatch | Len16 int | Bytes int | PacketOutActions

fun extent_at :: "extent \<Rightarrow> of_object \<Rightarrow> int \<Rightarrow> int res" where
  "extent_at ToEnd obj offset = Inr (obj_length obj - offset)"
| "extent_at PaddedMatch obj offset = bnd (wire_match_len obj offset) (\<lambda>n. Inr (OF_MATCH_BYTES n))"
| "extent_at BareMatch obj offset = bnd (wire_match_len obj 0) (\<lambda>n. Inr (n - 4))"
| "extent_at (Len16 q) obj offset = of_object_u16_get obj q"
| "extent_at (Bytes n) obj offset = Inr n"
| "extent_at PacketOutActions obj offset = PACKET_OUT_ACTION_LEN obj"

text \<open>The classes a member belongs to, and its place and length in each version that has it.\<close>

record var_member =
  owners :: "int list"
  places :: "(int \<times> place \<times> extent) list"

text \<open>What all accessors begin with: \<open>k\<close> goes on with the offset in the object and the current length.\<close>

definition at_member :: "'m var_member_scheme \<Rightarrow> of_object \<Rightarrow> (int \<Rightarrow> int \<Rightarrow> 'a res) \<Rightarrow> 'a res" where
  "at_member m obj k =
     c_assert (object_id obj \<in> set (owners m))
       (c_assert (wbuf obj \<noteq> None)
         (case map_of (places m) (obj_version obj) of
            None \<Rightarrow> Inl AssertFail
          | Some (pl, ex) \<Rightarrow>
              bnd (place_at pl obj) (\<lambda>offset.
              bnd (extent_at ex obj offset) (\<lambda>cur_len.
              c_assert (obj_offset obj + offset \<ge> 0) (c_assert (cur_len \<ge> 0 \<and> cur_len < 64 * 1024) (k offset cur_len))))))"

subsection \<open>Byte strings\<close>

text \<open>A getter gives a pointer into the buffer and a length.\<close>

definition octets_member_get :: "var_member \<Rightarrow> of_object \<Rightarrow> (int \<times> int) res" where
  "octets_member_get m obj =
     at_member m obj (\<lambda>offset cur_len.
       let abs_offset = obj_offset obj + offset in
       c_assert (case wbuf obj of None \<Rightarrow> False | Some w \<Rightarrow> cur_len + abs_offset \<le> current_bytes w)
         (OF_LENGTH_CHECK_ASSERT obj (Inr (abs_offset, cur_len))))"

text \<open>The bytes a setter is given come from outside the buffer.\<close>

definition octets_member_set :: "var_member \<Rightarrow> store \<Rightarrow> int \<Rightarrow> byte list \<Rightarrow> (int \<times> store) res" where
  "octets_member_set m s a xs =
     bnd (with_object s a (\<lambda>obj. at_member m obj (\<lambda>offset cur_len. Inr (obj_offset obj + offset, cur_len)))) (\<lambda>(abs_offset, cur_len).
     let delta = int (length xs) - cur_len in
     bnd (on_object s a (\<lambda>obj.
       bnd (of_wire_buffer_grow (wbuf obj) (abs_offset + delta)) (\<lambda>w.
       bnd (of_wire_buffer_octets_data_set (Some w) abs_offset xs cur_len) (\<lambda>w. Inr (obj\<lparr>wbuf := Some w\<rparr>))))) (\<lambda>s.
     bnd (if delta \<noteq> 0 then of_object_parent_length_update s a delta else Inr s) (\<lambda>s.
     with_object s a (\<lambda>obj. OF_LENGTH_CHECK_ASSERT obj (Inr (OF_ERROR_NONE, s))))))"

subsection \<open>Embedded objects\<close>

text \<open>
  The class a bound child is initialised as, the base class of a child whose type is read from the wire, and what a setter
  writes besides the bytes: by default the child's own length, in its own buffer.
\<close>

datatype length_note = ChildLength | PacketOutActionsLength | ObjectU16 int

record object_member = var_member +
  child_class :: int
  child_base :: "int option"
  length_note :: length_note

definition member_bind :: "object_member \<Rightarrow> store \<Rightarrow> int \<Rightarrow> int \<Rightarrow> store res" where
  "member_bind m s a child =
     bnd (with_object s a (\<lambda>obj. at_member m obj (\<lambda>offset cur_len. Inr (offset, cur_len)))) (\<lambda>(offset, cur_len).
     bnd (cell_at s a) (\<lambda>c.
     bnd (of_object_init (child_class m) zero_object (cell_version c) 0 True) (\<lambda>ch.
     let s = s\<lparr>cells := (cells s)(child \<mapsto> \<lparr>cell_buf = cell_buf c, cell_parent = Some a, cell_offset = cell_offset c + offset,
           cell_id = object_id ch, cell_length = cur_len, cell_version = obj_version ch\<rparr>)\<rparr> in
     bnd (case child_base m of None \<Rightarrow> Inr s
          | Some base \<Rightarrow> on_object s child (\<lambda>ch. bnd (of_object_wire_init ch base 0) (\<lambda>(rv, ch). Inr ch))) (\<lambda>s.
     with_object s a (\<lambda>obj. OF_LENGTH_CHECK_ASSERT obj (Inr s))))))"

text \<open>A getter binds a local variable, at the address \<open>tmp\<close>, and duplicates it.\<close>

definition member_get :: "object_member \<Rightarrow> bool \<Rightarrow> bool \<Rightarrow> byte heap_reply \<Rightarrow> store \<Rightarrow> int \<Rightarrow> int \<Rightarrow> of_object option res" where
  "member_get m got_obj got_wbuf h s a tmp =
     bnd (member_bind m s a tmp) (\<lambda>s. with_object s tmp (of_object_dup got_obj got_wbuf h))"

definition member_set :: "object_member \<Rightarrow> store \<Rightarrow> int \<Rightarrow> int \<Rightarrow> (int \<times> store) res" where
  "member_set m s a child =
     bnd (with_object s a (\<lambda>obj. at_member m obj (\<lambda>offset cur_len. Inr (obj_offset obj + offset, cur_len)))) (\<lambda>(abs_offset, cur_len).
     bnd (cell_at s a) (\<lambda>pc.
     bnd (cell_at s child) (\<lambda>cc.
     let new_len = cell_length cc in
     if cell_buf pc = cell_buf cc then
       bnd (on_object s a (\<lambda>obj. bnd (of_wire_buffer_grow (wbuf obj) (abs_offset + new_len)) (\<lambda>w. Inr (obj\<lparr>wbuf := Some w\<rparr>)))) (\<lambda>s.
       c_assert (abs_offset = cell_offset cc) (Inr (OF_ERROR_NONE, s)))
     else
       bnd (with_object s child object_bytes) (\<lambda>xs.
       bnd (on_object s a (\<lambda>obj. bnd (of_wire_buffer_replace_data (wbuf obj) abs_offset cur_len xs) (\<lambda>w. Inr (obj\<lparr>wbuf := Some w\<rparr>)))) (\<lambda>s.
       bnd (case length_note m of
              ChildLength \<Rightarrow> on_object s child (\<lambda>ch. of_object_wire_length_set ch (obj_length ch))
            | PacketOutActionsLength \<Rightarrow> on_object s a (\<lambda>obj. of_object_u16_set obj (PACKET_OUT_ACTION_LEN_OFFSET obj) new_len)
            | ObjectU16 q \<Rightarrow> on_object s a (\<lambda>obj. of_object_u16_set obj q new_len)) (\<lambda>s.
       bnd (if new_len - cur_len \<noteq> 0 then of_object_parent_length_update s a (new_len - cur_len) else Inr s) (\<lambda>s.
       with_object s a (\<lambda>obj. OF_LENGTH_CHECK_ASSERT obj (Inr (OF_ERROR_NONE, s))))))))))"

end
