(* ===== verification/MemberTables.thy ===== *)
theory MemberTables
  imports Members
begin

text \<open>
  The members of variable length: byte strings, matches and embedded objects, one definition for the accessors of each, in
  the order of the class files.
\<close>

definition of_action_experimenter_data :: var_member where
  "of_action_experimenter_data = \<lparr>owners = [OF_ACTION_EXPERIMENTER], places = [(1, At 8, ToEnd), (2, At 8, ToEnd), (3, At 8, ToEnd), (4, At 8, ToEnd), (5, At 8, ToEnd)]\<rparr>"

definition of_bad_action_error_msg_data :: var_member where
  "of_bad_action_error_msg_data = \<lparr>owners = [OF_BAD_ACTION_ERROR_MSG], places = [(1, At 12, ToEnd), (2, At 12, ToEnd), (3, At 12, ToEnd), (4, At 12, ToEnd), (5, At 12, ToEnd)]\<rparr>"

definition of_bad_request_error_msg_data :: var_member where
  "of_bad_request_error_msg_data = \<lparr>owners = [OF_BAD_REQUEST_ERROR_MSG], places = [(1, At 12, ToEnd), (2, At 12, ToEnd), (3, At 12, ToEnd), (4, At 12, ToEnd), (5, At 12, ToEnd)]\<rparr>"

definition of_experimenter_data :: var_member where
  "of_experimenter_data = \<lparr>owners = [OF_EXPERIMENTER], places = [(1, At 12, ToEnd), (2, At 12, ToEnd), (3, At 16, ToEnd), (4, At 16, ToEnd), (5, At 16, ToEnd)]\<rparr>"

definition of_bsn_pdu_rx_request_data :: var_member where
  "of_bsn_pdu_rx_request_data = \<lparr>owners = [OF_BSN_PDU_RX_REQUEST], places = [(1, At 26, ToEnd), (2, At 28, ToEnd), (3, At 28, ToEnd), (4, At 28, ToEnd), (5, At 28, ToEnd)]\<rparr>"

definition of_bsn_pdu_tx_request_data :: var_member where
  "of_bsn_pdu_tx_request_data = \<lparr>owners = [OF_BSN_PDU_TX_REQUEST], places = [(1, At 26, ToEnd), (2, At 28, ToEnd), (3, At 28, ToEnd), (4, At 28, ToEnd), (5, At 28, ToEnd)]\<rparr>"

definition of_bsn_shell_command_data :: var_member where
  "of_bsn_shell_command_data = \<lparr>owners = [OF_BSN_SHELL_COMMAND], places = [(1, At 20, ToEnd)]\<rparr>"

definition of_bsn_shell_output_data :: var_member where
  "of_bsn_shell_output_data = \<lparr>owners = [OF_BSN_SHELL_OUTPUT], places = [(1, At 16, ToEnd)]\<rparr>"

definition of_experimenter_stats_reply_data :: var_member where
  "of_experimenter_stats_reply_data = \<lparr>owners = [OF_EXPERIMENTER_STATS_REPLY], places = [(1, At 16, ToEnd), (2, At 24, ToEnd), (3, At 24, ToEnd)]\<rparr>"

definition of_experimenter_stats_request_data :: var_member where
  "of_experimenter_stats_request_data = \<lparr>owners = [OF_EXPERIMENTER_STATS_REQUEST], places = [(1, At 16, ToEnd), (2, At 24, ToEnd), (3, At 24, ToEnd)]\<rparr>"

definition of_echo_reply_data :: var_member where
  "of_echo_reply_data = \<lparr>owners = [OF_ECHO_REPLY], places = [(1, At 8, ToEnd), (2, At 8, ToEnd), (3, At 8, ToEnd), (4, At 8, ToEnd), (5, At 8, ToEnd)]\<rparr>"

definition of_echo_request_data :: var_member where
  "of_echo_request_data = \<lparr>owners = [OF_ECHO_REQUEST], places = [(1, At 8, ToEnd), (2, At 8, ToEnd), (3, At 8, ToEnd), (4, At 8, ToEnd), (5, At 8, ToEnd)]\<rparr>"

definition of_flow_mod_failed_error_msg_data :: var_member where
  "of_flow_mod_failed_error_msg_data = \<lparr>owners = [OF_FLOW_MOD_FAILED_ERROR_MSG], places = [(1, At 12, ToEnd), (2, At 12, ToEnd), (3, At 12, ToEnd), (4, At 12, ToEnd), (5, At 12, ToEnd)]\<rparr>"

definition of_hello_failed_error_msg_data :: var_member where
  "of_hello_failed_error_msg_data = \<lparr>owners = [OF_HELLO_FAILED_ERROR_MSG], places = [(1, At 12, ToEnd), (2, At 12, ToEnd), (3, At 12, ToEnd), (4, At 12, ToEnd), (5, At 12, ToEnd)]\<rparr>"

definition of_packet_in_data :: var_member where
  "of_packet_in_data = \<lparr>owners = [OF_PACKET_IN], places = [(1, At 18, ToEnd), (2, At 24, ToEnd), (3, PacketInData, ToEnd), (4, PacketInData, ToEnd), (5, PacketInData, ToEnd)]\<rparr>"

definition of_packet_out_data :: var_member where
  "of_packet_out_data = \<lparr>owners = [OF_PACKET_OUT], places = [(1, PacketOutData, ToEnd), (2, PacketOutData, ToEnd), (3, PacketOutData, ToEnd), (4, PacketOutData, ToEnd), (5, PacketOutData, ToEnd)]\<rparr>"

definition of_port_mod_failed_error_msg_data :: var_member where
  "of_port_mod_failed_error_msg_data = \<lparr>owners = [OF_PORT_MOD_FAILED_ERROR_MSG], places = [(1, At 12, ToEnd), (2, At 12, ToEnd), (3, At 12, ToEnd), (4, At 12, ToEnd), (5, At 12, ToEnd)]\<rparr>"

definition of_queue_op_failed_error_msg_data :: var_member where
  "of_queue_op_failed_error_msg_data = \<lparr>owners = [OF_QUEUE_OP_FAILED_ERROR_MSG], places = [(1, At 12, ToEnd), (2, At 12, ToEnd), (3, At 12, ToEnd), (4, At 12, ToEnd), (5, At 12, ToEnd)]\<rparr>"

definition of_bad_instruction_error_msg_data :: var_member where
  "of_bad_instruction_error_msg_data = \<lparr>owners = [OF_BAD_INSTRUCTION_ERROR_MSG], places = [(2, At 12, ToEnd), (3, At 12, ToEnd), (4, At 12, ToEnd), (5, At 12, ToEnd)]\<rparr>"

definition of_bad_match_error_msg_data :: var_member where
  "of_bad_match_error_msg_data = \<lparr>owners = [OF_BAD_MATCH_ERROR_MSG], places = [(2, At 12, ToEnd), (3, At 12, ToEnd), (4, At 12, ToEnd), (5, At 12, ToEnd)]\<rparr>"

definition of_group_mod_failed_error_msg_data :: var_member where
  "of_group_mod_failed_error_msg_data = \<lparr>owners = [OF_GROUP_MOD_FAILED_ERROR_MSG], places = [(2, At 12, ToEnd), (3, At 12, ToEnd), (4, At 12, ToEnd), (5, At 12, ToEnd)]\<rparr>"

definition of_instruction_experimenter_data :: var_member where
  "of_instruction_experimenter_data = \<lparr>owners = [OF_INSTRUCTION_EXPERIMENTER], places = [(2, At 8, ToEnd), (3, At 8, ToEnd), (4, At 8, ToEnd), (5, At 8, ToEnd)]\<rparr>"

definition of_switch_config_failed_error_msg_data :: var_member where
  "of_switch_config_failed_error_msg_data = \<lparr>owners = [OF_SWITCH_CONFIG_FAILED_ERROR_MSG], places = [(2, At 12, ToEnd), (3, At 12, ToEnd), (4, At 12, ToEnd), (5, At 12, ToEnd)]\<rparr>"

definition of_table_mod_failed_error_msg_data :: var_member where
  "of_table_mod_failed_error_msg_data = \<lparr>owners = [OF_TABLE_MOD_FAILED_ERROR_MSG], places = [(2, At 12, ToEnd), (3, At 12, ToEnd), (4, At 12, ToEnd), (5, At 12, ToEnd)]\<rparr>"

definition of_experimenter_error_msg_data :: var_member where
  "of_experimenter_error_msg_data = \<lparr>owners = [OF_EXPERIMENTER_ERROR_MSG], places = [(3, At 16, ToEnd), (4, At 16, ToEnd), (5, At 16, ToEnd)]\<rparr>"

definition of_queue_prop_experimenter_data :: var_member where
  "of_queue_prop_experimenter_data = \<lparr>owners = [OF_QUEUE_PROP_EXPERIMENTER], places = [(3, At 16, ToEnd), (4, At 16, ToEnd), (5, At 16, ToEnd)]\<rparr>"

definition of_role_request_failed_error_msg_data :: var_member where
  "of_role_request_failed_error_msg_data = \<lparr>owners = [OF_ROLE_REQUEST_FAILED_ERROR_MSG], places = [(3, At 12, ToEnd), (4, At 12, ToEnd), (5, At 12, ToEnd)]\<rparr>"

definition of_bsn_log_data :: var_member where
  "of_bsn_log_data = \<lparr>owners = [OF_BSN_LOG], places = [(4, At 17, ToEnd), (5, At 17, ToEnd)]\<rparr>"

definition of_bsn_lua_command_reply_data :: var_member where
  "of_bsn_lua_command_reply_data = \<lparr>owners = [OF_BSN_LUA_COMMAND_REPLY], places = [(4, At 16, ToEnd), (5, At 16, ToEnd)]\<rparr>"

definition of_bsn_lua_command_request_data :: var_member where
  "of_bsn_lua_command_request_data = \<lparr>owners = [OF_BSN_LUA_COMMAND_REQUEST], places = [(4, At 16, ToEnd), (5, At 16, ToEnd)]\<rparr>"

definition of_bsn_lua_notification_data :: var_member where
  "of_bsn_lua_notification_data = \<lparr>owners = [OF_BSN_LUA_NOTIFICATION], places = [(4, At 16, ToEnd), (5, At 16, ToEnd)]\<rparr>"

definition of_bsn_lua_upload_data :: var_member where
  "of_bsn_lua_upload_data = \<lparr>owners = [OF_BSN_LUA_UPLOAD], places = [(4, At 82, ToEnd), (5, At 82, ToEnd)]\<rparr>"

definition of_bsn_tlv_circuit_id_value :: var_member where
  "of_bsn_tlv_circuit_id_value = \<lparr>owners = [OF_BSN_TLV_CIRCUIT_ID], places = [(4, At 4, ToEnd), (5, At 4, ToEnd)]\<rparr>"

definition of_bsn_tlv_data_value :: var_member where
  "of_bsn_tlv_data_value = \<lparr>owners = [OF_BSN_TLV_DATA], places = [(4, At 4, ToEnd), (5, At 4, ToEnd)]\<rparr>"

definition of_bsn_tlv_name_value :: var_member where
  "of_bsn_tlv_name_value = \<lparr>owners = [OF_BSN_TLV_NAME], places = [(4, At 4, ToEnd), (5, At 4, ToEnd)]\<rparr>"

definition of_meter_mod_failed_error_msg_data :: var_member where
  "of_meter_mod_failed_error_msg_data = \<lparr>owners = [OF_METER_MOD_FAILED_ERROR_MSG], places = [(4, At 12, ToEnd), (5, At 12, ToEnd)]\<rparr>"

definition of_table_feature_prop_experimenter_experimenter_data :: var_member where
  "of_table_feature_prop_experimenter_experimenter_data = \<lparr>owners = [OF_TABLE_FEATURE_PROP_EXPERIMENTER], places = [(4, At 12, ToEnd), (5, At 12, ToEnd)]\<rparr>"

definition of_table_feature_prop_experimenter_miss_experimenter_data :: var_member where
  "of_table_feature_prop_experimenter_miss_experimenter_data = \<lparr>owners = [OF_TABLE_FEATURE_PROP_EXPERIMENTER_MISS], places = [(4, At 12, ToEnd), (5, At 12, ToEnd)]\<rparr>"

definition of_table_features_failed_error_msg_data :: var_member where
  "of_table_features_failed_error_msg_data = \<lparr>owners = [OF_TABLE_FEATURES_FAILED_ERROR_MSG], places = [(4, At 12, ToEnd), (5, At 12, ToEnd)]\<rparr>"

definition of_async_config_failed_error_msg_data :: var_member where
  "of_async_config_failed_error_msg_data = \<lparr>owners = [OF_ASYNC_CONFIG_FAILED_ERROR_MSG], places = [(5, At 12, ToEnd)]\<rparr>"

definition of_bad_property_error_msg_data :: var_member where
  "of_bad_property_error_msg_data = \<lparr>owners = [OF_BAD_PROPERTY_ERROR_MSG], places = [(5, At 12, ToEnd)]\<rparr>"

definition of_bundle_add_msg_data :: var_member where
  "of_bundle_add_msg_data = \<lparr>owners = [OF_BUNDLE_ADD_MSG], places = [(5, At 16, ToEnd)]\<rparr>"

definition of_bundle_failed_error_msg_data :: var_member where
  "of_bundle_failed_error_msg_data = \<lparr>owners = [OF_BUNDLE_FAILED_ERROR_MSG], places = [(5, At 12, ToEnd)]\<rparr>"

definition of_flow_monitor_failed_error_msg_data :: var_member where
  "of_flow_monitor_failed_error_msg_data = \<lparr>owners = [OF_FLOW_MONITOR_FAILED_ERROR_MSG], places = [(5, At 12, ToEnd)]\<rparr>"

definition of_port_stats_prop_experimenter_experimenter_data :: var_member where
  "of_port_stats_prop_experimenter_experimenter_data = \<lparr>owners = [OF_PORT_STATS_PROP_EXPERIMENTER], places = [(5, At 12, ToEnd)]\<rparr>"

definition of_requestforward_data :: var_member where
  "of_requestforward_data = \<lparr>owners = [OF_REQUESTFORWARD], places = [(5, At 12, ToEnd)]\<rparr>"

definition of_aggregate_stats_request_match :: var_member where
  "of_aggregate_stats_request_match = \<lparr>owners = [OF_AGGREGATE_STATS_REQUEST], places = [(1, At 12, PaddedMatch), (2, At 48, PaddedMatch), (3, At 48, PaddedMatch), (4, At 48, PaddedMatch), (5, At 48, PaddedMatch)]\<rparr>"

definition of_flow_mod_match :: var_member where
  "of_flow_mod_match = \<lparr>owners = [OF_FLOW_MOD], places = [(1, At 8, PaddedMatch), (2, At 48, PaddedMatch), (3, At 48, PaddedMatch), (4, At 48, PaddedMatch), (5, At 48, PaddedMatch)]\<rparr>"

definition of_flow_add_match :: var_member where
  "of_flow_add_match = \<lparr>owners = flow_mod_subtypes, places = [(1, At 8, PaddedMatch), (2, At 48, PaddedMatch), (3, At 48, PaddedMatch), (4, At 48, PaddedMatch), (5, At 48, PaddedMatch)]\<rparr>"

definition of_flow_delete_match :: var_member where
  "of_flow_delete_match = \<lparr>owners = flow_mod_subtypes, places = [(1, At 8, PaddedMatch), (2, At 48, PaddedMatch), (3, At 48, PaddedMatch), (4, At 48, PaddedMatch), (5, At 48, PaddedMatch)]\<rparr>"

definition of_flow_delete_strict_match :: var_member where
  "of_flow_delete_strict_match = \<lparr>owners = flow_mod_subtypes, places = [(1, At 8, PaddedMatch), (2, At 48, PaddedMatch), (3, At 48, PaddedMatch), (4, At 48, PaddedMatch), (5, At 48, PaddedMatch)]\<rparr>"

definition of_flow_modify_match :: var_member where
  "of_flow_modify_match = \<lparr>owners = flow_mod_subtypes, places = [(1, At 8, PaddedMatch), (2, At 48, PaddedMatch), (3, At 48, PaddedMatch), (4, At 48, PaddedMatch), (5, At 48, PaddedMatch)]\<rparr>"

definition of_flow_modify_strict_match :: var_member where
  "of_flow_modify_strict_match = \<lparr>owners = flow_mod_subtypes, places = [(1, At 8, PaddedMatch), (2, At 48, PaddedMatch), (3, At 48, PaddedMatch), (4, At 48, PaddedMatch), (5, At 48, PaddedMatch)]\<rparr>"

definition of_flow_removed_match :: var_member where
  "of_flow_removed_match = \<lparr>owners = [OF_FLOW_REMOVED], places = [(1, At 8, PaddedMatch), (2, At 48, PaddedMatch), (3, At 48, PaddedMatch), (4, At 48, PaddedMatch), (5, At 48, PaddedMatch)]\<rparr>"

definition of_flow_stats_entry_match :: var_member where
  "of_flow_stats_entry_match = \<lparr>owners = [OF_FLOW_STATS_ENTRY], places = [(1, At 4, PaddedMatch), (2, At 48, PaddedMatch), (3, At 48, PaddedMatch), (4, At 48, PaddedMatch), (5, At 48, PaddedMatch)]\<rparr>"

definition of_flow_stats_request_match :: var_member where
  "of_flow_stats_request_match = \<lparr>owners = [OF_FLOW_STATS_REQUEST], places = [(1, At 12, PaddedMatch), (2, At 48, PaddedMatch), (3, At 48, PaddedMatch), (4, At 48, PaddedMatch), (5, At 48, PaddedMatch)]\<rparr>"

definition of_packet_in_match :: var_member where
  "of_packet_in_match = \<lparr>owners = [OF_PACKET_IN], places = [(3, At 16, PaddedMatch), (4, At 24, PaddedMatch), (5, At 24, PaddedMatch)]\<rparr>"

definition of_bsn_flow_idle_match :: var_member where
  "of_bsn_flow_idle_match = \<lparr>owners = [OF_BSN_FLOW_IDLE], places = [(4, At 32, PaddedMatch), (5, At 32, PaddedMatch)]\<rparr>"

definition of_bsn_get_interfaces_reply_interfaces :: object_member where
  "of_bsn_get_interfaces_reply_interfaces = \<lparr>owners = [OF_BSN_GET_INTERFACES_REPLY], places = [(1, At 16, ToEnd), (2, At 16, ToEnd), (3, At 16, ToEnd), (4, At 16, ToEnd), (5, At 16, ToEnd)],
     child_class = OF_LIST_BSN_INTERFACE, child_base = None, length_note = ChildLength\<rparr>"

definition of_bsn_virtual_port_create_request_vport :: object_member where
  "of_bsn_virtual_port_create_request_vport = \<lparr>owners = [OF_BSN_VIRTUAL_PORT_CREATE_REQUEST], places = [(1, At 16, ToEnd), (2, At 16, ToEnd), (3, At 16, ToEnd), (4, At 16, ToEnd), (5, At 16, ToEnd)],
     child_class = OF_BSN_VPORT, child_base = Some OF_BSN_VPORT, length_note = ChildLength\<rparr>"

definition of_features_reply_ports :: object_member where
  "of_features_reply_ports = \<lparr>owners = [OF_FEATURES_REPLY], places = [(1, At 32, ToEnd), (2, At 32, ToEnd), (3, At 32, ToEnd)],
     child_class = OF_LIST_PORT_DESC, child_base = None, length_note = ChildLength\<rparr>"

definition of_flow_mod_instructions :: object_member where
  "of_flow_mod_instructions = \<lparr>owners = [OF_FLOW_MOD], places = [(2, At 136, ToEnd), (3, FlowModInstructions, ToEnd), (4, FlowModInstructions, ToEnd), (5, FlowModInstructions, ToEnd)],
     child_class = OF_LIST_INSTRUCTION, child_base = None, length_note = ChildLength\<rparr>"

definition of_flow_mod_actions :: object_member where
  "of_flow_mod_actions = \<lparr>owners = [OF_FLOW_MOD], places = [(1, At 72, ToEnd)],
     child_class = OF_LIST_ACTION, child_base = None, length_note = ChildLength\<rparr>"

definition of_flow_add_instructions :: object_member where
  "of_flow_add_instructions = \<lparr>owners = flow_mod_subtypes, places = [(2, At 136, ToEnd), (3, FlowModInstructions, ToEnd), (4, FlowModInstructions, ToEnd), (5, FlowModInstructions, ToEnd)],
     child_class = OF_LIST_INSTRUCTION, child_base = None, length_note = ChildLength\<rparr>"

definition of_flow_add_actions :: object_member where
  "of_flow_add_actions = \<lparr>owners = flow_mod_subtypes, places = [(1, At 72, ToEnd)],
     child_class = OF_LIST_ACTION, child_base = None, length_note = ChildLength\<rparr>"

definition of_flow_delete_instructions :: object_member where
  "of_flow_delete_instructions = \<lparr>owners = flow_mod_subtypes, places = [(2, At 136, ToEnd), (3, FlowModInstructions, ToEnd), (4, FlowModInstructions, ToEnd), (5, FlowModInstructions, ToEnd)],
     child_class = OF_LIST_INSTRUCTION, child_base = None, length_note = ChildLength\<rparr>"

definition of_flow_delete_actions :: object_member where
  "of_flow_delete_actions = \<lparr>owners = flow_mod_subtypes, places = [(1, At 72, ToEnd)],
     child_class = OF_LIST_ACTION, child_base = None, length_note = ChildLength\<rparr>"

definition of_flow_delete_strict_instructions :: object_member where
  "of_flow_delete_strict_instructions = \<lparr>owners = flow_mod_subtypes, places = [(2, At 136, ToEnd), (3, FlowModInstructions, ToEnd), (4, FlowModInstructions, ToEnd), (5, FlowModInstructions, ToEnd)],
     child_class = OF_LIST_INSTRUCTION, child_base = None, length_note = ChildLength\<rparr>"

definition of_flow_delete_strict_actions :: object_member where
  "of_flow_delete_strict_actions = \<lparr>owners = flow_mod_subtypes, places = [(1, At 72, ToEnd)],
     child_class = OF_LIST_ACTION, child_base = None, length_note = ChildLength\<rparr>"

definition of_flow_modify_instructions :: object_member where
  "of_flow_modify_instructions = \<lparr>owners = flow_mod_subtypes, places = [(2, At 136, ToEnd), (3, FlowModInstructions, ToEnd), (4, FlowModInstructions, ToEnd), (5, FlowModInstructions, ToEnd)],
     child_class = OF_LIST_INSTRUCTION, child_base = None, length_note = ChildLength\<rparr>"

definition of_flow_modify_actions :: object_member where
  "of_flow_modify_actions = \<lparr>owners = flow_mod_subtypes, places = [(1, At 72, ToEnd)],
     child_class = OF_LIST_ACTION, child_base = None, length_note = ChildLength\<rparr>"

definition of_flow_modify_strict_instructions :: object_member where
  "of_flow_modify_strict_instructions = \<lparr>owners = flow_mod_subtypes, places = [(2, At 136, ToEnd), (3, FlowModInstructions, ToEnd), (4, FlowModInstructions, ToEnd), (5, FlowModInstructions, ToEnd)],
     child_class = OF_LIST_INSTRUCTION, child_base = None, length_note = ChildLength\<rparr>"

definition of_flow_modify_strict_actions :: object_member where
  "of_flow_modify_strict_actions = \<lparr>owners = flow_mod_subtypes, places = [(1, At 72, ToEnd)],
     child_class = OF_LIST_ACTION, child_base = None, length_note = ChildLength\<rparr>"

definition of_flow_stats_entry_instructions :: object_member where
  "of_flow_stats_entry_instructions = \<lparr>owners = [OF_FLOW_STATS_ENTRY], places = [(2, At 136, ToEnd), (3, FlowStatsEntryInstructions, ToEnd), (4, FlowStatsEntryInstructions, ToEnd), (5, FlowStatsEntryInstructions, ToEnd)],
     child_class = OF_LIST_INSTRUCTION, child_base = None, length_note = ChildLength\<rparr>"

definition of_flow_stats_entry_actions :: object_member where
  "of_flow_stats_entry_actions = \<lparr>owners = [OF_FLOW_STATS_ENTRY], places = [(1, At 88, ToEnd)],
     child_class = OF_LIST_ACTION, child_base = None, length_note = ChildLength\<rparr>"

definition of_flow_stats_reply_entries :: object_member where
  "of_flow_stats_reply_entries = \<lparr>owners = [OF_FLOW_STATS_REPLY], places = [(1, At 12, ToEnd), (2, At 16, ToEnd), (3, At 16, ToEnd), (4, At 16, ToEnd), (5, At 16, ToEnd)],
     child_class = OF_LIST_FLOW_STATS_ENTRY, child_base = None, length_note = ChildLength\<rparr>"

definition of_hello_elements :: object_member where
  "of_hello_elements = \<lparr>owners = [OF_HELLO], places = [(4, At 8, ToEnd), (5, At 8, ToEnd)],
     child_class = OF_LIST_HELLO_ELEM, child_base = None, length_note = ChildLength\<rparr>"

definition of_packet_out_actions :: object_member where
  "of_packet_out_actions = \<lparr>owners = [OF_PACKET_OUT], places = [(1, At 16, PacketOutActions), (2, At 24, PacketOutActions), (3, At 24, PacketOutActions), (4, At 24, PacketOutActions), (5, At 24, PacketOutActions)],
     child_class = OF_LIST_ACTION, child_base = None, length_note = PacketOutActionsLength\<rparr>"

definition of_packet_queue_properties :: object_member where
  "of_packet_queue_properties = \<lparr>owners = [OF_PACKET_QUEUE], places = [(1, At 8, ToEnd), (2, At 8, ToEnd), (3, At 16, ToEnd), (4, At 16, ToEnd), (5, At 16, ToEnd)],
     child_class = OF_LIST_QUEUE_PROP, child_base = None, length_note = ChildLength\<rparr>"

definition of_port_desc_properties :: object_member where
  "of_port_desc_properties = \<lparr>owners = [OF_PORT_DESC], places = [(5, At 40, ToEnd)],
     child_class = OF_LIST_PORT_DESC_PROP, child_base = None, length_note = ChildLength\<rparr>"

definition of_port_mod_properties :: object_member where
  "of_port_mod_properties = \<lparr>owners = [OF_PORT_MOD], places = [(5, At 32, ToEnd)],
     child_class = OF_LIST_PORT_MOD_PROP, child_base = None, length_note = ChildLength\<rparr>"

definition of_port_stats_entry_properties :: object_member where
  "of_port_stats_entry_properties = \<lparr>owners = [OF_PORT_STATS_ENTRY], places = [(5, At 80, ToEnd)],
     child_class = OF_LIST_PORT_STATS_PROP, child_base = None, length_note = ChildLength\<rparr>"

definition of_port_stats_reply_entries :: object_member where
  "of_port_stats_reply_entries = \<lparr>owners = [OF_PORT_STATS_REPLY], places = [(1, At 12, ToEnd), (2, At 16, ToEnd), (3, At 16, ToEnd), (4, At 16, ToEnd), (5, At 16, ToEnd)],
     child_class = OF_LIST_PORT_STATS_ENTRY, child_base = None, length_note = ChildLength\<rparr>"

definition of_port_status_desc :: object_member where
  "of_port_status_desc = \<lparr>owners = [OF_PORT_STATUS], places = [(1, At 16, Bytes 48), (2, At 16, Bytes 64), (3, At 16, Bytes 64), (4, At 16, Bytes 64), (5, At 16, ToEnd)],
     child_class = OF_PORT_DESC, child_base = None, length_note = ChildLength\<rparr>"

definition of_queue_get_config_reply_queues :: object_member where
  "of_queue_get_config_reply_queues = \<lparr>owners = [OF_QUEUE_GET_CONFIG_REPLY], places = [(1, At 16, ToEnd), (2, At 16, ToEnd), (3, At 16, ToEnd), (4, At 16, ToEnd)],
     child_class = OF_LIST_PACKET_QUEUE, child_base = None, length_note = ChildLength\<rparr>"

definition of_queue_stats_entry_properties :: object_member where
  "of_queue_stats_entry_properties = \<lparr>owners = [OF_QUEUE_STATS_ENTRY], places = [(5, At 48, ToEnd)],
     child_class = OF_LIST_QUEUE_STATS_PROP, child_base = None, length_note = ChildLength\<rparr>"

definition of_queue_stats_reply_entries :: object_member where
  "of_queue_stats_reply_entries = \<lparr>owners = [OF_QUEUE_STATS_REPLY], places = [(1, At 12, ToEnd), (2, At 16, ToEnd), (3, At 16, ToEnd), (4, At 16, ToEnd), (5, At 16, ToEnd)],
     child_class = OF_LIST_QUEUE_STATS_ENTRY, child_base = None, length_note = ChildLength\<rparr>"

definition of_table_mod_properties :: object_member where
  "of_table_mod_properties = \<lparr>owners = [OF_TABLE_MOD], places = [(5, At 16, ToEnd)],
     child_class = OF_LIST_TABLE_MOD_PROP, child_base = None, length_note = ChildLength\<rparr>"

definition of_table_stats_reply_entries :: object_member where
  "of_table_stats_reply_entries = \<lparr>owners = [OF_TABLE_STATS_REPLY], places = [(1, At 12, ToEnd), (2, At 16, ToEnd), (3, At 16, ToEnd), (4, At 16, ToEnd), (5, At 16, ToEnd)],
     child_class = OF_LIST_TABLE_STATS_ENTRY, child_base = None, length_note = ChildLength\<rparr>"

definition of_bucket_actions :: object_member where
  "of_bucket_actions = \<lparr>owners = [OF_BUCKET], places = [(2, At 16, ToEnd), (3, At 16, ToEnd), (4, At 16, ToEnd), (5, At 16, ToEnd)],
     child_class = OF_LIST_ACTION, child_base = None, length_note = ChildLength\<rparr>"

definition of_group_mod_buckets :: object_member where
  "of_group_mod_buckets = \<lparr>owners = [OF_GROUP_MOD], places = [(2, At 16, ToEnd), (3, At 16, ToEnd), (4, At 16, ToEnd), (5, At 16, ToEnd)],
     child_class = OF_LIST_BUCKET, child_base = None, length_note = ChildLength\<rparr>"

definition of_group_add_buckets :: object_member where
  "of_group_add_buckets = \<lparr>owners = [OF_GROUP_ADD], places = [(2, At 16, ToEnd), (3, At 16, ToEnd), (4, At 16, ToEnd), (5, At 16, ToEnd)],
     child_class = OF_LIST_BUCKET, child_base = None, length_note = ChildLength\<rparr>"

definition of_group_delete_buckets :: object_member where
  "of_group_delete_buckets = \<lparr>owners = [OF_GROUP_DELETE], places = [(2, At 16, ToEnd), (3, At 16, ToEnd), (4, At 16, ToEnd), (5, At 16, ToEnd)],
     child_class = OF_LIST_BUCKET, child_base = None, length_note = ChildLength\<rparr>"

definition of_group_desc_stats_entry_buckets :: object_member where
  "of_group_desc_stats_entry_buckets = \<lparr>owners = [OF_GROUP_DESC_STATS_ENTRY], places = [(2, At 8, ToEnd), (3, At 8, ToEnd), (4, At 8, ToEnd), (5, At 8, ToEnd)],
     child_class = OF_LIST_BUCKET, child_base = None, length_note = ChildLength\<rparr>"

definition of_group_desc_stats_reply_entries :: object_member where
  "of_group_desc_stats_reply_entries = \<lparr>owners = [OF_GROUP_DESC_STATS_REPLY], places = [(2, At 16, ToEnd), (3, At 16, ToEnd), (4, At 16, ToEnd), (5, At 16, ToEnd)],
     child_class = OF_LIST_GROUP_DESC_STATS_ENTRY, child_base = None, length_note = ChildLength\<rparr>"

definition of_group_modify_buckets :: object_member where
  "of_group_modify_buckets = \<lparr>owners = [OF_GROUP_MODIFY], places = [(2, At 16, ToEnd), (3, At 16, ToEnd), (4, At 16, ToEnd), (5, At 16, ToEnd)],
     child_class = OF_LIST_BUCKET, child_base = None, length_note = ChildLength\<rparr>"

definition of_group_stats_entry_bucket_stats :: object_member where
  "of_group_stats_entry_bucket_stats = \<lparr>owners = [OF_GROUP_STATS_ENTRY], places = [(2, At 32, ToEnd), (3, At 32, ToEnd), (4, At 40, ToEnd), (5, At 40, ToEnd)],
     child_class = OF_LIST_BUCKET_COUNTER, child_base = None, length_note = ChildLength\<rparr>"

definition of_group_stats_reply_entries :: object_member where
  "of_group_stats_reply_entries = \<lparr>owners = [OF_GROUP_STATS_REPLY], places = [(2, At 16, ToEnd), (3, At 16, ToEnd), (4, At 16, ToEnd), (5, At 16, ToEnd)],
     child_class = OF_LIST_GROUP_STATS_ENTRY, child_base = None, length_note = ChildLength\<rparr>"

definition of_instruction_apply_actions_actions :: object_member where
  "of_instruction_apply_actions_actions = \<lparr>owners = [OF_INSTRUCTION_APPLY_ACTIONS], places = [(2, At 8, ToEnd), (3, At 8, ToEnd), (4, At 8, ToEnd), (5, At 8, ToEnd)],
     child_class = OF_LIST_ACTION, child_base = None, length_note = ChildLength\<rparr>"

definition of_instruction_write_actions_actions :: object_member where
  "of_instruction_write_actions_actions = \<lparr>owners = [OF_INSTRUCTION_WRITE_ACTIONS], places = [(2, At 8, ToEnd), (3, At 8, ToEnd), (4, At 8, ToEnd), (5, At 8, ToEnd)],
     child_class = OF_LIST_ACTION, child_base = None, length_note = ChildLength\<rparr>"

definition of_action_set_field_field :: object_member where
  "of_action_set_field_field = \<lparr>owners = [OF_ACTION_SET_FIELD], places = [(3, At 4, ToEnd), (4, At 4, ToEnd), (5, At 4, ToEnd)],
     child_class = OF_OXM, child_base = Some OF_OXM, length_note = ChildLength\<rparr>"

definition of_match_v3_oxm_list :: object_member where
  "of_match_v3_oxm_list = \<lparr>owners = [OF_MATCH_V3], places = [(3, At 4, BareMatch), (4, At 4, BareMatch), (5, At 4, BareMatch)],
     child_class = OF_LIST_OXM, child_base = None, length_note = ChildLength\<rparr>"

definition of_action_bsn_gentable_key :: object_member where
  "of_action_bsn_gentable_key = \<lparr>owners = [OF_ACTION_BSN_GENTABLE], places = [(4, At 16, ToEnd), (5, At 16, ToEnd)],
     child_class = OF_LIST_BSN_TLV, child_base = None, length_note = ChildLength\<rparr>"

definition of_async_get_reply_properties :: object_member where
  "of_async_get_reply_properties = \<lparr>owners = [OF_ASYNC_GET_REPLY], places = [(5, At 8, ToEnd)],
     child_class = OF_LIST_ASYNC_CONFIG_PROP, child_base = None, length_note = ChildLength\<rparr>"

definition of_async_get_request_properties :: object_member where
  "of_async_get_request_properties = \<lparr>owners = [OF_ASYNC_GET_REQUEST], places = [(5, At 8, ToEnd)],
     child_class = OF_LIST_ASYNC_CONFIG_PROP, child_base = None, length_note = ChildLength\<rparr>"

definition of_async_set_properties :: object_member where
  "of_async_set_properties = \<lparr>owners = [OF_ASYNC_SET], places = [(5, At 8, ToEnd)],
     child_class = OF_LIST_ASYNC_CONFIG_PROP, child_base = None, length_note = ChildLength\<rparr>"

definition of_bsn_controller_connections_reply_connections :: object_member where
  "of_bsn_controller_connections_reply_connections = \<lparr>owners = [OF_BSN_CONTROLLER_CONNECTIONS_REPLY], places = [(4, At 16, ToEnd), (5, At 16, ToEnd)],
     child_class = OF_LIST_BSN_CONTROLLER_CONNECTION, child_base = None, length_note = ChildLength\<rparr>"

definition of_bsn_debug_counter_desc_stats_reply_entries :: object_member where
  "of_bsn_debug_counter_desc_stats_reply_entries = \<lparr>owners = [OF_BSN_DEBUG_COUNTER_DESC_STATS_REPLY], places = [(4, At 24, ToEnd), (5, At 24, ToEnd)],
     child_class = OF_LIST_BSN_DEBUG_COUNTER_DESC_STATS_ENTRY, child_base = None, length_note = ChildLength\<rparr>"

definition of_bsn_debug_counter_stats_reply_entries :: object_member where
  "of_bsn_debug_counter_stats_reply_entries = \<lparr>owners = [OF_BSN_DEBUG_COUNTER_STATS_REPLY], places = [(4, At 24, ToEnd), (5, At 24, ToEnd)],
     child_class = OF_LIST_BSN_DEBUG_COUNTER_STATS_ENTRY, child_base = None, length_note = ChildLength\<rparr>"

definition of_bsn_flow_checksum_bucket_stats_reply_entries :: object_member where
  "of_bsn_flow_checksum_bucket_stats_reply_entries = \<lparr>owners = [OF_BSN_FLOW_CHECKSUM_BUCKET_STATS_REPLY], places = [(4, At 24, ToEnd), (5, At 24, ToEnd)],
     child_class = OF_LIST_BSN_FLOW_CHECKSUM_BUCKET_STATS_ENTRY, child_base = None, length_note = ChildLength\<rparr>"

definition of_bsn_generic_stats_entry_tlvs :: object_member where
  "of_bsn_generic_stats_entry_tlvs = \<lparr>owners = [OF_BSN_GENERIC_STATS_ENTRY], places = [(4, At 2, ToEnd), (5, At 2, ToEnd)],
     child_class = OF_LIST_BSN_TLV, child_base = None, length_note = ChildLength\<rparr>"

definition of_bsn_generic_stats_reply_entries :: object_member where
  "of_bsn_generic_stats_reply_entries = \<lparr>owners = [OF_BSN_GENERIC_STATS_REPLY], places = [(4, At 24, ToEnd), (5, At 24, ToEnd)],
     child_class = OF_LIST_BSN_GENERIC_STATS_ENTRY, child_base = None, length_note = ChildLength\<rparr>"

definition of_bsn_generic_stats_request_tlvs :: object_member where
  "of_bsn_generic_stats_request_tlvs = \<lparr>owners = [OF_BSN_GENERIC_STATS_REQUEST], places = [(4, At 88, ToEnd), (5, At 88, ToEnd)],
     child_class = OF_LIST_BSN_TLV, child_base = None, length_note = ChildLength\<rparr>"

definition of_bsn_gentable_bucket_stats_reply_entries :: object_member where
  "of_bsn_gentable_bucket_stats_reply_entries = \<lparr>owners = [OF_BSN_GENTABLE_BUCKET_STATS_REPLY], places = [(4, At 24, ToEnd), (5, At 24, ToEnd)],
     child_class = OF_LIST_BSN_GENTABLE_BUCKET_STATS_ENTRY, child_base = None, length_note = ChildLength\<rparr>"

definition of_bsn_gentable_desc_stats_reply_entries :: object_member where
  "of_bsn_gentable_desc_stats_reply_entries = \<lparr>owners = [OF_BSN_GENTABLE_DESC_STATS_REPLY], places = [(4, At 24, ToEnd), (5, At 24, ToEnd)],
     child_class = OF_LIST_BSN_GENTABLE_DESC_STATS_ENTRY, child_base = None, length_note = ChildLength\<rparr>"

definition of_bsn_gentable_entry_add_key :: object_member where
  "of_bsn_gentable_entry_add_key = \<lparr>owners = [OF_BSN_GENTABLE_ENTRY_ADD], places = [(4, At 36, Len16 18), (5, At 36, Len16 18)],
     child_class = OF_LIST_BSN_TLV, child_base = None, length_note = ObjectU16 18\<rparr>"

definition of_bsn_gentable_entry_add_value :: object_member where
  "of_bsn_gentable_entry_add_value = \<lparr>owners = [OF_BSN_GENTABLE_ENTRY_ADD], places = [(4, GentableEntryAddValue, ToEnd), (5, GentableEntryAddValue, ToEnd)],
     child_class = OF_LIST_BSN_TLV, child_base = None, length_note = ChildLength\<rparr>"

definition of_bsn_gentable_entry_delete_key :: object_member where
  "of_bsn_gentable_entry_delete_key = \<lparr>owners = [OF_BSN_GENTABLE_ENTRY_DELETE], places = [(4, At 18, ToEnd), (5, At 18, ToEnd)],
     child_class = OF_LIST_BSN_TLV, child_base = None, length_note = ChildLength\<rparr>"

definition of_bsn_gentable_entry_desc_stats_entry_key :: object_member where
  "of_bsn_gentable_entry_desc_stats_entry_key = \<lparr>owners = [OF_BSN_GENTABLE_ENTRY_DESC_STATS_ENTRY], places = [(4, At 20, Len16 2), (5, At 20, Len16 2)],
     child_class = OF_LIST_BSN_TLV, child_base = None, length_note = ObjectU16 2\<rparr>"

definition of_bsn_gentable_entry_desc_stats_entry_value :: object_member where
  "of_bsn_gentable_entry_desc_stats_entry_value = \<lparr>owners = [OF_BSN_GENTABLE_ENTRY_DESC_STATS_ENTRY], places = [(4, GentableEntryDescValue, ToEnd), (5, GentableEntryDescValue, ToEnd)],
     child_class = OF_LIST_BSN_TLV, child_base = None, length_note = ChildLength\<rparr>"

definition of_bsn_gentable_entry_desc_stats_reply_entries :: object_member where
  "of_bsn_gentable_entry_desc_stats_reply_entries = \<lparr>owners = [OF_BSN_GENTABLE_ENTRY_DESC_STATS_REPLY], places = [(4, At 24, ToEnd), (5, At 24, ToEnd)],
     child_class = OF_LIST_BSN_GENTABLE_ENTRY_DESC_STATS_ENTRY, child_base = None, length_note = ChildLength\<rparr>"

definition of_bsn_gentable_entry_stats_entry_key :: object_member where
  "of_bsn_gentable_entry_stats_entry_key = \<lparr>owners = [OF_BSN_GENTABLE_ENTRY_STATS_ENTRY], places = [(4, At 4, Len16 2), (5, At 4, Len16 2)],
     child_class = OF_LIST_BSN_TLV, child_base = None, length_note = ObjectU16 2\<rparr>"

definition of_bsn_gentable_entry_stats_entry_stats :: object_member where
  "of_bsn_gentable_entry_stats_entry_stats = \<lparr>owners = [OF_BSN_GENTABLE_ENTRY_STATS_ENTRY], places = [(4, GentableEntryStats, ToEnd), (5, GentableEntryStats, ToEnd)],
     child_class = OF_LIST_BSN_TLV, child_base = None, length_note = ChildLength\<rparr>"

definition of_bsn_gentable_entry_stats_reply_entries :: object_member where
  "of_bsn_gentable_entry_stats_reply_entries = \<lparr>owners = [OF_BSN_GENTABLE_ENTRY_STATS_REPLY], places = [(4, At 24, ToEnd), (5, At 24, ToEnd)],
     child_class = OF_LIST_BSN_GENTABLE_ENTRY_STATS_ENTRY, child_base = None, length_note = ChildLength\<rparr>"

definition of_bsn_gentable_stats_reply_entries :: object_member where
  "of_bsn_gentable_stats_reply_entries = \<lparr>owners = [OF_BSN_GENTABLE_STATS_REPLY], places = [(4, At 24, ToEnd), (5, At 24, ToEnd)],
     child_class = OF_LIST_BSN_GENTABLE_STATS_ENTRY, child_base = None, length_note = ChildLength\<rparr>"

definition of_bsn_lacp_stats_reply_entries :: object_member where
  "of_bsn_lacp_stats_reply_entries = \<lparr>owners = [OF_BSN_LACP_STATS_REPLY], places = [(4, At 24, ToEnd), (5, At 24, ToEnd)],
     child_class = OF_LIST_BSN_LACP_STATS_ENTRY, child_base = None, length_note = ChildLength\<rparr>"

definition of_bsn_port_counter_stats_entry_values :: object_member where
  "of_bsn_port_counter_stats_entry_values = \<lparr>owners = [OF_BSN_PORT_COUNTER_STATS_ENTRY], places = [(4, At 8, ToEnd), (5, At 8, ToEnd)],
     child_class = OF_LIST_UINT64, child_base = None, length_note = ChildLength\<rparr>"

definition of_bsn_port_counter_stats_reply_entries :: object_member where
  "of_bsn_port_counter_stats_reply_entries = \<lparr>owners = [OF_BSN_PORT_COUNTER_STATS_REPLY], places = [(4, At 24, ToEnd), (5, At 24, ToEnd)],
     child_class = OF_LIST_BSN_PORT_COUNTER_STATS_ENTRY, child_base = None, length_note = ChildLength\<rparr>"

definition of_bsn_switch_pipeline_stats_reply_entries :: object_member where
  "of_bsn_switch_pipeline_stats_reply_entries = \<lparr>owners = [OF_BSN_SWITCH_PIPELINE_STATS_REPLY], places = [(4, At 24, ToEnd), (5, At 24, ToEnd)],
     child_class = OF_LIST_BSN_SWITCH_PIPELINE_STATS_ENTRY, child_base = None, length_note = ChildLength\<rparr>"

definition of_bsn_table_checksum_stats_reply_entries :: object_member where
  "of_bsn_table_checksum_stats_reply_entries = \<lparr>owners = [OF_BSN_TABLE_CHECKSUM_STATS_REPLY], places = [(4, At 24, ToEnd), (5, At 24, ToEnd)],
     child_class = OF_LIST_BSN_TABLE_CHECKSUM_STATS_ENTRY, child_base = None, length_note = ChildLength\<rparr>"

definition of_bsn_tlv_bucket_value :: object_member where
  "of_bsn_tlv_bucket_value = \<lparr>owners = [OF_BSN_TLV_BUCKET], places = [(4, At 4, ToEnd), (5, At 4, ToEnd)],
     child_class = OF_LIST_BSN_TLV, child_base = None, length_note = ChildLength\<rparr>"

definition of_bsn_tlv_reference_key :: object_member where
  "of_bsn_tlv_reference_key = \<lparr>owners = [OF_BSN_TLV_REFERENCE], places = [(4, At 6, ToEnd), (5, At 6, ToEnd)],
     child_class = OF_LIST_BSN_TLV, child_base = None, length_note = ChildLength\<rparr>"

definition of_bsn_vlan_counter_stats_entry_values :: object_member where
  "of_bsn_vlan_counter_stats_entry_values = \<lparr>owners = [OF_BSN_VLAN_COUNTER_STATS_ENTRY], places = [(4, At 8, ToEnd), (5, At 8, ToEnd)],
     child_class = OF_LIST_UINT64, child_base = None, length_note = ChildLength\<rparr>"

definition of_bsn_vlan_counter_stats_reply_entries :: object_member where
  "of_bsn_vlan_counter_stats_reply_entries = \<lparr>owners = [OF_BSN_VLAN_COUNTER_STATS_REPLY], places = [(4, At 24, ToEnd), (5, At 24, ToEnd)],
     child_class = OF_LIST_BSN_VLAN_COUNTER_STATS_ENTRY, child_base = None, length_note = ChildLength\<rparr>"

definition of_bsn_vrf_counter_stats_entry_values :: object_member where
  "of_bsn_vrf_counter_stats_entry_values = \<lparr>owners = [OF_BSN_VRF_COUNTER_STATS_ENTRY], places = [(4, At 8, ToEnd), (5, At 8, ToEnd)],
     child_class = OF_LIST_UINT64, child_base = None, length_note = ChildLength\<rparr>"

definition of_bsn_vrf_counter_stats_reply_entries :: object_member where
  "of_bsn_vrf_counter_stats_reply_entries = \<lparr>owners = [OF_BSN_VRF_COUNTER_STATS_REPLY], places = [(4, At 24, ToEnd), (5, At 24, ToEnd)],
     child_class = OF_LIST_BSN_VRF_COUNTER_STATS_ENTRY, child_base = None, length_note = ChildLength\<rparr>"

definition of_hello_elem_versionbitmap_bitmaps :: object_member where
  "of_hello_elem_versionbitmap_bitmaps = \<lparr>owners = [OF_HELLO_ELEM_VERSIONBITMAP], places = [(4, At 4, ToEnd), (5, At 4, ToEnd)],
     child_class = OF_LIST_UINT32, child_base = None, length_note = ChildLength\<rparr>"

definition of_meter_config_entries :: object_member where
  "of_meter_config_entries = \<lparr>owners = [OF_METER_CONFIG], places = [(4, At 8, ToEnd), (5, At 8, ToEnd)],
     child_class = OF_LIST_METER_BAND, child_base = None, length_note = ChildLength\<rparr>"

definition of_meter_config_stats_reply_entries :: object_member where
  "of_meter_config_stats_reply_entries = \<lparr>owners = [OF_METER_CONFIG_STATS_REPLY], places = [(4, At 16, ToEnd), (5, At 16, ToEnd)],
     child_class = OF_LIST_METER_BAND, child_base = None, length_note = ChildLength\<rparr>"

definition of_meter_features_stats_reply_features :: object_member where
  "of_meter_features_stats_reply_features = \<lparr>owners = [OF_METER_FEATURES_STATS_REPLY], places = [(4, At 16, Bytes 16), (5, At 16, Bytes 16)],
     child_class = OF_METER_FEATURES, child_base = None, length_note = ChildLength\<rparr>"

definition of_meter_mod_bands :: object_member where
  "of_meter_mod_bands = \<lparr>owners = [OF_METER_MOD], places = [(5, At 16, ToEnd)],
     child_class = OF_LIST_METER_BAND, child_base = None, length_note = ChildLength\<rparr>"

definition of_meter_mod_meters :: object_member where
  "of_meter_mod_meters = \<lparr>owners = [OF_METER_MOD], places = [(4, At 16, ToEnd)],
     child_class = OF_LIST_METER_BAND, child_base = None, length_note = ChildLength\<rparr>"

definition of_meter_stats_band_stats :: object_member where
  "of_meter_stats_band_stats = \<lparr>owners = [OF_METER_STATS], places = [(4, At 40, ToEnd), (5, At 40, ToEnd)],
     child_class = OF_LIST_METER_BAND_STATS, child_base = None, length_note = ChildLength\<rparr>"

definition of_meter_stats_reply_entries :: object_member where
  "of_meter_stats_reply_entries = \<lparr>owners = [OF_METER_STATS_REPLY], places = [(4, At 16, ToEnd), (5, At 16, ToEnd)],
     child_class = OF_LIST_METER_STATS, child_base = None, length_note = ChildLength\<rparr>"

definition of_port_desc_stats_reply_entries :: object_member where
  "of_port_desc_stats_reply_entries = \<lparr>owners = [OF_PORT_DESC_STATS_REPLY], places = [(4, At 16, ToEnd), (5, At 16, ToEnd)],
     child_class = OF_LIST_PORT_DESC, child_base = None, length_note = ChildLength\<rparr>"

definition of_table_feature_prop_apply_actions_action_ids :: object_member where
  "of_table_feature_prop_apply_actions_action_ids = \<lparr>owners = [OF_TABLE_FEATURE_PROP_APPLY_ACTIONS], places = [(4, At 4, ToEnd), (5, At 4, ToEnd)],
     child_class = OF_LIST_ACTION_ID, child_base = None, length_note = ChildLength\<rparr>"

definition of_table_feature_prop_apply_actions_miss_action_ids :: object_member where
  "of_table_feature_prop_apply_actions_miss_action_ids = \<lparr>owners = [OF_TABLE_FEATURE_PROP_APPLY_ACTIONS_MISS], places = [(4, At 4, ToEnd), (5, At 4, ToEnd)],
     child_class = OF_LIST_ACTION_ID, child_base = None, length_note = ChildLength\<rparr>"

definition of_table_feature_prop_apply_setfield_oxm_ids :: object_member where
  "of_table_feature_prop_apply_setfield_oxm_ids = \<lparr>owners = [OF_TABLE_FEATURE_PROP_APPLY_SETFIELD], places = [(4, At 4, ToEnd), (5, At 4, ToEnd)],
     child_class = OF_LIST_UINT32, child_base = None, length_note = ChildLength\<rparr>"

definition of_table_feature_prop_apply_setfield_miss_oxm_ids :: object_member where
  "of_table_feature_prop_apply_setfield_miss_oxm_ids = \<lparr>owners = [OF_TABLE_FEATURE_PROP_APPLY_SETFIELD_MISS], places = [(4, At 4, ToEnd), (5, At 4, ToEnd)],
     child_class = OF_LIST_UINT32, child_base = None, length_note = ChildLength\<rparr>"

definition of_table_feature_prop_instructions_instruction_ids :: object_member where
  "of_table_feature_prop_instructions_instruction_ids = \<lparr>owners = [OF_TABLE_FEATURE_PROP_INSTRUCTIONS], places = [(4, At 4, ToEnd), (5, At 4, ToEnd)],
     child_class = OF_LIST_INSTRUCTION_ID, child_base = None, length_note = ChildLength\<rparr>"

definition of_table_feature_prop_instructions_miss_instruction_ids :: object_member where
  "of_table_feature_prop_instructions_miss_instruction_ids = \<lparr>owners = [OF_TABLE_FEATURE_PROP_INSTRUCTIONS_MISS], places = [(4, At 4, ToEnd), (5, At 4, ToEnd)],
     child_class = OF_LIST_INSTRUCTION_ID, child_base = None, length_note = ChildLength\<rparr>"

definition of_table_feature_prop_match_oxm_ids :: object_member where
  "of_table_feature_prop_match_oxm_ids = \<lparr>owners = [OF_TABLE_FEATURE_PROP_MATCH], places = [(4, At 4, ToEnd), (5, At 4, ToEnd)],
     child_class = OF_LIST_UINT32, child_base = None, length_note = ChildLength\<rparr>"

definition of_table_feature_prop_next_tables_next_table_ids :: object_member where
  "of_table_feature_prop_next_tables_next_table_ids = \<lparr>owners = [OF_TABLE_FEATURE_PROP_NEXT_TABLES], places = [(4, At 4, ToEnd), (5, At 4, ToEnd)],
     child_class = OF_LIST_UINT8, child_base = None, length_note = ChildLength\<rparr>"

definition of_table_feature_prop_next_tables_miss_next_table_ids :: object_member where
  "of_table_feature_prop_next_tables_miss_next_table_ids = \<lparr>owners = [OF_TABLE_FEATURE_PROP_NEXT_TABLES_MISS], places = [(4, At 4, ToEnd), (5, At 4, ToEnd)],
     child_class = OF_LIST_UINT8, child_base = None, length_note = ChildLength\<rparr>"

definition of_table_feature_prop_wildcards_oxm_ids :: object_member where
  "of_table_feature_prop_wildcards_oxm_ids = \<lparr>owners = [OF_TABLE_FEATURE_PROP_WILDCARDS], places = [(4, At 4, ToEnd), (5, At 4, ToEnd)],
     child_class = OF_LIST_UINT32, child_base = None, length_note = ChildLength\<rparr>"

definition of_table_feature_prop_write_actions_action_ids :: object_member where
  "of_table_feature_prop_write_actions_action_ids = \<lparr>owners = [OF_TABLE_FEATURE_PROP_WRITE_ACTIONS], places = [(4, At 4, ToEnd), (5, At 4, ToEnd)],
     child_class = OF_LIST_ACTION_ID, child_base = None, length_note = ChildLength\<rparr>"

definition of_table_feature_prop_write_actions_miss_action_ids :: object_member where
  "of_table_feature_prop_write_actions_miss_action_ids = \<lparr>owners = [OF_TABLE_FEATURE_PROP_WRITE_ACTIONS_MISS], places = [(4, At 4, ToEnd), (5, At 4, ToEnd)],
     child_class = OF_LIST_ACTION_ID, child_base = None, length_note = ChildLength\<rparr>"

definition of_table_feature_prop_write_setfield_oxm_ids :: object_member where
  "of_table_feature_prop_write_setfield_oxm_ids = \<lparr>owners = [OF_TABLE_FEATURE_PROP_WRITE_SETFIELD], places = [(4, At 4, ToEnd), (5, At 4, ToEnd)],
     child_class = OF_LIST_UINT32, child_base = None, length_note = ChildLength\<rparr>"

definition of_table_feature_prop_write_setfield_miss_oxm_ids :: object_member where
  "of_table_feature_prop_write_setfield_miss_oxm_ids = \<lparr>owners = [OF_TABLE_FEATURE_PROP_WRITE_SETFIELD_MISS], places = [(4, At 4, ToEnd), (5, At 4, ToEnd)],
     child_class = OF_LIST_UINT32, child_base = None, length_note = ChildLength\<rparr>"

definition of_table_features_properties :: object_member where
  "of_table_features_properties = \<lparr>owners = [OF_TABLE_FEATURES], places = [(4, At 64, ToEnd), (5, At 64, ToEnd)],
     child_class = OF_LIST_TABLE_FEATURE_PROP, child_base = None, length_note = ChildLength\<rparr>"

definition of_table_features_stats_reply_entries :: object_member where
  "of_table_features_stats_reply_entries = \<lparr>owners = [OF_TABLE_FEATURES_STATS_REPLY], places = [(4, At 16, ToEnd), (5, At 16, ToEnd)],
     child_class = OF_LIST_TABLE_FEATURES, child_base = None, length_note = ChildLength\<rparr>"

definition of_table_features_stats_request_entries :: object_member where
  "of_table_features_stats_request_entries = \<lparr>owners = [OF_TABLE_FEATURES_STATS_REQUEST], places = [(4, At 16, ToEnd), (5, At 16, ToEnd)],
     child_class = OF_LIST_TABLE_FEATURES, child_base = None, length_note = ChildLength\<rparr>"

definition of_bundle_ctrl_msg_properties :: object_member where
  "of_bundle_ctrl_msg_properties = \<lparr>owners = [OF_BUNDLE_CTRL_MSG], places = [(5, At 16, ToEnd)],
     child_class = OF_LIST_BUNDLE_PROP, child_base = None, length_note = ChildLength\<rparr>"

definition of_queue_desc_properties :: object_member where
  "of_queue_desc_properties = \<lparr>owners = [OF_QUEUE_DESC], places = [(5, At 16, ToEnd)],
     child_class = OF_LIST_QUEUE_DESC_PROP, child_base = None, length_note = ChildLength\<rparr>"

definition of_queue_desc_stats_reply_entries :: object_member where
  "of_queue_desc_stats_reply_entries = \<lparr>owners = [OF_QUEUE_DESC_STATS_REPLY], places = [(5, At 16, ToEnd)],
     child_class = OF_LIST_QUEUE_DESC, child_base = None, length_note = ChildLength\<rparr>"

definition of_role_status_properties :: object_member where
  "of_role_status_properties = \<lparr>owners = [OF_ROLE_STATUS], places = [(5, At 24, ToEnd)],
     child_class = OF_LIST_ROLE_PROP, child_base = None, length_note = ChildLength\<rparr>"

definition of_table_desc_stats_reply_entries :: object_member where
  "of_table_desc_stats_reply_entries = \<lparr>owners = [OF_TABLE_DESC_STATS_REPLY], places = [(5, At 16, ToEnd)],
     child_class = OF_LIST_TABLE_DESC, child_base = None, length_note = ChildLength\<rparr>"

definition of_table_feature_prop_table_sync_from_table_ids :: object_member where
  "of_table_feature_prop_table_sync_from_table_ids = \<lparr>owners = [OF_TABLE_FEATURE_PROP_TABLE_SYNC_FROM], places = [(5, At 4, ToEnd)],
     child_class = OF_LIST_UINT8, child_base = None, length_note = ChildLength\<rparr>"

definition of_table_status_table :: object_member where
  "of_table_status_table = \<lparr>owners = [OF_TABLE_STATUS], places = [(5, At 20, Bytes 8)],
     child_class = OF_TABLE_DESC, child_base = None, length_note = ChildLength\<rparr>"

definition octets_members :: "var_member list" where
  "octets_members =
    [of_action_experimenter_data, of_bad_action_error_msg_data, of_bad_request_error_msg_data, of_experimenter_data,
     of_bsn_pdu_rx_request_data, of_bsn_pdu_tx_request_data, of_bsn_shell_command_data, of_bsn_shell_output_data,
     of_experimenter_stats_reply_data, of_experimenter_stats_request_data, of_echo_reply_data, of_echo_request_data,
     of_flow_mod_failed_error_msg_data, of_hello_failed_error_msg_data, of_packet_in_data, of_packet_out_data,
     of_port_mod_failed_error_msg_data, of_queue_op_failed_error_msg_data, of_bad_instruction_error_msg_data, of_bad_match_error_msg_data,
     of_group_mod_failed_error_msg_data, of_instruction_experimenter_data, of_switch_config_failed_error_msg_data, of_table_mod_failed_error_msg_data,
     of_experimenter_error_msg_data, of_queue_prop_experimenter_data, of_role_request_failed_error_msg_data, of_bsn_log_data,
     of_bsn_lua_command_reply_data, of_bsn_lua_command_request_data, of_bsn_lua_notification_data, of_bsn_lua_upload_data,
     of_bsn_tlv_circuit_id_value, of_bsn_tlv_data_value, of_bsn_tlv_name_value, of_meter_mod_failed_error_msg_data,
     of_table_feature_prop_experimenter_experimenter_data, of_table_feature_prop_experimenter_miss_experimenter_data, of_table_features_failed_error_msg_data, of_async_config_failed_error_msg_data,
     of_bad_property_error_msg_data, of_bundle_add_msg_data, of_bundle_failed_error_msg_data, of_flow_monitor_failed_error_msg_data,
     of_port_stats_prop_experimenter_experimenter_data, of_requestforward_data]"

definition match_members :: "var_member list" where
  "match_members =
    [of_aggregate_stats_request_match, of_flow_mod_match, of_flow_add_match, of_flow_delete_match,
     of_flow_delete_strict_match, of_flow_modify_match, of_flow_modify_strict_match, of_flow_removed_match,
     of_flow_stats_entry_match, of_flow_stats_request_match, of_packet_in_match, of_bsn_flow_idle_match]"

definition object_members :: "object_member list" where
  "object_members =
    [of_bsn_get_interfaces_reply_interfaces, of_bsn_virtual_port_create_request_vport, of_features_reply_ports, of_flow_mod_instructions,
     of_flow_mod_actions, of_flow_add_instructions, of_flow_add_actions, of_flow_delete_instructions,
     of_flow_delete_actions, of_flow_delete_strict_instructions, of_flow_delete_strict_actions, of_flow_modify_instructions,
     of_flow_modify_actions, of_flow_modify_strict_instructions, of_flow_modify_strict_actions, of_flow_stats_entry_instructions,
     of_flow_stats_entry_actions, of_flow_stats_reply_entries, of_hello_elements, of_packet_out_actions,
     of_packet_queue_properties, of_port_desc_properties, of_port_mod_properties, of_port_stats_entry_properties,
     of_port_stats_reply_entries, of_port_status_desc, of_queue_get_config_reply_queues, of_queue_stats_entry_properties,
     of_queue_stats_reply_entries, of_table_mod_properties, of_table_stats_reply_entries, of_bucket_actions,
     of_group_mod_buckets, of_group_add_buckets, of_group_delete_buckets, of_group_desc_stats_entry_buckets,
     of_group_desc_stats_reply_entries, of_group_modify_buckets, of_group_stats_entry_bucket_stats, of_group_stats_reply_entries,
     of_instruction_apply_actions_actions, of_instruction_write_actions_actions, of_action_set_field_field, of_match_v3_oxm_list,
     of_action_bsn_gentable_key, of_async_get_reply_properties, of_async_get_request_properties, of_async_set_properties,
     of_bsn_controller_connections_reply_connections, of_bsn_debug_counter_desc_stats_reply_entries, of_bsn_debug_counter_stats_reply_entries, of_bsn_flow_checksum_bucket_stats_reply_entries,
     of_bsn_generic_stats_entry_tlvs, of_bsn_generic_stats_reply_entries, of_bsn_generic_stats_request_tlvs, of_bsn_gentable_bucket_stats_reply_entries,
     of_bsn_gentable_desc_stats_reply_entries, of_bsn_gentable_entry_add_key, of_bsn_gentable_entry_add_value, of_bsn_gentable_entry_delete_key,
     of_bsn_gentable_entry_desc_stats_entry_key, of_bsn_gentable_entry_desc_stats_entry_value, of_bsn_gentable_entry_desc_stats_reply_entries, of_bsn_gentable_entry_stats_entry_key,
     of_bsn_gentable_entry_stats_entry_stats, of_bsn_gentable_entry_stats_reply_entries, of_bsn_gentable_stats_reply_entries, of_bsn_lacp_stats_reply_entries,
     of_bsn_port_counter_stats_entry_values, of_bsn_port_counter_stats_reply_entries, of_bsn_switch_pipeline_stats_reply_entries, of_bsn_table_checksum_stats_reply_entries,
     of_bsn_tlv_bucket_value, of_bsn_tlv_reference_key, of_bsn_vlan_counter_stats_entry_values, of_bsn_vlan_counter_stats_reply_entries,
     of_bsn_vrf_counter_stats_entry_values, of_bsn_vrf_counter_stats_reply_entries, of_hello_elem_versionbitmap_bitmaps, of_meter_config_entries,
     of_meter_config_stats_reply_entries, of_meter_features_stats_reply_features, of_meter_mod_bands, of_meter_mod_meters,
     of_meter_stats_band_stats, of_meter_stats_reply_entries, of_port_desc_stats_reply_entries, of_table_feature_prop_apply_actions_action_ids,
     of_table_feature_prop_apply_actions_miss_action_ids, of_table_feature_prop_apply_setfield_oxm_ids, of_table_feature_prop_apply_setfield_miss_oxm_ids, of_table_feature_prop_instructions_instruction_ids,
     of_table_feature_prop_instructions_miss_instruction_ids, of_table_feature_prop_match_oxm_ids, of_table_feature_prop_next_tables_next_table_ids, of_table_feature_prop_next_tables_miss_next_table_ids,
     of_table_feature_prop_wildcards_oxm_ids, of_table_feature_prop_write_actions_action_ids, of_table_feature_prop_write_actions_miss_action_ids, of_table_feature_prop_write_setfield_oxm_ids,
     of_table_feature_prop_write_setfield_miss_oxm_ids, of_table_features_properties, of_table_features_stats_reply_entries, of_table_features_stats_request_entries,
     of_bundle_ctrl_msg_properties, of_queue_desc_properties, of_queue_desc_stats_reply_entries, of_role_status_properties,
     of_table_desc_stats_reply_entries, of_table_feature_prop_table_sync_from_table_ids, of_table_status_table]"

lemmas octets_member_defs = of_action_experimenter_data_def of_bad_action_error_msg_data_def of_bad_request_error_msg_data_def of_experimenter_data_def
  of_bsn_pdu_rx_request_data_def of_bsn_pdu_tx_request_data_def of_bsn_shell_command_data_def of_bsn_shell_output_data_def
  of_experimenter_stats_reply_data_def of_experimenter_stats_request_data_def of_echo_reply_data_def of_echo_request_data_def
  of_flow_mod_failed_error_msg_data_def of_hello_failed_error_msg_data_def of_packet_in_data_def of_packet_out_data_def
  of_port_mod_failed_error_msg_data_def of_queue_op_failed_error_msg_data_def of_bad_instruction_error_msg_data_def of_bad_match_error_msg_data_def
  of_group_mod_failed_error_msg_data_def of_instruction_experimenter_data_def of_switch_config_failed_error_msg_data_def of_table_mod_failed_error_msg_data_def
  of_experimenter_error_msg_data_def of_queue_prop_experimenter_data_def of_role_request_failed_error_msg_data_def of_bsn_log_data_def
  of_bsn_lua_command_reply_data_def of_bsn_lua_command_request_data_def of_bsn_lua_notification_data_def of_bsn_lua_upload_data_def
  of_bsn_tlv_circuit_id_value_def of_bsn_tlv_data_value_def of_bsn_tlv_name_value_def of_meter_mod_failed_error_msg_data_def
  of_table_feature_prop_experimenter_experimenter_data_def of_table_feature_prop_experimenter_miss_experimenter_data_def of_table_features_failed_error_msg_data_def of_async_config_failed_error_msg_data_def
  of_bad_property_error_msg_data_def of_bundle_add_msg_data_def of_bundle_failed_error_msg_data_def of_flow_monitor_failed_error_msg_data_def
  of_port_stats_prop_experimenter_experimenter_data_def of_requestforward_data_def

lemmas object_member_defs = of_bsn_get_interfaces_reply_interfaces_def of_bsn_virtual_port_create_request_vport_def of_features_reply_ports_def of_flow_mod_instructions_def
  of_flow_mod_actions_def of_flow_add_instructions_def of_flow_add_actions_def of_flow_delete_instructions_def
  of_flow_delete_actions_def of_flow_delete_strict_instructions_def of_flow_delete_strict_actions_def of_flow_modify_instructions_def
  of_flow_modify_actions_def of_flow_modify_strict_instructions_def of_flow_modify_strict_actions_def of_flow_stats_entry_instructions_def
  of_flow_stats_entry_actions_def of_flow_stats_reply_entries_def of_hello_elements_def of_packet_out_actions_def
  of_packet_queue_properties_def of_port_desc_properties_def of_port_mod_properties_def of_port_stats_entry_properties_def
  of_port_stats_reply_entries_def of_port_status_desc_def of_queue_get_config_reply_queues_def of_queue_stats_entry_properties_def
  of_queue_stats_reply_entries_def of_table_mod_properties_def of_table_stats_reply_entries_def of_bucket_actions_def
  of_group_mod_buckets_def of_group_add_buckets_def of_group_delete_buckets_def of_group_desc_stats_entry_buckets_def
  of_group_desc_stats_reply_entries_def of_group_modify_buckets_def of_group_stats_entry_bucket_stats_def of_group_stats_reply_entries_def
  of_instruction_apply_actions_actions_def of_instruction_write_actions_actions_def of_action_set_field_field_def of_match_v3_oxm_list_def
  of_action_bsn_gentable_key_def of_async_get_reply_properties_def of_async_get_request_properties_def of_async_set_properties_def
  of_bsn_controller_connections_reply_connections_def of_bsn_debug_counter_desc_stats_reply_entries_def of_bsn_debug_counter_stats_reply_entries_def of_bsn_flow_checksum_bucket_stats_reply_entries_def
  of_bsn_generic_stats_entry_tlvs_def of_bsn_generic_stats_reply_entries_def of_bsn_generic_stats_request_tlvs_def of_bsn_gentable_bucket_stats_reply_entries_def
  of_bsn_gentable_desc_stats_reply_entries_def of_bsn_gentable_entry_add_key_def of_bsn_gentable_entry_add_value_def of_bsn_gentable_entry_delete_key_def
  of_bsn_gentable_entry_desc_stats_entry_key_def of_bsn_gentable_entry_desc_stats_entry_value_def of_bsn_gentable_entry_desc_stats_reply_entries_def of_bsn_gentable_entry_stats_entry_key_def
  of_bsn_gentable_entry_stats_entry_stats_def of_bsn_gentable_entry_stats_reply_entries_def of_bsn_gentable_stats_reply_entries_def of_bsn_lacp_stats_reply_entries_def
  of_bsn_port_counter_stats_entry_values_def of_bsn_port_counter_stats_reply_entries_def of_bsn_switch_pipeline_stats_reply_entries_def of_bsn_table_checksum_stats_reply_entries_def
  of_bsn_tlv_bucket_value_def of_bsn_tlv_reference_key_def of_bsn_vlan_counter_stats_entry_values_def of_bsn_vlan_counter_stats_reply_entries_def
  of_bsn_vrf_counter_stats_entry_values_def of_bsn_vrf_counter_stats_reply_entries_def of_hello_elem_versionbitmap_bitmaps_def of_meter_config_entries_def
  of_meter_config_stats_reply_entries_def of_meter_features_stats_reply_features_def of_meter_mod_bands_def of_meter_mod_meters_def
  of_meter_stats_band_stats_def of_meter_stats_reply_entries_def of_port_desc_stats_reply_entries_def of_table_feature_prop_apply_actions_action_ids_def
  of_table_feature_prop_apply_actions_miss_action_ids_def of_table_feature_prop_apply_setfield_oxm_ids_def of_table_feature_prop_apply_setfield_miss_oxm_ids_def of_table_feature_prop_instructions_instruction_ids_def
  of_table_feature_prop_instructions_miss_instruction_ids_def of_table_feature_prop_match_oxm_ids_def of_table_feature_prop_next_tables_next_table_ids_def of_table_feature_prop_next_tables_miss_next_table_ids_def
  of_table_feature_prop_wildcards_oxm_ids_def of_table_feature_prop_write_actions_action_ids_def of_table_feature_prop_write_actions_miss_action_ids_def of_table_feature_prop_write_setfield_oxm_ids_def
  of_table_feature_prop_write_setfield_miss_oxm_ids_def of_table_features_properties_def of_table_features_stats_reply_entries_def of_table_features_stats_request_entries_def
  of_bundle_ctrl_msg_properties_def of_queue_desc_properties_def of_queue_desc_stats_reply_entries_def of_role_status_properties_def
  of_table_desc_stats_reply_entries_def of_table_feature_prop_table_sync_from_table_ids_def of_table_status_table_def

end
