(* ===== verification/ListProps.thy ===== *)
theory ListProps
  imports ListClasses Accessors
begin

text \<open>
  What iterating over a list gives: properties of the \<open>of_list_X_first\<close> and \<open>of_list_X_next\<close> functions on lists that
  the message validator has accepted.
\<close>

subsection \<open>Lists of OXM fields\<close>

definition oxm_element :: "int \<Rightarrow> validator" where
  "oxm_element ver = (if ver = 3 then loci_validate_of_oxm_OF_VERSION_1_2
     else if ver = 4 then loci_validate_of_oxm_OF_VERSION_1_3 else loci_validate_of_oxm_OF_VERSION_1_4)"

text \<open>The header of an OXM field of the experimenter class is none of the library's.\<close>

lemma experimenter_above: "drop_bit 16 (h :: 32 word) = 0xffff \<Longrightarrow> 0xffff0000 \<le> uint h"
proof -
  assume "drop_bit 16 h = 0xffff"
  then have "uint (drop_bit 16 h) = 65535"
    by simp
  then show ?thesis
    by (simp add: drop_bit_eq_div uint_div)
qed

lemma map_of_above: "list_all (\<lambda>(k, _). k < l) xs \<Longrightarrow> (l :: int) \<le> k \<Longrightarrow> map_of xs k = None"
  by (induction xs) auto

lemma oxm_unknown_id:
  assumes "buf_u32_get b p = Inr h" and "drop_bit 16 h = 0xffff" and "ver \<in> {3, 4, 5}"
  shows "of_oxm_wire_object_id_get ver b p = Inr OF_OXM"
proof -
  have "map_of xs (uint h) = None" if "list_all (\<lambda>(k, _). k < 0xffff0000) xs" for xs :: "(int \<times> getter) list"
    by (rule map_of_above [OF that experimenter_above [OF assms(2)]])
  then have d: "d_switch32 0 xs OF_OXM b p = Inr OF_OXM" if "list_all (\<lambda>(k, _). k < 0xffff0000) xs" for xs
    using that assms(1) by (simp add: d_switch32_def d_case_def d_id_def)
  show ?thesis
    using assms(3) by (elim insertE emptyE) (simp_all only: of_oxm_wire_object_id_get_def if_True if_False refl eq_num,
      (rule d, simp)+)
qed

lemma oxm_unknown_accepted:
  assumes "buf_u32_get b p = Inr h" and "drop_bit 16 h = 0xffff" and "4 \<le> len"
  shows "oxm_element ver b p len = Inr (Some len)"
proof -
  have "map_of xs (uint h) = None" if "list_all (\<lambda>(k, _). k < 0xffff0000) xs" for xs :: "(int \<times> validator) list"
    by (rule map_of_above [OF that experimenter_above [OF assms(2)]])
  then have "v_min 4 (v_switch32 0 xs v_done) b p len = Inr (Some len)" if "list_all (\<lambda>(k, _). k < 0xffff0000) xs" for xs
    using that assms(1,3) by (simp add: v_min_def v_switch32_def v_case_def v_done_def)
  then show ?thesis
    by (simp add: oxm_element_def loci_validate_of_oxm_OF_VERSION_1_2_def loci_validate_of_oxm_OF_VERSION_1_3_def
        loci_validate_of_oxm_OF_VERSION_1_4_def)
qed

lemma oxm_base: "ver \<in> {3, 4, 5} \<Longrightarrow> of_object_fixed_len ver OF_OXM = Inr 4"
  by (auto simp: of_object_fixed_len_def rd_def of_object_fixed_len_v3_def of_object_fixed_len_v4_def of_object_fixed_len_v5_def)

subsection \<open>Properties\<close>

text \<open>C13: Iterating over a list that its validator has accepted, of any of the library's classes of lists but that of OXM
  fields: the loop ends without a fault, visits the elements the validator has cut the list into, one behind the
  other, and each is a well-formed object of the list's version, all scalar fields of which can be read inside it.\<close>

theorem validated_list_iterates:
  assumes "(lc, ver, elem) \<in> set all_lists" and "list_in lst w b" and "obj_version lst = ver"
    and "v_list elem b (obj_offset lst) (obj_length lst) = Inr True"
  shows "\<exists>os. list_elements lc lst obj = Inr os \<and> elements_of elem b lst os \<and>
    (\<forall>x\<in>set os. \<forall>f\<in>set all_fields. \<forall>p n. v_place (view_of f) x = Some (p, n) \<longrightarrow>
       obj_offset x \<le> p \<and> p + int n \<le> obj_offset x + obj_length x \<and> v_reads (view_of f) x)"
proof -
  have "element_ok lc ver elem"
    using all_lists_ok assms(1) by (auto simp: list_all_iff)
  then obtain os where os: "list_elements lc lst obj = Inr os" "elements_of elem b lst os"
    using list_elements_accepted [OF _ assms(2-4)] by blast
  moreover have "obj_offset x \<le> p \<and> p + int n \<le> obj_offset x + obj_length x \<and> v_reads (view_of f) x"
    if "x \<in> set os" "f \<in> set all_fields" "v_place (view_of f) x = Some (p, n)" for x f p n
  proof -
    have "view_ok (view_of f)" "obj_wf x"
      using that os(2) by (simp_all add: fields_accessible view_of_ok elements_of_def)
    then show ?thesis
      using that(3) unfolding view_ok_def by blast
  qed
  ultimately show ?thesis
    by blast
qed

text \<open>Two 1.0 actions, an output to port 1 and a strip-VLAN, behind four other bytes.\<close>

definition sample_actions :: of_object where
  "sample_actions = \<lparr>wbuf = Some \<lparr>wbuf_buf = Some ([9, 9, 9, 9] @ [0, 0, 0, 8, 0, 1, 0, 0] @ [0, 3, 0, 8, 0, 0, 0, 0]), alloc_bytes = 20,
     current_bytes = 20\<rparr>, obj_offset = 4, object_id = OF_LIST_ACTION, obj_length = 16, obj_version = 1, has_parent = True\<rparr>"

lemma validated_list_iterates_witness:
  "\<exists>os. list_elements iter_of_list_action sample_actions zero_object = Inr os \<and> map obj_offset os = [4, 12] \<and>
     map object_id os = [OF_ACTION_OUTPUT, OF_ACTION_STRIP_VLAN] \<and> (\<forall>x\<in>set os. obj_wf x)"
proof -
  let ?b = "[9, 9, 9, 9, 0, 0, 0, 8, 0, 1, 0, 0, 0, 3, 0, 8, 0, 0, 0, 0] :: byte list"
  have l: "(iter_of_list_action, 1, loci_validate_of_action_OF_VERSION_1_0) \<in> set all_lists"
    by (simp add: all_lists_def)
  have i: "list_in sample_actions \<lparr>wbuf_buf = Some ?b, alloc_bytes = 20, current_bytes = 20\<rparr> ?b"
    by (simp add: list_in_def sample_actions_def wbuf_wf_def)
  have v: "v_list loci_validate_of_action_OF_VERSION_1_0 ?b (obj_offset sample_actions) (obj_length sample_actions) = Inr True"
    by code_simp
  have ver: "obj_version sample_actions = 1"
    by (simp add: sample_actions_def)
  have "(case list_elements iter_of_list_action sample_actions zero_object of Inl _ \<Rightarrow> False
     | Inr os \<Rightarrow> map obj_offset os = [4, 12] \<and> map object_id os = [OF_ACTION_OUTPUT, OF_ACTION_STRIP_VLAN])"
    by code_simp
  then show ?thesis
    using validated_list_iterates [OF l i ver v, of zero_object] by (auto simp: elements_of_def split: sum.splits)
qed

text \<open>C37: The validator and the iterators disagree about OXM fields. A field of the
  experimenter class (0xffff), which the library does not know, is accepted together with all bytes behind it, whatever its length byte; the iterator
  takes its length from that byte, so that the object it yields can reach behind the list.\<close>

theorem oxm_list_overreach:
  assumes "list_in lst w b" and "obj_version lst \<in> {3, 4, 5}" and "4 \<le> obj_length lst"
    and "buf_u32_get b (obj_offset lst) = Inr h" and "drop_bit 16 h = 0xffff"
  shows "v_list (oxm_element (obj_version lst)) b (obj_offset lst) (obj_length lst) = Inr True \<and>
    (\<exists>x. list_first iter_of_list_oxm lst obj = Inr (OF_ERROR_NONE, x) \<and> object_id x = OF_OXM \<and>
       obj_offset x = obj_offset lst \<and> obj_length x = uint (h AND 0xff) + 4)"
proof -
  have "v_list (oxm_element (obj_version lst)) b (obj_offset lst) (obj_length lst) = Inr True"
    using oxm_unknown_accepted [OF assms(4,5,3)] assms(3) by (subst v_list.simps) (simp add: v_list.simps)
  moreover obtain x where "list_first iter_of_list_oxm lst obj = Inr (OF_ERROR_NONE, x)" "object_id x = OF_OXM"
    "obj_offset x = obj_offset lst" "obj_length x = uint (h AND 0xff) + 4"
  proof
    let ?o = "of_object_attach lst (zero_object\<lparr>obj_version := obj_version lst, obj_length := 4, object_id := OF_OXM\<rparr>) 0 4"
    have l: "wbuf lst = Some w" "wbuf_buf w = Some b" "obj_offset lst + 4 \<le> current_bytes w"
      using assms(1,3) by (simp_all add: list_in_def)
    have r: "element_read iter_of_list_oxm ?o = Inr (?o\<lparr>obj_length := uint (h AND 0xff) + 4\<rparr>)"
      using l assms(1,4) oxm_unknown_id [OF assms(4,5,2)]
      by (simp add: element_read_def iter_of_list_oxm_def object_getter_def of_object_attach_def of_oxm_wire_length_get_def
          of_wire_buffer_u32_get_def checked_get_def access_check_def c_assert_def list_in_def zero_object_def)
    show "list_first iter_of_list_oxm lst obj = Inr (OF_ERROR_NONE, ?o\<lparr>obj_length := uint (h AND 0xff) + 4\<rparr>)"
      using assms(3) oxm_base [OF assms(2)] r
      by (simp add: list_first_def iter_of_list_oxm_def of_object_init_def zero_object_def Let_def of_list_first_def)
  qed (simp_all add: of_object_attach_def zero_object_def)
  ultimately show ?thesis
    by blast
qed

text \<open>Four bytes: an experimenter field that claims 252 more.\<close>

lemma oxm_list_overreach_witness:
  "\<exists>x. list_first iter_of_list_oxm \<lparr>wbuf = Some \<lparr>wbuf_buf = Some [0xff, 0xff, 0, 0xfc], alloc_bytes = 4, current_bytes = 4\<rparr>,
     obj_offset = 0, object_id = OF_LIST_OXM, obj_length = 4, obj_version = 4, has_parent = True\<rparr> zero_object = Inr (0, x) \<and> obj_length x = 256"
proof -
  let ?w = "\<lparr>wbuf_buf = Some [0xff, 0xff, 0, 0xfc], alloc_bytes = 4, current_bytes = 4\<rparr> :: wire_buffer"
  let ?l = "\<lparr>wbuf = Some ?w, obj_offset = 0, object_id = OF_LIST_OXM, obj_length = 4, obj_version = 4, has_parent = True\<rparr>"
  have "list_in ?l ?w [0xff, 0xff, 0, 0xfc]"
    by (simp add: list_in_def wbuf_wf_def)
  moreover have "buf_u32_get [0xff, 0xff, 0, 0xfc] (obj_offset ?l) = Inr 0xffff00fc"
    by code_simp
  moreover have "drop_bit 16 (0xffff00fc :: 32 word) = 0xffff" "uint ((0xffff00fc :: 32 word) AND 0xff) = 252"
    by code_simp+
  ultimately show ?thesis
    using oxm_list_overreach [of ?l ?w "[0xff, 0xff, 0, 0xfc]" "0xffff00fc" zero_object] by auto
qed

end
