(* ===== verification/ListAppend.thy ===== *)
theory ListAppend
  imports Family ListProps
begin

text \<open>
  What appending does to the elements of a list: an iteration over it visits those it had and then the new one.
\<close>

subsection \<open>Elements that carry their own length\<close>

text \<open>A validator whose verdict on an accepted object does not change with the number of bytes that follow the object.\<close>

definition framed :: "validator \<Rightarrow> bool" where
  "framed elem \<longleftrightarrow> (\<forall>data p len n m. elem data p len = Inr (Some n) \<longrightarrow> n \<le> m \<longrightarrow> elem data p m = Inr (Some n))"

lemma framedD: "framed elem \<Longrightarrow> elem data p len = Inr (Some n) \<Longrightarrow> n \<le> m \<Longrightarrow> elem data p m = Inr (Some n)"
  unfolding framed_def by blast

lemma framed_wire_len:
  assumes "elem = v_min m (v_wire_len_set off m k)" and "x_ok off elem"
  shows "framed elem"
  unfolding framed_def
proof (intro allI impI)
  fix data p len n j
  assume a: "elem data p len = Inr (Some n)" "n \<le> j"
  then obtain wl where "buf_u16_get data (p + off) = Inr wl" "n = uint wl"
    using assms(2) unfolding x_ok_def by blast
  moreover have "m \<le> n"
    using framed_again [OF assms a(1)] by simp
  ultimately show "elem data p j = Inr (Some n)"
    using a unfolding assms(1) by (simp add: v_min_def v_wire_len_set_def split: if_splits)
qed

lemma framed_set_len:
  assumes "elem = v_min m (v_set_len m v_done)"
  shows "framed elem"
  unfolding framed_def assms by (auto simp: v_min_def v_set_len_def v_done_def split: if_splits)

lemma framed_checked:
  assumes "elem = v_min m (v_set_len m (v_wire_len off m v_done))"
  shows "framed elem"
  unfolding framed_def assms
  by (auto simp: v_min_def v_set_len_def v_wire_len_def v_done_def bnd_Inr split: if_splits)

lemmas framed_elements =
  framed_wire_len [OF loci_validate_of_action_OF_VERSION_1_0_def loci_validate_of_action_OF_VERSION_1_0_exact]
  framed_wire_len [OF loci_validate_of_action_OF_VERSION_1_1_def loci_validate_of_action_OF_VERSION_1_1_exact]
  framed_wire_len [OF loci_validate_of_action_OF_VERSION_1_2_def loci_validate_of_action_OF_VERSION_1_2_exact]
  framed_wire_len [OF loci_validate_of_action_OF_VERSION_1_3_def loci_validate_of_action_OF_VERSION_1_3_exact]
  framed_wire_len [OF loci_validate_of_action_OF_VERSION_1_4_def loci_validate_of_action_OF_VERSION_1_4_exact]
  framed_wire_len [OF loci_validate_of_action_id_OF_VERSION_1_3_def loci_validate_of_action_id_OF_VERSION_1_3_exact]
  framed_wire_len [OF loci_validate_of_action_id_OF_VERSION_1_4_def loci_validate_of_action_id_OF_VERSION_1_4_exact]
  framed_wire_len [OF loci_validate_of_async_config_prop_OF_VERSION_1_4_def loci_validate_of_async_config_prop_OF_VERSION_1_4_exact]
  framed_set_len [OF loci_validate_of_bsn_controller_connection_OF_VERSION_1_3_def]
  framed_set_len [OF loci_validate_of_bsn_controller_connection_OF_VERSION_1_4_def]
  framed_set_len [OF loci_validate_of_bsn_debug_counter_desc_stats_entry_OF_VERSION_1_3_def]
  framed_set_len [OF loci_validate_of_bsn_debug_counter_desc_stats_entry_OF_VERSION_1_4_def]
  framed_set_len [OF loci_validate_of_bsn_debug_counter_stats_entry_OF_VERSION_1_3_def]
  framed_set_len [OF loci_validate_of_bsn_debug_counter_stats_entry_OF_VERSION_1_4_def]
  framed_set_len [OF loci_validate_of_bsn_flow_checksum_bucket_stats_entry_OF_VERSION_1_3_def]
  framed_set_len [OF loci_validate_of_bsn_flow_checksum_bucket_stats_entry_OF_VERSION_1_4_def]
  framed_wire_len [OF loci_validate_of_bsn_generic_stats_entry_OF_VERSION_1_3_def loci_validate_of_bsn_generic_stats_entry_OF_VERSION_1_3_exact]
  framed_wire_len [OF loci_validate_of_bsn_generic_stats_entry_OF_VERSION_1_4_def loci_validate_of_bsn_generic_stats_entry_OF_VERSION_1_4_exact]
  framed_set_len [OF loci_validate_of_bsn_gentable_bucket_stats_entry_OF_VERSION_1_3_def]
  framed_set_len [OF loci_validate_of_bsn_gentable_bucket_stats_entry_OF_VERSION_1_4_def]
  framed_checked [OF loci_validate_of_bsn_gentable_desc_stats_entry_OF_VERSION_1_3_def]
  framed_checked [OF loci_validate_of_bsn_gentable_desc_stats_entry_OF_VERSION_1_4_def]
  framed_wire_len [OF loci_validate_of_bsn_gentable_entry_desc_stats_entry_OF_VERSION_1_3_def loci_validate_of_bsn_gentable_entry_desc_stats_entry_OF_VERSION_1_3_exact]
  framed_wire_len [OF loci_validate_of_bsn_gentable_entry_desc_stats_entry_OF_VERSION_1_4_def loci_validate_of_bsn_gentable_entry_desc_stats_entry_OF_VERSION_1_4_exact]
  framed_wire_len [OF loci_validate_of_bsn_gentable_entry_stats_entry_OF_VERSION_1_3_def loci_validate_of_bsn_gentable_entry_stats_entry_OF_VERSION_1_3_exact]
  framed_wire_len [OF loci_validate_of_bsn_gentable_entry_stats_entry_OF_VERSION_1_4_def loci_validate_of_bsn_gentable_entry_stats_entry_OF_VERSION_1_4_exact]
  framed_set_len [OF loci_validate_of_bsn_gentable_stats_entry_OF_VERSION_1_3_def]
  framed_set_len [OF loci_validate_of_bsn_gentable_stats_entry_OF_VERSION_1_4_def]
  framed_set_len [OF loci_validate_of_bsn_interface_OF_VERSION_1_0_def]
  framed_set_len [OF loci_validate_of_bsn_interface_OF_VERSION_1_1_def]
  framed_set_len [OF loci_validate_of_bsn_interface_OF_VERSION_1_2_def]
  framed_set_len [OF loci_validate_of_bsn_interface_OF_VERSION_1_3_def]
  framed_set_len [OF loci_validate_of_bsn_interface_OF_VERSION_1_4_def]
  framed_set_len [OF loci_validate_of_bsn_lacp_stats_entry_OF_VERSION_1_3_def]
  framed_set_len [OF loci_validate_of_bsn_lacp_stats_entry_OF_VERSION_1_4_def]
  framed_wire_len [OF loci_validate_of_bsn_port_counter_stats_entry_OF_VERSION_1_3_def loci_validate_of_bsn_port_counter_stats_entry_OF_VERSION_1_3_exact]
  framed_wire_len [OF loci_validate_of_bsn_port_counter_stats_entry_OF_VERSION_1_4_def loci_validate_of_bsn_port_counter_stats_entry_OF_VERSION_1_4_exact]
  framed_set_len [OF loci_validate_of_bsn_switch_pipeline_stats_entry_OF_VERSION_1_3_def]
  framed_set_len [OF loci_validate_of_bsn_switch_pipeline_stats_entry_OF_VERSION_1_4_def]
  framed_set_len [OF loci_validate_of_bsn_table_checksum_stats_entry_OF_VERSION_1_3_def]
  framed_set_len [OF loci_validate_of_bsn_table_checksum_stats_entry_OF_VERSION_1_4_def]
  framed_wire_len [OF loci_validate_of_bsn_tlv_OF_VERSION_1_3_eq loci_validate_of_bsn_tlv_OF_VERSION_1_3_exact]
  framed_wire_len [OF loci_validate_of_bsn_tlv_OF_VERSION_1_4_eq loci_validate_of_bsn_tlv_OF_VERSION_1_4_exact]
  framed_wire_len [OF loci_validate_of_bsn_vlan_counter_stats_entry_OF_VERSION_1_3_def loci_validate_of_bsn_vlan_counter_stats_entry_OF_VERSION_1_3_exact]
  framed_wire_len [OF loci_validate_of_bsn_vlan_counter_stats_entry_OF_VERSION_1_4_def loci_validate_of_bsn_vlan_counter_stats_entry_OF_VERSION_1_4_exact]
  framed_wire_len [OF loci_validate_of_bsn_vrf_counter_stats_entry_OF_VERSION_1_3_def loci_validate_of_bsn_vrf_counter_stats_entry_OF_VERSION_1_3_exact]
  framed_wire_len [OF loci_validate_of_bsn_vrf_counter_stats_entry_OF_VERSION_1_4_def loci_validate_of_bsn_vrf_counter_stats_entry_OF_VERSION_1_4_exact]
  framed_wire_len [OF loci_validate_of_bucket_OF_VERSION_1_1_def loci_validate_of_bucket_OF_VERSION_1_1_exact]
  framed_wire_len [OF loci_validate_of_bucket_OF_VERSION_1_2_def loci_validate_of_bucket_OF_VERSION_1_2_exact]
  framed_wire_len [OF loci_validate_of_bucket_OF_VERSION_1_3_def loci_validate_of_bucket_OF_VERSION_1_3_exact]
  framed_wire_len [OF loci_validate_of_bucket_OF_VERSION_1_4_def loci_validate_of_bucket_OF_VERSION_1_4_exact]
  framed_set_len [OF loci_validate_of_bucket_counter_OF_VERSION_1_1_def]
  framed_set_len [OF loci_validate_of_bucket_counter_OF_VERSION_1_2_def]
  framed_set_len [OF loci_validate_of_bucket_counter_OF_VERSION_1_3_def]
  framed_set_len [OF loci_validate_of_bucket_counter_OF_VERSION_1_4_def]
  framed_wire_len [OF loci_validate_of_bundle_prop_OF_VERSION_1_4_def loci_validate_of_bundle_prop_OF_VERSION_1_4_exact]
  framed_wire_len [OF loci_validate_of_flow_stats_entry_OF_VERSION_1_0_def loci_validate_of_flow_stats_entry_OF_VERSION_1_0_exact]
  framed_wire_len [OF loci_validate_of_flow_stats_entry_OF_VERSION_1_1_def loci_validate_of_flow_stats_entry_OF_VERSION_1_1_exact]
  framed_wire_len [OF loci_validate_of_flow_stats_entry_OF_VERSION_1_2_def loci_validate_of_flow_stats_entry_OF_VERSION_1_2_exact]
  framed_wire_len [OF loci_validate_of_flow_stats_entry_OF_VERSION_1_3_def loci_validate_of_flow_stats_entry_OF_VERSION_1_3_exact]
  framed_wire_len [OF loci_validate_of_flow_stats_entry_OF_VERSION_1_4_def loci_validate_of_flow_stats_entry_OF_VERSION_1_4_exact]
  framed_wire_len [OF loci_validate_of_group_desc_stats_entry_OF_VERSION_1_1_def loci_validate_of_group_desc_stats_entry_OF_VERSION_1_1_exact]
  framed_wire_len [OF loci_validate_of_group_desc_stats_entry_OF_VERSION_1_2_def loci_validate_of_group_desc_stats_entry_OF_VERSION_1_2_exact]
  framed_wire_len [OF loci_validate_of_group_desc_stats_entry_OF_VERSION_1_3_def loci_validate_of_group_desc_stats_entry_OF_VERSION_1_3_exact]
  framed_wire_len [OF loci_validate_of_group_desc_stats_entry_OF_VERSION_1_4_def loci_validate_of_group_desc_stats_entry_OF_VERSION_1_4_exact]
  framed_wire_len [OF loci_validate_of_group_stats_entry_OF_VERSION_1_1_def loci_validate_of_group_stats_entry_OF_VERSION_1_1_exact]
  framed_wire_len [OF loci_validate_of_group_stats_entry_OF_VERSION_1_2_def loci_validate_of_group_stats_entry_OF_VERSION_1_2_exact]
  framed_wire_len [OF loci_validate_of_group_stats_entry_OF_VERSION_1_3_def loci_validate_of_group_stats_entry_OF_VERSION_1_3_exact]
  framed_wire_len [OF loci_validate_of_group_stats_entry_OF_VERSION_1_4_def loci_validate_of_group_stats_entry_OF_VERSION_1_4_exact]
  framed_wire_len [OF loci_validate_of_hello_elem_OF_VERSION_1_3_def loci_validate_of_hello_elem_OF_VERSION_1_3_exact]
  framed_wire_len [OF loci_validate_of_hello_elem_OF_VERSION_1_4_def loci_validate_of_hello_elem_OF_VERSION_1_4_exact]
  framed_wire_len [OF loci_validate_of_instruction_OF_VERSION_1_1_def loci_validate_of_instruction_OF_VERSION_1_1_exact]
  framed_wire_len [OF loci_validate_of_instruction_OF_VERSION_1_2_def loci_validate_of_instruction_OF_VERSION_1_2_exact]
  framed_wire_len [OF loci_validate_of_instruction_OF_VERSION_1_3_def loci_validate_of_instruction_OF_VERSION_1_3_exact]
  framed_wire_len [OF loci_validate_of_instruction_OF_VERSION_1_4_def loci_validate_of_instruction_OF_VERSION_1_4_exact]
  framed_wire_len [OF loci_validate_of_instruction_id_OF_VERSION_1_3_def loci_validate_of_instruction_id_OF_VERSION_1_3_exact]
  framed_wire_len [OF loci_validate_of_instruction_id_OF_VERSION_1_4_def loci_validate_of_instruction_id_OF_VERSION_1_4_exact]
  framed_wire_len [OF loci_validate_of_meter_band_OF_VERSION_1_3_def loci_validate_of_meter_band_OF_VERSION_1_3_exact]
  framed_wire_len [OF loci_validate_of_meter_band_OF_VERSION_1_4_def loci_validate_of_meter_band_OF_VERSION_1_4_exact]
  framed_set_len [OF loci_validate_of_meter_band_stats_OF_VERSION_1_3_def]
  framed_set_len [OF loci_validate_of_meter_band_stats_OF_VERSION_1_4_def]
  framed_wire_len [OF loci_validate_of_meter_stats_OF_VERSION_1_3_def loci_validate_of_meter_stats_OF_VERSION_1_3_exact]
  framed_wire_len [OF loci_validate_of_meter_stats_OF_VERSION_1_4_def loci_validate_of_meter_stats_OF_VERSION_1_4_exact]
  framed_wire_len [OF loci_validate_of_packet_queue_OF_VERSION_1_0_def loci_validate_of_packet_queue_OF_VERSION_1_0_exact]
  framed_wire_len [OF loci_validate_of_packet_queue_OF_VERSION_1_1_def loci_validate_of_packet_queue_OF_VERSION_1_1_exact]
  framed_wire_len [OF loci_validate_of_packet_queue_OF_VERSION_1_2_def loci_validate_of_packet_queue_OF_VERSION_1_2_exact]
  framed_wire_len [OF loci_validate_of_packet_queue_OF_VERSION_1_3_def loci_validate_of_packet_queue_OF_VERSION_1_3_exact]
  framed_set_len [OF loci_validate_of_port_desc_OF_VERSION_1_0_def]
  framed_set_len [OF loci_validate_of_port_desc_OF_VERSION_1_1_def]
  framed_set_len [OF loci_validate_of_port_desc_OF_VERSION_1_2_def]
  framed_set_len [OF loci_validate_of_port_desc_OF_VERSION_1_3_def]
  framed_wire_len [OF loci_validate_of_port_desc_OF_VERSION_1_4_def loci_validate_of_port_desc_OF_VERSION_1_4_exact]
  framed_wire_len [OF loci_validate_of_port_desc_prop_OF_VERSION_1_4_def loci_validate_of_port_desc_prop_OF_VERSION_1_4_exact]
  framed_wire_len [OF loci_validate_of_port_mod_prop_OF_VERSION_1_4_def loci_validate_of_port_mod_prop_OF_VERSION_1_4_exact]
  framed_set_len [OF loci_validate_of_port_stats_entry_OF_VERSION_1_0_def]
  framed_set_len [OF loci_validate_of_port_stats_entry_OF_VERSION_1_1_def]
  framed_set_len [OF loci_validate_of_port_stats_entry_OF_VERSION_1_2_def]
  framed_set_len [OF loci_validate_of_port_stats_entry_OF_VERSION_1_3_def]
  framed_wire_len [OF loci_validate_of_port_stats_entry_OF_VERSION_1_4_def loci_validate_of_port_stats_entry_OF_VERSION_1_4_exact]
  framed_wire_len [OF loci_validate_of_port_stats_prop_OF_VERSION_1_4_def loci_validate_of_port_stats_prop_OF_VERSION_1_4_exact]
  framed_wire_len [OF loci_validate_of_queue_desc_OF_VERSION_1_4_def loci_validate_of_queue_desc_OF_VERSION_1_4_exact]
  framed_wire_len [OF loci_validate_of_queue_desc_prop_OF_VERSION_1_4_def loci_validate_of_queue_desc_prop_OF_VERSION_1_4_exact]
  framed_wire_len [OF loci_validate_of_queue_prop_OF_VERSION_1_0_def loci_validate_of_queue_prop_OF_VERSION_1_0_exact]
  framed_wire_len [OF loci_validate_of_queue_prop_OF_VERSION_1_1_def loci_validate_of_queue_prop_OF_VERSION_1_1_exact]
  framed_wire_len [OF loci_validate_of_queue_prop_OF_VERSION_1_2_def loci_validate_of_queue_prop_OF_VERSION_1_2_exact]
  framed_wire_len [OF loci_validate_of_queue_prop_OF_VERSION_1_3_def loci_validate_of_queue_prop_OF_VERSION_1_3_exact]
  framed_wire_len [OF loci_validate_of_queue_prop_OF_VERSION_1_4_def loci_validate_of_queue_prop_OF_VERSION_1_4_exact]
  framed_set_len [OF loci_validate_of_queue_stats_entry_OF_VERSION_1_0_def]
  framed_set_len [OF loci_validate_of_queue_stats_entry_OF_VERSION_1_1_def]
  framed_set_len [OF loci_validate_of_queue_stats_entry_OF_VERSION_1_2_def]
  framed_set_len [OF loci_validate_of_queue_stats_entry_OF_VERSION_1_3_def]
  framed_wire_len [OF loci_validate_of_queue_stats_entry_OF_VERSION_1_4_def loci_validate_of_queue_stats_entry_OF_VERSION_1_4_exact]
  framed_wire_len [OF loci_validate_of_queue_stats_prop_OF_VERSION_1_4_def loci_validate_of_queue_stats_prop_OF_VERSION_1_4_exact]
  framed_wire_len [OF loci_validate_of_role_prop_OF_VERSION_1_4_def loci_validate_of_role_prop_OF_VERSION_1_4_exact]
  framed_checked [OF loci_validate_of_table_desc_OF_VERSION_1_4_def]
  framed_wire_len [OF loci_validate_of_table_feature_prop_OF_VERSION_1_3_def loci_validate_of_table_feature_prop_OF_VERSION_1_3_exact]
  framed_wire_len [OF loci_validate_of_table_feature_prop_OF_VERSION_1_4_def loci_validate_of_table_feature_prop_OF_VERSION_1_4_exact]
  framed_wire_len [OF loci_validate_of_table_features_OF_VERSION_1_3_def loci_validate_of_table_features_OF_VERSION_1_3_exact]
  framed_wire_len [OF loci_validate_of_table_features_OF_VERSION_1_4_def loci_validate_of_table_features_OF_VERSION_1_4_exact]
  framed_wire_len [OF loci_validate_of_table_mod_prop_OF_VERSION_1_4_def loci_validate_of_table_mod_prop_OF_VERSION_1_4_exact]
  framed_set_len [OF loci_validate_of_table_stats_entry_OF_VERSION_1_0_def]
  framed_set_len [OF loci_validate_of_table_stats_entry_OF_VERSION_1_1_def]
  framed_set_len [OF loci_validate_of_table_stats_entry_OF_VERSION_1_2_def]
  framed_set_len [OF loci_validate_of_table_stats_entry_OF_VERSION_1_3_def]
  framed_set_len [OF loci_validate_of_table_stats_entry_OF_VERSION_1_4_def]
  framed_set_len [OF loci_validate_of_uint32_OF_VERSION_1_3_def]
  framed_set_len [OF loci_validate_of_uint32_OF_VERSION_1_4_def]
  framed_set_len [OF loci_validate_of_uint64_OF_VERSION_1_3_def]
  framed_set_len [OF loci_validate_of_uint64_OF_VERSION_1_4_def]
  framed_set_len [OF loci_validate_of_uint8_OF_VERSION_1_3_def]
  framed_set_len [OF loci_validate_of_uint8_OF_VERSION_1_4_def]

lemma all_lists_framed: "list_all (\<lambda>(lc, ver, elem). framed elem) all_lists"
  unfolding all_lists_def by (simp only: list.pred_inject prod.case framed_elements simp_thms)

subsection \<open>Cutting a longer list\<close>

lemma tiles_unique: "tiles elem data p len ns \<Longrightarrow> tiles elem data p len ms \<Longrightarrow> ns = ms"
proof (induction ns arbitrary: p len ms)
  case Nil
  then show ?case
    by (cases ms) auto
next
  case (Cons n ns)
  then show ?case
    by (cases ms) auto
qed

text \<open>The same elements are cut from the same bytes elsewhere with one more element behind them.\<close>

lemma tiles_snoc:
  assumes v: "v_ok elem" "framed elem"
  shows "tiles elem data p len ns \<Longrightarrow> same_bytes len data p data' p' \<Longrightarrow> elem data' (p' + len) m = Inr (Some m) \<Longrightarrow> 0 < m \<Longrightarrow>
    p' + len + m \<le> int (length data') \<Longrightarrow> tiles elem data' p' (len + m) (ns @ [m])"
proof (induction ns arbitrary: p p' len)
  case Nil
  then show ?case
    by simp
next
  case (Cons n ns)
  have n: "0 < n" "n \<le> len" "elem data p len = Inr (Some n)" "tiles elem data (p + n) (len - n) ns"
    using Cons.prems(1) by auto
  have "same_bytes n data p data' p'"
    using same_bytes_sub [OF Cons.prems(2), of 0 n] n(2) by simp
  moreover have "elem data p n = Inr (Some n)"
    by (rule framedD [OF v(2) n(3)]) simp
  ultimately have "elem data' p' n = Inr (Some n)"
    using v(1) by (simp add: v_ok_def v_loc_def)
  then have "elem data' p' (len + m) = Inr (Some n)"
    by (rule framedD [OF v(2)]) (use n(2) Cons.prems(4) in simp)
  moreover have "tiles elem data' (p' + n) (len - n + m) (ns @ [m])"
    using Cons.prems(3-5) n by (intro Cons.IH [OF n(4)] same_bytes_sub [OF Cons.prems(2)]) (simp_all add: algebra_simps)
  ultimately show ?case
    using n Cons.prems(4) by (simp add: algebra_simps)
qed

lemma offsets_snoc: "offsets p (ns @ [m]) = offsets p ns @ [p + sum_list ns]"
  by (induction ns arbitrary: p) (simp_all add: add.assoc)

lemma tiles_sum: "tiles elem data p len ns \<Longrightarrow> sum_list ns = len"
  by (induction ns arbitrary: p len) auto

subsection \<open>Appending and iterating\<close>

text \<open>The item to append: an object with a buffer of its own, its bytes \<open>xs\<close>.\<close>

definition item_bytes :: "store \<Rightarrow> int \<Rightarrow> int \<Rightarrow> byte list \<Rightarrow> bool" where
  "item_bytes s r item xs \<longleftrightarrow> (\<exists>ic r' wi. cells s item = Some ic \<and> cell_buf ic = Some r' \<and> r' \<noteq> r \<and> bufs s r' = Some wi \<and>
     object_bytes (cell_in wi ic) = Inr xs)"

lemma list_in_family:
  assumes "family s r w b (l # as)" and "cells s l = Some c"
  shows "list_in (cell_in w c) w b"
proof -
  have "c \<in> set (chain_cells s (l # as))"
    using assms(2) by (simp add: chain_cells_def)
  then show ?thesis
    using assms(1) unfolding family_def list_in_def by simp
qed

text \<open>Bytes at the end of the data of one buffer, and the same bytes with others behind them in another.\<close>

lemma same_bytes_appended:
  assumes "drop (nat off) (take (nat (cur + int (length xs))) b') = drop (nat off) (take (nat cur) b) @ xs"
    and "0 \<le> off" "off \<le> cur" "cur \<le> int (length b)" "cur + int (length xs) \<le> int (length b')"
  shows "same_bytes (cur - off) b off b' off" "same_bytes (int (length xs)) xs 0 b' cur"
proof -
  define o1 k where "o1 = nat off" and "k = nat (cur - off)"
  have i: "off = int o1" "cur = int (o1 + k)"
    using assms(2,3) by (simp_all add: o1_def k_def)
  have e: "drop o1 (take (o1 + k + length xs) b') = take k (drop o1 b) @ xs"
    using assms(1) by (simp add: i nat_add_distrib drop_take flip: of_nat_add)
  have k: "length (take k (drop o1 b)) = k"
    using assms(4) by (simp add: i)
  have b': "drop o1 (take (o1 + k + length xs) b') = take (k + length xs) (drop o1 b')"
    by (simp add: drop_take add.assoc)
  have "take k (drop o1 b') = take k (take (k + length xs) (drop o1 b'))"
    by (simp add: min_def)
  also have "\<dots> = take k (drop o1 b)"
    using e k unfolding b' by simp
  finally show "same_bytes (cur - off) b off b' off"
    using assms(4,5) by (simp add: same_bytes_def i)
  have "drop k (take (k + length xs) (drop o1 b')) = xs"
    using e k unfolding b' by simp
  then have "take (length xs) (drop (o1 + k) b') = xs"
    by (simp add: drop_take add.commute)
  then show "same_bytes (int (length xs)) xs 0 b' cur"
    using assms(5) by (simp add: same_bytes_def i nat_add_distrib)
qed

text \<open>C14: Appending to a list at the end of its family succeeds when there is room: the buffer's data get the item's bytes behind
  them, the list and all its ancestors are longer by them, the length that each keeps on the wire is again its length, and an
  iteration over the list visits the elements it had and then the new one, all of them well-formed.\<close>

theorem list_append_extends:
  assumes "(lc, ver, elem) \<in> set all_lists" and "family s r w b (l # as)" and "ends_together s w (l # as)"
    and "cells s l = Some c" and "cell_version c = ver" and "v_list elem b (cell_offset c) (cell_length c) = Inr True"
    and "lengths_before s (l # as) (cell_offset c)" and "item_bytes s r item xs" and "n = int (length xs)" and "elem xs 0 n = Inr (Some n)"
    and "current_bytes w + n \<le> alloc_bytes w"
  shows "\<exists>s' w' b' os os'. of_list_append s l item = Inr (OF_ERROR_NONE, s') \<and>
     chain_cells s' (l # as) = map (longer n) (chain_cells s (l # as)) \<and>
     consistent_family s' r w' b' (l # as) \<and>
     list_elements lc (cell_in w c) obj = Inr os \<and> list_elements lc (cell_in w' (longer n c)) obj = Inr os' \<and>
     map obj_offset os' = map obj_offset os @ [cell_offset c + cell_length c] \<and>
     map obj_length os' = map obj_length os @ [n] \<and> (\<forall>x\<in>set os'. obj_wf x)"
proof -
  obtain ic r' wi where i: "cells s item = Some ic" "cell_buf ic = Some r'" "r' \<noteq> r" "bufs s r' = Some wi" "object_bytes (cell_in wi ic) = Inr xs"
    using assms(8) unfolding item_bytes_def by blast
  have el: "element_ok lc ver elem" "framed elem" and v: "v_ok elem"
    using all_lists_ok all_lists_framed assms(1) by (auto simp: list_all_iff element_ok_def)
  define s' where "s' = resized s r w b (l # as) (current_bytes w) xs"
  have app: "of_list_append s l item = Inr (OF_ERROR_NONE, s')"
    unfolding s'_def using list_append_at_end [OF assms(2,3) i] assms(9,11) by simp
  have room: "current_bytes w + int (length xs) \<le> alloc_bytes w"
    using assms(9,11) by simp
  define b' where "b' = put_lengths (map (longer n) (chain_cells s (l # as))) (overwrite b (current_bytes w) xs)"
  define w' where "w' = w\<lparr>current_bytes := current_bytes w + n, wbuf_buf := Some b'\<rparr>"
  have cl: "cell_offset c + cell_length c = current_bytes w"
    using assms(3,4) by (simp add: ends_together_def chain_cells_def)
  have wb: "wbuf_buf w = Some b" "current_bytes w \<le> int (length b)" "0 \<le> cell_offset c" "0 \<le> cell_length c"
    using list_in_family [OF assms(2,4)] by (auto simp: list_in_def elim!: wbuf_wfE)
  have le: "cell_offset c \<le> current_bytes w" "cell_offset (hd (chain_cells s (l # as))) \<le> current_bytes w"
    using cl wb(4) assms(4) by (simp_all add: chain_cells_def)
  note af = resized_family [OF assms(2,3,7) wb(3) le(1) order_refl room le(2), folded s'_def, simplified add_diff_cancel_left' assms(9) [symmetric],
      folded b'_def, folded w'_def]
  have w': "wbuf_buf w' = Some b'" "current_bytes w' = current_bytes w + n" "wbuf_wf w'"
    using af(1) by (simp_all add: w'_def family_def)
  have cell': "cells s' l = Some (longer n c)"
    using assms(4,9) by (simp add: s'_def resized_def lengthen_def)
  have l: "list_in (cell_in w c) w b" "list_in (cell_in w' (longer n c)) w' b'"
    using list_in_family [OF assms(2,4)] list_in_family [OF af(1) cell'] by simp_all
  obtain os where os: "list_elements lc (cell_in w c) obj = Inr os" "elements_of elem b (cell_in w c) os"
    using list_elements_accepted [OF el(1) l(1)] assms(5,6) by auto
  have wb: "wbuf_buf w = Some b" "current_bytes w \<le> int (length b)" "0 \<le> cell_offset c" "0 \<le> cell_length c"
    "current_bytes w' \<le> int (length b')"
    using l w'(3) by (auto simp: list_in_def elim!: wbuf_wfE)
  have sb: "same_bytes (current_bytes w - cell_offset c) b (cell_offset c) b' (cell_offset c)" "same_bytes n xs 0 b' (current_bytes w)"
    using same_bytes_appended [of "cell_offset c" "current_bytes w" xs b' b] af(5) w'(1,2) wb cl assms(9) by (simp_all add: wbuf_data_def)
  have new: "elem b' (cell_offset c + cell_length c) n = Inr (Some n)"
    using sb(2) v assms(10) unfolding cl v_ok_def v_loc_def by fastforce
  have n: "0 < n"
    using v_ok_bounded [OF v, of 0 n xs] assms(9,10) by (simp add: bounded_def)
  have t: "tiles elem b' (cell_offset c) (cell_length c + n) (map obj_length os @ [n])"
  proof (rule tiles_snoc [OF v el(2)])
    show "tiles elem b (cell_offset c) (cell_length c) (map obj_length os)"
      using os(2) by (simp add: elements_of_def)
    show "same_bytes (cell_length c) b (cell_offset c) b' (cell_offset c)"
      using sb(1) cl [symmetric] by simp
  qed (use new n wb(5) cl w'(2) in simp_all)
  then have "v_list elem b' (cell_offset c) (cell_length c + n) = Inr True"
    using list_element.list_accepts [OF list_element.intro [OF v], of "cell_offset c" "cell_length c + n" b'] wb cl w'(2) n by auto
  then obtain os' where os': "list_elements lc (cell_in w' (longer n c)) obj = Inr os'" "elements_of elem b' (cell_in w' (longer n c)) os'"
    using list_elements_accepted [OF el(1) l(2)] assms(5) by auto
  have len': "map obj_length os' = map obj_length os @ [n]"
    using os'(2) tiles_unique [OF _ t] by (simp add: elements_of_def)
  have "sum_list (map obj_length os) = cell_length c"
    using os(2) tiles_sum by (force simp: elements_of_def)
  then have "map obj_offset os' = map obj_offset os @ [cell_offset c + cell_length c]"
    using os(2) os'(2) len' by (simp add: elements_of_def offsets_snoc)
  then show ?thesis
    using app af(1-4) os(1) os'(1) len' os'(2) by (intro exI [of _ s'] exI [of _ w'] exI [of _ b'] exI [of _ os] exI [of _ os'])
      (simp add: elements_of_def consistent_family_def)
qed

text \<open>A 1.3 instruction with an empty list of actions, to which an action that decrements the TTL is appended.\<close>

definition sample_instruction :: wire_buffer where
  "sample_instruction = \<lparr>wbuf_buf = Some ([0, 4, 0, 8, 0, 0, 0, 0] @ replicate 8 0), alloc_bytes = 16, current_bytes = 8\<rparr>"

definition sample_action :: wire_buffer where
  "sample_action = \<lparr>wbuf_buf = Some [0, 24, 0, 8, 0, 0, 0, 0], alloc_bytes = 8, current_bytes = 8\<rparr>"

definition sample_store :: store where
  "sample_store = \<lparr>cells = [1 \<mapsto> \<lparr>cell_buf = Some 10, cell_parent = None, cell_offset = 0, cell_id = OF_INSTRUCTION_APPLY_ACTIONS,
       cell_length = 8, cell_version = 4\<rparr>,
     2 \<mapsto> \<lparr>cell_buf = Some 10, cell_parent = Some 1, cell_offset = 8, cell_id = OF_LIST_ACTION, cell_length = 0, cell_version = 4\<rparr>,
     3 \<mapsto> \<lparr>cell_buf = Some 11, cell_parent = None, cell_offset = 0, cell_id = OF_ACTION_DEC_NW_TTL, cell_length = 8, cell_version = 4\<rparr>],
     bufs = [10 \<mapsto> sample_instruction, 11 \<mapsto> sample_action]\<rparr>"

lemma sample_rows: "map_of metadata_table OF_LIST_ACTION = None"
  "map_of metadata_table OF_INSTRUCTION_APPLY_ACTIONS = Some \<lparr>wire_length_getter = Some Tlv16Len, wire_length_setter = Some Tlv16Len,
     wire_type_getter = Some of_instruction_wire_object_id_get, wire_type_setter = wire_types of_instruction_apply_actions_class\<rparr>"
  unfolding metadata_table_def map_of_append map_add_def metadata_rows
  by (simp_all add: map_of_Cons_code del: map_of.simps cong: map_of_freeze)

lemma sample_family: "family sample_store 10 sample_instruction ([0, 4, 0, 8, 0, 0, 0, 0] @ replicate 8 0) [2, 1]"
  by (simp add: family_def chain_cells_def sample_store_def sample_instruction_def sizable_def length_at_def sample_rows
      wbuf_wf_def MAX_PARENT_ITERATIONS_def)

lemma list_append_extends_witness:
  "\<exists>s' w' b' os'. of_list_append sample_store 2 3 = Inr (OF_ERROR_NONE, s') \<and> consistent_family s' 10 w' b' [2, 1] \<and> buf_u16_get b' 2 = Inr 16 \<and>
     list_elements iter_of_list_action (cell_in w' (longer 8 (the (cells sample_store 2)))) zero_object = Inr os' \<and> map obj_offset os' = [8]"
proof -
  let ?b = "[0, 4, 0, 8, 0, 0, 0, 0] @ replicate 8 0 :: byte list" and ?l = "the (cells sample_store 2)" and ?xs = "[0, 24, 0, 8, 0, 0, 0, 0] :: byte list"
  have lc: "(iter_of_list_action, 4, loci_validate_of_action_OF_VERSION_1_3) \<in> set all_lists"
    by (simp add: all_lists_def)
  have e: "ends_together sample_store sample_instruction [2, 1]"
    by (simp add: ends_together_def chain_cells_def sample_store_def sample_instruction_def)
  have c: "cells sample_store 2 = Some ?l" "cell_version ?l = 4" "cell_offset ?l = 8" "cell_length ?l = 0"
    by (simp_all add: sample_store_def)
  have q: "lengths_before sample_store [2, 1] (cell_offset ?l)"
    by (simp add: lengths_before_def chain_cells_def sample_store_def length_at_def sample_rows)
  have i: "item_bytes sample_store 10 3 ?xs"
    by (simp add: item_bytes_def sample_store_def object_bytes_def sample_action_def rd_block_def)
  have v: "v_list loci_validate_of_action_OF_VERSION_1_3 ?b (cell_offset ?l) (cell_length ?l) = Inr True"
    using c by (simp add: v_list_none)
  have x: "loci_validate_of_action_OF_VERSION_1_3 ?xs 0 8 = Inr (Some 8)"
    by code_simp
  have room: "current_bytes sample_instruction + 8 \<le> alloc_bytes sample_instruction"
    by (simp add: sample_instruction_def)
  obtain s' w' b' os os' where s': "of_list_append sample_store 2 3 = Inr (OF_ERROR_NONE, s')"
    "chain_cells s' [2, 1] = map (longer 8) (chain_cells sample_store [2, 1])"
    "consistent_family s' 10 w' b' [2, 1]"
    "list_elements iter_of_list_action (cell_in sample_instruction ?l) zero_object = Inr os"
    "list_elements iter_of_list_action (cell_in w' (longer 8 ?l)) zero_object = Inr os'" "map obj_offset os' = map obj_offset os @ [8]"
    using list_append_extends [OF lc sample_family e c(1,2) v q i _ x room, of zero_object] c(3,4) by auto
  have "list_elements iter_of_list_action (cell_in sample_instruction ?l) zero_object = Inr []"
    by code_simp
  moreover have "buf_u16_get b' 2 = Inr 16"
    using s'(3) unfolding consistent_family_def s'(2)
    by (simp add: wire_length_agrees_def chain_cells_def sample_store_def length_at_def sample_rows longer_def)
  ultimately show ?thesis
    using s' by (intro exI [of _ s'] exI [of _ w'] exI [of _ b'] exI [of _ os']) auto
qed

text \<open>C38: Appending to a list that is not the last thing in its message, as the action list of a packet-out with data, aborts the
  process: the lengths of the list and its ancestors are advanced, and the assertion that the outermost object ends with the
  buffer's data fails.\<close>

theorem list_append_elsewhere_aborts:
  assumes "family s r w b (l # as)" and "cells s l = Some c" and "cell_offset c + cell_length c \<noteq> current_bytes w"
    and "item_bytes s r item xs" and "xs \<noteq> []" and "cell_offset c + cell_length c + int (length xs) \<le> alloc_bytes w"
  shows "of_list_append s l item = Inl AssertFail"
proof -
  obtain ic r' wi where i: "cells s item = Some ic" "cell_buf ic = Some r'" "r' \<noteq> r" "bufs s r' = Some wi" "object_bytes (cell_in wi ic) = Inr xs"
    using assms(4) unfolding item_bytes_def by blast
  let ?d = "cell_offset c + cell_length c" and ?n = "int (length xs)"
  let ?w = "w\<lparr>current_bytes := max (current_bytes w) (?d + ?n), wbuf_buf := Some (overwrite b ?d xs)\<rparr>"
  let ?s = "s\<lparr>bufs := (bufs s)(r \<mapsto> ?w)\<rparr>"
  obtain c' where "cells s l = Some c'" "chain_cells s (l # as) = c' # chain_cells s as" "cell_buf c' = Some r" "bufs s r = Some w"
    and w: "wbuf_wf w" "wbuf_buf w = Some b" and c': "0 \<le> cell_offset c'" "0 \<le> cell_length c'" "cell_offset c' + cell_length c' \<le> current_bytes w"
    and lin: "lineage s (Some l) (l # as)" "cell_parent c' = None \<longrightarrow> cell_offset c' = 0 \<and> cell_length c' = current_bytes w"
    by (rule familyD [OF assms(1)])
  then have c: "0 \<le> cell_offset c" "0 \<le> cell_length c" "?d \<le> current_bytes w"
    using assms(2) by simp_all
  have "length (overwrite b ?d xs) = length b"
    using w c assms(6) by (intro length_overwrite) (auto elim!: wbuf_wfE)
  then have wf: "wbuf_wf ?w"
    using w c assms(6) by (auto simp: wbuf_wf_def)
  have "length_update_loop MAX_PARENT_ITERATIONS ?s (Some l) ?n = Inl AssertFail"
  proof (rule length_update_loop_aborts [where w = ?w])
    show "lineage ?s (Some l) (l # as)"
      by (rule lineage_cong [OF lin(1)]) simp
    have "cell_buf d = Some r \<and> sizable d \<and> (\<forall>p. length_at d = Some p \<longrightarrow> 0 \<le> p \<and> p + 2 \<le> current_bytes ?w) \<and>
       (cell_parent d = None \<longrightarrow> cell_offset d + cell_length d + ?n \<noteq> current_bytes ?w)" if d: "d \<in> set (chain_cells s (l # as))" for d
    proof -
      have p: "0 \<le> p \<and> p + 2 \<le> current_bytes ?w" if "length_at d = Some p" for p
        using family_place [OF assms(1) d that] by (simp add: le_max_iff_disj)
      have "0 < ?n" "?d < current_bytes w"
        using assms(3,5) c(3) by simp_all
      then have "current_bytes w + ?n \<noteq> max (current_bytes w) (?d + ?n)"
        by linarith
      moreover have "cell_buf d = Some r" "sizable d" "cell_parent d = None \<longrightarrow> cell_offset d = 0 \<and> cell_length d = current_bytes w"
        using assms(1) d unfolding family_def by blast+
      ultimately show ?thesis
        using p by simp
    qed
    then show "\<forall>c\<in>set (chain_cells ?s (l # as)). cell_buf c = Some r \<and> sizable c \<and>
        (\<forall>p. length_at c = Some p \<longrightarrow> 0 \<le> p \<and> p + 2 \<le> current_bytes ?w) \<and>
        (cell_parent c = None \<longrightarrow> cell_offset c + cell_length c + ?n \<noteq> current_bytes ?w)"
      by simp
  qed (use wf in simp_all)
  then show ?thesis
    using list_append_runs [OF assms(1,2) i assms(6)] by (simp add: of_object_parent_length_update_def)
qed

text \<open>A 1.0 packet-out with no actions and four bytes of data, to whose list an output action is appended.\<close>

definition sample_packet_out :: wire_buffer where
  "sample_packet_out = \<lparr>wbuf_buf = Some ([1, 13, 0, 20, 0, 0, 0, 0, 255, 255, 255, 255, 0, 1, 0, 0, 7, 7, 7, 7] @ replicate 20 0),
     alloc_bytes = 40, current_bytes = 20\<rparr>"

definition sample_out_store :: store where
  "sample_out_store = \<lparr>cells = [1 \<mapsto> \<lparr>cell_buf = Some 10, cell_parent = None, cell_offset = 0, cell_id = OF_PACKET_OUT,
       cell_length = 20, cell_version = 1\<rparr>,
     2 \<mapsto> \<lparr>cell_buf = Some 10, cell_parent = Some 1, cell_offset = 16, cell_id = OF_LIST_ACTION, cell_length = 0, cell_version = 1\<rparr>,
     3 \<mapsto> \<lparr>cell_buf = Some 11, cell_parent = None, cell_offset = 0, cell_id = OF_ACTION_OUTPUT, cell_length = 8, cell_version = 1\<rparr>],
     bufs = [10 \<mapsto> sample_packet_out,
       11 \<mapsto> \<lparr>wbuf_buf = Some [0, 0, 0, 8, 0, 2, 0, 0], alloc_bytes = 8, current_bytes = 8\<rparr>]\<rparr>"

lemma packet_out_row: "map_of metadata_table OF_PACKET_OUT = Some \<lparr>wire_length_getter = Some MessageLen, wire_length_setter = Some MessageLen,
     wire_type_getter = None, wire_type_setter = wire_types of_packet_out_class\<rparr>"
  unfolding metadata_table_def map_of_append map_add_def metadata_rows
  by (simp add: map_of_Cons_code del: map_of.simps cong: map_of_freeze)

lemma list_append_elsewhere_aborts_witness: "of_list_append sample_out_store 2 3 = Inl AssertFail"
proof (rule list_append_elsewhere_aborts)
  show "family sample_out_store 10 sample_packet_out ([1, 13, 0, 20, 0, 0, 0, 0, 255, 255, 255, 255, 0, 1, 0, 0, 7, 7, 7, 7] @ replicate 20 0) [2, 1]"
    by (simp add: family_def chain_cells_def sample_out_store_def sample_packet_out_def sizable_def length_at_def sample_rows packet_out_row
        wbuf_wf_def MAX_PARENT_ITERATIONS_def)
  show "cells sample_out_store 2 = Some \<lparr>cell_buf = Some 10, cell_parent = Some 1, cell_offset = 16, cell_id = OF_LIST_ACTION,
      cell_length = 0, cell_version = 1\<rparr>"
    by (simp add: sample_out_store_def)
  show "item_bytes sample_out_store 10 3 [0, 0, 0, 8, 0, 2, 0, 0]"
    by (simp add: item_bytes_def sample_out_store_def object_bytes_def rd_block_def)
qed (simp_all add: sample_packet_out_def)

end
