(* ===== verification/MemberProps.thy ===== *)
theory MemberProps
  imports MemberTables ListAppend
begin

text \<open>
  Properties of the members of variable length: binding a list that ends an object gives a family with the list at its
  end; setting such a member replaces its bytes and keeps the lengths; byte strings can be set only when they are empty.
\<close>

subsection \<open>Lists have no length of their own\<close>

lemma metadata_below_lists: "list_all (\<lambda>(i, _). i < 629) metadata_table"
  unfolding metadata_table_def metadata_rows by simp

lemma no_list_row: "629 \<le> i \<Longrightarrow> map_of metadata_table i = None"
  by (rule map_of_above [OF metadata_below_lists])

lemma list_cell: "629 \<le> cell_id c \<Longrightarrow> cell_id c < 683 \<Longrightarrow> length_at c = None \<and> sizable c"
  by (simp add: length_at_def sizable_def no_list_row)

lemma list_length_set: "629 \<le> object_id obj \<Longrightarrow> object_id obj < 683 \<Longrightarrow> of_object_wire_length_set obj n = Inr obj"
  by (simp add: of_object_wire_length_set_def loci_class_metadata_def no_list_row)

subsection \<open>Binding a member at the end of an object\<close>

text \<open>\<open>m\<close> is, in objects of the class and version of \<open>c\<close>, a member from \<open>n\<close> to the end.\<close>

definition ends_at :: "'m var_member_scheme \<Rightarrow> cell \<Rightarrow> int \<Rightarrow> bool" where
  "ends_at m c n \<longleftrightarrow> cell_id c \<in> set (owners m) \<and> map_of (places m) (cell_version c) = Some (At n, ToEnd) \<and>
     0 \<le> cell_offset c + n \<and> n \<le> cell_length c \<and> cell_length c - n < 65536"

lemma at_member_end: "ends_at m c n \<Longrightarrow> at_member m (cell_in w c) k = k n (cell_length c - n)"
  by (simp add: at_member_def ends_at_def)

text \<open>The list, as the child of the object at \<open>a\<close>.\<close>

definition bound_cell :: "object_member \<Rightarrow> int \<Rightarrow> cell \<Rightarrow> int \<Rightarrow> cell" where
  "bound_cell m a c n = \<lparr>cell_buf = cell_buf c, cell_parent = Some a, cell_offset = cell_offset c + n, cell_id = child_class m,
     cell_length = cell_length c - n, cell_version = cell_version c\<rparr>"

lemma bound_no_length: "629 \<le> child_class m \<Longrightarrow> child_class m < 683 \<Longrightarrow> length_at (bound_cell m a c n) = None"
  using list_cell [of "bound_cell m a c n"] by (simp add: bound_cell_def)

lemma family_check:
  assumes "family s r w b (a # as)" and "cells s a = Some c" and "cells s' a = Some c" and "bufs s' = bufs s"
  shows "with_object s' a (\<lambda>obj. OF_LENGTH_CHECK_ASSERT obj (Inr x)) = Inr x"
proof -
  have "cell_buf c = Some r" "bufs s r = Some w" "cell_parent c = None \<longrightarrow> cell_length c = current_bytes w"
    by (rule familyD [OF assms(1)]; use assms(2) in simp)+
  then show ?thesis
    using assms(3,4) by (cases "cell_parent c") (auto simp: with_object_in OF_LENGTH_CHECK_ASSERT_def c_assert_def)
qed

lemma member_bind_end:
  assumes f: "family s r w b (a # as)" and c: "cells s a = Some c" and m: "ends_at m c n" "child_base m = None"
    and fx: "of_object_fixed_len (cell_version c) (child_class m) = Inr fx" "0 \<le> fx" and t: "tmp \<noteq> a"
  shows "member_bind m s a tmp = Inr (s\<lparr>cells := (cells s)(tmp \<mapsto> bound_cell m a c n)\<rparr>)"
proof -
  have c': "cell_buf c = Some r" "bufs s r = Some w"
    by (rule familyD [OF f]; use c in simp)+
  let ?s = "s\<lparr>cells := (cells s)(tmp \<mapsto> bound_cell m a c n)\<rparr>"
  have "with_object ?s a (\<lambda>obj. OF_LENGTH_CHECK_ASSERT obj (Inr ?s)) = Inr ?s"
    by (rule family_check [OF f c]) (use c t in simp_all)
  then show ?thesis
    using m fx c c' by (simp add: member_bind_def with_object_in [OF c c'] at_member_end [OF m(1)] cell_at_def of_object_init_def
        zero_object_def Let_def bound_cell_def)
qed

lemma chain_cells_other: "tmp \<notin> set as \<Longrightarrow> chain_cells (s\<lparr>cells := (cells s)(tmp \<mapsto> c)\<rparr>) as = chain_cells s as"
  by (auto simp: chain_cells_def)

lemma family_bind:
  assumes f: "family s r w b (a # as)" and c: "cells s a = Some c" and m: "ends_at m c n" and n: "0 \<le> n"
    and l: "629 \<le> child_class m" "child_class m < 683" and t: "tmp \<notin> set (a # as)" "length (a # as) < MAX_PARENT_ITERATIONS"
  defines "s' \<equiv> s\<lparr>cells := (cells s)(tmp \<mapsto> bound_cell m a c n)\<rparr>"
  shows "family s' r w b (tmp # a # as)" "chain_cells s' (tmp # a # as) = bound_cell m a c n # chain_cells s (a # as)"
    "ends_together s w (a # as) \<Longrightarrow> ends_together s' w (tmp # a # as)"
    "lengths_before s' (tmp # a # as) q \<longleftrightarrow> lengths_before s (a # as) q"
proof -
  have c': "cell_buf c = Some r" "0 \<le> cell_offset c" "cell_offset c + cell_length c \<le> current_bytes w"
    by (rule familyD [OF f]; use c in simp)+
  let ?t = "bound_cell m a c n"
  have at: "length_at ?t = None" "sizable ?t"
    using list_cell [of ?t] l by (simp_all add: bound_cell_def)
  show cells': "chain_cells s' (tmp # a # as) = ?t # chain_cells s (a # as)"
    using chain_cells_other [OF t(1)] by (simp add: s'_def chain_cells_def)
  have "lineage s (Some a) (a # as)"
    using f by (simp add: family_def)
  then have "lineage s' (Some a) (a # as)"
    by (rule lineage_cong) (use t(1) in \<open>auto simp: s'_def\<close>)
  then have lin: "lineage s' (Some tmp) (tmp # a # as)"
    by (simp add: s'_def bound_cell_def)
  have "cell_buf ?t = Some r \<and> sizable ?t \<and> 0 \<le> cell_offset ?t \<and> 0 \<le> cell_length ?t \<and> cell_offset ?t + cell_length ?t \<le> current_bytes w \<and> cell_offset c \<le> cell_offset ?t \<and>
      (cell_parent ?t = None \<longrightarrow> cell_offset ?t = 0 \<and> cell_length ?t = current_bytes w)"
    using at c' m n by (auto simp: bound_cell_def ends_at_def)
  moreover have "cell_offset d \<le> cell_offset ?t" if "d \<in> set (chain_cells s (a # as))" for d
  proof -
    have "cell_offset d \<le> cell_offset (hd (chain_cells s (a # as)))"
      using f that unfolding family_def by blast
    then show ?thesis
      using c n by (simp add: chain_cells_def bound_cell_def)
  qed
  moreover have "cell_buf d = Some r \<and> sizable d \<and> 0 \<le> cell_offset d \<and> 0 \<le> cell_length d \<and> cell_offset d + cell_length d \<le> current_bytes w \<and>
      (cell_parent d = None \<longrightarrow> cell_offset d = 0 \<and> cell_length d = current_bytes w)" if "d \<in> set (chain_cells s (a # as))" for d
    using f that unfolding family_def by blast
  ultimately show "family s' r w b (tmp # a # as)"
    using f lin t(2) at(1) unfolding family_def cells' by (simp add: s'_def)
  show "ends_together s' w (tmp # a # as)" if "ends_together s w (a # as)"
    using that c unfolding ends_together_def cells' by (simp add: bound_cell_def chain_cells_def)
  show "lengths_before s' (tmp # a # as) q \<longleftrightarrow> lengths_before s (a # as) q"
    unfolding lengths_before_def cells' using at(1) by simp
qed

subsection \<open>Setting a member at the end of an object\<close>

lemma replace_end:
  assumes "wbuf_buf w = Some b" and "0 \<le> p" "p \<le> current_bytes w" "p + int (length xs) \<le> int (length b)"
  shows "of_wire_buffer_replace_data (Some w) p (current_bytes w - p) xs =
    Inr (w\<lparr>current_bytes := p + int (length xs), wbuf_buf := Some (overwrite b p xs)\<rparr>)"
  using assms by (cases w) (simp add: of_wire_buffer_replace_data_def wr_block_overwrite)

lemma drop_overwrite_end:
  assumes "0 \<le> p" and "p + int (length xs) \<le> int (length b)" and "current_bytes w = p + int (length xs)"
    and "wbuf_buf w = Some (overwrite b p xs)"
  shows "drop (nat p) (wbuf_data w) = xs"
proof -
  have "nat p \<le> length b" "nat (p + int (length xs)) = nat p + length xs"
    using assms(1,2) by linarith+
  then show ?thesis
    using assms(3,4) by (simp add: wbuf_data_def overwrite_def)
qed

lemma agrees_overwrite:
  assumes "wire_length_agrees b c" and "\<And>p. length_at c = Some p \<Longrightarrow> p + 2 \<le> q" and "0 \<le> q" "q + int (length xs) \<le> int (length b)"
  shows "wire_length_agrees (overwrite b q xs) c"
  unfolding wire_length_agrees_def
proof (intro allI impI)
  fix p
  assume p: "length_at c = Some p"
  have "wr_block b q xs = Inr (overwrite b q xs)"
    by (rule wr_block_overwrite [OF assms(3,4)])
  then have "rd_block (overwrite b q xs) p 2 = rd_block b p 2"
    using assms(2) [OF p] by (intro rd_block_wr_block_other) auto
  then show "buf_u16_get (overwrite b q xs) p = Inr (word_of_int (cell_length c))"
    using assms(1) p by (simp add: wire_length_agrees_def buf_u16_get_def)
qed

text \<open>What setting leaves: the family with the member's bytes replaced.\<close>

lemma member_set_end:
  assumes f: "family s r w b (a # as)" and e: "ends_together s w (a # as)" and ag: "\<forall>d\<in>set (chain_cells s (a # as)). wire_length_agrees b d"
    and c: "cells s a = Some c" and m: "ends_at m c n" "length_note m = ChildLength" and n: "0 \<le> n"
    and q: "lengths_before s (a # as) (cell_offset c + n)"
    and i: "cells s ch = Some cc" "cell_buf cc = Some r'" "r' \<noteq> r" "bufs s r' = Some wi" "object_bytes (cell_in wi cc) = Inr xs"
    and l: "629 \<le> cell_id cc" "cell_id cc < 683"
    and room: "cell_offset c + n + int (length xs) \<le> alloc_bytes w"
  obtains s' w' b' where "member_set m s a ch = Inr (OF_ERROR_NONE, s')" "family s' r w' b' (a # as)" "ends_together s' w' (a # as)"
    "\<forall>d\<in>set (chain_cells s' (a # as)). wire_length_agrees b' d"
    "chain_cells s' (a # as) = map (longer (n + int (length xs) - cell_length c)) (chain_cells s (a # as))"
    "drop (nat (cell_offset c + n)) (wbuf_data w') = xs"
proof -
  have c': "cell_buf c = Some r" "bufs s r = Some w" "0 \<le> cell_offset c" "cell_offset c + cell_length c \<le> current_bytes w"
    "wbuf_wf w" "wbuf_buf w = Some b"
    by (rule familyD [OF f]; use c in simp)+
  let ?p = "cell_offset c + n" and ?n = "int (length xs)"
  have fin: "cell_offset c + cell_length c = current_bytes w"
    using e c by (simp add: ends_together_def chain_cells_def)
  have nc: "n \<le> cell_length c"
    using m(1) by (simp add: ends_at_def)
  have p: "0 \<le> ?p" "?p \<le> current_bytes w" "?p + ?n \<le> int (length b)"
    using n c'(3) nc fin room family_data(5) [OF f] by simp_all
  have len: "cell_length cc = ?n"
    using i(5) by (auto simp: object_bytes_def rd_block_Inr split: option.splits if_splits)
  let ?w = "w\<lparr>current_bytes := ?p + ?n, wbuf_buf := Some (overwrite b ?p xs)\<rparr>"
  let ?s = "s\<lparr>bufs := (bufs s)(r \<mapsto> ?w)\<rparr>"
  have put: "put_object s a c (cell_in v c) = s\<lparr>bufs := (bufs s)(r \<mapsto> v)\<rparr>" for v
    using c c'(1) by (auto intro!: store.equality simp: put_object_def fun_eq_iff)
  have d: "?p + ?n - current_bytes w = n + ?n - cell_length c" "cell_length c - n = current_bytes w - ?p"
    using fin by simp_all
  have repl: "on_object s a (\<lambda>obj. bnd (of_wire_buffer_replace_data (wbuf obj) ?p (cell_length c - n) xs) (\<lambda>w. Inr (obj\<lparr>wbuf := Some w\<rparr>))) = Inr ?s"
    unfolding d(2) using replace_end [OF c'(6) p] put by (simp add: on_object_in [OF c c'(1,2)])
  have putc: "put_object ?s ch cc (cell_in wi cc) = ?s"
    using i by (auto intro!: store.equality simp: put_object_def fun_eq_iff)
  have noted: "on_object ?s ch (\<lambda>ch. of_object_wire_length_set ch (obj_length ch)) = Inr ?s"
    using i l putc by (simp add: on_object_in [of _ _ cc r' wi] list_length_set)
  have run: "member_set m s a ch = bnd (if ?n - (cell_length c - n) \<noteq> 0 then of_object_parent_length_update ?s a (n + ?n - cell_length c) else Inr ?s) (\<lambda>s.
      with_object s a (\<lambda>obj. OF_LENGTH_CHECK_ASSERT obj (Inr (OF_ERROR_NONE, s))))"
    using i c'(1) m len repl noted
    by (simp add: member_set_def with_object_in [OF c c'(1,2)] with_object_in [OF i(1,2,4)] at_member_end [OF m(1)] cell_at_def c Let_def algebra_simps)
  show thesis
  proof (cases "n + ?n = cell_length c")
    case True
    have cur: "?p + ?n = current_bytes w"
      using True fin by simp
    have wf: "wbuf_wf ?w"
      using c'(5,6) p cur by (auto simp: wbuf_wf_def length_overwrite)
    have "family ?s r ?w (overwrite b ?p xs) (a # as)"
      using f wf cur unfolding family_def by simp
    moreover have "ends_together ?s ?w (a # as)"
      using e cur by (simp add: ends_together_def)
    moreover have "\<forall>d\<in>set (chain_cells ?s (a # as)). wire_length_agrees (overwrite b ?p xs) d"
    proof
      fix d
      assume d: "d \<in> set (chain_cells ?s (a # as))"
      have "x + 2 \<le> ?p" if "length_at d = Some x" for x
      proof -
        have "x \<in> set (length_places (chain_cells s (a # as)))"
          using d that by (auto simp: length_places_set)
        then show ?thesis
          using q by (simp add: lengths_before_def)
      qed
      then show "wire_length_agrees (overwrite b ?p xs) d"
        using ag d p by (intro agrees_overwrite) simp_all
    qed
    moreover have "with_object ?s a (\<lambda>obj. OF_LENGTH_CHECK_ASSERT obj (Inr (OF_ERROR_NONE, ?s))) = Inr (OF_ERROR_NONE, ?s)"
      by (rule family_check [OF calculation(1)]) (use c in simp_all)
    moreover have "drop (nat ?p) (wbuf_data ?w) = xs"
      by (rule drop_overwrite_end) (use p in simp_all)
    ultimately show thesis
      using run True by (intro that [of ?s ?w "overwrite b ?p xs"]) simp_all
  next
    case False
    have o': "cell_offset (hd (chain_cells s (a # as))) \<le> ?p"
      using c n by (simp add: chain_cells_def)
    have "of_object_parent_length_update ?s a (n + ?n - cell_length c) = Inr (resized s r w b (a # as) ?p xs)"
      using update_resized [OF f e q p(1) room] unfolding d(1) .
    then have set: "member_set m s a ch = Inr (OF_ERROR_NONE, resized s r w b (a # as) ?p xs)"
      using run resized_check [OF f e] False by simp
    note rf = resized_family [OF f e q p(1) order_refl p(2) room o', unfolded d(1)]
    have "drop (nat ?p) (take (nat ?p) b) = []"
      by simp
    from that [OF set rf(1,2,4,3) rf(5) [unfolded this append_Nil]] show thesis .
  qed
qed

subsection \<open>The members that are plain lists\<close>

definition list_members :: "object_member list" where
  "list_members = filter (\<lambda>m. length_note m = ChildLength \<and> child_base m = None \<and> 629 \<le> child_class m) object_members"

text \<open>Their classes have no length of their own and are empty when new, in every version the member exists in.\<close>

definition list_member_ok :: "object_member \<Rightarrow> bool" where
  "list_member_ok m \<longleftrightarrow> child_class m < 683 \<and>
     list_all (\<lambda>(ver, pl, ex). of_object_fixed_len ver (child_class m) = Inr 0 \<and> (case pl of At n \<Rightarrow> 0 \<le> n | _ \<Rightarrow> True)) (places m)"

lemma list_members_checked: "list_all (\<lambda>m. 629 \<le> child_class m \<longrightarrow> list_member_ok m) object_members"
  unfolding object_members_def list_member_ok_def
  by (simp add: object_member_defs of_object_fixed_len_def)

lemma list_memberD:
  assumes "m \<in> set list_members"
  shows "length_note m = ChildLength" "child_base m = None" "629 \<le> child_class m" "child_class m < 683"
    "ends_at m c n \<Longrightarrow> of_object_fixed_len (cell_version c) (child_class m) = Inr 0" "ends_at m c n \<Longrightarrow> 0 \<le> n"
proof -
  have m: "m \<in> set object_members" "length_note m = ChildLength" "child_base m = None" "629 \<le> child_class m"
    using assms by (simp_all add: list_members_def)
  then show "length_note m = ChildLength" "child_base m = None" "629 \<le> child_class m"
    by simp_all
  have ok: "list_member_ok m"
    using list_members_checked m(1,4) by (auto simp: list_all_iff)
  then show "child_class m < 683"
    by (simp add: list_member_ok_def)
  show "of_object_fixed_len (cell_version c) (child_class m) = Inr 0" "0 \<le> n" if "ends_at m c n"
    using ok map_of_SomeD [of "places m" "cell_version c" "(At n, ToEnd)"] that
    by (auto simp: list_member_ok_def ends_at_def list_all_iff)
qed

text \<open>C15: Setting a list that ends an object (the elements of a statistics reply, the properties of a port modification)
  to a list of another buffer, when there is room: the bytes of the member become those of the list, in the object and its
  ancestors every length, kept and on the wire, is right again, and binding the member gives an object with these bytes. The place of
  the list in its object is a fixed one (\<open>ends_at\<close>); the few that follow another member of variable length, such as the
  instructions behind the match of a flow-mod from 1.2 on, are not covered.\<close>

theorem list_member_set_bind:
  assumes "m \<in> set list_members" and "consistent_family s r w b (a # as)" and "cells s a = Some c" and "ends_at m c n"
    and "lengths_before s (a # as) (cell_offset c + n)"
    and "cells s ch = Some cc" and "629 \<le> cell_id cc" and "cell_id cc < 683" and "item_bytes s r ch xs"
    and "cell_offset c + n + int (length xs) \<le> alloc_bytes w" and "length xs < 65536"
    and "tmp \<notin> set (a # as)" and "length (a # as) < MAX_PARENT_ITERATIONS"
  shows "\<exists>s' s'' w' b' t. member_set m s a ch = Inr (OF_ERROR_NONE, s') \<and> member_bind m s' a tmp = Inr s'' \<and>
     consistent_family s'' r w' b' (tmp # a # as) \<and> cells s'' tmp = Some t \<and> object_bytes (cell_in w' t) = Inr xs \<and>
     cell_id t = child_class m \<and> cell_offset t = cell_offset c + n"
proof -
  note m = list_memberD [OF assms(1)]
  have f: "family s r w b (a # as)" "ends_together s w (a # as)" "\<forall>d\<in>set (chain_cells s (a # as)). wire_length_agrees b d"
    using assms(2) by (simp_all add: consistent_family_def)
  obtain r' wi where i: "cell_buf cc = Some r'" "r' \<noteq> r" "bufs s r' = Some wi" "object_bytes (cell_in wi cc) = Inr xs"
    using assms(6,9) by (auto simp: item_bytes_def)
  obtain s' w' b' where s': "member_set m s a ch = Inr (OF_ERROR_NONE, s')" "family s' r w' b' (a # as)" "ends_together s' w' (a # as)"
    "\<forall>d\<in>set (chain_cells s' (a # as)). wire_length_agrees b' d"
    "chain_cells s' (a # as) = map (longer (n + int (length xs) - cell_length c)) (chain_cells s (a # as))"
    "drop (nat (cell_offset c + n)) (wbuf_data w') = xs"
    by (rule member_set_end [OF f assms(3,4) m(1) m(6) [OF assms(4)] assms(5,6) i assms(7,8,10)])
  let ?c = "longer (n + int (length xs) - cell_length c) c"
  obtain c' where c': "cells s' a = Some c'" "chain_cells s' (a # as) = c' # chain_cells s' as" "cell_offset c' + cell_length c' \<le> current_bytes w'"
    "0 \<le> cell_offset c'"
    by (rule familyD [OF s'(2)])
  then have cc: "cells s' a = Some ?c"
    using s'(5) assms(3) by (simp add: chain_cells_def)
  have ends: "ends_at m ?c n"
    using assms(4,11) by (simp add: ends_at_def)
  let ?s = "s'\<lparr>cells := (cells s')(tmp \<mapsto> bound_cell m a ?c n)\<rparr>"
  have bind: "member_bind m s' a tmp = Inr ?s"
    using member_bind_end [OF s'(2) cc ends m(2) m(5) [OF ends]] assms(12) by auto
  note fb = family_bind [OF s'(2) cc ends m(6) [OF assms(4)] m(3,4) assms(12,13)]
  have "consistent_family ?s r w' b' (tmp # a # as)"
    using fb(1) fb(3) [OF s'(3)] s'(4) bound_no_length [OF m(3,4)] unfolding consistent_family_def fb(2)
    by (simp add: wire_length_agrees_def)
  moreover have "object_bytes (cell_in w' (bound_cell m a ?c n)) = Inr xs"
  proof -
    let ?p = "cell_offset c + n"
    have d: "wbuf_buf w' = Some b'" "current_bytes w' \<le> int (length b')" "?p + int (length xs) = current_bytes w'" "0 \<le> ?p"
      using family_data [OF s'(2)] s'(3) cc c'(2,4) c'(1) m(6) [OF assms(4)]
      by (auto simp: ends_together_def elim!: wbuf_wfE)
    have "take (length xs) (drop (nat ?p) b') = drop (nat ?p) (take (nat (current_bytes w')) b')"
      using d(3) [symmetric] d(4) by (simp add: drop_take nat_add_distrib)
    then show ?thesis
      using s'(6) d by (simp add: object_bytes_def bound_cell_def rd_block_def wbuf_data_def)
  qed
  ultimately show ?thesis
    using s'(1) bind by (intro exI [of _ s'] exI [of _ ?s] exI [of _ w'] exI [of _ b'] exI [of _ "bound_cell m a ?c n"])
      (simp add: bound_cell_def)
qed

text \<open>The list of actions of the instruction set to one action.\<close>

definition sample_set_store :: store where
  "sample_set_store = sample_store\<lparr>cells := (cells sample_store)(4 \<mapsto> \<lparr>cell_buf = Some 11, cell_parent = None, cell_offset = 0,
     cell_id = OF_LIST_ACTION, cell_length = 8, cell_version = 4\<rparr>)\<rparr>"

lemma sample_single: "consistent_family sample_set_store 10 sample_instruction ([0, 4, 0, 8, 0, 0, 0, 0] @ replicate 8 0) [1]"
proof -
  have "buf_u16_get ([0, 4, 0, 8, 0, 0, 0, 0] @ replicate 8 0) 2 = Inr 8"
    by code_simp
  then show ?thesis
    by (simp add: consistent_family_def ends_together_def wire_length_agrees_def family_def chain_cells_def sample_set_store_def sample_store_def
        sample_instruction_def sizable_def length_at_def sample_rows wbuf_wf_def MAX_PARENT_ITERATIONS_def)
qed

lemma list_member_set_bind_witness:
  "\<exists>s' s'' w' b' t. member_set of_instruction_apply_actions_actions sample_set_store 1 4 = Inr (OF_ERROR_NONE, s') \<and>
     member_bind of_instruction_apply_actions_actions s' 1 2 = Inr s'' \<and> consistent_family s'' 10 w' b' [2, 1] \<and>
     object_bytes (cell_in w' t) = Inr [0, 24, 0, 8, 0, 0, 0, 0] \<and> cell_offset t = 8"
proof -
  let ?m = "of_instruction_apply_actions_actions" and ?s = sample_set_store
  let ?c = "\<lparr>cell_buf = Some 10, cell_parent = None, cell_offset = 0, cell_id = OF_INSTRUCTION_APPLY_ACTIONS, cell_length = 8, cell_version = 4\<rparr>"
  let ?cc = "\<lparr>cell_buf = Some 11, cell_parent = None, cell_offset = 0, cell_id = OF_LIST_ACTION, cell_length = 8, cell_version = 4\<rparr>"
  have "?m \<in> set object_members"
    by (simp add: object_members_def)
  then have m: "?m \<in> set list_members"
    by (simp add: list_members_def) (simp add: of_instruction_apply_actions_actions_def)
  have c: "cells ?s 1 = Some ?c" "ends_at ?m ?c 8" "lengths_before ?s [1] (cell_offset ?c + 8)"
    by (simp_all add: sample_set_store_def sample_store_def ends_at_def of_instruction_apply_actions_actions_def lengths_before_def
        chain_cells_def length_at_def sample_rows)
  have ch: "cells ?s 4 = Some ?cc" "item_bytes ?s 10 4 [0, 24, 0, 8, 0, 0, 0, 0]"
    by (simp_all add: sample_set_store_def sample_store_def item_bytes_def object_bytes_def sample_action_def rd_block_def)
  have room: "cell_offset ?c + 8 + int (length ([0, 24, 0, 8, 0, 0, 0, 0] :: byte list)) \<le> alloc_bytes sample_instruction"
    by (simp add: sample_instruction_def)
  show ?thesis
    using list_member_set_bind [OF m sample_single c ch(1) _ _ ch(2) room, of 2] by (auto simp: MAX_PARENT_ITERATIONS_def)
qed

subsection \<open>Byte strings\<close>

text \<open>C16: Setting an empty byte string that ends an object, when there is room: the bytes are there, the getter points to them and
  says how many they are, and in the object and its ancestors every length, kept and on the wire, is right again. The place of
  the string in its object is a fixed one (\<open>ends_at\<close>), which leaves out the data of a packet-in or packet-out behind a match or
  actions.\<close>

theorem octets_member_set_get:
  assumes "consistent_family s r w b (a # as)" and "cells s a = Some c" and "ends_at m c n" and "n = cell_length c" and "xs \<noteq> []" and "length xs < 65536"
    and "current_bytes w + int (length xs) \<le> alloc_bytes w"
  shows "\<exists>s' w' b' c'. octets_member_set m s a xs = Inr (OF_ERROR_NONE, s') \<and> consistent_family s' r w' b' (a # as) \<and> cells s' a = Some c' \<and>
     octets_member_get m (cell_in w' c') = Inr (cell_offset c + n, int (length xs)) \<and>
     rd_block b' (cell_offset c + n) (length xs) = Inr xs"
proof -
  have f: "family s r w b (a # as)" "ends_together s w (a # as)" "\<forall>d\<in>set (chain_cells s (a # as)). wire_length_agrees b d"
    using assms(1) by (simp_all add: consistent_family_def)
  have c: "cell_buf c = Some r" "bufs s r = Some w" "wbuf_wf w" "wbuf_buf w = Some b" "0 \<le> cell_offset c" "0 \<le> cell_length c"
    by (rule familyD [OF f(1)]; use assms(2) in simp)+
  let ?n = "int (length xs)" and ?p = "current_bytes w"
  have fin: "cell_offset c + cell_length c = ?p"
    using f(2) assms(2) by (simp add: ends_together_def chain_cells_def)
  have p: "0 \<le> ?p" "?p + ?n \<le> int (length b)"
    using family_data [OF f(1)] assms(7) by simp_all
  obtain b1 where b1: "of_wire_buffer_grow (Some w) (?p + ?n) = Inr (w\<lparr>current_bytes := max ?p (?p + ?n), wbuf_buf := Some b1\<rparr>)"
    "wr_block b1 ?p xs = Inr (overwrite b ?p xs)"
    by (rule grow_and_write [OF c(3,4) p(1) order_refl assms(7)])
  let ?w = "w\<lparr>current_bytes := ?p + ?n, wbuf_buf := Some (overwrite b ?p xs)\<rparr>"
  let ?s = "s\<lparr>bufs := (bufs s)(r \<mapsto> ?w)\<rparr>"
  have put: "put_object s a c (cell_in v c) = s\<lparr>bufs := (bufs s)(r \<mapsto> v)\<rparr>" for v
    using assms(2) c(1) by (auto intro!: store.equality simp: put_object_def fun_eq_iff)
  have q: "lengths_before s (a # as) ?p"
    using f(1) by (simp add: family_def lengths_before_def)
  let ?t = "resized s r w b (a # as) ?p xs"
  have e: "cell_offset c + n = ?p" "cell_length c - n = 0" "\<not> xs = []" "0 < ?p + ?n"
    using assms(4,5) fin p(1) by (simp_all add: add_nonneg_pos)
  have set: "on_object s a (\<lambda>obj. bnd (of_wire_buffer_grow (wbuf obj) (?p + ?n)) (\<lambda>w.
       bnd (of_wire_buffer_octets_data_set (Some w) ?p xs 0) (\<lambda>w. Inr (obj\<lparr>wbuf := Some w\<rparr>)))) = Inr ?s"
    using b1 put e by (simp add: on_object_in [OF assms(2) c(1,2)] of_wire_buffer_octets_data_set_def access_check_def buf_octets_set_def)
  have upd: "of_object_parent_length_update ?s a ?n = Inr ?t"
    using update_resized [OF f(1,2) q p(1) assms(7)] by simp
  have run: "octets_member_set m s a xs = Inr (OF_ERROR_NONE, ?t)"
    using set upd resized_check [OF f(1,2)] e
    by (simp add: octets_member_set_def with_object_in [OF assms(2) c(1,2)] at_member_end [OF assms(3)])
  have o: "cell_offset (hd (chain_cells s (a # as))) \<le> ?p"
    using assms(2) fin c(6) by (simp add: chain_cells_def)
  define b' where "b' = put_lengths (map (longer ?n) (chain_cells s (a # as))) (overwrite b ?p xs)"
  define w' where "w' = w\<lparr>current_bytes := ?p + ?n, wbuf_buf := Some b'\<rparr>"
  note rf = resized_family [OF f(1,2) q p(1) order_refl order_refl assms(7) o, simplified add_diff_cancel_left', folded b'_def, folded w'_def]
  have fam: "consistent_family ?t r w' b' (a # as)"
    using rf(1,2,4) by (simp add: consistent_family_def)
  have c': "cells ?t a = Some (longer ?n c)"
    using assms(2) by (simp add: resized_def lengthen_def)
  have ends: "ends_at m (longer ?n c) n"
    using assms(3,4,6) by (simp add: ends_at_def)
  have w': "wbuf_buf w' = Some b'" "current_bytes w' = ?p + ?n"
    by (simp_all add: w'_def)
  have par: "cell_parent c = None \<Longrightarrow> cell_length c = ?p"
    by (rule familyD [OF f(1)]; use assms(2) in simp)
  then have "octets_member_get m (cell_in w' (longer ?n c)) = Inr (cell_offset c + n, ?n)"
    using w' e assms(4) by (cases "cell_parent c") (auto simp: octets_member_get_def at_member_end [OF ends] OF_LENGTH_CHECK_ASSERT_def c_assert_def Let_def)
  moreover have "rd_block b' ?p (length xs) = Inr xs"
  proof -
    have "?p + ?n \<le> int (length b')"
      using family_data [OF rf(1)] rf(1) w'(2) by (auto simp: family_def elim: wbuf_wfE)
    moreover have "take (length xs) (drop (nat ?p) b') = drop (nat ?p) (take (nat (?p + ?n)) b')"
      using p(1) by (simp add: drop_take nat_add_distrib)
    ultimately show ?thesis
      using rf(5) w' p(1) by (simp add: rd_block_def wbuf_data_def)
  qed
  ultimately show ?thesis
    using run fam c' e(1) by (intro exI [of _ ?t] exI [of _ w'] exI [of _ b'] exI [of _ "longer ?n c"]) simp
qed

text \<open>The payload of an empty echo request.\<close>

definition sample_echo :: wire_buffer where
  "sample_echo = \<lparr>wbuf_buf = Some ([4, 2, 0, 8, 0, 0, 0, 1] @ replicate 8 0), alloc_bytes = 16, current_bytes = 8\<rparr>"

definition echo_cell :: "int \<Rightarrow> cell" where
  "echo_cell n = \<lparr>cell_buf = Some 10, cell_parent = None, cell_offset = 0, cell_id = OF_ECHO_REQUEST, cell_length = n, cell_version = 4\<rparr>"

definition sample_echo_store :: store where
  "sample_echo_store = \<lparr>cells = [1 \<mapsto> echo_cell 8], bufs = [10 \<mapsto> sample_echo]\<rparr>"

lemma echo_row: "map_of metadata_table OF_ECHO_REQUEST = Some \<lparr>wire_length_getter = Some MessageLen, wire_length_setter = Some MessageLen,
     wire_type_getter = None, wire_type_setter = wire_types of_echo_request_class\<rparr>"
  unfolding metadata_table_def map_of_append map_add_def metadata_rows
  by (simp add: map_of_Cons_code del: map_of.simps cong: map_of_freeze)

lemmas sample_echo_defs = sample_echo_store_def sample_echo_def echo_cell_def

lemma echo_ends: "8 \<le> n \<Longrightarrow> n < 65536 \<Longrightarrow> ends_at of_echo_request_data (echo_cell n) 8"
  by (simp add: ends_at_def of_echo_request_data_def echo_cell_def)

lemma octets_member_set_get_witness:
  "\<exists>s' w' b' c'. octets_member_set of_echo_request_data sample_echo_store 1 [104, 105] = Inr (OF_ERROR_NONE, s') \<and>
     consistent_family s' 10 w' b' [1] \<and> cells s' 1 = Some c' \<and> octets_member_get of_echo_request_data (cell_in w' c') = Inr (8, 2) \<and>
     rd_block b' 8 2 = Inr [104, 105]"
proof -
  have "buf_u16_get ([4, 2, 0, 8, 0, 0, 0, 1] @ replicate 8 0) 2 = Inr 8"
    by code_simp
  then have f: "consistent_family sample_echo_store 10 sample_echo ([4, 2, 0, 8, 0, 0, 0, 1] @ replicate 8 0) [1]"
    by (simp add: consistent_family_def ends_together_def wire_length_agrees_def family_def chain_cells_def sample_echo_defs
        sizable_def length_at_def echo_row wbuf_wf_def MAX_PARENT_ITERATIONS_def)
  have "cells sample_echo_store 1 = Some (echo_cell 8)" "current_bytes sample_echo + int (length ([104, 105] :: byte list)) \<le> alloc_bytes sample_echo"
    by (simp_all add: sample_echo_store_def sample_echo_def)
  from octets_member_set_get [OF f this(1) echo_ends _ _ _ this(2)] show ?thesis
    by (simp add: echo_cell_def numeral_2_eq_2)
qed

lemma grow_total:
  assumes "wbuf_wf w"
  shows "of_wire_buffer_grow (Some w) x = Inl AssertFail \<or> (\<exists>w'. of_wire_buffer_grow (Some w) x = Inr w')"
proof (cases "current_bytes w < x \<and> x \<le> alloc_bytes w")
  case True
  obtain b where b: "wbuf_buf w = Some b" "0 \<le> current_bytes w" "alloc_bytes w \<le> int (length b)"
    by (rule wbuf_wfE [OF assms])
  have "current_bytes w + int (length (replicate (nat (x - current_bytes w)) (0 :: byte))) \<le> int (length b)"
    using True b by simp
  from wr_block_overwrite [OF b(2) this] show ?thesis
    using True b(1) by (simp add: of_wire_buffer_grow_def)
next
  case False
  then show ?thesis
    by (auto simp: of_wire_buffer_grow_def c_assert_def)
qed

text \<open>C39: A byte string that is not empty can only be set to one of its own length: any other aborts the process, through an
  assertion in \<^verbatim>\<open>of_wire_buffer_octets_data_set\<close> that a comment there asks to replace. As in C16, of strings with a
  fixed place.\<close>

theorem octets_member_never_resized:
  assumes "family s r w b (a # as)" and "cells s a = Some c" and "ends_at m c n"
    and "n < cell_length c" and "int (length xs) \<noteq> cell_length c - n"
  shows "octets_member_set m s a xs = Inl AssertFail"
proof -
  have c: "cell_buf c = Some r" "bufs s r = Some w" "wbuf_wf w" "wbuf_buf w = Some b" "cell_offset c + cell_length c \<le> current_bytes w"
    by (rule familyD [OF assms(1)]; use assms(2) in simp)+
  let ?x = "cell_offset c + n + (int (length xs) - (cell_length c - n))"
  have "of_wire_buffer_grow (Some w) ?x = Inl AssertFail \<or> (\<exists>w'. of_wire_buffer_grow (Some w) ?x = Inr w')"
    by (rule grow_total [OF c(3)])
  moreover have "of_wire_buffer_octets_data_set (Some w') (cell_offset c + n) xs (cell_length c - n) = Inl AssertFail" for w'
    using assms(4,5) by (simp add: of_wire_buffer_octets_data_set_def)
  ultimately show ?thesis
    by (auto simp: octets_member_set_def with_object_in [OF assms(2) c(1,2)] at_member_end [OF assms(3)] on_object_in [OF assms(2) c(1,2)] Let_def)
qed

text \<open>The payload of the echo request with two bytes cannot be made three.\<close>

definition sample_echoed :: wire_buffer where
  "sample_echoed = \<lparr>wbuf_buf = Some ([4, 2, 0, 10, 0, 0, 0, 1, 104, 105] @ replicate 6 0), alloc_bytes = 16, current_bytes = 10\<rparr>"

lemma octets_member_never_resized_witness:
  "octets_member_set of_echo_request_data \<lparr>cells = [1 \<mapsto> echo_cell 10], bufs = [10 \<mapsto> sample_echoed]\<rparr> 1 [104, 105, 33] = Inl AssertFail"
proof -
  let ?s = "\<lparr>cells = [1 \<mapsto> echo_cell 10], bufs = [10 \<mapsto> sample_echoed]\<rparr>"
  have f: "family ?s 10 sample_echoed ([4, 2, 0, 10, 0, 0, 0, 1, 104, 105] @ replicate 6 0) [1]"
    by (simp add: family_def chain_cells_def echo_cell_def sample_echoed_def sizable_def length_at_def echo_row wbuf_wf_def MAX_PARENT_ITERATIONS_def)
  have "cells ?s 1 = Some (echo_cell 10)"
    by simp
  from octets_member_never_resized [OF f this echo_ends] show ?thesis
    by (simp add: echo_cell_def)
qed

end
