(* ===== verification/Spec2Isabelle.thy ===== *)
theory Spec2Isabelle
  imports Program Constructors MemberProps
begin

section \<open>mproxy, a proxy that misbehaves by the book\<close>

text \<open>
  mproxy sits between OpenFlow switches and their controller. It accepts a switch's connection, opens one
  to the controller, and passes the messages of both directions on, except where a profile of attack
  rules says to drop messages or to send them several times. This library models the program of
  \<^verbatim>\<open>src/mproxy/src\<close> and the parts of the OpenFlow library of \<^verbatim>\<open>src/mproxy/inc/loci\<close> it runs.

  \<^bold>\<open>How the parts interact.\<close> \<^verbatim>\<open>main\<close> reads its options (theory \<open>Cmdline\<close>); a profile option reads a file line by
  line (\<open>Profile\<close>) through a growing buffer (\<open>Stream\<close>), splits each line (\<open>Csv\<close>), parses the rule's arguments
  (\<open>Args\<close>), looks names up (\<open>Aliases\<close>) and writes the two tables of the rules (\<open>Rules\<close>). The listener
  (\<open>Proxy\<close>) makes a pair of clients (\<open>Client\<close>) for each connection, each with a thread of its own
  (\<open>Lifecycle\<close>). A client's read handler (\<open>Flow\<close>) collects bytes in a stream, cuts them into messages and gives
  each to \<^verbatim>\<open>action_inject\<close> (\<open>Action\<close>), which consults the tables, and passes a message on by making an OpenFlow
  object of it (\<open>Object\<close>): the message is validated (\<open>Validate\<close>, \<open>Validator10\<close> to \<open>Validator14\<close>,
  \<open>Validator\<close>) and given an object id (\<open>ObjectIds\<close>, \<open>Dispatch\<close>), on raw bytes (\<open>WireBuf\<close>, \<open>Message\<close>).

  \<^bold>\<open>Conventions.\<close> \<open>Prelude\<close> has the memory model: a C block is a list, an access outside it is the value
  \<open>Inl OutOfBounds\<close> of the result type \<open>res\<close>; so are null and dangling pointers, unset members, failed
  assertions, undefined arithmetic and loops that do not end. A theorem that gives \<open>Inr\<close> therefore says that the
  code neither faults nor hangs. Machine integers are words, or \<open>int\<close> where the code's type is \<open>int\<close>
  and the values are small by the text. The allocator is an argument: a reply that grants or refuses and says what fresh
  memory holds. So are the answers of the kernel, of \<open>rand()\<close>, of the file system and of libevent; what is assumed
  of libevent is \<open>libevent_ok\<close> and \<open>delivers\<close> (theory \<open>Flow\<close>), met by \<open>sample_libevent\<close>.
\<close>

subsection \<open>Theories and source files\<close>

text \<open>
  \<^item> \<open>Stream\<close>: \<^verbatim>\<open>stream.c\<close>. Growth, append and left shift refine operations on the list of the contents; the locale
    \<open>sink\<close> is what readers and writers of a buffer need of it. The shift's \<^verbatim>\<open>memcpy\<close> overlaps when it keeps more
    than it drops; the model has a mode for it (\<open>IsoC\<close> faults, \<open>AsMemmove\<close> copies).
  \<^item> \<open>Args\<close>, \<open>Csv\<close>: \<^verbatim>\<open>args.c\<close>, \<^verbatim>\<open>csv.c\<close>. In-place parsers over a block; parsing what was printed gives
    the values back; the inputs on which they leave their buffer.
  \<^item> \<open>Aliases\<close>, \<open>Rules\<close>, \<open>RuleDoc\<close>, \<open>Profile\<close>: \<^verbatim>\<open>attack.c\<close>. The name tables and their look-up; one rule; a whole
    profile. The abstraction of the two tables is a \<open>policy\<close>, from version and type to a percentage and a count;
    the locale \<open>grid\<close> has the laws of the tables. \<open>RuleDoc\<close> is the specification: what a row of a profile means by
    \<^verbatim>\<open>doc/attack_list.md\<close> (\<open>row_denotes\<close>) and what its rule does to the policy (\<open>apply_rule\<close>), with message types of its own,
    and which of these the code honours (\<open>rule_honoured\<close>). Reading a profile of such rules applies them, in order, to the policy; of the
    others it is shown where the code leaves the documentation.
  \<^item> \<open>WireBuf\<close>, \<open>Message\<close>: \<^verbatim>\<open>of_buffer.h\<close>, \<^verbatim>\<open>of_wire_buf.h\<close>, \<^verbatim>\<open>of_wire_buf.c\<close>, \<^verbatim>\<open>of_message.h\<close>. Scalar
    accessors on both kinds of machine are big-endian ones (locale \<open>scalar\<close>), checked accessors, growing and splicing.
  \<^item> \<open>Validate\<close>, \<open>Validator10\<close> to \<open>Validator14\<close>, \<open>Validator\<close>: \<^verbatim>\<open>loci_validator.c\<close>, one definition per C
    function, made of combinators for the few shapes their bodies have. The contract \<open>v_ok\<close> (inside the message,
    a consumed length within the given one, no dependence on other bytes) is proved of each combinator and so of each
    function; the locale \<open>list_element\<close> lifts it to lists, \<open>recursive_validator\<close> to the recursion of the \<^verbatim>\<open>bsn_tlv\<close>
    validators. These run on fuel, the length of the object plus one, which is enough since each turn or call consumes a byte.
  \<^item> \<open>ObjectIds\<close>, \<open>Dispatch\<close>, \<open>Object\<close>: the id getters of \<^verbatim>\<open>class00.c\<close> to \<^verbatim>\<open>class04.c\<close>,
    \<^verbatim>\<open>of_type_maps.c\<close>, \<^verbatim>\<open>of_object.c\<close>. After validation every id getter stays in the message and gives an id its
    version has; making an object of a message therefore never faults. Iteration over lists ends.
  \<^item> \<open>ClassIds\<close>, \<open>FieldAccess\<close>, \<open>Accessors\<close>: the getters and setters of fields at a fixed offset in
    \<^verbatim>\<open>class00.c\<close> to \<^verbatim>\<open>class19.c\<close>. Each pair is an \<open>accessor\<close>: \<open>field_get\<close> and \<open>field_set\<close> with
    the class, the offset in each version and an accessor of the wire buffer. The locale \<open>wire_field\<close> is what such an accessor
    promises, interpreted on each kind; in a well-formed object (\<open>obj_wf\<close>), such as one made of a validated message, every
    field then lies in the object, reads back as written and is independent of the others.
  \<^item> \<open>Construct\<close>, \<open>ClassLists\<close>, \<open>Fresh\<close>, \<open>Constructors\<close>: \<open>of_X_new\<close>, \<open>of_X_init\<close> and
    \<open>of_X_push_wire_types\<close> of all classes, in the class files and \<^verbatim>\<open>of_list_*.c\<close>, and the lengths on the wire of
    \<^verbatim>\<open>of_type_maps.c\<close>. A \<open>wire_class\<close> is what differs between classes, \<open>class_new\<close> the rest. A constructor gives a well-formed
    object whose bytes are known; the validator and the id getter, run on what is known of them, accept every new message and
    give it its class.
  \<^item> \<open>Class00\<close> to \<open>Class19\<close>: the \<open>wire_class\<close> of each class and the \<open>accessor\<close> of each field, in the order of the
    source, one theory per file, with the table of each and the check that its offsets and wire types lie in the objects.
  \<^item> \<open>ElementIds\<close>, \<open>Elements\<close>: the id getters of actions, instructions, OXM fields, properties and other parts of
    messages, and that each gives an accepted part of its version a class whose fixed fields fit it.
  \<^item> \<open>ListIter\<close>, \<open>ListClasses\<close>, \<open>ListProps\<close>: the iterators of \<^verbatim>\<open>of_list_*.c\<close>. A \<open>list_class\<close> is what differs
    between the files: the class of the elements, the getters of an element's id and length. The loop of the iteration macros
    runs on fuel, the length of the list plus one, which is enough since each element takes a byte. Over a list the validator
    has accepted an iteration visits the elements the validator cut it into; lists of OXM fields are the exception.
  \<^item> \<open>Metadata\<close>, \<open>Family\<close>, \<open>ListAppend\<close>: \<^verbatim>\<open>loci_class_metadata.c\<close> and the functions of \<^verbatim>\<open>of_object.c\<close> that
    follow the pointer to the parent. Objects and wire buffers are in a \<open>store\<close>; an object and its ancestors in one buffer are a
    \<open>family\<close>, \<open>consistent_family\<close> says that every length, kept or on the wire, is right. Appending to the last list of a
    message adds an element to its iteration and keeps the family consistent; elsewhere it aborts. The update of lengths runs on the
    code's own bound on the number of ancestors.
  \<^item> \<open>Members\<close>, \<open>MemberTables\<close>, \<open>MemberProps\<close>: the accessors of byte strings and of embedded objects in the class
    files. A \<open>var_member\<close> is what differs between them: the classes, the place and the extent in each version. Setting a member at
    the end of its object and binding or getting it again gives what was set, in a consistent family.
  \<^item> \<open>Action\<close>, \<open>Flow\<close>: \<^verbatim>\<open>action.c\<close>, \<^verbatim>\<open>on_flow_read\<close> of \<^verbatim>\<open>proxy.cpp\<close>. The abstract handler cuts the byte stream
    (\<open>cut\<close>) and sends what the policy makes of each message (\<open>fate\<close>); the code refines it on every stream of messages
    it survives (\<open>survivable\<close>), and a \<open>fatal_msg\<close> crashes it. The message loop needs no fuel: each turn moves on by the
    message's length, which is not 0.
  \<^item> \<open>Client\<close>, \<open>Proxy\<close>, \<open>Lifecycle\<close>: \<^verbatim>\<open>client.cpp\<close>, \<^verbatim>\<open>start_listen\<close> and \<^verbatim>\<open>start_client_thread\<close> of
    \<^verbatim>\<open>proxy.cpp\<close>, the cleanup of \<^verbatim>\<open>main.cpp\<close>. The shared state is a heap of clients, the descriptor map and the open
    descriptors. The threads of the program run without a lock. \<open>serial_step\<close> is the idealisation in which a request, a read and
    the end of a client are each taken as a whole, one after the other; \<open>world_inv\<close> is the invariant of these serial
    executions and of nothing more. The destructor's five pieces are also modelled alone, and two interleavings of
    them that leave the serial executions, and the invariant, are shown.
  \<^item> \<open>Cmdline\<close>: the option loop of \<^verbatim>\<open>main.cpp\<close>, the two socket initialisers of \<^verbatim>\<open>proxy.cpp\<close>. A printed command line
    is parsed back into the settings its options are documented to make (\<open>opt_effect\<close>), where no host is shorter than the one
    it replaces.
  \<^item> \<open>Program\<close>: \<open>main\<close> of \<^verbatim>\<open>main.cpp\<close> as a whole and the proxy object of \<^verbatim>\<open>proxy.cpp\<close>. The record \<open>answers\<close> holds what
    the system answers to the calls \<open>main\<close> makes; the accept loop takes its events as a list. The end of this theory
    follows a command line through options, profile and sockets to the clients that are started.
\<close>

subsection \<open>Not modelled\<close>

text \<open>
  The accessors of matches and the match conversion of the OpenFlow library, and its printing code: the proxy calls none of them
  outside debug builds. Deallocation has no effect on the state but for clients, whose use
  after it is a fault. Log output, the usage text and the waiting for threads that have ended are left out. \<^verbatim>\<open>delayer.c\<close> is empty; \<^verbatim>\<open>useless\<close> and \<^verbatim>\<open>archive\<close> are not compiled. The parameters of type \<open>'e\<close> and \<open>'v\<close>
  are libevent's buffers and events, of which the sources give no definition.
\<close>

subsection \<open>From the profile to the wire\<close>

text \<open>C2: The profile governs what is sent. After a profile written from a list of lines has been read into
  the empty tables, one run of the read handler sends the partner exactly what the rules of the
  profile, with the effect they are documented to have and applied from the first to the last, make of the complete messages
  that have come in, in their order. As in C5, the rules are those the code honours: \<open>line_ok\<close> leaves out DUP rules with
  \<open>r = 0\<close> or \<open>r\<close> above 256 and the types of 1.3 and 1.4 that the tables of aliases misplace.\<close>

theorem profile_governs_forwarding:
  assumes "\<forall>l\<in>set ls. line_ok l" and "one_line heading"
    and "granted h0" and "\<forall>k. granted (h k)" and "\<forall>n k. mc n k" and "\<forall>n k. ma n k"
    and "libevent_ok L pending input output" and "\<And>k. env_granted (env k)" and "granted hx"
    and "forwards pending input output w c f held inb out gone"
    and "cut (held @ inb) = (ms, rest, False)"
    and "P = fold apply_rule (concat (map line_rules ls)) (policy_of init_tables)" and "all_survivable P env 0 ms"
  shows "\<exists>T w'. attacker_read_rows True h0 h mc ma init_tables (Some (file_text (heading # map line_text ls))) = Inr T \<and>
    on_flow_read L LittleEndian AsMemmove T hx env c w = Inr w' \<and>
    forwards pending input output w' c f rest [] (out @ outputs P env 0 ms) gone"
proof -
  obtain T where T: "attacker_read_rows True h0 h mc ma init_tables (Some (file_text (heading # map line_text ls))) = Inr T"
    "tables_wf T" "policy_of T = P"
    using read_profile [OF assms(1,2) init_tables_wf assms(3-6)] assms(12) by blast
  have "\<exists>w'. on_flow_read L LittleEndian AsMemmove T hx env c w = Inr w' \<and>
      forwards pending input output w' c f (if False then held @ inb else rest) [] (out @ outputs (policy_of T) env 0 ms) (gone \<or> False)"
    by (rule forwards_read [OF assms(7) T(2) assms(8-11)]) (simp_all add: T(3) assms(13))
  then show ?thesis
    using T(1,3) by simp
qed

text \<open>A profile that drops 30 of 100 of the 1.0 packet-in messages, on a packet-in and a hello.\<close>

abbreviation sample_profile :: "profile_line list" where
  "sample_profile \<equiv> [RuleLine sample_cells [(''p'', ''30'')] (DropRule 1 10 30)]"

abbreviation packet_in_msg :: "byte list" where
  "packet_in_msg \<equiv> [1, 10, 0, 8, 0, 0, 0, 0]"

lemma sample_profile_policy:
  fixes P :: policy
  assumes "P = apply_rule (DropRule 1 10 30) (policy_of init_tables)"
  shows "P (0, 10) = (30, 0)" "P (0, 0) = (0, 0)"
proof -
  have "policy_of init_tables (0, 10) = (0, 0)" "policy_of init_tables (0, 0) = (0, 0)"
    by code_simp+
  moreover have "covers 1 10 0 10" "\<not> covers 1 10 0 0" "(0, 10) \<in> grid_cells"
    by (simp_all add: covers_def grid_cells_def)
  ultimately show "P (0, 10) = (30, 0)" "P (0, 0) = (0, 0)"
    using assms by simp_all
qed

lemma sample_survivable:
  assumes "P (0, 10) = (30, 0)" "P (0, 0) = (0, 0)"
  shows "all_survivable P (\<lambda>_. sample_env 7) 0 [packet_in_msg, hello_msg]"
    and "outputs P (\<lambda>_. sample_env 7) 0 [packet_in_msg, hello_msg] = hello_msg"
proof -
  have "valid_msg hello_msg"
    by code_simp
  then show "all_survivable P (\<lambda>_. sample_env 7) 0 [packet_in_msg, hello_msg]"
    and "outputs P (\<lambda>_. sample_env 7) 0 [packet_in_msg, hello_msg] = hello_msg"
    using assms by (simp_all add: survivable_def fate_def sample_env_def hello_msg_def)
qed

lemma profile_governs_forwarding_witness:
  "\<exists>T w'. attacker_read_rows True sample_reply (\<lambda>_. sample_reply) (\<lambda>_ _. True) (\<lambda>_ _. True) init_tables
       (Some (file_text (''id'' # map line_text sample_profile))) = Inr T \<and>
     on_flow_read sample_libevent LittleEndian AsMemmove T sample_grant (\<lambda>_. sample_env 7) 0
       (sample_world (packet_in_msg @ hello_msg @ [1])) = Inr w' \<and>
     forwards id fst snd w' 0 1 [1] [] hello_msg False"
proof -
  let ?P = "fold apply_rule (concat (map line_rules sample_profile)) (policy_of init_tables)"
  have c: "cut ([] @ packet_in_msg @ hello_msg @ [1]) = ([packet_in_msg, hello_msg], [1], False)"
    by code_simp
  have ok: "\<forall>l\<in>set sample_profile. line_ok l" "one_line ''id''" "granted sample_reply" "\<forall>k. granted ((\<lambda>_. sample_reply) k)"
    by (simp_all add: sample_line_ok one_line_def is_newline_def sample_reply_def del: line_ok.simps(1))
  have P: "?P (0, 10) = (30, 0)" "?P (0, 0) = (0, 0)"
    using sample_profile_policy [of ?P] by simp_all
  show ?thesis
    using profile_governs_forwarding [OF ok _ _ sample_libevent_ok sample_env_granted [of 7] sample_grant_ok
        sample_forwards c refl sample_survivable(1) [of ?P], of "\<lambda>_ _. True" "\<lambda>_ _. True"]
      sample_survivable(2) [OF P] P
    by (simp only: append_Nil simp_thms)
qed

subsection \<open>From the command line to the clients\<close>

text \<open>What a granting system answers: the profile is there, memory and sockets are granted, the target resolves.\<close>

definition grants_start :: "answers \<Rightarrow> string \<Rightarrow> string \<Rightarrow> string \<Rightarrow> string \<Rightarrow> bool" where
  "grants_start a file text0 host service \<longleftrightarrow>
     files a file = Some text0 \<and> got_stream a \<and> granted (first_reply a) \<and> (\<forall>k. granted (replies a k)) \<and>
     (\<forall>n k. got_row a n k) \<and> (\<forall>n k. got_args a n k) \<and> threads_rc a = 0 \<and> sigterm_ok a \<and> sigint_ok a \<and>
     sockets_ok a \<and> getaddrinfo a host service = 0"

lemma options_of_command_line:
  assumes n: "opt_ok (PortIs s n)" and m: "opt_ok (TargetIs h t m)" and f: "opt_ok (ProfileIs file)"
    and T: "parse_profile a file init_tables = Inr T"
    and name: "NUL \<notin> set name" "option_of name = NoOpt"
  shows "main_options (parse_profile a) (map c_arg (name # opt_args f1 (PortIs s n) @ opt_args f2 (TargetIs h t m) @
      opt_args f3 (ProfileIs file))) init_config =
    Inr (Go \<lparr>port = word_of_int n, fw_port = word_of_int m, fw_host = h @ drop (length h) init_fw_host, tables = T\<rparr>)"
proof -
  let ?xs = "[(f1, PortIs s n), (f2, TargetIs h t m), (f3, ProfileIs file)]"
  have "length (fw_host init_config) = 65"
    by code_simp
  moreover have "\<forall>(f, x)\<in>set ?xs. opt_ok x"
    using n m f by simp
  ultimately have "main_options (parse_profile a) (map c_arg (name # concat (map (\<lambda>(f, x). opt_args f x) ?xs))) init_config =
      bnd (opts_store (parse_profile a) (map snd ?xs) init_config) (\<lambda>cfg. Inr (Go cfg))"
    using main_options_printed [of ?xs init_config] match_word [OF name(2,1)] by (simp del: match_option.simps)
  then show ?thesis
    using T by (simp add: init_config_def)
qed

text \<open>C3: Started as \<^verbatim>\<open>mproxy -p PORT -t HOST:PORT -f PROFILE\<close>, in any form of the options, on a system that grants what it
  asks for, the program reads the profile, listens on the port, resolves the host and the decimal number of the target port, and its
  accept loop leaves, for clean requests, a consistent state with exactly the clients of the pairs it started; its tables
  hold the policy the profile's rules are documented to make, in their order. This is for hosts of 9 to 64 characters: a
  shorter one, which keeps the tail of the default host (C33), is not covered. The profile is one of C5: without DUP rules
  of \<open>r = 0\<close> or \<open>r\<close> above 256 and without the types of 1.3 and 1.4 that the tables of aliases misplace.\<close>

theorem main_serves:
  assumes "opt_ok (PortIs s n)" and "opt_ok (TargetIs h t m)" and "length DEFAULT_FW_HOST \<le> length h" and "opt_ok (ProfileIs file)"
    and "NUL \<notin> set name" and "option_of name = NoOpt"
    and "\<forall>l\<in>set ls. line_ok l" and "one_line heading"
    and "grants_start a file (file_text (heading # map line_text ls)) h (dec (nat m))"
    and "listen_ok evs (start_world (insert (socket_rc a) F))"
  shows "\<exists>cfg p ts w. main_run a (map c_arg (name # opt_args f1 (PortIs s n) @ opt_args f2 (TargetIs h t m) @
        opt_args f3 (ProfileIs file))) F evs = Inr (Go (cfg, p, ts, w)) \<and>
     policy_of (tables cfg) = fold apply_rule (concat (map line_rules ls)) (policy_of init_tables) \<and>
     uint (listening p) = n \<and> in_sock_fd p = socket_rc a \<and> out_host p = Some (h, dec (nat m)) \<and>
     world_inv w \<and> dom (objs w) = (\<Union>(c, d)\<in>set ts. {c, d})"
proof -
  obtain T where T: "parse_profile a file init_tables = Inr T"
    "policy_of T = fold apply_rule (concat (map line_rules ls)) (policy_of init_tables)"
    using read_profile [OF assms(7,8) init_tables_wf, of "first_reply a" "replies a" "got_row a" "got_args a"] assms(9)
    by (auto simp: parse_profile_def grants_start_def)
  let ?cfg = "\<lparr>port = word_of_int n, fw_port = word_of_int m, fw_host = h @ drop (length h) init_fw_host, tables = T\<rparr>"
  have nm: "0 \<le> n" "n \<le> 65535" "0 \<le> m" "m \<le> 65535"
    using assms(1,2) digits_val_nonneg [of 0] by (auto simp: number_def)
  have host: "c_string (fw_host ?cfg) 0 = Inr h"
    using host_string [of h] assms(2,3) by simp
  have service: "port_text (unat (fw_port ?cfg)) = dec (nat m)"
    using unat_port_number [OF nm(3,4)] port_text_dec [of "nat m"] nm(3,4) by simp
  have start: "main_start a (map c_arg (name # opt_args f1 (PortIs s n) @ opt_args f2 (TargetIs h t m) @
      opt_args f3 (ProfileIs file))) F = Inr (Go (?cfg, the_proxy a ?cfg h, start_world (insert (socket_rc a) F)))"
    using main_start_result [OF options_of_command_line [OF assms(1,2,4) T(1) assms(5,6)] host] service assms(9)
    by (simp add: grants_start_def)
  obtain ts w where w: "start_listen evs (start_world (insert (socket_rc a) F)) = Inr (ts, w)" "world_inv w"
    "dom (objs w) = (\<Union>(c, d)\<in>set ts. {c, d})"
    using start_listen_consistent [OF assms(10) start_world_inv] by (auto simp: start_world_def)
  have "main_run a (map c_arg (name # opt_args f1 (PortIs s n) @ opt_args f2 (TargetIs h t m) @
      opt_args f3 (ProfileIs file))) F evs = Inr (Go (?cfg, the_proxy a ?cfg h, ts, w))"
    unfolding main_run_def start by (simp add: w(1))
  moreover have "uint (listening (the_proxy a ?cfg h)) = n"
    using uint_bound_port [OF nm(1,2)] by (simp add: the_proxy_def)
  moreover have "in_sock_fd (the_proxy a ?cfg h) = socket_rc a" "out_host (the_proxy a ?cfg h) = Some (h, dec (nat m))"
    using service by (simp_all add: the_proxy_def)
  ultimately show ?thesis
    using T(2) w(2,3) by (intro exI conjI) (assumption | simp)+
qed

definition sample_answers :: "answers" where
  "sample_answers = \<lparr>files = (\<lambda>f. if f = ''a.csv'' then Some (file_text (''id'' # map line_text sample_profile)) else None),
     got_stream = True, first_reply = sample_reply, replies = (\<lambda>_. sample_reply), got_row = (\<lambda>_ _. True),
     got_args = (\<lambda>_ _. True), threads_rc = 0, sigterm_ok = True, sigint_ok = True, socket_rc = 3, setsockopt_rc = 0,
     bind_rc = 0, listen_rc = 0, getaddrinfo = (\<lambda>_ _. 0)\<rparr>"

lemma main_serves_witness:
  "\<exists>cfg p ts w. main_run sample_answers (map c_arg (''mproxy'' # opt_args Short (PortIs ''80'' 80) @
      opt_args WithEq (TargetIs ''localhost'' ''99'' 99) @ opt_args Short (ProfileIs ''a.csv''))) {}
      [\<lparr>sock_valid = True, accepted = Some sample_request\<rparr>, \<lparr>sock_valid = False, accepted = None\<rparr>] = Inr (Go (cfg, p, ts, w)) \<and>
    policy_of (tables cfg) (0, 10) = (30, 0) \<and> uint (listening p) = 80 \<and> out_host p = Some (''localhost'', ''99'') \<and> world_inv w"
proof -
  have n: "opt_ok (PortIs ''80'' 80)" "opt_ok (TargetIs ''localhost'' ''99'' 99)" "opt_ok (ProfileIs ''a.csv'')"
    by code_simp+
  have h: "length DEFAULT_FW_HOST \<le> length ''localhost''" "NUL \<notin> set ''mproxy''" "option_of ''mproxy'' = NoOpt"
      "dec (nat 99) = ''99''"
    by code_simp+
  have ls: "\<forall>l\<in>set sample_profile. line_ok l" "one_line ''id''" "granted sample_reply"
    by (simp_all add: sample_line_ok one_line_def is_newline_def sample_reply_def del: line_ok.simps(1))
  then have g: "grants_start sample_answers ''a.csv'' (file_text (''id'' # map line_text sample_profile)) ''localhost'' (dec (nat 99))"
    by (simp add: grants_start_def sample_answers_def sockets_ok_def del: line_text.simps)
  have l: "listen_ok [\<lparr>sock_valid = True, accepted = Some sample_request\<rparr>, \<lparr>sock_valid = False, accepted = None\<rparr>]
      (start_world (insert (socket_rc sample_answers) {}))"
    using sample_request_ok(1)
    by (simp add: accept_fresh_def start_world_def sample_request_def sample_answers_def split: sum.split prod.split)
  obtain cfg p ts w where "main_run sample_answers (map c_arg (''mproxy'' # opt_args Short (PortIs ''80'' 80) @
      opt_args WithEq (TargetIs ''localhost'' ''99'' 99) @ opt_args Short (ProfileIs ''a.csv''))) {}
      [\<lparr>sock_valid = True, accepted = Some sample_request\<rparr>, \<lparr>sock_valid = False, accepted = None\<rparr>] = Inr (Go (cfg, p, ts, w))"
    and T: "policy_of (tables cfg) = fold apply_rule (concat (map line_rules sample_profile)) (policy_of init_tables)"
    and "uint (listening p) = 80" "out_host p = Some (''localhost'', ''99'')" "world_inv w"
    using main_serves [OF n(1,2) h(1) n(3) h(2,3) ls(1,2) g l, of Short WithEq Short] unfolding h(4) by blast
  moreover have "policy_of (tables cfg) (0, 10) = (30, 0)"
    using sample_profile_policy(1) [of "policy_of (tables cfg)"] T by simp
  ultimately show ?thesis
    by blast
qed

end
